(* ===== verification/Prelude.thy ===== *)
theory Prelude
  imports Complex_Main "HOL-Library.Word"
begin

text \<open>
  Shared vocabulary of the development: the fixed-width integers of the sources, the
  outcome of a C, C++ or Rust computation that may exit, abort or run into undefined
  behaviour, the rounding parameter that stands for IEEE arithmetic, and the list and
  word lemmas that the component theories use.
\<close>

unbundle bit_operations_syntax

named_theorems exec_simps \<open>unfolding of the outcome monad\<close>

section \<open>Machine types\<close>

type_synonym u8 = "8 word"
type_synonym u32 = "32 word"
type_synonym u64 = "64 word"

text \<open>
  A floating point value is the rational it denotes, and every operation of the source
  whose result is a floating point value is the exact rational result passed through a
  rounding function. The rounding function is a parameter of the model: the theorems
  hold for round-to-nearest in either precision, and for the identity.
\<close>

type_synonym rounding = "rat \<Rightarrow> rat"

section \<open>Outcomes\<close>

text \<open>
  \<open>Ok x s\<close> is a normal return of \<open>x\<close> in state \<open>s\<close>; \<open>Exit c s\<close> is a call of
  \<open>exit(c)\<close> (the exit handlers still run, so the state is kept); \<open>Abort m\<close> is a
  failed \<open>assert\<close> or a panic; \<open>Undef m\<close> is undefined behaviour of the source language.
\<close>

datatype ('a, 's) exec =
    Ok (result: 'a) (final: 's)
  | Exit int 's
  | Abort string
  | Undef string

fun exec_bind :: "('a, 's) exec \<Rightarrow> ('a \<Rightarrow> 's \<Rightarrow> ('b, 's) exec) \<Rightarrow> ('b, 's) exec" where
  "exec_bind (Ok x s) f = f x s"
| "exec_bind (Exit c s) f = Exit c s"
| "exec_bind (Abort m) f = Abort m"
| "exec_bind (Undef m) f = Undef m"

lemmas [exec_simps] = exec_bind.simps Let_def

lemma exec_bind_eq_Ok [exec_simps]:
  "exec_bind m f = Ok y t \<longleftrightarrow> (\<exists>x s. m = Ok x s \<and> f x s = Ok y t)"
  by (cases m) auto

lemma exec_bind_assoc:
  "exec_bind (exec_bind m f) g = exec_bind m (\<lambda>x s. exec_bind (f x s) g)"
  by (cases m) auto

lemma exec_bind_Ok_right [simp]: "exec_bind m Ok = m"
  by (cases m) auto

lemma exec_bind_Ok_unit [simp]: "exec_bind m (\<lambda>_. Ok ()) = m"
  by (cases m) auto

definition EXIT_FAILURE :: int where
  "EXIT_FAILURE = 1"

section \<open>Buffers\<close>

text \<open>Copying bytes into a buffer.\<close>

definition write_at :: "nat \<Rightarrow> u8 list \<Rightarrow> u8 list \<Rightarrow> u8 list" where
  "write_at off bs buf = take off buf @ bs @ drop (off + length bs) buf"

lemma write_at_length: "off + length bs \<le> length buf \<Longrightarrow> length (write_at off bs buf) = length buf"
  by (simp add: write_at_def)

lemma write_at_nth:
  assumes "off + length bs \<le> length buf" "k < length buf"
  shows "write_at off bs buf ! k = (if off \<le> k \<and> k < off + length bs then bs ! (k - off) else buf ! k)"
  using assms by (auto simp: write_at_def nth_append)

section \<open>Words\<close>

lemma unat_push_or_low:
  fixes lo hi :: "32 word"
  shows "unat (ucast lo OR push_bit 32 (ucast hi) :: 64 word) = unat lo + 2 ^ 32 * unat hi"
proof -
  have lt: "unat lo < 2 ^ 32" "unat hi < 2 ^ 32"
    using unsigned_less [of lo] unsigned_less [of hi] by simp_all
  have disj: "(ucast lo :: 64 word) AND push_bit 32 (ucast hi) = 0"
    by (rule bit_word_eqI) (auto simp: bit_simps dest: bit_imp_le_length)
  then have "ucast lo OR push_bit 32 (ucast hi) = (ucast lo + push_bit 32 (ucast hi) :: 64 word)"
    by (simp add: disjunctive_add_eq_or [symmetric])
  moreover have low: "unat (ucast w :: 64 word) = unat w" for w :: "32 word"
    using order.strict_trans [OF unsigned_less [of w], of "2 ^ 64 :: nat"]
    by (simp add: unsigned_ucast_eq take_bit_nat_eq_self)
  moreover have "unat (push_bit 32 (ucast hi) :: 64 word) = 2 ^ 32 * unat hi"
    using lt by (simp add: push_bit_eq_mult unat_word_ariths low)
  ultimately show ?thesis
    using lt by (simp add: unat_word_ariths)
qed

end
