(* ===== verification/Trace.thy ===== *)
theory Trace
  imports Prelude
begin

text \<open>
  The tracing half of the \<open>rperf\<close> profiler: \<open>src/common/timer.{h,cpp}\<close> and
  \<open>src/common/trace.{h,cpp}\<close> under \<open>rperf/libs/vanilla\<close>. The globals of
  \<open>trace.cpp\<close> are the fields of one record; the two hardware clocks are a parameter
  that gives the value of the k-th reading, and \<open>tick\<close> counts the readings done so far.
\<close>

section \<open>Timers\<close>

text \<open>\<open>class Time\<close>: the tag \<open>type\<close> and the union \<open>value\<close> it selects.\<close>

datatype Time = COUNT u64 | TIME rat

definition Time_default :: Time where
  "Time_default = TIME 0"

record clock =
  tsc :: "nat \<Rightarrow> u32 \<times> u32"
  steady :: "nat \<Rightarrow> int"

definition rdtscp :: "u32 \<Rightarrow> u32 \<Rightarrow> u64" where
  "rdtscp lo hi = (ucast lo OR push_bit 32 (ucast hi))"

definition stamp :: "clock \<Rightarrow> nat \<Rightarrow> u64" where
  "stamp clk k = (let (lo, hi) = tsc clk k in rdtscp lo hi)"

record CPUTimer =
  elapsed_time :: Time
  hz :: u64
  global_start_clock :: u64
  global_start_chrono :: int
  start_clock :: u64

definition CPUTimer_new :: "clock \<Rightarrow> nat \<Rightarrow> CPUTimer" where
  "CPUTimer_new clk k =
     \<lparr>elapsed_time = Time_default, hz = 0, global_start_clock = 0,
      global_start_chrono = steady clk k, start_clock = 0\<rparr>"

definition CPUTimer_start_trace :: "clock \<Rightarrow> nat \<Rightarrow> CPUTimer \<Rightarrow> CPUTimer" where
  "CPUTimer_start_trace clk k t =
     t\<lparr>hz := 0, global_start_clock := stamp clk k, global_start_chrono := steady clk (Suc k)\<rparr>"

text \<open>
  \<open>hz = clocks / nanoseconds * 1000000000.0\<close>: the division and the product are done in
  double precision, the store converts to an unsigned 64-bit integer. A zero duration
  divides by zero and the conversion of the infinite result is undefined, as is the
  conversion of a value that does not fit.
\<close>

definition CPUTimer_end_trace ::
  "rounding \<Rightarrow> clock \<Rightarrow> nat \<Rightarrow> CPUTimer \<Rightarrow> (unit, CPUTimer) exec" where
  "CPUTimer_end_trace fl clk k t =
     (let clocks = stamp clk k - global_start_clock t;
          nanoseconds = fl (of_int (steady clk (Suc k) - global_start_chrono t));
          q = fl (fl (fl (of_nat (unat clocks)) / nanoseconds) * 1000000000)
      in if nanoseconds = 0 then Undef ''hz: division by zero''
         else if q \<le> -1 \<or> 2 ^ 64 \<le> q then Undef ''hz: not representable''
         else Ok () (t\<lparr>hz := word_of_int (if q < 0 then 0 else \<lfloor>q\<rfloor>)\<rparr>))"

definition CPUTimer_start :: "clock \<Rightarrow> nat \<Rightarrow> CPUTimer \<Rightarrow> CPUTimer" where
  "CPUTimer_start clk k t = t\<lparr>start_clock := stamp clk k\<rparr>"

definition CPUTimer_stop :: "clock \<Rightarrow> nat \<Rightarrow> CPUTimer \<Rightarrow> CPUTimer" where
  "CPUTimer_stop clk k t = t\<lparr>elapsed_time := COUNT (stamp clk k - start_clock t)\<rparr>"

definition counts_2_us :: "rounding \<Rightarrow> CPUTimer \<Rightarrow> u64 \<Rightarrow> rat option" where
  "counts_2_us fl t counts =
     (if hz t = 0 then None
      else Some (fl (fl (of_nat (unat counts)) * fl (1000000 / fl (of_nat (unat (hz t)))))))"

section \<open>The tracer\<close>

record APIRecord =
  api_name :: string
  interval :: Time

record trace_state =
  on_trace :: int
  on_separate_kernel_wrapper :: int
  cpu_timer :: CPUTimer
  last_return_ts :: u64
  rperf_log_path :: string
  api_dict :: "string \<rightharpoonup> int"
  api_records :: "APIRecord list"
  gaps :: "Time list"
  tick :: nat

definition startTrace :: "clock \<Rightarrow> string option \<Rightarrow> 'a trace_state_scheme \<Rightarrow> 'a trace_state_scheme" where
  "startTrace clk env_var s =
     (let s1 = s\<lparr>on_trace := 1, rperf_log_path := ''vanilla_rperf.log''\<rparr>;
          s2 = (if env_var = Some ''1'' \<or> env_var = Some ''on'' \<or> env_var = Some ''ON''
                then s1\<lparr>on_separate_kernel_wrapper := 1, rperf_log_path := ''''\<rparr>
                else s1)
      in s2\<lparr>cpu_timer := CPUTimer_start_trace clk (tick s) (cpu_timer s2),
            last_return_ts := stamp clk (tick s + 2), tick := tick s + 3\<rparr>)"

definition endTrace ::
  "rounding \<Rightarrow> clock \<Rightarrow> 'a trace_state_scheme \<Rightarrow> (unit, 'a trace_state_scheme) exec" where
  "endTrace fl clk s =
     (case CPUTimer_end_trace fl clk (tick s) (cpu_timer s) of
        Ok _ t \<Rightarrow> Ok () (s\<lparr>on_separate_kernel_wrapper := 0, cpu_timer := t, on_trace := 0,
                          tick := tick s + 2\<rparr>)
      | Exit c t \<Rightarrow> Exit c (s\<lparr>cpu_timer := t\<rparr>)
      | Abort m \<Rightarrow> Abort m
      | Undef m \<Rightarrow> Undef m)"

text \<open>
  \<open>TraceProfile\<close>: the constructor returns the member \<open>api_name\<close>, which stays empty when
  tracing is off, and the destructor takes it.
\<close>

definition TraceProfile ::
  "clock \<Rightarrow> string \<Rightarrow> 'a trace_state_scheme \<Rightarrow> string \<times> 'a trace_state_scheme" where
  "TraceProfile clk name s =
     (if on_trace s = 0 then ('''', s)
      else (name, s\<lparr>gaps := gaps s @ [COUNT (stamp clk (tick s) - last_return_ts s)],
                    cpu_timer := CPUTimer_start clk (Suc (tick s)) (cpu_timer s),
                    tick := tick s + 2\<rparr>))"

definition TraceProfile_dtor ::
  "clock \<Rightarrow> string \<Rightarrow> 'a trace_state_scheme \<Rightarrow> 'a trace_state_scheme" where
  "TraceProfile_dtor clk name s =
     (if on_trace s = 0 then s
      else (let t = CPUTimer_stop clk (tick s) (cpu_timer s)
            in s\<lparr>cpu_timer := t,
                 api_records := api_records s @ [\<lparr>api_name = name, interval = elapsed_time t\<rparr>],
                 last_return_ts := stamp clk (Suc (tick s)), tick := tick s + 2\<rparr>))"

subsection \<open>Start-up and shutdown\<close>

definition add_api :: "int \<Rightarrow> string \<Rightarrow> (string \<rightharpoonup> int) \<Rightarrow> (string \<rightharpoonup> int)" where
  "add_api api_id name d = d(name \<mapsto> api_id)"

definition traced_apis :: "string list" where
  "traced_apis =
  [''__cudaPushCallConfiguration'',
   ''__cudaPopCallConfiguration'',
   ''__cudaRegisterFatBinary'',
   ''__cudaRegisterFatBinaryEnd'',
   ''__cudaRegisterFunction'',
   ''__cudaRegisterVar'',
   ''__cudaUnregisterFatBinary'',
   ''cuDevicePrimaryCtxGetState'',
   ''cublasCreate_v2'',
   ''cublasGemmEx'',
   ''cublasGemmStridedBatchedEx'',
   ''cublasGetMathMode'',
   ''cublasSetMathMode'',
   ''cublasSetStream_v2'',
   ''cublasSgemmStridedBatched'',
   ''cublasSgemm_v2'',
   ''cudaDeviceGetAttribute'',
   ''cudaFuncGetAttributes'',
   ''cudaFree'',
   ''cudaGetDevice'',
   ''cudaGetDeviceCount'',
   ''cudaGetDeviceProperties'',
   ''cudaGetLastError'',
   ''cudaHostAlloc'',
   ''cudaLaunchKernel'',
   ''cudaMalloc'',
   ''cudaMemcpyAsyncHostToDevice'',
   ''cudaMemcpyAsyncDeviceToHost'',
   ''cudaMemcpyAsyncDeviceToDevice'',
   ''cudaMemsetAsync'',
   ''cudaOccupancyMaxActiveBlocksPerMultiprocessorWithFlags'',
   ''cudaPeekAtLastError'',
   ''cudaPointerGetAttributes'',
   ''cudaSetDevice'',
   ''cudaStreamIsCapturing'',
   ''cudaStreamSynchronize'',
   ''cudnnBatchNormalizationBackwardEx'',
   ''cudnnBatchNormalizationForwardInference'',
   ''cudnnBatchNormalizationForwardTrainingEx'',
   ''cudnnConvolutionBackwardData'',
   ''cudnnConvolutionBackwardFilter'',
   ''cudnnConvolutionForward'',
   ''cudnnCreate'',
   ''cudnnCreateConvolutionDescriptor'',
   ''cudnnCreateFilterDescriptor'',
   ''cudnnCreateTensorDescriptor'',
   ''cudnnDestroyConvolutionDescriptor'',
   ''cudnnDestroyFilterDescriptor'',
   ''cudnnDestroyTensorDescriptor'',
   ''cudnnGetBatchNormalizationBackwardExWorkspaceSize'',
   ''cudnnGetBatchNormalizationForwardTrainingExWorkspaceSize'',
   ''cudnnGetBatchNormalizationTrainingExReserveSpaceSize'',
   ''cudnnGetConvolutionBackwardDataAlgorithm_v7'',
   ''cudnnGetConvolutionBackwardFilterAlgorithm_v7'',
   ''cudnnGetConvolutionForwardAlgorithm_v7'',
   ''cudnnInitTransformDest'',
   ''cudnnSetConvolutionGroupCount'',
   ''cudnnSetConvolutionMathType'',
   ''cudnnSetConvolutionNdDescriptor'',
   ''cudnnSetFilterNdDescriptor'',
   ''cudnnSetStream'',
   ''cudnnSetTensorNdDescriptor'',
   ''cudnnSetTensorNdDescriptorEx'',
   ''cudnnSetTensorTransformDescriptor'',
   ''nvmlDeviceGetCount_v2'',
   ''nvmlInitWithFlags'',
   ''nvmlInit_v2'']"

text \<open>The calls \<open>add_api(++id, name)\<close> of \<open>trace_init\<close>, in their order.\<close>

fun add_apis :: "int \<Rightarrow> string list \<Rightarrow> (string \<rightharpoonup> int) \<Rightarrow> (string \<rightharpoonup> int)" where
  "add_apis i [] d = d"
| "add_apis i (n # ns) d = add_apis (i + 1) ns (add_api (i + 1) n d)"

definition trace_init :: "'a trace_state_scheme \<Rightarrow> 'a trace_state_scheme" where
  "trace_init s = s\<lparr>api_dict := add_apis 0 traced_apis Map.empty, api_records := [], gaps := []\<rparr>"

fun conv_time :: "rounding \<Rightarrow> CPUTimer \<Rightarrow> Time \<Rightarrow> Time option" where
  "conv_time fl t (COUNT c) = map_option TIME (counts_2_us fl t c)"
| "conv_time fl t (TIME x) = Some (TIME x)"

fun conv_times :: "rounding \<Rightarrow> CPUTimer \<Rightarrow> Time list \<Rightarrow> Time list option" where
  "conv_times fl t [] = Some []"
| "conv_times fl t (x # xs) =
     (case conv_time fl t x of None \<Rightarrow> None
      | Some y \<Rightarrow> map_option ((#) y) (conv_times fl t xs))"

fun time_us :: "Time \<Rightarrow> rat" where
  "time_us (TIME x) = x"
| "time_us (COUNT c) = 0"

text \<open>
  What \<open>print_traces\<close> writes: the rows of the log file and the two totals. Nothing is
  written when the path is empty. Every value is a \<open>TIME\<close> at this point, so the
  assertion of \<open>operator<<\<close> holds and \<open>time_us\<close> reads the active member of the union.
\<close>

record trace_log =
  log_path :: string
  log_rows :: "(string \<times> rat \<times> rat) list"
  total_exe_time :: rat
  total_gap_time :: rat

definition sum_time :: "rounding \<Rightarrow> rat list \<Rightarrow> rat" where
  "sum_time fl xs = foldl (\<lambda>acc x. fl (acc + x)) 0 xs"

definition print_traces ::
  "rounding \<Rightarrow> 'a trace_state_scheme \<Rightarrow> (trace_log option, 'a trace_state_scheme) exec" where
  "print_traces fl s =
     (case conv_times fl (cpu_timer s) (map interval (api_records s)) of
        None \<Rightarrow> Abort ''hz != 0''
      | Some its \<Rightarrow>
          (case conv_times fl (cpu_timer s) (gaps s) of
             None \<Rightarrow> Abort ''hz != 0''
           | Some gps \<Rightarrow>
               (let s' = s\<lparr>api_records := map2 (\<lambda>r t. r\<lparr>interval := t\<rparr>) (api_records s) its,
                          gaps := gps\<rparr>
                in if rperf_log_path s = '''' then Ok None s'
                   else if length gps < length its then Abort ''vector::at''
                   else Ok (Some \<lparr>log_path = rperf_log_path s,
                                   log_rows = zip (map api_name (api_records s))
                                                  (zip (map time_us its) (map time_us gps)),
                                   total_exe_time = sum_time fl (map time_us its),
                                   total_gap_time =
                                     sum_time fl (map time_us (take (length its) gps))\<rparr>) s')))"

definition trace_deinit ::
  "rounding \<Rightarrow> 'a trace_state_scheme \<Rightarrow> (trace_log option, 'a trace_state_scheme) exec" where
  "trace_deinit fl s =
     (if length (api_records s) \<noteq> length (gaps s) then Abort ''api_records->size() == gaps->size()''
      else exec_bind (print_traces fl s)
             (\<lambda>lg s'. Ok lg (s'\<lparr>api_dict := Map.empty, api_records := [], gaps := []\<rparr>)))"

section \<open>Runs of the traced program\<close>

text \<open>
  What the traced program does, as seen by the tracer: calls of hooked functions, which
  may call further hooked functions before they return, and the two toggles.
\<close>

datatype action =
    Api string "action list"
  | StartTrace "string option"
  | EndTrace

fun run_action :: "rounding \<Rightarrow> clock \<Rightarrow> action \<Rightarrow> 'a trace_state_scheme \<Rightarrow> (unit, 'a trace_state_scheme) exec"
and run_actions :: "rounding \<Rightarrow> clock \<Rightarrow> action list \<Rightarrow> 'a trace_state_scheme \<Rightarrow> (unit, 'a trace_state_scheme) exec"
where
  "run_action fl clk (Api name body) s =
     (let (nm, s1) = TraceProfile clk name s
      in exec_bind (run_actions fl clk body s1) (\<lambda>_ s2. Ok () (TraceProfile_dtor clk nm s2)))"
| "run_action fl clk (StartTrace v) s = Ok () (startTrace clk v s)"
| "run_action fl clk EndTrace s = endTrace fl clk s"
| "run_actions fl clk [] s = Ok () s"
| "run_actions fl clk (a # as) s =
     exec_bind (run_action fl clk a s) (\<lambda>_ s1. run_actions fl clk as s1)"

text \<open>No toggle inside a call.\<close>

fun quiet :: "action \<Rightarrow> bool" where
  "quiet (Api name body) = list_all quiet body"
| "quiet (StartTrace v) = False"
| "quiet EndTrace = False"

fun well_bracketed :: "action \<Rightarrow> bool" where
  "well_bracketed (Api name body) = list_all quiet body"
| "well_bracketed (StartTrace v) = True"
| "well_bracketed EndTrace = True"

text \<open>The names of the calls of an action, in the order in which they return.\<close>

fun returns :: "action \<Rightarrow> string list" where
  "returns (Api name body) = concat (map returns body) @ [name]"
| "returns (StartTrace v) = []"
| "returns EndTrace = []"

section \<open>Lemmas\<close>

lemma TraceProfile_off [simp]: "on_trace s = 0 \<Longrightarrow> TraceProfile clk name s = ('''', s)"
  by (simp add: TraceProfile_def)

lemma TraceProfile_dtor_off [simp]: "on_trace s = 0 \<Longrightarrow> TraceProfile_dtor clk name s = s"
  by (simp add: TraceProfile_dtor_def)

lemma TraceProfile_on:
  assumes "on_trace s \<noteq> 0" and "TraceProfile clk name s = (nm, s')"
  shows "nm = name" "on_trace s' = on_trace s" "api_records s' = api_records s"
    "\<exists>c. gaps s' = gaps s @ [COUNT c]"
    "cpu_timer s' = CPUTimer_start clk (Suc (tick s)) (cpu_timer s)"
    "rperf_log_path s' = rperf_log_path s"
  using assms by (auto simp: TraceProfile_def)

lemma TraceProfile_dtor_on:
  assumes "on_trace s \<noteq> 0"
  shows "on_trace (TraceProfile_dtor clk name s) = on_trace s"
    "gaps (TraceProfile_dtor clk name s) = gaps s"
    "\<exists>c. api_records (TraceProfile_dtor clk name s)
          = api_records s @ [\<lparr>api_name = name, interval = COUNT c\<rparr>]"
    "hz (cpu_timer (TraceProfile_dtor clk name s)) = hz (cpu_timer s)"
    "rperf_log_path (TraceProfile_dtor clk name s) = rperf_log_path s"
  using assms by (auto simp: TraceProfile_dtor_def CPUTimer_stop_def Let_def)

text \<open>What a run of calls without toggles does, tracing off and tracing on.\<close>

lemma run_quiet_off:
  "quiet a \<Longrightarrow> on_trace s = 0 \<Longrightarrow> run_action fl clk a s = Ok () s"
  "list_all quiet as \<Longrightarrow> on_trace s = 0 \<Longrightarrow> run_actions fl clk as s = Ok () s"
  by (induction fl clk a s and fl clk as s rule: run_action_run_actions.induct) auto

definition counted :: "string \<Rightarrow> u64 \<Rightarrow> APIRecord" where
  "counted name c = \<lparr>api_name = name, interval = COUNT c\<rparr>"

lemma counted_simps [simp]: "api_name (counted n c) = n" "interval (counted n c) = COUNT c"
  by (simp_all add: counted_def)

definition grown :: "string list \<Rightarrow> 'a trace_state_scheme \<Rightarrow> 'a trace_state_scheme \<Rightarrow> bool" where
  "grown names s s' \<longleftrightarrow>
     on_trace s' = on_trace s \<and>
     (\<exists>cs. length cs = length names \<and> api_records s' = api_records s @ map2 counted names cs) \<and>
     (\<exists>gs. length gs = length names \<and> gaps s' = gaps s @ map COUNT gs) \<and>
     hz (cpu_timer s') = hz (cpu_timer s) \<and> rperf_log_path s' = rperf_log_path s"

lemma grownI:
  assumes "on_trace s' = on_trace s" "hz (cpu_timer s') = hz (cpu_timer s)"
    "rperf_log_path s' = rperf_log_path s"
    "length cs = length names" "api_records s' = api_records s @ map2 counted names cs"
    "length gs = length names" "gaps s' = gaps s @ map COUNT gs"
  shows "grown names s s'"
  using assms by (auto simp: grown_def)

lemma grown_refl [simp]: "grown [] s s"
  by (simp add: grown_def)

lemma grown_trans:
  assumes "grown xs s t" and "grown ys t u"
  shows "grown (xs @ ys) s u"
proof -
  obtain cs gs where 1: "length cs = length xs" "api_records t = api_records s @ map2 counted xs cs"
    "length gs = length xs" "gaps t = gaps s @ map COUNT gs"
    using assms(1) by (auto simp: grown_def)
  obtain cs' gs' where 2: "length cs' = length ys" "api_records u = api_records t @ map2 counted ys cs'"
    "length gs' = length ys" "gaps u = gaps t @ map COUNT gs'"
    using assms(2) by (auto simp: grown_def)
  show ?thesis
    by (rule grownI [where cs = "cs @ cs'" and gs = "gs @ gs'"])
      (use 1 2 assms in \<open>simp_all add: grown_def\<close>)
qed

lemma grown_on: "grown xs s t \<Longrightarrow> on_trace s \<noteq> 0 \<Longrightarrow> on_trace t \<noteq> 0"
  by (simp add: grown_def)

lemma grown_names:
  assumes "grown xs s t"
  shows "map api_name (api_records t) = map api_name (api_records s) @ xs"
    "length (gaps t) = length (gaps s) + length xs"
    "length (api_records t) = length (api_records s) + length xs"
proof -
  have "map api_name (map2 counted ns cs) = ns" if "length cs = length ns" for ns :: "string list" and cs
    using that by (induction cs ns rule: list_induct2) auto
  then show "map api_name (api_records t) = map api_name (api_records s) @ xs"
    using assms by (auto simp: grown_def)
qed (use assms in \<open>auto simp: grown_def\<close>)

lemma grown_call:
  assumes on: "on_trace s \<noteq> 0" and tp: "TraceProfile clk name s = (nm, s1)"
    and body: "grown xs s1 s2"
  shows "grown (xs @ [name]) s (TraceProfile_dtor clk nm s2)"
proof -
  note ctor = TraceProfile_on [OF on tp]
  have on2: "on_trace s2 \<noteq> 0" using body on ctor(2) by (simp add: grown_def)
  note dtor = TraceProfile_dtor_on [OF on2, of clk nm]
  obtain g where g: "gaps s1 = gaps s @ [COUNT g]" using ctor(4) by blast
  obtain c where c: "api_records (TraceProfile_dtor clk nm s2) = api_records s2 @ [counted name c]"
    using dtor(3) ctor(1) by (auto simp: counted_def)
  obtain cs gs where b: "length cs = length xs" "api_records s2 = api_records s1 @ map2 counted xs cs"
    "length gs = length xs" "gaps s2 = gaps s1 @ map COUNT gs"
    "on_trace s2 = on_trace s1" "hz (cpu_timer s2) = hz (cpu_timer s1)"
    "rperf_log_path s2 = rperf_log_path s1"
    using body by (auto simp: grown_def)
  show ?thesis
    by (rule grownI [where cs = "cs @ [c]" and gs = "g # gs"])
      (simp_all add: b c g ctor(2,3,5,6) dtor(1,2,4,5) CPUTimer_start_def)
qed

lemma run_quiet_on:
  "quiet a \<Longrightarrow> on_trace s \<noteq> 0 \<Longrightarrow> \<exists>s'. run_action fl clk a s = Ok () s' \<and> grown (returns a) s s'"
  "list_all quiet as \<Longrightarrow> on_trace s \<noteq> 0 \<Longrightarrow>
     \<exists>s'. run_actions fl clk as s = Ok () s' \<and> grown (concat (map returns as)) s s'"
proof (induction fl clk a s and fl clk as s rule: run_action_run_actions.induct)
  case (1 fl clk name body s)
  obtain nm s1 where tp: "TraceProfile clk name s = (nm, s1)" by fastforce
  then have "on_trace s1 \<noteq> 0" using "1.prems" TraceProfile_on(2) [OF _ tp] by simp
  then obtain s2 where "run_actions fl clk body s1 = Ok () s2"
    and "grown (concat (map returns body)) s1 s2"
    using "1.IH" tp "1.prems" by force
  then show ?case
    using grown_call [OF "1.prems"(2) tp] tp by auto
next
  case (5 fl clk a as s)
  then obtain s1 where s1: "run_action fl clk a s = Ok () s1" "grown (returns a) s s1" by auto
  then have "on_trace s1 \<noteq> 0" using "5.prems"(2) grown_on by blast
  then obtain s2 where "run_actions fl clk as s1 = Ok () s2" "grown (concat (map returns as)) s1 s2"
    using "5.IH"(2) "5.prems"(1) by auto
  then show ?case using s1 by (auto intro: grown_trans)
qed auto


lemma conv_times_Some:
  "hz t \<noteq> 0 \<Longrightarrow> \<exists>ys. conv_times fl t xs = Some ys \<and> length ys = length xs"
proof (induction xs)
  case (Cons x xs)
  then show ?case by (cases x) (auto simp: counts_2_us_def)
qed simp

lemma conv_times_None:
  "hz t = 0 \<Longrightarrow> COUNT c \<in> set xs \<Longrightarrow> conv_times fl t xs = None"
proof (induction xs)
  case (Cons x xs)
  then show ?case by (cases x) (auto simp: counts_2_us_def split: option.splits)
qed simp

lemma startTrace_simps [simp]:
  "on_trace (startTrace clk v s) = 1" "api_records (startTrace clk v s) = api_records s"
  "gaps (startTrace clk v s) = gaps s" "hz (cpu_timer (startTrace clk v s)) = 0"
  by (simp_all add: startTrace_def CPUTimer_start_trace_def Let_def)

lemma endTrace_Ok:
  "endTrace fl clk s = Ok u s' \<Longrightarrow>
     on_trace s' = 0 \<and> api_records s' = api_records s \<and> gaps s' = gaps s
     \<and> rperf_log_path s' = rperf_log_path s"
  by (auto simp: endTrace_def split: exec.splits)

lemma run_actions_Nil [simp]: "run_actions fl clk [] = Ok ()"
  by (rule ext) simp

lemma run_actions_append:
  "run_actions fl clk (as @ bs) s = exec_bind (run_actions fl clk as s) (\<lambda>_ s'. run_actions fl clk bs s')"
proof (induction as arbitrary: s)
  case (Cons a as)
  show ?case by (cases "run_action fl clk a s") (simp_all add: Cons.IH)
qed simp

definition balanced :: "'a trace_state_scheme \<Rightarrow> bool" where
  "balanced s \<longleftrightarrow> length (api_records s) = length (gaps s)"

lemma balanced_grown: "grown xs s t \<Longrightarrow> balanced s \<Longrightarrow> balanced t"
  by (simp add: balanced_def grown_names)

lemma well_bracketed_quiet: "well_bracketed (Api n b) \<Longrightarrow> quiet (Api n b)"
  by simp

lemma run_action_balanced:
  assumes "well_bracketed a" "balanced s" "run_action fl clk a s = Ok u s'"
  shows "balanced s'"
proof (cases a)
  case (Api n b)
  show ?thesis
  proof (cases "on_trace s = 0")
    case True
    then show ?thesis using run_quiet_off(1) [of a s fl clk] assms Api by auto
  next
    case False
    then show ?thesis using run_quiet_on(1) [of a s fl clk] assms Api balanced_grown by fastforce
  qed
qed (use assms in \<open>auto simp: balanced_def dest: endTrace_Ok\<close>)

lemma run_actions_balanced:
  "list_all well_bracketed as \<Longrightarrow> balanced s \<Longrightarrow> run_actions fl clk as s = Ok u s' \<Longrightarrow> balanced s'"
proof (induction as arbitrary: s)
  case (Cons a as)
  then obtain s1 where "run_action fl clk a s = Ok () s1" "run_actions fl clk as s1 = Ok u s'"
    by (auto simp: exec_simps)
  then show ?case using Cons run_action_balanced by fastforce
qed simp

lemma run_quiet_from_start:
  assumes "list_all quiet as"
  shows "\<exists>s1. run_actions fl clk (StartTrace v # as) s = Ok () s1
    \<and> grown (concat (map returns as)) (startTrace clk v s) s1"
  using run_quiet_on(2) [OF assms, of "startTrace clk v s" fl clk] by simp

lemma trace_deinit_no_log:
  assumes "balanced s" "hz (cpu_timer s) \<noteq> 0" "rperf_log_path s = ''''"
  shows "\<exists>t. trace_deinit fl s = Ok None t"
  using assms conv_times_Some [of "cpu_timer s" fl "map interval (api_records s)"]
    conv_times_Some [of "cpu_timer s" fl "gaps s"]
  by (auto simp: trace_deinit_def print_traces_def balanced_def exec_simps)

lemma trace_deinit_log:
  assumes "balanced s" "hz (cpu_timer s) \<noteq> 0" "rperf_log_path s \<noteq> ''''"
  shows "\<exists>l t. trace_deinit fl s = Ok (Some l) t \<and> log_path l = rperf_log_path s
    \<and> map fst (log_rows l) = map api_name (api_records s)"
  using assms conv_times_Some [of "cpu_timer s" fl "map interval (api_records s)"]
    conv_times_Some [of "cpu_timer s" fl "gaps s"]
  by (auto simp: trace_deinit_def print_traces_def balanced_def exec_simps)

lemma startTrace_path:
  "rperf_log_path (startTrace clk v s)
     = (if v = Some ''1'' \<or> v = Some ''on'' \<or> v = Some ''ON'' then '''' else ''vanilla_rperf.log'')"
  by (simp add: startTrace_def Let_def)

subsection \<open>The time the profile accounts for\<close>

fun clocks_of :: "Time \<Rightarrow> nat" where
  "clocks_of (COUNT c) = unat c"
| "clocks_of (TIME x) = 0"

definition reported :: "'a trace_state_scheme \<Rightarrow> nat" where
  "reported s = sum_list (map (clocks_of \<circ> interval) (api_records s)) + sum_list (map clocks_of (gaps s))"

definition monotone_clock :: "clock \<Rightarrow> bool" where
  "monotone_clock clk \<longleftrightarrow> (\<forall>i. stamp clk i \<le> stamp clk (Suc i))"

lemma unat_diff_mono: "(a :: u64) \<le> b \<Longrightarrow> unat (b - a) = unat b - unat a"
  by (simp add: unat_sub)

lemma flat_call_reported:
  assumes mono: "monotone_clock clk" and on: "on_trace s \<noteq> 0"
    and last: "last_return_ts s \<le> stamp clk (tick s)"
    and run: "run_action fl clk (Api n []) s = Ok u s'"
  shows "reported s' + unat (last_return_ts s) \<le> reported s + unat (last_return_ts s')
    \<and> on_trace s' \<noteq> 0 \<and> last_return_ts s' \<le> stamp clk (tick s')"
proof -
  let ?T = "\<lambda>k. stamp clk (tick s + k)"
  have step: "?T k \<le> ?T (Suc k)" for k using mono by (simp add: monotone_clock_def)
  have le: "unat (last_return_ts s) \<le> unat (?T 0)" "unat (?T 0) \<le> unat (?T 1)"
    "unat (?T 1) \<le> unat (?T 2)" "unat (?T 2) \<le> unat (?T 3)"
    using last step [of 0] step [of 1] step [of 2] by (simp_all add: word_le_nat_alt numeral_eq_Suc)
  have "reported s' = reported s + unat (?T 0 - last_return_ts s) + unat (?T 2 - ?T 1)"
    "last_return_ts s' = ?T 3" "on_trace s' = on_trace s" "tick s' = tick s + 4"
    using run on by (auto simp: TraceProfile_def TraceProfile_dtor_def CPUTimer_start_def
        CPUTimer_stop_def reported_def Let_def numeral_eq_Suc)
  moreover have "?T 3 \<le> ?T 4" using step [of 3] by (simp add: numeral_eq_Suc)
  ultimately show ?thesis
    using le on last step [of 1] by (simp add: unat_diff_mono numeral_eq_Suc)
qed

section \<open>Properties\<close>

text \<open>
  C26. A complete tracing session: start the tracer, make any calls (nested or not, without
  toggling inside a call), stop the tracer. If the measured frequency is not zero, the
  exit handler \<open>trace_deinit\<close> succeeds; it writes no log exactly when the environment
  asked for kernel-wrapper separation, and otherwise the log has one row per call, in the
  order in which the calls returned.
\<close>

theorem trace_session_log:
  assumes "list_all quiet as"
    and run: "run_actions fl clk (StartTrace v # as @ [EndTrace]) (trace_init s) = Ok u s'"
    and hz: "hz (cpu_timer s') \<noteq> 0"
  shows "if v = Some ''1'' \<or> v = Some ''on'' \<or> v = Some ''ON''
    then (\<exists>t. trace_deinit fl s' = Ok None t)
    else (\<exists>l t. trace_deinit fl s' = Ok (Some l) t \<and> log_path l = ''vanilla_rperf.log''
            \<and> map fst (log_rows l) = concat (map returns as))"
proof -
  obtain s1 where s1: "run_actions fl clk (StartTrace v # as) (trace_init s) = Ok () s1"
    "grown (concat (map returns as)) (startTrace clk v (trace_init s)) s1"
    using run_quiet_from_start [OF assms(1)] by blast
  then have "endTrace fl clk s1 = Ok () s'"
    using run run_actions_append [of fl clk "StartTrace v # as" "[EndTrace]" "trace_init s"]
    by (auto simp: exec_simps)
  then have e: "api_records s' = api_records s1" "gaps s' = gaps s1"
    "rperf_log_path s' = rperf_log_path s1"
    by (auto dest: endTrace_Ok)
  have g: "map api_name (api_records s1) = concat (map returns as)"
    "length (gaps s1) = length (concat (map returns as))" "length (api_records s1) = length (gaps s1)"
    using grown_names [OF s1(2)] by (simp_all add: trace_init_def)
  have p: "rperf_log_path s' = rperf_log_path (startTrace clk v (trace_init s))"
    using s1(2) e by (simp add: grown_def)
  have b: "balanced s'" using e g by (simp add: balanced_def)
  show ?thesis
    using trace_deinit_no_log [OF b hz, of fl] trace_deinit_log [OF b hz, of fl] e(1) g(1) p
    by (cases "rperf_log_path s' = ''''") (simp_all add: startTrace_path split: if_splits)
qed

definition clock0 :: clock where
  "clock0 = \<lparr>tsc = (\<lambda>k. (of_nat (10 * k), 0)), steady = (\<lambda>k. int (5 * k))\<rparr>"

definition trace0 :: trace_state where
  "trace0 = \<lparr>on_trace = 0, on_separate_kernel_wrapper = 0, cpu_timer = CPUTimer_new clock0 0,
     last_return_ts = 0, rperf_log_path = '''', api_dict = Map.empty, api_records = [], gaps = [],
     tick = 1\<rparr>"

lemmas trace_eval = clock0_def trace0_def CPUTimer_new_def startTrace_def endTrace_def
  CPUTimer_start_trace_def CPUTimer_end_trace_def CPUTimer_start_def CPUTimer_stop_def
  TraceProfile_def TraceProfile_dtor_def trace_init_def stamp_def rdtscp_def Let_def Time_default_def

theorem trace_session_log_witness:
  "\<exists>s' l t. run_actions id clock0 [StartTrace None, Api ''cudaMalloc'' [Api ''cudaFree'' []], EndTrace]
       (trace_init trace0) = Ok () s'
     \<and> trace_deinit id s' = Ok (Some l) t \<and> map fst (log_rows l) = [''cudaFree'', ''cudaMalloc'']"
proof -
  obtain s' where r: "run_actions id clock0
      (StartTrace None # [Api ''cudaMalloc'' [Api ''cudaFree'' []]] @ [EndTrace]) (trace_init trace0) = Ok () s'"
    and h: "hz (cpu_timer s') \<noteq> 0"
    by (simp add: trace_eval)
  show ?thesis
    using trace_session_log [OF _ r h] r by auto
qed

text \<open>
  C38. Tracing that is never stopped: if the process exits between \<open>startTrace\<close> and
  \<open>endTrace\<close> after at least one traced call, the exit handler aborts, because the
  frequency is still zero when \<open>counts_2_us\<close> asserts it is not.
\<close>

theorem trace_never_ended_aborts:
  assumes "list_all quiet as" and "as \<noteq> []" and "api_records s = []" and "gaps s = []"
    and run: "run_actions fl clk (StartTrace v # as) s = Ok u s'"
  shows "trace_deinit fl s' = Abort ''hz != 0''"
proof -
  have g: "grown (concat (map returns as)) (startTrace clk v s) s'"
    using run_quiet_from_start [OF assms(1), of fl clk v s] run by auto
  obtain a bs where as: "as = a # bs" using assms(2) by (cases as) auto
  moreover obtain n b where "a = Api n b" using assms(1) as by (cases a) auto
  ultimately have ne: "concat (map returns as) \<noteq> []" by simp
  obtain cs where cs: "length cs = length (concat (map returns as))"
    "api_records s' = map2 counted (concat (map returns as)) cs"
    using g assms(3) by (auto simp: grown_def)
  then obtain c cs' where "cs = c # cs'" using ne by (cases cs) auto
  moreover obtain m ms where "concat (map returns as) = m # ms"
    using ne by (cases "concat (map returns as)") auto
  ultimately have "COUNT c \<in> set (map interval (api_records s'))" using cs(2) by simp
  moreover have "hz (cpu_timer s') = 0" using g by (simp add: grown_def)
  moreover have "length (api_records s') = length (gaps s')"
    using grown_names [OF g] assms(3,4) by simp
  ultimately show ?thesis
    using conv_times_None [of "cpu_timer s'" c "map interval (api_records s')" fl]
    by (simp add: trace_deinit_def print_traces_def)
qed

theorem trace_never_ended_aborts_witness:
  "\<exists>s'. run_actions id clock0 [StartTrace None, Api ''cudaMalloc'' []] trace0 = Ok () s'
     \<and> trace_deinit id s' = Abort ''hz != 0''"
proof -
  obtain s' where r: "run_actions id clock0 (StartTrace None # [Api ''cudaMalloc'' []]) trace0 = Ok () s'"
    by (simp add: trace_eval)
  have "api_records trace0 = []" "gaps trace0 = []" by (simp_all add: trace0_def)
  then show ?thesis using trace_never_ended_aborts [OF _ _ _ _ r] r by auto
qed

text \<open>
  A toggle inside a call breaks the bookkeeping: a call that stops the tracer leaves a
  gap without a record, a call that starts it leaves a record (with an empty name) without
  a gap, and in both cases the exit handler's size assertion fails.
\<close>

theorem toggle_inside_call_aborts:
  assumes bal: "balanced s"
    and run: "run_action fl clk (Api n [toggle]) s = Ok u s'"
    and t: "toggle = EndTrace \<and> on_trace s \<noteq> 0 \<or> toggle = StartTrace v \<and> on_trace s = 0"
  shows "trace_deinit fl s' = Abort ''api_records->size() == gaps->size()''"
proof -
  have "length (api_records s') \<noteq> length (gaps s')"
    using t
  proof
    assume "toggle = EndTrace \<and> on_trace s \<noteq> 0"
    then obtain s2 where e: "endTrace fl clk (snd (TraceProfile clk n s)) = Ok () s2"
      and s': "s' = TraceProfile_dtor clk n s2"
      using run by (auto simp: exec_simps TraceProfile_def)
    then show ?thesis
      using endTrace_Ok [OF e] bal \<open>toggle = EndTrace \<and> on_trace s \<noteq> 0\<close>
      by (simp add: TraceProfile_def balanced_def)
  next
    assume "toggle = StartTrace v \<and> on_trace s = 0"
    then show ?thesis
      using run bal by (auto simp: TraceProfile_dtor_def balanced_def Let_def)
  qed
  then show ?thesis by (simp add: trace_deinit_def)
qed

theorem toggle_inside_call_aborts_witness:
  "\<exists>s'. run_action id clock0 (Api ''cudaFree'' [StartTrace None]) trace0 = Ok () s'
     \<and> trace_deinit id s' = Abort ''api_records->size() == gaps->size()''"
proof -
  obtain s' where r: "run_action id clock0 (Api ''cudaFree'' [StartTrace None]) trace0 = Ok () s'"
    by (simp add: trace_eval)
  have "balanced trace0" by (simp add: trace0_def balanced_def)
  then show ?thesis
    using toggle_inside_call_aborts [OF _ r, of None] r by (auto simp: trace0_def)
qed

text \<open>
  C27. Toggles between calls are always safe: from a fresh tracer, whatever sequence of
  calls and toggles is run, as long as no call contains a toggle, there is one gap per
  record, so the exit handler's size assertion holds.
\<close>

theorem well_bracketed_run_balanced:
  assumes "list_all well_bracketed as" and "run_actions fl clk as (trace_init s) = Ok u s'"
  shows "length (api_records s') = length (gaps s')
    \<and> trace_deinit fl s' \<noteq> Abort ''api_records->size() == gaps->size()''"
proof -
  have "balanced (trace_init s)" by (simp add: balanced_def trace_init_def)
  then have b: "balanced s'" using assms by (auto intro: run_actions_balanced)
  then show ?thesis
    by (auto simp: balanced_def trace_deinit_def print_traces_def Let_def exec_simps
        split: option.splits if_splits)
qed

theorem well_bracketed_run_balanced_witness:
  "\<exists>s'. run_actions id clock0 [Api ''a'' [], StartTrace None, Api ''b'' [Api ''c'' []], EndTrace, Api ''d'' []]
       (trace_init trace0) = Ok () s' \<and> length (api_records s') = length (gaps s')"
proof -
  have w: "list_all well_bracketed
      [Api ''a'' [], StartTrace None, Api ''b'' [Api ''c'' []], EndTrace, Api ''d'' []]" by simp
  obtain s' where r: "run_actions id clock0
      [Api ''a'' [], StartTrace None, Api ''b'' [Api ''c'' []], EndTrace, Api ''d'' []] (trace_init trace0) = Ok () s'"
    by (simp add: trace_eval)
  show ?thesis using well_bracketed_run_balanced [OF w r] r by auto
qed

text \<open>
  C34. The profile never reports more time than passed: for calls that do not nest, on a
  clock that does not go back, the clock counts of all new records and gaps together are
  at most the counts between the last return before and the last return after them.
\<close>

theorem flat_calls_reported_time:
  assumes "monotone_clock clk" and "on_trace s \<noteq> 0" and "last_return_ts s \<le> stamp clk (tick s)"
    and "run_actions fl clk (map (\<lambda>n. Api n []) ns) s = Ok u s'"
  shows "reported s' + unat (last_return_ts s) \<le> reported s + unat (last_return_ts s')"
  using assms(2-)
proof (induction ns arbitrary: s)
  case Nil
  then show ?case by simp
next
  case (Cons n ns)
  then obtain s1 where s1: "run_action fl clk (Api n []) s = Ok () s1"
    and rest: "run_actions fl clk (map (\<lambda>n. Api n []) ns) s1 = Ok u s'"
    by (auto simp: exec_simps)
  note call = flat_call_reported [OF assms(1) Cons.prems(1,2) s1]
  have "reported s' + unat (last_return_ts s1) \<le> reported s1 + unat (last_return_ts s')"
    using Cons.IH [OF _ _ rest] call by blast
  then show ?case using call by linarith
qed

theorem flat_calls_reported_time_witness:
  "\<exists>s' (clk :: clock). monotone_clock clk
     \<and> run_actions id clk [Api ''a'' [], Api ''b'' []] (startTrace clk None trace0) = Ok () s'
     \<and> reported s' + unat (last_return_ts (startTrace clk None trace0))
         \<le> reported (startTrace clk None trace0) + unat (last_return_ts s')"
proof -
  define clk :: clock where "clk = \<lparr>tsc = (\<lambda>k. (if k < 5 then 7 else 9, 0)), steady = (\<lambda>k. int k)\<rparr>"
  have m: "monotone_clock clk" by (simp add: monotone_clock_def clk_def stamp_def rdtscp_def)
  obtain s' where r: "run_actions id clk (map (\<lambda>n. Api n []) [''a'', ''b'']) (startTrace clk None trace0) = Ok () s'"
    by (simp add: TraceProfile_def TraceProfile_dtor_def Let_def)
  have t: "last_return_ts (startTrace clk None trace0) \<le> stamp clk (tick (startTrace clk None trace0))"
    by (simp add: startTrace_def clk_def stamp_def rdtscp_def trace0_def Let_def)
  have "reported s' + unat (last_return_ts (startTrace clk None trace0))
         \<le> reported (startTrace clk None trace0) + unat (last_return_ts s')"
    using flat_calls_reported_time [OF m _ t r] by simp
  then show ?thesis using m r by auto
qed

lemma add_apis_nth:
  "distinct ns \<Longrightarrow> k < length ns \<Longrightarrow> add_apis i ns d (ns ! k) = Some (i + 1 + int k)"
proof (induction ns arbitrary: i d k)
  case (Cons n ns)
  have keep: "n \<notin> set ns \<Longrightarrow> add_apis j ns e n = e n" for j e
    by (induction ns arbitrary: j e) (auto simp: add_api_def)
  show ?case
  proof (cases k)
    case 0
    then show ?thesis using Cons.prems keep by (simp add: add_api_def)
  next
    case (Suc k')
    then show ?thesis using Cons.IH [of k' "i + 1"] Cons.prems by simp
  qed
qed simp

lemma add_apis_dom: "dom (add_apis i ns d) = dom d \<union> set ns"
  by (induction ns arbitrary: i d) (auto simp: add_api_def)

lemma distinct_traced_apis: "distinct traced_apis"
  by (simp add: traced_apis_def)

text \<open>
  The dictionary that \<open>trace_init\<close> builds gives each of the 67 traced functions its
  own identifier, its position in the table counted from one, and has no other entry.
\<close>

theorem trace_init_dict:
  "api_dict (trace_init s) n = Some i
     \<longleftrightarrow> 1 \<le> i \<and> i \<le> 67 \<and> traced_apis ! nat (i - 1) = n"
proof -
  have len: "length traced_apis = 67" by (simp add: traced_apis_def)
  have dict: "api_dict (trace_init s) = add_apis 0 traced_apis Map.empty"
    by (simp add: trace_init_def)
  have at: "add_apis 0 traced_apis Map.empty (traced_apis ! k) = Some (1 + int k)" if "k < 67" for k
    using add_apis_nth [OF distinct_traced_apis, of k 0 Map.empty] that len by simp
  show ?thesis
  proof
    assume "api_dict (trace_init s) n = Some i"
    then have "n \<in> set traced_apis" using dict add_apis_dom [of 0 traced_apis Map.empty] by auto
    then obtain k where k: "k < 67" "n = traced_apis ! k" using len by (metis in_set_conv_nth)
    then show "1 \<le> i \<and> i \<le> 67 \<and> traced_apis ! nat (i - 1) = n"
      using at [of k] \<open>api_dict (trace_init s) n = Some i\<close> dict by auto
  next
    assume "1 \<le> i \<and> i \<le> 67 \<and> traced_apis ! nat (i - 1) = n"
    then show "api_dict (trace_init s) n = Some i"
      using at [of "nat (i - 1)"] dict by auto
  qed
qed

end
