(* ===== verification/Hook.thy ===== *)
theory Hook
  imports Trace
begin

text \<open>
  The interception half of the \<open>rperf\<close> profiler: \<open>src/common/hook.h\<close>,
  \<open>src/common/macro_common.h\<close>, \<open>push_breakpoint\<close> of \<open>src/common/trace.cpp\<close>, the GPU
  timer of \<open>src/common/timer.cpp\<close> and the body that every generated \<open>*_hook.cpp\<close>
  function has. The dynamic loader and the intercepted NVIDIA libraries are not part of
  the repository: they are the parameters \<open>loader\<close> and \<open>callee\<close>.
\<close>

section \<open>Libraries and the loader\<close>

datatype hook_lib = cuda | nvml | cudart | cudnn | cublas | cublasLt | cufft | nvtx | nvrtc
  | curand | cusparse | cusolver | nvjpeg | nvblas

fun dso :: "hook_lib \<Rightarrow> string" where
  "dso cuda = ''/usr/lib/x86_64-linux-gnu/libcuda.so''"
| "dso nvml = ''/usr/lib/x86_64-linux-gnu/libnvidia-ml.so.1''"
| "dso cudart = ''/usr/local/cuda/targets/x86_64-linux/lib/libcudart.so''"
| "dso cudnn = ''/usr/lib/x86_64-linux-gnu/libcudnn.so''"
| "dso cublas = ''/usr/local/cuda/targets/x86_64-linux/lib/libcublas.so''"
| "dso cublasLt = ''/usr/local/cuda/targets/x86_64-linux/lib/libcublasLt.so''"
| "dso cufft = ''/usr/local/cuda/targets/x86_64-linux/lib/libcufft.so''"
| "dso nvtx = ''/usr/local/cuda/targets/x86_64-linux/lib/libnvToolsExt.so''"
| "dso nvrtc = ''/usr/local/cuda/targets/x86_64-linux/lib/libnvrtc.so''"
| "dso curand = ''/usr/local/cuda/targets/x86_64-linux/lib/libcurand.so''"
| "dso cusparse = ''/usr/local/cuda/targets/x86_64-linux/lib/libcusparse.so''"
| "dso cusolver = ''/usr/local/cuda/targets/x86_64-linux/lib/libcusolver.so''"
| "dso nvjpeg = ''/usr/local/cuda/targets/x86_64-linux/lib/libnvjpeg.so''"
| "dso nvblas = ''/usr/local/cuda/targets/x86_64-linux/lib/libnvblas.so''"

text \<open>\<open>dlopen\<close> and \<open>dlsym\<close>; \<open>None\<close> is the null pointer.\<close>

record 'h loader =
  dlopen :: "string \<Rightarrow> 'h option"
  dlsym :: "'h \<Rightarrow> string \<Rightarrow> nat option"

datatype dl_event = Dlopen string | Dlsym hook_lib string

text \<open>
  The process: the tracer's globals, the function-local statics of the hook layer (the
  library handles of \<open>HOOK_GET_SYMBOL\<close> and the \<open>func_entry\<close> of each hook; the outer
  option says whether the static is initialised), the loader calls done so far, and the
  state of the intercepted libraries.
\<close>

record ('h, 'w) proc = trace_state +
  handles :: "hook_lib \<Rightarrow> 'h option option"
  func_entries :: "string \<Rightarrow> nat option option"
  dl_log :: "dl_event list"
  world :: 'w

definition HOOK_GET_SYMBOL ::
  "'h loader \<Rightarrow> hook_lib \<Rightarrow> string \<Rightarrow> ('h, 'w) proc \<Rightarrow> (nat option, ('h, 'w) proc) exec" where
  "HOOK_GET_SYMBOL ld lib symbol_name p =
     (let (h, p1) = (case handles p lib of
            Some h \<Rightarrow> (h, p)
          | None \<Rightarrow> (let h = dlopen ld (dso lib)
                     in (h, p\<lparr>handles := (handles p)(lib := Some h),
                              dl_log := dl_log p @ [Dlopen (dso lib)]\<rparr>)))
      in case h of
           None \<Rightarrow> Exit EXIT_FAILURE p1
         | Some hn \<Rightarrow> Ok (dlsym ld hn symbol_name)
                          (p1\<lparr>dl_log := dl_log p1 @ [Dlsym lib symbol_name]\<rparr>))"

text \<open>\<open>static auto func_entry = HOOK_..._SYMBOL(symbol); HOOK_CHECK(func_entry);\<close>\<close>

definition resolve ::
  "'h loader \<Rightarrow> string \<Rightarrow> hook_lib \<Rightarrow> string \<Rightarrow> ('h, 'w) proc \<Rightarrow> (nat, ('h, 'w) proc) exec" where
  "resolve ld static lib symbol_name p =
     exec_bind
       (case func_entries p static of
          Some e \<Rightarrow> Ok e p
        | None \<Rightarrow> exec_bind (HOOK_GET_SYMBOL ld lib symbol_name p)
                    (\<lambda>e p1. Ok e (p1\<lparr>func_entries := (func_entries p1)(static := Some e)\<rparr>)))
       (\<lambda>e p1. case e of None \<Rightarrow> Exit EXIT_FAILURE p1 | Some a \<Rightarrow> Ok a p1)"

section \<open>Hooks\<close>

type_synonym ('v, 'w) callee = "nat \<Rightarrow> 'v list \<Rightarrow> 'w \<Rightarrow> 'v \<times> 'w"

definition push_breakpoint ::
  "'h loader \<Rightarrow> ('v, 'w) callee \<Rightarrow> ('h, 'w) proc \<Rightarrow> (unit, ('h, 'w) proc) exec" where
  "push_breakpoint ld callee p =
     (if on_trace p = 0 \<or> on_separate_kernel_wrapper p = 0 then Ok () p
      else exec_bind (resolve ld ''push_breakpoint'' cudart ''cudaDeviceSynchronize'' p)
             (\<lambda>a p1. Ok () (p1\<lparr>world := snd (callee a [] (world p1))\<rparr>)))"

text \<open>
  A generated hook: the exported name, the library and symbol it forwards to, the name it
  reports to the tracer, and whether it calls \<open>push_breakpoint\<close> before it returns.
\<close>

record 'v hook_fn =
  hk_name :: string
  hk_lib :: hook_lib
  hk_symbol :: string
  hk_profile :: "'v list \<Rightarrow> string"
  hk_breakpoint :: bool

definition hook_call ::
  "'h loader \<Rightarrow> ('v, 'w) callee \<Rightarrow> clock \<Rightarrow> 'v hook_fn \<Rightarrow> 'v list \<Rightarrow> ('h, 'w) proc
     \<Rightarrow> ('v, ('h, 'w) proc) exec" where
  "hook_call ld callee clk hk args p =
     (let (nm, p1) = TraceProfile clk (hk_profile hk args) p
      in exec_bind (resolve ld (hk_name hk) (hk_lib hk) (hk_symbol hk) p1)
           (\<lambda>a p2. let (r, w) = callee a args (world p2); p3 = p2\<lparr>world := w\<rparr>
                    in exec_bind (if hk_breakpoint hk then push_breakpoint ld callee p3 else Ok () p3)
                         (\<lambda>_ p4. Ok r (TraceProfile_dtor clk nm p4))))"

text \<open>A program that calls hooked functions one after the other, and the values it gets.\<close>

fun hook_calls ::
  "'h loader \<Rightarrow> ('v, 'w) callee \<Rightarrow> clock \<Rightarrow> ('v hook_fn \<times> 'v list) list \<Rightarrow> ('h, 'w) proc
     \<Rightarrow> ('v list, ('h, 'w) proc) exec" where
  "hook_calls ld callee clk [] p = Ok [] p"
| "hook_calls ld callee clk ((hk, args) # cs) p =
     exec_bind (hook_call ld callee clk hk args p)
       (\<lambda>r p1. exec_bind (hook_calls ld callee clk cs p1) (\<lambda>rs p2. Ok (r # rs) p2))"

text \<open>The instance of the template for one function, and the functions that deviate from it.\<close>

definition plain_hook :: "hook_lib \<Rightarrow> string \<Rightarrow> 'v hook_fn" where
  "plain_hook lib name =
     \<lparr>hk_name = name, hk_lib = lib, hk_symbol = name, hk_profile = (\<lambda>_. name), hk_breakpoint = False\<rparr>"

definition cudaLaunchKernel :: "'v hook_fn" where
  "cudaLaunchKernel = (plain_hook cudart ''cudaLaunchKernel'')\<lparr>hk_breakpoint := True\<rparr>"

definition cublasSgemm_v2 :: "'v hook_fn" where
  "cublasSgemm_v2 = (plain_hook cublas ''cublasSgemm_v2'')\<lparr>hk_breakpoint := True\<rparr>"

text \<open>
  \<open>cudaMemcpyAsync\<close> reports a name that depends on its fourth argument \<open>kind\<close>
  (\<open>cudaMemcpyHostToDevice = 1\<close>, \<open>cudaMemcpyDeviceToHost = 2\<close>,
  \<open>cudaMemcpyDeviceToDevice = 3\<close>).
\<close>

definition cudaMemcpyAsync :: "int hook_fn" where
  "cudaMemcpyAsync = (plain_hook cudart ''cudaMemcpyAsync'')
     \<lparr>hk_profile := (\<lambda>args. if args ! 3 = 1 then ''cudaMemcpyAsyncHostToDevice''
                      else if args ! 3 = 2 then ''cudaMemcpyAsyncDeviceToHost''
                      else if args ! 3 = 3 then ''cudaMemcpyAsyncDeviceToDevice''
                      else ''cudaMemcpyAsync'')\<rparr>"

section \<open>The GPU timer\<close>

text \<open>
  \<open>class GPUTimer\<close>. The constructor looks the five event functions up in the CUDA runtime
  and does not check the pointers it gets; a call through a null pointer is undefined. What
  the functions do is the parameter \<open>event_api\<close>, indexed by their address.
\<close>

record ('e, 'st, 'w) event_api =
  ev_create :: "nat \<Rightarrow> 'w \<Rightarrow> 'e \<times> 'w"
  ev_destroy :: "nat \<Rightarrow> 'e \<Rightarrow> 'w \<Rightarrow> 'w"
  ev_record :: "nat \<Rightarrow> 'e \<Rightarrow> 'st \<Rightarrow> 'w \<Rightarrow> 'w"
  ev_synchronize :: "nat \<Rightarrow> 'e \<Rightarrow> 'w \<Rightarrow> 'w"
  ev_elapsed :: "nat \<Rightarrow> 'e \<Rightarrow> 'e \<Rightarrow> 'w \<Rightarrow> rat"

record ('e, 'st) GPUTimer =
  gpu_elapsed_time :: Time
  start_event :: 'e
  stop_event :: 'e
  stream :: 'st
  cudaEventCreate_entry :: "nat option"
  cudaEventDestroy_entry :: "nat option"
  cudaEventRecord_entry :: "nat option"
  cudaEventSynchronize_entry :: "nat option"
  cudaEventElapsedTime_entry :: "nat option"

definition call_entry ::
  "nat option \<Rightarrow> (nat \<Rightarrow> 'w \<Rightarrow> 'r \<times> 'w) \<Rightarrow> ('h, 'w) proc \<Rightarrow> ('r, ('h, 'w) proc) exec" where
  "call_entry e f p =
     (case e of None \<Rightarrow> Undef ''call through a null function pointer''
      | Some a \<Rightarrow> (let (r, w) = f a (world p) in Ok r (p\<lparr>world := w\<rparr>)))"

definition GPUTimer_new ::
  "'h loader \<Rightarrow> ('e, 'st, 'w) event_api \<Rightarrow> 'st \<Rightarrow> ('h, 'w) proc
     \<Rightarrow> (('e, 'st) GPUTimer, ('h, 'w) proc) exec" where
  "GPUTimer_new ld ev stream0 p =
     exec_bind (HOOK_GET_SYMBOL ld cudart ''cudaEventCreate'' p) (\<lambda>cr p.
     exec_bind (HOOK_GET_SYMBOL ld cudart ''cudaEventDestroy'' p) (\<lambda>de p.
     exec_bind (HOOK_GET_SYMBOL ld cudart ''cudaEventRecord'' p) (\<lambda>re p.
     exec_bind (HOOK_GET_SYMBOL ld cudart ''cudaEventSynchronize'' p) (\<lambda>sy p.
     exec_bind (HOOK_GET_SYMBOL ld cudart ''cudaEventElapsedTime'' p) (\<lambda>el p.
     exec_bind (call_entry cr (ev_create ev) p) (\<lambda>e1 p.
     exec_bind (call_entry cr (ev_create ev) p) (\<lambda>e2 p.
       Ok \<lparr>gpu_elapsed_time = Time_default, start_event = e1, stop_event = e2, stream = stream0,
           cudaEventCreate_entry = cr, cudaEventDestroy_entry = de, cudaEventRecord_entry = re,
           cudaEventSynchronize_entry = sy, cudaEventElapsedTime_entry = el\<rparr> p)))))))"

definition GPUTimer_delete ::
  "('e, 'st, 'w) event_api \<Rightarrow> ('e, 'st) GPUTimer \<Rightarrow> ('h, 'w) proc \<Rightarrow> (unit, ('h, 'w) proc) exec" where
  "GPUTimer_delete ev t p =
     exec_bind (call_entry (cudaEventDestroy_entry t) (\<lambda>a w. ((), ev_destroy ev a (start_event t) w)) p)
       (\<lambda>_ p. call_entry (cudaEventDestroy_entry t) (\<lambda>a w. ((), ev_destroy ev a (stop_event t) w)) p)"

definition set_stream :: "'st \<Rightarrow> ('e, 'st) GPUTimer \<Rightarrow> ('e, 'st) GPUTimer" where
  "set_stream st t = t\<lparr>stream := st\<rparr>"

definition GPUTimer_start ::
  "('e, 'st, 'w) event_api \<Rightarrow> ('e, 'st) GPUTimer \<Rightarrow> ('h, 'w) proc \<Rightarrow> (unit, ('h, 'w) proc) exec" where
  "GPUTimer_start ev t p =
     call_entry (cudaEventRecord_entry t) (\<lambda>a w. ((), ev_record ev a (start_event t) (stream t) w)) p"

definition GPUTimer_stop ::
  "rounding \<Rightarrow> ('e, 'st, 'w) event_api \<Rightarrow> ('e, 'st) GPUTimer \<Rightarrow> ('h, 'w) proc
     \<Rightarrow> (('e, 'st) GPUTimer, ('h, 'w) proc) exec" where
  "GPUTimer_stop fl ev t p =
     exec_bind (call_entry (cudaEventRecord_entry t)
                  (\<lambda>a w. ((), ev_record ev a (stop_event t) (stream t) w)) p) (\<lambda>_ p.
     exec_bind (call_entry (cudaEventSynchronize_entry t)
                  (\<lambda>a w. ((), ev_synchronize ev a (stop_event t) w)) p) (\<lambda>_ p.
     exec_bind (call_entry (cudaEventElapsedTime_entry t)
                  (\<lambda>a w. (ev_elapsed ev a (start_event t) (stop_event t) w, w)) p) (\<lambda>ms p.
       Ok (t\<lparr>gpu_elapsed_time := TIME (fl (ms * 1000))\<rparr>) p)))"

text \<open>
  Loading the profiler: the constructor of the global \<open>gpu_timer\<close>, and \<open>trace_init\<close>, which
  is a constructor of the library.
\<close>

definition profiler_load ::
  "'h loader \<Rightarrow> ('e, 'st, 'w) event_api \<Rightarrow> 'st \<Rightarrow> ('h, 'w) proc
     \<Rightarrow> (('e, 'st) GPUTimer, ('h, 'w) proc) exec" where
  "profiler_load ld ev stream0 p =
     exec_bind (GPUTimer_new ld ev stream0 p) (\<lambda>t p. Ok t (trace_init p))"

section \<open>Logging\<close>

text \<open>\<open>HOOK_LOG_FILE\<close>: what follows the last slash, by \<open>strrchr\<close>.\<close>

definition HOOK_LOG_FILE :: "string \<Rightarrow> string" where
  "HOOK_LOG_FILE x = (if CHR ''/'' \<in> set x then rev (takeWhile (\<lambda>c. c \<noteq> CHR ''/'') (rev x)) else x)"

section \<open>What the hooks guarantee\<close>

subsection \<open>The program without the profiler\<close>

definition entry_of :: "'h loader \<Rightarrow> hook_lib \<Rightarrow> string \<Rightarrow> nat option" where
  "entry_of ld lib smb = Option.bind (dlopen ld (dso lib)) (\<lambda>h. dlsym ld h smb)"

definition device_sync :: "'h loader \<Rightarrow> ('v, 'w) callee \<Rightarrow> 'w \<Rightarrow> 'w" where
  "device_sync ld callee w = snd (callee (the (entry_of ld cudart ''cudaDeviceSynchronize'')) [] w)"

text \<open>
  The same calls made straight to the libraries; \<open>sync\<close> says whether a device
  synchronisation follows each call of a function that has a breakpoint.
\<close>

fun direct_calls ::
  "bool \<Rightarrow> 'h loader \<Rightarrow> ('v, 'w) callee \<Rightarrow> ('v hook_fn \<times> 'v list) list \<Rightarrow> 'w \<Rightarrow> 'v list \<times> 'w" where
  "direct_calls sync ld callee [] w = ([], w)"
| "direct_calls sync ld callee ((hk, args) # cs) w =
     (let (r, w1) = callee (the (entry_of ld (hk_lib hk) (hk_symbol hk))) args w;
          w2 = (if sync \<and> hk_breakpoint hk then device_sync ld callee w1 else w1);
          (rs, w3) = direct_calls sync ld callee cs w2
      in (r # rs, w3))"

definition separating :: "('h, 'w) proc \<Rightarrow> bool" where
  "separating p \<longleftrightarrow> on_trace p \<noteq> 0 \<and> on_separate_kernel_wrapper p \<noteq> 0"

subsection \<open>The statics\<close>

text \<open>
  The hook layer as a table: each function-local static belongs to one library and one
  symbol. \<open>statics_ok\<close> says that an initialised static holds what the loader returns for
  it, and that the loader was asked at most once for each library.
\<close>

type_synonym statics = "string \<Rightarrow> hook_lib \<times> string"

definition in_table :: "statics \<Rightarrow> 'v hook_fn \<Rightarrow> bool" where
  "in_table tab hk \<longleftrightarrow> tab (hk_name hk) = (hk_lib hk, hk_symbol hk)"

definition breakpoint_static :: "statics \<Rightarrow> bool" where
  "breakpoint_static tab \<longleftrightarrow> tab ''push_breakpoint'' = (cudart, ''cudaDeviceSynchronize'')"

definition is_open :: "dl_event \<Rightarrow> bool" where
  "is_open e = (case e of Dlopen _ \<Rightarrow> True | Dlsym _ _ \<Rightarrow> False)"

definition statics_ok :: "'h loader \<Rightarrow> statics \<Rightarrow> ('h, 'w) proc \<Rightarrow> bool" where
  "statics_ok ld tab p \<longleftrightarrow>
     (\<forall>lib h. handles p lib = Some h \<longrightarrow> h = dlopen ld (dso lib))
     \<and> (\<forall>st e. func_entries p st = Some e \<longrightarrow>
           e = entry_of ld (fst (tab st)) (snd (tab st)))
     \<and> distinct (filter is_open (dl_log p))
     \<and> (\<forall>lib. Dlopen (dso lib) \<in> set (dl_log p) \<longleftrightarrow> handles p lib \<noteq> None)"

definition proc_init :: "trace_state \<Rightarrow> 'w \<Rightarrow> ('h, 'w) proc" where
  "proc_init s w = trace_state.extend s
     \<lparr>handles = (\<lambda>_. None), func_entries = (\<lambda>_. None), dl_log = [], world = w\<rparr>"

lemma dso_inj [simp]: "dso a = dso b \<longleftrightarrow> a = b"
  by (cases a; cases b; simp)

lemma statics_ok_init: "statics_ok ld tab (proc_init s w)"
  by (simp add: statics_ok_def proc_init_def trace_state.extend_def)

text \<open>The fields of the process that a lookup leaves alone.\<close>

definition same_outside :: "('h, 'w) proc \<Rightarrow> ('h, 'w) proc \<Rightarrow> bool" where
  "same_outside p q \<longleftrightarrow> trace_state.truncate p = trace_state.truncate q \<and> world p = world q"

lemma truncate_simps [simp]:
  "trace_state.truncate (handles_update f p) = trace_state.truncate p"
  "trace_state.truncate (func_entries_update g p) = trace_state.truncate p"
  "trace_state.truncate (dl_log_update k p) = trace_state.truncate p"
  "trace_state.truncate (world_update l p) = trace_state.truncate p"
  by (simp_all add: trace_state.truncate_def)

lemma same_outside_refl [simp]: "same_outside p p"
  by (simp add: same_outside_def)

lemma same_outside_trans: "same_outside p q \<Longrightarrow> same_outside q r \<Longrightarrow> same_outside p r"
  by (simp add: same_outside_def)

lemma statics_okD:
  assumes "statics_ok ld tab p"
  shows "handles p lib = Some h \<Longrightarrow> h = dlopen ld (dso lib)"
    "func_entries p st = Some e \<Longrightarrow> e = entry_of ld (fst (tab st)) (snd (tab st))"
  using assms unfolding statics_ok_def by blast+

lemma HOOK_GET_SYMBOL_cases:
  assumes "statics_ok ld tab p"
  shows "(\<exists>h p'. dlopen ld (dso lib) = Some h \<and> HOOK_GET_SYMBOL ld lib smb p = Ok (dlsym ld h smb) p'
            \<and> statics_ok ld tab p' \<and> same_outside p p')
       \<or> (\<exists>p'. dlopen ld (dso lib) = None \<and> HOOK_GET_SYMBOL ld lib smb p = Exit EXIT_FAILURE p'
            \<and> statics_ok ld tab p' \<and> same_outside p p')"
proof (cases "handles p lib")
  case None
  then show ?thesis
    using assms
    by (cases "dlopen ld (dso lib)")
      (auto simp: HOOK_GET_SYMBOL_def statics_ok_def is_open_def same_outside_def Let_def)
next
  case (Some h)
  then have "h = dlopen ld (dso lib)" by (rule statics_okD(1) [OF assms])
  then show ?thesis
    using assms Some
    by (cases "dlopen ld (dso lib)")
      (auto simp: HOOK_GET_SYMBOL_def statics_ok_def is_open_def same_outside_def)
qed

lemma resolve_cases:
  assumes ok: "statics_ok ld tab p" and tab: "tab st = (lib, smb)"
  shows "\<exists>p'. statics_ok ld tab p' \<and> same_outside p p'
       \<and> resolve ld st lib smb p
           = (case entry_of ld lib smb of Some a \<Rightarrow> Ok a p' | None \<Rightarrow> Exit EXIT_FAILURE p')"
proof (cases "func_entries p st")
  case (Some e)
  then have "e = entry_of ld lib smb" using statics_okD(2) [OF ok Some] tab by simp
  then show ?thesis using Some ok by (auto simp: resolve_def split: option.splits)
next
  case None
  show ?thesis
    using HOOK_GET_SYMBOL_cases [OF ok, of lib smb]
  proof (elim disjE exE conjE)
    fix h p'
    assume h: "dlopen ld (dso lib) = Some h" "HOOK_GET_SYMBOL ld lib smb p = Ok (dlsym ld h smb) p'"
      "statics_ok ld tab p'" "same_outside p p'"
    let ?q = "p'\<lparr>func_entries := (func_entries p')(st := Some (dlsym ld h smb))\<rparr>"
    have "statics_ok ld tab ?q" using h(1,3) tab by (auto simp: statics_ok_def entry_of_def)
    moreover have "same_outside p ?q" using h(4) by (simp add: same_outside_def)
    ultimately show ?thesis
      using h None by (auto simp: resolve_def entry_of_def intro!: exI [of _ ?q] split: option.splits)
  next
    fix p'
    assume "dlopen ld (dso lib) = None" "HOOK_GET_SYMBOL ld lib smb p = Exit EXIT_FAILURE p'"
      "statics_ok ld tab p'" "same_outside p p'"
    then show ?thesis using None by (auto simp: resolve_def entry_of_def)
  qed
qed

subsection \<open>One call\<close>

lemma truncate_TraceProfile:
  assumes "TraceProfile clk n p = (nm, p1)"
  shows "TraceProfile clk n (trace_state.truncate p) = (nm, trace_state.truncate p1)"
  using assms by (auto simp: TraceProfile_def trace_state.truncate_def split: if_splits)

lemma truncate_TraceProfile_dtor:
  "trace_state.truncate (TraceProfile_dtor clk n p) = TraceProfile_dtor clk n (trace_state.truncate p)"
  by (simp add: TraceProfile_dtor_def trace_state.truncate_def Let_def)

lemma TraceProfile_statics:
  assumes "TraceProfile clk n p = (nm, p1)"
  shows "statics_ok ld tab p1 = statics_ok ld tab p" "world p1 = world p" "separating p1 = separating p"
  using assms by (auto simp: TraceProfile_def statics_ok_def separating_def split: if_splits)

lemma TraceProfile_dtor_statics:
  "statics_ok ld tab (TraceProfile_dtor clk n p) = statics_ok ld tab p"
  "world (TraceProfile_dtor clk n p) = world p"
  "separating (TraceProfile_dtor clk n p) = separating p"
  by (simp_all add: TraceProfile_dtor_def statics_ok_def separating_def Let_def)

lemma world_update_statics [simp]: "statics_ok ld tab (world_update f p) = statics_ok ld tab p"
  by (simp add: statics_ok_def)

lemma same_outside_separating: "same_outside p q \<Longrightarrow> separating q = separating p"
  by (simp add: same_outside_def separating_def trace_state.truncate_def)

definition linked :: "'h loader \<Rightarrow> 'v hook_fn \<Rightarrow> bool" where
  "linked ld hk \<longleftrightarrow> entry_of ld (hk_lib hk) (hk_symbol hk) \<noteq> None
     \<and> (hk_breakpoint hk \<longrightarrow> entry_of ld cudart ''cudaDeviceSynchronize'' \<noteq> None)"

lemma push_breakpoint_linked:
  fixes p :: "('h, 'w) proc" and callee :: "('v, 'w) callee"
  assumes ok: "statics_ok ld tab p" and bp: "breakpoint_static tab"
    and sy: "entry_of ld cudart ''cudaDeviceSynchronize'' \<noteq> None"
  shows "\<exists>p'. push_breakpoint ld callee p = Ok () p' \<and> statics_ok ld tab p'
     \<and> trace_state.truncate p' = trace_state.truncate p
     \<and> world p' = (if separating p then device_sync ld callee (world p) else world p)"
proof (cases "separating p")
  case True
  obtain a where a: "entry_of ld cudart ''cudaDeviceSynchronize'' = Some a" using sy by blast
  obtain q where q: "statics_ok ld tab q" "same_outside p q"
    "resolve ld ''push_breakpoint'' cudart ''cudaDeviceSynchronize'' p = Ok a q"
    using resolve_cases [OF ok bp [unfolded breakpoint_static_def]] a by auto
  have "push_breakpoint ld callee p = Ok () (q\<lparr>world := snd (callee a [] (world q))\<rparr>)"
    using True q(3) by (auto simp: push_breakpoint_def separating_def)
  then show ?thesis
    using q(1,2) a True by (auto simp: device_sync_def same_outside_def)
next
  case False
  then show ?thesis using ok by (auto simp: push_breakpoint_def separating_def)
qed

lemma hook_call_linked:
  fixes p :: "('h, 'w) proc" and callee :: "('v, 'w) callee"
  assumes ok: "statics_ok ld tab p" and bp: "breakpoint_static tab"
    and tab: "in_table tab hk" and l: "linked ld hk"
    and call: "callee (the (entry_of ld (hk_lib hk) (hk_symbol hk))) args (world p) = (r, w)"
  shows "\<exists>p'. hook_call ld callee clk hk args p = Ok r p' \<and> statics_ok ld tab p'
     \<and> world p' = (if separating p \<and> hk_breakpoint hk then device_sync ld callee w else w)
     \<and> separating p' = separating p
     \<and> run_action fl clk (Api (hk_profile hk args) []) (trace_state.truncate p)
         = Ok () (trace_state.truncate p')"
proof -
  obtain nm p1 where tp: "TraceProfile clk (hk_profile hk args) p = (nm, p1)" by fastforce
  note tp' = TraceProfile_statics [OF tp] truncate_TraceProfile [OF tp]
  obtain a where a: "entry_of ld (hk_lib hk) (hk_symbol hk) = Some a"
    using l by (auto simp: linked_def)
  have ok1: "statics_ok ld tab p1" using ok tp' by simp
  obtain p2 where p2: "statics_ok ld tab p2" "same_outside p1 p2"
    "resolve ld (hk_name hk) (hk_lib hk) (hk_symbol hk) p1 = Ok a p2"
    using resolve_cases [OF ok1 tab [unfolded in_table_def]] a by auto
  let ?p3 = "p2\<lparr>world := w\<rparr>"
  have sep: "separating ?p3 = separating p"
    using same_outside_separating [OF p2(2)] tp' by (simp add: separating_def)
  obtain p4 where p4: "(if hk_breakpoint hk then push_breakpoint ld callee ?p3 else Ok () ?p3) = Ok () p4"
    "statics_ok ld tab p4" "trace_state.truncate p4 = trace_state.truncate p1"
    "world p4 = (if separating p \<and> hk_breakpoint hk then device_sync ld callee w else w)"
  proof (cases "hk_breakpoint hk")
    case True
    then show ?thesis
      using that push_breakpoint_linked [of ld tab ?p3 callee] p2 sep l bp
      by (auto simp: linked_def same_outside_def)
  next
    case False
    then show ?thesis using that p2 by (auto simp: same_outside_def)
  qed
  have "hook_call ld callee clk hk args p = Ok r (TraceProfile_dtor clk nm p4)"
    using tp p2 p4(1) a call tp' by (simp add: hook_call_def same_outside_def)
  moreover have "run_action fl clk (Api (hk_profile hk args) []) (trace_state.truncate p)
      = Ok () (trace_state.truncate (TraceProfile_dtor clk nm p4))"
    using tp' p4(3) by (simp add: truncate_TraceProfile_dtor)
  moreover have "separating p4 = separating p"
    using p4(3) tp' by (simp add: separating_def trace_state.truncate_def)
  ultimately show ?thesis
    using p4 by (simp add: TraceProfile_dtor_statics)
qed

lemma hook_call_unlinked:
  assumes ok: "statics_ok ld tab p" and tab: "in_table tab hk"
    and "entry_of ld (hk_lib hk) (hk_symbol hk) = None"
  shows "\<exists>p'. hook_call ld callee clk hk args p = Exit EXIT_FAILURE p' \<and> world p' = world p
    \<and> trace_state.truncate p' = snd (TraceProfile clk (hk_profile hk args) (trace_state.truncate p))"
proof -
  obtain nm p1 where tp: "TraceProfile clk (hk_profile hk args) p = (nm, p1)" by fastforce
  note tp' = TraceProfile_statics [OF tp] truncate_TraceProfile [OF tp]
  have ok1: "statics_ok ld tab p1" using ok tp' by simp
  show ?thesis
    using resolve_cases [OF ok1 tab [unfolded in_table_def]] assms(3) tp tp'
    by (auto simp: hook_call_def same_outside_def)
qed

subsection \<open>Whole programs\<close>

lemma hook_calls_linked:
  fixes p :: "('h, 'w) proc" and callee :: "('v, 'w) callee"
  assumes bp: "breakpoint_static tab"
  shows "statics_ok ld tab p \<Longrightarrow> list_all (\<lambda>(hk, args). in_table tab hk \<and> linked ld hk) cs \<Longrightarrow>
    \<exists>rs p'. hook_calls ld callee clk cs p = Ok rs p' \<and> statics_ok ld tab p'
     \<and> (rs, world p') = direct_calls (separating p) ld callee cs (world p)
     \<and> run_actions fl clk (map (\<lambda>(hk, args). Api (hk_profile hk args) []) cs) (trace_state.truncate p)
         = Ok () (trace_state.truncate p')"
proof (induction cs arbitrary: p)
  case (Cons c cs)
  obtain hk args where c: "c = (hk, args)" by fastforce
  obtain r w where call: "callee (the (entry_of ld (hk_lib hk) (hk_symbol hk))) args (world p) = (r, w)"
    by fastforce
  have t: "in_table tab hk" "linked ld hk" using Cons.prems(2) c by simp_all
  obtain p1 where p1: "hook_call ld callee clk hk args p = Ok r p1" "statics_ok ld tab p1"
    "world p1 = (if separating p \<and> hk_breakpoint hk then device_sync ld callee w else w)"
    "separating p1 = separating p"
    "run_action fl clk (Api (hk_profile hk args) []) (trace_state.truncate p)
         = Ok () (trace_state.truncate p1)"
    using hook_call_linked [where callee = callee and args = args and clk = clk and fl = fl,
        OF Cons.prems(1) bp t call] by blast
  obtain rs p' where p': "hook_calls ld callee clk cs p1 = Ok rs p'" "statics_ok ld tab p'"
    "(rs, world p') = direct_calls (separating p1) ld callee cs (world p1)"
    "run_actions fl clk (map (\<lambda>(hk, args). Api (hk_profile hk args) []) cs) (trace_state.truncate p1)
         = Ok () (trace_state.truncate p')"
    using Cons.IH [OF p1(2)] Cons.prems(2) by auto
  have "direct_calls (separating p) ld callee (c # cs) (world p) = (r # rs, world p')"
    using c call p'(3) [symmetric] p1(3,4) by (simp add: Let_def)
  then show ?case using c p1 p' by (simp del: run_action.simps)
qed simp

text \<open>
  C4. The profiler is transparent: a program that calls hooked functions gets the results
  and leaves the libraries in the state it would get by calling the libraries directly,
  except that with kernel separation on, a device synchronisation follows each call of a
  function that has a breakpoint. The tracer sees exactly the sequence of calls, each under
  the name its hook reports, so the theorems on \<open>run_actions\<close> apply to it.
\<close>

theorem hooked_program_transparent:
  assumes "breakpoint_static tab" and "statics_ok ld tab p"
    and "list_all (\<lambda>(hk, args). in_table tab hk \<and> linked ld hk) cs"
  shows "\<exists>rs p'. hook_calls ld callee clk cs p = Ok rs p'
     \<and> (rs, world p') = direct_calls (on_trace p \<noteq> 0 \<and> on_separate_kernel_wrapper p \<noteq> 0) ld callee cs (world p)
     \<and> run_actions fl clk (map (\<lambda>(hk, args). Api (hk_profile hk args) []) cs) (trace_state.truncate p)
         = Ok () (trace_state.truncate p')"
  using hook_calls_linked [OF assms, of callee clk fl] by (auto simp: separating_def)

text \<open>
  A loader in which every library opens and every symbol is its length, a callee that
  counts its calls, and the statics of two hooks.
\<close>

definition ld0 :: "string loader" where
  "ld0 = \<lparr>dlopen = Some, dlsym = (\<lambda>_ s. Some (length s))\<rparr>"

definition callee0 :: "(int, int) callee" where
  "callee0 a args w = (int a, w + 1)"

definition statics0 :: statics where
  "statics0 st = (if st = ''push_breakpoint'' then (cudart, ''cudaDeviceSynchronize'') else (cudart, st))"

theorem hooked_program_transparent_witness:
  "\<exists>p'. hook_calls ld0 callee0 clock0 [(cudaLaunchKernel, []), (cudaMemcpyAsync, [0, 0, 0, 1])]
      (proc_init (trace0\<lparr>on_trace := 1, on_separate_kernel_wrapper := 1\<rparr>) 0) = Ok [16, 15] p'
     \<and> world p' = 3"
proof -
  let ?cs = "[(cudaLaunchKernel, []), (cudaMemcpyAsync, [0, 0, 0, 1])]"
  have t: "breakpoint_static statics0"
    "list_all (\<lambda>(hk, args). in_table statics0 hk \<and> linked ld0 hk) ?cs"
    by (simp_all add: breakpoint_static_def statics0_def in_table_def linked_def entry_of_def
        ld0_def cudaLaunchKernel_def cudaMemcpyAsync_def plain_hook_def)
  have "direct_calls True ld0 callee0 ?cs 0 = ([16, 15], 3)"
    by (simp add: entry_of_def device_sync_def ld0_def callee0_def
        cudaLaunchKernel_def cudaMemcpyAsync_def plain_hook_def)
  then show ?thesis
    using hooked_program_transparent [OF t(1) statics_ok_init t(2), of callee0 clock0
        "trace0\<lparr>on_trace := 1, on_separate_kernel_wrapper := 1\<rparr>" 0 id]
    by (auto simp: proc_init_def trace_state.extend_def)
qed

lemma hook_call_statics:
  assumes ok: "statics_ok ld tab p" and bp: "breakpoint_static tab" and tab: "in_table tab hk"
    and call: "hook_call ld callee clk hk args p = Ok r p'"
  shows "statics_ok ld tab p'"
proof -
  obtain nm p1 where tp: "TraceProfile clk (hk_profile hk args) p = (nm, p1)" by fastforce
  have ok1: "statics_ok ld tab p1" using ok TraceProfile_statics [OF tp] by simp
  obtain a p2 where p2: "statics_ok ld tab p2"
    "resolve ld (hk_name hk) (hk_lib hk) (hk_symbol hk) p1 = Ok a p2"
    using resolve_cases [OF ok1 tab [unfolded in_table_def]] call tp
    by (auto simp: hook_call_def split: option.splits)
  obtain x w where cw: "callee a args (world p2) = (x, w)" by fastforce
  let ?p3 = "p2\<lparr>world := w\<rparr>"
  obtain p4 where p4: "(if hk_breakpoint hk then push_breakpoint ld callee ?p3 else Ok () ?p3) = Ok () p4"
    "p' = TraceProfile_dtor clk nm p4"
    using call tp p2(2) cw by (auto simp: hook_call_def exec_simps)
  have ok3: "statics_ok ld tab ?p3" using p2(1) by simp
  have "statics_ok ld tab p4"
    using p4(1) ok3 resolve_cases [OF ok3 bp [unfolded breakpoint_static_def]]
    by (auto simp: push_breakpoint_def exec_simps split: if_splits option.splits)
  then show ?thesis using p4(2) by (simp add: TraceProfile_dtor_statics)
qed

lemma hook_calls_statics:
  assumes "breakpoint_static tab"
  shows "statics_ok ld tab p \<Longrightarrow> list_all (\<lambda>(hk, args). in_table tab hk) cs
    \<Longrightarrow> hook_calls ld callee clk cs p = Ok rs p' \<Longrightarrow> statics_ok ld tab p'"
proof (induction cs arbitrary: p rs)
  case (Cons c cs)
  then show ?case
    by (cases c) (auto simp: exec_simps dest: hook_call_statics [OF _ assms])
qed simp

lemma HOOK_GET_SYMBOL_statics:
  "statics_ok ld tab p \<Longrightarrow> HOOK_GET_SYMBOL ld lib smb p = Ok e p' \<Longrightarrow> statics_ok ld tab p'"
  using HOOK_GET_SYMBOL_cases [of ld tab p lib smb] by auto

lemma call_entry_statics:
  "statics_ok ld tab p \<Longrightarrow> call_entry e f p = Ok r p' \<Longrightarrow> statics_ok ld tab p'"
  by (auto simp: call_entry_def split: option.splits prod.splits)

lemma trace_init_statics [simp]: "statics_ok ld tab (trace_init p) = statics_ok ld tab p"
  by (simp add: statics_ok_def trace_init_def)

lemma profiler_load_statics:
  assumes "profiler_load ld ev stream0 (proc_init s w) = Ok t p"
  shows "statics_ok ld tab p"
  using assms statics_ok_init [of ld tab s w]
  by (auto simp: profiler_load_def GPUTimer_new_def exec_bind_eq_Ok
      dest!: HOOK_GET_SYMBOL_statics [rotated] call_entry_statics [rotated])

text \<open>
  C29. From the moment the profiler is loaded, the loader is asked to open each library at
  most once, however many hooks of the library are called and however often (the GPU timer
  and the breakpoints included), and every handle is the one the loader returned.
\<close>

theorem libraries_opened_once:
  assumes "breakpoint_static tab" and "list_all (\<lambda>(hk, args). in_table tab hk) cs"
    and "profiler_load ld ev stream0 (proc_init s w) = Ok t p"
    and "hook_calls ld callee clk cs (startTrace clk v p) = Ok rs p'"
  shows "distinct (filter is_open (dl_log p'))
    \<and> (\<forall>lib. Dlopen (dso lib) \<in> set (dl_log p') \<longleftrightarrow> handles p' lib = Some (dlopen ld (dso lib)))"
proof -
  have "statics_ok ld tab (startTrace clk v p)"
    using profiler_load_statics [OF assms(3), of tab]
    by (simp add: statics_ok_def startTrace_def Let_def)
  then have "statics_ok ld tab p'" using hook_calls_statics [OF assms(1) _ assms(2,4)] by blast
  then show ?thesis unfolding statics_ok_def by (metis not_Some_eq)
qed

definition events0 :: "(int, nat, int) event_api" where
  "events0 = \<lparr>ev_create = (\<lambda>_ w. (w, w + 1)), ev_destroy = (\<lambda>_ _ w. w), ev_record = (\<lambda>_ _ _ w. w),
     ev_synchronize = (\<lambda>_ _ w. w), ev_elapsed = (\<lambda>_ _ _ _. 3)\<rparr>"

theorem libraries_opened_once_witness:
  "\<exists>t p p'. profiler_load ld0 events0 0 (proc_init trace0 0) = Ok t p
     \<and> hook_calls ld0 callee0 clock0 [(cudaLaunchKernel, []), (cudaMemcpyAsync, [0, 0, 0, 1])]
         (startTrace clock0 (Some ''on'') p) = Ok [16, 15] p'
     \<and> distinct (filter is_open (dl_log p'))"
proof -
  let ?cs = "[(cudaLaunchKernel, []), (cudaMemcpyAsync, [0, 0, 0, 1])]"
  have t: "breakpoint_static statics0" "list_all (\<lambda>(hk, args). in_table statics0 hk) ?cs"
    "list_all (\<lambda>(hk, args). in_table statics0 hk \<and> linked ld0 hk) ?cs"
    by (simp_all add: breakpoint_static_def statics0_def in_table_def linked_def entry_of_def
        ld0_def cudaLaunchKernel_def cudaMemcpyAsync_def plain_hook_def)
  obtain tm p where l: "profiler_load ld0 events0 0 (proc_init trace0 0) = Ok tm p"
    by (simp add: profiler_load_def GPUTimer_new_def HOOK_GET_SYMBOL_def call_entry_def ld0_def
        events0_def proc_init_def trace_state.extend_def Let_def)
  have "statics_ok ld0 statics0 (startTrace clock0 (Some ''on'') p)"
    using profiler_load_statics [OF l, of statics0]
    by (simp add: statics_ok_def startTrace_def Let_def)
  from hook_calls_linked [OF t(1) this t(3), of callee0 clock0 id]
  obtain rs p' where r: "hook_calls ld0 callee0 clock0 ?cs (startTrace clock0 (Some ''on'') p) = Ok rs p'"
    and d: "(rs, world p') = direct_calls (separating (startTrace clock0 (Some ''on'') p)) ld0 callee0 ?cs
              (world (startTrace clock0 (Some ''on'') p))" by blast
  have "rs = [16, 15]"
    using d by (simp add: entry_of_def device_sync_def ld0_def callee0_def
        cudaLaunchKernel_def cudaMemcpyAsync_def plain_hook_def split: if_splits)
  then show ?thesis using libraries_opened_once [OF t(1,2) l r] l r by auto
qed

text \<open>
  C37. A function that the installed library does not have: the hook exits with
  \<open>EXIT_FAILURE\<close> before anything is called. With tracing on the exit handler then aborts,
  because the hook already pushed a gap and never pushes the record that goes with it.
\<close>

theorem missing_symbol_exits:
  assumes "statics_ok ld tab p" and "in_table tab hk"
    and "entry_of ld (hk_lib hk) (hk_symbol hk) = None" and "length (api_records p) = length (gaps p)"
  shows "\<exists>p'. hook_call ld callee clk hk args p = Exit EXIT_FAILURE p' \<and> world p' = world p
    \<and> (on_trace p \<noteq> 0 \<longrightarrow> trace_deinit fl p' = Abort ''api_records->size() == gaps->size()'')"
proof -
  obtain p' where p': "hook_call ld callee clk hk args p = Exit EXIT_FAILURE p'" "world p' = world p"
    and t: "trace_state.truncate p' = snd (TraceProfile clk (hk_profile hk args) (trace_state.truncate p))"
    using hook_call_unlinked [OF assms(1-3)] by blast
  have "api_records p' = api_records p" "on_trace p \<noteq> 0 \<Longrightarrow> length (gaps p') = Suc (length (gaps p))"
    using t by (auto simp: TraceProfile_def trace_state.truncate_def split: if_splits)
  then show ?thesis using p' assms(4) by (auto simp: trace_deinit_def)
qed

theorem missing_symbol_exits_witness:
  "\<exists>p'. hook_call (ld0\<lparr>dlsym := \<lambda>_ _. None\<rparr>) callee0 clock0 cudaLaunchKernel []
      (proc_init (trace0\<lparr>on_trace := 1\<rparr>) 0) = Exit EXIT_FAILURE p'
    \<and> trace_deinit id p' = Abort ''api_records->size() == gaps->size()''"
proof -
  let ?p = "proc_init (trace0\<lparr>on_trace := 1\<rparr>) (0::int) :: (string, int) proc"
  have t: "in_table statics0 (cudaLaunchKernel :: int hook_fn)"
    "entry_of (ld0\<lparr>dlsym := \<lambda>_ _. None\<rparr>) (hk_lib (cudaLaunchKernel :: int hook_fn)) (hk_symbol (cudaLaunchKernel :: int hook_fn)) = None"
    "length (api_records ?p) = length (gaps ?p)"
    "on_trace ?p \<noteq> 0"
    by (simp_all add: statics0_def in_table_def entry_of_def ld0_def cudaLaunchKernel_def plain_hook_def
        proc_init_def trace_state.extend_def trace0_def)
  show ?thesis
    using missing_symbol_exits [OF statics_ok_init t(1-3), of callee0 clock0 "[]" id] t(4) by auto
qed

end
