(* ===== verification/Hook_Gen.thy ===== *)
theory Hook_Gen
  imports Hook
begin

text \<open>
  The generated functions of the \<open>*_hook.cpp\<close> files of the profiler as data: what each of them
  declares and what the statements of its body name. Running such an entry is \<open>gen_call\<close>. The
  theories \<open>Hooks_*\<close> hold the functions of each library in the order of the files;
  \<open>Hook_Tables\<close> shows that all of them are instances of the hooks of \<open>Hook\<close>.
\<close>

section \<open>Generated functions\<close>

text \<open>A C type as it is written; a name may consist of several words.\<close>

datatype cty = Named string | Ptr cty | Const cty | Array cty string

text \<open>
  The parts of a generated function, in the order of the text: the library whose
  \<open>HOOK_..._SYMBOL\<close> macro it uses, its declared return type, name and parameter types; the name
  given to \<open>HOOK_TRACE_PROFILE\<close>; the return and parameter types of \<open>func_ptr\<close>; the symbol that is looked
  up; for each argument of the call of \<open>func_entry\<close> the position of the parameter that is passed; and
  whether \<open>push_breakpoint\<close> is called before the result is returned.
\<close>

datatype gen_hook =
  Gen (gen_lib: hook_lib) (gen_ret: cty) (gen_name: string) (gen_params: "cty list")
    (gen_profile: string) (gen_cast_ret: cty) (gen_cast: "cty list") (gen_symbol: string)
    (gen_args: "nat list") (gen_breakpoint: bool)

text \<open>
  The call of a generated function. A call with the wrong number of arguments, a parameter that does not exist or
  a call through a pointer to a function of another type than the declared one has no defined behaviour.
\<close>

definition gen_call ::
  "'h loader \<Rightarrow> ('v, 'w) callee \<Rightarrow> clock \<Rightarrow> gen_hook \<Rightarrow> 'v list \<Rightarrow> ('h, 'w) proc \<Rightarrow> ('v, ('h, 'w) proc) exec" where
  "gen_call ld callee clk g args p =
     (if length args \<noteq> length (gen_params g) then Undef ''call with another number of arguments''
      else let (nm, p1) = TraceProfile clk (gen_profile g) p
           in exec_bind (resolve ld (gen_name g) (gen_lib g) (gen_symbol g) p1) (\<lambda>a p2.
                if (gen_cast_ret g, gen_cast g) \<noteq> (gen_ret g, gen_params g) then Undef ''call through a pointer to another type''
                else if \<not> list_all (\<lambda>i. i < length args) (gen_args g) then Undef ''no such parameter''
                else let (r, w) = callee a (map (\<lambda>i. args ! i) (gen_args g)) (world p2); p3 = p2\<lparr>world := w\<rparr>
                     in exec_bind (if gen_breakpoint g then push_breakpoint ld callee p3 else Ok () p3)
                          (\<lambda>_ p4. Ok r (TraceProfile_dtor clk nm p4))))"

fun gen_calls ::
  "'h loader \<Rightarrow> ('v, 'w) callee \<Rightarrow> clock \<Rightarrow> (gen_hook \<times> 'v list) list \<Rightarrow> ('h, 'w) proc \<Rightarrow> ('v list, ('h, 'w) proc) exec" where
  "gen_calls ld callee clk [] p = Ok [] p"
| "gen_calls ld callee clk ((g, args) # cs) p =
     exec_bind (gen_call ld callee clk g args p)
       (\<lambda>r p1. exec_bind (gen_calls ld callee clk cs p1) (\<lambda>rs p2. Ok (r # rs) p2))"

section \<open>Instances of the template\<close>

text \<open>
  A function is an instance of the template if it reports and looks up its own name, casts to its
  own type, and passes its parameters in their order.
\<close>

fun in_order :: "nat \<Rightarrow> nat list \<Rightarrow> 'a list \<Rightarrow> bool" where
  "in_order k [] [] = True"
| "in_order k (i # ns) (p # ps) = (i = k \<and> in_order (k + 1) ns ps)"
| "in_order k _ _ = False"

definition instance_of_template :: "gen_hook \<Rightarrow> bool" where
  "instance_of_template g \<longleftrightarrow> gen_profile g = gen_name g \<and> gen_symbol g = gen_name g \<and>
     gen_cast_ret g = gen_ret g \<and> gen_cast g = gen_params g \<and> in_order 0 (gen_args g) (gen_params g)"

definition hook_of :: "gen_hook \<Rightarrow> 'v hook_fn" where
  "hook_of g = (plain_hook (gen_lib g) (gen_name g))\<lparr>hk_breakpoint := gen_breakpoint g\<rparr>"

lemma in_order_upt: "in_order k ns ps \<Longrightarrow> ns = [k..<k + length ps]"
proof (induction k ns ps rule: in_order.induct)
  case (2 k i ns p ps)
  then show ?case by (simp add: upt_conv_Cons del: upt_Suc)
qed simp_all

lemma gen_call_instance:
  assumes "instance_of_template g" and len: "length args = length (gen_params g)"
  shows "gen_call ld callee clk g args p = hook_call ld callee clk (hook_of g) args p"
proof -
  have args: "gen_args g = [0..<length args]" using assms in_order_upt [of 0 "gen_args g" "gen_params g"]
    by (simp add: instance_of_template_def)
  then have "map (\<lambda>i. args ! i) (gen_args g) = args" "list_all (\<lambda>i. i < length args) (gen_args g)"
    by (simp_all add: map_nth list_all_iff)
  then show ?thesis
    using assms by (simp add: gen_call_def hook_call_def hook_of_def plain_hook_def instance_of_template_def)
qed

lemma gen_calls_instance:
  assumes "\<forall>(g, args) \<in> set cs. instance_of_template g \<and> length args = length (gen_params g)"
  shows "gen_calls ld callee clk cs p = hook_calls ld callee clk (map (\<lambda>(g, args). (hook_of g, args)) cs) p"
  using assms
proof (induction cs arbitrary: p)
  case (Cons c cs)
  then show ?case by (cases c) (auto simp: gen_call_instance intro: arg_cong)
qed simp

section \<open>Types that several libraries share\<close>

definition ty_int :: cty where "ty_int = Named ''int''"
definition ty_void :: cty where "ty_void = Named ''void''"
definition ty_cudaStream_t :: cty where "ty_cudaStream_t = Named ''cudaStream_t''"
definition ty_float :: cty where "ty_float = Named ''float''"
definition ty_double :: cty where "ty_double = Named ''double''"
definition ty_cuComplex :: cty where "ty_cuComplex = Named ''cuComplex''"
definition ty_cuDoubleComplex :: cty where "ty_cuDoubleComplex = Named ''cuDoubleComplex''"
definition ty_char :: cty where "ty_char = Named ''char''"
definition ty_libraryPropertyType :: cty where "ty_libraryPropertyType = Named ''libraryPropertyType''"
definition ty_size_t :: cty where "ty_size_t = Named ''size_t''"
definition ty_cudaDataType :: cty where "ty_cudaDataType = Named ''cudaDataType''"
definition ty_cublasOperation_t :: cty where "ty_cublasOperation_t = Named ''cublasOperation_t''"
definition ty_cublasFillMode_t :: cty where "ty_cublasFillMode_t = Named ''cublasFillMode_t''"
definition ty_cublasDiagType_t :: cty where "ty_cublasDiagType_t = Named ''cublasDiagType_t''"
definition ty_half :: cty where "ty_half = Named ''__half''"
definition ty_unsigned_char :: cty where "ty_unsigned_char = Named ''unsigned char''"
definition ty_cublasSideMode_t :: cty where "ty_cublasSideMode_t = Named ''cublasSideMode_t''"
definition ty_long_long_int :: cty where "ty_long_long_int = Named ''long long int''"
definition ty_int64_t :: cty where "ty_int64_t = Named ''int64_t''"
definition ty_unsigned_int :: cty where "ty_unsigned_int = Named ''unsigned int''"
definition ty_CUdevice :: cty where "ty_CUdevice = Named ''CUdevice''"
definition ty_unsigned :: cty where "ty_unsigned = Named ''unsigned''"
definition ty_CUcontext :: cty where "ty_CUcontext = Named ''CUcontext''"
definition ty_CUevent :: cty where "ty_CUevent = Named ''CUevent''"
definition ty_CUstream :: cty where "ty_CUstream = Named ''CUstream''"
definition ty_unsigned_long_long :: cty where "ty_unsigned_long_long = Named ''unsigned long long''"
definition ty_cudaEvent_t :: cty where "ty_cudaEvent_t = Named ''cudaEvent_t''"
definition ty_uint32_t :: cty where "ty_uint32_t = Named ''uint32_t''"
definition ty_int32_t :: cty where "ty_int32_t = Named ''int32_t''"
definition ty_cusparseMatDescr_t :: cty where "ty_cusparseMatDescr_t = Named ''cusparseMatDescr_t''"

end
