(* ===== verification/Hooks_Cublas.thy ===== *)
theory Hooks_Cublas
  imports Hook_Gen
begin

text \<open>
  The generated functions of \<open>src/cublas/cublas_hook.cpp\<close>, \<open>src/cublasLt/cublasLt_hook.cpp\<close>, in the order of the files.
\<close>

section \<open>Types\<close>

definition ty_cublasStatus :: cty where "ty_cublasStatus = Named ''cublasStatus''"
definition ty_cublasStatus_t :: cty where "ty_cublasStatus_t = Named ''cublasStatus_t''"
definition ty_cublasHandle_t :: cty where "ty_cublasHandle_t = Named ''cublasHandle_t''"
definition ty_cublasPointerMode_t :: cty where "ty_cublasPointerMode_t = Named ''cublasPointerMode_t''"
definition ty_cublasAtomicsMode_t :: cty where "ty_cublasAtomicsMode_t = Named ''cublasAtomicsMode_t''"
definition ty_cublasMath_t :: cty where "ty_cublasMath_t = Named ''cublasMath_t''"
definition ty_cublasLogCallback :: cty where "ty_cublasLogCallback = Named ''cublasLogCallback''"
definition ty_cublasComputeType_t :: cty where "ty_cublasComputeType_t = Named ''cublasComputeType_t''"
definition ty_cublasGemmAlgo_t :: cty where "ty_cublasGemmAlgo_t = Named ''cublasGemmAlgo_t''"
definition ty_cudaDataType_t :: cty where "ty_cudaDataType_t = Named ''cudaDataType_t''"
definition ty_cublasXtHandle_t :: cty where "ty_cublasXtHandle_t = Named ''cublasXtHandle_t''"
definition ty_cublasXtPinnedMemMode_t :: cty where "ty_cublasXtPinnedMemMode_t = Named ''cublasXtPinnedMemMode_t''"
definition ty_cublasXtBlasOp_t :: cty where "ty_cublasXtBlasOp_t = Named ''cublasXtBlasOp_t''"
definition ty_cublasXtOpType_t :: cty where "ty_cublasXtOpType_t = Named ''cublasXtOpType_t''"
definition ty_cublasLtHandle_t :: cty where "ty_cublasLtHandle_t = Named ''cublasLtHandle_t''"
definition ty_cublasLtMatmulDesc_t :: cty where "ty_cublasLtMatmulDesc_t = Named ''cublasLtMatmulDesc_t''"
definition ty_cublasLtMatrixLayout_t :: cty where "ty_cublasLtMatrixLayout_t = Named ''cublasLtMatrixLayout_t''"
definition ty_cublasLtMatmulAlgo_t :: cty where "ty_cublasLtMatmulAlgo_t = Named ''cublasLtMatmulAlgo_t''"
definition ty_cublasLtMatrixTransformDesc_t :: cty where "ty_cublasLtMatrixTransformDesc_t = Named ''cublasLtMatrixTransformDesc_t''"
definition ty_uint64_t :: cty where "ty_uint64_t = Named ''uint64_t''"
definition ty_cublasLtMatrixLayoutAttribute_t :: cty where "ty_cublasLtMatrixLayoutAttribute_t = Named ''cublasLtMatrixLayoutAttribute_t''"
definition ty_cublasLtMatmulDescAttributes_t :: cty where "ty_cublasLtMatmulDescAttributes_t = Named ''cublasLtMatmulDescAttributes_t''"
definition ty_cublasLtMatrixTransformDescAttributes_t :: cty where "ty_cublasLtMatrixTransformDescAttributes_t = Named ''cublasLtMatrixTransformDescAttributes_t''"
definition ty_cublasLtMatmulPreference_t :: cty where "ty_cublasLtMatmulPreference_t = Named ''cublasLtMatmulPreference_t''"
definition ty_cublasLtMatmulPreferenceAttributes_t :: cty where "ty_cublasLtMatmulPreferenceAttributes_t = Named ''cublasLtMatmulPreferenceAttributes_t''"
definition ty_cublasLtMatmulHeuristicResult_t :: cty where "ty_cublasLtMatmulHeuristicResult_t = Named ''cublasLtMatmulHeuristicResult_t''"
definition ty_cublasLtMatmulAlgoCapAttributes_t :: cty where "ty_cublasLtMatmulAlgoCapAttributes_t = Named ''cublasLtMatmulAlgoCapAttributes_t''"
definition ty_cublasLtMatmulAlgoConfigAttributes_t :: cty where "ty_cublasLtMatmulAlgoConfigAttributes_t = Named ''cublasLtMatmulAlgoConfigAttributes_t''"
definition ty_cublasLtLoggerCallback_t :: cty where "ty_cublasLtLoggerCallback_t = Named ''cublasLtLoggerCallback_t''"
definition ty_FILE :: cty where "ty_FILE = Named ''FILE''"

section \<open>\<open>cublas\<close>\<close>

definition cublas_hooks_1 :: "gen_hook list" where
  "cublas_hooks_1 =
    [Gen cublas ty_cublasStatus ''cublasInit'' []
       ''cublasInit'' ty_cublasStatus [] ''cublasInit'' [] False,
     Gen cublas ty_cublasStatus ''cublasShutdown'' []
       ''cublasShutdown'' ty_cublasStatus [] ''cublasShutdown'' [] False,
     Gen cublas ty_cublasStatus ''cublasGetError'' []
       ''cublasGetError'' ty_cublasStatus [] ''cublasGetError'' [] False,
     Gen cublas ty_cublasStatus ''cublasGetVersion'' [Ptr ty_int]
       ''cublasGetVersion'' ty_cublasStatus [Ptr ty_int] ''cublasGetVersion'' [0] False,
     Gen cublas ty_cublasStatus ''cublasAlloc'' [ty_int, ty_int, Ptr (Ptr ty_void)]
       ''cublasAlloc'' ty_cublasStatus [ty_int, ty_int, Ptr (Ptr ty_void)] ''cublasAlloc'' [0, 1, 2] False,
     Gen cublas ty_cublasStatus ''cublasFree'' [Ptr ty_void]
       ''cublasFree'' ty_cublasStatus [Ptr ty_void] ''cublasFree'' [0] False,
     Gen cublas ty_cublasStatus ''cublasSetKernelStream'' [ty_cudaStream_t]
       ''cublasSetKernelStream'' ty_cublasStatus [ty_cudaStream_t] ''cublasSetKernelStream'' [0] False,
     Gen cublas ty_float ''cublasSnrm2'' [ty_int, Ptr (Const ty_float), ty_int]
       ''cublasSnrm2'' ty_float [ty_int, Ptr (Const ty_float), ty_int] ''cublasSnrm2'' [0, 1, 2] False,
     Gen cublas ty_double ''cublasDnrm2'' [ty_int, Ptr (Const ty_double), ty_int]
       ''cublasDnrm2'' ty_double [ty_int, Ptr (Const ty_double), ty_int] ''cublasDnrm2'' [0, 1, 2] False,
     Gen cublas ty_float ''cublasScnrm2'' [ty_int, Ptr (Const ty_cuComplex), ty_int]
       ''cublasScnrm2'' ty_float [ty_int, Ptr (Const ty_cuComplex), ty_int] ''cublasScnrm2'' [0, 1, 2] False,
     Gen cublas ty_double ''cublasDznrm2'' [ty_int, Ptr (Const ty_cuDoubleComplex), ty_int]
       ''cublasDznrm2'' ty_double [ty_int, Ptr (Const ty_cuDoubleComplex), ty_int] ''cublasDznrm2'' [0, 1, 2] False,
     Gen cublas ty_float ''cublasSdot'' [ty_int, Ptr (Const ty_float), ty_int, Ptr (Const ty_float), ty_int]
       ''cublasSdot'' ty_float [ty_int, Ptr (Const ty_float), ty_int, Ptr (Const ty_float), ty_int] ''cublasSdot'' [0, 1, 2, 3, 4] False,
     Gen cublas ty_double ''cublasDdot'' [ty_int, Ptr (Const ty_double), ty_int, Ptr (Const ty_double), ty_int]
       ''cublasDdot'' ty_double [ty_int, Ptr (Const ty_double), ty_int, Ptr (Const ty_double), ty_int] ''cublasDdot'' [0, 1, 2, 3, 4] False,
     Gen cublas ty_cuComplex ''cublasCdotu'' [ty_int, Ptr (Const ty_cuComplex), ty_int, Ptr (Const ty_cuComplex), ty_int]
       ''cublasCdotu'' ty_cuComplex [ty_int, Ptr (Const ty_cuComplex), ty_int, Ptr (Const ty_cuComplex), ty_int] ''cublasCdotu'' [0, 1, 2, 3, 4] False,
     Gen cublas ty_cuComplex ''cublasCdotc'' [ty_int, Ptr (Const ty_cuComplex), ty_int, Ptr (Const ty_cuComplex), ty_int]
       ''cublasCdotc'' ty_cuComplex [ty_int, Ptr (Const ty_cuComplex), ty_int, Ptr (Const ty_cuComplex), ty_int] ''cublasCdotc'' [0, 1, 2, 3, 4] False,
     Gen cublas ty_cuDoubleComplex ''cublasZdotu'' [ty_int, Ptr (Const ty_cuDoubleComplex), ty_int, Ptr (Const ty_cuDoubleComplex), ty_int]
       ''cublasZdotu'' ty_cuDoubleComplex [ty_int, Ptr (Const ty_cuDoubleComplex), ty_int, Ptr (Const ty_cuDoubleComplex), ty_int] ''cublasZdotu'' [0, 1, 2, 3, 4] False,
     Gen cublas ty_cuDoubleComplex ''cublasZdotc'' [ty_int, Ptr (Const ty_cuDoubleComplex), ty_int, Ptr (Const ty_cuDoubleComplex), ty_int]
       ''cublasZdotc'' ty_cuDoubleComplex [ty_int, Ptr (Const ty_cuDoubleComplex), ty_int, Ptr (Const ty_cuDoubleComplex), ty_int] ''cublasZdotc'' [0, 1, 2, 3, 4] False,
     Gen cublas ty_void ''cublasSscal'' [ty_int, ty_float, Ptr ty_float, ty_int]
       ''cublasSscal'' ty_void [ty_int, ty_float, Ptr ty_float, ty_int] ''cublasSscal'' [0, 1, 2, 3] False]"

definition cublas_hooks_2 :: "gen_hook list" where
  "cublas_hooks_2 =
    [Gen cublas ty_void ''cublasDscal'' [ty_int, ty_double, Ptr ty_double, ty_int]
       ''cublasDscal'' ty_void [ty_int, ty_double, Ptr ty_double, ty_int] ''cublasDscal'' [0, 1, 2, 3] False,
     Gen cublas ty_void ''cublasCscal'' [ty_int, ty_cuComplex, Ptr ty_cuComplex, ty_int]
       ''cublasCscal'' ty_void [ty_int, ty_cuComplex, Ptr ty_cuComplex, ty_int] ''cublasCscal'' [0, 1, 2, 3] False,
     Gen cublas ty_void ''cublasZscal'' [ty_int, ty_cuDoubleComplex, Ptr ty_cuDoubleComplex, ty_int]
       ''cublasZscal'' ty_void [ty_int, ty_cuDoubleComplex, Ptr ty_cuDoubleComplex, ty_int] ''cublasZscal'' [0, 1, 2, 3] False,
     Gen cublas ty_void ''cublasCsscal'' [ty_int, ty_float, Ptr ty_cuComplex, ty_int]
       ''cublasCsscal'' ty_void [ty_int, ty_float, Ptr ty_cuComplex, ty_int] ''cublasCsscal'' [0, 1, 2, 3] False,
     Gen cublas ty_void ''cublasZdscal'' [ty_int, ty_double, Ptr ty_cuDoubleComplex, ty_int]
       ''cublasZdscal'' ty_void [ty_int, ty_double, Ptr ty_cuDoubleComplex, ty_int] ''cublasZdscal'' [0, 1, 2, 3] False,
     Gen cublas ty_void ''cublasSaxpy'' [ty_int, ty_float, Ptr (Const ty_float), ty_int, Ptr ty_float, ty_int]
       ''cublasSaxpy'' ty_void [ty_int, ty_float, Ptr (Const ty_float), ty_int, Ptr ty_float, ty_int] ''cublasSaxpy'' [0, 1, 2, 3, 4, 5] False,
     Gen cublas ty_void ''cublasDaxpy'' [ty_int, ty_double, Ptr (Const ty_double), ty_int, Ptr ty_double, ty_int]
       ''cublasDaxpy'' ty_void [ty_int, ty_double, Ptr (Const ty_double), ty_int, Ptr ty_double, ty_int] ''cublasDaxpy'' [0, 1, 2, 3, 4, 5] False,
     Gen cublas ty_void ''cublasCaxpy'' [ty_int, ty_cuComplex, Ptr (Const ty_cuComplex), ty_int, Ptr ty_cuComplex, ty_int]
       ''cublasCaxpy'' ty_void [ty_int, ty_cuComplex, Ptr (Const ty_cuComplex), ty_int, Ptr ty_cuComplex, ty_int] ''cublasCaxpy'' [0, 1, 2, 3, 4, 5] False,
     Gen cublas ty_void ''cublasZaxpy'' [ty_int, ty_cuDoubleComplex, Ptr (Const ty_cuDoubleComplex), ty_int, Ptr ty_cuDoubleComplex, ty_int]
       ''cublasZaxpy'' ty_void [ty_int, ty_cuDoubleComplex, Ptr (Const ty_cuDoubleComplex), ty_int, Ptr ty_cuDoubleComplex, ty_int] ''cublasZaxpy'' [0, 1, 2, 3, 4, 5] False,
     Gen cublas ty_void ''cublasScopy'' [ty_int, Ptr (Const ty_float), ty_int, Ptr ty_float, ty_int]
       ''cublasScopy'' ty_void [ty_int, Ptr (Const ty_float), ty_int, Ptr ty_float, ty_int] ''cublasScopy'' [0, 1, 2, 3, 4] False,
     Gen cublas ty_void ''cublasDcopy'' [ty_int, Ptr (Const ty_double), ty_int, Ptr ty_double, ty_int]
       ''cublasDcopy'' ty_void [ty_int, Ptr (Const ty_double), ty_int, Ptr ty_double, ty_int] ''cublasDcopy'' [0, 1, 2, 3, 4] False,
     Gen cublas ty_void ''cublasCcopy'' [ty_int, Ptr (Const ty_cuComplex), ty_int, Ptr ty_cuComplex, ty_int]
       ''cublasCcopy'' ty_void [ty_int, Ptr (Const ty_cuComplex), ty_int, Ptr ty_cuComplex, ty_int] ''cublasCcopy'' [0, 1, 2, 3, 4] False,
     Gen cublas ty_void ''cublasZcopy'' [ty_int, Ptr (Const ty_cuDoubleComplex), ty_int, Ptr ty_cuDoubleComplex, ty_int]
       ''cublasZcopy'' ty_void [ty_int, Ptr (Const ty_cuDoubleComplex), ty_int, Ptr ty_cuDoubleComplex, ty_int] ''cublasZcopy'' [0, 1, 2, 3, 4] False,
     Gen cublas ty_void ''cublasSswap'' [ty_int, Ptr ty_float, ty_int, Ptr ty_float, ty_int]
       ''cublasSswap'' ty_void [ty_int, Ptr ty_float, ty_int, Ptr ty_float, ty_int] ''cublasSswap'' [0, 1, 2, 3, 4] False,
     Gen cublas ty_void ''cublasDswap'' [ty_int, Ptr ty_double, ty_int, Ptr ty_double, ty_int]
       ''cublasDswap'' ty_void [ty_int, Ptr ty_double, ty_int, Ptr ty_double, ty_int] ''cublasDswap'' [0, 1, 2, 3, 4] False,
     Gen cublas ty_void ''cublasCswap'' [ty_int, Ptr ty_cuComplex, ty_int, Ptr ty_cuComplex, ty_int]
       ''cublasCswap'' ty_void [ty_int, Ptr ty_cuComplex, ty_int, Ptr ty_cuComplex, ty_int] ''cublasCswap'' [0, 1, 2, 3, 4] False,
     Gen cublas ty_void ''cublasZswap'' [ty_int, Ptr ty_cuDoubleComplex, ty_int, Ptr ty_cuDoubleComplex, ty_int]
       ''cublasZswap'' ty_void [ty_int, Ptr ty_cuDoubleComplex, ty_int, Ptr ty_cuDoubleComplex, ty_int] ''cublasZswap'' [0, 1, 2, 3, 4] False,
     Gen cublas ty_int ''cublasIsamax'' [ty_int, Ptr (Const ty_float), ty_int]
       ''cublasIsamax'' ty_int [ty_int, Ptr (Const ty_float), ty_int] ''cublasIsamax'' [0, 1, 2] False]"

definition cublas_hooks_3 :: "gen_hook list" where
  "cublas_hooks_3 =
    [Gen cublas ty_int ''cublasIdamax'' [ty_int, Ptr (Const ty_double), ty_int]
       ''cublasIdamax'' ty_int [ty_int, Ptr (Const ty_double), ty_int] ''cublasIdamax'' [0, 1, 2] False,
     Gen cublas ty_int ''cublasIcamax'' [ty_int, Ptr (Const ty_cuComplex), ty_int]
       ''cublasIcamax'' ty_int [ty_int, Ptr (Const ty_cuComplex), ty_int] ''cublasIcamax'' [0, 1, 2] False,
     Gen cublas ty_int ''cublasIzamax'' [ty_int, Ptr (Const ty_cuDoubleComplex), ty_int]
       ''cublasIzamax'' ty_int [ty_int, Ptr (Const ty_cuDoubleComplex), ty_int] ''cublasIzamax'' [0, 1, 2] False,
     Gen cublas ty_int ''cublasIsamin'' [ty_int, Ptr (Const ty_float), ty_int]
       ''cublasIsamin'' ty_int [ty_int, Ptr (Const ty_float), ty_int] ''cublasIsamin'' [0, 1, 2] False,
     Gen cublas ty_int ''cublasIdamin'' [ty_int, Ptr (Const ty_double), ty_int]
       ''cublasIdamin'' ty_int [ty_int, Ptr (Const ty_double), ty_int] ''cublasIdamin'' [0, 1, 2] False,
     Gen cublas ty_int ''cublasIcamin'' [ty_int, Ptr (Const ty_cuComplex), ty_int]
       ''cublasIcamin'' ty_int [ty_int, Ptr (Const ty_cuComplex), ty_int] ''cublasIcamin'' [0, 1, 2] False,
     Gen cublas ty_int ''cublasIzamin'' [ty_int, Ptr (Const ty_cuDoubleComplex), ty_int]
       ''cublasIzamin'' ty_int [ty_int, Ptr (Const ty_cuDoubleComplex), ty_int] ''cublasIzamin'' [0, 1, 2] False,
     Gen cublas ty_float ''cublasSasum'' [ty_int, Ptr (Const ty_float), ty_int]
       ''cublasSasum'' ty_float [ty_int, Ptr (Const ty_float), ty_int] ''cublasSasum'' [0, 1, 2] False,
     Gen cublas ty_double ''cublasDasum'' [ty_int, Ptr (Const ty_double), ty_int]
       ''cublasDasum'' ty_double [ty_int, Ptr (Const ty_double), ty_int] ''cublasDasum'' [0, 1, 2] False,
     Gen cublas ty_float ''cublasScasum'' [ty_int, Ptr (Const ty_cuComplex), ty_int]
       ''cublasScasum'' ty_float [ty_int, Ptr (Const ty_cuComplex), ty_int] ''cublasScasum'' [0, 1, 2] False,
     Gen cublas ty_double ''cublasDzasum'' [ty_int, Ptr (Const ty_cuDoubleComplex), ty_int]
       ''cublasDzasum'' ty_double [ty_int, Ptr (Const ty_cuDoubleComplex), ty_int] ''cublasDzasum'' [0, 1, 2] False,
     Gen cublas ty_void ''cublasSrot'' [ty_int, Ptr ty_float, ty_int, Ptr ty_float, ty_int, ty_float, ty_float]
       ''cublasSrot'' ty_void [ty_int, Ptr ty_float, ty_int, Ptr ty_float, ty_int, ty_float, ty_float] ''cublasSrot'' [0, 1, 2, 3, 4, 5, 6] False,
     Gen cublas ty_void ''cublasDrot'' [ty_int, Ptr ty_double, ty_int, Ptr ty_double, ty_int, ty_double, ty_double]
       ''cublasDrot'' ty_void [ty_int, Ptr ty_double, ty_int, Ptr ty_double, ty_int, ty_double, ty_double] ''cublasDrot'' [0, 1, 2, 3, 4, 5, 6] False,
     Gen cublas ty_void ''cublasCrot'' [ty_int, Ptr ty_cuComplex, ty_int, Ptr ty_cuComplex, ty_int, ty_float, ty_cuComplex]
       ''cublasCrot'' ty_void [ty_int, Ptr ty_cuComplex, ty_int, Ptr ty_cuComplex, ty_int, ty_float, ty_cuComplex] ''cublasCrot'' [0, 1, 2, 3, 4, 5, 6] False,
     Gen cublas ty_void ''cublasZrot'' [ty_int, Ptr ty_cuDoubleComplex, ty_int, Ptr ty_cuDoubleComplex, ty_int, ty_double, ty_cuDoubleComplex]
       ''cublasZrot'' ty_void [ty_int, Ptr ty_cuDoubleComplex, ty_int, Ptr ty_cuDoubleComplex, ty_int, ty_double, ty_cuDoubleComplex] ''cublasZrot'' [0, 1, 2, 3, 4, 5, 6] False,
     Gen cublas ty_void ''cublasCsrot'' [ty_int, Ptr ty_cuComplex, ty_int, Ptr ty_cuComplex, ty_int, ty_float, ty_float]
       ''cublasCsrot'' ty_void [ty_int, Ptr ty_cuComplex, ty_int, Ptr ty_cuComplex, ty_int, ty_float, ty_float] ''cublasCsrot'' [0, 1, 2, 3, 4, 5, 6] False,
     Gen cublas ty_void ''cublasZdrot'' [ty_int, Ptr ty_cuDoubleComplex, ty_int, Ptr ty_cuDoubleComplex, ty_int, ty_double, ty_double]
       ''cublasZdrot'' ty_void [ty_int, Ptr ty_cuDoubleComplex, ty_int, Ptr ty_cuDoubleComplex, ty_int, ty_double, ty_double] ''cublasZdrot'' [0, 1, 2, 3, 4, 5, 6] False,
     Gen cublas ty_void ''cublasSrotg'' [Ptr ty_float, Ptr ty_float, Ptr ty_float, Ptr ty_float]
       ''cublasSrotg'' ty_void [Ptr ty_float, Ptr ty_float, Ptr ty_float, Ptr ty_float] ''cublasSrotg'' [0, 1, 2, 3] False]"

definition cublas_hooks_4 :: "gen_hook list" where
  "cublas_hooks_4 =
    [Gen cublas ty_void ''cublasDrotg'' [Ptr ty_double, Ptr ty_double, Ptr ty_double, Ptr ty_double]
       ''cublasDrotg'' ty_void [Ptr ty_double, Ptr ty_double, Ptr ty_double, Ptr ty_double] ''cublasDrotg'' [0, 1, 2, 3] False,
     Gen cublas ty_void ''cublasCrotg'' [Ptr ty_cuComplex, ty_cuComplex, Ptr ty_float, Ptr ty_cuComplex]
       ''cublasCrotg'' ty_void [Ptr ty_cuComplex, ty_cuComplex, Ptr ty_float, Ptr ty_cuComplex] ''cublasCrotg'' [0, 1, 2, 3] False,
     Gen cublas ty_void ''cublasZrotg'' [Ptr ty_cuDoubleComplex, ty_cuDoubleComplex, Ptr ty_double, Ptr ty_cuDoubleComplex]
       ''cublasZrotg'' ty_void [Ptr ty_cuDoubleComplex, ty_cuDoubleComplex, Ptr ty_double, Ptr ty_cuDoubleComplex] ''cublasZrotg'' [0, 1, 2, 3] False,
     Gen cublas ty_void ''cublasSrotm'' [ty_int, Ptr ty_float, ty_int, Ptr ty_float, ty_int, Ptr (Const ty_float)]
       ''cublasSrotm'' ty_void [ty_int, Ptr ty_float, ty_int, Ptr ty_float, ty_int, Ptr (Const ty_float)] ''cublasSrotm'' [0, 1, 2, 3, 4, 5] False,
     Gen cublas ty_void ''cublasDrotm'' [ty_int, Ptr ty_double, ty_int, Ptr ty_double, ty_int, Ptr (Const ty_double)]
       ''cublasDrotm'' ty_void [ty_int, Ptr ty_double, ty_int, Ptr ty_double, ty_int, Ptr (Const ty_double)] ''cublasDrotm'' [0, 1, 2, 3, 4, 5] False,
     Gen cublas ty_void ''cublasSrotmg'' [Ptr ty_float, Ptr ty_float, Ptr ty_float, Ptr (Const ty_float), Ptr ty_float]
       ''cublasSrotmg'' ty_void [Ptr ty_float, Ptr ty_float, Ptr ty_float, Ptr (Const ty_float), Ptr ty_float] ''cublasSrotmg'' [0, 1, 2, 3, 4] False,
     Gen cublas ty_void ''cublasDrotmg'' [Ptr ty_double, Ptr ty_double, Ptr ty_double, Ptr (Const ty_double), Ptr ty_double]
       ''cublasDrotmg'' ty_void [Ptr ty_double, Ptr ty_double, Ptr ty_double, Ptr (Const ty_double), Ptr ty_double] ''cublasDrotmg'' [0, 1, 2, 3, 4] False,
     Gen cublas ty_void ''cublasSgemv'' [ty_char, ty_int, ty_int, ty_float, Ptr (Const ty_float), ty_int, Ptr (Const ty_float), ty_int, ty_float, Ptr ty_float, ty_int]
       ''cublasSgemv'' ty_void [ty_char, ty_int, ty_int, ty_float, Ptr (Const ty_float), ty_int, Ptr (Const ty_float), ty_int, ty_float, Ptr ty_float, ty_int] ''cublasSgemv'' [0, 1, 2, 3, 4, 5, 6, 7, 8, 9, 10] False,
     Gen cublas ty_void ''cublasDgemv'' [ty_char, ty_int, ty_int, ty_double, Ptr (Const ty_double), ty_int, Ptr (Const ty_double), ty_int, ty_double, Ptr ty_double, ty_int]
       ''cublasDgemv'' ty_void [ty_char, ty_int, ty_int, ty_double, Ptr (Const ty_double), ty_int, Ptr (Const ty_double), ty_int, ty_double, Ptr ty_double, ty_int] ''cublasDgemv'' [0, 1, 2, 3, 4, 5, 6, 7, 8, 9, 10] False,
     Gen cublas ty_void ''cublasCgemv'' [ty_char, ty_int, ty_int, ty_cuComplex, Ptr (Const ty_cuComplex), ty_int, Ptr (Const ty_cuComplex), ty_int, ty_cuComplex, Ptr ty_cuComplex, ty_int]
       ''cublasCgemv'' ty_void [ty_char, ty_int, ty_int, ty_cuComplex, Ptr (Const ty_cuComplex), ty_int, Ptr (Const ty_cuComplex), ty_int, ty_cuComplex, Ptr ty_cuComplex, ty_int] ''cublasCgemv'' [0, 1, 2, 3, 4, 5, 6, 7, 8, 9, 10] False,
     Gen cublas ty_void ''cublasZgemv'' [ty_char, ty_int, ty_int, ty_cuDoubleComplex, Ptr (Const ty_cuDoubleComplex), ty_int, Ptr (Const ty_cuDoubleComplex), ty_int, ty_cuDoubleComplex, Ptr ty_cuDoubleComplex, ty_int]
       ''cublasZgemv'' ty_void [ty_char, ty_int, ty_int, ty_cuDoubleComplex, Ptr (Const ty_cuDoubleComplex), ty_int, Ptr (Const ty_cuDoubleComplex), ty_int, ty_cuDoubleComplex, Ptr ty_cuDoubleComplex, ty_int] ''cublasZgemv'' [0, 1, 2, 3, 4, 5, 6, 7, 8, 9, 10] False,
     Gen cublas ty_void ''cublasSgbmv'' [ty_char, ty_int, ty_int, ty_int, ty_int, ty_float, Ptr (Const ty_float), ty_int, Ptr (Const ty_float), ty_int, ty_float, Ptr ty_float, ty_int]
       ''cublasSgbmv'' ty_void [ty_char, ty_int, ty_int, ty_int, ty_int, ty_float, Ptr (Const ty_float), ty_int, Ptr (Const ty_float), ty_int, ty_float, Ptr ty_float, ty_int] ''cublasSgbmv'' [0, 1, 2, 3, 4, 5, 6, 7, 8, 9, 10, 11, 12] False,
     Gen cublas ty_void ''cublasDgbmv'' [ty_char, ty_int, ty_int, ty_int, ty_int, ty_double, Ptr (Const ty_double), ty_int, Ptr (Const ty_double), ty_int, ty_double, Ptr ty_double, ty_int]
       ''cublasDgbmv'' ty_void [ty_char, ty_int, ty_int, ty_int, ty_int, ty_double, Ptr (Const ty_double), ty_int, Ptr (Const ty_double), ty_int, ty_double, Ptr ty_double, ty_int] ''cublasDgbmv'' [0, 1, 2, 3, 4, 5, 6, 7, 8, 9, 10, 11, 12] False,
     Gen cublas ty_void ''cublasCgbmv'' [ty_char, ty_int, ty_int, ty_int, ty_int, ty_cuComplex, Ptr (Const ty_cuComplex), ty_int, Ptr (Const ty_cuComplex), ty_int, ty_cuComplex, Ptr ty_cuComplex, ty_int]
       ''cublasCgbmv'' ty_void [ty_char, ty_int, ty_int, ty_int, ty_int, ty_cuComplex, Ptr (Const ty_cuComplex), ty_int, Ptr (Const ty_cuComplex), ty_int, ty_cuComplex, Ptr ty_cuComplex, ty_int] ''cublasCgbmv'' [0, 1, 2, 3, 4, 5, 6, 7, 8, 9, 10, 11, 12] False,
     Gen cublas ty_void ''cublasZgbmv'' [ty_char, ty_int, ty_int, ty_int, ty_int, ty_cuDoubleComplex, Ptr (Const ty_cuDoubleComplex), ty_int, Ptr (Const ty_cuDoubleComplex), ty_int, ty_cuDoubleComplex, Ptr ty_cuDoubleComplex, ty_int]
       ''cublasZgbmv'' ty_void [ty_char, ty_int, ty_int, ty_int, ty_int, ty_cuDoubleComplex, Ptr (Const ty_cuDoubleComplex), ty_int, Ptr (Const ty_cuDoubleComplex), ty_int, ty_cuDoubleComplex, Ptr ty_cuDoubleComplex, ty_int] ''cublasZgbmv'' [0, 1, 2, 3, 4, 5, 6, 7, 8, 9, 10, 11, 12] False,
     Gen cublas ty_void ''cublasStrmv'' [ty_char, ty_char, ty_char, ty_int, Ptr (Const ty_float), ty_int, Ptr ty_float, ty_int]
       ''cublasStrmv'' ty_void [ty_char, ty_char, ty_char, ty_int, Ptr (Const ty_float), ty_int, Ptr ty_float, ty_int] ''cublasStrmv'' [0, 1, 2, 3, 4, 5, 6, 7] False]"

definition cublas_hooks_5 :: "gen_hook list" where
  "cublas_hooks_5 =
    [Gen cublas ty_void ''cublasDtrmv'' [ty_char, ty_char, ty_char, ty_int, Ptr (Const ty_double), ty_int, Ptr ty_double, ty_int]
       ''cublasDtrmv'' ty_void [ty_char, ty_char, ty_char, ty_int, Ptr (Const ty_double), ty_int, Ptr ty_double, ty_int] ''cublasDtrmv'' [0, 1, 2, 3, 4, 5, 6, 7] False,
     Gen cublas ty_void ''cublasCtrmv'' [ty_char, ty_char, ty_char, ty_int, Ptr (Const ty_cuComplex), ty_int, Ptr ty_cuComplex, ty_int]
       ''cublasCtrmv'' ty_void [ty_char, ty_char, ty_char, ty_int, Ptr (Const ty_cuComplex), ty_int, Ptr ty_cuComplex, ty_int] ''cublasCtrmv'' [0, 1, 2, 3, 4, 5, 6, 7] False,
     Gen cublas ty_void ''cublasZtrmv'' [ty_char, ty_char, ty_char, ty_int, Ptr (Const ty_cuDoubleComplex), ty_int, Ptr ty_cuDoubleComplex, ty_int]
       ''cublasZtrmv'' ty_void [ty_char, ty_char, ty_char, ty_int, Ptr (Const ty_cuDoubleComplex), ty_int, Ptr ty_cuDoubleComplex, ty_int] ''cublasZtrmv'' [0, 1, 2, 3, 4, 5, 6, 7] False,
     Gen cublas ty_void ''cublasStbmv'' [ty_char, ty_char, ty_char, ty_int, ty_int, Ptr (Const ty_float), ty_int, Ptr ty_float, ty_int]
       ''cublasStbmv'' ty_void [ty_char, ty_char, ty_char, ty_int, ty_int, Ptr (Const ty_float), ty_int, Ptr ty_float, ty_int] ''cublasStbmv'' [0, 1, 2, 3, 4, 5, 6, 7, 8] False,
     Gen cublas ty_void ''cublasDtbmv'' [ty_char, ty_char, ty_char, ty_int, ty_int, Ptr (Const ty_double), ty_int, Ptr ty_double, ty_int]
       ''cublasDtbmv'' ty_void [ty_char, ty_char, ty_char, ty_int, ty_int, Ptr (Const ty_double), ty_int, Ptr ty_double, ty_int] ''cublasDtbmv'' [0, 1, 2, 3, 4, 5, 6, 7, 8] False,
     Gen cublas ty_void ''cublasCtbmv'' [ty_char, ty_char, ty_char, ty_int, ty_int, Ptr (Const ty_cuComplex), ty_int, Ptr ty_cuComplex, ty_int]
       ''cublasCtbmv'' ty_void [ty_char, ty_char, ty_char, ty_int, ty_int, Ptr (Const ty_cuComplex), ty_int, Ptr ty_cuComplex, ty_int] ''cublasCtbmv'' [0, 1, 2, 3, 4, 5, 6, 7, 8] False,
     Gen cublas ty_void ''cublasZtbmv'' [ty_char, ty_char, ty_char, ty_int, ty_int, Ptr (Const ty_cuDoubleComplex), ty_int, Ptr ty_cuDoubleComplex, ty_int]
       ''cublasZtbmv'' ty_void [ty_char, ty_char, ty_char, ty_int, ty_int, Ptr (Const ty_cuDoubleComplex), ty_int, Ptr ty_cuDoubleComplex, ty_int] ''cublasZtbmv'' [0, 1, 2, 3, 4, 5, 6, 7, 8] False,
     Gen cublas ty_void ''cublasStpmv'' [ty_char, ty_char, ty_char, ty_int, Ptr (Const ty_float), Ptr ty_float, ty_int]
       ''cublasStpmv'' ty_void [ty_char, ty_char, ty_char, ty_int, Ptr (Const ty_float), Ptr ty_float, ty_int] ''cublasStpmv'' [0, 1, 2, 3, 4, 5, 6] False,
     Gen cublas ty_void ''cublasDtpmv'' [ty_char, ty_char, ty_char, ty_int, Ptr (Const ty_double), Ptr ty_double, ty_int]
       ''cublasDtpmv'' ty_void [ty_char, ty_char, ty_char, ty_int, Ptr (Const ty_double), Ptr ty_double, ty_int] ''cublasDtpmv'' [0, 1, 2, 3, 4, 5, 6] False,
     Gen cublas ty_void ''cublasCtpmv'' [ty_char, ty_char, ty_char, ty_int, Ptr (Const ty_cuComplex), Ptr ty_cuComplex, ty_int]
       ''cublasCtpmv'' ty_void [ty_char, ty_char, ty_char, ty_int, Ptr (Const ty_cuComplex), Ptr ty_cuComplex, ty_int] ''cublasCtpmv'' [0, 1, 2, 3, 4, 5, 6] False,
     Gen cublas ty_void ''cublasZtpmv'' [ty_char, ty_char, ty_char, ty_int, Ptr (Const ty_cuDoubleComplex), Ptr ty_cuDoubleComplex, ty_int]
       ''cublasZtpmv'' ty_void [ty_char, ty_char, ty_char, ty_int, Ptr (Const ty_cuDoubleComplex), Ptr ty_cuDoubleComplex, ty_int] ''cublasZtpmv'' [0, 1, 2, 3, 4, 5, 6] False,
     Gen cublas ty_void ''cublasStrsv'' [ty_char, ty_char, ty_char, ty_int, Ptr (Const ty_float), ty_int, Ptr ty_float, ty_int]
       ''cublasStrsv'' ty_void [ty_char, ty_char, ty_char, ty_int, Ptr (Const ty_float), ty_int, Ptr ty_float, ty_int] ''cublasStrsv'' [0, 1, 2, 3, 4, 5, 6, 7] False,
     Gen cublas ty_void ''cublasDtrsv'' [ty_char, ty_char, ty_char, ty_int, Ptr (Const ty_double), ty_int, Ptr ty_double, ty_int]
       ''cublasDtrsv'' ty_void [ty_char, ty_char, ty_char, ty_int, Ptr (Const ty_double), ty_int, Ptr ty_double, ty_int] ''cublasDtrsv'' [0, 1, 2, 3, 4, 5, 6, 7] False,
     Gen cublas ty_void ''cublasCtrsv'' [ty_char, ty_char, ty_char, ty_int, Ptr (Const ty_cuComplex), ty_int, Ptr ty_cuComplex, ty_int]
       ''cublasCtrsv'' ty_void [ty_char, ty_char, ty_char, ty_int, Ptr (Const ty_cuComplex), ty_int, Ptr ty_cuComplex, ty_int] ''cublasCtrsv'' [0, 1, 2, 3, 4, 5, 6, 7] False,
     Gen cublas ty_void ''cublasZtrsv'' [ty_char, ty_char, ty_char, ty_int, Ptr (Const ty_cuDoubleComplex), ty_int, Ptr ty_cuDoubleComplex, ty_int]
       ''cublasZtrsv'' ty_void [ty_char, ty_char, ty_char, ty_int, Ptr (Const ty_cuDoubleComplex), ty_int, Ptr ty_cuDoubleComplex, ty_int] ''cublasZtrsv'' [0, 1, 2, 3, 4, 5, 6, 7] False,
     Gen cublas ty_void ''cublasStpsv'' [ty_char, ty_char, ty_char, ty_int, Ptr (Const ty_float), Ptr ty_float, ty_int]
       ''cublasStpsv'' ty_void [ty_char, ty_char, ty_char, ty_int, Ptr (Const ty_float), Ptr ty_float, ty_int] ''cublasStpsv'' [0, 1, 2, 3, 4, 5, 6] False]"

definition cublas_hooks_6 :: "gen_hook list" where
  "cublas_hooks_6 =
    [Gen cublas ty_void ''cublasDtpsv'' [ty_char, ty_char, ty_char, ty_int, Ptr (Const ty_double), Ptr ty_double, ty_int]
       ''cublasDtpsv'' ty_void [ty_char, ty_char, ty_char, ty_int, Ptr (Const ty_double), Ptr ty_double, ty_int] ''cublasDtpsv'' [0, 1, 2, 3, 4, 5, 6] False,
     Gen cublas ty_void ''cublasCtpsv'' [ty_char, ty_char, ty_char, ty_int, Ptr (Const ty_cuComplex), Ptr ty_cuComplex, ty_int]
       ''cublasCtpsv'' ty_void [ty_char, ty_char, ty_char, ty_int, Ptr (Const ty_cuComplex), Ptr ty_cuComplex, ty_int] ''cublasCtpsv'' [0, 1, 2, 3, 4, 5, 6] False,
     Gen cublas ty_void ''cublasZtpsv'' [ty_char, ty_char, ty_char, ty_int, Ptr (Const ty_cuDoubleComplex), Ptr ty_cuDoubleComplex, ty_int]
       ''cublasZtpsv'' ty_void [ty_char, ty_char, ty_char, ty_int, Ptr (Const ty_cuDoubleComplex), Ptr ty_cuDoubleComplex, ty_int] ''cublasZtpsv'' [0, 1, 2, 3, 4, 5, 6] False,
     Gen cublas ty_void ''cublasStbsv'' [ty_char, ty_char, ty_char, ty_int, ty_int, Ptr (Const ty_float), ty_int, Ptr ty_float, ty_int]
       ''cublasStbsv'' ty_void [ty_char, ty_char, ty_char, ty_int, ty_int, Ptr (Const ty_float), ty_int, Ptr ty_float, ty_int] ''cublasStbsv'' [0, 1, 2, 3, 4, 5, 6, 7, 8] False,
     Gen cublas ty_void ''cublasDtbsv'' [ty_char, ty_char, ty_char, ty_int, ty_int, Ptr (Const ty_double), ty_int, Ptr ty_double, ty_int]
       ''cublasDtbsv'' ty_void [ty_char, ty_char, ty_char, ty_int, ty_int, Ptr (Const ty_double), ty_int, Ptr ty_double, ty_int] ''cublasDtbsv'' [0, 1, 2, 3, 4, 5, 6, 7, 8] False,
     Gen cublas ty_void ''cublasCtbsv'' [ty_char, ty_char, ty_char, ty_int, ty_int, Ptr (Const ty_cuComplex), ty_int, Ptr ty_cuComplex, ty_int]
       ''cublasCtbsv'' ty_void [ty_char, ty_char, ty_char, ty_int, ty_int, Ptr (Const ty_cuComplex), ty_int, Ptr ty_cuComplex, ty_int] ''cublasCtbsv'' [0, 1, 2, 3, 4, 5, 6, 7, 8] False,
     Gen cublas ty_void ''cublasZtbsv'' [ty_char, ty_char, ty_char, ty_int, ty_int, Ptr (Const ty_cuDoubleComplex), ty_int, Ptr ty_cuDoubleComplex, ty_int]
       ''cublasZtbsv'' ty_void [ty_char, ty_char, ty_char, ty_int, ty_int, Ptr (Const ty_cuDoubleComplex), ty_int, Ptr ty_cuDoubleComplex, ty_int] ''cublasZtbsv'' [0, 1, 2, 3, 4, 5, 6, 7, 8] False,
     Gen cublas ty_void ''cublasSsymv'' [ty_char, ty_int, ty_float, Ptr (Const ty_float), ty_int, Ptr (Const ty_float), ty_int, ty_float, Ptr ty_float, ty_int]
       ''cublasSsymv'' ty_void [ty_char, ty_int, ty_float, Ptr (Const ty_float), ty_int, Ptr (Const ty_float), ty_int, ty_float, Ptr ty_float, ty_int] ''cublasSsymv'' [0, 1, 2, 3, 4, 5, 6, 7, 8, 9] False,
     Gen cublas ty_void ''cublasDsymv'' [ty_char, ty_int, ty_double, Ptr (Const ty_double), ty_int, Ptr (Const ty_double), ty_int, ty_double, Ptr ty_double, ty_int]
       ''cublasDsymv'' ty_void [ty_char, ty_int, ty_double, Ptr (Const ty_double), ty_int, Ptr (Const ty_double), ty_int, ty_double, Ptr ty_double, ty_int] ''cublasDsymv'' [0, 1, 2, 3, 4, 5, 6, 7, 8, 9] False,
     Gen cublas ty_void ''cublasChemv'' [ty_char, ty_int, ty_cuComplex, Ptr (Const ty_cuComplex), ty_int, Ptr (Const ty_cuComplex), ty_int, ty_cuComplex, Ptr ty_cuComplex, ty_int]
       ''cublasChemv'' ty_void [ty_char, ty_int, ty_cuComplex, Ptr (Const ty_cuComplex), ty_int, Ptr (Const ty_cuComplex), ty_int, ty_cuComplex, Ptr ty_cuComplex, ty_int] ''cublasChemv'' [0, 1, 2, 3, 4, 5, 6, 7, 8, 9] False,
     Gen cublas ty_void ''cublasZhemv'' [ty_char, ty_int, ty_cuDoubleComplex, Ptr (Const ty_cuDoubleComplex), ty_int, Ptr (Const ty_cuDoubleComplex), ty_int, ty_cuDoubleComplex, Ptr ty_cuDoubleComplex, ty_int]
       ''cublasZhemv'' ty_void [ty_char, ty_int, ty_cuDoubleComplex, Ptr (Const ty_cuDoubleComplex), ty_int, Ptr (Const ty_cuDoubleComplex), ty_int, ty_cuDoubleComplex, Ptr ty_cuDoubleComplex, ty_int] ''cublasZhemv'' [0, 1, 2, 3, 4, 5, 6, 7, 8, 9] False,
     Gen cublas ty_void ''cublasSsbmv'' [ty_char, ty_int, ty_int, ty_float, Ptr (Const ty_float), ty_int, Ptr (Const ty_float), ty_int, ty_float, Ptr ty_float, ty_int]
       ''cublasSsbmv'' ty_void [ty_char, ty_int, ty_int, ty_float, Ptr (Const ty_float), ty_int, Ptr (Const ty_float), ty_int, ty_float, Ptr ty_float, ty_int] ''cublasSsbmv'' [0, 1, 2, 3, 4, 5, 6, 7, 8, 9, 10] False,
     Gen cublas ty_void ''cublasDsbmv'' [ty_char, ty_int, ty_int, ty_double, Ptr (Const ty_double), ty_int, Ptr (Const ty_double), ty_int, ty_double, Ptr ty_double, ty_int]
       ''cublasDsbmv'' ty_void [ty_char, ty_int, ty_int, ty_double, Ptr (Const ty_double), ty_int, Ptr (Const ty_double), ty_int, ty_double, Ptr ty_double, ty_int] ''cublasDsbmv'' [0, 1, 2, 3, 4, 5, 6, 7, 8, 9, 10] False,
     Gen cublas ty_void ''cublasChbmv'' [ty_char, ty_int, ty_int, ty_cuComplex, Ptr (Const ty_cuComplex), ty_int, Ptr (Const ty_cuComplex), ty_int, ty_cuComplex, Ptr ty_cuComplex, ty_int]
       ''cublasChbmv'' ty_void [ty_char, ty_int, ty_int, ty_cuComplex, Ptr (Const ty_cuComplex), ty_int, Ptr (Const ty_cuComplex), ty_int, ty_cuComplex, Ptr ty_cuComplex, ty_int] ''cublasChbmv'' [0, 1, 2, 3, 4, 5, 6, 7, 8, 9, 10] False,
     Gen cublas ty_void ''cublasZhbmv'' [ty_char, ty_int, ty_int, ty_cuDoubleComplex, Ptr (Const ty_cuDoubleComplex), ty_int, Ptr (Const ty_cuDoubleComplex), ty_int, ty_cuDoubleComplex, Ptr ty_cuDoubleComplex, ty_int]
       ''cublasZhbmv'' ty_void [ty_char, ty_int, ty_int, ty_cuDoubleComplex, Ptr (Const ty_cuDoubleComplex), ty_int, Ptr (Const ty_cuDoubleComplex), ty_int, ty_cuDoubleComplex, Ptr ty_cuDoubleComplex, ty_int] ''cublasZhbmv'' [0, 1, 2, 3, 4, 5, 6, 7, 8, 9, 10] False,
     Gen cublas ty_void ''cublasSspmv'' [ty_char, ty_int, ty_float, Ptr (Const ty_float), Ptr (Const ty_float), ty_int, ty_float, Ptr ty_float, ty_int]
       ''cublasSspmv'' ty_void [ty_char, ty_int, ty_float, Ptr (Const ty_float), Ptr (Const ty_float), ty_int, ty_float, Ptr ty_float, ty_int] ''cublasSspmv'' [0, 1, 2, 3, 4, 5, 6, 7, 8] False]"

definition cublas_hooks_7 :: "gen_hook list" where
  "cublas_hooks_7 =
    [Gen cublas ty_void ''cublasDspmv'' [ty_char, ty_int, ty_double, Ptr (Const ty_double), Ptr (Const ty_double), ty_int, ty_double, Ptr ty_double, ty_int]
       ''cublasDspmv'' ty_void [ty_char, ty_int, ty_double, Ptr (Const ty_double), Ptr (Const ty_double), ty_int, ty_double, Ptr ty_double, ty_int] ''cublasDspmv'' [0, 1, 2, 3, 4, 5, 6, 7, 8] False,
     Gen cublas ty_void ''cublasChpmv'' [ty_char, ty_int, ty_cuComplex, Ptr (Const ty_cuComplex), Ptr (Const ty_cuComplex), ty_int, ty_cuComplex, Ptr ty_cuComplex, ty_int]
       ''cublasChpmv'' ty_void [ty_char, ty_int, ty_cuComplex, Ptr (Const ty_cuComplex), Ptr (Const ty_cuComplex), ty_int, ty_cuComplex, Ptr ty_cuComplex, ty_int] ''cublasChpmv'' [0, 1, 2, 3, 4, 5, 6, 7, 8] False,
     Gen cublas ty_void ''cublasZhpmv'' [ty_char, ty_int, ty_cuDoubleComplex, Ptr (Const ty_cuDoubleComplex), Ptr (Const ty_cuDoubleComplex), ty_int, ty_cuDoubleComplex, Ptr ty_cuDoubleComplex, ty_int]
       ''cublasZhpmv'' ty_void [ty_char, ty_int, ty_cuDoubleComplex, Ptr (Const ty_cuDoubleComplex), Ptr (Const ty_cuDoubleComplex), ty_int, ty_cuDoubleComplex, Ptr ty_cuDoubleComplex, ty_int] ''cublasZhpmv'' [0, 1, 2, 3, 4, 5, 6, 7, 8] False,
     Gen cublas ty_void ''cublasSger'' [ty_int, ty_int, ty_float, Ptr (Const ty_float), ty_int, Ptr (Const ty_float), ty_int, Ptr ty_float, ty_int]
       ''cublasSger'' ty_void [ty_int, ty_int, ty_float, Ptr (Const ty_float), ty_int, Ptr (Const ty_float), ty_int, Ptr ty_float, ty_int] ''cublasSger'' [0, 1, 2, 3, 4, 5, 6, 7, 8] False,
     Gen cublas ty_void ''cublasDger'' [ty_int, ty_int, ty_double, Ptr (Const ty_double), ty_int, Ptr (Const ty_double), ty_int, Ptr ty_double, ty_int]
       ''cublasDger'' ty_void [ty_int, ty_int, ty_double, Ptr (Const ty_double), ty_int, Ptr (Const ty_double), ty_int, Ptr ty_double, ty_int] ''cublasDger'' [0, 1, 2, 3, 4, 5, 6, 7, 8] False,
     Gen cublas ty_void ''cublasCgeru'' [ty_int, ty_int, ty_cuComplex, Ptr (Const ty_cuComplex), ty_int, Ptr (Const ty_cuComplex), ty_int, Ptr ty_cuComplex, ty_int]
       ''cublasCgeru'' ty_void [ty_int, ty_int, ty_cuComplex, Ptr (Const ty_cuComplex), ty_int, Ptr (Const ty_cuComplex), ty_int, Ptr ty_cuComplex, ty_int] ''cublasCgeru'' [0, 1, 2, 3, 4, 5, 6, 7, 8] False,
     Gen cublas ty_void ''cublasCgerc'' [ty_int, ty_int, ty_cuComplex, Ptr (Const ty_cuComplex), ty_int, Ptr (Const ty_cuComplex), ty_int, Ptr ty_cuComplex, ty_int]
       ''cublasCgerc'' ty_void [ty_int, ty_int, ty_cuComplex, Ptr (Const ty_cuComplex), ty_int, Ptr (Const ty_cuComplex), ty_int, Ptr ty_cuComplex, ty_int] ''cublasCgerc'' [0, 1, 2, 3, 4, 5, 6, 7, 8] False,
     Gen cublas ty_void ''cublasZgeru'' [ty_int, ty_int, ty_cuDoubleComplex, Ptr (Const ty_cuDoubleComplex), ty_int, Ptr (Const ty_cuDoubleComplex), ty_int, Ptr ty_cuDoubleComplex, ty_int]
       ''cublasZgeru'' ty_void [ty_int, ty_int, ty_cuDoubleComplex, Ptr (Const ty_cuDoubleComplex), ty_int, Ptr (Const ty_cuDoubleComplex), ty_int, Ptr ty_cuDoubleComplex, ty_int] ''cublasZgeru'' [0, 1, 2, 3, 4, 5, 6, 7, 8] False,
     Gen cublas ty_void ''cublasZgerc'' [ty_int, ty_int, ty_cuDoubleComplex, Ptr (Const ty_cuDoubleComplex), ty_int, Ptr (Const ty_cuDoubleComplex), ty_int, Ptr ty_cuDoubleComplex, ty_int]
       ''cublasZgerc'' ty_void [ty_int, ty_int, ty_cuDoubleComplex, Ptr (Const ty_cuDoubleComplex), ty_int, Ptr (Const ty_cuDoubleComplex), ty_int, Ptr ty_cuDoubleComplex, ty_int] ''cublasZgerc'' [0, 1, 2, 3, 4, 5, 6, 7, 8] False,
     Gen cublas ty_void ''cublasSsyr'' [ty_char, ty_int, ty_float, Ptr (Const ty_float), ty_int, Ptr ty_float, ty_int]
       ''cublasSsyr'' ty_void [ty_char, ty_int, ty_float, Ptr (Const ty_float), ty_int, Ptr ty_float, ty_int] ''cublasSsyr'' [0, 1, 2, 3, 4, 5, 6] False,
     Gen cublas ty_void ''cublasDsyr'' [ty_char, ty_int, ty_double, Ptr (Const ty_double), ty_int, Ptr ty_double, ty_int]
       ''cublasDsyr'' ty_void [ty_char, ty_int, ty_double, Ptr (Const ty_double), ty_int, Ptr ty_double, ty_int] ''cublasDsyr'' [0, 1, 2, 3, 4, 5, 6] False,
     Gen cublas ty_void ''cublasCher'' [ty_char, ty_int, ty_float, Ptr (Const ty_cuComplex), ty_int, Ptr ty_cuComplex, ty_int]
       ''cublasCher'' ty_void [ty_char, ty_int, ty_float, Ptr (Const ty_cuComplex), ty_int, Ptr ty_cuComplex, ty_int] ''cublasCher'' [0, 1, 2, 3, 4, 5, 6] False,
     Gen cublas ty_void ''cublasZher'' [ty_char, ty_int, ty_double, Ptr (Const ty_cuDoubleComplex), ty_int, Ptr ty_cuDoubleComplex, ty_int]
       ''cublasZher'' ty_void [ty_char, ty_int, ty_double, Ptr (Const ty_cuDoubleComplex), ty_int, Ptr ty_cuDoubleComplex, ty_int] ''cublasZher'' [0, 1, 2, 3, 4, 5, 6] False,
     Gen cublas ty_void ''cublasSspr'' [ty_char, ty_int, ty_float, Ptr (Const ty_float), ty_int, Ptr ty_float]
       ''cublasSspr'' ty_void [ty_char, ty_int, ty_float, Ptr (Const ty_float), ty_int, Ptr ty_float] ''cublasSspr'' [0, 1, 2, 3, 4, 5] False,
     Gen cublas ty_void ''cublasDspr'' [ty_char, ty_int, ty_double, Ptr (Const ty_double), ty_int, Ptr ty_double]
       ''cublasDspr'' ty_void [ty_char, ty_int, ty_double, Ptr (Const ty_double), ty_int, Ptr ty_double] ''cublasDspr'' [0, 1, 2, 3, 4, 5] False,
     Gen cublas ty_void ''cublasChpr'' [ty_char, ty_int, ty_float, Ptr (Const ty_cuComplex), ty_int, Ptr ty_cuComplex]
       ''cublasChpr'' ty_void [ty_char, ty_int, ty_float, Ptr (Const ty_cuComplex), ty_int, Ptr ty_cuComplex] ''cublasChpr'' [0, 1, 2, 3, 4, 5] False]"

definition cublas_hooks_8 :: "gen_hook list" where
  "cublas_hooks_8 =
    [Gen cublas ty_void ''cublasZhpr'' [ty_char, ty_int, ty_double, Ptr (Const ty_cuDoubleComplex), ty_int, Ptr ty_cuDoubleComplex]
       ''cublasZhpr'' ty_void [ty_char, ty_int, ty_double, Ptr (Const ty_cuDoubleComplex), ty_int, Ptr ty_cuDoubleComplex] ''cublasZhpr'' [0, 1, 2, 3, 4, 5] False,
     Gen cublas ty_void ''cublasSsyr2'' [ty_char, ty_int, ty_float, Ptr (Const ty_float), ty_int, Ptr (Const ty_float), ty_int, Ptr ty_float, ty_int]
       ''cublasSsyr2'' ty_void [ty_char, ty_int, ty_float, Ptr (Const ty_float), ty_int, Ptr (Const ty_float), ty_int, Ptr ty_float, ty_int] ''cublasSsyr2'' [0, 1, 2, 3, 4, 5, 6, 7, 8] False,
     Gen cublas ty_void ''cublasDsyr2'' [ty_char, ty_int, ty_double, Ptr (Const ty_double), ty_int, Ptr (Const ty_double), ty_int, Ptr ty_double, ty_int]
       ''cublasDsyr2'' ty_void [ty_char, ty_int, ty_double, Ptr (Const ty_double), ty_int, Ptr (Const ty_double), ty_int, Ptr ty_double, ty_int] ''cublasDsyr2'' [0, 1, 2, 3, 4, 5, 6, 7, 8] False,
     Gen cublas ty_void ''cublasCher2'' [ty_char, ty_int, ty_cuComplex, Ptr (Const ty_cuComplex), ty_int, Ptr (Const ty_cuComplex), ty_int, Ptr ty_cuComplex, ty_int]
       ''cublasCher2'' ty_void [ty_char, ty_int, ty_cuComplex, Ptr (Const ty_cuComplex), ty_int, Ptr (Const ty_cuComplex), ty_int, Ptr ty_cuComplex, ty_int] ''cublasCher2'' [0, 1, 2, 3, 4, 5, 6, 7, 8] False,
     Gen cublas ty_void ''cublasZher2'' [ty_char, ty_int, ty_cuDoubleComplex, Ptr (Const ty_cuDoubleComplex), ty_int, Ptr (Const ty_cuDoubleComplex), ty_int, Ptr ty_cuDoubleComplex, ty_int]
       ''cublasZher2'' ty_void [ty_char, ty_int, ty_cuDoubleComplex, Ptr (Const ty_cuDoubleComplex), ty_int, Ptr (Const ty_cuDoubleComplex), ty_int, Ptr ty_cuDoubleComplex, ty_int] ''cublasZher2'' [0, 1, 2, 3, 4, 5, 6, 7, 8] False,
     Gen cublas ty_void ''cublasSspr2'' [ty_char, ty_int, ty_float, Ptr (Const ty_float), ty_int, Ptr (Const ty_float), ty_int, Ptr ty_float]
       ''cublasSspr2'' ty_void [ty_char, ty_int, ty_float, Ptr (Const ty_float), ty_int, Ptr (Const ty_float), ty_int, Ptr ty_float] ''cublasSspr2'' [0, 1, 2, 3, 4, 5, 6, 7] False,
     Gen cublas ty_void ''cublasDspr2'' [ty_char, ty_int, ty_double, Ptr (Const ty_double), ty_int, Ptr (Const ty_double), ty_int, Ptr ty_double]
       ''cublasDspr2'' ty_void [ty_char, ty_int, ty_double, Ptr (Const ty_double), ty_int, Ptr (Const ty_double), ty_int, Ptr ty_double] ''cublasDspr2'' [0, 1, 2, 3, 4, 5, 6, 7] False,
     Gen cublas ty_void ''cublasChpr2'' [ty_char, ty_int, ty_cuComplex, Ptr (Const ty_cuComplex), ty_int, Ptr (Const ty_cuComplex), ty_int, Ptr ty_cuComplex]
       ''cublasChpr2'' ty_void [ty_char, ty_int, ty_cuComplex, Ptr (Const ty_cuComplex), ty_int, Ptr (Const ty_cuComplex), ty_int, Ptr ty_cuComplex] ''cublasChpr2'' [0, 1, 2, 3, 4, 5, 6, 7] False,
     Gen cublas ty_void ''cublasZhpr2'' [ty_char, ty_int, ty_cuDoubleComplex, Ptr (Const ty_cuDoubleComplex), ty_int, Ptr (Const ty_cuDoubleComplex), ty_int, Ptr ty_cuDoubleComplex]
       ''cublasZhpr2'' ty_void [ty_char, ty_int, ty_cuDoubleComplex, Ptr (Const ty_cuDoubleComplex), ty_int, Ptr (Const ty_cuDoubleComplex), ty_int, Ptr ty_cuDoubleComplex] ''cublasZhpr2'' [0, 1, 2, 3, 4, 5, 6, 7] False,
     Gen cublas ty_void ''cublasSgemm'' [ty_char, ty_char, ty_int, ty_int, ty_int, ty_float, Ptr (Const ty_float), ty_int, Ptr (Const ty_float), ty_int, ty_float, Ptr ty_float, ty_int]
       ''cublasSgemm'' ty_void [ty_char, ty_char, ty_int, ty_int, ty_int, ty_float, Ptr (Const ty_float), ty_int, Ptr (Const ty_float), ty_int, ty_float, Ptr ty_float, ty_int] ''cublasSgemm'' [0, 1, 2, 3, 4, 5, 6, 7, 8, 9, 10, 11, 12] False,
     Gen cublas ty_void ''cublasDgemm'' [ty_char, ty_char, ty_int, ty_int, ty_int, ty_double, Ptr (Const ty_double), ty_int, Ptr (Const ty_double), ty_int, ty_double, Ptr ty_double, ty_int]
       ''cublasDgemm'' ty_void [ty_char, ty_char, ty_int, ty_int, ty_int, ty_double, Ptr (Const ty_double), ty_int, Ptr (Const ty_double), ty_int, ty_double, Ptr ty_double, ty_int] ''cublasDgemm'' [0, 1, 2, 3, 4, 5, 6, 7, 8, 9, 10, 11, 12] False,
     Gen cublas ty_void ''cublasCgemm'' [ty_char, ty_char, ty_int, ty_int, ty_int, ty_cuComplex, Ptr (Const ty_cuComplex), ty_int, Ptr (Const ty_cuComplex), ty_int, ty_cuComplex, Ptr ty_cuComplex, ty_int]
       ''cublasCgemm'' ty_void [ty_char, ty_char, ty_int, ty_int, ty_int, ty_cuComplex, Ptr (Const ty_cuComplex), ty_int, Ptr (Const ty_cuComplex), ty_int, ty_cuComplex, Ptr ty_cuComplex, ty_int] ''cublasCgemm'' [0, 1, 2, 3, 4, 5, 6, 7, 8, 9, 10, 11, 12] False,
     Gen cublas ty_void ''cublasZgemm'' [ty_char, ty_char, ty_int, ty_int, ty_int, ty_cuDoubleComplex, Ptr (Const ty_cuDoubleComplex), ty_int, Ptr (Const ty_cuDoubleComplex), ty_int, ty_cuDoubleComplex, Ptr ty_cuDoubleComplex, ty_int]
       ''cublasZgemm'' ty_void [ty_char, ty_char, ty_int, ty_int, ty_int, ty_cuDoubleComplex, Ptr (Const ty_cuDoubleComplex), ty_int, Ptr (Const ty_cuDoubleComplex), ty_int, ty_cuDoubleComplex, Ptr ty_cuDoubleComplex, ty_int] ''cublasZgemm'' [0, 1, 2, 3, 4, 5, 6, 7, 8, 9, 10, 11, 12] False,
     Gen cublas ty_void ''cublasSsyrk'' [ty_char, ty_char, ty_int, ty_int, ty_float, Ptr (Const ty_float), ty_int, ty_float, Ptr ty_float, ty_int]
       ''cublasSsyrk'' ty_void [ty_char, ty_char, ty_int, ty_int, ty_float, Ptr (Const ty_float), ty_int, ty_float, Ptr ty_float, ty_int] ''cublasSsyrk'' [0, 1, 2, 3, 4, 5, 6, 7, 8, 9] False,
     Gen cublas ty_void ''cublasDsyrk'' [ty_char, ty_char, ty_int, ty_int, ty_double, Ptr (Const ty_double), ty_int, ty_double, Ptr ty_double, ty_int]
       ''cublasDsyrk'' ty_void [ty_char, ty_char, ty_int, ty_int, ty_double, Ptr (Const ty_double), ty_int, ty_double, Ptr ty_double, ty_int] ''cublasDsyrk'' [0, 1, 2, 3, 4, 5, 6, 7, 8, 9] False]"

definition cublas_hooks_9 :: "gen_hook list" where
  "cublas_hooks_9 =
    [Gen cublas ty_void ''cublasCsyrk'' [ty_char, ty_char, ty_int, ty_int, ty_cuComplex, Ptr (Const ty_cuComplex), ty_int, ty_cuComplex, Ptr ty_cuComplex, ty_int]
       ''cublasCsyrk'' ty_void [ty_char, ty_char, ty_int, ty_int, ty_cuComplex, Ptr (Const ty_cuComplex), ty_int, ty_cuComplex, Ptr ty_cuComplex, ty_int] ''cublasCsyrk'' [0, 1, 2, 3, 4, 5, 6, 7, 8, 9] False,
     Gen cublas ty_void ''cublasZsyrk'' [ty_char, ty_char, ty_int, ty_int, ty_cuDoubleComplex, Ptr (Const ty_cuDoubleComplex), ty_int, ty_cuDoubleComplex, Ptr ty_cuDoubleComplex, ty_int]
       ''cublasZsyrk'' ty_void [ty_char, ty_char, ty_int, ty_int, ty_cuDoubleComplex, Ptr (Const ty_cuDoubleComplex), ty_int, ty_cuDoubleComplex, Ptr ty_cuDoubleComplex, ty_int] ''cublasZsyrk'' [0, 1, 2, 3, 4, 5, 6, 7, 8, 9] False,
     Gen cublas ty_void ''cublasCherk'' [ty_char, ty_char, ty_int, ty_int, ty_float, Ptr (Const ty_cuComplex), ty_int, ty_float, Ptr ty_cuComplex, ty_int]
       ''cublasCherk'' ty_void [ty_char, ty_char, ty_int, ty_int, ty_float, Ptr (Const ty_cuComplex), ty_int, ty_float, Ptr ty_cuComplex, ty_int] ''cublasCherk'' [0, 1, 2, 3, 4, 5, 6, 7, 8, 9] False,
     Gen cublas ty_void ''cublasZherk'' [ty_char, ty_char, ty_int, ty_int, ty_double, Ptr (Const ty_cuDoubleComplex), ty_int, ty_double, Ptr ty_cuDoubleComplex, ty_int]
       ''cublasZherk'' ty_void [ty_char, ty_char, ty_int, ty_int, ty_double, Ptr (Const ty_cuDoubleComplex), ty_int, ty_double, Ptr ty_cuDoubleComplex, ty_int] ''cublasZherk'' [0, 1, 2, 3, 4, 5, 6, 7, 8, 9] False,
     Gen cublas ty_void ''cublasSsyr2k'' [ty_char, ty_char, ty_int, ty_int, ty_float, Ptr (Const ty_float), ty_int, Ptr (Const ty_float), ty_int, ty_float, Ptr ty_float, ty_int]
       ''cublasSsyr2k'' ty_void [ty_char, ty_char, ty_int, ty_int, ty_float, Ptr (Const ty_float), ty_int, Ptr (Const ty_float), ty_int, ty_float, Ptr ty_float, ty_int] ''cublasSsyr2k'' [0, 1, 2, 3, 4, 5, 6, 7, 8, 9, 10, 11] False,
     Gen cublas ty_void ''cublasDsyr2k'' [ty_char, ty_char, ty_int, ty_int, ty_double, Ptr (Const ty_double), ty_int, Ptr (Const ty_double), ty_int, ty_double, Ptr ty_double, ty_int]
       ''cublasDsyr2k'' ty_void [ty_char, ty_char, ty_int, ty_int, ty_double, Ptr (Const ty_double), ty_int, Ptr (Const ty_double), ty_int, ty_double, Ptr ty_double, ty_int] ''cublasDsyr2k'' [0, 1, 2, 3, 4, 5, 6, 7, 8, 9, 10, 11] False,
     Gen cublas ty_void ''cublasCsyr2k'' [ty_char, ty_char, ty_int, ty_int, ty_cuComplex, Ptr (Const ty_cuComplex), ty_int, Ptr (Const ty_cuComplex), ty_int, ty_cuComplex, Ptr ty_cuComplex, ty_int]
       ''cublasCsyr2k'' ty_void [ty_char, ty_char, ty_int, ty_int, ty_cuComplex, Ptr (Const ty_cuComplex), ty_int, Ptr (Const ty_cuComplex), ty_int, ty_cuComplex, Ptr ty_cuComplex, ty_int] ''cublasCsyr2k'' [0, 1, 2, 3, 4, 5, 6, 7, 8, 9, 10, 11] False,
     Gen cublas ty_void ''cublasZsyr2k'' [ty_char, ty_char, ty_int, ty_int, ty_cuDoubleComplex, Ptr (Const ty_cuDoubleComplex), ty_int, Ptr (Const ty_cuDoubleComplex), ty_int, ty_cuDoubleComplex, Ptr ty_cuDoubleComplex, ty_int]
       ''cublasZsyr2k'' ty_void [ty_char, ty_char, ty_int, ty_int, ty_cuDoubleComplex, Ptr (Const ty_cuDoubleComplex), ty_int, Ptr (Const ty_cuDoubleComplex), ty_int, ty_cuDoubleComplex, Ptr ty_cuDoubleComplex, ty_int] ''cublasZsyr2k'' [0, 1, 2, 3, 4, 5, 6, 7, 8, 9, 10, 11] False,
     Gen cublas ty_void ''cublasCher2k'' [ty_char, ty_char, ty_int, ty_int, ty_cuComplex, Ptr (Const ty_cuComplex), ty_int, Ptr (Const ty_cuComplex), ty_int, ty_float, Ptr ty_cuComplex, ty_int]
       ''cublasCher2k'' ty_void [ty_char, ty_char, ty_int, ty_int, ty_cuComplex, Ptr (Const ty_cuComplex), ty_int, Ptr (Const ty_cuComplex), ty_int, ty_float, Ptr ty_cuComplex, ty_int] ''cublasCher2k'' [0, 1, 2, 3, 4, 5, 6, 7, 8, 9, 10, 11] False,
     Gen cublas ty_void ''cublasZher2k'' [ty_char, ty_char, ty_int, ty_int, ty_cuDoubleComplex, Ptr (Const ty_cuDoubleComplex), ty_int, Ptr (Const ty_cuDoubleComplex), ty_int, ty_double, Ptr ty_cuDoubleComplex, ty_int]
       ''cublasZher2k'' ty_void [ty_char, ty_char, ty_int, ty_int, ty_cuDoubleComplex, Ptr (Const ty_cuDoubleComplex), ty_int, Ptr (Const ty_cuDoubleComplex), ty_int, ty_double, Ptr ty_cuDoubleComplex, ty_int] ''cublasZher2k'' [0, 1, 2, 3, 4, 5, 6, 7, 8, 9, 10, 11] False,
     Gen cublas ty_void ''cublasSsymm'' [ty_char, ty_char, ty_int, ty_int, ty_float, Ptr (Const ty_float), ty_int, Ptr (Const ty_float), ty_int, ty_float, Ptr ty_float, ty_int]
       ''cublasSsymm'' ty_void [ty_char, ty_char, ty_int, ty_int, ty_float, Ptr (Const ty_float), ty_int, Ptr (Const ty_float), ty_int, ty_float, Ptr ty_float, ty_int] ''cublasSsymm'' [0, 1, 2, 3, 4, 5, 6, 7, 8, 9, 10, 11] False,
     Gen cublas ty_void ''cublasDsymm'' [ty_char, ty_char, ty_int, ty_int, ty_double, Ptr (Const ty_double), ty_int, Ptr (Const ty_double), ty_int, ty_double, Ptr ty_double, ty_int]
       ''cublasDsymm'' ty_void [ty_char, ty_char, ty_int, ty_int, ty_double, Ptr (Const ty_double), ty_int, Ptr (Const ty_double), ty_int, ty_double, Ptr ty_double, ty_int] ''cublasDsymm'' [0, 1, 2, 3, 4, 5, 6, 7, 8, 9, 10, 11] False,
     Gen cublas ty_void ''cublasCsymm'' [ty_char, ty_char, ty_int, ty_int, ty_cuComplex, Ptr (Const ty_cuComplex), ty_int, Ptr (Const ty_cuComplex), ty_int, ty_cuComplex, Ptr ty_cuComplex, ty_int]
       ''cublasCsymm'' ty_void [ty_char, ty_char, ty_int, ty_int, ty_cuComplex, Ptr (Const ty_cuComplex), ty_int, Ptr (Const ty_cuComplex), ty_int, ty_cuComplex, Ptr ty_cuComplex, ty_int] ''cublasCsymm'' [0, 1, 2, 3, 4, 5, 6, 7, 8, 9, 10, 11] False,
     Gen cublas ty_void ''cublasZsymm'' [ty_char, ty_char, ty_int, ty_int, ty_cuDoubleComplex, Ptr (Const ty_cuDoubleComplex), ty_int, Ptr (Const ty_cuDoubleComplex), ty_int, ty_cuDoubleComplex, Ptr ty_cuDoubleComplex, ty_int]
       ''cublasZsymm'' ty_void [ty_char, ty_char, ty_int, ty_int, ty_cuDoubleComplex, Ptr (Const ty_cuDoubleComplex), ty_int, Ptr (Const ty_cuDoubleComplex), ty_int, ty_cuDoubleComplex, Ptr ty_cuDoubleComplex, ty_int] ''cublasZsymm'' [0, 1, 2, 3, 4, 5, 6, 7, 8, 9, 10, 11] False]"

definition cublas_hooks_10 :: "gen_hook list" where
  "cublas_hooks_10 =
    [Gen cublas ty_void ''cublasChemm'' [ty_char, ty_char, ty_int, ty_int, ty_cuComplex, Ptr (Const ty_cuComplex), ty_int, Ptr (Const ty_cuComplex), ty_int, ty_cuComplex, Ptr ty_cuComplex, ty_int]
       ''cublasChemm'' ty_void [ty_char, ty_char, ty_int, ty_int, ty_cuComplex, Ptr (Const ty_cuComplex), ty_int, Ptr (Const ty_cuComplex), ty_int, ty_cuComplex, Ptr ty_cuComplex, ty_int] ''cublasChemm'' [0, 1, 2, 3, 4, 5, 6, 7, 8, 9, 10, 11] False,
     Gen cublas ty_void ''cublasZhemm'' [ty_char, ty_char, ty_int, ty_int, ty_cuDoubleComplex, Ptr (Const ty_cuDoubleComplex), ty_int, Ptr (Const ty_cuDoubleComplex), ty_int, ty_cuDoubleComplex, Ptr ty_cuDoubleComplex, ty_int]
       ''cublasZhemm'' ty_void [ty_char, ty_char, ty_int, ty_int, ty_cuDoubleComplex, Ptr (Const ty_cuDoubleComplex), ty_int, Ptr (Const ty_cuDoubleComplex), ty_int, ty_cuDoubleComplex, Ptr ty_cuDoubleComplex, ty_int] ''cublasZhemm'' [0, 1, 2, 3, 4, 5, 6, 7, 8, 9, 10, 11] False,
     Gen cublas ty_void ''cublasStrsm'' [ty_char, ty_char, ty_char, ty_char, ty_int, ty_int, ty_float, Ptr (Const ty_float), ty_int, Ptr ty_float, ty_int]
       ''cublasStrsm'' ty_void [ty_char, ty_char, ty_char, ty_char, ty_int, ty_int, ty_float, Ptr (Const ty_float), ty_int, Ptr ty_float, ty_int] ''cublasStrsm'' [0, 1, 2, 3, 4, 5, 6, 7, 8, 9, 10] False,
     Gen cublas ty_void ''cublasDtrsm'' [ty_char, ty_char, ty_char, ty_char, ty_int, ty_int, ty_double, Ptr (Const ty_double), ty_int, Ptr ty_double, ty_int]
       ''cublasDtrsm'' ty_void [ty_char, ty_char, ty_char, ty_char, ty_int, ty_int, ty_double, Ptr (Const ty_double), ty_int, Ptr ty_double, ty_int] ''cublasDtrsm'' [0, 1, 2, 3, 4, 5, 6, 7, 8, 9, 10] False,
     Gen cublas ty_void ''cublasCtrsm'' [ty_char, ty_char, ty_char, ty_char, ty_int, ty_int, ty_cuComplex, Ptr (Const ty_cuComplex), ty_int, Ptr ty_cuComplex, ty_int]
       ''cublasCtrsm'' ty_void [ty_char, ty_char, ty_char, ty_char, ty_int, ty_int, ty_cuComplex, Ptr (Const ty_cuComplex), ty_int, Ptr ty_cuComplex, ty_int] ''cublasCtrsm'' [0, 1, 2, 3, 4, 5, 6, 7, 8, 9, 10] False,
     Gen cublas ty_void ''cublasZtrsm'' [ty_char, ty_char, ty_char, ty_char, ty_int, ty_int, ty_cuDoubleComplex, Ptr (Const ty_cuDoubleComplex), ty_int, Ptr ty_cuDoubleComplex, ty_int]
       ''cublasZtrsm'' ty_void [ty_char, ty_char, ty_char, ty_char, ty_int, ty_int, ty_cuDoubleComplex, Ptr (Const ty_cuDoubleComplex), ty_int, Ptr ty_cuDoubleComplex, ty_int] ''cublasZtrsm'' [0, 1, 2, 3, 4, 5, 6, 7, 8, 9, 10] False,
     Gen cublas ty_void ''cublasStrmm'' [ty_char, ty_char, ty_char, ty_char, ty_int, ty_int, ty_float, Ptr (Const ty_float), ty_int, Ptr ty_float, ty_int]
       ''cublasStrmm'' ty_void [ty_char, ty_char, ty_char, ty_char, ty_int, ty_int, ty_float, Ptr (Const ty_float), ty_int, Ptr ty_float, ty_int] ''cublasStrmm'' [0, 1, 2, 3, 4, 5, 6, 7, 8, 9, 10] False,
     Gen cublas ty_void ''cublasDtrmm'' [ty_char, ty_char, ty_char, ty_char, ty_int, ty_int, ty_double, Ptr (Const ty_double), ty_int, Ptr ty_double, ty_int]
       ''cublasDtrmm'' ty_void [ty_char, ty_char, ty_char, ty_char, ty_int, ty_int, ty_double, Ptr (Const ty_double), ty_int, Ptr ty_double, ty_int] ''cublasDtrmm'' [0, 1, 2, 3, 4, 5, 6, 7, 8, 9, 10] False,
     Gen cublas ty_void ''cublasCtrmm'' [ty_char, ty_char, ty_char, ty_char, ty_int, ty_int, ty_cuComplex, Ptr (Const ty_cuComplex), ty_int, Ptr ty_cuComplex, ty_int]
       ''cublasCtrmm'' ty_void [ty_char, ty_char, ty_char, ty_char, ty_int, ty_int, ty_cuComplex, Ptr (Const ty_cuComplex), ty_int, Ptr ty_cuComplex, ty_int] ''cublasCtrmm'' [0, 1, 2, 3, 4, 5, 6, 7, 8, 9, 10] False,
     Gen cublas ty_void ''cublasZtrmm'' [ty_char, ty_char, ty_char, ty_char, ty_int, ty_int, ty_cuDoubleComplex, Ptr (Const ty_cuDoubleComplex), ty_int, Ptr ty_cuDoubleComplex, ty_int]
       ''cublasZtrmm'' ty_void [ty_char, ty_char, ty_char, ty_char, ty_int, ty_int, ty_cuDoubleComplex, Ptr (Const ty_cuDoubleComplex), ty_int, Ptr ty_cuDoubleComplex, ty_int] ''cublasZtrmm'' [0, 1, 2, 3, 4, 5, 6, 7, 8, 9, 10] False,
     Gen cublas ty_cublasStatus_t ''cublasCreate_v2'' [Ptr ty_cublasHandle_t]
       ''cublasCreate_v2'' ty_cublasStatus_t [Ptr ty_cublasHandle_t] ''cublasCreate_v2'' [0] False,
     Gen cublas ty_cublasStatus_t ''cublasDestroy_v2'' [ty_cublasHandle_t]
       ''cublasDestroy_v2'' ty_cublasStatus_t [ty_cublasHandle_t] ''cublasDestroy_v2'' [0] False,
     Gen cublas ty_cublasStatus_t ''cublasGetVersion_v2'' [ty_cublasHandle_t, Ptr ty_int]
       ''cublasGetVersion_v2'' ty_cublasStatus_t [ty_cublasHandle_t, Ptr ty_int] ''cublasGetVersion_v2'' [0, 1] False,
     Gen cublas ty_cublasStatus_t ''cublasGetProperty'' [ty_libraryPropertyType, Ptr ty_int]
       ''cublasGetProperty'' ty_cublasStatus_t [ty_libraryPropertyType, Ptr ty_int] ''cublasGetProperty'' [0, 1] False,
     Gen cublas ty_size_t ''cublasGetCudartVersion'' []
       ''cublasGetCudartVersion'' ty_size_t [] ''cublasGetCudartVersion'' [] False,
     Gen cublas ty_cublasStatus_t ''cublasSetWorkspace_v2'' [ty_cublasHandle_t, Ptr ty_void, ty_size_t]
       ''cublasSetWorkspace_v2'' ty_cublasStatus_t [ty_cublasHandle_t, Ptr ty_void, ty_size_t] ''cublasSetWorkspace_v2'' [0, 1, 2] False]"

definition cublas_hooks_11 :: "gen_hook list" where
  "cublas_hooks_11 =
    [Gen cublas ty_cublasStatus_t ''cublasSetStream_v2'' [ty_cublasHandle_t, ty_cudaStream_t]
       ''cublasSetStream_v2'' ty_cublasStatus_t [ty_cublasHandle_t, ty_cudaStream_t] ''cublasSetStream_v2'' [0, 1] False,
     Gen cublas ty_cublasStatus_t ''cublasGetStream_v2'' [ty_cublasHandle_t, Ptr ty_cudaStream_t]
       ''cublasGetStream_v2'' ty_cublasStatus_t [ty_cublasHandle_t, Ptr ty_cudaStream_t] ''cublasGetStream_v2'' [0, 1] False,
     Gen cublas ty_cublasStatus_t ''cublasGetPointerMode_v2'' [ty_cublasHandle_t, Ptr ty_cublasPointerMode_t]
       ''cublasGetPointerMode_v2'' ty_cublasStatus_t [ty_cublasHandle_t, Ptr ty_cublasPointerMode_t] ''cublasGetPointerMode_v2'' [0, 1] False,
     Gen cublas ty_cublasStatus_t ''cublasSetPointerMode_v2'' [ty_cublasHandle_t, ty_cublasPointerMode_t]
       ''cublasSetPointerMode_v2'' ty_cublasStatus_t [ty_cublasHandle_t, ty_cublasPointerMode_t] ''cublasSetPointerMode_v2'' [0, 1] False,
     Gen cublas ty_cublasStatus_t ''cublasGetAtomicsMode'' [ty_cublasHandle_t, Ptr ty_cublasAtomicsMode_t]
       ''cublasGetAtomicsMode'' ty_cublasStatus_t [ty_cublasHandle_t, Ptr ty_cublasAtomicsMode_t] ''cublasGetAtomicsMode'' [0, 1] False,
     Gen cublas ty_cublasStatus_t ''cublasSetAtomicsMode'' [ty_cublasHandle_t, ty_cublasAtomicsMode_t]
       ''cublasSetAtomicsMode'' ty_cublasStatus_t [ty_cublasHandle_t, ty_cublasAtomicsMode_t] ''cublasSetAtomicsMode'' [0, 1] False,
     Gen cublas ty_cublasStatus_t ''cublasGetMathMode'' [ty_cublasHandle_t, Ptr ty_cublasMath_t]
       ''cublasGetMathMode'' ty_cublasStatus_t [ty_cublasHandle_t, Ptr ty_cublasMath_t] ''cublasGetMathMode'' [0, 1] False,
     Gen cublas ty_cublasStatus_t ''cublasSetMathMode'' [ty_cublasHandle_t, ty_cublasMath_t]
       ''cublasSetMathMode'' ty_cublasStatus_t [ty_cublasHandle_t, ty_cublasMath_t] ''cublasSetMathMode'' [0, 1] False,
     Gen cublas ty_cublasStatus_t ''cublasGetSmCountTarget'' [ty_cublasHandle_t, Ptr ty_int]
       ''cublasGetSmCountTarget'' ty_cublasStatus_t [ty_cublasHandle_t, Ptr ty_int] ''cublasGetSmCountTarget'' [0, 1] False,
     Gen cublas ty_cublasStatus_t ''cublasSetSmCountTarget'' [ty_cublasHandle_t, ty_int]
       ''cublasSetSmCountTarget'' ty_cublasStatus_t [ty_cublasHandle_t, ty_int] ''cublasSetSmCountTarget'' [0, 1] False,
     Gen cublas (Ptr (Const ty_char)) ''cublasGetStatusName'' [ty_cublasStatus_t]
       ''cublasGetStatusName'' (Ptr (Const ty_char)) [ty_cublasStatus_t] ''cublasGetStatusName'' [0] False,
     Gen cublas (Ptr (Const ty_char)) ''cublasGetStatusString'' [ty_cublasStatus_t]
       ''cublasGetStatusString'' (Ptr (Const ty_char)) [ty_cublasStatus_t] ''cublasGetStatusString'' [0] False,
     Gen cublas ty_cublasStatus_t ''cublasLoggerConfigure'' [ty_int, ty_int, ty_int, Ptr (Const ty_char)]
       ''cublasLoggerConfigure'' ty_cublasStatus_t [ty_int, ty_int, ty_int, Ptr (Const ty_char)] ''cublasLoggerConfigure'' [0, 1, 2, 3] False,
     Gen cublas ty_cublasStatus_t ''cublasSetLoggerCallback'' [ty_cublasLogCallback]
       ''cublasSetLoggerCallback'' ty_cublasStatus_t [ty_cublasLogCallback] ''cublasSetLoggerCallback'' [0] False,
     Gen cublas ty_cublasStatus_t ''cublasGetLoggerCallback'' [Ptr ty_cublasLogCallback]
       ''cublasGetLoggerCallback'' ty_cublasStatus_t [Ptr ty_cublasLogCallback] ''cublasGetLoggerCallback'' [0] False,
     Gen cublas ty_cublasStatus_t ''cublasSetVector'' [ty_int, ty_int, Ptr (Const ty_void), ty_int, Ptr ty_void, ty_int]
       ''cublasSetVector'' ty_cublasStatus_t [ty_int, ty_int, Ptr (Const ty_void), ty_int, Ptr ty_void, ty_int] ''cublasSetVector'' [0, 1, 2, 3, 4, 5] False,
     Gen cublas ty_cublasStatus_t ''cublasGetVector'' [ty_int, ty_int, Ptr (Const ty_void), ty_int, Ptr ty_void, ty_int]
       ''cublasGetVector'' ty_cublasStatus_t [ty_int, ty_int, Ptr (Const ty_void), ty_int, Ptr ty_void, ty_int] ''cublasGetVector'' [0, 1, 2, 3, 4, 5] False,
     Gen cublas ty_cublasStatus_t ''cublasSetMatrix'' [ty_int, ty_int, ty_int, Ptr (Const ty_void), ty_int, Ptr ty_void, ty_int]
       ''cublasSetMatrix'' ty_cublasStatus_t [ty_int, ty_int, ty_int, Ptr (Const ty_void), ty_int, Ptr ty_void, ty_int] ''cublasSetMatrix'' [0, 1, 2, 3, 4, 5, 6] False]"

definition cublas_hooks_12 :: "gen_hook list" where
  "cublas_hooks_12 =
    [Gen cublas ty_cublasStatus_t ''cublasGetMatrix'' [ty_int, ty_int, ty_int, Ptr (Const ty_void), ty_int, Ptr ty_void, ty_int]
       ''cublasGetMatrix'' ty_cublasStatus_t [ty_int, ty_int, ty_int, Ptr (Const ty_void), ty_int, Ptr ty_void, ty_int] ''cublasGetMatrix'' [0, 1, 2, 3, 4, 5, 6] False,
     Gen cublas ty_cublasStatus_t ''cublasSetVectorAsync'' [ty_int, ty_int, Ptr (Const ty_void), ty_int, Ptr ty_void, ty_int, ty_cudaStream_t]
       ''cublasSetVectorAsync'' ty_cublasStatus_t [ty_int, ty_int, Ptr (Const ty_void), ty_int, Ptr ty_void, ty_int, ty_cudaStream_t] ''cublasSetVectorAsync'' [0, 1, 2, 3, 4, 5, 6] False,
     Gen cublas ty_cublasStatus_t ''cublasGetVectorAsync'' [ty_int, ty_int, Ptr (Const ty_void), ty_int, Ptr ty_void, ty_int, ty_cudaStream_t]
       ''cublasGetVectorAsync'' ty_cublasStatus_t [ty_int, ty_int, Ptr (Const ty_void), ty_int, Ptr ty_void, ty_int, ty_cudaStream_t] ''cublasGetVectorAsync'' [0, 1, 2, 3, 4, 5, 6] False,
     Gen cublas ty_cublasStatus_t ''cublasSetMatrixAsync'' [ty_int, ty_int, ty_int, Ptr (Const ty_void), ty_int, Ptr ty_void, ty_int, ty_cudaStream_t]
       ''cublasSetMatrixAsync'' ty_cublasStatus_t [ty_int, ty_int, ty_int, Ptr (Const ty_void), ty_int, Ptr ty_void, ty_int, ty_cudaStream_t] ''cublasSetMatrixAsync'' [0, 1, 2, 3, 4, 5, 6, 7] False,
     Gen cublas ty_cublasStatus_t ''cublasGetMatrixAsync'' [ty_int, ty_int, ty_int, Ptr (Const ty_void), ty_int, Ptr ty_void, ty_int, ty_cudaStream_t]
       ''cublasGetMatrixAsync'' ty_cublasStatus_t [ty_int, ty_int, ty_int, Ptr (Const ty_void), ty_int, Ptr ty_void, ty_int, ty_cudaStream_t] ''cublasGetMatrixAsync'' [0, 1, 2, 3, 4, 5, 6, 7] False,
     Gen cublas ty_void ''cublasXerbla'' [Ptr (Const ty_char), ty_int]
       ''cublasXerbla'' ty_void [Ptr (Const ty_char), ty_int] ''cublasXerbla'' [0, 1] False,
     Gen cublas ty_cublasStatus_t ''cublasNrm2Ex'' [ty_cublasHandle_t, ty_int, Ptr (Const ty_void), ty_cudaDataType, ty_int, Ptr ty_void, ty_cudaDataType, ty_cudaDataType]
       ''cublasNrm2Ex'' ty_cublasStatus_t [ty_cublasHandle_t, ty_int, Ptr (Const ty_void), ty_cudaDataType, ty_int, Ptr ty_void, ty_cudaDataType, ty_cudaDataType] ''cublasNrm2Ex'' [0, 1, 2, 3, 4, 5, 6, 7] False,
     Gen cublas ty_cublasStatus_t ''cublasSnrm2_v2'' [ty_cublasHandle_t, ty_int, Ptr (Const ty_float), ty_int, Ptr ty_float]
       ''cublasSnrm2_v2'' ty_cublasStatus_t [ty_cublasHandle_t, ty_int, Ptr (Const ty_float), ty_int, Ptr ty_float] ''cublasSnrm2_v2'' [0, 1, 2, 3, 4] False,
     Gen cublas ty_cublasStatus_t ''cublasDnrm2_v2'' [ty_cublasHandle_t, ty_int, Ptr (Const ty_double), ty_int, Ptr ty_double]
       ''cublasDnrm2_v2'' ty_cublasStatus_t [ty_cublasHandle_t, ty_int, Ptr (Const ty_double), ty_int, Ptr ty_double] ''cublasDnrm2_v2'' [0, 1, 2, 3, 4] False,
     Gen cublas ty_cublasStatus_t ''cublasScnrm2_v2'' [ty_cublasHandle_t, ty_int, Ptr (Const ty_cuComplex), ty_int, Ptr ty_float]
       ''cublasScnrm2_v2'' ty_cublasStatus_t [ty_cublasHandle_t, ty_int, Ptr (Const ty_cuComplex), ty_int, Ptr ty_float] ''cublasScnrm2_v2'' [0, 1, 2, 3, 4] False,
     Gen cublas ty_cublasStatus_t ''cublasDznrm2_v2'' [ty_cublasHandle_t, ty_int, Ptr (Const ty_cuDoubleComplex), ty_int, Ptr ty_double]
       ''cublasDznrm2_v2'' ty_cublasStatus_t [ty_cublasHandle_t, ty_int, Ptr (Const ty_cuDoubleComplex), ty_int, Ptr ty_double] ''cublasDznrm2_v2'' [0, 1, 2, 3, 4] False,
     Gen cublas ty_cublasStatus_t ''cublasDotEx'' [ty_cublasHandle_t, ty_int, Ptr (Const ty_void), ty_cudaDataType, ty_int, Ptr (Const ty_void), ty_cudaDataType, ty_int, Ptr ty_void, ty_cudaDataType, ty_cudaDataType]
       ''cublasDotEx'' ty_cublasStatus_t [ty_cublasHandle_t, ty_int, Ptr (Const ty_void), ty_cudaDataType, ty_int, Ptr (Const ty_void), ty_cudaDataType, ty_int, Ptr ty_void, ty_cudaDataType, ty_cudaDataType] ''cublasDotEx'' [0, 1, 2, 3, 4, 5, 6, 7, 8, 9, 10] False,
     Gen cublas ty_cublasStatus_t ''cublasDotcEx'' [ty_cublasHandle_t, ty_int, Ptr (Const ty_void), ty_cudaDataType, ty_int, Ptr (Const ty_void), ty_cudaDataType, ty_int, Ptr ty_void, ty_cudaDataType, ty_cudaDataType]
       ''cublasDotcEx'' ty_cublasStatus_t [ty_cublasHandle_t, ty_int, Ptr (Const ty_void), ty_cudaDataType, ty_int, Ptr (Const ty_void), ty_cudaDataType, ty_int, Ptr ty_void, ty_cudaDataType, ty_cudaDataType] ''cublasDotcEx'' [0, 1, 2, 3, 4, 5, 6, 7, 8, 9, 10] False,
     Gen cublas ty_cublasStatus_t ''cublasSdot_v2'' [ty_cublasHandle_t, ty_int, Ptr (Const ty_float), ty_int, Ptr (Const ty_float), ty_int, Ptr ty_float]
       ''cublasSdot_v2'' ty_cublasStatus_t [ty_cublasHandle_t, ty_int, Ptr (Const ty_float), ty_int, Ptr (Const ty_float), ty_int, Ptr ty_float] ''cublasSdot_v2'' [0, 1, 2, 3, 4, 5, 6] False,
     Gen cublas ty_cublasStatus_t ''cublasDdot_v2'' [ty_cublasHandle_t, ty_int, Ptr (Const ty_double), ty_int, Ptr (Const ty_double), ty_int, Ptr ty_double]
       ''cublasDdot_v2'' ty_cublasStatus_t [ty_cublasHandle_t, ty_int, Ptr (Const ty_double), ty_int, Ptr (Const ty_double), ty_int, Ptr ty_double] ''cublasDdot_v2'' [0, 1, 2, 3, 4, 5, 6] False]"

definition cublas_hooks_13 :: "gen_hook list" where
  "cublas_hooks_13 =
    [Gen cublas ty_cublasStatus_t ''cublasCdotu_v2'' [ty_cublasHandle_t, ty_int, Ptr (Const ty_cuComplex), ty_int, Ptr (Const ty_cuComplex), ty_int, Ptr ty_cuComplex]
       ''cublasCdotu_v2'' ty_cublasStatus_t [ty_cublasHandle_t, ty_int, Ptr (Const ty_cuComplex), ty_int, Ptr (Const ty_cuComplex), ty_int, Ptr ty_cuComplex] ''cublasCdotu_v2'' [0, 1, 2, 3, 4, 5, 6] False,
     Gen cublas ty_cublasStatus_t ''cublasCdotc_v2'' [ty_cublasHandle_t, ty_int, Ptr (Const ty_cuComplex), ty_int, Ptr (Const ty_cuComplex), ty_int, Ptr ty_cuComplex]
       ''cublasCdotc_v2'' ty_cublasStatus_t [ty_cublasHandle_t, ty_int, Ptr (Const ty_cuComplex), ty_int, Ptr (Const ty_cuComplex), ty_int, Ptr ty_cuComplex] ''cublasCdotc_v2'' [0, 1, 2, 3, 4, 5, 6] False,
     Gen cublas ty_cublasStatus_t ''cublasZdotu_v2'' [ty_cublasHandle_t, ty_int, Ptr (Const ty_cuDoubleComplex), ty_int, Ptr (Const ty_cuDoubleComplex), ty_int, Ptr ty_cuDoubleComplex]
       ''cublasZdotu_v2'' ty_cublasStatus_t [ty_cublasHandle_t, ty_int, Ptr (Const ty_cuDoubleComplex), ty_int, Ptr (Const ty_cuDoubleComplex), ty_int, Ptr ty_cuDoubleComplex] ''cublasZdotu_v2'' [0, 1, 2, 3, 4, 5, 6] False,
     Gen cublas ty_cublasStatus_t ''cublasZdotc_v2'' [ty_cublasHandle_t, ty_int, Ptr (Const ty_cuDoubleComplex), ty_int, Ptr (Const ty_cuDoubleComplex), ty_int, Ptr ty_cuDoubleComplex]
       ''cublasZdotc_v2'' ty_cublasStatus_t [ty_cublasHandle_t, ty_int, Ptr (Const ty_cuDoubleComplex), ty_int, Ptr (Const ty_cuDoubleComplex), ty_int, Ptr ty_cuDoubleComplex] ''cublasZdotc_v2'' [0, 1, 2, 3, 4, 5, 6] False,
     Gen cublas ty_cublasStatus_t ''cublasScalEx'' [ty_cublasHandle_t, ty_int, Ptr (Const ty_void), ty_cudaDataType, Ptr ty_void, ty_cudaDataType, ty_int, ty_cudaDataType]
       ''cublasScalEx'' ty_cublasStatus_t [ty_cublasHandle_t, ty_int, Ptr (Const ty_void), ty_cudaDataType, Ptr ty_void, ty_cudaDataType, ty_int, ty_cudaDataType] ''cublasScalEx'' [0, 1, 2, 3, 4, 5, 6, 7] False,
     Gen cublas ty_cublasStatus_t ''cublasSscal_v2'' [ty_cublasHandle_t, ty_int, Ptr (Const ty_float), Ptr ty_float, ty_int]
       ''cublasSscal_v2'' ty_cublasStatus_t [ty_cublasHandle_t, ty_int, Ptr (Const ty_float), Ptr ty_float, ty_int] ''cublasSscal_v2'' [0, 1, 2, 3, 4] False,
     Gen cublas ty_cublasStatus_t ''cublasDscal_v2'' [ty_cublasHandle_t, ty_int, Ptr (Const ty_double), Ptr ty_double, ty_int]
       ''cublasDscal_v2'' ty_cublasStatus_t [ty_cublasHandle_t, ty_int, Ptr (Const ty_double), Ptr ty_double, ty_int] ''cublasDscal_v2'' [0, 1, 2, 3, 4] False,
     Gen cublas ty_cublasStatus_t ''cublasCscal_v2'' [ty_cublasHandle_t, ty_int, Ptr (Const ty_cuComplex), Ptr ty_cuComplex, ty_int]
       ''cublasCscal_v2'' ty_cublasStatus_t [ty_cublasHandle_t, ty_int, Ptr (Const ty_cuComplex), Ptr ty_cuComplex, ty_int] ''cublasCscal_v2'' [0, 1, 2, 3, 4] False,
     Gen cublas ty_cublasStatus_t ''cublasCsscal_v2'' [ty_cublasHandle_t, ty_int, Ptr (Const ty_float), Ptr ty_cuComplex, ty_int]
       ''cublasCsscal_v2'' ty_cublasStatus_t [ty_cublasHandle_t, ty_int, Ptr (Const ty_float), Ptr ty_cuComplex, ty_int] ''cublasCsscal_v2'' [0, 1, 2, 3, 4] False,
     Gen cublas ty_cublasStatus_t ''cublasZscal_v2'' [ty_cublasHandle_t, ty_int, Ptr (Const ty_cuDoubleComplex), Ptr ty_cuDoubleComplex, ty_int]
       ''cublasZscal_v2'' ty_cublasStatus_t [ty_cublasHandle_t, ty_int, Ptr (Const ty_cuDoubleComplex), Ptr ty_cuDoubleComplex, ty_int] ''cublasZscal_v2'' [0, 1, 2, 3, 4] False,
     Gen cublas ty_cublasStatus_t ''cublasZdscal_v2'' [ty_cublasHandle_t, ty_int, Ptr (Const ty_double), Ptr ty_cuDoubleComplex, ty_int]
       ''cublasZdscal_v2'' ty_cublasStatus_t [ty_cublasHandle_t, ty_int, Ptr (Const ty_double), Ptr ty_cuDoubleComplex, ty_int] ''cublasZdscal_v2'' [0, 1, 2, 3, 4] False,
     Gen cublas ty_cublasStatus_t ''cublasAxpyEx'' [ty_cublasHandle_t, ty_int, Ptr (Const ty_void), ty_cudaDataType, Ptr (Const ty_void), ty_cudaDataType, ty_int, Ptr ty_void, ty_cudaDataType, ty_int, ty_cudaDataType]
       ''cublasAxpyEx'' ty_cublasStatus_t [ty_cublasHandle_t, ty_int, Ptr (Const ty_void), ty_cudaDataType, Ptr (Const ty_void), ty_cudaDataType, ty_int, Ptr ty_void, ty_cudaDataType, ty_int, ty_cudaDataType] ''cublasAxpyEx'' [0, 1, 2, 3, 4, 5, 6, 7, 8, 9, 10] False,
     Gen cublas ty_cublasStatus_t ''cublasSaxpy_v2'' [ty_cublasHandle_t, ty_int, Ptr (Const ty_float), Ptr (Const ty_float), ty_int, Ptr ty_float, ty_int]
       ''cublasSaxpy_v2'' ty_cublasStatus_t [ty_cublasHandle_t, ty_int, Ptr (Const ty_float), Ptr (Const ty_float), ty_int, Ptr ty_float, ty_int] ''cublasSaxpy_v2'' [0, 1, 2, 3, 4, 5, 6] False,
     Gen cublas ty_cublasStatus_t ''cublasDaxpy_v2'' [ty_cublasHandle_t, ty_int, Ptr (Const ty_double), Ptr (Const ty_double), ty_int, Ptr ty_double, ty_int]
       ''cublasDaxpy_v2'' ty_cublasStatus_t [ty_cublasHandle_t, ty_int, Ptr (Const ty_double), Ptr (Const ty_double), ty_int, Ptr ty_double, ty_int] ''cublasDaxpy_v2'' [0, 1, 2, 3, 4, 5, 6] False,
     Gen cublas ty_cublasStatus_t ''cublasCaxpy_v2'' [ty_cublasHandle_t, ty_int, Ptr (Const ty_cuComplex), Ptr (Const ty_cuComplex), ty_int, Ptr ty_cuComplex, ty_int]
       ''cublasCaxpy_v2'' ty_cublasStatus_t [ty_cublasHandle_t, ty_int, Ptr (Const ty_cuComplex), Ptr (Const ty_cuComplex), ty_int, Ptr ty_cuComplex, ty_int] ''cublasCaxpy_v2'' [0, 1, 2, 3, 4, 5, 6] False]"

definition cublas_hooks_14 :: "gen_hook list" where
  "cublas_hooks_14 =
    [Gen cublas ty_cublasStatus_t ''cublasZaxpy_v2'' [ty_cublasHandle_t, ty_int, Ptr (Const ty_cuDoubleComplex), Ptr (Const ty_cuDoubleComplex), ty_int, Ptr ty_cuDoubleComplex, ty_int]
       ''cublasZaxpy_v2'' ty_cublasStatus_t [ty_cublasHandle_t, ty_int, Ptr (Const ty_cuDoubleComplex), Ptr (Const ty_cuDoubleComplex), ty_int, Ptr ty_cuDoubleComplex, ty_int] ''cublasZaxpy_v2'' [0, 1, 2, 3, 4, 5, 6] False,
     Gen cublas ty_cublasStatus_t ''cublasCopyEx'' [ty_cublasHandle_t, ty_int, Ptr (Const ty_void), ty_cudaDataType, ty_int, Ptr ty_void, ty_cudaDataType, ty_int]
       ''cublasCopyEx'' ty_cublasStatus_t [ty_cublasHandle_t, ty_int, Ptr (Const ty_void), ty_cudaDataType, ty_int, Ptr ty_void, ty_cudaDataType, ty_int] ''cublasCopyEx'' [0, 1, 2, 3, 4, 5, 6, 7] False,
     Gen cublas ty_cublasStatus_t ''cublasScopy_v2'' [ty_cublasHandle_t, ty_int, Ptr (Const ty_float), ty_int, Ptr ty_float, ty_int]
       ''cublasScopy_v2'' ty_cublasStatus_t [ty_cublasHandle_t, ty_int, Ptr (Const ty_float), ty_int, Ptr ty_float, ty_int] ''cublasScopy_v2'' [0, 1, 2, 3, 4, 5] False,
     Gen cublas ty_cublasStatus_t ''cublasDcopy_v2'' [ty_cublasHandle_t, ty_int, Ptr (Const ty_double), ty_int, Ptr ty_double, ty_int]
       ''cublasDcopy_v2'' ty_cublasStatus_t [ty_cublasHandle_t, ty_int, Ptr (Const ty_double), ty_int, Ptr ty_double, ty_int] ''cublasDcopy_v2'' [0, 1, 2, 3, 4, 5] False,
     Gen cublas ty_cublasStatus_t ''cublasCcopy_v2'' [ty_cublasHandle_t, ty_int, Ptr (Const ty_cuComplex), ty_int, Ptr ty_cuComplex, ty_int]
       ''cublasCcopy_v2'' ty_cublasStatus_t [ty_cublasHandle_t, ty_int, Ptr (Const ty_cuComplex), ty_int, Ptr ty_cuComplex, ty_int] ''cublasCcopy_v2'' [0, 1, 2, 3, 4, 5] False,
     Gen cublas ty_cublasStatus_t ''cublasZcopy_v2'' [ty_cublasHandle_t, ty_int, Ptr (Const ty_cuDoubleComplex), ty_int, Ptr ty_cuDoubleComplex, ty_int]
       ''cublasZcopy_v2'' ty_cublasStatus_t [ty_cublasHandle_t, ty_int, Ptr (Const ty_cuDoubleComplex), ty_int, Ptr ty_cuDoubleComplex, ty_int] ''cublasZcopy_v2'' [0, 1, 2, 3, 4, 5] False,
     Gen cublas ty_cublasStatus_t ''cublasSswap_v2'' [ty_cublasHandle_t, ty_int, Ptr ty_float, ty_int, Ptr ty_float, ty_int]
       ''cublasSswap_v2'' ty_cublasStatus_t [ty_cublasHandle_t, ty_int, Ptr ty_float, ty_int, Ptr ty_float, ty_int] ''cublasSswap_v2'' [0, 1, 2, 3, 4, 5] False,
     Gen cublas ty_cublasStatus_t ''cublasDswap_v2'' [ty_cublasHandle_t, ty_int, Ptr ty_double, ty_int, Ptr ty_double, ty_int]
       ''cublasDswap_v2'' ty_cublasStatus_t [ty_cublasHandle_t, ty_int, Ptr ty_double, ty_int, Ptr ty_double, ty_int] ''cublasDswap_v2'' [0, 1, 2, 3, 4, 5] False,
     Gen cublas ty_cublasStatus_t ''cublasCswap_v2'' [ty_cublasHandle_t, ty_int, Ptr ty_cuComplex, ty_int, Ptr ty_cuComplex, ty_int]
       ''cublasCswap_v2'' ty_cublasStatus_t [ty_cublasHandle_t, ty_int, Ptr ty_cuComplex, ty_int, Ptr ty_cuComplex, ty_int] ''cublasCswap_v2'' [0, 1, 2, 3, 4, 5] False,
     Gen cublas ty_cublasStatus_t ''cublasZswap_v2'' [ty_cublasHandle_t, ty_int, Ptr ty_cuDoubleComplex, ty_int, Ptr ty_cuDoubleComplex, ty_int]
       ''cublasZswap_v2'' ty_cublasStatus_t [ty_cublasHandle_t, ty_int, Ptr ty_cuDoubleComplex, ty_int, Ptr ty_cuDoubleComplex, ty_int] ''cublasZswap_v2'' [0, 1, 2, 3, 4, 5] False,
     Gen cublas ty_cublasStatus_t ''cublasSwapEx'' [ty_cublasHandle_t, ty_int, Ptr ty_void, ty_cudaDataType, ty_int, Ptr ty_void, ty_cudaDataType, ty_int]
       ''cublasSwapEx'' ty_cublasStatus_t [ty_cublasHandle_t, ty_int, Ptr ty_void, ty_cudaDataType, ty_int, Ptr ty_void, ty_cudaDataType, ty_int] ''cublasSwapEx'' [0, 1, 2, 3, 4, 5, 6, 7] False,
     Gen cublas ty_cublasStatus_t ''cublasIsamax_v2'' [ty_cublasHandle_t, ty_int, Ptr (Const ty_float), ty_int, Ptr ty_int]
       ''cublasIsamax_v2'' ty_cublasStatus_t [ty_cublasHandle_t, ty_int, Ptr (Const ty_float), ty_int, Ptr ty_int] ''cublasIsamax_v2'' [0, 1, 2, 3, 4] False,
     Gen cublas ty_cublasStatus_t ''cublasIdamax_v2'' [ty_cublasHandle_t, ty_int, Ptr (Const ty_double), ty_int, Ptr ty_int]
       ''cublasIdamax_v2'' ty_cublasStatus_t [ty_cublasHandle_t, ty_int, Ptr (Const ty_double), ty_int, Ptr ty_int] ''cublasIdamax_v2'' [0, 1, 2, 3, 4] False,
     Gen cublas ty_cublasStatus_t ''cublasIcamax_v2'' [ty_cublasHandle_t, ty_int, Ptr (Const ty_cuComplex), ty_int, Ptr ty_int]
       ''cublasIcamax_v2'' ty_cublasStatus_t [ty_cublasHandle_t, ty_int, Ptr (Const ty_cuComplex), ty_int, Ptr ty_int] ''cublasIcamax_v2'' [0, 1, 2, 3, 4] False,
     Gen cublas ty_cublasStatus_t ''cublasIzamax_v2'' [ty_cublasHandle_t, ty_int, Ptr (Const ty_cuDoubleComplex), ty_int, Ptr ty_int]
       ''cublasIzamax_v2'' ty_cublasStatus_t [ty_cublasHandle_t, ty_int, Ptr (Const ty_cuDoubleComplex), ty_int, Ptr ty_int] ''cublasIzamax_v2'' [0, 1, 2, 3, 4] False,
     Gen cublas ty_cublasStatus_t ''cublasIamaxEx'' [ty_cublasHandle_t, ty_int, Ptr (Const ty_void), ty_cudaDataType, ty_int, Ptr ty_int]
       ''cublasIamaxEx'' ty_cublasStatus_t [ty_cublasHandle_t, ty_int, Ptr (Const ty_void), ty_cudaDataType, ty_int, Ptr ty_int] ''cublasIamaxEx'' [0, 1, 2, 3, 4, 5] False]"

definition cublas_hooks_15 :: "gen_hook list" where
  "cublas_hooks_15 =
    [Gen cublas ty_cublasStatus_t ''cublasIsamin_v2'' [ty_cublasHandle_t, ty_int, Ptr (Const ty_float), ty_int, Ptr ty_int]
       ''cublasIsamin_v2'' ty_cublasStatus_t [ty_cublasHandle_t, ty_int, Ptr (Const ty_float), ty_int, Ptr ty_int] ''cublasIsamin_v2'' [0, 1, 2, 3, 4] False,
     Gen cublas ty_cublasStatus_t ''cublasIdamin_v2'' [ty_cublasHandle_t, ty_int, Ptr (Const ty_double), ty_int, Ptr ty_int]
       ''cublasIdamin_v2'' ty_cublasStatus_t [ty_cublasHandle_t, ty_int, Ptr (Const ty_double), ty_int, Ptr ty_int] ''cublasIdamin_v2'' [0, 1, 2, 3, 4] False,
     Gen cublas ty_cublasStatus_t ''cublasIcamin_v2'' [ty_cublasHandle_t, ty_int, Ptr (Const ty_cuComplex), ty_int, Ptr ty_int]
       ''cublasIcamin_v2'' ty_cublasStatus_t [ty_cublasHandle_t, ty_int, Ptr (Const ty_cuComplex), ty_int, Ptr ty_int] ''cublasIcamin_v2'' [0, 1, 2, 3, 4] False,
     Gen cublas ty_cublasStatus_t ''cublasIzamin_v2'' [ty_cublasHandle_t, ty_int, Ptr (Const ty_cuDoubleComplex), ty_int, Ptr ty_int]
       ''cublasIzamin_v2'' ty_cublasStatus_t [ty_cublasHandle_t, ty_int, Ptr (Const ty_cuDoubleComplex), ty_int, Ptr ty_int] ''cublasIzamin_v2'' [0, 1, 2, 3, 4] False,
     Gen cublas ty_cublasStatus_t ''cublasIaminEx'' [ty_cublasHandle_t, ty_int, Ptr (Const ty_void), ty_cudaDataType, ty_int, Ptr ty_int]
       ''cublasIaminEx'' ty_cublasStatus_t [ty_cublasHandle_t, ty_int, Ptr (Const ty_void), ty_cudaDataType, ty_int, Ptr ty_int] ''cublasIaminEx'' [0, 1, 2, 3, 4, 5] False,
     Gen cublas ty_cublasStatus_t ''cublasAsumEx'' [ty_cublasHandle_t, ty_int, Ptr (Const ty_void), ty_cudaDataType, ty_int, Ptr ty_void, ty_cudaDataType, ty_cudaDataType]
       ''cublasAsumEx'' ty_cublasStatus_t [ty_cublasHandle_t, ty_int, Ptr (Const ty_void), ty_cudaDataType, ty_int, Ptr ty_void, ty_cudaDataType, ty_cudaDataType] ''cublasAsumEx'' [0, 1, 2, 3, 4, 5, 6, 7] False,
     Gen cublas ty_cublasStatus_t ''cublasSasum_v2'' [ty_cublasHandle_t, ty_int, Ptr (Const ty_float), ty_int, Ptr ty_float]
       ''cublasSasum_v2'' ty_cublasStatus_t [ty_cublasHandle_t, ty_int, Ptr (Const ty_float), ty_int, Ptr ty_float] ''cublasSasum_v2'' [0, 1, 2, 3, 4] False,
     Gen cublas ty_cublasStatus_t ''cublasDasum_v2'' [ty_cublasHandle_t, ty_int, Ptr (Const ty_double), ty_int, Ptr ty_double]
       ''cublasDasum_v2'' ty_cublasStatus_t [ty_cublasHandle_t, ty_int, Ptr (Const ty_double), ty_int, Ptr ty_double] ''cublasDasum_v2'' [0, 1, 2, 3, 4] False,
     Gen cublas ty_cublasStatus_t ''cublasScasum_v2'' [ty_cublasHandle_t, ty_int, Ptr (Const ty_cuComplex), ty_int, Ptr ty_float]
       ''cublasScasum_v2'' ty_cublasStatus_t [ty_cublasHandle_t, ty_int, Ptr (Const ty_cuComplex), ty_int, Ptr ty_float] ''cublasScasum_v2'' [0, 1, 2, 3, 4] False,
     Gen cublas ty_cublasStatus_t ''cublasDzasum_v2'' [ty_cublasHandle_t, ty_int, Ptr (Const ty_cuDoubleComplex), ty_int, Ptr ty_double]
       ''cublasDzasum_v2'' ty_cublasStatus_t [ty_cublasHandle_t, ty_int, Ptr (Const ty_cuDoubleComplex), ty_int, Ptr ty_double] ''cublasDzasum_v2'' [0, 1, 2, 3, 4] False,
     Gen cublas ty_cublasStatus_t ''cublasSrot_v2'' [ty_cublasHandle_t, ty_int, Ptr ty_float, ty_int, Ptr ty_float, ty_int, Ptr (Const ty_float), Ptr (Const ty_float)]
       ''cublasSrot_v2'' ty_cublasStatus_t [ty_cublasHandle_t, ty_int, Ptr ty_float, ty_int, Ptr ty_float, ty_int, Ptr (Const ty_float), Ptr (Const ty_float)] ''cublasSrot_v2'' [0, 1, 2, 3, 4, 5, 6, 7] False,
     Gen cublas ty_cublasStatus_t ''cublasDrot_v2'' [ty_cublasHandle_t, ty_int, Ptr ty_double, ty_int, Ptr ty_double, ty_int, Ptr (Const ty_double), Ptr (Const ty_double)]
       ''cublasDrot_v2'' ty_cublasStatus_t [ty_cublasHandle_t, ty_int, Ptr ty_double, ty_int, Ptr ty_double, ty_int, Ptr (Const ty_double), Ptr (Const ty_double)] ''cublasDrot_v2'' [0, 1, 2, 3, 4, 5, 6, 7] False,
     Gen cublas ty_cublasStatus_t ''cublasCrot_v2'' [ty_cublasHandle_t, ty_int, Ptr ty_cuComplex, ty_int, Ptr ty_cuComplex, ty_int, Ptr (Const ty_float), Ptr (Const ty_cuComplex)]
       ''cublasCrot_v2'' ty_cublasStatus_t [ty_cublasHandle_t, ty_int, Ptr ty_cuComplex, ty_int, Ptr ty_cuComplex, ty_int, Ptr (Const ty_float), Ptr (Const ty_cuComplex)] ''cublasCrot_v2'' [0, 1, 2, 3, 4, 5, 6, 7] False,
     Gen cublas ty_cublasStatus_t ''cublasCsrot_v2'' [ty_cublasHandle_t, ty_int, Ptr ty_cuComplex, ty_int, Ptr ty_cuComplex, ty_int, Ptr (Const ty_float), Ptr (Const ty_float)]
       ''cublasCsrot_v2'' ty_cublasStatus_t [ty_cublasHandle_t, ty_int, Ptr ty_cuComplex, ty_int, Ptr ty_cuComplex, ty_int, Ptr (Const ty_float), Ptr (Const ty_float)] ''cublasCsrot_v2'' [0, 1, 2, 3, 4, 5, 6, 7] False,
     Gen cublas ty_cublasStatus_t ''cublasZrot_v2'' [ty_cublasHandle_t, ty_int, Ptr ty_cuDoubleComplex, ty_int, Ptr ty_cuDoubleComplex, ty_int, Ptr (Const ty_double), Ptr (Const ty_cuDoubleComplex)]
       ''cublasZrot_v2'' ty_cublasStatus_t [ty_cublasHandle_t, ty_int, Ptr ty_cuDoubleComplex, ty_int, Ptr ty_cuDoubleComplex, ty_int, Ptr (Const ty_double), Ptr (Const ty_cuDoubleComplex)] ''cublasZrot_v2'' [0, 1, 2, 3, 4, 5, 6, 7] False]"

definition cublas_hooks_16 :: "gen_hook list" where
  "cublas_hooks_16 =
    [Gen cublas ty_cublasStatus_t ''cublasZdrot_v2'' [ty_cublasHandle_t, ty_int, Ptr ty_cuDoubleComplex, ty_int, Ptr ty_cuDoubleComplex, ty_int, Ptr (Const ty_double), Ptr (Const ty_double)]
       ''cublasZdrot_v2'' ty_cublasStatus_t [ty_cublasHandle_t, ty_int, Ptr ty_cuDoubleComplex, ty_int, Ptr ty_cuDoubleComplex, ty_int, Ptr (Const ty_double), Ptr (Const ty_double)] ''cublasZdrot_v2'' [0, 1, 2, 3, 4, 5, 6, 7] False,
     Gen cublas ty_cublasStatus_t ''cublasRotEx'' [ty_cublasHandle_t, ty_int, Ptr ty_void, ty_cudaDataType, ty_int, Ptr ty_void, ty_cudaDataType, ty_int, Ptr (Const ty_void), Ptr (Const ty_void), ty_cudaDataType, ty_cudaDataType]
       ''cublasRotEx'' ty_cublasStatus_t [ty_cublasHandle_t, ty_int, Ptr ty_void, ty_cudaDataType, ty_int, Ptr ty_void, ty_cudaDataType, ty_int, Ptr (Const ty_void), Ptr (Const ty_void), ty_cudaDataType, ty_cudaDataType] ''cublasRotEx'' [0, 1, 2, 3, 4, 5, 6, 7, 8, 9, 10, 11] False,
     Gen cublas ty_cublasStatus_t ''cublasSrotg_v2'' [ty_cublasHandle_t, Ptr ty_float, Ptr ty_float, Ptr ty_float, Ptr ty_float]
       ''cublasSrotg_v2'' ty_cublasStatus_t [ty_cublasHandle_t, Ptr ty_float, Ptr ty_float, Ptr ty_float, Ptr ty_float] ''cublasSrotg_v2'' [0, 1, 2, 3, 4] False,
     Gen cublas ty_cublasStatus_t ''cublasDrotg_v2'' [ty_cublasHandle_t, Ptr ty_double, Ptr ty_double, Ptr ty_double, Ptr ty_double]
       ''cublasDrotg_v2'' ty_cublasStatus_t [ty_cublasHandle_t, Ptr ty_double, Ptr ty_double, Ptr ty_double, Ptr ty_double] ''cublasDrotg_v2'' [0, 1, 2, 3, 4] False,
     Gen cublas ty_cublasStatus_t ''cublasCrotg_v2'' [ty_cublasHandle_t, Ptr ty_cuComplex, Ptr ty_cuComplex, Ptr ty_float, Ptr ty_cuComplex]
       ''cublasCrotg_v2'' ty_cublasStatus_t [ty_cublasHandle_t, Ptr ty_cuComplex, Ptr ty_cuComplex, Ptr ty_float, Ptr ty_cuComplex] ''cublasCrotg_v2'' [0, 1, 2, 3, 4] False,
     Gen cublas ty_cublasStatus_t ''cublasZrotg_v2'' [ty_cublasHandle_t, Ptr ty_cuDoubleComplex, Ptr ty_cuDoubleComplex, Ptr ty_double, Ptr ty_cuDoubleComplex]
       ''cublasZrotg_v2'' ty_cublasStatus_t [ty_cublasHandle_t, Ptr ty_cuDoubleComplex, Ptr ty_cuDoubleComplex, Ptr ty_double, Ptr ty_cuDoubleComplex] ''cublasZrotg_v2'' [0, 1, 2, 3, 4] False,
     Gen cublas ty_cublasStatus_t ''cublasRotgEx'' [ty_cublasHandle_t, Ptr ty_void, Ptr ty_void, ty_cudaDataType, Ptr ty_void, Ptr ty_void, ty_cudaDataType, ty_cudaDataType]
       ''cublasRotgEx'' ty_cublasStatus_t [ty_cublasHandle_t, Ptr ty_void, Ptr ty_void, ty_cudaDataType, Ptr ty_void, Ptr ty_void, ty_cudaDataType, ty_cudaDataType] ''cublasRotgEx'' [0, 1, 2, 3, 4, 5, 6, 7] False,
     Gen cublas ty_cublasStatus_t ''cublasSrotm_v2'' [ty_cublasHandle_t, ty_int, Ptr ty_float, ty_int, Ptr ty_float, ty_int, Ptr (Const ty_float)]
       ''cublasSrotm_v2'' ty_cublasStatus_t [ty_cublasHandle_t, ty_int, Ptr ty_float, ty_int, Ptr ty_float, ty_int, Ptr (Const ty_float)] ''cublasSrotm_v2'' [0, 1, 2, 3, 4, 5, 6] False,
     Gen cublas ty_cublasStatus_t ''cublasDrotm_v2'' [ty_cublasHandle_t, ty_int, Ptr ty_double, ty_int, Ptr ty_double, ty_int, Ptr (Const ty_double)]
       ''cublasDrotm_v2'' ty_cublasStatus_t [ty_cublasHandle_t, ty_int, Ptr ty_double, ty_int, Ptr ty_double, ty_int, Ptr (Const ty_double)] ''cublasDrotm_v2'' [0, 1, 2, 3, 4, 5, 6] False,
     Gen cublas ty_cublasStatus_t ''cublasRotmEx'' [ty_cublasHandle_t, ty_int, Ptr ty_void, ty_cudaDataType, ty_int, Ptr ty_void, ty_cudaDataType, ty_int, Ptr (Const ty_void), ty_cudaDataType, ty_cudaDataType]
       ''cublasRotmEx'' ty_cublasStatus_t [ty_cublasHandle_t, ty_int, Ptr ty_void, ty_cudaDataType, ty_int, Ptr ty_void, ty_cudaDataType, ty_int, Ptr (Const ty_void), ty_cudaDataType, ty_cudaDataType] ''cublasRotmEx'' [0, 1, 2, 3, 4, 5, 6, 7, 8, 9, 10] False,
     Gen cublas ty_cublasStatus_t ''cublasSrotmg_v2'' [ty_cublasHandle_t, Ptr ty_float, Ptr ty_float, Ptr ty_float, Ptr (Const ty_float), Ptr ty_float]
       ''cublasSrotmg_v2'' ty_cublasStatus_t [ty_cublasHandle_t, Ptr ty_float, Ptr ty_float, Ptr ty_float, Ptr (Const ty_float), Ptr ty_float] ''cublasSrotmg_v2'' [0, 1, 2, 3, 4, 5] False,
     Gen cublas ty_cublasStatus_t ''cublasDrotmg_v2'' [ty_cublasHandle_t, Ptr ty_double, Ptr ty_double, Ptr ty_double, Ptr (Const ty_double), Ptr ty_double]
       ''cublasDrotmg_v2'' ty_cublasStatus_t [ty_cublasHandle_t, Ptr ty_double, Ptr ty_double, Ptr ty_double, Ptr (Const ty_double), Ptr ty_double] ''cublasDrotmg_v2'' [0, 1, 2, 3, 4, 5] False,
     Gen cublas ty_cublasStatus_t ''cublasRotmgEx'' [ty_cublasHandle_t, Ptr ty_void, ty_cudaDataType, Ptr ty_void, ty_cudaDataType, Ptr ty_void, ty_cudaDataType, Ptr (Const ty_void), ty_cudaDataType, Ptr ty_void, ty_cudaDataType, ty_cudaDataType]
       ''cublasRotmgEx'' ty_cublasStatus_t [ty_cublasHandle_t, Ptr ty_void, ty_cudaDataType, Ptr ty_void, ty_cudaDataType, Ptr ty_void, ty_cudaDataType, Ptr (Const ty_void), ty_cudaDataType, Ptr ty_void, ty_cudaDataType, ty_cudaDataType] ''cublasRotmgEx'' [0, 1, 2, 3, 4, 5, 6, 7, 8, 9, 10, 11] False,
     Gen cublas ty_cublasStatus_t ''cublasSgemv_v2'' [ty_cublasHandle_t, ty_cublasOperation_t, ty_int, ty_int, Ptr (Const ty_float), Ptr (Const ty_float), ty_int, Ptr (Const ty_float), ty_int, Ptr (Const ty_float), Ptr ty_float, ty_int]
       ''cublasSgemv_v2'' ty_cublasStatus_t [ty_cublasHandle_t, ty_cublasOperation_t, ty_int, ty_int, Ptr (Const ty_float), Ptr (Const ty_float), ty_int, Ptr (Const ty_float), ty_int, Ptr (Const ty_float), Ptr ty_float, ty_int] ''cublasSgemv_v2'' [0, 1, 2, 3, 4, 5, 6, 7, 8, 9, 10, 11] False]"

definition cublas_hooks_17 :: "gen_hook list" where
  "cublas_hooks_17 =
    [Gen cublas ty_cublasStatus_t ''cublasDgemv_v2'' [ty_cublasHandle_t, ty_cublasOperation_t, ty_int, ty_int, Ptr (Const ty_double), Ptr (Const ty_double), ty_int, Ptr (Const ty_double), ty_int, Ptr (Const ty_double), Ptr ty_double, ty_int]
       ''cublasDgemv_v2'' ty_cublasStatus_t [ty_cublasHandle_t, ty_cublasOperation_t, ty_int, ty_int, Ptr (Const ty_double), Ptr (Const ty_double), ty_int, Ptr (Const ty_double), ty_int, Ptr (Const ty_double), Ptr ty_double, ty_int] ''cublasDgemv_v2'' [0, 1, 2, 3, 4, 5, 6, 7, 8, 9, 10, 11] False,
     Gen cublas ty_cublasStatus_t ''cublasCgemv_v2'' [ty_cublasHandle_t, ty_cublasOperation_t, ty_int, ty_int, Ptr (Const ty_cuComplex), Ptr (Const ty_cuComplex), ty_int, Ptr (Const ty_cuComplex), ty_int, Ptr (Const ty_cuComplex), Ptr ty_cuComplex, ty_int]
       ''cublasCgemv_v2'' ty_cublasStatus_t [ty_cublasHandle_t, ty_cublasOperation_t, ty_int, ty_int, Ptr (Const ty_cuComplex), Ptr (Const ty_cuComplex), ty_int, Ptr (Const ty_cuComplex), ty_int, Ptr (Const ty_cuComplex), Ptr ty_cuComplex, ty_int] ''cublasCgemv_v2'' [0, 1, 2, 3, 4, 5, 6, 7, 8, 9, 10, 11] False,
     Gen cublas ty_cublasStatus_t ''cublasZgemv_v2'' [ty_cublasHandle_t, ty_cublasOperation_t, ty_int, ty_int, Ptr (Const ty_cuDoubleComplex), Ptr (Const ty_cuDoubleComplex), ty_int, Ptr (Const ty_cuDoubleComplex), ty_int, Ptr (Const ty_cuDoubleComplex), Ptr ty_cuDoubleComplex, ty_int]
       ''cublasZgemv_v2'' ty_cublasStatus_t [ty_cublasHandle_t, ty_cublasOperation_t, ty_int, ty_int, Ptr (Const ty_cuDoubleComplex), Ptr (Const ty_cuDoubleComplex), ty_int, Ptr (Const ty_cuDoubleComplex), ty_int, Ptr (Const ty_cuDoubleComplex), Ptr ty_cuDoubleComplex, ty_int] ''cublasZgemv_v2'' [0, 1, 2, 3, 4, 5, 6, 7, 8, 9, 10, 11] False,
     Gen cublas ty_cublasStatus_t ''cublasSgbmv_v2'' [ty_cublasHandle_t, ty_cublasOperation_t, ty_int, ty_int, ty_int, ty_int, Ptr (Const ty_float), Ptr (Const ty_float), ty_int, Ptr (Const ty_float), ty_int, Ptr (Const ty_float), Ptr ty_float, ty_int]
       ''cublasSgbmv_v2'' ty_cublasStatus_t [ty_cublasHandle_t, ty_cublasOperation_t, ty_int, ty_int, ty_int, ty_int, Ptr (Const ty_float), Ptr (Const ty_float), ty_int, Ptr (Const ty_float), ty_int, Ptr (Const ty_float), Ptr ty_float, ty_int] ''cublasSgbmv_v2'' [0, 1, 2, 3, 4, 5, 6, 7, 8, 9, 10, 11, 12, 13] False,
     Gen cublas ty_cublasStatus_t ''cublasDgbmv_v2'' [ty_cublasHandle_t, ty_cublasOperation_t, ty_int, ty_int, ty_int, ty_int, Ptr (Const ty_double), Ptr (Const ty_double), ty_int, Ptr (Const ty_double), ty_int, Ptr (Const ty_double), Ptr ty_double, ty_int]
       ''cublasDgbmv_v2'' ty_cublasStatus_t [ty_cublasHandle_t, ty_cublasOperation_t, ty_int, ty_int, ty_int, ty_int, Ptr (Const ty_double), Ptr (Const ty_double), ty_int, Ptr (Const ty_double), ty_int, Ptr (Const ty_double), Ptr ty_double, ty_int] ''cublasDgbmv_v2'' [0, 1, 2, 3, 4, 5, 6, 7, 8, 9, 10, 11, 12, 13] False,
     Gen cublas ty_cublasStatus_t ''cublasCgbmv_v2'' [ty_cublasHandle_t, ty_cublasOperation_t, ty_int, ty_int, ty_int, ty_int, Ptr (Const ty_cuComplex), Ptr (Const ty_cuComplex), ty_int, Ptr (Const ty_cuComplex), ty_int, Ptr (Const ty_cuComplex), Ptr ty_cuComplex, ty_int]
       ''cublasCgbmv_v2'' ty_cublasStatus_t [ty_cublasHandle_t, ty_cublasOperation_t, ty_int, ty_int, ty_int, ty_int, Ptr (Const ty_cuComplex), Ptr (Const ty_cuComplex), ty_int, Ptr (Const ty_cuComplex), ty_int, Ptr (Const ty_cuComplex), Ptr ty_cuComplex, ty_int] ''cublasCgbmv_v2'' [0, 1, 2, 3, 4, 5, 6, 7, 8, 9, 10, 11, 12, 13] False,
     Gen cublas ty_cublasStatus_t ''cublasZgbmv_v2'' [ty_cublasHandle_t, ty_cublasOperation_t, ty_int, ty_int, ty_int, ty_int, Ptr (Const ty_cuDoubleComplex), Ptr (Const ty_cuDoubleComplex), ty_int, Ptr (Const ty_cuDoubleComplex), ty_int, Ptr (Const ty_cuDoubleComplex), Ptr ty_cuDoubleComplex, ty_int]
       ''cublasZgbmv_v2'' ty_cublasStatus_t [ty_cublasHandle_t, ty_cublasOperation_t, ty_int, ty_int, ty_int, ty_int, Ptr (Const ty_cuDoubleComplex), Ptr (Const ty_cuDoubleComplex), ty_int, Ptr (Const ty_cuDoubleComplex), ty_int, Ptr (Const ty_cuDoubleComplex), Ptr ty_cuDoubleComplex, ty_int] ''cublasZgbmv_v2'' [0, 1, 2, 3, 4, 5, 6, 7, 8, 9, 10, 11, 12, 13] False,
     Gen cublas ty_cublasStatus_t ''cublasStrmv_v2'' [ty_cublasHandle_t, ty_cublasFillMode_t, ty_cublasOperation_t, ty_cublasDiagType_t, ty_int, Ptr (Const ty_float), ty_int, Ptr ty_float, ty_int]
       ''cublasStrmv_v2'' ty_cublasStatus_t [ty_cublasHandle_t, ty_cublasFillMode_t, ty_cublasOperation_t, ty_cublasDiagType_t, ty_int, Ptr (Const ty_float), ty_int, Ptr ty_float, ty_int] ''cublasStrmv_v2'' [0, 1, 2, 3, 4, 5, 6, 7, 8] False,
     Gen cublas ty_cublasStatus_t ''cublasDtrmv_v2'' [ty_cublasHandle_t, ty_cublasFillMode_t, ty_cublasOperation_t, ty_cublasDiagType_t, ty_int, Ptr (Const ty_double), ty_int, Ptr ty_double, ty_int]
       ''cublasDtrmv_v2'' ty_cublasStatus_t [ty_cublasHandle_t, ty_cublasFillMode_t, ty_cublasOperation_t, ty_cublasDiagType_t, ty_int, Ptr (Const ty_double), ty_int, Ptr ty_double, ty_int] ''cublasDtrmv_v2'' [0, 1, 2, 3, 4, 5, 6, 7, 8] False,
     Gen cublas ty_cublasStatus_t ''cublasCtrmv_v2'' [ty_cublasHandle_t, ty_cublasFillMode_t, ty_cublasOperation_t, ty_cublasDiagType_t, ty_int, Ptr (Const ty_cuComplex), ty_int, Ptr ty_cuComplex, ty_int]
       ''cublasCtrmv_v2'' ty_cublasStatus_t [ty_cublasHandle_t, ty_cublasFillMode_t, ty_cublasOperation_t, ty_cublasDiagType_t, ty_int, Ptr (Const ty_cuComplex), ty_int, Ptr ty_cuComplex, ty_int] ''cublasCtrmv_v2'' [0, 1, 2, 3, 4, 5, 6, 7, 8] False,
     Gen cublas ty_cublasStatus_t ''cublasZtrmv_v2'' [ty_cublasHandle_t, ty_cublasFillMode_t, ty_cublasOperation_t, ty_cublasDiagType_t, ty_int, Ptr (Const ty_cuDoubleComplex), ty_int, Ptr ty_cuDoubleComplex, ty_int]
       ''cublasZtrmv_v2'' ty_cublasStatus_t [ty_cublasHandle_t, ty_cublasFillMode_t, ty_cublasOperation_t, ty_cublasDiagType_t, ty_int, Ptr (Const ty_cuDoubleComplex), ty_int, Ptr ty_cuDoubleComplex, ty_int] ''cublasZtrmv_v2'' [0, 1, 2, 3, 4, 5, 6, 7, 8] False,
     Gen cublas ty_cublasStatus_t ''cublasStbmv_v2'' [ty_cublasHandle_t, ty_cublasFillMode_t, ty_cublasOperation_t, ty_cublasDiagType_t, ty_int, ty_int, Ptr (Const ty_float), ty_int, Ptr ty_float, ty_int]
       ''cublasStbmv_v2'' ty_cublasStatus_t [ty_cublasHandle_t, ty_cublasFillMode_t, ty_cublasOperation_t, ty_cublasDiagType_t, ty_int, ty_int, Ptr (Const ty_float), ty_int, Ptr ty_float, ty_int] ''cublasStbmv_v2'' [0, 1, 2, 3, 4, 5, 6, 7, 8, 9] False]"

definition cublas_hooks_18 :: "gen_hook list" where
  "cublas_hooks_18 =
    [Gen cublas ty_cublasStatus_t ''cublasDtbmv_v2'' [ty_cublasHandle_t, ty_cublasFillMode_t, ty_cublasOperation_t, ty_cublasDiagType_t, ty_int, ty_int, Ptr (Const ty_double), ty_int, Ptr ty_double, ty_int]
       ''cublasDtbmv_v2'' ty_cublasStatus_t [ty_cublasHandle_t, ty_cublasFillMode_t, ty_cublasOperation_t, ty_cublasDiagType_t, ty_int, ty_int, Ptr (Const ty_double), ty_int, Ptr ty_double, ty_int] ''cublasDtbmv_v2'' [0, 1, 2, 3, 4, 5, 6, 7, 8, 9] False,
     Gen cublas ty_cublasStatus_t ''cublasCtbmv_v2'' [ty_cublasHandle_t, ty_cublasFillMode_t, ty_cublasOperation_t, ty_cublasDiagType_t, ty_int, ty_int, Ptr (Const ty_cuComplex), ty_int, Ptr ty_cuComplex, ty_int]
       ''cublasCtbmv_v2'' ty_cublasStatus_t [ty_cublasHandle_t, ty_cublasFillMode_t, ty_cublasOperation_t, ty_cublasDiagType_t, ty_int, ty_int, Ptr (Const ty_cuComplex), ty_int, Ptr ty_cuComplex, ty_int] ''cublasCtbmv_v2'' [0, 1, 2, 3, 4, 5, 6, 7, 8, 9] False,
     Gen cublas ty_cublasStatus_t ''cublasZtbmv_v2'' [ty_cublasHandle_t, ty_cublasFillMode_t, ty_cublasOperation_t, ty_cublasDiagType_t, ty_int, ty_int, Ptr (Const ty_cuDoubleComplex), ty_int, Ptr ty_cuDoubleComplex, ty_int]
       ''cublasZtbmv_v2'' ty_cublasStatus_t [ty_cublasHandle_t, ty_cublasFillMode_t, ty_cublasOperation_t, ty_cublasDiagType_t, ty_int, ty_int, Ptr (Const ty_cuDoubleComplex), ty_int, Ptr ty_cuDoubleComplex, ty_int] ''cublasZtbmv_v2'' [0, 1, 2, 3, 4, 5, 6, 7, 8, 9] False,
     Gen cublas ty_cublasStatus_t ''cublasStpmv_v2'' [ty_cublasHandle_t, ty_cublasFillMode_t, ty_cublasOperation_t, ty_cublasDiagType_t, ty_int, Ptr (Const ty_float), Ptr ty_float, ty_int]
       ''cublasStpmv_v2'' ty_cublasStatus_t [ty_cublasHandle_t, ty_cublasFillMode_t, ty_cublasOperation_t, ty_cublasDiagType_t, ty_int, Ptr (Const ty_float), Ptr ty_float, ty_int] ''cublasStpmv_v2'' [0, 1, 2, 3, 4, 5, 6, 7] False,
     Gen cublas ty_cublasStatus_t ''cublasDtpmv_v2'' [ty_cublasHandle_t, ty_cublasFillMode_t, ty_cublasOperation_t, ty_cublasDiagType_t, ty_int, Ptr (Const ty_double), Ptr ty_double, ty_int]
       ''cublasDtpmv_v2'' ty_cublasStatus_t [ty_cublasHandle_t, ty_cublasFillMode_t, ty_cublasOperation_t, ty_cublasDiagType_t, ty_int, Ptr (Const ty_double), Ptr ty_double, ty_int] ''cublasDtpmv_v2'' [0, 1, 2, 3, 4, 5, 6, 7] False,
     Gen cublas ty_cublasStatus_t ''cublasCtpmv_v2'' [ty_cublasHandle_t, ty_cublasFillMode_t, ty_cublasOperation_t, ty_cublasDiagType_t, ty_int, Ptr (Const ty_cuComplex), Ptr ty_cuComplex, ty_int]
       ''cublasCtpmv_v2'' ty_cublasStatus_t [ty_cublasHandle_t, ty_cublasFillMode_t, ty_cublasOperation_t, ty_cublasDiagType_t, ty_int, Ptr (Const ty_cuComplex), Ptr ty_cuComplex, ty_int] ''cublasCtpmv_v2'' [0, 1, 2, 3, 4, 5, 6, 7] False,
     Gen cublas ty_cublasStatus_t ''cublasZtpmv_v2'' [ty_cublasHandle_t, ty_cublasFillMode_t, ty_cublasOperation_t, ty_cublasDiagType_t, ty_int, Ptr (Const ty_cuDoubleComplex), Ptr ty_cuDoubleComplex, ty_int]
       ''cublasZtpmv_v2'' ty_cublasStatus_t [ty_cublasHandle_t, ty_cublasFillMode_t, ty_cublasOperation_t, ty_cublasDiagType_t, ty_int, Ptr (Const ty_cuDoubleComplex), Ptr ty_cuDoubleComplex, ty_int] ''cublasZtpmv_v2'' [0, 1, 2, 3, 4, 5, 6, 7] False,
     Gen cublas ty_cublasStatus_t ''cublasStrsv_v2'' [ty_cublasHandle_t, ty_cublasFillMode_t, ty_cublasOperation_t, ty_cublasDiagType_t, ty_int, Ptr (Const ty_float), ty_int, Ptr ty_float, ty_int]
       ''cublasStrsv_v2'' ty_cublasStatus_t [ty_cublasHandle_t, ty_cublasFillMode_t, ty_cublasOperation_t, ty_cublasDiagType_t, ty_int, Ptr (Const ty_float), ty_int, Ptr ty_float, ty_int] ''cublasStrsv_v2'' [0, 1, 2, 3, 4, 5, 6, 7, 8] False,
     Gen cublas ty_cublasStatus_t ''cublasDtrsv_v2'' [ty_cublasHandle_t, ty_cublasFillMode_t, ty_cublasOperation_t, ty_cublasDiagType_t, ty_int, Ptr (Const ty_double), ty_int, Ptr ty_double, ty_int]
       ''cublasDtrsv_v2'' ty_cublasStatus_t [ty_cublasHandle_t, ty_cublasFillMode_t, ty_cublasOperation_t, ty_cublasDiagType_t, ty_int, Ptr (Const ty_double), ty_int, Ptr ty_double, ty_int] ''cublasDtrsv_v2'' [0, 1, 2, 3, 4, 5, 6, 7, 8] False,
     Gen cublas ty_cublasStatus_t ''cublasCtrsv_v2'' [ty_cublasHandle_t, ty_cublasFillMode_t, ty_cublasOperation_t, ty_cublasDiagType_t, ty_int, Ptr (Const ty_cuComplex), ty_int, Ptr ty_cuComplex, ty_int]
       ''cublasCtrsv_v2'' ty_cublasStatus_t [ty_cublasHandle_t, ty_cublasFillMode_t, ty_cublasOperation_t, ty_cublasDiagType_t, ty_int, Ptr (Const ty_cuComplex), ty_int, Ptr ty_cuComplex, ty_int] ''cublasCtrsv_v2'' [0, 1, 2, 3, 4, 5, 6, 7, 8] False,
     Gen cublas ty_cublasStatus_t ''cublasZtrsv_v2'' [ty_cublasHandle_t, ty_cublasFillMode_t, ty_cublasOperation_t, ty_cublasDiagType_t, ty_int, Ptr (Const ty_cuDoubleComplex), ty_int, Ptr ty_cuDoubleComplex, ty_int]
       ''cublasZtrsv_v2'' ty_cublasStatus_t [ty_cublasHandle_t, ty_cublasFillMode_t, ty_cublasOperation_t, ty_cublasDiagType_t, ty_int, Ptr (Const ty_cuDoubleComplex), ty_int, Ptr ty_cuDoubleComplex, ty_int] ''cublasZtrsv_v2'' [0, 1, 2, 3, 4, 5, 6, 7, 8] False,
     Gen cublas ty_cublasStatus_t ''cublasStpsv_v2'' [ty_cublasHandle_t, ty_cublasFillMode_t, ty_cublasOperation_t, ty_cublasDiagType_t, ty_int, Ptr (Const ty_float), Ptr ty_float, ty_int]
       ''cublasStpsv_v2'' ty_cublasStatus_t [ty_cublasHandle_t, ty_cublasFillMode_t, ty_cublasOperation_t, ty_cublasDiagType_t, ty_int, Ptr (Const ty_float), Ptr ty_float, ty_int] ''cublasStpsv_v2'' [0, 1, 2, 3, 4, 5, 6, 7] False,
     Gen cublas ty_cublasStatus_t ''cublasDtpsv_v2'' [ty_cublasHandle_t, ty_cublasFillMode_t, ty_cublasOperation_t, ty_cublasDiagType_t, ty_int, Ptr (Const ty_double), Ptr ty_double, ty_int]
       ''cublasDtpsv_v2'' ty_cublasStatus_t [ty_cublasHandle_t, ty_cublasFillMode_t, ty_cublasOperation_t, ty_cublasDiagType_t, ty_int, Ptr (Const ty_double), Ptr ty_double, ty_int] ''cublasDtpsv_v2'' [0, 1, 2, 3, 4, 5, 6, 7] False]"

definition cublas_hooks_19 :: "gen_hook list" where
  "cublas_hooks_19 =
    [Gen cublas ty_cublasStatus_t ''cublasCtpsv_v2'' [ty_cublasHandle_t, ty_cublasFillMode_t, ty_cublasOperation_t, ty_cublasDiagType_t, ty_int, Ptr (Const ty_cuComplex), Ptr ty_cuComplex, ty_int]
       ''cublasCtpsv_v2'' ty_cublasStatus_t [ty_cublasHandle_t, ty_cublasFillMode_t, ty_cublasOperation_t, ty_cublasDiagType_t, ty_int, Ptr (Const ty_cuComplex), Ptr ty_cuComplex, ty_int] ''cublasCtpsv_v2'' [0, 1, 2, 3, 4, 5, 6, 7] False,
     Gen cublas ty_cublasStatus_t ''cublasZtpsv_v2'' [ty_cublasHandle_t, ty_cublasFillMode_t, ty_cublasOperation_t, ty_cublasDiagType_t, ty_int, Ptr (Const ty_cuDoubleComplex), Ptr ty_cuDoubleComplex, ty_int]
       ''cublasZtpsv_v2'' ty_cublasStatus_t [ty_cublasHandle_t, ty_cublasFillMode_t, ty_cublasOperation_t, ty_cublasDiagType_t, ty_int, Ptr (Const ty_cuDoubleComplex), Ptr ty_cuDoubleComplex, ty_int] ''cublasZtpsv_v2'' [0, 1, 2, 3, 4, 5, 6, 7] False,
     Gen cublas ty_cublasStatus_t ''cublasStbsv_v2'' [ty_cublasHandle_t, ty_cublasFillMode_t, ty_cublasOperation_t, ty_cublasDiagType_t, ty_int, ty_int, Ptr (Const ty_float), ty_int, Ptr ty_float, ty_int]
       ''cublasStbsv_v2'' ty_cublasStatus_t [ty_cublasHandle_t, ty_cublasFillMode_t, ty_cublasOperation_t, ty_cublasDiagType_t, ty_int, ty_int, Ptr (Const ty_float), ty_int, Ptr ty_float, ty_int] ''cublasStbsv_v2'' [0, 1, 2, 3, 4, 5, 6, 7, 8, 9] False,
     Gen cublas ty_cublasStatus_t ''cublasDtbsv_v2'' [ty_cublasHandle_t, ty_cublasFillMode_t, ty_cublasOperation_t, ty_cublasDiagType_t, ty_int, ty_int, Ptr (Const ty_double), ty_int, Ptr ty_double, ty_int]
       ''cublasDtbsv_v2'' ty_cublasStatus_t [ty_cublasHandle_t, ty_cublasFillMode_t, ty_cublasOperation_t, ty_cublasDiagType_t, ty_int, ty_int, Ptr (Const ty_double), ty_int, Ptr ty_double, ty_int] ''cublasDtbsv_v2'' [0, 1, 2, 3, 4, 5, 6, 7, 8, 9] False,
     Gen cublas ty_cublasStatus_t ''cublasCtbsv_v2'' [ty_cublasHandle_t, ty_cublasFillMode_t, ty_cublasOperation_t, ty_cublasDiagType_t, ty_int, ty_int, Ptr (Const ty_cuComplex), ty_int, Ptr ty_cuComplex, ty_int]
       ''cublasCtbsv_v2'' ty_cublasStatus_t [ty_cublasHandle_t, ty_cublasFillMode_t, ty_cublasOperation_t, ty_cublasDiagType_t, ty_int, ty_int, Ptr (Const ty_cuComplex), ty_int, Ptr ty_cuComplex, ty_int] ''cublasCtbsv_v2'' [0, 1, 2, 3, 4, 5, 6, 7, 8, 9] False,
     Gen cublas ty_cublasStatus_t ''cublasZtbsv_v2'' [ty_cublasHandle_t, ty_cublasFillMode_t, ty_cublasOperation_t, ty_cublasDiagType_t, ty_int, ty_int, Ptr (Const ty_cuDoubleComplex), ty_int, Ptr ty_cuDoubleComplex, ty_int]
       ''cublasZtbsv_v2'' ty_cublasStatus_t [ty_cublasHandle_t, ty_cublasFillMode_t, ty_cublasOperation_t, ty_cublasDiagType_t, ty_int, ty_int, Ptr (Const ty_cuDoubleComplex), ty_int, Ptr ty_cuDoubleComplex, ty_int] ''cublasZtbsv_v2'' [0, 1, 2, 3, 4, 5, 6, 7, 8, 9] False,
     Gen cublas ty_cublasStatus_t ''cublasSsymv_v2'' [ty_cublasHandle_t, ty_cublasFillMode_t, ty_int, Ptr (Const ty_float), Ptr (Const ty_float), ty_int, Ptr (Const ty_float), ty_int, Ptr (Const ty_float), Ptr ty_float, ty_int]
       ''cublasSsymv_v2'' ty_cublasStatus_t [ty_cublasHandle_t, ty_cublasFillMode_t, ty_int, Ptr (Const ty_float), Ptr (Const ty_float), ty_int, Ptr (Const ty_float), ty_int, Ptr (Const ty_float), Ptr ty_float, ty_int] ''cublasSsymv_v2'' [0, 1, 2, 3, 4, 5, 6, 7, 8, 9, 10] False,
     Gen cublas ty_cublasStatus_t ''cublasDsymv_v2'' [ty_cublasHandle_t, ty_cublasFillMode_t, ty_int, Ptr (Const ty_double), Ptr (Const ty_double), ty_int, Ptr (Const ty_double), ty_int, Ptr (Const ty_double), Ptr ty_double, ty_int]
       ''cublasDsymv_v2'' ty_cublasStatus_t [ty_cublasHandle_t, ty_cublasFillMode_t, ty_int, Ptr (Const ty_double), Ptr (Const ty_double), ty_int, Ptr (Const ty_double), ty_int, Ptr (Const ty_double), Ptr ty_double, ty_int] ''cublasDsymv_v2'' [0, 1, 2, 3, 4, 5, 6, 7, 8, 9, 10] False,
     Gen cublas ty_cublasStatus_t ''cublasCsymv_v2'' [ty_cublasHandle_t, ty_cublasFillMode_t, ty_int, Ptr (Const ty_cuComplex), Ptr (Const ty_cuComplex), ty_int, Ptr (Const ty_cuComplex), ty_int, Ptr (Const ty_cuComplex), Ptr ty_cuComplex, ty_int]
       ''cublasCsymv_v2'' ty_cublasStatus_t [ty_cublasHandle_t, ty_cublasFillMode_t, ty_int, Ptr (Const ty_cuComplex), Ptr (Const ty_cuComplex), ty_int, Ptr (Const ty_cuComplex), ty_int, Ptr (Const ty_cuComplex), Ptr ty_cuComplex, ty_int] ''cublasCsymv_v2'' [0, 1, 2, 3, 4, 5, 6, 7, 8, 9, 10] False,
     Gen cublas ty_cublasStatus_t ''cublasZsymv_v2'' [ty_cublasHandle_t, ty_cublasFillMode_t, ty_int, Ptr (Const ty_cuDoubleComplex), Ptr (Const ty_cuDoubleComplex), ty_int, Ptr (Const ty_cuDoubleComplex), ty_int, Ptr (Const ty_cuDoubleComplex), Ptr ty_cuDoubleComplex, ty_int]
       ''cublasZsymv_v2'' ty_cublasStatus_t [ty_cublasHandle_t, ty_cublasFillMode_t, ty_int, Ptr (Const ty_cuDoubleComplex), Ptr (Const ty_cuDoubleComplex), ty_int, Ptr (Const ty_cuDoubleComplex), ty_int, Ptr (Const ty_cuDoubleComplex), Ptr ty_cuDoubleComplex, ty_int] ''cublasZsymv_v2'' [0, 1, 2, 3, 4, 5, 6, 7, 8, 9, 10] False,
     Gen cublas ty_cublasStatus_t ''cublasChemv_v2'' [ty_cublasHandle_t, ty_cublasFillMode_t, ty_int, Ptr (Const ty_cuComplex), Ptr (Const ty_cuComplex), ty_int, Ptr (Const ty_cuComplex), ty_int, Ptr (Const ty_cuComplex), Ptr ty_cuComplex, ty_int]
       ''cublasChemv_v2'' ty_cublasStatus_t [ty_cublasHandle_t, ty_cublasFillMode_t, ty_int, Ptr (Const ty_cuComplex), Ptr (Const ty_cuComplex), ty_int, Ptr (Const ty_cuComplex), ty_int, Ptr (Const ty_cuComplex), Ptr ty_cuComplex, ty_int] ''cublasChemv_v2'' [0, 1, 2, 3, 4, 5, 6, 7, 8, 9, 10] False,
     Gen cublas ty_cublasStatus_t ''cublasZhemv_v2'' [ty_cublasHandle_t, ty_cublasFillMode_t, ty_int, Ptr (Const ty_cuDoubleComplex), Ptr (Const ty_cuDoubleComplex), ty_int, Ptr (Const ty_cuDoubleComplex), ty_int, Ptr (Const ty_cuDoubleComplex), Ptr ty_cuDoubleComplex, ty_int]
       ''cublasZhemv_v2'' ty_cublasStatus_t [ty_cublasHandle_t, ty_cublasFillMode_t, ty_int, Ptr (Const ty_cuDoubleComplex), Ptr (Const ty_cuDoubleComplex), ty_int, Ptr (Const ty_cuDoubleComplex), ty_int, Ptr (Const ty_cuDoubleComplex), Ptr ty_cuDoubleComplex, ty_int] ''cublasZhemv_v2'' [0, 1, 2, 3, 4, 5, 6, 7, 8, 9, 10] False,
     Gen cublas ty_cublasStatus_t ''cublasSsbmv_v2'' [ty_cublasHandle_t, ty_cublasFillMode_t, ty_int, ty_int, Ptr (Const ty_float), Ptr (Const ty_float), ty_int, Ptr (Const ty_float), ty_int, Ptr (Const ty_float), Ptr ty_float, ty_int]
       ''cublasSsbmv_v2'' ty_cublasStatus_t [ty_cublasHandle_t, ty_cublasFillMode_t, ty_int, ty_int, Ptr (Const ty_float), Ptr (Const ty_float), ty_int, Ptr (Const ty_float), ty_int, Ptr (Const ty_float), Ptr ty_float, ty_int] ''cublasSsbmv_v2'' [0, 1, 2, 3, 4, 5, 6, 7, 8, 9, 10, 11] False]"

definition cublas_hooks_20 :: "gen_hook list" where
  "cublas_hooks_20 =
    [Gen cublas ty_cublasStatus_t ''cublasDsbmv_v2'' [ty_cublasHandle_t, ty_cublasFillMode_t, ty_int, ty_int, Ptr (Const ty_double), Ptr (Const ty_double), ty_int, Ptr (Const ty_double), ty_int, Ptr (Const ty_double), Ptr ty_double, ty_int]
       ''cublasDsbmv_v2'' ty_cublasStatus_t [ty_cublasHandle_t, ty_cublasFillMode_t, ty_int, ty_int, Ptr (Const ty_double), Ptr (Const ty_double), ty_int, Ptr (Const ty_double), ty_int, Ptr (Const ty_double), Ptr ty_double, ty_int] ''cublasDsbmv_v2'' [0, 1, 2, 3, 4, 5, 6, 7, 8, 9, 10, 11] False,
     Gen cublas ty_cublasStatus_t ''cublasChbmv_v2'' [ty_cublasHandle_t, ty_cublasFillMode_t, ty_int, ty_int, Ptr (Const ty_cuComplex), Ptr (Const ty_cuComplex), ty_int, Ptr (Const ty_cuComplex), ty_int, Ptr (Const ty_cuComplex), Ptr ty_cuComplex, ty_int]
       ''cublasChbmv_v2'' ty_cublasStatus_t [ty_cublasHandle_t, ty_cublasFillMode_t, ty_int, ty_int, Ptr (Const ty_cuComplex), Ptr (Const ty_cuComplex), ty_int, Ptr (Const ty_cuComplex), ty_int, Ptr (Const ty_cuComplex), Ptr ty_cuComplex, ty_int] ''cublasChbmv_v2'' [0, 1, 2, 3, 4, 5, 6, 7, 8, 9, 10, 11] False,
     Gen cublas ty_cublasStatus_t ''cublasZhbmv_v2'' [ty_cublasHandle_t, ty_cublasFillMode_t, ty_int, ty_int, Ptr (Const ty_cuDoubleComplex), Ptr (Const ty_cuDoubleComplex), ty_int, Ptr (Const ty_cuDoubleComplex), ty_int, Ptr (Const ty_cuDoubleComplex), Ptr ty_cuDoubleComplex, ty_int]
       ''cublasZhbmv_v2'' ty_cublasStatus_t [ty_cublasHandle_t, ty_cublasFillMode_t, ty_int, ty_int, Ptr (Const ty_cuDoubleComplex), Ptr (Const ty_cuDoubleComplex), ty_int, Ptr (Const ty_cuDoubleComplex), ty_int, Ptr (Const ty_cuDoubleComplex), Ptr ty_cuDoubleComplex, ty_int] ''cublasZhbmv_v2'' [0, 1, 2, 3, 4, 5, 6, 7, 8, 9, 10, 11] False,
     Gen cublas ty_cublasStatus_t ''cublasSspmv_v2'' [ty_cublasHandle_t, ty_cublasFillMode_t, ty_int, Ptr (Const ty_float), Ptr (Const ty_float), Ptr (Const ty_float), ty_int, Ptr (Const ty_float), Ptr ty_float, ty_int]
       ''cublasSspmv_v2'' ty_cublasStatus_t [ty_cublasHandle_t, ty_cublasFillMode_t, ty_int, Ptr (Const ty_float), Ptr (Const ty_float), Ptr (Const ty_float), ty_int, Ptr (Const ty_float), Ptr ty_float, ty_int] ''cublasSspmv_v2'' [0, 1, 2, 3, 4, 5, 6, 7, 8, 9] False,
     Gen cublas ty_cublasStatus_t ''cublasDspmv_v2'' [ty_cublasHandle_t, ty_cublasFillMode_t, ty_int, Ptr (Const ty_double), Ptr (Const ty_double), Ptr (Const ty_double), ty_int, Ptr (Const ty_double), Ptr ty_double, ty_int]
       ''cublasDspmv_v2'' ty_cublasStatus_t [ty_cublasHandle_t, ty_cublasFillMode_t, ty_int, Ptr (Const ty_double), Ptr (Const ty_double), Ptr (Const ty_double), ty_int, Ptr (Const ty_double), Ptr ty_double, ty_int] ''cublasDspmv_v2'' [0, 1, 2, 3, 4, 5, 6, 7, 8, 9] False,
     Gen cublas ty_cublasStatus_t ''cublasChpmv_v2'' [ty_cublasHandle_t, ty_cublasFillMode_t, ty_int, Ptr (Const ty_cuComplex), Ptr (Const ty_cuComplex), Ptr (Const ty_cuComplex), ty_int, Ptr (Const ty_cuComplex), Ptr ty_cuComplex, ty_int]
       ''cublasChpmv_v2'' ty_cublasStatus_t [ty_cublasHandle_t, ty_cublasFillMode_t, ty_int, Ptr (Const ty_cuComplex), Ptr (Const ty_cuComplex), Ptr (Const ty_cuComplex), ty_int, Ptr (Const ty_cuComplex), Ptr ty_cuComplex, ty_int] ''cublasChpmv_v2'' [0, 1, 2, 3, 4, 5, 6, 7, 8, 9] False,
     Gen cublas ty_cublasStatus_t ''cublasZhpmv_v2'' [ty_cublasHandle_t, ty_cublasFillMode_t, ty_int, Ptr (Const ty_cuDoubleComplex), Ptr (Const ty_cuDoubleComplex), Ptr (Const ty_cuDoubleComplex), ty_int, Ptr (Const ty_cuDoubleComplex), Ptr ty_cuDoubleComplex, ty_int]
       ''cublasZhpmv_v2'' ty_cublasStatus_t [ty_cublasHandle_t, ty_cublasFillMode_t, ty_int, Ptr (Const ty_cuDoubleComplex), Ptr (Const ty_cuDoubleComplex), Ptr (Const ty_cuDoubleComplex), ty_int, Ptr (Const ty_cuDoubleComplex), Ptr ty_cuDoubleComplex, ty_int] ''cublasZhpmv_v2'' [0, 1, 2, 3, 4, 5, 6, 7, 8, 9] False,
     Gen cublas ty_cublasStatus_t ''cublasSger_v2'' [ty_cublasHandle_t, ty_int, ty_int, Ptr (Const ty_float), Ptr (Const ty_float), ty_int, Ptr (Const ty_float), ty_int, Ptr ty_float, ty_int]
       ''cublasSger_v2'' ty_cublasStatus_t [ty_cublasHandle_t, ty_int, ty_int, Ptr (Const ty_float), Ptr (Const ty_float), ty_int, Ptr (Const ty_float), ty_int, Ptr ty_float, ty_int] ''cublasSger_v2'' [0, 1, 2, 3, 4, 5, 6, 7, 8, 9] False,
     Gen cublas ty_cublasStatus_t ''cublasDger_v2'' [ty_cublasHandle_t, ty_int, ty_int, Ptr (Const ty_double), Ptr (Const ty_double), ty_int, Ptr (Const ty_double), ty_int, Ptr ty_double, ty_int]
       ''cublasDger_v2'' ty_cublasStatus_t [ty_cublasHandle_t, ty_int, ty_int, Ptr (Const ty_double), Ptr (Const ty_double), ty_int, Ptr (Const ty_double), ty_int, Ptr ty_double, ty_int] ''cublasDger_v2'' [0, 1, 2, 3, 4, 5, 6, 7, 8, 9] False,
     Gen cublas ty_cublasStatus_t ''cublasCgeru_v2'' [ty_cublasHandle_t, ty_int, ty_int, Ptr (Const ty_cuComplex), Ptr (Const ty_cuComplex), ty_int, Ptr (Const ty_cuComplex), ty_int, Ptr ty_cuComplex, ty_int]
       ''cublasCgeru_v2'' ty_cublasStatus_t [ty_cublasHandle_t, ty_int, ty_int, Ptr (Const ty_cuComplex), Ptr (Const ty_cuComplex), ty_int, Ptr (Const ty_cuComplex), ty_int, Ptr ty_cuComplex, ty_int] ''cublasCgeru_v2'' [0, 1, 2, 3, 4, 5, 6, 7, 8, 9] False,
     Gen cublas ty_cublasStatus_t ''cublasCgerc_v2'' [ty_cublasHandle_t, ty_int, ty_int, Ptr (Const ty_cuComplex), Ptr (Const ty_cuComplex), ty_int, Ptr (Const ty_cuComplex), ty_int, Ptr ty_cuComplex, ty_int]
       ''cublasCgerc_v2'' ty_cublasStatus_t [ty_cublasHandle_t, ty_int, ty_int, Ptr (Const ty_cuComplex), Ptr (Const ty_cuComplex), ty_int, Ptr (Const ty_cuComplex), ty_int, Ptr ty_cuComplex, ty_int] ''cublasCgerc_v2'' [0, 1, 2, 3, 4, 5, 6, 7, 8, 9] False,
     Gen cublas ty_cublasStatus_t ''cublasZgeru_v2'' [ty_cublasHandle_t, ty_int, ty_int, Ptr (Const ty_cuDoubleComplex), Ptr (Const ty_cuDoubleComplex), ty_int, Ptr (Const ty_cuDoubleComplex), ty_int, Ptr ty_cuDoubleComplex, ty_int]
       ''cublasZgeru_v2'' ty_cublasStatus_t [ty_cublasHandle_t, ty_int, ty_int, Ptr (Const ty_cuDoubleComplex), Ptr (Const ty_cuDoubleComplex), ty_int, Ptr (Const ty_cuDoubleComplex), ty_int, Ptr ty_cuDoubleComplex, ty_int] ''cublasZgeru_v2'' [0, 1, 2, 3, 4, 5, 6, 7, 8, 9] False]"

definition cublas_hooks_21 :: "gen_hook list" where
  "cublas_hooks_21 =
    [Gen cublas ty_cublasStatus_t ''cublasZgerc_v2'' [ty_cublasHandle_t, ty_int, ty_int, Ptr (Const ty_cuDoubleComplex), Ptr (Const ty_cuDoubleComplex), ty_int, Ptr (Const ty_cuDoubleComplex), ty_int, Ptr ty_cuDoubleComplex, ty_int]
       ''cublasZgerc_v2'' ty_cublasStatus_t [ty_cublasHandle_t, ty_int, ty_int, Ptr (Const ty_cuDoubleComplex), Ptr (Const ty_cuDoubleComplex), ty_int, Ptr (Const ty_cuDoubleComplex), ty_int, Ptr ty_cuDoubleComplex, ty_int] ''cublasZgerc_v2'' [0, 1, 2, 3, 4, 5, 6, 7, 8, 9] False,
     Gen cublas ty_cublasStatus_t ''cublasSsyr_v2'' [ty_cublasHandle_t, ty_cublasFillMode_t, ty_int, Ptr (Const ty_float), Ptr (Const ty_float), ty_int, Ptr ty_float, ty_int]
       ''cublasSsyr_v2'' ty_cublasStatus_t [ty_cublasHandle_t, ty_cublasFillMode_t, ty_int, Ptr (Const ty_float), Ptr (Const ty_float), ty_int, Ptr ty_float, ty_int] ''cublasSsyr_v2'' [0, 1, 2, 3, 4, 5, 6, 7] False,
     Gen cublas ty_cublasStatus_t ''cublasDsyr_v2'' [ty_cublasHandle_t, ty_cublasFillMode_t, ty_int, Ptr (Const ty_double), Ptr (Const ty_double), ty_int, Ptr ty_double, ty_int]
       ''cublasDsyr_v2'' ty_cublasStatus_t [ty_cublasHandle_t, ty_cublasFillMode_t, ty_int, Ptr (Const ty_double), Ptr (Const ty_double), ty_int, Ptr ty_double, ty_int] ''cublasDsyr_v2'' [0, 1, 2, 3, 4, 5, 6, 7] False,
     Gen cublas ty_cublasStatus_t ''cublasCsyr_v2'' [ty_cublasHandle_t, ty_cublasFillMode_t, ty_int, Ptr (Const ty_cuComplex), Ptr (Const ty_cuComplex), ty_int, Ptr ty_cuComplex, ty_int]
       ''cublasCsyr_v2'' ty_cublasStatus_t [ty_cublasHandle_t, ty_cublasFillMode_t, ty_int, Ptr (Const ty_cuComplex), Ptr (Const ty_cuComplex), ty_int, Ptr ty_cuComplex, ty_int] ''cublasCsyr_v2'' [0, 1, 2, 3, 4, 5, 6, 7] False,
     Gen cublas ty_cublasStatus_t ''cublasZsyr_v2'' [ty_cublasHandle_t, ty_cublasFillMode_t, ty_int, Ptr (Const ty_cuDoubleComplex), Ptr (Const ty_cuDoubleComplex), ty_int, Ptr ty_cuDoubleComplex, ty_int]
       ''cublasZsyr_v2'' ty_cublasStatus_t [ty_cublasHandle_t, ty_cublasFillMode_t, ty_int, Ptr (Const ty_cuDoubleComplex), Ptr (Const ty_cuDoubleComplex), ty_int, Ptr ty_cuDoubleComplex, ty_int] ''cublasZsyr_v2'' [0, 1, 2, 3, 4, 5, 6, 7] False,
     Gen cublas ty_cublasStatus_t ''cublasCher_v2'' [ty_cublasHandle_t, ty_cublasFillMode_t, ty_int, Ptr (Const ty_float), Ptr (Const ty_cuComplex), ty_int, Ptr ty_cuComplex, ty_int]
       ''cublasCher_v2'' ty_cublasStatus_t [ty_cublasHandle_t, ty_cublasFillMode_t, ty_int, Ptr (Const ty_float), Ptr (Const ty_cuComplex), ty_int, Ptr ty_cuComplex, ty_int] ''cublasCher_v2'' [0, 1, 2, 3, 4, 5, 6, 7] False,
     Gen cublas ty_cublasStatus_t ''cublasZher_v2'' [ty_cublasHandle_t, ty_cublasFillMode_t, ty_int, Ptr (Const ty_double), Ptr (Const ty_cuDoubleComplex), ty_int, Ptr ty_cuDoubleComplex, ty_int]
       ''cublasZher_v2'' ty_cublasStatus_t [ty_cublasHandle_t, ty_cublasFillMode_t, ty_int, Ptr (Const ty_double), Ptr (Const ty_cuDoubleComplex), ty_int, Ptr ty_cuDoubleComplex, ty_int] ''cublasZher_v2'' [0, 1, 2, 3, 4, 5, 6, 7] False,
     Gen cublas ty_cublasStatus_t ''cublasSspr_v2'' [ty_cublasHandle_t, ty_cublasFillMode_t, ty_int, Ptr (Const ty_float), Ptr (Const ty_float), ty_int, Ptr ty_float]
       ''cublasSspr_v2'' ty_cublasStatus_t [ty_cublasHandle_t, ty_cublasFillMode_t, ty_int, Ptr (Const ty_float), Ptr (Const ty_float), ty_int, Ptr ty_float] ''cublasSspr_v2'' [0, 1, 2, 3, 4, 5, 6] False,
     Gen cublas ty_cublasStatus_t ''cublasDspr_v2'' [ty_cublasHandle_t, ty_cublasFillMode_t, ty_int, Ptr (Const ty_double), Ptr (Const ty_double), ty_int, Ptr ty_double]
       ''cublasDspr_v2'' ty_cublasStatus_t [ty_cublasHandle_t, ty_cublasFillMode_t, ty_int, Ptr (Const ty_double), Ptr (Const ty_double), ty_int, Ptr ty_double] ''cublasDspr_v2'' [0, 1, 2, 3, 4, 5, 6] False,
     Gen cublas ty_cublasStatus_t ''cublasChpr_v2'' [ty_cublasHandle_t, ty_cublasFillMode_t, ty_int, Ptr (Const ty_float), Ptr (Const ty_cuComplex), ty_int, Ptr ty_cuComplex]
       ''cublasChpr_v2'' ty_cublasStatus_t [ty_cublasHandle_t, ty_cublasFillMode_t, ty_int, Ptr (Const ty_float), Ptr (Const ty_cuComplex), ty_int, Ptr ty_cuComplex] ''cublasChpr_v2'' [0, 1, 2, 3, 4, 5, 6] False,
     Gen cublas ty_cublasStatus_t ''cublasZhpr_v2'' [ty_cublasHandle_t, ty_cublasFillMode_t, ty_int, Ptr (Const ty_double), Ptr (Const ty_cuDoubleComplex), ty_int, Ptr ty_cuDoubleComplex]
       ''cublasZhpr_v2'' ty_cublasStatus_t [ty_cublasHandle_t, ty_cublasFillMode_t, ty_int, Ptr (Const ty_double), Ptr (Const ty_cuDoubleComplex), ty_int, Ptr ty_cuDoubleComplex] ''cublasZhpr_v2'' [0, 1, 2, 3, 4, 5, 6] False,
     Gen cublas ty_cublasStatus_t ''cublasSsyr2_v2'' [ty_cublasHandle_t, ty_cublasFillMode_t, ty_int, Ptr (Const ty_float), Ptr (Const ty_float), ty_int, Ptr (Const ty_float), ty_int, Ptr ty_float, ty_int]
       ''cublasSsyr2_v2'' ty_cublasStatus_t [ty_cublasHandle_t, ty_cublasFillMode_t, ty_int, Ptr (Const ty_float), Ptr (Const ty_float), ty_int, Ptr (Const ty_float), ty_int, Ptr ty_float, ty_int] ''cublasSsyr2_v2'' [0, 1, 2, 3, 4, 5, 6, 7, 8, 9] False,
     Gen cublas ty_cublasStatus_t ''cublasDsyr2_v2'' [ty_cublasHandle_t, ty_cublasFillMode_t, ty_int, Ptr (Const ty_double), Ptr (Const ty_double), ty_int, Ptr (Const ty_double), ty_int, Ptr ty_double, ty_int]
       ''cublasDsyr2_v2'' ty_cublasStatus_t [ty_cublasHandle_t, ty_cublasFillMode_t, ty_int, Ptr (Const ty_double), Ptr (Const ty_double), ty_int, Ptr (Const ty_double), ty_int, Ptr ty_double, ty_int] ''cublasDsyr2_v2'' [0, 1, 2, 3, 4, 5, 6, 7, 8, 9] False]"

definition cublas_hooks_22 :: "gen_hook list" where
  "cublas_hooks_22 =
    [Gen cublas ty_cublasStatus_t ''cublasCsyr2_v2'' [ty_cublasHandle_t, ty_cublasFillMode_t, ty_int, Ptr (Const ty_cuComplex), Ptr (Const ty_cuComplex), ty_int, Ptr (Const ty_cuComplex), ty_int, Ptr ty_cuComplex, ty_int]
       ''cublasCsyr2_v2'' ty_cublasStatus_t [ty_cublasHandle_t, ty_cublasFillMode_t, ty_int, Ptr (Const ty_cuComplex), Ptr (Const ty_cuComplex), ty_int, Ptr (Const ty_cuComplex), ty_int, Ptr ty_cuComplex, ty_int] ''cublasCsyr2_v2'' [0, 1, 2, 3, 4, 5, 6, 7, 8, 9] False,
     Gen cublas ty_cublasStatus_t ''cublasZsyr2_v2'' [ty_cublasHandle_t, ty_cublasFillMode_t, ty_int, Ptr (Const ty_cuDoubleComplex), Ptr (Const ty_cuDoubleComplex), ty_int, Ptr (Const ty_cuDoubleComplex), ty_int, Ptr ty_cuDoubleComplex, ty_int]
       ''cublasZsyr2_v2'' ty_cublasStatus_t [ty_cublasHandle_t, ty_cublasFillMode_t, ty_int, Ptr (Const ty_cuDoubleComplex), Ptr (Const ty_cuDoubleComplex), ty_int, Ptr (Const ty_cuDoubleComplex), ty_int, Ptr ty_cuDoubleComplex, ty_int] ''cublasZsyr2_v2'' [0, 1, 2, 3, 4, 5, 6, 7, 8, 9] False,
     Gen cublas ty_cublasStatus_t ''cublasCher2_v2'' [ty_cublasHandle_t, ty_cublasFillMode_t, ty_int, Ptr (Const ty_cuComplex), Ptr (Const ty_cuComplex), ty_int, Ptr (Const ty_cuComplex), ty_int, Ptr ty_cuComplex, ty_int]
       ''cublasCher2_v2'' ty_cublasStatus_t [ty_cublasHandle_t, ty_cublasFillMode_t, ty_int, Ptr (Const ty_cuComplex), Ptr (Const ty_cuComplex), ty_int, Ptr (Const ty_cuComplex), ty_int, Ptr ty_cuComplex, ty_int] ''cublasCher2_v2'' [0, 1, 2, 3, 4, 5, 6, 7, 8, 9] False,
     Gen cublas ty_cublasStatus_t ''cublasZher2_v2'' [ty_cublasHandle_t, ty_cublasFillMode_t, ty_int, Ptr (Const ty_cuDoubleComplex), Ptr (Const ty_cuDoubleComplex), ty_int, Ptr (Const ty_cuDoubleComplex), ty_int, Ptr ty_cuDoubleComplex, ty_int]
       ''cublasZher2_v2'' ty_cublasStatus_t [ty_cublasHandle_t, ty_cublasFillMode_t, ty_int, Ptr (Const ty_cuDoubleComplex), Ptr (Const ty_cuDoubleComplex), ty_int, Ptr (Const ty_cuDoubleComplex), ty_int, Ptr ty_cuDoubleComplex, ty_int] ''cublasZher2_v2'' [0, 1, 2, 3, 4, 5, 6, 7, 8, 9] False,
     Gen cublas ty_cublasStatus_t ''cublasSspr2_v2'' [ty_cublasHandle_t, ty_cublasFillMode_t, ty_int, Ptr (Const ty_float), Ptr (Const ty_float), ty_int, Ptr (Const ty_float), ty_int, Ptr ty_float]
       ''cublasSspr2_v2'' ty_cublasStatus_t [ty_cublasHandle_t, ty_cublasFillMode_t, ty_int, Ptr (Const ty_float), Ptr (Const ty_float), ty_int, Ptr (Const ty_float), ty_int, Ptr ty_float] ''cublasSspr2_v2'' [0, 1, 2, 3, 4, 5, 6, 7, 8] False,
     Gen cublas ty_cublasStatus_t ''cublasDspr2_v2'' [ty_cublasHandle_t, ty_cublasFillMode_t, ty_int, Ptr (Const ty_double), Ptr (Const ty_double), ty_int, Ptr (Const ty_double), ty_int, Ptr ty_double]
       ''cublasDspr2_v2'' ty_cublasStatus_t [ty_cublasHandle_t, ty_cublasFillMode_t, ty_int, Ptr (Const ty_double), Ptr (Const ty_double), ty_int, Ptr (Const ty_double), ty_int, Ptr ty_double] ''cublasDspr2_v2'' [0, 1, 2, 3, 4, 5, 6, 7, 8] False,
     Gen cublas ty_cublasStatus_t ''cublasChpr2_v2'' [ty_cublasHandle_t, ty_cublasFillMode_t, ty_int, Ptr (Const ty_cuComplex), Ptr (Const ty_cuComplex), ty_int, Ptr (Const ty_cuComplex), ty_int, Ptr ty_cuComplex]
       ''cublasChpr2_v2'' ty_cublasStatus_t [ty_cublasHandle_t, ty_cublasFillMode_t, ty_int, Ptr (Const ty_cuComplex), Ptr (Const ty_cuComplex), ty_int, Ptr (Const ty_cuComplex), ty_int, Ptr ty_cuComplex] ''cublasChpr2_v2'' [0, 1, 2, 3, 4, 5, 6, 7, 8] False,
     Gen cublas ty_cublasStatus_t ''cublasZhpr2_v2'' [ty_cublasHandle_t, ty_cublasFillMode_t, ty_int, Ptr (Const ty_cuDoubleComplex), Ptr (Const ty_cuDoubleComplex), ty_int, Ptr (Const ty_cuDoubleComplex), ty_int, Ptr ty_cuDoubleComplex]
       ''cublasZhpr2_v2'' ty_cublasStatus_t [ty_cublasHandle_t, ty_cublasFillMode_t, ty_int, Ptr (Const ty_cuDoubleComplex), Ptr (Const ty_cuDoubleComplex), ty_int, Ptr (Const ty_cuDoubleComplex), ty_int, Ptr ty_cuDoubleComplex] ''cublasZhpr2_v2'' [0, 1, 2, 3, 4, 5, 6, 7, 8] False,
     Gen cublas ty_cublasStatus_t ''cublasSgemm_v2'' [ty_cublasHandle_t, ty_cublasOperation_t, ty_cublasOperation_t, ty_int, ty_int, ty_int, Ptr (Const ty_float), Ptr (Const ty_float), ty_int, Ptr (Const ty_float), ty_int, Ptr (Const ty_float), Ptr ty_float, ty_int]
       ''cublasSgemm_v2'' ty_cublasStatus_t [ty_cublasHandle_t, ty_cublasOperation_t, ty_cublasOperation_t, ty_int, ty_int, ty_int, Ptr (Const ty_float), Ptr (Const ty_float), ty_int, Ptr (Const ty_float), ty_int, Ptr (Const ty_float), Ptr ty_float, ty_int] ''cublasSgemm_v2'' [0, 1, 2, 3, 4, 5, 6, 7, 8, 9, 10, 11, 12, 13] True,
     Gen cublas ty_cublasStatus_t ''cublasDgemm_v2'' [ty_cublasHandle_t, ty_cublasOperation_t, ty_cublasOperation_t, ty_int, ty_int, ty_int, Ptr (Const ty_double), Ptr (Const ty_double), ty_int, Ptr (Const ty_double), ty_int, Ptr (Const ty_double), Ptr ty_double, ty_int]
       ''cublasDgemm_v2'' ty_cublasStatus_t [ty_cublasHandle_t, ty_cublasOperation_t, ty_cublasOperation_t, ty_int, ty_int, ty_int, Ptr (Const ty_double), Ptr (Const ty_double), ty_int, Ptr (Const ty_double), ty_int, Ptr (Const ty_double), Ptr ty_double, ty_int] ''cublasDgemm_v2'' [0, 1, 2, 3, 4, 5, 6, 7, 8, 9, 10, 11, 12, 13] False,
     Gen cublas ty_cublasStatus_t ''cublasCgemm_v2'' [ty_cublasHandle_t, ty_cublasOperation_t, ty_cublasOperation_t, ty_int, ty_int, ty_int, Ptr (Const ty_cuComplex), Ptr (Const ty_cuComplex), ty_int, Ptr (Const ty_cuComplex), ty_int, Ptr (Const ty_cuComplex), Ptr ty_cuComplex, ty_int]
       ''cublasCgemm_v2'' ty_cublasStatus_t [ty_cublasHandle_t, ty_cublasOperation_t, ty_cublasOperation_t, ty_int, ty_int, ty_int, Ptr (Const ty_cuComplex), Ptr (Const ty_cuComplex), ty_int, Ptr (Const ty_cuComplex), ty_int, Ptr (Const ty_cuComplex), Ptr ty_cuComplex, ty_int] ''cublasCgemm_v2'' [0, 1, 2, 3, 4, 5, 6, 7, 8, 9, 10, 11, 12, 13] False,
     Gen cublas ty_cublasStatus_t ''cublasCgemm3m'' [ty_cublasHandle_t, ty_cublasOperation_t, ty_cublasOperation_t, ty_int, ty_int, ty_int, Ptr (Const ty_cuComplex), Ptr (Const ty_cuComplex), ty_int, Ptr (Const ty_cuComplex), ty_int, Ptr (Const ty_cuComplex), Ptr ty_cuComplex, ty_int]
       ''cublasCgemm3m'' ty_cublasStatus_t [ty_cublasHandle_t, ty_cublasOperation_t, ty_cublasOperation_t, ty_int, ty_int, ty_int, Ptr (Const ty_cuComplex), Ptr (Const ty_cuComplex), ty_int, Ptr (Const ty_cuComplex), ty_int, Ptr (Const ty_cuComplex), Ptr ty_cuComplex, ty_int] ''cublasCgemm3m'' [0, 1, 2, 3, 4, 5, 6, 7, 8, 9, 10, 11, 12, 13] False]"

definition cublas_hooks_23 :: "gen_hook list" where
  "cublas_hooks_23 =
    [Gen cublas ty_cublasStatus_t ''cublasCgemm3mEx'' [ty_cublasHandle_t, ty_cublasOperation_t, ty_cublasOperation_t, ty_int, ty_int, ty_int, Ptr (Const ty_cuComplex), Ptr (Const ty_void), ty_cudaDataType, ty_int, Ptr (Const ty_void), ty_cudaDataType, ty_int, Ptr (Const ty_cuComplex), Ptr ty_void, ty_cudaDataType, ty_int]
       ''cublasCgemm3mEx'' ty_cublasStatus_t [ty_cublasHandle_t, ty_cublasOperation_t, ty_cublasOperation_t, ty_int, ty_int, ty_int, Ptr (Const ty_cuComplex), Ptr (Const ty_void), ty_cudaDataType, ty_int, Ptr (Const ty_void), ty_cudaDataType, ty_int, Ptr (Const ty_cuComplex), Ptr ty_void, ty_cudaDataType, ty_int] ''cublasCgemm3mEx'' [0, 1, 2, 3, 4, 5, 6, 7, 8, 9, 10, 11, 12, 13, 14, 15, 16] False,
     Gen cublas ty_cublasStatus_t ''cublasZgemm_v2'' [ty_cublasHandle_t, ty_cublasOperation_t, ty_cublasOperation_t, ty_int, ty_int, ty_int, Ptr (Const ty_cuDoubleComplex), Ptr (Const ty_cuDoubleComplex), ty_int, Ptr (Const ty_cuDoubleComplex), ty_int, Ptr (Const ty_cuDoubleComplex), Ptr ty_cuDoubleComplex, ty_int]
       ''cublasZgemm_v2'' ty_cublasStatus_t [ty_cublasHandle_t, ty_cublasOperation_t, ty_cublasOperation_t, ty_int, ty_int, ty_int, Ptr (Const ty_cuDoubleComplex), Ptr (Const ty_cuDoubleComplex), ty_int, Ptr (Const ty_cuDoubleComplex), ty_int, Ptr (Const ty_cuDoubleComplex), Ptr ty_cuDoubleComplex, ty_int] ''cublasZgemm_v2'' [0, 1, 2, 3, 4, 5, 6, 7, 8, 9, 10, 11, 12, 13] False,
     Gen cublas ty_cublasStatus_t ''cublasZgemm3m'' [ty_cublasHandle_t, ty_cublasOperation_t, ty_cublasOperation_t, ty_int, ty_int, ty_int, Ptr (Const ty_cuDoubleComplex), Ptr (Const ty_cuDoubleComplex), ty_int, Ptr (Const ty_cuDoubleComplex), ty_int, Ptr (Const ty_cuDoubleComplex), Ptr ty_cuDoubleComplex, ty_int]
       ''cublasZgemm3m'' ty_cublasStatus_t [ty_cublasHandle_t, ty_cublasOperation_t, ty_cublasOperation_t, ty_int, ty_int, ty_int, Ptr (Const ty_cuDoubleComplex), Ptr (Const ty_cuDoubleComplex), ty_int, Ptr (Const ty_cuDoubleComplex), ty_int, Ptr (Const ty_cuDoubleComplex), Ptr ty_cuDoubleComplex, ty_int] ''cublasZgemm3m'' [0, 1, 2, 3, 4, 5, 6, 7, 8, 9, 10, 11, 12, 13] False,
     Gen cublas ty_cublasStatus_t ''cublasHgemm'' [ty_cublasHandle_t, ty_cublasOperation_t, ty_cublasOperation_t, ty_int, ty_int, ty_int, Ptr (Const ty_half), Ptr (Const ty_half), ty_int, Ptr (Const ty_half), ty_int, Ptr (Const ty_half), Ptr ty_half, ty_int]
       ''cublasHgemm'' ty_cublasStatus_t [ty_cublasHandle_t, ty_cublasOperation_t, ty_cublasOperation_t, ty_int, ty_int, ty_int, Ptr (Const ty_half), Ptr (Const ty_half), ty_int, Ptr (Const ty_half), ty_int, Ptr (Const ty_half), Ptr ty_half, ty_int] ''cublasHgemm'' [0, 1, 2, 3, 4, 5, 6, 7, 8, 9, 10, 11, 12, 13] False,
     Gen cublas ty_cublasStatus_t ''cublasSgemmEx'' [ty_cublasHandle_t, ty_cublasOperation_t, ty_cublasOperation_t, ty_int, ty_int, ty_int, Ptr (Const ty_float), Ptr (Const ty_void), ty_cudaDataType, ty_int, Ptr (Const ty_void), ty_cudaDataType, ty_int, Ptr (Const ty_float), Ptr ty_void, ty_cudaDataType, ty_int]
       ''cublasSgemmEx'' ty_cublasStatus_t [ty_cublasHandle_t, ty_cublasOperation_t, ty_cublasOperation_t, ty_int, ty_int, ty_int, Ptr (Const ty_float), Ptr (Const ty_void), ty_cudaDataType, ty_int, Ptr (Const ty_void), ty_cudaDataType, ty_int, Ptr (Const ty_float), Ptr ty_void, ty_cudaDataType, ty_int] ''cublasSgemmEx'' [0, 1, 2, 3, 4, 5, 6, 7, 8, 9, 10, 11, 12, 13, 14, 15, 16] False,
     Gen cublas ty_cublasStatus_t ''cublasGemmEx'' [ty_cublasHandle_t, ty_cublasOperation_t, ty_cublasOperation_t, ty_int, ty_int, ty_int, Ptr (Const ty_void), Ptr (Const ty_void), ty_cudaDataType, ty_int, Ptr (Const ty_void), ty_cudaDataType, ty_int, Ptr (Const ty_void), Ptr ty_void, ty_cudaDataType, ty_int, ty_cublasComputeType_t, ty_cublasGemmAlgo_t]
       ''cublasGemmEx'' ty_cublasStatus_t [ty_cublasHandle_t, ty_cublasOperation_t, ty_cublasOperation_t, ty_int, ty_int, ty_int, Ptr (Const ty_void), Ptr (Const ty_void), ty_cudaDataType, ty_int, Ptr (Const ty_void), ty_cudaDataType, ty_int, Ptr (Const ty_void), Ptr ty_void, ty_cudaDataType, ty_int, ty_cublasComputeType_t, ty_cublasGemmAlgo_t] ''cublasGemmEx'' [0, 1, 2, 3, 4, 5, 6, 7, 8, 9, 10, 11, 12, 13, 14, 15, 16, 17, 18] True,
     Gen cublas ty_cublasStatus_t ''cublasCgemmEx'' [ty_cublasHandle_t, ty_cublasOperation_t, ty_cublasOperation_t, ty_int, ty_int, ty_int, Ptr (Const ty_cuComplex), Ptr (Const ty_void), ty_cudaDataType, ty_int, Ptr (Const ty_void), ty_cudaDataType, ty_int, Ptr (Const ty_cuComplex), Ptr ty_void, ty_cudaDataType, ty_int]
       ''cublasCgemmEx'' ty_cublasStatus_t [ty_cublasHandle_t, ty_cublasOperation_t, ty_cublasOperation_t, ty_int, ty_int, ty_int, Ptr (Const ty_cuComplex), Ptr (Const ty_void), ty_cudaDataType, ty_int, Ptr (Const ty_void), ty_cudaDataType, ty_int, Ptr (Const ty_cuComplex), Ptr ty_void, ty_cudaDataType, ty_int] ''cublasCgemmEx'' [0, 1, 2, 3, 4, 5, 6, 7, 8, 9, 10, 11, 12, 13, 14, 15, 16] False,
     Gen cublas ty_cublasStatus_t ''cublasUint8gemmBias'' [ty_cublasHandle_t, ty_cublasOperation_t, ty_cublasOperation_t, ty_cublasOperation_t, ty_int, ty_int, ty_int, Ptr (Const ty_unsigned_char), ty_int, ty_int, Ptr (Const ty_unsigned_char), ty_int, ty_int, Ptr ty_unsigned_char, ty_int, ty_int, ty_int, ty_int]
       ''cublasUint8gemmBias'' ty_cublasStatus_t [ty_cublasHandle_t, ty_cublasOperation_t, ty_cublasOperation_t, ty_cublasOperation_t, ty_int, ty_int, ty_int, Ptr (Const ty_unsigned_char), ty_int, ty_int, Ptr (Const ty_unsigned_char), ty_int, ty_int, Ptr ty_unsigned_char, ty_int, ty_int, ty_int, ty_int] ''cublasUint8gemmBias'' [0, 1, 2, 3, 4, 5, 6, 7, 8, 9, 10, 11, 12, 13, 14, 15, 16, 17] False,
     Gen cublas ty_cublasStatus_t ''cublasSsyrk_v2'' [ty_cublasHandle_t, ty_cublasFillMode_t, ty_cublasOperation_t, ty_int, ty_int, Ptr (Const ty_float), Ptr (Const ty_float), ty_int, Ptr (Const ty_float), Ptr ty_float, ty_int]
       ''cublasSsyrk_v2'' ty_cublasStatus_t [ty_cublasHandle_t, ty_cublasFillMode_t, ty_cublasOperation_t, ty_int, ty_int, Ptr (Const ty_float), Ptr (Const ty_float), ty_int, Ptr (Const ty_float), Ptr ty_float, ty_int] ''cublasSsyrk_v2'' [0, 1, 2, 3, 4, 5, 6, 7, 8, 9, 10] False,
     Gen cublas ty_cublasStatus_t ''cublasDsyrk_v2'' [ty_cublasHandle_t, ty_cublasFillMode_t, ty_cublasOperation_t, ty_int, ty_int, Ptr (Const ty_double), Ptr (Const ty_double), ty_int, Ptr (Const ty_double), Ptr ty_double, ty_int]
       ''cublasDsyrk_v2'' ty_cublasStatus_t [ty_cublasHandle_t, ty_cublasFillMode_t, ty_cublasOperation_t, ty_int, ty_int, Ptr (Const ty_double), Ptr (Const ty_double), ty_int, Ptr (Const ty_double), Ptr ty_double, ty_int] ''cublasDsyrk_v2'' [0, 1, 2, 3, 4, 5, 6, 7, 8, 9, 10] False]"

definition cublas_hooks_24 :: "gen_hook list" where
  "cublas_hooks_24 =
    [Gen cublas ty_cublasStatus_t ''cublasCsyrk_v2'' [ty_cublasHandle_t, ty_cublasFillMode_t, ty_cublasOperation_t, ty_int, ty_int, Ptr (Const ty_cuComplex), Ptr (Const ty_cuComplex), ty_int, Ptr (Const ty_cuComplex), Ptr ty_cuComplex, ty_int]
       ''cublasCsyrk_v2'' ty_cublasStatus_t [ty_cublasHandle_t, ty_cublasFillMode_t, ty_cublasOperation_t, ty_int, ty_int, Ptr (Const ty_cuComplex), Ptr (Const ty_cuComplex), ty_int, Ptr (Const ty_cuComplex), Ptr ty_cuComplex, ty_int] ''cublasCsyrk_v2'' [0, 1, 2, 3, 4, 5, 6, 7, 8, 9, 10] False,
     Gen cublas ty_cublasStatus_t ''cublasZsyrk_v2'' [ty_cublasHandle_t, ty_cublasFillMode_t, ty_cublasOperation_t, ty_int, ty_int, Ptr (Const ty_cuDoubleComplex), Ptr (Const ty_cuDoubleComplex), ty_int, Ptr (Const ty_cuDoubleComplex), Ptr ty_cuDoubleComplex, ty_int]
       ''cublasZsyrk_v2'' ty_cublasStatus_t [ty_cublasHandle_t, ty_cublasFillMode_t, ty_cublasOperation_t, ty_int, ty_int, Ptr (Const ty_cuDoubleComplex), Ptr (Const ty_cuDoubleComplex), ty_int, Ptr (Const ty_cuDoubleComplex), Ptr ty_cuDoubleComplex, ty_int] ''cublasZsyrk_v2'' [0, 1, 2, 3, 4, 5, 6, 7, 8, 9, 10] False,
     Gen cublas ty_cublasStatus_t ''cublasCsyrkEx'' [ty_cublasHandle_t, ty_cublasFillMode_t, ty_cublasOperation_t, ty_int, ty_int, Ptr (Const ty_cuComplex), Ptr (Const ty_void), ty_cudaDataType, ty_int, Ptr (Const ty_cuComplex), Ptr ty_void, ty_cudaDataType, ty_int]
       ''cublasCsyrkEx'' ty_cublasStatus_t [ty_cublasHandle_t, ty_cublasFillMode_t, ty_cublasOperation_t, ty_int, ty_int, Ptr (Const ty_cuComplex), Ptr (Const ty_void), ty_cudaDataType, ty_int, Ptr (Const ty_cuComplex), Ptr ty_void, ty_cudaDataType, ty_int] ''cublasCsyrkEx'' [0, 1, 2, 3, 4, 5, 6, 7, 8, 9, 10, 11, 12] False,
     Gen cublas ty_cublasStatus_t ''cublasCsyrk3mEx'' [ty_cublasHandle_t, ty_cublasFillMode_t, ty_cublasOperation_t, ty_int, ty_int, Ptr (Const ty_cuComplex), Ptr (Const ty_void), ty_cudaDataType, ty_int, Ptr (Const ty_cuComplex), Ptr ty_void, ty_cudaDataType, ty_int]
       ''cublasCsyrk3mEx'' ty_cublasStatus_t [ty_cublasHandle_t, ty_cublasFillMode_t, ty_cublasOperation_t, ty_int, ty_int, Ptr (Const ty_cuComplex), Ptr (Const ty_void), ty_cudaDataType, ty_int, Ptr (Const ty_cuComplex), Ptr ty_void, ty_cudaDataType, ty_int] ''cublasCsyrk3mEx'' [0, 1, 2, 3, 4, 5, 6, 7, 8, 9, 10, 11, 12] False,
     Gen cublas ty_cublasStatus_t ''cublasCherk_v2'' [ty_cublasHandle_t, ty_cublasFillMode_t, ty_cublasOperation_t, ty_int, ty_int, Ptr (Const ty_float), Ptr (Const ty_cuComplex), ty_int, Ptr (Const ty_float), Ptr ty_cuComplex, ty_int]
       ''cublasCherk_v2'' ty_cublasStatus_t [ty_cublasHandle_t, ty_cublasFillMode_t, ty_cublasOperation_t, ty_int, ty_int, Ptr (Const ty_float), Ptr (Const ty_cuComplex), ty_int, Ptr (Const ty_float), Ptr ty_cuComplex, ty_int] ''cublasCherk_v2'' [0, 1, 2, 3, 4, 5, 6, 7, 8, 9, 10] False,
     Gen cublas ty_cublasStatus_t ''cublasZherk_v2'' [ty_cublasHandle_t, ty_cublasFillMode_t, ty_cublasOperation_t, ty_int, ty_int, Ptr (Const ty_double), Ptr (Const ty_cuDoubleComplex), ty_int, Ptr (Const ty_double), Ptr ty_cuDoubleComplex, ty_int]
       ''cublasZherk_v2'' ty_cublasStatus_t [ty_cublasHandle_t, ty_cublasFillMode_t, ty_cublasOperation_t, ty_int, ty_int, Ptr (Const ty_double), Ptr (Const ty_cuDoubleComplex), ty_int, Ptr (Const ty_double), Ptr ty_cuDoubleComplex, ty_int] ''cublasZherk_v2'' [0, 1, 2, 3, 4, 5, 6, 7, 8, 9, 10] False,
     Gen cublas ty_cublasStatus_t ''cublasCherkEx'' [ty_cublasHandle_t, ty_cublasFillMode_t, ty_cublasOperation_t, ty_int, ty_int, Ptr (Const ty_float), Ptr (Const ty_void), ty_cudaDataType, ty_int, Ptr (Const ty_float), Ptr ty_void, ty_cudaDataType, ty_int]
       ''cublasCherkEx'' ty_cublasStatus_t [ty_cublasHandle_t, ty_cublasFillMode_t, ty_cublasOperation_t, ty_int, ty_int, Ptr (Const ty_float), Ptr (Const ty_void), ty_cudaDataType, ty_int, Ptr (Const ty_float), Ptr ty_void, ty_cudaDataType, ty_int] ''cublasCherkEx'' [0, 1, 2, 3, 4, 5, 6, 7, 8, 9, 10, 11, 12] False,
     Gen cublas ty_cublasStatus_t ''cublasCherk3mEx'' [ty_cublasHandle_t, ty_cublasFillMode_t, ty_cublasOperation_t, ty_int, ty_int, Ptr (Const ty_float), Ptr (Const ty_void), ty_cudaDataType, ty_int, Ptr (Const ty_float), Ptr ty_void, ty_cudaDataType, ty_int]
       ''cublasCherk3mEx'' ty_cublasStatus_t [ty_cublasHandle_t, ty_cublasFillMode_t, ty_cublasOperation_t, ty_int, ty_int, Ptr (Const ty_float), Ptr (Const ty_void), ty_cudaDataType, ty_int, Ptr (Const ty_float), Ptr ty_void, ty_cudaDataType, ty_int] ''cublasCherk3mEx'' [0, 1, 2, 3, 4, 5, 6, 7, 8, 9, 10, 11, 12] False,
     Gen cublas ty_cublasStatus_t ''cublasSsyr2k_v2'' [ty_cublasHandle_t, ty_cublasFillMode_t, ty_cublasOperation_t, ty_int, ty_int, Ptr (Const ty_float), Ptr (Const ty_float), ty_int, Ptr (Const ty_float), ty_int, Ptr (Const ty_float), Ptr ty_float, ty_int]
       ''cublasSsyr2k_v2'' ty_cublasStatus_t [ty_cublasHandle_t, ty_cublasFillMode_t, ty_cublasOperation_t, ty_int, ty_int, Ptr (Const ty_float), Ptr (Const ty_float), ty_int, Ptr (Const ty_float), ty_int, Ptr (Const ty_float), Ptr ty_float, ty_int] ''cublasSsyr2k_v2'' [0, 1, 2, 3, 4, 5, 6, 7, 8, 9, 10, 11, 12] False,
     Gen cublas ty_cublasStatus_t ''cublasDsyr2k_v2'' [ty_cublasHandle_t, ty_cublasFillMode_t, ty_cublasOperation_t, ty_int, ty_int, Ptr (Const ty_double), Ptr (Const ty_double), ty_int, Ptr (Const ty_double), ty_int, Ptr (Const ty_double), Ptr ty_double, ty_int]
       ''cublasDsyr2k_v2'' ty_cublasStatus_t [ty_cublasHandle_t, ty_cublasFillMode_t, ty_cublasOperation_t, ty_int, ty_int, Ptr (Const ty_double), Ptr (Const ty_double), ty_int, Ptr (Const ty_double), ty_int, Ptr (Const ty_double), Ptr ty_double, ty_int] ''cublasDsyr2k_v2'' [0, 1, 2, 3, 4, 5, 6, 7, 8, 9, 10, 11, 12] False,
     Gen cublas ty_cublasStatus_t ''cublasCsyr2k_v2'' [ty_cublasHandle_t, ty_cublasFillMode_t, ty_cublasOperation_t, ty_int, ty_int, Ptr (Const ty_cuComplex), Ptr (Const ty_cuComplex), ty_int, Ptr (Const ty_cuComplex), ty_int, Ptr (Const ty_cuComplex), Ptr ty_cuComplex, ty_int]
       ''cublasCsyr2k_v2'' ty_cublasStatus_t [ty_cublasHandle_t, ty_cublasFillMode_t, ty_cublasOperation_t, ty_int, ty_int, Ptr (Const ty_cuComplex), Ptr (Const ty_cuComplex), ty_int, Ptr (Const ty_cuComplex), ty_int, Ptr (Const ty_cuComplex), Ptr ty_cuComplex, ty_int] ''cublasCsyr2k_v2'' [0, 1, 2, 3, 4, 5, 6, 7, 8, 9, 10, 11, 12] False]"

definition cublas_hooks_25 :: "gen_hook list" where
  "cublas_hooks_25 =
    [Gen cublas ty_cublasStatus_t ''cublasZsyr2k_v2'' [ty_cublasHandle_t, ty_cublasFillMode_t, ty_cublasOperation_t, ty_int, ty_int, Ptr (Const ty_cuDoubleComplex), Ptr (Const ty_cuDoubleComplex), ty_int, Ptr (Const ty_cuDoubleComplex), ty_int, Ptr (Const ty_cuDoubleComplex), Ptr ty_cuDoubleComplex, ty_int]
       ''cublasZsyr2k_v2'' ty_cublasStatus_t [ty_cublasHandle_t, ty_cublasFillMode_t, ty_cublasOperation_t, ty_int, ty_int, Ptr (Const ty_cuDoubleComplex), Ptr (Const ty_cuDoubleComplex), ty_int, Ptr (Const ty_cuDoubleComplex), ty_int, Ptr (Const ty_cuDoubleComplex), Ptr ty_cuDoubleComplex, ty_int] ''cublasZsyr2k_v2'' [0, 1, 2, 3, 4, 5, 6, 7, 8, 9, 10, 11, 12] False,
     Gen cublas ty_cublasStatus_t ''cublasCher2k_v2'' [ty_cublasHandle_t, ty_cublasFillMode_t, ty_cublasOperation_t, ty_int, ty_int, Ptr (Const ty_cuComplex), Ptr (Const ty_cuComplex), ty_int, Ptr (Const ty_cuComplex), ty_int, Ptr (Const ty_float), Ptr ty_cuComplex, ty_int]
       ''cublasCher2k_v2'' ty_cublasStatus_t [ty_cublasHandle_t, ty_cublasFillMode_t, ty_cublasOperation_t, ty_int, ty_int, Ptr (Const ty_cuComplex), Ptr (Const ty_cuComplex), ty_int, Ptr (Const ty_cuComplex), ty_int, Ptr (Const ty_float), Ptr ty_cuComplex, ty_int] ''cublasCher2k_v2'' [0, 1, 2, 3, 4, 5, 6, 7, 8, 9, 10, 11, 12] False,
     Gen cublas ty_cublasStatus_t ''cublasZher2k_v2'' [ty_cublasHandle_t, ty_cublasFillMode_t, ty_cublasOperation_t, ty_int, ty_int, Ptr (Const ty_cuDoubleComplex), Ptr (Const ty_cuDoubleComplex), ty_int, Ptr (Const ty_cuDoubleComplex), ty_int, Ptr (Const ty_double), Ptr ty_cuDoubleComplex, ty_int]
       ''cublasZher2k_v2'' ty_cublasStatus_t [ty_cublasHandle_t, ty_cublasFillMode_t, ty_cublasOperation_t, ty_int, ty_int, Ptr (Const ty_cuDoubleComplex), Ptr (Const ty_cuDoubleComplex), ty_int, Ptr (Const ty_cuDoubleComplex), ty_int, Ptr (Const ty_double), Ptr ty_cuDoubleComplex, ty_int] ''cublasZher2k_v2'' [0, 1, 2, 3, 4, 5, 6, 7, 8, 9, 10, 11, 12] False,
     Gen cublas ty_cublasStatus_t ''cublasSsyrkx'' [ty_cublasHandle_t, ty_cublasFillMode_t, ty_cublasOperation_t, ty_int, ty_int, Ptr (Const ty_float), Ptr (Const ty_float), ty_int, Ptr (Const ty_float), ty_int, Ptr (Const ty_float), Ptr ty_float, ty_int]
       ''cublasSsyrkx'' ty_cublasStatus_t [ty_cublasHandle_t, ty_cublasFillMode_t, ty_cublasOperation_t, ty_int, ty_int, Ptr (Const ty_float), Ptr (Const ty_float), ty_int, Ptr (Const ty_float), ty_int, Ptr (Const ty_float), Ptr ty_float, ty_int] ''cublasSsyrkx'' [0, 1, 2, 3, 4, 5, 6, 7, 8, 9, 10, 11, 12] False,
     Gen cublas ty_cublasStatus_t ''cublasDsyrkx'' [ty_cublasHandle_t, ty_cublasFillMode_t, ty_cublasOperation_t, ty_int, ty_int, Ptr (Const ty_double), Ptr (Const ty_double), ty_int, Ptr (Const ty_double), ty_int, Ptr (Const ty_double), Ptr ty_double, ty_int]
       ''cublasDsyrkx'' ty_cublasStatus_t [ty_cublasHandle_t, ty_cublasFillMode_t, ty_cublasOperation_t, ty_int, ty_int, Ptr (Const ty_double), Ptr (Const ty_double), ty_int, Ptr (Const ty_double), ty_int, Ptr (Const ty_double), Ptr ty_double, ty_int] ''cublasDsyrkx'' [0, 1, 2, 3, 4, 5, 6, 7, 8, 9, 10, 11, 12] False,
     Gen cublas ty_cublasStatus_t ''cublasCsyrkx'' [ty_cublasHandle_t, ty_cublasFillMode_t, ty_cublasOperation_t, ty_int, ty_int, Ptr (Const ty_cuComplex), Ptr (Const ty_cuComplex), ty_int, Ptr (Const ty_cuComplex), ty_int, Ptr (Const ty_cuComplex), Ptr ty_cuComplex, ty_int]
       ''cublasCsyrkx'' ty_cublasStatus_t [ty_cublasHandle_t, ty_cublasFillMode_t, ty_cublasOperation_t, ty_int, ty_int, Ptr (Const ty_cuComplex), Ptr (Const ty_cuComplex), ty_int, Ptr (Const ty_cuComplex), ty_int, Ptr (Const ty_cuComplex), Ptr ty_cuComplex, ty_int] ''cublasCsyrkx'' [0, 1, 2, 3, 4, 5, 6, 7, 8, 9, 10, 11, 12] False,
     Gen cublas ty_cublasStatus_t ''cublasZsyrkx'' [ty_cublasHandle_t, ty_cublasFillMode_t, ty_cublasOperation_t, ty_int, ty_int, Ptr (Const ty_cuDoubleComplex), Ptr (Const ty_cuDoubleComplex), ty_int, Ptr (Const ty_cuDoubleComplex), ty_int, Ptr (Const ty_cuDoubleComplex), Ptr ty_cuDoubleComplex, ty_int]
       ''cublasZsyrkx'' ty_cublasStatus_t [ty_cublasHandle_t, ty_cublasFillMode_t, ty_cublasOperation_t, ty_int, ty_int, Ptr (Const ty_cuDoubleComplex), Ptr (Const ty_cuDoubleComplex), ty_int, Ptr (Const ty_cuDoubleComplex), ty_int, Ptr (Const ty_cuDoubleComplex), Ptr ty_cuDoubleComplex, ty_int] ''cublasZsyrkx'' [0, 1, 2, 3, 4, 5, 6, 7, 8, 9, 10, 11, 12] False,
     Gen cublas ty_cublasStatus_t ''cublasCherkx'' [ty_cublasHandle_t, ty_cublasFillMode_t, ty_cublasOperation_t, ty_int, ty_int, Ptr (Const ty_cuComplex), Ptr (Const ty_cuComplex), ty_int, Ptr (Const ty_cuComplex), ty_int, Ptr (Const ty_float), Ptr ty_cuComplex, ty_int]
       ''cublasCherkx'' ty_cublasStatus_t [ty_cublasHandle_t, ty_cublasFillMode_t, ty_cublasOperation_t, ty_int, ty_int, Ptr (Const ty_cuComplex), Ptr (Const ty_cuComplex), ty_int, Ptr (Const ty_cuComplex), ty_int, Ptr (Const ty_float), Ptr ty_cuComplex, ty_int] ''cublasCherkx'' [0, 1, 2, 3, 4, 5, 6, 7, 8, 9, 10, 11, 12] False,
     Gen cublas ty_cublasStatus_t ''cublasZherkx'' [ty_cublasHandle_t, ty_cublasFillMode_t, ty_cublasOperation_t, ty_int, ty_int, Ptr (Const ty_cuDoubleComplex), Ptr (Const ty_cuDoubleComplex), ty_int, Ptr (Const ty_cuDoubleComplex), ty_int, Ptr (Const ty_double), Ptr ty_cuDoubleComplex, ty_int]
       ''cublasZherkx'' ty_cublasStatus_t [ty_cublasHandle_t, ty_cublasFillMode_t, ty_cublasOperation_t, ty_int, ty_int, Ptr (Const ty_cuDoubleComplex), Ptr (Const ty_cuDoubleComplex), ty_int, Ptr (Const ty_cuDoubleComplex), ty_int, Ptr (Const ty_double), Ptr ty_cuDoubleComplex, ty_int] ''cublasZherkx'' [0, 1, 2, 3, 4, 5, 6, 7, 8, 9, 10, 11, 12] False,
     Gen cublas ty_cublasStatus_t ''cublasSsymm_v2'' [ty_cublasHandle_t, ty_cublasSideMode_t, ty_cublasFillMode_t, ty_int, ty_int, Ptr (Const ty_float), Ptr (Const ty_float), ty_int, Ptr (Const ty_float), ty_int, Ptr (Const ty_float), Ptr ty_float, ty_int]
       ''cublasSsymm_v2'' ty_cublasStatus_t [ty_cublasHandle_t, ty_cublasSideMode_t, ty_cublasFillMode_t, ty_int, ty_int, Ptr (Const ty_float), Ptr (Const ty_float), ty_int, Ptr (Const ty_float), ty_int, Ptr (Const ty_float), Ptr ty_float, ty_int] ''cublasSsymm_v2'' [0, 1, 2, 3, 4, 5, 6, 7, 8, 9, 10, 11, 12] False,
     Gen cublas ty_cublasStatus_t ''cublasDsymm_v2'' [ty_cublasHandle_t, ty_cublasSideMode_t, ty_cublasFillMode_t, ty_int, ty_int, Ptr (Const ty_double), Ptr (Const ty_double), ty_int, Ptr (Const ty_double), ty_int, Ptr (Const ty_double), Ptr ty_double, ty_int]
       ''cublasDsymm_v2'' ty_cublasStatus_t [ty_cublasHandle_t, ty_cublasSideMode_t, ty_cublasFillMode_t, ty_int, ty_int, Ptr (Const ty_double), Ptr (Const ty_double), ty_int, Ptr (Const ty_double), ty_int, Ptr (Const ty_double), Ptr ty_double, ty_int] ''cublasDsymm_v2'' [0, 1, 2, 3, 4, 5, 6, 7, 8, 9, 10, 11, 12] False]"

definition cublas_hooks_26 :: "gen_hook list" where
  "cublas_hooks_26 =
    [Gen cublas ty_cublasStatus_t ''cublasCsymm_v2'' [ty_cublasHandle_t, ty_cublasSideMode_t, ty_cublasFillMode_t, ty_int, ty_int, Ptr (Const ty_cuComplex), Ptr (Const ty_cuComplex), ty_int, Ptr (Const ty_cuComplex), ty_int, Ptr (Const ty_cuComplex), Ptr ty_cuComplex, ty_int]
       ''cublasCsymm_v2'' ty_cublasStatus_t [ty_cublasHandle_t, ty_cublasSideMode_t, ty_cublasFillMode_t, ty_int, ty_int, Ptr (Const ty_cuComplex), Ptr (Const ty_cuComplex), ty_int, Ptr (Const ty_cuComplex), ty_int, Ptr (Const ty_cuComplex), Ptr ty_cuComplex, ty_int] ''cublasCsymm_v2'' [0, 1, 2, 3, 4, 5, 6, 7, 8, 9, 10, 11, 12] False,
     Gen cublas ty_cublasStatus_t ''cublasZsymm_v2'' [ty_cublasHandle_t, ty_cublasSideMode_t, ty_cublasFillMode_t, ty_int, ty_int, Ptr (Const ty_cuDoubleComplex), Ptr (Const ty_cuDoubleComplex), ty_int, Ptr (Const ty_cuDoubleComplex), ty_int, Ptr (Const ty_cuDoubleComplex), Ptr ty_cuDoubleComplex, ty_int]
       ''cublasZsymm_v2'' ty_cublasStatus_t [ty_cublasHandle_t, ty_cublasSideMode_t, ty_cublasFillMode_t, ty_int, ty_int, Ptr (Const ty_cuDoubleComplex), Ptr (Const ty_cuDoubleComplex), ty_int, Ptr (Const ty_cuDoubleComplex), ty_int, Ptr (Const ty_cuDoubleComplex), Ptr ty_cuDoubleComplex, ty_int] ''cublasZsymm_v2'' [0, 1, 2, 3, 4, 5, 6, 7, 8, 9, 10, 11, 12] False,
     Gen cublas ty_cublasStatus_t ''cublasChemm_v2'' [ty_cublasHandle_t, ty_cublasSideMode_t, ty_cublasFillMode_t, ty_int, ty_int, Ptr (Const ty_cuComplex), Ptr (Const ty_cuComplex), ty_int, Ptr (Const ty_cuComplex), ty_int, Ptr (Const ty_cuComplex), Ptr ty_cuComplex, ty_int]
       ''cublasChemm_v2'' ty_cublasStatus_t [ty_cublasHandle_t, ty_cublasSideMode_t, ty_cublasFillMode_t, ty_int, ty_int, Ptr (Const ty_cuComplex), Ptr (Const ty_cuComplex), ty_int, Ptr (Const ty_cuComplex), ty_int, Ptr (Const ty_cuComplex), Ptr ty_cuComplex, ty_int] ''cublasChemm_v2'' [0, 1, 2, 3, 4, 5, 6, 7, 8, 9, 10, 11, 12] False,
     Gen cublas ty_cublasStatus_t ''cublasZhemm_v2'' [ty_cublasHandle_t, ty_cublasSideMode_t, ty_cublasFillMode_t, ty_int, ty_int, Ptr (Const ty_cuDoubleComplex), Ptr (Const ty_cuDoubleComplex), ty_int, Ptr (Const ty_cuDoubleComplex), ty_int, Ptr (Const ty_cuDoubleComplex), Ptr ty_cuDoubleComplex, ty_int]
       ''cublasZhemm_v2'' ty_cublasStatus_t [ty_cublasHandle_t, ty_cublasSideMode_t, ty_cublasFillMode_t, ty_int, ty_int, Ptr (Const ty_cuDoubleComplex), Ptr (Const ty_cuDoubleComplex), ty_int, Ptr (Const ty_cuDoubleComplex), ty_int, Ptr (Const ty_cuDoubleComplex), Ptr ty_cuDoubleComplex, ty_int] ''cublasZhemm_v2'' [0, 1, 2, 3, 4, 5, 6, 7, 8, 9, 10, 11, 12] False,
     Gen cublas ty_cublasStatus_t ''cublasStrsm_v2'' [ty_cublasHandle_t, ty_cublasSideMode_t, ty_cublasFillMode_t, ty_cublasOperation_t, ty_cublasDiagType_t, ty_int, ty_int, Ptr (Const ty_float), Ptr (Const ty_float), ty_int, Ptr ty_float, ty_int]
       ''cublasStrsm_v2'' ty_cublasStatus_t [ty_cublasHandle_t, ty_cublasSideMode_t, ty_cublasFillMode_t, ty_cublasOperation_t, ty_cublasDiagType_t, ty_int, ty_int, Ptr (Const ty_float), Ptr (Const ty_float), ty_int, Ptr ty_float, ty_int] ''cublasStrsm_v2'' [0, 1, 2, 3, 4, 5, 6, 7, 8, 9, 10, 11] False,
     Gen cublas ty_cublasStatus_t ''cublasDtrsm_v2'' [ty_cublasHandle_t, ty_cublasSideMode_t, ty_cublasFillMode_t, ty_cublasOperation_t, ty_cublasDiagType_t, ty_int, ty_int, Ptr (Const ty_double), Ptr (Const ty_double), ty_int, Ptr ty_double, ty_int]
       ''cublasDtrsm_v2'' ty_cublasStatus_t [ty_cublasHandle_t, ty_cublasSideMode_t, ty_cublasFillMode_t, ty_cublasOperation_t, ty_cublasDiagType_t, ty_int, ty_int, Ptr (Const ty_double), Ptr (Const ty_double), ty_int, Ptr ty_double, ty_int] ''cublasDtrsm_v2'' [0, 1, 2, 3, 4, 5, 6, 7, 8, 9, 10, 11] False,
     Gen cublas ty_cublasStatus_t ''cublasCtrsm_v2'' [ty_cublasHandle_t, ty_cublasSideMode_t, ty_cublasFillMode_t, ty_cublasOperation_t, ty_cublasDiagType_t, ty_int, ty_int, Ptr (Const ty_cuComplex), Ptr (Const ty_cuComplex), ty_int, Ptr ty_cuComplex, ty_int]
       ''cublasCtrsm_v2'' ty_cublasStatus_t [ty_cublasHandle_t, ty_cublasSideMode_t, ty_cublasFillMode_t, ty_cublasOperation_t, ty_cublasDiagType_t, ty_int, ty_int, Ptr (Const ty_cuComplex), Ptr (Const ty_cuComplex), ty_int, Ptr ty_cuComplex, ty_int] ''cublasCtrsm_v2'' [0, 1, 2, 3, 4, 5, 6, 7, 8, 9, 10, 11] False,
     Gen cublas ty_cublasStatus_t ''cublasZtrsm_v2'' [ty_cublasHandle_t, ty_cublasSideMode_t, ty_cublasFillMode_t, ty_cublasOperation_t, ty_cublasDiagType_t, ty_int, ty_int, Ptr (Const ty_cuDoubleComplex), Ptr (Const ty_cuDoubleComplex), ty_int, Ptr ty_cuDoubleComplex, ty_int]
       ''cublasZtrsm_v2'' ty_cublasStatus_t [ty_cublasHandle_t, ty_cublasSideMode_t, ty_cublasFillMode_t, ty_cublasOperation_t, ty_cublasDiagType_t, ty_int, ty_int, Ptr (Const ty_cuDoubleComplex), Ptr (Const ty_cuDoubleComplex), ty_int, Ptr ty_cuDoubleComplex, ty_int] ''cublasZtrsm_v2'' [0, 1, 2, 3, 4, 5, 6, 7, 8, 9, 10, 11] False,
     Gen cublas ty_cublasStatus_t ''cublasStrmm_v2'' [ty_cublasHandle_t, ty_cublasSideMode_t, ty_cublasFillMode_t, ty_cublasOperation_t, ty_cublasDiagType_t, ty_int, ty_int, Ptr (Const ty_float), Ptr (Const ty_float), ty_int, Ptr (Const ty_float), ty_int, Ptr ty_float, ty_int]
       ''cublasStrmm_v2'' ty_cublasStatus_t [ty_cublasHandle_t, ty_cublasSideMode_t, ty_cublasFillMode_t, ty_cublasOperation_t, ty_cublasDiagType_t, ty_int, ty_int, Ptr (Const ty_float), Ptr (Const ty_float), ty_int, Ptr (Const ty_float), ty_int, Ptr ty_float, ty_int] ''cublasStrmm_v2'' [0, 1, 2, 3, 4, 5, 6, 7, 8, 9, 10, 11, 12, 13] False,
     Gen cublas ty_cublasStatus_t ''cublasDtrmm_v2'' [ty_cublasHandle_t, ty_cublasSideMode_t, ty_cublasFillMode_t, ty_cublasOperation_t, ty_cublasDiagType_t, ty_int, ty_int, Ptr (Const ty_double), Ptr (Const ty_double), ty_int, Ptr (Const ty_double), ty_int, Ptr ty_double, ty_int]
       ''cublasDtrmm_v2'' ty_cublasStatus_t [ty_cublasHandle_t, ty_cublasSideMode_t, ty_cublasFillMode_t, ty_cublasOperation_t, ty_cublasDiagType_t, ty_int, ty_int, Ptr (Const ty_double), Ptr (Const ty_double), ty_int, Ptr (Const ty_double), ty_int, Ptr ty_double, ty_int] ''cublasDtrmm_v2'' [0, 1, 2, 3, 4, 5, 6, 7, 8, 9, 10, 11, 12, 13] False,
     Gen cublas ty_cublasStatus_t ''cublasCtrmm_v2'' [ty_cublasHandle_t, ty_cublasSideMode_t, ty_cublasFillMode_t, ty_cublasOperation_t, ty_cublasDiagType_t, ty_int, ty_int, Ptr (Const ty_cuComplex), Ptr (Const ty_cuComplex), ty_int, Ptr (Const ty_cuComplex), ty_int, Ptr ty_cuComplex, ty_int]
       ''cublasCtrmm_v2'' ty_cublasStatus_t [ty_cublasHandle_t, ty_cublasSideMode_t, ty_cublasFillMode_t, ty_cublasOperation_t, ty_cublasDiagType_t, ty_int, ty_int, Ptr (Const ty_cuComplex), Ptr (Const ty_cuComplex), ty_int, Ptr (Const ty_cuComplex), ty_int, Ptr ty_cuComplex, ty_int] ''cublasCtrmm_v2'' [0, 1, 2, 3, 4, 5, 6, 7, 8, 9, 10, 11, 12, 13] False]"

definition cublas_hooks_27 :: "gen_hook list" where
  "cublas_hooks_27 =
    [Gen cublas ty_cublasStatus_t ''cublasZtrmm_v2'' [ty_cublasHandle_t, ty_cublasSideMode_t, ty_cublasFillMode_t, ty_cublasOperation_t, ty_cublasDiagType_t, ty_int, ty_int, Ptr (Const ty_cuDoubleComplex), Ptr (Const ty_cuDoubleComplex), ty_int, Ptr (Const ty_cuDoubleComplex), ty_int, Ptr ty_cuDoubleComplex, ty_int]
       ''cublasZtrmm_v2'' ty_cublasStatus_t [ty_cublasHandle_t, ty_cublasSideMode_t, ty_cublasFillMode_t, ty_cublasOperation_t, ty_cublasDiagType_t, ty_int, ty_int, Ptr (Const ty_cuDoubleComplex), Ptr (Const ty_cuDoubleComplex), ty_int, Ptr (Const ty_cuDoubleComplex), ty_int, Ptr ty_cuDoubleComplex, ty_int] ''cublasZtrmm_v2'' [0, 1, 2, 3, 4, 5, 6, 7, 8, 9, 10, 11, 12, 13] False,
     Gen cublas ty_cublasStatus_t ''cublasHgemmBatched'' [ty_cublasHandle_t, ty_cublasOperation_t, ty_cublasOperation_t, ty_int, ty_int, ty_int, Ptr (Const ty_half), Const (Ptr (Const ty_half)), ty_int, Const (Ptr (Const ty_half)), ty_int, Ptr (Const ty_half), Const (Ptr ty_half), ty_int, ty_int]
       ''cublasHgemmBatched'' ty_cublasStatus_t [ty_cublasHandle_t, ty_cublasOperation_t, ty_cublasOperation_t, ty_int, ty_int, ty_int, Ptr (Const ty_half), Const (Ptr (Const ty_half)), ty_int, Const (Ptr (Const ty_half)), ty_int, Ptr (Const ty_half), Const (Ptr ty_half), ty_int, ty_int] ''cublasHgemmBatched'' [0, 1, 2, 3, 4, 5, 6, 7, 8, 9, 10, 11, 12, 13, 14] False,
     Gen cublas ty_cublasStatus_t ''cublasSgemmBatched'' [ty_cublasHandle_t, ty_cublasOperation_t, ty_cublasOperation_t, ty_int, ty_int, ty_int, Ptr (Const ty_float), Const (Ptr (Const ty_float)), ty_int, Const (Ptr (Const ty_float)), ty_int, Ptr (Const ty_float), Const (Ptr ty_float), ty_int, ty_int]
       ''cublasSgemmBatched'' ty_cublasStatus_t [ty_cublasHandle_t, ty_cublasOperation_t, ty_cublasOperation_t, ty_int, ty_int, ty_int, Ptr (Const ty_float), Const (Ptr (Const ty_float)), ty_int, Const (Ptr (Const ty_float)), ty_int, Ptr (Const ty_float), Const (Ptr ty_float), ty_int, ty_int] ''cublasSgemmBatched'' [0, 1, 2, 3, 4, 5, 6, 7, 8, 9, 10, 11, 12, 13, 14] False,
     Gen cublas ty_cublasStatus_t ''cublasDgemmBatched'' [ty_cublasHandle_t, ty_cublasOperation_t, ty_cublasOperation_t, ty_int, ty_int, ty_int, Ptr (Const ty_double), Const (Ptr (Const ty_double)), ty_int, Const (Ptr (Const ty_double)), ty_int, Ptr (Const ty_double), Const (Ptr ty_double), ty_int, ty_int]
       ''cublasDgemmBatched'' ty_cublasStatus_t [ty_cublasHandle_t, ty_cublasOperation_t, ty_cublasOperation_t, ty_int, ty_int, ty_int, Ptr (Const ty_double), Const (Ptr (Const ty_double)), ty_int, Const (Ptr (Const ty_double)), ty_int, Ptr (Const ty_double), Const (Ptr ty_double), ty_int, ty_int] ''cublasDgemmBatched'' [0, 1, 2, 3, 4, 5, 6, 7, 8, 9, 10, 11, 12, 13, 14] False,
     Gen cublas ty_cublasStatus_t ''cublasCgemmBatched'' [ty_cublasHandle_t, ty_cublasOperation_t, ty_cublasOperation_t, ty_int, ty_int, ty_int, Ptr (Const ty_cuComplex), Const (Ptr (Const ty_cuComplex)), ty_int, Const (Ptr (Const ty_cuComplex)), ty_int, Ptr (Const ty_cuComplex), Const (Ptr ty_cuComplex), ty_int, ty_int]
       ''cublasCgemmBatched'' ty_cublasStatus_t [ty_cublasHandle_t, ty_cublasOperation_t, ty_cublasOperation_t, ty_int, ty_int, ty_int, Ptr (Const ty_cuComplex), Const (Ptr (Const ty_cuComplex)), ty_int, Const (Ptr (Const ty_cuComplex)), ty_int, Ptr (Const ty_cuComplex), Const (Ptr ty_cuComplex), ty_int, ty_int] ''cublasCgemmBatched'' [0, 1, 2, 3, 4, 5, 6, 7, 8, 9, 10, 11, 12, 13, 14] False,
     Gen cublas ty_cublasStatus_t ''cublasCgemm3mBatched'' [ty_cublasHandle_t, ty_cublasOperation_t, ty_cublasOperation_t, ty_int, ty_int, ty_int, Ptr (Const ty_cuComplex), Const (Ptr (Const ty_cuComplex)), ty_int, Const (Ptr (Const ty_cuComplex)), ty_int, Ptr (Const ty_cuComplex), Const (Ptr ty_cuComplex), ty_int, ty_int]
       ''cublasCgemm3mBatched'' ty_cublasStatus_t [ty_cublasHandle_t, ty_cublasOperation_t, ty_cublasOperation_t, ty_int, ty_int, ty_int, Ptr (Const ty_cuComplex), Const (Ptr (Const ty_cuComplex)), ty_int, Const (Ptr (Const ty_cuComplex)), ty_int, Ptr (Const ty_cuComplex), Const (Ptr ty_cuComplex), ty_int, ty_int] ''cublasCgemm3mBatched'' [0, 1, 2, 3, 4, 5, 6, 7, 8, 9, 10, 11, 12, 13, 14] False,
     Gen cublas ty_cublasStatus_t ''cublasZgemmBatched'' [ty_cublasHandle_t, ty_cublasOperation_t, ty_cublasOperation_t, ty_int, ty_int, ty_int, Ptr (Const ty_cuDoubleComplex), Const (Ptr (Const ty_cuDoubleComplex)), ty_int, Const (Ptr (Const ty_cuDoubleComplex)), ty_int, Ptr (Const ty_cuDoubleComplex), Const (Ptr ty_cuDoubleComplex), ty_int, ty_int]
       ''cublasZgemmBatched'' ty_cublasStatus_t [ty_cublasHandle_t, ty_cublasOperation_t, ty_cublasOperation_t, ty_int, ty_int, ty_int, Ptr (Const ty_cuDoubleComplex), Const (Ptr (Const ty_cuDoubleComplex)), ty_int, Const (Ptr (Const ty_cuDoubleComplex)), ty_int, Ptr (Const ty_cuDoubleComplex), Const (Ptr ty_cuDoubleComplex), ty_int, ty_int] ''cublasZgemmBatched'' [0, 1, 2, 3, 4, 5, 6, 7, 8, 9, 10, 11, 12, 13, 14] False,
     Gen cublas ty_cublasStatus_t ''cublasGemmBatchedEx'' [ty_cublasHandle_t, ty_cublasOperation_t, ty_cublasOperation_t, ty_int, ty_int, ty_int, Ptr (Const ty_void), Const (Ptr (Const ty_void)), ty_cudaDataType, ty_int, Const (Ptr (Const ty_void)), ty_cudaDataType, ty_int, Ptr (Const ty_void), Const (Ptr ty_void), ty_cudaDataType, ty_int, ty_int, ty_cublasComputeType_t, ty_cublasGemmAlgo_t]
       ''cublasGemmBatchedEx'' ty_cublasStatus_t [ty_cublasHandle_t, ty_cublasOperation_t, ty_cublasOperation_t, ty_int, ty_int, ty_int, Ptr (Const ty_void), Const (Ptr (Const ty_void)), ty_cudaDataType, ty_int, Const (Ptr (Const ty_void)), ty_cudaDataType, ty_int, Ptr (Const ty_void), Const (Ptr ty_void), ty_cudaDataType, ty_int, ty_int, ty_cublasComputeType_t, ty_cublasGemmAlgo_t] ''cublasGemmBatchedEx'' [0, 1, 2, 3, 4, 5, 6, 7, 8, 9, 10, 11, 12, 13, 14, 15, 16, 17, 18, 19] False,
     Gen cublas ty_cublasStatus_t ''cublasGemmStridedBatchedEx'' [ty_cublasHandle_t, ty_cublasOperation_t, ty_cublasOperation_t, ty_int, ty_int, ty_int, Ptr (Const ty_void), Ptr (Const ty_void), ty_cudaDataType, ty_int, ty_long_long_int, Ptr (Const ty_void), ty_cudaDataType, ty_int, ty_long_long_int, Ptr (Const ty_void), Ptr ty_void, ty_cudaDataType, ty_int, ty_long_long_int, ty_int, ty_cublasComputeType_t, ty_cublasGemmAlgo_t]
       ''cublasGemmStridedBatchedEx'' ty_cublasStatus_t [ty_cublasHandle_t, ty_cublasOperation_t, ty_cublasOperation_t, ty_int, ty_int, ty_int, Ptr (Const ty_void), Ptr (Const ty_void), ty_cudaDataType, ty_int, ty_long_long_int, Ptr (Const ty_void), ty_cudaDataType, ty_int, ty_long_long_int, Ptr (Const ty_void), Ptr ty_void, ty_cudaDataType, ty_int, ty_long_long_int, ty_int, ty_cublasComputeType_t, ty_cublasGemmAlgo_t] ''cublasGemmStridedBatchedEx'' [0, 1, 2, 3, 4, 5, 6, 7, 8, 9, 10, 11, 12, 13, 14, 15, 16, 17, 18, 19, 20, 21, 22] True]"

definition cublas_hooks_28 :: "gen_hook list" where
  "cublas_hooks_28 =
    [Gen cublas ty_cublasStatus_t ''cublasSgemmStridedBatched'' [ty_cublasHandle_t, ty_cublasOperation_t, ty_cublasOperation_t, ty_int, ty_int, ty_int, Ptr (Const ty_float), Ptr (Const ty_float), ty_int, ty_long_long_int, Ptr (Const ty_float), ty_int, ty_long_long_int, Ptr (Const ty_float), Ptr ty_float, ty_int, ty_long_long_int, ty_int]
       ''cublasSgemmStridedBatched'' ty_cublasStatus_t [ty_cublasHandle_t, ty_cublasOperation_t, ty_cublasOperation_t, ty_int, ty_int, ty_int, Ptr (Const ty_float), Ptr (Const ty_float), ty_int, ty_long_long_int, Ptr (Const ty_float), ty_int, ty_long_long_int, Ptr (Const ty_float), Ptr ty_float, ty_int, ty_long_long_int, ty_int] ''cublasSgemmStridedBatched'' [0, 1, 2, 3, 4, 5, 6, 7, 8, 9, 10, 11, 12, 13, 14, 15, 16, 17] True,
     Gen cublas ty_cublasStatus_t ''cublasDgemmStridedBatched'' [ty_cublasHandle_t, ty_cublasOperation_t, ty_cublasOperation_t, ty_int, ty_int, ty_int, Ptr (Const ty_double), Ptr (Const ty_double), ty_int, ty_long_long_int, Ptr (Const ty_double), ty_int, ty_long_long_int, Ptr (Const ty_double), Ptr ty_double, ty_int, ty_long_long_int, ty_int]
       ''cublasDgemmStridedBatched'' ty_cublasStatus_t [ty_cublasHandle_t, ty_cublasOperation_t, ty_cublasOperation_t, ty_int, ty_int, ty_int, Ptr (Const ty_double), Ptr (Const ty_double), ty_int, ty_long_long_int, Ptr (Const ty_double), ty_int, ty_long_long_int, Ptr (Const ty_double), Ptr ty_double, ty_int, ty_long_long_int, ty_int] ''cublasDgemmStridedBatched'' [0, 1, 2, 3, 4, 5, 6, 7, 8, 9, 10, 11, 12, 13, 14, 15, 16, 17] False,
     Gen cublas ty_cublasStatus_t ''cublasCgemmStridedBatched'' [ty_cublasHandle_t, ty_cublasOperation_t, ty_cublasOperation_t, ty_int, ty_int, ty_int, Ptr (Const ty_cuComplex), Ptr (Const ty_cuComplex), ty_int, ty_long_long_int, Ptr (Const ty_cuComplex), ty_int, ty_long_long_int, Ptr (Const ty_cuComplex), Ptr ty_cuComplex, ty_int, ty_long_long_int, ty_int]
       ''cublasCgemmStridedBatched'' ty_cublasStatus_t [ty_cublasHandle_t, ty_cublasOperation_t, ty_cublasOperation_t, ty_int, ty_int, ty_int, Ptr (Const ty_cuComplex), Ptr (Const ty_cuComplex), ty_int, ty_long_long_int, Ptr (Const ty_cuComplex), ty_int, ty_long_long_int, Ptr (Const ty_cuComplex), Ptr ty_cuComplex, ty_int, ty_long_long_int, ty_int] ''cublasCgemmStridedBatched'' [0, 1, 2, 3, 4, 5, 6, 7, 8, 9, 10, 11, 12, 13, 14, 15, 16, 17] False,
     Gen cublas ty_cublasStatus_t ''cublasCgemm3mStridedBatched'' [ty_cublasHandle_t, ty_cublasOperation_t, ty_cublasOperation_t, ty_int, ty_int, ty_int, Ptr (Const ty_cuComplex), Ptr (Const ty_cuComplex), ty_int, ty_long_long_int, Ptr (Const ty_cuComplex), ty_int, ty_long_long_int, Ptr (Const ty_cuComplex), Ptr ty_cuComplex, ty_int, ty_long_long_int, ty_int]
       ''cublasCgemm3mStridedBatched'' ty_cublasStatus_t [ty_cublasHandle_t, ty_cublasOperation_t, ty_cublasOperation_t, ty_int, ty_int, ty_int, Ptr (Const ty_cuComplex), Ptr (Const ty_cuComplex), ty_int, ty_long_long_int, Ptr (Const ty_cuComplex), ty_int, ty_long_long_int, Ptr (Const ty_cuComplex), Ptr ty_cuComplex, ty_int, ty_long_long_int, ty_int] ''cublasCgemm3mStridedBatched'' [0, 1, 2, 3, 4, 5, 6, 7, 8, 9, 10, 11, 12, 13, 14, 15, 16, 17] False,
     Gen cublas ty_cublasStatus_t ''cublasZgemmStridedBatched'' [ty_cublasHandle_t, ty_cublasOperation_t, ty_cublasOperation_t, ty_int, ty_int, ty_int, Ptr (Const ty_cuDoubleComplex), Ptr (Const ty_cuDoubleComplex), ty_int, ty_long_long_int, Ptr (Const ty_cuDoubleComplex), ty_int, ty_long_long_int, Ptr (Const ty_cuDoubleComplex), Ptr ty_cuDoubleComplex, ty_int, ty_long_long_int, ty_int]
       ''cublasZgemmStridedBatched'' ty_cublasStatus_t [ty_cublasHandle_t, ty_cublasOperation_t, ty_cublasOperation_t, ty_int, ty_int, ty_int, Ptr (Const ty_cuDoubleComplex), Ptr (Const ty_cuDoubleComplex), ty_int, ty_long_long_int, Ptr (Const ty_cuDoubleComplex), ty_int, ty_long_long_int, Ptr (Const ty_cuDoubleComplex), Ptr ty_cuDoubleComplex, ty_int, ty_long_long_int, ty_int] ''cublasZgemmStridedBatched'' [0, 1, 2, 3, 4, 5, 6, 7, 8, 9, 10, 11, 12, 13, 14, 15, 16, 17] False,
     Gen cublas ty_cublasStatus_t ''cublasHgemmStridedBatched'' [ty_cublasHandle_t, ty_cublasOperation_t, ty_cublasOperation_t, ty_int, ty_int, ty_int, Ptr (Const ty_half), Ptr (Const ty_half), ty_int, ty_long_long_int, Ptr (Const ty_half), ty_int, ty_long_long_int, Ptr (Const ty_half), Ptr ty_half, ty_int, ty_long_long_int, ty_int]
       ''cublasHgemmStridedBatched'' ty_cublasStatus_t [ty_cublasHandle_t, ty_cublasOperation_t, ty_cublasOperation_t, ty_int, ty_int, ty_int, Ptr (Const ty_half), Ptr (Const ty_half), ty_int, ty_long_long_int, Ptr (Const ty_half), ty_int, ty_long_long_int, Ptr (Const ty_half), Ptr ty_half, ty_int, ty_long_long_int, ty_int] ''cublasHgemmStridedBatched'' [0, 1, 2, 3, 4, 5, 6, 7, 8, 9, 10, 11, 12, 13, 14, 15, 16, 17] False,
     Gen cublas ty_cublasStatus_t ''cublasSgeam'' [ty_cublasHandle_t, ty_cublasOperation_t, ty_cublasOperation_t, ty_int, ty_int, Ptr (Const ty_float), Ptr (Const ty_float), ty_int, Ptr (Const ty_float), Ptr (Const ty_float), ty_int, Ptr ty_float, ty_int]
       ''cublasSgeam'' ty_cublasStatus_t [ty_cublasHandle_t, ty_cublasOperation_t, ty_cublasOperation_t, ty_int, ty_int, Ptr (Const ty_float), Ptr (Const ty_float), ty_int, Ptr (Const ty_float), Ptr (Const ty_float), ty_int, Ptr ty_float, ty_int] ''cublasSgeam'' [0, 1, 2, 3, 4, 5, 6, 7, 8, 9, 10, 11, 12] False,
     Gen cublas ty_cublasStatus_t ''cublasDgeam'' [ty_cublasHandle_t, ty_cublasOperation_t, ty_cublasOperation_t, ty_int, ty_int, Ptr (Const ty_double), Ptr (Const ty_double), ty_int, Ptr (Const ty_double), Ptr (Const ty_double), ty_int, Ptr ty_double, ty_int]
       ''cublasDgeam'' ty_cublasStatus_t [ty_cublasHandle_t, ty_cublasOperation_t, ty_cublasOperation_t, ty_int, ty_int, Ptr (Const ty_double), Ptr (Const ty_double), ty_int, Ptr (Const ty_double), Ptr (Const ty_double), ty_int, Ptr ty_double, ty_int] ''cublasDgeam'' [0, 1, 2, 3, 4, 5, 6, 7, 8, 9, 10, 11, 12] False,
     Gen cublas ty_cublasStatus_t ''cublasCgeam'' [ty_cublasHandle_t, ty_cublasOperation_t, ty_cublasOperation_t, ty_int, ty_int, Ptr (Const ty_cuComplex), Ptr (Const ty_cuComplex), ty_int, Ptr (Const ty_cuComplex), Ptr (Const ty_cuComplex), ty_int, Ptr ty_cuComplex, ty_int]
       ''cublasCgeam'' ty_cublasStatus_t [ty_cublasHandle_t, ty_cublasOperation_t, ty_cublasOperation_t, ty_int, ty_int, Ptr (Const ty_cuComplex), Ptr (Const ty_cuComplex), ty_int, Ptr (Const ty_cuComplex), Ptr (Const ty_cuComplex), ty_int, Ptr ty_cuComplex, ty_int] ''cublasCgeam'' [0, 1, 2, 3, 4, 5, 6, 7, 8, 9, 10, 11, 12] False,
     Gen cublas ty_cublasStatus_t ''cublasZgeam'' [ty_cublasHandle_t, ty_cublasOperation_t, ty_cublasOperation_t, ty_int, ty_int, Ptr (Const ty_cuDoubleComplex), Ptr (Const ty_cuDoubleComplex), ty_int, Ptr (Const ty_cuDoubleComplex), Ptr (Const ty_cuDoubleComplex), ty_int, Ptr ty_cuDoubleComplex, ty_int]
       ''cublasZgeam'' ty_cublasStatus_t [ty_cublasHandle_t, ty_cublasOperation_t, ty_cublasOperation_t, ty_int, ty_int, Ptr (Const ty_cuDoubleComplex), Ptr (Const ty_cuDoubleComplex), ty_int, Ptr (Const ty_cuDoubleComplex), Ptr (Const ty_cuDoubleComplex), ty_int, Ptr ty_cuDoubleComplex, ty_int] ''cublasZgeam'' [0, 1, 2, 3, 4, 5, 6, 7, 8, 9, 10, 11, 12] False]"

definition cublas_hooks_29 :: "gen_hook list" where
  "cublas_hooks_29 =
    [Gen cublas ty_cublasStatus_t ''cublasSgetrfBatched'' [ty_cublasHandle_t, ty_int, Const (Ptr ty_float), ty_int, Ptr ty_int, Ptr ty_int, ty_int]
       ''cublasSgetrfBatched'' ty_cublasStatus_t [ty_cublasHandle_t, ty_int, Const (Ptr ty_float), ty_int, Ptr ty_int, Ptr ty_int, ty_int] ''cublasSgetrfBatched'' [0, 1, 2, 3, 4, 5, 6] False,
     Gen cublas ty_cublasStatus_t ''cublasDgetrfBatched'' [ty_cublasHandle_t, ty_int, Const (Ptr ty_double), ty_int, Ptr ty_int, Ptr ty_int, ty_int]
       ''cublasDgetrfBatched'' ty_cublasStatus_t [ty_cublasHandle_t, ty_int, Const (Ptr ty_double), ty_int, Ptr ty_int, Ptr ty_int, ty_int] ''cublasDgetrfBatched'' [0, 1, 2, 3, 4, 5, 6] False,
     Gen cublas ty_cublasStatus_t ''cublasCgetrfBatched'' [ty_cublasHandle_t, ty_int, Const (Ptr ty_cuComplex), ty_int, Ptr ty_int, Ptr ty_int, ty_int]
       ''cublasCgetrfBatched'' ty_cublasStatus_t [ty_cublasHandle_t, ty_int, Const (Ptr ty_cuComplex), ty_int, Ptr ty_int, Ptr ty_int, ty_int] ''cublasCgetrfBatched'' [0, 1, 2, 3, 4, 5, 6] False,
     Gen cublas ty_cublasStatus_t ''cublasZgetrfBatched'' [ty_cublasHandle_t, ty_int, Const (Ptr ty_cuDoubleComplex), ty_int, Ptr ty_int, Ptr ty_int, ty_int]
       ''cublasZgetrfBatched'' ty_cublasStatus_t [ty_cublasHandle_t, ty_int, Const (Ptr ty_cuDoubleComplex), ty_int, Ptr ty_int, Ptr ty_int, ty_int] ''cublasZgetrfBatched'' [0, 1, 2, 3, 4, 5, 6] False,
     Gen cublas ty_cublasStatus_t ''cublasSgetriBatched'' [ty_cublasHandle_t, ty_int, Const (Ptr (Const ty_float)), ty_int, Ptr (Const ty_int), Const (Ptr ty_float), ty_int, Ptr ty_int, ty_int]
       ''cublasSgetriBatched'' ty_cublasStatus_t [ty_cublasHandle_t, ty_int, Const (Ptr (Const ty_float)), ty_int, Ptr (Const ty_int), Const (Ptr ty_float), ty_int, Ptr ty_int, ty_int] ''cublasSgetriBatched'' [0, 1, 2, 3, 4, 5, 6, 7, 8] False,
     Gen cublas ty_cublasStatus_t ''cublasDgetriBatched'' [ty_cublasHandle_t, ty_int, Const (Ptr (Const ty_double)), ty_int, Ptr (Const ty_int), Const (Ptr ty_double), ty_int, Ptr ty_int, ty_int]
       ''cublasDgetriBatched'' ty_cublasStatus_t [ty_cublasHandle_t, ty_int, Const (Ptr (Const ty_double)), ty_int, Ptr (Const ty_int), Const (Ptr ty_double), ty_int, Ptr ty_int, ty_int] ''cublasDgetriBatched'' [0, 1, 2, 3, 4, 5, 6, 7, 8] False,
     Gen cublas ty_cublasStatus_t ''cublasCgetriBatched'' [ty_cublasHandle_t, ty_int, Const (Ptr (Const ty_cuComplex)), ty_int, Ptr (Const ty_int), Const (Ptr ty_cuComplex), ty_int, Ptr ty_int, ty_int]
       ''cublasCgetriBatched'' ty_cublasStatus_t [ty_cublasHandle_t, ty_int, Const (Ptr (Const ty_cuComplex)), ty_int, Ptr (Const ty_int), Const (Ptr ty_cuComplex), ty_int, Ptr ty_int, ty_int] ''cublasCgetriBatched'' [0, 1, 2, 3, 4, 5, 6, 7, 8] False,
     Gen cublas ty_cublasStatus_t ''cublasZgetriBatched'' [ty_cublasHandle_t, ty_int, Const (Ptr (Const ty_cuDoubleComplex)), ty_int, Ptr (Const ty_int), Const (Ptr ty_cuDoubleComplex), ty_int, Ptr ty_int, ty_int]
       ''cublasZgetriBatched'' ty_cublasStatus_t [ty_cublasHandle_t, ty_int, Const (Ptr (Const ty_cuDoubleComplex)), ty_int, Ptr (Const ty_int), Const (Ptr ty_cuDoubleComplex), ty_int, Ptr ty_int, ty_int] ''cublasZgetriBatched'' [0, 1, 2, 3, 4, 5, 6, 7, 8] False,
     Gen cublas ty_cublasStatus_t ''cublasSgetrsBatched'' [ty_cublasHandle_t, ty_cublasOperation_t, ty_int, ty_int, Const (Ptr (Const ty_float)), ty_int, Ptr (Const ty_int), Const (Ptr ty_float), ty_int, Ptr ty_int, ty_int]
       ''cublasSgetrsBatched'' ty_cublasStatus_t [ty_cublasHandle_t, ty_cublasOperation_t, ty_int, ty_int, Const (Ptr (Const ty_float)), ty_int, Ptr (Const ty_int), Const (Ptr ty_float), ty_int, Ptr ty_int, ty_int] ''cublasSgetrsBatched'' [0, 1, 2, 3, 4, 5, 6, 7, 8, 9, 10] False,
     Gen cublas ty_cublasStatus_t ''cublasDgetrsBatched'' [ty_cublasHandle_t, ty_cublasOperation_t, ty_int, ty_int, Const (Ptr (Const ty_double)), ty_int, Ptr (Const ty_int), Const (Ptr ty_double), ty_int, Ptr ty_int, ty_int]
       ''cublasDgetrsBatched'' ty_cublasStatus_t [ty_cublasHandle_t, ty_cublasOperation_t, ty_int, ty_int, Const (Ptr (Const ty_double)), ty_int, Ptr (Const ty_int), Const (Ptr ty_double), ty_int, Ptr ty_int, ty_int] ''cublasDgetrsBatched'' [0, 1, 2, 3, 4, 5, 6, 7, 8, 9, 10] False,
     Gen cublas ty_cublasStatus_t ''cublasCgetrsBatched'' [ty_cublasHandle_t, ty_cublasOperation_t, ty_int, ty_int, Const (Ptr (Const ty_cuComplex)), ty_int, Ptr (Const ty_int), Const (Ptr ty_cuComplex), ty_int, Ptr ty_int, ty_int]
       ''cublasCgetrsBatched'' ty_cublasStatus_t [ty_cublasHandle_t, ty_cublasOperation_t, ty_int, ty_int, Const (Ptr (Const ty_cuComplex)), ty_int, Ptr (Const ty_int), Const (Ptr ty_cuComplex), ty_int, Ptr ty_int, ty_int] ''cublasCgetrsBatched'' [0, 1, 2, 3, 4, 5, 6, 7, 8, 9, 10] False,
     Gen cublas ty_cublasStatus_t ''cublasZgetrsBatched'' [ty_cublasHandle_t, ty_cublasOperation_t, ty_int, ty_int, Const (Ptr (Const ty_cuDoubleComplex)), ty_int, Ptr (Const ty_int), Const (Ptr ty_cuDoubleComplex), ty_int, Ptr ty_int, ty_int]
       ''cublasZgetrsBatched'' ty_cublasStatus_t [ty_cublasHandle_t, ty_cublasOperation_t, ty_int, ty_int, Const (Ptr (Const ty_cuDoubleComplex)), ty_int, Ptr (Const ty_int), Const (Ptr ty_cuDoubleComplex), ty_int, Ptr ty_int, ty_int] ''cublasZgetrsBatched'' [0, 1, 2, 3, 4, 5, 6, 7, 8, 9, 10] False,
     Gen cublas ty_cublasStatus_t ''cublasStrsmBatched'' [ty_cublasHandle_t, ty_cublasSideMode_t, ty_cublasFillMode_t, ty_cublasOperation_t, ty_cublasDiagType_t, ty_int, ty_int, Ptr (Const ty_float), Const (Ptr (Const ty_float)), ty_int, Const (Ptr ty_float), ty_int, ty_int]
       ''cublasStrsmBatched'' ty_cublasStatus_t [ty_cublasHandle_t, ty_cublasSideMode_t, ty_cublasFillMode_t, ty_cublasOperation_t, ty_cublasDiagType_t, ty_int, ty_int, Ptr (Const ty_float), Const (Ptr (Const ty_float)), ty_int, Const (Ptr ty_float), ty_int, ty_int] ''cublasStrsmBatched'' [0, 1, 2, 3, 4, 5, 6, 7, 8, 9, 10, 11, 12] False]"

definition cublas_hooks_30 :: "gen_hook list" where
  "cublas_hooks_30 =
    [Gen cublas ty_cublasStatus_t ''cublasDtrsmBatched'' [ty_cublasHandle_t, ty_cublasSideMode_t, ty_cublasFillMode_t, ty_cublasOperation_t, ty_cublasDiagType_t, ty_int, ty_int, Ptr (Const ty_double), Const (Ptr (Const ty_double)), ty_int, Const (Ptr ty_double), ty_int, ty_int]
       ''cublasDtrsmBatched'' ty_cublasStatus_t [ty_cublasHandle_t, ty_cublasSideMode_t, ty_cublasFillMode_t, ty_cublasOperation_t, ty_cublasDiagType_t, ty_int, ty_int, Ptr (Const ty_double), Const (Ptr (Const ty_double)), ty_int, Const (Ptr ty_double), ty_int, ty_int] ''cublasDtrsmBatched'' [0, 1, 2, 3, 4, 5, 6, 7, 8, 9, 10, 11, 12] False,
     Gen cublas ty_cublasStatus_t ''cublasCtrsmBatched'' [ty_cublasHandle_t, ty_cublasSideMode_t, ty_cublasFillMode_t, ty_cublasOperation_t, ty_cublasDiagType_t, ty_int, ty_int, Ptr (Const ty_cuComplex), Const (Ptr (Const ty_cuComplex)), ty_int, Const (Ptr ty_cuComplex), ty_int, ty_int]
       ''cublasCtrsmBatched'' ty_cublasStatus_t [ty_cublasHandle_t, ty_cublasSideMode_t, ty_cublasFillMode_t, ty_cublasOperation_t, ty_cublasDiagType_t, ty_int, ty_int, Ptr (Const ty_cuComplex), Const (Ptr (Const ty_cuComplex)), ty_int, Const (Ptr ty_cuComplex), ty_int, ty_int] ''cublasCtrsmBatched'' [0, 1, 2, 3, 4, 5, 6, 7, 8, 9, 10, 11, 12] False,
     Gen cublas ty_cublasStatus_t ''cublasZtrsmBatched'' [ty_cublasHandle_t, ty_cublasSideMode_t, ty_cublasFillMode_t, ty_cublasOperation_t, ty_cublasDiagType_t, ty_int, ty_int, Ptr (Const ty_cuDoubleComplex), Const (Ptr (Const ty_cuDoubleComplex)), ty_int, Const (Ptr ty_cuDoubleComplex), ty_int, ty_int]
       ''cublasZtrsmBatched'' ty_cublasStatus_t [ty_cublasHandle_t, ty_cublasSideMode_t, ty_cublasFillMode_t, ty_cublasOperation_t, ty_cublasDiagType_t, ty_int, ty_int, Ptr (Const ty_cuDoubleComplex), Const (Ptr (Const ty_cuDoubleComplex)), ty_int, Const (Ptr ty_cuDoubleComplex), ty_int, ty_int] ''cublasZtrsmBatched'' [0, 1, 2, 3, 4, 5, 6, 7, 8, 9, 10, 11, 12] False,
     Gen cublas ty_cublasStatus_t ''cublasSmatinvBatched'' [ty_cublasHandle_t, ty_int, Const (Ptr (Const ty_float)), ty_int, Const (Ptr ty_float), ty_int, Ptr ty_int, ty_int]
       ''cublasSmatinvBatched'' ty_cublasStatus_t [ty_cublasHandle_t, ty_int, Const (Ptr (Const ty_float)), ty_int, Const (Ptr ty_float), ty_int, Ptr ty_int, ty_int] ''cublasSmatinvBatched'' [0, 1, 2, 3, 4, 5, 6, 7] False,
     Gen cublas ty_cublasStatus_t ''cublasDmatinvBatched'' [ty_cublasHandle_t, ty_int, Const (Ptr (Const ty_double)), ty_int, Const (Ptr ty_double), ty_int, Ptr ty_int, ty_int]
       ''cublasDmatinvBatched'' ty_cublasStatus_t [ty_cublasHandle_t, ty_int, Const (Ptr (Const ty_double)), ty_int, Const (Ptr ty_double), ty_int, Ptr ty_int, ty_int] ''cublasDmatinvBatched'' [0, 1, 2, 3, 4, 5, 6, 7] False,
     Gen cublas ty_cublasStatus_t ''cublasCmatinvBatched'' [ty_cublasHandle_t, ty_int, Const (Ptr (Const ty_cuComplex)), ty_int, Const (Ptr ty_cuComplex), ty_int, Ptr ty_int, ty_int]
       ''cublasCmatinvBatched'' ty_cublasStatus_t [ty_cublasHandle_t, ty_int, Const (Ptr (Const ty_cuComplex)), ty_int, Const (Ptr ty_cuComplex), ty_int, Ptr ty_int, ty_int] ''cublasCmatinvBatched'' [0, 1, 2, 3, 4, 5, 6, 7] False,
     Gen cublas ty_cublasStatus_t ''cublasZmatinvBatched'' [ty_cublasHandle_t, ty_int, Const (Ptr (Const ty_cuDoubleComplex)), ty_int, Const (Ptr ty_cuDoubleComplex), ty_int, Ptr ty_int, ty_int]
       ''cublasZmatinvBatched'' ty_cublasStatus_t [ty_cublasHandle_t, ty_int, Const (Ptr (Const ty_cuDoubleComplex)), ty_int, Const (Ptr ty_cuDoubleComplex), ty_int, Ptr ty_int, ty_int] ''cublasZmatinvBatched'' [0, 1, 2, 3, 4, 5, 6, 7] False,
     Gen cublas ty_cublasStatus_t ''cublasSgeqrfBatched'' [ty_cublasHandle_t, ty_int, ty_int, Const (Ptr ty_float), ty_int, Const (Ptr ty_float), Ptr ty_int, ty_int]
       ''cublasSgeqrfBatched'' ty_cublasStatus_t [ty_cublasHandle_t, ty_int, ty_int, Const (Ptr ty_float), ty_int, Const (Ptr ty_float), Ptr ty_int, ty_int] ''cublasSgeqrfBatched'' [0, 1, 2, 3, 4, 5, 6, 7] False,
     Gen cublas ty_cublasStatus_t ''cublasDgeqrfBatched'' [ty_cublasHandle_t, ty_int, ty_int, Const (Ptr ty_double), ty_int, Const (Ptr ty_double), Ptr ty_int, ty_int]
       ''cublasDgeqrfBatched'' ty_cublasStatus_t [ty_cublasHandle_t, ty_int, ty_int, Const (Ptr ty_double), ty_int, Const (Ptr ty_double), Ptr ty_int, ty_int] ''cublasDgeqrfBatched'' [0, 1, 2, 3, 4, 5, 6, 7] False,
     Gen cublas ty_cublasStatus_t ''cublasCgeqrfBatched'' [ty_cublasHandle_t, ty_int, ty_int, Const (Ptr ty_cuComplex), ty_int, Const (Ptr ty_cuComplex), Ptr ty_int, ty_int]
       ''cublasCgeqrfBatched'' ty_cublasStatus_t [ty_cublasHandle_t, ty_int, ty_int, Const (Ptr ty_cuComplex), ty_int, Const (Ptr ty_cuComplex), Ptr ty_int, ty_int] ''cublasCgeqrfBatched'' [0, 1, 2, 3, 4, 5, 6, 7] False,
     Gen cublas ty_cublasStatus_t ''cublasZgeqrfBatched'' [ty_cublasHandle_t, ty_int, ty_int, Const (Ptr ty_cuDoubleComplex), ty_int, Const (Ptr ty_cuDoubleComplex), Ptr ty_int, ty_int]
       ''cublasZgeqrfBatched'' ty_cublasStatus_t [ty_cublasHandle_t, ty_int, ty_int, Const (Ptr ty_cuDoubleComplex), ty_int, Const (Ptr ty_cuDoubleComplex), Ptr ty_int, ty_int] ''cublasZgeqrfBatched'' [0, 1, 2, 3, 4, 5, 6, 7] False,
     Gen cublas ty_cublasStatus_t ''cublasSgelsBatched'' [ty_cublasHandle_t, ty_cublasOperation_t, ty_int, ty_int, ty_int, Const (Ptr ty_float), ty_int, Const (Ptr ty_float), ty_int, Ptr ty_int, Ptr ty_int, ty_int]
       ''cublasSgelsBatched'' ty_cublasStatus_t [ty_cublasHandle_t, ty_cublasOperation_t, ty_int, ty_int, ty_int, Const (Ptr ty_float), ty_int, Const (Ptr ty_float), ty_int, Ptr ty_int, Ptr ty_int, ty_int] ''cublasSgelsBatched'' [0, 1, 2, 3, 4, 5, 6, 7, 8, 9, 10, 11] False]"

definition cublas_hooks_31 :: "gen_hook list" where
  "cublas_hooks_31 =
    [Gen cublas ty_cublasStatus_t ''cublasDgelsBatched'' [ty_cublasHandle_t, ty_cublasOperation_t, ty_int, ty_int, ty_int, Const (Ptr ty_double), ty_int, Const (Ptr ty_double), ty_int, Ptr ty_int, Ptr ty_int, ty_int]
       ''cublasDgelsBatched'' ty_cublasStatus_t [ty_cublasHandle_t, ty_cublasOperation_t, ty_int, ty_int, ty_int, Const (Ptr ty_double), ty_int, Const (Ptr ty_double), ty_int, Ptr ty_int, Ptr ty_int, ty_int] ''cublasDgelsBatched'' [0, 1, 2, 3, 4, 5, 6, 7, 8, 9, 10, 11] False,
     Gen cublas ty_cublasStatus_t ''cublasCgelsBatched'' [ty_cublasHandle_t, ty_cublasOperation_t, ty_int, ty_int, ty_int, Const (Ptr ty_cuComplex), ty_int, Const (Ptr ty_cuComplex), ty_int, Ptr ty_int, Ptr ty_int, ty_int]
       ''cublasCgelsBatched'' ty_cublasStatus_t [ty_cublasHandle_t, ty_cublasOperation_t, ty_int, ty_int, ty_int, Const (Ptr ty_cuComplex), ty_int, Const (Ptr ty_cuComplex), ty_int, Ptr ty_int, Ptr ty_int, ty_int] ''cublasCgelsBatched'' [0, 1, 2, 3, 4, 5, 6, 7, 8, 9, 10, 11] False,
     Gen cublas ty_cublasStatus_t ''cublasZgelsBatched'' [ty_cublasHandle_t, ty_cublasOperation_t, ty_int, ty_int, ty_int, Const (Ptr ty_cuDoubleComplex), ty_int, Const (Ptr ty_cuDoubleComplex), ty_int, Ptr ty_int, Ptr ty_int, ty_int]
       ''cublasZgelsBatched'' ty_cublasStatus_t [ty_cublasHandle_t, ty_cublasOperation_t, ty_int, ty_int, ty_int, Const (Ptr ty_cuDoubleComplex), ty_int, Const (Ptr ty_cuDoubleComplex), ty_int, Ptr ty_int, Ptr ty_int, ty_int] ''cublasZgelsBatched'' [0, 1, 2, 3, 4, 5, 6, 7, 8, 9, 10, 11] False,
     Gen cublas ty_cublasStatus_t ''cublasSdgmm'' [ty_cublasHandle_t, ty_cublasSideMode_t, ty_int, ty_int, Ptr (Const ty_float), ty_int, Ptr (Const ty_float), ty_int, Ptr ty_float, ty_int]
       ''cublasSdgmm'' ty_cublasStatus_t [ty_cublasHandle_t, ty_cublasSideMode_t, ty_int, ty_int, Ptr (Const ty_float), ty_int, Ptr (Const ty_float), ty_int, Ptr ty_float, ty_int] ''cublasSdgmm'' [0, 1, 2, 3, 4, 5, 6, 7, 8, 9] False,
     Gen cublas ty_cublasStatus_t ''cublasDdgmm'' [ty_cublasHandle_t, ty_cublasSideMode_t, ty_int, ty_int, Ptr (Const ty_double), ty_int, Ptr (Const ty_double), ty_int, Ptr ty_double, ty_int]
       ''cublasDdgmm'' ty_cublasStatus_t [ty_cublasHandle_t, ty_cublasSideMode_t, ty_int, ty_int, Ptr (Const ty_double), ty_int, Ptr (Const ty_double), ty_int, Ptr ty_double, ty_int] ''cublasDdgmm'' [0, 1, 2, 3, 4, 5, 6, 7, 8, 9] False,
     Gen cublas ty_cublasStatus_t ''cublasCdgmm'' [ty_cublasHandle_t, ty_cublasSideMode_t, ty_int, ty_int, Ptr (Const ty_cuComplex), ty_int, Ptr (Const ty_cuComplex), ty_int, Ptr ty_cuComplex, ty_int]
       ''cublasCdgmm'' ty_cublasStatus_t [ty_cublasHandle_t, ty_cublasSideMode_t, ty_int, ty_int, Ptr (Const ty_cuComplex), ty_int, Ptr (Const ty_cuComplex), ty_int, Ptr ty_cuComplex, ty_int] ''cublasCdgmm'' [0, 1, 2, 3, 4, 5, 6, 7, 8, 9] False,
     Gen cublas ty_cublasStatus_t ''cublasZdgmm'' [ty_cublasHandle_t, ty_cublasSideMode_t, ty_int, ty_int, Ptr (Const ty_cuDoubleComplex), ty_int, Ptr (Const ty_cuDoubleComplex), ty_int, Ptr ty_cuDoubleComplex, ty_int]
       ''cublasZdgmm'' ty_cublasStatus_t [ty_cublasHandle_t, ty_cublasSideMode_t, ty_int, ty_int, Ptr (Const ty_cuDoubleComplex), ty_int, Ptr (Const ty_cuDoubleComplex), ty_int, Ptr ty_cuDoubleComplex, ty_int] ''cublasZdgmm'' [0, 1, 2, 3, 4, 5, 6, 7, 8, 9] False,
     Gen cublas ty_cublasStatus_t ''cublasStpttr'' [ty_cublasHandle_t, ty_cublasFillMode_t, ty_int, Ptr (Const ty_float), Ptr ty_float, ty_int]
       ''cublasStpttr'' ty_cublasStatus_t [ty_cublasHandle_t, ty_cublasFillMode_t, ty_int, Ptr (Const ty_float), Ptr ty_float, ty_int] ''cublasStpttr'' [0, 1, 2, 3, 4, 5] False,
     Gen cublas ty_cublasStatus_t ''cublasDtpttr'' [ty_cublasHandle_t, ty_cublasFillMode_t, ty_int, Ptr (Const ty_double), Ptr ty_double, ty_int]
       ''cublasDtpttr'' ty_cublasStatus_t [ty_cublasHandle_t, ty_cublasFillMode_t, ty_int, Ptr (Const ty_double), Ptr ty_double, ty_int] ''cublasDtpttr'' [0, 1, 2, 3, 4, 5] False,
     Gen cublas ty_cublasStatus_t ''cublasCtpttr'' [ty_cublasHandle_t, ty_cublasFillMode_t, ty_int, Ptr (Const ty_cuComplex), Ptr ty_cuComplex, ty_int]
       ''cublasCtpttr'' ty_cublasStatus_t [ty_cublasHandle_t, ty_cublasFillMode_t, ty_int, Ptr (Const ty_cuComplex), Ptr ty_cuComplex, ty_int] ''cublasCtpttr'' [0, 1, 2, 3, 4, 5] False,
     Gen cublas ty_cublasStatus_t ''cublasZtpttr'' [ty_cublasHandle_t, ty_cublasFillMode_t, ty_int, Ptr (Const ty_cuDoubleComplex), Ptr ty_cuDoubleComplex, ty_int]
       ''cublasZtpttr'' ty_cublasStatus_t [ty_cublasHandle_t, ty_cublasFillMode_t, ty_int, Ptr (Const ty_cuDoubleComplex), Ptr ty_cuDoubleComplex, ty_int] ''cublasZtpttr'' [0, 1, 2, 3, 4, 5] False,
     Gen cublas ty_cublasStatus_t ''cublasStrttp'' [ty_cublasHandle_t, ty_cublasFillMode_t, ty_int, Ptr (Const ty_float), ty_int, Ptr ty_float]
       ''cublasStrttp'' ty_cublasStatus_t [ty_cublasHandle_t, ty_cublasFillMode_t, ty_int, Ptr (Const ty_float), ty_int, Ptr ty_float] ''cublasStrttp'' [0, 1, 2, 3, 4, 5] False,
     Gen cublas ty_cublasStatus_t ''cublasDtrttp'' [ty_cublasHandle_t, ty_cublasFillMode_t, ty_int, Ptr (Const ty_double), ty_int, Ptr ty_double]
       ''cublasDtrttp'' ty_cublasStatus_t [ty_cublasHandle_t, ty_cublasFillMode_t, ty_int, Ptr (Const ty_double), ty_int, Ptr ty_double] ''cublasDtrttp'' [0, 1, 2, 3, 4, 5] False,
     Gen cublas ty_cublasStatus_t ''cublasCtrttp'' [ty_cublasHandle_t, ty_cublasFillMode_t, ty_int, Ptr (Const ty_cuComplex), ty_int, Ptr ty_cuComplex]
       ''cublasCtrttp'' ty_cublasStatus_t [ty_cublasHandle_t, ty_cublasFillMode_t, ty_int, Ptr (Const ty_cuComplex), ty_int, Ptr ty_cuComplex] ''cublasCtrttp'' [0, 1, 2, 3, 4, 5] False]"

definition cublas_hooks_32 :: "gen_hook list" where
  "cublas_hooks_32 =
    [Gen cublas ty_cublasStatus_t ''cublasZtrttp'' [ty_cublasHandle_t, ty_cublasFillMode_t, ty_int, Ptr (Const ty_cuDoubleComplex), ty_int, Ptr ty_cuDoubleComplex]
       ''cublasZtrttp'' ty_cublasStatus_t [ty_cublasHandle_t, ty_cublasFillMode_t, ty_int, Ptr (Const ty_cuDoubleComplex), ty_int, Ptr ty_cuDoubleComplex] ''cublasZtrttp'' [0, 1, 2, 3, 4, 5] False,
     Gen cublas ty_cublasStatus_t ''cublasMigrateComputeType'' [ty_cublasHandle_t, ty_cudaDataType_t, Ptr ty_cublasComputeType_t]
       ''cublasMigrateComputeType'' ty_cublasStatus_t [ty_cublasHandle_t, ty_cudaDataType_t, Ptr ty_cublasComputeType_t] ''cublasMigrateComputeType'' [0, 1, 2] False,
     Gen cublas ty_cublasStatus_t ''cublasXtCreate'' [Ptr ty_cublasXtHandle_t]
       ''cublasXtCreate'' ty_cublasStatus_t [Ptr ty_cublasXtHandle_t] ''cublasXtCreate'' [0] False,
     Gen cublas ty_cublasStatus_t ''cublasXtDestroy'' [ty_cublasXtHandle_t]
       ''cublasXtDestroy'' ty_cublasStatus_t [ty_cublasXtHandle_t] ''cublasXtDestroy'' [0] False,
     Gen cublas ty_cublasStatus_t ''cublasXtGetNumBoards'' [ty_int, ty_int, Ptr ty_int]
       ''cublasXtGetNumBoards'' ty_cublasStatus_t [ty_int, ty_int, Ptr ty_int] ''cublasXtGetNumBoards'' [0, 1, 2] False,
     Gen cublas ty_cublasStatus_t ''cublasXtMaxBoards'' [Ptr ty_int]
       ''cublasXtMaxBoards'' ty_cublasStatus_t [Ptr ty_int] ''cublasXtMaxBoards'' [0] False,
     Gen cublas ty_cublasStatus_t ''cublasXtDeviceSelect'' [ty_cublasXtHandle_t, ty_int, ty_int]
       ''cublasXtDeviceSelect'' ty_cublasStatus_t [ty_cublasXtHandle_t, ty_int, ty_int] ''cublasXtDeviceSelect'' [0, 1, 2] False,
     Gen cublas ty_cublasStatus_t ''cublasXtSetBlockDim'' [ty_cublasXtHandle_t, ty_int]
       ''cublasXtSetBlockDim'' ty_cublasStatus_t [ty_cublasXtHandle_t, ty_int] ''cublasXtSetBlockDim'' [0, 1] False,
     Gen cublas ty_cublasStatus_t ''cublasXtGetBlockDim'' [ty_cublasXtHandle_t, Ptr ty_int]
       ''cublasXtGetBlockDim'' ty_cublasStatus_t [ty_cublasXtHandle_t, Ptr ty_int] ''cublasXtGetBlockDim'' [0, 1] False,
     Gen cublas ty_cublasStatus_t ''cublasXtGetPinningMemMode'' [ty_cublasXtHandle_t, Ptr ty_cublasXtPinnedMemMode_t]
       ''cublasXtGetPinningMemMode'' ty_cublasStatus_t [ty_cublasXtHandle_t, Ptr ty_cublasXtPinnedMemMode_t] ''cublasXtGetPinningMemMode'' [0, 1] False,
     Gen cublas ty_cublasStatus_t ''cublasXtSetPinningMemMode'' [ty_cublasXtHandle_t, ty_cublasXtPinnedMemMode_t]
       ''cublasXtSetPinningMemMode'' ty_cublasStatus_t [ty_cublasXtHandle_t, ty_cublasXtPinnedMemMode_t] ''cublasXtSetPinningMemMode'' [0, 1] False,
     Gen cublas ty_cublasStatus_t ''cublasXtSetCpuRoutine'' [ty_cublasXtHandle_t, ty_cublasXtBlasOp_t, ty_cublasXtOpType_t, Ptr ty_void]
       ''cublasXtSetCpuRoutine'' ty_cublasStatus_t [ty_cublasXtHandle_t, ty_cublasXtBlasOp_t, ty_cublasXtOpType_t, Ptr ty_void] ''cublasXtSetCpuRoutine'' [0, 1, 2, 3] False,
     Gen cublas ty_cublasStatus_t ''cublasXtSetCpuRatio'' [ty_cublasXtHandle_t, ty_cublasXtBlasOp_t, ty_cublasXtOpType_t, ty_float]
       ''cublasXtSetCpuRatio'' ty_cublasStatus_t [ty_cublasXtHandle_t, ty_cublasXtBlasOp_t, ty_cublasXtOpType_t, ty_float] ''cublasXtSetCpuRatio'' [0, 1, 2, 3] False,
     Gen cublas ty_cublasStatus_t ''cublasXtSgemm'' [ty_cublasXtHandle_t, ty_cublasOperation_t, ty_cublasOperation_t, ty_size_t, ty_size_t, ty_size_t, Ptr (Const ty_float), Ptr (Const ty_float), ty_size_t, Ptr (Const ty_float), ty_size_t, Ptr (Const ty_float), Ptr ty_float, ty_size_t]
       ''cublasXtSgemm'' ty_cublasStatus_t [ty_cublasXtHandle_t, ty_cublasOperation_t, ty_cublasOperation_t, ty_size_t, ty_size_t, ty_size_t, Ptr (Const ty_float), Ptr (Const ty_float), ty_size_t, Ptr (Const ty_float), ty_size_t, Ptr (Const ty_float), Ptr ty_float, ty_size_t] ''cublasXtSgemm'' [0, 1, 2, 3, 4, 5, 6, 7, 8, 9, 10, 11, 12, 13] False,
     Gen cublas ty_cublasStatus_t ''cublasXtDgemm'' [ty_cublasXtHandle_t, ty_cublasOperation_t, ty_cublasOperation_t, ty_size_t, ty_size_t, ty_size_t, Ptr (Const ty_double), Ptr (Const ty_double), ty_size_t, Ptr (Const ty_double), ty_size_t, Ptr (Const ty_double), Ptr ty_double, ty_size_t]
       ''cublasXtDgemm'' ty_cublasStatus_t [ty_cublasXtHandle_t, ty_cublasOperation_t, ty_cublasOperation_t, ty_size_t, ty_size_t, ty_size_t, Ptr (Const ty_double), Ptr (Const ty_double), ty_size_t, Ptr (Const ty_double), ty_size_t, Ptr (Const ty_double), Ptr ty_double, ty_size_t] ''cublasXtDgemm'' [0, 1, 2, 3, 4, 5, 6, 7, 8, 9, 10, 11, 12, 13] False]"

definition cublas_hooks_33 :: "gen_hook list" where
  "cublas_hooks_33 =
    [Gen cublas ty_cublasStatus_t ''cublasXtCgemm'' [ty_cublasXtHandle_t, ty_cublasOperation_t, ty_cublasOperation_t, ty_size_t, ty_size_t, ty_size_t, Ptr (Const ty_cuComplex), Ptr (Const ty_cuComplex), ty_size_t, Ptr (Const ty_cuComplex), ty_size_t, Ptr (Const ty_cuComplex), Ptr ty_cuComplex, ty_size_t]
       ''cublasXtCgemm'' ty_cublasStatus_t [ty_cublasXtHandle_t, ty_cublasOperation_t, ty_cublasOperation_t, ty_size_t, ty_size_t, ty_size_t, Ptr (Const ty_cuComplex), Ptr (Const ty_cuComplex), ty_size_t, Ptr (Const ty_cuComplex), ty_size_t, Ptr (Const ty_cuComplex), Ptr ty_cuComplex, ty_size_t] ''cublasXtCgemm'' [0, 1, 2, 3, 4, 5, 6, 7, 8, 9, 10, 11, 12, 13] False,
     Gen cublas ty_cublasStatus_t ''cublasXtZgemm'' [ty_cublasXtHandle_t, ty_cublasOperation_t, ty_cublasOperation_t, ty_size_t, ty_size_t, ty_size_t, Ptr (Const ty_cuDoubleComplex), Ptr (Const ty_cuDoubleComplex), ty_size_t, Ptr (Const ty_cuDoubleComplex), ty_size_t, Ptr (Const ty_cuDoubleComplex), Ptr ty_cuDoubleComplex, ty_size_t]
       ''cublasXtZgemm'' ty_cublasStatus_t [ty_cublasXtHandle_t, ty_cublasOperation_t, ty_cublasOperation_t, ty_size_t, ty_size_t, ty_size_t, Ptr (Const ty_cuDoubleComplex), Ptr (Const ty_cuDoubleComplex), ty_size_t, Ptr (Const ty_cuDoubleComplex), ty_size_t, Ptr (Const ty_cuDoubleComplex), Ptr ty_cuDoubleComplex, ty_size_t] ''cublasXtZgemm'' [0, 1, 2, 3, 4, 5, 6, 7, 8, 9, 10, 11, 12, 13] False,
     Gen cublas ty_cublasStatus_t ''cublasXtSsyrk'' [ty_cublasXtHandle_t, ty_cublasFillMode_t, ty_cublasOperation_t, ty_size_t, ty_size_t, Ptr (Const ty_float), Ptr (Const ty_float), ty_size_t, Ptr (Const ty_float), Ptr ty_float, ty_size_t]
       ''cublasXtSsyrk'' ty_cublasStatus_t [ty_cublasXtHandle_t, ty_cublasFillMode_t, ty_cublasOperation_t, ty_size_t, ty_size_t, Ptr (Const ty_float), Ptr (Const ty_float), ty_size_t, Ptr (Const ty_float), Ptr ty_float, ty_size_t] ''cublasXtSsyrk'' [0, 1, 2, 3, 4, 5, 6, 7, 8, 9, 10] False,
     Gen cublas ty_cublasStatus_t ''cublasXtDsyrk'' [ty_cublasXtHandle_t, ty_cublasFillMode_t, ty_cublasOperation_t, ty_size_t, ty_size_t, Ptr (Const ty_double), Ptr (Const ty_double), ty_size_t, Ptr (Const ty_double), Ptr ty_double, ty_size_t]
       ''cublasXtDsyrk'' ty_cublasStatus_t [ty_cublasXtHandle_t, ty_cublasFillMode_t, ty_cublasOperation_t, ty_size_t, ty_size_t, Ptr (Const ty_double), Ptr (Const ty_double), ty_size_t, Ptr (Const ty_double), Ptr ty_double, ty_size_t] ''cublasXtDsyrk'' [0, 1, 2, 3, 4, 5, 6, 7, 8, 9, 10] False,
     Gen cublas ty_cublasStatus_t ''cublasXtCsyrk'' [ty_cublasXtHandle_t, ty_cublasFillMode_t, ty_cublasOperation_t, ty_size_t, ty_size_t, Ptr (Const ty_cuComplex), Ptr (Const ty_cuComplex), ty_size_t, Ptr (Const ty_cuComplex), Ptr ty_cuComplex, ty_size_t]
       ''cublasXtCsyrk'' ty_cublasStatus_t [ty_cublasXtHandle_t, ty_cublasFillMode_t, ty_cublasOperation_t, ty_size_t, ty_size_t, Ptr (Const ty_cuComplex), Ptr (Const ty_cuComplex), ty_size_t, Ptr (Const ty_cuComplex), Ptr ty_cuComplex, ty_size_t] ''cublasXtCsyrk'' [0, 1, 2, 3, 4, 5, 6, 7, 8, 9, 10] False,
     Gen cublas ty_cublasStatus_t ''cublasXtZsyrk'' [ty_cublasXtHandle_t, ty_cublasFillMode_t, ty_cublasOperation_t, ty_size_t, ty_size_t, Ptr (Const ty_cuDoubleComplex), Ptr (Const ty_cuDoubleComplex), ty_size_t, Ptr (Const ty_cuDoubleComplex), Ptr ty_cuDoubleComplex, ty_size_t]
       ''cublasXtZsyrk'' ty_cublasStatus_t [ty_cublasXtHandle_t, ty_cublasFillMode_t, ty_cublasOperation_t, ty_size_t, ty_size_t, Ptr (Const ty_cuDoubleComplex), Ptr (Const ty_cuDoubleComplex), ty_size_t, Ptr (Const ty_cuDoubleComplex), Ptr ty_cuDoubleComplex, ty_size_t] ''cublasXtZsyrk'' [0, 1, 2, 3, 4, 5, 6, 7, 8, 9, 10] False,
     Gen cublas ty_cublasStatus_t ''cublasXtCherk'' [ty_cublasXtHandle_t, ty_cublasFillMode_t, ty_cublasOperation_t, ty_size_t, ty_size_t, Ptr (Const ty_float), Ptr (Const ty_cuComplex), ty_size_t, Ptr (Const ty_float), Ptr ty_cuComplex, ty_size_t]
       ''cublasXtCherk'' ty_cublasStatus_t [ty_cublasXtHandle_t, ty_cublasFillMode_t, ty_cublasOperation_t, ty_size_t, ty_size_t, Ptr (Const ty_float), Ptr (Const ty_cuComplex), ty_size_t, Ptr (Const ty_float), Ptr ty_cuComplex, ty_size_t] ''cublasXtCherk'' [0, 1, 2, 3, 4, 5, 6, 7, 8, 9, 10] False,
     Gen cublas ty_cublasStatus_t ''cublasXtZherk'' [ty_cublasXtHandle_t, ty_cublasFillMode_t, ty_cublasOperation_t, ty_size_t, ty_size_t, Ptr (Const ty_double), Ptr (Const ty_cuDoubleComplex), ty_size_t, Ptr (Const ty_double), Ptr ty_cuDoubleComplex, ty_size_t]
       ''cublasXtZherk'' ty_cublasStatus_t [ty_cublasXtHandle_t, ty_cublasFillMode_t, ty_cublasOperation_t, ty_size_t, ty_size_t, Ptr (Const ty_double), Ptr (Const ty_cuDoubleComplex), ty_size_t, Ptr (Const ty_double), Ptr ty_cuDoubleComplex, ty_size_t] ''cublasXtZherk'' [0, 1, 2, 3, 4, 5, 6, 7, 8, 9, 10] False,
     Gen cublas ty_cublasStatus_t ''cublasXtSsyr2k'' [ty_cublasXtHandle_t, ty_cublasFillMode_t, ty_cublasOperation_t, ty_size_t, ty_size_t, Ptr (Const ty_float), Ptr (Const ty_float), ty_size_t, Ptr (Const ty_float), ty_size_t, Ptr (Const ty_float), Ptr ty_float, ty_size_t]
       ''cublasXtSsyr2k'' ty_cublasStatus_t [ty_cublasXtHandle_t, ty_cublasFillMode_t, ty_cublasOperation_t, ty_size_t, ty_size_t, Ptr (Const ty_float), Ptr (Const ty_float), ty_size_t, Ptr (Const ty_float), ty_size_t, Ptr (Const ty_float), Ptr ty_float, ty_size_t] ''cublasXtSsyr2k'' [0, 1, 2, 3, 4, 5, 6, 7, 8, 9, 10, 11, 12] False,
     Gen cublas ty_cublasStatus_t ''cublasXtDsyr2k'' [ty_cublasXtHandle_t, ty_cublasFillMode_t, ty_cublasOperation_t, ty_size_t, ty_size_t, Ptr (Const ty_double), Ptr (Const ty_double), ty_size_t, Ptr (Const ty_double), ty_size_t, Ptr (Const ty_double), Ptr ty_double, ty_size_t]
       ''cublasXtDsyr2k'' ty_cublasStatus_t [ty_cublasXtHandle_t, ty_cublasFillMode_t, ty_cublasOperation_t, ty_size_t, ty_size_t, Ptr (Const ty_double), Ptr (Const ty_double), ty_size_t, Ptr (Const ty_double), ty_size_t, Ptr (Const ty_double), Ptr ty_double, ty_size_t] ''cublasXtDsyr2k'' [0, 1, 2, 3, 4, 5, 6, 7, 8, 9, 10, 11, 12] False,
     Gen cublas ty_cublasStatus_t ''cublasXtCsyr2k'' [ty_cublasXtHandle_t, ty_cublasFillMode_t, ty_cublasOperation_t, ty_size_t, ty_size_t, Ptr (Const ty_cuComplex), Ptr (Const ty_cuComplex), ty_size_t, Ptr (Const ty_cuComplex), ty_size_t, Ptr (Const ty_cuComplex), Ptr ty_cuComplex, ty_size_t]
       ''cublasXtCsyr2k'' ty_cublasStatus_t [ty_cublasXtHandle_t, ty_cublasFillMode_t, ty_cublasOperation_t, ty_size_t, ty_size_t, Ptr (Const ty_cuComplex), Ptr (Const ty_cuComplex), ty_size_t, Ptr (Const ty_cuComplex), ty_size_t, Ptr (Const ty_cuComplex), Ptr ty_cuComplex, ty_size_t] ''cublasXtCsyr2k'' [0, 1, 2, 3, 4, 5, 6, 7, 8, 9, 10, 11, 12] False]"

definition cublas_hooks_34 :: "gen_hook list" where
  "cublas_hooks_34 =
    [Gen cublas ty_cublasStatus_t ''cublasXtZsyr2k'' [ty_cublasXtHandle_t, ty_cublasFillMode_t, ty_cublasOperation_t, ty_size_t, ty_size_t, Ptr (Const ty_cuDoubleComplex), Ptr (Const ty_cuDoubleComplex), ty_size_t, Ptr (Const ty_cuDoubleComplex), ty_size_t, Ptr (Const ty_cuDoubleComplex), Ptr ty_cuDoubleComplex, ty_size_t]
       ''cublasXtZsyr2k'' ty_cublasStatus_t [ty_cublasXtHandle_t, ty_cublasFillMode_t, ty_cublasOperation_t, ty_size_t, ty_size_t, Ptr (Const ty_cuDoubleComplex), Ptr (Const ty_cuDoubleComplex), ty_size_t, Ptr (Const ty_cuDoubleComplex), ty_size_t, Ptr (Const ty_cuDoubleComplex), Ptr ty_cuDoubleComplex, ty_size_t] ''cublasXtZsyr2k'' [0, 1, 2, 3, 4, 5, 6, 7, 8, 9, 10, 11, 12] False,
     Gen cublas ty_cublasStatus_t ''cublasXtCherkx'' [ty_cublasXtHandle_t, ty_cublasFillMode_t, ty_cublasOperation_t, ty_size_t, ty_size_t, Ptr (Const ty_cuComplex), Ptr (Const ty_cuComplex), ty_size_t, Ptr (Const ty_cuComplex), ty_size_t, Ptr (Const ty_float), Ptr ty_cuComplex, ty_size_t]
       ''cublasXtCherkx'' ty_cublasStatus_t [ty_cublasXtHandle_t, ty_cublasFillMode_t, ty_cublasOperation_t, ty_size_t, ty_size_t, Ptr (Const ty_cuComplex), Ptr (Const ty_cuComplex), ty_size_t, Ptr (Const ty_cuComplex), ty_size_t, Ptr (Const ty_float), Ptr ty_cuComplex, ty_size_t] ''cublasXtCherkx'' [0, 1, 2, 3, 4, 5, 6, 7, 8, 9, 10, 11, 12] False,
     Gen cublas ty_cublasStatus_t ''cublasXtZherkx'' [ty_cublasXtHandle_t, ty_cublasFillMode_t, ty_cublasOperation_t, ty_size_t, ty_size_t, Ptr (Const ty_cuDoubleComplex), Ptr (Const ty_cuDoubleComplex), ty_size_t, Ptr (Const ty_cuDoubleComplex), ty_size_t, Ptr (Const ty_double), Ptr ty_cuDoubleComplex, ty_size_t]
       ''cublasXtZherkx'' ty_cublasStatus_t [ty_cublasXtHandle_t, ty_cublasFillMode_t, ty_cublasOperation_t, ty_size_t, ty_size_t, Ptr (Const ty_cuDoubleComplex), Ptr (Const ty_cuDoubleComplex), ty_size_t, Ptr (Const ty_cuDoubleComplex), ty_size_t, Ptr (Const ty_double), Ptr ty_cuDoubleComplex, ty_size_t] ''cublasXtZherkx'' [0, 1, 2, 3, 4, 5, 6, 7, 8, 9, 10, 11, 12] False,
     Gen cublas ty_cublasStatus_t ''cublasXtStrsm'' [ty_cublasXtHandle_t, ty_cublasSideMode_t, ty_cublasFillMode_t, ty_cublasOperation_t, ty_cublasDiagType_t, ty_size_t, ty_size_t, Ptr (Const ty_float), Ptr (Const ty_float), ty_size_t, Ptr ty_float, ty_size_t]
       ''cublasXtStrsm'' ty_cublasStatus_t [ty_cublasXtHandle_t, ty_cublasSideMode_t, ty_cublasFillMode_t, ty_cublasOperation_t, ty_cublasDiagType_t, ty_size_t, ty_size_t, Ptr (Const ty_float), Ptr (Const ty_float), ty_size_t, Ptr ty_float, ty_size_t] ''cublasXtStrsm'' [0, 1, 2, 3, 4, 5, 6, 7, 8, 9, 10, 11] False,
     Gen cublas ty_cublasStatus_t ''cublasXtDtrsm'' [ty_cublasXtHandle_t, ty_cublasSideMode_t, ty_cublasFillMode_t, ty_cublasOperation_t, ty_cublasDiagType_t, ty_size_t, ty_size_t, Ptr (Const ty_double), Ptr (Const ty_double), ty_size_t, Ptr ty_double, ty_size_t]
       ''cublasXtDtrsm'' ty_cublasStatus_t [ty_cublasXtHandle_t, ty_cublasSideMode_t, ty_cublasFillMode_t, ty_cublasOperation_t, ty_cublasDiagType_t, ty_size_t, ty_size_t, Ptr (Const ty_double), Ptr (Const ty_double), ty_size_t, Ptr ty_double, ty_size_t] ''cublasXtDtrsm'' [0, 1, 2, 3, 4, 5, 6, 7, 8, 9, 10, 11] False,
     Gen cublas ty_cublasStatus_t ''cublasXtCtrsm'' [ty_cublasXtHandle_t, ty_cublasSideMode_t, ty_cublasFillMode_t, ty_cublasOperation_t, ty_cublasDiagType_t, ty_size_t, ty_size_t, Ptr (Const ty_cuComplex), Ptr (Const ty_cuComplex), ty_size_t, Ptr ty_cuComplex, ty_size_t]
       ''cublasXtCtrsm'' ty_cublasStatus_t [ty_cublasXtHandle_t, ty_cublasSideMode_t, ty_cublasFillMode_t, ty_cublasOperation_t, ty_cublasDiagType_t, ty_size_t, ty_size_t, Ptr (Const ty_cuComplex), Ptr (Const ty_cuComplex), ty_size_t, Ptr ty_cuComplex, ty_size_t] ''cublasXtCtrsm'' [0, 1, 2, 3, 4, 5, 6, 7, 8, 9, 10, 11] False,
     Gen cublas ty_cublasStatus_t ''cublasXtZtrsm'' [ty_cublasXtHandle_t, ty_cublasSideMode_t, ty_cublasFillMode_t, ty_cublasOperation_t, ty_cublasDiagType_t, ty_size_t, ty_size_t, Ptr (Const ty_cuDoubleComplex), Ptr (Const ty_cuDoubleComplex), ty_size_t, Ptr ty_cuDoubleComplex, ty_size_t]
       ''cublasXtZtrsm'' ty_cublasStatus_t [ty_cublasXtHandle_t, ty_cublasSideMode_t, ty_cublasFillMode_t, ty_cublasOperation_t, ty_cublasDiagType_t, ty_size_t, ty_size_t, Ptr (Const ty_cuDoubleComplex), Ptr (Const ty_cuDoubleComplex), ty_size_t, Ptr ty_cuDoubleComplex, ty_size_t] ''cublasXtZtrsm'' [0, 1, 2, 3, 4, 5, 6, 7, 8, 9, 10, 11] False,
     Gen cublas ty_cublasStatus_t ''cublasXtSsymm'' [ty_cublasXtHandle_t, ty_cublasSideMode_t, ty_cublasFillMode_t, ty_size_t, ty_size_t, Ptr (Const ty_float), Ptr (Const ty_float), ty_size_t, Ptr (Const ty_float), ty_size_t, Ptr (Const ty_float), Ptr ty_float, ty_size_t]
       ''cublasXtSsymm'' ty_cublasStatus_t [ty_cublasXtHandle_t, ty_cublasSideMode_t, ty_cublasFillMode_t, ty_size_t, ty_size_t, Ptr (Const ty_float), Ptr (Const ty_float), ty_size_t, Ptr (Const ty_float), ty_size_t, Ptr (Const ty_float), Ptr ty_float, ty_size_t] ''cublasXtSsymm'' [0, 1, 2, 3, 4, 5, 6, 7, 8, 9, 10, 11, 12] False,
     Gen cublas ty_cublasStatus_t ''cublasXtDsymm'' [ty_cublasXtHandle_t, ty_cublasSideMode_t, ty_cublasFillMode_t, ty_size_t, ty_size_t, Ptr (Const ty_double), Ptr (Const ty_double), ty_size_t, Ptr (Const ty_double), ty_size_t, Ptr (Const ty_double), Ptr ty_double, ty_size_t]
       ''cublasXtDsymm'' ty_cublasStatus_t [ty_cublasXtHandle_t, ty_cublasSideMode_t, ty_cublasFillMode_t, ty_size_t, ty_size_t, Ptr (Const ty_double), Ptr (Const ty_double), ty_size_t, Ptr (Const ty_double), ty_size_t, Ptr (Const ty_double), Ptr ty_double, ty_size_t] ''cublasXtDsymm'' [0, 1, 2, 3, 4, 5, 6, 7, 8, 9, 10, 11, 12] False,
     Gen cublas ty_cublasStatus_t ''cublasXtCsymm'' [ty_cublasXtHandle_t, ty_cublasSideMode_t, ty_cublasFillMode_t, ty_size_t, ty_size_t, Ptr (Const ty_cuComplex), Ptr (Const ty_cuComplex), ty_size_t, Ptr (Const ty_cuComplex), ty_size_t, Ptr (Const ty_cuComplex), Ptr ty_cuComplex, ty_size_t]
       ''cublasXtCsymm'' ty_cublasStatus_t [ty_cublasXtHandle_t, ty_cublasSideMode_t, ty_cublasFillMode_t, ty_size_t, ty_size_t, Ptr (Const ty_cuComplex), Ptr (Const ty_cuComplex), ty_size_t, Ptr (Const ty_cuComplex), ty_size_t, Ptr (Const ty_cuComplex), Ptr ty_cuComplex, ty_size_t] ''cublasXtCsymm'' [0, 1, 2, 3, 4, 5, 6, 7, 8, 9, 10, 11, 12] False]"

definition cublas_hooks_35 :: "gen_hook list" where
  "cublas_hooks_35 =
    [Gen cublas ty_cublasStatus_t ''cublasXtZsymm'' [ty_cublasXtHandle_t, ty_cublasSideMode_t, ty_cublasFillMode_t, ty_size_t, ty_size_t, Ptr (Const ty_cuDoubleComplex), Ptr (Const ty_cuDoubleComplex), ty_size_t, Ptr (Const ty_cuDoubleComplex), ty_size_t, Ptr (Const ty_cuDoubleComplex), Ptr ty_cuDoubleComplex, ty_size_t]
       ''cublasXtZsymm'' ty_cublasStatus_t [ty_cublasXtHandle_t, ty_cublasSideMode_t, ty_cublasFillMode_t, ty_size_t, ty_size_t, Ptr (Const ty_cuDoubleComplex), Ptr (Const ty_cuDoubleComplex), ty_size_t, Ptr (Const ty_cuDoubleComplex), ty_size_t, Ptr (Const ty_cuDoubleComplex), Ptr ty_cuDoubleComplex, ty_size_t] ''cublasXtZsymm'' [0, 1, 2, 3, 4, 5, 6, 7, 8, 9, 10, 11, 12] False,
     Gen cublas ty_cublasStatus_t ''cublasXtChemm'' [ty_cublasXtHandle_t, ty_cublasSideMode_t, ty_cublasFillMode_t, ty_size_t, ty_size_t, Ptr (Const ty_cuComplex), Ptr (Const ty_cuComplex), ty_size_t, Ptr (Const ty_cuComplex), ty_size_t, Ptr (Const ty_cuComplex), Ptr ty_cuComplex, ty_size_t]
       ''cublasXtChemm'' ty_cublasStatus_t [ty_cublasXtHandle_t, ty_cublasSideMode_t, ty_cublasFillMode_t, ty_size_t, ty_size_t, Ptr (Const ty_cuComplex), Ptr (Const ty_cuComplex), ty_size_t, Ptr (Const ty_cuComplex), ty_size_t, Ptr (Const ty_cuComplex), Ptr ty_cuComplex, ty_size_t] ''cublasXtChemm'' [0, 1, 2, 3, 4, 5, 6, 7, 8, 9, 10, 11, 12] False,
     Gen cublas ty_cublasStatus_t ''cublasXtZhemm'' [ty_cublasXtHandle_t, ty_cublasSideMode_t, ty_cublasFillMode_t, ty_size_t, ty_size_t, Ptr (Const ty_cuDoubleComplex), Ptr (Const ty_cuDoubleComplex), ty_size_t, Ptr (Const ty_cuDoubleComplex), ty_size_t, Ptr (Const ty_cuDoubleComplex), Ptr ty_cuDoubleComplex, ty_size_t]
       ''cublasXtZhemm'' ty_cublasStatus_t [ty_cublasXtHandle_t, ty_cublasSideMode_t, ty_cublasFillMode_t, ty_size_t, ty_size_t, Ptr (Const ty_cuDoubleComplex), Ptr (Const ty_cuDoubleComplex), ty_size_t, Ptr (Const ty_cuDoubleComplex), ty_size_t, Ptr (Const ty_cuDoubleComplex), Ptr ty_cuDoubleComplex, ty_size_t] ''cublasXtZhemm'' [0, 1, 2, 3, 4, 5, 6, 7, 8, 9, 10, 11, 12] False,
     Gen cublas ty_cublasStatus_t ''cublasXtSsyrkx'' [ty_cublasXtHandle_t, ty_cublasFillMode_t, ty_cublasOperation_t, ty_size_t, ty_size_t, Ptr (Const ty_float), Ptr (Const ty_float), ty_size_t, Ptr (Const ty_float), ty_size_t, Ptr (Const ty_float), Ptr ty_float, ty_size_t]
       ''cublasXtSsyrkx'' ty_cublasStatus_t [ty_cublasXtHandle_t, ty_cublasFillMode_t, ty_cublasOperation_t, ty_size_t, ty_size_t, Ptr (Const ty_float), Ptr (Const ty_float), ty_size_t, Ptr (Const ty_float), ty_size_t, Ptr (Const ty_float), Ptr ty_float, ty_size_t] ''cublasXtSsyrkx'' [0, 1, 2, 3, 4, 5, 6, 7, 8, 9, 10, 11, 12] False,
     Gen cublas ty_cublasStatus_t ''cublasXtDsyrkx'' [ty_cublasXtHandle_t, ty_cublasFillMode_t, ty_cublasOperation_t, ty_size_t, ty_size_t, Ptr (Const ty_double), Ptr (Const ty_double), ty_size_t, Ptr (Const ty_double), ty_size_t, Ptr (Const ty_double), Ptr ty_double, ty_size_t]
       ''cublasXtDsyrkx'' ty_cublasStatus_t [ty_cublasXtHandle_t, ty_cublasFillMode_t, ty_cublasOperation_t, ty_size_t, ty_size_t, Ptr (Const ty_double), Ptr (Const ty_double), ty_size_t, Ptr (Const ty_double), ty_size_t, Ptr (Const ty_double), Ptr ty_double, ty_size_t] ''cublasXtDsyrkx'' [0, 1, 2, 3, 4, 5, 6, 7, 8, 9, 10, 11, 12] False,
     Gen cublas ty_cublasStatus_t ''cublasXtCsyrkx'' [ty_cublasXtHandle_t, ty_cublasFillMode_t, ty_cublasOperation_t, ty_size_t, ty_size_t, Ptr (Const ty_cuComplex), Ptr (Const ty_cuComplex), ty_size_t, Ptr (Const ty_cuComplex), ty_size_t, Ptr (Const ty_cuComplex), Ptr ty_cuComplex, ty_size_t]
       ''cublasXtCsyrkx'' ty_cublasStatus_t [ty_cublasXtHandle_t, ty_cublasFillMode_t, ty_cublasOperation_t, ty_size_t, ty_size_t, Ptr (Const ty_cuComplex), Ptr (Const ty_cuComplex), ty_size_t, Ptr (Const ty_cuComplex), ty_size_t, Ptr (Const ty_cuComplex), Ptr ty_cuComplex, ty_size_t] ''cublasXtCsyrkx'' [0, 1, 2, 3, 4, 5, 6, 7, 8, 9, 10, 11, 12] False,
     Gen cublas ty_cublasStatus_t ''cublasXtZsyrkx'' [ty_cublasXtHandle_t, ty_cublasFillMode_t, ty_cublasOperation_t, ty_size_t, ty_size_t, Ptr (Const ty_cuDoubleComplex), Ptr (Const ty_cuDoubleComplex), ty_size_t, Ptr (Const ty_cuDoubleComplex), ty_size_t, Ptr (Const ty_cuDoubleComplex), Ptr ty_cuDoubleComplex, ty_size_t]
       ''cublasXtZsyrkx'' ty_cublasStatus_t [ty_cublasXtHandle_t, ty_cublasFillMode_t, ty_cublasOperation_t, ty_size_t, ty_size_t, Ptr (Const ty_cuDoubleComplex), Ptr (Const ty_cuDoubleComplex), ty_size_t, Ptr (Const ty_cuDoubleComplex), ty_size_t, Ptr (Const ty_cuDoubleComplex), Ptr ty_cuDoubleComplex, ty_size_t] ''cublasXtZsyrkx'' [0, 1, 2, 3, 4, 5, 6, 7, 8, 9, 10, 11, 12] False,
     Gen cublas ty_cublasStatus_t ''cublasXtCher2k'' [ty_cublasXtHandle_t, ty_cublasFillMode_t, ty_cublasOperation_t, ty_size_t, ty_size_t, Ptr (Const ty_cuComplex), Ptr (Const ty_cuComplex), ty_size_t, Ptr (Const ty_cuComplex), ty_size_t, Ptr (Const ty_float), Ptr ty_cuComplex, ty_size_t]
       ''cublasXtCher2k'' ty_cublasStatus_t [ty_cublasXtHandle_t, ty_cublasFillMode_t, ty_cublasOperation_t, ty_size_t, ty_size_t, Ptr (Const ty_cuComplex), Ptr (Const ty_cuComplex), ty_size_t, Ptr (Const ty_cuComplex), ty_size_t, Ptr (Const ty_float), Ptr ty_cuComplex, ty_size_t] ''cublasXtCher2k'' [0, 1, 2, 3, 4, 5, 6, 7, 8, 9, 10, 11, 12] False,
     Gen cublas ty_cublasStatus_t ''cublasXtZher2k'' [ty_cublasXtHandle_t, ty_cublasFillMode_t, ty_cublasOperation_t, ty_size_t, ty_size_t, Ptr (Const ty_cuDoubleComplex), Ptr (Const ty_cuDoubleComplex), ty_size_t, Ptr (Const ty_cuDoubleComplex), ty_size_t, Ptr (Const ty_double), Ptr ty_cuDoubleComplex, ty_size_t]
       ''cublasXtZher2k'' ty_cublasStatus_t [ty_cublasXtHandle_t, ty_cublasFillMode_t, ty_cublasOperation_t, ty_size_t, ty_size_t, Ptr (Const ty_cuDoubleComplex), Ptr (Const ty_cuDoubleComplex), ty_size_t, Ptr (Const ty_cuDoubleComplex), ty_size_t, Ptr (Const ty_double), Ptr ty_cuDoubleComplex, ty_size_t] ''cublasXtZher2k'' [0, 1, 2, 3, 4, 5, 6, 7, 8, 9, 10, 11, 12] False,
     Gen cublas ty_cublasStatus_t ''cublasXtSspmm'' [ty_cublasXtHandle_t, ty_cublasSideMode_t, ty_cublasFillMode_t, ty_size_t, ty_size_t, Ptr (Const ty_float), Ptr (Const ty_float), Ptr (Const ty_float), ty_size_t, Ptr (Const ty_float), Ptr ty_float, ty_size_t]
       ''cublasXtSspmm'' ty_cublasStatus_t [ty_cublasXtHandle_t, ty_cublasSideMode_t, ty_cublasFillMode_t, ty_size_t, ty_size_t, Ptr (Const ty_float), Ptr (Const ty_float), Ptr (Const ty_float), ty_size_t, Ptr (Const ty_float), Ptr ty_float, ty_size_t] ''cublasXtSspmm'' [0, 1, 2, 3, 4, 5, 6, 7, 8, 9, 10, 11] False]"

definition cublas_hooks_36 :: "gen_hook list" where
  "cublas_hooks_36 =
    [Gen cublas ty_cublasStatus_t ''cublasXtDspmm'' [ty_cublasXtHandle_t, ty_cublasSideMode_t, ty_cublasFillMode_t, ty_size_t, ty_size_t, Ptr (Const ty_double), Ptr (Const ty_double), Ptr (Const ty_double), ty_size_t, Ptr (Const ty_double), Ptr ty_double, ty_size_t]
       ''cublasXtDspmm'' ty_cublasStatus_t [ty_cublasXtHandle_t, ty_cublasSideMode_t, ty_cublasFillMode_t, ty_size_t, ty_size_t, Ptr (Const ty_double), Ptr (Const ty_double), Ptr (Const ty_double), ty_size_t, Ptr (Const ty_double), Ptr ty_double, ty_size_t] ''cublasXtDspmm'' [0, 1, 2, 3, 4, 5, 6, 7, 8, 9, 10, 11] False,
     Gen cublas ty_cublasStatus_t ''cublasXtCspmm'' [ty_cublasXtHandle_t, ty_cublasSideMode_t, ty_cublasFillMode_t, ty_size_t, ty_size_t, Ptr (Const ty_cuComplex), Ptr (Const ty_cuComplex), Ptr (Const ty_cuComplex), ty_size_t, Ptr (Const ty_cuComplex), Ptr ty_cuComplex, ty_size_t]
       ''cublasXtCspmm'' ty_cublasStatus_t [ty_cublasXtHandle_t, ty_cublasSideMode_t, ty_cublasFillMode_t, ty_size_t, ty_size_t, Ptr (Const ty_cuComplex), Ptr (Const ty_cuComplex), Ptr (Const ty_cuComplex), ty_size_t, Ptr (Const ty_cuComplex), Ptr ty_cuComplex, ty_size_t] ''cublasXtCspmm'' [0, 1, 2, 3, 4, 5, 6, 7, 8, 9, 10, 11] False,
     Gen cublas ty_cublasStatus_t ''cublasXtZspmm'' [ty_cublasXtHandle_t, ty_cublasSideMode_t, ty_cublasFillMode_t, ty_size_t, ty_size_t, Ptr (Const ty_cuDoubleComplex), Ptr (Const ty_cuDoubleComplex), Ptr (Const ty_cuDoubleComplex), ty_size_t, Ptr (Const ty_cuDoubleComplex), Ptr ty_cuDoubleComplex, ty_size_t]
       ''cublasXtZspmm'' ty_cublasStatus_t [ty_cublasXtHandle_t, ty_cublasSideMode_t, ty_cublasFillMode_t, ty_size_t, ty_size_t, Ptr (Const ty_cuDoubleComplex), Ptr (Const ty_cuDoubleComplex), Ptr (Const ty_cuDoubleComplex), ty_size_t, Ptr (Const ty_cuDoubleComplex), Ptr ty_cuDoubleComplex, ty_size_t] ''cublasXtZspmm'' [0, 1, 2, 3, 4, 5, 6, 7, 8, 9, 10, 11] False,
     Gen cublas ty_cublasStatus_t ''cublasXtStrmm'' [ty_cublasXtHandle_t, ty_cublasSideMode_t, ty_cublasFillMode_t, ty_cublasOperation_t, ty_cublasDiagType_t, ty_size_t, ty_size_t, Ptr (Const ty_float), Ptr (Const ty_float), ty_size_t, Ptr (Const ty_float), ty_size_t, Ptr ty_float, ty_size_t]
       ''cublasXtStrmm'' ty_cublasStatus_t [ty_cublasXtHandle_t, ty_cublasSideMode_t, ty_cublasFillMode_t, ty_cublasOperation_t, ty_cublasDiagType_t, ty_size_t, ty_size_t, Ptr (Const ty_float), Ptr (Const ty_float), ty_size_t, Ptr (Const ty_float), ty_size_t, Ptr ty_float, ty_size_t] ''cublasXtStrmm'' [0, 1, 2, 3, 4, 5, 6, 7, 8, 9, 10, 11, 12, 13] False,
     Gen cublas ty_cublasStatus_t ''cublasXtDtrmm'' [ty_cublasXtHandle_t, ty_cublasSideMode_t, ty_cublasFillMode_t, ty_cublasOperation_t, ty_cublasDiagType_t, ty_size_t, ty_size_t, Ptr (Const ty_double), Ptr (Const ty_double), ty_size_t, Ptr (Const ty_double), ty_size_t, Ptr ty_double, ty_size_t]
       ''cublasXtDtrmm'' ty_cublasStatus_t [ty_cublasXtHandle_t, ty_cublasSideMode_t, ty_cublasFillMode_t, ty_cublasOperation_t, ty_cublasDiagType_t, ty_size_t, ty_size_t, Ptr (Const ty_double), Ptr (Const ty_double), ty_size_t, Ptr (Const ty_double), ty_size_t, Ptr ty_double, ty_size_t] ''cublasXtDtrmm'' [0, 1, 2, 3, 4, 5, 6, 7, 8, 9, 10, 11, 12, 13] False,
     Gen cublas ty_cublasStatus_t ''cublasXtCtrmm'' [ty_cublasXtHandle_t, ty_cublasSideMode_t, ty_cublasFillMode_t, ty_cublasOperation_t, ty_cublasDiagType_t, ty_size_t, ty_size_t, Ptr (Const ty_cuComplex), Ptr (Const ty_cuComplex), ty_size_t, Ptr (Const ty_cuComplex), ty_size_t, Ptr ty_cuComplex, ty_size_t]
       ''cublasXtCtrmm'' ty_cublasStatus_t [ty_cublasXtHandle_t, ty_cublasSideMode_t, ty_cublasFillMode_t, ty_cublasOperation_t, ty_cublasDiagType_t, ty_size_t, ty_size_t, Ptr (Const ty_cuComplex), Ptr (Const ty_cuComplex), ty_size_t, Ptr (Const ty_cuComplex), ty_size_t, Ptr ty_cuComplex, ty_size_t] ''cublasXtCtrmm'' [0, 1, 2, 3, 4, 5, 6, 7, 8, 9, 10, 11, 12, 13] False,
     Gen cublas ty_cublasStatus_t ''cublasXtZtrmm'' [ty_cublasXtHandle_t, ty_cublasSideMode_t, ty_cublasFillMode_t, ty_cublasOperation_t, ty_cublasDiagType_t, ty_size_t, ty_size_t, Ptr (Const ty_cuDoubleComplex), Ptr (Const ty_cuDoubleComplex), ty_size_t, Ptr (Const ty_cuDoubleComplex), ty_size_t, Ptr ty_cuDoubleComplex, ty_size_t]
       ''cublasXtZtrmm'' ty_cublasStatus_t [ty_cublasXtHandle_t, ty_cublasSideMode_t, ty_cublasFillMode_t, ty_cublasOperation_t, ty_cublasDiagType_t, ty_size_t, ty_size_t, Ptr (Const ty_cuDoubleComplex), Ptr (Const ty_cuDoubleComplex), ty_size_t, Ptr (Const ty_cuDoubleComplex), ty_size_t, Ptr ty_cuDoubleComplex, ty_size_t] ''cublasXtZtrmm'' [0, 1, 2, 3, 4, 5, 6, 7, 8, 9, 10, 11, 12, 13] False]"

section \<open>\<open>cublasLt\<close>\<close>

definition cublasLt_hooks_1 :: "gen_hook list" where
  "cublasLt_hooks_1 =
    [Gen cublasLt ty_cublasStatus_t ''cublasLtCreate'' [Ptr ty_cublasLtHandle_t]
       ''cublasLtCreate'' ty_cublasStatus_t [Ptr ty_cublasLtHandle_t] ''cublasLtCreate'' [0] False,
     Gen cublasLt ty_cublasStatus_t ''cublasLtDestroy'' [ty_cublasLtHandle_t]
       ''cublasLtDestroy'' ty_cublasStatus_t [ty_cublasLtHandle_t] ''cublasLtDestroy'' [0] False,
     Gen cublasLt (Ptr (Const ty_char)) ''cublasLtGetStatusName'' [ty_cublasStatus_t]
       ''cublasLtGetStatusName'' (Ptr (Const ty_char)) [ty_cublasStatus_t] ''cublasLtGetStatusName'' [0] False,
     Gen cublasLt (Ptr (Const ty_char)) ''cublasLtGetStatusString'' [ty_cublasStatus_t]
       ''cublasLtGetStatusString'' (Ptr (Const ty_char)) [ty_cublasStatus_t] ''cublasLtGetStatusString'' [0] False,
     Gen cublasLt ty_size_t ''cublasLtGetVersion'' []
       ''cublasLtGetVersion'' ty_size_t [] ''cublasLtGetVersion'' [] False,
     Gen cublasLt ty_size_t ''cublasLtGetCudartVersion'' []
       ''cublasLtGetCudartVersion'' ty_size_t [] ''cublasLtGetCudartVersion'' [] False,
     Gen cublasLt ty_cublasStatus_t ''cublasLtGetProperty'' [ty_libraryPropertyType, Ptr ty_int]
       ''cublasLtGetProperty'' ty_cublasStatus_t [ty_libraryPropertyType, Ptr ty_int] ''cublasLtGetProperty'' [0, 1] False,
     Gen cublasLt ty_cublasStatus_t ''cublasLtMatmul'' [ty_cublasLtHandle_t, ty_cublasLtMatmulDesc_t, Ptr (Const ty_void), Ptr (Const ty_void), ty_cublasLtMatrixLayout_t, Ptr (Const ty_void), ty_cublasLtMatrixLayout_t, Ptr (Const ty_void), Ptr (Const ty_void), ty_cublasLtMatrixLayout_t, Ptr ty_void, ty_cublasLtMatrixLayout_t, Ptr (Const ty_cublasLtMatmulAlgo_t), Ptr ty_void, ty_size_t, ty_cudaStream_t]
       ''cublasLtMatmul'' ty_cublasStatus_t [ty_cublasLtHandle_t, ty_cublasLtMatmulDesc_t, Ptr (Const ty_void), Ptr (Const ty_void), ty_cublasLtMatrixLayout_t, Ptr (Const ty_void), ty_cublasLtMatrixLayout_t, Ptr (Const ty_void), Ptr (Const ty_void), ty_cublasLtMatrixLayout_t, Ptr ty_void, ty_cublasLtMatrixLayout_t, Ptr (Const ty_cublasLtMatmulAlgo_t), Ptr ty_void, ty_size_t, ty_cudaStream_t] ''cublasLtMatmul'' [0, 1, 2, 3, 4, 5, 6, 7, 8, 9, 10, 11, 12, 13, 14, 15] False,
     Gen cublasLt ty_cublasStatus_t ''cublasLtMatrixTransform'' [ty_cublasLtHandle_t, ty_cublasLtMatrixTransformDesc_t, Ptr (Const ty_void), Ptr (Const ty_void), ty_cublasLtMatrixLayout_t, Ptr (Const ty_void), Ptr (Const ty_void), ty_cublasLtMatrixLayout_t, Ptr ty_void, ty_cublasLtMatrixLayout_t, ty_cudaStream_t]
       ''cublasLtMatrixTransform'' ty_cublasStatus_t [ty_cublasLtHandle_t, ty_cublasLtMatrixTransformDesc_t, Ptr (Const ty_void), Ptr (Const ty_void), ty_cublasLtMatrixLayout_t, Ptr (Const ty_void), Ptr (Const ty_void), ty_cublasLtMatrixLayout_t, Ptr ty_void, ty_cublasLtMatrixLayout_t, ty_cudaStream_t] ''cublasLtMatrixTransform'' [0, 1, 2, 3, 4, 5, 6, 7, 8, 9, 10] False,
     Gen cublasLt ty_cublasStatus_t ''cublasLtMatrixLayoutInit_internal'' [ty_cublasLtMatrixLayout_t, ty_size_t, ty_cudaDataType, ty_uint64_t, ty_uint64_t, ty_int64_t]
       ''cublasLtMatrixLayoutInit_internal'' ty_cublasStatus_t [ty_cublasLtMatrixLayout_t, ty_size_t, ty_cudaDataType, ty_uint64_t, ty_uint64_t, ty_int64_t] ''cublasLtMatrixLayoutInit_internal'' [0, 1, 2, 3, 4, 5] False,
     Gen cublasLt ty_cublasStatus_t ''cublasLtMatrixLayoutInit'' [ty_cublasLtMatrixLayout_t, ty_cudaDataType, ty_uint64_t, ty_uint64_t, ty_int64_t]
       ''cublasLtMatrixLayoutInit'' ty_cublasStatus_t [ty_cublasLtMatrixLayout_t, ty_cudaDataType, ty_uint64_t, ty_uint64_t, ty_int64_t] ''cublasLtMatrixLayoutInit'' [0, 1, 2, 3, 4] False,
     Gen cublasLt ty_cublasStatus_t ''cublasLtMatrixLayoutCreate'' [Ptr ty_cublasLtMatrixLayout_t, ty_cudaDataType, ty_uint64_t, ty_uint64_t, ty_int64_t]
       ''cublasLtMatrixLayoutCreate'' ty_cublasStatus_t [Ptr ty_cublasLtMatrixLayout_t, ty_cudaDataType, ty_uint64_t, ty_uint64_t, ty_int64_t] ''cublasLtMatrixLayoutCreate'' [0, 1, 2, 3, 4] False,
     Gen cublasLt ty_cublasStatus_t ''cublasLtMatrixLayoutDestroy'' [ty_cublasLtMatrixLayout_t]
       ''cublasLtMatrixLayoutDestroy'' ty_cublasStatus_t [ty_cublasLtMatrixLayout_t] ''cublasLtMatrixLayoutDestroy'' [0] False,
     Gen cublasLt ty_cublasStatus_t ''cublasLtMatrixLayoutSetAttribute'' [ty_cublasLtMatrixLayout_t, ty_cublasLtMatrixLayoutAttribute_t, Ptr (Const ty_void), ty_size_t]
       ''cublasLtMatrixLayoutSetAttribute'' ty_cublasStatus_t [ty_cublasLtMatrixLayout_t, ty_cublasLtMatrixLayoutAttribute_t, Ptr (Const ty_void), ty_size_t] ''cublasLtMatrixLayoutSetAttribute'' [0, 1, 2, 3] False,
     Gen cublasLt ty_cublasStatus_t ''cublasLtMatrixLayoutGetAttribute'' [ty_cublasLtMatrixLayout_t, ty_cublasLtMatrixLayoutAttribute_t, Ptr ty_void, ty_size_t, Ptr ty_size_t]
       ''cublasLtMatrixLayoutGetAttribute'' ty_cublasStatus_t [ty_cublasLtMatrixLayout_t, ty_cublasLtMatrixLayoutAttribute_t, Ptr ty_void, ty_size_t, Ptr ty_size_t] ''cublasLtMatrixLayoutGetAttribute'' [0, 1, 2, 3, 4] False]"

definition cublasLt_hooks_2 :: "gen_hook list" where
  "cublasLt_hooks_2 =
    [Gen cublasLt ty_cublasStatus_t ''cublasLtMatmulDescInit_internal'' [ty_cublasLtMatmulDesc_t, ty_size_t, ty_cublasComputeType_t, ty_cudaDataType_t]
       ''cublasLtMatmulDescInit_internal'' ty_cublasStatus_t [ty_cublasLtMatmulDesc_t, ty_size_t, ty_cublasComputeType_t, ty_cudaDataType_t] ''cublasLtMatmulDescInit_internal'' [0, 1, 2, 3] False,
     Gen cublasLt ty_cublasStatus_t ''cublasLtMatmulDescInit'' [ty_cublasLtMatmulDesc_t, ty_cublasComputeType_t, ty_cudaDataType_t]
       ''cublasLtMatmulDescInit'' ty_cublasStatus_t [ty_cublasLtMatmulDesc_t, ty_cublasComputeType_t, ty_cudaDataType_t] ''cublasLtMatmulDescInit'' [0, 1, 2] False,
     Gen cublasLt ty_cublasStatus_t ''cublasLtMatmulDescCreate'' [Ptr ty_cublasLtMatmulDesc_t, ty_cublasComputeType_t, ty_cudaDataType_t]
       ''cublasLtMatmulDescCreate'' ty_cublasStatus_t [Ptr ty_cublasLtMatmulDesc_t, ty_cublasComputeType_t, ty_cudaDataType_t] ''cublasLtMatmulDescCreate'' [0, 1, 2] False,
     Gen cublasLt ty_cublasStatus_t ''cublasLtMatmulDescDestroy'' [ty_cublasLtMatmulDesc_t]
       ''cublasLtMatmulDescDestroy'' ty_cublasStatus_t [ty_cublasLtMatmulDesc_t] ''cublasLtMatmulDescDestroy'' [0] False,
     Gen cublasLt ty_cublasStatus_t ''cublasLtMatmulDescSetAttribute'' [ty_cublasLtMatmulDesc_t, ty_cublasLtMatmulDescAttributes_t, Ptr (Const ty_void), ty_size_t]
       ''cublasLtMatmulDescSetAttribute'' ty_cublasStatus_t [ty_cublasLtMatmulDesc_t, ty_cublasLtMatmulDescAttributes_t, Ptr (Const ty_void), ty_size_t] ''cublasLtMatmulDescSetAttribute'' [0, 1, 2, 3] False,
     Gen cublasLt ty_cublasStatus_t ''cublasLtMatmulDescGetAttribute'' [ty_cublasLtMatmulDesc_t, ty_cublasLtMatmulDescAttributes_t, Ptr ty_void, ty_size_t, Ptr ty_size_t]
       ''cublasLtMatmulDescGetAttribute'' ty_cublasStatus_t [ty_cublasLtMatmulDesc_t, ty_cublasLtMatmulDescAttributes_t, Ptr ty_void, ty_size_t, Ptr ty_size_t] ''cublasLtMatmulDescGetAttribute'' [0, 1, 2, 3, 4] False,
     Gen cublasLt ty_cublasStatus_t ''cublasLtMatrixTransformDescInit_internal'' [ty_cublasLtMatrixTransformDesc_t, ty_size_t, ty_cudaDataType]
       ''cublasLtMatrixTransformDescInit_internal'' ty_cublasStatus_t [ty_cublasLtMatrixTransformDesc_t, ty_size_t, ty_cudaDataType] ''cublasLtMatrixTransformDescInit_internal'' [0, 1, 2] False,
     Gen cublasLt ty_cublasStatus_t ''cublasLtMatrixTransformDescInit'' [ty_cublasLtMatrixTransformDesc_t, ty_cudaDataType]
       ''cublasLtMatrixTransformDescInit'' ty_cublasStatus_t [ty_cublasLtMatrixTransformDesc_t, ty_cudaDataType] ''cublasLtMatrixTransformDescInit'' [0, 1] False,
     Gen cublasLt ty_cublasStatus_t ''cublasLtMatrixTransformDescCreate'' [Ptr ty_cublasLtMatrixTransformDesc_t, ty_cudaDataType]
       ''cublasLtMatrixTransformDescCreate'' ty_cublasStatus_t [Ptr ty_cublasLtMatrixTransformDesc_t, ty_cudaDataType] ''cublasLtMatrixTransformDescCreate'' [0, 1] False,
     Gen cublasLt ty_cublasStatus_t ''cublasLtMatrixTransformDescDestroy'' [ty_cublasLtMatrixTransformDesc_t]
       ''cublasLtMatrixTransformDescDestroy'' ty_cublasStatus_t [ty_cublasLtMatrixTransformDesc_t] ''cublasLtMatrixTransformDescDestroy'' [0] False,
     Gen cublasLt ty_cublasStatus_t ''cublasLtMatrixTransformDescSetAttribute'' [ty_cublasLtMatrixTransformDesc_t, ty_cublasLtMatrixTransformDescAttributes_t, Ptr (Const ty_void), ty_size_t]
       ''cublasLtMatrixTransformDescSetAttribute'' ty_cublasStatus_t [ty_cublasLtMatrixTransformDesc_t, ty_cublasLtMatrixTransformDescAttributes_t, Ptr (Const ty_void), ty_size_t] ''cublasLtMatrixTransformDescSetAttribute'' [0, 1, 2, 3] False,
     Gen cublasLt ty_cublasStatus_t ''cublasLtMatrixTransformDescGetAttribute'' [ty_cublasLtMatrixTransformDesc_t, ty_cublasLtMatrixTransformDescAttributes_t, Ptr ty_void, ty_size_t, Ptr ty_size_t]
       ''cublasLtMatrixTransformDescGetAttribute'' ty_cublasStatus_t [ty_cublasLtMatrixTransformDesc_t, ty_cublasLtMatrixTransformDescAttributes_t, Ptr ty_void, ty_size_t, Ptr ty_size_t] ''cublasLtMatrixTransformDescGetAttribute'' [0, 1, 2, 3, 4] False,
     Gen cublasLt ty_cublasStatus_t ''cublasLtMatmulPreferenceInit_internal'' [ty_cublasLtMatmulPreference_t, ty_size_t]
       ''cublasLtMatmulPreferenceInit_internal'' ty_cublasStatus_t [ty_cublasLtMatmulPreference_t, ty_size_t] ''cublasLtMatmulPreferenceInit_internal'' [0, 1] False,
     Gen cublasLt ty_cublasStatus_t ''cublasLtMatmulPreferenceInit'' [ty_cublasLtMatmulPreference_t]
       ''cublasLtMatmulPreferenceInit'' ty_cublasStatus_t [ty_cublasLtMatmulPreference_t] ''cublasLtMatmulPreferenceInit'' [0] False,
     Gen cublasLt ty_cublasStatus_t ''cublasLtMatmulPreferenceCreate'' [Ptr ty_cublasLtMatmulPreference_t]
       ''cublasLtMatmulPreferenceCreate'' ty_cublasStatus_t [Ptr ty_cublasLtMatmulPreference_t] ''cublasLtMatmulPreferenceCreate'' [0] False]"

definition cublasLt_hooks_3 :: "gen_hook list" where
  "cublasLt_hooks_3 =
    [Gen cublasLt ty_cublasStatus_t ''cublasLtMatmulPreferenceDestroy'' [ty_cublasLtMatmulPreference_t]
       ''cublasLtMatmulPreferenceDestroy'' ty_cublasStatus_t [ty_cublasLtMatmulPreference_t] ''cublasLtMatmulPreferenceDestroy'' [0] False,
     Gen cublasLt ty_cublasStatus_t ''cublasLtMatmulPreferenceSetAttribute'' [ty_cublasLtMatmulPreference_t, ty_cublasLtMatmulPreferenceAttributes_t, Ptr (Const ty_void), ty_size_t]
       ''cublasLtMatmulPreferenceSetAttribute'' ty_cublasStatus_t [ty_cublasLtMatmulPreference_t, ty_cublasLtMatmulPreferenceAttributes_t, Ptr (Const ty_void), ty_size_t] ''cublasLtMatmulPreferenceSetAttribute'' [0, 1, 2, 3] False,
     Gen cublasLt ty_cublasStatus_t ''cublasLtMatmulPreferenceGetAttribute'' [ty_cublasLtMatmulPreference_t, ty_cublasLtMatmulPreferenceAttributes_t, Ptr ty_void, ty_size_t, Ptr ty_size_t]
       ''cublasLtMatmulPreferenceGetAttribute'' ty_cublasStatus_t [ty_cublasLtMatmulPreference_t, ty_cublasLtMatmulPreferenceAttributes_t, Ptr ty_void, ty_size_t, Ptr ty_size_t] ''cublasLtMatmulPreferenceGetAttribute'' [0, 1, 2, 3, 4] False,
     Gen cublasLt ty_cublasStatus_t ''cublasLtMatmulAlgoGetHeuristic'' [ty_cublasLtHandle_t, ty_cublasLtMatmulDesc_t, ty_cublasLtMatrixLayout_t, ty_cublasLtMatrixLayout_t, ty_cublasLtMatrixLayout_t, ty_cublasLtMatrixLayout_t, ty_cublasLtMatmulPreference_t, ty_int, ty_cublasLtMatmulHeuristicResult_t, Ptr ty_int]
       ''cublasLtMatmulAlgoGetHeuristic'' ty_cublasStatus_t [ty_cublasLtHandle_t, ty_cublasLtMatmulDesc_t, ty_cublasLtMatrixLayout_t, ty_cublasLtMatrixLayout_t, ty_cublasLtMatrixLayout_t, ty_cublasLtMatrixLayout_t, ty_cublasLtMatmulPreference_t, ty_int, ty_cublasLtMatmulHeuristicResult_t, Ptr ty_int] ''cublasLtMatmulAlgoGetHeuristic'' [0, 1, 2, 3, 4, 5, 6, 7, 8, 9] False,
     Gen cublasLt ty_cublasStatus_t ''cublasLtMatmulAlgoGetIds'' [ty_cublasLtHandle_t, ty_cublasComputeType_t, ty_cudaDataType_t, ty_cudaDataType_t, ty_cudaDataType_t, ty_cudaDataType_t, ty_cudaDataType_t, ty_int, ty_int, Ptr ty_int]
       ''cublasLtMatmulAlgoGetIds'' ty_cublasStatus_t [ty_cublasLtHandle_t, ty_cublasComputeType_t, ty_cudaDataType_t, ty_cudaDataType_t, ty_cudaDataType_t, ty_cudaDataType_t, ty_cudaDataType_t, ty_int, ty_int, Ptr ty_int] ''cublasLtMatmulAlgoGetIds'' [0, 1, 2, 3, 4, 5, 6, 7, 8, 9] False,
     Gen cublasLt ty_cublasStatus_t ''cublasLtMatmulAlgoInit'' [ty_cublasLtHandle_t, ty_cublasComputeType_t, ty_cudaDataType_t, ty_cudaDataType_t, ty_cudaDataType_t, ty_cudaDataType_t, ty_cudaDataType_t, ty_int, Ptr ty_cublasLtMatmulAlgo_t]
       ''cublasLtMatmulAlgoInit'' ty_cublasStatus_t [ty_cublasLtHandle_t, ty_cublasComputeType_t, ty_cudaDataType_t, ty_cudaDataType_t, ty_cudaDataType_t, ty_cudaDataType_t, ty_cudaDataType_t, ty_int, Ptr ty_cublasLtMatmulAlgo_t] ''cublasLtMatmulAlgoInit'' [0, 1, 2, 3, 4, 5, 6, 7, 8] False,
     Gen cublasLt ty_cublasStatus_t ''cublasLtMatmulAlgoCheck'' [ty_cublasLtHandle_t, ty_cublasLtMatmulDesc_t, ty_cublasLtMatrixLayout_t, ty_cublasLtMatrixLayout_t, ty_cublasLtMatrixLayout_t, ty_cublasLtMatrixLayout_t, Ptr (Const ty_cublasLtMatmulAlgo_t), Ptr ty_cublasLtMatmulHeuristicResult_t]
       ''cublasLtMatmulAlgoCheck'' ty_cublasStatus_t [ty_cublasLtHandle_t, ty_cublasLtMatmulDesc_t, ty_cublasLtMatrixLayout_t, ty_cublasLtMatrixLayout_t, ty_cublasLtMatrixLayout_t, ty_cublasLtMatrixLayout_t, Ptr (Const ty_cublasLtMatmulAlgo_t), Ptr ty_cublasLtMatmulHeuristicResult_t] ''cublasLtMatmulAlgoCheck'' [0, 1, 2, 3, 4, 5, 6, 7] False,
     Gen cublasLt ty_cublasStatus_t ''cublasLtMatmulAlgoCapGetAttribute'' [Ptr (Const ty_cublasLtMatmulAlgo_t), ty_cublasLtMatmulAlgoCapAttributes_t, Ptr ty_void, ty_size_t, Ptr ty_size_t]
       ''cublasLtMatmulAlgoCapGetAttribute'' ty_cublasStatus_t [Ptr (Const ty_cublasLtMatmulAlgo_t), ty_cublasLtMatmulAlgoCapAttributes_t, Ptr ty_void, ty_size_t, Ptr ty_size_t] ''cublasLtMatmulAlgoCapGetAttribute'' [0, 1, 2, 3, 4] False,
     Gen cublasLt ty_cublasStatus_t ''cublasLtMatmulAlgoConfigSetAttribute'' [Ptr ty_cublasLtMatmulAlgo_t, ty_cublasLtMatmulAlgoConfigAttributes_t, Ptr (Const ty_void), ty_size_t]
       ''cublasLtMatmulAlgoConfigSetAttribute'' ty_cublasStatus_t [Ptr ty_cublasLtMatmulAlgo_t, ty_cublasLtMatmulAlgoConfigAttributes_t, Ptr (Const ty_void), ty_size_t] ''cublasLtMatmulAlgoConfigSetAttribute'' [0, 1, 2, 3] False,
     Gen cublasLt ty_cublasStatus_t ''cublasLtMatmulAlgoConfigGetAttribute'' [Ptr (Const ty_cublasLtMatmulAlgo_t), ty_cublasLtMatmulAlgoConfigAttributes_t, Ptr ty_void, ty_size_t, Ptr ty_size_t]
       ''cublasLtMatmulAlgoConfigGetAttribute'' ty_cublasStatus_t [Ptr (Const ty_cublasLtMatmulAlgo_t), ty_cublasLtMatmulAlgoConfigAttributes_t, Ptr ty_void, ty_size_t, Ptr ty_size_t] ''cublasLtMatmulAlgoConfigGetAttribute'' [0, 1, 2, 3, 4] False,
     Gen cublasLt ty_cublasStatus_t ''cublasLtLoggerSetCallback'' [ty_cublasLtLoggerCallback_t]
       ''cublasLtLoggerSetCallback'' ty_cublasStatus_t [ty_cublasLtLoggerCallback_t] ''cublasLtLoggerSetCallback'' [0] False,
     Gen cublasLt ty_cublasStatus_t ''cublasLtLoggerSetFile'' [Ptr ty_FILE]
       ''cublasLtLoggerSetFile'' ty_cublasStatus_t [Ptr ty_FILE] ''cublasLtLoggerSetFile'' [0] False,
     Gen cublasLt ty_cublasStatus_t ''cublasLtLoggerOpenFile'' [Ptr (Const ty_char)]
       ''cublasLtLoggerOpenFile'' ty_cublasStatus_t [Ptr (Const ty_char)] ''cublasLtLoggerOpenFile'' [0] False,
     Gen cublasLt ty_cublasStatus_t ''cublasLtLoggerSetLevel'' [ty_int]
       ''cublasLtLoggerSetLevel'' ty_cublasStatus_t [ty_int] ''cublasLtLoggerSetLevel'' [0] False]"

definition cublasLt_hooks_4 :: "gen_hook list" where
  "cublasLt_hooks_4 =
    [Gen cublasLt ty_cublasStatus_t ''cublasLtLoggerSetMask'' [ty_int]
       ''cublasLtLoggerSetMask'' ty_cublasStatus_t [ty_int] ''cublasLtLoggerSetMask'' [0] False,
     Gen cublasLt ty_cublasStatus_t ''cublasLtLoggerForceDisable'' []
       ''cublasLtLoggerForceDisable'' ty_cublasStatus_t [] ''cublasLtLoggerForceDisable'' [] False]"

section \<open>All are instances of the template\<close>

lemma cublas_hooks_1_ok: "list_all instance_of_template cublas_hooks_1"
  by (simp add: cublas_hooks_1_def instance_of_template_def)

lemma cublas_hooks_2_ok: "list_all instance_of_template cublas_hooks_2"
  by (simp add: cublas_hooks_2_def instance_of_template_def)

lemma cublas_hooks_3_ok: "list_all instance_of_template cublas_hooks_3"
  by (simp add: cublas_hooks_3_def instance_of_template_def)

lemma cublas_hooks_4_ok: "list_all instance_of_template cublas_hooks_4"
  by (simp add: cublas_hooks_4_def instance_of_template_def)

lemma cublas_hooks_5_ok: "list_all instance_of_template cublas_hooks_5"
  by (simp add: cublas_hooks_5_def instance_of_template_def)

lemma cublas_hooks_6_ok: "list_all instance_of_template cublas_hooks_6"
  by (simp add: cublas_hooks_6_def instance_of_template_def)

lemma cublas_hooks_7_ok: "list_all instance_of_template cublas_hooks_7"
  by (simp add: cublas_hooks_7_def instance_of_template_def)

lemma cublas_hooks_8_ok: "list_all instance_of_template cublas_hooks_8"
  by (simp add: cublas_hooks_8_def instance_of_template_def)

lemma cublas_hooks_9_ok: "list_all instance_of_template cublas_hooks_9"
  by (simp add: cublas_hooks_9_def instance_of_template_def)

lemma cublas_hooks_10_ok: "list_all instance_of_template cublas_hooks_10"
  by (simp add: cublas_hooks_10_def instance_of_template_def)

lemma cublas_hooks_11_ok: "list_all instance_of_template cublas_hooks_11"
  by (simp add: cublas_hooks_11_def instance_of_template_def)

lemma cublas_hooks_12_ok: "list_all instance_of_template cublas_hooks_12"
  by (simp add: cublas_hooks_12_def instance_of_template_def)

lemma cublas_hooks_13_ok: "list_all instance_of_template cublas_hooks_13"
  by (simp add: cublas_hooks_13_def instance_of_template_def)

lemma cublas_hooks_14_ok: "list_all instance_of_template cublas_hooks_14"
  by (simp add: cublas_hooks_14_def instance_of_template_def)

lemma cublas_hooks_15_ok: "list_all instance_of_template cublas_hooks_15"
  by (simp add: cublas_hooks_15_def instance_of_template_def)

lemma cublas_hooks_16_ok: "list_all instance_of_template cublas_hooks_16"
  by (simp add: cublas_hooks_16_def instance_of_template_def)

lemma cublas_hooks_17_ok: "list_all instance_of_template cublas_hooks_17"
  by (simp add: cublas_hooks_17_def instance_of_template_def)

lemma cublas_hooks_18_ok: "list_all instance_of_template cublas_hooks_18"
  by (simp add: cublas_hooks_18_def instance_of_template_def)

lemma cublas_hooks_19_ok: "list_all instance_of_template cublas_hooks_19"
  by (simp add: cublas_hooks_19_def instance_of_template_def)

lemma cublas_hooks_20_ok: "list_all instance_of_template cublas_hooks_20"
  by (simp add: cublas_hooks_20_def instance_of_template_def)

lemma cublas_hooks_21_ok: "list_all instance_of_template cublas_hooks_21"
  by (simp add: cublas_hooks_21_def instance_of_template_def)

lemma cublas_hooks_22_ok: "list_all instance_of_template cublas_hooks_22"
  by (simp add: cublas_hooks_22_def instance_of_template_def)

lemma cublas_hooks_23_ok: "list_all instance_of_template cublas_hooks_23"
  by (simp add: cublas_hooks_23_def instance_of_template_def)

lemma cublas_hooks_24_ok: "list_all instance_of_template cublas_hooks_24"
  by (simp add: cublas_hooks_24_def instance_of_template_def)

lemma cublas_hooks_25_ok: "list_all instance_of_template cublas_hooks_25"
  by (simp add: cublas_hooks_25_def instance_of_template_def)

lemma cublas_hooks_26_ok: "list_all instance_of_template cublas_hooks_26"
  by (simp add: cublas_hooks_26_def instance_of_template_def)

lemma cublas_hooks_27_ok: "list_all instance_of_template cublas_hooks_27"
  by (simp add: cublas_hooks_27_def instance_of_template_def)

lemma cublas_hooks_28_ok: "list_all instance_of_template cublas_hooks_28"
  by (simp add: cublas_hooks_28_def instance_of_template_def)

lemma cublas_hooks_29_ok: "list_all instance_of_template cublas_hooks_29"
  by (simp add: cublas_hooks_29_def instance_of_template_def)

lemma cublas_hooks_30_ok: "list_all instance_of_template cublas_hooks_30"
  by (simp add: cublas_hooks_30_def instance_of_template_def)

lemma cublas_hooks_31_ok: "list_all instance_of_template cublas_hooks_31"
  by (simp add: cublas_hooks_31_def instance_of_template_def)

lemma cublas_hooks_32_ok: "list_all instance_of_template cublas_hooks_32"
  by (simp add: cublas_hooks_32_def instance_of_template_def)

lemma cublas_hooks_33_ok: "list_all instance_of_template cublas_hooks_33"
  by (simp add: cublas_hooks_33_def instance_of_template_def)

lemma cublas_hooks_34_ok: "list_all instance_of_template cublas_hooks_34"
  by (simp add: cublas_hooks_34_def instance_of_template_def)

lemma cublas_hooks_35_ok: "list_all instance_of_template cublas_hooks_35"
  by (simp add: cublas_hooks_35_def instance_of_template_def)

lemma cublas_hooks_36_ok: "list_all instance_of_template cublas_hooks_36"
  by (simp add: cublas_hooks_36_def instance_of_template_def)

lemma cublasLt_hooks_1_ok: "list_all instance_of_template cublasLt_hooks_1"
  by (simp add: cublasLt_hooks_1_def instance_of_template_def)

lemma cublasLt_hooks_2_ok: "list_all instance_of_template cublasLt_hooks_2"
  by (simp add: cublasLt_hooks_2_def instance_of_template_def)

lemma cublasLt_hooks_3_ok: "list_all instance_of_template cublasLt_hooks_3"
  by (simp add: cublasLt_hooks_3_def instance_of_template_def)

lemma cublasLt_hooks_4_ok: "list_all instance_of_template cublasLt_hooks_4"
  by (simp add: cublasLt_hooks_4_def instance_of_template_def)

definition cublas_hooks :: "gen_hook list" where
  "cublas_hooks = concat
    [cublas_hooks_1, cublas_hooks_2, cublas_hooks_3, cublas_hooks_4,
     cublas_hooks_5, cublas_hooks_6, cublas_hooks_7, cublas_hooks_8,
     cublas_hooks_9, cublas_hooks_10, cublas_hooks_11, cublas_hooks_12,
     cublas_hooks_13, cublas_hooks_14, cublas_hooks_15, cublas_hooks_16,
     cublas_hooks_17, cublas_hooks_18, cublas_hooks_19, cublas_hooks_20,
     cublas_hooks_21, cublas_hooks_22, cublas_hooks_23, cublas_hooks_24,
     cublas_hooks_25, cublas_hooks_26, cublas_hooks_27, cublas_hooks_28,
     cublas_hooks_29, cublas_hooks_30, cublas_hooks_31, cublas_hooks_32,
     cublas_hooks_33, cublas_hooks_34, cublas_hooks_35, cublas_hooks_36,
     cublasLt_hooks_1, cublasLt_hooks_2, cublasLt_hooks_3, cublasLt_hooks_4]"

lemma cublas_hooks_ok: "list_all instance_of_template cublas_hooks"
  by (simp add: cublas_hooks_def cublas_hooks_1_ok cublas_hooks_2_ok cublas_hooks_3_ok cublas_hooks_4_ok cublas_hooks_5_ok
      cublas_hooks_6_ok cublas_hooks_7_ok cublas_hooks_8_ok cublas_hooks_9_ok cublas_hooks_10_ok
      cublas_hooks_11_ok cublas_hooks_12_ok cublas_hooks_13_ok cublas_hooks_14_ok cublas_hooks_15_ok
      cublas_hooks_16_ok cublas_hooks_17_ok cublas_hooks_18_ok cublas_hooks_19_ok cublas_hooks_20_ok
      cublas_hooks_21_ok cublas_hooks_22_ok cublas_hooks_23_ok cublas_hooks_24_ok cublas_hooks_25_ok
      cublas_hooks_26_ok cublas_hooks_27_ok cublas_hooks_28_ok cublas_hooks_29_ok cublas_hooks_30_ok
      cublas_hooks_31_ok cublas_hooks_32_ok cublas_hooks_33_ok cublas_hooks_34_ok cublas_hooks_35_ok
      cublas_hooks_36_ok cublasLt_hooks_1_ok cublasLt_hooks_2_ok cublasLt_hooks_3_ok cublasLt_hooks_4_ok)

end
