(* ===== verification/Hooks_Cuda.thy ===== *)
theory Hooks_Cuda
  imports Hook_Gen
begin

text \<open>
  The generated functions of \<open>src/cuda/cuda_hook.cpp\<close>, in the order of the file.
\<close>

section \<open>Types\<close>

definition ty_CUresult :: cty where "ty_CUresult = Named ''CUresult''"
definition ty_CUuuid :: cty where "ty_CUuuid = Named ''CUuuid''"
definition ty_CUarray_format :: cty where "ty_CUarray_format = Named ''CUarray_format''"
definition ty_CUdevice_attribute :: cty where "ty_CUdevice_attribute = Named ''CUdevice_attribute''"
definition ty_CUmemoryPool :: cty where "ty_CUmemoryPool = Named ''CUmemoryPool''"
definition ty_CUflushGPUDirectRDMAWritesTarget :: cty where "ty_CUflushGPUDirectRDMAWritesTarget = Named ''CUflushGPUDirectRDMAWritesTarget''"
definition ty_CUflushGPUDirectRDMAWritesScope :: cty where "ty_CUflushGPUDirectRDMAWritesScope = Named ''CUflushGPUDirectRDMAWritesScope''"
definition ty_CUdevprop :: cty where "ty_CUdevprop = Named ''CUdevprop''"
definition ty_CUexecAffinityType :: cty where "ty_CUexecAffinityType = Named ''CUexecAffinityType''"
definition ty_CUexecAffinityParam :: cty where "ty_CUexecAffinityParam = Named ''CUexecAffinityParam''"
definition ty_CUlimit :: cty where "ty_CUlimit = Named ''CUlimit''"
definition ty_CUfunc_cache :: cty where "ty_CUfunc_cache = Named ''CUfunc_cache''"
definition ty_CUsharedconfig :: cty where "ty_CUsharedconfig = Named ''CUsharedconfig''"
definition ty_CUmodule :: cty where "ty_CUmodule = Named ''CUmodule''"
definition ty_CUjit_option :: cty where "ty_CUjit_option = Named ''CUjit_option''"
definition ty_CUfunction :: cty where "ty_CUfunction = Named ''CUfunction''"
definition ty_CUdeviceptr :: cty where "ty_CUdeviceptr = Named ''CUdeviceptr''"
definition ty_CUtexref :: cty where "ty_CUtexref = Named ''CUtexref''"
definition ty_CUsurfref :: cty where "ty_CUsurfref = Named ''CUsurfref''"
definition ty_CUlinkState :: cty where "ty_CUlinkState = Named ''CUlinkState''"
definition ty_CUjitInputType :: cty where "ty_CUjitInputType = Named ''CUjitInputType''"
definition ty_CUipcEventHandle :: cty where "ty_CUipcEventHandle = Named ''CUipcEventHandle''"
definition ty_CUipcMemHandle :: cty where "ty_CUipcMemHandle = Named ''CUipcMemHandle''"
definition ty_CUarray :: cty where "ty_CUarray = Named ''CUarray''"
definition ty_CUDA_MEMCPY2D :: cty where "ty_CUDA_MEMCPY2D = Named ''CUDA_MEMCPY2D''"
definition ty_CUDA_MEMCPY3D :: cty where "ty_CUDA_MEMCPY3D = Named ''CUDA_MEMCPY3D''"
definition ty_CUDA_MEMCPY3D_PEER :: cty where "ty_CUDA_MEMCPY3D_PEER = Named ''CUDA_MEMCPY3D_PEER''"
definition ty_unsigned_short :: cty where "ty_unsigned_short = Named ''unsigned short''"
definition ty_CUDA_ARRAY_DESCRIPTOR :: cty where "ty_CUDA_ARRAY_DESCRIPTOR = Named ''CUDA_ARRAY_DESCRIPTOR''"
definition ty_CUDA_ARRAY_SPARSE_PROPERTIES :: cty where "ty_CUDA_ARRAY_SPARSE_PROPERTIES = Named ''CUDA_ARRAY_SPARSE_PROPERTIES''"
definition ty_CUmipmappedArray :: cty where "ty_CUmipmappedArray = Named ''CUmipmappedArray''"
definition ty_CUDA_ARRAY3D_DESCRIPTOR :: cty where "ty_CUDA_ARRAY3D_DESCRIPTOR = Named ''CUDA_ARRAY3D_DESCRIPTOR''"
definition ty_CUmemGenericAllocationHandle :: cty where "ty_CUmemGenericAllocationHandle = Named ''CUmemGenericAllocationHandle''"
definition ty_CUmemAllocationProp :: cty where "ty_CUmemAllocationProp = Named ''CUmemAllocationProp''"
definition ty_CUarrayMapInfo :: cty where "ty_CUarrayMapInfo = Named ''CUarrayMapInfo''"
definition ty_CUmemAccessDesc :: cty where "ty_CUmemAccessDesc = Named ''CUmemAccessDesc''"
definition ty_CUmemLocation :: cty where "ty_CUmemLocation = Named ''CUmemLocation''"
definition ty_CUmemAllocationHandleType :: cty where "ty_CUmemAllocationHandleType = Named ''CUmemAllocationHandleType''"
definition ty_CUmemAllocationGranularity_flags :: cty where "ty_CUmemAllocationGranularity_flags = Named ''CUmemAllocationGranularity_flags''"
definition ty_CUmemPool_attribute :: cty where "ty_CUmemPool_attribute = Named ''CUmemPool_attribute''"
definition ty_CUmemAccess_flags :: cty where "ty_CUmemAccess_flags = Named ''CUmemAccess_flags''"
definition ty_CUmemPoolProps :: cty where "ty_CUmemPoolProps = Named ''CUmemPoolProps''"
definition ty_CUmemPoolPtrExportData :: cty where "ty_CUmemPoolPtrExportData = Named ''CUmemPoolPtrExportData''"
definition ty_CUpointer_attribute :: cty where "ty_CUpointer_attribute = Named ''CUpointer_attribute''"
definition ty_CUmem_advise :: cty where "ty_CUmem_advise = Named ''CUmem_advise''"
definition ty_CUmem_range_attribute :: cty where "ty_CUmem_range_attribute = Named ''CUmem_range_attribute''"
definition ty_CUstreamCallback :: cty where "ty_CUstreamCallback = Named ''CUstreamCallback''"
definition ty_CUstreamCaptureMode :: cty where "ty_CUstreamCaptureMode = Named ''CUstreamCaptureMode''"
definition ty_CUgraph :: cty where "ty_CUgraph = Named ''CUgraph''"
definition ty_CUstreamCaptureStatus :: cty where "ty_CUstreamCaptureStatus = Named ''CUstreamCaptureStatus''"
definition ty_cuuint64_t :: cty where "ty_cuuint64_t = Named ''cuuint64_t''"
definition ty_CUgraphNode :: cty where "ty_CUgraphNode = Named ''CUgraphNode''"
definition ty_CUstreamAttrID :: cty where "ty_CUstreamAttrID = Named ''CUstreamAttrID''"
definition ty_CUstreamAttrValue :: cty where "ty_CUstreamAttrValue = Named ''CUstreamAttrValue''"
definition ty_CUexternalMemory :: cty where "ty_CUexternalMemory = Named ''CUexternalMemory''"
definition ty_CUDA_EXTERNAL_MEMORY_HANDLE_DESC :: cty where "ty_CUDA_EXTERNAL_MEMORY_HANDLE_DESC = Named ''CUDA_EXTERNAL_MEMORY_HANDLE_DESC''"
definition ty_CUDA_EXTERNAL_MEMORY_BUFFER_DESC :: cty where "ty_CUDA_EXTERNAL_MEMORY_BUFFER_DESC = Named ''CUDA_EXTERNAL_MEMORY_BUFFER_DESC''"
definition ty_CUDA_EXTERNAL_MEMORY_MIPMAPPED_ARRAY_DESC :: cty where "ty_CUDA_EXTERNAL_MEMORY_MIPMAPPED_ARRAY_DESC = Named ''CUDA_EXTERNAL_MEMORY_MIPMAPPED_ARRAY_DESC''"
definition ty_CUexternalSemaphore :: cty where "ty_CUexternalSemaphore = Named ''CUexternalSemaphore''"
definition ty_CUDA_EXTERNAL_SEMAPHORE_HANDLE_DESC :: cty where "ty_CUDA_EXTERNAL_SEMAPHORE_HANDLE_DESC = Named ''CUDA_EXTERNAL_SEMAPHORE_HANDLE_DESC''"
definition ty_CUDA_EXTERNAL_SEMAPHORE_SIGNAL_PARAMS :: cty where "ty_CUDA_EXTERNAL_SEMAPHORE_SIGNAL_PARAMS = Named ''CUDA_EXTERNAL_SEMAPHORE_SIGNAL_PARAMS''"
definition ty_CUDA_EXTERNAL_SEMAPHORE_WAIT_PARAMS :: cty where "ty_CUDA_EXTERNAL_SEMAPHORE_WAIT_PARAMS = Named ''CUDA_EXTERNAL_SEMAPHORE_WAIT_PARAMS''"
definition ty_cuuint32_t :: cty where "ty_cuuint32_t = Named ''cuuint32_t''"
definition ty_CUstreamBatchMemOpParams :: cty where "ty_CUstreamBatchMemOpParams = Named ''CUstreamBatchMemOpParams''"
definition ty_CUfunction_attribute :: cty where "ty_CUfunction_attribute = Named ''CUfunction_attribute''"
definition ty_CUDA_LAUNCH_PARAMS :: cty where "ty_CUDA_LAUNCH_PARAMS = Named ''CUDA_LAUNCH_PARAMS''"
definition ty_CUhostFn :: cty where "ty_CUhostFn = Named ''CUhostFn''"
definition ty_CUDA_KERNEL_NODE_PARAMS :: cty where "ty_CUDA_KERNEL_NODE_PARAMS = Named ''CUDA_KERNEL_NODE_PARAMS''"
definition ty_CUDA_MEMSET_NODE_PARAMS :: cty where "ty_CUDA_MEMSET_NODE_PARAMS = Named ''CUDA_MEMSET_NODE_PARAMS''"
definition ty_CUDA_HOST_NODE_PARAMS :: cty where "ty_CUDA_HOST_NODE_PARAMS = Named ''CUDA_HOST_NODE_PARAMS''"
definition ty_CUDA_EXT_SEM_SIGNAL_NODE_PARAMS :: cty where "ty_CUDA_EXT_SEM_SIGNAL_NODE_PARAMS = Named ''CUDA_EXT_SEM_SIGNAL_NODE_PARAMS''"
definition ty_CUDA_EXT_SEM_WAIT_NODE_PARAMS :: cty where "ty_CUDA_EXT_SEM_WAIT_NODE_PARAMS = Named ''CUDA_EXT_SEM_WAIT_NODE_PARAMS''"
definition ty_CUDA_MEM_ALLOC_NODE_PARAMS :: cty where "ty_CUDA_MEM_ALLOC_NODE_PARAMS = Named ''CUDA_MEM_ALLOC_NODE_PARAMS''"
definition ty_CUgraphMem_attribute :: cty where "ty_CUgraphMem_attribute = Named ''CUgraphMem_attribute''"
definition ty_CUgraphNodeType :: cty where "ty_CUgraphNodeType = Named ''CUgraphNodeType''"
definition ty_CUgraphExec :: cty where "ty_CUgraphExec = Named ''CUgraphExec''"
definition ty_CUgraphExecUpdateResult :: cty where "ty_CUgraphExecUpdateResult = Named ''CUgraphExecUpdateResult''"
definition ty_CUkernelNodeAttrID :: cty where "ty_CUkernelNodeAttrID = Named ''CUkernelNodeAttrID''"
definition ty_CUkernelNodeAttrValue :: cty where "ty_CUkernelNodeAttrValue = Named ''CUkernelNodeAttrValue''"
definition ty_CUuserObject :: cty where "ty_CUuserObject = Named ''CUuserObject''"
definition ty_CUoccupancyB2DSize :: cty where "ty_CUoccupancyB2DSize = Named ''CUoccupancyB2DSize''"
definition ty_CUaddress_mode :: cty where "ty_CUaddress_mode = Named ''CUaddress_mode''"
definition ty_CUfilter_mode :: cty where "ty_CUfilter_mode = Named ''CUfilter_mode''"
definition ty_CUtexObject :: cty where "ty_CUtexObject = Named ''CUtexObject''"
definition ty_CUDA_RESOURCE_DESC :: cty where "ty_CUDA_RESOURCE_DESC = Named ''CUDA_RESOURCE_DESC''"
definition ty_CUDA_TEXTURE_DESC :: cty where "ty_CUDA_TEXTURE_DESC = Named ''CUDA_TEXTURE_DESC''"
definition ty_CUDA_RESOURCE_VIEW_DESC :: cty where "ty_CUDA_RESOURCE_VIEW_DESC = Named ''CUDA_RESOURCE_VIEW_DESC''"
definition ty_CUsurfObject :: cty where "ty_CUsurfObject = Named ''CUsurfObject''"
definition ty_CUdevice_P2PAttribute :: cty where "ty_CUdevice_P2PAttribute = Named ''CUdevice_P2PAttribute''"
definition ty_CUgraphicsResource :: cty where "ty_CUgraphicsResource = Named ''CUgraphicsResource''"

section \<open>\<open>cuda\<close>\<close>

definition cuda_hooks_1 :: "gen_hook list" where
  "cuda_hooks_1 =
    [Gen cuda ty_CUresult ''cuGetErrorString'' [ty_CUresult, Ptr (Ptr (Const ty_char))]
       ''cuGetErrorString'' ty_CUresult [ty_CUresult, Ptr (Ptr (Const ty_char))] ''cuGetErrorString'' [0, 1] False,
     Gen cuda ty_CUresult ''cuGetErrorName'' [ty_CUresult, Ptr (Ptr (Const ty_char))]
       ''cuGetErrorName'' ty_CUresult [ty_CUresult, Ptr (Ptr (Const ty_char))] ''cuGetErrorName'' [0, 1] False,
     Gen cuda ty_CUresult ''cuInit'' [ty_unsigned_int]
       ''cuInit'' ty_CUresult [ty_unsigned_int] ''cuInit'' [0] False,
     Gen cuda ty_CUresult ''cuDriverGetVersion'' [Ptr ty_int]
       ''cuDriverGetVersion'' ty_CUresult [Ptr ty_int] ''cuDriverGetVersion'' [0] False,
     Gen cuda ty_CUresult ''cuDeviceGet'' [Ptr ty_CUdevice, ty_int]
       ''cuDeviceGet'' ty_CUresult [Ptr ty_CUdevice, ty_int] ''cuDeviceGet'' [0, 1] False,
     Gen cuda ty_CUresult ''cuDeviceGetCount'' [Ptr ty_int]
       ''cuDeviceGetCount'' ty_CUresult [Ptr ty_int] ''cuDeviceGetCount'' [0] False,
     Gen cuda ty_CUresult ''cuDeviceGetName'' [Ptr ty_char, ty_int, ty_CUdevice]
       ''cuDeviceGetName'' ty_CUresult [Ptr ty_char, ty_int, ty_CUdevice] ''cuDeviceGetName'' [0, 1, 2] False,
     Gen cuda ty_CUresult ''cuDeviceGetUuid'' [Ptr ty_CUuuid, ty_CUdevice]
       ''cuDeviceGetUuid'' ty_CUresult [Ptr ty_CUuuid, ty_CUdevice] ''cuDeviceGetUuid'' [0, 1] False,
     Gen cuda ty_CUresult ''cuDeviceGetUuid_v2'' [Ptr ty_CUuuid, ty_CUdevice]
       ''cuDeviceGetUuid_v2'' ty_CUresult [Ptr ty_CUuuid, ty_CUdevice] ''cuDeviceGetUuid_v2'' [0, 1] False,
     Gen cuda ty_CUresult ''cuDeviceGetLuid'' [Ptr ty_char, Ptr ty_unsigned_int, ty_CUdevice]
       ''cuDeviceGetLuid'' ty_CUresult [Ptr ty_char, Ptr ty_unsigned_int, ty_CUdevice] ''cuDeviceGetLuid'' [0, 1, 2] False,
     Gen cuda ty_CUresult ''cuDeviceTotalMem'' [Ptr ty_size_t, ty_CUdevice]
       ''cuDeviceTotalMem'' ty_CUresult [Ptr ty_size_t, ty_CUdevice] ''cuDeviceTotalMem'' [0, 1] False,
     Gen cuda ty_CUresult ''cuDeviceTotalMem_v2'' [Ptr ty_size_t, ty_CUdevice]
       ''cuDeviceTotalMem_v2'' ty_CUresult [Ptr ty_size_t, ty_CUdevice] ''cuDeviceTotalMem_v2'' [0, 1] False,
     Gen cuda ty_CUresult ''cuDeviceGetTexture1DLinearMaxWidth'' [Ptr ty_size_t, ty_CUarray_format, ty_unsigned, ty_CUdevice]
       ''cuDeviceGetTexture1DLinearMaxWidth'' ty_CUresult [Ptr ty_size_t, ty_CUarray_format, ty_unsigned, ty_CUdevice] ''cuDeviceGetTexture1DLinearMaxWidth'' [0, 1, 2, 3] False,
     Gen cuda ty_CUresult ''cuDeviceGetAttribute'' [Ptr ty_int, ty_CUdevice_attribute, ty_CUdevice]
       ''cuDeviceGetAttribute'' ty_CUresult [Ptr ty_int, ty_CUdevice_attribute, ty_CUdevice] ''cuDeviceGetAttribute'' [0, 1, 2] False,
     Gen cuda ty_CUresult ''cuDeviceGetNvSciSyncAttributes'' [Ptr ty_void, ty_CUdevice, ty_int]
       ''cuDeviceGetNvSciSyncAttributes'' ty_CUresult [Ptr ty_void, ty_CUdevice, ty_int] ''cuDeviceGetNvSciSyncAttributes'' [0, 1, 2] False,
     Gen cuda ty_CUresult ''cuDeviceSetMemPool'' [ty_CUdevice, ty_CUmemoryPool]
       ''cuDeviceSetMemPool'' ty_CUresult [ty_CUdevice, ty_CUmemoryPool] ''cuDeviceSetMemPool'' [0, 1] False,
     Gen cuda ty_CUresult ''cuDeviceGetMemPool'' [Ptr ty_CUmemoryPool, ty_CUdevice]
       ''cuDeviceGetMemPool'' ty_CUresult [Ptr ty_CUmemoryPool, ty_CUdevice] ''cuDeviceGetMemPool'' [0, 1] False,
     Gen cuda ty_CUresult ''cuDeviceGetDefaultMemPool'' [Ptr ty_CUmemoryPool, ty_CUdevice]
       ''cuDeviceGetDefaultMemPool'' ty_CUresult [Ptr ty_CUmemoryPool, ty_CUdevice] ''cuDeviceGetDefaultMemPool'' [0, 1] False]"

definition cuda_hooks_2 :: "gen_hook list" where
  "cuda_hooks_2 =
    [Gen cuda ty_CUresult ''cuFlushGPUDirectRDMAWrites'' [ty_CUflushGPUDirectRDMAWritesTarget, ty_CUflushGPUDirectRDMAWritesScope]
       ''cuFlushGPUDirectRDMAWrites'' ty_CUresult [ty_CUflushGPUDirectRDMAWritesTarget, ty_CUflushGPUDirectRDMAWritesScope] ''cuFlushGPUDirectRDMAWrites'' [0, 1] False,
     Gen cuda ty_CUresult ''cuDeviceGetProperties'' [Ptr ty_CUdevprop, ty_CUdevice]
       ''cuDeviceGetProperties'' ty_CUresult [Ptr ty_CUdevprop, ty_CUdevice] ''cuDeviceGetProperties'' [0, 1] False,
     Gen cuda ty_CUresult ''cuDeviceComputeCapability'' [Ptr ty_int, Ptr ty_int, ty_CUdevice]
       ''cuDeviceComputeCapability'' ty_CUresult [Ptr ty_int, Ptr ty_int, ty_CUdevice] ''cuDeviceComputeCapability'' [0, 1, 2] False,
     Gen cuda ty_CUresult ''cuDevicePrimaryCtxRetain'' [Ptr ty_CUcontext, ty_CUdevice]
       ''cuDevicePrimaryCtxRetain'' ty_CUresult [Ptr ty_CUcontext, ty_CUdevice] ''cuDevicePrimaryCtxRetain'' [0, 1] False,
     Gen cuda ty_CUresult ''cuDevicePrimaryCtxRelease'' [ty_CUdevice]
       ''cuDevicePrimaryCtxRelease'' ty_CUresult [ty_CUdevice] ''cuDevicePrimaryCtxRelease'' [0] False,
     Gen cuda ty_CUresult ''cuDevicePrimaryCtxRelease_v2'' [ty_CUdevice]
       ''cuDevicePrimaryCtxRelease_v2'' ty_CUresult [ty_CUdevice] ''cuDevicePrimaryCtxRelease_v2'' [0] False,
     Gen cuda ty_CUresult ''cuDevicePrimaryCtxSetFlags'' [ty_CUdevice, ty_unsigned_int]
       ''cuDevicePrimaryCtxSetFlags'' ty_CUresult [ty_CUdevice, ty_unsigned_int] ''cuDevicePrimaryCtxSetFlags'' [0, 1] False,
     Gen cuda ty_CUresult ''cuDevicePrimaryCtxSetFlags_v2'' [ty_CUdevice, ty_unsigned_int]
       ''cuDevicePrimaryCtxSetFlags_v2'' ty_CUresult [ty_CUdevice, ty_unsigned_int] ''cuDevicePrimaryCtxSetFlags_v2'' [0, 1] False,
     Gen cuda ty_CUresult ''cuDevicePrimaryCtxGetState'' [ty_CUdevice, Ptr ty_unsigned_int, Ptr ty_int]
       ''cuDevicePrimaryCtxGetState'' ty_CUresult [ty_CUdevice, Ptr ty_unsigned_int, Ptr ty_int] ''cuDevicePrimaryCtxGetState'' [0, 1, 2] False,
     Gen cuda ty_CUresult ''cuDevicePrimaryCtxReset'' [ty_CUdevice]
       ''cuDevicePrimaryCtxReset'' ty_CUresult [ty_CUdevice] ''cuDevicePrimaryCtxReset'' [0] False,
     Gen cuda ty_CUresult ''cuDevicePrimaryCtxReset_v2'' [ty_CUdevice]
       ''cuDevicePrimaryCtxReset_v2'' ty_CUresult [ty_CUdevice] ''cuDevicePrimaryCtxReset_v2'' [0] False,
     Gen cuda ty_CUresult ''cuDeviceGetExecAffinitySupport'' [Ptr ty_int, ty_CUexecAffinityType, ty_CUdevice]
       ''cuDeviceGetExecAffinitySupport'' ty_CUresult [Ptr ty_int, ty_CUexecAffinityType, ty_CUdevice] ''cuDeviceGetExecAffinitySupport'' [0, 1, 2] False,
     Gen cuda ty_CUresult ''cuCtxCreate'' [Ptr ty_CUcontext, ty_unsigned_int, ty_CUdevice]
       ''cuCtxCreate'' ty_CUresult [Ptr ty_CUcontext, ty_unsigned_int, ty_CUdevice] ''cuCtxCreate'' [0, 1, 2] False,
     Gen cuda ty_CUresult ''cuCtxCreate_v2'' [Ptr ty_CUcontext, ty_unsigned_int, ty_CUdevice]
       ''cuCtxCreate_v2'' ty_CUresult [Ptr ty_CUcontext, ty_unsigned_int, ty_CUdevice] ''cuCtxCreate_v2'' [0, 1, 2] False,
     Gen cuda ty_CUresult ''cuCtxCreate_v3'' [Ptr ty_CUcontext, Ptr ty_CUexecAffinityParam, ty_int, ty_unsigned_int, ty_CUdevice]
       ''cuCtxCreate_v3'' ty_CUresult [Ptr ty_CUcontext, Ptr ty_CUexecAffinityParam, ty_int, ty_unsigned_int, ty_CUdevice] ''cuCtxCreate_v3'' [0, 1, 2, 3, 4] False,
     Gen cuda ty_CUresult ''cuCtxDestroy'' [ty_CUcontext]
       ''cuCtxDestroy'' ty_CUresult [ty_CUcontext] ''cuCtxDestroy'' [0] False,
     Gen cuda ty_CUresult ''cuCtxDestroy_v2'' [ty_CUcontext]
       ''cuCtxDestroy_v2'' ty_CUresult [ty_CUcontext] ''cuCtxDestroy_v2'' [0] False,
     Gen cuda ty_CUresult ''cuCtxPushCurrent'' [ty_CUcontext]
       ''cuCtxPushCurrent'' ty_CUresult [ty_CUcontext] ''cuCtxPushCurrent'' [0] False]"

definition cuda_hooks_3 :: "gen_hook list" where
  "cuda_hooks_3 =
    [Gen cuda ty_CUresult ''cuCtxPushCurrent_v2'' [ty_CUcontext]
       ''cuCtxPushCurrent_v2'' ty_CUresult [ty_CUcontext] ''cuCtxPushCurrent_v2'' [0] False,
     Gen cuda ty_CUresult ''cuCtxPopCurrent'' [Ptr ty_CUcontext]
       ''cuCtxPopCurrent'' ty_CUresult [Ptr ty_CUcontext] ''cuCtxPopCurrent'' [0] False,
     Gen cuda ty_CUresult ''cuCtxPopCurrent_v2'' [Ptr ty_CUcontext]
       ''cuCtxPopCurrent_v2'' ty_CUresult [Ptr ty_CUcontext] ''cuCtxPopCurrent_v2'' [0] False,
     Gen cuda ty_CUresult ''cuCtxSetCurrent'' [ty_CUcontext]
       ''cuCtxSetCurrent'' ty_CUresult [ty_CUcontext] ''cuCtxSetCurrent'' [0] False,
     Gen cuda ty_CUresult ''cuCtxGetCurrent'' [Ptr ty_CUcontext]
       ''cuCtxGetCurrent'' ty_CUresult [Ptr ty_CUcontext] ''cuCtxGetCurrent'' [0] False,
     Gen cuda ty_CUresult ''cuCtxGetDevice'' [Ptr ty_CUdevice]
       ''cuCtxGetDevice'' ty_CUresult [Ptr ty_CUdevice] ''cuCtxGetDevice'' [0] False,
     Gen cuda ty_CUresult ''cuCtxGetFlags'' [Ptr ty_unsigned_int]
       ''cuCtxGetFlags'' ty_CUresult [Ptr ty_unsigned_int] ''cuCtxGetFlags'' [0] False,
     Gen cuda ty_CUresult ''cuCtxSynchronize'' []
       ''cuCtxSynchronize'' ty_CUresult [] ''cuCtxSynchronize'' [] False,
     Gen cuda ty_CUresult ''cuCtxSetLimit'' [ty_CUlimit, ty_size_t]
       ''cuCtxSetLimit'' ty_CUresult [ty_CUlimit, ty_size_t] ''cuCtxSetLimit'' [0, 1] False,
     Gen cuda ty_CUresult ''cuCtxGetLimit'' [Ptr ty_size_t, ty_CUlimit]
       ''cuCtxGetLimit'' ty_CUresult [Ptr ty_size_t, ty_CUlimit] ''cuCtxGetLimit'' [0, 1] False,
     Gen cuda ty_CUresult ''cuCtxGetCacheConfig'' [Ptr ty_CUfunc_cache]
       ''cuCtxGetCacheConfig'' ty_CUresult [Ptr ty_CUfunc_cache] ''cuCtxGetCacheConfig'' [0] False,
     Gen cuda ty_CUresult ''cuCtxSetCacheConfig'' [ty_CUfunc_cache]
       ''cuCtxSetCacheConfig'' ty_CUresult [ty_CUfunc_cache] ''cuCtxSetCacheConfig'' [0] False,
     Gen cuda ty_CUresult ''cuCtxGetSharedMemConfig'' [Ptr ty_CUsharedconfig]
       ''cuCtxGetSharedMemConfig'' ty_CUresult [Ptr ty_CUsharedconfig] ''cuCtxGetSharedMemConfig'' [0] False,
     Gen cuda ty_CUresult ''cuCtxSetSharedMemConfig'' [ty_CUsharedconfig]
       ''cuCtxSetSharedMemConfig'' ty_CUresult [ty_CUsharedconfig] ''cuCtxSetSharedMemConfig'' [0] False,
     Gen cuda ty_CUresult ''cuCtxGetApiVersion'' [ty_CUcontext, Ptr ty_unsigned_int]
       ''cuCtxGetApiVersion'' ty_CUresult [ty_CUcontext, Ptr ty_unsigned_int] ''cuCtxGetApiVersion'' [0, 1] False,
     Gen cuda ty_CUresult ''cuCtxGetStreamPriorityRange'' [Ptr ty_int, Ptr ty_int]
       ''cuCtxGetStreamPriorityRange'' ty_CUresult [Ptr ty_int, Ptr ty_int] ''cuCtxGetStreamPriorityRange'' [0, 1] False,
     Gen cuda ty_CUresult ''cuCtxResetPersistingL2Cache'' []
       ''cuCtxResetPersistingL2Cache'' ty_CUresult [] ''cuCtxResetPersistingL2Cache'' [] False,
     Gen cuda ty_CUresult ''cuCtxGetExecAffinity'' [Ptr ty_CUexecAffinityParam, ty_CUexecAffinityType]
       ''cuCtxGetExecAffinity'' ty_CUresult [Ptr ty_CUexecAffinityParam, ty_CUexecAffinityType] ''cuCtxGetExecAffinity'' [0, 1] False]"

definition cuda_hooks_4 :: "gen_hook list" where
  "cuda_hooks_4 =
    [Gen cuda ty_CUresult ''cuCtxAttach'' [Ptr ty_CUcontext, ty_unsigned_int]
       ''cuCtxAttach'' ty_CUresult [Ptr ty_CUcontext, ty_unsigned_int] ''cuCtxAttach'' [0, 1] False,
     Gen cuda ty_CUresult ''cuCtxDetach'' [ty_CUcontext]
       ''cuCtxDetach'' ty_CUresult [ty_CUcontext] ''cuCtxDetach'' [0] False,
     Gen cuda ty_CUresult ''cuModuleLoad'' [Ptr ty_CUmodule, Ptr (Const ty_char)]
       ''cuModuleLoad'' ty_CUresult [Ptr ty_CUmodule, Ptr (Const ty_char)] ''cuModuleLoad'' [0, 1] False,
     Gen cuda ty_CUresult ''cuModuleLoadData'' [Ptr ty_CUmodule, Ptr (Const ty_void)]
       ''cuModuleLoadData'' ty_CUresult [Ptr ty_CUmodule, Ptr (Const ty_void)] ''cuModuleLoadData'' [0, 1] False,
     Gen cuda ty_CUresult ''cuModuleLoadDataEx'' [Ptr ty_CUmodule, Ptr (Const ty_void), ty_unsigned_int, Ptr ty_CUjit_option, Ptr (Ptr ty_void)]
       ''cuModuleLoadDataEx'' ty_CUresult [Ptr ty_CUmodule, Ptr (Const ty_void), ty_unsigned_int, Ptr ty_CUjit_option, Ptr (Ptr ty_void)] ''cuModuleLoadDataEx'' [0, 1, 2, 3, 4] False,
     Gen cuda ty_CUresult ''cuModuleLoadFatBinary'' [Ptr ty_CUmodule, Ptr (Const ty_void)]
       ''cuModuleLoadFatBinary'' ty_CUresult [Ptr ty_CUmodule, Ptr (Const ty_void)] ''cuModuleLoadFatBinary'' [0, 1] False,
     Gen cuda ty_CUresult ''cuModuleUnload'' [ty_CUmodule]
       ''cuModuleUnload'' ty_CUresult [ty_CUmodule] ''cuModuleUnload'' [0] False,
     Gen cuda ty_CUresult ''cuModuleGetFunction'' [Ptr ty_CUfunction, ty_CUmodule, Ptr (Const ty_char)]
       ''cuModuleGetFunction'' ty_CUresult [Ptr ty_CUfunction, ty_CUmodule, Ptr (Const ty_char)] ''cuModuleGetFunction'' [0, 1, 2] False,
     Gen cuda ty_CUresult ''cuModuleGetGlobal'' [Ptr ty_CUdeviceptr, Ptr ty_size_t, ty_CUmodule, Ptr (Const ty_char)]
       ''cuModuleGetGlobal'' ty_CUresult [Ptr ty_CUdeviceptr, Ptr ty_size_t, ty_CUmodule, Ptr (Const ty_char)] ''cuModuleGetGlobal'' [0, 1, 2, 3] False,
     Gen cuda ty_CUresult ''cuModuleGetGlobal_v2'' [Ptr ty_CUdeviceptr, Ptr ty_size_t, ty_CUmodule, Ptr (Const ty_char)]
       ''cuModuleGetGlobal_v2'' ty_CUresult [Ptr ty_CUdeviceptr, Ptr ty_size_t, ty_CUmodule, Ptr (Const ty_char)] ''cuModuleGetGlobal_v2'' [0, 1, 2, 3] False,
     Gen cuda ty_CUresult ''cuModuleGetTexRef'' [Ptr ty_CUtexref, ty_CUmodule, Ptr (Const ty_char)]
       ''cuModuleGetTexRef'' ty_CUresult [Ptr ty_CUtexref, ty_CUmodule, Ptr (Const ty_char)] ''cuModuleGetTexRef'' [0, 1, 2] False,
     Gen cuda ty_CUresult ''cuModuleGetSurfRef'' [Ptr ty_CUsurfref, ty_CUmodule, Ptr (Const ty_char)]
       ''cuModuleGetSurfRef'' ty_CUresult [Ptr ty_CUsurfref, ty_CUmodule, Ptr (Const ty_char)] ''cuModuleGetSurfRef'' [0, 1, 2] False,
     Gen cuda ty_CUresult ''cuLinkCreate'' [ty_unsigned_int, Ptr ty_CUjit_option, Ptr (Ptr ty_void), Ptr ty_CUlinkState]
       ''cuLinkCreate'' ty_CUresult [ty_unsigned_int, Ptr ty_CUjit_option, Ptr (Ptr ty_void), Ptr ty_CUlinkState] ''cuLinkCreate'' [0, 1, 2, 3] False,
     Gen cuda ty_CUresult ''cuLinkCreate_v2'' [ty_unsigned_int, Ptr ty_CUjit_option, Ptr (Ptr ty_void), Ptr ty_CUlinkState]
       ''cuLinkCreate_v2'' ty_CUresult [ty_unsigned_int, Ptr ty_CUjit_option, Ptr (Ptr ty_void), Ptr ty_CUlinkState] ''cuLinkCreate_v2'' [0, 1, 2, 3] False,
     Gen cuda ty_CUresult ''cuLinkAddData'' [ty_CUlinkState, ty_CUjitInputType, Ptr ty_void, ty_size_t, Ptr (Const ty_char), ty_unsigned_int, Ptr ty_CUjit_option, Ptr (Ptr ty_void)]
       ''cuLinkAddData'' ty_CUresult [ty_CUlinkState, ty_CUjitInputType, Ptr ty_void, ty_size_t, Ptr (Const ty_char), ty_unsigned_int, Ptr ty_CUjit_option, Ptr (Ptr ty_void)] ''cuLinkAddData'' [0, 1, 2, 3, 4, 5, 6, 7] False,
     Gen cuda ty_CUresult ''cuLinkAddData_v2'' [ty_CUlinkState, ty_CUjitInputType, Ptr ty_void, ty_size_t, Ptr (Const ty_char), ty_unsigned_int, Ptr ty_CUjit_option, Ptr (Ptr ty_void)]
       ''cuLinkAddData_v2'' ty_CUresult [ty_CUlinkState, ty_CUjitInputType, Ptr ty_void, ty_size_t, Ptr (Const ty_char), ty_unsigned_int, Ptr ty_CUjit_option, Ptr (Ptr ty_void)] ''cuLinkAddData_v2'' [0, 1, 2, 3, 4, 5, 6, 7] False]"

definition cuda_hooks_5 :: "gen_hook list" where
  "cuda_hooks_5 =
    [Gen cuda ty_CUresult ''cuLinkAddFile'' [ty_CUlinkState, ty_CUjitInputType, Ptr (Const ty_char), ty_unsigned_int, Ptr ty_CUjit_option, Ptr (Ptr ty_void)]
       ''cuLinkAddFile'' ty_CUresult [ty_CUlinkState, ty_CUjitInputType, Ptr (Const ty_char), ty_unsigned_int, Ptr ty_CUjit_option, Ptr (Ptr ty_void)] ''cuLinkAddFile'' [0, 1, 2, 3, 4, 5] False,
     Gen cuda ty_CUresult ''cuLinkAddFile_v2'' [ty_CUlinkState, ty_CUjitInputType, Ptr (Const ty_char), ty_unsigned_int, Ptr ty_CUjit_option, Ptr (Ptr ty_void)]
       ''cuLinkAddFile_v2'' ty_CUresult [ty_CUlinkState, ty_CUjitInputType, Ptr (Const ty_char), ty_unsigned_int, Ptr ty_CUjit_option, Ptr (Ptr ty_void)] ''cuLinkAddFile_v2'' [0, 1, 2, 3, 4, 5] False,
     Gen cuda ty_CUresult ''cuLinkComplete'' [ty_CUlinkState, Ptr (Ptr ty_void), Ptr ty_size_t]
       ''cuLinkComplete'' ty_CUresult [ty_CUlinkState, Ptr (Ptr ty_void), Ptr ty_size_t] ''cuLinkComplete'' [0, 1, 2] False,
     Gen cuda ty_CUresult ''cuLinkDestroy'' [ty_CUlinkState]
       ''cuLinkDestroy'' ty_CUresult [ty_CUlinkState] ''cuLinkDestroy'' [0] False,
     Gen cuda ty_CUresult ''cuMemGetInfo'' [Ptr ty_size_t, Ptr ty_size_t]
       ''cuMemGetInfo'' ty_CUresult [Ptr ty_size_t, Ptr ty_size_t] ''cuMemGetInfo'' [0, 1] False,
     Gen cuda ty_CUresult ''cuMemGetInfo_v2'' [Ptr ty_size_t, Ptr ty_size_t]
       ''cuMemGetInfo_v2'' ty_CUresult [Ptr ty_size_t, Ptr ty_size_t] ''cuMemGetInfo_v2'' [0, 1] False,
     Gen cuda ty_CUresult ''cuMemAlloc'' [Ptr ty_CUdeviceptr, ty_size_t]
       ''cuMemAlloc'' ty_CUresult [Ptr ty_CUdeviceptr, ty_size_t] ''cuMemAlloc'' [0, 1] False,
     Gen cuda ty_CUresult ''cuMemAlloc_v2'' [Ptr ty_CUdeviceptr, ty_size_t]
       ''cuMemAlloc_v2'' ty_CUresult [Ptr ty_CUdeviceptr, ty_size_t] ''cuMemAlloc_v2'' [0, 1] False,
     Gen cuda ty_CUresult ''cuMemAllocPitch'' [Ptr ty_CUdeviceptr, Ptr ty_size_t, ty_size_t, ty_size_t, ty_unsigned_int]
       ''cuMemAllocPitch'' ty_CUresult [Ptr ty_CUdeviceptr, Ptr ty_size_t, ty_size_t, ty_size_t, ty_unsigned_int] ''cuMemAllocPitch'' [0, 1, 2, 3, 4] False,
     Gen cuda ty_CUresult ''cuMemAllocPitch_v2'' [Ptr ty_CUdeviceptr, Ptr ty_size_t, ty_size_t, ty_size_t, ty_unsigned_int]
       ''cuMemAllocPitch_v2'' ty_CUresult [Ptr ty_CUdeviceptr, Ptr ty_size_t, ty_size_t, ty_size_t, ty_unsigned_int] ''cuMemAllocPitch_v2'' [0, 1, 2, 3, 4] False,
     Gen cuda ty_CUresult ''cuMemFree'' [ty_CUdeviceptr]
       ''cuMemFree'' ty_CUresult [ty_CUdeviceptr] ''cuMemFree'' [0] False,
     Gen cuda ty_CUresult ''cuMemFree_v2'' [ty_CUdeviceptr]
       ''cuMemFree_v2'' ty_CUresult [ty_CUdeviceptr] ''cuMemFree_v2'' [0] False,
     Gen cuda ty_CUresult ''cuMemGetAddressRange'' [Ptr ty_CUdeviceptr, Ptr ty_size_t, ty_CUdeviceptr]
       ''cuMemGetAddressRange'' ty_CUresult [Ptr ty_CUdeviceptr, Ptr ty_size_t, ty_CUdeviceptr] ''cuMemGetAddressRange'' [0, 1, 2] False,
     Gen cuda ty_CUresult ''cuMemGetAddressRange_v2'' [Ptr ty_CUdeviceptr, Ptr ty_size_t, ty_CUdeviceptr]
       ''cuMemGetAddressRange_v2'' ty_CUresult [Ptr ty_CUdeviceptr, Ptr ty_size_t, ty_CUdeviceptr] ''cuMemGetAddressRange_v2'' [0, 1, 2] False,
     Gen cuda ty_CUresult ''cuMemAllocHost'' [Ptr (Ptr ty_void), ty_size_t]
       ''cuMemAllocHost'' ty_CUresult [Ptr (Ptr ty_void), ty_size_t] ''cuMemAllocHost'' [0, 1] False,
     Gen cuda ty_CUresult ''cuMemAllocHost_v2'' [Ptr (Ptr ty_void), ty_size_t]
       ''cuMemAllocHost_v2'' ty_CUresult [Ptr (Ptr ty_void), ty_size_t] ''cuMemAllocHost_v2'' [0, 1] False,
     Gen cuda ty_CUresult ''cuMemFreeHost'' [Ptr ty_void]
       ''cuMemFreeHost'' ty_CUresult [Ptr ty_void] ''cuMemFreeHost'' [0] False]"

definition cuda_hooks_6 :: "gen_hook list" where
  "cuda_hooks_6 =
    [Gen cuda ty_CUresult ''cuMemHostAlloc'' [Ptr (Ptr ty_void), ty_size_t, ty_unsigned_int]
       ''cuMemHostAlloc'' ty_CUresult [Ptr (Ptr ty_void), ty_size_t, ty_unsigned_int] ''cuMemHostAlloc'' [0, 1, 2] False,
     Gen cuda ty_CUresult ''cuMemHostGetDevicePointer'' [Ptr ty_CUdeviceptr, Ptr ty_void, ty_unsigned_int]
       ''cuMemHostGetDevicePointer'' ty_CUresult [Ptr ty_CUdeviceptr, Ptr ty_void, ty_unsigned_int] ''cuMemHostGetDevicePointer'' [0, 1, 2] False,
     Gen cuda ty_CUresult ''cuMemHostGetDevicePointer_v2'' [Ptr ty_CUdeviceptr, Ptr ty_void, ty_unsigned_int]
       ''cuMemHostGetDevicePointer_v2'' ty_CUresult [Ptr ty_CUdeviceptr, Ptr ty_void, ty_unsigned_int] ''cuMemHostGetDevicePointer_v2'' [0, 1, 2] False,
     Gen cuda ty_CUresult ''cuMemHostGetFlags'' [Ptr ty_unsigned_int, Ptr ty_void]
       ''cuMemHostGetFlags'' ty_CUresult [Ptr ty_unsigned_int, Ptr ty_void] ''cuMemHostGetFlags'' [0, 1] False,
     Gen cuda ty_CUresult ''cuMemAllocManaged'' [Ptr ty_CUdeviceptr, ty_size_t, ty_unsigned_int]
       ''cuMemAllocManaged'' ty_CUresult [Ptr ty_CUdeviceptr, ty_size_t, ty_unsigned_int] ''cuMemAllocManaged'' [0, 1, 2] False,
     Gen cuda ty_CUresult ''cuDeviceGetByPCIBusId'' [Ptr ty_CUdevice, Ptr (Const ty_char)]
       ''cuDeviceGetByPCIBusId'' ty_CUresult [Ptr ty_CUdevice, Ptr (Const ty_char)] ''cuDeviceGetByPCIBusId'' [0, 1] False,
     Gen cuda ty_CUresult ''cuDeviceGetPCIBusId'' [Ptr ty_char, ty_int, ty_CUdevice]
       ''cuDeviceGetPCIBusId'' ty_CUresult [Ptr ty_char, ty_int, ty_CUdevice] ''cuDeviceGetPCIBusId'' [0, 1, 2] False,
     Gen cuda ty_CUresult ''cuIpcGetEventHandle'' [Ptr ty_CUipcEventHandle, ty_CUevent]
       ''cuIpcGetEventHandle'' ty_CUresult [Ptr ty_CUipcEventHandle, ty_CUevent] ''cuIpcGetEventHandle'' [0, 1] False,
     Gen cuda ty_CUresult ''cuIpcOpenEventHandle'' [Ptr ty_CUevent, ty_CUipcEventHandle]
       ''cuIpcOpenEventHandle'' ty_CUresult [Ptr ty_CUevent, ty_CUipcEventHandle] ''cuIpcOpenEventHandle'' [0, 1] False,
     Gen cuda ty_CUresult ''cuIpcGetMemHandle'' [Ptr ty_CUipcMemHandle, ty_CUdeviceptr]
       ''cuIpcGetMemHandle'' ty_CUresult [Ptr ty_CUipcMemHandle, ty_CUdeviceptr] ''cuIpcGetMemHandle'' [0, 1] False,
     Gen cuda ty_CUresult ''cuIpcOpenMemHandle'' [Ptr ty_CUdeviceptr, ty_CUipcMemHandle, ty_unsigned_int]
       ''cuIpcOpenMemHandle'' ty_CUresult [Ptr ty_CUdeviceptr, ty_CUipcMemHandle, ty_unsigned_int] ''cuIpcOpenMemHandle'' [0, 1, 2] False,
     Gen cuda ty_CUresult ''cuIpcOpenMemHandle_v2'' [Ptr ty_CUdeviceptr, ty_CUipcMemHandle, ty_unsigned_int]
       ''cuIpcOpenMemHandle_v2'' ty_CUresult [Ptr ty_CUdeviceptr, ty_CUipcMemHandle, ty_unsigned_int] ''cuIpcOpenMemHandle_v2'' [0, 1, 2] False,
     Gen cuda ty_CUresult ''cuIpcCloseMemHandle'' [ty_CUdeviceptr]
       ''cuIpcCloseMemHandle'' ty_CUresult [ty_CUdeviceptr] ''cuIpcCloseMemHandle'' [0] False,
     Gen cuda ty_CUresult ''cuMemHostRegister'' [Ptr ty_void, ty_size_t, ty_unsigned_int]
       ''cuMemHostRegister'' ty_CUresult [Ptr ty_void, ty_size_t, ty_unsigned_int] ''cuMemHostRegister'' [0, 1, 2] False,
     Gen cuda ty_CUresult ''cuMemHostRegister_v2'' [Ptr ty_void, ty_size_t, ty_unsigned_int]
       ''cuMemHostRegister_v2'' ty_CUresult [Ptr ty_void, ty_size_t, ty_unsigned_int] ''cuMemHostRegister_v2'' [0, 1, 2] False,
     Gen cuda ty_CUresult ''cuMemHostUnregister'' [Ptr ty_void]
       ''cuMemHostUnregister'' ty_CUresult [Ptr ty_void] ''cuMemHostUnregister'' [0] False,
     Gen cuda ty_CUresult ''cuMemcpy'' [ty_CUdeviceptr, ty_CUdeviceptr, ty_size_t]
       ''cuMemcpy'' ty_CUresult [ty_CUdeviceptr, ty_CUdeviceptr, ty_size_t] ''cuMemcpy'' [0, 1, 2] False,
     Gen cuda ty_CUresult ''cuMemcpyPeer'' [ty_CUdeviceptr, ty_CUcontext, ty_CUdeviceptr, ty_CUcontext, ty_size_t]
       ''cuMemcpyPeer'' ty_CUresult [ty_CUdeviceptr, ty_CUcontext, ty_CUdeviceptr, ty_CUcontext, ty_size_t] ''cuMemcpyPeer'' [0, 1, 2, 3, 4] False]"

definition cuda_hooks_7 :: "gen_hook list" where
  "cuda_hooks_7 =
    [Gen cuda ty_CUresult ''cuMemcpyHtoD'' [ty_CUdeviceptr, Ptr (Const ty_void), ty_size_t]
       ''cuMemcpyHtoD'' ty_CUresult [ty_CUdeviceptr, Ptr (Const ty_void), ty_size_t] ''cuMemcpyHtoD'' [0, 1, 2] False,
     Gen cuda ty_CUresult ''cuMemcpyDtoH'' [Ptr ty_void, ty_CUdeviceptr, ty_size_t]
       ''cuMemcpyDtoH'' ty_CUresult [Ptr ty_void, ty_CUdeviceptr, ty_size_t] ''cuMemcpyDtoH'' [0, 1, 2] False,
     Gen cuda ty_CUresult ''cuMemcpyDtoD'' [ty_CUdeviceptr, ty_CUdeviceptr, ty_size_t]
       ''cuMemcpyDtoD'' ty_CUresult [ty_CUdeviceptr, ty_CUdeviceptr, ty_size_t] ''cuMemcpyDtoD'' [0, 1, 2] False,
     Gen cuda ty_CUresult ''cuMemcpyDtoA'' [ty_CUarray, ty_size_t, ty_CUdeviceptr, ty_size_t]
       ''cuMemcpyDtoA'' ty_CUresult [ty_CUarray, ty_size_t, ty_CUdeviceptr, ty_size_t] ''cuMemcpyDtoA'' [0, 1, 2, 3] False,
     Gen cuda ty_CUresult ''cuMemcpyAtoD'' [ty_CUdeviceptr, ty_CUarray, ty_size_t, ty_size_t]
       ''cuMemcpyAtoD'' ty_CUresult [ty_CUdeviceptr, ty_CUarray, ty_size_t, ty_size_t] ''cuMemcpyAtoD'' [0, 1, 2, 3] False,
     Gen cuda ty_CUresult ''cuMemcpyHtoA'' [ty_CUarray, ty_size_t, Ptr (Const ty_void), ty_size_t]
       ''cuMemcpyHtoA'' ty_CUresult [ty_CUarray, ty_size_t, Ptr (Const ty_void), ty_size_t] ''cuMemcpyHtoA'' [0, 1, 2, 3] False,
     Gen cuda ty_CUresult ''cuMemcpyAtoH'' [Ptr ty_void, ty_CUarray, ty_size_t, ty_size_t]
       ''cuMemcpyAtoH'' ty_CUresult [Ptr ty_void, ty_CUarray, ty_size_t, ty_size_t] ''cuMemcpyAtoH'' [0, 1, 2, 3] False,
     Gen cuda ty_CUresult ''cuMemcpyAtoA'' [ty_CUarray, ty_size_t, ty_CUarray, ty_size_t, ty_size_t]
       ''cuMemcpyAtoA'' ty_CUresult [ty_CUarray, ty_size_t, ty_CUarray, ty_size_t, ty_size_t] ''cuMemcpyAtoA'' [0, 1, 2, 3, 4] False,
     Gen cuda ty_CUresult ''cuMemcpy2D'' [Ptr (Const ty_CUDA_MEMCPY2D)]
       ''cuMemcpy2D'' ty_CUresult [Ptr (Const ty_CUDA_MEMCPY2D)] ''cuMemcpy2D'' [0] False,
     Gen cuda ty_CUresult ''cuMemcpy2DUnaligned'' [Ptr (Const ty_CUDA_MEMCPY2D)]
       ''cuMemcpy2DUnaligned'' ty_CUresult [Ptr (Const ty_CUDA_MEMCPY2D)] ''cuMemcpy2DUnaligned'' [0] False,
     Gen cuda ty_CUresult ''cuMemcpy3D'' [Ptr (Const ty_CUDA_MEMCPY3D)]
       ''cuMemcpy3D'' ty_CUresult [Ptr (Const ty_CUDA_MEMCPY3D)] ''cuMemcpy3D'' [0] False,
     Gen cuda ty_CUresult ''cuMemcpy3DPeer'' [Ptr (Const ty_CUDA_MEMCPY3D_PEER)]
       ''cuMemcpy3DPeer'' ty_CUresult [Ptr (Const ty_CUDA_MEMCPY3D_PEER)] ''cuMemcpy3DPeer'' [0] False,
     Gen cuda ty_CUresult ''cuMemcpyAsync'' [ty_CUdeviceptr, ty_CUdeviceptr, ty_size_t, ty_CUstream]
       ''cuMemcpyAsync'' ty_CUresult [ty_CUdeviceptr, ty_CUdeviceptr, ty_size_t, ty_CUstream] ''cuMemcpyAsync'' [0, 1, 2, 3] False,
     Gen cuda ty_CUresult ''cuMemcpyPeerAsync'' [ty_CUdeviceptr, ty_CUcontext, ty_CUdeviceptr, ty_CUcontext, ty_size_t, ty_CUstream]
       ''cuMemcpyPeerAsync'' ty_CUresult [ty_CUdeviceptr, ty_CUcontext, ty_CUdeviceptr, ty_CUcontext, ty_size_t, ty_CUstream] ''cuMemcpyPeerAsync'' [0, 1, 2, 3, 4, 5] False,
     Gen cuda ty_CUresult ''cuMemcpyHtoDAsync'' [ty_CUdeviceptr, Ptr (Const ty_void), ty_size_t, ty_CUstream]
       ''cuMemcpyHtoDAsync'' ty_CUresult [ty_CUdeviceptr, Ptr (Const ty_void), ty_size_t, ty_CUstream] ''cuMemcpyHtoDAsync'' [0, 1, 2, 3] False,
     Gen cuda ty_CUresult ''cuMemcpyDtoHAsync'' [Ptr ty_void, ty_CUdeviceptr, ty_size_t, ty_CUstream]
       ''cuMemcpyDtoHAsync'' ty_CUresult [Ptr ty_void, ty_CUdeviceptr, ty_size_t, ty_CUstream] ''cuMemcpyDtoHAsync'' [0, 1, 2, 3] False,
     Gen cuda ty_CUresult ''cuMemcpyDtoDAsync'' [ty_CUdeviceptr, ty_CUdeviceptr, ty_size_t, ty_CUstream]
       ''cuMemcpyDtoDAsync'' ty_CUresult [ty_CUdeviceptr, ty_CUdeviceptr, ty_size_t, ty_CUstream] ''cuMemcpyDtoDAsync'' [0, 1, 2, 3] False]"

definition cuda_hooks_8 :: "gen_hook list" where
  "cuda_hooks_8 =
    [Gen cuda ty_CUresult ''cuMemcpyHtoAAsync'' [ty_CUarray, ty_size_t, Ptr (Const ty_void), ty_size_t, ty_CUstream]
       ''cuMemcpyHtoAAsync'' ty_CUresult [ty_CUarray, ty_size_t, Ptr (Const ty_void), ty_size_t, ty_CUstream] ''cuMemcpyHtoAAsync'' [0, 1, 2, 3, 4] False,
     Gen cuda ty_CUresult ''cuMemcpyAtoHAsync'' [Ptr ty_void, ty_CUarray, ty_size_t, ty_size_t, ty_CUstream]
       ''cuMemcpyAtoHAsync'' ty_CUresult [Ptr ty_void, ty_CUarray, ty_size_t, ty_size_t, ty_CUstream] ''cuMemcpyAtoHAsync'' [0, 1, 2, 3, 4] False,
     Gen cuda ty_CUresult ''cuMemcpy2DAsync'' [Ptr (Const ty_CUDA_MEMCPY2D), ty_CUstream]
       ''cuMemcpy2DAsync'' ty_CUresult [Ptr (Const ty_CUDA_MEMCPY2D), ty_CUstream] ''cuMemcpy2DAsync'' [0, 1] False,
     Gen cuda ty_CUresult ''cuMemcpy3DAsync'' [Ptr (Const ty_CUDA_MEMCPY3D), ty_CUstream]
       ''cuMemcpy3DAsync'' ty_CUresult [Ptr (Const ty_CUDA_MEMCPY3D), ty_CUstream] ''cuMemcpy3DAsync'' [0, 1] False,
     Gen cuda ty_CUresult ''cuMemcpy3DPeerAsync'' [Ptr (Const ty_CUDA_MEMCPY3D_PEER), ty_CUstream]
       ''cuMemcpy3DPeerAsync'' ty_CUresult [Ptr (Const ty_CUDA_MEMCPY3D_PEER), ty_CUstream] ''cuMemcpy3DPeerAsync'' [0, 1] False,
     Gen cuda ty_CUresult ''cuMemsetD8'' [ty_CUdeviceptr, ty_unsigned_char, ty_size_t]
       ''cuMemsetD8'' ty_CUresult [ty_CUdeviceptr, ty_unsigned_char, ty_size_t] ''cuMemsetD8'' [0, 1, 2] False,
     Gen cuda ty_CUresult ''cuMemsetD16'' [ty_CUdeviceptr, ty_unsigned_short, ty_size_t]
       ''cuMemsetD16'' ty_CUresult [ty_CUdeviceptr, ty_unsigned_short, ty_size_t] ''cuMemsetD16'' [0, 1, 2] False,
     Gen cuda ty_CUresult ''cuMemsetD32'' [ty_CUdeviceptr, ty_unsigned_int, ty_size_t]
       ''cuMemsetD32'' ty_CUresult [ty_CUdeviceptr, ty_unsigned_int, ty_size_t] ''cuMemsetD32'' [0, 1, 2] False,
     Gen cuda ty_CUresult ''cuMemsetD2D8'' [ty_CUdeviceptr, ty_size_t, ty_unsigned_char, ty_size_t, ty_size_t]
       ''cuMemsetD2D8'' ty_CUresult [ty_CUdeviceptr, ty_size_t, ty_unsigned_char, ty_size_t, ty_size_t] ''cuMemsetD2D8'' [0, 1, 2, 3, 4] False,
     Gen cuda ty_CUresult ''cuMemsetD2D16'' [ty_CUdeviceptr, ty_size_t, ty_unsigned_short, ty_size_t, ty_size_t]
       ''cuMemsetD2D16'' ty_CUresult [ty_CUdeviceptr, ty_size_t, ty_unsigned_short, ty_size_t, ty_size_t] ''cuMemsetD2D16'' [0, 1, 2, 3, 4] False,
     Gen cuda ty_CUresult ''cuMemsetD2D32'' [ty_CUdeviceptr, ty_size_t, ty_unsigned_int, ty_size_t, ty_size_t]
       ''cuMemsetD2D32'' ty_CUresult [ty_CUdeviceptr, ty_size_t, ty_unsigned_int, ty_size_t, ty_size_t] ''cuMemsetD2D32'' [0, 1, 2, 3, 4] False,
     Gen cuda ty_CUresult ''cuMemsetD8Async'' [ty_CUdeviceptr, ty_unsigned_char, ty_size_t, ty_CUstream]
       ''cuMemsetD8Async'' ty_CUresult [ty_CUdeviceptr, ty_unsigned_char, ty_size_t, ty_CUstream] ''cuMemsetD8Async'' [0, 1, 2, 3] False,
     Gen cuda ty_CUresult ''cuMemsetD16Async'' [ty_CUdeviceptr, ty_unsigned_short, ty_size_t, ty_CUstream]
       ''cuMemsetD16Async'' ty_CUresult [ty_CUdeviceptr, ty_unsigned_short, ty_size_t, ty_CUstream] ''cuMemsetD16Async'' [0, 1, 2, 3] False,
     Gen cuda ty_CUresult ''cuMemsetD32Async'' [ty_CUdeviceptr, ty_unsigned_int, ty_size_t, ty_CUstream]
       ''cuMemsetD32Async'' ty_CUresult [ty_CUdeviceptr, ty_unsigned_int, ty_size_t, ty_CUstream] ''cuMemsetD32Async'' [0, 1, 2, 3] False,
     Gen cuda ty_CUresult ''cuMemsetD2D8Async'' [ty_CUdeviceptr, ty_size_t, ty_unsigned_char, ty_size_t, ty_size_t, ty_CUstream]
       ''cuMemsetD2D8Async'' ty_CUresult [ty_CUdeviceptr, ty_size_t, ty_unsigned_char, ty_size_t, ty_size_t, ty_CUstream] ''cuMemsetD2D8Async'' [0, 1, 2, 3, 4, 5] False,
     Gen cuda ty_CUresult ''cuMemsetD2D16Async'' [ty_CUdeviceptr, ty_size_t, ty_unsigned_short, ty_size_t, ty_size_t, ty_CUstream]
       ''cuMemsetD2D16Async'' ty_CUresult [ty_CUdeviceptr, ty_size_t, ty_unsigned_short, ty_size_t, ty_size_t, ty_CUstream] ''cuMemsetD2D16Async'' [0, 1, 2, 3, 4, 5] False,
     Gen cuda ty_CUresult ''cuMemsetD2D32Async'' [ty_CUdeviceptr, ty_size_t, ty_unsigned_int, ty_size_t, ty_size_t, ty_CUstream]
       ''cuMemsetD2D32Async'' ty_CUresult [ty_CUdeviceptr, ty_size_t, ty_unsigned_int, ty_size_t, ty_size_t, ty_CUstream] ''cuMemsetD2D32Async'' [0, 1, 2, 3, 4, 5] False]"

definition cuda_hooks_9 :: "gen_hook list" where
  "cuda_hooks_9 =
    [Gen cuda ty_CUresult ''cuArrayCreate'' [Ptr ty_CUarray, Ptr (Const ty_CUDA_ARRAY_DESCRIPTOR)]
       ''cuArrayCreate'' ty_CUresult [Ptr ty_CUarray, Ptr (Const ty_CUDA_ARRAY_DESCRIPTOR)] ''cuArrayCreate'' [0, 1] False,
     Gen cuda ty_CUresult ''cuArrayCreate_v2'' [Ptr ty_CUarray, Ptr (Const ty_CUDA_ARRAY_DESCRIPTOR)]
       ''cuArrayCreate_v2'' ty_CUresult [Ptr ty_CUarray, Ptr (Const ty_CUDA_ARRAY_DESCRIPTOR)] ''cuArrayCreate_v2'' [0, 1] False,
     Gen cuda ty_CUresult ''cuArrayGetDescriptor'' [Ptr ty_CUDA_ARRAY_DESCRIPTOR, ty_CUarray]
       ''cuArrayGetDescriptor'' ty_CUresult [Ptr ty_CUDA_ARRAY_DESCRIPTOR, ty_CUarray] ''cuArrayGetDescriptor'' [0, 1] False,
     Gen cuda ty_CUresult ''cuArrayGetDescriptor_v2'' [Ptr ty_CUDA_ARRAY_DESCRIPTOR, ty_CUarray]
       ''cuArrayGetDescriptor_v2'' ty_CUresult [Ptr ty_CUDA_ARRAY_DESCRIPTOR, ty_CUarray] ''cuArrayGetDescriptor_v2'' [0, 1] False,
     Gen cuda ty_CUresult ''cuArrayGetSparseProperties'' [Ptr ty_CUDA_ARRAY_SPARSE_PROPERTIES, ty_CUarray]
       ''cuArrayGetSparseProperties'' ty_CUresult [Ptr ty_CUDA_ARRAY_SPARSE_PROPERTIES, ty_CUarray] ''cuArrayGetSparseProperties'' [0, 1] False,
     Gen cuda ty_CUresult ''cuMipmappedArrayGetSparseProperties'' [Ptr ty_CUDA_ARRAY_SPARSE_PROPERTIES, ty_CUmipmappedArray]
       ''cuMipmappedArrayGetSparseProperties'' ty_CUresult [Ptr ty_CUDA_ARRAY_SPARSE_PROPERTIES, ty_CUmipmappedArray] ''cuMipmappedArrayGetSparseProperties'' [0, 1] False,
     Gen cuda ty_CUresult ''cuArrayGetPlane'' [Ptr ty_CUarray, ty_CUarray, ty_unsigned_int]
       ''cuArrayGetPlane'' ty_CUresult [Ptr ty_CUarray, ty_CUarray, ty_unsigned_int] ''cuArrayGetPlane'' [0, 1, 2] False,
     Gen cuda ty_CUresult ''cuArrayDestroy'' [ty_CUarray]
       ''cuArrayDestroy'' ty_CUresult [ty_CUarray] ''cuArrayDestroy'' [0] False,
     Gen cuda ty_CUresult ''cuArray3DCreate'' [Ptr ty_CUarray, Ptr (Const ty_CUDA_ARRAY3D_DESCRIPTOR)]
       ''cuArray3DCreate'' ty_CUresult [Ptr ty_CUarray, Ptr (Const ty_CUDA_ARRAY3D_DESCRIPTOR)] ''cuArray3DCreate'' [0, 1] False,
     Gen cuda ty_CUresult ''cuArray3DCreate_v2'' [Ptr ty_CUarray, Ptr (Const ty_CUDA_ARRAY3D_DESCRIPTOR)]
       ''cuArray3DCreate_v2'' ty_CUresult [Ptr ty_CUarray, Ptr (Const ty_CUDA_ARRAY3D_DESCRIPTOR)] ''cuArray3DCreate_v2'' [0, 1] False,
     Gen cuda ty_CUresult ''cuArray3DGetDescriptor'' [Ptr ty_CUDA_ARRAY3D_DESCRIPTOR, ty_CUarray]
       ''cuArray3DGetDescriptor'' ty_CUresult [Ptr ty_CUDA_ARRAY3D_DESCRIPTOR, ty_CUarray] ''cuArray3DGetDescriptor'' [0, 1] False,
     Gen cuda ty_CUresult ''cuArray3DGetDescriptor_v2'' [Ptr ty_CUDA_ARRAY3D_DESCRIPTOR, ty_CUarray]
       ''cuArray3DGetDescriptor_v2'' ty_CUresult [Ptr ty_CUDA_ARRAY3D_DESCRIPTOR, ty_CUarray] ''cuArray3DGetDescriptor_v2'' [0, 1] False,
     Gen cuda ty_CUresult ''cuMipmappedArrayCreate'' [Ptr ty_CUmipmappedArray, Ptr (Const ty_CUDA_ARRAY3D_DESCRIPTOR), ty_unsigned_int]
       ''cuMipmappedArrayCreate'' ty_CUresult [Ptr ty_CUmipmappedArray, Ptr (Const ty_CUDA_ARRAY3D_DESCRIPTOR), ty_unsigned_int] ''cuMipmappedArrayCreate'' [0, 1, 2] False,
     Gen cuda ty_CUresult ''cuMipmappedArrayGetLevel'' [Ptr ty_CUarray, ty_CUmipmappedArray, ty_unsigned_int]
       ''cuMipmappedArrayGetLevel'' ty_CUresult [Ptr ty_CUarray, ty_CUmipmappedArray, ty_unsigned_int] ''cuMipmappedArrayGetLevel'' [0, 1, 2] False,
     Gen cuda ty_CUresult ''cuMipmappedArrayDestroy'' [ty_CUmipmappedArray]
       ''cuMipmappedArrayDestroy'' ty_CUresult [ty_CUmipmappedArray] ''cuMipmappedArrayDestroy'' [0] False,
     Gen cuda ty_CUresult ''cuMemAddressReserve'' [Ptr ty_CUdeviceptr, ty_size_t, ty_size_t, ty_CUdeviceptr, ty_unsigned_long_long]
       ''cuMemAddressReserve'' ty_CUresult [Ptr ty_CUdeviceptr, ty_size_t, ty_size_t, ty_CUdeviceptr, ty_unsigned_long_long] ''cuMemAddressReserve'' [0, 1, 2, 3, 4] False,
     Gen cuda ty_CUresult ''cuMemAddressFree'' [ty_CUdeviceptr, ty_size_t]
       ''cuMemAddressFree'' ty_CUresult [ty_CUdeviceptr, ty_size_t] ''cuMemAddressFree'' [0, 1] False]"

definition cuda_hooks_10 :: "gen_hook list" where
  "cuda_hooks_10 =
    [Gen cuda ty_CUresult ''cuMemCreate'' [Ptr ty_CUmemGenericAllocationHandle, ty_size_t, Ptr (Const ty_CUmemAllocationProp), ty_unsigned_long_long]
       ''cuMemCreate'' ty_CUresult [Ptr ty_CUmemGenericAllocationHandle, ty_size_t, Ptr (Const ty_CUmemAllocationProp), ty_unsigned_long_long] ''cuMemCreate'' [0, 1, 2, 3] False,
     Gen cuda ty_CUresult ''cuMemRelease'' [ty_CUmemGenericAllocationHandle]
       ''cuMemRelease'' ty_CUresult [ty_CUmemGenericAllocationHandle] ''cuMemRelease'' [0] False,
     Gen cuda ty_CUresult ''cuMemMap'' [ty_CUdeviceptr, ty_size_t, ty_size_t, ty_CUmemGenericAllocationHandle, ty_unsigned_long_long]
       ''cuMemMap'' ty_CUresult [ty_CUdeviceptr, ty_size_t, ty_size_t, ty_CUmemGenericAllocationHandle, ty_unsigned_long_long] ''cuMemMap'' [0, 1, 2, 3, 4] False,
     Gen cuda ty_CUresult ''cuMemMapArrayAsync'' [Ptr ty_CUarrayMapInfo, ty_unsigned_int, ty_CUstream]
       ''cuMemMapArrayAsync'' ty_CUresult [Ptr ty_CUarrayMapInfo, ty_unsigned_int, ty_CUstream] ''cuMemMapArrayAsync'' [0, 1, 2] False,
     Gen cuda ty_CUresult ''cuMemUnmap'' [ty_CUdeviceptr, ty_size_t]
       ''cuMemUnmap'' ty_CUresult [ty_CUdeviceptr, ty_size_t] ''cuMemUnmap'' [0, 1] False,
     Gen cuda ty_CUresult ''cuMemSetAccess'' [ty_CUdeviceptr, ty_size_t, Ptr (Const ty_CUmemAccessDesc), ty_size_t]
       ''cuMemSetAccess'' ty_CUresult [ty_CUdeviceptr, ty_size_t, Ptr (Const ty_CUmemAccessDesc), ty_size_t] ''cuMemSetAccess'' [0, 1, 2, 3] False,
     Gen cuda ty_CUresult ''cuMemGetAccess'' [Ptr ty_unsigned_long_long, Ptr (Const ty_CUmemLocation), ty_CUdeviceptr]
       ''cuMemGetAccess'' ty_CUresult [Ptr ty_unsigned_long_long, Ptr (Const ty_CUmemLocation), ty_CUdeviceptr] ''cuMemGetAccess'' [0, 1, 2] False,
     Gen cuda ty_CUresult ''cuMemExportToShareableHandle'' [Ptr ty_void, ty_CUmemGenericAllocationHandle, ty_CUmemAllocationHandleType, ty_unsigned_long_long]
       ''cuMemExportToShareableHandle'' ty_CUresult [Ptr ty_void, ty_CUmemGenericAllocationHandle, ty_CUmemAllocationHandleType, ty_unsigned_long_long] ''cuMemExportToShareableHandle'' [0, 1, 2, 3] False,
     Gen cuda ty_CUresult ''cuMemImportFromShareableHandle'' [Ptr ty_CUmemGenericAllocationHandle, Ptr ty_void, ty_CUmemAllocationHandleType]
       ''cuMemImportFromShareableHandle'' ty_CUresult [Ptr ty_CUmemGenericAllocationHandle, Ptr ty_void, ty_CUmemAllocationHandleType] ''cuMemImportFromShareableHandle'' [0, 1, 2] False,
     Gen cuda ty_CUresult ''cuMemGetAllocationGranularity'' [Ptr ty_size_t, Ptr (Const ty_CUmemAllocationProp), ty_CUmemAllocationGranularity_flags]
       ''cuMemGetAllocationGranularity'' ty_CUresult [Ptr ty_size_t, Ptr (Const ty_CUmemAllocationProp), ty_CUmemAllocationGranularity_flags] ''cuMemGetAllocationGranularity'' [0, 1, 2] False,
     Gen cuda ty_CUresult ''cuMemGetAllocationPropertiesFromHandle'' [Ptr ty_CUmemAllocationProp, ty_CUmemGenericAllocationHandle]
       ''cuMemGetAllocationPropertiesFromHandle'' ty_CUresult [Ptr ty_CUmemAllocationProp, ty_CUmemGenericAllocationHandle] ''cuMemGetAllocationPropertiesFromHandle'' [0, 1] False,
     Gen cuda ty_CUresult ''cuMemRetainAllocationHandle'' [Ptr ty_CUmemGenericAllocationHandle, Ptr ty_void]
       ''cuMemRetainAllocationHandle'' ty_CUresult [Ptr ty_CUmemGenericAllocationHandle, Ptr ty_void] ''cuMemRetainAllocationHandle'' [0, 1] False,
     Gen cuda ty_CUresult ''cuMemFreeAsync'' [ty_CUdeviceptr, ty_CUstream]
       ''cuMemFreeAsync'' ty_CUresult [ty_CUdeviceptr, ty_CUstream] ''cuMemFreeAsync'' [0, 1] False,
     Gen cuda ty_CUresult ''cuMemAllocAsync'' [Ptr ty_CUdeviceptr, ty_size_t, ty_CUstream]
       ''cuMemAllocAsync'' ty_CUresult [Ptr ty_CUdeviceptr, ty_size_t, ty_CUstream] ''cuMemAllocAsync'' [0, 1, 2] False,
     Gen cuda ty_CUresult ''cuMemPoolTrimTo'' [ty_CUmemoryPool, ty_size_t]
       ''cuMemPoolTrimTo'' ty_CUresult [ty_CUmemoryPool, ty_size_t] ''cuMemPoolTrimTo'' [0, 1] False,
     Gen cuda ty_CUresult ''cuMemPoolSetAttribute'' [ty_CUmemoryPool, ty_CUmemPool_attribute, Ptr ty_void]
       ''cuMemPoolSetAttribute'' ty_CUresult [ty_CUmemoryPool, ty_CUmemPool_attribute, Ptr ty_void] ''cuMemPoolSetAttribute'' [0, 1, 2] False,
     Gen cuda ty_CUresult ''cuMemPoolGetAttribute'' [ty_CUmemoryPool, ty_CUmemPool_attribute, Ptr ty_void]
       ''cuMemPoolGetAttribute'' ty_CUresult [ty_CUmemoryPool, ty_CUmemPool_attribute, Ptr ty_void] ''cuMemPoolGetAttribute'' [0, 1, 2] False]"

definition cuda_hooks_11 :: "gen_hook list" where
  "cuda_hooks_11 =
    [Gen cuda ty_CUresult ''cuMemPoolSetAccess'' [ty_CUmemoryPool, Ptr (Const ty_CUmemAccessDesc), ty_size_t]
       ''cuMemPoolSetAccess'' ty_CUresult [ty_CUmemoryPool, Ptr (Const ty_CUmemAccessDesc), ty_size_t] ''cuMemPoolSetAccess'' [0, 1, 2] False,
     Gen cuda ty_CUresult ''cuMemPoolGetAccess'' [Ptr ty_CUmemAccess_flags, ty_CUmemoryPool, Ptr ty_CUmemLocation]
       ''cuMemPoolGetAccess'' ty_CUresult [Ptr ty_CUmemAccess_flags, ty_CUmemoryPool, Ptr ty_CUmemLocation] ''cuMemPoolGetAccess'' [0, 1, 2] False,
     Gen cuda ty_CUresult ''cuMemPoolCreate'' [Ptr ty_CUmemoryPool, Ptr (Const ty_CUmemPoolProps)]
       ''cuMemPoolCreate'' ty_CUresult [Ptr ty_CUmemoryPool, Ptr (Const ty_CUmemPoolProps)] ''cuMemPoolCreate'' [0, 1] False,
     Gen cuda ty_CUresult ''cuMemPoolDestroy'' [ty_CUmemoryPool]
       ''cuMemPoolDestroy'' ty_CUresult [ty_CUmemoryPool] ''cuMemPoolDestroy'' [0] False,
     Gen cuda ty_CUresult ''cuMemAllocFromPoolAsync'' [Ptr ty_CUdeviceptr, ty_size_t, ty_CUmemoryPool, ty_CUstream]
       ''cuMemAllocFromPoolAsync'' ty_CUresult [Ptr ty_CUdeviceptr, ty_size_t, ty_CUmemoryPool, ty_CUstream] ''cuMemAllocFromPoolAsync'' [0, 1, 2, 3] False,
     Gen cuda ty_CUresult ''cuMemPoolExportToShareableHandle'' [Ptr ty_void, ty_CUmemoryPool, ty_CUmemAllocationHandleType, ty_unsigned_long_long]
       ''cuMemPoolExportToShareableHandle'' ty_CUresult [Ptr ty_void, ty_CUmemoryPool, ty_CUmemAllocationHandleType, ty_unsigned_long_long] ''cuMemPoolExportToShareableHandle'' [0, 1, 2, 3] False,
     Gen cuda ty_CUresult ''cuMemPoolImportFromShareableHandle'' [Ptr ty_CUmemoryPool, Ptr ty_void, ty_CUmemAllocationHandleType, ty_unsigned_long_long]
       ''cuMemPoolImportFromShareableHandle'' ty_CUresult [Ptr ty_CUmemoryPool, Ptr ty_void, ty_CUmemAllocationHandleType, ty_unsigned_long_long] ''cuMemPoolImportFromShareableHandle'' [0, 1, 2, 3] False,
     Gen cuda ty_CUresult ''cuMemPoolExportPointer'' [Ptr ty_CUmemPoolPtrExportData, ty_CUdeviceptr]
       ''cuMemPoolExportPointer'' ty_CUresult [Ptr ty_CUmemPoolPtrExportData, ty_CUdeviceptr] ''cuMemPoolExportPointer'' [0, 1] False,
     Gen cuda ty_CUresult ''cuMemPoolImportPointer'' [Ptr ty_CUdeviceptr, ty_CUmemoryPool, Ptr ty_CUmemPoolPtrExportData]
       ''cuMemPoolImportPointer'' ty_CUresult [Ptr ty_CUdeviceptr, ty_CUmemoryPool, Ptr ty_CUmemPoolPtrExportData] ''cuMemPoolImportPointer'' [0, 1, 2] False,
     Gen cuda ty_CUresult ''cuPointerGetAttribute'' [Ptr ty_void, ty_CUpointer_attribute, ty_CUdeviceptr]
       ''cuPointerGetAttribute'' ty_CUresult [Ptr ty_void, ty_CUpointer_attribute, ty_CUdeviceptr] ''cuPointerGetAttribute'' [0, 1, 2] False,
     Gen cuda ty_CUresult ''cuMemPrefetchAsync'' [ty_CUdeviceptr, ty_size_t, ty_CUdevice, ty_CUstream]
       ''cuMemPrefetchAsync'' ty_CUresult [ty_CUdeviceptr, ty_size_t, ty_CUdevice, ty_CUstream] ''cuMemPrefetchAsync'' [0, 1, 2, 3] False,
     Gen cuda ty_CUresult ''cuMemAdvise'' [ty_CUdeviceptr, ty_size_t, ty_CUmem_advise, ty_CUdevice]
       ''cuMemAdvise'' ty_CUresult [ty_CUdeviceptr, ty_size_t, ty_CUmem_advise, ty_CUdevice] ''cuMemAdvise'' [0, 1, 2, 3] False,
     Gen cuda ty_CUresult ''cuMemRangeGetAttribute'' [Ptr ty_void, ty_size_t, ty_CUmem_range_attribute, ty_CUdeviceptr, ty_size_t]
       ''cuMemRangeGetAttribute'' ty_CUresult [Ptr ty_void, ty_size_t, ty_CUmem_range_attribute, ty_CUdeviceptr, ty_size_t] ''cuMemRangeGetAttribute'' [0, 1, 2, 3, 4] False,
     Gen cuda ty_CUresult ''cuMemRangeGetAttributes'' [Ptr (Ptr ty_void), Ptr ty_size_t, Ptr ty_CUmem_range_attribute, ty_size_t, ty_CUdeviceptr, ty_size_t]
       ''cuMemRangeGetAttributes'' ty_CUresult [Ptr (Ptr ty_void), Ptr ty_size_t, Ptr ty_CUmem_range_attribute, ty_size_t, ty_CUdeviceptr, ty_size_t] ''cuMemRangeGetAttributes'' [0, 1, 2, 3, 4, 5] False,
     Gen cuda ty_CUresult ''cuPointerSetAttribute'' [Ptr (Const ty_void), ty_CUpointer_attribute, ty_CUdeviceptr]
       ''cuPointerSetAttribute'' ty_CUresult [Ptr (Const ty_void), ty_CUpointer_attribute, ty_CUdeviceptr] ''cuPointerSetAttribute'' [0, 1, 2] False,
     Gen cuda ty_CUresult ''cuPointerGetAttributes'' [ty_unsigned_int, Ptr ty_CUpointer_attribute, Ptr (Ptr ty_void), ty_CUdeviceptr]
       ''cuPointerGetAttributes'' ty_CUresult [ty_unsigned_int, Ptr ty_CUpointer_attribute, Ptr (Ptr ty_void), ty_CUdeviceptr] ''cuPointerGetAttributes'' [0, 1, 2, 3] False,
     Gen cuda ty_CUresult ''cuStreamCreate'' [Ptr ty_CUstream, ty_unsigned_int]
       ''cuStreamCreate'' ty_CUresult [Ptr ty_CUstream, ty_unsigned_int] ''cuStreamCreate'' [0, 1] False]"

definition cuda_hooks_12 :: "gen_hook list" where
  "cuda_hooks_12 =
    [Gen cuda ty_CUresult ''cuStreamCreateWithPriority'' [Ptr ty_CUstream, ty_unsigned_int, ty_int]
       ''cuStreamCreateWithPriority'' ty_CUresult [Ptr ty_CUstream, ty_unsigned_int, ty_int] ''cuStreamCreateWithPriority'' [0, 1, 2] False,
     Gen cuda ty_CUresult ''cuStreamGetPriority'' [ty_CUstream, Ptr ty_int]
       ''cuStreamGetPriority'' ty_CUresult [ty_CUstream, Ptr ty_int] ''cuStreamGetPriority'' [0, 1] False,
     Gen cuda ty_CUresult ''cuStreamGetFlags'' [ty_CUstream, Ptr ty_unsigned_int]
       ''cuStreamGetFlags'' ty_CUresult [ty_CUstream, Ptr ty_unsigned_int] ''cuStreamGetFlags'' [0, 1] False,
     Gen cuda ty_CUresult ''cuStreamGetCtx'' [ty_CUstream, Ptr ty_CUcontext]
       ''cuStreamGetCtx'' ty_CUresult [ty_CUstream, Ptr ty_CUcontext] ''cuStreamGetCtx'' [0, 1] False,
     Gen cuda ty_CUresult ''cuStreamWaitEvent'' [ty_CUstream, ty_CUevent, ty_unsigned_int]
       ''cuStreamWaitEvent'' ty_CUresult [ty_CUstream, ty_CUevent, ty_unsigned_int] ''cuStreamWaitEvent'' [0, 1, 2] False,
     Gen cuda ty_CUresult ''cuStreamAddCallback'' [ty_CUstream, ty_CUstreamCallback, Ptr ty_void, ty_unsigned_int]
       ''cuStreamAddCallback'' ty_CUresult [ty_CUstream, ty_CUstreamCallback, Ptr ty_void, ty_unsigned_int] ''cuStreamAddCallback'' [0, 1, 2, 3] False,
     Gen cuda ty_CUresult ''cuStreamBeginCapture'' [ty_CUstream, ty_CUstreamCaptureMode]
       ''cuStreamBeginCapture'' ty_CUresult [ty_CUstream, ty_CUstreamCaptureMode] ''cuStreamBeginCapture'' [0, 1] False,
     Gen cuda ty_CUresult ''cuThreadExchangeStreamCaptureMode'' [Ptr ty_CUstreamCaptureMode]
       ''cuThreadExchangeStreamCaptureMode'' ty_CUresult [Ptr ty_CUstreamCaptureMode] ''cuThreadExchangeStreamCaptureMode'' [0] False,
     Gen cuda ty_CUresult ''cuStreamEndCapture'' [ty_CUstream, Ptr ty_CUgraph]
       ''cuStreamEndCapture'' ty_CUresult [ty_CUstream, Ptr ty_CUgraph] ''cuStreamEndCapture'' [0, 1] False,
     Gen cuda ty_CUresult ''cuStreamIsCapturing'' [ty_CUstream, Ptr ty_CUstreamCaptureStatus]
       ''cuStreamIsCapturing'' ty_CUresult [ty_CUstream, Ptr ty_CUstreamCaptureStatus] ''cuStreamIsCapturing'' [0, 1] False,
     Gen cuda ty_CUresult ''cuStreamGetCaptureInfo'' [ty_CUstream, Ptr ty_CUstreamCaptureStatus, Ptr ty_cuuint64_t]
       ''cuStreamGetCaptureInfo'' ty_CUresult [ty_CUstream, Ptr ty_CUstreamCaptureStatus, Ptr ty_cuuint64_t] ''cuStreamGetCaptureInfo'' [0, 1, 2] False,
     Gen cuda ty_CUresult ''cuStreamGetCaptureInfo_v2'' [ty_CUstream, Ptr ty_CUstreamCaptureStatus, Ptr ty_cuuint64_t, Ptr ty_CUgraph, Ptr (Ptr (Const ty_CUgraphNode)), Ptr ty_size_t]
       ''cuStreamGetCaptureInfo_v2'' ty_CUresult [ty_CUstream, Ptr ty_CUstreamCaptureStatus, Ptr ty_cuuint64_t, Ptr ty_CUgraph, Ptr (Ptr (Const ty_CUgraphNode)), Ptr ty_size_t] ''cuStreamGetCaptureInfo_v2'' [0, 1, 2, 3, 4, 5] False,
     Gen cuda ty_CUresult ''cuStreamUpdateCaptureDependencies'' [ty_CUstream, Ptr ty_CUgraphNode, ty_size_t, ty_unsigned_int]
       ''cuStreamUpdateCaptureDependencies'' ty_CUresult [ty_CUstream, Ptr ty_CUgraphNode, ty_size_t, ty_unsigned_int] ''cuStreamUpdateCaptureDependencies'' [0, 1, 2, 3] False,
     Gen cuda ty_CUresult ''cuStreamAttachMemAsync'' [ty_CUstream, ty_CUdeviceptr, ty_size_t, ty_unsigned_int]
       ''cuStreamAttachMemAsync'' ty_CUresult [ty_CUstream, ty_CUdeviceptr, ty_size_t, ty_unsigned_int] ''cuStreamAttachMemAsync'' [0, 1, 2, 3] False,
     Gen cuda ty_CUresult ''cuStreamQuery'' [ty_CUstream]
       ''cuStreamQuery'' ty_CUresult [ty_CUstream] ''cuStreamQuery'' [0] False,
     Gen cuda ty_CUresult ''cuStreamSynchronize'' [ty_CUstream]
       ''cuStreamSynchronize'' ty_CUresult [ty_CUstream] ''cuStreamSynchronize'' [0] False,
     Gen cuda ty_CUresult ''cuStreamDestroy'' [ty_CUstream]
       ''cuStreamDestroy'' ty_CUresult [ty_CUstream] ''cuStreamDestroy'' [0] False]"

definition cuda_hooks_13 :: "gen_hook list" where
  "cuda_hooks_13 =
    [Gen cuda ty_CUresult ''cuStreamDestroy_v2'' [ty_CUstream]
       ''cuStreamDestroy_v2'' ty_CUresult [ty_CUstream] ''cuStreamDestroy_v2'' [0] False,
     Gen cuda ty_CUresult ''cuStreamCopyAttributes'' [ty_CUstream, ty_CUstream]
       ''cuStreamCopyAttributes'' ty_CUresult [ty_CUstream, ty_CUstream] ''cuStreamCopyAttributes'' [0, 1] False,
     Gen cuda ty_CUresult ''cuStreamGetAttribute'' [ty_CUstream, ty_CUstreamAttrID, Ptr ty_CUstreamAttrValue]
       ''cuStreamGetAttribute'' ty_CUresult [ty_CUstream, ty_CUstreamAttrID, Ptr ty_CUstreamAttrValue] ''cuStreamGetAttribute'' [0, 1, 2] False,
     Gen cuda ty_CUresult ''cuStreamSetAttribute'' [ty_CUstream, ty_CUstreamAttrID, Ptr (Const ty_CUstreamAttrValue)]
       ''cuStreamSetAttribute'' ty_CUresult [ty_CUstream, ty_CUstreamAttrID, Ptr (Const ty_CUstreamAttrValue)] ''cuStreamSetAttribute'' [0, 1, 2] False,
     Gen cuda ty_CUresult ''cuEventCreate'' [Ptr ty_CUevent, ty_unsigned_int]
       ''cuEventCreate'' ty_CUresult [Ptr ty_CUevent, ty_unsigned_int] ''cuEventCreate'' [0, 1] False,
     Gen cuda ty_CUresult ''cuEventRecord'' [ty_CUevent, ty_CUstream]
       ''cuEventRecord'' ty_CUresult [ty_CUevent, ty_CUstream] ''cuEventRecord'' [0, 1] False,
     Gen cuda ty_CUresult ''cuEventRecordWithFlags'' [ty_CUevent, ty_CUstream, ty_unsigned_int]
       ''cuEventRecordWithFlags'' ty_CUresult [ty_CUevent, ty_CUstream, ty_unsigned_int] ''cuEventRecordWithFlags'' [0, 1, 2] False,
     Gen cuda ty_CUresult ''cuEventQuery'' [ty_CUevent]
       ''cuEventQuery'' ty_CUresult [ty_CUevent] ''cuEventQuery'' [0] False,
     Gen cuda ty_CUresult ''cuEventSynchronize'' [ty_CUevent]
       ''cuEventSynchronize'' ty_CUresult [ty_CUevent] ''cuEventSynchronize'' [0] False,
     Gen cuda ty_CUresult ''cuEventDestroy'' [ty_CUevent]
       ''cuEventDestroy'' ty_CUresult [ty_CUevent] ''cuEventDestroy'' [0] False,
     Gen cuda ty_CUresult ''cuEventDestroy_v2'' [ty_CUevent]
       ''cuEventDestroy_v2'' ty_CUresult [ty_CUevent] ''cuEventDestroy_v2'' [0] False,
     Gen cuda ty_CUresult ''cuEventElapsedTime'' [Ptr ty_float, ty_CUevent, ty_CUevent]
       ''cuEventElapsedTime'' ty_CUresult [Ptr ty_float, ty_CUevent, ty_CUevent] ''cuEventElapsedTime'' [0, 1, 2] False,
     Gen cuda ty_CUresult ''cuImportExternalMemory'' [Ptr ty_CUexternalMemory, Ptr (Const ty_CUDA_EXTERNAL_MEMORY_HANDLE_DESC)]
       ''cuImportExternalMemory'' ty_CUresult [Ptr ty_CUexternalMemory, Ptr (Const ty_CUDA_EXTERNAL_MEMORY_HANDLE_DESC)] ''cuImportExternalMemory'' [0, 1] False,
     Gen cuda ty_CUresult ''cuExternalMemoryGetMappedBuffer'' [Ptr ty_CUdeviceptr, ty_CUexternalMemory, Ptr (Const ty_CUDA_EXTERNAL_MEMORY_BUFFER_DESC)]
       ''cuExternalMemoryGetMappedBuffer'' ty_CUresult [Ptr ty_CUdeviceptr, ty_CUexternalMemory, Ptr (Const ty_CUDA_EXTERNAL_MEMORY_BUFFER_DESC)] ''cuExternalMemoryGetMappedBuffer'' [0, 1, 2] False,
     Gen cuda ty_CUresult ''cuExternalMemoryGetMappedMipmappedArray'' [Ptr ty_CUmipmappedArray, ty_CUexternalMemory, Ptr (Const ty_CUDA_EXTERNAL_MEMORY_MIPMAPPED_ARRAY_DESC)]
       ''cuExternalMemoryGetMappedMipmappedArray'' ty_CUresult [Ptr ty_CUmipmappedArray, ty_CUexternalMemory, Ptr (Const ty_CUDA_EXTERNAL_MEMORY_MIPMAPPED_ARRAY_DESC)] ''cuExternalMemoryGetMappedMipmappedArray'' [0, 1, 2] False,
     Gen cuda ty_CUresult ''cuDestroyExternalMemory'' [ty_CUexternalMemory]
       ''cuDestroyExternalMemory'' ty_CUresult [ty_CUexternalMemory] ''cuDestroyExternalMemory'' [0] False,
     Gen cuda ty_CUresult ''cuImportExternalSemaphore'' [Ptr ty_CUexternalSemaphore, Ptr (Const ty_CUDA_EXTERNAL_SEMAPHORE_HANDLE_DESC)]
       ''cuImportExternalSemaphore'' ty_CUresult [Ptr ty_CUexternalSemaphore, Ptr (Const ty_CUDA_EXTERNAL_SEMAPHORE_HANDLE_DESC)] ''cuImportExternalSemaphore'' [0, 1] False]"

definition cuda_hooks_14 :: "gen_hook list" where
  "cuda_hooks_14 =
    [Gen cuda ty_CUresult ''cuSignalExternalSemaphoresAsync'' [Ptr (Const ty_CUexternalSemaphore), Ptr (Const ty_CUDA_EXTERNAL_SEMAPHORE_SIGNAL_PARAMS), ty_unsigned_int, ty_CUstream]
       ''cuSignalExternalSemaphoresAsync'' ty_CUresult [Ptr (Const ty_CUexternalSemaphore), Ptr (Const ty_CUDA_EXTERNAL_SEMAPHORE_SIGNAL_PARAMS), ty_unsigned_int, ty_CUstream] ''cuSignalExternalSemaphoresAsync'' [0, 1, 2, 3] False,
     Gen cuda ty_CUresult ''cuWaitExternalSemaphoresAsync'' [Ptr (Const ty_CUexternalSemaphore), Ptr (Const ty_CUDA_EXTERNAL_SEMAPHORE_WAIT_PARAMS), ty_unsigned_int, ty_CUstream]
       ''cuWaitExternalSemaphoresAsync'' ty_CUresult [Ptr (Const ty_CUexternalSemaphore), Ptr (Const ty_CUDA_EXTERNAL_SEMAPHORE_WAIT_PARAMS), ty_unsigned_int, ty_CUstream] ''cuWaitExternalSemaphoresAsync'' [0, 1, 2, 3] False,
     Gen cuda ty_CUresult ''cuDestroyExternalSemaphore'' [ty_CUexternalSemaphore]
       ''cuDestroyExternalSemaphore'' ty_CUresult [ty_CUexternalSemaphore] ''cuDestroyExternalSemaphore'' [0] False,
     Gen cuda ty_CUresult ''cuStreamWaitValue32'' [ty_CUstream, ty_CUdeviceptr, ty_cuuint32_t, ty_unsigned_int]
       ''cuStreamWaitValue32'' ty_CUresult [ty_CUstream, ty_CUdeviceptr, ty_cuuint32_t, ty_unsigned_int] ''cuStreamWaitValue32'' [0, 1, 2, 3] False,
     Gen cuda ty_CUresult ''cuStreamWaitValue64'' [ty_CUstream, ty_CUdeviceptr, ty_cuuint64_t, ty_unsigned_int]
       ''cuStreamWaitValue64'' ty_CUresult [ty_CUstream, ty_CUdeviceptr, ty_cuuint64_t, ty_unsigned_int] ''cuStreamWaitValue64'' [0, 1, 2, 3] False,
     Gen cuda ty_CUresult ''cuStreamWriteValue32'' [ty_CUstream, ty_CUdeviceptr, ty_cuuint32_t, ty_unsigned_int]
       ''cuStreamWriteValue32'' ty_CUresult [ty_CUstream, ty_CUdeviceptr, ty_cuuint32_t, ty_unsigned_int] ''cuStreamWriteValue32'' [0, 1, 2, 3] False,
     Gen cuda ty_CUresult ''cuStreamWriteValue64'' [ty_CUstream, ty_CUdeviceptr, ty_cuuint64_t, ty_unsigned_int]
       ''cuStreamWriteValue64'' ty_CUresult [ty_CUstream, ty_CUdeviceptr, ty_cuuint64_t, ty_unsigned_int] ''cuStreamWriteValue64'' [0, 1, 2, 3] False,
     Gen cuda ty_CUresult ''cuStreamBatchMemOp'' [ty_CUstream, ty_unsigned_int, Ptr ty_CUstreamBatchMemOpParams, ty_unsigned_int]
       ''cuStreamBatchMemOp'' ty_CUresult [ty_CUstream, ty_unsigned_int, Ptr ty_CUstreamBatchMemOpParams, ty_unsigned_int] ''cuStreamBatchMemOp'' [0, 1, 2, 3] False,
     Gen cuda ty_CUresult ''cuFuncGetAttribute'' [Ptr ty_int, ty_CUfunction_attribute, ty_CUfunction]
       ''cuFuncGetAttribute'' ty_CUresult [Ptr ty_int, ty_CUfunction_attribute, ty_CUfunction] ''cuFuncGetAttribute'' [0, 1, 2] False,
     Gen cuda ty_CUresult ''cuFuncSetAttribute'' [ty_CUfunction, ty_CUfunction_attribute, ty_int]
       ''cuFuncSetAttribute'' ty_CUresult [ty_CUfunction, ty_CUfunction_attribute, ty_int] ''cuFuncSetAttribute'' [0, 1, 2] False,
     Gen cuda ty_CUresult ''cuFuncSetCacheConfig'' [ty_CUfunction, ty_CUfunc_cache]
       ''cuFuncSetCacheConfig'' ty_CUresult [ty_CUfunction, ty_CUfunc_cache] ''cuFuncSetCacheConfig'' [0, 1] False,
     Gen cuda ty_CUresult ''cuFuncSetSharedMemConfig'' [ty_CUfunction, ty_CUsharedconfig]
       ''cuFuncSetSharedMemConfig'' ty_CUresult [ty_CUfunction, ty_CUsharedconfig] ''cuFuncSetSharedMemConfig'' [0, 1] False,
     Gen cuda ty_CUresult ''cuFuncGetModule'' [Ptr ty_CUmodule, ty_CUfunction]
       ''cuFuncGetModule'' ty_CUresult [Ptr ty_CUmodule, ty_CUfunction] ''cuFuncGetModule'' [0, 1] False,
     Gen cuda ty_CUresult ''cuLaunchKernel'' [ty_CUfunction, ty_unsigned_int, ty_unsigned_int, ty_unsigned_int, ty_unsigned_int, ty_unsigned_int, ty_unsigned_int, ty_unsigned_int, ty_CUstream, Ptr (Ptr ty_void), Ptr (Ptr ty_void)]
       ''cuLaunchKernel'' ty_CUresult [ty_CUfunction, ty_unsigned_int, ty_unsigned_int, ty_unsigned_int, ty_unsigned_int, ty_unsigned_int, ty_unsigned_int, ty_unsigned_int, ty_CUstream, Ptr (Ptr ty_void), Ptr (Ptr ty_void)] ''cuLaunchKernel'' [0, 1, 2, 3, 4, 5, 6, 7, 8, 9, 10] False,
     Gen cuda ty_CUresult ''cuLaunchCooperativeKernel'' [ty_CUfunction, ty_unsigned_int, ty_unsigned_int, ty_unsigned_int, ty_unsigned_int, ty_unsigned_int, ty_unsigned_int, ty_unsigned_int, ty_CUstream, Ptr (Ptr ty_void)]
       ''cuLaunchCooperativeKernel'' ty_CUresult [ty_CUfunction, ty_unsigned_int, ty_unsigned_int, ty_unsigned_int, ty_unsigned_int, ty_unsigned_int, ty_unsigned_int, ty_unsigned_int, ty_CUstream, Ptr (Ptr ty_void)] ''cuLaunchCooperativeKernel'' [0, 1, 2, 3, 4, 5, 6, 7, 8, 9] False]"

definition cuda_hooks_15 :: "gen_hook list" where
  "cuda_hooks_15 =
    [Gen cuda ty_CUresult ''cuLaunchCooperativeKernelMultiDevice'' [Ptr ty_CUDA_LAUNCH_PARAMS, ty_unsigned_int, ty_unsigned_int]
       ''cuLaunchCooperativeKernelMultiDevice'' ty_CUresult [Ptr ty_CUDA_LAUNCH_PARAMS, ty_unsigned_int, ty_unsigned_int] ''cuLaunchCooperativeKernelMultiDevice'' [0, 1, 2] False,
     Gen cuda ty_CUresult ''cuLaunchHostFunc'' [ty_CUstream, ty_CUhostFn, Ptr ty_void]
       ''cuLaunchHostFunc'' ty_CUresult [ty_CUstream, ty_CUhostFn, Ptr ty_void] ''cuLaunchHostFunc'' [0, 1, 2] False,
     Gen cuda ty_CUresult ''cuFuncSetBlockShape'' [ty_CUfunction, ty_int, ty_int, ty_int]
       ''cuFuncSetBlockShape'' ty_CUresult [ty_CUfunction, ty_int, ty_int, ty_int] ''cuFuncSetBlockShape'' [0, 1, 2, 3] False,
     Gen cuda ty_CUresult ''cuFuncSetSharedSize'' [ty_CUfunction, ty_unsigned_int]
       ''cuFuncSetSharedSize'' ty_CUresult [ty_CUfunction, ty_unsigned_int] ''cuFuncSetSharedSize'' [0, 1] False,
     Gen cuda ty_CUresult ''cuParamSetSize'' [ty_CUfunction, ty_unsigned_int]
       ''cuParamSetSize'' ty_CUresult [ty_CUfunction, ty_unsigned_int] ''cuParamSetSize'' [0, 1] False,
     Gen cuda ty_CUresult ''cuParamSeti'' [ty_CUfunction, ty_int, ty_unsigned_int]
       ''cuParamSeti'' ty_CUresult [ty_CUfunction, ty_int, ty_unsigned_int] ''cuParamSeti'' [0, 1, 2] False,
     Gen cuda ty_CUresult ''cuParamSetf'' [ty_CUfunction, ty_int, ty_float]
       ''cuParamSetf'' ty_CUresult [ty_CUfunction, ty_int, ty_float] ''cuParamSetf'' [0, 1, 2] False,
     Gen cuda ty_CUresult ''cuParamSetv'' [ty_CUfunction, ty_int, Ptr ty_void, ty_unsigned_int]
       ''cuParamSetv'' ty_CUresult [ty_CUfunction, ty_int, Ptr ty_void, ty_unsigned_int] ''cuParamSetv'' [0, 1, 2, 3] False,
     Gen cuda ty_CUresult ''cuLaunch'' [ty_CUfunction]
       ''cuLaunch'' ty_CUresult [ty_CUfunction] ''cuLaunch'' [0] False,
     Gen cuda ty_CUresult ''cuLaunchGrid'' [ty_CUfunction, ty_int, ty_int]
       ''cuLaunchGrid'' ty_CUresult [ty_CUfunction, ty_int, ty_int] ''cuLaunchGrid'' [0, 1, 2] False,
     Gen cuda ty_CUresult ''cuLaunchGridAsync'' [ty_CUfunction, ty_int, ty_int, ty_CUstream]
       ''cuLaunchGridAsync'' ty_CUresult [ty_CUfunction, ty_int, ty_int, ty_CUstream] ''cuLaunchGridAsync'' [0, 1, 2, 3] False,
     Gen cuda ty_CUresult ''cuParamSetTexRef'' [ty_CUfunction, ty_int, ty_CUtexref]
       ''cuParamSetTexRef'' ty_CUresult [ty_CUfunction, ty_int, ty_CUtexref] ''cuParamSetTexRef'' [0, 1, 2] False,
     Gen cuda ty_CUresult ''cuGraphCreate'' [Ptr ty_CUgraph, ty_unsigned_int]
       ''cuGraphCreate'' ty_CUresult [Ptr ty_CUgraph, ty_unsigned_int] ''cuGraphCreate'' [0, 1] False,
     Gen cuda ty_CUresult ''cuGraphAddKernelNode'' [Ptr ty_CUgraphNode, ty_CUgraph, Ptr (Const ty_CUgraphNode), ty_size_t, Ptr (Const ty_CUDA_KERNEL_NODE_PARAMS)]
       ''cuGraphAddKernelNode'' ty_CUresult [Ptr ty_CUgraphNode, ty_CUgraph, Ptr (Const ty_CUgraphNode), ty_size_t, Ptr (Const ty_CUDA_KERNEL_NODE_PARAMS)] ''cuGraphAddKernelNode'' [0, 1, 2, 3, 4] False,
     Gen cuda ty_CUresult ''cuGraphKernelNodeGetParams'' [ty_CUgraphNode, Ptr ty_CUDA_KERNEL_NODE_PARAMS]
       ''cuGraphKernelNodeGetParams'' ty_CUresult [ty_CUgraphNode, Ptr ty_CUDA_KERNEL_NODE_PARAMS] ''cuGraphKernelNodeGetParams'' [0, 1] False,
     Gen cuda ty_CUresult ''cuGraphKernelNodeSetParams'' [ty_CUgraphNode, Ptr (Const ty_CUDA_KERNEL_NODE_PARAMS)]
       ''cuGraphKernelNodeSetParams'' ty_CUresult [ty_CUgraphNode, Ptr (Const ty_CUDA_KERNEL_NODE_PARAMS)] ''cuGraphKernelNodeSetParams'' [0, 1] False,
     Gen cuda ty_CUresult ''cuGraphAddMemcpyNode'' [Ptr ty_CUgraphNode, ty_CUgraph, Ptr (Const ty_CUgraphNode), ty_size_t, Ptr (Const ty_CUDA_MEMCPY3D), ty_CUcontext]
       ''cuGraphAddMemcpyNode'' ty_CUresult [Ptr ty_CUgraphNode, ty_CUgraph, Ptr (Const ty_CUgraphNode), ty_size_t, Ptr (Const ty_CUDA_MEMCPY3D), ty_CUcontext] ''cuGraphAddMemcpyNode'' [0, 1, 2, 3, 4, 5] False]"

definition cuda_hooks_16 :: "gen_hook list" where
  "cuda_hooks_16 =
    [Gen cuda ty_CUresult ''cuGraphMemcpyNodeGetParams'' [ty_CUgraphNode, Ptr ty_CUDA_MEMCPY3D]
       ''cuGraphMemcpyNodeGetParams'' ty_CUresult [ty_CUgraphNode, Ptr ty_CUDA_MEMCPY3D] ''cuGraphMemcpyNodeGetParams'' [0, 1] False,
     Gen cuda ty_CUresult ''cuGraphMemcpyNodeSetParams'' [ty_CUgraphNode, Ptr (Const ty_CUDA_MEMCPY3D)]
       ''cuGraphMemcpyNodeSetParams'' ty_CUresult [ty_CUgraphNode, Ptr (Const ty_CUDA_MEMCPY3D)] ''cuGraphMemcpyNodeSetParams'' [0, 1] False,
     Gen cuda ty_CUresult ''cuGraphAddMemsetNode'' [Ptr ty_CUgraphNode, ty_CUgraph, Ptr (Const ty_CUgraphNode), ty_size_t, Ptr (Const ty_CUDA_MEMSET_NODE_PARAMS), ty_CUcontext]
       ''cuGraphAddMemsetNode'' ty_CUresult [Ptr ty_CUgraphNode, ty_CUgraph, Ptr (Const ty_CUgraphNode), ty_size_t, Ptr (Const ty_CUDA_MEMSET_NODE_PARAMS), ty_CUcontext] ''cuGraphAddMemsetNode'' [0, 1, 2, 3, 4, 5] False,
     Gen cuda ty_CUresult ''cuGraphMemsetNodeGetParams'' [ty_CUgraphNode, Ptr ty_CUDA_MEMSET_NODE_PARAMS]
       ''cuGraphMemsetNodeGetParams'' ty_CUresult [ty_CUgraphNode, Ptr ty_CUDA_MEMSET_NODE_PARAMS] ''cuGraphMemsetNodeGetParams'' [0, 1] False,
     Gen cuda ty_CUresult ''cuGraphMemsetNodeSetParams'' [ty_CUgraphNode, Ptr (Const ty_CUDA_MEMSET_NODE_PARAMS)]
       ''cuGraphMemsetNodeSetParams'' ty_CUresult [ty_CUgraphNode, Ptr (Const ty_CUDA_MEMSET_NODE_PARAMS)] ''cuGraphMemsetNodeSetParams'' [0, 1] False,
     Gen cuda ty_CUresult ''cuGraphAddHostNode'' [Ptr ty_CUgraphNode, ty_CUgraph, Ptr (Const ty_CUgraphNode), ty_size_t, Ptr (Const ty_CUDA_HOST_NODE_PARAMS)]
       ''cuGraphAddHostNode'' ty_CUresult [Ptr ty_CUgraphNode, ty_CUgraph, Ptr (Const ty_CUgraphNode), ty_size_t, Ptr (Const ty_CUDA_HOST_NODE_PARAMS)] ''cuGraphAddHostNode'' [0, 1, 2, 3, 4] False,
     Gen cuda ty_CUresult ''cuGraphHostNodeGetParams'' [ty_CUgraphNode, Ptr ty_CUDA_HOST_NODE_PARAMS]
       ''cuGraphHostNodeGetParams'' ty_CUresult [ty_CUgraphNode, Ptr ty_CUDA_HOST_NODE_PARAMS] ''cuGraphHostNodeGetParams'' [0, 1] False,
     Gen cuda ty_CUresult ''cuGraphHostNodeSetParams'' [ty_CUgraphNode, Ptr (Const ty_CUDA_HOST_NODE_PARAMS)]
       ''cuGraphHostNodeSetParams'' ty_CUresult [ty_CUgraphNode, Ptr (Const ty_CUDA_HOST_NODE_PARAMS)] ''cuGraphHostNodeSetParams'' [0, 1] False,
     Gen cuda ty_CUresult ''cuGraphAddChildGraphNode'' [Ptr ty_CUgraphNode, ty_CUgraph, Ptr (Const ty_CUgraphNode), ty_size_t, ty_CUgraph]
       ''cuGraphAddChildGraphNode'' ty_CUresult [Ptr ty_CUgraphNode, ty_CUgraph, Ptr (Const ty_CUgraphNode), ty_size_t, ty_CUgraph] ''cuGraphAddChildGraphNode'' [0, 1, 2, 3, 4] False,
     Gen cuda ty_CUresult ''cuGraphChildGraphNodeGetGraph'' [ty_CUgraphNode, Ptr ty_CUgraph]
       ''cuGraphChildGraphNodeGetGraph'' ty_CUresult [ty_CUgraphNode, Ptr ty_CUgraph] ''cuGraphChildGraphNodeGetGraph'' [0, 1] False,
     Gen cuda ty_CUresult ''cuGraphAddEmptyNode'' [Ptr ty_CUgraphNode, ty_CUgraph, Ptr (Const ty_CUgraphNode), ty_size_t]
       ''cuGraphAddEmptyNode'' ty_CUresult [Ptr ty_CUgraphNode, ty_CUgraph, Ptr (Const ty_CUgraphNode), ty_size_t] ''cuGraphAddEmptyNode'' [0, 1, 2, 3] False,
     Gen cuda ty_CUresult ''cuGraphAddEventRecordNode'' [Ptr ty_CUgraphNode, ty_CUgraph, Ptr (Const ty_CUgraphNode), ty_size_t, ty_CUevent]
       ''cuGraphAddEventRecordNode'' ty_CUresult [Ptr ty_CUgraphNode, ty_CUgraph, Ptr (Const ty_CUgraphNode), ty_size_t, ty_CUevent] ''cuGraphAddEventRecordNode'' [0, 1, 2, 3, 4] False,
     Gen cuda ty_CUresult ''cuGraphEventRecordNodeGetEvent'' [ty_CUgraphNode, Ptr ty_CUevent]
       ''cuGraphEventRecordNodeGetEvent'' ty_CUresult [ty_CUgraphNode, Ptr ty_CUevent] ''cuGraphEventRecordNodeGetEvent'' [0, 1] False,
     Gen cuda ty_CUresult ''cuGraphEventRecordNodeSetEvent'' [ty_CUgraphNode, ty_CUevent]
       ''cuGraphEventRecordNodeSetEvent'' ty_CUresult [ty_CUgraphNode, ty_CUevent] ''cuGraphEventRecordNodeSetEvent'' [0, 1] False,
     Gen cuda ty_CUresult ''cuGraphAddEventWaitNode'' [Ptr ty_CUgraphNode, ty_CUgraph, Ptr (Const ty_CUgraphNode), ty_size_t, ty_CUevent]
       ''cuGraphAddEventWaitNode'' ty_CUresult [Ptr ty_CUgraphNode, ty_CUgraph, Ptr (Const ty_CUgraphNode), ty_size_t, ty_CUevent] ''cuGraphAddEventWaitNode'' [0, 1, 2, 3, 4] False,
     Gen cuda ty_CUresult ''cuGraphEventWaitNodeGetEvent'' [ty_CUgraphNode, Ptr ty_CUevent]
       ''cuGraphEventWaitNodeGetEvent'' ty_CUresult [ty_CUgraphNode, Ptr ty_CUevent] ''cuGraphEventWaitNodeGetEvent'' [0, 1] False,
     Gen cuda ty_CUresult ''cuGraphEventWaitNodeSetEvent'' [ty_CUgraphNode, ty_CUevent]
       ''cuGraphEventWaitNodeSetEvent'' ty_CUresult [ty_CUgraphNode, ty_CUevent] ''cuGraphEventWaitNodeSetEvent'' [0, 1] False]"

definition cuda_hooks_17 :: "gen_hook list" where
  "cuda_hooks_17 =
    [Gen cuda ty_CUresult ''cuGraphAddExternalSemaphoresSignalNode'' [Ptr ty_CUgraphNode, ty_CUgraph, Ptr (Const ty_CUgraphNode), ty_size_t, Ptr (Const ty_CUDA_EXT_SEM_SIGNAL_NODE_PARAMS)]
       ''cuGraphAddExternalSemaphoresSignalNode'' ty_CUresult [Ptr ty_CUgraphNode, ty_CUgraph, Ptr (Const ty_CUgraphNode), ty_size_t, Ptr (Const ty_CUDA_EXT_SEM_SIGNAL_NODE_PARAMS)] ''cuGraphAddExternalSemaphoresSignalNode'' [0, 1, 2, 3, 4] False,
     Gen cuda ty_CUresult ''cuGraphExternalSemaphoresSignalNodeGetParams'' [ty_CUgraphNode, Ptr ty_CUDA_EXT_SEM_SIGNAL_NODE_PARAMS]
       ''cuGraphExternalSemaphoresSignalNodeGetParams'' ty_CUresult [ty_CUgraphNode, Ptr ty_CUDA_EXT_SEM_SIGNAL_NODE_PARAMS] ''cuGraphExternalSemaphoresSignalNodeGetParams'' [0, 1] False,
     Gen cuda ty_CUresult ''cuGraphExternalSemaphoresSignalNodeSetParams'' [ty_CUgraphNode, Ptr (Const ty_CUDA_EXT_SEM_SIGNAL_NODE_PARAMS)]
       ''cuGraphExternalSemaphoresSignalNodeSetParams'' ty_CUresult [ty_CUgraphNode, Ptr (Const ty_CUDA_EXT_SEM_SIGNAL_NODE_PARAMS)] ''cuGraphExternalSemaphoresSignalNodeSetParams'' [0, 1] False,
     Gen cuda ty_CUresult ''cuGraphAddExternalSemaphoresWaitNode'' [Ptr ty_CUgraphNode, ty_CUgraph, Ptr (Const ty_CUgraphNode), ty_size_t, Ptr (Const ty_CUDA_EXT_SEM_WAIT_NODE_PARAMS)]
       ''cuGraphAddExternalSemaphoresWaitNode'' ty_CUresult [Ptr ty_CUgraphNode, ty_CUgraph, Ptr (Const ty_CUgraphNode), ty_size_t, Ptr (Const ty_CUDA_EXT_SEM_WAIT_NODE_PARAMS)] ''cuGraphAddExternalSemaphoresWaitNode'' [0, 1, 2, 3, 4] False,
     Gen cuda ty_CUresult ''cuGraphExternalSemaphoresWaitNodeGetParams'' [ty_CUgraphNode, Ptr ty_CUDA_EXT_SEM_WAIT_NODE_PARAMS]
       ''cuGraphExternalSemaphoresWaitNodeGetParams'' ty_CUresult [ty_CUgraphNode, Ptr ty_CUDA_EXT_SEM_WAIT_NODE_PARAMS] ''cuGraphExternalSemaphoresWaitNodeGetParams'' [0, 1] False,
     Gen cuda ty_CUresult ''cuGraphExternalSemaphoresWaitNodeSetParams'' [ty_CUgraphNode, Ptr (Const ty_CUDA_EXT_SEM_WAIT_NODE_PARAMS)]
       ''cuGraphExternalSemaphoresWaitNodeSetParams'' ty_CUresult [ty_CUgraphNode, Ptr (Const ty_CUDA_EXT_SEM_WAIT_NODE_PARAMS)] ''cuGraphExternalSemaphoresWaitNodeSetParams'' [0, 1] False,
     Gen cuda ty_CUresult ''cuGraphAddMemAllocNode'' [Ptr ty_CUgraphNode, ty_CUgraph, Ptr (Const ty_CUgraphNode), ty_size_t, Ptr ty_CUDA_MEM_ALLOC_NODE_PARAMS]
       ''cuGraphAddMemAllocNode'' ty_CUresult [Ptr ty_CUgraphNode, ty_CUgraph, Ptr (Const ty_CUgraphNode), ty_size_t, Ptr ty_CUDA_MEM_ALLOC_NODE_PARAMS] ''cuGraphAddMemAllocNode'' [0, 1, 2, 3, 4] False,
     Gen cuda ty_CUresult ''cuGraphMemAllocNodeGetParams'' [ty_CUgraphNode, Ptr ty_CUDA_MEM_ALLOC_NODE_PARAMS]
       ''cuGraphMemAllocNodeGetParams'' ty_CUresult [ty_CUgraphNode, Ptr ty_CUDA_MEM_ALLOC_NODE_PARAMS] ''cuGraphMemAllocNodeGetParams'' [0, 1] False,
     Gen cuda ty_CUresult ''cuGraphAddMemFreeNode'' [Ptr ty_CUgraphNode, ty_CUgraph, Ptr (Const ty_CUgraphNode), ty_size_t, ty_CUdeviceptr]
       ''cuGraphAddMemFreeNode'' ty_CUresult [Ptr ty_CUgraphNode, ty_CUgraph, Ptr (Const ty_CUgraphNode), ty_size_t, ty_CUdeviceptr] ''cuGraphAddMemFreeNode'' [0, 1, 2, 3, 4] False,
     Gen cuda ty_CUresult ''cuGraphMemFreeNodeGetParams'' [ty_CUgraphNode, Ptr ty_CUdeviceptr]
       ''cuGraphMemFreeNodeGetParams'' ty_CUresult [ty_CUgraphNode, Ptr ty_CUdeviceptr] ''cuGraphMemFreeNodeGetParams'' [0, 1] False,
     Gen cuda ty_CUresult ''cuDeviceGraphMemTrim'' [ty_CUdevice]
       ''cuDeviceGraphMemTrim'' ty_CUresult [ty_CUdevice] ''cuDeviceGraphMemTrim'' [0] False,
     Gen cuda ty_CUresult ''cuDeviceGetGraphMemAttribute'' [ty_CUdevice, ty_CUgraphMem_attribute, Ptr ty_void]
       ''cuDeviceGetGraphMemAttribute'' ty_CUresult [ty_CUdevice, ty_CUgraphMem_attribute, Ptr ty_void] ''cuDeviceGetGraphMemAttribute'' [0, 1, 2] False,
     Gen cuda ty_CUresult ''cuDeviceSetGraphMemAttribute'' [ty_CUdevice, ty_CUgraphMem_attribute, Ptr ty_void]
       ''cuDeviceSetGraphMemAttribute'' ty_CUresult [ty_CUdevice, ty_CUgraphMem_attribute, Ptr ty_void] ''cuDeviceSetGraphMemAttribute'' [0, 1, 2] False,
     Gen cuda ty_CUresult ''cuGraphClone'' [Ptr ty_CUgraph, ty_CUgraph]
       ''cuGraphClone'' ty_CUresult [Ptr ty_CUgraph, ty_CUgraph] ''cuGraphClone'' [0, 1] False,
     Gen cuda ty_CUresult ''cuGraphNodeFindInClone'' [Ptr ty_CUgraphNode, ty_CUgraphNode, ty_CUgraph]
       ''cuGraphNodeFindInClone'' ty_CUresult [Ptr ty_CUgraphNode, ty_CUgraphNode, ty_CUgraph] ''cuGraphNodeFindInClone'' [0, 1, 2] False,
     Gen cuda ty_CUresult ''cuGraphNodeGetType'' [ty_CUgraphNode, Ptr ty_CUgraphNodeType]
       ''cuGraphNodeGetType'' ty_CUresult [ty_CUgraphNode, Ptr ty_CUgraphNodeType] ''cuGraphNodeGetType'' [0, 1] False]"

definition cuda_hooks_18 :: "gen_hook list" where
  "cuda_hooks_18 =
    [Gen cuda ty_CUresult ''cuGraphGetNodes'' [ty_CUgraph, Ptr ty_CUgraphNode, Ptr ty_size_t]
       ''cuGraphGetNodes'' ty_CUresult [ty_CUgraph, Ptr ty_CUgraphNode, Ptr ty_size_t] ''cuGraphGetNodes'' [0, 1, 2] False,
     Gen cuda ty_CUresult ''cuGraphGetRootNodes'' [ty_CUgraph, Ptr ty_CUgraphNode, Ptr ty_size_t]
       ''cuGraphGetRootNodes'' ty_CUresult [ty_CUgraph, Ptr ty_CUgraphNode, Ptr ty_size_t] ''cuGraphGetRootNodes'' [0, 1, 2] False,
     Gen cuda ty_CUresult ''cuGraphGetEdges'' [ty_CUgraph, Ptr ty_CUgraphNode, Ptr ty_CUgraphNode, Ptr ty_size_t]
       ''cuGraphGetEdges'' ty_CUresult [ty_CUgraph, Ptr ty_CUgraphNode, Ptr ty_CUgraphNode, Ptr ty_size_t] ''cuGraphGetEdges'' [0, 1, 2, 3] False,
     Gen cuda ty_CUresult ''cuGraphNodeGetDependencies'' [ty_CUgraphNode, Ptr ty_CUgraphNode, Ptr ty_size_t]
       ''cuGraphNodeGetDependencies'' ty_CUresult [ty_CUgraphNode, Ptr ty_CUgraphNode, Ptr ty_size_t] ''cuGraphNodeGetDependencies'' [0, 1, 2] False,
     Gen cuda ty_CUresult ''cuGraphNodeGetDependentNodes'' [ty_CUgraphNode, Ptr ty_CUgraphNode, Ptr ty_size_t]
       ''cuGraphNodeGetDependentNodes'' ty_CUresult [ty_CUgraphNode, Ptr ty_CUgraphNode, Ptr ty_size_t] ''cuGraphNodeGetDependentNodes'' [0, 1, 2] False,
     Gen cuda ty_CUresult ''cuGraphAddDependencies'' [ty_CUgraph, Ptr (Const ty_CUgraphNode), Ptr (Const ty_CUgraphNode), ty_size_t]
       ''cuGraphAddDependencies'' ty_CUresult [ty_CUgraph, Ptr (Const ty_CUgraphNode), Ptr (Const ty_CUgraphNode), ty_size_t] ''cuGraphAddDependencies'' [0, 1, 2, 3] False,
     Gen cuda ty_CUresult ''cuGraphRemoveDependencies'' [ty_CUgraph, Ptr (Const ty_CUgraphNode), Ptr (Const ty_CUgraphNode), ty_size_t]
       ''cuGraphRemoveDependencies'' ty_CUresult [ty_CUgraph, Ptr (Const ty_CUgraphNode), Ptr (Const ty_CUgraphNode), ty_size_t] ''cuGraphRemoveDependencies'' [0, 1, 2, 3] False,
     Gen cuda ty_CUresult ''cuGraphDestroyNode'' [ty_CUgraphNode]
       ''cuGraphDestroyNode'' ty_CUresult [ty_CUgraphNode] ''cuGraphDestroyNode'' [0] False,
     Gen cuda ty_CUresult ''cuGraphInstantiate'' [Ptr ty_CUgraphExec, ty_CUgraph, Ptr ty_CUgraphNode, Ptr ty_char, ty_size_t]
       ''cuGraphInstantiate'' ty_CUresult [Ptr ty_CUgraphExec, ty_CUgraph, Ptr ty_CUgraphNode, Ptr ty_char, ty_size_t] ''cuGraphInstantiate'' [0, 1, 2, 3, 4] False,
     Gen cuda ty_CUresult ''cuGraphInstantiate_v2'' [Ptr ty_CUgraphExec, ty_CUgraph, Ptr ty_CUgraphNode, Ptr ty_char, ty_size_t]
       ''cuGraphInstantiate_v2'' ty_CUresult [Ptr ty_CUgraphExec, ty_CUgraph, Ptr ty_CUgraphNode, Ptr ty_char, ty_size_t] ''cuGraphInstantiate_v2'' [0, 1, 2, 3, 4] False,
     Gen cuda ty_CUresult ''cuGraphInstantiateWithFlags'' [Ptr ty_CUgraphExec, ty_CUgraph, ty_unsigned_long_long]
       ''cuGraphInstantiateWithFlags'' ty_CUresult [Ptr ty_CUgraphExec, ty_CUgraph, ty_unsigned_long_long] ''cuGraphInstantiateWithFlags'' [0, 1, 2] False,
     Gen cuda ty_CUresult ''cuGraphExecKernelNodeSetParams'' [ty_CUgraphExec, ty_CUgraphNode, Ptr (Const ty_CUDA_KERNEL_NODE_PARAMS)]
       ''cuGraphExecKernelNodeSetParams'' ty_CUresult [ty_CUgraphExec, ty_CUgraphNode, Ptr (Const ty_CUDA_KERNEL_NODE_PARAMS)] ''cuGraphExecKernelNodeSetParams'' [0, 1, 2] False,
     Gen cuda ty_CUresult ''cuGraphExecMemcpyNodeSetParams'' [ty_CUgraphExec, ty_CUgraphNode, Ptr (Const ty_CUDA_MEMCPY3D), ty_CUcontext]
       ''cuGraphExecMemcpyNodeSetParams'' ty_CUresult [ty_CUgraphExec, ty_CUgraphNode, Ptr (Const ty_CUDA_MEMCPY3D), ty_CUcontext] ''cuGraphExecMemcpyNodeSetParams'' [0, 1, 2, 3] False,
     Gen cuda ty_CUresult ''cuGraphExecMemsetNodeSetParams'' [ty_CUgraphExec, ty_CUgraphNode, Ptr (Const ty_CUDA_MEMSET_NODE_PARAMS), ty_CUcontext]
       ''cuGraphExecMemsetNodeSetParams'' ty_CUresult [ty_CUgraphExec, ty_CUgraphNode, Ptr (Const ty_CUDA_MEMSET_NODE_PARAMS), ty_CUcontext] ''cuGraphExecMemsetNodeSetParams'' [0, 1, 2, 3] False,
     Gen cuda ty_CUresult ''cuGraphExecHostNodeSetParams'' [ty_CUgraphExec, ty_CUgraphNode, Ptr (Const ty_CUDA_HOST_NODE_PARAMS)]
       ''cuGraphExecHostNodeSetParams'' ty_CUresult [ty_CUgraphExec, ty_CUgraphNode, Ptr (Const ty_CUDA_HOST_NODE_PARAMS)] ''cuGraphExecHostNodeSetParams'' [0, 1, 2] False,
     Gen cuda ty_CUresult ''cuGraphExecChildGraphNodeSetParams'' [ty_CUgraphExec, ty_CUgraphNode, ty_CUgraph]
       ''cuGraphExecChildGraphNodeSetParams'' ty_CUresult [ty_CUgraphExec, ty_CUgraphNode, ty_CUgraph] ''cuGraphExecChildGraphNodeSetParams'' [0, 1, 2] False]"

definition cuda_hooks_19 :: "gen_hook list" where
  "cuda_hooks_19 =
    [Gen cuda ty_CUresult ''cuGraphExecEventRecordNodeSetEvent'' [ty_CUgraphExec, ty_CUgraphNode, ty_CUevent]
       ''cuGraphExecEventRecordNodeSetEvent'' ty_CUresult [ty_CUgraphExec, ty_CUgraphNode, ty_CUevent] ''cuGraphExecEventRecordNodeSetEvent'' [0, 1, 2] False,
     Gen cuda ty_CUresult ''cuGraphExecEventWaitNodeSetEvent'' [ty_CUgraphExec, ty_CUgraphNode, ty_CUevent]
       ''cuGraphExecEventWaitNodeSetEvent'' ty_CUresult [ty_CUgraphExec, ty_CUgraphNode, ty_CUevent] ''cuGraphExecEventWaitNodeSetEvent'' [0, 1, 2] False,
     Gen cuda ty_CUresult ''cuGraphExecExternalSemaphoresSignalNodeSetParams'' [ty_CUgraphExec, ty_CUgraphNode, Ptr (Const ty_CUDA_EXT_SEM_SIGNAL_NODE_PARAMS)]
       ''cuGraphExecExternalSemaphoresSignalNodeSetParams'' ty_CUresult [ty_CUgraphExec, ty_CUgraphNode, Ptr (Const ty_CUDA_EXT_SEM_SIGNAL_NODE_PARAMS)] ''cuGraphExecExternalSemaphoresSignalNodeSetParams'' [0, 1, 2] False,
     Gen cuda ty_CUresult ''cuGraphExecExternalSemaphoresWaitNodeSetParams'' [ty_CUgraphExec, ty_CUgraphNode, Ptr (Const ty_CUDA_EXT_SEM_WAIT_NODE_PARAMS)]
       ''cuGraphExecExternalSemaphoresWaitNodeSetParams'' ty_CUresult [ty_CUgraphExec, ty_CUgraphNode, Ptr (Const ty_CUDA_EXT_SEM_WAIT_NODE_PARAMS)] ''cuGraphExecExternalSemaphoresWaitNodeSetParams'' [0, 1, 2] False,
     Gen cuda ty_CUresult ''cuGraphUpload'' [ty_CUgraphExec, ty_CUstream]
       ''cuGraphUpload'' ty_CUresult [ty_CUgraphExec, ty_CUstream] ''cuGraphUpload'' [0, 1] False,
     Gen cuda ty_CUresult ''cuGraphLaunch'' [ty_CUgraphExec, ty_CUstream]
       ''cuGraphLaunch'' ty_CUresult [ty_CUgraphExec, ty_CUstream] ''cuGraphLaunch'' [0, 1] False,
     Gen cuda ty_CUresult ''cuGraphExecDestroy'' [ty_CUgraphExec]
       ''cuGraphExecDestroy'' ty_CUresult [ty_CUgraphExec] ''cuGraphExecDestroy'' [0] False,
     Gen cuda ty_CUresult ''cuGraphDestroy'' [ty_CUgraph]
       ''cuGraphDestroy'' ty_CUresult [ty_CUgraph] ''cuGraphDestroy'' [0] False,
     Gen cuda ty_CUresult ''cuGraphExecUpdate'' [ty_CUgraphExec, ty_CUgraph, Ptr ty_CUgraphNode, Ptr ty_CUgraphExecUpdateResult]
       ''cuGraphExecUpdate'' ty_CUresult [ty_CUgraphExec, ty_CUgraph, Ptr ty_CUgraphNode, Ptr ty_CUgraphExecUpdateResult] ''cuGraphExecUpdate'' [0, 1, 2, 3] False,
     Gen cuda ty_CUresult ''cuGraphKernelNodeCopyAttributes'' [ty_CUgraphNode, ty_CUgraphNode]
       ''cuGraphKernelNodeCopyAttributes'' ty_CUresult [ty_CUgraphNode, ty_CUgraphNode] ''cuGraphKernelNodeCopyAttributes'' [0, 1] False,
     Gen cuda ty_CUresult ''cuGraphKernelNodeGetAttribute'' [ty_CUgraphNode, ty_CUkernelNodeAttrID, Ptr ty_CUkernelNodeAttrValue]
       ''cuGraphKernelNodeGetAttribute'' ty_CUresult [ty_CUgraphNode, ty_CUkernelNodeAttrID, Ptr ty_CUkernelNodeAttrValue] ''cuGraphKernelNodeGetAttribute'' [0, 1, 2] False,
     Gen cuda ty_CUresult ''cuGraphKernelNodeSetAttribute'' [ty_CUgraphNode, ty_CUkernelNodeAttrID, Ptr (Const ty_CUkernelNodeAttrValue)]
       ''cuGraphKernelNodeSetAttribute'' ty_CUresult [ty_CUgraphNode, ty_CUkernelNodeAttrID, Ptr (Const ty_CUkernelNodeAttrValue)] ''cuGraphKernelNodeSetAttribute'' [0, 1, 2] False,
     Gen cuda ty_CUresult ''cuGraphDebugDotPrint'' [ty_CUgraph, Ptr (Const ty_char), ty_unsigned_int]
       ''cuGraphDebugDotPrint'' ty_CUresult [ty_CUgraph, Ptr (Const ty_char), ty_unsigned_int] ''cuGraphDebugDotPrint'' [0, 1, 2] False,
     Gen cuda ty_CUresult ''cuUserObjectCreate'' [Ptr ty_CUuserObject, Ptr ty_void, ty_CUhostFn, ty_unsigned_int, ty_unsigned_int]
       ''cuUserObjectCreate'' ty_CUresult [Ptr ty_CUuserObject, Ptr ty_void, ty_CUhostFn, ty_unsigned_int, ty_unsigned_int] ''cuUserObjectCreate'' [0, 1, 2, 3, 4] False,
     Gen cuda ty_CUresult ''cuUserObjectRetain'' [ty_CUuserObject, ty_unsigned_int]
       ''cuUserObjectRetain'' ty_CUresult [ty_CUuserObject, ty_unsigned_int] ''cuUserObjectRetain'' [0, 1] False,
     Gen cuda ty_CUresult ''cuUserObjectRelease'' [ty_CUuserObject, ty_unsigned_int]
       ''cuUserObjectRelease'' ty_CUresult [ty_CUuserObject, ty_unsigned_int] ''cuUserObjectRelease'' [0, 1] False,
     Gen cuda ty_CUresult ''cuGraphRetainUserObject'' [ty_CUgraph, ty_CUuserObject, ty_unsigned_int, ty_unsigned_int]
       ''cuGraphRetainUserObject'' ty_CUresult [ty_CUgraph, ty_CUuserObject, ty_unsigned_int, ty_unsigned_int] ''cuGraphRetainUserObject'' [0, 1, 2, 3] False]"

definition cuda_hooks_20 :: "gen_hook list" where
  "cuda_hooks_20 =
    [Gen cuda ty_CUresult ''cuGraphReleaseUserObject'' [ty_CUgraph, ty_CUuserObject, ty_unsigned_int]
       ''cuGraphReleaseUserObject'' ty_CUresult [ty_CUgraph, ty_CUuserObject, ty_unsigned_int] ''cuGraphReleaseUserObject'' [0, 1, 2] False,
     Gen cuda ty_CUresult ''cuOccupancyMaxActiveBlocksPerMultiprocessor'' [Ptr ty_int, ty_CUfunction, ty_int, ty_size_t]
       ''cuOccupancyMaxActiveBlocksPerMultiprocessor'' ty_CUresult [Ptr ty_int, ty_CUfunction, ty_int, ty_size_t] ''cuOccupancyMaxActiveBlocksPerMultiprocessor'' [0, 1, 2, 3] False,
     Gen cuda ty_CUresult ''cuOccupancyMaxActiveBlocksPerMultiprocessorWithFlags'' [Ptr ty_int, ty_CUfunction, ty_int, ty_size_t, ty_unsigned_int]
       ''cuOccupancyMaxActiveBlocksPerMultiprocessorWithFlags'' ty_CUresult [Ptr ty_int, ty_CUfunction, ty_int, ty_size_t, ty_unsigned_int] ''cuOccupancyMaxActiveBlocksPerMultiprocessorWithFlags'' [0, 1, 2, 3, 4] False,
     Gen cuda ty_CUresult ''cuOccupancyMaxPotentialBlockSize'' [Ptr ty_int, Ptr ty_int, ty_CUfunction, ty_CUoccupancyB2DSize, ty_size_t, ty_int]
       ''cuOccupancyMaxPotentialBlockSize'' ty_CUresult [Ptr ty_int, Ptr ty_int, ty_CUfunction, ty_CUoccupancyB2DSize, ty_size_t, ty_int] ''cuOccupancyMaxPotentialBlockSize'' [0, 1, 2, 3, 4, 5] False,
     Gen cuda ty_CUresult ''cuOccupancyMaxPotentialBlockSizeWithFlags'' [Ptr ty_int, Ptr ty_int, ty_CUfunction, ty_CUoccupancyB2DSize, ty_size_t, ty_int, ty_unsigned_int]
       ''cuOccupancyMaxPotentialBlockSizeWithFlags'' ty_CUresult [Ptr ty_int, Ptr ty_int, ty_CUfunction, ty_CUoccupancyB2DSize, ty_size_t, ty_int, ty_unsigned_int] ''cuOccupancyMaxPotentialBlockSizeWithFlags'' [0, 1, 2, 3, 4, 5, 6] False,
     Gen cuda ty_CUresult ''cuOccupancyAvailableDynamicSMemPerBlock'' [Ptr ty_size_t, ty_CUfunction, ty_int, ty_int]
       ''cuOccupancyAvailableDynamicSMemPerBlock'' ty_CUresult [Ptr ty_size_t, ty_CUfunction, ty_int, ty_int] ''cuOccupancyAvailableDynamicSMemPerBlock'' [0, 1, 2, 3] False,
     Gen cuda ty_CUresult ''cuTexRefSetArray'' [ty_CUtexref, ty_CUarray, ty_unsigned_int]
       ''cuTexRefSetArray'' ty_CUresult [ty_CUtexref, ty_CUarray, ty_unsigned_int] ''cuTexRefSetArray'' [0, 1, 2] False,
     Gen cuda ty_CUresult ''cuTexRefSetMipmappedArray'' [ty_CUtexref, ty_CUmipmappedArray, ty_unsigned_int]
       ''cuTexRefSetMipmappedArray'' ty_CUresult [ty_CUtexref, ty_CUmipmappedArray, ty_unsigned_int] ''cuTexRefSetMipmappedArray'' [0, 1, 2] False,
     Gen cuda ty_CUresult ''cuTexRefSetAddress'' [Ptr ty_size_t, ty_CUtexref, ty_CUdeviceptr, ty_size_t]
       ''cuTexRefSetAddress'' ty_CUresult [Ptr ty_size_t, ty_CUtexref, ty_CUdeviceptr, ty_size_t] ''cuTexRefSetAddress'' [0, 1, 2, 3] False,
     Gen cuda ty_CUresult ''cuTexRefSetAddress_v2'' [Ptr ty_size_t, ty_CUtexref, ty_CUdeviceptr, ty_size_t]
       ''cuTexRefSetAddress_v2'' ty_CUresult [Ptr ty_size_t, ty_CUtexref, ty_CUdeviceptr, ty_size_t] ''cuTexRefSetAddress_v2'' [0, 1, 2, 3] False,
     Gen cuda ty_CUresult ''cuTexRefSetAddress2D'' [ty_CUtexref, Ptr (Const ty_CUDA_ARRAY_DESCRIPTOR), ty_CUdeviceptr, ty_size_t]
       ''cuTexRefSetAddress2D'' ty_CUresult [ty_CUtexref, Ptr (Const ty_CUDA_ARRAY_DESCRIPTOR), ty_CUdeviceptr, ty_size_t] ''cuTexRefSetAddress2D'' [0, 1, 2, 3] False,
     Gen cuda ty_CUresult ''cuTexRefSetAddress2D_v3'' [ty_CUtexref, Ptr (Const ty_CUDA_ARRAY_DESCRIPTOR), ty_CUdeviceptr, ty_size_t]
       ''cuTexRefSetAddress2D_v3'' ty_CUresult [ty_CUtexref, Ptr (Const ty_CUDA_ARRAY_DESCRIPTOR), ty_CUdeviceptr, ty_size_t] ''cuTexRefSetAddress2D_v3'' [0, 1, 2, 3] False,
     Gen cuda ty_CUresult ''cuTexRefSetFormat'' [ty_CUtexref, ty_CUarray_format, ty_int]
       ''cuTexRefSetFormat'' ty_CUresult [ty_CUtexref, ty_CUarray_format, ty_int] ''cuTexRefSetFormat'' [0, 1, 2] False,
     Gen cuda ty_CUresult ''cuTexRefSetAddressMode'' [ty_CUtexref, ty_int, ty_CUaddress_mode]
       ''cuTexRefSetAddressMode'' ty_CUresult [ty_CUtexref, ty_int, ty_CUaddress_mode] ''cuTexRefSetAddressMode'' [0, 1, 2] False,
     Gen cuda ty_CUresult ''cuTexRefSetFilterMode'' [ty_CUtexref, ty_CUfilter_mode]
       ''cuTexRefSetFilterMode'' ty_CUresult [ty_CUtexref, ty_CUfilter_mode] ''cuTexRefSetFilterMode'' [0, 1] False,
     Gen cuda ty_CUresult ''cuTexRefSetMipmapFilterMode'' [ty_CUtexref, ty_CUfilter_mode]
       ''cuTexRefSetMipmapFilterMode'' ty_CUresult [ty_CUtexref, ty_CUfilter_mode] ''cuTexRefSetMipmapFilterMode'' [0, 1] False]"

definition cuda_hooks_21 :: "gen_hook list" where
  "cuda_hooks_21 =
    [Gen cuda ty_CUresult ''cuTexRefSetMipmapLevelBias'' [ty_CUtexref, ty_float]
       ''cuTexRefSetMipmapLevelBias'' ty_CUresult [ty_CUtexref, ty_float] ''cuTexRefSetMipmapLevelBias'' [0, 1] False,
     Gen cuda ty_CUresult ''cuTexRefSetMipmapLevelClamp'' [ty_CUtexref, ty_float, ty_float]
       ''cuTexRefSetMipmapLevelClamp'' ty_CUresult [ty_CUtexref, ty_float, ty_float] ''cuTexRefSetMipmapLevelClamp'' [0, 1, 2] False,
     Gen cuda ty_CUresult ''cuTexRefSetMaxAnisotropy'' [ty_CUtexref, ty_unsigned_int]
       ''cuTexRefSetMaxAnisotropy'' ty_CUresult [ty_CUtexref, ty_unsigned_int] ''cuTexRefSetMaxAnisotropy'' [0, 1] False,
     Gen cuda ty_CUresult ''cuTexRefSetBorderColor'' [ty_CUtexref, Ptr ty_float]
       ''cuTexRefSetBorderColor'' ty_CUresult [ty_CUtexref, Ptr ty_float] ''cuTexRefSetBorderColor'' [0, 1] False,
     Gen cuda ty_CUresult ''cuTexRefSetFlags'' [ty_CUtexref, ty_unsigned_int]
       ''cuTexRefSetFlags'' ty_CUresult [ty_CUtexref, ty_unsigned_int] ''cuTexRefSetFlags'' [0, 1] False,
     Gen cuda ty_CUresult ''cuTexRefGetAddress'' [Ptr ty_CUdeviceptr, ty_CUtexref]
       ''cuTexRefGetAddress'' ty_CUresult [Ptr ty_CUdeviceptr, ty_CUtexref] ''cuTexRefGetAddress'' [0, 1] False,
     Gen cuda ty_CUresult ''cuTexRefGetAddress_v2'' [Ptr ty_CUdeviceptr, ty_CUtexref]
       ''cuTexRefGetAddress_v2'' ty_CUresult [Ptr ty_CUdeviceptr, ty_CUtexref] ''cuTexRefGetAddress_v2'' [0, 1] False,
     Gen cuda ty_CUresult ''cuTexRefGetArray'' [Ptr ty_CUarray, ty_CUtexref]
       ''cuTexRefGetArray'' ty_CUresult [Ptr ty_CUarray, ty_CUtexref] ''cuTexRefGetArray'' [0, 1] False,
     Gen cuda ty_CUresult ''cuTexRefGetMipmappedArray'' [Ptr ty_CUmipmappedArray, ty_CUtexref]
       ''cuTexRefGetMipmappedArray'' ty_CUresult [Ptr ty_CUmipmappedArray, ty_CUtexref] ''cuTexRefGetMipmappedArray'' [0, 1] False,
     Gen cuda ty_CUresult ''cuTexRefGetAddressMode'' [Ptr ty_CUaddress_mode, ty_CUtexref, ty_int]
       ''cuTexRefGetAddressMode'' ty_CUresult [Ptr ty_CUaddress_mode, ty_CUtexref, ty_int] ''cuTexRefGetAddressMode'' [0, 1, 2] False,
     Gen cuda ty_CUresult ''cuTexRefGetFilterMode'' [Ptr ty_CUfilter_mode, ty_CUtexref]
       ''cuTexRefGetFilterMode'' ty_CUresult [Ptr ty_CUfilter_mode, ty_CUtexref] ''cuTexRefGetFilterMode'' [0, 1] False,
     Gen cuda ty_CUresult ''cuTexRefGetFormat'' [Ptr ty_CUarray_format, Ptr ty_int, ty_CUtexref]
       ''cuTexRefGetFormat'' ty_CUresult [Ptr ty_CUarray_format, Ptr ty_int, ty_CUtexref] ''cuTexRefGetFormat'' [0, 1, 2] False,
     Gen cuda ty_CUresult ''cuTexRefGetMipmapFilterMode'' [Ptr ty_CUfilter_mode, ty_CUtexref]
       ''cuTexRefGetMipmapFilterMode'' ty_CUresult [Ptr ty_CUfilter_mode, ty_CUtexref] ''cuTexRefGetMipmapFilterMode'' [0, 1] False,
     Gen cuda ty_CUresult ''cuTexRefGetMipmapLevelBias'' [Ptr ty_float, ty_CUtexref]
       ''cuTexRefGetMipmapLevelBias'' ty_CUresult [Ptr ty_float, ty_CUtexref] ''cuTexRefGetMipmapLevelBias'' [0, 1] False,
     Gen cuda ty_CUresult ''cuTexRefGetMipmapLevelClamp'' [Ptr ty_float, Ptr ty_float, ty_CUtexref]
       ''cuTexRefGetMipmapLevelClamp'' ty_CUresult [Ptr ty_float, Ptr ty_float, ty_CUtexref] ''cuTexRefGetMipmapLevelClamp'' [0, 1, 2] False,
     Gen cuda ty_CUresult ''cuTexRefGetMaxAnisotropy'' [Ptr ty_int, ty_CUtexref]
       ''cuTexRefGetMaxAnisotropy'' ty_CUresult [Ptr ty_int, ty_CUtexref] ''cuTexRefGetMaxAnisotropy'' [0, 1] False,
     Gen cuda ty_CUresult ''cuTexRefGetBorderColor'' [Ptr ty_float, ty_CUtexref]
       ''cuTexRefGetBorderColor'' ty_CUresult [Ptr ty_float, ty_CUtexref] ''cuTexRefGetBorderColor'' [0, 1] False,
     Gen cuda ty_CUresult ''cuTexRefGetFlags'' [Ptr ty_unsigned_int, ty_CUtexref]
       ''cuTexRefGetFlags'' ty_CUresult [Ptr ty_unsigned_int, ty_CUtexref] ''cuTexRefGetFlags'' [0, 1] False]"

definition cuda_hooks_22 :: "gen_hook list" where
  "cuda_hooks_22 =
    [Gen cuda ty_CUresult ''cuTexRefCreate'' [Ptr ty_CUtexref]
       ''cuTexRefCreate'' ty_CUresult [Ptr ty_CUtexref] ''cuTexRefCreate'' [0] False,
     Gen cuda ty_CUresult ''cuTexRefDestroy'' [ty_CUtexref]
       ''cuTexRefDestroy'' ty_CUresult [ty_CUtexref] ''cuTexRefDestroy'' [0] False,
     Gen cuda ty_CUresult ''cuSurfRefSetArray'' [ty_CUsurfref, ty_CUarray, ty_unsigned_int]
       ''cuSurfRefSetArray'' ty_CUresult [ty_CUsurfref, ty_CUarray, ty_unsigned_int] ''cuSurfRefSetArray'' [0, 1, 2] False,
     Gen cuda ty_CUresult ''cuSurfRefGetArray'' [Ptr ty_CUarray, ty_CUsurfref]
       ''cuSurfRefGetArray'' ty_CUresult [Ptr ty_CUarray, ty_CUsurfref] ''cuSurfRefGetArray'' [0, 1] False,
     Gen cuda ty_CUresult ''cuTexObjectCreate'' [Ptr ty_CUtexObject, Ptr (Const ty_CUDA_RESOURCE_DESC), Ptr (Const ty_CUDA_TEXTURE_DESC), Ptr (Const ty_CUDA_RESOURCE_VIEW_DESC)]
       ''cuTexObjectCreate'' ty_CUresult [Ptr ty_CUtexObject, Ptr (Const ty_CUDA_RESOURCE_DESC), Ptr (Const ty_CUDA_TEXTURE_DESC), Ptr (Const ty_CUDA_RESOURCE_VIEW_DESC)] ''cuTexObjectCreate'' [0, 1, 2, 3] False,
     Gen cuda ty_CUresult ''cuTexObjectDestroy'' [ty_CUtexObject]
       ''cuTexObjectDestroy'' ty_CUresult [ty_CUtexObject] ''cuTexObjectDestroy'' [0] False,
     Gen cuda ty_CUresult ''cuTexObjectGetResourceDesc'' [Ptr ty_CUDA_RESOURCE_DESC, ty_CUtexObject]
       ''cuTexObjectGetResourceDesc'' ty_CUresult [Ptr ty_CUDA_RESOURCE_DESC, ty_CUtexObject] ''cuTexObjectGetResourceDesc'' [0, 1] False,
     Gen cuda ty_CUresult ''cuTexObjectGetTextureDesc'' [Ptr ty_CUDA_TEXTURE_DESC, ty_CUtexObject]
       ''cuTexObjectGetTextureDesc'' ty_CUresult [Ptr ty_CUDA_TEXTURE_DESC, ty_CUtexObject] ''cuTexObjectGetTextureDesc'' [0, 1] False,
     Gen cuda ty_CUresult ''cuTexObjectGetResourceViewDesc'' [Ptr ty_CUDA_RESOURCE_VIEW_DESC, ty_CUtexObject]
       ''cuTexObjectGetResourceViewDesc'' ty_CUresult [Ptr ty_CUDA_RESOURCE_VIEW_DESC, ty_CUtexObject] ''cuTexObjectGetResourceViewDesc'' [0, 1] False,
     Gen cuda ty_CUresult ''cuSurfObjectCreate'' [Ptr ty_CUsurfObject, Ptr (Const ty_CUDA_RESOURCE_DESC)]
       ''cuSurfObjectCreate'' ty_CUresult [Ptr ty_CUsurfObject, Ptr (Const ty_CUDA_RESOURCE_DESC)] ''cuSurfObjectCreate'' [0, 1] False,
     Gen cuda ty_CUresult ''cuSurfObjectDestroy'' [ty_CUsurfObject]
       ''cuSurfObjectDestroy'' ty_CUresult [ty_CUsurfObject] ''cuSurfObjectDestroy'' [0] False,
     Gen cuda ty_CUresult ''cuSurfObjectGetResourceDesc'' [Ptr ty_CUDA_RESOURCE_DESC, ty_CUsurfObject]
       ''cuSurfObjectGetResourceDesc'' ty_CUresult [Ptr ty_CUDA_RESOURCE_DESC, ty_CUsurfObject] ''cuSurfObjectGetResourceDesc'' [0, 1] False,
     Gen cuda ty_CUresult ''cuDeviceCanAccessPeer'' [Ptr ty_int, ty_CUdevice, ty_CUdevice]
       ''cuDeviceCanAccessPeer'' ty_CUresult [Ptr ty_int, ty_CUdevice, ty_CUdevice] ''cuDeviceCanAccessPeer'' [0, 1, 2] False,
     Gen cuda ty_CUresult ''cuCtxEnablePeerAccess'' [ty_CUcontext, ty_unsigned_int]
       ''cuCtxEnablePeerAccess'' ty_CUresult [ty_CUcontext, ty_unsigned_int] ''cuCtxEnablePeerAccess'' [0, 1] False,
     Gen cuda ty_CUresult ''cuCtxDisablePeerAccess'' [ty_CUcontext]
       ''cuCtxDisablePeerAccess'' ty_CUresult [ty_CUcontext] ''cuCtxDisablePeerAccess'' [0] False,
     Gen cuda ty_CUresult ''cuDeviceGetP2PAttribute'' [Ptr ty_int, ty_CUdevice_P2PAttribute, ty_CUdevice, ty_CUdevice]
       ''cuDeviceGetP2PAttribute'' ty_CUresult [Ptr ty_int, ty_CUdevice_P2PAttribute, ty_CUdevice, ty_CUdevice] ''cuDeviceGetP2PAttribute'' [0, 1, 2, 3] False,
     Gen cuda ty_CUresult ''cuGraphicsUnregisterResource'' [ty_CUgraphicsResource]
       ''cuGraphicsUnregisterResource'' ty_CUresult [ty_CUgraphicsResource] ''cuGraphicsUnregisterResource'' [0] False]"

definition cuda_hooks_23 :: "gen_hook list" where
  "cuda_hooks_23 =
    [Gen cuda ty_CUresult ''cuGraphicsSubResourceGetMappedArray'' [Ptr ty_CUarray, ty_CUgraphicsResource, ty_unsigned_int, ty_unsigned_int]
       ''cuGraphicsSubResourceGetMappedArray'' ty_CUresult [Ptr ty_CUarray, ty_CUgraphicsResource, ty_unsigned_int, ty_unsigned_int] ''cuGraphicsSubResourceGetMappedArray'' [0, 1, 2, 3] False,
     Gen cuda ty_CUresult ''cuGraphicsResourceGetMappedMipmappedArray'' [Ptr ty_CUmipmappedArray, ty_CUgraphicsResource]
       ''cuGraphicsResourceGetMappedMipmappedArray'' ty_CUresult [Ptr ty_CUmipmappedArray, ty_CUgraphicsResource] ''cuGraphicsResourceGetMappedMipmappedArray'' [0, 1] False,
     Gen cuda ty_CUresult ''cuGraphicsResourceGetMappedPointer'' [Ptr ty_CUdeviceptr, Ptr ty_size_t, ty_CUgraphicsResource]
       ''cuGraphicsResourceGetMappedPointer'' ty_CUresult [Ptr ty_CUdeviceptr, Ptr ty_size_t, ty_CUgraphicsResource] ''cuGraphicsResourceGetMappedPointer'' [0, 1, 2] False,
     Gen cuda ty_CUresult ''cuGraphicsResourceGetMappedPointer_v2'' [Ptr ty_CUdeviceptr, Ptr ty_size_t, ty_CUgraphicsResource]
       ''cuGraphicsResourceGetMappedPointer_v2'' ty_CUresult [Ptr ty_CUdeviceptr, Ptr ty_size_t, ty_CUgraphicsResource] ''cuGraphicsResourceGetMappedPointer_v2'' [0, 1, 2] False,
     Gen cuda ty_CUresult ''cuGraphicsResourceSetMapFlags'' [ty_CUgraphicsResource, ty_unsigned_int]
       ''cuGraphicsResourceSetMapFlags'' ty_CUresult [ty_CUgraphicsResource, ty_unsigned_int] ''cuGraphicsResourceSetMapFlags'' [0, 1] False,
     Gen cuda ty_CUresult ''cuGraphicsResourceSetMapFlags_v2'' [ty_CUgraphicsResource, ty_unsigned_int]
       ''cuGraphicsResourceSetMapFlags_v2'' ty_CUresult [ty_CUgraphicsResource, ty_unsigned_int] ''cuGraphicsResourceSetMapFlags_v2'' [0, 1] False,
     Gen cuda ty_CUresult ''cuGraphicsMapResources'' [ty_unsigned_int, Ptr ty_CUgraphicsResource, ty_CUstream]
       ''cuGraphicsMapResources'' ty_CUresult [ty_unsigned_int, Ptr ty_CUgraphicsResource, ty_CUstream] ''cuGraphicsMapResources'' [0, 1, 2] False,
     Gen cuda ty_CUresult ''cuGraphicsUnmapResources'' [ty_unsigned_int, Ptr ty_CUgraphicsResource, ty_CUstream]
       ''cuGraphicsUnmapResources'' ty_CUresult [ty_unsigned_int, Ptr ty_CUgraphicsResource, ty_CUstream] ''cuGraphicsUnmapResources'' [0, 1, 2] False,
     Gen cuda ty_CUresult ''cuGetExportTable'' [Ptr (Ptr (Const ty_void)), Ptr (Const ty_CUuuid)]
       ''cuGetExportTable'' ty_CUresult [Ptr (Ptr (Const ty_void)), Ptr (Const ty_CUuuid)] ''cuGetExportTable'' [0, 1] False,
     Gen cuda ty_CUresult ''cuTexRefSetAddress2D_v2'' [ty_CUtexref, Ptr (Const ty_CUDA_ARRAY_DESCRIPTOR), ty_CUdeviceptr, ty_size_t]
       ''cuTexRefSetAddress2D_v2'' ty_CUresult [ty_CUtexref, Ptr (Const ty_CUDA_ARRAY_DESCRIPTOR), ty_CUdeviceptr, ty_size_t] ''cuTexRefSetAddress2D_v2'' [0, 1, 2, 3] False,
     Gen cuda ty_CUresult ''cuMemcpyHtoD_v2'' [ty_CUdeviceptr, Ptr (Const ty_void), ty_size_t]
       ''cuMemcpyHtoD_v2'' ty_CUresult [ty_CUdeviceptr, Ptr (Const ty_void), ty_size_t] ''cuMemcpyHtoD_v2'' [0, 1, 2] False,
     Gen cuda ty_CUresult ''cuMemcpyDtoH_v2'' [Ptr ty_void, ty_CUdeviceptr, ty_size_t]
       ''cuMemcpyDtoH_v2'' ty_CUresult [Ptr ty_void, ty_CUdeviceptr, ty_size_t] ''cuMemcpyDtoH_v2'' [0, 1, 2] False,
     Gen cuda ty_CUresult ''cuMemcpyDtoD_v2'' [ty_CUdeviceptr, ty_CUdeviceptr, ty_size_t]
       ''cuMemcpyDtoD_v2'' ty_CUresult [ty_CUdeviceptr, ty_CUdeviceptr, ty_size_t] ''cuMemcpyDtoD_v2'' [0, 1, 2] False,
     Gen cuda ty_CUresult ''cuMemcpyDtoA_v2'' [ty_CUarray, ty_size_t, ty_CUdeviceptr, ty_size_t]
       ''cuMemcpyDtoA_v2'' ty_CUresult [ty_CUarray, ty_size_t, ty_CUdeviceptr, ty_size_t] ''cuMemcpyDtoA_v2'' [0, 1, 2, 3] False,
     Gen cuda ty_CUresult ''cuMemcpyAtoD_v2'' [ty_CUdeviceptr, ty_CUarray, ty_size_t, ty_size_t]
       ''cuMemcpyAtoD_v2'' ty_CUresult [ty_CUdeviceptr, ty_CUarray, ty_size_t, ty_size_t] ''cuMemcpyAtoD_v2'' [0, 1, 2, 3] False,
     Gen cuda ty_CUresult ''cuMemcpyHtoA_v2'' [ty_CUarray, ty_size_t, Ptr (Const ty_void), ty_size_t]
       ''cuMemcpyHtoA_v2'' ty_CUresult [ty_CUarray, ty_size_t, Ptr (Const ty_void), ty_size_t] ''cuMemcpyHtoA_v2'' [0, 1, 2, 3] False]"

definition cuda_hooks_24 :: "gen_hook list" where
  "cuda_hooks_24 =
    [Gen cuda ty_CUresult ''cuMemcpyAtoH_v2'' [Ptr ty_void, ty_CUarray, ty_size_t, ty_size_t]
       ''cuMemcpyAtoH_v2'' ty_CUresult [Ptr ty_void, ty_CUarray, ty_size_t, ty_size_t] ''cuMemcpyAtoH_v2'' [0, 1, 2, 3] False,
     Gen cuda ty_CUresult ''cuMemcpyAtoA_v2'' [ty_CUarray, ty_size_t, ty_CUarray, ty_size_t, ty_size_t]
       ''cuMemcpyAtoA_v2'' ty_CUresult [ty_CUarray, ty_size_t, ty_CUarray, ty_size_t, ty_size_t] ''cuMemcpyAtoA_v2'' [0, 1, 2, 3, 4] False,
     Gen cuda ty_CUresult ''cuMemcpyHtoAAsync_v2'' [ty_CUarray, ty_size_t, Ptr (Const ty_void), ty_size_t, ty_CUstream]
       ''cuMemcpyHtoAAsync_v2'' ty_CUresult [ty_CUarray, ty_size_t, Ptr (Const ty_void), ty_size_t, ty_CUstream] ''cuMemcpyHtoAAsync_v2'' [0, 1, 2, 3, 4] False,
     Gen cuda ty_CUresult ''cuMemcpyAtoHAsync_v2'' [Ptr ty_void, ty_CUarray, ty_size_t, ty_size_t, ty_CUstream]
       ''cuMemcpyAtoHAsync_v2'' ty_CUresult [Ptr ty_void, ty_CUarray, ty_size_t, ty_size_t, ty_CUstream] ''cuMemcpyAtoHAsync_v2'' [0, 1, 2, 3, 4] False,
     Gen cuda ty_CUresult ''cuMemcpy2D_v2'' [Ptr (Const ty_CUDA_MEMCPY2D)]
       ''cuMemcpy2D_v2'' ty_CUresult [Ptr (Const ty_CUDA_MEMCPY2D)] ''cuMemcpy2D_v2'' [0] False,
     Gen cuda ty_CUresult ''cuMemcpy2DUnaligned_v2'' [Ptr (Const ty_CUDA_MEMCPY2D)]
       ''cuMemcpy2DUnaligned_v2'' ty_CUresult [Ptr (Const ty_CUDA_MEMCPY2D)] ''cuMemcpy2DUnaligned_v2'' [0] False,
     Gen cuda ty_CUresult ''cuMemcpy3D_v2'' [Ptr (Const ty_CUDA_MEMCPY3D)]
       ''cuMemcpy3D_v2'' ty_CUresult [Ptr (Const ty_CUDA_MEMCPY3D)] ''cuMemcpy3D_v2'' [0] False,
     Gen cuda ty_CUresult ''cuMemcpyHtoDAsync_v2'' [ty_CUdeviceptr, Ptr (Const ty_void), ty_size_t, ty_CUstream]
       ''cuMemcpyHtoDAsync_v2'' ty_CUresult [ty_CUdeviceptr, Ptr (Const ty_void), ty_size_t, ty_CUstream] ''cuMemcpyHtoDAsync_v2'' [0, 1, 2, 3] False,
     Gen cuda ty_CUresult ''cuMemcpyDtoHAsync_v2'' [Ptr ty_void, ty_CUdeviceptr, ty_size_t, ty_CUstream]
       ''cuMemcpyDtoHAsync_v2'' ty_CUresult [Ptr ty_void, ty_CUdeviceptr, ty_size_t, ty_CUstream] ''cuMemcpyDtoHAsync_v2'' [0, 1, 2, 3] False,
     Gen cuda ty_CUresult ''cuMemcpyDtoDAsync_v2'' [ty_CUdeviceptr, ty_CUdeviceptr, ty_size_t, ty_CUstream]
       ''cuMemcpyDtoDAsync_v2'' ty_CUresult [ty_CUdeviceptr, ty_CUdeviceptr, ty_size_t, ty_CUstream] ''cuMemcpyDtoDAsync_v2'' [0, 1, 2, 3] False,
     Gen cuda ty_CUresult ''cuMemcpy2DAsync_v2'' [Ptr (Const ty_CUDA_MEMCPY2D), ty_CUstream]
       ''cuMemcpy2DAsync_v2'' ty_CUresult [Ptr (Const ty_CUDA_MEMCPY2D), ty_CUstream] ''cuMemcpy2DAsync_v2'' [0, 1] False,
     Gen cuda ty_CUresult ''cuMemcpy3DAsync_v2'' [Ptr (Const ty_CUDA_MEMCPY3D), ty_CUstream]
       ''cuMemcpy3DAsync_v2'' ty_CUresult [Ptr (Const ty_CUDA_MEMCPY3D), ty_CUstream] ''cuMemcpy3DAsync_v2'' [0, 1] False,
     Gen cuda ty_CUresult ''cuMemsetD8_v2'' [ty_CUdeviceptr, ty_unsigned_char, ty_size_t]
       ''cuMemsetD8_v2'' ty_CUresult [ty_CUdeviceptr, ty_unsigned_char, ty_size_t] ''cuMemsetD8_v2'' [0, 1, 2] False,
     Gen cuda ty_CUresult ''cuMemsetD16_v2'' [ty_CUdeviceptr, ty_unsigned_short, ty_size_t]
       ''cuMemsetD16_v2'' ty_CUresult [ty_CUdeviceptr, ty_unsigned_short, ty_size_t] ''cuMemsetD16_v2'' [0, 1, 2] False,
     Gen cuda ty_CUresult ''cuMemsetD32_v2'' [ty_CUdeviceptr, ty_unsigned_int, ty_size_t]
       ''cuMemsetD32_v2'' ty_CUresult [ty_CUdeviceptr, ty_unsigned_int, ty_size_t] ''cuMemsetD32_v2'' [0, 1, 2] False,
     Gen cuda ty_CUresult ''cuMemsetD2D8_v2'' [ty_CUdeviceptr, ty_size_t, ty_unsigned_char, ty_size_t, ty_size_t]
       ''cuMemsetD2D8_v2'' ty_CUresult [ty_CUdeviceptr, ty_size_t, ty_unsigned_char, ty_size_t, ty_size_t] ''cuMemsetD2D8_v2'' [0, 1, 2, 3, 4] False,
     Gen cuda ty_CUresult ''cuMemsetD2D16_v2'' [ty_CUdeviceptr, ty_size_t, ty_unsigned_short, ty_size_t, ty_size_t]
       ''cuMemsetD2D16_v2'' ty_CUresult [ty_CUdeviceptr, ty_size_t, ty_unsigned_short, ty_size_t, ty_size_t] ''cuMemsetD2D16_v2'' [0, 1, 2, 3, 4] False]"

definition cuda_hooks_25 :: "gen_hook list" where
  "cuda_hooks_25 =
    [Gen cuda ty_CUresult ''cuMemsetD2D32_v2'' [ty_CUdeviceptr, ty_size_t, ty_unsigned_int, ty_size_t, ty_size_t]
       ''cuMemsetD2D32_v2'' ty_CUresult [ty_CUdeviceptr, ty_size_t, ty_unsigned_int, ty_size_t, ty_size_t] ''cuMemsetD2D32_v2'' [0, 1, 2, 3, 4] False,
     Gen cuda ty_CUresult ''cuStreamBeginCapture_ptsz'' [ty_CUstream]
       ''cuStreamBeginCapture_ptsz'' ty_CUresult [ty_CUstream] ''cuStreamBeginCapture_ptsz'' [0] False,
     Gen cuda ty_CUresult ''cuStreamBeginCapture_v2'' [ty_CUstream, ty_CUstreamCaptureMode]
       ''cuStreamBeginCapture_v2'' ty_CUresult [ty_CUstream, ty_CUstreamCaptureMode] ''cuStreamBeginCapture_v2'' [0, 1] False,
     Gen cuda ty_CUresult ''cuGetProcAddress_ptsz'' [Ptr (Const ty_char), Ptr (Ptr ty_void), ty_int, ty_cuuint64_t]
       ''cuGetProcAddress_ptsz'' ty_CUresult [Ptr (Const ty_char), Ptr (Ptr ty_void), ty_int, ty_cuuint64_t] ''cuGetProcAddress_ptsz'' [0, 1, 2, 3] False]"

section \<open>All are instances of the template\<close>

lemma cuda_hooks_1_ok: "list_all instance_of_template cuda_hooks_1"
  by (simp add: cuda_hooks_1_def instance_of_template_def)

lemma cuda_hooks_2_ok: "list_all instance_of_template cuda_hooks_2"
  by (simp add: cuda_hooks_2_def instance_of_template_def)

lemma cuda_hooks_3_ok: "list_all instance_of_template cuda_hooks_3"
  by (simp add: cuda_hooks_3_def instance_of_template_def)

lemma cuda_hooks_4_ok: "list_all instance_of_template cuda_hooks_4"
  by (simp add: cuda_hooks_4_def instance_of_template_def)

lemma cuda_hooks_5_ok: "list_all instance_of_template cuda_hooks_5"
  by (simp add: cuda_hooks_5_def instance_of_template_def)

lemma cuda_hooks_6_ok: "list_all instance_of_template cuda_hooks_6"
  by (simp add: cuda_hooks_6_def instance_of_template_def)

lemma cuda_hooks_7_ok: "list_all instance_of_template cuda_hooks_7"
  by (simp add: cuda_hooks_7_def instance_of_template_def)

lemma cuda_hooks_8_ok: "list_all instance_of_template cuda_hooks_8"
  by (simp add: cuda_hooks_8_def instance_of_template_def)

lemma cuda_hooks_9_ok: "list_all instance_of_template cuda_hooks_9"
  by (simp add: cuda_hooks_9_def instance_of_template_def)

lemma cuda_hooks_10_ok: "list_all instance_of_template cuda_hooks_10"
  by (simp add: cuda_hooks_10_def instance_of_template_def)

lemma cuda_hooks_11_ok: "list_all instance_of_template cuda_hooks_11"
  by (simp add: cuda_hooks_11_def instance_of_template_def)

lemma cuda_hooks_12_ok: "list_all instance_of_template cuda_hooks_12"
  by (simp add: cuda_hooks_12_def instance_of_template_def)

lemma cuda_hooks_13_ok: "list_all instance_of_template cuda_hooks_13"
  by (simp add: cuda_hooks_13_def instance_of_template_def)

lemma cuda_hooks_14_ok: "list_all instance_of_template cuda_hooks_14"
  by (simp add: cuda_hooks_14_def instance_of_template_def)

lemma cuda_hooks_15_ok: "list_all instance_of_template cuda_hooks_15"
  by (simp add: cuda_hooks_15_def instance_of_template_def)

lemma cuda_hooks_16_ok: "list_all instance_of_template cuda_hooks_16"
  by (simp add: cuda_hooks_16_def instance_of_template_def)

lemma cuda_hooks_17_ok: "list_all instance_of_template cuda_hooks_17"
  by (simp add: cuda_hooks_17_def instance_of_template_def)

lemma cuda_hooks_18_ok: "list_all instance_of_template cuda_hooks_18"
  by (simp add: cuda_hooks_18_def instance_of_template_def)

lemma cuda_hooks_19_ok: "list_all instance_of_template cuda_hooks_19"
  by (simp add: cuda_hooks_19_def instance_of_template_def)

lemma cuda_hooks_20_ok: "list_all instance_of_template cuda_hooks_20"
  by (simp add: cuda_hooks_20_def instance_of_template_def)

lemma cuda_hooks_21_ok: "list_all instance_of_template cuda_hooks_21"
  by (simp add: cuda_hooks_21_def instance_of_template_def)

lemma cuda_hooks_22_ok: "list_all instance_of_template cuda_hooks_22"
  by (simp add: cuda_hooks_22_def instance_of_template_def)

lemma cuda_hooks_23_ok: "list_all instance_of_template cuda_hooks_23"
  by (simp add: cuda_hooks_23_def instance_of_template_def)

lemma cuda_hooks_24_ok: "list_all instance_of_template cuda_hooks_24"
  by (simp add: cuda_hooks_24_def instance_of_template_def)

lemma cuda_hooks_25_ok: "list_all instance_of_template cuda_hooks_25"
  by (simp add: cuda_hooks_25_def instance_of_template_def)

definition cuda_hooks :: "gen_hook list" where
  "cuda_hooks = concat
    [cuda_hooks_1, cuda_hooks_2, cuda_hooks_3, cuda_hooks_4,
     cuda_hooks_5, cuda_hooks_6, cuda_hooks_7, cuda_hooks_8,
     cuda_hooks_9, cuda_hooks_10, cuda_hooks_11, cuda_hooks_12,
     cuda_hooks_13, cuda_hooks_14, cuda_hooks_15, cuda_hooks_16,
     cuda_hooks_17, cuda_hooks_18, cuda_hooks_19, cuda_hooks_20,
     cuda_hooks_21, cuda_hooks_22, cuda_hooks_23, cuda_hooks_24,
     cuda_hooks_25]"

lemma cuda_hooks_ok: "list_all instance_of_template cuda_hooks"
  by (simp add: cuda_hooks_def cuda_hooks_1_ok cuda_hooks_2_ok cuda_hooks_3_ok cuda_hooks_4_ok cuda_hooks_5_ok
      cuda_hooks_6_ok cuda_hooks_7_ok cuda_hooks_8_ok cuda_hooks_9_ok cuda_hooks_10_ok
      cuda_hooks_11_ok cuda_hooks_12_ok cuda_hooks_13_ok cuda_hooks_14_ok cuda_hooks_15_ok
      cuda_hooks_16_ok cuda_hooks_17_ok cuda_hooks_18_ok cuda_hooks_19_ok cuda_hooks_20_ok
      cuda_hooks_21_ok cuda_hooks_22_ok cuda_hooks_23_ok cuda_hooks_24_ok cuda_hooks_25_ok)

end
