(* ===== verification/Hooks_Cudart.thy ===== *)
theory Hooks_Cudart
  imports Hook_Gen
begin

text \<open>
  The generated functions of \<open>src/cudart/cudart_hook.cpp\<close>, in the order of the file.
\<close>

section \<open>Types\<close>

definition ty_cudaError_t :: cty where "ty_cudaError_t = Named ''cudaError_t''"
definition ty_enum_cudaLimit :: cty where "ty_enum_cudaLimit = Named ''enum cudaLimit''"
definition ty_struct_cudaChannelFormatDesc :: cty where "ty_struct_cudaChannelFormatDesc = Named ''struct cudaChannelFormatDesc''"
definition ty_enum_cudaFuncCache :: cty where "ty_enum_cudaFuncCache = Named ''enum cudaFuncCache''"
definition ty_enum_cudaSharedMemConfig :: cty where "ty_enum_cudaSharedMemConfig = Named ''enum cudaSharedMemConfig''"
definition ty_cudaIpcEventHandle_t :: cty where "ty_cudaIpcEventHandle_t = Named ''cudaIpcEventHandle_t''"
definition ty_cudaIpcMemHandle_t :: cty where "ty_cudaIpcMemHandle_t = Named ''cudaIpcMemHandle_t''"
definition ty_enum_cudaFlushGPUDirectRDMAWritesTarget :: cty where "ty_enum_cudaFlushGPUDirectRDMAWritesTarget = Named ''enum cudaFlushGPUDirectRDMAWritesTarget''"
definition ty_enum_cudaFlushGPUDirectRDMAWritesScope :: cty where "ty_enum_cudaFlushGPUDirectRDMAWritesScope = Named ''enum cudaFlushGPUDirectRDMAWritesScope''"
definition ty_struct_cudaDeviceProp :: cty where "ty_struct_cudaDeviceProp = Named ''struct cudaDeviceProp''"
definition ty_enum_cudaDeviceAttr :: cty where "ty_enum_cudaDeviceAttr = Named ''enum cudaDeviceAttr''"
definition ty_cudaMemPool_t :: cty where "ty_cudaMemPool_t = Named ''cudaMemPool_t''"
definition ty_enum_cudaDeviceP2PAttr :: cty where "ty_enum_cudaDeviceP2PAttr = Named ''enum cudaDeviceP2PAttr''"
definition ty_enum_cudaStreamAttrID :: cty where "ty_enum_cudaStreamAttrID = Named ''enum cudaStreamAttrID''"
definition ty_union_cudaStreamAttrValue :: cty where "ty_union_cudaStreamAttrValue = Named ''union cudaStreamAttrValue''"
definition ty_cudaStreamCallback_t :: cty where "ty_cudaStreamCallback_t = Named ''cudaStreamCallback_t''"
definition ty_enum_cudaStreamCaptureMode :: cty where "ty_enum_cudaStreamCaptureMode = Named ''enum cudaStreamCaptureMode''"
definition ty_cudaGraph_t :: cty where "ty_cudaGraph_t = Named ''cudaGraph_t''"
definition ty_enum_cudaStreamCaptureStatus :: cty where "ty_enum_cudaStreamCaptureStatus = Named ''enum cudaStreamCaptureStatus''"
definition ty_cudaGraphNode_t :: cty where "ty_cudaGraphNode_t = Named ''cudaGraphNode_t''"
definition ty_cudaExternalMemory_t :: cty where "ty_cudaExternalMemory_t = Named ''cudaExternalMemory_t''"
definition ty_struct_cudaExternalMemoryHandleDesc :: cty where "ty_struct_cudaExternalMemoryHandleDesc = Named ''struct cudaExternalMemoryHandleDesc''"
definition ty_struct_cudaExternalMemoryBufferDesc :: cty where "ty_struct_cudaExternalMemoryBufferDesc = Named ''struct cudaExternalMemoryBufferDesc''"
definition ty_cudaMipmappedArray_t :: cty where "ty_cudaMipmappedArray_t = Named ''cudaMipmappedArray_t''"
definition ty_struct_cudaExternalMemoryMipmappedArrayDesc :: cty where "ty_struct_cudaExternalMemoryMipmappedArrayDesc = Named ''struct cudaExternalMemoryMipmappedArrayDesc''"
definition ty_cudaExternalSemaphore_t :: cty where "ty_cudaExternalSemaphore_t = Named ''cudaExternalSemaphore_t''"
definition ty_struct_cudaExternalSemaphoreHandleDesc :: cty where "ty_struct_cudaExternalSemaphoreHandleDesc = Named ''struct cudaExternalSemaphoreHandleDesc''"
definition ty_struct_cudaExternalSemaphoreSignalParams :: cty where "ty_struct_cudaExternalSemaphoreSignalParams = Named ''struct cudaExternalSemaphoreSignalParams''"
definition ty_struct_cudaExternalSemaphoreWaitParams :: cty where "ty_struct_cudaExternalSemaphoreWaitParams = Named ''struct cudaExternalSemaphoreWaitParams''"
definition ty_dim3 :: cty where "ty_dim3 = Named ''dim3''"
definition ty_struct_cudaLaunchParams :: cty where "ty_struct_cudaLaunchParams = Named ''struct cudaLaunchParams''"
definition ty_struct_cudaFuncAttributes :: cty where "ty_struct_cudaFuncAttributes = Named ''struct cudaFuncAttributes''"
definition ty_enum_cudaFuncAttribute :: cty where "ty_enum_cudaFuncAttribute = Named ''enum cudaFuncAttribute''"
definition ty_cudaHostFn_t :: cty where "ty_cudaHostFn_t = Named ''cudaHostFn_t''"
definition ty_cudaArray_t :: cty where "ty_cudaArray_t = Named ''cudaArray_t''"
definition ty_struct_cudaPitchedPtr :: cty where "ty_struct_cudaPitchedPtr = Named ''struct cudaPitchedPtr''"
definition ty_struct_cudaExtent :: cty where "ty_struct_cudaExtent = Named ''struct cudaExtent''"
definition ty_cudaMipmappedArray_const_t :: cty where "ty_cudaMipmappedArray_const_t = Named ''cudaMipmappedArray_const_t''"
definition ty_struct_cudaMemcpy3DParms :: cty where "ty_struct_cudaMemcpy3DParms = Named ''struct cudaMemcpy3DParms''"
definition ty_struct_cudaMemcpy3DPeerParms :: cty where "ty_struct_cudaMemcpy3DPeerParms = Named ''struct cudaMemcpy3DPeerParms''"
definition ty_struct_cudaArraySparseProperties :: cty where "ty_struct_cudaArraySparseProperties = Named ''struct cudaArraySparseProperties''"
definition ty_enum_cudaMemcpyKind :: cty where "ty_enum_cudaMemcpyKind = Named ''enum cudaMemcpyKind''"
definition ty_cudaArray_const_t :: cty where "ty_cudaArray_const_t = Named ''cudaArray_const_t''"
definition ty_enum_cudaMemoryAdvise :: cty where "ty_enum_cudaMemoryAdvise = Named ''enum cudaMemoryAdvise''"
definition ty_enum_cudaMemRangeAttribute :: cty where "ty_enum_cudaMemRangeAttribute = Named ''enum cudaMemRangeAttribute''"
definition ty_enum_cudaMemPoolAttr :: cty where "ty_enum_cudaMemPoolAttr = Named ''enum cudaMemPoolAttr''"
definition ty_struct_cudaMemAccessDesc :: cty where "ty_struct_cudaMemAccessDesc = Named ''struct cudaMemAccessDesc''"
definition ty_enum_cudaMemAccessFlags :: cty where "ty_enum_cudaMemAccessFlags = Named ''enum cudaMemAccessFlags''"
definition ty_struct_cudaMemLocation :: cty where "ty_struct_cudaMemLocation = Named ''struct cudaMemLocation''"
definition ty_struct_cudaMemPoolProps :: cty where "ty_struct_cudaMemPoolProps = Named ''struct cudaMemPoolProps''"
definition ty_enum_cudaMemAllocationHandleType :: cty where "ty_enum_cudaMemAllocationHandleType = Named ''enum cudaMemAllocationHandleType''"
definition ty_struct_cudaMemPoolPtrExportData :: cty where "ty_struct_cudaMemPoolPtrExportData = Named ''struct cudaMemPoolPtrExportData''"
definition ty_struct_cudaPointerAttributes :: cty where "ty_struct_cudaPointerAttributes = Named ''struct cudaPointerAttributes''"
definition ty_cudaGraphicsResource_t :: cty where "ty_cudaGraphicsResource_t = Named ''cudaGraphicsResource_t''"
definition ty_struct_textureReference :: cty where "ty_struct_textureReference = Named ''struct textureReference''"
definition ty_struct_surfaceReference :: cty where "ty_struct_surfaceReference = Named ''struct surfaceReference''"
definition ty_enum_cudaChannelFormatKind :: cty where "ty_enum_cudaChannelFormatKind = Named ''enum cudaChannelFormatKind''"
definition ty_cudaTextureObject_t :: cty where "ty_cudaTextureObject_t = Named ''cudaTextureObject_t''"
definition ty_struct_cudaResourceDesc :: cty where "ty_struct_cudaResourceDesc = Named ''struct cudaResourceDesc''"
definition ty_struct_cudaTextureDesc :: cty where "ty_struct_cudaTextureDesc = Named ''struct cudaTextureDesc''"
definition ty_struct_cudaResourceViewDesc :: cty where "ty_struct_cudaResourceViewDesc = Named ''struct cudaResourceViewDesc''"
definition ty_cudaSurfaceObject_t :: cty where "ty_cudaSurfaceObject_t = Named ''cudaSurfaceObject_t''"
definition ty_struct_cudaKernelNodeParams :: cty where "ty_struct_cudaKernelNodeParams = Named ''struct cudaKernelNodeParams''"
definition ty_enum_cudaKernelNodeAttrID :: cty where "ty_enum_cudaKernelNodeAttrID = Named ''enum cudaKernelNodeAttrID''"
definition ty_union_cudaKernelNodeAttrValue :: cty where "ty_union_cudaKernelNodeAttrValue = Named ''union cudaKernelNodeAttrValue''"
definition ty_struct_cudaMemsetParams :: cty where "ty_struct_cudaMemsetParams = Named ''struct cudaMemsetParams''"
definition ty_struct_cudaHostNodeParams :: cty where "ty_struct_cudaHostNodeParams = Named ''struct cudaHostNodeParams''"
definition ty_struct_cudaExternalSemaphoreSignalNodeParams :: cty where "ty_struct_cudaExternalSemaphoreSignalNodeParams = Named ''struct cudaExternalSemaphoreSignalNodeParams''"
definition ty_struct_cudaExternalSemaphoreWaitNodeParams :: cty where "ty_struct_cudaExternalSemaphoreWaitNodeParams = Named ''struct cudaExternalSemaphoreWaitNodeParams''"
definition ty_struct_cudaMemAllocNodeParams :: cty where "ty_struct_cudaMemAllocNodeParams = Named ''struct cudaMemAllocNodeParams''"
definition ty_enum_cudaGraphMemAttributeType :: cty where "ty_enum_cudaGraphMemAttributeType = Named ''enum cudaGraphMemAttributeType''"
definition ty_enum_cudaGraphNodeType :: cty where "ty_enum_cudaGraphNodeType = Named ''enum cudaGraphNodeType''"
definition ty_cudaGraphExec_t :: cty where "ty_cudaGraphExec_t = Named ''cudaGraphExec_t''"
definition ty_enum_cudaGraphExecUpdateResult :: cty where "ty_enum_cudaGraphExecUpdateResult = Named ''enum cudaGraphExecUpdateResult''"
definition ty_cudaUserObject_t :: cty where "ty_cudaUserObject_t = Named ''cudaUserObject_t''"
definition ty_cudaUUID_t :: cty where "ty_cudaUUID_t = Named ''cudaUUID_t''"
definition ty_cudaFunction_t :: cty where "ty_cudaFunction_t = Named ''cudaFunction_t''"
definition ty_struct_cudaExternalSemaphoreSignalParams_v1 :: cty where "ty_struct_cudaExternalSemaphoreSignalParams_v1 = Named ''struct cudaExternalSemaphoreSignalParams_v1''"
definition ty_struct_cudaExternalSemaphoreWaitParams_v1 :: cty where "ty_struct_cudaExternalSemaphoreWaitParams_v1 = Named ''struct cudaExternalSemaphoreWaitParams_v1''"
definition ty_uint3 :: cty where "ty_uint3 = Named ''uint3''"
definition ty_struct_CUstream_st :: cty where "ty_struct_CUstream_st = Named ''struct CUstream_st''"

section \<open>\<open>cudart\<close>\<close>

definition cudart_hooks_1 :: "gen_hook list" where
  "cudart_hooks_1 =
    [Gen cudart ty_cudaError_t ''cudaDeviceReset'' []
       ''cudaDeviceReset'' ty_cudaError_t [] ''cudaDeviceReset'' [] False,
     Gen cudart ty_cudaError_t ''cudaDeviceSynchronize'' []
       ''cudaDeviceSynchronize'' ty_cudaError_t [] ''cudaDeviceSynchronize'' [] False,
     Gen cudart ty_cudaError_t ''cudaDeviceSetLimit'' [ty_enum_cudaLimit, ty_size_t]
       ''cudaDeviceSetLimit'' ty_cudaError_t [ty_enum_cudaLimit, ty_size_t] ''cudaDeviceSetLimit'' [0, 1] False,
     Gen cudart ty_cudaError_t ''cudaDeviceGetLimit'' [Ptr ty_size_t, ty_enum_cudaLimit]
       ''cudaDeviceGetLimit'' ty_cudaError_t [Ptr ty_size_t, ty_enum_cudaLimit] ''cudaDeviceGetLimit'' [0, 1] False,
     Gen cudart ty_cudaError_t ''cudaDeviceGetTexture1DLinearMaxWidth'' [Ptr ty_size_t, Ptr (Const ty_struct_cudaChannelFormatDesc), ty_int]
       ''cudaDeviceGetTexture1DLinearMaxWidth'' ty_cudaError_t [Ptr ty_size_t, Ptr (Const ty_struct_cudaChannelFormatDesc), ty_int] ''cudaDeviceGetTexture1DLinearMaxWidth'' [0, 1, 2] False,
     Gen cudart ty_cudaError_t ''cudaDeviceGetCacheConfig'' [Ptr ty_enum_cudaFuncCache]
       ''cudaDeviceGetCacheConfig'' ty_cudaError_t [Ptr ty_enum_cudaFuncCache] ''cudaDeviceGetCacheConfig'' [0] False,
     Gen cudart ty_cudaError_t ''cudaDeviceGetStreamPriorityRange'' [Ptr ty_int, Ptr ty_int]
       ''cudaDeviceGetStreamPriorityRange'' ty_cudaError_t [Ptr ty_int, Ptr ty_int] ''cudaDeviceGetStreamPriorityRange'' [0, 1] False,
     Gen cudart ty_cudaError_t ''cudaDeviceSetCacheConfig'' [ty_enum_cudaFuncCache]
       ''cudaDeviceSetCacheConfig'' ty_cudaError_t [ty_enum_cudaFuncCache] ''cudaDeviceSetCacheConfig'' [0] False,
     Gen cudart ty_cudaError_t ''cudaDeviceGetSharedMemConfig'' [Ptr ty_enum_cudaSharedMemConfig]
       ''cudaDeviceGetSharedMemConfig'' ty_cudaError_t [Ptr ty_enum_cudaSharedMemConfig] ''cudaDeviceGetSharedMemConfig'' [0] False,
     Gen cudart ty_cudaError_t ''cudaDeviceSetSharedMemConfig'' [ty_enum_cudaSharedMemConfig]
       ''cudaDeviceSetSharedMemConfig'' ty_cudaError_t [ty_enum_cudaSharedMemConfig] ''cudaDeviceSetSharedMemConfig'' [0] False,
     Gen cudart ty_cudaError_t ''cudaDeviceGetByPCIBusId'' [Ptr ty_int, Ptr (Const ty_char)]
       ''cudaDeviceGetByPCIBusId'' ty_cudaError_t [Ptr ty_int, Ptr (Const ty_char)] ''cudaDeviceGetByPCIBusId'' [0, 1] False,
     Gen cudart ty_cudaError_t ''cudaDeviceGetPCIBusId'' [Ptr ty_char, ty_int, ty_int]
       ''cudaDeviceGetPCIBusId'' ty_cudaError_t [Ptr ty_char, ty_int, ty_int] ''cudaDeviceGetPCIBusId'' [0, 1, 2] False,
     Gen cudart ty_cudaError_t ''cudaIpcGetEventHandle'' [Ptr ty_cudaIpcEventHandle_t, ty_cudaEvent_t]
       ''cudaIpcGetEventHandle'' ty_cudaError_t [Ptr ty_cudaIpcEventHandle_t, ty_cudaEvent_t] ''cudaIpcGetEventHandle'' [0, 1] False,
     Gen cudart ty_cudaError_t ''cudaIpcOpenEventHandle'' [Ptr ty_cudaEvent_t, ty_cudaIpcEventHandle_t]
       ''cudaIpcOpenEventHandle'' ty_cudaError_t [Ptr ty_cudaEvent_t, ty_cudaIpcEventHandle_t] ''cudaIpcOpenEventHandle'' [0, 1] False,
     Gen cudart ty_cudaError_t ''cudaIpcGetMemHandle'' [Ptr ty_cudaIpcMemHandle_t, Ptr ty_void]
       ''cudaIpcGetMemHandle'' ty_cudaError_t [Ptr ty_cudaIpcMemHandle_t, Ptr ty_void] ''cudaIpcGetMemHandle'' [0, 1] False,
     Gen cudart ty_cudaError_t ''cudaIpcOpenMemHandle'' [Ptr (Ptr ty_void), ty_cudaIpcMemHandle_t, ty_unsigned_int]
       ''cudaIpcOpenMemHandle'' ty_cudaError_t [Ptr (Ptr ty_void), ty_cudaIpcMemHandle_t, ty_unsigned_int] ''cudaIpcOpenMemHandle'' [0, 1, 2] False,
     Gen cudart ty_cudaError_t ''cudaIpcCloseMemHandle'' [Ptr ty_void]
       ''cudaIpcCloseMemHandle'' ty_cudaError_t [Ptr ty_void] ''cudaIpcCloseMemHandle'' [0] False,
     Gen cudart ty_cudaError_t ''cudaDeviceFlushGPUDirectRDMAWrites'' [ty_enum_cudaFlushGPUDirectRDMAWritesTarget, ty_enum_cudaFlushGPUDirectRDMAWritesScope]
       ''cudaDeviceFlushGPUDirectRDMAWrites'' ty_cudaError_t [ty_enum_cudaFlushGPUDirectRDMAWritesTarget, ty_enum_cudaFlushGPUDirectRDMAWritesScope] ''cudaDeviceFlushGPUDirectRDMAWrites'' [0, 1] False]"

definition cudart_hooks_2 :: "gen_hook list" where
  "cudart_hooks_2 =
    [Gen cudart ty_cudaError_t ''cudaThreadExit'' []
       ''cudaThreadExit'' ty_cudaError_t [] ''cudaThreadExit'' [] False,
     Gen cudart ty_cudaError_t ''cudaThreadSynchronize'' []
       ''cudaThreadSynchronize'' ty_cudaError_t [] ''cudaThreadSynchronize'' [] False,
     Gen cudart ty_cudaError_t ''cudaThreadSetLimit'' [ty_enum_cudaLimit, ty_size_t]
       ''cudaThreadSetLimit'' ty_cudaError_t [ty_enum_cudaLimit, ty_size_t] ''cudaThreadSetLimit'' [0, 1] False,
     Gen cudart ty_cudaError_t ''cudaThreadGetLimit'' [Ptr ty_size_t, ty_enum_cudaLimit]
       ''cudaThreadGetLimit'' ty_cudaError_t [Ptr ty_size_t, ty_enum_cudaLimit] ''cudaThreadGetLimit'' [0, 1] False,
     Gen cudart ty_cudaError_t ''cudaThreadGetCacheConfig'' [Ptr ty_enum_cudaFuncCache]
       ''cudaThreadGetCacheConfig'' ty_cudaError_t [Ptr ty_enum_cudaFuncCache] ''cudaThreadGetCacheConfig'' [0] False,
     Gen cudart ty_cudaError_t ''cudaThreadSetCacheConfig'' [ty_enum_cudaFuncCache]
       ''cudaThreadSetCacheConfig'' ty_cudaError_t [ty_enum_cudaFuncCache] ''cudaThreadSetCacheConfig'' [0] False,
     Gen cudart ty_cudaError_t ''cudaGetLastError'' []
       ''cudaGetLastError'' ty_cudaError_t [] ''cudaGetLastError'' [] False,
     Gen cudart ty_cudaError_t ''cudaPeekAtLastError'' []
       ''cudaPeekAtLastError'' ty_cudaError_t [] ''cudaPeekAtLastError'' [] False,
     Gen cudart (Ptr (Const ty_char)) ''cudaGetErrorName'' [ty_cudaError_t]
       ''cudaGetErrorName'' (Ptr (Const ty_char)) [ty_cudaError_t] ''cudaGetErrorName'' [0] False,
     Gen cudart (Ptr (Const ty_char)) ''cudaGetErrorString'' [ty_cudaError_t]
       ''cudaGetErrorString'' (Ptr (Const ty_char)) [ty_cudaError_t] ''cudaGetErrorString'' [0] False,
     Gen cudart ty_cudaError_t ''cudaGetDeviceCount'' [Ptr ty_int]
       ''cudaGetDeviceCount'' ty_cudaError_t [Ptr ty_int] ''cudaGetDeviceCount'' [0] False,
     Gen cudart ty_cudaError_t ''cudaGetDeviceProperties'' [Ptr ty_struct_cudaDeviceProp, ty_int]
       ''cudaGetDeviceProperties'' ty_cudaError_t [Ptr ty_struct_cudaDeviceProp, ty_int] ''cudaGetDeviceProperties'' [0, 1] False,
     Gen cudart ty_cudaError_t ''cudaDeviceGetAttribute'' [Ptr ty_int, ty_enum_cudaDeviceAttr, ty_int]
       ''cudaDeviceGetAttribute'' ty_cudaError_t [Ptr ty_int, ty_enum_cudaDeviceAttr, ty_int] ''cudaDeviceGetAttribute'' [0, 1, 2] False,
     Gen cudart ty_cudaError_t ''cudaDeviceGetDefaultMemPool'' [Ptr ty_cudaMemPool_t, ty_int]
       ''cudaDeviceGetDefaultMemPool'' ty_cudaError_t [Ptr ty_cudaMemPool_t, ty_int] ''cudaDeviceGetDefaultMemPool'' [0, 1] False,
     Gen cudart ty_cudaError_t ''cudaDeviceSetMemPool'' [ty_int, ty_cudaMemPool_t]
       ''cudaDeviceSetMemPool'' ty_cudaError_t [ty_int, ty_cudaMemPool_t] ''cudaDeviceSetMemPool'' [0, 1] False,
     Gen cudart ty_cudaError_t ''cudaDeviceGetMemPool'' [Ptr ty_cudaMemPool_t, ty_int]
       ''cudaDeviceGetMemPool'' ty_cudaError_t [Ptr ty_cudaMemPool_t, ty_int] ''cudaDeviceGetMemPool'' [0, 1] False,
     Gen cudart ty_cudaError_t ''cudaDeviceGetNvSciSyncAttributes'' [Ptr ty_void, ty_int, ty_int]
       ''cudaDeviceGetNvSciSyncAttributes'' ty_cudaError_t [Ptr ty_void, ty_int, ty_int] ''cudaDeviceGetNvSciSyncAttributes'' [0, 1, 2] False,
     Gen cudart ty_cudaError_t ''cudaDeviceGetP2PAttribute'' [Ptr ty_int, ty_enum_cudaDeviceP2PAttr, ty_int, ty_int]
       ''cudaDeviceGetP2PAttribute'' ty_cudaError_t [Ptr ty_int, ty_enum_cudaDeviceP2PAttr, ty_int, ty_int] ''cudaDeviceGetP2PAttribute'' [0, 1, 2, 3] False]"

definition cudart_hooks_3 :: "gen_hook list" where
  "cudart_hooks_3 =
    [Gen cudart ty_cudaError_t ''cudaChooseDevice'' [Ptr ty_int, Ptr (Const ty_struct_cudaDeviceProp)]
       ''cudaChooseDevice'' ty_cudaError_t [Ptr ty_int, Ptr (Const ty_struct_cudaDeviceProp)] ''cudaChooseDevice'' [0, 1] False,
     Gen cudart ty_cudaError_t ''cudaSetDevice'' [ty_int]
       ''cudaSetDevice'' ty_cudaError_t [ty_int] ''cudaSetDevice'' [0] False,
     Gen cudart ty_cudaError_t ''cudaGetDevice'' [Ptr ty_int]
       ''cudaGetDevice'' ty_cudaError_t [Ptr ty_int] ''cudaGetDevice'' [0] False,
     Gen cudart ty_cudaError_t ''cudaSetValidDevices'' [Ptr ty_int, ty_int]
       ''cudaSetValidDevices'' ty_cudaError_t [Ptr ty_int, ty_int] ''cudaSetValidDevices'' [0, 1] False,
     Gen cudart ty_cudaError_t ''cudaSetDeviceFlags'' [ty_unsigned_int]
       ''cudaSetDeviceFlags'' ty_cudaError_t [ty_unsigned_int] ''cudaSetDeviceFlags'' [0] False,
     Gen cudart ty_cudaError_t ''cudaGetDeviceFlags'' [Ptr ty_unsigned_int]
       ''cudaGetDeviceFlags'' ty_cudaError_t [Ptr ty_unsigned_int] ''cudaGetDeviceFlags'' [0] False,
     Gen cudart ty_cudaError_t ''cudaStreamCreate'' [Ptr ty_cudaStream_t]
       ''cudaStreamCreate'' ty_cudaError_t [Ptr ty_cudaStream_t] ''cudaStreamCreate'' [0] False,
     Gen cudart ty_cudaError_t ''cudaStreamCreateWithFlags'' [Ptr ty_cudaStream_t, ty_unsigned_int]
       ''cudaStreamCreateWithFlags'' ty_cudaError_t [Ptr ty_cudaStream_t, ty_unsigned_int] ''cudaStreamCreateWithFlags'' [0, 1] False,
     Gen cudart ty_cudaError_t ''cudaStreamCreateWithPriority'' [Ptr ty_cudaStream_t, ty_unsigned_int, ty_int]
       ''cudaStreamCreateWithPriority'' ty_cudaError_t [Ptr ty_cudaStream_t, ty_unsigned_int, ty_int] ''cudaStreamCreateWithPriority'' [0, 1, 2] False,
     Gen cudart ty_cudaError_t ''cudaStreamGetPriority'' [ty_cudaStream_t, Ptr ty_int]
       ''cudaStreamGetPriority'' ty_cudaError_t [ty_cudaStream_t, Ptr ty_int] ''cudaStreamGetPriority'' [0, 1] False,
     Gen cudart ty_cudaError_t ''cudaStreamGetFlags'' [ty_cudaStream_t, Ptr ty_unsigned_int]
       ''cudaStreamGetFlags'' ty_cudaError_t [ty_cudaStream_t, Ptr ty_unsigned_int] ''cudaStreamGetFlags'' [0, 1] False,
     Gen cudart ty_cudaError_t ''cudaCtxResetPersistingL2Cache'' []
       ''cudaCtxResetPersistingL2Cache'' ty_cudaError_t [] ''cudaCtxResetPersistingL2Cache'' [] False,
     Gen cudart ty_cudaError_t ''cudaStreamCopyAttributes'' [ty_cudaStream_t, ty_cudaStream_t]
       ''cudaStreamCopyAttributes'' ty_cudaError_t [ty_cudaStream_t, ty_cudaStream_t] ''cudaStreamCopyAttributes'' [0, 1] False,
     Gen cudart ty_cudaError_t ''cudaStreamGetAttribute'' [ty_cudaStream_t, ty_enum_cudaStreamAttrID, Ptr ty_union_cudaStreamAttrValue]
       ''cudaStreamGetAttribute'' ty_cudaError_t [ty_cudaStream_t, ty_enum_cudaStreamAttrID, Ptr ty_union_cudaStreamAttrValue] ''cudaStreamGetAttribute'' [0, 1, 2] False,
     Gen cudart ty_cudaError_t ''cudaStreamSetAttribute'' [ty_cudaStream_t, ty_enum_cudaStreamAttrID, Ptr (Const ty_union_cudaStreamAttrValue)]
       ''cudaStreamSetAttribute'' ty_cudaError_t [ty_cudaStream_t, ty_enum_cudaStreamAttrID, Ptr (Const ty_union_cudaStreamAttrValue)] ''cudaStreamSetAttribute'' [0, 1, 2] False,
     Gen cudart ty_cudaError_t ''cudaStreamDestroy'' [ty_cudaStream_t]
       ''cudaStreamDestroy'' ty_cudaError_t [ty_cudaStream_t] ''cudaStreamDestroy'' [0] False,
     Gen cudart ty_cudaError_t ''cudaStreamWaitEvent'' [ty_cudaStream_t, ty_cudaEvent_t, ty_unsigned_int]
       ''cudaStreamWaitEvent'' ty_cudaError_t [ty_cudaStream_t, ty_cudaEvent_t, ty_unsigned_int] ''cudaStreamWaitEvent'' [0, 1, 2] False,
     Gen cudart ty_cudaError_t ''cudaStreamAddCallback'' [ty_cudaStream_t, ty_cudaStreamCallback_t, Ptr ty_void, ty_unsigned_int]
       ''cudaStreamAddCallback'' ty_cudaError_t [ty_cudaStream_t, ty_cudaStreamCallback_t, Ptr ty_void, ty_unsigned_int] ''cudaStreamAddCallback'' [0, 1, 2, 3] False]"

definition cudart_hooks_4 :: "gen_hook list" where
  "cudart_hooks_4 =
    [Gen cudart ty_cudaError_t ''cudaStreamSynchronize'' [ty_cudaStream_t]
       ''cudaStreamSynchronize'' ty_cudaError_t [ty_cudaStream_t] ''cudaStreamSynchronize'' [0] False,
     Gen cudart ty_cudaError_t ''cudaStreamQuery'' [ty_cudaStream_t]
       ''cudaStreamQuery'' ty_cudaError_t [ty_cudaStream_t] ''cudaStreamQuery'' [0] False,
     Gen cudart ty_cudaError_t ''cudaStreamAttachMemAsync'' [ty_cudaStream_t, Ptr ty_void, ty_size_t, ty_unsigned_int]
       ''cudaStreamAttachMemAsync'' ty_cudaError_t [ty_cudaStream_t, Ptr ty_void, ty_size_t, ty_unsigned_int] ''cudaStreamAttachMemAsync'' [0, 1, 2, 3] False,
     Gen cudart ty_cudaError_t ''cudaStreamBeginCapture'' [ty_cudaStream_t, ty_enum_cudaStreamCaptureMode]
       ''cudaStreamBeginCapture'' ty_cudaError_t [ty_cudaStream_t, ty_enum_cudaStreamCaptureMode] ''cudaStreamBeginCapture'' [0, 1] False,
     Gen cudart ty_cudaError_t ''cudaThreadExchangeStreamCaptureMode'' [Ptr ty_enum_cudaStreamCaptureMode]
       ''cudaThreadExchangeStreamCaptureMode'' ty_cudaError_t [Ptr ty_enum_cudaStreamCaptureMode] ''cudaThreadExchangeStreamCaptureMode'' [0] False,
     Gen cudart ty_cudaError_t ''cudaStreamEndCapture'' [ty_cudaStream_t, Ptr ty_cudaGraph_t]
       ''cudaStreamEndCapture'' ty_cudaError_t [ty_cudaStream_t, Ptr ty_cudaGraph_t] ''cudaStreamEndCapture'' [0, 1] False,
     Gen cudart ty_cudaError_t ''cudaStreamIsCapturing'' [ty_cudaStream_t, Ptr ty_enum_cudaStreamCaptureStatus]
       ''cudaStreamIsCapturing'' ty_cudaError_t [ty_cudaStream_t, Ptr ty_enum_cudaStreamCaptureStatus] ''cudaStreamIsCapturing'' [0, 1] False,
     Gen cudart ty_cudaError_t ''cudaStreamGetCaptureInfo'' [ty_cudaStream_t, Ptr ty_enum_cudaStreamCaptureStatus, Ptr ty_unsigned_long_long]
       ''cudaStreamGetCaptureInfo'' ty_cudaError_t [ty_cudaStream_t, Ptr ty_enum_cudaStreamCaptureStatus, Ptr ty_unsigned_long_long] ''cudaStreamGetCaptureInfo'' [0, 1, 2] False,
     Gen cudart ty_cudaError_t ''cudaStreamGetCaptureInfo_v2'' [ty_cudaStream_t, Ptr ty_enum_cudaStreamCaptureStatus, Ptr ty_unsigned_long_long, Ptr ty_cudaGraph_t, Ptr (Ptr (Const ty_cudaGraphNode_t)), Ptr ty_size_t]
       ''cudaStreamGetCaptureInfo_v2'' ty_cudaError_t [ty_cudaStream_t, Ptr ty_enum_cudaStreamCaptureStatus, Ptr ty_unsigned_long_long, Ptr ty_cudaGraph_t, Ptr (Ptr (Const ty_cudaGraphNode_t)), Ptr ty_size_t] ''cudaStreamGetCaptureInfo_v2'' [0, 1, 2, 3, 4, 5] False,
     Gen cudart ty_cudaError_t ''cudaStreamUpdateCaptureDependencies'' [ty_cudaStream_t, Ptr ty_cudaGraphNode_t, ty_size_t, ty_unsigned_int]
       ''cudaStreamUpdateCaptureDependencies'' ty_cudaError_t [ty_cudaStream_t, Ptr ty_cudaGraphNode_t, ty_size_t, ty_unsigned_int] ''cudaStreamUpdateCaptureDependencies'' [0, 1, 2, 3] False,
     Gen cudart ty_cudaError_t ''cudaEventCreate'' [Ptr ty_cudaEvent_t]
       ''cudaEventCreate'' ty_cudaError_t [Ptr ty_cudaEvent_t] ''cudaEventCreate'' [0] False,
     Gen cudart ty_cudaError_t ''cudaEventCreateWithFlags'' [Ptr ty_cudaEvent_t, ty_unsigned_int]
       ''cudaEventCreateWithFlags'' ty_cudaError_t [Ptr ty_cudaEvent_t, ty_unsigned_int] ''cudaEventCreateWithFlags'' [0, 1] False,
     Gen cudart ty_cudaError_t ''cudaEventRecord'' [ty_cudaEvent_t, ty_cudaStream_t]
       ''cudaEventRecord'' ty_cudaError_t [ty_cudaEvent_t, ty_cudaStream_t] ''cudaEventRecord'' [0, 1] False,
     Gen cudart ty_cudaError_t ''cudaEventRecordWithFlags'' [ty_cudaEvent_t, ty_cudaStream_t, ty_unsigned_int]
       ''cudaEventRecordWithFlags'' ty_cudaError_t [ty_cudaEvent_t, ty_cudaStream_t, ty_unsigned_int] ''cudaEventRecordWithFlags'' [0, 1, 2] False,
     Gen cudart ty_cudaError_t ''cudaEventQuery'' [ty_cudaEvent_t]
       ''cudaEventQuery'' ty_cudaError_t [ty_cudaEvent_t] ''cudaEventQuery'' [0] False,
     Gen cudart ty_cudaError_t ''cudaEventSynchronize'' [ty_cudaEvent_t]
       ''cudaEventSynchronize'' ty_cudaError_t [ty_cudaEvent_t] ''cudaEventSynchronize'' [0] False,
     Gen cudart ty_cudaError_t ''cudaEventDestroy'' [ty_cudaEvent_t]
       ''cudaEventDestroy'' ty_cudaError_t [ty_cudaEvent_t] ''cudaEventDestroy'' [0] False]"

definition cudart_hooks_5 :: "gen_hook list" where
  "cudart_hooks_5 =
    [Gen cudart ty_cudaError_t ''cudaEventElapsedTime'' [Ptr ty_float, ty_cudaEvent_t, ty_cudaEvent_t]
       ''cudaEventElapsedTime'' ty_cudaError_t [Ptr ty_float, ty_cudaEvent_t, ty_cudaEvent_t] ''cudaEventElapsedTime'' [0, 1, 2] False,
     Gen cudart ty_cudaError_t ''cudaImportExternalMemory'' [Ptr ty_cudaExternalMemory_t, Ptr (Const ty_struct_cudaExternalMemoryHandleDesc)]
       ''cudaImportExternalMemory'' ty_cudaError_t [Ptr ty_cudaExternalMemory_t, Ptr (Const ty_struct_cudaExternalMemoryHandleDesc)] ''cudaImportExternalMemory'' [0, 1] False,
     Gen cudart ty_cudaError_t ''cudaExternalMemoryGetMappedBuffer'' [Ptr (Ptr ty_void), ty_cudaExternalMemory_t, Ptr (Const ty_struct_cudaExternalMemoryBufferDesc)]
       ''cudaExternalMemoryGetMappedBuffer'' ty_cudaError_t [Ptr (Ptr ty_void), ty_cudaExternalMemory_t, Ptr (Const ty_struct_cudaExternalMemoryBufferDesc)] ''cudaExternalMemoryGetMappedBuffer'' [0, 1, 2] False,
     Gen cudart ty_cudaError_t ''cudaExternalMemoryGetMappedMipmappedArray'' [Ptr ty_cudaMipmappedArray_t, ty_cudaExternalMemory_t, Ptr (Const ty_struct_cudaExternalMemoryMipmappedArrayDesc)]
       ''cudaExternalMemoryGetMappedMipmappedArray'' ty_cudaError_t [Ptr ty_cudaMipmappedArray_t, ty_cudaExternalMemory_t, Ptr (Const ty_struct_cudaExternalMemoryMipmappedArrayDesc)] ''cudaExternalMemoryGetMappedMipmappedArray'' [0, 1, 2] False,
     Gen cudart ty_cudaError_t ''cudaDestroyExternalMemory'' [ty_cudaExternalMemory_t]
       ''cudaDestroyExternalMemory'' ty_cudaError_t [ty_cudaExternalMemory_t] ''cudaDestroyExternalMemory'' [0] False,
     Gen cudart ty_cudaError_t ''cudaImportExternalSemaphore'' [Ptr ty_cudaExternalSemaphore_t, Ptr (Const ty_struct_cudaExternalSemaphoreHandleDesc)]
       ''cudaImportExternalSemaphore'' ty_cudaError_t [Ptr ty_cudaExternalSemaphore_t, Ptr (Const ty_struct_cudaExternalSemaphoreHandleDesc)] ''cudaImportExternalSemaphore'' [0, 1] False,
     Gen cudart ty_cudaError_t ''cudaSignalExternalSemaphoresAsync'' [Ptr (Const ty_cudaExternalSemaphore_t), Ptr (Const ty_struct_cudaExternalSemaphoreSignalParams), ty_unsigned_int, ty_cudaStream_t]
       ''cudaSignalExternalSemaphoresAsync'' ty_cudaError_t [Ptr (Const ty_cudaExternalSemaphore_t), Ptr (Const ty_struct_cudaExternalSemaphoreSignalParams), ty_unsigned_int, ty_cudaStream_t] ''cudaSignalExternalSemaphoresAsync'' [0, 1, 2, 3] False,
     Gen cudart ty_cudaError_t ''cudaWaitExternalSemaphoresAsync'' [Ptr (Const ty_cudaExternalSemaphore_t), Ptr (Const ty_struct_cudaExternalSemaphoreWaitParams), ty_unsigned_int, ty_cudaStream_t]
       ''cudaWaitExternalSemaphoresAsync'' ty_cudaError_t [Ptr (Const ty_cudaExternalSemaphore_t), Ptr (Const ty_struct_cudaExternalSemaphoreWaitParams), ty_unsigned_int, ty_cudaStream_t] ''cudaWaitExternalSemaphoresAsync'' [0, 1, 2, 3] False,
     Gen cudart ty_cudaError_t ''cudaDestroyExternalSemaphore'' [ty_cudaExternalSemaphore_t]
       ''cudaDestroyExternalSemaphore'' ty_cudaError_t [ty_cudaExternalSemaphore_t] ''cudaDestroyExternalSemaphore'' [0] False,
     Gen cudart ty_cudaError_t ''cudaLaunchKernel'' [Ptr (Const ty_void), ty_dim3, ty_dim3, Ptr (Ptr ty_void), ty_size_t, ty_cudaStream_t]
       ''cudaLaunchKernel'' ty_cudaError_t [Ptr (Const ty_void), ty_dim3, ty_dim3, Ptr (Ptr ty_void), ty_size_t, ty_cudaStream_t] ''cudaLaunchKernel'' [0, 1, 2, 3, 4, 5] True,
     Gen cudart ty_cudaError_t ''cudaLaunchCooperativeKernel'' [Ptr (Const ty_void), ty_dim3, ty_dim3, Ptr (Ptr ty_void), ty_size_t, ty_cudaStream_t]
       ''cudaLaunchCooperativeKernel'' ty_cudaError_t [Ptr (Const ty_void), ty_dim3, ty_dim3, Ptr (Ptr ty_void), ty_size_t, ty_cudaStream_t] ''cudaLaunchCooperativeKernel'' [0, 1, 2, 3, 4, 5] False,
     Gen cudart ty_cudaError_t ''cudaLaunchCooperativeKernelMultiDevice'' [Ptr ty_struct_cudaLaunchParams, ty_unsigned_int, ty_unsigned_int]
       ''cudaLaunchCooperativeKernelMultiDevice'' ty_cudaError_t [Ptr ty_struct_cudaLaunchParams, ty_unsigned_int, ty_unsigned_int] ''cudaLaunchCooperativeKernelMultiDevice'' [0, 1, 2] False,
     Gen cudart ty_cudaError_t ''cudaFuncSetCacheConfig'' [Ptr (Const ty_void), ty_enum_cudaFuncCache]
       ''cudaFuncSetCacheConfig'' ty_cudaError_t [Ptr (Const ty_void), ty_enum_cudaFuncCache] ''cudaFuncSetCacheConfig'' [0, 1] False,
     Gen cudart ty_cudaError_t ''cudaFuncSetSharedMemConfig'' [Ptr (Const ty_void), ty_enum_cudaSharedMemConfig]
       ''cudaFuncSetSharedMemConfig'' ty_cudaError_t [Ptr (Const ty_void), ty_enum_cudaSharedMemConfig] ''cudaFuncSetSharedMemConfig'' [0, 1] False,
     Gen cudart ty_cudaError_t ''cudaFuncGetAttributes'' [Ptr ty_struct_cudaFuncAttributes, Ptr (Const ty_void)]
       ''cudaFuncGetAttributes'' ty_cudaError_t [Ptr ty_struct_cudaFuncAttributes, Ptr (Const ty_void)] ''cudaFuncGetAttributes'' [0, 1] False,
     Gen cudart ty_cudaError_t ''cudaFuncSetAttribute'' [Ptr (Const ty_void), ty_enum_cudaFuncAttribute, ty_int]
       ''cudaFuncSetAttribute'' ty_cudaError_t [Ptr (Const ty_void), ty_enum_cudaFuncAttribute, ty_int] ''cudaFuncSetAttribute'' [0, 1, 2] False]"

definition cudart_hooks_6 :: "gen_hook list" where
  "cudart_hooks_6 =
    [Gen cudart ty_cudaError_t ''cudaSetDoubleForDevice'' [Ptr ty_double]
       ''cudaSetDoubleForDevice'' ty_cudaError_t [Ptr ty_double] ''cudaSetDoubleForDevice'' [0] False,
     Gen cudart ty_cudaError_t ''cudaSetDoubleForHost'' [Ptr ty_double]
       ''cudaSetDoubleForHost'' ty_cudaError_t [Ptr ty_double] ''cudaSetDoubleForHost'' [0] False,
     Gen cudart ty_cudaError_t ''cudaLaunchHostFunc'' [ty_cudaStream_t, ty_cudaHostFn_t, Ptr ty_void]
       ''cudaLaunchHostFunc'' ty_cudaError_t [ty_cudaStream_t, ty_cudaHostFn_t, Ptr ty_void] ''cudaLaunchHostFunc'' [0, 1, 2] False,
     Gen cudart ty_cudaError_t ''cudaOccupancyMaxActiveBlocksPerMultiprocessor'' [Ptr ty_int, Ptr (Const ty_void), ty_int, ty_size_t]
       ''cudaOccupancyMaxActiveBlocksPerMultiprocessor'' ty_cudaError_t [Ptr ty_int, Ptr (Const ty_void), ty_int, ty_size_t] ''cudaOccupancyMaxActiveBlocksPerMultiprocessor'' [0, 1, 2, 3] False,
     Gen cudart ty_cudaError_t ''cudaOccupancyAvailableDynamicSMemPerBlock'' [Ptr ty_size_t, Ptr (Const ty_void), ty_int, ty_int]
       ''cudaOccupancyAvailableDynamicSMemPerBlock'' ty_cudaError_t [Ptr ty_size_t, Ptr (Const ty_void), ty_int, ty_int] ''cudaOccupancyAvailableDynamicSMemPerBlock'' [0, 1, 2, 3] False,
     Gen cudart ty_cudaError_t ''cudaOccupancyMaxActiveBlocksPerMultiprocessorWithFlags'' [Ptr ty_int, Ptr (Const ty_void), ty_int, ty_size_t, ty_unsigned_int]
       ''cudaOccupancyMaxActiveBlocksPerMultiprocessorWithFlags'' ty_cudaError_t [Ptr ty_int, Ptr (Const ty_void), ty_int, ty_size_t, ty_unsigned_int] ''cudaOccupancyMaxActiveBlocksPerMultiprocessorWithFlags'' [0, 1, 2, 3, 4] False,
     Gen cudart ty_cudaError_t ''cudaMallocManaged'' [Ptr (Ptr ty_void), ty_size_t, ty_unsigned_int]
       ''cudaMallocManaged'' ty_cudaError_t [Ptr (Ptr ty_void), ty_size_t, ty_unsigned_int] ''cudaMallocManaged'' [0, 1, 2] False,
     Gen cudart ty_cudaError_t ''cudaMalloc'' [Ptr (Ptr ty_void), ty_size_t]
       ''cudaMalloc'' ty_cudaError_t [Ptr (Ptr ty_void), ty_size_t] ''cudaMalloc'' [0, 1] False,
     Gen cudart ty_cudaError_t ''cudaMallocHost'' [Ptr (Ptr ty_void), ty_size_t]
       ''cudaMallocHost'' ty_cudaError_t [Ptr (Ptr ty_void), ty_size_t] ''cudaMallocHost'' [0, 1] False,
     Gen cudart ty_cudaError_t ''cudaMallocPitch'' [Ptr (Ptr ty_void), Ptr ty_size_t, ty_size_t, ty_size_t]
       ''cudaMallocPitch'' ty_cudaError_t [Ptr (Ptr ty_void), Ptr ty_size_t, ty_size_t, ty_size_t] ''cudaMallocPitch'' [0, 1, 2, 3] False,
     Gen cudart ty_cudaError_t ''cudaMallocArray'' [Ptr ty_cudaArray_t, Ptr (Const ty_struct_cudaChannelFormatDesc), ty_size_t, ty_size_t, ty_unsigned_int]
       ''cudaMallocArray'' ty_cudaError_t [Ptr ty_cudaArray_t, Ptr (Const ty_struct_cudaChannelFormatDesc), ty_size_t, ty_size_t, ty_unsigned_int] ''cudaMallocArray'' [0, 1, 2, 3, 4] False,
     Gen cudart ty_cudaError_t ''cudaFree'' [Ptr ty_void]
       ''cudaFree'' ty_cudaError_t [Ptr ty_void] ''cudaFree'' [0] False,
     Gen cudart ty_cudaError_t ''cudaFreeHost'' [Ptr ty_void]
       ''cudaFreeHost'' ty_cudaError_t [Ptr ty_void] ''cudaFreeHost'' [0] False,
     Gen cudart ty_cudaError_t ''cudaFreeArray'' [ty_cudaArray_t]
       ''cudaFreeArray'' ty_cudaError_t [ty_cudaArray_t] ''cudaFreeArray'' [0] False,
     Gen cudart ty_cudaError_t ''cudaFreeMipmappedArray'' [ty_cudaMipmappedArray_t]
       ''cudaFreeMipmappedArray'' ty_cudaError_t [ty_cudaMipmappedArray_t] ''cudaFreeMipmappedArray'' [0] False,
     Gen cudart ty_cudaError_t ''cudaHostAlloc'' [Ptr (Ptr ty_void), ty_size_t, ty_unsigned_int]
       ''cudaHostAlloc'' ty_cudaError_t [Ptr (Ptr ty_void), ty_size_t, ty_unsigned_int] ''cudaHostAlloc'' [0, 1, 2] False,
     Gen cudart ty_cudaError_t ''cudaHostRegister'' [Ptr ty_void, ty_size_t, ty_unsigned_int]
       ''cudaHostRegister'' ty_cudaError_t [Ptr ty_void, ty_size_t, ty_unsigned_int] ''cudaHostRegister'' [0, 1, 2] False]"

definition cudart_hooks_7 :: "gen_hook list" where
  "cudart_hooks_7 =
    [Gen cudart ty_cudaError_t ''cudaHostUnregister'' [Ptr ty_void]
       ''cudaHostUnregister'' ty_cudaError_t [Ptr ty_void] ''cudaHostUnregister'' [0] False,
     Gen cudart ty_cudaError_t ''cudaHostGetDevicePointer'' [Ptr (Ptr ty_void), Ptr ty_void, ty_unsigned_int]
       ''cudaHostGetDevicePointer'' ty_cudaError_t [Ptr (Ptr ty_void), Ptr ty_void, ty_unsigned_int] ''cudaHostGetDevicePointer'' [0, 1, 2] False,
     Gen cudart ty_cudaError_t ''cudaHostGetFlags'' [Ptr ty_unsigned_int, Ptr ty_void]
       ''cudaHostGetFlags'' ty_cudaError_t [Ptr ty_unsigned_int, Ptr ty_void] ''cudaHostGetFlags'' [0, 1] False,
     Gen cudart ty_cudaError_t ''cudaMalloc3D'' [Ptr ty_struct_cudaPitchedPtr, ty_struct_cudaExtent]
       ''cudaMalloc3D'' ty_cudaError_t [Ptr ty_struct_cudaPitchedPtr, ty_struct_cudaExtent] ''cudaMalloc3D'' [0, 1] False,
     Gen cudart ty_cudaError_t ''cudaMalloc3DArray'' [Ptr ty_cudaArray_t, Ptr (Const ty_struct_cudaChannelFormatDesc), ty_struct_cudaExtent, ty_unsigned_int]
       ''cudaMalloc3DArray'' ty_cudaError_t [Ptr ty_cudaArray_t, Ptr (Const ty_struct_cudaChannelFormatDesc), ty_struct_cudaExtent, ty_unsigned_int] ''cudaMalloc3DArray'' [0, 1, 2, 3] False,
     Gen cudart ty_cudaError_t ''cudaMallocMipmappedArray'' [Ptr ty_cudaMipmappedArray_t, Ptr (Const ty_struct_cudaChannelFormatDesc), ty_struct_cudaExtent, ty_unsigned_int, ty_unsigned_int]
       ''cudaMallocMipmappedArray'' ty_cudaError_t [Ptr ty_cudaMipmappedArray_t, Ptr (Const ty_struct_cudaChannelFormatDesc), ty_struct_cudaExtent, ty_unsigned_int, ty_unsigned_int] ''cudaMallocMipmappedArray'' [0, 1, 2, 3, 4] False,
     Gen cudart ty_cudaError_t ''cudaGetMipmappedArrayLevel'' [Ptr ty_cudaArray_t, ty_cudaMipmappedArray_const_t, ty_unsigned_int]
       ''cudaGetMipmappedArrayLevel'' ty_cudaError_t [Ptr ty_cudaArray_t, ty_cudaMipmappedArray_const_t, ty_unsigned_int] ''cudaGetMipmappedArrayLevel'' [0, 1, 2] False,
     Gen cudart ty_cudaError_t ''cudaMemcpy3D'' [Ptr (Const ty_struct_cudaMemcpy3DParms)]
       ''cudaMemcpy3D'' ty_cudaError_t [Ptr (Const ty_struct_cudaMemcpy3DParms)] ''cudaMemcpy3D'' [0] False,
     Gen cudart ty_cudaError_t ''cudaMemcpy3DPeer'' [Ptr (Const ty_struct_cudaMemcpy3DPeerParms)]
       ''cudaMemcpy3DPeer'' ty_cudaError_t [Ptr (Const ty_struct_cudaMemcpy3DPeerParms)] ''cudaMemcpy3DPeer'' [0] False,
     Gen cudart ty_cudaError_t ''cudaMemcpy3DAsync'' [Ptr (Const ty_struct_cudaMemcpy3DParms), ty_cudaStream_t]
       ''cudaMemcpy3DAsync'' ty_cudaError_t [Ptr (Const ty_struct_cudaMemcpy3DParms), ty_cudaStream_t] ''cudaMemcpy3DAsync'' [0, 1] False,
     Gen cudart ty_cudaError_t ''cudaMemcpy3DPeerAsync'' [Ptr (Const ty_struct_cudaMemcpy3DPeerParms), ty_cudaStream_t]
       ''cudaMemcpy3DPeerAsync'' ty_cudaError_t [Ptr (Const ty_struct_cudaMemcpy3DPeerParms), ty_cudaStream_t] ''cudaMemcpy3DPeerAsync'' [0, 1] False,
     Gen cudart ty_cudaError_t ''cudaMemGetInfo'' [Ptr ty_size_t, Ptr ty_size_t]
       ''cudaMemGetInfo'' ty_cudaError_t [Ptr ty_size_t, Ptr ty_size_t] ''cudaMemGetInfo'' [0, 1] False,
     Gen cudart ty_cudaError_t ''cudaArrayGetInfo'' [Ptr ty_struct_cudaChannelFormatDesc, Ptr ty_struct_cudaExtent, Ptr ty_unsigned_int, ty_cudaArray_t]
       ''cudaArrayGetInfo'' ty_cudaError_t [Ptr ty_struct_cudaChannelFormatDesc, Ptr ty_struct_cudaExtent, Ptr ty_unsigned_int, ty_cudaArray_t] ''cudaArrayGetInfo'' [0, 1, 2, 3] False,
     Gen cudart ty_cudaError_t ''cudaArrayGetPlane'' [Ptr ty_cudaArray_t, ty_cudaArray_t, ty_unsigned_int]
       ''cudaArrayGetPlane'' ty_cudaError_t [Ptr ty_cudaArray_t, ty_cudaArray_t, ty_unsigned_int] ''cudaArrayGetPlane'' [0, 1, 2] False,
     Gen cudart ty_cudaError_t ''cudaArrayGetSparseProperties'' [Ptr ty_struct_cudaArraySparseProperties, ty_cudaArray_t]
       ''cudaArrayGetSparseProperties'' ty_cudaError_t [Ptr ty_struct_cudaArraySparseProperties, ty_cudaArray_t] ''cudaArrayGetSparseProperties'' [0, 1] False,
     Gen cudart ty_cudaError_t ''cudaMipmappedArrayGetSparseProperties'' [Ptr ty_struct_cudaArraySparseProperties, ty_cudaMipmappedArray_t]
       ''cudaMipmappedArrayGetSparseProperties'' ty_cudaError_t [Ptr ty_struct_cudaArraySparseProperties, ty_cudaMipmappedArray_t] ''cudaMipmappedArrayGetSparseProperties'' [0, 1] False,
     Gen cudart ty_cudaError_t ''cudaMemcpy'' [Ptr ty_void, Ptr (Const ty_void), ty_size_t, ty_enum_cudaMemcpyKind]
       ''cudaMemcpy'' ty_cudaError_t [Ptr ty_void, Ptr (Const ty_void), ty_size_t, ty_enum_cudaMemcpyKind] ''cudaMemcpy'' [0, 1, 2, 3] False]"

definition cudart_hooks_8 :: "gen_hook list" where
  "cudart_hooks_8 =
    [Gen cudart ty_cudaError_t ''cudaMemcpyPeer'' [Ptr ty_void, ty_int, Ptr (Const ty_void), ty_int, ty_size_t]
       ''cudaMemcpyPeer'' ty_cudaError_t [Ptr ty_void, ty_int, Ptr (Const ty_void), ty_int, ty_size_t] ''cudaMemcpyPeer'' [0, 1, 2, 3, 4] False,
     Gen cudart ty_cudaError_t ''cudaMemcpy2D'' [Ptr ty_void, ty_size_t, Ptr (Const ty_void), ty_size_t, ty_size_t, ty_size_t, ty_enum_cudaMemcpyKind]
       ''cudaMemcpy2D'' ty_cudaError_t [Ptr ty_void, ty_size_t, Ptr (Const ty_void), ty_size_t, ty_size_t, ty_size_t, ty_enum_cudaMemcpyKind] ''cudaMemcpy2D'' [0, 1, 2, 3, 4, 5, 6] False,
     Gen cudart ty_cudaError_t ''cudaMemcpy2DToArray'' [ty_cudaArray_t, ty_size_t, ty_size_t, Ptr (Const ty_void), ty_size_t, ty_size_t, ty_size_t, ty_enum_cudaMemcpyKind]
       ''cudaMemcpy2DToArray'' ty_cudaError_t [ty_cudaArray_t, ty_size_t, ty_size_t, Ptr (Const ty_void), ty_size_t, ty_size_t, ty_size_t, ty_enum_cudaMemcpyKind] ''cudaMemcpy2DToArray'' [0, 1, 2, 3, 4, 5, 6, 7] False,
     Gen cudart ty_cudaError_t ''cudaMemcpy2DFromArray'' [Ptr ty_void, ty_size_t, ty_cudaArray_const_t, ty_size_t, ty_size_t, ty_size_t, ty_size_t, ty_enum_cudaMemcpyKind]
       ''cudaMemcpy2DFromArray'' ty_cudaError_t [Ptr ty_void, ty_size_t, ty_cudaArray_const_t, ty_size_t, ty_size_t, ty_size_t, ty_size_t, ty_enum_cudaMemcpyKind] ''cudaMemcpy2DFromArray'' [0, 1, 2, 3, 4, 5, 6, 7] False,
     Gen cudart ty_cudaError_t ''cudaMemcpy2DArrayToArray'' [ty_cudaArray_t, ty_size_t, ty_size_t, ty_cudaArray_const_t, ty_size_t, ty_size_t, ty_size_t, ty_size_t, ty_enum_cudaMemcpyKind]
       ''cudaMemcpy2DArrayToArray'' ty_cudaError_t [ty_cudaArray_t, ty_size_t, ty_size_t, ty_cudaArray_const_t, ty_size_t, ty_size_t, ty_size_t, ty_size_t, ty_enum_cudaMemcpyKind] ''cudaMemcpy2DArrayToArray'' [0, 1, 2, 3, 4, 5, 6, 7, 8] False,
     Gen cudart ty_cudaError_t ''cudaMemcpyToSymbol'' [Ptr (Const ty_void), Ptr (Const ty_void), ty_size_t, ty_size_t, ty_enum_cudaMemcpyKind]
       ''cudaMemcpyToSymbol'' ty_cudaError_t [Ptr (Const ty_void), Ptr (Const ty_void), ty_size_t, ty_size_t, ty_enum_cudaMemcpyKind] ''cudaMemcpyToSymbol'' [0, 1, 2, 3, 4] False,
     Gen cudart ty_cudaError_t ''cudaMemcpyFromSymbol'' [Ptr ty_void, Ptr (Const ty_void), ty_size_t, ty_size_t, ty_enum_cudaMemcpyKind]
       ''cudaMemcpyFromSymbol'' ty_cudaError_t [Ptr ty_void, Ptr (Const ty_void), ty_size_t, ty_size_t, ty_enum_cudaMemcpyKind] ''cudaMemcpyFromSymbol'' [0, 1, 2, 3, 4] False,
     Gen cudart ty_cudaError_t ''cudaMemcpyPeerAsync'' [Ptr ty_void, ty_int, Ptr (Const ty_void), ty_int, ty_size_t, ty_cudaStream_t]
       ''cudaMemcpyPeerAsync'' ty_cudaError_t [Ptr ty_void, ty_int, Ptr (Const ty_void), ty_int, ty_size_t, ty_cudaStream_t] ''cudaMemcpyPeerAsync'' [0, 1, 2, 3, 4, 5] False,
     Gen cudart ty_cudaError_t ''cudaMemcpy2DAsync'' [Ptr ty_void, ty_size_t, Ptr (Const ty_void), ty_size_t, ty_size_t, ty_size_t, ty_enum_cudaMemcpyKind, ty_cudaStream_t]
       ''cudaMemcpy2DAsync'' ty_cudaError_t [Ptr ty_void, ty_size_t, Ptr (Const ty_void), ty_size_t, ty_size_t, ty_size_t, ty_enum_cudaMemcpyKind, ty_cudaStream_t] ''cudaMemcpy2DAsync'' [0, 1, 2, 3, 4, 5, 6, 7] False,
     Gen cudart ty_cudaError_t ''cudaMemcpy2DToArrayAsync'' [ty_cudaArray_t, ty_size_t, ty_size_t, Ptr (Const ty_void), ty_size_t, ty_size_t, ty_size_t, ty_enum_cudaMemcpyKind, ty_cudaStream_t]
       ''cudaMemcpy2DToArrayAsync'' ty_cudaError_t [ty_cudaArray_t, ty_size_t, ty_size_t, Ptr (Const ty_void), ty_size_t, ty_size_t, ty_size_t, ty_enum_cudaMemcpyKind, ty_cudaStream_t] ''cudaMemcpy2DToArrayAsync'' [0, 1, 2, 3, 4, 5, 6, 7, 8] False,
     Gen cudart ty_cudaError_t ''cudaMemcpy2DFromArrayAsync'' [Ptr ty_void, ty_size_t, ty_cudaArray_const_t, ty_size_t, ty_size_t, ty_size_t, ty_size_t, ty_enum_cudaMemcpyKind, ty_cudaStream_t]
       ''cudaMemcpy2DFromArrayAsync'' ty_cudaError_t [Ptr ty_void, ty_size_t, ty_cudaArray_const_t, ty_size_t, ty_size_t, ty_size_t, ty_size_t, ty_enum_cudaMemcpyKind, ty_cudaStream_t] ''cudaMemcpy2DFromArrayAsync'' [0, 1, 2, 3, 4, 5, 6, 7, 8] False,
     Gen cudart ty_cudaError_t ''cudaMemcpyToSymbolAsync'' [Ptr (Const ty_void), Ptr (Const ty_void), ty_size_t, ty_size_t, ty_enum_cudaMemcpyKind, ty_cudaStream_t]
       ''cudaMemcpyToSymbolAsync'' ty_cudaError_t [Ptr (Const ty_void), Ptr (Const ty_void), ty_size_t, ty_size_t, ty_enum_cudaMemcpyKind, ty_cudaStream_t] ''cudaMemcpyToSymbolAsync'' [0, 1, 2, 3, 4, 5] False,
     Gen cudart ty_cudaError_t ''cudaMemcpyFromSymbolAsync'' [Ptr ty_void, Ptr (Const ty_void), ty_size_t, ty_size_t, ty_enum_cudaMemcpyKind, ty_cudaStream_t]
       ''cudaMemcpyFromSymbolAsync'' ty_cudaError_t [Ptr ty_void, Ptr (Const ty_void), ty_size_t, ty_size_t, ty_enum_cudaMemcpyKind, ty_cudaStream_t] ''cudaMemcpyFromSymbolAsync'' [0, 1, 2, 3, 4, 5] False]"

definition cudart_hooks_9 :: "gen_hook list" where
  "cudart_hooks_9 =
    [Gen cudart ty_cudaError_t ''cudaMemset'' [Ptr ty_void, ty_int, ty_size_t]
       ''cudaMemset'' ty_cudaError_t [Ptr ty_void, ty_int, ty_size_t] ''cudaMemset'' [0, 1, 2] False,
     Gen cudart ty_cudaError_t ''cudaMemset2D'' [Ptr ty_void, ty_size_t, ty_int, ty_size_t, ty_size_t]
       ''cudaMemset2D'' ty_cudaError_t [Ptr ty_void, ty_size_t, ty_int, ty_size_t, ty_size_t] ''cudaMemset2D'' [0, 1, 2, 3, 4] False,
     Gen cudart ty_cudaError_t ''cudaMemset3D'' [ty_struct_cudaPitchedPtr, ty_int, ty_struct_cudaExtent]
       ''cudaMemset3D'' ty_cudaError_t [ty_struct_cudaPitchedPtr, ty_int, ty_struct_cudaExtent] ''cudaMemset3D'' [0, 1, 2] False,
     Gen cudart ty_cudaError_t ''cudaMemsetAsync'' [Ptr ty_void, ty_int, ty_size_t, ty_cudaStream_t]
       ''cudaMemsetAsync'' ty_cudaError_t [Ptr ty_void, ty_int, ty_size_t, ty_cudaStream_t] ''cudaMemsetAsync'' [0, 1, 2, 3] False,
     Gen cudart ty_cudaError_t ''cudaMemset2DAsync'' [Ptr ty_void, ty_size_t, ty_int, ty_size_t, ty_size_t, ty_cudaStream_t]
       ''cudaMemset2DAsync'' ty_cudaError_t [Ptr ty_void, ty_size_t, ty_int, ty_size_t, ty_size_t, ty_cudaStream_t] ''cudaMemset2DAsync'' [0, 1, 2, 3, 4, 5] False,
     Gen cudart ty_cudaError_t ''cudaMemset3DAsync'' [ty_struct_cudaPitchedPtr, ty_int, ty_struct_cudaExtent, ty_cudaStream_t]
       ''cudaMemset3DAsync'' ty_cudaError_t [ty_struct_cudaPitchedPtr, ty_int, ty_struct_cudaExtent, ty_cudaStream_t] ''cudaMemset3DAsync'' [0, 1, 2, 3] False,
     Gen cudart ty_cudaError_t ''cudaGetSymbolAddress'' [Ptr (Ptr ty_void), Ptr (Const ty_void)]
       ''cudaGetSymbolAddress'' ty_cudaError_t [Ptr (Ptr ty_void), Ptr (Const ty_void)] ''cudaGetSymbolAddress'' [0, 1] False,
     Gen cudart ty_cudaError_t ''cudaGetSymbolSize'' [Ptr ty_size_t, Ptr (Const ty_void)]
       ''cudaGetSymbolSize'' ty_cudaError_t [Ptr ty_size_t, Ptr (Const ty_void)] ''cudaGetSymbolSize'' [0, 1] False,
     Gen cudart ty_cudaError_t ''cudaMemPrefetchAsync'' [Ptr (Const ty_void), ty_size_t, ty_int, ty_cudaStream_t]
       ''cudaMemPrefetchAsync'' ty_cudaError_t [Ptr (Const ty_void), ty_size_t, ty_int, ty_cudaStream_t] ''cudaMemPrefetchAsync'' [0, 1, 2, 3] False,
     Gen cudart ty_cudaError_t ''cudaMemAdvise'' [Ptr (Const ty_void), ty_size_t, ty_enum_cudaMemoryAdvise, ty_int]
       ''cudaMemAdvise'' ty_cudaError_t [Ptr (Const ty_void), ty_size_t, ty_enum_cudaMemoryAdvise, ty_int] ''cudaMemAdvise'' [0, 1, 2, 3] False,
     Gen cudart ty_cudaError_t ''cudaMemRangeGetAttribute'' [Ptr ty_void, ty_size_t, ty_enum_cudaMemRangeAttribute, Ptr (Const ty_void), ty_size_t]
       ''cudaMemRangeGetAttribute'' ty_cudaError_t [Ptr ty_void, ty_size_t, ty_enum_cudaMemRangeAttribute, Ptr (Const ty_void), ty_size_t] ''cudaMemRangeGetAttribute'' [0, 1, 2, 3, 4] False,
     Gen cudart ty_cudaError_t ''cudaMemRangeGetAttributes'' [Ptr (Ptr ty_void), Ptr ty_size_t, Ptr ty_enum_cudaMemRangeAttribute, ty_size_t, Ptr (Const ty_void), ty_size_t]
       ''cudaMemRangeGetAttributes'' ty_cudaError_t [Ptr (Ptr ty_void), Ptr ty_size_t, Ptr ty_enum_cudaMemRangeAttribute, ty_size_t, Ptr (Const ty_void), ty_size_t] ''cudaMemRangeGetAttributes'' [0, 1, 2, 3, 4, 5] False,
     Gen cudart ty_cudaError_t ''cudaMemcpyToArray'' [ty_cudaArray_t, ty_size_t, ty_size_t, Ptr (Const ty_void), ty_size_t, ty_enum_cudaMemcpyKind]
       ''cudaMemcpyToArray'' ty_cudaError_t [ty_cudaArray_t, ty_size_t, ty_size_t, Ptr (Const ty_void), ty_size_t, ty_enum_cudaMemcpyKind] ''cudaMemcpyToArray'' [0, 1, 2, 3, 4, 5] False,
     Gen cudart ty_cudaError_t ''cudaMemcpyFromArray'' [Ptr ty_void, ty_cudaArray_const_t, ty_size_t, ty_size_t, ty_size_t, ty_enum_cudaMemcpyKind]
       ''cudaMemcpyFromArray'' ty_cudaError_t [Ptr ty_void, ty_cudaArray_const_t, ty_size_t, ty_size_t, ty_size_t, ty_enum_cudaMemcpyKind] ''cudaMemcpyFromArray'' [0, 1, 2, 3, 4, 5] False,
     Gen cudart ty_cudaError_t ''cudaMemcpyArrayToArray'' [ty_cudaArray_t, ty_size_t, ty_size_t, ty_cudaArray_const_t, ty_size_t, ty_size_t, ty_size_t, ty_enum_cudaMemcpyKind]
       ''cudaMemcpyArrayToArray'' ty_cudaError_t [ty_cudaArray_t, ty_size_t, ty_size_t, ty_cudaArray_const_t, ty_size_t, ty_size_t, ty_size_t, ty_enum_cudaMemcpyKind] ''cudaMemcpyArrayToArray'' [0, 1, 2, 3, 4, 5, 6, 7] False,
     Gen cudart ty_cudaError_t ''cudaMemcpyToArrayAsync'' [ty_cudaArray_t, ty_size_t, ty_size_t, Ptr (Const ty_void), ty_size_t, ty_enum_cudaMemcpyKind, ty_cudaStream_t]
       ''cudaMemcpyToArrayAsync'' ty_cudaError_t [ty_cudaArray_t, ty_size_t, ty_size_t, Ptr (Const ty_void), ty_size_t, ty_enum_cudaMemcpyKind, ty_cudaStream_t] ''cudaMemcpyToArrayAsync'' [0, 1, 2, 3, 4, 5, 6] False]"

definition cudart_hooks_10 :: "gen_hook list" where
  "cudart_hooks_10 =
    [Gen cudart ty_cudaError_t ''cudaMemcpyFromArrayAsync'' [Ptr ty_void, ty_cudaArray_const_t, ty_size_t, ty_size_t, ty_size_t, ty_enum_cudaMemcpyKind, ty_cudaStream_t]
       ''cudaMemcpyFromArrayAsync'' ty_cudaError_t [Ptr ty_void, ty_cudaArray_const_t, ty_size_t, ty_size_t, ty_size_t, ty_enum_cudaMemcpyKind, ty_cudaStream_t] ''cudaMemcpyFromArrayAsync'' [0, 1, 2, 3, 4, 5, 6] False,
     Gen cudart ty_cudaError_t ''cudaMallocAsync'' [Ptr (Ptr ty_void), ty_size_t, ty_cudaStream_t]
       ''cudaMallocAsync'' ty_cudaError_t [Ptr (Ptr ty_void), ty_size_t, ty_cudaStream_t] ''cudaMallocAsync'' [0, 1, 2] False,
     Gen cudart ty_cudaError_t ''cudaFreeAsync'' [Ptr ty_void, ty_cudaStream_t]
       ''cudaFreeAsync'' ty_cudaError_t [Ptr ty_void, ty_cudaStream_t] ''cudaFreeAsync'' [0, 1] False,
     Gen cudart ty_cudaError_t ''cudaMemPoolTrimTo'' [ty_cudaMemPool_t, ty_size_t]
       ''cudaMemPoolTrimTo'' ty_cudaError_t [ty_cudaMemPool_t, ty_size_t] ''cudaMemPoolTrimTo'' [0, 1] False,
     Gen cudart ty_cudaError_t ''cudaMemPoolSetAttribute'' [ty_cudaMemPool_t, ty_enum_cudaMemPoolAttr, Ptr ty_void]
       ''cudaMemPoolSetAttribute'' ty_cudaError_t [ty_cudaMemPool_t, ty_enum_cudaMemPoolAttr, Ptr ty_void] ''cudaMemPoolSetAttribute'' [0, 1, 2] False,
     Gen cudart ty_cudaError_t ''cudaMemPoolGetAttribute'' [ty_cudaMemPool_t, ty_enum_cudaMemPoolAttr, Ptr ty_void]
       ''cudaMemPoolGetAttribute'' ty_cudaError_t [ty_cudaMemPool_t, ty_enum_cudaMemPoolAttr, Ptr ty_void] ''cudaMemPoolGetAttribute'' [0, 1, 2] False,
     Gen cudart ty_cudaError_t ''cudaMemPoolSetAccess'' [ty_cudaMemPool_t, Ptr (Const ty_struct_cudaMemAccessDesc), ty_size_t]
       ''cudaMemPoolSetAccess'' ty_cudaError_t [ty_cudaMemPool_t, Ptr (Const ty_struct_cudaMemAccessDesc), ty_size_t] ''cudaMemPoolSetAccess'' [0, 1, 2] False,
     Gen cudart ty_cudaError_t ''cudaMemPoolGetAccess'' [Ptr ty_enum_cudaMemAccessFlags, ty_cudaMemPool_t, Ptr ty_struct_cudaMemLocation]
       ''cudaMemPoolGetAccess'' ty_cudaError_t [Ptr ty_enum_cudaMemAccessFlags, ty_cudaMemPool_t, Ptr ty_struct_cudaMemLocation] ''cudaMemPoolGetAccess'' [0, 1, 2] False,
     Gen cudart ty_cudaError_t ''cudaMemPoolCreate'' [Ptr ty_cudaMemPool_t, Ptr (Const ty_struct_cudaMemPoolProps)]
       ''cudaMemPoolCreate'' ty_cudaError_t [Ptr ty_cudaMemPool_t, Ptr (Const ty_struct_cudaMemPoolProps)] ''cudaMemPoolCreate'' [0, 1] False,
     Gen cudart ty_cudaError_t ''cudaMemPoolDestroy'' [ty_cudaMemPool_t]
       ''cudaMemPoolDestroy'' ty_cudaError_t [ty_cudaMemPool_t] ''cudaMemPoolDestroy'' [0] False,
     Gen cudart ty_cudaError_t ''cudaMallocFromPoolAsync'' [Ptr (Ptr ty_void), ty_size_t, ty_cudaMemPool_t, ty_cudaStream_t]
       ''cudaMallocFromPoolAsync'' ty_cudaError_t [Ptr (Ptr ty_void), ty_size_t, ty_cudaMemPool_t, ty_cudaStream_t] ''cudaMallocFromPoolAsync'' [0, 1, 2, 3] False,
     Gen cudart ty_cudaError_t ''cudaMemPoolExportToShareableHandle'' [Ptr ty_void, ty_cudaMemPool_t, ty_enum_cudaMemAllocationHandleType, ty_unsigned_int]
       ''cudaMemPoolExportToShareableHandle'' ty_cudaError_t [Ptr ty_void, ty_cudaMemPool_t, ty_enum_cudaMemAllocationHandleType, ty_unsigned_int] ''cudaMemPoolExportToShareableHandle'' [0, 1, 2, 3] False,
     Gen cudart ty_cudaError_t ''cudaMemPoolImportFromShareableHandle'' [Ptr ty_cudaMemPool_t, Ptr ty_void, ty_enum_cudaMemAllocationHandleType, ty_unsigned_int]
       ''cudaMemPoolImportFromShareableHandle'' ty_cudaError_t [Ptr ty_cudaMemPool_t, Ptr ty_void, ty_enum_cudaMemAllocationHandleType, ty_unsigned_int] ''cudaMemPoolImportFromShareableHandle'' [0, 1, 2, 3] False,
     Gen cudart ty_cudaError_t ''cudaMemPoolExportPointer'' [Ptr ty_struct_cudaMemPoolPtrExportData, Ptr ty_void]
       ''cudaMemPoolExportPointer'' ty_cudaError_t [Ptr ty_struct_cudaMemPoolPtrExportData, Ptr ty_void] ''cudaMemPoolExportPointer'' [0, 1] False,
     Gen cudart ty_cudaError_t ''cudaMemPoolImportPointer'' [Ptr (Ptr ty_void), ty_cudaMemPool_t, Ptr ty_struct_cudaMemPoolPtrExportData]
       ''cudaMemPoolImportPointer'' ty_cudaError_t [Ptr (Ptr ty_void), ty_cudaMemPool_t, Ptr ty_struct_cudaMemPoolPtrExportData] ''cudaMemPoolImportPointer'' [0, 1, 2] False,
     Gen cudart ty_cudaError_t ''cudaPointerGetAttributes'' [Ptr ty_struct_cudaPointerAttributes, Ptr (Const ty_void)]
       ''cudaPointerGetAttributes'' ty_cudaError_t [Ptr ty_struct_cudaPointerAttributes, Ptr (Const ty_void)] ''cudaPointerGetAttributes'' [0, 1] False,
     Gen cudart ty_cudaError_t ''cudaDeviceCanAccessPeer'' [Ptr ty_int, ty_int, ty_int]
       ''cudaDeviceCanAccessPeer'' ty_cudaError_t [Ptr ty_int, ty_int, ty_int] ''cudaDeviceCanAccessPeer'' [0, 1, 2] False]"

definition cudart_hooks_11 :: "gen_hook list" where
  "cudart_hooks_11 =
    [Gen cudart ty_cudaError_t ''cudaDeviceEnablePeerAccess'' [ty_int, ty_unsigned_int]
       ''cudaDeviceEnablePeerAccess'' ty_cudaError_t [ty_int, ty_unsigned_int] ''cudaDeviceEnablePeerAccess'' [0, 1] False,
     Gen cudart ty_cudaError_t ''cudaDeviceDisablePeerAccess'' [ty_int]
       ''cudaDeviceDisablePeerAccess'' ty_cudaError_t [ty_int] ''cudaDeviceDisablePeerAccess'' [0] False,
     Gen cudart ty_cudaError_t ''cudaGraphicsUnregisterResource'' [ty_cudaGraphicsResource_t]
       ''cudaGraphicsUnregisterResource'' ty_cudaError_t [ty_cudaGraphicsResource_t] ''cudaGraphicsUnregisterResource'' [0] False,
     Gen cudart ty_cudaError_t ''cudaGraphicsResourceSetMapFlags'' [ty_cudaGraphicsResource_t, ty_unsigned_int]
       ''cudaGraphicsResourceSetMapFlags'' ty_cudaError_t [ty_cudaGraphicsResource_t, ty_unsigned_int] ''cudaGraphicsResourceSetMapFlags'' [0, 1] False,
     Gen cudart ty_cudaError_t ''cudaGraphicsMapResources'' [ty_int, Ptr ty_cudaGraphicsResource_t, ty_cudaStream_t]
       ''cudaGraphicsMapResources'' ty_cudaError_t [ty_int, Ptr ty_cudaGraphicsResource_t, ty_cudaStream_t] ''cudaGraphicsMapResources'' [0, 1, 2] False,
     Gen cudart ty_cudaError_t ''cudaGraphicsUnmapResources'' [ty_int, Ptr ty_cudaGraphicsResource_t, ty_cudaStream_t]
       ''cudaGraphicsUnmapResources'' ty_cudaError_t [ty_int, Ptr ty_cudaGraphicsResource_t, ty_cudaStream_t] ''cudaGraphicsUnmapResources'' [0, 1, 2] False,
     Gen cudart ty_cudaError_t ''cudaGraphicsResourceGetMappedPointer'' [Ptr (Ptr ty_void), Ptr ty_size_t, ty_cudaGraphicsResource_t]
       ''cudaGraphicsResourceGetMappedPointer'' ty_cudaError_t [Ptr (Ptr ty_void), Ptr ty_size_t, ty_cudaGraphicsResource_t] ''cudaGraphicsResourceGetMappedPointer'' [0, 1, 2] False,
     Gen cudart ty_cudaError_t ''cudaGraphicsSubResourceGetMappedArray'' [Ptr ty_cudaArray_t, ty_cudaGraphicsResource_t, ty_unsigned_int, ty_unsigned_int]
       ''cudaGraphicsSubResourceGetMappedArray'' ty_cudaError_t [Ptr ty_cudaArray_t, ty_cudaGraphicsResource_t, ty_unsigned_int, ty_unsigned_int] ''cudaGraphicsSubResourceGetMappedArray'' [0, 1, 2, 3] False,
     Gen cudart ty_cudaError_t ''cudaGraphicsResourceGetMappedMipmappedArray'' [Ptr ty_cudaMipmappedArray_t, ty_cudaGraphicsResource_t]
       ''cudaGraphicsResourceGetMappedMipmappedArray'' ty_cudaError_t [Ptr ty_cudaMipmappedArray_t, ty_cudaGraphicsResource_t] ''cudaGraphicsResourceGetMappedMipmappedArray'' [0, 1] False,
     Gen cudart ty_cudaError_t ''cudaBindTexture'' [Ptr ty_size_t, Ptr (Const ty_struct_textureReference), Ptr (Const ty_void), Ptr (Const ty_struct_cudaChannelFormatDesc), ty_size_t]
       ''cudaBindTexture'' ty_cudaError_t [Ptr ty_size_t, Ptr (Const ty_struct_textureReference), Ptr (Const ty_void), Ptr (Const ty_struct_cudaChannelFormatDesc), ty_size_t] ''cudaBindTexture'' [0, 1, 2, 3, 4] False,
     Gen cudart ty_cudaError_t ''cudaBindTexture2D'' [Ptr ty_size_t, Ptr (Const ty_struct_textureReference), Ptr (Const ty_void), Ptr (Const ty_struct_cudaChannelFormatDesc), ty_size_t, ty_size_t, ty_size_t]
       ''cudaBindTexture2D'' ty_cudaError_t [Ptr ty_size_t, Ptr (Const ty_struct_textureReference), Ptr (Const ty_void), Ptr (Const ty_struct_cudaChannelFormatDesc), ty_size_t, ty_size_t, ty_size_t] ''cudaBindTexture2D'' [0, 1, 2, 3, 4, 5, 6] False,
     Gen cudart ty_cudaError_t ''cudaBindTextureToArray'' [Ptr (Const ty_struct_textureReference), ty_cudaArray_const_t, Ptr (Const ty_struct_cudaChannelFormatDesc)]
       ''cudaBindTextureToArray'' ty_cudaError_t [Ptr (Const ty_struct_textureReference), ty_cudaArray_const_t, Ptr (Const ty_struct_cudaChannelFormatDesc)] ''cudaBindTextureToArray'' [0, 1, 2] False,
     Gen cudart ty_cudaError_t ''cudaBindTextureToMipmappedArray'' [Ptr (Const ty_struct_textureReference), ty_cudaMipmappedArray_const_t, Ptr (Const ty_struct_cudaChannelFormatDesc)]
       ''cudaBindTextureToMipmappedArray'' ty_cudaError_t [Ptr (Const ty_struct_textureReference), ty_cudaMipmappedArray_const_t, Ptr (Const ty_struct_cudaChannelFormatDesc)] ''cudaBindTextureToMipmappedArray'' [0, 1, 2] False,
     Gen cudart ty_cudaError_t ''cudaUnbindTexture'' [Ptr (Const ty_struct_textureReference)]
       ''cudaUnbindTexture'' ty_cudaError_t [Ptr (Const ty_struct_textureReference)] ''cudaUnbindTexture'' [0] False,
     Gen cudart ty_cudaError_t ''cudaGetTextureAlignmentOffset'' [Ptr ty_size_t, Ptr (Const ty_struct_textureReference)]
       ''cudaGetTextureAlignmentOffset'' ty_cudaError_t [Ptr ty_size_t, Ptr (Const ty_struct_textureReference)] ''cudaGetTextureAlignmentOffset'' [0, 1] False,
     Gen cudart ty_cudaError_t ''cudaGetTextureReference'' [Ptr (Ptr (Const ty_struct_textureReference)), Ptr (Const ty_void)]
       ''cudaGetTextureReference'' ty_cudaError_t [Ptr (Ptr (Const ty_struct_textureReference)), Ptr (Const ty_void)] ''cudaGetTextureReference'' [0, 1] False]"

definition cudart_hooks_12 :: "gen_hook list" where
  "cudart_hooks_12 =
    [Gen cudart ty_cudaError_t ''cudaBindSurfaceToArray'' [Ptr (Const ty_struct_surfaceReference), ty_cudaArray_const_t, Ptr (Const ty_struct_cudaChannelFormatDesc)]
       ''cudaBindSurfaceToArray'' ty_cudaError_t [Ptr (Const ty_struct_surfaceReference), ty_cudaArray_const_t, Ptr (Const ty_struct_cudaChannelFormatDesc)] ''cudaBindSurfaceToArray'' [0, 1, 2] False,
     Gen cudart ty_cudaError_t ''cudaGetSurfaceReference'' [Ptr (Ptr (Const ty_struct_surfaceReference)), Ptr (Const ty_void)]
       ''cudaGetSurfaceReference'' ty_cudaError_t [Ptr (Ptr (Const ty_struct_surfaceReference)), Ptr (Const ty_void)] ''cudaGetSurfaceReference'' [0, 1] False,
     Gen cudart ty_cudaError_t ''cudaGetChannelDesc'' [Ptr ty_struct_cudaChannelFormatDesc, ty_cudaArray_const_t]
       ''cudaGetChannelDesc'' ty_cudaError_t [Ptr ty_struct_cudaChannelFormatDesc, ty_cudaArray_const_t] ''cudaGetChannelDesc'' [0, 1] False,
     Gen cudart ty_struct_cudaChannelFormatDesc ''cudaCreateChannelDesc'' [ty_int, ty_int, ty_int, ty_int, ty_enum_cudaChannelFormatKind]
       ''cudaCreateChannelDesc'' ty_struct_cudaChannelFormatDesc [ty_int, ty_int, ty_int, ty_int, ty_enum_cudaChannelFormatKind] ''cudaCreateChannelDesc'' [0, 1, 2, 3, 4] False,
     Gen cudart ty_cudaError_t ''cudaCreateTextureObject'' [Ptr ty_cudaTextureObject_t, Ptr (Const ty_struct_cudaResourceDesc), Ptr (Const ty_struct_cudaTextureDesc), Ptr (Const ty_struct_cudaResourceViewDesc)]
       ''cudaCreateTextureObject'' ty_cudaError_t [Ptr ty_cudaTextureObject_t, Ptr (Const ty_struct_cudaResourceDesc), Ptr (Const ty_struct_cudaTextureDesc), Ptr (Const ty_struct_cudaResourceViewDesc)] ''cudaCreateTextureObject'' [0, 1, 2, 3] False,
     Gen cudart ty_cudaError_t ''cudaDestroyTextureObject'' [ty_cudaTextureObject_t]
       ''cudaDestroyTextureObject'' ty_cudaError_t [ty_cudaTextureObject_t] ''cudaDestroyTextureObject'' [0] False,
     Gen cudart ty_cudaError_t ''cudaGetTextureObjectResourceDesc'' [Ptr ty_struct_cudaResourceDesc, ty_cudaTextureObject_t]
       ''cudaGetTextureObjectResourceDesc'' ty_cudaError_t [Ptr ty_struct_cudaResourceDesc, ty_cudaTextureObject_t] ''cudaGetTextureObjectResourceDesc'' [0, 1] False,
     Gen cudart ty_cudaError_t ''cudaGetTextureObjectTextureDesc'' [Ptr ty_struct_cudaTextureDesc, ty_cudaTextureObject_t]
       ''cudaGetTextureObjectTextureDesc'' ty_cudaError_t [Ptr ty_struct_cudaTextureDesc, ty_cudaTextureObject_t] ''cudaGetTextureObjectTextureDesc'' [0, 1] False,
     Gen cudart ty_cudaError_t ''cudaGetTextureObjectResourceViewDesc'' [Ptr ty_struct_cudaResourceViewDesc, ty_cudaTextureObject_t]
       ''cudaGetTextureObjectResourceViewDesc'' ty_cudaError_t [Ptr ty_struct_cudaResourceViewDesc, ty_cudaTextureObject_t] ''cudaGetTextureObjectResourceViewDesc'' [0, 1] False,
     Gen cudart ty_cudaError_t ''cudaCreateSurfaceObject'' [Ptr ty_cudaSurfaceObject_t, Ptr (Const ty_struct_cudaResourceDesc)]
       ''cudaCreateSurfaceObject'' ty_cudaError_t [Ptr ty_cudaSurfaceObject_t, Ptr (Const ty_struct_cudaResourceDesc)] ''cudaCreateSurfaceObject'' [0, 1] False,
     Gen cudart ty_cudaError_t ''cudaDestroySurfaceObject'' [ty_cudaSurfaceObject_t]
       ''cudaDestroySurfaceObject'' ty_cudaError_t [ty_cudaSurfaceObject_t] ''cudaDestroySurfaceObject'' [0] False,
     Gen cudart ty_cudaError_t ''cudaGetSurfaceObjectResourceDesc'' [Ptr ty_struct_cudaResourceDesc, ty_cudaSurfaceObject_t]
       ''cudaGetSurfaceObjectResourceDesc'' ty_cudaError_t [Ptr ty_struct_cudaResourceDesc, ty_cudaSurfaceObject_t] ''cudaGetSurfaceObjectResourceDesc'' [0, 1] False,
     Gen cudart ty_cudaError_t ''cudaDriverGetVersion'' [Ptr ty_int]
       ''cudaDriverGetVersion'' ty_cudaError_t [Ptr ty_int] ''cudaDriverGetVersion'' [0] False,
     Gen cudart ty_cudaError_t ''cudaRuntimeGetVersion'' [Ptr ty_int]
       ''cudaRuntimeGetVersion'' ty_cudaError_t [Ptr ty_int] ''cudaRuntimeGetVersion'' [0] False,
     Gen cudart ty_cudaError_t ''cudaGraphCreate'' [Ptr ty_cudaGraph_t, ty_unsigned_int]
       ''cudaGraphCreate'' ty_cudaError_t [Ptr ty_cudaGraph_t, ty_unsigned_int] ''cudaGraphCreate'' [0, 1] False,
     Gen cudart ty_cudaError_t ''cudaGraphAddKernelNode'' [Ptr ty_cudaGraphNode_t, ty_cudaGraph_t, Ptr (Const ty_cudaGraphNode_t), ty_size_t, Ptr (Const ty_struct_cudaKernelNodeParams)]
       ''cudaGraphAddKernelNode'' ty_cudaError_t [Ptr ty_cudaGraphNode_t, ty_cudaGraph_t, Ptr (Const ty_cudaGraphNode_t), ty_size_t, Ptr (Const ty_struct_cudaKernelNodeParams)] ''cudaGraphAddKernelNode'' [0, 1, 2, 3, 4] False]"

definition cudart_hooks_13 :: "gen_hook list" where
  "cudart_hooks_13 =
    [Gen cudart ty_cudaError_t ''cudaGraphKernelNodeGetParams'' [ty_cudaGraphNode_t, Ptr ty_struct_cudaKernelNodeParams]
       ''cudaGraphKernelNodeGetParams'' ty_cudaError_t [ty_cudaGraphNode_t, Ptr ty_struct_cudaKernelNodeParams] ''cudaGraphKernelNodeGetParams'' [0, 1] False,
     Gen cudart ty_cudaError_t ''cudaGraphKernelNodeSetParams'' [ty_cudaGraphNode_t, Ptr (Const ty_struct_cudaKernelNodeParams)]
       ''cudaGraphKernelNodeSetParams'' ty_cudaError_t [ty_cudaGraphNode_t, Ptr (Const ty_struct_cudaKernelNodeParams)] ''cudaGraphKernelNodeSetParams'' [0, 1] False,
     Gen cudart ty_cudaError_t ''cudaGraphKernelNodeCopyAttributes'' [ty_cudaGraphNode_t, ty_cudaGraphNode_t]
       ''cudaGraphKernelNodeCopyAttributes'' ty_cudaError_t [ty_cudaGraphNode_t, ty_cudaGraphNode_t] ''cudaGraphKernelNodeCopyAttributes'' [0, 1] False,
     Gen cudart ty_cudaError_t ''cudaGraphKernelNodeGetAttribute'' [ty_cudaGraphNode_t, ty_enum_cudaKernelNodeAttrID, Ptr ty_union_cudaKernelNodeAttrValue]
       ''cudaGraphKernelNodeGetAttribute'' ty_cudaError_t [ty_cudaGraphNode_t, ty_enum_cudaKernelNodeAttrID, Ptr ty_union_cudaKernelNodeAttrValue] ''cudaGraphKernelNodeGetAttribute'' [0, 1, 2] False,
     Gen cudart ty_cudaError_t ''cudaGraphKernelNodeSetAttribute'' [ty_cudaGraphNode_t, ty_enum_cudaKernelNodeAttrID, Ptr (Const ty_union_cudaKernelNodeAttrValue)]
       ''cudaGraphKernelNodeSetAttribute'' ty_cudaError_t [ty_cudaGraphNode_t, ty_enum_cudaKernelNodeAttrID, Ptr (Const ty_union_cudaKernelNodeAttrValue)] ''cudaGraphKernelNodeSetAttribute'' [0, 1, 2] False,
     Gen cudart ty_cudaError_t ''cudaGraphAddMemcpyNode'' [Ptr ty_cudaGraphNode_t, ty_cudaGraph_t, Ptr (Const ty_cudaGraphNode_t), ty_size_t, Ptr (Const ty_struct_cudaMemcpy3DParms)]
       ''cudaGraphAddMemcpyNode'' ty_cudaError_t [Ptr ty_cudaGraphNode_t, ty_cudaGraph_t, Ptr (Const ty_cudaGraphNode_t), ty_size_t, Ptr (Const ty_struct_cudaMemcpy3DParms)] ''cudaGraphAddMemcpyNode'' [0, 1, 2, 3, 4] False,
     Gen cudart ty_cudaError_t ''cudaGraphAddMemcpyNodeToSymbol'' [Ptr ty_cudaGraphNode_t, ty_cudaGraph_t, Ptr (Const ty_cudaGraphNode_t), ty_size_t, Ptr (Const ty_void), Ptr (Const ty_void), ty_size_t, ty_size_t, ty_enum_cudaMemcpyKind]
       ''cudaGraphAddMemcpyNodeToSymbol'' ty_cudaError_t [Ptr ty_cudaGraphNode_t, ty_cudaGraph_t, Ptr (Const ty_cudaGraphNode_t), ty_size_t, Ptr (Const ty_void), Ptr (Const ty_void), ty_size_t, ty_size_t, ty_enum_cudaMemcpyKind] ''cudaGraphAddMemcpyNodeToSymbol'' [0, 1, 2, 3, 4, 5, 6, 7, 8] False,
     Gen cudart ty_cudaError_t ''cudaGraphAddMemcpyNodeFromSymbol'' [Ptr ty_cudaGraphNode_t, ty_cudaGraph_t, Ptr (Const ty_cudaGraphNode_t), ty_size_t, Ptr ty_void, Ptr (Const ty_void), ty_size_t, ty_size_t, ty_enum_cudaMemcpyKind]
       ''cudaGraphAddMemcpyNodeFromSymbol'' ty_cudaError_t [Ptr ty_cudaGraphNode_t, ty_cudaGraph_t, Ptr (Const ty_cudaGraphNode_t), ty_size_t, Ptr ty_void, Ptr (Const ty_void), ty_size_t, ty_size_t, ty_enum_cudaMemcpyKind] ''cudaGraphAddMemcpyNodeFromSymbol'' [0, 1, 2, 3, 4, 5, 6, 7, 8] False,
     Gen cudart ty_cudaError_t ''cudaGraphAddMemcpyNode1D'' [Ptr ty_cudaGraphNode_t, ty_cudaGraph_t, Ptr (Const ty_cudaGraphNode_t), ty_size_t, Ptr ty_void, Ptr (Const ty_void), ty_size_t, ty_enum_cudaMemcpyKind]
       ''cudaGraphAddMemcpyNode1D'' ty_cudaError_t [Ptr ty_cudaGraphNode_t, ty_cudaGraph_t, Ptr (Const ty_cudaGraphNode_t), ty_size_t, Ptr ty_void, Ptr (Const ty_void), ty_size_t, ty_enum_cudaMemcpyKind] ''cudaGraphAddMemcpyNode1D'' [0, 1, 2, 3, 4, 5, 6, 7] False,
     Gen cudart ty_cudaError_t ''cudaGraphMemcpyNodeGetParams'' [ty_cudaGraphNode_t, Ptr ty_struct_cudaMemcpy3DParms]
       ''cudaGraphMemcpyNodeGetParams'' ty_cudaError_t [ty_cudaGraphNode_t, Ptr ty_struct_cudaMemcpy3DParms] ''cudaGraphMemcpyNodeGetParams'' [0, 1] False,
     Gen cudart ty_cudaError_t ''cudaGraphMemcpyNodeSetParams'' [ty_cudaGraphNode_t, Ptr (Const ty_struct_cudaMemcpy3DParms)]
       ''cudaGraphMemcpyNodeSetParams'' ty_cudaError_t [ty_cudaGraphNode_t, Ptr (Const ty_struct_cudaMemcpy3DParms)] ''cudaGraphMemcpyNodeSetParams'' [0, 1] False,
     Gen cudart ty_cudaError_t ''cudaGraphMemcpyNodeSetParamsToSymbol'' [ty_cudaGraphNode_t, Ptr (Const ty_void), Ptr (Const ty_void), ty_size_t, ty_size_t, ty_enum_cudaMemcpyKind]
       ''cudaGraphMemcpyNodeSetParamsToSymbol'' ty_cudaError_t [ty_cudaGraphNode_t, Ptr (Const ty_void), Ptr (Const ty_void), ty_size_t, ty_size_t, ty_enum_cudaMemcpyKind] ''cudaGraphMemcpyNodeSetParamsToSymbol'' [0, 1, 2, 3, 4, 5] False,
     Gen cudart ty_cudaError_t ''cudaGraphMemcpyNodeSetParamsFromSymbol'' [ty_cudaGraphNode_t, Ptr ty_void, Ptr (Const ty_void), ty_size_t, ty_size_t, ty_enum_cudaMemcpyKind]
       ''cudaGraphMemcpyNodeSetParamsFromSymbol'' ty_cudaError_t [ty_cudaGraphNode_t, Ptr ty_void, Ptr (Const ty_void), ty_size_t, ty_size_t, ty_enum_cudaMemcpyKind] ''cudaGraphMemcpyNodeSetParamsFromSymbol'' [0, 1, 2, 3, 4, 5] False,
     Gen cudart ty_cudaError_t ''cudaGraphMemcpyNodeSetParams1D'' [ty_cudaGraphNode_t, Ptr ty_void, Ptr (Const ty_void), ty_size_t, ty_enum_cudaMemcpyKind]
       ''cudaGraphMemcpyNodeSetParams1D'' ty_cudaError_t [ty_cudaGraphNode_t, Ptr ty_void, Ptr (Const ty_void), ty_size_t, ty_enum_cudaMemcpyKind] ''cudaGraphMemcpyNodeSetParams1D'' [0, 1, 2, 3, 4] False]"

definition cudart_hooks_14 :: "gen_hook list" where
  "cudart_hooks_14 =
    [Gen cudart ty_cudaError_t ''cudaGraphAddMemsetNode'' [Ptr ty_cudaGraphNode_t, ty_cudaGraph_t, Ptr (Const ty_cudaGraphNode_t), ty_size_t, Ptr (Const ty_struct_cudaMemsetParams)]
       ''cudaGraphAddMemsetNode'' ty_cudaError_t [Ptr ty_cudaGraphNode_t, ty_cudaGraph_t, Ptr (Const ty_cudaGraphNode_t), ty_size_t, Ptr (Const ty_struct_cudaMemsetParams)] ''cudaGraphAddMemsetNode'' [0, 1, 2, 3, 4] False,
     Gen cudart ty_cudaError_t ''cudaGraphMemsetNodeGetParams'' [ty_cudaGraphNode_t, Ptr ty_struct_cudaMemsetParams]
       ''cudaGraphMemsetNodeGetParams'' ty_cudaError_t [ty_cudaGraphNode_t, Ptr ty_struct_cudaMemsetParams] ''cudaGraphMemsetNodeGetParams'' [0, 1] False,
     Gen cudart ty_cudaError_t ''cudaGraphMemsetNodeSetParams'' [ty_cudaGraphNode_t, Ptr (Const ty_struct_cudaMemsetParams)]
       ''cudaGraphMemsetNodeSetParams'' ty_cudaError_t [ty_cudaGraphNode_t, Ptr (Const ty_struct_cudaMemsetParams)] ''cudaGraphMemsetNodeSetParams'' [0, 1] False,
     Gen cudart ty_cudaError_t ''cudaGraphAddHostNode'' [Ptr ty_cudaGraphNode_t, ty_cudaGraph_t, Ptr (Const ty_cudaGraphNode_t), ty_size_t, Ptr (Const ty_struct_cudaHostNodeParams)]
       ''cudaGraphAddHostNode'' ty_cudaError_t [Ptr ty_cudaGraphNode_t, ty_cudaGraph_t, Ptr (Const ty_cudaGraphNode_t), ty_size_t, Ptr (Const ty_struct_cudaHostNodeParams)] ''cudaGraphAddHostNode'' [0, 1, 2, 3, 4] False,
     Gen cudart ty_cudaError_t ''cudaGraphHostNodeGetParams'' [ty_cudaGraphNode_t, Ptr ty_struct_cudaHostNodeParams]
       ''cudaGraphHostNodeGetParams'' ty_cudaError_t [ty_cudaGraphNode_t, Ptr ty_struct_cudaHostNodeParams] ''cudaGraphHostNodeGetParams'' [0, 1] False,
     Gen cudart ty_cudaError_t ''cudaGraphHostNodeSetParams'' [ty_cudaGraphNode_t, Ptr (Const ty_struct_cudaHostNodeParams)]
       ''cudaGraphHostNodeSetParams'' ty_cudaError_t [ty_cudaGraphNode_t, Ptr (Const ty_struct_cudaHostNodeParams)] ''cudaGraphHostNodeSetParams'' [0, 1] False,
     Gen cudart ty_cudaError_t ''cudaGraphAddChildGraphNode'' [Ptr ty_cudaGraphNode_t, ty_cudaGraph_t, Ptr (Const ty_cudaGraphNode_t), ty_size_t, ty_cudaGraph_t]
       ''cudaGraphAddChildGraphNode'' ty_cudaError_t [Ptr ty_cudaGraphNode_t, ty_cudaGraph_t, Ptr (Const ty_cudaGraphNode_t), ty_size_t, ty_cudaGraph_t] ''cudaGraphAddChildGraphNode'' [0, 1, 2, 3, 4] False,
     Gen cudart ty_cudaError_t ''cudaGraphChildGraphNodeGetGraph'' [ty_cudaGraphNode_t, Ptr ty_cudaGraph_t]
       ''cudaGraphChildGraphNodeGetGraph'' ty_cudaError_t [ty_cudaGraphNode_t, Ptr ty_cudaGraph_t] ''cudaGraphChildGraphNodeGetGraph'' [0, 1] False,
     Gen cudart ty_cudaError_t ''cudaGraphAddEmptyNode'' [Ptr ty_cudaGraphNode_t, ty_cudaGraph_t, Ptr (Const ty_cudaGraphNode_t), ty_size_t]
       ''cudaGraphAddEmptyNode'' ty_cudaError_t [Ptr ty_cudaGraphNode_t, ty_cudaGraph_t, Ptr (Const ty_cudaGraphNode_t), ty_size_t] ''cudaGraphAddEmptyNode'' [0, 1, 2, 3] False,
     Gen cudart ty_cudaError_t ''cudaGraphAddEventRecordNode'' [Ptr ty_cudaGraphNode_t, ty_cudaGraph_t, Ptr (Const ty_cudaGraphNode_t), ty_size_t, ty_cudaEvent_t]
       ''cudaGraphAddEventRecordNode'' ty_cudaError_t [Ptr ty_cudaGraphNode_t, ty_cudaGraph_t, Ptr (Const ty_cudaGraphNode_t), ty_size_t, ty_cudaEvent_t] ''cudaGraphAddEventRecordNode'' [0, 1, 2, 3, 4] False,
     Gen cudart ty_cudaError_t ''cudaGraphEventRecordNodeGetEvent'' [ty_cudaGraphNode_t, Ptr ty_cudaEvent_t]
       ''cudaGraphEventRecordNodeGetEvent'' ty_cudaError_t [ty_cudaGraphNode_t, Ptr ty_cudaEvent_t] ''cudaGraphEventRecordNodeGetEvent'' [0, 1] False,
     Gen cudart ty_cudaError_t ''cudaGraphEventRecordNodeSetEvent'' [ty_cudaGraphNode_t, ty_cudaEvent_t]
       ''cudaGraphEventRecordNodeSetEvent'' ty_cudaError_t [ty_cudaGraphNode_t, ty_cudaEvent_t] ''cudaGraphEventRecordNodeSetEvent'' [0, 1] False,
     Gen cudart ty_cudaError_t ''cudaGraphAddEventWaitNode'' [Ptr ty_cudaGraphNode_t, ty_cudaGraph_t, Ptr (Const ty_cudaGraphNode_t), ty_size_t, ty_cudaEvent_t]
       ''cudaGraphAddEventWaitNode'' ty_cudaError_t [Ptr ty_cudaGraphNode_t, ty_cudaGraph_t, Ptr (Const ty_cudaGraphNode_t), ty_size_t, ty_cudaEvent_t] ''cudaGraphAddEventWaitNode'' [0, 1, 2, 3, 4] False,
     Gen cudart ty_cudaError_t ''cudaGraphEventWaitNodeGetEvent'' [ty_cudaGraphNode_t, Ptr ty_cudaEvent_t]
       ''cudaGraphEventWaitNodeGetEvent'' ty_cudaError_t [ty_cudaGraphNode_t, Ptr ty_cudaEvent_t] ''cudaGraphEventWaitNodeGetEvent'' [0, 1] False,
     Gen cudart ty_cudaError_t ''cudaGraphEventWaitNodeSetEvent'' [ty_cudaGraphNode_t, ty_cudaEvent_t]
       ''cudaGraphEventWaitNodeSetEvent'' ty_cudaError_t [ty_cudaGraphNode_t, ty_cudaEvent_t] ''cudaGraphEventWaitNodeSetEvent'' [0, 1] False,
     Gen cudart ty_cudaError_t ''cudaGraphAddExternalSemaphoresSignalNode'' [Ptr ty_cudaGraphNode_t, ty_cudaGraph_t, Ptr (Const ty_cudaGraphNode_t), ty_size_t, Ptr (Const ty_struct_cudaExternalSemaphoreSignalNodeParams)]
       ''cudaGraphAddExternalSemaphoresSignalNode'' ty_cudaError_t [Ptr ty_cudaGraphNode_t, ty_cudaGraph_t, Ptr (Const ty_cudaGraphNode_t), ty_size_t, Ptr (Const ty_struct_cudaExternalSemaphoreSignalNodeParams)] ''cudaGraphAddExternalSemaphoresSignalNode'' [0, 1, 2, 3, 4] False]"

definition cudart_hooks_15 :: "gen_hook list" where
  "cudart_hooks_15 =
    [Gen cudart ty_cudaError_t ''cudaGraphExternalSemaphoresSignalNodeGetParams'' [ty_cudaGraphNode_t, Ptr ty_struct_cudaExternalSemaphoreSignalNodeParams]
       ''cudaGraphExternalSemaphoresSignalNodeGetParams'' ty_cudaError_t [ty_cudaGraphNode_t, Ptr ty_struct_cudaExternalSemaphoreSignalNodeParams] ''cudaGraphExternalSemaphoresSignalNodeGetParams'' [0, 1] False,
     Gen cudart ty_cudaError_t ''cudaGraphExternalSemaphoresSignalNodeSetParams'' [ty_cudaGraphNode_t, Ptr (Const ty_struct_cudaExternalSemaphoreSignalNodeParams)]
       ''cudaGraphExternalSemaphoresSignalNodeSetParams'' ty_cudaError_t [ty_cudaGraphNode_t, Ptr (Const ty_struct_cudaExternalSemaphoreSignalNodeParams)] ''cudaGraphExternalSemaphoresSignalNodeSetParams'' [0, 1] False,
     Gen cudart ty_cudaError_t ''cudaGraphAddExternalSemaphoresWaitNode'' [Ptr ty_cudaGraphNode_t, ty_cudaGraph_t, Ptr (Const ty_cudaGraphNode_t), ty_size_t, Ptr (Const ty_struct_cudaExternalSemaphoreWaitNodeParams)]
       ''cudaGraphAddExternalSemaphoresWaitNode'' ty_cudaError_t [Ptr ty_cudaGraphNode_t, ty_cudaGraph_t, Ptr (Const ty_cudaGraphNode_t), ty_size_t, Ptr (Const ty_struct_cudaExternalSemaphoreWaitNodeParams)] ''cudaGraphAddExternalSemaphoresWaitNode'' [0, 1, 2, 3, 4] False,
     Gen cudart ty_cudaError_t ''cudaGraphExternalSemaphoresWaitNodeGetParams'' [ty_cudaGraphNode_t, Ptr ty_struct_cudaExternalSemaphoreWaitNodeParams]
       ''cudaGraphExternalSemaphoresWaitNodeGetParams'' ty_cudaError_t [ty_cudaGraphNode_t, Ptr ty_struct_cudaExternalSemaphoreWaitNodeParams] ''cudaGraphExternalSemaphoresWaitNodeGetParams'' [0, 1] False,
     Gen cudart ty_cudaError_t ''cudaGraphExternalSemaphoresWaitNodeSetParams'' [ty_cudaGraphNode_t, Ptr (Const ty_struct_cudaExternalSemaphoreWaitNodeParams)]
       ''cudaGraphExternalSemaphoresWaitNodeSetParams'' ty_cudaError_t [ty_cudaGraphNode_t, Ptr (Const ty_struct_cudaExternalSemaphoreWaitNodeParams)] ''cudaGraphExternalSemaphoresWaitNodeSetParams'' [0, 1] False,
     Gen cudart ty_cudaError_t ''cudaGraphAddMemAllocNode'' [Ptr ty_cudaGraphNode_t, ty_cudaGraph_t, Ptr (Const ty_cudaGraphNode_t), ty_size_t, Ptr ty_struct_cudaMemAllocNodeParams]
       ''cudaGraphAddMemAllocNode'' ty_cudaError_t [Ptr ty_cudaGraphNode_t, ty_cudaGraph_t, Ptr (Const ty_cudaGraphNode_t), ty_size_t, Ptr ty_struct_cudaMemAllocNodeParams] ''cudaGraphAddMemAllocNode'' [0, 1, 2, 3, 4] False,
     Gen cudart ty_cudaError_t ''cudaGraphMemAllocNodeGetParams'' [ty_cudaGraphNode_t, Ptr ty_struct_cudaMemAllocNodeParams]
       ''cudaGraphMemAllocNodeGetParams'' ty_cudaError_t [ty_cudaGraphNode_t, Ptr ty_struct_cudaMemAllocNodeParams] ''cudaGraphMemAllocNodeGetParams'' [0, 1] False,
     Gen cudart ty_cudaError_t ''cudaGraphAddMemFreeNode'' [Ptr ty_cudaGraphNode_t, ty_cudaGraph_t, Ptr (Const ty_cudaGraphNode_t), ty_size_t, Ptr ty_void]
       ''cudaGraphAddMemFreeNode'' ty_cudaError_t [Ptr ty_cudaGraphNode_t, ty_cudaGraph_t, Ptr (Const ty_cudaGraphNode_t), ty_size_t, Ptr ty_void] ''cudaGraphAddMemFreeNode'' [0, 1, 2, 3, 4] False,
     Gen cudart ty_cudaError_t ''cudaGraphMemFreeNodeGetParams'' [ty_cudaGraphNode_t, Ptr ty_void]
       ''cudaGraphMemFreeNodeGetParams'' ty_cudaError_t [ty_cudaGraphNode_t, Ptr ty_void] ''cudaGraphMemFreeNodeGetParams'' [0, 1] False,
     Gen cudart ty_cudaError_t ''cudaDeviceGraphMemTrim'' [ty_int]
       ''cudaDeviceGraphMemTrim'' ty_cudaError_t [ty_int] ''cudaDeviceGraphMemTrim'' [0] False,
     Gen cudart ty_cudaError_t ''cudaDeviceGetGraphMemAttribute'' [ty_int, ty_enum_cudaGraphMemAttributeType, Ptr ty_void]
       ''cudaDeviceGetGraphMemAttribute'' ty_cudaError_t [ty_int, ty_enum_cudaGraphMemAttributeType, Ptr ty_void] ''cudaDeviceGetGraphMemAttribute'' [0, 1, 2] False,
     Gen cudart ty_cudaError_t ''cudaDeviceSetGraphMemAttribute'' [ty_int, ty_enum_cudaGraphMemAttributeType, Ptr ty_void]
       ''cudaDeviceSetGraphMemAttribute'' ty_cudaError_t [ty_int, ty_enum_cudaGraphMemAttributeType, Ptr ty_void] ''cudaDeviceSetGraphMemAttribute'' [0, 1, 2] False,
     Gen cudart ty_cudaError_t ''cudaGraphClone'' [Ptr ty_cudaGraph_t, ty_cudaGraph_t]
       ''cudaGraphClone'' ty_cudaError_t [Ptr ty_cudaGraph_t, ty_cudaGraph_t] ''cudaGraphClone'' [0, 1] False,
     Gen cudart ty_cudaError_t ''cudaGraphNodeFindInClone'' [Ptr ty_cudaGraphNode_t, ty_cudaGraphNode_t, ty_cudaGraph_t]
       ''cudaGraphNodeFindInClone'' ty_cudaError_t [Ptr ty_cudaGraphNode_t, ty_cudaGraphNode_t, ty_cudaGraph_t] ''cudaGraphNodeFindInClone'' [0, 1, 2] False,
     Gen cudart ty_cudaError_t ''cudaGraphNodeGetType'' [ty_cudaGraphNode_t, Ptr ty_enum_cudaGraphNodeType]
       ''cudaGraphNodeGetType'' ty_cudaError_t [ty_cudaGraphNode_t, Ptr ty_enum_cudaGraphNodeType] ''cudaGraphNodeGetType'' [0, 1] False,
     Gen cudart ty_cudaError_t ''cudaGraphGetNodes'' [ty_cudaGraph_t, Ptr ty_cudaGraphNode_t, Ptr ty_size_t]
       ''cudaGraphGetNodes'' ty_cudaError_t [ty_cudaGraph_t, Ptr ty_cudaGraphNode_t, Ptr ty_size_t] ''cudaGraphGetNodes'' [0, 1, 2] False]"

definition cudart_hooks_16 :: "gen_hook list" where
  "cudart_hooks_16 =
    [Gen cudart ty_cudaError_t ''cudaGraphGetRootNodes'' [ty_cudaGraph_t, Ptr ty_cudaGraphNode_t, Ptr ty_size_t]
       ''cudaGraphGetRootNodes'' ty_cudaError_t [ty_cudaGraph_t, Ptr ty_cudaGraphNode_t, Ptr ty_size_t] ''cudaGraphGetRootNodes'' [0, 1, 2] False,
     Gen cudart ty_cudaError_t ''cudaGraphGetEdges'' [ty_cudaGraph_t, Ptr ty_cudaGraphNode_t, Ptr ty_cudaGraphNode_t, Ptr ty_size_t]
       ''cudaGraphGetEdges'' ty_cudaError_t [ty_cudaGraph_t, Ptr ty_cudaGraphNode_t, Ptr ty_cudaGraphNode_t, Ptr ty_size_t] ''cudaGraphGetEdges'' [0, 1, 2, 3] False,
     Gen cudart ty_cudaError_t ''cudaGraphNodeGetDependencies'' [ty_cudaGraphNode_t, Ptr ty_cudaGraphNode_t, Ptr ty_size_t]
       ''cudaGraphNodeGetDependencies'' ty_cudaError_t [ty_cudaGraphNode_t, Ptr ty_cudaGraphNode_t, Ptr ty_size_t] ''cudaGraphNodeGetDependencies'' [0, 1, 2] False,
     Gen cudart ty_cudaError_t ''cudaGraphNodeGetDependentNodes'' [ty_cudaGraphNode_t, Ptr ty_cudaGraphNode_t, Ptr ty_size_t]
       ''cudaGraphNodeGetDependentNodes'' ty_cudaError_t [ty_cudaGraphNode_t, Ptr ty_cudaGraphNode_t, Ptr ty_size_t] ''cudaGraphNodeGetDependentNodes'' [0, 1, 2] False,
     Gen cudart ty_cudaError_t ''cudaGraphAddDependencies'' [ty_cudaGraph_t, Ptr (Const ty_cudaGraphNode_t), Ptr (Const ty_cudaGraphNode_t), ty_size_t]
       ''cudaGraphAddDependencies'' ty_cudaError_t [ty_cudaGraph_t, Ptr (Const ty_cudaGraphNode_t), Ptr (Const ty_cudaGraphNode_t), ty_size_t] ''cudaGraphAddDependencies'' [0, 1, 2, 3] False,
     Gen cudart ty_cudaError_t ''cudaGraphRemoveDependencies'' [ty_cudaGraph_t, Ptr (Const ty_cudaGraphNode_t), Ptr (Const ty_cudaGraphNode_t), ty_size_t]
       ''cudaGraphRemoveDependencies'' ty_cudaError_t [ty_cudaGraph_t, Ptr (Const ty_cudaGraphNode_t), Ptr (Const ty_cudaGraphNode_t), ty_size_t] ''cudaGraphRemoveDependencies'' [0, 1, 2, 3] False,
     Gen cudart ty_cudaError_t ''cudaGraphDestroyNode'' [ty_cudaGraphNode_t]
       ''cudaGraphDestroyNode'' ty_cudaError_t [ty_cudaGraphNode_t] ''cudaGraphDestroyNode'' [0] False,
     Gen cudart ty_cudaError_t ''cudaGraphInstantiate'' [Ptr ty_cudaGraphExec_t, ty_cudaGraph_t, Ptr ty_cudaGraphNode_t, Ptr ty_char, ty_size_t]
       ''cudaGraphInstantiate'' ty_cudaError_t [Ptr ty_cudaGraphExec_t, ty_cudaGraph_t, Ptr ty_cudaGraphNode_t, Ptr ty_char, ty_size_t] ''cudaGraphInstantiate'' [0, 1, 2, 3, 4] False,
     Gen cudart ty_cudaError_t ''cudaGraphInstantiateWithFlags'' [Ptr ty_cudaGraphExec_t, ty_cudaGraph_t, ty_unsigned_long_long]
       ''cudaGraphInstantiateWithFlags'' ty_cudaError_t [Ptr ty_cudaGraphExec_t, ty_cudaGraph_t, ty_unsigned_long_long] ''cudaGraphInstantiateWithFlags'' [0, 1, 2] False,
     Gen cudart ty_cudaError_t ''cudaGraphExecKernelNodeSetParams'' [ty_cudaGraphExec_t, ty_cudaGraphNode_t, Ptr (Const ty_struct_cudaKernelNodeParams)]
       ''cudaGraphExecKernelNodeSetParams'' ty_cudaError_t [ty_cudaGraphExec_t, ty_cudaGraphNode_t, Ptr (Const ty_struct_cudaKernelNodeParams)] ''cudaGraphExecKernelNodeSetParams'' [0, 1, 2] False,
     Gen cudart ty_cudaError_t ''cudaGraphExecMemcpyNodeSetParams'' [ty_cudaGraphExec_t, ty_cudaGraphNode_t, Ptr (Const ty_struct_cudaMemcpy3DParms)]
       ''cudaGraphExecMemcpyNodeSetParams'' ty_cudaError_t [ty_cudaGraphExec_t, ty_cudaGraphNode_t, Ptr (Const ty_struct_cudaMemcpy3DParms)] ''cudaGraphExecMemcpyNodeSetParams'' [0, 1, 2] False,
     Gen cudart ty_cudaError_t ''cudaGraphExecMemcpyNodeSetParamsToSymbol'' [ty_cudaGraphExec_t, ty_cudaGraphNode_t, Ptr (Const ty_void), Ptr (Const ty_void), ty_size_t, ty_size_t, ty_enum_cudaMemcpyKind]
       ''cudaGraphExecMemcpyNodeSetParamsToSymbol'' ty_cudaError_t [ty_cudaGraphExec_t, ty_cudaGraphNode_t, Ptr (Const ty_void), Ptr (Const ty_void), ty_size_t, ty_size_t, ty_enum_cudaMemcpyKind] ''cudaGraphExecMemcpyNodeSetParamsToSymbol'' [0, 1, 2, 3, 4, 5, 6] False,
     Gen cudart ty_cudaError_t ''cudaGraphExecMemcpyNodeSetParamsFromSymbol'' [ty_cudaGraphExec_t, ty_cudaGraphNode_t, Ptr ty_void, Ptr (Const ty_void), ty_size_t, ty_size_t, ty_enum_cudaMemcpyKind]
       ''cudaGraphExecMemcpyNodeSetParamsFromSymbol'' ty_cudaError_t [ty_cudaGraphExec_t, ty_cudaGraphNode_t, Ptr ty_void, Ptr (Const ty_void), ty_size_t, ty_size_t, ty_enum_cudaMemcpyKind] ''cudaGraphExecMemcpyNodeSetParamsFromSymbol'' [0, 1, 2, 3, 4, 5, 6] False,
     Gen cudart ty_cudaError_t ''cudaGraphExecMemcpyNodeSetParams1D'' [ty_cudaGraphExec_t, ty_cudaGraphNode_t, Ptr ty_void, Ptr (Const ty_void), ty_size_t, ty_enum_cudaMemcpyKind]
       ''cudaGraphExecMemcpyNodeSetParams1D'' ty_cudaError_t [ty_cudaGraphExec_t, ty_cudaGraphNode_t, Ptr ty_void, Ptr (Const ty_void), ty_size_t, ty_enum_cudaMemcpyKind] ''cudaGraphExecMemcpyNodeSetParams1D'' [0, 1, 2, 3, 4, 5] False,
     Gen cudart ty_cudaError_t ''cudaGraphExecMemsetNodeSetParams'' [ty_cudaGraphExec_t, ty_cudaGraphNode_t, Ptr (Const ty_struct_cudaMemsetParams)]
       ''cudaGraphExecMemsetNodeSetParams'' ty_cudaError_t [ty_cudaGraphExec_t, ty_cudaGraphNode_t, Ptr (Const ty_struct_cudaMemsetParams)] ''cudaGraphExecMemsetNodeSetParams'' [0, 1, 2] False]"

definition cudart_hooks_17 :: "gen_hook list" where
  "cudart_hooks_17 =
    [Gen cudart ty_cudaError_t ''cudaGraphExecHostNodeSetParams'' [ty_cudaGraphExec_t, ty_cudaGraphNode_t, Ptr (Const ty_struct_cudaHostNodeParams)]
       ''cudaGraphExecHostNodeSetParams'' ty_cudaError_t [ty_cudaGraphExec_t, ty_cudaGraphNode_t, Ptr (Const ty_struct_cudaHostNodeParams)] ''cudaGraphExecHostNodeSetParams'' [0, 1, 2] False,
     Gen cudart ty_cudaError_t ''cudaGraphExecChildGraphNodeSetParams'' [ty_cudaGraphExec_t, ty_cudaGraphNode_t, ty_cudaGraph_t]
       ''cudaGraphExecChildGraphNodeSetParams'' ty_cudaError_t [ty_cudaGraphExec_t, ty_cudaGraphNode_t, ty_cudaGraph_t] ''cudaGraphExecChildGraphNodeSetParams'' [0, 1, 2] False,
     Gen cudart ty_cudaError_t ''cudaGraphExecEventRecordNodeSetEvent'' [ty_cudaGraphExec_t, ty_cudaGraphNode_t, ty_cudaEvent_t]
       ''cudaGraphExecEventRecordNodeSetEvent'' ty_cudaError_t [ty_cudaGraphExec_t, ty_cudaGraphNode_t, ty_cudaEvent_t] ''cudaGraphExecEventRecordNodeSetEvent'' [0, 1, 2] False,
     Gen cudart ty_cudaError_t ''cudaGraphExecEventWaitNodeSetEvent'' [ty_cudaGraphExec_t, ty_cudaGraphNode_t, ty_cudaEvent_t]
       ''cudaGraphExecEventWaitNodeSetEvent'' ty_cudaError_t [ty_cudaGraphExec_t, ty_cudaGraphNode_t, ty_cudaEvent_t] ''cudaGraphExecEventWaitNodeSetEvent'' [0, 1, 2] False,
     Gen cudart ty_cudaError_t ''cudaGraphExecExternalSemaphoresSignalNodeSetParams'' [ty_cudaGraphExec_t, ty_cudaGraphNode_t, Ptr (Const ty_struct_cudaExternalSemaphoreSignalNodeParams)]
       ''cudaGraphExecExternalSemaphoresSignalNodeSetParams'' ty_cudaError_t [ty_cudaGraphExec_t, ty_cudaGraphNode_t, Ptr (Const ty_struct_cudaExternalSemaphoreSignalNodeParams)] ''cudaGraphExecExternalSemaphoresSignalNodeSetParams'' [0, 1, 2] False,
     Gen cudart ty_cudaError_t ''cudaGraphExecExternalSemaphoresWaitNodeSetParams'' [ty_cudaGraphExec_t, ty_cudaGraphNode_t, Ptr (Const ty_struct_cudaExternalSemaphoreWaitNodeParams)]
       ''cudaGraphExecExternalSemaphoresWaitNodeSetParams'' ty_cudaError_t [ty_cudaGraphExec_t, ty_cudaGraphNode_t, Ptr (Const ty_struct_cudaExternalSemaphoreWaitNodeParams)] ''cudaGraphExecExternalSemaphoresWaitNodeSetParams'' [0, 1, 2] False,
     Gen cudart ty_cudaError_t ''cudaGraphExecUpdate'' [ty_cudaGraphExec_t, ty_cudaGraph_t, Ptr ty_cudaGraphNode_t, Ptr ty_enum_cudaGraphExecUpdateResult]
       ''cudaGraphExecUpdate'' ty_cudaError_t [ty_cudaGraphExec_t, ty_cudaGraph_t, Ptr ty_cudaGraphNode_t, Ptr ty_enum_cudaGraphExecUpdateResult] ''cudaGraphExecUpdate'' [0, 1, 2, 3] False,
     Gen cudart ty_cudaError_t ''cudaGraphUpload'' [ty_cudaGraphExec_t, ty_cudaStream_t]
       ''cudaGraphUpload'' ty_cudaError_t [ty_cudaGraphExec_t, ty_cudaStream_t] ''cudaGraphUpload'' [0, 1] False,
     Gen cudart ty_cudaError_t ''cudaGraphLaunch'' [ty_cudaGraphExec_t, ty_cudaStream_t]
       ''cudaGraphLaunch'' ty_cudaError_t [ty_cudaGraphExec_t, ty_cudaStream_t] ''cudaGraphLaunch'' [0, 1] False,
     Gen cudart ty_cudaError_t ''cudaGraphExecDestroy'' [ty_cudaGraphExec_t]
       ''cudaGraphExecDestroy'' ty_cudaError_t [ty_cudaGraphExec_t] ''cudaGraphExecDestroy'' [0] False,
     Gen cudart ty_cudaError_t ''cudaGraphDestroy'' [ty_cudaGraph_t]
       ''cudaGraphDestroy'' ty_cudaError_t [ty_cudaGraph_t] ''cudaGraphDestroy'' [0] False,
     Gen cudart ty_cudaError_t ''cudaGraphDebugDotPrint'' [ty_cudaGraph_t, Ptr (Const ty_char), ty_unsigned_int]
       ''cudaGraphDebugDotPrint'' ty_cudaError_t [ty_cudaGraph_t, Ptr (Const ty_char), ty_unsigned_int] ''cudaGraphDebugDotPrint'' [0, 1, 2] False,
     Gen cudart ty_cudaError_t ''cudaUserObjectCreate'' [Ptr ty_cudaUserObject_t, Ptr ty_void, ty_cudaHostFn_t, ty_unsigned_int, ty_unsigned_int]
       ''cudaUserObjectCreate'' ty_cudaError_t [Ptr ty_cudaUserObject_t, Ptr ty_void, ty_cudaHostFn_t, ty_unsigned_int, ty_unsigned_int] ''cudaUserObjectCreate'' [0, 1, 2, 3, 4] False,
     Gen cudart ty_cudaError_t ''cudaUserObjectRetain'' [ty_cudaUserObject_t, ty_unsigned_int]
       ''cudaUserObjectRetain'' ty_cudaError_t [ty_cudaUserObject_t, ty_unsigned_int] ''cudaUserObjectRetain'' [0, 1] False,
     Gen cudart ty_cudaError_t ''cudaUserObjectRelease'' [ty_cudaUserObject_t, ty_unsigned_int]
       ''cudaUserObjectRelease'' ty_cudaError_t [ty_cudaUserObject_t, ty_unsigned_int] ''cudaUserObjectRelease'' [0, 1] False,
     Gen cudart ty_cudaError_t ''cudaGraphRetainUserObject'' [ty_cudaGraph_t, ty_cudaUserObject_t, ty_unsigned_int, ty_unsigned_int]
       ''cudaGraphRetainUserObject'' ty_cudaError_t [ty_cudaGraph_t, ty_cudaUserObject_t, ty_unsigned_int, ty_unsigned_int] ''cudaGraphRetainUserObject'' [0, 1, 2, 3] False]"

definition cudart_hooks_18 :: "gen_hook list" where
  "cudart_hooks_18 =
    [Gen cudart ty_cudaError_t ''cudaGraphReleaseUserObject'' [ty_cudaGraph_t, ty_cudaUserObject_t, ty_unsigned_int]
       ''cudaGraphReleaseUserObject'' ty_cudaError_t [ty_cudaGraph_t, ty_cudaUserObject_t, ty_unsigned_int] ''cudaGraphReleaseUserObject'' [0, 1, 2] False,
     Gen cudart ty_cudaError_t ''cudaGetDriverEntryPoint'' [Ptr (Const ty_char), Ptr (Ptr ty_void), ty_unsigned_long_long]
       ''cudaGetDriverEntryPoint'' ty_cudaError_t [Ptr (Const ty_char), Ptr (Ptr ty_void), ty_unsigned_long_long] ''cudaGetDriverEntryPoint'' [0, 1, 2] False,
     Gen cudart ty_cudaError_t ''cudaGetExportTable'' [Ptr (Ptr (Const ty_void)), Ptr (Const ty_cudaUUID_t)]
       ''cudaGetExportTable'' ty_cudaError_t [Ptr (Ptr (Const ty_void)), Ptr (Const ty_cudaUUID_t)] ''cudaGetExportTable'' [0, 1] False,
     Gen cudart ty_cudaError_t ''cudaGetFuncBySymbol'' [Ptr ty_cudaFunction_t, Ptr (Const ty_void)]
       ''cudaGetFuncBySymbol'' ty_cudaError_t [Ptr ty_cudaFunction_t, Ptr (Const ty_void)] ''cudaGetFuncBySymbol'' [0, 1] False,
     Gen cudart ty_cudaError_t ''cudaSignalExternalSemaphoresAsync_ptsz'' [Ptr (Const ty_cudaExternalSemaphore_t), Ptr (Const ty_struct_cudaExternalSemaphoreSignalParams_v1), ty_unsigned_int, ty_cudaStream_t]
       ''cudaSignalExternalSemaphoresAsync_ptsz'' ty_cudaError_t [Ptr (Const ty_cudaExternalSemaphore_t), Ptr (Const ty_struct_cudaExternalSemaphoreSignalParams_v1), ty_unsigned_int, ty_cudaStream_t] ''cudaSignalExternalSemaphoresAsync_ptsz'' [0, 1, 2, 3] False,
     Gen cudart ty_cudaError_t ''cudaSignalExternalSemaphoresAsync_v2'' [Ptr (Const ty_cudaExternalSemaphore_t), Ptr (Const ty_struct_cudaExternalSemaphoreSignalParams), ty_unsigned_int, ty_cudaStream_t]
       ''cudaSignalExternalSemaphoresAsync_v2'' ty_cudaError_t [Ptr (Const ty_cudaExternalSemaphore_t), Ptr (Const ty_struct_cudaExternalSemaphoreSignalParams), ty_unsigned_int, ty_cudaStream_t] ''cudaSignalExternalSemaphoresAsync_v2'' [0, 1, 2, 3] False,
     Gen cudart ty_cudaError_t ''cudaWaitExternalSemaphoresAsync_ptsz'' [Ptr (Const ty_cudaExternalSemaphore_t), Ptr (Const ty_struct_cudaExternalSemaphoreWaitParams_v1), ty_unsigned_int, ty_cudaStream_t]
       ''cudaWaitExternalSemaphoresAsync_ptsz'' ty_cudaError_t [Ptr (Const ty_cudaExternalSemaphore_t), Ptr (Const ty_struct_cudaExternalSemaphoreWaitParams_v1), ty_unsigned_int, ty_cudaStream_t] ''cudaWaitExternalSemaphoresAsync_ptsz'' [0, 1, 2, 3] False,
     Gen cudart ty_cudaError_t ''cudaWaitExternalSemaphoresAsync_v2'' [Ptr (Const ty_cudaExternalSemaphore_t), Ptr (Const ty_struct_cudaExternalSemaphoreWaitParams), ty_unsigned_int, ty_cudaStream_t]
       ''cudaWaitExternalSemaphoresAsync_v2'' ty_cudaError_t [Ptr (Const ty_cudaExternalSemaphore_t), Ptr (Const ty_struct_cudaExternalSemaphoreWaitParams), ty_unsigned_int, ty_cudaStream_t] ''cudaWaitExternalSemaphoresAsync_v2'' [0, 1, 2, 3] False,
     Gen cudart ty_cudaError_t ''cudaStreamUpdateCaptureDependencies_ptsz'' [ty_cudaStream_t, Ptr ty_cudaGraphNode_t, ty_size_t, ty_unsigned_int]
       ''cudaStreamUpdateCaptureDependencies_ptsz'' ty_cudaError_t [ty_cudaStream_t, Ptr ty_cudaGraphNode_t, ty_size_t, ty_unsigned_int] ''cudaStreamUpdateCaptureDependencies_ptsz'' [0, 1, 2, 3] False,
     Gen cudart (Ptr (Ptr ty_void)) ''__cudaRegisterFatBinary'' [Ptr ty_void]
       ''__cudaRegisterFatBinary'' (Ptr (Ptr ty_void)) [Ptr ty_void] ''__cudaRegisterFatBinary'' [0] False,
     Gen cudart ty_void ''__cudaRegisterFatBinaryEnd'' [Ptr (Ptr ty_void)]
       ''__cudaRegisterFatBinaryEnd'' ty_void [Ptr (Ptr ty_void)] ''__cudaRegisterFatBinaryEnd'' [0] False,
     Gen cudart ty_void ''__cudaUnregisterFatBinary'' [Ptr (Ptr ty_void)]
       ''__cudaUnregisterFatBinary'' ty_void [Ptr (Ptr ty_void)] ''__cudaUnregisterFatBinary'' [0] False,
     Gen cudart ty_void ''__cudaRegisterVar'' [Ptr (Ptr ty_void), Ptr ty_char, Ptr ty_char, Ptr (Const ty_char), ty_int, ty_size_t, ty_int, ty_int]
       ''__cudaRegisterVar'' ty_void [Ptr (Ptr ty_void), Ptr ty_char, Ptr ty_char, Ptr (Const ty_char), ty_int, ty_size_t, ty_int, ty_int] ''__cudaRegisterVar'' [0, 1, 2, 3, 4, 5, 6, 7] False,
     Gen cudart ty_void ''__cudaRegisterManagedVar'' [Ptr (Ptr ty_void), Ptr (Ptr ty_void), Ptr ty_char, Ptr (Const ty_char), ty_int, ty_size_t, ty_int, ty_int]
       ''__cudaRegisterManagedVar'' ty_void [Ptr (Ptr ty_void), Ptr (Ptr ty_void), Ptr ty_char, Ptr (Const ty_char), ty_int, ty_size_t, ty_int, ty_int] ''__cudaRegisterManagedVar'' [0, 1, 2, 3, 4, 5, 6, 7] False,
     Gen cudart ty_char ''__cudaInitModule'' [Ptr (Ptr ty_void)]
       ''__cudaInitModule'' ty_char [Ptr (Ptr ty_void)] ''__cudaInitModule'' [0] False]"

definition cudart_hooks_19 :: "gen_hook list" where
  "cudart_hooks_19 =
    [Gen cudart ty_void ''__cudaRegisterTexture'' [Ptr (Ptr ty_void), Ptr (Const ty_struct_textureReference), Ptr (Ptr (Const ty_void)), Ptr (Const ty_char), ty_int, ty_int, ty_int]
       ''__cudaRegisterTexture'' ty_void [Ptr (Ptr ty_void), Ptr (Const ty_struct_textureReference), Ptr (Ptr (Const ty_void)), Ptr (Const ty_char), ty_int, ty_int, ty_int] ''__cudaRegisterTexture'' [0, 1, 2, 3, 4, 5, 6] False,
     Gen cudart ty_void ''__cudaRegisterSurface'' [Ptr (Ptr ty_void), Ptr (Const ty_struct_surfaceReference), Ptr (Ptr (Const ty_void)), Ptr (Const ty_char), ty_int, ty_int]
       ''__cudaRegisterSurface'' ty_void [Ptr (Ptr ty_void), Ptr (Const ty_struct_surfaceReference), Ptr (Ptr (Const ty_void)), Ptr (Const ty_char), ty_int, ty_int] ''__cudaRegisterSurface'' [0, 1, 2, 3, 4, 5] False,
     Gen cudart ty_void ''__cudaRegisterFunction'' [Ptr (Ptr ty_void), Ptr (Const ty_char), Ptr ty_char, Ptr (Const ty_char), ty_int, Ptr ty_uint3, Ptr ty_uint3, Ptr ty_dim3, Ptr ty_dim3, Ptr ty_int]
       ''__cudaRegisterFunction'' ty_void [Ptr (Ptr ty_void), Ptr (Const ty_char), Ptr ty_char, Ptr (Const ty_char), ty_int, Ptr ty_uint3, Ptr ty_uint3, Ptr ty_dim3, Ptr ty_dim3, Ptr ty_int] ''__cudaRegisterFunction'' [0, 1, 2, 3, 4, 5, 6, 7, 8, 9] False,
     Gen cudart ty_cudaError_t ''__cudaPopCallConfiguration'' [Ptr ty_dim3, Ptr ty_dim3, Ptr ty_size_t, Ptr ty_void]
       ''__cudaPopCallConfiguration'' ty_cudaError_t [Ptr ty_dim3, Ptr ty_dim3, Ptr ty_size_t, Ptr ty_void] ''__cudaPopCallConfiguration'' [0, 1, 2, 3] False,
     Gen cudart ty_unsigned ''__cudaPushCallConfiguration'' [ty_dim3, ty_dim3, ty_size_t, Ptr ty_struct_CUstream_st]
       ''__cudaPushCallConfiguration'' ty_unsigned [ty_dim3, ty_dim3, ty_size_t, Ptr ty_struct_CUstream_st] ''__cudaPushCallConfiguration'' [0, 1, 2, 3] False]"

section \<open>All are instances of the template\<close>

lemma cudart_hooks_1_ok: "list_all instance_of_template cudart_hooks_1"
  by (simp add: cudart_hooks_1_def instance_of_template_def)

lemma cudart_hooks_2_ok: "list_all instance_of_template cudart_hooks_2"
  by (simp add: cudart_hooks_2_def instance_of_template_def)

lemma cudart_hooks_3_ok: "list_all instance_of_template cudart_hooks_3"
  by (simp add: cudart_hooks_3_def instance_of_template_def)

lemma cudart_hooks_4_ok: "list_all instance_of_template cudart_hooks_4"
  by (simp add: cudart_hooks_4_def instance_of_template_def)

lemma cudart_hooks_5_ok: "list_all instance_of_template cudart_hooks_5"
  by (simp add: cudart_hooks_5_def instance_of_template_def)

lemma cudart_hooks_6_ok: "list_all instance_of_template cudart_hooks_6"
  by (simp add: cudart_hooks_6_def instance_of_template_def)

lemma cudart_hooks_7_ok: "list_all instance_of_template cudart_hooks_7"
  by (simp add: cudart_hooks_7_def instance_of_template_def)

lemma cudart_hooks_8_ok: "list_all instance_of_template cudart_hooks_8"
  by (simp add: cudart_hooks_8_def instance_of_template_def)

lemma cudart_hooks_9_ok: "list_all instance_of_template cudart_hooks_9"
  by (simp add: cudart_hooks_9_def instance_of_template_def)

lemma cudart_hooks_10_ok: "list_all instance_of_template cudart_hooks_10"
  by (simp add: cudart_hooks_10_def instance_of_template_def)

lemma cudart_hooks_11_ok: "list_all instance_of_template cudart_hooks_11"
  by (simp add: cudart_hooks_11_def instance_of_template_def)

lemma cudart_hooks_12_ok: "list_all instance_of_template cudart_hooks_12"
  by (simp add: cudart_hooks_12_def instance_of_template_def)

lemma cudart_hooks_13_ok: "list_all instance_of_template cudart_hooks_13"
  by (simp add: cudart_hooks_13_def instance_of_template_def)

lemma cudart_hooks_14_ok: "list_all instance_of_template cudart_hooks_14"
  by (simp add: cudart_hooks_14_def instance_of_template_def)

lemma cudart_hooks_15_ok: "list_all instance_of_template cudart_hooks_15"
  by (simp add: cudart_hooks_15_def instance_of_template_def)

lemma cudart_hooks_16_ok: "list_all instance_of_template cudart_hooks_16"
  by (simp add: cudart_hooks_16_def instance_of_template_def)

lemma cudart_hooks_17_ok: "list_all instance_of_template cudart_hooks_17"
  by (simp add: cudart_hooks_17_def instance_of_template_def)

lemma cudart_hooks_18_ok: "list_all instance_of_template cudart_hooks_18"
  by (simp add: cudart_hooks_18_def instance_of_template_def)

lemma cudart_hooks_19_ok: "list_all instance_of_template cudart_hooks_19"
  by (simp add: cudart_hooks_19_def instance_of_template_def)

definition cudart_hooks :: "gen_hook list" where
  "cudart_hooks = concat
    [cudart_hooks_1, cudart_hooks_2, cudart_hooks_3, cudart_hooks_4,
     cudart_hooks_5, cudart_hooks_6, cudart_hooks_7, cudart_hooks_8,
     cudart_hooks_9, cudart_hooks_10, cudart_hooks_11, cudart_hooks_12,
     cudart_hooks_13, cudart_hooks_14, cudart_hooks_15, cudart_hooks_16,
     cudart_hooks_17, cudart_hooks_18, cudart_hooks_19]"

lemma cudart_hooks_ok: "list_all instance_of_template cudart_hooks"
  by (simp add: cudart_hooks_def cudart_hooks_1_ok cudart_hooks_2_ok cudart_hooks_3_ok cudart_hooks_4_ok cudart_hooks_5_ok
      cudart_hooks_6_ok cudart_hooks_7_ok cudart_hooks_8_ok cudart_hooks_9_ok cudart_hooks_10_ok
      cudart_hooks_11_ok cudart_hooks_12_ok cudart_hooks_13_ok cudart_hooks_14_ok cudart_hooks_15_ok
      cudart_hooks_16_ok cudart_hooks_17_ok cudart_hooks_18_ok cudart_hooks_19_ok)

end
