(* ===== verification/Hooks_Cudnn.thy ===== *)
theory Hooks_Cudnn
  imports Hook_Gen
begin

text \<open>
  The generated functions of \<open>src/cudnn/cudnn_hook.cpp\<close>, in the order of the file.
\<close>

section \<open>Types\<close>

definition ty_cudnnStatus_t :: cty where "ty_cudnnStatus_t = Named ''cudnnStatus_t''"
definition ty_cudnnHandle_t :: cty where "ty_cudnnHandle_t = Named ''cudnnHandle_t''"
definition ty_cudnnErrQueryMode_t :: cty where "ty_cudnnErrQueryMode_t = Named ''cudnnErrQueryMode_t''"
definition ty_cudnnRuntimeTag_t :: cty where "ty_cudnnRuntimeTag_t = Named ''cudnnRuntimeTag_t''"
definition ty_cudnnTensorDescriptor_t :: cty where "ty_cudnnTensorDescriptor_t = Named ''cudnnTensorDescriptor_t''"
definition ty_cudnnTensorFormat_t :: cty where "ty_cudnnTensorFormat_t = Named ''cudnnTensorFormat_t''"
definition ty_cudnnDataType_t :: cty where "ty_cudnnDataType_t = Named ''cudnnDataType_t''"
definition ty_cudnnTensorTransformDescriptor_t :: cty where "ty_cudnnTensorTransformDescriptor_t = Named ''cudnnTensorTransformDescriptor_t''"
definition ty_cudnnFoldingDirection_t :: cty where "ty_cudnnFoldingDirection_t = Named ''cudnnFoldingDirection_t''"
definition ty_cudnnFilterDescriptor_t :: cty where "ty_cudnnFilterDescriptor_t = Named ''cudnnFilterDescriptor_t''"
definition ty_cudnnConvolutionDescriptor_t :: cty where "ty_cudnnConvolutionDescriptor_t = Named ''cudnnConvolutionDescriptor_t''"
definition ty_cudnnOpTensorDescriptor_t :: cty where "ty_cudnnOpTensorDescriptor_t = Named ''cudnnOpTensorDescriptor_t''"
definition ty_cudnnOpTensorOp_t :: cty where "ty_cudnnOpTensorOp_t = Named ''cudnnOpTensorOp_t''"
definition ty_cudnnNanPropagation_t :: cty where "ty_cudnnNanPropagation_t = Named ''cudnnNanPropagation_t''"
definition ty_cudnnReduceTensorDescriptor_t :: cty where "ty_cudnnReduceTensorDescriptor_t = Named ''cudnnReduceTensorDescriptor_t''"
definition ty_cudnnReduceTensorOp_t :: cty where "ty_cudnnReduceTensorOp_t = Named ''cudnnReduceTensorOp_t''"
definition ty_cudnnReduceTensorIndices_t :: cty where "ty_cudnnReduceTensorIndices_t = Named ''cudnnReduceTensorIndices_t''"
definition ty_cudnnIndicesType_t :: cty where "ty_cudnnIndicesType_t = Named ''cudnnIndicesType_t''"
definition ty_cudnnReorderType_t :: cty where "ty_cudnnReorderType_t = Named ''cudnnReorderType_t''"
definition ty_cudnnMathType_t :: cty where "ty_cudnnMathType_t = Named ''cudnnMathType_t''"
definition ty_cudnnConvolutionMode_t :: cty where "ty_cudnnConvolutionMode_t = Named ''cudnnConvolutionMode_t''"
definition ty_cudnnConvolutionFwdAlgoPerf_t :: cty where "ty_cudnnConvolutionFwdAlgoPerf_t = Named ''cudnnConvolutionFwdAlgoPerf_t''"
definition ty_cudnnConvolutionFwdPreference_t :: cty where "ty_cudnnConvolutionFwdPreference_t = Named ''cudnnConvolutionFwdPreference_t''"
definition ty_cudnnConvolutionFwdAlgo_t :: cty where "ty_cudnnConvolutionFwdAlgo_t = Named ''cudnnConvolutionFwdAlgo_t''"
definition ty_cudnnActivationDescriptor_t :: cty where "ty_cudnnActivationDescriptor_t = Named ''cudnnActivationDescriptor_t''"
definition ty_cudnnConvolutionBwdFilterAlgoPerf_t :: cty where "ty_cudnnConvolutionBwdFilterAlgoPerf_t = Named ''cudnnConvolutionBwdFilterAlgoPerf_t''"
definition ty_cudnnConvolutionBwdFilterPreference_t :: cty where "ty_cudnnConvolutionBwdFilterPreference_t = Named ''cudnnConvolutionBwdFilterPreference_t''"
definition ty_cudnnConvolutionBwdFilterAlgo_t :: cty where "ty_cudnnConvolutionBwdFilterAlgo_t = Named ''cudnnConvolutionBwdFilterAlgo_t''"
definition ty_cudnnConvolutionBwdDataAlgoPerf_t :: cty where "ty_cudnnConvolutionBwdDataAlgoPerf_t = Named ''cudnnConvolutionBwdDataAlgoPerf_t''"
definition ty_cudnnConvolutionBwdDataPreference_t :: cty where "ty_cudnnConvolutionBwdDataPreference_t = Named ''cudnnConvolutionBwdDataPreference_t''"
definition ty_cudnnConvolutionBwdDataAlgo_t :: cty where "ty_cudnnConvolutionBwdDataAlgo_t = Named ''cudnnConvolutionBwdDataAlgo_t''"
definition ty_cudnnSoftmaxAlgorithm_t :: cty where "ty_cudnnSoftmaxAlgorithm_t = Named ''cudnnSoftmaxAlgorithm_t''"
definition ty_cudnnSoftmaxMode_t :: cty where "ty_cudnnSoftmaxMode_t = Named ''cudnnSoftmaxMode_t''"
definition ty_cudnnPoolingDescriptor_t :: cty where "ty_cudnnPoolingDescriptor_t = Named ''cudnnPoolingDescriptor_t''"
definition ty_cudnnPoolingMode_t :: cty where "ty_cudnnPoolingMode_t = Named ''cudnnPoolingMode_t''"
definition ty_cudnnActivationMode_t :: cty where "ty_cudnnActivationMode_t = Named ''cudnnActivationMode_t''"
definition ty_cudnnLRNDescriptor_t :: cty where "ty_cudnnLRNDescriptor_t = Named ''cudnnLRNDescriptor_t''"
definition ty_cudnnLRNMode_t :: cty where "ty_cudnnLRNMode_t = Named ''cudnnLRNMode_t''"
definition ty_cudnnDivNormMode_t :: cty where "ty_cudnnDivNormMode_t = Named ''cudnnDivNormMode_t''"
definition ty_cudnnBatchNormMode_t :: cty where "ty_cudnnBatchNormMode_t = Named ''cudnnBatchNormMode_t''"
definition ty_cudnnBatchNormOps_t :: cty where "ty_cudnnBatchNormOps_t = Named ''cudnnBatchNormOps_t''"
definition ty_cudnnSpatialTransformerDescriptor_t :: cty where "ty_cudnnSpatialTransformerDescriptor_t = Named ''cudnnSpatialTransformerDescriptor_t''"
definition ty_cudnnSamplerType_t :: cty where "ty_cudnnSamplerType_t = Named ''cudnnSamplerType_t''"
definition ty_cudnnDropoutDescriptor_t :: cty where "ty_cudnnDropoutDescriptor_t = Named ''cudnnDropoutDescriptor_t''"
definition ty_cudnnRNNDescriptor_t :: cty where "ty_cudnnRNNDescriptor_t = Named ''cudnnRNNDescriptor_t''"
definition ty_cudnnRNNInputMode_t :: cty where "ty_cudnnRNNInputMode_t = Named ''cudnnRNNInputMode_t''"
definition ty_cudnnDirectionMode_t :: cty where "ty_cudnnDirectionMode_t = Named ''cudnnDirectionMode_t''"
definition ty_cudnnRNNMode_t :: cty where "ty_cudnnRNNMode_t = Named ''cudnnRNNMode_t''"
definition ty_cudnnRNNAlgo_t :: cty where "ty_cudnnRNNAlgo_t = Named ''cudnnRNNAlgo_t''"
definition ty_cudnnRNNBiasMode_t :: cty where "ty_cudnnRNNBiasMode_t = Named ''cudnnRNNBiasMode_t''"
definition ty_cudnnRNNClipMode_t :: cty where "ty_cudnnRNNClipMode_t = Named ''cudnnRNNClipMode_t''"
definition ty_cudnnPersistentRNNPlan_t :: cty where "ty_cudnnPersistentRNNPlan_t = Named ''cudnnPersistentRNNPlan_t''"
definition ty_cudnnRNNPaddingMode_t :: cty where "ty_cudnnRNNPaddingMode_t = Named ''cudnnRNNPaddingMode_t''"
definition ty_cudnnRNNDataDescriptor_t :: cty where "ty_cudnnRNNDataDescriptor_t = Named ''cudnnRNNDataDescriptor_t''"
definition ty_cudnnRNNDataLayout_t :: cty where "ty_cudnnRNNDataLayout_t = Named ''cudnnRNNDataLayout_t''"
definition ty_cudnnAlgorithmDescriptor_t :: cty where "ty_cudnnAlgorithmDescriptor_t = Named ''cudnnAlgorithmDescriptor_t''"
definition ty_cudnnAlgorithmPerformance_t :: cty where "ty_cudnnAlgorithmPerformance_t = Named ''cudnnAlgorithmPerformance_t''"
definition ty_cudnnSeqDataDescriptor_t :: cty where "ty_cudnnSeqDataDescriptor_t = Named ''cudnnSeqDataDescriptor_t''"
definition ty_cudnnSeqDataAxis_t :: cty where "ty_cudnnSeqDataAxis_t = Named ''cudnnSeqDataAxis_t''"
definition ty_cudnnAttnDescriptor_t :: cty where "ty_cudnnAttnDescriptor_t = Named ''cudnnAttnDescriptor_t''"
definition ty_cudnnMultiHeadAttnWeightKind_t :: cty where "ty_cudnnMultiHeadAttnWeightKind_t = Named ''cudnnMultiHeadAttnWeightKind_t''"
definition ty_cudnnWgradMode_t :: cty where "ty_cudnnWgradMode_t = Named ''cudnnWgradMode_t''"
definition ty_cudnnCTCLossDescriptor_t :: cty where "ty_cudnnCTCLossDescriptor_t = Named ''cudnnCTCLossDescriptor_t''"
definition ty_cudnnLossNormalizationMode_t :: cty where "ty_cudnnLossNormalizationMode_t = Named ''cudnnLossNormalizationMode_t''"
definition ty_cudnnCTCLossAlgo_t :: cty where "ty_cudnnCTCLossAlgo_t = Named ''cudnnCTCLossAlgo_t''"
definition ty_cudnnAlgorithm_t :: cty where "ty_cudnnAlgorithm_t = Named ''cudnnAlgorithm_t''"
definition ty_cudnnCallback_t :: cty where "ty_cudnnCallback_t = Named ''cudnnCallback_t''"
definition ty_cudnnFusedOpsConstParamPack_t :: cty where "ty_cudnnFusedOpsConstParamPack_t = Named ''cudnnFusedOpsConstParamPack_t''"
definition ty_cudnnFusedOps_t :: cty where "ty_cudnnFusedOps_t = Named ''cudnnFusedOps_t''"
definition ty_cudnnFusedOpsConstParamLabel_t :: cty where "ty_cudnnFusedOpsConstParamLabel_t = Named ''cudnnFusedOpsConstParamLabel_t''"
definition ty_cudnnFusedOpsVariantParamPack_t :: cty where "ty_cudnnFusedOpsVariantParamPack_t = Named ''cudnnFusedOpsVariantParamPack_t''"
definition ty_cudnnFusedOpsVariantParamLabel_t :: cty where "ty_cudnnFusedOpsVariantParamLabel_t = Named ''cudnnFusedOpsVariantParamLabel_t''"
definition ty_cudnnFusedOpsPlan_t :: cty where "ty_cudnnFusedOpsPlan_t = Named ''cudnnFusedOpsPlan_t''"

section \<open>\<open>cudnn\<close>\<close>

definition cudnn_hooks_1 :: "gen_hook list" where
  "cudnn_hooks_1 =
    [Gen cudnn ty_size_t ''cudnnGetVersion'' []
       ''cudnnGetVersion'' ty_size_t [] ''cudnnGetVersion'' [] False,
     Gen cudnn ty_size_t ''cudnnGetCudartVersion'' []
       ''cudnnGetCudartVersion'' ty_size_t [] ''cudnnGetCudartVersion'' [] False,
     Gen cudnn (Ptr (Const ty_char)) ''cudnnGetErrorString'' [ty_cudnnStatus_t]
       ''cudnnGetErrorString'' (Ptr (Const ty_char)) [ty_cudnnStatus_t] ''cudnnGetErrorString'' [0] False,
     Gen cudnn ty_cudnnStatus_t ''cudnnQueryRuntimeError'' [ty_cudnnHandle_t, Ptr ty_cudnnStatus_t, ty_cudnnErrQueryMode_t, Ptr ty_cudnnRuntimeTag_t]
       ''cudnnQueryRuntimeError'' ty_cudnnStatus_t [ty_cudnnHandle_t, Ptr ty_cudnnStatus_t, ty_cudnnErrQueryMode_t, Ptr ty_cudnnRuntimeTag_t] ''cudnnQueryRuntimeError'' [0, 1, 2, 3] False,
     Gen cudnn ty_cudnnStatus_t ''cudnnGetProperty'' [ty_libraryPropertyType, Ptr ty_int]
       ''cudnnGetProperty'' ty_cudnnStatus_t [ty_libraryPropertyType, Ptr ty_int] ''cudnnGetProperty'' [0, 1] False,
     Gen cudnn ty_cudnnStatus_t ''cudnnCreate'' [Ptr ty_cudnnHandle_t]
       ''cudnnCreate'' ty_cudnnStatus_t [Ptr ty_cudnnHandle_t] ''cudnnCreate'' [0] False,
     Gen cudnn ty_cudnnStatus_t ''cudnnDestroy'' [ty_cudnnHandle_t]
       ''cudnnDestroy'' ty_cudnnStatus_t [ty_cudnnHandle_t] ''cudnnDestroy'' [0] False,
     Gen cudnn ty_cudnnStatus_t ''cudnnSetStream'' [ty_cudnnHandle_t, ty_cudaStream_t]
       ''cudnnSetStream'' ty_cudnnStatus_t [ty_cudnnHandle_t, ty_cudaStream_t] ''cudnnSetStream'' [0, 1] False,
     Gen cudnn ty_cudnnStatus_t ''cudnnGetStream'' [ty_cudnnHandle_t, Ptr ty_cudaStream_t]
       ''cudnnGetStream'' ty_cudnnStatus_t [ty_cudnnHandle_t, Ptr ty_cudaStream_t] ''cudnnGetStream'' [0, 1] False,
     Gen cudnn ty_cudnnStatus_t ''cudnnCreateTensorDescriptor'' [Ptr ty_cudnnTensorDescriptor_t]
       ''cudnnCreateTensorDescriptor'' ty_cudnnStatus_t [Ptr ty_cudnnTensorDescriptor_t] ''cudnnCreateTensorDescriptor'' [0] False,
     Gen cudnn ty_cudnnStatus_t ''cudnnSetTensor4dDescriptor'' [ty_cudnnTensorDescriptor_t, ty_cudnnTensorFormat_t, ty_cudnnDataType_t, ty_int, ty_int, ty_int, ty_int]
       ''cudnnSetTensor4dDescriptor'' ty_cudnnStatus_t [ty_cudnnTensorDescriptor_t, ty_cudnnTensorFormat_t, ty_cudnnDataType_t, ty_int, ty_int, ty_int, ty_int] ''cudnnSetTensor4dDescriptor'' [0, 1, 2, 3, 4, 5, 6] False,
     Gen cudnn ty_cudnnStatus_t ''cudnnSetTensor4dDescriptorEx'' [ty_cudnnTensorDescriptor_t, ty_cudnnDataType_t, ty_int, ty_int, ty_int, ty_int, ty_int, ty_int, ty_int, ty_int]
       ''cudnnSetTensor4dDescriptorEx'' ty_cudnnStatus_t [ty_cudnnTensorDescriptor_t, ty_cudnnDataType_t, ty_int, ty_int, ty_int, ty_int, ty_int, ty_int, ty_int, ty_int] ''cudnnSetTensor4dDescriptorEx'' [0, 1, 2, 3, 4, 5, 6, 7, 8, 9] False,
     Gen cudnn ty_cudnnStatus_t ''cudnnGetTensor4dDescriptor'' [Const ty_cudnnTensorDescriptor_t, Ptr ty_cudnnDataType_t, Ptr ty_int, Ptr ty_int, Ptr ty_int, Ptr ty_int, Ptr ty_int, Ptr ty_int, Ptr ty_int, Ptr ty_int]
       ''cudnnGetTensor4dDescriptor'' ty_cudnnStatus_t [Const ty_cudnnTensorDescriptor_t, Ptr ty_cudnnDataType_t, Ptr ty_int, Ptr ty_int, Ptr ty_int, Ptr ty_int, Ptr ty_int, Ptr ty_int, Ptr ty_int, Ptr ty_int] ''cudnnGetTensor4dDescriptor'' [0, 1, 2, 3, 4, 5, 6, 7, 8, 9] False,
     Gen cudnn ty_cudnnStatus_t ''cudnnSetTensorNdDescriptor'' [ty_cudnnTensorDescriptor_t, ty_cudnnDataType_t, ty_int, Ptr (Const ty_int), Ptr (Const ty_int)]
       ''cudnnSetTensorNdDescriptor'' ty_cudnnStatus_t [ty_cudnnTensorDescriptor_t, ty_cudnnDataType_t, ty_int, Ptr (Const ty_int), Ptr (Const ty_int)] ''cudnnSetTensorNdDescriptor'' [0, 1, 2, 3, 4] False,
     Gen cudnn ty_cudnnStatus_t ''cudnnSetTensorNdDescriptorEx'' [ty_cudnnTensorDescriptor_t, ty_cudnnTensorFormat_t, ty_cudnnDataType_t, ty_int, Ptr (Const ty_int)]
       ''cudnnSetTensorNdDescriptorEx'' ty_cudnnStatus_t [ty_cudnnTensorDescriptor_t, ty_cudnnTensorFormat_t, ty_cudnnDataType_t, ty_int, Ptr (Const ty_int)] ''cudnnSetTensorNdDescriptorEx'' [0, 1, 2, 3, 4] False,
     Gen cudnn ty_cudnnStatus_t ''cudnnGetTensorNdDescriptor'' [Const ty_cudnnTensorDescriptor_t, ty_int, Ptr ty_cudnnDataType_t, Ptr ty_int, Ptr ty_int, Ptr ty_int]
       ''cudnnGetTensorNdDescriptor'' ty_cudnnStatus_t [Const ty_cudnnTensorDescriptor_t, ty_int, Ptr ty_cudnnDataType_t, Ptr ty_int, Ptr ty_int, Ptr ty_int] ''cudnnGetTensorNdDescriptor'' [0, 1, 2, 3, 4, 5] False]"

definition cudnn_hooks_2 :: "gen_hook list" where
  "cudnn_hooks_2 =
    [Gen cudnn ty_cudnnStatus_t ''cudnnGetTensorSizeInBytes'' [Const ty_cudnnTensorDescriptor_t, Ptr ty_size_t]
       ''cudnnGetTensorSizeInBytes'' ty_cudnnStatus_t [Const ty_cudnnTensorDescriptor_t, Ptr ty_size_t] ''cudnnGetTensorSizeInBytes'' [0, 1] False,
     Gen cudnn ty_cudnnStatus_t ''cudnnDestroyTensorDescriptor'' [ty_cudnnTensorDescriptor_t]
       ''cudnnDestroyTensorDescriptor'' ty_cudnnStatus_t [ty_cudnnTensorDescriptor_t] ''cudnnDestroyTensorDescriptor'' [0] False,
     Gen cudnn ty_cudnnStatus_t ''cudnnInitTransformDest'' [Const ty_cudnnTensorTransformDescriptor_t, Const ty_cudnnTensorDescriptor_t, ty_cudnnTensorDescriptor_t, Ptr ty_size_t]
       ''cudnnInitTransformDest'' ty_cudnnStatus_t [Const ty_cudnnTensorTransformDescriptor_t, Const ty_cudnnTensorDescriptor_t, ty_cudnnTensorDescriptor_t, Ptr ty_size_t] ''cudnnInitTransformDest'' [0, 1, 2, 3] False,
     Gen cudnn ty_cudnnStatus_t ''cudnnCreateTensorTransformDescriptor'' [Ptr ty_cudnnTensorTransformDescriptor_t]
       ''cudnnCreateTensorTransformDescriptor'' ty_cudnnStatus_t [Ptr ty_cudnnTensorTransformDescriptor_t] ''cudnnCreateTensorTransformDescriptor'' [0] False,
     Gen cudnn ty_cudnnStatus_t ''cudnnSetTensorTransformDescriptor'' [ty_cudnnTensorTransformDescriptor_t, Const ty_uint32_t, Const ty_cudnnTensorFormat_t, Ptr (Const ty_int32_t), Ptr (Const ty_int32_t), Ptr (Const ty_uint32_t), Const ty_cudnnFoldingDirection_t]
       ''cudnnSetTensorTransformDescriptor'' ty_cudnnStatus_t [ty_cudnnTensorTransformDescriptor_t, Const ty_uint32_t, Const ty_cudnnTensorFormat_t, Ptr (Const ty_int32_t), Ptr (Const ty_int32_t), Ptr (Const ty_uint32_t), Const ty_cudnnFoldingDirection_t] ''cudnnSetTensorTransformDescriptor'' [0, 1, 2, 3, 4, 5, 6] False,
     Gen cudnn ty_cudnnStatus_t ''cudnnGetTensorTransformDescriptor'' [ty_cudnnTensorTransformDescriptor_t, ty_uint32_t, Ptr ty_cudnnTensorFormat_t, Ptr ty_int32_t, Ptr ty_int32_t, Ptr ty_uint32_t, Ptr ty_cudnnFoldingDirection_t]
       ''cudnnGetTensorTransformDescriptor'' ty_cudnnStatus_t [ty_cudnnTensorTransformDescriptor_t, ty_uint32_t, Ptr ty_cudnnTensorFormat_t, Ptr ty_int32_t, Ptr ty_int32_t, Ptr ty_uint32_t, Ptr ty_cudnnFoldingDirection_t] ''cudnnGetTensorTransformDescriptor'' [0, 1, 2, 3, 4, 5, 6] False,
     Gen cudnn ty_cudnnStatus_t ''cudnnDestroyTensorTransformDescriptor'' [ty_cudnnTensorTransformDescriptor_t]
       ''cudnnDestroyTensorTransformDescriptor'' ty_cudnnStatus_t [ty_cudnnTensorTransformDescriptor_t] ''cudnnDestroyTensorTransformDescriptor'' [0] False,
     Gen cudnn ty_cudnnStatus_t ''cudnnTransformTensor'' [ty_cudnnHandle_t, Ptr (Const ty_void), Const ty_cudnnTensorDescriptor_t, Ptr (Const ty_void), Ptr (Const ty_void), Const ty_cudnnTensorDescriptor_t, Ptr ty_void]
       ''cudnnTransformTensor'' ty_cudnnStatus_t [ty_cudnnHandle_t, Ptr (Const ty_void), Const ty_cudnnTensorDescriptor_t, Ptr (Const ty_void), Ptr (Const ty_void), Const ty_cudnnTensorDescriptor_t, Ptr ty_void] ''cudnnTransformTensor'' [0, 1, 2, 3, 4, 5, 6] False,
     Gen cudnn ty_cudnnStatus_t ''cudnnTransformTensorEx'' [ty_cudnnHandle_t, Const ty_cudnnTensorTransformDescriptor_t, Ptr (Const ty_void), Const ty_cudnnTensorDescriptor_t, Ptr (Const ty_void), Ptr (Const ty_void), Const ty_cudnnTensorDescriptor_t, Ptr ty_void]
       ''cudnnTransformTensorEx'' ty_cudnnStatus_t [ty_cudnnHandle_t, Const ty_cudnnTensorTransformDescriptor_t, Ptr (Const ty_void), Const ty_cudnnTensorDescriptor_t, Ptr (Const ty_void), Ptr (Const ty_void), Const ty_cudnnTensorDescriptor_t, Ptr ty_void] ''cudnnTransformTensorEx'' [0, 1, 2, 3, 4, 5, 6, 7] False,
     Gen cudnn ty_cudnnStatus_t ''cudnnGetFoldedConvBackwardDataDescriptors'' [Const ty_cudnnHandle_t, Const ty_cudnnFilterDescriptor_t, Const ty_cudnnTensorDescriptor_t, Const ty_cudnnConvolutionDescriptor_t, Const ty_cudnnTensorDescriptor_t, Const ty_cudnnTensorFormat_t, ty_cudnnFilterDescriptor_t, ty_cudnnTensorDescriptor_t, ty_cudnnConvolutionDescriptor_t, ty_cudnnTensorDescriptor_t, ty_cudnnTensorTransformDescriptor_t, ty_cudnnTensorTransformDescriptor_t, ty_cudnnTensorTransformDescriptor_t, ty_cudnnTensorTransformDescriptor_t]
       ''cudnnGetFoldedConvBackwardDataDescriptors'' ty_cudnnStatus_t [Const ty_cudnnHandle_t, Const ty_cudnnFilterDescriptor_t, Const ty_cudnnTensorDescriptor_t, Const ty_cudnnConvolutionDescriptor_t, Const ty_cudnnTensorDescriptor_t, Const ty_cudnnTensorFormat_t, ty_cudnnFilterDescriptor_t, ty_cudnnTensorDescriptor_t, ty_cudnnConvolutionDescriptor_t, ty_cudnnTensorDescriptor_t, ty_cudnnTensorTransformDescriptor_t, ty_cudnnTensorTransformDescriptor_t, ty_cudnnTensorTransformDescriptor_t, ty_cudnnTensorTransformDescriptor_t] ''cudnnGetFoldedConvBackwardDataDescriptors'' [0, 1, 2, 3, 4, 5, 6, 7, 8, 9, 10, 11, 12, 13] False,
     Gen cudnn ty_cudnnStatus_t ''cudnnAddTensor'' [ty_cudnnHandle_t, Ptr (Const ty_void), Const ty_cudnnTensorDescriptor_t, Ptr (Const ty_void), Ptr (Const ty_void), Const ty_cudnnTensorDescriptor_t, Ptr ty_void]
       ''cudnnAddTensor'' ty_cudnnStatus_t [ty_cudnnHandle_t, Ptr (Const ty_void), Const ty_cudnnTensorDescriptor_t, Ptr (Const ty_void), Ptr (Const ty_void), Const ty_cudnnTensorDescriptor_t, Ptr ty_void] ''cudnnAddTensor'' [0, 1, 2, 3, 4, 5, 6] False,
     Gen cudnn ty_cudnnStatus_t ''cudnnCreateOpTensorDescriptor'' [Ptr ty_cudnnOpTensorDescriptor_t]
       ''cudnnCreateOpTensorDescriptor'' ty_cudnnStatus_t [Ptr ty_cudnnOpTensorDescriptor_t] ''cudnnCreateOpTensorDescriptor'' [0] False,
     Gen cudnn ty_cudnnStatus_t ''cudnnSetOpTensorDescriptor'' [ty_cudnnOpTensorDescriptor_t, ty_cudnnOpTensorOp_t, ty_cudnnDataType_t, ty_cudnnNanPropagation_t]
       ''cudnnSetOpTensorDescriptor'' ty_cudnnStatus_t [ty_cudnnOpTensorDescriptor_t, ty_cudnnOpTensorOp_t, ty_cudnnDataType_t, ty_cudnnNanPropagation_t] ''cudnnSetOpTensorDescriptor'' [0, 1, 2, 3] False]"

definition cudnn_hooks_3 :: "gen_hook list" where
  "cudnn_hooks_3 =
    [Gen cudnn ty_cudnnStatus_t ''cudnnGetOpTensorDescriptor'' [Const ty_cudnnOpTensorDescriptor_t, Ptr ty_cudnnOpTensorOp_t, Ptr ty_cudnnDataType_t, Ptr ty_cudnnNanPropagation_t]
       ''cudnnGetOpTensorDescriptor'' ty_cudnnStatus_t [Const ty_cudnnOpTensorDescriptor_t, Ptr ty_cudnnOpTensorOp_t, Ptr ty_cudnnDataType_t, Ptr ty_cudnnNanPropagation_t] ''cudnnGetOpTensorDescriptor'' [0, 1, 2, 3] False,
     Gen cudnn ty_cudnnStatus_t ''cudnnDestroyOpTensorDescriptor'' [ty_cudnnOpTensorDescriptor_t]
       ''cudnnDestroyOpTensorDescriptor'' ty_cudnnStatus_t [ty_cudnnOpTensorDescriptor_t] ''cudnnDestroyOpTensorDescriptor'' [0] False,
     Gen cudnn ty_cudnnStatus_t ''cudnnOpTensor'' [ty_cudnnHandle_t, Const ty_cudnnOpTensorDescriptor_t, Ptr (Const ty_void), Const ty_cudnnTensorDescriptor_t, Ptr (Const ty_void), Ptr (Const ty_void), Const ty_cudnnTensorDescriptor_t, Ptr (Const ty_void), Ptr (Const ty_void), Const ty_cudnnTensorDescriptor_t, Ptr ty_void]
       ''cudnnOpTensor'' ty_cudnnStatus_t [ty_cudnnHandle_t, Const ty_cudnnOpTensorDescriptor_t, Ptr (Const ty_void), Const ty_cudnnTensorDescriptor_t, Ptr (Const ty_void), Ptr (Const ty_void), Const ty_cudnnTensorDescriptor_t, Ptr (Const ty_void), Ptr (Const ty_void), Const ty_cudnnTensorDescriptor_t, Ptr ty_void] ''cudnnOpTensor'' [0, 1, 2, 3, 4, 5, 6, 7, 8, 9, 10] False,
     Gen cudnn ty_cudnnStatus_t ''cudnnCreateReduceTensorDescriptor'' [Ptr ty_cudnnReduceTensorDescriptor_t]
       ''cudnnCreateReduceTensorDescriptor'' ty_cudnnStatus_t [Ptr ty_cudnnReduceTensorDescriptor_t] ''cudnnCreateReduceTensorDescriptor'' [0] False,
     Gen cudnn ty_cudnnStatus_t ''cudnnSetReduceTensorDescriptor'' [ty_cudnnReduceTensorDescriptor_t, ty_cudnnReduceTensorOp_t, ty_cudnnDataType_t, ty_cudnnNanPropagation_t, ty_cudnnReduceTensorIndices_t, ty_cudnnIndicesType_t]
       ''cudnnSetReduceTensorDescriptor'' ty_cudnnStatus_t [ty_cudnnReduceTensorDescriptor_t, ty_cudnnReduceTensorOp_t, ty_cudnnDataType_t, ty_cudnnNanPropagation_t, ty_cudnnReduceTensorIndices_t, ty_cudnnIndicesType_t] ''cudnnSetReduceTensorDescriptor'' [0, 1, 2, 3, 4, 5] False,
     Gen cudnn ty_cudnnStatus_t ''cudnnGetReduceTensorDescriptor'' [Const ty_cudnnReduceTensorDescriptor_t, Ptr ty_cudnnReduceTensorOp_t, Ptr ty_cudnnDataType_t, Ptr ty_cudnnNanPropagation_t, Ptr ty_cudnnReduceTensorIndices_t, Ptr ty_cudnnIndicesType_t]
       ''cudnnGetReduceTensorDescriptor'' ty_cudnnStatus_t [Const ty_cudnnReduceTensorDescriptor_t, Ptr ty_cudnnReduceTensorOp_t, Ptr ty_cudnnDataType_t, Ptr ty_cudnnNanPropagation_t, Ptr ty_cudnnReduceTensorIndices_t, Ptr ty_cudnnIndicesType_t] ''cudnnGetReduceTensorDescriptor'' [0, 1, 2, 3, 4, 5] False,
     Gen cudnn ty_cudnnStatus_t ''cudnnDestroyReduceTensorDescriptor'' [ty_cudnnReduceTensorDescriptor_t]
       ''cudnnDestroyReduceTensorDescriptor'' ty_cudnnStatus_t [ty_cudnnReduceTensorDescriptor_t] ''cudnnDestroyReduceTensorDescriptor'' [0] False,
     Gen cudnn ty_cudnnStatus_t ''cudnnGetReductionIndicesSize'' [ty_cudnnHandle_t, Const ty_cudnnReduceTensorDescriptor_t, Const ty_cudnnTensorDescriptor_t, Const ty_cudnnTensorDescriptor_t, Ptr ty_size_t]
       ''cudnnGetReductionIndicesSize'' ty_cudnnStatus_t [ty_cudnnHandle_t, Const ty_cudnnReduceTensorDescriptor_t, Const ty_cudnnTensorDescriptor_t, Const ty_cudnnTensorDescriptor_t, Ptr ty_size_t] ''cudnnGetReductionIndicesSize'' [0, 1, 2, 3, 4] False,
     Gen cudnn ty_cudnnStatus_t ''cudnnGetReductionWorkspaceSize'' [ty_cudnnHandle_t, Const ty_cudnnReduceTensorDescriptor_t, Const ty_cudnnTensorDescriptor_t, Const ty_cudnnTensorDescriptor_t, Ptr ty_size_t]
       ''cudnnGetReductionWorkspaceSize'' ty_cudnnStatus_t [ty_cudnnHandle_t, Const ty_cudnnReduceTensorDescriptor_t, Const ty_cudnnTensorDescriptor_t, Const ty_cudnnTensorDescriptor_t, Ptr ty_size_t] ''cudnnGetReductionWorkspaceSize'' [0, 1, 2, 3, 4] False,
     Gen cudnn ty_cudnnStatus_t ''cudnnReduceTensor'' [ty_cudnnHandle_t, Const ty_cudnnReduceTensorDescriptor_t, Ptr ty_void, ty_size_t, Ptr ty_void, ty_size_t, Ptr (Const ty_void), Const ty_cudnnTensorDescriptor_t, Ptr (Const ty_void), Ptr (Const ty_void), Const ty_cudnnTensorDescriptor_t, Ptr ty_void]
       ''cudnnReduceTensor'' ty_cudnnStatus_t [ty_cudnnHandle_t, Const ty_cudnnReduceTensorDescriptor_t, Ptr ty_void, ty_size_t, Ptr ty_void, ty_size_t, Ptr (Const ty_void), Const ty_cudnnTensorDescriptor_t, Ptr (Const ty_void), Ptr (Const ty_void), Const ty_cudnnTensorDescriptor_t, Ptr ty_void] ''cudnnReduceTensor'' [0, 1, 2, 3, 4, 5, 6, 7, 8, 9, 10, 11] False,
     Gen cudnn ty_cudnnStatus_t ''cudnnSetTensor'' [ty_cudnnHandle_t, Const ty_cudnnTensorDescriptor_t, Ptr ty_void, Ptr (Const ty_void)]
       ''cudnnSetTensor'' ty_cudnnStatus_t [ty_cudnnHandle_t, Const ty_cudnnTensorDescriptor_t, Ptr ty_void, Ptr (Const ty_void)] ''cudnnSetTensor'' [0, 1, 2, 3] False,
     Gen cudnn ty_cudnnStatus_t ''cudnnScaleTensor'' [ty_cudnnHandle_t, Const ty_cudnnTensorDescriptor_t, Ptr ty_void, Ptr (Const ty_void)]
       ''cudnnScaleTensor'' ty_cudnnStatus_t [ty_cudnnHandle_t, Const ty_cudnnTensorDescriptor_t, Ptr ty_void, Ptr (Const ty_void)] ''cudnnScaleTensor'' [0, 1, 2, 3] False,
     Gen cudnn ty_cudnnStatus_t ''cudnnCreateFilterDescriptor'' [Ptr ty_cudnnFilterDescriptor_t]
       ''cudnnCreateFilterDescriptor'' ty_cudnnStatus_t [Ptr ty_cudnnFilterDescriptor_t] ''cudnnCreateFilterDescriptor'' [0] False]"

definition cudnn_hooks_4 :: "gen_hook list" where
  "cudnn_hooks_4 =
    [Gen cudnn ty_cudnnStatus_t ''cudnnSetFilter4dDescriptor'' [ty_cudnnFilterDescriptor_t, ty_cudnnDataType_t, ty_cudnnTensorFormat_t, ty_int, ty_int, ty_int, ty_int]
       ''cudnnSetFilter4dDescriptor'' ty_cudnnStatus_t [ty_cudnnFilterDescriptor_t, ty_cudnnDataType_t, ty_cudnnTensorFormat_t, ty_int, ty_int, ty_int, ty_int] ''cudnnSetFilter4dDescriptor'' [0, 1, 2, 3, 4, 5, 6] False,
     Gen cudnn ty_cudnnStatus_t ''cudnnGetFilter4dDescriptor'' [Const ty_cudnnFilterDescriptor_t, Ptr ty_cudnnDataType_t, Ptr ty_cudnnTensorFormat_t, Ptr ty_int, Ptr ty_int, Ptr ty_int, Ptr ty_int]
       ''cudnnGetFilter4dDescriptor'' ty_cudnnStatus_t [Const ty_cudnnFilterDescriptor_t, Ptr ty_cudnnDataType_t, Ptr ty_cudnnTensorFormat_t, Ptr ty_int, Ptr ty_int, Ptr ty_int, Ptr ty_int] ''cudnnGetFilter4dDescriptor'' [0, 1, 2, 3, 4, 5, 6] False,
     Gen cudnn ty_cudnnStatus_t ''cudnnSetFilterNdDescriptor'' [ty_cudnnFilterDescriptor_t, ty_cudnnDataType_t, ty_cudnnTensorFormat_t, ty_int, Ptr (Const ty_int)]
       ''cudnnSetFilterNdDescriptor'' ty_cudnnStatus_t [ty_cudnnFilterDescriptor_t, ty_cudnnDataType_t, ty_cudnnTensorFormat_t, ty_int, Ptr (Const ty_int)] ''cudnnSetFilterNdDescriptor'' [0, 1, 2, 3, 4] False,
     Gen cudnn ty_cudnnStatus_t ''cudnnGetFilterNdDescriptor'' [Const ty_cudnnFilterDescriptor_t, ty_int, Ptr ty_cudnnDataType_t, Ptr ty_cudnnTensorFormat_t, Ptr ty_int, Ptr ty_int]
       ''cudnnGetFilterNdDescriptor'' ty_cudnnStatus_t [Const ty_cudnnFilterDescriptor_t, ty_int, Ptr ty_cudnnDataType_t, Ptr ty_cudnnTensorFormat_t, Ptr ty_int, Ptr ty_int] ''cudnnGetFilterNdDescriptor'' [0, 1, 2, 3, 4, 5] False,
     Gen cudnn ty_cudnnStatus_t ''cudnnGetFilterSizeInBytes'' [Const ty_cudnnFilterDescriptor_t, Ptr ty_size_t]
       ''cudnnGetFilterSizeInBytes'' ty_cudnnStatus_t [Const ty_cudnnFilterDescriptor_t, Ptr ty_size_t] ''cudnnGetFilterSizeInBytes'' [0, 1] False,
     Gen cudnn ty_cudnnStatus_t ''cudnnTransformFilter'' [ty_cudnnHandle_t, Const ty_cudnnTensorTransformDescriptor_t, Ptr (Const ty_void), Const ty_cudnnFilterDescriptor_t, Ptr (Const ty_void), Ptr (Const ty_void), Const ty_cudnnFilterDescriptor_t, Ptr ty_void]
       ''cudnnTransformFilter'' ty_cudnnStatus_t [ty_cudnnHandle_t, Const ty_cudnnTensorTransformDescriptor_t, Ptr (Const ty_void), Const ty_cudnnFilterDescriptor_t, Ptr (Const ty_void), Ptr (Const ty_void), Const ty_cudnnFilterDescriptor_t, Ptr ty_void] ''cudnnTransformFilter'' [0, 1, 2, 3, 4, 5, 6, 7] False,
     Gen cudnn ty_cudnnStatus_t ''cudnnDestroyFilterDescriptor'' [ty_cudnnFilterDescriptor_t]
       ''cudnnDestroyFilterDescriptor'' ty_cudnnStatus_t [ty_cudnnFilterDescriptor_t] ''cudnnDestroyFilterDescriptor'' [0] False,
     Gen cudnn ty_cudnnStatus_t ''cudnnReorderFilterAndBias'' [ty_cudnnHandle_t, Const ty_cudnnFilterDescriptor_t, ty_cudnnReorderType_t, Ptr (Const ty_void), Ptr ty_void, ty_int, Ptr (Const ty_void), Ptr ty_void]
       ''cudnnReorderFilterAndBias'' ty_cudnnStatus_t [ty_cudnnHandle_t, Const ty_cudnnFilterDescriptor_t, ty_cudnnReorderType_t, Ptr (Const ty_void), Ptr ty_void, ty_int, Ptr (Const ty_void), Ptr ty_void] ''cudnnReorderFilterAndBias'' [0, 1, 2, 3, 4, 5, 6, 7] False,
     Gen cudnn ty_cudnnStatus_t ''cudnnCreateConvolutionDescriptor'' [Ptr ty_cudnnConvolutionDescriptor_t]
       ''cudnnCreateConvolutionDescriptor'' ty_cudnnStatus_t [Ptr ty_cudnnConvolutionDescriptor_t] ''cudnnCreateConvolutionDescriptor'' [0] False,
     Gen cudnn ty_cudnnStatus_t ''cudnnSetConvolutionMathType'' [ty_cudnnConvolutionDescriptor_t, ty_cudnnMathType_t]
       ''cudnnSetConvolutionMathType'' ty_cudnnStatus_t [ty_cudnnConvolutionDescriptor_t, ty_cudnnMathType_t] ''cudnnSetConvolutionMathType'' [0, 1] False,
     Gen cudnn ty_cudnnStatus_t ''cudnnGetConvolutionMathType'' [ty_cudnnConvolutionDescriptor_t, Ptr ty_cudnnMathType_t]
       ''cudnnGetConvolutionMathType'' ty_cudnnStatus_t [ty_cudnnConvolutionDescriptor_t, Ptr ty_cudnnMathType_t] ''cudnnGetConvolutionMathType'' [0, 1] False,
     Gen cudnn ty_cudnnStatus_t ''cudnnSetConvolutionGroupCount'' [ty_cudnnConvolutionDescriptor_t, ty_int]
       ''cudnnSetConvolutionGroupCount'' ty_cudnnStatus_t [ty_cudnnConvolutionDescriptor_t, ty_int] ''cudnnSetConvolutionGroupCount'' [0, 1] False,
     Gen cudnn ty_cudnnStatus_t ''cudnnGetConvolutionGroupCount'' [ty_cudnnConvolutionDescriptor_t, Ptr ty_int]
       ''cudnnGetConvolutionGroupCount'' ty_cudnnStatus_t [ty_cudnnConvolutionDescriptor_t, Ptr ty_int] ''cudnnGetConvolutionGroupCount'' [0, 1] False,
     Gen cudnn ty_cudnnStatus_t ''cudnnSetConvolutionReorderType'' [ty_cudnnConvolutionDescriptor_t, ty_cudnnReorderType_t]
       ''cudnnSetConvolutionReorderType'' ty_cudnnStatus_t [ty_cudnnConvolutionDescriptor_t, ty_cudnnReorderType_t] ''cudnnSetConvolutionReorderType'' [0, 1] False]"

definition cudnn_hooks_5 :: "gen_hook list" where
  "cudnn_hooks_5 =
    [Gen cudnn ty_cudnnStatus_t ''cudnnGetConvolutionReorderType'' [ty_cudnnConvolutionDescriptor_t, Ptr ty_cudnnReorderType_t]
       ''cudnnGetConvolutionReorderType'' ty_cudnnStatus_t [ty_cudnnConvolutionDescriptor_t, Ptr ty_cudnnReorderType_t] ''cudnnGetConvolutionReorderType'' [0, 1] False,
     Gen cudnn ty_cudnnStatus_t ''cudnnSetConvolution2dDescriptor'' [ty_cudnnConvolutionDescriptor_t, ty_int, ty_int, ty_int, ty_int, ty_int, ty_int, ty_cudnnConvolutionMode_t, ty_cudnnDataType_t]
       ''cudnnSetConvolution2dDescriptor'' ty_cudnnStatus_t [ty_cudnnConvolutionDescriptor_t, ty_int, ty_int, ty_int, ty_int, ty_int, ty_int, ty_cudnnConvolutionMode_t, ty_cudnnDataType_t] ''cudnnSetConvolution2dDescriptor'' [0, 1, 2, 3, 4, 5, 6, 7, 8] False,
     Gen cudnn ty_cudnnStatus_t ''cudnnGetConvolution2dDescriptor'' [Const ty_cudnnConvolutionDescriptor_t, Ptr ty_int, Ptr ty_int, Ptr ty_int, Ptr ty_int, Ptr ty_int, Ptr ty_int, Ptr ty_cudnnConvolutionMode_t, Ptr ty_cudnnDataType_t]
       ''cudnnGetConvolution2dDescriptor'' ty_cudnnStatus_t [Const ty_cudnnConvolutionDescriptor_t, Ptr ty_int, Ptr ty_int, Ptr ty_int, Ptr ty_int, Ptr ty_int, Ptr ty_int, Ptr ty_cudnnConvolutionMode_t, Ptr ty_cudnnDataType_t] ''cudnnGetConvolution2dDescriptor'' [0, 1, 2, 3, 4, 5, 6, 7, 8] False,
     Gen cudnn ty_cudnnStatus_t ''cudnnGetConvolution2dForwardOutputDim'' [Const ty_cudnnConvolutionDescriptor_t, Const ty_cudnnTensorDescriptor_t, Const ty_cudnnFilterDescriptor_t, Ptr ty_int, Ptr ty_int, Ptr ty_int, Ptr ty_int]
       ''cudnnGetConvolution2dForwardOutputDim'' ty_cudnnStatus_t [Const ty_cudnnConvolutionDescriptor_t, Const ty_cudnnTensorDescriptor_t, Const ty_cudnnFilterDescriptor_t, Ptr ty_int, Ptr ty_int, Ptr ty_int, Ptr ty_int] ''cudnnGetConvolution2dForwardOutputDim'' [0, 1, 2, 3, 4, 5, 6] False,
     Gen cudnn ty_cudnnStatus_t ''cudnnSetConvolutionNdDescriptor'' [ty_cudnnConvolutionDescriptor_t, ty_int, Ptr (Const ty_int), Ptr (Const ty_int), Ptr (Const ty_int), ty_cudnnConvolutionMode_t, ty_cudnnDataType_t]
       ''cudnnSetConvolutionNdDescriptor'' ty_cudnnStatus_t [ty_cudnnConvolutionDescriptor_t, ty_int, Ptr (Const ty_int), Ptr (Const ty_int), Ptr (Const ty_int), ty_cudnnConvolutionMode_t, ty_cudnnDataType_t] ''cudnnSetConvolutionNdDescriptor'' [0, 1, 2, 3, 4, 5, 6] False,
     Gen cudnn ty_cudnnStatus_t ''cudnnGetConvolutionNdDescriptor'' [Const ty_cudnnConvolutionDescriptor_t, ty_int, Ptr ty_int, Ptr ty_int, Ptr ty_int, Ptr ty_int, Ptr ty_cudnnConvolutionMode_t, Ptr ty_cudnnDataType_t]
       ''cudnnGetConvolutionNdDescriptor'' ty_cudnnStatus_t [Const ty_cudnnConvolutionDescriptor_t, ty_int, Ptr ty_int, Ptr ty_int, Ptr ty_int, Ptr ty_int, Ptr ty_cudnnConvolutionMode_t, Ptr ty_cudnnDataType_t] ''cudnnGetConvolutionNdDescriptor'' [0, 1, 2, 3, 4, 5, 6, 7] False,
     Gen cudnn ty_cudnnStatus_t ''cudnnGetConvolutionNdForwardOutputDim'' [Const ty_cudnnConvolutionDescriptor_t, Const ty_cudnnTensorDescriptor_t, Const ty_cudnnFilterDescriptor_t, ty_int, Ptr ty_int]
       ''cudnnGetConvolutionNdForwardOutputDim'' ty_cudnnStatus_t [Const ty_cudnnConvolutionDescriptor_t, Const ty_cudnnTensorDescriptor_t, Const ty_cudnnFilterDescriptor_t, ty_int, Ptr ty_int] ''cudnnGetConvolutionNdForwardOutputDim'' [0, 1, 2, 3, 4] False,
     Gen cudnn ty_cudnnStatus_t ''cudnnDestroyConvolutionDescriptor'' [ty_cudnnConvolutionDescriptor_t]
       ''cudnnDestroyConvolutionDescriptor'' ty_cudnnStatus_t [ty_cudnnConvolutionDescriptor_t] ''cudnnDestroyConvolutionDescriptor'' [0] False,
     Gen cudnn ty_cudnnStatus_t ''cudnnGetConvolutionForwardAlgorithmMaxCount'' [ty_cudnnHandle_t, Ptr ty_int]
       ''cudnnGetConvolutionForwardAlgorithmMaxCount'' ty_cudnnStatus_t [ty_cudnnHandle_t, Ptr ty_int] ''cudnnGetConvolutionForwardAlgorithmMaxCount'' [0, 1] False,
     Gen cudnn ty_cudnnStatus_t ''cudnnFindConvolutionForwardAlgorithm'' [ty_cudnnHandle_t, Const ty_cudnnTensorDescriptor_t, Const ty_cudnnFilterDescriptor_t, Const ty_cudnnConvolutionDescriptor_t, Const ty_cudnnTensorDescriptor_t, Const ty_int, Ptr ty_int, Ptr ty_cudnnConvolutionFwdAlgoPerf_t]
       ''cudnnFindConvolutionForwardAlgorithm'' ty_cudnnStatus_t [ty_cudnnHandle_t, Const ty_cudnnTensorDescriptor_t, Const ty_cudnnFilterDescriptor_t, Const ty_cudnnConvolutionDescriptor_t, Const ty_cudnnTensorDescriptor_t, Const ty_int, Ptr ty_int, Ptr ty_cudnnConvolutionFwdAlgoPerf_t] ''cudnnFindConvolutionForwardAlgorithm'' [0, 1, 2, 3, 4, 5, 6, 7] False,
     Gen cudnn ty_cudnnStatus_t ''cudnnFindConvolutionForwardAlgorithmEx'' [ty_cudnnHandle_t, Const ty_cudnnTensorDescriptor_t, Ptr (Const ty_void), Const ty_cudnnFilterDescriptor_t, Ptr (Const ty_void), Const ty_cudnnConvolutionDescriptor_t, Const ty_cudnnTensorDescriptor_t, Ptr ty_void, Const ty_int, Ptr ty_int, Ptr ty_cudnnConvolutionFwdAlgoPerf_t, Ptr ty_void, ty_size_t]
       ''cudnnFindConvolutionForwardAlgorithmEx'' ty_cudnnStatus_t [ty_cudnnHandle_t, Const ty_cudnnTensorDescriptor_t, Ptr (Const ty_void), Const ty_cudnnFilterDescriptor_t, Ptr (Const ty_void), Const ty_cudnnConvolutionDescriptor_t, Const ty_cudnnTensorDescriptor_t, Ptr ty_void, Const ty_int, Ptr ty_int, Ptr ty_cudnnConvolutionFwdAlgoPerf_t, Ptr ty_void, ty_size_t] ''cudnnFindConvolutionForwardAlgorithmEx'' [0, 1, 2, 3, 4, 5, 6, 7, 8, 9, 10, 11, 12] False,
     Gen cudnn ty_cudnnStatus_t ''cudnnGetConvolutionForwardAlgorithm'' [ty_cudnnHandle_t, Const ty_cudnnTensorDescriptor_t, Const ty_cudnnFilterDescriptor_t, Const ty_cudnnConvolutionDescriptor_t, Const ty_cudnnTensorDescriptor_t, ty_cudnnConvolutionFwdPreference_t, ty_size_t, Ptr ty_cudnnConvolutionFwdAlgo_t]
       ''cudnnGetConvolutionForwardAlgorithm'' ty_cudnnStatus_t [ty_cudnnHandle_t, Const ty_cudnnTensorDescriptor_t, Const ty_cudnnFilterDescriptor_t, Const ty_cudnnConvolutionDescriptor_t, Const ty_cudnnTensorDescriptor_t, ty_cudnnConvolutionFwdPreference_t, ty_size_t, Ptr ty_cudnnConvolutionFwdAlgo_t] ''cudnnGetConvolutionForwardAlgorithm'' [0, 1, 2, 3, 4, 5, 6, 7] False]"

definition cudnn_hooks_6 :: "gen_hook list" where
  "cudnn_hooks_6 =
    [Gen cudnn ty_cudnnStatus_t ''cudnnGetConvolutionForwardAlgorithm_v7'' [ty_cudnnHandle_t, Const ty_cudnnTensorDescriptor_t, Const ty_cudnnFilterDescriptor_t, Const ty_cudnnConvolutionDescriptor_t, Const ty_cudnnTensorDescriptor_t, Const ty_int, Ptr ty_int, Ptr ty_cudnnConvolutionFwdAlgoPerf_t]
       ''cudnnGetConvolutionForwardAlgorithm_v7'' ty_cudnnStatus_t [ty_cudnnHandle_t, Const ty_cudnnTensorDescriptor_t, Const ty_cudnnFilterDescriptor_t, Const ty_cudnnConvolutionDescriptor_t, Const ty_cudnnTensorDescriptor_t, Const ty_int, Ptr ty_int, Ptr ty_cudnnConvolutionFwdAlgoPerf_t] ''cudnnGetConvolutionForwardAlgorithm_v7'' [0, 1, 2, 3, 4, 5, 6, 7] False,
     Gen cudnn ty_cudnnStatus_t ''cudnnGetConvolutionForwardWorkspaceSize'' [ty_cudnnHandle_t, Const ty_cudnnTensorDescriptor_t, Const ty_cudnnFilterDescriptor_t, Const ty_cudnnConvolutionDescriptor_t, Const ty_cudnnTensorDescriptor_t, ty_cudnnConvolutionFwdAlgo_t, Ptr ty_size_t]
       ''cudnnGetConvolutionForwardWorkspaceSize'' ty_cudnnStatus_t [ty_cudnnHandle_t, Const ty_cudnnTensorDescriptor_t, Const ty_cudnnFilterDescriptor_t, Const ty_cudnnConvolutionDescriptor_t, Const ty_cudnnTensorDescriptor_t, ty_cudnnConvolutionFwdAlgo_t, Ptr ty_size_t] ''cudnnGetConvolutionForwardWorkspaceSize'' [0, 1, 2, 3, 4, 5, 6] False,
     Gen cudnn ty_cudnnStatus_t ''cudnnConvolutionForward'' [ty_cudnnHandle_t, Ptr (Const ty_void), Const ty_cudnnTensorDescriptor_t, Ptr (Const ty_void), Const ty_cudnnFilterDescriptor_t, Ptr (Const ty_void), Const ty_cudnnConvolutionDescriptor_t, ty_cudnnConvolutionFwdAlgo_t, Ptr ty_void, ty_size_t, Ptr (Const ty_void), Const ty_cudnnTensorDescriptor_t, Ptr ty_void]
       ''cudnnConvolutionForward'' ty_cudnnStatus_t [ty_cudnnHandle_t, Ptr (Const ty_void), Const ty_cudnnTensorDescriptor_t, Ptr (Const ty_void), Const ty_cudnnFilterDescriptor_t, Ptr (Const ty_void), Const ty_cudnnConvolutionDescriptor_t, ty_cudnnConvolutionFwdAlgo_t, Ptr ty_void, ty_size_t, Ptr (Const ty_void), Const ty_cudnnTensorDescriptor_t, Ptr ty_void] ''cudnnConvolutionForward'' [0, 1, 2, 3, 4, 5, 6, 7, 8, 9, 10, 11, 12] True,
     Gen cudnn ty_cudnnStatus_t ''cudnnConvolutionBiasActivationForward'' [ty_cudnnHandle_t, Ptr (Const ty_void), Const ty_cudnnTensorDescriptor_t, Ptr (Const ty_void), Const ty_cudnnFilterDescriptor_t, Ptr (Const ty_void), Const ty_cudnnConvolutionDescriptor_t, ty_cudnnConvolutionFwdAlgo_t, Ptr ty_void, ty_size_t, Ptr (Const ty_void), Const ty_cudnnTensorDescriptor_t, Ptr (Const ty_void), Const ty_cudnnTensorDescriptor_t, Ptr (Const ty_void), Const ty_cudnnActivationDescriptor_t, Const ty_cudnnTensorDescriptor_t, Ptr ty_void]
       ''cudnnConvolutionBiasActivationForward'' ty_cudnnStatus_t [ty_cudnnHandle_t, Ptr (Const ty_void), Const ty_cudnnTensorDescriptor_t, Ptr (Const ty_void), Const ty_cudnnFilterDescriptor_t, Ptr (Const ty_void), Const ty_cudnnConvolutionDescriptor_t, ty_cudnnConvolutionFwdAlgo_t, Ptr ty_void, ty_size_t, Ptr (Const ty_void), Const ty_cudnnTensorDescriptor_t, Ptr (Const ty_void), Const ty_cudnnTensorDescriptor_t, Ptr (Const ty_void), Const ty_cudnnActivationDescriptor_t, Const ty_cudnnTensorDescriptor_t, Ptr ty_void] ''cudnnConvolutionBiasActivationForward'' [0, 1, 2, 3, 4, 5, 6, 7, 8, 9, 10, 11, 12, 13, 14, 15, 16, 17] False,
     Gen cudnn ty_cudnnStatus_t ''cudnnConvolutionBackwardBias'' [ty_cudnnHandle_t, Ptr (Const ty_void), Const ty_cudnnTensorDescriptor_t, Ptr (Const ty_void), Ptr (Const ty_void), Const ty_cudnnTensorDescriptor_t, Ptr ty_void]
       ''cudnnConvolutionBackwardBias'' ty_cudnnStatus_t [ty_cudnnHandle_t, Ptr (Const ty_void), Const ty_cudnnTensorDescriptor_t, Ptr (Const ty_void), Ptr (Const ty_void), Const ty_cudnnTensorDescriptor_t, Ptr ty_void] ''cudnnConvolutionBackwardBias'' [0, 1, 2, 3, 4, 5, 6] False,
     Gen cudnn ty_cudnnStatus_t ''cudnnGetConvolutionBackwardFilterAlgorithmMaxCount'' [ty_cudnnHandle_t, Ptr ty_int]
       ''cudnnGetConvolutionBackwardFilterAlgorithmMaxCount'' ty_cudnnStatus_t [ty_cudnnHandle_t, Ptr ty_int] ''cudnnGetConvolutionBackwardFilterAlgorithmMaxCount'' [0, 1] False,
     Gen cudnn ty_cudnnStatus_t ''cudnnFindConvolutionBackwardFilterAlgorithm'' [ty_cudnnHandle_t, Const ty_cudnnTensorDescriptor_t, Const ty_cudnnTensorDescriptor_t, Const ty_cudnnConvolutionDescriptor_t, Const ty_cudnnFilterDescriptor_t, Const ty_int, Ptr ty_int, Ptr ty_cudnnConvolutionBwdFilterAlgoPerf_t]
       ''cudnnFindConvolutionBackwardFilterAlgorithm'' ty_cudnnStatus_t [ty_cudnnHandle_t, Const ty_cudnnTensorDescriptor_t, Const ty_cudnnTensorDescriptor_t, Const ty_cudnnConvolutionDescriptor_t, Const ty_cudnnFilterDescriptor_t, Const ty_int, Ptr ty_int, Ptr ty_cudnnConvolutionBwdFilterAlgoPerf_t] ''cudnnFindConvolutionBackwardFilterAlgorithm'' [0, 1, 2, 3, 4, 5, 6, 7] False,
     Gen cudnn ty_cudnnStatus_t ''cudnnFindConvolutionBackwardFilterAlgorithmEx'' [ty_cudnnHandle_t, Const ty_cudnnTensorDescriptor_t, Ptr (Const ty_void), Const ty_cudnnTensorDescriptor_t, Ptr (Const ty_void), Const ty_cudnnConvolutionDescriptor_t, Const ty_cudnnFilterDescriptor_t, Ptr ty_void, Const ty_int, Ptr ty_int, Ptr ty_cudnnConvolutionBwdFilterAlgoPerf_t, Ptr ty_void, ty_size_t]
       ''cudnnFindConvolutionBackwardFilterAlgorithmEx'' ty_cudnnStatus_t [ty_cudnnHandle_t, Const ty_cudnnTensorDescriptor_t, Ptr (Const ty_void), Const ty_cudnnTensorDescriptor_t, Ptr (Const ty_void), Const ty_cudnnConvolutionDescriptor_t, Const ty_cudnnFilterDescriptor_t, Ptr ty_void, Const ty_int, Ptr ty_int, Ptr ty_cudnnConvolutionBwdFilterAlgoPerf_t, Ptr ty_void, ty_size_t] ''cudnnFindConvolutionBackwardFilterAlgorithmEx'' [0, 1, 2, 3, 4, 5, 6, 7, 8, 9, 10, 11, 12] False,
     Gen cudnn ty_cudnnStatus_t ''cudnnGetConvolutionBackwardFilterAlgorithm'' [ty_cudnnHandle_t, Const ty_cudnnTensorDescriptor_t, Const ty_cudnnTensorDescriptor_t, Const ty_cudnnConvolutionDescriptor_t, Const ty_cudnnFilterDescriptor_t, ty_cudnnConvolutionBwdFilterPreference_t, ty_size_t, Ptr ty_cudnnConvolutionBwdFilterAlgo_t]
       ''cudnnGetConvolutionBackwardFilterAlgorithm'' ty_cudnnStatus_t [ty_cudnnHandle_t, Const ty_cudnnTensorDescriptor_t, Const ty_cudnnTensorDescriptor_t, Const ty_cudnnConvolutionDescriptor_t, Const ty_cudnnFilterDescriptor_t, ty_cudnnConvolutionBwdFilterPreference_t, ty_size_t, Ptr ty_cudnnConvolutionBwdFilterAlgo_t] ''cudnnGetConvolutionBackwardFilterAlgorithm'' [0, 1, 2, 3, 4, 5, 6, 7] False,
     Gen cudnn ty_cudnnStatus_t ''cudnnGetConvolutionBackwardFilterAlgorithm_v7'' [ty_cudnnHandle_t, Const ty_cudnnTensorDescriptor_t, Const ty_cudnnTensorDescriptor_t, Const ty_cudnnConvolutionDescriptor_t, Const ty_cudnnFilterDescriptor_t, Const ty_int, Ptr ty_int, Ptr ty_cudnnConvolutionBwdFilterAlgoPerf_t]
       ''cudnnGetConvolutionBackwardFilterAlgorithm_v7'' ty_cudnnStatus_t [ty_cudnnHandle_t, Const ty_cudnnTensorDescriptor_t, Const ty_cudnnTensorDescriptor_t, Const ty_cudnnConvolutionDescriptor_t, Const ty_cudnnFilterDescriptor_t, Const ty_int, Ptr ty_int, Ptr ty_cudnnConvolutionBwdFilterAlgoPerf_t] ''cudnnGetConvolutionBackwardFilterAlgorithm_v7'' [0, 1, 2, 3, 4, 5, 6, 7] False]"

definition cudnn_hooks_7 :: "gen_hook list" where
  "cudnn_hooks_7 =
    [Gen cudnn ty_cudnnStatus_t ''cudnnGetConvolutionBackwardFilterWorkspaceSize'' [ty_cudnnHandle_t, Const ty_cudnnTensorDescriptor_t, Const ty_cudnnTensorDescriptor_t, Const ty_cudnnConvolutionDescriptor_t, Const ty_cudnnFilterDescriptor_t, ty_cudnnConvolutionBwdFilterAlgo_t, Ptr ty_size_t]
       ''cudnnGetConvolutionBackwardFilterWorkspaceSize'' ty_cudnnStatus_t [ty_cudnnHandle_t, Const ty_cudnnTensorDescriptor_t, Const ty_cudnnTensorDescriptor_t, Const ty_cudnnConvolutionDescriptor_t, Const ty_cudnnFilterDescriptor_t, ty_cudnnConvolutionBwdFilterAlgo_t, Ptr ty_size_t] ''cudnnGetConvolutionBackwardFilterWorkspaceSize'' [0, 1, 2, 3, 4, 5, 6] False,
     Gen cudnn ty_cudnnStatus_t ''cudnnConvolutionBackwardFilter'' [ty_cudnnHandle_t, Ptr (Const ty_void), Const ty_cudnnTensorDescriptor_t, Ptr (Const ty_void), Const ty_cudnnTensorDescriptor_t, Ptr (Const ty_void), Const ty_cudnnConvolutionDescriptor_t, ty_cudnnConvolutionBwdFilterAlgo_t, Ptr ty_void, ty_size_t, Ptr (Const ty_void), Const ty_cudnnFilterDescriptor_t, Ptr ty_void]
       ''cudnnConvolutionBackwardFilter'' ty_cudnnStatus_t [ty_cudnnHandle_t, Ptr (Const ty_void), Const ty_cudnnTensorDescriptor_t, Ptr (Const ty_void), Const ty_cudnnTensorDescriptor_t, Ptr (Const ty_void), Const ty_cudnnConvolutionDescriptor_t, ty_cudnnConvolutionBwdFilterAlgo_t, Ptr ty_void, ty_size_t, Ptr (Const ty_void), Const ty_cudnnFilterDescriptor_t, Ptr ty_void] ''cudnnConvolutionBackwardFilter'' [0, 1, 2, 3, 4, 5, 6, 7, 8, 9, 10, 11, 12] True,
     Gen cudnn ty_cudnnStatus_t ''cudnnGetConvolutionBackwardDataAlgorithmMaxCount'' [ty_cudnnHandle_t, Ptr ty_int]
       ''cudnnGetConvolutionBackwardDataAlgorithmMaxCount'' ty_cudnnStatus_t [ty_cudnnHandle_t, Ptr ty_int] ''cudnnGetConvolutionBackwardDataAlgorithmMaxCount'' [0, 1] False,
     Gen cudnn ty_cudnnStatus_t ''cudnnFindConvolutionBackwardDataAlgorithm'' [ty_cudnnHandle_t, Const ty_cudnnFilterDescriptor_t, Const ty_cudnnTensorDescriptor_t, Const ty_cudnnConvolutionDescriptor_t, Const ty_cudnnTensorDescriptor_t, Const ty_int, Ptr ty_int, Ptr ty_cudnnConvolutionBwdDataAlgoPerf_t]
       ''cudnnFindConvolutionBackwardDataAlgorithm'' ty_cudnnStatus_t [ty_cudnnHandle_t, Const ty_cudnnFilterDescriptor_t, Const ty_cudnnTensorDescriptor_t, Const ty_cudnnConvolutionDescriptor_t, Const ty_cudnnTensorDescriptor_t, Const ty_int, Ptr ty_int, Ptr ty_cudnnConvolutionBwdDataAlgoPerf_t] ''cudnnFindConvolutionBackwardDataAlgorithm'' [0, 1, 2, 3, 4, 5, 6, 7] False,
     Gen cudnn ty_cudnnStatus_t ''cudnnFindConvolutionBackwardDataAlgorithmEx'' [ty_cudnnHandle_t, Const ty_cudnnFilterDescriptor_t, Ptr (Const ty_void), Const ty_cudnnTensorDescriptor_t, Ptr (Const ty_void), Const ty_cudnnConvolutionDescriptor_t, Const ty_cudnnTensorDescriptor_t, Ptr ty_void, Const ty_int, Ptr ty_int, Ptr ty_cudnnConvolutionBwdDataAlgoPerf_t, Ptr ty_void, ty_size_t]
       ''cudnnFindConvolutionBackwardDataAlgorithmEx'' ty_cudnnStatus_t [ty_cudnnHandle_t, Const ty_cudnnFilterDescriptor_t, Ptr (Const ty_void), Const ty_cudnnTensorDescriptor_t, Ptr (Const ty_void), Const ty_cudnnConvolutionDescriptor_t, Const ty_cudnnTensorDescriptor_t, Ptr ty_void, Const ty_int, Ptr ty_int, Ptr ty_cudnnConvolutionBwdDataAlgoPerf_t, Ptr ty_void, ty_size_t] ''cudnnFindConvolutionBackwardDataAlgorithmEx'' [0, 1, 2, 3, 4, 5, 6, 7, 8, 9, 10, 11, 12] False,
     Gen cudnn ty_cudnnStatus_t ''cudnnGetConvolutionBackwardDataAlgorithm'' [ty_cudnnHandle_t, Const ty_cudnnFilterDescriptor_t, Const ty_cudnnTensorDescriptor_t, Const ty_cudnnConvolutionDescriptor_t, Const ty_cudnnTensorDescriptor_t, ty_cudnnConvolutionBwdDataPreference_t, ty_size_t, Ptr ty_cudnnConvolutionBwdDataAlgo_t]
       ''cudnnGetConvolutionBackwardDataAlgorithm'' ty_cudnnStatus_t [ty_cudnnHandle_t, Const ty_cudnnFilterDescriptor_t, Const ty_cudnnTensorDescriptor_t, Const ty_cudnnConvolutionDescriptor_t, Const ty_cudnnTensorDescriptor_t, ty_cudnnConvolutionBwdDataPreference_t, ty_size_t, Ptr ty_cudnnConvolutionBwdDataAlgo_t] ''cudnnGetConvolutionBackwardDataAlgorithm'' [0, 1, 2, 3, 4, 5, 6, 7] False,
     Gen cudnn ty_cudnnStatus_t ''cudnnGetConvolutionBackwardDataAlgorithm_v7'' [ty_cudnnHandle_t, Const ty_cudnnFilterDescriptor_t, Const ty_cudnnTensorDescriptor_t, Const ty_cudnnConvolutionDescriptor_t, Const ty_cudnnTensorDescriptor_t, Const ty_int, Ptr ty_int, Ptr ty_cudnnConvolutionBwdDataAlgoPerf_t]
       ''cudnnGetConvolutionBackwardDataAlgorithm_v7'' ty_cudnnStatus_t [ty_cudnnHandle_t, Const ty_cudnnFilterDescriptor_t, Const ty_cudnnTensorDescriptor_t, Const ty_cudnnConvolutionDescriptor_t, Const ty_cudnnTensorDescriptor_t, Const ty_int, Ptr ty_int, Ptr ty_cudnnConvolutionBwdDataAlgoPerf_t] ''cudnnGetConvolutionBackwardDataAlgorithm_v7'' [0, 1, 2, 3, 4, 5, 6, 7] False,
     Gen cudnn ty_cudnnStatus_t ''cudnnGetConvolutionBackwardDataWorkspaceSize'' [ty_cudnnHandle_t, Const ty_cudnnFilterDescriptor_t, Const ty_cudnnTensorDescriptor_t, Const ty_cudnnConvolutionDescriptor_t, Const ty_cudnnTensorDescriptor_t, ty_cudnnConvolutionBwdDataAlgo_t, Ptr ty_size_t]
       ''cudnnGetConvolutionBackwardDataWorkspaceSize'' ty_cudnnStatus_t [ty_cudnnHandle_t, Const ty_cudnnFilterDescriptor_t, Const ty_cudnnTensorDescriptor_t, Const ty_cudnnConvolutionDescriptor_t, Const ty_cudnnTensorDescriptor_t, ty_cudnnConvolutionBwdDataAlgo_t, Ptr ty_size_t] ''cudnnGetConvolutionBackwardDataWorkspaceSize'' [0, 1, 2, 3, 4, 5, 6] False,
     Gen cudnn ty_cudnnStatus_t ''cudnnConvolutionBackwardData'' [ty_cudnnHandle_t, Ptr (Const ty_void), Const ty_cudnnFilterDescriptor_t, Ptr (Const ty_void), Const ty_cudnnTensorDescriptor_t, Ptr (Const ty_void), Const ty_cudnnConvolutionDescriptor_t, ty_cudnnConvolutionBwdDataAlgo_t, Ptr ty_void, ty_size_t, Ptr (Const ty_void), Const ty_cudnnTensorDescriptor_t, Ptr ty_void]
       ''cudnnConvolutionBackwardData'' ty_cudnnStatus_t [ty_cudnnHandle_t, Ptr (Const ty_void), Const ty_cudnnFilterDescriptor_t, Ptr (Const ty_void), Const ty_cudnnTensorDescriptor_t, Ptr (Const ty_void), Const ty_cudnnConvolutionDescriptor_t, ty_cudnnConvolutionBwdDataAlgo_t, Ptr ty_void, ty_size_t, Ptr (Const ty_void), Const ty_cudnnTensorDescriptor_t, Ptr ty_void] ''cudnnConvolutionBackwardData'' [0, 1, 2, 3, 4, 5, 6, 7, 8, 9, 10, 11, 12] True,
     Gen cudnn ty_cudnnStatus_t ''cudnnIm2Col'' [ty_cudnnHandle_t, Const ty_cudnnTensorDescriptor_t, Ptr (Const ty_void), Const ty_cudnnFilterDescriptor_t, Const ty_cudnnConvolutionDescriptor_t, Ptr ty_void]
       ''cudnnIm2Col'' ty_cudnnStatus_t [ty_cudnnHandle_t, Const ty_cudnnTensorDescriptor_t, Ptr (Const ty_void), Const ty_cudnnFilterDescriptor_t, Const ty_cudnnConvolutionDescriptor_t, Ptr ty_void] ''cudnnIm2Col'' [0, 1, 2, 3, 4, 5] False]"

definition cudnn_hooks_8 :: "gen_hook list" where
  "cudnn_hooks_8 =
    [Gen cudnn ty_cudnnStatus_t ''cudnnSoftmaxForward'' [ty_cudnnHandle_t, ty_cudnnSoftmaxAlgorithm_t, ty_cudnnSoftmaxMode_t, Ptr (Const ty_void), Const ty_cudnnTensorDescriptor_t, Ptr (Const ty_void), Ptr (Const ty_void), Const ty_cudnnTensorDescriptor_t, Ptr ty_void]
       ''cudnnSoftmaxForward'' ty_cudnnStatus_t [ty_cudnnHandle_t, ty_cudnnSoftmaxAlgorithm_t, ty_cudnnSoftmaxMode_t, Ptr (Const ty_void), Const ty_cudnnTensorDescriptor_t, Ptr (Const ty_void), Ptr (Const ty_void), Const ty_cudnnTensorDescriptor_t, Ptr ty_void] ''cudnnSoftmaxForward'' [0, 1, 2, 3, 4, 5, 6, 7, 8] False,
     Gen cudnn ty_cudnnStatus_t ''cudnnSoftmaxBackward'' [ty_cudnnHandle_t, ty_cudnnSoftmaxAlgorithm_t, ty_cudnnSoftmaxMode_t, Ptr (Const ty_void), Const ty_cudnnTensorDescriptor_t, Ptr (Const ty_void), Const ty_cudnnTensorDescriptor_t, Ptr (Const ty_void), Ptr (Const ty_void), Const ty_cudnnTensorDescriptor_t, Ptr ty_void]
       ''cudnnSoftmaxBackward'' ty_cudnnStatus_t [ty_cudnnHandle_t, ty_cudnnSoftmaxAlgorithm_t, ty_cudnnSoftmaxMode_t, Ptr (Const ty_void), Const ty_cudnnTensorDescriptor_t, Ptr (Const ty_void), Const ty_cudnnTensorDescriptor_t, Ptr (Const ty_void), Ptr (Const ty_void), Const ty_cudnnTensorDescriptor_t, Ptr ty_void] ''cudnnSoftmaxBackward'' [0, 1, 2, 3, 4, 5, 6, 7, 8, 9, 10] False,
     Gen cudnn ty_cudnnStatus_t ''cudnnCreatePoolingDescriptor'' [Ptr ty_cudnnPoolingDescriptor_t]
       ''cudnnCreatePoolingDescriptor'' ty_cudnnStatus_t [Ptr ty_cudnnPoolingDescriptor_t] ''cudnnCreatePoolingDescriptor'' [0] False,
     Gen cudnn ty_cudnnStatus_t ''cudnnSetPooling2dDescriptor'' [ty_cudnnPoolingDescriptor_t, ty_cudnnPoolingMode_t, ty_cudnnNanPropagation_t, ty_int, ty_int, ty_int, ty_int, ty_int, ty_int]
       ''cudnnSetPooling2dDescriptor'' ty_cudnnStatus_t [ty_cudnnPoolingDescriptor_t, ty_cudnnPoolingMode_t, ty_cudnnNanPropagation_t, ty_int, ty_int, ty_int, ty_int, ty_int, ty_int] ''cudnnSetPooling2dDescriptor'' [0, 1, 2, 3, 4, 5, 6, 7, 8] False,
     Gen cudnn ty_cudnnStatus_t ''cudnnGetPooling2dDescriptor'' [Const ty_cudnnPoolingDescriptor_t, Ptr ty_cudnnPoolingMode_t, Ptr ty_cudnnNanPropagation_t, Ptr ty_int, Ptr ty_int, Ptr ty_int, Ptr ty_int, Ptr ty_int, Ptr ty_int]
       ''cudnnGetPooling2dDescriptor'' ty_cudnnStatus_t [Const ty_cudnnPoolingDescriptor_t, Ptr ty_cudnnPoolingMode_t, Ptr ty_cudnnNanPropagation_t, Ptr ty_int, Ptr ty_int, Ptr ty_int, Ptr ty_int, Ptr ty_int, Ptr ty_int] ''cudnnGetPooling2dDescriptor'' [0, 1, 2, 3, 4, 5, 6, 7, 8] False,
     Gen cudnn ty_cudnnStatus_t ''cudnnSetPoolingNdDescriptor'' [ty_cudnnPoolingDescriptor_t, Const ty_cudnnPoolingMode_t, Const ty_cudnnNanPropagation_t, ty_int, Ptr (Const ty_int), Ptr (Const ty_int), Ptr (Const ty_int)]
       ''cudnnSetPoolingNdDescriptor'' ty_cudnnStatus_t [ty_cudnnPoolingDescriptor_t, Const ty_cudnnPoolingMode_t, Const ty_cudnnNanPropagation_t, ty_int, Ptr (Const ty_int), Ptr (Const ty_int), Ptr (Const ty_int)] ''cudnnSetPoolingNdDescriptor'' [0, 1, 2, 3, 4, 5, 6] False,
     Gen cudnn ty_cudnnStatus_t ''cudnnGetPoolingNdDescriptor'' [Const ty_cudnnPoolingDescriptor_t, ty_int, Ptr ty_cudnnPoolingMode_t, Ptr ty_cudnnNanPropagation_t, Ptr ty_int, Ptr ty_int, Ptr ty_int, Ptr ty_int]
       ''cudnnGetPoolingNdDescriptor'' ty_cudnnStatus_t [Const ty_cudnnPoolingDescriptor_t, ty_int, Ptr ty_cudnnPoolingMode_t, Ptr ty_cudnnNanPropagation_t, Ptr ty_int, Ptr ty_int, Ptr ty_int, Ptr ty_int] ''cudnnGetPoolingNdDescriptor'' [0, 1, 2, 3, 4, 5, 6, 7] False,
     Gen cudnn ty_cudnnStatus_t ''cudnnGetPoolingNdForwardOutputDim'' [Const ty_cudnnPoolingDescriptor_t, Const ty_cudnnTensorDescriptor_t, ty_int, Ptr ty_int]
       ''cudnnGetPoolingNdForwardOutputDim'' ty_cudnnStatus_t [Const ty_cudnnPoolingDescriptor_t, Const ty_cudnnTensorDescriptor_t, ty_int, Ptr ty_int] ''cudnnGetPoolingNdForwardOutputDim'' [0, 1, 2, 3] False,
     Gen cudnn ty_cudnnStatus_t ''cudnnGetPooling2dForwardOutputDim'' [Const ty_cudnnPoolingDescriptor_t, Const ty_cudnnTensorDescriptor_t, Ptr ty_int, Ptr ty_int, Ptr ty_int, Ptr ty_int]
       ''cudnnGetPooling2dForwardOutputDim'' ty_cudnnStatus_t [Const ty_cudnnPoolingDescriptor_t, Const ty_cudnnTensorDescriptor_t, Ptr ty_int, Ptr ty_int, Ptr ty_int, Ptr ty_int] ''cudnnGetPooling2dForwardOutputDim'' [0, 1, 2, 3, 4, 5] False,
     Gen cudnn ty_cudnnStatus_t ''cudnnDestroyPoolingDescriptor'' [ty_cudnnPoolingDescriptor_t]
       ''cudnnDestroyPoolingDescriptor'' ty_cudnnStatus_t [ty_cudnnPoolingDescriptor_t] ''cudnnDestroyPoolingDescriptor'' [0] False,
     Gen cudnn ty_cudnnStatus_t ''cudnnPoolingForward'' [ty_cudnnHandle_t, Const ty_cudnnPoolingDescriptor_t, Ptr (Const ty_void), Const ty_cudnnTensorDescriptor_t, Ptr (Const ty_void), Ptr (Const ty_void), Const ty_cudnnTensorDescriptor_t, Ptr ty_void]
       ''cudnnPoolingForward'' ty_cudnnStatus_t [ty_cudnnHandle_t, Const ty_cudnnPoolingDescriptor_t, Ptr (Const ty_void), Const ty_cudnnTensorDescriptor_t, Ptr (Const ty_void), Ptr (Const ty_void), Const ty_cudnnTensorDescriptor_t, Ptr ty_void] ''cudnnPoolingForward'' [0, 1, 2, 3, 4, 5, 6, 7] False]"

definition cudnn_hooks_9 :: "gen_hook list" where
  "cudnn_hooks_9 =
    [Gen cudnn ty_cudnnStatus_t ''cudnnPoolingBackward'' [ty_cudnnHandle_t, Const ty_cudnnPoolingDescriptor_t, Ptr (Const ty_void), Const ty_cudnnTensorDescriptor_t, Ptr (Const ty_void), Const ty_cudnnTensorDescriptor_t, Ptr (Const ty_void), Const ty_cudnnTensorDescriptor_t, Ptr (Const ty_void), Ptr (Const ty_void), Const ty_cudnnTensorDescriptor_t, Ptr ty_void]
       ''cudnnPoolingBackward'' ty_cudnnStatus_t [ty_cudnnHandle_t, Const ty_cudnnPoolingDescriptor_t, Ptr (Const ty_void), Const ty_cudnnTensorDescriptor_t, Ptr (Const ty_void), Const ty_cudnnTensorDescriptor_t, Ptr (Const ty_void), Const ty_cudnnTensorDescriptor_t, Ptr (Const ty_void), Ptr (Const ty_void), Const ty_cudnnTensorDescriptor_t, Ptr ty_void] ''cudnnPoolingBackward'' [0, 1, 2, 3, 4, 5, 6, 7, 8, 9, 10, 11] False,
     Gen cudnn ty_cudnnStatus_t ''cudnnCreateActivationDescriptor'' [Ptr ty_cudnnActivationDescriptor_t]
       ''cudnnCreateActivationDescriptor'' ty_cudnnStatus_t [Ptr ty_cudnnActivationDescriptor_t] ''cudnnCreateActivationDescriptor'' [0] False,
     Gen cudnn ty_cudnnStatus_t ''cudnnSetActivationDescriptor'' [ty_cudnnActivationDescriptor_t, ty_cudnnActivationMode_t, ty_cudnnNanPropagation_t, ty_double]
       ''cudnnSetActivationDescriptor'' ty_cudnnStatus_t [ty_cudnnActivationDescriptor_t, ty_cudnnActivationMode_t, ty_cudnnNanPropagation_t, ty_double] ''cudnnSetActivationDescriptor'' [0, 1, 2, 3] False,
     Gen cudnn ty_cudnnStatus_t ''cudnnGetActivationDescriptor'' [Const ty_cudnnActivationDescriptor_t, Ptr ty_cudnnActivationMode_t, Ptr ty_cudnnNanPropagation_t, Ptr ty_double]
       ''cudnnGetActivationDescriptor'' ty_cudnnStatus_t [Const ty_cudnnActivationDescriptor_t, Ptr ty_cudnnActivationMode_t, Ptr ty_cudnnNanPropagation_t, Ptr ty_double] ''cudnnGetActivationDescriptor'' [0, 1, 2, 3] False,
     Gen cudnn ty_cudnnStatus_t ''cudnnDestroyActivationDescriptor'' [ty_cudnnActivationDescriptor_t]
       ''cudnnDestroyActivationDescriptor'' ty_cudnnStatus_t [ty_cudnnActivationDescriptor_t] ''cudnnDestroyActivationDescriptor'' [0] False,
     Gen cudnn ty_cudnnStatus_t ''cudnnActivationForward'' [ty_cudnnHandle_t, ty_cudnnActivationDescriptor_t, Ptr (Const ty_void), Const ty_cudnnTensorDescriptor_t, Ptr (Const ty_void), Ptr (Const ty_void), Const ty_cudnnTensorDescriptor_t, Ptr ty_void]
       ''cudnnActivationForward'' ty_cudnnStatus_t [ty_cudnnHandle_t, ty_cudnnActivationDescriptor_t, Ptr (Const ty_void), Const ty_cudnnTensorDescriptor_t, Ptr (Const ty_void), Ptr (Const ty_void), Const ty_cudnnTensorDescriptor_t, Ptr ty_void] ''cudnnActivationForward'' [0, 1, 2, 3, 4, 5, 6, 7] False,
     Gen cudnn ty_cudnnStatus_t ''cudnnActivationBackward'' [ty_cudnnHandle_t, ty_cudnnActivationDescriptor_t, Ptr (Const ty_void), Const ty_cudnnTensorDescriptor_t, Ptr (Const ty_void), Const ty_cudnnTensorDescriptor_t, Ptr (Const ty_void), Const ty_cudnnTensorDescriptor_t, Ptr (Const ty_void), Ptr (Const ty_void), Const ty_cudnnTensorDescriptor_t, Ptr ty_void]
       ''cudnnActivationBackward'' ty_cudnnStatus_t [ty_cudnnHandle_t, ty_cudnnActivationDescriptor_t, Ptr (Const ty_void), Const ty_cudnnTensorDescriptor_t, Ptr (Const ty_void), Const ty_cudnnTensorDescriptor_t, Ptr (Const ty_void), Const ty_cudnnTensorDescriptor_t, Ptr (Const ty_void), Ptr (Const ty_void), Const ty_cudnnTensorDescriptor_t, Ptr ty_void] ''cudnnActivationBackward'' [0, 1, 2, 3, 4, 5, 6, 7, 8, 9, 10, 11] False,
     Gen cudnn ty_cudnnStatus_t ''cudnnCreateLRNDescriptor'' [Ptr ty_cudnnLRNDescriptor_t]
       ''cudnnCreateLRNDescriptor'' ty_cudnnStatus_t [Ptr ty_cudnnLRNDescriptor_t] ''cudnnCreateLRNDescriptor'' [0] False,
     Gen cudnn ty_cudnnStatus_t ''cudnnSetLRNDescriptor'' [ty_cudnnLRNDescriptor_t, ty_unsigned, ty_double, ty_double, ty_double]
       ''cudnnSetLRNDescriptor'' ty_cudnnStatus_t [ty_cudnnLRNDescriptor_t, ty_unsigned, ty_double, ty_double, ty_double] ''cudnnSetLRNDescriptor'' [0, 1, 2, 3, 4] False,
     Gen cudnn ty_cudnnStatus_t ''cudnnGetLRNDescriptor'' [ty_cudnnLRNDescriptor_t, Ptr ty_unsigned, Ptr ty_double, Ptr ty_double, Ptr ty_double]
       ''cudnnGetLRNDescriptor'' ty_cudnnStatus_t [ty_cudnnLRNDescriptor_t, Ptr ty_unsigned, Ptr ty_double, Ptr ty_double, Ptr ty_double] ''cudnnGetLRNDescriptor'' [0, 1, 2, 3, 4] False,
     Gen cudnn ty_cudnnStatus_t ''cudnnDestroyLRNDescriptor'' [ty_cudnnLRNDescriptor_t]
       ''cudnnDestroyLRNDescriptor'' ty_cudnnStatus_t [ty_cudnnLRNDescriptor_t] ''cudnnDestroyLRNDescriptor'' [0] False,
     Gen cudnn ty_cudnnStatus_t ''cudnnLRNCrossChannelForward'' [ty_cudnnHandle_t, ty_cudnnLRNDescriptor_t, ty_cudnnLRNMode_t, Ptr (Const ty_void), Const ty_cudnnTensorDescriptor_t, Ptr (Const ty_void), Ptr (Const ty_void), Const ty_cudnnTensorDescriptor_t, Ptr ty_void]
       ''cudnnLRNCrossChannelForward'' ty_cudnnStatus_t [ty_cudnnHandle_t, ty_cudnnLRNDescriptor_t, ty_cudnnLRNMode_t, Ptr (Const ty_void), Const ty_cudnnTensorDescriptor_t, Ptr (Const ty_void), Ptr (Const ty_void), Const ty_cudnnTensorDescriptor_t, Ptr ty_void] ''cudnnLRNCrossChannelForward'' [0, 1, 2, 3, 4, 5, 6, 7, 8] False,
     Gen cudnn ty_cudnnStatus_t ''cudnnLRNCrossChannelBackward'' [ty_cudnnHandle_t, ty_cudnnLRNDescriptor_t, ty_cudnnLRNMode_t, Ptr (Const ty_void), Const ty_cudnnTensorDescriptor_t, Ptr (Const ty_void), Const ty_cudnnTensorDescriptor_t, Ptr (Const ty_void), Const ty_cudnnTensorDescriptor_t, Ptr (Const ty_void), Ptr (Const ty_void), Const ty_cudnnTensorDescriptor_t, Ptr ty_void]
       ''cudnnLRNCrossChannelBackward'' ty_cudnnStatus_t [ty_cudnnHandle_t, ty_cudnnLRNDescriptor_t, ty_cudnnLRNMode_t, Ptr (Const ty_void), Const ty_cudnnTensorDescriptor_t, Ptr (Const ty_void), Const ty_cudnnTensorDescriptor_t, Ptr (Const ty_void), Const ty_cudnnTensorDescriptor_t, Ptr (Const ty_void), Ptr (Const ty_void), Const ty_cudnnTensorDescriptor_t, Ptr ty_void] ''cudnnLRNCrossChannelBackward'' [0, 1, 2, 3, 4, 5, 6, 7, 8, 9, 10, 11, 12] False]"

definition cudnn_hooks_10 :: "gen_hook list" where
  "cudnn_hooks_10 =
    [Gen cudnn ty_cudnnStatus_t ''cudnnDivisiveNormalizationForward'' [ty_cudnnHandle_t, ty_cudnnLRNDescriptor_t, ty_cudnnDivNormMode_t, Ptr (Const ty_void), Const ty_cudnnTensorDescriptor_t, Ptr (Const ty_void), Ptr (Const ty_void), Ptr ty_void, Ptr ty_void, Ptr (Const ty_void), Const ty_cudnnTensorDescriptor_t, Ptr ty_void]
       ''cudnnDivisiveNormalizationForward'' ty_cudnnStatus_t [ty_cudnnHandle_t, ty_cudnnLRNDescriptor_t, ty_cudnnDivNormMode_t, Ptr (Const ty_void), Const ty_cudnnTensorDescriptor_t, Ptr (Const ty_void), Ptr (Const ty_void), Ptr ty_void, Ptr ty_void, Ptr (Const ty_void), Const ty_cudnnTensorDescriptor_t, Ptr ty_void] ''cudnnDivisiveNormalizationForward'' [0, 1, 2, 3, 4, 5, 6, 7, 8, 9, 10, 11] False,
     Gen cudnn ty_cudnnStatus_t ''cudnnDivisiveNormalizationBackward'' [ty_cudnnHandle_t, ty_cudnnLRNDescriptor_t, ty_cudnnDivNormMode_t, Ptr (Const ty_void), Const ty_cudnnTensorDescriptor_t, Ptr (Const ty_void), Ptr (Const ty_void), Ptr (Const ty_void), Ptr ty_void, Ptr ty_void, Ptr (Const ty_void), Const ty_cudnnTensorDescriptor_t, Ptr ty_void, Ptr ty_void]
       ''cudnnDivisiveNormalizationBackward'' ty_cudnnStatus_t [ty_cudnnHandle_t, ty_cudnnLRNDescriptor_t, ty_cudnnDivNormMode_t, Ptr (Const ty_void), Const ty_cudnnTensorDescriptor_t, Ptr (Const ty_void), Ptr (Const ty_void), Ptr (Const ty_void), Ptr ty_void, Ptr ty_void, Ptr (Const ty_void), Const ty_cudnnTensorDescriptor_t, Ptr ty_void, Ptr ty_void] ''cudnnDivisiveNormalizationBackward'' [0, 1, 2, 3, 4, 5, 6, 7, 8, 9, 10, 11, 12, 13] False,
     Gen cudnn ty_cudnnStatus_t ''cudnnDeriveBNTensorDescriptor'' [ty_cudnnTensorDescriptor_t, Const ty_cudnnTensorDescriptor_t, ty_cudnnBatchNormMode_t]
       ''cudnnDeriveBNTensorDescriptor'' ty_cudnnStatus_t [ty_cudnnTensorDescriptor_t, Const ty_cudnnTensorDescriptor_t, ty_cudnnBatchNormMode_t] ''cudnnDeriveBNTensorDescriptor'' [0, 1, 2] False,
     Gen cudnn ty_cudnnStatus_t ''cudnnGetBatchNormalizationForwardTrainingExWorkspaceSize'' [ty_cudnnHandle_t, ty_cudnnBatchNormMode_t, ty_cudnnBatchNormOps_t, Const ty_cudnnTensorDescriptor_t, Const ty_cudnnTensorDescriptor_t, Const ty_cudnnTensorDescriptor_t, Const ty_cudnnTensorDescriptor_t, Const ty_cudnnActivationDescriptor_t, Ptr ty_size_t]
       ''cudnnGetBatchNormalizationForwardTrainingExWorkspaceSize'' ty_cudnnStatus_t [ty_cudnnHandle_t, ty_cudnnBatchNormMode_t, ty_cudnnBatchNormOps_t, Const ty_cudnnTensorDescriptor_t, Const ty_cudnnTensorDescriptor_t, Const ty_cudnnTensorDescriptor_t, Const ty_cudnnTensorDescriptor_t, Const ty_cudnnActivationDescriptor_t, Ptr ty_size_t] ''cudnnGetBatchNormalizationForwardTrainingExWorkspaceSize'' [0, 1, 2, 3, 4, 5, 6, 7, 8] False,
     Gen cudnn ty_cudnnStatus_t ''cudnnGetBatchNormalizationBackwardExWorkspaceSize'' [ty_cudnnHandle_t, ty_cudnnBatchNormMode_t, ty_cudnnBatchNormOps_t, Const ty_cudnnTensorDescriptor_t, Const ty_cudnnTensorDescriptor_t, Const ty_cudnnTensorDescriptor_t, Const ty_cudnnTensorDescriptor_t, Const ty_cudnnTensorDescriptor_t, Const ty_cudnnTensorDescriptor_t, Const ty_cudnnActivationDescriptor_t, Ptr ty_size_t]
       ''cudnnGetBatchNormalizationBackwardExWorkspaceSize'' ty_cudnnStatus_t [ty_cudnnHandle_t, ty_cudnnBatchNormMode_t, ty_cudnnBatchNormOps_t, Const ty_cudnnTensorDescriptor_t, Const ty_cudnnTensorDescriptor_t, Const ty_cudnnTensorDescriptor_t, Const ty_cudnnTensorDescriptor_t, Const ty_cudnnTensorDescriptor_t, Const ty_cudnnTensorDescriptor_t, Const ty_cudnnActivationDescriptor_t, Ptr ty_size_t] ''cudnnGetBatchNormalizationBackwardExWorkspaceSize'' [0, 1, 2, 3, 4, 5, 6, 7, 8, 9, 10] False,
     Gen cudnn ty_cudnnStatus_t ''cudnnGetBatchNormalizationTrainingExReserveSpaceSize'' [ty_cudnnHandle_t, ty_cudnnBatchNormMode_t, ty_cudnnBatchNormOps_t, Const ty_cudnnActivationDescriptor_t, Const ty_cudnnTensorDescriptor_t, Ptr ty_size_t]
       ''cudnnGetBatchNormalizationTrainingExReserveSpaceSize'' ty_cudnnStatus_t [ty_cudnnHandle_t, ty_cudnnBatchNormMode_t, ty_cudnnBatchNormOps_t, Const ty_cudnnActivationDescriptor_t, Const ty_cudnnTensorDescriptor_t, Ptr ty_size_t] ''cudnnGetBatchNormalizationTrainingExReserveSpaceSize'' [0, 1, 2, 3, 4, 5] False,
     Gen cudnn ty_cudnnStatus_t ''cudnnBatchNormalizationForwardTraining'' [ty_cudnnHandle_t, ty_cudnnBatchNormMode_t, Ptr (Const ty_void), Ptr (Const ty_void), Const ty_cudnnTensorDescriptor_t, Ptr (Const ty_void), Const ty_cudnnTensorDescriptor_t, Ptr ty_void, Const ty_cudnnTensorDescriptor_t, Ptr (Const ty_void), Ptr (Const ty_void), ty_double, Ptr ty_void, Ptr ty_void, ty_double, Ptr ty_void, Ptr ty_void]
       ''cudnnBatchNormalizationForwardTraining'' ty_cudnnStatus_t [ty_cudnnHandle_t, ty_cudnnBatchNormMode_t, Ptr (Const ty_void), Ptr (Const ty_void), Const ty_cudnnTensorDescriptor_t, Ptr (Const ty_void), Const ty_cudnnTensorDescriptor_t, Ptr ty_void, Const ty_cudnnTensorDescriptor_t, Ptr (Const ty_void), Ptr (Const ty_void), ty_double, Ptr ty_void, Ptr ty_void, ty_double, Ptr ty_void, Ptr ty_void] ''cudnnBatchNormalizationForwardTraining'' [0, 1, 2, 3, 4, 5, 6, 7, 8, 9, 10, 11, 12, 13, 14, 15, 16] False,
     Gen cudnn ty_cudnnStatus_t ''cudnnBatchNormalizationForwardTrainingEx'' [ty_cudnnHandle_t, ty_cudnnBatchNormMode_t, ty_cudnnBatchNormOps_t, Ptr (Const ty_void), Ptr (Const ty_void), Const ty_cudnnTensorDescriptor_t, Ptr (Const ty_void), Const ty_cudnnTensorDescriptor_t, Ptr (Const ty_void), Const ty_cudnnTensorDescriptor_t, Ptr ty_void, Const ty_cudnnTensorDescriptor_t, Ptr (Const ty_void), Ptr (Const ty_void), ty_double, Ptr ty_void, Ptr ty_void, ty_double, Ptr ty_void, Ptr ty_void, ty_cudnnActivationDescriptor_t, Ptr ty_void, ty_size_t, Ptr ty_void, ty_size_t]
       ''cudnnBatchNormalizationForwardTrainingEx'' ty_cudnnStatus_t [ty_cudnnHandle_t, ty_cudnnBatchNormMode_t, ty_cudnnBatchNormOps_t, Ptr (Const ty_void), Ptr (Const ty_void), Const ty_cudnnTensorDescriptor_t, Ptr (Const ty_void), Const ty_cudnnTensorDescriptor_t, Ptr (Const ty_void), Const ty_cudnnTensorDescriptor_t, Ptr ty_void, Const ty_cudnnTensorDescriptor_t, Ptr (Const ty_void), Ptr (Const ty_void), ty_double, Ptr ty_void, Ptr ty_void, ty_double, Ptr ty_void, Ptr ty_void, ty_cudnnActivationDescriptor_t, Ptr ty_void, ty_size_t, Ptr ty_void, ty_size_t] ''cudnnBatchNormalizationForwardTrainingEx'' [0, 1, 2, 3, 4, 5, 6, 7, 8, 9, 10, 11, 12, 13, 14, 15, 16, 17, 18, 19, 20, 21, 22, 23, 24] True,
     Gen cudnn ty_cudnnStatus_t ''cudnnBatchNormalizationForwardInference'' [ty_cudnnHandle_t, ty_cudnnBatchNormMode_t, Ptr (Const ty_void), Ptr (Const ty_void), Const ty_cudnnTensorDescriptor_t, Ptr (Const ty_void), Const ty_cudnnTensorDescriptor_t, Ptr ty_void, Const ty_cudnnTensorDescriptor_t, Ptr (Const ty_void), Ptr (Const ty_void), Ptr (Const ty_void), Ptr (Const ty_void), ty_double]
       ''cudnnBatchNormalizationForwardInference'' ty_cudnnStatus_t [ty_cudnnHandle_t, ty_cudnnBatchNormMode_t, Ptr (Const ty_void), Ptr (Const ty_void), Const ty_cudnnTensorDescriptor_t, Ptr (Const ty_void), Const ty_cudnnTensorDescriptor_t, Ptr ty_void, Const ty_cudnnTensorDescriptor_t, Ptr (Const ty_void), Ptr (Const ty_void), Ptr (Const ty_void), Ptr (Const ty_void), ty_double] ''cudnnBatchNormalizationForwardInference'' [0, 1, 2, 3, 4, 5, 6, 7, 8, 9, 10, 11, 12, 13] True]"

definition cudnn_hooks_11 :: "gen_hook list" where
  "cudnn_hooks_11 =
    [Gen cudnn ty_cudnnStatus_t ''cudnnBatchNormalizationBackward'' [ty_cudnnHandle_t, ty_cudnnBatchNormMode_t, Ptr (Const ty_void), Ptr (Const ty_void), Ptr (Const ty_void), Ptr (Const ty_void), Const ty_cudnnTensorDescriptor_t, Ptr (Const ty_void), Const ty_cudnnTensorDescriptor_t, Ptr (Const ty_void), Const ty_cudnnTensorDescriptor_t, Ptr ty_void, Const ty_cudnnTensorDescriptor_t, Ptr (Const ty_void), Ptr ty_void, Ptr ty_void, ty_double, Ptr (Const ty_void), Ptr (Const ty_void)]
       ''cudnnBatchNormalizationBackward'' ty_cudnnStatus_t [ty_cudnnHandle_t, ty_cudnnBatchNormMode_t, Ptr (Const ty_void), Ptr (Const ty_void), Ptr (Const ty_void), Ptr (Const ty_void), Const ty_cudnnTensorDescriptor_t, Ptr (Const ty_void), Const ty_cudnnTensorDescriptor_t, Ptr (Const ty_void), Const ty_cudnnTensorDescriptor_t, Ptr ty_void, Const ty_cudnnTensorDescriptor_t, Ptr (Const ty_void), Ptr ty_void, Ptr ty_void, ty_double, Ptr (Const ty_void), Ptr (Const ty_void)] ''cudnnBatchNormalizationBackward'' [0, 1, 2, 3, 4, 5, 6, 7, 8, 9, 10, 11, 12, 13, 14, 15, 16, 17, 18] False,
     Gen cudnn ty_cudnnStatus_t ''cudnnBatchNormalizationBackwardEx'' [ty_cudnnHandle_t, ty_cudnnBatchNormMode_t, ty_cudnnBatchNormOps_t, Ptr (Const ty_void), Ptr (Const ty_void), Ptr (Const ty_void), Ptr (Const ty_void), Const ty_cudnnTensorDescriptor_t, Ptr (Const ty_void), Const ty_cudnnTensorDescriptor_t, Ptr (Const ty_void), Const ty_cudnnTensorDescriptor_t, Ptr (Const ty_void), Const ty_cudnnTensorDescriptor_t, Ptr ty_void, Const ty_cudnnTensorDescriptor_t, Ptr ty_void, Const ty_cudnnTensorDescriptor_t, Ptr (Const ty_void), Ptr (Const ty_void), Ptr ty_void, Ptr ty_void, ty_double, Ptr (Const ty_void), Ptr (Const ty_void), ty_cudnnActivationDescriptor_t, Ptr ty_void, ty_size_t, Ptr ty_void, ty_size_t]
       ''cudnnBatchNormalizationBackwardEx'' ty_cudnnStatus_t [ty_cudnnHandle_t, ty_cudnnBatchNormMode_t, ty_cudnnBatchNormOps_t, Ptr (Const ty_void), Ptr (Const ty_void), Ptr (Const ty_void), Ptr (Const ty_void), Const ty_cudnnTensorDescriptor_t, Ptr (Const ty_void), Const ty_cudnnTensorDescriptor_t, Ptr (Const ty_void), Const ty_cudnnTensorDescriptor_t, Ptr (Const ty_void), Const ty_cudnnTensorDescriptor_t, Ptr ty_void, Const ty_cudnnTensorDescriptor_t, Ptr ty_void, Const ty_cudnnTensorDescriptor_t, Ptr (Const ty_void), Ptr (Const ty_void), Ptr ty_void, Ptr ty_void, ty_double, Ptr (Const ty_void), Ptr (Const ty_void), ty_cudnnActivationDescriptor_t, Ptr ty_void, ty_size_t, Ptr ty_void, ty_size_t] ''cudnnBatchNormalizationBackwardEx'' [0, 1, 2, 3, 4, 5, 6, 7, 8, 9, 10, 11, 12, 13, 14, 15, 16, 17, 18, 19, 20, 21, 22, 23, 24, 25, 26, 27, 28, 29] True,
     Gen cudnn ty_cudnnStatus_t ''cudnnCreateSpatialTransformerDescriptor'' [Ptr ty_cudnnSpatialTransformerDescriptor_t]
       ''cudnnCreateSpatialTransformerDescriptor'' ty_cudnnStatus_t [Ptr ty_cudnnSpatialTransformerDescriptor_t] ''cudnnCreateSpatialTransformerDescriptor'' [0] False,
     Gen cudnn ty_cudnnStatus_t ''cudnnSetSpatialTransformerNdDescriptor'' [ty_cudnnSpatialTransformerDescriptor_t, ty_cudnnSamplerType_t, ty_cudnnDataType_t, Const ty_int, Ptr (Const ty_int)]
       ''cudnnSetSpatialTransformerNdDescriptor'' ty_cudnnStatus_t [ty_cudnnSpatialTransformerDescriptor_t, ty_cudnnSamplerType_t, ty_cudnnDataType_t, Const ty_int, Ptr (Const ty_int)] ''cudnnSetSpatialTransformerNdDescriptor'' [0, 1, 2, 3, 4] False,
     Gen cudnn ty_cudnnStatus_t ''cudnnDestroySpatialTransformerDescriptor'' [ty_cudnnSpatialTransformerDescriptor_t]
       ''cudnnDestroySpatialTransformerDescriptor'' ty_cudnnStatus_t [ty_cudnnSpatialTransformerDescriptor_t] ''cudnnDestroySpatialTransformerDescriptor'' [0] False,
     Gen cudnn ty_cudnnStatus_t ''cudnnSpatialTfGridGeneratorForward'' [ty_cudnnHandle_t, Const ty_cudnnSpatialTransformerDescriptor_t, Ptr (Const ty_void), Ptr ty_void]
       ''cudnnSpatialTfGridGeneratorForward'' ty_cudnnStatus_t [ty_cudnnHandle_t, Const ty_cudnnSpatialTransformerDescriptor_t, Ptr (Const ty_void), Ptr ty_void] ''cudnnSpatialTfGridGeneratorForward'' [0, 1, 2, 3] False,
     Gen cudnn ty_cudnnStatus_t ''cudnnSpatialTfGridGeneratorBackward'' [ty_cudnnHandle_t, Const ty_cudnnSpatialTransformerDescriptor_t, Ptr (Const ty_void), Ptr ty_void]
       ''cudnnSpatialTfGridGeneratorBackward'' ty_cudnnStatus_t [ty_cudnnHandle_t, Const ty_cudnnSpatialTransformerDescriptor_t, Ptr (Const ty_void), Ptr ty_void] ''cudnnSpatialTfGridGeneratorBackward'' [0, 1, 2, 3] False,
     Gen cudnn ty_cudnnStatus_t ''cudnnSpatialTfSamplerForward'' [ty_cudnnHandle_t, ty_cudnnSpatialTransformerDescriptor_t, Ptr (Const ty_void), Const ty_cudnnTensorDescriptor_t, Ptr (Const ty_void), Ptr (Const ty_void), Ptr (Const ty_void), ty_cudnnTensorDescriptor_t, Ptr ty_void]
       ''cudnnSpatialTfSamplerForward'' ty_cudnnStatus_t [ty_cudnnHandle_t, ty_cudnnSpatialTransformerDescriptor_t, Ptr (Const ty_void), Const ty_cudnnTensorDescriptor_t, Ptr (Const ty_void), Ptr (Const ty_void), Ptr (Const ty_void), ty_cudnnTensorDescriptor_t, Ptr ty_void] ''cudnnSpatialTfSamplerForward'' [0, 1, 2, 3, 4, 5, 6, 7, 8] False,
     Gen cudnn ty_cudnnStatus_t ''cudnnSpatialTfSamplerBackward'' [ty_cudnnHandle_t, ty_cudnnSpatialTransformerDescriptor_t, Ptr (Const ty_void), Const ty_cudnnTensorDescriptor_t, Ptr (Const ty_void), Ptr (Const ty_void), Const ty_cudnnTensorDescriptor_t, Ptr ty_void, Ptr (Const ty_void), Const ty_cudnnTensorDescriptor_t, Ptr (Const ty_void), Ptr (Const ty_void), Ptr (Const ty_void), Ptr ty_void]
       ''cudnnSpatialTfSamplerBackward'' ty_cudnnStatus_t [ty_cudnnHandle_t, ty_cudnnSpatialTransformerDescriptor_t, Ptr (Const ty_void), Const ty_cudnnTensorDescriptor_t, Ptr (Const ty_void), Ptr (Const ty_void), Const ty_cudnnTensorDescriptor_t, Ptr ty_void, Ptr (Const ty_void), Const ty_cudnnTensorDescriptor_t, Ptr (Const ty_void), Ptr (Const ty_void), Ptr (Const ty_void), Ptr ty_void] ''cudnnSpatialTfSamplerBackward'' [0, 1, 2, 3, 4, 5, 6, 7, 8, 9, 10, 11, 12, 13] False,
     Gen cudnn ty_cudnnStatus_t ''cudnnCreateDropoutDescriptor'' [Ptr ty_cudnnDropoutDescriptor_t]
       ''cudnnCreateDropoutDescriptor'' ty_cudnnStatus_t [Ptr ty_cudnnDropoutDescriptor_t] ''cudnnCreateDropoutDescriptor'' [0] False,
     Gen cudnn ty_cudnnStatus_t ''cudnnDestroyDropoutDescriptor'' [ty_cudnnDropoutDescriptor_t]
       ''cudnnDestroyDropoutDescriptor'' ty_cudnnStatus_t [ty_cudnnDropoutDescriptor_t] ''cudnnDestroyDropoutDescriptor'' [0] False,
     Gen cudnn ty_cudnnStatus_t ''cudnnDropoutGetStatesSize'' [ty_cudnnHandle_t, Ptr ty_size_t]
       ''cudnnDropoutGetStatesSize'' ty_cudnnStatus_t [ty_cudnnHandle_t, Ptr ty_size_t] ''cudnnDropoutGetStatesSize'' [0, 1] False]"

definition cudnn_hooks_12 :: "gen_hook list" where
  "cudnn_hooks_12 =
    [Gen cudnn ty_cudnnStatus_t ''cudnnDropoutGetReserveSpaceSize'' [ty_cudnnTensorDescriptor_t, Ptr ty_size_t]
       ''cudnnDropoutGetReserveSpaceSize'' ty_cudnnStatus_t [ty_cudnnTensorDescriptor_t, Ptr ty_size_t] ''cudnnDropoutGetReserveSpaceSize'' [0, 1] False,
     Gen cudnn ty_cudnnStatus_t ''cudnnSetDropoutDescriptor'' [ty_cudnnDropoutDescriptor_t, ty_cudnnHandle_t, ty_float, Ptr ty_void, ty_size_t, ty_unsigned_long_long]
       ''cudnnSetDropoutDescriptor'' ty_cudnnStatus_t [ty_cudnnDropoutDescriptor_t, ty_cudnnHandle_t, ty_float, Ptr ty_void, ty_size_t, ty_unsigned_long_long] ''cudnnSetDropoutDescriptor'' [0, 1, 2, 3, 4, 5] False,
     Gen cudnn ty_cudnnStatus_t ''cudnnRestoreDropoutDescriptor'' [ty_cudnnDropoutDescriptor_t, ty_cudnnHandle_t, ty_float, Ptr ty_void, ty_size_t, ty_unsigned_long_long]
       ''cudnnRestoreDropoutDescriptor'' ty_cudnnStatus_t [ty_cudnnDropoutDescriptor_t, ty_cudnnHandle_t, ty_float, Ptr ty_void, ty_size_t, ty_unsigned_long_long] ''cudnnRestoreDropoutDescriptor'' [0, 1, 2, 3, 4, 5] False,
     Gen cudnn ty_cudnnStatus_t ''cudnnGetDropoutDescriptor'' [ty_cudnnDropoutDescriptor_t, ty_cudnnHandle_t, Ptr ty_float, Ptr (Ptr ty_void), Ptr ty_unsigned_long_long]
       ''cudnnGetDropoutDescriptor'' ty_cudnnStatus_t [ty_cudnnDropoutDescriptor_t, ty_cudnnHandle_t, Ptr ty_float, Ptr (Ptr ty_void), Ptr ty_unsigned_long_long] ''cudnnGetDropoutDescriptor'' [0, 1, 2, 3, 4] False,
     Gen cudnn ty_cudnnStatus_t ''cudnnDropoutForward'' [ty_cudnnHandle_t, Const ty_cudnnDropoutDescriptor_t, Const ty_cudnnTensorDescriptor_t, Ptr (Const ty_void), Const ty_cudnnTensorDescriptor_t, Ptr ty_void, Ptr ty_void, ty_size_t]
       ''cudnnDropoutForward'' ty_cudnnStatus_t [ty_cudnnHandle_t, Const ty_cudnnDropoutDescriptor_t, Const ty_cudnnTensorDescriptor_t, Ptr (Const ty_void), Const ty_cudnnTensorDescriptor_t, Ptr ty_void, Ptr ty_void, ty_size_t] ''cudnnDropoutForward'' [0, 1, 2, 3, 4, 5, 6, 7] False,
     Gen cudnn ty_cudnnStatus_t ''cudnnDropoutBackward'' [ty_cudnnHandle_t, Const ty_cudnnDropoutDescriptor_t, Const ty_cudnnTensorDescriptor_t, Ptr (Const ty_void), Const ty_cudnnTensorDescriptor_t, Ptr ty_void, Ptr ty_void, ty_size_t]
       ''cudnnDropoutBackward'' ty_cudnnStatus_t [ty_cudnnHandle_t, Const ty_cudnnDropoutDescriptor_t, Const ty_cudnnTensorDescriptor_t, Ptr (Const ty_void), Const ty_cudnnTensorDescriptor_t, Ptr ty_void, Ptr ty_void, ty_size_t] ''cudnnDropoutBackward'' [0, 1, 2, 3, 4, 5, 6, 7] False,
     Gen cudnn ty_cudnnStatus_t ''cudnnCreateRNNDescriptor'' [Ptr ty_cudnnRNNDescriptor_t]
       ''cudnnCreateRNNDescriptor'' ty_cudnnStatus_t [Ptr ty_cudnnRNNDescriptor_t] ''cudnnCreateRNNDescriptor'' [0] False,
     Gen cudnn ty_cudnnStatus_t ''cudnnDestroyRNNDescriptor'' [ty_cudnnRNNDescriptor_t]
       ''cudnnDestroyRNNDescriptor'' ty_cudnnStatus_t [ty_cudnnRNNDescriptor_t] ''cudnnDestroyRNNDescriptor'' [0] False,
     Gen cudnn ty_cudnnStatus_t ''cudnnSetRNNDescriptor'' [ty_cudnnHandle_t, ty_cudnnRNNDescriptor_t, Const ty_int, Const ty_int, ty_cudnnDropoutDescriptor_t, ty_cudnnRNNInputMode_t, ty_cudnnDirectionMode_t, ty_cudnnRNNMode_t, ty_cudnnRNNAlgo_t, ty_cudnnDataType_t]
       ''cudnnSetRNNDescriptor'' ty_cudnnStatus_t [ty_cudnnHandle_t, ty_cudnnRNNDescriptor_t, Const ty_int, Const ty_int, ty_cudnnDropoutDescriptor_t, ty_cudnnRNNInputMode_t, ty_cudnnDirectionMode_t, ty_cudnnRNNMode_t, ty_cudnnRNNAlgo_t, ty_cudnnDataType_t] ''cudnnSetRNNDescriptor'' [0, 1, 2, 3, 4, 5, 6, 7, 8, 9] False,
     Gen cudnn ty_cudnnStatus_t ''cudnnGetRNNDescriptor'' [ty_cudnnHandle_t, ty_cudnnRNNDescriptor_t, Ptr ty_int, Ptr ty_int, Ptr ty_cudnnDropoutDescriptor_t, Ptr ty_cudnnRNNInputMode_t, Ptr ty_cudnnDirectionMode_t, Ptr ty_cudnnRNNMode_t, Ptr ty_cudnnRNNAlgo_t, Ptr ty_cudnnDataType_t]
       ''cudnnGetRNNDescriptor'' ty_cudnnStatus_t [ty_cudnnHandle_t, ty_cudnnRNNDescriptor_t, Ptr ty_int, Ptr ty_int, Ptr ty_cudnnDropoutDescriptor_t, Ptr ty_cudnnRNNInputMode_t, Ptr ty_cudnnDirectionMode_t, Ptr ty_cudnnRNNMode_t, Ptr ty_cudnnRNNAlgo_t, Ptr ty_cudnnDataType_t] ''cudnnGetRNNDescriptor'' [0, 1, 2, 3, 4, 5, 6, 7, 8, 9] False,
     Gen cudnn ty_cudnnStatus_t ''cudnnSetRNNMatrixMathType'' [ty_cudnnRNNDescriptor_t, ty_cudnnMathType_t]
       ''cudnnSetRNNMatrixMathType'' ty_cudnnStatus_t [ty_cudnnRNNDescriptor_t, ty_cudnnMathType_t] ''cudnnSetRNNMatrixMathType'' [0, 1] False,
     Gen cudnn ty_cudnnStatus_t ''cudnnGetRNNMatrixMathType'' [ty_cudnnRNNDescriptor_t, Ptr ty_cudnnMathType_t]
       ''cudnnGetRNNMatrixMathType'' ty_cudnnStatus_t [ty_cudnnRNNDescriptor_t, Ptr ty_cudnnMathType_t] ''cudnnGetRNNMatrixMathType'' [0, 1] False,
     Gen cudnn ty_cudnnStatus_t ''cudnnSetRNNBiasMode'' [ty_cudnnRNNDescriptor_t, ty_cudnnRNNBiasMode_t]
       ''cudnnSetRNNBiasMode'' ty_cudnnStatus_t [ty_cudnnRNNDescriptor_t, ty_cudnnRNNBiasMode_t] ''cudnnSetRNNBiasMode'' [0, 1] False,
     Gen cudnn ty_cudnnStatus_t ''cudnnGetRNNBiasMode'' [ty_cudnnRNNDescriptor_t, Ptr ty_cudnnRNNBiasMode_t]
       ''cudnnGetRNNBiasMode'' ty_cudnnStatus_t [ty_cudnnRNNDescriptor_t, Ptr ty_cudnnRNNBiasMode_t] ''cudnnGetRNNBiasMode'' [0, 1] False]"

definition cudnn_hooks_13 :: "gen_hook list" where
  "cudnn_hooks_13 =
    [Gen cudnn ty_cudnnStatus_t ''cudnnRNNSetClip'' [ty_cudnnHandle_t, ty_cudnnRNNDescriptor_t, ty_cudnnRNNClipMode_t, ty_cudnnNanPropagation_t, ty_double, ty_double]
       ''cudnnRNNSetClip'' ty_cudnnStatus_t [ty_cudnnHandle_t, ty_cudnnRNNDescriptor_t, ty_cudnnRNNClipMode_t, ty_cudnnNanPropagation_t, ty_double, ty_double] ''cudnnRNNSetClip'' [0, 1, 2, 3, 4, 5] False,
     Gen cudnn ty_cudnnStatus_t ''cudnnRNNGetClip'' [ty_cudnnHandle_t, ty_cudnnRNNDescriptor_t, Ptr ty_cudnnRNNClipMode_t, Ptr ty_cudnnNanPropagation_t, Ptr ty_double, Ptr ty_double]
       ''cudnnRNNGetClip'' ty_cudnnStatus_t [ty_cudnnHandle_t, ty_cudnnRNNDescriptor_t, Ptr ty_cudnnRNNClipMode_t, Ptr ty_cudnnNanPropagation_t, Ptr ty_double, Ptr ty_double] ''cudnnRNNGetClip'' [0, 1, 2, 3, 4, 5] False,
     Gen cudnn ty_cudnnStatus_t ''cudnnSetRNNProjectionLayers'' [ty_cudnnHandle_t, ty_cudnnRNNDescriptor_t, Const ty_int, Const ty_int]
       ''cudnnSetRNNProjectionLayers'' ty_cudnnStatus_t [ty_cudnnHandle_t, ty_cudnnRNNDescriptor_t, Const ty_int, Const ty_int] ''cudnnSetRNNProjectionLayers'' [0, 1, 2, 3] False,
     Gen cudnn ty_cudnnStatus_t ''cudnnGetRNNProjectionLayers'' [ty_cudnnHandle_t, Const ty_cudnnRNNDescriptor_t, Ptr ty_int, Ptr ty_int]
       ''cudnnGetRNNProjectionLayers'' ty_cudnnStatus_t [ty_cudnnHandle_t, Const ty_cudnnRNNDescriptor_t, Ptr ty_int, Ptr ty_int] ''cudnnGetRNNProjectionLayers'' [0, 1, 2, 3] False,
     Gen cudnn ty_cudnnStatus_t ''cudnnCreatePersistentRNNPlan'' [ty_cudnnRNNDescriptor_t, Const ty_int, Const ty_cudnnDataType_t, Ptr ty_cudnnPersistentRNNPlan_t]
       ''cudnnCreatePersistentRNNPlan'' ty_cudnnStatus_t [ty_cudnnRNNDescriptor_t, Const ty_int, Const ty_cudnnDataType_t, Ptr ty_cudnnPersistentRNNPlan_t] ''cudnnCreatePersistentRNNPlan'' [0, 1, 2, 3] False,
     Gen cudnn ty_cudnnStatus_t ''cudnnDestroyPersistentRNNPlan'' [ty_cudnnPersistentRNNPlan_t]
       ''cudnnDestroyPersistentRNNPlan'' ty_cudnnStatus_t [ty_cudnnPersistentRNNPlan_t] ''cudnnDestroyPersistentRNNPlan'' [0] False,
     Gen cudnn ty_cudnnStatus_t ''cudnnSetPersistentRNNPlan'' [ty_cudnnRNNDescriptor_t, ty_cudnnPersistentRNNPlan_t]
       ''cudnnSetPersistentRNNPlan'' ty_cudnnStatus_t [ty_cudnnRNNDescriptor_t, ty_cudnnPersistentRNNPlan_t] ''cudnnSetPersistentRNNPlan'' [0, 1] False,
     Gen cudnn ty_cudnnStatus_t ''cudnnGetRNNWorkspaceSize'' [ty_cudnnHandle_t, Const ty_cudnnRNNDescriptor_t, Const ty_int, Ptr (Const ty_cudnnTensorDescriptor_t), Ptr ty_size_t]
       ''cudnnGetRNNWorkspaceSize'' ty_cudnnStatus_t [ty_cudnnHandle_t, Const ty_cudnnRNNDescriptor_t, Const ty_int, Ptr (Const ty_cudnnTensorDescriptor_t), Ptr ty_size_t] ''cudnnGetRNNWorkspaceSize'' [0, 1, 2, 3, 4] False,
     Gen cudnn ty_cudnnStatus_t ''cudnnGetRNNTrainingReserveSize'' [ty_cudnnHandle_t, Const ty_cudnnRNNDescriptor_t, Const ty_int, Ptr (Const ty_cudnnTensorDescriptor_t), Ptr ty_size_t]
       ''cudnnGetRNNTrainingReserveSize'' ty_cudnnStatus_t [ty_cudnnHandle_t, Const ty_cudnnRNNDescriptor_t, Const ty_int, Ptr (Const ty_cudnnTensorDescriptor_t), Ptr ty_size_t] ''cudnnGetRNNTrainingReserveSize'' [0, 1, 2, 3, 4] False,
     Gen cudnn ty_cudnnStatus_t ''cudnnGetRNNParamsSize'' [ty_cudnnHandle_t, Const ty_cudnnRNNDescriptor_t, Const ty_cudnnTensorDescriptor_t, Ptr ty_size_t, ty_cudnnDataType_t]
       ''cudnnGetRNNParamsSize'' ty_cudnnStatus_t [ty_cudnnHandle_t, Const ty_cudnnRNNDescriptor_t, Const ty_cudnnTensorDescriptor_t, Ptr ty_size_t, ty_cudnnDataType_t] ''cudnnGetRNNParamsSize'' [0, 1, 2, 3, 4] False,
     Gen cudnn ty_cudnnStatus_t ''cudnnGetRNNLinLayerMatrixParams'' [ty_cudnnHandle_t, Const ty_cudnnRNNDescriptor_t, Const ty_int, Const ty_cudnnTensorDescriptor_t, Const ty_cudnnFilterDescriptor_t, Ptr (Const ty_void), Const ty_int, ty_cudnnFilterDescriptor_t, Ptr (Ptr ty_void)]
       ''cudnnGetRNNLinLayerMatrixParams'' ty_cudnnStatus_t [ty_cudnnHandle_t, Const ty_cudnnRNNDescriptor_t, Const ty_int, Const ty_cudnnTensorDescriptor_t, Const ty_cudnnFilterDescriptor_t, Ptr (Const ty_void), Const ty_int, ty_cudnnFilterDescriptor_t, Ptr (Ptr ty_void)] ''cudnnGetRNNLinLayerMatrixParams'' [0, 1, 2, 3, 4, 5, 6, 7, 8] False,
     Gen cudnn ty_cudnnStatus_t ''cudnnGetRNNLinLayerBiasParams'' [ty_cudnnHandle_t, Const ty_cudnnRNNDescriptor_t, Const ty_int, Const ty_cudnnTensorDescriptor_t, Const ty_cudnnFilterDescriptor_t, Ptr (Const ty_void), Const ty_int, ty_cudnnFilterDescriptor_t, Ptr (Ptr ty_void)]
       ''cudnnGetRNNLinLayerBiasParams'' ty_cudnnStatus_t [ty_cudnnHandle_t, Const ty_cudnnRNNDescriptor_t, Const ty_int, Const ty_cudnnTensorDescriptor_t, Const ty_cudnnFilterDescriptor_t, Ptr (Const ty_void), Const ty_int, ty_cudnnFilterDescriptor_t, Ptr (Ptr ty_void)] ''cudnnGetRNNLinLayerBiasParams'' [0, 1, 2, 3, 4, 5, 6, 7, 8] False]"

definition cudnn_hooks_14 :: "gen_hook list" where
  "cudnn_hooks_14 =
    [Gen cudnn ty_cudnnStatus_t ''cudnnRNNForwardInference'' [ty_cudnnHandle_t, Const ty_cudnnRNNDescriptor_t, Const ty_int, Ptr (Const ty_cudnnTensorDescriptor_t), Ptr (Const ty_void), Const ty_cudnnTensorDescriptor_t, Ptr (Const ty_void), Const ty_cudnnTensorDescriptor_t, Ptr (Const ty_void), Const ty_cudnnFilterDescriptor_t, Ptr (Const ty_void), Ptr (Const ty_cudnnTensorDescriptor_t), Ptr ty_void, Const ty_cudnnTensorDescriptor_t, Ptr ty_void, Const ty_cudnnTensorDescriptor_t, Ptr ty_void, Ptr ty_void, ty_size_t]
       ''cudnnRNNForwardInference'' ty_cudnnStatus_t [ty_cudnnHandle_t, Const ty_cudnnRNNDescriptor_t, Const ty_int, Ptr (Const ty_cudnnTensorDescriptor_t), Ptr (Const ty_void), Const ty_cudnnTensorDescriptor_t, Ptr (Const ty_void), Const ty_cudnnTensorDescriptor_t, Ptr (Const ty_void), Const ty_cudnnFilterDescriptor_t, Ptr (Const ty_void), Ptr (Const ty_cudnnTensorDescriptor_t), Ptr ty_void, Const ty_cudnnTensorDescriptor_t, Ptr ty_void, Const ty_cudnnTensorDescriptor_t, Ptr ty_void, Ptr ty_void, ty_size_t] ''cudnnRNNForwardInference'' [0, 1, 2, 3, 4, 5, 6, 7, 8, 9, 10, 11, 12, 13, 14, 15, 16, 17, 18] False,
     Gen cudnn ty_cudnnStatus_t ''cudnnRNNForwardTraining'' [ty_cudnnHandle_t, Const ty_cudnnRNNDescriptor_t, Const ty_int, Ptr (Const ty_cudnnTensorDescriptor_t), Ptr (Const ty_void), Const ty_cudnnTensorDescriptor_t, Ptr (Const ty_void), Const ty_cudnnTensorDescriptor_t, Ptr (Const ty_void), Const ty_cudnnFilterDescriptor_t, Ptr (Const ty_void), Ptr (Const ty_cudnnTensorDescriptor_t), Ptr ty_void, Const ty_cudnnTensorDescriptor_t, Ptr ty_void, Const ty_cudnnTensorDescriptor_t, Ptr ty_void, Ptr ty_void, ty_size_t, Ptr ty_void, ty_size_t]
       ''cudnnRNNForwardTraining'' ty_cudnnStatus_t [ty_cudnnHandle_t, Const ty_cudnnRNNDescriptor_t, Const ty_int, Ptr (Const ty_cudnnTensorDescriptor_t), Ptr (Const ty_void), Const ty_cudnnTensorDescriptor_t, Ptr (Const ty_void), Const ty_cudnnTensorDescriptor_t, Ptr (Const ty_void), Const ty_cudnnFilterDescriptor_t, Ptr (Const ty_void), Ptr (Const ty_cudnnTensorDescriptor_t), Ptr ty_void, Const ty_cudnnTensorDescriptor_t, Ptr ty_void, Const ty_cudnnTensorDescriptor_t, Ptr ty_void, Ptr ty_void, ty_size_t, Ptr ty_void, ty_size_t] ''cudnnRNNForwardTraining'' [0, 1, 2, 3, 4, 5, 6, 7, 8, 9, 10, 11, 12, 13, 14, 15, 16, 17, 18, 19, 20] False,
     Gen cudnn ty_cudnnStatus_t ''cudnnRNNBackwardData'' [ty_cudnnHandle_t, Const ty_cudnnRNNDescriptor_t, Const ty_int, Ptr (Const ty_cudnnTensorDescriptor_t), Ptr (Const ty_void), Ptr (Const ty_cudnnTensorDescriptor_t), Ptr (Const ty_void), Const ty_cudnnTensorDescriptor_t, Ptr (Const ty_void), Const ty_cudnnTensorDescriptor_t, Ptr (Const ty_void), Const ty_cudnnFilterDescriptor_t, Ptr (Const ty_void), Const ty_cudnnTensorDescriptor_t, Ptr (Const ty_void), Const ty_cudnnTensorDescriptor_t, Ptr (Const ty_void), Ptr (Const ty_cudnnTensorDescriptor_t), Ptr ty_void, Const ty_cudnnTensorDescriptor_t, Ptr ty_void, Const ty_cudnnTensorDescriptor_t, Ptr ty_void, Ptr ty_void, ty_size_t, Ptr ty_void, ty_size_t]
       ''cudnnRNNBackwardData'' ty_cudnnStatus_t [ty_cudnnHandle_t, Const ty_cudnnRNNDescriptor_t, Const ty_int, Ptr (Const ty_cudnnTensorDescriptor_t), Ptr (Const ty_void), Ptr (Const ty_cudnnTensorDescriptor_t), Ptr (Const ty_void), Const ty_cudnnTensorDescriptor_t, Ptr (Const ty_void), Const ty_cudnnTensorDescriptor_t, Ptr (Const ty_void), Const ty_cudnnFilterDescriptor_t, Ptr (Const ty_void), Const ty_cudnnTensorDescriptor_t, Ptr (Const ty_void), Const ty_cudnnTensorDescriptor_t, Ptr (Const ty_void), Ptr (Const ty_cudnnTensorDescriptor_t), Ptr ty_void, Const ty_cudnnTensorDescriptor_t, Ptr ty_void, Const ty_cudnnTensorDescriptor_t, Ptr ty_void, Ptr ty_void, ty_size_t, Ptr ty_void, ty_size_t] ''cudnnRNNBackwardData'' [0, 1, 2, 3, 4, 5, 6, 7, 8, 9, 10, 11, 12, 13, 14, 15, 16, 17, 18, 19, 20, 21, 22, 23, 24, 25, 26] False,
     Gen cudnn ty_cudnnStatus_t ''cudnnRNNBackwardWeights'' [ty_cudnnHandle_t, Const ty_cudnnRNNDescriptor_t, Const ty_int, Ptr (Const ty_cudnnTensorDescriptor_t), Ptr (Const ty_void), Const ty_cudnnTensorDescriptor_t, Ptr (Const ty_void), Ptr (Const ty_cudnnTensorDescriptor_t), Ptr (Const ty_void), Ptr (Const ty_void), ty_size_t, Const ty_cudnnFilterDescriptor_t, Ptr ty_void, Ptr (Const ty_void), ty_size_t]
       ''cudnnRNNBackwardWeights'' ty_cudnnStatus_t [ty_cudnnHandle_t, Const ty_cudnnRNNDescriptor_t, Const ty_int, Ptr (Const ty_cudnnTensorDescriptor_t), Ptr (Const ty_void), Const ty_cudnnTensorDescriptor_t, Ptr (Const ty_void), Ptr (Const ty_cudnnTensorDescriptor_t), Ptr (Const ty_void), Ptr (Const ty_void), ty_size_t, Const ty_cudnnFilterDescriptor_t, Ptr ty_void, Ptr (Const ty_void), ty_size_t] ''cudnnRNNBackwardWeights'' [0, 1, 2, 3, 4, 5, 6, 7, 8, 9, 10, 11, 12, 13, 14] False,
     Gen cudnn ty_cudnnStatus_t ''cudnnSetRNNPaddingMode'' [ty_cudnnRNNDescriptor_t, ty_cudnnRNNPaddingMode_t]
       ''cudnnSetRNNPaddingMode'' ty_cudnnStatus_t [ty_cudnnRNNDescriptor_t, ty_cudnnRNNPaddingMode_t] ''cudnnSetRNNPaddingMode'' [0, 1] False,
     Gen cudnn ty_cudnnStatus_t ''cudnnGetRNNPaddingMode'' [ty_cudnnRNNDescriptor_t, Ptr ty_cudnnRNNPaddingMode_t]
       ''cudnnGetRNNPaddingMode'' ty_cudnnStatus_t [ty_cudnnRNNDescriptor_t, Ptr ty_cudnnRNNPaddingMode_t] ''cudnnGetRNNPaddingMode'' [0, 1] False,
     Gen cudnn ty_cudnnStatus_t ''cudnnCreateRNNDataDescriptor'' [Ptr ty_cudnnRNNDataDescriptor_t]
       ''cudnnCreateRNNDataDescriptor'' ty_cudnnStatus_t [Ptr ty_cudnnRNNDataDescriptor_t] ''cudnnCreateRNNDataDescriptor'' [0] False,
     Gen cudnn ty_cudnnStatus_t ''cudnnDestroyRNNDataDescriptor'' [ty_cudnnRNNDataDescriptor_t]
       ''cudnnDestroyRNNDataDescriptor'' ty_cudnnStatus_t [ty_cudnnRNNDataDescriptor_t] ''cudnnDestroyRNNDataDescriptor'' [0] False,
     Gen cudnn ty_cudnnStatus_t ''cudnnSetRNNDataDescriptor'' [ty_cudnnRNNDataDescriptor_t, ty_cudnnDataType_t, ty_cudnnRNNDataLayout_t, ty_int, ty_int, ty_int, Ptr (Const ty_int), Ptr ty_void]
       ''cudnnSetRNNDataDescriptor'' ty_cudnnStatus_t [ty_cudnnRNNDataDescriptor_t, ty_cudnnDataType_t, ty_cudnnRNNDataLayout_t, ty_int, ty_int, ty_int, Ptr (Const ty_int), Ptr ty_void] ''cudnnSetRNNDataDescriptor'' [0, 1, 2, 3, 4, 5, 6, 7] False,
     Gen cudnn ty_cudnnStatus_t ''cudnnGetRNNDataDescriptor'' [ty_cudnnRNNDataDescriptor_t, Ptr ty_cudnnDataType_t, Ptr ty_cudnnRNNDataLayout_t, Ptr ty_int, Ptr ty_int, Ptr ty_int, ty_int, Ptr ty_int, Ptr ty_void]
       ''cudnnGetRNNDataDescriptor'' ty_cudnnStatus_t [ty_cudnnRNNDataDescriptor_t, Ptr ty_cudnnDataType_t, Ptr ty_cudnnRNNDataLayout_t, Ptr ty_int, Ptr ty_int, Ptr ty_int, ty_int, Ptr ty_int, Ptr ty_void] ''cudnnGetRNNDataDescriptor'' [0, 1, 2, 3, 4, 5, 6, 7, 8] False]"

definition cudnn_hooks_15 :: "gen_hook list" where
  "cudnn_hooks_15 =
    [Gen cudnn ty_cudnnStatus_t ''cudnnRNNForwardTrainingEx'' [ty_cudnnHandle_t, Const ty_cudnnRNNDescriptor_t, Const ty_cudnnRNNDataDescriptor_t, Ptr (Const ty_void), Const ty_cudnnTensorDescriptor_t, Ptr (Const ty_void), Const ty_cudnnTensorDescriptor_t, Ptr (Const ty_void), Const ty_cudnnFilterDescriptor_t, Ptr (Const ty_void), Const ty_cudnnRNNDataDescriptor_t, Ptr ty_void, Const ty_cudnnTensorDescriptor_t, Ptr ty_void, Const ty_cudnnTensorDescriptor_t, Ptr ty_void, Const ty_cudnnRNNDataDescriptor_t, Ptr (Const ty_void), Const ty_cudnnRNNDataDescriptor_t, Ptr ty_void, Const ty_cudnnRNNDataDescriptor_t, Ptr ty_void, Const ty_cudnnRNNDataDescriptor_t, Ptr ty_void, Ptr ty_void, ty_size_t, Ptr ty_void, ty_size_t]
       ''cudnnRNNForwardTrainingEx'' ty_cudnnStatus_t [ty_cudnnHandle_t, Const ty_cudnnRNNDescriptor_t, Const ty_cudnnRNNDataDescriptor_t, Ptr (Const ty_void), Const ty_cudnnTensorDescriptor_t, Ptr (Const ty_void), Const ty_cudnnTensorDescriptor_t, Ptr (Const ty_void), Const ty_cudnnFilterDescriptor_t, Ptr (Const ty_void), Const ty_cudnnRNNDataDescriptor_t, Ptr ty_void, Const ty_cudnnTensorDescriptor_t, Ptr ty_void, Const ty_cudnnTensorDescriptor_t, Ptr ty_void, Const ty_cudnnRNNDataDescriptor_t, Ptr (Const ty_void), Const ty_cudnnRNNDataDescriptor_t, Ptr ty_void, Const ty_cudnnRNNDataDescriptor_t, Ptr ty_void, Const ty_cudnnRNNDataDescriptor_t, Ptr ty_void, Ptr ty_void, ty_size_t, Ptr ty_void, ty_size_t] ''cudnnRNNForwardTrainingEx'' [0, 1, 2, 3, 4, 5, 6, 7, 8, 9, 10, 11, 12, 13, 14, 15, 16, 17, 18, 19, 20, 21, 22, 23, 24, 25, 26, 27] False,
     Gen cudnn ty_cudnnStatus_t ''cudnnRNNForwardInferenceEx'' [ty_cudnnHandle_t, Const ty_cudnnRNNDescriptor_t, Const ty_cudnnRNNDataDescriptor_t, Ptr (Const ty_void), Const ty_cudnnTensorDescriptor_t, Ptr (Const ty_void), Const ty_cudnnTensorDescriptor_t, Ptr (Const ty_void), Const ty_cudnnFilterDescriptor_t, Ptr (Const ty_void), Const ty_cudnnRNNDataDescriptor_t, Ptr ty_void, Const ty_cudnnTensorDescriptor_t, Ptr ty_void, Const ty_cudnnTensorDescriptor_t, Ptr ty_void, Const ty_cudnnRNNDataDescriptor_t, Ptr (Const ty_void), Const ty_cudnnRNNDataDescriptor_t, Ptr ty_void, Const ty_cudnnRNNDataDescriptor_t, Ptr ty_void, Const ty_cudnnRNNDataDescriptor_t, Ptr ty_void, Ptr ty_void, ty_size_t]
       ''cudnnRNNForwardInferenceEx'' ty_cudnnStatus_t [ty_cudnnHandle_t, Const ty_cudnnRNNDescriptor_t, Const ty_cudnnRNNDataDescriptor_t, Ptr (Const ty_void), Const ty_cudnnTensorDescriptor_t, Ptr (Const ty_void), Const ty_cudnnTensorDescriptor_t, Ptr (Const ty_void), Const ty_cudnnFilterDescriptor_t, Ptr (Const ty_void), Const ty_cudnnRNNDataDescriptor_t, Ptr ty_void, Const ty_cudnnTensorDescriptor_t, Ptr ty_void, Const ty_cudnnTensorDescriptor_t, Ptr ty_void, Const ty_cudnnRNNDataDescriptor_t, Ptr (Const ty_void), Const ty_cudnnRNNDataDescriptor_t, Ptr ty_void, Const ty_cudnnRNNDataDescriptor_t, Ptr ty_void, Const ty_cudnnRNNDataDescriptor_t, Ptr ty_void, Ptr ty_void, ty_size_t] ''cudnnRNNForwardInferenceEx'' [0, 1, 2, 3, 4, 5, 6, 7, 8, 9, 10, 11, 12, 13, 14, 15, 16, 17, 18, 19, 20, 21, 22, 23, 24, 25] False,
     Gen cudnn ty_cudnnStatus_t ''cudnnRNNBackwardDataEx'' [ty_cudnnHandle_t, Const ty_cudnnRNNDescriptor_t, Const ty_cudnnRNNDataDescriptor_t, Ptr (Const ty_void), Const ty_cudnnRNNDataDescriptor_t, Ptr (Const ty_void), Const ty_cudnnRNNDataDescriptor_t, Ptr (Const ty_void), Const ty_cudnnTensorDescriptor_t, Ptr (Const ty_void), Const ty_cudnnTensorDescriptor_t, Ptr (Const ty_void), Const ty_cudnnFilterDescriptor_t, Ptr (Const ty_void), Const ty_cudnnTensorDescriptor_t, Ptr (Const ty_void), Const ty_cudnnTensorDescriptor_t, Ptr (Const ty_void), Const ty_cudnnRNNDataDescriptor_t, Ptr ty_void, Const ty_cudnnTensorDescriptor_t, Ptr ty_void, Const ty_cudnnTensorDescriptor_t, Ptr ty_void, Const ty_cudnnRNNDataDescriptor_t, Ptr ty_void, Ptr ty_void, ty_size_t, Ptr ty_void, ty_size_t]
       ''cudnnRNNBackwardDataEx'' ty_cudnnStatus_t [ty_cudnnHandle_t, Const ty_cudnnRNNDescriptor_t, Const ty_cudnnRNNDataDescriptor_t, Ptr (Const ty_void), Const ty_cudnnRNNDataDescriptor_t, Ptr (Const ty_void), Const ty_cudnnRNNDataDescriptor_t, Ptr (Const ty_void), Const ty_cudnnTensorDescriptor_t, Ptr (Const ty_void), Const ty_cudnnTensorDescriptor_t, Ptr (Const ty_void), Const ty_cudnnFilterDescriptor_t, Ptr (Const ty_void), Const ty_cudnnTensorDescriptor_t, Ptr (Const ty_void), Const ty_cudnnTensorDescriptor_t, Ptr (Const ty_void), Const ty_cudnnRNNDataDescriptor_t, Ptr ty_void, Const ty_cudnnTensorDescriptor_t, Ptr ty_void, Const ty_cudnnTensorDescriptor_t, Ptr ty_void, Const ty_cudnnRNNDataDescriptor_t, Ptr ty_void, Ptr ty_void, ty_size_t, Ptr ty_void, ty_size_t] ''cudnnRNNBackwardDataEx'' [0, 1, 2, 3, 4, 5, 6, 7, 8, 9, 10, 11, 12, 13, 14, 15, 16, 17, 18, 19, 20, 21, 22, 23, 24, 25, 26, 27, 28, 29] False,
     Gen cudnn ty_cudnnStatus_t ''cudnnRNNBackwardWeightsEx'' [ty_cudnnHandle_t, Const ty_cudnnRNNDescriptor_t, Const ty_cudnnRNNDataDescriptor_t, Ptr (Const ty_void), Const ty_cudnnTensorDescriptor_t, Ptr (Const ty_void), Const ty_cudnnRNNDataDescriptor_t, Ptr (Const ty_void), Ptr ty_void, ty_size_t, Const ty_cudnnFilterDescriptor_t, Ptr ty_void, Ptr ty_void, ty_size_t]
       ''cudnnRNNBackwardWeightsEx'' ty_cudnnStatus_t [ty_cudnnHandle_t, Const ty_cudnnRNNDescriptor_t, Const ty_cudnnRNNDataDescriptor_t, Ptr (Const ty_void), Const ty_cudnnTensorDescriptor_t, Ptr (Const ty_void), Const ty_cudnnRNNDataDescriptor_t, Ptr (Const ty_void), Ptr ty_void, ty_size_t, Const ty_cudnnFilterDescriptor_t, Ptr ty_void, Ptr ty_void, ty_size_t] ''cudnnRNNBackwardWeightsEx'' [0, 1, 2, 3, 4, 5, 6, 7, 8, 9, 10, 11, 12, 13] False,
     Gen cudnn ty_cudnnStatus_t ''cudnnSetRNNAlgorithmDescriptor'' [ty_cudnnHandle_t, ty_cudnnRNNDescriptor_t, ty_cudnnAlgorithmDescriptor_t]
       ''cudnnSetRNNAlgorithmDescriptor'' ty_cudnnStatus_t [ty_cudnnHandle_t, ty_cudnnRNNDescriptor_t, ty_cudnnAlgorithmDescriptor_t] ''cudnnSetRNNAlgorithmDescriptor'' [0, 1, 2] False,
     Gen cudnn ty_cudnnStatus_t ''cudnnGetRNNForwardInferenceAlgorithmMaxCount'' [ty_cudnnHandle_t, Const ty_cudnnRNNDescriptor_t, Ptr ty_int]
       ''cudnnGetRNNForwardInferenceAlgorithmMaxCount'' ty_cudnnStatus_t [ty_cudnnHandle_t, Const ty_cudnnRNNDescriptor_t, Ptr ty_int] ''cudnnGetRNNForwardInferenceAlgorithmMaxCount'' [0, 1, 2] False,
     Gen cudnn ty_cudnnStatus_t ''cudnnFindRNNForwardInferenceAlgorithmEx'' [ty_cudnnHandle_t, Const ty_cudnnRNNDescriptor_t, Const ty_int, Ptr (Const ty_cudnnTensorDescriptor_t), Ptr (Const ty_void), Const ty_cudnnTensorDescriptor_t, Ptr (Const ty_void), Const ty_cudnnTensorDescriptor_t, Ptr (Const ty_void), Const ty_cudnnFilterDescriptor_t, Ptr (Const ty_void), Ptr (Const ty_cudnnTensorDescriptor_t), Ptr ty_void, Const ty_cudnnTensorDescriptor_t, Ptr ty_void, Const ty_cudnnTensorDescriptor_t, Ptr ty_void, Const ty_float, Const ty_int, Ptr ty_int, Ptr ty_cudnnAlgorithmPerformance_t, Ptr ty_void, ty_size_t]
       ''cudnnFindRNNForwardInferenceAlgorithmEx'' ty_cudnnStatus_t [ty_cudnnHandle_t, Const ty_cudnnRNNDescriptor_t, Const ty_int, Ptr (Const ty_cudnnTensorDescriptor_t), Ptr (Const ty_void), Const ty_cudnnTensorDescriptor_t, Ptr (Const ty_void), Const ty_cudnnTensorDescriptor_t, Ptr (Const ty_void), Const ty_cudnnFilterDescriptor_t, Ptr (Const ty_void), Ptr (Const ty_cudnnTensorDescriptor_t), Ptr ty_void, Const ty_cudnnTensorDescriptor_t, Ptr ty_void, Const ty_cudnnTensorDescriptor_t, Ptr ty_void, Const ty_float, Const ty_int, Ptr ty_int, Ptr ty_cudnnAlgorithmPerformance_t, Ptr ty_void, ty_size_t] ''cudnnFindRNNForwardInferenceAlgorithmEx'' [0, 1, 2, 3, 4, 5, 6, 7, 8, 9, 10, 11, 12, 13, 14, 15, 16, 17, 18, 19, 20, 21, 22] False,
     Gen cudnn ty_cudnnStatus_t ''cudnnGetRNNForwardTrainingAlgorithmMaxCount'' [ty_cudnnHandle_t, Const ty_cudnnRNNDescriptor_t, Ptr ty_int]
       ''cudnnGetRNNForwardTrainingAlgorithmMaxCount'' ty_cudnnStatus_t [ty_cudnnHandle_t, Const ty_cudnnRNNDescriptor_t, Ptr ty_int] ''cudnnGetRNNForwardTrainingAlgorithmMaxCount'' [0, 1, 2] False]"

definition cudnn_hooks_16 :: "gen_hook list" where
  "cudnn_hooks_16 =
    [Gen cudnn ty_cudnnStatus_t ''cudnnFindRNNForwardTrainingAlgorithmEx'' [ty_cudnnHandle_t, Const ty_cudnnRNNDescriptor_t, Const ty_int, Ptr (Const ty_cudnnTensorDescriptor_t), Ptr (Const ty_void), Const ty_cudnnTensorDescriptor_t, Ptr (Const ty_void), Const ty_cudnnTensorDescriptor_t, Ptr (Const ty_void), Const ty_cudnnFilterDescriptor_t, Ptr (Const ty_void), Ptr (Const ty_cudnnTensorDescriptor_t), Ptr ty_void, Const ty_cudnnTensorDescriptor_t, Ptr ty_void, Const ty_cudnnTensorDescriptor_t, Ptr ty_void, Const ty_float, Const ty_int, Ptr ty_int, Ptr ty_cudnnAlgorithmPerformance_t, Ptr ty_void, ty_size_t, Ptr ty_void, ty_size_t]
       ''cudnnFindRNNForwardTrainingAlgorithmEx'' ty_cudnnStatus_t [ty_cudnnHandle_t, Const ty_cudnnRNNDescriptor_t, Const ty_int, Ptr (Const ty_cudnnTensorDescriptor_t), Ptr (Const ty_void), Const ty_cudnnTensorDescriptor_t, Ptr (Const ty_void), Const ty_cudnnTensorDescriptor_t, Ptr (Const ty_void), Const ty_cudnnFilterDescriptor_t, Ptr (Const ty_void), Ptr (Const ty_cudnnTensorDescriptor_t), Ptr ty_void, Const ty_cudnnTensorDescriptor_t, Ptr ty_void, Const ty_cudnnTensorDescriptor_t, Ptr ty_void, Const ty_float, Const ty_int, Ptr ty_int, Ptr ty_cudnnAlgorithmPerformance_t, Ptr ty_void, ty_size_t, Ptr ty_void, ty_size_t] ''cudnnFindRNNForwardTrainingAlgorithmEx'' [0, 1, 2, 3, 4, 5, 6, 7, 8, 9, 10, 11, 12, 13, 14, 15, 16, 17, 18, 19, 20, 21, 22, 23, 24] False,
     Gen cudnn ty_cudnnStatus_t ''cudnnGetRNNBackwardDataAlgorithmMaxCount'' [ty_cudnnHandle_t, Const ty_cudnnRNNDescriptor_t, Ptr ty_int]
       ''cudnnGetRNNBackwardDataAlgorithmMaxCount'' ty_cudnnStatus_t [ty_cudnnHandle_t, Const ty_cudnnRNNDescriptor_t, Ptr ty_int] ''cudnnGetRNNBackwardDataAlgorithmMaxCount'' [0, 1, 2] False,
     Gen cudnn ty_cudnnStatus_t ''cudnnFindRNNBackwardDataAlgorithmEx'' [ty_cudnnHandle_t, Const ty_cudnnRNNDescriptor_t, Const ty_int, Ptr (Const ty_cudnnTensorDescriptor_t), Ptr (Const ty_void), Ptr (Const ty_cudnnTensorDescriptor_t), Ptr (Const ty_void), Const ty_cudnnTensorDescriptor_t, Ptr (Const ty_void), Const ty_cudnnTensorDescriptor_t, Ptr (Const ty_void), Const ty_cudnnFilterDescriptor_t, Ptr (Const ty_void), Const ty_cudnnTensorDescriptor_t, Ptr (Const ty_void), Const ty_cudnnTensorDescriptor_t, Ptr (Const ty_void), Ptr (Const ty_cudnnTensorDescriptor_t), Ptr ty_void, Const ty_cudnnTensorDescriptor_t, Ptr ty_void, Const ty_cudnnTensorDescriptor_t, Ptr ty_void, Const ty_float, Const ty_int, Ptr ty_int, Ptr ty_cudnnAlgorithmPerformance_t, Ptr ty_void, ty_size_t, Ptr ty_void, ty_size_t]
       ''cudnnFindRNNBackwardDataAlgorithmEx'' ty_cudnnStatus_t [ty_cudnnHandle_t, Const ty_cudnnRNNDescriptor_t, Const ty_int, Ptr (Const ty_cudnnTensorDescriptor_t), Ptr (Const ty_void), Ptr (Const ty_cudnnTensorDescriptor_t), Ptr (Const ty_void), Const ty_cudnnTensorDescriptor_t, Ptr (Const ty_void), Const ty_cudnnTensorDescriptor_t, Ptr (Const ty_void), Const ty_cudnnFilterDescriptor_t, Ptr (Const ty_void), Const ty_cudnnTensorDescriptor_t, Ptr (Const ty_void), Const ty_cudnnTensorDescriptor_t, Ptr (Const ty_void), Ptr (Const ty_cudnnTensorDescriptor_t), Ptr ty_void, Const ty_cudnnTensorDescriptor_t, Ptr ty_void, Const ty_cudnnTensorDescriptor_t, Ptr ty_void, Const ty_float, Const ty_int, Ptr ty_int, Ptr ty_cudnnAlgorithmPerformance_t, Ptr ty_void, ty_size_t, Ptr ty_void, ty_size_t] ''cudnnFindRNNBackwardDataAlgorithmEx'' [0, 1, 2, 3, 4, 5, 6, 7, 8, 9, 10, 11, 12, 13, 14, 15, 16, 17, 18, 19, 20, 21, 22, 23, 24, 25, 26, 27, 28, 29, 30] False,
     Gen cudnn ty_cudnnStatus_t ''cudnnGetRNNBackwardWeightsAlgorithmMaxCount'' [ty_cudnnHandle_t, Const ty_cudnnRNNDescriptor_t, Ptr ty_int]
       ''cudnnGetRNNBackwardWeightsAlgorithmMaxCount'' ty_cudnnStatus_t [ty_cudnnHandle_t, Const ty_cudnnRNNDescriptor_t, Ptr ty_int] ''cudnnGetRNNBackwardWeightsAlgorithmMaxCount'' [0, 1, 2] False,
     Gen cudnn ty_cudnnStatus_t ''cudnnFindRNNBackwardWeightsAlgorithmEx'' [ty_cudnnHandle_t, Const ty_cudnnRNNDescriptor_t, Const ty_int, Ptr (Const ty_cudnnTensorDescriptor_t), Ptr (Const ty_void), Const ty_cudnnTensorDescriptor_t, Ptr (Const ty_void), Ptr (Const ty_cudnnTensorDescriptor_t), Ptr (Const ty_void), Const ty_float, Const ty_int, Ptr ty_int, Ptr ty_cudnnAlgorithmPerformance_t, Ptr (Const ty_void), ty_size_t, Const ty_cudnnFilterDescriptor_t, Ptr ty_void, Ptr (Const ty_void), ty_size_t]
       ''cudnnFindRNNBackwardWeightsAlgorithmEx'' ty_cudnnStatus_t [ty_cudnnHandle_t, Const ty_cudnnRNNDescriptor_t, Const ty_int, Ptr (Const ty_cudnnTensorDescriptor_t), Ptr (Const ty_void), Const ty_cudnnTensorDescriptor_t, Ptr (Const ty_void), Ptr (Const ty_cudnnTensorDescriptor_t), Ptr (Const ty_void), Const ty_float, Const ty_int, Ptr ty_int, Ptr ty_cudnnAlgorithmPerformance_t, Ptr (Const ty_void), ty_size_t, Const ty_cudnnFilterDescriptor_t, Ptr ty_void, Ptr (Const ty_void), ty_size_t] ''cudnnFindRNNBackwardWeightsAlgorithmEx'' [0, 1, 2, 3, 4, 5, 6, 7, 8, 9, 10, 11, 12, 13, 14, 15, 16, 17, 18] False,
     Gen cudnn ty_cudnnStatus_t ''cudnnCreateSeqDataDescriptor'' [Ptr ty_cudnnSeqDataDescriptor_t]
       ''cudnnCreateSeqDataDescriptor'' ty_cudnnStatus_t [Ptr ty_cudnnSeqDataDescriptor_t] ''cudnnCreateSeqDataDescriptor'' [0] False,
     Gen cudnn ty_cudnnStatus_t ''cudnnDestroySeqDataDescriptor'' [ty_cudnnSeqDataDescriptor_t]
       ''cudnnDestroySeqDataDescriptor'' ty_cudnnStatus_t [ty_cudnnSeqDataDescriptor_t] ''cudnnDestroySeqDataDescriptor'' [0] False,
     Gen cudnn ty_cudnnStatus_t ''cudnnSetSeqDataDescriptor'' [ty_cudnnSeqDataDescriptor_t, ty_cudnnDataType_t, ty_int, Ptr (Const ty_int), Ptr (Const ty_cudnnSeqDataAxis_t), ty_size_t, Ptr (Const ty_int), Ptr ty_void]
       ''cudnnSetSeqDataDescriptor'' ty_cudnnStatus_t [ty_cudnnSeqDataDescriptor_t, ty_cudnnDataType_t, ty_int, Ptr (Const ty_int), Ptr (Const ty_cudnnSeqDataAxis_t), ty_size_t, Ptr (Const ty_int), Ptr ty_void] ''cudnnSetSeqDataDescriptor'' [0, 1, 2, 3, 4, 5, 6, 7] False,
     Gen cudnn ty_cudnnStatus_t ''cudnnGetSeqDataDescriptor'' [Const ty_cudnnSeqDataDescriptor_t, Ptr ty_cudnnDataType_t, Ptr ty_int, ty_int, Ptr ty_int, Ptr ty_cudnnSeqDataAxis_t, Ptr ty_size_t, ty_size_t, Ptr ty_int, Ptr ty_void]
       ''cudnnGetSeqDataDescriptor'' ty_cudnnStatus_t [Const ty_cudnnSeqDataDescriptor_t, Ptr ty_cudnnDataType_t, Ptr ty_int, ty_int, Ptr ty_int, Ptr ty_cudnnSeqDataAxis_t, Ptr ty_size_t, ty_size_t, Ptr ty_int, Ptr ty_void] ''cudnnGetSeqDataDescriptor'' [0, 1, 2, 3, 4, 5, 6, 7, 8, 9] False,
     Gen cudnn ty_cudnnStatus_t ''cudnnCreateAttnDescriptor'' [Ptr ty_cudnnAttnDescriptor_t]
       ''cudnnCreateAttnDescriptor'' ty_cudnnStatus_t [Ptr ty_cudnnAttnDescriptor_t] ''cudnnCreateAttnDescriptor'' [0] False,
     Gen cudnn ty_cudnnStatus_t ''cudnnDestroyAttnDescriptor'' [ty_cudnnAttnDescriptor_t]
       ''cudnnDestroyAttnDescriptor'' ty_cudnnStatus_t [ty_cudnnAttnDescriptor_t] ''cudnnDestroyAttnDescriptor'' [0] False]"

definition cudnn_hooks_17 :: "gen_hook list" where
  "cudnn_hooks_17 =
    [Gen cudnn ty_cudnnStatus_t ''cudnnSetAttnDescriptor'' [ty_cudnnAttnDescriptor_t, ty_unsigned, ty_int, ty_double, ty_cudnnDataType_t, ty_cudnnDataType_t, ty_cudnnMathType_t, ty_cudnnDropoutDescriptor_t, ty_cudnnDropoutDescriptor_t, ty_int, ty_int, ty_int, ty_int, ty_int, ty_int, ty_int, ty_int, ty_int, ty_int, ty_int]
       ''cudnnSetAttnDescriptor'' ty_cudnnStatus_t [ty_cudnnAttnDescriptor_t, ty_unsigned, ty_int, ty_double, ty_cudnnDataType_t, ty_cudnnDataType_t, ty_cudnnMathType_t, ty_cudnnDropoutDescriptor_t, ty_cudnnDropoutDescriptor_t, ty_int, ty_int, ty_int, ty_int, ty_int, ty_int, ty_int, ty_int, ty_int, ty_int, ty_int] ''cudnnSetAttnDescriptor'' [0, 1, 2, 3, 4, 5, 6, 7, 8, 9, 10, 11, 12, 13, 14, 15, 16, 17, 18, 19] False,
     Gen cudnn ty_cudnnStatus_t ''cudnnGetAttnDescriptor'' [ty_cudnnAttnDescriptor_t, Ptr ty_unsigned, Ptr ty_int, Ptr ty_double, Ptr ty_cudnnDataType_t, Ptr ty_cudnnDataType_t, Ptr ty_cudnnMathType_t, Ptr ty_cudnnDropoutDescriptor_t, Ptr ty_cudnnDropoutDescriptor_t, Ptr ty_int, Ptr ty_int, Ptr ty_int, Ptr ty_int, Ptr ty_int, Ptr ty_int, Ptr ty_int, Ptr ty_int, Ptr ty_int, Ptr ty_int, Ptr ty_int]
       ''cudnnGetAttnDescriptor'' ty_cudnnStatus_t [ty_cudnnAttnDescriptor_t, Ptr ty_unsigned, Ptr ty_int, Ptr ty_double, Ptr ty_cudnnDataType_t, Ptr ty_cudnnDataType_t, Ptr ty_cudnnMathType_t, Ptr ty_cudnnDropoutDescriptor_t, Ptr ty_cudnnDropoutDescriptor_t, Ptr ty_int, Ptr ty_int, Ptr ty_int, Ptr ty_int, Ptr ty_int, Ptr ty_int, Ptr ty_int, Ptr ty_int, Ptr ty_int, Ptr ty_int, Ptr ty_int] ''cudnnGetAttnDescriptor'' [0, 1, 2, 3, 4, 5, 6, 7, 8, 9, 10, 11, 12, 13, 14, 15, 16, 17, 18, 19] False,
     Gen cudnn ty_cudnnStatus_t ''cudnnGetMultiHeadAttnBuffers'' [ty_cudnnHandle_t, Const ty_cudnnAttnDescriptor_t, Ptr ty_size_t, Ptr ty_size_t, Ptr ty_size_t]
       ''cudnnGetMultiHeadAttnBuffers'' ty_cudnnStatus_t [ty_cudnnHandle_t, Const ty_cudnnAttnDescriptor_t, Ptr ty_size_t, Ptr ty_size_t, Ptr ty_size_t] ''cudnnGetMultiHeadAttnBuffers'' [0, 1, 2, 3, 4] False,
     Gen cudnn ty_cudnnStatus_t ''cudnnGetMultiHeadAttnWeights'' [ty_cudnnHandle_t, Const ty_cudnnAttnDescriptor_t, ty_cudnnMultiHeadAttnWeightKind_t, ty_size_t, Ptr (Const ty_void), ty_cudnnTensorDescriptor_t, Ptr (Ptr ty_void)]
       ''cudnnGetMultiHeadAttnWeights'' ty_cudnnStatus_t [ty_cudnnHandle_t, Const ty_cudnnAttnDescriptor_t, ty_cudnnMultiHeadAttnWeightKind_t, ty_size_t, Ptr (Const ty_void), ty_cudnnTensorDescriptor_t, Ptr (Ptr ty_void)] ''cudnnGetMultiHeadAttnWeights'' [0, 1, 2, 3, 4, 5, 6] False,
     Gen cudnn ty_cudnnStatus_t ''cudnnMultiHeadAttnForward'' [ty_cudnnHandle_t, Const ty_cudnnAttnDescriptor_t, ty_int, Ptr (Const ty_int), Ptr (Const ty_int), Ptr (Const ty_int), Ptr (Const ty_int), Const ty_cudnnSeqDataDescriptor_t, Ptr (Const ty_void), Ptr (Const ty_void), Const ty_cudnnSeqDataDescriptor_t, Ptr (Const ty_void), Const ty_cudnnSeqDataDescriptor_t, Ptr (Const ty_void), Const ty_cudnnSeqDataDescriptor_t, Ptr ty_void, ty_size_t, Ptr (Const ty_void), ty_size_t, Ptr ty_void, ty_size_t, Ptr ty_void]
       ''cudnnMultiHeadAttnForward'' ty_cudnnStatus_t [ty_cudnnHandle_t, Const ty_cudnnAttnDescriptor_t, ty_int, Ptr (Const ty_int), Ptr (Const ty_int), Ptr (Const ty_int), Ptr (Const ty_int), Const ty_cudnnSeqDataDescriptor_t, Ptr (Const ty_void), Ptr (Const ty_void), Const ty_cudnnSeqDataDescriptor_t, Ptr (Const ty_void), Const ty_cudnnSeqDataDescriptor_t, Ptr (Const ty_void), Const ty_cudnnSeqDataDescriptor_t, Ptr ty_void, ty_size_t, Ptr (Const ty_void), ty_size_t, Ptr ty_void, ty_size_t, Ptr ty_void] ''cudnnMultiHeadAttnForward'' [0, 1, 2, 3, 4, 5, 6, 7, 8, 9, 10, 11, 12, 13, 14, 15, 16, 17, 18, 19, 20, 21] False,
     Gen cudnn ty_cudnnStatus_t ''cudnnMultiHeadAttnBackwardData'' [ty_cudnnHandle_t, Const ty_cudnnAttnDescriptor_t, Ptr (Const ty_int), Ptr (Const ty_int), Ptr (Const ty_int), Ptr (Const ty_int), Const ty_cudnnSeqDataDescriptor_t, Ptr (Const ty_void), Const ty_cudnnSeqDataDescriptor_t, Ptr ty_void, Ptr (Const ty_void), Const ty_cudnnSeqDataDescriptor_t, Ptr ty_void, Ptr (Const ty_void), Const ty_cudnnSeqDataDescriptor_t, Ptr ty_void, Ptr (Const ty_void), ty_size_t, Ptr (Const ty_void), ty_size_t, Ptr ty_void, ty_size_t, Ptr ty_void]
       ''cudnnMultiHeadAttnBackwardData'' ty_cudnnStatus_t [ty_cudnnHandle_t, Const ty_cudnnAttnDescriptor_t, Ptr (Const ty_int), Ptr (Const ty_int), Ptr (Const ty_int), Ptr (Const ty_int), Const ty_cudnnSeqDataDescriptor_t, Ptr (Const ty_void), Const ty_cudnnSeqDataDescriptor_t, Ptr ty_void, Ptr (Const ty_void), Const ty_cudnnSeqDataDescriptor_t, Ptr ty_void, Ptr (Const ty_void), Const ty_cudnnSeqDataDescriptor_t, Ptr ty_void, Ptr (Const ty_void), ty_size_t, Ptr (Const ty_void), ty_size_t, Ptr ty_void, ty_size_t, Ptr ty_void] ''cudnnMultiHeadAttnBackwardData'' [0, 1, 2, 3, 4, 5, 6, 7, 8, 9, 10, 11, 12, 13, 14, 15, 16, 17, 18, 19, 20, 21, 22] False,
     Gen cudnn ty_cudnnStatus_t ''cudnnMultiHeadAttnBackwardWeights'' [ty_cudnnHandle_t, Const ty_cudnnAttnDescriptor_t, ty_cudnnWgradMode_t, Const ty_cudnnSeqDataDescriptor_t, Ptr (Const ty_void), Const ty_cudnnSeqDataDescriptor_t, Ptr (Const ty_void), Const ty_cudnnSeqDataDescriptor_t, Ptr (Const ty_void), Const ty_cudnnSeqDataDescriptor_t, Ptr (Const ty_void), ty_size_t, Ptr (Const ty_void), Ptr ty_void, ty_size_t, Ptr ty_void, ty_size_t, Ptr ty_void]
       ''cudnnMultiHeadAttnBackwardWeights'' ty_cudnnStatus_t [ty_cudnnHandle_t, Const ty_cudnnAttnDescriptor_t, ty_cudnnWgradMode_t, Const ty_cudnnSeqDataDescriptor_t, Ptr (Const ty_void), Const ty_cudnnSeqDataDescriptor_t, Ptr (Const ty_void), Const ty_cudnnSeqDataDescriptor_t, Ptr (Const ty_void), Const ty_cudnnSeqDataDescriptor_t, Ptr (Const ty_void), ty_size_t, Ptr (Const ty_void), Ptr ty_void, ty_size_t, Ptr ty_void, ty_size_t, Ptr ty_void] ''cudnnMultiHeadAttnBackwardWeights'' [0, 1, 2, 3, 4, 5, 6, 7, 8, 9, 10, 11, 12, 13, 14, 15, 16, 17] False,
     Gen cudnn ty_cudnnStatus_t ''cudnnCreateCTCLossDescriptor'' [Ptr ty_cudnnCTCLossDescriptor_t]
       ''cudnnCreateCTCLossDescriptor'' ty_cudnnStatus_t [Ptr ty_cudnnCTCLossDescriptor_t] ''cudnnCreateCTCLossDescriptor'' [0] False,
     Gen cudnn ty_cudnnStatus_t ''cudnnSetCTCLossDescriptor'' [ty_cudnnCTCLossDescriptor_t, ty_cudnnDataType_t]
       ''cudnnSetCTCLossDescriptor'' ty_cudnnStatus_t [ty_cudnnCTCLossDescriptor_t, ty_cudnnDataType_t] ''cudnnSetCTCLossDescriptor'' [0, 1] False,
     Gen cudnn ty_cudnnStatus_t ''cudnnSetCTCLossDescriptorEx'' [ty_cudnnCTCLossDescriptor_t, ty_cudnnDataType_t, ty_cudnnLossNormalizationMode_t, ty_cudnnNanPropagation_t]
       ''cudnnSetCTCLossDescriptorEx'' ty_cudnnStatus_t [ty_cudnnCTCLossDescriptor_t, ty_cudnnDataType_t, ty_cudnnLossNormalizationMode_t, ty_cudnnNanPropagation_t] ''cudnnSetCTCLossDescriptorEx'' [0, 1, 2, 3] False]"

definition cudnn_hooks_18 :: "gen_hook list" where
  "cudnn_hooks_18 =
    [Gen cudnn ty_cudnnStatus_t ''cudnnGetCTCLossDescriptor'' [ty_cudnnCTCLossDescriptor_t, Ptr ty_cudnnDataType_t]
       ''cudnnGetCTCLossDescriptor'' ty_cudnnStatus_t [ty_cudnnCTCLossDescriptor_t, Ptr ty_cudnnDataType_t] ''cudnnGetCTCLossDescriptor'' [0, 1] False,
     Gen cudnn ty_cudnnStatus_t ''cudnnGetCTCLossDescriptorEx'' [ty_cudnnCTCLossDescriptor_t, Ptr ty_cudnnDataType_t, Ptr ty_cudnnLossNormalizationMode_t, Ptr ty_cudnnNanPropagation_t]
       ''cudnnGetCTCLossDescriptorEx'' ty_cudnnStatus_t [ty_cudnnCTCLossDescriptor_t, Ptr ty_cudnnDataType_t, Ptr ty_cudnnLossNormalizationMode_t, Ptr ty_cudnnNanPropagation_t] ''cudnnGetCTCLossDescriptorEx'' [0, 1, 2, 3] False,
     Gen cudnn ty_cudnnStatus_t ''cudnnDestroyCTCLossDescriptor'' [ty_cudnnCTCLossDescriptor_t]
       ''cudnnDestroyCTCLossDescriptor'' ty_cudnnStatus_t [ty_cudnnCTCLossDescriptor_t] ''cudnnDestroyCTCLossDescriptor'' [0] False,
     Gen cudnn ty_cudnnStatus_t ''cudnnCTCLoss'' [ty_cudnnHandle_t, Const ty_cudnnTensorDescriptor_t, Ptr (Const ty_void), Ptr (Const ty_int), Ptr (Const ty_int), Ptr (Const ty_int), Ptr ty_void, Const ty_cudnnTensorDescriptor_t, Ptr (Const ty_void), ty_cudnnCTCLossAlgo_t, ty_cudnnCTCLossDescriptor_t, Ptr ty_void, ty_size_t]
       ''cudnnCTCLoss'' ty_cudnnStatus_t [ty_cudnnHandle_t, Const ty_cudnnTensorDescriptor_t, Ptr (Const ty_void), Ptr (Const ty_int), Ptr (Const ty_int), Ptr (Const ty_int), Ptr ty_void, Const ty_cudnnTensorDescriptor_t, Ptr (Const ty_void), ty_cudnnCTCLossAlgo_t, ty_cudnnCTCLossDescriptor_t, Ptr ty_void, ty_size_t] ''cudnnCTCLoss'' [0, 1, 2, 3, 4, 5, 6, 7, 8, 9, 10, 11, 12] False,
     Gen cudnn ty_cudnnStatus_t ''cudnnGetCTCLossWorkspaceSize'' [ty_cudnnHandle_t, Const ty_cudnnTensorDescriptor_t, Const ty_cudnnTensorDescriptor_t, Ptr (Const ty_int), Ptr (Const ty_int), Ptr (Const ty_int), ty_cudnnCTCLossAlgo_t, ty_cudnnCTCLossDescriptor_t, Ptr ty_size_t]
       ''cudnnGetCTCLossWorkspaceSize'' ty_cudnnStatus_t [ty_cudnnHandle_t, Const ty_cudnnTensorDescriptor_t, Const ty_cudnnTensorDescriptor_t, Ptr (Const ty_int), Ptr (Const ty_int), Ptr (Const ty_int), ty_cudnnCTCLossAlgo_t, ty_cudnnCTCLossDescriptor_t, Ptr ty_size_t] ''cudnnGetCTCLossWorkspaceSize'' [0, 1, 2, 3, 4, 5, 6, 7, 8] False,
     Gen cudnn ty_cudnnStatus_t ''cudnnCreateAlgorithmDescriptor'' [Ptr ty_cudnnAlgorithmDescriptor_t]
       ''cudnnCreateAlgorithmDescriptor'' ty_cudnnStatus_t [Ptr ty_cudnnAlgorithmDescriptor_t] ''cudnnCreateAlgorithmDescriptor'' [0] False,
     Gen cudnn ty_cudnnStatus_t ''cudnnSetAlgorithmDescriptor'' [ty_cudnnAlgorithmDescriptor_t, ty_cudnnAlgorithm_t]
       ''cudnnSetAlgorithmDescriptor'' ty_cudnnStatus_t [ty_cudnnAlgorithmDescriptor_t, ty_cudnnAlgorithm_t] ''cudnnSetAlgorithmDescriptor'' [0, 1] False,
     Gen cudnn ty_cudnnStatus_t ''cudnnGetAlgorithmDescriptor'' [Const ty_cudnnAlgorithmDescriptor_t, Ptr ty_cudnnAlgorithm_t]
       ''cudnnGetAlgorithmDescriptor'' ty_cudnnStatus_t [Const ty_cudnnAlgorithmDescriptor_t, Ptr ty_cudnnAlgorithm_t] ''cudnnGetAlgorithmDescriptor'' [0, 1] False,
     Gen cudnn ty_cudnnStatus_t ''cudnnCopyAlgorithmDescriptor'' [Const ty_cudnnAlgorithmDescriptor_t, ty_cudnnAlgorithmDescriptor_t]
       ''cudnnCopyAlgorithmDescriptor'' ty_cudnnStatus_t [Const ty_cudnnAlgorithmDescriptor_t, ty_cudnnAlgorithmDescriptor_t] ''cudnnCopyAlgorithmDescriptor'' [0, 1] False,
     Gen cudnn ty_cudnnStatus_t ''cudnnDestroyAlgorithmDescriptor'' [ty_cudnnAlgorithmDescriptor_t]
       ''cudnnDestroyAlgorithmDescriptor'' ty_cudnnStatus_t [ty_cudnnAlgorithmDescriptor_t] ''cudnnDestroyAlgorithmDescriptor'' [0] False,
     Gen cudnn ty_cudnnStatus_t ''cudnnCreateAlgorithmPerformance'' [Ptr ty_cudnnAlgorithmPerformance_t, ty_int]
       ''cudnnCreateAlgorithmPerformance'' ty_cudnnStatus_t [Ptr ty_cudnnAlgorithmPerformance_t, ty_int] ''cudnnCreateAlgorithmPerformance'' [0, 1] False,
     Gen cudnn ty_cudnnStatus_t ''cudnnSetAlgorithmPerformance'' [ty_cudnnAlgorithmPerformance_t, ty_cudnnAlgorithmDescriptor_t, ty_cudnnStatus_t, ty_float, ty_size_t]
       ''cudnnSetAlgorithmPerformance'' ty_cudnnStatus_t [ty_cudnnAlgorithmPerformance_t, ty_cudnnAlgorithmDescriptor_t, ty_cudnnStatus_t, ty_float, ty_size_t] ''cudnnSetAlgorithmPerformance'' [0, 1, 2, 3, 4] False,
     Gen cudnn ty_cudnnStatus_t ''cudnnGetAlgorithmPerformance'' [Const ty_cudnnAlgorithmPerformance_t, Ptr ty_cudnnAlgorithmDescriptor_t, Ptr ty_cudnnStatus_t, Ptr ty_float, Ptr ty_size_t]
       ''cudnnGetAlgorithmPerformance'' ty_cudnnStatus_t [Const ty_cudnnAlgorithmPerformance_t, Ptr ty_cudnnAlgorithmDescriptor_t, Ptr ty_cudnnStatus_t, Ptr ty_float, Ptr ty_size_t] ''cudnnGetAlgorithmPerformance'' [0, 1, 2, 3, 4] False,
     Gen cudnn ty_cudnnStatus_t ''cudnnDestroyAlgorithmPerformance'' [Ptr ty_cudnnAlgorithmPerformance_t, ty_int]
       ''cudnnDestroyAlgorithmPerformance'' ty_cudnnStatus_t [Ptr ty_cudnnAlgorithmPerformance_t, ty_int] ''cudnnDestroyAlgorithmPerformance'' [0, 1] False]"

definition cudnn_hooks_19 :: "gen_hook list" where
  "cudnn_hooks_19 =
    [Gen cudnn ty_cudnnStatus_t ''cudnnGetAlgorithmSpaceSize'' [ty_cudnnHandle_t, ty_cudnnAlgorithmDescriptor_t, Ptr ty_size_t]
       ''cudnnGetAlgorithmSpaceSize'' ty_cudnnStatus_t [ty_cudnnHandle_t, ty_cudnnAlgorithmDescriptor_t, Ptr ty_size_t] ''cudnnGetAlgorithmSpaceSize'' [0, 1, 2] False,
     Gen cudnn ty_cudnnStatus_t ''cudnnSaveAlgorithm'' [ty_cudnnHandle_t, ty_cudnnAlgorithmDescriptor_t, Ptr ty_void, ty_size_t]
       ''cudnnSaveAlgorithm'' ty_cudnnStatus_t [ty_cudnnHandle_t, ty_cudnnAlgorithmDescriptor_t, Ptr ty_void, ty_size_t] ''cudnnSaveAlgorithm'' [0, 1, 2, 3] False,
     Gen cudnn ty_cudnnStatus_t ''cudnnRestoreAlgorithm'' [ty_cudnnHandle_t, Ptr ty_void, ty_size_t, ty_cudnnAlgorithmDescriptor_t]
       ''cudnnRestoreAlgorithm'' ty_cudnnStatus_t [ty_cudnnHandle_t, Ptr ty_void, ty_size_t, ty_cudnnAlgorithmDescriptor_t] ''cudnnRestoreAlgorithm'' [0, 1, 2, 3] False,
     Gen cudnn ty_cudnnStatus_t ''cudnnSetCallback'' [ty_unsigned, Ptr ty_void, ty_cudnnCallback_t]
       ''cudnnSetCallback'' ty_cudnnStatus_t [ty_unsigned, Ptr ty_void, ty_cudnnCallback_t] ''cudnnSetCallback'' [0, 1, 2] False,
     Gen cudnn ty_cudnnStatus_t ''cudnnGetCallback'' [Ptr ty_unsigned, Ptr (Ptr ty_void), Ptr ty_cudnnCallback_t]
       ''cudnnGetCallback'' ty_cudnnStatus_t [Ptr ty_unsigned, Ptr (Ptr ty_void), Ptr ty_cudnnCallback_t] ''cudnnGetCallback'' [0, 1, 2] False,
     Gen cudnn ty_cudnnStatus_t ''cudnnCreateFusedOpsConstParamPack'' [Ptr ty_cudnnFusedOpsConstParamPack_t, ty_cudnnFusedOps_t]
       ''cudnnCreateFusedOpsConstParamPack'' ty_cudnnStatus_t [Ptr ty_cudnnFusedOpsConstParamPack_t, ty_cudnnFusedOps_t] ''cudnnCreateFusedOpsConstParamPack'' [0, 1] False,
     Gen cudnn ty_cudnnStatus_t ''cudnnDestroyFusedOpsConstParamPack'' [ty_cudnnFusedOpsConstParamPack_t]
       ''cudnnDestroyFusedOpsConstParamPack'' ty_cudnnStatus_t [ty_cudnnFusedOpsConstParamPack_t] ''cudnnDestroyFusedOpsConstParamPack'' [0] False,
     Gen cudnn ty_cudnnStatus_t ''cudnnSetFusedOpsConstParamPackAttribute'' [ty_cudnnFusedOpsConstParamPack_t, ty_cudnnFusedOpsConstParamLabel_t, Ptr (Const ty_void)]
       ''cudnnSetFusedOpsConstParamPackAttribute'' ty_cudnnStatus_t [ty_cudnnFusedOpsConstParamPack_t, ty_cudnnFusedOpsConstParamLabel_t, Ptr (Const ty_void)] ''cudnnSetFusedOpsConstParamPackAttribute'' [0, 1, 2] False,
     Gen cudnn ty_cudnnStatus_t ''cudnnGetFusedOpsConstParamPackAttribute'' [Const ty_cudnnFusedOpsConstParamPack_t, ty_cudnnFusedOpsConstParamLabel_t, Ptr ty_void, Ptr ty_int]
       ''cudnnGetFusedOpsConstParamPackAttribute'' ty_cudnnStatus_t [Const ty_cudnnFusedOpsConstParamPack_t, ty_cudnnFusedOpsConstParamLabel_t, Ptr ty_void, Ptr ty_int] ''cudnnGetFusedOpsConstParamPackAttribute'' [0, 1, 2, 3] False,
     Gen cudnn ty_cudnnStatus_t ''cudnnCreateFusedOpsVariantParamPack'' [Ptr ty_cudnnFusedOpsVariantParamPack_t, ty_cudnnFusedOps_t]
       ''cudnnCreateFusedOpsVariantParamPack'' ty_cudnnStatus_t [Ptr ty_cudnnFusedOpsVariantParamPack_t, ty_cudnnFusedOps_t] ''cudnnCreateFusedOpsVariantParamPack'' [0, 1] False,
     Gen cudnn ty_cudnnStatus_t ''cudnnDestroyFusedOpsVariantParamPack'' [ty_cudnnFusedOpsVariantParamPack_t]
       ''cudnnDestroyFusedOpsVariantParamPack'' ty_cudnnStatus_t [ty_cudnnFusedOpsVariantParamPack_t] ''cudnnDestroyFusedOpsVariantParamPack'' [0] False,
     Gen cudnn ty_cudnnStatus_t ''cudnnSetFusedOpsVariantParamPackAttribute'' [ty_cudnnFusedOpsVariantParamPack_t, ty_cudnnFusedOpsVariantParamLabel_t, Ptr ty_void]
       ''cudnnSetFusedOpsVariantParamPackAttribute'' ty_cudnnStatus_t [ty_cudnnFusedOpsVariantParamPack_t, ty_cudnnFusedOpsVariantParamLabel_t, Ptr ty_void] ''cudnnSetFusedOpsVariantParamPackAttribute'' [0, 1, 2] False,
     Gen cudnn ty_cudnnStatus_t ''cudnnGetFusedOpsVariantParamPackAttribute'' [Const ty_cudnnFusedOpsVariantParamPack_t, ty_cudnnFusedOpsVariantParamLabel_t, Ptr ty_void]
       ''cudnnGetFusedOpsVariantParamPackAttribute'' ty_cudnnStatus_t [Const ty_cudnnFusedOpsVariantParamPack_t, ty_cudnnFusedOpsVariantParamLabel_t, Ptr ty_void] ''cudnnGetFusedOpsVariantParamPackAttribute'' [0, 1, 2] False,
     Gen cudnn ty_cudnnStatus_t ''cudnnCreateFusedOpsPlan'' [Ptr ty_cudnnFusedOpsPlan_t, ty_cudnnFusedOps_t]
       ''cudnnCreateFusedOpsPlan'' ty_cudnnStatus_t [Ptr ty_cudnnFusedOpsPlan_t, ty_cudnnFusedOps_t] ''cudnnCreateFusedOpsPlan'' [0, 1] False,
     Gen cudnn ty_cudnnStatus_t ''cudnnDestroyFusedOpsPlan'' [ty_cudnnFusedOpsPlan_t]
       ''cudnnDestroyFusedOpsPlan'' ty_cudnnStatus_t [ty_cudnnFusedOpsPlan_t] ''cudnnDestroyFusedOpsPlan'' [0] False,
     Gen cudnn ty_cudnnStatus_t ''cudnnMakeFusedOpsPlan'' [ty_cudnnHandle_t, ty_cudnnFusedOpsPlan_t, Const ty_cudnnFusedOpsConstParamPack_t, Ptr ty_size_t]
       ''cudnnMakeFusedOpsPlan'' ty_cudnnStatus_t [ty_cudnnHandle_t, ty_cudnnFusedOpsPlan_t, Const ty_cudnnFusedOpsConstParamPack_t, Ptr ty_size_t] ''cudnnMakeFusedOpsPlan'' [0, 1, 2, 3] False]"

definition cudnn_hooks_20 :: "gen_hook list" where
  "cudnn_hooks_20 =
    [Gen cudnn ty_cudnnStatus_t ''cudnnFusedOpsExecute'' [ty_cudnnHandle_t, Const ty_cudnnFusedOpsPlan_t, ty_cudnnFusedOpsVariantParamPack_t]
       ''cudnnFusedOpsExecute'' ty_cudnnStatus_t [ty_cudnnHandle_t, Const ty_cudnnFusedOpsPlan_t, ty_cudnnFusedOpsVariantParamPack_t] ''cudnnFusedOpsExecute'' [0, 1, 2] False,
     Gen cudnn ty_cudnnStatus_t ''cudnnSetRNNDescriptor_v6'' [ty_cudnnHandle_t, ty_cudnnRNNDescriptor_t, Const ty_int, Const ty_int, ty_cudnnDropoutDescriptor_t, ty_cudnnRNNInputMode_t, ty_cudnnDirectionMode_t, ty_cudnnRNNMode_t, ty_cudnnRNNAlgo_t, ty_cudnnDataType_t]
       ''cudnnSetRNNDescriptor_v6'' ty_cudnnStatus_t [ty_cudnnHandle_t, ty_cudnnRNNDescriptor_t, Const ty_int, Const ty_int, ty_cudnnDropoutDescriptor_t, ty_cudnnRNNInputMode_t, ty_cudnnDirectionMode_t, ty_cudnnRNNMode_t, ty_cudnnRNNAlgo_t, ty_cudnnDataType_t] ''cudnnSetRNNDescriptor_v6'' [0, 1, 2, 3, 4, 5, 6, 7, 8, 9] False,
     Gen cudnn ty_cudnnStatus_t ''cudnnSetRNNDescriptor_v5'' [ty_cudnnRNNDescriptor_t, ty_int, ty_int, ty_cudnnDropoutDescriptor_t, ty_cudnnRNNInputMode_t, ty_cudnnDirectionMode_t, ty_cudnnRNNMode_t, ty_cudnnDataType_t]
       ''cudnnSetRNNDescriptor_v5'' ty_cudnnStatus_t [ty_cudnnRNNDescriptor_t, ty_int, ty_int, ty_cudnnDropoutDescriptor_t, ty_cudnnRNNInputMode_t, ty_cudnnDirectionMode_t, ty_cudnnRNNMode_t, ty_cudnnDataType_t] ''cudnnSetRNNDescriptor_v5'' [0, 1, 2, 3, 4, 5, 6, 7] False]"

section \<open>All are instances of the template\<close>

lemma cudnn_hooks_1_ok: "list_all instance_of_template cudnn_hooks_1"
  by (simp add: cudnn_hooks_1_def instance_of_template_def)

lemma cudnn_hooks_2_ok: "list_all instance_of_template cudnn_hooks_2"
  by (simp add: cudnn_hooks_2_def instance_of_template_def)

lemma cudnn_hooks_3_ok: "list_all instance_of_template cudnn_hooks_3"
  by (simp add: cudnn_hooks_3_def instance_of_template_def)

lemma cudnn_hooks_4_ok: "list_all instance_of_template cudnn_hooks_4"
  by (simp add: cudnn_hooks_4_def instance_of_template_def)

lemma cudnn_hooks_5_ok: "list_all instance_of_template cudnn_hooks_5"
  by (simp add: cudnn_hooks_5_def instance_of_template_def)

lemma cudnn_hooks_6_ok: "list_all instance_of_template cudnn_hooks_6"
  by (simp add: cudnn_hooks_6_def instance_of_template_def)

lemma cudnn_hooks_7_ok: "list_all instance_of_template cudnn_hooks_7"
  by (simp add: cudnn_hooks_7_def instance_of_template_def)

lemma cudnn_hooks_8_ok: "list_all instance_of_template cudnn_hooks_8"
  by (simp add: cudnn_hooks_8_def instance_of_template_def)

lemma cudnn_hooks_9_ok: "list_all instance_of_template cudnn_hooks_9"
  by (simp add: cudnn_hooks_9_def instance_of_template_def)

lemma cudnn_hooks_10_ok: "list_all instance_of_template cudnn_hooks_10"
  by (simp add: cudnn_hooks_10_def instance_of_template_def)

lemma cudnn_hooks_11_ok: "list_all instance_of_template cudnn_hooks_11"
  by (simp add: cudnn_hooks_11_def instance_of_template_def)

lemma cudnn_hooks_12_ok: "list_all instance_of_template cudnn_hooks_12"
  by (simp add: cudnn_hooks_12_def instance_of_template_def)

lemma cudnn_hooks_13_ok: "list_all instance_of_template cudnn_hooks_13"
  by (simp add: cudnn_hooks_13_def instance_of_template_def)

lemma cudnn_hooks_14_ok: "list_all instance_of_template cudnn_hooks_14"
  by (simp add: cudnn_hooks_14_def instance_of_template_def)

lemma cudnn_hooks_15_ok: "list_all instance_of_template cudnn_hooks_15"
  by (simp add: cudnn_hooks_15_def instance_of_template_def)

lemma cudnn_hooks_16_ok: "list_all instance_of_template cudnn_hooks_16"
  by (simp add: cudnn_hooks_16_def instance_of_template_def)

lemma cudnn_hooks_17_ok: "list_all instance_of_template cudnn_hooks_17"
  by (simp add: cudnn_hooks_17_def instance_of_template_def)

lemma cudnn_hooks_18_ok: "list_all instance_of_template cudnn_hooks_18"
  by (simp add: cudnn_hooks_18_def instance_of_template_def)

lemma cudnn_hooks_19_ok: "list_all instance_of_template cudnn_hooks_19"
  by (simp add: cudnn_hooks_19_def instance_of_template_def)

lemma cudnn_hooks_20_ok: "list_all instance_of_template cudnn_hooks_20"
  by (simp add: cudnn_hooks_20_def instance_of_template_def)

definition cudnn_hooks :: "gen_hook list" where
  "cudnn_hooks = concat
    [cudnn_hooks_1, cudnn_hooks_2, cudnn_hooks_3, cudnn_hooks_4,
     cudnn_hooks_5, cudnn_hooks_6, cudnn_hooks_7, cudnn_hooks_8,
     cudnn_hooks_9, cudnn_hooks_10, cudnn_hooks_11, cudnn_hooks_12,
     cudnn_hooks_13, cudnn_hooks_14, cudnn_hooks_15, cudnn_hooks_16,
     cudnn_hooks_17, cudnn_hooks_18, cudnn_hooks_19, cudnn_hooks_20]"

lemma cudnn_hooks_ok: "list_all instance_of_template cudnn_hooks"
  by (simp add: cudnn_hooks_def cudnn_hooks_1_ok cudnn_hooks_2_ok cudnn_hooks_3_ok cudnn_hooks_4_ok cudnn_hooks_5_ok
      cudnn_hooks_6_ok cudnn_hooks_7_ok cudnn_hooks_8_ok cudnn_hooks_9_ok cudnn_hooks_10_ok
      cudnn_hooks_11_ok cudnn_hooks_12_ok cudnn_hooks_13_ok cudnn_hooks_14_ok cudnn_hooks_15_ok
      cudnn_hooks_16_ok cudnn_hooks_17_ok cudnn_hooks_18_ok cudnn_hooks_19_ok cudnn_hooks_20_ok)

end
