(* ===== verification/Hooks_Cusolver.thy ===== *)
theory Hooks_Cusolver
  imports Hook_Gen
begin

text \<open>
  The generated functions of \<open>src/cusolver/cusolver_hook.cpp\<close>, in the order of the file.
\<close>

section \<open>Types\<close>

definition ty_cusolverStatus_t :: cty where "ty_cusolverStatus_t = Named ''cusolverStatus_t''"
definition ty_cusolverDnHandle_t :: cty where "ty_cusolverDnHandle_t = Named ''cusolverDnHandle_t''"
definition ty_cusolverDnIRSParams_t :: cty where "ty_cusolverDnIRSParams_t = Named ''cusolverDnIRSParams_t''"
definition ty_cusolverIRSRefinement_t :: cty where "ty_cusolverIRSRefinement_t = Named ''cusolverIRSRefinement_t''"
definition ty_cusolverPrecType_t :: cty where "ty_cusolverPrecType_t = Named ''cusolverPrecType_t''"
definition ty_cusolver_int_t :: cty where "ty_cusolver_int_t = Named ''cusolver_int_t''"
definition ty_cusolverDnIRSInfos_t :: cty where "ty_cusolverDnIRSInfos_t = Named ''cusolverDnIRSInfos_t''"
definition ty_signed_char :: cty where "ty_signed_char = Named ''signed char''"
definition ty_cusolverEigMode_t :: cty where "ty_cusolverEigMode_t = Named ''cusolverEigMode_t''"
definition ty_cusolverEigRange_t :: cty where "ty_cusolverEigRange_t = Named ''cusolverEigRange_t''"
definition ty_cusolverEigType_t :: cty where "ty_cusolverEigType_t = Named ''cusolverEigType_t''"
definition ty_syevjInfo_t :: cty where "ty_syevjInfo_t = Named ''syevjInfo_t''"
definition ty_gesvdjInfo_t :: cty where "ty_gesvdjInfo_t = Named ''gesvdjInfo_t''"
definition ty_cusolverDnParams_t :: cty where "ty_cusolverDnParams_t = Named ''cusolverDnParams_t''"
definition ty_cusolverDnFunction_t :: cty where "ty_cusolverDnFunction_t = Named ''cusolverDnFunction_t''"
definition ty_cusolverAlgMode_t :: cty where "ty_cusolverAlgMode_t = Named ''cusolverAlgMode_t''"
definition ty_cusolverMgHandle_t :: cty where "ty_cusolverMgHandle_t = Named ''cusolverMgHandle_t''"
definition ty_cudaLibMgGrid_t :: cty where "ty_cudaLibMgGrid_t = Named ''cudaLibMgGrid_t''"
definition ty_cusolverMgGridMapping_t :: cty where "ty_cusolverMgGridMapping_t = Named ''cusolverMgGridMapping_t''"
definition ty_cudaLibMgMatrixDesc_t :: cty where "ty_cudaLibMgMatrixDesc_t = Named ''cudaLibMgMatrixDesc_t''"
definition ty_cusolverRfHandle_t :: cty where "ty_cusolverRfHandle_t = Named ''cusolverRfHandle_t''"
definition ty_cusolverRfMatrixFormat_t :: cty where "ty_cusolverRfMatrixFormat_t = Named ''cusolverRfMatrixFormat_t''"
definition ty_cusolverRfUnitDiagonal_t :: cty where "ty_cusolverRfUnitDiagonal_t = Named ''cusolverRfUnitDiagonal_t''"
definition ty_cusolverRfNumericBoostReport_t :: cty where "ty_cusolverRfNumericBoostReport_t = Named ''cusolverRfNumericBoostReport_t''"
definition ty_cusolverRfFactorization_t :: cty where "ty_cusolverRfFactorization_t = Named ''cusolverRfFactorization_t''"
definition ty_cusolverRfTriangularSolve_t :: cty where "ty_cusolverRfTriangularSolve_t = Named ''cusolverRfTriangularSolve_t''"
definition ty_cusolverRfResetValuesFastMode_t :: cty where "ty_cusolverRfResetValuesFastMode_t = Named ''cusolverRfResetValuesFastMode_t''"
definition ty_cusolverSpHandle_t :: cty where "ty_cusolverSpHandle_t = Named ''cusolverSpHandle_t''"
definition ty_csrqrInfo_t :: cty where "ty_csrqrInfo_t = Named ''csrqrInfo_t''"
definition ty_csrluInfoHost_t :: cty where "ty_csrluInfoHost_t = Named ''csrluInfoHost_t''"
definition ty_csrqrInfoHost_t :: cty where "ty_csrqrInfoHost_t = Named ''csrqrInfoHost_t''"
definition ty_csrcholInfoHost_t :: cty where "ty_csrcholInfoHost_t = Named ''csrcholInfoHost_t''"
definition ty_csrcholInfo_t :: cty where "ty_csrcholInfo_t = Named ''csrcholInfo_t''"

section \<open>\<open>cusolver\<close>\<close>

definition cusolver_hooks_1 :: "gen_hook list" where
  "cusolver_hooks_1 =
    [Gen cusolver ty_cusolverStatus_t ''cusolverGetProperty'' [ty_libraryPropertyType, Ptr ty_int]
       ''cusolverGetProperty'' ty_cusolverStatus_t [ty_libraryPropertyType, Ptr ty_int] ''cusolverGetProperty'' [0, 1] False,
     Gen cusolver ty_cusolverStatus_t ''cusolverGetVersion'' [Ptr ty_int]
       ''cusolverGetVersion'' ty_cusolverStatus_t [Ptr ty_int] ''cusolverGetVersion'' [0] False,
     Gen cusolver ty_cusolverStatus_t ''cusolverDnCreate'' [Ptr ty_cusolverDnHandle_t]
       ''cusolverDnCreate'' ty_cusolverStatus_t [Ptr ty_cusolverDnHandle_t] ''cusolverDnCreate'' [0] False,
     Gen cusolver ty_cusolverStatus_t ''cusolverDnDestroy'' [ty_cusolverDnHandle_t]
       ''cusolverDnDestroy'' ty_cusolverStatus_t [ty_cusolverDnHandle_t] ''cusolverDnDestroy'' [0] False,
     Gen cusolver ty_cusolverStatus_t ''cusolverDnSetStream'' [ty_cusolverDnHandle_t, ty_cudaStream_t]
       ''cusolverDnSetStream'' ty_cusolverStatus_t [ty_cusolverDnHandle_t, ty_cudaStream_t] ''cusolverDnSetStream'' [0, 1] False,
     Gen cusolver ty_cusolverStatus_t ''cusolverDnGetStream'' [ty_cusolverDnHandle_t, Ptr ty_cudaStream_t]
       ''cusolverDnGetStream'' ty_cusolverStatus_t [ty_cusolverDnHandle_t, Ptr ty_cudaStream_t] ''cusolverDnGetStream'' [0, 1] False,
     Gen cusolver ty_cusolverStatus_t ''cusolverDnIRSParamsCreate'' [Ptr ty_cusolverDnIRSParams_t]
       ''cusolverDnIRSParamsCreate'' ty_cusolverStatus_t [Ptr ty_cusolverDnIRSParams_t] ''cusolverDnIRSParamsCreate'' [0] False,
     Gen cusolver ty_cusolverStatus_t ''cusolverDnIRSParamsDestroy'' [ty_cusolverDnIRSParams_t]
       ''cusolverDnIRSParamsDestroy'' ty_cusolverStatus_t [ty_cusolverDnIRSParams_t] ''cusolverDnIRSParamsDestroy'' [0] False,
     Gen cusolver ty_cusolverStatus_t ''cusolverDnIRSParamsSetRefinementSolver'' [ty_cusolverDnIRSParams_t, ty_cusolverIRSRefinement_t]
       ''cusolverDnIRSParamsSetRefinementSolver'' ty_cusolverStatus_t [ty_cusolverDnIRSParams_t, ty_cusolverIRSRefinement_t] ''cusolverDnIRSParamsSetRefinementSolver'' [0, 1] False,
     Gen cusolver ty_cusolverStatus_t ''cusolverDnIRSParamsSetSolverMainPrecision'' [ty_cusolverDnIRSParams_t, ty_cusolverPrecType_t]
       ''cusolverDnIRSParamsSetSolverMainPrecision'' ty_cusolverStatus_t [ty_cusolverDnIRSParams_t, ty_cusolverPrecType_t] ''cusolverDnIRSParamsSetSolverMainPrecision'' [0, 1] False,
     Gen cusolver ty_cusolverStatus_t ''cusolverDnIRSParamsSetSolverLowestPrecision'' [ty_cusolverDnIRSParams_t, ty_cusolverPrecType_t]
       ''cusolverDnIRSParamsSetSolverLowestPrecision'' ty_cusolverStatus_t [ty_cusolverDnIRSParams_t, ty_cusolverPrecType_t] ''cusolverDnIRSParamsSetSolverLowestPrecision'' [0, 1] False,
     Gen cusolver ty_cusolverStatus_t ''cusolverDnIRSParamsSetSolverPrecisions'' [ty_cusolverDnIRSParams_t, ty_cusolverPrecType_t, ty_cusolverPrecType_t]
       ''cusolverDnIRSParamsSetSolverPrecisions'' ty_cusolverStatus_t [ty_cusolverDnIRSParams_t, ty_cusolverPrecType_t, ty_cusolverPrecType_t] ''cusolverDnIRSParamsSetSolverPrecisions'' [0, 1, 2] False,
     Gen cusolver ty_cusolverStatus_t ''cusolverDnIRSParamsSetTol'' [ty_cusolverDnIRSParams_t, ty_double]
       ''cusolverDnIRSParamsSetTol'' ty_cusolverStatus_t [ty_cusolverDnIRSParams_t, ty_double] ''cusolverDnIRSParamsSetTol'' [0, 1] False,
     Gen cusolver ty_cusolverStatus_t ''cusolverDnIRSParamsSetTolInner'' [ty_cusolverDnIRSParams_t, ty_double]
       ''cusolverDnIRSParamsSetTolInner'' ty_cusolverStatus_t [ty_cusolverDnIRSParams_t, ty_double] ''cusolverDnIRSParamsSetTolInner'' [0, 1] False,
     Gen cusolver ty_cusolverStatus_t ''cusolverDnIRSParamsSetMaxIters'' [ty_cusolverDnIRSParams_t, ty_cusolver_int_t]
       ''cusolverDnIRSParamsSetMaxIters'' ty_cusolverStatus_t [ty_cusolverDnIRSParams_t, ty_cusolver_int_t] ''cusolverDnIRSParamsSetMaxIters'' [0, 1] False,
     Gen cusolver ty_cusolverStatus_t ''cusolverDnIRSParamsSetMaxItersInner'' [ty_cusolverDnIRSParams_t, ty_cusolver_int_t]
       ''cusolverDnIRSParamsSetMaxItersInner'' ty_cusolverStatus_t [ty_cusolverDnIRSParams_t, ty_cusolver_int_t] ''cusolverDnIRSParamsSetMaxItersInner'' [0, 1] False,
     Gen cusolver ty_cusolverStatus_t ''cusolverDnIRSParamsGetMaxIters'' [ty_cusolverDnIRSParams_t, Ptr ty_cusolver_int_t]
       ''cusolverDnIRSParamsGetMaxIters'' ty_cusolverStatus_t [ty_cusolverDnIRSParams_t, Ptr ty_cusolver_int_t] ''cusolverDnIRSParamsGetMaxIters'' [0, 1] False]"

definition cusolver_hooks_2 :: "gen_hook list" where
  "cusolver_hooks_2 =
    [Gen cusolver ty_cusolverStatus_t ''cusolverDnIRSParamsEnableFallback'' [ty_cusolverDnIRSParams_t]
       ''cusolverDnIRSParamsEnableFallback'' ty_cusolverStatus_t [ty_cusolverDnIRSParams_t] ''cusolverDnIRSParamsEnableFallback'' [0] False,
     Gen cusolver ty_cusolverStatus_t ''cusolverDnIRSParamsDisableFallback'' [ty_cusolverDnIRSParams_t]
       ''cusolverDnIRSParamsDisableFallback'' ty_cusolverStatus_t [ty_cusolverDnIRSParams_t] ''cusolverDnIRSParamsDisableFallback'' [0] False,
     Gen cusolver ty_cusolverStatus_t ''cusolverDnIRSInfosDestroy'' [ty_cusolverDnIRSInfos_t]
       ''cusolverDnIRSInfosDestroy'' ty_cusolverStatus_t [ty_cusolverDnIRSInfos_t] ''cusolverDnIRSInfosDestroy'' [0] False,
     Gen cusolver ty_cusolverStatus_t ''cusolverDnIRSInfosCreate'' [Ptr ty_cusolverDnIRSInfos_t]
       ''cusolverDnIRSInfosCreate'' ty_cusolverStatus_t [Ptr ty_cusolverDnIRSInfos_t] ''cusolverDnIRSInfosCreate'' [0] False,
     Gen cusolver ty_cusolverStatus_t ''cusolverDnIRSInfosGetNiters'' [ty_cusolverDnIRSInfos_t, Ptr ty_cusolver_int_t]
       ''cusolverDnIRSInfosGetNiters'' ty_cusolverStatus_t [ty_cusolverDnIRSInfos_t, Ptr ty_cusolver_int_t] ''cusolverDnIRSInfosGetNiters'' [0, 1] False,
     Gen cusolver ty_cusolverStatus_t ''cusolverDnIRSInfosGetOuterNiters'' [ty_cusolverDnIRSInfos_t, Ptr ty_cusolver_int_t]
       ''cusolverDnIRSInfosGetOuterNiters'' ty_cusolverStatus_t [ty_cusolverDnIRSInfos_t, Ptr ty_cusolver_int_t] ''cusolverDnIRSInfosGetOuterNiters'' [0, 1] False,
     Gen cusolver ty_cusolverStatus_t ''cusolverDnIRSInfosRequestResidual'' [ty_cusolverDnIRSInfos_t]
       ''cusolverDnIRSInfosRequestResidual'' ty_cusolverStatus_t [ty_cusolverDnIRSInfos_t] ''cusolverDnIRSInfosRequestResidual'' [0] False,
     Gen cusolver ty_cusolverStatus_t ''cusolverDnIRSInfosGetResidualHistory'' [ty_cusolverDnIRSInfos_t, Ptr (Ptr ty_void)]
       ''cusolverDnIRSInfosGetResidualHistory'' ty_cusolverStatus_t [ty_cusolverDnIRSInfos_t, Ptr (Ptr ty_void)] ''cusolverDnIRSInfosGetResidualHistory'' [0, 1] False,
     Gen cusolver ty_cusolverStatus_t ''cusolverDnIRSInfosGetMaxIters'' [ty_cusolverDnIRSInfos_t, Ptr ty_cusolver_int_t]
       ''cusolverDnIRSInfosGetMaxIters'' ty_cusolverStatus_t [ty_cusolverDnIRSInfos_t, Ptr ty_cusolver_int_t] ''cusolverDnIRSInfosGetMaxIters'' [0, 1] False,
     Gen cusolver ty_cusolverStatus_t ''cusolverDnZZgesv'' [ty_cusolverDnHandle_t, ty_cusolver_int_t, ty_cusolver_int_t, Ptr ty_cuDoubleComplex, ty_cusolver_int_t, Ptr ty_cusolver_int_t, Ptr ty_cuDoubleComplex, ty_cusolver_int_t, Ptr ty_cuDoubleComplex, ty_cusolver_int_t, Ptr ty_void, ty_size_t, Ptr ty_cusolver_int_t, Ptr ty_cusolver_int_t]
       ''cusolverDnZZgesv'' ty_cusolverStatus_t [ty_cusolverDnHandle_t, ty_cusolver_int_t, ty_cusolver_int_t, Ptr ty_cuDoubleComplex, ty_cusolver_int_t, Ptr ty_cusolver_int_t, Ptr ty_cuDoubleComplex, ty_cusolver_int_t, Ptr ty_cuDoubleComplex, ty_cusolver_int_t, Ptr ty_void, ty_size_t, Ptr ty_cusolver_int_t, Ptr ty_cusolver_int_t] ''cusolverDnZZgesv'' [0, 1, 2, 3, 4, 5, 6, 7, 8, 9, 10, 11, 12, 13] False,
     Gen cusolver ty_cusolverStatus_t ''cusolverDnZCgesv'' [ty_cusolverDnHandle_t, ty_cusolver_int_t, ty_cusolver_int_t, Ptr ty_cuDoubleComplex, ty_cusolver_int_t, Ptr ty_cusolver_int_t, Ptr ty_cuDoubleComplex, ty_cusolver_int_t, Ptr ty_cuDoubleComplex, ty_cusolver_int_t, Ptr ty_void, ty_size_t, Ptr ty_cusolver_int_t, Ptr ty_cusolver_int_t]
       ''cusolverDnZCgesv'' ty_cusolverStatus_t [ty_cusolverDnHandle_t, ty_cusolver_int_t, ty_cusolver_int_t, Ptr ty_cuDoubleComplex, ty_cusolver_int_t, Ptr ty_cusolver_int_t, Ptr ty_cuDoubleComplex, ty_cusolver_int_t, Ptr ty_cuDoubleComplex, ty_cusolver_int_t, Ptr ty_void, ty_size_t, Ptr ty_cusolver_int_t, Ptr ty_cusolver_int_t] ''cusolverDnZCgesv'' [0, 1, 2, 3, 4, 5, 6, 7, 8, 9, 10, 11, 12, 13] False,
     Gen cusolver ty_cusolverStatus_t ''cusolverDnZKgesv'' [ty_cusolverDnHandle_t, ty_cusolver_int_t, ty_cusolver_int_t, Ptr ty_cuDoubleComplex, ty_cusolver_int_t, Ptr ty_cusolver_int_t, Ptr ty_cuDoubleComplex, ty_cusolver_int_t, Ptr ty_cuDoubleComplex, ty_cusolver_int_t, Ptr ty_void, ty_size_t, Ptr ty_cusolver_int_t, Ptr ty_cusolver_int_t]
       ''cusolverDnZKgesv'' ty_cusolverStatus_t [ty_cusolverDnHandle_t, ty_cusolver_int_t, ty_cusolver_int_t, Ptr ty_cuDoubleComplex, ty_cusolver_int_t, Ptr ty_cusolver_int_t, Ptr ty_cuDoubleComplex, ty_cusolver_int_t, Ptr ty_cuDoubleComplex, ty_cusolver_int_t, Ptr ty_void, ty_size_t, Ptr ty_cusolver_int_t, Ptr ty_cusolver_int_t] ''cusolverDnZKgesv'' [0, 1, 2, 3, 4, 5, 6, 7, 8, 9, 10, 11, 12, 13] False,
     Gen cusolver ty_cusolverStatus_t ''cusolverDnZEgesv'' [ty_cusolverDnHandle_t, ty_cusolver_int_t, ty_cusolver_int_t, Ptr ty_cuDoubleComplex, ty_cusolver_int_t, Ptr ty_cusolver_int_t, Ptr ty_cuDoubleComplex, ty_cusolver_int_t, Ptr ty_cuDoubleComplex, ty_cusolver_int_t, Ptr ty_void, ty_size_t, Ptr ty_cusolver_int_t, Ptr ty_cusolver_int_t]
       ''cusolverDnZEgesv'' ty_cusolverStatus_t [ty_cusolverDnHandle_t, ty_cusolver_int_t, ty_cusolver_int_t, Ptr ty_cuDoubleComplex, ty_cusolver_int_t, Ptr ty_cusolver_int_t, Ptr ty_cuDoubleComplex, ty_cusolver_int_t, Ptr ty_cuDoubleComplex, ty_cusolver_int_t, Ptr ty_void, ty_size_t, Ptr ty_cusolver_int_t, Ptr ty_cusolver_int_t] ''cusolverDnZEgesv'' [0, 1, 2, 3, 4, 5, 6, 7, 8, 9, 10, 11, 12, 13] False,
     Gen cusolver ty_cusolverStatus_t ''cusolverDnZYgesv'' [ty_cusolverDnHandle_t, ty_cusolver_int_t, ty_cusolver_int_t, Ptr ty_cuDoubleComplex, ty_cusolver_int_t, Ptr ty_cusolver_int_t, Ptr ty_cuDoubleComplex, ty_cusolver_int_t, Ptr ty_cuDoubleComplex, ty_cusolver_int_t, Ptr ty_void, ty_size_t, Ptr ty_cusolver_int_t, Ptr ty_cusolver_int_t]
       ''cusolverDnZYgesv'' ty_cusolverStatus_t [ty_cusolverDnHandle_t, ty_cusolver_int_t, ty_cusolver_int_t, Ptr ty_cuDoubleComplex, ty_cusolver_int_t, Ptr ty_cusolver_int_t, Ptr ty_cuDoubleComplex, ty_cusolver_int_t, Ptr ty_cuDoubleComplex, ty_cusolver_int_t, Ptr ty_void, ty_size_t, Ptr ty_cusolver_int_t, Ptr ty_cusolver_int_t] ''cusolverDnZYgesv'' [0, 1, 2, 3, 4, 5, 6, 7, 8, 9, 10, 11, 12, 13] False]"

definition cusolver_hooks_3 :: "gen_hook list" where
  "cusolver_hooks_3 =
    [Gen cusolver ty_cusolverStatus_t ''cusolverDnCCgesv'' [ty_cusolverDnHandle_t, ty_cusolver_int_t, ty_cusolver_int_t, Ptr ty_cuComplex, ty_cusolver_int_t, Ptr ty_cusolver_int_t, Ptr ty_cuComplex, ty_cusolver_int_t, Ptr ty_cuComplex, ty_cusolver_int_t, Ptr ty_void, ty_size_t, Ptr ty_cusolver_int_t, Ptr ty_cusolver_int_t]
       ''cusolverDnCCgesv'' ty_cusolverStatus_t [ty_cusolverDnHandle_t, ty_cusolver_int_t, ty_cusolver_int_t, Ptr ty_cuComplex, ty_cusolver_int_t, Ptr ty_cusolver_int_t, Ptr ty_cuComplex, ty_cusolver_int_t, Ptr ty_cuComplex, ty_cusolver_int_t, Ptr ty_void, ty_size_t, Ptr ty_cusolver_int_t, Ptr ty_cusolver_int_t] ''cusolverDnCCgesv'' [0, 1, 2, 3, 4, 5, 6, 7, 8, 9, 10, 11, 12, 13] False,
     Gen cusolver ty_cusolverStatus_t ''cusolverDnCEgesv'' [ty_cusolverDnHandle_t, ty_cusolver_int_t, ty_cusolver_int_t, Ptr ty_cuComplex, ty_cusolver_int_t, Ptr ty_cusolver_int_t, Ptr ty_cuComplex, ty_cusolver_int_t, Ptr ty_cuComplex, ty_cusolver_int_t, Ptr ty_void, ty_size_t, Ptr ty_cusolver_int_t, Ptr ty_cusolver_int_t]
       ''cusolverDnCEgesv'' ty_cusolverStatus_t [ty_cusolverDnHandle_t, ty_cusolver_int_t, ty_cusolver_int_t, Ptr ty_cuComplex, ty_cusolver_int_t, Ptr ty_cusolver_int_t, Ptr ty_cuComplex, ty_cusolver_int_t, Ptr ty_cuComplex, ty_cusolver_int_t, Ptr ty_void, ty_size_t, Ptr ty_cusolver_int_t, Ptr ty_cusolver_int_t] ''cusolverDnCEgesv'' [0, 1, 2, 3, 4, 5, 6, 7, 8, 9, 10, 11, 12, 13] False,
     Gen cusolver ty_cusolverStatus_t ''cusolverDnCKgesv'' [ty_cusolverDnHandle_t, ty_cusolver_int_t, ty_cusolver_int_t, Ptr ty_cuComplex, ty_cusolver_int_t, Ptr ty_cusolver_int_t, Ptr ty_cuComplex, ty_cusolver_int_t, Ptr ty_cuComplex, ty_cusolver_int_t, Ptr ty_void, ty_size_t, Ptr ty_cusolver_int_t, Ptr ty_cusolver_int_t]
       ''cusolverDnCKgesv'' ty_cusolverStatus_t [ty_cusolverDnHandle_t, ty_cusolver_int_t, ty_cusolver_int_t, Ptr ty_cuComplex, ty_cusolver_int_t, Ptr ty_cusolver_int_t, Ptr ty_cuComplex, ty_cusolver_int_t, Ptr ty_cuComplex, ty_cusolver_int_t, Ptr ty_void, ty_size_t, Ptr ty_cusolver_int_t, Ptr ty_cusolver_int_t] ''cusolverDnCKgesv'' [0, 1, 2, 3, 4, 5, 6, 7, 8, 9, 10, 11, 12, 13] False,
     Gen cusolver ty_cusolverStatus_t ''cusolverDnCYgesv'' [ty_cusolverDnHandle_t, ty_cusolver_int_t, ty_cusolver_int_t, Ptr ty_cuComplex, ty_cusolver_int_t, Ptr ty_cusolver_int_t, Ptr ty_cuComplex, ty_cusolver_int_t, Ptr ty_cuComplex, ty_cusolver_int_t, Ptr ty_void, ty_size_t, Ptr ty_cusolver_int_t, Ptr ty_cusolver_int_t]
       ''cusolverDnCYgesv'' ty_cusolverStatus_t [ty_cusolverDnHandle_t, ty_cusolver_int_t, ty_cusolver_int_t, Ptr ty_cuComplex, ty_cusolver_int_t, Ptr ty_cusolver_int_t, Ptr ty_cuComplex, ty_cusolver_int_t, Ptr ty_cuComplex, ty_cusolver_int_t, Ptr ty_void, ty_size_t, Ptr ty_cusolver_int_t, Ptr ty_cusolver_int_t] ''cusolverDnCYgesv'' [0, 1, 2, 3, 4, 5, 6, 7, 8, 9, 10, 11, 12, 13] False,
     Gen cusolver ty_cusolverStatus_t ''cusolverDnDDgesv'' [ty_cusolverDnHandle_t, ty_cusolver_int_t, ty_cusolver_int_t, Ptr ty_double, ty_cusolver_int_t, Ptr ty_cusolver_int_t, Ptr ty_double, ty_cusolver_int_t, Ptr ty_double, ty_cusolver_int_t, Ptr ty_void, ty_size_t, Ptr ty_cusolver_int_t, Ptr ty_cusolver_int_t]
       ''cusolverDnDDgesv'' ty_cusolverStatus_t [ty_cusolverDnHandle_t, ty_cusolver_int_t, ty_cusolver_int_t, Ptr ty_double, ty_cusolver_int_t, Ptr ty_cusolver_int_t, Ptr ty_double, ty_cusolver_int_t, Ptr ty_double, ty_cusolver_int_t, Ptr ty_void, ty_size_t, Ptr ty_cusolver_int_t, Ptr ty_cusolver_int_t] ''cusolverDnDDgesv'' [0, 1, 2, 3, 4, 5, 6, 7, 8, 9, 10, 11, 12, 13] False,
     Gen cusolver ty_cusolverStatus_t ''cusolverDnDSgesv'' [ty_cusolverDnHandle_t, ty_cusolver_int_t, ty_cusolver_int_t, Ptr ty_double, ty_cusolver_int_t, Ptr ty_cusolver_int_t, Ptr ty_double, ty_cusolver_int_t, Ptr ty_double, ty_cusolver_int_t, Ptr ty_void, ty_size_t, Ptr ty_cusolver_int_t, Ptr ty_cusolver_int_t]
       ''cusolverDnDSgesv'' ty_cusolverStatus_t [ty_cusolverDnHandle_t, ty_cusolver_int_t, ty_cusolver_int_t, Ptr ty_double, ty_cusolver_int_t, Ptr ty_cusolver_int_t, Ptr ty_double, ty_cusolver_int_t, Ptr ty_double, ty_cusolver_int_t, Ptr ty_void, ty_size_t, Ptr ty_cusolver_int_t, Ptr ty_cusolver_int_t] ''cusolverDnDSgesv'' [0, 1, 2, 3, 4, 5, 6, 7, 8, 9, 10, 11, 12, 13] False,
     Gen cusolver ty_cusolverStatus_t ''cusolverDnDHgesv'' [ty_cusolverDnHandle_t, ty_cusolver_int_t, ty_cusolver_int_t, Ptr ty_double, ty_cusolver_int_t, Ptr ty_cusolver_int_t, Ptr ty_double, ty_cusolver_int_t, Ptr ty_double, ty_cusolver_int_t, Ptr ty_void, ty_size_t, Ptr ty_cusolver_int_t, Ptr ty_cusolver_int_t]
       ''cusolverDnDHgesv'' ty_cusolverStatus_t [ty_cusolverDnHandle_t, ty_cusolver_int_t, ty_cusolver_int_t, Ptr ty_double, ty_cusolver_int_t, Ptr ty_cusolver_int_t, Ptr ty_double, ty_cusolver_int_t, Ptr ty_double, ty_cusolver_int_t, Ptr ty_void, ty_size_t, Ptr ty_cusolver_int_t, Ptr ty_cusolver_int_t] ''cusolverDnDHgesv'' [0, 1, 2, 3, 4, 5, 6, 7, 8, 9, 10, 11, 12, 13] False,
     Gen cusolver ty_cusolverStatus_t ''cusolverDnDBgesv'' [ty_cusolverDnHandle_t, ty_cusolver_int_t, ty_cusolver_int_t, Ptr ty_double, ty_cusolver_int_t, Ptr ty_cusolver_int_t, Ptr ty_double, ty_cusolver_int_t, Ptr ty_double, ty_cusolver_int_t, Ptr ty_void, ty_size_t, Ptr ty_cusolver_int_t, Ptr ty_cusolver_int_t]
       ''cusolverDnDBgesv'' ty_cusolverStatus_t [ty_cusolverDnHandle_t, ty_cusolver_int_t, ty_cusolver_int_t, Ptr ty_double, ty_cusolver_int_t, Ptr ty_cusolver_int_t, Ptr ty_double, ty_cusolver_int_t, Ptr ty_double, ty_cusolver_int_t, Ptr ty_void, ty_size_t, Ptr ty_cusolver_int_t, Ptr ty_cusolver_int_t] ''cusolverDnDBgesv'' [0, 1, 2, 3, 4, 5, 6, 7, 8, 9, 10, 11, 12, 13] False,
     Gen cusolver ty_cusolverStatus_t ''cusolverDnDXgesv'' [ty_cusolverDnHandle_t, ty_cusolver_int_t, ty_cusolver_int_t, Ptr ty_double, ty_cusolver_int_t, Ptr ty_cusolver_int_t, Ptr ty_double, ty_cusolver_int_t, Ptr ty_double, ty_cusolver_int_t, Ptr ty_void, ty_size_t, Ptr ty_cusolver_int_t, Ptr ty_cusolver_int_t]
       ''cusolverDnDXgesv'' ty_cusolverStatus_t [ty_cusolverDnHandle_t, ty_cusolver_int_t, ty_cusolver_int_t, Ptr ty_double, ty_cusolver_int_t, Ptr ty_cusolver_int_t, Ptr ty_double, ty_cusolver_int_t, Ptr ty_double, ty_cusolver_int_t, Ptr ty_void, ty_size_t, Ptr ty_cusolver_int_t, Ptr ty_cusolver_int_t] ''cusolverDnDXgesv'' [0, 1, 2, 3, 4, 5, 6, 7, 8, 9, 10, 11, 12, 13] False,
     Gen cusolver ty_cusolverStatus_t ''cusolverDnSSgesv'' [ty_cusolverDnHandle_t, ty_cusolver_int_t, ty_cusolver_int_t, Ptr ty_float, ty_cusolver_int_t, Ptr ty_cusolver_int_t, Ptr ty_float, ty_cusolver_int_t, Ptr ty_float, ty_cusolver_int_t, Ptr ty_void, ty_size_t, Ptr ty_cusolver_int_t, Ptr ty_cusolver_int_t]
       ''cusolverDnSSgesv'' ty_cusolverStatus_t [ty_cusolverDnHandle_t, ty_cusolver_int_t, ty_cusolver_int_t, Ptr ty_float, ty_cusolver_int_t, Ptr ty_cusolver_int_t, Ptr ty_float, ty_cusolver_int_t, Ptr ty_float, ty_cusolver_int_t, Ptr ty_void, ty_size_t, Ptr ty_cusolver_int_t, Ptr ty_cusolver_int_t] ''cusolverDnSSgesv'' [0, 1, 2, 3, 4, 5, 6, 7, 8, 9, 10, 11, 12, 13] False]"

definition cusolver_hooks_4 :: "gen_hook list" where
  "cusolver_hooks_4 =
    [Gen cusolver ty_cusolverStatus_t ''cusolverDnSHgesv'' [ty_cusolverDnHandle_t, ty_cusolver_int_t, ty_cusolver_int_t, Ptr ty_float, ty_cusolver_int_t, Ptr ty_cusolver_int_t, Ptr ty_float, ty_cusolver_int_t, Ptr ty_float, ty_cusolver_int_t, Ptr ty_void, ty_size_t, Ptr ty_cusolver_int_t, Ptr ty_cusolver_int_t]
       ''cusolverDnSHgesv'' ty_cusolverStatus_t [ty_cusolverDnHandle_t, ty_cusolver_int_t, ty_cusolver_int_t, Ptr ty_float, ty_cusolver_int_t, Ptr ty_cusolver_int_t, Ptr ty_float, ty_cusolver_int_t, Ptr ty_float, ty_cusolver_int_t, Ptr ty_void, ty_size_t, Ptr ty_cusolver_int_t, Ptr ty_cusolver_int_t] ''cusolverDnSHgesv'' [0, 1, 2, 3, 4, 5, 6, 7, 8, 9, 10, 11, 12, 13] False,
     Gen cusolver ty_cusolverStatus_t ''cusolverDnSBgesv'' [ty_cusolverDnHandle_t, ty_cusolver_int_t, ty_cusolver_int_t, Ptr ty_float, ty_cusolver_int_t, Ptr ty_cusolver_int_t, Ptr ty_float, ty_cusolver_int_t, Ptr ty_float, ty_cusolver_int_t, Ptr ty_void, ty_size_t, Ptr ty_cusolver_int_t, Ptr ty_cusolver_int_t]
       ''cusolverDnSBgesv'' ty_cusolverStatus_t [ty_cusolverDnHandle_t, ty_cusolver_int_t, ty_cusolver_int_t, Ptr ty_float, ty_cusolver_int_t, Ptr ty_cusolver_int_t, Ptr ty_float, ty_cusolver_int_t, Ptr ty_float, ty_cusolver_int_t, Ptr ty_void, ty_size_t, Ptr ty_cusolver_int_t, Ptr ty_cusolver_int_t] ''cusolverDnSBgesv'' [0, 1, 2, 3, 4, 5, 6, 7, 8, 9, 10, 11, 12, 13] False,
     Gen cusolver ty_cusolverStatus_t ''cusolverDnSXgesv'' [ty_cusolverDnHandle_t, ty_cusolver_int_t, ty_cusolver_int_t, Ptr ty_float, ty_cusolver_int_t, Ptr ty_cusolver_int_t, Ptr ty_float, ty_cusolver_int_t, Ptr ty_float, ty_cusolver_int_t, Ptr ty_void, ty_size_t, Ptr ty_cusolver_int_t, Ptr ty_cusolver_int_t]
       ''cusolverDnSXgesv'' ty_cusolverStatus_t [ty_cusolverDnHandle_t, ty_cusolver_int_t, ty_cusolver_int_t, Ptr ty_float, ty_cusolver_int_t, Ptr ty_cusolver_int_t, Ptr ty_float, ty_cusolver_int_t, Ptr ty_float, ty_cusolver_int_t, Ptr ty_void, ty_size_t, Ptr ty_cusolver_int_t, Ptr ty_cusolver_int_t] ''cusolverDnSXgesv'' [0, 1, 2, 3, 4, 5, 6, 7, 8, 9, 10, 11, 12, 13] False,
     Gen cusolver ty_cusolverStatus_t ''cusolverDnZZgesv_bufferSize'' [ty_cusolverDnHandle_t, ty_cusolver_int_t, ty_cusolver_int_t, Ptr ty_cuDoubleComplex, ty_cusolver_int_t, Ptr ty_cusolver_int_t, Ptr ty_cuDoubleComplex, ty_cusolver_int_t, Ptr ty_cuDoubleComplex, ty_cusolver_int_t, Ptr ty_void, Ptr ty_size_t]
       ''cusolverDnZZgesv_bufferSize'' ty_cusolverStatus_t [ty_cusolverDnHandle_t, ty_cusolver_int_t, ty_cusolver_int_t, Ptr ty_cuDoubleComplex, ty_cusolver_int_t, Ptr ty_cusolver_int_t, Ptr ty_cuDoubleComplex, ty_cusolver_int_t, Ptr ty_cuDoubleComplex, ty_cusolver_int_t, Ptr ty_void, Ptr ty_size_t] ''cusolverDnZZgesv_bufferSize'' [0, 1, 2, 3, 4, 5, 6, 7, 8, 9, 10, 11] False,
     Gen cusolver ty_cusolverStatus_t ''cusolverDnZCgesv_bufferSize'' [ty_cusolverDnHandle_t, ty_cusolver_int_t, ty_cusolver_int_t, Ptr ty_cuDoubleComplex, ty_cusolver_int_t, Ptr ty_cusolver_int_t, Ptr ty_cuDoubleComplex, ty_cusolver_int_t, Ptr ty_cuDoubleComplex, ty_cusolver_int_t, Ptr ty_void, Ptr ty_size_t]
       ''cusolverDnZCgesv_bufferSize'' ty_cusolverStatus_t [ty_cusolverDnHandle_t, ty_cusolver_int_t, ty_cusolver_int_t, Ptr ty_cuDoubleComplex, ty_cusolver_int_t, Ptr ty_cusolver_int_t, Ptr ty_cuDoubleComplex, ty_cusolver_int_t, Ptr ty_cuDoubleComplex, ty_cusolver_int_t, Ptr ty_void, Ptr ty_size_t] ''cusolverDnZCgesv_bufferSize'' [0, 1, 2, 3, 4, 5, 6, 7, 8, 9, 10, 11] False,
     Gen cusolver ty_cusolverStatus_t ''cusolverDnZKgesv_bufferSize'' [ty_cusolverDnHandle_t, ty_cusolver_int_t, ty_cusolver_int_t, Ptr ty_cuDoubleComplex, ty_cusolver_int_t, Ptr ty_cusolver_int_t, Ptr ty_cuDoubleComplex, ty_cusolver_int_t, Ptr ty_cuDoubleComplex, ty_cusolver_int_t, Ptr ty_void, Ptr ty_size_t]
       ''cusolverDnZKgesv_bufferSize'' ty_cusolverStatus_t [ty_cusolverDnHandle_t, ty_cusolver_int_t, ty_cusolver_int_t, Ptr ty_cuDoubleComplex, ty_cusolver_int_t, Ptr ty_cusolver_int_t, Ptr ty_cuDoubleComplex, ty_cusolver_int_t, Ptr ty_cuDoubleComplex, ty_cusolver_int_t, Ptr ty_void, Ptr ty_size_t] ''cusolverDnZKgesv_bufferSize'' [0, 1, 2, 3, 4, 5, 6, 7, 8, 9, 10, 11] False,
     Gen cusolver ty_cusolverStatus_t ''cusolverDnZEgesv_bufferSize'' [ty_cusolverDnHandle_t, ty_cusolver_int_t, ty_cusolver_int_t, Ptr ty_cuDoubleComplex, ty_cusolver_int_t, Ptr ty_cusolver_int_t, Ptr ty_cuDoubleComplex, ty_cusolver_int_t, Ptr ty_cuDoubleComplex, ty_cusolver_int_t, Ptr ty_void, Ptr ty_size_t]
       ''cusolverDnZEgesv_bufferSize'' ty_cusolverStatus_t [ty_cusolverDnHandle_t, ty_cusolver_int_t, ty_cusolver_int_t, Ptr ty_cuDoubleComplex, ty_cusolver_int_t, Ptr ty_cusolver_int_t, Ptr ty_cuDoubleComplex, ty_cusolver_int_t, Ptr ty_cuDoubleComplex, ty_cusolver_int_t, Ptr ty_void, Ptr ty_size_t] ''cusolverDnZEgesv_bufferSize'' [0, 1, 2, 3, 4, 5, 6, 7, 8, 9, 10, 11] False,
     Gen cusolver ty_cusolverStatus_t ''cusolverDnZYgesv_bufferSize'' [ty_cusolverDnHandle_t, ty_cusolver_int_t, ty_cusolver_int_t, Ptr ty_cuDoubleComplex, ty_cusolver_int_t, Ptr ty_cusolver_int_t, Ptr ty_cuDoubleComplex, ty_cusolver_int_t, Ptr ty_cuDoubleComplex, ty_cusolver_int_t, Ptr ty_void, Ptr ty_size_t]
       ''cusolverDnZYgesv_bufferSize'' ty_cusolverStatus_t [ty_cusolverDnHandle_t, ty_cusolver_int_t, ty_cusolver_int_t, Ptr ty_cuDoubleComplex, ty_cusolver_int_t, Ptr ty_cusolver_int_t, Ptr ty_cuDoubleComplex, ty_cusolver_int_t, Ptr ty_cuDoubleComplex, ty_cusolver_int_t, Ptr ty_void, Ptr ty_size_t] ''cusolverDnZYgesv_bufferSize'' [0, 1, 2, 3, 4, 5, 6, 7, 8, 9, 10, 11] False,
     Gen cusolver ty_cusolverStatus_t ''cusolverDnCCgesv_bufferSize'' [ty_cusolverDnHandle_t, ty_cusolver_int_t, ty_cusolver_int_t, Ptr ty_cuComplex, ty_cusolver_int_t, Ptr ty_cusolver_int_t, Ptr ty_cuComplex, ty_cusolver_int_t, Ptr ty_cuComplex, ty_cusolver_int_t, Ptr ty_void, Ptr ty_size_t]
       ''cusolverDnCCgesv_bufferSize'' ty_cusolverStatus_t [ty_cusolverDnHandle_t, ty_cusolver_int_t, ty_cusolver_int_t, Ptr ty_cuComplex, ty_cusolver_int_t, Ptr ty_cusolver_int_t, Ptr ty_cuComplex, ty_cusolver_int_t, Ptr ty_cuComplex, ty_cusolver_int_t, Ptr ty_void, Ptr ty_size_t] ''cusolverDnCCgesv_bufferSize'' [0, 1, 2, 3, 4, 5, 6, 7, 8, 9, 10, 11] False,
     Gen cusolver ty_cusolverStatus_t ''cusolverDnCKgesv_bufferSize'' [ty_cusolverDnHandle_t, ty_cusolver_int_t, ty_cusolver_int_t, Ptr ty_cuComplex, ty_cusolver_int_t, Ptr ty_cusolver_int_t, Ptr ty_cuComplex, ty_cusolver_int_t, Ptr ty_cuComplex, ty_cusolver_int_t, Ptr ty_void, Ptr ty_size_t]
       ''cusolverDnCKgesv_bufferSize'' ty_cusolverStatus_t [ty_cusolverDnHandle_t, ty_cusolver_int_t, ty_cusolver_int_t, Ptr ty_cuComplex, ty_cusolver_int_t, Ptr ty_cusolver_int_t, Ptr ty_cuComplex, ty_cusolver_int_t, Ptr ty_cuComplex, ty_cusolver_int_t, Ptr ty_void, Ptr ty_size_t] ''cusolverDnCKgesv_bufferSize'' [0, 1, 2, 3, 4, 5, 6, 7, 8, 9, 10, 11] False]"

definition cusolver_hooks_5 :: "gen_hook list" where
  "cusolver_hooks_5 =
    [Gen cusolver ty_cusolverStatus_t ''cusolverDnCEgesv_bufferSize'' [ty_cusolverDnHandle_t, ty_cusolver_int_t, ty_cusolver_int_t, Ptr ty_cuComplex, ty_cusolver_int_t, Ptr ty_cusolver_int_t, Ptr ty_cuComplex, ty_cusolver_int_t, Ptr ty_cuComplex, ty_cusolver_int_t, Ptr ty_void, Ptr ty_size_t]
       ''cusolverDnCEgesv_bufferSize'' ty_cusolverStatus_t [ty_cusolverDnHandle_t, ty_cusolver_int_t, ty_cusolver_int_t, Ptr ty_cuComplex, ty_cusolver_int_t, Ptr ty_cusolver_int_t, Ptr ty_cuComplex, ty_cusolver_int_t, Ptr ty_cuComplex, ty_cusolver_int_t, Ptr ty_void, Ptr ty_size_t] ''cusolverDnCEgesv_bufferSize'' [0, 1, 2, 3, 4, 5, 6, 7, 8, 9, 10, 11] False,
     Gen cusolver ty_cusolverStatus_t ''cusolverDnCYgesv_bufferSize'' [ty_cusolverDnHandle_t, ty_cusolver_int_t, ty_cusolver_int_t, Ptr ty_cuComplex, ty_cusolver_int_t, Ptr ty_cusolver_int_t, Ptr ty_cuComplex, ty_cusolver_int_t, Ptr ty_cuComplex, ty_cusolver_int_t, Ptr ty_void, Ptr ty_size_t]
       ''cusolverDnCYgesv_bufferSize'' ty_cusolverStatus_t [ty_cusolverDnHandle_t, ty_cusolver_int_t, ty_cusolver_int_t, Ptr ty_cuComplex, ty_cusolver_int_t, Ptr ty_cusolver_int_t, Ptr ty_cuComplex, ty_cusolver_int_t, Ptr ty_cuComplex, ty_cusolver_int_t, Ptr ty_void, Ptr ty_size_t] ''cusolverDnCYgesv_bufferSize'' [0, 1, 2, 3, 4, 5, 6, 7, 8, 9, 10, 11] False,
     Gen cusolver ty_cusolverStatus_t ''cusolverDnDDgesv_bufferSize'' [ty_cusolverDnHandle_t, ty_cusolver_int_t, ty_cusolver_int_t, Ptr ty_double, ty_cusolver_int_t, Ptr ty_cusolver_int_t, Ptr ty_double, ty_cusolver_int_t, Ptr ty_double, ty_cusolver_int_t, Ptr ty_void, Ptr ty_size_t]
       ''cusolverDnDDgesv_bufferSize'' ty_cusolverStatus_t [ty_cusolverDnHandle_t, ty_cusolver_int_t, ty_cusolver_int_t, Ptr ty_double, ty_cusolver_int_t, Ptr ty_cusolver_int_t, Ptr ty_double, ty_cusolver_int_t, Ptr ty_double, ty_cusolver_int_t, Ptr ty_void, Ptr ty_size_t] ''cusolverDnDDgesv_bufferSize'' [0, 1, 2, 3, 4, 5, 6, 7, 8, 9, 10, 11] False,
     Gen cusolver ty_cusolverStatus_t ''cusolverDnDSgesv_bufferSize'' [ty_cusolverDnHandle_t, ty_cusolver_int_t, ty_cusolver_int_t, Ptr ty_double, ty_cusolver_int_t, Ptr ty_cusolver_int_t, Ptr ty_double, ty_cusolver_int_t, Ptr ty_double, ty_cusolver_int_t, Ptr ty_void, Ptr ty_size_t]
       ''cusolverDnDSgesv_bufferSize'' ty_cusolverStatus_t [ty_cusolverDnHandle_t, ty_cusolver_int_t, ty_cusolver_int_t, Ptr ty_double, ty_cusolver_int_t, Ptr ty_cusolver_int_t, Ptr ty_double, ty_cusolver_int_t, Ptr ty_double, ty_cusolver_int_t, Ptr ty_void, Ptr ty_size_t] ''cusolverDnDSgesv_bufferSize'' [0, 1, 2, 3, 4, 5, 6, 7, 8, 9, 10, 11] False,
     Gen cusolver ty_cusolverStatus_t ''cusolverDnDHgesv_bufferSize'' [ty_cusolverDnHandle_t, ty_cusolver_int_t, ty_cusolver_int_t, Ptr ty_double, ty_cusolver_int_t, Ptr ty_cusolver_int_t, Ptr ty_double, ty_cusolver_int_t, Ptr ty_double, ty_cusolver_int_t, Ptr ty_void, Ptr ty_size_t]
       ''cusolverDnDHgesv_bufferSize'' ty_cusolverStatus_t [ty_cusolverDnHandle_t, ty_cusolver_int_t, ty_cusolver_int_t, Ptr ty_double, ty_cusolver_int_t, Ptr ty_cusolver_int_t, Ptr ty_double, ty_cusolver_int_t, Ptr ty_double, ty_cusolver_int_t, Ptr ty_void, Ptr ty_size_t] ''cusolverDnDHgesv_bufferSize'' [0, 1, 2, 3, 4, 5, 6, 7, 8, 9, 10, 11] False,
     Gen cusolver ty_cusolverStatus_t ''cusolverDnDBgesv_bufferSize'' [ty_cusolverDnHandle_t, ty_cusolver_int_t, ty_cusolver_int_t, Ptr ty_double, ty_cusolver_int_t, Ptr ty_cusolver_int_t, Ptr ty_double, ty_cusolver_int_t, Ptr ty_double, ty_cusolver_int_t, Ptr ty_void, Ptr ty_size_t]
       ''cusolverDnDBgesv_bufferSize'' ty_cusolverStatus_t [ty_cusolverDnHandle_t, ty_cusolver_int_t, ty_cusolver_int_t, Ptr ty_double, ty_cusolver_int_t, Ptr ty_cusolver_int_t, Ptr ty_double, ty_cusolver_int_t, Ptr ty_double, ty_cusolver_int_t, Ptr ty_void, Ptr ty_size_t] ''cusolverDnDBgesv_bufferSize'' [0, 1, 2, 3, 4, 5, 6, 7, 8, 9, 10, 11] False,
     Gen cusolver ty_cusolverStatus_t ''cusolverDnDXgesv_bufferSize'' [ty_cusolverDnHandle_t, ty_cusolver_int_t, ty_cusolver_int_t, Ptr ty_double, ty_cusolver_int_t, Ptr ty_cusolver_int_t, Ptr ty_double, ty_cusolver_int_t, Ptr ty_double, ty_cusolver_int_t, Ptr ty_void, Ptr ty_size_t]
       ''cusolverDnDXgesv_bufferSize'' ty_cusolverStatus_t [ty_cusolverDnHandle_t, ty_cusolver_int_t, ty_cusolver_int_t, Ptr ty_double, ty_cusolver_int_t, Ptr ty_cusolver_int_t, Ptr ty_double, ty_cusolver_int_t, Ptr ty_double, ty_cusolver_int_t, Ptr ty_void, Ptr ty_size_t] ''cusolverDnDXgesv_bufferSize'' [0, 1, 2, 3, 4, 5, 6, 7, 8, 9, 10, 11] False,
     Gen cusolver ty_cusolverStatus_t ''cusolverDnSSgesv_bufferSize'' [ty_cusolverDnHandle_t, ty_cusolver_int_t, ty_cusolver_int_t, Ptr ty_float, ty_cusolver_int_t, Ptr ty_cusolver_int_t, Ptr ty_float, ty_cusolver_int_t, Ptr ty_float, ty_cusolver_int_t, Ptr ty_void, Ptr ty_size_t]
       ''cusolverDnSSgesv_bufferSize'' ty_cusolverStatus_t [ty_cusolverDnHandle_t, ty_cusolver_int_t, ty_cusolver_int_t, Ptr ty_float, ty_cusolver_int_t, Ptr ty_cusolver_int_t, Ptr ty_float, ty_cusolver_int_t, Ptr ty_float, ty_cusolver_int_t, Ptr ty_void, Ptr ty_size_t] ''cusolverDnSSgesv_bufferSize'' [0, 1, 2, 3, 4, 5, 6, 7, 8, 9, 10, 11] False,
     Gen cusolver ty_cusolverStatus_t ''cusolverDnSHgesv_bufferSize'' [ty_cusolverDnHandle_t, ty_cusolver_int_t, ty_cusolver_int_t, Ptr ty_float, ty_cusolver_int_t, Ptr ty_cusolver_int_t, Ptr ty_float, ty_cusolver_int_t, Ptr ty_float, ty_cusolver_int_t, Ptr ty_void, Ptr ty_size_t]
       ''cusolverDnSHgesv_bufferSize'' ty_cusolverStatus_t [ty_cusolverDnHandle_t, ty_cusolver_int_t, ty_cusolver_int_t, Ptr ty_float, ty_cusolver_int_t, Ptr ty_cusolver_int_t, Ptr ty_float, ty_cusolver_int_t, Ptr ty_float, ty_cusolver_int_t, Ptr ty_void, Ptr ty_size_t] ''cusolverDnSHgesv_bufferSize'' [0, 1, 2, 3, 4, 5, 6, 7, 8, 9, 10, 11] False,
     Gen cusolver ty_cusolverStatus_t ''cusolverDnSBgesv_bufferSize'' [ty_cusolverDnHandle_t, ty_cusolver_int_t, ty_cusolver_int_t, Ptr ty_float, ty_cusolver_int_t, Ptr ty_cusolver_int_t, Ptr ty_float, ty_cusolver_int_t, Ptr ty_float, ty_cusolver_int_t, Ptr ty_void, Ptr ty_size_t]
       ''cusolverDnSBgesv_bufferSize'' ty_cusolverStatus_t [ty_cusolverDnHandle_t, ty_cusolver_int_t, ty_cusolver_int_t, Ptr ty_float, ty_cusolver_int_t, Ptr ty_cusolver_int_t, Ptr ty_float, ty_cusolver_int_t, Ptr ty_float, ty_cusolver_int_t, Ptr ty_void, Ptr ty_size_t] ''cusolverDnSBgesv_bufferSize'' [0, 1, 2, 3, 4, 5, 6, 7, 8, 9, 10, 11] False]"

definition cusolver_hooks_6 :: "gen_hook list" where
  "cusolver_hooks_6 =
    [Gen cusolver ty_cusolverStatus_t ''cusolverDnSXgesv_bufferSize'' [ty_cusolverDnHandle_t, ty_cusolver_int_t, ty_cusolver_int_t, Ptr ty_float, ty_cusolver_int_t, Ptr ty_cusolver_int_t, Ptr ty_float, ty_cusolver_int_t, Ptr ty_float, ty_cusolver_int_t, Ptr ty_void, Ptr ty_size_t]
       ''cusolverDnSXgesv_bufferSize'' ty_cusolverStatus_t [ty_cusolverDnHandle_t, ty_cusolver_int_t, ty_cusolver_int_t, Ptr ty_float, ty_cusolver_int_t, Ptr ty_cusolver_int_t, Ptr ty_float, ty_cusolver_int_t, Ptr ty_float, ty_cusolver_int_t, Ptr ty_void, Ptr ty_size_t] ''cusolverDnSXgesv_bufferSize'' [0, 1, 2, 3, 4, 5, 6, 7, 8, 9, 10, 11] False,
     Gen cusolver ty_cusolverStatus_t ''cusolverDnZZgels'' [ty_cusolverDnHandle_t, ty_cusolver_int_t, ty_cusolver_int_t, ty_cusolver_int_t, Ptr ty_cuDoubleComplex, ty_cusolver_int_t, Ptr ty_cuDoubleComplex, ty_cusolver_int_t, Ptr ty_cuDoubleComplex, ty_cusolver_int_t, Ptr ty_void, ty_size_t, Ptr ty_cusolver_int_t, Ptr ty_cusolver_int_t]
       ''cusolverDnZZgels'' ty_cusolverStatus_t [ty_cusolverDnHandle_t, ty_cusolver_int_t, ty_cusolver_int_t, ty_cusolver_int_t, Ptr ty_cuDoubleComplex, ty_cusolver_int_t, Ptr ty_cuDoubleComplex, ty_cusolver_int_t, Ptr ty_cuDoubleComplex, ty_cusolver_int_t, Ptr ty_void, ty_size_t, Ptr ty_cusolver_int_t, Ptr ty_cusolver_int_t] ''cusolverDnZZgels'' [0, 1, 2, 3, 4, 5, 6, 7, 8, 9, 10, 11, 12, 13] False,
     Gen cusolver ty_cusolverStatus_t ''cusolverDnZCgels'' [ty_cusolverDnHandle_t, ty_cusolver_int_t, ty_cusolver_int_t, ty_cusolver_int_t, Ptr ty_cuDoubleComplex, ty_cusolver_int_t, Ptr ty_cuDoubleComplex, ty_cusolver_int_t, Ptr ty_cuDoubleComplex, ty_cusolver_int_t, Ptr ty_void, ty_size_t, Ptr ty_cusolver_int_t, Ptr ty_cusolver_int_t]
       ''cusolverDnZCgels'' ty_cusolverStatus_t [ty_cusolverDnHandle_t, ty_cusolver_int_t, ty_cusolver_int_t, ty_cusolver_int_t, Ptr ty_cuDoubleComplex, ty_cusolver_int_t, Ptr ty_cuDoubleComplex, ty_cusolver_int_t, Ptr ty_cuDoubleComplex, ty_cusolver_int_t, Ptr ty_void, ty_size_t, Ptr ty_cusolver_int_t, Ptr ty_cusolver_int_t] ''cusolverDnZCgels'' [0, 1, 2, 3, 4, 5, 6, 7, 8, 9, 10, 11, 12, 13] False,
     Gen cusolver ty_cusolverStatus_t ''cusolverDnZKgels'' [ty_cusolverDnHandle_t, ty_cusolver_int_t, ty_cusolver_int_t, ty_cusolver_int_t, Ptr ty_cuDoubleComplex, ty_cusolver_int_t, Ptr ty_cuDoubleComplex, ty_cusolver_int_t, Ptr ty_cuDoubleComplex, ty_cusolver_int_t, Ptr ty_void, ty_size_t, Ptr ty_cusolver_int_t, Ptr ty_cusolver_int_t]
       ''cusolverDnZKgels'' ty_cusolverStatus_t [ty_cusolverDnHandle_t, ty_cusolver_int_t, ty_cusolver_int_t, ty_cusolver_int_t, Ptr ty_cuDoubleComplex, ty_cusolver_int_t, Ptr ty_cuDoubleComplex, ty_cusolver_int_t, Ptr ty_cuDoubleComplex, ty_cusolver_int_t, Ptr ty_void, ty_size_t, Ptr ty_cusolver_int_t, Ptr ty_cusolver_int_t] ''cusolverDnZKgels'' [0, 1, 2, 3, 4, 5, 6, 7, 8, 9, 10, 11, 12, 13] False,
     Gen cusolver ty_cusolverStatus_t ''cusolverDnZEgels'' [ty_cusolverDnHandle_t, ty_cusolver_int_t, ty_cusolver_int_t, ty_cusolver_int_t, Ptr ty_cuDoubleComplex, ty_cusolver_int_t, Ptr ty_cuDoubleComplex, ty_cusolver_int_t, Ptr ty_cuDoubleComplex, ty_cusolver_int_t, Ptr ty_void, ty_size_t, Ptr ty_cusolver_int_t, Ptr ty_cusolver_int_t]
       ''cusolverDnZEgels'' ty_cusolverStatus_t [ty_cusolverDnHandle_t, ty_cusolver_int_t, ty_cusolver_int_t, ty_cusolver_int_t, Ptr ty_cuDoubleComplex, ty_cusolver_int_t, Ptr ty_cuDoubleComplex, ty_cusolver_int_t, Ptr ty_cuDoubleComplex, ty_cusolver_int_t, Ptr ty_void, ty_size_t, Ptr ty_cusolver_int_t, Ptr ty_cusolver_int_t] ''cusolverDnZEgels'' [0, 1, 2, 3, 4, 5, 6, 7, 8, 9, 10, 11, 12, 13] False,
     Gen cusolver ty_cusolverStatus_t ''cusolverDnZYgels'' [ty_cusolverDnHandle_t, ty_cusolver_int_t, ty_cusolver_int_t, ty_cusolver_int_t, Ptr ty_cuDoubleComplex, ty_cusolver_int_t, Ptr ty_cuDoubleComplex, ty_cusolver_int_t, Ptr ty_cuDoubleComplex, ty_cusolver_int_t, Ptr ty_void, ty_size_t, Ptr ty_cusolver_int_t, Ptr ty_cusolver_int_t]
       ''cusolverDnZYgels'' ty_cusolverStatus_t [ty_cusolverDnHandle_t, ty_cusolver_int_t, ty_cusolver_int_t, ty_cusolver_int_t, Ptr ty_cuDoubleComplex, ty_cusolver_int_t, Ptr ty_cuDoubleComplex, ty_cusolver_int_t, Ptr ty_cuDoubleComplex, ty_cusolver_int_t, Ptr ty_void, ty_size_t, Ptr ty_cusolver_int_t, Ptr ty_cusolver_int_t] ''cusolverDnZYgels'' [0, 1, 2, 3, 4, 5, 6, 7, 8, 9, 10, 11, 12, 13] False,
     Gen cusolver ty_cusolverStatus_t ''cusolverDnCCgels'' [ty_cusolverDnHandle_t, ty_cusolver_int_t, ty_cusolver_int_t, ty_cusolver_int_t, Ptr ty_cuComplex, ty_cusolver_int_t, Ptr ty_cuComplex, ty_cusolver_int_t, Ptr ty_cuComplex, ty_cusolver_int_t, Ptr ty_void, ty_size_t, Ptr ty_cusolver_int_t, Ptr ty_cusolver_int_t]
       ''cusolverDnCCgels'' ty_cusolverStatus_t [ty_cusolverDnHandle_t, ty_cusolver_int_t, ty_cusolver_int_t, ty_cusolver_int_t, Ptr ty_cuComplex, ty_cusolver_int_t, Ptr ty_cuComplex, ty_cusolver_int_t, Ptr ty_cuComplex, ty_cusolver_int_t, Ptr ty_void, ty_size_t, Ptr ty_cusolver_int_t, Ptr ty_cusolver_int_t] ''cusolverDnCCgels'' [0, 1, 2, 3, 4, 5, 6, 7, 8, 9, 10, 11, 12, 13] False,
     Gen cusolver ty_cusolverStatus_t ''cusolverDnCKgels'' [ty_cusolverDnHandle_t, ty_cusolver_int_t, ty_cusolver_int_t, ty_cusolver_int_t, Ptr ty_cuComplex, ty_cusolver_int_t, Ptr ty_cuComplex, ty_cusolver_int_t, Ptr ty_cuComplex, ty_cusolver_int_t, Ptr ty_void, ty_size_t, Ptr ty_cusolver_int_t, Ptr ty_cusolver_int_t]
       ''cusolverDnCKgels'' ty_cusolverStatus_t [ty_cusolverDnHandle_t, ty_cusolver_int_t, ty_cusolver_int_t, ty_cusolver_int_t, Ptr ty_cuComplex, ty_cusolver_int_t, Ptr ty_cuComplex, ty_cusolver_int_t, Ptr ty_cuComplex, ty_cusolver_int_t, Ptr ty_void, ty_size_t, Ptr ty_cusolver_int_t, Ptr ty_cusolver_int_t] ''cusolverDnCKgels'' [0, 1, 2, 3, 4, 5, 6, 7, 8, 9, 10, 11, 12, 13] False,
     Gen cusolver ty_cusolverStatus_t ''cusolverDnCEgels'' [ty_cusolverDnHandle_t, ty_cusolver_int_t, ty_cusolver_int_t, ty_cusolver_int_t, Ptr ty_cuComplex, ty_cusolver_int_t, Ptr ty_cuComplex, ty_cusolver_int_t, Ptr ty_cuComplex, ty_cusolver_int_t, Ptr ty_void, ty_size_t, Ptr ty_cusolver_int_t, Ptr ty_cusolver_int_t]
       ''cusolverDnCEgels'' ty_cusolverStatus_t [ty_cusolverDnHandle_t, ty_cusolver_int_t, ty_cusolver_int_t, ty_cusolver_int_t, Ptr ty_cuComplex, ty_cusolver_int_t, Ptr ty_cuComplex, ty_cusolver_int_t, Ptr ty_cuComplex, ty_cusolver_int_t, Ptr ty_void, ty_size_t, Ptr ty_cusolver_int_t, Ptr ty_cusolver_int_t] ''cusolverDnCEgels'' [0, 1, 2, 3, 4, 5, 6, 7, 8, 9, 10, 11, 12, 13] False,
     Gen cusolver ty_cusolverStatus_t ''cusolverDnCYgels'' [ty_cusolverDnHandle_t, ty_cusolver_int_t, ty_cusolver_int_t, ty_cusolver_int_t, Ptr ty_cuComplex, ty_cusolver_int_t, Ptr ty_cuComplex, ty_cusolver_int_t, Ptr ty_cuComplex, ty_cusolver_int_t, Ptr ty_void, ty_size_t, Ptr ty_cusolver_int_t, Ptr ty_cusolver_int_t]
       ''cusolverDnCYgels'' ty_cusolverStatus_t [ty_cusolverDnHandle_t, ty_cusolver_int_t, ty_cusolver_int_t, ty_cusolver_int_t, Ptr ty_cuComplex, ty_cusolver_int_t, Ptr ty_cuComplex, ty_cusolver_int_t, Ptr ty_cuComplex, ty_cusolver_int_t, Ptr ty_void, ty_size_t, Ptr ty_cusolver_int_t, Ptr ty_cusolver_int_t] ''cusolverDnCYgels'' [0, 1, 2, 3, 4, 5, 6, 7, 8, 9, 10, 11, 12, 13] False]"

definition cusolver_hooks_7 :: "gen_hook list" where
  "cusolver_hooks_7 =
    [Gen cusolver ty_cusolverStatus_t ''cusolverDnDDgels'' [ty_cusolverDnHandle_t, ty_cusolver_int_t, ty_cusolver_int_t, ty_cusolver_int_t, Ptr ty_double, ty_cusolver_int_t, Ptr ty_double, ty_cusolver_int_t, Ptr ty_double, ty_cusolver_int_t, Ptr ty_void, ty_size_t, Ptr ty_cusolver_int_t, Ptr ty_cusolver_int_t]
       ''cusolverDnDDgels'' ty_cusolverStatus_t [ty_cusolverDnHandle_t, ty_cusolver_int_t, ty_cusolver_int_t, ty_cusolver_int_t, Ptr ty_double, ty_cusolver_int_t, Ptr ty_double, ty_cusolver_int_t, Ptr ty_double, ty_cusolver_int_t, Ptr ty_void, ty_size_t, Ptr ty_cusolver_int_t, Ptr ty_cusolver_int_t] ''cusolverDnDDgels'' [0, 1, 2, 3, 4, 5, 6, 7, 8, 9, 10, 11, 12, 13] False,
     Gen cusolver ty_cusolverStatus_t ''cusolverDnDSgels'' [ty_cusolverDnHandle_t, ty_cusolver_int_t, ty_cusolver_int_t, ty_cusolver_int_t, Ptr ty_double, ty_cusolver_int_t, Ptr ty_double, ty_cusolver_int_t, Ptr ty_double, ty_cusolver_int_t, Ptr ty_void, ty_size_t, Ptr ty_cusolver_int_t, Ptr ty_cusolver_int_t]
       ''cusolverDnDSgels'' ty_cusolverStatus_t [ty_cusolverDnHandle_t, ty_cusolver_int_t, ty_cusolver_int_t, ty_cusolver_int_t, Ptr ty_double, ty_cusolver_int_t, Ptr ty_double, ty_cusolver_int_t, Ptr ty_double, ty_cusolver_int_t, Ptr ty_void, ty_size_t, Ptr ty_cusolver_int_t, Ptr ty_cusolver_int_t] ''cusolverDnDSgels'' [0, 1, 2, 3, 4, 5, 6, 7, 8, 9, 10, 11, 12, 13] False,
     Gen cusolver ty_cusolverStatus_t ''cusolverDnDHgels'' [ty_cusolverDnHandle_t, ty_cusolver_int_t, ty_cusolver_int_t, ty_cusolver_int_t, Ptr ty_double, ty_cusolver_int_t, Ptr ty_double, ty_cusolver_int_t, Ptr ty_double, ty_cusolver_int_t, Ptr ty_void, ty_size_t, Ptr ty_cusolver_int_t, Ptr ty_cusolver_int_t]
       ''cusolverDnDHgels'' ty_cusolverStatus_t [ty_cusolverDnHandle_t, ty_cusolver_int_t, ty_cusolver_int_t, ty_cusolver_int_t, Ptr ty_double, ty_cusolver_int_t, Ptr ty_double, ty_cusolver_int_t, Ptr ty_double, ty_cusolver_int_t, Ptr ty_void, ty_size_t, Ptr ty_cusolver_int_t, Ptr ty_cusolver_int_t] ''cusolverDnDHgels'' [0, 1, 2, 3, 4, 5, 6, 7, 8, 9, 10, 11, 12, 13] False,
     Gen cusolver ty_cusolverStatus_t ''cusolverDnDBgels'' [ty_cusolverDnHandle_t, ty_cusolver_int_t, ty_cusolver_int_t, ty_cusolver_int_t, Ptr ty_double, ty_cusolver_int_t, Ptr ty_double, ty_cusolver_int_t, Ptr ty_double, ty_cusolver_int_t, Ptr ty_void, ty_size_t, Ptr ty_cusolver_int_t, Ptr ty_cusolver_int_t]
       ''cusolverDnDBgels'' ty_cusolverStatus_t [ty_cusolverDnHandle_t, ty_cusolver_int_t, ty_cusolver_int_t, ty_cusolver_int_t, Ptr ty_double, ty_cusolver_int_t, Ptr ty_double, ty_cusolver_int_t, Ptr ty_double, ty_cusolver_int_t, Ptr ty_void, ty_size_t, Ptr ty_cusolver_int_t, Ptr ty_cusolver_int_t] ''cusolverDnDBgels'' [0, 1, 2, 3, 4, 5, 6, 7, 8, 9, 10, 11, 12, 13] False,
     Gen cusolver ty_cusolverStatus_t ''cusolverDnDXgels'' [ty_cusolverDnHandle_t, ty_cusolver_int_t, ty_cusolver_int_t, ty_cusolver_int_t, Ptr ty_double, ty_cusolver_int_t, Ptr ty_double, ty_cusolver_int_t, Ptr ty_double, ty_cusolver_int_t, Ptr ty_void, ty_size_t, Ptr ty_cusolver_int_t, Ptr ty_cusolver_int_t]
       ''cusolverDnDXgels'' ty_cusolverStatus_t [ty_cusolverDnHandle_t, ty_cusolver_int_t, ty_cusolver_int_t, ty_cusolver_int_t, Ptr ty_double, ty_cusolver_int_t, Ptr ty_double, ty_cusolver_int_t, Ptr ty_double, ty_cusolver_int_t, Ptr ty_void, ty_size_t, Ptr ty_cusolver_int_t, Ptr ty_cusolver_int_t] ''cusolverDnDXgels'' [0, 1, 2, 3, 4, 5, 6, 7, 8, 9, 10, 11, 12, 13] False,
     Gen cusolver ty_cusolverStatus_t ''cusolverDnSSgels'' [ty_cusolverDnHandle_t, ty_cusolver_int_t, ty_cusolver_int_t, ty_cusolver_int_t, Ptr ty_float, ty_cusolver_int_t, Ptr ty_float, ty_cusolver_int_t, Ptr ty_float, ty_cusolver_int_t, Ptr ty_void, ty_size_t, Ptr ty_cusolver_int_t, Ptr ty_cusolver_int_t]
       ''cusolverDnSSgels'' ty_cusolverStatus_t [ty_cusolverDnHandle_t, ty_cusolver_int_t, ty_cusolver_int_t, ty_cusolver_int_t, Ptr ty_float, ty_cusolver_int_t, Ptr ty_float, ty_cusolver_int_t, Ptr ty_float, ty_cusolver_int_t, Ptr ty_void, ty_size_t, Ptr ty_cusolver_int_t, Ptr ty_cusolver_int_t] ''cusolverDnSSgels'' [0, 1, 2, 3, 4, 5, 6, 7, 8, 9, 10, 11, 12, 13] False,
     Gen cusolver ty_cusolverStatus_t ''cusolverDnSHgels'' [ty_cusolverDnHandle_t, ty_cusolver_int_t, ty_cusolver_int_t, ty_cusolver_int_t, Ptr ty_float, ty_cusolver_int_t, Ptr ty_float, ty_cusolver_int_t, Ptr ty_float, ty_cusolver_int_t, Ptr ty_void, ty_size_t, Ptr ty_cusolver_int_t, Ptr ty_cusolver_int_t]
       ''cusolverDnSHgels'' ty_cusolverStatus_t [ty_cusolverDnHandle_t, ty_cusolver_int_t, ty_cusolver_int_t, ty_cusolver_int_t, Ptr ty_float, ty_cusolver_int_t, Ptr ty_float, ty_cusolver_int_t, Ptr ty_float, ty_cusolver_int_t, Ptr ty_void, ty_size_t, Ptr ty_cusolver_int_t, Ptr ty_cusolver_int_t] ''cusolverDnSHgels'' [0, 1, 2, 3, 4, 5, 6, 7, 8, 9, 10, 11, 12, 13] False,
     Gen cusolver ty_cusolverStatus_t ''cusolverDnSBgels'' [ty_cusolverDnHandle_t, ty_cusolver_int_t, ty_cusolver_int_t, ty_cusolver_int_t, Ptr ty_float, ty_cusolver_int_t, Ptr ty_float, ty_cusolver_int_t, Ptr ty_float, ty_cusolver_int_t, Ptr ty_void, ty_size_t, Ptr ty_cusolver_int_t, Ptr ty_cusolver_int_t]
       ''cusolverDnSBgels'' ty_cusolverStatus_t [ty_cusolverDnHandle_t, ty_cusolver_int_t, ty_cusolver_int_t, ty_cusolver_int_t, Ptr ty_float, ty_cusolver_int_t, Ptr ty_float, ty_cusolver_int_t, Ptr ty_float, ty_cusolver_int_t, Ptr ty_void, ty_size_t, Ptr ty_cusolver_int_t, Ptr ty_cusolver_int_t] ''cusolverDnSBgels'' [0, 1, 2, 3, 4, 5, 6, 7, 8, 9, 10, 11, 12, 13] False,
     Gen cusolver ty_cusolverStatus_t ''cusolverDnSXgels'' [ty_cusolverDnHandle_t, ty_cusolver_int_t, ty_cusolver_int_t, ty_cusolver_int_t, Ptr ty_float, ty_cusolver_int_t, Ptr ty_float, ty_cusolver_int_t, Ptr ty_float, ty_cusolver_int_t, Ptr ty_void, ty_size_t, Ptr ty_cusolver_int_t, Ptr ty_cusolver_int_t]
       ''cusolverDnSXgels'' ty_cusolverStatus_t [ty_cusolverDnHandle_t, ty_cusolver_int_t, ty_cusolver_int_t, ty_cusolver_int_t, Ptr ty_float, ty_cusolver_int_t, Ptr ty_float, ty_cusolver_int_t, Ptr ty_float, ty_cusolver_int_t, Ptr ty_void, ty_size_t, Ptr ty_cusolver_int_t, Ptr ty_cusolver_int_t] ''cusolverDnSXgels'' [0, 1, 2, 3, 4, 5, 6, 7, 8, 9, 10, 11, 12, 13] False,
     Gen cusolver ty_cusolverStatus_t ''cusolverDnZZgels_bufferSize'' [ty_cusolverDnHandle_t, ty_cusolver_int_t, ty_cusolver_int_t, ty_cusolver_int_t, Ptr ty_cuDoubleComplex, ty_cusolver_int_t, Ptr ty_cuDoubleComplex, ty_cusolver_int_t, Ptr ty_cuDoubleComplex, ty_cusolver_int_t, Ptr ty_void, Ptr ty_size_t]
       ''cusolverDnZZgels_bufferSize'' ty_cusolverStatus_t [ty_cusolverDnHandle_t, ty_cusolver_int_t, ty_cusolver_int_t, ty_cusolver_int_t, Ptr ty_cuDoubleComplex, ty_cusolver_int_t, Ptr ty_cuDoubleComplex, ty_cusolver_int_t, Ptr ty_cuDoubleComplex, ty_cusolver_int_t, Ptr ty_void, Ptr ty_size_t] ''cusolverDnZZgels_bufferSize'' [0, 1, 2, 3, 4, 5, 6, 7, 8, 9, 10, 11] False]"

definition cusolver_hooks_8 :: "gen_hook list" where
  "cusolver_hooks_8 =
    [Gen cusolver ty_cusolverStatus_t ''cusolverDnZCgels_bufferSize'' [ty_cusolverDnHandle_t, ty_cusolver_int_t, ty_cusolver_int_t, ty_cusolver_int_t, Ptr ty_cuDoubleComplex, ty_cusolver_int_t, Ptr ty_cuDoubleComplex, ty_cusolver_int_t, Ptr ty_cuDoubleComplex, ty_cusolver_int_t, Ptr ty_void, Ptr ty_size_t]
       ''cusolverDnZCgels_bufferSize'' ty_cusolverStatus_t [ty_cusolverDnHandle_t, ty_cusolver_int_t, ty_cusolver_int_t, ty_cusolver_int_t, Ptr ty_cuDoubleComplex, ty_cusolver_int_t, Ptr ty_cuDoubleComplex, ty_cusolver_int_t, Ptr ty_cuDoubleComplex, ty_cusolver_int_t, Ptr ty_void, Ptr ty_size_t] ''cusolverDnZCgels_bufferSize'' [0, 1, 2, 3, 4, 5, 6, 7, 8, 9, 10, 11] False,
     Gen cusolver ty_cusolverStatus_t ''cusolverDnZKgels_bufferSize'' [ty_cusolverDnHandle_t, ty_cusolver_int_t, ty_cusolver_int_t, ty_cusolver_int_t, Ptr ty_cuDoubleComplex, ty_cusolver_int_t, Ptr ty_cuDoubleComplex, ty_cusolver_int_t, Ptr ty_cuDoubleComplex, ty_cusolver_int_t, Ptr ty_void, Ptr ty_size_t]
       ''cusolverDnZKgels_bufferSize'' ty_cusolverStatus_t [ty_cusolverDnHandle_t, ty_cusolver_int_t, ty_cusolver_int_t, ty_cusolver_int_t, Ptr ty_cuDoubleComplex, ty_cusolver_int_t, Ptr ty_cuDoubleComplex, ty_cusolver_int_t, Ptr ty_cuDoubleComplex, ty_cusolver_int_t, Ptr ty_void, Ptr ty_size_t] ''cusolverDnZKgels_bufferSize'' [0, 1, 2, 3, 4, 5, 6, 7, 8, 9, 10, 11] False,
     Gen cusolver ty_cusolverStatus_t ''cusolverDnZEgels_bufferSize'' [ty_cusolverDnHandle_t, ty_cusolver_int_t, ty_cusolver_int_t, ty_cusolver_int_t, Ptr ty_cuDoubleComplex, ty_cusolver_int_t, Ptr ty_cuDoubleComplex, ty_cusolver_int_t, Ptr ty_cuDoubleComplex, ty_cusolver_int_t, Ptr ty_void, Ptr ty_size_t]
       ''cusolverDnZEgels_bufferSize'' ty_cusolverStatus_t [ty_cusolverDnHandle_t, ty_cusolver_int_t, ty_cusolver_int_t, ty_cusolver_int_t, Ptr ty_cuDoubleComplex, ty_cusolver_int_t, Ptr ty_cuDoubleComplex, ty_cusolver_int_t, Ptr ty_cuDoubleComplex, ty_cusolver_int_t, Ptr ty_void, Ptr ty_size_t] ''cusolverDnZEgels_bufferSize'' [0, 1, 2, 3, 4, 5, 6, 7, 8, 9, 10, 11] False,
     Gen cusolver ty_cusolverStatus_t ''cusolverDnZYgels_bufferSize'' [ty_cusolverDnHandle_t, ty_cusolver_int_t, ty_cusolver_int_t, ty_cusolver_int_t, Ptr ty_cuDoubleComplex, ty_cusolver_int_t, Ptr ty_cuDoubleComplex, ty_cusolver_int_t, Ptr ty_cuDoubleComplex, ty_cusolver_int_t, Ptr ty_void, Ptr ty_size_t]
       ''cusolverDnZYgels_bufferSize'' ty_cusolverStatus_t [ty_cusolverDnHandle_t, ty_cusolver_int_t, ty_cusolver_int_t, ty_cusolver_int_t, Ptr ty_cuDoubleComplex, ty_cusolver_int_t, Ptr ty_cuDoubleComplex, ty_cusolver_int_t, Ptr ty_cuDoubleComplex, ty_cusolver_int_t, Ptr ty_void, Ptr ty_size_t] ''cusolverDnZYgels_bufferSize'' [0, 1, 2, 3, 4, 5, 6, 7, 8, 9, 10, 11] False,
     Gen cusolver ty_cusolverStatus_t ''cusolverDnCCgels_bufferSize'' [ty_cusolverDnHandle_t, ty_cusolver_int_t, ty_cusolver_int_t, ty_cusolver_int_t, Ptr ty_cuComplex, ty_cusolver_int_t, Ptr ty_cuComplex, ty_cusolver_int_t, Ptr ty_cuComplex, ty_cusolver_int_t, Ptr ty_void, Ptr ty_size_t]
       ''cusolverDnCCgels_bufferSize'' ty_cusolverStatus_t [ty_cusolverDnHandle_t, ty_cusolver_int_t, ty_cusolver_int_t, ty_cusolver_int_t, Ptr ty_cuComplex, ty_cusolver_int_t, Ptr ty_cuComplex, ty_cusolver_int_t, Ptr ty_cuComplex, ty_cusolver_int_t, Ptr ty_void, Ptr ty_size_t] ''cusolverDnCCgels_bufferSize'' [0, 1, 2, 3, 4, 5, 6, 7, 8, 9, 10, 11] False,
     Gen cusolver ty_cusolverStatus_t ''cusolverDnCKgels_bufferSize'' [ty_cusolverDnHandle_t, ty_cusolver_int_t, ty_cusolver_int_t, ty_cusolver_int_t, Ptr ty_cuComplex, ty_cusolver_int_t, Ptr ty_cuComplex, ty_cusolver_int_t, Ptr ty_cuComplex, ty_cusolver_int_t, Ptr ty_void, Ptr ty_size_t]
       ''cusolverDnCKgels_bufferSize'' ty_cusolverStatus_t [ty_cusolverDnHandle_t, ty_cusolver_int_t, ty_cusolver_int_t, ty_cusolver_int_t, Ptr ty_cuComplex, ty_cusolver_int_t, Ptr ty_cuComplex, ty_cusolver_int_t, Ptr ty_cuComplex, ty_cusolver_int_t, Ptr ty_void, Ptr ty_size_t] ''cusolverDnCKgels_bufferSize'' [0, 1, 2, 3, 4, 5, 6, 7, 8, 9, 10, 11] False,
     Gen cusolver ty_cusolverStatus_t ''cusolverDnCEgels_bufferSize'' [ty_cusolverDnHandle_t, ty_cusolver_int_t, ty_cusolver_int_t, ty_cusolver_int_t, Ptr ty_cuComplex, ty_cusolver_int_t, Ptr ty_cuComplex, ty_cusolver_int_t, Ptr ty_cuComplex, ty_cusolver_int_t, Ptr ty_void, Ptr ty_size_t]
       ''cusolverDnCEgels_bufferSize'' ty_cusolverStatus_t [ty_cusolverDnHandle_t, ty_cusolver_int_t, ty_cusolver_int_t, ty_cusolver_int_t, Ptr ty_cuComplex, ty_cusolver_int_t, Ptr ty_cuComplex, ty_cusolver_int_t, Ptr ty_cuComplex, ty_cusolver_int_t, Ptr ty_void, Ptr ty_size_t] ''cusolverDnCEgels_bufferSize'' [0, 1, 2, 3, 4, 5, 6, 7, 8, 9, 10, 11] False,
     Gen cusolver ty_cusolverStatus_t ''cusolverDnCYgels_bufferSize'' [ty_cusolverDnHandle_t, ty_cusolver_int_t, ty_cusolver_int_t, ty_cusolver_int_t, Ptr ty_cuComplex, ty_cusolver_int_t, Ptr ty_cuComplex, ty_cusolver_int_t, Ptr ty_cuComplex, ty_cusolver_int_t, Ptr ty_void, Ptr ty_size_t]
       ''cusolverDnCYgels_bufferSize'' ty_cusolverStatus_t [ty_cusolverDnHandle_t, ty_cusolver_int_t, ty_cusolver_int_t, ty_cusolver_int_t, Ptr ty_cuComplex, ty_cusolver_int_t, Ptr ty_cuComplex, ty_cusolver_int_t, Ptr ty_cuComplex, ty_cusolver_int_t, Ptr ty_void, Ptr ty_size_t] ''cusolverDnCYgels_bufferSize'' [0, 1, 2, 3, 4, 5, 6, 7, 8, 9, 10, 11] False,
     Gen cusolver ty_cusolverStatus_t ''cusolverDnDDgels_bufferSize'' [ty_cusolverDnHandle_t, ty_cusolver_int_t, ty_cusolver_int_t, ty_cusolver_int_t, Ptr ty_double, ty_cusolver_int_t, Ptr ty_double, ty_cusolver_int_t, Ptr ty_double, ty_cusolver_int_t, Ptr ty_void, Ptr ty_size_t]
       ''cusolverDnDDgels_bufferSize'' ty_cusolverStatus_t [ty_cusolverDnHandle_t, ty_cusolver_int_t, ty_cusolver_int_t, ty_cusolver_int_t, Ptr ty_double, ty_cusolver_int_t, Ptr ty_double, ty_cusolver_int_t, Ptr ty_double, ty_cusolver_int_t, Ptr ty_void, Ptr ty_size_t] ''cusolverDnDDgels_bufferSize'' [0, 1, 2, 3, 4, 5, 6, 7, 8, 9, 10, 11] False,
     Gen cusolver ty_cusolverStatus_t ''cusolverDnDSgels_bufferSize'' [ty_cusolverDnHandle_t, ty_cusolver_int_t, ty_cusolver_int_t, ty_cusolver_int_t, Ptr ty_double, ty_cusolver_int_t, Ptr ty_double, ty_cusolver_int_t, Ptr ty_double, ty_cusolver_int_t, Ptr ty_void, Ptr ty_size_t]
       ''cusolverDnDSgels_bufferSize'' ty_cusolverStatus_t [ty_cusolverDnHandle_t, ty_cusolver_int_t, ty_cusolver_int_t, ty_cusolver_int_t, Ptr ty_double, ty_cusolver_int_t, Ptr ty_double, ty_cusolver_int_t, Ptr ty_double, ty_cusolver_int_t, Ptr ty_void, Ptr ty_size_t] ''cusolverDnDSgels_bufferSize'' [0, 1, 2, 3, 4, 5, 6, 7, 8, 9, 10, 11] False]"

definition cusolver_hooks_9 :: "gen_hook list" where
  "cusolver_hooks_9 =
    [Gen cusolver ty_cusolverStatus_t ''cusolverDnDHgels_bufferSize'' [ty_cusolverDnHandle_t, ty_cusolver_int_t, ty_cusolver_int_t, ty_cusolver_int_t, Ptr ty_double, ty_cusolver_int_t, Ptr ty_double, ty_cusolver_int_t, Ptr ty_double, ty_cusolver_int_t, Ptr ty_void, Ptr ty_size_t]
       ''cusolverDnDHgels_bufferSize'' ty_cusolverStatus_t [ty_cusolverDnHandle_t, ty_cusolver_int_t, ty_cusolver_int_t, ty_cusolver_int_t, Ptr ty_double, ty_cusolver_int_t, Ptr ty_double, ty_cusolver_int_t, Ptr ty_double, ty_cusolver_int_t, Ptr ty_void, Ptr ty_size_t] ''cusolverDnDHgels_bufferSize'' [0, 1, 2, 3, 4, 5, 6, 7, 8, 9, 10, 11] False,
     Gen cusolver ty_cusolverStatus_t ''cusolverDnDBgels_bufferSize'' [ty_cusolverDnHandle_t, ty_cusolver_int_t, ty_cusolver_int_t, ty_cusolver_int_t, Ptr ty_double, ty_cusolver_int_t, Ptr ty_double, ty_cusolver_int_t, Ptr ty_double, ty_cusolver_int_t, Ptr ty_void, Ptr ty_size_t]
       ''cusolverDnDBgels_bufferSize'' ty_cusolverStatus_t [ty_cusolverDnHandle_t, ty_cusolver_int_t, ty_cusolver_int_t, ty_cusolver_int_t, Ptr ty_double, ty_cusolver_int_t, Ptr ty_double, ty_cusolver_int_t, Ptr ty_double, ty_cusolver_int_t, Ptr ty_void, Ptr ty_size_t] ''cusolverDnDBgels_bufferSize'' [0, 1, 2, 3, 4, 5, 6, 7, 8, 9, 10, 11] False,
     Gen cusolver ty_cusolverStatus_t ''cusolverDnDXgels_bufferSize'' [ty_cusolverDnHandle_t, ty_cusolver_int_t, ty_cusolver_int_t, ty_cusolver_int_t, Ptr ty_double, ty_cusolver_int_t, Ptr ty_double, ty_cusolver_int_t, Ptr ty_double, ty_cusolver_int_t, Ptr ty_void, Ptr ty_size_t]
       ''cusolverDnDXgels_bufferSize'' ty_cusolverStatus_t [ty_cusolverDnHandle_t, ty_cusolver_int_t, ty_cusolver_int_t, ty_cusolver_int_t, Ptr ty_double, ty_cusolver_int_t, Ptr ty_double, ty_cusolver_int_t, Ptr ty_double, ty_cusolver_int_t, Ptr ty_void, Ptr ty_size_t] ''cusolverDnDXgels_bufferSize'' [0, 1, 2, 3, 4, 5, 6, 7, 8, 9, 10, 11] False,
     Gen cusolver ty_cusolverStatus_t ''cusolverDnSSgels_bufferSize'' [ty_cusolverDnHandle_t, ty_cusolver_int_t, ty_cusolver_int_t, ty_cusolver_int_t, Ptr ty_float, ty_cusolver_int_t, Ptr ty_float, ty_cusolver_int_t, Ptr ty_float, ty_cusolver_int_t, Ptr ty_void, Ptr ty_size_t]
       ''cusolverDnSSgels_bufferSize'' ty_cusolverStatus_t [ty_cusolverDnHandle_t, ty_cusolver_int_t, ty_cusolver_int_t, ty_cusolver_int_t, Ptr ty_float, ty_cusolver_int_t, Ptr ty_float, ty_cusolver_int_t, Ptr ty_float, ty_cusolver_int_t, Ptr ty_void, Ptr ty_size_t] ''cusolverDnSSgels_bufferSize'' [0, 1, 2, 3, 4, 5, 6, 7, 8, 9, 10, 11] False,
     Gen cusolver ty_cusolverStatus_t ''cusolverDnSHgels_bufferSize'' [ty_cusolverDnHandle_t, ty_cusolver_int_t, ty_cusolver_int_t, ty_cusolver_int_t, Ptr ty_float, ty_cusolver_int_t, Ptr ty_float, ty_cusolver_int_t, Ptr ty_float, ty_cusolver_int_t, Ptr ty_void, Ptr ty_size_t]
       ''cusolverDnSHgels_bufferSize'' ty_cusolverStatus_t [ty_cusolverDnHandle_t, ty_cusolver_int_t, ty_cusolver_int_t, ty_cusolver_int_t, Ptr ty_float, ty_cusolver_int_t, Ptr ty_float, ty_cusolver_int_t, Ptr ty_float, ty_cusolver_int_t, Ptr ty_void, Ptr ty_size_t] ''cusolverDnSHgels_bufferSize'' [0, 1, 2, 3, 4, 5, 6, 7, 8, 9, 10, 11] False,
     Gen cusolver ty_cusolverStatus_t ''cusolverDnSBgels_bufferSize'' [ty_cusolverDnHandle_t, ty_cusolver_int_t, ty_cusolver_int_t, ty_cusolver_int_t, Ptr ty_float, ty_cusolver_int_t, Ptr ty_float, ty_cusolver_int_t, Ptr ty_float, ty_cusolver_int_t, Ptr ty_void, Ptr ty_size_t]
       ''cusolverDnSBgels_bufferSize'' ty_cusolverStatus_t [ty_cusolverDnHandle_t, ty_cusolver_int_t, ty_cusolver_int_t, ty_cusolver_int_t, Ptr ty_float, ty_cusolver_int_t, Ptr ty_float, ty_cusolver_int_t, Ptr ty_float, ty_cusolver_int_t, Ptr ty_void, Ptr ty_size_t] ''cusolverDnSBgels_bufferSize'' [0, 1, 2, 3, 4, 5, 6, 7, 8, 9, 10, 11] False,
     Gen cusolver ty_cusolverStatus_t ''cusolverDnSXgels_bufferSize'' [ty_cusolverDnHandle_t, ty_cusolver_int_t, ty_cusolver_int_t, ty_cusolver_int_t, Ptr ty_float, ty_cusolver_int_t, Ptr ty_float, ty_cusolver_int_t, Ptr ty_float, ty_cusolver_int_t, Ptr ty_void, Ptr ty_size_t]
       ''cusolverDnSXgels_bufferSize'' ty_cusolverStatus_t [ty_cusolverDnHandle_t, ty_cusolver_int_t, ty_cusolver_int_t, ty_cusolver_int_t, Ptr ty_float, ty_cusolver_int_t, Ptr ty_float, ty_cusolver_int_t, Ptr ty_float, ty_cusolver_int_t, Ptr ty_void, Ptr ty_size_t] ''cusolverDnSXgels_bufferSize'' [0, 1, 2, 3, 4, 5, 6, 7, 8, 9, 10, 11] False,
     Gen cusolver ty_cusolverStatus_t ''cusolverDnIRSXgesv'' [ty_cusolverDnHandle_t, ty_cusolverDnIRSParams_t, ty_cusolverDnIRSInfos_t, ty_cusolver_int_t, ty_cusolver_int_t, Ptr ty_void, ty_cusolver_int_t, Ptr ty_void, ty_cusolver_int_t, Ptr ty_void, ty_cusolver_int_t, Ptr ty_void, ty_size_t, Ptr ty_cusolver_int_t, Ptr ty_cusolver_int_t]
       ''cusolverDnIRSXgesv'' ty_cusolverStatus_t [ty_cusolverDnHandle_t, ty_cusolverDnIRSParams_t, ty_cusolverDnIRSInfos_t, ty_cusolver_int_t, ty_cusolver_int_t, Ptr ty_void, ty_cusolver_int_t, Ptr ty_void, ty_cusolver_int_t, Ptr ty_void, ty_cusolver_int_t, Ptr ty_void, ty_size_t, Ptr ty_cusolver_int_t, Ptr ty_cusolver_int_t] ''cusolverDnIRSXgesv'' [0, 1, 2, 3, 4, 5, 6, 7, 8, 9, 10, 11, 12, 13, 14] False,
     Gen cusolver ty_cusolverStatus_t ''cusolverDnIRSXgesv_bufferSize'' [ty_cusolverDnHandle_t, ty_cusolverDnIRSParams_t, ty_cusolver_int_t, ty_cusolver_int_t, Ptr ty_size_t]
       ''cusolverDnIRSXgesv_bufferSize'' ty_cusolverStatus_t [ty_cusolverDnHandle_t, ty_cusolverDnIRSParams_t, ty_cusolver_int_t, ty_cusolver_int_t, Ptr ty_size_t] ''cusolverDnIRSXgesv_bufferSize'' [0, 1, 2, 3, 4] False,
     Gen cusolver ty_cusolverStatus_t ''cusolverDnIRSXgels'' [ty_cusolverDnHandle_t, ty_cusolverDnIRSParams_t, ty_cusolverDnIRSInfos_t, ty_cusolver_int_t, ty_cusolver_int_t, ty_cusolver_int_t, Ptr ty_void, ty_cusolver_int_t, Ptr ty_void, ty_cusolver_int_t, Ptr ty_void, ty_cusolver_int_t, Ptr ty_void, ty_size_t, Ptr ty_cusolver_int_t, Ptr ty_cusolver_int_t]
       ''cusolverDnIRSXgels'' ty_cusolverStatus_t [ty_cusolverDnHandle_t, ty_cusolverDnIRSParams_t, ty_cusolverDnIRSInfos_t, ty_cusolver_int_t, ty_cusolver_int_t, ty_cusolver_int_t, Ptr ty_void, ty_cusolver_int_t, Ptr ty_void, ty_cusolver_int_t, Ptr ty_void, ty_cusolver_int_t, Ptr ty_void, ty_size_t, Ptr ty_cusolver_int_t, Ptr ty_cusolver_int_t] ''cusolverDnIRSXgels'' [0, 1, 2, 3, 4, 5, 6, 7, 8, 9, 10, 11, 12, 13, 14, 15] False,
     Gen cusolver ty_cusolverStatus_t ''cusolverDnIRSXgels_bufferSize'' [ty_cusolverDnHandle_t, ty_cusolverDnIRSParams_t, ty_cusolver_int_t, ty_cusolver_int_t, ty_cusolver_int_t, Ptr ty_size_t]
       ''cusolverDnIRSXgels_bufferSize'' ty_cusolverStatus_t [ty_cusolverDnHandle_t, ty_cusolverDnIRSParams_t, ty_cusolver_int_t, ty_cusolver_int_t, ty_cusolver_int_t, Ptr ty_size_t] ''cusolverDnIRSXgels_bufferSize'' [0, 1, 2, 3, 4, 5] False,
     Gen cusolver ty_cusolverStatus_t ''cusolverDnSpotrf_bufferSize'' [ty_cusolverDnHandle_t, ty_cublasFillMode_t, ty_int, Ptr ty_float, ty_int, Ptr ty_int]
       ''cusolverDnSpotrf_bufferSize'' ty_cusolverStatus_t [ty_cusolverDnHandle_t, ty_cublasFillMode_t, ty_int, Ptr ty_float, ty_int, Ptr ty_int] ''cusolverDnSpotrf_bufferSize'' [0, 1, 2, 3, 4, 5] False]"

definition cusolver_hooks_10 :: "gen_hook list" where
  "cusolver_hooks_10 =
    [Gen cusolver ty_cusolverStatus_t ''cusolverDnDpotrf_bufferSize'' [ty_cusolverDnHandle_t, ty_cublasFillMode_t, ty_int, Ptr ty_double, ty_int, Ptr ty_int]
       ''cusolverDnDpotrf_bufferSize'' ty_cusolverStatus_t [ty_cusolverDnHandle_t, ty_cublasFillMode_t, ty_int, Ptr ty_double, ty_int, Ptr ty_int] ''cusolverDnDpotrf_bufferSize'' [0, 1, 2, 3, 4, 5] False,
     Gen cusolver ty_cusolverStatus_t ''cusolverDnCpotrf_bufferSize'' [ty_cusolverDnHandle_t, ty_cublasFillMode_t, ty_int, Ptr ty_cuComplex, ty_int, Ptr ty_int]
       ''cusolverDnCpotrf_bufferSize'' ty_cusolverStatus_t [ty_cusolverDnHandle_t, ty_cublasFillMode_t, ty_int, Ptr ty_cuComplex, ty_int, Ptr ty_int] ''cusolverDnCpotrf_bufferSize'' [0, 1, 2, 3, 4, 5] False,
     Gen cusolver ty_cusolverStatus_t ''cusolverDnZpotrf_bufferSize'' [ty_cusolverDnHandle_t, ty_cublasFillMode_t, ty_int, Ptr ty_cuDoubleComplex, ty_int, Ptr ty_int]
       ''cusolverDnZpotrf_bufferSize'' ty_cusolverStatus_t [ty_cusolverDnHandle_t, ty_cublasFillMode_t, ty_int, Ptr ty_cuDoubleComplex, ty_int, Ptr ty_int] ''cusolverDnZpotrf_bufferSize'' [0, 1, 2, 3, 4, 5] False,
     Gen cusolver ty_cusolverStatus_t ''cusolverDnSpotrf'' [ty_cusolverDnHandle_t, ty_cublasFillMode_t, ty_int, Ptr ty_float, ty_int, Ptr ty_float, ty_int, Ptr ty_int]
       ''cusolverDnSpotrf'' ty_cusolverStatus_t [ty_cusolverDnHandle_t, ty_cublasFillMode_t, ty_int, Ptr ty_float, ty_int, Ptr ty_float, ty_int, Ptr ty_int] ''cusolverDnSpotrf'' [0, 1, 2, 3, 4, 5, 6, 7] False,
     Gen cusolver ty_cusolverStatus_t ''cusolverDnDpotrf'' [ty_cusolverDnHandle_t, ty_cublasFillMode_t, ty_int, Ptr ty_double, ty_int, Ptr ty_double, ty_int, Ptr ty_int]
       ''cusolverDnDpotrf'' ty_cusolverStatus_t [ty_cusolverDnHandle_t, ty_cublasFillMode_t, ty_int, Ptr ty_double, ty_int, Ptr ty_double, ty_int, Ptr ty_int] ''cusolverDnDpotrf'' [0, 1, 2, 3, 4, 5, 6, 7] False,
     Gen cusolver ty_cusolverStatus_t ''cusolverDnCpotrf'' [ty_cusolverDnHandle_t, ty_cublasFillMode_t, ty_int, Ptr ty_cuComplex, ty_int, Ptr ty_cuComplex, ty_int, Ptr ty_int]
       ''cusolverDnCpotrf'' ty_cusolverStatus_t [ty_cusolverDnHandle_t, ty_cublasFillMode_t, ty_int, Ptr ty_cuComplex, ty_int, Ptr ty_cuComplex, ty_int, Ptr ty_int] ''cusolverDnCpotrf'' [0, 1, 2, 3, 4, 5, 6, 7] False,
     Gen cusolver ty_cusolverStatus_t ''cusolverDnZpotrf'' [ty_cusolverDnHandle_t, ty_cublasFillMode_t, ty_int, Ptr ty_cuDoubleComplex, ty_int, Ptr ty_cuDoubleComplex, ty_int, Ptr ty_int]
       ''cusolverDnZpotrf'' ty_cusolverStatus_t [ty_cusolverDnHandle_t, ty_cublasFillMode_t, ty_int, Ptr ty_cuDoubleComplex, ty_int, Ptr ty_cuDoubleComplex, ty_int, Ptr ty_int] ''cusolverDnZpotrf'' [0, 1, 2, 3, 4, 5, 6, 7] False,
     Gen cusolver ty_cusolverStatus_t ''cusolverDnSpotrs'' [ty_cusolverDnHandle_t, ty_cublasFillMode_t, ty_int, ty_int, Ptr (Const ty_float), ty_int, Ptr ty_float, ty_int, Ptr ty_int]
       ''cusolverDnSpotrs'' ty_cusolverStatus_t [ty_cusolverDnHandle_t, ty_cublasFillMode_t, ty_int, ty_int, Ptr (Const ty_float), ty_int, Ptr ty_float, ty_int, Ptr ty_int] ''cusolverDnSpotrs'' [0, 1, 2, 3, 4, 5, 6, 7, 8] False,
     Gen cusolver ty_cusolverStatus_t ''cusolverDnDpotrs'' [ty_cusolverDnHandle_t, ty_cublasFillMode_t, ty_int, ty_int, Ptr (Const ty_double), ty_int, Ptr ty_double, ty_int, Ptr ty_int]
       ''cusolverDnDpotrs'' ty_cusolverStatus_t [ty_cusolverDnHandle_t, ty_cublasFillMode_t, ty_int, ty_int, Ptr (Const ty_double), ty_int, Ptr ty_double, ty_int, Ptr ty_int] ''cusolverDnDpotrs'' [0, 1, 2, 3, 4, 5, 6, 7, 8] False,
     Gen cusolver ty_cusolverStatus_t ''cusolverDnCpotrs'' [ty_cusolverDnHandle_t, ty_cublasFillMode_t, ty_int, ty_int, Ptr (Const ty_cuComplex), ty_int, Ptr ty_cuComplex, ty_int, Ptr ty_int]
       ''cusolverDnCpotrs'' ty_cusolverStatus_t [ty_cusolverDnHandle_t, ty_cublasFillMode_t, ty_int, ty_int, Ptr (Const ty_cuComplex), ty_int, Ptr ty_cuComplex, ty_int, Ptr ty_int] ''cusolverDnCpotrs'' [0, 1, 2, 3, 4, 5, 6, 7, 8] False,
     Gen cusolver ty_cusolverStatus_t ''cusolverDnZpotrs'' [ty_cusolverDnHandle_t, ty_cublasFillMode_t, ty_int, ty_int, Ptr (Const ty_cuDoubleComplex), ty_int, Ptr ty_cuDoubleComplex, ty_int, Ptr ty_int]
       ''cusolverDnZpotrs'' ty_cusolverStatus_t [ty_cusolverDnHandle_t, ty_cublasFillMode_t, ty_int, ty_int, Ptr (Const ty_cuDoubleComplex), ty_int, Ptr ty_cuDoubleComplex, ty_int, Ptr ty_int] ''cusolverDnZpotrs'' [0, 1, 2, 3, 4, 5, 6, 7, 8] False,
     Gen cusolver ty_cusolverStatus_t ''cusolverDnSpotrfBatched'' [ty_cusolverDnHandle_t, ty_cublasFillMode_t, ty_int, Ptr ty_float, ty_int, Ptr ty_int, ty_int]
       ''cusolverDnSpotrfBatched'' ty_cusolverStatus_t [ty_cusolverDnHandle_t, ty_cublasFillMode_t, ty_int, Ptr ty_float, ty_int, Ptr ty_int, ty_int] ''cusolverDnSpotrfBatched'' [0, 1, 2, 3, 4, 5, 6] False,
     Gen cusolver ty_cusolverStatus_t ''cusolverDnDpotrfBatched'' [ty_cusolverDnHandle_t, ty_cublasFillMode_t, ty_int, Ptr ty_double, ty_int, Ptr ty_int, ty_int]
       ''cusolverDnDpotrfBatched'' ty_cusolverStatus_t [ty_cusolverDnHandle_t, ty_cublasFillMode_t, ty_int, Ptr ty_double, ty_int, Ptr ty_int, ty_int] ''cusolverDnDpotrfBatched'' [0, 1, 2, 3, 4, 5, 6] False,
     Gen cusolver ty_cusolverStatus_t ''cusolverDnCpotrfBatched'' [ty_cusolverDnHandle_t, ty_cublasFillMode_t, ty_int, Ptr ty_cuComplex, ty_int, Ptr ty_int, ty_int]
       ''cusolverDnCpotrfBatched'' ty_cusolverStatus_t [ty_cusolverDnHandle_t, ty_cublasFillMode_t, ty_int, Ptr ty_cuComplex, ty_int, Ptr ty_int, ty_int] ''cusolverDnCpotrfBatched'' [0, 1, 2, 3, 4, 5, 6] False]"

definition cusolver_hooks_11 :: "gen_hook list" where
  "cusolver_hooks_11 =
    [Gen cusolver ty_cusolverStatus_t ''cusolverDnZpotrfBatched'' [ty_cusolverDnHandle_t, ty_cublasFillMode_t, ty_int, Ptr ty_cuDoubleComplex, ty_int, Ptr ty_int, ty_int]
       ''cusolverDnZpotrfBatched'' ty_cusolverStatus_t [ty_cusolverDnHandle_t, ty_cublasFillMode_t, ty_int, Ptr ty_cuDoubleComplex, ty_int, Ptr ty_int, ty_int] ''cusolverDnZpotrfBatched'' [0, 1, 2, 3, 4, 5, 6] False,
     Gen cusolver ty_cusolverStatus_t ''cusolverDnSpotrsBatched'' [ty_cusolverDnHandle_t, ty_cublasFillMode_t, ty_int, ty_int, Ptr ty_float, ty_int, Ptr ty_float, ty_int, Ptr ty_int, ty_int]
       ''cusolverDnSpotrsBatched'' ty_cusolverStatus_t [ty_cusolverDnHandle_t, ty_cublasFillMode_t, ty_int, ty_int, Ptr ty_float, ty_int, Ptr ty_float, ty_int, Ptr ty_int, ty_int] ''cusolverDnSpotrsBatched'' [0, 1, 2, 3, 4, 5, 6, 7, 8, 9] False,
     Gen cusolver ty_cusolverStatus_t ''cusolverDnDpotrsBatched'' [ty_cusolverDnHandle_t, ty_cublasFillMode_t, ty_int, ty_int, Ptr ty_double, ty_int, Ptr ty_double, ty_int, Ptr ty_int, ty_int]
       ''cusolverDnDpotrsBatched'' ty_cusolverStatus_t [ty_cusolverDnHandle_t, ty_cublasFillMode_t, ty_int, ty_int, Ptr ty_double, ty_int, Ptr ty_double, ty_int, Ptr ty_int, ty_int] ''cusolverDnDpotrsBatched'' [0, 1, 2, 3, 4, 5, 6, 7, 8, 9] False,
     Gen cusolver ty_cusolverStatus_t ''cusolverDnCpotrsBatched'' [ty_cusolverDnHandle_t, ty_cublasFillMode_t, ty_int, ty_int, Ptr ty_cuComplex, ty_int, Ptr ty_cuComplex, ty_int, Ptr ty_int, ty_int]
       ''cusolverDnCpotrsBatched'' ty_cusolverStatus_t [ty_cusolverDnHandle_t, ty_cublasFillMode_t, ty_int, ty_int, Ptr ty_cuComplex, ty_int, Ptr ty_cuComplex, ty_int, Ptr ty_int, ty_int] ''cusolverDnCpotrsBatched'' [0, 1, 2, 3, 4, 5, 6, 7, 8, 9] False,
     Gen cusolver ty_cusolverStatus_t ''cusolverDnZpotrsBatched'' [ty_cusolverDnHandle_t, ty_cublasFillMode_t, ty_int, ty_int, Ptr ty_cuDoubleComplex, ty_int, Ptr ty_cuDoubleComplex, ty_int, Ptr ty_int, ty_int]
       ''cusolverDnZpotrsBatched'' ty_cusolverStatus_t [ty_cusolverDnHandle_t, ty_cublasFillMode_t, ty_int, ty_int, Ptr ty_cuDoubleComplex, ty_int, Ptr ty_cuDoubleComplex, ty_int, Ptr ty_int, ty_int] ''cusolverDnZpotrsBatched'' [0, 1, 2, 3, 4, 5, 6, 7, 8, 9] False,
     Gen cusolver ty_cusolverStatus_t ''cusolverDnSpotri_bufferSize'' [ty_cusolverDnHandle_t, ty_cublasFillMode_t, ty_int, Ptr ty_float, ty_int, Ptr ty_int]
       ''cusolverDnSpotri_bufferSize'' ty_cusolverStatus_t [ty_cusolverDnHandle_t, ty_cublasFillMode_t, ty_int, Ptr ty_float, ty_int, Ptr ty_int] ''cusolverDnSpotri_bufferSize'' [0, 1, 2, 3, 4, 5] False,
     Gen cusolver ty_cusolverStatus_t ''cusolverDnDpotri_bufferSize'' [ty_cusolverDnHandle_t, ty_cublasFillMode_t, ty_int, Ptr ty_double, ty_int, Ptr ty_int]
       ''cusolverDnDpotri_bufferSize'' ty_cusolverStatus_t [ty_cusolverDnHandle_t, ty_cublasFillMode_t, ty_int, Ptr ty_double, ty_int, Ptr ty_int] ''cusolverDnDpotri_bufferSize'' [0, 1, 2, 3, 4, 5] False,
     Gen cusolver ty_cusolverStatus_t ''cusolverDnCpotri_bufferSize'' [ty_cusolverDnHandle_t, ty_cublasFillMode_t, ty_int, Ptr ty_cuComplex, ty_int, Ptr ty_int]
       ''cusolverDnCpotri_bufferSize'' ty_cusolverStatus_t [ty_cusolverDnHandle_t, ty_cublasFillMode_t, ty_int, Ptr ty_cuComplex, ty_int, Ptr ty_int] ''cusolverDnCpotri_bufferSize'' [0, 1, 2, 3, 4, 5] False,
     Gen cusolver ty_cusolverStatus_t ''cusolverDnZpotri_bufferSize'' [ty_cusolverDnHandle_t, ty_cublasFillMode_t, ty_int, Ptr ty_cuDoubleComplex, ty_int, Ptr ty_int]
       ''cusolverDnZpotri_bufferSize'' ty_cusolverStatus_t [ty_cusolverDnHandle_t, ty_cublasFillMode_t, ty_int, Ptr ty_cuDoubleComplex, ty_int, Ptr ty_int] ''cusolverDnZpotri_bufferSize'' [0, 1, 2, 3, 4, 5] False,
     Gen cusolver ty_cusolverStatus_t ''cusolverDnSpotri'' [ty_cusolverDnHandle_t, ty_cublasFillMode_t, ty_int, Ptr ty_float, ty_int, Ptr ty_float, ty_int, Ptr ty_int]
       ''cusolverDnSpotri'' ty_cusolverStatus_t [ty_cusolverDnHandle_t, ty_cublasFillMode_t, ty_int, Ptr ty_float, ty_int, Ptr ty_float, ty_int, Ptr ty_int] ''cusolverDnSpotri'' [0, 1, 2, 3, 4, 5, 6, 7] False,
     Gen cusolver ty_cusolverStatus_t ''cusolverDnDpotri'' [ty_cusolverDnHandle_t, ty_cublasFillMode_t, ty_int, Ptr ty_double, ty_int, Ptr ty_double, ty_int, Ptr ty_int]
       ''cusolverDnDpotri'' ty_cusolverStatus_t [ty_cusolverDnHandle_t, ty_cublasFillMode_t, ty_int, Ptr ty_double, ty_int, Ptr ty_double, ty_int, Ptr ty_int] ''cusolverDnDpotri'' [0, 1, 2, 3, 4, 5, 6, 7] False,
     Gen cusolver ty_cusolverStatus_t ''cusolverDnCpotri'' [ty_cusolverDnHandle_t, ty_cublasFillMode_t, ty_int, Ptr ty_cuComplex, ty_int, Ptr ty_cuComplex, ty_int, Ptr ty_int]
       ''cusolverDnCpotri'' ty_cusolverStatus_t [ty_cusolverDnHandle_t, ty_cublasFillMode_t, ty_int, Ptr ty_cuComplex, ty_int, Ptr ty_cuComplex, ty_int, Ptr ty_int] ''cusolverDnCpotri'' [0, 1, 2, 3, 4, 5, 6, 7] False,
     Gen cusolver ty_cusolverStatus_t ''cusolverDnZpotri'' [ty_cusolverDnHandle_t, ty_cublasFillMode_t, ty_int, Ptr ty_cuDoubleComplex, ty_int, Ptr ty_cuDoubleComplex, ty_int, Ptr ty_int]
       ''cusolverDnZpotri'' ty_cusolverStatus_t [ty_cusolverDnHandle_t, ty_cublasFillMode_t, ty_int, Ptr ty_cuDoubleComplex, ty_int, Ptr ty_cuDoubleComplex, ty_int, Ptr ty_int] ''cusolverDnZpotri'' [0, 1, 2, 3, 4, 5, 6, 7] False]"

definition cusolver_hooks_12 :: "gen_hook list" where
  "cusolver_hooks_12 =
    [Gen cusolver ty_cusolverStatus_t ''cusolverDnXtrtri_bufferSize'' [ty_cusolverDnHandle_t, ty_cublasFillMode_t, ty_cublasDiagType_t, ty_int64_t, ty_cudaDataType, Ptr ty_void, ty_int64_t, Ptr ty_size_t, Ptr ty_size_t]
       ''cusolverDnXtrtri_bufferSize'' ty_cusolverStatus_t [ty_cusolverDnHandle_t, ty_cublasFillMode_t, ty_cublasDiagType_t, ty_int64_t, ty_cudaDataType, Ptr ty_void, ty_int64_t, Ptr ty_size_t, Ptr ty_size_t] ''cusolverDnXtrtri_bufferSize'' [0, 1, 2, 3, 4, 5, 6, 7, 8] False,
     Gen cusolver ty_cusolverStatus_t ''cusolverDnXtrtri'' [ty_cusolverDnHandle_t, ty_cublasFillMode_t, ty_cublasDiagType_t, ty_int64_t, ty_cudaDataType, Ptr ty_void, ty_int64_t, Ptr ty_void, ty_size_t, Ptr ty_void, ty_size_t, Ptr ty_int]
       ''cusolverDnXtrtri'' ty_cusolverStatus_t [ty_cusolverDnHandle_t, ty_cublasFillMode_t, ty_cublasDiagType_t, ty_int64_t, ty_cudaDataType, Ptr ty_void, ty_int64_t, Ptr ty_void, ty_size_t, Ptr ty_void, ty_size_t, Ptr ty_int] ''cusolverDnXtrtri'' [0, 1, 2, 3, 4, 5, 6, 7, 8, 9, 10, 11] False,
     Gen cusolver ty_cusolverStatus_t ''cusolverDnSlauum_bufferSize'' [ty_cusolverDnHandle_t, ty_cublasFillMode_t, ty_int, Ptr ty_float, ty_int, Ptr ty_int]
       ''cusolverDnSlauum_bufferSize'' ty_cusolverStatus_t [ty_cusolverDnHandle_t, ty_cublasFillMode_t, ty_int, Ptr ty_float, ty_int, Ptr ty_int] ''cusolverDnSlauum_bufferSize'' [0, 1, 2, 3, 4, 5] False,
     Gen cusolver ty_cusolverStatus_t ''cusolverDnDlauum_bufferSize'' [ty_cusolverDnHandle_t, ty_cublasFillMode_t, ty_int, Ptr ty_double, ty_int, Ptr ty_int]
       ''cusolverDnDlauum_bufferSize'' ty_cusolverStatus_t [ty_cusolverDnHandle_t, ty_cublasFillMode_t, ty_int, Ptr ty_double, ty_int, Ptr ty_int] ''cusolverDnDlauum_bufferSize'' [0, 1, 2, 3, 4, 5] False,
     Gen cusolver ty_cusolverStatus_t ''cusolverDnClauum_bufferSize'' [ty_cusolverDnHandle_t, ty_cublasFillMode_t, ty_int, Ptr ty_cuComplex, ty_int, Ptr ty_int]
       ''cusolverDnClauum_bufferSize'' ty_cusolverStatus_t [ty_cusolverDnHandle_t, ty_cublasFillMode_t, ty_int, Ptr ty_cuComplex, ty_int, Ptr ty_int] ''cusolverDnClauum_bufferSize'' [0, 1, 2, 3, 4, 5] False,
     Gen cusolver ty_cusolverStatus_t ''cusolverDnZlauum_bufferSize'' [ty_cusolverDnHandle_t, ty_cublasFillMode_t, ty_int, Ptr ty_cuDoubleComplex, ty_int, Ptr ty_int]
       ''cusolverDnZlauum_bufferSize'' ty_cusolverStatus_t [ty_cusolverDnHandle_t, ty_cublasFillMode_t, ty_int, Ptr ty_cuDoubleComplex, ty_int, Ptr ty_int] ''cusolverDnZlauum_bufferSize'' [0, 1, 2, 3, 4, 5] False,
     Gen cusolver ty_cusolverStatus_t ''cusolverDnSlauum'' [ty_cusolverDnHandle_t, ty_cublasFillMode_t, ty_int, Ptr ty_float, ty_int, Ptr ty_float, ty_int, Ptr ty_int]
       ''cusolverDnSlauum'' ty_cusolverStatus_t [ty_cusolverDnHandle_t, ty_cublasFillMode_t, ty_int, Ptr ty_float, ty_int, Ptr ty_float, ty_int, Ptr ty_int] ''cusolverDnSlauum'' [0, 1, 2, 3, 4, 5, 6, 7] False,
     Gen cusolver ty_cusolverStatus_t ''cusolverDnDlauum'' [ty_cusolverDnHandle_t, ty_cublasFillMode_t, ty_int, Ptr ty_double, ty_int, Ptr ty_double, ty_int, Ptr ty_int]
       ''cusolverDnDlauum'' ty_cusolverStatus_t [ty_cusolverDnHandle_t, ty_cublasFillMode_t, ty_int, Ptr ty_double, ty_int, Ptr ty_double, ty_int, Ptr ty_int] ''cusolverDnDlauum'' [0, 1, 2, 3, 4, 5, 6, 7] False,
     Gen cusolver ty_cusolverStatus_t ''cusolverDnClauum'' [ty_cusolverDnHandle_t, ty_cublasFillMode_t, ty_int, Ptr ty_cuComplex, ty_int, Ptr ty_cuComplex, ty_int, Ptr ty_int]
       ''cusolverDnClauum'' ty_cusolverStatus_t [ty_cusolverDnHandle_t, ty_cublasFillMode_t, ty_int, Ptr ty_cuComplex, ty_int, Ptr ty_cuComplex, ty_int, Ptr ty_int] ''cusolverDnClauum'' [0, 1, 2, 3, 4, 5, 6, 7] False,
     Gen cusolver ty_cusolverStatus_t ''cusolverDnZlauum'' [ty_cusolverDnHandle_t, ty_cublasFillMode_t, ty_int, Ptr ty_cuDoubleComplex, ty_int, Ptr ty_cuDoubleComplex, ty_int, Ptr ty_int]
       ''cusolverDnZlauum'' ty_cusolverStatus_t [ty_cusolverDnHandle_t, ty_cublasFillMode_t, ty_int, Ptr ty_cuDoubleComplex, ty_int, Ptr ty_cuDoubleComplex, ty_int, Ptr ty_int] ''cusolverDnZlauum'' [0, 1, 2, 3, 4, 5, 6, 7] False,
     Gen cusolver ty_cusolverStatus_t ''cusolverDnSgetrf_bufferSize'' [ty_cusolverDnHandle_t, ty_int, ty_int, Ptr ty_float, ty_int, Ptr ty_int]
       ''cusolverDnSgetrf_bufferSize'' ty_cusolverStatus_t [ty_cusolverDnHandle_t, ty_int, ty_int, Ptr ty_float, ty_int, Ptr ty_int] ''cusolverDnSgetrf_bufferSize'' [0, 1, 2, 3, 4, 5] False,
     Gen cusolver ty_cusolverStatus_t ''cusolverDnDgetrf_bufferSize'' [ty_cusolverDnHandle_t, ty_int, ty_int, Ptr ty_double, ty_int, Ptr ty_int]
       ''cusolverDnDgetrf_bufferSize'' ty_cusolverStatus_t [ty_cusolverDnHandle_t, ty_int, ty_int, Ptr ty_double, ty_int, Ptr ty_int] ''cusolverDnDgetrf_bufferSize'' [0, 1, 2, 3, 4, 5] False,
     Gen cusolver ty_cusolverStatus_t ''cusolverDnCgetrf_bufferSize'' [ty_cusolverDnHandle_t, ty_int, ty_int, Ptr ty_cuComplex, ty_int, Ptr ty_int]
       ''cusolverDnCgetrf_bufferSize'' ty_cusolverStatus_t [ty_cusolverDnHandle_t, ty_int, ty_int, Ptr ty_cuComplex, ty_int, Ptr ty_int] ''cusolverDnCgetrf_bufferSize'' [0, 1, 2, 3, 4, 5] False,
     Gen cusolver ty_cusolverStatus_t ''cusolverDnZgetrf_bufferSize'' [ty_cusolverDnHandle_t, ty_int, ty_int, Ptr ty_cuDoubleComplex, ty_int, Ptr ty_int]
       ''cusolverDnZgetrf_bufferSize'' ty_cusolverStatus_t [ty_cusolverDnHandle_t, ty_int, ty_int, Ptr ty_cuDoubleComplex, ty_int, Ptr ty_int] ''cusolverDnZgetrf_bufferSize'' [0, 1, 2, 3, 4, 5] False]"

definition cusolver_hooks_13 :: "gen_hook list" where
  "cusolver_hooks_13 =
    [Gen cusolver ty_cusolverStatus_t ''cusolverDnSgetrf'' [ty_cusolverDnHandle_t, ty_int, ty_int, Ptr ty_float, ty_int, Ptr ty_float, Ptr ty_int, Ptr ty_int]
       ''cusolverDnSgetrf'' ty_cusolverStatus_t [ty_cusolverDnHandle_t, ty_int, ty_int, Ptr ty_float, ty_int, Ptr ty_float, Ptr ty_int, Ptr ty_int] ''cusolverDnSgetrf'' [0, 1, 2, 3, 4, 5, 6, 7] False,
     Gen cusolver ty_cusolverStatus_t ''cusolverDnDgetrf'' [ty_cusolverDnHandle_t, ty_int, ty_int, Ptr ty_double, ty_int, Ptr ty_double, Ptr ty_int, Ptr ty_int]
       ''cusolverDnDgetrf'' ty_cusolverStatus_t [ty_cusolverDnHandle_t, ty_int, ty_int, Ptr ty_double, ty_int, Ptr ty_double, Ptr ty_int, Ptr ty_int] ''cusolverDnDgetrf'' [0, 1, 2, 3, 4, 5, 6, 7] False,
     Gen cusolver ty_cusolverStatus_t ''cusolverDnCgetrf'' [ty_cusolverDnHandle_t, ty_int, ty_int, Ptr ty_cuComplex, ty_int, Ptr ty_cuComplex, Ptr ty_int, Ptr ty_int]
       ''cusolverDnCgetrf'' ty_cusolverStatus_t [ty_cusolverDnHandle_t, ty_int, ty_int, Ptr ty_cuComplex, ty_int, Ptr ty_cuComplex, Ptr ty_int, Ptr ty_int] ''cusolverDnCgetrf'' [0, 1, 2, 3, 4, 5, 6, 7] False,
     Gen cusolver ty_cusolverStatus_t ''cusolverDnZgetrf'' [ty_cusolverDnHandle_t, ty_int, ty_int, Ptr ty_cuDoubleComplex, ty_int, Ptr ty_cuDoubleComplex, Ptr ty_int, Ptr ty_int]
       ''cusolverDnZgetrf'' ty_cusolverStatus_t [ty_cusolverDnHandle_t, ty_int, ty_int, Ptr ty_cuDoubleComplex, ty_int, Ptr ty_cuDoubleComplex, Ptr ty_int, Ptr ty_int] ''cusolverDnZgetrf'' [0, 1, 2, 3, 4, 5, 6, 7] False,
     Gen cusolver ty_cusolverStatus_t ''cusolverDnSlaswp'' [ty_cusolverDnHandle_t, ty_int, Ptr ty_float, ty_int, ty_int, ty_int, Ptr (Const ty_int), ty_int]
       ''cusolverDnSlaswp'' ty_cusolverStatus_t [ty_cusolverDnHandle_t, ty_int, Ptr ty_float, ty_int, ty_int, ty_int, Ptr (Const ty_int), ty_int] ''cusolverDnSlaswp'' [0, 1, 2, 3, 4, 5, 6, 7] False,
     Gen cusolver ty_cusolverStatus_t ''cusolverDnDlaswp'' [ty_cusolverDnHandle_t, ty_int, Ptr ty_double, ty_int, ty_int, ty_int, Ptr (Const ty_int), ty_int]
       ''cusolverDnDlaswp'' ty_cusolverStatus_t [ty_cusolverDnHandle_t, ty_int, Ptr ty_double, ty_int, ty_int, ty_int, Ptr (Const ty_int), ty_int] ''cusolverDnDlaswp'' [0, 1, 2, 3, 4, 5, 6, 7] False,
     Gen cusolver ty_cusolverStatus_t ''cusolverDnClaswp'' [ty_cusolverDnHandle_t, ty_int, Ptr ty_cuComplex, ty_int, ty_int, ty_int, Ptr (Const ty_int), ty_int]
       ''cusolverDnClaswp'' ty_cusolverStatus_t [ty_cusolverDnHandle_t, ty_int, Ptr ty_cuComplex, ty_int, ty_int, ty_int, Ptr (Const ty_int), ty_int] ''cusolverDnClaswp'' [0, 1, 2, 3, 4, 5, 6, 7] False,
     Gen cusolver ty_cusolverStatus_t ''cusolverDnZlaswp'' [ty_cusolverDnHandle_t, ty_int, Ptr ty_cuDoubleComplex, ty_int, ty_int, ty_int, Ptr (Const ty_int), ty_int]
       ''cusolverDnZlaswp'' ty_cusolverStatus_t [ty_cusolverDnHandle_t, ty_int, Ptr ty_cuDoubleComplex, ty_int, ty_int, ty_int, Ptr (Const ty_int), ty_int] ''cusolverDnZlaswp'' [0, 1, 2, 3, 4, 5, 6, 7] False,
     Gen cusolver ty_cusolverStatus_t ''cusolverDnSgetrs'' [ty_cusolverDnHandle_t, ty_cublasOperation_t, ty_int, ty_int, Ptr (Const ty_float), ty_int, Ptr (Const ty_int), Ptr ty_float, ty_int, Ptr ty_int]
       ''cusolverDnSgetrs'' ty_cusolverStatus_t [ty_cusolverDnHandle_t, ty_cublasOperation_t, ty_int, ty_int, Ptr (Const ty_float), ty_int, Ptr (Const ty_int), Ptr ty_float, ty_int, Ptr ty_int] ''cusolverDnSgetrs'' [0, 1, 2, 3, 4, 5, 6, 7, 8, 9] False,
     Gen cusolver ty_cusolverStatus_t ''cusolverDnDgetrs'' [ty_cusolverDnHandle_t, ty_cublasOperation_t, ty_int, ty_int, Ptr (Const ty_double), ty_int, Ptr (Const ty_int), Ptr ty_double, ty_int, Ptr ty_int]
       ''cusolverDnDgetrs'' ty_cusolverStatus_t [ty_cusolverDnHandle_t, ty_cublasOperation_t, ty_int, ty_int, Ptr (Const ty_double), ty_int, Ptr (Const ty_int), Ptr ty_double, ty_int, Ptr ty_int] ''cusolverDnDgetrs'' [0, 1, 2, 3, 4, 5, 6, 7, 8, 9] False,
     Gen cusolver ty_cusolverStatus_t ''cusolverDnCgetrs'' [ty_cusolverDnHandle_t, ty_cublasOperation_t, ty_int, ty_int, Ptr (Const ty_cuComplex), ty_int, Ptr (Const ty_int), Ptr ty_cuComplex, ty_int, Ptr ty_int]
       ''cusolverDnCgetrs'' ty_cusolverStatus_t [ty_cusolverDnHandle_t, ty_cublasOperation_t, ty_int, ty_int, Ptr (Const ty_cuComplex), ty_int, Ptr (Const ty_int), Ptr ty_cuComplex, ty_int, Ptr ty_int] ''cusolverDnCgetrs'' [0, 1, 2, 3, 4, 5, 6, 7, 8, 9] False,
     Gen cusolver ty_cusolverStatus_t ''cusolverDnZgetrs'' [ty_cusolverDnHandle_t, ty_cublasOperation_t, ty_int, ty_int, Ptr (Const ty_cuDoubleComplex), ty_int, Ptr (Const ty_int), Ptr ty_cuDoubleComplex, ty_int, Ptr ty_int]
       ''cusolverDnZgetrs'' ty_cusolverStatus_t [ty_cusolverDnHandle_t, ty_cublasOperation_t, ty_int, ty_int, Ptr (Const ty_cuDoubleComplex), ty_int, Ptr (Const ty_int), Ptr ty_cuDoubleComplex, ty_int, Ptr ty_int] ''cusolverDnZgetrs'' [0, 1, 2, 3, 4, 5, 6, 7, 8, 9] False,
     Gen cusolver ty_cusolverStatus_t ''cusolverDnSgeqrf_bufferSize'' [ty_cusolverDnHandle_t, ty_int, ty_int, Ptr ty_float, ty_int, Ptr ty_int]
       ''cusolverDnSgeqrf_bufferSize'' ty_cusolverStatus_t [ty_cusolverDnHandle_t, ty_int, ty_int, Ptr ty_float, ty_int, Ptr ty_int] ''cusolverDnSgeqrf_bufferSize'' [0, 1, 2, 3, 4, 5] False,
     Gen cusolver ty_cusolverStatus_t ''cusolverDnDgeqrf_bufferSize'' [ty_cusolverDnHandle_t, ty_int, ty_int, Ptr ty_double, ty_int, Ptr ty_int]
       ''cusolverDnDgeqrf_bufferSize'' ty_cusolverStatus_t [ty_cusolverDnHandle_t, ty_int, ty_int, Ptr ty_double, ty_int, Ptr ty_int] ''cusolverDnDgeqrf_bufferSize'' [0, 1, 2, 3, 4, 5] False,
     Gen cusolver ty_cusolverStatus_t ''cusolverDnCgeqrf_bufferSize'' [ty_cusolverDnHandle_t, ty_int, ty_int, Ptr ty_cuComplex, ty_int, Ptr ty_int]
       ''cusolverDnCgeqrf_bufferSize'' ty_cusolverStatus_t [ty_cusolverDnHandle_t, ty_int, ty_int, Ptr ty_cuComplex, ty_int, Ptr ty_int] ''cusolverDnCgeqrf_bufferSize'' [0, 1, 2, 3, 4, 5] False]"

definition cusolver_hooks_14 :: "gen_hook list" where
  "cusolver_hooks_14 =
    [Gen cusolver ty_cusolverStatus_t ''cusolverDnZgeqrf_bufferSize'' [ty_cusolverDnHandle_t, ty_int, ty_int, Ptr ty_cuDoubleComplex, ty_int, Ptr ty_int]
       ''cusolverDnZgeqrf_bufferSize'' ty_cusolverStatus_t [ty_cusolverDnHandle_t, ty_int, ty_int, Ptr ty_cuDoubleComplex, ty_int, Ptr ty_int] ''cusolverDnZgeqrf_bufferSize'' [0, 1, 2, 3, 4, 5] False,
     Gen cusolver ty_cusolverStatus_t ''cusolverDnSgeqrf'' [ty_cusolverDnHandle_t, ty_int, ty_int, Ptr ty_float, ty_int, Ptr ty_float, Ptr ty_float, ty_int, Ptr ty_int]
       ''cusolverDnSgeqrf'' ty_cusolverStatus_t [ty_cusolverDnHandle_t, ty_int, ty_int, Ptr ty_float, ty_int, Ptr ty_float, Ptr ty_float, ty_int, Ptr ty_int] ''cusolverDnSgeqrf'' [0, 1, 2, 3, 4, 5, 6, 7, 8] False,
     Gen cusolver ty_cusolverStatus_t ''cusolverDnDgeqrf'' [ty_cusolverDnHandle_t, ty_int, ty_int, Ptr ty_double, ty_int, Ptr ty_double, Ptr ty_double, ty_int, Ptr ty_int]
       ''cusolverDnDgeqrf'' ty_cusolverStatus_t [ty_cusolverDnHandle_t, ty_int, ty_int, Ptr ty_double, ty_int, Ptr ty_double, Ptr ty_double, ty_int, Ptr ty_int] ''cusolverDnDgeqrf'' [0, 1, 2, 3, 4, 5, 6, 7, 8] False,
     Gen cusolver ty_cusolverStatus_t ''cusolverDnCgeqrf'' [ty_cusolverDnHandle_t, ty_int, ty_int, Ptr ty_cuComplex, ty_int, Ptr ty_cuComplex, Ptr ty_cuComplex, ty_int, Ptr ty_int]
       ''cusolverDnCgeqrf'' ty_cusolverStatus_t [ty_cusolverDnHandle_t, ty_int, ty_int, Ptr ty_cuComplex, ty_int, Ptr ty_cuComplex, Ptr ty_cuComplex, ty_int, Ptr ty_int] ''cusolverDnCgeqrf'' [0, 1, 2, 3, 4, 5, 6, 7, 8] False,
     Gen cusolver ty_cusolverStatus_t ''cusolverDnZgeqrf'' [ty_cusolverDnHandle_t, ty_int, ty_int, Ptr ty_cuDoubleComplex, ty_int, Ptr ty_cuDoubleComplex, Ptr ty_cuDoubleComplex, ty_int, Ptr ty_int]
       ''cusolverDnZgeqrf'' ty_cusolverStatus_t [ty_cusolverDnHandle_t, ty_int, ty_int, Ptr ty_cuDoubleComplex, ty_int, Ptr ty_cuDoubleComplex, Ptr ty_cuDoubleComplex, ty_int, Ptr ty_int] ''cusolverDnZgeqrf'' [0, 1, 2, 3, 4, 5, 6, 7, 8] False,
     Gen cusolver ty_cusolverStatus_t ''cusolverDnSorgqr_bufferSize'' [ty_cusolverDnHandle_t, ty_int, ty_int, ty_int, Ptr (Const ty_float), ty_int, Ptr (Const ty_float), Ptr ty_int]
       ''cusolverDnSorgqr_bufferSize'' ty_cusolverStatus_t [ty_cusolverDnHandle_t, ty_int, ty_int, ty_int, Ptr (Const ty_float), ty_int, Ptr (Const ty_float), Ptr ty_int] ''cusolverDnSorgqr_bufferSize'' [0, 1, 2, 3, 4, 5, 6, 7] False,
     Gen cusolver ty_cusolverStatus_t ''cusolverDnDorgqr_bufferSize'' [ty_cusolverDnHandle_t, ty_int, ty_int, ty_int, Ptr (Const ty_double), ty_int, Ptr (Const ty_double), Ptr ty_int]
       ''cusolverDnDorgqr_bufferSize'' ty_cusolverStatus_t [ty_cusolverDnHandle_t, ty_int, ty_int, ty_int, Ptr (Const ty_double), ty_int, Ptr (Const ty_double), Ptr ty_int] ''cusolverDnDorgqr_bufferSize'' [0, 1, 2, 3, 4, 5, 6, 7] False,
     Gen cusolver ty_cusolverStatus_t ''cusolverDnCungqr_bufferSize'' [ty_cusolverDnHandle_t, ty_int, ty_int, ty_int, Ptr (Const ty_cuComplex), ty_int, Ptr (Const ty_cuComplex), Ptr ty_int]
       ''cusolverDnCungqr_bufferSize'' ty_cusolverStatus_t [ty_cusolverDnHandle_t, ty_int, ty_int, ty_int, Ptr (Const ty_cuComplex), ty_int, Ptr (Const ty_cuComplex), Ptr ty_int] ''cusolverDnCungqr_bufferSize'' [0, 1, 2, 3, 4, 5, 6, 7] False,
     Gen cusolver ty_cusolverStatus_t ''cusolverDnZungqr_bufferSize'' [ty_cusolverDnHandle_t, ty_int, ty_int, ty_int, Ptr (Const ty_cuDoubleComplex), ty_int, Ptr (Const ty_cuDoubleComplex), Ptr ty_int]
       ''cusolverDnZungqr_bufferSize'' ty_cusolverStatus_t [ty_cusolverDnHandle_t, ty_int, ty_int, ty_int, Ptr (Const ty_cuDoubleComplex), ty_int, Ptr (Const ty_cuDoubleComplex), Ptr ty_int] ''cusolverDnZungqr_bufferSize'' [0, 1, 2, 3, 4, 5, 6, 7] False,
     Gen cusolver ty_cusolverStatus_t ''cusolverDnSorgqr'' [ty_cusolverDnHandle_t, ty_int, ty_int, ty_int, Ptr ty_float, ty_int, Ptr (Const ty_float), Ptr ty_float, ty_int, Ptr ty_int]
       ''cusolverDnSorgqr'' ty_cusolverStatus_t [ty_cusolverDnHandle_t, ty_int, ty_int, ty_int, Ptr ty_float, ty_int, Ptr (Const ty_float), Ptr ty_float, ty_int, Ptr ty_int] ''cusolverDnSorgqr'' [0, 1, 2, 3, 4, 5, 6, 7, 8, 9] False,
     Gen cusolver ty_cusolverStatus_t ''cusolverDnDorgqr'' [ty_cusolverDnHandle_t, ty_int, ty_int, ty_int, Ptr ty_double, ty_int, Ptr (Const ty_double), Ptr ty_double, ty_int, Ptr ty_int]
       ''cusolverDnDorgqr'' ty_cusolverStatus_t [ty_cusolverDnHandle_t, ty_int, ty_int, ty_int, Ptr ty_double, ty_int, Ptr (Const ty_double), Ptr ty_double, ty_int, Ptr ty_int] ''cusolverDnDorgqr'' [0, 1, 2, 3, 4, 5, 6, 7, 8, 9] False,
     Gen cusolver ty_cusolverStatus_t ''cusolverDnCungqr'' [ty_cusolverDnHandle_t, ty_int, ty_int, ty_int, Ptr ty_cuComplex, ty_int, Ptr (Const ty_cuComplex), Ptr ty_cuComplex, ty_int, Ptr ty_int]
       ''cusolverDnCungqr'' ty_cusolverStatus_t [ty_cusolverDnHandle_t, ty_int, ty_int, ty_int, Ptr ty_cuComplex, ty_int, Ptr (Const ty_cuComplex), Ptr ty_cuComplex, ty_int, Ptr ty_int] ''cusolverDnCungqr'' [0, 1, 2, 3, 4, 5, 6, 7, 8, 9] False,
     Gen cusolver ty_cusolverStatus_t ''cusolverDnZungqr'' [ty_cusolverDnHandle_t, ty_int, ty_int, ty_int, Ptr ty_cuDoubleComplex, ty_int, Ptr (Const ty_cuDoubleComplex), Ptr ty_cuDoubleComplex, ty_int, Ptr ty_int]
       ''cusolverDnZungqr'' ty_cusolverStatus_t [ty_cusolverDnHandle_t, ty_int, ty_int, ty_int, Ptr ty_cuDoubleComplex, ty_int, Ptr (Const ty_cuDoubleComplex), Ptr ty_cuDoubleComplex, ty_int, Ptr ty_int] ''cusolverDnZungqr'' [0, 1, 2, 3, 4, 5, 6, 7, 8, 9] False,
     Gen cusolver ty_cusolverStatus_t ''cusolverDnSormqr_bufferSize'' [ty_cusolverDnHandle_t, ty_cublasSideMode_t, ty_cublasOperation_t, ty_int, ty_int, ty_int, Ptr (Const ty_float), ty_int, Ptr (Const ty_float), Ptr (Const ty_float), ty_int, Ptr ty_int]
       ''cusolverDnSormqr_bufferSize'' ty_cusolverStatus_t [ty_cusolverDnHandle_t, ty_cublasSideMode_t, ty_cublasOperation_t, ty_int, ty_int, ty_int, Ptr (Const ty_float), ty_int, Ptr (Const ty_float), Ptr (Const ty_float), ty_int, Ptr ty_int] ''cusolverDnSormqr_bufferSize'' [0, 1, 2, 3, 4, 5, 6, 7, 8, 9, 10, 11] False]"

definition cusolver_hooks_15 :: "gen_hook list" where
  "cusolver_hooks_15 =
    [Gen cusolver ty_cusolverStatus_t ''cusolverDnDormqr_bufferSize'' [ty_cusolverDnHandle_t, ty_cublasSideMode_t, ty_cublasOperation_t, ty_int, ty_int, ty_int, Ptr (Const ty_double), ty_int, Ptr (Const ty_double), Ptr (Const ty_double), ty_int, Ptr ty_int]
       ''cusolverDnDormqr_bufferSize'' ty_cusolverStatus_t [ty_cusolverDnHandle_t, ty_cublasSideMode_t, ty_cublasOperation_t, ty_int, ty_int, ty_int, Ptr (Const ty_double), ty_int, Ptr (Const ty_double), Ptr (Const ty_double), ty_int, Ptr ty_int] ''cusolverDnDormqr_bufferSize'' [0, 1, 2, 3, 4, 5, 6, 7, 8, 9, 10, 11] False,
     Gen cusolver ty_cusolverStatus_t ''cusolverDnCunmqr_bufferSize'' [ty_cusolverDnHandle_t, ty_cublasSideMode_t, ty_cublasOperation_t, ty_int, ty_int, ty_int, Ptr (Const ty_cuComplex), ty_int, Ptr (Const ty_cuComplex), Ptr (Const ty_cuComplex), ty_int, Ptr ty_int]
       ''cusolverDnCunmqr_bufferSize'' ty_cusolverStatus_t [ty_cusolverDnHandle_t, ty_cublasSideMode_t, ty_cublasOperation_t, ty_int, ty_int, ty_int, Ptr (Const ty_cuComplex), ty_int, Ptr (Const ty_cuComplex), Ptr (Const ty_cuComplex), ty_int, Ptr ty_int] ''cusolverDnCunmqr_bufferSize'' [0, 1, 2, 3, 4, 5, 6, 7, 8, 9, 10, 11] False,
     Gen cusolver ty_cusolverStatus_t ''cusolverDnZunmqr_bufferSize'' [ty_cusolverDnHandle_t, ty_cublasSideMode_t, ty_cublasOperation_t, ty_int, ty_int, ty_int, Ptr (Const ty_cuDoubleComplex), ty_int, Ptr (Const ty_cuDoubleComplex), Ptr (Const ty_cuDoubleComplex), ty_int, Ptr ty_int]
       ''cusolverDnZunmqr_bufferSize'' ty_cusolverStatus_t [ty_cusolverDnHandle_t, ty_cublasSideMode_t, ty_cublasOperation_t, ty_int, ty_int, ty_int, Ptr (Const ty_cuDoubleComplex), ty_int, Ptr (Const ty_cuDoubleComplex), Ptr (Const ty_cuDoubleComplex), ty_int, Ptr ty_int] ''cusolverDnZunmqr_bufferSize'' [0, 1, 2, 3, 4, 5, 6, 7, 8, 9, 10, 11] False,
     Gen cusolver ty_cusolverStatus_t ''cusolverDnSormqr'' [ty_cusolverDnHandle_t, ty_cublasSideMode_t, ty_cublasOperation_t, ty_int, ty_int, ty_int, Ptr (Const ty_float), ty_int, Ptr (Const ty_float), Ptr ty_float, ty_int, Ptr ty_float, ty_int, Ptr ty_int]
       ''cusolverDnSormqr'' ty_cusolverStatus_t [ty_cusolverDnHandle_t, ty_cublasSideMode_t, ty_cublasOperation_t, ty_int, ty_int, ty_int, Ptr (Const ty_float), ty_int, Ptr (Const ty_float), Ptr ty_float, ty_int, Ptr ty_float, ty_int, Ptr ty_int] ''cusolverDnSormqr'' [0, 1, 2, 3, 4, 5, 6, 7, 8, 9, 10, 11, 12, 13] False,
     Gen cusolver ty_cusolverStatus_t ''cusolverDnDormqr'' [ty_cusolverDnHandle_t, ty_cublasSideMode_t, ty_cublasOperation_t, ty_int, ty_int, ty_int, Ptr (Const ty_double), ty_int, Ptr (Const ty_double), Ptr ty_double, ty_int, Ptr ty_double, ty_int, Ptr ty_int]
       ''cusolverDnDormqr'' ty_cusolverStatus_t [ty_cusolverDnHandle_t, ty_cublasSideMode_t, ty_cublasOperation_t, ty_int, ty_int, ty_int, Ptr (Const ty_double), ty_int, Ptr (Const ty_double), Ptr ty_double, ty_int, Ptr ty_double, ty_int, Ptr ty_int] ''cusolverDnDormqr'' [0, 1, 2, 3, 4, 5, 6, 7, 8, 9, 10, 11, 12, 13] False,
     Gen cusolver ty_cusolverStatus_t ''cusolverDnCunmqr'' [ty_cusolverDnHandle_t, ty_cublasSideMode_t, ty_cublasOperation_t, ty_int, ty_int, ty_int, Ptr (Const ty_cuComplex), ty_int, Ptr (Const ty_cuComplex), Ptr ty_cuComplex, ty_int, Ptr ty_cuComplex, ty_int, Ptr ty_int]
       ''cusolverDnCunmqr'' ty_cusolverStatus_t [ty_cusolverDnHandle_t, ty_cublasSideMode_t, ty_cublasOperation_t, ty_int, ty_int, ty_int, Ptr (Const ty_cuComplex), ty_int, Ptr (Const ty_cuComplex), Ptr ty_cuComplex, ty_int, Ptr ty_cuComplex, ty_int, Ptr ty_int] ''cusolverDnCunmqr'' [0, 1, 2, 3, 4, 5, 6, 7, 8, 9, 10, 11, 12, 13] False,
     Gen cusolver ty_cusolverStatus_t ''cusolverDnZunmqr'' [ty_cusolverDnHandle_t, ty_cublasSideMode_t, ty_cublasOperation_t, ty_int, ty_int, ty_int, Ptr (Const ty_cuDoubleComplex), ty_int, Ptr (Const ty_cuDoubleComplex), Ptr ty_cuDoubleComplex, ty_int, Ptr ty_cuDoubleComplex, ty_int, Ptr ty_int]
       ''cusolverDnZunmqr'' ty_cusolverStatus_t [ty_cusolverDnHandle_t, ty_cublasSideMode_t, ty_cublasOperation_t, ty_int, ty_int, ty_int, Ptr (Const ty_cuDoubleComplex), ty_int, Ptr (Const ty_cuDoubleComplex), Ptr ty_cuDoubleComplex, ty_int, Ptr ty_cuDoubleComplex, ty_int, Ptr ty_int] ''cusolverDnZunmqr'' [0, 1, 2, 3, 4, 5, 6, 7, 8, 9, 10, 11, 12, 13] False,
     Gen cusolver ty_cusolverStatus_t ''cusolverDnSsytrf_bufferSize'' [ty_cusolverDnHandle_t, ty_int, Ptr ty_float, ty_int, Ptr ty_int]
       ''cusolverDnSsytrf_bufferSize'' ty_cusolverStatus_t [ty_cusolverDnHandle_t, ty_int, Ptr ty_float, ty_int, Ptr ty_int] ''cusolverDnSsytrf_bufferSize'' [0, 1, 2, 3, 4] False,
     Gen cusolver ty_cusolverStatus_t ''cusolverDnDsytrf_bufferSize'' [ty_cusolverDnHandle_t, ty_int, Ptr ty_double, ty_int, Ptr ty_int]
       ''cusolverDnDsytrf_bufferSize'' ty_cusolverStatus_t [ty_cusolverDnHandle_t, ty_int, Ptr ty_double, ty_int, Ptr ty_int] ''cusolverDnDsytrf_bufferSize'' [0, 1, 2, 3, 4] False,
     Gen cusolver ty_cusolverStatus_t ''cusolverDnCsytrf_bufferSize'' [ty_cusolverDnHandle_t, ty_int, Ptr ty_cuComplex, ty_int, Ptr ty_int]
       ''cusolverDnCsytrf_bufferSize'' ty_cusolverStatus_t [ty_cusolverDnHandle_t, ty_int, Ptr ty_cuComplex, ty_int, Ptr ty_int] ''cusolverDnCsytrf_bufferSize'' [0, 1, 2, 3, 4] False,
     Gen cusolver ty_cusolverStatus_t ''cusolverDnZsytrf_bufferSize'' [ty_cusolverDnHandle_t, ty_int, Ptr ty_cuDoubleComplex, ty_int, Ptr ty_int]
       ''cusolverDnZsytrf_bufferSize'' ty_cusolverStatus_t [ty_cusolverDnHandle_t, ty_int, Ptr ty_cuDoubleComplex, ty_int, Ptr ty_int] ''cusolverDnZsytrf_bufferSize'' [0, 1, 2, 3, 4] False,
     Gen cusolver ty_cusolverStatus_t ''cusolverDnSsytrf'' [ty_cusolverDnHandle_t, ty_cublasFillMode_t, ty_int, Ptr ty_float, ty_int, Ptr ty_int, Ptr ty_float, ty_int, Ptr ty_int]
       ''cusolverDnSsytrf'' ty_cusolverStatus_t [ty_cusolverDnHandle_t, ty_cublasFillMode_t, ty_int, Ptr ty_float, ty_int, Ptr ty_int, Ptr ty_float, ty_int, Ptr ty_int] ''cusolverDnSsytrf'' [0, 1, 2, 3, 4, 5, 6, 7, 8] False,
     Gen cusolver ty_cusolverStatus_t ''cusolverDnDsytrf'' [ty_cusolverDnHandle_t, ty_cublasFillMode_t, ty_int, Ptr ty_double, ty_int, Ptr ty_int, Ptr ty_double, ty_int, Ptr ty_int]
       ''cusolverDnDsytrf'' ty_cusolverStatus_t [ty_cusolverDnHandle_t, ty_cublasFillMode_t, ty_int, Ptr ty_double, ty_int, Ptr ty_int, Ptr ty_double, ty_int, Ptr ty_int] ''cusolverDnDsytrf'' [0, 1, 2, 3, 4, 5, 6, 7, 8] False]"

definition cusolver_hooks_16 :: "gen_hook list" where
  "cusolver_hooks_16 =
    [Gen cusolver ty_cusolverStatus_t ''cusolverDnCsytrf'' [ty_cusolverDnHandle_t, ty_cublasFillMode_t, ty_int, Ptr ty_cuComplex, ty_int, Ptr ty_int, Ptr ty_cuComplex, ty_int, Ptr ty_int]
       ''cusolverDnCsytrf'' ty_cusolverStatus_t [ty_cusolverDnHandle_t, ty_cublasFillMode_t, ty_int, Ptr ty_cuComplex, ty_int, Ptr ty_int, Ptr ty_cuComplex, ty_int, Ptr ty_int] ''cusolverDnCsytrf'' [0, 1, 2, 3, 4, 5, 6, 7, 8] False,
     Gen cusolver ty_cusolverStatus_t ''cusolverDnZsytrf'' [ty_cusolverDnHandle_t, ty_cublasFillMode_t, ty_int, Ptr ty_cuDoubleComplex, ty_int, Ptr ty_int, Ptr ty_cuDoubleComplex, ty_int, Ptr ty_int]
       ''cusolverDnZsytrf'' ty_cusolverStatus_t [ty_cusolverDnHandle_t, ty_cublasFillMode_t, ty_int, Ptr ty_cuDoubleComplex, ty_int, Ptr ty_int, Ptr ty_cuDoubleComplex, ty_int, Ptr ty_int] ''cusolverDnZsytrf'' [0, 1, 2, 3, 4, 5, 6, 7, 8] False,
     Gen cusolver ty_cusolverStatus_t ''cusolverDnXsytrs_bufferSize'' [ty_cusolverDnHandle_t, ty_cublasFillMode_t, ty_int64_t, ty_int64_t, ty_cudaDataType, Ptr (Const ty_void), ty_int64_t, Ptr (Const ty_int64_t), ty_cudaDataType, Ptr ty_void, ty_int64_t, Ptr ty_size_t, Ptr ty_size_t]
       ''cusolverDnXsytrs_bufferSize'' ty_cusolverStatus_t [ty_cusolverDnHandle_t, ty_cublasFillMode_t, ty_int64_t, ty_int64_t, ty_cudaDataType, Ptr (Const ty_void), ty_int64_t, Ptr (Const ty_int64_t), ty_cudaDataType, Ptr ty_void, ty_int64_t, Ptr ty_size_t, Ptr ty_size_t] ''cusolverDnXsytrs_bufferSize'' [0, 1, 2, 3, 4, 5, 6, 7, 8, 9, 10, 11, 12] False,
     Gen cusolver ty_cusolverStatus_t ''cusolverDnXsytrs'' [ty_cusolverDnHandle_t, ty_cublasFillMode_t, ty_int64_t, ty_int64_t, ty_cudaDataType, Ptr (Const ty_void), ty_int64_t, Ptr (Const ty_int64_t), ty_cudaDataType, Ptr ty_void, ty_int64_t, Ptr ty_void, ty_size_t, Ptr ty_void, ty_size_t, Ptr ty_int]
       ''cusolverDnXsytrs'' ty_cusolverStatus_t [ty_cusolverDnHandle_t, ty_cublasFillMode_t, ty_int64_t, ty_int64_t, ty_cudaDataType, Ptr (Const ty_void), ty_int64_t, Ptr (Const ty_int64_t), ty_cudaDataType, Ptr ty_void, ty_int64_t, Ptr ty_void, ty_size_t, Ptr ty_void, ty_size_t, Ptr ty_int] ''cusolverDnXsytrs'' [0, 1, 2, 3, 4, 5, 6, 7, 8, 9, 10, 11, 12, 13, 14, 15] False,
     Gen cusolver ty_cusolverStatus_t ''cusolverDnSsytri_bufferSize'' [ty_cusolverDnHandle_t, ty_cublasFillMode_t, ty_int, Ptr ty_float, ty_int, Ptr (Const ty_int), Ptr ty_int]
       ''cusolverDnSsytri_bufferSize'' ty_cusolverStatus_t [ty_cusolverDnHandle_t, ty_cublasFillMode_t, ty_int, Ptr ty_float, ty_int, Ptr (Const ty_int), Ptr ty_int] ''cusolverDnSsytri_bufferSize'' [0, 1, 2, 3, 4, 5, 6] False,
     Gen cusolver ty_cusolverStatus_t ''cusolverDnDsytri_bufferSize'' [ty_cusolverDnHandle_t, ty_cublasFillMode_t, ty_int, Ptr ty_double, ty_int, Ptr (Const ty_int), Ptr ty_int]
       ''cusolverDnDsytri_bufferSize'' ty_cusolverStatus_t [ty_cusolverDnHandle_t, ty_cublasFillMode_t, ty_int, Ptr ty_double, ty_int, Ptr (Const ty_int), Ptr ty_int] ''cusolverDnDsytri_bufferSize'' [0, 1, 2, 3, 4, 5, 6] False,
     Gen cusolver ty_cusolverStatus_t ''cusolverDnCsytri_bufferSize'' [ty_cusolverDnHandle_t, ty_cublasFillMode_t, ty_int, Ptr ty_cuComplex, ty_int, Ptr (Const ty_int), Ptr ty_int]
       ''cusolverDnCsytri_bufferSize'' ty_cusolverStatus_t [ty_cusolverDnHandle_t, ty_cublasFillMode_t, ty_int, Ptr ty_cuComplex, ty_int, Ptr (Const ty_int), Ptr ty_int] ''cusolverDnCsytri_bufferSize'' [0, 1, 2, 3, 4, 5, 6] False,
     Gen cusolver ty_cusolverStatus_t ''cusolverDnZsytri_bufferSize'' [ty_cusolverDnHandle_t, ty_cublasFillMode_t, ty_int, Ptr ty_cuDoubleComplex, ty_int, Ptr (Const ty_int), Ptr ty_int]
       ''cusolverDnZsytri_bufferSize'' ty_cusolverStatus_t [ty_cusolverDnHandle_t, ty_cublasFillMode_t, ty_int, Ptr ty_cuDoubleComplex, ty_int, Ptr (Const ty_int), Ptr ty_int] ''cusolverDnZsytri_bufferSize'' [0, 1, 2, 3, 4, 5, 6] False,
     Gen cusolver ty_cusolverStatus_t ''cusolverDnSsytri'' [ty_cusolverDnHandle_t, ty_cublasFillMode_t, ty_int, Ptr ty_float, ty_int, Ptr (Const ty_int), Ptr ty_float, ty_int, Ptr ty_int]
       ''cusolverDnSsytri'' ty_cusolverStatus_t [ty_cusolverDnHandle_t, ty_cublasFillMode_t, ty_int, Ptr ty_float, ty_int, Ptr (Const ty_int), Ptr ty_float, ty_int, Ptr ty_int] ''cusolverDnSsytri'' [0, 1, 2, 3, 4, 5, 6, 7, 8] False,
     Gen cusolver ty_cusolverStatus_t ''cusolverDnDsytri'' [ty_cusolverDnHandle_t, ty_cublasFillMode_t, ty_int, Ptr ty_double, ty_int, Ptr (Const ty_int), Ptr ty_double, ty_int, Ptr ty_int]
       ''cusolverDnDsytri'' ty_cusolverStatus_t [ty_cusolverDnHandle_t, ty_cublasFillMode_t, ty_int, Ptr ty_double, ty_int, Ptr (Const ty_int), Ptr ty_double, ty_int, Ptr ty_int] ''cusolverDnDsytri'' [0, 1, 2, 3, 4, 5, 6, 7, 8] False,
     Gen cusolver ty_cusolverStatus_t ''cusolverDnCsytri'' [ty_cusolverDnHandle_t, ty_cublasFillMode_t, ty_int, Ptr ty_cuComplex, ty_int, Ptr (Const ty_int), Ptr ty_cuComplex, ty_int, Ptr ty_int]
       ''cusolverDnCsytri'' ty_cusolverStatus_t [ty_cusolverDnHandle_t, ty_cublasFillMode_t, ty_int, Ptr ty_cuComplex, ty_int, Ptr (Const ty_int), Ptr ty_cuComplex, ty_int, Ptr ty_int] ''cusolverDnCsytri'' [0, 1, 2, 3, 4, 5, 6, 7, 8] False,
     Gen cusolver ty_cusolverStatus_t ''cusolverDnZsytri'' [ty_cusolverDnHandle_t, ty_cublasFillMode_t, ty_int, Ptr ty_cuDoubleComplex, ty_int, Ptr (Const ty_int), Ptr ty_cuDoubleComplex, ty_int, Ptr ty_int]
       ''cusolverDnZsytri'' ty_cusolverStatus_t [ty_cusolverDnHandle_t, ty_cublasFillMode_t, ty_int, Ptr ty_cuDoubleComplex, ty_int, Ptr (Const ty_int), Ptr ty_cuDoubleComplex, ty_int, Ptr ty_int] ''cusolverDnZsytri'' [0, 1, 2, 3, 4, 5, 6, 7, 8] False,
     Gen cusolver ty_cusolverStatus_t ''cusolverDnSgebrd_bufferSize'' [ty_cusolverDnHandle_t, ty_int, ty_int, Ptr ty_int]
       ''cusolverDnSgebrd_bufferSize'' ty_cusolverStatus_t [ty_cusolverDnHandle_t, ty_int, ty_int, Ptr ty_int] ''cusolverDnSgebrd_bufferSize'' [0, 1, 2, 3] False]"

definition cusolver_hooks_17 :: "gen_hook list" where
  "cusolver_hooks_17 =
    [Gen cusolver ty_cusolverStatus_t ''cusolverDnDgebrd_bufferSize'' [ty_cusolverDnHandle_t, ty_int, ty_int, Ptr ty_int]
       ''cusolverDnDgebrd_bufferSize'' ty_cusolverStatus_t [ty_cusolverDnHandle_t, ty_int, ty_int, Ptr ty_int] ''cusolverDnDgebrd_bufferSize'' [0, 1, 2, 3] False,
     Gen cusolver ty_cusolverStatus_t ''cusolverDnCgebrd_bufferSize'' [ty_cusolverDnHandle_t, ty_int, ty_int, Ptr ty_int]
       ''cusolverDnCgebrd_bufferSize'' ty_cusolverStatus_t [ty_cusolverDnHandle_t, ty_int, ty_int, Ptr ty_int] ''cusolverDnCgebrd_bufferSize'' [0, 1, 2, 3] False,
     Gen cusolver ty_cusolverStatus_t ''cusolverDnZgebrd_bufferSize'' [ty_cusolverDnHandle_t, ty_int, ty_int, Ptr ty_int]
       ''cusolverDnZgebrd_bufferSize'' ty_cusolverStatus_t [ty_cusolverDnHandle_t, ty_int, ty_int, Ptr ty_int] ''cusolverDnZgebrd_bufferSize'' [0, 1, 2, 3] False,
     Gen cusolver ty_cusolverStatus_t ''cusolverDnSgebrd'' [ty_cusolverDnHandle_t, ty_int, ty_int, Ptr ty_float, ty_int, Ptr ty_float, Ptr ty_float, Ptr ty_float, Ptr ty_float, Ptr ty_float, ty_int, Ptr ty_int]
       ''cusolverDnSgebrd'' ty_cusolverStatus_t [ty_cusolverDnHandle_t, ty_int, ty_int, Ptr ty_float, ty_int, Ptr ty_float, Ptr ty_float, Ptr ty_float, Ptr ty_float, Ptr ty_float, ty_int, Ptr ty_int] ''cusolverDnSgebrd'' [0, 1, 2, 3, 4, 5, 6, 7, 8, 9, 10, 11] False,
     Gen cusolver ty_cusolverStatus_t ''cusolverDnDgebrd'' [ty_cusolverDnHandle_t, ty_int, ty_int, Ptr ty_double, ty_int, Ptr ty_double, Ptr ty_double, Ptr ty_double, Ptr ty_double, Ptr ty_double, ty_int, Ptr ty_int]
       ''cusolverDnDgebrd'' ty_cusolverStatus_t [ty_cusolverDnHandle_t, ty_int, ty_int, Ptr ty_double, ty_int, Ptr ty_double, Ptr ty_double, Ptr ty_double, Ptr ty_double, Ptr ty_double, ty_int, Ptr ty_int] ''cusolverDnDgebrd'' [0, 1, 2, 3, 4, 5, 6, 7, 8, 9, 10, 11] False,
     Gen cusolver ty_cusolverStatus_t ''cusolverDnCgebrd'' [ty_cusolverDnHandle_t, ty_int, ty_int, Ptr ty_cuComplex, ty_int, Ptr ty_float, Ptr ty_float, Ptr ty_cuComplex, Ptr ty_cuComplex, Ptr ty_cuComplex, ty_int, Ptr ty_int]
       ''cusolverDnCgebrd'' ty_cusolverStatus_t [ty_cusolverDnHandle_t, ty_int, ty_int, Ptr ty_cuComplex, ty_int, Ptr ty_float, Ptr ty_float, Ptr ty_cuComplex, Ptr ty_cuComplex, Ptr ty_cuComplex, ty_int, Ptr ty_int] ''cusolverDnCgebrd'' [0, 1, 2, 3, 4, 5, 6, 7, 8, 9, 10, 11] False,
     Gen cusolver ty_cusolverStatus_t ''cusolverDnZgebrd'' [ty_cusolverDnHandle_t, ty_int, ty_int, Ptr ty_cuDoubleComplex, ty_int, Ptr ty_double, Ptr ty_double, Ptr ty_cuDoubleComplex, Ptr ty_cuDoubleComplex, Ptr ty_cuDoubleComplex, ty_int, Ptr ty_int]
       ''cusolverDnZgebrd'' ty_cusolverStatus_t [ty_cusolverDnHandle_t, ty_int, ty_int, Ptr ty_cuDoubleComplex, ty_int, Ptr ty_double, Ptr ty_double, Ptr ty_cuDoubleComplex, Ptr ty_cuDoubleComplex, Ptr ty_cuDoubleComplex, ty_int, Ptr ty_int] ''cusolverDnZgebrd'' [0, 1, 2, 3, 4, 5, 6, 7, 8, 9, 10, 11] False,
     Gen cusolver ty_cusolverStatus_t ''cusolverDnSorgbr_bufferSize'' [ty_cusolverDnHandle_t, ty_cublasSideMode_t, ty_int, ty_int, ty_int, Ptr (Const ty_float), ty_int, Ptr (Const ty_float), Ptr ty_int]
       ''cusolverDnSorgbr_bufferSize'' ty_cusolverStatus_t [ty_cusolverDnHandle_t, ty_cublasSideMode_t, ty_int, ty_int, ty_int, Ptr (Const ty_float), ty_int, Ptr (Const ty_float), Ptr ty_int] ''cusolverDnSorgbr_bufferSize'' [0, 1, 2, 3, 4, 5, 6, 7, 8] False,
     Gen cusolver ty_cusolverStatus_t ''cusolverDnDorgbr_bufferSize'' [ty_cusolverDnHandle_t, ty_cublasSideMode_t, ty_int, ty_int, ty_int, Ptr (Const ty_double), ty_int, Ptr (Const ty_double), Ptr ty_int]
       ''cusolverDnDorgbr_bufferSize'' ty_cusolverStatus_t [ty_cusolverDnHandle_t, ty_cublasSideMode_t, ty_int, ty_int, ty_int, Ptr (Const ty_double), ty_int, Ptr (Const ty_double), Ptr ty_int] ''cusolverDnDorgbr_bufferSize'' [0, 1, 2, 3, 4, 5, 6, 7, 8] False,
     Gen cusolver ty_cusolverStatus_t ''cusolverDnCungbr_bufferSize'' [ty_cusolverDnHandle_t, ty_cublasSideMode_t, ty_int, ty_int, ty_int, Ptr (Const ty_cuComplex), ty_int, Ptr (Const ty_cuComplex), Ptr ty_int]
       ''cusolverDnCungbr_bufferSize'' ty_cusolverStatus_t [ty_cusolverDnHandle_t, ty_cublasSideMode_t, ty_int, ty_int, ty_int, Ptr (Const ty_cuComplex), ty_int, Ptr (Const ty_cuComplex), Ptr ty_int] ''cusolverDnCungbr_bufferSize'' [0, 1, 2, 3, 4, 5, 6, 7, 8] False,
     Gen cusolver ty_cusolverStatus_t ''cusolverDnZungbr_bufferSize'' [ty_cusolverDnHandle_t, ty_cublasSideMode_t, ty_int, ty_int, ty_int, Ptr (Const ty_cuDoubleComplex), ty_int, Ptr (Const ty_cuDoubleComplex), Ptr ty_int]
       ''cusolverDnZungbr_bufferSize'' ty_cusolverStatus_t [ty_cusolverDnHandle_t, ty_cublasSideMode_t, ty_int, ty_int, ty_int, Ptr (Const ty_cuDoubleComplex), ty_int, Ptr (Const ty_cuDoubleComplex), Ptr ty_int] ''cusolverDnZungbr_bufferSize'' [0, 1, 2, 3, 4, 5, 6, 7, 8] False,
     Gen cusolver ty_cusolverStatus_t ''cusolverDnSorgbr'' [ty_cusolverDnHandle_t, ty_cublasSideMode_t, ty_int, ty_int, ty_int, Ptr ty_float, ty_int, Ptr (Const ty_float), Ptr ty_float, ty_int, Ptr ty_int]
       ''cusolverDnSorgbr'' ty_cusolverStatus_t [ty_cusolverDnHandle_t, ty_cublasSideMode_t, ty_int, ty_int, ty_int, Ptr ty_float, ty_int, Ptr (Const ty_float), Ptr ty_float, ty_int, Ptr ty_int] ''cusolverDnSorgbr'' [0, 1, 2, 3, 4, 5, 6, 7, 8, 9, 10] False,
     Gen cusolver ty_cusolverStatus_t ''cusolverDnDorgbr'' [ty_cusolverDnHandle_t, ty_cublasSideMode_t, ty_int, ty_int, ty_int, Ptr ty_double, ty_int, Ptr (Const ty_double), Ptr ty_double, ty_int, Ptr ty_int]
       ''cusolverDnDorgbr'' ty_cusolverStatus_t [ty_cusolverDnHandle_t, ty_cublasSideMode_t, ty_int, ty_int, ty_int, Ptr ty_double, ty_int, Ptr (Const ty_double), Ptr ty_double, ty_int, Ptr ty_int] ''cusolverDnDorgbr'' [0, 1, 2, 3, 4, 5, 6, 7, 8, 9, 10] False]"

definition cusolver_hooks_18 :: "gen_hook list" where
  "cusolver_hooks_18 =
    [Gen cusolver ty_cusolverStatus_t ''cusolverDnCungbr'' [ty_cusolverDnHandle_t, ty_cublasSideMode_t, ty_int, ty_int, ty_int, Ptr ty_cuComplex, ty_int, Ptr (Const ty_cuComplex), Ptr ty_cuComplex, ty_int, Ptr ty_int]
       ''cusolverDnCungbr'' ty_cusolverStatus_t [ty_cusolverDnHandle_t, ty_cublasSideMode_t, ty_int, ty_int, ty_int, Ptr ty_cuComplex, ty_int, Ptr (Const ty_cuComplex), Ptr ty_cuComplex, ty_int, Ptr ty_int] ''cusolverDnCungbr'' [0, 1, 2, 3, 4, 5, 6, 7, 8, 9, 10] False,
     Gen cusolver ty_cusolverStatus_t ''cusolverDnZungbr'' [ty_cusolverDnHandle_t, ty_cublasSideMode_t, ty_int, ty_int, ty_int, Ptr ty_cuDoubleComplex, ty_int, Ptr (Const ty_cuDoubleComplex), Ptr ty_cuDoubleComplex, ty_int, Ptr ty_int]
       ''cusolverDnZungbr'' ty_cusolverStatus_t [ty_cusolverDnHandle_t, ty_cublasSideMode_t, ty_int, ty_int, ty_int, Ptr ty_cuDoubleComplex, ty_int, Ptr (Const ty_cuDoubleComplex), Ptr ty_cuDoubleComplex, ty_int, Ptr ty_int] ''cusolverDnZungbr'' [0, 1, 2, 3, 4, 5, 6, 7, 8, 9, 10] False,
     Gen cusolver ty_cusolverStatus_t ''cusolverDnSsytrd_bufferSize'' [ty_cusolverDnHandle_t, ty_cublasFillMode_t, ty_int, Ptr (Const ty_float), ty_int, Ptr (Const ty_float), Ptr (Const ty_float), Ptr (Const ty_float), Ptr ty_int]
       ''cusolverDnSsytrd_bufferSize'' ty_cusolverStatus_t [ty_cusolverDnHandle_t, ty_cublasFillMode_t, ty_int, Ptr (Const ty_float), ty_int, Ptr (Const ty_float), Ptr (Const ty_float), Ptr (Const ty_float), Ptr ty_int] ''cusolverDnSsytrd_bufferSize'' [0, 1, 2, 3, 4, 5, 6, 7, 8] False,
     Gen cusolver ty_cusolverStatus_t ''cusolverDnDsytrd_bufferSize'' [ty_cusolverDnHandle_t, ty_cublasFillMode_t, ty_int, Ptr (Const ty_double), ty_int, Ptr (Const ty_double), Ptr (Const ty_double), Ptr (Const ty_double), Ptr ty_int]
       ''cusolverDnDsytrd_bufferSize'' ty_cusolverStatus_t [ty_cusolverDnHandle_t, ty_cublasFillMode_t, ty_int, Ptr (Const ty_double), ty_int, Ptr (Const ty_double), Ptr (Const ty_double), Ptr (Const ty_double), Ptr ty_int] ''cusolverDnDsytrd_bufferSize'' [0, 1, 2, 3, 4, 5, 6, 7, 8] False,
     Gen cusolver ty_cusolverStatus_t ''cusolverDnChetrd_bufferSize'' [ty_cusolverDnHandle_t, ty_cublasFillMode_t, ty_int, Ptr (Const ty_cuComplex), ty_int, Ptr (Const ty_float), Ptr (Const ty_float), Ptr (Const ty_cuComplex), Ptr ty_int]
       ''cusolverDnChetrd_bufferSize'' ty_cusolverStatus_t [ty_cusolverDnHandle_t, ty_cublasFillMode_t, ty_int, Ptr (Const ty_cuComplex), ty_int, Ptr (Const ty_float), Ptr (Const ty_float), Ptr (Const ty_cuComplex), Ptr ty_int] ''cusolverDnChetrd_bufferSize'' [0, 1, 2, 3, 4, 5, 6, 7, 8] False,
     Gen cusolver ty_cusolverStatus_t ''cusolverDnZhetrd_bufferSize'' [ty_cusolverDnHandle_t, ty_cublasFillMode_t, ty_int, Ptr (Const ty_cuDoubleComplex), ty_int, Ptr (Const ty_double), Ptr (Const ty_double), Ptr (Const ty_cuDoubleComplex), Ptr ty_int]
       ''cusolverDnZhetrd_bufferSize'' ty_cusolverStatus_t [ty_cusolverDnHandle_t, ty_cublasFillMode_t, ty_int, Ptr (Const ty_cuDoubleComplex), ty_int, Ptr (Const ty_double), Ptr (Const ty_double), Ptr (Const ty_cuDoubleComplex), Ptr ty_int] ''cusolverDnZhetrd_bufferSize'' [0, 1, 2, 3, 4, 5, 6, 7, 8] False,
     Gen cusolver ty_cusolverStatus_t ''cusolverDnSsytrd'' [ty_cusolverDnHandle_t, ty_cublasFillMode_t, ty_int, Ptr ty_float, ty_int, Ptr ty_float, Ptr ty_float, Ptr ty_float, Ptr ty_float, ty_int, Ptr ty_int]
       ''cusolverDnSsytrd'' ty_cusolverStatus_t [ty_cusolverDnHandle_t, ty_cublasFillMode_t, ty_int, Ptr ty_float, ty_int, Ptr ty_float, Ptr ty_float, Ptr ty_float, Ptr ty_float, ty_int, Ptr ty_int] ''cusolverDnSsytrd'' [0, 1, 2, 3, 4, 5, 6, 7, 8, 9, 10] False,
     Gen cusolver ty_cusolverStatus_t ''cusolverDnDsytrd'' [ty_cusolverDnHandle_t, ty_cublasFillMode_t, ty_int, Ptr ty_double, ty_int, Ptr ty_double, Ptr ty_double, Ptr ty_double, Ptr ty_double, ty_int, Ptr ty_int]
       ''cusolverDnDsytrd'' ty_cusolverStatus_t [ty_cusolverDnHandle_t, ty_cublasFillMode_t, ty_int, Ptr ty_double, ty_int, Ptr ty_double, Ptr ty_double, Ptr ty_double, Ptr ty_double, ty_int, Ptr ty_int] ''cusolverDnDsytrd'' [0, 1, 2, 3, 4, 5, 6, 7, 8, 9, 10] False,
     Gen cusolver ty_cusolverStatus_t ''cusolverDnChetrd'' [ty_cusolverDnHandle_t, ty_cublasFillMode_t, ty_int, Ptr ty_cuComplex, ty_int, Ptr ty_float, Ptr ty_float, Ptr ty_cuComplex, Ptr ty_cuComplex, ty_int, Ptr ty_int]
       ''cusolverDnChetrd'' ty_cusolverStatus_t [ty_cusolverDnHandle_t, ty_cublasFillMode_t, ty_int, Ptr ty_cuComplex, ty_int, Ptr ty_float, Ptr ty_float, Ptr ty_cuComplex, Ptr ty_cuComplex, ty_int, Ptr ty_int] ''cusolverDnChetrd'' [0, 1, 2, 3, 4, 5, 6, 7, 8, 9, 10] False,
     Gen cusolver ty_cusolverStatus_t ''cusolverDnZhetrd'' [ty_cusolverDnHandle_t, ty_cublasFillMode_t, ty_int, Ptr ty_cuDoubleComplex, ty_int, Ptr ty_double, Ptr ty_double, Ptr ty_cuDoubleComplex, Ptr ty_cuDoubleComplex, ty_int, Ptr ty_int]
       ''cusolverDnZhetrd'' ty_cusolverStatus_t [ty_cusolverDnHandle_t, ty_cublasFillMode_t, ty_int, Ptr ty_cuDoubleComplex, ty_int, Ptr ty_double, Ptr ty_double, Ptr ty_cuDoubleComplex, Ptr ty_cuDoubleComplex, ty_int, Ptr ty_int] ''cusolverDnZhetrd'' [0, 1, 2, 3, 4, 5, 6, 7, 8, 9, 10] False,
     Gen cusolver ty_cusolverStatus_t ''cusolverDnSorgtr_bufferSize'' [ty_cusolverDnHandle_t, ty_cublasFillMode_t, ty_int, Ptr (Const ty_float), ty_int, Ptr (Const ty_float), Ptr ty_int]
       ''cusolverDnSorgtr_bufferSize'' ty_cusolverStatus_t [ty_cusolverDnHandle_t, ty_cublasFillMode_t, ty_int, Ptr (Const ty_float), ty_int, Ptr (Const ty_float), Ptr ty_int] ''cusolverDnSorgtr_bufferSize'' [0, 1, 2, 3, 4, 5, 6] False,
     Gen cusolver ty_cusolverStatus_t ''cusolverDnDorgtr_bufferSize'' [ty_cusolverDnHandle_t, ty_cublasFillMode_t, ty_int, Ptr (Const ty_double), ty_int, Ptr (Const ty_double), Ptr ty_int]
       ''cusolverDnDorgtr_bufferSize'' ty_cusolverStatus_t [ty_cusolverDnHandle_t, ty_cublasFillMode_t, ty_int, Ptr (Const ty_double), ty_int, Ptr (Const ty_double), Ptr ty_int] ''cusolverDnDorgtr_bufferSize'' [0, 1, 2, 3, 4, 5, 6] False]"

definition cusolver_hooks_19 :: "gen_hook list" where
  "cusolver_hooks_19 =
    [Gen cusolver ty_cusolverStatus_t ''cusolverDnCungtr_bufferSize'' [ty_cusolverDnHandle_t, ty_cublasFillMode_t, ty_int, Ptr (Const ty_cuComplex), ty_int, Ptr (Const ty_cuComplex), Ptr ty_int]
       ''cusolverDnCungtr_bufferSize'' ty_cusolverStatus_t [ty_cusolverDnHandle_t, ty_cublasFillMode_t, ty_int, Ptr (Const ty_cuComplex), ty_int, Ptr (Const ty_cuComplex), Ptr ty_int] ''cusolverDnCungtr_bufferSize'' [0, 1, 2, 3, 4, 5, 6] False,
     Gen cusolver ty_cusolverStatus_t ''cusolverDnZungtr_bufferSize'' [ty_cusolverDnHandle_t, ty_cublasFillMode_t, ty_int, Ptr (Const ty_cuDoubleComplex), ty_int, Ptr (Const ty_cuDoubleComplex), Ptr ty_int]
       ''cusolverDnZungtr_bufferSize'' ty_cusolverStatus_t [ty_cusolverDnHandle_t, ty_cublasFillMode_t, ty_int, Ptr (Const ty_cuDoubleComplex), ty_int, Ptr (Const ty_cuDoubleComplex), Ptr ty_int] ''cusolverDnZungtr_bufferSize'' [0, 1, 2, 3, 4, 5, 6] False,
     Gen cusolver ty_cusolverStatus_t ''cusolverDnSorgtr'' [ty_cusolverDnHandle_t, ty_cublasFillMode_t, ty_int, Ptr ty_float, ty_int, Ptr (Const ty_float), Ptr ty_float, ty_int, Ptr ty_int]
       ''cusolverDnSorgtr'' ty_cusolverStatus_t [ty_cusolverDnHandle_t, ty_cublasFillMode_t, ty_int, Ptr ty_float, ty_int, Ptr (Const ty_float), Ptr ty_float, ty_int, Ptr ty_int] ''cusolverDnSorgtr'' [0, 1, 2, 3, 4, 5, 6, 7, 8] False,
     Gen cusolver ty_cusolverStatus_t ''cusolverDnDorgtr'' [ty_cusolverDnHandle_t, ty_cublasFillMode_t, ty_int, Ptr ty_double, ty_int, Ptr (Const ty_double), Ptr ty_double, ty_int, Ptr ty_int]
       ''cusolverDnDorgtr'' ty_cusolverStatus_t [ty_cusolverDnHandle_t, ty_cublasFillMode_t, ty_int, Ptr ty_double, ty_int, Ptr (Const ty_double), Ptr ty_double, ty_int, Ptr ty_int] ''cusolverDnDorgtr'' [0, 1, 2, 3, 4, 5, 6, 7, 8] False,
     Gen cusolver ty_cusolverStatus_t ''cusolverDnCungtr'' [ty_cusolverDnHandle_t, ty_cublasFillMode_t, ty_int, Ptr ty_cuComplex, ty_int, Ptr (Const ty_cuComplex), Ptr ty_cuComplex, ty_int, Ptr ty_int]
       ''cusolverDnCungtr'' ty_cusolverStatus_t [ty_cusolverDnHandle_t, ty_cublasFillMode_t, ty_int, Ptr ty_cuComplex, ty_int, Ptr (Const ty_cuComplex), Ptr ty_cuComplex, ty_int, Ptr ty_int] ''cusolverDnCungtr'' [0, 1, 2, 3, 4, 5, 6, 7, 8] False,
     Gen cusolver ty_cusolverStatus_t ''cusolverDnZungtr'' [ty_cusolverDnHandle_t, ty_cublasFillMode_t, ty_int, Ptr ty_cuDoubleComplex, ty_int, Ptr (Const ty_cuDoubleComplex), Ptr ty_cuDoubleComplex, ty_int, Ptr ty_int]
       ''cusolverDnZungtr'' ty_cusolverStatus_t [ty_cusolverDnHandle_t, ty_cublasFillMode_t, ty_int, Ptr ty_cuDoubleComplex, ty_int, Ptr (Const ty_cuDoubleComplex), Ptr ty_cuDoubleComplex, ty_int, Ptr ty_int] ''cusolverDnZungtr'' [0, 1, 2, 3, 4, 5, 6, 7, 8] False,
     Gen cusolver ty_cusolverStatus_t ''cusolverDnSormtr_bufferSize'' [ty_cusolverDnHandle_t, ty_cublasSideMode_t, ty_cublasFillMode_t, ty_cublasOperation_t, ty_int, ty_int, Ptr (Const ty_float), ty_int, Ptr (Const ty_float), Ptr (Const ty_float), ty_int, Ptr ty_int]
       ''cusolverDnSormtr_bufferSize'' ty_cusolverStatus_t [ty_cusolverDnHandle_t, ty_cublasSideMode_t, ty_cublasFillMode_t, ty_cublasOperation_t, ty_int, ty_int, Ptr (Const ty_float), ty_int, Ptr (Const ty_float), Ptr (Const ty_float), ty_int, Ptr ty_int] ''cusolverDnSormtr_bufferSize'' [0, 1, 2, 3, 4, 5, 6, 7, 8, 9, 10, 11] False,
     Gen cusolver ty_cusolverStatus_t ''cusolverDnDormtr_bufferSize'' [ty_cusolverDnHandle_t, ty_cublasSideMode_t, ty_cublasFillMode_t, ty_cublasOperation_t, ty_int, ty_int, Ptr (Const ty_double), ty_int, Ptr (Const ty_double), Ptr (Const ty_double), ty_int, Ptr ty_int]
       ''cusolverDnDormtr_bufferSize'' ty_cusolverStatus_t [ty_cusolverDnHandle_t, ty_cublasSideMode_t, ty_cublasFillMode_t, ty_cublasOperation_t, ty_int, ty_int, Ptr (Const ty_double), ty_int, Ptr (Const ty_double), Ptr (Const ty_double), ty_int, Ptr ty_int] ''cusolverDnDormtr_bufferSize'' [0, 1, 2, 3, 4, 5, 6, 7, 8, 9, 10, 11] False,
     Gen cusolver ty_cusolverStatus_t ''cusolverDnCunmtr_bufferSize'' [ty_cusolverDnHandle_t, ty_cublasSideMode_t, ty_cublasFillMode_t, ty_cublasOperation_t, ty_int, ty_int, Ptr (Const ty_cuComplex), ty_int, Ptr (Const ty_cuComplex), Ptr (Const ty_cuComplex), ty_int, Ptr ty_int]
       ''cusolverDnCunmtr_bufferSize'' ty_cusolverStatus_t [ty_cusolverDnHandle_t, ty_cublasSideMode_t, ty_cublasFillMode_t, ty_cublasOperation_t, ty_int, ty_int, Ptr (Const ty_cuComplex), ty_int, Ptr (Const ty_cuComplex), Ptr (Const ty_cuComplex), ty_int, Ptr ty_int] ''cusolverDnCunmtr_bufferSize'' [0, 1, 2, 3, 4, 5, 6, 7, 8, 9, 10, 11] False,
     Gen cusolver ty_cusolverStatus_t ''cusolverDnZunmtr_bufferSize'' [ty_cusolverDnHandle_t, ty_cublasSideMode_t, ty_cublasFillMode_t, ty_cublasOperation_t, ty_int, ty_int, Ptr (Const ty_cuDoubleComplex), ty_int, Ptr (Const ty_cuDoubleComplex), Ptr (Const ty_cuDoubleComplex), ty_int, Ptr ty_int]
       ''cusolverDnZunmtr_bufferSize'' ty_cusolverStatus_t [ty_cusolverDnHandle_t, ty_cublasSideMode_t, ty_cublasFillMode_t, ty_cublasOperation_t, ty_int, ty_int, Ptr (Const ty_cuDoubleComplex), ty_int, Ptr (Const ty_cuDoubleComplex), Ptr (Const ty_cuDoubleComplex), ty_int, Ptr ty_int] ''cusolverDnZunmtr_bufferSize'' [0, 1, 2, 3, 4, 5, 6, 7, 8, 9, 10, 11] False,
     Gen cusolver ty_cusolverStatus_t ''cusolverDnSormtr'' [ty_cusolverDnHandle_t, ty_cublasSideMode_t, ty_cublasFillMode_t, ty_cublasOperation_t, ty_int, ty_int, Ptr ty_float, ty_int, Ptr ty_float, Ptr ty_float, ty_int, Ptr ty_float, ty_int, Ptr ty_int]
       ''cusolverDnSormtr'' ty_cusolverStatus_t [ty_cusolverDnHandle_t, ty_cublasSideMode_t, ty_cublasFillMode_t, ty_cublasOperation_t, ty_int, ty_int, Ptr ty_float, ty_int, Ptr ty_float, Ptr ty_float, ty_int, Ptr ty_float, ty_int, Ptr ty_int] ''cusolverDnSormtr'' [0, 1, 2, 3, 4, 5, 6, 7, 8, 9, 10, 11, 12, 13] False,
     Gen cusolver ty_cusolverStatus_t ''cusolverDnDormtr'' [ty_cusolverDnHandle_t, ty_cublasSideMode_t, ty_cublasFillMode_t, ty_cublasOperation_t, ty_int, ty_int, Ptr ty_double, ty_int, Ptr ty_double, Ptr ty_double, ty_int, Ptr ty_double, ty_int, Ptr ty_int]
       ''cusolverDnDormtr'' ty_cusolverStatus_t [ty_cusolverDnHandle_t, ty_cublasSideMode_t, ty_cublasFillMode_t, ty_cublasOperation_t, ty_int, ty_int, Ptr ty_double, ty_int, Ptr ty_double, Ptr ty_double, ty_int, Ptr ty_double, ty_int, Ptr ty_int] ''cusolverDnDormtr'' [0, 1, 2, 3, 4, 5, 6, 7, 8, 9, 10, 11, 12, 13] False]"

definition cusolver_hooks_20 :: "gen_hook list" where
  "cusolver_hooks_20 =
    [Gen cusolver ty_cusolverStatus_t ''cusolverDnCunmtr'' [ty_cusolverDnHandle_t, ty_cublasSideMode_t, ty_cublasFillMode_t, ty_cublasOperation_t, ty_int, ty_int, Ptr ty_cuComplex, ty_int, Ptr ty_cuComplex, Ptr ty_cuComplex, ty_int, Ptr ty_cuComplex, ty_int, Ptr ty_int]
       ''cusolverDnCunmtr'' ty_cusolverStatus_t [ty_cusolverDnHandle_t, ty_cublasSideMode_t, ty_cublasFillMode_t, ty_cublasOperation_t, ty_int, ty_int, Ptr ty_cuComplex, ty_int, Ptr ty_cuComplex, Ptr ty_cuComplex, ty_int, Ptr ty_cuComplex, ty_int, Ptr ty_int] ''cusolverDnCunmtr'' [0, 1, 2, 3, 4, 5, 6, 7, 8, 9, 10, 11, 12, 13] False,
     Gen cusolver ty_cusolverStatus_t ''cusolverDnZunmtr'' [ty_cusolverDnHandle_t, ty_cublasSideMode_t, ty_cublasFillMode_t, ty_cublasOperation_t, ty_int, ty_int, Ptr ty_cuDoubleComplex, ty_int, Ptr ty_cuDoubleComplex, Ptr ty_cuDoubleComplex, ty_int, Ptr ty_cuDoubleComplex, ty_int, Ptr ty_int]
       ''cusolverDnZunmtr'' ty_cusolverStatus_t [ty_cusolverDnHandle_t, ty_cublasSideMode_t, ty_cublasFillMode_t, ty_cublasOperation_t, ty_int, ty_int, Ptr ty_cuDoubleComplex, ty_int, Ptr ty_cuDoubleComplex, Ptr ty_cuDoubleComplex, ty_int, Ptr ty_cuDoubleComplex, ty_int, Ptr ty_int] ''cusolverDnZunmtr'' [0, 1, 2, 3, 4, 5, 6, 7, 8, 9, 10, 11, 12, 13] False,
     Gen cusolver ty_cusolverStatus_t ''cusolverDnSgesvd_bufferSize'' [ty_cusolverDnHandle_t, ty_int, ty_int, Ptr ty_int]
       ''cusolverDnSgesvd_bufferSize'' ty_cusolverStatus_t [ty_cusolverDnHandle_t, ty_int, ty_int, Ptr ty_int] ''cusolverDnSgesvd_bufferSize'' [0, 1, 2, 3] False,
     Gen cusolver ty_cusolverStatus_t ''cusolverDnDgesvd_bufferSize'' [ty_cusolverDnHandle_t, ty_int, ty_int, Ptr ty_int]
       ''cusolverDnDgesvd_bufferSize'' ty_cusolverStatus_t [ty_cusolverDnHandle_t, ty_int, ty_int, Ptr ty_int] ''cusolverDnDgesvd_bufferSize'' [0, 1, 2, 3] False,
     Gen cusolver ty_cusolverStatus_t ''cusolverDnCgesvd_bufferSize'' [ty_cusolverDnHandle_t, ty_int, ty_int, Ptr ty_int]
       ''cusolverDnCgesvd_bufferSize'' ty_cusolverStatus_t [ty_cusolverDnHandle_t, ty_int, ty_int, Ptr ty_int] ''cusolverDnCgesvd_bufferSize'' [0, 1, 2, 3] False,
     Gen cusolver ty_cusolverStatus_t ''cusolverDnZgesvd_bufferSize'' [ty_cusolverDnHandle_t, ty_int, ty_int, Ptr ty_int]
       ''cusolverDnZgesvd_bufferSize'' ty_cusolverStatus_t [ty_cusolverDnHandle_t, ty_int, ty_int, Ptr ty_int] ''cusolverDnZgesvd_bufferSize'' [0, 1, 2, 3] False,
     Gen cusolver ty_cusolverStatus_t ''cusolverDnSgesvd'' [ty_cusolverDnHandle_t, ty_signed_char, ty_signed_char, ty_int, ty_int, Ptr ty_float, ty_int, Ptr ty_float, Ptr ty_float, ty_int, Ptr ty_float, ty_int, Ptr ty_float, ty_int, Ptr ty_float, Ptr ty_int]
       ''cusolverDnSgesvd'' ty_cusolverStatus_t [ty_cusolverDnHandle_t, ty_signed_char, ty_signed_char, ty_int, ty_int, Ptr ty_float, ty_int, Ptr ty_float, Ptr ty_float, ty_int, Ptr ty_float, ty_int, Ptr ty_float, ty_int, Ptr ty_float, Ptr ty_int] ''cusolverDnSgesvd'' [0, 1, 2, 3, 4, 5, 6, 7, 8, 9, 10, 11, 12, 13, 14, 15] False,
     Gen cusolver ty_cusolverStatus_t ''cusolverDnDgesvd'' [ty_cusolverDnHandle_t, ty_signed_char, ty_signed_char, ty_int, ty_int, Ptr ty_double, ty_int, Ptr ty_double, Ptr ty_double, ty_int, Ptr ty_double, ty_int, Ptr ty_double, ty_int, Ptr ty_double, Ptr ty_int]
       ''cusolverDnDgesvd'' ty_cusolverStatus_t [ty_cusolverDnHandle_t, ty_signed_char, ty_signed_char, ty_int, ty_int, Ptr ty_double, ty_int, Ptr ty_double, Ptr ty_double, ty_int, Ptr ty_double, ty_int, Ptr ty_double, ty_int, Ptr ty_double, Ptr ty_int] ''cusolverDnDgesvd'' [0, 1, 2, 3, 4, 5, 6, 7, 8, 9, 10, 11, 12, 13, 14, 15] False,
     Gen cusolver ty_cusolverStatus_t ''cusolverDnCgesvd'' [ty_cusolverDnHandle_t, ty_signed_char, ty_signed_char, ty_int, ty_int, Ptr ty_cuComplex, ty_int, Ptr ty_float, Ptr ty_cuComplex, ty_int, Ptr ty_cuComplex, ty_int, Ptr ty_cuComplex, ty_int, Ptr ty_float, Ptr ty_int]
       ''cusolverDnCgesvd'' ty_cusolverStatus_t [ty_cusolverDnHandle_t, ty_signed_char, ty_signed_char, ty_int, ty_int, Ptr ty_cuComplex, ty_int, Ptr ty_float, Ptr ty_cuComplex, ty_int, Ptr ty_cuComplex, ty_int, Ptr ty_cuComplex, ty_int, Ptr ty_float, Ptr ty_int] ''cusolverDnCgesvd'' [0, 1, 2, 3, 4, 5, 6, 7, 8, 9, 10, 11, 12, 13, 14, 15] False,
     Gen cusolver ty_cusolverStatus_t ''cusolverDnZgesvd'' [ty_cusolverDnHandle_t, ty_signed_char, ty_signed_char, ty_int, ty_int, Ptr ty_cuDoubleComplex, ty_int, Ptr ty_double, Ptr ty_cuDoubleComplex, ty_int, Ptr ty_cuDoubleComplex, ty_int, Ptr ty_cuDoubleComplex, ty_int, Ptr ty_double, Ptr ty_int]
       ''cusolverDnZgesvd'' ty_cusolverStatus_t [ty_cusolverDnHandle_t, ty_signed_char, ty_signed_char, ty_int, ty_int, Ptr ty_cuDoubleComplex, ty_int, Ptr ty_double, Ptr ty_cuDoubleComplex, ty_int, Ptr ty_cuDoubleComplex, ty_int, Ptr ty_cuDoubleComplex, ty_int, Ptr ty_double, Ptr ty_int] ''cusolverDnZgesvd'' [0, 1, 2, 3, 4, 5, 6, 7, 8, 9, 10, 11, 12, 13, 14, 15] False,
     Gen cusolver ty_cusolverStatus_t ''cusolverDnSsyevd_bufferSize'' [ty_cusolverDnHandle_t, ty_cusolverEigMode_t, ty_cublasFillMode_t, ty_int, Ptr (Const ty_float), ty_int, Ptr (Const ty_float), Ptr ty_int]
       ''cusolverDnSsyevd_bufferSize'' ty_cusolverStatus_t [ty_cusolverDnHandle_t, ty_cusolverEigMode_t, ty_cublasFillMode_t, ty_int, Ptr (Const ty_float), ty_int, Ptr (Const ty_float), Ptr ty_int] ''cusolverDnSsyevd_bufferSize'' [0, 1, 2, 3, 4, 5, 6, 7] False,
     Gen cusolver ty_cusolverStatus_t ''cusolverDnDsyevd_bufferSize'' [ty_cusolverDnHandle_t, ty_cusolverEigMode_t, ty_cublasFillMode_t, ty_int, Ptr (Const ty_double), ty_int, Ptr (Const ty_double), Ptr ty_int]
       ''cusolverDnDsyevd_bufferSize'' ty_cusolverStatus_t [ty_cusolverDnHandle_t, ty_cusolverEigMode_t, ty_cublasFillMode_t, ty_int, Ptr (Const ty_double), ty_int, Ptr (Const ty_double), Ptr ty_int] ''cusolverDnDsyevd_bufferSize'' [0, 1, 2, 3, 4, 5, 6, 7] False,
     Gen cusolver ty_cusolverStatus_t ''cusolverDnCheevd_bufferSize'' [ty_cusolverDnHandle_t, ty_cusolverEigMode_t, ty_cublasFillMode_t, ty_int, Ptr (Const ty_cuComplex), ty_int, Ptr (Const ty_float), Ptr ty_int]
       ''cusolverDnCheevd_bufferSize'' ty_cusolverStatus_t [ty_cusolverDnHandle_t, ty_cusolverEigMode_t, ty_cublasFillMode_t, ty_int, Ptr (Const ty_cuComplex), ty_int, Ptr (Const ty_float), Ptr ty_int] ''cusolverDnCheevd_bufferSize'' [0, 1, 2, 3, 4, 5, 6, 7] False]"

definition cusolver_hooks_21 :: "gen_hook list" where
  "cusolver_hooks_21 =
    [Gen cusolver ty_cusolverStatus_t ''cusolverDnZheevd_bufferSize'' [ty_cusolverDnHandle_t, ty_cusolverEigMode_t, ty_cublasFillMode_t, ty_int, Ptr (Const ty_cuDoubleComplex), ty_int, Ptr (Const ty_double), Ptr ty_int]
       ''cusolverDnZheevd_bufferSize'' ty_cusolverStatus_t [ty_cusolverDnHandle_t, ty_cusolverEigMode_t, ty_cublasFillMode_t, ty_int, Ptr (Const ty_cuDoubleComplex), ty_int, Ptr (Const ty_double), Ptr ty_int] ''cusolverDnZheevd_bufferSize'' [0, 1, 2, 3, 4, 5, 6, 7] False,
     Gen cusolver ty_cusolverStatus_t ''cusolverDnSsyevd'' [ty_cusolverDnHandle_t, ty_cusolverEigMode_t, ty_cublasFillMode_t, ty_int, Ptr ty_float, ty_int, Ptr ty_float, Ptr ty_float, ty_int, Ptr ty_int]
       ''cusolverDnSsyevd'' ty_cusolverStatus_t [ty_cusolverDnHandle_t, ty_cusolverEigMode_t, ty_cublasFillMode_t, ty_int, Ptr ty_float, ty_int, Ptr ty_float, Ptr ty_float, ty_int, Ptr ty_int] ''cusolverDnSsyevd'' [0, 1, 2, 3, 4, 5, 6, 7, 8, 9] False,
     Gen cusolver ty_cusolverStatus_t ''cusolverDnDsyevd'' [ty_cusolverDnHandle_t, ty_cusolverEigMode_t, ty_cublasFillMode_t, ty_int, Ptr ty_double, ty_int, Ptr ty_double, Ptr ty_double, ty_int, Ptr ty_int]
       ''cusolverDnDsyevd'' ty_cusolverStatus_t [ty_cusolverDnHandle_t, ty_cusolverEigMode_t, ty_cublasFillMode_t, ty_int, Ptr ty_double, ty_int, Ptr ty_double, Ptr ty_double, ty_int, Ptr ty_int] ''cusolverDnDsyevd'' [0, 1, 2, 3, 4, 5, 6, 7, 8, 9] False,
     Gen cusolver ty_cusolverStatus_t ''cusolverDnCheevd'' [ty_cusolverDnHandle_t, ty_cusolverEigMode_t, ty_cublasFillMode_t, ty_int, Ptr ty_cuComplex, ty_int, Ptr ty_float, Ptr ty_cuComplex, ty_int, Ptr ty_int]
       ''cusolverDnCheevd'' ty_cusolverStatus_t [ty_cusolverDnHandle_t, ty_cusolverEigMode_t, ty_cublasFillMode_t, ty_int, Ptr ty_cuComplex, ty_int, Ptr ty_float, Ptr ty_cuComplex, ty_int, Ptr ty_int] ''cusolverDnCheevd'' [0, 1, 2, 3, 4, 5, 6, 7, 8, 9] False,
     Gen cusolver ty_cusolverStatus_t ''cusolverDnZheevd'' [ty_cusolverDnHandle_t, ty_cusolverEigMode_t, ty_cublasFillMode_t, ty_int, Ptr ty_cuDoubleComplex, ty_int, Ptr ty_double, Ptr ty_cuDoubleComplex, ty_int, Ptr ty_int]
       ''cusolverDnZheevd'' ty_cusolverStatus_t [ty_cusolverDnHandle_t, ty_cusolverEigMode_t, ty_cublasFillMode_t, ty_int, Ptr ty_cuDoubleComplex, ty_int, Ptr ty_double, Ptr ty_cuDoubleComplex, ty_int, Ptr ty_int] ''cusolverDnZheevd'' [0, 1, 2, 3, 4, 5, 6, 7, 8, 9] False,
     Gen cusolver ty_cusolverStatus_t ''cusolverDnSsyevdx_bufferSize'' [ty_cusolverDnHandle_t, ty_cusolverEigMode_t, ty_cusolverEigRange_t, ty_cublasFillMode_t, ty_int, Ptr (Const ty_float), ty_int, ty_float, ty_float, ty_int, ty_int, Ptr ty_int, Ptr (Const ty_float), Ptr ty_int]
       ''cusolverDnSsyevdx_bufferSize'' ty_cusolverStatus_t [ty_cusolverDnHandle_t, ty_cusolverEigMode_t, ty_cusolverEigRange_t, ty_cublasFillMode_t, ty_int, Ptr (Const ty_float), ty_int, ty_float, ty_float, ty_int, ty_int, Ptr ty_int, Ptr (Const ty_float), Ptr ty_int] ''cusolverDnSsyevdx_bufferSize'' [0, 1, 2, 3, 4, 5, 6, 7, 8, 9, 10, 11, 12, 13] False,
     Gen cusolver ty_cusolverStatus_t ''cusolverDnDsyevdx_bufferSize'' [ty_cusolverDnHandle_t, ty_cusolverEigMode_t, ty_cusolverEigRange_t, ty_cublasFillMode_t, ty_int, Ptr (Const ty_double), ty_int, ty_double, ty_double, ty_int, ty_int, Ptr ty_int, Ptr (Const ty_double), Ptr ty_int]
       ''cusolverDnDsyevdx_bufferSize'' ty_cusolverStatus_t [ty_cusolverDnHandle_t, ty_cusolverEigMode_t, ty_cusolverEigRange_t, ty_cublasFillMode_t, ty_int, Ptr (Const ty_double), ty_int, ty_double, ty_double, ty_int, ty_int, Ptr ty_int, Ptr (Const ty_double), Ptr ty_int] ''cusolverDnDsyevdx_bufferSize'' [0, 1, 2, 3, 4, 5, 6, 7, 8, 9, 10, 11, 12, 13] False,
     Gen cusolver ty_cusolverStatus_t ''cusolverDnCheevdx_bufferSize'' [ty_cusolverDnHandle_t, ty_cusolverEigMode_t, ty_cusolverEigRange_t, ty_cublasFillMode_t, ty_int, Ptr (Const ty_cuComplex), ty_int, ty_float, ty_float, ty_int, ty_int, Ptr ty_int, Ptr (Const ty_float), Ptr ty_int]
       ''cusolverDnCheevdx_bufferSize'' ty_cusolverStatus_t [ty_cusolverDnHandle_t, ty_cusolverEigMode_t, ty_cusolverEigRange_t, ty_cublasFillMode_t, ty_int, Ptr (Const ty_cuComplex), ty_int, ty_float, ty_float, ty_int, ty_int, Ptr ty_int, Ptr (Const ty_float), Ptr ty_int] ''cusolverDnCheevdx_bufferSize'' [0, 1, 2, 3, 4, 5, 6, 7, 8, 9, 10, 11, 12, 13] False,
     Gen cusolver ty_cusolverStatus_t ''cusolverDnZheevdx_bufferSize'' [ty_cusolverDnHandle_t, ty_cusolverEigMode_t, ty_cusolverEigRange_t, ty_cublasFillMode_t, ty_int, Ptr (Const ty_cuDoubleComplex), ty_int, ty_double, ty_double, ty_int, ty_int, Ptr ty_int, Ptr (Const ty_double), Ptr ty_int]
       ''cusolverDnZheevdx_bufferSize'' ty_cusolverStatus_t [ty_cusolverDnHandle_t, ty_cusolverEigMode_t, ty_cusolverEigRange_t, ty_cublasFillMode_t, ty_int, Ptr (Const ty_cuDoubleComplex), ty_int, ty_double, ty_double, ty_int, ty_int, Ptr ty_int, Ptr (Const ty_double), Ptr ty_int] ''cusolverDnZheevdx_bufferSize'' [0, 1, 2, 3, 4, 5, 6, 7, 8, 9, 10, 11, 12, 13] False,
     Gen cusolver ty_cusolverStatus_t ''cusolverDnSsyevdx'' [ty_cusolverDnHandle_t, ty_cusolverEigMode_t, ty_cusolverEigRange_t, ty_cublasFillMode_t, ty_int, Ptr ty_float, ty_int, ty_float, ty_float, ty_int, ty_int, Ptr ty_int, Ptr ty_float, Ptr ty_float, ty_int, Ptr ty_int]
       ''cusolverDnSsyevdx'' ty_cusolverStatus_t [ty_cusolverDnHandle_t, ty_cusolverEigMode_t, ty_cusolverEigRange_t, ty_cublasFillMode_t, ty_int, Ptr ty_float, ty_int, ty_float, ty_float, ty_int, ty_int, Ptr ty_int, Ptr ty_float, Ptr ty_float, ty_int, Ptr ty_int] ''cusolverDnSsyevdx'' [0, 1, 2, 3, 4, 5, 6, 7, 8, 9, 10, 11, 12, 13, 14, 15] False,
     Gen cusolver ty_cusolverStatus_t ''cusolverDnDsyevdx'' [ty_cusolverDnHandle_t, ty_cusolverEigMode_t, ty_cusolverEigRange_t, ty_cublasFillMode_t, ty_int, Ptr ty_double, ty_int, ty_double, ty_double, ty_int, ty_int, Ptr ty_int, Ptr ty_double, Ptr ty_double, ty_int, Ptr ty_int]
       ''cusolverDnDsyevdx'' ty_cusolverStatus_t [ty_cusolverDnHandle_t, ty_cusolverEigMode_t, ty_cusolverEigRange_t, ty_cublasFillMode_t, ty_int, Ptr ty_double, ty_int, ty_double, ty_double, ty_int, ty_int, Ptr ty_int, Ptr ty_double, Ptr ty_double, ty_int, Ptr ty_int] ''cusolverDnDsyevdx'' [0, 1, 2, 3, 4, 5, 6, 7, 8, 9, 10, 11, 12, 13, 14, 15] False,
     Gen cusolver ty_cusolverStatus_t ''cusolverDnCheevdx'' [ty_cusolverDnHandle_t, ty_cusolverEigMode_t, ty_cusolverEigRange_t, ty_cublasFillMode_t, ty_int, Ptr ty_cuComplex, ty_int, ty_float, ty_float, ty_int, ty_int, Ptr ty_int, Ptr ty_float, Ptr ty_cuComplex, ty_int, Ptr ty_int]
       ''cusolverDnCheevdx'' ty_cusolverStatus_t [ty_cusolverDnHandle_t, ty_cusolverEigMode_t, ty_cusolverEigRange_t, ty_cublasFillMode_t, ty_int, Ptr ty_cuComplex, ty_int, ty_float, ty_float, ty_int, ty_int, Ptr ty_int, Ptr ty_float, Ptr ty_cuComplex, ty_int, Ptr ty_int] ''cusolverDnCheevdx'' [0, 1, 2, 3, 4, 5, 6, 7, 8, 9, 10, 11, 12, 13, 14, 15] False]"

definition cusolver_hooks_22 :: "gen_hook list" where
  "cusolver_hooks_22 =
    [Gen cusolver ty_cusolverStatus_t ''cusolverDnZheevdx'' [ty_cusolverDnHandle_t, ty_cusolverEigMode_t, ty_cusolverEigRange_t, ty_cublasFillMode_t, ty_int, Ptr ty_cuDoubleComplex, ty_int, ty_double, ty_double, ty_int, ty_int, Ptr ty_int, Ptr ty_double, Ptr ty_cuDoubleComplex, ty_int, Ptr ty_int]
       ''cusolverDnZheevdx'' ty_cusolverStatus_t [ty_cusolverDnHandle_t, ty_cusolverEigMode_t, ty_cusolverEigRange_t, ty_cublasFillMode_t, ty_int, Ptr ty_cuDoubleComplex, ty_int, ty_double, ty_double, ty_int, ty_int, Ptr ty_int, Ptr ty_double, Ptr ty_cuDoubleComplex, ty_int, Ptr ty_int] ''cusolverDnZheevdx'' [0, 1, 2, 3, 4, 5, 6, 7, 8, 9, 10, 11, 12, 13, 14, 15] False,
     Gen cusolver ty_cusolverStatus_t ''cusolverDnSsygvdx_bufferSize'' [ty_cusolverDnHandle_t, ty_cusolverEigType_t, ty_cusolverEigMode_t, ty_cusolverEigRange_t, ty_cublasFillMode_t, ty_int, Ptr (Const ty_float), ty_int, Ptr (Const ty_float), ty_int, ty_float, ty_float, ty_int, ty_int, Ptr ty_int, Ptr (Const ty_float), Ptr ty_int]
       ''cusolverDnSsygvdx_bufferSize'' ty_cusolverStatus_t [ty_cusolverDnHandle_t, ty_cusolverEigType_t, ty_cusolverEigMode_t, ty_cusolverEigRange_t, ty_cublasFillMode_t, ty_int, Ptr (Const ty_float), ty_int, Ptr (Const ty_float), ty_int, ty_float, ty_float, ty_int, ty_int, Ptr ty_int, Ptr (Const ty_float), Ptr ty_int] ''cusolverDnSsygvdx_bufferSize'' [0, 1, 2, 3, 4, 5, 6, 7, 8, 9, 10, 11, 12, 13, 14, 15, 16] False,
     Gen cusolver ty_cusolverStatus_t ''cusolverDnDsygvdx_bufferSize'' [ty_cusolverDnHandle_t, ty_cusolverEigType_t, ty_cusolverEigMode_t, ty_cusolverEigRange_t, ty_cublasFillMode_t, ty_int, Ptr (Const ty_double), ty_int, Ptr (Const ty_double), ty_int, ty_double, ty_double, ty_int, ty_int, Ptr ty_int, Ptr (Const ty_double), Ptr ty_int]
       ''cusolverDnDsygvdx_bufferSize'' ty_cusolverStatus_t [ty_cusolverDnHandle_t, ty_cusolverEigType_t, ty_cusolverEigMode_t, ty_cusolverEigRange_t, ty_cublasFillMode_t, ty_int, Ptr (Const ty_double), ty_int, Ptr (Const ty_double), ty_int, ty_double, ty_double, ty_int, ty_int, Ptr ty_int, Ptr (Const ty_double), Ptr ty_int] ''cusolverDnDsygvdx_bufferSize'' [0, 1, 2, 3, 4, 5, 6, 7, 8, 9, 10, 11, 12, 13, 14, 15, 16] False,
     Gen cusolver ty_cusolverStatus_t ''cusolverDnChegvdx_bufferSize'' [ty_cusolverDnHandle_t, ty_cusolverEigType_t, ty_cusolverEigMode_t, ty_cusolverEigRange_t, ty_cublasFillMode_t, ty_int, Ptr (Const ty_cuComplex), ty_int, Ptr (Const ty_cuComplex), ty_int, ty_float, ty_float, ty_int, ty_int, Ptr ty_int, Ptr (Const ty_float), Ptr ty_int]
       ''cusolverDnChegvdx_bufferSize'' ty_cusolverStatus_t [ty_cusolverDnHandle_t, ty_cusolverEigType_t, ty_cusolverEigMode_t, ty_cusolverEigRange_t, ty_cublasFillMode_t, ty_int, Ptr (Const ty_cuComplex), ty_int, Ptr (Const ty_cuComplex), ty_int, ty_float, ty_float, ty_int, ty_int, Ptr ty_int, Ptr (Const ty_float), Ptr ty_int] ''cusolverDnChegvdx_bufferSize'' [0, 1, 2, 3, 4, 5, 6, 7, 8, 9, 10, 11, 12, 13, 14, 15, 16] False,
     Gen cusolver ty_cusolverStatus_t ''cusolverDnZhegvdx_bufferSize'' [ty_cusolverDnHandle_t, ty_cusolverEigType_t, ty_cusolverEigMode_t, ty_cusolverEigRange_t, ty_cublasFillMode_t, ty_int, Ptr (Const ty_cuDoubleComplex), ty_int, Ptr (Const ty_cuDoubleComplex), ty_int, ty_double, ty_double, ty_int, ty_int, Ptr ty_int, Ptr (Const ty_double), Ptr ty_int]
       ''cusolverDnZhegvdx_bufferSize'' ty_cusolverStatus_t [ty_cusolverDnHandle_t, ty_cusolverEigType_t, ty_cusolverEigMode_t, ty_cusolverEigRange_t, ty_cublasFillMode_t, ty_int, Ptr (Const ty_cuDoubleComplex), ty_int, Ptr (Const ty_cuDoubleComplex), ty_int, ty_double, ty_double, ty_int, ty_int, Ptr ty_int, Ptr (Const ty_double), Ptr ty_int] ''cusolverDnZhegvdx_bufferSize'' [0, 1, 2, 3, 4, 5, 6, 7, 8, 9, 10, 11, 12, 13, 14, 15, 16] False,
     Gen cusolver ty_cusolverStatus_t ''cusolverDnSsygvdx'' [ty_cusolverDnHandle_t, ty_cusolverEigType_t, ty_cusolverEigMode_t, ty_cusolverEigRange_t, ty_cublasFillMode_t, ty_int, Ptr ty_float, ty_int, Ptr ty_float, ty_int, ty_float, ty_float, ty_int, ty_int, Ptr ty_int, Ptr ty_float, Ptr ty_float, ty_int, Ptr ty_int]
       ''cusolverDnSsygvdx'' ty_cusolverStatus_t [ty_cusolverDnHandle_t, ty_cusolverEigType_t, ty_cusolverEigMode_t, ty_cusolverEigRange_t, ty_cublasFillMode_t, ty_int, Ptr ty_float, ty_int, Ptr ty_float, ty_int, ty_float, ty_float, ty_int, ty_int, Ptr ty_int, Ptr ty_float, Ptr ty_float, ty_int, Ptr ty_int] ''cusolverDnSsygvdx'' [0, 1, 2, 3, 4, 5, 6, 7, 8, 9, 10, 11, 12, 13, 14, 15, 16, 17, 18] False,
     Gen cusolver ty_cusolverStatus_t ''cusolverDnDsygvdx'' [ty_cusolverDnHandle_t, ty_cusolverEigType_t, ty_cusolverEigMode_t, ty_cusolverEigRange_t, ty_cublasFillMode_t, ty_int, Ptr ty_double, ty_int, Ptr ty_double, ty_int, ty_double, ty_double, ty_int, ty_int, Ptr ty_int, Ptr ty_double, Ptr ty_double, ty_int, Ptr ty_int]
       ''cusolverDnDsygvdx'' ty_cusolverStatus_t [ty_cusolverDnHandle_t, ty_cusolverEigType_t, ty_cusolverEigMode_t, ty_cusolverEigRange_t, ty_cublasFillMode_t, ty_int, Ptr ty_double, ty_int, Ptr ty_double, ty_int, ty_double, ty_double, ty_int, ty_int, Ptr ty_int, Ptr ty_double, Ptr ty_double, ty_int, Ptr ty_int] ''cusolverDnDsygvdx'' [0, 1, 2, 3, 4, 5, 6, 7, 8, 9, 10, 11, 12, 13, 14, 15, 16, 17, 18] False,
     Gen cusolver ty_cusolverStatus_t ''cusolverDnChegvdx'' [ty_cusolverDnHandle_t, ty_cusolverEigType_t, ty_cusolverEigMode_t, ty_cusolverEigRange_t, ty_cublasFillMode_t, ty_int, Ptr ty_cuComplex, ty_int, Ptr ty_cuComplex, ty_int, ty_float, ty_float, ty_int, ty_int, Ptr ty_int, Ptr ty_float, Ptr ty_cuComplex, ty_int, Ptr ty_int]
       ''cusolverDnChegvdx'' ty_cusolverStatus_t [ty_cusolverDnHandle_t, ty_cusolverEigType_t, ty_cusolverEigMode_t, ty_cusolverEigRange_t, ty_cublasFillMode_t, ty_int, Ptr ty_cuComplex, ty_int, Ptr ty_cuComplex, ty_int, ty_float, ty_float, ty_int, ty_int, Ptr ty_int, Ptr ty_float, Ptr ty_cuComplex, ty_int, Ptr ty_int] ''cusolverDnChegvdx'' [0, 1, 2, 3, 4, 5, 6, 7, 8, 9, 10, 11, 12, 13, 14, 15, 16, 17, 18] False,
     Gen cusolver ty_cusolverStatus_t ''cusolverDnZhegvdx'' [ty_cusolverDnHandle_t, ty_cusolverEigType_t, ty_cusolverEigMode_t, ty_cusolverEigRange_t, ty_cublasFillMode_t, ty_int, Ptr ty_cuDoubleComplex, ty_int, Ptr ty_cuDoubleComplex, ty_int, ty_double, ty_double, ty_int, ty_int, Ptr ty_int, Ptr ty_double, Ptr ty_cuDoubleComplex, ty_int, Ptr ty_int]
       ''cusolverDnZhegvdx'' ty_cusolverStatus_t [ty_cusolverDnHandle_t, ty_cusolverEigType_t, ty_cusolverEigMode_t, ty_cusolverEigRange_t, ty_cublasFillMode_t, ty_int, Ptr ty_cuDoubleComplex, ty_int, Ptr ty_cuDoubleComplex, ty_int, ty_double, ty_double, ty_int, ty_int, Ptr ty_int, Ptr ty_double, Ptr ty_cuDoubleComplex, ty_int, Ptr ty_int] ''cusolverDnZhegvdx'' [0, 1, 2, 3, 4, 5, 6, 7, 8, 9, 10, 11, 12, 13, 14, 15, 16, 17, 18] False,
     Gen cusolver ty_cusolverStatus_t ''cusolverDnSsygvd_bufferSize'' [ty_cusolverDnHandle_t, ty_cusolverEigType_t, ty_cusolverEigMode_t, ty_cublasFillMode_t, ty_int, Ptr (Const ty_float), ty_int, Ptr (Const ty_float), ty_int, Ptr (Const ty_float), Ptr ty_int]
       ''cusolverDnSsygvd_bufferSize'' ty_cusolverStatus_t [ty_cusolverDnHandle_t, ty_cusolverEigType_t, ty_cusolverEigMode_t, ty_cublasFillMode_t, ty_int, Ptr (Const ty_float), ty_int, Ptr (Const ty_float), ty_int, Ptr (Const ty_float), Ptr ty_int] ''cusolverDnSsygvd_bufferSize'' [0, 1, 2, 3, 4, 5, 6, 7, 8, 9, 10] False,
     Gen cusolver ty_cusolverStatus_t ''cusolverDnDsygvd_bufferSize'' [ty_cusolverDnHandle_t, ty_cusolverEigType_t, ty_cusolverEigMode_t, ty_cublasFillMode_t, ty_int, Ptr (Const ty_double), ty_int, Ptr (Const ty_double), ty_int, Ptr (Const ty_double), Ptr ty_int]
       ''cusolverDnDsygvd_bufferSize'' ty_cusolverStatus_t [ty_cusolverDnHandle_t, ty_cusolverEigType_t, ty_cusolverEigMode_t, ty_cublasFillMode_t, ty_int, Ptr (Const ty_double), ty_int, Ptr (Const ty_double), ty_int, Ptr (Const ty_double), Ptr ty_int] ''cusolverDnDsygvd_bufferSize'' [0, 1, 2, 3, 4, 5, 6, 7, 8, 9, 10] False]"

definition cusolver_hooks_23 :: "gen_hook list" where
  "cusolver_hooks_23 =
    [Gen cusolver ty_cusolverStatus_t ''cusolverDnChegvd_bufferSize'' [ty_cusolverDnHandle_t, ty_cusolverEigType_t, ty_cusolverEigMode_t, ty_cublasFillMode_t, ty_int, Ptr (Const ty_cuComplex), ty_int, Ptr (Const ty_cuComplex), ty_int, Ptr (Const ty_float), Ptr ty_int]
       ''cusolverDnChegvd_bufferSize'' ty_cusolverStatus_t [ty_cusolverDnHandle_t, ty_cusolverEigType_t, ty_cusolverEigMode_t, ty_cublasFillMode_t, ty_int, Ptr (Const ty_cuComplex), ty_int, Ptr (Const ty_cuComplex), ty_int, Ptr (Const ty_float), Ptr ty_int] ''cusolverDnChegvd_bufferSize'' [0, 1, 2, 3, 4, 5, 6, 7, 8, 9, 10] False,
     Gen cusolver ty_cusolverStatus_t ''cusolverDnZhegvd_bufferSize'' [ty_cusolverDnHandle_t, ty_cusolverEigType_t, ty_cusolverEigMode_t, ty_cublasFillMode_t, ty_int, Ptr (Const ty_cuDoubleComplex), ty_int, Ptr (Const ty_cuDoubleComplex), ty_int, Ptr (Const ty_double), Ptr ty_int]
       ''cusolverDnZhegvd_bufferSize'' ty_cusolverStatus_t [ty_cusolverDnHandle_t, ty_cusolverEigType_t, ty_cusolverEigMode_t, ty_cublasFillMode_t, ty_int, Ptr (Const ty_cuDoubleComplex), ty_int, Ptr (Const ty_cuDoubleComplex), ty_int, Ptr (Const ty_double), Ptr ty_int] ''cusolverDnZhegvd_bufferSize'' [0, 1, 2, 3, 4, 5, 6, 7, 8, 9, 10] False,
     Gen cusolver ty_cusolverStatus_t ''cusolverDnSsygvd'' [ty_cusolverDnHandle_t, ty_cusolverEigType_t, ty_cusolverEigMode_t, ty_cublasFillMode_t, ty_int, Ptr ty_float, ty_int, Ptr ty_float, ty_int, Ptr ty_float, Ptr ty_float, ty_int, Ptr ty_int]
       ''cusolverDnSsygvd'' ty_cusolverStatus_t [ty_cusolverDnHandle_t, ty_cusolverEigType_t, ty_cusolverEigMode_t, ty_cublasFillMode_t, ty_int, Ptr ty_float, ty_int, Ptr ty_float, ty_int, Ptr ty_float, Ptr ty_float, ty_int, Ptr ty_int] ''cusolverDnSsygvd'' [0, 1, 2, 3, 4, 5, 6, 7, 8, 9, 10, 11, 12] False,
     Gen cusolver ty_cusolverStatus_t ''cusolverDnDsygvd'' [ty_cusolverDnHandle_t, ty_cusolverEigType_t, ty_cusolverEigMode_t, ty_cublasFillMode_t, ty_int, Ptr ty_double, ty_int, Ptr ty_double, ty_int, Ptr ty_double, Ptr ty_double, ty_int, Ptr ty_int]
       ''cusolverDnDsygvd'' ty_cusolverStatus_t [ty_cusolverDnHandle_t, ty_cusolverEigType_t, ty_cusolverEigMode_t, ty_cublasFillMode_t, ty_int, Ptr ty_double, ty_int, Ptr ty_double, ty_int, Ptr ty_double, Ptr ty_double, ty_int, Ptr ty_int] ''cusolverDnDsygvd'' [0, 1, 2, 3, 4, 5, 6, 7, 8, 9, 10, 11, 12] False,
     Gen cusolver ty_cusolverStatus_t ''cusolverDnChegvd'' [ty_cusolverDnHandle_t, ty_cusolverEigType_t, ty_cusolverEigMode_t, ty_cublasFillMode_t, ty_int, Ptr ty_cuComplex, ty_int, Ptr ty_cuComplex, ty_int, Ptr ty_float, Ptr ty_cuComplex, ty_int, Ptr ty_int]
       ''cusolverDnChegvd'' ty_cusolverStatus_t [ty_cusolverDnHandle_t, ty_cusolverEigType_t, ty_cusolverEigMode_t, ty_cublasFillMode_t, ty_int, Ptr ty_cuComplex, ty_int, Ptr ty_cuComplex, ty_int, Ptr ty_float, Ptr ty_cuComplex, ty_int, Ptr ty_int] ''cusolverDnChegvd'' [0, 1, 2, 3, 4, 5, 6, 7, 8, 9, 10, 11, 12] False,
     Gen cusolver ty_cusolverStatus_t ''cusolverDnZhegvd'' [ty_cusolverDnHandle_t, ty_cusolverEigType_t, ty_cusolverEigMode_t, ty_cublasFillMode_t, ty_int, Ptr ty_cuDoubleComplex, ty_int, Ptr ty_cuDoubleComplex, ty_int, Ptr ty_double, Ptr ty_cuDoubleComplex, ty_int, Ptr ty_int]
       ''cusolverDnZhegvd'' ty_cusolverStatus_t [ty_cusolverDnHandle_t, ty_cusolverEigType_t, ty_cusolverEigMode_t, ty_cublasFillMode_t, ty_int, Ptr ty_cuDoubleComplex, ty_int, Ptr ty_cuDoubleComplex, ty_int, Ptr ty_double, Ptr ty_cuDoubleComplex, ty_int, Ptr ty_int] ''cusolverDnZhegvd'' [0, 1, 2, 3, 4, 5, 6, 7, 8, 9, 10, 11, 12] False,
     Gen cusolver ty_cusolverStatus_t ''cusolverDnCreateSyevjInfo'' [Ptr ty_syevjInfo_t]
       ''cusolverDnCreateSyevjInfo'' ty_cusolverStatus_t [Ptr ty_syevjInfo_t] ''cusolverDnCreateSyevjInfo'' [0] False,
     Gen cusolver ty_cusolverStatus_t ''cusolverDnDestroySyevjInfo'' [ty_syevjInfo_t]
       ''cusolverDnDestroySyevjInfo'' ty_cusolverStatus_t [ty_syevjInfo_t] ''cusolverDnDestroySyevjInfo'' [0] False,
     Gen cusolver ty_cusolverStatus_t ''cusolverDnXsyevjSetTolerance'' [ty_syevjInfo_t, ty_double]
       ''cusolverDnXsyevjSetTolerance'' ty_cusolverStatus_t [ty_syevjInfo_t, ty_double] ''cusolverDnXsyevjSetTolerance'' [0, 1] False,
     Gen cusolver ty_cusolverStatus_t ''cusolverDnXsyevjSetMaxSweeps'' [ty_syevjInfo_t, ty_int]
       ''cusolverDnXsyevjSetMaxSweeps'' ty_cusolverStatus_t [ty_syevjInfo_t, ty_int] ''cusolverDnXsyevjSetMaxSweeps'' [0, 1] False,
     Gen cusolver ty_cusolverStatus_t ''cusolverDnXsyevjSetSortEig'' [ty_syevjInfo_t, ty_int]
       ''cusolverDnXsyevjSetSortEig'' ty_cusolverStatus_t [ty_syevjInfo_t, ty_int] ''cusolverDnXsyevjSetSortEig'' [0, 1] False,
     Gen cusolver ty_cusolverStatus_t ''cusolverDnXsyevjGetResidual'' [ty_cusolverDnHandle_t, ty_syevjInfo_t, Ptr ty_double]
       ''cusolverDnXsyevjGetResidual'' ty_cusolverStatus_t [ty_cusolverDnHandle_t, ty_syevjInfo_t, Ptr ty_double] ''cusolverDnXsyevjGetResidual'' [0, 1, 2] False,
     Gen cusolver ty_cusolverStatus_t ''cusolverDnXsyevjGetSweeps'' [ty_cusolverDnHandle_t, ty_syevjInfo_t, Ptr ty_int]
       ''cusolverDnXsyevjGetSweeps'' ty_cusolverStatus_t [ty_cusolverDnHandle_t, ty_syevjInfo_t, Ptr ty_int] ''cusolverDnXsyevjGetSweeps'' [0, 1, 2] False,
     Gen cusolver ty_cusolverStatus_t ''cusolverDnSsyevjBatched_bufferSize'' [ty_cusolverDnHandle_t, ty_cusolverEigMode_t, ty_cublasFillMode_t, ty_int, Ptr (Const ty_float), ty_int, Ptr (Const ty_float), Ptr ty_int, ty_syevjInfo_t, ty_int]
       ''cusolverDnSsyevjBatched_bufferSize'' ty_cusolverStatus_t [ty_cusolverDnHandle_t, ty_cusolverEigMode_t, ty_cublasFillMode_t, ty_int, Ptr (Const ty_float), ty_int, Ptr (Const ty_float), Ptr ty_int, ty_syevjInfo_t, ty_int] ''cusolverDnSsyevjBatched_bufferSize'' [0, 1, 2, 3, 4, 5, 6, 7, 8, 9] False]"

definition cusolver_hooks_24 :: "gen_hook list" where
  "cusolver_hooks_24 =
    [Gen cusolver ty_cusolverStatus_t ''cusolverDnDsyevjBatched_bufferSize'' [ty_cusolverDnHandle_t, ty_cusolverEigMode_t, ty_cublasFillMode_t, ty_int, Ptr (Const ty_double), ty_int, Ptr (Const ty_double), Ptr ty_int, ty_syevjInfo_t, ty_int]
       ''cusolverDnDsyevjBatched_bufferSize'' ty_cusolverStatus_t [ty_cusolverDnHandle_t, ty_cusolverEigMode_t, ty_cublasFillMode_t, ty_int, Ptr (Const ty_double), ty_int, Ptr (Const ty_double), Ptr ty_int, ty_syevjInfo_t, ty_int] ''cusolverDnDsyevjBatched_bufferSize'' [0, 1, 2, 3, 4, 5, 6, 7, 8, 9] False,
     Gen cusolver ty_cusolverStatus_t ''cusolverDnCheevjBatched_bufferSize'' [ty_cusolverDnHandle_t, ty_cusolverEigMode_t, ty_cublasFillMode_t, ty_int, Ptr (Const ty_cuComplex), ty_int, Ptr (Const ty_float), Ptr ty_int, ty_syevjInfo_t, ty_int]
       ''cusolverDnCheevjBatched_bufferSize'' ty_cusolverStatus_t [ty_cusolverDnHandle_t, ty_cusolverEigMode_t, ty_cublasFillMode_t, ty_int, Ptr (Const ty_cuComplex), ty_int, Ptr (Const ty_float), Ptr ty_int, ty_syevjInfo_t, ty_int] ''cusolverDnCheevjBatched_bufferSize'' [0, 1, 2, 3, 4, 5, 6, 7, 8, 9] False,
     Gen cusolver ty_cusolverStatus_t ''cusolverDnZheevjBatched_bufferSize'' [ty_cusolverDnHandle_t, ty_cusolverEigMode_t, ty_cublasFillMode_t, ty_int, Ptr (Const ty_cuDoubleComplex), ty_int, Ptr (Const ty_double), Ptr ty_int, ty_syevjInfo_t, ty_int]
       ''cusolverDnZheevjBatched_bufferSize'' ty_cusolverStatus_t [ty_cusolverDnHandle_t, ty_cusolverEigMode_t, ty_cublasFillMode_t, ty_int, Ptr (Const ty_cuDoubleComplex), ty_int, Ptr (Const ty_double), Ptr ty_int, ty_syevjInfo_t, ty_int] ''cusolverDnZheevjBatched_bufferSize'' [0, 1, 2, 3, 4, 5, 6, 7, 8, 9] False,
     Gen cusolver ty_cusolverStatus_t ''cusolverDnSsyevjBatched'' [ty_cusolverDnHandle_t, ty_cusolverEigMode_t, ty_cublasFillMode_t, ty_int, Ptr ty_float, ty_int, Ptr ty_float, Ptr ty_float, ty_int, Ptr ty_int, ty_syevjInfo_t, ty_int]
       ''cusolverDnSsyevjBatched'' ty_cusolverStatus_t [ty_cusolverDnHandle_t, ty_cusolverEigMode_t, ty_cublasFillMode_t, ty_int, Ptr ty_float, ty_int, Ptr ty_float, Ptr ty_float, ty_int, Ptr ty_int, ty_syevjInfo_t, ty_int] ''cusolverDnSsyevjBatched'' [0, 1, 2, 3, 4, 5, 6, 7, 8, 9, 10, 11] False,
     Gen cusolver ty_cusolverStatus_t ''cusolverDnDsyevjBatched'' [ty_cusolverDnHandle_t, ty_cusolverEigMode_t, ty_cublasFillMode_t, ty_int, Ptr ty_double, ty_int, Ptr ty_double, Ptr ty_double, ty_int, Ptr ty_int, ty_syevjInfo_t, ty_int]
       ''cusolverDnDsyevjBatched'' ty_cusolverStatus_t [ty_cusolverDnHandle_t, ty_cusolverEigMode_t, ty_cublasFillMode_t, ty_int, Ptr ty_double, ty_int, Ptr ty_double, Ptr ty_double, ty_int, Ptr ty_int, ty_syevjInfo_t, ty_int] ''cusolverDnDsyevjBatched'' [0, 1, 2, 3, 4, 5, 6, 7, 8, 9, 10, 11] False,
     Gen cusolver ty_cusolverStatus_t ''cusolverDnCheevjBatched'' [ty_cusolverDnHandle_t, ty_cusolverEigMode_t, ty_cublasFillMode_t, ty_int, Ptr ty_cuComplex, ty_int, Ptr ty_float, Ptr ty_cuComplex, ty_int, Ptr ty_int, ty_syevjInfo_t, ty_int]
       ''cusolverDnCheevjBatched'' ty_cusolverStatus_t [ty_cusolverDnHandle_t, ty_cusolverEigMode_t, ty_cublasFillMode_t, ty_int, Ptr ty_cuComplex, ty_int, Ptr ty_float, Ptr ty_cuComplex, ty_int, Ptr ty_int, ty_syevjInfo_t, ty_int] ''cusolverDnCheevjBatched'' [0, 1, 2, 3, 4, 5, 6, 7, 8, 9, 10, 11] False,
     Gen cusolver ty_cusolverStatus_t ''cusolverDnZheevjBatched'' [ty_cusolverDnHandle_t, ty_cusolverEigMode_t, ty_cublasFillMode_t, ty_int, Ptr ty_cuDoubleComplex, ty_int, Ptr ty_double, Ptr ty_cuDoubleComplex, ty_int, Ptr ty_int, ty_syevjInfo_t, ty_int]
       ''cusolverDnZheevjBatched'' ty_cusolverStatus_t [ty_cusolverDnHandle_t, ty_cusolverEigMode_t, ty_cublasFillMode_t, ty_int, Ptr ty_cuDoubleComplex, ty_int, Ptr ty_double, Ptr ty_cuDoubleComplex, ty_int, Ptr ty_int, ty_syevjInfo_t, ty_int] ''cusolverDnZheevjBatched'' [0, 1, 2, 3, 4, 5, 6, 7, 8, 9, 10, 11] False,
     Gen cusolver ty_cusolverStatus_t ''cusolverDnSsyevj_bufferSize'' [ty_cusolverDnHandle_t, ty_cusolverEigMode_t, ty_cublasFillMode_t, ty_int, Ptr (Const ty_float), ty_int, Ptr (Const ty_float), Ptr ty_int, ty_syevjInfo_t]
       ''cusolverDnSsyevj_bufferSize'' ty_cusolverStatus_t [ty_cusolverDnHandle_t, ty_cusolverEigMode_t, ty_cublasFillMode_t, ty_int, Ptr (Const ty_float), ty_int, Ptr (Const ty_float), Ptr ty_int, ty_syevjInfo_t] ''cusolverDnSsyevj_bufferSize'' [0, 1, 2, 3, 4, 5, 6, 7, 8] False,
     Gen cusolver ty_cusolverStatus_t ''cusolverDnDsyevj_bufferSize'' [ty_cusolverDnHandle_t, ty_cusolverEigMode_t, ty_cublasFillMode_t, ty_int, Ptr (Const ty_double), ty_int, Ptr (Const ty_double), Ptr ty_int, ty_syevjInfo_t]
       ''cusolverDnDsyevj_bufferSize'' ty_cusolverStatus_t [ty_cusolverDnHandle_t, ty_cusolverEigMode_t, ty_cublasFillMode_t, ty_int, Ptr (Const ty_double), ty_int, Ptr (Const ty_double), Ptr ty_int, ty_syevjInfo_t] ''cusolverDnDsyevj_bufferSize'' [0, 1, 2, 3, 4, 5, 6, 7, 8] False,
     Gen cusolver ty_cusolverStatus_t ''cusolverDnCheevj_bufferSize'' [ty_cusolverDnHandle_t, ty_cusolverEigMode_t, ty_cublasFillMode_t, ty_int, Ptr (Const ty_cuComplex), ty_int, Ptr (Const ty_float), Ptr ty_int, ty_syevjInfo_t]
       ''cusolverDnCheevj_bufferSize'' ty_cusolverStatus_t [ty_cusolverDnHandle_t, ty_cusolverEigMode_t, ty_cublasFillMode_t, ty_int, Ptr (Const ty_cuComplex), ty_int, Ptr (Const ty_float), Ptr ty_int, ty_syevjInfo_t] ''cusolverDnCheevj_bufferSize'' [0, 1, 2, 3, 4, 5, 6, 7, 8] False,
     Gen cusolver ty_cusolverStatus_t ''cusolverDnZheevj_bufferSize'' [ty_cusolverDnHandle_t, ty_cusolverEigMode_t, ty_cublasFillMode_t, ty_int, Ptr (Const ty_cuDoubleComplex), ty_int, Ptr (Const ty_double), Ptr ty_int, ty_syevjInfo_t]
       ''cusolverDnZheevj_bufferSize'' ty_cusolverStatus_t [ty_cusolverDnHandle_t, ty_cusolverEigMode_t, ty_cublasFillMode_t, ty_int, Ptr (Const ty_cuDoubleComplex), ty_int, Ptr (Const ty_double), Ptr ty_int, ty_syevjInfo_t] ''cusolverDnZheevj_bufferSize'' [0, 1, 2, 3, 4, 5, 6, 7, 8] False,
     Gen cusolver ty_cusolverStatus_t ''cusolverDnSsyevj'' [ty_cusolverDnHandle_t, ty_cusolverEigMode_t, ty_cublasFillMode_t, ty_int, Ptr ty_float, ty_int, Ptr ty_float, Ptr ty_float, ty_int, Ptr ty_int, ty_syevjInfo_t]
       ''cusolverDnSsyevj'' ty_cusolverStatus_t [ty_cusolverDnHandle_t, ty_cusolverEigMode_t, ty_cublasFillMode_t, ty_int, Ptr ty_float, ty_int, Ptr ty_float, Ptr ty_float, ty_int, Ptr ty_int, ty_syevjInfo_t] ''cusolverDnSsyevj'' [0, 1, 2, 3, 4, 5, 6, 7, 8, 9, 10] False]"

definition cusolver_hooks_25 :: "gen_hook list" where
  "cusolver_hooks_25 =
    [Gen cusolver ty_cusolverStatus_t ''cusolverDnDsyevj'' [ty_cusolverDnHandle_t, ty_cusolverEigMode_t, ty_cublasFillMode_t, ty_int, Ptr ty_double, ty_int, Ptr ty_double, Ptr ty_double, ty_int, Ptr ty_int, ty_syevjInfo_t]
       ''cusolverDnDsyevj'' ty_cusolverStatus_t [ty_cusolverDnHandle_t, ty_cusolverEigMode_t, ty_cublasFillMode_t, ty_int, Ptr ty_double, ty_int, Ptr ty_double, Ptr ty_double, ty_int, Ptr ty_int, ty_syevjInfo_t] ''cusolverDnDsyevj'' [0, 1, 2, 3, 4, 5, 6, 7, 8, 9, 10] False,
     Gen cusolver ty_cusolverStatus_t ''cusolverDnCheevj'' [ty_cusolverDnHandle_t, ty_cusolverEigMode_t, ty_cublasFillMode_t, ty_int, Ptr ty_cuComplex, ty_int, Ptr ty_float, Ptr ty_cuComplex, ty_int, Ptr ty_int, ty_syevjInfo_t]
       ''cusolverDnCheevj'' ty_cusolverStatus_t [ty_cusolverDnHandle_t, ty_cusolverEigMode_t, ty_cublasFillMode_t, ty_int, Ptr ty_cuComplex, ty_int, Ptr ty_float, Ptr ty_cuComplex, ty_int, Ptr ty_int, ty_syevjInfo_t] ''cusolverDnCheevj'' [0, 1, 2, 3, 4, 5, 6, 7, 8, 9, 10] False,
     Gen cusolver ty_cusolverStatus_t ''cusolverDnZheevj'' [ty_cusolverDnHandle_t, ty_cusolverEigMode_t, ty_cublasFillMode_t, ty_int, Ptr ty_cuDoubleComplex, ty_int, Ptr ty_double, Ptr ty_cuDoubleComplex, ty_int, Ptr ty_int, ty_syevjInfo_t]
       ''cusolverDnZheevj'' ty_cusolverStatus_t [ty_cusolverDnHandle_t, ty_cusolverEigMode_t, ty_cublasFillMode_t, ty_int, Ptr ty_cuDoubleComplex, ty_int, Ptr ty_double, Ptr ty_cuDoubleComplex, ty_int, Ptr ty_int, ty_syevjInfo_t] ''cusolverDnZheevj'' [0, 1, 2, 3, 4, 5, 6, 7, 8, 9, 10] False,
     Gen cusolver ty_cusolverStatus_t ''cusolverDnSsygvj_bufferSize'' [ty_cusolverDnHandle_t, ty_cusolverEigType_t, ty_cusolverEigMode_t, ty_cublasFillMode_t, ty_int, Ptr (Const ty_float), ty_int, Ptr (Const ty_float), ty_int, Ptr (Const ty_float), Ptr ty_int, ty_syevjInfo_t]
       ''cusolverDnSsygvj_bufferSize'' ty_cusolverStatus_t [ty_cusolverDnHandle_t, ty_cusolverEigType_t, ty_cusolverEigMode_t, ty_cublasFillMode_t, ty_int, Ptr (Const ty_float), ty_int, Ptr (Const ty_float), ty_int, Ptr (Const ty_float), Ptr ty_int, ty_syevjInfo_t] ''cusolverDnSsygvj_bufferSize'' [0, 1, 2, 3, 4, 5, 6, 7, 8, 9, 10, 11] False,
     Gen cusolver ty_cusolverStatus_t ''cusolverDnDsygvj_bufferSize'' [ty_cusolverDnHandle_t, ty_cusolverEigType_t, ty_cusolverEigMode_t, ty_cublasFillMode_t, ty_int, Ptr (Const ty_double), ty_int, Ptr (Const ty_double), ty_int, Ptr (Const ty_double), Ptr ty_int, ty_syevjInfo_t]
       ''cusolverDnDsygvj_bufferSize'' ty_cusolverStatus_t [ty_cusolverDnHandle_t, ty_cusolverEigType_t, ty_cusolverEigMode_t, ty_cublasFillMode_t, ty_int, Ptr (Const ty_double), ty_int, Ptr (Const ty_double), ty_int, Ptr (Const ty_double), Ptr ty_int, ty_syevjInfo_t] ''cusolverDnDsygvj_bufferSize'' [0, 1, 2, 3, 4, 5, 6, 7, 8, 9, 10, 11] False,
     Gen cusolver ty_cusolverStatus_t ''cusolverDnChegvj_bufferSize'' [ty_cusolverDnHandle_t, ty_cusolverEigType_t, ty_cusolverEigMode_t, ty_cublasFillMode_t, ty_int, Ptr (Const ty_cuComplex), ty_int, Ptr (Const ty_cuComplex), ty_int, Ptr (Const ty_float), Ptr ty_int, ty_syevjInfo_t]
       ''cusolverDnChegvj_bufferSize'' ty_cusolverStatus_t [ty_cusolverDnHandle_t, ty_cusolverEigType_t, ty_cusolverEigMode_t, ty_cublasFillMode_t, ty_int, Ptr (Const ty_cuComplex), ty_int, Ptr (Const ty_cuComplex), ty_int, Ptr (Const ty_float), Ptr ty_int, ty_syevjInfo_t] ''cusolverDnChegvj_bufferSize'' [0, 1, 2, 3, 4, 5, 6, 7, 8, 9, 10, 11] False,
     Gen cusolver ty_cusolverStatus_t ''cusolverDnZhegvj_bufferSize'' [ty_cusolverDnHandle_t, ty_cusolverEigType_t, ty_cusolverEigMode_t, ty_cublasFillMode_t, ty_int, Ptr (Const ty_cuDoubleComplex), ty_int, Ptr (Const ty_cuDoubleComplex), ty_int, Ptr (Const ty_double), Ptr ty_int, ty_syevjInfo_t]
       ''cusolverDnZhegvj_bufferSize'' ty_cusolverStatus_t [ty_cusolverDnHandle_t, ty_cusolverEigType_t, ty_cusolverEigMode_t, ty_cublasFillMode_t, ty_int, Ptr (Const ty_cuDoubleComplex), ty_int, Ptr (Const ty_cuDoubleComplex), ty_int, Ptr (Const ty_double), Ptr ty_int, ty_syevjInfo_t] ''cusolverDnZhegvj_bufferSize'' [0, 1, 2, 3, 4, 5, 6, 7, 8, 9, 10, 11] False,
     Gen cusolver ty_cusolverStatus_t ''cusolverDnSsygvj'' [ty_cusolverDnHandle_t, ty_cusolverEigType_t, ty_cusolverEigMode_t, ty_cublasFillMode_t, ty_int, Ptr ty_float, ty_int, Ptr ty_float, ty_int, Ptr ty_float, Ptr ty_float, ty_int, Ptr ty_int, ty_syevjInfo_t]
       ''cusolverDnSsygvj'' ty_cusolverStatus_t [ty_cusolverDnHandle_t, ty_cusolverEigType_t, ty_cusolverEigMode_t, ty_cublasFillMode_t, ty_int, Ptr ty_float, ty_int, Ptr ty_float, ty_int, Ptr ty_float, Ptr ty_float, ty_int, Ptr ty_int, ty_syevjInfo_t] ''cusolverDnSsygvj'' [0, 1, 2, 3, 4, 5, 6, 7, 8, 9, 10, 11, 12, 13] False,
     Gen cusolver ty_cusolverStatus_t ''cusolverDnDsygvj'' [ty_cusolverDnHandle_t, ty_cusolverEigType_t, ty_cusolverEigMode_t, ty_cublasFillMode_t, ty_int, Ptr ty_double, ty_int, Ptr ty_double, ty_int, Ptr ty_double, Ptr ty_double, ty_int, Ptr ty_int, ty_syevjInfo_t]
       ''cusolverDnDsygvj'' ty_cusolverStatus_t [ty_cusolverDnHandle_t, ty_cusolverEigType_t, ty_cusolverEigMode_t, ty_cublasFillMode_t, ty_int, Ptr ty_double, ty_int, Ptr ty_double, ty_int, Ptr ty_double, Ptr ty_double, ty_int, Ptr ty_int, ty_syevjInfo_t] ''cusolverDnDsygvj'' [0, 1, 2, 3, 4, 5, 6, 7, 8, 9, 10, 11, 12, 13] False,
     Gen cusolver ty_cusolverStatus_t ''cusolverDnChegvj'' [ty_cusolverDnHandle_t, ty_cusolverEigType_t, ty_cusolverEigMode_t, ty_cublasFillMode_t, ty_int, Ptr ty_cuComplex, ty_int, Ptr ty_cuComplex, ty_int, Ptr ty_float, Ptr ty_cuComplex, ty_int, Ptr ty_int, ty_syevjInfo_t]
       ''cusolverDnChegvj'' ty_cusolverStatus_t [ty_cusolverDnHandle_t, ty_cusolverEigType_t, ty_cusolverEigMode_t, ty_cublasFillMode_t, ty_int, Ptr ty_cuComplex, ty_int, Ptr ty_cuComplex, ty_int, Ptr ty_float, Ptr ty_cuComplex, ty_int, Ptr ty_int, ty_syevjInfo_t] ''cusolverDnChegvj'' [0, 1, 2, 3, 4, 5, 6, 7, 8, 9, 10, 11, 12, 13] False,
     Gen cusolver ty_cusolverStatus_t ''cusolverDnZhegvj'' [ty_cusolverDnHandle_t, ty_cusolverEigType_t, ty_cusolverEigMode_t, ty_cublasFillMode_t, ty_int, Ptr ty_cuDoubleComplex, ty_int, Ptr ty_cuDoubleComplex, ty_int, Ptr ty_double, Ptr ty_cuDoubleComplex, ty_int, Ptr ty_int, ty_syevjInfo_t]
       ''cusolverDnZhegvj'' ty_cusolverStatus_t [ty_cusolverDnHandle_t, ty_cusolverEigType_t, ty_cusolverEigMode_t, ty_cublasFillMode_t, ty_int, Ptr ty_cuDoubleComplex, ty_int, Ptr ty_cuDoubleComplex, ty_int, Ptr ty_double, Ptr ty_cuDoubleComplex, ty_int, Ptr ty_int, ty_syevjInfo_t] ''cusolverDnZhegvj'' [0, 1, 2, 3, 4, 5, 6, 7, 8, 9, 10, 11, 12, 13] False,
     Gen cusolver ty_cusolverStatus_t ''cusolverDnCreateGesvdjInfo'' [Ptr ty_gesvdjInfo_t]
       ''cusolverDnCreateGesvdjInfo'' ty_cusolverStatus_t [Ptr ty_gesvdjInfo_t] ''cusolverDnCreateGesvdjInfo'' [0] False]"

definition cusolver_hooks_26 :: "gen_hook list" where
  "cusolver_hooks_26 =
    [Gen cusolver ty_cusolverStatus_t ''cusolverDnDestroyGesvdjInfo'' [ty_gesvdjInfo_t]
       ''cusolverDnDestroyGesvdjInfo'' ty_cusolverStatus_t [ty_gesvdjInfo_t] ''cusolverDnDestroyGesvdjInfo'' [0] False,
     Gen cusolver ty_cusolverStatus_t ''cusolverDnXgesvdjSetTolerance'' [ty_gesvdjInfo_t, ty_double]
       ''cusolverDnXgesvdjSetTolerance'' ty_cusolverStatus_t [ty_gesvdjInfo_t, ty_double] ''cusolverDnXgesvdjSetTolerance'' [0, 1] False,
     Gen cusolver ty_cusolverStatus_t ''cusolverDnXgesvdjSetMaxSweeps'' [ty_gesvdjInfo_t, ty_int]
       ''cusolverDnXgesvdjSetMaxSweeps'' ty_cusolverStatus_t [ty_gesvdjInfo_t, ty_int] ''cusolverDnXgesvdjSetMaxSweeps'' [0, 1] False,
     Gen cusolver ty_cusolverStatus_t ''cusolverDnXgesvdjSetSortEig'' [ty_gesvdjInfo_t, ty_int]
       ''cusolverDnXgesvdjSetSortEig'' ty_cusolverStatus_t [ty_gesvdjInfo_t, ty_int] ''cusolverDnXgesvdjSetSortEig'' [0, 1] False,
     Gen cusolver ty_cusolverStatus_t ''cusolverDnXgesvdjGetResidual'' [ty_cusolverDnHandle_t, ty_gesvdjInfo_t, Ptr ty_double]
       ''cusolverDnXgesvdjGetResidual'' ty_cusolverStatus_t [ty_cusolverDnHandle_t, ty_gesvdjInfo_t, Ptr ty_double] ''cusolverDnXgesvdjGetResidual'' [0, 1, 2] False,
     Gen cusolver ty_cusolverStatus_t ''cusolverDnXgesvdjGetSweeps'' [ty_cusolverDnHandle_t, ty_gesvdjInfo_t, Ptr ty_int]
       ''cusolverDnXgesvdjGetSweeps'' ty_cusolverStatus_t [ty_cusolverDnHandle_t, ty_gesvdjInfo_t, Ptr ty_int] ''cusolverDnXgesvdjGetSweeps'' [0, 1, 2] False,
     Gen cusolver ty_cusolverStatus_t ''cusolverDnSgesvdjBatched_bufferSize'' [ty_cusolverDnHandle_t, ty_cusolverEigMode_t, ty_int, ty_int, Ptr (Const ty_float), ty_int, Ptr (Const ty_float), Ptr (Const ty_float), ty_int, Ptr (Const ty_float), ty_int, Ptr ty_int, ty_gesvdjInfo_t, ty_int]
       ''cusolverDnSgesvdjBatched_bufferSize'' ty_cusolverStatus_t [ty_cusolverDnHandle_t, ty_cusolverEigMode_t, ty_int, ty_int, Ptr (Const ty_float), ty_int, Ptr (Const ty_float), Ptr (Const ty_float), ty_int, Ptr (Const ty_float), ty_int, Ptr ty_int, ty_gesvdjInfo_t, ty_int] ''cusolverDnSgesvdjBatched_bufferSize'' [0, 1, 2, 3, 4, 5, 6, 7, 8, 9, 10, 11, 12, 13] False,
     Gen cusolver ty_cusolverStatus_t ''cusolverDnDgesvdjBatched_bufferSize'' [ty_cusolverDnHandle_t, ty_cusolverEigMode_t, ty_int, ty_int, Ptr (Const ty_double), ty_int, Ptr (Const ty_double), Ptr (Const ty_double), ty_int, Ptr (Const ty_double), ty_int, Ptr ty_int, ty_gesvdjInfo_t, ty_int]
       ''cusolverDnDgesvdjBatched_bufferSize'' ty_cusolverStatus_t [ty_cusolverDnHandle_t, ty_cusolverEigMode_t, ty_int, ty_int, Ptr (Const ty_double), ty_int, Ptr (Const ty_double), Ptr (Const ty_double), ty_int, Ptr (Const ty_double), ty_int, Ptr ty_int, ty_gesvdjInfo_t, ty_int] ''cusolverDnDgesvdjBatched_bufferSize'' [0, 1, 2, 3, 4, 5, 6, 7, 8, 9, 10, 11, 12, 13] False,
     Gen cusolver ty_cusolverStatus_t ''cusolverDnCgesvdjBatched_bufferSize'' [ty_cusolverDnHandle_t, ty_cusolverEigMode_t, ty_int, ty_int, Ptr (Const ty_cuComplex), ty_int, Ptr (Const ty_float), Ptr (Const ty_cuComplex), ty_int, Ptr (Const ty_cuComplex), ty_int, Ptr ty_int, ty_gesvdjInfo_t, ty_int]
       ''cusolverDnCgesvdjBatched_bufferSize'' ty_cusolverStatus_t [ty_cusolverDnHandle_t, ty_cusolverEigMode_t, ty_int, ty_int, Ptr (Const ty_cuComplex), ty_int, Ptr (Const ty_float), Ptr (Const ty_cuComplex), ty_int, Ptr (Const ty_cuComplex), ty_int, Ptr ty_int, ty_gesvdjInfo_t, ty_int] ''cusolverDnCgesvdjBatched_bufferSize'' [0, 1, 2, 3, 4, 5, 6, 7, 8, 9, 10, 11, 12, 13] False,
     Gen cusolver ty_cusolverStatus_t ''cusolverDnZgesvdjBatched_bufferSize'' [ty_cusolverDnHandle_t, ty_cusolverEigMode_t, ty_int, ty_int, Ptr (Const ty_cuDoubleComplex), ty_int, Ptr (Const ty_double), Ptr (Const ty_cuDoubleComplex), ty_int, Ptr (Const ty_cuDoubleComplex), ty_int, Ptr ty_int, ty_gesvdjInfo_t, ty_int]
       ''cusolverDnZgesvdjBatched_bufferSize'' ty_cusolverStatus_t [ty_cusolverDnHandle_t, ty_cusolverEigMode_t, ty_int, ty_int, Ptr (Const ty_cuDoubleComplex), ty_int, Ptr (Const ty_double), Ptr (Const ty_cuDoubleComplex), ty_int, Ptr (Const ty_cuDoubleComplex), ty_int, Ptr ty_int, ty_gesvdjInfo_t, ty_int] ''cusolverDnZgesvdjBatched_bufferSize'' [0, 1, 2, 3, 4, 5, 6, 7, 8, 9, 10, 11, 12, 13] False,
     Gen cusolver ty_cusolverStatus_t ''cusolverDnSgesvdjBatched'' [ty_cusolverDnHandle_t, ty_cusolverEigMode_t, ty_int, ty_int, Ptr ty_float, ty_int, Ptr ty_float, Ptr ty_float, ty_int, Ptr ty_float, ty_int, Ptr ty_float, ty_int, Ptr ty_int, ty_gesvdjInfo_t, ty_int]
       ''cusolverDnSgesvdjBatched'' ty_cusolverStatus_t [ty_cusolverDnHandle_t, ty_cusolverEigMode_t, ty_int, ty_int, Ptr ty_float, ty_int, Ptr ty_float, Ptr ty_float, ty_int, Ptr ty_float, ty_int, Ptr ty_float, ty_int, Ptr ty_int, ty_gesvdjInfo_t, ty_int] ''cusolverDnSgesvdjBatched'' [0, 1, 2, 3, 4, 5, 6, 7, 8, 9, 10, 11, 12, 13, 14, 15] False,
     Gen cusolver ty_cusolverStatus_t ''cusolverDnDgesvdjBatched'' [ty_cusolverDnHandle_t, ty_cusolverEigMode_t, ty_int, ty_int, Ptr ty_double, ty_int, Ptr ty_double, Ptr ty_double, ty_int, Ptr ty_double, ty_int, Ptr ty_double, ty_int, Ptr ty_int, ty_gesvdjInfo_t, ty_int]
       ''cusolverDnDgesvdjBatched'' ty_cusolverStatus_t [ty_cusolverDnHandle_t, ty_cusolverEigMode_t, ty_int, ty_int, Ptr ty_double, ty_int, Ptr ty_double, Ptr ty_double, ty_int, Ptr ty_double, ty_int, Ptr ty_double, ty_int, Ptr ty_int, ty_gesvdjInfo_t, ty_int] ''cusolverDnDgesvdjBatched'' [0, 1, 2, 3, 4, 5, 6, 7, 8, 9, 10, 11, 12, 13, 14, 15] False,
     Gen cusolver ty_cusolverStatus_t ''cusolverDnCgesvdjBatched'' [ty_cusolverDnHandle_t, ty_cusolverEigMode_t, ty_int, ty_int, Ptr ty_cuComplex, ty_int, Ptr ty_float, Ptr ty_cuComplex, ty_int, Ptr ty_cuComplex, ty_int, Ptr ty_cuComplex, ty_int, Ptr ty_int, ty_gesvdjInfo_t, ty_int]
       ''cusolverDnCgesvdjBatched'' ty_cusolverStatus_t [ty_cusolverDnHandle_t, ty_cusolverEigMode_t, ty_int, ty_int, Ptr ty_cuComplex, ty_int, Ptr ty_float, Ptr ty_cuComplex, ty_int, Ptr ty_cuComplex, ty_int, Ptr ty_cuComplex, ty_int, Ptr ty_int, ty_gesvdjInfo_t, ty_int] ''cusolverDnCgesvdjBatched'' [0, 1, 2, 3, 4, 5, 6, 7, 8, 9, 10, 11, 12, 13, 14, 15] False]"

definition cusolver_hooks_27 :: "gen_hook list" where
  "cusolver_hooks_27 =
    [Gen cusolver ty_cusolverStatus_t ''cusolverDnZgesvdjBatched'' [ty_cusolverDnHandle_t, ty_cusolverEigMode_t, ty_int, ty_int, Ptr ty_cuDoubleComplex, ty_int, Ptr ty_double, Ptr ty_cuDoubleComplex, ty_int, Ptr ty_cuDoubleComplex, ty_int, Ptr ty_cuDoubleComplex, ty_int, Ptr ty_int, ty_gesvdjInfo_t, ty_int]
       ''cusolverDnZgesvdjBatched'' ty_cusolverStatus_t [ty_cusolverDnHandle_t, ty_cusolverEigMode_t, ty_int, ty_int, Ptr ty_cuDoubleComplex, ty_int, Ptr ty_double, Ptr ty_cuDoubleComplex, ty_int, Ptr ty_cuDoubleComplex, ty_int, Ptr ty_cuDoubleComplex, ty_int, Ptr ty_int, ty_gesvdjInfo_t, ty_int] ''cusolverDnZgesvdjBatched'' [0, 1, 2, 3, 4, 5, 6, 7, 8, 9, 10, 11, 12, 13, 14, 15] False,
     Gen cusolver ty_cusolverStatus_t ''cusolverDnSgesvdj_bufferSize'' [ty_cusolverDnHandle_t, ty_cusolverEigMode_t, ty_int, ty_int, ty_int, Ptr (Const ty_float), ty_int, Ptr (Const ty_float), Ptr (Const ty_float), ty_int, Ptr (Const ty_float), ty_int, Ptr ty_int, ty_gesvdjInfo_t]
       ''cusolverDnSgesvdj_bufferSize'' ty_cusolverStatus_t [ty_cusolverDnHandle_t, ty_cusolverEigMode_t, ty_int, ty_int, ty_int, Ptr (Const ty_float), ty_int, Ptr (Const ty_float), Ptr (Const ty_float), ty_int, Ptr (Const ty_float), ty_int, Ptr ty_int, ty_gesvdjInfo_t] ''cusolverDnSgesvdj_bufferSize'' [0, 1, 2, 3, 4, 5, 6, 7, 8, 9, 10, 11, 12, 13] False,
     Gen cusolver ty_cusolverStatus_t ''cusolverDnDgesvdj_bufferSize'' [ty_cusolverDnHandle_t, ty_cusolverEigMode_t, ty_int, ty_int, ty_int, Ptr (Const ty_double), ty_int, Ptr (Const ty_double), Ptr (Const ty_double), ty_int, Ptr (Const ty_double), ty_int, Ptr ty_int, ty_gesvdjInfo_t]
       ''cusolverDnDgesvdj_bufferSize'' ty_cusolverStatus_t [ty_cusolverDnHandle_t, ty_cusolverEigMode_t, ty_int, ty_int, ty_int, Ptr (Const ty_double), ty_int, Ptr (Const ty_double), Ptr (Const ty_double), ty_int, Ptr (Const ty_double), ty_int, Ptr ty_int, ty_gesvdjInfo_t] ''cusolverDnDgesvdj_bufferSize'' [0, 1, 2, 3, 4, 5, 6, 7, 8, 9, 10, 11, 12, 13] False,
     Gen cusolver ty_cusolverStatus_t ''cusolverDnCgesvdj_bufferSize'' [ty_cusolverDnHandle_t, ty_cusolverEigMode_t, ty_int, ty_int, ty_int, Ptr (Const ty_cuComplex), ty_int, Ptr (Const ty_float), Ptr (Const ty_cuComplex), ty_int, Ptr (Const ty_cuComplex), ty_int, Ptr ty_int, ty_gesvdjInfo_t]
       ''cusolverDnCgesvdj_bufferSize'' ty_cusolverStatus_t [ty_cusolverDnHandle_t, ty_cusolverEigMode_t, ty_int, ty_int, ty_int, Ptr (Const ty_cuComplex), ty_int, Ptr (Const ty_float), Ptr (Const ty_cuComplex), ty_int, Ptr (Const ty_cuComplex), ty_int, Ptr ty_int, ty_gesvdjInfo_t] ''cusolverDnCgesvdj_bufferSize'' [0, 1, 2, 3, 4, 5, 6, 7, 8, 9, 10, 11, 12, 13] False,
     Gen cusolver ty_cusolverStatus_t ''cusolverDnZgesvdj_bufferSize'' [ty_cusolverDnHandle_t, ty_cusolverEigMode_t, ty_int, ty_int, ty_int, Ptr (Const ty_cuDoubleComplex), ty_int, Ptr (Const ty_double), Ptr (Const ty_cuDoubleComplex), ty_int, Ptr (Const ty_cuDoubleComplex), ty_int, Ptr ty_int, ty_gesvdjInfo_t]
       ''cusolverDnZgesvdj_bufferSize'' ty_cusolverStatus_t [ty_cusolverDnHandle_t, ty_cusolverEigMode_t, ty_int, ty_int, ty_int, Ptr (Const ty_cuDoubleComplex), ty_int, Ptr (Const ty_double), Ptr (Const ty_cuDoubleComplex), ty_int, Ptr (Const ty_cuDoubleComplex), ty_int, Ptr ty_int, ty_gesvdjInfo_t] ''cusolverDnZgesvdj_bufferSize'' [0, 1, 2, 3, 4, 5, 6, 7, 8, 9, 10, 11, 12, 13] False,
     Gen cusolver ty_cusolverStatus_t ''cusolverDnSgesvdj'' [ty_cusolverDnHandle_t, ty_cusolverEigMode_t, ty_int, ty_int, ty_int, Ptr ty_float, ty_int, Ptr ty_float, Ptr ty_float, ty_int, Ptr ty_float, ty_int, Ptr ty_float, ty_int, Ptr ty_int, ty_gesvdjInfo_t]
       ''cusolverDnSgesvdj'' ty_cusolverStatus_t [ty_cusolverDnHandle_t, ty_cusolverEigMode_t, ty_int, ty_int, ty_int, Ptr ty_float, ty_int, Ptr ty_float, Ptr ty_float, ty_int, Ptr ty_float, ty_int, Ptr ty_float, ty_int, Ptr ty_int, ty_gesvdjInfo_t] ''cusolverDnSgesvdj'' [0, 1, 2, 3, 4, 5, 6, 7, 8, 9, 10, 11, 12, 13, 14, 15] False,
     Gen cusolver ty_cusolverStatus_t ''cusolverDnDgesvdj'' [ty_cusolverDnHandle_t, ty_cusolverEigMode_t, ty_int, ty_int, ty_int, Ptr ty_double, ty_int, Ptr ty_double, Ptr ty_double, ty_int, Ptr ty_double, ty_int, Ptr ty_double, ty_int, Ptr ty_int, ty_gesvdjInfo_t]
       ''cusolverDnDgesvdj'' ty_cusolverStatus_t [ty_cusolverDnHandle_t, ty_cusolverEigMode_t, ty_int, ty_int, ty_int, Ptr ty_double, ty_int, Ptr ty_double, Ptr ty_double, ty_int, Ptr ty_double, ty_int, Ptr ty_double, ty_int, Ptr ty_int, ty_gesvdjInfo_t] ''cusolverDnDgesvdj'' [0, 1, 2, 3, 4, 5, 6, 7, 8, 9, 10, 11, 12, 13, 14, 15] False,
     Gen cusolver ty_cusolverStatus_t ''cusolverDnCgesvdj'' [ty_cusolverDnHandle_t, ty_cusolverEigMode_t, ty_int, ty_int, ty_int, Ptr ty_cuComplex, ty_int, Ptr ty_float, Ptr ty_cuComplex, ty_int, Ptr ty_cuComplex, ty_int, Ptr ty_cuComplex, ty_int, Ptr ty_int, ty_gesvdjInfo_t]
       ''cusolverDnCgesvdj'' ty_cusolverStatus_t [ty_cusolverDnHandle_t, ty_cusolverEigMode_t, ty_int, ty_int, ty_int, Ptr ty_cuComplex, ty_int, Ptr ty_float, Ptr ty_cuComplex, ty_int, Ptr ty_cuComplex, ty_int, Ptr ty_cuComplex, ty_int, Ptr ty_int, ty_gesvdjInfo_t] ''cusolverDnCgesvdj'' [0, 1, 2, 3, 4, 5, 6, 7, 8, 9, 10, 11, 12, 13, 14, 15] False,
     Gen cusolver ty_cusolverStatus_t ''cusolverDnZgesvdj'' [ty_cusolverDnHandle_t, ty_cusolverEigMode_t, ty_int, ty_int, ty_int, Ptr ty_cuDoubleComplex, ty_int, Ptr ty_double, Ptr ty_cuDoubleComplex, ty_int, Ptr ty_cuDoubleComplex, ty_int, Ptr ty_cuDoubleComplex, ty_int, Ptr ty_int, ty_gesvdjInfo_t]
       ''cusolverDnZgesvdj'' ty_cusolverStatus_t [ty_cusolverDnHandle_t, ty_cusolverEigMode_t, ty_int, ty_int, ty_int, Ptr ty_cuDoubleComplex, ty_int, Ptr ty_double, Ptr ty_cuDoubleComplex, ty_int, Ptr ty_cuDoubleComplex, ty_int, Ptr ty_cuDoubleComplex, ty_int, Ptr ty_int, ty_gesvdjInfo_t] ''cusolverDnZgesvdj'' [0, 1, 2, 3, 4, 5, 6, 7, 8, 9, 10, 11, 12, 13, 14, 15] False,
     Gen cusolver ty_cusolverStatus_t ''cusolverDnSgesvdaStridedBatched_bufferSize'' [ty_cusolverDnHandle_t, ty_cusolverEigMode_t, ty_int, ty_int, ty_int, Ptr (Const ty_float), ty_int, ty_long_long_int, Ptr (Const ty_float), ty_long_long_int, Ptr (Const ty_float), ty_int, ty_long_long_int, Ptr (Const ty_float), ty_int, ty_long_long_int, Ptr ty_int, ty_int]
       ''cusolverDnSgesvdaStridedBatched_bufferSize'' ty_cusolverStatus_t [ty_cusolverDnHandle_t, ty_cusolverEigMode_t, ty_int, ty_int, ty_int, Ptr (Const ty_float), ty_int, ty_long_long_int, Ptr (Const ty_float), ty_long_long_int, Ptr (Const ty_float), ty_int, ty_long_long_int, Ptr (Const ty_float), ty_int, ty_long_long_int, Ptr ty_int, ty_int] ''cusolverDnSgesvdaStridedBatched_bufferSize'' [0, 1, 2, 3, 4, 5, 6, 7, 8, 9, 10, 11, 12, 13, 14, 15, 16, 17] False,
     Gen cusolver ty_cusolverStatus_t ''cusolverDnDgesvdaStridedBatched_bufferSize'' [ty_cusolverDnHandle_t, ty_cusolverEigMode_t, ty_int, ty_int, ty_int, Ptr (Const ty_double), ty_int, ty_long_long_int, Ptr (Const ty_double), ty_long_long_int, Ptr (Const ty_double), ty_int, ty_long_long_int, Ptr (Const ty_double), ty_int, ty_long_long_int, Ptr ty_int, ty_int]
       ''cusolverDnDgesvdaStridedBatched_bufferSize'' ty_cusolverStatus_t [ty_cusolverDnHandle_t, ty_cusolverEigMode_t, ty_int, ty_int, ty_int, Ptr (Const ty_double), ty_int, ty_long_long_int, Ptr (Const ty_double), ty_long_long_int, Ptr (Const ty_double), ty_int, ty_long_long_int, Ptr (Const ty_double), ty_int, ty_long_long_int, Ptr ty_int, ty_int] ''cusolverDnDgesvdaStridedBatched_bufferSize'' [0, 1, 2, 3, 4, 5, 6, 7, 8, 9, 10, 11, 12, 13, 14, 15, 16, 17] False]"

definition cusolver_hooks_28 :: "gen_hook list" where
  "cusolver_hooks_28 =
    [Gen cusolver ty_cusolverStatus_t ''cusolverDnCgesvdaStridedBatched_bufferSize'' [ty_cusolverDnHandle_t, ty_cusolverEigMode_t, ty_int, ty_int, ty_int, Ptr (Const ty_cuComplex), ty_int, ty_long_long_int, Ptr (Const ty_float), ty_long_long_int, Ptr (Const ty_cuComplex), ty_int, ty_long_long_int, Ptr (Const ty_cuComplex), ty_int, ty_long_long_int, Ptr ty_int, ty_int]
       ''cusolverDnCgesvdaStridedBatched_bufferSize'' ty_cusolverStatus_t [ty_cusolverDnHandle_t, ty_cusolverEigMode_t, ty_int, ty_int, ty_int, Ptr (Const ty_cuComplex), ty_int, ty_long_long_int, Ptr (Const ty_float), ty_long_long_int, Ptr (Const ty_cuComplex), ty_int, ty_long_long_int, Ptr (Const ty_cuComplex), ty_int, ty_long_long_int, Ptr ty_int, ty_int] ''cusolverDnCgesvdaStridedBatched_bufferSize'' [0, 1, 2, 3, 4, 5, 6, 7, 8, 9, 10, 11, 12, 13, 14, 15, 16, 17] False,
     Gen cusolver ty_cusolverStatus_t ''cusolverDnZgesvdaStridedBatched_bufferSize'' [ty_cusolverDnHandle_t, ty_cusolverEigMode_t, ty_int, ty_int, ty_int, Ptr (Const ty_cuDoubleComplex), ty_int, ty_long_long_int, Ptr (Const ty_double), ty_long_long_int, Ptr (Const ty_cuDoubleComplex), ty_int, ty_long_long_int, Ptr (Const ty_cuDoubleComplex), ty_int, ty_long_long_int, Ptr ty_int, ty_int]
       ''cusolverDnZgesvdaStridedBatched_bufferSize'' ty_cusolverStatus_t [ty_cusolverDnHandle_t, ty_cusolverEigMode_t, ty_int, ty_int, ty_int, Ptr (Const ty_cuDoubleComplex), ty_int, ty_long_long_int, Ptr (Const ty_double), ty_long_long_int, Ptr (Const ty_cuDoubleComplex), ty_int, ty_long_long_int, Ptr (Const ty_cuDoubleComplex), ty_int, ty_long_long_int, Ptr ty_int, ty_int] ''cusolverDnZgesvdaStridedBatched_bufferSize'' [0, 1, 2, 3, 4, 5, 6, 7, 8, 9, 10, 11, 12, 13, 14, 15, 16, 17] False,
     Gen cusolver ty_cusolverStatus_t ''cusolverDnSgesvdaStridedBatched'' [ty_cusolverDnHandle_t, ty_cusolverEigMode_t, ty_int, ty_int, ty_int, Ptr (Const ty_float), ty_int, ty_long_long_int, Ptr ty_float, ty_long_long_int, Ptr ty_float, ty_int, ty_long_long_int, Ptr ty_float, ty_int, ty_long_long_int, Ptr ty_float, ty_int, Ptr ty_int, Ptr ty_double, ty_int]
       ''cusolverDnSgesvdaStridedBatched'' ty_cusolverStatus_t [ty_cusolverDnHandle_t, ty_cusolverEigMode_t, ty_int, ty_int, ty_int, Ptr (Const ty_float), ty_int, ty_long_long_int, Ptr ty_float, ty_long_long_int, Ptr ty_float, ty_int, ty_long_long_int, Ptr ty_float, ty_int, ty_long_long_int, Ptr ty_float, ty_int, Ptr ty_int, Ptr ty_double, ty_int] ''cusolverDnSgesvdaStridedBatched'' [0, 1, 2, 3, 4, 5, 6, 7, 8, 9, 10, 11, 12, 13, 14, 15, 16, 17, 18, 19, 20] False,
     Gen cusolver ty_cusolverStatus_t ''cusolverDnDgesvdaStridedBatched'' [ty_cusolverDnHandle_t, ty_cusolverEigMode_t, ty_int, ty_int, ty_int, Ptr (Const ty_double), ty_int, ty_long_long_int, Ptr ty_double, ty_long_long_int, Ptr ty_double, ty_int, ty_long_long_int, Ptr ty_double, ty_int, ty_long_long_int, Ptr ty_double, ty_int, Ptr ty_int, Ptr ty_double, ty_int]
       ''cusolverDnDgesvdaStridedBatched'' ty_cusolverStatus_t [ty_cusolverDnHandle_t, ty_cusolverEigMode_t, ty_int, ty_int, ty_int, Ptr (Const ty_double), ty_int, ty_long_long_int, Ptr ty_double, ty_long_long_int, Ptr ty_double, ty_int, ty_long_long_int, Ptr ty_double, ty_int, ty_long_long_int, Ptr ty_double, ty_int, Ptr ty_int, Ptr ty_double, ty_int] ''cusolverDnDgesvdaStridedBatched'' [0, 1, 2, 3, 4, 5, 6, 7, 8, 9, 10, 11, 12, 13, 14, 15, 16, 17, 18, 19, 20] False,
     Gen cusolver ty_cusolverStatus_t ''cusolverDnCgesvdaStridedBatched'' [ty_cusolverDnHandle_t, ty_cusolverEigMode_t, ty_int, ty_int, ty_int, Ptr (Const ty_cuComplex), ty_int, ty_long_long_int, Ptr ty_float, ty_long_long_int, Ptr ty_cuComplex, ty_int, ty_long_long_int, Ptr ty_cuComplex, ty_int, ty_long_long_int, Ptr ty_cuComplex, ty_int, Ptr ty_int, Ptr ty_double, ty_int]
       ''cusolverDnCgesvdaStridedBatched'' ty_cusolverStatus_t [ty_cusolverDnHandle_t, ty_cusolverEigMode_t, ty_int, ty_int, ty_int, Ptr (Const ty_cuComplex), ty_int, ty_long_long_int, Ptr ty_float, ty_long_long_int, Ptr ty_cuComplex, ty_int, ty_long_long_int, Ptr ty_cuComplex, ty_int, ty_long_long_int, Ptr ty_cuComplex, ty_int, Ptr ty_int, Ptr ty_double, ty_int] ''cusolverDnCgesvdaStridedBatched'' [0, 1, 2, 3, 4, 5, 6, 7, 8, 9, 10, 11, 12, 13, 14, 15, 16, 17, 18, 19, 20] False,
     Gen cusolver ty_cusolverStatus_t ''cusolverDnZgesvdaStridedBatched'' [ty_cusolverDnHandle_t, ty_cusolverEigMode_t, ty_int, ty_int, ty_int, Ptr (Const ty_cuDoubleComplex), ty_int, ty_long_long_int, Ptr ty_double, ty_long_long_int, Ptr ty_cuDoubleComplex, ty_int, ty_long_long_int, Ptr ty_cuDoubleComplex, ty_int, ty_long_long_int, Ptr ty_cuDoubleComplex, ty_int, Ptr ty_int, Ptr ty_double, ty_int]
       ''cusolverDnZgesvdaStridedBatched'' ty_cusolverStatus_t [ty_cusolverDnHandle_t, ty_cusolverEigMode_t, ty_int, ty_int, ty_int, Ptr (Const ty_cuDoubleComplex), ty_int, ty_long_long_int, Ptr ty_double, ty_long_long_int, Ptr ty_cuDoubleComplex, ty_int, ty_long_long_int, Ptr ty_cuDoubleComplex, ty_int, ty_long_long_int, Ptr ty_cuDoubleComplex, ty_int, Ptr ty_int, Ptr ty_double, ty_int] ''cusolverDnZgesvdaStridedBatched'' [0, 1, 2, 3, 4, 5, 6, 7, 8, 9, 10, 11, 12, 13, 14, 15, 16, 17, 18, 19, 20] False,
     Gen cusolver ty_cusolverStatus_t ''cusolverDnCreateParams'' [Ptr ty_cusolverDnParams_t]
       ''cusolverDnCreateParams'' ty_cusolverStatus_t [Ptr ty_cusolverDnParams_t] ''cusolverDnCreateParams'' [0] False,
     Gen cusolver ty_cusolverStatus_t ''cusolverDnDestroyParams'' [ty_cusolverDnParams_t]
       ''cusolverDnDestroyParams'' ty_cusolverStatus_t [ty_cusolverDnParams_t] ''cusolverDnDestroyParams'' [0] False,
     Gen cusolver ty_cusolverStatus_t ''cusolverDnSetAdvOptions'' [ty_cusolverDnParams_t, ty_cusolverDnFunction_t, ty_cusolverAlgMode_t]
       ''cusolverDnSetAdvOptions'' ty_cusolverStatus_t [ty_cusolverDnParams_t, ty_cusolverDnFunction_t, ty_cusolverAlgMode_t] ''cusolverDnSetAdvOptions'' [0, 1, 2] False,
     Gen cusolver ty_cusolverStatus_t ''cusolverDnPotrf_bufferSize'' [ty_cusolverDnHandle_t, ty_cusolverDnParams_t, ty_cublasFillMode_t, ty_int64_t, ty_cudaDataType, Ptr (Const ty_void), ty_int64_t, ty_cudaDataType, Ptr ty_size_t]
       ''cusolverDnPotrf_bufferSize'' ty_cusolverStatus_t [ty_cusolverDnHandle_t, ty_cusolverDnParams_t, ty_cublasFillMode_t, ty_int64_t, ty_cudaDataType, Ptr (Const ty_void), ty_int64_t, ty_cudaDataType, Ptr ty_size_t] ''cusolverDnPotrf_bufferSize'' [0, 1, 2, 3, 4, 5, 6, 7, 8] False,
     Gen cusolver ty_cusolverStatus_t ''cusolverDnPotrf'' [ty_cusolverDnHandle_t, ty_cusolverDnParams_t, ty_cublasFillMode_t, ty_int64_t, ty_cudaDataType, Ptr ty_void, ty_int64_t, ty_cudaDataType, Ptr ty_void, ty_size_t, Ptr ty_int]
       ''cusolverDnPotrf'' ty_cusolverStatus_t [ty_cusolverDnHandle_t, ty_cusolverDnParams_t, ty_cublasFillMode_t, ty_int64_t, ty_cudaDataType, Ptr ty_void, ty_int64_t, ty_cudaDataType, Ptr ty_void, ty_size_t, Ptr ty_int] ''cusolverDnPotrf'' [0, 1, 2, 3, 4, 5, 6, 7, 8, 9, 10] False,
     Gen cusolver ty_cusolverStatus_t ''cusolverDnPotrs'' [ty_cusolverDnHandle_t, ty_cusolverDnParams_t, ty_cublasFillMode_t, ty_int64_t, ty_int64_t, ty_cudaDataType, Ptr (Const ty_void), ty_int64_t, ty_cudaDataType, Ptr ty_void, ty_int64_t, Ptr ty_int]
       ''cusolverDnPotrs'' ty_cusolverStatus_t [ty_cusolverDnHandle_t, ty_cusolverDnParams_t, ty_cublasFillMode_t, ty_int64_t, ty_int64_t, ty_cudaDataType, Ptr (Const ty_void), ty_int64_t, ty_cudaDataType, Ptr ty_void, ty_int64_t, Ptr ty_int] ''cusolverDnPotrs'' [0, 1, 2, 3, 4, 5, 6, 7, 8, 9, 10, 11] False]"

definition cusolver_hooks_29 :: "gen_hook list" where
  "cusolver_hooks_29 =
    [Gen cusolver ty_cusolverStatus_t ''cusolverDnGeqrf_bufferSize'' [ty_cusolverDnHandle_t, ty_cusolverDnParams_t, ty_int64_t, ty_int64_t, ty_cudaDataType, Ptr (Const ty_void), ty_int64_t, ty_cudaDataType, Ptr (Const ty_void), ty_cudaDataType, Ptr ty_size_t]
       ''cusolverDnGeqrf_bufferSize'' ty_cusolverStatus_t [ty_cusolverDnHandle_t, ty_cusolverDnParams_t, ty_int64_t, ty_int64_t, ty_cudaDataType, Ptr (Const ty_void), ty_int64_t, ty_cudaDataType, Ptr (Const ty_void), ty_cudaDataType, Ptr ty_size_t] ''cusolverDnGeqrf_bufferSize'' [0, 1, 2, 3, 4, 5, 6, 7, 8, 9, 10] False,
     Gen cusolver ty_cusolverStatus_t ''cusolverDnGeqrf'' [ty_cusolverDnHandle_t, ty_cusolverDnParams_t, ty_int64_t, ty_int64_t, ty_cudaDataType, Ptr ty_void, ty_int64_t, ty_cudaDataType, Ptr ty_void, ty_cudaDataType, Ptr ty_void, ty_size_t, Ptr ty_int]
       ''cusolverDnGeqrf'' ty_cusolverStatus_t [ty_cusolverDnHandle_t, ty_cusolverDnParams_t, ty_int64_t, ty_int64_t, ty_cudaDataType, Ptr ty_void, ty_int64_t, ty_cudaDataType, Ptr ty_void, ty_cudaDataType, Ptr ty_void, ty_size_t, Ptr ty_int] ''cusolverDnGeqrf'' [0, 1, 2, 3, 4, 5, 6, 7, 8, 9, 10, 11, 12] False,
     Gen cusolver ty_cusolverStatus_t ''cusolverDnGetrf_bufferSize'' [ty_cusolverDnHandle_t, ty_cusolverDnParams_t, ty_int64_t, ty_int64_t, ty_cudaDataType, Ptr (Const ty_void), ty_int64_t, ty_cudaDataType, Ptr ty_size_t]
       ''cusolverDnGetrf_bufferSize'' ty_cusolverStatus_t [ty_cusolverDnHandle_t, ty_cusolverDnParams_t, ty_int64_t, ty_int64_t, ty_cudaDataType, Ptr (Const ty_void), ty_int64_t, ty_cudaDataType, Ptr ty_size_t] ''cusolverDnGetrf_bufferSize'' [0, 1, 2, 3, 4, 5, 6, 7, 8] False,
     Gen cusolver ty_cusolverStatus_t ''cusolverDnGetrf'' [ty_cusolverDnHandle_t, ty_cusolverDnParams_t, ty_int64_t, ty_int64_t, ty_cudaDataType, Ptr ty_void, ty_int64_t, Ptr ty_int64_t, ty_cudaDataType, Ptr ty_void, ty_size_t, Ptr ty_int]
       ''cusolverDnGetrf'' ty_cusolverStatus_t [ty_cusolverDnHandle_t, ty_cusolverDnParams_t, ty_int64_t, ty_int64_t, ty_cudaDataType, Ptr ty_void, ty_int64_t, Ptr ty_int64_t, ty_cudaDataType, Ptr ty_void, ty_size_t, Ptr ty_int] ''cusolverDnGetrf'' [0, 1, 2, 3, 4, 5, 6, 7, 8, 9, 10, 11] False,
     Gen cusolver ty_cusolverStatus_t ''cusolverDnGetrs'' [ty_cusolverDnHandle_t, ty_cusolverDnParams_t, ty_cublasOperation_t, ty_int64_t, ty_int64_t, ty_cudaDataType, Ptr (Const ty_void), ty_int64_t, Ptr (Const ty_int64_t), ty_cudaDataType, Ptr ty_void, ty_int64_t, Ptr ty_int]
       ''cusolverDnGetrs'' ty_cusolverStatus_t [ty_cusolverDnHandle_t, ty_cusolverDnParams_t, ty_cublasOperation_t, ty_int64_t, ty_int64_t, ty_cudaDataType, Ptr (Const ty_void), ty_int64_t, Ptr (Const ty_int64_t), ty_cudaDataType, Ptr ty_void, ty_int64_t, Ptr ty_int] ''cusolverDnGetrs'' [0, 1, 2, 3, 4, 5, 6, 7, 8, 9, 10, 11, 12] False,
     Gen cusolver ty_cusolverStatus_t ''cusolverDnSyevd_bufferSize'' [ty_cusolverDnHandle_t, ty_cusolverDnParams_t, ty_cusolverEigMode_t, ty_cublasFillMode_t, ty_int64_t, ty_cudaDataType, Ptr (Const ty_void), ty_int64_t, ty_cudaDataType, Ptr (Const ty_void), ty_cudaDataType, Ptr ty_size_t]
       ''cusolverDnSyevd_bufferSize'' ty_cusolverStatus_t [ty_cusolverDnHandle_t, ty_cusolverDnParams_t, ty_cusolverEigMode_t, ty_cublasFillMode_t, ty_int64_t, ty_cudaDataType, Ptr (Const ty_void), ty_int64_t, ty_cudaDataType, Ptr (Const ty_void), ty_cudaDataType, Ptr ty_size_t] ''cusolverDnSyevd_bufferSize'' [0, 1, 2, 3, 4, 5, 6, 7, 8, 9, 10, 11] False,
     Gen cusolver ty_cusolverStatus_t ''cusolverDnSyevd'' [ty_cusolverDnHandle_t, ty_cusolverDnParams_t, ty_cusolverEigMode_t, ty_cublasFillMode_t, ty_int64_t, ty_cudaDataType, Ptr ty_void, ty_int64_t, ty_cudaDataType, Ptr ty_void, ty_cudaDataType, Ptr ty_void, ty_size_t, Ptr ty_int]
       ''cusolverDnSyevd'' ty_cusolverStatus_t [ty_cusolverDnHandle_t, ty_cusolverDnParams_t, ty_cusolverEigMode_t, ty_cublasFillMode_t, ty_int64_t, ty_cudaDataType, Ptr ty_void, ty_int64_t, ty_cudaDataType, Ptr ty_void, ty_cudaDataType, Ptr ty_void, ty_size_t, Ptr ty_int] ''cusolverDnSyevd'' [0, 1, 2, 3, 4, 5, 6, 7, 8, 9, 10, 11, 12, 13] False,
     Gen cusolver ty_cusolverStatus_t ''cusolverDnSyevdx_bufferSize'' [ty_cusolverDnHandle_t, ty_cusolverDnParams_t, ty_cusolverEigMode_t, ty_cusolverEigRange_t, ty_cublasFillMode_t, ty_int64_t, ty_cudaDataType, Ptr (Const ty_void), ty_int64_t, Ptr ty_void, Ptr ty_void, ty_int64_t, ty_int64_t, Ptr ty_int64_t, ty_cudaDataType, Ptr (Const ty_void), ty_cudaDataType, Ptr ty_size_t]
       ''cusolverDnSyevdx_bufferSize'' ty_cusolverStatus_t [ty_cusolverDnHandle_t, ty_cusolverDnParams_t, ty_cusolverEigMode_t, ty_cusolverEigRange_t, ty_cublasFillMode_t, ty_int64_t, ty_cudaDataType, Ptr (Const ty_void), ty_int64_t, Ptr ty_void, Ptr ty_void, ty_int64_t, ty_int64_t, Ptr ty_int64_t, ty_cudaDataType, Ptr (Const ty_void), ty_cudaDataType, Ptr ty_size_t] ''cusolverDnSyevdx_bufferSize'' [0, 1, 2, 3, 4, 5, 6, 7, 8, 9, 10, 11, 12, 13, 14, 15, 16, 17] False,
     Gen cusolver ty_cusolverStatus_t ''cusolverDnSyevdx'' [ty_cusolverDnHandle_t, ty_cusolverDnParams_t, ty_cusolverEigMode_t, ty_cusolverEigRange_t, ty_cublasFillMode_t, ty_int64_t, ty_cudaDataType, Ptr ty_void, ty_int64_t, Ptr ty_void, Ptr ty_void, ty_int64_t, ty_int64_t, Ptr ty_int64_t, ty_cudaDataType, Ptr ty_void, ty_cudaDataType, Ptr ty_void, ty_size_t, Ptr ty_int]
       ''cusolverDnSyevdx'' ty_cusolverStatus_t [ty_cusolverDnHandle_t, ty_cusolverDnParams_t, ty_cusolverEigMode_t, ty_cusolverEigRange_t, ty_cublasFillMode_t, ty_int64_t, ty_cudaDataType, Ptr ty_void, ty_int64_t, Ptr ty_void, Ptr ty_void, ty_int64_t, ty_int64_t, Ptr ty_int64_t, ty_cudaDataType, Ptr ty_void, ty_cudaDataType, Ptr ty_void, ty_size_t, Ptr ty_int] ''cusolverDnSyevdx'' [0, 1, 2, 3, 4, 5, 6, 7, 8, 9, 10, 11, 12, 13, 14, 15, 16, 17, 18, 19] False,
     Gen cusolver ty_cusolverStatus_t ''cusolverDnGesvd_bufferSize'' [ty_cusolverDnHandle_t, ty_cusolverDnParams_t, ty_signed_char, ty_signed_char, ty_int64_t, ty_int64_t, ty_cudaDataType, Ptr (Const ty_void), ty_int64_t, ty_cudaDataType, Ptr (Const ty_void), ty_cudaDataType, Ptr (Const ty_void), ty_int64_t, ty_cudaDataType, Ptr (Const ty_void), ty_int64_t, ty_cudaDataType, Ptr ty_size_t]
       ''cusolverDnGesvd_bufferSize'' ty_cusolverStatus_t [ty_cusolverDnHandle_t, ty_cusolverDnParams_t, ty_signed_char, ty_signed_char, ty_int64_t, ty_int64_t, ty_cudaDataType, Ptr (Const ty_void), ty_int64_t, ty_cudaDataType, Ptr (Const ty_void), ty_cudaDataType, Ptr (Const ty_void), ty_int64_t, ty_cudaDataType, Ptr (Const ty_void), ty_int64_t, ty_cudaDataType, Ptr ty_size_t] ''cusolverDnGesvd_bufferSize'' [0, 1, 2, 3, 4, 5, 6, 7, 8, 9, 10, 11, 12, 13, 14, 15, 16, 17, 18] False]"

definition cusolver_hooks_30 :: "gen_hook list" where
  "cusolver_hooks_30 =
    [Gen cusolver ty_cusolverStatus_t ''cusolverDnGesvd'' [ty_cusolverDnHandle_t, ty_cusolverDnParams_t, ty_signed_char, ty_signed_char, ty_int64_t, ty_int64_t, ty_cudaDataType, Ptr ty_void, ty_int64_t, ty_cudaDataType, Ptr ty_void, ty_cudaDataType, Ptr ty_void, ty_int64_t, ty_cudaDataType, Ptr ty_void, ty_int64_t, ty_cudaDataType, Ptr ty_void, ty_size_t, Ptr ty_int]
       ''cusolverDnGesvd'' ty_cusolverStatus_t [ty_cusolverDnHandle_t, ty_cusolverDnParams_t, ty_signed_char, ty_signed_char, ty_int64_t, ty_int64_t, ty_cudaDataType, Ptr ty_void, ty_int64_t, ty_cudaDataType, Ptr ty_void, ty_cudaDataType, Ptr ty_void, ty_int64_t, ty_cudaDataType, Ptr ty_void, ty_int64_t, ty_cudaDataType, Ptr ty_void, ty_size_t, Ptr ty_int] ''cusolverDnGesvd'' [0, 1, 2, 3, 4, 5, 6, 7, 8, 9, 10, 11, 12, 13, 14, 15, 16, 17, 18, 19, 20] False,
     Gen cusolver ty_cusolverStatus_t ''cusolverDnXpotrf_bufferSize'' [ty_cusolverDnHandle_t, ty_cusolverDnParams_t, ty_cublasFillMode_t, ty_int64_t, ty_cudaDataType, Ptr (Const ty_void), ty_int64_t, ty_cudaDataType, Ptr ty_size_t, Ptr ty_size_t]
       ''cusolverDnXpotrf_bufferSize'' ty_cusolverStatus_t [ty_cusolverDnHandle_t, ty_cusolverDnParams_t, ty_cublasFillMode_t, ty_int64_t, ty_cudaDataType, Ptr (Const ty_void), ty_int64_t, ty_cudaDataType, Ptr ty_size_t, Ptr ty_size_t] ''cusolverDnXpotrf_bufferSize'' [0, 1, 2, 3, 4, 5, 6, 7, 8, 9] False,
     Gen cusolver ty_cusolverStatus_t ''cusolverDnXpotrf'' [ty_cusolverDnHandle_t, ty_cusolverDnParams_t, ty_cublasFillMode_t, ty_int64_t, ty_cudaDataType, Ptr ty_void, ty_int64_t, ty_cudaDataType, Ptr ty_void, ty_size_t, Ptr ty_void, ty_size_t, Ptr ty_int]
       ''cusolverDnXpotrf'' ty_cusolverStatus_t [ty_cusolverDnHandle_t, ty_cusolverDnParams_t, ty_cublasFillMode_t, ty_int64_t, ty_cudaDataType, Ptr ty_void, ty_int64_t, ty_cudaDataType, Ptr ty_void, ty_size_t, Ptr ty_void, ty_size_t, Ptr ty_int] ''cusolverDnXpotrf'' [0, 1, 2, 3, 4, 5, 6, 7, 8, 9, 10, 11, 12] False,
     Gen cusolver ty_cusolverStatus_t ''cusolverDnXpotrs'' [ty_cusolverDnHandle_t, ty_cusolverDnParams_t, ty_cublasFillMode_t, ty_int64_t, ty_int64_t, ty_cudaDataType, Ptr (Const ty_void), ty_int64_t, ty_cudaDataType, Ptr ty_void, ty_int64_t, Ptr ty_int]
       ''cusolverDnXpotrs'' ty_cusolverStatus_t [ty_cusolverDnHandle_t, ty_cusolverDnParams_t, ty_cublasFillMode_t, ty_int64_t, ty_int64_t, ty_cudaDataType, Ptr (Const ty_void), ty_int64_t, ty_cudaDataType, Ptr ty_void, ty_int64_t, Ptr ty_int] ''cusolverDnXpotrs'' [0, 1, 2, 3, 4, 5, 6, 7, 8, 9, 10, 11] False,
     Gen cusolver ty_cusolverStatus_t ''cusolverDnXgeqrf_bufferSize'' [ty_cusolverDnHandle_t, ty_cusolverDnParams_t, ty_int64_t, ty_int64_t, ty_cudaDataType, Ptr (Const ty_void), ty_int64_t, ty_cudaDataType, Ptr (Const ty_void), ty_cudaDataType, Ptr ty_size_t, Ptr ty_size_t]
       ''cusolverDnXgeqrf_bufferSize'' ty_cusolverStatus_t [ty_cusolverDnHandle_t, ty_cusolverDnParams_t, ty_int64_t, ty_int64_t, ty_cudaDataType, Ptr (Const ty_void), ty_int64_t, ty_cudaDataType, Ptr (Const ty_void), ty_cudaDataType, Ptr ty_size_t, Ptr ty_size_t] ''cusolverDnXgeqrf_bufferSize'' [0, 1, 2, 3, 4, 5, 6, 7, 8, 9, 10, 11] False,
     Gen cusolver ty_cusolverStatus_t ''cusolverDnXgeqrf'' [ty_cusolverDnHandle_t, ty_cusolverDnParams_t, ty_int64_t, ty_int64_t, ty_cudaDataType, Ptr ty_void, ty_int64_t, ty_cudaDataType, Ptr ty_void, ty_cudaDataType, Ptr ty_void, ty_size_t, Ptr ty_void, ty_size_t, Ptr ty_int]
       ''cusolverDnXgeqrf'' ty_cusolverStatus_t [ty_cusolverDnHandle_t, ty_cusolverDnParams_t, ty_int64_t, ty_int64_t, ty_cudaDataType, Ptr ty_void, ty_int64_t, ty_cudaDataType, Ptr ty_void, ty_cudaDataType, Ptr ty_void, ty_size_t, Ptr ty_void, ty_size_t, Ptr ty_int] ''cusolverDnXgeqrf'' [0, 1, 2, 3, 4, 5, 6, 7, 8, 9, 10, 11, 12, 13, 14] False,
     Gen cusolver ty_cusolverStatus_t ''cusolverDnXgetrf_bufferSize'' [ty_cusolverDnHandle_t, ty_cusolverDnParams_t, ty_int64_t, ty_int64_t, ty_cudaDataType, Ptr (Const ty_void), ty_int64_t, ty_cudaDataType, Ptr ty_size_t, Ptr ty_size_t]
       ''cusolverDnXgetrf_bufferSize'' ty_cusolverStatus_t [ty_cusolverDnHandle_t, ty_cusolverDnParams_t, ty_int64_t, ty_int64_t, ty_cudaDataType, Ptr (Const ty_void), ty_int64_t, ty_cudaDataType, Ptr ty_size_t, Ptr ty_size_t] ''cusolverDnXgetrf_bufferSize'' [0, 1, 2, 3, 4, 5, 6, 7, 8, 9] False,
     Gen cusolver ty_cusolverStatus_t ''cusolverDnXgetrf'' [ty_cusolverDnHandle_t, ty_cusolverDnParams_t, ty_int64_t, ty_int64_t, ty_cudaDataType, Ptr ty_void, ty_int64_t, Ptr ty_int64_t, ty_cudaDataType, Ptr ty_void, ty_size_t, Ptr ty_void, ty_size_t, Ptr ty_int]
       ''cusolverDnXgetrf'' ty_cusolverStatus_t [ty_cusolverDnHandle_t, ty_cusolverDnParams_t, ty_int64_t, ty_int64_t, ty_cudaDataType, Ptr ty_void, ty_int64_t, Ptr ty_int64_t, ty_cudaDataType, Ptr ty_void, ty_size_t, Ptr ty_void, ty_size_t, Ptr ty_int] ''cusolverDnXgetrf'' [0, 1, 2, 3, 4, 5, 6, 7, 8, 9, 10, 11, 12, 13] False,
     Gen cusolver ty_cusolverStatus_t ''cusolverDnXgetrs'' [ty_cusolverDnHandle_t, ty_cusolverDnParams_t, ty_cublasOperation_t, ty_int64_t, ty_int64_t, ty_cudaDataType, Ptr (Const ty_void), ty_int64_t, Ptr (Const ty_int64_t), ty_cudaDataType, Ptr ty_void, ty_int64_t, Ptr ty_int]
       ''cusolverDnXgetrs'' ty_cusolverStatus_t [ty_cusolverDnHandle_t, ty_cusolverDnParams_t, ty_cublasOperation_t, ty_int64_t, ty_int64_t, ty_cudaDataType, Ptr (Const ty_void), ty_int64_t, Ptr (Const ty_int64_t), ty_cudaDataType, Ptr ty_void, ty_int64_t, Ptr ty_int] ''cusolverDnXgetrs'' [0, 1, 2, 3, 4, 5, 6, 7, 8, 9, 10, 11, 12] False,
     Gen cusolver ty_cusolverStatus_t ''cusolverDnXsyevd_bufferSize'' [ty_cusolverDnHandle_t, ty_cusolverDnParams_t, ty_cusolverEigMode_t, ty_cublasFillMode_t, ty_int64_t, ty_cudaDataType, Ptr (Const ty_void), ty_int64_t, ty_cudaDataType, Ptr (Const ty_void), ty_cudaDataType, Ptr ty_size_t, Ptr ty_size_t]
       ''cusolverDnXsyevd_bufferSize'' ty_cusolverStatus_t [ty_cusolverDnHandle_t, ty_cusolverDnParams_t, ty_cusolverEigMode_t, ty_cublasFillMode_t, ty_int64_t, ty_cudaDataType, Ptr (Const ty_void), ty_int64_t, ty_cudaDataType, Ptr (Const ty_void), ty_cudaDataType, Ptr ty_size_t, Ptr ty_size_t] ''cusolverDnXsyevd_bufferSize'' [0, 1, 2, 3, 4, 5, 6, 7, 8, 9, 10, 11, 12] False]"

definition cusolver_hooks_31 :: "gen_hook list" where
  "cusolver_hooks_31 =
    [Gen cusolver ty_cusolverStatus_t ''cusolverDnXsyevd'' [ty_cusolverDnHandle_t, ty_cusolverDnParams_t, ty_cusolverEigMode_t, ty_cublasFillMode_t, ty_int64_t, ty_cudaDataType, Ptr ty_void, ty_int64_t, ty_cudaDataType, Ptr ty_void, ty_cudaDataType, Ptr ty_void, ty_size_t, Ptr ty_void, ty_size_t, Ptr ty_int]
       ''cusolverDnXsyevd'' ty_cusolverStatus_t [ty_cusolverDnHandle_t, ty_cusolverDnParams_t, ty_cusolverEigMode_t, ty_cublasFillMode_t, ty_int64_t, ty_cudaDataType, Ptr ty_void, ty_int64_t, ty_cudaDataType, Ptr ty_void, ty_cudaDataType, Ptr ty_void, ty_size_t, Ptr ty_void, ty_size_t, Ptr ty_int] ''cusolverDnXsyevd'' [0, 1, 2, 3, 4, 5, 6, 7, 8, 9, 10, 11, 12, 13, 14, 15] False,
     Gen cusolver ty_cusolverStatus_t ''cusolverDnXsyevdx_bufferSize'' [ty_cusolverDnHandle_t, ty_cusolverDnParams_t, ty_cusolverEigMode_t, ty_cusolverEigRange_t, ty_cublasFillMode_t, ty_int64_t, ty_cudaDataType, Ptr (Const ty_void), ty_int64_t, Ptr ty_void, Ptr ty_void, ty_int64_t, ty_int64_t, Ptr ty_int64_t, ty_cudaDataType, Ptr (Const ty_void), ty_cudaDataType, Ptr ty_size_t, Ptr ty_size_t]
       ''cusolverDnXsyevdx_bufferSize'' ty_cusolverStatus_t [ty_cusolverDnHandle_t, ty_cusolverDnParams_t, ty_cusolverEigMode_t, ty_cusolverEigRange_t, ty_cublasFillMode_t, ty_int64_t, ty_cudaDataType, Ptr (Const ty_void), ty_int64_t, Ptr ty_void, Ptr ty_void, ty_int64_t, ty_int64_t, Ptr ty_int64_t, ty_cudaDataType, Ptr (Const ty_void), ty_cudaDataType, Ptr ty_size_t, Ptr ty_size_t] ''cusolverDnXsyevdx_bufferSize'' [0, 1, 2, 3, 4, 5, 6, 7, 8, 9, 10, 11, 12, 13, 14, 15, 16, 17, 18] False,
     Gen cusolver ty_cusolverStatus_t ''cusolverDnXsyevdx'' [ty_cusolverDnHandle_t, ty_cusolverDnParams_t, ty_cusolverEigMode_t, ty_cusolverEigRange_t, ty_cublasFillMode_t, ty_int64_t, ty_cudaDataType, Ptr ty_void, ty_int64_t, Ptr ty_void, Ptr ty_void, ty_int64_t, ty_int64_t, Ptr ty_int64_t, ty_cudaDataType, Ptr ty_void, ty_cudaDataType, Ptr ty_void, ty_size_t, Ptr ty_void, ty_size_t, Ptr ty_int]
       ''cusolverDnXsyevdx'' ty_cusolverStatus_t [ty_cusolverDnHandle_t, ty_cusolverDnParams_t, ty_cusolverEigMode_t, ty_cusolverEigRange_t, ty_cublasFillMode_t, ty_int64_t, ty_cudaDataType, Ptr ty_void, ty_int64_t, Ptr ty_void, Ptr ty_void, ty_int64_t, ty_int64_t, Ptr ty_int64_t, ty_cudaDataType, Ptr ty_void, ty_cudaDataType, Ptr ty_void, ty_size_t, Ptr ty_void, ty_size_t, Ptr ty_int] ''cusolverDnXsyevdx'' [0, 1, 2, 3, 4, 5, 6, 7, 8, 9, 10, 11, 12, 13, 14, 15, 16, 17, 18, 19, 20, 21] False,
     Gen cusolver ty_cusolverStatus_t ''cusolverDnXgesvd_bufferSize'' [ty_cusolverDnHandle_t, ty_cusolverDnParams_t, ty_signed_char, ty_signed_char, ty_int64_t, ty_int64_t, ty_cudaDataType, Ptr (Const ty_void), ty_int64_t, ty_cudaDataType, Ptr (Const ty_void), ty_cudaDataType, Ptr (Const ty_void), ty_int64_t, ty_cudaDataType, Ptr (Const ty_void), ty_int64_t, ty_cudaDataType, Ptr ty_size_t, Ptr ty_size_t]
       ''cusolverDnXgesvd_bufferSize'' ty_cusolverStatus_t [ty_cusolverDnHandle_t, ty_cusolverDnParams_t, ty_signed_char, ty_signed_char, ty_int64_t, ty_int64_t, ty_cudaDataType, Ptr (Const ty_void), ty_int64_t, ty_cudaDataType, Ptr (Const ty_void), ty_cudaDataType, Ptr (Const ty_void), ty_int64_t, ty_cudaDataType, Ptr (Const ty_void), ty_int64_t, ty_cudaDataType, Ptr ty_size_t, Ptr ty_size_t] ''cusolverDnXgesvd_bufferSize'' [0, 1, 2, 3, 4, 5, 6, 7, 8, 9, 10, 11, 12, 13, 14, 15, 16, 17, 18, 19] False,
     Gen cusolver ty_cusolverStatus_t ''cusolverDnXgesvd'' [ty_cusolverDnHandle_t, ty_cusolverDnParams_t, ty_signed_char, ty_signed_char, ty_int64_t, ty_int64_t, ty_cudaDataType, Ptr ty_void, ty_int64_t, ty_cudaDataType, Ptr ty_void, ty_cudaDataType, Ptr ty_void, ty_int64_t, ty_cudaDataType, Ptr ty_void, ty_int64_t, ty_cudaDataType, Ptr ty_void, ty_size_t, Ptr ty_void, ty_size_t, Ptr ty_int]
       ''cusolverDnXgesvd'' ty_cusolverStatus_t [ty_cusolverDnHandle_t, ty_cusolverDnParams_t, ty_signed_char, ty_signed_char, ty_int64_t, ty_int64_t, ty_cudaDataType, Ptr ty_void, ty_int64_t, ty_cudaDataType, Ptr ty_void, ty_cudaDataType, Ptr ty_void, ty_int64_t, ty_cudaDataType, Ptr ty_void, ty_int64_t, ty_cudaDataType, Ptr ty_void, ty_size_t, Ptr ty_void, ty_size_t, Ptr ty_int] ''cusolverDnXgesvd'' [0, 1, 2, 3, 4, 5, 6, 7, 8, 9, 10, 11, 12, 13, 14, 15, 16, 17, 18, 19, 20, 21, 22] False,
     Gen cusolver ty_cusolverStatus_t ''cusolverDnXgesvdp_bufferSize'' [ty_cusolverDnHandle_t, ty_cusolverDnParams_t, ty_cusolverEigMode_t, ty_int, ty_int64_t, ty_int64_t, ty_cudaDataType, Ptr (Const ty_void), ty_int64_t, ty_cudaDataType, Ptr (Const ty_void), ty_cudaDataType, Ptr (Const ty_void), ty_int64_t, ty_cudaDataType, Ptr (Const ty_void), ty_int64_t, ty_cudaDataType, Ptr ty_size_t, Ptr ty_size_t]
       ''cusolverDnXgesvdp_bufferSize'' ty_cusolverStatus_t [ty_cusolverDnHandle_t, ty_cusolverDnParams_t, ty_cusolverEigMode_t, ty_int, ty_int64_t, ty_int64_t, ty_cudaDataType, Ptr (Const ty_void), ty_int64_t, ty_cudaDataType, Ptr (Const ty_void), ty_cudaDataType, Ptr (Const ty_void), ty_int64_t, ty_cudaDataType, Ptr (Const ty_void), ty_int64_t, ty_cudaDataType, Ptr ty_size_t, Ptr ty_size_t] ''cusolverDnXgesvdp_bufferSize'' [0, 1, 2, 3, 4, 5, 6, 7, 8, 9, 10, 11, 12, 13, 14, 15, 16, 17, 18, 19] False,
     Gen cusolver ty_cusolverStatus_t ''cusolverDnXgesvdp'' [ty_cusolverDnHandle_t, ty_cusolverDnParams_t, ty_cusolverEigMode_t, ty_int, ty_int64_t, ty_int64_t, ty_cudaDataType, Ptr ty_void, ty_int64_t, ty_cudaDataType, Ptr ty_void, ty_cudaDataType, Ptr ty_void, ty_int64_t, ty_cudaDataType, Ptr ty_void, ty_int64_t, ty_cudaDataType, Ptr ty_void, ty_size_t, Ptr ty_void, ty_size_t, Ptr ty_int, Ptr ty_double]
       ''cusolverDnXgesvdp'' ty_cusolverStatus_t [ty_cusolverDnHandle_t, ty_cusolverDnParams_t, ty_cusolverEigMode_t, ty_int, ty_int64_t, ty_int64_t, ty_cudaDataType, Ptr ty_void, ty_int64_t, ty_cudaDataType, Ptr ty_void, ty_cudaDataType, Ptr ty_void, ty_int64_t, ty_cudaDataType, Ptr ty_void, ty_int64_t, ty_cudaDataType, Ptr ty_void, ty_size_t, Ptr ty_void, ty_size_t, Ptr ty_int, Ptr ty_double] ''cusolverDnXgesvdp'' [0, 1, 2, 3, 4, 5, 6, 7, 8, 9, 10, 11, 12, 13, 14, 15, 16, 17, 18, 19, 20, 21, 22, 23] False,
     Gen cusolver ty_cusolverStatus_t ''cusolverDnXgesvdr_bufferSize'' [ty_cusolverDnHandle_t, ty_cusolverDnParams_t, ty_signed_char, ty_signed_char, ty_int64_t, ty_int64_t, ty_int64_t, ty_int64_t, ty_int64_t, ty_cudaDataType, Ptr (Const ty_void), ty_int64_t, ty_cudaDataType, Ptr (Const ty_void), ty_cudaDataType, Ptr (Const ty_void), ty_int64_t, ty_cudaDataType, Ptr (Const ty_void), ty_int64_t, ty_cudaDataType, Ptr ty_size_t, Ptr ty_size_t]
       ''cusolverDnXgesvdr_bufferSize'' ty_cusolverStatus_t [ty_cusolverDnHandle_t, ty_cusolverDnParams_t, ty_signed_char, ty_signed_char, ty_int64_t, ty_int64_t, ty_int64_t, ty_int64_t, ty_int64_t, ty_cudaDataType, Ptr (Const ty_void), ty_int64_t, ty_cudaDataType, Ptr (Const ty_void), ty_cudaDataType, Ptr (Const ty_void), ty_int64_t, ty_cudaDataType, Ptr (Const ty_void), ty_int64_t, ty_cudaDataType, Ptr ty_size_t, Ptr ty_size_t] ''cusolverDnXgesvdr_bufferSize'' [0, 1, 2, 3, 4, 5, 6, 7, 8, 9, 10, 11, 12, 13, 14, 15, 16, 17, 18, 19, 20, 21, 22] False]"

definition cusolver_hooks_32 :: "gen_hook list" where
  "cusolver_hooks_32 =
    [Gen cusolver ty_cusolverStatus_t ''cusolverDnXgesvdr'' [ty_cusolverDnHandle_t, ty_cusolverDnParams_t, ty_signed_char, ty_signed_char, ty_int64_t, ty_int64_t, ty_int64_t, ty_int64_t, ty_int64_t, ty_cudaDataType, Ptr ty_void, ty_int64_t, ty_cudaDataType, Ptr ty_void, ty_cudaDataType, Ptr ty_void, ty_int64_t, ty_cudaDataType, Ptr ty_void, ty_int64_t, ty_cudaDataType, Ptr ty_void, ty_size_t, Ptr ty_void, ty_size_t, Ptr ty_int]
       ''cusolverDnXgesvdr'' ty_cusolverStatus_t [ty_cusolverDnHandle_t, ty_cusolverDnParams_t, ty_signed_char, ty_signed_char, ty_int64_t, ty_int64_t, ty_int64_t, ty_int64_t, ty_int64_t, ty_cudaDataType, Ptr ty_void, ty_int64_t, ty_cudaDataType, Ptr ty_void, ty_cudaDataType, Ptr ty_void, ty_int64_t, ty_cudaDataType, Ptr ty_void, ty_int64_t, ty_cudaDataType, Ptr ty_void, ty_size_t, Ptr ty_void, ty_size_t, Ptr ty_int] ''cusolverDnXgesvdr'' [0, 1, 2, 3, 4, 5, 6, 7, 8, 9, 10, 11, 12, 13, 14, 15, 16, 17, 18, 19, 20, 21, 22, 23, 24, 25] False,
     Gen cusolver ty_cusolverStatus_t ''cusolverMgCreate'' [Ptr ty_cusolverMgHandle_t]
       ''cusolverMgCreate'' ty_cusolverStatus_t [Ptr ty_cusolverMgHandle_t] ''cusolverMgCreate'' [0] False,
     Gen cusolver ty_cusolverStatus_t ''cusolverMgDestroy'' [ty_cusolverMgHandle_t]
       ''cusolverMgDestroy'' ty_cusolverStatus_t [ty_cusolverMgHandle_t] ''cusolverMgDestroy'' [0] False,
     Gen cusolver ty_cusolverStatus_t ''cusolverMgDeviceSelect'' [ty_cusolverMgHandle_t, ty_int, ty_int]
       ''cusolverMgDeviceSelect'' ty_cusolverStatus_t [ty_cusolverMgHandle_t, ty_int, ty_int] ''cusolverMgDeviceSelect'' [0, 1, 2] False,
     Gen cusolver ty_cusolverStatus_t ''cusolverMgCreateDeviceGrid'' [Ptr ty_cudaLibMgGrid_t, ty_int32_t, ty_int32_t, Const ty_int32_t, ty_cusolverMgGridMapping_t]
       ''cusolverMgCreateDeviceGrid'' ty_cusolverStatus_t [Ptr ty_cudaLibMgGrid_t, ty_int32_t, ty_int32_t, Const ty_int32_t, ty_cusolverMgGridMapping_t] ''cusolverMgCreateDeviceGrid'' [0, 1, 2, 3, 4] False,
     Gen cusolver ty_cusolverStatus_t ''cusolverMgDestroyGrid'' [ty_cudaLibMgGrid_t]
       ''cusolverMgDestroyGrid'' ty_cusolverStatus_t [ty_cudaLibMgGrid_t] ''cusolverMgDestroyGrid'' [0] False,
     Gen cusolver ty_cusolverStatus_t ''cusolverMgCreateMatrixDesc'' [Ptr ty_cudaLibMgMatrixDesc_t, ty_int64_t, ty_int64_t, ty_int64_t, ty_int64_t, ty_cudaDataType, Const ty_cudaLibMgGrid_t]
       ''cusolverMgCreateMatrixDesc'' ty_cusolverStatus_t [Ptr ty_cudaLibMgMatrixDesc_t, ty_int64_t, ty_int64_t, ty_int64_t, ty_int64_t, ty_cudaDataType, Const ty_cudaLibMgGrid_t] ''cusolverMgCreateMatrixDesc'' [0, 1, 2, 3, 4, 5, 6] False,
     Gen cusolver ty_cusolverStatus_t ''cusolverMgDestroyMatrixDesc'' [ty_cudaLibMgMatrixDesc_t]
       ''cusolverMgDestroyMatrixDesc'' ty_cusolverStatus_t [ty_cudaLibMgMatrixDesc_t] ''cusolverMgDestroyMatrixDesc'' [0] False,
     Gen cusolver ty_cusolverStatus_t ''cusolverMgSyevd_bufferSize'' [ty_cusolverMgHandle_t, ty_cusolverEigMode_t, ty_cublasFillMode_t, ty_int, Ptr ty_void, ty_int, ty_int, ty_cudaLibMgMatrixDesc_t, Ptr ty_void, ty_cudaDataType, ty_cudaDataType, Ptr ty_int64_t]
       ''cusolverMgSyevd_bufferSize'' ty_cusolverStatus_t [ty_cusolverMgHandle_t, ty_cusolverEigMode_t, ty_cublasFillMode_t, ty_int, Ptr ty_void, ty_int, ty_int, ty_cudaLibMgMatrixDesc_t, Ptr ty_void, ty_cudaDataType, ty_cudaDataType, Ptr ty_int64_t] ''cusolverMgSyevd_bufferSize'' [0, 1, 2, 3, 4, 5, 6, 7, 8, 9, 10, 11] False,
     Gen cusolver ty_cusolverStatus_t ''cusolverMgSyevd'' [ty_cusolverMgHandle_t, ty_cusolverEigMode_t, ty_cublasFillMode_t, ty_int, Ptr ty_void, ty_int, ty_int, ty_cudaLibMgMatrixDesc_t, Ptr ty_void, ty_cudaDataType, ty_cudaDataType, Ptr ty_void, ty_int64_t, Ptr ty_int]
       ''cusolverMgSyevd'' ty_cusolverStatus_t [ty_cusolverMgHandle_t, ty_cusolverEigMode_t, ty_cublasFillMode_t, ty_int, Ptr ty_void, ty_int, ty_int, ty_cudaLibMgMatrixDesc_t, Ptr ty_void, ty_cudaDataType, ty_cudaDataType, Ptr ty_void, ty_int64_t, Ptr ty_int] ''cusolverMgSyevd'' [0, 1, 2, 3, 4, 5, 6, 7, 8, 9, 10, 11, 12, 13] False,
     Gen cusolver ty_cusolverStatus_t ''cusolverMgGetrf_bufferSize'' [ty_cusolverMgHandle_t, ty_int, ty_int, Ptr ty_void, ty_int, ty_int, ty_cudaLibMgMatrixDesc_t, Ptr ty_int, ty_cudaDataType, Ptr ty_int64_t]
       ''cusolverMgGetrf_bufferSize'' ty_cusolverStatus_t [ty_cusolverMgHandle_t, ty_int, ty_int, Ptr ty_void, ty_int, ty_int, ty_cudaLibMgMatrixDesc_t, Ptr ty_int, ty_cudaDataType, Ptr ty_int64_t] ''cusolverMgGetrf_bufferSize'' [0, 1, 2, 3, 4, 5, 6, 7, 8, 9] False,
     Gen cusolver ty_cusolverStatus_t ''cusolverMgGetrf'' [ty_cusolverMgHandle_t, ty_int, ty_int, Ptr ty_void, ty_int, ty_int, ty_cudaLibMgMatrixDesc_t, Ptr ty_int, ty_cudaDataType, Ptr ty_void, ty_int64_t, Ptr ty_int]
       ''cusolverMgGetrf'' ty_cusolverStatus_t [ty_cusolverMgHandle_t, ty_int, ty_int, Ptr ty_void, ty_int, ty_int, ty_cudaLibMgMatrixDesc_t, Ptr ty_int, ty_cudaDataType, Ptr ty_void, ty_int64_t, Ptr ty_int] ''cusolverMgGetrf'' [0, 1, 2, 3, 4, 5, 6, 7, 8, 9, 10, 11] False,
     Gen cusolver ty_cusolverStatus_t ''cusolverMgGetrs_bufferSize'' [ty_cusolverMgHandle_t, ty_cublasOperation_t, ty_int, ty_int, Ptr ty_void, ty_int, ty_int, ty_cudaLibMgMatrixDesc_t, Ptr ty_int, Ptr ty_void, ty_int, ty_int, ty_cudaLibMgMatrixDesc_t, ty_cudaDataType, Ptr ty_int64_t]
       ''cusolverMgGetrs_bufferSize'' ty_cusolverStatus_t [ty_cusolverMgHandle_t, ty_cublasOperation_t, ty_int, ty_int, Ptr ty_void, ty_int, ty_int, ty_cudaLibMgMatrixDesc_t, Ptr ty_int, Ptr ty_void, ty_int, ty_int, ty_cudaLibMgMatrixDesc_t, ty_cudaDataType, Ptr ty_int64_t] ''cusolverMgGetrs_bufferSize'' [0, 1, 2, 3, 4, 5, 6, 7, 8, 9, 10, 11, 12, 13, 14] False]"

definition cusolver_hooks_33 :: "gen_hook list" where
  "cusolver_hooks_33 =
    [Gen cusolver ty_cusolverStatus_t ''cusolverMgGetrs'' [ty_cusolverMgHandle_t, ty_cublasOperation_t, ty_int, ty_int, Ptr ty_void, ty_int, ty_int, ty_cudaLibMgMatrixDesc_t, Ptr ty_int, Ptr ty_void, ty_int, ty_int, ty_cudaLibMgMatrixDesc_t, ty_cudaDataType, Ptr ty_void, ty_int64_t, Ptr ty_int]
       ''cusolverMgGetrs'' ty_cusolverStatus_t [ty_cusolverMgHandle_t, ty_cublasOperation_t, ty_int, ty_int, Ptr ty_void, ty_int, ty_int, ty_cudaLibMgMatrixDesc_t, Ptr ty_int, Ptr ty_void, ty_int, ty_int, ty_cudaLibMgMatrixDesc_t, ty_cudaDataType, Ptr ty_void, ty_int64_t, Ptr ty_int] ''cusolverMgGetrs'' [0, 1, 2, 3, 4, 5, 6, 7, 8, 9, 10, 11, 12, 13, 14, 15, 16] False,
     Gen cusolver ty_cusolverStatus_t ''cusolverMgPotrf_bufferSize'' [ty_cusolverMgHandle_t, ty_cublasFillMode_t, ty_int, Ptr ty_void, ty_int, ty_int, ty_cudaLibMgMatrixDesc_t, ty_cudaDataType, Ptr ty_int64_t]
       ''cusolverMgPotrf_bufferSize'' ty_cusolverStatus_t [ty_cusolverMgHandle_t, ty_cublasFillMode_t, ty_int, Ptr ty_void, ty_int, ty_int, ty_cudaLibMgMatrixDesc_t, ty_cudaDataType, Ptr ty_int64_t] ''cusolverMgPotrf_bufferSize'' [0, 1, 2, 3, 4, 5, 6, 7, 8] False,
     Gen cusolver ty_cusolverStatus_t ''cusolverMgPotrf'' [ty_cusolverMgHandle_t, ty_cublasFillMode_t, ty_int, Ptr ty_void, ty_int, ty_int, ty_cudaLibMgMatrixDesc_t, ty_cudaDataType, Ptr ty_void, ty_int64_t, Ptr ty_int]
       ''cusolverMgPotrf'' ty_cusolverStatus_t [ty_cusolverMgHandle_t, ty_cublasFillMode_t, ty_int, Ptr ty_void, ty_int, ty_int, ty_cudaLibMgMatrixDesc_t, ty_cudaDataType, Ptr ty_void, ty_int64_t, Ptr ty_int] ''cusolverMgPotrf'' [0, 1, 2, 3, 4, 5, 6, 7, 8, 9, 10] False,
     Gen cusolver ty_cusolverStatus_t ''cusolverMgPotrs_bufferSize'' [ty_cusolverMgHandle_t, ty_cublasFillMode_t, ty_int, ty_int, Ptr ty_void, ty_int, ty_int, ty_cudaLibMgMatrixDesc_t, Ptr ty_void, ty_int, ty_int, ty_cudaLibMgMatrixDesc_t, ty_cudaDataType, Ptr ty_int64_t]
       ''cusolverMgPotrs_bufferSize'' ty_cusolverStatus_t [ty_cusolverMgHandle_t, ty_cublasFillMode_t, ty_int, ty_int, Ptr ty_void, ty_int, ty_int, ty_cudaLibMgMatrixDesc_t, Ptr ty_void, ty_int, ty_int, ty_cudaLibMgMatrixDesc_t, ty_cudaDataType, Ptr ty_int64_t] ''cusolverMgPotrs_bufferSize'' [0, 1, 2, 3, 4, 5, 6, 7, 8, 9, 10, 11, 12, 13] False,
     Gen cusolver ty_cusolverStatus_t ''cusolverMgPotrs'' [ty_cusolverMgHandle_t, ty_cublasFillMode_t, ty_int, ty_int, Ptr ty_void, ty_int, ty_int, ty_cudaLibMgMatrixDesc_t, Ptr ty_void, ty_int, ty_int, ty_cudaLibMgMatrixDesc_t, ty_cudaDataType, Ptr ty_void, ty_int64_t, Ptr ty_int]
       ''cusolverMgPotrs'' ty_cusolverStatus_t [ty_cusolverMgHandle_t, ty_cublasFillMode_t, ty_int, ty_int, Ptr ty_void, ty_int, ty_int, ty_cudaLibMgMatrixDesc_t, Ptr ty_void, ty_int, ty_int, ty_cudaLibMgMatrixDesc_t, ty_cudaDataType, Ptr ty_void, ty_int64_t, Ptr ty_int] ''cusolverMgPotrs'' [0, 1, 2, 3, 4, 5, 6, 7, 8, 9, 10, 11, 12, 13, 14, 15] False,
     Gen cusolver ty_cusolverStatus_t ''cusolverMgPotri_bufferSize'' [ty_cusolverMgHandle_t, ty_cublasFillMode_t, ty_int, Ptr ty_void, ty_int, ty_int, ty_cudaLibMgMatrixDesc_t, ty_cudaDataType, Ptr ty_int64_t]
       ''cusolverMgPotri_bufferSize'' ty_cusolverStatus_t [ty_cusolverMgHandle_t, ty_cublasFillMode_t, ty_int, Ptr ty_void, ty_int, ty_int, ty_cudaLibMgMatrixDesc_t, ty_cudaDataType, Ptr ty_int64_t] ''cusolverMgPotri_bufferSize'' [0, 1, 2, 3, 4, 5, 6, 7, 8] False,
     Gen cusolver ty_cusolverStatus_t ''cusolverMgPotri'' [ty_cusolverMgHandle_t, ty_cublasFillMode_t, ty_int, Ptr ty_void, ty_int, ty_int, ty_cudaLibMgMatrixDesc_t, ty_cudaDataType, Ptr ty_void, ty_int64_t, Ptr ty_int]
       ''cusolverMgPotri'' ty_cusolverStatus_t [ty_cusolverMgHandle_t, ty_cublasFillMode_t, ty_int, Ptr ty_void, ty_int, ty_int, ty_cudaLibMgMatrixDesc_t, ty_cudaDataType, Ptr ty_void, ty_int64_t, Ptr ty_int] ''cusolverMgPotri'' [0, 1, 2, 3, 4, 5, 6, 7, 8, 9, 10] False,
     Gen cusolver ty_cusolverStatus_t ''cusolverRfCreate'' [Ptr ty_cusolverRfHandle_t]
       ''cusolverRfCreate'' ty_cusolverStatus_t [Ptr ty_cusolverRfHandle_t] ''cusolverRfCreate'' [0] False,
     Gen cusolver ty_cusolverStatus_t ''cusolverRfDestroy'' [ty_cusolverRfHandle_t]
       ''cusolverRfDestroy'' ty_cusolverStatus_t [ty_cusolverRfHandle_t] ''cusolverRfDestroy'' [0] False,
     Gen cusolver ty_cusolverStatus_t ''cusolverRfGetMatrixFormat'' [ty_cusolverRfHandle_t, Ptr ty_cusolverRfMatrixFormat_t, Ptr ty_cusolverRfUnitDiagonal_t]
       ''cusolverRfGetMatrixFormat'' ty_cusolverStatus_t [ty_cusolverRfHandle_t, Ptr ty_cusolverRfMatrixFormat_t, Ptr ty_cusolverRfUnitDiagonal_t] ''cusolverRfGetMatrixFormat'' [0, 1, 2] False,
     Gen cusolver ty_cusolverStatus_t ''cusolverRfSetMatrixFormat'' [ty_cusolverRfHandle_t, ty_cusolverRfMatrixFormat_t, ty_cusolverRfUnitDiagonal_t]
       ''cusolverRfSetMatrixFormat'' ty_cusolverStatus_t [ty_cusolverRfHandle_t, ty_cusolverRfMatrixFormat_t, ty_cusolverRfUnitDiagonal_t] ''cusolverRfSetMatrixFormat'' [0, 1, 2] False,
     Gen cusolver ty_cusolverStatus_t ''cusolverRfSetNumericProperties'' [ty_cusolverRfHandle_t, ty_double, ty_double]
       ''cusolverRfSetNumericProperties'' ty_cusolverStatus_t [ty_cusolverRfHandle_t, ty_double, ty_double] ''cusolverRfSetNumericProperties'' [0, 1, 2] False,
     Gen cusolver ty_cusolverStatus_t ''cusolverRfGetNumericProperties'' [ty_cusolverRfHandle_t, Ptr ty_double, Ptr ty_double]
       ''cusolverRfGetNumericProperties'' ty_cusolverStatus_t [ty_cusolverRfHandle_t, Ptr ty_double, Ptr ty_double] ''cusolverRfGetNumericProperties'' [0, 1, 2] False]"

definition cusolver_hooks_34 :: "gen_hook list" where
  "cusolver_hooks_34 =
    [Gen cusolver ty_cusolverStatus_t ''cusolverRfGetNumericBoostReport'' [ty_cusolverRfHandle_t, Ptr ty_cusolverRfNumericBoostReport_t]
       ''cusolverRfGetNumericBoostReport'' ty_cusolverStatus_t [ty_cusolverRfHandle_t, Ptr ty_cusolverRfNumericBoostReport_t] ''cusolverRfGetNumericBoostReport'' [0, 1] False,
     Gen cusolver ty_cusolverStatus_t ''cusolverRfSetAlgs'' [ty_cusolverRfHandle_t, ty_cusolverRfFactorization_t, ty_cusolverRfTriangularSolve_t]
       ''cusolverRfSetAlgs'' ty_cusolverStatus_t [ty_cusolverRfHandle_t, ty_cusolverRfFactorization_t, ty_cusolverRfTriangularSolve_t] ''cusolverRfSetAlgs'' [0, 1, 2] False,
     Gen cusolver ty_cusolverStatus_t ''cusolverRfGetAlgs'' [ty_cusolverRfHandle_t, Ptr ty_cusolverRfFactorization_t, Ptr ty_cusolverRfTriangularSolve_t]
       ''cusolverRfGetAlgs'' ty_cusolverStatus_t [ty_cusolverRfHandle_t, Ptr ty_cusolverRfFactorization_t, Ptr ty_cusolverRfTriangularSolve_t] ''cusolverRfGetAlgs'' [0, 1, 2] False,
     Gen cusolver ty_cusolverStatus_t ''cusolverRfGetResetValuesFastMode'' [ty_cusolverRfHandle_t, Ptr ty_cusolverRfResetValuesFastMode_t]
       ''cusolverRfGetResetValuesFastMode'' ty_cusolverStatus_t [ty_cusolverRfHandle_t, Ptr ty_cusolverRfResetValuesFastMode_t] ''cusolverRfGetResetValuesFastMode'' [0, 1] False,
     Gen cusolver ty_cusolverStatus_t ''cusolverRfSetResetValuesFastMode'' [ty_cusolverRfHandle_t, ty_cusolverRfResetValuesFastMode_t]
       ''cusolverRfSetResetValuesFastMode'' ty_cusolverStatus_t [ty_cusolverRfHandle_t, ty_cusolverRfResetValuesFastMode_t] ''cusolverRfSetResetValuesFastMode'' [0, 1] False,
     Gen cusolver ty_cusolverStatus_t ''cusolverRfSetupHost'' [ty_int, ty_int, Ptr ty_int, Ptr ty_int, Ptr ty_double, ty_int, Ptr ty_int, Ptr ty_int, Ptr ty_double, ty_int, Ptr ty_int, Ptr ty_int, Ptr ty_double, Ptr ty_int, Ptr ty_int, ty_cusolverRfHandle_t]
       ''cusolverRfSetupHost'' ty_cusolverStatus_t [ty_int, ty_int, Ptr ty_int, Ptr ty_int, Ptr ty_double, ty_int, Ptr ty_int, Ptr ty_int, Ptr ty_double, ty_int, Ptr ty_int, Ptr ty_int, Ptr ty_double, Ptr ty_int, Ptr ty_int, ty_cusolverRfHandle_t] ''cusolverRfSetupHost'' [0, 1, 2, 3, 4, 5, 6, 7, 8, 9, 10, 11, 12, 13, 14, 15] False,
     Gen cusolver ty_cusolverStatus_t ''cusolverRfSetupDevice'' [ty_int, ty_int, Ptr ty_int, Ptr ty_int, Ptr ty_double, ty_int, Ptr ty_int, Ptr ty_int, Ptr ty_double, ty_int, Ptr ty_int, Ptr ty_int, Ptr ty_double, Ptr ty_int, Ptr ty_int, ty_cusolverRfHandle_t]
       ''cusolverRfSetupDevice'' ty_cusolverStatus_t [ty_int, ty_int, Ptr ty_int, Ptr ty_int, Ptr ty_double, ty_int, Ptr ty_int, Ptr ty_int, Ptr ty_double, ty_int, Ptr ty_int, Ptr ty_int, Ptr ty_double, Ptr ty_int, Ptr ty_int, ty_cusolverRfHandle_t] ''cusolverRfSetupDevice'' [0, 1, 2, 3, 4, 5, 6, 7, 8, 9, 10, 11, 12, 13, 14, 15] False,
     Gen cusolver ty_cusolverStatus_t ''cusolverRfResetValues'' [ty_int, ty_int, Ptr ty_int, Ptr ty_int, Ptr ty_double, Ptr ty_int, Ptr ty_int, ty_cusolverRfHandle_t]
       ''cusolverRfResetValues'' ty_cusolverStatus_t [ty_int, ty_int, Ptr ty_int, Ptr ty_int, Ptr ty_double, Ptr ty_int, Ptr ty_int, ty_cusolverRfHandle_t] ''cusolverRfResetValues'' [0, 1, 2, 3, 4, 5, 6, 7] False,
     Gen cusolver ty_cusolverStatus_t ''cusolverRfAnalyze'' [ty_cusolverRfHandle_t]
       ''cusolverRfAnalyze'' ty_cusolverStatus_t [ty_cusolverRfHandle_t] ''cusolverRfAnalyze'' [0] False,
     Gen cusolver ty_cusolverStatus_t ''cusolverRfRefactor'' [ty_cusolverRfHandle_t]
       ''cusolverRfRefactor'' ty_cusolverStatus_t [ty_cusolverRfHandle_t] ''cusolverRfRefactor'' [0] False,
     Gen cusolver ty_cusolverStatus_t ''cusolverRfAccessBundledFactorsDevice'' [ty_cusolverRfHandle_t, Ptr ty_int, Ptr (Ptr ty_int), Ptr (Ptr ty_int), Ptr (Ptr ty_double)]
       ''cusolverRfAccessBundledFactorsDevice'' ty_cusolverStatus_t [ty_cusolverRfHandle_t, Ptr ty_int, Ptr (Ptr ty_int), Ptr (Ptr ty_int), Ptr (Ptr ty_double)] ''cusolverRfAccessBundledFactorsDevice'' [0, 1, 2, 3, 4] False,
     Gen cusolver ty_cusolverStatus_t ''cusolverRfExtractBundledFactorsHost'' [ty_cusolverRfHandle_t, Ptr ty_int, Ptr (Ptr ty_int), Ptr (Ptr ty_int), Ptr (Ptr ty_double)]
       ''cusolverRfExtractBundledFactorsHost'' ty_cusolverStatus_t [ty_cusolverRfHandle_t, Ptr ty_int, Ptr (Ptr ty_int), Ptr (Ptr ty_int), Ptr (Ptr ty_double)] ''cusolverRfExtractBundledFactorsHost'' [0, 1, 2, 3, 4] False,
     Gen cusolver ty_cusolverStatus_t ''cusolverRfExtractSplitFactorsHost'' [ty_cusolverRfHandle_t, Ptr ty_int, Ptr (Ptr ty_int), Ptr (Ptr ty_int), Ptr (Ptr ty_double), Ptr ty_int, Ptr (Ptr ty_int), Ptr (Ptr ty_int), Ptr (Ptr ty_double)]
       ''cusolverRfExtractSplitFactorsHost'' ty_cusolverStatus_t [ty_cusolverRfHandle_t, Ptr ty_int, Ptr (Ptr ty_int), Ptr (Ptr ty_int), Ptr (Ptr ty_double), Ptr ty_int, Ptr (Ptr ty_int), Ptr (Ptr ty_int), Ptr (Ptr ty_double)] ''cusolverRfExtractSplitFactorsHost'' [0, 1, 2, 3, 4, 5, 6, 7, 8] False,
     Gen cusolver ty_cusolverStatus_t ''cusolverRfSolve'' [ty_cusolverRfHandle_t, Ptr ty_int, Ptr ty_int, ty_int, Ptr ty_double, ty_int, Ptr ty_double, ty_int]
       ''cusolverRfSolve'' ty_cusolverStatus_t [ty_cusolverRfHandle_t, Ptr ty_int, Ptr ty_int, ty_int, Ptr ty_double, ty_int, Ptr ty_double, ty_int] ''cusolverRfSolve'' [0, 1, 2, 3, 4, 5, 6, 7] False]"

definition cusolver_hooks_35 :: "gen_hook list" where
  "cusolver_hooks_35 =
    [Gen cusolver ty_cusolverStatus_t ''cusolverRfBatchSetupHost'' [ty_int, ty_int, ty_int, Ptr ty_int, Ptr ty_int, Ptr ty_double, ty_int, Ptr ty_int, Ptr ty_int, Ptr ty_double, ty_int, Ptr ty_int, Ptr ty_int, Ptr ty_double, Ptr ty_int, Ptr ty_int, ty_cusolverRfHandle_t]
       ''cusolverRfBatchSetupHost'' ty_cusolverStatus_t [ty_int, ty_int, ty_int, Ptr ty_int, Ptr ty_int, Ptr ty_double, ty_int, Ptr ty_int, Ptr ty_int, Ptr ty_double, ty_int, Ptr ty_int, Ptr ty_int, Ptr ty_double, Ptr ty_int, Ptr ty_int, ty_cusolverRfHandle_t] ''cusolverRfBatchSetupHost'' [0, 1, 2, 3, 4, 5, 6, 7, 8, 9, 10, 11, 12, 13, 14, 15, 16] False,
     Gen cusolver ty_cusolverStatus_t ''cusolverRfBatchResetValues'' [ty_int, ty_int, ty_int, Ptr ty_int, Ptr ty_int, Ptr ty_double, Ptr ty_int, Ptr ty_int, ty_cusolverRfHandle_t]
       ''cusolverRfBatchResetValues'' ty_cusolverStatus_t [ty_int, ty_int, ty_int, Ptr ty_int, Ptr ty_int, Ptr ty_double, Ptr ty_int, Ptr ty_int, ty_cusolverRfHandle_t] ''cusolverRfBatchResetValues'' [0, 1, 2, 3, 4, 5, 6, 7, 8] False,
     Gen cusolver ty_cusolverStatus_t ''cusolverRfBatchAnalyze'' [ty_cusolverRfHandle_t]
       ''cusolverRfBatchAnalyze'' ty_cusolverStatus_t [ty_cusolverRfHandle_t] ''cusolverRfBatchAnalyze'' [0] False,
     Gen cusolver ty_cusolverStatus_t ''cusolverRfBatchRefactor'' [ty_cusolverRfHandle_t]
       ''cusolverRfBatchRefactor'' ty_cusolverStatus_t [ty_cusolverRfHandle_t] ''cusolverRfBatchRefactor'' [0] False,
     Gen cusolver ty_cusolverStatus_t ''cusolverRfBatchSolve'' [ty_cusolverRfHandle_t, Ptr ty_int, Ptr ty_int, ty_int, Ptr ty_double, ty_int, Ptr ty_double, ty_int]
       ''cusolverRfBatchSolve'' ty_cusolverStatus_t [ty_cusolverRfHandle_t, Ptr ty_int, Ptr ty_int, ty_int, Ptr ty_double, ty_int, Ptr ty_double, ty_int] ''cusolverRfBatchSolve'' [0, 1, 2, 3, 4, 5, 6, 7] False,
     Gen cusolver ty_cusolverStatus_t ''cusolverRfBatchZeroPivot'' [ty_cusolverRfHandle_t, Ptr ty_int]
       ''cusolverRfBatchZeroPivot'' ty_cusolverStatus_t [ty_cusolverRfHandle_t, Ptr ty_int] ''cusolverRfBatchZeroPivot'' [0, 1] False,
     Gen cusolver ty_cusolverStatus_t ''cusolverSpCreate'' [Ptr ty_cusolverSpHandle_t]
       ''cusolverSpCreate'' ty_cusolverStatus_t [Ptr ty_cusolverSpHandle_t] ''cusolverSpCreate'' [0] False,
     Gen cusolver ty_cusolverStatus_t ''cusolverSpDestroy'' [ty_cusolverSpHandle_t]
       ''cusolverSpDestroy'' ty_cusolverStatus_t [ty_cusolverSpHandle_t] ''cusolverSpDestroy'' [0] False,
     Gen cusolver ty_cusolverStatus_t ''cusolverSpSetStream'' [ty_cusolverSpHandle_t, ty_cudaStream_t]
       ''cusolverSpSetStream'' ty_cusolverStatus_t [ty_cusolverSpHandle_t, ty_cudaStream_t] ''cusolverSpSetStream'' [0, 1] False,
     Gen cusolver ty_cusolverStatus_t ''cusolverSpGetStream'' [ty_cusolverSpHandle_t, Ptr ty_cudaStream_t]
       ''cusolverSpGetStream'' ty_cusolverStatus_t [ty_cusolverSpHandle_t, Ptr ty_cudaStream_t] ''cusolverSpGetStream'' [0, 1] False,
     Gen cusolver ty_cusolverStatus_t ''cusolverSpXcsrissymHost'' [ty_cusolverSpHandle_t, ty_int, ty_int, Const ty_cusparseMatDescr_t, Ptr (Const ty_int), Ptr (Const ty_int), Ptr (Const ty_int), Ptr ty_int]
       ''cusolverSpXcsrissymHost'' ty_cusolverStatus_t [ty_cusolverSpHandle_t, ty_int, ty_int, Const ty_cusparseMatDescr_t, Ptr (Const ty_int), Ptr (Const ty_int), Ptr (Const ty_int), Ptr ty_int] ''cusolverSpXcsrissymHost'' [0, 1, 2, 3, 4, 5, 6, 7] False,
     Gen cusolver ty_cusolverStatus_t ''cusolverSpScsrlsvluHost'' [ty_cusolverSpHandle_t, ty_int, ty_int, Const ty_cusparseMatDescr_t, Ptr (Const ty_float), Ptr (Const ty_int), Ptr (Const ty_int), Ptr (Const ty_float), ty_float, ty_int, Ptr ty_float, Ptr ty_int]
       ''cusolverSpScsrlsvluHost'' ty_cusolverStatus_t [ty_cusolverSpHandle_t, ty_int, ty_int, Const ty_cusparseMatDescr_t, Ptr (Const ty_float), Ptr (Const ty_int), Ptr (Const ty_int), Ptr (Const ty_float), ty_float, ty_int, Ptr ty_float, Ptr ty_int] ''cusolverSpScsrlsvluHost'' [0, 1, 2, 3, 4, 5, 6, 7, 8, 9, 10, 11] False,
     Gen cusolver ty_cusolverStatus_t ''cusolverSpDcsrlsvluHost'' [ty_cusolverSpHandle_t, ty_int, ty_int, Const ty_cusparseMatDescr_t, Ptr (Const ty_double), Ptr (Const ty_int), Ptr (Const ty_int), Ptr (Const ty_double), ty_double, ty_int, Ptr ty_double, Ptr ty_int]
       ''cusolverSpDcsrlsvluHost'' ty_cusolverStatus_t [ty_cusolverSpHandle_t, ty_int, ty_int, Const ty_cusparseMatDescr_t, Ptr (Const ty_double), Ptr (Const ty_int), Ptr (Const ty_int), Ptr (Const ty_double), ty_double, ty_int, Ptr ty_double, Ptr ty_int] ''cusolverSpDcsrlsvluHost'' [0, 1, 2, 3, 4, 5, 6, 7, 8, 9, 10, 11] False,
     Gen cusolver ty_cusolverStatus_t ''cusolverSpCcsrlsvluHost'' [ty_cusolverSpHandle_t, ty_int, ty_int, Const ty_cusparseMatDescr_t, Ptr (Const ty_cuComplex), Ptr (Const ty_int), Ptr (Const ty_int), Ptr (Const ty_cuComplex), ty_float, ty_int, Ptr ty_cuComplex, Ptr ty_int]
       ''cusolverSpCcsrlsvluHost'' ty_cusolverStatus_t [ty_cusolverSpHandle_t, ty_int, ty_int, Const ty_cusparseMatDescr_t, Ptr (Const ty_cuComplex), Ptr (Const ty_int), Ptr (Const ty_int), Ptr (Const ty_cuComplex), ty_float, ty_int, Ptr ty_cuComplex, Ptr ty_int] ''cusolverSpCcsrlsvluHost'' [0, 1, 2, 3, 4, 5, 6, 7, 8, 9, 10, 11] False]"

definition cusolver_hooks_36 :: "gen_hook list" where
  "cusolver_hooks_36 =
    [Gen cusolver ty_cusolverStatus_t ''cusolverSpZcsrlsvluHost'' [ty_cusolverSpHandle_t, ty_int, ty_int, Const ty_cusparseMatDescr_t, Ptr (Const ty_cuDoubleComplex), Ptr (Const ty_int), Ptr (Const ty_int), Ptr (Const ty_cuDoubleComplex), ty_double, ty_int, Ptr ty_cuDoubleComplex, Ptr ty_int]
       ''cusolverSpZcsrlsvluHost'' ty_cusolverStatus_t [ty_cusolverSpHandle_t, ty_int, ty_int, Const ty_cusparseMatDescr_t, Ptr (Const ty_cuDoubleComplex), Ptr (Const ty_int), Ptr (Const ty_int), Ptr (Const ty_cuDoubleComplex), ty_double, ty_int, Ptr ty_cuDoubleComplex, Ptr ty_int] ''cusolverSpZcsrlsvluHost'' [0, 1, 2, 3, 4, 5, 6, 7, 8, 9, 10, 11] False,
     Gen cusolver ty_cusolverStatus_t ''cusolverSpScsrlsvqr'' [ty_cusolverSpHandle_t, ty_int, ty_int, Const ty_cusparseMatDescr_t, Ptr (Const ty_float), Ptr (Const ty_int), Ptr (Const ty_int), Ptr (Const ty_float), ty_float, ty_int, Ptr ty_float, Ptr ty_int]
       ''cusolverSpScsrlsvqr'' ty_cusolverStatus_t [ty_cusolverSpHandle_t, ty_int, ty_int, Const ty_cusparseMatDescr_t, Ptr (Const ty_float), Ptr (Const ty_int), Ptr (Const ty_int), Ptr (Const ty_float), ty_float, ty_int, Ptr ty_float, Ptr ty_int] ''cusolverSpScsrlsvqr'' [0, 1, 2, 3, 4, 5, 6, 7, 8, 9, 10, 11] False,
     Gen cusolver ty_cusolverStatus_t ''cusolverSpDcsrlsvqr'' [ty_cusolverSpHandle_t, ty_int, ty_int, Const ty_cusparseMatDescr_t, Ptr (Const ty_double), Ptr (Const ty_int), Ptr (Const ty_int), Ptr (Const ty_double), ty_double, ty_int, Ptr ty_double, Ptr ty_int]
       ''cusolverSpDcsrlsvqr'' ty_cusolverStatus_t [ty_cusolverSpHandle_t, ty_int, ty_int, Const ty_cusparseMatDescr_t, Ptr (Const ty_double), Ptr (Const ty_int), Ptr (Const ty_int), Ptr (Const ty_double), ty_double, ty_int, Ptr ty_double, Ptr ty_int] ''cusolverSpDcsrlsvqr'' [0, 1, 2, 3, 4, 5, 6, 7, 8, 9, 10, 11] False,
     Gen cusolver ty_cusolverStatus_t ''cusolverSpCcsrlsvqr'' [ty_cusolverSpHandle_t, ty_int, ty_int, Const ty_cusparseMatDescr_t, Ptr (Const ty_cuComplex), Ptr (Const ty_int), Ptr (Const ty_int), Ptr (Const ty_cuComplex), ty_float, ty_int, Ptr ty_cuComplex, Ptr ty_int]
       ''cusolverSpCcsrlsvqr'' ty_cusolverStatus_t [ty_cusolverSpHandle_t, ty_int, ty_int, Const ty_cusparseMatDescr_t, Ptr (Const ty_cuComplex), Ptr (Const ty_int), Ptr (Const ty_int), Ptr (Const ty_cuComplex), ty_float, ty_int, Ptr ty_cuComplex, Ptr ty_int] ''cusolverSpCcsrlsvqr'' [0, 1, 2, 3, 4, 5, 6, 7, 8, 9, 10, 11] False,
     Gen cusolver ty_cusolverStatus_t ''cusolverSpZcsrlsvqr'' [ty_cusolverSpHandle_t, ty_int, ty_int, Const ty_cusparseMatDescr_t, Ptr (Const ty_cuDoubleComplex), Ptr (Const ty_int), Ptr (Const ty_int), Ptr (Const ty_cuDoubleComplex), ty_double, ty_int, Ptr ty_cuDoubleComplex, Ptr ty_int]
       ''cusolverSpZcsrlsvqr'' ty_cusolverStatus_t [ty_cusolverSpHandle_t, ty_int, ty_int, Const ty_cusparseMatDescr_t, Ptr (Const ty_cuDoubleComplex), Ptr (Const ty_int), Ptr (Const ty_int), Ptr (Const ty_cuDoubleComplex), ty_double, ty_int, Ptr ty_cuDoubleComplex, Ptr ty_int] ''cusolverSpZcsrlsvqr'' [0, 1, 2, 3, 4, 5, 6, 7, 8, 9, 10, 11] False,
     Gen cusolver ty_cusolverStatus_t ''cusolverSpScsrlsvqrHost'' [ty_cusolverSpHandle_t, ty_int, ty_int, Const ty_cusparseMatDescr_t, Ptr (Const ty_float), Ptr (Const ty_int), Ptr (Const ty_int), Ptr (Const ty_float), ty_float, ty_int, Ptr ty_float, Ptr ty_int]
       ''cusolverSpScsrlsvqrHost'' ty_cusolverStatus_t [ty_cusolverSpHandle_t, ty_int, ty_int, Const ty_cusparseMatDescr_t, Ptr (Const ty_float), Ptr (Const ty_int), Ptr (Const ty_int), Ptr (Const ty_float), ty_float, ty_int, Ptr ty_float, Ptr ty_int] ''cusolverSpScsrlsvqrHost'' [0, 1, 2, 3, 4, 5, 6, 7, 8, 9, 10, 11] False,
     Gen cusolver ty_cusolverStatus_t ''cusolverSpDcsrlsvqrHost'' [ty_cusolverSpHandle_t, ty_int, ty_int, Const ty_cusparseMatDescr_t, Ptr (Const ty_double), Ptr (Const ty_int), Ptr (Const ty_int), Ptr (Const ty_double), ty_double, ty_int, Ptr ty_double, Ptr ty_int]
       ''cusolverSpDcsrlsvqrHost'' ty_cusolverStatus_t [ty_cusolverSpHandle_t, ty_int, ty_int, Const ty_cusparseMatDescr_t, Ptr (Const ty_double), Ptr (Const ty_int), Ptr (Const ty_int), Ptr (Const ty_double), ty_double, ty_int, Ptr ty_double, Ptr ty_int] ''cusolverSpDcsrlsvqrHost'' [0, 1, 2, 3, 4, 5, 6, 7, 8, 9, 10, 11] False,
     Gen cusolver ty_cusolverStatus_t ''cusolverSpCcsrlsvqrHost'' [ty_cusolverSpHandle_t, ty_int, ty_int, Const ty_cusparseMatDescr_t, Ptr (Const ty_cuComplex), Ptr (Const ty_int), Ptr (Const ty_int), Ptr (Const ty_cuComplex), ty_float, ty_int, Ptr ty_cuComplex, Ptr ty_int]
       ''cusolverSpCcsrlsvqrHost'' ty_cusolverStatus_t [ty_cusolverSpHandle_t, ty_int, ty_int, Const ty_cusparseMatDescr_t, Ptr (Const ty_cuComplex), Ptr (Const ty_int), Ptr (Const ty_int), Ptr (Const ty_cuComplex), ty_float, ty_int, Ptr ty_cuComplex, Ptr ty_int] ''cusolverSpCcsrlsvqrHost'' [0, 1, 2, 3, 4, 5, 6, 7, 8, 9, 10, 11] False,
     Gen cusolver ty_cusolverStatus_t ''cusolverSpZcsrlsvqrHost'' [ty_cusolverSpHandle_t, ty_int, ty_int, Const ty_cusparseMatDescr_t, Ptr (Const ty_cuDoubleComplex), Ptr (Const ty_int), Ptr (Const ty_int), Ptr (Const ty_cuDoubleComplex), ty_double, ty_int, Ptr ty_cuDoubleComplex, Ptr ty_int]
       ''cusolverSpZcsrlsvqrHost'' ty_cusolverStatus_t [ty_cusolverSpHandle_t, ty_int, ty_int, Const ty_cusparseMatDescr_t, Ptr (Const ty_cuDoubleComplex), Ptr (Const ty_int), Ptr (Const ty_int), Ptr (Const ty_cuDoubleComplex), ty_double, ty_int, Ptr ty_cuDoubleComplex, Ptr ty_int] ''cusolverSpZcsrlsvqrHost'' [0, 1, 2, 3, 4, 5, 6, 7, 8, 9, 10, 11] False,
     Gen cusolver ty_cusolverStatus_t ''cusolverSpScsrlsvcholHost'' [ty_cusolverSpHandle_t, ty_int, ty_int, Const ty_cusparseMatDescr_t, Ptr (Const ty_float), Ptr (Const ty_int), Ptr (Const ty_int), Ptr (Const ty_float), ty_float, ty_int, Ptr ty_float, Ptr ty_int]
       ''cusolverSpScsrlsvcholHost'' ty_cusolverStatus_t [ty_cusolverSpHandle_t, ty_int, ty_int, Const ty_cusparseMatDescr_t, Ptr (Const ty_float), Ptr (Const ty_int), Ptr (Const ty_int), Ptr (Const ty_float), ty_float, ty_int, Ptr ty_float, Ptr ty_int] ''cusolverSpScsrlsvcholHost'' [0, 1, 2, 3, 4, 5, 6, 7, 8, 9, 10, 11] False,
     Gen cusolver ty_cusolverStatus_t ''cusolverSpDcsrlsvcholHost'' [ty_cusolverSpHandle_t, ty_int, ty_int, Const ty_cusparseMatDescr_t, Ptr (Const ty_double), Ptr (Const ty_int), Ptr (Const ty_int), Ptr (Const ty_double), ty_double, ty_int, Ptr ty_double, Ptr ty_int]
       ''cusolverSpDcsrlsvcholHost'' ty_cusolverStatus_t [ty_cusolverSpHandle_t, ty_int, ty_int, Const ty_cusparseMatDescr_t, Ptr (Const ty_double), Ptr (Const ty_int), Ptr (Const ty_int), Ptr (Const ty_double), ty_double, ty_int, Ptr ty_double, Ptr ty_int] ''cusolverSpDcsrlsvcholHost'' [0, 1, 2, 3, 4, 5, 6, 7, 8, 9, 10, 11] False]"

definition cusolver_hooks_37 :: "gen_hook list" where
  "cusolver_hooks_37 =
    [Gen cusolver ty_cusolverStatus_t ''cusolverSpCcsrlsvcholHost'' [ty_cusolverSpHandle_t, ty_int, ty_int, Const ty_cusparseMatDescr_t, Ptr (Const ty_cuComplex), Ptr (Const ty_int), Ptr (Const ty_int), Ptr (Const ty_cuComplex), ty_float, ty_int, Ptr ty_cuComplex, Ptr ty_int]
       ''cusolverSpCcsrlsvcholHost'' ty_cusolverStatus_t [ty_cusolverSpHandle_t, ty_int, ty_int, Const ty_cusparseMatDescr_t, Ptr (Const ty_cuComplex), Ptr (Const ty_int), Ptr (Const ty_int), Ptr (Const ty_cuComplex), ty_float, ty_int, Ptr ty_cuComplex, Ptr ty_int] ''cusolverSpCcsrlsvcholHost'' [0, 1, 2, 3, 4, 5, 6, 7, 8, 9, 10, 11] False,
     Gen cusolver ty_cusolverStatus_t ''cusolverSpZcsrlsvcholHost'' [ty_cusolverSpHandle_t, ty_int, ty_int, Const ty_cusparseMatDescr_t, Ptr (Const ty_cuDoubleComplex), Ptr (Const ty_int), Ptr (Const ty_int), Ptr (Const ty_cuDoubleComplex), ty_double, ty_int, Ptr ty_cuDoubleComplex, Ptr ty_int]
       ''cusolverSpZcsrlsvcholHost'' ty_cusolverStatus_t [ty_cusolverSpHandle_t, ty_int, ty_int, Const ty_cusparseMatDescr_t, Ptr (Const ty_cuDoubleComplex), Ptr (Const ty_int), Ptr (Const ty_int), Ptr (Const ty_cuDoubleComplex), ty_double, ty_int, Ptr ty_cuDoubleComplex, Ptr ty_int] ''cusolverSpZcsrlsvcholHost'' [0, 1, 2, 3, 4, 5, 6, 7, 8, 9, 10, 11] False,
     Gen cusolver ty_cusolverStatus_t ''cusolverSpScsrlsvchol'' [ty_cusolverSpHandle_t, ty_int, ty_int, Const ty_cusparseMatDescr_t, Ptr (Const ty_float), Ptr (Const ty_int), Ptr (Const ty_int), Ptr (Const ty_float), ty_float, ty_int, Ptr ty_float, Ptr ty_int]
       ''cusolverSpScsrlsvchol'' ty_cusolverStatus_t [ty_cusolverSpHandle_t, ty_int, ty_int, Const ty_cusparseMatDescr_t, Ptr (Const ty_float), Ptr (Const ty_int), Ptr (Const ty_int), Ptr (Const ty_float), ty_float, ty_int, Ptr ty_float, Ptr ty_int] ''cusolverSpScsrlsvchol'' [0, 1, 2, 3, 4, 5, 6, 7, 8, 9, 10, 11] False,
     Gen cusolver ty_cusolverStatus_t ''cusolverSpDcsrlsvchol'' [ty_cusolverSpHandle_t, ty_int, ty_int, Const ty_cusparseMatDescr_t, Ptr (Const ty_double), Ptr (Const ty_int), Ptr (Const ty_int), Ptr (Const ty_double), ty_double, ty_int, Ptr ty_double, Ptr ty_int]
       ''cusolverSpDcsrlsvchol'' ty_cusolverStatus_t [ty_cusolverSpHandle_t, ty_int, ty_int, Const ty_cusparseMatDescr_t, Ptr (Const ty_double), Ptr (Const ty_int), Ptr (Const ty_int), Ptr (Const ty_double), ty_double, ty_int, Ptr ty_double, Ptr ty_int] ''cusolverSpDcsrlsvchol'' [0, 1, 2, 3, 4, 5, 6, 7, 8, 9, 10, 11] False,
     Gen cusolver ty_cusolverStatus_t ''cusolverSpCcsrlsvchol'' [ty_cusolverSpHandle_t, ty_int, ty_int, Const ty_cusparseMatDescr_t, Ptr (Const ty_cuComplex), Ptr (Const ty_int), Ptr (Const ty_int), Ptr (Const ty_cuComplex), ty_float, ty_int, Ptr ty_cuComplex, Ptr ty_int]
       ''cusolverSpCcsrlsvchol'' ty_cusolverStatus_t [ty_cusolverSpHandle_t, ty_int, ty_int, Const ty_cusparseMatDescr_t, Ptr (Const ty_cuComplex), Ptr (Const ty_int), Ptr (Const ty_int), Ptr (Const ty_cuComplex), ty_float, ty_int, Ptr ty_cuComplex, Ptr ty_int] ''cusolverSpCcsrlsvchol'' [0, 1, 2, 3, 4, 5, 6, 7, 8, 9, 10, 11] False,
     Gen cusolver ty_cusolverStatus_t ''cusolverSpZcsrlsvchol'' [ty_cusolverSpHandle_t, ty_int, ty_int, Const ty_cusparseMatDescr_t, Ptr (Const ty_cuDoubleComplex), Ptr (Const ty_int), Ptr (Const ty_int), Ptr (Const ty_cuDoubleComplex), ty_double, ty_int, Ptr ty_cuDoubleComplex, Ptr ty_int]
       ''cusolverSpZcsrlsvchol'' ty_cusolverStatus_t [ty_cusolverSpHandle_t, ty_int, ty_int, Const ty_cusparseMatDescr_t, Ptr (Const ty_cuDoubleComplex), Ptr (Const ty_int), Ptr (Const ty_int), Ptr (Const ty_cuDoubleComplex), ty_double, ty_int, Ptr ty_cuDoubleComplex, Ptr ty_int] ''cusolverSpZcsrlsvchol'' [0, 1, 2, 3, 4, 5, 6, 7, 8, 9, 10, 11] False,
     Gen cusolver ty_cusolverStatus_t ''cusolverSpScsrlsqvqrHost'' [ty_cusolverSpHandle_t, ty_int, ty_int, ty_int, Const ty_cusparseMatDescr_t, Ptr (Const ty_float), Ptr (Const ty_int), Ptr (Const ty_int), Ptr (Const ty_float), ty_float, Ptr ty_int, Ptr ty_float, Ptr ty_int, Ptr ty_float]
       ''cusolverSpScsrlsqvqrHost'' ty_cusolverStatus_t [ty_cusolverSpHandle_t, ty_int, ty_int, ty_int, Const ty_cusparseMatDescr_t, Ptr (Const ty_float), Ptr (Const ty_int), Ptr (Const ty_int), Ptr (Const ty_float), ty_float, Ptr ty_int, Ptr ty_float, Ptr ty_int, Ptr ty_float] ''cusolverSpScsrlsqvqrHost'' [0, 1, 2, 3, 4, 5, 6, 7, 8, 9, 10, 11, 12, 13] False,
     Gen cusolver ty_cusolverStatus_t ''cusolverSpDcsrlsqvqrHost'' [ty_cusolverSpHandle_t, ty_int, ty_int, ty_int, Const ty_cusparseMatDescr_t, Ptr (Const ty_double), Ptr (Const ty_int), Ptr (Const ty_int), Ptr (Const ty_double), ty_double, Ptr ty_int, Ptr ty_double, Ptr ty_int, Ptr ty_double]
       ''cusolverSpDcsrlsqvqrHost'' ty_cusolverStatus_t [ty_cusolverSpHandle_t, ty_int, ty_int, ty_int, Const ty_cusparseMatDescr_t, Ptr (Const ty_double), Ptr (Const ty_int), Ptr (Const ty_int), Ptr (Const ty_double), ty_double, Ptr ty_int, Ptr ty_double, Ptr ty_int, Ptr ty_double] ''cusolverSpDcsrlsqvqrHost'' [0, 1, 2, 3, 4, 5, 6, 7, 8, 9, 10, 11, 12, 13] False,
     Gen cusolver ty_cusolverStatus_t ''cusolverSpCcsrlsqvqrHost'' [ty_cusolverSpHandle_t, ty_int, ty_int, ty_int, Const ty_cusparseMatDescr_t, Ptr (Const ty_cuComplex), Ptr (Const ty_int), Ptr (Const ty_int), Ptr (Const ty_cuComplex), ty_float, Ptr ty_int, Ptr ty_cuComplex, Ptr ty_int, Ptr ty_float]
       ''cusolverSpCcsrlsqvqrHost'' ty_cusolverStatus_t [ty_cusolverSpHandle_t, ty_int, ty_int, ty_int, Const ty_cusparseMatDescr_t, Ptr (Const ty_cuComplex), Ptr (Const ty_int), Ptr (Const ty_int), Ptr (Const ty_cuComplex), ty_float, Ptr ty_int, Ptr ty_cuComplex, Ptr ty_int, Ptr ty_float] ''cusolverSpCcsrlsqvqrHost'' [0, 1, 2, 3, 4, 5, 6, 7, 8, 9, 10, 11, 12, 13] False,
     Gen cusolver ty_cusolverStatus_t ''cusolverSpZcsrlsqvqrHost'' [ty_cusolverSpHandle_t, ty_int, ty_int, ty_int, Const ty_cusparseMatDescr_t, Ptr (Const ty_cuDoubleComplex), Ptr (Const ty_int), Ptr (Const ty_int), Ptr (Const ty_cuDoubleComplex), ty_double, Ptr ty_int, Ptr ty_cuDoubleComplex, Ptr ty_int, Ptr ty_double]
       ''cusolverSpZcsrlsqvqrHost'' ty_cusolverStatus_t [ty_cusolverSpHandle_t, ty_int, ty_int, ty_int, Const ty_cusparseMatDescr_t, Ptr (Const ty_cuDoubleComplex), Ptr (Const ty_int), Ptr (Const ty_int), Ptr (Const ty_cuDoubleComplex), ty_double, Ptr ty_int, Ptr ty_cuDoubleComplex, Ptr ty_int, Ptr ty_double] ''cusolverSpZcsrlsqvqrHost'' [0, 1, 2, 3, 4, 5, 6, 7, 8, 9, 10, 11, 12, 13] False]"

definition cusolver_hooks_38 :: "gen_hook list" where
  "cusolver_hooks_38 =
    [Gen cusolver ty_cusolverStatus_t ''cusolverSpScsreigvsiHost'' [ty_cusolverSpHandle_t, ty_int, ty_int, Const ty_cusparseMatDescr_t, Ptr (Const ty_float), Ptr (Const ty_int), Ptr (Const ty_int), ty_float, Ptr (Const ty_float), ty_int, ty_float, Ptr ty_float, Ptr ty_float]
       ''cusolverSpScsreigvsiHost'' ty_cusolverStatus_t [ty_cusolverSpHandle_t, ty_int, ty_int, Const ty_cusparseMatDescr_t, Ptr (Const ty_float), Ptr (Const ty_int), Ptr (Const ty_int), ty_float, Ptr (Const ty_float), ty_int, ty_float, Ptr ty_float, Ptr ty_float] ''cusolverSpScsreigvsiHost'' [0, 1, 2, 3, 4, 5, 6, 7, 8, 9, 10, 11, 12] False,
     Gen cusolver ty_cusolverStatus_t ''cusolverSpDcsreigvsiHost'' [ty_cusolverSpHandle_t, ty_int, ty_int, Const ty_cusparseMatDescr_t, Ptr (Const ty_double), Ptr (Const ty_int), Ptr (Const ty_int), ty_double, Ptr (Const ty_double), ty_int, ty_double, Ptr ty_double, Ptr ty_double]
       ''cusolverSpDcsreigvsiHost'' ty_cusolverStatus_t [ty_cusolverSpHandle_t, ty_int, ty_int, Const ty_cusparseMatDescr_t, Ptr (Const ty_double), Ptr (Const ty_int), Ptr (Const ty_int), ty_double, Ptr (Const ty_double), ty_int, ty_double, Ptr ty_double, Ptr ty_double] ''cusolverSpDcsreigvsiHost'' [0, 1, 2, 3, 4, 5, 6, 7, 8, 9, 10, 11, 12] False,
     Gen cusolver ty_cusolverStatus_t ''cusolverSpCcsreigvsiHost'' [ty_cusolverSpHandle_t, ty_int, ty_int, Const ty_cusparseMatDescr_t, Ptr (Const ty_cuComplex), Ptr (Const ty_int), Ptr (Const ty_int), ty_cuComplex, Ptr (Const ty_cuComplex), ty_int, ty_float, Ptr ty_cuComplex, Ptr ty_cuComplex]
       ''cusolverSpCcsreigvsiHost'' ty_cusolverStatus_t [ty_cusolverSpHandle_t, ty_int, ty_int, Const ty_cusparseMatDescr_t, Ptr (Const ty_cuComplex), Ptr (Const ty_int), Ptr (Const ty_int), ty_cuComplex, Ptr (Const ty_cuComplex), ty_int, ty_float, Ptr ty_cuComplex, Ptr ty_cuComplex] ''cusolverSpCcsreigvsiHost'' [0, 1, 2, 3, 4, 5, 6, 7, 8, 9, 10, 11, 12] False,
     Gen cusolver ty_cusolverStatus_t ''cusolverSpZcsreigvsiHost'' [ty_cusolverSpHandle_t, ty_int, ty_int, Const ty_cusparseMatDescr_t, Ptr (Const ty_cuDoubleComplex), Ptr (Const ty_int), Ptr (Const ty_int), ty_cuDoubleComplex, Ptr (Const ty_cuDoubleComplex), ty_int, ty_double, Ptr ty_cuDoubleComplex, Ptr ty_cuDoubleComplex]
       ''cusolverSpZcsreigvsiHost'' ty_cusolverStatus_t [ty_cusolverSpHandle_t, ty_int, ty_int, Const ty_cusparseMatDescr_t, Ptr (Const ty_cuDoubleComplex), Ptr (Const ty_int), Ptr (Const ty_int), ty_cuDoubleComplex, Ptr (Const ty_cuDoubleComplex), ty_int, ty_double, Ptr ty_cuDoubleComplex, Ptr ty_cuDoubleComplex] ''cusolverSpZcsreigvsiHost'' [0, 1, 2, 3, 4, 5, 6, 7, 8, 9, 10, 11, 12] False,
     Gen cusolver ty_cusolverStatus_t ''cusolverSpScsreigvsi'' [ty_cusolverSpHandle_t, ty_int, ty_int, Const ty_cusparseMatDescr_t, Ptr (Const ty_float), Ptr (Const ty_int), Ptr (Const ty_int), ty_float, Ptr (Const ty_float), ty_int, ty_float, Ptr ty_float, Ptr ty_float]
       ''cusolverSpScsreigvsi'' ty_cusolverStatus_t [ty_cusolverSpHandle_t, ty_int, ty_int, Const ty_cusparseMatDescr_t, Ptr (Const ty_float), Ptr (Const ty_int), Ptr (Const ty_int), ty_float, Ptr (Const ty_float), ty_int, ty_float, Ptr ty_float, Ptr ty_float] ''cusolverSpScsreigvsi'' [0, 1, 2, 3, 4, 5, 6, 7, 8, 9, 10, 11, 12] False,
     Gen cusolver ty_cusolverStatus_t ''cusolverSpDcsreigvsi'' [ty_cusolverSpHandle_t, ty_int, ty_int, Const ty_cusparseMatDescr_t, Ptr (Const ty_double), Ptr (Const ty_int), Ptr (Const ty_int), ty_double, Ptr (Const ty_double), ty_int, ty_double, Ptr ty_double, Ptr ty_double]
       ''cusolverSpDcsreigvsi'' ty_cusolverStatus_t [ty_cusolverSpHandle_t, ty_int, ty_int, Const ty_cusparseMatDescr_t, Ptr (Const ty_double), Ptr (Const ty_int), Ptr (Const ty_int), ty_double, Ptr (Const ty_double), ty_int, ty_double, Ptr ty_double, Ptr ty_double] ''cusolverSpDcsreigvsi'' [0, 1, 2, 3, 4, 5, 6, 7, 8, 9, 10, 11, 12] False,
     Gen cusolver ty_cusolverStatus_t ''cusolverSpCcsreigvsi'' [ty_cusolverSpHandle_t, ty_int, ty_int, Const ty_cusparseMatDescr_t, Ptr (Const ty_cuComplex), Ptr (Const ty_int), Ptr (Const ty_int), ty_cuComplex, Ptr (Const ty_cuComplex), ty_int, ty_float, Ptr ty_cuComplex, Ptr ty_cuComplex]
       ''cusolverSpCcsreigvsi'' ty_cusolverStatus_t [ty_cusolverSpHandle_t, ty_int, ty_int, Const ty_cusparseMatDescr_t, Ptr (Const ty_cuComplex), Ptr (Const ty_int), Ptr (Const ty_int), ty_cuComplex, Ptr (Const ty_cuComplex), ty_int, ty_float, Ptr ty_cuComplex, Ptr ty_cuComplex] ''cusolverSpCcsreigvsi'' [0, 1, 2, 3, 4, 5, 6, 7, 8, 9, 10, 11, 12] False,
     Gen cusolver ty_cusolverStatus_t ''cusolverSpZcsreigvsi'' [ty_cusolverSpHandle_t, ty_int, ty_int, Const ty_cusparseMatDescr_t, Ptr (Const ty_cuDoubleComplex), Ptr (Const ty_int), Ptr (Const ty_int), ty_cuDoubleComplex, Ptr (Const ty_cuDoubleComplex), ty_int, ty_double, Ptr ty_cuDoubleComplex, Ptr ty_cuDoubleComplex]
       ''cusolverSpZcsreigvsi'' ty_cusolverStatus_t [ty_cusolverSpHandle_t, ty_int, ty_int, Const ty_cusparseMatDescr_t, Ptr (Const ty_cuDoubleComplex), Ptr (Const ty_int), Ptr (Const ty_int), ty_cuDoubleComplex, Ptr (Const ty_cuDoubleComplex), ty_int, ty_double, Ptr ty_cuDoubleComplex, Ptr ty_cuDoubleComplex] ''cusolverSpZcsreigvsi'' [0, 1, 2, 3, 4, 5, 6, 7, 8, 9, 10, 11, 12] False,
     Gen cusolver ty_cusolverStatus_t ''cusolverSpScsreigsHost'' [ty_cusolverSpHandle_t, ty_int, ty_int, Const ty_cusparseMatDescr_t, Ptr (Const ty_float), Ptr (Const ty_int), Ptr (Const ty_int), ty_cuComplex, ty_cuComplex, Ptr ty_int]
       ''cusolverSpScsreigsHost'' ty_cusolverStatus_t [ty_cusolverSpHandle_t, ty_int, ty_int, Const ty_cusparseMatDescr_t, Ptr (Const ty_float), Ptr (Const ty_int), Ptr (Const ty_int), ty_cuComplex, ty_cuComplex, Ptr ty_int] ''cusolverSpScsreigsHost'' [0, 1, 2, 3, 4, 5, 6, 7, 8, 9] False,
     Gen cusolver ty_cusolverStatus_t ''cusolverSpDcsreigsHost'' [ty_cusolverSpHandle_t, ty_int, ty_int, Const ty_cusparseMatDescr_t, Ptr (Const ty_double), Ptr (Const ty_int), Ptr (Const ty_int), ty_cuDoubleComplex, ty_cuDoubleComplex, Ptr ty_int]
       ''cusolverSpDcsreigsHost'' ty_cusolverStatus_t [ty_cusolverSpHandle_t, ty_int, ty_int, Const ty_cusparseMatDescr_t, Ptr (Const ty_double), Ptr (Const ty_int), Ptr (Const ty_int), ty_cuDoubleComplex, ty_cuDoubleComplex, Ptr ty_int] ''cusolverSpDcsreigsHost'' [0, 1, 2, 3, 4, 5, 6, 7, 8, 9] False]"

definition cusolver_hooks_39 :: "gen_hook list" where
  "cusolver_hooks_39 =
    [Gen cusolver ty_cusolverStatus_t ''cusolverSpCcsreigsHost'' [ty_cusolverSpHandle_t, ty_int, ty_int, Const ty_cusparseMatDescr_t, Ptr (Const ty_cuComplex), Ptr (Const ty_int), Ptr (Const ty_int), ty_cuComplex, ty_cuComplex, Ptr ty_int]
       ''cusolverSpCcsreigsHost'' ty_cusolverStatus_t [ty_cusolverSpHandle_t, ty_int, ty_int, Const ty_cusparseMatDescr_t, Ptr (Const ty_cuComplex), Ptr (Const ty_int), Ptr (Const ty_int), ty_cuComplex, ty_cuComplex, Ptr ty_int] ''cusolverSpCcsreigsHost'' [0, 1, 2, 3, 4, 5, 6, 7, 8, 9] False,
     Gen cusolver ty_cusolverStatus_t ''cusolverSpZcsreigsHost'' [ty_cusolverSpHandle_t, ty_int, ty_int, Const ty_cusparseMatDescr_t, Ptr (Const ty_cuDoubleComplex), Ptr (Const ty_int), Ptr (Const ty_int), ty_cuDoubleComplex, ty_cuDoubleComplex, Ptr ty_int]
       ''cusolverSpZcsreigsHost'' ty_cusolverStatus_t [ty_cusolverSpHandle_t, ty_int, ty_int, Const ty_cusparseMatDescr_t, Ptr (Const ty_cuDoubleComplex), Ptr (Const ty_int), Ptr (Const ty_int), ty_cuDoubleComplex, ty_cuDoubleComplex, Ptr ty_int] ''cusolverSpZcsreigsHost'' [0, 1, 2, 3, 4, 5, 6, 7, 8, 9] False,
     Gen cusolver ty_cusolverStatus_t ''cusolverSpXcsrsymrcmHost'' [ty_cusolverSpHandle_t, ty_int, ty_int, Const ty_cusparseMatDescr_t, Ptr (Const ty_int), Ptr (Const ty_int), Ptr ty_int]
       ''cusolverSpXcsrsymrcmHost'' ty_cusolverStatus_t [ty_cusolverSpHandle_t, ty_int, ty_int, Const ty_cusparseMatDescr_t, Ptr (Const ty_int), Ptr (Const ty_int), Ptr ty_int] ''cusolverSpXcsrsymrcmHost'' [0, 1, 2, 3, 4, 5, 6] False,
     Gen cusolver ty_cusolverStatus_t ''cusolverSpXcsrsymmdqHost'' [ty_cusolverSpHandle_t, ty_int, ty_int, Const ty_cusparseMatDescr_t, Ptr (Const ty_int), Ptr (Const ty_int), Ptr ty_int]
       ''cusolverSpXcsrsymmdqHost'' ty_cusolverStatus_t [ty_cusolverSpHandle_t, ty_int, ty_int, Const ty_cusparseMatDescr_t, Ptr (Const ty_int), Ptr (Const ty_int), Ptr ty_int] ''cusolverSpXcsrsymmdqHost'' [0, 1, 2, 3, 4, 5, 6] False,
     Gen cusolver ty_cusolverStatus_t ''cusolverSpXcsrsymamdHost'' [ty_cusolverSpHandle_t, ty_int, ty_int, Const ty_cusparseMatDescr_t, Ptr (Const ty_int), Ptr (Const ty_int), Ptr ty_int]
       ''cusolverSpXcsrsymamdHost'' ty_cusolverStatus_t [ty_cusolverSpHandle_t, ty_int, ty_int, Const ty_cusparseMatDescr_t, Ptr (Const ty_int), Ptr (Const ty_int), Ptr ty_int] ''cusolverSpXcsrsymamdHost'' [0, 1, 2, 3, 4, 5, 6] False,
     Gen cusolver ty_cusolverStatus_t ''cusolverSpXcsrmetisndHost'' [ty_cusolverSpHandle_t, ty_int, ty_int, Const ty_cusparseMatDescr_t, Ptr (Const ty_int), Ptr (Const ty_int), Ptr (Const ty_int64_t), Ptr ty_int]
       ''cusolverSpXcsrmetisndHost'' ty_cusolverStatus_t [ty_cusolverSpHandle_t, ty_int, ty_int, Const ty_cusparseMatDescr_t, Ptr (Const ty_int), Ptr (Const ty_int), Ptr (Const ty_int64_t), Ptr ty_int] ''cusolverSpXcsrmetisndHost'' [0, 1, 2, 3, 4, 5, 6, 7] False,
     Gen cusolver ty_cusolverStatus_t ''cusolverSpScsrzfdHost'' [ty_cusolverSpHandle_t, ty_int, ty_int, Const ty_cusparseMatDescr_t, Ptr (Const ty_float), Ptr (Const ty_int), Ptr (Const ty_int), Ptr ty_int, Ptr ty_int]
       ''cusolverSpScsrzfdHost'' ty_cusolverStatus_t [ty_cusolverSpHandle_t, ty_int, ty_int, Const ty_cusparseMatDescr_t, Ptr (Const ty_float), Ptr (Const ty_int), Ptr (Const ty_int), Ptr ty_int, Ptr ty_int] ''cusolverSpScsrzfdHost'' [0, 1, 2, 3, 4, 5, 6, 7, 8] False,
     Gen cusolver ty_cusolverStatus_t ''cusolverSpDcsrzfdHost'' [ty_cusolverSpHandle_t, ty_int, ty_int, Const ty_cusparseMatDescr_t, Ptr (Const ty_double), Ptr (Const ty_int), Ptr (Const ty_int), Ptr ty_int, Ptr ty_int]
       ''cusolverSpDcsrzfdHost'' ty_cusolverStatus_t [ty_cusolverSpHandle_t, ty_int, ty_int, Const ty_cusparseMatDescr_t, Ptr (Const ty_double), Ptr (Const ty_int), Ptr (Const ty_int), Ptr ty_int, Ptr ty_int] ''cusolverSpDcsrzfdHost'' [0, 1, 2, 3, 4, 5, 6, 7, 8] False,
     Gen cusolver ty_cusolverStatus_t ''cusolverSpCcsrzfdHost'' [ty_cusolverSpHandle_t, ty_int, ty_int, Const ty_cusparseMatDescr_t, Ptr (Const ty_cuComplex), Ptr (Const ty_int), Ptr (Const ty_int), Ptr ty_int, Ptr ty_int]
       ''cusolverSpCcsrzfdHost'' ty_cusolverStatus_t [ty_cusolverSpHandle_t, ty_int, ty_int, Const ty_cusparseMatDescr_t, Ptr (Const ty_cuComplex), Ptr (Const ty_int), Ptr (Const ty_int), Ptr ty_int, Ptr ty_int] ''cusolverSpCcsrzfdHost'' [0, 1, 2, 3, 4, 5, 6, 7, 8] False,
     Gen cusolver ty_cusolverStatus_t ''cusolverSpZcsrzfdHost'' [ty_cusolverSpHandle_t, ty_int, ty_int, Const ty_cusparseMatDescr_t, Ptr (Const ty_cuDoubleComplex), Ptr (Const ty_int), Ptr (Const ty_int), Ptr ty_int, Ptr ty_int]
       ''cusolverSpZcsrzfdHost'' ty_cusolverStatus_t [ty_cusolverSpHandle_t, ty_int, ty_int, Const ty_cusparseMatDescr_t, Ptr (Const ty_cuDoubleComplex), Ptr (Const ty_int), Ptr (Const ty_int), Ptr ty_int, Ptr ty_int] ''cusolverSpZcsrzfdHost'' [0, 1, 2, 3, 4, 5, 6, 7, 8] False,
     Gen cusolver ty_cusolverStatus_t ''cusolverSpXcsrperm_bufferSizeHost'' [ty_cusolverSpHandle_t, ty_int, ty_int, ty_int, Const ty_cusparseMatDescr_t, Ptr (Const ty_int), Ptr (Const ty_int), Ptr (Const ty_int), Ptr (Const ty_int), Ptr ty_size_t]
       ''cusolverSpXcsrperm_bufferSizeHost'' ty_cusolverStatus_t [ty_cusolverSpHandle_t, ty_int, ty_int, ty_int, Const ty_cusparseMatDescr_t, Ptr (Const ty_int), Ptr (Const ty_int), Ptr (Const ty_int), Ptr (Const ty_int), Ptr ty_size_t] ''cusolverSpXcsrperm_bufferSizeHost'' [0, 1, 2, 3, 4, 5, 6, 7, 8, 9] False,
     Gen cusolver ty_cusolverStatus_t ''cusolverSpXcsrpermHost'' [ty_cusolverSpHandle_t, ty_int, ty_int, ty_int, Const ty_cusparseMatDescr_t, Ptr ty_int, Ptr ty_int, Ptr (Const ty_int), Ptr (Const ty_int), Ptr ty_int, Ptr ty_void]
       ''cusolverSpXcsrpermHost'' ty_cusolverStatus_t [ty_cusolverSpHandle_t, ty_int, ty_int, ty_int, Const ty_cusparseMatDescr_t, Ptr ty_int, Ptr ty_int, Ptr (Const ty_int), Ptr (Const ty_int), Ptr ty_int, Ptr ty_void] ''cusolverSpXcsrpermHost'' [0, 1, 2, 3, 4, 5, 6, 7, 8, 9, 10] False]"

definition cusolver_hooks_40 :: "gen_hook list" where
  "cusolver_hooks_40 =
    [Gen cusolver ty_cusolverStatus_t ''cusolverSpCreateCsrqrInfo'' [Ptr ty_csrqrInfo_t]
       ''cusolverSpCreateCsrqrInfo'' ty_cusolverStatus_t [Ptr ty_csrqrInfo_t] ''cusolverSpCreateCsrqrInfo'' [0] False,
     Gen cusolver ty_cusolverStatus_t ''cusolverSpDestroyCsrqrInfo'' [ty_csrqrInfo_t]
       ''cusolverSpDestroyCsrqrInfo'' ty_cusolverStatus_t [ty_csrqrInfo_t] ''cusolverSpDestroyCsrqrInfo'' [0] False,
     Gen cusolver ty_cusolverStatus_t ''cusolverSpXcsrqrAnalysisBatched'' [ty_cusolverSpHandle_t, ty_int, ty_int, ty_int, Const ty_cusparseMatDescr_t, Ptr (Const ty_int), Ptr (Const ty_int), ty_csrqrInfo_t]
       ''cusolverSpXcsrqrAnalysisBatched'' ty_cusolverStatus_t [ty_cusolverSpHandle_t, ty_int, ty_int, ty_int, Const ty_cusparseMatDescr_t, Ptr (Const ty_int), Ptr (Const ty_int), ty_csrqrInfo_t] ''cusolverSpXcsrqrAnalysisBatched'' [0, 1, 2, 3, 4, 5, 6, 7] False,
     Gen cusolver ty_cusolverStatus_t ''cusolverSpScsrqrBufferInfoBatched'' [ty_cusolverSpHandle_t, ty_int, ty_int, ty_int, Const ty_cusparseMatDescr_t, Ptr (Const ty_float), Ptr (Const ty_int), Ptr (Const ty_int), ty_int, ty_csrqrInfo_t, Ptr ty_size_t, Ptr ty_size_t]
       ''cusolverSpScsrqrBufferInfoBatched'' ty_cusolverStatus_t [ty_cusolverSpHandle_t, ty_int, ty_int, ty_int, Const ty_cusparseMatDescr_t, Ptr (Const ty_float), Ptr (Const ty_int), Ptr (Const ty_int), ty_int, ty_csrqrInfo_t, Ptr ty_size_t, Ptr ty_size_t] ''cusolverSpScsrqrBufferInfoBatched'' [0, 1, 2, 3, 4, 5, 6, 7, 8, 9, 10, 11] False,
     Gen cusolver ty_cusolverStatus_t ''cusolverSpDcsrqrBufferInfoBatched'' [ty_cusolverSpHandle_t, ty_int, ty_int, ty_int, Const ty_cusparseMatDescr_t, Ptr (Const ty_double), Ptr (Const ty_int), Ptr (Const ty_int), ty_int, ty_csrqrInfo_t, Ptr ty_size_t, Ptr ty_size_t]
       ''cusolverSpDcsrqrBufferInfoBatched'' ty_cusolverStatus_t [ty_cusolverSpHandle_t, ty_int, ty_int, ty_int, Const ty_cusparseMatDescr_t, Ptr (Const ty_double), Ptr (Const ty_int), Ptr (Const ty_int), ty_int, ty_csrqrInfo_t, Ptr ty_size_t, Ptr ty_size_t] ''cusolverSpDcsrqrBufferInfoBatched'' [0, 1, 2, 3, 4, 5, 6, 7, 8, 9, 10, 11] False,
     Gen cusolver ty_cusolverStatus_t ''cusolverSpCcsrqrBufferInfoBatched'' [ty_cusolverSpHandle_t, ty_int, ty_int, ty_int, Const ty_cusparseMatDescr_t, Ptr (Const ty_cuComplex), Ptr (Const ty_int), Ptr (Const ty_int), ty_int, ty_csrqrInfo_t, Ptr ty_size_t, Ptr ty_size_t]
       ''cusolverSpCcsrqrBufferInfoBatched'' ty_cusolverStatus_t [ty_cusolverSpHandle_t, ty_int, ty_int, ty_int, Const ty_cusparseMatDescr_t, Ptr (Const ty_cuComplex), Ptr (Const ty_int), Ptr (Const ty_int), ty_int, ty_csrqrInfo_t, Ptr ty_size_t, Ptr ty_size_t] ''cusolverSpCcsrqrBufferInfoBatched'' [0, 1, 2, 3, 4, 5, 6, 7, 8, 9, 10, 11] False,
     Gen cusolver ty_cusolverStatus_t ''cusolverSpZcsrqrBufferInfoBatched'' [ty_cusolverSpHandle_t, ty_int, ty_int, ty_int, Const ty_cusparseMatDescr_t, Ptr (Const ty_cuDoubleComplex), Ptr (Const ty_int), Ptr (Const ty_int), ty_int, ty_csrqrInfo_t, Ptr ty_size_t, Ptr ty_size_t]
       ''cusolverSpZcsrqrBufferInfoBatched'' ty_cusolverStatus_t [ty_cusolverSpHandle_t, ty_int, ty_int, ty_int, Const ty_cusparseMatDescr_t, Ptr (Const ty_cuDoubleComplex), Ptr (Const ty_int), Ptr (Const ty_int), ty_int, ty_csrqrInfo_t, Ptr ty_size_t, Ptr ty_size_t] ''cusolverSpZcsrqrBufferInfoBatched'' [0, 1, 2, 3, 4, 5, 6, 7, 8, 9, 10, 11] False,
     Gen cusolver ty_cusolverStatus_t ''cusolverSpScsrqrsvBatched'' [ty_cusolverSpHandle_t, ty_int, ty_int, ty_int, Const ty_cusparseMatDescr_t, Ptr (Const ty_float), Ptr (Const ty_int), Ptr (Const ty_int), Ptr (Const ty_float), Ptr ty_float, ty_int, ty_csrqrInfo_t, Ptr ty_void]
       ''cusolverSpScsrqrsvBatched'' ty_cusolverStatus_t [ty_cusolverSpHandle_t, ty_int, ty_int, ty_int, Const ty_cusparseMatDescr_t, Ptr (Const ty_float), Ptr (Const ty_int), Ptr (Const ty_int), Ptr (Const ty_float), Ptr ty_float, ty_int, ty_csrqrInfo_t, Ptr ty_void] ''cusolverSpScsrqrsvBatched'' [0, 1, 2, 3, 4, 5, 6, 7, 8, 9, 10, 11, 12] False,
     Gen cusolver ty_cusolverStatus_t ''cusolverSpDcsrqrsvBatched'' [ty_cusolverSpHandle_t, ty_int, ty_int, ty_int, Const ty_cusparseMatDescr_t, Ptr (Const ty_double), Ptr (Const ty_int), Ptr (Const ty_int), Ptr (Const ty_double), Ptr ty_double, ty_int, ty_csrqrInfo_t, Ptr ty_void]
       ''cusolverSpDcsrqrsvBatched'' ty_cusolverStatus_t [ty_cusolverSpHandle_t, ty_int, ty_int, ty_int, Const ty_cusparseMatDescr_t, Ptr (Const ty_double), Ptr (Const ty_int), Ptr (Const ty_int), Ptr (Const ty_double), Ptr ty_double, ty_int, ty_csrqrInfo_t, Ptr ty_void] ''cusolverSpDcsrqrsvBatched'' [0, 1, 2, 3, 4, 5, 6, 7, 8, 9, 10, 11, 12] False,
     Gen cusolver ty_cusolverStatus_t ''cusolverSpCcsrqrsvBatched'' [ty_cusolverSpHandle_t, ty_int, ty_int, ty_int, Const ty_cusparseMatDescr_t, Ptr (Const ty_cuComplex), Ptr (Const ty_int), Ptr (Const ty_int), Ptr (Const ty_cuComplex), Ptr ty_cuComplex, ty_int, ty_csrqrInfo_t, Ptr ty_void]
       ''cusolverSpCcsrqrsvBatched'' ty_cusolverStatus_t [ty_cusolverSpHandle_t, ty_int, ty_int, ty_int, Const ty_cusparseMatDescr_t, Ptr (Const ty_cuComplex), Ptr (Const ty_int), Ptr (Const ty_int), Ptr (Const ty_cuComplex), Ptr ty_cuComplex, ty_int, ty_csrqrInfo_t, Ptr ty_void] ''cusolverSpCcsrqrsvBatched'' [0, 1, 2, 3, 4, 5, 6, 7, 8, 9, 10, 11, 12] False,
     Gen cusolver ty_cusolverStatus_t ''cusolverSpZcsrqrsvBatched'' [ty_cusolverSpHandle_t, ty_int, ty_int, ty_int, Const ty_cusparseMatDescr_t, Ptr (Const ty_cuDoubleComplex), Ptr (Const ty_int), Ptr (Const ty_int), Ptr (Const ty_cuDoubleComplex), Ptr ty_cuDoubleComplex, ty_int, ty_csrqrInfo_t, Ptr ty_void]
       ''cusolverSpZcsrqrsvBatched'' ty_cusolverStatus_t [ty_cusolverSpHandle_t, ty_int, ty_int, ty_int, Const ty_cusparseMatDescr_t, Ptr (Const ty_cuDoubleComplex), Ptr (Const ty_int), Ptr (Const ty_int), Ptr (Const ty_cuDoubleComplex), Ptr ty_cuDoubleComplex, ty_int, ty_csrqrInfo_t, Ptr ty_void] ''cusolverSpZcsrqrsvBatched'' [0, 1, 2, 3, 4, 5, 6, 7, 8, 9, 10, 11, 12] False,
     Gen cusolver ty_cusolverStatus_t ''cusolverSpCreateCsrluInfoHost'' [Ptr ty_csrluInfoHost_t]
       ''cusolverSpCreateCsrluInfoHost'' ty_cusolverStatus_t [Ptr ty_csrluInfoHost_t] ''cusolverSpCreateCsrluInfoHost'' [0] False]"

definition cusolver_hooks_41 :: "gen_hook list" where
  "cusolver_hooks_41 =
    [Gen cusolver ty_cusolverStatus_t ''cusolverSpDestroyCsrluInfoHost'' [ty_csrluInfoHost_t]
       ''cusolverSpDestroyCsrluInfoHost'' ty_cusolverStatus_t [ty_csrluInfoHost_t] ''cusolverSpDestroyCsrluInfoHost'' [0] False,
     Gen cusolver ty_cusolverStatus_t ''cusolverSpXcsrluAnalysisHost'' [ty_cusolverSpHandle_t, ty_int, ty_int, Const ty_cusparseMatDescr_t, Ptr (Const ty_int), Ptr (Const ty_int), ty_csrluInfoHost_t]
       ''cusolverSpXcsrluAnalysisHost'' ty_cusolverStatus_t [ty_cusolverSpHandle_t, ty_int, ty_int, Const ty_cusparseMatDescr_t, Ptr (Const ty_int), Ptr (Const ty_int), ty_csrluInfoHost_t] ''cusolverSpXcsrluAnalysisHost'' [0, 1, 2, 3, 4, 5, 6] False,
     Gen cusolver ty_cusolverStatus_t ''cusolverSpScsrluBufferInfoHost'' [ty_cusolverSpHandle_t, ty_int, ty_int, Const ty_cusparseMatDescr_t, Ptr (Const ty_float), Ptr (Const ty_int), Ptr (Const ty_int), ty_csrluInfoHost_t, Ptr ty_size_t, Ptr ty_size_t]
       ''cusolverSpScsrluBufferInfoHost'' ty_cusolverStatus_t [ty_cusolverSpHandle_t, ty_int, ty_int, Const ty_cusparseMatDescr_t, Ptr (Const ty_float), Ptr (Const ty_int), Ptr (Const ty_int), ty_csrluInfoHost_t, Ptr ty_size_t, Ptr ty_size_t] ''cusolverSpScsrluBufferInfoHost'' [0, 1, 2, 3, 4, 5, 6, 7, 8, 9] False,
     Gen cusolver ty_cusolverStatus_t ''cusolverSpDcsrluBufferInfoHost'' [ty_cusolverSpHandle_t, ty_int, ty_int, Const ty_cusparseMatDescr_t, Ptr (Const ty_double), Ptr (Const ty_int), Ptr (Const ty_int), ty_csrluInfoHost_t, Ptr ty_size_t, Ptr ty_size_t]
       ''cusolverSpDcsrluBufferInfoHost'' ty_cusolverStatus_t [ty_cusolverSpHandle_t, ty_int, ty_int, Const ty_cusparseMatDescr_t, Ptr (Const ty_double), Ptr (Const ty_int), Ptr (Const ty_int), ty_csrluInfoHost_t, Ptr ty_size_t, Ptr ty_size_t] ''cusolverSpDcsrluBufferInfoHost'' [0, 1, 2, 3, 4, 5, 6, 7, 8, 9] False,
     Gen cusolver ty_cusolverStatus_t ''cusolverSpCcsrluBufferInfoHost'' [ty_cusolverSpHandle_t, ty_int, ty_int, Const ty_cusparseMatDescr_t, Ptr (Const ty_cuComplex), Ptr (Const ty_int), Ptr (Const ty_int), ty_csrluInfoHost_t, Ptr ty_size_t, Ptr ty_size_t]
       ''cusolverSpCcsrluBufferInfoHost'' ty_cusolverStatus_t [ty_cusolverSpHandle_t, ty_int, ty_int, Const ty_cusparseMatDescr_t, Ptr (Const ty_cuComplex), Ptr (Const ty_int), Ptr (Const ty_int), ty_csrluInfoHost_t, Ptr ty_size_t, Ptr ty_size_t] ''cusolverSpCcsrluBufferInfoHost'' [0, 1, 2, 3, 4, 5, 6, 7, 8, 9] False,
     Gen cusolver ty_cusolverStatus_t ''cusolverSpZcsrluBufferInfoHost'' [ty_cusolverSpHandle_t, ty_int, ty_int, Const ty_cusparseMatDescr_t, Ptr (Const ty_cuDoubleComplex), Ptr (Const ty_int), Ptr (Const ty_int), ty_csrluInfoHost_t, Ptr ty_size_t, Ptr ty_size_t]
       ''cusolverSpZcsrluBufferInfoHost'' ty_cusolverStatus_t [ty_cusolverSpHandle_t, ty_int, ty_int, Const ty_cusparseMatDescr_t, Ptr (Const ty_cuDoubleComplex), Ptr (Const ty_int), Ptr (Const ty_int), ty_csrluInfoHost_t, Ptr ty_size_t, Ptr ty_size_t] ''cusolverSpZcsrluBufferInfoHost'' [0, 1, 2, 3, 4, 5, 6, 7, 8, 9] False,
     Gen cusolver ty_cusolverStatus_t ''cusolverSpScsrluFactorHost'' [ty_cusolverSpHandle_t, ty_int, ty_int, Const ty_cusparseMatDescr_t, Ptr (Const ty_float), Ptr (Const ty_int), Ptr (Const ty_int), ty_csrluInfoHost_t, ty_float, Ptr ty_void]
       ''cusolverSpScsrluFactorHost'' ty_cusolverStatus_t [ty_cusolverSpHandle_t, ty_int, ty_int, Const ty_cusparseMatDescr_t, Ptr (Const ty_float), Ptr (Const ty_int), Ptr (Const ty_int), ty_csrluInfoHost_t, ty_float, Ptr ty_void] ''cusolverSpScsrluFactorHost'' [0, 1, 2, 3, 4, 5, 6, 7, 8, 9] False,
     Gen cusolver ty_cusolverStatus_t ''cusolverSpDcsrluFactorHost'' [ty_cusolverSpHandle_t, ty_int, ty_int, Const ty_cusparseMatDescr_t, Ptr (Const ty_double), Ptr (Const ty_int), Ptr (Const ty_int), ty_csrluInfoHost_t, ty_double, Ptr ty_void]
       ''cusolverSpDcsrluFactorHost'' ty_cusolverStatus_t [ty_cusolverSpHandle_t, ty_int, ty_int, Const ty_cusparseMatDescr_t, Ptr (Const ty_double), Ptr (Const ty_int), Ptr (Const ty_int), ty_csrluInfoHost_t, ty_double, Ptr ty_void] ''cusolverSpDcsrluFactorHost'' [0, 1, 2, 3, 4, 5, 6, 7, 8, 9] False,
     Gen cusolver ty_cusolverStatus_t ''cusolverSpCcsrluFactorHost'' [ty_cusolverSpHandle_t, ty_int, ty_int, Const ty_cusparseMatDescr_t, Ptr (Const ty_cuComplex), Ptr (Const ty_int), Ptr (Const ty_int), ty_csrluInfoHost_t, ty_float, Ptr ty_void]
       ''cusolverSpCcsrluFactorHost'' ty_cusolverStatus_t [ty_cusolverSpHandle_t, ty_int, ty_int, Const ty_cusparseMatDescr_t, Ptr (Const ty_cuComplex), Ptr (Const ty_int), Ptr (Const ty_int), ty_csrluInfoHost_t, ty_float, Ptr ty_void] ''cusolverSpCcsrluFactorHost'' [0, 1, 2, 3, 4, 5, 6, 7, 8, 9] False,
     Gen cusolver ty_cusolverStatus_t ''cusolverSpZcsrluFactorHost'' [ty_cusolverSpHandle_t, ty_int, ty_int, Const ty_cusparseMatDescr_t, Ptr (Const ty_cuDoubleComplex), Ptr (Const ty_int), Ptr (Const ty_int), ty_csrluInfoHost_t, ty_double, Ptr ty_void]
       ''cusolverSpZcsrluFactorHost'' ty_cusolverStatus_t [ty_cusolverSpHandle_t, ty_int, ty_int, Const ty_cusparseMatDescr_t, Ptr (Const ty_cuDoubleComplex), Ptr (Const ty_int), Ptr (Const ty_int), ty_csrluInfoHost_t, ty_double, Ptr ty_void] ''cusolverSpZcsrluFactorHost'' [0, 1, 2, 3, 4, 5, 6, 7, 8, 9] False,
     Gen cusolver ty_cusolverStatus_t ''cusolverSpScsrluZeroPivotHost'' [ty_cusolverSpHandle_t, ty_csrluInfoHost_t, ty_float, Ptr ty_int]
       ''cusolverSpScsrluZeroPivotHost'' ty_cusolverStatus_t [ty_cusolverSpHandle_t, ty_csrluInfoHost_t, ty_float, Ptr ty_int] ''cusolverSpScsrluZeroPivotHost'' [0, 1, 2, 3] False,
     Gen cusolver ty_cusolverStatus_t ''cusolverSpDcsrluZeroPivotHost'' [ty_cusolverSpHandle_t, ty_csrluInfoHost_t, ty_double, Ptr ty_int]
       ''cusolverSpDcsrluZeroPivotHost'' ty_cusolverStatus_t [ty_cusolverSpHandle_t, ty_csrluInfoHost_t, ty_double, Ptr ty_int] ''cusolverSpDcsrluZeroPivotHost'' [0, 1, 2, 3] False]"

definition cusolver_hooks_42 :: "gen_hook list" where
  "cusolver_hooks_42 =
    [Gen cusolver ty_cusolverStatus_t ''cusolverSpCcsrluZeroPivotHost'' [ty_cusolverSpHandle_t, ty_csrluInfoHost_t, ty_float, Ptr ty_int]
       ''cusolverSpCcsrluZeroPivotHost'' ty_cusolverStatus_t [ty_cusolverSpHandle_t, ty_csrluInfoHost_t, ty_float, Ptr ty_int] ''cusolverSpCcsrluZeroPivotHost'' [0, 1, 2, 3] False,
     Gen cusolver ty_cusolverStatus_t ''cusolverSpZcsrluZeroPivotHost'' [ty_cusolverSpHandle_t, ty_csrluInfoHost_t, ty_double, Ptr ty_int]
       ''cusolverSpZcsrluZeroPivotHost'' ty_cusolverStatus_t [ty_cusolverSpHandle_t, ty_csrluInfoHost_t, ty_double, Ptr ty_int] ''cusolverSpZcsrluZeroPivotHost'' [0, 1, 2, 3] False,
     Gen cusolver ty_cusolverStatus_t ''cusolverSpScsrluSolveHost'' [ty_cusolverSpHandle_t, ty_int, Ptr (Const ty_float), Ptr ty_float, ty_csrluInfoHost_t, Ptr ty_void]
       ''cusolverSpScsrluSolveHost'' ty_cusolverStatus_t [ty_cusolverSpHandle_t, ty_int, Ptr (Const ty_float), Ptr ty_float, ty_csrluInfoHost_t, Ptr ty_void] ''cusolverSpScsrluSolveHost'' [0, 1, 2, 3, 4, 5] False,
     Gen cusolver ty_cusolverStatus_t ''cusolverSpDcsrluSolveHost'' [ty_cusolverSpHandle_t, ty_int, Ptr (Const ty_double), Ptr ty_double, ty_csrluInfoHost_t, Ptr ty_void]
       ''cusolverSpDcsrluSolveHost'' ty_cusolverStatus_t [ty_cusolverSpHandle_t, ty_int, Ptr (Const ty_double), Ptr ty_double, ty_csrluInfoHost_t, Ptr ty_void] ''cusolverSpDcsrluSolveHost'' [0, 1, 2, 3, 4, 5] False,
     Gen cusolver ty_cusolverStatus_t ''cusolverSpCcsrluSolveHost'' [ty_cusolverSpHandle_t, ty_int, Ptr (Const ty_cuComplex), Ptr ty_cuComplex, ty_csrluInfoHost_t, Ptr ty_void]
       ''cusolverSpCcsrluSolveHost'' ty_cusolverStatus_t [ty_cusolverSpHandle_t, ty_int, Ptr (Const ty_cuComplex), Ptr ty_cuComplex, ty_csrluInfoHost_t, Ptr ty_void] ''cusolverSpCcsrluSolveHost'' [0, 1, 2, 3, 4, 5] False,
     Gen cusolver ty_cusolverStatus_t ''cusolverSpZcsrluSolveHost'' [ty_cusolverSpHandle_t, ty_int, Ptr (Const ty_cuDoubleComplex), Ptr ty_cuDoubleComplex, ty_csrluInfoHost_t, Ptr ty_void]
       ''cusolverSpZcsrluSolveHost'' ty_cusolverStatus_t [ty_cusolverSpHandle_t, ty_int, Ptr (Const ty_cuDoubleComplex), Ptr ty_cuDoubleComplex, ty_csrluInfoHost_t, Ptr ty_void] ''cusolverSpZcsrluSolveHost'' [0, 1, 2, 3, 4, 5] False,
     Gen cusolver ty_cusolverStatus_t ''cusolverSpXcsrluNnzHost'' [ty_cusolverSpHandle_t, Ptr ty_int, Ptr ty_int, ty_csrluInfoHost_t]
       ''cusolverSpXcsrluNnzHost'' ty_cusolverStatus_t [ty_cusolverSpHandle_t, Ptr ty_int, Ptr ty_int, ty_csrluInfoHost_t] ''cusolverSpXcsrluNnzHost'' [0, 1, 2, 3] False,
     Gen cusolver ty_cusolverStatus_t ''cusolverSpScsrluExtractHost'' [ty_cusolverSpHandle_t, Ptr ty_int, Ptr ty_int, Const ty_cusparseMatDescr_t, Ptr ty_float, Ptr ty_int, Ptr ty_int, Const ty_cusparseMatDescr_t, Ptr ty_float, Ptr ty_int, Ptr ty_int, ty_csrluInfoHost_t, Ptr ty_void]
       ''cusolverSpScsrluExtractHost'' ty_cusolverStatus_t [ty_cusolverSpHandle_t, Ptr ty_int, Ptr ty_int, Const ty_cusparseMatDescr_t, Ptr ty_float, Ptr ty_int, Ptr ty_int, Const ty_cusparseMatDescr_t, Ptr ty_float, Ptr ty_int, Ptr ty_int, ty_csrluInfoHost_t, Ptr ty_void] ''cusolverSpScsrluExtractHost'' [0, 1, 2, 3, 4, 5, 6, 7, 8, 9, 10, 11, 12] False,
     Gen cusolver ty_cusolverStatus_t ''cusolverSpDcsrluExtractHost'' [ty_cusolverSpHandle_t, Ptr ty_int, Ptr ty_int, Const ty_cusparseMatDescr_t, Ptr ty_double, Ptr ty_int, Ptr ty_int, Const ty_cusparseMatDescr_t, Ptr ty_double, Ptr ty_int, Ptr ty_int, ty_csrluInfoHost_t, Ptr ty_void]
       ''cusolverSpDcsrluExtractHost'' ty_cusolverStatus_t [ty_cusolverSpHandle_t, Ptr ty_int, Ptr ty_int, Const ty_cusparseMatDescr_t, Ptr ty_double, Ptr ty_int, Ptr ty_int, Const ty_cusparseMatDescr_t, Ptr ty_double, Ptr ty_int, Ptr ty_int, ty_csrluInfoHost_t, Ptr ty_void] ''cusolverSpDcsrluExtractHost'' [0, 1, 2, 3, 4, 5, 6, 7, 8, 9, 10, 11, 12] False,
     Gen cusolver ty_cusolverStatus_t ''cusolverSpCcsrluExtractHost'' [ty_cusolverSpHandle_t, Ptr ty_int, Ptr ty_int, Const ty_cusparseMatDescr_t, Ptr ty_cuComplex, Ptr ty_int, Ptr ty_int, Const ty_cusparseMatDescr_t, Ptr ty_cuComplex, Ptr ty_int, Ptr ty_int, ty_csrluInfoHost_t, Ptr ty_void]
       ''cusolverSpCcsrluExtractHost'' ty_cusolverStatus_t [ty_cusolverSpHandle_t, Ptr ty_int, Ptr ty_int, Const ty_cusparseMatDescr_t, Ptr ty_cuComplex, Ptr ty_int, Ptr ty_int, Const ty_cusparseMatDescr_t, Ptr ty_cuComplex, Ptr ty_int, Ptr ty_int, ty_csrluInfoHost_t, Ptr ty_void] ''cusolverSpCcsrluExtractHost'' [0, 1, 2, 3, 4, 5, 6, 7, 8, 9, 10, 11, 12] False,
     Gen cusolver ty_cusolverStatus_t ''cusolverSpZcsrluExtractHost'' [ty_cusolverSpHandle_t, Ptr ty_int, Ptr ty_int, Const ty_cusparseMatDescr_t, Ptr ty_cuDoubleComplex, Ptr ty_int, Ptr ty_int, Const ty_cusparseMatDescr_t, Ptr ty_cuDoubleComplex, Ptr ty_int, Ptr ty_int, ty_csrluInfoHost_t, Ptr ty_void]
       ''cusolverSpZcsrluExtractHost'' ty_cusolverStatus_t [ty_cusolverSpHandle_t, Ptr ty_int, Ptr ty_int, Const ty_cusparseMatDescr_t, Ptr ty_cuDoubleComplex, Ptr ty_int, Ptr ty_int, Const ty_cusparseMatDescr_t, Ptr ty_cuDoubleComplex, Ptr ty_int, Ptr ty_int, ty_csrluInfoHost_t, Ptr ty_void] ''cusolverSpZcsrluExtractHost'' [0, 1, 2, 3, 4, 5, 6, 7, 8, 9, 10, 11, 12] False,
     Gen cusolver ty_cusolverStatus_t ''cusolverSpCreateCsrqrInfoHost'' [Ptr ty_csrqrInfoHost_t]
       ''cusolverSpCreateCsrqrInfoHost'' ty_cusolverStatus_t [Ptr ty_csrqrInfoHost_t] ''cusolverSpCreateCsrqrInfoHost'' [0] False,
     Gen cusolver ty_cusolverStatus_t ''cusolverSpDestroyCsrqrInfoHost'' [ty_csrqrInfoHost_t]
       ''cusolverSpDestroyCsrqrInfoHost'' ty_cusolverStatus_t [ty_csrqrInfoHost_t] ''cusolverSpDestroyCsrqrInfoHost'' [0] False]"

definition cusolver_hooks_43 :: "gen_hook list" where
  "cusolver_hooks_43 =
    [Gen cusolver ty_cusolverStatus_t ''cusolverSpXcsrqrAnalysisHost'' [ty_cusolverSpHandle_t, ty_int, ty_int, ty_int, Const ty_cusparseMatDescr_t, Ptr (Const ty_int), Ptr (Const ty_int), ty_csrqrInfoHost_t]
       ''cusolverSpXcsrqrAnalysisHost'' ty_cusolverStatus_t [ty_cusolverSpHandle_t, ty_int, ty_int, ty_int, Const ty_cusparseMatDescr_t, Ptr (Const ty_int), Ptr (Const ty_int), ty_csrqrInfoHost_t] ''cusolverSpXcsrqrAnalysisHost'' [0, 1, 2, 3, 4, 5, 6, 7] False,
     Gen cusolver ty_cusolverStatus_t ''cusolverSpScsrqrBufferInfoHost'' [ty_cusolverSpHandle_t, ty_int, ty_int, ty_int, Const ty_cusparseMatDescr_t, Ptr (Const ty_float), Ptr (Const ty_int), Ptr (Const ty_int), ty_csrqrInfoHost_t, Ptr ty_size_t, Ptr ty_size_t]
       ''cusolverSpScsrqrBufferInfoHost'' ty_cusolverStatus_t [ty_cusolverSpHandle_t, ty_int, ty_int, ty_int, Const ty_cusparseMatDescr_t, Ptr (Const ty_float), Ptr (Const ty_int), Ptr (Const ty_int), ty_csrqrInfoHost_t, Ptr ty_size_t, Ptr ty_size_t] ''cusolverSpScsrqrBufferInfoHost'' [0, 1, 2, 3, 4, 5, 6, 7, 8, 9, 10] False,
     Gen cusolver ty_cusolverStatus_t ''cusolverSpDcsrqrBufferInfoHost'' [ty_cusolverSpHandle_t, ty_int, ty_int, ty_int, Const ty_cusparseMatDescr_t, Ptr (Const ty_double), Ptr (Const ty_int), Ptr (Const ty_int), ty_csrqrInfoHost_t, Ptr ty_size_t, Ptr ty_size_t]
       ''cusolverSpDcsrqrBufferInfoHost'' ty_cusolverStatus_t [ty_cusolverSpHandle_t, ty_int, ty_int, ty_int, Const ty_cusparseMatDescr_t, Ptr (Const ty_double), Ptr (Const ty_int), Ptr (Const ty_int), ty_csrqrInfoHost_t, Ptr ty_size_t, Ptr ty_size_t] ''cusolverSpDcsrqrBufferInfoHost'' [0, 1, 2, 3, 4, 5, 6, 7, 8, 9, 10] False,
     Gen cusolver ty_cusolverStatus_t ''cusolverSpCcsrqrBufferInfoHost'' [ty_cusolverSpHandle_t, ty_int, ty_int, ty_int, Const ty_cusparseMatDescr_t, Ptr (Const ty_cuComplex), Ptr (Const ty_int), Ptr (Const ty_int), ty_csrqrInfoHost_t, Ptr ty_size_t, Ptr ty_size_t]
       ''cusolverSpCcsrqrBufferInfoHost'' ty_cusolverStatus_t [ty_cusolverSpHandle_t, ty_int, ty_int, ty_int, Const ty_cusparseMatDescr_t, Ptr (Const ty_cuComplex), Ptr (Const ty_int), Ptr (Const ty_int), ty_csrqrInfoHost_t, Ptr ty_size_t, Ptr ty_size_t] ''cusolverSpCcsrqrBufferInfoHost'' [0, 1, 2, 3, 4, 5, 6, 7, 8, 9, 10] False,
     Gen cusolver ty_cusolverStatus_t ''cusolverSpZcsrqrBufferInfoHost'' [ty_cusolverSpHandle_t, ty_int, ty_int, ty_int, Const ty_cusparseMatDescr_t, Ptr (Const ty_cuDoubleComplex), Ptr (Const ty_int), Ptr (Const ty_int), ty_csrqrInfoHost_t, Ptr ty_size_t, Ptr ty_size_t]
       ''cusolverSpZcsrqrBufferInfoHost'' ty_cusolverStatus_t [ty_cusolverSpHandle_t, ty_int, ty_int, ty_int, Const ty_cusparseMatDescr_t, Ptr (Const ty_cuDoubleComplex), Ptr (Const ty_int), Ptr (Const ty_int), ty_csrqrInfoHost_t, Ptr ty_size_t, Ptr ty_size_t] ''cusolverSpZcsrqrBufferInfoHost'' [0, 1, 2, 3, 4, 5, 6, 7, 8, 9, 10] False,
     Gen cusolver ty_cusolverStatus_t ''cusolverSpScsrqrSetupHost'' [ty_cusolverSpHandle_t, ty_int, ty_int, ty_int, Const ty_cusparseMatDescr_t, Ptr (Const ty_float), Ptr (Const ty_int), Ptr (Const ty_int), ty_float, ty_csrqrInfoHost_t]
       ''cusolverSpScsrqrSetupHost'' ty_cusolverStatus_t [ty_cusolverSpHandle_t, ty_int, ty_int, ty_int, Const ty_cusparseMatDescr_t, Ptr (Const ty_float), Ptr (Const ty_int), Ptr (Const ty_int), ty_float, ty_csrqrInfoHost_t] ''cusolverSpScsrqrSetupHost'' [0, 1, 2, 3, 4, 5, 6, 7, 8, 9] False,
     Gen cusolver ty_cusolverStatus_t ''cusolverSpDcsrqrSetupHost'' [ty_cusolverSpHandle_t, ty_int, ty_int, ty_int, Const ty_cusparseMatDescr_t, Ptr (Const ty_double), Ptr (Const ty_int), Ptr (Const ty_int), ty_double, ty_csrqrInfoHost_t]
       ''cusolverSpDcsrqrSetupHost'' ty_cusolverStatus_t [ty_cusolverSpHandle_t, ty_int, ty_int, ty_int, Const ty_cusparseMatDescr_t, Ptr (Const ty_double), Ptr (Const ty_int), Ptr (Const ty_int), ty_double, ty_csrqrInfoHost_t] ''cusolverSpDcsrqrSetupHost'' [0, 1, 2, 3, 4, 5, 6, 7, 8, 9] False,
     Gen cusolver ty_cusolverStatus_t ''cusolverSpCcsrqrSetupHost'' [ty_cusolverSpHandle_t, ty_int, ty_int, ty_int, Const ty_cusparseMatDescr_t, Ptr (Const ty_cuComplex), Ptr (Const ty_int), Ptr (Const ty_int), ty_cuComplex, ty_csrqrInfoHost_t]
       ''cusolverSpCcsrqrSetupHost'' ty_cusolverStatus_t [ty_cusolverSpHandle_t, ty_int, ty_int, ty_int, Const ty_cusparseMatDescr_t, Ptr (Const ty_cuComplex), Ptr (Const ty_int), Ptr (Const ty_int), ty_cuComplex, ty_csrqrInfoHost_t] ''cusolverSpCcsrqrSetupHost'' [0, 1, 2, 3, 4, 5, 6, 7, 8, 9] False,
     Gen cusolver ty_cusolverStatus_t ''cusolverSpZcsrqrSetupHost'' [ty_cusolverSpHandle_t, ty_int, ty_int, ty_int, Const ty_cusparseMatDescr_t, Ptr (Const ty_cuDoubleComplex), Ptr (Const ty_int), Ptr (Const ty_int), ty_cuDoubleComplex, ty_csrqrInfoHost_t]
       ''cusolverSpZcsrqrSetupHost'' ty_cusolverStatus_t [ty_cusolverSpHandle_t, ty_int, ty_int, ty_int, Const ty_cusparseMatDescr_t, Ptr (Const ty_cuDoubleComplex), Ptr (Const ty_int), Ptr (Const ty_int), ty_cuDoubleComplex, ty_csrqrInfoHost_t] ''cusolverSpZcsrqrSetupHost'' [0, 1, 2, 3, 4, 5, 6, 7, 8, 9] False,
     Gen cusolver ty_cusolverStatus_t ''cusolverSpScsrqrFactorHost'' [ty_cusolverSpHandle_t, ty_int, ty_int, ty_int, Ptr ty_float, Ptr ty_float, ty_csrqrInfoHost_t, Ptr ty_void]
       ''cusolverSpScsrqrFactorHost'' ty_cusolverStatus_t [ty_cusolverSpHandle_t, ty_int, ty_int, ty_int, Ptr ty_float, Ptr ty_float, ty_csrqrInfoHost_t, Ptr ty_void] ''cusolverSpScsrqrFactorHost'' [0, 1, 2, 3, 4, 5, 6, 7] False,
     Gen cusolver ty_cusolverStatus_t ''cusolverSpDcsrqrFactorHost'' [ty_cusolverSpHandle_t, ty_int, ty_int, ty_int, Ptr ty_double, Ptr ty_double, ty_csrqrInfoHost_t, Ptr ty_void]
       ''cusolverSpDcsrqrFactorHost'' ty_cusolverStatus_t [ty_cusolverSpHandle_t, ty_int, ty_int, ty_int, Ptr ty_double, Ptr ty_double, ty_csrqrInfoHost_t, Ptr ty_void] ''cusolverSpDcsrqrFactorHost'' [0, 1, 2, 3, 4, 5, 6, 7] False]"

definition cusolver_hooks_44 :: "gen_hook list" where
  "cusolver_hooks_44 =
    [Gen cusolver ty_cusolverStatus_t ''cusolverSpCcsrqrFactorHost'' [ty_cusolverSpHandle_t, ty_int, ty_int, ty_int, Ptr ty_cuComplex, Ptr ty_cuComplex, ty_csrqrInfoHost_t, Ptr ty_void]
       ''cusolverSpCcsrqrFactorHost'' ty_cusolverStatus_t [ty_cusolverSpHandle_t, ty_int, ty_int, ty_int, Ptr ty_cuComplex, Ptr ty_cuComplex, ty_csrqrInfoHost_t, Ptr ty_void] ''cusolverSpCcsrqrFactorHost'' [0, 1, 2, 3, 4, 5, 6, 7] False,
     Gen cusolver ty_cusolverStatus_t ''cusolverSpZcsrqrFactorHost'' [ty_cusolverSpHandle_t, ty_int, ty_int, ty_int, Ptr ty_cuDoubleComplex, Ptr ty_cuDoubleComplex, ty_csrqrInfoHost_t, Ptr ty_void]
       ''cusolverSpZcsrqrFactorHost'' ty_cusolverStatus_t [ty_cusolverSpHandle_t, ty_int, ty_int, ty_int, Ptr ty_cuDoubleComplex, Ptr ty_cuDoubleComplex, ty_csrqrInfoHost_t, Ptr ty_void] ''cusolverSpZcsrqrFactorHost'' [0, 1, 2, 3, 4, 5, 6, 7] False,
     Gen cusolver ty_cusolverStatus_t ''cusolverSpScsrqrZeroPivotHost'' [ty_cusolverSpHandle_t, ty_csrqrInfoHost_t, ty_float, Ptr ty_int]
       ''cusolverSpScsrqrZeroPivotHost'' ty_cusolverStatus_t [ty_cusolverSpHandle_t, ty_csrqrInfoHost_t, ty_float, Ptr ty_int] ''cusolverSpScsrqrZeroPivotHost'' [0, 1, 2, 3] False,
     Gen cusolver ty_cusolverStatus_t ''cusolverSpDcsrqrZeroPivotHost'' [ty_cusolverSpHandle_t, ty_csrqrInfoHost_t, ty_double, Ptr ty_int]
       ''cusolverSpDcsrqrZeroPivotHost'' ty_cusolverStatus_t [ty_cusolverSpHandle_t, ty_csrqrInfoHost_t, ty_double, Ptr ty_int] ''cusolverSpDcsrqrZeroPivotHost'' [0, 1, 2, 3] False,
     Gen cusolver ty_cusolverStatus_t ''cusolverSpCcsrqrZeroPivotHost'' [ty_cusolverSpHandle_t, ty_csrqrInfoHost_t, ty_float, Ptr ty_int]
       ''cusolverSpCcsrqrZeroPivotHost'' ty_cusolverStatus_t [ty_cusolverSpHandle_t, ty_csrqrInfoHost_t, ty_float, Ptr ty_int] ''cusolverSpCcsrqrZeroPivotHost'' [0, 1, 2, 3] False,
     Gen cusolver ty_cusolverStatus_t ''cusolverSpZcsrqrZeroPivotHost'' [ty_cusolverSpHandle_t, ty_csrqrInfoHost_t, ty_double, Ptr ty_int]
       ''cusolverSpZcsrqrZeroPivotHost'' ty_cusolverStatus_t [ty_cusolverSpHandle_t, ty_csrqrInfoHost_t, ty_double, Ptr ty_int] ''cusolverSpZcsrqrZeroPivotHost'' [0, 1, 2, 3] False,
     Gen cusolver ty_cusolverStatus_t ''cusolverSpScsrqrSolveHost'' [ty_cusolverSpHandle_t, ty_int, ty_int, Ptr ty_float, Ptr ty_float, ty_csrqrInfoHost_t, Ptr ty_void]
       ''cusolverSpScsrqrSolveHost'' ty_cusolverStatus_t [ty_cusolverSpHandle_t, ty_int, ty_int, Ptr ty_float, Ptr ty_float, ty_csrqrInfoHost_t, Ptr ty_void] ''cusolverSpScsrqrSolveHost'' [0, 1, 2, 3, 4, 5, 6] False,
     Gen cusolver ty_cusolverStatus_t ''cusolverSpDcsrqrSolveHost'' [ty_cusolverSpHandle_t, ty_int, ty_int, Ptr ty_double, Ptr ty_double, ty_csrqrInfoHost_t, Ptr ty_void]
       ''cusolverSpDcsrqrSolveHost'' ty_cusolverStatus_t [ty_cusolverSpHandle_t, ty_int, ty_int, Ptr ty_double, Ptr ty_double, ty_csrqrInfoHost_t, Ptr ty_void] ''cusolverSpDcsrqrSolveHost'' [0, 1, 2, 3, 4, 5, 6] False,
     Gen cusolver ty_cusolverStatus_t ''cusolverSpCcsrqrSolveHost'' [ty_cusolverSpHandle_t, ty_int, ty_int, Ptr ty_cuComplex, Ptr ty_cuComplex, ty_csrqrInfoHost_t, Ptr ty_void]
       ''cusolverSpCcsrqrSolveHost'' ty_cusolverStatus_t [ty_cusolverSpHandle_t, ty_int, ty_int, Ptr ty_cuComplex, Ptr ty_cuComplex, ty_csrqrInfoHost_t, Ptr ty_void] ''cusolverSpCcsrqrSolveHost'' [0, 1, 2, 3, 4, 5, 6] False,
     Gen cusolver ty_cusolverStatus_t ''cusolverSpZcsrqrSolveHost'' [ty_cusolverSpHandle_t, ty_int, ty_int, Ptr ty_cuDoubleComplex, Ptr ty_cuDoubleComplex, ty_csrqrInfoHost_t, Ptr ty_void]
       ''cusolverSpZcsrqrSolveHost'' ty_cusolverStatus_t [ty_cusolverSpHandle_t, ty_int, ty_int, Ptr ty_cuDoubleComplex, Ptr ty_cuDoubleComplex, ty_csrqrInfoHost_t, Ptr ty_void] ''cusolverSpZcsrqrSolveHost'' [0, 1, 2, 3, 4, 5, 6] False,
     Gen cusolver ty_cusolverStatus_t ''cusolverSpXcsrqrAnalysis'' [ty_cusolverSpHandle_t, ty_int, ty_int, ty_int, Const ty_cusparseMatDescr_t, Ptr (Const ty_int), Ptr (Const ty_int), ty_csrqrInfo_t]
       ''cusolverSpXcsrqrAnalysis'' ty_cusolverStatus_t [ty_cusolverSpHandle_t, ty_int, ty_int, ty_int, Const ty_cusparseMatDescr_t, Ptr (Const ty_int), Ptr (Const ty_int), ty_csrqrInfo_t] ''cusolverSpXcsrqrAnalysis'' [0, 1, 2, 3, 4, 5, 6, 7] False,
     Gen cusolver ty_cusolverStatus_t ''cusolverSpScsrqrBufferInfo'' [ty_cusolverSpHandle_t, ty_int, ty_int, ty_int, Const ty_cusparseMatDescr_t, Ptr (Const ty_float), Ptr (Const ty_int), Ptr (Const ty_int), ty_csrqrInfo_t, Ptr ty_size_t, Ptr ty_size_t]
       ''cusolverSpScsrqrBufferInfo'' ty_cusolverStatus_t [ty_cusolverSpHandle_t, ty_int, ty_int, ty_int, Const ty_cusparseMatDescr_t, Ptr (Const ty_float), Ptr (Const ty_int), Ptr (Const ty_int), ty_csrqrInfo_t, Ptr ty_size_t, Ptr ty_size_t] ''cusolverSpScsrqrBufferInfo'' [0, 1, 2, 3, 4, 5, 6, 7, 8, 9, 10] False,
     Gen cusolver ty_cusolverStatus_t ''cusolverSpDcsrqrBufferInfo'' [ty_cusolverSpHandle_t, ty_int, ty_int, ty_int, Const ty_cusparseMatDescr_t, Ptr (Const ty_double), Ptr (Const ty_int), Ptr (Const ty_int), ty_csrqrInfo_t, Ptr ty_size_t, Ptr ty_size_t]
       ''cusolverSpDcsrqrBufferInfo'' ty_cusolverStatus_t [ty_cusolverSpHandle_t, ty_int, ty_int, ty_int, Const ty_cusparseMatDescr_t, Ptr (Const ty_double), Ptr (Const ty_int), Ptr (Const ty_int), ty_csrqrInfo_t, Ptr ty_size_t, Ptr ty_size_t] ''cusolverSpDcsrqrBufferInfo'' [0, 1, 2, 3, 4, 5, 6, 7, 8, 9, 10] False]"

definition cusolver_hooks_45 :: "gen_hook list" where
  "cusolver_hooks_45 =
    [Gen cusolver ty_cusolverStatus_t ''cusolverSpCcsrqrBufferInfo'' [ty_cusolverSpHandle_t, ty_int, ty_int, ty_int, Const ty_cusparseMatDescr_t, Ptr (Const ty_cuComplex), Ptr (Const ty_int), Ptr (Const ty_int), ty_csrqrInfo_t, Ptr ty_size_t, Ptr ty_size_t]
       ''cusolverSpCcsrqrBufferInfo'' ty_cusolverStatus_t [ty_cusolverSpHandle_t, ty_int, ty_int, ty_int, Const ty_cusparseMatDescr_t, Ptr (Const ty_cuComplex), Ptr (Const ty_int), Ptr (Const ty_int), ty_csrqrInfo_t, Ptr ty_size_t, Ptr ty_size_t] ''cusolverSpCcsrqrBufferInfo'' [0, 1, 2, 3, 4, 5, 6, 7, 8, 9, 10] False,
     Gen cusolver ty_cusolverStatus_t ''cusolverSpZcsrqrBufferInfo'' [ty_cusolverSpHandle_t, ty_int, ty_int, ty_int, Const ty_cusparseMatDescr_t, Ptr (Const ty_cuDoubleComplex), Ptr (Const ty_int), Ptr (Const ty_int), ty_csrqrInfo_t, Ptr ty_size_t, Ptr ty_size_t]
       ''cusolverSpZcsrqrBufferInfo'' ty_cusolverStatus_t [ty_cusolverSpHandle_t, ty_int, ty_int, ty_int, Const ty_cusparseMatDescr_t, Ptr (Const ty_cuDoubleComplex), Ptr (Const ty_int), Ptr (Const ty_int), ty_csrqrInfo_t, Ptr ty_size_t, Ptr ty_size_t] ''cusolverSpZcsrqrBufferInfo'' [0, 1, 2, 3, 4, 5, 6, 7, 8, 9, 10] False,
     Gen cusolver ty_cusolverStatus_t ''cusolverSpScsrqrSetup'' [ty_cusolverSpHandle_t, ty_int, ty_int, ty_int, Const ty_cusparseMatDescr_t, Ptr (Const ty_float), Ptr (Const ty_int), Ptr (Const ty_int), ty_float, ty_csrqrInfo_t]
       ''cusolverSpScsrqrSetup'' ty_cusolverStatus_t [ty_cusolverSpHandle_t, ty_int, ty_int, ty_int, Const ty_cusparseMatDescr_t, Ptr (Const ty_float), Ptr (Const ty_int), Ptr (Const ty_int), ty_float, ty_csrqrInfo_t] ''cusolverSpScsrqrSetup'' [0, 1, 2, 3, 4, 5, 6, 7, 8, 9] False,
     Gen cusolver ty_cusolverStatus_t ''cusolverSpDcsrqrSetup'' [ty_cusolverSpHandle_t, ty_int, ty_int, ty_int, Const ty_cusparseMatDescr_t, Ptr (Const ty_double), Ptr (Const ty_int), Ptr (Const ty_int), ty_double, ty_csrqrInfo_t]
       ''cusolverSpDcsrqrSetup'' ty_cusolverStatus_t [ty_cusolverSpHandle_t, ty_int, ty_int, ty_int, Const ty_cusparseMatDescr_t, Ptr (Const ty_double), Ptr (Const ty_int), Ptr (Const ty_int), ty_double, ty_csrqrInfo_t] ''cusolverSpDcsrqrSetup'' [0, 1, 2, 3, 4, 5, 6, 7, 8, 9] False,
     Gen cusolver ty_cusolverStatus_t ''cusolverSpCcsrqrSetup'' [ty_cusolverSpHandle_t, ty_int, ty_int, ty_int, Const ty_cusparseMatDescr_t, Ptr (Const ty_cuComplex), Ptr (Const ty_int), Ptr (Const ty_int), ty_cuComplex, ty_csrqrInfo_t]
       ''cusolverSpCcsrqrSetup'' ty_cusolverStatus_t [ty_cusolverSpHandle_t, ty_int, ty_int, ty_int, Const ty_cusparseMatDescr_t, Ptr (Const ty_cuComplex), Ptr (Const ty_int), Ptr (Const ty_int), ty_cuComplex, ty_csrqrInfo_t] ''cusolverSpCcsrqrSetup'' [0, 1, 2, 3, 4, 5, 6, 7, 8, 9] False,
     Gen cusolver ty_cusolverStatus_t ''cusolverSpZcsrqrSetup'' [ty_cusolverSpHandle_t, ty_int, ty_int, ty_int, Const ty_cusparseMatDescr_t, Ptr (Const ty_cuDoubleComplex), Ptr (Const ty_int), Ptr (Const ty_int), ty_cuDoubleComplex, ty_csrqrInfo_t]
       ''cusolverSpZcsrqrSetup'' ty_cusolverStatus_t [ty_cusolverSpHandle_t, ty_int, ty_int, ty_int, Const ty_cusparseMatDescr_t, Ptr (Const ty_cuDoubleComplex), Ptr (Const ty_int), Ptr (Const ty_int), ty_cuDoubleComplex, ty_csrqrInfo_t] ''cusolverSpZcsrqrSetup'' [0, 1, 2, 3, 4, 5, 6, 7, 8, 9] False,
     Gen cusolver ty_cusolverStatus_t ''cusolverSpScsrqrFactor'' [ty_cusolverSpHandle_t, ty_int, ty_int, ty_int, Ptr ty_float, Ptr ty_float, ty_csrqrInfo_t, Ptr ty_void]
       ''cusolverSpScsrqrFactor'' ty_cusolverStatus_t [ty_cusolverSpHandle_t, ty_int, ty_int, ty_int, Ptr ty_float, Ptr ty_float, ty_csrqrInfo_t, Ptr ty_void] ''cusolverSpScsrqrFactor'' [0, 1, 2, 3, 4, 5, 6, 7] False,
     Gen cusolver ty_cusolverStatus_t ''cusolverSpDcsrqrFactor'' [ty_cusolverSpHandle_t, ty_int, ty_int, ty_int, Ptr ty_double, Ptr ty_double, ty_csrqrInfo_t, Ptr ty_void]
       ''cusolverSpDcsrqrFactor'' ty_cusolverStatus_t [ty_cusolverSpHandle_t, ty_int, ty_int, ty_int, Ptr ty_double, Ptr ty_double, ty_csrqrInfo_t, Ptr ty_void] ''cusolverSpDcsrqrFactor'' [0, 1, 2, 3, 4, 5, 6, 7] False,
     Gen cusolver ty_cusolverStatus_t ''cusolverSpCcsrqrFactor'' [ty_cusolverSpHandle_t, ty_int, ty_int, ty_int, Ptr ty_cuComplex, Ptr ty_cuComplex, ty_csrqrInfo_t, Ptr ty_void]
       ''cusolverSpCcsrqrFactor'' ty_cusolverStatus_t [ty_cusolverSpHandle_t, ty_int, ty_int, ty_int, Ptr ty_cuComplex, Ptr ty_cuComplex, ty_csrqrInfo_t, Ptr ty_void] ''cusolverSpCcsrqrFactor'' [0, 1, 2, 3, 4, 5, 6, 7] False,
     Gen cusolver ty_cusolverStatus_t ''cusolverSpZcsrqrFactor'' [ty_cusolverSpHandle_t, ty_int, ty_int, ty_int, Ptr ty_cuDoubleComplex, Ptr ty_cuDoubleComplex, ty_csrqrInfo_t, Ptr ty_void]
       ''cusolverSpZcsrqrFactor'' ty_cusolverStatus_t [ty_cusolverSpHandle_t, ty_int, ty_int, ty_int, Ptr ty_cuDoubleComplex, Ptr ty_cuDoubleComplex, ty_csrqrInfo_t, Ptr ty_void] ''cusolverSpZcsrqrFactor'' [0, 1, 2, 3, 4, 5, 6, 7] False,
     Gen cusolver ty_cusolverStatus_t ''cusolverSpScsrqrZeroPivot'' [ty_cusolverSpHandle_t, ty_csrqrInfo_t, ty_float, Ptr ty_int]
       ''cusolverSpScsrqrZeroPivot'' ty_cusolverStatus_t [ty_cusolverSpHandle_t, ty_csrqrInfo_t, ty_float, Ptr ty_int] ''cusolverSpScsrqrZeroPivot'' [0, 1, 2, 3] False,
     Gen cusolver ty_cusolverStatus_t ''cusolverSpDcsrqrZeroPivot'' [ty_cusolverSpHandle_t, ty_csrqrInfo_t, ty_double, Ptr ty_int]
       ''cusolverSpDcsrqrZeroPivot'' ty_cusolverStatus_t [ty_cusolverSpHandle_t, ty_csrqrInfo_t, ty_double, Ptr ty_int] ''cusolverSpDcsrqrZeroPivot'' [0, 1, 2, 3] False,
     Gen cusolver ty_cusolverStatus_t ''cusolverSpCcsrqrZeroPivot'' [ty_cusolverSpHandle_t, ty_csrqrInfo_t, ty_float, Ptr ty_int]
       ''cusolverSpCcsrqrZeroPivot'' ty_cusolverStatus_t [ty_cusolverSpHandle_t, ty_csrqrInfo_t, ty_float, Ptr ty_int] ''cusolverSpCcsrqrZeroPivot'' [0, 1, 2, 3] False]"

definition cusolver_hooks_46 :: "gen_hook list" where
  "cusolver_hooks_46 =
    [Gen cusolver ty_cusolverStatus_t ''cusolverSpZcsrqrZeroPivot'' [ty_cusolverSpHandle_t, ty_csrqrInfo_t, ty_double, Ptr ty_int]
       ''cusolverSpZcsrqrZeroPivot'' ty_cusolverStatus_t [ty_cusolverSpHandle_t, ty_csrqrInfo_t, ty_double, Ptr ty_int] ''cusolverSpZcsrqrZeroPivot'' [0, 1, 2, 3] False,
     Gen cusolver ty_cusolverStatus_t ''cusolverSpScsrqrSolve'' [ty_cusolverSpHandle_t, ty_int, ty_int, Ptr ty_float, Ptr ty_float, ty_csrqrInfo_t, Ptr ty_void]
       ''cusolverSpScsrqrSolve'' ty_cusolverStatus_t [ty_cusolverSpHandle_t, ty_int, ty_int, Ptr ty_float, Ptr ty_float, ty_csrqrInfo_t, Ptr ty_void] ''cusolverSpScsrqrSolve'' [0, 1, 2, 3, 4, 5, 6] False,
     Gen cusolver ty_cusolverStatus_t ''cusolverSpDcsrqrSolve'' [ty_cusolverSpHandle_t, ty_int, ty_int, Ptr ty_double, Ptr ty_double, ty_csrqrInfo_t, Ptr ty_void]
       ''cusolverSpDcsrqrSolve'' ty_cusolverStatus_t [ty_cusolverSpHandle_t, ty_int, ty_int, Ptr ty_double, Ptr ty_double, ty_csrqrInfo_t, Ptr ty_void] ''cusolverSpDcsrqrSolve'' [0, 1, 2, 3, 4, 5, 6] False,
     Gen cusolver ty_cusolverStatus_t ''cusolverSpCcsrqrSolve'' [ty_cusolverSpHandle_t, ty_int, ty_int, Ptr ty_cuComplex, Ptr ty_cuComplex, ty_csrqrInfo_t, Ptr ty_void]
       ''cusolverSpCcsrqrSolve'' ty_cusolverStatus_t [ty_cusolverSpHandle_t, ty_int, ty_int, Ptr ty_cuComplex, Ptr ty_cuComplex, ty_csrqrInfo_t, Ptr ty_void] ''cusolverSpCcsrqrSolve'' [0, 1, 2, 3, 4, 5, 6] False,
     Gen cusolver ty_cusolverStatus_t ''cusolverSpZcsrqrSolve'' [ty_cusolverSpHandle_t, ty_int, ty_int, Ptr ty_cuDoubleComplex, Ptr ty_cuDoubleComplex, ty_csrqrInfo_t, Ptr ty_void]
       ''cusolverSpZcsrqrSolve'' ty_cusolverStatus_t [ty_cusolverSpHandle_t, ty_int, ty_int, Ptr ty_cuDoubleComplex, Ptr ty_cuDoubleComplex, ty_csrqrInfo_t, Ptr ty_void] ''cusolverSpZcsrqrSolve'' [0, 1, 2, 3, 4, 5, 6] False,
     Gen cusolver ty_cusolverStatus_t ''cusolverSpCreateCsrcholInfoHost'' [Ptr ty_csrcholInfoHost_t]
       ''cusolverSpCreateCsrcholInfoHost'' ty_cusolverStatus_t [Ptr ty_csrcholInfoHost_t] ''cusolverSpCreateCsrcholInfoHost'' [0] False,
     Gen cusolver ty_cusolverStatus_t ''cusolverSpDestroyCsrcholInfoHost'' [ty_csrcholInfoHost_t]
       ''cusolverSpDestroyCsrcholInfoHost'' ty_cusolverStatus_t [ty_csrcholInfoHost_t] ''cusolverSpDestroyCsrcholInfoHost'' [0] False,
     Gen cusolver ty_cusolverStatus_t ''cusolverSpXcsrcholAnalysisHost'' [ty_cusolverSpHandle_t, ty_int, ty_int, Const ty_cusparseMatDescr_t, Ptr (Const ty_int), Ptr (Const ty_int), ty_csrcholInfoHost_t]
       ''cusolverSpXcsrcholAnalysisHost'' ty_cusolverStatus_t [ty_cusolverSpHandle_t, ty_int, ty_int, Const ty_cusparseMatDescr_t, Ptr (Const ty_int), Ptr (Const ty_int), ty_csrcholInfoHost_t] ''cusolverSpXcsrcholAnalysisHost'' [0, 1, 2, 3, 4, 5, 6] False,
     Gen cusolver ty_cusolverStatus_t ''cusolverSpScsrcholBufferInfoHost'' [ty_cusolverSpHandle_t, ty_int, ty_int, Const ty_cusparseMatDescr_t, Ptr (Const ty_float), Ptr (Const ty_int), Ptr (Const ty_int), ty_csrcholInfoHost_t, Ptr ty_size_t, Ptr ty_size_t]
       ''cusolverSpScsrcholBufferInfoHost'' ty_cusolverStatus_t [ty_cusolverSpHandle_t, ty_int, ty_int, Const ty_cusparseMatDescr_t, Ptr (Const ty_float), Ptr (Const ty_int), Ptr (Const ty_int), ty_csrcholInfoHost_t, Ptr ty_size_t, Ptr ty_size_t] ''cusolverSpScsrcholBufferInfoHost'' [0, 1, 2, 3, 4, 5, 6, 7, 8, 9] False,
     Gen cusolver ty_cusolverStatus_t ''cusolverSpDcsrcholBufferInfoHost'' [ty_cusolverSpHandle_t, ty_int, ty_int, Const ty_cusparseMatDescr_t, Ptr (Const ty_double), Ptr (Const ty_int), Ptr (Const ty_int), ty_csrcholInfoHost_t, Ptr ty_size_t, Ptr ty_size_t]
       ''cusolverSpDcsrcholBufferInfoHost'' ty_cusolverStatus_t [ty_cusolverSpHandle_t, ty_int, ty_int, Const ty_cusparseMatDescr_t, Ptr (Const ty_double), Ptr (Const ty_int), Ptr (Const ty_int), ty_csrcholInfoHost_t, Ptr ty_size_t, Ptr ty_size_t] ''cusolverSpDcsrcholBufferInfoHost'' [0, 1, 2, 3, 4, 5, 6, 7, 8, 9] False,
     Gen cusolver ty_cusolverStatus_t ''cusolverSpCcsrcholBufferInfoHost'' [ty_cusolverSpHandle_t, ty_int, ty_int, Const ty_cusparseMatDescr_t, Ptr (Const ty_cuComplex), Ptr (Const ty_int), Ptr (Const ty_int), ty_csrcholInfoHost_t, Ptr ty_size_t, Ptr ty_size_t]
       ''cusolverSpCcsrcholBufferInfoHost'' ty_cusolverStatus_t [ty_cusolverSpHandle_t, ty_int, ty_int, Const ty_cusparseMatDescr_t, Ptr (Const ty_cuComplex), Ptr (Const ty_int), Ptr (Const ty_int), ty_csrcholInfoHost_t, Ptr ty_size_t, Ptr ty_size_t] ''cusolverSpCcsrcholBufferInfoHost'' [0, 1, 2, 3, 4, 5, 6, 7, 8, 9] False,
     Gen cusolver ty_cusolverStatus_t ''cusolverSpZcsrcholBufferInfoHost'' [ty_cusolverSpHandle_t, ty_int, ty_int, Const ty_cusparseMatDescr_t, Ptr (Const ty_cuDoubleComplex), Ptr (Const ty_int), Ptr (Const ty_int), ty_csrcholInfoHost_t, Ptr ty_size_t, Ptr ty_size_t]
       ''cusolverSpZcsrcholBufferInfoHost'' ty_cusolverStatus_t [ty_cusolverSpHandle_t, ty_int, ty_int, Const ty_cusparseMatDescr_t, Ptr (Const ty_cuDoubleComplex), Ptr (Const ty_int), Ptr (Const ty_int), ty_csrcholInfoHost_t, Ptr ty_size_t, Ptr ty_size_t] ''cusolverSpZcsrcholBufferInfoHost'' [0, 1, 2, 3, 4, 5, 6, 7, 8, 9] False,
     Gen cusolver ty_cusolverStatus_t ''cusolverSpScsrcholFactorHost'' [ty_cusolverSpHandle_t, ty_int, ty_int, Const ty_cusparseMatDescr_t, Ptr (Const ty_float), Ptr (Const ty_int), Ptr (Const ty_int), ty_csrcholInfoHost_t, Ptr ty_void]
       ''cusolverSpScsrcholFactorHost'' ty_cusolverStatus_t [ty_cusolverSpHandle_t, ty_int, ty_int, Const ty_cusparseMatDescr_t, Ptr (Const ty_float), Ptr (Const ty_int), Ptr (Const ty_int), ty_csrcholInfoHost_t, Ptr ty_void] ''cusolverSpScsrcholFactorHost'' [0, 1, 2, 3, 4, 5, 6, 7, 8] False]"

definition cusolver_hooks_47 :: "gen_hook list" where
  "cusolver_hooks_47 =
    [Gen cusolver ty_cusolverStatus_t ''cusolverSpDcsrcholFactorHost'' [ty_cusolverSpHandle_t, ty_int, ty_int, Const ty_cusparseMatDescr_t, Ptr (Const ty_double), Ptr (Const ty_int), Ptr (Const ty_int), ty_csrcholInfoHost_t, Ptr ty_void]
       ''cusolverSpDcsrcholFactorHost'' ty_cusolverStatus_t [ty_cusolverSpHandle_t, ty_int, ty_int, Const ty_cusparseMatDescr_t, Ptr (Const ty_double), Ptr (Const ty_int), Ptr (Const ty_int), ty_csrcholInfoHost_t, Ptr ty_void] ''cusolverSpDcsrcholFactorHost'' [0, 1, 2, 3, 4, 5, 6, 7, 8] False,
     Gen cusolver ty_cusolverStatus_t ''cusolverSpCcsrcholFactorHost'' [ty_cusolverSpHandle_t, ty_int, ty_int, Const ty_cusparseMatDescr_t, Ptr (Const ty_cuComplex), Ptr (Const ty_int), Ptr (Const ty_int), ty_csrcholInfoHost_t, Ptr ty_void]
       ''cusolverSpCcsrcholFactorHost'' ty_cusolverStatus_t [ty_cusolverSpHandle_t, ty_int, ty_int, Const ty_cusparseMatDescr_t, Ptr (Const ty_cuComplex), Ptr (Const ty_int), Ptr (Const ty_int), ty_csrcholInfoHost_t, Ptr ty_void] ''cusolverSpCcsrcholFactorHost'' [0, 1, 2, 3, 4, 5, 6, 7, 8] False,
     Gen cusolver ty_cusolverStatus_t ''cusolverSpZcsrcholFactorHost'' [ty_cusolverSpHandle_t, ty_int, ty_int, Const ty_cusparseMatDescr_t, Ptr (Const ty_cuDoubleComplex), Ptr (Const ty_int), Ptr (Const ty_int), ty_csrcholInfoHost_t, Ptr ty_void]
       ''cusolverSpZcsrcholFactorHost'' ty_cusolverStatus_t [ty_cusolverSpHandle_t, ty_int, ty_int, Const ty_cusparseMatDescr_t, Ptr (Const ty_cuDoubleComplex), Ptr (Const ty_int), Ptr (Const ty_int), ty_csrcholInfoHost_t, Ptr ty_void] ''cusolverSpZcsrcholFactorHost'' [0, 1, 2, 3, 4, 5, 6, 7, 8] False,
     Gen cusolver ty_cusolverStatus_t ''cusolverSpScsrcholZeroPivotHost'' [ty_cusolverSpHandle_t, ty_csrcholInfoHost_t, ty_float, Ptr ty_int]
       ''cusolverSpScsrcholZeroPivotHost'' ty_cusolverStatus_t [ty_cusolverSpHandle_t, ty_csrcholInfoHost_t, ty_float, Ptr ty_int] ''cusolverSpScsrcholZeroPivotHost'' [0, 1, 2, 3] False,
     Gen cusolver ty_cusolverStatus_t ''cusolverSpDcsrcholZeroPivotHost'' [ty_cusolverSpHandle_t, ty_csrcholInfoHost_t, ty_double, Ptr ty_int]
       ''cusolverSpDcsrcholZeroPivotHost'' ty_cusolverStatus_t [ty_cusolverSpHandle_t, ty_csrcholInfoHost_t, ty_double, Ptr ty_int] ''cusolverSpDcsrcholZeroPivotHost'' [0, 1, 2, 3] False,
     Gen cusolver ty_cusolverStatus_t ''cusolverSpCcsrcholZeroPivotHost'' [ty_cusolverSpHandle_t, ty_csrcholInfoHost_t, ty_float, Ptr ty_int]
       ''cusolverSpCcsrcholZeroPivotHost'' ty_cusolverStatus_t [ty_cusolverSpHandle_t, ty_csrcholInfoHost_t, ty_float, Ptr ty_int] ''cusolverSpCcsrcholZeroPivotHost'' [0, 1, 2, 3] False,
     Gen cusolver ty_cusolverStatus_t ''cusolverSpZcsrcholZeroPivotHost'' [ty_cusolverSpHandle_t, ty_csrcholInfoHost_t, ty_double, Ptr ty_int]
       ''cusolverSpZcsrcholZeroPivotHost'' ty_cusolverStatus_t [ty_cusolverSpHandle_t, ty_csrcholInfoHost_t, ty_double, Ptr ty_int] ''cusolverSpZcsrcholZeroPivotHost'' [0, 1, 2, 3] False,
     Gen cusolver ty_cusolverStatus_t ''cusolverSpScsrcholSolveHost'' [ty_cusolverSpHandle_t, ty_int, Ptr (Const ty_float), Ptr ty_float, ty_csrcholInfoHost_t, Ptr ty_void]
       ''cusolverSpScsrcholSolveHost'' ty_cusolverStatus_t [ty_cusolverSpHandle_t, ty_int, Ptr (Const ty_float), Ptr ty_float, ty_csrcholInfoHost_t, Ptr ty_void] ''cusolverSpScsrcholSolveHost'' [0, 1, 2, 3, 4, 5] False,
     Gen cusolver ty_cusolverStatus_t ''cusolverSpDcsrcholSolveHost'' [ty_cusolverSpHandle_t, ty_int, Ptr (Const ty_double), Ptr ty_double, ty_csrcholInfoHost_t, Ptr ty_void]
       ''cusolverSpDcsrcholSolveHost'' ty_cusolverStatus_t [ty_cusolverSpHandle_t, ty_int, Ptr (Const ty_double), Ptr ty_double, ty_csrcholInfoHost_t, Ptr ty_void] ''cusolverSpDcsrcholSolveHost'' [0, 1, 2, 3, 4, 5] False,
     Gen cusolver ty_cusolverStatus_t ''cusolverSpCcsrcholSolveHost'' [ty_cusolverSpHandle_t, ty_int, Ptr (Const ty_cuComplex), Ptr ty_cuComplex, ty_csrcholInfoHost_t, Ptr ty_void]
       ''cusolverSpCcsrcholSolveHost'' ty_cusolverStatus_t [ty_cusolverSpHandle_t, ty_int, Ptr (Const ty_cuComplex), Ptr ty_cuComplex, ty_csrcholInfoHost_t, Ptr ty_void] ''cusolverSpCcsrcholSolveHost'' [0, 1, 2, 3, 4, 5] False,
     Gen cusolver ty_cusolverStatus_t ''cusolverSpZcsrcholSolveHost'' [ty_cusolverSpHandle_t, ty_int, Ptr (Const ty_cuDoubleComplex), Ptr ty_cuDoubleComplex, ty_csrcholInfoHost_t, Ptr ty_void]
       ''cusolverSpZcsrcholSolveHost'' ty_cusolverStatus_t [ty_cusolverSpHandle_t, ty_int, Ptr (Const ty_cuDoubleComplex), Ptr ty_cuDoubleComplex, ty_csrcholInfoHost_t, Ptr ty_void] ''cusolverSpZcsrcholSolveHost'' [0, 1, 2, 3, 4, 5] False,
     Gen cusolver ty_cusolverStatus_t ''cusolverSpCreateCsrcholInfo'' [Ptr ty_csrcholInfo_t]
       ''cusolverSpCreateCsrcholInfo'' ty_cusolverStatus_t [Ptr ty_csrcholInfo_t] ''cusolverSpCreateCsrcholInfo'' [0] False,
     Gen cusolver ty_cusolverStatus_t ''cusolverSpDestroyCsrcholInfo'' [ty_csrcholInfo_t]
       ''cusolverSpDestroyCsrcholInfo'' ty_cusolverStatus_t [ty_csrcholInfo_t] ''cusolverSpDestroyCsrcholInfo'' [0] False,
     Gen cusolver ty_cusolverStatus_t ''cusolverSpXcsrcholAnalysis'' [ty_cusolverSpHandle_t, ty_int, ty_int, Const ty_cusparseMatDescr_t, Ptr (Const ty_int), Ptr (Const ty_int), ty_csrcholInfo_t]
       ''cusolverSpXcsrcholAnalysis'' ty_cusolverStatus_t [ty_cusolverSpHandle_t, ty_int, ty_int, Const ty_cusparseMatDescr_t, Ptr (Const ty_int), Ptr (Const ty_int), ty_csrcholInfo_t] ''cusolverSpXcsrcholAnalysis'' [0, 1, 2, 3, 4, 5, 6] False]"

definition cusolver_hooks_48 :: "gen_hook list" where
  "cusolver_hooks_48 =
    [Gen cusolver ty_cusolverStatus_t ''cusolverSpScsrcholBufferInfo'' [ty_cusolverSpHandle_t, ty_int, ty_int, Const ty_cusparseMatDescr_t, Ptr (Const ty_float), Ptr (Const ty_int), Ptr (Const ty_int), ty_csrcholInfo_t, Ptr ty_size_t, Ptr ty_size_t]
       ''cusolverSpScsrcholBufferInfo'' ty_cusolverStatus_t [ty_cusolverSpHandle_t, ty_int, ty_int, Const ty_cusparseMatDescr_t, Ptr (Const ty_float), Ptr (Const ty_int), Ptr (Const ty_int), ty_csrcholInfo_t, Ptr ty_size_t, Ptr ty_size_t] ''cusolverSpScsrcholBufferInfo'' [0, 1, 2, 3, 4, 5, 6, 7, 8, 9] False,
     Gen cusolver ty_cusolverStatus_t ''cusolverSpDcsrcholBufferInfo'' [ty_cusolverSpHandle_t, ty_int, ty_int, Const ty_cusparseMatDescr_t, Ptr (Const ty_double), Ptr (Const ty_int), Ptr (Const ty_int), ty_csrcholInfo_t, Ptr ty_size_t, Ptr ty_size_t]
       ''cusolverSpDcsrcholBufferInfo'' ty_cusolverStatus_t [ty_cusolverSpHandle_t, ty_int, ty_int, Const ty_cusparseMatDescr_t, Ptr (Const ty_double), Ptr (Const ty_int), Ptr (Const ty_int), ty_csrcholInfo_t, Ptr ty_size_t, Ptr ty_size_t] ''cusolverSpDcsrcholBufferInfo'' [0, 1, 2, 3, 4, 5, 6, 7, 8, 9] False,
     Gen cusolver ty_cusolverStatus_t ''cusolverSpCcsrcholBufferInfo'' [ty_cusolverSpHandle_t, ty_int, ty_int, Const ty_cusparseMatDescr_t, Ptr (Const ty_cuComplex), Ptr (Const ty_int), Ptr (Const ty_int), ty_csrcholInfo_t, Ptr ty_size_t, Ptr ty_size_t]
       ''cusolverSpCcsrcholBufferInfo'' ty_cusolverStatus_t [ty_cusolverSpHandle_t, ty_int, ty_int, Const ty_cusparseMatDescr_t, Ptr (Const ty_cuComplex), Ptr (Const ty_int), Ptr (Const ty_int), ty_csrcholInfo_t, Ptr ty_size_t, Ptr ty_size_t] ''cusolverSpCcsrcholBufferInfo'' [0, 1, 2, 3, 4, 5, 6, 7, 8, 9] False,
     Gen cusolver ty_cusolverStatus_t ''cusolverSpZcsrcholBufferInfo'' [ty_cusolverSpHandle_t, ty_int, ty_int, Const ty_cusparseMatDescr_t, Ptr (Const ty_cuDoubleComplex), Ptr (Const ty_int), Ptr (Const ty_int), ty_csrcholInfo_t, Ptr ty_size_t, Ptr ty_size_t]
       ''cusolverSpZcsrcholBufferInfo'' ty_cusolverStatus_t [ty_cusolverSpHandle_t, ty_int, ty_int, Const ty_cusparseMatDescr_t, Ptr (Const ty_cuDoubleComplex), Ptr (Const ty_int), Ptr (Const ty_int), ty_csrcholInfo_t, Ptr ty_size_t, Ptr ty_size_t] ''cusolverSpZcsrcholBufferInfo'' [0, 1, 2, 3, 4, 5, 6, 7, 8, 9] False,
     Gen cusolver ty_cusolverStatus_t ''cusolverSpScsrcholFactor'' [ty_cusolverSpHandle_t, ty_int, ty_int, Const ty_cusparseMatDescr_t, Ptr (Const ty_float), Ptr (Const ty_int), Ptr (Const ty_int), ty_csrcholInfo_t, Ptr ty_void]
       ''cusolverSpScsrcholFactor'' ty_cusolverStatus_t [ty_cusolverSpHandle_t, ty_int, ty_int, Const ty_cusparseMatDescr_t, Ptr (Const ty_float), Ptr (Const ty_int), Ptr (Const ty_int), ty_csrcholInfo_t, Ptr ty_void] ''cusolverSpScsrcholFactor'' [0, 1, 2, 3, 4, 5, 6, 7, 8] False,
     Gen cusolver ty_cusolverStatus_t ''cusolverSpDcsrcholFactor'' [ty_cusolverSpHandle_t, ty_int, ty_int, Const ty_cusparseMatDescr_t, Ptr (Const ty_double), Ptr (Const ty_int), Ptr (Const ty_int), ty_csrcholInfo_t, Ptr ty_void]
       ''cusolverSpDcsrcholFactor'' ty_cusolverStatus_t [ty_cusolverSpHandle_t, ty_int, ty_int, Const ty_cusparseMatDescr_t, Ptr (Const ty_double), Ptr (Const ty_int), Ptr (Const ty_int), ty_csrcholInfo_t, Ptr ty_void] ''cusolverSpDcsrcholFactor'' [0, 1, 2, 3, 4, 5, 6, 7, 8] False,
     Gen cusolver ty_cusolverStatus_t ''cusolverSpCcsrcholFactor'' [ty_cusolverSpHandle_t, ty_int, ty_int, Const ty_cusparseMatDescr_t, Ptr (Const ty_cuComplex), Ptr (Const ty_int), Ptr (Const ty_int), ty_csrcholInfo_t, Ptr ty_void]
       ''cusolverSpCcsrcholFactor'' ty_cusolverStatus_t [ty_cusolverSpHandle_t, ty_int, ty_int, Const ty_cusparseMatDescr_t, Ptr (Const ty_cuComplex), Ptr (Const ty_int), Ptr (Const ty_int), ty_csrcholInfo_t, Ptr ty_void] ''cusolverSpCcsrcholFactor'' [0, 1, 2, 3, 4, 5, 6, 7, 8] False,
     Gen cusolver ty_cusolverStatus_t ''cusolverSpZcsrcholFactor'' [ty_cusolverSpHandle_t, ty_int, ty_int, Const ty_cusparseMatDescr_t, Ptr (Const ty_cuDoubleComplex), Ptr (Const ty_int), Ptr (Const ty_int), ty_csrcholInfo_t, Ptr ty_void]
       ''cusolverSpZcsrcholFactor'' ty_cusolverStatus_t [ty_cusolverSpHandle_t, ty_int, ty_int, Const ty_cusparseMatDescr_t, Ptr (Const ty_cuDoubleComplex), Ptr (Const ty_int), Ptr (Const ty_int), ty_csrcholInfo_t, Ptr ty_void] ''cusolverSpZcsrcholFactor'' [0, 1, 2, 3, 4, 5, 6, 7, 8] False,
     Gen cusolver ty_cusolverStatus_t ''cusolverSpScsrcholZeroPivot'' [ty_cusolverSpHandle_t, ty_csrcholInfo_t, ty_float, Ptr ty_int]
       ''cusolverSpScsrcholZeroPivot'' ty_cusolverStatus_t [ty_cusolverSpHandle_t, ty_csrcholInfo_t, ty_float, Ptr ty_int] ''cusolverSpScsrcholZeroPivot'' [0, 1, 2, 3] False,
     Gen cusolver ty_cusolverStatus_t ''cusolverSpDcsrcholZeroPivot'' [ty_cusolverSpHandle_t, ty_csrcholInfo_t, ty_double, Ptr ty_int]
       ''cusolverSpDcsrcholZeroPivot'' ty_cusolverStatus_t [ty_cusolverSpHandle_t, ty_csrcholInfo_t, ty_double, Ptr ty_int] ''cusolverSpDcsrcholZeroPivot'' [0, 1, 2, 3] False,
     Gen cusolver ty_cusolverStatus_t ''cusolverSpCcsrcholZeroPivot'' [ty_cusolverSpHandle_t, ty_csrcholInfo_t, ty_float, Ptr ty_int]
       ''cusolverSpCcsrcholZeroPivot'' ty_cusolverStatus_t [ty_cusolverSpHandle_t, ty_csrcholInfo_t, ty_float, Ptr ty_int] ''cusolverSpCcsrcholZeroPivot'' [0, 1, 2, 3] False,
     Gen cusolver ty_cusolverStatus_t ''cusolverSpZcsrcholZeroPivot'' [ty_cusolverSpHandle_t, ty_csrcholInfo_t, ty_double, Ptr ty_int]
       ''cusolverSpZcsrcholZeroPivot'' ty_cusolverStatus_t [ty_cusolverSpHandle_t, ty_csrcholInfo_t, ty_double, Ptr ty_int] ''cusolverSpZcsrcholZeroPivot'' [0, 1, 2, 3] False]"

definition cusolver_hooks_49 :: "gen_hook list" where
  "cusolver_hooks_49 =
    [Gen cusolver ty_cusolverStatus_t ''cusolverSpScsrcholSolve'' [ty_cusolverSpHandle_t, ty_int, Ptr (Const ty_float), Ptr ty_float, ty_csrcholInfo_t, Ptr ty_void]
       ''cusolverSpScsrcholSolve'' ty_cusolverStatus_t [ty_cusolverSpHandle_t, ty_int, Ptr (Const ty_float), Ptr ty_float, ty_csrcholInfo_t, Ptr ty_void] ''cusolverSpScsrcholSolve'' [0, 1, 2, 3, 4, 5] False,
     Gen cusolver ty_cusolverStatus_t ''cusolverSpDcsrcholSolve'' [ty_cusolverSpHandle_t, ty_int, Ptr (Const ty_double), Ptr ty_double, ty_csrcholInfo_t, Ptr ty_void]
       ''cusolverSpDcsrcholSolve'' ty_cusolverStatus_t [ty_cusolverSpHandle_t, ty_int, Ptr (Const ty_double), Ptr ty_double, ty_csrcholInfo_t, Ptr ty_void] ''cusolverSpDcsrcholSolve'' [0, 1, 2, 3, 4, 5] False,
     Gen cusolver ty_cusolverStatus_t ''cusolverSpCcsrcholSolve'' [ty_cusolverSpHandle_t, ty_int, Ptr (Const ty_cuComplex), Ptr ty_cuComplex, ty_csrcholInfo_t, Ptr ty_void]
       ''cusolverSpCcsrcholSolve'' ty_cusolverStatus_t [ty_cusolverSpHandle_t, ty_int, Ptr (Const ty_cuComplex), Ptr ty_cuComplex, ty_csrcholInfo_t, Ptr ty_void] ''cusolverSpCcsrcholSolve'' [0, 1, 2, 3, 4, 5] False,
     Gen cusolver ty_cusolverStatus_t ''cusolverSpZcsrcholSolve'' [ty_cusolverSpHandle_t, ty_int, Ptr (Const ty_cuDoubleComplex), Ptr ty_cuDoubleComplex, ty_csrcholInfo_t, Ptr ty_void]
       ''cusolverSpZcsrcholSolve'' ty_cusolverStatus_t [ty_cusolverSpHandle_t, ty_int, Ptr (Const ty_cuDoubleComplex), Ptr ty_cuDoubleComplex, ty_csrcholInfo_t, Ptr ty_void] ''cusolverSpZcsrcholSolve'' [0, 1, 2, 3, 4, 5] False,
     Gen cusolver ty_cusolverStatus_t ''cusolverSpScsrcholDiag'' [ty_cusolverSpHandle_t, ty_csrcholInfo_t, Ptr ty_float]
       ''cusolverSpScsrcholDiag'' ty_cusolverStatus_t [ty_cusolverSpHandle_t, ty_csrcholInfo_t, Ptr ty_float] ''cusolverSpScsrcholDiag'' [0, 1, 2] False,
     Gen cusolver ty_cusolverStatus_t ''cusolverSpDcsrcholDiag'' [ty_cusolverSpHandle_t, ty_csrcholInfo_t, Ptr ty_double]
       ''cusolverSpDcsrcholDiag'' ty_cusolverStatus_t [ty_cusolverSpHandle_t, ty_csrcholInfo_t, Ptr ty_double] ''cusolverSpDcsrcholDiag'' [0, 1, 2] False,
     Gen cusolver ty_cusolverStatus_t ''cusolverSpCcsrcholDiag'' [ty_cusolverSpHandle_t, ty_csrcholInfo_t, Ptr ty_float]
       ''cusolverSpCcsrcholDiag'' ty_cusolverStatus_t [ty_cusolverSpHandle_t, ty_csrcholInfo_t, Ptr ty_float] ''cusolverSpCcsrcholDiag'' [0, 1, 2] False,
     Gen cusolver ty_cusolverStatus_t ''cusolverSpZcsrcholDiag'' [ty_cusolverSpHandle_t, ty_csrcholInfo_t, Ptr ty_double]
       ''cusolverSpZcsrcholDiag'' ty_cusolverStatus_t [ty_cusolverSpHandle_t, ty_csrcholInfo_t, Ptr ty_double] ''cusolverSpZcsrcholDiag'' [0, 1, 2] False]"

section \<open>All are instances of the template\<close>

lemma cusolver_hooks_1_ok: "list_all instance_of_template cusolver_hooks_1"
  by (simp add: cusolver_hooks_1_def instance_of_template_def)

lemma cusolver_hooks_2_ok: "list_all instance_of_template cusolver_hooks_2"
  by (simp add: cusolver_hooks_2_def instance_of_template_def)

lemma cusolver_hooks_3_ok: "list_all instance_of_template cusolver_hooks_3"
  by (simp add: cusolver_hooks_3_def instance_of_template_def)

lemma cusolver_hooks_4_ok: "list_all instance_of_template cusolver_hooks_4"
  by (simp add: cusolver_hooks_4_def instance_of_template_def)

lemma cusolver_hooks_5_ok: "list_all instance_of_template cusolver_hooks_5"
  by (simp add: cusolver_hooks_5_def instance_of_template_def)

lemma cusolver_hooks_6_ok: "list_all instance_of_template cusolver_hooks_6"
  by (simp add: cusolver_hooks_6_def instance_of_template_def)

lemma cusolver_hooks_7_ok: "list_all instance_of_template cusolver_hooks_7"
  by (simp add: cusolver_hooks_7_def instance_of_template_def)

lemma cusolver_hooks_8_ok: "list_all instance_of_template cusolver_hooks_8"
  by (simp add: cusolver_hooks_8_def instance_of_template_def)

lemma cusolver_hooks_9_ok: "list_all instance_of_template cusolver_hooks_9"
  by (simp add: cusolver_hooks_9_def instance_of_template_def)

lemma cusolver_hooks_10_ok: "list_all instance_of_template cusolver_hooks_10"
  by (simp add: cusolver_hooks_10_def instance_of_template_def)

lemma cusolver_hooks_11_ok: "list_all instance_of_template cusolver_hooks_11"
  by (simp add: cusolver_hooks_11_def instance_of_template_def)

lemma cusolver_hooks_12_ok: "list_all instance_of_template cusolver_hooks_12"
  by (simp add: cusolver_hooks_12_def instance_of_template_def)

lemma cusolver_hooks_13_ok: "list_all instance_of_template cusolver_hooks_13"
  by (simp add: cusolver_hooks_13_def instance_of_template_def)

lemma cusolver_hooks_14_ok: "list_all instance_of_template cusolver_hooks_14"
  by (simp add: cusolver_hooks_14_def instance_of_template_def)

lemma cusolver_hooks_15_ok: "list_all instance_of_template cusolver_hooks_15"
  by (simp add: cusolver_hooks_15_def instance_of_template_def)

lemma cusolver_hooks_16_ok: "list_all instance_of_template cusolver_hooks_16"
  by (simp add: cusolver_hooks_16_def instance_of_template_def)

lemma cusolver_hooks_17_ok: "list_all instance_of_template cusolver_hooks_17"
  by (simp add: cusolver_hooks_17_def instance_of_template_def)

lemma cusolver_hooks_18_ok: "list_all instance_of_template cusolver_hooks_18"
  by (simp add: cusolver_hooks_18_def instance_of_template_def)

lemma cusolver_hooks_19_ok: "list_all instance_of_template cusolver_hooks_19"
  by (simp add: cusolver_hooks_19_def instance_of_template_def)

lemma cusolver_hooks_20_ok: "list_all instance_of_template cusolver_hooks_20"
  by (simp add: cusolver_hooks_20_def instance_of_template_def)

lemma cusolver_hooks_21_ok: "list_all instance_of_template cusolver_hooks_21"
  by (simp add: cusolver_hooks_21_def instance_of_template_def)

lemma cusolver_hooks_22_ok: "list_all instance_of_template cusolver_hooks_22"
  by (simp add: cusolver_hooks_22_def instance_of_template_def)

lemma cusolver_hooks_23_ok: "list_all instance_of_template cusolver_hooks_23"
  by (simp add: cusolver_hooks_23_def instance_of_template_def)

lemma cusolver_hooks_24_ok: "list_all instance_of_template cusolver_hooks_24"
  by (simp add: cusolver_hooks_24_def instance_of_template_def)

lemma cusolver_hooks_25_ok: "list_all instance_of_template cusolver_hooks_25"
  by (simp add: cusolver_hooks_25_def instance_of_template_def)

lemma cusolver_hooks_26_ok: "list_all instance_of_template cusolver_hooks_26"
  by (simp add: cusolver_hooks_26_def instance_of_template_def)

lemma cusolver_hooks_27_ok: "list_all instance_of_template cusolver_hooks_27"
  by (simp add: cusolver_hooks_27_def instance_of_template_def)

lemma cusolver_hooks_28_ok: "list_all instance_of_template cusolver_hooks_28"
  by (simp add: cusolver_hooks_28_def instance_of_template_def)

lemma cusolver_hooks_29_ok: "list_all instance_of_template cusolver_hooks_29"
  by (simp add: cusolver_hooks_29_def instance_of_template_def)

lemma cusolver_hooks_30_ok: "list_all instance_of_template cusolver_hooks_30"
  by (simp add: cusolver_hooks_30_def instance_of_template_def)

lemma cusolver_hooks_31_ok: "list_all instance_of_template cusolver_hooks_31"
  by (simp add: cusolver_hooks_31_def instance_of_template_def)

lemma cusolver_hooks_32_ok: "list_all instance_of_template cusolver_hooks_32"
  by (simp add: cusolver_hooks_32_def instance_of_template_def)

lemma cusolver_hooks_33_ok: "list_all instance_of_template cusolver_hooks_33"
  by (simp add: cusolver_hooks_33_def instance_of_template_def)

lemma cusolver_hooks_34_ok: "list_all instance_of_template cusolver_hooks_34"
  by (simp add: cusolver_hooks_34_def instance_of_template_def)

lemma cusolver_hooks_35_ok: "list_all instance_of_template cusolver_hooks_35"
  by (simp add: cusolver_hooks_35_def instance_of_template_def)

lemma cusolver_hooks_36_ok: "list_all instance_of_template cusolver_hooks_36"
  by (simp add: cusolver_hooks_36_def instance_of_template_def)

lemma cusolver_hooks_37_ok: "list_all instance_of_template cusolver_hooks_37"
  by (simp add: cusolver_hooks_37_def instance_of_template_def)

lemma cusolver_hooks_38_ok: "list_all instance_of_template cusolver_hooks_38"
  by (simp add: cusolver_hooks_38_def instance_of_template_def)

lemma cusolver_hooks_39_ok: "list_all instance_of_template cusolver_hooks_39"
  by (simp add: cusolver_hooks_39_def instance_of_template_def)

lemma cusolver_hooks_40_ok: "list_all instance_of_template cusolver_hooks_40"
  by (simp add: cusolver_hooks_40_def instance_of_template_def)

lemma cusolver_hooks_41_ok: "list_all instance_of_template cusolver_hooks_41"
  by (simp add: cusolver_hooks_41_def instance_of_template_def)

lemma cusolver_hooks_42_ok: "list_all instance_of_template cusolver_hooks_42"
  by (simp add: cusolver_hooks_42_def instance_of_template_def)

lemma cusolver_hooks_43_ok: "list_all instance_of_template cusolver_hooks_43"
  by (simp add: cusolver_hooks_43_def instance_of_template_def)

lemma cusolver_hooks_44_ok: "list_all instance_of_template cusolver_hooks_44"
  by (simp add: cusolver_hooks_44_def instance_of_template_def)

lemma cusolver_hooks_45_ok: "list_all instance_of_template cusolver_hooks_45"
  by (simp add: cusolver_hooks_45_def instance_of_template_def)

lemma cusolver_hooks_46_ok: "list_all instance_of_template cusolver_hooks_46"
  by (simp add: cusolver_hooks_46_def instance_of_template_def)

lemma cusolver_hooks_47_ok: "list_all instance_of_template cusolver_hooks_47"
  by (simp add: cusolver_hooks_47_def instance_of_template_def)

lemma cusolver_hooks_48_ok: "list_all instance_of_template cusolver_hooks_48"
  by (simp add: cusolver_hooks_48_def instance_of_template_def)

lemma cusolver_hooks_49_ok: "list_all instance_of_template cusolver_hooks_49"
  by (simp add: cusolver_hooks_49_def instance_of_template_def)

definition cusolver_hooks :: "gen_hook list" where
  "cusolver_hooks = concat
    [cusolver_hooks_1, cusolver_hooks_2, cusolver_hooks_3, cusolver_hooks_4,
     cusolver_hooks_5, cusolver_hooks_6, cusolver_hooks_7, cusolver_hooks_8,
     cusolver_hooks_9, cusolver_hooks_10, cusolver_hooks_11, cusolver_hooks_12,
     cusolver_hooks_13, cusolver_hooks_14, cusolver_hooks_15, cusolver_hooks_16,
     cusolver_hooks_17, cusolver_hooks_18, cusolver_hooks_19, cusolver_hooks_20,
     cusolver_hooks_21, cusolver_hooks_22, cusolver_hooks_23, cusolver_hooks_24,
     cusolver_hooks_25, cusolver_hooks_26, cusolver_hooks_27, cusolver_hooks_28,
     cusolver_hooks_29, cusolver_hooks_30, cusolver_hooks_31, cusolver_hooks_32,
     cusolver_hooks_33, cusolver_hooks_34, cusolver_hooks_35, cusolver_hooks_36,
     cusolver_hooks_37, cusolver_hooks_38, cusolver_hooks_39, cusolver_hooks_40,
     cusolver_hooks_41, cusolver_hooks_42, cusolver_hooks_43, cusolver_hooks_44,
     cusolver_hooks_45, cusolver_hooks_46, cusolver_hooks_47, cusolver_hooks_48,
     cusolver_hooks_49]"

lemma cusolver_hooks_ok: "list_all instance_of_template cusolver_hooks"
  by (simp add: cusolver_hooks_def cusolver_hooks_1_ok cusolver_hooks_2_ok cusolver_hooks_3_ok cusolver_hooks_4_ok cusolver_hooks_5_ok
      cusolver_hooks_6_ok cusolver_hooks_7_ok cusolver_hooks_8_ok cusolver_hooks_9_ok cusolver_hooks_10_ok
      cusolver_hooks_11_ok cusolver_hooks_12_ok cusolver_hooks_13_ok cusolver_hooks_14_ok cusolver_hooks_15_ok
      cusolver_hooks_16_ok cusolver_hooks_17_ok cusolver_hooks_18_ok cusolver_hooks_19_ok cusolver_hooks_20_ok
      cusolver_hooks_21_ok cusolver_hooks_22_ok cusolver_hooks_23_ok cusolver_hooks_24_ok cusolver_hooks_25_ok
      cusolver_hooks_26_ok cusolver_hooks_27_ok cusolver_hooks_28_ok cusolver_hooks_29_ok cusolver_hooks_30_ok
      cusolver_hooks_31_ok cusolver_hooks_32_ok cusolver_hooks_33_ok cusolver_hooks_34_ok cusolver_hooks_35_ok
      cusolver_hooks_36_ok cusolver_hooks_37_ok cusolver_hooks_38_ok cusolver_hooks_39_ok cusolver_hooks_40_ok
      cusolver_hooks_41_ok cusolver_hooks_42_ok cusolver_hooks_43_ok cusolver_hooks_44_ok cusolver_hooks_45_ok
      cusolver_hooks_46_ok cusolver_hooks_47_ok cusolver_hooks_48_ok cusolver_hooks_49_ok)

end
