(* ===== verification/Hooks_Cusparse.thy ===== *)
theory Hooks_Cusparse
  imports Hook_Gen
begin

text \<open>
  The generated functions of \<open>src/cusparse/cusparse_hook.cpp\<close>, in the order of the file.
\<close>

section \<open>Types\<close>

definition ty_cusparseStatus_t :: cty where "ty_cusparseStatus_t = Named ''cusparseStatus_t''"
definition ty_cusparseHandle_t :: cty where "ty_cusparseHandle_t = Named ''cusparseHandle_t''"
definition ty_cusparsePointerMode_t :: cty where "ty_cusparsePointerMode_t = Named ''cusparsePointerMode_t''"
definition ty_cusparseMatrixType_t :: cty where "ty_cusparseMatrixType_t = Named ''cusparseMatrixType_t''"
definition ty_cusparseFillMode_t :: cty where "ty_cusparseFillMode_t = Named ''cusparseFillMode_t''"
definition ty_cusparseDiagType_t :: cty where "ty_cusparseDiagType_t = Named ''cusparseDiagType_t''"
definition ty_cusparseIndexBase_t :: cty where "ty_cusparseIndexBase_t = Named ''cusparseIndexBase_t''"
definition ty_csrsv2Info_t :: cty where "ty_csrsv2Info_t = Named ''csrsv2Info_t''"
definition ty_csric02Info_t :: cty where "ty_csric02Info_t = Named ''csric02Info_t''"
definition ty_bsric02Info_t :: cty where "ty_bsric02Info_t = Named ''bsric02Info_t''"
definition ty_csrilu02Info_t :: cty where "ty_csrilu02Info_t = Named ''csrilu02Info_t''"
definition ty_bsrilu02Info_t :: cty where "ty_bsrilu02Info_t = Named ''bsrilu02Info_t''"
definition ty_bsrsv2Info_t :: cty where "ty_bsrsv2Info_t = Named ''bsrsv2Info_t''"
definition ty_bsrsm2Info_t :: cty where "ty_bsrsm2Info_t = Named ''bsrsm2Info_t''"
definition ty_csru2csrInfo_t :: cty where "ty_csru2csrInfo_t = Named ''csru2csrInfo_t''"
definition ty_cusparseColorInfo_t :: cty where "ty_cusparseColorInfo_t = Named ''cusparseColorInfo_t''"
definition ty_cusparseColorAlg_t :: cty where "ty_cusparseColorAlg_t = Named ''cusparseColorAlg_t''"
definition ty_pruneInfo_t :: cty where "ty_pruneInfo_t = Named ''pruneInfo_t''"
definition ty_cusparseOperation_t :: cty where "ty_cusparseOperation_t = Named ''cusparseOperation_t''"
definition ty_cusparseAlgMode_t :: cty where "ty_cusparseAlgMode_t = Named ''cusparseAlgMode_t''"
definition ty_cusparseDirection_t :: cty where "ty_cusparseDirection_t = Named ''cusparseDirection_t''"
definition ty_cusparseSolvePolicy_t :: cty where "ty_cusparseSolvePolicy_t = Named ''cusparseSolvePolicy_t''"
definition ty_csrsm2Info_t :: cty where "ty_csrsm2Info_t = Named ''csrsm2Info_t''"
definition ty_csrgemm2Info_t :: cty where "ty_csrgemm2Info_t = Named ''csrgemm2Info_t''"
definition ty_cusparseAction_t :: cty where "ty_cusparseAction_t = Named ''cusparseAction_t''"
definition ty_cusparseCsr2CscAlg_t :: cty where "ty_cusparseCsr2CscAlg_t = Named ''cusparseCsr2CscAlg_t''"
definition ty_cusparseSpVecDescr_t :: cty where "ty_cusparseSpVecDescr_t = Named ''cusparseSpVecDescr_t''"
definition ty_cusparseIndexType_t :: cty where "ty_cusparseIndexType_t = Named ''cusparseIndexType_t''"
definition ty_cusparseDnVecDescr_t :: cty where "ty_cusparseDnVecDescr_t = Named ''cusparseDnVecDescr_t''"
definition ty_cusparseSpMatDescr_t :: cty where "ty_cusparseSpMatDescr_t = Named ''cusparseSpMatDescr_t''"
definition ty_cusparseFormat_t :: cty where "ty_cusparseFormat_t = Named ''cusparseFormat_t''"
definition ty_cusparseSpMatAttribute_t :: cty where "ty_cusparseSpMatAttribute_t = Named ''cusparseSpMatAttribute_t''"
definition ty_cusparseDnMatDescr_t :: cty where "ty_cusparseDnMatDescr_t = Named ''cusparseDnMatDescr_t''"
definition ty_cusparseOrder_t :: cty where "ty_cusparseOrder_t = Named ''cusparseOrder_t''"
definition ty_cusparseSparseToDenseAlg_t :: cty where "ty_cusparseSparseToDenseAlg_t = Named ''cusparseSparseToDenseAlg_t''"
definition ty_cusparseDenseToSparseAlg_t :: cty where "ty_cusparseDenseToSparseAlg_t = Named ''cusparseDenseToSparseAlg_t''"
definition ty_cusparseSpMVAlg_t :: cty where "ty_cusparseSpMVAlg_t = Named ''cusparseSpMVAlg_t''"
definition ty_cusparseSpSVDescr_t :: cty where "ty_cusparseSpSVDescr_t = Named ''cusparseSpSVDescr_t''"
definition ty_cusparseSpSVAlg_t :: cty where "ty_cusparseSpSVAlg_t = Named ''cusparseSpSVAlg_t''"
definition ty_cusparseSpSMDescr_t :: cty where "ty_cusparseSpSMDescr_t = Named ''cusparseSpSMDescr_t''"
definition ty_cusparseSpSMAlg_t :: cty where "ty_cusparseSpSMAlg_t = Named ''cusparseSpSMAlg_t''"
definition ty_cusparseSpMMAlg_t :: cty where "ty_cusparseSpMMAlg_t = Named ''cusparseSpMMAlg_t''"
definition ty_cusparseSpGEMMDescr_t :: cty where "ty_cusparseSpGEMMDescr_t = Named ''cusparseSpGEMMDescr_t''"
definition ty_cusparseSpGEMMAlg_t :: cty where "ty_cusparseSpGEMMAlg_t = Named ''cusparseSpGEMMAlg_t''"
definition ty_cusparseSDDMMAlg_t :: cty where "ty_cusparseSDDMMAlg_t = Named ''cusparseSDDMMAlg_t''"

section \<open>\<open>cusparse\<close>\<close>

definition cusparse_hooks_1 :: "gen_hook list" where
  "cusparse_hooks_1 =
    [Gen cusparse ty_cusparseStatus_t ''cusparseCreate'' [Ptr ty_cusparseHandle_t]
       ''cusparseCreate'' ty_cusparseStatus_t [Ptr ty_cusparseHandle_t] ''cusparseCreate'' [0] False,
     Gen cusparse ty_cusparseStatus_t ''cusparseDestroy'' [ty_cusparseHandle_t]
       ''cusparseDestroy'' ty_cusparseStatus_t [ty_cusparseHandle_t] ''cusparseDestroy'' [0] False,
     Gen cusparse ty_cusparseStatus_t ''cusparseGetVersion'' [ty_cusparseHandle_t, Ptr ty_int]
       ''cusparseGetVersion'' ty_cusparseStatus_t [ty_cusparseHandle_t, Ptr ty_int] ''cusparseGetVersion'' [0, 1] False,
     Gen cusparse ty_cusparseStatus_t ''cusparseGetProperty'' [ty_libraryPropertyType, Ptr ty_int]
       ''cusparseGetProperty'' ty_cusparseStatus_t [ty_libraryPropertyType, Ptr ty_int] ''cusparseGetProperty'' [0, 1] False,
     Gen cusparse (Ptr (Const ty_char)) ''cusparseGetErrorName'' [ty_cusparseStatus_t]
       ''cusparseGetErrorName'' (Ptr (Const ty_char)) [ty_cusparseStatus_t] ''cusparseGetErrorName'' [0] False,
     Gen cusparse (Ptr (Const ty_char)) ''cusparseGetErrorString'' [ty_cusparseStatus_t]
       ''cusparseGetErrorString'' (Ptr (Const ty_char)) [ty_cusparseStatus_t] ''cusparseGetErrorString'' [0] False,
     Gen cusparse ty_cusparseStatus_t ''cusparseSetStream'' [ty_cusparseHandle_t, ty_cudaStream_t]
       ''cusparseSetStream'' ty_cusparseStatus_t [ty_cusparseHandle_t, ty_cudaStream_t] ''cusparseSetStream'' [0, 1] False,
     Gen cusparse ty_cusparseStatus_t ''cusparseGetStream'' [ty_cusparseHandle_t, Ptr ty_cudaStream_t]
       ''cusparseGetStream'' ty_cusparseStatus_t [ty_cusparseHandle_t, Ptr ty_cudaStream_t] ''cusparseGetStream'' [0, 1] False,
     Gen cusparse ty_cusparseStatus_t ''cusparseGetPointerMode'' [ty_cusparseHandle_t, Ptr ty_cusparsePointerMode_t]
       ''cusparseGetPointerMode'' ty_cusparseStatus_t [ty_cusparseHandle_t, Ptr ty_cusparsePointerMode_t] ''cusparseGetPointerMode'' [0, 1] False,
     Gen cusparse ty_cusparseStatus_t ''cusparseSetPointerMode'' [ty_cusparseHandle_t, ty_cusparsePointerMode_t]
       ''cusparseSetPointerMode'' ty_cusparseStatus_t [ty_cusparseHandle_t, ty_cusparsePointerMode_t] ''cusparseSetPointerMode'' [0, 1] False,
     Gen cusparse ty_cusparseStatus_t ''cusparseCreateMatDescr'' [Ptr ty_cusparseMatDescr_t]
       ''cusparseCreateMatDescr'' ty_cusparseStatus_t [Ptr ty_cusparseMatDescr_t] ''cusparseCreateMatDescr'' [0] False,
     Gen cusparse ty_cusparseStatus_t ''cusparseDestroyMatDescr'' [ty_cusparseMatDescr_t]
       ''cusparseDestroyMatDescr'' ty_cusparseStatus_t [ty_cusparseMatDescr_t] ''cusparseDestroyMatDescr'' [0] False,
     Gen cusparse ty_cusparseStatus_t ''cusparseCopyMatDescr'' [ty_cusparseMatDescr_t, Const ty_cusparseMatDescr_t]
       ''cusparseCopyMatDescr'' ty_cusparseStatus_t [ty_cusparseMatDescr_t, Const ty_cusparseMatDescr_t] ''cusparseCopyMatDescr'' [0, 1] False,
     Gen cusparse ty_cusparseStatus_t ''cusparseSetMatType'' [ty_cusparseMatDescr_t, ty_cusparseMatrixType_t]
       ''cusparseSetMatType'' ty_cusparseStatus_t [ty_cusparseMatDescr_t, ty_cusparseMatrixType_t] ''cusparseSetMatType'' [0, 1] False,
     Gen cusparse ty_cusparseMatrixType_t ''cusparseGetMatType'' [Const ty_cusparseMatDescr_t]
       ''cusparseGetMatType'' ty_cusparseMatrixType_t [Const ty_cusparseMatDescr_t] ''cusparseGetMatType'' [0] False,
     Gen cusparse ty_cusparseStatus_t ''cusparseSetMatFillMode'' [ty_cusparseMatDescr_t, ty_cusparseFillMode_t]
       ''cusparseSetMatFillMode'' ty_cusparseStatus_t [ty_cusparseMatDescr_t, ty_cusparseFillMode_t] ''cusparseSetMatFillMode'' [0, 1] False,
     Gen cusparse ty_cusparseFillMode_t ''cusparseGetMatFillMode'' [Const ty_cusparseMatDescr_t]
       ''cusparseGetMatFillMode'' ty_cusparseFillMode_t [Const ty_cusparseMatDescr_t] ''cusparseGetMatFillMode'' [0] False,
     Gen cusparse ty_cusparseStatus_t ''cusparseSetMatDiagType'' [ty_cusparseMatDescr_t, ty_cusparseDiagType_t]
       ''cusparseSetMatDiagType'' ty_cusparseStatus_t [ty_cusparseMatDescr_t, ty_cusparseDiagType_t] ''cusparseSetMatDiagType'' [0, 1] False]"

definition cusparse_hooks_2 :: "gen_hook list" where
  "cusparse_hooks_2 =
    [Gen cusparse ty_cusparseDiagType_t ''cusparseGetMatDiagType'' [Const ty_cusparseMatDescr_t]
       ''cusparseGetMatDiagType'' ty_cusparseDiagType_t [Const ty_cusparseMatDescr_t] ''cusparseGetMatDiagType'' [0] False,
     Gen cusparse ty_cusparseStatus_t ''cusparseSetMatIndexBase'' [ty_cusparseMatDescr_t, ty_cusparseIndexBase_t]
       ''cusparseSetMatIndexBase'' ty_cusparseStatus_t [ty_cusparseMatDescr_t, ty_cusparseIndexBase_t] ''cusparseSetMatIndexBase'' [0, 1] False,
     Gen cusparse ty_cusparseIndexBase_t ''cusparseGetMatIndexBase'' [Const ty_cusparseMatDescr_t]
       ''cusparseGetMatIndexBase'' ty_cusparseIndexBase_t [Const ty_cusparseMatDescr_t] ''cusparseGetMatIndexBase'' [0] False,
     Gen cusparse ty_cusparseStatus_t ''cusparseCreateCsrsv2Info'' [Ptr ty_csrsv2Info_t]
       ''cusparseCreateCsrsv2Info'' ty_cusparseStatus_t [Ptr ty_csrsv2Info_t] ''cusparseCreateCsrsv2Info'' [0] False,
     Gen cusparse ty_cusparseStatus_t ''cusparseDestroyCsrsv2Info'' [ty_csrsv2Info_t]
       ''cusparseDestroyCsrsv2Info'' ty_cusparseStatus_t [ty_csrsv2Info_t] ''cusparseDestroyCsrsv2Info'' [0] False,
     Gen cusparse ty_cusparseStatus_t ''cusparseCreateCsric02Info'' [Ptr ty_csric02Info_t]
       ''cusparseCreateCsric02Info'' ty_cusparseStatus_t [Ptr ty_csric02Info_t] ''cusparseCreateCsric02Info'' [0] False,
     Gen cusparse ty_cusparseStatus_t ''cusparseDestroyCsric02Info'' [ty_csric02Info_t]
       ''cusparseDestroyCsric02Info'' ty_cusparseStatus_t [ty_csric02Info_t] ''cusparseDestroyCsric02Info'' [0] False,
     Gen cusparse ty_cusparseStatus_t ''cusparseCreateBsric02Info'' [Ptr ty_bsric02Info_t]
       ''cusparseCreateBsric02Info'' ty_cusparseStatus_t [Ptr ty_bsric02Info_t] ''cusparseCreateBsric02Info'' [0] False,
     Gen cusparse ty_cusparseStatus_t ''cusparseDestroyBsric02Info'' [ty_bsric02Info_t]
       ''cusparseDestroyBsric02Info'' ty_cusparseStatus_t [ty_bsric02Info_t] ''cusparseDestroyBsric02Info'' [0] False,
     Gen cusparse ty_cusparseStatus_t ''cusparseCreateCsrilu02Info'' [Ptr ty_csrilu02Info_t]
       ''cusparseCreateCsrilu02Info'' ty_cusparseStatus_t [Ptr ty_csrilu02Info_t] ''cusparseCreateCsrilu02Info'' [0] False,
     Gen cusparse ty_cusparseStatus_t ''cusparseDestroyCsrilu02Info'' [ty_csrilu02Info_t]
       ''cusparseDestroyCsrilu02Info'' ty_cusparseStatus_t [ty_csrilu02Info_t] ''cusparseDestroyCsrilu02Info'' [0] False,
     Gen cusparse ty_cusparseStatus_t ''cusparseCreateBsrilu02Info'' [Ptr ty_bsrilu02Info_t]
       ''cusparseCreateBsrilu02Info'' ty_cusparseStatus_t [Ptr ty_bsrilu02Info_t] ''cusparseCreateBsrilu02Info'' [0] False,
     Gen cusparse ty_cusparseStatus_t ''cusparseDestroyBsrilu02Info'' [ty_bsrilu02Info_t]
       ''cusparseDestroyBsrilu02Info'' ty_cusparseStatus_t [ty_bsrilu02Info_t] ''cusparseDestroyBsrilu02Info'' [0] False,
     Gen cusparse ty_cusparseStatus_t ''cusparseCreateBsrsv2Info'' [Ptr ty_bsrsv2Info_t]
       ''cusparseCreateBsrsv2Info'' ty_cusparseStatus_t [Ptr ty_bsrsv2Info_t] ''cusparseCreateBsrsv2Info'' [0] False,
     Gen cusparse ty_cusparseStatus_t ''cusparseDestroyBsrsv2Info'' [ty_bsrsv2Info_t]
       ''cusparseDestroyBsrsv2Info'' ty_cusparseStatus_t [ty_bsrsv2Info_t] ''cusparseDestroyBsrsv2Info'' [0] False,
     Gen cusparse ty_cusparseStatus_t ''cusparseCreateBsrsm2Info'' [Ptr ty_bsrsm2Info_t]
       ''cusparseCreateBsrsm2Info'' ty_cusparseStatus_t [Ptr ty_bsrsm2Info_t] ''cusparseCreateBsrsm2Info'' [0] False,
     Gen cusparse ty_cusparseStatus_t ''cusparseDestroyBsrsm2Info'' [ty_bsrsm2Info_t]
       ''cusparseDestroyBsrsm2Info'' ty_cusparseStatus_t [ty_bsrsm2Info_t] ''cusparseDestroyBsrsm2Info'' [0] False,
     Gen cusparse ty_cusparseStatus_t ''cusparseCreateCsru2csrInfo'' [Ptr ty_csru2csrInfo_t]
       ''cusparseCreateCsru2csrInfo'' ty_cusparseStatus_t [Ptr ty_csru2csrInfo_t] ''cusparseCreateCsru2csrInfo'' [0] False]"

definition cusparse_hooks_3 :: "gen_hook list" where
  "cusparse_hooks_3 =
    [Gen cusparse ty_cusparseStatus_t ''cusparseDestroyCsru2csrInfo'' [ty_csru2csrInfo_t]
       ''cusparseDestroyCsru2csrInfo'' ty_cusparseStatus_t [ty_csru2csrInfo_t] ''cusparseDestroyCsru2csrInfo'' [0] False,
     Gen cusparse ty_cusparseStatus_t ''cusparseCreateColorInfo'' [Ptr ty_cusparseColorInfo_t]
       ''cusparseCreateColorInfo'' ty_cusparseStatus_t [Ptr ty_cusparseColorInfo_t] ''cusparseCreateColorInfo'' [0] False,
     Gen cusparse ty_cusparseStatus_t ''cusparseDestroyColorInfo'' [ty_cusparseColorInfo_t]
       ''cusparseDestroyColorInfo'' ty_cusparseStatus_t [ty_cusparseColorInfo_t] ''cusparseDestroyColorInfo'' [0] False,
     Gen cusparse ty_cusparseStatus_t ''cusparseSetColorAlgs'' [ty_cusparseColorInfo_t, ty_cusparseColorAlg_t]
       ''cusparseSetColorAlgs'' ty_cusparseStatus_t [ty_cusparseColorInfo_t, ty_cusparseColorAlg_t] ''cusparseSetColorAlgs'' [0, 1] False,
     Gen cusparse ty_cusparseStatus_t ''cusparseGetColorAlgs'' [ty_cusparseColorInfo_t, Ptr ty_cusparseColorAlg_t]
       ''cusparseGetColorAlgs'' ty_cusparseStatus_t [ty_cusparseColorInfo_t, Ptr ty_cusparseColorAlg_t] ''cusparseGetColorAlgs'' [0, 1] False,
     Gen cusparse ty_cusparseStatus_t ''cusparseCreatePruneInfo'' [Ptr ty_pruneInfo_t]
       ''cusparseCreatePruneInfo'' ty_cusparseStatus_t [Ptr ty_pruneInfo_t] ''cusparseCreatePruneInfo'' [0] False,
     Gen cusparse ty_cusparseStatus_t ''cusparseDestroyPruneInfo'' [ty_pruneInfo_t]
       ''cusparseDestroyPruneInfo'' ty_cusparseStatus_t [ty_pruneInfo_t] ''cusparseDestroyPruneInfo'' [0] False,
     Gen cusparse ty_cusparseStatus_t ''cusparseSaxpyi'' [ty_cusparseHandle_t, ty_int, Ptr (Const ty_float), Ptr (Const ty_float), Ptr (Const ty_int), Ptr ty_float, ty_cusparseIndexBase_t]
       ''cusparseSaxpyi'' ty_cusparseStatus_t [ty_cusparseHandle_t, ty_int, Ptr (Const ty_float), Ptr (Const ty_float), Ptr (Const ty_int), Ptr ty_float, ty_cusparseIndexBase_t] ''cusparseSaxpyi'' [0, 1, 2, 3, 4, 5, 6] False,
     Gen cusparse ty_cusparseStatus_t ''cusparseDaxpyi'' [ty_cusparseHandle_t, ty_int, Ptr (Const ty_double), Ptr (Const ty_double), Ptr (Const ty_int), Ptr ty_double, ty_cusparseIndexBase_t]
       ''cusparseDaxpyi'' ty_cusparseStatus_t [ty_cusparseHandle_t, ty_int, Ptr (Const ty_double), Ptr (Const ty_double), Ptr (Const ty_int), Ptr ty_double, ty_cusparseIndexBase_t] ''cusparseDaxpyi'' [0, 1, 2, 3, 4, 5, 6] False,
     Gen cusparse ty_cusparseStatus_t ''cusparseCaxpyi'' [ty_cusparseHandle_t, ty_int, Ptr (Const ty_cuComplex), Ptr (Const ty_cuComplex), Ptr (Const ty_int), Ptr ty_cuComplex, ty_cusparseIndexBase_t]
       ''cusparseCaxpyi'' ty_cusparseStatus_t [ty_cusparseHandle_t, ty_int, Ptr (Const ty_cuComplex), Ptr (Const ty_cuComplex), Ptr (Const ty_int), Ptr ty_cuComplex, ty_cusparseIndexBase_t] ''cusparseCaxpyi'' [0, 1, 2, 3, 4, 5, 6] False,
     Gen cusparse ty_cusparseStatus_t ''cusparseZaxpyi'' [ty_cusparseHandle_t, ty_int, Ptr (Const ty_cuDoubleComplex), Ptr (Const ty_cuDoubleComplex), Ptr (Const ty_int), Ptr ty_cuDoubleComplex, ty_cusparseIndexBase_t]
       ''cusparseZaxpyi'' ty_cusparseStatus_t [ty_cusparseHandle_t, ty_int, Ptr (Const ty_cuDoubleComplex), Ptr (Const ty_cuDoubleComplex), Ptr (Const ty_int), Ptr ty_cuDoubleComplex, ty_cusparseIndexBase_t] ''cusparseZaxpyi'' [0, 1, 2, 3, 4, 5, 6] False,
     Gen cusparse ty_cusparseStatus_t ''cusparseSgthr'' [ty_cusparseHandle_t, ty_int, Ptr (Const ty_float), Ptr ty_float, Ptr (Const ty_int), ty_cusparseIndexBase_t]
       ''cusparseSgthr'' ty_cusparseStatus_t [ty_cusparseHandle_t, ty_int, Ptr (Const ty_float), Ptr ty_float, Ptr (Const ty_int), ty_cusparseIndexBase_t] ''cusparseSgthr'' [0, 1, 2, 3, 4, 5] False,
     Gen cusparse ty_cusparseStatus_t ''cusparseDgthr'' [ty_cusparseHandle_t, ty_int, Ptr (Const ty_double), Ptr ty_double, Ptr (Const ty_int), ty_cusparseIndexBase_t]
       ''cusparseDgthr'' ty_cusparseStatus_t [ty_cusparseHandle_t, ty_int, Ptr (Const ty_double), Ptr ty_double, Ptr (Const ty_int), ty_cusparseIndexBase_t] ''cusparseDgthr'' [0, 1, 2, 3, 4, 5] False,
     Gen cusparse ty_cusparseStatus_t ''cusparseCgthr'' [ty_cusparseHandle_t, ty_int, Ptr (Const ty_cuComplex), Ptr ty_cuComplex, Ptr (Const ty_int), ty_cusparseIndexBase_t]
       ''cusparseCgthr'' ty_cusparseStatus_t [ty_cusparseHandle_t, ty_int, Ptr (Const ty_cuComplex), Ptr ty_cuComplex, Ptr (Const ty_int), ty_cusparseIndexBase_t] ''cusparseCgthr'' [0, 1, 2, 3, 4, 5] False,
     Gen cusparse ty_cusparseStatus_t ''cusparseZgthr'' [ty_cusparseHandle_t, ty_int, Ptr (Const ty_cuDoubleComplex), Ptr ty_cuDoubleComplex, Ptr (Const ty_int), ty_cusparseIndexBase_t]
       ''cusparseZgthr'' ty_cusparseStatus_t [ty_cusparseHandle_t, ty_int, Ptr (Const ty_cuDoubleComplex), Ptr ty_cuDoubleComplex, Ptr (Const ty_int), ty_cusparseIndexBase_t] ''cusparseZgthr'' [0, 1, 2, 3, 4, 5] False]"

definition cusparse_hooks_4 :: "gen_hook list" where
  "cusparse_hooks_4 =
    [Gen cusparse ty_cusparseStatus_t ''cusparseSgthrz'' [ty_cusparseHandle_t, ty_int, Ptr ty_float, Ptr ty_float, Ptr (Const ty_int), ty_cusparseIndexBase_t]
       ''cusparseSgthrz'' ty_cusparseStatus_t [ty_cusparseHandle_t, ty_int, Ptr ty_float, Ptr ty_float, Ptr (Const ty_int), ty_cusparseIndexBase_t] ''cusparseSgthrz'' [0, 1, 2, 3, 4, 5] False,
     Gen cusparse ty_cusparseStatus_t ''cusparseDgthrz'' [ty_cusparseHandle_t, ty_int, Ptr ty_double, Ptr ty_double, Ptr (Const ty_int), ty_cusparseIndexBase_t]
       ''cusparseDgthrz'' ty_cusparseStatus_t [ty_cusparseHandle_t, ty_int, Ptr ty_double, Ptr ty_double, Ptr (Const ty_int), ty_cusparseIndexBase_t] ''cusparseDgthrz'' [0, 1, 2, 3, 4, 5] False,
     Gen cusparse ty_cusparseStatus_t ''cusparseCgthrz'' [ty_cusparseHandle_t, ty_int, Ptr ty_cuComplex, Ptr ty_cuComplex, Ptr (Const ty_int), ty_cusparseIndexBase_t]
       ''cusparseCgthrz'' ty_cusparseStatus_t [ty_cusparseHandle_t, ty_int, Ptr ty_cuComplex, Ptr ty_cuComplex, Ptr (Const ty_int), ty_cusparseIndexBase_t] ''cusparseCgthrz'' [0, 1, 2, 3, 4, 5] False,
     Gen cusparse ty_cusparseStatus_t ''cusparseZgthrz'' [ty_cusparseHandle_t, ty_int, Ptr ty_cuDoubleComplex, Ptr ty_cuDoubleComplex, Ptr (Const ty_int), ty_cusparseIndexBase_t]
       ''cusparseZgthrz'' ty_cusparseStatus_t [ty_cusparseHandle_t, ty_int, Ptr ty_cuDoubleComplex, Ptr ty_cuDoubleComplex, Ptr (Const ty_int), ty_cusparseIndexBase_t] ''cusparseZgthrz'' [0, 1, 2, 3, 4, 5] False,
     Gen cusparse ty_cusparseStatus_t ''cusparseSsctr'' [ty_cusparseHandle_t, ty_int, Ptr (Const ty_float), Ptr (Const ty_int), Ptr ty_float, ty_cusparseIndexBase_t]
       ''cusparseSsctr'' ty_cusparseStatus_t [ty_cusparseHandle_t, ty_int, Ptr (Const ty_float), Ptr (Const ty_int), Ptr ty_float, ty_cusparseIndexBase_t] ''cusparseSsctr'' [0, 1, 2, 3, 4, 5] False,
     Gen cusparse ty_cusparseStatus_t ''cusparseDsctr'' [ty_cusparseHandle_t, ty_int, Ptr (Const ty_double), Ptr (Const ty_int), Ptr ty_double, ty_cusparseIndexBase_t]
       ''cusparseDsctr'' ty_cusparseStatus_t [ty_cusparseHandle_t, ty_int, Ptr (Const ty_double), Ptr (Const ty_int), Ptr ty_double, ty_cusparseIndexBase_t] ''cusparseDsctr'' [0, 1, 2, 3, 4, 5] False,
     Gen cusparse ty_cusparseStatus_t ''cusparseCsctr'' [ty_cusparseHandle_t, ty_int, Ptr (Const ty_cuComplex), Ptr (Const ty_int), Ptr ty_cuComplex, ty_cusparseIndexBase_t]
       ''cusparseCsctr'' ty_cusparseStatus_t [ty_cusparseHandle_t, ty_int, Ptr (Const ty_cuComplex), Ptr (Const ty_int), Ptr ty_cuComplex, ty_cusparseIndexBase_t] ''cusparseCsctr'' [0, 1, 2, 3, 4, 5] False,
     Gen cusparse ty_cusparseStatus_t ''cusparseZsctr'' [ty_cusparseHandle_t, ty_int, Ptr (Const ty_cuDoubleComplex), Ptr (Const ty_int), Ptr ty_cuDoubleComplex, ty_cusparseIndexBase_t]
       ''cusparseZsctr'' ty_cusparseStatus_t [ty_cusparseHandle_t, ty_int, Ptr (Const ty_cuDoubleComplex), Ptr (Const ty_int), Ptr ty_cuDoubleComplex, ty_cusparseIndexBase_t] ''cusparseZsctr'' [0, 1, 2, 3, 4, 5] False,
     Gen cusparse ty_cusparseStatus_t ''cusparseSroti'' [ty_cusparseHandle_t, ty_int, Ptr ty_float, Ptr (Const ty_int), Ptr ty_float, Ptr (Const ty_float), Ptr (Const ty_float), ty_cusparseIndexBase_t]
       ''cusparseSroti'' ty_cusparseStatus_t [ty_cusparseHandle_t, ty_int, Ptr ty_float, Ptr (Const ty_int), Ptr ty_float, Ptr (Const ty_float), Ptr (Const ty_float), ty_cusparseIndexBase_t] ''cusparseSroti'' [0, 1, 2, 3, 4, 5, 6, 7] False,
     Gen cusparse ty_cusparseStatus_t ''cusparseDroti'' [ty_cusparseHandle_t, ty_int, Ptr ty_double, Ptr (Const ty_int), Ptr ty_double, Ptr (Const ty_double), Ptr (Const ty_double), ty_cusparseIndexBase_t]
       ''cusparseDroti'' ty_cusparseStatus_t [ty_cusparseHandle_t, ty_int, Ptr ty_double, Ptr (Const ty_int), Ptr ty_double, Ptr (Const ty_double), Ptr (Const ty_double), ty_cusparseIndexBase_t] ''cusparseDroti'' [0, 1, 2, 3, 4, 5, 6, 7] False,
     Gen cusparse ty_cusparseStatus_t ''cusparseSgemvi'' [ty_cusparseHandle_t, ty_cusparseOperation_t, ty_int, ty_int, Ptr (Const ty_float), Ptr (Const ty_float), ty_int, ty_int, Ptr (Const ty_float), Ptr (Const ty_int), Ptr (Const ty_float), Ptr ty_float, ty_cusparseIndexBase_t, Ptr ty_void]
       ''cusparseSgemvi'' ty_cusparseStatus_t [ty_cusparseHandle_t, ty_cusparseOperation_t, ty_int, ty_int, Ptr (Const ty_float), Ptr (Const ty_float), ty_int, ty_int, Ptr (Const ty_float), Ptr (Const ty_int), Ptr (Const ty_float), Ptr ty_float, ty_cusparseIndexBase_t, Ptr ty_void] ''cusparseSgemvi'' [0, 1, 2, 3, 4, 5, 6, 7, 8, 9, 10, 11, 12, 13] False,
     Gen cusparse ty_cusparseStatus_t ''cusparseSgemvi_bufferSize'' [ty_cusparseHandle_t, ty_cusparseOperation_t, ty_int, ty_int, ty_int, Ptr ty_int]
       ''cusparseSgemvi_bufferSize'' ty_cusparseStatus_t [ty_cusparseHandle_t, ty_cusparseOperation_t, ty_int, ty_int, ty_int, Ptr ty_int] ''cusparseSgemvi_bufferSize'' [0, 1, 2, 3, 4, 5] False,
     Gen cusparse ty_cusparseStatus_t ''cusparseDgemvi'' [ty_cusparseHandle_t, ty_cusparseOperation_t, ty_int, ty_int, Ptr (Const ty_double), Ptr (Const ty_double), ty_int, ty_int, Ptr (Const ty_double), Ptr (Const ty_int), Ptr (Const ty_double), Ptr ty_double, ty_cusparseIndexBase_t, Ptr ty_void]
       ''cusparseDgemvi'' ty_cusparseStatus_t [ty_cusparseHandle_t, ty_cusparseOperation_t, ty_int, ty_int, Ptr (Const ty_double), Ptr (Const ty_double), ty_int, ty_int, Ptr (Const ty_double), Ptr (Const ty_int), Ptr (Const ty_double), Ptr ty_double, ty_cusparseIndexBase_t, Ptr ty_void] ''cusparseDgemvi'' [0, 1, 2, 3, 4, 5, 6, 7, 8, 9, 10, 11, 12, 13] False,
     Gen cusparse ty_cusparseStatus_t ''cusparseDgemvi_bufferSize'' [ty_cusparseHandle_t, ty_cusparseOperation_t, ty_int, ty_int, ty_int, Ptr ty_int]
       ''cusparseDgemvi_bufferSize'' ty_cusparseStatus_t [ty_cusparseHandle_t, ty_cusparseOperation_t, ty_int, ty_int, ty_int, Ptr ty_int] ''cusparseDgemvi_bufferSize'' [0, 1, 2, 3, 4, 5] False]"

definition cusparse_hooks_5 :: "gen_hook list" where
  "cusparse_hooks_5 =
    [Gen cusparse ty_cusparseStatus_t ''cusparseCgemvi'' [ty_cusparseHandle_t, ty_cusparseOperation_t, ty_int, ty_int, Ptr (Const ty_cuComplex), Ptr (Const ty_cuComplex), ty_int, ty_int, Ptr (Const ty_cuComplex), Ptr (Const ty_int), Ptr (Const ty_cuComplex), Ptr ty_cuComplex, ty_cusparseIndexBase_t, Ptr ty_void]
       ''cusparseCgemvi'' ty_cusparseStatus_t [ty_cusparseHandle_t, ty_cusparseOperation_t, ty_int, ty_int, Ptr (Const ty_cuComplex), Ptr (Const ty_cuComplex), ty_int, ty_int, Ptr (Const ty_cuComplex), Ptr (Const ty_int), Ptr (Const ty_cuComplex), Ptr ty_cuComplex, ty_cusparseIndexBase_t, Ptr ty_void] ''cusparseCgemvi'' [0, 1, 2, 3, 4, 5, 6, 7, 8, 9, 10, 11, 12, 13] False,
     Gen cusparse ty_cusparseStatus_t ''cusparseCgemvi_bufferSize'' [ty_cusparseHandle_t, ty_cusparseOperation_t, ty_int, ty_int, ty_int, Ptr ty_int]
       ''cusparseCgemvi_bufferSize'' ty_cusparseStatus_t [ty_cusparseHandle_t, ty_cusparseOperation_t, ty_int, ty_int, ty_int, Ptr ty_int] ''cusparseCgemvi_bufferSize'' [0, 1, 2, 3, 4, 5] False,
     Gen cusparse ty_cusparseStatus_t ''cusparseZgemvi'' [ty_cusparseHandle_t, ty_cusparseOperation_t, ty_int, ty_int, Ptr (Const ty_cuDoubleComplex), Ptr (Const ty_cuDoubleComplex), ty_int, ty_int, Ptr (Const ty_cuDoubleComplex), Ptr (Const ty_int), Ptr (Const ty_cuDoubleComplex), Ptr ty_cuDoubleComplex, ty_cusparseIndexBase_t, Ptr ty_void]
       ''cusparseZgemvi'' ty_cusparseStatus_t [ty_cusparseHandle_t, ty_cusparseOperation_t, ty_int, ty_int, Ptr (Const ty_cuDoubleComplex), Ptr (Const ty_cuDoubleComplex), ty_int, ty_int, Ptr (Const ty_cuDoubleComplex), Ptr (Const ty_int), Ptr (Const ty_cuDoubleComplex), Ptr ty_cuDoubleComplex, ty_cusparseIndexBase_t, Ptr ty_void] ''cusparseZgemvi'' [0, 1, 2, 3, 4, 5, 6, 7, 8, 9, 10, 11, 12, 13] False,
     Gen cusparse ty_cusparseStatus_t ''cusparseZgemvi_bufferSize'' [ty_cusparseHandle_t, ty_cusparseOperation_t, ty_int, ty_int, ty_int, Ptr ty_int]
       ''cusparseZgemvi_bufferSize'' ty_cusparseStatus_t [ty_cusparseHandle_t, ty_cusparseOperation_t, ty_int, ty_int, ty_int, Ptr ty_int] ''cusparseZgemvi_bufferSize'' [0, 1, 2, 3, 4, 5] False,
     Gen cusparse ty_cusparseStatus_t ''cusparseCsrmvEx_bufferSize'' [ty_cusparseHandle_t, ty_cusparseAlgMode_t, ty_cusparseOperation_t, ty_int, ty_int, ty_int, Ptr (Const ty_void), ty_cudaDataType, Const ty_cusparseMatDescr_t, Ptr (Const ty_void), ty_cudaDataType, Ptr (Const ty_int), Ptr (Const ty_int), Ptr (Const ty_void), ty_cudaDataType, Ptr (Const ty_void), ty_cudaDataType, Ptr ty_void, ty_cudaDataType, ty_cudaDataType, Ptr ty_size_t]
       ''cusparseCsrmvEx_bufferSize'' ty_cusparseStatus_t [ty_cusparseHandle_t, ty_cusparseAlgMode_t, ty_cusparseOperation_t, ty_int, ty_int, ty_int, Ptr (Const ty_void), ty_cudaDataType, Const ty_cusparseMatDescr_t, Ptr (Const ty_void), ty_cudaDataType, Ptr (Const ty_int), Ptr (Const ty_int), Ptr (Const ty_void), ty_cudaDataType, Ptr (Const ty_void), ty_cudaDataType, Ptr ty_void, ty_cudaDataType, ty_cudaDataType, Ptr ty_size_t] ''cusparseCsrmvEx_bufferSize'' [0, 1, 2, 3, 4, 5, 6, 7, 8, 9, 10, 11, 12, 13, 14, 15, 16, 17, 18, 19, 20] False,
     Gen cusparse ty_cusparseStatus_t ''cusparseCsrmvEx'' [ty_cusparseHandle_t, ty_cusparseAlgMode_t, ty_cusparseOperation_t, ty_int, ty_int, ty_int, Ptr (Const ty_void), ty_cudaDataType, Const ty_cusparseMatDescr_t, Ptr (Const ty_void), ty_cudaDataType, Ptr (Const ty_int), Ptr (Const ty_int), Ptr (Const ty_void), ty_cudaDataType, Ptr (Const ty_void), ty_cudaDataType, Ptr ty_void, ty_cudaDataType, ty_cudaDataType, Ptr ty_void]
       ''cusparseCsrmvEx'' ty_cusparseStatus_t [ty_cusparseHandle_t, ty_cusparseAlgMode_t, ty_cusparseOperation_t, ty_int, ty_int, ty_int, Ptr (Const ty_void), ty_cudaDataType, Const ty_cusparseMatDescr_t, Ptr (Const ty_void), ty_cudaDataType, Ptr (Const ty_int), Ptr (Const ty_int), Ptr (Const ty_void), ty_cudaDataType, Ptr (Const ty_void), ty_cudaDataType, Ptr ty_void, ty_cudaDataType, ty_cudaDataType, Ptr ty_void] ''cusparseCsrmvEx'' [0, 1, 2, 3, 4, 5, 6, 7, 8, 9, 10, 11, 12, 13, 14, 15, 16, 17, 18, 19, 20] False,
     Gen cusparse ty_cusparseStatus_t ''cusparseSbsrmv'' [ty_cusparseHandle_t, ty_cusparseDirection_t, ty_cusparseOperation_t, ty_int, ty_int, ty_int, Ptr (Const ty_float), Const ty_cusparseMatDescr_t, Ptr (Const ty_float), Ptr (Const ty_int), Ptr (Const ty_int), ty_int, Ptr (Const ty_float), Ptr (Const ty_float), Ptr ty_float]
       ''cusparseSbsrmv'' ty_cusparseStatus_t [ty_cusparseHandle_t, ty_cusparseDirection_t, ty_cusparseOperation_t, ty_int, ty_int, ty_int, Ptr (Const ty_float), Const ty_cusparseMatDescr_t, Ptr (Const ty_float), Ptr (Const ty_int), Ptr (Const ty_int), ty_int, Ptr (Const ty_float), Ptr (Const ty_float), Ptr ty_float] ''cusparseSbsrmv'' [0, 1, 2, 3, 4, 5, 6, 7, 8, 9, 10, 11, 12, 13, 14] False,
     Gen cusparse ty_cusparseStatus_t ''cusparseDbsrmv'' [ty_cusparseHandle_t, ty_cusparseDirection_t, ty_cusparseOperation_t, ty_int, ty_int, ty_int, Ptr (Const ty_double), Const ty_cusparseMatDescr_t, Ptr (Const ty_double), Ptr (Const ty_int), Ptr (Const ty_int), ty_int, Ptr (Const ty_double), Ptr (Const ty_double), Ptr ty_double]
       ''cusparseDbsrmv'' ty_cusparseStatus_t [ty_cusparseHandle_t, ty_cusparseDirection_t, ty_cusparseOperation_t, ty_int, ty_int, ty_int, Ptr (Const ty_double), Const ty_cusparseMatDescr_t, Ptr (Const ty_double), Ptr (Const ty_int), Ptr (Const ty_int), ty_int, Ptr (Const ty_double), Ptr (Const ty_double), Ptr ty_double] ''cusparseDbsrmv'' [0, 1, 2, 3, 4, 5, 6, 7, 8, 9, 10, 11, 12, 13, 14] False,
     Gen cusparse ty_cusparseStatus_t ''cusparseCbsrmv'' [ty_cusparseHandle_t, ty_cusparseDirection_t, ty_cusparseOperation_t, ty_int, ty_int, ty_int, Ptr (Const ty_cuComplex), Const ty_cusparseMatDescr_t, Ptr (Const ty_cuComplex), Ptr (Const ty_int), Ptr (Const ty_int), ty_int, Ptr (Const ty_cuComplex), Ptr (Const ty_cuComplex), Ptr ty_cuComplex]
       ''cusparseCbsrmv'' ty_cusparseStatus_t [ty_cusparseHandle_t, ty_cusparseDirection_t, ty_cusparseOperation_t, ty_int, ty_int, ty_int, Ptr (Const ty_cuComplex), Const ty_cusparseMatDescr_t, Ptr (Const ty_cuComplex), Ptr (Const ty_int), Ptr (Const ty_int), ty_int, Ptr (Const ty_cuComplex), Ptr (Const ty_cuComplex), Ptr ty_cuComplex] ''cusparseCbsrmv'' [0, 1, 2, 3, 4, 5, 6, 7, 8, 9, 10, 11, 12, 13, 14] False,
     Gen cusparse ty_cusparseStatus_t ''cusparseZbsrmv'' [ty_cusparseHandle_t, ty_cusparseDirection_t, ty_cusparseOperation_t, ty_int, ty_int, ty_int, Ptr (Const ty_cuDoubleComplex), Const ty_cusparseMatDescr_t, Ptr (Const ty_cuDoubleComplex), Ptr (Const ty_int), Ptr (Const ty_int), ty_int, Ptr (Const ty_cuDoubleComplex), Ptr (Const ty_cuDoubleComplex), Ptr ty_cuDoubleComplex]
       ''cusparseZbsrmv'' ty_cusparseStatus_t [ty_cusparseHandle_t, ty_cusparseDirection_t, ty_cusparseOperation_t, ty_int, ty_int, ty_int, Ptr (Const ty_cuDoubleComplex), Const ty_cusparseMatDescr_t, Ptr (Const ty_cuDoubleComplex), Ptr (Const ty_int), Ptr (Const ty_int), ty_int, Ptr (Const ty_cuDoubleComplex), Ptr (Const ty_cuDoubleComplex), Ptr ty_cuDoubleComplex] ''cusparseZbsrmv'' [0, 1, 2, 3, 4, 5, 6, 7, 8, 9, 10, 11, 12, 13, 14] False]"

definition cusparse_hooks_6 :: "gen_hook list" where
  "cusparse_hooks_6 =
    [Gen cusparse ty_cusparseStatus_t ''cusparseSbsrxmv'' [ty_cusparseHandle_t, ty_cusparseDirection_t, ty_cusparseOperation_t, ty_int, ty_int, ty_int, ty_int, Ptr (Const ty_float), Const ty_cusparseMatDescr_t, Ptr (Const ty_float), Ptr (Const ty_int), Ptr (Const ty_int), Ptr (Const ty_int), Ptr (Const ty_int), ty_int, Ptr (Const ty_float), Ptr (Const ty_float), Ptr ty_float]
       ''cusparseSbsrxmv'' ty_cusparseStatus_t [ty_cusparseHandle_t, ty_cusparseDirection_t, ty_cusparseOperation_t, ty_int, ty_int, ty_int, ty_int, Ptr (Const ty_float), Const ty_cusparseMatDescr_t, Ptr (Const ty_float), Ptr (Const ty_int), Ptr (Const ty_int), Ptr (Const ty_int), Ptr (Const ty_int), ty_int, Ptr (Const ty_float), Ptr (Const ty_float), Ptr ty_float] ''cusparseSbsrxmv'' [0, 1, 2, 3, 4, 5, 6, 7, 8, 9, 10, 11, 12, 13, 14, 15, 16, 17] False,
     Gen cusparse ty_cusparseStatus_t ''cusparseDbsrxmv'' [ty_cusparseHandle_t, ty_cusparseDirection_t, ty_cusparseOperation_t, ty_int, ty_int, ty_int, ty_int, Ptr (Const ty_double), Const ty_cusparseMatDescr_t, Ptr (Const ty_double), Ptr (Const ty_int), Ptr (Const ty_int), Ptr (Const ty_int), Ptr (Const ty_int), ty_int, Ptr (Const ty_double), Ptr (Const ty_double), Ptr ty_double]
       ''cusparseDbsrxmv'' ty_cusparseStatus_t [ty_cusparseHandle_t, ty_cusparseDirection_t, ty_cusparseOperation_t, ty_int, ty_int, ty_int, ty_int, Ptr (Const ty_double), Const ty_cusparseMatDescr_t, Ptr (Const ty_double), Ptr (Const ty_int), Ptr (Const ty_int), Ptr (Const ty_int), Ptr (Const ty_int), ty_int, Ptr (Const ty_double), Ptr (Const ty_double), Ptr ty_double] ''cusparseDbsrxmv'' [0, 1, 2, 3, 4, 5, 6, 7, 8, 9, 10, 11, 12, 13, 14, 15, 16, 17] False,
     Gen cusparse ty_cusparseStatus_t ''cusparseCbsrxmv'' [ty_cusparseHandle_t, ty_cusparseDirection_t, ty_cusparseOperation_t, ty_int, ty_int, ty_int, ty_int, Ptr (Const ty_cuComplex), Const ty_cusparseMatDescr_t, Ptr (Const ty_cuComplex), Ptr (Const ty_int), Ptr (Const ty_int), Ptr (Const ty_int), Ptr (Const ty_int), ty_int, Ptr (Const ty_cuComplex), Ptr (Const ty_cuComplex), Ptr ty_cuComplex]
       ''cusparseCbsrxmv'' ty_cusparseStatus_t [ty_cusparseHandle_t, ty_cusparseDirection_t, ty_cusparseOperation_t, ty_int, ty_int, ty_int, ty_int, Ptr (Const ty_cuComplex), Const ty_cusparseMatDescr_t, Ptr (Const ty_cuComplex), Ptr (Const ty_int), Ptr (Const ty_int), Ptr (Const ty_int), Ptr (Const ty_int), ty_int, Ptr (Const ty_cuComplex), Ptr (Const ty_cuComplex), Ptr ty_cuComplex] ''cusparseCbsrxmv'' [0, 1, 2, 3, 4, 5, 6, 7, 8, 9, 10, 11, 12, 13, 14, 15, 16, 17] False,
     Gen cusparse ty_cusparseStatus_t ''cusparseZbsrxmv'' [ty_cusparseHandle_t, ty_cusparseDirection_t, ty_cusparseOperation_t, ty_int, ty_int, ty_int, ty_int, Ptr (Const ty_cuDoubleComplex), Const ty_cusparseMatDescr_t, Ptr (Const ty_cuDoubleComplex), Ptr (Const ty_int), Ptr (Const ty_int), Ptr (Const ty_int), Ptr (Const ty_int), ty_int, Ptr (Const ty_cuDoubleComplex), Ptr (Const ty_cuDoubleComplex), Ptr ty_cuDoubleComplex]
       ''cusparseZbsrxmv'' ty_cusparseStatus_t [ty_cusparseHandle_t, ty_cusparseDirection_t, ty_cusparseOperation_t, ty_int, ty_int, ty_int, ty_int, Ptr (Const ty_cuDoubleComplex), Const ty_cusparseMatDescr_t, Ptr (Const ty_cuDoubleComplex), Ptr (Const ty_int), Ptr (Const ty_int), Ptr (Const ty_int), Ptr (Const ty_int), ty_int, Ptr (Const ty_cuDoubleComplex), Ptr (Const ty_cuDoubleComplex), Ptr ty_cuDoubleComplex] ''cusparseZbsrxmv'' [0, 1, 2, 3, 4, 5, 6, 7, 8, 9, 10, 11, 12, 13, 14, 15, 16, 17] False,
     Gen cusparse ty_cusparseStatus_t ''cusparseXcsrsv2_zeroPivot'' [ty_cusparseHandle_t, ty_csrsv2Info_t, Ptr ty_int]
       ''cusparseXcsrsv2_zeroPivot'' ty_cusparseStatus_t [ty_cusparseHandle_t, ty_csrsv2Info_t, Ptr ty_int] ''cusparseXcsrsv2_zeroPivot'' [0, 1, 2] False,
     Gen cusparse ty_cusparseStatus_t ''cusparseScsrsv2_bufferSize'' [ty_cusparseHandle_t, ty_cusparseOperation_t, ty_int, ty_int, Const ty_cusparseMatDescr_t, Ptr ty_float, Ptr (Const ty_int), Ptr (Const ty_int), ty_csrsv2Info_t, Ptr ty_int]
       ''cusparseScsrsv2_bufferSize'' ty_cusparseStatus_t [ty_cusparseHandle_t, ty_cusparseOperation_t, ty_int, ty_int, Const ty_cusparseMatDescr_t, Ptr ty_float, Ptr (Const ty_int), Ptr (Const ty_int), ty_csrsv2Info_t, Ptr ty_int] ''cusparseScsrsv2_bufferSize'' [0, 1, 2, 3, 4, 5, 6, 7, 8, 9] False,
     Gen cusparse ty_cusparseStatus_t ''cusparseDcsrsv2_bufferSize'' [ty_cusparseHandle_t, ty_cusparseOperation_t, ty_int, ty_int, Const ty_cusparseMatDescr_t, Ptr ty_double, Ptr (Const ty_int), Ptr (Const ty_int), ty_csrsv2Info_t, Ptr ty_int]
       ''cusparseDcsrsv2_bufferSize'' ty_cusparseStatus_t [ty_cusparseHandle_t, ty_cusparseOperation_t, ty_int, ty_int, Const ty_cusparseMatDescr_t, Ptr ty_double, Ptr (Const ty_int), Ptr (Const ty_int), ty_csrsv2Info_t, Ptr ty_int] ''cusparseDcsrsv2_bufferSize'' [0, 1, 2, 3, 4, 5, 6, 7, 8, 9] False,
     Gen cusparse ty_cusparseStatus_t ''cusparseCcsrsv2_bufferSize'' [ty_cusparseHandle_t, ty_cusparseOperation_t, ty_int, ty_int, Const ty_cusparseMatDescr_t, Ptr ty_cuComplex, Ptr (Const ty_int), Ptr (Const ty_int), ty_csrsv2Info_t, Ptr ty_int]
       ''cusparseCcsrsv2_bufferSize'' ty_cusparseStatus_t [ty_cusparseHandle_t, ty_cusparseOperation_t, ty_int, ty_int, Const ty_cusparseMatDescr_t, Ptr ty_cuComplex, Ptr (Const ty_int), Ptr (Const ty_int), ty_csrsv2Info_t, Ptr ty_int] ''cusparseCcsrsv2_bufferSize'' [0, 1, 2, 3, 4, 5, 6, 7, 8, 9] False,
     Gen cusparse ty_cusparseStatus_t ''cusparseZcsrsv2_bufferSize'' [ty_cusparseHandle_t, ty_cusparseOperation_t, ty_int, ty_int, Const ty_cusparseMatDescr_t, Ptr ty_cuDoubleComplex, Ptr (Const ty_int), Ptr (Const ty_int), ty_csrsv2Info_t, Ptr ty_int]
       ''cusparseZcsrsv2_bufferSize'' ty_cusparseStatus_t [ty_cusparseHandle_t, ty_cusparseOperation_t, ty_int, ty_int, Const ty_cusparseMatDescr_t, Ptr ty_cuDoubleComplex, Ptr (Const ty_int), Ptr (Const ty_int), ty_csrsv2Info_t, Ptr ty_int] ''cusparseZcsrsv2_bufferSize'' [0, 1, 2, 3, 4, 5, 6, 7, 8, 9] False,
     Gen cusparse ty_cusparseStatus_t ''cusparseScsrsv2_bufferSizeExt'' [ty_cusparseHandle_t, ty_cusparseOperation_t, ty_int, ty_int, Const ty_cusparseMatDescr_t, Ptr ty_float, Ptr (Const ty_int), Ptr (Const ty_int), ty_csrsv2Info_t, Ptr ty_size_t]
       ''cusparseScsrsv2_bufferSizeExt'' ty_cusparseStatus_t [ty_cusparseHandle_t, ty_cusparseOperation_t, ty_int, ty_int, Const ty_cusparseMatDescr_t, Ptr ty_float, Ptr (Const ty_int), Ptr (Const ty_int), ty_csrsv2Info_t, Ptr ty_size_t] ''cusparseScsrsv2_bufferSizeExt'' [0, 1, 2, 3, 4, 5, 6, 7, 8, 9] False,
     Gen cusparse ty_cusparseStatus_t ''cusparseDcsrsv2_bufferSizeExt'' [ty_cusparseHandle_t, ty_cusparseOperation_t, ty_int, ty_int, Const ty_cusparseMatDescr_t, Ptr ty_double, Ptr (Const ty_int), Ptr (Const ty_int), ty_csrsv2Info_t, Ptr ty_size_t]
       ''cusparseDcsrsv2_bufferSizeExt'' ty_cusparseStatus_t [ty_cusparseHandle_t, ty_cusparseOperation_t, ty_int, ty_int, Const ty_cusparseMatDescr_t, Ptr ty_double, Ptr (Const ty_int), Ptr (Const ty_int), ty_csrsv2Info_t, Ptr ty_size_t] ''cusparseDcsrsv2_bufferSizeExt'' [0, 1, 2, 3, 4, 5, 6, 7, 8, 9] False]"

definition cusparse_hooks_7 :: "gen_hook list" where
  "cusparse_hooks_7 =
    [Gen cusparse ty_cusparseStatus_t ''cusparseCcsrsv2_bufferSizeExt'' [ty_cusparseHandle_t, ty_cusparseOperation_t, ty_int, ty_int, Const ty_cusparseMatDescr_t, Ptr ty_cuComplex, Ptr (Const ty_int), Ptr (Const ty_int), ty_csrsv2Info_t, Ptr ty_size_t]
       ''cusparseCcsrsv2_bufferSizeExt'' ty_cusparseStatus_t [ty_cusparseHandle_t, ty_cusparseOperation_t, ty_int, ty_int, Const ty_cusparseMatDescr_t, Ptr ty_cuComplex, Ptr (Const ty_int), Ptr (Const ty_int), ty_csrsv2Info_t, Ptr ty_size_t] ''cusparseCcsrsv2_bufferSizeExt'' [0, 1, 2, 3, 4, 5, 6, 7, 8, 9] False,
     Gen cusparse ty_cusparseStatus_t ''cusparseZcsrsv2_bufferSizeExt'' [ty_cusparseHandle_t, ty_cusparseOperation_t, ty_int, ty_int, Const ty_cusparseMatDescr_t, Ptr ty_cuDoubleComplex, Ptr (Const ty_int), Ptr (Const ty_int), ty_csrsv2Info_t, Ptr ty_size_t]
       ''cusparseZcsrsv2_bufferSizeExt'' ty_cusparseStatus_t [ty_cusparseHandle_t, ty_cusparseOperation_t, ty_int, ty_int, Const ty_cusparseMatDescr_t, Ptr ty_cuDoubleComplex, Ptr (Const ty_int), Ptr (Const ty_int), ty_csrsv2Info_t, Ptr ty_size_t] ''cusparseZcsrsv2_bufferSizeExt'' [0, 1, 2, 3, 4, 5, 6, 7, 8, 9] False,
     Gen cusparse ty_cusparseStatus_t ''cusparseScsrsv2_analysis'' [ty_cusparseHandle_t, ty_cusparseOperation_t, ty_int, ty_int, Const ty_cusparseMatDescr_t, Ptr (Const ty_float), Ptr (Const ty_int), Ptr (Const ty_int), ty_csrsv2Info_t, ty_cusparseSolvePolicy_t, Ptr ty_void]
       ''cusparseScsrsv2_analysis'' ty_cusparseStatus_t [ty_cusparseHandle_t, ty_cusparseOperation_t, ty_int, ty_int, Const ty_cusparseMatDescr_t, Ptr (Const ty_float), Ptr (Const ty_int), Ptr (Const ty_int), ty_csrsv2Info_t, ty_cusparseSolvePolicy_t, Ptr ty_void] ''cusparseScsrsv2_analysis'' [0, 1, 2, 3, 4, 5, 6, 7, 8, 9, 10] False,
     Gen cusparse ty_cusparseStatus_t ''cusparseDcsrsv2_analysis'' [ty_cusparseHandle_t, ty_cusparseOperation_t, ty_int, ty_int, Const ty_cusparseMatDescr_t, Ptr (Const ty_double), Ptr (Const ty_int), Ptr (Const ty_int), ty_csrsv2Info_t, ty_cusparseSolvePolicy_t, Ptr ty_void]
       ''cusparseDcsrsv2_analysis'' ty_cusparseStatus_t [ty_cusparseHandle_t, ty_cusparseOperation_t, ty_int, ty_int, Const ty_cusparseMatDescr_t, Ptr (Const ty_double), Ptr (Const ty_int), Ptr (Const ty_int), ty_csrsv2Info_t, ty_cusparseSolvePolicy_t, Ptr ty_void] ''cusparseDcsrsv2_analysis'' [0, 1, 2, 3, 4, 5, 6, 7, 8, 9, 10] False,
     Gen cusparse ty_cusparseStatus_t ''cusparseCcsrsv2_analysis'' [ty_cusparseHandle_t, ty_cusparseOperation_t, ty_int, ty_int, Const ty_cusparseMatDescr_t, Ptr (Const ty_cuComplex), Ptr (Const ty_int), Ptr (Const ty_int), ty_csrsv2Info_t, ty_cusparseSolvePolicy_t, Ptr ty_void]
       ''cusparseCcsrsv2_analysis'' ty_cusparseStatus_t [ty_cusparseHandle_t, ty_cusparseOperation_t, ty_int, ty_int, Const ty_cusparseMatDescr_t, Ptr (Const ty_cuComplex), Ptr (Const ty_int), Ptr (Const ty_int), ty_csrsv2Info_t, ty_cusparseSolvePolicy_t, Ptr ty_void] ''cusparseCcsrsv2_analysis'' [0, 1, 2, 3, 4, 5, 6, 7, 8, 9, 10] False,
     Gen cusparse ty_cusparseStatus_t ''cusparseZcsrsv2_analysis'' [ty_cusparseHandle_t, ty_cusparseOperation_t, ty_int, ty_int, Const ty_cusparseMatDescr_t, Ptr (Const ty_cuDoubleComplex), Ptr (Const ty_int), Ptr (Const ty_int), ty_csrsv2Info_t, ty_cusparseSolvePolicy_t, Ptr ty_void]
       ''cusparseZcsrsv2_analysis'' ty_cusparseStatus_t [ty_cusparseHandle_t, ty_cusparseOperation_t, ty_int, ty_int, Const ty_cusparseMatDescr_t, Ptr (Const ty_cuDoubleComplex), Ptr (Const ty_int), Ptr (Const ty_int), ty_csrsv2Info_t, ty_cusparseSolvePolicy_t, Ptr ty_void] ''cusparseZcsrsv2_analysis'' [0, 1, 2, 3, 4, 5, 6, 7, 8, 9, 10] False,
     Gen cusparse ty_cusparseStatus_t ''cusparseScsrsv2_solve'' [ty_cusparseHandle_t, ty_cusparseOperation_t, ty_int, ty_int, Ptr (Const ty_float), Const ty_cusparseMatDescr_t, Ptr (Const ty_float), Ptr (Const ty_int), Ptr (Const ty_int), ty_csrsv2Info_t, Ptr (Const ty_float), Ptr ty_float, ty_cusparseSolvePolicy_t, Ptr ty_void]
       ''cusparseScsrsv2_solve'' ty_cusparseStatus_t [ty_cusparseHandle_t, ty_cusparseOperation_t, ty_int, ty_int, Ptr (Const ty_float), Const ty_cusparseMatDescr_t, Ptr (Const ty_float), Ptr (Const ty_int), Ptr (Const ty_int), ty_csrsv2Info_t, Ptr (Const ty_float), Ptr ty_float, ty_cusparseSolvePolicy_t, Ptr ty_void] ''cusparseScsrsv2_solve'' [0, 1, 2, 3, 4, 5, 6, 7, 8, 9, 10, 11, 12, 13] False,
     Gen cusparse ty_cusparseStatus_t ''cusparseDcsrsv2_solve'' [ty_cusparseHandle_t, ty_cusparseOperation_t, ty_int, ty_int, Ptr (Const ty_double), Const ty_cusparseMatDescr_t, Ptr (Const ty_double), Ptr (Const ty_int), Ptr (Const ty_int), ty_csrsv2Info_t, Ptr (Const ty_double), Ptr ty_double, ty_cusparseSolvePolicy_t, Ptr ty_void]
       ''cusparseDcsrsv2_solve'' ty_cusparseStatus_t [ty_cusparseHandle_t, ty_cusparseOperation_t, ty_int, ty_int, Ptr (Const ty_double), Const ty_cusparseMatDescr_t, Ptr (Const ty_double), Ptr (Const ty_int), Ptr (Const ty_int), ty_csrsv2Info_t, Ptr (Const ty_double), Ptr ty_double, ty_cusparseSolvePolicy_t, Ptr ty_void] ''cusparseDcsrsv2_solve'' [0, 1, 2, 3, 4, 5, 6, 7, 8, 9, 10, 11, 12, 13] False,
     Gen cusparse ty_cusparseStatus_t ''cusparseCcsrsv2_solve'' [ty_cusparseHandle_t, ty_cusparseOperation_t, ty_int, ty_int, Ptr (Const ty_cuComplex), Const ty_cusparseMatDescr_t, Ptr (Const ty_cuComplex), Ptr (Const ty_int), Ptr (Const ty_int), ty_csrsv2Info_t, Ptr (Const ty_cuComplex), Ptr ty_cuComplex, ty_cusparseSolvePolicy_t, Ptr ty_void]
       ''cusparseCcsrsv2_solve'' ty_cusparseStatus_t [ty_cusparseHandle_t, ty_cusparseOperation_t, ty_int, ty_int, Ptr (Const ty_cuComplex), Const ty_cusparseMatDescr_t, Ptr (Const ty_cuComplex), Ptr (Const ty_int), Ptr (Const ty_int), ty_csrsv2Info_t, Ptr (Const ty_cuComplex), Ptr ty_cuComplex, ty_cusparseSolvePolicy_t, Ptr ty_void] ''cusparseCcsrsv2_solve'' [0, 1, 2, 3, 4, 5, 6, 7, 8, 9, 10, 11, 12, 13] False,
     Gen cusparse ty_cusparseStatus_t ''cusparseZcsrsv2_solve'' [ty_cusparseHandle_t, ty_cusparseOperation_t, ty_int, ty_int, Ptr (Const ty_cuDoubleComplex), Const ty_cusparseMatDescr_t, Ptr (Const ty_cuDoubleComplex), Ptr (Const ty_int), Ptr (Const ty_int), ty_csrsv2Info_t, Ptr (Const ty_cuDoubleComplex), Ptr ty_cuDoubleComplex, ty_cusparseSolvePolicy_t, Ptr ty_void]
       ''cusparseZcsrsv2_solve'' ty_cusparseStatus_t [ty_cusparseHandle_t, ty_cusparseOperation_t, ty_int, ty_int, Ptr (Const ty_cuDoubleComplex), Const ty_cusparseMatDescr_t, Ptr (Const ty_cuDoubleComplex), Ptr (Const ty_int), Ptr (Const ty_int), ty_csrsv2Info_t, Ptr (Const ty_cuDoubleComplex), Ptr ty_cuDoubleComplex, ty_cusparseSolvePolicy_t, Ptr ty_void] ''cusparseZcsrsv2_solve'' [0, 1, 2, 3, 4, 5, 6, 7, 8, 9, 10, 11, 12, 13] False]"

definition cusparse_hooks_8 :: "gen_hook list" where
  "cusparse_hooks_8 =
    [Gen cusparse ty_cusparseStatus_t ''cusparseXbsrsv2_zeroPivot'' [ty_cusparseHandle_t, ty_bsrsv2Info_t, Ptr ty_int]
       ''cusparseXbsrsv2_zeroPivot'' ty_cusparseStatus_t [ty_cusparseHandle_t, ty_bsrsv2Info_t, Ptr ty_int] ''cusparseXbsrsv2_zeroPivot'' [0, 1, 2] False,
     Gen cusparse ty_cusparseStatus_t ''cusparseSbsrsv2_bufferSize'' [ty_cusparseHandle_t, ty_cusparseDirection_t, ty_cusparseOperation_t, ty_int, ty_int, Const ty_cusparseMatDescr_t, Ptr ty_float, Ptr (Const ty_int), Ptr (Const ty_int), ty_int, ty_bsrsv2Info_t, Ptr ty_int]
       ''cusparseSbsrsv2_bufferSize'' ty_cusparseStatus_t [ty_cusparseHandle_t, ty_cusparseDirection_t, ty_cusparseOperation_t, ty_int, ty_int, Const ty_cusparseMatDescr_t, Ptr ty_float, Ptr (Const ty_int), Ptr (Const ty_int), ty_int, ty_bsrsv2Info_t, Ptr ty_int] ''cusparseSbsrsv2_bufferSize'' [0, 1, 2, 3, 4, 5, 6, 7, 8, 9, 10, 11] False,
     Gen cusparse ty_cusparseStatus_t ''cusparseDbsrsv2_bufferSize'' [ty_cusparseHandle_t, ty_cusparseDirection_t, ty_cusparseOperation_t, ty_int, ty_int, Const ty_cusparseMatDescr_t, Ptr ty_double, Ptr (Const ty_int), Ptr (Const ty_int), ty_int, ty_bsrsv2Info_t, Ptr ty_int]
       ''cusparseDbsrsv2_bufferSize'' ty_cusparseStatus_t [ty_cusparseHandle_t, ty_cusparseDirection_t, ty_cusparseOperation_t, ty_int, ty_int, Const ty_cusparseMatDescr_t, Ptr ty_double, Ptr (Const ty_int), Ptr (Const ty_int), ty_int, ty_bsrsv2Info_t, Ptr ty_int] ''cusparseDbsrsv2_bufferSize'' [0, 1, 2, 3, 4, 5, 6, 7, 8, 9, 10, 11] False,
     Gen cusparse ty_cusparseStatus_t ''cusparseCbsrsv2_bufferSize'' [ty_cusparseHandle_t, ty_cusparseDirection_t, ty_cusparseOperation_t, ty_int, ty_int, Const ty_cusparseMatDescr_t, Ptr ty_cuComplex, Ptr (Const ty_int), Ptr (Const ty_int), ty_int, ty_bsrsv2Info_t, Ptr ty_int]
       ''cusparseCbsrsv2_bufferSize'' ty_cusparseStatus_t [ty_cusparseHandle_t, ty_cusparseDirection_t, ty_cusparseOperation_t, ty_int, ty_int, Const ty_cusparseMatDescr_t, Ptr ty_cuComplex, Ptr (Const ty_int), Ptr (Const ty_int), ty_int, ty_bsrsv2Info_t, Ptr ty_int] ''cusparseCbsrsv2_bufferSize'' [0, 1, 2, 3, 4, 5, 6, 7, 8, 9, 10, 11] False,
     Gen cusparse ty_cusparseStatus_t ''cusparseZbsrsv2_bufferSize'' [ty_cusparseHandle_t, ty_cusparseDirection_t, ty_cusparseOperation_t, ty_int, ty_int, Const ty_cusparseMatDescr_t, Ptr ty_cuDoubleComplex, Ptr (Const ty_int), Ptr (Const ty_int), ty_int, ty_bsrsv2Info_t, Ptr ty_int]
       ''cusparseZbsrsv2_bufferSize'' ty_cusparseStatus_t [ty_cusparseHandle_t, ty_cusparseDirection_t, ty_cusparseOperation_t, ty_int, ty_int, Const ty_cusparseMatDescr_t, Ptr ty_cuDoubleComplex, Ptr (Const ty_int), Ptr (Const ty_int), ty_int, ty_bsrsv2Info_t, Ptr ty_int] ''cusparseZbsrsv2_bufferSize'' [0, 1, 2, 3, 4, 5, 6, 7, 8, 9, 10, 11] False,
     Gen cusparse ty_cusparseStatus_t ''cusparseSbsrsv2_bufferSizeExt'' [ty_cusparseHandle_t, ty_cusparseDirection_t, ty_cusparseOperation_t, ty_int, ty_int, Const ty_cusparseMatDescr_t, Ptr ty_float, Ptr (Const ty_int), Ptr (Const ty_int), ty_int, ty_bsrsv2Info_t, Ptr ty_size_t]
       ''cusparseSbsrsv2_bufferSizeExt'' ty_cusparseStatus_t [ty_cusparseHandle_t, ty_cusparseDirection_t, ty_cusparseOperation_t, ty_int, ty_int, Const ty_cusparseMatDescr_t, Ptr ty_float, Ptr (Const ty_int), Ptr (Const ty_int), ty_int, ty_bsrsv2Info_t, Ptr ty_size_t] ''cusparseSbsrsv2_bufferSizeExt'' [0, 1, 2, 3, 4, 5, 6, 7, 8, 9, 10, 11] False,
     Gen cusparse ty_cusparseStatus_t ''cusparseDbsrsv2_bufferSizeExt'' [ty_cusparseHandle_t, ty_cusparseDirection_t, ty_cusparseOperation_t, ty_int, ty_int, Const ty_cusparseMatDescr_t, Ptr ty_double, Ptr (Const ty_int), Ptr (Const ty_int), ty_int, ty_bsrsv2Info_t, Ptr ty_size_t]
       ''cusparseDbsrsv2_bufferSizeExt'' ty_cusparseStatus_t [ty_cusparseHandle_t, ty_cusparseDirection_t, ty_cusparseOperation_t, ty_int, ty_int, Const ty_cusparseMatDescr_t, Ptr ty_double, Ptr (Const ty_int), Ptr (Const ty_int), ty_int, ty_bsrsv2Info_t, Ptr ty_size_t] ''cusparseDbsrsv2_bufferSizeExt'' [0, 1, 2, 3, 4, 5, 6, 7, 8, 9, 10, 11] False,
     Gen cusparse ty_cusparseStatus_t ''cusparseCbsrsv2_bufferSizeExt'' [ty_cusparseHandle_t, ty_cusparseDirection_t, ty_cusparseOperation_t, ty_int, ty_int, Const ty_cusparseMatDescr_t, Ptr ty_cuComplex, Ptr (Const ty_int), Ptr (Const ty_int), ty_int, ty_bsrsv2Info_t, Ptr ty_size_t]
       ''cusparseCbsrsv2_bufferSizeExt'' ty_cusparseStatus_t [ty_cusparseHandle_t, ty_cusparseDirection_t, ty_cusparseOperation_t, ty_int, ty_int, Const ty_cusparseMatDescr_t, Ptr ty_cuComplex, Ptr (Const ty_int), Ptr (Const ty_int), ty_int, ty_bsrsv2Info_t, Ptr ty_size_t] ''cusparseCbsrsv2_bufferSizeExt'' [0, 1, 2, 3, 4, 5, 6, 7, 8, 9, 10, 11] False,
     Gen cusparse ty_cusparseStatus_t ''cusparseZbsrsv2_bufferSizeExt'' [ty_cusparseHandle_t, ty_cusparseDirection_t, ty_cusparseOperation_t, ty_int, ty_int, Const ty_cusparseMatDescr_t, Ptr ty_cuDoubleComplex, Ptr (Const ty_int), Ptr (Const ty_int), ty_int, ty_bsrsv2Info_t, Ptr ty_size_t]
       ''cusparseZbsrsv2_bufferSizeExt'' ty_cusparseStatus_t [ty_cusparseHandle_t, ty_cusparseDirection_t, ty_cusparseOperation_t, ty_int, ty_int, Const ty_cusparseMatDescr_t, Ptr ty_cuDoubleComplex, Ptr (Const ty_int), Ptr (Const ty_int), ty_int, ty_bsrsv2Info_t, Ptr ty_size_t] ''cusparseZbsrsv2_bufferSizeExt'' [0, 1, 2, 3, 4, 5, 6, 7, 8, 9, 10, 11] False,
     Gen cusparse ty_cusparseStatus_t ''cusparseSbsrsv2_analysis'' [ty_cusparseHandle_t, ty_cusparseDirection_t, ty_cusparseOperation_t, ty_int, ty_int, Const ty_cusparseMatDescr_t, Ptr (Const ty_float), Ptr (Const ty_int), Ptr (Const ty_int), ty_int, ty_bsrsv2Info_t, ty_cusparseSolvePolicy_t, Ptr ty_void]
       ''cusparseSbsrsv2_analysis'' ty_cusparseStatus_t [ty_cusparseHandle_t, ty_cusparseDirection_t, ty_cusparseOperation_t, ty_int, ty_int, Const ty_cusparseMatDescr_t, Ptr (Const ty_float), Ptr (Const ty_int), Ptr (Const ty_int), ty_int, ty_bsrsv2Info_t, ty_cusparseSolvePolicy_t, Ptr ty_void] ''cusparseSbsrsv2_analysis'' [0, 1, 2, 3, 4, 5, 6, 7, 8, 9, 10, 11, 12] False,
     Gen cusparse ty_cusparseStatus_t ''cusparseDbsrsv2_analysis'' [ty_cusparseHandle_t, ty_cusparseDirection_t, ty_cusparseOperation_t, ty_int, ty_int, Const ty_cusparseMatDescr_t, Ptr (Const ty_double), Ptr (Const ty_int), Ptr (Const ty_int), ty_int, ty_bsrsv2Info_t, ty_cusparseSolvePolicy_t, Ptr ty_void]
       ''cusparseDbsrsv2_analysis'' ty_cusparseStatus_t [ty_cusparseHandle_t, ty_cusparseDirection_t, ty_cusparseOperation_t, ty_int, ty_int, Const ty_cusparseMatDescr_t, Ptr (Const ty_double), Ptr (Const ty_int), Ptr (Const ty_int), ty_int, ty_bsrsv2Info_t, ty_cusparseSolvePolicy_t, Ptr ty_void] ''cusparseDbsrsv2_analysis'' [0, 1, 2, 3, 4, 5, 6, 7, 8, 9, 10, 11, 12] False]"

definition cusparse_hooks_9 :: "gen_hook list" where
  "cusparse_hooks_9 =
    [Gen cusparse ty_cusparseStatus_t ''cusparseCbsrsv2_analysis'' [ty_cusparseHandle_t, ty_cusparseDirection_t, ty_cusparseOperation_t, ty_int, ty_int, Const ty_cusparseMatDescr_t, Ptr (Const ty_cuComplex), Ptr (Const ty_int), Ptr (Const ty_int), ty_int, ty_bsrsv2Info_t, ty_cusparseSolvePolicy_t, Ptr ty_void]
       ''cusparseCbsrsv2_analysis'' ty_cusparseStatus_t [ty_cusparseHandle_t, ty_cusparseDirection_t, ty_cusparseOperation_t, ty_int, ty_int, Const ty_cusparseMatDescr_t, Ptr (Const ty_cuComplex), Ptr (Const ty_int), Ptr (Const ty_int), ty_int, ty_bsrsv2Info_t, ty_cusparseSolvePolicy_t, Ptr ty_void] ''cusparseCbsrsv2_analysis'' [0, 1, 2, 3, 4, 5, 6, 7, 8, 9, 10, 11, 12] False,
     Gen cusparse ty_cusparseStatus_t ''cusparseZbsrsv2_analysis'' [ty_cusparseHandle_t, ty_cusparseDirection_t, ty_cusparseOperation_t, ty_int, ty_int, Const ty_cusparseMatDescr_t, Ptr (Const ty_cuDoubleComplex), Ptr (Const ty_int), Ptr (Const ty_int), ty_int, ty_bsrsv2Info_t, ty_cusparseSolvePolicy_t, Ptr ty_void]
       ''cusparseZbsrsv2_analysis'' ty_cusparseStatus_t [ty_cusparseHandle_t, ty_cusparseDirection_t, ty_cusparseOperation_t, ty_int, ty_int, Const ty_cusparseMatDescr_t, Ptr (Const ty_cuDoubleComplex), Ptr (Const ty_int), Ptr (Const ty_int), ty_int, ty_bsrsv2Info_t, ty_cusparseSolvePolicy_t, Ptr ty_void] ''cusparseZbsrsv2_analysis'' [0, 1, 2, 3, 4, 5, 6, 7, 8, 9, 10, 11, 12] False,
     Gen cusparse ty_cusparseStatus_t ''cusparseSbsrsv2_solve'' [ty_cusparseHandle_t, ty_cusparseDirection_t, ty_cusparseOperation_t, ty_int, ty_int, Ptr (Const ty_float), Const ty_cusparseMatDescr_t, Ptr (Const ty_float), Ptr (Const ty_int), Ptr (Const ty_int), ty_int, ty_bsrsv2Info_t, Ptr (Const ty_float), Ptr ty_float, ty_cusparseSolvePolicy_t, Ptr ty_void]
       ''cusparseSbsrsv2_solve'' ty_cusparseStatus_t [ty_cusparseHandle_t, ty_cusparseDirection_t, ty_cusparseOperation_t, ty_int, ty_int, Ptr (Const ty_float), Const ty_cusparseMatDescr_t, Ptr (Const ty_float), Ptr (Const ty_int), Ptr (Const ty_int), ty_int, ty_bsrsv2Info_t, Ptr (Const ty_float), Ptr ty_float, ty_cusparseSolvePolicy_t, Ptr ty_void] ''cusparseSbsrsv2_solve'' [0, 1, 2, 3, 4, 5, 6, 7, 8, 9, 10, 11, 12, 13, 14, 15] False,
     Gen cusparse ty_cusparseStatus_t ''cusparseDbsrsv2_solve'' [ty_cusparseHandle_t, ty_cusparseDirection_t, ty_cusparseOperation_t, ty_int, ty_int, Ptr (Const ty_double), Const ty_cusparseMatDescr_t, Ptr (Const ty_double), Ptr (Const ty_int), Ptr (Const ty_int), ty_int, ty_bsrsv2Info_t, Ptr (Const ty_double), Ptr ty_double, ty_cusparseSolvePolicy_t, Ptr ty_void]
       ''cusparseDbsrsv2_solve'' ty_cusparseStatus_t [ty_cusparseHandle_t, ty_cusparseDirection_t, ty_cusparseOperation_t, ty_int, ty_int, Ptr (Const ty_double), Const ty_cusparseMatDescr_t, Ptr (Const ty_double), Ptr (Const ty_int), Ptr (Const ty_int), ty_int, ty_bsrsv2Info_t, Ptr (Const ty_double), Ptr ty_double, ty_cusparseSolvePolicy_t, Ptr ty_void] ''cusparseDbsrsv2_solve'' [0, 1, 2, 3, 4, 5, 6, 7, 8, 9, 10, 11, 12, 13, 14, 15] False,
     Gen cusparse ty_cusparseStatus_t ''cusparseCbsrsv2_solve'' [ty_cusparseHandle_t, ty_cusparseDirection_t, ty_cusparseOperation_t, ty_int, ty_int, Ptr (Const ty_cuComplex), Const ty_cusparseMatDescr_t, Ptr (Const ty_cuComplex), Ptr (Const ty_int), Ptr (Const ty_int), ty_int, ty_bsrsv2Info_t, Ptr (Const ty_cuComplex), Ptr ty_cuComplex, ty_cusparseSolvePolicy_t, Ptr ty_void]
       ''cusparseCbsrsv2_solve'' ty_cusparseStatus_t [ty_cusparseHandle_t, ty_cusparseDirection_t, ty_cusparseOperation_t, ty_int, ty_int, Ptr (Const ty_cuComplex), Const ty_cusparseMatDescr_t, Ptr (Const ty_cuComplex), Ptr (Const ty_int), Ptr (Const ty_int), ty_int, ty_bsrsv2Info_t, Ptr (Const ty_cuComplex), Ptr ty_cuComplex, ty_cusparseSolvePolicy_t, Ptr ty_void] ''cusparseCbsrsv2_solve'' [0, 1, 2, 3, 4, 5, 6, 7, 8, 9, 10, 11, 12, 13, 14, 15] False,
     Gen cusparse ty_cusparseStatus_t ''cusparseZbsrsv2_solve'' [ty_cusparseHandle_t, ty_cusparseDirection_t, ty_cusparseOperation_t, ty_int, ty_int, Ptr (Const ty_cuDoubleComplex), Const ty_cusparseMatDescr_t, Ptr (Const ty_cuDoubleComplex), Ptr (Const ty_int), Ptr (Const ty_int), ty_int, ty_bsrsv2Info_t, Ptr (Const ty_cuDoubleComplex), Ptr ty_cuDoubleComplex, ty_cusparseSolvePolicy_t, Ptr ty_void]
       ''cusparseZbsrsv2_solve'' ty_cusparseStatus_t [ty_cusparseHandle_t, ty_cusparseDirection_t, ty_cusparseOperation_t, ty_int, ty_int, Ptr (Const ty_cuDoubleComplex), Const ty_cusparseMatDescr_t, Ptr (Const ty_cuDoubleComplex), Ptr (Const ty_int), Ptr (Const ty_int), ty_int, ty_bsrsv2Info_t, Ptr (Const ty_cuDoubleComplex), Ptr ty_cuDoubleComplex, ty_cusparseSolvePolicy_t, Ptr ty_void] ''cusparseZbsrsv2_solve'' [0, 1, 2, 3, 4, 5, 6, 7, 8, 9, 10, 11, 12, 13, 14, 15] False,
     Gen cusparse ty_cusparseStatus_t ''cusparseSbsrmm'' [ty_cusparseHandle_t, ty_cusparseDirection_t, ty_cusparseOperation_t, ty_cusparseOperation_t, ty_int, ty_int, ty_int, ty_int, Ptr (Const ty_float), Const ty_cusparseMatDescr_t, Ptr (Const ty_float), Ptr (Const ty_int), Ptr (Const ty_int), Const ty_int, Ptr (Const ty_float), Const ty_int, Ptr (Const ty_float), Ptr ty_float, ty_int]
       ''cusparseSbsrmm'' ty_cusparseStatus_t [ty_cusparseHandle_t, ty_cusparseDirection_t, ty_cusparseOperation_t, ty_cusparseOperation_t, ty_int, ty_int, ty_int, ty_int, Ptr (Const ty_float), Const ty_cusparseMatDescr_t, Ptr (Const ty_float), Ptr (Const ty_int), Ptr (Const ty_int), Const ty_int, Ptr (Const ty_float), Const ty_int, Ptr (Const ty_float), Ptr ty_float, ty_int] ''cusparseSbsrmm'' [0, 1, 2, 3, 4, 5, 6, 7, 8, 9, 10, 11, 12, 13, 14, 15, 16, 17, 18] False,
     Gen cusparse ty_cusparseStatus_t ''cusparseDbsrmm'' [ty_cusparseHandle_t, ty_cusparseDirection_t, ty_cusparseOperation_t, ty_cusparseOperation_t, ty_int, ty_int, ty_int, ty_int, Ptr (Const ty_double), Const ty_cusparseMatDescr_t, Ptr (Const ty_double), Ptr (Const ty_int), Ptr (Const ty_int), Const ty_int, Ptr (Const ty_double), Const ty_int, Ptr (Const ty_double), Ptr ty_double, ty_int]
       ''cusparseDbsrmm'' ty_cusparseStatus_t [ty_cusparseHandle_t, ty_cusparseDirection_t, ty_cusparseOperation_t, ty_cusparseOperation_t, ty_int, ty_int, ty_int, ty_int, Ptr (Const ty_double), Const ty_cusparseMatDescr_t, Ptr (Const ty_double), Ptr (Const ty_int), Ptr (Const ty_int), Const ty_int, Ptr (Const ty_double), Const ty_int, Ptr (Const ty_double), Ptr ty_double, ty_int] ''cusparseDbsrmm'' [0, 1, 2, 3, 4, 5, 6, 7, 8, 9, 10, 11, 12, 13, 14, 15, 16, 17, 18] False,
     Gen cusparse ty_cusparseStatus_t ''cusparseCbsrmm'' [ty_cusparseHandle_t, ty_cusparseDirection_t, ty_cusparseOperation_t, ty_cusparseOperation_t, ty_int, ty_int, ty_int, ty_int, Ptr (Const ty_cuComplex), Const ty_cusparseMatDescr_t, Ptr (Const ty_cuComplex), Ptr (Const ty_int), Ptr (Const ty_int), Const ty_int, Ptr (Const ty_cuComplex), Const ty_int, Ptr (Const ty_cuComplex), Ptr ty_cuComplex, ty_int]
       ''cusparseCbsrmm'' ty_cusparseStatus_t [ty_cusparseHandle_t, ty_cusparseDirection_t, ty_cusparseOperation_t, ty_cusparseOperation_t, ty_int, ty_int, ty_int, ty_int, Ptr (Const ty_cuComplex), Const ty_cusparseMatDescr_t, Ptr (Const ty_cuComplex), Ptr (Const ty_int), Ptr (Const ty_int), Const ty_int, Ptr (Const ty_cuComplex), Const ty_int, Ptr (Const ty_cuComplex), Ptr ty_cuComplex, ty_int] ''cusparseCbsrmm'' [0, 1, 2, 3, 4, 5, 6, 7, 8, 9, 10, 11, 12, 13, 14, 15, 16, 17, 18] False]"

definition cusparse_hooks_10 :: "gen_hook list" where
  "cusparse_hooks_10 =
    [Gen cusparse ty_cusparseStatus_t ''cusparseZbsrmm'' [ty_cusparseHandle_t, ty_cusparseDirection_t, ty_cusparseOperation_t, ty_cusparseOperation_t, ty_int, ty_int, ty_int, ty_int, Ptr (Const ty_cuDoubleComplex), Const ty_cusparseMatDescr_t, Ptr (Const ty_cuDoubleComplex), Ptr (Const ty_int), Ptr (Const ty_int), Const ty_int, Ptr (Const ty_cuDoubleComplex), Const ty_int, Ptr (Const ty_cuDoubleComplex), Ptr ty_cuDoubleComplex, ty_int]
       ''cusparseZbsrmm'' ty_cusparseStatus_t [ty_cusparseHandle_t, ty_cusparseDirection_t, ty_cusparseOperation_t, ty_cusparseOperation_t, ty_int, ty_int, ty_int, ty_int, Ptr (Const ty_cuDoubleComplex), Const ty_cusparseMatDescr_t, Ptr (Const ty_cuDoubleComplex), Ptr (Const ty_int), Ptr (Const ty_int), Const ty_int, Ptr (Const ty_cuDoubleComplex), Const ty_int, Ptr (Const ty_cuDoubleComplex), Ptr ty_cuDoubleComplex, ty_int] ''cusparseZbsrmm'' [0, 1, 2, 3, 4, 5, 6, 7, 8, 9, 10, 11, 12, 13, 14, 15, 16, 17, 18] False,
     Gen cusparse ty_cusparseStatus_t ''cusparseSgemmi'' [ty_cusparseHandle_t, ty_int, ty_int, ty_int, ty_int, Ptr (Const ty_float), Ptr (Const ty_float), ty_int, Ptr (Const ty_float), Ptr (Const ty_int), Ptr (Const ty_int), Ptr (Const ty_float), Ptr ty_float, ty_int]
       ''cusparseSgemmi'' ty_cusparseStatus_t [ty_cusparseHandle_t, ty_int, ty_int, ty_int, ty_int, Ptr (Const ty_float), Ptr (Const ty_float), ty_int, Ptr (Const ty_float), Ptr (Const ty_int), Ptr (Const ty_int), Ptr (Const ty_float), Ptr ty_float, ty_int] ''cusparseSgemmi'' [0, 1, 2, 3, 4, 5, 6, 7, 8, 9, 10, 11, 12, 13] False,
     Gen cusparse ty_cusparseStatus_t ''cusparseDgemmi'' [ty_cusparseHandle_t, ty_int, ty_int, ty_int, ty_int, Ptr (Const ty_double), Ptr (Const ty_double), ty_int, Ptr (Const ty_double), Ptr (Const ty_int), Ptr (Const ty_int), Ptr (Const ty_double), Ptr ty_double, ty_int]
       ''cusparseDgemmi'' ty_cusparseStatus_t [ty_cusparseHandle_t, ty_int, ty_int, ty_int, ty_int, Ptr (Const ty_double), Ptr (Const ty_double), ty_int, Ptr (Const ty_double), Ptr (Const ty_int), Ptr (Const ty_int), Ptr (Const ty_double), Ptr ty_double, ty_int] ''cusparseDgemmi'' [0, 1, 2, 3, 4, 5, 6, 7, 8, 9, 10, 11, 12, 13] False,
     Gen cusparse ty_cusparseStatus_t ''cusparseCgemmi'' [ty_cusparseHandle_t, ty_int, ty_int, ty_int, ty_int, Ptr (Const ty_cuComplex), Ptr (Const ty_cuComplex), ty_int, Ptr (Const ty_cuComplex), Ptr (Const ty_int), Ptr (Const ty_int), Ptr (Const ty_cuComplex), Ptr ty_cuComplex, ty_int]
       ''cusparseCgemmi'' ty_cusparseStatus_t [ty_cusparseHandle_t, ty_int, ty_int, ty_int, ty_int, Ptr (Const ty_cuComplex), Ptr (Const ty_cuComplex), ty_int, Ptr (Const ty_cuComplex), Ptr (Const ty_int), Ptr (Const ty_int), Ptr (Const ty_cuComplex), Ptr ty_cuComplex, ty_int] ''cusparseCgemmi'' [0, 1, 2, 3, 4, 5, 6, 7, 8, 9, 10, 11, 12, 13] False,
     Gen cusparse ty_cusparseStatus_t ''cusparseZgemmi'' [ty_cusparseHandle_t, ty_int, ty_int, ty_int, ty_int, Ptr (Const ty_cuDoubleComplex), Ptr (Const ty_cuDoubleComplex), ty_int, Ptr (Const ty_cuDoubleComplex), Ptr (Const ty_int), Ptr (Const ty_int), Ptr (Const ty_cuDoubleComplex), Ptr ty_cuDoubleComplex, ty_int]
       ''cusparseZgemmi'' ty_cusparseStatus_t [ty_cusparseHandle_t, ty_int, ty_int, ty_int, ty_int, Ptr (Const ty_cuDoubleComplex), Ptr (Const ty_cuDoubleComplex), ty_int, Ptr (Const ty_cuDoubleComplex), Ptr (Const ty_int), Ptr (Const ty_int), Ptr (Const ty_cuDoubleComplex), Ptr ty_cuDoubleComplex, ty_int] ''cusparseZgemmi'' [0, 1, 2, 3, 4, 5, 6, 7, 8, 9, 10, 11, 12, 13] False,
     Gen cusparse ty_cusparseStatus_t ''cusparseCreateCsrsm2Info'' [Ptr ty_csrsm2Info_t]
       ''cusparseCreateCsrsm2Info'' ty_cusparseStatus_t [Ptr ty_csrsm2Info_t] ''cusparseCreateCsrsm2Info'' [0] False,
     Gen cusparse ty_cusparseStatus_t ''cusparseDestroyCsrsm2Info'' [ty_csrsm2Info_t]
       ''cusparseDestroyCsrsm2Info'' ty_cusparseStatus_t [ty_csrsm2Info_t] ''cusparseDestroyCsrsm2Info'' [0] False,
     Gen cusparse ty_cusparseStatus_t ''cusparseXcsrsm2_zeroPivot'' [ty_cusparseHandle_t, ty_csrsm2Info_t, Ptr ty_int]
       ''cusparseXcsrsm2_zeroPivot'' ty_cusparseStatus_t [ty_cusparseHandle_t, ty_csrsm2Info_t, Ptr ty_int] ''cusparseXcsrsm2_zeroPivot'' [0, 1, 2] False,
     Gen cusparse ty_cusparseStatus_t ''cusparseScsrsm2_bufferSizeExt'' [ty_cusparseHandle_t, ty_int, ty_cusparseOperation_t, ty_cusparseOperation_t, ty_int, ty_int, ty_int, Ptr (Const ty_float), Const ty_cusparseMatDescr_t, Ptr (Const ty_float), Ptr (Const ty_int), Ptr (Const ty_int), Ptr (Const ty_float), ty_int, ty_csrsm2Info_t, ty_cusparseSolvePolicy_t, Ptr ty_size_t]
       ''cusparseScsrsm2_bufferSizeExt'' ty_cusparseStatus_t [ty_cusparseHandle_t, ty_int, ty_cusparseOperation_t, ty_cusparseOperation_t, ty_int, ty_int, ty_int, Ptr (Const ty_float), Const ty_cusparseMatDescr_t, Ptr (Const ty_float), Ptr (Const ty_int), Ptr (Const ty_int), Ptr (Const ty_float), ty_int, ty_csrsm2Info_t, ty_cusparseSolvePolicy_t, Ptr ty_size_t] ''cusparseScsrsm2_bufferSizeExt'' [0, 1, 2, 3, 4, 5, 6, 7, 8, 9, 10, 11, 12, 13, 14, 15, 16] False,
     Gen cusparse ty_cusparseStatus_t ''cusparseDcsrsm2_bufferSizeExt'' [ty_cusparseHandle_t, ty_int, ty_cusparseOperation_t, ty_cusparseOperation_t, ty_int, ty_int, ty_int, Ptr (Const ty_double), Const ty_cusparseMatDescr_t, Ptr (Const ty_double), Ptr (Const ty_int), Ptr (Const ty_int), Ptr (Const ty_double), ty_int, ty_csrsm2Info_t, ty_cusparseSolvePolicy_t, Ptr ty_size_t]
       ''cusparseDcsrsm2_bufferSizeExt'' ty_cusparseStatus_t [ty_cusparseHandle_t, ty_int, ty_cusparseOperation_t, ty_cusparseOperation_t, ty_int, ty_int, ty_int, Ptr (Const ty_double), Const ty_cusparseMatDescr_t, Ptr (Const ty_double), Ptr (Const ty_int), Ptr (Const ty_int), Ptr (Const ty_double), ty_int, ty_csrsm2Info_t, ty_cusparseSolvePolicy_t, Ptr ty_size_t] ''cusparseDcsrsm2_bufferSizeExt'' [0, 1, 2, 3, 4, 5, 6, 7, 8, 9, 10, 11, 12, 13, 14, 15, 16] False,
     Gen cusparse ty_cusparseStatus_t ''cusparseCcsrsm2_bufferSizeExt'' [ty_cusparseHandle_t, ty_int, ty_cusparseOperation_t, ty_cusparseOperation_t, ty_int, ty_int, ty_int, Ptr (Const ty_cuComplex), Const ty_cusparseMatDescr_t, Ptr (Const ty_cuComplex), Ptr (Const ty_int), Ptr (Const ty_int), Ptr (Const ty_cuComplex), ty_int, ty_csrsm2Info_t, ty_cusparseSolvePolicy_t, Ptr ty_size_t]
       ''cusparseCcsrsm2_bufferSizeExt'' ty_cusparseStatus_t [ty_cusparseHandle_t, ty_int, ty_cusparseOperation_t, ty_cusparseOperation_t, ty_int, ty_int, ty_int, Ptr (Const ty_cuComplex), Const ty_cusparseMatDescr_t, Ptr (Const ty_cuComplex), Ptr (Const ty_int), Ptr (Const ty_int), Ptr (Const ty_cuComplex), ty_int, ty_csrsm2Info_t, ty_cusparseSolvePolicy_t, Ptr ty_size_t] ''cusparseCcsrsm2_bufferSizeExt'' [0, 1, 2, 3, 4, 5, 6, 7, 8, 9, 10, 11, 12, 13, 14, 15, 16] False]"

definition cusparse_hooks_11 :: "gen_hook list" where
  "cusparse_hooks_11 =
    [Gen cusparse ty_cusparseStatus_t ''cusparseZcsrsm2_bufferSizeExt'' [ty_cusparseHandle_t, ty_int, ty_cusparseOperation_t, ty_cusparseOperation_t, ty_int, ty_int, ty_int, Ptr (Const ty_cuDoubleComplex), Const ty_cusparseMatDescr_t, Ptr (Const ty_cuDoubleComplex), Ptr (Const ty_int), Ptr (Const ty_int), Ptr (Const ty_cuDoubleComplex), ty_int, ty_csrsm2Info_t, ty_cusparseSolvePolicy_t, Ptr ty_size_t]
       ''cusparseZcsrsm2_bufferSizeExt'' ty_cusparseStatus_t [ty_cusparseHandle_t, ty_int, ty_cusparseOperation_t, ty_cusparseOperation_t, ty_int, ty_int, ty_int, Ptr (Const ty_cuDoubleComplex), Const ty_cusparseMatDescr_t, Ptr (Const ty_cuDoubleComplex), Ptr (Const ty_int), Ptr (Const ty_int), Ptr (Const ty_cuDoubleComplex), ty_int, ty_csrsm2Info_t, ty_cusparseSolvePolicy_t, Ptr ty_size_t] ''cusparseZcsrsm2_bufferSizeExt'' [0, 1, 2, 3, 4, 5, 6, 7, 8, 9, 10, 11, 12, 13, 14, 15, 16] False,
     Gen cusparse ty_cusparseStatus_t ''cusparseScsrsm2_analysis'' [ty_cusparseHandle_t, ty_int, ty_cusparseOperation_t, ty_cusparseOperation_t, ty_int, ty_int, ty_int, Ptr (Const ty_float), Const ty_cusparseMatDescr_t, Ptr (Const ty_float), Ptr (Const ty_int), Ptr (Const ty_int), Ptr (Const ty_float), ty_int, ty_csrsm2Info_t, ty_cusparseSolvePolicy_t, Ptr ty_void]
       ''cusparseScsrsm2_analysis'' ty_cusparseStatus_t [ty_cusparseHandle_t, ty_int, ty_cusparseOperation_t, ty_cusparseOperation_t, ty_int, ty_int, ty_int, Ptr (Const ty_float), Const ty_cusparseMatDescr_t, Ptr (Const ty_float), Ptr (Const ty_int), Ptr (Const ty_int), Ptr (Const ty_float), ty_int, ty_csrsm2Info_t, ty_cusparseSolvePolicy_t, Ptr ty_void] ''cusparseScsrsm2_analysis'' [0, 1, 2, 3, 4, 5, 6, 7, 8, 9, 10, 11, 12, 13, 14, 15, 16] False,
     Gen cusparse ty_cusparseStatus_t ''cusparseDcsrsm2_analysis'' [ty_cusparseHandle_t, ty_int, ty_cusparseOperation_t, ty_cusparseOperation_t, ty_int, ty_int, ty_int, Ptr (Const ty_double), Const ty_cusparseMatDescr_t, Ptr (Const ty_double), Ptr (Const ty_int), Ptr (Const ty_int), Ptr (Const ty_double), ty_int, ty_csrsm2Info_t, ty_cusparseSolvePolicy_t, Ptr ty_void]
       ''cusparseDcsrsm2_analysis'' ty_cusparseStatus_t [ty_cusparseHandle_t, ty_int, ty_cusparseOperation_t, ty_cusparseOperation_t, ty_int, ty_int, ty_int, Ptr (Const ty_double), Const ty_cusparseMatDescr_t, Ptr (Const ty_double), Ptr (Const ty_int), Ptr (Const ty_int), Ptr (Const ty_double), ty_int, ty_csrsm2Info_t, ty_cusparseSolvePolicy_t, Ptr ty_void] ''cusparseDcsrsm2_analysis'' [0, 1, 2, 3, 4, 5, 6, 7, 8, 9, 10, 11, 12, 13, 14, 15, 16] False,
     Gen cusparse ty_cusparseStatus_t ''cusparseCcsrsm2_analysis'' [ty_cusparseHandle_t, ty_int, ty_cusparseOperation_t, ty_cusparseOperation_t, ty_int, ty_int, ty_int, Ptr (Const ty_cuComplex), Const ty_cusparseMatDescr_t, Ptr (Const ty_cuComplex), Ptr (Const ty_int), Ptr (Const ty_int), Ptr (Const ty_cuComplex), ty_int, ty_csrsm2Info_t, ty_cusparseSolvePolicy_t, Ptr ty_void]
       ''cusparseCcsrsm2_analysis'' ty_cusparseStatus_t [ty_cusparseHandle_t, ty_int, ty_cusparseOperation_t, ty_cusparseOperation_t, ty_int, ty_int, ty_int, Ptr (Const ty_cuComplex), Const ty_cusparseMatDescr_t, Ptr (Const ty_cuComplex), Ptr (Const ty_int), Ptr (Const ty_int), Ptr (Const ty_cuComplex), ty_int, ty_csrsm2Info_t, ty_cusparseSolvePolicy_t, Ptr ty_void] ''cusparseCcsrsm2_analysis'' [0, 1, 2, 3, 4, 5, 6, 7, 8, 9, 10, 11, 12, 13, 14, 15, 16] False,
     Gen cusparse ty_cusparseStatus_t ''cusparseZcsrsm2_analysis'' [ty_cusparseHandle_t, ty_int, ty_cusparseOperation_t, ty_cusparseOperation_t, ty_int, ty_int, ty_int, Ptr (Const ty_cuDoubleComplex), Const ty_cusparseMatDescr_t, Ptr (Const ty_cuDoubleComplex), Ptr (Const ty_int), Ptr (Const ty_int), Ptr (Const ty_cuDoubleComplex), ty_int, ty_csrsm2Info_t, ty_cusparseSolvePolicy_t, Ptr ty_void]
       ''cusparseZcsrsm2_analysis'' ty_cusparseStatus_t [ty_cusparseHandle_t, ty_int, ty_cusparseOperation_t, ty_cusparseOperation_t, ty_int, ty_int, ty_int, Ptr (Const ty_cuDoubleComplex), Const ty_cusparseMatDescr_t, Ptr (Const ty_cuDoubleComplex), Ptr (Const ty_int), Ptr (Const ty_int), Ptr (Const ty_cuDoubleComplex), ty_int, ty_csrsm2Info_t, ty_cusparseSolvePolicy_t, Ptr ty_void] ''cusparseZcsrsm2_analysis'' [0, 1, 2, 3, 4, 5, 6, 7, 8, 9, 10, 11, 12, 13, 14, 15, 16] False,
     Gen cusparse ty_cusparseStatus_t ''cusparseScsrsm2_solve'' [ty_cusparseHandle_t, ty_int, ty_cusparseOperation_t, ty_cusparseOperation_t, ty_int, ty_int, ty_int, Ptr (Const ty_float), Const ty_cusparseMatDescr_t, Ptr (Const ty_float), Ptr (Const ty_int), Ptr (Const ty_int), Ptr ty_float, ty_int, ty_csrsm2Info_t, ty_cusparseSolvePolicy_t, Ptr ty_void]
       ''cusparseScsrsm2_solve'' ty_cusparseStatus_t [ty_cusparseHandle_t, ty_int, ty_cusparseOperation_t, ty_cusparseOperation_t, ty_int, ty_int, ty_int, Ptr (Const ty_float), Const ty_cusparseMatDescr_t, Ptr (Const ty_float), Ptr (Const ty_int), Ptr (Const ty_int), Ptr ty_float, ty_int, ty_csrsm2Info_t, ty_cusparseSolvePolicy_t, Ptr ty_void] ''cusparseScsrsm2_solve'' [0, 1, 2, 3, 4, 5, 6, 7, 8, 9, 10, 11, 12, 13, 14, 15, 16] False,
     Gen cusparse ty_cusparseStatus_t ''cusparseDcsrsm2_solve'' [ty_cusparseHandle_t, ty_int, ty_cusparseOperation_t, ty_cusparseOperation_t, ty_int, ty_int, ty_int, Ptr (Const ty_double), Const ty_cusparseMatDescr_t, Ptr (Const ty_double), Ptr (Const ty_int), Ptr (Const ty_int), Ptr ty_double, ty_int, ty_csrsm2Info_t, ty_cusparseSolvePolicy_t, Ptr ty_void]
       ''cusparseDcsrsm2_solve'' ty_cusparseStatus_t [ty_cusparseHandle_t, ty_int, ty_cusparseOperation_t, ty_cusparseOperation_t, ty_int, ty_int, ty_int, Ptr (Const ty_double), Const ty_cusparseMatDescr_t, Ptr (Const ty_double), Ptr (Const ty_int), Ptr (Const ty_int), Ptr ty_double, ty_int, ty_csrsm2Info_t, ty_cusparseSolvePolicy_t, Ptr ty_void] ''cusparseDcsrsm2_solve'' [0, 1, 2, 3, 4, 5, 6, 7, 8, 9, 10, 11, 12, 13, 14, 15, 16] False,
     Gen cusparse ty_cusparseStatus_t ''cusparseCcsrsm2_solve'' [ty_cusparseHandle_t, ty_int, ty_cusparseOperation_t, ty_cusparseOperation_t, ty_int, ty_int, ty_int, Ptr (Const ty_cuComplex), Const ty_cusparseMatDescr_t, Ptr (Const ty_cuComplex), Ptr (Const ty_int), Ptr (Const ty_int), Ptr ty_cuComplex, ty_int, ty_csrsm2Info_t, ty_cusparseSolvePolicy_t, Ptr ty_void]
       ''cusparseCcsrsm2_solve'' ty_cusparseStatus_t [ty_cusparseHandle_t, ty_int, ty_cusparseOperation_t, ty_cusparseOperation_t, ty_int, ty_int, ty_int, Ptr (Const ty_cuComplex), Const ty_cusparseMatDescr_t, Ptr (Const ty_cuComplex), Ptr (Const ty_int), Ptr (Const ty_int), Ptr ty_cuComplex, ty_int, ty_csrsm2Info_t, ty_cusparseSolvePolicy_t, Ptr ty_void] ''cusparseCcsrsm2_solve'' [0, 1, 2, 3, 4, 5, 6, 7, 8, 9, 10, 11, 12, 13, 14, 15, 16] False,
     Gen cusparse ty_cusparseStatus_t ''cusparseZcsrsm2_solve'' [ty_cusparseHandle_t, ty_int, ty_cusparseOperation_t, ty_cusparseOperation_t, ty_int, ty_int, ty_int, Ptr (Const ty_cuDoubleComplex), Const ty_cusparseMatDescr_t, Ptr (Const ty_cuDoubleComplex), Ptr (Const ty_int), Ptr (Const ty_int), Ptr ty_cuDoubleComplex, ty_int, ty_csrsm2Info_t, ty_cusparseSolvePolicy_t, Ptr ty_void]
       ''cusparseZcsrsm2_solve'' ty_cusparseStatus_t [ty_cusparseHandle_t, ty_int, ty_cusparseOperation_t, ty_cusparseOperation_t, ty_int, ty_int, ty_int, Ptr (Const ty_cuDoubleComplex), Const ty_cusparseMatDescr_t, Ptr (Const ty_cuDoubleComplex), Ptr (Const ty_int), Ptr (Const ty_int), Ptr ty_cuDoubleComplex, ty_int, ty_csrsm2Info_t, ty_cusparseSolvePolicy_t, Ptr ty_void] ''cusparseZcsrsm2_solve'' [0, 1, 2, 3, 4, 5, 6, 7, 8, 9, 10, 11, 12, 13, 14, 15, 16] False,
     Gen cusparse ty_cusparseStatus_t ''cusparseXbsrsm2_zeroPivot'' [ty_cusparseHandle_t, ty_bsrsm2Info_t, Ptr ty_int]
       ''cusparseXbsrsm2_zeroPivot'' ty_cusparseStatus_t [ty_cusparseHandle_t, ty_bsrsm2Info_t, Ptr ty_int] ''cusparseXbsrsm2_zeroPivot'' [0, 1, 2] False]"

definition cusparse_hooks_12 :: "gen_hook list" where
  "cusparse_hooks_12 =
    [Gen cusparse ty_cusparseStatus_t ''cusparseSbsrsm2_bufferSize'' [ty_cusparseHandle_t, ty_cusparseDirection_t, ty_cusparseOperation_t, ty_cusparseOperation_t, ty_int, ty_int, ty_int, Const ty_cusparseMatDescr_t, Ptr ty_float, Ptr (Const ty_int), Ptr (Const ty_int), ty_int, ty_bsrsm2Info_t, Ptr ty_int]
       ''cusparseSbsrsm2_bufferSize'' ty_cusparseStatus_t [ty_cusparseHandle_t, ty_cusparseDirection_t, ty_cusparseOperation_t, ty_cusparseOperation_t, ty_int, ty_int, ty_int, Const ty_cusparseMatDescr_t, Ptr ty_float, Ptr (Const ty_int), Ptr (Const ty_int), ty_int, ty_bsrsm2Info_t, Ptr ty_int] ''cusparseSbsrsm2_bufferSize'' [0, 1, 2, 3, 4, 5, 6, 7, 8, 9, 10, 11, 12, 13] False,
     Gen cusparse ty_cusparseStatus_t ''cusparseDbsrsm2_bufferSize'' [ty_cusparseHandle_t, ty_cusparseDirection_t, ty_cusparseOperation_t, ty_cusparseOperation_t, ty_int, ty_int, ty_int, Const ty_cusparseMatDescr_t, Ptr ty_double, Ptr (Const ty_int), Ptr (Const ty_int), ty_int, ty_bsrsm2Info_t, Ptr ty_int]
       ''cusparseDbsrsm2_bufferSize'' ty_cusparseStatus_t [ty_cusparseHandle_t, ty_cusparseDirection_t, ty_cusparseOperation_t, ty_cusparseOperation_t, ty_int, ty_int, ty_int, Const ty_cusparseMatDescr_t, Ptr ty_double, Ptr (Const ty_int), Ptr (Const ty_int), ty_int, ty_bsrsm2Info_t, Ptr ty_int] ''cusparseDbsrsm2_bufferSize'' [0, 1, 2, 3, 4, 5, 6, 7, 8, 9, 10, 11, 12, 13] False,
     Gen cusparse ty_cusparseStatus_t ''cusparseCbsrsm2_bufferSize'' [ty_cusparseHandle_t, ty_cusparseDirection_t, ty_cusparseOperation_t, ty_cusparseOperation_t, ty_int, ty_int, ty_int, Const ty_cusparseMatDescr_t, Ptr ty_cuComplex, Ptr (Const ty_int), Ptr (Const ty_int), ty_int, ty_bsrsm2Info_t, Ptr ty_int]
       ''cusparseCbsrsm2_bufferSize'' ty_cusparseStatus_t [ty_cusparseHandle_t, ty_cusparseDirection_t, ty_cusparseOperation_t, ty_cusparseOperation_t, ty_int, ty_int, ty_int, Const ty_cusparseMatDescr_t, Ptr ty_cuComplex, Ptr (Const ty_int), Ptr (Const ty_int), ty_int, ty_bsrsm2Info_t, Ptr ty_int] ''cusparseCbsrsm2_bufferSize'' [0, 1, 2, 3, 4, 5, 6, 7, 8, 9, 10, 11, 12, 13] False,
     Gen cusparse ty_cusparseStatus_t ''cusparseZbsrsm2_bufferSize'' [ty_cusparseHandle_t, ty_cusparseDirection_t, ty_cusparseOperation_t, ty_cusparseOperation_t, ty_int, ty_int, ty_int, Const ty_cusparseMatDescr_t, Ptr ty_cuDoubleComplex, Ptr (Const ty_int), Ptr (Const ty_int), ty_int, ty_bsrsm2Info_t, Ptr ty_int]
       ''cusparseZbsrsm2_bufferSize'' ty_cusparseStatus_t [ty_cusparseHandle_t, ty_cusparseDirection_t, ty_cusparseOperation_t, ty_cusparseOperation_t, ty_int, ty_int, ty_int, Const ty_cusparseMatDescr_t, Ptr ty_cuDoubleComplex, Ptr (Const ty_int), Ptr (Const ty_int), ty_int, ty_bsrsm2Info_t, Ptr ty_int] ''cusparseZbsrsm2_bufferSize'' [0, 1, 2, 3, 4, 5, 6, 7, 8, 9, 10, 11, 12, 13] False,
     Gen cusparse ty_cusparseStatus_t ''cusparseSbsrsm2_bufferSizeExt'' [ty_cusparseHandle_t, ty_cusparseDirection_t, ty_cusparseOperation_t, ty_cusparseOperation_t, ty_int, ty_int, ty_int, Const ty_cusparseMatDescr_t, Ptr ty_float, Ptr (Const ty_int), Ptr (Const ty_int), ty_int, ty_bsrsm2Info_t, Ptr ty_size_t]
       ''cusparseSbsrsm2_bufferSizeExt'' ty_cusparseStatus_t [ty_cusparseHandle_t, ty_cusparseDirection_t, ty_cusparseOperation_t, ty_cusparseOperation_t, ty_int, ty_int, ty_int, Const ty_cusparseMatDescr_t, Ptr ty_float, Ptr (Const ty_int), Ptr (Const ty_int), ty_int, ty_bsrsm2Info_t, Ptr ty_size_t] ''cusparseSbsrsm2_bufferSizeExt'' [0, 1, 2, 3, 4, 5, 6, 7, 8, 9, 10, 11, 12, 13] False,
     Gen cusparse ty_cusparseStatus_t ''cusparseDbsrsm2_bufferSizeExt'' [ty_cusparseHandle_t, ty_cusparseDirection_t, ty_cusparseOperation_t, ty_cusparseOperation_t, ty_int, ty_int, ty_int, Const ty_cusparseMatDescr_t, Ptr ty_double, Ptr (Const ty_int), Ptr (Const ty_int), ty_int, ty_bsrsm2Info_t, Ptr ty_size_t]
       ''cusparseDbsrsm2_bufferSizeExt'' ty_cusparseStatus_t [ty_cusparseHandle_t, ty_cusparseDirection_t, ty_cusparseOperation_t, ty_cusparseOperation_t, ty_int, ty_int, ty_int, Const ty_cusparseMatDescr_t, Ptr ty_double, Ptr (Const ty_int), Ptr (Const ty_int), ty_int, ty_bsrsm2Info_t, Ptr ty_size_t] ''cusparseDbsrsm2_bufferSizeExt'' [0, 1, 2, 3, 4, 5, 6, 7, 8, 9, 10, 11, 12, 13] False,
     Gen cusparse ty_cusparseStatus_t ''cusparseCbsrsm2_bufferSizeExt'' [ty_cusparseHandle_t, ty_cusparseDirection_t, ty_cusparseOperation_t, ty_cusparseOperation_t, ty_int, ty_int, ty_int, Const ty_cusparseMatDescr_t, Ptr ty_cuComplex, Ptr (Const ty_int), Ptr (Const ty_int), ty_int, ty_bsrsm2Info_t, Ptr ty_size_t]
       ''cusparseCbsrsm2_bufferSizeExt'' ty_cusparseStatus_t [ty_cusparseHandle_t, ty_cusparseDirection_t, ty_cusparseOperation_t, ty_cusparseOperation_t, ty_int, ty_int, ty_int, Const ty_cusparseMatDescr_t, Ptr ty_cuComplex, Ptr (Const ty_int), Ptr (Const ty_int), ty_int, ty_bsrsm2Info_t, Ptr ty_size_t] ''cusparseCbsrsm2_bufferSizeExt'' [0, 1, 2, 3, 4, 5, 6, 7, 8, 9, 10, 11, 12, 13] False,
     Gen cusparse ty_cusparseStatus_t ''cusparseZbsrsm2_bufferSizeExt'' [ty_cusparseHandle_t, ty_cusparseDirection_t, ty_cusparseOperation_t, ty_cusparseOperation_t, ty_int, ty_int, ty_int, Const ty_cusparseMatDescr_t, Ptr ty_cuDoubleComplex, Ptr (Const ty_int), Ptr (Const ty_int), ty_int, ty_bsrsm2Info_t, Ptr ty_size_t]
       ''cusparseZbsrsm2_bufferSizeExt'' ty_cusparseStatus_t [ty_cusparseHandle_t, ty_cusparseDirection_t, ty_cusparseOperation_t, ty_cusparseOperation_t, ty_int, ty_int, ty_int, Const ty_cusparseMatDescr_t, Ptr ty_cuDoubleComplex, Ptr (Const ty_int), Ptr (Const ty_int), ty_int, ty_bsrsm2Info_t, Ptr ty_size_t] ''cusparseZbsrsm2_bufferSizeExt'' [0, 1, 2, 3, 4, 5, 6, 7, 8, 9, 10, 11, 12, 13] False,
     Gen cusparse ty_cusparseStatus_t ''cusparseSbsrsm2_analysis'' [ty_cusparseHandle_t, ty_cusparseDirection_t, ty_cusparseOperation_t, ty_cusparseOperation_t, ty_int, ty_int, ty_int, Const ty_cusparseMatDescr_t, Ptr (Const ty_float), Ptr (Const ty_int), Ptr (Const ty_int), ty_int, ty_bsrsm2Info_t, ty_cusparseSolvePolicy_t, Ptr ty_void]
       ''cusparseSbsrsm2_analysis'' ty_cusparseStatus_t [ty_cusparseHandle_t, ty_cusparseDirection_t, ty_cusparseOperation_t, ty_cusparseOperation_t, ty_int, ty_int, ty_int, Const ty_cusparseMatDescr_t, Ptr (Const ty_float), Ptr (Const ty_int), Ptr (Const ty_int), ty_int, ty_bsrsm2Info_t, ty_cusparseSolvePolicy_t, Ptr ty_void] ''cusparseSbsrsm2_analysis'' [0, 1, 2, 3, 4, 5, 6, 7, 8, 9, 10, 11, 12, 13, 14] False,
     Gen cusparse ty_cusparseStatus_t ''cusparseDbsrsm2_analysis'' [ty_cusparseHandle_t, ty_cusparseDirection_t, ty_cusparseOperation_t, ty_cusparseOperation_t, ty_int, ty_int, ty_int, Const ty_cusparseMatDescr_t, Ptr (Const ty_double), Ptr (Const ty_int), Ptr (Const ty_int), ty_int, ty_bsrsm2Info_t, ty_cusparseSolvePolicy_t, Ptr ty_void]
       ''cusparseDbsrsm2_analysis'' ty_cusparseStatus_t [ty_cusparseHandle_t, ty_cusparseDirection_t, ty_cusparseOperation_t, ty_cusparseOperation_t, ty_int, ty_int, ty_int, Const ty_cusparseMatDescr_t, Ptr (Const ty_double), Ptr (Const ty_int), Ptr (Const ty_int), ty_int, ty_bsrsm2Info_t, ty_cusparseSolvePolicy_t, Ptr ty_void] ''cusparseDbsrsm2_analysis'' [0, 1, 2, 3, 4, 5, 6, 7, 8, 9, 10, 11, 12, 13, 14] False]"

definition cusparse_hooks_13 :: "gen_hook list" where
  "cusparse_hooks_13 =
    [Gen cusparse ty_cusparseStatus_t ''cusparseCbsrsm2_analysis'' [ty_cusparseHandle_t, ty_cusparseDirection_t, ty_cusparseOperation_t, ty_cusparseOperation_t, ty_int, ty_int, ty_int, Const ty_cusparseMatDescr_t, Ptr (Const ty_cuComplex), Ptr (Const ty_int), Ptr (Const ty_int), ty_int, ty_bsrsm2Info_t, ty_cusparseSolvePolicy_t, Ptr ty_void]
       ''cusparseCbsrsm2_analysis'' ty_cusparseStatus_t [ty_cusparseHandle_t, ty_cusparseDirection_t, ty_cusparseOperation_t, ty_cusparseOperation_t, ty_int, ty_int, ty_int, Const ty_cusparseMatDescr_t, Ptr (Const ty_cuComplex), Ptr (Const ty_int), Ptr (Const ty_int), ty_int, ty_bsrsm2Info_t, ty_cusparseSolvePolicy_t, Ptr ty_void] ''cusparseCbsrsm2_analysis'' [0, 1, 2, 3, 4, 5, 6, 7, 8, 9, 10, 11, 12, 13, 14] False,
     Gen cusparse ty_cusparseStatus_t ''cusparseZbsrsm2_analysis'' [ty_cusparseHandle_t, ty_cusparseDirection_t, ty_cusparseOperation_t, ty_cusparseOperation_t, ty_int, ty_int, ty_int, Const ty_cusparseMatDescr_t, Ptr (Const ty_cuDoubleComplex), Ptr (Const ty_int), Ptr (Const ty_int), ty_int, ty_bsrsm2Info_t, ty_cusparseSolvePolicy_t, Ptr ty_void]
       ''cusparseZbsrsm2_analysis'' ty_cusparseStatus_t [ty_cusparseHandle_t, ty_cusparseDirection_t, ty_cusparseOperation_t, ty_cusparseOperation_t, ty_int, ty_int, ty_int, Const ty_cusparseMatDescr_t, Ptr (Const ty_cuDoubleComplex), Ptr (Const ty_int), Ptr (Const ty_int), ty_int, ty_bsrsm2Info_t, ty_cusparseSolvePolicy_t, Ptr ty_void] ''cusparseZbsrsm2_analysis'' [0, 1, 2, 3, 4, 5, 6, 7, 8, 9, 10, 11, 12, 13, 14] False,
     Gen cusparse ty_cusparseStatus_t ''cusparseSbsrsm2_solve'' [ty_cusparseHandle_t, ty_cusparseDirection_t, ty_cusparseOperation_t, ty_cusparseOperation_t, ty_int, ty_int, ty_int, Ptr (Const ty_float), Const ty_cusparseMatDescr_t, Ptr (Const ty_float), Ptr (Const ty_int), Ptr (Const ty_int), ty_int, ty_bsrsm2Info_t, Ptr (Const ty_float), ty_int, Ptr ty_float, ty_int, ty_cusparseSolvePolicy_t, Ptr ty_void]
       ''cusparseSbsrsm2_solve'' ty_cusparseStatus_t [ty_cusparseHandle_t, ty_cusparseDirection_t, ty_cusparseOperation_t, ty_cusparseOperation_t, ty_int, ty_int, ty_int, Ptr (Const ty_float), Const ty_cusparseMatDescr_t, Ptr (Const ty_float), Ptr (Const ty_int), Ptr (Const ty_int), ty_int, ty_bsrsm2Info_t, Ptr (Const ty_float), ty_int, Ptr ty_float, ty_int, ty_cusparseSolvePolicy_t, Ptr ty_void] ''cusparseSbsrsm2_solve'' [0, 1, 2, 3, 4, 5, 6, 7, 8, 9, 10, 11, 12, 13, 14, 15, 16, 17, 18, 19] False,
     Gen cusparse ty_cusparseStatus_t ''cusparseDbsrsm2_solve'' [ty_cusparseHandle_t, ty_cusparseDirection_t, ty_cusparseOperation_t, ty_cusparseOperation_t, ty_int, ty_int, ty_int, Ptr (Const ty_double), Const ty_cusparseMatDescr_t, Ptr (Const ty_double), Ptr (Const ty_int), Ptr (Const ty_int), ty_int, ty_bsrsm2Info_t, Ptr (Const ty_double), ty_int, Ptr ty_double, ty_int, ty_cusparseSolvePolicy_t, Ptr ty_void]
       ''cusparseDbsrsm2_solve'' ty_cusparseStatus_t [ty_cusparseHandle_t, ty_cusparseDirection_t, ty_cusparseOperation_t, ty_cusparseOperation_t, ty_int, ty_int, ty_int, Ptr (Const ty_double), Const ty_cusparseMatDescr_t, Ptr (Const ty_double), Ptr (Const ty_int), Ptr (Const ty_int), ty_int, ty_bsrsm2Info_t, Ptr (Const ty_double), ty_int, Ptr ty_double, ty_int, ty_cusparseSolvePolicy_t, Ptr ty_void] ''cusparseDbsrsm2_solve'' [0, 1, 2, 3, 4, 5, 6, 7, 8, 9, 10, 11, 12, 13, 14, 15, 16, 17, 18, 19] False,
     Gen cusparse ty_cusparseStatus_t ''cusparseCbsrsm2_solve'' [ty_cusparseHandle_t, ty_cusparseDirection_t, ty_cusparseOperation_t, ty_cusparseOperation_t, ty_int, ty_int, ty_int, Ptr (Const ty_cuComplex), Const ty_cusparseMatDescr_t, Ptr (Const ty_cuComplex), Ptr (Const ty_int), Ptr (Const ty_int), ty_int, ty_bsrsm2Info_t, Ptr (Const ty_cuComplex), ty_int, Ptr ty_cuComplex, ty_int, ty_cusparseSolvePolicy_t, Ptr ty_void]
       ''cusparseCbsrsm2_solve'' ty_cusparseStatus_t [ty_cusparseHandle_t, ty_cusparseDirection_t, ty_cusparseOperation_t, ty_cusparseOperation_t, ty_int, ty_int, ty_int, Ptr (Const ty_cuComplex), Const ty_cusparseMatDescr_t, Ptr (Const ty_cuComplex), Ptr (Const ty_int), Ptr (Const ty_int), ty_int, ty_bsrsm2Info_t, Ptr (Const ty_cuComplex), ty_int, Ptr ty_cuComplex, ty_int, ty_cusparseSolvePolicy_t, Ptr ty_void] ''cusparseCbsrsm2_solve'' [0, 1, 2, 3, 4, 5, 6, 7, 8, 9, 10, 11, 12, 13, 14, 15, 16, 17, 18, 19] False,
     Gen cusparse ty_cusparseStatus_t ''cusparseZbsrsm2_solve'' [ty_cusparseHandle_t, ty_cusparseDirection_t, ty_cusparseOperation_t, ty_cusparseOperation_t, ty_int, ty_int, ty_int, Ptr (Const ty_cuDoubleComplex), Const ty_cusparseMatDescr_t, Ptr (Const ty_cuDoubleComplex), Ptr (Const ty_int), Ptr (Const ty_int), ty_int, ty_bsrsm2Info_t, Ptr (Const ty_cuDoubleComplex), ty_int, Ptr ty_cuDoubleComplex, ty_int, ty_cusparseSolvePolicy_t, Ptr ty_void]
       ''cusparseZbsrsm2_solve'' ty_cusparseStatus_t [ty_cusparseHandle_t, ty_cusparseDirection_t, ty_cusparseOperation_t, ty_cusparseOperation_t, ty_int, ty_int, ty_int, Ptr (Const ty_cuDoubleComplex), Const ty_cusparseMatDescr_t, Ptr (Const ty_cuDoubleComplex), Ptr (Const ty_int), Ptr (Const ty_int), ty_int, ty_bsrsm2Info_t, Ptr (Const ty_cuDoubleComplex), ty_int, Ptr ty_cuDoubleComplex, ty_int, ty_cusparseSolvePolicy_t, Ptr ty_void] ''cusparseZbsrsm2_solve'' [0, 1, 2, 3, 4, 5, 6, 7, 8, 9, 10, 11, 12, 13, 14, 15, 16, 17, 18, 19] False,
     Gen cusparse ty_cusparseStatus_t ''cusparseScsrilu02_numericBoost'' [ty_cusparseHandle_t, ty_csrilu02Info_t, ty_int, Ptr ty_double, Ptr ty_float]
       ''cusparseScsrilu02_numericBoost'' ty_cusparseStatus_t [ty_cusparseHandle_t, ty_csrilu02Info_t, ty_int, Ptr ty_double, Ptr ty_float] ''cusparseScsrilu02_numericBoost'' [0, 1, 2, 3, 4] False,
     Gen cusparse ty_cusparseStatus_t ''cusparseDcsrilu02_numericBoost'' [ty_cusparseHandle_t, ty_csrilu02Info_t, ty_int, Ptr ty_double, Ptr ty_double]
       ''cusparseDcsrilu02_numericBoost'' ty_cusparseStatus_t [ty_cusparseHandle_t, ty_csrilu02Info_t, ty_int, Ptr ty_double, Ptr ty_double] ''cusparseDcsrilu02_numericBoost'' [0, 1, 2, 3, 4] False,
     Gen cusparse ty_cusparseStatus_t ''cusparseCcsrilu02_numericBoost'' [ty_cusparseHandle_t, ty_csrilu02Info_t, ty_int, Ptr ty_double, Ptr ty_cuComplex]
       ''cusparseCcsrilu02_numericBoost'' ty_cusparseStatus_t [ty_cusparseHandle_t, ty_csrilu02Info_t, ty_int, Ptr ty_double, Ptr ty_cuComplex] ''cusparseCcsrilu02_numericBoost'' [0, 1, 2, 3, 4] False,
     Gen cusparse ty_cusparseStatus_t ''cusparseZcsrilu02_numericBoost'' [ty_cusparseHandle_t, ty_csrilu02Info_t, ty_int, Ptr ty_double, Ptr ty_cuDoubleComplex]
       ''cusparseZcsrilu02_numericBoost'' ty_cusparseStatus_t [ty_cusparseHandle_t, ty_csrilu02Info_t, ty_int, Ptr ty_double, Ptr ty_cuDoubleComplex] ''cusparseZcsrilu02_numericBoost'' [0, 1, 2, 3, 4] False,
     Gen cusparse ty_cusparseStatus_t ''cusparseXcsrilu02_zeroPivot'' [ty_cusparseHandle_t, ty_csrilu02Info_t, Ptr ty_int]
       ''cusparseXcsrilu02_zeroPivot'' ty_cusparseStatus_t [ty_cusparseHandle_t, ty_csrilu02Info_t, Ptr ty_int] ''cusparseXcsrilu02_zeroPivot'' [0, 1, 2] False]"

definition cusparse_hooks_14 :: "gen_hook list" where
  "cusparse_hooks_14 =
    [Gen cusparse ty_cusparseStatus_t ''cusparseScsrilu02_bufferSize'' [ty_cusparseHandle_t, ty_int, ty_int, Const ty_cusparseMatDescr_t, Ptr ty_float, Ptr (Const ty_int), Ptr (Const ty_int), ty_csrilu02Info_t, Ptr ty_int]
       ''cusparseScsrilu02_bufferSize'' ty_cusparseStatus_t [ty_cusparseHandle_t, ty_int, ty_int, Const ty_cusparseMatDescr_t, Ptr ty_float, Ptr (Const ty_int), Ptr (Const ty_int), ty_csrilu02Info_t, Ptr ty_int] ''cusparseScsrilu02_bufferSize'' [0, 1, 2, 3, 4, 5, 6, 7, 8] False,
     Gen cusparse ty_cusparseStatus_t ''cusparseDcsrilu02_bufferSize'' [ty_cusparseHandle_t, ty_int, ty_int, Const ty_cusparseMatDescr_t, Ptr ty_double, Ptr (Const ty_int), Ptr (Const ty_int), ty_csrilu02Info_t, Ptr ty_int]
       ''cusparseDcsrilu02_bufferSize'' ty_cusparseStatus_t [ty_cusparseHandle_t, ty_int, ty_int, Const ty_cusparseMatDescr_t, Ptr ty_double, Ptr (Const ty_int), Ptr (Const ty_int), ty_csrilu02Info_t, Ptr ty_int] ''cusparseDcsrilu02_bufferSize'' [0, 1, 2, 3, 4, 5, 6, 7, 8] False,
     Gen cusparse ty_cusparseStatus_t ''cusparseCcsrilu02_bufferSize'' [ty_cusparseHandle_t, ty_int, ty_int, Const ty_cusparseMatDescr_t, Ptr ty_cuComplex, Ptr (Const ty_int), Ptr (Const ty_int), ty_csrilu02Info_t, Ptr ty_int]
       ''cusparseCcsrilu02_bufferSize'' ty_cusparseStatus_t [ty_cusparseHandle_t, ty_int, ty_int, Const ty_cusparseMatDescr_t, Ptr ty_cuComplex, Ptr (Const ty_int), Ptr (Const ty_int), ty_csrilu02Info_t, Ptr ty_int] ''cusparseCcsrilu02_bufferSize'' [0, 1, 2, 3, 4, 5, 6, 7, 8] False,
     Gen cusparse ty_cusparseStatus_t ''cusparseZcsrilu02_bufferSize'' [ty_cusparseHandle_t, ty_int, ty_int, Const ty_cusparseMatDescr_t, Ptr ty_cuDoubleComplex, Ptr (Const ty_int), Ptr (Const ty_int), ty_csrilu02Info_t, Ptr ty_int]
       ''cusparseZcsrilu02_bufferSize'' ty_cusparseStatus_t [ty_cusparseHandle_t, ty_int, ty_int, Const ty_cusparseMatDescr_t, Ptr ty_cuDoubleComplex, Ptr (Const ty_int), Ptr (Const ty_int), ty_csrilu02Info_t, Ptr ty_int] ''cusparseZcsrilu02_bufferSize'' [0, 1, 2, 3, 4, 5, 6, 7, 8] False,
     Gen cusparse ty_cusparseStatus_t ''cusparseScsrilu02_bufferSizeExt'' [ty_cusparseHandle_t, ty_int, ty_int, Const ty_cusparseMatDescr_t, Ptr ty_float, Ptr (Const ty_int), Ptr (Const ty_int), ty_csrilu02Info_t, Ptr ty_size_t]
       ''cusparseScsrilu02_bufferSizeExt'' ty_cusparseStatus_t [ty_cusparseHandle_t, ty_int, ty_int, Const ty_cusparseMatDescr_t, Ptr ty_float, Ptr (Const ty_int), Ptr (Const ty_int), ty_csrilu02Info_t, Ptr ty_size_t] ''cusparseScsrilu02_bufferSizeExt'' [0, 1, 2, 3, 4, 5, 6, 7, 8] False,
     Gen cusparse ty_cusparseStatus_t ''cusparseDcsrilu02_bufferSizeExt'' [ty_cusparseHandle_t, ty_int, ty_int, Const ty_cusparseMatDescr_t, Ptr ty_double, Ptr (Const ty_int), Ptr (Const ty_int), ty_csrilu02Info_t, Ptr ty_size_t]
       ''cusparseDcsrilu02_bufferSizeExt'' ty_cusparseStatus_t [ty_cusparseHandle_t, ty_int, ty_int, Const ty_cusparseMatDescr_t, Ptr ty_double, Ptr (Const ty_int), Ptr (Const ty_int), ty_csrilu02Info_t, Ptr ty_size_t] ''cusparseDcsrilu02_bufferSizeExt'' [0, 1, 2, 3, 4, 5, 6, 7, 8] False,
     Gen cusparse ty_cusparseStatus_t ''cusparseCcsrilu02_bufferSizeExt'' [ty_cusparseHandle_t, ty_int, ty_int, Const ty_cusparseMatDescr_t, Ptr ty_cuComplex, Ptr (Const ty_int), Ptr (Const ty_int), ty_csrilu02Info_t, Ptr ty_size_t]
       ''cusparseCcsrilu02_bufferSizeExt'' ty_cusparseStatus_t [ty_cusparseHandle_t, ty_int, ty_int, Const ty_cusparseMatDescr_t, Ptr ty_cuComplex, Ptr (Const ty_int), Ptr (Const ty_int), ty_csrilu02Info_t, Ptr ty_size_t] ''cusparseCcsrilu02_bufferSizeExt'' [0, 1, 2, 3, 4, 5, 6, 7, 8] False,
     Gen cusparse ty_cusparseStatus_t ''cusparseZcsrilu02_bufferSizeExt'' [ty_cusparseHandle_t, ty_int, ty_int, Const ty_cusparseMatDescr_t, Ptr ty_cuDoubleComplex, Ptr (Const ty_int), Ptr (Const ty_int), ty_csrilu02Info_t, Ptr ty_size_t]
       ''cusparseZcsrilu02_bufferSizeExt'' ty_cusparseStatus_t [ty_cusparseHandle_t, ty_int, ty_int, Const ty_cusparseMatDescr_t, Ptr ty_cuDoubleComplex, Ptr (Const ty_int), Ptr (Const ty_int), ty_csrilu02Info_t, Ptr ty_size_t] ''cusparseZcsrilu02_bufferSizeExt'' [0, 1, 2, 3, 4, 5, 6, 7, 8] False,
     Gen cusparse ty_cusparseStatus_t ''cusparseScsrilu02_analysis'' [ty_cusparseHandle_t, ty_int, ty_int, Const ty_cusparseMatDescr_t, Ptr (Const ty_float), Ptr (Const ty_int), Ptr (Const ty_int), ty_csrilu02Info_t, ty_cusparseSolvePolicy_t, Ptr ty_void]
       ''cusparseScsrilu02_analysis'' ty_cusparseStatus_t [ty_cusparseHandle_t, ty_int, ty_int, Const ty_cusparseMatDescr_t, Ptr (Const ty_float), Ptr (Const ty_int), Ptr (Const ty_int), ty_csrilu02Info_t, ty_cusparseSolvePolicy_t, Ptr ty_void] ''cusparseScsrilu02_analysis'' [0, 1, 2, 3, 4, 5, 6, 7, 8, 9] False,
     Gen cusparse ty_cusparseStatus_t ''cusparseDcsrilu02_analysis'' [ty_cusparseHandle_t, ty_int, ty_int, Const ty_cusparseMatDescr_t, Ptr (Const ty_double), Ptr (Const ty_int), Ptr (Const ty_int), ty_csrilu02Info_t, ty_cusparseSolvePolicy_t, Ptr ty_void]
       ''cusparseDcsrilu02_analysis'' ty_cusparseStatus_t [ty_cusparseHandle_t, ty_int, ty_int, Const ty_cusparseMatDescr_t, Ptr (Const ty_double), Ptr (Const ty_int), Ptr (Const ty_int), ty_csrilu02Info_t, ty_cusparseSolvePolicy_t, Ptr ty_void] ''cusparseDcsrilu02_analysis'' [0, 1, 2, 3, 4, 5, 6, 7, 8, 9] False,
     Gen cusparse ty_cusparseStatus_t ''cusparseCcsrilu02_analysis'' [ty_cusparseHandle_t, ty_int, ty_int, Const ty_cusparseMatDescr_t, Ptr (Const ty_cuComplex), Ptr (Const ty_int), Ptr (Const ty_int), ty_csrilu02Info_t, ty_cusparseSolvePolicy_t, Ptr ty_void]
       ''cusparseCcsrilu02_analysis'' ty_cusparseStatus_t [ty_cusparseHandle_t, ty_int, ty_int, Const ty_cusparseMatDescr_t, Ptr (Const ty_cuComplex), Ptr (Const ty_int), Ptr (Const ty_int), ty_csrilu02Info_t, ty_cusparseSolvePolicy_t, Ptr ty_void] ''cusparseCcsrilu02_analysis'' [0, 1, 2, 3, 4, 5, 6, 7, 8, 9] False,
     Gen cusparse ty_cusparseStatus_t ''cusparseZcsrilu02_analysis'' [ty_cusparseHandle_t, ty_int, ty_int, Const ty_cusparseMatDescr_t, Ptr (Const ty_cuDoubleComplex), Ptr (Const ty_int), Ptr (Const ty_int), ty_csrilu02Info_t, ty_cusparseSolvePolicy_t, Ptr ty_void]
       ''cusparseZcsrilu02_analysis'' ty_cusparseStatus_t [ty_cusparseHandle_t, ty_int, ty_int, Const ty_cusparseMatDescr_t, Ptr (Const ty_cuDoubleComplex), Ptr (Const ty_int), Ptr (Const ty_int), ty_csrilu02Info_t, ty_cusparseSolvePolicy_t, Ptr ty_void] ''cusparseZcsrilu02_analysis'' [0, 1, 2, 3, 4, 5, 6, 7, 8, 9] False]"

definition cusparse_hooks_15 :: "gen_hook list" where
  "cusparse_hooks_15 =
    [Gen cusparse ty_cusparseStatus_t ''cusparseScsrilu02'' [ty_cusparseHandle_t, ty_int, ty_int, Const ty_cusparseMatDescr_t, Ptr ty_float, Ptr (Const ty_int), Ptr (Const ty_int), ty_csrilu02Info_t, ty_cusparseSolvePolicy_t, Ptr ty_void]
       ''cusparseScsrilu02'' ty_cusparseStatus_t [ty_cusparseHandle_t, ty_int, ty_int, Const ty_cusparseMatDescr_t, Ptr ty_float, Ptr (Const ty_int), Ptr (Const ty_int), ty_csrilu02Info_t, ty_cusparseSolvePolicy_t, Ptr ty_void] ''cusparseScsrilu02'' [0, 1, 2, 3, 4, 5, 6, 7, 8, 9] False,
     Gen cusparse ty_cusparseStatus_t ''cusparseDcsrilu02'' [ty_cusparseHandle_t, ty_int, ty_int, Const ty_cusparseMatDescr_t, Ptr ty_double, Ptr (Const ty_int), Ptr (Const ty_int), ty_csrilu02Info_t, ty_cusparseSolvePolicy_t, Ptr ty_void]
       ''cusparseDcsrilu02'' ty_cusparseStatus_t [ty_cusparseHandle_t, ty_int, ty_int, Const ty_cusparseMatDescr_t, Ptr ty_double, Ptr (Const ty_int), Ptr (Const ty_int), ty_csrilu02Info_t, ty_cusparseSolvePolicy_t, Ptr ty_void] ''cusparseDcsrilu02'' [0, 1, 2, 3, 4, 5, 6, 7, 8, 9] False,
     Gen cusparse ty_cusparseStatus_t ''cusparseCcsrilu02'' [ty_cusparseHandle_t, ty_int, ty_int, Const ty_cusparseMatDescr_t, Ptr ty_cuComplex, Ptr (Const ty_int), Ptr (Const ty_int), ty_csrilu02Info_t, ty_cusparseSolvePolicy_t, Ptr ty_void]
       ''cusparseCcsrilu02'' ty_cusparseStatus_t [ty_cusparseHandle_t, ty_int, ty_int, Const ty_cusparseMatDescr_t, Ptr ty_cuComplex, Ptr (Const ty_int), Ptr (Const ty_int), ty_csrilu02Info_t, ty_cusparseSolvePolicy_t, Ptr ty_void] ''cusparseCcsrilu02'' [0, 1, 2, 3, 4, 5, 6, 7, 8, 9] False,
     Gen cusparse ty_cusparseStatus_t ''cusparseZcsrilu02'' [ty_cusparseHandle_t, ty_int, ty_int, Const ty_cusparseMatDescr_t, Ptr ty_cuDoubleComplex, Ptr (Const ty_int), Ptr (Const ty_int), ty_csrilu02Info_t, ty_cusparseSolvePolicy_t, Ptr ty_void]
       ''cusparseZcsrilu02'' ty_cusparseStatus_t [ty_cusparseHandle_t, ty_int, ty_int, Const ty_cusparseMatDescr_t, Ptr ty_cuDoubleComplex, Ptr (Const ty_int), Ptr (Const ty_int), ty_csrilu02Info_t, ty_cusparseSolvePolicy_t, Ptr ty_void] ''cusparseZcsrilu02'' [0, 1, 2, 3, 4, 5, 6, 7, 8, 9] False,
     Gen cusparse ty_cusparseStatus_t ''cusparseSbsrilu02_numericBoost'' [ty_cusparseHandle_t, ty_bsrilu02Info_t, ty_int, Ptr ty_double, Ptr ty_float]
       ''cusparseSbsrilu02_numericBoost'' ty_cusparseStatus_t [ty_cusparseHandle_t, ty_bsrilu02Info_t, ty_int, Ptr ty_double, Ptr ty_float] ''cusparseSbsrilu02_numericBoost'' [0, 1, 2, 3, 4] False,
     Gen cusparse ty_cusparseStatus_t ''cusparseDbsrilu02_numericBoost'' [ty_cusparseHandle_t, ty_bsrilu02Info_t, ty_int, Ptr ty_double, Ptr ty_double]
       ''cusparseDbsrilu02_numericBoost'' ty_cusparseStatus_t [ty_cusparseHandle_t, ty_bsrilu02Info_t, ty_int, Ptr ty_double, Ptr ty_double] ''cusparseDbsrilu02_numericBoost'' [0, 1, 2, 3, 4] False,
     Gen cusparse ty_cusparseStatus_t ''cusparseCbsrilu02_numericBoost'' [ty_cusparseHandle_t, ty_bsrilu02Info_t, ty_int, Ptr ty_double, Ptr ty_cuComplex]
       ''cusparseCbsrilu02_numericBoost'' ty_cusparseStatus_t [ty_cusparseHandle_t, ty_bsrilu02Info_t, ty_int, Ptr ty_double, Ptr ty_cuComplex] ''cusparseCbsrilu02_numericBoost'' [0, 1, 2, 3, 4] False,
     Gen cusparse ty_cusparseStatus_t ''cusparseZbsrilu02_numericBoost'' [ty_cusparseHandle_t, ty_bsrilu02Info_t, ty_int, Ptr ty_double, Ptr ty_cuDoubleComplex]
       ''cusparseZbsrilu02_numericBoost'' ty_cusparseStatus_t [ty_cusparseHandle_t, ty_bsrilu02Info_t, ty_int, Ptr ty_double, Ptr ty_cuDoubleComplex] ''cusparseZbsrilu02_numericBoost'' [0, 1, 2, 3, 4] False,
     Gen cusparse ty_cusparseStatus_t ''cusparseXbsrilu02_zeroPivot'' [ty_cusparseHandle_t, ty_bsrilu02Info_t, Ptr ty_int]
       ''cusparseXbsrilu02_zeroPivot'' ty_cusparseStatus_t [ty_cusparseHandle_t, ty_bsrilu02Info_t, Ptr ty_int] ''cusparseXbsrilu02_zeroPivot'' [0, 1, 2] False,
     Gen cusparse ty_cusparseStatus_t ''cusparseSbsrilu02_bufferSize'' [ty_cusparseHandle_t, ty_cusparseDirection_t, ty_int, ty_int, Const ty_cusparseMatDescr_t, Ptr ty_float, Ptr (Const ty_int), Ptr (Const ty_int), ty_int, ty_bsrilu02Info_t, Ptr ty_int]
       ''cusparseSbsrilu02_bufferSize'' ty_cusparseStatus_t [ty_cusparseHandle_t, ty_cusparseDirection_t, ty_int, ty_int, Const ty_cusparseMatDescr_t, Ptr ty_float, Ptr (Const ty_int), Ptr (Const ty_int), ty_int, ty_bsrilu02Info_t, Ptr ty_int] ''cusparseSbsrilu02_bufferSize'' [0, 1, 2, 3, 4, 5, 6, 7, 8, 9, 10] False,
     Gen cusparse ty_cusparseStatus_t ''cusparseDbsrilu02_bufferSize'' [ty_cusparseHandle_t, ty_cusparseDirection_t, ty_int, ty_int, Const ty_cusparseMatDescr_t, Ptr ty_double, Ptr (Const ty_int), Ptr (Const ty_int), ty_int, ty_bsrilu02Info_t, Ptr ty_int]
       ''cusparseDbsrilu02_bufferSize'' ty_cusparseStatus_t [ty_cusparseHandle_t, ty_cusparseDirection_t, ty_int, ty_int, Const ty_cusparseMatDescr_t, Ptr ty_double, Ptr (Const ty_int), Ptr (Const ty_int), ty_int, ty_bsrilu02Info_t, Ptr ty_int] ''cusparseDbsrilu02_bufferSize'' [0, 1, 2, 3, 4, 5, 6, 7, 8, 9, 10] False,
     Gen cusparse ty_cusparseStatus_t ''cusparseCbsrilu02_bufferSize'' [ty_cusparseHandle_t, ty_cusparseDirection_t, ty_int, ty_int, Const ty_cusparseMatDescr_t, Ptr ty_cuComplex, Ptr (Const ty_int), Ptr (Const ty_int), ty_int, ty_bsrilu02Info_t, Ptr ty_int]
       ''cusparseCbsrilu02_bufferSize'' ty_cusparseStatus_t [ty_cusparseHandle_t, ty_cusparseDirection_t, ty_int, ty_int, Const ty_cusparseMatDescr_t, Ptr ty_cuComplex, Ptr (Const ty_int), Ptr (Const ty_int), ty_int, ty_bsrilu02Info_t, Ptr ty_int] ''cusparseCbsrilu02_bufferSize'' [0, 1, 2, 3, 4, 5, 6, 7, 8, 9, 10] False]"

definition cusparse_hooks_16 :: "gen_hook list" where
  "cusparse_hooks_16 =
    [Gen cusparse ty_cusparseStatus_t ''cusparseZbsrilu02_bufferSize'' [ty_cusparseHandle_t, ty_cusparseDirection_t, ty_int, ty_int, Const ty_cusparseMatDescr_t, Ptr ty_cuDoubleComplex, Ptr (Const ty_int), Ptr (Const ty_int), ty_int, ty_bsrilu02Info_t, Ptr ty_int]
       ''cusparseZbsrilu02_bufferSize'' ty_cusparseStatus_t [ty_cusparseHandle_t, ty_cusparseDirection_t, ty_int, ty_int, Const ty_cusparseMatDescr_t, Ptr ty_cuDoubleComplex, Ptr (Const ty_int), Ptr (Const ty_int), ty_int, ty_bsrilu02Info_t, Ptr ty_int] ''cusparseZbsrilu02_bufferSize'' [0, 1, 2, 3, 4, 5, 6, 7, 8, 9, 10] False,
     Gen cusparse ty_cusparseStatus_t ''cusparseSbsrilu02_bufferSizeExt'' [ty_cusparseHandle_t, ty_cusparseDirection_t, ty_int, ty_int, Const ty_cusparseMatDescr_t, Ptr ty_float, Ptr (Const ty_int), Ptr (Const ty_int), ty_int, ty_bsrilu02Info_t, Ptr ty_size_t]
       ''cusparseSbsrilu02_bufferSizeExt'' ty_cusparseStatus_t [ty_cusparseHandle_t, ty_cusparseDirection_t, ty_int, ty_int, Const ty_cusparseMatDescr_t, Ptr ty_float, Ptr (Const ty_int), Ptr (Const ty_int), ty_int, ty_bsrilu02Info_t, Ptr ty_size_t] ''cusparseSbsrilu02_bufferSizeExt'' [0, 1, 2, 3, 4, 5, 6, 7, 8, 9, 10] False,
     Gen cusparse ty_cusparseStatus_t ''cusparseDbsrilu02_bufferSizeExt'' [ty_cusparseHandle_t, ty_cusparseDirection_t, ty_int, ty_int, Const ty_cusparseMatDescr_t, Ptr ty_double, Ptr (Const ty_int), Ptr (Const ty_int), ty_int, ty_bsrilu02Info_t, Ptr ty_size_t]
       ''cusparseDbsrilu02_bufferSizeExt'' ty_cusparseStatus_t [ty_cusparseHandle_t, ty_cusparseDirection_t, ty_int, ty_int, Const ty_cusparseMatDescr_t, Ptr ty_double, Ptr (Const ty_int), Ptr (Const ty_int), ty_int, ty_bsrilu02Info_t, Ptr ty_size_t] ''cusparseDbsrilu02_bufferSizeExt'' [0, 1, 2, 3, 4, 5, 6, 7, 8, 9, 10] False,
     Gen cusparse ty_cusparseStatus_t ''cusparseCbsrilu02_bufferSizeExt'' [ty_cusparseHandle_t, ty_cusparseDirection_t, ty_int, ty_int, Const ty_cusparseMatDescr_t, Ptr ty_cuComplex, Ptr (Const ty_int), Ptr (Const ty_int), ty_int, ty_bsrilu02Info_t, Ptr ty_size_t]
       ''cusparseCbsrilu02_bufferSizeExt'' ty_cusparseStatus_t [ty_cusparseHandle_t, ty_cusparseDirection_t, ty_int, ty_int, Const ty_cusparseMatDescr_t, Ptr ty_cuComplex, Ptr (Const ty_int), Ptr (Const ty_int), ty_int, ty_bsrilu02Info_t, Ptr ty_size_t] ''cusparseCbsrilu02_bufferSizeExt'' [0, 1, 2, 3, 4, 5, 6, 7, 8, 9, 10] False,
     Gen cusparse ty_cusparseStatus_t ''cusparseZbsrilu02_bufferSizeExt'' [ty_cusparseHandle_t, ty_cusparseDirection_t, ty_int, ty_int, Const ty_cusparseMatDescr_t, Ptr ty_cuDoubleComplex, Ptr (Const ty_int), Ptr (Const ty_int), ty_int, ty_bsrilu02Info_t, Ptr ty_size_t]
       ''cusparseZbsrilu02_bufferSizeExt'' ty_cusparseStatus_t [ty_cusparseHandle_t, ty_cusparseDirection_t, ty_int, ty_int, Const ty_cusparseMatDescr_t, Ptr ty_cuDoubleComplex, Ptr (Const ty_int), Ptr (Const ty_int), ty_int, ty_bsrilu02Info_t, Ptr ty_size_t] ''cusparseZbsrilu02_bufferSizeExt'' [0, 1, 2, 3, 4, 5, 6, 7, 8, 9, 10] False,
     Gen cusparse ty_cusparseStatus_t ''cusparseSbsrilu02_analysis'' [ty_cusparseHandle_t, ty_cusparseDirection_t, ty_int, ty_int, Const ty_cusparseMatDescr_t, Ptr ty_float, Ptr (Const ty_int), Ptr (Const ty_int), ty_int, ty_bsrilu02Info_t, ty_cusparseSolvePolicy_t, Ptr ty_void]
       ''cusparseSbsrilu02_analysis'' ty_cusparseStatus_t [ty_cusparseHandle_t, ty_cusparseDirection_t, ty_int, ty_int, Const ty_cusparseMatDescr_t, Ptr ty_float, Ptr (Const ty_int), Ptr (Const ty_int), ty_int, ty_bsrilu02Info_t, ty_cusparseSolvePolicy_t, Ptr ty_void] ''cusparseSbsrilu02_analysis'' [0, 1, 2, 3, 4, 5, 6, 7, 8, 9, 10, 11] False,
     Gen cusparse ty_cusparseStatus_t ''cusparseDbsrilu02_analysis'' [ty_cusparseHandle_t, ty_cusparseDirection_t, ty_int, ty_int, Const ty_cusparseMatDescr_t, Ptr ty_double, Ptr (Const ty_int), Ptr (Const ty_int), ty_int, ty_bsrilu02Info_t, ty_cusparseSolvePolicy_t, Ptr ty_void]
       ''cusparseDbsrilu02_analysis'' ty_cusparseStatus_t [ty_cusparseHandle_t, ty_cusparseDirection_t, ty_int, ty_int, Const ty_cusparseMatDescr_t, Ptr ty_double, Ptr (Const ty_int), Ptr (Const ty_int), ty_int, ty_bsrilu02Info_t, ty_cusparseSolvePolicy_t, Ptr ty_void] ''cusparseDbsrilu02_analysis'' [0, 1, 2, 3, 4, 5, 6, 7, 8, 9, 10, 11] False,
     Gen cusparse ty_cusparseStatus_t ''cusparseCbsrilu02_analysis'' [ty_cusparseHandle_t, ty_cusparseDirection_t, ty_int, ty_int, Const ty_cusparseMatDescr_t, Ptr ty_cuComplex, Ptr (Const ty_int), Ptr (Const ty_int), ty_int, ty_bsrilu02Info_t, ty_cusparseSolvePolicy_t, Ptr ty_void]
       ''cusparseCbsrilu02_analysis'' ty_cusparseStatus_t [ty_cusparseHandle_t, ty_cusparseDirection_t, ty_int, ty_int, Const ty_cusparseMatDescr_t, Ptr ty_cuComplex, Ptr (Const ty_int), Ptr (Const ty_int), ty_int, ty_bsrilu02Info_t, ty_cusparseSolvePolicy_t, Ptr ty_void] ''cusparseCbsrilu02_analysis'' [0, 1, 2, 3, 4, 5, 6, 7, 8, 9, 10, 11] False,
     Gen cusparse ty_cusparseStatus_t ''cusparseZbsrilu02_analysis'' [ty_cusparseHandle_t, ty_cusparseDirection_t, ty_int, ty_int, Const ty_cusparseMatDescr_t, Ptr ty_cuDoubleComplex, Ptr (Const ty_int), Ptr (Const ty_int), ty_int, ty_bsrilu02Info_t, ty_cusparseSolvePolicy_t, Ptr ty_void]
       ''cusparseZbsrilu02_analysis'' ty_cusparseStatus_t [ty_cusparseHandle_t, ty_cusparseDirection_t, ty_int, ty_int, Const ty_cusparseMatDescr_t, Ptr ty_cuDoubleComplex, Ptr (Const ty_int), Ptr (Const ty_int), ty_int, ty_bsrilu02Info_t, ty_cusparseSolvePolicy_t, Ptr ty_void] ''cusparseZbsrilu02_analysis'' [0, 1, 2, 3, 4, 5, 6, 7, 8, 9, 10, 11] False,
     Gen cusparse ty_cusparseStatus_t ''cusparseSbsrilu02'' [ty_cusparseHandle_t, ty_cusparseDirection_t, ty_int, ty_int, Const ty_cusparseMatDescr_t, Ptr ty_float, Ptr (Const ty_int), Ptr (Const ty_int), ty_int, ty_bsrilu02Info_t, ty_cusparseSolvePolicy_t, Ptr ty_void]
       ''cusparseSbsrilu02'' ty_cusparseStatus_t [ty_cusparseHandle_t, ty_cusparseDirection_t, ty_int, ty_int, Const ty_cusparseMatDescr_t, Ptr ty_float, Ptr (Const ty_int), Ptr (Const ty_int), ty_int, ty_bsrilu02Info_t, ty_cusparseSolvePolicy_t, Ptr ty_void] ''cusparseSbsrilu02'' [0, 1, 2, 3, 4, 5, 6, 7, 8, 9, 10, 11] False]"

definition cusparse_hooks_17 :: "gen_hook list" where
  "cusparse_hooks_17 =
    [Gen cusparse ty_cusparseStatus_t ''cusparseDbsrilu02'' [ty_cusparseHandle_t, ty_cusparseDirection_t, ty_int, ty_int, Const ty_cusparseMatDescr_t, Ptr ty_double, Ptr (Const ty_int), Ptr (Const ty_int), ty_int, ty_bsrilu02Info_t, ty_cusparseSolvePolicy_t, Ptr ty_void]
       ''cusparseDbsrilu02'' ty_cusparseStatus_t [ty_cusparseHandle_t, ty_cusparseDirection_t, ty_int, ty_int, Const ty_cusparseMatDescr_t, Ptr ty_double, Ptr (Const ty_int), Ptr (Const ty_int), ty_int, ty_bsrilu02Info_t, ty_cusparseSolvePolicy_t, Ptr ty_void] ''cusparseDbsrilu02'' [0, 1, 2, 3, 4, 5, 6, 7, 8, 9, 10, 11] False,
     Gen cusparse ty_cusparseStatus_t ''cusparseCbsrilu02'' [ty_cusparseHandle_t, ty_cusparseDirection_t, ty_int, ty_int, Const ty_cusparseMatDescr_t, Ptr ty_cuComplex, Ptr (Const ty_int), Ptr (Const ty_int), ty_int, ty_bsrilu02Info_t, ty_cusparseSolvePolicy_t, Ptr ty_void]
       ''cusparseCbsrilu02'' ty_cusparseStatus_t [ty_cusparseHandle_t, ty_cusparseDirection_t, ty_int, ty_int, Const ty_cusparseMatDescr_t, Ptr ty_cuComplex, Ptr (Const ty_int), Ptr (Const ty_int), ty_int, ty_bsrilu02Info_t, ty_cusparseSolvePolicy_t, Ptr ty_void] ''cusparseCbsrilu02'' [0, 1, 2, 3, 4, 5, 6, 7, 8, 9, 10, 11] False,
     Gen cusparse ty_cusparseStatus_t ''cusparseZbsrilu02'' [ty_cusparseHandle_t, ty_cusparseDirection_t, ty_int, ty_int, Const ty_cusparseMatDescr_t, Ptr ty_cuDoubleComplex, Ptr (Const ty_int), Ptr (Const ty_int), ty_int, ty_bsrilu02Info_t, ty_cusparseSolvePolicy_t, Ptr ty_void]
       ''cusparseZbsrilu02'' ty_cusparseStatus_t [ty_cusparseHandle_t, ty_cusparseDirection_t, ty_int, ty_int, Const ty_cusparseMatDescr_t, Ptr ty_cuDoubleComplex, Ptr (Const ty_int), Ptr (Const ty_int), ty_int, ty_bsrilu02Info_t, ty_cusparseSolvePolicy_t, Ptr ty_void] ''cusparseZbsrilu02'' [0, 1, 2, 3, 4, 5, 6, 7, 8, 9, 10, 11] False,
     Gen cusparse ty_cusparseStatus_t ''cusparseXcsric02_zeroPivot'' [ty_cusparseHandle_t, ty_csric02Info_t, Ptr ty_int]
       ''cusparseXcsric02_zeroPivot'' ty_cusparseStatus_t [ty_cusparseHandle_t, ty_csric02Info_t, Ptr ty_int] ''cusparseXcsric02_zeroPivot'' [0, 1, 2] False,
     Gen cusparse ty_cusparseStatus_t ''cusparseScsric02_bufferSize'' [ty_cusparseHandle_t, ty_int, ty_int, Const ty_cusparseMatDescr_t, Ptr ty_float, Ptr (Const ty_int), Ptr (Const ty_int), ty_csric02Info_t, Ptr ty_int]
       ''cusparseScsric02_bufferSize'' ty_cusparseStatus_t [ty_cusparseHandle_t, ty_int, ty_int, Const ty_cusparseMatDescr_t, Ptr ty_float, Ptr (Const ty_int), Ptr (Const ty_int), ty_csric02Info_t, Ptr ty_int] ''cusparseScsric02_bufferSize'' [0, 1, 2, 3, 4, 5, 6, 7, 8] False,
     Gen cusparse ty_cusparseStatus_t ''cusparseDcsric02_bufferSize'' [ty_cusparseHandle_t, ty_int, ty_int, Const ty_cusparseMatDescr_t, Ptr ty_double, Ptr (Const ty_int), Ptr (Const ty_int), ty_csric02Info_t, Ptr ty_int]
       ''cusparseDcsric02_bufferSize'' ty_cusparseStatus_t [ty_cusparseHandle_t, ty_int, ty_int, Const ty_cusparseMatDescr_t, Ptr ty_double, Ptr (Const ty_int), Ptr (Const ty_int), ty_csric02Info_t, Ptr ty_int] ''cusparseDcsric02_bufferSize'' [0, 1, 2, 3, 4, 5, 6, 7, 8] False,
     Gen cusparse ty_cusparseStatus_t ''cusparseCcsric02_bufferSize'' [ty_cusparseHandle_t, ty_int, ty_int, Const ty_cusparseMatDescr_t, Ptr ty_cuComplex, Ptr (Const ty_int), Ptr (Const ty_int), ty_csric02Info_t, Ptr ty_int]
       ''cusparseCcsric02_bufferSize'' ty_cusparseStatus_t [ty_cusparseHandle_t, ty_int, ty_int, Const ty_cusparseMatDescr_t, Ptr ty_cuComplex, Ptr (Const ty_int), Ptr (Const ty_int), ty_csric02Info_t, Ptr ty_int] ''cusparseCcsric02_bufferSize'' [0, 1, 2, 3, 4, 5, 6, 7, 8] False,
     Gen cusparse ty_cusparseStatus_t ''cusparseZcsric02_bufferSize'' [ty_cusparseHandle_t, ty_int, ty_int, Const ty_cusparseMatDescr_t, Ptr ty_cuDoubleComplex, Ptr (Const ty_int), Ptr (Const ty_int), ty_csric02Info_t, Ptr ty_int]
       ''cusparseZcsric02_bufferSize'' ty_cusparseStatus_t [ty_cusparseHandle_t, ty_int, ty_int, Const ty_cusparseMatDescr_t, Ptr ty_cuDoubleComplex, Ptr (Const ty_int), Ptr (Const ty_int), ty_csric02Info_t, Ptr ty_int] ''cusparseZcsric02_bufferSize'' [0, 1, 2, 3, 4, 5, 6, 7, 8] False,
     Gen cusparse ty_cusparseStatus_t ''cusparseScsric02_bufferSizeExt'' [ty_cusparseHandle_t, ty_int, ty_int, Const ty_cusparseMatDescr_t, Ptr ty_float, Ptr (Const ty_int), Ptr (Const ty_int), ty_csric02Info_t, Ptr ty_size_t]
       ''cusparseScsric02_bufferSizeExt'' ty_cusparseStatus_t [ty_cusparseHandle_t, ty_int, ty_int, Const ty_cusparseMatDescr_t, Ptr ty_float, Ptr (Const ty_int), Ptr (Const ty_int), ty_csric02Info_t, Ptr ty_size_t] ''cusparseScsric02_bufferSizeExt'' [0, 1, 2, 3, 4, 5, 6, 7, 8] False,
     Gen cusparse ty_cusparseStatus_t ''cusparseDcsric02_bufferSizeExt'' [ty_cusparseHandle_t, ty_int, ty_int, Const ty_cusparseMatDescr_t, Ptr ty_double, Ptr (Const ty_int), Ptr (Const ty_int), ty_csric02Info_t, Ptr ty_size_t]
       ''cusparseDcsric02_bufferSizeExt'' ty_cusparseStatus_t [ty_cusparseHandle_t, ty_int, ty_int, Const ty_cusparseMatDescr_t, Ptr ty_double, Ptr (Const ty_int), Ptr (Const ty_int), ty_csric02Info_t, Ptr ty_size_t] ''cusparseDcsric02_bufferSizeExt'' [0, 1, 2, 3, 4, 5, 6, 7, 8] False,
     Gen cusparse ty_cusparseStatus_t ''cusparseCcsric02_bufferSizeExt'' [ty_cusparseHandle_t, ty_int, ty_int, Const ty_cusparseMatDescr_t, Ptr ty_cuComplex, Ptr (Const ty_int), Ptr (Const ty_int), ty_csric02Info_t, Ptr ty_size_t]
       ''cusparseCcsric02_bufferSizeExt'' ty_cusparseStatus_t [ty_cusparseHandle_t, ty_int, ty_int, Const ty_cusparseMatDescr_t, Ptr ty_cuComplex, Ptr (Const ty_int), Ptr (Const ty_int), ty_csric02Info_t, Ptr ty_size_t] ''cusparseCcsric02_bufferSizeExt'' [0, 1, 2, 3, 4, 5, 6, 7, 8] False,
     Gen cusparse ty_cusparseStatus_t ''cusparseZcsric02_bufferSizeExt'' [ty_cusparseHandle_t, ty_int, ty_int, Const ty_cusparseMatDescr_t, Ptr ty_cuDoubleComplex, Ptr (Const ty_int), Ptr (Const ty_int), ty_csric02Info_t, Ptr ty_size_t]
       ''cusparseZcsric02_bufferSizeExt'' ty_cusparseStatus_t [ty_cusparseHandle_t, ty_int, ty_int, Const ty_cusparseMatDescr_t, Ptr ty_cuDoubleComplex, Ptr (Const ty_int), Ptr (Const ty_int), ty_csric02Info_t, Ptr ty_size_t] ''cusparseZcsric02_bufferSizeExt'' [0, 1, 2, 3, 4, 5, 6, 7, 8] False]"

definition cusparse_hooks_18 :: "gen_hook list" where
  "cusparse_hooks_18 =
    [Gen cusparse ty_cusparseStatus_t ''cusparseScsric02_analysis'' [ty_cusparseHandle_t, ty_int, ty_int, Const ty_cusparseMatDescr_t, Ptr (Const ty_float), Ptr (Const ty_int), Ptr (Const ty_int), ty_csric02Info_t, ty_cusparseSolvePolicy_t, Ptr ty_void]
       ''cusparseScsric02_analysis'' ty_cusparseStatus_t [ty_cusparseHandle_t, ty_int, ty_int, Const ty_cusparseMatDescr_t, Ptr (Const ty_float), Ptr (Const ty_int), Ptr (Const ty_int), ty_csric02Info_t, ty_cusparseSolvePolicy_t, Ptr ty_void] ''cusparseScsric02_analysis'' [0, 1, 2, 3, 4, 5, 6, 7, 8, 9] False,
     Gen cusparse ty_cusparseStatus_t ''cusparseDcsric02_analysis'' [ty_cusparseHandle_t, ty_int, ty_int, Const ty_cusparseMatDescr_t, Ptr (Const ty_double), Ptr (Const ty_int), Ptr (Const ty_int), ty_csric02Info_t, ty_cusparseSolvePolicy_t, Ptr ty_void]
       ''cusparseDcsric02_analysis'' ty_cusparseStatus_t [ty_cusparseHandle_t, ty_int, ty_int, Const ty_cusparseMatDescr_t, Ptr (Const ty_double), Ptr (Const ty_int), Ptr (Const ty_int), ty_csric02Info_t, ty_cusparseSolvePolicy_t, Ptr ty_void] ''cusparseDcsric02_analysis'' [0, 1, 2, 3, 4, 5, 6, 7, 8, 9] False,
     Gen cusparse ty_cusparseStatus_t ''cusparseCcsric02_analysis'' [ty_cusparseHandle_t, ty_int, ty_int, Const ty_cusparseMatDescr_t, Ptr (Const ty_cuComplex), Ptr (Const ty_int), Ptr (Const ty_int), ty_csric02Info_t, ty_cusparseSolvePolicy_t, Ptr ty_void]
       ''cusparseCcsric02_analysis'' ty_cusparseStatus_t [ty_cusparseHandle_t, ty_int, ty_int, Const ty_cusparseMatDescr_t, Ptr (Const ty_cuComplex), Ptr (Const ty_int), Ptr (Const ty_int), ty_csric02Info_t, ty_cusparseSolvePolicy_t, Ptr ty_void] ''cusparseCcsric02_analysis'' [0, 1, 2, 3, 4, 5, 6, 7, 8, 9] False,
     Gen cusparse ty_cusparseStatus_t ''cusparseZcsric02_analysis'' [ty_cusparseHandle_t, ty_int, ty_int, Const ty_cusparseMatDescr_t, Ptr (Const ty_cuDoubleComplex), Ptr (Const ty_int), Ptr (Const ty_int), ty_csric02Info_t, ty_cusparseSolvePolicy_t, Ptr ty_void]
       ''cusparseZcsric02_analysis'' ty_cusparseStatus_t [ty_cusparseHandle_t, ty_int, ty_int, Const ty_cusparseMatDescr_t, Ptr (Const ty_cuDoubleComplex), Ptr (Const ty_int), Ptr (Const ty_int), ty_csric02Info_t, ty_cusparseSolvePolicy_t, Ptr ty_void] ''cusparseZcsric02_analysis'' [0, 1, 2, 3, 4, 5, 6, 7, 8, 9] False,
     Gen cusparse ty_cusparseStatus_t ''cusparseScsric02'' [ty_cusparseHandle_t, ty_int, ty_int, Const ty_cusparseMatDescr_t, Ptr ty_float, Ptr (Const ty_int), Ptr (Const ty_int), ty_csric02Info_t, ty_cusparseSolvePolicy_t, Ptr ty_void]
       ''cusparseScsric02'' ty_cusparseStatus_t [ty_cusparseHandle_t, ty_int, ty_int, Const ty_cusparseMatDescr_t, Ptr ty_float, Ptr (Const ty_int), Ptr (Const ty_int), ty_csric02Info_t, ty_cusparseSolvePolicy_t, Ptr ty_void] ''cusparseScsric02'' [0, 1, 2, 3, 4, 5, 6, 7, 8, 9] False,
     Gen cusparse ty_cusparseStatus_t ''cusparseDcsric02'' [ty_cusparseHandle_t, ty_int, ty_int, Const ty_cusparseMatDescr_t, Ptr ty_double, Ptr (Const ty_int), Ptr (Const ty_int), ty_csric02Info_t, ty_cusparseSolvePolicy_t, Ptr ty_void]
       ''cusparseDcsric02'' ty_cusparseStatus_t [ty_cusparseHandle_t, ty_int, ty_int, Const ty_cusparseMatDescr_t, Ptr ty_double, Ptr (Const ty_int), Ptr (Const ty_int), ty_csric02Info_t, ty_cusparseSolvePolicy_t, Ptr ty_void] ''cusparseDcsric02'' [0, 1, 2, 3, 4, 5, 6, 7, 8, 9] False,
     Gen cusparse ty_cusparseStatus_t ''cusparseCcsric02'' [ty_cusparseHandle_t, ty_int, ty_int, Const ty_cusparseMatDescr_t, Ptr ty_cuComplex, Ptr (Const ty_int), Ptr (Const ty_int), ty_csric02Info_t, ty_cusparseSolvePolicy_t, Ptr ty_void]
       ''cusparseCcsric02'' ty_cusparseStatus_t [ty_cusparseHandle_t, ty_int, ty_int, Const ty_cusparseMatDescr_t, Ptr ty_cuComplex, Ptr (Const ty_int), Ptr (Const ty_int), ty_csric02Info_t, ty_cusparseSolvePolicy_t, Ptr ty_void] ''cusparseCcsric02'' [0, 1, 2, 3, 4, 5, 6, 7, 8, 9] False,
     Gen cusparse ty_cusparseStatus_t ''cusparseZcsric02'' [ty_cusparseHandle_t, ty_int, ty_int, Const ty_cusparseMatDescr_t, Ptr ty_cuDoubleComplex, Ptr (Const ty_int), Ptr (Const ty_int), ty_csric02Info_t, ty_cusparseSolvePolicy_t, Ptr ty_void]
       ''cusparseZcsric02'' ty_cusparseStatus_t [ty_cusparseHandle_t, ty_int, ty_int, Const ty_cusparseMatDescr_t, Ptr ty_cuDoubleComplex, Ptr (Const ty_int), Ptr (Const ty_int), ty_csric02Info_t, ty_cusparseSolvePolicy_t, Ptr ty_void] ''cusparseZcsric02'' [0, 1, 2, 3, 4, 5, 6, 7, 8, 9] False,
     Gen cusparse ty_cusparseStatus_t ''cusparseXbsric02_zeroPivot'' [ty_cusparseHandle_t, ty_bsric02Info_t, Ptr ty_int]
       ''cusparseXbsric02_zeroPivot'' ty_cusparseStatus_t [ty_cusparseHandle_t, ty_bsric02Info_t, Ptr ty_int] ''cusparseXbsric02_zeroPivot'' [0, 1, 2] False,
     Gen cusparse ty_cusparseStatus_t ''cusparseSbsric02_bufferSize'' [ty_cusparseHandle_t, ty_cusparseDirection_t, ty_int, ty_int, Const ty_cusparseMatDescr_t, Ptr ty_float, Ptr (Const ty_int), Ptr (Const ty_int), ty_int, ty_bsric02Info_t, Ptr ty_int]
       ''cusparseSbsric02_bufferSize'' ty_cusparseStatus_t [ty_cusparseHandle_t, ty_cusparseDirection_t, ty_int, ty_int, Const ty_cusparseMatDescr_t, Ptr ty_float, Ptr (Const ty_int), Ptr (Const ty_int), ty_int, ty_bsric02Info_t, Ptr ty_int] ''cusparseSbsric02_bufferSize'' [0, 1, 2, 3, 4, 5, 6, 7, 8, 9, 10] False,
     Gen cusparse ty_cusparseStatus_t ''cusparseDbsric02_bufferSize'' [ty_cusparseHandle_t, ty_cusparseDirection_t, ty_int, ty_int, Const ty_cusparseMatDescr_t, Ptr ty_double, Ptr (Const ty_int), Ptr (Const ty_int), ty_int, ty_bsric02Info_t, Ptr ty_int]
       ''cusparseDbsric02_bufferSize'' ty_cusparseStatus_t [ty_cusparseHandle_t, ty_cusparseDirection_t, ty_int, ty_int, Const ty_cusparseMatDescr_t, Ptr ty_double, Ptr (Const ty_int), Ptr (Const ty_int), ty_int, ty_bsric02Info_t, Ptr ty_int] ''cusparseDbsric02_bufferSize'' [0, 1, 2, 3, 4, 5, 6, 7, 8, 9, 10] False]"

definition cusparse_hooks_19 :: "gen_hook list" where
  "cusparse_hooks_19 =
    [Gen cusparse ty_cusparseStatus_t ''cusparseCbsric02_bufferSize'' [ty_cusparseHandle_t, ty_cusparseDirection_t, ty_int, ty_int, Const ty_cusparseMatDescr_t, Ptr ty_cuComplex, Ptr (Const ty_int), Ptr (Const ty_int), ty_int, ty_bsric02Info_t, Ptr ty_int]
       ''cusparseCbsric02_bufferSize'' ty_cusparseStatus_t [ty_cusparseHandle_t, ty_cusparseDirection_t, ty_int, ty_int, Const ty_cusparseMatDescr_t, Ptr ty_cuComplex, Ptr (Const ty_int), Ptr (Const ty_int), ty_int, ty_bsric02Info_t, Ptr ty_int] ''cusparseCbsric02_bufferSize'' [0, 1, 2, 3, 4, 5, 6, 7, 8, 9, 10] False,
     Gen cusparse ty_cusparseStatus_t ''cusparseZbsric02_bufferSize'' [ty_cusparseHandle_t, ty_cusparseDirection_t, ty_int, ty_int, Const ty_cusparseMatDescr_t, Ptr ty_cuDoubleComplex, Ptr (Const ty_int), Ptr (Const ty_int), ty_int, ty_bsric02Info_t, Ptr ty_int]
       ''cusparseZbsric02_bufferSize'' ty_cusparseStatus_t [ty_cusparseHandle_t, ty_cusparseDirection_t, ty_int, ty_int, Const ty_cusparseMatDescr_t, Ptr ty_cuDoubleComplex, Ptr (Const ty_int), Ptr (Const ty_int), ty_int, ty_bsric02Info_t, Ptr ty_int] ''cusparseZbsric02_bufferSize'' [0, 1, 2, 3, 4, 5, 6, 7, 8, 9, 10] False,
     Gen cusparse ty_cusparseStatus_t ''cusparseSbsric02_bufferSizeExt'' [ty_cusparseHandle_t, ty_cusparseDirection_t, ty_int, ty_int, Const ty_cusparseMatDescr_t, Ptr ty_float, Ptr (Const ty_int), Ptr (Const ty_int), ty_int, ty_bsric02Info_t, Ptr ty_size_t]
       ''cusparseSbsric02_bufferSizeExt'' ty_cusparseStatus_t [ty_cusparseHandle_t, ty_cusparseDirection_t, ty_int, ty_int, Const ty_cusparseMatDescr_t, Ptr ty_float, Ptr (Const ty_int), Ptr (Const ty_int), ty_int, ty_bsric02Info_t, Ptr ty_size_t] ''cusparseSbsric02_bufferSizeExt'' [0, 1, 2, 3, 4, 5, 6, 7, 8, 9, 10] False,
     Gen cusparse ty_cusparseStatus_t ''cusparseDbsric02_bufferSizeExt'' [ty_cusparseHandle_t, ty_cusparseDirection_t, ty_int, ty_int, Const ty_cusparseMatDescr_t, Ptr ty_double, Ptr (Const ty_int), Ptr (Const ty_int), ty_int, ty_bsric02Info_t, Ptr ty_size_t]
       ''cusparseDbsric02_bufferSizeExt'' ty_cusparseStatus_t [ty_cusparseHandle_t, ty_cusparseDirection_t, ty_int, ty_int, Const ty_cusparseMatDescr_t, Ptr ty_double, Ptr (Const ty_int), Ptr (Const ty_int), ty_int, ty_bsric02Info_t, Ptr ty_size_t] ''cusparseDbsric02_bufferSizeExt'' [0, 1, 2, 3, 4, 5, 6, 7, 8, 9, 10] False,
     Gen cusparse ty_cusparseStatus_t ''cusparseCbsric02_bufferSizeExt'' [ty_cusparseHandle_t, ty_cusparseDirection_t, ty_int, ty_int, Const ty_cusparseMatDescr_t, Ptr ty_cuComplex, Ptr (Const ty_int), Ptr (Const ty_int), ty_int, ty_bsric02Info_t, Ptr ty_size_t]
       ''cusparseCbsric02_bufferSizeExt'' ty_cusparseStatus_t [ty_cusparseHandle_t, ty_cusparseDirection_t, ty_int, ty_int, Const ty_cusparseMatDescr_t, Ptr ty_cuComplex, Ptr (Const ty_int), Ptr (Const ty_int), ty_int, ty_bsric02Info_t, Ptr ty_size_t] ''cusparseCbsric02_bufferSizeExt'' [0, 1, 2, 3, 4, 5, 6, 7, 8, 9, 10] False,
     Gen cusparse ty_cusparseStatus_t ''cusparseZbsric02_bufferSizeExt'' [ty_cusparseHandle_t, ty_cusparseDirection_t, ty_int, ty_int, Const ty_cusparseMatDescr_t, Ptr ty_cuDoubleComplex, Ptr (Const ty_int), Ptr (Const ty_int), ty_int, ty_bsric02Info_t, Ptr ty_size_t]
       ''cusparseZbsric02_bufferSizeExt'' ty_cusparseStatus_t [ty_cusparseHandle_t, ty_cusparseDirection_t, ty_int, ty_int, Const ty_cusparseMatDescr_t, Ptr ty_cuDoubleComplex, Ptr (Const ty_int), Ptr (Const ty_int), ty_int, ty_bsric02Info_t, Ptr ty_size_t] ''cusparseZbsric02_bufferSizeExt'' [0, 1, 2, 3, 4, 5, 6, 7, 8, 9, 10] False,
     Gen cusparse ty_cusparseStatus_t ''cusparseSbsric02_analysis'' [ty_cusparseHandle_t, ty_cusparseDirection_t, ty_int, ty_int, Const ty_cusparseMatDescr_t, Ptr (Const ty_float), Ptr (Const ty_int), Ptr (Const ty_int), ty_int, ty_bsric02Info_t, ty_cusparseSolvePolicy_t, Ptr ty_void]
       ''cusparseSbsric02_analysis'' ty_cusparseStatus_t [ty_cusparseHandle_t, ty_cusparseDirection_t, ty_int, ty_int, Const ty_cusparseMatDescr_t, Ptr (Const ty_float), Ptr (Const ty_int), Ptr (Const ty_int), ty_int, ty_bsric02Info_t, ty_cusparseSolvePolicy_t, Ptr ty_void] ''cusparseSbsric02_analysis'' [0, 1, 2, 3, 4, 5, 6, 7, 8, 9, 10, 11] False,
     Gen cusparse ty_cusparseStatus_t ''cusparseDbsric02_analysis'' [ty_cusparseHandle_t, ty_cusparseDirection_t, ty_int, ty_int, Const ty_cusparseMatDescr_t, Ptr (Const ty_double), Ptr (Const ty_int), Ptr (Const ty_int), ty_int, ty_bsric02Info_t, ty_cusparseSolvePolicy_t, Ptr ty_void]
       ''cusparseDbsric02_analysis'' ty_cusparseStatus_t [ty_cusparseHandle_t, ty_cusparseDirection_t, ty_int, ty_int, Const ty_cusparseMatDescr_t, Ptr (Const ty_double), Ptr (Const ty_int), Ptr (Const ty_int), ty_int, ty_bsric02Info_t, ty_cusparseSolvePolicy_t, Ptr ty_void] ''cusparseDbsric02_analysis'' [0, 1, 2, 3, 4, 5, 6, 7, 8, 9, 10, 11] False,
     Gen cusparse ty_cusparseStatus_t ''cusparseCbsric02_analysis'' [ty_cusparseHandle_t, ty_cusparseDirection_t, ty_int, ty_int, Const ty_cusparseMatDescr_t, Ptr (Const ty_cuComplex), Ptr (Const ty_int), Ptr (Const ty_int), ty_int, ty_bsric02Info_t, ty_cusparseSolvePolicy_t, Ptr ty_void]
       ''cusparseCbsric02_analysis'' ty_cusparseStatus_t [ty_cusparseHandle_t, ty_cusparseDirection_t, ty_int, ty_int, Const ty_cusparseMatDescr_t, Ptr (Const ty_cuComplex), Ptr (Const ty_int), Ptr (Const ty_int), ty_int, ty_bsric02Info_t, ty_cusparseSolvePolicy_t, Ptr ty_void] ''cusparseCbsric02_analysis'' [0, 1, 2, 3, 4, 5, 6, 7, 8, 9, 10, 11] False,
     Gen cusparse ty_cusparseStatus_t ''cusparseZbsric02_analysis'' [ty_cusparseHandle_t, ty_cusparseDirection_t, ty_int, ty_int, Const ty_cusparseMatDescr_t, Ptr (Const ty_cuDoubleComplex), Ptr (Const ty_int), Ptr (Const ty_int), ty_int, ty_bsric02Info_t, ty_cusparseSolvePolicy_t, Ptr ty_void]
       ''cusparseZbsric02_analysis'' ty_cusparseStatus_t [ty_cusparseHandle_t, ty_cusparseDirection_t, ty_int, ty_int, Const ty_cusparseMatDescr_t, Ptr (Const ty_cuDoubleComplex), Ptr (Const ty_int), Ptr (Const ty_int), ty_int, ty_bsric02Info_t, ty_cusparseSolvePolicy_t, Ptr ty_void] ''cusparseZbsric02_analysis'' [0, 1, 2, 3, 4, 5, 6, 7, 8, 9, 10, 11] False,
     Gen cusparse ty_cusparseStatus_t ''cusparseSbsric02'' [ty_cusparseHandle_t, ty_cusparseDirection_t, ty_int, ty_int, Const ty_cusparseMatDescr_t, Ptr ty_float, Ptr (Const ty_int), Ptr (Const ty_int), ty_int, ty_bsric02Info_t, ty_cusparseSolvePolicy_t, Ptr ty_void]
       ''cusparseSbsric02'' ty_cusparseStatus_t [ty_cusparseHandle_t, ty_cusparseDirection_t, ty_int, ty_int, Const ty_cusparseMatDescr_t, Ptr ty_float, Ptr (Const ty_int), Ptr (Const ty_int), ty_int, ty_bsric02Info_t, ty_cusparseSolvePolicy_t, Ptr ty_void] ''cusparseSbsric02'' [0, 1, 2, 3, 4, 5, 6, 7, 8, 9, 10, 11] False]"

definition cusparse_hooks_20 :: "gen_hook list" where
  "cusparse_hooks_20 =
    [Gen cusparse ty_cusparseStatus_t ''cusparseDbsric02'' [ty_cusparseHandle_t, ty_cusparseDirection_t, ty_int, ty_int, Const ty_cusparseMatDescr_t, Ptr ty_double, Ptr (Const ty_int), Ptr (Const ty_int), ty_int, ty_bsric02Info_t, ty_cusparseSolvePolicy_t, Ptr ty_void]
       ''cusparseDbsric02'' ty_cusparseStatus_t [ty_cusparseHandle_t, ty_cusparseDirection_t, ty_int, ty_int, Const ty_cusparseMatDescr_t, Ptr ty_double, Ptr (Const ty_int), Ptr (Const ty_int), ty_int, ty_bsric02Info_t, ty_cusparseSolvePolicy_t, Ptr ty_void] ''cusparseDbsric02'' [0, 1, 2, 3, 4, 5, 6, 7, 8, 9, 10, 11] False,
     Gen cusparse ty_cusparseStatus_t ''cusparseCbsric02'' [ty_cusparseHandle_t, ty_cusparseDirection_t, ty_int, ty_int, Const ty_cusparseMatDescr_t, Ptr ty_cuComplex, Ptr (Const ty_int), Ptr (Const ty_int), ty_int, ty_bsric02Info_t, ty_cusparseSolvePolicy_t, Ptr ty_void]
       ''cusparseCbsric02'' ty_cusparseStatus_t [ty_cusparseHandle_t, ty_cusparseDirection_t, ty_int, ty_int, Const ty_cusparseMatDescr_t, Ptr ty_cuComplex, Ptr (Const ty_int), Ptr (Const ty_int), ty_int, ty_bsric02Info_t, ty_cusparseSolvePolicy_t, Ptr ty_void] ''cusparseCbsric02'' [0, 1, 2, 3, 4, 5, 6, 7, 8, 9, 10, 11] False,
     Gen cusparse ty_cusparseStatus_t ''cusparseZbsric02'' [ty_cusparseHandle_t, ty_cusparseDirection_t, ty_int, ty_int, Const ty_cusparseMatDescr_t, Ptr ty_cuDoubleComplex, Ptr (Const ty_int), Ptr (Const ty_int), ty_int, ty_bsric02Info_t, ty_cusparseSolvePolicy_t, Ptr ty_void]
       ''cusparseZbsric02'' ty_cusparseStatus_t [ty_cusparseHandle_t, ty_cusparseDirection_t, ty_int, ty_int, Const ty_cusparseMatDescr_t, Ptr ty_cuDoubleComplex, Ptr (Const ty_int), Ptr (Const ty_int), ty_int, ty_bsric02Info_t, ty_cusparseSolvePolicy_t, Ptr ty_void] ''cusparseZbsric02'' [0, 1, 2, 3, 4, 5, 6, 7, 8, 9, 10, 11] False,
     Gen cusparse ty_cusparseStatus_t ''cusparseSgtsv2_bufferSizeExt'' [ty_cusparseHandle_t, ty_int, ty_int, Ptr (Const ty_float), Ptr (Const ty_float), Ptr (Const ty_float), Ptr (Const ty_float), ty_int, Ptr ty_size_t]
       ''cusparseSgtsv2_bufferSizeExt'' ty_cusparseStatus_t [ty_cusparseHandle_t, ty_int, ty_int, Ptr (Const ty_float), Ptr (Const ty_float), Ptr (Const ty_float), Ptr (Const ty_float), ty_int, Ptr ty_size_t] ''cusparseSgtsv2_bufferSizeExt'' [0, 1, 2, 3, 4, 5, 6, 7, 8] False,
     Gen cusparse ty_cusparseStatus_t ''cusparseDgtsv2_bufferSizeExt'' [ty_cusparseHandle_t, ty_int, ty_int, Ptr (Const ty_double), Ptr (Const ty_double), Ptr (Const ty_double), Ptr (Const ty_double), ty_int, Ptr ty_size_t]
       ''cusparseDgtsv2_bufferSizeExt'' ty_cusparseStatus_t [ty_cusparseHandle_t, ty_int, ty_int, Ptr (Const ty_double), Ptr (Const ty_double), Ptr (Const ty_double), Ptr (Const ty_double), ty_int, Ptr ty_size_t] ''cusparseDgtsv2_bufferSizeExt'' [0, 1, 2, 3, 4, 5, 6, 7, 8] False,
     Gen cusparse ty_cusparseStatus_t ''cusparseCgtsv2_bufferSizeExt'' [ty_cusparseHandle_t, ty_int, ty_int, Ptr (Const ty_cuComplex), Ptr (Const ty_cuComplex), Ptr (Const ty_cuComplex), Ptr (Const ty_cuComplex), ty_int, Ptr ty_size_t]
       ''cusparseCgtsv2_bufferSizeExt'' ty_cusparseStatus_t [ty_cusparseHandle_t, ty_int, ty_int, Ptr (Const ty_cuComplex), Ptr (Const ty_cuComplex), Ptr (Const ty_cuComplex), Ptr (Const ty_cuComplex), ty_int, Ptr ty_size_t] ''cusparseCgtsv2_bufferSizeExt'' [0, 1, 2, 3, 4, 5, 6, 7, 8] False,
     Gen cusparse ty_cusparseStatus_t ''cusparseZgtsv2_bufferSizeExt'' [ty_cusparseHandle_t, ty_int, ty_int, Ptr (Const ty_cuDoubleComplex), Ptr (Const ty_cuDoubleComplex), Ptr (Const ty_cuDoubleComplex), Ptr (Const ty_cuDoubleComplex), ty_int, Ptr ty_size_t]
       ''cusparseZgtsv2_bufferSizeExt'' ty_cusparseStatus_t [ty_cusparseHandle_t, ty_int, ty_int, Ptr (Const ty_cuDoubleComplex), Ptr (Const ty_cuDoubleComplex), Ptr (Const ty_cuDoubleComplex), Ptr (Const ty_cuDoubleComplex), ty_int, Ptr ty_size_t] ''cusparseZgtsv2_bufferSizeExt'' [0, 1, 2, 3, 4, 5, 6, 7, 8] False,
     Gen cusparse ty_cusparseStatus_t ''cusparseSgtsv2'' [ty_cusparseHandle_t, ty_int, ty_int, Ptr (Const ty_float), Ptr (Const ty_float), Ptr (Const ty_float), Ptr ty_float, ty_int, Ptr ty_void]
       ''cusparseSgtsv2'' ty_cusparseStatus_t [ty_cusparseHandle_t, ty_int, ty_int, Ptr (Const ty_float), Ptr (Const ty_float), Ptr (Const ty_float), Ptr ty_float, ty_int, Ptr ty_void] ''cusparseSgtsv2'' [0, 1, 2, 3, 4, 5, 6, 7, 8] False,
     Gen cusparse ty_cusparseStatus_t ''cusparseDgtsv2'' [ty_cusparseHandle_t, ty_int, ty_int, Ptr (Const ty_double), Ptr (Const ty_double), Ptr (Const ty_double), Ptr ty_double, ty_int, Ptr ty_void]
       ''cusparseDgtsv2'' ty_cusparseStatus_t [ty_cusparseHandle_t, ty_int, ty_int, Ptr (Const ty_double), Ptr (Const ty_double), Ptr (Const ty_double), Ptr ty_double, ty_int, Ptr ty_void] ''cusparseDgtsv2'' [0, 1, 2, 3, 4, 5, 6, 7, 8] False,
     Gen cusparse ty_cusparseStatus_t ''cusparseCgtsv2'' [ty_cusparseHandle_t, ty_int, ty_int, Ptr (Const ty_cuComplex), Ptr (Const ty_cuComplex), Ptr (Const ty_cuComplex), Ptr ty_cuComplex, ty_int, Ptr ty_void]
       ''cusparseCgtsv2'' ty_cusparseStatus_t [ty_cusparseHandle_t, ty_int, ty_int, Ptr (Const ty_cuComplex), Ptr (Const ty_cuComplex), Ptr (Const ty_cuComplex), Ptr ty_cuComplex, ty_int, Ptr ty_void] ''cusparseCgtsv2'' [0, 1, 2, 3, 4, 5, 6, 7, 8] False,
     Gen cusparse ty_cusparseStatus_t ''cusparseZgtsv2'' [ty_cusparseHandle_t, ty_int, ty_int, Ptr (Const ty_cuDoubleComplex), Ptr (Const ty_cuDoubleComplex), Ptr (Const ty_cuDoubleComplex), Ptr ty_cuDoubleComplex, ty_int, Ptr ty_void]
       ''cusparseZgtsv2'' ty_cusparseStatus_t [ty_cusparseHandle_t, ty_int, ty_int, Ptr (Const ty_cuDoubleComplex), Ptr (Const ty_cuDoubleComplex), Ptr (Const ty_cuDoubleComplex), Ptr ty_cuDoubleComplex, ty_int, Ptr ty_void] ''cusparseZgtsv2'' [0, 1, 2, 3, 4, 5, 6, 7, 8] False]"

definition cusparse_hooks_21 :: "gen_hook list" where
  "cusparse_hooks_21 =
    [Gen cusparse ty_cusparseStatus_t ''cusparseSgtsv2_nopivot_bufferSizeExt'' [ty_cusparseHandle_t, ty_int, ty_int, Ptr (Const ty_float), Ptr (Const ty_float), Ptr (Const ty_float), Ptr (Const ty_float), ty_int, Ptr ty_size_t]
       ''cusparseSgtsv2_nopivot_bufferSizeExt'' ty_cusparseStatus_t [ty_cusparseHandle_t, ty_int, ty_int, Ptr (Const ty_float), Ptr (Const ty_float), Ptr (Const ty_float), Ptr (Const ty_float), ty_int, Ptr ty_size_t] ''cusparseSgtsv2_nopivot_bufferSizeExt'' [0, 1, 2, 3, 4, 5, 6, 7, 8] False,
     Gen cusparse ty_cusparseStatus_t ''cusparseDgtsv2_nopivot_bufferSizeExt'' [ty_cusparseHandle_t, ty_int, ty_int, Ptr (Const ty_double), Ptr (Const ty_double), Ptr (Const ty_double), Ptr (Const ty_double), ty_int, Ptr ty_size_t]
       ''cusparseDgtsv2_nopivot_bufferSizeExt'' ty_cusparseStatus_t [ty_cusparseHandle_t, ty_int, ty_int, Ptr (Const ty_double), Ptr (Const ty_double), Ptr (Const ty_double), Ptr (Const ty_double), ty_int, Ptr ty_size_t] ''cusparseDgtsv2_nopivot_bufferSizeExt'' [0, 1, 2, 3, 4, 5, 6, 7, 8] False,
     Gen cusparse ty_cusparseStatus_t ''cusparseCgtsv2_nopivot_bufferSizeExt'' [ty_cusparseHandle_t, ty_int, ty_int, Ptr (Const ty_cuComplex), Ptr (Const ty_cuComplex), Ptr (Const ty_cuComplex), Ptr (Const ty_cuComplex), ty_int, Ptr ty_size_t]
       ''cusparseCgtsv2_nopivot_bufferSizeExt'' ty_cusparseStatus_t [ty_cusparseHandle_t, ty_int, ty_int, Ptr (Const ty_cuComplex), Ptr (Const ty_cuComplex), Ptr (Const ty_cuComplex), Ptr (Const ty_cuComplex), ty_int, Ptr ty_size_t] ''cusparseCgtsv2_nopivot_bufferSizeExt'' [0, 1, 2, 3, 4, 5, 6, 7, 8] False,
     Gen cusparse ty_cusparseStatus_t ''cusparseZgtsv2_nopivot_bufferSizeExt'' [ty_cusparseHandle_t, ty_int, ty_int, Ptr (Const ty_cuDoubleComplex), Ptr (Const ty_cuDoubleComplex), Ptr (Const ty_cuDoubleComplex), Ptr (Const ty_cuDoubleComplex), ty_int, Ptr ty_size_t]
       ''cusparseZgtsv2_nopivot_bufferSizeExt'' ty_cusparseStatus_t [ty_cusparseHandle_t, ty_int, ty_int, Ptr (Const ty_cuDoubleComplex), Ptr (Const ty_cuDoubleComplex), Ptr (Const ty_cuDoubleComplex), Ptr (Const ty_cuDoubleComplex), ty_int, Ptr ty_size_t] ''cusparseZgtsv2_nopivot_bufferSizeExt'' [0, 1, 2, 3, 4, 5, 6, 7, 8] False,
     Gen cusparse ty_cusparseStatus_t ''cusparseSgtsv2_nopivot'' [ty_cusparseHandle_t, ty_int, ty_int, Ptr (Const ty_float), Ptr (Const ty_float), Ptr (Const ty_float), Ptr ty_float, ty_int, Ptr ty_void]
       ''cusparseSgtsv2_nopivot'' ty_cusparseStatus_t [ty_cusparseHandle_t, ty_int, ty_int, Ptr (Const ty_float), Ptr (Const ty_float), Ptr (Const ty_float), Ptr ty_float, ty_int, Ptr ty_void] ''cusparseSgtsv2_nopivot'' [0, 1, 2, 3, 4, 5, 6, 7, 8] False,
     Gen cusparse ty_cusparseStatus_t ''cusparseDgtsv2_nopivot'' [ty_cusparseHandle_t, ty_int, ty_int, Ptr (Const ty_double), Ptr (Const ty_double), Ptr (Const ty_double), Ptr ty_double, ty_int, Ptr ty_void]
       ''cusparseDgtsv2_nopivot'' ty_cusparseStatus_t [ty_cusparseHandle_t, ty_int, ty_int, Ptr (Const ty_double), Ptr (Const ty_double), Ptr (Const ty_double), Ptr ty_double, ty_int, Ptr ty_void] ''cusparseDgtsv2_nopivot'' [0, 1, 2, 3, 4, 5, 6, 7, 8] False,
     Gen cusparse ty_cusparseStatus_t ''cusparseCgtsv2_nopivot'' [ty_cusparseHandle_t, ty_int, ty_int, Ptr (Const ty_cuComplex), Ptr (Const ty_cuComplex), Ptr (Const ty_cuComplex), Ptr ty_cuComplex, ty_int, Ptr ty_void]
       ''cusparseCgtsv2_nopivot'' ty_cusparseStatus_t [ty_cusparseHandle_t, ty_int, ty_int, Ptr (Const ty_cuComplex), Ptr (Const ty_cuComplex), Ptr (Const ty_cuComplex), Ptr ty_cuComplex, ty_int, Ptr ty_void] ''cusparseCgtsv2_nopivot'' [0, 1, 2, 3, 4, 5, 6, 7, 8] False,
     Gen cusparse ty_cusparseStatus_t ''cusparseZgtsv2_nopivot'' [ty_cusparseHandle_t, ty_int, ty_int, Ptr (Const ty_cuDoubleComplex), Ptr (Const ty_cuDoubleComplex), Ptr (Const ty_cuDoubleComplex), Ptr ty_cuDoubleComplex, ty_int, Ptr ty_void]
       ''cusparseZgtsv2_nopivot'' ty_cusparseStatus_t [ty_cusparseHandle_t, ty_int, ty_int, Ptr (Const ty_cuDoubleComplex), Ptr (Const ty_cuDoubleComplex), Ptr (Const ty_cuDoubleComplex), Ptr ty_cuDoubleComplex, ty_int, Ptr ty_void] ''cusparseZgtsv2_nopivot'' [0, 1, 2, 3, 4, 5, 6, 7, 8] False,
     Gen cusparse ty_cusparseStatus_t ''cusparseSgtsv2StridedBatch_bufferSizeExt'' [ty_cusparseHandle_t, ty_int, Ptr (Const ty_float), Ptr (Const ty_float), Ptr (Const ty_float), Ptr (Const ty_float), ty_int, ty_int, Ptr ty_size_t]
       ''cusparseSgtsv2StridedBatch_bufferSizeExt'' ty_cusparseStatus_t [ty_cusparseHandle_t, ty_int, Ptr (Const ty_float), Ptr (Const ty_float), Ptr (Const ty_float), Ptr (Const ty_float), ty_int, ty_int, Ptr ty_size_t] ''cusparseSgtsv2StridedBatch_bufferSizeExt'' [0, 1, 2, 3, 4, 5, 6, 7, 8] False,
     Gen cusparse ty_cusparseStatus_t ''cusparseDgtsv2StridedBatch_bufferSizeExt'' [ty_cusparseHandle_t, ty_int, Ptr (Const ty_double), Ptr (Const ty_double), Ptr (Const ty_double), Ptr (Const ty_double), ty_int, ty_int, Ptr ty_size_t]
       ''cusparseDgtsv2StridedBatch_bufferSizeExt'' ty_cusparseStatus_t [ty_cusparseHandle_t, ty_int, Ptr (Const ty_double), Ptr (Const ty_double), Ptr (Const ty_double), Ptr (Const ty_double), ty_int, ty_int, Ptr ty_size_t] ''cusparseDgtsv2StridedBatch_bufferSizeExt'' [0, 1, 2, 3, 4, 5, 6, 7, 8] False,
     Gen cusparse ty_cusparseStatus_t ''cusparseCgtsv2StridedBatch_bufferSizeExt'' [ty_cusparseHandle_t, ty_int, Ptr (Const ty_cuComplex), Ptr (Const ty_cuComplex), Ptr (Const ty_cuComplex), Ptr (Const ty_cuComplex), ty_int, ty_int, Ptr ty_size_t]
       ''cusparseCgtsv2StridedBatch_bufferSizeExt'' ty_cusparseStatus_t [ty_cusparseHandle_t, ty_int, Ptr (Const ty_cuComplex), Ptr (Const ty_cuComplex), Ptr (Const ty_cuComplex), Ptr (Const ty_cuComplex), ty_int, ty_int, Ptr ty_size_t] ''cusparseCgtsv2StridedBatch_bufferSizeExt'' [0, 1, 2, 3, 4, 5, 6, 7, 8] False,
     Gen cusparse ty_cusparseStatus_t ''cusparseZgtsv2StridedBatch_bufferSizeExt'' [ty_cusparseHandle_t, ty_int, Ptr (Const ty_cuDoubleComplex), Ptr (Const ty_cuDoubleComplex), Ptr (Const ty_cuDoubleComplex), Ptr (Const ty_cuDoubleComplex), ty_int, ty_int, Ptr ty_size_t]
       ''cusparseZgtsv2StridedBatch_bufferSizeExt'' ty_cusparseStatus_t [ty_cusparseHandle_t, ty_int, Ptr (Const ty_cuDoubleComplex), Ptr (Const ty_cuDoubleComplex), Ptr (Const ty_cuDoubleComplex), Ptr (Const ty_cuDoubleComplex), ty_int, ty_int, Ptr ty_size_t] ''cusparseZgtsv2StridedBatch_bufferSizeExt'' [0, 1, 2, 3, 4, 5, 6, 7, 8] False]"

definition cusparse_hooks_22 :: "gen_hook list" where
  "cusparse_hooks_22 =
    [Gen cusparse ty_cusparseStatus_t ''cusparseSgtsv2StridedBatch'' [ty_cusparseHandle_t, ty_int, Ptr (Const ty_float), Ptr (Const ty_float), Ptr (Const ty_float), Ptr ty_float, ty_int, ty_int, Ptr ty_void]
       ''cusparseSgtsv2StridedBatch'' ty_cusparseStatus_t [ty_cusparseHandle_t, ty_int, Ptr (Const ty_float), Ptr (Const ty_float), Ptr (Const ty_float), Ptr ty_float, ty_int, ty_int, Ptr ty_void] ''cusparseSgtsv2StridedBatch'' [0, 1, 2, 3, 4, 5, 6, 7, 8] False,
     Gen cusparse ty_cusparseStatus_t ''cusparseDgtsv2StridedBatch'' [ty_cusparseHandle_t, ty_int, Ptr (Const ty_double), Ptr (Const ty_double), Ptr (Const ty_double), Ptr ty_double, ty_int, ty_int, Ptr ty_void]
       ''cusparseDgtsv2StridedBatch'' ty_cusparseStatus_t [ty_cusparseHandle_t, ty_int, Ptr (Const ty_double), Ptr (Const ty_double), Ptr (Const ty_double), Ptr ty_double, ty_int, ty_int, Ptr ty_void] ''cusparseDgtsv2StridedBatch'' [0, 1, 2, 3, 4, 5, 6, 7, 8] False,
     Gen cusparse ty_cusparseStatus_t ''cusparseCgtsv2StridedBatch'' [ty_cusparseHandle_t, ty_int, Ptr (Const ty_cuComplex), Ptr (Const ty_cuComplex), Ptr (Const ty_cuComplex), Ptr ty_cuComplex, ty_int, ty_int, Ptr ty_void]
       ''cusparseCgtsv2StridedBatch'' ty_cusparseStatus_t [ty_cusparseHandle_t, ty_int, Ptr (Const ty_cuComplex), Ptr (Const ty_cuComplex), Ptr (Const ty_cuComplex), Ptr ty_cuComplex, ty_int, ty_int, Ptr ty_void] ''cusparseCgtsv2StridedBatch'' [0, 1, 2, 3, 4, 5, 6, 7, 8] False,
     Gen cusparse ty_cusparseStatus_t ''cusparseZgtsv2StridedBatch'' [ty_cusparseHandle_t, ty_int, Ptr (Const ty_cuDoubleComplex), Ptr (Const ty_cuDoubleComplex), Ptr (Const ty_cuDoubleComplex), Ptr ty_cuDoubleComplex, ty_int, ty_int, Ptr ty_void]
       ''cusparseZgtsv2StridedBatch'' ty_cusparseStatus_t [ty_cusparseHandle_t, ty_int, Ptr (Const ty_cuDoubleComplex), Ptr (Const ty_cuDoubleComplex), Ptr (Const ty_cuDoubleComplex), Ptr ty_cuDoubleComplex, ty_int, ty_int, Ptr ty_void] ''cusparseZgtsv2StridedBatch'' [0, 1, 2, 3, 4, 5, 6, 7, 8] False,
     Gen cusparse ty_cusparseStatus_t ''cusparseSgtsvInterleavedBatch_bufferSizeExt'' [ty_cusparseHandle_t, ty_int, ty_int, Ptr (Const ty_float), Ptr (Const ty_float), Ptr (Const ty_float), Ptr (Const ty_float), ty_int, Ptr ty_size_t]
       ''cusparseSgtsvInterleavedBatch_bufferSizeExt'' ty_cusparseStatus_t [ty_cusparseHandle_t, ty_int, ty_int, Ptr (Const ty_float), Ptr (Const ty_float), Ptr (Const ty_float), Ptr (Const ty_float), ty_int, Ptr ty_size_t] ''cusparseSgtsvInterleavedBatch_bufferSizeExt'' [0, 1, 2, 3, 4, 5, 6, 7, 8] False,
     Gen cusparse ty_cusparseStatus_t ''cusparseDgtsvInterleavedBatch_bufferSizeExt'' [ty_cusparseHandle_t, ty_int, ty_int, Ptr (Const ty_double), Ptr (Const ty_double), Ptr (Const ty_double), Ptr (Const ty_double), ty_int, Ptr ty_size_t]
       ''cusparseDgtsvInterleavedBatch_bufferSizeExt'' ty_cusparseStatus_t [ty_cusparseHandle_t, ty_int, ty_int, Ptr (Const ty_double), Ptr (Const ty_double), Ptr (Const ty_double), Ptr (Const ty_double), ty_int, Ptr ty_size_t] ''cusparseDgtsvInterleavedBatch_bufferSizeExt'' [0, 1, 2, 3, 4, 5, 6, 7, 8] False,
     Gen cusparse ty_cusparseStatus_t ''cusparseCgtsvInterleavedBatch_bufferSizeExt'' [ty_cusparseHandle_t, ty_int, ty_int, Ptr (Const ty_cuComplex), Ptr (Const ty_cuComplex), Ptr (Const ty_cuComplex), Ptr (Const ty_cuComplex), ty_int, Ptr ty_size_t]
       ''cusparseCgtsvInterleavedBatch_bufferSizeExt'' ty_cusparseStatus_t [ty_cusparseHandle_t, ty_int, ty_int, Ptr (Const ty_cuComplex), Ptr (Const ty_cuComplex), Ptr (Const ty_cuComplex), Ptr (Const ty_cuComplex), ty_int, Ptr ty_size_t] ''cusparseCgtsvInterleavedBatch_bufferSizeExt'' [0, 1, 2, 3, 4, 5, 6, 7, 8] False,
     Gen cusparse ty_cusparseStatus_t ''cusparseZgtsvInterleavedBatch_bufferSizeExt'' [ty_cusparseHandle_t, ty_int, ty_int, Ptr (Const ty_cuDoubleComplex), Ptr (Const ty_cuDoubleComplex), Ptr (Const ty_cuDoubleComplex), Ptr (Const ty_cuDoubleComplex), ty_int, Ptr ty_size_t]
       ''cusparseZgtsvInterleavedBatch_bufferSizeExt'' ty_cusparseStatus_t [ty_cusparseHandle_t, ty_int, ty_int, Ptr (Const ty_cuDoubleComplex), Ptr (Const ty_cuDoubleComplex), Ptr (Const ty_cuDoubleComplex), Ptr (Const ty_cuDoubleComplex), ty_int, Ptr ty_size_t] ''cusparseZgtsvInterleavedBatch_bufferSizeExt'' [0, 1, 2, 3, 4, 5, 6, 7, 8] False,
     Gen cusparse ty_cusparseStatus_t ''cusparseSgtsvInterleavedBatch'' [ty_cusparseHandle_t, ty_int, ty_int, Ptr ty_float, Ptr ty_float, Ptr ty_float, Ptr ty_float, ty_int, Ptr ty_void]
       ''cusparseSgtsvInterleavedBatch'' ty_cusparseStatus_t [ty_cusparseHandle_t, ty_int, ty_int, Ptr ty_float, Ptr ty_float, Ptr ty_float, Ptr ty_float, ty_int, Ptr ty_void] ''cusparseSgtsvInterleavedBatch'' [0, 1, 2, 3, 4, 5, 6, 7, 8] False,
     Gen cusparse ty_cusparseStatus_t ''cusparseDgtsvInterleavedBatch'' [ty_cusparseHandle_t, ty_int, ty_int, Ptr ty_double, Ptr ty_double, Ptr ty_double, Ptr ty_double, ty_int, Ptr ty_void]
       ''cusparseDgtsvInterleavedBatch'' ty_cusparseStatus_t [ty_cusparseHandle_t, ty_int, ty_int, Ptr ty_double, Ptr ty_double, Ptr ty_double, Ptr ty_double, ty_int, Ptr ty_void] ''cusparseDgtsvInterleavedBatch'' [0, 1, 2, 3, 4, 5, 6, 7, 8] False,
     Gen cusparse ty_cusparseStatus_t ''cusparseCgtsvInterleavedBatch'' [ty_cusparseHandle_t, ty_int, ty_int, Ptr ty_cuComplex, Ptr ty_cuComplex, Ptr ty_cuComplex, Ptr ty_cuComplex, ty_int, Ptr ty_void]
       ''cusparseCgtsvInterleavedBatch'' ty_cusparseStatus_t [ty_cusparseHandle_t, ty_int, ty_int, Ptr ty_cuComplex, Ptr ty_cuComplex, Ptr ty_cuComplex, Ptr ty_cuComplex, ty_int, Ptr ty_void] ''cusparseCgtsvInterleavedBatch'' [0, 1, 2, 3, 4, 5, 6, 7, 8] False,
     Gen cusparse ty_cusparseStatus_t ''cusparseZgtsvInterleavedBatch'' [ty_cusparseHandle_t, ty_int, ty_int, Ptr ty_cuDoubleComplex, Ptr ty_cuDoubleComplex, Ptr ty_cuDoubleComplex, Ptr ty_cuDoubleComplex, ty_int, Ptr ty_void]
       ''cusparseZgtsvInterleavedBatch'' ty_cusparseStatus_t [ty_cusparseHandle_t, ty_int, ty_int, Ptr ty_cuDoubleComplex, Ptr ty_cuDoubleComplex, Ptr ty_cuDoubleComplex, Ptr ty_cuDoubleComplex, ty_int, Ptr ty_void] ''cusparseZgtsvInterleavedBatch'' [0, 1, 2, 3, 4, 5, 6, 7, 8] False]"

definition cusparse_hooks_23 :: "gen_hook list" where
  "cusparse_hooks_23 =
    [Gen cusparse ty_cusparseStatus_t ''cusparseSgpsvInterleavedBatch_bufferSizeExt'' [ty_cusparseHandle_t, ty_int, ty_int, Ptr (Const ty_float), Ptr (Const ty_float), Ptr (Const ty_float), Ptr (Const ty_float), Ptr (Const ty_float), Ptr (Const ty_float), ty_int, Ptr ty_size_t]
       ''cusparseSgpsvInterleavedBatch_bufferSizeExt'' ty_cusparseStatus_t [ty_cusparseHandle_t, ty_int, ty_int, Ptr (Const ty_float), Ptr (Const ty_float), Ptr (Const ty_float), Ptr (Const ty_float), Ptr (Const ty_float), Ptr (Const ty_float), ty_int, Ptr ty_size_t] ''cusparseSgpsvInterleavedBatch_bufferSizeExt'' [0, 1, 2, 3, 4, 5, 6, 7, 8, 9, 10] False,
     Gen cusparse ty_cusparseStatus_t ''cusparseDgpsvInterleavedBatch_bufferSizeExt'' [ty_cusparseHandle_t, ty_int, ty_int, Ptr (Const ty_double), Ptr (Const ty_double), Ptr (Const ty_double), Ptr (Const ty_double), Ptr (Const ty_double), Ptr (Const ty_double), ty_int, Ptr ty_size_t]
       ''cusparseDgpsvInterleavedBatch_bufferSizeExt'' ty_cusparseStatus_t [ty_cusparseHandle_t, ty_int, ty_int, Ptr (Const ty_double), Ptr (Const ty_double), Ptr (Const ty_double), Ptr (Const ty_double), Ptr (Const ty_double), Ptr (Const ty_double), ty_int, Ptr ty_size_t] ''cusparseDgpsvInterleavedBatch_bufferSizeExt'' [0, 1, 2, 3, 4, 5, 6, 7, 8, 9, 10] False,
     Gen cusparse ty_cusparseStatus_t ''cusparseCgpsvInterleavedBatch_bufferSizeExt'' [ty_cusparseHandle_t, ty_int, ty_int, Ptr (Const ty_cuComplex), Ptr (Const ty_cuComplex), Ptr (Const ty_cuComplex), Ptr (Const ty_cuComplex), Ptr (Const ty_cuComplex), Ptr (Const ty_cuComplex), ty_int, Ptr ty_size_t]
       ''cusparseCgpsvInterleavedBatch_bufferSizeExt'' ty_cusparseStatus_t [ty_cusparseHandle_t, ty_int, ty_int, Ptr (Const ty_cuComplex), Ptr (Const ty_cuComplex), Ptr (Const ty_cuComplex), Ptr (Const ty_cuComplex), Ptr (Const ty_cuComplex), Ptr (Const ty_cuComplex), ty_int, Ptr ty_size_t] ''cusparseCgpsvInterleavedBatch_bufferSizeExt'' [0, 1, 2, 3, 4, 5, 6, 7, 8, 9, 10] False,
     Gen cusparse ty_cusparseStatus_t ''cusparseZgpsvInterleavedBatch_bufferSizeExt'' [ty_cusparseHandle_t, ty_int, ty_int, Ptr (Const ty_cuDoubleComplex), Ptr (Const ty_cuDoubleComplex), Ptr (Const ty_cuDoubleComplex), Ptr (Const ty_cuDoubleComplex), Ptr (Const ty_cuDoubleComplex), Ptr (Const ty_cuDoubleComplex), ty_int, Ptr ty_size_t]
       ''cusparseZgpsvInterleavedBatch_bufferSizeExt'' ty_cusparseStatus_t [ty_cusparseHandle_t, ty_int, ty_int, Ptr (Const ty_cuDoubleComplex), Ptr (Const ty_cuDoubleComplex), Ptr (Const ty_cuDoubleComplex), Ptr (Const ty_cuDoubleComplex), Ptr (Const ty_cuDoubleComplex), Ptr (Const ty_cuDoubleComplex), ty_int, Ptr ty_size_t] ''cusparseZgpsvInterleavedBatch_bufferSizeExt'' [0, 1, 2, 3, 4, 5, 6, 7, 8, 9, 10] False,
     Gen cusparse ty_cusparseStatus_t ''cusparseSgpsvInterleavedBatch'' [ty_cusparseHandle_t, ty_int, ty_int, Ptr ty_float, Ptr ty_float, Ptr ty_float, Ptr ty_float, Ptr ty_float, Ptr ty_float, ty_int, Ptr ty_void]
       ''cusparseSgpsvInterleavedBatch'' ty_cusparseStatus_t [ty_cusparseHandle_t, ty_int, ty_int, Ptr ty_float, Ptr ty_float, Ptr ty_float, Ptr ty_float, Ptr ty_float, Ptr ty_float, ty_int, Ptr ty_void] ''cusparseSgpsvInterleavedBatch'' [0, 1, 2, 3, 4, 5, 6, 7, 8, 9, 10] False,
     Gen cusparse ty_cusparseStatus_t ''cusparseDgpsvInterleavedBatch'' [ty_cusparseHandle_t, ty_int, ty_int, Ptr ty_double, Ptr ty_double, Ptr ty_double, Ptr ty_double, Ptr ty_double, Ptr ty_double, ty_int, Ptr ty_void]
       ''cusparseDgpsvInterleavedBatch'' ty_cusparseStatus_t [ty_cusparseHandle_t, ty_int, ty_int, Ptr ty_double, Ptr ty_double, Ptr ty_double, Ptr ty_double, Ptr ty_double, Ptr ty_double, ty_int, Ptr ty_void] ''cusparseDgpsvInterleavedBatch'' [0, 1, 2, 3, 4, 5, 6, 7, 8, 9, 10] False,
     Gen cusparse ty_cusparseStatus_t ''cusparseCgpsvInterleavedBatch'' [ty_cusparseHandle_t, ty_int, ty_int, Ptr ty_cuComplex, Ptr ty_cuComplex, Ptr ty_cuComplex, Ptr ty_cuComplex, Ptr ty_cuComplex, Ptr ty_cuComplex, ty_int, Ptr ty_void]
       ''cusparseCgpsvInterleavedBatch'' ty_cusparseStatus_t [ty_cusparseHandle_t, ty_int, ty_int, Ptr ty_cuComplex, Ptr ty_cuComplex, Ptr ty_cuComplex, Ptr ty_cuComplex, Ptr ty_cuComplex, Ptr ty_cuComplex, ty_int, Ptr ty_void] ''cusparseCgpsvInterleavedBatch'' [0, 1, 2, 3, 4, 5, 6, 7, 8, 9, 10] False,
     Gen cusparse ty_cusparseStatus_t ''cusparseZgpsvInterleavedBatch'' [ty_cusparseHandle_t, ty_int, ty_int, Ptr ty_cuDoubleComplex, Ptr ty_cuDoubleComplex, Ptr ty_cuDoubleComplex, Ptr ty_cuDoubleComplex, Ptr ty_cuDoubleComplex, Ptr ty_cuDoubleComplex, ty_int, Ptr ty_void]
       ''cusparseZgpsvInterleavedBatch'' ty_cusparseStatus_t [ty_cusparseHandle_t, ty_int, ty_int, Ptr ty_cuDoubleComplex, Ptr ty_cuDoubleComplex, Ptr ty_cuDoubleComplex, Ptr ty_cuDoubleComplex, Ptr ty_cuDoubleComplex, Ptr ty_cuDoubleComplex, ty_int, Ptr ty_void] ''cusparseZgpsvInterleavedBatch'' [0, 1, 2, 3, 4, 5, 6, 7, 8, 9, 10] False,
     Gen cusparse ty_cusparseStatus_t ''cusparseCreateCsrgemm2Info'' [Ptr ty_csrgemm2Info_t]
       ''cusparseCreateCsrgemm2Info'' ty_cusparseStatus_t [Ptr ty_csrgemm2Info_t] ''cusparseCreateCsrgemm2Info'' [0] False,
     Gen cusparse ty_cusparseStatus_t ''cusparseDestroyCsrgemm2Info'' [ty_csrgemm2Info_t]
       ''cusparseDestroyCsrgemm2Info'' ty_cusparseStatus_t [ty_csrgemm2Info_t] ''cusparseDestroyCsrgemm2Info'' [0] False,
     Gen cusparse ty_cusparseStatus_t ''cusparseScsrgemm2_bufferSizeExt'' [ty_cusparseHandle_t, ty_int, ty_int, ty_int, Ptr (Const ty_float), Const ty_cusparseMatDescr_t, ty_int, Ptr (Const ty_int), Ptr (Const ty_int), Const ty_cusparseMatDescr_t, ty_int, Ptr (Const ty_int), Ptr (Const ty_int), Ptr (Const ty_float), Const ty_cusparseMatDescr_t, ty_int, Ptr (Const ty_int), Ptr (Const ty_int), ty_csrgemm2Info_t, Ptr ty_size_t]
       ''cusparseScsrgemm2_bufferSizeExt'' ty_cusparseStatus_t [ty_cusparseHandle_t, ty_int, ty_int, ty_int, Ptr (Const ty_float), Const ty_cusparseMatDescr_t, ty_int, Ptr (Const ty_int), Ptr (Const ty_int), Const ty_cusparseMatDescr_t, ty_int, Ptr (Const ty_int), Ptr (Const ty_int), Ptr (Const ty_float), Const ty_cusparseMatDescr_t, ty_int, Ptr (Const ty_int), Ptr (Const ty_int), ty_csrgemm2Info_t, Ptr ty_size_t] ''cusparseScsrgemm2_bufferSizeExt'' [0, 1, 2, 3, 4, 5, 6, 7, 8, 9, 10, 11, 12, 13, 14, 15, 16, 17, 18, 19] False]"

definition cusparse_hooks_24 :: "gen_hook list" where
  "cusparse_hooks_24 =
    [Gen cusparse ty_cusparseStatus_t ''cusparseDcsrgemm2_bufferSizeExt'' [ty_cusparseHandle_t, ty_int, ty_int, ty_int, Ptr (Const ty_double), Const ty_cusparseMatDescr_t, ty_int, Ptr (Const ty_int), Ptr (Const ty_int), Const ty_cusparseMatDescr_t, ty_int, Ptr (Const ty_int), Ptr (Const ty_int), Ptr (Const ty_double), Const ty_cusparseMatDescr_t, ty_int, Ptr (Const ty_int), Ptr (Const ty_int), ty_csrgemm2Info_t, Ptr ty_size_t]
       ''cusparseDcsrgemm2_bufferSizeExt'' ty_cusparseStatus_t [ty_cusparseHandle_t, ty_int, ty_int, ty_int, Ptr (Const ty_double), Const ty_cusparseMatDescr_t, ty_int, Ptr (Const ty_int), Ptr (Const ty_int), Const ty_cusparseMatDescr_t, ty_int, Ptr (Const ty_int), Ptr (Const ty_int), Ptr (Const ty_double), Const ty_cusparseMatDescr_t, ty_int, Ptr (Const ty_int), Ptr (Const ty_int), ty_csrgemm2Info_t, Ptr ty_size_t] ''cusparseDcsrgemm2_bufferSizeExt'' [0, 1, 2, 3, 4, 5, 6, 7, 8, 9, 10, 11, 12, 13, 14, 15, 16, 17, 18, 19] False,
     Gen cusparse ty_cusparseStatus_t ''cusparseCcsrgemm2_bufferSizeExt'' [ty_cusparseHandle_t, ty_int, ty_int, ty_int, Ptr (Const ty_cuComplex), Const ty_cusparseMatDescr_t, ty_int, Ptr (Const ty_int), Ptr (Const ty_int), Const ty_cusparseMatDescr_t, ty_int, Ptr (Const ty_int), Ptr (Const ty_int), Ptr (Const ty_cuComplex), Const ty_cusparseMatDescr_t, ty_int, Ptr (Const ty_int), Ptr (Const ty_int), ty_csrgemm2Info_t, Ptr ty_size_t]
       ''cusparseCcsrgemm2_bufferSizeExt'' ty_cusparseStatus_t [ty_cusparseHandle_t, ty_int, ty_int, ty_int, Ptr (Const ty_cuComplex), Const ty_cusparseMatDescr_t, ty_int, Ptr (Const ty_int), Ptr (Const ty_int), Const ty_cusparseMatDescr_t, ty_int, Ptr (Const ty_int), Ptr (Const ty_int), Ptr (Const ty_cuComplex), Const ty_cusparseMatDescr_t, ty_int, Ptr (Const ty_int), Ptr (Const ty_int), ty_csrgemm2Info_t, Ptr ty_size_t] ''cusparseCcsrgemm2_bufferSizeExt'' [0, 1, 2, 3, 4, 5, 6, 7, 8, 9, 10, 11, 12, 13, 14, 15, 16, 17, 18, 19] False,
     Gen cusparse ty_cusparseStatus_t ''cusparseZcsrgemm2_bufferSizeExt'' [ty_cusparseHandle_t, ty_int, ty_int, ty_int, Ptr (Const ty_cuDoubleComplex), Const ty_cusparseMatDescr_t, ty_int, Ptr (Const ty_int), Ptr (Const ty_int), Const ty_cusparseMatDescr_t, ty_int, Ptr (Const ty_int), Ptr (Const ty_int), Ptr (Const ty_cuDoubleComplex), Const ty_cusparseMatDescr_t, ty_int, Ptr (Const ty_int), Ptr (Const ty_int), ty_csrgemm2Info_t, Ptr ty_size_t]
       ''cusparseZcsrgemm2_bufferSizeExt'' ty_cusparseStatus_t [ty_cusparseHandle_t, ty_int, ty_int, ty_int, Ptr (Const ty_cuDoubleComplex), Const ty_cusparseMatDescr_t, ty_int, Ptr (Const ty_int), Ptr (Const ty_int), Const ty_cusparseMatDescr_t, ty_int, Ptr (Const ty_int), Ptr (Const ty_int), Ptr (Const ty_cuDoubleComplex), Const ty_cusparseMatDescr_t, ty_int, Ptr (Const ty_int), Ptr (Const ty_int), ty_csrgemm2Info_t, Ptr ty_size_t] ''cusparseZcsrgemm2_bufferSizeExt'' [0, 1, 2, 3, 4, 5, 6, 7, 8, 9, 10, 11, 12, 13, 14, 15, 16, 17, 18, 19] False,
     Gen cusparse ty_cusparseStatus_t ''cusparseXcsrgemm2Nnz'' [ty_cusparseHandle_t, ty_int, ty_int, ty_int, Const ty_cusparseMatDescr_t, ty_int, Ptr (Const ty_int), Ptr (Const ty_int), Const ty_cusparseMatDescr_t, ty_int, Ptr (Const ty_int), Ptr (Const ty_int), Const ty_cusparseMatDescr_t, ty_int, Ptr (Const ty_int), Ptr (Const ty_int), Const ty_cusparseMatDescr_t, Ptr ty_int, Ptr ty_int, Const ty_csrgemm2Info_t, Ptr ty_void]
       ''cusparseXcsrgemm2Nnz'' ty_cusparseStatus_t [ty_cusparseHandle_t, ty_int, ty_int, ty_int, Const ty_cusparseMatDescr_t, ty_int, Ptr (Const ty_int), Ptr (Const ty_int), Const ty_cusparseMatDescr_t, ty_int, Ptr (Const ty_int), Ptr (Const ty_int), Const ty_cusparseMatDescr_t, ty_int, Ptr (Const ty_int), Ptr (Const ty_int), Const ty_cusparseMatDescr_t, Ptr ty_int, Ptr ty_int, Const ty_csrgemm2Info_t, Ptr ty_void] ''cusparseXcsrgemm2Nnz'' [0, 1, 2, 3, 4, 5, 6, 7, 8, 9, 10, 11, 12, 13, 14, 15, 16, 17, 18, 19, 20] False,
     Gen cusparse ty_cusparseStatus_t ''cusparseScsrgemm2'' [ty_cusparseHandle_t, ty_int, ty_int, ty_int, Ptr (Const ty_float), Const ty_cusparseMatDescr_t, ty_int, Ptr (Const ty_float), Ptr (Const ty_int), Ptr (Const ty_int), Const ty_cusparseMatDescr_t, ty_int, Ptr (Const ty_float), Ptr (Const ty_int), Ptr (Const ty_int), Ptr (Const ty_float), Const ty_cusparseMatDescr_t, ty_int, Ptr (Const ty_float), Ptr (Const ty_int), Ptr (Const ty_int), Const ty_cusparseMatDescr_t, Ptr ty_float, Ptr (Const ty_int), Ptr ty_int, Const ty_csrgemm2Info_t, Ptr ty_void]
       ''cusparseScsrgemm2'' ty_cusparseStatus_t [ty_cusparseHandle_t, ty_int, ty_int, ty_int, Ptr (Const ty_float), Const ty_cusparseMatDescr_t, ty_int, Ptr (Const ty_float), Ptr (Const ty_int), Ptr (Const ty_int), Const ty_cusparseMatDescr_t, ty_int, Ptr (Const ty_float), Ptr (Const ty_int), Ptr (Const ty_int), Ptr (Const ty_float), Const ty_cusparseMatDescr_t, ty_int, Ptr (Const ty_float), Ptr (Const ty_int), Ptr (Const ty_int), Const ty_cusparseMatDescr_t, Ptr ty_float, Ptr (Const ty_int), Ptr ty_int, Const ty_csrgemm2Info_t, Ptr ty_void] ''cusparseScsrgemm2'' [0, 1, 2, 3, 4, 5, 6, 7, 8, 9, 10, 11, 12, 13, 14, 15, 16, 17, 18, 19, 20, 21, 22, 23, 24, 25, 26] False,
     Gen cusparse ty_cusparseStatus_t ''cusparseDcsrgemm2'' [ty_cusparseHandle_t, ty_int, ty_int, ty_int, Ptr (Const ty_double), Const ty_cusparseMatDescr_t, ty_int, Ptr (Const ty_double), Ptr (Const ty_int), Ptr (Const ty_int), Const ty_cusparseMatDescr_t, ty_int, Ptr (Const ty_double), Ptr (Const ty_int), Ptr (Const ty_int), Ptr (Const ty_double), Const ty_cusparseMatDescr_t, ty_int, Ptr (Const ty_double), Ptr (Const ty_int), Ptr (Const ty_int), Const ty_cusparseMatDescr_t, Ptr ty_double, Ptr (Const ty_int), Ptr ty_int, Const ty_csrgemm2Info_t, Ptr ty_void]
       ''cusparseDcsrgemm2'' ty_cusparseStatus_t [ty_cusparseHandle_t, ty_int, ty_int, ty_int, Ptr (Const ty_double), Const ty_cusparseMatDescr_t, ty_int, Ptr (Const ty_double), Ptr (Const ty_int), Ptr (Const ty_int), Const ty_cusparseMatDescr_t, ty_int, Ptr (Const ty_double), Ptr (Const ty_int), Ptr (Const ty_int), Ptr (Const ty_double), Const ty_cusparseMatDescr_t, ty_int, Ptr (Const ty_double), Ptr (Const ty_int), Ptr (Const ty_int), Const ty_cusparseMatDescr_t, Ptr ty_double, Ptr (Const ty_int), Ptr ty_int, Const ty_csrgemm2Info_t, Ptr ty_void] ''cusparseDcsrgemm2'' [0, 1, 2, 3, 4, 5, 6, 7, 8, 9, 10, 11, 12, 13, 14, 15, 16, 17, 18, 19, 20, 21, 22, 23, 24, 25, 26] False,
     Gen cusparse ty_cusparseStatus_t ''cusparseCcsrgemm2'' [ty_cusparseHandle_t, ty_int, ty_int, ty_int, Ptr (Const ty_cuComplex), Const ty_cusparseMatDescr_t, ty_int, Ptr (Const ty_cuComplex), Ptr (Const ty_int), Ptr (Const ty_int), Const ty_cusparseMatDescr_t, ty_int, Ptr (Const ty_cuComplex), Ptr (Const ty_int), Ptr (Const ty_int), Ptr (Const ty_cuComplex), Const ty_cusparseMatDescr_t, ty_int, Ptr (Const ty_cuComplex), Ptr (Const ty_int), Ptr (Const ty_int), Const ty_cusparseMatDescr_t, Ptr ty_cuComplex, Ptr (Const ty_int), Ptr ty_int, Const ty_csrgemm2Info_t, Ptr ty_void]
       ''cusparseCcsrgemm2'' ty_cusparseStatus_t [ty_cusparseHandle_t, ty_int, ty_int, ty_int, Ptr (Const ty_cuComplex), Const ty_cusparseMatDescr_t, ty_int, Ptr (Const ty_cuComplex), Ptr (Const ty_int), Ptr (Const ty_int), Const ty_cusparseMatDescr_t, ty_int, Ptr (Const ty_cuComplex), Ptr (Const ty_int), Ptr (Const ty_int), Ptr (Const ty_cuComplex), Const ty_cusparseMatDescr_t, ty_int, Ptr (Const ty_cuComplex), Ptr (Const ty_int), Ptr (Const ty_int), Const ty_cusparseMatDescr_t, Ptr ty_cuComplex, Ptr (Const ty_int), Ptr ty_int, Const ty_csrgemm2Info_t, Ptr ty_void] ''cusparseCcsrgemm2'' [0, 1, 2, 3, 4, 5, 6, 7, 8, 9, 10, 11, 12, 13, 14, 15, 16, 17, 18, 19, 20, 21, 22, 23, 24, 25, 26] False]"

definition cusparse_hooks_25 :: "gen_hook list" where
  "cusparse_hooks_25 =
    [Gen cusparse ty_cusparseStatus_t ''cusparseZcsrgemm2'' [ty_cusparseHandle_t, ty_int, ty_int, ty_int, Ptr (Const ty_cuDoubleComplex), Const ty_cusparseMatDescr_t, ty_int, Ptr (Const ty_cuDoubleComplex), Ptr (Const ty_int), Ptr (Const ty_int), Const ty_cusparseMatDescr_t, ty_int, Ptr (Const ty_cuDoubleComplex), Ptr (Const ty_int), Ptr (Const ty_int), Ptr (Const ty_cuDoubleComplex), Const ty_cusparseMatDescr_t, ty_int, Ptr (Const ty_cuDoubleComplex), Ptr (Const ty_int), Ptr (Const ty_int), Const ty_cusparseMatDescr_t, Ptr ty_cuDoubleComplex, Ptr (Const ty_int), Ptr ty_int, Const ty_csrgemm2Info_t, Ptr ty_void]
       ''cusparseZcsrgemm2'' ty_cusparseStatus_t [ty_cusparseHandle_t, ty_int, ty_int, ty_int, Ptr (Const ty_cuDoubleComplex), Const ty_cusparseMatDescr_t, ty_int, Ptr (Const ty_cuDoubleComplex), Ptr (Const ty_int), Ptr (Const ty_int), Const ty_cusparseMatDescr_t, ty_int, Ptr (Const ty_cuDoubleComplex), Ptr (Const ty_int), Ptr (Const ty_int), Ptr (Const ty_cuDoubleComplex), Const ty_cusparseMatDescr_t, ty_int, Ptr (Const ty_cuDoubleComplex), Ptr (Const ty_int), Ptr (Const ty_int), Const ty_cusparseMatDescr_t, Ptr ty_cuDoubleComplex, Ptr (Const ty_int), Ptr ty_int, Const ty_csrgemm2Info_t, Ptr ty_void] ''cusparseZcsrgemm2'' [0, 1, 2, 3, 4, 5, 6, 7, 8, 9, 10, 11, 12, 13, 14, 15, 16, 17, 18, 19, 20, 21, 22, 23, 24, 25, 26] False,
     Gen cusparse ty_cusparseStatus_t ''cusparseScsrgeam2_bufferSizeExt'' [ty_cusparseHandle_t, ty_int, ty_int, Ptr (Const ty_float), Const ty_cusparseMatDescr_t, ty_int, Ptr (Const ty_float), Ptr (Const ty_int), Ptr (Const ty_int), Ptr (Const ty_float), Const ty_cusparseMatDescr_t, ty_int, Ptr (Const ty_float), Ptr (Const ty_int), Ptr (Const ty_int), Const ty_cusparseMatDescr_t, Ptr (Const ty_float), Ptr (Const ty_int), Ptr (Const ty_int), Ptr ty_size_t]
       ''cusparseScsrgeam2_bufferSizeExt'' ty_cusparseStatus_t [ty_cusparseHandle_t, ty_int, ty_int, Ptr (Const ty_float), Const ty_cusparseMatDescr_t, ty_int, Ptr (Const ty_float), Ptr (Const ty_int), Ptr (Const ty_int), Ptr (Const ty_float), Const ty_cusparseMatDescr_t, ty_int, Ptr (Const ty_float), Ptr (Const ty_int), Ptr (Const ty_int), Const ty_cusparseMatDescr_t, Ptr (Const ty_float), Ptr (Const ty_int), Ptr (Const ty_int), Ptr ty_size_t] ''cusparseScsrgeam2_bufferSizeExt'' [0, 1, 2, 3, 4, 5, 6, 7, 8, 9, 10, 11, 12, 13, 14, 15, 16, 17, 18, 19] False,
     Gen cusparse ty_cusparseStatus_t ''cusparseDcsrgeam2_bufferSizeExt'' [ty_cusparseHandle_t, ty_int, ty_int, Ptr (Const ty_double), Const ty_cusparseMatDescr_t, ty_int, Ptr (Const ty_double), Ptr (Const ty_int), Ptr (Const ty_int), Ptr (Const ty_double), Const ty_cusparseMatDescr_t, ty_int, Ptr (Const ty_double), Ptr (Const ty_int), Ptr (Const ty_int), Const ty_cusparseMatDescr_t, Ptr (Const ty_double), Ptr (Const ty_int), Ptr (Const ty_int), Ptr ty_size_t]
       ''cusparseDcsrgeam2_bufferSizeExt'' ty_cusparseStatus_t [ty_cusparseHandle_t, ty_int, ty_int, Ptr (Const ty_double), Const ty_cusparseMatDescr_t, ty_int, Ptr (Const ty_double), Ptr (Const ty_int), Ptr (Const ty_int), Ptr (Const ty_double), Const ty_cusparseMatDescr_t, ty_int, Ptr (Const ty_double), Ptr (Const ty_int), Ptr (Const ty_int), Const ty_cusparseMatDescr_t, Ptr (Const ty_double), Ptr (Const ty_int), Ptr (Const ty_int), Ptr ty_size_t] ''cusparseDcsrgeam2_bufferSizeExt'' [0, 1, 2, 3, 4, 5, 6, 7, 8, 9, 10, 11, 12, 13, 14, 15, 16, 17, 18, 19] False,
     Gen cusparse ty_cusparseStatus_t ''cusparseCcsrgeam2_bufferSizeExt'' [ty_cusparseHandle_t, ty_int, ty_int, Ptr (Const ty_cuComplex), Const ty_cusparseMatDescr_t, ty_int, Ptr (Const ty_cuComplex), Ptr (Const ty_int), Ptr (Const ty_int), Ptr (Const ty_cuComplex), Const ty_cusparseMatDescr_t, ty_int, Ptr (Const ty_cuComplex), Ptr (Const ty_int), Ptr (Const ty_int), Const ty_cusparseMatDescr_t, Ptr (Const ty_cuComplex), Ptr (Const ty_int), Ptr (Const ty_int), Ptr ty_size_t]
       ''cusparseCcsrgeam2_bufferSizeExt'' ty_cusparseStatus_t [ty_cusparseHandle_t, ty_int, ty_int, Ptr (Const ty_cuComplex), Const ty_cusparseMatDescr_t, ty_int, Ptr (Const ty_cuComplex), Ptr (Const ty_int), Ptr (Const ty_int), Ptr (Const ty_cuComplex), Const ty_cusparseMatDescr_t, ty_int, Ptr (Const ty_cuComplex), Ptr (Const ty_int), Ptr (Const ty_int), Const ty_cusparseMatDescr_t, Ptr (Const ty_cuComplex), Ptr (Const ty_int), Ptr (Const ty_int), Ptr ty_size_t] ''cusparseCcsrgeam2_bufferSizeExt'' [0, 1, 2, 3, 4, 5, 6, 7, 8, 9, 10, 11, 12, 13, 14, 15, 16, 17, 18, 19] False,
     Gen cusparse ty_cusparseStatus_t ''cusparseZcsrgeam2_bufferSizeExt'' [ty_cusparseHandle_t, ty_int, ty_int, Ptr (Const ty_cuDoubleComplex), Const ty_cusparseMatDescr_t, ty_int, Ptr (Const ty_cuDoubleComplex), Ptr (Const ty_int), Ptr (Const ty_int), Ptr (Const ty_cuDoubleComplex), Const ty_cusparseMatDescr_t, ty_int, Ptr (Const ty_cuDoubleComplex), Ptr (Const ty_int), Ptr (Const ty_int), Const ty_cusparseMatDescr_t, Ptr (Const ty_cuDoubleComplex), Ptr (Const ty_int), Ptr (Const ty_int), Ptr ty_size_t]
       ''cusparseZcsrgeam2_bufferSizeExt'' ty_cusparseStatus_t [ty_cusparseHandle_t, ty_int, ty_int, Ptr (Const ty_cuDoubleComplex), Const ty_cusparseMatDescr_t, ty_int, Ptr (Const ty_cuDoubleComplex), Ptr (Const ty_int), Ptr (Const ty_int), Ptr (Const ty_cuDoubleComplex), Const ty_cusparseMatDescr_t, ty_int, Ptr (Const ty_cuDoubleComplex), Ptr (Const ty_int), Ptr (Const ty_int), Const ty_cusparseMatDescr_t, Ptr (Const ty_cuDoubleComplex), Ptr (Const ty_int), Ptr (Const ty_int), Ptr ty_size_t] ''cusparseZcsrgeam2_bufferSizeExt'' [0, 1, 2, 3, 4, 5, 6, 7, 8, 9, 10, 11, 12, 13, 14, 15, 16, 17, 18, 19] False,
     Gen cusparse ty_cusparseStatus_t ''cusparseXcsrgeam2Nnz'' [ty_cusparseHandle_t, ty_int, ty_int, Const ty_cusparseMatDescr_t, ty_int, Ptr (Const ty_int), Ptr (Const ty_int), Const ty_cusparseMatDescr_t, ty_int, Ptr (Const ty_int), Ptr (Const ty_int), Const ty_cusparseMatDescr_t, Ptr ty_int, Ptr ty_int, Ptr ty_void]
       ''cusparseXcsrgeam2Nnz'' ty_cusparseStatus_t [ty_cusparseHandle_t, ty_int, ty_int, Const ty_cusparseMatDescr_t, ty_int, Ptr (Const ty_int), Ptr (Const ty_int), Const ty_cusparseMatDescr_t, ty_int, Ptr (Const ty_int), Ptr (Const ty_int), Const ty_cusparseMatDescr_t, Ptr ty_int, Ptr ty_int, Ptr ty_void] ''cusparseXcsrgeam2Nnz'' [0, 1, 2, 3, 4, 5, 6, 7, 8, 9, 10, 11, 12, 13, 14] False,
     Gen cusparse ty_cusparseStatus_t ''cusparseScsrgeam2'' [ty_cusparseHandle_t, ty_int, ty_int, Ptr (Const ty_float), Const ty_cusparseMatDescr_t, ty_int, Ptr (Const ty_float), Ptr (Const ty_int), Ptr (Const ty_int), Ptr (Const ty_float), Const ty_cusparseMatDescr_t, ty_int, Ptr (Const ty_float), Ptr (Const ty_int), Ptr (Const ty_int), Const ty_cusparseMatDescr_t, Ptr ty_float, Ptr ty_int, Ptr ty_int, Ptr ty_void]
       ''cusparseScsrgeam2'' ty_cusparseStatus_t [ty_cusparseHandle_t, ty_int, ty_int, Ptr (Const ty_float), Const ty_cusparseMatDescr_t, ty_int, Ptr (Const ty_float), Ptr (Const ty_int), Ptr (Const ty_int), Ptr (Const ty_float), Const ty_cusparseMatDescr_t, ty_int, Ptr (Const ty_float), Ptr (Const ty_int), Ptr (Const ty_int), Const ty_cusparseMatDescr_t, Ptr ty_float, Ptr ty_int, Ptr ty_int, Ptr ty_void] ''cusparseScsrgeam2'' [0, 1, 2, 3, 4, 5, 6, 7, 8, 9, 10, 11, 12, 13, 14, 15, 16, 17, 18, 19] False,
     Gen cusparse ty_cusparseStatus_t ''cusparseDcsrgeam2'' [ty_cusparseHandle_t, ty_int, ty_int, Ptr (Const ty_double), Const ty_cusparseMatDescr_t, ty_int, Ptr (Const ty_double), Ptr (Const ty_int), Ptr (Const ty_int), Ptr (Const ty_double), Const ty_cusparseMatDescr_t, ty_int, Ptr (Const ty_double), Ptr (Const ty_int), Ptr (Const ty_int), Const ty_cusparseMatDescr_t, Ptr ty_double, Ptr ty_int, Ptr ty_int, Ptr ty_void]
       ''cusparseDcsrgeam2'' ty_cusparseStatus_t [ty_cusparseHandle_t, ty_int, ty_int, Ptr (Const ty_double), Const ty_cusparseMatDescr_t, ty_int, Ptr (Const ty_double), Ptr (Const ty_int), Ptr (Const ty_int), Ptr (Const ty_double), Const ty_cusparseMatDescr_t, ty_int, Ptr (Const ty_double), Ptr (Const ty_int), Ptr (Const ty_int), Const ty_cusparseMatDescr_t, Ptr ty_double, Ptr ty_int, Ptr ty_int, Ptr ty_void] ''cusparseDcsrgeam2'' [0, 1, 2, 3, 4, 5, 6, 7, 8, 9, 10, 11, 12, 13, 14, 15, 16, 17, 18, 19] False]"

definition cusparse_hooks_26 :: "gen_hook list" where
  "cusparse_hooks_26 =
    [Gen cusparse ty_cusparseStatus_t ''cusparseCcsrgeam2'' [ty_cusparseHandle_t, ty_int, ty_int, Ptr (Const ty_cuComplex), Const ty_cusparseMatDescr_t, ty_int, Ptr (Const ty_cuComplex), Ptr (Const ty_int), Ptr (Const ty_int), Ptr (Const ty_cuComplex), Const ty_cusparseMatDescr_t, ty_int, Ptr (Const ty_cuComplex), Ptr (Const ty_int), Ptr (Const ty_int), Const ty_cusparseMatDescr_t, Ptr ty_cuComplex, Ptr ty_int, Ptr ty_int, Ptr ty_void]
       ''cusparseCcsrgeam2'' ty_cusparseStatus_t [ty_cusparseHandle_t, ty_int, ty_int, Ptr (Const ty_cuComplex), Const ty_cusparseMatDescr_t, ty_int, Ptr (Const ty_cuComplex), Ptr (Const ty_int), Ptr (Const ty_int), Ptr (Const ty_cuComplex), Const ty_cusparseMatDescr_t, ty_int, Ptr (Const ty_cuComplex), Ptr (Const ty_int), Ptr (Const ty_int), Const ty_cusparseMatDescr_t, Ptr ty_cuComplex, Ptr ty_int, Ptr ty_int, Ptr ty_void] ''cusparseCcsrgeam2'' [0, 1, 2, 3, 4, 5, 6, 7, 8, 9, 10, 11, 12, 13, 14, 15, 16, 17, 18, 19] False,
     Gen cusparse ty_cusparseStatus_t ''cusparseZcsrgeam2'' [ty_cusparseHandle_t, ty_int, ty_int, Ptr (Const ty_cuDoubleComplex), Const ty_cusparseMatDescr_t, ty_int, Ptr (Const ty_cuDoubleComplex), Ptr (Const ty_int), Ptr (Const ty_int), Ptr (Const ty_cuDoubleComplex), Const ty_cusparseMatDescr_t, ty_int, Ptr (Const ty_cuDoubleComplex), Ptr (Const ty_int), Ptr (Const ty_int), Const ty_cusparseMatDescr_t, Ptr ty_cuDoubleComplex, Ptr ty_int, Ptr ty_int, Ptr ty_void]
       ''cusparseZcsrgeam2'' ty_cusparseStatus_t [ty_cusparseHandle_t, ty_int, ty_int, Ptr (Const ty_cuDoubleComplex), Const ty_cusparseMatDescr_t, ty_int, Ptr (Const ty_cuDoubleComplex), Ptr (Const ty_int), Ptr (Const ty_int), Ptr (Const ty_cuDoubleComplex), Const ty_cusparseMatDescr_t, ty_int, Ptr (Const ty_cuDoubleComplex), Ptr (Const ty_int), Ptr (Const ty_int), Const ty_cusparseMatDescr_t, Ptr ty_cuDoubleComplex, Ptr ty_int, Ptr ty_int, Ptr ty_void] ''cusparseZcsrgeam2'' [0, 1, 2, 3, 4, 5, 6, 7, 8, 9, 10, 11, 12, 13, 14, 15, 16, 17, 18, 19] False,
     Gen cusparse ty_cusparseStatus_t ''cusparseScsrcolor'' [ty_cusparseHandle_t, ty_int, ty_int, Const ty_cusparseMatDescr_t, Ptr (Const ty_float), Ptr (Const ty_int), Ptr (Const ty_int), Ptr (Const ty_float), Ptr ty_int, Ptr ty_int, Ptr ty_int, Const ty_cusparseColorInfo_t]
       ''cusparseScsrcolor'' ty_cusparseStatus_t [ty_cusparseHandle_t, ty_int, ty_int, Const ty_cusparseMatDescr_t, Ptr (Const ty_float), Ptr (Const ty_int), Ptr (Const ty_int), Ptr (Const ty_float), Ptr ty_int, Ptr ty_int, Ptr ty_int, Const ty_cusparseColorInfo_t] ''cusparseScsrcolor'' [0, 1, 2, 3, 4, 5, 6, 7, 8, 9, 10, 11] False,
     Gen cusparse ty_cusparseStatus_t ''cusparseDcsrcolor'' [ty_cusparseHandle_t, ty_int, ty_int, Const ty_cusparseMatDescr_t, Ptr (Const ty_double), Ptr (Const ty_int), Ptr (Const ty_int), Ptr (Const ty_double), Ptr ty_int, Ptr ty_int, Ptr ty_int, Const ty_cusparseColorInfo_t]
       ''cusparseDcsrcolor'' ty_cusparseStatus_t [ty_cusparseHandle_t, ty_int, ty_int, Const ty_cusparseMatDescr_t, Ptr (Const ty_double), Ptr (Const ty_int), Ptr (Const ty_int), Ptr (Const ty_double), Ptr ty_int, Ptr ty_int, Ptr ty_int, Const ty_cusparseColorInfo_t] ''cusparseDcsrcolor'' [0, 1, 2, 3, 4, 5, 6, 7, 8, 9, 10, 11] False,
     Gen cusparse ty_cusparseStatus_t ''cusparseCcsrcolor'' [ty_cusparseHandle_t, ty_int, ty_int, Const ty_cusparseMatDescr_t, Ptr (Const ty_cuComplex), Ptr (Const ty_int), Ptr (Const ty_int), Ptr (Const ty_float), Ptr ty_int, Ptr ty_int, Ptr ty_int, Const ty_cusparseColorInfo_t]
       ''cusparseCcsrcolor'' ty_cusparseStatus_t [ty_cusparseHandle_t, ty_int, ty_int, Const ty_cusparseMatDescr_t, Ptr (Const ty_cuComplex), Ptr (Const ty_int), Ptr (Const ty_int), Ptr (Const ty_float), Ptr ty_int, Ptr ty_int, Ptr ty_int, Const ty_cusparseColorInfo_t] ''cusparseCcsrcolor'' [0, 1, 2, 3, 4, 5, 6, 7, 8, 9, 10, 11] False,
     Gen cusparse ty_cusparseStatus_t ''cusparseZcsrcolor'' [ty_cusparseHandle_t, ty_int, ty_int, Const ty_cusparseMatDescr_t, Ptr (Const ty_cuDoubleComplex), Ptr (Const ty_int), Ptr (Const ty_int), Ptr (Const ty_double), Ptr ty_int, Ptr ty_int, Ptr ty_int, Const ty_cusparseColorInfo_t]
       ''cusparseZcsrcolor'' ty_cusparseStatus_t [ty_cusparseHandle_t, ty_int, ty_int, Const ty_cusparseMatDescr_t, Ptr (Const ty_cuDoubleComplex), Ptr (Const ty_int), Ptr (Const ty_int), Ptr (Const ty_double), Ptr ty_int, Ptr ty_int, Ptr ty_int, Const ty_cusparseColorInfo_t] ''cusparseZcsrcolor'' [0, 1, 2, 3, 4, 5, 6, 7, 8, 9, 10, 11] False,
     Gen cusparse ty_cusparseStatus_t ''cusparseSnnz'' [ty_cusparseHandle_t, ty_cusparseDirection_t, ty_int, ty_int, Const ty_cusparseMatDescr_t, Ptr (Const ty_float), ty_int, Ptr ty_int, Ptr ty_int]
       ''cusparseSnnz'' ty_cusparseStatus_t [ty_cusparseHandle_t, ty_cusparseDirection_t, ty_int, ty_int, Const ty_cusparseMatDescr_t, Ptr (Const ty_float), ty_int, Ptr ty_int, Ptr ty_int] ''cusparseSnnz'' [0, 1, 2, 3, 4, 5, 6, 7, 8] False,
     Gen cusparse ty_cusparseStatus_t ''cusparseDnnz'' [ty_cusparseHandle_t, ty_cusparseDirection_t, ty_int, ty_int, Const ty_cusparseMatDescr_t, Ptr (Const ty_double), ty_int, Ptr ty_int, Ptr ty_int]
       ''cusparseDnnz'' ty_cusparseStatus_t [ty_cusparseHandle_t, ty_cusparseDirection_t, ty_int, ty_int, Const ty_cusparseMatDescr_t, Ptr (Const ty_double), ty_int, Ptr ty_int, Ptr ty_int] ''cusparseDnnz'' [0, 1, 2, 3, 4, 5, 6, 7, 8] False,
     Gen cusparse ty_cusparseStatus_t ''cusparseCnnz'' [ty_cusparseHandle_t, ty_cusparseDirection_t, ty_int, ty_int, Const ty_cusparseMatDescr_t, Ptr (Const ty_cuComplex), ty_int, Ptr ty_int, Ptr ty_int]
       ''cusparseCnnz'' ty_cusparseStatus_t [ty_cusparseHandle_t, ty_cusparseDirection_t, ty_int, ty_int, Const ty_cusparseMatDescr_t, Ptr (Const ty_cuComplex), ty_int, Ptr ty_int, Ptr ty_int] ''cusparseCnnz'' [0, 1, 2, 3, 4, 5, 6, 7, 8] False,
     Gen cusparse ty_cusparseStatus_t ''cusparseZnnz'' [ty_cusparseHandle_t, ty_cusparseDirection_t, ty_int, ty_int, Const ty_cusparseMatDescr_t, Ptr (Const ty_cuDoubleComplex), ty_int, Ptr ty_int, Ptr ty_int]
       ''cusparseZnnz'' ty_cusparseStatus_t [ty_cusparseHandle_t, ty_cusparseDirection_t, ty_int, ty_int, Const ty_cusparseMatDescr_t, Ptr (Const ty_cuDoubleComplex), ty_int, Ptr ty_int, Ptr ty_int] ''cusparseZnnz'' [0, 1, 2, 3, 4, 5, 6, 7, 8] False,
     Gen cusparse ty_cusparseStatus_t ''cusparseSnnz_compress'' [ty_cusparseHandle_t, ty_int, Const ty_cusparseMatDescr_t, Ptr (Const ty_float), Ptr (Const ty_int), Ptr ty_int, Ptr ty_int, ty_float]
       ''cusparseSnnz_compress'' ty_cusparseStatus_t [ty_cusparseHandle_t, ty_int, Const ty_cusparseMatDescr_t, Ptr (Const ty_float), Ptr (Const ty_int), Ptr ty_int, Ptr ty_int, ty_float] ''cusparseSnnz_compress'' [0, 1, 2, 3, 4, 5, 6, 7] False]"

definition cusparse_hooks_27 :: "gen_hook list" where
  "cusparse_hooks_27 =
    [Gen cusparse ty_cusparseStatus_t ''cusparseDnnz_compress'' [ty_cusparseHandle_t, ty_int, Const ty_cusparseMatDescr_t, Ptr (Const ty_double), Ptr (Const ty_int), Ptr ty_int, Ptr ty_int, ty_double]
       ''cusparseDnnz_compress'' ty_cusparseStatus_t [ty_cusparseHandle_t, ty_int, Const ty_cusparseMatDescr_t, Ptr (Const ty_double), Ptr (Const ty_int), Ptr ty_int, Ptr ty_int, ty_double] ''cusparseDnnz_compress'' [0, 1, 2, 3, 4, 5, 6, 7] False,
     Gen cusparse ty_cusparseStatus_t ''cusparseCnnz_compress'' [ty_cusparseHandle_t, ty_int, Const ty_cusparseMatDescr_t, Ptr (Const ty_cuComplex), Ptr (Const ty_int), Ptr ty_int, Ptr ty_int, ty_cuComplex]
       ''cusparseCnnz_compress'' ty_cusparseStatus_t [ty_cusparseHandle_t, ty_int, Const ty_cusparseMatDescr_t, Ptr (Const ty_cuComplex), Ptr (Const ty_int), Ptr ty_int, Ptr ty_int, ty_cuComplex] ''cusparseCnnz_compress'' [0, 1, 2, 3, 4, 5, 6, 7] False,
     Gen cusparse ty_cusparseStatus_t ''cusparseZnnz_compress'' [ty_cusparseHandle_t, ty_int, Const ty_cusparseMatDescr_t, Ptr (Const ty_cuDoubleComplex), Ptr (Const ty_int), Ptr ty_int, Ptr ty_int, ty_cuDoubleComplex]
       ''cusparseZnnz_compress'' ty_cusparseStatus_t [ty_cusparseHandle_t, ty_int, Const ty_cusparseMatDescr_t, Ptr (Const ty_cuDoubleComplex), Ptr (Const ty_int), Ptr ty_int, Ptr ty_int, ty_cuDoubleComplex] ''cusparseZnnz_compress'' [0, 1, 2, 3, 4, 5, 6, 7] False,
     Gen cusparse ty_cusparseStatus_t ''cusparseScsr2csr_compress'' [ty_cusparseHandle_t, ty_int, ty_int, Const ty_cusparseMatDescr_t, Ptr (Const ty_float), Ptr (Const ty_int), Ptr (Const ty_int), ty_int, Ptr (Const ty_int), Ptr ty_float, Ptr ty_int, Ptr ty_int, ty_float]
       ''cusparseScsr2csr_compress'' ty_cusparseStatus_t [ty_cusparseHandle_t, ty_int, ty_int, Const ty_cusparseMatDescr_t, Ptr (Const ty_float), Ptr (Const ty_int), Ptr (Const ty_int), ty_int, Ptr (Const ty_int), Ptr ty_float, Ptr ty_int, Ptr ty_int, ty_float] ''cusparseScsr2csr_compress'' [0, 1, 2, 3, 4, 5, 6, 7, 8, 9, 10, 11, 12] False,
     Gen cusparse ty_cusparseStatus_t ''cusparseDcsr2csr_compress'' [ty_cusparseHandle_t, ty_int, ty_int, Const ty_cusparseMatDescr_t, Ptr (Const ty_double), Ptr (Const ty_int), Ptr (Const ty_int), ty_int, Ptr (Const ty_int), Ptr ty_double, Ptr ty_int, Ptr ty_int, ty_double]
       ''cusparseDcsr2csr_compress'' ty_cusparseStatus_t [ty_cusparseHandle_t, ty_int, ty_int, Const ty_cusparseMatDescr_t, Ptr (Const ty_double), Ptr (Const ty_int), Ptr (Const ty_int), ty_int, Ptr (Const ty_int), Ptr ty_double, Ptr ty_int, Ptr ty_int, ty_double] ''cusparseDcsr2csr_compress'' [0, 1, 2, 3, 4, 5, 6, 7, 8, 9, 10, 11, 12] False,
     Gen cusparse ty_cusparseStatus_t ''cusparseCcsr2csr_compress'' [ty_cusparseHandle_t, ty_int, ty_int, Const ty_cusparseMatDescr_t, Ptr (Const ty_cuComplex), Ptr (Const ty_int), Ptr (Const ty_int), ty_int, Ptr (Const ty_int), Ptr ty_cuComplex, Ptr ty_int, Ptr ty_int, ty_cuComplex]
       ''cusparseCcsr2csr_compress'' ty_cusparseStatus_t [ty_cusparseHandle_t, ty_int, ty_int, Const ty_cusparseMatDescr_t, Ptr (Const ty_cuComplex), Ptr (Const ty_int), Ptr (Const ty_int), ty_int, Ptr (Const ty_int), Ptr ty_cuComplex, Ptr ty_int, Ptr ty_int, ty_cuComplex] ''cusparseCcsr2csr_compress'' [0, 1, 2, 3, 4, 5, 6, 7, 8, 9, 10, 11, 12] False,
     Gen cusparse ty_cusparseStatus_t ''cusparseZcsr2csr_compress'' [ty_cusparseHandle_t, ty_int, ty_int, Const ty_cusparseMatDescr_t, Ptr (Const ty_cuDoubleComplex), Ptr (Const ty_int), Ptr (Const ty_int), ty_int, Ptr (Const ty_int), Ptr ty_cuDoubleComplex, Ptr ty_int, Ptr ty_int, ty_cuDoubleComplex]
       ''cusparseZcsr2csr_compress'' ty_cusparseStatus_t [ty_cusparseHandle_t, ty_int, ty_int, Const ty_cusparseMatDescr_t, Ptr (Const ty_cuDoubleComplex), Ptr (Const ty_int), Ptr (Const ty_int), ty_int, Ptr (Const ty_int), Ptr ty_cuDoubleComplex, Ptr ty_int, Ptr ty_int, ty_cuDoubleComplex] ''cusparseZcsr2csr_compress'' [0, 1, 2, 3, 4, 5, 6, 7, 8, 9, 10, 11, 12] False,
     Gen cusparse ty_cusparseStatus_t ''cusparseSdense2csr'' [ty_cusparseHandle_t, ty_int, ty_int, Const ty_cusparseMatDescr_t, Ptr (Const ty_float), ty_int, Ptr (Const ty_int), Ptr ty_float, Ptr ty_int, Ptr ty_int]
       ''cusparseSdense2csr'' ty_cusparseStatus_t [ty_cusparseHandle_t, ty_int, ty_int, Const ty_cusparseMatDescr_t, Ptr (Const ty_float), ty_int, Ptr (Const ty_int), Ptr ty_float, Ptr ty_int, Ptr ty_int] ''cusparseSdense2csr'' [0, 1, 2, 3, 4, 5, 6, 7, 8, 9] False,
     Gen cusparse ty_cusparseStatus_t ''cusparseDdense2csr'' [ty_cusparseHandle_t, ty_int, ty_int, Const ty_cusparseMatDescr_t, Ptr (Const ty_double), ty_int, Ptr (Const ty_int), Ptr ty_double, Ptr ty_int, Ptr ty_int]
       ''cusparseDdense2csr'' ty_cusparseStatus_t [ty_cusparseHandle_t, ty_int, ty_int, Const ty_cusparseMatDescr_t, Ptr (Const ty_double), ty_int, Ptr (Const ty_int), Ptr ty_double, Ptr ty_int, Ptr ty_int] ''cusparseDdense2csr'' [0, 1, 2, 3, 4, 5, 6, 7, 8, 9] False,
     Gen cusparse ty_cusparseStatus_t ''cusparseCdense2csr'' [ty_cusparseHandle_t, ty_int, ty_int, Const ty_cusparseMatDescr_t, Ptr (Const ty_cuComplex), ty_int, Ptr (Const ty_int), Ptr ty_cuComplex, Ptr ty_int, Ptr ty_int]
       ''cusparseCdense2csr'' ty_cusparseStatus_t [ty_cusparseHandle_t, ty_int, ty_int, Const ty_cusparseMatDescr_t, Ptr (Const ty_cuComplex), ty_int, Ptr (Const ty_int), Ptr ty_cuComplex, Ptr ty_int, Ptr ty_int] ''cusparseCdense2csr'' [0, 1, 2, 3, 4, 5, 6, 7, 8, 9] False,
     Gen cusparse ty_cusparseStatus_t ''cusparseZdense2csr'' [ty_cusparseHandle_t, ty_int, ty_int, Const ty_cusparseMatDescr_t, Ptr (Const ty_cuDoubleComplex), ty_int, Ptr (Const ty_int), Ptr ty_cuDoubleComplex, Ptr ty_int, Ptr ty_int]
       ''cusparseZdense2csr'' ty_cusparseStatus_t [ty_cusparseHandle_t, ty_int, ty_int, Const ty_cusparseMatDescr_t, Ptr (Const ty_cuDoubleComplex), ty_int, Ptr (Const ty_int), Ptr ty_cuDoubleComplex, Ptr ty_int, Ptr ty_int] ''cusparseZdense2csr'' [0, 1, 2, 3, 4, 5, 6, 7, 8, 9] False]"

definition cusparse_hooks_28 :: "gen_hook list" where
  "cusparse_hooks_28 =
    [Gen cusparse ty_cusparseStatus_t ''cusparseScsr2dense'' [ty_cusparseHandle_t, ty_int, ty_int, Const ty_cusparseMatDescr_t, Ptr (Const ty_float), Ptr (Const ty_int), Ptr (Const ty_int), Ptr ty_float, ty_int]
       ''cusparseScsr2dense'' ty_cusparseStatus_t [ty_cusparseHandle_t, ty_int, ty_int, Const ty_cusparseMatDescr_t, Ptr (Const ty_float), Ptr (Const ty_int), Ptr (Const ty_int), Ptr ty_float, ty_int] ''cusparseScsr2dense'' [0, 1, 2, 3, 4, 5, 6, 7, 8] False,
     Gen cusparse ty_cusparseStatus_t ''cusparseDcsr2dense'' [ty_cusparseHandle_t, ty_int, ty_int, Const ty_cusparseMatDescr_t, Ptr (Const ty_double), Ptr (Const ty_int), Ptr (Const ty_int), Ptr ty_double, ty_int]
       ''cusparseDcsr2dense'' ty_cusparseStatus_t [ty_cusparseHandle_t, ty_int, ty_int, Const ty_cusparseMatDescr_t, Ptr (Const ty_double), Ptr (Const ty_int), Ptr (Const ty_int), Ptr ty_double, ty_int] ''cusparseDcsr2dense'' [0, 1, 2, 3, 4, 5, 6, 7, 8] False,
     Gen cusparse ty_cusparseStatus_t ''cusparseCcsr2dense'' [ty_cusparseHandle_t, ty_int, ty_int, Const ty_cusparseMatDescr_t, Ptr (Const ty_cuComplex), Ptr (Const ty_int), Ptr (Const ty_int), Ptr ty_cuComplex, ty_int]
       ''cusparseCcsr2dense'' ty_cusparseStatus_t [ty_cusparseHandle_t, ty_int, ty_int, Const ty_cusparseMatDescr_t, Ptr (Const ty_cuComplex), Ptr (Const ty_int), Ptr (Const ty_int), Ptr ty_cuComplex, ty_int] ''cusparseCcsr2dense'' [0, 1, 2, 3, 4, 5, 6, 7, 8] False,
     Gen cusparse ty_cusparseStatus_t ''cusparseZcsr2dense'' [ty_cusparseHandle_t, ty_int, ty_int, Const ty_cusparseMatDescr_t, Ptr (Const ty_cuDoubleComplex), Ptr (Const ty_int), Ptr (Const ty_int), Ptr ty_cuDoubleComplex, ty_int]
       ''cusparseZcsr2dense'' ty_cusparseStatus_t [ty_cusparseHandle_t, ty_int, ty_int, Const ty_cusparseMatDescr_t, Ptr (Const ty_cuDoubleComplex), Ptr (Const ty_int), Ptr (Const ty_int), Ptr ty_cuDoubleComplex, ty_int] ''cusparseZcsr2dense'' [0, 1, 2, 3, 4, 5, 6, 7, 8] False,
     Gen cusparse ty_cusparseStatus_t ''cusparseSdense2csc'' [ty_cusparseHandle_t, ty_int, ty_int, Const ty_cusparseMatDescr_t, Ptr (Const ty_float), ty_int, Ptr (Const ty_int), Ptr ty_float, Ptr ty_int, Ptr ty_int]
       ''cusparseSdense2csc'' ty_cusparseStatus_t [ty_cusparseHandle_t, ty_int, ty_int, Const ty_cusparseMatDescr_t, Ptr (Const ty_float), ty_int, Ptr (Const ty_int), Ptr ty_float, Ptr ty_int, Ptr ty_int] ''cusparseSdense2csc'' [0, 1, 2, 3, 4, 5, 6, 7, 8, 9] False,
     Gen cusparse ty_cusparseStatus_t ''cusparseDdense2csc'' [ty_cusparseHandle_t, ty_int, ty_int, Const ty_cusparseMatDescr_t, Ptr (Const ty_double), ty_int, Ptr (Const ty_int), Ptr ty_double, Ptr ty_int, Ptr ty_int]
       ''cusparseDdense2csc'' ty_cusparseStatus_t [ty_cusparseHandle_t, ty_int, ty_int, Const ty_cusparseMatDescr_t, Ptr (Const ty_double), ty_int, Ptr (Const ty_int), Ptr ty_double, Ptr ty_int, Ptr ty_int] ''cusparseDdense2csc'' [0, 1, 2, 3, 4, 5, 6, 7, 8, 9] False,
     Gen cusparse ty_cusparseStatus_t ''cusparseCdense2csc'' [ty_cusparseHandle_t, ty_int, ty_int, Const ty_cusparseMatDescr_t, Ptr (Const ty_cuComplex), ty_int, Ptr (Const ty_int), Ptr ty_cuComplex, Ptr ty_int, Ptr ty_int]
       ''cusparseCdense2csc'' ty_cusparseStatus_t [ty_cusparseHandle_t, ty_int, ty_int, Const ty_cusparseMatDescr_t, Ptr (Const ty_cuComplex), ty_int, Ptr (Const ty_int), Ptr ty_cuComplex, Ptr ty_int, Ptr ty_int] ''cusparseCdense2csc'' [0, 1, 2, 3, 4, 5, 6, 7, 8, 9] False,
     Gen cusparse ty_cusparseStatus_t ''cusparseZdense2csc'' [ty_cusparseHandle_t, ty_int, ty_int, Const ty_cusparseMatDescr_t, Ptr (Const ty_cuDoubleComplex), ty_int, Ptr (Const ty_int), Ptr ty_cuDoubleComplex, Ptr ty_int, Ptr ty_int]
       ''cusparseZdense2csc'' ty_cusparseStatus_t [ty_cusparseHandle_t, ty_int, ty_int, Const ty_cusparseMatDescr_t, Ptr (Const ty_cuDoubleComplex), ty_int, Ptr (Const ty_int), Ptr ty_cuDoubleComplex, Ptr ty_int, Ptr ty_int] ''cusparseZdense2csc'' [0, 1, 2, 3, 4, 5, 6, 7, 8, 9] False,
     Gen cusparse ty_cusparseStatus_t ''cusparseScsc2dense'' [ty_cusparseHandle_t, ty_int, ty_int, Const ty_cusparseMatDescr_t, Ptr (Const ty_float), Ptr (Const ty_int), Ptr (Const ty_int), Ptr ty_float, ty_int]
       ''cusparseScsc2dense'' ty_cusparseStatus_t [ty_cusparseHandle_t, ty_int, ty_int, Const ty_cusparseMatDescr_t, Ptr (Const ty_float), Ptr (Const ty_int), Ptr (Const ty_int), Ptr ty_float, ty_int] ''cusparseScsc2dense'' [0, 1, 2, 3, 4, 5, 6, 7, 8] False,
     Gen cusparse ty_cusparseStatus_t ''cusparseDcsc2dense'' [ty_cusparseHandle_t, ty_int, ty_int, Const ty_cusparseMatDescr_t, Ptr (Const ty_double), Ptr (Const ty_int), Ptr (Const ty_int), Ptr ty_double, ty_int]
       ''cusparseDcsc2dense'' ty_cusparseStatus_t [ty_cusparseHandle_t, ty_int, ty_int, Const ty_cusparseMatDescr_t, Ptr (Const ty_double), Ptr (Const ty_int), Ptr (Const ty_int), Ptr ty_double, ty_int] ''cusparseDcsc2dense'' [0, 1, 2, 3, 4, 5, 6, 7, 8] False,
     Gen cusparse ty_cusparseStatus_t ''cusparseCcsc2dense'' [ty_cusparseHandle_t, ty_int, ty_int, Const ty_cusparseMatDescr_t, Ptr (Const ty_cuComplex), Ptr (Const ty_int), Ptr (Const ty_int), Ptr ty_cuComplex, ty_int]
       ''cusparseCcsc2dense'' ty_cusparseStatus_t [ty_cusparseHandle_t, ty_int, ty_int, Const ty_cusparseMatDescr_t, Ptr (Const ty_cuComplex), Ptr (Const ty_int), Ptr (Const ty_int), Ptr ty_cuComplex, ty_int] ''cusparseCcsc2dense'' [0, 1, 2, 3, 4, 5, 6, 7, 8] False,
     Gen cusparse ty_cusparseStatus_t ''cusparseZcsc2dense'' [ty_cusparseHandle_t, ty_int, ty_int, Const ty_cusparseMatDescr_t, Ptr (Const ty_cuDoubleComplex), Ptr (Const ty_int), Ptr (Const ty_int), Ptr ty_cuDoubleComplex, ty_int]
       ''cusparseZcsc2dense'' ty_cusparseStatus_t [ty_cusparseHandle_t, ty_int, ty_int, Const ty_cusparseMatDescr_t, Ptr (Const ty_cuDoubleComplex), Ptr (Const ty_int), Ptr (Const ty_int), Ptr ty_cuDoubleComplex, ty_int] ''cusparseZcsc2dense'' [0, 1, 2, 3, 4, 5, 6, 7, 8] False]"

definition cusparse_hooks_29 :: "gen_hook list" where
  "cusparse_hooks_29 =
    [Gen cusparse ty_cusparseStatus_t ''cusparseXcoo2csr'' [ty_cusparseHandle_t, Ptr (Const ty_int), ty_int, ty_int, Ptr ty_int, ty_cusparseIndexBase_t]
       ''cusparseXcoo2csr'' ty_cusparseStatus_t [ty_cusparseHandle_t, Ptr (Const ty_int), ty_int, ty_int, Ptr ty_int, ty_cusparseIndexBase_t] ''cusparseXcoo2csr'' [0, 1, 2, 3, 4, 5] False,
     Gen cusparse ty_cusparseStatus_t ''cusparseXcsr2coo'' [ty_cusparseHandle_t, Ptr (Const ty_int), ty_int, ty_int, Ptr ty_int, ty_cusparseIndexBase_t]
       ''cusparseXcsr2coo'' ty_cusparseStatus_t [ty_cusparseHandle_t, Ptr (Const ty_int), ty_int, ty_int, Ptr ty_int, ty_cusparseIndexBase_t] ''cusparseXcsr2coo'' [0, 1, 2, 3, 4, 5] False,
     Gen cusparse ty_cusparseStatus_t ''cusparseXcsr2bsrNnz'' [ty_cusparseHandle_t, ty_cusparseDirection_t, ty_int, ty_int, Const ty_cusparseMatDescr_t, Ptr (Const ty_int), Ptr (Const ty_int), ty_int, Const ty_cusparseMatDescr_t, Ptr ty_int, Ptr ty_int]
       ''cusparseXcsr2bsrNnz'' ty_cusparseStatus_t [ty_cusparseHandle_t, ty_cusparseDirection_t, ty_int, ty_int, Const ty_cusparseMatDescr_t, Ptr (Const ty_int), Ptr (Const ty_int), ty_int, Const ty_cusparseMatDescr_t, Ptr ty_int, Ptr ty_int] ''cusparseXcsr2bsrNnz'' [0, 1, 2, 3, 4, 5, 6, 7, 8, 9, 10] False,
     Gen cusparse ty_cusparseStatus_t ''cusparseScsr2bsr'' [ty_cusparseHandle_t, ty_cusparseDirection_t, ty_int, ty_int, Const ty_cusparseMatDescr_t, Ptr (Const ty_float), Ptr (Const ty_int), Ptr (Const ty_int), ty_int, Const ty_cusparseMatDescr_t, Ptr ty_float, Ptr ty_int, Ptr ty_int]
       ''cusparseScsr2bsr'' ty_cusparseStatus_t [ty_cusparseHandle_t, ty_cusparseDirection_t, ty_int, ty_int, Const ty_cusparseMatDescr_t, Ptr (Const ty_float), Ptr (Const ty_int), Ptr (Const ty_int), ty_int, Const ty_cusparseMatDescr_t, Ptr ty_float, Ptr ty_int, Ptr ty_int] ''cusparseScsr2bsr'' [0, 1, 2, 3, 4, 5, 6, 7, 8, 9, 10, 11, 12] False,
     Gen cusparse ty_cusparseStatus_t ''cusparseDcsr2bsr'' [ty_cusparseHandle_t, ty_cusparseDirection_t, ty_int, ty_int, Const ty_cusparseMatDescr_t, Ptr (Const ty_double), Ptr (Const ty_int), Ptr (Const ty_int), ty_int, Const ty_cusparseMatDescr_t, Ptr ty_double, Ptr ty_int, Ptr ty_int]
       ''cusparseDcsr2bsr'' ty_cusparseStatus_t [ty_cusparseHandle_t, ty_cusparseDirection_t, ty_int, ty_int, Const ty_cusparseMatDescr_t, Ptr (Const ty_double), Ptr (Const ty_int), Ptr (Const ty_int), ty_int, Const ty_cusparseMatDescr_t, Ptr ty_double, Ptr ty_int, Ptr ty_int] ''cusparseDcsr2bsr'' [0, 1, 2, 3, 4, 5, 6, 7, 8, 9, 10, 11, 12] False,
     Gen cusparse ty_cusparseStatus_t ''cusparseCcsr2bsr'' [ty_cusparseHandle_t, ty_cusparseDirection_t, ty_int, ty_int, Const ty_cusparseMatDescr_t, Ptr (Const ty_cuComplex), Ptr (Const ty_int), Ptr (Const ty_int), ty_int, Const ty_cusparseMatDescr_t, Ptr ty_cuComplex, Ptr ty_int, Ptr ty_int]
       ''cusparseCcsr2bsr'' ty_cusparseStatus_t [ty_cusparseHandle_t, ty_cusparseDirection_t, ty_int, ty_int, Const ty_cusparseMatDescr_t, Ptr (Const ty_cuComplex), Ptr (Const ty_int), Ptr (Const ty_int), ty_int, Const ty_cusparseMatDescr_t, Ptr ty_cuComplex, Ptr ty_int, Ptr ty_int] ''cusparseCcsr2bsr'' [0, 1, 2, 3, 4, 5, 6, 7, 8, 9, 10, 11, 12] False,
     Gen cusparse ty_cusparseStatus_t ''cusparseZcsr2bsr'' [ty_cusparseHandle_t, ty_cusparseDirection_t, ty_int, ty_int, Const ty_cusparseMatDescr_t, Ptr (Const ty_cuDoubleComplex), Ptr (Const ty_int), Ptr (Const ty_int), ty_int, Const ty_cusparseMatDescr_t, Ptr ty_cuDoubleComplex, Ptr ty_int, Ptr ty_int]
       ''cusparseZcsr2bsr'' ty_cusparseStatus_t [ty_cusparseHandle_t, ty_cusparseDirection_t, ty_int, ty_int, Const ty_cusparseMatDescr_t, Ptr (Const ty_cuDoubleComplex), Ptr (Const ty_int), Ptr (Const ty_int), ty_int, Const ty_cusparseMatDescr_t, Ptr ty_cuDoubleComplex, Ptr ty_int, Ptr ty_int] ''cusparseZcsr2bsr'' [0, 1, 2, 3, 4, 5, 6, 7, 8, 9, 10, 11, 12] False,
     Gen cusparse ty_cusparseStatus_t ''cusparseSbsr2csr'' [ty_cusparseHandle_t, ty_cusparseDirection_t, ty_int, ty_int, Const ty_cusparseMatDescr_t, Ptr (Const ty_float), Ptr (Const ty_int), Ptr (Const ty_int), ty_int, Const ty_cusparseMatDescr_t, Ptr ty_float, Ptr ty_int, Ptr ty_int]
       ''cusparseSbsr2csr'' ty_cusparseStatus_t [ty_cusparseHandle_t, ty_cusparseDirection_t, ty_int, ty_int, Const ty_cusparseMatDescr_t, Ptr (Const ty_float), Ptr (Const ty_int), Ptr (Const ty_int), ty_int, Const ty_cusparseMatDescr_t, Ptr ty_float, Ptr ty_int, Ptr ty_int] ''cusparseSbsr2csr'' [0, 1, 2, 3, 4, 5, 6, 7, 8, 9, 10, 11, 12] False,
     Gen cusparse ty_cusparseStatus_t ''cusparseDbsr2csr'' [ty_cusparseHandle_t, ty_cusparseDirection_t, ty_int, ty_int, Const ty_cusparseMatDescr_t, Ptr (Const ty_double), Ptr (Const ty_int), Ptr (Const ty_int), ty_int, Const ty_cusparseMatDescr_t, Ptr ty_double, Ptr ty_int, Ptr ty_int]
       ''cusparseDbsr2csr'' ty_cusparseStatus_t [ty_cusparseHandle_t, ty_cusparseDirection_t, ty_int, ty_int, Const ty_cusparseMatDescr_t, Ptr (Const ty_double), Ptr (Const ty_int), Ptr (Const ty_int), ty_int, Const ty_cusparseMatDescr_t, Ptr ty_double, Ptr ty_int, Ptr ty_int] ''cusparseDbsr2csr'' [0, 1, 2, 3, 4, 5, 6, 7, 8, 9, 10, 11, 12] False,
     Gen cusparse ty_cusparseStatus_t ''cusparseCbsr2csr'' [ty_cusparseHandle_t, ty_cusparseDirection_t, ty_int, ty_int, Const ty_cusparseMatDescr_t, Ptr (Const ty_cuComplex), Ptr (Const ty_int), Ptr (Const ty_int), ty_int, Const ty_cusparseMatDescr_t, Ptr ty_cuComplex, Ptr ty_int, Ptr ty_int]
       ''cusparseCbsr2csr'' ty_cusparseStatus_t [ty_cusparseHandle_t, ty_cusparseDirection_t, ty_int, ty_int, Const ty_cusparseMatDescr_t, Ptr (Const ty_cuComplex), Ptr (Const ty_int), Ptr (Const ty_int), ty_int, Const ty_cusparseMatDescr_t, Ptr ty_cuComplex, Ptr ty_int, Ptr ty_int] ''cusparseCbsr2csr'' [0, 1, 2, 3, 4, 5, 6, 7, 8, 9, 10, 11, 12] False]"

definition cusparse_hooks_30 :: "gen_hook list" where
  "cusparse_hooks_30 =
    [Gen cusparse ty_cusparseStatus_t ''cusparseZbsr2csr'' [ty_cusparseHandle_t, ty_cusparseDirection_t, ty_int, ty_int, Const ty_cusparseMatDescr_t, Ptr (Const ty_cuDoubleComplex), Ptr (Const ty_int), Ptr (Const ty_int), ty_int, Const ty_cusparseMatDescr_t, Ptr ty_cuDoubleComplex, Ptr ty_int, Ptr ty_int]
       ''cusparseZbsr2csr'' ty_cusparseStatus_t [ty_cusparseHandle_t, ty_cusparseDirection_t, ty_int, ty_int, Const ty_cusparseMatDescr_t, Ptr (Const ty_cuDoubleComplex), Ptr (Const ty_int), Ptr (Const ty_int), ty_int, Const ty_cusparseMatDescr_t, Ptr ty_cuDoubleComplex, Ptr ty_int, Ptr ty_int] ''cusparseZbsr2csr'' [0, 1, 2, 3, 4, 5, 6, 7, 8, 9, 10, 11, 12] False,
     Gen cusparse ty_cusparseStatus_t ''cusparseSgebsr2gebsc_bufferSize'' [ty_cusparseHandle_t, ty_int, ty_int, ty_int, Ptr (Const ty_float), Ptr (Const ty_int), Ptr (Const ty_int), ty_int, ty_int, Ptr ty_int]
       ''cusparseSgebsr2gebsc_bufferSize'' ty_cusparseStatus_t [ty_cusparseHandle_t, ty_int, ty_int, ty_int, Ptr (Const ty_float), Ptr (Const ty_int), Ptr (Const ty_int), ty_int, ty_int, Ptr ty_int] ''cusparseSgebsr2gebsc_bufferSize'' [0, 1, 2, 3, 4, 5, 6, 7, 8, 9] False,
     Gen cusparse ty_cusparseStatus_t ''cusparseDgebsr2gebsc_bufferSize'' [ty_cusparseHandle_t, ty_int, ty_int, ty_int, Ptr (Const ty_double), Ptr (Const ty_int), Ptr (Const ty_int), ty_int, ty_int, Ptr ty_int]
       ''cusparseDgebsr2gebsc_bufferSize'' ty_cusparseStatus_t [ty_cusparseHandle_t, ty_int, ty_int, ty_int, Ptr (Const ty_double), Ptr (Const ty_int), Ptr (Const ty_int), ty_int, ty_int, Ptr ty_int] ''cusparseDgebsr2gebsc_bufferSize'' [0, 1, 2, 3, 4, 5, 6, 7, 8, 9] False,
     Gen cusparse ty_cusparseStatus_t ''cusparseCgebsr2gebsc_bufferSize'' [ty_cusparseHandle_t, ty_int, ty_int, ty_int, Ptr (Const ty_cuComplex), Ptr (Const ty_int), Ptr (Const ty_int), ty_int, ty_int, Ptr ty_int]
       ''cusparseCgebsr2gebsc_bufferSize'' ty_cusparseStatus_t [ty_cusparseHandle_t, ty_int, ty_int, ty_int, Ptr (Const ty_cuComplex), Ptr (Const ty_int), Ptr (Const ty_int), ty_int, ty_int, Ptr ty_int] ''cusparseCgebsr2gebsc_bufferSize'' [0, 1, 2, 3, 4, 5, 6, 7, 8, 9] False,
     Gen cusparse ty_cusparseStatus_t ''cusparseZgebsr2gebsc_bufferSize'' [ty_cusparseHandle_t, ty_int, ty_int, ty_int, Ptr (Const ty_cuDoubleComplex), Ptr (Const ty_int), Ptr (Const ty_int), ty_int, ty_int, Ptr ty_int]
       ''cusparseZgebsr2gebsc_bufferSize'' ty_cusparseStatus_t [ty_cusparseHandle_t, ty_int, ty_int, ty_int, Ptr (Const ty_cuDoubleComplex), Ptr (Const ty_int), Ptr (Const ty_int), ty_int, ty_int, Ptr ty_int] ''cusparseZgebsr2gebsc_bufferSize'' [0, 1, 2, 3, 4, 5, 6, 7, 8, 9] False,
     Gen cusparse ty_cusparseStatus_t ''cusparseSgebsr2gebsc_bufferSizeExt'' [ty_cusparseHandle_t, ty_int, ty_int, ty_int, Ptr (Const ty_float), Ptr (Const ty_int), Ptr (Const ty_int), ty_int, ty_int, Ptr ty_size_t]
       ''cusparseSgebsr2gebsc_bufferSizeExt'' ty_cusparseStatus_t [ty_cusparseHandle_t, ty_int, ty_int, ty_int, Ptr (Const ty_float), Ptr (Const ty_int), Ptr (Const ty_int), ty_int, ty_int, Ptr ty_size_t] ''cusparseSgebsr2gebsc_bufferSizeExt'' [0, 1, 2, 3, 4, 5, 6, 7, 8, 9] False,
     Gen cusparse ty_cusparseStatus_t ''cusparseDgebsr2gebsc_bufferSizeExt'' [ty_cusparseHandle_t, ty_int, ty_int, ty_int, Ptr (Const ty_double), Ptr (Const ty_int), Ptr (Const ty_int), ty_int, ty_int, Ptr ty_size_t]
       ''cusparseDgebsr2gebsc_bufferSizeExt'' ty_cusparseStatus_t [ty_cusparseHandle_t, ty_int, ty_int, ty_int, Ptr (Const ty_double), Ptr (Const ty_int), Ptr (Const ty_int), ty_int, ty_int, Ptr ty_size_t] ''cusparseDgebsr2gebsc_bufferSizeExt'' [0, 1, 2, 3, 4, 5, 6, 7, 8, 9] False,
     Gen cusparse ty_cusparseStatus_t ''cusparseCgebsr2gebsc_bufferSizeExt'' [ty_cusparseHandle_t, ty_int, ty_int, ty_int, Ptr (Const ty_cuComplex), Ptr (Const ty_int), Ptr (Const ty_int), ty_int, ty_int, Ptr ty_size_t]
       ''cusparseCgebsr2gebsc_bufferSizeExt'' ty_cusparseStatus_t [ty_cusparseHandle_t, ty_int, ty_int, ty_int, Ptr (Const ty_cuComplex), Ptr (Const ty_int), Ptr (Const ty_int), ty_int, ty_int, Ptr ty_size_t] ''cusparseCgebsr2gebsc_bufferSizeExt'' [0, 1, 2, 3, 4, 5, 6, 7, 8, 9] False,
     Gen cusparse ty_cusparseStatus_t ''cusparseZgebsr2gebsc_bufferSizeExt'' [ty_cusparseHandle_t, ty_int, ty_int, ty_int, Ptr (Const ty_cuDoubleComplex), Ptr (Const ty_int), Ptr (Const ty_int), ty_int, ty_int, Ptr ty_size_t]
       ''cusparseZgebsr2gebsc_bufferSizeExt'' ty_cusparseStatus_t [ty_cusparseHandle_t, ty_int, ty_int, ty_int, Ptr (Const ty_cuDoubleComplex), Ptr (Const ty_int), Ptr (Const ty_int), ty_int, ty_int, Ptr ty_size_t] ''cusparseZgebsr2gebsc_bufferSizeExt'' [0, 1, 2, 3, 4, 5, 6, 7, 8, 9] False,
     Gen cusparse ty_cusparseStatus_t ''cusparseSgebsr2gebsc'' [ty_cusparseHandle_t, ty_int, ty_int, ty_int, Ptr (Const ty_float), Ptr (Const ty_int), Ptr (Const ty_int), ty_int, ty_int, Ptr ty_float, Ptr ty_int, Ptr ty_int, ty_cusparseAction_t, ty_cusparseIndexBase_t, Ptr ty_void]
       ''cusparseSgebsr2gebsc'' ty_cusparseStatus_t [ty_cusparseHandle_t, ty_int, ty_int, ty_int, Ptr (Const ty_float), Ptr (Const ty_int), Ptr (Const ty_int), ty_int, ty_int, Ptr ty_float, Ptr ty_int, Ptr ty_int, ty_cusparseAction_t, ty_cusparseIndexBase_t, Ptr ty_void] ''cusparseSgebsr2gebsc'' [0, 1, 2, 3, 4, 5, 6, 7, 8, 9, 10, 11, 12, 13, 14] False,
     Gen cusparse ty_cusparseStatus_t ''cusparseDgebsr2gebsc'' [ty_cusparseHandle_t, ty_int, ty_int, ty_int, Ptr (Const ty_double), Ptr (Const ty_int), Ptr (Const ty_int), ty_int, ty_int, Ptr ty_double, Ptr ty_int, Ptr ty_int, ty_cusparseAction_t, ty_cusparseIndexBase_t, Ptr ty_void]
       ''cusparseDgebsr2gebsc'' ty_cusparseStatus_t [ty_cusparseHandle_t, ty_int, ty_int, ty_int, Ptr (Const ty_double), Ptr (Const ty_int), Ptr (Const ty_int), ty_int, ty_int, Ptr ty_double, Ptr ty_int, Ptr ty_int, ty_cusparseAction_t, ty_cusparseIndexBase_t, Ptr ty_void] ''cusparseDgebsr2gebsc'' [0, 1, 2, 3, 4, 5, 6, 7, 8, 9, 10, 11, 12, 13, 14] False]"

definition cusparse_hooks_31 :: "gen_hook list" where
  "cusparse_hooks_31 =
    [Gen cusparse ty_cusparseStatus_t ''cusparseCgebsr2gebsc'' [ty_cusparseHandle_t, ty_int, ty_int, ty_int, Ptr (Const ty_cuComplex), Ptr (Const ty_int), Ptr (Const ty_int), ty_int, ty_int, Ptr ty_cuComplex, Ptr ty_int, Ptr ty_int, ty_cusparseAction_t, ty_cusparseIndexBase_t, Ptr ty_void]
       ''cusparseCgebsr2gebsc'' ty_cusparseStatus_t [ty_cusparseHandle_t, ty_int, ty_int, ty_int, Ptr (Const ty_cuComplex), Ptr (Const ty_int), Ptr (Const ty_int), ty_int, ty_int, Ptr ty_cuComplex, Ptr ty_int, Ptr ty_int, ty_cusparseAction_t, ty_cusparseIndexBase_t, Ptr ty_void] ''cusparseCgebsr2gebsc'' [0, 1, 2, 3, 4, 5, 6, 7, 8, 9, 10, 11, 12, 13, 14] False,
     Gen cusparse ty_cusparseStatus_t ''cusparseZgebsr2gebsc'' [ty_cusparseHandle_t, ty_int, ty_int, ty_int, Ptr (Const ty_cuDoubleComplex), Ptr (Const ty_int), Ptr (Const ty_int), ty_int, ty_int, Ptr ty_cuDoubleComplex, Ptr ty_int, Ptr ty_int, ty_cusparseAction_t, ty_cusparseIndexBase_t, Ptr ty_void]
       ''cusparseZgebsr2gebsc'' ty_cusparseStatus_t [ty_cusparseHandle_t, ty_int, ty_int, ty_int, Ptr (Const ty_cuDoubleComplex), Ptr (Const ty_int), Ptr (Const ty_int), ty_int, ty_int, Ptr ty_cuDoubleComplex, Ptr ty_int, Ptr ty_int, ty_cusparseAction_t, ty_cusparseIndexBase_t, Ptr ty_void] ''cusparseZgebsr2gebsc'' [0, 1, 2, 3, 4, 5, 6, 7, 8, 9, 10, 11, 12, 13, 14] False,
     Gen cusparse ty_cusparseStatus_t ''cusparseXgebsr2csr'' [ty_cusparseHandle_t, ty_cusparseDirection_t, ty_int, ty_int, Const ty_cusparseMatDescr_t, Ptr (Const ty_int), Ptr (Const ty_int), ty_int, ty_int, Const ty_cusparseMatDescr_t, Ptr ty_int, Ptr ty_int]
       ''cusparseXgebsr2csr'' ty_cusparseStatus_t [ty_cusparseHandle_t, ty_cusparseDirection_t, ty_int, ty_int, Const ty_cusparseMatDescr_t, Ptr (Const ty_int), Ptr (Const ty_int), ty_int, ty_int, Const ty_cusparseMatDescr_t, Ptr ty_int, Ptr ty_int] ''cusparseXgebsr2csr'' [0, 1, 2, 3, 4, 5, 6, 7, 8, 9, 10, 11] False,
     Gen cusparse ty_cusparseStatus_t ''cusparseSgebsr2csr'' [ty_cusparseHandle_t, ty_cusparseDirection_t, ty_int, ty_int, Const ty_cusparseMatDescr_t, Ptr (Const ty_float), Ptr (Const ty_int), Ptr (Const ty_int), ty_int, ty_int, Const ty_cusparseMatDescr_t, Ptr ty_float, Ptr ty_int, Ptr ty_int]
       ''cusparseSgebsr2csr'' ty_cusparseStatus_t [ty_cusparseHandle_t, ty_cusparseDirection_t, ty_int, ty_int, Const ty_cusparseMatDescr_t, Ptr (Const ty_float), Ptr (Const ty_int), Ptr (Const ty_int), ty_int, ty_int, Const ty_cusparseMatDescr_t, Ptr ty_float, Ptr ty_int, Ptr ty_int] ''cusparseSgebsr2csr'' [0, 1, 2, 3, 4, 5, 6, 7, 8, 9, 10, 11, 12, 13] False,
     Gen cusparse ty_cusparseStatus_t ''cusparseDgebsr2csr'' [ty_cusparseHandle_t, ty_cusparseDirection_t, ty_int, ty_int, Const ty_cusparseMatDescr_t, Ptr (Const ty_double), Ptr (Const ty_int), Ptr (Const ty_int), ty_int, ty_int, Const ty_cusparseMatDescr_t, Ptr ty_double, Ptr ty_int, Ptr ty_int]
       ''cusparseDgebsr2csr'' ty_cusparseStatus_t [ty_cusparseHandle_t, ty_cusparseDirection_t, ty_int, ty_int, Const ty_cusparseMatDescr_t, Ptr (Const ty_double), Ptr (Const ty_int), Ptr (Const ty_int), ty_int, ty_int, Const ty_cusparseMatDescr_t, Ptr ty_double, Ptr ty_int, Ptr ty_int] ''cusparseDgebsr2csr'' [0, 1, 2, 3, 4, 5, 6, 7, 8, 9, 10, 11, 12, 13] False,
     Gen cusparse ty_cusparseStatus_t ''cusparseCgebsr2csr'' [ty_cusparseHandle_t, ty_cusparseDirection_t, ty_int, ty_int, Const ty_cusparseMatDescr_t, Ptr (Const ty_cuComplex), Ptr (Const ty_int), Ptr (Const ty_int), ty_int, ty_int, Const ty_cusparseMatDescr_t, Ptr ty_cuComplex, Ptr ty_int, Ptr ty_int]
       ''cusparseCgebsr2csr'' ty_cusparseStatus_t [ty_cusparseHandle_t, ty_cusparseDirection_t, ty_int, ty_int, Const ty_cusparseMatDescr_t, Ptr (Const ty_cuComplex), Ptr (Const ty_int), Ptr (Const ty_int), ty_int, ty_int, Const ty_cusparseMatDescr_t, Ptr ty_cuComplex, Ptr ty_int, Ptr ty_int] ''cusparseCgebsr2csr'' [0, 1, 2, 3, 4, 5, 6, 7, 8, 9, 10, 11, 12, 13] False,
     Gen cusparse ty_cusparseStatus_t ''cusparseZgebsr2csr'' [ty_cusparseHandle_t, ty_cusparseDirection_t, ty_int, ty_int, Const ty_cusparseMatDescr_t, Ptr (Const ty_cuDoubleComplex), Ptr (Const ty_int), Ptr (Const ty_int), ty_int, ty_int, Const ty_cusparseMatDescr_t, Ptr ty_cuDoubleComplex, Ptr ty_int, Ptr ty_int]
       ''cusparseZgebsr2csr'' ty_cusparseStatus_t [ty_cusparseHandle_t, ty_cusparseDirection_t, ty_int, ty_int, Const ty_cusparseMatDescr_t, Ptr (Const ty_cuDoubleComplex), Ptr (Const ty_int), Ptr (Const ty_int), ty_int, ty_int, Const ty_cusparseMatDescr_t, Ptr ty_cuDoubleComplex, Ptr ty_int, Ptr ty_int] ''cusparseZgebsr2csr'' [0, 1, 2, 3, 4, 5, 6, 7, 8, 9, 10, 11, 12, 13] False,
     Gen cusparse ty_cusparseStatus_t ''cusparseScsr2gebsr_bufferSize'' [ty_cusparseHandle_t, ty_cusparseDirection_t, ty_int, ty_int, Const ty_cusparseMatDescr_t, Ptr (Const ty_float), Ptr (Const ty_int), Ptr (Const ty_int), ty_int, ty_int, Ptr ty_int]
       ''cusparseScsr2gebsr_bufferSize'' ty_cusparseStatus_t [ty_cusparseHandle_t, ty_cusparseDirection_t, ty_int, ty_int, Const ty_cusparseMatDescr_t, Ptr (Const ty_float), Ptr (Const ty_int), Ptr (Const ty_int), ty_int, ty_int, Ptr ty_int] ''cusparseScsr2gebsr_bufferSize'' [0, 1, 2, 3, 4, 5, 6, 7, 8, 9, 10] False,
     Gen cusparse ty_cusparseStatus_t ''cusparseDcsr2gebsr_bufferSize'' [ty_cusparseHandle_t, ty_cusparseDirection_t, ty_int, ty_int, Const ty_cusparseMatDescr_t, Ptr (Const ty_double), Ptr (Const ty_int), Ptr (Const ty_int), ty_int, ty_int, Ptr ty_int]
       ''cusparseDcsr2gebsr_bufferSize'' ty_cusparseStatus_t [ty_cusparseHandle_t, ty_cusparseDirection_t, ty_int, ty_int, Const ty_cusparseMatDescr_t, Ptr (Const ty_double), Ptr (Const ty_int), Ptr (Const ty_int), ty_int, ty_int, Ptr ty_int] ''cusparseDcsr2gebsr_bufferSize'' [0, 1, 2, 3, 4, 5, 6, 7, 8, 9, 10] False,
     Gen cusparse ty_cusparseStatus_t ''cusparseCcsr2gebsr_bufferSize'' [ty_cusparseHandle_t, ty_cusparseDirection_t, ty_int, ty_int, Const ty_cusparseMatDescr_t, Ptr (Const ty_cuComplex), Ptr (Const ty_int), Ptr (Const ty_int), ty_int, ty_int, Ptr ty_int]
       ''cusparseCcsr2gebsr_bufferSize'' ty_cusparseStatus_t [ty_cusparseHandle_t, ty_cusparseDirection_t, ty_int, ty_int, Const ty_cusparseMatDescr_t, Ptr (Const ty_cuComplex), Ptr (Const ty_int), Ptr (Const ty_int), ty_int, ty_int, Ptr ty_int] ''cusparseCcsr2gebsr_bufferSize'' [0, 1, 2, 3, 4, 5, 6, 7, 8, 9, 10] False]"

definition cusparse_hooks_32 :: "gen_hook list" where
  "cusparse_hooks_32 =
    [Gen cusparse ty_cusparseStatus_t ''cusparseZcsr2gebsr_bufferSize'' [ty_cusparseHandle_t, ty_cusparseDirection_t, ty_int, ty_int, Const ty_cusparseMatDescr_t, Ptr (Const ty_cuDoubleComplex), Ptr (Const ty_int), Ptr (Const ty_int), ty_int, ty_int, Ptr ty_int]
       ''cusparseZcsr2gebsr_bufferSize'' ty_cusparseStatus_t [ty_cusparseHandle_t, ty_cusparseDirection_t, ty_int, ty_int, Const ty_cusparseMatDescr_t, Ptr (Const ty_cuDoubleComplex), Ptr (Const ty_int), Ptr (Const ty_int), ty_int, ty_int, Ptr ty_int] ''cusparseZcsr2gebsr_bufferSize'' [0, 1, 2, 3, 4, 5, 6, 7, 8, 9, 10] False,
     Gen cusparse ty_cusparseStatus_t ''cusparseScsr2gebsr_bufferSizeExt'' [ty_cusparseHandle_t, ty_cusparseDirection_t, ty_int, ty_int, Const ty_cusparseMatDescr_t, Ptr (Const ty_float), Ptr (Const ty_int), Ptr (Const ty_int), ty_int, ty_int, Ptr ty_size_t]
       ''cusparseScsr2gebsr_bufferSizeExt'' ty_cusparseStatus_t [ty_cusparseHandle_t, ty_cusparseDirection_t, ty_int, ty_int, Const ty_cusparseMatDescr_t, Ptr (Const ty_float), Ptr (Const ty_int), Ptr (Const ty_int), ty_int, ty_int, Ptr ty_size_t] ''cusparseScsr2gebsr_bufferSizeExt'' [0, 1, 2, 3, 4, 5, 6, 7, 8, 9, 10] False,
     Gen cusparse ty_cusparseStatus_t ''cusparseDcsr2gebsr_bufferSizeExt'' [ty_cusparseHandle_t, ty_cusparseDirection_t, ty_int, ty_int, Const ty_cusparseMatDescr_t, Ptr (Const ty_double), Ptr (Const ty_int), Ptr (Const ty_int), ty_int, ty_int, Ptr ty_size_t]
       ''cusparseDcsr2gebsr_bufferSizeExt'' ty_cusparseStatus_t [ty_cusparseHandle_t, ty_cusparseDirection_t, ty_int, ty_int, Const ty_cusparseMatDescr_t, Ptr (Const ty_double), Ptr (Const ty_int), Ptr (Const ty_int), ty_int, ty_int, Ptr ty_size_t] ''cusparseDcsr2gebsr_bufferSizeExt'' [0, 1, 2, 3, 4, 5, 6, 7, 8, 9, 10] False,
     Gen cusparse ty_cusparseStatus_t ''cusparseCcsr2gebsr_bufferSizeExt'' [ty_cusparseHandle_t, ty_cusparseDirection_t, ty_int, ty_int, Const ty_cusparseMatDescr_t, Ptr (Const ty_cuComplex), Ptr (Const ty_int), Ptr (Const ty_int), ty_int, ty_int, Ptr ty_size_t]
       ''cusparseCcsr2gebsr_bufferSizeExt'' ty_cusparseStatus_t [ty_cusparseHandle_t, ty_cusparseDirection_t, ty_int, ty_int, Const ty_cusparseMatDescr_t, Ptr (Const ty_cuComplex), Ptr (Const ty_int), Ptr (Const ty_int), ty_int, ty_int, Ptr ty_size_t] ''cusparseCcsr2gebsr_bufferSizeExt'' [0, 1, 2, 3, 4, 5, 6, 7, 8, 9, 10] False,
     Gen cusparse ty_cusparseStatus_t ''cusparseZcsr2gebsr_bufferSizeExt'' [ty_cusparseHandle_t, ty_cusparseDirection_t, ty_int, ty_int, Const ty_cusparseMatDescr_t, Ptr (Const ty_cuDoubleComplex), Ptr (Const ty_int), Ptr (Const ty_int), ty_int, ty_int, Ptr ty_size_t]
       ''cusparseZcsr2gebsr_bufferSizeExt'' ty_cusparseStatus_t [ty_cusparseHandle_t, ty_cusparseDirection_t, ty_int, ty_int, Const ty_cusparseMatDescr_t, Ptr (Const ty_cuDoubleComplex), Ptr (Const ty_int), Ptr (Const ty_int), ty_int, ty_int, Ptr ty_size_t] ''cusparseZcsr2gebsr_bufferSizeExt'' [0, 1, 2, 3, 4, 5, 6, 7, 8, 9, 10] False,
     Gen cusparse ty_cusparseStatus_t ''cusparseXcsr2gebsrNnz'' [ty_cusparseHandle_t, ty_cusparseDirection_t, ty_int, ty_int, Const ty_cusparseMatDescr_t, Ptr (Const ty_int), Ptr (Const ty_int), Const ty_cusparseMatDescr_t, Ptr ty_int, ty_int, ty_int, Ptr ty_int, Ptr ty_void]
       ''cusparseXcsr2gebsrNnz'' ty_cusparseStatus_t [ty_cusparseHandle_t, ty_cusparseDirection_t, ty_int, ty_int, Const ty_cusparseMatDescr_t, Ptr (Const ty_int), Ptr (Const ty_int), Const ty_cusparseMatDescr_t, Ptr ty_int, ty_int, ty_int, Ptr ty_int, Ptr ty_void] ''cusparseXcsr2gebsrNnz'' [0, 1, 2, 3, 4, 5, 6, 7, 8, 9, 10, 11, 12] False,
     Gen cusparse ty_cusparseStatus_t ''cusparseScsr2gebsr'' [ty_cusparseHandle_t, ty_cusparseDirection_t, ty_int, ty_int, Const ty_cusparseMatDescr_t, Ptr (Const ty_float), Ptr (Const ty_int), Ptr (Const ty_int), Const ty_cusparseMatDescr_t, Ptr ty_float, Ptr ty_int, Ptr ty_int, ty_int, ty_int, Ptr ty_void]
       ''cusparseScsr2gebsr'' ty_cusparseStatus_t [ty_cusparseHandle_t, ty_cusparseDirection_t, ty_int, ty_int, Const ty_cusparseMatDescr_t, Ptr (Const ty_float), Ptr (Const ty_int), Ptr (Const ty_int), Const ty_cusparseMatDescr_t, Ptr ty_float, Ptr ty_int, Ptr ty_int, ty_int, ty_int, Ptr ty_void] ''cusparseScsr2gebsr'' [0, 1, 2, 3, 4, 5, 6, 7, 8, 9, 10, 11, 12, 13, 14] False,
     Gen cusparse ty_cusparseStatus_t ''cusparseDcsr2gebsr'' [ty_cusparseHandle_t, ty_cusparseDirection_t, ty_int, ty_int, Const ty_cusparseMatDescr_t, Ptr (Const ty_double), Ptr (Const ty_int), Ptr (Const ty_int), Const ty_cusparseMatDescr_t, Ptr ty_double, Ptr ty_int, Ptr ty_int, ty_int, ty_int, Ptr ty_void]
       ''cusparseDcsr2gebsr'' ty_cusparseStatus_t [ty_cusparseHandle_t, ty_cusparseDirection_t, ty_int, ty_int, Const ty_cusparseMatDescr_t, Ptr (Const ty_double), Ptr (Const ty_int), Ptr (Const ty_int), Const ty_cusparseMatDescr_t, Ptr ty_double, Ptr ty_int, Ptr ty_int, ty_int, ty_int, Ptr ty_void] ''cusparseDcsr2gebsr'' [0, 1, 2, 3, 4, 5, 6, 7, 8, 9, 10, 11, 12, 13, 14] False,
     Gen cusparse ty_cusparseStatus_t ''cusparseCcsr2gebsr'' [ty_cusparseHandle_t, ty_cusparseDirection_t, ty_int, ty_int, Const ty_cusparseMatDescr_t, Ptr (Const ty_cuComplex), Ptr (Const ty_int), Ptr (Const ty_int), Const ty_cusparseMatDescr_t, Ptr ty_cuComplex, Ptr ty_int, Ptr ty_int, ty_int, ty_int, Ptr ty_void]
       ''cusparseCcsr2gebsr'' ty_cusparseStatus_t [ty_cusparseHandle_t, ty_cusparseDirection_t, ty_int, ty_int, Const ty_cusparseMatDescr_t, Ptr (Const ty_cuComplex), Ptr (Const ty_int), Ptr (Const ty_int), Const ty_cusparseMatDescr_t, Ptr ty_cuComplex, Ptr ty_int, Ptr ty_int, ty_int, ty_int, Ptr ty_void] ''cusparseCcsr2gebsr'' [0, 1, 2, 3, 4, 5, 6, 7, 8, 9, 10, 11, 12, 13, 14] False,
     Gen cusparse ty_cusparseStatus_t ''cusparseZcsr2gebsr'' [ty_cusparseHandle_t, ty_cusparseDirection_t, ty_int, ty_int, Const ty_cusparseMatDescr_t, Ptr (Const ty_cuDoubleComplex), Ptr (Const ty_int), Ptr (Const ty_int), Const ty_cusparseMatDescr_t, Ptr ty_cuDoubleComplex, Ptr ty_int, Ptr ty_int, ty_int, ty_int, Ptr ty_void]
       ''cusparseZcsr2gebsr'' ty_cusparseStatus_t [ty_cusparseHandle_t, ty_cusparseDirection_t, ty_int, ty_int, Const ty_cusparseMatDescr_t, Ptr (Const ty_cuDoubleComplex), Ptr (Const ty_int), Ptr (Const ty_int), Const ty_cusparseMatDescr_t, Ptr ty_cuDoubleComplex, Ptr ty_int, Ptr ty_int, ty_int, ty_int, Ptr ty_void] ''cusparseZcsr2gebsr'' [0, 1, 2, 3, 4, 5, 6, 7, 8, 9, 10, 11, 12, 13, 14] False]"

definition cusparse_hooks_33 :: "gen_hook list" where
  "cusparse_hooks_33 =
    [Gen cusparse ty_cusparseStatus_t ''cusparseSgebsr2gebsr_bufferSize'' [ty_cusparseHandle_t, ty_cusparseDirection_t, ty_int, ty_int, ty_int, Const ty_cusparseMatDescr_t, Ptr (Const ty_float), Ptr (Const ty_int), Ptr (Const ty_int), ty_int, ty_int, ty_int, ty_int, Ptr ty_int]
       ''cusparseSgebsr2gebsr_bufferSize'' ty_cusparseStatus_t [ty_cusparseHandle_t, ty_cusparseDirection_t, ty_int, ty_int, ty_int, Const ty_cusparseMatDescr_t, Ptr (Const ty_float), Ptr (Const ty_int), Ptr (Const ty_int), ty_int, ty_int, ty_int, ty_int, Ptr ty_int] ''cusparseSgebsr2gebsr_bufferSize'' [0, 1, 2, 3, 4, 5, 6, 7, 8, 9, 10, 11, 12, 13] False,
     Gen cusparse ty_cusparseStatus_t ''cusparseDgebsr2gebsr_bufferSize'' [ty_cusparseHandle_t, ty_cusparseDirection_t, ty_int, ty_int, ty_int, Const ty_cusparseMatDescr_t, Ptr (Const ty_double), Ptr (Const ty_int), Ptr (Const ty_int), ty_int, ty_int, ty_int, ty_int, Ptr ty_int]
       ''cusparseDgebsr2gebsr_bufferSize'' ty_cusparseStatus_t [ty_cusparseHandle_t, ty_cusparseDirection_t, ty_int, ty_int, ty_int, Const ty_cusparseMatDescr_t, Ptr (Const ty_double), Ptr (Const ty_int), Ptr (Const ty_int), ty_int, ty_int, ty_int, ty_int, Ptr ty_int] ''cusparseDgebsr2gebsr_bufferSize'' [0, 1, 2, 3, 4, 5, 6, 7, 8, 9, 10, 11, 12, 13] False,
     Gen cusparse ty_cusparseStatus_t ''cusparseCgebsr2gebsr_bufferSize'' [ty_cusparseHandle_t, ty_cusparseDirection_t, ty_int, ty_int, ty_int, Const ty_cusparseMatDescr_t, Ptr (Const ty_cuComplex), Ptr (Const ty_int), Ptr (Const ty_int), ty_int, ty_int, ty_int, ty_int, Ptr ty_int]
       ''cusparseCgebsr2gebsr_bufferSize'' ty_cusparseStatus_t [ty_cusparseHandle_t, ty_cusparseDirection_t, ty_int, ty_int, ty_int, Const ty_cusparseMatDescr_t, Ptr (Const ty_cuComplex), Ptr (Const ty_int), Ptr (Const ty_int), ty_int, ty_int, ty_int, ty_int, Ptr ty_int] ''cusparseCgebsr2gebsr_bufferSize'' [0, 1, 2, 3, 4, 5, 6, 7, 8, 9, 10, 11, 12, 13] False,
     Gen cusparse ty_cusparseStatus_t ''cusparseZgebsr2gebsr_bufferSize'' [ty_cusparseHandle_t, ty_cusparseDirection_t, ty_int, ty_int, ty_int, Const ty_cusparseMatDescr_t, Ptr (Const ty_cuDoubleComplex), Ptr (Const ty_int), Ptr (Const ty_int), ty_int, ty_int, ty_int, ty_int, Ptr ty_int]
       ''cusparseZgebsr2gebsr_bufferSize'' ty_cusparseStatus_t [ty_cusparseHandle_t, ty_cusparseDirection_t, ty_int, ty_int, ty_int, Const ty_cusparseMatDescr_t, Ptr (Const ty_cuDoubleComplex), Ptr (Const ty_int), Ptr (Const ty_int), ty_int, ty_int, ty_int, ty_int, Ptr ty_int] ''cusparseZgebsr2gebsr_bufferSize'' [0, 1, 2, 3, 4, 5, 6, 7, 8, 9, 10, 11, 12, 13] False,
     Gen cusparse ty_cusparseStatus_t ''cusparseSgebsr2gebsr_bufferSizeExt'' [ty_cusparseHandle_t, ty_cusparseDirection_t, ty_int, ty_int, ty_int, Const ty_cusparseMatDescr_t, Ptr (Const ty_float), Ptr (Const ty_int), Ptr (Const ty_int), ty_int, ty_int, ty_int, ty_int, Ptr ty_size_t]
       ''cusparseSgebsr2gebsr_bufferSizeExt'' ty_cusparseStatus_t [ty_cusparseHandle_t, ty_cusparseDirection_t, ty_int, ty_int, ty_int, Const ty_cusparseMatDescr_t, Ptr (Const ty_float), Ptr (Const ty_int), Ptr (Const ty_int), ty_int, ty_int, ty_int, ty_int, Ptr ty_size_t] ''cusparseSgebsr2gebsr_bufferSizeExt'' [0, 1, 2, 3, 4, 5, 6, 7, 8, 9, 10, 11, 12, 13] False,
     Gen cusparse ty_cusparseStatus_t ''cusparseDgebsr2gebsr_bufferSizeExt'' [ty_cusparseHandle_t, ty_cusparseDirection_t, ty_int, ty_int, ty_int, Const ty_cusparseMatDescr_t, Ptr (Const ty_double), Ptr (Const ty_int), Ptr (Const ty_int), ty_int, ty_int, ty_int, ty_int, Ptr ty_size_t]
       ''cusparseDgebsr2gebsr_bufferSizeExt'' ty_cusparseStatus_t [ty_cusparseHandle_t, ty_cusparseDirection_t, ty_int, ty_int, ty_int, Const ty_cusparseMatDescr_t, Ptr (Const ty_double), Ptr (Const ty_int), Ptr (Const ty_int), ty_int, ty_int, ty_int, ty_int, Ptr ty_size_t] ''cusparseDgebsr2gebsr_bufferSizeExt'' [0, 1, 2, 3, 4, 5, 6, 7, 8, 9, 10, 11, 12, 13] False,
     Gen cusparse ty_cusparseStatus_t ''cusparseCgebsr2gebsr_bufferSizeExt'' [ty_cusparseHandle_t, ty_cusparseDirection_t, ty_int, ty_int, ty_int, Const ty_cusparseMatDescr_t, Ptr (Const ty_cuComplex), Ptr (Const ty_int), Ptr (Const ty_int), ty_int, ty_int, ty_int, ty_int, Ptr ty_size_t]
       ''cusparseCgebsr2gebsr_bufferSizeExt'' ty_cusparseStatus_t [ty_cusparseHandle_t, ty_cusparseDirection_t, ty_int, ty_int, ty_int, Const ty_cusparseMatDescr_t, Ptr (Const ty_cuComplex), Ptr (Const ty_int), Ptr (Const ty_int), ty_int, ty_int, ty_int, ty_int, Ptr ty_size_t] ''cusparseCgebsr2gebsr_bufferSizeExt'' [0, 1, 2, 3, 4, 5, 6, 7, 8, 9, 10, 11, 12, 13] False,
     Gen cusparse ty_cusparseStatus_t ''cusparseZgebsr2gebsr_bufferSizeExt'' [ty_cusparseHandle_t, ty_cusparseDirection_t, ty_int, ty_int, ty_int, Const ty_cusparseMatDescr_t, Ptr (Const ty_cuDoubleComplex), Ptr (Const ty_int), Ptr (Const ty_int), ty_int, ty_int, ty_int, ty_int, Ptr ty_size_t]
       ''cusparseZgebsr2gebsr_bufferSizeExt'' ty_cusparseStatus_t [ty_cusparseHandle_t, ty_cusparseDirection_t, ty_int, ty_int, ty_int, Const ty_cusparseMatDescr_t, Ptr (Const ty_cuDoubleComplex), Ptr (Const ty_int), Ptr (Const ty_int), ty_int, ty_int, ty_int, ty_int, Ptr ty_size_t] ''cusparseZgebsr2gebsr_bufferSizeExt'' [0, 1, 2, 3, 4, 5, 6, 7, 8, 9, 10, 11, 12, 13] False,
     Gen cusparse ty_cusparseStatus_t ''cusparseXgebsr2gebsrNnz'' [ty_cusparseHandle_t, ty_cusparseDirection_t, ty_int, ty_int, ty_int, Const ty_cusparseMatDescr_t, Ptr (Const ty_int), Ptr (Const ty_int), ty_int, ty_int, Const ty_cusparseMatDescr_t, Ptr ty_int, ty_int, ty_int, Ptr ty_int, Ptr ty_void]
       ''cusparseXgebsr2gebsrNnz'' ty_cusparseStatus_t [ty_cusparseHandle_t, ty_cusparseDirection_t, ty_int, ty_int, ty_int, Const ty_cusparseMatDescr_t, Ptr (Const ty_int), Ptr (Const ty_int), ty_int, ty_int, Const ty_cusparseMatDescr_t, Ptr ty_int, ty_int, ty_int, Ptr ty_int, Ptr ty_void] ''cusparseXgebsr2gebsrNnz'' [0, 1, 2, 3, 4, 5, 6, 7, 8, 9, 10, 11, 12, 13, 14, 15] False,
     Gen cusparse ty_cusparseStatus_t ''cusparseSgebsr2gebsr'' [ty_cusparseHandle_t, ty_cusparseDirection_t, ty_int, ty_int, ty_int, Const ty_cusparseMatDescr_t, Ptr (Const ty_float), Ptr (Const ty_int), Ptr (Const ty_int), ty_int, ty_int, Const ty_cusparseMatDescr_t, Ptr ty_float, Ptr ty_int, Ptr ty_int, ty_int, ty_int, Ptr ty_void]
       ''cusparseSgebsr2gebsr'' ty_cusparseStatus_t [ty_cusparseHandle_t, ty_cusparseDirection_t, ty_int, ty_int, ty_int, Const ty_cusparseMatDescr_t, Ptr (Const ty_float), Ptr (Const ty_int), Ptr (Const ty_int), ty_int, ty_int, Const ty_cusparseMatDescr_t, Ptr ty_float, Ptr ty_int, Ptr ty_int, ty_int, ty_int, Ptr ty_void] ''cusparseSgebsr2gebsr'' [0, 1, 2, 3, 4, 5, 6, 7, 8, 9, 10, 11, 12, 13, 14, 15, 16, 17] False]"

definition cusparse_hooks_34 :: "gen_hook list" where
  "cusparse_hooks_34 =
    [Gen cusparse ty_cusparseStatus_t ''cusparseDgebsr2gebsr'' [ty_cusparseHandle_t, ty_cusparseDirection_t, ty_int, ty_int, ty_int, Const ty_cusparseMatDescr_t, Ptr (Const ty_double), Ptr (Const ty_int), Ptr (Const ty_int), ty_int, ty_int, Const ty_cusparseMatDescr_t, Ptr ty_double, Ptr ty_int, Ptr ty_int, ty_int, ty_int, Ptr ty_void]
       ''cusparseDgebsr2gebsr'' ty_cusparseStatus_t [ty_cusparseHandle_t, ty_cusparseDirection_t, ty_int, ty_int, ty_int, Const ty_cusparseMatDescr_t, Ptr (Const ty_double), Ptr (Const ty_int), Ptr (Const ty_int), ty_int, ty_int, Const ty_cusparseMatDescr_t, Ptr ty_double, Ptr ty_int, Ptr ty_int, ty_int, ty_int, Ptr ty_void] ''cusparseDgebsr2gebsr'' [0, 1, 2, 3, 4, 5, 6, 7, 8, 9, 10, 11, 12, 13, 14, 15, 16, 17] False,
     Gen cusparse ty_cusparseStatus_t ''cusparseCgebsr2gebsr'' [ty_cusparseHandle_t, ty_cusparseDirection_t, ty_int, ty_int, ty_int, Const ty_cusparseMatDescr_t, Ptr (Const ty_cuComplex), Ptr (Const ty_int), Ptr (Const ty_int), ty_int, ty_int, Const ty_cusparseMatDescr_t, Ptr ty_cuComplex, Ptr ty_int, Ptr ty_int, ty_int, ty_int, Ptr ty_void]
       ''cusparseCgebsr2gebsr'' ty_cusparseStatus_t [ty_cusparseHandle_t, ty_cusparseDirection_t, ty_int, ty_int, ty_int, Const ty_cusparseMatDescr_t, Ptr (Const ty_cuComplex), Ptr (Const ty_int), Ptr (Const ty_int), ty_int, ty_int, Const ty_cusparseMatDescr_t, Ptr ty_cuComplex, Ptr ty_int, Ptr ty_int, ty_int, ty_int, Ptr ty_void] ''cusparseCgebsr2gebsr'' [0, 1, 2, 3, 4, 5, 6, 7, 8, 9, 10, 11, 12, 13, 14, 15, 16, 17] False,
     Gen cusparse ty_cusparseStatus_t ''cusparseZgebsr2gebsr'' [ty_cusparseHandle_t, ty_cusparseDirection_t, ty_int, ty_int, ty_int, Const ty_cusparseMatDescr_t, Ptr (Const ty_cuDoubleComplex), Ptr (Const ty_int), Ptr (Const ty_int), ty_int, ty_int, Const ty_cusparseMatDescr_t, Ptr ty_cuDoubleComplex, Ptr ty_int, Ptr ty_int, ty_int, ty_int, Ptr ty_void]
       ''cusparseZgebsr2gebsr'' ty_cusparseStatus_t [ty_cusparseHandle_t, ty_cusparseDirection_t, ty_int, ty_int, ty_int, Const ty_cusparseMatDescr_t, Ptr (Const ty_cuDoubleComplex), Ptr (Const ty_int), Ptr (Const ty_int), ty_int, ty_int, Const ty_cusparseMatDescr_t, Ptr ty_cuDoubleComplex, Ptr ty_int, Ptr ty_int, ty_int, ty_int, Ptr ty_void] ''cusparseZgebsr2gebsr'' [0, 1, 2, 3, 4, 5, 6, 7, 8, 9, 10, 11, 12, 13, 14, 15, 16, 17] False,
     Gen cusparse ty_cusparseStatus_t ''cusparseCreateIdentityPermutation'' [ty_cusparseHandle_t, ty_int, Ptr ty_int]
       ''cusparseCreateIdentityPermutation'' ty_cusparseStatus_t [ty_cusparseHandle_t, ty_int, Ptr ty_int] ''cusparseCreateIdentityPermutation'' [0, 1, 2] False,
     Gen cusparse ty_cusparseStatus_t ''cusparseXcoosort_bufferSizeExt'' [ty_cusparseHandle_t, ty_int, ty_int, ty_int, Ptr (Const ty_int), Ptr (Const ty_int), Ptr ty_size_t]
       ''cusparseXcoosort_bufferSizeExt'' ty_cusparseStatus_t [ty_cusparseHandle_t, ty_int, ty_int, ty_int, Ptr (Const ty_int), Ptr (Const ty_int), Ptr ty_size_t] ''cusparseXcoosort_bufferSizeExt'' [0, 1, 2, 3, 4, 5, 6] False,
     Gen cusparse ty_cusparseStatus_t ''cusparseXcoosortByRow'' [ty_cusparseHandle_t, ty_int, ty_int, ty_int, Ptr ty_int, Ptr ty_int, Ptr ty_int, Ptr ty_void]
       ''cusparseXcoosortByRow'' ty_cusparseStatus_t [ty_cusparseHandle_t, ty_int, ty_int, ty_int, Ptr ty_int, Ptr ty_int, Ptr ty_int, Ptr ty_void] ''cusparseXcoosortByRow'' [0, 1, 2, 3, 4, 5, 6, 7] False,
     Gen cusparse ty_cusparseStatus_t ''cusparseXcoosortByColumn'' [ty_cusparseHandle_t, ty_int, ty_int, ty_int, Ptr ty_int, Ptr ty_int, Ptr ty_int, Ptr ty_void]
       ''cusparseXcoosortByColumn'' ty_cusparseStatus_t [ty_cusparseHandle_t, ty_int, ty_int, ty_int, Ptr ty_int, Ptr ty_int, Ptr ty_int, Ptr ty_void] ''cusparseXcoosortByColumn'' [0, 1, 2, 3, 4, 5, 6, 7] False,
     Gen cusparse ty_cusparseStatus_t ''cusparseXcsrsort_bufferSizeExt'' [ty_cusparseHandle_t, ty_int, ty_int, ty_int, Ptr (Const ty_int), Ptr (Const ty_int), Ptr ty_size_t]
       ''cusparseXcsrsort_bufferSizeExt'' ty_cusparseStatus_t [ty_cusparseHandle_t, ty_int, ty_int, ty_int, Ptr (Const ty_int), Ptr (Const ty_int), Ptr ty_size_t] ''cusparseXcsrsort_bufferSizeExt'' [0, 1, 2, 3, 4, 5, 6] False,
     Gen cusparse ty_cusparseStatus_t ''cusparseXcsrsort'' [ty_cusparseHandle_t, ty_int, ty_int, ty_int, Const ty_cusparseMatDescr_t, Ptr (Const ty_int), Ptr ty_int, Ptr ty_int, Ptr ty_void]
       ''cusparseXcsrsort'' ty_cusparseStatus_t [ty_cusparseHandle_t, ty_int, ty_int, ty_int, Const ty_cusparseMatDescr_t, Ptr (Const ty_int), Ptr ty_int, Ptr ty_int, Ptr ty_void] ''cusparseXcsrsort'' [0, 1, 2, 3, 4, 5, 6, 7, 8] False,
     Gen cusparse ty_cusparseStatus_t ''cusparseXcscsort_bufferSizeExt'' [ty_cusparseHandle_t, ty_int, ty_int, ty_int, Ptr (Const ty_int), Ptr (Const ty_int), Ptr ty_size_t]
       ''cusparseXcscsort_bufferSizeExt'' ty_cusparseStatus_t [ty_cusparseHandle_t, ty_int, ty_int, ty_int, Ptr (Const ty_int), Ptr (Const ty_int), Ptr ty_size_t] ''cusparseXcscsort_bufferSizeExt'' [0, 1, 2, 3, 4, 5, 6] False,
     Gen cusparse ty_cusparseStatus_t ''cusparseXcscsort'' [ty_cusparseHandle_t, ty_int, ty_int, ty_int, Const ty_cusparseMatDescr_t, Ptr (Const ty_int), Ptr ty_int, Ptr ty_int, Ptr ty_void]
       ''cusparseXcscsort'' ty_cusparseStatus_t [ty_cusparseHandle_t, ty_int, ty_int, ty_int, Const ty_cusparseMatDescr_t, Ptr (Const ty_int), Ptr ty_int, Ptr ty_int, Ptr ty_void] ''cusparseXcscsort'' [0, 1, 2, 3, 4, 5, 6, 7, 8] False,
     Gen cusparse ty_cusparseStatus_t ''cusparseScsru2csr_bufferSizeExt'' [ty_cusparseHandle_t, ty_int, ty_int, ty_int, Ptr ty_float, Ptr (Const ty_int), Ptr ty_int, ty_csru2csrInfo_t, Ptr ty_size_t]
       ''cusparseScsru2csr_bufferSizeExt'' ty_cusparseStatus_t [ty_cusparseHandle_t, ty_int, ty_int, ty_int, Ptr ty_float, Ptr (Const ty_int), Ptr ty_int, ty_csru2csrInfo_t, Ptr ty_size_t] ''cusparseScsru2csr_bufferSizeExt'' [0, 1, 2, 3, 4, 5, 6, 7, 8] False]"

definition cusparse_hooks_35 :: "gen_hook list" where
  "cusparse_hooks_35 =
    [Gen cusparse ty_cusparseStatus_t ''cusparseDcsru2csr_bufferSizeExt'' [ty_cusparseHandle_t, ty_int, ty_int, ty_int, Ptr ty_double, Ptr (Const ty_int), Ptr ty_int, ty_csru2csrInfo_t, Ptr ty_size_t]
       ''cusparseDcsru2csr_bufferSizeExt'' ty_cusparseStatus_t [ty_cusparseHandle_t, ty_int, ty_int, ty_int, Ptr ty_double, Ptr (Const ty_int), Ptr ty_int, ty_csru2csrInfo_t, Ptr ty_size_t] ''cusparseDcsru2csr_bufferSizeExt'' [0, 1, 2, 3, 4, 5, 6, 7, 8] False,
     Gen cusparse ty_cusparseStatus_t ''cusparseCcsru2csr_bufferSizeExt'' [ty_cusparseHandle_t, ty_int, ty_int, ty_int, Ptr ty_cuComplex, Ptr (Const ty_int), Ptr ty_int, ty_csru2csrInfo_t, Ptr ty_size_t]
       ''cusparseCcsru2csr_bufferSizeExt'' ty_cusparseStatus_t [ty_cusparseHandle_t, ty_int, ty_int, ty_int, Ptr ty_cuComplex, Ptr (Const ty_int), Ptr ty_int, ty_csru2csrInfo_t, Ptr ty_size_t] ''cusparseCcsru2csr_bufferSizeExt'' [0, 1, 2, 3, 4, 5, 6, 7, 8] False,
     Gen cusparse ty_cusparseStatus_t ''cusparseZcsru2csr_bufferSizeExt'' [ty_cusparseHandle_t, ty_int, ty_int, ty_int, Ptr ty_cuDoubleComplex, Ptr (Const ty_int), Ptr ty_int, ty_csru2csrInfo_t, Ptr ty_size_t]
       ''cusparseZcsru2csr_bufferSizeExt'' ty_cusparseStatus_t [ty_cusparseHandle_t, ty_int, ty_int, ty_int, Ptr ty_cuDoubleComplex, Ptr (Const ty_int), Ptr ty_int, ty_csru2csrInfo_t, Ptr ty_size_t] ''cusparseZcsru2csr_bufferSizeExt'' [0, 1, 2, 3, 4, 5, 6, 7, 8] False,
     Gen cusparse ty_cusparseStatus_t ''cusparseScsru2csr'' [ty_cusparseHandle_t, ty_int, ty_int, ty_int, Const ty_cusparseMatDescr_t, Ptr ty_float, Ptr (Const ty_int), Ptr ty_int, ty_csru2csrInfo_t, Ptr ty_void]
       ''cusparseScsru2csr'' ty_cusparseStatus_t [ty_cusparseHandle_t, ty_int, ty_int, ty_int, Const ty_cusparseMatDescr_t, Ptr ty_float, Ptr (Const ty_int), Ptr ty_int, ty_csru2csrInfo_t, Ptr ty_void] ''cusparseScsru2csr'' [0, 1, 2, 3, 4, 5, 6, 7, 8, 9] False,
     Gen cusparse ty_cusparseStatus_t ''cusparseDcsru2csr'' [ty_cusparseHandle_t, ty_int, ty_int, ty_int, Const ty_cusparseMatDescr_t, Ptr ty_double, Ptr (Const ty_int), Ptr ty_int, ty_csru2csrInfo_t, Ptr ty_void]
       ''cusparseDcsru2csr'' ty_cusparseStatus_t [ty_cusparseHandle_t, ty_int, ty_int, ty_int, Const ty_cusparseMatDescr_t, Ptr ty_double, Ptr (Const ty_int), Ptr ty_int, ty_csru2csrInfo_t, Ptr ty_void] ''cusparseDcsru2csr'' [0, 1, 2, 3, 4, 5, 6, 7, 8, 9] False,
     Gen cusparse ty_cusparseStatus_t ''cusparseCcsru2csr'' [ty_cusparseHandle_t, ty_int, ty_int, ty_int, Const ty_cusparseMatDescr_t, Ptr ty_cuComplex, Ptr (Const ty_int), Ptr ty_int, ty_csru2csrInfo_t, Ptr ty_void]
       ''cusparseCcsru2csr'' ty_cusparseStatus_t [ty_cusparseHandle_t, ty_int, ty_int, ty_int, Const ty_cusparseMatDescr_t, Ptr ty_cuComplex, Ptr (Const ty_int), Ptr ty_int, ty_csru2csrInfo_t, Ptr ty_void] ''cusparseCcsru2csr'' [0, 1, 2, 3, 4, 5, 6, 7, 8, 9] False,
     Gen cusparse ty_cusparseStatus_t ''cusparseZcsru2csr'' [ty_cusparseHandle_t, ty_int, ty_int, ty_int, Const ty_cusparseMatDescr_t, Ptr ty_cuDoubleComplex, Ptr (Const ty_int), Ptr ty_int, ty_csru2csrInfo_t, Ptr ty_void]
       ''cusparseZcsru2csr'' ty_cusparseStatus_t [ty_cusparseHandle_t, ty_int, ty_int, ty_int, Const ty_cusparseMatDescr_t, Ptr ty_cuDoubleComplex, Ptr (Const ty_int), Ptr ty_int, ty_csru2csrInfo_t, Ptr ty_void] ''cusparseZcsru2csr'' [0, 1, 2, 3, 4, 5, 6, 7, 8, 9] False,
     Gen cusparse ty_cusparseStatus_t ''cusparseScsr2csru'' [ty_cusparseHandle_t, ty_int, ty_int, ty_int, Const ty_cusparseMatDescr_t, Ptr ty_float, Ptr (Const ty_int), Ptr ty_int, ty_csru2csrInfo_t, Ptr ty_void]
       ''cusparseScsr2csru'' ty_cusparseStatus_t [ty_cusparseHandle_t, ty_int, ty_int, ty_int, Const ty_cusparseMatDescr_t, Ptr ty_float, Ptr (Const ty_int), Ptr ty_int, ty_csru2csrInfo_t, Ptr ty_void] ''cusparseScsr2csru'' [0, 1, 2, 3, 4, 5, 6, 7, 8, 9] False,
     Gen cusparse ty_cusparseStatus_t ''cusparseDcsr2csru'' [ty_cusparseHandle_t, ty_int, ty_int, ty_int, Const ty_cusparseMatDescr_t, Ptr ty_double, Ptr (Const ty_int), Ptr ty_int, ty_csru2csrInfo_t, Ptr ty_void]
       ''cusparseDcsr2csru'' ty_cusparseStatus_t [ty_cusparseHandle_t, ty_int, ty_int, ty_int, Const ty_cusparseMatDescr_t, Ptr ty_double, Ptr (Const ty_int), Ptr ty_int, ty_csru2csrInfo_t, Ptr ty_void] ''cusparseDcsr2csru'' [0, 1, 2, 3, 4, 5, 6, 7, 8, 9] False,
     Gen cusparse ty_cusparseStatus_t ''cusparseCcsr2csru'' [ty_cusparseHandle_t, ty_int, ty_int, ty_int, Const ty_cusparseMatDescr_t, Ptr ty_cuComplex, Ptr (Const ty_int), Ptr ty_int, ty_csru2csrInfo_t, Ptr ty_void]
       ''cusparseCcsr2csru'' ty_cusparseStatus_t [ty_cusparseHandle_t, ty_int, ty_int, ty_int, Const ty_cusparseMatDescr_t, Ptr ty_cuComplex, Ptr (Const ty_int), Ptr ty_int, ty_csru2csrInfo_t, Ptr ty_void] ''cusparseCcsr2csru'' [0, 1, 2, 3, 4, 5, 6, 7, 8, 9] False,
     Gen cusparse ty_cusparseStatus_t ''cusparseZcsr2csru'' [ty_cusparseHandle_t, ty_int, ty_int, ty_int, Const ty_cusparseMatDescr_t, Ptr ty_cuDoubleComplex, Ptr (Const ty_int), Ptr ty_int, ty_csru2csrInfo_t, Ptr ty_void]
       ''cusparseZcsr2csru'' ty_cusparseStatus_t [ty_cusparseHandle_t, ty_int, ty_int, ty_int, Const ty_cusparseMatDescr_t, Ptr ty_cuDoubleComplex, Ptr (Const ty_int), Ptr ty_int, ty_csru2csrInfo_t, Ptr ty_void] ''cusparseZcsr2csru'' [0, 1, 2, 3, 4, 5, 6, 7, 8, 9] False,
     Gen cusparse ty_cusparseStatus_t ''cusparseHpruneDense2csr_bufferSizeExt'' [ty_cusparseHandle_t, ty_int, ty_int, Ptr (Const ty_half), ty_int, Ptr (Const ty_half), Const ty_cusparseMatDescr_t, Ptr (Const ty_half), Ptr (Const ty_int), Ptr (Const ty_int), Ptr ty_size_t]
       ''cusparseHpruneDense2csr_bufferSizeExt'' ty_cusparseStatus_t [ty_cusparseHandle_t, ty_int, ty_int, Ptr (Const ty_half), ty_int, Ptr (Const ty_half), Const ty_cusparseMatDescr_t, Ptr (Const ty_half), Ptr (Const ty_int), Ptr (Const ty_int), Ptr ty_size_t] ''cusparseHpruneDense2csr_bufferSizeExt'' [0, 1, 2, 3, 4, 5, 6, 7, 8, 9, 10] False]"

definition cusparse_hooks_36 :: "gen_hook list" where
  "cusparse_hooks_36 =
    [Gen cusparse ty_cusparseStatus_t ''cusparseSpruneDense2csr_bufferSizeExt'' [ty_cusparseHandle_t, ty_int, ty_int, Ptr (Const ty_float), ty_int, Ptr (Const ty_float), Const ty_cusparseMatDescr_t, Ptr (Const ty_float), Ptr (Const ty_int), Ptr (Const ty_int), Ptr ty_size_t]
       ''cusparseSpruneDense2csr_bufferSizeExt'' ty_cusparseStatus_t [ty_cusparseHandle_t, ty_int, ty_int, Ptr (Const ty_float), ty_int, Ptr (Const ty_float), Const ty_cusparseMatDescr_t, Ptr (Const ty_float), Ptr (Const ty_int), Ptr (Const ty_int), Ptr ty_size_t] ''cusparseSpruneDense2csr_bufferSizeExt'' [0, 1, 2, 3, 4, 5, 6, 7, 8, 9, 10] False,
     Gen cusparse ty_cusparseStatus_t ''cusparseDpruneDense2csr_bufferSizeExt'' [ty_cusparseHandle_t, ty_int, ty_int, Ptr (Const ty_double), ty_int, Ptr (Const ty_double), Const ty_cusparseMatDescr_t, Ptr (Const ty_double), Ptr (Const ty_int), Ptr (Const ty_int), Ptr ty_size_t]
       ''cusparseDpruneDense2csr_bufferSizeExt'' ty_cusparseStatus_t [ty_cusparseHandle_t, ty_int, ty_int, Ptr (Const ty_double), ty_int, Ptr (Const ty_double), Const ty_cusparseMatDescr_t, Ptr (Const ty_double), Ptr (Const ty_int), Ptr (Const ty_int), Ptr ty_size_t] ''cusparseDpruneDense2csr_bufferSizeExt'' [0, 1, 2, 3, 4, 5, 6, 7, 8, 9, 10] False,
     Gen cusparse ty_cusparseStatus_t ''cusparseHpruneDense2csrNnz'' [ty_cusparseHandle_t, ty_int, ty_int, Ptr (Const ty_half), ty_int, Ptr (Const ty_half), Const ty_cusparseMatDescr_t, Ptr ty_int, Ptr ty_int, Ptr ty_void]
       ''cusparseHpruneDense2csrNnz'' ty_cusparseStatus_t [ty_cusparseHandle_t, ty_int, ty_int, Ptr (Const ty_half), ty_int, Ptr (Const ty_half), Const ty_cusparseMatDescr_t, Ptr ty_int, Ptr ty_int, Ptr ty_void] ''cusparseHpruneDense2csrNnz'' [0, 1, 2, 3, 4, 5, 6, 7, 8, 9] False,
     Gen cusparse ty_cusparseStatus_t ''cusparseSpruneDense2csrNnz'' [ty_cusparseHandle_t, ty_int, ty_int, Ptr (Const ty_float), ty_int, Ptr (Const ty_float), Const ty_cusparseMatDescr_t, Ptr ty_int, Ptr ty_int, Ptr ty_void]
       ''cusparseSpruneDense2csrNnz'' ty_cusparseStatus_t [ty_cusparseHandle_t, ty_int, ty_int, Ptr (Const ty_float), ty_int, Ptr (Const ty_float), Const ty_cusparseMatDescr_t, Ptr ty_int, Ptr ty_int, Ptr ty_void] ''cusparseSpruneDense2csrNnz'' [0, 1, 2, 3, 4, 5, 6, 7, 8, 9] False,
     Gen cusparse ty_cusparseStatus_t ''cusparseDpruneDense2csrNnz'' [ty_cusparseHandle_t, ty_int, ty_int, Ptr (Const ty_double), ty_int, Ptr (Const ty_double), Const ty_cusparseMatDescr_t, Ptr ty_int, Ptr ty_int, Ptr ty_void]
       ''cusparseDpruneDense2csrNnz'' ty_cusparseStatus_t [ty_cusparseHandle_t, ty_int, ty_int, Ptr (Const ty_double), ty_int, Ptr (Const ty_double), Const ty_cusparseMatDescr_t, Ptr ty_int, Ptr ty_int, Ptr ty_void] ''cusparseDpruneDense2csrNnz'' [0, 1, 2, 3, 4, 5, 6, 7, 8, 9] False,
     Gen cusparse ty_cusparseStatus_t ''cusparseHpruneDense2csr'' [ty_cusparseHandle_t, ty_int, ty_int, Ptr (Const ty_half), ty_int, Ptr (Const ty_half), Const ty_cusparseMatDescr_t, Ptr ty_half, Ptr (Const ty_int), Ptr ty_int, Ptr ty_void]
       ''cusparseHpruneDense2csr'' ty_cusparseStatus_t [ty_cusparseHandle_t, ty_int, ty_int, Ptr (Const ty_half), ty_int, Ptr (Const ty_half), Const ty_cusparseMatDescr_t, Ptr ty_half, Ptr (Const ty_int), Ptr ty_int, Ptr ty_void] ''cusparseHpruneDense2csr'' [0, 1, 2, 3, 4, 5, 6, 7, 8, 9, 10] False,
     Gen cusparse ty_cusparseStatus_t ''cusparseSpruneDense2csr'' [ty_cusparseHandle_t, ty_int, ty_int, Ptr (Const ty_float), ty_int, Ptr (Const ty_float), Const ty_cusparseMatDescr_t, Ptr ty_float, Ptr (Const ty_int), Ptr ty_int, Ptr ty_void]
       ''cusparseSpruneDense2csr'' ty_cusparseStatus_t [ty_cusparseHandle_t, ty_int, ty_int, Ptr (Const ty_float), ty_int, Ptr (Const ty_float), Const ty_cusparseMatDescr_t, Ptr ty_float, Ptr (Const ty_int), Ptr ty_int, Ptr ty_void] ''cusparseSpruneDense2csr'' [0, 1, 2, 3, 4, 5, 6, 7, 8, 9, 10] False,
     Gen cusparse ty_cusparseStatus_t ''cusparseDpruneDense2csr'' [ty_cusparseHandle_t, ty_int, ty_int, Ptr (Const ty_double), ty_int, Ptr (Const ty_double), Const ty_cusparseMatDescr_t, Ptr ty_double, Ptr (Const ty_int), Ptr ty_int, Ptr ty_void]
       ''cusparseDpruneDense2csr'' ty_cusparseStatus_t [ty_cusparseHandle_t, ty_int, ty_int, Ptr (Const ty_double), ty_int, Ptr (Const ty_double), Const ty_cusparseMatDescr_t, Ptr ty_double, Ptr (Const ty_int), Ptr ty_int, Ptr ty_void] ''cusparseDpruneDense2csr'' [0, 1, 2, 3, 4, 5, 6, 7, 8, 9, 10] False,
     Gen cusparse ty_cusparseStatus_t ''cusparseHpruneCsr2csr_bufferSizeExt'' [ty_cusparseHandle_t, ty_int, ty_int, ty_int, Const ty_cusparseMatDescr_t, Ptr (Const ty_half), Ptr (Const ty_int), Ptr (Const ty_int), Ptr (Const ty_half), Const ty_cusparseMatDescr_t, Ptr (Const ty_half), Ptr (Const ty_int), Ptr (Const ty_int), Ptr ty_size_t]
       ''cusparseHpruneCsr2csr_bufferSizeExt'' ty_cusparseStatus_t [ty_cusparseHandle_t, ty_int, ty_int, ty_int, Const ty_cusparseMatDescr_t, Ptr (Const ty_half), Ptr (Const ty_int), Ptr (Const ty_int), Ptr (Const ty_half), Const ty_cusparseMatDescr_t, Ptr (Const ty_half), Ptr (Const ty_int), Ptr (Const ty_int), Ptr ty_size_t] ''cusparseHpruneCsr2csr_bufferSizeExt'' [0, 1, 2, 3, 4, 5, 6, 7, 8, 9, 10, 11, 12, 13] False,
     Gen cusparse ty_cusparseStatus_t ''cusparseSpruneCsr2csr_bufferSizeExt'' [ty_cusparseHandle_t, ty_int, ty_int, ty_int, Const ty_cusparseMatDescr_t, Ptr (Const ty_float), Ptr (Const ty_int), Ptr (Const ty_int), Ptr (Const ty_float), Const ty_cusparseMatDescr_t, Ptr (Const ty_float), Ptr (Const ty_int), Ptr (Const ty_int), Ptr ty_size_t]
       ''cusparseSpruneCsr2csr_bufferSizeExt'' ty_cusparseStatus_t [ty_cusparseHandle_t, ty_int, ty_int, ty_int, Const ty_cusparseMatDescr_t, Ptr (Const ty_float), Ptr (Const ty_int), Ptr (Const ty_int), Ptr (Const ty_float), Const ty_cusparseMatDescr_t, Ptr (Const ty_float), Ptr (Const ty_int), Ptr (Const ty_int), Ptr ty_size_t] ''cusparseSpruneCsr2csr_bufferSizeExt'' [0, 1, 2, 3, 4, 5, 6, 7, 8, 9, 10, 11, 12, 13] False,
     Gen cusparse ty_cusparseStatus_t ''cusparseDpruneCsr2csr_bufferSizeExt'' [ty_cusparseHandle_t, ty_int, ty_int, ty_int, Const ty_cusparseMatDescr_t, Ptr (Const ty_double), Ptr (Const ty_int), Ptr (Const ty_int), Ptr (Const ty_double), Const ty_cusparseMatDescr_t, Ptr (Const ty_double), Ptr (Const ty_int), Ptr (Const ty_int), Ptr ty_size_t]
       ''cusparseDpruneCsr2csr_bufferSizeExt'' ty_cusparseStatus_t [ty_cusparseHandle_t, ty_int, ty_int, ty_int, Const ty_cusparseMatDescr_t, Ptr (Const ty_double), Ptr (Const ty_int), Ptr (Const ty_int), Ptr (Const ty_double), Const ty_cusparseMatDescr_t, Ptr (Const ty_double), Ptr (Const ty_int), Ptr (Const ty_int), Ptr ty_size_t] ''cusparseDpruneCsr2csr_bufferSizeExt'' [0, 1, 2, 3, 4, 5, 6, 7, 8, 9, 10, 11, 12, 13] False]"

definition cusparse_hooks_37 :: "gen_hook list" where
  "cusparse_hooks_37 =
    [Gen cusparse ty_cusparseStatus_t ''cusparseHpruneCsr2csrNnz'' [ty_cusparseHandle_t, ty_int, ty_int, ty_int, Const ty_cusparseMatDescr_t, Ptr (Const ty_half), Ptr (Const ty_int), Ptr (Const ty_int), Ptr (Const ty_half), Const ty_cusparseMatDescr_t, Ptr ty_int, Ptr ty_int, Ptr ty_void]
       ''cusparseHpruneCsr2csrNnz'' ty_cusparseStatus_t [ty_cusparseHandle_t, ty_int, ty_int, ty_int, Const ty_cusparseMatDescr_t, Ptr (Const ty_half), Ptr (Const ty_int), Ptr (Const ty_int), Ptr (Const ty_half), Const ty_cusparseMatDescr_t, Ptr ty_int, Ptr ty_int, Ptr ty_void] ''cusparseHpruneCsr2csrNnz'' [0, 1, 2, 3, 4, 5, 6, 7, 8, 9, 10, 11, 12] False,
     Gen cusparse ty_cusparseStatus_t ''cusparseSpruneCsr2csrNnz'' [ty_cusparseHandle_t, ty_int, ty_int, ty_int, Const ty_cusparseMatDescr_t, Ptr (Const ty_float), Ptr (Const ty_int), Ptr (Const ty_int), Ptr (Const ty_float), Const ty_cusparseMatDescr_t, Ptr ty_int, Ptr ty_int, Ptr ty_void]
       ''cusparseSpruneCsr2csrNnz'' ty_cusparseStatus_t [ty_cusparseHandle_t, ty_int, ty_int, ty_int, Const ty_cusparseMatDescr_t, Ptr (Const ty_float), Ptr (Const ty_int), Ptr (Const ty_int), Ptr (Const ty_float), Const ty_cusparseMatDescr_t, Ptr ty_int, Ptr ty_int, Ptr ty_void] ''cusparseSpruneCsr2csrNnz'' [0, 1, 2, 3, 4, 5, 6, 7, 8, 9, 10, 11, 12] False,
     Gen cusparse ty_cusparseStatus_t ''cusparseDpruneCsr2csrNnz'' [ty_cusparseHandle_t, ty_int, ty_int, ty_int, Const ty_cusparseMatDescr_t, Ptr (Const ty_double), Ptr (Const ty_int), Ptr (Const ty_int), Ptr (Const ty_double), Const ty_cusparseMatDescr_t, Ptr ty_int, Ptr ty_int, Ptr ty_void]
       ''cusparseDpruneCsr2csrNnz'' ty_cusparseStatus_t [ty_cusparseHandle_t, ty_int, ty_int, ty_int, Const ty_cusparseMatDescr_t, Ptr (Const ty_double), Ptr (Const ty_int), Ptr (Const ty_int), Ptr (Const ty_double), Const ty_cusparseMatDescr_t, Ptr ty_int, Ptr ty_int, Ptr ty_void] ''cusparseDpruneCsr2csrNnz'' [0, 1, 2, 3, 4, 5, 6, 7, 8, 9, 10, 11, 12] False,
     Gen cusparse ty_cusparseStatus_t ''cusparseHpruneCsr2csr'' [ty_cusparseHandle_t, ty_int, ty_int, ty_int, Const ty_cusparseMatDescr_t, Ptr (Const ty_half), Ptr (Const ty_int), Ptr (Const ty_int), Ptr (Const ty_half), Const ty_cusparseMatDescr_t, Ptr ty_half, Ptr (Const ty_int), Ptr ty_int, Ptr ty_void]
       ''cusparseHpruneCsr2csr'' ty_cusparseStatus_t [ty_cusparseHandle_t, ty_int, ty_int, ty_int, Const ty_cusparseMatDescr_t, Ptr (Const ty_half), Ptr (Const ty_int), Ptr (Const ty_int), Ptr (Const ty_half), Const ty_cusparseMatDescr_t, Ptr ty_half, Ptr (Const ty_int), Ptr ty_int, Ptr ty_void] ''cusparseHpruneCsr2csr'' [0, 1, 2, 3, 4, 5, 6, 7, 8, 9, 10, 11, 12, 13] False,
     Gen cusparse ty_cusparseStatus_t ''cusparseSpruneCsr2csr'' [ty_cusparseHandle_t, ty_int, ty_int, ty_int, Const ty_cusparseMatDescr_t, Ptr (Const ty_float), Ptr (Const ty_int), Ptr (Const ty_int), Ptr (Const ty_float), Const ty_cusparseMatDescr_t, Ptr ty_float, Ptr (Const ty_int), Ptr ty_int, Ptr ty_void]
       ''cusparseSpruneCsr2csr'' ty_cusparseStatus_t [ty_cusparseHandle_t, ty_int, ty_int, ty_int, Const ty_cusparseMatDescr_t, Ptr (Const ty_float), Ptr (Const ty_int), Ptr (Const ty_int), Ptr (Const ty_float), Const ty_cusparseMatDescr_t, Ptr ty_float, Ptr (Const ty_int), Ptr ty_int, Ptr ty_void] ''cusparseSpruneCsr2csr'' [0, 1, 2, 3, 4, 5, 6, 7, 8, 9, 10, 11, 12, 13] False,
     Gen cusparse ty_cusparseStatus_t ''cusparseDpruneCsr2csr'' [ty_cusparseHandle_t, ty_int, ty_int, ty_int, Const ty_cusparseMatDescr_t, Ptr (Const ty_double), Ptr (Const ty_int), Ptr (Const ty_int), Ptr (Const ty_double), Const ty_cusparseMatDescr_t, Ptr ty_double, Ptr (Const ty_int), Ptr ty_int, Ptr ty_void]
       ''cusparseDpruneCsr2csr'' ty_cusparseStatus_t [ty_cusparseHandle_t, ty_int, ty_int, ty_int, Const ty_cusparseMatDescr_t, Ptr (Const ty_double), Ptr (Const ty_int), Ptr (Const ty_int), Ptr (Const ty_double), Const ty_cusparseMatDescr_t, Ptr ty_double, Ptr (Const ty_int), Ptr ty_int, Ptr ty_void] ''cusparseDpruneCsr2csr'' [0, 1, 2, 3, 4, 5, 6, 7, 8, 9, 10, 11, 12, 13] False,
     Gen cusparse ty_cusparseStatus_t ''cusparseHpruneDense2csrByPercentage_bufferSizeExt'' [ty_cusparseHandle_t, ty_int, ty_int, Ptr (Const ty_half), ty_int, ty_float, Const ty_cusparseMatDescr_t, Ptr (Const ty_half), Ptr (Const ty_int), Ptr (Const ty_int), ty_pruneInfo_t, Ptr ty_size_t]
       ''cusparseHpruneDense2csrByPercentage_bufferSizeExt'' ty_cusparseStatus_t [ty_cusparseHandle_t, ty_int, ty_int, Ptr (Const ty_half), ty_int, ty_float, Const ty_cusparseMatDescr_t, Ptr (Const ty_half), Ptr (Const ty_int), Ptr (Const ty_int), ty_pruneInfo_t, Ptr ty_size_t] ''cusparseHpruneDense2csrByPercentage_bufferSizeExt'' [0, 1, 2, 3, 4, 5, 6, 7, 8, 9, 10, 11] False,
     Gen cusparse ty_cusparseStatus_t ''cusparseSpruneDense2csrByPercentage_bufferSizeExt'' [ty_cusparseHandle_t, ty_int, ty_int, Ptr (Const ty_float), ty_int, ty_float, Const ty_cusparseMatDescr_t, Ptr (Const ty_float), Ptr (Const ty_int), Ptr (Const ty_int), ty_pruneInfo_t, Ptr ty_size_t]
       ''cusparseSpruneDense2csrByPercentage_bufferSizeExt'' ty_cusparseStatus_t [ty_cusparseHandle_t, ty_int, ty_int, Ptr (Const ty_float), ty_int, ty_float, Const ty_cusparseMatDescr_t, Ptr (Const ty_float), Ptr (Const ty_int), Ptr (Const ty_int), ty_pruneInfo_t, Ptr ty_size_t] ''cusparseSpruneDense2csrByPercentage_bufferSizeExt'' [0, 1, 2, 3, 4, 5, 6, 7, 8, 9, 10, 11] False,
     Gen cusparse ty_cusparseStatus_t ''cusparseDpruneDense2csrByPercentage_bufferSizeExt'' [ty_cusparseHandle_t, ty_int, ty_int, Ptr (Const ty_double), ty_int, ty_float, Const ty_cusparseMatDescr_t, Ptr (Const ty_double), Ptr (Const ty_int), Ptr (Const ty_int), ty_pruneInfo_t, Ptr ty_size_t]
       ''cusparseDpruneDense2csrByPercentage_bufferSizeExt'' ty_cusparseStatus_t [ty_cusparseHandle_t, ty_int, ty_int, Ptr (Const ty_double), ty_int, ty_float, Const ty_cusparseMatDescr_t, Ptr (Const ty_double), Ptr (Const ty_int), Ptr (Const ty_int), ty_pruneInfo_t, Ptr ty_size_t] ''cusparseDpruneDense2csrByPercentage_bufferSizeExt'' [0, 1, 2, 3, 4, 5, 6, 7, 8, 9, 10, 11] False,
     Gen cusparse ty_cusparseStatus_t ''cusparseHpruneDense2csrNnzByPercentage'' [ty_cusparseHandle_t, ty_int, ty_int, Ptr (Const ty_half), ty_int, ty_float, Const ty_cusparseMatDescr_t, Ptr ty_int, Ptr ty_int, ty_pruneInfo_t, Ptr ty_void]
       ''cusparseHpruneDense2csrNnzByPercentage'' ty_cusparseStatus_t [ty_cusparseHandle_t, ty_int, ty_int, Ptr (Const ty_half), ty_int, ty_float, Const ty_cusparseMatDescr_t, Ptr ty_int, Ptr ty_int, ty_pruneInfo_t, Ptr ty_void] ''cusparseHpruneDense2csrNnzByPercentage'' [0, 1, 2, 3, 4, 5, 6, 7, 8, 9, 10] False,
     Gen cusparse ty_cusparseStatus_t ''cusparseSpruneDense2csrNnzByPercentage'' [ty_cusparseHandle_t, ty_int, ty_int, Ptr (Const ty_float), ty_int, ty_float, Const ty_cusparseMatDescr_t, Ptr ty_int, Ptr ty_int, ty_pruneInfo_t, Ptr ty_void]
       ''cusparseSpruneDense2csrNnzByPercentage'' ty_cusparseStatus_t [ty_cusparseHandle_t, ty_int, ty_int, Ptr (Const ty_float), ty_int, ty_float, Const ty_cusparseMatDescr_t, Ptr ty_int, Ptr ty_int, ty_pruneInfo_t, Ptr ty_void] ''cusparseSpruneDense2csrNnzByPercentage'' [0, 1, 2, 3, 4, 5, 6, 7, 8, 9, 10] False]"

definition cusparse_hooks_38 :: "gen_hook list" where
  "cusparse_hooks_38 =
    [Gen cusparse ty_cusparseStatus_t ''cusparseDpruneDense2csrNnzByPercentage'' [ty_cusparseHandle_t, ty_int, ty_int, Ptr (Const ty_double), ty_int, ty_float, Const ty_cusparseMatDescr_t, Ptr ty_int, Ptr ty_int, ty_pruneInfo_t, Ptr ty_void]
       ''cusparseDpruneDense2csrNnzByPercentage'' ty_cusparseStatus_t [ty_cusparseHandle_t, ty_int, ty_int, Ptr (Const ty_double), ty_int, ty_float, Const ty_cusparseMatDescr_t, Ptr ty_int, Ptr ty_int, ty_pruneInfo_t, Ptr ty_void] ''cusparseDpruneDense2csrNnzByPercentage'' [0, 1, 2, 3, 4, 5, 6, 7, 8, 9, 10] False,
     Gen cusparse ty_cusparseStatus_t ''cusparseHpruneDense2csrByPercentage'' [ty_cusparseHandle_t, ty_int, ty_int, Ptr (Const ty_half), ty_int, ty_float, Const ty_cusparseMatDescr_t, Ptr ty_half, Ptr (Const ty_int), Ptr ty_int, ty_pruneInfo_t, Ptr ty_void]
       ''cusparseHpruneDense2csrByPercentage'' ty_cusparseStatus_t [ty_cusparseHandle_t, ty_int, ty_int, Ptr (Const ty_half), ty_int, ty_float, Const ty_cusparseMatDescr_t, Ptr ty_half, Ptr (Const ty_int), Ptr ty_int, ty_pruneInfo_t, Ptr ty_void] ''cusparseHpruneDense2csrByPercentage'' [0, 1, 2, 3, 4, 5, 6, 7, 8, 9, 10, 11] False,
     Gen cusparse ty_cusparseStatus_t ''cusparseSpruneDense2csrByPercentage'' [ty_cusparseHandle_t, ty_int, ty_int, Ptr (Const ty_float), ty_int, ty_float, Const ty_cusparseMatDescr_t, Ptr ty_float, Ptr (Const ty_int), Ptr ty_int, ty_pruneInfo_t, Ptr ty_void]
       ''cusparseSpruneDense2csrByPercentage'' ty_cusparseStatus_t [ty_cusparseHandle_t, ty_int, ty_int, Ptr (Const ty_float), ty_int, ty_float, Const ty_cusparseMatDescr_t, Ptr ty_float, Ptr (Const ty_int), Ptr ty_int, ty_pruneInfo_t, Ptr ty_void] ''cusparseSpruneDense2csrByPercentage'' [0, 1, 2, 3, 4, 5, 6, 7, 8, 9, 10, 11] False,
     Gen cusparse ty_cusparseStatus_t ''cusparseDpruneDense2csrByPercentage'' [ty_cusparseHandle_t, ty_int, ty_int, Ptr (Const ty_double), ty_int, ty_float, Const ty_cusparseMatDescr_t, Ptr ty_double, Ptr (Const ty_int), Ptr ty_int, ty_pruneInfo_t, Ptr ty_void]
       ''cusparseDpruneDense2csrByPercentage'' ty_cusparseStatus_t [ty_cusparseHandle_t, ty_int, ty_int, Ptr (Const ty_double), ty_int, ty_float, Const ty_cusparseMatDescr_t, Ptr ty_double, Ptr (Const ty_int), Ptr ty_int, ty_pruneInfo_t, Ptr ty_void] ''cusparseDpruneDense2csrByPercentage'' [0, 1, 2, 3, 4, 5, 6, 7, 8, 9, 10, 11] False,
     Gen cusparse ty_cusparseStatus_t ''cusparseHpruneCsr2csrByPercentage_bufferSizeExt'' [ty_cusparseHandle_t, ty_int, ty_int, ty_int, Const ty_cusparseMatDescr_t, Ptr (Const ty_half), Ptr (Const ty_int), Ptr (Const ty_int), ty_float, Const ty_cusparseMatDescr_t, Ptr (Const ty_half), Ptr (Const ty_int), Ptr (Const ty_int), ty_pruneInfo_t, Ptr ty_size_t]
       ''cusparseHpruneCsr2csrByPercentage_bufferSizeExt'' ty_cusparseStatus_t [ty_cusparseHandle_t, ty_int, ty_int, ty_int, Const ty_cusparseMatDescr_t, Ptr (Const ty_half), Ptr (Const ty_int), Ptr (Const ty_int), ty_float, Const ty_cusparseMatDescr_t, Ptr (Const ty_half), Ptr (Const ty_int), Ptr (Const ty_int), ty_pruneInfo_t, Ptr ty_size_t] ''cusparseHpruneCsr2csrByPercentage_bufferSizeExt'' [0, 1, 2, 3, 4, 5, 6, 7, 8, 9, 10, 11, 12, 13, 14] False,
     Gen cusparse ty_cusparseStatus_t ''cusparseSpruneCsr2csrByPercentage_bufferSizeExt'' [ty_cusparseHandle_t, ty_int, ty_int, ty_int, Const ty_cusparseMatDescr_t, Ptr (Const ty_float), Ptr (Const ty_int), Ptr (Const ty_int), ty_float, Const ty_cusparseMatDescr_t, Ptr (Const ty_float), Ptr (Const ty_int), Ptr (Const ty_int), ty_pruneInfo_t, Ptr ty_size_t]
       ''cusparseSpruneCsr2csrByPercentage_bufferSizeExt'' ty_cusparseStatus_t [ty_cusparseHandle_t, ty_int, ty_int, ty_int, Const ty_cusparseMatDescr_t, Ptr (Const ty_float), Ptr (Const ty_int), Ptr (Const ty_int), ty_float, Const ty_cusparseMatDescr_t, Ptr (Const ty_float), Ptr (Const ty_int), Ptr (Const ty_int), ty_pruneInfo_t, Ptr ty_size_t] ''cusparseSpruneCsr2csrByPercentage_bufferSizeExt'' [0, 1, 2, 3, 4, 5, 6, 7, 8, 9, 10, 11, 12, 13, 14] False,
     Gen cusparse ty_cusparseStatus_t ''cusparseDpruneCsr2csrByPercentage_bufferSizeExt'' [ty_cusparseHandle_t, ty_int, ty_int, ty_int, Const ty_cusparseMatDescr_t, Ptr (Const ty_double), Ptr (Const ty_int), Ptr (Const ty_int), ty_float, Const ty_cusparseMatDescr_t, Ptr (Const ty_double), Ptr (Const ty_int), Ptr (Const ty_int), ty_pruneInfo_t, Ptr ty_size_t]
       ''cusparseDpruneCsr2csrByPercentage_bufferSizeExt'' ty_cusparseStatus_t [ty_cusparseHandle_t, ty_int, ty_int, ty_int, Const ty_cusparseMatDescr_t, Ptr (Const ty_double), Ptr (Const ty_int), Ptr (Const ty_int), ty_float, Const ty_cusparseMatDescr_t, Ptr (Const ty_double), Ptr (Const ty_int), Ptr (Const ty_int), ty_pruneInfo_t, Ptr ty_size_t] ''cusparseDpruneCsr2csrByPercentage_bufferSizeExt'' [0, 1, 2, 3, 4, 5, 6, 7, 8, 9, 10, 11, 12, 13, 14] False,
     Gen cusparse ty_cusparseStatus_t ''cusparseHpruneCsr2csrNnzByPercentage'' [ty_cusparseHandle_t, ty_int, ty_int, ty_int, Const ty_cusparseMatDescr_t, Ptr (Const ty_half), Ptr (Const ty_int), Ptr (Const ty_int), ty_float, Const ty_cusparseMatDescr_t, Ptr ty_int, Ptr ty_int, ty_pruneInfo_t, Ptr ty_void]
       ''cusparseHpruneCsr2csrNnzByPercentage'' ty_cusparseStatus_t [ty_cusparseHandle_t, ty_int, ty_int, ty_int, Const ty_cusparseMatDescr_t, Ptr (Const ty_half), Ptr (Const ty_int), Ptr (Const ty_int), ty_float, Const ty_cusparseMatDescr_t, Ptr ty_int, Ptr ty_int, ty_pruneInfo_t, Ptr ty_void] ''cusparseHpruneCsr2csrNnzByPercentage'' [0, 1, 2, 3, 4, 5, 6, 7, 8, 9, 10, 11, 12, 13] False,
     Gen cusparse ty_cusparseStatus_t ''cusparseSpruneCsr2csrNnzByPercentage'' [ty_cusparseHandle_t, ty_int, ty_int, ty_int, Const ty_cusparseMatDescr_t, Ptr (Const ty_float), Ptr (Const ty_int), Ptr (Const ty_int), ty_float, Const ty_cusparseMatDescr_t, Ptr ty_int, Ptr ty_int, ty_pruneInfo_t, Ptr ty_void]
       ''cusparseSpruneCsr2csrNnzByPercentage'' ty_cusparseStatus_t [ty_cusparseHandle_t, ty_int, ty_int, ty_int, Const ty_cusparseMatDescr_t, Ptr (Const ty_float), Ptr (Const ty_int), Ptr (Const ty_int), ty_float, Const ty_cusparseMatDescr_t, Ptr ty_int, Ptr ty_int, ty_pruneInfo_t, Ptr ty_void] ''cusparseSpruneCsr2csrNnzByPercentage'' [0, 1, 2, 3, 4, 5, 6, 7, 8, 9, 10, 11, 12, 13] False,
     Gen cusparse ty_cusparseStatus_t ''cusparseDpruneCsr2csrNnzByPercentage'' [ty_cusparseHandle_t, ty_int, ty_int, ty_int, Const ty_cusparseMatDescr_t, Ptr (Const ty_double), Ptr (Const ty_int), Ptr (Const ty_int), ty_float, Const ty_cusparseMatDescr_t, Ptr ty_int, Ptr ty_int, ty_pruneInfo_t, Ptr ty_void]
       ''cusparseDpruneCsr2csrNnzByPercentage'' ty_cusparseStatus_t [ty_cusparseHandle_t, ty_int, ty_int, ty_int, Const ty_cusparseMatDescr_t, Ptr (Const ty_double), Ptr (Const ty_int), Ptr (Const ty_int), ty_float, Const ty_cusparseMatDescr_t, Ptr ty_int, Ptr ty_int, ty_pruneInfo_t, Ptr ty_void] ''cusparseDpruneCsr2csrNnzByPercentage'' [0, 1, 2, 3, 4, 5, 6, 7, 8, 9, 10, 11, 12, 13] False,
     Gen cusparse ty_cusparseStatus_t ''cusparseHpruneCsr2csrByPercentage'' [ty_cusparseHandle_t, ty_int, ty_int, ty_int, Const ty_cusparseMatDescr_t, Ptr (Const ty_half), Ptr (Const ty_int), Ptr (Const ty_int), ty_float, Const ty_cusparseMatDescr_t, Ptr ty_half, Ptr (Const ty_int), Ptr ty_int, ty_pruneInfo_t, Ptr ty_void]
       ''cusparseHpruneCsr2csrByPercentage'' ty_cusparseStatus_t [ty_cusparseHandle_t, ty_int, ty_int, ty_int, Const ty_cusparseMatDescr_t, Ptr (Const ty_half), Ptr (Const ty_int), Ptr (Const ty_int), ty_float, Const ty_cusparseMatDescr_t, Ptr ty_half, Ptr (Const ty_int), Ptr ty_int, ty_pruneInfo_t, Ptr ty_void] ''cusparseHpruneCsr2csrByPercentage'' [0, 1, 2, 3, 4, 5, 6, 7, 8, 9, 10, 11, 12, 13, 14] False]"

definition cusparse_hooks_39 :: "gen_hook list" where
  "cusparse_hooks_39 =
    [Gen cusparse ty_cusparseStatus_t ''cusparseSpruneCsr2csrByPercentage'' [ty_cusparseHandle_t, ty_int, ty_int, ty_int, Const ty_cusparseMatDescr_t, Ptr (Const ty_float), Ptr (Const ty_int), Ptr (Const ty_int), ty_float, Const ty_cusparseMatDescr_t, Ptr ty_float, Ptr (Const ty_int), Ptr ty_int, ty_pruneInfo_t, Ptr ty_void]
       ''cusparseSpruneCsr2csrByPercentage'' ty_cusparseStatus_t [ty_cusparseHandle_t, ty_int, ty_int, ty_int, Const ty_cusparseMatDescr_t, Ptr (Const ty_float), Ptr (Const ty_int), Ptr (Const ty_int), ty_float, Const ty_cusparseMatDescr_t, Ptr ty_float, Ptr (Const ty_int), Ptr ty_int, ty_pruneInfo_t, Ptr ty_void] ''cusparseSpruneCsr2csrByPercentage'' [0, 1, 2, 3, 4, 5, 6, 7, 8, 9, 10, 11, 12, 13, 14] False,
     Gen cusparse ty_cusparseStatus_t ''cusparseDpruneCsr2csrByPercentage'' [ty_cusparseHandle_t, ty_int, ty_int, ty_int, Const ty_cusparseMatDescr_t, Ptr (Const ty_double), Ptr (Const ty_int), Ptr (Const ty_int), ty_float, Const ty_cusparseMatDescr_t, Ptr ty_double, Ptr (Const ty_int), Ptr ty_int, ty_pruneInfo_t, Ptr ty_void]
       ''cusparseDpruneCsr2csrByPercentage'' ty_cusparseStatus_t [ty_cusparseHandle_t, ty_int, ty_int, ty_int, Const ty_cusparseMatDescr_t, Ptr (Const ty_double), Ptr (Const ty_int), Ptr (Const ty_int), ty_float, Const ty_cusparseMatDescr_t, Ptr ty_double, Ptr (Const ty_int), Ptr ty_int, ty_pruneInfo_t, Ptr ty_void] ''cusparseDpruneCsr2csrByPercentage'' [0, 1, 2, 3, 4, 5, 6, 7, 8, 9, 10, 11, 12, 13, 14] False,
     Gen cusparse ty_cusparseStatus_t ''cusparseCsr2cscEx2'' [ty_cusparseHandle_t, ty_int, ty_int, ty_int, Ptr (Const ty_void), Ptr (Const ty_int), Ptr (Const ty_int), Ptr ty_void, Ptr ty_int, Ptr ty_int, ty_cudaDataType, ty_cusparseAction_t, ty_cusparseIndexBase_t, ty_cusparseCsr2CscAlg_t, Ptr ty_void]
       ''cusparseCsr2cscEx2'' ty_cusparseStatus_t [ty_cusparseHandle_t, ty_int, ty_int, ty_int, Ptr (Const ty_void), Ptr (Const ty_int), Ptr (Const ty_int), Ptr ty_void, Ptr ty_int, Ptr ty_int, ty_cudaDataType, ty_cusparseAction_t, ty_cusparseIndexBase_t, ty_cusparseCsr2CscAlg_t, Ptr ty_void] ''cusparseCsr2cscEx2'' [0, 1, 2, 3, 4, 5, 6, 7, 8, 9, 10, 11, 12, 13, 14] False,
     Gen cusparse ty_cusparseStatus_t ''cusparseCsr2cscEx2_bufferSize'' [ty_cusparseHandle_t, ty_int, ty_int, ty_int, Ptr (Const ty_void), Ptr (Const ty_int), Ptr (Const ty_int), Ptr ty_void, Ptr ty_int, Ptr ty_int, ty_cudaDataType, ty_cusparseAction_t, ty_cusparseIndexBase_t, ty_cusparseCsr2CscAlg_t, Ptr ty_size_t]
       ''cusparseCsr2cscEx2_bufferSize'' ty_cusparseStatus_t [ty_cusparseHandle_t, ty_int, ty_int, ty_int, Ptr (Const ty_void), Ptr (Const ty_int), Ptr (Const ty_int), Ptr ty_void, Ptr ty_int, Ptr ty_int, ty_cudaDataType, ty_cusparseAction_t, ty_cusparseIndexBase_t, ty_cusparseCsr2CscAlg_t, Ptr ty_size_t] ''cusparseCsr2cscEx2_bufferSize'' [0, 1, 2, 3, 4, 5, 6, 7, 8, 9, 10, 11, 12, 13, 14] False,
     Gen cusparse ty_cusparseStatus_t ''cusparseCreateSpVec'' [Ptr ty_cusparseSpVecDescr_t, ty_int64_t, ty_int64_t, Ptr ty_void, Ptr ty_void, ty_cusparseIndexType_t, ty_cusparseIndexBase_t, ty_cudaDataType]
       ''cusparseCreateSpVec'' ty_cusparseStatus_t [Ptr ty_cusparseSpVecDescr_t, ty_int64_t, ty_int64_t, Ptr ty_void, Ptr ty_void, ty_cusparseIndexType_t, ty_cusparseIndexBase_t, ty_cudaDataType] ''cusparseCreateSpVec'' [0, 1, 2, 3, 4, 5, 6, 7] False,
     Gen cusparse ty_cusparseStatus_t ''cusparseDestroySpVec'' [ty_cusparseSpVecDescr_t]
       ''cusparseDestroySpVec'' ty_cusparseStatus_t [ty_cusparseSpVecDescr_t] ''cusparseDestroySpVec'' [0] False,
     Gen cusparse ty_cusparseStatus_t ''cusparseSpVecGet'' [ty_cusparseSpVecDescr_t, Ptr ty_int64_t, Ptr ty_int64_t, Ptr (Ptr ty_void), Ptr (Ptr ty_void), Ptr ty_cusparseIndexType_t, Ptr ty_cusparseIndexBase_t, Ptr ty_cudaDataType]
       ''cusparseSpVecGet'' ty_cusparseStatus_t [ty_cusparseSpVecDescr_t, Ptr ty_int64_t, Ptr ty_int64_t, Ptr (Ptr ty_void), Ptr (Ptr ty_void), Ptr ty_cusparseIndexType_t, Ptr ty_cusparseIndexBase_t, Ptr ty_cudaDataType] ''cusparseSpVecGet'' [0, 1, 2, 3, 4, 5, 6, 7] False,
     Gen cusparse ty_cusparseStatus_t ''cusparseSpVecGetIndexBase'' [ty_cusparseSpVecDescr_t, Ptr ty_cusparseIndexBase_t]
       ''cusparseSpVecGetIndexBase'' ty_cusparseStatus_t [ty_cusparseSpVecDescr_t, Ptr ty_cusparseIndexBase_t] ''cusparseSpVecGetIndexBase'' [0, 1] False,
     Gen cusparse ty_cusparseStatus_t ''cusparseSpVecGetValues'' [ty_cusparseSpVecDescr_t, Ptr (Ptr ty_void)]
       ''cusparseSpVecGetValues'' ty_cusparseStatus_t [ty_cusparseSpVecDescr_t, Ptr (Ptr ty_void)] ''cusparseSpVecGetValues'' [0, 1] False,
     Gen cusparse ty_cusparseStatus_t ''cusparseSpVecSetValues'' [ty_cusparseSpVecDescr_t, Ptr ty_void]
       ''cusparseSpVecSetValues'' ty_cusparseStatus_t [ty_cusparseSpVecDescr_t, Ptr ty_void] ''cusparseSpVecSetValues'' [0, 1] False,
     Gen cusparse ty_cusparseStatus_t ''cusparseCreateDnVec'' [Ptr ty_cusparseDnVecDescr_t, ty_int64_t, Ptr ty_void, ty_cudaDataType]
       ''cusparseCreateDnVec'' ty_cusparseStatus_t [Ptr ty_cusparseDnVecDescr_t, ty_int64_t, Ptr ty_void, ty_cudaDataType] ''cusparseCreateDnVec'' [0, 1, 2, 3] False,
     Gen cusparse ty_cusparseStatus_t ''cusparseDestroyDnVec'' [ty_cusparseDnVecDescr_t]
       ''cusparseDestroyDnVec'' ty_cusparseStatus_t [ty_cusparseDnVecDescr_t] ''cusparseDestroyDnVec'' [0] False,
     Gen cusparse ty_cusparseStatus_t ''cusparseDnVecGet'' [ty_cusparseDnVecDescr_t, Ptr ty_int64_t, Ptr (Ptr ty_void), Ptr ty_cudaDataType]
       ''cusparseDnVecGet'' ty_cusparseStatus_t [ty_cusparseDnVecDescr_t, Ptr ty_int64_t, Ptr (Ptr ty_void), Ptr ty_cudaDataType] ''cusparseDnVecGet'' [0, 1, 2, 3] False,
     Gen cusparse ty_cusparseStatus_t ''cusparseDnVecGetValues'' [ty_cusparseDnVecDescr_t, Ptr (Ptr ty_void)]
       ''cusparseDnVecGetValues'' ty_cusparseStatus_t [ty_cusparseDnVecDescr_t, Ptr (Ptr ty_void)] ''cusparseDnVecGetValues'' [0, 1] False]"

definition cusparse_hooks_40 :: "gen_hook list" where
  "cusparse_hooks_40 =
    [Gen cusparse ty_cusparseStatus_t ''cusparseDnVecSetValues'' [ty_cusparseDnVecDescr_t, Ptr ty_void]
       ''cusparseDnVecSetValues'' ty_cusparseStatus_t [ty_cusparseDnVecDescr_t, Ptr ty_void] ''cusparseDnVecSetValues'' [0, 1] False,
     Gen cusparse ty_cusparseStatus_t ''cusparseDestroySpMat'' [ty_cusparseSpMatDescr_t]
       ''cusparseDestroySpMat'' ty_cusparseStatus_t [ty_cusparseSpMatDescr_t] ''cusparseDestroySpMat'' [0] False,
     Gen cusparse ty_cusparseStatus_t ''cusparseSpMatGetFormat'' [ty_cusparseSpMatDescr_t, Ptr ty_cusparseFormat_t]
       ''cusparseSpMatGetFormat'' ty_cusparseStatus_t [ty_cusparseSpMatDescr_t, Ptr ty_cusparseFormat_t] ''cusparseSpMatGetFormat'' [0, 1] False,
     Gen cusparse ty_cusparseStatus_t ''cusparseSpMatGetIndexBase'' [ty_cusparseSpMatDescr_t, Ptr ty_cusparseIndexBase_t]
       ''cusparseSpMatGetIndexBase'' ty_cusparseStatus_t [ty_cusparseSpMatDescr_t, Ptr ty_cusparseIndexBase_t] ''cusparseSpMatGetIndexBase'' [0, 1] False,
     Gen cusparse ty_cusparseStatus_t ''cusparseSpMatGetValues'' [ty_cusparseSpMatDescr_t, Ptr (Ptr ty_void)]
       ''cusparseSpMatGetValues'' ty_cusparseStatus_t [ty_cusparseSpMatDescr_t, Ptr (Ptr ty_void)] ''cusparseSpMatGetValues'' [0, 1] False,
     Gen cusparse ty_cusparseStatus_t ''cusparseSpMatSetValues'' [ty_cusparseSpMatDescr_t, Ptr ty_void]
       ''cusparseSpMatSetValues'' ty_cusparseStatus_t [ty_cusparseSpMatDescr_t, Ptr ty_void] ''cusparseSpMatSetValues'' [0, 1] False,
     Gen cusparse ty_cusparseStatus_t ''cusparseSpMatGetSize'' [ty_cusparseSpMatDescr_t, Ptr ty_int64_t, Ptr ty_int64_t, Ptr ty_int64_t]
       ''cusparseSpMatGetSize'' ty_cusparseStatus_t [ty_cusparseSpMatDescr_t, Ptr ty_int64_t, Ptr ty_int64_t, Ptr ty_int64_t] ''cusparseSpMatGetSize'' [0, 1, 2, 3] False,
     Gen cusparse ty_cusparseStatus_t ''cusparseSpMatSetStridedBatch'' [ty_cusparseSpMatDescr_t, ty_int]
       ''cusparseSpMatSetStridedBatch'' ty_cusparseStatus_t [ty_cusparseSpMatDescr_t, ty_int] ''cusparseSpMatSetStridedBatch'' [0, 1] False,
     Gen cusparse ty_cusparseStatus_t ''cusparseSpMatGetStridedBatch'' [ty_cusparseSpMatDescr_t, Ptr ty_int]
       ''cusparseSpMatGetStridedBatch'' ty_cusparseStatus_t [ty_cusparseSpMatDescr_t, Ptr ty_int] ''cusparseSpMatGetStridedBatch'' [0, 1] False,
     Gen cusparse ty_cusparseStatus_t ''cusparseCooSetStridedBatch'' [ty_cusparseSpMatDescr_t, ty_int, ty_int64_t]
       ''cusparseCooSetStridedBatch'' ty_cusparseStatus_t [ty_cusparseSpMatDescr_t, ty_int, ty_int64_t] ''cusparseCooSetStridedBatch'' [0, 1, 2] False,
     Gen cusparse ty_cusparseStatus_t ''cusparseCsrSetStridedBatch'' [ty_cusparseSpMatDescr_t, ty_int, ty_int64_t, ty_int64_t]
       ''cusparseCsrSetStridedBatch'' ty_cusparseStatus_t [ty_cusparseSpMatDescr_t, ty_int, ty_int64_t, ty_int64_t] ''cusparseCsrSetStridedBatch'' [0, 1, 2, 3] False,
     Gen cusparse ty_cusparseStatus_t ''cusparseSpMatGetAttribute'' [ty_cusparseSpMatDescr_t, ty_cusparseSpMatAttribute_t, Ptr ty_void, ty_size_t]
       ''cusparseSpMatGetAttribute'' ty_cusparseStatus_t [ty_cusparseSpMatDescr_t, ty_cusparseSpMatAttribute_t, Ptr ty_void, ty_size_t] ''cusparseSpMatGetAttribute'' [0, 1, 2, 3] False,
     Gen cusparse ty_cusparseStatus_t ''cusparseSpMatSetAttribute'' [ty_cusparseSpMatDescr_t, ty_cusparseSpMatAttribute_t, Ptr ty_void, ty_size_t]
       ''cusparseSpMatSetAttribute'' ty_cusparseStatus_t [ty_cusparseSpMatDescr_t, ty_cusparseSpMatAttribute_t, Ptr ty_void, ty_size_t] ''cusparseSpMatSetAttribute'' [0, 1, 2, 3] False,
     Gen cusparse ty_cusparseStatus_t ''cusparseCreateCsr'' [Ptr ty_cusparseSpMatDescr_t, ty_int64_t, ty_int64_t, ty_int64_t, Ptr ty_void, Ptr ty_void, Ptr ty_void, ty_cusparseIndexType_t, ty_cusparseIndexType_t, ty_cusparseIndexBase_t, ty_cudaDataType]
       ''cusparseCreateCsr'' ty_cusparseStatus_t [Ptr ty_cusparseSpMatDescr_t, ty_int64_t, ty_int64_t, ty_int64_t, Ptr ty_void, Ptr ty_void, Ptr ty_void, ty_cusparseIndexType_t, ty_cusparseIndexType_t, ty_cusparseIndexBase_t, ty_cudaDataType] ''cusparseCreateCsr'' [0, 1, 2, 3, 4, 5, 6, 7, 8, 9, 10] False,
     Gen cusparse ty_cusparseStatus_t ''cusparseCreateCsc'' [Ptr ty_cusparseSpMatDescr_t, ty_int64_t, ty_int64_t, ty_int64_t, Ptr ty_void, Ptr ty_void, Ptr ty_void, ty_cusparseIndexType_t, ty_cusparseIndexType_t, ty_cusparseIndexBase_t, ty_cudaDataType]
       ''cusparseCreateCsc'' ty_cusparseStatus_t [Ptr ty_cusparseSpMatDescr_t, ty_int64_t, ty_int64_t, ty_int64_t, Ptr ty_void, Ptr ty_void, Ptr ty_void, ty_cusparseIndexType_t, ty_cusparseIndexType_t, ty_cusparseIndexBase_t, ty_cudaDataType] ''cusparseCreateCsc'' [0, 1, 2, 3, 4, 5, 6, 7, 8, 9, 10] False]"

definition cusparse_hooks_41 :: "gen_hook list" where
  "cusparse_hooks_41 =
    [Gen cusparse ty_cusparseStatus_t ''cusparseCsrGet'' [ty_cusparseSpMatDescr_t, Ptr ty_int64_t, Ptr ty_int64_t, Ptr ty_int64_t, Ptr (Ptr ty_void), Ptr (Ptr ty_void), Ptr (Ptr ty_void), Ptr ty_cusparseIndexType_t, Ptr ty_cusparseIndexType_t, Ptr ty_cusparseIndexBase_t, Ptr ty_cudaDataType]
       ''cusparseCsrGet'' ty_cusparseStatus_t [ty_cusparseSpMatDescr_t, Ptr ty_int64_t, Ptr ty_int64_t, Ptr ty_int64_t, Ptr (Ptr ty_void), Ptr (Ptr ty_void), Ptr (Ptr ty_void), Ptr ty_cusparseIndexType_t, Ptr ty_cusparseIndexType_t, Ptr ty_cusparseIndexBase_t, Ptr ty_cudaDataType] ''cusparseCsrGet'' [0, 1, 2, 3, 4, 5, 6, 7, 8, 9, 10] False,
     Gen cusparse ty_cusparseStatus_t ''cusparseCsrSetPointers'' [ty_cusparseSpMatDescr_t, Ptr ty_void, Ptr ty_void, Ptr ty_void]
       ''cusparseCsrSetPointers'' ty_cusparseStatus_t [ty_cusparseSpMatDescr_t, Ptr ty_void, Ptr ty_void, Ptr ty_void] ''cusparseCsrSetPointers'' [0, 1, 2, 3] False,
     Gen cusparse ty_cusparseStatus_t ''cusparseCscSetPointers'' [ty_cusparseSpMatDescr_t, Ptr ty_void, Ptr ty_void, Ptr ty_void]
       ''cusparseCscSetPointers'' ty_cusparseStatus_t [ty_cusparseSpMatDescr_t, Ptr ty_void, Ptr ty_void, Ptr ty_void] ''cusparseCscSetPointers'' [0, 1, 2, 3] False,
     Gen cusparse ty_cusparseStatus_t ''cusparseCreateCoo'' [Ptr ty_cusparseSpMatDescr_t, ty_int64_t, ty_int64_t, ty_int64_t, Ptr ty_void, Ptr ty_void, Ptr ty_void, ty_cusparseIndexType_t, ty_cusparseIndexBase_t, ty_cudaDataType]
       ''cusparseCreateCoo'' ty_cusparseStatus_t [Ptr ty_cusparseSpMatDescr_t, ty_int64_t, ty_int64_t, ty_int64_t, Ptr ty_void, Ptr ty_void, Ptr ty_void, ty_cusparseIndexType_t, ty_cusparseIndexBase_t, ty_cudaDataType] ''cusparseCreateCoo'' [0, 1, 2, 3, 4, 5, 6, 7, 8, 9] False,
     Gen cusparse ty_cusparseStatus_t ''cusparseCreateCooAoS'' [Ptr ty_cusparseSpMatDescr_t, ty_int64_t, ty_int64_t, ty_int64_t, Ptr ty_void, Ptr ty_void, ty_cusparseIndexType_t, ty_cusparseIndexBase_t, ty_cudaDataType]
       ''cusparseCreateCooAoS'' ty_cusparseStatus_t [Ptr ty_cusparseSpMatDescr_t, ty_int64_t, ty_int64_t, ty_int64_t, Ptr ty_void, Ptr ty_void, ty_cusparseIndexType_t, ty_cusparseIndexBase_t, ty_cudaDataType] ''cusparseCreateCooAoS'' [0, 1, 2, 3, 4, 5, 6, 7, 8] False,
     Gen cusparse ty_cusparseStatus_t ''cusparseCooGet'' [ty_cusparseSpMatDescr_t, Ptr ty_int64_t, Ptr ty_int64_t, Ptr ty_int64_t, Ptr (Ptr ty_void), Ptr (Ptr ty_void), Ptr (Ptr ty_void), Ptr ty_cusparseIndexType_t, Ptr ty_cusparseIndexBase_t, Ptr ty_cudaDataType]
       ''cusparseCooGet'' ty_cusparseStatus_t [ty_cusparseSpMatDescr_t, Ptr ty_int64_t, Ptr ty_int64_t, Ptr ty_int64_t, Ptr (Ptr ty_void), Ptr (Ptr ty_void), Ptr (Ptr ty_void), Ptr ty_cusparseIndexType_t, Ptr ty_cusparseIndexBase_t, Ptr ty_cudaDataType] ''cusparseCooGet'' [0, 1, 2, 3, 4, 5, 6, 7, 8, 9] False,
     Gen cusparse ty_cusparseStatus_t ''cusparseCooAoSGet'' [ty_cusparseSpMatDescr_t, Ptr ty_int64_t, Ptr ty_int64_t, Ptr ty_int64_t, Ptr (Ptr ty_void), Ptr (Ptr ty_void), Ptr ty_cusparseIndexType_t, Ptr ty_cusparseIndexBase_t, Ptr ty_cudaDataType]
       ''cusparseCooAoSGet'' ty_cusparseStatus_t [ty_cusparseSpMatDescr_t, Ptr ty_int64_t, Ptr ty_int64_t, Ptr ty_int64_t, Ptr (Ptr ty_void), Ptr (Ptr ty_void), Ptr ty_cusparseIndexType_t, Ptr ty_cusparseIndexBase_t, Ptr ty_cudaDataType] ''cusparseCooAoSGet'' [0, 1, 2, 3, 4, 5, 6, 7, 8] False,
     Gen cusparse ty_cusparseStatus_t ''cusparseCooSetPointers'' [ty_cusparseSpMatDescr_t, Ptr ty_void, Ptr ty_void, Ptr ty_void]
       ''cusparseCooSetPointers'' ty_cusparseStatus_t [ty_cusparseSpMatDescr_t, Ptr ty_void, Ptr ty_void, Ptr ty_void] ''cusparseCooSetPointers'' [0, 1, 2, 3] False,
     Gen cusparse ty_cusparseStatus_t ''cusparseCreateBlockedEll'' [Ptr ty_cusparseSpMatDescr_t, ty_int64_t, ty_int64_t, ty_int64_t, ty_int64_t, Ptr ty_void, Ptr ty_void, ty_cusparseIndexType_t, ty_cusparseIndexBase_t, ty_cudaDataType]
       ''cusparseCreateBlockedEll'' ty_cusparseStatus_t [Ptr ty_cusparseSpMatDescr_t, ty_int64_t, ty_int64_t, ty_int64_t, ty_int64_t, Ptr ty_void, Ptr ty_void, ty_cusparseIndexType_t, ty_cusparseIndexBase_t, ty_cudaDataType] ''cusparseCreateBlockedEll'' [0, 1, 2, 3, 4, 5, 6, 7, 8, 9] False,
     Gen cusparse ty_cusparseStatus_t ''cusparseBlockedEllGet'' [ty_cusparseSpMatDescr_t, Ptr ty_int64_t, Ptr ty_int64_t, Ptr ty_int64_t, Ptr ty_int64_t, Ptr (Ptr ty_void), Ptr (Ptr ty_void), Ptr ty_cusparseIndexType_t, Ptr ty_cusparseIndexBase_t, Ptr ty_cudaDataType]
       ''cusparseBlockedEllGet'' ty_cusparseStatus_t [ty_cusparseSpMatDescr_t, Ptr ty_int64_t, Ptr ty_int64_t, Ptr ty_int64_t, Ptr ty_int64_t, Ptr (Ptr ty_void), Ptr (Ptr ty_void), Ptr ty_cusparseIndexType_t, Ptr ty_cusparseIndexBase_t, Ptr ty_cudaDataType] ''cusparseBlockedEllGet'' [0, 1, 2, 3, 4, 5, 6, 7, 8, 9] False,
     Gen cusparse ty_cusparseStatus_t ''cusparseCreateDnMat'' [Ptr ty_cusparseDnMatDescr_t, ty_int64_t, ty_int64_t, ty_int64_t, Ptr ty_void, ty_cudaDataType, ty_cusparseOrder_t]
       ''cusparseCreateDnMat'' ty_cusparseStatus_t [Ptr ty_cusparseDnMatDescr_t, ty_int64_t, ty_int64_t, ty_int64_t, Ptr ty_void, ty_cudaDataType, ty_cusparseOrder_t] ''cusparseCreateDnMat'' [0, 1, 2, 3, 4, 5, 6] False,
     Gen cusparse ty_cusparseStatus_t ''cusparseDestroyDnMat'' [ty_cusparseDnMatDescr_t]
       ''cusparseDestroyDnMat'' ty_cusparseStatus_t [ty_cusparseDnMatDescr_t] ''cusparseDestroyDnMat'' [0] False]"

definition cusparse_hooks_42 :: "gen_hook list" where
  "cusparse_hooks_42 =
    [Gen cusparse ty_cusparseStatus_t ''cusparseDnMatGet'' [ty_cusparseDnMatDescr_t, Ptr ty_int64_t, Ptr ty_int64_t, Ptr ty_int64_t, Ptr (Ptr ty_void), Ptr ty_cudaDataType, Ptr ty_cusparseOrder_t]
       ''cusparseDnMatGet'' ty_cusparseStatus_t [ty_cusparseDnMatDescr_t, Ptr ty_int64_t, Ptr ty_int64_t, Ptr ty_int64_t, Ptr (Ptr ty_void), Ptr ty_cudaDataType, Ptr ty_cusparseOrder_t] ''cusparseDnMatGet'' [0, 1, 2, 3, 4, 5, 6] False,
     Gen cusparse ty_cusparseStatus_t ''cusparseDnMatGetValues'' [ty_cusparseDnMatDescr_t, Ptr (Ptr ty_void)]
       ''cusparseDnMatGetValues'' ty_cusparseStatus_t [ty_cusparseDnMatDescr_t, Ptr (Ptr ty_void)] ''cusparseDnMatGetValues'' [0, 1] False,
     Gen cusparse ty_cusparseStatus_t ''cusparseDnMatSetValues'' [ty_cusparseDnMatDescr_t, Ptr ty_void]
       ''cusparseDnMatSetValues'' ty_cusparseStatus_t [ty_cusparseDnMatDescr_t, Ptr ty_void] ''cusparseDnMatSetValues'' [0, 1] False,
     Gen cusparse ty_cusparseStatus_t ''cusparseDnMatSetStridedBatch'' [ty_cusparseDnMatDescr_t, ty_int, ty_int64_t]
       ''cusparseDnMatSetStridedBatch'' ty_cusparseStatus_t [ty_cusparseDnMatDescr_t, ty_int, ty_int64_t] ''cusparseDnMatSetStridedBatch'' [0, 1, 2] False,
     Gen cusparse ty_cusparseStatus_t ''cusparseDnMatGetStridedBatch'' [ty_cusparseDnMatDescr_t, Ptr ty_int, Ptr ty_int64_t]
       ''cusparseDnMatGetStridedBatch'' ty_cusparseStatus_t [ty_cusparseDnMatDescr_t, Ptr ty_int, Ptr ty_int64_t] ''cusparseDnMatGetStridedBatch'' [0, 1, 2] False,
     Gen cusparse ty_cusparseStatus_t ''cusparseAxpby'' [ty_cusparseHandle_t, Ptr (Const ty_void), ty_cusparseSpVecDescr_t, Ptr (Const ty_void), ty_cusparseDnVecDescr_t]
       ''cusparseAxpby'' ty_cusparseStatus_t [ty_cusparseHandle_t, Ptr (Const ty_void), ty_cusparseSpVecDescr_t, Ptr (Const ty_void), ty_cusparseDnVecDescr_t] ''cusparseAxpby'' [0, 1, 2, 3, 4] False,
     Gen cusparse ty_cusparseStatus_t ''cusparseGather'' [ty_cusparseHandle_t, ty_cusparseDnVecDescr_t, ty_cusparseSpVecDescr_t]
       ''cusparseGather'' ty_cusparseStatus_t [ty_cusparseHandle_t, ty_cusparseDnVecDescr_t, ty_cusparseSpVecDescr_t] ''cusparseGather'' [0, 1, 2] False,
     Gen cusparse ty_cusparseStatus_t ''cusparseScatter'' [ty_cusparseHandle_t, ty_cusparseSpVecDescr_t, ty_cusparseDnVecDescr_t]
       ''cusparseScatter'' ty_cusparseStatus_t [ty_cusparseHandle_t, ty_cusparseSpVecDescr_t, ty_cusparseDnVecDescr_t] ''cusparseScatter'' [0, 1, 2] False,
     Gen cusparse ty_cusparseStatus_t ''cusparseRot'' [ty_cusparseHandle_t, Ptr (Const ty_void), Ptr (Const ty_void), ty_cusparseSpVecDescr_t, ty_cusparseDnVecDescr_t]
       ''cusparseRot'' ty_cusparseStatus_t [ty_cusparseHandle_t, Ptr (Const ty_void), Ptr (Const ty_void), ty_cusparseSpVecDescr_t, ty_cusparseDnVecDescr_t] ''cusparseRot'' [0, 1, 2, 3, 4] False,
     Gen cusparse ty_cusparseStatus_t ''cusparseSpVV_bufferSize'' [ty_cusparseHandle_t, ty_cusparseOperation_t, ty_cusparseSpVecDescr_t, ty_cusparseDnVecDescr_t, Ptr (Const ty_void), ty_cudaDataType, Ptr ty_size_t]
       ''cusparseSpVV_bufferSize'' ty_cusparseStatus_t [ty_cusparseHandle_t, ty_cusparseOperation_t, ty_cusparseSpVecDescr_t, ty_cusparseDnVecDescr_t, Ptr (Const ty_void), ty_cudaDataType, Ptr ty_size_t] ''cusparseSpVV_bufferSize'' [0, 1, 2, 3, 4, 5, 6] False,
     Gen cusparse ty_cusparseStatus_t ''cusparseSpVV'' [ty_cusparseHandle_t, ty_cusparseOperation_t, ty_cusparseSpVecDescr_t, ty_cusparseDnVecDescr_t, Ptr ty_void, ty_cudaDataType, Ptr ty_void]
       ''cusparseSpVV'' ty_cusparseStatus_t [ty_cusparseHandle_t, ty_cusparseOperation_t, ty_cusparseSpVecDescr_t, ty_cusparseDnVecDescr_t, Ptr ty_void, ty_cudaDataType, Ptr ty_void] ''cusparseSpVV'' [0, 1, 2, 3, 4, 5, 6] False,
     Gen cusparse ty_cusparseStatus_t ''cusparseSparseToDense_bufferSize'' [ty_cusparseHandle_t, ty_cusparseSpMatDescr_t, ty_cusparseDnMatDescr_t, ty_cusparseSparseToDenseAlg_t, Ptr ty_size_t]
       ''cusparseSparseToDense_bufferSize'' ty_cusparseStatus_t [ty_cusparseHandle_t, ty_cusparseSpMatDescr_t, ty_cusparseDnMatDescr_t, ty_cusparseSparseToDenseAlg_t, Ptr ty_size_t] ''cusparseSparseToDense_bufferSize'' [0, 1, 2, 3, 4] False,
     Gen cusparse ty_cusparseStatus_t ''cusparseSparseToDense'' [ty_cusparseHandle_t, ty_cusparseSpMatDescr_t, ty_cusparseDnMatDescr_t, ty_cusparseSparseToDenseAlg_t, Ptr ty_void]
       ''cusparseSparseToDense'' ty_cusparseStatus_t [ty_cusparseHandle_t, ty_cusparseSpMatDescr_t, ty_cusparseDnMatDescr_t, ty_cusparseSparseToDenseAlg_t, Ptr ty_void] ''cusparseSparseToDense'' [0, 1, 2, 3, 4] False,
     Gen cusparse ty_cusparseStatus_t ''cusparseDenseToSparse_bufferSize'' [ty_cusparseHandle_t, ty_cusparseDnMatDescr_t, ty_cusparseSpMatDescr_t, ty_cusparseDenseToSparseAlg_t, Ptr ty_size_t]
       ''cusparseDenseToSparse_bufferSize'' ty_cusparseStatus_t [ty_cusparseHandle_t, ty_cusparseDnMatDescr_t, ty_cusparseSpMatDescr_t, ty_cusparseDenseToSparseAlg_t, Ptr ty_size_t] ''cusparseDenseToSparse_bufferSize'' [0, 1, 2, 3, 4] False]"

definition cusparse_hooks_43 :: "gen_hook list" where
  "cusparse_hooks_43 =
    [Gen cusparse ty_cusparseStatus_t ''cusparseDenseToSparse_analysis'' [ty_cusparseHandle_t, ty_cusparseDnMatDescr_t, ty_cusparseSpMatDescr_t, ty_cusparseDenseToSparseAlg_t, Ptr ty_void]
       ''cusparseDenseToSparse_analysis'' ty_cusparseStatus_t [ty_cusparseHandle_t, ty_cusparseDnMatDescr_t, ty_cusparseSpMatDescr_t, ty_cusparseDenseToSparseAlg_t, Ptr ty_void] ''cusparseDenseToSparse_analysis'' [0, 1, 2, 3, 4] False,
     Gen cusparse ty_cusparseStatus_t ''cusparseDenseToSparse_convert'' [ty_cusparseHandle_t, ty_cusparseDnMatDescr_t, ty_cusparseSpMatDescr_t, ty_cusparseDenseToSparseAlg_t, Ptr ty_void]
       ''cusparseDenseToSparse_convert'' ty_cusparseStatus_t [ty_cusparseHandle_t, ty_cusparseDnMatDescr_t, ty_cusparseSpMatDescr_t, ty_cusparseDenseToSparseAlg_t, Ptr ty_void] ''cusparseDenseToSparse_convert'' [0, 1, 2, 3, 4] False,
     Gen cusparse ty_cusparseStatus_t ''cusparseSpMV'' [ty_cusparseHandle_t, ty_cusparseOperation_t, Ptr (Const ty_void), ty_cusparseSpMatDescr_t, ty_cusparseDnVecDescr_t, Ptr (Const ty_void), ty_cusparseDnVecDescr_t, ty_cudaDataType, ty_cusparseSpMVAlg_t, Ptr ty_void]
       ''cusparseSpMV'' ty_cusparseStatus_t [ty_cusparseHandle_t, ty_cusparseOperation_t, Ptr (Const ty_void), ty_cusparseSpMatDescr_t, ty_cusparseDnVecDescr_t, Ptr (Const ty_void), ty_cusparseDnVecDescr_t, ty_cudaDataType, ty_cusparseSpMVAlg_t, Ptr ty_void] ''cusparseSpMV'' [0, 1, 2, 3, 4, 5, 6, 7, 8, 9] False,
     Gen cusparse ty_cusparseStatus_t ''cusparseSpMV_bufferSize'' [ty_cusparseHandle_t, ty_cusparseOperation_t, Ptr (Const ty_void), ty_cusparseSpMatDescr_t, ty_cusparseDnVecDescr_t, Ptr (Const ty_void), ty_cusparseDnVecDescr_t, ty_cudaDataType, ty_cusparseSpMVAlg_t, Ptr ty_size_t]
       ''cusparseSpMV_bufferSize'' ty_cusparseStatus_t [ty_cusparseHandle_t, ty_cusparseOperation_t, Ptr (Const ty_void), ty_cusparseSpMatDescr_t, ty_cusparseDnVecDescr_t, Ptr (Const ty_void), ty_cusparseDnVecDescr_t, ty_cudaDataType, ty_cusparseSpMVAlg_t, Ptr ty_size_t] ''cusparseSpMV_bufferSize'' [0, 1, 2, 3, 4, 5, 6, 7, 8, 9] False,
     Gen cusparse ty_cusparseStatus_t ''cusparseSpSV_createDescr'' [Ptr ty_cusparseSpSVDescr_t]
       ''cusparseSpSV_createDescr'' ty_cusparseStatus_t [Ptr ty_cusparseSpSVDescr_t] ''cusparseSpSV_createDescr'' [0] False,
     Gen cusparse ty_cusparseStatus_t ''cusparseSpSV_destroyDescr'' [ty_cusparseSpSVDescr_t]
       ''cusparseSpSV_destroyDescr'' ty_cusparseStatus_t [ty_cusparseSpSVDescr_t] ''cusparseSpSV_destroyDescr'' [0] False,
     Gen cusparse ty_cusparseStatus_t ''cusparseSpSV_bufferSize'' [ty_cusparseHandle_t, ty_cusparseOperation_t, Ptr (Const ty_void), ty_cusparseSpMatDescr_t, ty_cusparseDnVecDescr_t, ty_cusparseDnVecDescr_t, ty_cudaDataType, ty_cusparseSpSVAlg_t, ty_cusparseSpSVDescr_t, Ptr ty_size_t]
       ''cusparseSpSV_bufferSize'' ty_cusparseStatus_t [ty_cusparseHandle_t, ty_cusparseOperation_t, Ptr (Const ty_void), ty_cusparseSpMatDescr_t, ty_cusparseDnVecDescr_t, ty_cusparseDnVecDescr_t, ty_cudaDataType, ty_cusparseSpSVAlg_t, ty_cusparseSpSVDescr_t, Ptr ty_size_t] ''cusparseSpSV_bufferSize'' [0, 1, 2, 3, 4, 5, 6, 7, 8, 9] False,
     Gen cusparse ty_cusparseStatus_t ''cusparseSpSV_analysis'' [ty_cusparseHandle_t, ty_cusparseOperation_t, Ptr (Const ty_void), ty_cusparseSpMatDescr_t, ty_cusparseDnVecDescr_t, ty_cusparseDnVecDescr_t, ty_cudaDataType, ty_cusparseSpSVAlg_t, ty_cusparseSpSVDescr_t, Ptr ty_void]
       ''cusparseSpSV_analysis'' ty_cusparseStatus_t [ty_cusparseHandle_t, ty_cusparseOperation_t, Ptr (Const ty_void), ty_cusparseSpMatDescr_t, ty_cusparseDnVecDescr_t, ty_cusparseDnVecDescr_t, ty_cudaDataType, ty_cusparseSpSVAlg_t, ty_cusparseSpSVDescr_t, Ptr ty_void] ''cusparseSpSV_analysis'' [0, 1, 2, 3, 4, 5, 6, 7, 8, 9] False,
     Gen cusparse ty_cusparseStatus_t ''cusparseSpSV_solve'' [ty_cusparseHandle_t, ty_cusparseOperation_t, Ptr (Const ty_void), ty_cusparseSpMatDescr_t, ty_cusparseDnVecDescr_t, ty_cusparseDnVecDescr_t, ty_cudaDataType, ty_cusparseSpSVAlg_t, ty_cusparseSpSVDescr_t]
       ''cusparseSpSV_solve'' ty_cusparseStatus_t [ty_cusparseHandle_t, ty_cusparseOperation_t, Ptr (Const ty_void), ty_cusparseSpMatDescr_t, ty_cusparseDnVecDescr_t, ty_cusparseDnVecDescr_t, ty_cudaDataType, ty_cusparseSpSVAlg_t, ty_cusparseSpSVDescr_t] ''cusparseSpSV_solve'' [0, 1, 2, 3, 4, 5, 6, 7, 8] False,
     Gen cusparse ty_cusparseStatus_t ''cusparseSpSM_createDescr'' [Ptr ty_cusparseSpSMDescr_t]
       ''cusparseSpSM_createDescr'' ty_cusparseStatus_t [Ptr ty_cusparseSpSMDescr_t] ''cusparseSpSM_createDescr'' [0] False,
     Gen cusparse ty_cusparseStatus_t ''cusparseSpSM_destroyDescr'' [ty_cusparseSpSMDescr_t]
       ''cusparseSpSM_destroyDescr'' ty_cusparseStatus_t [ty_cusparseSpSMDescr_t] ''cusparseSpSM_destroyDescr'' [0] False,
     Gen cusparse ty_cusparseStatus_t ''cusparseSpSM_bufferSize'' [ty_cusparseHandle_t, ty_cusparseOperation_t, ty_cusparseOperation_t, Ptr (Const ty_void), ty_cusparseSpMatDescr_t, ty_cusparseDnMatDescr_t, ty_cusparseDnMatDescr_t, ty_cudaDataType, ty_cusparseSpSMAlg_t, ty_cusparseSpSMDescr_t, Ptr ty_size_t]
       ''cusparseSpSM_bufferSize'' ty_cusparseStatus_t [ty_cusparseHandle_t, ty_cusparseOperation_t, ty_cusparseOperation_t, Ptr (Const ty_void), ty_cusparseSpMatDescr_t, ty_cusparseDnMatDescr_t, ty_cusparseDnMatDescr_t, ty_cudaDataType, ty_cusparseSpSMAlg_t, ty_cusparseSpSMDescr_t, Ptr ty_size_t] ''cusparseSpSM_bufferSize'' [0, 1, 2, 3, 4, 5, 6, 7, 8, 9, 10] False]"

definition cusparse_hooks_44 :: "gen_hook list" where
  "cusparse_hooks_44 =
    [Gen cusparse ty_cusparseStatus_t ''cusparseSpSM_analysis'' [ty_cusparseHandle_t, ty_cusparseOperation_t, ty_cusparseOperation_t, Ptr (Const ty_void), ty_cusparseSpMatDescr_t, ty_cusparseDnMatDescr_t, ty_cusparseDnMatDescr_t, ty_cudaDataType, ty_cusparseSpSMAlg_t, ty_cusparseSpSMDescr_t, Ptr ty_void]
       ''cusparseSpSM_analysis'' ty_cusparseStatus_t [ty_cusparseHandle_t, ty_cusparseOperation_t, ty_cusparseOperation_t, Ptr (Const ty_void), ty_cusparseSpMatDescr_t, ty_cusparseDnMatDescr_t, ty_cusparseDnMatDescr_t, ty_cudaDataType, ty_cusparseSpSMAlg_t, ty_cusparseSpSMDescr_t, Ptr ty_void] ''cusparseSpSM_analysis'' [0, 1, 2, 3, 4, 5, 6, 7, 8, 9, 10] False,
     Gen cusparse ty_cusparseStatus_t ''cusparseSpSM_solve'' [ty_cusparseHandle_t, ty_cusparseOperation_t, ty_cusparseOperation_t, Ptr (Const ty_void), ty_cusparseSpMatDescr_t, ty_cusparseDnMatDescr_t, ty_cusparseDnMatDescr_t, ty_cudaDataType, ty_cusparseSpSMAlg_t, ty_cusparseSpSMDescr_t]
       ''cusparseSpSM_solve'' ty_cusparseStatus_t [ty_cusparseHandle_t, ty_cusparseOperation_t, ty_cusparseOperation_t, Ptr (Const ty_void), ty_cusparseSpMatDescr_t, ty_cusparseDnMatDescr_t, ty_cusparseDnMatDescr_t, ty_cudaDataType, ty_cusparseSpSMAlg_t, ty_cusparseSpSMDescr_t] ''cusparseSpSM_solve'' [0, 1, 2, 3, 4, 5, 6, 7, 8, 9] False,
     Gen cusparse ty_cusparseStatus_t ''cusparseSpMM_bufferSize'' [ty_cusparseHandle_t, ty_cusparseOperation_t, ty_cusparseOperation_t, Ptr (Const ty_void), ty_cusparseSpMatDescr_t, ty_cusparseDnMatDescr_t, Ptr (Const ty_void), ty_cusparseDnMatDescr_t, ty_cudaDataType, ty_cusparseSpMMAlg_t, Ptr ty_size_t]
       ''cusparseSpMM_bufferSize'' ty_cusparseStatus_t [ty_cusparseHandle_t, ty_cusparseOperation_t, ty_cusparseOperation_t, Ptr (Const ty_void), ty_cusparseSpMatDescr_t, ty_cusparseDnMatDescr_t, Ptr (Const ty_void), ty_cusparseDnMatDescr_t, ty_cudaDataType, ty_cusparseSpMMAlg_t, Ptr ty_size_t] ''cusparseSpMM_bufferSize'' [0, 1, 2, 3, 4, 5, 6, 7, 8, 9, 10] False,
     Gen cusparse ty_cusparseStatus_t ''cusparseSpMM_preprocess'' [ty_cusparseHandle_t, ty_cusparseOperation_t, ty_cusparseOperation_t, Ptr (Const ty_void), ty_cusparseSpMatDescr_t, ty_cusparseDnMatDescr_t, Ptr (Const ty_void), ty_cusparseDnMatDescr_t, ty_cudaDataType, ty_cusparseSpMMAlg_t, Ptr ty_void]
       ''cusparseSpMM_preprocess'' ty_cusparseStatus_t [ty_cusparseHandle_t, ty_cusparseOperation_t, ty_cusparseOperation_t, Ptr (Const ty_void), ty_cusparseSpMatDescr_t, ty_cusparseDnMatDescr_t, Ptr (Const ty_void), ty_cusparseDnMatDescr_t, ty_cudaDataType, ty_cusparseSpMMAlg_t, Ptr ty_void] ''cusparseSpMM_preprocess'' [0, 1, 2, 3, 4, 5, 6, 7, 8, 9, 10] False,
     Gen cusparse ty_cusparseStatus_t ''cusparseSpMM'' [ty_cusparseHandle_t, ty_cusparseOperation_t, ty_cusparseOperation_t, Ptr (Const ty_void), ty_cusparseSpMatDescr_t, ty_cusparseDnMatDescr_t, Ptr (Const ty_void), ty_cusparseDnMatDescr_t, ty_cudaDataType, ty_cusparseSpMMAlg_t, Ptr ty_void]
       ''cusparseSpMM'' ty_cusparseStatus_t [ty_cusparseHandle_t, ty_cusparseOperation_t, ty_cusparseOperation_t, Ptr (Const ty_void), ty_cusparseSpMatDescr_t, ty_cusparseDnMatDescr_t, Ptr (Const ty_void), ty_cusparseDnMatDescr_t, ty_cudaDataType, ty_cusparseSpMMAlg_t, Ptr ty_void] ''cusparseSpMM'' [0, 1, 2, 3, 4, 5, 6, 7, 8, 9, 10] False,
     Gen cusparse ty_cusparseStatus_t ''cusparseSpGEMM_createDescr'' [Ptr ty_cusparseSpGEMMDescr_t]
       ''cusparseSpGEMM_createDescr'' ty_cusparseStatus_t [Ptr ty_cusparseSpGEMMDescr_t] ''cusparseSpGEMM_createDescr'' [0] False,
     Gen cusparse ty_cusparseStatus_t ''cusparseSpGEMM_destroyDescr'' [ty_cusparseSpGEMMDescr_t]
       ''cusparseSpGEMM_destroyDescr'' ty_cusparseStatus_t [ty_cusparseSpGEMMDescr_t] ''cusparseSpGEMM_destroyDescr'' [0] False,
     Gen cusparse ty_cusparseStatus_t ''cusparseSpGEMM_workEstimation'' [ty_cusparseHandle_t, ty_cusparseOperation_t, ty_cusparseOperation_t, Ptr (Const ty_void), ty_cusparseSpMatDescr_t, ty_cusparseSpMatDescr_t, Ptr (Const ty_void), ty_cusparseSpMatDescr_t, ty_cudaDataType, ty_cusparseSpGEMMAlg_t, ty_cusparseSpGEMMDescr_t, Ptr ty_size_t, Ptr ty_void]
       ''cusparseSpGEMM_workEstimation'' ty_cusparseStatus_t [ty_cusparseHandle_t, ty_cusparseOperation_t, ty_cusparseOperation_t, Ptr (Const ty_void), ty_cusparseSpMatDescr_t, ty_cusparseSpMatDescr_t, Ptr (Const ty_void), ty_cusparseSpMatDescr_t, ty_cudaDataType, ty_cusparseSpGEMMAlg_t, ty_cusparseSpGEMMDescr_t, Ptr ty_size_t, Ptr ty_void] ''cusparseSpGEMM_workEstimation'' [0, 1, 2, 3, 4, 5, 6, 7, 8, 9, 10, 11, 12] False,
     Gen cusparse ty_cusparseStatus_t ''cusparseSpGEMM_compute'' [ty_cusparseHandle_t, ty_cusparseOperation_t, ty_cusparseOperation_t, Ptr (Const ty_void), ty_cusparseSpMatDescr_t, ty_cusparseSpMatDescr_t, Ptr (Const ty_void), ty_cusparseSpMatDescr_t, ty_cudaDataType, ty_cusparseSpGEMMAlg_t, ty_cusparseSpGEMMDescr_t, Ptr ty_size_t, Ptr ty_void]
       ''cusparseSpGEMM_compute'' ty_cusparseStatus_t [ty_cusparseHandle_t, ty_cusparseOperation_t, ty_cusparseOperation_t, Ptr (Const ty_void), ty_cusparseSpMatDescr_t, ty_cusparseSpMatDescr_t, Ptr (Const ty_void), ty_cusparseSpMatDescr_t, ty_cudaDataType, ty_cusparseSpGEMMAlg_t, ty_cusparseSpGEMMDescr_t, Ptr ty_size_t, Ptr ty_void] ''cusparseSpGEMM_compute'' [0, 1, 2, 3, 4, 5, 6, 7, 8, 9, 10, 11, 12] False,
     Gen cusparse ty_cusparseStatus_t ''cusparseSpGEMM_copy'' [ty_cusparseHandle_t, ty_cusparseOperation_t, ty_cusparseOperation_t, Ptr (Const ty_void), ty_cusparseSpMatDescr_t, ty_cusparseSpMatDescr_t, Ptr (Const ty_void), ty_cusparseSpMatDescr_t, ty_cudaDataType, ty_cusparseSpGEMMAlg_t, ty_cusparseSpGEMMDescr_t]
       ''cusparseSpGEMM_copy'' ty_cusparseStatus_t [ty_cusparseHandle_t, ty_cusparseOperation_t, ty_cusparseOperation_t, Ptr (Const ty_void), ty_cusparseSpMatDescr_t, ty_cusparseSpMatDescr_t, Ptr (Const ty_void), ty_cusparseSpMatDescr_t, ty_cudaDataType, ty_cusparseSpGEMMAlg_t, ty_cusparseSpGEMMDescr_t] ''cusparseSpGEMM_copy'' [0, 1, 2, 3, 4, 5, 6, 7, 8, 9, 10] False,
     Gen cusparse ty_cusparseStatus_t ''cusparseSpGEMMreuse_workEstimation'' [ty_cusparseHandle_t, ty_cusparseOperation_t, ty_cusparseOperation_t, ty_cusparseSpMatDescr_t, ty_cusparseSpMatDescr_t, ty_cusparseSpMatDescr_t, ty_cusparseSpGEMMAlg_t, ty_cusparseSpGEMMDescr_t, Ptr ty_size_t, Ptr ty_void]
       ''cusparseSpGEMMreuse_workEstimation'' ty_cusparseStatus_t [ty_cusparseHandle_t, ty_cusparseOperation_t, ty_cusparseOperation_t, ty_cusparseSpMatDescr_t, ty_cusparseSpMatDescr_t, ty_cusparseSpMatDescr_t, ty_cusparseSpGEMMAlg_t, ty_cusparseSpGEMMDescr_t, Ptr ty_size_t, Ptr ty_void] ''cusparseSpGEMMreuse_workEstimation'' [0, 1, 2, 3, 4, 5, 6, 7, 8, 9] False]"

definition cusparse_hooks_45 :: "gen_hook list" where
  "cusparse_hooks_45 =
    [Gen cusparse ty_cusparseStatus_t ''cusparseSpGEMMreuse_nnz'' [ty_cusparseHandle_t, ty_cusparseOperation_t, ty_cusparseOperation_t, ty_cusparseSpMatDescr_t, ty_cusparseSpMatDescr_t, ty_cusparseSpMatDescr_t, ty_cusparseSpGEMMAlg_t, ty_cusparseSpGEMMDescr_t, Ptr ty_size_t, Ptr ty_void, Ptr ty_size_t, Ptr ty_void, Ptr ty_size_t, Ptr ty_void]
       ''cusparseSpGEMMreuse_nnz'' ty_cusparseStatus_t [ty_cusparseHandle_t, ty_cusparseOperation_t, ty_cusparseOperation_t, ty_cusparseSpMatDescr_t, ty_cusparseSpMatDescr_t, ty_cusparseSpMatDescr_t, ty_cusparseSpGEMMAlg_t, ty_cusparseSpGEMMDescr_t, Ptr ty_size_t, Ptr ty_void, Ptr ty_size_t, Ptr ty_void, Ptr ty_size_t, Ptr ty_void] ''cusparseSpGEMMreuse_nnz'' [0, 1, 2, 3, 4, 5, 6, 7, 8, 9, 10, 11, 12, 13] False,
     Gen cusparse ty_cusparseStatus_t ''cusparseSpGEMMreuse_copy'' [ty_cusparseHandle_t, ty_cusparseOperation_t, ty_cusparseOperation_t, ty_cusparseSpMatDescr_t, ty_cusparseSpMatDescr_t, ty_cusparseSpMatDescr_t, ty_cusparseSpGEMMAlg_t, ty_cusparseSpGEMMDescr_t, Ptr ty_size_t, Ptr ty_void]
       ''cusparseSpGEMMreuse_copy'' ty_cusparseStatus_t [ty_cusparseHandle_t, ty_cusparseOperation_t, ty_cusparseOperation_t, ty_cusparseSpMatDescr_t, ty_cusparseSpMatDescr_t, ty_cusparseSpMatDescr_t, ty_cusparseSpGEMMAlg_t, ty_cusparseSpGEMMDescr_t, Ptr ty_size_t, Ptr ty_void] ''cusparseSpGEMMreuse_copy'' [0, 1, 2, 3, 4, 5, 6, 7, 8, 9] False,
     Gen cusparse ty_cusparseStatus_t ''cusparseSpGEMMreuse_compute'' [ty_cusparseHandle_t, ty_cusparseOperation_t, ty_cusparseOperation_t, Ptr (Const ty_void), ty_cusparseSpMatDescr_t, ty_cusparseSpMatDescr_t, Ptr (Const ty_void), ty_cusparseSpMatDescr_t, ty_cudaDataType, ty_cusparseSpGEMMAlg_t, ty_cusparseSpGEMMDescr_t]
       ''cusparseSpGEMMreuse_compute'' ty_cusparseStatus_t [ty_cusparseHandle_t, ty_cusparseOperation_t, ty_cusparseOperation_t, Ptr (Const ty_void), ty_cusparseSpMatDescr_t, ty_cusparseSpMatDescr_t, Ptr (Const ty_void), ty_cusparseSpMatDescr_t, ty_cudaDataType, ty_cusparseSpGEMMAlg_t, ty_cusparseSpGEMMDescr_t] ''cusparseSpGEMMreuse_compute'' [0, 1, 2, 3, 4, 5, 6, 7, 8, 9, 10] False,
     Gen cusparse ty_cusparseStatus_t ''cusparseConstrainedGeMM'' [ty_cusparseHandle_t, ty_cusparseOperation_t, ty_cusparseOperation_t, Ptr (Const ty_void), ty_cusparseDnMatDescr_t, ty_cusparseDnMatDescr_t, Ptr (Const ty_void), ty_cusparseSpMatDescr_t, ty_cudaDataType, Ptr ty_void]
       ''cusparseConstrainedGeMM'' ty_cusparseStatus_t [ty_cusparseHandle_t, ty_cusparseOperation_t, ty_cusparseOperation_t, Ptr (Const ty_void), ty_cusparseDnMatDescr_t, ty_cusparseDnMatDescr_t, Ptr (Const ty_void), ty_cusparseSpMatDescr_t, ty_cudaDataType, Ptr ty_void] ''cusparseConstrainedGeMM'' [0, 1, 2, 3, 4, 5, 6, 7, 8, 9] False,
     Gen cusparse ty_cusparseStatus_t ''cusparseConstrainedGeMM_bufferSize'' [ty_cusparseHandle_t, ty_cusparseOperation_t, ty_cusparseOperation_t, Ptr (Const ty_void), ty_cusparseDnMatDescr_t, ty_cusparseDnMatDescr_t, Ptr (Const ty_void), ty_cusparseSpMatDescr_t, ty_cudaDataType, Ptr ty_size_t]
       ''cusparseConstrainedGeMM_bufferSize'' ty_cusparseStatus_t [ty_cusparseHandle_t, ty_cusparseOperation_t, ty_cusparseOperation_t, Ptr (Const ty_void), ty_cusparseDnMatDescr_t, ty_cusparseDnMatDescr_t, Ptr (Const ty_void), ty_cusparseSpMatDescr_t, ty_cudaDataType, Ptr ty_size_t] ''cusparseConstrainedGeMM_bufferSize'' [0, 1, 2, 3, 4, 5, 6, 7, 8, 9] False,
     Gen cusparse ty_cusparseStatus_t ''cusparseSDDMM_bufferSize'' [ty_cusparseHandle_t, ty_cusparseOperation_t, ty_cusparseOperation_t, Ptr (Const ty_void), ty_cusparseDnMatDescr_t, ty_cusparseDnMatDescr_t, Ptr (Const ty_void), ty_cusparseSpMatDescr_t, ty_cudaDataType, ty_cusparseSDDMMAlg_t, Ptr ty_size_t]
       ''cusparseSDDMM_bufferSize'' ty_cusparseStatus_t [ty_cusparseHandle_t, ty_cusparseOperation_t, ty_cusparseOperation_t, Ptr (Const ty_void), ty_cusparseDnMatDescr_t, ty_cusparseDnMatDescr_t, Ptr (Const ty_void), ty_cusparseSpMatDescr_t, ty_cudaDataType, ty_cusparseSDDMMAlg_t, Ptr ty_size_t] ''cusparseSDDMM_bufferSize'' [0, 1, 2, 3, 4, 5, 6, 7, 8, 9, 10] False,
     Gen cusparse ty_cusparseStatus_t ''cusparseSDDMM_preprocess'' [ty_cusparseHandle_t, ty_cusparseOperation_t, ty_cusparseOperation_t, Ptr (Const ty_void), ty_cusparseDnMatDescr_t, ty_cusparseDnMatDescr_t, Ptr (Const ty_void), ty_cusparseSpMatDescr_t, ty_cudaDataType, ty_cusparseSDDMMAlg_t, Ptr ty_void]
       ''cusparseSDDMM_preprocess'' ty_cusparseStatus_t [ty_cusparseHandle_t, ty_cusparseOperation_t, ty_cusparseOperation_t, Ptr (Const ty_void), ty_cusparseDnMatDescr_t, ty_cusparseDnMatDescr_t, Ptr (Const ty_void), ty_cusparseSpMatDescr_t, ty_cudaDataType, ty_cusparseSDDMMAlg_t, Ptr ty_void] ''cusparseSDDMM_preprocess'' [0, 1, 2, 3, 4, 5, 6, 7, 8, 9, 10] False,
     Gen cusparse ty_cusparseStatus_t ''cusparseSDDMM'' [ty_cusparseHandle_t, ty_cusparseOperation_t, ty_cusparseOperation_t, Ptr (Const ty_void), ty_cusparseDnMatDescr_t, ty_cusparseDnMatDescr_t, Ptr (Const ty_void), ty_cusparseSpMatDescr_t, ty_cudaDataType, ty_cusparseSDDMMAlg_t, Ptr ty_void]
       ''cusparseSDDMM'' ty_cusparseStatus_t [ty_cusparseHandle_t, ty_cusparseOperation_t, ty_cusparseOperation_t, Ptr (Const ty_void), ty_cusparseDnMatDescr_t, ty_cusparseDnMatDescr_t, Ptr (Const ty_void), ty_cusparseSpMatDescr_t, ty_cudaDataType, ty_cusparseSDDMMAlg_t, Ptr ty_void] ''cusparseSDDMM'' [0, 1, 2, 3, 4, 5, 6, 7, 8, 9, 10] False]"

section \<open>All are instances of the template\<close>

lemma cusparse_hooks_1_ok: "list_all instance_of_template cusparse_hooks_1"
  by (simp add: cusparse_hooks_1_def instance_of_template_def)

lemma cusparse_hooks_2_ok: "list_all instance_of_template cusparse_hooks_2"
  by (simp add: cusparse_hooks_2_def instance_of_template_def)

lemma cusparse_hooks_3_ok: "list_all instance_of_template cusparse_hooks_3"
  by (simp add: cusparse_hooks_3_def instance_of_template_def)

lemma cusparse_hooks_4_ok: "list_all instance_of_template cusparse_hooks_4"
  by (simp add: cusparse_hooks_4_def instance_of_template_def)

lemma cusparse_hooks_5_ok: "list_all instance_of_template cusparse_hooks_5"
  by (simp add: cusparse_hooks_5_def instance_of_template_def)

lemma cusparse_hooks_6_ok: "list_all instance_of_template cusparse_hooks_6"
  by (simp add: cusparse_hooks_6_def instance_of_template_def)

lemma cusparse_hooks_7_ok: "list_all instance_of_template cusparse_hooks_7"
  by (simp add: cusparse_hooks_7_def instance_of_template_def)

lemma cusparse_hooks_8_ok: "list_all instance_of_template cusparse_hooks_8"
  by (simp add: cusparse_hooks_8_def instance_of_template_def)

lemma cusparse_hooks_9_ok: "list_all instance_of_template cusparse_hooks_9"
  by (simp add: cusparse_hooks_9_def instance_of_template_def)

lemma cusparse_hooks_10_ok: "list_all instance_of_template cusparse_hooks_10"
  by (simp add: cusparse_hooks_10_def instance_of_template_def)

lemma cusparse_hooks_11_ok: "list_all instance_of_template cusparse_hooks_11"
  by (simp add: cusparse_hooks_11_def instance_of_template_def)

lemma cusparse_hooks_12_ok: "list_all instance_of_template cusparse_hooks_12"
  by (simp add: cusparse_hooks_12_def instance_of_template_def)

lemma cusparse_hooks_13_ok: "list_all instance_of_template cusparse_hooks_13"
  by (simp add: cusparse_hooks_13_def instance_of_template_def)

lemma cusparse_hooks_14_ok: "list_all instance_of_template cusparse_hooks_14"
  by (simp add: cusparse_hooks_14_def instance_of_template_def)

lemma cusparse_hooks_15_ok: "list_all instance_of_template cusparse_hooks_15"
  by (simp add: cusparse_hooks_15_def instance_of_template_def)

lemma cusparse_hooks_16_ok: "list_all instance_of_template cusparse_hooks_16"
  by (simp add: cusparse_hooks_16_def instance_of_template_def)

lemma cusparse_hooks_17_ok: "list_all instance_of_template cusparse_hooks_17"
  by (simp add: cusparse_hooks_17_def instance_of_template_def)

lemma cusparse_hooks_18_ok: "list_all instance_of_template cusparse_hooks_18"
  by (simp add: cusparse_hooks_18_def instance_of_template_def)

lemma cusparse_hooks_19_ok: "list_all instance_of_template cusparse_hooks_19"
  by (simp add: cusparse_hooks_19_def instance_of_template_def)

lemma cusparse_hooks_20_ok: "list_all instance_of_template cusparse_hooks_20"
  by (simp add: cusparse_hooks_20_def instance_of_template_def)

lemma cusparse_hooks_21_ok: "list_all instance_of_template cusparse_hooks_21"
  by (simp add: cusparse_hooks_21_def instance_of_template_def)

lemma cusparse_hooks_22_ok: "list_all instance_of_template cusparse_hooks_22"
  by (simp add: cusparse_hooks_22_def instance_of_template_def)

lemma cusparse_hooks_23_ok: "list_all instance_of_template cusparse_hooks_23"
  by (simp add: cusparse_hooks_23_def instance_of_template_def)

lemma cusparse_hooks_24_ok: "list_all instance_of_template cusparse_hooks_24"
  by (simp add: cusparse_hooks_24_def instance_of_template_def)

lemma cusparse_hooks_25_ok: "list_all instance_of_template cusparse_hooks_25"
  by (simp add: cusparse_hooks_25_def instance_of_template_def)

lemma cusparse_hooks_26_ok: "list_all instance_of_template cusparse_hooks_26"
  by (simp add: cusparse_hooks_26_def instance_of_template_def)

lemma cusparse_hooks_27_ok: "list_all instance_of_template cusparse_hooks_27"
  by (simp add: cusparse_hooks_27_def instance_of_template_def)

lemma cusparse_hooks_28_ok: "list_all instance_of_template cusparse_hooks_28"
  by (simp add: cusparse_hooks_28_def instance_of_template_def)

lemma cusparse_hooks_29_ok: "list_all instance_of_template cusparse_hooks_29"
  by (simp add: cusparse_hooks_29_def instance_of_template_def)

lemma cusparse_hooks_30_ok: "list_all instance_of_template cusparse_hooks_30"
  by (simp add: cusparse_hooks_30_def instance_of_template_def)

lemma cusparse_hooks_31_ok: "list_all instance_of_template cusparse_hooks_31"
  by (simp add: cusparse_hooks_31_def instance_of_template_def)

lemma cusparse_hooks_32_ok: "list_all instance_of_template cusparse_hooks_32"
  by (simp add: cusparse_hooks_32_def instance_of_template_def)

lemma cusparse_hooks_33_ok: "list_all instance_of_template cusparse_hooks_33"
  by (simp add: cusparse_hooks_33_def instance_of_template_def)

lemma cusparse_hooks_34_ok: "list_all instance_of_template cusparse_hooks_34"
  by (simp add: cusparse_hooks_34_def instance_of_template_def)

lemma cusparse_hooks_35_ok: "list_all instance_of_template cusparse_hooks_35"
  by (simp add: cusparse_hooks_35_def instance_of_template_def)

lemma cusparse_hooks_36_ok: "list_all instance_of_template cusparse_hooks_36"
  by (simp add: cusparse_hooks_36_def instance_of_template_def)

lemma cusparse_hooks_37_ok: "list_all instance_of_template cusparse_hooks_37"
  by (simp add: cusparse_hooks_37_def instance_of_template_def)

lemma cusparse_hooks_38_ok: "list_all instance_of_template cusparse_hooks_38"
  by (simp add: cusparse_hooks_38_def instance_of_template_def)

lemma cusparse_hooks_39_ok: "list_all instance_of_template cusparse_hooks_39"
  by (simp add: cusparse_hooks_39_def instance_of_template_def)

lemma cusparse_hooks_40_ok: "list_all instance_of_template cusparse_hooks_40"
  by (simp add: cusparse_hooks_40_def instance_of_template_def)

lemma cusparse_hooks_41_ok: "list_all instance_of_template cusparse_hooks_41"
  by (simp add: cusparse_hooks_41_def instance_of_template_def)

lemma cusparse_hooks_42_ok: "list_all instance_of_template cusparse_hooks_42"
  by (simp add: cusparse_hooks_42_def instance_of_template_def)

lemma cusparse_hooks_43_ok: "list_all instance_of_template cusparse_hooks_43"
  by (simp add: cusparse_hooks_43_def instance_of_template_def)

lemma cusparse_hooks_44_ok: "list_all instance_of_template cusparse_hooks_44"
  by (simp add: cusparse_hooks_44_def instance_of_template_def)

lemma cusparse_hooks_45_ok: "list_all instance_of_template cusparse_hooks_45"
  by (simp add: cusparse_hooks_45_def instance_of_template_def)

definition cusparse_hooks :: "gen_hook list" where
  "cusparse_hooks = concat
    [cusparse_hooks_1, cusparse_hooks_2, cusparse_hooks_3, cusparse_hooks_4,
     cusparse_hooks_5, cusparse_hooks_6, cusparse_hooks_7, cusparse_hooks_8,
     cusparse_hooks_9, cusparse_hooks_10, cusparse_hooks_11, cusparse_hooks_12,
     cusparse_hooks_13, cusparse_hooks_14, cusparse_hooks_15, cusparse_hooks_16,
     cusparse_hooks_17, cusparse_hooks_18, cusparse_hooks_19, cusparse_hooks_20,
     cusparse_hooks_21, cusparse_hooks_22, cusparse_hooks_23, cusparse_hooks_24,
     cusparse_hooks_25, cusparse_hooks_26, cusparse_hooks_27, cusparse_hooks_28,
     cusparse_hooks_29, cusparse_hooks_30, cusparse_hooks_31, cusparse_hooks_32,
     cusparse_hooks_33, cusparse_hooks_34, cusparse_hooks_35, cusparse_hooks_36,
     cusparse_hooks_37, cusparse_hooks_38, cusparse_hooks_39, cusparse_hooks_40,
     cusparse_hooks_41, cusparse_hooks_42, cusparse_hooks_43, cusparse_hooks_44,
     cusparse_hooks_45]"

lemma cusparse_hooks_ok: "list_all instance_of_template cusparse_hooks"
  by (simp add: cusparse_hooks_def cusparse_hooks_1_ok cusparse_hooks_2_ok cusparse_hooks_3_ok cusparse_hooks_4_ok cusparse_hooks_5_ok
      cusparse_hooks_6_ok cusparse_hooks_7_ok cusparse_hooks_8_ok cusparse_hooks_9_ok cusparse_hooks_10_ok
      cusparse_hooks_11_ok cusparse_hooks_12_ok cusparse_hooks_13_ok cusparse_hooks_14_ok cusparse_hooks_15_ok
      cusparse_hooks_16_ok cusparse_hooks_17_ok cusparse_hooks_18_ok cusparse_hooks_19_ok cusparse_hooks_20_ok
      cusparse_hooks_21_ok cusparse_hooks_22_ok cusparse_hooks_23_ok cusparse_hooks_24_ok cusparse_hooks_25_ok
      cusparse_hooks_26_ok cusparse_hooks_27_ok cusparse_hooks_28_ok cusparse_hooks_29_ok cusparse_hooks_30_ok
      cusparse_hooks_31_ok cusparse_hooks_32_ok cusparse_hooks_33_ok cusparse_hooks_34_ok cusparse_hooks_35_ok
      cusparse_hooks_36_ok cusparse_hooks_37_ok cusparse_hooks_38_ok cusparse_hooks_39_ok cusparse_hooks_40_ok
      cusparse_hooks_41_ok cusparse_hooks_42_ok cusparse_hooks_43_ok cusparse_hooks_44_ok cusparse_hooks_45_ok)

end
