(* ===== verification/Hooks_Nvml.thy ===== *)
theory Hooks_Nvml
  imports Hook_Gen
begin

text \<open>
  The generated functions of \<open>src/nvml/nvml_hook.cpp\<close>, in the order of the file.
\<close>

section \<open>Types\<close>

definition ty_nvmlReturn_t :: cty where "ty_nvmlReturn_t = Named ''nvmlReturn_t''"
definition ty_nvmlUnit_t :: cty where "ty_nvmlUnit_t = Named ''nvmlUnit_t''"
definition ty_nvmlUnitInfo_t :: cty where "ty_nvmlUnitInfo_t = Named ''nvmlUnitInfo_t''"
definition ty_nvmlLedState_t :: cty where "ty_nvmlLedState_t = Named ''nvmlLedState_t''"
definition ty_nvmlPSUInfo_t :: cty where "ty_nvmlPSUInfo_t = Named ''nvmlPSUInfo_t''"
definition ty_nvmlUnitFanSpeeds_t :: cty where "ty_nvmlUnitFanSpeeds_t = Named ''nvmlUnitFanSpeeds_t''"
definition ty_nvmlDevice_t :: cty where "ty_nvmlDevice_t = Named ''nvmlDevice_t''"
definition ty_nvmlHwbcEntry_t :: cty where "ty_nvmlHwbcEntry_t = Named ''nvmlHwbcEntry_t''"
definition ty_nvmlDeviceAttributes_t :: cty where "ty_nvmlDeviceAttributes_t = Named ''nvmlDeviceAttributes_t''"
definition ty_nvmlBrandType_t :: cty where "ty_nvmlBrandType_t = Named ''nvmlBrandType_t''"
definition ty_unsigned_long :: cty where "ty_unsigned_long = Named ''unsigned long''"
definition ty_nvmlAffinityScope_t :: cty where "ty_nvmlAffinityScope_t = Named ''nvmlAffinityScope_t''"
definition ty_nvmlGpuTopologyLevel_t :: cty where "ty_nvmlGpuTopologyLevel_t = Named ''nvmlGpuTopologyLevel_t''"
definition ty_nvmlGpuP2PCapsIndex_t :: cty where "ty_nvmlGpuP2PCapsIndex_t = Named ''nvmlGpuP2PCapsIndex_t''"
definition ty_nvmlGpuP2PStatus_t :: cty where "ty_nvmlGpuP2PStatus_t = Named ''nvmlGpuP2PStatus_t''"
definition ty_nvmlVgpuInstance_t :: cty where "ty_nvmlVgpuInstance_t = Named ''nvmlVgpuInstance_t''"
definition ty_nvmlInforomObject_t :: cty where "ty_nvmlInforomObject_t = Named ''nvmlInforomObject_t''"
definition ty_nvmlEnableState_t :: cty where "ty_nvmlEnableState_t = Named ''nvmlEnableState_t''"
definition ty_nvmlPciInfo_t :: cty where "ty_nvmlPciInfo_t = Named ''nvmlPciInfo_t''"
definition ty_nvmlPcieUtilCounter_t :: cty where "ty_nvmlPcieUtilCounter_t = Named ''nvmlPcieUtilCounter_t''"
definition ty_nvmlClockType_t :: cty where "ty_nvmlClockType_t = Named ''nvmlClockType_t''"
definition ty_nvmlClockId_t :: cty where "ty_nvmlClockId_t = Named ''nvmlClockId_t''"
definition ty_nvmlTemperatureSensors_t :: cty where "ty_nvmlTemperatureSensors_t = Named ''nvmlTemperatureSensors_t''"
definition ty_nvmlTemperatureThresholds_t :: cty where "ty_nvmlTemperatureThresholds_t = Named ''nvmlTemperatureThresholds_t''"
definition ty_nvmlPstates_t :: cty where "ty_nvmlPstates_t = Named ''nvmlPstates_t''"
definition ty_nvmlGpuOperationMode_t :: cty where "ty_nvmlGpuOperationMode_t = Named ''nvmlGpuOperationMode_t''"
definition ty_nvmlMemory_t :: cty where "ty_nvmlMemory_t = Named ''nvmlMemory_t''"
definition ty_nvmlComputeMode_t :: cty where "ty_nvmlComputeMode_t = Named ''nvmlComputeMode_t''"
definition ty_nvmlMemoryErrorType_t :: cty where "ty_nvmlMemoryErrorType_t = Named ''nvmlMemoryErrorType_t''"
definition ty_nvmlEccCounterType_t :: cty where "ty_nvmlEccCounterType_t = Named ''nvmlEccCounterType_t''"
definition ty_nvmlEccErrorCounts_t :: cty where "ty_nvmlEccErrorCounts_t = Named ''nvmlEccErrorCounts_t''"
definition ty_nvmlMemoryLocation_t :: cty where "ty_nvmlMemoryLocation_t = Named ''nvmlMemoryLocation_t''"
definition ty_nvmlUtilization_t :: cty where "ty_nvmlUtilization_t = Named ''nvmlUtilization_t''"
definition ty_nvmlEncoderType_t :: cty where "ty_nvmlEncoderType_t = Named ''nvmlEncoderType_t''"
definition ty_nvmlEncoderSessionInfo_t :: cty where "ty_nvmlEncoderSessionInfo_t = Named ''nvmlEncoderSessionInfo_t''"
definition ty_nvmlFBCStats_t :: cty where "ty_nvmlFBCStats_t = Named ''nvmlFBCStats_t''"
definition ty_nvmlFBCSessionInfo_t :: cty where "ty_nvmlFBCSessionInfo_t = Named ''nvmlFBCSessionInfo_t''"
definition ty_nvmlDriverModel_t :: cty where "ty_nvmlDriverModel_t = Named ''nvmlDriverModel_t''"
definition ty_nvmlBridgeChipHierarchy_t :: cty where "ty_nvmlBridgeChipHierarchy_t = Named ''nvmlBridgeChipHierarchy_t''"
definition ty_nvmlProcessInfo_t :: cty where "ty_nvmlProcessInfo_t = Named ''nvmlProcessInfo_t''"
definition ty_nvmlRestrictedAPI_t :: cty where "ty_nvmlRestrictedAPI_t = Named ''nvmlRestrictedAPI_t''"
definition ty_nvmlSamplingType_t :: cty where "ty_nvmlSamplingType_t = Named ''nvmlSamplingType_t''"
definition ty_nvmlValueType_t :: cty where "ty_nvmlValueType_t = Named ''nvmlValueType_t''"
definition ty_nvmlSample_t :: cty where "ty_nvmlSample_t = Named ''nvmlSample_t''"
definition ty_nvmlBAR1Memory_t :: cty where "ty_nvmlBAR1Memory_t = Named ''nvmlBAR1Memory_t''"
definition ty_nvmlPerfPolicyType_t :: cty where "ty_nvmlPerfPolicyType_t = Named ''nvmlPerfPolicyType_t''"
definition ty_nvmlViolationTime_t :: cty where "ty_nvmlViolationTime_t = Named ''nvmlViolationTime_t''"
definition ty_nvmlAccountingStats_t :: cty where "ty_nvmlAccountingStats_t = Named ''nvmlAccountingStats_t''"
definition ty_nvmlPageRetirementCause_t :: cty where "ty_nvmlPageRetirementCause_t = Named ''nvmlPageRetirementCause_t''"
definition ty_nvmlRowRemapperHistogramValues_t :: cty where "ty_nvmlRowRemapperHistogramValues_t = Named ''nvmlRowRemapperHistogramValues_t''"
definition ty_nvmlDeviceArchitecture_t :: cty where "ty_nvmlDeviceArchitecture_t = Named ''nvmlDeviceArchitecture_t''"
definition ty_nvmlLedColor_t :: cty where "ty_nvmlLedColor_t = Named ''nvmlLedColor_t''"
definition ty_nvmlClkMonStatus_t :: cty where "ty_nvmlClkMonStatus_t = Named ''nvmlClkMonStatus_t''"
definition ty_nvmlNvLinkCapability_t :: cty where "ty_nvmlNvLinkCapability_t = Named ''nvmlNvLinkCapability_t''"
definition ty_nvmlNvLinkErrorCounter_t :: cty where "ty_nvmlNvLinkErrorCounter_t = Named ''nvmlNvLinkErrorCounter_t''"
definition ty_nvmlNvLinkUtilizationControl_t :: cty where "ty_nvmlNvLinkUtilizationControl_t = Named ''nvmlNvLinkUtilizationControl_t''"
definition ty_nvmlIntNvLinkDeviceType_t :: cty where "ty_nvmlIntNvLinkDeviceType_t = Named ''nvmlIntNvLinkDeviceType_t''"
definition ty_nvmlEventSet_t :: cty where "ty_nvmlEventSet_t = Named ''nvmlEventSet_t''"
definition ty_nvmlEventData_t :: cty where "ty_nvmlEventData_t = Named ''nvmlEventData_t''"
definition ty_nvmlDetachGpuState_t :: cty where "ty_nvmlDetachGpuState_t = Named ''nvmlDetachGpuState_t''"
definition ty_nvmlPcieLinkState_t :: cty where "ty_nvmlPcieLinkState_t = Named ''nvmlPcieLinkState_t''"
definition ty_nvmlFieldValue_t :: cty where "ty_nvmlFieldValue_t = Named ''nvmlFieldValue_t''"
definition ty_nvmlGpuVirtualizationMode_t :: cty where "ty_nvmlGpuVirtualizationMode_t = Named ''nvmlGpuVirtualizationMode_t''"
definition ty_nvmlHostVgpuMode_t :: cty where "ty_nvmlHostVgpuMode_t = Named ''nvmlHostVgpuMode_t''"
definition ty_nvmlGridLicensableFeatures_t :: cty where "ty_nvmlGridLicensableFeatures_t = Named ''nvmlGridLicensableFeatures_t''"
definition ty_nvmlProcessUtilizationSample_t :: cty where "ty_nvmlProcessUtilizationSample_t = Named ''nvmlProcessUtilizationSample_t''"
definition ty_nvmlVgpuTypeId_t :: cty where "ty_nvmlVgpuTypeId_t = Named ''nvmlVgpuTypeId_t''"
definition ty_nvmlVgpuVmIdType_t :: cty where "ty_nvmlVgpuVmIdType_t = Named ''nvmlVgpuVmIdType_t''"
definition ty_nvmlVgpuMetadata_t :: cty where "ty_nvmlVgpuMetadata_t = Named ''nvmlVgpuMetadata_t''"
definition ty_nvmlVgpuPgpuMetadata_t :: cty where "ty_nvmlVgpuPgpuMetadata_t = Named ''nvmlVgpuPgpuMetadata_t''"
definition ty_nvmlVgpuPgpuCompatibility_t :: cty where "ty_nvmlVgpuPgpuCompatibility_t = Named ''nvmlVgpuPgpuCompatibility_t''"
definition ty_nvmlVgpuVersion_t :: cty where "ty_nvmlVgpuVersion_t = Named ''nvmlVgpuVersion_t''"
definition ty_nvmlVgpuInstanceUtilizationSample_t :: cty where "ty_nvmlVgpuInstanceUtilizationSample_t = Named ''nvmlVgpuInstanceUtilizationSample_t''"
definition ty_nvmlVgpuProcessUtilizationSample_t :: cty where "ty_nvmlVgpuProcessUtilizationSample_t = Named ''nvmlVgpuProcessUtilizationSample_t''"
definition ty_nvmlExcludedDeviceInfo_t :: cty where "ty_nvmlExcludedDeviceInfo_t = Named ''nvmlExcludedDeviceInfo_t''"
definition ty_nvmlGpuInstanceProfileInfo_t :: cty where "ty_nvmlGpuInstanceProfileInfo_t = Named ''nvmlGpuInstanceProfileInfo_t''"
definition ty_nvmlGpuInstancePlacement_t :: cty where "ty_nvmlGpuInstancePlacement_t = Named ''nvmlGpuInstancePlacement_t''"
definition ty_nvmlGpuInstance_t :: cty where "ty_nvmlGpuInstance_t = Named ''nvmlGpuInstance_t''"
definition ty_nvmlGpuInstanceInfo_t :: cty where "ty_nvmlGpuInstanceInfo_t = Named ''nvmlGpuInstanceInfo_t''"
definition ty_nvmlComputeInstanceProfileInfo_t :: cty where "ty_nvmlComputeInstanceProfileInfo_t = Named ''nvmlComputeInstanceProfileInfo_t''"
definition ty_nvmlComputeInstance_t :: cty where "ty_nvmlComputeInstance_t = Named ''nvmlComputeInstance_t''"
definition ty_nvmlComputeInstanceInfo_t :: cty where "ty_nvmlComputeInstanceInfo_t = Named ''nvmlComputeInstanceInfo_t''"
definition ty_nvmlProcessInfo_v1_t :: cty where "ty_nvmlProcessInfo_v1_t = Named ''nvmlProcessInfo_v1_t''"

section \<open>\<open>nvml\<close>\<close>

definition nvml_hooks_1 :: "gen_hook list" where
  "nvml_hooks_1 =
    [Gen nvml ty_nvmlReturn_t ''nvmlInit_v2'' []
       ''nvmlInit_v2'' ty_nvmlReturn_t [] ''nvmlInit_v2'' [] False,
     Gen nvml ty_nvmlReturn_t ''nvmlInitWithFlags'' [ty_unsigned_int]
       ''nvmlInitWithFlags'' ty_nvmlReturn_t [ty_unsigned_int] ''nvmlInitWithFlags'' [0] False,
     Gen nvml ty_nvmlReturn_t ''nvmlShutdown'' []
       ''nvmlShutdown'' ty_nvmlReturn_t [] ''nvmlShutdown'' [] False,
     Gen nvml (Ptr (Const ty_char)) ''nvmlErrorString'' [ty_nvmlReturn_t]
       ''nvmlErrorString'' (Ptr (Const ty_char)) [ty_nvmlReturn_t] ''nvmlErrorString'' [0] False,
     Gen nvml ty_nvmlReturn_t ''nvmlSystemGetDriverVersion'' [Ptr ty_char, ty_unsigned_int]
       ''nvmlSystemGetDriverVersion'' ty_nvmlReturn_t [Ptr ty_char, ty_unsigned_int] ''nvmlSystemGetDriverVersion'' [0, 1] False,
     Gen nvml ty_nvmlReturn_t ''nvmlSystemGetNVMLVersion'' [Ptr ty_char, ty_unsigned_int]
       ''nvmlSystemGetNVMLVersion'' ty_nvmlReturn_t [Ptr ty_char, ty_unsigned_int] ''nvmlSystemGetNVMLVersion'' [0, 1] False,
     Gen nvml ty_nvmlReturn_t ''nvmlSystemGetCudaDriverVersion'' [Ptr ty_int]
       ''nvmlSystemGetCudaDriverVersion'' ty_nvmlReturn_t [Ptr ty_int] ''nvmlSystemGetCudaDriverVersion'' [0] False,
     Gen nvml ty_nvmlReturn_t ''nvmlSystemGetCudaDriverVersion_v2'' [Ptr ty_int]
       ''nvmlSystemGetCudaDriverVersion_v2'' ty_nvmlReturn_t [Ptr ty_int] ''nvmlSystemGetCudaDriverVersion_v2'' [0] False,
     Gen nvml ty_nvmlReturn_t ''nvmlSystemGetProcessName'' [ty_unsigned_int, Ptr ty_char, ty_unsigned_int]
       ''nvmlSystemGetProcessName'' ty_nvmlReturn_t [ty_unsigned_int, Ptr ty_char, ty_unsigned_int] ''nvmlSystemGetProcessName'' [0, 1, 2] False,
     Gen nvml ty_nvmlReturn_t ''nvmlUnitGetCount'' [Ptr ty_unsigned_int]
       ''nvmlUnitGetCount'' ty_nvmlReturn_t [Ptr ty_unsigned_int] ''nvmlUnitGetCount'' [0] False,
     Gen nvml ty_nvmlReturn_t ''nvmlUnitGetHandleByIndex'' [ty_unsigned_int, Ptr ty_nvmlUnit_t]
       ''nvmlUnitGetHandleByIndex'' ty_nvmlReturn_t [ty_unsigned_int, Ptr ty_nvmlUnit_t] ''nvmlUnitGetHandleByIndex'' [0, 1] False,
     Gen nvml ty_nvmlReturn_t ''nvmlUnitGetUnitInfo'' [ty_nvmlUnit_t, Ptr ty_nvmlUnitInfo_t]
       ''nvmlUnitGetUnitInfo'' ty_nvmlReturn_t [ty_nvmlUnit_t, Ptr ty_nvmlUnitInfo_t] ''nvmlUnitGetUnitInfo'' [0, 1] False,
     Gen nvml ty_nvmlReturn_t ''nvmlUnitGetLedState'' [ty_nvmlUnit_t, Ptr ty_nvmlLedState_t]
       ''nvmlUnitGetLedState'' ty_nvmlReturn_t [ty_nvmlUnit_t, Ptr ty_nvmlLedState_t] ''nvmlUnitGetLedState'' [0, 1] False,
     Gen nvml ty_nvmlReturn_t ''nvmlUnitGetPsuInfo'' [ty_nvmlUnit_t, Ptr ty_nvmlPSUInfo_t]
       ''nvmlUnitGetPsuInfo'' ty_nvmlReturn_t [ty_nvmlUnit_t, Ptr ty_nvmlPSUInfo_t] ''nvmlUnitGetPsuInfo'' [0, 1] False,
     Gen nvml ty_nvmlReturn_t ''nvmlUnitGetTemperature'' [ty_nvmlUnit_t, ty_unsigned_int, Ptr ty_unsigned_int]
       ''nvmlUnitGetTemperature'' ty_nvmlReturn_t [ty_nvmlUnit_t, ty_unsigned_int, Ptr ty_unsigned_int] ''nvmlUnitGetTemperature'' [0, 1, 2] False,
     Gen nvml ty_nvmlReturn_t ''nvmlUnitGetFanSpeedInfo'' [ty_nvmlUnit_t, Ptr ty_nvmlUnitFanSpeeds_t]
       ''nvmlUnitGetFanSpeedInfo'' ty_nvmlReturn_t [ty_nvmlUnit_t, Ptr ty_nvmlUnitFanSpeeds_t] ''nvmlUnitGetFanSpeedInfo'' [0, 1] False,
     Gen nvml ty_nvmlReturn_t ''nvmlUnitGetDevices'' [ty_nvmlUnit_t, Ptr ty_unsigned_int, Ptr ty_nvmlDevice_t]
       ''nvmlUnitGetDevices'' ty_nvmlReturn_t [ty_nvmlUnit_t, Ptr ty_unsigned_int, Ptr ty_nvmlDevice_t] ''nvmlUnitGetDevices'' [0, 1, 2] False,
     Gen nvml ty_nvmlReturn_t ''nvmlSystemGetHicVersion'' [Ptr ty_unsigned_int, Ptr ty_nvmlHwbcEntry_t]
       ''nvmlSystemGetHicVersion'' ty_nvmlReturn_t [Ptr ty_unsigned_int, Ptr ty_nvmlHwbcEntry_t] ''nvmlSystemGetHicVersion'' [0, 1] False]"

definition nvml_hooks_2 :: "gen_hook list" where
  "nvml_hooks_2 =
    [Gen nvml ty_nvmlReturn_t ''nvmlDeviceGetCount_v2'' [Ptr ty_unsigned_int]
       ''nvmlDeviceGetCount_v2'' ty_nvmlReturn_t [Ptr ty_unsigned_int] ''nvmlDeviceGetCount_v2'' [0] False,
     Gen nvml ty_nvmlReturn_t ''nvmlDeviceGetAttributes_v2'' [ty_nvmlDevice_t, Ptr ty_nvmlDeviceAttributes_t]
       ''nvmlDeviceGetAttributes_v2'' ty_nvmlReturn_t [ty_nvmlDevice_t, Ptr ty_nvmlDeviceAttributes_t] ''nvmlDeviceGetAttributes_v2'' [0, 1] False,
     Gen nvml ty_nvmlReturn_t ''nvmlDeviceGetHandleByIndex_v2'' [ty_unsigned_int, Ptr ty_nvmlDevice_t]
       ''nvmlDeviceGetHandleByIndex_v2'' ty_nvmlReturn_t [ty_unsigned_int, Ptr ty_nvmlDevice_t] ''nvmlDeviceGetHandleByIndex_v2'' [0, 1] False,
     Gen nvml ty_nvmlReturn_t ''nvmlDeviceGetHandleBySerial'' [Ptr (Const ty_char), Ptr ty_nvmlDevice_t]
       ''nvmlDeviceGetHandleBySerial'' ty_nvmlReturn_t [Ptr (Const ty_char), Ptr ty_nvmlDevice_t] ''nvmlDeviceGetHandleBySerial'' [0, 1] False,
     Gen nvml ty_nvmlReturn_t ''nvmlDeviceGetHandleByUUID'' [Ptr (Const ty_char), Ptr ty_nvmlDevice_t]
       ''nvmlDeviceGetHandleByUUID'' ty_nvmlReturn_t [Ptr (Const ty_char), Ptr ty_nvmlDevice_t] ''nvmlDeviceGetHandleByUUID'' [0, 1] False,
     Gen nvml ty_nvmlReturn_t ''nvmlDeviceGetHandleByPciBusId_v2'' [Ptr (Const ty_char), Ptr ty_nvmlDevice_t]
       ''nvmlDeviceGetHandleByPciBusId_v2'' ty_nvmlReturn_t [Ptr (Const ty_char), Ptr ty_nvmlDevice_t] ''nvmlDeviceGetHandleByPciBusId_v2'' [0, 1] False,
     Gen nvml ty_nvmlReturn_t ''nvmlDeviceGetName'' [ty_nvmlDevice_t, Ptr ty_char, ty_unsigned_int]
       ''nvmlDeviceGetName'' ty_nvmlReturn_t [ty_nvmlDevice_t, Ptr ty_char, ty_unsigned_int] ''nvmlDeviceGetName'' [0, 1, 2] False,
     Gen nvml ty_nvmlReturn_t ''nvmlDeviceGetBrand'' [ty_nvmlDevice_t, Ptr ty_nvmlBrandType_t]
       ''nvmlDeviceGetBrand'' ty_nvmlReturn_t [ty_nvmlDevice_t, Ptr ty_nvmlBrandType_t] ''nvmlDeviceGetBrand'' [0, 1] False,
     Gen nvml ty_nvmlReturn_t ''nvmlDeviceGetIndex'' [ty_nvmlDevice_t, Ptr ty_unsigned_int]
       ''nvmlDeviceGetIndex'' ty_nvmlReturn_t [ty_nvmlDevice_t, Ptr ty_unsigned_int] ''nvmlDeviceGetIndex'' [0, 1] False,
     Gen nvml ty_nvmlReturn_t ''nvmlDeviceGetSerial'' [ty_nvmlDevice_t, Ptr ty_char, ty_unsigned_int]
       ''nvmlDeviceGetSerial'' ty_nvmlReturn_t [ty_nvmlDevice_t, Ptr ty_char, ty_unsigned_int] ''nvmlDeviceGetSerial'' [0, 1, 2] False,
     Gen nvml ty_nvmlReturn_t ''nvmlDeviceGetMemoryAffinity'' [ty_nvmlDevice_t, ty_unsigned_int, Ptr ty_unsigned_long, ty_nvmlAffinityScope_t]
       ''nvmlDeviceGetMemoryAffinity'' ty_nvmlReturn_t [ty_nvmlDevice_t, ty_unsigned_int, Ptr ty_unsigned_long, ty_nvmlAffinityScope_t] ''nvmlDeviceGetMemoryAffinity'' [0, 1, 2, 3] False,
     Gen nvml ty_nvmlReturn_t ''nvmlDeviceGetCpuAffinityWithinScope'' [ty_nvmlDevice_t, ty_unsigned_int, Ptr ty_unsigned_long, ty_nvmlAffinityScope_t]
       ''nvmlDeviceGetCpuAffinityWithinScope'' ty_nvmlReturn_t [ty_nvmlDevice_t, ty_unsigned_int, Ptr ty_unsigned_long, ty_nvmlAffinityScope_t] ''nvmlDeviceGetCpuAffinityWithinScope'' [0, 1, 2, 3] False,
     Gen nvml ty_nvmlReturn_t ''nvmlDeviceGetCpuAffinity'' [ty_nvmlDevice_t, ty_unsigned_int, Ptr ty_unsigned_long]
       ''nvmlDeviceGetCpuAffinity'' ty_nvmlReturn_t [ty_nvmlDevice_t, ty_unsigned_int, Ptr ty_unsigned_long] ''nvmlDeviceGetCpuAffinity'' [0, 1, 2] False,
     Gen nvml ty_nvmlReturn_t ''nvmlDeviceSetCpuAffinity'' [ty_nvmlDevice_t]
       ''nvmlDeviceSetCpuAffinity'' ty_nvmlReturn_t [ty_nvmlDevice_t] ''nvmlDeviceSetCpuAffinity'' [0] False,
     Gen nvml ty_nvmlReturn_t ''nvmlDeviceClearCpuAffinity'' [ty_nvmlDevice_t]
       ''nvmlDeviceClearCpuAffinity'' ty_nvmlReturn_t [ty_nvmlDevice_t] ''nvmlDeviceClearCpuAffinity'' [0] False,
     Gen nvml ty_nvmlReturn_t ''nvmlDeviceGetTopologyCommonAncestor'' [ty_nvmlDevice_t, ty_nvmlDevice_t, Ptr ty_nvmlGpuTopologyLevel_t]
       ''nvmlDeviceGetTopologyCommonAncestor'' ty_nvmlReturn_t [ty_nvmlDevice_t, ty_nvmlDevice_t, Ptr ty_nvmlGpuTopologyLevel_t] ''nvmlDeviceGetTopologyCommonAncestor'' [0, 1, 2] False,
     Gen nvml ty_nvmlReturn_t ''nvmlDeviceGetTopologyNearestGpus'' [ty_nvmlDevice_t, ty_nvmlGpuTopologyLevel_t, Ptr ty_unsigned_int, Ptr ty_nvmlDevice_t]
       ''nvmlDeviceGetTopologyNearestGpus'' ty_nvmlReturn_t [ty_nvmlDevice_t, ty_nvmlGpuTopologyLevel_t, Ptr ty_unsigned_int, Ptr ty_nvmlDevice_t] ''nvmlDeviceGetTopologyNearestGpus'' [0, 1, 2, 3] False]"

definition nvml_hooks_3 :: "gen_hook list" where
  "nvml_hooks_3 =
    [Gen nvml ty_nvmlReturn_t ''nvmlSystemGetTopologyGpuSet'' [ty_unsigned_int, Ptr ty_unsigned_int, Ptr ty_nvmlDevice_t]
       ''nvmlSystemGetTopologyGpuSet'' ty_nvmlReturn_t [ty_unsigned_int, Ptr ty_unsigned_int, Ptr ty_nvmlDevice_t] ''nvmlSystemGetTopologyGpuSet'' [0, 1, 2] False,
     Gen nvml ty_nvmlReturn_t ''nvmlDeviceGetP2PStatus'' [ty_nvmlDevice_t, ty_nvmlDevice_t, ty_nvmlGpuP2PCapsIndex_t, Ptr ty_nvmlGpuP2PStatus_t]
       ''nvmlDeviceGetP2PStatus'' ty_nvmlReturn_t [ty_nvmlDevice_t, ty_nvmlDevice_t, ty_nvmlGpuP2PCapsIndex_t, Ptr ty_nvmlGpuP2PStatus_t] ''nvmlDeviceGetP2PStatus'' [0, 1, 2, 3] False,
     Gen nvml ty_nvmlReturn_t ''nvmlDeviceGetUUID'' [ty_nvmlDevice_t, Ptr ty_char, ty_unsigned_int]
       ''nvmlDeviceGetUUID'' ty_nvmlReturn_t [ty_nvmlDevice_t, Ptr ty_char, ty_unsigned_int] ''nvmlDeviceGetUUID'' [0, 1, 2] False,
     Gen nvml ty_nvmlReturn_t ''nvmlVgpuInstanceGetMdevUUID'' [ty_nvmlVgpuInstance_t, Ptr ty_char, ty_unsigned_int]
       ''nvmlVgpuInstanceGetMdevUUID'' ty_nvmlReturn_t [ty_nvmlVgpuInstance_t, Ptr ty_char, ty_unsigned_int] ''nvmlVgpuInstanceGetMdevUUID'' [0, 1, 2] False,
     Gen nvml ty_nvmlReturn_t ''nvmlDeviceGetMinorNumber'' [ty_nvmlDevice_t, Ptr ty_unsigned_int]
       ''nvmlDeviceGetMinorNumber'' ty_nvmlReturn_t [ty_nvmlDevice_t, Ptr ty_unsigned_int] ''nvmlDeviceGetMinorNumber'' [0, 1] False,
     Gen nvml ty_nvmlReturn_t ''nvmlDeviceGetBoardPartNumber'' [ty_nvmlDevice_t, Ptr ty_char, ty_unsigned_int]
       ''nvmlDeviceGetBoardPartNumber'' ty_nvmlReturn_t [ty_nvmlDevice_t, Ptr ty_char, ty_unsigned_int] ''nvmlDeviceGetBoardPartNumber'' [0, 1, 2] False,
     Gen nvml ty_nvmlReturn_t ''nvmlDeviceGetInforomVersion'' [ty_nvmlDevice_t, ty_nvmlInforomObject_t, Ptr ty_char, ty_unsigned_int]
       ''nvmlDeviceGetInforomVersion'' ty_nvmlReturn_t [ty_nvmlDevice_t, ty_nvmlInforomObject_t, Ptr ty_char, ty_unsigned_int] ''nvmlDeviceGetInforomVersion'' [0, 1, 2, 3] False,
     Gen nvml ty_nvmlReturn_t ''nvmlDeviceGetInforomImageVersion'' [ty_nvmlDevice_t, Ptr ty_char, ty_unsigned_int]
       ''nvmlDeviceGetInforomImageVersion'' ty_nvmlReturn_t [ty_nvmlDevice_t, Ptr ty_char, ty_unsigned_int] ''nvmlDeviceGetInforomImageVersion'' [0, 1, 2] False,
     Gen nvml ty_nvmlReturn_t ''nvmlDeviceGetInforomConfigurationChecksum'' [ty_nvmlDevice_t, Ptr ty_unsigned_int]
       ''nvmlDeviceGetInforomConfigurationChecksum'' ty_nvmlReturn_t [ty_nvmlDevice_t, Ptr ty_unsigned_int] ''nvmlDeviceGetInforomConfigurationChecksum'' [0, 1] False,
     Gen nvml ty_nvmlReturn_t ''nvmlDeviceValidateInforom'' [ty_nvmlDevice_t]
       ''nvmlDeviceValidateInforom'' ty_nvmlReturn_t [ty_nvmlDevice_t] ''nvmlDeviceValidateInforom'' [0] False,
     Gen nvml ty_nvmlReturn_t ''nvmlDeviceGetDisplayMode'' [ty_nvmlDevice_t, Ptr ty_nvmlEnableState_t]
       ''nvmlDeviceGetDisplayMode'' ty_nvmlReturn_t [ty_nvmlDevice_t, Ptr ty_nvmlEnableState_t] ''nvmlDeviceGetDisplayMode'' [0, 1] False,
     Gen nvml ty_nvmlReturn_t ''nvmlDeviceGetDisplayActive'' [ty_nvmlDevice_t, Ptr ty_nvmlEnableState_t]
       ''nvmlDeviceGetDisplayActive'' ty_nvmlReturn_t [ty_nvmlDevice_t, Ptr ty_nvmlEnableState_t] ''nvmlDeviceGetDisplayActive'' [0, 1] False,
     Gen nvml ty_nvmlReturn_t ''nvmlDeviceGetPersistenceMode'' [ty_nvmlDevice_t, Ptr ty_nvmlEnableState_t]
       ''nvmlDeviceGetPersistenceMode'' ty_nvmlReturn_t [ty_nvmlDevice_t, Ptr ty_nvmlEnableState_t] ''nvmlDeviceGetPersistenceMode'' [0, 1] False,
     Gen nvml ty_nvmlReturn_t ''nvmlDeviceGetPciInfo_v3'' [ty_nvmlDevice_t, Ptr ty_nvmlPciInfo_t]
       ''nvmlDeviceGetPciInfo_v3'' ty_nvmlReturn_t [ty_nvmlDevice_t, Ptr ty_nvmlPciInfo_t] ''nvmlDeviceGetPciInfo_v3'' [0, 1] False,
     Gen nvml ty_nvmlReturn_t ''nvmlDeviceGetMaxPcieLinkGeneration'' [ty_nvmlDevice_t, Ptr ty_unsigned_int]
       ''nvmlDeviceGetMaxPcieLinkGeneration'' ty_nvmlReturn_t [ty_nvmlDevice_t, Ptr ty_unsigned_int] ''nvmlDeviceGetMaxPcieLinkGeneration'' [0, 1] False,
     Gen nvml ty_nvmlReturn_t ''nvmlDeviceGetMaxPcieLinkWidth'' [ty_nvmlDevice_t, Ptr ty_unsigned_int]
       ''nvmlDeviceGetMaxPcieLinkWidth'' ty_nvmlReturn_t [ty_nvmlDevice_t, Ptr ty_unsigned_int] ''nvmlDeviceGetMaxPcieLinkWidth'' [0, 1] False,
     Gen nvml ty_nvmlReturn_t ''nvmlDeviceGetCurrPcieLinkGeneration'' [ty_nvmlDevice_t, Ptr ty_unsigned_int]
       ''nvmlDeviceGetCurrPcieLinkGeneration'' ty_nvmlReturn_t [ty_nvmlDevice_t, Ptr ty_unsigned_int] ''nvmlDeviceGetCurrPcieLinkGeneration'' [0, 1] False]"

definition nvml_hooks_4 :: "gen_hook list" where
  "nvml_hooks_4 =
    [Gen nvml ty_nvmlReturn_t ''nvmlDeviceGetCurrPcieLinkWidth'' [ty_nvmlDevice_t, Ptr ty_unsigned_int]
       ''nvmlDeviceGetCurrPcieLinkWidth'' ty_nvmlReturn_t [ty_nvmlDevice_t, Ptr ty_unsigned_int] ''nvmlDeviceGetCurrPcieLinkWidth'' [0, 1] False,
     Gen nvml ty_nvmlReturn_t ''nvmlDeviceGetPcieThroughput'' [ty_nvmlDevice_t, ty_nvmlPcieUtilCounter_t, Ptr ty_unsigned_int]
       ''nvmlDeviceGetPcieThroughput'' ty_nvmlReturn_t [ty_nvmlDevice_t, ty_nvmlPcieUtilCounter_t, Ptr ty_unsigned_int] ''nvmlDeviceGetPcieThroughput'' [0, 1, 2] False,
     Gen nvml ty_nvmlReturn_t ''nvmlDeviceGetPcieReplayCounter'' [ty_nvmlDevice_t, Ptr ty_unsigned_int]
       ''nvmlDeviceGetPcieReplayCounter'' ty_nvmlReturn_t [ty_nvmlDevice_t, Ptr ty_unsigned_int] ''nvmlDeviceGetPcieReplayCounter'' [0, 1] False,
     Gen nvml ty_nvmlReturn_t ''nvmlDeviceGetClockInfo'' [ty_nvmlDevice_t, ty_nvmlClockType_t, Ptr ty_unsigned_int]
       ''nvmlDeviceGetClockInfo'' ty_nvmlReturn_t [ty_nvmlDevice_t, ty_nvmlClockType_t, Ptr ty_unsigned_int] ''nvmlDeviceGetClockInfo'' [0, 1, 2] False,
     Gen nvml ty_nvmlReturn_t ''nvmlDeviceGetMaxClockInfo'' [ty_nvmlDevice_t, ty_nvmlClockType_t, Ptr ty_unsigned_int]
       ''nvmlDeviceGetMaxClockInfo'' ty_nvmlReturn_t [ty_nvmlDevice_t, ty_nvmlClockType_t, Ptr ty_unsigned_int] ''nvmlDeviceGetMaxClockInfo'' [0, 1, 2] False,
     Gen nvml ty_nvmlReturn_t ''nvmlDeviceGetApplicationsClock'' [ty_nvmlDevice_t, ty_nvmlClockType_t, Ptr ty_unsigned_int]
       ''nvmlDeviceGetApplicationsClock'' ty_nvmlReturn_t [ty_nvmlDevice_t, ty_nvmlClockType_t, Ptr ty_unsigned_int] ''nvmlDeviceGetApplicationsClock'' [0, 1, 2] False,
     Gen nvml ty_nvmlReturn_t ''nvmlDeviceGetDefaultApplicationsClock'' [ty_nvmlDevice_t, ty_nvmlClockType_t, Ptr ty_unsigned_int]
       ''nvmlDeviceGetDefaultApplicationsClock'' ty_nvmlReturn_t [ty_nvmlDevice_t, ty_nvmlClockType_t, Ptr ty_unsigned_int] ''nvmlDeviceGetDefaultApplicationsClock'' [0, 1, 2] False,
     Gen nvml ty_nvmlReturn_t ''nvmlDeviceResetApplicationsClocks'' [ty_nvmlDevice_t]
       ''nvmlDeviceResetApplicationsClocks'' ty_nvmlReturn_t [ty_nvmlDevice_t] ''nvmlDeviceResetApplicationsClocks'' [0] False,
     Gen nvml ty_nvmlReturn_t ''nvmlDeviceGetClock'' [ty_nvmlDevice_t, ty_nvmlClockType_t, ty_nvmlClockId_t, Ptr ty_unsigned_int]
       ''nvmlDeviceGetClock'' ty_nvmlReturn_t [ty_nvmlDevice_t, ty_nvmlClockType_t, ty_nvmlClockId_t, Ptr ty_unsigned_int] ''nvmlDeviceGetClock'' [0, 1, 2, 3] False,
     Gen nvml ty_nvmlReturn_t ''nvmlDeviceGetMaxCustomerBoostClock'' [ty_nvmlDevice_t, ty_nvmlClockType_t, Ptr ty_unsigned_int]
       ''nvmlDeviceGetMaxCustomerBoostClock'' ty_nvmlReturn_t [ty_nvmlDevice_t, ty_nvmlClockType_t, Ptr ty_unsigned_int] ''nvmlDeviceGetMaxCustomerBoostClock'' [0, 1, 2] False,
     Gen nvml ty_nvmlReturn_t ''nvmlDeviceGetSupportedMemoryClocks'' [ty_nvmlDevice_t, Ptr ty_unsigned_int, Ptr ty_unsigned_int]
       ''nvmlDeviceGetSupportedMemoryClocks'' ty_nvmlReturn_t [ty_nvmlDevice_t, Ptr ty_unsigned_int, Ptr ty_unsigned_int] ''nvmlDeviceGetSupportedMemoryClocks'' [0, 1, 2] False,
     Gen nvml ty_nvmlReturn_t ''nvmlDeviceGetSupportedGraphicsClocks'' [ty_nvmlDevice_t, ty_unsigned_int, Ptr ty_unsigned_int, Ptr ty_unsigned_int]
       ''nvmlDeviceGetSupportedGraphicsClocks'' ty_nvmlReturn_t [ty_nvmlDevice_t, ty_unsigned_int, Ptr ty_unsigned_int, Ptr ty_unsigned_int] ''nvmlDeviceGetSupportedGraphicsClocks'' [0, 1, 2, 3] False,
     Gen nvml ty_nvmlReturn_t ''nvmlDeviceGetAutoBoostedClocksEnabled'' [ty_nvmlDevice_t, Ptr ty_nvmlEnableState_t, Ptr ty_nvmlEnableState_t]
       ''nvmlDeviceGetAutoBoostedClocksEnabled'' ty_nvmlReturn_t [ty_nvmlDevice_t, Ptr ty_nvmlEnableState_t, Ptr ty_nvmlEnableState_t] ''nvmlDeviceGetAutoBoostedClocksEnabled'' [0, 1, 2] False,
     Gen nvml ty_nvmlReturn_t ''nvmlDeviceSetAutoBoostedClocksEnabled'' [ty_nvmlDevice_t, ty_nvmlEnableState_t]
       ''nvmlDeviceSetAutoBoostedClocksEnabled'' ty_nvmlReturn_t [ty_nvmlDevice_t, ty_nvmlEnableState_t] ''nvmlDeviceSetAutoBoostedClocksEnabled'' [0, 1] False,
     Gen nvml ty_nvmlReturn_t ''nvmlDeviceSetDefaultAutoBoostedClocksEnabled'' [ty_nvmlDevice_t, ty_nvmlEnableState_t, ty_unsigned_int]
       ''nvmlDeviceSetDefaultAutoBoostedClocksEnabled'' ty_nvmlReturn_t [ty_nvmlDevice_t, ty_nvmlEnableState_t, ty_unsigned_int] ''nvmlDeviceSetDefaultAutoBoostedClocksEnabled'' [0, 1, 2] False,
     Gen nvml ty_nvmlReturn_t ''nvmlDeviceGetFanSpeed'' [ty_nvmlDevice_t, Ptr ty_unsigned_int]
       ''nvmlDeviceGetFanSpeed'' ty_nvmlReturn_t [ty_nvmlDevice_t, Ptr ty_unsigned_int] ''nvmlDeviceGetFanSpeed'' [0, 1] False]"

definition nvml_hooks_5 :: "gen_hook list" where
  "nvml_hooks_5 =
    [Gen nvml ty_nvmlReturn_t ''nvmlDeviceGetFanSpeed_v2'' [ty_nvmlDevice_t, ty_unsigned_int, Ptr ty_unsigned_int]
       ''nvmlDeviceGetFanSpeed_v2'' ty_nvmlReturn_t [ty_nvmlDevice_t, ty_unsigned_int, Ptr ty_unsigned_int] ''nvmlDeviceGetFanSpeed_v2'' [0, 1, 2] False,
     Gen nvml ty_nvmlReturn_t ''nvmlDeviceGetTemperature'' [ty_nvmlDevice_t, ty_nvmlTemperatureSensors_t, Ptr ty_unsigned_int]
       ''nvmlDeviceGetTemperature'' ty_nvmlReturn_t [ty_nvmlDevice_t, ty_nvmlTemperatureSensors_t, Ptr ty_unsigned_int] ''nvmlDeviceGetTemperature'' [0, 1, 2] False,
     Gen nvml ty_nvmlReturn_t ''nvmlDeviceGetTemperatureThreshold'' [ty_nvmlDevice_t, ty_nvmlTemperatureThresholds_t, Ptr ty_unsigned_int]
       ''nvmlDeviceGetTemperatureThreshold'' ty_nvmlReturn_t [ty_nvmlDevice_t, ty_nvmlTemperatureThresholds_t, Ptr ty_unsigned_int] ''nvmlDeviceGetTemperatureThreshold'' [0, 1, 2] False,
     Gen nvml ty_nvmlReturn_t ''nvmlDeviceSetTemperatureThreshold'' [ty_nvmlDevice_t, ty_nvmlTemperatureThresholds_t, Ptr ty_int]
       ''nvmlDeviceSetTemperatureThreshold'' ty_nvmlReturn_t [ty_nvmlDevice_t, ty_nvmlTemperatureThresholds_t, Ptr ty_int] ''nvmlDeviceSetTemperatureThreshold'' [0, 1, 2] False,
     Gen nvml ty_nvmlReturn_t ''nvmlDeviceGetPerformanceState'' [ty_nvmlDevice_t, Ptr ty_nvmlPstates_t]
       ''nvmlDeviceGetPerformanceState'' ty_nvmlReturn_t [ty_nvmlDevice_t, Ptr ty_nvmlPstates_t] ''nvmlDeviceGetPerformanceState'' [0, 1] False,
     Gen nvml ty_nvmlReturn_t ''nvmlDeviceGetCurrentClocksThrottleReasons'' [ty_nvmlDevice_t, Ptr ty_unsigned_long_long]
       ''nvmlDeviceGetCurrentClocksThrottleReasons'' ty_nvmlReturn_t [ty_nvmlDevice_t, Ptr ty_unsigned_long_long] ''nvmlDeviceGetCurrentClocksThrottleReasons'' [0, 1] False,
     Gen nvml ty_nvmlReturn_t ''nvmlDeviceGetSupportedClocksThrottleReasons'' [ty_nvmlDevice_t, Ptr ty_unsigned_long_long]
       ''nvmlDeviceGetSupportedClocksThrottleReasons'' ty_nvmlReturn_t [ty_nvmlDevice_t, Ptr ty_unsigned_long_long] ''nvmlDeviceGetSupportedClocksThrottleReasons'' [0, 1] False,
     Gen nvml ty_nvmlReturn_t ''nvmlDeviceGetPowerState'' [ty_nvmlDevice_t, Ptr ty_nvmlPstates_t]
       ''nvmlDeviceGetPowerState'' ty_nvmlReturn_t [ty_nvmlDevice_t, Ptr ty_nvmlPstates_t] ''nvmlDeviceGetPowerState'' [0, 1] False,
     Gen nvml ty_nvmlReturn_t ''nvmlDeviceGetPowerManagementMode'' [ty_nvmlDevice_t, Ptr ty_nvmlEnableState_t]
       ''nvmlDeviceGetPowerManagementMode'' ty_nvmlReturn_t [ty_nvmlDevice_t, Ptr ty_nvmlEnableState_t] ''nvmlDeviceGetPowerManagementMode'' [0, 1] False,
     Gen nvml ty_nvmlReturn_t ''nvmlDeviceGetPowerManagementLimit'' [ty_nvmlDevice_t, Ptr ty_unsigned_int]
       ''nvmlDeviceGetPowerManagementLimit'' ty_nvmlReturn_t [ty_nvmlDevice_t, Ptr ty_unsigned_int] ''nvmlDeviceGetPowerManagementLimit'' [0, 1] False,
     Gen nvml ty_nvmlReturn_t ''nvmlDeviceGetPowerManagementLimitConstraints'' [ty_nvmlDevice_t, Ptr ty_unsigned_int, Ptr ty_unsigned_int]
       ''nvmlDeviceGetPowerManagementLimitConstraints'' ty_nvmlReturn_t [ty_nvmlDevice_t, Ptr ty_unsigned_int, Ptr ty_unsigned_int] ''nvmlDeviceGetPowerManagementLimitConstraints'' [0, 1, 2] False,
     Gen nvml ty_nvmlReturn_t ''nvmlDeviceGetPowerManagementDefaultLimit'' [ty_nvmlDevice_t, Ptr ty_unsigned_int]
       ''nvmlDeviceGetPowerManagementDefaultLimit'' ty_nvmlReturn_t [ty_nvmlDevice_t, Ptr ty_unsigned_int] ''nvmlDeviceGetPowerManagementDefaultLimit'' [0, 1] False,
     Gen nvml ty_nvmlReturn_t ''nvmlDeviceGetPowerUsage'' [ty_nvmlDevice_t, Ptr ty_unsigned_int]
       ''nvmlDeviceGetPowerUsage'' ty_nvmlReturn_t [ty_nvmlDevice_t, Ptr ty_unsigned_int] ''nvmlDeviceGetPowerUsage'' [0, 1] False,
     Gen nvml ty_nvmlReturn_t ''nvmlDeviceGetTotalEnergyConsumption'' [ty_nvmlDevice_t, Ptr ty_unsigned_long_long]
       ''nvmlDeviceGetTotalEnergyConsumption'' ty_nvmlReturn_t [ty_nvmlDevice_t, Ptr ty_unsigned_long_long] ''nvmlDeviceGetTotalEnergyConsumption'' [0, 1] False,
     Gen nvml ty_nvmlReturn_t ''nvmlDeviceGetEnforcedPowerLimit'' [ty_nvmlDevice_t, Ptr ty_unsigned_int]
       ''nvmlDeviceGetEnforcedPowerLimit'' ty_nvmlReturn_t [ty_nvmlDevice_t, Ptr ty_unsigned_int] ''nvmlDeviceGetEnforcedPowerLimit'' [0, 1] False,
     Gen nvml ty_nvmlReturn_t ''nvmlDeviceGetGpuOperationMode'' [ty_nvmlDevice_t, Ptr ty_nvmlGpuOperationMode_t, Ptr ty_nvmlGpuOperationMode_t]
       ''nvmlDeviceGetGpuOperationMode'' ty_nvmlReturn_t [ty_nvmlDevice_t, Ptr ty_nvmlGpuOperationMode_t, Ptr ty_nvmlGpuOperationMode_t] ''nvmlDeviceGetGpuOperationMode'' [0, 1, 2] False]"

definition nvml_hooks_6 :: "gen_hook list" where
  "nvml_hooks_6 =
    [Gen nvml ty_nvmlReturn_t ''nvmlDeviceGetMemoryInfo'' [ty_nvmlDevice_t, Ptr ty_nvmlMemory_t]
       ''nvmlDeviceGetMemoryInfo'' ty_nvmlReturn_t [ty_nvmlDevice_t, Ptr ty_nvmlMemory_t] ''nvmlDeviceGetMemoryInfo'' [0, 1] False,
     Gen nvml ty_nvmlReturn_t ''nvmlDeviceGetComputeMode'' [ty_nvmlDevice_t, Ptr ty_nvmlComputeMode_t]
       ''nvmlDeviceGetComputeMode'' ty_nvmlReturn_t [ty_nvmlDevice_t, Ptr ty_nvmlComputeMode_t] ''nvmlDeviceGetComputeMode'' [0, 1] False,
     Gen nvml ty_nvmlReturn_t ''nvmlDeviceGetCudaComputeCapability'' [ty_nvmlDevice_t, Ptr ty_int, Ptr ty_int]
       ''nvmlDeviceGetCudaComputeCapability'' ty_nvmlReturn_t [ty_nvmlDevice_t, Ptr ty_int, Ptr ty_int] ''nvmlDeviceGetCudaComputeCapability'' [0, 1, 2] False,
     Gen nvml ty_nvmlReturn_t ''nvmlDeviceGetEccMode'' [ty_nvmlDevice_t, Ptr ty_nvmlEnableState_t, Ptr ty_nvmlEnableState_t]
       ''nvmlDeviceGetEccMode'' ty_nvmlReturn_t [ty_nvmlDevice_t, Ptr ty_nvmlEnableState_t, Ptr ty_nvmlEnableState_t] ''nvmlDeviceGetEccMode'' [0, 1, 2] False,
     Gen nvml ty_nvmlReturn_t ''nvmlDeviceGetBoardId'' [ty_nvmlDevice_t, Ptr ty_unsigned_int]
       ''nvmlDeviceGetBoardId'' ty_nvmlReturn_t [ty_nvmlDevice_t, Ptr ty_unsigned_int] ''nvmlDeviceGetBoardId'' [0, 1] False,
     Gen nvml ty_nvmlReturn_t ''nvmlDeviceGetMultiGpuBoard'' [ty_nvmlDevice_t, Ptr ty_unsigned_int]
       ''nvmlDeviceGetMultiGpuBoard'' ty_nvmlReturn_t [ty_nvmlDevice_t, Ptr ty_unsigned_int] ''nvmlDeviceGetMultiGpuBoard'' [0, 1] False,
     Gen nvml ty_nvmlReturn_t ''nvmlDeviceGetTotalEccErrors'' [ty_nvmlDevice_t, ty_nvmlMemoryErrorType_t, ty_nvmlEccCounterType_t, Ptr ty_unsigned_long_long]
       ''nvmlDeviceGetTotalEccErrors'' ty_nvmlReturn_t [ty_nvmlDevice_t, ty_nvmlMemoryErrorType_t, ty_nvmlEccCounterType_t, Ptr ty_unsigned_long_long] ''nvmlDeviceGetTotalEccErrors'' [0, 1, 2, 3] False,
     Gen nvml ty_nvmlReturn_t ''nvmlDeviceGetDetailedEccErrors'' [ty_nvmlDevice_t, ty_nvmlMemoryErrorType_t, ty_nvmlEccCounterType_t, Ptr ty_nvmlEccErrorCounts_t]
       ''nvmlDeviceGetDetailedEccErrors'' ty_nvmlReturn_t [ty_nvmlDevice_t, ty_nvmlMemoryErrorType_t, ty_nvmlEccCounterType_t, Ptr ty_nvmlEccErrorCounts_t] ''nvmlDeviceGetDetailedEccErrors'' [0, 1, 2, 3] False,
     Gen nvml ty_nvmlReturn_t ''nvmlDeviceGetMemoryErrorCounter'' [ty_nvmlDevice_t, ty_nvmlMemoryErrorType_t, ty_nvmlEccCounterType_t, ty_nvmlMemoryLocation_t, Ptr ty_unsigned_long_long]
       ''nvmlDeviceGetMemoryErrorCounter'' ty_nvmlReturn_t [ty_nvmlDevice_t, ty_nvmlMemoryErrorType_t, ty_nvmlEccCounterType_t, ty_nvmlMemoryLocation_t, Ptr ty_unsigned_long_long] ''nvmlDeviceGetMemoryErrorCounter'' [0, 1, 2, 3, 4] False,
     Gen nvml ty_nvmlReturn_t ''nvmlDeviceGetUtilizationRates'' [ty_nvmlDevice_t, Ptr ty_nvmlUtilization_t]
       ''nvmlDeviceGetUtilizationRates'' ty_nvmlReturn_t [ty_nvmlDevice_t, Ptr ty_nvmlUtilization_t] ''nvmlDeviceGetUtilizationRates'' [0, 1] False,
     Gen nvml ty_nvmlReturn_t ''nvmlDeviceGetEncoderUtilization'' [ty_nvmlDevice_t, Ptr ty_unsigned_int, Ptr ty_unsigned_int]
       ''nvmlDeviceGetEncoderUtilization'' ty_nvmlReturn_t [ty_nvmlDevice_t, Ptr ty_unsigned_int, Ptr ty_unsigned_int] ''nvmlDeviceGetEncoderUtilization'' [0, 1, 2] False,
     Gen nvml ty_nvmlReturn_t ''nvmlDeviceGetEncoderCapacity'' [ty_nvmlDevice_t, ty_nvmlEncoderType_t, Ptr ty_unsigned_int]
       ''nvmlDeviceGetEncoderCapacity'' ty_nvmlReturn_t [ty_nvmlDevice_t, ty_nvmlEncoderType_t, Ptr ty_unsigned_int] ''nvmlDeviceGetEncoderCapacity'' [0, 1, 2] False,
     Gen nvml ty_nvmlReturn_t ''nvmlDeviceGetEncoderStats'' [ty_nvmlDevice_t, Ptr ty_unsigned_int, Ptr ty_unsigned_int, Ptr ty_unsigned_int]
       ''nvmlDeviceGetEncoderStats'' ty_nvmlReturn_t [ty_nvmlDevice_t, Ptr ty_unsigned_int, Ptr ty_unsigned_int, Ptr ty_unsigned_int] ''nvmlDeviceGetEncoderStats'' [0, 1, 2, 3] False,
     Gen nvml ty_nvmlReturn_t ''nvmlDeviceGetEncoderSessions'' [ty_nvmlDevice_t, Ptr ty_unsigned_int, Ptr ty_nvmlEncoderSessionInfo_t]
       ''nvmlDeviceGetEncoderSessions'' ty_nvmlReturn_t [ty_nvmlDevice_t, Ptr ty_unsigned_int, Ptr ty_nvmlEncoderSessionInfo_t] ''nvmlDeviceGetEncoderSessions'' [0, 1, 2] False,
     Gen nvml ty_nvmlReturn_t ''nvmlDeviceGetDecoderUtilization'' [ty_nvmlDevice_t, Ptr ty_unsigned_int, Ptr ty_unsigned_int]
       ''nvmlDeviceGetDecoderUtilization'' ty_nvmlReturn_t [ty_nvmlDevice_t, Ptr ty_unsigned_int, Ptr ty_unsigned_int] ''nvmlDeviceGetDecoderUtilization'' [0, 1, 2] False,
     Gen nvml ty_nvmlReturn_t ''nvmlDeviceGetFBCStats'' [ty_nvmlDevice_t, Ptr ty_nvmlFBCStats_t]
       ''nvmlDeviceGetFBCStats'' ty_nvmlReturn_t [ty_nvmlDevice_t, Ptr ty_nvmlFBCStats_t] ''nvmlDeviceGetFBCStats'' [0, 1] False]"

definition nvml_hooks_7 :: "gen_hook list" where
  "nvml_hooks_7 =
    [Gen nvml ty_nvmlReturn_t ''nvmlDeviceGetFBCSessions'' [ty_nvmlDevice_t, Ptr ty_unsigned_int, Ptr ty_nvmlFBCSessionInfo_t]
       ''nvmlDeviceGetFBCSessions'' ty_nvmlReturn_t [ty_nvmlDevice_t, Ptr ty_unsigned_int, Ptr ty_nvmlFBCSessionInfo_t] ''nvmlDeviceGetFBCSessions'' [0, 1, 2] False,
     Gen nvml ty_nvmlReturn_t ''nvmlDeviceGetDriverModel'' [ty_nvmlDevice_t, Ptr ty_nvmlDriverModel_t, Ptr ty_nvmlDriverModel_t]
       ''nvmlDeviceGetDriverModel'' ty_nvmlReturn_t [ty_nvmlDevice_t, Ptr ty_nvmlDriverModel_t, Ptr ty_nvmlDriverModel_t] ''nvmlDeviceGetDriverModel'' [0, 1, 2] False,
     Gen nvml ty_nvmlReturn_t ''nvmlDeviceGetVbiosVersion'' [ty_nvmlDevice_t, Ptr ty_char, ty_unsigned_int]
       ''nvmlDeviceGetVbiosVersion'' ty_nvmlReturn_t [ty_nvmlDevice_t, Ptr ty_char, ty_unsigned_int] ''nvmlDeviceGetVbiosVersion'' [0, 1, 2] False,
     Gen nvml ty_nvmlReturn_t ''nvmlDeviceGetBridgeChipInfo'' [ty_nvmlDevice_t, Ptr ty_nvmlBridgeChipHierarchy_t]
       ''nvmlDeviceGetBridgeChipInfo'' ty_nvmlReturn_t [ty_nvmlDevice_t, Ptr ty_nvmlBridgeChipHierarchy_t] ''nvmlDeviceGetBridgeChipInfo'' [0, 1] False,
     Gen nvml ty_nvmlReturn_t ''nvmlDeviceGetComputeRunningProcesses_v2'' [ty_nvmlDevice_t, Ptr ty_unsigned_int, Ptr ty_nvmlProcessInfo_t]
       ''nvmlDeviceGetComputeRunningProcesses_v2'' ty_nvmlReturn_t [ty_nvmlDevice_t, Ptr ty_unsigned_int, Ptr ty_nvmlProcessInfo_t] ''nvmlDeviceGetComputeRunningProcesses_v2'' [0, 1, 2] False,
     Gen nvml ty_nvmlReturn_t ''nvmlDeviceGetGraphicsRunningProcesses_v2'' [ty_nvmlDevice_t, Ptr ty_unsigned_int, Ptr ty_nvmlProcessInfo_t]
       ''nvmlDeviceGetGraphicsRunningProcesses_v2'' ty_nvmlReturn_t [ty_nvmlDevice_t, Ptr ty_unsigned_int, Ptr ty_nvmlProcessInfo_t] ''nvmlDeviceGetGraphicsRunningProcesses_v2'' [0, 1, 2] False,
     Gen nvml ty_nvmlReturn_t ''nvmlDeviceGetMPSComputeRunningProcesses_v2'' [ty_nvmlDevice_t, Ptr ty_unsigned_int, Ptr ty_nvmlProcessInfo_t]
       ''nvmlDeviceGetMPSComputeRunningProcesses_v2'' ty_nvmlReturn_t [ty_nvmlDevice_t, Ptr ty_unsigned_int, Ptr ty_nvmlProcessInfo_t] ''nvmlDeviceGetMPSComputeRunningProcesses_v2'' [0, 1, 2] False,
     Gen nvml ty_nvmlReturn_t ''nvmlDeviceOnSameBoard'' [ty_nvmlDevice_t, ty_nvmlDevice_t, Ptr ty_int]
       ''nvmlDeviceOnSameBoard'' ty_nvmlReturn_t [ty_nvmlDevice_t, ty_nvmlDevice_t, Ptr ty_int] ''nvmlDeviceOnSameBoard'' [0, 1, 2] False,
     Gen nvml ty_nvmlReturn_t ''nvmlDeviceGetAPIRestriction'' [ty_nvmlDevice_t, ty_nvmlRestrictedAPI_t, Ptr ty_nvmlEnableState_t]
       ''nvmlDeviceGetAPIRestriction'' ty_nvmlReturn_t [ty_nvmlDevice_t, ty_nvmlRestrictedAPI_t, Ptr ty_nvmlEnableState_t] ''nvmlDeviceGetAPIRestriction'' [0, 1, 2] False,
     Gen nvml ty_nvmlReturn_t ''nvmlDeviceGetSamples'' [ty_nvmlDevice_t, ty_nvmlSamplingType_t, ty_unsigned_long_long, Ptr ty_nvmlValueType_t, Ptr ty_unsigned_int, Ptr ty_nvmlSample_t]
       ''nvmlDeviceGetSamples'' ty_nvmlReturn_t [ty_nvmlDevice_t, ty_nvmlSamplingType_t, ty_unsigned_long_long, Ptr ty_nvmlValueType_t, Ptr ty_unsigned_int, Ptr ty_nvmlSample_t] ''nvmlDeviceGetSamples'' [0, 1, 2, 3, 4, 5] False,
     Gen nvml ty_nvmlReturn_t ''nvmlDeviceGetBAR1MemoryInfo'' [ty_nvmlDevice_t, Ptr ty_nvmlBAR1Memory_t]
       ''nvmlDeviceGetBAR1MemoryInfo'' ty_nvmlReturn_t [ty_nvmlDevice_t, Ptr ty_nvmlBAR1Memory_t] ''nvmlDeviceGetBAR1MemoryInfo'' [0, 1] False,
     Gen nvml ty_nvmlReturn_t ''nvmlDeviceGetViolationStatus'' [ty_nvmlDevice_t, ty_nvmlPerfPolicyType_t, Ptr ty_nvmlViolationTime_t]
       ''nvmlDeviceGetViolationStatus'' ty_nvmlReturn_t [ty_nvmlDevice_t, ty_nvmlPerfPolicyType_t, Ptr ty_nvmlViolationTime_t] ''nvmlDeviceGetViolationStatus'' [0, 1, 2] False,
     Gen nvml ty_nvmlReturn_t ''nvmlDeviceGetAccountingMode'' [ty_nvmlDevice_t, Ptr ty_nvmlEnableState_t]
       ''nvmlDeviceGetAccountingMode'' ty_nvmlReturn_t [ty_nvmlDevice_t, Ptr ty_nvmlEnableState_t] ''nvmlDeviceGetAccountingMode'' [0, 1] False,
     Gen nvml ty_nvmlReturn_t ''nvmlDeviceGetAccountingStats'' [ty_nvmlDevice_t, ty_unsigned_int, Ptr ty_nvmlAccountingStats_t]
       ''nvmlDeviceGetAccountingStats'' ty_nvmlReturn_t [ty_nvmlDevice_t, ty_unsigned_int, Ptr ty_nvmlAccountingStats_t] ''nvmlDeviceGetAccountingStats'' [0, 1, 2] False,
     Gen nvml ty_nvmlReturn_t ''nvmlDeviceGetAccountingPids'' [ty_nvmlDevice_t, Ptr ty_unsigned_int, Ptr ty_unsigned_int]
       ''nvmlDeviceGetAccountingPids'' ty_nvmlReturn_t [ty_nvmlDevice_t, Ptr ty_unsigned_int, Ptr ty_unsigned_int] ''nvmlDeviceGetAccountingPids'' [0, 1, 2] False,
     Gen nvml ty_nvmlReturn_t ''nvmlDeviceGetAccountingBufferSize'' [ty_nvmlDevice_t, Ptr ty_unsigned_int]
       ''nvmlDeviceGetAccountingBufferSize'' ty_nvmlReturn_t [ty_nvmlDevice_t, Ptr ty_unsigned_int] ''nvmlDeviceGetAccountingBufferSize'' [0, 1] False]"

definition nvml_hooks_8 :: "gen_hook list" where
  "nvml_hooks_8 =
    [Gen nvml ty_nvmlReturn_t ''nvmlDeviceGetRetiredPages'' [ty_nvmlDevice_t, ty_nvmlPageRetirementCause_t, Ptr ty_unsigned_int, Ptr ty_unsigned_long_long]
       ''nvmlDeviceGetRetiredPages'' ty_nvmlReturn_t [ty_nvmlDevice_t, ty_nvmlPageRetirementCause_t, Ptr ty_unsigned_int, Ptr ty_unsigned_long_long] ''nvmlDeviceGetRetiredPages'' [0, 1, 2, 3] False,
     Gen nvml ty_nvmlReturn_t ''nvmlDeviceGetRetiredPages_v2'' [ty_nvmlDevice_t, ty_nvmlPageRetirementCause_t, Ptr ty_unsigned_int, Ptr ty_unsigned_long_long, Ptr ty_unsigned_long_long]
       ''nvmlDeviceGetRetiredPages_v2'' ty_nvmlReturn_t [ty_nvmlDevice_t, ty_nvmlPageRetirementCause_t, Ptr ty_unsigned_int, Ptr ty_unsigned_long_long, Ptr ty_unsigned_long_long] ''nvmlDeviceGetRetiredPages_v2'' [0, 1, 2, 3, 4] False,
     Gen nvml ty_nvmlReturn_t ''nvmlDeviceGetRetiredPagesPendingStatus'' [ty_nvmlDevice_t, Ptr ty_nvmlEnableState_t]
       ''nvmlDeviceGetRetiredPagesPendingStatus'' ty_nvmlReturn_t [ty_nvmlDevice_t, Ptr ty_nvmlEnableState_t] ''nvmlDeviceGetRetiredPagesPendingStatus'' [0, 1] False,
     Gen nvml ty_nvmlReturn_t ''nvmlDeviceGetRemappedRows'' [ty_nvmlDevice_t, Ptr ty_unsigned_int, Ptr ty_unsigned_int, Ptr ty_unsigned_int, Ptr ty_unsigned_int]
       ''nvmlDeviceGetRemappedRows'' ty_nvmlReturn_t [ty_nvmlDevice_t, Ptr ty_unsigned_int, Ptr ty_unsigned_int, Ptr ty_unsigned_int, Ptr ty_unsigned_int] ''nvmlDeviceGetRemappedRows'' [0, 1, 2, 3, 4] False,
     Gen nvml ty_nvmlReturn_t ''nvmlDeviceGetRowRemapperHistogram'' [ty_nvmlDevice_t, Ptr ty_nvmlRowRemapperHistogramValues_t]
       ''nvmlDeviceGetRowRemapperHistogram'' ty_nvmlReturn_t [ty_nvmlDevice_t, Ptr ty_nvmlRowRemapperHistogramValues_t] ''nvmlDeviceGetRowRemapperHistogram'' [0, 1] False,
     Gen nvml ty_nvmlReturn_t ''nvmlDeviceGetArchitecture'' [ty_nvmlDevice_t, Ptr ty_nvmlDeviceArchitecture_t]
       ''nvmlDeviceGetArchitecture'' ty_nvmlReturn_t [ty_nvmlDevice_t, Ptr ty_nvmlDeviceArchitecture_t] ''nvmlDeviceGetArchitecture'' [0, 1] False,
     Gen nvml ty_nvmlReturn_t ''nvmlUnitSetLedState'' [ty_nvmlUnit_t, ty_nvmlLedColor_t]
       ''nvmlUnitSetLedState'' ty_nvmlReturn_t [ty_nvmlUnit_t, ty_nvmlLedColor_t] ''nvmlUnitSetLedState'' [0, 1] False,
     Gen nvml ty_nvmlReturn_t ''nvmlDeviceSetPersistenceMode'' [ty_nvmlDevice_t, ty_nvmlEnableState_t]
       ''nvmlDeviceSetPersistenceMode'' ty_nvmlReturn_t [ty_nvmlDevice_t, ty_nvmlEnableState_t] ''nvmlDeviceSetPersistenceMode'' [0, 1] False,
     Gen nvml ty_nvmlReturn_t ''nvmlDeviceSetComputeMode'' [ty_nvmlDevice_t, ty_nvmlComputeMode_t]
       ''nvmlDeviceSetComputeMode'' ty_nvmlReturn_t [ty_nvmlDevice_t, ty_nvmlComputeMode_t] ''nvmlDeviceSetComputeMode'' [0, 1] False,
     Gen nvml ty_nvmlReturn_t ''nvmlDeviceSetEccMode'' [ty_nvmlDevice_t, ty_nvmlEnableState_t]
       ''nvmlDeviceSetEccMode'' ty_nvmlReturn_t [ty_nvmlDevice_t, ty_nvmlEnableState_t] ''nvmlDeviceSetEccMode'' [0, 1] False,
     Gen nvml ty_nvmlReturn_t ''nvmlDeviceClearEccErrorCounts'' [ty_nvmlDevice_t, ty_nvmlEccCounterType_t]
       ''nvmlDeviceClearEccErrorCounts'' ty_nvmlReturn_t [ty_nvmlDevice_t, ty_nvmlEccCounterType_t] ''nvmlDeviceClearEccErrorCounts'' [0, 1] False,
     Gen nvml ty_nvmlReturn_t ''nvmlDeviceSetDriverModel'' [ty_nvmlDevice_t, ty_nvmlDriverModel_t, ty_unsigned_int]
       ''nvmlDeviceSetDriverModel'' ty_nvmlReturn_t [ty_nvmlDevice_t, ty_nvmlDriverModel_t, ty_unsigned_int] ''nvmlDeviceSetDriverModel'' [0, 1, 2] False,
     Gen nvml ty_nvmlReturn_t ''nvmlDeviceSetGpuLockedClocks'' [ty_nvmlDevice_t, ty_unsigned_int, ty_unsigned_int]
       ''nvmlDeviceSetGpuLockedClocks'' ty_nvmlReturn_t [ty_nvmlDevice_t, ty_unsigned_int, ty_unsigned_int] ''nvmlDeviceSetGpuLockedClocks'' [0, 1, 2] False,
     Gen nvml ty_nvmlReturn_t ''nvmlDeviceResetGpuLockedClocks'' [ty_nvmlDevice_t]
       ''nvmlDeviceResetGpuLockedClocks'' ty_nvmlReturn_t [ty_nvmlDevice_t] ''nvmlDeviceResetGpuLockedClocks'' [0] False,
     Gen nvml ty_nvmlReturn_t ''nvmlDeviceSetMemoryLockedClocks'' [ty_nvmlDevice_t, ty_unsigned_int, ty_unsigned_int]
       ''nvmlDeviceSetMemoryLockedClocks'' ty_nvmlReturn_t [ty_nvmlDevice_t, ty_unsigned_int, ty_unsigned_int] ''nvmlDeviceSetMemoryLockedClocks'' [0, 1, 2] False,
     Gen nvml ty_nvmlReturn_t ''nvmlDeviceResetMemoryLockedClocks'' [ty_nvmlDevice_t]
       ''nvmlDeviceResetMemoryLockedClocks'' ty_nvmlReturn_t [ty_nvmlDevice_t] ''nvmlDeviceResetMemoryLockedClocks'' [0] False]"

definition nvml_hooks_9 :: "gen_hook list" where
  "nvml_hooks_9 =
    [Gen nvml ty_nvmlReturn_t ''nvmlDeviceSetApplicationsClocks'' [ty_nvmlDevice_t, ty_unsigned_int, ty_unsigned_int]
       ''nvmlDeviceSetApplicationsClocks'' ty_nvmlReturn_t [ty_nvmlDevice_t, ty_unsigned_int, ty_unsigned_int] ''nvmlDeviceSetApplicationsClocks'' [0, 1, 2] False,
     Gen nvml ty_nvmlReturn_t ''nvmlDeviceGetClkMonStatus'' [ty_nvmlDevice_t, Ptr ty_nvmlClkMonStatus_t]
       ''nvmlDeviceGetClkMonStatus'' ty_nvmlReturn_t [ty_nvmlDevice_t, Ptr ty_nvmlClkMonStatus_t] ''nvmlDeviceGetClkMonStatus'' [0, 1] False,
     Gen nvml ty_nvmlReturn_t ''nvmlDeviceSetPowerManagementLimit'' [ty_nvmlDevice_t, ty_unsigned_int]
       ''nvmlDeviceSetPowerManagementLimit'' ty_nvmlReturn_t [ty_nvmlDevice_t, ty_unsigned_int] ''nvmlDeviceSetPowerManagementLimit'' [0, 1] False,
     Gen nvml ty_nvmlReturn_t ''nvmlDeviceSetGpuOperationMode'' [ty_nvmlDevice_t, ty_nvmlGpuOperationMode_t]
       ''nvmlDeviceSetGpuOperationMode'' ty_nvmlReturn_t [ty_nvmlDevice_t, ty_nvmlGpuOperationMode_t] ''nvmlDeviceSetGpuOperationMode'' [0, 1] False,
     Gen nvml ty_nvmlReturn_t ''nvmlDeviceSetAPIRestriction'' [ty_nvmlDevice_t, ty_nvmlRestrictedAPI_t, ty_nvmlEnableState_t]
       ''nvmlDeviceSetAPIRestriction'' ty_nvmlReturn_t [ty_nvmlDevice_t, ty_nvmlRestrictedAPI_t, ty_nvmlEnableState_t] ''nvmlDeviceSetAPIRestriction'' [0, 1, 2] False,
     Gen nvml ty_nvmlReturn_t ''nvmlDeviceSetAccountingMode'' [ty_nvmlDevice_t, ty_nvmlEnableState_t]
       ''nvmlDeviceSetAccountingMode'' ty_nvmlReturn_t [ty_nvmlDevice_t, ty_nvmlEnableState_t] ''nvmlDeviceSetAccountingMode'' [0, 1] False,
     Gen nvml ty_nvmlReturn_t ''nvmlDeviceClearAccountingPids'' [ty_nvmlDevice_t]
       ''nvmlDeviceClearAccountingPids'' ty_nvmlReturn_t [ty_nvmlDevice_t] ''nvmlDeviceClearAccountingPids'' [0] False,
     Gen nvml ty_nvmlReturn_t ''nvmlDeviceGetNvLinkState'' [ty_nvmlDevice_t, ty_unsigned_int, Ptr ty_nvmlEnableState_t]
       ''nvmlDeviceGetNvLinkState'' ty_nvmlReturn_t [ty_nvmlDevice_t, ty_unsigned_int, Ptr ty_nvmlEnableState_t] ''nvmlDeviceGetNvLinkState'' [0, 1, 2] False,
     Gen nvml ty_nvmlReturn_t ''nvmlDeviceGetNvLinkVersion'' [ty_nvmlDevice_t, ty_unsigned_int, Ptr ty_unsigned_int]
       ''nvmlDeviceGetNvLinkVersion'' ty_nvmlReturn_t [ty_nvmlDevice_t, ty_unsigned_int, Ptr ty_unsigned_int] ''nvmlDeviceGetNvLinkVersion'' [0, 1, 2] False,
     Gen nvml ty_nvmlReturn_t ''nvmlDeviceGetNvLinkCapability'' [ty_nvmlDevice_t, ty_unsigned_int, ty_nvmlNvLinkCapability_t, Ptr ty_unsigned_int]
       ''nvmlDeviceGetNvLinkCapability'' ty_nvmlReturn_t [ty_nvmlDevice_t, ty_unsigned_int, ty_nvmlNvLinkCapability_t, Ptr ty_unsigned_int] ''nvmlDeviceGetNvLinkCapability'' [0, 1, 2, 3] False,
     Gen nvml ty_nvmlReturn_t ''nvmlDeviceGetNvLinkRemotePciInfo_v2'' [ty_nvmlDevice_t, ty_unsigned_int, Ptr ty_nvmlPciInfo_t]
       ''nvmlDeviceGetNvLinkRemotePciInfo_v2'' ty_nvmlReturn_t [ty_nvmlDevice_t, ty_unsigned_int, Ptr ty_nvmlPciInfo_t] ''nvmlDeviceGetNvLinkRemotePciInfo_v2'' [0, 1, 2] False,
     Gen nvml ty_nvmlReturn_t ''nvmlDeviceGetNvLinkErrorCounter'' [ty_nvmlDevice_t, ty_unsigned_int, ty_nvmlNvLinkErrorCounter_t, Ptr ty_unsigned_long_long]
       ''nvmlDeviceGetNvLinkErrorCounter'' ty_nvmlReturn_t [ty_nvmlDevice_t, ty_unsigned_int, ty_nvmlNvLinkErrorCounter_t, Ptr ty_unsigned_long_long] ''nvmlDeviceGetNvLinkErrorCounter'' [0, 1, 2, 3] False,
     Gen nvml ty_nvmlReturn_t ''nvmlDeviceResetNvLinkErrorCounters'' [ty_nvmlDevice_t, ty_unsigned_int]
       ''nvmlDeviceResetNvLinkErrorCounters'' ty_nvmlReturn_t [ty_nvmlDevice_t, ty_unsigned_int] ''nvmlDeviceResetNvLinkErrorCounters'' [0, 1] False,
     Gen nvml ty_nvmlReturn_t ''nvmlDeviceSetNvLinkUtilizationControl'' [ty_nvmlDevice_t, ty_unsigned_int, ty_unsigned_int, Ptr ty_nvmlNvLinkUtilizationControl_t, ty_unsigned_int]
       ''nvmlDeviceSetNvLinkUtilizationControl'' ty_nvmlReturn_t [ty_nvmlDevice_t, ty_unsigned_int, ty_unsigned_int, Ptr ty_nvmlNvLinkUtilizationControl_t, ty_unsigned_int] ''nvmlDeviceSetNvLinkUtilizationControl'' [0, 1, 2, 3, 4] False,
     Gen nvml ty_nvmlReturn_t ''nvmlDeviceGetNvLinkUtilizationControl'' [ty_nvmlDevice_t, ty_unsigned_int, ty_unsigned_int, Ptr ty_nvmlNvLinkUtilizationControl_t]
       ''nvmlDeviceGetNvLinkUtilizationControl'' ty_nvmlReturn_t [ty_nvmlDevice_t, ty_unsigned_int, ty_unsigned_int, Ptr ty_nvmlNvLinkUtilizationControl_t] ''nvmlDeviceGetNvLinkUtilizationControl'' [0, 1, 2, 3] False,
     Gen nvml ty_nvmlReturn_t ''nvmlDeviceGetNvLinkUtilizationCounter'' [ty_nvmlDevice_t, ty_unsigned_int, ty_unsigned_int, Ptr ty_unsigned_long_long, Ptr ty_unsigned_long_long]
       ''nvmlDeviceGetNvLinkUtilizationCounter'' ty_nvmlReturn_t [ty_nvmlDevice_t, ty_unsigned_int, ty_unsigned_int, Ptr ty_unsigned_long_long, Ptr ty_unsigned_long_long] ''nvmlDeviceGetNvLinkUtilizationCounter'' [0, 1, 2, 3, 4] False]"

definition nvml_hooks_10 :: "gen_hook list" where
  "nvml_hooks_10 =
    [Gen nvml ty_nvmlReturn_t ''nvmlDeviceFreezeNvLinkUtilizationCounter'' [ty_nvmlDevice_t, ty_unsigned_int, ty_unsigned_int, ty_nvmlEnableState_t]
       ''nvmlDeviceFreezeNvLinkUtilizationCounter'' ty_nvmlReturn_t [ty_nvmlDevice_t, ty_unsigned_int, ty_unsigned_int, ty_nvmlEnableState_t] ''nvmlDeviceFreezeNvLinkUtilizationCounter'' [0, 1, 2, 3] False,
     Gen nvml ty_nvmlReturn_t ''nvmlDeviceResetNvLinkUtilizationCounter'' [ty_nvmlDevice_t, ty_unsigned_int, ty_unsigned_int]
       ''nvmlDeviceResetNvLinkUtilizationCounter'' ty_nvmlReturn_t [ty_nvmlDevice_t, ty_unsigned_int, ty_unsigned_int] ''nvmlDeviceResetNvLinkUtilizationCounter'' [0, 1, 2] False,
     Gen nvml ty_nvmlReturn_t ''nvmlDeviceGetNvLinkRemoteDeviceType'' [ty_nvmlDevice_t, ty_unsigned_int, Ptr ty_nvmlIntNvLinkDeviceType_t]
       ''nvmlDeviceGetNvLinkRemoteDeviceType'' ty_nvmlReturn_t [ty_nvmlDevice_t, ty_unsigned_int, Ptr ty_nvmlIntNvLinkDeviceType_t] ''nvmlDeviceGetNvLinkRemoteDeviceType'' [0, 1, 2] False,
     Gen nvml ty_nvmlReturn_t ''nvmlEventSetCreate'' [Ptr ty_nvmlEventSet_t]
       ''nvmlEventSetCreate'' ty_nvmlReturn_t [Ptr ty_nvmlEventSet_t] ''nvmlEventSetCreate'' [0] False,
     Gen nvml ty_nvmlReturn_t ''nvmlDeviceRegisterEvents'' [ty_nvmlDevice_t, ty_unsigned_long_long, ty_nvmlEventSet_t]
       ''nvmlDeviceRegisterEvents'' ty_nvmlReturn_t [ty_nvmlDevice_t, ty_unsigned_long_long, ty_nvmlEventSet_t] ''nvmlDeviceRegisterEvents'' [0, 1, 2] False,
     Gen nvml ty_nvmlReturn_t ''nvmlDeviceGetSupportedEventTypes'' [ty_nvmlDevice_t, Ptr ty_unsigned_long_long]
       ''nvmlDeviceGetSupportedEventTypes'' ty_nvmlReturn_t [ty_nvmlDevice_t, Ptr ty_unsigned_long_long] ''nvmlDeviceGetSupportedEventTypes'' [0, 1] False,
     Gen nvml ty_nvmlReturn_t ''nvmlEventSetWait_v2'' [ty_nvmlEventSet_t, Ptr ty_nvmlEventData_t, ty_unsigned_int]
       ''nvmlEventSetWait_v2'' ty_nvmlReturn_t [ty_nvmlEventSet_t, Ptr ty_nvmlEventData_t, ty_unsigned_int] ''nvmlEventSetWait_v2'' [0, 1, 2] False,
     Gen nvml ty_nvmlReturn_t ''nvmlEventSetFree'' [ty_nvmlEventSet_t]
       ''nvmlEventSetFree'' ty_nvmlReturn_t [ty_nvmlEventSet_t] ''nvmlEventSetFree'' [0] False,
     Gen nvml ty_nvmlReturn_t ''nvmlDeviceModifyDrainState'' [Ptr ty_nvmlPciInfo_t, ty_nvmlEnableState_t]
       ''nvmlDeviceModifyDrainState'' ty_nvmlReturn_t [Ptr ty_nvmlPciInfo_t, ty_nvmlEnableState_t] ''nvmlDeviceModifyDrainState'' [0, 1] False,
     Gen nvml ty_nvmlReturn_t ''nvmlDeviceQueryDrainState'' [Ptr ty_nvmlPciInfo_t, Ptr ty_nvmlEnableState_t]
       ''nvmlDeviceQueryDrainState'' ty_nvmlReturn_t [Ptr ty_nvmlPciInfo_t, Ptr ty_nvmlEnableState_t] ''nvmlDeviceQueryDrainState'' [0, 1] False,
     Gen nvml ty_nvmlReturn_t ''nvmlDeviceRemoveGpu_v2'' [Ptr ty_nvmlPciInfo_t, ty_nvmlDetachGpuState_t, ty_nvmlPcieLinkState_t]
       ''nvmlDeviceRemoveGpu_v2'' ty_nvmlReturn_t [Ptr ty_nvmlPciInfo_t, ty_nvmlDetachGpuState_t, ty_nvmlPcieLinkState_t] ''nvmlDeviceRemoveGpu_v2'' [0, 1, 2] False,
     Gen nvml ty_nvmlReturn_t ''nvmlDeviceDiscoverGpus'' [Ptr ty_nvmlPciInfo_t]
       ''nvmlDeviceDiscoverGpus'' ty_nvmlReturn_t [Ptr ty_nvmlPciInfo_t] ''nvmlDeviceDiscoverGpus'' [0] False,
     Gen nvml ty_nvmlReturn_t ''nvmlDeviceGetFieldValues'' [ty_nvmlDevice_t, ty_int, Ptr ty_nvmlFieldValue_t]
       ''nvmlDeviceGetFieldValues'' ty_nvmlReturn_t [ty_nvmlDevice_t, ty_int, Ptr ty_nvmlFieldValue_t] ''nvmlDeviceGetFieldValues'' [0, 1, 2] False,
     Gen nvml ty_nvmlReturn_t ''nvmlDeviceGetVirtualizationMode'' [ty_nvmlDevice_t, Ptr ty_nvmlGpuVirtualizationMode_t]
       ''nvmlDeviceGetVirtualizationMode'' ty_nvmlReturn_t [ty_nvmlDevice_t, Ptr ty_nvmlGpuVirtualizationMode_t] ''nvmlDeviceGetVirtualizationMode'' [0, 1] False,
     Gen nvml ty_nvmlReturn_t ''nvmlDeviceGetHostVgpuMode'' [ty_nvmlDevice_t, Ptr ty_nvmlHostVgpuMode_t]
       ''nvmlDeviceGetHostVgpuMode'' ty_nvmlReturn_t [ty_nvmlDevice_t, Ptr ty_nvmlHostVgpuMode_t] ''nvmlDeviceGetHostVgpuMode'' [0, 1] False,
     Gen nvml ty_nvmlReturn_t ''nvmlDeviceSetVirtualizationMode'' [ty_nvmlDevice_t, ty_nvmlGpuVirtualizationMode_t]
       ''nvmlDeviceSetVirtualizationMode'' ty_nvmlReturn_t [ty_nvmlDevice_t, ty_nvmlGpuVirtualizationMode_t] ''nvmlDeviceSetVirtualizationMode'' [0, 1] False]"

definition nvml_hooks_11 :: "gen_hook list" where
  "nvml_hooks_11 =
    [Gen nvml ty_nvmlReturn_t ''nvmlDeviceGetGridLicensableFeatures_v4'' [ty_nvmlDevice_t, Ptr ty_nvmlGridLicensableFeatures_t]
       ''nvmlDeviceGetGridLicensableFeatures_v4'' ty_nvmlReturn_t [ty_nvmlDevice_t, Ptr ty_nvmlGridLicensableFeatures_t] ''nvmlDeviceGetGridLicensableFeatures_v4'' [0, 1] False,
     Gen nvml ty_nvmlReturn_t ''nvmlDeviceGetProcessUtilization'' [ty_nvmlDevice_t, Ptr ty_nvmlProcessUtilizationSample_t, Ptr ty_unsigned_int, ty_unsigned_long_long]
       ''nvmlDeviceGetProcessUtilization'' ty_nvmlReturn_t [ty_nvmlDevice_t, Ptr ty_nvmlProcessUtilizationSample_t, Ptr ty_unsigned_int, ty_unsigned_long_long] ''nvmlDeviceGetProcessUtilization'' [0, 1, 2, 3] False,
     Gen nvml ty_nvmlReturn_t ''nvmlDeviceGetSupportedVgpus'' [ty_nvmlDevice_t, Ptr ty_unsigned_int, Ptr ty_nvmlVgpuTypeId_t]
       ''nvmlDeviceGetSupportedVgpus'' ty_nvmlReturn_t [ty_nvmlDevice_t, Ptr ty_unsigned_int, Ptr ty_nvmlVgpuTypeId_t] ''nvmlDeviceGetSupportedVgpus'' [0, 1, 2] False,
     Gen nvml ty_nvmlReturn_t ''nvmlDeviceGetCreatableVgpus'' [ty_nvmlDevice_t, Ptr ty_unsigned_int, Ptr ty_nvmlVgpuTypeId_t]
       ''nvmlDeviceGetCreatableVgpus'' ty_nvmlReturn_t [ty_nvmlDevice_t, Ptr ty_unsigned_int, Ptr ty_nvmlVgpuTypeId_t] ''nvmlDeviceGetCreatableVgpus'' [0, 1, 2] False,
     Gen nvml ty_nvmlReturn_t ''nvmlVgpuTypeGetClass'' [ty_nvmlVgpuTypeId_t, Ptr ty_char, Ptr ty_unsigned_int]
       ''nvmlVgpuTypeGetClass'' ty_nvmlReturn_t [ty_nvmlVgpuTypeId_t, Ptr ty_char, Ptr ty_unsigned_int] ''nvmlVgpuTypeGetClass'' [0, 1, 2] False,
     Gen nvml ty_nvmlReturn_t ''nvmlVgpuTypeGetName'' [ty_nvmlVgpuTypeId_t, Ptr ty_char, Ptr ty_unsigned_int]
       ''nvmlVgpuTypeGetName'' ty_nvmlReturn_t [ty_nvmlVgpuTypeId_t, Ptr ty_char, Ptr ty_unsigned_int] ''nvmlVgpuTypeGetName'' [0, 1, 2] False,
     Gen nvml ty_nvmlReturn_t ''nvmlVgpuTypeGetGpuInstanceProfileId'' [ty_nvmlVgpuTypeId_t, Ptr ty_unsigned_int]
       ''nvmlVgpuTypeGetGpuInstanceProfileId'' ty_nvmlReturn_t [ty_nvmlVgpuTypeId_t, Ptr ty_unsigned_int] ''nvmlVgpuTypeGetGpuInstanceProfileId'' [0, 1] False,
     Gen nvml ty_nvmlReturn_t ''nvmlVgpuTypeGetDeviceID'' [ty_nvmlVgpuTypeId_t, Ptr ty_unsigned_long_long, Ptr ty_unsigned_long_long]
       ''nvmlVgpuTypeGetDeviceID'' ty_nvmlReturn_t [ty_nvmlVgpuTypeId_t, Ptr ty_unsigned_long_long, Ptr ty_unsigned_long_long] ''nvmlVgpuTypeGetDeviceID'' [0, 1, 2] False,
     Gen nvml ty_nvmlReturn_t ''nvmlVgpuTypeGetFramebufferSize'' [ty_nvmlVgpuTypeId_t, Ptr ty_unsigned_long_long]
       ''nvmlVgpuTypeGetFramebufferSize'' ty_nvmlReturn_t [ty_nvmlVgpuTypeId_t, Ptr ty_unsigned_long_long] ''nvmlVgpuTypeGetFramebufferSize'' [0, 1] False,
     Gen nvml ty_nvmlReturn_t ''nvmlVgpuTypeGetNumDisplayHeads'' [ty_nvmlVgpuTypeId_t, Ptr ty_unsigned_int]
       ''nvmlVgpuTypeGetNumDisplayHeads'' ty_nvmlReturn_t [ty_nvmlVgpuTypeId_t, Ptr ty_unsigned_int] ''nvmlVgpuTypeGetNumDisplayHeads'' [0, 1] False,
     Gen nvml ty_nvmlReturn_t ''nvmlVgpuTypeGetResolution'' [ty_nvmlVgpuTypeId_t, ty_unsigned_int, Ptr ty_unsigned_int, Ptr ty_unsigned_int]
       ''nvmlVgpuTypeGetResolution'' ty_nvmlReturn_t [ty_nvmlVgpuTypeId_t, ty_unsigned_int, Ptr ty_unsigned_int, Ptr ty_unsigned_int] ''nvmlVgpuTypeGetResolution'' [0, 1, 2, 3] False,
     Gen nvml ty_nvmlReturn_t ''nvmlVgpuTypeGetLicense'' [ty_nvmlVgpuTypeId_t, Ptr ty_char, ty_unsigned_int]
       ''nvmlVgpuTypeGetLicense'' ty_nvmlReturn_t [ty_nvmlVgpuTypeId_t, Ptr ty_char, ty_unsigned_int] ''nvmlVgpuTypeGetLicense'' [0, 1, 2] False,
     Gen nvml ty_nvmlReturn_t ''nvmlVgpuTypeGetFrameRateLimit'' [ty_nvmlVgpuTypeId_t, Ptr ty_unsigned_int]
       ''nvmlVgpuTypeGetFrameRateLimit'' ty_nvmlReturn_t [ty_nvmlVgpuTypeId_t, Ptr ty_unsigned_int] ''nvmlVgpuTypeGetFrameRateLimit'' [0, 1] False,
     Gen nvml ty_nvmlReturn_t ''nvmlVgpuTypeGetMaxInstances'' [ty_nvmlDevice_t, ty_nvmlVgpuTypeId_t, Ptr ty_unsigned_int]
       ''nvmlVgpuTypeGetMaxInstances'' ty_nvmlReturn_t [ty_nvmlDevice_t, ty_nvmlVgpuTypeId_t, Ptr ty_unsigned_int] ''nvmlVgpuTypeGetMaxInstances'' [0, 1, 2] False,
     Gen nvml ty_nvmlReturn_t ''nvmlVgpuTypeGetMaxInstancesPerVm'' [ty_nvmlVgpuTypeId_t, Ptr ty_unsigned_int]
       ''nvmlVgpuTypeGetMaxInstancesPerVm'' ty_nvmlReturn_t [ty_nvmlVgpuTypeId_t, Ptr ty_unsigned_int] ''nvmlVgpuTypeGetMaxInstancesPerVm'' [0, 1] False,
     Gen nvml ty_nvmlReturn_t ''nvmlDeviceGetActiveVgpus'' [ty_nvmlDevice_t, Ptr ty_unsigned_int, Ptr ty_nvmlVgpuInstance_t]
       ''nvmlDeviceGetActiveVgpus'' ty_nvmlReturn_t [ty_nvmlDevice_t, Ptr ty_unsigned_int, Ptr ty_nvmlVgpuInstance_t] ''nvmlDeviceGetActiveVgpus'' [0, 1, 2] False]"

definition nvml_hooks_12 :: "gen_hook list" where
  "nvml_hooks_12 =
    [Gen nvml ty_nvmlReturn_t ''nvmlVgpuInstanceGetVmID'' [ty_nvmlVgpuInstance_t, Ptr ty_char, ty_unsigned_int, Ptr ty_nvmlVgpuVmIdType_t]
       ''nvmlVgpuInstanceGetVmID'' ty_nvmlReturn_t [ty_nvmlVgpuInstance_t, Ptr ty_char, ty_unsigned_int, Ptr ty_nvmlVgpuVmIdType_t] ''nvmlVgpuInstanceGetVmID'' [0, 1, 2, 3] False,
     Gen nvml ty_nvmlReturn_t ''nvmlVgpuInstanceGetUUID'' [ty_nvmlVgpuInstance_t, Ptr ty_char, ty_unsigned_int]
       ''nvmlVgpuInstanceGetUUID'' ty_nvmlReturn_t [ty_nvmlVgpuInstance_t, Ptr ty_char, ty_unsigned_int] ''nvmlVgpuInstanceGetUUID'' [0, 1, 2] False,
     Gen nvml ty_nvmlReturn_t ''nvmlVgpuInstanceGetVmDriverVersion'' [ty_nvmlVgpuInstance_t, Ptr ty_char, ty_unsigned_int]
       ''nvmlVgpuInstanceGetVmDriverVersion'' ty_nvmlReturn_t [ty_nvmlVgpuInstance_t, Ptr ty_char, ty_unsigned_int] ''nvmlVgpuInstanceGetVmDriverVersion'' [0, 1, 2] False,
     Gen nvml ty_nvmlReturn_t ''nvmlVgpuInstanceGetFbUsage'' [ty_nvmlVgpuInstance_t, Ptr ty_unsigned_long_long]
       ''nvmlVgpuInstanceGetFbUsage'' ty_nvmlReturn_t [ty_nvmlVgpuInstance_t, Ptr ty_unsigned_long_long] ''nvmlVgpuInstanceGetFbUsage'' [0, 1] False,
     Gen nvml ty_nvmlReturn_t ''nvmlVgpuInstanceGetLicenseStatus'' [ty_nvmlVgpuInstance_t, Ptr ty_unsigned_int]
       ''nvmlVgpuInstanceGetLicenseStatus'' ty_nvmlReturn_t [ty_nvmlVgpuInstance_t, Ptr ty_unsigned_int] ''nvmlVgpuInstanceGetLicenseStatus'' [0, 1] False,
     Gen nvml ty_nvmlReturn_t ''nvmlVgpuInstanceGetType'' [ty_nvmlVgpuInstance_t, Ptr ty_nvmlVgpuTypeId_t]
       ''nvmlVgpuInstanceGetType'' ty_nvmlReturn_t [ty_nvmlVgpuInstance_t, Ptr ty_nvmlVgpuTypeId_t] ''nvmlVgpuInstanceGetType'' [0, 1] False,
     Gen nvml ty_nvmlReturn_t ''nvmlVgpuInstanceGetFrameRateLimit'' [ty_nvmlVgpuInstance_t, Ptr ty_unsigned_int]
       ''nvmlVgpuInstanceGetFrameRateLimit'' ty_nvmlReturn_t [ty_nvmlVgpuInstance_t, Ptr ty_unsigned_int] ''nvmlVgpuInstanceGetFrameRateLimit'' [0, 1] False,
     Gen nvml ty_nvmlReturn_t ''nvmlVgpuInstanceGetEccMode'' [ty_nvmlVgpuInstance_t, Ptr ty_nvmlEnableState_t]
       ''nvmlVgpuInstanceGetEccMode'' ty_nvmlReturn_t [ty_nvmlVgpuInstance_t, Ptr ty_nvmlEnableState_t] ''nvmlVgpuInstanceGetEccMode'' [0, 1] False,
     Gen nvml ty_nvmlReturn_t ''nvmlVgpuInstanceGetEncoderCapacity'' [ty_nvmlVgpuInstance_t, Ptr ty_unsigned_int]
       ''nvmlVgpuInstanceGetEncoderCapacity'' ty_nvmlReturn_t [ty_nvmlVgpuInstance_t, Ptr ty_unsigned_int] ''nvmlVgpuInstanceGetEncoderCapacity'' [0, 1] False,
     Gen nvml ty_nvmlReturn_t ''nvmlVgpuInstanceSetEncoderCapacity'' [ty_nvmlVgpuInstance_t, ty_unsigned_int]
       ''nvmlVgpuInstanceSetEncoderCapacity'' ty_nvmlReturn_t [ty_nvmlVgpuInstance_t, ty_unsigned_int] ''nvmlVgpuInstanceSetEncoderCapacity'' [0, 1] False,
     Gen nvml ty_nvmlReturn_t ''nvmlVgpuInstanceGetEncoderStats'' [ty_nvmlVgpuInstance_t, Ptr ty_unsigned_int, Ptr ty_unsigned_int, Ptr ty_unsigned_int]
       ''nvmlVgpuInstanceGetEncoderStats'' ty_nvmlReturn_t [ty_nvmlVgpuInstance_t, Ptr ty_unsigned_int, Ptr ty_unsigned_int, Ptr ty_unsigned_int] ''nvmlVgpuInstanceGetEncoderStats'' [0, 1, 2, 3] False,
     Gen nvml ty_nvmlReturn_t ''nvmlVgpuInstanceGetEncoderSessions'' [ty_nvmlVgpuInstance_t, Ptr ty_unsigned_int, Ptr ty_nvmlEncoderSessionInfo_t]
       ''nvmlVgpuInstanceGetEncoderSessions'' ty_nvmlReturn_t [ty_nvmlVgpuInstance_t, Ptr ty_unsigned_int, Ptr ty_nvmlEncoderSessionInfo_t] ''nvmlVgpuInstanceGetEncoderSessions'' [0, 1, 2] False,
     Gen nvml ty_nvmlReturn_t ''nvmlVgpuInstanceGetFBCStats'' [ty_nvmlVgpuInstance_t, Ptr ty_nvmlFBCStats_t]
       ''nvmlVgpuInstanceGetFBCStats'' ty_nvmlReturn_t [ty_nvmlVgpuInstance_t, Ptr ty_nvmlFBCStats_t] ''nvmlVgpuInstanceGetFBCStats'' [0, 1] False,
     Gen nvml ty_nvmlReturn_t ''nvmlVgpuInstanceGetFBCSessions'' [ty_nvmlVgpuInstance_t, Ptr ty_unsigned_int, Ptr ty_nvmlFBCSessionInfo_t]
       ''nvmlVgpuInstanceGetFBCSessions'' ty_nvmlReturn_t [ty_nvmlVgpuInstance_t, Ptr ty_unsigned_int, Ptr ty_nvmlFBCSessionInfo_t] ''nvmlVgpuInstanceGetFBCSessions'' [0, 1, 2] False,
     Gen nvml ty_nvmlReturn_t ''nvmlVgpuInstanceGetGpuInstanceId'' [ty_nvmlVgpuInstance_t, Ptr ty_unsigned_int]
       ''nvmlVgpuInstanceGetGpuInstanceId'' ty_nvmlReturn_t [ty_nvmlVgpuInstance_t, Ptr ty_unsigned_int] ''nvmlVgpuInstanceGetGpuInstanceId'' [0, 1] False,
     Gen nvml ty_nvmlReturn_t ''nvmlVgpuInstanceGetMetadata'' [ty_nvmlVgpuInstance_t, Ptr ty_nvmlVgpuMetadata_t, Ptr ty_unsigned_int]
       ''nvmlVgpuInstanceGetMetadata'' ty_nvmlReturn_t [ty_nvmlVgpuInstance_t, Ptr ty_nvmlVgpuMetadata_t, Ptr ty_unsigned_int] ''nvmlVgpuInstanceGetMetadata'' [0, 1, 2] False]"

definition nvml_hooks_13 :: "gen_hook list" where
  "nvml_hooks_13 =
    [Gen nvml ty_nvmlReturn_t ''nvmlDeviceGetVgpuMetadata'' [ty_nvmlDevice_t, Ptr ty_nvmlVgpuPgpuMetadata_t, Ptr ty_unsigned_int]
       ''nvmlDeviceGetVgpuMetadata'' ty_nvmlReturn_t [ty_nvmlDevice_t, Ptr ty_nvmlVgpuPgpuMetadata_t, Ptr ty_unsigned_int] ''nvmlDeviceGetVgpuMetadata'' [0, 1, 2] False,
     Gen nvml ty_nvmlReturn_t ''nvmlGetVgpuCompatibility'' [Ptr ty_nvmlVgpuMetadata_t, Ptr ty_nvmlVgpuPgpuMetadata_t, Ptr ty_nvmlVgpuPgpuCompatibility_t]
       ''nvmlGetVgpuCompatibility'' ty_nvmlReturn_t [Ptr ty_nvmlVgpuMetadata_t, Ptr ty_nvmlVgpuPgpuMetadata_t, Ptr ty_nvmlVgpuPgpuCompatibility_t] ''nvmlGetVgpuCompatibility'' [0, 1, 2] False,
     Gen nvml ty_nvmlReturn_t ''nvmlDeviceGetPgpuMetadataString'' [ty_nvmlDevice_t, Ptr ty_char, Ptr ty_unsigned_int]
       ''nvmlDeviceGetPgpuMetadataString'' ty_nvmlReturn_t [ty_nvmlDevice_t, Ptr ty_char, Ptr ty_unsigned_int] ''nvmlDeviceGetPgpuMetadataString'' [0, 1, 2] False,
     Gen nvml ty_nvmlReturn_t ''nvmlGetVgpuVersion'' [Ptr ty_nvmlVgpuVersion_t, Ptr ty_nvmlVgpuVersion_t]
       ''nvmlGetVgpuVersion'' ty_nvmlReturn_t [Ptr ty_nvmlVgpuVersion_t, Ptr ty_nvmlVgpuVersion_t] ''nvmlGetVgpuVersion'' [0, 1] False,
     Gen nvml ty_nvmlReturn_t ''nvmlSetVgpuVersion'' [Ptr ty_nvmlVgpuVersion_t]
       ''nvmlSetVgpuVersion'' ty_nvmlReturn_t [Ptr ty_nvmlVgpuVersion_t] ''nvmlSetVgpuVersion'' [0] False,
     Gen nvml ty_nvmlReturn_t ''nvmlDeviceGetVgpuUtilization'' [ty_nvmlDevice_t, ty_unsigned_long_long, Ptr ty_nvmlValueType_t, Ptr ty_unsigned_int, Ptr ty_nvmlVgpuInstanceUtilizationSample_t]
       ''nvmlDeviceGetVgpuUtilization'' ty_nvmlReturn_t [ty_nvmlDevice_t, ty_unsigned_long_long, Ptr ty_nvmlValueType_t, Ptr ty_unsigned_int, Ptr ty_nvmlVgpuInstanceUtilizationSample_t] ''nvmlDeviceGetVgpuUtilization'' [0, 1, 2, 3, 4] False,
     Gen nvml ty_nvmlReturn_t ''nvmlDeviceGetVgpuProcessUtilization'' [ty_nvmlDevice_t, ty_unsigned_long_long, Ptr ty_unsigned_int, Ptr ty_nvmlVgpuProcessUtilizationSample_t]
       ''nvmlDeviceGetVgpuProcessUtilization'' ty_nvmlReturn_t [ty_nvmlDevice_t, ty_unsigned_long_long, Ptr ty_unsigned_int, Ptr ty_nvmlVgpuProcessUtilizationSample_t] ''nvmlDeviceGetVgpuProcessUtilization'' [0, 1, 2, 3] False,
     Gen nvml ty_nvmlReturn_t ''nvmlVgpuInstanceGetAccountingMode'' [ty_nvmlVgpuInstance_t, Ptr ty_nvmlEnableState_t]
       ''nvmlVgpuInstanceGetAccountingMode'' ty_nvmlReturn_t [ty_nvmlVgpuInstance_t, Ptr ty_nvmlEnableState_t] ''nvmlVgpuInstanceGetAccountingMode'' [0, 1] False,
     Gen nvml ty_nvmlReturn_t ''nvmlVgpuInstanceGetAccountingPids'' [ty_nvmlVgpuInstance_t, Ptr ty_unsigned_int, Ptr ty_unsigned_int]
       ''nvmlVgpuInstanceGetAccountingPids'' ty_nvmlReturn_t [ty_nvmlVgpuInstance_t, Ptr ty_unsigned_int, Ptr ty_unsigned_int] ''nvmlVgpuInstanceGetAccountingPids'' [0, 1, 2] False,
     Gen nvml ty_nvmlReturn_t ''nvmlVgpuInstanceGetAccountingStats'' [ty_nvmlVgpuInstance_t, ty_unsigned_int, Ptr ty_nvmlAccountingStats_t]
       ''nvmlVgpuInstanceGetAccountingStats'' ty_nvmlReturn_t [ty_nvmlVgpuInstance_t, ty_unsigned_int, Ptr ty_nvmlAccountingStats_t] ''nvmlVgpuInstanceGetAccountingStats'' [0, 1, 2] False,
     Gen nvml ty_nvmlReturn_t ''nvmlVgpuInstanceClearAccountingPids'' [ty_nvmlVgpuInstance_t]
       ''nvmlVgpuInstanceClearAccountingPids'' ty_nvmlReturn_t [ty_nvmlVgpuInstance_t] ''nvmlVgpuInstanceClearAccountingPids'' [0] False,
     Gen nvml ty_nvmlReturn_t ''nvmlGetExcludedDeviceCount'' [Ptr ty_unsigned_int]
       ''nvmlGetExcludedDeviceCount'' ty_nvmlReturn_t [Ptr ty_unsigned_int] ''nvmlGetExcludedDeviceCount'' [0] False,
     Gen nvml ty_nvmlReturn_t ''nvmlGetExcludedDeviceInfoByIndex'' [ty_unsigned_int, Ptr ty_nvmlExcludedDeviceInfo_t]
       ''nvmlGetExcludedDeviceInfoByIndex'' ty_nvmlReturn_t [ty_unsigned_int, Ptr ty_nvmlExcludedDeviceInfo_t] ''nvmlGetExcludedDeviceInfoByIndex'' [0, 1] False,
     Gen nvml ty_nvmlReturn_t ''nvmlDeviceSetMigMode'' [ty_nvmlDevice_t, ty_unsigned_int, Ptr ty_nvmlReturn_t]
       ''nvmlDeviceSetMigMode'' ty_nvmlReturn_t [ty_nvmlDevice_t, ty_unsigned_int, Ptr ty_nvmlReturn_t] ''nvmlDeviceSetMigMode'' [0, 1, 2] False,
     Gen nvml ty_nvmlReturn_t ''nvmlDeviceGetMigMode'' [ty_nvmlDevice_t, Ptr ty_unsigned_int, Ptr ty_unsigned_int]
       ''nvmlDeviceGetMigMode'' ty_nvmlReturn_t [ty_nvmlDevice_t, Ptr ty_unsigned_int, Ptr ty_unsigned_int] ''nvmlDeviceGetMigMode'' [0, 1, 2] False,
     Gen nvml ty_nvmlReturn_t ''nvmlDeviceGetGpuInstanceProfileInfo'' [ty_nvmlDevice_t, ty_unsigned_int, Ptr ty_nvmlGpuInstanceProfileInfo_t]
       ''nvmlDeviceGetGpuInstanceProfileInfo'' ty_nvmlReturn_t [ty_nvmlDevice_t, ty_unsigned_int, Ptr ty_nvmlGpuInstanceProfileInfo_t] ''nvmlDeviceGetGpuInstanceProfileInfo'' [0, 1, 2] False]"

definition nvml_hooks_14 :: "gen_hook list" where
  "nvml_hooks_14 =
    [Gen nvml ty_nvmlReturn_t ''nvmlDeviceGetGpuInstancePossiblePlacements_v2'' [ty_nvmlDevice_t, ty_unsigned_int, Ptr ty_nvmlGpuInstancePlacement_t, Ptr ty_unsigned_int]
       ''nvmlDeviceGetGpuInstancePossiblePlacements_v2'' ty_nvmlReturn_t [ty_nvmlDevice_t, ty_unsigned_int, Ptr ty_nvmlGpuInstancePlacement_t, Ptr ty_unsigned_int] ''nvmlDeviceGetGpuInstancePossiblePlacements_v2'' [0, 1, 2, 3] False,
     Gen nvml ty_nvmlReturn_t ''nvmlDeviceGetGpuInstanceRemainingCapacity'' [ty_nvmlDevice_t, ty_unsigned_int, Ptr ty_unsigned_int]
       ''nvmlDeviceGetGpuInstanceRemainingCapacity'' ty_nvmlReturn_t [ty_nvmlDevice_t, ty_unsigned_int, Ptr ty_unsigned_int] ''nvmlDeviceGetGpuInstanceRemainingCapacity'' [0, 1, 2] False,
     Gen nvml ty_nvmlReturn_t ''nvmlDeviceCreateGpuInstance'' [ty_nvmlDevice_t, ty_unsigned_int, Ptr ty_nvmlGpuInstance_t]
       ''nvmlDeviceCreateGpuInstance'' ty_nvmlReturn_t [ty_nvmlDevice_t, ty_unsigned_int, Ptr ty_nvmlGpuInstance_t] ''nvmlDeviceCreateGpuInstance'' [0, 1, 2] False,
     Gen nvml ty_nvmlReturn_t ''nvmlDeviceCreateGpuInstanceWithPlacement'' [ty_nvmlDevice_t, ty_unsigned_int, Ptr (Const ty_nvmlGpuInstancePlacement_t), Ptr ty_nvmlGpuInstance_t]
       ''nvmlDeviceCreateGpuInstanceWithPlacement'' ty_nvmlReturn_t [ty_nvmlDevice_t, ty_unsigned_int, Ptr (Const ty_nvmlGpuInstancePlacement_t), Ptr ty_nvmlGpuInstance_t] ''nvmlDeviceCreateGpuInstanceWithPlacement'' [0, 1, 2, 3] False,
     Gen nvml ty_nvmlReturn_t ''nvmlGpuInstanceDestroy'' [ty_nvmlGpuInstance_t]
       ''nvmlGpuInstanceDestroy'' ty_nvmlReturn_t [ty_nvmlGpuInstance_t] ''nvmlGpuInstanceDestroy'' [0] False,
     Gen nvml ty_nvmlReturn_t ''nvmlDeviceGetGpuInstances'' [ty_nvmlDevice_t, ty_unsigned_int, Ptr ty_nvmlGpuInstance_t, Ptr ty_unsigned_int]
       ''nvmlDeviceGetGpuInstances'' ty_nvmlReturn_t [ty_nvmlDevice_t, ty_unsigned_int, Ptr ty_nvmlGpuInstance_t, Ptr ty_unsigned_int] ''nvmlDeviceGetGpuInstances'' [0, 1, 2, 3] False,
     Gen nvml ty_nvmlReturn_t ''nvmlDeviceGetGpuInstanceById'' [ty_nvmlDevice_t, ty_unsigned_int, Ptr ty_nvmlGpuInstance_t]
       ''nvmlDeviceGetGpuInstanceById'' ty_nvmlReturn_t [ty_nvmlDevice_t, ty_unsigned_int, Ptr ty_nvmlGpuInstance_t] ''nvmlDeviceGetGpuInstanceById'' [0, 1, 2] False,
     Gen nvml ty_nvmlReturn_t ''nvmlGpuInstanceGetInfo'' [ty_nvmlGpuInstance_t, Ptr ty_nvmlGpuInstanceInfo_t]
       ''nvmlGpuInstanceGetInfo'' ty_nvmlReturn_t [ty_nvmlGpuInstance_t, Ptr ty_nvmlGpuInstanceInfo_t] ''nvmlGpuInstanceGetInfo'' [0, 1] False,
     Gen nvml ty_nvmlReturn_t ''nvmlGpuInstanceGetComputeInstanceProfileInfo'' [ty_nvmlGpuInstance_t, ty_unsigned_int, ty_unsigned_int, Ptr ty_nvmlComputeInstanceProfileInfo_t]
       ''nvmlGpuInstanceGetComputeInstanceProfileInfo'' ty_nvmlReturn_t [ty_nvmlGpuInstance_t, ty_unsigned_int, ty_unsigned_int, Ptr ty_nvmlComputeInstanceProfileInfo_t] ''nvmlGpuInstanceGetComputeInstanceProfileInfo'' [0, 1, 2, 3] False,
     Gen nvml ty_nvmlReturn_t ''nvmlGpuInstanceGetComputeInstanceRemainingCapacity'' [ty_nvmlGpuInstance_t, ty_unsigned_int, Ptr ty_unsigned_int]
       ''nvmlGpuInstanceGetComputeInstanceRemainingCapacity'' ty_nvmlReturn_t [ty_nvmlGpuInstance_t, ty_unsigned_int, Ptr ty_unsigned_int] ''nvmlGpuInstanceGetComputeInstanceRemainingCapacity'' [0, 1, 2] False,
     Gen nvml ty_nvmlReturn_t ''nvmlGpuInstanceCreateComputeInstance'' [ty_nvmlGpuInstance_t, ty_unsigned_int, Ptr ty_nvmlComputeInstance_t]
       ''nvmlGpuInstanceCreateComputeInstance'' ty_nvmlReturn_t [ty_nvmlGpuInstance_t, ty_unsigned_int, Ptr ty_nvmlComputeInstance_t] ''nvmlGpuInstanceCreateComputeInstance'' [0, 1, 2] False,
     Gen nvml ty_nvmlReturn_t ''nvmlComputeInstanceDestroy'' [ty_nvmlComputeInstance_t]
       ''nvmlComputeInstanceDestroy'' ty_nvmlReturn_t [ty_nvmlComputeInstance_t] ''nvmlComputeInstanceDestroy'' [0] False,
     Gen nvml ty_nvmlReturn_t ''nvmlGpuInstanceGetComputeInstances'' [ty_nvmlGpuInstance_t, ty_unsigned_int, Ptr ty_nvmlComputeInstance_t, Ptr ty_unsigned_int]
       ''nvmlGpuInstanceGetComputeInstances'' ty_nvmlReturn_t [ty_nvmlGpuInstance_t, ty_unsigned_int, Ptr ty_nvmlComputeInstance_t, Ptr ty_unsigned_int] ''nvmlGpuInstanceGetComputeInstances'' [0, 1, 2, 3] False,
     Gen nvml ty_nvmlReturn_t ''nvmlGpuInstanceGetComputeInstanceById'' [ty_nvmlGpuInstance_t, ty_unsigned_int, Ptr ty_nvmlComputeInstance_t]
       ''nvmlGpuInstanceGetComputeInstanceById'' ty_nvmlReturn_t [ty_nvmlGpuInstance_t, ty_unsigned_int, Ptr ty_nvmlComputeInstance_t] ''nvmlGpuInstanceGetComputeInstanceById'' [0, 1, 2] False,
     Gen nvml ty_nvmlReturn_t ''nvmlComputeInstanceGetInfo_v2'' [ty_nvmlComputeInstance_t, Ptr ty_nvmlComputeInstanceInfo_t]
       ''nvmlComputeInstanceGetInfo_v2'' ty_nvmlReturn_t [ty_nvmlComputeInstance_t, Ptr ty_nvmlComputeInstanceInfo_t] ''nvmlComputeInstanceGetInfo_v2'' [0, 1] False]"

definition nvml_hooks_15 :: "gen_hook list" where
  "nvml_hooks_15 =
    [Gen nvml ty_nvmlReturn_t ''nvmlDeviceIsMigDeviceHandle'' [ty_nvmlDevice_t, Ptr ty_unsigned_int]
       ''nvmlDeviceIsMigDeviceHandle'' ty_nvmlReturn_t [ty_nvmlDevice_t, Ptr ty_unsigned_int] ''nvmlDeviceIsMigDeviceHandle'' [0, 1] False,
     Gen nvml ty_nvmlReturn_t ''nvmlDeviceGetGpuInstanceId'' [ty_nvmlDevice_t, Ptr ty_unsigned_int]
       ''nvmlDeviceGetGpuInstanceId'' ty_nvmlReturn_t [ty_nvmlDevice_t, Ptr ty_unsigned_int] ''nvmlDeviceGetGpuInstanceId'' [0, 1] False,
     Gen nvml ty_nvmlReturn_t ''nvmlDeviceGetComputeInstanceId'' [ty_nvmlDevice_t, Ptr ty_unsigned_int]
       ''nvmlDeviceGetComputeInstanceId'' ty_nvmlReturn_t [ty_nvmlDevice_t, Ptr ty_unsigned_int] ''nvmlDeviceGetComputeInstanceId'' [0, 1] False,
     Gen nvml ty_nvmlReturn_t ''nvmlDeviceGetMaxMigDeviceCount'' [ty_nvmlDevice_t, Ptr ty_unsigned_int]
       ''nvmlDeviceGetMaxMigDeviceCount'' ty_nvmlReturn_t [ty_nvmlDevice_t, Ptr ty_unsigned_int] ''nvmlDeviceGetMaxMigDeviceCount'' [0, 1] False,
     Gen nvml ty_nvmlReturn_t ''nvmlDeviceGetMigDeviceHandleByIndex'' [ty_nvmlDevice_t, ty_unsigned_int, Ptr ty_nvmlDevice_t]
       ''nvmlDeviceGetMigDeviceHandleByIndex'' ty_nvmlReturn_t [ty_nvmlDevice_t, ty_unsigned_int, Ptr ty_nvmlDevice_t] ''nvmlDeviceGetMigDeviceHandleByIndex'' [0, 1, 2] False,
     Gen nvml ty_nvmlReturn_t ''nvmlDeviceGetDeviceHandleFromMigDeviceHandle'' [ty_nvmlDevice_t, Ptr ty_nvmlDevice_t]
       ''nvmlDeviceGetDeviceHandleFromMigDeviceHandle'' ty_nvmlReturn_t [ty_nvmlDevice_t, Ptr ty_nvmlDevice_t] ''nvmlDeviceGetDeviceHandleFromMigDeviceHandle'' [0, 1] False,
     Gen nvml ty_nvmlReturn_t ''nvmlInit'' []
       ''nvmlInit'' ty_nvmlReturn_t [] ''nvmlInit'' [] False,
     Gen nvml ty_nvmlReturn_t ''nvmlDeviceGetCount'' [Ptr ty_unsigned_int]
       ''nvmlDeviceGetCount'' ty_nvmlReturn_t [Ptr ty_unsigned_int] ''nvmlDeviceGetCount'' [0] False,
     Gen nvml ty_nvmlReturn_t ''nvmlDeviceGetHandleByIndex'' [ty_unsigned_int, Ptr ty_nvmlDevice_t]
       ''nvmlDeviceGetHandleByIndex'' ty_nvmlReturn_t [ty_unsigned_int, Ptr ty_nvmlDevice_t] ''nvmlDeviceGetHandleByIndex'' [0, 1] False,
     Gen nvml ty_nvmlReturn_t ''nvmlDeviceGetHandleByPciBusId'' [Ptr (Const ty_char), Ptr ty_nvmlDevice_t]
       ''nvmlDeviceGetHandleByPciBusId'' ty_nvmlReturn_t [Ptr (Const ty_char), Ptr ty_nvmlDevice_t] ''nvmlDeviceGetHandleByPciBusId'' [0, 1] False,
     Gen nvml ty_nvmlReturn_t ''nvmlDeviceGetPciInfo'' [ty_nvmlDevice_t, Ptr ty_nvmlPciInfo_t]
       ''nvmlDeviceGetPciInfo'' ty_nvmlReturn_t [ty_nvmlDevice_t, Ptr ty_nvmlPciInfo_t] ''nvmlDeviceGetPciInfo'' [0, 1] False,
     Gen nvml ty_nvmlReturn_t ''nvmlDeviceGetPciInfo_v2'' [ty_nvmlDevice_t, Ptr ty_nvmlPciInfo_t]
       ''nvmlDeviceGetPciInfo_v2'' ty_nvmlReturn_t [ty_nvmlDevice_t, Ptr ty_nvmlPciInfo_t] ''nvmlDeviceGetPciInfo_v2'' [0, 1] False,
     Gen nvml ty_nvmlReturn_t ''nvmlDeviceGetNvLinkRemotePciInfo'' [ty_nvmlDevice_t, ty_unsigned_int, Ptr ty_nvmlPciInfo_t]
       ''nvmlDeviceGetNvLinkRemotePciInfo'' ty_nvmlReturn_t [ty_nvmlDevice_t, ty_unsigned_int, Ptr ty_nvmlPciInfo_t] ''nvmlDeviceGetNvLinkRemotePciInfo'' [0, 1, 2] False,
     Gen nvml ty_nvmlReturn_t ''nvmlDeviceGetGridLicensableFeatures'' [ty_nvmlDevice_t, Ptr ty_nvmlGridLicensableFeatures_t]
       ''nvmlDeviceGetGridLicensableFeatures'' ty_nvmlReturn_t [ty_nvmlDevice_t, Ptr ty_nvmlGridLicensableFeatures_t] ''nvmlDeviceGetGridLicensableFeatures'' [0, 1] False,
     Gen nvml ty_nvmlReturn_t ''nvmlDeviceGetGridLicensableFeatures_v2'' [ty_nvmlDevice_t, Ptr ty_nvmlGridLicensableFeatures_t]
       ''nvmlDeviceGetGridLicensableFeatures_v2'' ty_nvmlReturn_t [ty_nvmlDevice_t, Ptr ty_nvmlGridLicensableFeatures_t] ''nvmlDeviceGetGridLicensableFeatures_v2'' [0, 1] False,
     Gen nvml ty_nvmlReturn_t ''nvmlDeviceGetGridLicensableFeatures_v3'' [ty_nvmlDevice_t, Ptr ty_nvmlGridLicensableFeatures_t]
       ''nvmlDeviceGetGridLicensableFeatures_v3'' ty_nvmlReturn_t [ty_nvmlDevice_t, Ptr ty_nvmlGridLicensableFeatures_t] ''nvmlDeviceGetGridLicensableFeatures_v3'' [0, 1] False,
     Gen nvml ty_nvmlReturn_t ''nvmlDeviceRemoveGpu'' [Ptr ty_nvmlPciInfo_t]
       ''nvmlDeviceRemoveGpu'' ty_nvmlReturn_t [Ptr ty_nvmlPciInfo_t] ''nvmlDeviceRemoveGpu'' [0] False]"

definition nvml_hooks_16 :: "gen_hook list" where
  "nvml_hooks_16 =
    [Gen nvml ty_nvmlReturn_t ''nvmlEventSetWait'' [ty_nvmlEventSet_t, Ptr ty_nvmlEventData_t, ty_unsigned_int]
       ''nvmlEventSetWait'' ty_nvmlReturn_t [ty_nvmlEventSet_t, Ptr ty_nvmlEventData_t, ty_unsigned_int] ''nvmlEventSetWait'' [0, 1, 2] False,
     Gen nvml ty_nvmlReturn_t ''nvmlDeviceGetAttributes'' [ty_nvmlDevice_t, Ptr ty_nvmlDeviceAttributes_t]
       ''nvmlDeviceGetAttributes'' ty_nvmlReturn_t [ty_nvmlDevice_t, Ptr ty_nvmlDeviceAttributes_t] ''nvmlDeviceGetAttributes'' [0, 1] False,
     Gen nvml ty_nvmlReturn_t ''nvmlComputeInstanceGetInfo'' [ty_nvmlComputeInstance_t, Ptr ty_nvmlComputeInstanceInfo_t]
       ''nvmlComputeInstanceGetInfo'' ty_nvmlReturn_t [ty_nvmlComputeInstance_t, Ptr ty_nvmlComputeInstanceInfo_t] ''nvmlComputeInstanceGetInfo'' [0, 1] False,
     Gen nvml ty_nvmlReturn_t ''nvmlDeviceGetComputeRunningProcesses'' [ty_nvmlDevice_t, Ptr ty_unsigned_int, Ptr ty_nvmlProcessInfo_v1_t]
       ''nvmlDeviceGetComputeRunningProcesses'' ty_nvmlReturn_t [ty_nvmlDevice_t, Ptr ty_unsigned_int, Ptr ty_nvmlProcessInfo_v1_t] ''nvmlDeviceGetComputeRunningProcesses'' [0, 1, 2] False,
     Gen nvml ty_nvmlReturn_t ''nvmlDeviceGetGraphicsRunningProcesses'' [ty_nvmlDevice_t, Ptr ty_unsigned_int, Ptr ty_nvmlProcessInfo_v1_t]
       ''nvmlDeviceGetGraphicsRunningProcesses'' ty_nvmlReturn_t [ty_nvmlDevice_t, Ptr ty_unsigned_int, Ptr ty_nvmlProcessInfo_v1_t] ''nvmlDeviceGetGraphicsRunningProcesses'' [0, 1, 2] False,
     Gen nvml ty_nvmlReturn_t ''nvmlDeviceGetMPSComputeRunningProcesses'' [ty_nvmlDevice_t, Ptr ty_unsigned_int, Ptr ty_nvmlProcessInfo_v1_t]
       ''nvmlDeviceGetMPSComputeRunningProcesses'' ty_nvmlReturn_t [ty_nvmlDevice_t, Ptr ty_unsigned_int, Ptr ty_nvmlProcessInfo_v1_t] ''nvmlDeviceGetMPSComputeRunningProcesses'' [0, 1, 2] False,
     Gen nvml ty_nvmlReturn_t ''nvmlDeviceGetGpuInstancePossiblePlacements'' [ty_nvmlDevice_t, ty_unsigned_int, Ptr ty_nvmlGpuInstancePlacement_t, Ptr ty_unsigned_int]
       ''nvmlDeviceGetGpuInstancePossiblePlacements'' ty_nvmlReturn_t [ty_nvmlDevice_t, ty_unsigned_int, Ptr ty_nvmlGpuInstancePlacement_t, Ptr ty_unsigned_int] ''nvmlDeviceGetGpuInstancePossiblePlacements'' [0, 1, 2, 3] False]"

section \<open>All are instances of the template\<close>

lemma nvml_hooks_1_ok: "list_all instance_of_template nvml_hooks_1"
  by (simp add: nvml_hooks_1_def instance_of_template_def)

lemma nvml_hooks_2_ok: "list_all instance_of_template nvml_hooks_2"
  by (simp add: nvml_hooks_2_def instance_of_template_def)

lemma nvml_hooks_3_ok: "list_all instance_of_template nvml_hooks_3"
  by (simp add: nvml_hooks_3_def instance_of_template_def)

lemma nvml_hooks_4_ok: "list_all instance_of_template nvml_hooks_4"
  by (simp add: nvml_hooks_4_def instance_of_template_def)

lemma nvml_hooks_5_ok: "list_all instance_of_template nvml_hooks_5"
  by (simp add: nvml_hooks_5_def instance_of_template_def)

lemma nvml_hooks_6_ok: "list_all instance_of_template nvml_hooks_6"
  by (simp add: nvml_hooks_6_def instance_of_template_def)

lemma nvml_hooks_7_ok: "list_all instance_of_template nvml_hooks_7"
  by (simp add: nvml_hooks_7_def instance_of_template_def)

lemma nvml_hooks_8_ok: "list_all instance_of_template nvml_hooks_8"
  by (simp add: nvml_hooks_8_def instance_of_template_def)

lemma nvml_hooks_9_ok: "list_all instance_of_template nvml_hooks_9"
  by (simp add: nvml_hooks_9_def instance_of_template_def)

lemma nvml_hooks_10_ok: "list_all instance_of_template nvml_hooks_10"
  by (simp add: nvml_hooks_10_def instance_of_template_def)

lemma nvml_hooks_11_ok: "list_all instance_of_template nvml_hooks_11"
  by (simp add: nvml_hooks_11_def instance_of_template_def)

lemma nvml_hooks_12_ok: "list_all instance_of_template nvml_hooks_12"
  by (simp add: nvml_hooks_12_def instance_of_template_def)

lemma nvml_hooks_13_ok: "list_all instance_of_template nvml_hooks_13"
  by (simp add: nvml_hooks_13_def instance_of_template_def)

lemma nvml_hooks_14_ok: "list_all instance_of_template nvml_hooks_14"
  by (simp add: nvml_hooks_14_def instance_of_template_def)

lemma nvml_hooks_15_ok: "list_all instance_of_template nvml_hooks_15"
  by (simp add: nvml_hooks_15_def instance_of_template_def)

lemma nvml_hooks_16_ok: "list_all instance_of_template nvml_hooks_16"
  by (simp add: nvml_hooks_16_def instance_of_template_def)

definition nvml_hooks :: "gen_hook list" where
  "nvml_hooks = concat
    [nvml_hooks_1, nvml_hooks_2, nvml_hooks_3, nvml_hooks_4,
     nvml_hooks_5, nvml_hooks_6, nvml_hooks_7, nvml_hooks_8,
     nvml_hooks_9, nvml_hooks_10, nvml_hooks_11, nvml_hooks_12,
     nvml_hooks_13, nvml_hooks_14, nvml_hooks_15, nvml_hooks_16]"

lemma nvml_hooks_ok: "list_all instance_of_template nvml_hooks"
  by (simp add: nvml_hooks_def nvml_hooks_1_ok nvml_hooks_2_ok nvml_hooks_3_ok nvml_hooks_4_ok nvml_hooks_5_ok
      nvml_hooks_6_ok nvml_hooks_7_ok nvml_hooks_8_ok nvml_hooks_9_ok nvml_hooks_10_ok
      nvml_hooks_11_ok nvml_hooks_12_ok nvml_hooks_13_ok nvml_hooks_14_ok nvml_hooks_15_ok
      nvml_hooks_16_ok)

end
