(* ===== verification/Hooks_Media.thy ===== *)
theory Hooks_Media
  imports Hook_Gen
begin

text \<open>
  The generated functions of \<open>src/cufft/cufft_hook.cpp\<close>, \<open>src/curand/curand_hook.cpp\<close>, \<open>src/nvblas/nvblas_hook.cpp\<close>, \<open>src/nvjpeg/nvjpeg_hook.cpp\<close>, \<open>src/nvrtc/nvrtc_hook.cpp\<close>, \<open>src/nvtx/nvtx_hook.cpp\<close>, in the order of the files.
\<close>

section \<open>Types\<close>

definition ty_cufftResult :: cty where "ty_cufftResult = Named ''cufftResult''"
definition ty_cufftHandle :: cty where "ty_cufftHandle = Named ''cufftHandle''"
definition ty_cufftType :: cty where "ty_cufftType = Named ''cufftType''"
definition ty_cufftComplex :: cty where "ty_cufftComplex = Named ''cufftComplex''"
definition ty_cufftReal :: cty where "ty_cufftReal = Named ''cufftReal''"
definition ty_cufftDoubleComplex :: cty where "ty_cufftDoubleComplex = Named ''cufftDoubleComplex''"
definition ty_cufftDoubleReal :: cty where "ty_cufftDoubleReal = Named ''cufftDoubleReal''"
definition ty_cudaLibXtDesc :: cty where "ty_cudaLibXtDesc = Named ''cudaLibXtDesc''"
definition ty_cufftXtSubFormat :: cty where "ty_cufftXtSubFormat = Named ''cufftXtSubFormat''"
definition ty_cufftXtCopyType :: cty where "ty_cufftXtCopyType = Named ''cufftXtCopyType''"
definition ty_cufftXtQueryType :: cty where "ty_cufftXtQueryType = Named ''cufftXtQueryType''"
definition ty_cufftXtCallbackType :: cty where "ty_cufftXtCallbackType = Named ''cufftXtCallbackType''"
definition ty_cufftXtWorkAreaPolicy :: cty where "ty_cufftXtWorkAreaPolicy = Named ''cufftXtWorkAreaPolicy''"
definition ty_curandStatus_t :: cty where "ty_curandStatus_t = Named ''curandStatus_t''"
definition ty_curandGenerator_t :: cty where "ty_curandGenerator_t = Named ''curandGenerator_t''"
definition ty_curandRngType_t :: cty where "ty_curandRngType_t = Named ''curandRngType_t''"
definition ty_curandOrdering_t :: cty where "ty_curandOrdering_t = Named ''curandOrdering_t''"
definition ty_curandDiscreteDistribution_t :: cty where "ty_curandDiscreteDistribution_t = Named ''curandDiscreteDistribution_t''"
definition ty_curandMethod_t :: cty where "ty_curandMethod_t = Named ''curandMethod_t''"
definition ty_curandDirectionVectors32_t :: cty where "ty_curandDirectionVectors32_t = Named ''curandDirectionVectors32_t''"
definition ty_curandDirectionVectorSet_t :: cty where "ty_curandDirectionVectorSet_t = Named ''curandDirectionVectorSet_t''"
definition ty_curandDirectionVectors64_t :: cty where "ty_curandDirectionVectors64_t = Named ''curandDirectionVectors64_t''"
definition ty_nvjpegStatus_t :: cty where "ty_nvjpegStatus_t = Named ''nvjpegStatus_t''"
definition ty_nvjpegBackend_t :: cty where "ty_nvjpegBackend_t = Named ''nvjpegBackend_t''"
definition ty_nvjpegDevAllocator_t :: cty where "ty_nvjpegDevAllocator_t = Named ''nvjpegDevAllocator_t''"
definition ty_nvjpegHandle_t :: cty where "ty_nvjpegHandle_t = Named ''nvjpegHandle_t''"
definition ty_nvjpegPinnedAllocator_t :: cty where "ty_nvjpegPinnedAllocator_t = Named ''nvjpegPinnedAllocator_t''"
definition ty_nvjpegJpegState_t :: cty where "ty_nvjpegJpegState_t = Named ''nvjpegJpegState_t''"
definition ty_nvjpegChromaSubsampling_t :: cty where "ty_nvjpegChromaSubsampling_t = Named ''nvjpegChromaSubsampling_t''"
definition ty_nvjpegOutputFormat_t :: cty where "ty_nvjpegOutputFormat_t = Named ''nvjpegOutputFormat_t''"
definition ty_nvjpegImage_t :: cty where "ty_nvjpegImage_t = Named ''nvjpegImage_t''"
definition ty_nvjpegEncoderState_t :: cty where "ty_nvjpegEncoderState_t = Named ''nvjpegEncoderState_t''"
definition ty_nvjpegEncoderParams_t :: cty where "ty_nvjpegEncoderParams_t = Named ''nvjpegEncoderParams_t''"
definition ty_nvjpegJpegEncoding_t :: cty where "ty_nvjpegJpegEncoding_t = Named ''nvjpegJpegEncoding_t''"
definition ty_nvjpegInputFormat_t :: cty where "ty_nvjpegInputFormat_t = Named ''nvjpegInputFormat_t''"
definition ty_nvjpegBufferPinned_t :: cty where "ty_nvjpegBufferPinned_t = Named ''nvjpegBufferPinned_t''"
definition ty_nvjpegBufferDevice_t :: cty where "ty_nvjpegBufferDevice_t = Named ''nvjpegBufferDevice_t''"
definition ty_nvjpegJpegStream_t :: cty where "ty_nvjpegJpegStream_t = Named ''nvjpegJpegStream_t''"
definition ty_nvjpegDecodeParams_t :: cty where "ty_nvjpegDecodeParams_t = Named ''nvjpegDecodeParams_t''"
definition ty_nvjpegScaleFactor_t :: cty where "ty_nvjpegScaleFactor_t = Named ''nvjpegScaleFactor_t''"
definition ty_nvjpegJpegDecoder_t :: cty where "ty_nvjpegJpegDecoder_t = Named ''nvjpegJpegDecoder_t''"
definition ty_nvrtcResult :: cty where "ty_nvrtcResult = Named ''nvrtcResult''"
definition ty_nvrtcProgram :: cty where "ty_nvrtcProgram = Named ''nvrtcProgram''"
definition ty_std_type_info :: cty where "ty_std_type_info = Named ''std::type_info &''"
definition ty_std_string :: cty where "ty_std_string = Named ''std::string''"
definition ty_nvtxInitializationAttributes_t :: cty where "ty_nvtxInitializationAttributes_t = Named ''nvtxInitializationAttributes_t''"
definition ty_nvtxDomainHandle_t :: cty where "ty_nvtxDomainHandle_t = Named ''nvtxDomainHandle_t''"
definition ty_nvtxEventAttributes_t :: cty where "ty_nvtxEventAttributes_t = Named ''nvtxEventAttributes_t''"
definition ty_wchar_t :: cty where "ty_wchar_t = Named ''wchar_t''"
definition ty_nvtxRangeId_t :: cty where "ty_nvtxRangeId_t = Named ''nvtxRangeId_t''"
definition ty_nvtxResourceHandle_t :: cty where "ty_nvtxResourceHandle_t = Named ''nvtxResourceHandle_t''"
definition ty_nvtxResourceAttributes_t :: cty where "ty_nvtxResourceAttributes_t = Named ''nvtxResourceAttributes_t''"
definition ty_nvtxStringHandle_t :: cty where "ty_nvtxStringHandle_t = Named ''nvtxStringHandle_t''"
definition ty_cl_device_id :: cty where "ty_cl_device_id = Named ''cl_device_id''"
definition ty_cl_context :: cty where "ty_cl_context = Named ''cl_context''"
definition ty_cl_command_queue :: cty where "ty_cl_command_queue = Named ''cl_command_queue''"
definition ty_cl_mem :: cty where "ty_cl_mem = Named ''cl_mem''"
definition ty_cl_sampler :: cty where "ty_cl_sampler = Named ''cl_sampler''"
definition ty_cl_program :: cty where "ty_cl_program = Named ''cl_program''"
definition ty_cl_event :: cty where "ty_cl_event = Named ''cl_event''"
definition ty_nvtxSyncUser_t :: cty where "ty_nvtxSyncUser_t = Named ''nvtxSyncUser_t''"
definition ty_nvtxSyncUserAttributes_t :: cty where "ty_nvtxSyncUserAttributes_t = Named ''nvtxSyncUserAttributes_t''"

section \<open>\<open>cufft\<close>\<close>

definition cufft_hooks_1 :: "gen_hook list" where
  "cufft_hooks_1 =
    [Gen cufft ty_cufftResult ''cufftPlan1d'' [Ptr ty_cufftHandle, ty_int, ty_cufftType, ty_int]
       ''cufftPlan1d'' ty_cufftResult [Ptr ty_cufftHandle, ty_int, ty_cufftType, ty_int] ''cufftPlan1d'' [0, 1, 2, 3] False,
     Gen cufft ty_cufftResult ''cufftPlan2d'' [Ptr ty_cufftHandle, ty_int, ty_int, ty_cufftType]
       ''cufftPlan2d'' ty_cufftResult [Ptr ty_cufftHandle, ty_int, ty_int, ty_cufftType] ''cufftPlan2d'' [0, 1, 2, 3] False,
     Gen cufft ty_cufftResult ''cufftPlan3d'' [Ptr ty_cufftHandle, ty_int, ty_int, ty_int, ty_cufftType]
       ''cufftPlan3d'' ty_cufftResult [Ptr ty_cufftHandle, ty_int, ty_int, ty_int, ty_cufftType] ''cufftPlan3d'' [0, 1, 2, 3, 4] False,
     Gen cufft ty_cufftResult ''cufftPlanMany'' [Ptr ty_cufftHandle, ty_int, Ptr ty_int, Ptr ty_int, ty_int, ty_int, Ptr ty_int, ty_int, ty_int, ty_cufftType, ty_int]
       ''cufftPlanMany'' ty_cufftResult [Ptr ty_cufftHandle, ty_int, Ptr ty_int, Ptr ty_int, ty_int, ty_int, Ptr ty_int, ty_int, ty_int, ty_cufftType, ty_int] ''cufftPlanMany'' [0, 1, 2, 3, 4, 5, 6, 7, 8, 9, 10] False,
     Gen cufft ty_cufftResult ''cufftMakePlan1d'' [ty_cufftHandle, ty_int, ty_cufftType, ty_int, Ptr ty_size_t]
       ''cufftMakePlan1d'' ty_cufftResult [ty_cufftHandle, ty_int, ty_cufftType, ty_int, Ptr ty_size_t] ''cufftMakePlan1d'' [0, 1, 2, 3, 4] False,
     Gen cufft ty_cufftResult ''cufftMakePlan2d'' [ty_cufftHandle, ty_int, ty_int, ty_cufftType, Ptr ty_size_t]
       ''cufftMakePlan2d'' ty_cufftResult [ty_cufftHandle, ty_int, ty_int, ty_cufftType, Ptr ty_size_t] ''cufftMakePlan2d'' [0, 1, 2, 3, 4] False,
     Gen cufft ty_cufftResult ''cufftMakePlan3d'' [ty_cufftHandle, ty_int, ty_int, ty_int, ty_cufftType, Ptr ty_size_t]
       ''cufftMakePlan3d'' ty_cufftResult [ty_cufftHandle, ty_int, ty_int, ty_int, ty_cufftType, Ptr ty_size_t] ''cufftMakePlan3d'' [0, 1, 2, 3, 4, 5] False,
     Gen cufft ty_cufftResult ''cufftMakePlanMany'' [ty_cufftHandle, ty_int, Ptr ty_int, Ptr ty_int, ty_int, ty_int, Ptr ty_int, ty_int, ty_int, ty_cufftType, ty_int, Ptr ty_size_t]
       ''cufftMakePlanMany'' ty_cufftResult [ty_cufftHandle, ty_int, Ptr ty_int, Ptr ty_int, ty_int, ty_int, Ptr ty_int, ty_int, ty_int, ty_cufftType, ty_int, Ptr ty_size_t] ''cufftMakePlanMany'' [0, 1, 2, 3, 4, 5, 6, 7, 8, 9, 10, 11] False,
     Gen cufft ty_cufftResult ''cufftMakePlanMany64'' [ty_cufftHandle, ty_int, Ptr ty_long_long_int, Ptr ty_long_long_int, ty_long_long_int, ty_long_long_int, Ptr ty_long_long_int, ty_long_long_int, ty_long_long_int, ty_cufftType, ty_long_long_int, Ptr ty_size_t]
       ''cufftMakePlanMany64'' ty_cufftResult [ty_cufftHandle, ty_int, Ptr ty_long_long_int, Ptr ty_long_long_int, ty_long_long_int, ty_long_long_int, Ptr ty_long_long_int, ty_long_long_int, ty_long_long_int, ty_cufftType, ty_long_long_int, Ptr ty_size_t] ''cufftMakePlanMany64'' [0, 1, 2, 3, 4, 5, 6, 7, 8, 9, 10, 11] False,
     Gen cufft ty_cufftResult ''cufftGetSizeMany64'' [ty_cufftHandle, ty_int, Ptr ty_long_long_int, Ptr ty_long_long_int, ty_long_long_int, ty_long_long_int, Ptr ty_long_long_int, ty_long_long_int, ty_long_long_int, ty_cufftType, ty_long_long_int, Ptr ty_size_t]
       ''cufftGetSizeMany64'' ty_cufftResult [ty_cufftHandle, ty_int, Ptr ty_long_long_int, Ptr ty_long_long_int, ty_long_long_int, ty_long_long_int, Ptr ty_long_long_int, ty_long_long_int, ty_long_long_int, ty_cufftType, ty_long_long_int, Ptr ty_size_t] ''cufftGetSizeMany64'' [0, 1, 2, 3, 4, 5, 6, 7, 8, 9, 10, 11] False,
     Gen cufft ty_cufftResult ''cufftEstimate1d'' [ty_int, ty_cufftType, ty_int, Ptr ty_size_t]
       ''cufftEstimate1d'' ty_cufftResult [ty_int, ty_cufftType, ty_int, Ptr ty_size_t] ''cufftEstimate1d'' [0, 1, 2, 3] False,
     Gen cufft ty_cufftResult ''cufftEstimate2d'' [ty_int, ty_int, ty_cufftType, Ptr ty_size_t]
       ''cufftEstimate2d'' ty_cufftResult [ty_int, ty_int, ty_cufftType, Ptr ty_size_t] ''cufftEstimate2d'' [0, 1, 2, 3] False,
     Gen cufft ty_cufftResult ''cufftEstimate3d'' [ty_int, ty_int, ty_int, ty_cufftType, Ptr ty_size_t]
       ''cufftEstimate3d'' ty_cufftResult [ty_int, ty_int, ty_int, ty_cufftType, Ptr ty_size_t] ''cufftEstimate3d'' [0, 1, 2, 3, 4] False,
     Gen cufft ty_cufftResult ''cufftEstimateMany'' [ty_int, Ptr ty_int, Ptr ty_int, ty_int, ty_int, Ptr ty_int, ty_int, ty_int, ty_cufftType, ty_int, Ptr ty_size_t]
       ''cufftEstimateMany'' ty_cufftResult [ty_int, Ptr ty_int, Ptr ty_int, ty_int, ty_int, Ptr ty_int, ty_int, ty_int, ty_cufftType, ty_int, Ptr ty_size_t] ''cufftEstimateMany'' [0, 1, 2, 3, 4, 5, 6, 7, 8, 9, 10] False,
     Gen cufft ty_cufftResult ''cufftCreate'' [Ptr ty_cufftHandle]
       ''cufftCreate'' ty_cufftResult [Ptr ty_cufftHandle] ''cufftCreate'' [0] False,
     Gen cufft ty_cufftResult ''cufftGetSize1d'' [ty_cufftHandle, ty_int, ty_cufftType, ty_int, Ptr ty_size_t]
       ''cufftGetSize1d'' ty_cufftResult [ty_cufftHandle, ty_int, ty_cufftType, ty_int, Ptr ty_size_t] ''cufftGetSize1d'' [0, 1, 2, 3, 4] False]"

definition cufft_hooks_2 :: "gen_hook list" where
  "cufft_hooks_2 =
    [Gen cufft ty_cufftResult ''cufftGetSize2d'' [ty_cufftHandle, ty_int, ty_int, ty_cufftType, Ptr ty_size_t]
       ''cufftGetSize2d'' ty_cufftResult [ty_cufftHandle, ty_int, ty_int, ty_cufftType, Ptr ty_size_t] ''cufftGetSize2d'' [0, 1, 2, 3, 4] False,
     Gen cufft ty_cufftResult ''cufftGetSize3d'' [ty_cufftHandle, ty_int, ty_int, ty_int, ty_cufftType, Ptr ty_size_t]
       ''cufftGetSize3d'' ty_cufftResult [ty_cufftHandle, ty_int, ty_int, ty_int, ty_cufftType, Ptr ty_size_t] ''cufftGetSize3d'' [0, 1, 2, 3, 4, 5] False,
     Gen cufft ty_cufftResult ''cufftGetSizeMany'' [ty_cufftHandle, ty_int, Ptr ty_int, Ptr ty_int, ty_int, ty_int, Ptr ty_int, ty_int, ty_int, ty_cufftType, ty_int, Ptr ty_size_t]
       ''cufftGetSizeMany'' ty_cufftResult [ty_cufftHandle, ty_int, Ptr ty_int, Ptr ty_int, ty_int, ty_int, Ptr ty_int, ty_int, ty_int, ty_cufftType, ty_int, Ptr ty_size_t] ''cufftGetSizeMany'' [0, 1, 2, 3, 4, 5, 6, 7, 8, 9, 10, 11] False,
     Gen cufft ty_cufftResult ''cufftGetSize'' [ty_cufftHandle, Ptr ty_size_t]
       ''cufftGetSize'' ty_cufftResult [ty_cufftHandle, Ptr ty_size_t] ''cufftGetSize'' [0, 1] False,
     Gen cufft ty_cufftResult ''cufftSetWorkArea'' [ty_cufftHandle, Ptr ty_void]
       ''cufftSetWorkArea'' ty_cufftResult [ty_cufftHandle, Ptr ty_void] ''cufftSetWorkArea'' [0, 1] False,
     Gen cufft ty_cufftResult ''cufftSetAutoAllocation'' [ty_cufftHandle, ty_int]
       ''cufftSetAutoAllocation'' ty_cufftResult [ty_cufftHandle, ty_int] ''cufftSetAutoAllocation'' [0, 1] False,
     Gen cufft ty_cufftResult ''cufftExecC2C'' [ty_cufftHandle, Ptr ty_cufftComplex, Ptr ty_cufftComplex, ty_int]
       ''cufftExecC2C'' ty_cufftResult [ty_cufftHandle, Ptr ty_cufftComplex, Ptr ty_cufftComplex, ty_int] ''cufftExecC2C'' [0, 1, 2, 3] False,
     Gen cufft ty_cufftResult ''cufftExecR2C'' [ty_cufftHandle, Ptr ty_cufftReal, Ptr ty_cufftComplex]
       ''cufftExecR2C'' ty_cufftResult [ty_cufftHandle, Ptr ty_cufftReal, Ptr ty_cufftComplex] ''cufftExecR2C'' [0, 1, 2] False,
     Gen cufft ty_cufftResult ''cufftExecC2R'' [ty_cufftHandle, Ptr ty_cufftComplex, Ptr ty_cufftReal]
       ''cufftExecC2R'' ty_cufftResult [ty_cufftHandle, Ptr ty_cufftComplex, Ptr ty_cufftReal] ''cufftExecC2R'' [0, 1, 2] False,
     Gen cufft ty_cufftResult ''cufftExecZ2Z'' [ty_cufftHandle, Ptr ty_cufftDoubleComplex, Ptr ty_cufftDoubleComplex, ty_int]
       ''cufftExecZ2Z'' ty_cufftResult [ty_cufftHandle, Ptr ty_cufftDoubleComplex, Ptr ty_cufftDoubleComplex, ty_int] ''cufftExecZ2Z'' [0, 1, 2, 3] False,
     Gen cufft ty_cufftResult ''cufftExecD2Z'' [ty_cufftHandle, Ptr ty_cufftDoubleReal, Ptr ty_cufftDoubleComplex]
       ''cufftExecD2Z'' ty_cufftResult [ty_cufftHandle, Ptr ty_cufftDoubleReal, Ptr ty_cufftDoubleComplex] ''cufftExecD2Z'' [0, 1, 2] False,
     Gen cufft ty_cufftResult ''cufftExecZ2D'' [ty_cufftHandle, Ptr ty_cufftDoubleComplex, Ptr ty_cufftDoubleReal]
       ''cufftExecZ2D'' ty_cufftResult [ty_cufftHandle, Ptr ty_cufftDoubleComplex, Ptr ty_cufftDoubleReal] ''cufftExecZ2D'' [0, 1, 2] False,
     Gen cufft ty_cufftResult ''cufftSetStream'' [ty_cufftHandle, ty_cudaStream_t]
       ''cufftSetStream'' ty_cufftResult [ty_cufftHandle, ty_cudaStream_t] ''cufftSetStream'' [0, 1] False,
     Gen cufft ty_cufftResult ''cufftDestroy'' [ty_cufftHandle]
       ''cufftDestroy'' ty_cufftResult [ty_cufftHandle] ''cufftDestroy'' [0] False,
     Gen cufft ty_cufftResult ''cufftGetVersion'' [Ptr ty_int]
       ''cufftGetVersion'' ty_cufftResult [Ptr ty_int] ''cufftGetVersion'' [0] False,
     Gen cufft ty_cufftResult ''cufftGetProperty'' [ty_libraryPropertyType, Ptr ty_int]
       ''cufftGetProperty'' ty_cufftResult [ty_libraryPropertyType, Ptr ty_int] ''cufftGetProperty'' [0, 1] False,
     Gen cufft ty_cufftResult ''cufftXtSetGPUs'' [ty_cufftHandle, ty_int, Ptr ty_int]
       ''cufftXtSetGPUs'' ty_cufftResult [ty_cufftHandle, ty_int, Ptr ty_int] ''cufftXtSetGPUs'' [0, 1, 2] False]"

definition cufft_hooks_3 :: "gen_hook list" where
  "cufft_hooks_3 =
    [Gen cufft ty_cufftResult ''cufftXtMalloc'' [ty_cufftHandle, Ptr (Ptr ty_cudaLibXtDesc), ty_cufftXtSubFormat]
       ''cufftXtMalloc'' ty_cufftResult [ty_cufftHandle, Ptr (Ptr ty_cudaLibXtDesc), ty_cufftXtSubFormat] ''cufftXtMalloc'' [0, 1, 2] False,
     Gen cufft ty_cufftResult ''cufftXtMemcpy'' [ty_cufftHandle, Ptr ty_void, Ptr ty_void, ty_cufftXtCopyType]
       ''cufftXtMemcpy'' ty_cufftResult [ty_cufftHandle, Ptr ty_void, Ptr ty_void, ty_cufftXtCopyType] ''cufftXtMemcpy'' [0, 1, 2, 3] False,
     Gen cufft ty_cufftResult ''cufftXtFree'' [Ptr ty_cudaLibXtDesc]
       ''cufftXtFree'' ty_cufftResult [Ptr ty_cudaLibXtDesc] ''cufftXtFree'' [0] False,
     Gen cufft ty_cufftResult ''cufftXtSetWorkArea'' [ty_cufftHandle, Ptr (Ptr ty_void)]
       ''cufftXtSetWorkArea'' ty_cufftResult [ty_cufftHandle, Ptr (Ptr ty_void)] ''cufftXtSetWorkArea'' [0, 1] False,
     Gen cufft ty_cufftResult ''cufftXtExecDescriptorC2C'' [ty_cufftHandle, Ptr ty_cudaLibXtDesc, Ptr ty_cudaLibXtDesc, ty_int]
       ''cufftXtExecDescriptorC2C'' ty_cufftResult [ty_cufftHandle, Ptr ty_cudaLibXtDesc, Ptr ty_cudaLibXtDesc, ty_int] ''cufftXtExecDescriptorC2C'' [0, 1, 2, 3] False,
     Gen cufft ty_cufftResult ''cufftXtExecDescriptorR2C'' [ty_cufftHandle, Ptr ty_cudaLibXtDesc, Ptr ty_cudaLibXtDesc]
       ''cufftXtExecDescriptorR2C'' ty_cufftResult [ty_cufftHandle, Ptr ty_cudaLibXtDesc, Ptr ty_cudaLibXtDesc] ''cufftXtExecDescriptorR2C'' [0, 1, 2] False,
     Gen cufft ty_cufftResult ''cufftXtExecDescriptorC2R'' [ty_cufftHandle, Ptr ty_cudaLibXtDesc, Ptr ty_cudaLibXtDesc]
       ''cufftXtExecDescriptorC2R'' ty_cufftResult [ty_cufftHandle, Ptr ty_cudaLibXtDesc, Ptr ty_cudaLibXtDesc] ''cufftXtExecDescriptorC2R'' [0, 1, 2] False,
     Gen cufft ty_cufftResult ''cufftXtExecDescriptorZ2Z'' [ty_cufftHandle, Ptr ty_cudaLibXtDesc, Ptr ty_cudaLibXtDesc, ty_int]
       ''cufftXtExecDescriptorZ2Z'' ty_cufftResult [ty_cufftHandle, Ptr ty_cudaLibXtDesc, Ptr ty_cudaLibXtDesc, ty_int] ''cufftXtExecDescriptorZ2Z'' [0, 1, 2, 3] False,
     Gen cufft ty_cufftResult ''cufftXtExecDescriptorD2Z'' [ty_cufftHandle, Ptr ty_cudaLibXtDesc, Ptr ty_cudaLibXtDesc]
       ''cufftXtExecDescriptorD2Z'' ty_cufftResult [ty_cufftHandle, Ptr ty_cudaLibXtDesc, Ptr ty_cudaLibXtDesc] ''cufftXtExecDescriptorD2Z'' [0, 1, 2] False,
     Gen cufft ty_cufftResult ''cufftXtExecDescriptorZ2D'' [ty_cufftHandle, Ptr ty_cudaLibXtDesc, Ptr ty_cudaLibXtDesc]
       ''cufftXtExecDescriptorZ2D'' ty_cufftResult [ty_cufftHandle, Ptr ty_cudaLibXtDesc, Ptr ty_cudaLibXtDesc] ''cufftXtExecDescriptorZ2D'' [0, 1, 2] False,
     Gen cufft ty_cufftResult ''cufftXtQueryPlan'' [ty_cufftHandle, Ptr ty_void, ty_cufftXtQueryType]
       ''cufftXtQueryPlan'' ty_cufftResult [ty_cufftHandle, Ptr ty_void, ty_cufftXtQueryType] ''cufftXtQueryPlan'' [0, 1, 2] False,
     Gen cufft ty_cufftResult ''cufftXtSetCallback'' [ty_cufftHandle, Ptr (Ptr ty_void), ty_cufftXtCallbackType, Ptr (Ptr ty_void)]
       ''cufftXtSetCallback'' ty_cufftResult [ty_cufftHandle, Ptr (Ptr ty_void), ty_cufftXtCallbackType, Ptr (Ptr ty_void)] ''cufftXtSetCallback'' [0, 1, 2, 3] False,
     Gen cufft ty_cufftResult ''cufftXtClearCallback'' [ty_cufftHandle, ty_cufftXtCallbackType]
       ''cufftXtClearCallback'' ty_cufftResult [ty_cufftHandle, ty_cufftXtCallbackType] ''cufftXtClearCallback'' [0, 1] False,
     Gen cufft ty_cufftResult ''cufftXtSetCallbackSharedSize'' [ty_cufftHandle, ty_cufftXtCallbackType, ty_size_t]
       ''cufftXtSetCallbackSharedSize'' ty_cufftResult [ty_cufftHandle, ty_cufftXtCallbackType, ty_size_t] ''cufftXtSetCallbackSharedSize'' [0, 1, 2] False,
     Gen cufft ty_cufftResult ''cufftXtMakePlanMany'' [ty_cufftHandle, ty_int, Ptr ty_long_long_int, Ptr ty_long_long_int, ty_long_long_int, ty_long_long_int, ty_cudaDataType, Ptr ty_long_long_int, ty_long_long_int, ty_long_long_int, ty_cudaDataType, ty_long_long_int, Ptr ty_size_t, ty_cudaDataType]
       ''cufftXtMakePlanMany'' ty_cufftResult [ty_cufftHandle, ty_int, Ptr ty_long_long_int, Ptr ty_long_long_int, ty_long_long_int, ty_long_long_int, ty_cudaDataType, Ptr ty_long_long_int, ty_long_long_int, ty_long_long_int, ty_cudaDataType, ty_long_long_int, Ptr ty_size_t, ty_cudaDataType] ''cufftXtMakePlanMany'' [0, 1, 2, 3, 4, 5, 6, 7, 8, 9, 10, 11, 12, 13] False,
     Gen cufft ty_cufftResult ''cufftXtGetSizeMany'' [ty_cufftHandle, ty_int, Ptr ty_long_long_int, Ptr ty_long_long_int, ty_long_long_int, ty_long_long_int, ty_cudaDataType, Ptr ty_long_long_int, ty_long_long_int, ty_long_long_int, ty_cudaDataType, ty_long_long_int, Ptr ty_size_t, ty_cudaDataType]
       ''cufftXtGetSizeMany'' ty_cufftResult [ty_cufftHandle, ty_int, Ptr ty_long_long_int, Ptr ty_long_long_int, ty_long_long_int, ty_long_long_int, ty_cudaDataType, Ptr ty_long_long_int, ty_long_long_int, ty_long_long_int, ty_cudaDataType, ty_long_long_int, Ptr ty_size_t, ty_cudaDataType] ''cufftXtGetSizeMany'' [0, 1, 2, 3, 4, 5, 6, 7, 8, 9, 10, 11, 12, 13] False]"

definition cufft_hooks_4 :: "gen_hook list" where
  "cufft_hooks_4 =
    [Gen cufft ty_cufftResult ''cufftXtExec'' [ty_cufftHandle, Ptr ty_void, Ptr ty_void, ty_int]
       ''cufftXtExec'' ty_cufftResult [ty_cufftHandle, Ptr ty_void, Ptr ty_void, ty_int] ''cufftXtExec'' [0, 1, 2, 3] False,
     Gen cufft ty_cufftResult ''cufftXtExecDescriptor'' [ty_cufftHandle, Ptr ty_cudaLibXtDesc, Ptr ty_cudaLibXtDesc, ty_int]
       ''cufftXtExecDescriptor'' ty_cufftResult [ty_cufftHandle, Ptr ty_cudaLibXtDesc, Ptr ty_cudaLibXtDesc, ty_int] ''cufftXtExecDescriptor'' [0, 1, 2, 3] False,
     Gen cufft ty_cufftResult ''cufftXtSetWorkAreaPolicy'' [ty_cufftHandle, ty_cufftXtWorkAreaPolicy, Ptr ty_size_t]
       ''cufftXtSetWorkAreaPolicy'' ty_cufftResult [ty_cufftHandle, ty_cufftXtWorkAreaPolicy, Ptr ty_size_t] ''cufftXtSetWorkAreaPolicy'' [0, 1, 2] False]"

section \<open>\<open>curand\<close>\<close>

definition curand_hooks_1 :: "gen_hook list" where
  "curand_hooks_1 =
    [Gen curand ty_curandStatus_t ''curandCreateGenerator'' [Ptr ty_curandGenerator_t, ty_curandRngType_t]
       ''curandCreateGenerator'' ty_curandStatus_t [Ptr ty_curandGenerator_t, ty_curandRngType_t] ''curandCreateGenerator'' [0, 1] False,
     Gen curand ty_curandStatus_t ''curandCreateGeneratorHost'' [Ptr ty_curandGenerator_t, ty_curandRngType_t]
       ''curandCreateGeneratorHost'' ty_curandStatus_t [Ptr ty_curandGenerator_t, ty_curandRngType_t] ''curandCreateGeneratorHost'' [0, 1] False,
     Gen curand ty_curandStatus_t ''curandDestroyGenerator'' [ty_curandGenerator_t]
       ''curandDestroyGenerator'' ty_curandStatus_t [ty_curandGenerator_t] ''curandDestroyGenerator'' [0] False,
     Gen curand ty_curandStatus_t ''curandGetVersion'' [Ptr ty_int]
       ''curandGetVersion'' ty_curandStatus_t [Ptr ty_int] ''curandGetVersion'' [0] False,
     Gen curand ty_curandStatus_t ''curandGetProperty'' [ty_libraryPropertyType, Ptr ty_int]
       ''curandGetProperty'' ty_curandStatus_t [ty_libraryPropertyType, Ptr ty_int] ''curandGetProperty'' [0, 1] False,
     Gen curand ty_curandStatus_t ''curandSetStream'' [ty_curandGenerator_t, ty_cudaStream_t]
       ''curandSetStream'' ty_curandStatus_t [ty_curandGenerator_t, ty_cudaStream_t] ''curandSetStream'' [0, 1] False,
     Gen curand ty_curandStatus_t ''curandSetPseudoRandomGeneratorSeed'' [ty_curandGenerator_t, ty_unsigned_long_long]
       ''curandSetPseudoRandomGeneratorSeed'' ty_curandStatus_t [ty_curandGenerator_t, ty_unsigned_long_long] ''curandSetPseudoRandomGeneratorSeed'' [0, 1] False,
     Gen curand ty_curandStatus_t ''curandSetGeneratorOffset'' [ty_curandGenerator_t, ty_unsigned_long_long]
       ''curandSetGeneratorOffset'' ty_curandStatus_t [ty_curandGenerator_t, ty_unsigned_long_long] ''curandSetGeneratorOffset'' [0, 1] False,
     Gen curand ty_curandStatus_t ''curandSetGeneratorOrdering'' [ty_curandGenerator_t, ty_curandOrdering_t]
       ''curandSetGeneratorOrdering'' ty_curandStatus_t [ty_curandGenerator_t, ty_curandOrdering_t] ''curandSetGeneratorOrdering'' [0, 1] False,
     Gen curand ty_curandStatus_t ''curandSetQuasiRandomGeneratorDimensions'' [ty_curandGenerator_t, ty_unsigned_int]
       ''curandSetQuasiRandomGeneratorDimensions'' ty_curandStatus_t [ty_curandGenerator_t, ty_unsigned_int] ''curandSetQuasiRandomGeneratorDimensions'' [0, 1] False,
     Gen curand ty_curandStatus_t ''curandGenerate'' [ty_curandGenerator_t, Ptr ty_unsigned_int, ty_size_t]
       ''curandGenerate'' ty_curandStatus_t [ty_curandGenerator_t, Ptr ty_unsigned_int, ty_size_t] ''curandGenerate'' [0, 1, 2] False,
     Gen curand ty_curandStatus_t ''curandGenerateLongLong'' [ty_curandGenerator_t, Ptr ty_unsigned_long_long, ty_size_t]
       ''curandGenerateLongLong'' ty_curandStatus_t [ty_curandGenerator_t, Ptr ty_unsigned_long_long, ty_size_t] ''curandGenerateLongLong'' [0, 1, 2] False,
     Gen curand ty_curandStatus_t ''curandGenerateUniform'' [ty_curandGenerator_t, Ptr ty_float, ty_size_t]
       ''curandGenerateUniform'' ty_curandStatus_t [ty_curandGenerator_t, Ptr ty_float, ty_size_t] ''curandGenerateUniform'' [0, 1, 2] False,
     Gen curand ty_curandStatus_t ''curandGenerateUniformDouble'' [ty_curandGenerator_t, Ptr ty_double, ty_size_t]
       ''curandGenerateUniformDouble'' ty_curandStatus_t [ty_curandGenerator_t, Ptr ty_double, ty_size_t] ''curandGenerateUniformDouble'' [0, 1, 2] False,
     Gen curand ty_curandStatus_t ''curandGenerateNormal'' [ty_curandGenerator_t, Ptr ty_float, ty_size_t, ty_float, ty_float]
       ''curandGenerateNormal'' ty_curandStatus_t [ty_curandGenerator_t, Ptr ty_float, ty_size_t, ty_float, ty_float] ''curandGenerateNormal'' [0, 1, 2, 3, 4] False,
     Gen curand ty_curandStatus_t ''curandGenerateNormalDouble'' [ty_curandGenerator_t, Ptr ty_double, ty_size_t, ty_double, ty_double]
       ''curandGenerateNormalDouble'' ty_curandStatus_t [ty_curandGenerator_t, Ptr ty_double, ty_size_t, ty_double, ty_double] ''curandGenerateNormalDouble'' [0, 1, 2, 3, 4] False,
     Gen curand ty_curandStatus_t ''curandGenerateLogNormal'' [ty_curandGenerator_t, Ptr ty_float, ty_size_t, ty_float, ty_float]
       ''curandGenerateLogNormal'' ty_curandStatus_t [ty_curandGenerator_t, Ptr ty_float, ty_size_t, ty_float, ty_float] ''curandGenerateLogNormal'' [0, 1, 2, 3, 4] False]"

definition curand_hooks_2 :: "gen_hook list" where
  "curand_hooks_2 =
    [Gen curand ty_curandStatus_t ''curandGenerateLogNormalDouble'' [ty_curandGenerator_t, Ptr ty_double, ty_size_t, ty_double, ty_double]
       ''curandGenerateLogNormalDouble'' ty_curandStatus_t [ty_curandGenerator_t, Ptr ty_double, ty_size_t, ty_double, ty_double] ''curandGenerateLogNormalDouble'' [0, 1, 2, 3, 4] False,
     Gen curand ty_curandStatus_t ''curandCreatePoissonDistribution'' [ty_double, Ptr ty_curandDiscreteDistribution_t]
       ''curandCreatePoissonDistribution'' ty_curandStatus_t [ty_double, Ptr ty_curandDiscreteDistribution_t] ''curandCreatePoissonDistribution'' [0, 1] False,
     Gen curand ty_curandStatus_t ''curandDestroyDistribution'' [ty_curandDiscreteDistribution_t]
       ''curandDestroyDistribution'' ty_curandStatus_t [ty_curandDiscreteDistribution_t] ''curandDestroyDistribution'' [0] False,
     Gen curand ty_curandStatus_t ''curandGeneratePoisson'' [ty_curandGenerator_t, Ptr ty_unsigned_int, ty_size_t, ty_double]
       ''curandGeneratePoisson'' ty_curandStatus_t [ty_curandGenerator_t, Ptr ty_unsigned_int, ty_size_t, ty_double] ''curandGeneratePoisson'' [0, 1, 2, 3] False,
     Gen curand ty_curandStatus_t ''curandGeneratePoissonMethod'' [ty_curandGenerator_t, Ptr ty_unsigned_int, ty_size_t, ty_double, ty_curandMethod_t]
       ''curandGeneratePoissonMethod'' ty_curandStatus_t [ty_curandGenerator_t, Ptr ty_unsigned_int, ty_size_t, ty_double, ty_curandMethod_t] ''curandGeneratePoissonMethod'' [0, 1, 2, 3, 4] False,
     Gen curand ty_curandStatus_t ''curandGenerateBinomial'' [ty_curandGenerator_t, Ptr ty_unsigned_int, ty_size_t, ty_unsigned_int, ty_double]
       ''curandGenerateBinomial'' ty_curandStatus_t [ty_curandGenerator_t, Ptr ty_unsigned_int, ty_size_t, ty_unsigned_int, ty_double] ''curandGenerateBinomial'' [0, 1, 2, 3, 4] False,
     Gen curand ty_curandStatus_t ''curandGenerateBinomialMethod'' [ty_curandGenerator_t, Ptr ty_unsigned_int, ty_size_t, ty_unsigned_int, ty_double, ty_curandMethod_t]
       ''curandGenerateBinomialMethod'' ty_curandStatus_t [ty_curandGenerator_t, Ptr ty_unsigned_int, ty_size_t, ty_unsigned_int, ty_double, ty_curandMethod_t] ''curandGenerateBinomialMethod'' [0, 1, 2, 3, 4, 5] False,
     Gen curand ty_curandStatus_t ''curandGenerateSeeds'' [ty_curandGenerator_t]
       ''curandGenerateSeeds'' ty_curandStatus_t [ty_curandGenerator_t] ''curandGenerateSeeds'' [0] False,
     Gen curand ty_curandStatus_t ''curandGetDirectionVectors32'' [Ptr ty_curandDirectionVectors32_t, ty_curandDirectionVectorSet_t]
       ''curandGetDirectionVectors32'' ty_curandStatus_t [Ptr ty_curandDirectionVectors32_t, ty_curandDirectionVectorSet_t] ''curandGetDirectionVectors32'' [0, 1] False,
     Gen curand ty_curandStatus_t ''curandGetScrambleConstants32'' [Ptr (Ptr ty_unsigned_int)]
       ''curandGetScrambleConstants32'' ty_curandStatus_t [Ptr (Ptr ty_unsigned_int)] ''curandGetScrambleConstants32'' [0] False,
     Gen curand ty_curandStatus_t ''curandGetDirectionVectors64'' [Ptr ty_curandDirectionVectors64_t, ty_curandDirectionVectorSet_t]
       ''curandGetDirectionVectors64'' ty_curandStatus_t [Ptr ty_curandDirectionVectors64_t, ty_curandDirectionVectorSet_t] ''curandGetDirectionVectors64'' [0, 1] False,
     Gen curand ty_curandStatus_t ''curandGetScrambleConstants64'' [Ptr (Ptr ty_unsigned_long_long)]
       ''curandGetScrambleConstants64'' ty_curandStatus_t [Ptr (Ptr ty_unsigned_long_long)] ''curandGetScrambleConstants64'' [0] False]"

section \<open>\<open>nvblas\<close>\<close>

definition nvblas_hooks_1 :: "gen_hook list" where
  "nvblas_hooks_1 =
    [Gen nvblas ty_void ''sgemm_'' [Ptr (Const ty_char), Ptr (Const ty_char), Ptr (Const ty_int), Ptr (Const ty_int), Ptr (Const ty_int), Ptr (Const ty_float), Ptr (Const ty_float), Ptr (Const ty_int), Ptr (Const ty_float), Ptr (Const ty_int), Ptr (Const ty_float), Ptr ty_float, Ptr (Const ty_int)]
       ''sgemm_'' ty_void [Ptr (Const ty_char), Ptr (Const ty_char), Ptr (Const ty_int), Ptr (Const ty_int), Ptr (Const ty_int), Ptr (Const ty_float), Ptr (Const ty_float), Ptr (Const ty_int), Ptr (Const ty_float), Ptr (Const ty_int), Ptr (Const ty_float), Ptr ty_float, Ptr (Const ty_int)] ''sgemm_'' [0, 1, 2, 3, 4, 5, 6, 7, 8, 9, 10, 11, 12] False,
     Gen nvblas ty_void ''dgemm_'' [Ptr (Const ty_char), Ptr (Const ty_char), Ptr (Const ty_int), Ptr (Const ty_int), Ptr (Const ty_int), Ptr (Const ty_double), Ptr (Const ty_double), Ptr (Const ty_int), Ptr (Const ty_double), Ptr (Const ty_int), Ptr (Const ty_double), Ptr ty_double, Ptr (Const ty_int)]
       ''dgemm_'' ty_void [Ptr (Const ty_char), Ptr (Const ty_char), Ptr (Const ty_int), Ptr (Const ty_int), Ptr (Const ty_int), Ptr (Const ty_double), Ptr (Const ty_double), Ptr (Const ty_int), Ptr (Const ty_double), Ptr (Const ty_int), Ptr (Const ty_double), Ptr ty_double, Ptr (Const ty_int)] ''dgemm_'' [0, 1, 2, 3, 4, 5, 6, 7, 8, 9, 10, 11, 12] False,
     Gen nvblas ty_void ''cgemm_'' [Ptr (Const ty_char), Ptr (Const ty_char), Ptr (Const ty_int), Ptr (Const ty_int), Ptr (Const ty_int), Ptr (Const ty_cuComplex), Ptr (Const ty_cuComplex), Ptr (Const ty_int), Ptr (Const ty_cuComplex), Ptr (Const ty_int), Ptr (Const ty_cuComplex), Ptr ty_cuComplex, Ptr (Const ty_int)]
       ''cgemm_'' ty_void [Ptr (Const ty_char), Ptr (Const ty_char), Ptr (Const ty_int), Ptr (Const ty_int), Ptr (Const ty_int), Ptr (Const ty_cuComplex), Ptr (Const ty_cuComplex), Ptr (Const ty_int), Ptr (Const ty_cuComplex), Ptr (Const ty_int), Ptr (Const ty_cuComplex), Ptr ty_cuComplex, Ptr (Const ty_int)] ''cgemm_'' [0, 1, 2, 3, 4, 5, 6, 7, 8, 9, 10, 11, 12] False,
     Gen nvblas ty_void ''zgemm_'' [Ptr (Const ty_char), Ptr (Const ty_char), Ptr (Const ty_int), Ptr (Const ty_int), Ptr (Const ty_int), Ptr (Const ty_cuDoubleComplex), Ptr (Const ty_cuDoubleComplex), Ptr (Const ty_int), Ptr (Const ty_cuDoubleComplex), Ptr (Const ty_int), Ptr (Const ty_cuDoubleComplex), Ptr ty_cuDoubleComplex, Ptr (Const ty_int)]
       ''zgemm_'' ty_void [Ptr (Const ty_char), Ptr (Const ty_char), Ptr (Const ty_int), Ptr (Const ty_int), Ptr (Const ty_int), Ptr (Const ty_cuDoubleComplex), Ptr (Const ty_cuDoubleComplex), Ptr (Const ty_int), Ptr (Const ty_cuDoubleComplex), Ptr (Const ty_int), Ptr (Const ty_cuDoubleComplex), Ptr ty_cuDoubleComplex, Ptr (Const ty_int)] ''zgemm_'' [0, 1, 2, 3, 4, 5, 6, 7, 8, 9, 10, 11, 12] False,
     Gen nvblas ty_void ''sgemm'' [Ptr (Const ty_char), Ptr (Const ty_char), Ptr (Const ty_int), Ptr (Const ty_int), Ptr (Const ty_int), Ptr (Const ty_float), Ptr (Const ty_float), Ptr (Const ty_int), Ptr (Const ty_float), Ptr (Const ty_int), Ptr (Const ty_float), Ptr ty_float, Ptr (Const ty_int)]
       ''sgemm'' ty_void [Ptr (Const ty_char), Ptr (Const ty_char), Ptr (Const ty_int), Ptr (Const ty_int), Ptr (Const ty_int), Ptr (Const ty_float), Ptr (Const ty_float), Ptr (Const ty_int), Ptr (Const ty_float), Ptr (Const ty_int), Ptr (Const ty_float), Ptr ty_float, Ptr (Const ty_int)] ''sgemm'' [0, 1, 2, 3, 4, 5, 6, 7, 8, 9, 10, 11, 12] False,
     Gen nvblas ty_void ''dgemm'' [Ptr (Const ty_char), Ptr (Const ty_char), Ptr (Const ty_int), Ptr (Const ty_int), Ptr (Const ty_int), Ptr (Const ty_double), Ptr (Const ty_double), Ptr (Const ty_int), Ptr (Const ty_double), Ptr (Const ty_int), Ptr (Const ty_double), Ptr ty_double, Ptr (Const ty_int)]
       ''dgemm'' ty_void [Ptr (Const ty_char), Ptr (Const ty_char), Ptr (Const ty_int), Ptr (Const ty_int), Ptr (Const ty_int), Ptr (Const ty_double), Ptr (Const ty_double), Ptr (Const ty_int), Ptr (Const ty_double), Ptr (Const ty_int), Ptr (Const ty_double), Ptr ty_double, Ptr (Const ty_int)] ''dgemm'' [0, 1, 2, 3, 4, 5, 6, 7, 8, 9, 10, 11, 12] False,
     Gen nvblas ty_void ''cgemm'' [Ptr (Const ty_char), Ptr (Const ty_char), Ptr (Const ty_int), Ptr (Const ty_int), Ptr (Const ty_int), Ptr (Const ty_cuComplex), Ptr (Const ty_cuComplex), Ptr (Const ty_int), Ptr (Const ty_cuComplex), Ptr (Const ty_int), Ptr (Const ty_cuComplex), Ptr ty_cuComplex, Ptr (Const ty_int)]
       ''cgemm'' ty_void [Ptr (Const ty_char), Ptr (Const ty_char), Ptr (Const ty_int), Ptr (Const ty_int), Ptr (Const ty_int), Ptr (Const ty_cuComplex), Ptr (Const ty_cuComplex), Ptr (Const ty_int), Ptr (Const ty_cuComplex), Ptr (Const ty_int), Ptr (Const ty_cuComplex), Ptr ty_cuComplex, Ptr (Const ty_int)] ''cgemm'' [0, 1, 2, 3, 4, 5, 6, 7, 8, 9, 10, 11, 12] False,
     Gen nvblas ty_void ''zgemm'' [Ptr (Const ty_char), Ptr (Const ty_char), Ptr (Const ty_int), Ptr (Const ty_int), Ptr (Const ty_int), Ptr (Const ty_cuDoubleComplex), Ptr (Const ty_cuDoubleComplex), Ptr (Const ty_int), Ptr (Const ty_cuDoubleComplex), Ptr (Const ty_int), Ptr (Const ty_cuDoubleComplex), Ptr ty_cuDoubleComplex, Ptr (Const ty_int)]
       ''zgemm'' ty_void [Ptr (Const ty_char), Ptr (Const ty_char), Ptr (Const ty_int), Ptr (Const ty_int), Ptr (Const ty_int), Ptr (Const ty_cuDoubleComplex), Ptr (Const ty_cuDoubleComplex), Ptr (Const ty_int), Ptr (Const ty_cuDoubleComplex), Ptr (Const ty_int), Ptr (Const ty_cuDoubleComplex), Ptr ty_cuDoubleComplex, Ptr (Const ty_int)] ''zgemm'' [0, 1, 2, 3, 4, 5, 6, 7, 8, 9, 10, 11, 12] False,
     Gen nvblas ty_void ''ssyrk_'' [Ptr (Const ty_char), Ptr (Const ty_char), Ptr (Const ty_int), Ptr (Const ty_int), Ptr (Const ty_float), Ptr (Const ty_float), Ptr (Const ty_int), Ptr (Const ty_float), Ptr ty_float, Ptr (Const ty_int)]
       ''ssyrk_'' ty_void [Ptr (Const ty_char), Ptr (Const ty_char), Ptr (Const ty_int), Ptr (Const ty_int), Ptr (Const ty_float), Ptr (Const ty_float), Ptr (Const ty_int), Ptr (Const ty_float), Ptr ty_float, Ptr (Const ty_int)] ''ssyrk_'' [0, 1, 2, 3, 4, 5, 6, 7, 8, 9] False,
     Gen nvblas ty_void ''dsyrk_'' [Ptr (Const ty_char), Ptr (Const ty_char), Ptr (Const ty_int), Ptr (Const ty_int), Ptr (Const ty_double), Ptr (Const ty_double), Ptr (Const ty_int), Ptr (Const ty_double), Ptr ty_double, Ptr (Const ty_int)]
       ''dsyrk_'' ty_void [Ptr (Const ty_char), Ptr (Const ty_char), Ptr (Const ty_int), Ptr (Const ty_int), Ptr (Const ty_double), Ptr (Const ty_double), Ptr (Const ty_int), Ptr (Const ty_double), Ptr ty_double, Ptr (Const ty_int)] ''dsyrk_'' [0, 1, 2, 3, 4, 5, 6, 7, 8, 9] False,
     Gen nvblas ty_void ''csyrk_'' [Ptr (Const ty_char), Ptr (Const ty_char), Ptr (Const ty_int), Ptr (Const ty_int), Ptr (Const ty_cuComplex), Ptr (Const ty_cuComplex), Ptr (Const ty_int), Ptr (Const ty_cuComplex), Ptr ty_cuComplex, Ptr (Const ty_int)]
       ''csyrk_'' ty_void [Ptr (Const ty_char), Ptr (Const ty_char), Ptr (Const ty_int), Ptr (Const ty_int), Ptr (Const ty_cuComplex), Ptr (Const ty_cuComplex), Ptr (Const ty_int), Ptr (Const ty_cuComplex), Ptr ty_cuComplex, Ptr (Const ty_int)] ''csyrk_'' [0, 1, 2, 3, 4, 5, 6, 7, 8, 9] False,
     Gen nvblas ty_void ''zsyrk_'' [Ptr (Const ty_char), Ptr (Const ty_char), Ptr (Const ty_int), Ptr (Const ty_int), Ptr (Const ty_cuDoubleComplex), Ptr (Const ty_cuDoubleComplex), Ptr (Const ty_int), Ptr (Const ty_cuDoubleComplex), Ptr ty_cuDoubleComplex, Ptr (Const ty_int)]
       ''zsyrk_'' ty_void [Ptr (Const ty_char), Ptr (Const ty_char), Ptr (Const ty_int), Ptr (Const ty_int), Ptr (Const ty_cuDoubleComplex), Ptr (Const ty_cuDoubleComplex), Ptr (Const ty_int), Ptr (Const ty_cuDoubleComplex), Ptr ty_cuDoubleComplex, Ptr (Const ty_int)] ''zsyrk_'' [0, 1, 2, 3, 4, 5, 6, 7, 8, 9] False]"

definition nvblas_hooks_2 :: "gen_hook list" where
  "nvblas_hooks_2 =
    [Gen nvblas ty_void ''ssyrk'' [Ptr (Const ty_char), Ptr (Const ty_char), Ptr (Const ty_int), Ptr (Const ty_int), Ptr (Const ty_float), Ptr (Const ty_float), Ptr (Const ty_int), Ptr (Const ty_float), Ptr ty_float, Ptr (Const ty_int)]
       ''ssyrk'' ty_void [Ptr (Const ty_char), Ptr (Const ty_char), Ptr (Const ty_int), Ptr (Const ty_int), Ptr (Const ty_float), Ptr (Const ty_float), Ptr (Const ty_int), Ptr (Const ty_float), Ptr ty_float, Ptr (Const ty_int)] ''ssyrk'' [0, 1, 2, 3, 4, 5, 6, 7, 8, 9] False,
     Gen nvblas ty_void ''dsyrk'' [Ptr (Const ty_char), Ptr (Const ty_char), Ptr (Const ty_int), Ptr (Const ty_int), Ptr (Const ty_double), Ptr (Const ty_double), Ptr (Const ty_int), Ptr (Const ty_double), Ptr ty_double, Ptr (Const ty_int)]
       ''dsyrk'' ty_void [Ptr (Const ty_char), Ptr (Const ty_char), Ptr (Const ty_int), Ptr (Const ty_int), Ptr (Const ty_double), Ptr (Const ty_double), Ptr (Const ty_int), Ptr (Const ty_double), Ptr ty_double, Ptr (Const ty_int)] ''dsyrk'' [0, 1, 2, 3, 4, 5, 6, 7, 8, 9] False,
     Gen nvblas ty_void ''csyrk'' [Ptr (Const ty_char), Ptr (Const ty_char), Ptr (Const ty_int), Ptr (Const ty_int), Ptr (Const ty_cuComplex), Ptr (Const ty_cuComplex), Ptr (Const ty_int), Ptr (Const ty_cuComplex), Ptr ty_cuComplex, Ptr (Const ty_int)]
       ''csyrk'' ty_void [Ptr (Const ty_char), Ptr (Const ty_char), Ptr (Const ty_int), Ptr (Const ty_int), Ptr (Const ty_cuComplex), Ptr (Const ty_cuComplex), Ptr (Const ty_int), Ptr (Const ty_cuComplex), Ptr ty_cuComplex, Ptr (Const ty_int)] ''csyrk'' [0, 1, 2, 3, 4, 5, 6, 7, 8, 9] False,
     Gen nvblas ty_void ''zsyrk'' [Ptr (Const ty_char), Ptr (Const ty_char), Ptr (Const ty_int), Ptr (Const ty_int), Ptr (Const ty_cuDoubleComplex), Ptr (Const ty_cuDoubleComplex), Ptr (Const ty_int), Ptr (Const ty_cuDoubleComplex), Ptr ty_cuDoubleComplex, Ptr (Const ty_int)]
       ''zsyrk'' ty_void [Ptr (Const ty_char), Ptr (Const ty_char), Ptr (Const ty_int), Ptr (Const ty_int), Ptr (Const ty_cuDoubleComplex), Ptr (Const ty_cuDoubleComplex), Ptr (Const ty_int), Ptr (Const ty_cuDoubleComplex), Ptr ty_cuDoubleComplex, Ptr (Const ty_int)] ''zsyrk'' [0, 1, 2, 3, 4, 5, 6, 7, 8, 9] False,
     Gen nvblas ty_void ''cherk_'' [Ptr (Const ty_char), Ptr (Const ty_char), Ptr (Const ty_int), Ptr (Const ty_int), Ptr (Const ty_float), Ptr (Const ty_cuComplex), Ptr (Const ty_int), Ptr (Const ty_float), Ptr ty_cuComplex, Ptr (Const ty_int)]
       ''cherk_'' ty_void [Ptr (Const ty_char), Ptr (Const ty_char), Ptr (Const ty_int), Ptr (Const ty_int), Ptr (Const ty_float), Ptr (Const ty_cuComplex), Ptr (Const ty_int), Ptr (Const ty_float), Ptr ty_cuComplex, Ptr (Const ty_int)] ''cherk_'' [0, 1, 2, 3, 4, 5, 6, 7, 8, 9] False,
     Gen nvblas ty_void ''zherk_'' [Ptr (Const ty_char), Ptr (Const ty_char), Ptr (Const ty_int), Ptr (Const ty_int), Ptr (Const ty_double), Ptr (Const ty_cuDoubleComplex), Ptr (Const ty_int), Ptr (Const ty_double), Ptr ty_cuDoubleComplex, Ptr (Const ty_int)]
       ''zherk_'' ty_void [Ptr (Const ty_char), Ptr (Const ty_char), Ptr (Const ty_int), Ptr (Const ty_int), Ptr (Const ty_double), Ptr (Const ty_cuDoubleComplex), Ptr (Const ty_int), Ptr (Const ty_double), Ptr ty_cuDoubleComplex, Ptr (Const ty_int)] ''zherk_'' [0, 1, 2, 3, 4, 5, 6, 7, 8, 9] False,
     Gen nvblas ty_void ''cherk'' [Ptr (Const ty_char), Ptr (Const ty_char), Ptr (Const ty_int), Ptr (Const ty_int), Ptr (Const ty_float), Ptr (Const ty_cuComplex), Ptr (Const ty_int), Ptr (Const ty_float), Ptr ty_cuComplex, Ptr (Const ty_int)]
       ''cherk'' ty_void [Ptr (Const ty_char), Ptr (Const ty_char), Ptr (Const ty_int), Ptr (Const ty_int), Ptr (Const ty_float), Ptr (Const ty_cuComplex), Ptr (Const ty_int), Ptr (Const ty_float), Ptr ty_cuComplex, Ptr (Const ty_int)] ''cherk'' [0, 1, 2, 3, 4, 5, 6, 7, 8, 9] False,
     Gen nvblas ty_void ''zherk'' [Ptr (Const ty_char), Ptr (Const ty_char), Ptr (Const ty_int), Ptr (Const ty_int), Ptr (Const ty_double), Ptr (Const ty_cuDoubleComplex), Ptr (Const ty_int), Ptr (Const ty_double), Ptr ty_cuDoubleComplex, Ptr (Const ty_int)]
       ''zherk'' ty_void [Ptr (Const ty_char), Ptr (Const ty_char), Ptr (Const ty_int), Ptr (Const ty_int), Ptr (Const ty_double), Ptr (Const ty_cuDoubleComplex), Ptr (Const ty_int), Ptr (Const ty_double), Ptr ty_cuDoubleComplex, Ptr (Const ty_int)] ''zherk'' [0, 1, 2, 3, 4, 5, 6, 7, 8, 9] False,
     Gen nvblas ty_void ''strsm_'' [Ptr (Const ty_char), Ptr (Const ty_char), Ptr (Const ty_char), Ptr (Const ty_char), Ptr (Const ty_int), Ptr (Const ty_int), Ptr (Const ty_float), Ptr (Const ty_float), Ptr (Const ty_int), Ptr ty_float, Ptr (Const ty_int)]
       ''strsm_'' ty_void [Ptr (Const ty_char), Ptr (Const ty_char), Ptr (Const ty_char), Ptr (Const ty_char), Ptr (Const ty_int), Ptr (Const ty_int), Ptr (Const ty_float), Ptr (Const ty_float), Ptr (Const ty_int), Ptr ty_float, Ptr (Const ty_int)] ''strsm_'' [0, 1, 2, 3, 4, 5, 6, 7, 8, 9, 10] False,
     Gen nvblas ty_void ''dtrsm_'' [Ptr (Const ty_char), Ptr (Const ty_char), Ptr (Const ty_char), Ptr (Const ty_char), Ptr (Const ty_int), Ptr (Const ty_int), Ptr (Const ty_double), Ptr (Const ty_double), Ptr (Const ty_int), Ptr ty_double, Ptr (Const ty_int)]
       ''dtrsm_'' ty_void [Ptr (Const ty_char), Ptr (Const ty_char), Ptr (Const ty_char), Ptr (Const ty_char), Ptr (Const ty_int), Ptr (Const ty_int), Ptr (Const ty_double), Ptr (Const ty_double), Ptr (Const ty_int), Ptr ty_double, Ptr (Const ty_int)] ''dtrsm_'' [0, 1, 2, 3, 4, 5, 6, 7, 8, 9, 10] False,
     Gen nvblas ty_void ''ctrsm_'' [Ptr (Const ty_char), Ptr (Const ty_char), Ptr (Const ty_char), Ptr (Const ty_char), Ptr (Const ty_int), Ptr (Const ty_int), Ptr (Const ty_cuComplex), Ptr (Const ty_cuComplex), Ptr (Const ty_int), Ptr ty_cuComplex, Ptr (Const ty_int)]
       ''ctrsm_'' ty_void [Ptr (Const ty_char), Ptr (Const ty_char), Ptr (Const ty_char), Ptr (Const ty_char), Ptr (Const ty_int), Ptr (Const ty_int), Ptr (Const ty_cuComplex), Ptr (Const ty_cuComplex), Ptr (Const ty_int), Ptr ty_cuComplex, Ptr (Const ty_int)] ''ctrsm_'' [0, 1, 2, 3, 4, 5, 6, 7, 8, 9, 10] False,
     Gen nvblas ty_void ''ztrsm_'' [Ptr (Const ty_char), Ptr (Const ty_char), Ptr (Const ty_char), Ptr (Const ty_char), Ptr (Const ty_int), Ptr (Const ty_int), Ptr (Const ty_cuDoubleComplex), Ptr (Const ty_cuDoubleComplex), Ptr (Const ty_int), Ptr ty_cuDoubleComplex, Ptr (Const ty_int)]
       ''ztrsm_'' ty_void [Ptr (Const ty_char), Ptr (Const ty_char), Ptr (Const ty_char), Ptr (Const ty_char), Ptr (Const ty_int), Ptr (Const ty_int), Ptr (Const ty_cuDoubleComplex), Ptr (Const ty_cuDoubleComplex), Ptr (Const ty_int), Ptr ty_cuDoubleComplex, Ptr (Const ty_int)] ''ztrsm_'' [0, 1, 2, 3, 4, 5, 6, 7, 8, 9, 10] False,
     Gen nvblas ty_void ''strsm'' [Ptr (Const ty_char), Ptr (Const ty_char), Ptr (Const ty_char), Ptr (Const ty_char), Ptr (Const ty_int), Ptr (Const ty_int), Ptr (Const ty_float), Ptr (Const ty_float), Ptr (Const ty_int), Ptr ty_float, Ptr (Const ty_int)]
       ''strsm'' ty_void [Ptr (Const ty_char), Ptr (Const ty_char), Ptr (Const ty_char), Ptr (Const ty_char), Ptr (Const ty_int), Ptr (Const ty_int), Ptr (Const ty_float), Ptr (Const ty_float), Ptr (Const ty_int), Ptr ty_float, Ptr (Const ty_int)] ''strsm'' [0, 1, 2, 3, 4, 5, 6, 7, 8, 9, 10] False]"

definition nvblas_hooks_3 :: "gen_hook list" where
  "nvblas_hooks_3 =
    [Gen nvblas ty_void ''dtrsm'' [Ptr (Const ty_char), Ptr (Const ty_char), Ptr (Const ty_char), Ptr (Const ty_char), Ptr (Const ty_int), Ptr (Const ty_int), Ptr (Const ty_double), Ptr (Const ty_double), Ptr (Const ty_int), Ptr ty_double, Ptr (Const ty_int)]
       ''dtrsm'' ty_void [Ptr (Const ty_char), Ptr (Const ty_char), Ptr (Const ty_char), Ptr (Const ty_char), Ptr (Const ty_int), Ptr (Const ty_int), Ptr (Const ty_double), Ptr (Const ty_double), Ptr (Const ty_int), Ptr ty_double, Ptr (Const ty_int)] ''dtrsm'' [0, 1, 2, 3, 4, 5, 6, 7, 8, 9, 10] False,
     Gen nvblas ty_void ''ctrsm'' [Ptr (Const ty_char), Ptr (Const ty_char), Ptr (Const ty_char), Ptr (Const ty_char), Ptr (Const ty_int), Ptr (Const ty_int), Ptr (Const ty_cuComplex), Ptr (Const ty_cuComplex), Ptr (Const ty_int), Ptr ty_cuComplex, Ptr (Const ty_int)]
       ''ctrsm'' ty_void [Ptr (Const ty_char), Ptr (Const ty_char), Ptr (Const ty_char), Ptr (Const ty_char), Ptr (Const ty_int), Ptr (Const ty_int), Ptr (Const ty_cuComplex), Ptr (Const ty_cuComplex), Ptr (Const ty_int), Ptr ty_cuComplex, Ptr (Const ty_int)] ''ctrsm'' [0, 1, 2, 3, 4, 5, 6, 7, 8, 9, 10] False,
     Gen nvblas ty_void ''ztrsm'' [Ptr (Const ty_char), Ptr (Const ty_char), Ptr (Const ty_char), Ptr (Const ty_char), Ptr (Const ty_int), Ptr (Const ty_int), Ptr (Const ty_cuDoubleComplex), Ptr (Const ty_cuDoubleComplex), Ptr (Const ty_int), Ptr ty_cuDoubleComplex, Ptr (Const ty_int)]
       ''ztrsm'' ty_void [Ptr (Const ty_char), Ptr (Const ty_char), Ptr (Const ty_char), Ptr (Const ty_char), Ptr (Const ty_int), Ptr (Const ty_int), Ptr (Const ty_cuDoubleComplex), Ptr (Const ty_cuDoubleComplex), Ptr (Const ty_int), Ptr ty_cuDoubleComplex, Ptr (Const ty_int)] ''ztrsm'' [0, 1, 2, 3, 4, 5, 6, 7, 8, 9, 10] False,
     Gen nvblas ty_void ''ssymm_'' [Ptr (Const ty_char), Ptr (Const ty_char), Ptr (Const ty_int), Ptr (Const ty_int), Ptr (Const ty_float), Ptr (Const ty_float), Ptr (Const ty_int), Ptr (Const ty_float), Ptr (Const ty_int), Ptr (Const ty_float), Ptr ty_float, Ptr (Const ty_int)]
       ''ssymm_'' ty_void [Ptr (Const ty_char), Ptr (Const ty_char), Ptr (Const ty_int), Ptr (Const ty_int), Ptr (Const ty_float), Ptr (Const ty_float), Ptr (Const ty_int), Ptr (Const ty_float), Ptr (Const ty_int), Ptr (Const ty_float), Ptr ty_float, Ptr (Const ty_int)] ''ssymm_'' [0, 1, 2, 3, 4, 5, 6, 7, 8, 9, 10, 11] False,
     Gen nvblas ty_void ''dsymm_'' [Ptr (Const ty_char), Ptr (Const ty_char), Ptr (Const ty_int), Ptr (Const ty_int), Ptr (Const ty_double), Ptr (Const ty_double), Ptr (Const ty_int), Ptr (Const ty_double), Ptr (Const ty_int), Ptr (Const ty_double), Ptr ty_double, Ptr (Const ty_int)]
       ''dsymm_'' ty_void [Ptr (Const ty_char), Ptr (Const ty_char), Ptr (Const ty_int), Ptr (Const ty_int), Ptr (Const ty_double), Ptr (Const ty_double), Ptr (Const ty_int), Ptr (Const ty_double), Ptr (Const ty_int), Ptr (Const ty_double), Ptr ty_double, Ptr (Const ty_int)] ''dsymm_'' [0, 1, 2, 3, 4, 5, 6, 7, 8, 9, 10, 11] False,
     Gen nvblas ty_void ''csymm_'' [Ptr (Const ty_char), Ptr (Const ty_char), Ptr (Const ty_int), Ptr (Const ty_int), Ptr (Const ty_cuComplex), Ptr (Const ty_cuComplex), Ptr (Const ty_int), Ptr (Const ty_cuComplex), Ptr (Const ty_int), Ptr (Const ty_cuComplex), Ptr ty_cuComplex, Ptr (Const ty_int)]
       ''csymm_'' ty_void [Ptr (Const ty_char), Ptr (Const ty_char), Ptr (Const ty_int), Ptr (Const ty_int), Ptr (Const ty_cuComplex), Ptr (Const ty_cuComplex), Ptr (Const ty_int), Ptr (Const ty_cuComplex), Ptr (Const ty_int), Ptr (Const ty_cuComplex), Ptr ty_cuComplex, Ptr (Const ty_int)] ''csymm_'' [0, 1, 2, 3, 4, 5, 6, 7, 8, 9, 10, 11] False,
     Gen nvblas ty_void ''zsymm_'' [Ptr (Const ty_char), Ptr (Const ty_char), Ptr (Const ty_int), Ptr (Const ty_int), Ptr (Const ty_cuDoubleComplex), Ptr (Const ty_cuDoubleComplex), Ptr (Const ty_int), Ptr (Const ty_cuDoubleComplex), Ptr (Const ty_int), Ptr (Const ty_cuDoubleComplex), Ptr ty_cuDoubleComplex, Ptr (Const ty_int)]
       ''zsymm_'' ty_void [Ptr (Const ty_char), Ptr (Const ty_char), Ptr (Const ty_int), Ptr (Const ty_int), Ptr (Const ty_cuDoubleComplex), Ptr (Const ty_cuDoubleComplex), Ptr (Const ty_int), Ptr (Const ty_cuDoubleComplex), Ptr (Const ty_int), Ptr (Const ty_cuDoubleComplex), Ptr ty_cuDoubleComplex, Ptr (Const ty_int)] ''zsymm_'' [0, 1, 2, 3, 4, 5, 6, 7, 8, 9, 10, 11] False,
     Gen nvblas ty_void ''ssymm'' [Ptr (Const ty_char), Ptr (Const ty_char), Ptr (Const ty_int), Ptr (Const ty_int), Ptr (Const ty_float), Ptr (Const ty_float), Ptr (Const ty_int), Ptr (Const ty_float), Ptr (Const ty_int), Ptr (Const ty_float), Ptr ty_float, Ptr (Const ty_int)]
       ''ssymm'' ty_void [Ptr (Const ty_char), Ptr (Const ty_char), Ptr (Const ty_int), Ptr (Const ty_int), Ptr (Const ty_float), Ptr (Const ty_float), Ptr (Const ty_int), Ptr (Const ty_float), Ptr (Const ty_int), Ptr (Const ty_float), Ptr ty_float, Ptr (Const ty_int)] ''ssymm'' [0, 1, 2, 3, 4, 5, 6, 7, 8, 9, 10, 11] False,
     Gen nvblas ty_void ''dsymm'' [Ptr (Const ty_char), Ptr (Const ty_char), Ptr (Const ty_int), Ptr (Const ty_int), Ptr (Const ty_double), Ptr (Const ty_double), Ptr (Const ty_int), Ptr (Const ty_double), Ptr (Const ty_int), Ptr (Const ty_double), Ptr ty_double, Ptr (Const ty_int)]
       ''dsymm'' ty_void [Ptr (Const ty_char), Ptr (Const ty_char), Ptr (Const ty_int), Ptr (Const ty_int), Ptr (Const ty_double), Ptr (Const ty_double), Ptr (Const ty_int), Ptr (Const ty_double), Ptr (Const ty_int), Ptr (Const ty_double), Ptr ty_double, Ptr (Const ty_int)] ''dsymm'' [0, 1, 2, 3, 4, 5, 6, 7, 8, 9, 10, 11] False,
     Gen nvblas ty_void ''csymm'' [Ptr (Const ty_char), Ptr (Const ty_char), Ptr (Const ty_int), Ptr (Const ty_int), Ptr (Const ty_cuComplex), Ptr (Const ty_cuComplex), Ptr (Const ty_int), Ptr (Const ty_cuComplex), Ptr (Const ty_int), Ptr (Const ty_cuComplex), Ptr ty_cuComplex, Ptr (Const ty_int)]
       ''csymm'' ty_void [Ptr (Const ty_char), Ptr (Const ty_char), Ptr (Const ty_int), Ptr (Const ty_int), Ptr (Const ty_cuComplex), Ptr (Const ty_cuComplex), Ptr (Const ty_int), Ptr (Const ty_cuComplex), Ptr (Const ty_int), Ptr (Const ty_cuComplex), Ptr ty_cuComplex, Ptr (Const ty_int)] ''csymm'' [0, 1, 2, 3, 4, 5, 6, 7, 8, 9, 10, 11] False,
     Gen nvblas ty_void ''zsymm'' [Ptr (Const ty_char), Ptr (Const ty_char), Ptr (Const ty_int), Ptr (Const ty_int), Ptr (Const ty_cuDoubleComplex), Ptr (Const ty_cuDoubleComplex), Ptr (Const ty_int), Ptr (Const ty_cuDoubleComplex), Ptr (Const ty_int), Ptr (Const ty_cuDoubleComplex), Ptr ty_cuDoubleComplex, Ptr (Const ty_int)]
       ''zsymm'' ty_void [Ptr (Const ty_char), Ptr (Const ty_char), Ptr (Const ty_int), Ptr (Const ty_int), Ptr (Const ty_cuDoubleComplex), Ptr (Const ty_cuDoubleComplex), Ptr (Const ty_int), Ptr (Const ty_cuDoubleComplex), Ptr (Const ty_int), Ptr (Const ty_cuDoubleComplex), Ptr ty_cuDoubleComplex, Ptr (Const ty_int)] ''zsymm'' [0, 1, 2, 3, 4, 5, 6, 7, 8, 9, 10, 11] False,
     Gen nvblas ty_void ''chemm_'' [Ptr (Const ty_char), Ptr (Const ty_char), Ptr (Const ty_int), Ptr (Const ty_int), Ptr (Const ty_cuComplex), Ptr (Const ty_cuComplex), Ptr (Const ty_int), Ptr (Const ty_cuComplex), Ptr (Const ty_int), Ptr (Const ty_cuComplex), Ptr ty_cuComplex, Ptr (Const ty_int)]
       ''chemm_'' ty_void [Ptr (Const ty_char), Ptr (Const ty_char), Ptr (Const ty_int), Ptr (Const ty_int), Ptr (Const ty_cuComplex), Ptr (Const ty_cuComplex), Ptr (Const ty_int), Ptr (Const ty_cuComplex), Ptr (Const ty_int), Ptr (Const ty_cuComplex), Ptr ty_cuComplex, Ptr (Const ty_int)] ''chemm_'' [0, 1, 2, 3, 4, 5, 6, 7, 8, 9, 10, 11] False]"

definition nvblas_hooks_4 :: "gen_hook list" where
  "nvblas_hooks_4 =
    [Gen nvblas ty_void ''zhemm_'' [Ptr (Const ty_char), Ptr (Const ty_char), Ptr (Const ty_int), Ptr (Const ty_int), Ptr (Const ty_cuDoubleComplex), Ptr (Const ty_cuDoubleComplex), Ptr (Const ty_int), Ptr (Const ty_cuDoubleComplex), Ptr (Const ty_int), Ptr (Const ty_cuDoubleComplex), Ptr ty_cuDoubleComplex, Ptr (Const ty_int)]
       ''zhemm_'' ty_void [Ptr (Const ty_char), Ptr (Const ty_char), Ptr (Const ty_int), Ptr (Const ty_int), Ptr (Const ty_cuDoubleComplex), Ptr (Const ty_cuDoubleComplex), Ptr (Const ty_int), Ptr (Const ty_cuDoubleComplex), Ptr (Const ty_int), Ptr (Const ty_cuDoubleComplex), Ptr ty_cuDoubleComplex, Ptr (Const ty_int)] ''zhemm_'' [0, 1, 2, 3, 4, 5, 6, 7, 8, 9, 10, 11] False,
     Gen nvblas ty_void ''chemm'' [Ptr (Const ty_char), Ptr (Const ty_char), Ptr (Const ty_int), Ptr (Const ty_int), Ptr (Const ty_cuComplex), Ptr (Const ty_cuComplex), Ptr (Const ty_int), Ptr (Const ty_cuComplex), Ptr (Const ty_int), Ptr (Const ty_cuComplex), Ptr ty_cuComplex, Ptr (Const ty_int)]
       ''chemm'' ty_void [Ptr (Const ty_char), Ptr (Const ty_char), Ptr (Const ty_int), Ptr (Const ty_int), Ptr (Const ty_cuComplex), Ptr (Const ty_cuComplex), Ptr (Const ty_int), Ptr (Const ty_cuComplex), Ptr (Const ty_int), Ptr (Const ty_cuComplex), Ptr ty_cuComplex, Ptr (Const ty_int)] ''chemm'' [0, 1, 2, 3, 4, 5, 6, 7, 8, 9, 10, 11] False,
     Gen nvblas ty_void ''zhemm'' [Ptr (Const ty_char), Ptr (Const ty_char), Ptr (Const ty_int), Ptr (Const ty_int), Ptr (Const ty_cuDoubleComplex), Ptr (Const ty_cuDoubleComplex), Ptr (Const ty_int), Ptr (Const ty_cuDoubleComplex), Ptr (Const ty_int), Ptr (Const ty_cuDoubleComplex), Ptr ty_cuDoubleComplex, Ptr (Const ty_int)]
       ''zhemm'' ty_void [Ptr (Const ty_char), Ptr (Const ty_char), Ptr (Const ty_int), Ptr (Const ty_int), Ptr (Const ty_cuDoubleComplex), Ptr (Const ty_cuDoubleComplex), Ptr (Const ty_int), Ptr (Const ty_cuDoubleComplex), Ptr (Const ty_int), Ptr (Const ty_cuDoubleComplex), Ptr ty_cuDoubleComplex, Ptr (Const ty_int)] ''zhemm'' [0, 1, 2, 3, 4, 5, 6, 7, 8, 9, 10, 11] False,
     Gen nvblas ty_void ''ssyr2k_'' [Ptr (Const ty_char), Ptr (Const ty_char), Ptr (Const ty_int), Ptr (Const ty_int), Ptr (Const ty_float), Ptr (Const ty_float), Ptr (Const ty_int), Ptr (Const ty_float), Ptr (Const ty_int), Ptr (Const ty_float), Ptr ty_float, Ptr (Const ty_int)]
       ''ssyr2k_'' ty_void [Ptr (Const ty_char), Ptr (Const ty_char), Ptr (Const ty_int), Ptr (Const ty_int), Ptr (Const ty_float), Ptr (Const ty_float), Ptr (Const ty_int), Ptr (Const ty_float), Ptr (Const ty_int), Ptr (Const ty_float), Ptr ty_float, Ptr (Const ty_int)] ''ssyr2k_'' [0, 1, 2, 3, 4, 5, 6, 7, 8, 9, 10, 11] False,
     Gen nvblas ty_void ''dsyr2k_'' [Ptr (Const ty_char), Ptr (Const ty_char), Ptr (Const ty_int), Ptr (Const ty_int), Ptr (Const ty_double), Ptr (Const ty_double), Ptr (Const ty_int), Ptr (Const ty_double), Ptr (Const ty_int), Ptr (Const ty_double), Ptr ty_double, Ptr (Const ty_int)]
       ''dsyr2k_'' ty_void [Ptr (Const ty_char), Ptr (Const ty_char), Ptr (Const ty_int), Ptr (Const ty_int), Ptr (Const ty_double), Ptr (Const ty_double), Ptr (Const ty_int), Ptr (Const ty_double), Ptr (Const ty_int), Ptr (Const ty_double), Ptr ty_double, Ptr (Const ty_int)] ''dsyr2k_'' [0, 1, 2, 3, 4, 5, 6, 7, 8, 9, 10, 11] False,
     Gen nvblas ty_void ''csyr2k_'' [Ptr (Const ty_char), Ptr (Const ty_char), Ptr (Const ty_int), Ptr (Const ty_int), Ptr (Const ty_cuComplex), Ptr (Const ty_cuComplex), Ptr (Const ty_int), Ptr (Const ty_cuComplex), Ptr (Const ty_int), Ptr (Const ty_cuComplex), Ptr ty_cuComplex, Ptr (Const ty_int)]
       ''csyr2k_'' ty_void [Ptr (Const ty_char), Ptr (Const ty_char), Ptr (Const ty_int), Ptr (Const ty_int), Ptr (Const ty_cuComplex), Ptr (Const ty_cuComplex), Ptr (Const ty_int), Ptr (Const ty_cuComplex), Ptr (Const ty_int), Ptr (Const ty_cuComplex), Ptr ty_cuComplex, Ptr (Const ty_int)] ''csyr2k_'' [0, 1, 2, 3, 4, 5, 6, 7, 8, 9, 10, 11] False,
     Gen nvblas ty_void ''zsyr2k_'' [Ptr (Const ty_char), Ptr (Const ty_char), Ptr (Const ty_int), Ptr (Const ty_int), Ptr (Const ty_cuDoubleComplex), Ptr (Const ty_cuDoubleComplex), Ptr (Const ty_int), Ptr (Const ty_cuDoubleComplex), Ptr (Const ty_int), Ptr (Const ty_cuDoubleComplex), Ptr ty_cuDoubleComplex, Ptr (Const ty_int)]
       ''zsyr2k_'' ty_void [Ptr (Const ty_char), Ptr (Const ty_char), Ptr (Const ty_int), Ptr (Const ty_int), Ptr (Const ty_cuDoubleComplex), Ptr (Const ty_cuDoubleComplex), Ptr (Const ty_int), Ptr (Const ty_cuDoubleComplex), Ptr (Const ty_int), Ptr (Const ty_cuDoubleComplex), Ptr ty_cuDoubleComplex, Ptr (Const ty_int)] ''zsyr2k_'' [0, 1, 2, 3, 4, 5, 6, 7, 8, 9, 10, 11] False,
     Gen nvblas ty_void ''ssyr2k'' [Ptr (Const ty_char), Ptr (Const ty_char), Ptr (Const ty_int), Ptr (Const ty_int), Ptr (Const ty_float), Ptr (Const ty_float), Ptr (Const ty_int), Ptr (Const ty_float), Ptr (Const ty_int), Ptr (Const ty_float), Ptr ty_float, Ptr (Const ty_int)]
       ''ssyr2k'' ty_void [Ptr (Const ty_char), Ptr (Const ty_char), Ptr (Const ty_int), Ptr (Const ty_int), Ptr (Const ty_float), Ptr (Const ty_float), Ptr (Const ty_int), Ptr (Const ty_float), Ptr (Const ty_int), Ptr (Const ty_float), Ptr ty_float, Ptr (Const ty_int)] ''ssyr2k'' [0, 1, 2, 3, 4, 5, 6, 7, 8, 9, 10, 11] False,
     Gen nvblas ty_void ''dsyr2k'' [Ptr (Const ty_char), Ptr (Const ty_char), Ptr (Const ty_int), Ptr (Const ty_int), Ptr (Const ty_double), Ptr (Const ty_double), Ptr (Const ty_int), Ptr (Const ty_double), Ptr (Const ty_int), Ptr (Const ty_double), Ptr ty_double, Ptr (Const ty_int)]
       ''dsyr2k'' ty_void [Ptr (Const ty_char), Ptr (Const ty_char), Ptr (Const ty_int), Ptr (Const ty_int), Ptr (Const ty_double), Ptr (Const ty_double), Ptr (Const ty_int), Ptr (Const ty_double), Ptr (Const ty_int), Ptr (Const ty_double), Ptr ty_double, Ptr (Const ty_int)] ''dsyr2k'' [0, 1, 2, 3, 4, 5, 6, 7, 8, 9, 10, 11] False,
     Gen nvblas ty_void ''csyr2k'' [Ptr (Const ty_char), Ptr (Const ty_char), Ptr (Const ty_int), Ptr (Const ty_int), Ptr (Const ty_cuComplex), Ptr (Const ty_cuComplex), Ptr (Const ty_int), Ptr (Const ty_cuComplex), Ptr (Const ty_int), Ptr (Const ty_cuComplex), Ptr ty_cuComplex, Ptr (Const ty_int)]
       ''csyr2k'' ty_void [Ptr (Const ty_char), Ptr (Const ty_char), Ptr (Const ty_int), Ptr (Const ty_int), Ptr (Const ty_cuComplex), Ptr (Const ty_cuComplex), Ptr (Const ty_int), Ptr (Const ty_cuComplex), Ptr (Const ty_int), Ptr (Const ty_cuComplex), Ptr ty_cuComplex, Ptr (Const ty_int)] ''csyr2k'' [0, 1, 2, 3, 4, 5, 6, 7, 8, 9, 10, 11] False,
     Gen nvblas ty_void ''zsyr2k'' [Ptr (Const ty_char), Ptr (Const ty_char), Ptr (Const ty_int), Ptr (Const ty_int), Ptr (Const ty_cuDoubleComplex), Ptr (Const ty_cuDoubleComplex), Ptr (Const ty_int), Ptr (Const ty_cuDoubleComplex), Ptr (Const ty_int), Ptr (Const ty_cuDoubleComplex), Ptr ty_cuDoubleComplex, Ptr (Const ty_int)]
       ''zsyr2k'' ty_void [Ptr (Const ty_char), Ptr (Const ty_char), Ptr (Const ty_int), Ptr (Const ty_int), Ptr (Const ty_cuDoubleComplex), Ptr (Const ty_cuDoubleComplex), Ptr (Const ty_int), Ptr (Const ty_cuDoubleComplex), Ptr (Const ty_int), Ptr (Const ty_cuDoubleComplex), Ptr ty_cuDoubleComplex, Ptr (Const ty_int)] ''zsyr2k'' [0, 1, 2, 3, 4, 5, 6, 7, 8, 9, 10, 11] False,
     Gen nvblas ty_void ''cher2k_'' [Ptr (Const ty_char), Ptr (Const ty_char), Ptr (Const ty_int), Ptr (Const ty_int), Ptr (Const ty_cuComplex), Ptr (Const ty_cuComplex), Ptr (Const ty_int), Ptr (Const ty_cuComplex), Ptr (Const ty_int), Ptr (Const ty_float), Ptr ty_cuComplex, Ptr (Const ty_int)]
       ''cher2k_'' ty_void [Ptr (Const ty_char), Ptr (Const ty_char), Ptr (Const ty_int), Ptr (Const ty_int), Ptr (Const ty_cuComplex), Ptr (Const ty_cuComplex), Ptr (Const ty_int), Ptr (Const ty_cuComplex), Ptr (Const ty_int), Ptr (Const ty_float), Ptr ty_cuComplex, Ptr (Const ty_int)] ''cher2k_'' [0, 1, 2, 3, 4, 5, 6, 7, 8, 9, 10, 11] False]"

definition nvblas_hooks_5 :: "gen_hook list" where
  "nvblas_hooks_5 =
    [Gen nvblas ty_void ''zher2k_'' [Ptr (Const ty_char), Ptr (Const ty_char), Ptr (Const ty_int), Ptr (Const ty_int), Ptr (Const ty_cuDoubleComplex), Ptr (Const ty_cuDoubleComplex), Ptr (Const ty_int), Ptr (Const ty_cuDoubleComplex), Ptr (Const ty_int), Ptr (Const ty_double), Ptr ty_cuDoubleComplex, Ptr (Const ty_int)]
       ''zher2k_'' ty_void [Ptr (Const ty_char), Ptr (Const ty_char), Ptr (Const ty_int), Ptr (Const ty_int), Ptr (Const ty_cuDoubleComplex), Ptr (Const ty_cuDoubleComplex), Ptr (Const ty_int), Ptr (Const ty_cuDoubleComplex), Ptr (Const ty_int), Ptr (Const ty_double), Ptr ty_cuDoubleComplex, Ptr (Const ty_int)] ''zher2k_'' [0, 1, 2, 3, 4, 5, 6, 7, 8, 9, 10, 11] False,
     Gen nvblas ty_void ''cher2k'' [Ptr (Const ty_char), Ptr (Const ty_char), Ptr (Const ty_int), Ptr (Const ty_int), Ptr (Const ty_cuComplex), Ptr (Const ty_cuComplex), Ptr (Const ty_int), Ptr (Const ty_cuComplex), Ptr (Const ty_int), Ptr (Const ty_float), Ptr ty_cuComplex, Ptr (Const ty_int)]
       ''cher2k'' ty_void [Ptr (Const ty_char), Ptr (Const ty_char), Ptr (Const ty_int), Ptr (Const ty_int), Ptr (Const ty_cuComplex), Ptr (Const ty_cuComplex), Ptr (Const ty_int), Ptr (Const ty_cuComplex), Ptr (Const ty_int), Ptr (Const ty_float), Ptr ty_cuComplex, Ptr (Const ty_int)] ''cher2k'' [0, 1, 2, 3, 4, 5, 6, 7, 8, 9, 10, 11] False,
     Gen nvblas ty_void ''zher2k'' [Ptr (Const ty_char), Ptr (Const ty_char), Ptr (Const ty_int), Ptr (Const ty_int), Ptr (Const ty_cuDoubleComplex), Ptr (Const ty_cuDoubleComplex), Ptr (Const ty_int), Ptr (Const ty_cuDoubleComplex), Ptr (Const ty_int), Ptr (Const ty_double), Ptr ty_cuDoubleComplex, Ptr (Const ty_int)]
       ''zher2k'' ty_void [Ptr (Const ty_char), Ptr (Const ty_char), Ptr (Const ty_int), Ptr (Const ty_int), Ptr (Const ty_cuDoubleComplex), Ptr (Const ty_cuDoubleComplex), Ptr (Const ty_int), Ptr (Const ty_cuDoubleComplex), Ptr (Const ty_int), Ptr (Const ty_double), Ptr ty_cuDoubleComplex, Ptr (Const ty_int)] ''zher2k'' [0, 1, 2, 3, 4, 5, 6, 7, 8, 9, 10, 11] False,
     Gen nvblas ty_void ''strmm_'' [Ptr (Const ty_char), Ptr (Const ty_char), Ptr (Const ty_char), Ptr (Const ty_char), Ptr (Const ty_int), Ptr (Const ty_int), Ptr (Const ty_float), Ptr (Const ty_float), Ptr (Const ty_int), Ptr ty_float, Ptr (Const ty_int)]
       ''strmm_'' ty_void [Ptr (Const ty_char), Ptr (Const ty_char), Ptr (Const ty_char), Ptr (Const ty_char), Ptr (Const ty_int), Ptr (Const ty_int), Ptr (Const ty_float), Ptr (Const ty_float), Ptr (Const ty_int), Ptr ty_float, Ptr (Const ty_int)] ''strmm_'' [0, 1, 2, 3, 4, 5, 6, 7, 8, 9, 10] False,
     Gen nvblas ty_void ''dtrmm_'' [Ptr (Const ty_char), Ptr (Const ty_char), Ptr (Const ty_char), Ptr (Const ty_char), Ptr (Const ty_int), Ptr (Const ty_int), Ptr (Const ty_double), Ptr (Const ty_double), Ptr (Const ty_int), Ptr ty_double, Ptr (Const ty_int)]
       ''dtrmm_'' ty_void [Ptr (Const ty_char), Ptr (Const ty_char), Ptr (Const ty_char), Ptr (Const ty_char), Ptr (Const ty_int), Ptr (Const ty_int), Ptr (Const ty_double), Ptr (Const ty_double), Ptr (Const ty_int), Ptr ty_double, Ptr (Const ty_int)] ''dtrmm_'' [0, 1, 2, 3, 4, 5, 6, 7, 8, 9, 10] False,
     Gen nvblas ty_void ''ctrmm_'' [Ptr (Const ty_char), Ptr (Const ty_char), Ptr (Const ty_char), Ptr (Const ty_char), Ptr (Const ty_int), Ptr (Const ty_int), Ptr (Const ty_cuComplex), Ptr (Const ty_cuComplex), Ptr (Const ty_int), Ptr ty_cuComplex, Ptr (Const ty_int)]
       ''ctrmm_'' ty_void [Ptr (Const ty_char), Ptr (Const ty_char), Ptr (Const ty_char), Ptr (Const ty_char), Ptr (Const ty_int), Ptr (Const ty_int), Ptr (Const ty_cuComplex), Ptr (Const ty_cuComplex), Ptr (Const ty_int), Ptr ty_cuComplex, Ptr (Const ty_int)] ''ctrmm_'' [0, 1, 2, 3, 4, 5, 6, 7, 8, 9, 10] False,
     Gen nvblas ty_void ''ztrmm_'' [Ptr (Const ty_char), Ptr (Const ty_char), Ptr (Const ty_char), Ptr (Const ty_char), Ptr (Const ty_int), Ptr (Const ty_int), Ptr (Const ty_cuDoubleComplex), Ptr (Const ty_cuDoubleComplex), Ptr (Const ty_int), Ptr ty_cuDoubleComplex, Ptr (Const ty_int)]
       ''ztrmm_'' ty_void [Ptr (Const ty_char), Ptr (Const ty_char), Ptr (Const ty_char), Ptr (Const ty_char), Ptr (Const ty_int), Ptr (Const ty_int), Ptr (Const ty_cuDoubleComplex), Ptr (Const ty_cuDoubleComplex), Ptr (Const ty_int), Ptr ty_cuDoubleComplex, Ptr (Const ty_int)] ''ztrmm_'' [0, 1, 2, 3, 4, 5, 6, 7, 8, 9, 10] False,
     Gen nvblas ty_void ''strmm'' [Ptr (Const ty_char), Ptr (Const ty_char), Ptr (Const ty_char), Ptr (Const ty_char), Ptr (Const ty_int), Ptr (Const ty_int), Ptr (Const ty_float), Ptr (Const ty_float), Ptr (Const ty_int), Ptr ty_float, Ptr (Const ty_int)]
       ''strmm'' ty_void [Ptr (Const ty_char), Ptr (Const ty_char), Ptr (Const ty_char), Ptr (Const ty_char), Ptr (Const ty_int), Ptr (Const ty_int), Ptr (Const ty_float), Ptr (Const ty_float), Ptr (Const ty_int), Ptr ty_float, Ptr (Const ty_int)] ''strmm'' [0, 1, 2, 3, 4, 5, 6, 7, 8, 9, 10] False,
     Gen nvblas ty_void ''dtrmm'' [Ptr (Const ty_char), Ptr (Const ty_char), Ptr (Const ty_char), Ptr (Const ty_char), Ptr (Const ty_int), Ptr (Const ty_int), Ptr (Const ty_double), Ptr (Const ty_double), Ptr (Const ty_int), Ptr ty_double, Ptr (Const ty_int)]
       ''dtrmm'' ty_void [Ptr (Const ty_char), Ptr (Const ty_char), Ptr (Const ty_char), Ptr (Const ty_char), Ptr (Const ty_int), Ptr (Const ty_int), Ptr (Const ty_double), Ptr (Const ty_double), Ptr (Const ty_int), Ptr ty_double, Ptr (Const ty_int)] ''dtrmm'' [0, 1, 2, 3, 4, 5, 6, 7, 8, 9, 10] False,
     Gen nvblas ty_void ''ctrmm'' [Ptr (Const ty_char), Ptr (Const ty_char), Ptr (Const ty_char), Ptr (Const ty_char), Ptr (Const ty_int), Ptr (Const ty_int), Ptr (Const ty_cuComplex), Ptr (Const ty_cuComplex), Ptr (Const ty_int), Ptr ty_cuComplex, Ptr (Const ty_int)]
       ''ctrmm'' ty_void [Ptr (Const ty_char), Ptr (Const ty_char), Ptr (Const ty_char), Ptr (Const ty_char), Ptr (Const ty_int), Ptr (Const ty_int), Ptr (Const ty_cuComplex), Ptr (Const ty_cuComplex), Ptr (Const ty_int), Ptr ty_cuComplex, Ptr (Const ty_int)] ''ctrmm'' [0, 1, 2, 3, 4, 5, 6, 7, 8, 9, 10] False,
     Gen nvblas ty_void ''ztrmm'' [Ptr (Const ty_char), Ptr (Const ty_char), Ptr (Const ty_char), Ptr (Const ty_char), Ptr (Const ty_int), Ptr (Const ty_int), Ptr (Const ty_cuDoubleComplex), Ptr (Const ty_cuDoubleComplex), Ptr (Const ty_int), Ptr ty_cuDoubleComplex, Ptr (Const ty_int)]
       ''ztrmm'' ty_void [Ptr (Const ty_char), Ptr (Const ty_char), Ptr (Const ty_char), Ptr (Const ty_char), Ptr (Const ty_int), Ptr (Const ty_int), Ptr (Const ty_cuDoubleComplex), Ptr (Const ty_cuDoubleComplex), Ptr (Const ty_int), Ptr ty_cuDoubleComplex, Ptr (Const ty_int)] ''ztrmm'' [0, 1, 2, 3, 4, 5, 6, 7, 8, 9, 10] False]"

section \<open>\<open>nvjpeg\<close>\<close>

definition nvjpeg_hooks_1 :: "gen_hook list" where
  "nvjpeg_hooks_1 =
    [Gen nvjpeg ty_nvjpegStatus_t ''nvjpegGetProperty'' [ty_libraryPropertyType, Ptr ty_int]
       ''nvjpegGetProperty'' ty_nvjpegStatus_t [ty_libraryPropertyType, Ptr ty_int] ''nvjpegGetProperty'' [0, 1] False,
     Gen nvjpeg ty_nvjpegStatus_t ''nvjpegGetCudartProperty'' [ty_libraryPropertyType, Ptr ty_int]
       ''nvjpegGetCudartProperty'' ty_nvjpegStatus_t [ty_libraryPropertyType, Ptr ty_int] ''nvjpegGetCudartProperty'' [0, 1] False,
     Gen nvjpeg ty_nvjpegStatus_t ''nvjpegCreate'' [ty_nvjpegBackend_t, Ptr ty_nvjpegDevAllocator_t, Ptr ty_nvjpegHandle_t]
       ''nvjpegCreate'' ty_nvjpegStatus_t [ty_nvjpegBackend_t, Ptr ty_nvjpegDevAllocator_t, Ptr ty_nvjpegHandle_t] ''nvjpegCreate'' [0, 1, 2] False,
     Gen nvjpeg ty_nvjpegStatus_t ''nvjpegCreateSimple'' [Ptr ty_nvjpegHandle_t]
       ''nvjpegCreateSimple'' ty_nvjpegStatus_t [Ptr ty_nvjpegHandle_t] ''nvjpegCreateSimple'' [0] False,
     Gen nvjpeg ty_nvjpegStatus_t ''nvjpegCreateEx'' [ty_nvjpegBackend_t, Ptr ty_nvjpegDevAllocator_t, Ptr ty_nvjpegPinnedAllocator_t, ty_unsigned_int, Ptr ty_nvjpegHandle_t]
       ''nvjpegCreateEx'' ty_nvjpegStatus_t [ty_nvjpegBackend_t, Ptr ty_nvjpegDevAllocator_t, Ptr ty_nvjpegPinnedAllocator_t, ty_unsigned_int, Ptr ty_nvjpegHandle_t] ''nvjpegCreateEx'' [0, 1, 2, 3, 4] False,
     Gen nvjpeg ty_nvjpegStatus_t ''nvjpegDestroy'' [ty_nvjpegHandle_t]
       ''nvjpegDestroy'' ty_nvjpegStatus_t [ty_nvjpegHandle_t] ''nvjpegDestroy'' [0] False,
     Gen nvjpeg ty_nvjpegStatus_t ''nvjpegSetDeviceMemoryPadding'' [ty_size_t, ty_nvjpegHandle_t]
       ''nvjpegSetDeviceMemoryPadding'' ty_nvjpegStatus_t [ty_size_t, ty_nvjpegHandle_t] ''nvjpegSetDeviceMemoryPadding'' [0, 1] False,
     Gen nvjpeg ty_nvjpegStatus_t ''nvjpegGetDeviceMemoryPadding'' [Ptr ty_size_t, ty_nvjpegHandle_t]
       ''nvjpegGetDeviceMemoryPadding'' ty_nvjpegStatus_t [Ptr ty_size_t, ty_nvjpegHandle_t] ''nvjpegGetDeviceMemoryPadding'' [0, 1] False,
     Gen nvjpeg ty_nvjpegStatus_t ''nvjpegSetPinnedMemoryPadding'' [ty_size_t, ty_nvjpegHandle_t]
       ''nvjpegSetPinnedMemoryPadding'' ty_nvjpegStatus_t [ty_size_t, ty_nvjpegHandle_t] ''nvjpegSetPinnedMemoryPadding'' [0, 1] False,
     Gen nvjpeg ty_nvjpegStatus_t ''nvjpegGetPinnedMemoryPadding'' [Ptr ty_size_t, ty_nvjpegHandle_t]
       ''nvjpegGetPinnedMemoryPadding'' ty_nvjpegStatus_t [Ptr ty_size_t, ty_nvjpegHandle_t] ''nvjpegGetPinnedMemoryPadding'' [0, 1] False,
     Gen nvjpeg ty_nvjpegStatus_t ''nvjpegJpegStateCreate'' [ty_nvjpegHandle_t, Ptr ty_nvjpegJpegState_t]
       ''nvjpegJpegStateCreate'' ty_nvjpegStatus_t [ty_nvjpegHandle_t, Ptr ty_nvjpegJpegState_t] ''nvjpegJpegStateCreate'' [0, 1] False,
     Gen nvjpeg ty_nvjpegStatus_t ''nvjpegJpegStateDestroy'' [ty_nvjpegJpegState_t]
       ''nvjpegJpegStateDestroy'' ty_nvjpegStatus_t [ty_nvjpegJpegState_t] ''nvjpegJpegStateDestroy'' [0] False,
     Gen nvjpeg ty_nvjpegStatus_t ''nvjpegGetImageInfo'' [ty_nvjpegHandle_t, Ptr (Const ty_unsigned_char), ty_size_t, Ptr ty_int, Ptr ty_nvjpegChromaSubsampling_t, Ptr ty_int, Ptr ty_int]
       ''nvjpegGetImageInfo'' ty_nvjpegStatus_t [ty_nvjpegHandle_t, Ptr (Const ty_unsigned_char), ty_size_t, Ptr ty_int, Ptr ty_nvjpegChromaSubsampling_t, Ptr ty_int, Ptr ty_int] ''nvjpegGetImageInfo'' [0, 1, 2, 3, 4, 5, 6] False,
     Gen nvjpeg ty_nvjpegStatus_t ''nvjpegDecode'' [ty_nvjpegHandle_t, ty_nvjpegJpegState_t, Ptr (Const ty_unsigned_char), ty_size_t, ty_nvjpegOutputFormat_t, Ptr ty_nvjpegImage_t, ty_cudaStream_t]
       ''nvjpegDecode'' ty_nvjpegStatus_t [ty_nvjpegHandle_t, ty_nvjpegJpegState_t, Ptr (Const ty_unsigned_char), ty_size_t, ty_nvjpegOutputFormat_t, Ptr ty_nvjpegImage_t, ty_cudaStream_t] ''nvjpegDecode'' [0, 1, 2, 3, 4, 5, 6] False,
     Gen nvjpeg ty_nvjpegStatus_t ''nvjpegDecodeBatchedInitialize'' [ty_nvjpegHandle_t, ty_nvjpegJpegState_t, ty_int, ty_int, ty_nvjpegOutputFormat_t]
       ''nvjpegDecodeBatchedInitialize'' ty_nvjpegStatus_t [ty_nvjpegHandle_t, ty_nvjpegJpegState_t, ty_int, ty_int, ty_nvjpegOutputFormat_t] ''nvjpegDecodeBatchedInitialize'' [0, 1, 2, 3, 4] False,
     Gen nvjpeg ty_nvjpegStatus_t ''nvjpegDecodeBatched'' [ty_nvjpegHandle_t, ty_nvjpegJpegState_t, Ptr (Const (Ptr (Const ty_unsigned_char))), Ptr (Const ty_size_t), Ptr ty_nvjpegImage_t, ty_cudaStream_t]
       ''nvjpegDecodeBatched'' ty_nvjpegStatus_t [ty_nvjpegHandle_t, ty_nvjpegJpegState_t, Ptr (Const (Ptr (Const ty_unsigned_char))), Ptr (Const ty_size_t), Ptr ty_nvjpegImage_t, ty_cudaStream_t] ''nvjpegDecodeBatched'' [0, 1, 2, 3, 4, 5] False]"

definition nvjpeg_hooks_2 :: "gen_hook list" where
  "nvjpeg_hooks_2 =
    [Gen nvjpeg ty_nvjpegStatus_t ''nvjpegDecodeBatchedPreAllocate'' [ty_nvjpegHandle_t, ty_nvjpegJpegState_t, ty_int, ty_int, ty_int, ty_nvjpegChromaSubsampling_t, ty_nvjpegOutputFormat_t]
       ''nvjpegDecodeBatchedPreAllocate'' ty_nvjpegStatus_t [ty_nvjpegHandle_t, ty_nvjpegJpegState_t, ty_int, ty_int, ty_int, ty_nvjpegChromaSubsampling_t, ty_nvjpegOutputFormat_t] ''nvjpegDecodeBatchedPreAllocate'' [0, 1, 2, 3, 4, 5, 6] False,
     Gen nvjpeg ty_nvjpegStatus_t ''nvjpegEncoderStateCreate'' [ty_nvjpegHandle_t, Ptr ty_nvjpegEncoderState_t, ty_cudaStream_t]
       ''nvjpegEncoderStateCreate'' ty_nvjpegStatus_t [ty_nvjpegHandle_t, Ptr ty_nvjpegEncoderState_t, ty_cudaStream_t] ''nvjpegEncoderStateCreate'' [0, 1, 2] False,
     Gen nvjpeg ty_nvjpegStatus_t ''nvjpegEncoderStateDestroy'' [ty_nvjpegEncoderState_t]
       ''nvjpegEncoderStateDestroy'' ty_nvjpegStatus_t [ty_nvjpegEncoderState_t] ''nvjpegEncoderStateDestroy'' [0] False,
     Gen nvjpeg ty_nvjpegStatus_t ''nvjpegEncoderParamsCreate'' [ty_nvjpegHandle_t, Ptr ty_nvjpegEncoderParams_t, ty_cudaStream_t]
       ''nvjpegEncoderParamsCreate'' ty_nvjpegStatus_t [ty_nvjpegHandle_t, Ptr ty_nvjpegEncoderParams_t, ty_cudaStream_t] ''nvjpegEncoderParamsCreate'' [0, 1, 2] False,
     Gen nvjpeg ty_nvjpegStatus_t ''nvjpegEncoderParamsDestroy'' [ty_nvjpegEncoderParams_t]
       ''nvjpegEncoderParamsDestroy'' ty_nvjpegStatus_t [ty_nvjpegEncoderParams_t] ''nvjpegEncoderParamsDestroy'' [0] False,
     Gen nvjpeg ty_nvjpegStatus_t ''nvjpegEncoderParamsSetQuality'' [ty_nvjpegEncoderParams_t, Const ty_int, ty_cudaStream_t]
       ''nvjpegEncoderParamsSetQuality'' ty_nvjpegStatus_t [ty_nvjpegEncoderParams_t, Const ty_int, ty_cudaStream_t] ''nvjpegEncoderParamsSetQuality'' [0, 1, 2] False,
     Gen nvjpeg ty_nvjpegStatus_t ''nvjpegEncoderParamsSetEncoding'' [ty_nvjpegEncoderParams_t, ty_nvjpegJpegEncoding_t, ty_cudaStream_t]
       ''nvjpegEncoderParamsSetEncoding'' ty_nvjpegStatus_t [ty_nvjpegEncoderParams_t, ty_nvjpegJpegEncoding_t, ty_cudaStream_t] ''nvjpegEncoderParamsSetEncoding'' [0, 1, 2] False,
     Gen nvjpeg ty_nvjpegStatus_t ''nvjpegEncoderParamsSetOptimizedHuffman'' [ty_nvjpegEncoderParams_t, Const ty_int, ty_cudaStream_t]
       ''nvjpegEncoderParamsSetOptimizedHuffman'' ty_nvjpegStatus_t [ty_nvjpegEncoderParams_t, Const ty_int, ty_cudaStream_t] ''nvjpegEncoderParamsSetOptimizedHuffman'' [0, 1, 2] False,
     Gen nvjpeg ty_nvjpegStatus_t ''nvjpegEncoderParamsSetSamplingFactors'' [ty_nvjpegEncoderParams_t, Const ty_nvjpegChromaSubsampling_t, ty_cudaStream_t]
       ''nvjpegEncoderParamsSetSamplingFactors'' ty_nvjpegStatus_t [ty_nvjpegEncoderParams_t, Const ty_nvjpegChromaSubsampling_t, ty_cudaStream_t] ''nvjpegEncoderParamsSetSamplingFactors'' [0, 1, 2] False,
     Gen nvjpeg ty_nvjpegStatus_t ''nvjpegEncodeGetBufferSize'' [ty_nvjpegHandle_t, Const ty_nvjpegEncoderParams_t, ty_int, ty_int, Ptr ty_size_t]
       ''nvjpegEncodeGetBufferSize'' ty_nvjpegStatus_t [ty_nvjpegHandle_t, Const ty_nvjpegEncoderParams_t, ty_int, ty_int, Ptr ty_size_t] ''nvjpegEncodeGetBufferSize'' [0, 1, 2, 3, 4] False,
     Gen nvjpeg ty_nvjpegStatus_t ''nvjpegEncodeYUV'' [ty_nvjpegHandle_t, ty_nvjpegEncoderState_t, Const ty_nvjpegEncoderParams_t, Ptr (Const ty_nvjpegImage_t), ty_nvjpegChromaSubsampling_t, ty_int, ty_int, ty_cudaStream_t]
       ''nvjpegEncodeYUV'' ty_nvjpegStatus_t [ty_nvjpegHandle_t, ty_nvjpegEncoderState_t, Const ty_nvjpegEncoderParams_t, Ptr (Const ty_nvjpegImage_t), ty_nvjpegChromaSubsampling_t, ty_int, ty_int, ty_cudaStream_t] ''nvjpegEncodeYUV'' [0, 1, 2, 3, 4, 5, 6, 7] False,
     Gen nvjpeg ty_nvjpegStatus_t ''nvjpegEncodeImage'' [ty_nvjpegHandle_t, ty_nvjpegEncoderState_t, Const ty_nvjpegEncoderParams_t, Ptr (Const ty_nvjpegImage_t), ty_nvjpegInputFormat_t, ty_int, ty_int, ty_cudaStream_t]
       ''nvjpegEncodeImage'' ty_nvjpegStatus_t [ty_nvjpegHandle_t, ty_nvjpegEncoderState_t, Const ty_nvjpegEncoderParams_t, Ptr (Const ty_nvjpegImage_t), ty_nvjpegInputFormat_t, ty_int, ty_int, ty_cudaStream_t] ''nvjpegEncodeImage'' [0, 1, 2, 3, 4, 5, 6, 7] False,
     Gen nvjpeg ty_nvjpegStatus_t ''nvjpegEncodeRetrieveBitstreamDevice'' [ty_nvjpegHandle_t, ty_nvjpegEncoderState_t, Ptr ty_unsigned_char, Ptr ty_size_t, ty_cudaStream_t]
       ''nvjpegEncodeRetrieveBitstreamDevice'' ty_nvjpegStatus_t [ty_nvjpegHandle_t, ty_nvjpegEncoderState_t, Ptr ty_unsigned_char, Ptr ty_size_t, ty_cudaStream_t] ''nvjpegEncodeRetrieveBitstreamDevice'' [0, 1, 2, 3, 4] False,
     Gen nvjpeg ty_nvjpegStatus_t ''nvjpegEncodeRetrieveBitstream'' [ty_nvjpegHandle_t, ty_nvjpegEncoderState_t, Ptr ty_unsigned_char, Ptr ty_size_t, ty_cudaStream_t]
       ''nvjpegEncodeRetrieveBitstream'' ty_nvjpegStatus_t [ty_nvjpegHandle_t, ty_nvjpegEncoderState_t, Ptr ty_unsigned_char, Ptr ty_size_t, ty_cudaStream_t] ''nvjpegEncodeRetrieveBitstream'' [0, 1, 2, 3, 4] False]"

definition nvjpeg_hooks_3 :: "gen_hook list" where
  "nvjpeg_hooks_3 =
    [Gen nvjpeg ty_nvjpegStatus_t ''nvjpegBufferPinnedCreate'' [ty_nvjpegHandle_t, Ptr ty_nvjpegPinnedAllocator_t, Ptr ty_nvjpegBufferPinned_t]
       ''nvjpegBufferPinnedCreate'' ty_nvjpegStatus_t [ty_nvjpegHandle_t, Ptr ty_nvjpegPinnedAllocator_t, Ptr ty_nvjpegBufferPinned_t] ''nvjpegBufferPinnedCreate'' [0, 1, 2] False,
     Gen nvjpeg ty_nvjpegStatus_t ''nvjpegBufferPinnedDestroy'' [ty_nvjpegBufferPinned_t]
       ''nvjpegBufferPinnedDestroy'' ty_nvjpegStatus_t [ty_nvjpegBufferPinned_t] ''nvjpegBufferPinnedDestroy'' [0] False,
     Gen nvjpeg ty_nvjpegStatus_t ''nvjpegBufferDeviceCreate'' [ty_nvjpegHandle_t, Ptr ty_nvjpegDevAllocator_t, Ptr ty_nvjpegBufferDevice_t]
       ''nvjpegBufferDeviceCreate'' ty_nvjpegStatus_t [ty_nvjpegHandle_t, Ptr ty_nvjpegDevAllocator_t, Ptr ty_nvjpegBufferDevice_t] ''nvjpegBufferDeviceCreate'' [0, 1, 2] False,
     Gen nvjpeg ty_nvjpegStatus_t ''nvjpegBufferDeviceDestroy'' [ty_nvjpegBufferDevice_t]
       ''nvjpegBufferDeviceDestroy'' ty_nvjpegStatus_t [ty_nvjpegBufferDevice_t] ''nvjpegBufferDeviceDestroy'' [0] False,
     Gen nvjpeg ty_nvjpegStatus_t ''nvjpegBufferPinnedRetrieve'' [ty_nvjpegBufferPinned_t, Ptr ty_size_t, Ptr (Ptr ty_void)]
       ''nvjpegBufferPinnedRetrieve'' ty_nvjpegStatus_t [ty_nvjpegBufferPinned_t, Ptr ty_size_t, Ptr (Ptr ty_void)] ''nvjpegBufferPinnedRetrieve'' [0, 1, 2] False,
     Gen nvjpeg ty_nvjpegStatus_t ''nvjpegBufferDeviceRetrieve'' [ty_nvjpegBufferDevice_t, Ptr ty_size_t, Ptr (Ptr ty_void)]
       ''nvjpegBufferDeviceRetrieve'' ty_nvjpegStatus_t [ty_nvjpegBufferDevice_t, Ptr ty_size_t, Ptr (Ptr ty_void)] ''nvjpegBufferDeviceRetrieve'' [0, 1, 2] False,
     Gen nvjpeg ty_nvjpegStatus_t ''nvjpegStateAttachPinnedBuffer'' [ty_nvjpegJpegState_t, ty_nvjpegBufferPinned_t]
       ''nvjpegStateAttachPinnedBuffer'' ty_nvjpegStatus_t [ty_nvjpegJpegState_t, ty_nvjpegBufferPinned_t] ''nvjpegStateAttachPinnedBuffer'' [0, 1] False,
     Gen nvjpeg ty_nvjpegStatus_t ''nvjpegStateAttachDeviceBuffer'' [ty_nvjpegJpegState_t, ty_nvjpegBufferDevice_t]
       ''nvjpegStateAttachDeviceBuffer'' ty_nvjpegStatus_t [ty_nvjpegJpegState_t, ty_nvjpegBufferDevice_t] ''nvjpegStateAttachDeviceBuffer'' [0, 1] False,
     Gen nvjpeg ty_nvjpegStatus_t ''nvjpegJpegStreamCreate'' [ty_nvjpegHandle_t, Ptr ty_nvjpegJpegStream_t]
       ''nvjpegJpegStreamCreate'' ty_nvjpegStatus_t [ty_nvjpegHandle_t, Ptr ty_nvjpegJpegStream_t] ''nvjpegJpegStreamCreate'' [0, 1] False,
     Gen nvjpeg ty_nvjpegStatus_t ''nvjpegJpegStreamDestroy'' [ty_nvjpegJpegStream_t]
       ''nvjpegJpegStreamDestroy'' ty_nvjpegStatus_t [ty_nvjpegJpegStream_t] ''nvjpegJpegStreamDestroy'' [0] False,
     Gen nvjpeg ty_nvjpegStatus_t ''nvjpegJpegStreamParse'' [ty_nvjpegHandle_t, Ptr (Const ty_unsigned_char), ty_size_t, ty_int, ty_int, ty_nvjpegJpegStream_t]
       ''nvjpegJpegStreamParse'' ty_nvjpegStatus_t [ty_nvjpegHandle_t, Ptr (Const ty_unsigned_char), ty_size_t, ty_int, ty_int, ty_nvjpegJpegStream_t] ''nvjpegJpegStreamParse'' [0, 1, 2, 3, 4, 5] False,
     Gen nvjpeg ty_nvjpegStatus_t ''nvjpegJpegStreamParseHeader'' [ty_nvjpegHandle_t, Ptr (Const ty_unsigned_char), ty_size_t, ty_nvjpegJpegStream_t]
       ''nvjpegJpegStreamParseHeader'' ty_nvjpegStatus_t [ty_nvjpegHandle_t, Ptr (Const ty_unsigned_char), ty_size_t, ty_nvjpegJpegStream_t] ''nvjpegJpegStreamParseHeader'' [0, 1, 2, 3] False,
     Gen nvjpeg ty_nvjpegStatus_t ''nvjpegJpegStreamGetJpegEncoding'' [ty_nvjpegJpegStream_t, Ptr ty_nvjpegJpegEncoding_t]
       ''nvjpegJpegStreamGetJpegEncoding'' ty_nvjpegStatus_t [ty_nvjpegJpegStream_t, Ptr ty_nvjpegJpegEncoding_t] ''nvjpegJpegStreamGetJpegEncoding'' [0, 1] False,
     Gen nvjpeg ty_nvjpegStatus_t ''nvjpegJpegStreamGetFrameDimensions'' [ty_nvjpegJpegStream_t, Ptr ty_unsigned_int, Ptr ty_unsigned_int]
       ''nvjpegJpegStreamGetFrameDimensions'' ty_nvjpegStatus_t [ty_nvjpegJpegStream_t, Ptr ty_unsigned_int, Ptr ty_unsigned_int] ''nvjpegJpegStreamGetFrameDimensions'' [0, 1, 2] False,
     Gen nvjpeg ty_nvjpegStatus_t ''nvjpegJpegStreamGetComponentsNum'' [ty_nvjpegJpegStream_t, Ptr ty_unsigned_int]
       ''nvjpegJpegStreamGetComponentsNum'' ty_nvjpegStatus_t [ty_nvjpegJpegStream_t, Ptr ty_unsigned_int] ''nvjpegJpegStreamGetComponentsNum'' [0, 1] False,
     Gen nvjpeg ty_nvjpegStatus_t ''nvjpegJpegStreamGetComponentDimensions'' [ty_nvjpegJpegStream_t, ty_unsigned_int, Ptr ty_unsigned_int, Ptr ty_unsigned_int]
       ''nvjpegJpegStreamGetComponentDimensions'' ty_nvjpegStatus_t [ty_nvjpegJpegStream_t, ty_unsigned_int, Ptr ty_unsigned_int, Ptr ty_unsigned_int] ''nvjpegJpegStreamGetComponentDimensions'' [0, 1, 2, 3] False]"

definition nvjpeg_hooks_4 :: "gen_hook list" where
  "nvjpeg_hooks_4 =
    [Gen nvjpeg ty_nvjpegStatus_t ''nvjpegJpegStreamGetChromaSubsampling'' [ty_nvjpegJpegStream_t, Ptr ty_nvjpegChromaSubsampling_t]
       ''nvjpegJpegStreamGetChromaSubsampling'' ty_nvjpegStatus_t [ty_nvjpegJpegStream_t, Ptr ty_nvjpegChromaSubsampling_t] ''nvjpegJpegStreamGetChromaSubsampling'' [0, 1] False,
     Gen nvjpeg ty_nvjpegStatus_t ''nvjpegDecodeParamsCreate'' [ty_nvjpegHandle_t, Ptr ty_nvjpegDecodeParams_t]
       ''nvjpegDecodeParamsCreate'' ty_nvjpegStatus_t [ty_nvjpegHandle_t, Ptr ty_nvjpegDecodeParams_t] ''nvjpegDecodeParamsCreate'' [0, 1] False,
     Gen nvjpeg ty_nvjpegStatus_t ''nvjpegDecodeParamsDestroy'' [ty_nvjpegDecodeParams_t]
       ''nvjpegDecodeParamsDestroy'' ty_nvjpegStatus_t [ty_nvjpegDecodeParams_t] ''nvjpegDecodeParamsDestroy'' [0] False,
     Gen nvjpeg ty_nvjpegStatus_t ''nvjpegDecodeParamsSetOutputFormat'' [ty_nvjpegDecodeParams_t, ty_nvjpegOutputFormat_t]
       ''nvjpegDecodeParamsSetOutputFormat'' ty_nvjpegStatus_t [ty_nvjpegDecodeParams_t, ty_nvjpegOutputFormat_t] ''nvjpegDecodeParamsSetOutputFormat'' [0, 1] False,
     Gen nvjpeg ty_nvjpegStatus_t ''nvjpegDecodeParamsSetROI'' [ty_nvjpegDecodeParams_t, ty_int, ty_int, ty_int, ty_int]
       ''nvjpegDecodeParamsSetROI'' ty_nvjpegStatus_t [ty_nvjpegDecodeParams_t, ty_int, ty_int, ty_int, ty_int] ''nvjpegDecodeParamsSetROI'' [0, 1, 2, 3, 4] False,
     Gen nvjpeg ty_nvjpegStatus_t ''nvjpegDecodeParamsSetAllowCMYK'' [ty_nvjpegDecodeParams_t, ty_int]
       ''nvjpegDecodeParamsSetAllowCMYK'' ty_nvjpegStatus_t [ty_nvjpegDecodeParams_t, ty_int] ''nvjpegDecodeParamsSetAllowCMYK'' [0, 1] False,
     Gen nvjpeg ty_nvjpegStatus_t ''nvjpegDecodeParamsSetScaleFactor'' [ty_nvjpegDecodeParams_t, ty_nvjpegScaleFactor_t]
       ''nvjpegDecodeParamsSetScaleFactor'' ty_nvjpegStatus_t [ty_nvjpegDecodeParams_t, ty_nvjpegScaleFactor_t] ''nvjpegDecodeParamsSetScaleFactor'' [0, 1] False,
     Gen nvjpeg ty_nvjpegStatus_t ''nvjpegDecoderCreate'' [ty_nvjpegHandle_t, ty_nvjpegBackend_t, Ptr ty_nvjpegJpegDecoder_t]
       ''nvjpegDecoderCreate'' ty_nvjpegStatus_t [ty_nvjpegHandle_t, ty_nvjpegBackend_t, Ptr ty_nvjpegJpegDecoder_t] ''nvjpegDecoderCreate'' [0, 1, 2] False,
     Gen nvjpeg ty_nvjpegStatus_t ''nvjpegDecoderDestroy'' [ty_nvjpegJpegDecoder_t]
       ''nvjpegDecoderDestroy'' ty_nvjpegStatus_t [ty_nvjpegJpegDecoder_t] ''nvjpegDecoderDestroy'' [0] False,
     Gen nvjpeg ty_nvjpegStatus_t ''nvjpegDecoderJpegSupported'' [ty_nvjpegJpegDecoder_t, ty_nvjpegJpegStream_t, ty_nvjpegDecodeParams_t, Ptr ty_int]
       ''nvjpegDecoderJpegSupported'' ty_nvjpegStatus_t [ty_nvjpegJpegDecoder_t, ty_nvjpegJpegStream_t, ty_nvjpegDecodeParams_t, Ptr ty_int] ''nvjpegDecoderJpegSupported'' [0, 1, 2, 3] False,
     Gen nvjpeg ty_nvjpegStatus_t ''nvjpegDecodeBatchedSupported'' [ty_nvjpegHandle_t, ty_nvjpegJpegStream_t, Ptr ty_int]
       ''nvjpegDecodeBatchedSupported'' ty_nvjpegStatus_t [ty_nvjpegHandle_t, ty_nvjpegJpegStream_t, Ptr ty_int] ''nvjpegDecodeBatchedSupported'' [0, 1, 2] False,
     Gen nvjpeg ty_nvjpegStatus_t ''nvjpegDecodeBatchedSupportedEx'' [ty_nvjpegHandle_t, ty_nvjpegJpegStream_t, ty_nvjpegDecodeParams_t, Ptr ty_int]
       ''nvjpegDecodeBatchedSupportedEx'' ty_nvjpegStatus_t [ty_nvjpegHandle_t, ty_nvjpegJpegStream_t, ty_nvjpegDecodeParams_t, Ptr ty_int] ''nvjpegDecodeBatchedSupportedEx'' [0, 1, 2, 3] False,
     Gen nvjpeg ty_nvjpegStatus_t ''nvjpegDecoderStateCreate'' [ty_nvjpegHandle_t, ty_nvjpegJpegDecoder_t, Ptr ty_nvjpegJpegState_t]
       ''nvjpegDecoderStateCreate'' ty_nvjpegStatus_t [ty_nvjpegHandle_t, ty_nvjpegJpegDecoder_t, Ptr ty_nvjpegJpegState_t] ''nvjpegDecoderStateCreate'' [0, 1, 2] False,
     Gen nvjpeg ty_nvjpegStatus_t ''nvjpegDecodeJpeg'' [ty_nvjpegHandle_t, ty_nvjpegJpegDecoder_t, ty_nvjpegJpegState_t, ty_nvjpegJpegStream_t, Ptr ty_nvjpegImage_t, ty_nvjpegDecodeParams_t, ty_cudaStream_t]
       ''nvjpegDecodeJpeg'' ty_nvjpegStatus_t [ty_nvjpegHandle_t, ty_nvjpegJpegDecoder_t, ty_nvjpegJpegState_t, ty_nvjpegJpegStream_t, Ptr ty_nvjpegImage_t, ty_nvjpegDecodeParams_t, ty_cudaStream_t] ''nvjpegDecodeJpeg'' [0, 1, 2, 3, 4, 5, 6] False,
     Gen nvjpeg ty_nvjpegStatus_t ''nvjpegDecodeJpegHost'' [ty_nvjpegHandle_t, ty_nvjpegJpegDecoder_t, ty_nvjpegJpegState_t, ty_nvjpegDecodeParams_t, ty_nvjpegJpegStream_t]
       ''nvjpegDecodeJpegHost'' ty_nvjpegStatus_t [ty_nvjpegHandle_t, ty_nvjpegJpegDecoder_t, ty_nvjpegJpegState_t, ty_nvjpegDecodeParams_t, ty_nvjpegJpegStream_t] ''nvjpegDecodeJpegHost'' [0, 1, 2, 3, 4] False]"

definition nvjpeg_hooks_5 :: "gen_hook list" where
  "nvjpeg_hooks_5 =
    [Gen nvjpeg ty_nvjpegStatus_t ''nvjpegDecodeJpegTransferToDevice'' [ty_nvjpegHandle_t, ty_nvjpegJpegDecoder_t, ty_nvjpegJpegState_t, ty_nvjpegJpegStream_t, ty_cudaStream_t]
       ''nvjpegDecodeJpegTransferToDevice'' ty_nvjpegStatus_t [ty_nvjpegHandle_t, ty_nvjpegJpegDecoder_t, ty_nvjpegJpegState_t, ty_nvjpegJpegStream_t, ty_cudaStream_t] ''nvjpegDecodeJpegTransferToDevice'' [0, 1, 2, 3, 4] False,
     Gen nvjpeg ty_nvjpegStatus_t ''nvjpegDecodeJpegDevice'' [ty_nvjpegHandle_t, ty_nvjpegJpegDecoder_t, ty_nvjpegJpegState_t, Ptr ty_nvjpegImage_t, ty_cudaStream_t]
       ''nvjpegDecodeJpegDevice'' ty_nvjpegStatus_t [ty_nvjpegHandle_t, ty_nvjpegJpegDecoder_t, ty_nvjpegJpegState_t, Ptr ty_nvjpegImage_t, ty_cudaStream_t] ''nvjpegDecodeJpegDevice'' [0, 1, 2, 3, 4] False,
     Gen nvjpeg ty_nvjpegStatus_t ''nvjpegDecodeBatchedEx'' [ty_nvjpegHandle_t, ty_nvjpegJpegState_t, Ptr (Const (Ptr (Const ty_unsigned_char))), Ptr (Const ty_size_t), Ptr ty_nvjpegImage_t, Ptr ty_nvjpegDecodeParams_t, ty_cudaStream_t]
       ''nvjpegDecodeBatchedEx'' ty_nvjpegStatus_t [ty_nvjpegHandle_t, ty_nvjpegJpegState_t, Ptr (Const (Ptr (Const ty_unsigned_char))), Ptr (Const ty_size_t), Ptr ty_nvjpegImage_t, Ptr ty_nvjpegDecodeParams_t, ty_cudaStream_t] ''nvjpegDecodeBatchedEx'' [0, 1, 2, 3, 4, 5, 6] False,
     Gen nvjpeg ty_nvjpegStatus_t ''nvjpegEncoderParamsCopyMetadata'' [ty_nvjpegEncoderState_t, ty_nvjpegEncoderParams_t, ty_nvjpegJpegStream_t, ty_cudaStream_t]
       ''nvjpegEncoderParamsCopyMetadata'' ty_nvjpegStatus_t [ty_nvjpegEncoderState_t, ty_nvjpegEncoderParams_t, ty_nvjpegJpegStream_t, ty_cudaStream_t] ''nvjpegEncoderParamsCopyMetadata'' [0, 1, 2, 3] False,
     Gen nvjpeg ty_nvjpegStatus_t ''nvjpegEncoderParamsCopyQuantizationTables'' [ty_nvjpegEncoderParams_t, ty_nvjpegJpegStream_t, ty_cudaStream_t]
       ''nvjpegEncoderParamsCopyQuantizationTables'' ty_nvjpegStatus_t [ty_nvjpegEncoderParams_t, ty_nvjpegJpegStream_t, ty_cudaStream_t] ''nvjpegEncoderParamsCopyQuantizationTables'' [0, 1, 2] False,
     Gen nvjpeg ty_nvjpegStatus_t ''nvjpegEncoderParamsCopyHuffmanTables'' [ty_nvjpegEncoderState_t, ty_nvjpegEncoderParams_t, ty_nvjpegJpegStream_t, ty_cudaStream_t]
       ''nvjpegEncoderParamsCopyHuffmanTables'' ty_nvjpegStatus_t [ty_nvjpegEncoderState_t, ty_nvjpegEncoderParams_t, ty_nvjpegJpegStream_t, ty_cudaStream_t] ''nvjpegEncoderParamsCopyHuffmanTables'' [0, 1, 2, 3] False]"

section \<open>\<open>nvrtc\<close>\<close>

definition nvrtc_hooks_1 :: "gen_hook list" where
  "nvrtc_hooks_1 =
    [Gen nvrtc (Ptr (Const ty_char)) ''nvrtcGetErrorString'' [ty_nvrtcResult]
       ''nvrtcGetErrorString'' (Ptr (Const ty_char)) [ty_nvrtcResult] ''nvrtcGetErrorString'' [0] False,
     Gen nvrtc ty_nvrtcResult ''nvrtcVersion'' [Ptr ty_int, Ptr ty_int]
       ''nvrtcVersion'' ty_nvrtcResult [Ptr ty_int, Ptr ty_int] ''nvrtcVersion'' [0, 1] False,
     Gen nvrtc ty_nvrtcResult ''nvrtcGetNumSupportedArchs'' [Ptr ty_int]
       ''nvrtcGetNumSupportedArchs'' ty_nvrtcResult [Ptr ty_int] ''nvrtcGetNumSupportedArchs'' [0] False,
     Gen nvrtc ty_nvrtcResult ''nvrtcGetSupportedArchs'' [Ptr ty_int]
       ''nvrtcGetSupportedArchs'' ty_nvrtcResult [Ptr ty_int] ''nvrtcGetSupportedArchs'' [0] False,
     Gen nvrtc ty_nvrtcResult ''nvrtcCreateProgram'' [Ptr ty_nvrtcProgram, Ptr (Const ty_char), Ptr (Const ty_char), ty_int, Ptr (Const (Ptr (Const ty_char))), Ptr (Const (Ptr (Const ty_char)))]
       ''nvrtcCreateProgram'' ty_nvrtcResult [Ptr ty_nvrtcProgram, Ptr (Const ty_char), Ptr (Const ty_char), ty_int, Ptr (Const (Ptr (Const ty_char))), Ptr (Const (Ptr (Const ty_char)))] ''nvrtcCreateProgram'' [0, 1, 2, 3, 4, 5] False,
     Gen nvrtc ty_nvrtcResult ''nvrtcDestroyProgram'' [Ptr ty_nvrtcProgram]
       ''nvrtcDestroyProgram'' ty_nvrtcResult [Ptr ty_nvrtcProgram] ''nvrtcDestroyProgram'' [0] False,
     Gen nvrtc ty_nvrtcResult ''nvrtcCompileProgram'' [ty_nvrtcProgram, ty_int, Ptr (Const (Ptr (Const ty_char)))]
       ''nvrtcCompileProgram'' ty_nvrtcResult [ty_nvrtcProgram, ty_int, Ptr (Const (Ptr (Const ty_char)))] ''nvrtcCompileProgram'' [0, 1, 2] False,
     Gen nvrtc ty_nvrtcResult ''nvrtcGetPTXSize'' [ty_nvrtcProgram, Ptr ty_size_t]
       ''nvrtcGetPTXSize'' ty_nvrtcResult [ty_nvrtcProgram, Ptr ty_size_t] ''nvrtcGetPTXSize'' [0, 1] False,
     Gen nvrtc ty_nvrtcResult ''nvrtcGetPTX'' [ty_nvrtcProgram, Ptr ty_char]
       ''nvrtcGetPTX'' ty_nvrtcResult [ty_nvrtcProgram, Ptr ty_char] ''nvrtcGetPTX'' [0, 1] False,
     Gen nvrtc ty_nvrtcResult ''nvrtcGetCUBINSize'' [ty_nvrtcProgram, Ptr ty_size_t]
       ''nvrtcGetCUBINSize'' ty_nvrtcResult [ty_nvrtcProgram, Ptr ty_size_t] ''nvrtcGetCUBINSize'' [0, 1] False,
     Gen nvrtc ty_nvrtcResult ''nvrtcGetCUBIN'' [ty_nvrtcProgram, Ptr ty_char]
       ''nvrtcGetCUBIN'' ty_nvrtcResult [ty_nvrtcProgram, Ptr ty_char] ''nvrtcGetCUBIN'' [0, 1] False,
     Gen nvrtc ty_nvrtcResult ''nvrtcGetNVVMSize'' [ty_nvrtcProgram, Ptr ty_size_t]
       ''nvrtcGetNVVMSize'' ty_nvrtcResult [ty_nvrtcProgram, Ptr ty_size_t] ''nvrtcGetNVVMSize'' [0, 1] False,
     Gen nvrtc ty_nvrtcResult ''nvrtcGetNVVM'' [ty_nvrtcProgram, Ptr ty_char]
       ''nvrtcGetNVVM'' ty_nvrtcResult [ty_nvrtcProgram, Ptr ty_char] ''nvrtcGetNVVM'' [0, 1] False,
     Gen nvrtc ty_nvrtcResult ''nvrtcGetProgramLogSize'' [ty_nvrtcProgram, Ptr ty_size_t]
       ''nvrtcGetProgramLogSize'' ty_nvrtcResult [ty_nvrtcProgram, Ptr ty_size_t] ''nvrtcGetProgramLogSize'' [0, 1] False,
     Gen nvrtc ty_nvrtcResult ''nvrtcGetProgramLog'' [ty_nvrtcProgram, Ptr ty_char]
       ''nvrtcGetProgramLog'' ty_nvrtcResult [ty_nvrtcProgram, Ptr ty_char] ''nvrtcGetProgramLog'' [0, 1] False,
     Gen nvrtc ty_nvrtcResult ''nvrtcAddNameExpression'' [ty_nvrtcProgram, Const (Ptr (Const ty_char))]
       ''nvrtcAddNameExpression'' ty_nvrtcResult [ty_nvrtcProgram, Const (Ptr (Const ty_char))] ''nvrtcAddNameExpression'' [0, 1] False,
     Gen nvrtc ty_nvrtcResult ''nvrtcGetLoweredName'' [ty_nvrtcProgram, Const (Ptr (Const ty_char)), Ptr (Ptr (Const ty_char))]
       ''nvrtcGetLoweredName'' ty_nvrtcResult [ty_nvrtcProgram, Const (Ptr (Const ty_char)), Ptr (Ptr (Const ty_char))] ''nvrtcGetLoweredName'' [0, 1, 2] False,
     Gen nvrtc ty_nvrtcResult ''nvrtcGetTypeName'' [Const ty_std_type_info, Ptr ty_std_string]
       ''nvrtcGetTypeName'' ty_nvrtcResult [Const ty_std_type_info, Ptr ty_std_string] ''nvrtcGetTypeName'' [0, 1] False]"

section \<open>\<open>nvtx\<close>\<close>

definition nvtx_hooks_1 :: "gen_hook list" where
  "nvtx_hooks_1 =
    [Gen nvtx ty_int ''nvtxInitialize'' [Ptr (Const ty_nvtxInitializationAttributes_t)]
       ''nvtxInitialize'' ty_int [Ptr (Const ty_nvtxInitializationAttributes_t)] ''nvtxInitialize'' [0] False,
     Gen nvtx ty_void ''nvtxDomainMarkEx'' [ty_nvtxDomainHandle_t, Ptr (Const ty_nvtxEventAttributes_t)]
       ''nvtxDomainMarkEx'' ty_void [ty_nvtxDomainHandle_t, Ptr (Const ty_nvtxEventAttributes_t)] ''nvtxDomainMarkEx'' [0, 1] False,
     Gen nvtx ty_void ''nvtxMarkEx'' [Ptr (Const ty_nvtxEventAttributes_t)]
       ''nvtxMarkEx'' ty_void [Ptr (Const ty_nvtxEventAttributes_t)] ''nvtxMarkEx'' [0] False,
     Gen nvtx ty_void ''nvtxMarkA'' [Ptr (Const ty_char)]
       ''nvtxMarkA'' ty_void [Ptr (Const ty_char)] ''nvtxMarkA'' [0] False,
     Gen nvtx ty_void ''nvtxMarkW'' [Ptr (Const ty_wchar_t)]
       ''nvtxMarkW'' ty_void [Ptr (Const ty_wchar_t)] ''nvtxMarkW'' [0] False,
     Gen nvtx ty_nvtxRangeId_t ''nvtxDomainRangeStartEx'' [ty_nvtxDomainHandle_t, Ptr (Const ty_nvtxEventAttributes_t)]
       ''nvtxDomainRangeStartEx'' ty_nvtxRangeId_t [ty_nvtxDomainHandle_t, Ptr (Const ty_nvtxEventAttributes_t)] ''nvtxDomainRangeStartEx'' [0, 1] False,
     Gen nvtx ty_nvtxRangeId_t ''nvtxRangeStartEx'' [Ptr (Const ty_nvtxEventAttributes_t)]
       ''nvtxRangeStartEx'' ty_nvtxRangeId_t [Ptr (Const ty_nvtxEventAttributes_t)] ''nvtxRangeStartEx'' [0] False,
     Gen nvtx ty_nvtxRangeId_t ''nvtxRangeStartA'' [Ptr (Const ty_char)]
       ''nvtxRangeStartA'' ty_nvtxRangeId_t [Ptr (Const ty_char)] ''nvtxRangeStartA'' [0] False,
     Gen nvtx ty_nvtxRangeId_t ''nvtxRangeStartW'' [Ptr (Const ty_wchar_t)]
       ''nvtxRangeStartW'' ty_nvtxRangeId_t [Ptr (Const ty_wchar_t)] ''nvtxRangeStartW'' [0] False,
     Gen nvtx ty_void ''nvtxDomainRangeEnd'' [ty_nvtxDomainHandle_t, ty_nvtxRangeId_t]
       ''nvtxDomainRangeEnd'' ty_void [ty_nvtxDomainHandle_t, ty_nvtxRangeId_t] ''nvtxDomainRangeEnd'' [0, 1] False,
     Gen nvtx ty_void ''nvtxRangeEnd'' [ty_nvtxRangeId_t]
       ''nvtxRangeEnd'' ty_void [ty_nvtxRangeId_t] ''nvtxRangeEnd'' [0] False,
     Gen nvtx ty_int ''nvtxDomainRangePushEx'' [ty_nvtxDomainHandle_t, Ptr (Const ty_nvtxEventAttributes_t)]
       ''nvtxDomainRangePushEx'' ty_int [ty_nvtxDomainHandle_t, Ptr (Const ty_nvtxEventAttributes_t)] ''nvtxDomainRangePushEx'' [0, 1] False,
     Gen nvtx ty_int ''nvtxRangePushEx'' [Ptr (Const ty_nvtxEventAttributes_t)]
       ''nvtxRangePushEx'' ty_int [Ptr (Const ty_nvtxEventAttributes_t)] ''nvtxRangePushEx'' [0] False,
     Gen nvtx ty_int ''nvtxRangePushA'' [Ptr (Const ty_char)]
       ''nvtxRangePushA'' ty_int [Ptr (Const ty_char)] ''nvtxRangePushA'' [0] False,
     Gen nvtx ty_int ''nvtxRangePushW'' [Ptr (Const ty_wchar_t)]
       ''nvtxRangePushW'' ty_int [Ptr (Const ty_wchar_t)] ''nvtxRangePushW'' [0] False,
     Gen nvtx ty_int ''nvtxDomainRangePop'' [ty_nvtxDomainHandle_t]
       ''nvtxDomainRangePop'' ty_int [ty_nvtxDomainHandle_t] ''nvtxDomainRangePop'' [0] False,
     Gen nvtx ty_int ''nvtxRangePop'' []
       ''nvtxRangePop'' ty_int [] ''nvtxRangePop'' [] False,
     Gen nvtx ty_nvtxResourceHandle_t ''nvtxDomainResourceCreate'' [ty_nvtxDomainHandle_t, Ptr ty_nvtxResourceAttributes_t]
       ''nvtxDomainResourceCreate'' ty_nvtxResourceHandle_t [ty_nvtxDomainHandle_t, Ptr ty_nvtxResourceAttributes_t] ''nvtxDomainResourceCreate'' [0, 1] False]"

definition nvtx_hooks_2 :: "gen_hook list" where
  "nvtx_hooks_2 =
    [Gen nvtx ty_void ''nvtxDomainResourceDestroy'' [ty_nvtxResourceHandle_t]
       ''nvtxDomainResourceDestroy'' ty_void [ty_nvtxResourceHandle_t] ''nvtxDomainResourceDestroy'' [0] False,
     Gen nvtx ty_void ''nvtxDomainNameCategoryA'' [ty_nvtxDomainHandle_t, ty_uint32_t, Ptr (Const ty_char)]
       ''nvtxDomainNameCategoryA'' ty_void [ty_nvtxDomainHandle_t, ty_uint32_t, Ptr (Const ty_char)] ''nvtxDomainNameCategoryA'' [0, 1, 2] False,
     Gen nvtx ty_void ''nvtxDomainNameCategoryW'' [ty_nvtxDomainHandle_t, ty_uint32_t, Ptr (Const ty_wchar_t)]
       ''nvtxDomainNameCategoryW'' ty_void [ty_nvtxDomainHandle_t, ty_uint32_t, Ptr (Const ty_wchar_t)] ''nvtxDomainNameCategoryW'' [0, 1, 2] False,
     Gen nvtx ty_void ''nvtxNameCategoryA'' [ty_uint32_t, Ptr (Const ty_char)]
       ''nvtxNameCategoryA'' ty_void [ty_uint32_t, Ptr (Const ty_char)] ''nvtxNameCategoryA'' [0, 1] False,
     Gen nvtx ty_void ''nvtxNameCategoryW'' [ty_uint32_t, Ptr (Const ty_wchar_t)]
       ''nvtxNameCategoryW'' ty_void [ty_uint32_t, Ptr (Const ty_wchar_t)] ''nvtxNameCategoryW'' [0, 1] False,
     Gen nvtx ty_void ''nvtxNameOsThreadA'' [ty_uint32_t, Ptr (Const ty_char)]
       ''nvtxNameOsThreadA'' ty_void [ty_uint32_t, Ptr (Const ty_char)] ''nvtxNameOsThreadA'' [0, 1] False,
     Gen nvtx ty_void ''nvtxNameOsThreadW'' [ty_uint32_t, Ptr (Const ty_wchar_t)]
       ''nvtxNameOsThreadW'' ty_void [ty_uint32_t, Ptr (Const ty_wchar_t)] ''nvtxNameOsThreadW'' [0, 1] False,
     Gen nvtx ty_nvtxStringHandle_t ''nvtxDomainRegisterStringA'' [ty_nvtxDomainHandle_t, Ptr (Const ty_char)]
       ''nvtxDomainRegisterStringA'' ty_nvtxStringHandle_t [ty_nvtxDomainHandle_t, Ptr (Const ty_char)] ''nvtxDomainRegisterStringA'' [0, 1] False,
     Gen nvtx ty_nvtxStringHandle_t ''nvtxDomainRegisterStringW'' [ty_nvtxDomainHandle_t, Ptr (Const ty_wchar_t)]
       ''nvtxDomainRegisterStringW'' ty_nvtxStringHandle_t [ty_nvtxDomainHandle_t, Ptr (Const ty_wchar_t)] ''nvtxDomainRegisterStringW'' [0, 1] False,
     Gen nvtx ty_nvtxDomainHandle_t ''nvtxDomainCreateA'' [Ptr (Const ty_char)]
       ''nvtxDomainCreateA'' ty_nvtxDomainHandle_t [Ptr (Const ty_char)] ''nvtxDomainCreateA'' [0] False,
     Gen nvtx ty_nvtxDomainHandle_t ''nvtxDomainCreateW'' [Ptr (Const ty_wchar_t)]
       ''nvtxDomainCreateW'' ty_nvtxDomainHandle_t [Ptr (Const ty_wchar_t)] ''nvtxDomainCreateW'' [0] False,
     Gen nvtx ty_void ''nvtxDomainDestroy'' [ty_nvtxDomainHandle_t]
       ''nvtxDomainDestroy'' ty_void [ty_nvtxDomainHandle_t] ''nvtxDomainDestroy'' [0] False,
     Gen nvtx ty_void ''nvtxNameCuDeviceA'' [ty_CUdevice, Ptr (Const ty_char)]
       ''nvtxNameCuDeviceA'' ty_void [ty_CUdevice, Ptr (Const ty_char)] ''nvtxNameCuDeviceA'' [0, 1] False,
     Gen nvtx ty_void ''nvtxNameCuDeviceW'' [ty_CUdevice, Ptr (Const ty_wchar_t)]
       ''nvtxNameCuDeviceW'' ty_void [ty_CUdevice, Ptr (Const ty_wchar_t)] ''nvtxNameCuDeviceW'' [0, 1] False,
     Gen nvtx ty_void ''nvtxNameCuContextA'' [ty_CUcontext, Ptr (Const ty_char)]
       ''nvtxNameCuContextA'' ty_void [ty_CUcontext, Ptr (Const ty_char)] ''nvtxNameCuContextA'' [0, 1] False,
     Gen nvtx ty_void ''nvtxNameCuContextW'' [ty_CUcontext, Ptr (Const ty_wchar_t)]
       ''nvtxNameCuContextW'' ty_void [ty_CUcontext, Ptr (Const ty_wchar_t)] ''nvtxNameCuContextW'' [0, 1] False,
     Gen nvtx ty_void ''nvtxNameCuStreamA'' [ty_CUstream, Ptr (Const ty_char)]
       ''nvtxNameCuStreamA'' ty_void [ty_CUstream, Ptr (Const ty_char)] ''nvtxNameCuStreamA'' [0, 1] False,
     Gen nvtx ty_void ''nvtxNameCuStreamW'' [ty_CUstream, Ptr (Const ty_wchar_t)]
       ''nvtxNameCuStreamW'' ty_void [ty_CUstream, Ptr (Const ty_wchar_t)] ''nvtxNameCuStreamW'' [0, 1] False]"

definition nvtx_hooks_3 :: "gen_hook list" where
  "nvtx_hooks_3 =
    [Gen nvtx ty_void ''nvtxNameCuEventA'' [ty_CUevent, Ptr (Const ty_char)]
       ''nvtxNameCuEventA'' ty_void [ty_CUevent, Ptr (Const ty_char)] ''nvtxNameCuEventA'' [0, 1] False,
     Gen nvtx ty_void ''nvtxNameCuEventW'' [ty_CUevent, Ptr (Const ty_wchar_t)]
       ''nvtxNameCuEventW'' ty_void [ty_CUevent, Ptr (Const ty_wchar_t)] ''nvtxNameCuEventW'' [0, 1] False,
     Gen nvtx ty_void ''nvtxNameCudaDeviceA'' [ty_int, Ptr (Const ty_char)]
       ''nvtxNameCudaDeviceA'' ty_void [ty_int, Ptr (Const ty_char)] ''nvtxNameCudaDeviceA'' [0, 1] False,
     Gen nvtx ty_void ''nvtxNameCudaDeviceW'' [ty_int, Ptr (Const ty_wchar_t)]
       ''nvtxNameCudaDeviceW'' ty_void [ty_int, Ptr (Const ty_wchar_t)] ''nvtxNameCudaDeviceW'' [0, 1] False,
     Gen nvtx ty_void ''nvtxNameCudaStreamA'' [ty_cudaStream_t, Ptr (Const ty_char)]
       ''nvtxNameCudaStreamA'' ty_void [ty_cudaStream_t, Ptr (Const ty_char)] ''nvtxNameCudaStreamA'' [0, 1] False,
     Gen nvtx ty_void ''nvtxNameCudaStreamW'' [ty_cudaStream_t, Ptr (Const ty_wchar_t)]
       ''nvtxNameCudaStreamW'' ty_void [ty_cudaStream_t, Ptr (Const ty_wchar_t)] ''nvtxNameCudaStreamW'' [0, 1] False,
     Gen nvtx ty_void ''nvtxNameCudaEventA'' [ty_cudaEvent_t, Ptr (Const ty_char)]
       ''nvtxNameCudaEventA'' ty_void [ty_cudaEvent_t, Ptr (Const ty_char)] ''nvtxNameCudaEventA'' [0, 1] False,
     Gen nvtx ty_void ''nvtxNameCudaEventW'' [ty_cudaEvent_t, Ptr (Const ty_wchar_t)]
       ''nvtxNameCudaEventW'' ty_void [ty_cudaEvent_t, Ptr (Const ty_wchar_t)] ''nvtxNameCudaEventW'' [0, 1] False,
     Gen nvtx ty_void ''nvtxNameClDeviceA'' [ty_cl_device_id, Ptr (Const ty_char)]
       ''nvtxNameClDeviceA'' ty_void [ty_cl_device_id, Ptr (Const ty_char)] ''nvtxNameClDeviceA'' [0, 1] False,
     Gen nvtx ty_void ''nvtxNameClDeviceW'' [ty_cl_device_id, Ptr (Const ty_wchar_t)]
       ''nvtxNameClDeviceW'' ty_void [ty_cl_device_id, Ptr (Const ty_wchar_t)] ''nvtxNameClDeviceW'' [0, 1] False,
     Gen nvtx ty_void ''nvtxNameClContextA'' [ty_cl_context, Ptr (Const ty_char)]
       ''nvtxNameClContextA'' ty_void [ty_cl_context, Ptr (Const ty_char)] ''nvtxNameClContextA'' [0, 1] False,
     Gen nvtx ty_void ''nvtxNameClContextW'' [ty_cl_context, Ptr (Const ty_wchar_t)]
       ''nvtxNameClContextW'' ty_void [ty_cl_context, Ptr (Const ty_wchar_t)] ''nvtxNameClContextW'' [0, 1] False,
     Gen nvtx ty_void ''nvtxNameClCommandQueueA'' [ty_cl_command_queue, Ptr (Const ty_char)]
       ''nvtxNameClCommandQueueA'' ty_void [ty_cl_command_queue, Ptr (Const ty_char)] ''nvtxNameClCommandQueueA'' [0, 1] False,
     Gen nvtx ty_void ''nvtxNameClCommandQueueW'' [ty_cl_command_queue, Ptr (Const ty_wchar_t)]
       ''nvtxNameClCommandQueueW'' ty_void [ty_cl_command_queue, Ptr (Const ty_wchar_t)] ''nvtxNameClCommandQueueW'' [0, 1] False,
     Gen nvtx ty_void ''nvtxNameClMemObjectA'' [ty_cl_mem, Ptr (Const ty_char)]
       ''nvtxNameClMemObjectA'' ty_void [ty_cl_mem, Ptr (Const ty_char)] ''nvtxNameClMemObjectA'' [0, 1] False,
     Gen nvtx ty_void ''nvtxNameClMemObjectW'' [ty_cl_mem, Ptr (Const ty_wchar_t)]
       ''nvtxNameClMemObjectW'' ty_void [ty_cl_mem, Ptr (Const ty_wchar_t)] ''nvtxNameClMemObjectW'' [0, 1] False,
     Gen nvtx ty_void ''nvtxNameClSamplerA'' [ty_cl_sampler, Ptr (Const ty_char)]
       ''nvtxNameClSamplerA'' ty_void [ty_cl_sampler, Ptr (Const ty_char)] ''nvtxNameClSamplerA'' [0, 1] False,
     Gen nvtx ty_void ''nvtxNameClSamplerW'' [ty_cl_sampler, Ptr (Const ty_wchar_t)]
       ''nvtxNameClSamplerW'' ty_void [ty_cl_sampler, Ptr (Const ty_wchar_t)] ''nvtxNameClSamplerW'' [0, 1] False]"

definition nvtx_hooks_4 :: "gen_hook list" where
  "nvtx_hooks_4 =
    [Gen nvtx ty_void ''nvtxNameClProgramA'' [ty_cl_program, Ptr (Const ty_char)]
       ''nvtxNameClProgramA'' ty_void [ty_cl_program, Ptr (Const ty_char)] ''nvtxNameClProgramA'' [0, 1] False,
     Gen nvtx ty_void ''nvtxNameClProgramW'' [ty_cl_program, Ptr (Const ty_wchar_t)]
       ''nvtxNameClProgramW'' ty_void [ty_cl_program, Ptr (Const ty_wchar_t)] ''nvtxNameClProgramW'' [0, 1] False,
     Gen nvtx ty_void ''nvtxNameClEventA'' [ty_cl_event, Ptr (Const ty_char)]
       ''nvtxNameClEventA'' ty_void [ty_cl_event, Ptr (Const ty_char)] ''nvtxNameClEventA'' [0, 1] False,
     Gen nvtx ty_void ''nvtxNameClEventW'' [ty_cl_event, Ptr (Const ty_wchar_t)]
       ''nvtxNameClEventW'' ty_void [ty_cl_event, Ptr (Const ty_wchar_t)] ''nvtxNameClEventW'' [0, 1] False,
     Gen nvtx ty_nvtxSyncUser_t ''nvtxDomainSyncUserCreate'' [ty_nvtxDomainHandle_t, Ptr (Const ty_nvtxSyncUserAttributes_t)]
       ''nvtxDomainSyncUserCreate'' ty_nvtxSyncUser_t [ty_nvtxDomainHandle_t, Ptr (Const ty_nvtxSyncUserAttributes_t)] ''nvtxDomainSyncUserCreate'' [0, 1] False,
     Gen nvtx ty_void ''nvtxDomainSyncUserDestroy'' [ty_nvtxSyncUser_t]
       ''nvtxDomainSyncUserDestroy'' ty_void [ty_nvtxSyncUser_t] ''nvtxDomainSyncUserDestroy'' [0] False,
     Gen nvtx ty_void ''nvtxDomainSyncUserAcquireStart'' [ty_nvtxSyncUser_t]
       ''nvtxDomainSyncUserAcquireStart'' ty_void [ty_nvtxSyncUser_t] ''nvtxDomainSyncUserAcquireStart'' [0] False,
     Gen nvtx ty_void ''nvtxDomainSyncUserAcquireFailed'' [ty_nvtxSyncUser_t]
       ''nvtxDomainSyncUserAcquireFailed'' ty_void [ty_nvtxSyncUser_t] ''nvtxDomainSyncUserAcquireFailed'' [0] False,
     Gen nvtx ty_void ''nvtxDomainSyncUserAcquireSuccess'' [ty_nvtxSyncUser_t]
       ''nvtxDomainSyncUserAcquireSuccess'' ty_void [ty_nvtxSyncUser_t] ''nvtxDomainSyncUserAcquireSuccess'' [0] False,
     Gen nvtx ty_void ''nvtxDomainSyncUserReleasing'' [ty_nvtxSyncUser_t]
       ''nvtxDomainSyncUserReleasing'' ty_void [ty_nvtxSyncUser_t] ''nvtxDomainSyncUserReleasing'' [0] False]"

section \<open>All are instances of the template\<close>

lemma cufft_hooks_1_ok: "list_all instance_of_template cufft_hooks_1"
  by (simp add: cufft_hooks_1_def instance_of_template_def)

lemma cufft_hooks_2_ok: "list_all instance_of_template cufft_hooks_2"
  by (simp add: cufft_hooks_2_def instance_of_template_def)

lemma cufft_hooks_3_ok: "list_all instance_of_template cufft_hooks_3"
  by (simp add: cufft_hooks_3_def instance_of_template_def)

lemma cufft_hooks_4_ok: "list_all instance_of_template cufft_hooks_4"
  by (simp add: cufft_hooks_4_def instance_of_template_def)

lemma curand_hooks_1_ok: "list_all instance_of_template curand_hooks_1"
  by (simp add: curand_hooks_1_def instance_of_template_def)

lemma curand_hooks_2_ok: "list_all instance_of_template curand_hooks_2"
  by (simp add: curand_hooks_2_def instance_of_template_def)

lemma nvblas_hooks_1_ok: "list_all instance_of_template nvblas_hooks_1"
  by (simp add: nvblas_hooks_1_def instance_of_template_def)

lemma nvblas_hooks_2_ok: "list_all instance_of_template nvblas_hooks_2"
  by (simp add: nvblas_hooks_2_def instance_of_template_def)

lemma nvblas_hooks_3_ok: "list_all instance_of_template nvblas_hooks_3"
  by (simp add: nvblas_hooks_3_def instance_of_template_def)

lemma nvblas_hooks_4_ok: "list_all instance_of_template nvblas_hooks_4"
  by (simp add: nvblas_hooks_4_def instance_of_template_def)

lemma nvblas_hooks_5_ok: "list_all instance_of_template nvblas_hooks_5"
  by (simp add: nvblas_hooks_5_def instance_of_template_def)

lemma nvjpeg_hooks_1_ok: "list_all instance_of_template nvjpeg_hooks_1"
  by (simp add: nvjpeg_hooks_1_def instance_of_template_def)

lemma nvjpeg_hooks_2_ok: "list_all instance_of_template nvjpeg_hooks_2"
  by (simp add: nvjpeg_hooks_2_def instance_of_template_def)

lemma nvjpeg_hooks_3_ok: "list_all instance_of_template nvjpeg_hooks_3"
  by (simp add: nvjpeg_hooks_3_def instance_of_template_def)

lemma nvjpeg_hooks_4_ok: "list_all instance_of_template nvjpeg_hooks_4"
  by (simp add: nvjpeg_hooks_4_def instance_of_template_def)

lemma nvjpeg_hooks_5_ok: "list_all instance_of_template nvjpeg_hooks_5"
  by (simp add: nvjpeg_hooks_5_def instance_of_template_def)

lemma nvrtc_hooks_1_ok: "list_all instance_of_template nvrtc_hooks_1"
  by (simp add: nvrtc_hooks_1_def instance_of_template_def)

lemma nvtx_hooks_1_ok: "list_all instance_of_template nvtx_hooks_1"
  by (simp add: nvtx_hooks_1_def instance_of_template_def)

lemma nvtx_hooks_2_ok: "list_all instance_of_template nvtx_hooks_2"
  by (simp add: nvtx_hooks_2_def instance_of_template_def)

lemma nvtx_hooks_3_ok: "list_all instance_of_template nvtx_hooks_3"
  by (simp add: nvtx_hooks_3_def instance_of_template_def)

lemma nvtx_hooks_4_ok: "list_all instance_of_template nvtx_hooks_4"
  by (simp add: nvtx_hooks_4_def instance_of_template_def)

definition media_hooks :: "gen_hook list" where
  "media_hooks = concat
    [cufft_hooks_1, cufft_hooks_2, cufft_hooks_3, cufft_hooks_4,
     curand_hooks_1, curand_hooks_2, nvblas_hooks_1, nvblas_hooks_2,
     nvblas_hooks_3, nvblas_hooks_4, nvblas_hooks_5, nvjpeg_hooks_1,
     nvjpeg_hooks_2, nvjpeg_hooks_3, nvjpeg_hooks_4, nvjpeg_hooks_5,
     nvrtc_hooks_1, nvtx_hooks_1, nvtx_hooks_2, nvtx_hooks_3,
     nvtx_hooks_4]"

lemma media_hooks_ok: "list_all instance_of_template media_hooks"
  by (simp add: media_hooks_def cufft_hooks_1_ok cufft_hooks_2_ok cufft_hooks_3_ok cufft_hooks_4_ok curand_hooks_1_ok
      curand_hooks_2_ok nvblas_hooks_1_ok nvblas_hooks_2_ok nvblas_hooks_3_ok nvblas_hooks_4_ok
      nvblas_hooks_5_ok nvjpeg_hooks_1_ok nvjpeg_hooks_2_ok nvjpeg_hooks_3_ok nvjpeg_hooks_4_ok
      nvjpeg_hooks_5_ok nvrtc_hooks_1_ok nvtx_hooks_1_ok nvtx_hooks_2_ok nvtx_hooks_3_ok
      nvtx_hooks_4_ok)

end
