(* ===== verification/Hook_Tables.thy ===== *)
theory Hook_Tables
  imports Hooks_Cublas Hooks_Cuda Hooks_Cudart Hooks_Cudnn Hooks_Cusolver Hooks_Cusparse Hooks_Nvml Hooks_Media
begin

text \<open>
  All generated functions of the profiler except \<open>cudaMemcpyAsync\<close>, which reports a name that
  depends on an argument and is a definition of \<open>Hook\<close>.
\<close>

definition generated_hooks :: "gen_hook list" where
  "generated_hooks = cublas_hooks @ cuda_hooks @ cudart_hooks @ cudnn_hooks @ cusolver_hooks @ cusparse_hooks @
     nvml_hooks @ media_hooks"

lemma generated_hooks_ok: "list_all instance_of_template generated_hooks"
  by (simp add: generated_hooks_def cublas_hooks_ok cuda_hooks_ok cudart_hooks_ok cudnn_hooks_ok cusolver_hooks_ok
      cusparse_hooks_ok nvml_hooks_ok media_hooks_ok)

section \<open>Properties\<close>

text \<open>
  C28. Every generated function of the profiler does what it should: a program that calls any of
  the 3116 functions of the fourteen \<open>*_hook.cpp\<close> files, each with as many arguments as it declares,
  gets the results and leaves the libraries in the state that it would get by calling the libraries directly, with a device
  synchronisation after the functions that have a breakpoint when kernel separation is on; and
  the tracer sees exactly the sequence of the functions that were called, each under its own name.
\<close>

theorem generated_hooks_transparent:
  assumes "breakpoint_static tab" and "statics_ok ld tab p"
    and "\<forall>(g, args) \<in> set cs. g \<in> set generated_hooks \<and> length args = length (gen_params g) \<and>
      in_table tab (hook_of g :: 'v hook_fn) \<and> linked ld (hook_of g :: 'v hook_fn)"
  shows "\<exists>rs p'. gen_calls ld (callee :: ('v, 'w) callee) clk cs p = Ok rs p' \<and>
    (rs, world p') = direct_calls (on_trace p \<noteq> 0 \<and> on_separate_kernel_wrapper p \<noteq> 0) ld callee
      (map (\<lambda>(g, args). (hook_of g, args)) cs) (world p) \<and>
    run_actions fl clk (map (\<lambda>(g, args). Api (gen_name g) []) cs) (trace_state.truncate p) = Ok () (trace_state.truncate p')"
proof -
  let ?hs = "map (\<lambda>(g, args). (hook_of g :: 'v hook_fn, args)) cs"
  have inst: "\<forall>(g, args) \<in> set cs. instance_of_template g \<and> length args = length (gen_params g)"
    using assms(3) generated_hooks_ok by (auto simp: list_all_iff)
  have api: "map (\<lambda>(hk, args). Api (hk_profile hk args) []) ?hs = map (\<lambda>(g, args). Api (gen_name g) []) cs"
    by (auto simp: hook_of_def plain_hook_def)
  have "list_all (\<lambda>(hk, args). in_table tab hk \<and> linked ld hk) ?hs" using assms(3) by (auto simp: list_all_iff)
  from hook_calls_linked [OF assms(1,2) this, of callee clk fl] show ?thesis
    unfolding gen_calls_instance [OF inst, of ld callee clk p] api by (auto simp: separating_def)
qed

text \<open>The program of the example calls two functions of different libraries.\<close>

definition gen_cublasGetVersion :: gen_hook where
  "gen_cublasGetVersion = Gen cublas ty_cublasStatus ''cublasGetVersion'' [Ptr ty_int]
     ''cublasGetVersion'' ty_cublasStatus [Ptr ty_int] ''cublasGetVersion'' [0] False"

definition gen_nvmlShutdown :: gen_hook where
  "gen_nvmlShutdown = Gen nvml ty_nvmlReturn_t ''nvmlShutdown'' []
     ''nvmlShutdown'' ty_nvmlReturn_t [] ''nvmlShutdown'' [] False"

definition statics1 :: statics where
  "statics1 st = (if st = ''push_breakpoint'' then (cudart, ''cudaDeviceSynchronize'')
     else if st = ''nvmlShutdown'' then (nvml, st) else (cublas, st))"

lemma sample_hooks: "gen_cublasGetVersion \<in> set generated_hooks" "gen_nvmlShutdown \<in> set generated_hooks"
  by (simp_all add: gen_cublasGetVersion_def gen_nvmlShutdown_def generated_hooks_def cublas_hooks_def nvml_hooks_def
      cublas_hooks_1_def nvml_hooks_1_def)

theorem generated_hooks_transparent_witness:
  "\<exists>p'. gen_calls ld0 callee0 clock0 [(gen_cublasGetVersion, [7]), (gen_nvmlShutdown, [])]
      (proc_init (trace0\<lparr>on_trace := 1, on_separate_kernel_wrapper := 1\<rparr>) 0) = Ok [16, 12] p' \<and> world p' = 2"
proof -
  let ?cs = "[(gen_cublasGetVersion, [7]), (gen_nvmlShutdown, [])]"
  have bp: "breakpoint_static statics1" by (simp add: breakpoint_static_def statics1_def)
  have cs: "\<forall>(g, args) \<in> set ?cs. g \<in> set generated_hooks \<and> length args = length (gen_params g) \<and>
      in_table statics1 (hook_of g :: int hook_fn) \<and> linked ld0 (hook_of g :: int hook_fn)"
    using sample_hooks
    by (simp add: gen_cublasGetVersion_def gen_nvmlShutdown_def hook_of_def plain_hook_def in_table_def statics1_def linked_def
        entry_of_def ld0_def)
  have "direct_calls True ld0 callee0 (map (\<lambda>(g, args). (hook_of g, args)) ?cs) 0 = ([16, 12], 2)"
    by (simp add: entry_of_def ld0_def callee0_def hook_of_def plain_hook_def gen_cublasGetVersion_def gen_nvmlShutdown_def)
  then show ?thesis
    using generated_hooks_transparent [OF bp statics_ok_init cs, of callee0 clock0
        "trace0\<lparr>on_trace := 1, on_separate_kernel_wrapper := 1\<rparr>" 0 id]
    by (auto simp: proc_init_def trace_state.extend_def)
qed

end
