(* ===== verification/C_Enum.thy ===== *)
theory C_Enum
  imports Prelude "HOL-Library.Sublist"
begin

text \<open>
  C enumerations as data. The hook libraries carry their own copy of the types of the
  libraries they intercept (\<open>src/*/*_subset.h\<close>), and the code generator reads the vendor's
  headers (\<open>tools/code_generate/include\<close>). An enumeration is the list of its enumerators with
  their initialisers; \<open>elaborate\<close> gives each enumerator the value that C gives it.
\<close>

named_theorems abi_oversized \<open>the oversized enumerators of each enumeration\<close>
named_theorems abi_conflicts \<open>the conflicts of each pair of enumerations\<close>

section \<open>Declarations and values\<close>

datatype cexpr = Lit int | Name string | BitOr cexpr cexpr | Shl cexpr cexpr

type_synonym enum_decl = "(string \<times> cexpr option) list"
type_synonym enum_env = "(string \<times> int) list"

fun ceval :: "enum_env \<Rightarrow> cexpr \<Rightarrow> int option" where
  "ceval env (Lit i) = Some i"
| "ceval env (Name n) = map_of env n"
| "ceval env (BitOr a b) =
     (case (ceval env a, ceval env b) of (Some x, Some y) \<Rightarrow> Some (x OR y) | _ \<Rightarrow> None)"
| "ceval env (Shl a b) =
     (case (ceval env a, ceval env b) of (Some x, Some y) \<Rightarrow> Some (push_bit (nat y) x) | _ \<Rightarrow> None)"

fun enum_values :: "enum_env \<Rightarrow> int \<Rightarrow> enum_decl \<Rightarrow> enum_env option" where
  "enum_values env k [] = Some []"
| "enum_values env k ((n, x) # ds) =
     (case (case x of None \<Rightarrow> Some k | Some e \<Rightarrow> ceval env e) of
        None \<Rightarrow> None
      | Some v \<Rightarrow> map_option ((#) (n, v)) (enum_values ((n, v) # env) (v + 1) ds))"

definition elaborate :: "enum_env \<Rightarrow> enum_decl \<Rightarrow> enum_env option" where
  "elaborate env ds = enum_values env 0 ds"

text \<open>The value of an enumeration that needs no other declaration.\<close>

definition enumerators :: "enum_decl \<Rightarrow> enum_env" where
  "enumerators ds = the (elaborate [] ds)"

definition fits_int :: "int \<Rightarrow> bool" where
  "fits_int v \<longleftrightarrow> - (2 ^ 31) \<le> v \<and> v < 2 ^ 31"

text \<open>The enumerators whose value no \<open>int\<close> holds; \<open>None\<close> if the declaration is ill-formed.\<close>

definition oversized :: "enum_env \<Rightarrow> enum_decl \<Rightarrow> string list option" where
  "oversized env ds = map_option (\<lambda>vs. map fst (filter (\<lambda>(n, v). \<not> fits_int v) vs)) (elaborate env ds)"

definition all_oversized :: "(enum_env \<times> enum_decl) list \<Rightarrow> string list option" where
  "all_oversized ds = map_option concat (those (map (\<lambda>(env, d). oversized env d) ds))"

text \<open>The enumerators of ours that the other declaration does not have with that value.\<close>

definition conflicts :: "enum_decl \<Rightarrow> enum_decl \<Rightarrow> enum_env" where
  "conflicts ours theirs = filter (\<lambda>p. p \<notin> set (enumerators theirs)) (enumerators ours)"

section \<open>Lemmas\<close>

lemma enum_values_names: "enum_values env k ds = Some vs \<Longrightarrow> map fst vs = map fst ds"
  by (induction env k ds arbitrary: vs rule: enum_values.induct) (auto split: option.splits)

text \<open>
  C's rule (C11 6.7.2.2): an enumerator has the value of its initialiser, which may mention
  the enumerators before it; without one it is one more than its predecessor.
\<close>

lemma enum_values_nth:
  "enum_values env k ds = Some vs \<Longrightarrow> i < length ds \<Longrightarrow>
     snd (vs ! i) = (case snd (ds ! i) of
         None \<Rightarrow> if i = 0 then k else snd (vs ! (i - 1)) + 1
       | Some e \<Rightarrow> the (ceval (rev (take i vs) @ env) e))"
proof (induction env k ds arbitrary: vs i rule: enum_values.induct)
  case (2 env k n x ds)
  obtain v ws where v: "(case x of None \<Rightarrow> Some k | Some e \<Rightarrow> ceval env e) = Some v"
    and ws: "enum_values ((n, v) # env) (v + 1) ds = Some ws" and vs: "vs = (n, v) # ws"
    using 2(2) by (auto split: option.splits)
  show ?case
  proof (cases i)
    case 0
    then show ?thesis using v vs by (auto split: option.splits)
  next
    case (Suc j)
    then have j: "j < length ds" using 2(3) by simp
    have len: "length ws = length ds" using enum_values_names [OF ws] by (metis length_map)
    show ?thesis
      using "2.IH" [OF v ws j] Suc vs len by (cases j) (simp_all split: option.splits)
  qed
qed simp

definition explicit :: "string \<times> cexpr option \<Rightarrow> bool" where
  "explicit d = (case snd d of Some (Lit _) \<Rightarrow> True | _ \<Rightarrow> False)"

definition literal :: "string \<times> cexpr option \<Rightarrow> string \<times> int" where
  "literal d = (fst d, case snd d of Some (Lit v) \<Rightarrow> v | _ \<Rightarrow> 0)"

lemma explicit_simps [simp]:
  "explicit (n, Some (Lit v))" "\<not> explicit (n, None)" "literal (n, Some (Lit v)) = (n, v)"
  by (simp_all add: explicit_def literal_def)

lemma enum_values_explicit: "list_all explicit ds \<Longrightarrow> enum_values env k ds = Some (map literal ds)"
  by (induction ds arbitrary: env k)
    (auto simp: explicit_def literal_def split: option.splits cexpr.splits)

lemma enumerators_explicit: "list_all explicit ds \<Longrightarrow> enumerators ds = map literal ds"
  by (simp add: enumerators_def elaborate_def enum_values_explicit)

text \<open>Without names and operators the environment does not matter.\<close>

definition simple :: "string \<times> cexpr option \<Rightarrow> bool" where
  "simple d = (case snd d of None \<Rightarrow> True | Some (Lit _) \<Rightarrow> True | _ \<Rightarrow> False)"

fun simple_values :: "int \<Rightarrow> enum_decl \<Rightarrow> enum_env" where
  "simple_values k [] = []"
| "simple_values k ((n, Some (Lit v)) # ds) = (n, v) # simple_values (v + 1) ds"
| "simple_values k ((n, _) # ds) = (n, k) # simple_values (k + 1) ds"

fun simple_oversized :: "int \<Rightarrow> enum_decl \<Rightarrow> string list" where
  "simple_oversized k [] = []"
| "simple_oversized k ((n, Some (Lit v)) # ds) =
     (if fits_int v then simple_oversized (v + 1) ds else n # simple_oversized (v + 1) ds)"
| "simple_oversized k ((n, _) # ds) =
     (if fits_int k then simple_oversized (k + 1) ds else n # simple_oversized (k + 1) ds)"

lemma simple_simps [simp]: "simple (n, None)" "simple (n, Some (Lit v))"
  by (simp_all add: simple_def)

lemma enum_values_simple: "list_all simple ds \<Longrightarrow> enum_values env k ds = Some (simple_values k ds)"
proof (induction k ds arbitrary: env rule: simple_values.induct)
  case (2 k n v ds)
  then show ?case by simp
qed (simp_all add: simple_def)

lemma elaborate_simple: "list_all simple ds \<Longrightarrow> elaborate env ds = Some (simple_values 0 ds)"
  by (simp add: elaborate_def enum_values_simple)

lemma simple_oversized_filter:
  "simple_oversized k ds = map fst (filter (\<lambda>(n, v). \<not> fits_int v) (simple_values k ds))"
  by (induction k ds rule: simple_values.induct) simp_all

lemma oversized_simple: "list_all simple ds \<Longrightarrow> oversized env ds = Some (simple_oversized 0 ds)"
  by (simp add: oversized_def elaborate_simple simple_oversized_filter)

lemma conflicts_self [simp]: "conflicts ds ds = []"
  by (simp add: conflicts_def)

lemma subseq_subset: "subseq xs ys \<Longrightarrow> set xs \<subseteq> set ys"
  by (induction rule: list_emb.induct) auto

lemma subseq_keep: "subseq xs ys \<Longrightarrow> subseq (x # xs) (x # ys)"
  by simp

lemma filter_subseq: "subseq xs ys \<Longrightarrow> filter (\<lambda>p. p \<notin> set ys) xs = []"
  using subseq_subset by (auto simp: filter_empty_conv)

lemma conflicts_subseq:
  assumes "subseq ours theirs" and "list_all explicit theirs"
  shows "conflicts ours theirs = []"
proof -
  have "set ours \<subseteq> set theirs" using assms(1) by (rule subseq_subset)
  then have "list_all explicit ours" using assms(2) by (auto simp: list_all_iff)
  then show ?thesis
    using assms(2) \<open>set ours \<subseteq> set theirs\<close>
    by (auto simp: conflicts_def enumerators_explicit filter_empty_conv)
qed

text \<open>Ours agrees up to one enumerator, and again after it.\<close>

lemma conflicts_one:
  assumes "elaborate [] ours = Some (xs @ p # zs)" and "elaborate [] theirs = Some ys"
    and "subseq xs ys" and "p \<notin> set ys" and "subseq zs ys"
  shows "conflicts ours theirs = [p]"
  using assms(1,2,4) filter_subseq [OF assms(3)] filter_subseq [OF assms(5)]
  by (simp add: conflicts_def enumerators_def)

lemma conflicts_none:
  assumes "elaborate [] ours = Some xs" and "elaborate [] theirs = Some ys" and "subseq xs ys"
  shows "conflicts ours theirs = []"
  using assms(1,2) filter_subseq [OF assms(3)] by (simp add: conflicts_def enumerators_def)

lemma all_oversized_Nil: "all_oversized [] = Some []"
  by (simp add: all_oversized_def)

lemma all_oversized_Cons:
  "oversized env d = Some ns \<Longrightarrow> all_oversized ds = Some ms \<Longrightarrow> all_oversized ((env, d) # ds) = Some (ns @ ms)"
  by (auto simp: all_oversized_def)

lemmas enum_eval = elaborate_def oversized_def fits_int_def

end
