(* ===== verification/Abi_Cuda.thy ===== *)
theory Abi_Cuda
  imports C_Enum
begin

text \<open>
  The enumerations of \<open>src/cuda/cuda_subset.h\<close> and, where the vendor's \<open>cuda.h\<close> declares the
  same enumeration, its declaration, with the enumerators on which the two disagree.
\<close>

section \<open>\<open>cuda_subset.h\<close>\<close>

definition CUresult :: enum_decl where
  "CUresult =
    [(''CUDA_SUCCESS'', Some (Lit 0)),
     (''CUDA_ERROR_INVALID_VALUE'', Some (Lit 1)),
     (''CUDA_ERROR_OUT_OF_MEMORY'', Some (Lit 2)),
     (''CUDA_ERROR_NOT_INITIALIZED'', Some (Lit 3)),
     (''CUDA_ERROR_DEINITIALIZED'', Some (Lit 4)),
     (''CUDA_ERROR_PROFILER_DISABLED'', Some (Lit 5)),
     (''CUDA_ERROR_PROFILER_NOT_INITIALIZED'', Some (Lit 6)),
     (''CUDA_ERROR_PROFILER_ALREADY_STARTED'', Some (Lit 7)),
     (''CUDA_ERROR_PROFILER_ALREADY_STOPPED'', Some (Lit 8)),
     (''CUDA_ERROR_NO_DEVICE'', Some (Lit 100)),
     (''CUDA_ERROR_INVALID_DEVICE'', Some (Lit 101)),
     (''CUDA_ERROR_INVALID_IMAGE'', Some (Lit 200)),
     (''CUDA_ERROR_INVALID_CONTEXT'', Some (Lit 201)),
     (''CUDA_ERROR_CONTEXT_ALREADY_CURRENT'', Some (Lit 202)),
     (''CUDA_ERROR_MAP_FAILED'', Some (Lit 205)),
     (''CUDA_ERROR_UNMAP_FAILED'', Some (Lit 206)),
     (''CUDA_ERROR_ARRAY_IS_MAPPED'', Some (Lit 207)),
     (''CUDA_ERROR_ALREADY_MAPPED'', Some (Lit 208)),
     (''CUDA_ERROR_NO_BINARY_FOR_GPU'', Some (Lit 209)),
     (''CUDA_ERROR_ALREADY_ACQUIRED'', Some (Lit 210)),
     (''CUDA_ERROR_NOT_MAPPED'', Some (Lit 211)),
     (''CUDA_ERROR_NOT_MAPPED_AS_ARRAY'', Some (Lit 212)),
     (''CUDA_ERROR_NOT_MAPPED_AS_POINTER'', Some (Lit 213)),
     (''CUDA_ERROR_ECC_UNCORRECTABLE'', Some (Lit 214)),
     (''CUDA_ERROR_UNSUPPORTED_LIMIT'', Some (Lit 215)),
     (''CUDA_ERROR_CONTEXT_ALREADY_IN_USE'', Some (Lit 216)),
     (''CUDA_ERROR_PEER_ACCESS_UNSUPPORTED'', Some (Lit 217)),
     (''CUDA_ERROR_INVALID_PTX'', Some (Lit 218)),
     (''CUDA_ERROR_INVALID_GRAPHICS_CONTEXT'', Some (Lit 219)),
     (''CUDA_ERROR_NVLINK_UNCORRECTABLE'', Some (Lit 220)),
     (''CUDA_ERROR_INVALID_SOURCE'', Some (Lit 300)),
     (''CUDA_ERROR_FILE_NOT_FOUND'', Some (Lit 301)),
     (''CUDA_ERROR_SHARED_OBJECT_SYMBOL_NOT_FOUND'', Some (Lit 302)),
     (''CUDA_ERROR_SHARED_OBJECT_INIT_FAILED'', Some (Lit 303)),
     (''CUDA_ERROR_OPERATING_SYSTEM'', Some (Lit 304)),
     (''CUDA_ERROR_INVALID_HANDLE'', Some (Lit 400)),
     (''CUDA_ERROR_NOT_FOUND'', Some (Lit 500)),
     (''CUDA_ERROR_NOT_READY'', Some (Lit 600)),
     (''CUDA_ERROR_ILLEGAL_ADDRESS'', Some (Lit 700)),
     (''CUDA_ERROR_LAUNCH_OUT_OF_RESOURCES'', Some (Lit 701)),
     (''CUDA_ERROR_LAUNCH_TIMEOUT'', Some (Lit 702)),
     (''CUDA_ERROR_LAUNCH_INCOMPATIBLE_TEXTURING'', Some (Lit 703)),
     (''CUDA_ERROR_PEER_ACCESS_ALREADY_ENABLED'', Some (Lit 704)),
     (''CUDA_ERROR_PEER_ACCESS_NOT_ENABLED'', Some (Lit 705)),
     (''CUDA_ERROR_PRIMARY_CONTEXT_ACTIVE'', Some (Lit 708)),
     (''CUDA_ERROR_CONTEXT_IS_DESTROYED'', Some (Lit 709)),
     (''CUDA_ERROR_ASSERT'', Some (Lit 710)),
     (''CUDA_ERROR_TOO_MANY_PEERS'', Some (Lit 711)),
     (''CUDA_ERROR_HOST_MEMORY_ALREADY_REGISTERED'', Some (Lit 712)),
     (''CUDA_ERROR_HOST_MEMORY_NOT_REGISTERED'', Some (Lit 713)),
     (''CUDA_ERROR_HARDWARE_STACK_ERROR'', Some (Lit 714)),
     (''CUDA_ERROR_ILLEGAL_INSTRUCTION'', Some (Lit 715)),
     (''CUDA_ERROR_MISALIGNED_ADDRESS'', Some (Lit 716)),
     (''CUDA_ERROR_INVALID_ADDRESS_SPACE'', Some (Lit 717)),
     (''CUDA_ERROR_INVALID_PC'', Some (Lit 718)),
     (''CUDA_ERROR_LAUNCH_FAILED'', Some (Lit 719)),
     (''CUDA_ERROR_NOT_PERMITTED'', Some (Lit 800)),
     (''CUDA_ERROR_NOT_SUPPORTED'', Some (Lit 801)),
     (''CUDA_ERROR_UNKNOWN'', Some (Lit 999))]"

definition CUdevice_attribute :: enum_decl where
  "CUdevice_attribute =
    [(''CU_DEVICE_ATTRIBUTE_MAX_THREADS_PER_BLOCK'', Some (Lit 1)),
     (''CU_DEVICE_ATTRIBUTE_MAX_BLOCK_DIM_X'', Some (Lit 2)),
     (''CU_DEVICE_ATTRIBUTE_MAX_BLOCK_DIM_Y'', Some (Lit 3)),
     (''CU_DEVICE_ATTRIBUTE_MAX_BLOCK_DIM_Z'', Some (Lit 4)),
     (''CU_DEVICE_ATTRIBUTE_MAX_GRID_DIM_X'', Some (Lit 5)),
     (''CU_DEVICE_ATTRIBUTE_MAX_GRID_DIM_Y'', Some (Lit 6)),
     (''CU_DEVICE_ATTRIBUTE_MAX_GRID_DIM_Z'', Some (Lit 7)),
     (''CU_DEVICE_ATTRIBUTE_MAX_SHARED_MEMORY_PER_BLOCK'', Some (Lit 8)),
     (''CU_DEVICE_ATTRIBUTE_SHARED_MEMORY_PER_BLOCK'', Some (Lit 8)),
     (''CU_DEVICE_ATTRIBUTE_TOTAL_CONSTANT_MEMORY'', Some (Lit 9)),
     (''CU_DEVICE_ATTRIBUTE_WARP_SIZE'', Some (Lit 10)),
     (''CU_DEVICE_ATTRIBUTE_MAX_PITCH'', Some (Lit 11)),
     (''CU_DEVICE_ATTRIBUTE_MAX_REGISTERS_PER_BLOCK'', Some (Lit 12)),
     (''CU_DEVICE_ATTRIBUTE_REGISTERS_PER_BLOCK'', Some (Lit 12)),
     (''CU_DEVICE_ATTRIBUTE_CLOCK_RATE'', Some (Lit 13)),
     (''CU_DEVICE_ATTRIBUTE_TEXTURE_ALIGNMENT'', Some (Lit 14)),
     (''CU_DEVICE_ATTRIBUTE_GPU_OVERLAP'', Some (Lit 15)),
     (''CU_DEVICE_ATTRIBUTE_MULTIPROCESSOR_COUNT'', Some (Lit 16)),
     (''CU_DEVICE_ATTRIBUTE_KERNEL_EXEC_TIMEOUT'', Some (Lit 17)),
     (''CU_DEVICE_ATTRIBUTE_INTEGRATED'', Some (Lit 18)),
     (''CU_DEVICE_ATTRIBUTE_CAN_MAP_HOST_MEMORY'', Some (Lit 19)),
     (''CU_DEVICE_ATTRIBUTE_COMPUTE_MODE'', Some (Lit 20)),
     (''CU_DEVICE_ATTRIBUTE_MAXIMUM_TEXTURE1D_WIDTH'', Some (Lit 21)),
     (''CU_DEVICE_ATTRIBUTE_MAXIMUM_TEXTURE2D_WIDTH'', Some (Lit 22)),
     (''CU_DEVICE_ATTRIBUTE_MAXIMUM_TEXTURE2D_HEIGHT'', Some (Lit 23)),
     (''CU_DEVICE_ATTRIBUTE_MAXIMUM_TEXTURE3D_WIDTH'', Some (Lit 24)),
     (''CU_DEVICE_ATTRIBUTE_MAXIMUM_TEXTURE3D_HEIGHT'', Some (Lit 25)),
     (''CU_DEVICE_ATTRIBUTE_MAXIMUM_TEXTURE3D_DEPTH'', Some (Lit 26)),
     (''CU_DEVICE_ATTRIBUTE_MAXIMUM_TEXTURE2D_LAYERED_WIDTH'', Some (Lit 27)),
     (''CU_DEVICE_ATTRIBUTE_MAXIMUM_TEXTURE2D_LAYERED_HEIGHT'', Some (Lit 28)),
     (''CU_DEVICE_ATTRIBUTE_MAXIMUM_TEXTURE2D_LAYERED_LAYERS'', Some (Lit 29)),
     (''CU_DEVICE_ATTRIBUTE_MAXIMUM_TEXTURE2D_ARRAY_WIDTH'', Some (Lit 27)),
     (''CU_DEVICE_ATTRIBUTE_MAXIMUM_TEXTURE2D_ARRAY_HEIGHT'', Some (Lit 28)),
     (''CU_DEVICE_ATTRIBUTE_MAXIMUM_TEXTURE2D_ARRAY_NUMSLICES'', Some (Lit 29)),
     (''CU_DEVICE_ATTRIBUTE_SURFACE_ALIGNMENT'', Some (Lit 30)),
     (''CU_DEVICE_ATTRIBUTE_CONCURRENT_KERNELS'', Some (Lit 31)),
     (''CU_DEVICE_ATTRIBUTE_ECC_ENABLED'', Some (Lit 32)),
     (''CU_DEVICE_ATTRIBUTE_PCI_BUS_ID'', Some (Lit 33)),
     (''CU_DEVICE_ATTRIBUTE_PCI_DEVICE_ID'', Some (Lit 34)),
     (''CU_DEVICE_ATTRIBUTE_TCC_DRIVER'', Some (Lit 35)),
     (''CU_DEVICE_ATTRIBUTE_MEMORY_CLOCK_RATE'', Some (Lit 36)),
     (''CU_DEVICE_ATTRIBUTE_GLOBAL_MEMORY_BUS_WIDTH'', Some (Lit 37)),
     (''CU_DEVICE_ATTRIBUTE_L2_CACHE_SIZE'', Some (Lit 38)),
     (''CU_DEVICE_ATTRIBUTE_MAX_THREADS_PER_MULTIPROCESSOR'', Some (Lit 39)),
     (''CU_DEVICE_ATTRIBUTE_ASYNC_ENGINE_COUNT'', Some (Lit 40)),
     (''CU_DEVICE_ATTRIBUTE_UNIFIED_ADDRESSING'', Some (Lit 41)),
     (''CU_DEVICE_ATTRIBUTE_MAXIMUM_TEXTURE1D_LAYERED_WIDTH'', Some (Lit 42)),
     (''CU_DEVICE_ATTRIBUTE_MAXIMUM_TEXTURE1D_LAYERED_LAYERS'', Some (Lit 43)),
     (''CU_DEVICE_ATTRIBUTE_CAN_TEX2D_GATHER'', Some (Lit 44)),
     (''CU_DEVICE_ATTRIBUTE_MAXIMUM_TEXTURE2D_GATHER_WIDTH'', Some (Lit 45)),
     (''CU_DEVICE_ATTRIBUTE_MAXIMUM_TEXTURE2D_GATHER_HEIGHT'', Some (Lit 46)),
     (''CU_DEVICE_ATTRIBUTE_MAXIMUM_TEXTURE3D_WIDTH_ALTERNATE'', Some (Lit 47)),
     (''CU_DEVICE_ATTRIBUTE_MAXIMUM_TEXTURE3D_HEIGHT_ALTERNATE'', Some (Lit 48)),
     (''CU_DEVICE_ATTRIBUTE_MAXIMUM_TEXTURE3D_DEPTH_ALTERNATE'', Some (Lit 49)),
     (''CU_DEVICE_ATTRIBUTE_PCI_DOMAIN_ID'', Some (Lit 50)),
     (''CU_DEVICE_ATTRIBUTE_TEXTURE_PITCH_ALIGNMENT'', Some (Lit 51)),
     (''CU_DEVICE_ATTRIBUTE_MAXIMUM_TEXTURECUBEMAP_WIDTH'', Some (Lit 52)),
     (''CU_DEVICE_ATTRIBUTE_MAXIMUM_TEXTURECUBEMAP_LAYERED_WIDTH'', Some (Lit 53)),
     (''CU_DEVICE_ATTRIBUTE_MAXIMUM_TEXTURECUBEMAP_LAYERED_LAYERS'', Some (Lit 54)),
     (''CU_DEVICE_ATTRIBUTE_MAXIMUM_SURFACE1D_WIDTH'', Some (Lit 55)),
     (''CU_DEVICE_ATTRIBUTE_MAXIMUM_SURFACE2D_WIDTH'', Some (Lit 56)),
     (''CU_DEVICE_ATTRIBUTE_MAXIMUM_SURFACE2D_HEIGHT'', Some (Lit 57)),
     (''CU_DEVICE_ATTRIBUTE_MAXIMUM_SURFACE3D_WIDTH'', Some (Lit 58)),
     (''CU_DEVICE_ATTRIBUTE_MAXIMUM_SURFACE3D_HEIGHT'', Some (Lit 59)),
     (''CU_DEVICE_ATTRIBUTE_MAXIMUM_SURFACE3D_DEPTH'', Some (Lit 60)),
     (''CU_DEVICE_ATTRIBUTE_MAXIMUM_SURFACE1D_LAYERED_WIDTH'', Some (Lit 61)),
     (''CU_DEVICE_ATTRIBUTE_MAXIMUM_SURFACE1D_LAYERED_LAYERS'', Some (Lit 62)),
     (''CU_DEVICE_ATTRIBUTE_MAXIMUM_SURFACE2D_LAYERED_WIDTH'', Some (Lit 63)),
     (''CU_DEVICE_ATTRIBUTE_MAXIMUM_SURFACE2D_LAYERED_HEIGHT'', Some (Lit 64)),
     (''CU_DEVICE_ATTRIBUTE_MAXIMUM_SURFACE2D_LAYERED_LAYERS'', Some (Lit 65)),
     (''CU_DEVICE_ATTRIBUTE_MAXIMUM_SURFACECUBEMAP_WIDTH'', Some (Lit 66)),
     (''CU_DEVICE_ATTRIBUTE_MAXIMUM_SURFACECUBEMAP_LAYERED_WIDTH'', Some (Lit 67)),
     (''CU_DEVICE_ATTRIBUTE_MAXIMUM_SURFACECUBEMAP_LAYERED_LAYERS'', Some (Lit 68)),
     (''CU_DEVICE_ATTRIBUTE_MAXIMUM_TEXTURE1D_LINEAR_WIDTH'', Some (Lit 69)),
     (''CU_DEVICE_ATTRIBUTE_MAXIMUM_TEXTURE2D_LINEAR_WIDTH'', Some (Lit 70)),
     (''CU_DEVICE_ATTRIBUTE_MAXIMUM_TEXTURE2D_LINEAR_HEIGHT'', Some (Lit 71)),
     (''CU_DEVICE_ATTRIBUTE_MAXIMUM_TEXTURE2D_LINEAR_PITCH'', Some (Lit 72)),
     (''CU_DEVICE_ATTRIBUTE_MAXIMUM_TEXTURE2D_MIPMAPPED_WIDTH'', Some (Lit 73)),
     (''CU_DEVICE_ATTRIBUTE_MAXIMUM_TEXTURE2D_MIPMAPPED_HEIGHT'', Some (Lit 74)),
     (''CU_DEVICE_ATTRIBUTE_COMPUTE_CAPABILITY_MAJOR'', Some (Lit 75)),
     (''CU_DEVICE_ATTRIBUTE_COMPUTE_CAPABILITY_MINOR'', Some (Lit 76)),
     (''CU_DEVICE_ATTRIBUTE_MAXIMUM_TEXTURE1D_MIPMAPPED_WIDTH'', Some (Lit 77)),
     (''CU_DEVICE_ATTRIBUTE_STREAM_PRIORITIES_SUPPORTED'', Some (Lit 78)),
     (''CU_DEVICE_ATTRIBUTE_GLOBAL_L1_CACHE_SUPPORTED'', Some (Lit 79)),
     (''CU_DEVICE_ATTRIBUTE_LOCAL_L1_CACHE_SUPPORTED'', Some (Lit 80)),
     (''CU_DEVICE_ATTRIBUTE_MAX_SHARED_MEMORY_PER_MULTIPROCESSOR'', Some (Lit 81)),
     (''CU_DEVICE_ATTRIBUTE_MAX_REGISTERS_PER_MULTIPROCESSOR'', Some (Lit 82)),
     (''CU_DEVICE_ATTRIBUTE_MANAGED_MEMORY'', Some (Lit 83)),
     (''CU_DEVICE_ATTRIBUTE_MULTI_GPU_BOARD'', Some (Lit 84)),
     (''CU_DEVICE_ATTRIBUTE_MULTI_GPU_BOARD_GROUP_ID'', Some (Lit 85)),
     (''CU_DEVICE_ATTRIBUTE_HOST_NATIVE_ATOMIC_SUPPORTED'', Some (Lit 86)),
     (''CU_DEVICE_ATTRIBUTE_SINGLE_TO_DOUBLE_PRECISION_PERF_RATIO'', Some (Lit 87)),
     (''CU_DEVICE_ATTRIBUTE_PAGEABLE_MEMORY_ACCESS'', Some (Lit 88)),
     (''CU_DEVICE_ATTRIBUTE_CONCURRENT_MANAGED_ACCESS'', Some (Lit 89)),
     (''CU_DEVICE_ATTRIBUTE_COMPUTE_PREEMPTION_SUPPORTED'', Some (Lit 90)),
     (''CU_DEVICE_ATTRIBUTE_CAN_USE_HOST_POINTER_FOR_REGISTERED_MEM'', Some (Lit 91)),
     (''CU_DEVICE_ATTRIBUTE_CAN_USE_STREAM_MEM_OPS'', Some (Lit 92)),
     (''CU_DEVICE_ATTRIBUTE_CAN_USE_64_BIT_STREAM_MEM_OPS'', Some (Lit 93)),
     (''CU_DEVICE_ATTRIBUTE_CAN_USE_STREAM_WAIT_VALUE_NOR'', Some (Lit 94)),
     (''CU_DEVICE_ATTRIBUTE_COOPERATIVE_LAUNCH'', Some (Lit 95)),
     (''CU_DEVICE_ATTRIBUTE_COOPERATIVE_MULTI_DEVICE_LAUNCH'', Some (Lit 96)),
     (''CU_DEVICE_ATTRIBUTE_MAX_SHARED_MEMORY_PER_BLOCK_OPTIN'', Some (Lit 97)),
     (''CU_DEVICE_ATTRIBUTE_MAX'', None)]"

definition CUdevice_P2PAttribute :: enum_decl where
  "CUdevice_P2PAttribute =
    [(''CU_DEVICE_P2P_ATTRIBUTE_PERFORMANCE_RANK'', Some (Lit 0x01)),
     (''CU_DEVICE_P2P_ATTRIBUTE_ACCESS_SUPPORTED'', Some (Lit 0x02)),
     (''CU_DEVICE_P2P_ATTRIBUTE_NATIVE_ATOMIC_SUPPORTED'', Some (Lit 0x03))]"

definition CUlimit :: enum_decl where
  "CUlimit =
    [(''CU_LIMIT_STACK_SIZE'', Some (Lit 0x00)),
     (''CU_LIMIT_PRINTF_FIFO_SIZE'', Some (Lit 0x01)),
     (''CU_LIMIT_MALLOC_HEAP_SIZE'', Some (Lit 0x02)),
     (''CU_LIMIT_DEV_RUNTIME_SYNC_DEPTH'', Some (Lit 0x03)),
     (''CU_LIMIT_DEV_RUNTIME_PENDING_LAUNCH_COUNT'', Some (Lit 0x04)),
     (''CU_LIMIT_MAX'', None)]"

definition CUfunc_cache :: enum_decl where
  "CUfunc_cache =
    [(''CU_FUNC_CACHE_PREFER_NONE'', Some (Lit 0x00)),
     (''CU_FUNC_CACHE_PREFER_SHARED'', Some (Lit 0x01)),
     (''CU_FUNC_CACHE_PREFER_L1'', Some (Lit 0x02)),
     (''CU_FUNC_CACHE_PREFER_EQUAL'', Some (Lit 0x03))]"

definition CUsharedconfig :: enum_decl where
  "CUsharedconfig =
    [(''CU_SHARED_MEM_CONFIG_DEFAULT_BANK_SIZE'', Some (Lit 0x00)),
     (''CU_SHARED_MEM_CONFIG_FOUR_BYTE_BANK_SIZE'', Some (Lit 0x01)),
     (''CU_SHARED_MEM_CONFIG_EIGHT_BYTE_BANK_SIZE'', Some (Lit 0x02))]"

definition CUjit_option :: enum_decl where
  "CUjit_option =
    [(''CU_JIT_MAX_REGISTERS'', Some (Lit 0)),
     (''CU_JIT_THREADS_PER_BLOCK'', None),
     (''CU_JIT_WALL_TIME'', None),
     (''CU_JIT_INFO_LOG_BUFFER'', None),
     (''CU_JIT_INFO_LOG_BUFFER_SIZE_BYTES'', None),
     (''CU_JIT_ERROR_LOG_BUFFER'', None),
     (''CU_JIT_ERROR_LOG_BUFFER_SIZE_BYTES'', None),
     (''CU_JIT_OPTIMIZATION_LEVEL'', None),
     (''CU_JIT_TARGET_FROM_CUCONTEXT'', None),
     (''CU_JIT_TARGET'', None),
     (''CU_JIT_FALLBACK_STRATEGY'', None),
     (''CU_JIT_GENERATE_DEBUG_INFO'', None),
     (''CU_JIT_LOG_VERBOSE'', None),
     (''CU_JIT_GENERATE_LINE_INFO'', None),
     (''CU_JIT_CACHE_MODE'', None),
     (''CU_JIT_NEW_SM3X_OPT'', None),
     (''CU_JIT_FAST_COMPILE'', None),
     (''CU_JIT_NUM_OPTIONS'', None)]"

definition CUjitInputType :: enum_decl where
  "CUjitInputType =
    [(''CU_JIT_INPUT_CUBIN'', Some (Lit 0)),
     (''CU_JIT_INPUT_PTX'', None),
     (''CU_JIT_INPUT_FATBINARY'', None),
     (''CU_JIT_INPUT_OBJECT'', None),
     (''CU_JIT_INPUT_LIBRARY'', None),
     (''CU_JIT_NUM_INPUT_TYPES'', None)]"

definition CUpointer_attribute :: enum_decl where
  "CUpointer_attribute =
    [(''CU_POINTER_ATTRIBUTE_CONTEXT'', Some (Lit 1)),
     (''CU_POINTER_ATTRIBUTE_MEMORY_TYPE'', Some (Lit 2)),
     (''CU_POINTER_ATTRIBUTE_DEVICE_POINTER'', Some (Lit 3)),
     (''CU_POINTER_ATTRIBUTE_HOST_POINTER'', Some (Lit 4)),
     (''CU_POINTER_ATTRIBUTE_P2P_TOKENS'', Some (Lit 5)),
     (''CU_POINTER_ATTRIBUTE_SYNC_MEMOPS'', Some (Lit 6)),
     (''CU_POINTER_ATTRIBUTE_BUFFER_ID'', Some (Lit 7)),
     (''CU_POINTER_ATTRIBUTE_IS_MANAGED'', Some (Lit 8))]"

definition CUmemorytype :: enum_decl where
  "CUmemorytype =
    [(''CU_MEMORYTYPE_HOST'', Some (Lit 0x01)),
     (''CU_MEMORYTYPE_DEVICE'', Some (Lit 0x02)),
     (''CU_MEMORYTYPE_ARRAY'', Some (Lit 0x03)),
     (''CU_MEMORYTYPE_UNIFIED'', Some (Lit 0x04))]"

definition CUfunction_attribute :: enum_decl where
  "CUfunction_attribute =
    [(''CU_FUNC_ATTRIBUTE_MAX_THREADS_PER_BLOCK'', Some (Lit 0)),
     (''CU_FUNC_ATTRIBUTE_SHARED_SIZE_BYTES'', Some (Lit 1)),
     (''CU_FUNC_ATTRIBUTE_CONST_SIZE_BYTES'', Some (Lit 2)),
     (''CU_FUNC_ATTRIBUTE_LOCAL_SIZE_BYTES'', Some (Lit 3)),
     (''CU_FUNC_ATTRIBUTE_NUM_REGS'', Some (Lit 4)),
     (''CU_FUNC_ATTRIBUTE_PTX_VERSION'', Some (Lit 5)),
     (''CU_FUNC_ATTRIBUTE_BINARY_VERSION'', Some (Lit 6)),
     (''CU_FUNC_ATTRIBUTE_CACHE_MODE_CA'', Some (Lit 7)),
     (''CU_FUNC_ATTRIBUTE_MAX'', None)]"

definition CUarray_format :: enum_decl where
  "CUarray_format =
    [(''CU_AD_FORMAT_UNSIGNED_INT8'', Some (Lit 0x01)),
     (''CU_AD_FORMAT_UNSIGNED_INT16'', Some (Lit 0x02)),
     (''CU_AD_FORMAT_UNSIGNED_INT32'', Some (Lit 0x03)),
     (''CU_AD_FORMAT_SIGNED_INT8'', Some (Lit 0x08)),
     (''CU_AD_FORMAT_SIGNED_INT16'', Some (Lit 0x09)),
     (''CU_AD_FORMAT_SIGNED_INT32'', Some (Lit 0x0a)),
     (''CU_AD_FORMAT_HALF'', Some (Lit 0x10)),
     (''CU_AD_FORMAT_FLOAT'', Some (Lit 0x20))]"

definition CUaddress_mode :: enum_decl where
  "CUaddress_mode =
    [(''CU_TR_ADDRESS_MODE_WRAP'', Some (Lit 0)),
     (''CU_TR_ADDRESS_MODE_CLAMP'', Some (Lit 1)),
     (''CU_TR_ADDRESS_MODE_MIRROR'', Some (Lit 2)),
     (''CU_TR_ADDRESS_MODE_BORDER'', Some (Lit 3))]"

definition CUfilter_mode :: enum_decl where
  "CUfilter_mode =
    [(''CU_TR_FILTER_MODE_POINT'', Some (Lit 0)),
     (''CU_TR_FILTER_MODE_LINEAR'', Some (Lit 1))]"

definition CUresourcetype :: enum_decl where
  "CUresourcetype =
    [(''CU_RESOURCE_TYPE_ARRAY'', Some (Lit 0x00)),
     (''CU_RESOURCE_TYPE_MIPMAPPED_ARRAY'', Some (Lit 0x01)),
     (''CU_RESOURCE_TYPE_LINEAR'', Some (Lit 0x02)),
     (''CU_RESOURCE_TYPE_PITCH2D'', Some (Lit 0x03))]"

definition CUresourceViewFormat :: enum_decl where
  "CUresourceViewFormat =
    [(''CU_RES_VIEW_FORMAT_NONE'', Some (Lit 0x00)),
     (''CU_RES_VIEW_FORMAT_UINT_1X8'', Some (Lit 0x01)),
     (''CU_RES_VIEW_FORMAT_UINT_2X8'', Some (Lit 0x02)),
     (''CU_RES_VIEW_FORMAT_UINT_4X8'', Some (Lit 0x03)),
     (''CU_RES_VIEW_FORMAT_SINT_1X8'', Some (Lit 0x04)),
     (''CU_RES_VIEW_FORMAT_SINT_2X8'', Some (Lit 0x05)),
     (''CU_RES_VIEW_FORMAT_SINT_4X8'', Some (Lit 0x06)),
     (''CU_RES_VIEW_FORMAT_UINT_1X16'', Some (Lit 0x07)),
     (''CU_RES_VIEW_FORMAT_UINT_2X16'', Some (Lit 0x08)),
     (''CU_RES_VIEW_FORMAT_UINT_4X16'', Some (Lit 0x09)),
     (''CU_RES_VIEW_FORMAT_SINT_1X16'', Some (Lit 0x0a)),
     (''CU_RES_VIEW_FORMAT_SINT_2X16'', Some (Lit 0x0b)),
     (''CU_RES_VIEW_FORMAT_SINT_4X16'', Some (Lit 0x0c)),
     (''CU_RES_VIEW_FORMAT_UINT_1X32'', Some (Lit 0x0d)),
     (''CU_RES_VIEW_FORMAT_UINT_2X32'', Some (Lit 0x0e)),
     (''CU_RES_VIEW_FORMAT_UINT_4X32'', Some (Lit 0x0f)),
     (''CU_RES_VIEW_FORMAT_SINT_1X32'', Some (Lit 0x10)),
     (''CU_RES_VIEW_FORMAT_SINT_2X32'', Some (Lit 0x11)),
     (''CU_RES_VIEW_FORMAT_SINT_4X32'', Some (Lit 0x12)),
     (''CU_RES_VIEW_FORMAT_FLOAT_1X16'', Some (Lit 0x13)),
     (''CU_RES_VIEW_FORMAT_FLOAT_2X16'', Some (Lit 0x14)),
     (''CU_RES_VIEW_FORMAT_FLOAT_4X16'', Some (Lit 0x15)),
     (''CU_RES_VIEW_FORMAT_FLOAT_1X32'', Some (Lit 0x16)),
     (''CU_RES_VIEW_FORMAT_FLOAT_2X32'', Some (Lit 0x17)),
     (''CU_RES_VIEW_FORMAT_FLOAT_4X32'', Some (Lit 0x18)),
     (''CU_RES_VIEW_FORMAT_UNSIGNED_BC1'', Some (Lit 0x19)),
     (''CU_RES_VIEW_FORMAT_UNSIGNED_BC2'', Some (Lit 0x1a)),
     (''CU_RES_VIEW_FORMAT_UNSIGNED_BC3'', Some (Lit 0x1b)),
     (''CU_RES_VIEW_FORMAT_UNSIGNED_BC4'', Some (Lit 0x1c)),
     (''CU_RES_VIEW_FORMAT_SIGNED_BC4'', Some (Lit 0x1d)),
     (''CU_RES_VIEW_FORMAT_UNSIGNED_BC5'', Some (Lit 0x1e)),
     (''CU_RES_VIEW_FORMAT_SIGNED_BC5'', Some (Lit 0x1f)),
     (''CU_RES_VIEW_FORMAT_UNSIGNED_BC6H'', Some (Lit 0x20)),
     (''CU_RES_VIEW_FORMAT_SIGNED_BC6H'', Some (Lit 0x21)),
     (''CU_RES_VIEW_FORMAT_UNSIGNED_BC7'', Some (Lit 0x22))]"

definition CUstreamBatchMemOpType :: enum_decl where
  "CUstreamBatchMemOpType =
    [(''CU_STREAM_MEM_OP_WAIT_VALUE_32'', Some (Lit 1)),
     (''CU_STREAM_MEM_OP_WRITE_VALUE_32'', Some (Lit 2)),
     (''CU_STREAM_MEM_OP_FLUSH_REMOTE_WRITES'', Some (Lit 3))]"

definition CUGLDeviceList :: enum_decl where
  "CUGLDeviceList =
    [(''CU_GL_DEVICE_LIST_ALL'', Some (Lit 0x01)),
     (''CU_GL_DEVICE_LIST_CURRENT_FRAME'', Some (Lit 0x02)),
     (''CU_GL_DEVICE_LIST_NEXT_FRAME'', Some (Lit 0x03))]"

definition CUoutput_mode :: enum_decl where
  "CUoutput_mode =
    [(''CU_OUT_KEY_VALUE_PAIR'', Some (Lit 0x00)),
     (''CU_OUT_CSV'', Some (Lit 0x01))]"

definition CUmem_advise :: enum_decl where
  "CUmem_advise =
    [(''CU_MEM_ADVISE_SET_READ_MOSTLY'', Some (Lit 1)),
     (''CU_MEM_ADVISE_UNSET_READ_MOSTLY'', Some (Lit 2)),
     (''CU_MEM_ADVISE_SET_PREFERRED_LOCATION'', Some (Lit 3)),
     (''CU_MEM_ADVISE_UNSET_PREFERRED_LOCATION'', Some (Lit 4)),
     (''CU_MEM_ADVISE_SET_ACCESSED_BY'', Some (Lit 5)),
     (''CU_MEM_ADVISE_UNSET_ACCESSED_BY'', Some (Lit 6))]"

definition CUmem_range_attribute :: enum_decl where
  "CUmem_range_attribute =
    [(''CU_MEM_RANGE_ATTRIBUTE_READ_MOSTLY'', Some (Lit 1)),
     (''CU_MEM_RANGE_ATTRIBUTE_PREFERRED_LOCATION'', Some (Lit 2)),
     (''CU_MEM_RANGE_ATTRIBUTE_ACCESSED_BY'', Some (Lit 3)),
     (''CU_MEM_RANGE_ATTRIBUTE_LAST_PREFETCH_LOCATION'', Some (Lit 4))]"

definition CUDBGResult :: enum_decl where
  "CUDBGResult =
    [(''CUDBG_SUCCESS'', Some (Lit 0x0000)),
     (''CUDBG_ERROR_UNKNOWN'', Some (Lit 0x0001)),
     (''CUDBG_ERROR_BUFFER_TOO_SMALL'', Some (Lit 0x0002)),
     (''CUDBG_ERROR_UNKNOWN_FUNCTION'', Some (Lit 0x0003)),
     (''CUDBG_ERROR_INVALID_ARGS'', Some (Lit 0x0004)),
     (''CUDBG_ERROR_UNINITIALIZED'', Some (Lit 0x0005)),
     (''CUDBG_ERROR_INVALID_COORDINATES'', Some (Lit 0x0006)),
     (''CUDBG_ERROR_INVALID_MEMORY_SEGMENT'', Some (Lit 0x0007)),
     (''CUDBG_ERROR_INVALID_MEMORY_ACCESS'', Some (Lit 0x0008)),
     (''CUDBG_ERROR_MEMORY_MAPPING_FAILED'', Some (Lit 0x0009)),
     (''CUDBG_ERROR_INTERNAL'', Some (Lit 0x000a)),
     (''CUDBG_ERROR_INVALID_DEVICE'', Some (Lit 0x000b)),
     (''CUDBG_ERROR_INVALID_SM'', Some (Lit 0x000c)),
     (''CUDBG_ERROR_INVALID_WARP'', Some (Lit 0x000d)),
     (''CUDBG_ERROR_INVALID_LANE'', Some (Lit 0x000e)),
     (''CUDBG_ERROR_SUSPENDED_DEVICE'', Some (Lit 0x000f)),
     (''CUDBG_ERROR_RUNNING_DEVICE'', Some (Lit 0x0010)),
     (''CUDBG_ERROR_RESERVED_0'', Some (Lit 0x0011)),
     (''CUDBG_ERROR_INVALID_ADDRESS'', Some (Lit 0x0012)),
     (''CUDBG_ERROR_INCOMPATIBLE_API'', Some (Lit 0x0013)),
     (''CUDBG_ERROR_INITIALIZATION_FAILURE'', Some (Lit 0x0014)),
     (''CUDBG_ERROR_INVALID_GRID'', Some (Lit 0x0015)),
     (''CUDBG_ERROR_NO_EVENT_AVAILABLE'', Some (Lit 0x0016)),
     (''CUDBG_ERROR_SOME_DEVICES_WATCHDOGGED'', Some (Lit 0x0017)),
     (''CUDBG_ERROR_ALL_DEVICES_WATCHDOGGED'', Some (Lit 0x0018)),
     (''CUDBG_ERROR_INVALID_ATTRIBUTE'', Some (Lit 0x0019)),
     (''CUDBG_ERROR_ZERO_CALL_DEPTH'', Some (Lit 0x001a)),
     (''CUDBG_ERROR_INVALID_CALL_LEVEL'', Some (Lit 0x001b)),
     (''CUDBG_ERROR_COMMUNICATION_FAILURE'', Some (Lit 0x001c)),
     (''CUDBG_ERROR_INVALID_CONTEXT'', Some (Lit 0x001d)),
     (''CUDBG_ERROR_ADDRESS_NOT_IN_DEVICE_MEM'', Some (Lit 0x001e)),
     (''CUDBG_ERROR_MEMORY_UNMAPPING_FAILED'', Some (Lit 0x001f)),
     (''CUDBG_ERROR_INCOMPATIBLE_DISPLAY_DRIVER'', Some (Lit 0x0020)),
     (''CUDBG_ERROR_INVALID_MODULE'', Some (Lit 0x0021)),
     (''CUDBG_ERROR_LANE_NOT_IN_SYSCALL'', Some (Lit 0x0022)),
     (''CUDBG_ERROR_MEMCHECK_NOT_ENABLED'', Some (Lit 0x0023)),
     (''CUDBG_ERROR_INVALID_ENVVAR_ARGS'', Some (Lit 0x0024)),
     (''CUDBG_ERROR_OS_RESOURCES'', Some (Lit 0x0025)),
     (''CUDBG_ERROR_FORK_FAILED'', Some (Lit 0x0026)),
     (''CUDBG_ERROR_NO_DEVICE_AVAILABLE'', Some (Lit 0x0027)),
     (''CUDBG_ERROR_ATTACH_NOT_POSSIBLE'', Some (Lit 0x0028)),
     (''CUDBG_ERROR_WARP_RESUME_NOT_POSSIBLE'', Some (Lit 0x0029)),
     (''CUDBG_ERROR_INVALID_WARP_MASK'', Some (Lit 0x002a)),
     (''CUDBG_ERROR_AMBIGUOUS_MEMORY_ADDRESS'', Some (Lit 0x002b)),
     (''CUDBG_ERROR_RECURSIVE_API_CALL'', Some (Lit 0x002c))]"

definition CUeglFrameType :: enum_decl where
  "CUeglFrameType =
    [(''CU_EGL_FRAME_TYPE_ARRAY'', Some (Lit 0)),
     (''CU_EGL_FRAME_TYPE_PITCH'', Some (Lit 1))]"

definition CUeglColorFormat :: enum_decl where
  "CUeglColorFormat =
    [(''CU_EGL_COLOR_FORMAT_YUV420_PLANAR'', Some (Lit 0x00)),
     (''CU_EGL_COLOR_FORMAT_YUV420_SEMIPLANAR'', Some (Lit 0x01)),
     (''CU_EGL_COLOR_FORMAT_YUV422_PLANAR'', Some (Lit 0x02)),
     (''CU_EGL_COLOR_FORMAT_YUV422_SEMIPLANAR'', Some (Lit 0x03)),
     (''CU_EGL_COLOR_FORMAT_RGB'', Some (Lit 0x04)),
     (''CU_EGL_COLOR_FORMAT_BGR'', Some (Lit 0x05)),
     (''CU_EGL_COLOR_FORMAT_ARGB'', Some (Lit 0x06)),
     (''CU_EGL_COLOR_FORMAT_RGBA'', Some (Lit 0x07)),
     (''CU_EGL_COLOR_FORMAT_L'', Some (Lit 0x08)),
     (''CU_EGL_COLOR_FORMAT_R'', Some (Lit 0x09))]"

definition CUgraphNodeType :: enum_decl where
  "CUgraphNodeType =
    [(''CU_GRAPH_NODE_TYPE_KERNEL'', Some (Lit 0)),
     (''CU_GRAPH_NODE_TYPE_MEMCPY'', Some (Lit 1)),
     (''CU_GRAPH_NODE_TYPE_MEMSET'', Some (Lit 2)),
     (''CU_GRAPH_NODE_TYPE_HOST'', Some (Lit 3)),
     (''CU_GRAPH_NODE_TYPE_GRAPH'', Some (Lit 4)),
     (''CU_GRAPH_NODE_TYPE_EMPTY'', Some (Lit 5)),
     (''CU_GRAPH_NODE_TYPE_COUNT'', None)]"

definition CUexternalMemoryHandleType :: enum_decl where
  "CUexternalMemoryHandleType =
    [(''CU_EXTERNAL_MEMORY_HANDLE_TYPE_OPAQUE_FD'', Some (Lit 1)),
     (''CU_EXTERNAL_MEMORY_HANDLE_TYPE_OPAQUE_WIN32'', Some (Lit 2)),
     (''CU_EXTERNAL_MEMORY_HANDLE_TYPE_OPAQUE_WIN32_KMT'', Some (Lit 3)),
     (''CU_EXTERNAL_MEMORY_HANDLE_TYPE_D3D12_HEAP'', Some (Lit 4)),
     (''CU_EXTERNAL_MEMORY_HANDLE_TYPE_D3D12_RESOURCE'', Some (Lit 5))]"

definition CUexternalSemaphoreHandleType :: enum_decl where
  "CUexternalSemaphoreHandleType =
    [(''CU_EXTERNAL_SEMAPHORE_HANDLE_TYPE_OPAQUE_FD'', Some (Lit 1)),
     (''CU_EXTERNAL_SEMAPHORE_HANDLE_TYPE_OPAQUE_WIN32'', Some (Lit 2)),
     (''CU_EXTERNAL_SEMAPHORE_HANDLE_TYPE_OPAQUE_WIN32_KMT'', Some (Lit 3)),
     (''CU_EXTERNAL_SEMAPHORE_HANDLE_TYPE_D3D12_FENCE'', Some (Lit 4))]"

definition CUstreamCaptureMode :: enum_decl where
  "CUstreamCaptureMode =
    [(''CU_STREAM_CAPTURE_MODE_GLOBAL'', Some (Lit 0)),
     (''CU_STREAM_CAPTURE_MODE_THREAD_LOCAL'', Some (Lit 1)),
     (''CU_STREAM_CAPTURE_MODE_RELAXED'', Some (Lit 2))]"

definition CUstreamCaptureStatus :: enum_decl where
  "CUstreamCaptureStatus =
    [(''CU_STREAM_CAPTURE_STATUS_NONE'', Some (Lit 0)),
     (''CU_STREAM_CAPTURE_STATUS_ACTIVE'', Some (Lit 1)),
     (''CU_STREAM_CAPTURE_STATUS_INVALIDATED'', Some (Lit 2))]"

definition CUgraphExecUpdateResult :: enum_decl where
  "CUgraphExecUpdateResult =
    [(''CU_GRAPH_EXEC_UPDATE_SUCCESS'', Some (Lit 0x0)),
     (''CU_GRAPH_EXEC_UPDATE_ERROR'', Some (Lit 0x1)),
     (''CU_GRAPH_EXEC_UPDATE_ERROR_TOPOLOGY_CHANGED'', Some (Lit 0x2)),
     (''CU_GRAPH_EXEC_UPDATE_ERROR_NODE_TYPE_CHANGED'', Some (Lit 0x3)),
     (''CU_GRAPH_EXEC_UPDATE_ERROR_FUNCTION_CHANGED'', Some (Lit 0x4)),
     (''CU_GRAPH_EXEC_UPDATE_ERROR_PARAMETERS_CHANGED'', Some (Lit 0x5)),
     (''CU_GRAPH_EXEC_UPDATE_ERROR_NOT_SUPPORTED'', Some (Lit 0x6))]"

definition CUmemAllocationType :: enum_decl where
  "CUmemAllocationType =
    [(''CU_MEM_ALLOCATION_TYPE_INVALID'', Some (Lit 0x0)),
     (''CU_MEM_ALLOCATION_TYPE_PINNED'', Some (Lit 0x1)),
     (''CU_MEM_ALLOCATION_TYPE_MAX'', Some (Lit 0xffffffff))]"

definition CUmemAllocationHandleType :: enum_decl where
  "CUmemAllocationHandleType =
    [(''CU_MEM_HANDLE_TYPE_POSIX_FILE_DESCRIPTOR'', Some (Lit 0x1)),
     (''CU_MEM_HANDLE_TYPE_WIN32'', Some (Lit 0x2)),
     (''CU_MEM_HANDLE_TYPE_WIN32_KMT'', Some (Lit 0x4)),
     (''CU_MEM_HANDLE_TYPE_MAX'', Some (Lit 0xffffffff))]"

definition CUmemLocationType :: enum_decl where
  "CUmemLocationType =
    [(''CU_MEM_LOCATION_TYPE_INVALID'', Some (Lit 0x0)),
     (''CU_MEM_LOCATION_TYPE_DEVICE'', Some (Lit 0x1)),
     (''CU_MEM_LOCATION_TYPE_MAX'', Some (Lit 0xffffffff))]"

definition CUmemAllocationGranularity_flags :: enum_decl where
  "CUmemAllocationGranularity_flags =
    [(''CU_MEM_ALLOC_GRANULARITY_MINIMUM'', Some (Lit 0x0)),
     (''CU_MEM_ALLOC_GRANULARITY_RECOMMENDED'', Some (Lit 0x1))]"

definition CUmemAccess_flags :: enum_decl where
  "CUmemAccess_flags =
    [(''CU_MEM_ACCESS_FLAGS_PROT_NONE'', Some (Lit 0x0)),
     (''CU_MEM_ACCESS_FLAGS_PROT_READ'', Some (Lit 0x1)),
     (''CU_MEM_ACCESS_FLAGS_PROT_READWRITE'', Some (Lit 0x3)),
     (''CU_MEM_ACCESS_FLAGS_PROT_MAX'', Some (Lit 0xffffffff))]"

definition CUkernelNodeAttrID :: enum_decl where
  "CUkernelNodeAttrID =
    [(''CU_KERNEL_NODE_ATTRIBUTE_ACCESS_POLICY_WINDOW'', Some (Lit 1)),
     (''CU_KERNEL_NODE_ATTRIBUTE_COOPERATIVE'', Some (Lit 2))]"

definition CUaccessProperty :: enum_decl where
  "CUaccessProperty =
    [(''CU_ACCESS_PROPERTY_NORMAL'', Some (Lit 0)),
     (''CU_ACCESS_PROPERTY_STREAMING'', Some (Lit 1)),
     (''CU_ACCESS_PROPERTY_PERSISTING'', Some (Lit 2))]"

definition CUstreamAttrID :: enum_decl where
  "CUstreamAttrID =
    [(''CU_STREAM_ATTRIBUTE_ACCESS_POLICY_WINDOW'', Some (Lit 1)),
     (''CU_STREAM_ATTRIBUTE_SYNCHRONIZATION_POLICY'', Some (Lit 3))]"

definition CUsynchronizationPolicy :: enum_decl where
  "CUsynchronizationPolicy =
    [(''CU_SYNC_POLICY_AUTO'', Some (Lit 1)),
     (''CU_SYNC_POLICY_SPIN'', Some (Lit 2)),
     (''CU_SYNC_POLICY_YIELD'', Some (Lit 3)),
     (''CU_SYNC_POLICY_BLOCKING_SYNC'', Some (Lit 4))]"

definition CUarraySparseSubresourceType :: enum_decl where
  "CUarraySparseSubresourceType =
    [(''CU_ARRAY_SPARSE_SUBRESOURCE_TYPE_SPARSE_LEVEL'', Some (Lit 0)),
     (''CU_ARRAY_SPARSE_SUBRESOURCE_TYPE_MIPTAIL'', Some (Lit 1))]"

definition CUmemOperationType :: enum_decl where
  "CUmemOperationType =
    [(''CU_MEM_OPERATION_TYPE_MAP'', Some (Lit 1)),
     (''CU_MEM_OPERATION_TYPE_UNMAP'', Some (Lit 2))]"

definition CUmemHandleType :: enum_decl where
  "CUmemHandleType =
    [(''CU_MEM_HANDLE_TYPE_GENERIC'', Some (Lit 0))]"

definition CUmemPool_attribute :: enum_decl where
  "CUmemPool_attribute =
    [(''CU_MEMPOOL_ATTR_REUSE_FOLLOW_EVENT_DEPENDENCIES'', Some (Lit 1)),
     (''CU_MEMPOOL_ATTR_REUSE_ALLOW_OPPORTUNISTIC'', None),
     (''CU_MEMPOOL_ATTR_REUSE_ALLOW_INTERNAL_DEPENDENCIES'', None),
     (''CU_MEMPOOL_ATTR_RELEASE_THRESHOLD'', None)]"

definition CUexecAffinityType :: enum_decl where
  "CUexecAffinityType =
    [(''CU_EXEC_AFFINITY_TYPE_SM_COUNT'', Some (Lit 0)),
     (''CU_EXEC_AFFINITY_TYPE_MAX'', None)]"

definition CUgraphMem_attribute :: enum_decl where
  "CUgraphMem_attribute =
    [(''CU_GRAPH_MEM_ATTR_USED_MEM_CURRENT'', None),
     (''CU_GRAPH_MEM_ATTR_USED_MEM_HIGH'', None),
     (''CU_GRAPH_MEM_ATTR_RESERVED_MEM_CURRENT'', None),
     (''CU_GRAPH_MEM_ATTR_RESERVED_MEM_HIGH'', None)]"

definition CUflushGPUDirectRDMAWritesTarget :: enum_decl where
  "CUflushGPUDirectRDMAWritesTarget =
    [(''CU_FLUSH_GPU_DIRECT_RDMA_WRITES_TARGET_CURRENT_CTX'', Some (Lit 0))]"

definition CUflushGPUDirectRDMAWritesScope :: enum_decl where
  "CUflushGPUDirectRDMAWritesScope =
    [(''CU_FLUSH_GPU_DIRECT_RDMA_WRITES_TO_OWNER'', Some (Lit 100)),
     (''CU_FLUSH_GPU_DIRECT_RDMA_WRITES_TO_ALL_DEVICES'', Some (Lit 200))]"

section \<open>The vendor's \<open>cuda.h\<close>\<close>

definition CUresult_h :: enum_decl where
  "CUresult_h =
    [(''CUDA_SUCCESS'', Some (Lit 0)),
     (''CUDA_ERROR_INVALID_VALUE'', Some (Lit 1)),
     (''CUDA_ERROR_OUT_OF_MEMORY'', Some (Lit 2)),
     (''CUDA_ERROR_NOT_INITIALIZED'', Some (Lit 3)),
     (''CUDA_ERROR_DEINITIALIZED'', Some (Lit 4)),
     (''CUDA_ERROR_PROFILER_DISABLED'', Some (Lit 5)),
     (''CUDA_ERROR_PROFILER_NOT_INITIALIZED'', Some (Lit 6)),
     (''CUDA_ERROR_PROFILER_ALREADY_STARTED'', Some (Lit 7)),
     (''CUDA_ERROR_PROFILER_ALREADY_STOPPED'', Some (Lit 8)),
     (''CUDA_ERROR_STUB_LIBRARY'', Some (Lit 34)),
     (''CUDA_ERROR_NO_DEVICE'', Some (Lit 100)),
     (''CUDA_ERROR_INVALID_DEVICE'', Some (Lit 101)),
     (''CUDA_ERROR_DEVICE_NOT_LICENSED'', Some (Lit 102)),
     (''CUDA_ERROR_INVALID_IMAGE'', Some (Lit 200)),
     (''CUDA_ERROR_INVALID_CONTEXT'', Some (Lit 201)),
     (''CUDA_ERROR_CONTEXT_ALREADY_CURRENT'', Some (Lit 202)),
     (''CUDA_ERROR_MAP_FAILED'', Some (Lit 205)),
     (''CUDA_ERROR_UNMAP_FAILED'', Some (Lit 206)),
     (''CUDA_ERROR_ARRAY_IS_MAPPED'', Some (Lit 207)),
     (''CUDA_ERROR_ALREADY_MAPPED'', Some (Lit 208)),
     (''CUDA_ERROR_NO_BINARY_FOR_GPU'', Some (Lit 209)),
     (''CUDA_ERROR_ALREADY_ACQUIRED'', Some (Lit 210)),
     (''CUDA_ERROR_NOT_MAPPED'', Some (Lit 211)),
     (''CUDA_ERROR_NOT_MAPPED_AS_ARRAY'', Some (Lit 212)),
     (''CUDA_ERROR_NOT_MAPPED_AS_POINTER'', Some (Lit 213)),
     (''CUDA_ERROR_ECC_UNCORRECTABLE'', Some (Lit 214)),
     (''CUDA_ERROR_UNSUPPORTED_LIMIT'', Some (Lit 215)),
     (''CUDA_ERROR_CONTEXT_ALREADY_IN_USE'', Some (Lit 216)),
     (''CUDA_ERROR_PEER_ACCESS_UNSUPPORTED'', Some (Lit 217)),
     (''CUDA_ERROR_INVALID_PTX'', Some (Lit 218)),
     (''CUDA_ERROR_INVALID_GRAPHICS_CONTEXT'', Some (Lit 219)),
     (''CUDA_ERROR_NVLINK_UNCORRECTABLE'', Some (Lit 220)),
     (''CUDA_ERROR_JIT_COMPILER_NOT_FOUND'', Some (Lit 221)),
     (''CUDA_ERROR_UNSUPPORTED_PTX_VERSION'', Some (Lit 222)),
     (''CUDA_ERROR_JIT_COMPILATION_DISABLED'', Some (Lit 223)),
     (''CUDA_ERROR_UNSUPPORTED_EXEC_AFFINITY'', Some (Lit 224)),
     (''CUDA_ERROR_INVALID_SOURCE'', Some (Lit 300)),
     (''CUDA_ERROR_FILE_NOT_FOUND'', Some (Lit 301)),
     (''CUDA_ERROR_SHARED_OBJECT_SYMBOL_NOT_FOUND'', Some (Lit 302)),
     (''CUDA_ERROR_SHARED_OBJECT_INIT_FAILED'', Some (Lit 303)),
     (''CUDA_ERROR_OPERATING_SYSTEM'', Some (Lit 304)),
     (''CUDA_ERROR_INVALID_HANDLE'', Some (Lit 400)),
     (''CUDA_ERROR_ILLEGAL_STATE'', Some (Lit 401)),
     (''CUDA_ERROR_NOT_FOUND'', Some (Lit 500)),
     (''CUDA_ERROR_NOT_READY'', Some (Lit 600)),
     (''CUDA_ERROR_ILLEGAL_ADDRESS'', Some (Lit 700)),
     (''CUDA_ERROR_LAUNCH_OUT_OF_RESOURCES'', Some (Lit 701)),
     (''CUDA_ERROR_LAUNCH_TIMEOUT'', Some (Lit 702)),
     (''CUDA_ERROR_LAUNCH_INCOMPATIBLE_TEXTURING'', Some (Lit 703)),
     (''CUDA_ERROR_PEER_ACCESS_ALREADY_ENABLED'', Some (Lit 704)),
     (''CUDA_ERROR_PEER_ACCESS_NOT_ENABLED'', Some (Lit 705)),
     (''CUDA_ERROR_PRIMARY_CONTEXT_ACTIVE'', Some (Lit 708)),
     (''CUDA_ERROR_CONTEXT_IS_DESTROYED'', Some (Lit 709)),
     (''CUDA_ERROR_ASSERT'', Some (Lit 710)),
     (''CUDA_ERROR_TOO_MANY_PEERS'', Some (Lit 711)),
     (''CUDA_ERROR_HOST_MEMORY_ALREADY_REGISTERED'', Some (Lit 712)),
     (''CUDA_ERROR_HOST_MEMORY_NOT_REGISTERED'', Some (Lit 713)),
     (''CUDA_ERROR_HARDWARE_STACK_ERROR'', Some (Lit 714)),
     (''CUDA_ERROR_ILLEGAL_INSTRUCTION'', Some (Lit 715)),
     (''CUDA_ERROR_MISALIGNED_ADDRESS'', Some (Lit 716)),
     (''CUDA_ERROR_INVALID_ADDRESS_SPACE'', Some (Lit 717)),
     (''CUDA_ERROR_INVALID_PC'', Some (Lit 718)),
     (''CUDA_ERROR_LAUNCH_FAILED'', Some (Lit 719)),
     (''CUDA_ERROR_COOPERATIVE_LAUNCH_TOO_LARGE'', Some (Lit 720)),
     (''CUDA_ERROR_NOT_PERMITTED'', Some (Lit 800)),
     (''CUDA_ERROR_NOT_SUPPORTED'', Some (Lit 801)),
     (''CUDA_ERROR_SYSTEM_NOT_READY'', Some (Lit 802)),
     (''CUDA_ERROR_SYSTEM_DRIVER_MISMATCH'', Some (Lit 803)),
     (''CUDA_ERROR_COMPAT_NOT_SUPPORTED_ON_DEVICE'', Some (Lit 804)),
     (''CUDA_ERROR_MPS_CONNECTION_FAILED'', Some (Lit 805)),
     (''CUDA_ERROR_MPS_RPC_FAILURE'', Some (Lit 806)),
     (''CUDA_ERROR_MPS_SERVER_NOT_READY'', Some (Lit 807)),
     (''CUDA_ERROR_MPS_MAX_CLIENTS_REACHED'', Some (Lit 808)),
     (''CUDA_ERROR_MPS_MAX_CONNECTIONS_REACHED'', Some (Lit 809)),
     (''CUDA_ERROR_STREAM_CAPTURE_UNSUPPORTED'', Some (Lit 900)),
     (''CUDA_ERROR_STREAM_CAPTURE_INVALIDATED'', Some (Lit 901)),
     (''CUDA_ERROR_STREAM_CAPTURE_MERGE'', Some (Lit 902)),
     (''CUDA_ERROR_STREAM_CAPTURE_UNMATCHED'', Some (Lit 903)),
     (''CUDA_ERROR_STREAM_CAPTURE_UNJOINED'', Some (Lit 904)),
     (''CUDA_ERROR_STREAM_CAPTURE_ISOLATION'', Some (Lit 905)),
     (''CUDA_ERROR_STREAM_CAPTURE_IMPLICIT'', Some (Lit 906)),
     (''CUDA_ERROR_CAPTURED_EVENT'', Some (Lit 907)),
     (''CUDA_ERROR_STREAM_CAPTURE_WRONG_THREAD'', Some (Lit 908)),
     (''CUDA_ERROR_TIMEOUT'', Some (Lit 909)),
     (''CUDA_ERROR_GRAPH_EXEC_UPDATE_FAILURE'', Some (Lit 910)),
     (''CUDA_ERROR_EXTERNAL_DEVICE'', Some (Lit 911)),
     (''CUDA_ERROR_UNKNOWN'', Some (Lit 999))]"

definition CUdevice_attribute_h :: enum_decl where
  "CUdevice_attribute_h =
    [(''CU_DEVICE_ATTRIBUTE_MAX_THREADS_PER_BLOCK'', Some (Lit 1)),
     (''CU_DEVICE_ATTRIBUTE_MAX_BLOCK_DIM_X'', Some (Lit 2)),
     (''CU_DEVICE_ATTRIBUTE_MAX_BLOCK_DIM_Y'', Some (Lit 3)),
     (''CU_DEVICE_ATTRIBUTE_MAX_BLOCK_DIM_Z'', Some (Lit 4)),
     (''CU_DEVICE_ATTRIBUTE_MAX_GRID_DIM_X'', Some (Lit 5)),
     (''CU_DEVICE_ATTRIBUTE_MAX_GRID_DIM_Y'', Some (Lit 6)),
     (''CU_DEVICE_ATTRIBUTE_MAX_GRID_DIM_Z'', Some (Lit 7)),
     (''CU_DEVICE_ATTRIBUTE_MAX_SHARED_MEMORY_PER_BLOCK'', Some (Lit 8)),
     (''CU_DEVICE_ATTRIBUTE_SHARED_MEMORY_PER_BLOCK'', Some (Lit 8)),
     (''CU_DEVICE_ATTRIBUTE_TOTAL_CONSTANT_MEMORY'', Some (Lit 9)),
     (''CU_DEVICE_ATTRIBUTE_WARP_SIZE'', Some (Lit 10)),
     (''CU_DEVICE_ATTRIBUTE_MAX_PITCH'', Some (Lit 11)),
     (''CU_DEVICE_ATTRIBUTE_MAX_REGISTERS_PER_BLOCK'', Some (Lit 12)),
     (''CU_DEVICE_ATTRIBUTE_REGISTERS_PER_BLOCK'', Some (Lit 12)),
     (''CU_DEVICE_ATTRIBUTE_CLOCK_RATE'', Some (Lit 13)),
     (''CU_DEVICE_ATTRIBUTE_TEXTURE_ALIGNMENT'', Some (Lit 14)),
     (''CU_DEVICE_ATTRIBUTE_GPU_OVERLAP'', Some (Lit 15)),
     (''CU_DEVICE_ATTRIBUTE_MULTIPROCESSOR_COUNT'', Some (Lit 16)),
     (''CU_DEVICE_ATTRIBUTE_KERNEL_EXEC_TIMEOUT'', Some (Lit 17)),
     (''CU_DEVICE_ATTRIBUTE_INTEGRATED'', Some (Lit 18)),
     (''CU_DEVICE_ATTRIBUTE_CAN_MAP_HOST_MEMORY'', Some (Lit 19)),
     (''CU_DEVICE_ATTRIBUTE_COMPUTE_MODE'', Some (Lit 20)),
     (''CU_DEVICE_ATTRIBUTE_MAXIMUM_TEXTURE1D_WIDTH'', Some (Lit 21)),
     (''CU_DEVICE_ATTRIBUTE_MAXIMUM_TEXTURE2D_WIDTH'', Some (Lit 22)),
     (''CU_DEVICE_ATTRIBUTE_MAXIMUM_TEXTURE2D_HEIGHT'', Some (Lit 23)),
     (''CU_DEVICE_ATTRIBUTE_MAXIMUM_TEXTURE3D_WIDTH'', Some (Lit 24)),
     (''CU_DEVICE_ATTRIBUTE_MAXIMUM_TEXTURE3D_HEIGHT'', Some (Lit 25)),
     (''CU_DEVICE_ATTRIBUTE_MAXIMUM_TEXTURE3D_DEPTH'', Some (Lit 26)),
     (''CU_DEVICE_ATTRIBUTE_MAXIMUM_TEXTURE2D_LAYERED_WIDTH'', Some (Lit 27)),
     (''CU_DEVICE_ATTRIBUTE_MAXIMUM_TEXTURE2D_LAYERED_HEIGHT'', Some (Lit 28)),
     (''CU_DEVICE_ATTRIBUTE_MAXIMUM_TEXTURE2D_LAYERED_LAYERS'', Some (Lit 29)),
     (''CU_DEVICE_ATTRIBUTE_MAXIMUM_TEXTURE2D_ARRAY_WIDTH'', Some (Lit 27)),
     (''CU_DEVICE_ATTRIBUTE_MAXIMUM_TEXTURE2D_ARRAY_HEIGHT'', Some (Lit 28)),
     (''CU_DEVICE_ATTRIBUTE_MAXIMUM_TEXTURE2D_ARRAY_NUMSLICES'', Some (Lit 29)),
     (''CU_DEVICE_ATTRIBUTE_SURFACE_ALIGNMENT'', Some (Lit 30)),
     (''CU_DEVICE_ATTRIBUTE_CONCURRENT_KERNELS'', Some (Lit 31)),
     (''CU_DEVICE_ATTRIBUTE_ECC_ENABLED'', Some (Lit 32)),
     (''CU_DEVICE_ATTRIBUTE_PCI_BUS_ID'', Some (Lit 33)),
     (''CU_DEVICE_ATTRIBUTE_PCI_DEVICE_ID'', Some (Lit 34)),
     (''CU_DEVICE_ATTRIBUTE_TCC_DRIVER'', Some (Lit 35)),
     (''CU_DEVICE_ATTRIBUTE_MEMORY_CLOCK_RATE'', Some (Lit 36)),
     (''CU_DEVICE_ATTRIBUTE_GLOBAL_MEMORY_BUS_WIDTH'', Some (Lit 37)),
     (''CU_DEVICE_ATTRIBUTE_L2_CACHE_SIZE'', Some (Lit 38)),
     (''CU_DEVICE_ATTRIBUTE_MAX_THREADS_PER_MULTIPROCESSOR'', Some (Lit 39)),
     (''CU_DEVICE_ATTRIBUTE_ASYNC_ENGINE_COUNT'', Some (Lit 40)),
     (''CU_DEVICE_ATTRIBUTE_UNIFIED_ADDRESSING'', Some (Lit 41)),
     (''CU_DEVICE_ATTRIBUTE_MAXIMUM_TEXTURE1D_LAYERED_WIDTH'', Some (Lit 42)),
     (''CU_DEVICE_ATTRIBUTE_MAXIMUM_TEXTURE1D_LAYERED_LAYERS'', Some (Lit 43)),
     (''CU_DEVICE_ATTRIBUTE_CAN_TEX2D_GATHER'', Some (Lit 44)),
     (''CU_DEVICE_ATTRIBUTE_MAXIMUM_TEXTURE2D_GATHER_WIDTH'', Some (Lit 45)),
     (''CU_DEVICE_ATTRIBUTE_MAXIMUM_TEXTURE2D_GATHER_HEIGHT'', Some (Lit 46)),
     (''CU_DEVICE_ATTRIBUTE_MAXIMUM_TEXTURE3D_WIDTH_ALTERNATE'', Some (Lit 47)),
     (''CU_DEVICE_ATTRIBUTE_MAXIMUM_TEXTURE3D_HEIGHT_ALTERNATE'', Some (Lit 48)),
     (''CU_DEVICE_ATTRIBUTE_MAXIMUM_TEXTURE3D_DEPTH_ALTERNATE'', Some (Lit 49)),
     (''CU_DEVICE_ATTRIBUTE_PCI_DOMAIN_ID'', Some (Lit 50)),
     (''CU_DEVICE_ATTRIBUTE_TEXTURE_PITCH_ALIGNMENT'', Some (Lit 51)),
     (''CU_DEVICE_ATTRIBUTE_MAXIMUM_TEXTURECUBEMAP_WIDTH'', Some (Lit 52)),
     (''CU_DEVICE_ATTRIBUTE_MAXIMUM_TEXTURECUBEMAP_LAYERED_WIDTH'', Some (Lit 53)),
     (''CU_DEVICE_ATTRIBUTE_MAXIMUM_TEXTURECUBEMAP_LAYERED_LAYERS'', Some (Lit 54)),
     (''CU_DEVICE_ATTRIBUTE_MAXIMUM_SURFACE1D_WIDTH'', Some (Lit 55)),
     (''CU_DEVICE_ATTRIBUTE_MAXIMUM_SURFACE2D_WIDTH'', Some (Lit 56)),
     (''CU_DEVICE_ATTRIBUTE_MAXIMUM_SURFACE2D_HEIGHT'', Some (Lit 57)),
     (''CU_DEVICE_ATTRIBUTE_MAXIMUM_SURFACE3D_WIDTH'', Some (Lit 58)),
     (''CU_DEVICE_ATTRIBUTE_MAXIMUM_SURFACE3D_HEIGHT'', Some (Lit 59)),
     (''CU_DEVICE_ATTRIBUTE_MAXIMUM_SURFACE3D_DEPTH'', Some (Lit 60)),
     (''CU_DEVICE_ATTRIBUTE_MAXIMUM_SURFACE1D_LAYERED_WIDTH'', Some (Lit 61)),
     (''CU_DEVICE_ATTRIBUTE_MAXIMUM_SURFACE1D_LAYERED_LAYERS'', Some (Lit 62)),
     (''CU_DEVICE_ATTRIBUTE_MAXIMUM_SURFACE2D_LAYERED_WIDTH'', Some (Lit 63)),
     (''CU_DEVICE_ATTRIBUTE_MAXIMUM_SURFACE2D_LAYERED_HEIGHT'', Some (Lit 64)),
     (''CU_DEVICE_ATTRIBUTE_MAXIMUM_SURFACE2D_LAYERED_LAYERS'', Some (Lit 65)),
     (''CU_DEVICE_ATTRIBUTE_MAXIMUM_SURFACECUBEMAP_WIDTH'', Some (Lit 66)),
     (''CU_DEVICE_ATTRIBUTE_MAXIMUM_SURFACECUBEMAP_LAYERED_WIDTH'', Some (Lit 67)),
     (''CU_DEVICE_ATTRIBUTE_MAXIMUM_SURFACECUBEMAP_LAYERED_LAYERS'', Some (Lit 68)),
     (''CU_DEVICE_ATTRIBUTE_MAXIMUM_TEXTURE1D_LINEAR_WIDTH'', Some (Lit 69)),
     (''CU_DEVICE_ATTRIBUTE_MAXIMUM_TEXTURE2D_LINEAR_WIDTH'', Some (Lit 70)),
     (''CU_DEVICE_ATTRIBUTE_MAXIMUM_TEXTURE2D_LINEAR_HEIGHT'', Some (Lit 71)),
     (''CU_DEVICE_ATTRIBUTE_MAXIMUM_TEXTURE2D_LINEAR_PITCH'', Some (Lit 72)),
     (''CU_DEVICE_ATTRIBUTE_MAXIMUM_TEXTURE2D_MIPMAPPED_WIDTH'', Some (Lit 73)),
     (''CU_DEVICE_ATTRIBUTE_MAXIMUM_TEXTURE2D_MIPMAPPED_HEIGHT'', Some (Lit 74)),
     (''CU_DEVICE_ATTRIBUTE_COMPUTE_CAPABILITY_MAJOR'', Some (Lit 75)),
     (''CU_DEVICE_ATTRIBUTE_COMPUTE_CAPABILITY_MINOR'', Some (Lit 76)),
     (''CU_DEVICE_ATTRIBUTE_MAXIMUM_TEXTURE1D_MIPMAPPED_WIDTH'', Some (Lit 77)),
     (''CU_DEVICE_ATTRIBUTE_STREAM_PRIORITIES_SUPPORTED'', Some (Lit 78)),
     (''CU_DEVICE_ATTRIBUTE_GLOBAL_L1_CACHE_SUPPORTED'', Some (Lit 79)),
     (''CU_DEVICE_ATTRIBUTE_LOCAL_L1_CACHE_SUPPORTED'', Some (Lit 80)),
     (''CU_DEVICE_ATTRIBUTE_MAX_SHARED_MEMORY_PER_MULTIPROCESSOR'', Some (Lit 81)),
     (''CU_DEVICE_ATTRIBUTE_MAX_REGISTERS_PER_MULTIPROCESSOR'', Some (Lit 82)),
     (''CU_DEVICE_ATTRIBUTE_MANAGED_MEMORY'', Some (Lit 83)),
     (''CU_DEVICE_ATTRIBUTE_MULTI_GPU_BOARD'', Some (Lit 84)),
     (''CU_DEVICE_ATTRIBUTE_MULTI_GPU_BOARD_GROUP_ID'', Some (Lit 85)),
     (''CU_DEVICE_ATTRIBUTE_HOST_NATIVE_ATOMIC_SUPPORTED'', Some (Lit 86)),
     (''CU_DEVICE_ATTRIBUTE_SINGLE_TO_DOUBLE_PRECISION_PERF_RATIO'', Some (Lit 87)),
     (''CU_DEVICE_ATTRIBUTE_PAGEABLE_MEMORY_ACCESS'', Some (Lit 88)),
     (''CU_DEVICE_ATTRIBUTE_CONCURRENT_MANAGED_ACCESS'', Some (Lit 89)),
     (''CU_DEVICE_ATTRIBUTE_COMPUTE_PREEMPTION_SUPPORTED'', Some (Lit 90)),
     (''CU_DEVICE_ATTRIBUTE_CAN_USE_HOST_POINTER_FOR_REGISTERED_MEM'', Some (Lit 91)),
     (''CU_DEVICE_ATTRIBUTE_CAN_USE_STREAM_MEM_OPS'', Some (Lit 92)),
     (''CU_DEVICE_ATTRIBUTE_CAN_USE_64_BIT_STREAM_MEM_OPS'', Some (Lit 93)),
     (''CU_DEVICE_ATTRIBUTE_CAN_USE_STREAM_WAIT_VALUE_NOR'', Some (Lit 94)),
     (''CU_DEVICE_ATTRIBUTE_COOPERATIVE_LAUNCH'', Some (Lit 95)),
     (''CU_DEVICE_ATTRIBUTE_COOPERATIVE_MULTI_DEVICE_LAUNCH'', Some (Lit 96)),
     (''CU_DEVICE_ATTRIBUTE_MAX_SHARED_MEMORY_PER_BLOCK_OPTIN'', Some (Lit 97)),
     (''CU_DEVICE_ATTRIBUTE_CAN_FLUSH_REMOTE_WRITES'', Some (Lit 98)),
     (''CU_DEVICE_ATTRIBUTE_HOST_REGISTER_SUPPORTED'', Some (Lit 99)),
     (''CU_DEVICE_ATTRIBUTE_PAGEABLE_MEMORY_ACCESS_USES_HOST_PAGE_TABLES'', Some (Lit 100)),
     (''CU_DEVICE_ATTRIBUTE_DIRECT_MANAGED_MEM_ACCESS_FROM_HOST'', Some (Lit 101)),
     (''CU_DEVICE_ATTRIBUTE_VIRTUAL_ADDRESS_MANAGEMENT_SUPPORTED'', Some (Lit 102)),
     (''CU_DEVICE_ATTRIBUTE_VIRTUAL_MEMORY_MANAGEMENT_SUPPORTED'', Some (Lit 102)),
     (''CU_DEVICE_ATTRIBUTE_HANDLE_TYPE_POSIX_FILE_DESCRIPTOR_SUPPORTED'', Some (Lit 103)),
     (''CU_DEVICE_ATTRIBUTE_HANDLE_TYPE_WIN32_HANDLE_SUPPORTED'', Some (Lit 104)),
     (''CU_DEVICE_ATTRIBUTE_HANDLE_TYPE_WIN32_KMT_HANDLE_SUPPORTED'', Some (Lit 105)),
     (''CU_DEVICE_ATTRIBUTE_MAX_BLOCKS_PER_MULTIPROCESSOR'', Some (Lit 106)),
     (''CU_DEVICE_ATTRIBUTE_GENERIC_COMPRESSION_SUPPORTED'', Some (Lit 107)),
     (''CU_DEVICE_ATTRIBUTE_MAX_PERSISTING_L2_CACHE_SIZE'', Some (Lit 108)),
     (''CU_DEVICE_ATTRIBUTE_MAX_ACCESS_POLICY_WINDOW_SIZE'', Some (Lit 109)),
     (''CU_DEVICE_ATTRIBUTE_GPU_DIRECT_RDMA_WITH_CUDA_VMM_SUPPORTED'', Some (Lit 110)),
     (''CU_DEVICE_ATTRIBUTE_RESERVED_SHARED_MEMORY_PER_BLOCK'', Some (Lit 111)),
     (''CU_DEVICE_ATTRIBUTE_SPARSE_CUDA_ARRAY_SUPPORTED'', Some (Lit 112)),
     (''CU_DEVICE_ATTRIBUTE_READ_ONLY_HOST_REGISTER_SUPPORTED'', Some (Lit 113)),
     (''CU_DEVICE_ATTRIBUTE_TIMELINE_SEMAPHORE_INTEROP_SUPPORTED'', Some (Lit 114)),
     (''CU_DEVICE_ATTRIBUTE_MEMORY_POOLS_SUPPORTED'', Some (Lit 115)),
     (''CU_DEVICE_ATTRIBUTE_GPU_DIRECT_RDMA_SUPPORTED'', Some (Lit 116)),
     (''CU_DEVICE_ATTRIBUTE_GPU_DIRECT_RDMA_FLUSH_WRITES_OPTIONS'', Some (Lit 117)),
     (''CU_DEVICE_ATTRIBUTE_GPU_DIRECT_RDMA_WRITES_ORDERING'', Some (Lit 118)),
     (''CU_DEVICE_ATTRIBUTE_MEMPOOL_SUPPORTED_HANDLE_TYPES'', Some (Lit 119)),
     (''CU_DEVICE_ATTRIBUTE_MAX'', None)]"

definition CUdevice_P2PAttribute_h :: enum_decl where
  "CUdevice_P2PAttribute_h =
    [(''CU_DEVICE_P2P_ATTRIBUTE_PERFORMANCE_RANK'', Some (Lit 0x01)),
     (''CU_DEVICE_P2P_ATTRIBUTE_ACCESS_SUPPORTED'', Some (Lit 0x02)),
     (''CU_DEVICE_P2P_ATTRIBUTE_NATIVE_ATOMIC_SUPPORTED'', Some (Lit 0x03)),
     (''CU_DEVICE_P2P_ATTRIBUTE_ACCESS_ACCESS_SUPPORTED'', Some (Lit 0x04)),
     (''CU_DEVICE_P2P_ATTRIBUTE_CUDA_ARRAY_ACCESS_SUPPORTED'', Some (Lit 0x04))]"

definition CUlimit_h :: enum_decl where
  "CUlimit_h =
    [(''CU_LIMIT_STACK_SIZE'', Some (Lit 0x00)),
     (''CU_LIMIT_PRINTF_FIFO_SIZE'', Some (Lit 0x01)),
     (''CU_LIMIT_MALLOC_HEAP_SIZE'', Some (Lit 0x02)),
     (''CU_LIMIT_DEV_RUNTIME_SYNC_DEPTH'', Some (Lit 0x03)),
     (''CU_LIMIT_DEV_RUNTIME_PENDING_LAUNCH_COUNT'', Some (Lit 0x04)),
     (''CU_LIMIT_MAX_L2_FETCH_GRANULARITY'', Some (Lit 0x05)),
     (''CU_LIMIT_PERSISTING_L2_CACHE_SIZE'', Some (Lit 0x06)),
     (''CU_LIMIT_MAX'', None)]"

definition CUfunc_cache_h :: enum_decl where
  "CUfunc_cache_h =
    [(''CU_FUNC_CACHE_PREFER_NONE'', Some (Lit 0x00)),
     (''CU_FUNC_CACHE_PREFER_SHARED'', Some (Lit 0x01)),
     (''CU_FUNC_CACHE_PREFER_L1'', Some (Lit 0x02)),
     (''CU_FUNC_CACHE_PREFER_EQUAL'', Some (Lit 0x03))]"

definition CUsharedconfig_h :: enum_decl where
  "CUsharedconfig_h =
    [(''CU_SHARED_MEM_CONFIG_DEFAULT_BANK_SIZE'', Some (Lit 0x00)),
     (''CU_SHARED_MEM_CONFIG_FOUR_BYTE_BANK_SIZE'', Some (Lit 0x01)),
     (''CU_SHARED_MEM_CONFIG_EIGHT_BYTE_BANK_SIZE'', Some (Lit 0x02))]"

definition CUjit_option_h :: enum_decl where
  "CUjit_option_h =
    [(''CU_JIT_MAX_REGISTERS'', Some (Lit 0)),
     (''CU_JIT_THREADS_PER_BLOCK'', None),
     (''CU_JIT_WALL_TIME'', None),
     (''CU_JIT_INFO_LOG_BUFFER'', None),
     (''CU_JIT_INFO_LOG_BUFFER_SIZE_BYTES'', None),
     (''CU_JIT_ERROR_LOG_BUFFER'', None),
     (''CU_JIT_ERROR_LOG_BUFFER_SIZE_BYTES'', None),
     (''CU_JIT_OPTIMIZATION_LEVEL'', None),
     (''CU_JIT_TARGET_FROM_CUCONTEXT'', None),
     (''CU_JIT_TARGET'', None),
     (''CU_JIT_FALLBACK_STRATEGY'', None),
     (''CU_JIT_GENERATE_DEBUG_INFO'', None),
     (''CU_JIT_LOG_VERBOSE'', None),
     (''CU_JIT_GENERATE_LINE_INFO'', None),
     (''CU_JIT_CACHE_MODE'', None),
     (''CU_JIT_NEW_SM3X_OPT'', None),
     (''CU_JIT_FAST_COMPILE'', None),
     (''CU_JIT_GLOBAL_SYMBOL_NAMES'', None),
     (''CU_JIT_GLOBAL_SYMBOL_ADDRESSES'', None),
     (''CU_JIT_GLOBAL_SYMBOL_COUNT'', None),
     (''CU_JIT_LTO'', None),
     (''CU_JIT_FTZ'', None),
     (''CU_JIT_PREC_DIV'', None),
     (''CU_JIT_PREC_SQRT'', None),
     (''CU_JIT_FMA'', None),
     (''CU_JIT_NUM_OPTIONS'', None)]"

definition CUjitInputType_h :: enum_decl where
  "CUjitInputType_h =
    [(''CU_JIT_INPUT_CUBIN'', Some (Lit 0)),
     (''CU_JIT_INPUT_PTX'', None),
     (''CU_JIT_INPUT_FATBINARY'', None),
     (''CU_JIT_INPUT_OBJECT'', None),
     (''CU_JIT_INPUT_LIBRARY'', None),
     (''CU_JIT_INPUT_NVVM'', None),
     (''CU_JIT_NUM_INPUT_TYPES'', None)]"

definition CUpointer_attribute_h :: enum_decl where
  "CUpointer_attribute_h =
    [(''CU_POINTER_ATTRIBUTE_CONTEXT'', Some (Lit 1)),
     (''CU_POINTER_ATTRIBUTE_MEMORY_TYPE'', Some (Lit 2)),
     (''CU_POINTER_ATTRIBUTE_DEVICE_POINTER'', Some (Lit 3)),
     (''CU_POINTER_ATTRIBUTE_HOST_POINTER'', Some (Lit 4)),
     (''CU_POINTER_ATTRIBUTE_P2P_TOKENS'', Some (Lit 5)),
     (''CU_POINTER_ATTRIBUTE_SYNC_MEMOPS'', Some (Lit 6)),
     (''CU_POINTER_ATTRIBUTE_BUFFER_ID'', Some (Lit 7)),
     (''CU_POINTER_ATTRIBUTE_IS_MANAGED'', Some (Lit 8)),
     (''CU_POINTER_ATTRIBUTE_DEVICE_ORDINAL'', Some (Lit 9)),
     (''CU_POINTER_ATTRIBUTE_IS_LEGACY_CUDA_IPC_CAPABLE'', Some (Lit 10)),
     (''CU_POINTER_ATTRIBUTE_RANGE_START_ADDR'', Some (Lit 11)),
     (''CU_POINTER_ATTRIBUTE_RANGE_SIZE'', Some (Lit 12)),
     (''CU_POINTER_ATTRIBUTE_MAPPED'', Some (Lit 13)),
     (''CU_POINTER_ATTRIBUTE_ALLOWED_HANDLE_TYPES'', Some (Lit 14)),
     (''CU_POINTER_ATTRIBUTE_IS_GPU_DIRECT_RDMA_CAPABLE'', Some (Lit 15)),
     (''CU_POINTER_ATTRIBUTE_ACCESS_FLAGS'', Some (Lit 16)),
     (''CU_POINTER_ATTRIBUTE_MEMPOOL_HANDLE'', Some (Lit 17))]"

definition CUmemorytype_h :: enum_decl where
  "CUmemorytype_h =
    [(''CU_MEMORYTYPE_HOST'', Some (Lit 0x01)),
     (''CU_MEMORYTYPE_DEVICE'', Some (Lit 0x02)),
     (''CU_MEMORYTYPE_ARRAY'', Some (Lit 0x03)),
     (''CU_MEMORYTYPE_UNIFIED'', Some (Lit 0x04))]"

definition CUfunction_attribute_h :: enum_decl where
  "CUfunction_attribute_h =
    [(''CU_FUNC_ATTRIBUTE_MAX_THREADS_PER_BLOCK'', Some (Lit 0)),
     (''CU_FUNC_ATTRIBUTE_SHARED_SIZE_BYTES'', Some (Lit 1)),
     (''CU_FUNC_ATTRIBUTE_CONST_SIZE_BYTES'', Some (Lit 2)),
     (''CU_FUNC_ATTRIBUTE_LOCAL_SIZE_BYTES'', Some (Lit 3)),
     (''CU_FUNC_ATTRIBUTE_NUM_REGS'', Some (Lit 4)),
     (''CU_FUNC_ATTRIBUTE_PTX_VERSION'', Some (Lit 5)),
     (''CU_FUNC_ATTRIBUTE_BINARY_VERSION'', Some (Lit 6)),
     (''CU_FUNC_ATTRIBUTE_CACHE_MODE_CA'', Some (Lit 7)),
     (''CU_FUNC_ATTRIBUTE_MAX_DYNAMIC_SHARED_SIZE_BYTES'', Some (Lit 8)),
     (''CU_FUNC_ATTRIBUTE_PREFERRED_SHARED_MEMORY_CARVEOUT'', Some (Lit 9)),
     (''CU_FUNC_ATTRIBUTE_MAX'', None)]"

definition CUarray_format_h :: enum_decl where
  "CUarray_format_h =
    [(''CU_AD_FORMAT_UNSIGNED_INT8'', Some (Lit 0x01)),
     (''CU_AD_FORMAT_UNSIGNED_INT16'', Some (Lit 0x02)),
     (''CU_AD_FORMAT_UNSIGNED_INT32'', Some (Lit 0x03)),
     (''CU_AD_FORMAT_SIGNED_INT8'', Some (Lit 0x08)),
     (''CU_AD_FORMAT_SIGNED_INT16'', Some (Lit 0x09)),
     (''CU_AD_FORMAT_SIGNED_INT32'', Some (Lit 0x0a)),
     (''CU_AD_FORMAT_HALF'', Some (Lit 0x10)),
     (''CU_AD_FORMAT_FLOAT'', Some (Lit 0x20)),
     (''CU_AD_FORMAT_NV12'', Some (Lit 0xb0))]"

definition CUaddress_mode_h :: enum_decl where
  "CUaddress_mode_h =
    [(''CU_TR_ADDRESS_MODE_WRAP'', Some (Lit 0)),
     (''CU_TR_ADDRESS_MODE_CLAMP'', Some (Lit 1)),
     (''CU_TR_ADDRESS_MODE_MIRROR'', Some (Lit 2)),
     (''CU_TR_ADDRESS_MODE_BORDER'', Some (Lit 3))]"

definition CUfilter_mode_h :: enum_decl where
  "CUfilter_mode_h =
    [(''CU_TR_FILTER_MODE_POINT'', Some (Lit 0)),
     (''CU_TR_FILTER_MODE_LINEAR'', Some (Lit 1))]"

definition CUresourcetype_h :: enum_decl where
  "CUresourcetype_h =
    [(''CU_RESOURCE_TYPE_ARRAY'', Some (Lit 0x00)),
     (''CU_RESOURCE_TYPE_MIPMAPPED_ARRAY'', Some (Lit 0x01)),
     (''CU_RESOURCE_TYPE_LINEAR'', Some (Lit 0x02)),
     (''CU_RESOURCE_TYPE_PITCH2D'', Some (Lit 0x03))]"

definition CUresourceViewFormat_h :: enum_decl where
  "CUresourceViewFormat_h =
    [(''CU_RES_VIEW_FORMAT_NONE'', Some (Lit 0x00)),
     (''CU_RES_VIEW_FORMAT_UINT_1X8'', Some (Lit 0x01)),
     (''CU_RES_VIEW_FORMAT_UINT_2X8'', Some (Lit 0x02)),
     (''CU_RES_VIEW_FORMAT_UINT_4X8'', Some (Lit 0x03)),
     (''CU_RES_VIEW_FORMAT_SINT_1X8'', Some (Lit 0x04)),
     (''CU_RES_VIEW_FORMAT_SINT_2X8'', Some (Lit 0x05)),
     (''CU_RES_VIEW_FORMAT_SINT_4X8'', Some (Lit 0x06)),
     (''CU_RES_VIEW_FORMAT_UINT_1X16'', Some (Lit 0x07)),
     (''CU_RES_VIEW_FORMAT_UINT_2X16'', Some (Lit 0x08)),
     (''CU_RES_VIEW_FORMAT_UINT_4X16'', Some (Lit 0x09)),
     (''CU_RES_VIEW_FORMAT_SINT_1X16'', Some (Lit 0x0a)),
     (''CU_RES_VIEW_FORMAT_SINT_2X16'', Some (Lit 0x0b)),
     (''CU_RES_VIEW_FORMAT_SINT_4X16'', Some (Lit 0x0c)),
     (''CU_RES_VIEW_FORMAT_UINT_1X32'', Some (Lit 0x0d)),
     (''CU_RES_VIEW_FORMAT_UINT_2X32'', Some (Lit 0x0e)),
     (''CU_RES_VIEW_FORMAT_UINT_4X32'', Some (Lit 0x0f)),
     (''CU_RES_VIEW_FORMAT_SINT_1X32'', Some (Lit 0x10)),
     (''CU_RES_VIEW_FORMAT_SINT_2X32'', Some (Lit 0x11)),
     (''CU_RES_VIEW_FORMAT_SINT_4X32'', Some (Lit 0x12)),
     (''CU_RES_VIEW_FORMAT_FLOAT_1X16'', Some (Lit 0x13)),
     (''CU_RES_VIEW_FORMAT_FLOAT_2X16'', Some (Lit 0x14)),
     (''CU_RES_VIEW_FORMAT_FLOAT_4X16'', Some (Lit 0x15)),
     (''CU_RES_VIEW_FORMAT_FLOAT_1X32'', Some (Lit 0x16)),
     (''CU_RES_VIEW_FORMAT_FLOAT_2X32'', Some (Lit 0x17)),
     (''CU_RES_VIEW_FORMAT_FLOAT_4X32'', Some (Lit 0x18)),
     (''CU_RES_VIEW_FORMAT_UNSIGNED_BC1'', Some (Lit 0x19)),
     (''CU_RES_VIEW_FORMAT_UNSIGNED_BC2'', Some (Lit 0x1a)),
     (''CU_RES_VIEW_FORMAT_UNSIGNED_BC3'', Some (Lit 0x1b)),
     (''CU_RES_VIEW_FORMAT_UNSIGNED_BC4'', Some (Lit 0x1c)),
     (''CU_RES_VIEW_FORMAT_SIGNED_BC4'', Some (Lit 0x1d)),
     (''CU_RES_VIEW_FORMAT_UNSIGNED_BC5'', Some (Lit 0x1e)),
     (''CU_RES_VIEW_FORMAT_SIGNED_BC5'', Some (Lit 0x1f)),
     (''CU_RES_VIEW_FORMAT_UNSIGNED_BC6H'', Some (Lit 0x20)),
     (''CU_RES_VIEW_FORMAT_SIGNED_BC6H'', Some (Lit 0x21)),
     (''CU_RES_VIEW_FORMAT_UNSIGNED_BC7'', Some (Lit 0x22))]"

definition CUstreamBatchMemOpType_h :: enum_decl where
  "CUstreamBatchMemOpType_h =
    [(''CU_STREAM_MEM_OP_WAIT_VALUE_32'', Some (Lit 1)),
     (''CU_STREAM_MEM_OP_WRITE_VALUE_32'', Some (Lit 2)),
     (''CU_STREAM_MEM_OP_WAIT_VALUE_64'', Some (Lit 4)),
     (''CU_STREAM_MEM_OP_WRITE_VALUE_64'', Some (Lit 5)),
     (''CU_STREAM_MEM_OP_FLUSH_REMOTE_WRITES'', Some (Lit 3))]"

definition CUmem_advise_h :: enum_decl where
  "CUmem_advise_h =
    [(''CU_MEM_ADVISE_SET_READ_MOSTLY'', Some (Lit 1)),
     (''CU_MEM_ADVISE_UNSET_READ_MOSTLY'', Some (Lit 2)),
     (''CU_MEM_ADVISE_SET_PREFERRED_LOCATION'', Some (Lit 3)),
     (''CU_MEM_ADVISE_UNSET_PREFERRED_LOCATION'', Some (Lit 4)),
     (''CU_MEM_ADVISE_SET_ACCESSED_BY'', Some (Lit 5)),
     (''CU_MEM_ADVISE_UNSET_ACCESSED_BY'', Some (Lit 6))]"

definition CUmem_range_attribute_h :: enum_decl where
  "CUmem_range_attribute_h =
    [(''CU_MEM_RANGE_ATTRIBUTE_READ_MOSTLY'', Some (Lit 1)),
     (''CU_MEM_RANGE_ATTRIBUTE_PREFERRED_LOCATION'', Some (Lit 2)),
     (''CU_MEM_RANGE_ATTRIBUTE_ACCESSED_BY'', Some (Lit 3)),
     (''CU_MEM_RANGE_ATTRIBUTE_LAST_PREFETCH_LOCATION'', Some (Lit 4))]"

definition CUgraphNodeType_h :: enum_decl where
  "CUgraphNodeType_h =
    [(''CU_GRAPH_NODE_TYPE_KERNEL'', Some (Lit 0)),
     (''CU_GRAPH_NODE_TYPE_MEMCPY'', Some (Lit 1)),
     (''CU_GRAPH_NODE_TYPE_MEMSET'', Some (Lit 2)),
     (''CU_GRAPH_NODE_TYPE_HOST'', Some (Lit 3)),
     (''CU_GRAPH_NODE_TYPE_GRAPH'', Some (Lit 4)),
     (''CU_GRAPH_NODE_TYPE_EMPTY'', Some (Lit 5)),
     (''CU_GRAPH_NODE_TYPE_WAIT_EVENT'', Some (Lit 6)),
     (''CU_GRAPH_NODE_TYPE_EVENT_RECORD'', Some (Lit 7)),
     (''CU_GRAPH_NODE_TYPE_EXT_SEMAS_SIGNAL'', Some (Lit 8)),
     (''CU_GRAPH_NODE_TYPE_EXT_SEMAS_WAIT'', Some (Lit 9)),
     (''CU_GRAPH_NODE_TYPE_MEM_ALLOC'', Some (Lit 10)),
     (''CU_GRAPH_NODE_TYPE_MEM_FREE'', Some (Lit 11))]"

definition CUexternalMemoryHandleType_h :: enum_decl where
  "CUexternalMemoryHandleType_h =
    [(''CU_EXTERNAL_MEMORY_HANDLE_TYPE_OPAQUE_FD'', Some (Lit 1)),
     (''CU_EXTERNAL_MEMORY_HANDLE_TYPE_OPAQUE_WIN32'', Some (Lit 2)),
     (''CU_EXTERNAL_MEMORY_HANDLE_TYPE_OPAQUE_WIN32_KMT'', Some (Lit 3)),
     (''CU_EXTERNAL_MEMORY_HANDLE_TYPE_D3D12_HEAP'', Some (Lit 4)),
     (''CU_EXTERNAL_MEMORY_HANDLE_TYPE_D3D12_RESOURCE'', Some (Lit 5)),
     (''CU_EXTERNAL_MEMORY_HANDLE_TYPE_D3D11_RESOURCE'', Some (Lit 6)),
     (''CU_EXTERNAL_MEMORY_HANDLE_TYPE_D3D11_RESOURCE_KMT'', Some (Lit 7)),
     (''CU_EXTERNAL_MEMORY_HANDLE_TYPE_NVSCIBUF'', Some (Lit 8))]"

definition CUexternalSemaphoreHandleType_h :: enum_decl where
  "CUexternalSemaphoreHandleType_h =
    [(''CU_EXTERNAL_SEMAPHORE_HANDLE_TYPE_OPAQUE_FD'', Some (Lit 1)),
     (''CU_EXTERNAL_SEMAPHORE_HANDLE_TYPE_OPAQUE_WIN32'', Some (Lit 2)),
     (''CU_EXTERNAL_SEMAPHORE_HANDLE_TYPE_OPAQUE_WIN32_KMT'', Some (Lit 3)),
     (''CU_EXTERNAL_SEMAPHORE_HANDLE_TYPE_D3D12_FENCE'', Some (Lit 4)),
     (''CU_EXTERNAL_SEMAPHORE_HANDLE_TYPE_D3D11_FENCE'', Some (Lit 5)),
     (''CU_EXTERNAL_SEMAPHORE_HANDLE_TYPE_NVSCISYNC'', Some (Lit 6)),
     (''CU_EXTERNAL_SEMAPHORE_HANDLE_TYPE_D3D11_KEYED_MUTEX'', Some (Lit 7)),
     (''CU_EXTERNAL_SEMAPHORE_HANDLE_TYPE_D3D11_KEYED_MUTEX_KMT'', Some (Lit 8)),
     (''CU_EXTERNAL_SEMAPHORE_HANDLE_TYPE_TIMELINE_SEMAPHORE_FD'', Some (Lit 9)),
     (''CU_EXTERNAL_SEMAPHORE_HANDLE_TYPE_TIMELINE_SEMAPHORE_WIN32'', Some (Lit 10))]"

definition CUstreamCaptureMode_h :: enum_decl where
  "CUstreamCaptureMode_h =
    [(''CU_STREAM_CAPTURE_MODE_GLOBAL'', Some (Lit 0)),
     (''CU_STREAM_CAPTURE_MODE_THREAD_LOCAL'', Some (Lit 1)),
     (''CU_STREAM_CAPTURE_MODE_RELAXED'', Some (Lit 2))]"

definition CUstreamCaptureStatus_h :: enum_decl where
  "CUstreamCaptureStatus_h =
    [(''CU_STREAM_CAPTURE_STATUS_NONE'', Some (Lit 0)),
     (''CU_STREAM_CAPTURE_STATUS_ACTIVE'', Some (Lit 1)),
     (''CU_STREAM_CAPTURE_STATUS_INVALIDATED'', Some (Lit 2))]"

definition CUgraphExecUpdateResult_h :: enum_decl where
  "CUgraphExecUpdateResult_h =
    [(''CU_GRAPH_EXEC_UPDATE_SUCCESS'', Some (Lit 0x0)),
     (''CU_GRAPH_EXEC_UPDATE_ERROR'', Some (Lit 0x1)),
     (''CU_GRAPH_EXEC_UPDATE_ERROR_TOPOLOGY_CHANGED'', Some (Lit 0x2)),
     (''CU_GRAPH_EXEC_UPDATE_ERROR_NODE_TYPE_CHANGED'', Some (Lit 0x3)),
     (''CU_GRAPH_EXEC_UPDATE_ERROR_FUNCTION_CHANGED'', Some (Lit 0x4)),
     (''CU_GRAPH_EXEC_UPDATE_ERROR_PARAMETERS_CHANGED'', Some (Lit 0x5)),
     (''CU_GRAPH_EXEC_UPDATE_ERROR_NOT_SUPPORTED'', Some (Lit 0x6)),
     (''CU_GRAPH_EXEC_UPDATE_ERROR_UNSUPPORTED_FUNCTION_CHANGE'', Some (Lit 0x7))]"

definition CUmemAllocationType_h :: enum_decl where
  "CUmemAllocationType_h =
    [(''CU_MEM_ALLOCATION_TYPE_INVALID'', Some (Lit 0x0)),
     (''CU_MEM_ALLOCATION_TYPE_PINNED'', Some (Lit 0x1)),
     (''CU_MEM_ALLOCATION_TYPE_MAX'', Some (Lit 0x7fffffff))]"

definition CUmemAllocationHandleType_h :: enum_decl where
  "CUmemAllocationHandleType_h =
    [(''CU_MEM_HANDLE_TYPE_NONE'', Some (Lit 0x0)),
     (''CU_MEM_HANDLE_TYPE_POSIX_FILE_DESCRIPTOR'', Some (Lit 0x1)),
     (''CU_MEM_HANDLE_TYPE_WIN32'', Some (Lit 0x2)),
     (''CU_MEM_HANDLE_TYPE_WIN32_KMT'', Some (Lit 0x4)),
     (''CU_MEM_HANDLE_TYPE_MAX'', Some (Lit 0x7fffffff))]"

definition CUmemLocationType_h :: enum_decl where
  "CUmemLocationType_h =
    [(''CU_MEM_LOCATION_TYPE_INVALID'', Some (Lit 0x0)),
     (''CU_MEM_LOCATION_TYPE_DEVICE'', Some (Lit 0x1)),
     (''CU_MEM_LOCATION_TYPE_MAX'', Some (Lit 0x7fffffff))]"

definition CUmemAllocationGranularity_flags_h :: enum_decl where
  "CUmemAllocationGranularity_flags_h =
    [(''CU_MEM_ALLOC_GRANULARITY_MINIMUM'', Some (Lit 0x0)),
     (''CU_MEM_ALLOC_GRANULARITY_RECOMMENDED'', Some (Lit 0x1))]"

definition CUmemAccess_flags_h :: enum_decl where
  "CUmemAccess_flags_h =
    [(''CU_MEM_ACCESS_FLAGS_PROT_NONE'', Some (Lit 0x0)),
     (''CU_MEM_ACCESS_FLAGS_PROT_READ'', Some (Lit 0x1)),
     (''CU_MEM_ACCESS_FLAGS_PROT_READWRITE'', Some (Lit 0x3)),
     (''CU_MEM_ACCESS_FLAGS_PROT_MAX'', Some (Lit 0x7fffffff))]"

definition CUkernelNodeAttrID_h :: enum_decl where
  "CUkernelNodeAttrID_h =
    [(''CU_KERNEL_NODE_ATTRIBUTE_ACCESS_POLICY_WINDOW'', Some (Lit 1)),
     (''CU_KERNEL_NODE_ATTRIBUTE_COOPERATIVE'', Some (Lit 2))]"

definition CUaccessProperty_h :: enum_decl where
  "CUaccessProperty_h =
    [(''CU_ACCESS_PROPERTY_NORMAL'', Some (Lit 0)),
     (''CU_ACCESS_PROPERTY_STREAMING'', Some (Lit 1)),
     (''CU_ACCESS_PROPERTY_PERSISTING'', Some (Lit 2))]"

definition CUstreamAttrID_h :: enum_decl where
  "CUstreamAttrID_h =
    [(''CU_STREAM_ATTRIBUTE_ACCESS_POLICY_WINDOW'', Some (Lit 1)),
     (''CU_STREAM_ATTRIBUTE_SYNCHRONIZATION_POLICY'', Some (Lit 3))]"

definition CUsynchronizationPolicy_h :: enum_decl where
  "CUsynchronizationPolicy_h =
    [(''CU_SYNC_POLICY_AUTO'', Some (Lit 1)),
     (''CU_SYNC_POLICY_SPIN'', Some (Lit 2)),
     (''CU_SYNC_POLICY_YIELD'', Some (Lit 3)),
     (''CU_SYNC_POLICY_BLOCKING_SYNC'', Some (Lit 4))]"

definition CUarraySparseSubresourceType_h :: enum_decl where
  "CUarraySparseSubresourceType_h =
    [(''CU_ARRAY_SPARSE_SUBRESOURCE_TYPE_SPARSE_LEVEL'', Some (Lit 0)),
     (''CU_ARRAY_SPARSE_SUBRESOURCE_TYPE_MIPTAIL'', Some (Lit 1))]"

definition CUmemOperationType_h :: enum_decl where
  "CUmemOperationType_h =
    [(''CU_MEM_OPERATION_TYPE_MAP'', Some (Lit 1)),
     (''CU_MEM_OPERATION_TYPE_UNMAP'', Some (Lit 2))]"

definition CUmemHandleType_h :: enum_decl where
  "CUmemHandleType_h =
    [(''CU_MEM_HANDLE_TYPE_GENERIC'', Some (Lit 0))]"

definition CUmemPool_attribute_h :: enum_decl where
  "CUmemPool_attribute_h =
    [(''CU_MEMPOOL_ATTR_REUSE_FOLLOW_EVENT_DEPENDENCIES'', Some (Lit 1)),
     (''CU_MEMPOOL_ATTR_REUSE_ALLOW_OPPORTUNISTIC'', None),
     (''CU_MEMPOOL_ATTR_REUSE_ALLOW_INTERNAL_DEPENDENCIES'', None),
     (''CU_MEMPOOL_ATTR_RELEASE_THRESHOLD'', None),
     (''CU_MEMPOOL_ATTR_RESERVED_MEM_CURRENT'', None),
     (''CU_MEMPOOL_ATTR_RESERVED_MEM_HIGH'', None),
     (''CU_MEMPOOL_ATTR_USED_MEM_CURRENT'', None),
     (''CU_MEMPOOL_ATTR_USED_MEM_HIGH'', None)]"

definition CUexecAffinityType_h :: enum_decl where
  "CUexecAffinityType_h =
    [(''CU_EXEC_AFFINITY_TYPE_SM_COUNT'', Some (Lit 0)),
     (''CU_EXEC_AFFINITY_TYPE_MAX'', None)]"

definition CUgraphMem_attribute_h :: enum_decl where
  "CUgraphMem_attribute_h =
    [(''CU_GRAPH_MEM_ATTR_USED_MEM_CURRENT'', None),
     (''CU_GRAPH_MEM_ATTR_USED_MEM_HIGH'', None),
     (''CU_GRAPH_MEM_ATTR_RESERVED_MEM_CURRENT'', None),
     (''CU_GRAPH_MEM_ATTR_RESERVED_MEM_HIGH'', None)]"

definition CUflushGPUDirectRDMAWritesTarget_h :: enum_decl where
  "CUflushGPUDirectRDMAWritesTarget_h =
    [(''CU_FLUSH_GPU_DIRECT_RDMA_WRITES_TARGET_CURRENT_CTX'', Some (Lit 0))]"

definition CUflushGPUDirectRDMAWritesScope_h :: enum_decl where
  "CUflushGPUDirectRDMAWritesScope_h =
    [(''CU_FLUSH_GPU_DIRECT_RDMA_WRITES_TO_OWNER'', Some (Lit 100)),
     (''CU_FLUSH_GPU_DIRECT_RDMA_WRITES_TO_ALL_DEVICES'', Some (Lit 200))]"

section \<open>Values\<close>

definition cuda_enums :: "(enum_env \<times> enum_decl) list" where
  "cuda_enums =
    [([], CUresult),
     ([], CUdevice_attribute),
     ([], CUdevice_P2PAttribute),
     ([], CUlimit),
     ([], CUfunc_cache),
     ([], CUsharedconfig),
     ([], CUjit_option),
     ([], CUjitInputType),
     ([], CUpointer_attribute),
     ([], CUmemorytype),
     ([], CUfunction_attribute),
     ([], CUarray_format),
     ([], CUaddress_mode),
     ([], CUfilter_mode),
     ([], CUresourcetype),
     ([], CUresourceViewFormat),
     ([], CUstreamBatchMemOpType),
     ([], CUGLDeviceList),
     ([], CUoutput_mode),
     ([], CUmem_advise),
     ([], CUmem_range_attribute),
     ([], CUDBGResult),
     ([], CUeglFrameType),
     ([], CUeglColorFormat),
     ([], CUgraphNodeType),
     ([], CUexternalMemoryHandleType),
     ([], CUexternalSemaphoreHandleType),
     ([], CUstreamCaptureMode),
     ([], CUstreamCaptureStatus),
     ([], CUgraphExecUpdateResult),
     ([], CUmemAllocationType),
     ([], CUmemAllocationHandleType),
     ([], CUmemLocationType),
     ([], CUmemAllocationGranularity_flags),
     ([], CUmemAccess_flags),
     ([], CUkernelNodeAttrID),
     ([], CUaccessProperty),
     ([], CUstreamAttrID),
     ([], CUsynchronizationPolicy),
     ([], CUarraySparseSubresourceType),
     ([], CUmemOperationType),
     ([], CUmemHandleType),
     ([], CUmemPool_attribute),
     ([], CUexecAffinityType),
     ([], CUgraphMem_attribute),
     ([], CUflushGPUDirectRDMAWritesTarget),
     ([], CUflushGPUDirectRDMAWritesScope)]"

lemma CUresult_oversized [abi_oversized]: "oversized [] CUresult = Some []"
  by (rule oversized_simple [THEN trans], simp_all add: fits_int_def CUresult_def)

lemma CUdevice_attribute_oversized [abi_oversized]: "oversized [] CUdevice_attribute = Some []"
  by (rule oversized_simple [THEN trans], simp_all add: fits_int_def CUdevice_attribute_def)

lemma CUdevice_P2PAttribute_oversized [abi_oversized]: "oversized [] CUdevice_P2PAttribute = Some []"
  by (rule oversized_simple [THEN trans], simp_all add: fits_int_def CUdevice_P2PAttribute_def)

lemma CUlimit_oversized [abi_oversized]: "oversized [] CUlimit = Some []"
  by (rule oversized_simple [THEN trans], simp_all add: fits_int_def CUlimit_def)

lemma CUfunc_cache_oversized [abi_oversized]: "oversized [] CUfunc_cache = Some []"
  by (rule oversized_simple [THEN trans], simp_all add: fits_int_def CUfunc_cache_def)

lemma CUsharedconfig_oversized [abi_oversized]: "oversized [] CUsharedconfig = Some []"
  by (rule oversized_simple [THEN trans], simp_all add: fits_int_def CUsharedconfig_def)

lemma CUjit_option_oversized [abi_oversized]: "oversized [] CUjit_option = Some []"
  by (rule oversized_simple [THEN trans], simp_all add: fits_int_def CUjit_option_def)

lemma CUjitInputType_oversized [abi_oversized]: "oversized [] CUjitInputType = Some []"
  by (rule oversized_simple [THEN trans], simp_all add: fits_int_def CUjitInputType_def)

lemma CUpointer_attribute_oversized [abi_oversized]: "oversized [] CUpointer_attribute = Some []"
  by (rule oversized_simple [THEN trans], simp_all add: fits_int_def CUpointer_attribute_def)

lemma CUmemorytype_oversized [abi_oversized]: "oversized [] CUmemorytype = Some []"
  by (rule oversized_simple [THEN trans], simp_all add: fits_int_def CUmemorytype_def)

lemma CUfunction_attribute_oversized [abi_oversized]: "oversized [] CUfunction_attribute = Some []"
  by (rule oversized_simple [THEN trans], simp_all add: fits_int_def CUfunction_attribute_def)

lemma CUarray_format_oversized [abi_oversized]: "oversized [] CUarray_format = Some []"
  by (rule oversized_simple [THEN trans], simp_all add: fits_int_def CUarray_format_def)

lemma CUaddress_mode_oversized [abi_oversized]: "oversized [] CUaddress_mode = Some []"
  by (rule oversized_simple [THEN trans], simp_all add: fits_int_def CUaddress_mode_def)

lemma CUfilter_mode_oversized [abi_oversized]: "oversized [] CUfilter_mode = Some []"
  by (rule oversized_simple [THEN trans], simp_all add: fits_int_def CUfilter_mode_def)

lemma CUresourcetype_oversized [abi_oversized]: "oversized [] CUresourcetype = Some []"
  by (rule oversized_simple [THEN trans], simp_all add: fits_int_def CUresourcetype_def)

lemma CUresourceViewFormat_oversized [abi_oversized]: "oversized [] CUresourceViewFormat = Some []"
  by (rule oversized_simple [THEN trans], simp_all add: fits_int_def CUresourceViewFormat_def)

lemma CUstreamBatchMemOpType_oversized [abi_oversized]: "oversized [] CUstreamBatchMemOpType = Some []"
  by (rule oversized_simple [THEN trans], simp_all add: fits_int_def CUstreamBatchMemOpType_def)

lemma CUGLDeviceList_oversized [abi_oversized]: "oversized [] CUGLDeviceList = Some []"
  by (rule oversized_simple [THEN trans], simp_all add: fits_int_def CUGLDeviceList_def)

lemma CUoutput_mode_oversized [abi_oversized]: "oversized [] CUoutput_mode = Some []"
  by (rule oversized_simple [THEN trans], simp_all add: fits_int_def CUoutput_mode_def)

lemma CUmem_advise_oversized [abi_oversized]: "oversized [] CUmem_advise = Some []"
  by (rule oversized_simple [THEN trans], simp_all add: fits_int_def CUmem_advise_def)

lemma CUmem_range_attribute_oversized [abi_oversized]: "oversized [] CUmem_range_attribute = Some []"
  by (rule oversized_simple [THEN trans], simp_all add: fits_int_def CUmem_range_attribute_def)

lemma CUDBGResult_oversized [abi_oversized]: "oversized [] CUDBGResult = Some []"
  by (rule oversized_simple [THEN trans], simp_all add: fits_int_def CUDBGResult_def)

lemma CUeglFrameType_oversized [abi_oversized]: "oversized [] CUeglFrameType = Some []"
  by (rule oversized_simple [THEN trans], simp_all add: fits_int_def CUeglFrameType_def)

lemma CUeglColorFormat_oversized [abi_oversized]: "oversized [] CUeglColorFormat = Some []"
  by (rule oversized_simple [THEN trans], simp_all add: fits_int_def CUeglColorFormat_def)

lemma CUgraphNodeType_oversized [abi_oversized]: "oversized [] CUgraphNodeType = Some []"
  by (rule oversized_simple [THEN trans], simp_all add: fits_int_def CUgraphNodeType_def)

lemma CUexternalMemoryHandleType_oversized [abi_oversized]: "oversized [] CUexternalMemoryHandleType = Some []"
  by (rule oversized_simple [THEN trans], simp_all add: fits_int_def CUexternalMemoryHandleType_def)

lemma CUexternalSemaphoreHandleType_oversized [abi_oversized]: "oversized [] CUexternalSemaphoreHandleType = Some []"
  by (rule oversized_simple [THEN trans], simp_all add: fits_int_def CUexternalSemaphoreHandleType_def)

lemma CUstreamCaptureMode_oversized [abi_oversized]: "oversized [] CUstreamCaptureMode = Some []"
  by (rule oversized_simple [THEN trans], simp_all add: fits_int_def CUstreamCaptureMode_def)

lemma CUstreamCaptureStatus_oversized [abi_oversized]: "oversized [] CUstreamCaptureStatus = Some []"
  by (rule oversized_simple [THEN trans], simp_all add: fits_int_def CUstreamCaptureStatus_def)

lemma CUgraphExecUpdateResult_oversized [abi_oversized]: "oversized [] CUgraphExecUpdateResult = Some []"
  by (rule oversized_simple [THEN trans], simp_all add: fits_int_def CUgraphExecUpdateResult_def)

lemma CUmemAllocationType_oversized [abi_oversized]: "oversized [] CUmemAllocationType = Some [''CU_MEM_ALLOCATION_TYPE_MAX'']"
  by (rule oversized_simple [THEN trans], simp_all add: fits_int_def CUmemAllocationType_def)

lemma CUmemAllocationHandleType_oversized [abi_oversized]: "oversized [] CUmemAllocationHandleType = Some [''CU_MEM_HANDLE_TYPE_MAX'']"
  by (rule oversized_simple [THEN trans], simp_all add: fits_int_def CUmemAllocationHandleType_def)

lemma CUmemLocationType_oversized [abi_oversized]: "oversized [] CUmemLocationType = Some [''CU_MEM_LOCATION_TYPE_MAX'']"
  by (rule oversized_simple [THEN trans], simp_all add: fits_int_def CUmemLocationType_def)

lemma CUmemAllocationGranularity_flags_oversized [abi_oversized]: "oversized [] CUmemAllocationGranularity_flags = Some []"
  by (rule oversized_simple [THEN trans], simp_all add: fits_int_def CUmemAllocationGranularity_flags_def)

lemma CUmemAccess_flags_oversized [abi_oversized]: "oversized [] CUmemAccess_flags = Some [''CU_MEM_ACCESS_FLAGS_PROT_MAX'']"
  by (rule oversized_simple [THEN trans], simp_all add: fits_int_def CUmemAccess_flags_def)

lemma CUkernelNodeAttrID_oversized [abi_oversized]: "oversized [] CUkernelNodeAttrID = Some []"
  by (rule oversized_simple [THEN trans], simp_all add: fits_int_def CUkernelNodeAttrID_def)

lemma CUaccessProperty_oversized [abi_oversized]: "oversized [] CUaccessProperty = Some []"
  by (rule oversized_simple [THEN trans], simp_all add: fits_int_def CUaccessProperty_def)

lemma CUstreamAttrID_oversized [abi_oversized]: "oversized [] CUstreamAttrID = Some []"
  by (rule oversized_simple [THEN trans], simp_all add: fits_int_def CUstreamAttrID_def)

lemma CUsynchronizationPolicy_oversized [abi_oversized]: "oversized [] CUsynchronizationPolicy = Some []"
  by (rule oversized_simple [THEN trans], simp_all add: fits_int_def CUsynchronizationPolicy_def)

lemma CUarraySparseSubresourceType_oversized [abi_oversized]: "oversized [] CUarraySparseSubresourceType = Some []"
  by (rule oversized_simple [THEN trans], simp_all add: fits_int_def CUarraySparseSubresourceType_def)

lemma CUmemOperationType_oversized [abi_oversized]: "oversized [] CUmemOperationType = Some []"
  by (rule oversized_simple [THEN trans], simp_all add: fits_int_def CUmemOperationType_def)

lemma CUmemHandleType_oversized [abi_oversized]: "oversized [] CUmemHandleType = Some []"
  by (rule oversized_simple [THEN trans], simp_all add: fits_int_def CUmemHandleType_def)

lemma CUmemPool_attribute_oversized [abi_oversized]: "oversized [] CUmemPool_attribute = Some []"
  by (rule oversized_simple [THEN trans], simp_all add: fits_int_def CUmemPool_attribute_def)

lemma CUexecAffinityType_oversized [abi_oversized]: "oversized [] CUexecAffinityType = Some []"
  by (rule oversized_simple [THEN trans], simp_all add: fits_int_def CUexecAffinityType_def)

lemma CUgraphMem_attribute_oversized [abi_oversized]: "oversized [] CUgraphMem_attribute = Some []"
  by (rule oversized_simple [THEN trans], simp_all add: fits_int_def CUgraphMem_attribute_def)

lemma CUflushGPUDirectRDMAWritesTarget_oversized [abi_oversized]: "oversized [] CUflushGPUDirectRDMAWritesTarget = Some []"
  by (rule oversized_simple [THEN trans], simp_all add: fits_int_def CUflushGPUDirectRDMAWritesTarget_def)

lemma CUflushGPUDirectRDMAWritesScope_oversized [abi_oversized]: "oversized [] CUflushGPUDirectRDMAWritesScope = Some []"
  by (rule oversized_simple [THEN trans], simp_all add: fits_int_def CUflushGPUDirectRDMAWritesScope_def)

lemma cuda_oversized:
  "all_oversized cuda_enums = Some [''CU_MEM_ALLOCATION_TYPE_MAX'', ''CU_MEM_HANDLE_TYPE_MAX'', ''CU_MEM_LOCATION_TYPE_MAX'', ''CU_MEM_ACCESS_FLAGS_PROT_MAX'']"
  by (simp add: cuda_enums_def all_oversized_def abi_oversized)

section \<open>Agreement with \<open>cuda.h\<close>\<close>

definition cuda_pairs :: "(enum_decl \<times> enum_decl) list" where
  "cuda_pairs =
    [(CUresult, CUresult_h),
     (CUdevice_attribute, CUdevice_attribute_h),
     (CUdevice_P2PAttribute, CUdevice_P2PAttribute_h),
     (CUlimit, CUlimit_h),
     (CUfunc_cache, CUfunc_cache_h),
     (CUsharedconfig, CUsharedconfig_h),
     (CUjit_option, CUjit_option_h),
     (CUjitInputType, CUjitInputType_h),
     (CUpointer_attribute, CUpointer_attribute_h),
     (CUmemorytype, CUmemorytype_h),
     (CUfunction_attribute, CUfunction_attribute_h),
     (CUarray_format, CUarray_format_h),
     (CUaddress_mode, CUaddress_mode_h),
     (CUfilter_mode, CUfilter_mode_h),
     (CUresourcetype, CUresourcetype_h),
     (CUresourceViewFormat, CUresourceViewFormat_h),
     (CUstreamBatchMemOpType, CUstreamBatchMemOpType_h),
     (CUmem_advise, CUmem_advise_h),
     (CUmem_range_attribute, CUmem_range_attribute_h),
     (CUgraphNodeType, CUgraphNodeType_h),
     (CUexternalMemoryHandleType, CUexternalMemoryHandleType_h),
     (CUexternalSemaphoreHandleType, CUexternalSemaphoreHandleType_h),
     (CUstreamCaptureMode, CUstreamCaptureMode_h),
     (CUstreamCaptureStatus, CUstreamCaptureStatus_h),
     (CUgraphExecUpdateResult, CUgraphExecUpdateResult_h),
     (CUmemAllocationType, CUmemAllocationType_h),
     (CUmemAllocationHandleType, CUmemAllocationHandleType_h),
     (CUmemLocationType, CUmemLocationType_h),
     (CUmemAllocationGranularity_flags, CUmemAllocationGranularity_flags_h),
     (CUmemAccess_flags, CUmemAccess_flags_h),
     (CUkernelNodeAttrID, CUkernelNodeAttrID_h),
     (CUaccessProperty, CUaccessProperty_h),
     (CUstreamAttrID, CUstreamAttrID_h),
     (CUsynchronizationPolicy, CUsynchronizationPolicy_h),
     (CUarraySparseSubresourceType, CUarraySparseSubresourceType_h),
     (CUmemOperationType, CUmemOperationType_h),
     (CUmemHandleType, CUmemHandleType_h),
     (CUmemPool_attribute, CUmemPool_attribute_h),
     (CUexecAffinityType, CUexecAffinityType_h),
     (CUgraphMem_attribute, CUgraphMem_attribute_h),
     (CUflushGPUDirectRDMAWritesTarget, CUflushGPUDirectRDMAWritesTarget_h),
     (CUflushGPUDirectRDMAWritesScope, CUflushGPUDirectRDMAWritesScope_h)]"

lemma CUresult_conflicts [abi_conflicts]: "conflicts CUresult CUresult_h = []"
proof (rule conflicts_subseq)
  show "subseq CUresult CUresult_h" unfolding CUresult_def CUresult_h_def
    by (rule list_emb_Nil | rule subseq_keep | rule list_emb_Cons)+
  show "list_all explicit CUresult_h" by (simp add: CUresult_h_def)
qed

lemma CUdevice_attribute_values:
  "elaborate [] CUdevice_attribute = Some
    ([(''CU_DEVICE_ATTRIBUTE_MAX_THREADS_PER_BLOCK'', 1),
     (''CU_DEVICE_ATTRIBUTE_MAX_BLOCK_DIM_X'', 2),
     (''CU_DEVICE_ATTRIBUTE_MAX_BLOCK_DIM_Y'', 3),
     (''CU_DEVICE_ATTRIBUTE_MAX_BLOCK_DIM_Z'', 4),
     (''CU_DEVICE_ATTRIBUTE_MAX_GRID_DIM_X'', 5),
     (''CU_DEVICE_ATTRIBUTE_MAX_GRID_DIM_Y'', 6),
     (''CU_DEVICE_ATTRIBUTE_MAX_GRID_DIM_Z'', 7),
     (''CU_DEVICE_ATTRIBUTE_MAX_SHARED_MEMORY_PER_BLOCK'', 8),
     (''CU_DEVICE_ATTRIBUTE_SHARED_MEMORY_PER_BLOCK'', 8),
     (''CU_DEVICE_ATTRIBUTE_TOTAL_CONSTANT_MEMORY'', 9),
     (''CU_DEVICE_ATTRIBUTE_WARP_SIZE'', 10),
     (''CU_DEVICE_ATTRIBUTE_MAX_PITCH'', 11),
     (''CU_DEVICE_ATTRIBUTE_MAX_REGISTERS_PER_BLOCK'', 12),
     (''CU_DEVICE_ATTRIBUTE_REGISTERS_PER_BLOCK'', 12),
     (''CU_DEVICE_ATTRIBUTE_CLOCK_RATE'', 13),
     (''CU_DEVICE_ATTRIBUTE_TEXTURE_ALIGNMENT'', 14),
     (''CU_DEVICE_ATTRIBUTE_GPU_OVERLAP'', 15),
     (''CU_DEVICE_ATTRIBUTE_MULTIPROCESSOR_COUNT'', 16),
     (''CU_DEVICE_ATTRIBUTE_KERNEL_EXEC_TIMEOUT'', 17),
     (''CU_DEVICE_ATTRIBUTE_INTEGRATED'', 18),
     (''CU_DEVICE_ATTRIBUTE_CAN_MAP_HOST_MEMORY'', 19),
     (''CU_DEVICE_ATTRIBUTE_COMPUTE_MODE'', 20),
     (''CU_DEVICE_ATTRIBUTE_MAXIMUM_TEXTURE1D_WIDTH'', 21),
     (''CU_DEVICE_ATTRIBUTE_MAXIMUM_TEXTURE2D_WIDTH'', 22),
     (''CU_DEVICE_ATTRIBUTE_MAXIMUM_TEXTURE2D_HEIGHT'', 23),
     (''CU_DEVICE_ATTRIBUTE_MAXIMUM_TEXTURE3D_WIDTH'', 24),
     (''CU_DEVICE_ATTRIBUTE_MAXIMUM_TEXTURE3D_HEIGHT'', 25),
     (''CU_DEVICE_ATTRIBUTE_MAXIMUM_TEXTURE3D_DEPTH'', 26),
     (''CU_DEVICE_ATTRIBUTE_MAXIMUM_TEXTURE2D_LAYERED_WIDTH'', 27),
     (''CU_DEVICE_ATTRIBUTE_MAXIMUM_TEXTURE2D_LAYERED_HEIGHT'', 28),
     (''CU_DEVICE_ATTRIBUTE_MAXIMUM_TEXTURE2D_LAYERED_LAYERS'', 29),
     (''CU_DEVICE_ATTRIBUTE_MAXIMUM_TEXTURE2D_ARRAY_WIDTH'', 27),
     (''CU_DEVICE_ATTRIBUTE_MAXIMUM_TEXTURE2D_ARRAY_HEIGHT'', 28),
     (''CU_DEVICE_ATTRIBUTE_MAXIMUM_TEXTURE2D_ARRAY_NUMSLICES'', 29),
     (''CU_DEVICE_ATTRIBUTE_SURFACE_ALIGNMENT'', 30),
     (''CU_DEVICE_ATTRIBUTE_CONCURRENT_KERNELS'', 31),
     (''CU_DEVICE_ATTRIBUTE_ECC_ENABLED'', 32),
     (''CU_DEVICE_ATTRIBUTE_PCI_BUS_ID'', 33),
     (''CU_DEVICE_ATTRIBUTE_PCI_DEVICE_ID'', 34),
     (''CU_DEVICE_ATTRIBUTE_TCC_DRIVER'', 35),
     (''CU_DEVICE_ATTRIBUTE_MEMORY_CLOCK_RATE'', 36),
     (''CU_DEVICE_ATTRIBUTE_GLOBAL_MEMORY_BUS_WIDTH'', 37),
     (''CU_DEVICE_ATTRIBUTE_L2_CACHE_SIZE'', 38),
     (''CU_DEVICE_ATTRIBUTE_MAX_THREADS_PER_MULTIPROCESSOR'', 39),
     (''CU_DEVICE_ATTRIBUTE_ASYNC_ENGINE_COUNT'', 40),
     (''CU_DEVICE_ATTRIBUTE_UNIFIED_ADDRESSING'', 41),
     (''CU_DEVICE_ATTRIBUTE_MAXIMUM_TEXTURE1D_LAYERED_WIDTH'', 42),
     (''CU_DEVICE_ATTRIBUTE_MAXIMUM_TEXTURE1D_LAYERED_LAYERS'', 43),
     (''CU_DEVICE_ATTRIBUTE_CAN_TEX2D_GATHER'', 44),
     (''CU_DEVICE_ATTRIBUTE_MAXIMUM_TEXTURE2D_GATHER_WIDTH'', 45),
     (''CU_DEVICE_ATTRIBUTE_MAXIMUM_TEXTURE2D_GATHER_HEIGHT'', 46),
     (''CU_DEVICE_ATTRIBUTE_MAXIMUM_TEXTURE3D_WIDTH_ALTERNATE'', 47),
     (''CU_DEVICE_ATTRIBUTE_MAXIMUM_TEXTURE3D_HEIGHT_ALTERNATE'', 48),
     (''CU_DEVICE_ATTRIBUTE_MAXIMUM_TEXTURE3D_DEPTH_ALTERNATE'', 49),
     (''CU_DEVICE_ATTRIBUTE_PCI_DOMAIN_ID'', 50),
     (''CU_DEVICE_ATTRIBUTE_TEXTURE_PITCH_ALIGNMENT'', 51),
     (''CU_DEVICE_ATTRIBUTE_MAXIMUM_TEXTURECUBEMAP_WIDTH'', 52),
     (''CU_DEVICE_ATTRIBUTE_MAXIMUM_TEXTURECUBEMAP_LAYERED_WIDTH'', 53),
     (''CU_DEVICE_ATTRIBUTE_MAXIMUM_TEXTURECUBEMAP_LAYERED_LAYERS'', 54),
     (''CU_DEVICE_ATTRIBUTE_MAXIMUM_SURFACE1D_WIDTH'', 55),
     (''CU_DEVICE_ATTRIBUTE_MAXIMUM_SURFACE2D_WIDTH'', 56),
     (''CU_DEVICE_ATTRIBUTE_MAXIMUM_SURFACE2D_HEIGHT'', 57),
     (''CU_DEVICE_ATTRIBUTE_MAXIMUM_SURFACE3D_WIDTH'', 58),
     (''CU_DEVICE_ATTRIBUTE_MAXIMUM_SURFACE3D_HEIGHT'', 59),
     (''CU_DEVICE_ATTRIBUTE_MAXIMUM_SURFACE3D_DEPTH'', 60),
     (''CU_DEVICE_ATTRIBUTE_MAXIMUM_SURFACE1D_LAYERED_WIDTH'', 61),
     (''CU_DEVICE_ATTRIBUTE_MAXIMUM_SURFACE1D_LAYERED_LAYERS'', 62),
     (''CU_DEVICE_ATTRIBUTE_MAXIMUM_SURFACE2D_LAYERED_WIDTH'', 63),
     (''CU_DEVICE_ATTRIBUTE_MAXIMUM_SURFACE2D_LAYERED_HEIGHT'', 64),
     (''CU_DEVICE_ATTRIBUTE_MAXIMUM_SURFACE2D_LAYERED_LAYERS'', 65),
     (''CU_DEVICE_ATTRIBUTE_MAXIMUM_SURFACECUBEMAP_WIDTH'', 66),
     (''CU_DEVICE_ATTRIBUTE_MAXIMUM_SURFACECUBEMAP_LAYERED_WIDTH'', 67),
     (''CU_DEVICE_ATTRIBUTE_MAXIMUM_SURFACECUBEMAP_LAYERED_LAYERS'', 68),
     (''CU_DEVICE_ATTRIBUTE_MAXIMUM_TEXTURE1D_LINEAR_WIDTH'', 69),
     (''CU_DEVICE_ATTRIBUTE_MAXIMUM_TEXTURE2D_LINEAR_WIDTH'', 70),
     (''CU_DEVICE_ATTRIBUTE_MAXIMUM_TEXTURE2D_LINEAR_HEIGHT'', 71),
     (''CU_DEVICE_ATTRIBUTE_MAXIMUM_TEXTURE2D_LINEAR_PITCH'', 72),
     (''CU_DEVICE_ATTRIBUTE_MAXIMUM_TEXTURE2D_MIPMAPPED_WIDTH'', 73),
     (''CU_DEVICE_ATTRIBUTE_MAXIMUM_TEXTURE2D_MIPMAPPED_HEIGHT'', 74),
     (''CU_DEVICE_ATTRIBUTE_COMPUTE_CAPABILITY_MAJOR'', 75),
     (''CU_DEVICE_ATTRIBUTE_COMPUTE_CAPABILITY_MINOR'', 76),
     (''CU_DEVICE_ATTRIBUTE_MAXIMUM_TEXTURE1D_MIPMAPPED_WIDTH'', 77),
     (''CU_DEVICE_ATTRIBUTE_STREAM_PRIORITIES_SUPPORTED'', 78),
     (''CU_DEVICE_ATTRIBUTE_GLOBAL_L1_CACHE_SUPPORTED'', 79),
     (''CU_DEVICE_ATTRIBUTE_LOCAL_L1_CACHE_SUPPORTED'', 80),
     (''CU_DEVICE_ATTRIBUTE_MAX_SHARED_MEMORY_PER_MULTIPROCESSOR'', 81),
     (''CU_DEVICE_ATTRIBUTE_MAX_REGISTERS_PER_MULTIPROCESSOR'', 82),
     (''CU_DEVICE_ATTRIBUTE_MANAGED_MEMORY'', 83),
     (''CU_DEVICE_ATTRIBUTE_MULTI_GPU_BOARD'', 84),
     (''CU_DEVICE_ATTRIBUTE_MULTI_GPU_BOARD_GROUP_ID'', 85),
     (''CU_DEVICE_ATTRIBUTE_HOST_NATIVE_ATOMIC_SUPPORTED'', 86),
     (''CU_DEVICE_ATTRIBUTE_SINGLE_TO_DOUBLE_PRECISION_PERF_RATIO'', 87),
     (''CU_DEVICE_ATTRIBUTE_PAGEABLE_MEMORY_ACCESS'', 88),
     (''CU_DEVICE_ATTRIBUTE_CONCURRENT_MANAGED_ACCESS'', 89),
     (''CU_DEVICE_ATTRIBUTE_COMPUTE_PREEMPTION_SUPPORTED'', 90),
     (''CU_DEVICE_ATTRIBUTE_CAN_USE_HOST_POINTER_FOR_REGISTERED_MEM'', 91),
     (''CU_DEVICE_ATTRIBUTE_CAN_USE_STREAM_MEM_OPS'', 92),
     (''CU_DEVICE_ATTRIBUTE_CAN_USE_64_BIT_STREAM_MEM_OPS'', 93),
     (''CU_DEVICE_ATTRIBUTE_CAN_USE_STREAM_WAIT_VALUE_NOR'', 94),
     (''CU_DEVICE_ATTRIBUTE_COOPERATIVE_LAUNCH'', 95),
     (''CU_DEVICE_ATTRIBUTE_COOPERATIVE_MULTI_DEVICE_LAUNCH'', 96),
     (''CU_DEVICE_ATTRIBUTE_MAX_SHARED_MEMORY_PER_BLOCK_OPTIN'', 97)] @ (''CU_DEVICE_ATTRIBUTE_MAX'', 98) # [])"
  by (rule elaborate_simple [THEN trans], simp_all add: CUdevice_attribute_def)

lemma CUdevice_attribute_h_values:
  "elaborate [] CUdevice_attribute_h = Some
    [(''CU_DEVICE_ATTRIBUTE_MAX_THREADS_PER_BLOCK'', 1),
     (''CU_DEVICE_ATTRIBUTE_MAX_BLOCK_DIM_X'', 2),
     (''CU_DEVICE_ATTRIBUTE_MAX_BLOCK_DIM_Y'', 3),
     (''CU_DEVICE_ATTRIBUTE_MAX_BLOCK_DIM_Z'', 4),
     (''CU_DEVICE_ATTRIBUTE_MAX_GRID_DIM_X'', 5),
     (''CU_DEVICE_ATTRIBUTE_MAX_GRID_DIM_Y'', 6),
     (''CU_DEVICE_ATTRIBUTE_MAX_GRID_DIM_Z'', 7),
     (''CU_DEVICE_ATTRIBUTE_MAX_SHARED_MEMORY_PER_BLOCK'', 8),
     (''CU_DEVICE_ATTRIBUTE_SHARED_MEMORY_PER_BLOCK'', 8),
     (''CU_DEVICE_ATTRIBUTE_TOTAL_CONSTANT_MEMORY'', 9),
     (''CU_DEVICE_ATTRIBUTE_WARP_SIZE'', 10),
     (''CU_DEVICE_ATTRIBUTE_MAX_PITCH'', 11),
     (''CU_DEVICE_ATTRIBUTE_MAX_REGISTERS_PER_BLOCK'', 12),
     (''CU_DEVICE_ATTRIBUTE_REGISTERS_PER_BLOCK'', 12),
     (''CU_DEVICE_ATTRIBUTE_CLOCK_RATE'', 13),
     (''CU_DEVICE_ATTRIBUTE_TEXTURE_ALIGNMENT'', 14),
     (''CU_DEVICE_ATTRIBUTE_GPU_OVERLAP'', 15),
     (''CU_DEVICE_ATTRIBUTE_MULTIPROCESSOR_COUNT'', 16),
     (''CU_DEVICE_ATTRIBUTE_KERNEL_EXEC_TIMEOUT'', 17),
     (''CU_DEVICE_ATTRIBUTE_INTEGRATED'', 18),
     (''CU_DEVICE_ATTRIBUTE_CAN_MAP_HOST_MEMORY'', 19),
     (''CU_DEVICE_ATTRIBUTE_COMPUTE_MODE'', 20),
     (''CU_DEVICE_ATTRIBUTE_MAXIMUM_TEXTURE1D_WIDTH'', 21),
     (''CU_DEVICE_ATTRIBUTE_MAXIMUM_TEXTURE2D_WIDTH'', 22),
     (''CU_DEVICE_ATTRIBUTE_MAXIMUM_TEXTURE2D_HEIGHT'', 23),
     (''CU_DEVICE_ATTRIBUTE_MAXIMUM_TEXTURE3D_WIDTH'', 24),
     (''CU_DEVICE_ATTRIBUTE_MAXIMUM_TEXTURE3D_HEIGHT'', 25),
     (''CU_DEVICE_ATTRIBUTE_MAXIMUM_TEXTURE3D_DEPTH'', 26),
     (''CU_DEVICE_ATTRIBUTE_MAXIMUM_TEXTURE2D_LAYERED_WIDTH'', 27),
     (''CU_DEVICE_ATTRIBUTE_MAXIMUM_TEXTURE2D_LAYERED_HEIGHT'', 28),
     (''CU_DEVICE_ATTRIBUTE_MAXIMUM_TEXTURE2D_LAYERED_LAYERS'', 29),
     (''CU_DEVICE_ATTRIBUTE_MAXIMUM_TEXTURE2D_ARRAY_WIDTH'', 27),
     (''CU_DEVICE_ATTRIBUTE_MAXIMUM_TEXTURE2D_ARRAY_HEIGHT'', 28),
     (''CU_DEVICE_ATTRIBUTE_MAXIMUM_TEXTURE2D_ARRAY_NUMSLICES'', 29),
     (''CU_DEVICE_ATTRIBUTE_SURFACE_ALIGNMENT'', 30),
     (''CU_DEVICE_ATTRIBUTE_CONCURRENT_KERNELS'', 31),
     (''CU_DEVICE_ATTRIBUTE_ECC_ENABLED'', 32),
     (''CU_DEVICE_ATTRIBUTE_PCI_BUS_ID'', 33),
     (''CU_DEVICE_ATTRIBUTE_PCI_DEVICE_ID'', 34),
     (''CU_DEVICE_ATTRIBUTE_TCC_DRIVER'', 35),
     (''CU_DEVICE_ATTRIBUTE_MEMORY_CLOCK_RATE'', 36),
     (''CU_DEVICE_ATTRIBUTE_GLOBAL_MEMORY_BUS_WIDTH'', 37),
     (''CU_DEVICE_ATTRIBUTE_L2_CACHE_SIZE'', 38),
     (''CU_DEVICE_ATTRIBUTE_MAX_THREADS_PER_MULTIPROCESSOR'', 39),
     (''CU_DEVICE_ATTRIBUTE_ASYNC_ENGINE_COUNT'', 40),
     (''CU_DEVICE_ATTRIBUTE_UNIFIED_ADDRESSING'', 41),
     (''CU_DEVICE_ATTRIBUTE_MAXIMUM_TEXTURE1D_LAYERED_WIDTH'', 42),
     (''CU_DEVICE_ATTRIBUTE_MAXIMUM_TEXTURE1D_LAYERED_LAYERS'', 43),
     (''CU_DEVICE_ATTRIBUTE_CAN_TEX2D_GATHER'', 44),
     (''CU_DEVICE_ATTRIBUTE_MAXIMUM_TEXTURE2D_GATHER_WIDTH'', 45),
     (''CU_DEVICE_ATTRIBUTE_MAXIMUM_TEXTURE2D_GATHER_HEIGHT'', 46),
     (''CU_DEVICE_ATTRIBUTE_MAXIMUM_TEXTURE3D_WIDTH_ALTERNATE'', 47),
     (''CU_DEVICE_ATTRIBUTE_MAXIMUM_TEXTURE3D_HEIGHT_ALTERNATE'', 48),
     (''CU_DEVICE_ATTRIBUTE_MAXIMUM_TEXTURE3D_DEPTH_ALTERNATE'', 49),
     (''CU_DEVICE_ATTRIBUTE_PCI_DOMAIN_ID'', 50),
     (''CU_DEVICE_ATTRIBUTE_TEXTURE_PITCH_ALIGNMENT'', 51),
     (''CU_DEVICE_ATTRIBUTE_MAXIMUM_TEXTURECUBEMAP_WIDTH'', 52),
     (''CU_DEVICE_ATTRIBUTE_MAXIMUM_TEXTURECUBEMAP_LAYERED_WIDTH'', 53),
     (''CU_DEVICE_ATTRIBUTE_MAXIMUM_TEXTURECUBEMAP_LAYERED_LAYERS'', 54),
     (''CU_DEVICE_ATTRIBUTE_MAXIMUM_SURFACE1D_WIDTH'', 55),
     (''CU_DEVICE_ATTRIBUTE_MAXIMUM_SURFACE2D_WIDTH'', 56),
     (''CU_DEVICE_ATTRIBUTE_MAXIMUM_SURFACE2D_HEIGHT'', 57),
     (''CU_DEVICE_ATTRIBUTE_MAXIMUM_SURFACE3D_WIDTH'', 58),
     (''CU_DEVICE_ATTRIBUTE_MAXIMUM_SURFACE3D_HEIGHT'', 59),
     (''CU_DEVICE_ATTRIBUTE_MAXIMUM_SURFACE3D_DEPTH'', 60),
     (''CU_DEVICE_ATTRIBUTE_MAXIMUM_SURFACE1D_LAYERED_WIDTH'', 61),
     (''CU_DEVICE_ATTRIBUTE_MAXIMUM_SURFACE1D_LAYERED_LAYERS'', 62),
     (''CU_DEVICE_ATTRIBUTE_MAXIMUM_SURFACE2D_LAYERED_WIDTH'', 63),
     (''CU_DEVICE_ATTRIBUTE_MAXIMUM_SURFACE2D_LAYERED_HEIGHT'', 64),
     (''CU_DEVICE_ATTRIBUTE_MAXIMUM_SURFACE2D_LAYERED_LAYERS'', 65),
     (''CU_DEVICE_ATTRIBUTE_MAXIMUM_SURFACECUBEMAP_WIDTH'', 66),
     (''CU_DEVICE_ATTRIBUTE_MAXIMUM_SURFACECUBEMAP_LAYERED_WIDTH'', 67),
     (''CU_DEVICE_ATTRIBUTE_MAXIMUM_SURFACECUBEMAP_LAYERED_LAYERS'', 68),
     (''CU_DEVICE_ATTRIBUTE_MAXIMUM_TEXTURE1D_LINEAR_WIDTH'', 69),
     (''CU_DEVICE_ATTRIBUTE_MAXIMUM_TEXTURE2D_LINEAR_WIDTH'', 70),
     (''CU_DEVICE_ATTRIBUTE_MAXIMUM_TEXTURE2D_LINEAR_HEIGHT'', 71),
     (''CU_DEVICE_ATTRIBUTE_MAXIMUM_TEXTURE2D_LINEAR_PITCH'', 72),
     (''CU_DEVICE_ATTRIBUTE_MAXIMUM_TEXTURE2D_MIPMAPPED_WIDTH'', 73),
     (''CU_DEVICE_ATTRIBUTE_MAXIMUM_TEXTURE2D_MIPMAPPED_HEIGHT'', 74),
     (''CU_DEVICE_ATTRIBUTE_COMPUTE_CAPABILITY_MAJOR'', 75),
     (''CU_DEVICE_ATTRIBUTE_COMPUTE_CAPABILITY_MINOR'', 76),
     (''CU_DEVICE_ATTRIBUTE_MAXIMUM_TEXTURE1D_MIPMAPPED_WIDTH'', 77),
     (''CU_DEVICE_ATTRIBUTE_STREAM_PRIORITIES_SUPPORTED'', 78),
     (''CU_DEVICE_ATTRIBUTE_GLOBAL_L1_CACHE_SUPPORTED'', 79),
     (''CU_DEVICE_ATTRIBUTE_LOCAL_L1_CACHE_SUPPORTED'', 80),
     (''CU_DEVICE_ATTRIBUTE_MAX_SHARED_MEMORY_PER_MULTIPROCESSOR'', 81),
     (''CU_DEVICE_ATTRIBUTE_MAX_REGISTERS_PER_MULTIPROCESSOR'', 82),
     (''CU_DEVICE_ATTRIBUTE_MANAGED_MEMORY'', 83),
     (''CU_DEVICE_ATTRIBUTE_MULTI_GPU_BOARD'', 84),
     (''CU_DEVICE_ATTRIBUTE_MULTI_GPU_BOARD_GROUP_ID'', 85),
     (''CU_DEVICE_ATTRIBUTE_HOST_NATIVE_ATOMIC_SUPPORTED'', 86),
     (''CU_DEVICE_ATTRIBUTE_SINGLE_TO_DOUBLE_PRECISION_PERF_RATIO'', 87),
     (''CU_DEVICE_ATTRIBUTE_PAGEABLE_MEMORY_ACCESS'', 88),
     (''CU_DEVICE_ATTRIBUTE_CONCURRENT_MANAGED_ACCESS'', 89),
     (''CU_DEVICE_ATTRIBUTE_COMPUTE_PREEMPTION_SUPPORTED'', 90),
     (''CU_DEVICE_ATTRIBUTE_CAN_USE_HOST_POINTER_FOR_REGISTERED_MEM'', 91),
     (''CU_DEVICE_ATTRIBUTE_CAN_USE_STREAM_MEM_OPS'', 92),
     (''CU_DEVICE_ATTRIBUTE_CAN_USE_64_BIT_STREAM_MEM_OPS'', 93),
     (''CU_DEVICE_ATTRIBUTE_CAN_USE_STREAM_WAIT_VALUE_NOR'', 94),
     (''CU_DEVICE_ATTRIBUTE_COOPERATIVE_LAUNCH'', 95),
     (''CU_DEVICE_ATTRIBUTE_COOPERATIVE_MULTI_DEVICE_LAUNCH'', 96),
     (''CU_DEVICE_ATTRIBUTE_MAX_SHARED_MEMORY_PER_BLOCK_OPTIN'', 97),
     (''CU_DEVICE_ATTRIBUTE_CAN_FLUSH_REMOTE_WRITES'', 98),
     (''CU_DEVICE_ATTRIBUTE_HOST_REGISTER_SUPPORTED'', 99),
     (''CU_DEVICE_ATTRIBUTE_PAGEABLE_MEMORY_ACCESS_USES_HOST_PAGE_TABLES'', 100),
     (''CU_DEVICE_ATTRIBUTE_DIRECT_MANAGED_MEM_ACCESS_FROM_HOST'', 101),
     (''CU_DEVICE_ATTRIBUTE_VIRTUAL_ADDRESS_MANAGEMENT_SUPPORTED'', 102),
     (''CU_DEVICE_ATTRIBUTE_VIRTUAL_MEMORY_MANAGEMENT_SUPPORTED'', 102),
     (''CU_DEVICE_ATTRIBUTE_HANDLE_TYPE_POSIX_FILE_DESCRIPTOR_SUPPORTED'', 103),
     (''CU_DEVICE_ATTRIBUTE_HANDLE_TYPE_WIN32_HANDLE_SUPPORTED'', 104),
     (''CU_DEVICE_ATTRIBUTE_HANDLE_TYPE_WIN32_KMT_HANDLE_SUPPORTED'', 105),
     (''CU_DEVICE_ATTRIBUTE_MAX_BLOCKS_PER_MULTIPROCESSOR'', 106),
     (''CU_DEVICE_ATTRIBUTE_GENERIC_COMPRESSION_SUPPORTED'', 107),
     (''CU_DEVICE_ATTRIBUTE_MAX_PERSISTING_L2_CACHE_SIZE'', 108),
     (''CU_DEVICE_ATTRIBUTE_MAX_ACCESS_POLICY_WINDOW_SIZE'', 109),
     (''CU_DEVICE_ATTRIBUTE_GPU_DIRECT_RDMA_WITH_CUDA_VMM_SUPPORTED'', 110),
     (''CU_DEVICE_ATTRIBUTE_RESERVED_SHARED_MEMORY_PER_BLOCK'', 111),
     (''CU_DEVICE_ATTRIBUTE_SPARSE_CUDA_ARRAY_SUPPORTED'', 112),
     (''CU_DEVICE_ATTRIBUTE_READ_ONLY_HOST_REGISTER_SUPPORTED'', 113),
     (''CU_DEVICE_ATTRIBUTE_TIMELINE_SEMAPHORE_INTEROP_SUPPORTED'', 114),
     (''CU_DEVICE_ATTRIBUTE_MEMORY_POOLS_SUPPORTED'', 115),
     (''CU_DEVICE_ATTRIBUTE_GPU_DIRECT_RDMA_SUPPORTED'', 116),
     (''CU_DEVICE_ATTRIBUTE_GPU_DIRECT_RDMA_FLUSH_WRITES_OPTIONS'', 117),
     (''CU_DEVICE_ATTRIBUTE_GPU_DIRECT_RDMA_WRITES_ORDERING'', 118),
     (''CU_DEVICE_ATTRIBUTE_MEMPOOL_SUPPORTED_HANDLE_TYPES'', 119),
     (''CU_DEVICE_ATTRIBUTE_MAX'', 120)]"
  by (rule elaborate_simple [THEN trans], simp_all add: CUdevice_attribute_h_def)

lemma CUdevice_attribute_conflicts [abi_conflicts]: "conflicts CUdevice_attribute CUdevice_attribute_h = [(''CU_DEVICE_ATTRIBUTE_MAX'', 98)]"
proof (rule conflicts_one [OF CUdevice_attribute_values CUdevice_attribute_h_values])
qed ((rule list_emb_Nil | rule subseq_keep | rule list_emb_Cons)+, simp, (rule list_emb_Nil | rule subseq_keep | rule list_emb_Cons)+)

lemma CUdevice_P2PAttribute_conflicts [abi_conflicts]: "conflicts CUdevice_P2PAttribute CUdevice_P2PAttribute_h = []"
proof (rule conflicts_subseq)
  show "subseq CUdevice_P2PAttribute CUdevice_P2PAttribute_h" unfolding CUdevice_P2PAttribute_def CUdevice_P2PAttribute_h_def
    by (rule list_emb_Nil | rule subseq_keep | rule list_emb_Cons)+
  show "list_all explicit CUdevice_P2PAttribute_h" by (simp add: CUdevice_P2PAttribute_h_def)
qed

lemma CUlimit_values:
  "elaborate [] CUlimit = Some
    ([(''CU_LIMIT_STACK_SIZE'', 0),
     (''CU_LIMIT_PRINTF_FIFO_SIZE'', 1),
     (''CU_LIMIT_MALLOC_HEAP_SIZE'', 2),
     (''CU_LIMIT_DEV_RUNTIME_SYNC_DEPTH'', 3),
     (''CU_LIMIT_DEV_RUNTIME_PENDING_LAUNCH_COUNT'', 4)] @ (''CU_LIMIT_MAX'', 5) # [])"
  by (rule elaborate_simple [THEN trans], simp_all add: CUlimit_def)

lemma CUlimit_h_values:
  "elaborate [] CUlimit_h = Some
    [(''CU_LIMIT_STACK_SIZE'', 0),
     (''CU_LIMIT_PRINTF_FIFO_SIZE'', 1),
     (''CU_LIMIT_MALLOC_HEAP_SIZE'', 2),
     (''CU_LIMIT_DEV_RUNTIME_SYNC_DEPTH'', 3),
     (''CU_LIMIT_DEV_RUNTIME_PENDING_LAUNCH_COUNT'', 4),
     (''CU_LIMIT_MAX_L2_FETCH_GRANULARITY'', 5),
     (''CU_LIMIT_PERSISTING_L2_CACHE_SIZE'', 6),
     (''CU_LIMIT_MAX'', 7)]"
  by (rule elaborate_simple [THEN trans], simp_all add: CUlimit_h_def)

lemma CUlimit_conflicts [abi_conflicts]: "conflicts CUlimit CUlimit_h = [(''CU_LIMIT_MAX'', 5)]"
proof (rule conflicts_one [OF CUlimit_values CUlimit_h_values])
qed ((rule list_emb_Nil | rule subseq_keep | rule list_emb_Cons)+, simp, (rule list_emb_Nil | rule subseq_keep | rule list_emb_Cons)+)

lemma CUfunc_cache_conflicts [abi_conflicts]: "conflicts CUfunc_cache CUfunc_cache_h = []"
proof -
  have "CUfunc_cache = CUfunc_cache_h" unfolding CUfunc_cache_def CUfunc_cache_h_def by (rule refl)
  then show ?thesis by simp
qed

lemma CUsharedconfig_conflicts [abi_conflicts]: "conflicts CUsharedconfig CUsharedconfig_h = []"
proof -
  have "CUsharedconfig = CUsharedconfig_h" unfolding CUsharedconfig_def CUsharedconfig_h_def by (rule refl)
  then show ?thesis by simp
qed

lemma CUjit_option_values:
  "elaborate [] CUjit_option = Some
    ([(''CU_JIT_MAX_REGISTERS'', 0),
     (''CU_JIT_THREADS_PER_BLOCK'', 1),
     (''CU_JIT_WALL_TIME'', 2),
     (''CU_JIT_INFO_LOG_BUFFER'', 3),
     (''CU_JIT_INFO_LOG_BUFFER_SIZE_BYTES'', 4),
     (''CU_JIT_ERROR_LOG_BUFFER'', 5),
     (''CU_JIT_ERROR_LOG_BUFFER_SIZE_BYTES'', 6),
     (''CU_JIT_OPTIMIZATION_LEVEL'', 7),
     (''CU_JIT_TARGET_FROM_CUCONTEXT'', 8),
     (''CU_JIT_TARGET'', 9),
     (''CU_JIT_FALLBACK_STRATEGY'', 10),
     (''CU_JIT_GENERATE_DEBUG_INFO'', 11),
     (''CU_JIT_LOG_VERBOSE'', 12),
     (''CU_JIT_GENERATE_LINE_INFO'', 13),
     (''CU_JIT_CACHE_MODE'', 14),
     (''CU_JIT_NEW_SM3X_OPT'', 15),
     (''CU_JIT_FAST_COMPILE'', 16)] @ (''CU_JIT_NUM_OPTIONS'', 17) # [])"
  by (rule elaborate_simple [THEN trans], simp_all add: CUjit_option_def)

lemma CUjit_option_h_values:
  "elaborate [] CUjit_option_h = Some
    [(''CU_JIT_MAX_REGISTERS'', 0),
     (''CU_JIT_THREADS_PER_BLOCK'', 1),
     (''CU_JIT_WALL_TIME'', 2),
     (''CU_JIT_INFO_LOG_BUFFER'', 3),
     (''CU_JIT_INFO_LOG_BUFFER_SIZE_BYTES'', 4),
     (''CU_JIT_ERROR_LOG_BUFFER'', 5),
     (''CU_JIT_ERROR_LOG_BUFFER_SIZE_BYTES'', 6),
     (''CU_JIT_OPTIMIZATION_LEVEL'', 7),
     (''CU_JIT_TARGET_FROM_CUCONTEXT'', 8),
     (''CU_JIT_TARGET'', 9),
     (''CU_JIT_FALLBACK_STRATEGY'', 10),
     (''CU_JIT_GENERATE_DEBUG_INFO'', 11),
     (''CU_JIT_LOG_VERBOSE'', 12),
     (''CU_JIT_GENERATE_LINE_INFO'', 13),
     (''CU_JIT_CACHE_MODE'', 14),
     (''CU_JIT_NEW_SM3X_OPT'', 15),
     (''CU_JIT_FAST_COMPILE'', 16),
     (''CU_JIT_GLOBAL_SYMBOL_NAMES'', 17),
     (''CU_JIT_GLOBAL_SYMBOL_ADDRESSES'', 18),
     (''CU_JIT_GLOBAL_SYMBOL_COUNT'', 19),
     (''CU_JIT_LTO'', 20),
     (''CU_JIT_FTZ'', 21),
     (''CU_JIT_PREC_DIV'', 22),
     (''CU_JIT_PREC_SQRT'', 23),
     (''CU_JIT_FMA'', 24),
     (''CU_JIT_NUM_OPTIONS'', 25)]"
  by (rule elaborate_simple [THEN trans], simp_all add: CUjit_option_h_def)

lemma CUjit_option_conflicts [abi_conflicts]: "conflicts CUjit_option CUjit_option_h = [(''CU_JIT_NUM_OPTIONS'', 17)]"
proof (rule conflicts_one [OF CUjit_option_values CUjit_option_h_values])
qed ((rule list_emb_Nil | rule subseq_keep | rule list_emb_Cons)+, simp, (rule list_emb_Nil | rule subseq_keep | rule list_emb_Cons)+)

lemma CUjitInputType_values:
  "elaborate [] CUjitInputType = Some
    ([(''CU_JIT_INPUT_CUBIN'', 0),
     (''CU_JIT_INPUT_PTX'', 1),
     (''CU_JIT_INPUT_FATBINARY'', 2),
     (''CU_JIT_INPUT_OBJECT'', 3),
     (''CU_JIT_INPUT_LIBRARY'', 4)] @ (''CU_JIT_NUM_INPUT_TYPES'', 5) # [])"
  by (rule elaborate_simple [THEN trans], simp_all add: CUjitInputType_def)

lemma CUjitInputType_h_values:
  "elaborate [] CUjitInputType_h = Some
    [(''CU_JIT_INPUT_CUBIN'', 0),
     (''CU_JIT_INPUT_PTX'', 1),
     (''CU_JIT_INPUT_FATBINARY'', 2),
     (''CU_JIT_INPUT_OBJECT'', 3),
     (''CU_JIT_INPUT_LIBRARY'', 4),
     (''CU_JIT_INPUT_NVVM'', 5),
     (''CU_JIT_NUM_INPUT_TYPES'', 6)]"
  by (rule elaborate_simple [THEN trans], simp_all add: CUjitInputType_h_def)

lemma CUjitInputType_conflicts [abi_conflicts]: "conflicts CUjitInputType CUjitInputType_h = [(''CU_JIT_NUM_INPUT_TYPES'', 5)]"
proof (rule conflicts_one [OF CUjitInputType_values CUjitInputType_h_values])
qed ((rule list_emb_Nil | rule subseq_keep | rule list_emb_Cons)+, simp, (rule list_emb_Nil | rule subseq_keep | rule list_emb_Cons)+)

lemma CUpointer_attribute_conflicts [abi_conflicts]: "conflicts CUpointer_attribute CUpointer_attribute_h = []"
proof (rule conflicts_subseq)
  show "subseq CUpointer_attribute CUpointer_attribute_h" unfolding CUpointer_attribute_def CUpointer_attribute_h_def
    by (rule list_emb_Nil | rule subseq_keep | rule list_emb_Cons)+
  show "list_all explicit CUpointer_attribute_h" by (simp add: CUpointer_attribute_h_def)
qed

lemma CUmemorytype_conflicts [abi_conflicts]: "conflicts CUmemorytype CUmemorytype_h = []"
proof -
  have "CUmemorytype = CUmemorytype_h" unfolding CUmemorytype_def CUmemorytype_h_def by (rule refl)
  then show ?thesis by simp
qed

lemma CUfunction_attribute_values:
  "elaborate [] CUfunction_attribute = Some
    ([(''CU_FUNC_ATTRIBUTE_MAX_THREADS_PER_BLOCK'', 0),
     (''CU_FUNC_ATTRIBUTE_SHARED_SIZE_BYTES'', 1),
     (''CU_FUNC_ATTRIBUTE_CONST_SIZE_BYTES'', 2),
     (''CU_FUNC_ATTRIBUTE_LOCAL_SIZE_BYTES'', 3),
     (''CU_FUNC_ATTRIBUTE_NUM_REGS'', 4),
     (''CU_FUNC_ATTRIBUTE_PTX_VERSION'', 5),
     (''CU_FUNC_ATTRIBUTE_BINARY_VERSION'', 6),
     (''CU_FUNC_ATTRIBUTE_CACHE_MODE_CA'', 7)] @ (''CU_FUNC_ATTRIBUTE_MAX'', 8) # [])"
  by (rule elaborate_simple [THEN trans], simp_all add: CUfunction_attribute_def)

lemma CUfunction_attribute_h_values:
  "elaborate [] CUfunction_attribute_h = Some
    [(''CU_FUNC_ATTRIBUTE_MAX_THREADS_PER_BLOCK'', 0),
     (''CU_FUNC_ATTRIBUTE_SHARED_SIZE_BYTES'', 1),
     (''CU_FUNC_ATTRIBUTE_CONST_SIZE_BYTES'', 2),
     (''CU_FUNC_ATTRIBUTE_LOCAL_SIZE_BYTES'', 3),
     (''CU_FUNC_ATTRIBUTE_NUM_REGS'', 4),
     (''CU_FUNC_ATTRIBUTE_PTX_VERSION'', 5),
     (''CU_FUNC_ATTRIBUTE_BINARY_VERSION'', 6),
     (''CU_FUNC_ATTRIBUTE_CACHE_MODE_CA'', 7),
     (''CU_FUNC_ATTRIBUTE_MAX_DYNAMIC_SHARED_SIZE_BYTES'', 8),
     (''CU_FUNC_ATTRIBUTE_PREFERRED_SHARED_MEMORY_CARVEOUT'', 9),
     (''CU_FUNC_ATTRIBUTE_MAX'', 10)]"
  by (rule elaborate_simple [THEN trans], simp_all add: CUfunction_attribute_h_def)

lemma CUfunction_attribute_conflicts [abi_conflicts]: "conflicts CUfunction_attribute CUfunction_attribute_h = [(''CU_FUNC_ATTRIBUTE_MAX'', 8)]"
proof (rule conflicts_one [OF CUfunction_attribute_values CUfunction_attribute_h_values])
qed ((rule list_emb_Nil | rule subseq_keep | rule list_emb_Cons)+, simp, (rule list_emb_Nil | rule subseq_keep | rule list_emb_Cons)+)

lemma CUarray_format_conflicts [abi_conflicts]: "conflicts CUarray_format CUarray_format_h = []"
proof (rule conflicts_subseq)
  show "subseq CUarray_format CUarray_format_h" unfolding CUarray_format_def CUarray_format_h_def
    by (rule list_emb_Nil | rule subseq_keep | rule list_emb_Cons)+
  show "list_all explicit CUarray_format_h" by (simp add: CUarray_format_h_def)
qed

lemma CUaddress_mode_conflicts [abi_conflicts]: "conflicts CUaddress_mode CUaddress_mode_h = []"
proof -
  have "CUaddress_mode = CUaddress_mode_h" unfolding CUaddress_mode_def CUaddress_mode_h_def by (rule refl)
  then show ?thesis by simp
qed

lemma CUfilter_mode_conflicts [abi_conflicts]: "conflicts CUfilter_mode CUfilter_mode_h = []"
proof -
  have "CUfilter_mode = CUfilter_mode_h" unfolding CUfilter_mode_def CUfilter_mode_h_def by (rule refl)
  then show ?thesis by simp
qed

lemma CUresourcetype_conflicts [abi_conflicts]: "conflicts CUresourcetype CUresourcetype_h = []"
proof -
  have "CUresourcetype = CUresourcetype_h" unfolding CUresourcetype_def CUresourcetype_h_def by (rule refl)
  then show ?thesis by simp
qed

lemma CUresourceViewFormat_conflicts [abi_conflicts]: "conflicts CUresourceViewFormat CUresourceViewFormat_h = []"
proof -
  have "CUresourceViewFormat = CUresourceViewFormat_h" unfolding CUresourceViewFormat_def CUresourceViewFormat_h_def by (rule refl)
  then show ?thesis by simp
qed

lemma CUstreamBatchMemOpType_conflicts [abi_conflicts]: "conflicts CUstreamBatchMemOpType CUstreamBatchMemOpType_h = []"
proof (rule conflicts_subseq)
  show "subseq CUstreamBatchMemOpType CUstreamBatchMemOpType_h" unfolding CUstreamBatchMemOpType_def CUstreamBatchMemOpType_h_def
    by (rule list_emb_Nil | rule subseq_keep | rule list_emb_Cons)+
  show "list_all explicit CUstreamBatchMemOpType_h" by (simp add: CUstreamBatchMemOpType_h_def)
qed

lemma CUmem_advise_conflicts [abi_conflicts]: "conflicts CUmem_advise CUmem_advise_h = []"
proof -
  have "CUmem_advise = CUmem_advise_h" unfolding CUmem_advise_def CUmem_advise_h_def by (rule refl)
  then show ?thesis by simp
qed

lemma CUmem_range_attribute_conflicts [abi_conflicts]: "conflicts CUmem_range_attribute CUmem_range_attribute_h = []"
proof -
  have "CUmem_range_attribute = CUmem_range_attribute_h" unfolding CUmem_range_attribute_def CUmem_range_attribute_h_def by (rule refl)
  then show ?thesis by simp
qed

lemma CUgraphNodeType_values:
  "elaborate [] CUgraphNodeType = Some
    ([(''CU_GRAPH_NODE_TYPE_KERNEL'', 0),
     (''CU_GRAPH_NODE_TYPE_MEMCPY'', 1),
     (''CU_GRAPH_NODE_TYPE_MEMSET'', 2),
     (''CU_GRAPH_NODE_TYPE_HOST'', 3),
     (''CU_GRAPH_NODE_TYPE_GRAPH'', 4),
     (''CU_GRAPH_NODE_TYPE_EMPTY'', 5)] @ (''CU_GRAPH_NODE_TYPE_COUNT'', 6) # [])"
  by (rule elaborate_simple [THEN trans], simp_all add: CUgraphNodeType_def)

lemma CUgraphNodeType_h_values:
  "elaborate [] CUgraphNodeType_h = Some
    [(''CU_GRAPH_NODE_TYPE_KERNEL'', 0),
     (''CU_GRAPH_NODE_TYPE_MEMCPY'', 1),
     (''CU_GRAPH_NODE_TYPE_MEMSET'', 2),
     (''CU_GRAPH_NODE_TYPE_HOST'', 3),
     (''CU_GRAPH_NODE_TYPE_GRAPH'', 4),
     (''CU_GRAPH_NODE_TYPE_EMPTY'', 5),
     (''CU_GRAPH_NODE_TYPE_WAIT_EVENT'', 6),
     (''CU_GRAPH_NODE_TYPE_EVENT_RECORD'', 7),
     (''CU_GRAPH_NODE_TYPE_EXT_SEMAS_SIGNAL'', 8),
     (''CU_GRAPH_NODE_TYPE_EXT_SEMAS_WAIT'', 9),
     (''CU_GRAPH_NODE_TYPE_MEM_ALLOC'', 10),
     (''CU_GRAPH_NODE_TYPE_MEM_FREE'', 11)]"
  by (rule elaborate_simple [THEN trans], simp_all add: CUgraphNodeType_h_def)

lemma CUgraphNodeType_conflicts [abi_conflicts]: "conflicts CUgraphNodeType CUgraphNodeType_h = [(''CU_GRAPH_NODE_TYPE_COUNT'', 6)]"
proof (rule conflicts_one [OF CUgraphNodeType_values CUgraphNodeType_h_values])
qed ((rule list_emb_Nil | rule subseq_keep | rule list_emb_Cons)+, simp, (rule list_emb_Nil | rule subseq_keep | rule list_emb_Cons)+)

lemma CUexternalMemoryHandleType_conflicts [abi_conflicts]: "conflicts CUexternalMemoryHandleType CUexternalMemoryHandleType_h = []"
proof (rule conflicts_subseq)
  show "subseq CUexternalMemoryHandleType CUexternalMemoryHandleType_h" unfolding CUexternalMemoryHandleType_def CUexternalMemoryHandleType_h_def
    by (rule list_emb_Nil | rule subseq_keep | rule list_emb_Cons)+
  show "list_all explicit CUexternalMemoryHandleType_h" by (simp add: CUexternalMemoryHandleType_h_def)
qed

lemma CUexternalSemaphoreHandleType_conflicts [abi_conflicts]: "conflicts CUexternalSemaphoreHandleType CUexternalSemaphoreHandleType_h = []"
proof (rule conflicts_subseq)
  show "subseq CUexternalSemaphoreHandleType CUexternalSemaphoreHandleType_h" unfolding CUexternalSemaphoreHandleType_def CUexternalSemaphoreHandleType_h_def
    by (rule list_emb_Nil | rule subseq_keep | rule list_emb_Cons)+
  show "list_all explicit CUexternalSemaphoreHandleType_h" by (simp add: CUexternalSemaphoreHandleType_h_def)
qed

lemma CUstreamCaptureMode_conflicts [abi_conflicts]: "conflicts CUstreamCaptureMode CUstreamCaptureMode_h = []"
proof -
  have "CUstreamCaptureMode = CUstreamCaptureMode_h" unfolding CUstreamCaptureMode_def CUstreamCaptureMode_h_def by (rule refl)
  then show ?thesis by simp
qed

lemma CUstreamCaptureStatus_conflicts [abi_conflicts]: "conflicts CUstreamCaptureStatus CUstreamCaptureStatus_h = []"
proof -
  have "CUstreamCaptureStatus = CUstreamCaptureStatus_h" unfolding CUstreamCaptureStatus_def CUstreamCaptureStatus_h_def by (rule refl)
  then show ?thesis by simp
qed

lemma CUgraphExecUpdateResult_conflicts [abi_conflicts]: "conflicts CUgraphExecUpdateResult CUgraphExecUpdateResult_h = []"
proof (rule conflicts_subseq)
  show "subseq CUgraphExecUpdateResult CUgraphExecUpdateResult_h" unfolding CUgraphExecUpdateResult_def CUgraphExecUpdateResult_h_def
    by (rule list_emb_Nil | rule subseq_keep | rule list_emb_Cons)+
  show "list_all explicit CUgraphExecUpdateResult_h" by (simp add: CUgraphExecUpdateResult_h_def)
qed

lemma CUmemAllocationType_values:
  "elaborate [] CUmemAllocationType = Some
    ([(''CU_MEM_ALLOCATION_TYPE_INVALID'', 0),
     (''CU_MEM_ALLOCATION_TYPE_PINNED'', 1)] @ (''CU_MEM_ALLOCATION_TYPE_MAX'', 4294967295) # [])"
  by (rule elaborate_simple [THEN trans], simp_all add: CUmemAllocationType_def)

lemma CUmemAllocationType_h_values:
  "elaborate [] CUmemAllocationType_h = Some
    [(''CU_MEM_ALLOCATION_TYPE_INVALID'', 0),
     (''CU_MEM_ALLOCATION_TYPE_PINNED'', 1),
     (''CU_MEM_ALLOCATION_TYPE_MAX'', 2147483647)]"
  by (rule elaborate_simple [THEN trans], simp_all add: CUmemAllocationType_h_def)

lemma CUmemAllocationType_conflicts [abi_conflicts]: "conflicts CUmemAllocationType CUmemAllocationType_h = [(''CU_MEM_ALLOCATION_TYPE_MAX'', 4294967295)]"
proof (rule conflicts_one [OF CUmemAllocationType_values CUmemAllocationType_h_values])
qed ((rule list_emb_Nil | rule subseq_keep | rule list_emb_Cons)+, simp, (rule list_emb_Nil | rule subseq_keep | rule list_emb_Cons)+)

lemma CUmemAllocationHandleType_values:
  "elaborate [] CUmemAllocationHandleType = Some
    ([(''CU_MEM_HANDLE_TYPE_POSIX_FILE_DESCRIPTOR'', 1),
     (''CU_MEM_HANDLE_TYPE_WIN32'', 2),
     (''CU_MEM_HANDLE_TYPE_WIN32_KMT'', 4)] @ (''CU_MEM_HANDLE_TYPE_MAX'', 4294967295) # [])"
  by (rule elaborate_simple [THEN trans], simp_all add: CUmemAllocationHandleType_def)

lemma CUmemAllocationHandleType_h_values:
  "elaborate [] CUmemAllocationHandleType_h = Some
    [(''CU_MEM_HANDLE_TYPE_NONE'', 0),
     (''CU_MEM_HANDLE_TYPE_POSIX_FILE_DESCRIPTOR'', 1),
     (''CU_MEM_HANDLE_TYPE_WIN32'', 2),
     (''CU_MEM_HANDLE_TYPE_WIN32_KMT'', 4),
     (''CU_MEM_HANDLE_TYPE_MAX'', 2147483647)]"
  by (rule elaborate_simple [THEN trans], simp_all add: CUmemAllocationHandleType_h_def)

lemma CUmemAllocationHandleType_conflicts [abi_conflicts]: "conflicts CUmemAllocationHandleType CUmemAllocationHandleType_h = [(''CU_MEM_HANDLE_TYPE_MAX'', 4294967295)]"
proof (rule conflicts_one [OF CUmemAllocationHandleType_values CUmemAllocationHandleType_h_values])
qed ((rule list_emb_Nil | rule subseq_keep | rule list_emb_Cons)+, simp, (rule list_emb_Nil | rule subseq_keep | rule list_emb_Cons)+)

lemma CUmemLocationType_values:
  "elaborate [] CUmemLocationType = Some
    ([(''CU_MEM_LOCATION_TYPE_INVALID'', 0),
     (''CU_MEM_LOCATION_TYPE_DEVICE'', 1)] @ (''CU_MEM_LOCATION_TYPE_MAX'', 4294967295) # [])"
  by (rule elaborate_simple [THEN trans], simp_all add: CUmemLocationType_def)

lemma CUmemLocationType_h_values:
  "elaborate [] CUmemLocationType_h = Some
    [(''CU_MEM_LOCATION_TYPE_INVALID'', 0),
     (''CU_MEM_LOCATION_TYPE_DEVICE'', 1),
     (''CU_MEM_LOCATION_TYPE_MAX'', 2147483647)]"
  by (rule elaborate_simple [THEN trans], simp_all add: CUmemLocationType_h_def)

lemma CUmemLocationType_conflicts [abi_conflicts]: "conflicts CUmemLocationType CUmemLocationType_h = [(''CU_MEM_LOCATION_TYPE_MAX'', 4294967295)]"
proof (rule conflicts_one [OF CUmemLocationType_values CUmemLocationType_h_values])
qed ((rule list_emb_Nil | rule subseq_keep | rule list_emb_Cons)+, simp, (rule list_emb_Nil | rule subseq_keep | rule list_emb_Cons)+)

lemma CUmemAllocationGranularity_flags_conflicts [abi_conflicts]: "conflicts CUmemAllocationGranularity_flags CUmemAllocationGranularity_flags_h = []"
proof -
  have "CUmemAllocationGranularity_flags = CUmemAllocationGranularity_flags_h" unfolding CUmemAllocationGranularity_flags_def CUmemAllocationGranularity_flags_h_def by (rule refl)
  then show ?thesis by simp
qed

lemma CUmemAccess_flags_values:
  "elaborate [] CUmemAccess_flags = Some
    ([(''CU_MEM_ACCESS_FLAGS_PROT_NONE'', 0),
     (''CU_MEM_ACCESS_FLAGS_PROT_READ'', 1),
     (''CU_MEM_ACCESS_FLAGS_PROT_READWRITE'', 3)] @ (''CU_MEM_ACCESS_FLAGS_PROT_MAX'', 4294967295) # [])"
  by (rule elaborate_simple [THEN trans], simp_all add: CUmemAccess_flags_def)

lemma CUmemAccess_flags_h_values:
  "elaborate [] CUmemAccess_flags_h = Some
    [(''CU_MEM_ACCESS_FLAGS_PROT_NONE'', 0),
     (''CU_MEM_ACCESS_FLAGS_PROT_READ'', 1),
     (''CU_MEM_ACCESS_FLAGS_PROT_READWRITE'', 3),
     (''CU_MEM_ACCESS_FLAGS_PROT_MAX'', 2147483647)]"
  by (rule elaborate_simple [THEN trans], simp_all add: CUmemAccess_flags_h_def)

lemma CUmemAccess_flags_conflicts [abi_conflicts]: "conflicts CUmemAccess_flags CUmemAccess_flags_h = [(''CU_MEM_ACCESS_FLAGS_PROT_MAX'', 4294967295)]"
proof (rule conflicts_one [OF CUmemAccess_flags_values CUmemAccess_flags_h_values])
qed ((rule list_emb_Nil | rule subseq_keep | rule list_emb_Cons)+, simp, (rule list_emb_Nil | rule subseq_keep | rule list_emb_Cons)+)

lemma CUkernelNodeAttrID_conflicts [abi_conflicts]: "conflicts CUkernelNodeAttrID CUkernelNodeAttrID_h = []"
proof -
  have "CUkernelNodeAttrID = CUkernelNodeAttrID_h" unfolding CUkernelNodeAttrID_def CUkernelNodeAttrID_h_def by (rule refl)
  then show ?thesis by simp
qed

lemma CUaccessProperty_conflicts [abi_conflicts]: "conflicts CUaccessProperty CUaccessProperty_h = []"
proof -
  have "CUaccessProperty = CUaccessProperty_h" unfolding CUaccessProperty_def CUaccessProperty_h_def by (rule refl)
  then show ?thesis by simp
qed

lemma CUstreamAttrID_conflicts [abi_conflicts]: "conflicts CUstreamAttrID CUstreamAttrID_h = []"
proof -
  have "CUstreamAttrID = CUstreamAttrID_h" unfolding CUstreamAttrID_def CUstreamAttrID_h_def by (rule refl)
  then show ?thesis by simp
qed

lemma CUsynchronizationPolicy_conflicts [abi_conflicts]: "conflicts CUsynchronizationPolicy CUsynchronizationPolicy_h = []"
proof -
  have "CUsynchronizationPolicy = CUsynchronizationPolicy_h" unfolding CUsynchronizationPolicy_def CUsynchronizationPolicy_h_def by (rule refl)
  then show ?thesis by simp
qed

lemma CUarraySparseSubresourceType_conflicts [abi_conflicts]: "conflicts CUarraySparseSubresourceType CUarraySparseSubresourceType_h = []"
proof -
  have "CUarraySparseSubresourceType = CUarraySparseSubresourceType_h" unfolding CUarraySparseSubresourceType_def CUarraySparseSubresourceType_h_def by (rule refl)
  then show ?thesis by simp
qed

lemma CUmemOperationType_conflicts [abi_conflicts]: "conflicts CUmemOperationType CUmemOperationType_h = []"
proof -
  have "CUmemOperationType = CUmemOperationType_h" unfolding CUmemOperationType_def CUmemOperationType_h_def by (rule refl)
  then show ?thesis by simp
qed

lemma CUmemHandleType_conflicts [abi_conflicts]: "conflicts CUmemHandleType CUmemHandleType_h = []"
proof -
  have "CUmemHandleType = CUmemHandleType_h" unfolding CUmemHandleType_def CUmemHandleType_h_def by (rule refl)
  then show ?thesis by simp
qed

lemma CUmemPool_attribute_conflicts [abi_conflicts]: "conflicts CUmemPool_attribute CUmemPool_attribute_h = []"
proof (rule conflicts_none)
  show "elaborate [] CUmemPool_attribute = Some
    [(''CU_MEMPOOL_ATTR_REUSE_FOLLOW_EVENT_DEPENDENCIES'', 1),
     (''CU_MEMPOOL_ATTR_REUSE_ALLOW_OPPORTUNISTIC'', 2),
     (''CU_MEMPOOL_ATTR_REUSE_ALLOW_INTERNAL_DEPENDENCIES'', 3),
     (''CU_MEMPOOL_ATTR_RELEASE_THRESHOLD'', 4)]"
    by (rule elaborate_simple [THEN trans], simp_all add: CUmemPool_attribute_def)
  show "elaborate [] CUmemPool_attribute_h = Some
    [(''CU_MEMPOOL_ATTR_REUSE_FOLLOW_EVENT_DEPENDENCIES'', 1),
     (''CU_MEMPOOL_ATTR_REUSE_ALLOW_OPPORTUNISTIC'', 2),
     (''CU_MEMPOOL_ATTR_REUSE_ALLOW_INTERNAL_DEPENDENCIES'', 3),
     (''CU_MEMPOOL_ATTR_RELEASE_THRESHOLD'', 4),
     (''CU_MEMPOOL_ATTR_RESERVED_MEM_CURRENT'', 5),
     (''CU_MEMPOOL_ATTR_RESERVED_MEM_HIGH'', 6),
     (''CU_MEMPOOL_ATTR_USED_MEM_CURRENT'', 7),
     (''CU_MEMPOOL_ATTR_USED_MEM_HIGH'', 8)]"
    by (rule elaborate_simple [THEN trans], simp_all add: CUmemPool_attribute_h_def)
qed (rule list_emb_Nil | rule subseq_keep | rule list_emb_Cons)+

lemma CUexecAffinityType_conflicts [abi_conflicts]: "conflicts CUexecAffinityType CUexecAffinityType_h = []"
proof -
  have "CUexecAffinityType = CUexecAffinityType_h" unfolding CUexecAffinityType_def CUexecAffinityType_h_def by (rule refl)
  then show ?thesis by simp
qed

lemma CUgraphMem_attribute_conflicts [abi_conflicts]: "conflicts CUgraphMem_attribute CUgraphMem_attribute_h = []"
proof -
  have "CUgraphMem_attribute = CUgraphMem_attribute_h" unfolding CUgraphMem_attribute_def CUgraphMem_attribute_h_def by (rule refl)
  then show ?thesis by simp
qed

lemma CUflushGPUDirectRDMAWritesTarget_conflicts [abi_conflicts]: "conflicts CUflushGPUDirectRDMAWritesTarget CUflushGPUDirectRDMAWritesTarget_h = []"
proof -
  have "CUflushGPUDirectRDMAWritesTarget = CUflushGPUDirectRDMAWritesTarget_h" unfolding CUflushGPUDirectRDMAWritesTarget_def CUflushGPUDirectRDMAWritesTarget_h_def by (rule refl)
  then show ?thesis by simp
qed

lemma CUflushGPUDirectRDMAWritesScope_conflicts [abi_conflicts]: "conflicts CUflushGPUDirectRDMAWritesScope CUflushGPUDirectRDMAWritesScope_h = []"
proof -
  have "CUflushGPUDirectRDMAWritesScope = CUflushGPUDirectRDMAWritesScope_h" unfolding CUflushGPUDirectRDMAWritesScope_def CUflushGPUDirectRDMAWritesScope_h_def by (rule refl)
  then show ?thesis by simp
qed

lemma cuda_conflicts:
  "concat (map (\<lambda>(ours, theirs). conflicts ours theirs) cuda_pairs) =
    [(''CU_DEVICE_ATTRIBUTE_MAX'', 98),
     (''CU_LIMIT_MAX'', 5),
     (''CU_JIT_NUM_OPTIONS'', 17),
     (''CU_JIT_NUM_INPUT_TYPES'', 5),
     (''CU_FUNC_ATTRIBUTE_MAX'', 8),
     (''CU_GRAPH_NODE_TYPE_COUNT'', 6),
     (''CU_MEM_ALLOCATION_TYPE_MAX'', 4294967295),
     (''CU_MEM_HANDLE_TYPE_MAX'', 4294967295),
     (''CU_MEM_LOCATION_TYPE_MAX'', 4294967295),
     (''CU_MEM_ACCESS_FLAGS_PROT_MAX'', 4294967295)]"
  by (simp add: cuda_pairs_def abi_conflicts)

end
