(* ===== verification/Abi_Cudart.thy ===== *)
theory Abi_Cudart
  imports C_Enum
begin

text \<open>
  The enumerations of \<open>src/cudart/cudart_subset.h\<close>.
\<close>

section \<open>\<open>cudart_subset.h\<close>\<close>

definition cudaError :: enum_decl where
  "cudaError =
    [(''cudaSuccess'', Some (Lit 0)),
     (''cudaErrorInvalidValue'', Some (Lit 1)),
     (''cudaErrorMemoryAllocation'', Some (Lit 2)),
     (''cudaErrorInitializationError'', Some (Lit 3)),
     (''cudaErrorCudartUnloading'', Some (Lit 4)),
     (''cudaErrorProfilerDisabled'', Some (Lit 5)),
     (''cudaErrorProfilerNotInitialized'', Some (Lit 6)),
     (''cudaErrorProfilerAlreadyStarted'', Some (Lit 7)),
     (''cudaErrorProfilerAlreadyStopped'', Some (Lit 8)),
     (''cudaErrorInvalidConfiguration'', Some (Lit 9)),
     (''cudaErrorInvalidPitchValue'', Some (Lit 12)),
     (''cudaErrorInvalidSymbol'', Some (Lit 13)),
     (''cudaErrorInvalidHostPointer'', Some (Lit 16)),
     (''cudaErrorInvalidDevicePointer'', Some (Lit 17)),
     (''cudaErrorInvalidTexture'', Some (Lit 18)),
     (''cudaErrorInvalidTextureBinding'', Some (Lit 19)),
     (''cudaErrorInvalidChannelDescriptor'', Some (Lit 20)),
     (''cudaErrorInvalidMemcpyDirection'', Some (Lit 21)),
     (''cudaErrorAddressOfConstant'', Some (Lit 22)),
     (''cudaErrorTextureFetchFailed'', Some (Lit 23)),
     (''cudaErrorTextureNotBound'', Some (Lit 24)),
     (''cudaErrorSynchronizationError'', Some (Lit 25)),
     (''cudaErrorInvalidFilterSetting'', Some (Lit 26)),
     (''cudaErrorInvalidNormSetting'', Some (Lit 27)),
     (''cudaErrorMixedDeviceExecution'', Some (Lit 28)),
     (''cudaErrorNotYetImplemented'', Some (Lit 31)),
     (''cudaErrorMemoryValueTooLarge'', Some (Lit 32)),
     (''cudaErrorStubLibrary'', Some (Lit 34)),
     (''cudaErrorInsufficientDriver'', Some (Lit 35)),
     (''cudaErrorCallRequiresNewerDriver'', Some (Lit 36)),
     (''cudaErrorInvalidSurface'', Some (Lit 37)),
     (''cudaErrorDuplicateVariableName'', Some (Lit 43)),
     (''cudaErrorDuplicateTextureName'', Some (Lit 44)),
     (''cudaErrorDuplicateSurfaceName'', Some (Lit 45)),
     (''cudaErrorDevicesUnavailable'', Some (Lit 46)),
     (''cudaErrorIncompatibleDriverContext'', Some (Lit 49)),
     (''cudaErrorMissingConfiguration'', Some (Lit 52)),
     (''cudaErrorPriorLaunchFailure'', Some (Lit 53)),
     (''cudaErrorLaunchMaxDepthExceeded'', Some (Lit 65)),
     (''cudaErrorLaunchFileScopedTex'', Some (Lit 66)),
     (''cudaErrorLaunchFileScopedSurf'', Some (Lit 67)),
     (''cudaErrorSyncDepthExceeded'', Some (Lit 68)),
     (''cudaErrorLaunchPendingCountExceeded'', Some (Lit 69)),
     (''cudaErrorInvalidDeviceFunction'', Some (Lit 98)),
     (''cudaErrorNoDevice'', Some (Lit 100)),
     (''cudaErrorInvalidDevice'', Some (Lit 101)),
     (''cudaErrorDeviceNotLicensed'', Some (Lit 102)),
     (''cudaErrorSoftwareValidityNotEstablished'', Some (Lit 103)),
     (''cudaErrorStartupFailure'', Some (Lit 127)),
     (''cudaErrorInvalidKernelImage'', Some (Lit 200)),
     (''cudaErrorDeviceUninitialized'', Some (Lit 201)),
     (''cudaErrorMapBufferObjectFailed'', Some (Lit 205)),
     (''cudaErrorUnmapBufferObjectFailed'', Some (Lit 206)),
     (''cudaErrorArrayIsMapped'', Some (Lit 207)),
     (''cudaErrorAlreadyMapped'', Some (Lit 208)),
     (''cudaErrorNoKernelImageForDevice'', Some (Lit 209)),
     (''cudaErrorAlreadyAcquired'', Some (Lit 210)),
     (''cudaErrorNotMapped'', Some (Lit 211)),
     (''cudaErrorNotMappedAsArray'', Some (Lit 212)),
     (''cudaErrorNotMappedAsPointer'', Some (Lit 213)),
     (''cudaErrorECCUncorrectable'', Some (Lit 214)),
     (''cudaErrorUnsupportedLimit'', Some (Lit 215)),
     (''cudaErrorDeviceAlreadyInUse'', Some (Lit 216)),
     (''cudaErrorPeerAccessUnsupported'', Some (Lit 217)),
     (''cudaErrorInvalidPtx'', Some (Lit 218)),
     (''cudaErrorInvalidGraphicsContext'', Some (Lit 219)),
     (''cudaErrorNvlinkUncorrectable'', Some (Lit 220)),
     (''cudaErrorJitCompilerNotFound'', Some (Lit 221)),
     (''cudaErrorUnsupportedPtxVersion'', Some (Lit 222)),
     (''cudaErrorJitCompilationDisabled'', Some (Lit 223)),
     (''cudaErrorUnsupportedExecAffinity'', Some (Lit 224)),
     (''cudaErrorInvalidSource'', Some (Lit 300)),
     (''cudaErrorFileNotFound'', Some (Lit 301)),
     (''cudaErrorSharedObjectSymbolNotFound'', Some (Lit 302)),
     (''cudaErrorSharedObjectInitFailed'', Some (Lit 303)),
     (''cudaErrorOperatingSystem'', Some (Lit 304)),
     (''cudaErrorInvalidResourceHandle'', Some (Lit 400)),
     (''cudaErrorIllegalState'', Some (Lit 401)),
     (''cudaErrorSymbolNotFound'', Some (Lit 500)),
     (''cudaErrorNotReady'', Some (Lit 600)),
     (''cudaErrorIllegalAddress'', Some (Lit 700)),
     (''cudaErrorLaunchOutOfResources'', Some (Lit 701)),
     (''cudaErrorLaunchTimeout'', Some (Lit 702)),
     (''cudaErrorLaunchIncompatibleTexturing'', Some (Lit 703)),
     (''cudaErrorPeerAccessAlreadyEnabled'', Some (Lit 704)),
     (''cudaErrorPeerAccessNotEnabled'', Some (Lit 705)),
     (''cudaErrorSetOnActiveProcess'', Some (Lit 708)),
     (''cudaErrorContextIsDestroyed'', Some (Lit 709)),
     (''cudaErrorAssert'', Some (Lit 710)),
     (''cudaErrorTooManyPeers'', Some (Lit 711)),
     (''cudaErrorHostMemoryAlreadyRegistered'', Some (Lit 712)),
     (''cudaErrorHostMemoryNotRegistered'', Some (Lit 713)),
     (''cudaErrorHardwareStackError'', Some (Lit 714)),
     (''cudaErrorIllegalInstruction'', Some (Lit 715)),
     (''cudaErrorMisalignedAddress'', Some (Lit 716)),
     (''cudaErrorInvalidAddressSpace'', Some (Lit 717)),
     (''cudaErrorInvalidPc'', Some (Lit 718)),
     (''cudaErrorLaunchFailure'', Some (Lit 719)),
     (''cudaErrorCooperativeLaunchTooLarge'', Some (Lit 720)),
     (''cudaErrorNotPermitted'', Some (Lit 800)),
     (''cudaErrorNotSupported'', Some (Lit 801)),
     (''cudaErrorSystemNotReady'', Some (Lit 802)),
     (''cudaErrorSystemDriverMismatch'', Some (Lit 803)),
     (''cudaErrorCompatNotSupportedOnDevice'', Some (Lit 804)),
     (''cudaErrorMpsConnectionFailed'', Some (Lit 805)),
     (''cudaErrorMpsRpcFailure'', Some (Lit 806)),
     (''cudaErrorMpsServerNotReady'', Some (Lit 807)),
     (''cudaErrorMpsMaxClientsReached'', Some (Lit 808)),
     (''cudaErrorMpsMaxConnectionsReached'', Some (Lit 809)),
     (''cudaErrorStreamCaptureUnsupported'', Some (Lit 900)),
     (''cudaErrorStreamCaptureInvalidated'', Some (Lit 901)),
     (''cudaErrorStreamCaptureMerge'', Some (Lit 902)),
     (''cudaErrorStreamCaptureUnmatched'', Some (Lit 903)),
     (''cudaErrorStreamCaptureUnjoined'', Some (Lit 904)),
     (''cudaErrorStreamCaptureIsolation'', Some (Lit 905)),
     (''cudaErrorStreamCaptureImplicit'', Some (Lit 906)),
     (''cudaErrorCapturedEvent'', Some (Lit 907)),
     (''cudaErrorStreamCaptureWrongThread'', Some (Lit 908)),
     (''cudaErrorTimeout'', Some (Lit 909)),
     (''cudaErrorGraphExecUpdateFailure'', Some (Lit 910)),
     (''cudaErrorExternalDevice'', Some (Lit 911)),
     (''cudaErrorUnknown'', Some (Lit 999)),
     (''cudaErrorApiFailureBase'', Some (Lit 10000))]"

definition cudaChannelFormatKind :: enum_decl where
  "cudaChannelFormatKind =
    [(''cudaChannelFormatKindSigned'', Some (Lit 0)),
     (''cudaChannelFormatKindUnsigned'', Some (Lit 1)),
     (''cudaChannelFormatKindFloat'', Some (Lit 2)),
     (''cudaChannelFormatKindNone'', Some (Lit 3)),
     (''cudaChannelFormatKindNV12'', Some (Lit 4))]"

definition cudaMemoryType :: enum_decl where
  "cudaMemoryType =
    [(''cudaMemoryTypeUnregistered'', Some (Lit 0)),
     (''cudaMemoryTypeHost'', Some (Lit 1)),
     (''cudaMemoryTypeDevice'', Some (Lit 2)),
     (''cudaMemoryTypeManaged'', Some (Lit 3))]"

definition cudaMemcpyKind :: enum_decl where
  "cudaMemcpyKind =
    [(''cudaMemcpyHostToHost'', Some (Lit 0)),
     (''cudaMemcpyHostToDevice'', Some (Lit 1)),
     (''cudaMemcpyDeviceToHost'', Some (Lit 2)),
     (''cudaMemcpyDeviceToDevice'', Some (Lit 3)),
     (''cudaMemcpyDefault'', Some (Lit 4))]"

definition cudaAccessProperty :: enum_decl where
  "cudaAccessProperty =
    [(''cudaAccessPropertyNormal'', Some (Lit 0)),
     (''cudaAccessPropertyStreaming'', Some (Lit 1)),
     (''cudaAccessPropertyPersisting'', Some (Lit 2))]"

definition cudaStreamCaptureStatus :: enum_decl where
  "cudaStreamCaptureStatus =
    [(''cudaStreamCaptureStatusNone'', Some (Lit 0)),
     (''cudaStreamCaptureStatusActive'', Some (Lit 1)),
     (''cudaStreamCaptureStatusInvalidated'', Some (Lit 2))]"

definition cudaStreamCaptureMode :: enum_decl where
  "cudaStreamCaptureMode =
    [(''cudaStreamCaptureModeGlobal'', Some (Lit 0)),
     (''cudaStreamCaptureModeThreadLocal'', Some (Lit 1)),
     (''cudaStreamCaptureModeRelaxed'', Some (Lit 2))]"

definition cudaSynchronizationPolicy :: enum_decl where
  "cudaSynchronizationPolicy =
    [(''cudaSyncPolicyAuto'', Some (Lit 1)),
     (''cudaSyncPolicySpin'', Some (Lit 2)),
     (''cudaSyncPolicyYield'', Some (Lit 3)),
     (''cudaSyncPolicyBlockingSync'', Some (Lit 4))]"

definition cudaStreamAttrID :: enum_decl where
  "cudaStreamAttrID =
    [(''cudaStreamAttributeAccessPolicyWindow'', Some (Lit 1)),
     (''cudaStreamAttributeSynchronizationPolicy'', Some (Lit 3))]"

definition cudaStreamUpdateCaptureDependenciesFlags :: enum_decl where
  "cudaStreamUpdateCaptureDependenciesFlags =
    [(''cudaStreamAddCaptureDependencies'', Some (Lit 0x0)),
     (''cudaStreamSetCaptureDependencies'', Some (Lit 0x1))]"

definition cudaUserObjectFlags :: enum_decl where
  "cudaUserObjectFlags =
    [(''cudaUserObjectNoDestructorSync'', Some (Lit 0x1))]"

definition cudaUserObjectRetainFlags :: enum_decl where
  "cudaUserObjectRetainFlags =
    [(''cudaGraphUserObjectMove'', Some (Lit 0x1))]"

definition cudaGraphicsRegisterFlags :: enum_decl where
  "cudaGraphicsRegisterFlags =
    [(''cudaGraphicsRegisterFlagsNone'', Some (Lit 0)),
     (''cudaGraphicsRegisterFlagsReadOnly'', Some (Lit 1)),
     (''cudaGraphicsRegisterFlagsWriteDiscard'', Some (Lit 2)),
     (''cudaGraphicsRegisterFlagsSurfaceLoadStore'', Some (Lit 4)),
     (''cudaGraphicsRegisterFlagsTextureGather'', Some (Lit 8))]"

definition cudaGraphicsMapFlags :: enum_decl where
  "cudaGraphicsMapFlags =
    [(''cudaGraphicsMapFlagsNone'', Some (Lit 0)),
     (''cudaGraphicsMapFlagsReadOnly'', Some (Lit 1)),
     (''cudaGraphicsMapFlagsWriteDiscard'', Some (Lit 2))]"

definition cudaGraphicsCubeFace :: enum_decl where
  "cudaGraphicsCubeFace =
    [(''cudaGraphicsCubeFacePositiveX'', Some (Lit 0x00)),
     (''cudaGraphicsCubeFaceNegativeX'', Some (Lit 0x01)),
     (''cudaGraphicsCubeFacePositiveY'', Some (Lit 0x02)),
     (''cudaGraphicsCubeFaceNegativeY'', Some (Lit 0x03)),
     (''cudaGraphicsCubeFacePositiveZ'', Some (Lit 0x04)),
     (''cudaGraphicsCubeFaceNegativeZ'', Some (Lit 0x05))]"

definition cudaKernelNodeAttrID :: enum_decl where
  "cudaKernelNodeAttrID =
    [(''cudaKernelNodeAttributeAccessPolicyWindow'', Some (Lit 1)),
     (''cudaKernelNodeAttributeCooperative'', Some (Lit 2))]"

definition cudaResourceType :: enum_decl where
  "cudaResourceType =
    [(''cudaResourceTypeArray'', Some (Lit 0x00)),
     (''cudaResourceTypeMipmappedArray'', Some (Lit 0x01)),
     (''cudaResourceTypeLinear'', Some (Lit 0x02)),
     (''cudaResourceTypePitch2D'', Some (Lit 0x03))]"

definition cudaResourceViewFormat :: enum_decl where
  "cudaResourceViewFormat =
    [(''cudaResViewFormatNone'', Some (Lit 0x00)),
     (''cudaResViewFormatUnsignedChar1'', Some (Lit 0x01)),
     (''cudaResViewFormatUnsignedChar2'', Some (Lit 0x02)),
     (''cudaResViewFormatUnsignedChar4'', Some (Lit 0x03)),
     (''cudaResViewFormatSignedChar1'', Some (Lit 0x04)),
     (''cudaResViewFormatSignedChar2'', Some (Lit 0x05)),
     (''cudaResViewFormatSignedChar4'', Some (Lit 0x06)),
     (''cudaResViewFormatUnsignedShort1'', Some (Lit 0x07)),
     (''cudaResViewFormatUnsignedShort2'', Some (Lit 0x08)),
     (''cudaResViewFormatUnsignedShort4'', Some (Lit 0x09)),
     (''cudaResViewFormatSignedShort1'', Some (Lit 0x0a)),
     (''cudaResViewFormatSignedShort2'', Some (Lit 0x0b)),
     (''cudaResViewFormatSignedShort4'', Some (Lit 0x0c)),
     (''cudaResViewFormatUnsignedInt1'', Some (Lit 0x0d)),
     (''cudaResViewFormatUnsignedInt2'', Some (Lit 0x0e)),
     (''cudaResViewFormatUnsignedInt4'', Some (Lit 0x0f)),
     (''cudaResViewFormatSignedInt1'', Some (Lit 0x10)),
     (''cudaResViewFormatSignedInt2'', Some (Lit 0x11)),
     (''cudaResViewFormatSignedInt4'', Some (Lit 0x12)),
     (''cudaResViewFormatHalf1'', Some (Lit 0x13)),
     (''cudaResViewFormatHalf2'', Some (Lit 0x14)),
     (''cudaResViewFormatHalf4'', Some (Lit 0x15)),
     (''cudaResViewFormatFloat1'', Some (Lit 0x16)),
     (''cudaResViewFormatFloat2'', Some (Lit 0x17)),
     (''cudaResViewFormatFloat4'', Some (Lit 0x18)),
     (''cudaResViewFormatUnsignedBlockCompressed1'', Some (Lit 0x19)),
     (''cudaResViewFormatUnsignedBlockCompressed2'', Some (Lit 0x1a)),
     (''cudaResViewFormatUnsignedBlockCompressed3'', Some (Lit 0x1b)),
     (''cudaResViewFormatUnsignedBlockCompressed4'', Some (Lit 0x1c)),
     (''cudaResViewFormatSignedBlockCompressed4'', Some (Lit 0x1d)),
     (''cudaResViewFormatUnsignedBlockCompressed5'', Some (Lit 0x1e)),
     (''cudaResViewFormatSignedBlockCompressed5'', Some (Lit 0x1f)),
     (''cudaResViewFormatUnsignedBlockCompressed6H'', Some (Lit 0x20)),
     (''cudaResViewFormatSignedBlockCompressed6H'', Some (Lit 0x21)),
     (''cudaResViewFormatUnsignedBlockCompressed7'', Some (Lit 0x22))]"

definition cudaFuncAttribute :: enum_decl where
  "cudaFuncAttribute =
    [(''cudaFuncAttributeMaxDynamicSharedMemorySize'', Some (Lit 8)),
     (''cudaFuncAttributePreferredSharedMemoryCarveout'', Some (Lit 9)),
     (''cudaFuncAttributeMax'', None)]"

definition cudaFuncCache :: enum_decl where
  "cudaFuncCache =
    [(''cudaFuncCachePreferNone'', Some (Lit 0)),
     (''cudaFuncCachePreferShared'', Some (Lit 1)),
     (''cudaFuncCachePreferL1'', Some (Lit 2)),
     (''cudaFuncCachePreferEqual'', Some (Lit 3))]"

definition cudaSharedMemConfig :: enum_decl where
  "cudaSharedMemConfig =
    [(''cudaSharedMemBankSizeDefault'', Some (Lit 0)),
     (''cudaSharedMemBankSizeFourByte'', Some (Lit 1)),
     (''cudaSharedMemBankSizeEightByte'', Some (Lit 2))]"

definition cudaSharedCarveout :: enum_decl where
  "cudaSharedCarveout =
    [(''cudaSharedmemCarveoutDefault'', Some (Lit (- 1))),
     (''cudaSharedmemCarveoutMaxShared'', Some (Lit 100)),
     (''cudaSharedmemCarveoutMaxL1'', Some (Lit 0))]"

definition cudaComputeMode :: enum_decl where
  "cudaComputeMode =
    [(''cudaComputeModeDefault'', Some (Lit 0)),
     (''cudaComputeModeExclusive'', Some (Lit 1)),
     (''cudaComputeModeProhibited'', Some (Lit 2)),
     (''cudaComputeModeExclusiveProcess'', Some (Lit 3))]"

definition cudaLimit :: enum_decl where
  "cudaLimit =
    [(''cudaLimitStackSize'', Some (Lit 0x00)),
     (''cudaLimitPrintfFifoSize'', Some (Lit 0x01)),
     (''cudaLimitMallocHeapSize'', Some (Lit 0x02)),
     (''cudaLimitDevRuntimeSyncDepth'', Some (Lit 0x03)),
     (''cudaLimitDevRuntimePendingLaunchCount'', Some (Lit 0x04)),
     (''cudaLimitMaxL2FetchGranularity'', Some (Lit 0x05)),
     (''cudaLimitPersistingL2CacheSize'', Some (Lit 0x06))]"

definition cudaMemoryAdvise :: enum_decl where
  "cudaMemoryAdvise =
    [(''cudaMemAdviseSetReadMostly'', Some (Lit 1)),
     (''cudaMemAdviseUnsetReadMostly'', Some (Lit 2)),
     (''cudaMemAdviseSetPreferredLocation'', Some (Lit 3)),
     (''cudaMemAdviseUnsetPreferredLocation'', Some (Lit 4)),
     (''cudaMemAdviseSetAccessedBy'', Some (Lit 5)),
     (''cudaMemAdviseUnsetAccessedBy'', Some (Lit 6))]"

definition cudaMemRangeAttribute :: enum_decl where
  "cudaMemRangeAttribute =
    [(''cudaMemRangeAttributeReadMostly'', Some (Lit 1)),
     (''cudaMemRangeAttributePreferredLocation'', Some (Lit 2)),
     (''cudaMemRangeAttributeAccessedBy'', Some (Lit 3)),
     (''cudaMemRangeAttributeLastPrefetchLocation'', Some (Lit 4))]"

definition cudaOutputMode :: enum_decl where
  "cudaOutputMode =
    [(''cudaKeyValuePair'', Some (Lit 0x00)),
     (''cudaCSV'', Some (Lit 0x01))]"

definition cudaFlushGPUDirectRDMAWritesOptions :: enum_decl where
  "cudaFlushGPUDirectRDMAWritesOptions =
    [(''cudaFlushGPUDirectRDMAWritesOptionHost'', Some (Shl (Lit 1) (Lit 0))),
     (''cudaFlushGPUDirectRDMAWritesOptionMemOps'', Some (Shl (Lit 1) (Lit 1)))]"

definition cudaGPUDirectRDMAWritesOrdering :: enum_decl where
  "cudaGPUDirectRDMAWritesOrdering =
    [(''cudaGPUDirectRDMAWritesOrderingNone'', Some (Lit 0)),
     (''cudaGPUDirectRDMAWritesOrderingOwner'', Some (Lit 100)),
     (''cudaGPUDirectRDMAWritesOrderingAllDevices'', Some (Lit 200))]"

definition cudaFlushGPUDirectRDMAWritesScope :: enum_decl where
  "cudaFlushGPUDirectRDMAWritesScope =
    [(''cudaFlushGPUDirectRDMAWritesToOwner'', Some (Lit 100)),
     (''cudaFlushGPUDirectRDMAWritesToAllDevices'', Some (Lit 200))]"

definition cudaFlushGPUDirectRDMAWritesTarget :: enum_decl where
  "cudaFlushGPUDirectRDMAWritesTarget =
    [(''cudaFlushGPUDirectRDMAWritesTargetCurrentDevice'', None)]"

definition cudaDeviceAttr :: enum_decl where
  "cudaDeviceAttr =
    [(''cudaDevAttrMaxThreadsPerBlock'', Some (Lit 1)),
     (''cudaDevAttrMaxBlockDimX'', Some (Lit 2)),
     (''cudaDevAttrMaxBlockDimY'', Some (Lit 3)),
     (''cudaDevAttrMaxBlockDimZ'', Some (Lit 4)),
     (''cudaDevAttrMaxGridDimX'', Some (Lit 5)),
     (''cudaDevAttrMaxGridDimY'', Some (Lit 6)),
     (''cudaDevAttrMaxGridDimZ'', Some (Lit 7)),
     (''cudaDevAttrMaxSharedMemoryPerBlock'', Some (Lit 8)),
     (''cudaDevAttrTotalConstantMemory'', Some (Lit 9)),
     (''cudaDevAttrWarpSize'', Some (Lit 10)),
     (''cudaDevAttrMaxPitch'', Some (Lit 11)),
     (''cudaDevAttrMaxRegistersPerBlock'', Some (Lit 12)),
     (''cudaDevAttrClockRate'', Some (Lit 13)),
     (''cudaDevAttrTextureAlignment'', Some (Lit 14)),
     (''cudaDevAttrGpuOverlap'', Some (Lit 15)),
     (''cudaDevAttrMultiProcessorCount'', Some (Lit 16)),
     (''cudaDevAttrKernelExecTimeout'', Some (Lit 17)),
     (''cudaDevAttrIntegrated'', Some (Lit 18)),
     (''cudaDevAttrCanMapHostMemory'', Some (Lit 19)),
     (''cudaDevAttrComputeMode'', Some (Lit 20)),
     (''cudaDevAttrMaxTexture1DWidth'', Some (Lit 21)),
     (''cudaDevAttrMaxTexture2DWidth'', Some (Lit 22)),
     (''cudaDevAttrMaxTexture2DHeight'', Some (Lit 23)),
     (''cudaDevAttrMaxTexture3DWidth'', Some (Lit 24)),
     (''cudaDevAttrMaxTexture3DHeight'', Some (Lit 25)),
     (''cudaDevAttrMaxTexture3DDepth'', Some (Lit 26)),
     (''cudaDevAttrMaxTexture2DLayeredWidth'', Some (Lit 27)),
     (''cudaDevAttrMaxTexture2DLayeredHeight'', Some (Lit 28)),
     (''cudaDevAttrMaxTexture2DLayeredLayers'', Some (Lit 29)),
     (''cudaDevAttrSurfaceAlignment'', Some (Lit 30)),
     (''cudaDevAttrConcurrentKernels'', Some (Lit 31)),
     (''cudaDevAttrEccEnabled'', Some (Lit 32)),
     (''cudaDevAttrPciBusId'', Some (Lit 33)),
     (''cudaDevAttrPciDeviceId'', Some (Lit 34)),
     (''cudaDevAttrTccDriver'', Some (Lit 35)),
     (''cudaDevAttrMemoryClockRate'', Some (Lit 36)),
     (''cudaDevAttrGlobalMemoryBusWidth'', Some (Lit 37)),
     (''cudaDevAttrL2CacheSize'', Some (Lit 38)),
     (''cudaDevAttrMaxThreadsPerMultiProcessor'', Some (Lit 39)),
     (''cudaDevAttrAsyncEngineCount'', Some (Lit 40)),
     (''cudaDevAttrUnifiedAddressing'', Some (Lit 41)),
     (''cudaDevAttrMaxTexture1DLayeredWidth'', Some (Lit 42)),
     (''cudaDevAttrMaxTexture1DLayeredLayers'', Some (Lit 43)),
     (''cudaDevAttrMaxTexture2DGatherWidth'', Some (Lit 45)),
     (''cudaDevAttrMaxTexture2DGatherHeight'', Some (Lit 46)),
     (''cudaDevAttrMaxTexture3DWidthAlt'', Some (Lit 47)),
     (''cudaDevAttrMaxTexture3DHeightAlt'', Some (Lit 48)),
     (''cudaDevAttrMaxTexture3DDepthAlt'', Some (Lit 49)),
     (''cudaDevAttrPciDomainId'', Some (Lit 50)),
     (''cudaDevAttrTexturePitchAlignment'', Some (Lit 51)),
     (''cudaDevAttrMaxTextureCubemapWidth'', Some (Lit 52)),
     (''cudaDevAttrMaxTextureCubemapLayeredWidth'', Some (Lit 53)),
     (''cudaDevAttrMaxTextureCubemapLayeredLayers'', Some (Lit 54)),
     (''cudaDevAttrMaxSurface1DWidth'', Some (Lit 55)),
     (''cudaDevAttrMaxSurface2DWidth'', Some (Lit 56)),
     (''cudaDevAttrMaxSurface2DHeight'', Some (Lit 57)),
     (''cudaDevAttrMaxSurface3DWidth'', Some (Lit 58)),
     (''cudaDevAttrMaxSurface3DHeight'', Some (Lit 59)),
     (''cudaDevAttrMaxSurface3DDepth'', Some (Lit 60)),
     (''cudaDevAttrMaxSurface1DLayeredWidth'', Some (Lit 61)),
     (''cudaDevAttrMaxSurface1DLayeredLayers'', Some (Lit 62)),
     (''cudaDevAttrMaxSurface2DLayeredWidth'', Some (Lit 63)),
     (''cudaDevAttrMaxSurface2DLayeredHeight'', Some (Lit 64)),
     (''cudaDevAttrMaxSurface2DLayeredLayers'', Some (Lit 65)),
     (''cudaDevAttrMaxSurfaceCubemapWidth'', Some (Lit 66)),
     (''cudaDevAttrMaxSurfaceCubemapLayeredWidth'', Some (Lit 67)),
     (''cudaDevAttrMaxSurfaceCubemapLayeredLayers'', Some (Lit 68)),
     (''cudaDevAttrMaxTexture1DLinearWidth'', Some (Lit 69)),
     (''cudaDevAttrMaxTexture2DLinearWidth'', Some (Lit 70)),
     (''cudaDevAttrMaxTexture2DLinearHeight'', Some (Lit 71)),
     (''cudaDevAttrMaxTexture2DLinearPitch'', Some (Lit 72)),
     (''cudaDevAttrMaxTexture2DMipmappedWidth'', Some (Lit 73)),
     (''cudaDevAttrMaxTexture2DMipmappedHeight'', Some (Lit 74)),
     (''cudaDevAttrComputeCapabilityMajor'', Some (Lit 75)),
     (''cudaDevAttrComputeCapabilityMinor'', Some (Lit 76)),
     (''cudaDevAttrMaxTexture1DMipmappedWidth'', Some (Lit 77)),
     (''cudaDevAttrStreamPrioritiesSupported'', Some (Lit 78)),
     (''cudaDevAttrGlobalL1CacheSupported'', Some (Lit 79)),
     (''cudaDevAttrLocalL1CacheSupported'', Some (Lit 80)),
     (''cudaDevAttrMaxSharedMemoryPerMultiprocessor'', Some (Lit 81)),
     (''cudaDevAttrMaxRegistersPerMultiprocessor'', Some (Lit 82)),
     (''cudaDevAttrManagedMemory'', Some (Lit 83)),
     (''cudaDevAttrIsMultiGpuBoard'', Some (Lit 84)),
     (''cudaDevAttrMultiGpuBoardGroupID'', Some (Lit 85)),
     (''cudaDevAttrHostNativeAtomicSupported'', Some (Lit 86)),
     (''cudaDevAttrSingleToDoublePrecisionPerfRatio'', Some (Lit 87)),
     (''cudaDevAttrPageableMemoryAccess'', Some (Lit 88)),
     (''cudaDevAttrConcurrentManagedAccess'', Some (Lit 89)),
     (''cudaDevAttrComputePreemptionSupported'', Some (Lit 90)),
     (''cudaDevAttrCanUseHostPointerForRegisteredMem'', Some (Lit 91)),
     (''cudaDevAttrReserved92'', Some (Lit 92)),
     (''cudaDevAttrReserved93'', Some (Lit 93)),
     (''cudaDevAttrReserved94'', Some (Lit 94)),
     (''cudaDevAttrCooperativeLaunch'', Some (Lit 95)),
     (''cudaDevAttrCooperativeMultiDeviceLaunch'', Some (Lit 96)),
     (''cudaDevAttrMaxSharedMemoryPerBlockOptin'', Some (Lit 97)),
     (''cudaDevAttrCanFlushRemoteWrites'', Some (Lit 98)),
     (''cudaDevAttrHostRegisterSupported'', Some (Lit 99)),
     (''cudaDevAttrPageableMemoryAccessUsesHostPageTables'', Some (Lit 100)),
     (''cudaDevAttrDirectManagedMemAccessFromHost'', Some (Lit 101)),
     (''cudaDevAttrMaxBlocksPerMultiprocessor'', Some (Lit 106)),
     (''cudaDevAttrMaxPersistingL2CacheSize'', Some (Lit 108)),
     (''cudaDevAttrMaxAccessPolicyWindowSize'', Some (Lit 109)),
     (''cudaDevAttrReservedSharedMemoryPerBlock'', Some (Lit 111)),
     (''cudaDevAttrSparseCudaArraySupported'', Some (Lit 112)),
     (''cudaDevAttrHostRegisterReadOnlySupported'', Some (Lit 113)),
     (''cudaDevAttrMaxTimelineSemaphoreInteropSupported'', Some (Lit 114)),
     (''cudaDevAttrMemoryPoolsSupported'', Some (Lit 115)),
     (''cudaDevAttrGPUDirectRDMASupported'', Some (Lit 116)),
     (''cudaDevAttrGPUDirectRDMAFlushWritesOptions'', Some (Lit 117)),
     (''cudaDevAttrGPUDirectRDMAWritesOrdering'', Some (Lit 118)),
     (''cudaDevAttrMemoryPoolSupportedHandleTypes'', Some (Lit 119)),
     (''cudaDevAttrMax'', None)]"

definition cudaMemPoolAttr :: enum_decl where
  "cudaMemPoolAttr =
    [(''cudaMemPoolReuseFollowEventDependencies'', Some (Lit 0x1)),
     (''cudaMemPoolReuseAllowOpportunistic'', Some (Lit 0x2)),
     (''cudaMemPoolReuseAllowInternalDependencies'', Some (Lit 0x3)),
     (''cudaMemPoolAttrReleaseThreshold'', Some (Lit 0x4)),
     (''cudaMemPoolAttrReservedMemCurrent'', Some (Lit 0x5)),
     (''cudaMemPoolAttrReservedMemHigh'', Some (Lit 0x6)),
     (''cudaMemPoolAttrUsedMemCurrent'', Some (Lit 0x7)),
     (''cudaMemPoolAttrUsedMemHigh'', Some (Lit 0x8))]"

definition cudaMemLocationType :: enum_decl where
  "cudaMemLocationType =
    [(''cudaMemLocationTypeInvalid'', Some (Lit 0)),
     (''cudaMemLocationTypeDevice'', Some (Lit 1))]"

definition cudaMemAccessFlags :: enum_decl where
  "cudaMemAccessFlags =
    [(''cudaMemAccessFlagsProtNone'', Some (Lit 0)),
     (''cudaMemAccessFlagsProtRead'', Some (Lit 1)),
     (''cudaMemAccessFlagsProtReadWrite'', Some (Lit 3))]"

definition cudaMemAllocationType :: enum_decl where
  "cudaMemAllocationType =
    [(''cudaMemAllocationTypeInvalid'', Some (Lit 0x0)),
     (''cudaMemAllocationTypePinned'', Some (Lit 0x1)),
     (''cudaMemAllocationTypeMax'', Some (Lit 0x7fffffff))]"

definition cudaMemAllocationHandleType :: enum_decl where
  "cudaMemAllocationHandleType =
    [(''cudaMemHandleTypeNone'', Some (Lit 0x0)),
     (''cudaMemHandleTypePosixFileDescriptor'', Some (Lit 0x1)),
     (''cudaMemHandleTypeWin32'', Some (Lit 0x2)),
     (''cudaMemHandleTypeWin32Kmt'', Some (Lit 0x4))]"

definition cudaGraphMemAttributeType :: enum_decl where
  "cudaGraphMemAttributeType =
    [(''cudaGraphMemAttrUsedMemCurrent'', Some (Lit 0x1)),
     (''cudaGraphMemAttrUsedMemHigh'', Some (Lit 0x2)),
     (''cudaGraphMemAttrReservedMemCurrent'', Some (Lit 0x3)),
     (''cudaGraphMemAttrReservedMemHigh'', Some (Lit 0x4))]"

definition cudaDeviceP2PAttr :: enum_decl where
  "cudaDeviceP2PAttr =
    [(''cudaDevP2PAttrPerformanceRank'', Some (Lit 1)),
     (''cudaDevP2PAttrAccessSupported'', Some (Lit 2)),
     (''cudaDevP2PAttrNativeAtomicSupported'', Some (Lit 3)),
     (''cudaDevP2PAttrCudaArrayAccessSupported'', Some (Lit 4))]"

definition cudaExternalMemoryHandleType :: enum_decl where
  "cudaExternalMemoryHandleType =
    [(''cudaExternalMemoryHandleTypeOpaqueFd'', Some (Lit 1)),
     (''cudaExternalMemoryHandleTypeOpaqueWin32'', Some (Lit 2)),
     (''cudaExternalMemoryHandleTypeOpaqueWin32Kmt'', Some (Lit 3)),
     (''cudaExternalMemoryHandleTypeD3D12Heap'', Some (Lit 4)),
     (''cudaExternalMemoryHandleTypeD3D12Resource'', Some (Lit 5)),
     (''cudaExternalMemoryHandleTypeD3D11Resource'', Some (Lit 6)),
     (''cudaExternalMemoryHandleTypeD3D11ResourceKmt'', Some (Lit 7)),
     (''cudaExternalMemoryHandleTypeNvSciBuf'', Some (Lit 8))]"

definition cudaExternalSemaphoreHandleType :: enum_decl where
  "cudaExternalSemaphoreHandleType =
    [(''cudaExternalSemaphoreHandleTypeOpaqueFd'', Some (Lit 1)),
     (''cudaExternalSemaphoreHandleTypeOpaqueWin32'', Some (Lit 2)),
     (''cudaExternalSemaphoreHandleTypeOpaqueWin32Kmt'', Some (Lit 3)),
     (''cudaExternalSemaphoreHandleTypeD3D12Fence'', Some (Lit 4)),
     (''cudaExternalSemaphoreHandleTypeD3D11Fence'', Some (Lit 5)),
     (''cudaExternalSemaphoreHandleTypeNvSciSync'', Some (Lit 6)),
     (''cudaExternalSemaphoreHandleTypeKeyedMutex'', Some (Lit 7)),
     (''cudaExternalSemaphoreHandleTypeKeyedMutexKmt'', Some (Lit 8)),
     (''cudaExternalSemaphoreHandleTypeTimelineSemaphoreFd'', Some (Lit 9)),
     (''cudaExternalSemaphoreHandleTypeTimelineSemaphoreWin32'', Some (Lit 10))]"

definition cudaCGScope :: enum_decl where
  "cudaCGScope =
    [(''cudaCGScopeInvalid'', Some (Lit 0)),
     (''cudaCGScopeGrid'', Some (Lit 1)),
     (''cudaCGScopeMultiGrid'', Some (Lit 2))]"

definition cudaGraphNodeType :: enum_decl where
  "cudaGraphNodeType =
    [(''cudaGraphNodeTypeKernel'', Some (Lit 0x00)),
     (''cudaGraphNodeTypeMemcpy'', Some (Lit 0x01)),
     (''cudaGraphNodeTypeMemset'', Some (Lit 0x02)),
     (''cudaGraphNodeTypeHost'', Some (Lit 0x03)),
     (''cudaGraphNodeTypeGraph'', Some (Lit 0x04)),
     (''cudaGraphNodeTypeEmpty'', Some (Lit 0x05)),
     (''cudaGraphNodeTypeWaitEvent'', Some (Lit 0x06)),
     (''cudaGraphNodeTypeEventRecord'', Some (Lit 0x07)),
     (''cudaGraphNodeTypeExtSemaphoreSignal'', Some (Lit 0x08)),
     (''cudaGraphNodeTypeExtSemaphoreWait'', Some (Lit 0x09)),
     (''cudaGraphNodeTypeMemAlloc'', Some (Lit 0x0a)),
     (''cudaGraphNodeTypeMemFree'', Some (Lit 0x0b)),
     (''cudaGraphNodeTypeCount'', None)]"

definition cudaGraphExecUpdateResult :: enum_decl where
  "cudaGraphExecUpdateResult =
    [(''cudaGraphExecUpdateSuccess'', Some (Lit 0x0)),
     (''cudaGraphExecUpdateError'', Some (Lit 0x1)),
     (''cudaGraphExecUpdateErrorTopologyChanged'', Some (Lit 0x2)),
     (''cudaGraphExecUpdateErrorNodeTypeChanged'', Some (Lit 0x3)),
     (''cudaGraphExecUpdateErrorFunctionChanged'', Some (Lit 0x4)),
     (''cudaGraphExecUpdateErrorParametersChanged'', Some (Lit 0x5)),
     (''cudaGraphExecUpdateErrorNotSupported'', Some (Lit 0x6)),
     (''cudaGraphExecUpdateErrorUnsupportedFunctionChange'', Some (Lit 0x7))]"

definition cudaGetDriverEntryPointFlags :: enum_decl where
  "cudaGetDriverEntryPointFlags =
    [(''cudaEnableDefault'', Some (Lit 0x0)),
     (''cudaEnableLegacyStream'', Some (Lit 0x1)),
     (''cudaEnablePerThreadDefaultStream'', Some (Lit 0x2))]"

definition cudaGraphDebugDotFlags :: enum_decl where
  "cudaGraphDebugDotFlags =
    [(''cudaGraphDebugDotFlagsVerbose'', Some (Shl (Lit 1) (Lit 0))),
     (''cudaGraphDebugDotFlagsKernelNodeParams'', Some (Shl (Lit 1) (Lit 2))),
     (''cudaGraphDebugDotFlagsMemcpyNodeParams'', Some (Shl (Lit 1) (Lit 3))),
     (''cudaGraphDebugDotFlagsMemsetNodeParams'', Some (Shl (Lit 1) (Lit 4))),
     (''cudaGraphDebugDotFlagsHostNodeParams'', Some (Shl (Lit 1) (Lit 5))),
     (''cudaGraphDebugDotFlagsEventNodeParams'', Some (Shl (Lit 1) (Lit 6))),
     (''cudaGraphDebugDotFlagsExtSemasSignalNodeParams'', Some (Shl (Lit 1) (Lit 7))),
     (''cudaGraphDebugDotFlagsExtSemasWaitNodeParams'', Some (Shl (Lit 1) (Lit 8))),
     (''cudaGraphDebugDotFlagsKernelNodeAttributes'', Some (Shl (Lit 1) (Lit 9))),
     (''cudaGraphDebugDotFlagsHandles'', Some (Shl (Lit 1) (Lit 10)))]"

definition cudaGraphInstantiateFlags :: enum_decl where
  "cudaGraphInstantiateFlags =
    [(''cudaGraphInstantiateFlagAutoFreeOnLaunch'', Some (Lit 1))]"

definition cudaSurfaceBoundaryMode :: enum_decl where
  "cudaSurfaceBoundaryMode =
    [(''cudaBoundaryModeZero'', Some (Lit 0)),
     (''cudaBoundaryModeClamp'', Some (Lit 1)),
     (''cudaBoundaryModeTrap'', Some (Lit 2))]"

definition cudaSurfaceFormatMode :: enum_decl where
  "cudaSurfaceFormatMode =
    [(''cudaFormatModeForced'', Some (Lit 0)),
     (''cudaFormatModeAuto'', Some (Lit 1))]"

definition cudaTextureAddressMode :: enum_decl where
  "cudaTextureAddressMode =
    [(''cudaAddressModeWrap'', Some (Lit 0)),
     (''cudaAddressModeClamp'', Some (Lit 1)),
     (''cudaAddressModeMirror'', Some (Lit 2)),
     (''cudaAddressModeBorder'', Some (Lit 3))]"

definition cudaTextureFilterMode :: enum_decl where
  "cudaTextureFilterMode =
    [(''cudaFilterModePoint'', Some (Lit 0)),
     (''cudaFilterModeLinear'', Some (Lit 1))]"

definition cudaTextureReadMode :: enum_decl where
  "cudaTextureReadMode =
    [(''cudaReadModeElementType'', Some (Lit 0)),
     (''cudaReadModeNormalizedFloat'', Some (Lit 1))]"

section \<open>Values\<close>

definition cudart_enums :: "(enum_env \<times> enum_decl) list" where
  "cudart_enums =
    [([], cudaError),
     ([], cudaChannelFormatKind),
     ([], cudaMemoryType),
     ([], cudaMemcpyKind),
     ([], cudaAccessProperty),
     ([], cudaStreamCaptureStatus),
     ([], cudaStreamCaptureMode),
     ([], cudaSynchronizationPolicy),
     ([], cudaStreamAttrID),
     ([], cudaStreamUpdateCaptureDependenciesFlags),
     ([], cudaUserObjectFlags),
     ([], cudaUserObjectRetainFlags),
     ([], cudaGraphicsRegisterFlags),
     ([], cudaGraphicsMapFlags),
     ([], cudaGraphicsCubeFace),
     ([], cudaKernelNodeAttrID),
     ([], cudaResourceType),
     ([], cudaResourceViewFormat),
     ([], cudaFuncAttribute),
     ([], cudaFuncCache),
     ([], cudaSharedMemConfig),
     ([], cudaSharedCarveout),
     ([], cudaComputeMode),
     ([], cudaLimit),
     ([], cudaMemoryAdvise),
     ([], cudaMemRangeAttribute),
     ([], cudaOutputMode),
     ([], cudaFlushGPUDirectRDMAWritesOptions),
     ([], cudaGPUDirectRDMAWritesOrdering),
     ([], cudaFlushGPUDirectRDMAWritesScope),
     ([], cudaFlushGPUDirectRDMAWritesTarget),
     ([], cudaDeviceAttr),
     ([], cudaMemPoolAttr),
     ([], cudaMemLocationType),
     ([], cudaMemAccessFlags),
     ([], cudaMemAllocationType),
     ([], cudaMemAllocationHandleType),
     ([], cudaGraphMemAttributeType),
     ([], cudaDeviceP2PAttr),
     ([], cudaExternalMemoryHandleType),
     ([], cudaExternalSemaphoreHandleType),
     ([], cudaCGScope),
     ([], cudaGraphNodeType),
     ([], cudaGraphExecUpdateResult),
     ([], cudaGetDriverEntryPointFlags),
     ([], cudaGraphDebugDotFlags),
     ([], cudaGraphInstantiateFlags),
     ([], cudaSurfaceBoundaryMode),
     ([], cudaSurfaceFormatMode),
     ([], cudaTextureAddressMode),
     ([], cudaTextureFilterMode),
     ([], cudaTextureReadMode)]"

lemma cudaError_oversized [abi_oversized]: "oversized [] cudaError = Some []"
  by (rule oversized_simple [THEN trans], simp_all add: fits_int_def cudaError_def)

lemma cudaChannelFormatKind_oversized [abi_oversized]: "oversized [] cudaChannelFormatKind = Some []"
  by (rule oversized_simple [THEN trans], simp_all add: fits_int_def cudaChannelFormatKind_def)

lemma cudaMemoryType_oversized [abi_oversized]: "oversized [] cudaMemoryType = Some []"
  by (rule oversized_simple [THEN trans], simp_all add: fits_int_def cudaMemoryType_def)

lemma cudaMemcpyKind_oversized [abi_oversized]: "oversized [] cudaMemcpyKind = Some []"
  by (rule oversized_simple [THEN trans], simp_all add: fits_int_def cudaMemcpyKind_def)

lemma cudaAccessProperty_oversized [abi_oversized]: "oversized [] cudaAccessProperty = Some []"
  by (rule oversized_simple [THEN trans], simp_all add: fits_int_def cudaAccessProperty_def)

lemma cudaStreamCaptureStatus_oversized [abi_oversized]: "oversized [] cudaStreamCaptureStatus = Some []"
  by (rule oversized_simple [THEN trans], simp_all add: fits_int_def cudaStreamCaptureStatus_def)

lemma cudaStreamCaptureMode_oversized [abi_oversized]: "oversized [] cudaStreamCaptureMode = Some []"
  by (rule oversized_simple [THEN trans], simp_all add: fits_int_def cudaStreamCaptureMode_def)

lemma cudaSynchronizationPolicy_oversized [abi_oversized]: "oversized [] cudaSynchronizationPolicy = Some []"
  by (rule oversized_simple [THEN trans], simp_all add: fits_int_def cudaSynchronizationPolicy_def)

lemma cudaStreamAttrID_oversized [abi_oversized]: "oversized [] cudaStreamAttrID = Some []"
  by (rule oversized_simple [THEN trans], simp_all add: fits_int_def cudaStreamAttrID_def)

lemma cudaStreamUpdateCaptureDependenciesFlags_oversized [abi_oversized]: "oversized [] cudaStreamUpdateCaptureDependenciesFlags = Some []"
  by (rule oversized_simple [THEN trans], simp_all add: fits_int_def cudaStreamUpdateCaptureDependenciesFlags_def)

lemma cudaUserObjectFlags_oversized [abi_oversized]: "oversized [] cudaUserObjectFlags = Some []"
  by (rule oversized_simple [THEN trans], simp_all add: fits_int_def cudaUserObjectFlags_def)

lemma cudaUserObjectRetainFlags_oversized [abi_oversized]: "oversized [] cudaUserObjectRetainFlags = Some []"
  by (rule oversized_simple [THEN trans], simp_all add: fits_int_def cudaUserObjectRetainFlags_def)

lemma cudaGraphicsRegisterFlags_oversized [abi_oversized]: "oversized [] cudaGraphicsRegisterFlags = Some []"
  by (rule oversized_simple [THEN trans], simp_all add: fits_int_def cudaGraphicsRegisterFlags_def)

lemma cudaGraphicsMapFlags_oversized [abi_oversized]: "oversized [] cudaGraphicsMapFlags = Some []"
  by (rule oversized_simple [THEN trans], simp_all add: fits_int_def cudaGraphicsMapFlags_def)

lemma cudaGraphicsCubeFace_oversized [abi_oversized]: "oversized [] cudaGraphicsCubeFace = Some []"
  by (rule oversized_simple [THEN trans], simp_all add: fits_int_def cudaGraphicsCubeFace_def)

lemma cudaKernelNodeAttrID_oversized [abi_oversized]: "oversized [] cudaKernelNodeAttrID = Some []"
  by (rule oversized_simple [THEN trans], simp_all add: fits_int_def cudaKernelNodeAttrID_def)

lemma cudaResourceType_oversized [abi_oversized]: "oversized [] cudaResourceType = Some []"
  by (rule oversized_simple [THEN trans], simp_all add: fits_int_def cudaResourceType_def)

lemma cudaResourceViewFormat_oversized [abi_oversized]: "oversized [] cudaResourceViewFormat = Some []"
  by (rule oversized_simple [THEN trans], simp_all add: fits_int_def cudaResourceViewFormat_def)

lemma cudaFuncAttribute_oversized [abi_oversized]: "oversized [] cudaFuncAttribute = Some []"
  by (rule oversized_simple [THEN trans], simp_all add: fits_int_def cudaFuncAttribute_def)

lemma cudaFuncCache_oversized [abi_oversized]: "oversized [] cudaFuncCache = Some []"
  by (rule oversized_simple [THEN trans], simp_all add: fits_int_def cudaFuncCache_def)

lemma cudaSharedMemConfig_oversized [abi_oversized]: "oversized [] cudaSharedMemConfig = Some []"
  by (rule oversized_simple [THEN trans], simp_all add: fits_int_def cudaSharedMemConfig_def)

lemma cudaSharedCarveout_oversized [abi_oversized]: "oversized [] cudaSharedCarveout = Some []"
  by (rule oversized_simple [THEN trans], simp_all add: fits_int_def cudaSharedCarveout_def)

lemma cudaComputeMode_oversized [abi_oversized]: "oversized [] cudaComputeMode = Some []"
  by (rule oversized_simple [THEN trans], simp_all add: fits_int_def cudaComputeMode_def)

lemma cudaLimit_oversized [abi_oversized]: "oversized [] cudaLimit = Some []"
  by (rule oversized_simple [THEN trans], simp_all add: fits_int_def cudaLimit_def)

lemma cudaMemoryAdvise_oversized [abi_oversized]: "oversized [] cudaMemoryAdvise = Some []"
  by (rule oversized_simple [THEN trans], simp_all add: fits_int_def cudaMemoryAdvise_def)

lemma cudaMemRangeAttribute_oversized [abi_oversized]: "oversized [] cudaMemRangeAttribute = Some []"
  by (rule oversized_simple [THEN trans], simp_all add: fits_int_def cudaMemRangeAttribute_def)

lemma cudaOutputMode_oversized [abi_oversized]: "oversized [] cudaOutputMode = Some []"
  by (rule oversized_simple [THEN trans], simp_all add: fits_int_def cudaOutputMode_def)

lemma cudaFlushGPUDirectRDMAWritesOptions_oversized [abi_oversized]: "oversized [] cudaFlushGPUDirectRDMAWritesOptions = Some []"
  by (simp add: enum_eval cudaFlushGPUDirectRDMAWritesOptions_def)

lemma cudaGPUDirectRDMAWritesOrdering_oversized [abi_oversized]: "oversized [] cudaGPUDirectRDMAWritesOrdering = Some []"
  by (rule oversized_simple [THEN trans], simp_all add: fits_int_def cudaGPUDirectRDMAWritesOrdering_def)

lemma cudaFlushGPUDirectRDMAWritesScope_oversized [abi_oversized]: "oversized [] cudaFlushGPUDirectRDMAWritesScope = Some []"
  by (rule oversized_simple [THEN trans], simp_all add: fits_int_def cudaFlushGPUDirectRDMAWritesScope_def)

lemma cudaFlushGPUDirectRDMAWritesTarget_oversized [abi_oversized]: "oversized [] cudaFlushGPUDirectRDMAWritesTarget = Some []"
  by (rule oversized_simple [THEN trans], simp_all add: fits_int_def cudaFlushGPUDirectRDMAWritesTarget_def)

lemma cudaDeviceAttr_oversized [abi_oversized]: "oversized [] cudaDeviceAttr = Some []"
  by (rule oversized_simple [THEN trans], simp_all add: fits_int_def cudaDeviceAttr_def)

lemma cudaMemPoolAttr_oversized [abi_oversized]: "oversized [] cudaMemPoolAttr = Some []"
  by (rule oversized_simple [THEN trans], simp_all add: fits_int_def cudaMemPoolAttr_def)

lemma cudaMemLocationType_oversized [abi_oversized]: "oversized [] cudaMemLocationType = Some []"
  by (rule oversized_simple [THEN trans], simp_all add: fits_int_def cudaMemLocationType_def)

lemma cudaMemAccessFlags_oversized [abi_oversized]: "oversized [] cudaMemAccessFlags = Some []"
  by (rule oversized_simple [THEN trans], simp_all add: fits_int_def cudaMemAccessFlags_def)

lemma cudaMemAllocationType_oversized [abi_oversized]: "oversized [] cudaMemAllocationType = Some []"
  by (rule oversized_simple [THEN trans], simp_all add: fits_int_def cudaMemAllocationType_def)

lemma cudaMemAllocationHandleType_oversized [abi_oversized]: "oversized [] cudaMemAllocationHandleType = Some []"
  by (rule oversized_simple [THEN trans], simp_all add: fits_int_def cudaMemAllocationHandleType_def)

lemma cudaGraphMemAttributeType_oversized [abi_oversized]: "oversized [] cudaGraphMemAttributeType = Some []"
  by (rule oversized_simple [THEN trans], simp_all add: fits_int_def cudaGraphMemAttributeType_def)

lemma cudaDeviceP2PAttr_oversized [abi_oversized]: "oversized [] cudaDeviceP2PAttr = Some []"
  by (rule oversized_simple [THEN trans], simp_all add: fits_int_def cudaDeviceP2PAttr_def)

lemma cudaExternalMemoryHandleType_oversized [abi_oversized]: "oversized [] cudaExternalMemoryHandleType = Some []"
  by (rule oversized_simple [THEN trans], simp_all add: fits_int_def cudaExternalMemoryHandleType_def)

lemma cudaExternalSemaphoreHandleType_oversized [abi_oversized]: "oversized [] cudaExternalSemaphoreHandleType = Some []"
  by (rule oversized_simple [THEN trans], simp_all add: fits_int_def cudaExternalSemaphoreHandleType_def)

lemma cudaCGScope_oversized [abi_oversized]: "oversized [] cudaCGScope = Some []"
  by (rule oversized_simple [THEN trans], simp_all add: fits_int_def cudaCGScope_def)

lemma cudaGraphNodeType_oversized [abi_oversized]: "oversized [] cudaGraphNodeType = Some []"
  by (rule oversized_simple [THEN trans], simp_all add: fits_int_def cudaGraphNodeType_def)

lemma cudaGraphExecUpdateResult_oversized [abi_oversized]: "oversized [] cudaGraphExecUpdateResult = Some []"
  by (rule oversized_simple [THEN trans], simp_all add: fits_int_def cudaGraphExecUpdateResult_def)

lemma cudaGetDriverEntryPointFlags_oversized [abi_oversized]: "oversized [] cudaGetDriverEntryPointFlags = Some []"
  by (rule oversized_simple [THEN trans], simp_all add: fits_int_def cudaGetDriverEntryPointFlags_def)

lemma cudaGraphDebugDotFlags_oversized [abi_oversized]: "oversized [] cudaGraphDebugDotFlags = Some []"
  by (simp add: enum_eval cudaGraphDebugDotFlags_def)

lemma cudaGraphInstantiateFlags_oversized [abi_oversized]: "oversized [] cudaGraphInstantiateFlags = Some []"
  by (rule oversized_simple [THEN trans], simp_all add: fits_int_def cudaGraphInstantiateFlags_def)

lemma cudaSurfaceBoundaryMode_oversized [abi_oversized]: "oversized [] cudaSurfaceBoundaryMode = Some []"
  by (rule oversized_simple [THEN trans], simp_all add: fits_int_def cudaSurfaceBoundaryMode_def)

lemma cudaSurfaceFormatMode_oversized [abi_oversized]: "oversized [] cudaSurfaceFormatMode = Some []"
  by (rule oversized_simple [THEN trans], simp_all add: fits_int_def cudaSurfaceFormatMode_def)

lemma cudaTextureAddressMode_oversized [abi_oversized]: "oversized [] cudaTextureAddressMode = Some []"
  by (rule oversized_simple [THEN trans], simp_all add: fits_int_def cudaTextureAddressMode_def)

lemma cudaTextureFilterMode_oversized [abi_oversized]: "oversized [] cudaTextureFilterMode = Some []"
  by (rule oversized_simple [THEN trans], simp_all add: fits_int_def cudaTextureFilterMode_def)

lemma cudaTextureReadMode_oversized [abi_oversized]: "oversized [] cudaTextureReadMode = Some []"
  by (rule oversized_simple [THEN trans], simp_all add: fits_int_def cudaTextureReadMode_def)

lemma cudart_oversized:
  "all_oversized cudart_enums = Some []"
  by (simp add: cudart_enums_def all_oversized_def abi_oversized)

end
