(* ===== verification/Abi_Cudnn.thy ===== *)
theory Abi_Cudnn
  imports C_Enum
begin

text \<open>
  The enumerations of \<open>src/cudnn/cudnn_subset.h\<close>.
\<close>

section \<open>\<open>cudnn_subset.h\<close>\<close>

definition cudnnStatus_t :: enum_decl where
  "cudnnStatus_t =
    [(''CUDNN_STATUS_SUCCESS'', Some (Lit 0)),
     (''CUDNN_STATUS_NOT_INITIALIZED'', Some (Lit 1)),
     (''CUDNN_STATUS_ALLOC_FAILED'', Some (Lit 2)),
     (''CUDNN_STATUS_BAD_PARAM'', Some (Lit 3)),
     (''CUDNN_STATUS_INTERNAL_ERROR'', Some (Lit 4)),
     (''CUDNN_STATUS_INVALID_VALUE'', Some (Lit 5)),
     (''CUDNN_STATUS_ARCH_MISMATCH'', Some (Lit 6)),
     (''CUDNN_STATUS_MAPPING_ERROR'', Some (Lit 7)),
     (''CUDNN_STATUS_EXECUTION_FAILED'', Some (Lit 8)),
     (''CUDNN_STATUS_NOT_SUPPORTED'', Some (Lit 9)),
     (''CUDNN_STATUS_LICENSE_ERROR'', Some (Lit 10)),
     (''CUDNN_STATUS_RUNTIME_PREREQUISITE_MISSING'', Some (Lit 11)),
     (''CUDNN_STATUS_RUNTIME_IN_PROGRESS'', Some (Lit 12)),
     (''CUDNN_STATUS_RUNTIME_FP_OVERFLOW'', Some (Lit 13))]"

definition cudnnErrQueryMode_t :: enum_decl where
  "cudnnErrQueryMode_t =
    [(''CUDNN_ERRQUERY_RAWCODE'', Some (Lit 0)),
     (''CUDNN_ERRQUERY_NONBLOCKING'', Some (Lit 1)),
     (''CUDNN_ERRQUERY_BLOCKING'', Some (Lit 2))]"

definition libraryPropertyType :: enum_decl where
  "libraryPropertyType =
    [(''MAJOR_VERSION'', None),
     (''MINOR_VERSION'', None),
     (''PATCH_LEVEL'', None)]"

definition cudnnDataType_t :: enum_decl where
  "cudnnDataType_t =
    [(''CUDNN_DATA_FLOAT'', Some (Lit 0)),
     (''CUDNN_DATA_DOUBLE'', Some (Lit 1)),
     (''CUDNN_DATA_HALF'', Some (Lit 2)),
     (''CUDNN_DATA_INT8'', Some (Lit 3)),
     (''CUDNN_DATA_INT32'', Some (Lit 4)),
     (''CUDNN_DATA_INT8x4'', Some (Lit 5)),
     (''CUDNN_DATA_UINT8'', Some (Lit 6)),
     (''CUDNN_DATA_UINT8x4'', Some (Lit 7)),
     (''CUDNN_DATA_INT8x32'', Some (Lit 8))]"

definition cudnnMathType_t :: enum_decl where
  "cudnnMathType_t =
    [(''CUDNN_DEFAULT_MATH'', Some (Lit 0)),
     (''CUDNN_TENSOR_OP_MATH'', Some (Lit 1)),
     (''CUDNN_TENSOR_OP_MATH_ALLOW_CONVERSION'', Some (Lit 2))]"

definition cudnnNanPropagation_t :: enum_decl where
  "cudnnNanPropagation_t =
    [(''CUDNN_NOT_PROPAGATE_NAN'', Some (Lit 0)),
     (''CUDNN_PROPAGATE_NAN'', Some (Lit 1))]"

definition cudnnDeterminism_t :: enum_decl where
  "cudnnDeterminism_t =
    [(''CUDNN_NON_DETERMINISTIC'', Some (Lit 0)),
     (''CUDNN_DETERMINISTIC'', Some (Lit 1))]"

definition cudnnReorderType_t :: enum_decl where
  "cudnnReorderType_t =
    [(''CUDNN_DEFAULT_REORDER'', Some (Lit 0)),
     (''CUDNN_NO_REORDER'', Some (Lit 1))]"

definition cudnnTensorFormat_t :: enum_decl where
  "cudnnTensorFormat_t =
    [(''CUDNN_TENSOR_NCHW'', Some (Lit 0)),
     (''CUDNN_TENSOR_NHWC'', Some (Lit 1)),
     (''CUDNN_TENSOR_NCHW_VECT_C'', Some (Lit 2))]"

definition cudnnFoldingDirection_t :: enum_decl where
  "cudnnFoldingDirection_t =
    [(''CUDNN_TRANSFORM_FOLD'', Some (Lit 0)),
     (''CUDNN_TRANSFORM_UNFOLD'', Some (Lit 1))]"

definition cudnnOpTensorOp_t :: enum_decl where
  "cudnnOpTensorOp_t =
    [(''CUDNN_OP_TENSOR_ADD'', Some (Lit 0)),
     (''CUDNN_OP_TENSOR_MUL'', Some (Lit 1)),
     (''CUDNN_OP_TENSOR_MIN'', Some (Lit 2)),
     (''CUDNN_OP_TENSOR_MAX'', Some (Lit 3)),
     (''CUDNN_OP_TENSOR_SQRT'', Some (Lit 4)),
     (''CUDNN_OP_TENSOR_NOT'', Some (Lit 5))]"

definition cudnnReduceTensorOp_t :: enum_decl where
  "cudnnReduceTensorOp_t =
    [(''CUDNN_REDUCE_TENSOR_ADD'', Some (Lit 0)),
     (''CUDNN_REDUCE_TENSOR_MUL'', Some (Lit 1)),
     (''CUDNN_REDUCE_TENSOR_MIN'', Some (Lit 2)),
     (''CUDNN_REDUCE_TENSOR_MAX'', Some (Lit 3)),
     (''CUDNN_REDUCE_TENSOR_AMAX'', Some (Lit 4)),
     (''CUDNN_REDUCE_TENSOR_AVG'', Some (Lit 5)),
     (''CUDNN_REDUCE_TENSOR_NORM1'', Some (Lit 6)),
     (''CUDNN_REDUCE_TENSOR_NORM2'', Some (Lit 7)),
     (''CUDNN_REDUCE_TENSOR_MUL_NO_ZEROS'', Some (Lit 8))]"

definition cudnnReduceTensorIndices_t :: enum_decl where
  "cudnnReduceTensorIndices_t =
    [(''CUDNN_REDUCE_TENSOR_NO_INDICES'', Some (Lit 0)),
     (''CUDNN_REDUCE_TENSOR_FLATTENED_INDICES'', Some (Lit 1))]"

definition cudnnIndicesType_t :: enum_decl where
  "cudnnIndicesType_t =
    [(''CUDNN_32BIT_INDICES'', Some (Lit 0)),
     (''CUDNN_64BIT_INDICES'', Some (Lit 1)),
     (''CUDNN_16BIT_INDICES'', Some (Lit 2)),
     (''CUDNN_8BIT_INDICES'', Some (Lit 3))]"

definition cudnnConvolutionMode_t :: enum_decl where
  "cudnnConvolutionMode_t =
    [(''CUDNN_CONVOLUTION'', Some (Lit 0)),
     (''CUDNN_CROSS_CORRELATION'', Some (Lit 1))]"

definition cudnnConvolutionFwdPreference_t :: enum_decl where
  "cudnnConvolutionFwdPreference_t =
    [(''CUDNN_CONVOLUTION_FWD_NO_WORKSPACE'', Some (Lit 0)),
     (''CUDNN_CONVOLUTION_FWD_PREFER_FASTEST'', Some (Lit 1)),
     (''CUDNN_CONVOLUTION_FWD_SPECIFY_WORKSPACE_LIMIT'', Some (Lit 2))]"

definition cudnnConvolutionFwdAlgo_t :: enum_decl where
  "cudnnConvolutionFwdAlgo_t =
    [(''CUDNN_CONVOLUTION_FWD_ALGO_IMPLICIT_GEMM'', Some (Lit 0)),
     (''CUDNN_CONVOLUTION_FWD_ALGO_IMPLICIT_PRECOMP_GEMM'', Some (Lit 1)),
     (''CUDNN_CONVOLUTION_FWD_ALGO_GEMM'', Some (Lit 2)),
     (''CUDNN_CONVOLUTION_FWD_ALGO_DIRECT'', Some (Lit 3)),
     (''CUDNN_CONVOLUTION_FWD_ALGO_FFT'', Some (Lit 4)),
     (''CUDNN_CONVOLUTION_FWD_ALGO_FFT_TILING'', Some (Lit 5)),
     (''CUDNN_CONVOLUTION_FWD_ALGO_WINOGRAD'', Some (Lit 6)),
     (''CUDNN_CONVOLUTION_FWD_ALGO_WINOGRAD_NONFUSED'', Some (Lit 7)),
     (''CUDNN_CONVOLUTION_FWD_ALGO_COUNT'', Some (Lit 8))]"

definition cudnnConvolutionBwdFilterPreference_t :: enum_decl where
  "cudnnConvolutionBwdFilterPreference_t =
    [(''CUDNN_CONVOLUTION_BWD_FILTER_NO_WORKSPACE'', Some (Lit 0)),
     (''CUDNN_CONVOLUTION_BWD_FILTER_PREFER_FASTEST'', Some (Lit 1)),
     (''CUDNN_CONVOLUTION_BWD_FILTER_SPECIFY_WORKSPACE_LIMIT'', Some (Lit 2))]"

definition cudnnConvolutionBwdFilterAlgo_t :: enum_decl where
  "cudnnConvolutionBwdFilterAlgo_t =
    [(''CUDNN_CONVOLUTION_BWD_FILTER_ALGO_0'', Some (Lit 0)),
     (''CUDNN_CONVOLUTION_BWD_FILTER_ALGO_1'', Some (Lit 1)),
     (''CUDNN_CONVOLUTION_BWD_FILTER_ALGO_FFT'', Some (Lit 2)),
     (''CUDNN_CONVOLUTION_BWD_FILTER_ALGO_3'', Some (Lit 3)),
     (''CUDNN_CONVOLUTION_BWD_FILTER_ALGO_WINOGRAD'', Some (Lit 4)),
     (''CUDNN_CONVOLUTION_BWD_FILTER_ALGO_WINOGRAD_NONFUSED'', Some (Lit 5)),
     (''CUDNN_CONVOLUTION_BWD_FILTER_ALGO_FFT_TILING'', Some (Lit 6)),
     (''CUDNN_CONVOLUTION_BWD_FILTER_ALGO_COUNT'', Some (Lit 7))]"

definition cudnnConvolutionBwdDataPreference_t :: enum_decl where
  "cudnnConvolutionBwdDataPreference_t =
    [(''CUDNN_CONVOLUTION_BWD_DATA_NO_WORKSPACE'', Some (Lit 0)),
     (''CUDNN_CONVOLUTION_BWD_DATA_PREFER_FASTEST'', Some (Lit 1)),
     (''CUDNN_CONVOLUTION_BWD_DATA_SPECIFY_WORKSPACE_LIMIT'', Some (Lit 2))]"

definition cudnnConvolutionBwdDataAlgo_t :: enum_decl where
  "cudnnConvolutionBwdDataAlgo_t =
    [(''CUDNN_CONVOLUTION_BWD_DATA_ALGO_0'', Some (Lit 0)),
     (''CUDNN_CONVOLUTION_BWD_DATA_ALGO_1'', Some (Lit 1)),
     (''CUDNN_CONVOLUTION_BWD_DATA_ALGO_FFT'', Some (Lit 2)),
     (''CUDNN_CONVOLUTION_BWD_DATA_ALGO_FFT_TILING'', Some (Lit 3)),
     (''CUDNN_CONVOLUTION_BWD_DATA_ALGO_WINOGRAD'', Some (Lit 4)),
     (''CUDNN_CONVOLUTION_BWD_DATA_ALGO_WINOGRAD_NONFUSED'', Some (Lit 5)),
     (''CUDNN_CONVOLUTION_BWD_DATA_ALGO_COUNT'', Some (Lit 6))]"

definition cudnnSoftmaxAlgorithm_t :: enum_decl where
  "cudnnSoftmaxAlgorithm_t =
    [(''CUDNN_SOFTMAX_FAST'', Some (Lit 0)),
     (''CUDNN_SOFTMAX_ACCURATE'', Some (Lit 1)),
     (''CUDNN_SOFTMAX_LOG'', Some (Lit 2))]"

definition cudnnSoftmaxMode_t :: enum_decl where
  "cudnnSoftmaxMode_t =
    [(''CUDNN_SOFTMAX_MODE_INSTANCE'', Some (Lit 0)),
     (''CUDNN_SOFTMAX_MODE_CHANNEL'', Some (Lit 1))]"

definition cudnnPoolingMode_t :: enum_decl where
  "cudnnPoolingMode_t =
    [(''CUDNN_POOLING_MAX'', Some (Lit 0)),
     (''CUDNN_POOLING_AVERAGE_COUNT_INCLUDE_PADDING'', Some (Lit 1)),
     (''CUDNN_POOLING_AVERAGE_COUNT_EXCLUDE_PADDING'', Some (Lit 2)),
     (''CUDNN_POOLING_MAX_DETERMINISTIC'', Some (Lit 3))]"

definition cudnnActivationMode_t :: enum_decl where
  "cudnnActivationMode_t =
    [(''CUDNN_ACTIVATION_SIGMOID'', Some (Lit 0)),
     (''CUDNN_ACTIVATION_RELU'', Some (Lit 1)),
     (''CUDNN_ACTIVATION_TANH'', Some (Lit 2)),
     (''CUDNN_ACTIVATION_CLIPPED_RELU'', Some (Lit 3)),
     (''CUDNN_ACTIVATION_ELU'', Some (Lit 4)),
     (''CUDNN_ACTIVATION_IDENTITY'', Some (Lit 5))]"

definition cudnnLRNMode_t :: enum_decl where
  "cudnnLRNMode_t =
    [(''CUDNN_LRN_CROSS_CHANNEL_DIM1'', Some (Lit 0))]"

definition cudnnDivNormMode_t :: enum_decl where
  "cudnnDivNormMode_t =
    [(''CUDNN_DIVNORM_PRECOMPUTED_MEANS'', Some (Lit 0))]"

definition cudnnBatchNormMode_t :: enum_decl where
  "cudnnBatchNormMode_t =
    [(''CUDNN_BATCHNORM_PER_ACTIVATION'', Some (Lit 0)),
     (''CUDNN_BATCHNORM_SPATIAL'', Some (Lit 1)),
     (''CUDNN_BATCHNORM_SPATIAL_PERSISTENT'', Some (Lit 2))]"

definition cudnnBatchNormOps_t :: enum_decl where
  "cudnnBatchNormOps_t =
    [(''CUDNN_BATCHNORM_OPS_BN'', Some (Lit 0)),
     (''CUDNN_BATCHNORM_OPS_BN_ACTIVATION'', Some (Lit 1)),
     (''CUDNN_BATCHNORM_OPS_BN_ADD_ACTIVATION'', Some (Lit 2))]"

definition cudnnSamplerType_t :: enum_decl where
  "cudnnSamplerType_t =
    [(''CUDNN_SAMPLER_BILINEAR'', Some (Lit 0))]"

definition cudnnRNNAlgo_t :: enum_decl where
  "cudnnRNNAlgo_t =
    [(''CUDNN_RNN_ALGO_STANDARD'', Some (Lit 0)),
     (''CUDNN_RNN_ALGO_PERSIST_STATIC'', Some (Lit 1)),
     (''CUDNN_RNN_ALGO_PERSIST_DYNAMIC'', Some (Lit 2)),
     (''CUDNN_RNN_ALGO_COUNT'', Some (Lit 3))]"

definition cudnnRNNMode_t :: enum_decl where
  "cudnnRNNMode_t =
    [(''CUDNN_RNN_RELU'', Some (Lit 0)),
     (''CUDNN_RNN_TANH'', Some (Lit 1)),
     (''CUDNN_LSTM'', Some (Lit 2)),
     (''CUDNN_GRU'', Some (Lit 3))]"

definition cudnnRNNBiasMode_t :: enum_decl where
  "cudnnRNNBiasMode_t =
    [(''CUDNN_RNN_NO_BIAS'', Some (Lit 0)),
     (''CUDNN_RNN_SINGLE_INP_BIAS'', Some (Lit 1)),
     (''CUDNN_RNN_DOUBLE_BIAS'', Some (Lit 2)),
     (''CUDNN_RNN_SINGLE_REC_BIAS'', Some (Lit 3))]"

definition cudnnDirectionMode_t :: enum_decl where
  "cudnnDirectionMode_t =
    [(''CUDNN_UNIDIRECTIONAL'', Some (Lit 0)),
     (''CUDNN_BIDIRECTIONAL'', Some (Lit 1))]"

definition cudnnRNNInputMode_t :: enum_decl where
  "cudnnRNNInputMode_t =
    [(''CUDNN_LINEAR_INPUT'', Some (Lit 0)),
     (''CUDNN_SKIP_INPUT'', Some (Lit 1))]"

definition cudnnRNNClipMode_t :: enum_decl where
  "cudnnRNNClipMode_t =
    [(''CUDNN_RNN_CLIP_NONE'', Some (Lit 0)),
     (''CUDNN_RNN_CLIP_MINMAX'', Some (Lit 1))]"

definition cudnnRNNDataLayout_t :: enum_decl where
  "cudnnRNNDataLayout_t =
    [(''CUDNN_RNN_DATA_LAYOUT_SEQ_MAJOR_UNPACKED'', Some (Lit 0)),
     (''CUDNN_RNN_DATA_LAYOUT_SEQ_MAJOR_PACKED'', Some (Lit 1)),
     (''CUDNN_RNN_DATA_LAYOUT_BATCH_MAJOR_UNPACKED'', Some (Lit 2))]"

definition cudnnRNNPaddingMode_t :: enum_decl where
  "cudnnRNNPaddingMode_t =
    [(''CUDNN_RNN_PADDED_IO_DISABLED'', Some (Lit 0)),
     (''CUDNN_RNN_PADDED_IO_ENABLED'', Some (Lit 1))]"

definition cudnnSeqDataAxis_t :: enum_decl where
  "cudnnSeqDataAxis_t =
    [(''CUDNN_SEQDATA_TIME_DIM'', Some (Lit 0)),
     (''CUDNN_SEQDATA_BATCH_DIM'', Some (Lit 1)),
     (''CUDNN_SEQDATA_BEAM_DIM'', Some (Lit 2)),
     (''CUDNN_SEQDATA_VECT_DIM'', Some (Lit 3))]"

definition cudnnMultiHeadAttnWeightKind_t :: enum_decl where
  "cudnnMultiHeadAttnWeightKind_t =
    [(''CUDNN_MH_ATTN_Q_WEIGHTS'', Some (Lit 0)),
     (''CUDNN_MH_ATTN_K_WEIGHTS'', Some (Lit 1)),
     (''CUDNN_MH_ATTN_V_WEIGHTS'', Some (Lit 2)),
     (''CUDNN_MH_ATTN_O_WEIGHTS'', Some (Lit 3)),
     (''CUDNN_MH_ATTN_Q_BIASES'', Some (Lit 4)),
     (''CUDNN_MH_ATTN_K_BIASES'', Some (Lit 5)),
     (''CUDNN_MH_ATTN_V_BIASES'', Some (Lit 6)),
     (''CUDNN_MH_ATTN_O_BIASES'', Some (Lit 7))]"

definition cudnnWgradMode_t :: enum_decl where
  "cudnnWgradMode_t =
    [(''CUDNN_WGRAD_MODE_ADD'', Some (Lit 0)),
     (''CUDNN_WGRAD_MODE_SET'', Some (Lit 1))]"

definition cudnnCTCLossAlgo_t :: enum_decl where
  "cudnnCTCLossAlgo_t =
    [(''CUDNN_CTC_LOSS_ALGO_DETERMINISTIC'', Some (Lit 0)),
     (''CUDNN_CTC_LOSS_ALGO_NON_DETERMINISTIC'', Some (Lit 1))]"

definition cudnnLossNormalizationMode_t :: enum_decl where
  "cudnnLossNormalizationMode_t =
    [(''CUDNN_LOSS_NORMALIZATION_NONE'', Some (Lit 0)),
     (''CUDNN_LOSS_NORMALIZATION_SOFTMAX'', Some (Lit 1))]"

definition cudnnSeverity_t :: enum_decl where
  "cudnnSeverity_t =
    [(''CUDNN_SEV_FATAL'', Some (Lit 0)),
     (''CUDNN_SEV_ERROR'', Some (Lit 1)),
     (''CUDNN_SEV_WARNING'', Some (Lit 2)),
     (''CUDNN_SEV_INFO'', Some (Lit 3))]"

definition cudnnFusedOps_t :: enum_decl where
  "cudnnFusedOps_t =
    [(''CUDNN_FUSED_SCALE_BIAS_ACTIVATION_CONV_BNSTATS'', Some (Lit 0)),
     (''CUDNN_FUSED_SCALE_BIAS_ACTIVATION_WGRAD'', Some (Lit 1)),
     (''CUDNN_FUSED_BN_FINALIZE_STATISTICS_TRAINING'', Some (Lit 2)),
     (''CUDNN_FUSED_BN_FINALIZE_STATISTICS_INFERENCE'', Some (Lit 3)),
     (''CUDNN_FUSED_CONV_SCALE_BIAS_ADD_ACTIVATION'', Some (Lit 4)),
     (''CUDNN_FUSED_SCALE_BIAS_ADD_ACTIVATION_GEN_BITMASK'', Some (Lit 5)),
     (''CUDNN_FUSED_DACTIVATION_FORK_DBATCHNORM'', Some (Lit 6))]"

definition cudnnFusedOpsConstParamLabel_t :: enum_decl where
  "cudnnFusedOpsConstParamLabel_t =
    [(''CUDNN_PARAM_XDESC'', Some (Lit 0)),
     (''CUDNN_PARAM_XDATA_PLACEHOLDER'', Some (Lit 1)),
     (''CUDNN_PARAM_BN_MODE'', Some (Lit 2)),
     (''CUDNN_PARAM_BN_EQSCALEBIAS_DESC'', Some (Lit 3)),
     (''CUDNN_PARAM_BN_EQSCALE_PLACEHOLDER'', Some (Lit 4)),
     (''CUDNN_PARAM_BN_EQBIAS_PLACEHOLDER'', Some (Lit 5)),
     (''CUDNN_PARAM_ACTIVATION_DESC'', Some (Lit 6)),
     (''CUDNN_PARAM_CONV_DESC'', Some (Lit 7)),
     (''CUDNN_PARAM_WDESC'', Some (Lit 8)),
     (''CUDNN_PARAM_WDATA_PLACEHOLDER'', Some (Lit 9)),
     (''CUDNN_PARAM_DWDESC'', Some (Lit 10)),
     (''CUDNN_PARAM_DWDATA_PLACEHOLDER'', Some (Lit 11)),
     (''CUDNN_PARAM_YDESC'', Some (Lit 12)),
     (''CUDNN_PARAM_YDATA_PLACEHOLDER'', Some (Lit 13)),
     (''CUDNN_PARAM_DYDESC'', Some (Lit 14)),
     (''CUDNN_PARAM_DYDATA_PLACEHOLDER'', Some (Lit 15)),
     (''CUDNN_PARAM_YSTATS_DESC'', Some (Lit 16)),
     (''CUDNN_PARAM_YSUM_PLACEHOLDER'', Some (Lit 17)),
     (''CUDNN_PARAM_YSQSUM_PLACEHOLDER'', Some (Lit 18)),
     (''CUDNN_PARAM_BN_SCALEBIAS_MEANVAR_DESC'', Some (Lit 19)),
     (''CUDNN_PARAM_BN_SCALE_PLACEHOLDER'', Some (Lit 20)),
     (''CUDNN_PARAM_BN_BIAS_PLACEHOLDER'', Some (Lit 21)),
     (''CUDNN_PARAM_BN_SAVED_MEAN_PLACEHOLDER'', Some (Lit 22)),
     (''CUDNN_PARAM_BN_SAVED_INVSTD_PLACEHOLDER'', Some (Lit 23)),
     (''CUDNN_PARAM_BN_RUNNING_MEAN_PLACEHOLDER'', Some (Lit 24)),
     (''CUDNN_PARAM_BN_RUNNING_VAR_PLACEHOLDER'', Some (Lit 25)),
     (''CUDNN_PARAM_ZDESC'', Some (Lit 26)),
     (''CUDNN_PARAM_ZDATA_PLACEHOLDER'', Some (Lit 27)),
     (''CUDNN_PARAM_BN_Z_EQSCALEBIAS_DESC'', Some (Lit 28)),
     (''CUDNN_PARAM_BN_Z_EQSCALE_PLACEHOLDER'', Some (Lit 29)),
     (''CUDNN_PARAM_BN_Z_EQBIAS_PLACEHOLDER'', Some (Lit 30)),
     (''CUDNN_PARAM_ACTIVATION_BITMASK_DESC'', Some (Lit 31)),
     (''CUDNN_PARAM_ACTIVATION_BITMASK_PLACEHOLDER'', Some (Lit 32)),
     (''CUDNN_PARAM_DXDESC'', Some (Lit 33)),
     (''CUDNN_PARAM_DXDATA_PLACEHOLDER'', Some (Lit 34)),
     (''CUDNN_PARAM_DZDESC'', Some (Lit 35)),
     (''CUDNN_PARAM_DZDATA_PLACEHOLDER'', Some (Lit 36)),
     (''CUDNN_PARAM_BN_DSCALE_PLACEHOLDER'', Some (Lit 37)),
     (''CUDNN_PARAM_BN_DBIAS_PLACEHOLDER'', Some (Lit 38))]"

definition cudnnFusedOpsPointerPlaceHolder_t :: enum_decl where
  "cudnnFusedOpsPointerPlaceHolder_t =
    [(''CUDNN_PTR_NULL'', Some (Lit 0)),
     (''CUDNN_PTR_ELEM_ALIGNED'', Some (Lit 1)),
     (''CUDNN_PTR_16B_ALIGNED'', Some (Lit 2))]"

definition cudnnFusedOpsVariantParamLabel_t :: enum_decl where
  "cudnnFusedOpsVariantParamLabel_t =
    [(''CUDNN_PTR_XDATA'', Some (Lit 0)),
     (''CUDNN_PTR_BN_EQSCALE'', Some (Lit 1)),
     (''CUDNN_PTR_BN_EQBIAS'', Some (Lit 2)),
     (''CUDNN_PTR_WDATA'', Some (Lit 3)),
     (''CUDNN_PTR_DWDATA'', Some (Lit 4)),
     (''CUDNN_PTR_YDATA'', Some (Lit 5)),
     (''CUDNN_PTR_DYDATA'', Some (Lit 6)),
     (''CUDNN_PTR_YSUM'', Some (Lit 7)),
     (''CUDNN_PTR_YSQSUM'', Some (Lit 8)),
     (''CUDNN_PTR_WORKSPACE'', Some (Lit 9)),
     (''CUDNN_PTR_BN_SCALE'', Some (Lit 10)),
     (''CUDNN_PTR_BN_BIAS'', Some (Lit 11)),
     (''CUDNN_PTR_BN_SAVED_MEAN'', Some (Lit 12)),
     (''CUDNN_PTR_BN_SAVED_INVSTD'', Some (Lit 13)),
     (''CUDNN_PTR_BN_RUNNING_MEAN'', Some (Lit 14)),
     (''CUDNN_PTR_BN_RUNNING_VAR'', Some (Lit 15)),
     (''CUDNN_PTR_ZDATA'', Some (Lit 16)),
     (''CUDNN_PTR_BN_Z_EQSCALE'', Some (Lit 17)),
     (''CUDNN_PTR_BN_Z_EQBIAS'', Some (Lit 18)),
     (''CUDNN_PTR_ACTIVATION_BITMASK'', Some (Lit 19)),
     (''CUDNN_PTR_DXDATA'', Some (Lit 20)),
     (''CUDNN_PTR_DZDATA'', Some (Lit 21)),
     (''CUDNN_PTR_BN_DSCALE'', Some (Lit 22)),
     (''CUDNN_PTR_BN_DBIAS'', Some (Lit 23)),
     (''CUDNN_SCALAR_SIZE_T_WORKSPACE_SIZE_IN_BYTES'', Some (Lit 100)),
     (''CUDNN_SCALAR_INT64_T_BN_ACCUMULATION_COUNT'', Some (Lit 101)),
     (''CUDNN_SCALAR_DOUBLE_BN_EXP_AVG_FACTOR'', Some (Lit 102)),
     (''CUDNN_SCALAR_DOUBLE_BN_EPSILON'', Some (Lit 103))]"

section \<open>Values\<close>

definition cudnn_enums :: "(enum_env \<times> enum_decl) list" where
  "cudnn_enums =
    [([], cudnnStatus_t),
     ([], cudnnErrQueryMode_t),
     ([], libraryPropertyType),
     ([], cudnnDataType_t),
     ([], cudnnMathType_t),
     ([], cudnnNanPropagation_t),
     ([], cudnnDeterminism_t),
     ([], cudnnReorderType_t),
     ([], cudnnTensorFormat_t),
     ([], cudnnFoldingDirection_t),
     ([], cudnnOpTensorOp_t),
     ([], cudnnReduceTensorOp_t),
     ([], cudnnReduceTensorIndices_t),
     ([], cudnnIndicesType_t),
     ([], cudnnConvolutionMode_t),
     ([], cudnnConvolutionFwdPreference_t),
     ([], cudnnConvolutionFwdAlgo_t),
     ([], cudnnConvolutionBwdFilterPreference_t),
     ([], cudnnConvolutionBwdFilterAlgo_t),
     ([], cudnnConvolutionBwdDataPreference_t),
     ([], cudnnConvolutionBwdDataAlgo_t),
     ([], cudnnSoftmaxAlgorithm_t),
     ([], cudnnSoftmaxMode_t),
     ([], cudnnPoolingMode_t),
     ([], cudnnActivationMode_t),
     ([], cudnnLRNMode_t),
     ([], cudnnDivNormMode_t),
     ([], cudnnBatchNormMode_t),
     ([], cudnnBatchNormOps_t),
     ([], cudnnSamplerType_t),
     ([], cudnnRNNAlgo_t),
     ([], cudnnRNNMode_t),
     ([], cudnnRNNBiasMode_t),
     ([], cudnnDirectionMode_t),
     ([], cudnnRNNInputMode_t),
     ([], cudnnRNNClipMode_t),
     ([], cudnnRNNDataLayout_t),
     ([], cudnnRNNPaddingMode_t),
     ([], cudnnSeqDataAxis_t),
     ([], cudnnMultiHeadAttnWeightKind_t),
     ([], cudnnWgradMode_t),
     ([], cudnnCTCLossAlgo_t),
     ([], cudnnLossNormalizationMode_t),
     ([], cudnnSeverity_t),
     ([], cudnnFusedOps_t),
     ([], cudnnFusedOpsConstParamLabel_t),
     ([], cudnnFusedOpsPointerPlaceHolder_t),
     ([], cudnnFusedOpsVariantParamLabel_t)]"

lemma cudnnStatus_t_oversized [abi_oversized]: "oversized [] cudnnStatus_t = Some []"
  by (rule oversized_simple [THEN trans], simp_all add: fits_int_def cudnnStatus_t_def)

lemma cudnnErrQueryMode_t_oversized [abi_oversized]: "oversized [] cudnnErrQueryMode_t = Some []"
  by (rule oversized_simple [THEN trans], simp_all add: fits_int_def cudnnErrQueryMode_t_def)

lemma libraryPropertyType_oversized [abi_oversized]: "oversized [] libraryPropertyType = Some []"
  by (rule oversized_simple [THEN trans], simp_all add: fits_int_def libraryPropertyType_def)

lemma cudnnDataType_t_oversized [abi_oversized]: "oversized [] cudnnDataType_t = Some []"
  by (rule oversized_simple [THEN trans], simp_all add: fits_int_def cudnnDataType_t_def)

lemma cudnnMathType_t_oversized [abi_oversized]: "oversized [] cudnnMathType_t = Some []"
  by (rule oversized_simple [THEN trans], simp_all add: fits_int_def cudnnMathType_t_def)

lemma cudnnNanPropagation_t_oversized [abi_oversized]: "oversized [] cudnnNanPropagation_t = Some []"
  by (rule oversized_simple [THEN trans], simp_all add: fits_int_def cudnnNanPropagation_t_def)

lemma cudnnDeterminism_t_oversized [abi_oversized]: "oversized [] cudnnDeterminism_t = Some []"
  by (rule oversized_simple [THEN trans], simp_all add: fits_int_def cudnnDeterminism_t_def)

lemma cudnnReorderType_t_oversized [abi_oversized]: "oversized [] cudnnReorderType_t = Some []"
  by (rule oversized_simple [THEN trans], simp_all add: fits_int_def cudnnReorderType_t_def)

lemma cudnnTensorFormat_t_oversized [abi_oversized]: "oversized [] cudnnTensorFormat_t = Some []"
  by (rule oversized_simple [THEN trans], simp_all add: fits_int_def cudnnTensorFormat_t_def)

lemma cudnnFoldingDirection_t_oversized [abi_oversized]: "oversized [] cudnnFoldingDirection_t = Some []"
  by (rule oversized_simple [THEN trans], simp_all add: fits_int_def cudnnFoldingDirection_t_def)

lemma cudnnOpTensorOp_t_oversized [abi_oversized]: "oversized [] cudnnOpTensorOp_t = Some []"
  by (rule oversized_simple [THEN trans], simp_all add: fits_int_def cudnnOpTensorOp_t_def)

lemma cudnnReduceTensorOp_t_oversized [abi_oversized]: "oversized [] cudnnReduceTensorOp_t = Some []"
  by (rule oversized_simple [THEN trans], simp_all add: fits_int_def cudnnReduceTensorOp_t_def)

lemma cudnnReduceTensorIndices_t_oversized [abi_oversized]: "oversized [] cudnnReduceTensorIndices_t = Some []"
  by (rule oversized_simple [THEN trans], simp_all add: fits_int_def cudnnReduceTensorIndices_t_def)

lemma cudnnIndicesType_t_oversized [abi_oversized]: "oversized [] cudnnIndicesType_t = Some []"
  by (rule oversized_simple [THEN trans], simp_all add: fits_int_def cudnnIndicesType_t_def)

lemma cudnnConvolutionMode_t_oversized [abi_oversized]: "oversized [] cudnnConvolutionMode_t = Some []"
  by (rule oversized_simple [THEN trans], simp_all add: fits_int_def cudnnConvolutionMode_t_def)

lemma cudnnConvolutionFwdPreference_t_oversized [abi_oversized]: "oversized [] cudnnConvolutionFwdPreference_t = Some []"
  by (rule oversized_simple [THEN trans], simp_all add: fits_int_def cudnnConvolutionFwdPreference_t_def)

lemma cudnnConvolutionFwdAlgo_t_oversized [abi_oversized]: "oversized [] cudnnConvolutionFwdAlgo_t = Some []"
  by (rule oversized_simple [THEN trans], simp_all add: fits_int_def cudnnConvolutionFwdAlgo_t_def)

lemma cudnnConvolutionBwdFilterPreference_t_oversized [abi_oversized]: "oversized [] cudnnConvolutionBwdFilterPreference_t = Some []"
  by (rule oversized_simple [THEN trans], simp_all add: fits_int_def cudnnConvolutionBwdFilterPreference_t_def)

lemma cudnnConvolutionBwdFilterAlgo_t_oversized [abi_oversized]: "oversized [] cudnnConvolutionBwdFilterAlgo_t = Some []"
  by (rule oversized_simple [THEN trans], simp_all add: fits_int_def cudnnConvolutionBwdFilterAlgo_t_def)

lemma cudnnConvolutionBwdDataPreference_t_oversized [abi_oversized]: "oversized [] cudnnConvolutionBwdDataPreference_t = Some []"
  by (rule oversized_simple [THEN trans], simp_all add: fits_int_def cudnnConvolutionBwdDataPreference_t_def)

lemma cudnnConvolutionBwdDataAlgo_t_oversized [abi_oversized]: "oversized [] cudnnConvolutionBwdDataAlgo_t = Some []"
  by (rule oversized_simple [THEN trans], simp_all add: fits_int_def cudnnConvolutionBwdDataAlgo_t_def)

lemma cudnnSoftmaxAlgorithm_t_oversized [abi_oversized]: "oversized [] cudnnSoftmaxAlgorithm_t = Some []"
  by (rule oversized_simple [THEN trans], simp_all add: fits_int_def cudnnSoftmaxAlgorithm_t_def)

lemma cudnnSoftmaxMode_t_oversized [abi_oversized]: "oversized [] cudnnSoftmaxMode_t = Some []"
  by (rule oversized_simple [THEN trans], simp_all add: fits_int_def cudnnSoftmaxMode_t_def)

lemma cudnnPoolingMode_t_oversized [abi_oversized]: "oversized [] cudnnPoolingMode_t = Some []"
  by (rule oversized_simple [THEN trans], simp_all add: fits_int_def cudnnPoolingMode_t_def)

lemma cudnnActivationMode_t_oversized [abi_oversized]: "oversized [] cudnnActivationMode_t = Some []"
  by (rule oversized_simple [THEN trans], simp_all add: fits_int_def cudnnActivationMode_t_def)

lemma cudnnLRNMode_t_oversized [abi_oversized]: "oversized [] cudnnLRNMode_t = Some []"
  by (rule oversized_simple [THEN trans], simp_all add: fits_int_def cudnnLRNMode_t_def)

lemma cudnnDivNormMode_t_oversized [abi_oversized]: "oversized [] cudnnDivNormMode_t = Some []"
  by (rule oversized_simple [THEN trans], simp_all add: fits_int_def cudnnDivNormMode_t_def)

lemma cudnnBatchNormMode_t_oversized [abi_oversized]: "oversized [] cudnnBatchNormMode_t = Some []"
  by (rule oversized_simple [THEN trans], simp_all add: fits_int_def cudnnBatchNormMode_t_def)

lemma cudnnBatchNormOps_t_oversized [abi_oversized]: "oversized [] cudnnBatchNormOps_t = Some []"
  by (rule oversized_simple [THEN trans], simp_all add: fits_int_def cudnnBatchNormOps_t_def)

lemma cudnnSamplerType_t_oversized [abi_oversized]: "oversized [] cudnnSamplerType_t = Some []"
  by (rule oversized_simple [THEN trans], simp_all add: fits_int_def cudnnSamplerType_t_def)

lemma cudnnRNNAlgo_t_oversized [abi_oversized]: "oversized [] cudnnRNNAlgo_t = Some []"
  by (rule oversized_simple [THEN trans], simp_all add: fits_int_def cudnnRNNAlgo_t_def)

lemma cudnnRNNMode_t_oversized [abi_oversized]: "oversized [] cudnnRNNMode_t = Some []"
  by (rule oversized_simple [THEN trans], simp_all add: fits_int_def cudnnRNNMode_t_def)

lemma cudnnRNNBiasMode_t_oversized [abi_oversized]: "oversized [] cudnnRNNBiasMode_t = Some []"
  by (rule oversized_simple [THEN trans], simp_all add: fits_int_def cudnnRNNBiasMode_t_def)

lemma cudnnDirectionMode_t_oversized [abi_oversized]: "oversized [] cudnnDirectionMode_t = Some []"
  by (rule oversized_simple [THEN trans], simp_all add: fits_int_def cudnnDirectionMode_t_def)

lemma cudnnRNNInputMode_t_oversized [abi_oversized]: "oversized [] cudnnRNNInputMode_t = Some []"
  by (rule oversized_simple [THEN trans], simp_all add: fits_int_def cudnnRNNInputMode_t_def)

lemma cudnnRNNClipMode_t_oversized [abi_oversized]: "oversized [] cudnnRNNClipMode_t = Some []"
  by (rule oversized_simple [THEN trans], simp_all add: fits_int_def cudnnRNNClipMode_t_def)

lemma cudnnRNNDataLayout_t_oversized [abi_oversized]: "oversized [] cudnnRNNDataLayout_t = Some []"
  by (rule oversized_simple [THEN trans], simp_all add: fits_int_def cudnnRNNDataLayout_t_def)

lemma cudnnRNNPaddingMode_t_oversized [abi_oversized]: "oversized [] cudnnRNNPaddingMode_t = Some []"
  by (rule oversized_simple [THEN trans], simp_all add: fits_int_def cudnnRNNPaddingMode_t_def)

lemma cudnnSeqDataAxis_t_oversized [abi_oversized]: "oversized [] cudnnSeqDataAxis_t = Some []"
  by (rule oversized_simple [THEN trans], simp_all add: fits_int_def cudnnSeqDataAxis_t_def)

lemma cudnnMultiHeadAttnWeightKind_t_oversized [abi_oversized]: "oversized [] cudnnMultiHeadAttnWeightKind_t = Some []"
  by (rule oversized_simple [THEN trans], simp_all add: fits_int_def cudnnMultiHeadAttnWeightKind_t_def)

lemma cudnnWgradMode_t_oversized [abi_oversized]: "oversized [] cudnnWgradMode_t = Some []"
  by (rule oversized_simple [THEN trans], simp_all add: fits_int_def cudnnWgradMode_t_def)

lemma cudnnCTCLossAlgo_t_oversized [abi_oversized]: "oversized [] cudnnCTCLossAlgo_t = Some []"
  by (rule oversized_simple [THEN trans], simp_all add: fits_int_def cudnnCTCLossAlgo_t_def)

lemma cudnnLossNormalizationMode_t_oversized [abi_oversized]: "oversized [] cudnnLossNormalizationMode_t = Some []"
  by (rule oversized_simple [THEN trans], simp_all add: fits_int_def cudnnLossNormalizationMode_t_def)

lemma cudnnSeverity_t_oversized [abi_oversized]: "oversized [] cudnnSeverity_t = Some []"
  by (rule oversized_simple [THEN trans], simp_all add: fits_int_def cudnnSeverity_t_def)

lemma cudnnFusedOps_t_oversized [abi_oversized]: "oversized [] cudnnFusedOps_t = Some []"
  by (rule oversized_simple [THEN trans], simp_all add: fits_int_def cudnnFusedOps_t_def)

lemma cudnnFusedOpsConstParamLabel_t_oversized [abi_oversized]: "oversized [] cudnnFusedOpsConstParamLabel_t = Some []"
  by (rule oversized_simple [THEN trans], simp_all add: fits_int_def cudnnFusedOpsConstParamLabel_t_def)

lemma cudnnFusedOpsPointerPlaceHolder_t_oversized [abi_oversized]: "oversized [] cudnnFusedOpsPointerPlaceHolder_t = Some []"
  by (rule oversized_simple [THEN trans], simp_all add: fits_int_def cudnnFusedOpsPointerPlaceHolder_t_def)

lemma cudnnFusedOpsVariantParamLabel_t_oversized [abi_oversized]: "oversized [] cudnnFusedOpsVariantParamLabel_t = Some []"
  by (rule oversized_simple [THEN trans], simp_all add: fits_int_def cudnnFusedOpsVariantParamLabel_t_def)

lemma cudnn_oversized:
  "all_oversized cudnn_enums = Some []"
  by (simp add: cudnn_enums_def all_oversized_def abi_oversized)

end
