(* ===== verification/Abi_Math.thy ===== *)
theory Abi_Math
  imports C_Enum
begin

text \<open>
  The enumerations of the \<open>cublas\<close>, \<open>cublasLt\<close>, \<open>cufft\<close>, \<open>curand\<close>, \<open>cusolver\<close> and \<open>cusparse\<close>
  subset headers.
\<close>

section \<open>\<open>cublas_subset.h\<close>\<close>

definition cudaDataType :: enum_decl where
  "cudaDataType =
    [(''CUDA_R_16F'', Some (Lit 2)),
     (''CUDA_C_16F'', Some (Lit 6)),
     (''CUDA_R_32F'', Some (Lit 0)),
     (''CUDA_C_32F'', Some (Lit 4)),
     (''CUDA_R_64F'', Some (Lit 1)),
     (''CUDA_C_64F'', Some (Lit 5)),
     (''CUDA_R_8I'', Some (Lit 3)),
     (''CUDA_C_8I'', Some (Lit 7)),
     (''CUDA_R_8U'', Some (Lit 8)),
     (''CUDA_C_8U'', Some (Lit 9)),
     (''CUDA_R_32I'', Some (Lit 10)),
     (''CUDA_C_32I'', Some (Lit 11)),
     (''CUDA_R_32U'', Some (Lit 12)),
     (''CUDA_C_32U'', Some (Lit 13))]"

definition cublas_libraryPropertyType :: enum_decl where
  "cublas_libraryPropertyType =
    [(''MAJOR_VERSION'', None),
     (''MINOR_VERSION'', None),
     (''PATCH_LEVEL'', None)]"

definition cublasStatus_t :: enum_decl where
  "cublasStatus_t =
    [(''CUBLAS_STATUS_SUCCESS'', Some (Lit 0)),
     (''CUBLAS_STATUS_NOT_INITIALIZED'', Some (Lit 1)),
     (''CUBLAS_STATUS_ALLOC_FAILED'', Some (Lit 3)),
     (''CUBLAS_STATUS_INVALID_VALUE'', Some (Lit 7)),
     (''CUBLAS_STATUS_ARCH_MISMATCH'', Some (Lit 8)),
     (''CUBLAS_STATUS_MAPPING_ERROR'', Some (Lit 11)),
     (''CUBLAS_STATUS_EXECUTION_FAILED'', Some (Lit 13)),
     (''CUBLAS_STATUS_INTERNAL_ERROR'', Some (Lit 14)),
     (''CUBLAS_STATUS_NOT_SUPPORTED'', Some (Lit 15)),
     (''CUBLAS_STATUS_LICENSE_ERROR'', Some (Lit 16))]"

definition cublasFillMode_t :: enum_decl where
  "cublasFillMode_t =
    [(''CUBLAS_FILL_MODE_LOWER'', Some (Lit 0)),
     (''CUBLAS_FILL_MODE_UPPER'', Some (Lit 1)),
     (''CUBLAS_FILL_MODE_FULL'', Some (Lit 2))]"

definition cublasDiagType_t :: enum_decl where
  "cublasDiagType_t =
    [(''CUBLAS_DIAG_NON_UNIT'', Some (Lit 0)),
     (''CUBLAS_DIAG_UNIT'', Some (Lit 1))]"

definition cublasSideMode_t :: enum_decl where
  "cublasSideMode_t =
    [(''CUBLAS_SIDE_LEFT'', Some (Lit 0)),
     (''CUBLAS_SIDE_RIGHT'', Some (Lit 1))]"

definition cublasOperation_t :: enum_decl where
  "cublasOperation_t =
    [(''CUBLAS_OP_N'', Some (Lit 0)),
     (''CUBLAS_OP_T'', Some (Lit 1)),
     (''CUBLAS_OP_C'', Some (Lit 2)),
     (''CUBLAS_OP_HERMITAN'', Some (Lit 2)),
     (''CUBLAS_OP_CONJG'', Some (Lit 3))]"

definition cublasPointerMode_t :: enum_decl where
  "cublasPointerMode_t =
    [(''CUBLAS_POINTER_MODE_HOST'', Some (Lit 0)),
     (''CUBLAS_POINTER_MODE_DEVICE'', Some (Lit 1))]"

definition cublasAtomicsMode_t :: enum_decl where
  "cublasAtomicsMode_t =
    [(''CUBLAS_ATOMICS_NOT_ALLOWED'', Some (Lit 0)),
     (''CUBLAS_ATOMICS_ALLOWED'', Some (Lit 1))]"

definition cublasGemmAlgo_t :: enum_decl where
  "cublasGemmAlgo_t =
    [(''CUBLAS_GEMM_DFALT'', Some (Lit (- 1))),
     (''CUBLAS_GEMM_DEFAULT'', Some (Lit (- 1))),
     (''CUBLAS_GEMM_ALGO0'', Some (Lit 0)),
     (''CUBLAS_GEMM_ALGO1'', Some (Lit 1)),
     (''CUBLAS_GEMM_ALGO2'', Some (Lit 2)),
     (''CUBLAS_GEMM_ALGO3'', Some (Lit 3)),
     (''CUBLAS_GEMM_ALGO4'', Some (Lit 4)),
     (''CUBLAS_GEMM_ALGO5'', Some (Lit 5)),
     (''CUBLAS_GEMM_ALGO6'', Some (Lit 6)),
     (''CUBLAS_GEMM_ALGO7'', Some (Lit 7)),
     (''CUBLAS_GEMM_ALGO8'', Some (Lit 8)),
     (''CUBLAS_GEMM_ALGO9'', Some (Lit 9)),
     (''CUBLAS_GEMM_ALGO10'', Some (Lit 10)),
     (''CUBLAS_GEMM_ALGO11'', Some (Lit 11)),
     (''CUBLAS_GEMM_ALGO12'', Some (Lit 12)),
     (''CUBLAS_GEMM_ALGO13'', Some (Lit 13)),
     (''CUBLAS_GEMM_ALGO14'', Some (Lit 14)),
     (''CUBLAS_GEMM_ALGO15'', Some (Lit 15)),
     (''CUBLAS_GEMM_ALGO16'', Some (Lit 16)),
     (''CUBLAS_GEMM_ALGO17'', Some (Lit 17)),
     (''CUBLAS_GEMM_ALGO18'', Some (Lit 18)),
     (''CUBLAS_GEMM_ALGO19'', Some (Lit 19)),
     (''CUBLAS_GEMM_ALGO20'', Some (Lit 20)),
     (''CUBLAS_GEMM_ALGO21'', Some (Lit 21)),
     (''CUBLAS_GEMM_ALGO22'', Some (Lit 22)),
     (''CUBLAS_GEMM_ALGO23'', Some (Lit 23)),
     (''CUBLAS_GEMM_DEFAULT_TENSOR_OP'', Some (Lit 99)),
     (''CUBLAS_GEMM_DFALT_TENSOR_OP'', Some (Lit 99)),
     (''CUBLAS_GEMM_ALGO0_TENSOR_OP'', Some (Lit 100)),
     (''CUBLAS_GEMM_ALGO1_TENSOR_OP'', Some (Lit 101)),
     (''CUBLAS_GEMM_ALGO2_TENSOR_OP'', Some (Lit 102)),
     (''CUBLAS_GEMM_ALGO3_TENSOR_OP'', Some (Lit 103)),
     (''CUBLAS_GEMM_ALGO4_TENSOR_OP'', Some (Lit 104)),
     (''CUBLAS_GEMM_ALGO5_TENSOR_OP'', Some (Lit 105)),
     (''CUBLAS_GEMM_ALGO6_TENSOR_OP'', Some (Lit 106)),
     (''CUBLAS_GEMM_ALGO7_TENSOR_OP'', Some (Lit 107)),
     (''CUBLAS_GEMM_ALGO8_TENSOR_OP'', Some (Lit 108)),
     (''CUBLAS_GEMM_ALGO9_TENSOR_OP'', Some (Lit 109)),
     (''CUBLAS_GEMM_ALGO10_TENSOR_OP'', Some (Lit 110)),
     (''CUBLAS_GEMM_ALGO11_TENSOR_OP'', Some (Lit 111)),
     (''CUBLAS_GEMM_ALGO12_TENSOR_OP'', Some (Lit 112)),
     (''CUBLAS_GEMM_ALGO13_TENSOR_OP'', Some (Lit 113)),
     (''CUBLAS_GEMM_ALGO14_TENSOR_OP'', Some (Lit 114)),
     (''CUBLAS_GEMM_ALGO15_TENSOR_OP'', Some (Lit 115))]"

definition cublasMath_t :: enum_decl where
  "cublasMath_t =
    [(''CUBLAS_DEFAULT_MATH'', Some (Lit 0)),
     (''CUBLAS_TENSOR_OP_MATH'', Some (Lit 1)),
     (''CUBLAS_PEDANTIC_MATH'', Some (Lit 2)),
     (''CUBLAS_TF32_TENSOR_OP_MATH'', Some (Lit 3)),
     (''CUBLAS_MATH_DISALLOW_REDUCED_PRECISION_REDUCTION'', Some (Lit 16))]"

definition cublasComputeType_t :: enum_decl where
  "cublasComputeType_t =
    [(''CUBLAS_COMPUTE_16F'', Some (Lit 64)),
     (''CUBLAS_COMPUTE_16F_PEDANTIC'', Some (Lit 65)),
     (''CUBLAS_COMPUTE_32F'', Some (Lit 68)),
     (''CUBLAS_COMPUTE_32F_PEDANTIC'', Some (Lit 69)),
     (''CUBLAS_COMPUTE_32F_FAST_16F'', Some (Lit 74)),
     (''CUBLAS_COMPUTE_32F_FAST_16BF'', Some (Lit 75)),
     (''CUBLAS_COMPUTE_32F_FAST_TF32'', Some (Lit 77)),
     (''CUBLAS_COMPUTE_64F'', Some (Lit 70)),
     (''CUBLAS_COMPUTE_64F_PEDANTIC'', Some (Lit 71)),
     (''CUBLAS_COMPUTE_32I'', Some (Lit 72)),
     (''CUBLAS_COMPUTE_32I_PEDANTIC'', Some (Lit 73))]"

definition cublasXtPinnedMemMode_t :: enum_decl where
  "cublasXtPinnedMemMode_t =
    [(''CUBLASXT_PINNING_DISABLED'', Some (Lit 0)),
     (''CUBLASXT_PINNING_ENABLED'', Some (Lit 1))]"

definition cublasXtOpType_t :: enum_decl where
  "cublasXtOpType_t =
    [(''CUBLASXT_FLOAT'', Some (Lit 0)),
     (''CUBLASXT_DOUBLE'', Some (Lit 1)),
     (''CUBLASXT_COMPLEX'', Some (Lit 2)),
     (''CUBLASXT_DOUBLECOMPLEX'', Some (Lit 3))]"

definition cublasXtBlasOp_t :: enum_decl where
  "cublasXtBlasOp_t =
    [(''CUBLASXT_GEMM'', Some (Lit 0)),
     (''CUBLASXT_SYRK'', Some (Lit 1)),
     (''CUBLASXT_HERK'', Some (Lit 2)),
     (''CUBLASXT_SYMM'', Some (Lit 3)),
     (''CUBLASXT_HEMM'', Some (Lit 4)),
     (''CUBLASXT_TRSM'', Some (Lit 5)),
     (''CUBLASXT_SYR2K'', Some (Lit 6)),
     (''CUBLASXT_HER2K'', Some (Lit 7)),
     (''CUBLASXT_SPMM'', Some (Lit 8)),
     (''CUBLASXT_SYRKX'', Some (Lit 9)),
     (''CUBLASXT_HERKX'', Some (Lit 10)),
     (''CUBLASXT_TRMM'', Some (Lit 11)),
     (''CUBLASXT_ROUTINE_MAX'', Some (Lit 12))]"

section \<open>\<open>cublasLt_subset.h\<close>\<close>

definition cublasLtMatmulTile_t :: enum_decl where
  "cublasLtMatmulTile_t =
    [(''CUBLASLT_MATMUL_TILE_UNDEFINED'', Some (Lit 0)),
     (''CUBLASLT_MATMUL_TILE_8x8'', Some (Lit 1)),
     (''CUBLASLT_MATMUL_TILE_8x16'', Some (Lit 2)),
     (''CUBLASLT_MATMUL_TILE_16x8'', Some (Lit 3)),
     (''CUBLASLT_MATMUL_TILE_8x32'', Some (Lit 4)),
     (''CUBLASLT_MATMUL_TILE_16x16'', Some (Lit 5)),
     (''CUBLASLT_MATMUL_TILE_32x8'', Some (Lit 6)),
     (''CUBLASLT_MATMUL_TILE_8x64'', Some (Lit 7)),
     (''CUBLASLT_MATMUL_TILE_16x32'', Some (Lit 8)),
     (''CUBLASLT_MATMUL_TILE_32x16'', Some (Lit 9)),
     (''CUBLASLT_MATMUL_TILE_64x8'', Some (Lit 10)),
     (''CUBLASLT_MATMUL_TILE_32x32'', Some (Lit 11)),
     (''CUBLASLT_MATMUL_TILE_32x64'', Some (Lit 12)),
     (''CUBLASLT_MATMUL_TILE_64x32'', Some (Lit 13)),
     (''CUBLASLT_MATMUL_TILE_32x128'', Some (Lit 14)),
     (''CUBLASLT_MATMUL_TILE_64x64'', Some (Lit 15)),
     (''CUBLASLT_MATMUL_TILE_128x32'', Some (Lit 16)),
     (''CUBLASLT_MATMUL_TILE_64x128'', Some (Lit 17)),
     (''CUBLASLT_MATMUL_TILE_128x64'', Some (Lit 18)),
     (''CUBLASLT_MATMUL_TILE_64x256'', Some (Lit 19)),
     (''CUBLASLT_MATMUL_TILE_128x128'', Some (Lit 20)),
     (''CUBLASLT_MATMUL_TILE_256x64'', Some (Lit 21)),
     (''CUBLASLT_MATMUL_TILE_64x512'', Some (Lit 22)),
     (''CUBLASLT_MATMUL_TILE_128x256'', Some (Lit 23)),
     (''CUBLASLT_MATMUL_TILE_256x128'', Some (Lit 24)),
     (''CUBLASLT_MATMUL_TILE_512x64'', Some (Lit 25)),
     (''CUBLASLT_MATMUL_TILE_64x96'', Some (Lit 26)),
     (''CUBLASLT_MATMUL_TILE_96x64'', Some (Lit 27)),
     (''CUBLASLT_MATMUL_TILE_96x128'', Some (Lit 28)),
     (''CUBLASLT_MATMUL_TILE_128x160'', Some (Lit 29)),
     (''CUBLASLT_MATMUL_TILE_160x128'', Some (Lit 30)),
     (''CUBLASLT_MATMUL_TILE_192x128'', Some (Lit 31)),
     (''CUBLASLT_MATMUL_TILE_END'', None)]"

definition cublasLtMatmulStages_t :: enum_decl where
  "cublasLtMatmulStages_t =
    [(''CUBLASLT_MATMUL_STAGES_UNDEFINED'', Some (Lit 0)),
     (''CUBLASLT_MATMUL_STAGES_16x1'', Some (Lit 1)),
     (''CUBLASLT_MATMUL_STAGES_16x2'', Some (Lit 2)),
     (''CUBLASLT_MATMUL_STAGES_16x3'', Some (Lit 3)),
     (''CUBLASLT_MATMUL_STAGES_16x4'', Some (Lit 4)),
     (''CUBLASLT_MATMUL_STAGES_16x5'', Some (Lit 5)),
     (''CUBLASLT_MATMUL_STAGES_16x6'', Some (Lit 6)),
     (''CUBLASLT_MATMUL_STAGES_32x1'', Some (Lit 7)),
     (''CUBLASLT_MATMUL_STAGES_32x2'', Some (Lit 8)),
     (''CUBLASLT_MATMUL_STAGES_32x3'', Some (Lit 9)),
     (''CUBLASLT_MATMUL_STAGES_32x4'', Some (Lit 10)),
     (''CUBLASLT_MATMUL_STAGES_32x5'', Some (Lit 11)),
     (''CUBLASLT_MATMUL_STAGES_32x6'', Some (Lit 12)),
     (''CUBLASLT_MATMUL_STAGES_64x1'', Some (Lit 13)),
     (''CUBLASLT_MATMUL_STAGES_64x2'', Some (Lit 14)),
     (''CUBLASLT_MATMUL_STAGES_64x3'', Some (Lit 15)),
     (''CUBLASLT_MATMUL_STAGES_64x4'', Some (Lit 16)),
     (''CUBLASLT_MATMUL_STAGES_64x5'', Some (Lit 17)),
     (''CUBLASLT_MATMUL_STAGES_64x6'', Some (Lit 18)),
     (''CUBLASLT_MATMUL_STAGES_128x1'', Some (Lit 19)),
     (''CUBLASLT_MATMUL_STAGES_128x2'', Some (Lit 20)),
     (''CUBLASLT_MATMUL_STAGES_128x3'', Some (Lit 21)),
     (''CUBLASLT_MATMUL_STAGES_128x4'', Some (Lit 22)),
     (''CUBLASLT_MATMUL_STAGES_128x5'', Some (Lit 23)),
     (''CUBLASLT_MATMUL_STAGES_128x6'', Some (Lit 24)),
     (''CUBLASLT_MATMUL_STAGES_32x10'', Some (Lit 25)),
     (''CUBLASLT_MATMUL_STAGES_8x4'', Some (Lit 26)),
     (''CUBLASLT_MATMUL_STAGES_16x10'', Some (Lit 27)),
     (''CUBLASLT_MATMUL_STAGES_8x5'', Some (Lit 28)),
     (''CUBLASLT_MATMUL_STAGES_16x80'', Some (Lit 29)),
     (''CUBLASLT_MATMUL_STAGES_64x80'', Some (Lit 30)),
     (''CUBLASLT_MATMUL_STAGES_END'', None)]"

definition cublasLtPointerMode_t :: enum_decl where
  "cublasLtPointerMode_t =
    [(''CUBLASLT_POINTER_MODE_HOST'', Some (Name ''CUBLAS_POINTER_MODE_HOST'')),
     (''CUBLASLT_POINTER_MODE_DEVICE'', Some (Name ''CUBLAS_POINTER_MODE_DEVICE'')),
     (''CUBLASLT_POINTER_MODE_DEVICE_VECTOR'', Some (Lit 2)),
     (''CUBLASLT_POINTER_MODE_ALPHA_DEVICE_VECTOR_BETA_ZERO'', Some (Lit 3)),
     (''CUBLASLT_POINTER_MODE_ALPHA_DEVICE_VECTOR_BETA_HOST'', Some (Lit 4))]"

definition cublasLtPointerModeMask_t :: enum_decl where
  "cublasLtPointerModeMask_t =
    [(''CUBLASLT_POINTER_MODE_MASK_NO_FILTERING'', Some (Lit 0)),
     (''CUBLASLT_POINTER_MODE_MASK_HOST'', Some (Lit 1)),
     (''CUBLASLT_POINTER_MODE_MASK_DEVICE'', Some (Lit 2)),
     (''CUBLASLT_POINTER_MODE_MASK_DEVICE_VECTOR'', Some (Lit 4)),
     (''CUBLASLT_POINTER_MODE_MASK_ALPHA_DEVICE_VECTOR_BETA_ZERO'', Some (Lit 8)),
     (''CUBLASLT_POINTER_MODE_MASK_ALPHA_DEVICE_VECTOR_BETA_HOST'', Some (Lit 16))]"

definition cublasLtOrder_t :: enum_decl where
  "cublasLtOrder_t =
    [(''CUBLASLT_ORDER_COL'', Some (Lit 0)),
     (''CUBLASLT_ORDER_ROW'', Some (Lit 1)),
     (''CUBLASLT_ORDER_COL32'', Some (Lit 2)),
     (''CUBLASLT_ORDER_COL4_4R2_8C'', Some (Lit 3)),
     (''CUBLASLT_ORDER_COL32_2R_4R4'', Some (Lit 4))]"

definition cublasLtMatrixLayoutAttribute_t :: enum_decl where
  "cublasLtMatrixLayoutAttribute_t =
    [(''CUBLASLT_MATRIX_LAYOUT_TYPE'', Some (Lit 0)),
     (''CUBLASLT_MATRIX_LAYOUT_ORDER'', Some (Lit 1)),
     (''CUBLASLT_MATRIX_LAYOUT_ROWS'', Some (Lit 2)),
     (''CUBLASLT_MATRIX_LAYOUT_COLS'', Some (Lit 3)),
     (''CUBLASLT_MATRIX_LAYOUT_LD'', Some (Lit 4)),
     (''CUBLASLT_MATRIX_LAYOUT_BATCH_COUNT'', Some (Lit 5)),
     (''CUBLASLT_MATRIX_LAYOUT_STRIDED_BATCH_OFFSET'', Some (Lit 6)),
     (''CUBLASLT_MATRIX_LAYOUT_PLANE_OFFSET'', Some (Lit 7))]"

definition cublasLtMatmulDescAttributes_t :: enum_decl where
  "cublasLtMatmulDescAttributes_t =
    [(''CUBLASLT_MATMUL_DESC_COMPUTE_TYPE'', Some (Lit 0)),
     (''CUBLASLT_MATMUL_DESC_SCALE_TYPE'', Some (Lit 1)),
     (''CUBLASLT_MATMUL_DESC_POINTER_MODE'', Some (Lit 2)),
     (''CUBLASLT_MATMUL_DESC_TRANSA'', Some (Lit 3)),
     (''CUBLASLT_MATMUL_DESC_TRANSB'', Some (Lit 4)),
     (''CUBLASLT_MATMUL_DESC_TRANSC'', Some (Lit 5)),
     (''CUBLASLT_MATMUL_DESC_FILL_MODE'', Some (Lit 6)),
     (''CUBLASLT_MATMUL_DESC_EPILOGUE'', Some (Lit 7)),
     (''CUBLASLT_MATMUL_DESC_BIAS_POINTER'', Some (Lit 8)),
     (''CUBLASLT_MATMUL_DESC_BIAS_BATCH_STRIDE'', Some (Lit 10)),
     (''CUBLASLT_MATMUL_DESC_EPILOGUE_AUX_POINTER'', Some (Lit 11)),
     (''CUBLASLT_MATMUL_DESC_EPILOGUE_AUX_LD'', Some (Lit 12)),
     (''CUBLASLT_MATMUL_DESC_EPILOGUE_AUX_BATCH_STRIDE'', Some (Lit 13)),
     (''CUBLASLT_MATMUL_DESC_ALPHA_VECTOR_BATCH_STRIDE'', Some (Lit 14))]"

definition cublasLtMatrixTransformDescAttributes_t :: enum_decl where
  "cublasLtMatrixTransformDescAttributes_t =
    [(''CUBLASLT_MATRIX_TRANSFORM_DESC_SCALE_TYPE'', None),
     (''CUBLASLT_MATRIX_TRANSFORM_DESC_POINTER_MODE'', None),
     (''CUBLASLT_MATRIX_TRANSFORM_DESC_TRANSA'', None),
     (''CUBLASLT_MATRIX_TRANSFORM_DESC_TRANSB'', None)]"

definition cublasLt3mMode_t :: enum_decl where
  "cublasLt3mMode_t =
    [(''CUBLASLT_3M_MODE_DISALLOWED'', Some (Lit 0)),
     (''CUBLASLT_3M_MODE_ALLOWED'', Some (Lit 1))]"

definition cublasLtReductionScheme_t :: enum_decl where
  "cublasLtReductionScheme_t =
    [(''CUBLASLT_REDUCTION_SCHEME_NONE'', Some (Lit 0)),
     (''CUBLASLT_REDUCTION_SCHEME_INPLACE'', Some (Lit 1)),
     (''CUBLASLT_REDUCTION_SCHEME_COMPUTE_TYPE'', Some (Lit 2)),
     (''CUBLASLT_REDUCTION_SCHEME_OUTPUT_TYPE'', Some (Lit 4)),
     (''CUBLASLT_REDUCTION_SCHEME_MASK'', Some (Lit 0x7))]"

definition cublasLtEpilogue_t :: enum_decl where
  "cublasLtEpilogue_t =
    [(''CUBLASLT_EPILOGUE_DEFAULT'', Some (Lit 1)),
     (''CUBLASLT_EPILOGUE_RELU'', Some (Lit 2)),
     (''CUBLASLT_EPILOGUE_RELU_AUX'', Some (BitOr (Name ''CUBLASLT_EPILOGUE_RELU'') (Lit 128))),
     (''CUBLASLT_EPILOGUE_BIAS'', Some (Lit 4)),
     (''CUBLASLT_EPILOGUE_RELU_BIAS'', Some (BitOr (Name ''CUBLASLT_EPILOGUE_RELU'') (Name ''CUBLASLT_EPILOGUE_BIAS''))),
     (''CUBLASLT_EPILOGUE_RELU_AUX_BIAS'', Some (BitOr (Name ''CUBLASLT_EPILOGUE_RELU_AUX'') (Name ''CUBLASLT_EPILOGUE_BIAS''))),
     (''CUBLASLT_EPILOGUE_DRELU_BGRAD'', Some (BitOr (BitOr (Lit 8) (Lit 16)) (Lit 128))),
     (''CUBLASLT_EPILOGUE_GELU'', Some (Lit 32)),
     (''CUBLASLT_EPILOGUE_GELU_AUX'', Some (BitOr (Name ''CUBLASLT_EPILOGUE_GELU'') (Lit 128))),
     (''CUBLASLT_EPILOGUE_GELU_BIAS'', Some (BitOr (Name ''CUBLASLT_EPILOGUE_GELU'') (Name ''CUBLASLT_EPILOGUE_BIAS''))),
     (''CUBLASLT_EPILOGUE_GELU_AUX_BIAS'', Some (BitOr (Name ''CUBLASLT_EPILOGUE_GELU_AUX'') (Name ''CUBLASLT_EPILOGUE_BIAS''))),
     (''CUBLASLT_EPILOGUE_DGELU_BGRAD'', Some (BitOr (BitOr (Lit 16) (Lit 64)) (Lit 128))),
     (''CUBLASLT_EPILOGUE_BGRADA'', Some (Lit 256)),
     (''CUBLASLT_EPILOGUE_BGRADB'', Some (Lit 512))]"

definition cublasLtMatmulSearch_t :: enum_decl where
  "cublasLtMatmulSearch_t =
    [(''CUBLASLT_SEARCH_BEST_FIT'', Some (Lit 0)),
     (''CUBLASLT_SEARCH_LIMITED_BY_ALGO_ID'', Some (Lit 1)),
     (''CUBLASLT_SEARCH_RESERVED_02'', Some (Lit 2)),
     (''CUBLASLT_SEARCH_RESERVED_03'', Some (Lit 3)),
     (''CUBLASLT_SEARCH_RESERVED_04'', Some (Lit 4)),
     (''CUBLASLT_SEARCH_RESERVED_05'', Some (Lit 5))]"

definition cublasLtMatmulPreferenceAttributes_t :: enum_decl where
  "cublasLtMatmulPreferenceAttributes_t =
    [(''CUBLASLT_MATMUL_PREF_SEARCH_MODE'', Some (Lit 0)),
     (''CUBLASLT_MATMUL_PREF_MAX_WORKSPACE_BYTES'', Some (Lit 1)),
     (''CUBLASLT_MATMUL_PREF_MATH_MODE_MASK'', Some (Lit 2)),
     (''CUBLASLT_MATMUL_PREF_REDUCTION_SCHEME_MASK'', Some (Lit 3)),
     (''CUBLASLT_MATMUL_PREF_GAUSSIAN_MODE_MASK'', Some (Lit 4)),
     (''CUBLASLT_MATMUL_PREF_MIN_ALIGNMENT_A_BYTES'', Some (Lit 5)),
     (''CUBLASLT_MATMUL_PREF_MIN_ALIGNMENT_B_BYTES'', Some (Lit 6)),
     (''CUBLASLT_MATMUL_PREF_MIN_ALIGNMENT_C_BYTES'', Some (Lit 7)),
     (''CUBLASLT_MATMUL_PREF_MIN_ALIGNMENT_D_BYTES'', Some (Lit 8)),
     (''CUBLASLT_MATMUL_PREF_MAX_WAVES_COUNT'', Some (Lit 9)),
     (''CUBLASLT_MATMUL_PREF_POINTER_MODE_MASK'', Some (Lit 10)),
     (''CUBLASLT_MATMUL_PREF_EPILOGUE_MASK'', Some (Lit 11)),
     (''CUBLASLT_MATMUL_PREF_IMPL_MASK'', Some (Lit 12)),
     (''CUBLASLT_MATMUL_PREF_SM_COUNT_TARGET'', Some (Lit 13))]"

definition cublasLtMatmulAlgoCapAttributes_t :: enum_decl where
  "cublasLtMatmulAlgoCapAttributes_t =
    [(''CUBLASLT_ALGO_CAP_SPLITK_SUPPORT'', Some (Lit 0)),
     (''CUBLASLT_ALGO_CAP_REDUCTION_SCHEME_MASK'', Some (Lit 1)),
     (''CUBLASLT_ALGO_CAP_CTA_SWIZZLING_SUPPORT'', Some (Lit 2)),
     (''CUBLASLT_ALGO_CAP_STRIDED_BATCH_SUPPORT'', Some (Lit 3)),
     (''CUBLASLT_ALGO_CAP_OUT_OF_PLACE_RESULT_SUPPORT'', Some (Lit 4)),
     (''CUBLASLT_ALGO_CAP_UPLO_SUPPORT'', Some (Lit 5)),
     (''CUBLASLT_ALGO_CAP_TILE_IDS'', Some (Lit 6)),
     (''CUBLASLT_ALGO_CAP_CUSTOM_OPTION_MAX'', Some (Lit 7)),
     (''CUBLASLT_ALGO_CAP_MATHMODE_IMPL'', Some (Lit 8)),
     (''CUBLASLT_ALGO_CAP_GAUSSIAN_IMPL'', Some (Lit 9)),
     (''CUBLASLT_ALGO_CAP_CUSTOM_MEMORY_ORDER'', Some (Lit 10)),
     (''CUBLASLT_ALGO_CAP_POINTER_MODE_MASK'', Some (Lit 11)),
     (''CUBLASLT_ALGO_CAP_EPILOGUE_MASK'', Some (Lit 12)),
     (''CUBLASLT_ALGO_CAP_STAGES_IDS'', Some (Lit 13)),
     (''CUBLASLT_ALGO_CAP_LD_NEGATIVE'', Some (Lit 14)),
     (''CUBLASLT_ALGO_CAP_NUMERICAL_IMPL_FLAGS'', Some (Lit 15)),
     (''CUBLASLT_ALGO_CAP_MIN_ALIGNMENT_A_BYTES'', Some (Lit 16)),
     (''CUBLASLT_ALGO_CAP_MIN_ALIGNMENT_B_BYTES'', Some (Lit 17)),
     (''CUBLASLT_ALGO_CAP_MIN_ALIGNMENT_C_BYTES'', Some (Lit 18)),
     (''CUBLASLT_ALGO_CAP_MIN_ALIGNMENT_D_BYTES'', Some (Lit 19))]"

definition cublasLtMatmulAlgoConfigAttributes_t :: enum_decl where
  "cublasLtMatmulAlgoConfigAttributes_t =
    [(''CUBLASLT_ALGO_CONFIG_ID'', Some (Lit 0)),
     (''CUBLASLT_ALGO_CONFIG_TILE_ID'', Some (Lit 1)),
     (''CUBLASLT_ALGO_CONFIG_SPLITK_NUM'', Some (Lit 2)),
     (''CUBLASLT_ALGO_CONFIG_REDUCTION_SCHEME'', Some (Lit 3)),
     (''CUBLASLT_ALGO_CONFIG_CTA_SWIZZLING'', Some (Lit 4)),
     (''CUBLASLT_ALGO_CONFIG_CUSTOM_OPTION'', Some (Lit 5)),
     (''CUBLASLT_ALGO_CONFIG_STAGES_ID'', Some (Lit 6))]"

section \<open>\<open>cufft_subset.h\<close>\<close>

definition cufftResult :: enum_decl where
  "cufftResult =
    [(''CUFFT_SUCCESS'', Some (Lit 0x0)),
     (''CUFFT_INVALID_PLAN'', Some (Lit 0x1)),
     (''CUFFT_ALLOC_FAILED'', Some (Lit 0x2)),
     (''CUFFT_INVALID_TYPE'', Some (Lit 0x3)),
     (''CUFFT_INVALID_VALUE'', Some (Lit 0x4)),
     (''CUFFT_INTERNAL_ERROR'', Some (Lit 0x5)),
     (''CUFFT_EXEC_FAILED'', Some (Lit 0x6)),
     (''CUFFT_SETUP_FAILED'', Some (Lit 0x7)),
     (''CUFFT_INVALID_SIZE'', Some (Lit 0x8)),
     (''CUFFT_UNALIGNED_DATA'', Some (Lit 0x9)),
     (''CUFFT_INCOMPLETE_PARAMETER_LIST'', Some (Lit 0xa)),
     (''CUFFT_INVALID_DEVICE'', Some (Lit 0xb)),
     (''CUFFT_PARSE_ERROR'', Some (Lit 0xc)),
     (''CUFFT_NO_WORKSPACE'', Some (Lit 0xd)),
     (''CUFFT_NOT_IMPLEMENTED'', Some (Lit 0xe)),
     (''CUFFT_LICENSE_ERROR'', Some (Lit 0x0f)),
     (''CUFFT_NOT_SUPPORTED'', Some (Lit 0x10))]"

definition cufftType :: enum_decl where
  "cufftType =
    [(''CUFFT_R2C'', Some (Lit 0x2a)),
     (''CUFFT_C2R'', Some (Lit 0x2c)),
     (''CUFFT_C2C'', Some (Lit 0x29)),
     (''CUFFT_D2Z'', Some (Lit 0x6a)),
     (''CUFFT_Z2D'', Some (Lit 0x6c)),
     (''CUFFT_Z2Z'', Some (Lit 0x69))]"

definition cufftCompatibility :: enum_decl where
  "cufftCompatibility =
    [(''CUFFT_COMPATIBILITY_FFTW_PADDING'', Some (Lit 0x01))]"

definition cufftXtSubFormat :: enum_decl where
  "cufftXtSubFormat =
    [(''CUFFT_XT_FORMAT_INPUT'', Some (Lit 0x00)),
     (''CUFFT_XT_FORMAT_OUTPUT'', Some (Lit 0x01)),
     (''CUFFT_XT_FORMAT_INPLACE'', Some (Lit 0x02)),
     (''CUFFT_XT_FORMAT_INPLACE_SHUFFLED'', Some (Lit 0x03)),
     (''CUFFT_XT_FORMAT_1D_INPUT_SHUFFLED'', Some (Lit 0x04)),
     (''CUFFT_FORMAT_UNDEFINED'', Some (Lit 0x05))]"

definition cufftXtCopyType :: enum_decl where
  "cufftXtCopyType =
    [(''CUFFT_COPY_HOST_TO_DEVICE'', Some (Lit 0x00)),
     (''CUFFT_COPY_DEVICE_TO_HOST'', Some (Lit 0x01)),
     (''CUFFT_COPY_DEVICE_TO_DEVICE'', Some (Lit 0x02)),
     (''CUFFT_COPY_UNDEFINED'', Some (Lit 0x03))]"

definition cufftXtQueryType :: enum_decl where
  "cufftXtQueryType =
    [(''CUFFT_QUERY_1D_FACTORS'', Some (Lit 0x00)),
     (''CUFFT_QUERY_UNDEFINED'', Some (Lit 0x01))]"

definition cufftXtWorkAreaPolicy :: enum_decl where
  "cufftXtWorkAreaPolicy =
    [(''CUFFT_WORKAREA_MINIMAL'', Some (Lit 0)),
     (''CUFFT_WORKAREA_USER'', Some (Lit 1)),
     (''CUFFT_WORKAREA_PERFORMANCE'', Some (Lit 2))]"

definition cufftXtCallbackType :: enum_decl where
  "cufftXtCallbackType =
    [(''CUFFT_CB_LD_COMPLEX'', Some (Lit 0x0)),
     (''CUFFT_CB_LD_COMPLEX_DOUBLE'', Some (Lit 0x1)),
     (''CUFFT_CB_LD_REAL'', Some (Lit 0x2)),
     (''CUFFT_CB_LD_REAL_DOUBLE'', Some (Lit 0x3)),
     (''CUFFT_CB_ST_COMPLEX'', Some (Lit 0x4)),
     (''CUFFT_CB_ST_COMPLEX_DOUBLE'', Some (Lit 0x5)),
     (''CUFFT_CB_ST_REAL'', Some (Lit 0x6)),
     (''CUFFT_CB_ST_REAL_DOUBLE'', Some (Lit 0x7)),
     (''CUFFT_CB_UNDEFINED'', Some (Lit 0x8))]"

definition cudaXtCopyType_t :: enum_decl where
  "cudaXtCopyType_t =
    [(''LIB_XT_COPY_HOST_TO_DEVICE'', None),
     (''LIB_XT_COPY_DEVICE_TO_HOST'', None),
     (''LIB_XT_COPY_DEVICE_TO_DEVICE'', None)]"

definition libFormat_t :: enum_decl where
  "libFormat_t =
    [(''LIB_FORMAT_CUFFT'', Some (Lit 0x0)),
     (''LIB_FORMAT_UNDEFINED'', Some (Lit 0x1))]"

section \<open>\<open>curand_subset.h\<close>\<close>

definition curandStatus :: enum_decl where
  "curandStatus =
    [(''CURAND_STATUS_SUCCESS'', Some (Lit 0)),
     (''CURAND_STATUS_VERSION_MISMATCH'', Some (Lit 100)),
     (''CURAND_STATUS_NOT_INITIALIZED'', Some (Lit 101)),
     (''CURAND_STATUS_ALLOCATION_FAILED'', Some (Lit 102)),
     (''CURAND_STATUS_TYPE_ERROR'', Some (Lit 103)),
     (''CURAND_STATUS_OUT_OF_RANGE'', Some (Lit 104)),
     (''CURAND_STATUS_LENGTH_NOT_MULTIPLE'', Some (Lit 105)),
     (''CURAND_STATUS_DOUBLE_PRECISION_REQUIRED'', Some (Lit 106)),
     (''CURAND_STATUS_LAUNCH_FAILURE'', Some (Lit 201)),
     (''CURAND_STATUS_PREEXISTING_FAILURE'', Some (Lit 202)),
     (''CURAND_STATUS_INITIALIZATION_FAILED'', Some (Lit 203)),
     (''CURAND_STATUS_ARCH_MISMATCH'', Some (Lit 204)),
     (''CURAND_STATUS_INTERNAL_ERROR'', Some (Lit 999))]"

definition curandRngType :: enum_decl where
  "curandRngType =
    [(''CURAND_RNG_TEST'', Some (Lit 0)),
     (''CURAND_RNG_PSEUDO_DEFAULT'', Some (Lit 100)),
     (''CURAND_RNG_PSEUDO_XORWOW'', Some (Lit 101)),
     (''CURAND_RNG_PSEUDO_MRG32K3A'', Some (Lit 121)),
     (''CURAND_RNG_PSEUDO_MTGP32'', Some (Lit 141)),
     (''CURAND_RNG_PSEUDO_MT19937'', Some (Lit 142)),
     (''CURAND_RNG_PSEUDO_PHILOX4_32_10'', Some (Lit 161)),
     (''CURAND_RNG_QUASI_DEFAULT'', Some (Lit 200)),
     (''CURAND_RNG_QUASI_SOBOL32'', Some (Lit 201)),
     (''CURAND_RNG_QUASI_SCRAMBLED_SOBOL32'', Some (Lit 202)),
     (''CURAND_RNG_QUASI_SOBOL64'', Some (Lit 203)),
     (''CURAND_RNG_QUASI_SCRAMBLED_SOBOL64'', Some (Lit 204))]"

definition curandOrdering :: enum_decl where
  "curandOrdering =
    [(''CURAND_ORDERING_PSEUDO_BEST'', Some (Lit 100)),
     (''CURAND_ORDERING_PSEUDO_DEFAULT'', Some (Lit 101)),
     (''CURAND_ORDERING_PSEUDO_SEEDED'', Some (Lit 102)),
     (''CURAND_ORDERING_PSEUDO_LEGACY'', Some (Lit 103)),
     (''CURAND_ORDERING_QUASI_DEFAULT'', Some (Lit 201))]"

definition curandDirectionVectorSet :: enum_decl where
  "curandDirectionVectorSet =
    [(''CURAND_DIRECTION_VECTORS_32_JOEKUO6'', Some (Lit 101)),
     (''CURAND_SCRAMBLED_DIRECTION_VECTORS_32_JOEKUO6'', Some (Lit 102)),
     (''CURAND_DIRECTION_VECTORS_64_JOEKUO6'', Some (Lit 103)),
     (''CURAND_SCRAMBLED_DIRECTION_VECTORS_64_JOEKUO6'', Some (Lit 104))]"

definition curandMethod :: enum_decl where
  "curandMethod =
    [(''CURAND_CHOOSE_BEST'', Some (Lit 0)),
     (''CURAND_ITR'', Some (Lit 1)),
     (''CURAND_KNUTH'', Some (Lit 2)),
     (''CURAND_HITR'', Some (Lit 3)),
     (''CURAND_M1'', Some (Lit 4)),
     (''CURAND_M2'', Some (Lit 5)),
     (''CURAND_BINARY_SEARCH'', Some (Lit 6)),
     (''CURAND_DISCRETE_GAUSS'', Some (Lit 7)),
     (''CURAND_REJECTION'', Some (Lit 8)),
     (''CURAND_DEVICE_API'', Some (Lit 9)),
     (''CURAND_FAST_REJECTION'', Some (Lit 10)),
     (''CURAND_3RD'', Some (Lit 11)),
     (''CURAND_DEFINITION'', Some (Lit 12)),
     (''CURAND_POISSON'', Some (Lit 13))]"

section \<open>\<open>cusolver_subset.h\<close>\<close>

definition cusolverStatus_t :: enum_decl where
  "cusolverStatus_t =
    [(''CUSOLVER_STATUS_SUCCESS'', Some (Lit 0)),
     (''CUSOLVER_STATUS_NOT_INITIALIZED'', Some (Lit 1)),
     (''CUSOLVER_STATUS_ALLOC_FAILED'', Some (Lit 2)),
     (''CUSOLVER_STATUS_INVALID_VALUE'', Some (Lit 3)),
     (''CUSOLVER_STATUS_ARCH_MISMATCH'', Some (Lit 4)),
     (''CUSOLVER_STATUS_MAPPING_ERROR'', Some (Lit 5)),
     (''CUSOLVER_STATUS_EXECUTION_FAILED'', Some (Lit 6)),
     (''CUSOLVER_STATUS_INTERNAL_ERROR'', Some (Lit 7)),
     (''CUSOLVER_STATUS_MATRIX_TYPE_NOT_SUPPORTED'', Some (Lit 8)),
     (''CUSOLVER_STATUS_NOT_SUPPORTED'', Some (Lit 9)),
     (''CUSOLVER_STATUS_ZERO_PIVOT'', Some (Lit 10)),
     (''CUSOLVER_STATUS_INVALID_LICENSE'', Some (Lit 11)),
     (''CUSOLVER_STATUS_IRS_PARAMS_NOT_INITIALIZED'', Some (Lit 12)),
     (''CUSOLVER_STATUS_IRS_PARAMS_INVALID'', Some (Lit 13)),
     (''CUSOLVER_STATUS_IRS_PARAMS_INVALID_PREC'', Some (Lit 14)),
     (''CUSOLVER_STATUS_IRS_PARAMS_INVALID_REFINE'', Some (Lit 15)),
     (''CUSOLVER_STATUS_IRS_PARAMS_INVALID_MAXITER'', Some (Lit 16)),
     (''CUSOLVER_STATUS_IRS_INTERNAL_ERROR'', Some (Lit 20)),
     (''CUSOLVER_STATUS_IRS_NOT_SUPPORTED'', Some (Lit 21)),
     (''CUSOLVER_STATUS_IRS_OUT_OF_RANGE'', Some (Lit 22)),
     (''CUSOLVER_STATUS_IRS_NRHS_NOT_SUPPORTED_FOR_REFINE_GMRES'', Some (Lit 23)),
     (''CUSOLVER_STATUS_IRS_INFOS_NOT_INITIALIZED'', Some (Lit 25)),
     (''CUSOLVER_STATUS_IRS_INFOS_NOT_DESTROYED'', Some (Lit 26)),
     (''CUSOLVER_STATUS_IRS_MATRIX_SINGULAR'', Some (Lit 30)),
     (''CUSOLVER_STATUS_INVALID_WORKSPACE'', Some (Lit 31))]"

definition cusolverEigType_t :: enum_decl where
  "cusolverEigType_t =
    [(''CUSOLVER_EIG_TYPE_1'', Some (Lit 1)),
     (''CUSOLVER_EIG_TYPE_2'', Some (Lit 2)),
     (''CUSOLVER_EIG_TYPE_3'', Some (Lit 3))]"

definition cusolverEigMode_t :: enum_decl where
  "cusolverEigMode_t =
    [(''CUSOLVER_EIG_MODE_NOVECTOR'', Some (Lit 0)),
     (''CUSOLVER_EIG_MODE_VECTOR'', Some (Lit 1))]"

definition cusolverEigRange_t :: enum_decl where
  "cusolverEigRange_t =
    [(''CUSOLVER_EIG_RANGE_ALL'', Some (Lit 1001)),
     (''CUSOLVER_EIG_RANGE_I'', Some (Lit 1002)),
     (''CUSOLVER_EIG_RANGE_V'', Some (Lit 1003))]"

definition cusolverNorm_t :: enum_decl where
  "cusolverNorm_t =
    [(''CUSOLVER_INF_NORM'', Some (Lit 104)),
     (''CUSOLVER_MAX_NORM'', Some (Lit 105)),
     (''CUSOLVER_ONE_NORM'', Some (Lit 106)),
     (''CUSOLVER_FRO_NORM'', Some (Lit 107))]"

definition cusolverIRSRefinement_t :: enum_decl where
  "cusolverIRSRefinement_t =
    [(''CUSOLVER_IRS_REFINE_NOT_SET'', Some (Lit 1100)),
     (''CUSOLVER_IRS_REFINE_NONE'', Some (Lit 1101)),
     (''CUSOLVER_IRS_REFINE_CLASSICAL'', Some (Lit 1102)),
     (''CUSOLVER_IRS_REFINE_CLASSICAL_GMRES'', Some (Lit 1103)),
     (''CUSOLVER_IRS_REFINE_GMRES'', Some (Lit 1104)),
     (''CUSOLVER_IRS_REFINE_GMRES_GMRES'', Some (Lit 1105)),
     (''CUSOLVER_IRS_REFINE_GMRES_NOPCOND'', Some (Lit 1106)),
     (''CUSOLVER_PREC_DD'', Some (Lit 1150)),
     (''CUSOLVER_PREC_SS'', Some (Lit 1151)),
     (''CUSOLVER_PREC_SHT'', Some (Lit 1152))]"

definition cusolverPrecType_t :: enum_decl where
  "cusolverPrecType_t =
    [(''CUSOLVER_R_8I'', Some (Lit 1201)),
     (''CUSOLVER_R_8U'', Some (Lit 1202)),
     (''CUSOLVER_R_64F'', Some (Lit 1203)),
     (''CUSOLVER_R_32F'', Some (Lit 1204)),
     (''CUSOLVER_R_16F'', Some (Lit 1205)),
     (''CUSOLVER_R_16BF'', Some (Lit 1206)),
     (''CUSOLVER_R_TF32'', Some (Lit 1207)),
     (''CUSOLVER_R_AP'', Some (Lit 1208)),
     (''CUSOLVER_C_8I'', Some (Lit 1211)),
     (''CUSOLVER_C_8U'', Some (Lit 1212)),
     (''CUSOLVER_C_64F'', Some (Lit 1213)),
     (''CUSOLVER_C_32F'', Some (Lit 1214)),
     (''CUSOLVER_C_16F'', Some (Lit 1215)),
     (''CUSOLVER_C_16BF'', Some (Lit 1216)),
     (''CUSOLVER_C_TF32'', Some (Lit 1217)),
     (''CUSOLVER_C_AP'', Some (Lit 1218))]"

definition cusolverAlgMode_t :: enum_decl where
  "cusolverAlgMode_t =
    [(''CUSOLVER_ALG_0'', Some (Lit 0)),
     (''CUSOLVER_ALG_1'', Some (Lit 1))]"

definition cusolverStorevMode_t :: enum_decl where
  "cusolverStorevMode_t =
    [(''CUBLAS_STOREV_COLUMNWISE'', Some (Lit 0)),
     (''CUBLAS_STOREV_ROWWISE'', Some (Lit 1))]"

definition cusolverDirectMode_t :: enum_decl where
  "cusolverDirectMode_t =
    [(''CUBLAS_DIRECT_FORWARD'', Some (Lit 0)),
     (''CUBLAS_DIRECT_BACKWARD'', Some (Lit 1))]"

definition cusolverDnFunction_t :: enum_decl where
  "cusolverDnFunction_t =
    [(''CUSOLVERDN_GETRF'', Some (Lit 0))]"

definition cusolverMgGridMapping_t :: enum_decl where
  "cusolverMgGridMapping_t =
    [(''CUDALIBMG_GRID_MAPPING_ROW_MAJOR'', Some (Lit 1)),
     (''CUDALIBMG_GRID_MAPPING_COL_MAJOR'', Some (Lit 0))]"

definition cusolverRfResetValuesFastMode_t :: enum_decl where
  "cusolverRfResetValuesFastMode_t =
    [(''CUSOLVERRF_RESET_VALUES_FAST_MODE_OFF'', Some (Lit 0)),
     (''CUSOLVERRF_RESET_VALUES_FAST_MODE_ON'', Some (Lit 1))]"

definition cusolverRfMatrixFormat_t :: enum_decl where
  "cusolverRfMatrixFormat_t =
    [(''CUSOLVERRF_MATRIX_FORMAT_CSR'', Some (Lit 0)),
     (''CUSOLVERRF_MATRIX_FORMAT_CSC'', Some (Lit 1))]"

definition cusolverRfUnitDiagonal_t :: enum_decl where
  "cusolverRfUnitDiagonal_t =
    [(''CUSOLVERRF_UNIT_DIAGONAL_STORED_L'', Some (Lit 0)),
     (''CUSOLVERRF_UNIT_DIAGONAL_STORED_U'', Some (Lit 1)),
     (''CUSOLVERRF_UNIT_DIAGONAL_ASSUMED_L'', Some (Lit 2)),
     (''CUSOLVERRF_UNIT_DIAGONAL_ASSUMED_U'', Some (Lit 3))]"

definition cusolverRfFactorization_t :: enum_decl where
  "cusolverRfFactorization_t =
    [(''CUSOLVERRF_FACTORIZATION_ALG0'', Some (Lit 0)),
     (''CUSOLVERRF_FACTORIZATION_ALG1'', Some (Lit 1)),
     (''CUSOLVERRF_FACTORIZATION_ALG2'', Some (Lit 2))]"

definition cusolverRfTriangularSolve_t :: enum_decl where
  "cusolverRfTriangularSolve_t =
    [(''CUSOLVERRF_TRIANGULAR_SOLVE_ALG1'', Some (Lit 1)),
     (''CUSOLVERRF_TRIANGULAR_SOLVE_ALG2'', Some (Lit 2)),
     (''CUSOLVERRF_TRIANGULAR_SOLVE_ALG3'', Some (Lit 3))]"

definition cusolverRfNumericBoostReport_t :: enum_decl where
  "cusolverRfNumericBoostReport_t =
    [(''CUSOLVERRF_NUMERIC_BOOST_NOT_USED'', Some (Lit 0)),
     (''CUSOLVERRF_NUMERIC_BOOST_USED'', Some (Lit 1))]"

section \<open>\<open>cusparse_subset.h\<close>\<close>

definition cusparseStatus_t :: enum_decl where
  "cusparseStatus_t =
    [(''CUSPARSE_STATUS_SUCCESS'', Some (Lit 0)),
     (''CUSPARSE_STATUS_NOT_INITIALIZED'', Some (Lit 1)),
     (''CUSPARSE_STATUS_ALLOC_FAILED'', Some (Lit 2)),
     (''CUSPARSE_STATUS_INVALID_VALUE'', Some (Lit 3)),
     (''CUSPARSE_STATUS_ARCH_MISMATCH'', Some (Lit 4)),
     (''CUSPARSE_STATUS_MAPPING_ERROR'', Some (Lit 5)),
     (''CUSPARSE_STATUS_EXECUTION_FAILED'', Some (Lit 6)),
     (''CUSPARSE_STATUS_INTERNAL_ERROR'', Some (Lit 7)),
     (''CUSPARSE_STATUS_MATRIX_TYPE_NOT_SUPPORTED'', Some (Lit 8)),
     (''CUSPARSE_STATUS_ZERO_PIVOT'', Some (Lit 9)),
     (''CUSPARSE_STATUS_NOT_SUPPORTED'', Some (Lit 10)),
     (''CUSPARSE_STATUS_INSUFFICIENT_RESOURCES'', Some (Lit 11))]"

definition cusparsePointerMode_t :: enum_decl where
  "cusparsePointerMode_t =
    [(''CUSPARSE_POINTER_MODE_HOST'', Some (Lit 0)),
     (''CUSPARSE_POINTER_MODE_DEVICE'', Some (Lit 1))]"

definition cusparseAction_t :: enum_decl where
  "cusparseAction_t =
    [(''CUSPARSE_ACTION_SYMBOLIC'', Some (Lit 0)),
     (''CUSPARSE_ACTION_NUMERIC'', Some (Lit 1))]"

definition cusparseMatrixType_t :: enum_decl where
  "cusparseMatrixType_t =
    [(''CUSPARSE_MATRIX_TYPE_GENERAL'', Some (Lit 0)),
     (''CUSPARSE_MATRIX_TYPE_SYMMETRIC'', Some (Lit 1)),
     (''CUSPARSE_MATRIX_TYPE_HERMITIAN'', Some (Lit 2)),
     (''CUSPARSE_MATRIX_TYPE_TRIANGULAR'', Some (Lit 3))]"

definition cusparseFillMode_t :: enum_decl where
  "cusparseFillMode_t =
    [(''CUSPARSE_FILL_MODE_LOWER'', Some (Lit 0)),
     (''CUSPARSE_FILL_MODE_UPPER'', Some (Lit 1))]"

definition cusparseDiagType_t :: enum_decl where
  "cusparseDiagType_t =
    [(''CUSPARSE_DIAG_TYPE_NON_UNIT'', Some (Lit 0)),
     (''CUSPARSE_DIAG_TYPE_UNIT'', Some (Lit 1))]"

definition cusparseIndexBase_t :: enum_decl where
  "cusparseIndexBase_t =
    [(''CUSPARSE_INDEX_BASE_ZERO'', Some (Lit 0)),
     (''CUSPARSE_INDEX_BASE_ONE'', Some (Lit 1))]"

definition cusparseOperation_t :: enum_decl where
  "cusparseOperation_t =
    [(''CUSPARSE_OPERATION_NON_TRANSPOSE'', Some (Lit 0)),
     (''CUSPARSE_OPERATION_TRANSPOSE'', Some (Lit 1)),
     (''CUSPARSE_OPERATION_CONJUGATE_TRANSPOSE'', Some (Lit 2))]"

definition cusparseDirection_t :: enum_decl where
  "cusparseDirection_t =
    [(''CUSPARSE_DIRECTION_ROW'', Some (Lit 0)),
     (''CUSPARSE_DIRECTION_COLUMN'', Some (Lit 1))]"

definition cusparseSolvePolicy_t :: enum_decl where
  "cusparseSolvePolicy_t =
    [(''CUSPARSE_SOLVE_POLICY_NO_LEVEL'', Some (Lit 0)),
     (''CUSPARSE_SOLVE_POLICY_USE_LEVEL'', Some (Lit 1))]"

definition cusparseSideMode_t :: enum_decl where
  "cusparseSideMode_t =
    [(''CUSPARSE_SIDE_LEFT'', Some (Lit 0)),
     (''CUSPARSE_SIDE_RIGHT'', Some (Lit 1))]"

definition cusparseColorAlg_t :: enum_decl where
  "cusparseColorAlg_t =
    [(''CUSPARSE_COLOR_ALG0'', Some (Lit 0)),
     (''CUSPARSE_COLOR_ALG1'', Some (Lit 1))]"

definition cusparseAlgMode_t :: enum_decl where
  "cusparseAlgMode_t =
    [(''CUSPARSE_ALG_MERGE_PATH'', None)]"

definition cusparseCsr2CscAlg_t :: enum_decl where
  "cusparseCsr2CscAlg_t =
    [(''CUSPARSE_CSR2CSC_ALG1'', Some (Lit 1)),
     (''CUSPARSE_CSR2CSC_ALG2'', Some (Lit 2))]"

definition cusparseFormat_t :: enum_decl where
  "cusparseFormat_t =
    [(''CUSPARSE_FORMAT_CSR'', Some (Lit 1)),
     (''CUSPARSE_FORMAT_CSC'', Some (Lit 2)),
     (''CUSPARSE_FORMAT_COO'', Some (Lit 3)),
     (''CUSPARSE_FORMAT_COO_AOS'', Some (Lit 4)),
     (''CUSPARSE_FORMAT_BLOCKED_ELL'', Some (Lit 5))]"

definition cusparseOrder_t :: enum_decl where
  "cusparseOrder_t =
    [(''CUSPARSE_ORDER_COL'', Some (Lit 1)),
     (''CUSPARSE_ORDER_ROW'', Some (Lit 2))]"

definition cusparseIndexType_t :: enum_decl where
  "cusparseIndexType_t =
    [(''CUSPARSE_INDEX_16U'', Some (Lit 1)),
     (''CUSPARSE_INDEX_32I'', Some (Lit 2)),
     (''CUSPARSE_INDEX_64I'', Some (Lit 3))]"

definition cusparseSpMatAttribute_t :: enum_decl where
  "cusparseSpMatAttribute_t =
    [(''CUSPARSE_SPMAT_FILL_MODE'', None),
     (''CUSPARSE_SPMAT_DIAG_TYPE'', None)]"

definition cusparseSparseToDenseAlg_t :: enum_decl where
  "cusparseSparseToDenseAlg_t =
    [(''CUSPARSE_SPARSETODENSE_ALG_DEFAULT'', Some (Lit 0))]"

definition cusparseDenseToSparseAlg_t :: enum_decl where
  "cusparseDenseToSparseAlg_t =
    [(''CUSPARSE_DENSETOSPARSE_ALG_DEFAULT'', Some (Lit 0))]"

definition cusparseSpMVAlg_t :: enum_decl where
  "cusparseSpMVAlg_t =
    [(''CUSPARSE_MV_ALG_DEFAULT'', Some (Lit 0)),
     (''CUSPARSE_SPMV_ALG_DEFAULT'', Some (Lit 0)),
     (''CUSPARSE_SPMV_CSR_ALG1'', Some (Lit 2)),
     (''CUSPARSE_SPMV_CSR_ALG2'', Some (Lit 3)),
     (''CUSPARSE_SPMV_COO_ALG1'', Some (Lit 1)),
     (''CUSPARSE_SPMV_COO_ALG2'', Some (Lit 4))]"

definition cusparseSpSVAlg_t :: enum_decl where
  "cusparseSpSVAlg_t =
    [(''CUSPARSE_SPSV_ALG_DEFAULT'', Some (Lit 0))]"

definition cusparseSpSMAlg_t :: enum_decl where
  "cusparseSpSMAlg_t =
    [(''CUSPARSE_SPSM_ALG_DEFAULT'', Some (Lit 0))]"

definition cusparseSpMMAlg_t :: enum_decl where
  "cusparseSpMMAlg_t =
    [(''CUSPARSE_SPMM_ALG_DEFAULT'', Some (Lit 0)),
     (''CUSPARSE_SPMM_COO_ALG1'', Some (Lit 1)),
     (''CUSPARSE_SPMM_COO_ALG2'', Some (Lit 2)),
     (''CUSPARSE_SPMM_COO_ALG3'', Some (Lit 3)),
     (''CUSPARSE_SPMM_COO_ALG4'', Some (Lit 5)),
     (''CUSPARSE_SPMM_CSR_ALG1'', Some (Lit 4)),
     (''CUSPARSE_SPMM_CSR_ALG2'', Some (Lit 6)),
     (''CUSPARSE_SPMM_CSR_ALG3'', Some (Lit 12)),
     (''CUSPARSE_SPMM_BLOCKED_ELL_ALG1'', Some (Lit 13))]"

definition cusparseSpGEMMAlg_t :: enum_decl where
  "cusparseSpGEMMAlg_t =
    [(''CUSPARSE_SPGEMM_DEFAULT'', Some (Lit 0)),
     (''CUSPARSE_SPGEMM_CSR_ALG_DETERMINITIC'', Some (Lit 1)),
     (''CUSPARSE_SPGEMM_CSR_ALG_NONDETERMINITIC'', Some (Lit 2))]"

definition cusparseSDDMMAlg_t :: enum_decl where
  "cusparseSDDMMAlg_t =
    [(''CUSPARSE_SDDMM_ALG_DEFAULT'', Some (Lit 0))]"

section \<open>Values\<close>

definition cublas_enums :: "(enum_env \<times> enum_decl) list" where
  "cublas_enums =
    [([], cudaDataType),
     ([], cublas_libraryPropertyType),
     ([], cublasStatus_t),
     ([], cublasFillMode_t),
     ([], cublasDiagType_t),
     ([], cublasSideMode_t),
     ([], cublasOperation_t),
     ([], cublasPointerMode_t),
     ([], cublasAtomicsMode_t),
     ([], cublasGemmAlgo_t),
     ([], cublasMath_t),
     ([], cublasComputeType_t),
     ([], cublasXtPinnedMemMode_t),
     ([], cublasXtOpType_t),
     ([], cublasXtBlasOp_t)]"

lemma cudaDataType_oversized [abi_oversized]: "oversized [] cudaDataType = Some []"
  by (rule oversized_simple [THEN trans], simp_all add: fits_int_def cudaDataType_def)

lemma cublas_libraryPropertyType_oversized [abi_oversized]: "oversized [] cublas_libraryPropertyType = Some []"
  by (rule oversized_simple [THEN trans], simp_all add: fits_int_def cublas_libraryPropertyType_def)

lemma cublasStatus_t_oversized [abi_oversized]: "oversized [] cublasStatus_t = Some []"
  by (rule oversized_simple [THEN trans], simp_all add: fits_int_def cublasStatus_t_def)

lemma cublasFillMode_t_oversized [abi_oversized]: "oversized [] cublasFillMode_t = Some []"
  by (rule oversized_simple [THEN trans], simp_all add: fits_int_def cublasFillMode_t_def)

lemma cublasDiagType_t_oversized [abi_oversized]: "oversized [] cublasDiagType_t = Some []"
  by (rule oversized_simple [THEN trans], simp_all add: fits_int_def cublasDiagType_t_def)

lemma cublasSideMode_t_oversized [abi_oversized]: "oversized [] cublasSideMode_t = Some []"
  by (rule oversized_simple [THEN trans], simp_all add: fits_int_def cublasSideMode_t_def)

lemma cublasOperation_t_oversized [abi_oversized]: "oversized [] cublasOperation_t = Some []"
  by (rule oversized_simple [THEN trans], simp_all add: fits_int_def cublasOperation_t_def)

lemma cublasPointerMode_t_oversized [abi_oversized]: "oversized [] cublasPointerMode_t = Some []"
  by (rule oversized_simple [THEN trans], simp_all add: fits_int_def cublasPointerMode_t_def)

lemma cublasAtomicsMode_t_oversized [abi_oversized]: "oversized [] cublasAtomicsMode_t = Some []"
  by (rule oversized_simple [THEN trans], simp_all add: fits_int_def cublasAtomicsMode_t_def)

lemma cublasGemmAlgo_t_oversized [abi_oversized]: "oversized [] cublasGemmAlgo_t = Some []"
  by (rule oversized_simple [THEN trans], simp_all add: fits_int_def cublasGemmAlgo_t_def)

lemma cublasMath_t_oversized [abi_oversized]: "oversized [] cublasMath_t = Some []"
  by (rule oversized_simple [THEN trans], simp_all add: fits_int_def cublasMath_t_def)

lemma cublasComputeType_t_oversized [abi_oversized]: "oversized [] cublasComputeType_t = Some []"
  by (rule oversized_simple [THEN trans], simp_all add: fits_int_def cublasComputeType_t_def)

lemma cublasXtPinnedMemMode_t_oversized [abi_oversized]: "oversized [] cublasXtPinnedMemMode_t = Some []"
  by (rule oversized_simple [THEN trans], simp_all add: fits_int_def cublasXtPinnedMemMode_t_def)

lemma cublasXtOpType_t_oversized [abi_oversized]: "oversized [] cublasXtOpType_t = Some []"
  by (rule oversized_simple [THEN trans], simp_all add: fits_int_def cublasXtOpType_t_def)

lemma cublasXtBlasOp_t_oversized [abi_oversized]: "oversized [] cublasXtBlasOp_t = Some []"
  by (rule oversized_simple [THEN trans], simp_all add: fits_int_def cublasXtBlasOp_t_def)

lemma cublas_oversized:
  "all_oversized cublas_enums = Some []"
  by (simp add: cublas_enums_def all_oversized_def abi_oversized)

definition cublasLt_enums :: "(enum_env \<times> enum_decl) list" where
  "cublasLt_enums =
    [([], cublasLtMatmulTile_t),
     ([], cublasLtMatmulStages_t),
     ((enumerators cublasPointerMode_t), cublasLtPointerMode_t),
     ([], cublasLtPointerModeMask_t),
     ([], cublasLtOrder_t),
     ([], cublasLtMatrixLayoutAttribute_t),
     ([], cublasLtMatmulDescAttributes_t),
     ([], cublasLtMatrixTransformDescAttributes_t),
     ([], cublasLt3mMode_t),
     ([], cublasLtReductionScheme_t),
     ([], cublasLtEpilogue_t),
     ([], cublasLtMatmulSearch_t),
     ([], cublasLtMatmulPreferenceAttributes_t),
     ([], cublasLtMatmulAlgoCapAttributes_t),
     ([], cublasLtMatmulAlgoConfigAttributes_t)]"

lemma cublasLtMatmulTile_t_oversized [abi_oversized]: "oversized [] cublasLtMatmulTile_t = Some []"
  by (rule oversized_simple [THEN trans], simp_all add: fits_int_def cublasLtMatmulTile_t_def)

lemma cublasLtMatmulStages_t_oversized [abi_oversized]: "oversized [] cublasLtMatmulStages_t = Some []"
  by (rule oversized_simple [THEN trans], simp_all add: fits_int_def cublasLtMatmulStages_t_def)

lemma cublasLtPointerMode_t_oversized [abi_oversized]: "oversized (enumerators cublasPointerMode_t) cublasLtPointerMode_t = Some []"
  by (simp add: enum_eval cublasLtPointerMode_t_def enumerators_def cublasPointerMode_t_def)

lemma cublasLtPointerModeMask_t_oversized [abi_oversized]: "oversized [] cublasLtPointerModeMask_t = Some []"
  by (rule oversized_simple [THEN trans], simp_all add: fits_int_def cublasLtPointerModeMask_t_def)

lemma cublasLtOrder_t_oversized [abi_oversized]: "oversized [] cublasLtOrder_t = Some []"
  by (rule oversized_simple [THEN trans], simp_all add: fits_int_def cublasLtOrder_t_def)

lemma cublasLtMatrixLayoutAttribute_t_oversized [abi_oversized]: "oversized [] cublasLtMatrixLayoutAttribute_t = Some []"
  by (rule oversized_simple [THEN trans], simp_all add: fits_int_def cublasLtMatrixLayoutAttribute_t_def)

lemma cublasLtMatmulDescAttributes_t_oversized [abi_oversized]: "oversized [] cublasLtMatmulDescAttributes_t = Some []"
  by (rule oversized_simple [THEN trans], simp_all add: fits_int_def cublasLtMatmulDescAttributes_t_def)

lemma cublasLtMatrixTransformDescAttributes_t_oversized [abi_oversized]: "oversized [] cublasLtMatrixTransformDescAttributes_t = Some []"
  by (rule oversized_simple [THEN trans], simp_all add: fits_int_def cublasLtMatrixTransformDescAttributes_t_def)

lemma cublasLt3mMode_t_oversized [abi_oversized]: "oversized [] cublasLt3mMode_t = Some []"
  by (rule oversized_simple [THEN trans], simp_all add: fits_int_def cublasLt3mMode_t_def)

lemma cublasLtReductionScheme_t_oversized [abi_oversized]: "oversized [] cublasLtReductionScheme_t = Some []"
  by (rule oversized_simple [THEN trans], simp_all add: fits_int_def cublasLtReductionScheme_t_def)

lemma cublasLtEpilogue_t_oversized [abi_oversized]: "oversized [] cublasLtEpilogue_t = Some []"
  by (simp add: enum_eval cublasLtEpilogue_t_def)

lemma cublasLtMatmulSearch_t_oversized [abi_oversized]: "oversized [] cublasLtMatmulSearch_t = Some []"
  by (rule oversized_simple [THEN trans], simp_all add: fits_int_def cublasLtMatmulSearch_t_def)

lemma cublasLtMatmulPreferenceAttributes_t_oversized [abi_oversized]: "oversized [] cublasLtMatmulPreferenceAttributes_t = Some []"
  by (rule oversized_simple [THEN trans], simp_all add: fits_int_def cublasLtMatmulPreferenceAttributes_t_def)

lemma cublasLtMatmulAlgoCapAttributes_t_oversized [abi_oversized]: "oversized [] cublasLtMatmulAlgoCapAttributes_t = Some []"
  by (rule oversized_simple [THEN trans], simp_all add: fits_int_def cublasLtMatmulAlgoCapAttributes_t_def)

lemma cublasLtMatmulAlgoConfigAttributes_t_oversized [abi_oversized]: "oversized [] cublasLtMatmulAlgoConfigAttributes_t = Some []"
  by (rule oversized_simple [THEN trans], simp_all add: fits_int_def cublasLtMatmulAlgoConfigAttributes_t_def)

lemma cublasLt_oversized:
  "all_oversized cublasLt_enums = Some []"
  by (simp add: cublasLt_enums_def all_oversized_def abi_oversized)

definition cufft_enums :: "(enum_env \<times> enum_decl) list" where
  "cufft_enums =
    [([], cufftResult),
     ([], cufftType),
     ([], cufftCompatibility),
     ([], cufftXtSubFormat),
     ([], cufftXtCopyType),
     ([], cufftXtQueryType),
     ([], cufftXtWorkAreaPolicy),
     ([], cufftXtCallbackType),
     ([], cudaXtCopyType_t),
     ([], libFormat_t)]"

lemma cufftResult_oversized [abi_oversized]: "oversized [] cufftResult = Some []"
  by (rule oversized_simple [THEN trans], simp_all add: fits_int_def cufftResult_def)

lemma cufftType_oversized [abi_oversized]: "oversized [] cufftType = Some []"
  by (rule oversized_simple [THEN trans], simp_all add: fits_int_def cufftType_def)

lemma cufftCompatibility_oversized [abi_oversized]: "oversized [] cufftCompatibility = Some []"
  by (rule oversized_simple [THEN trans], simp_all add: fits_int_def cufftCompatibility_def)

lemma cufftXtSubFormat_oversized [abi_oversized]: "oversized [] cufftXtSubFormat = Some []"
  by (rule oversized_simple [THEN trans], simp_all add: fits_int_def cufftXtSubFormat_def)

lemma cufftXtCopyType_oversized [abi_oversized]: "oversized [] cufftXtCopyType = Some []"
  by (rule oversized_simple [THEN trans], simp_all add: fits_int_def cufftXtCopyType_def)

lemma cufftXtQueryType_oversized [abi_oversized]: "oversized [] cufftXtQueryType = Some []"
  by (rule oversized_simple [THEN trans], simp_all add: fits_int_def cufftXtQueryType_def)

lemma cufftXtWorkAreaPolicy_oversized [abi_oversized]: "oversized [] cufftXtWorkAreaPolicy = Some []"
  by (rule oversized_simple [THEN trans], simp_all add: fits_int_def cufftXtWorkAreaPolicy_def)

lemma cufftXtCallbackType_oversized [abi_oversized]: "oversized [] cufftXtCallbackType = Some []"
  by (rule oversized_simple [THEN trans], simp_all add: fits_int_def cufftXtCallbackType_def)

lemma cudaXtCopyType_t_oversized [abi_oversized]: "oversized [] cudaXtCopyType_t = Some []"
  by (rule oversized_simple [THEN trans], simp_all add: fits_int_def cudaXtCopyType_t_def)

lemma libFormat_t_oversized [abi_oversized]: "oversized [] libFormat_t = Some []"
  by (rule oversized_simple [THEN trans], simp_all add: fits_int_def libFormat_t_def)

lemma cufft_oversized:
  "all_oversized cufft_enums = Some []"
  by (simp add: cufft_enums_def all_oversized_def abi_oversized)

definition curand_enums :: "(enum_env \<times> enum_decl) list" where
  "curand_enums =
    [([], curandStatus),
     ([], curandRngType),
     ([], curandOrdering),
     ([], curandDirectionVectorSet),
     ([], curandMethod)]"

lemma curandStatus_oversized [abi_oversized]: "oversized [] curandStatus = Some []"
  by (rule oversized_simple [THEN trans], simp_all add: fits_int_def curandStatus_def)

lemma curandRngType_oversized [abi_oversized]: "oversized [] curandRngType = Some []"
  by (rule oversized_simple [THEN trans], simp_all add: fits_int_def curandRngType_def)

lemma curandOrdering_oversized [abi_oversized]: "oversized [] curandOrdering = Some []"
  by (rule oversized_simple [THEN trans], simp_all add: fits_int_def curandOrdering_def)

lemma curandDirectionVectorSet_oversized [abi_oversized]: "oversized [] curandDirectionVectorSet = Some []"
  by (rule oversized_simple [THEN trans], simp_all add: fits_int_def curandDirectionVectorSet_def)

lemma curandMethod_oversized [abi_oversized]: "oversized [] curandMethod = Some []"
  by (rule oversized_simple [THEN trans], simp_all add: fits_int_def curandMethod_def)

lemma curand_oversized:
  "all_oversized curand_enums = Some []"
  by (simp add: curand_enums_def all_oversized_def abi_oversized)

definition cusolver_enums :: "(enum_env \<times> enum_decl) list" where
  "cusolver_enums =
    [([], cusolverStatus_t),
     ([], cusolverEigType_t),
     ([], cusolverEigMode_t),
     ([], cusolverEigRange_t),
     ([], cusolverNorm_t),
     ([], cusolverIRSRefinement_t),
     ([], cusolverPrecType_t),
     ([], cusolverAlgMode_t),
     ([], cusolverStorevMode_t),
     ([], cusolverDirectMode_t),
     ([], cusolverDnFunction_t),
     ([], cusolverMgGridMapping_t),
     ([], cusolverRfResetValuesFastMode_t),
     ([], cusolverRfMatrixFormat_t),
     ([], cusolverRfUnitDiagonal_t),
     ([], cusolverRfFactorization_t),
     ([], cusolverRfTriangularSolve_t),
     ([], cusolverRfNumericBoostReport_t)]"

lemma cusolverStatus_t_oversized [abi_oversized]: "oversized [] cusolverStatus_t = Some []"
  by (rule oversized_simple [THEN trans], simp_all add: fits_int_def cusolverStatus_t_def)

lemma cusolverEigType_t_oversized [abi_oversized]: "oversized [] cusolverEigType_t = Some []"
  by (rule oversized_simple [THEN trans], simp_all add: fits_int_def cusolverEigType_t_def)

lemma cusolverEigMode_t_oversized [abi_oversized]: "oversized [] cusolverEigMode_t = Some []"
  by (rule oversized_simple [THEN trans], simp_all add: fits_int_def cusolverEigMode_t_def)

lemma cusolverEigRange_t_oversized [abi_oversized]: "oversized [] cusolverEigRange_t = Some []"
  by (rule oversized_simple [THEN trans], simp_all add: fits_int_def cusolverEigRange_t_def)

lemma cusolverNorm_t_oversized [abi_oversized]: "oversized [] cusolverNorm_t = Some []"
  by (rule oversized_simple [THEN trans], simp_all add: fits_int_def cusolverNorm_t_def)

lemma cusolverIRSRefinement_t_oversized [abi_oversized]: "oversized [] cusolverIRSRefinement_t = Some []"
  by (rule oversized_simple [THEN trans], simp_all add: fits_int_def cusolverIRSRefinement_t_def)

lemma cusolverPrecType_t_oversized [abi_oversized]: "oversized [] cusolverPrecType_t = Some []"
  by (rule oversized_simple [THEN trans], simp_all add: fits_int_def cusolverPrecType_t_def)

lemma cusolverAlgMode_t_oversized [abi_oversized]: "oversized [] cusolverAlgMode_t = Some []"
  by (rule oversized_simple [THEN trans], simp_all add: fits_int_def cusolverAlgMode_t_def)

lemma cusolverStorevMode_t_oversized [abi_oversized]: "oversized [] cusolverStorevMode_t = Some []"
  by (rule oversized_simple [THEN trans], simp_all add: fits_int_def cusolverStorevMode_t_def)

lemma cusolverDirectMode_t_oversized [abi_oversized]: "oversized [] cusolverDirectMode_t = Some []"
  by (rule oversized_simple [THEN trans], simp_all add: fits_int_def cusolverDirectMode_t_def)

lemma cusolverDnFunction_t_oversized [abi_oversized]: "oversized [] cusolverDnFunction_t = Some []"
  by (rule oversized_simple [THEN trans], simp_all add: fits_int_def cusolverDnFunction_t_def)

lemma cusolverMgGridMapping_t_oversized [abi_oversized]: "oversized [] cusolverMgGridMapping_t = Some []"
  by (rule oversized_simple [THEN trans], simp_all add: fits_int_def cusolverMgGridMapping_t_def)

lemma cusolverRfResetValuesFastMode_t_oversized [abi_oversized]: "oversized [] cusolverRfResetValuesFastMode_t = Some []"
  by (rule oversized_simple [THEN trans], simp_all add: fits_int_def cusolverRfResetValuesFastMode_t_def)

lemma cusolverRfMatrixFormat_t_oversized [abi_oversized]: "oversized [] cusolverRfMatrixFormat_t = Some []"
  by (rule oversized_simple [THEN trans], simp_all add: fits_int_def cusolverRfMatrixFormat_t_def)

lemma cusolverRfUnitDiagonal_t_oversized [abi_oversized]: "oversized [] cusolverRfUnitDiagonal_t = Some []"
  by (rule oversized_simple [THEN trans], simp_all add: fits_int_def cusolverRfUnitDiagonal_t_def)

lemma cusolverRfFactorization_t_oversized [abi_oversized]: "oversized [] cusolverRfFactorization_t = Some []"
  by (rule oversized_simple [THEN trans], simp_all add: fits_int_def cusolverRfFactorization_t_def)

lemma cusolverRfTriangularSolve_t_oversized [abi_oversized]: "oversized [] cusolverRfTriangularSolve_t = Some []"
  by (rule oversized_simple [THEN trans], simp_all add: fits_int_def cusolverRfTriangularSolve_t_def)

lemma cusolverRfNumericBoostReport_t_oversized [abi_oversized]: "oversized [] cusolverRfNumericBoostReport_t = Some []"
  by (rule oversized_simple [THEN trans], simp_all add: fits_int_def cusolverRfNumericBoostReport_t_def)

lemma cusolver_oversized:
  "all_oversized cusolver_enums = Some []"
  by (simp add: cusolver_enums_def all_oversized_def abi_oversized)

definition cusparse_enums :: "(enum_env \<times> enum_decl) list" where
  "cusparse_enums =
    [([], cusparseStatus_t),
     ([], cusparsePointerMode_t),
     ([], cusparseAction_t),
     ([], cusparseMatrixType_t),
     ([], cusparseFillMode_t),
     ([], cusparseDiagType_t),
     ([], cusparseIndexBase_t),
     ([], cusparseOperation_t),
     ([], cusparseDirection_t),
     ([], cusparseSolvePolicy_t),
     ([], cusparseSideMode_t),
     ([], cusparseColorAlg_t),
     ([], cusparseAlgMode_t),
     ([], cusparseCsr2CscAlg_t),
     ([], cusparseFormat_t),
     ([], cusparseOrder_t),
     ([], cusparseIndexType_t),
     ([], cusparseSpMatAttribute_t),
     ([], cusparseSparseToDenseAlg_t),
     ([], cusparseDenseToSparseAlg_t),
     ([], cusparseSpMVAlg_t),
     ([], cusparseSpSVAlg_t),
     ([], cusparseSpSMAlg_t),
     ([], cusparseSpMMAlg_t),
     ([], cusparseSpGEMMAlg_t),
     ([], cusparseSDDMMAlg_t)]"

lemma cusparseStatus_t_oversized [abi_oversized]: "oversized [] cusparseStatus_t = Some []"
  by (rule oversized_simple [THEN trans], simp_all add: fits_int_def cusparseStatus_t_def)

lemma cusparsePointerMode_t_oversized [abi_oversized]: "oversized [] cusparsePointerMode_t = Some []"
  by (rule oversized_simple [THEN trans], simp_all add: fits_int_def cusparsePointerMode_t_def)

lemma cusparseAction_t_oversized [abi_oversized]: "oversized [] cusparseAction_t = Some []"
  by (rule oversized_simple [THEN trans], simp_all add: fits_int_def cusparseAction_t_def)

lemma cusparseMatrixType_t_oversized [abi_oversized]: "oversized [] cusparseMatrixType_t = Some []"
  by (rule oversized_simple [THEN trans], simp_all add: fits_int_def cusparseMatrixType_t_def)

lemma cusparseFillMode_t_oversized [abi_oversized]: "oversized [] cusparseFillMode_t = Some []"
  by (rule oversized_simple [THEN trans], simp_all add: fits_int_def cusparseFillMode_t_def)

lemma cusparseDiagType_t_oversized [abi_oversized]: "oversized [] cusparseDiagType_t = Some []"
  by (rule oversized_simple [THEN trans], simp_all add: fits_int_def cusparseDiagType_t_def)

lemma cusparseIndexBase_t_oversized [abi_oversized]: "oversized [] cusparseIndexBase_t = Some []"
  by (rule oversized_simple [THEN trans], simp_all add: fits_int_def cusparseIndexBase_t_def)

lemma cusparseOperation_t_oversized [abi_oversized]: "oversized [] cusparseOperation_t = Some []"
  by (rule oversized_simple [THEN trans], simp_all add: fits_int_def cusparseOperation_t_def)

lemma cusparseDirection_t_oversized [abi_oversized]: "oversized [] cusparseDirection_t = Some []"
  by (rule oversized_simple [THEN trans], simp_all add: fits_int_def cusparseDirection_t_def)

lemma cusparseSolvePolicy_t_oversized [abi_oversized]: "oversized [] cusparseSolvePolicy_t = Some []"
  by (rule oversized_simple [THEN trans], simp_all add: fits_int_def cusparseSolvePolicy_t_def)

lemma cusparseSideMode_t_oversized [abi_oversized]: "oversized [] cusparseSideMode_t = Some []"
  by (rule oversized_simple [THEN trans], simp_all add: fits_int_def cusparseSideMode_t_def)

lemma cusparseColorAlg_t_oversized [abi_oversized]: "oversized [] cusparseColorAlg_t = Some []"
  by (rule oversized_simple [THEN trans], simp_all add: fits_int_def cusparseColorAlg_t_def)

lemma cusparseAlgMode_t_oversized [abi_oversized]: "oversized [] cusparseAlgMode_t = Some []"
  by (rule oversized_simple [THEN trans], simp_all add: fits_int_def cusparseAlgMode_t_def)

lemma cusparseCsr2CscAlg_t_oversized [abi_oversized]: "oversized [] cusparseCsr2CscAlg_t = Some []"
  by (rule oversized_simple [THEN trans], simp_all add: fits_int_def cusparseCsr2CscAlg_t_def)

lemma cusparseFormat_t_oversized [abi_oversized]: "oversized [] cusparseFormat_t = Some []"
  by (rule oversized_simple [THEN trans], simp_all add: fits_int_def cusparseFormat_t_def)

lemma cusparseOrder_t_oversized [abi_oversized]: "oversized [] cusparseOrder_t = Some []"
  by (rule oversized_simple [THEN trans], simp_all add: fits_int_def cusparseOrder_t_def)

lemma cusparseIndexType_t_oversized [abi_oversized]: "oversized [] cusparseIndexType_t = Some []"
  by (rule oversized_simple [THEN trans], simp_all add: fits_int_def cusparseIndexType_t_def)

lemma cusparseSpMatAttribute_t_oversized [abi_oversized]: "oversized [] cusparseSpMatAttribute_t = Some []"
  by (rule oversized_simple [THEN trans], simp_all add: fits_int_def cusparseSpMatAttribute_t_def)

lemma cusparseSparseToDenseAlg_t_oversized [abi_oversized]: "oversized [] cusparseSparseToDenseAlg_t = Some []"
  by (rule oversized_simple [THEN trans], simp_all add: fits_int_def cusparseSparseToDenseAlg_t_def)

lemma cusparseDenseToSparseAlg_t_oversized [abi_oversized]: "oversized [] cusparseDenseToSparseAlg_t = Some []"
  by (rule oversized_simple [THEN trans], simp_all add: fits_int_def cusparseDenseToSparseAlg_t_def)

lemma cusparseSpMVAlg_t_oversized [abi_oversized]: "oversized [] cusparseSpMVAlg_t = Some []"
  by (rule oversized_simple [THEN trans], simp_all add: fits_int_def cusparseSpMVAlg_t_def)

lemma cusparseSpSVAlg_t_oversized [abi_oversized]: "oversized [] cusparseSpSVAlg_t = Some []"
  by (rule oversized_simple [THEN trans], simp_all add: fits_int_def cusparseSpSVAlg_t_def)

lemma cusparseSpSMAlg_t_oversized [abi_oversized]: "oversized [] cusparseSpSMAlg_t = Some []"
  by (rule oversized_simple [THEN trans], simp_all add: fits_int_def cusparseSpSMAlg_t_def)

lemma cusparseSpMMAlg_t_oversized [abi_oversized]: "oversized [] cusparseSpMMAlg_t = Some []"
  by (rule oversized_simple [THEN trans], simp_all add: fits_int_def cusparseSpMMAlg_t_def)

lemma cusparseSpGEMMAlg_t_oversized [abi_oversized]: "oversized [] cusparseSpGEMMAlg_t = Some []"
  by (rule oversized_simple [THEN trans], simp_all add: fits_int_def cusparseSpGEMMAlg_t_def)

lemma cusparseSDDMMAlg_t_oversized [abi_oversized]: "oversized [] cusparseSDDMMAlg_t = Some []"
  by (rule oversized_simple [THEN trans], simp_all add: fits_int_def cusparseSDDMMAlg_t_def)

lemma cusparse_oversized:
  "all_oversized cusparse_enums = Some []"
  by (simp add: cusparse_enums_def all_oversized_def abi_oversized)

end
