(* ===== verification/Abi_Media.thy ===== *)
theory Abi_Media
  imports C_Enum
begin

text \<open>
  The enumerations of the \<open>nvjpeg\<close>, \<open>nvrtc\<close> and \<open>nvtx\<close> subset headers.
\<close>

section \<open>\<open>nvjpeg_subset.h\<close>\<close>

definition nvjpegStatus_t :: enum_decl where
  "nvjpegStatus_t =
    [(''NVJPEG_STATUS_SUCCESS'', Some (Lit 0)),
     (''NVJPEG_STATUS_NOT_INITIALIZED'', Some (Lit 1)),
     (''NVJPEG_STATUS_INVALID_PARAMETER'', Some (Lit 2)),
     (''NVJPEG_STATUS_BAD_JPEG'', Some (Lit 3)),
     (''NVJPEG_STATUS_JPEG_NOT_SUPPORTED'', Some (Lit 4)),
     (''NVJPEG_STATUS_ALLOCATOR_FAILURE'', Some (Lit 5)),
     (''NVJPEG_STATUS_EXECUTION_FAILED'', Some (Lit 6)),
     (''NVJPEG_STATUS_ARCH_MISMATCH'', Some (Lit 7)),
     (''NVJPEG_STATUS_INTERNAL_ERROR'', Some (Lit 8)),
     (''NVJPEG_STATUS_IMPLEMENTATION_NOT_SUPPORTED'', Some (Lit 9))]"

definition nvjpegChromaSubsampling_t :: enum_decl where
  "nvjpegChromaSubsampling_t =
    [(''NVJPEG_CSS_444'', Some (Lit 0)),
     (''NVJPEG_CSS_422'', Some (Lit 1)),
     (''NVJPEG_CSS_420'', Some (Lit 2)),
     (''NVJPEG_CSS_440'', Some (Lit 3)),
     (''NVJPEG_CSS_411'', Some (Lit 4)),
     (''NVJPEG_CSS_410'', Some (Lit 5)),
     (''NVJPEG_CSS_GRAY'', Some (Lit 6)),
     (''NVJPEG_CSS_410V'', Some (Lit 7)),
     (''NVJPEG_CSS_UNKNOWN'', Some (Lit (- 1)))]"

definition nvjpegOutputFormat_t :: enum_decl where
  "nvjpegOutputFormat_t =
    [(''NVJPEG_OUTPUT_UNCHANGED'', Some (Lit 0)),
     (''NVJPEG_OUTPUT_YUV'', Some (Lit 1)),
     (''NVJPEG_OUTPUT_Y'', Some (Lit 2)),
     (''NVJPEG_OUTPUT_RGB'', Some (Lit 3)),
     (''NVJPEG_OUTPUT_BGR'', Some (Lit 4)),
     (''NVJPEG_OUTPUT_RGBI'', Some (Lit 5)),
     (''NVJPEG_OUTPUT_BGRI'', Some (Lit 6)),
     (''NVJPEG_OUTPUT_FORMAT_MAX'', Some (Lit 6))]"

definition nvjpegInputFormat_t :: enum_decl where
  "nvjpegInputFormat_t =
    [(''NVJPEG_INPUT_RGB'', Some (Lit 3)),
     (''NVJPEG_INPUT_BGR'', Some (Lit 4)),
     (''NVJPEG_INPUT_RGBI'', Some (Lit 5)),
     (''NVJPEG_INPUT_BGRI'', Some (Lit 6))]"

definition nvjpegBackend_t :: enum_decl where
  "nvjpegBackend_t =
    [(''NVJPEG_BACKEND_DEFAULT'', Some (Lit 0)),
     (''NVJPEG_BACKEND_HYBRID'', Some (Lit 1)),
     (''NVJPEG_BACKEND_GPU_HYBRID'', Some (Lit 2)),
     (''NVJPEG_BACKEND_HARDWARE'', Some (Lit 3))]"

definition nvjpegJpegEncoding_t :: enum_decl where
  "nvjpegJpegEncoding_t =
    [(''NVJPEG_ENCODING_UNKNOWN'', Some (Lit 0x0)),
     (''NVJPEG_ENCODING_BASELINE_DCT'', Some (Lit 0xc0)),
     (''NVJPEG_ENCODING_EXTENDED_SEQUENTIAL_DCT_HUFFMAN'', Some (Lit 0xc1)),
     (''NVJPEG_ENCODING_PROGRESSIVE_DCT_HUFFMAN'', Some (Lit 0xc2))]"

definition nvjpegScaleFactor_t :: enum_decl where
  "nvjpegScaleFactor_t =
    [(''NVJPEG_SCALE_NONE'', Some (Lit 0)),
     (''NVJPEG_SCALE_1_BY_2'', Some (Lit 1)),
     (''NVJPEG_SCALE_1_BY_4'', Some (Lit 2)),
     (''NVJPEG_SCALE_1_BY_8'', Some (Lit 3))]"

section \<open>\<open>nvrtc_subset.h\<close>\<close>

definition nvrtcResult :: enum_decl where
  "nvrtcResult =
    [(''NVRTC_SUCCESS'', Some (Lit 0)),
     (''NVRTC_ERROR_OUT_OF_MEMORY'', Some (Lit 1)),
     (''NVRTC_ERROR_PROGRAM_CREATION_FAILURE'', Some (Lit 2)),
     (''NVRTC_ERROR_INVALID_INPUT'', Some (Lit 3)),
     (''NVRTC_ERROR_INVALID_PROGRAM'', Some (Lit 4)),
     (''NVRTC_ERROR_INVALID_OPTION'', Some (Lit 5)),
     (''NVRTC_ERROR_COMPILATION'', Some (Lit 6)),
     (''NVRTC_ERROR_BUILTIN_OPERATION_FAILURE'', Some (Lit 7)),
     (''NVRTC_ERROR_NO_NAME_EXPRESSIONS_AFTER_COMPILATION'', Some (Lit 8)),
     (''NVRTC_ERROR_NO_LOWERED_NAMES_BEFORE_COMPILATION'', Some (Lit 9)),
     (''NVRTC_ERROR_NAME_EXPRESSION_NOT_VALID'', Some (Lit 10)),
     (''NVRTC_ERROR_INTERNAL_ERROR'', Some (Lit 11))]"

section \<open>\<open>nvtx_subset.h\<close>\<close>

text \<open>The macros that the enumerators of this header use.\<close>

definition NVTX_RESOURCE_MAKE_TYPE :: "string \<Rightarrow> int \<Rightarrow> cexpr" where
  "NVTX_RESOURCE_MAKE_TYPE cls index =
     BitOr (Shl (Name (''NVTX_RESOURCE_CLASS_'' @ cls)) (Lit 16)) (Lit index)"

definition nvtx_defines :: enum_env where
  "nvtx_defines =
    [(''NVTX_RESOURCE_CLASS_GENERIC'', 1), (''NVTX_RESOURCE_CLASS_SYNC_OS'', 2),
     (''NVTX_RESOURCE_CLASS_SYNC_PTHREAD'', 3), (''NVTX_RESOURCE_CLASS_CUDA'', 4),
     (''NVTX_RESOURCE_CLASS_CUDART'', 5), (''NVTX_RESOURCE_CLASS_OPENCL'', 6)]"

definition nvtxColorType_t :: enum_decl where
  "nvtxColorType_t =
    [(''NVTX_COLOR_UNKNOWN'', Some (Lit 0)),
     (''NVTX_COLOR_ARGB'', Some (Lit 1))]"

definition nvtxMessageType_t :: enum_decl where
  "nvtxMessageType_t =
    [(''NVTX_MESSAGE_UNKNOWN'', Some (Lit 0)),
     (''NVTX_MESSAGE_TYPE_ASCII'', Some (Lit 1)),
     (''NVTX_MESSAGE_TYPE_UNICODE'', Some (Lit 2)),
     (''NVTX_MESSAGE_TYPE_REGISTERED'', Some (Lit 3))]"

definition nvtxInitializationMode_t :: enum_decl where
  "nvtxInitializationMode_t =
    [(''NVTX_INITIALIZATION_MODE_UNKNOWN'', Some (Lit 0)),
     (''NVTX_INITIALIZATION_MODE_CALLBACK_V1'', Some (Lit 1)),
     (''NVTX_INITIALIZATION_MODE_CALLBACK_V2'', Some (Lit 2)),
     (''NVTX_INITIALIZATION_MODE_SIZE'', None)]"

definition nvtxPayloadType_t :: enum_decl where
  "nvtxPayloadType_t =
    [(''NVTX_PAYLOAD_UNKNOWN'', Some (Lit 0)),
     (''NVTX_PAYLOAD_TYPE_UNSIGNED_INT64'', Some (Lit 1)),
     (''NVTX_PAYLOAD_TYPE_INT64'', Some (Lit 2)),
     (''NVTX_PAYLOAD_TYPE_DOUBLE'', Some (Lit 3)),
     (''NVTX_PAYLOAD_TYPE_UNSIGNED_INT32'', Some (Lit 4)),
     (''NVTX_PAYLOAD_TYPE_INT32'', Some (Lit 5)),
     (''NVTX_PAYLOAD_TYPE_FLOAT'', Some (Lit 6))]"

definition nvtxResourceGenericType_t :: enum_decl where
  "nvtxResourceGenericType_t =
    [(''NVTX_RESOURCE_TYPE_UNKNOWN'', Some (Lit 0)),
     (''NVTX_RESOURCE_TYPE_GENERIC_POINTER'', Some (NVTX_RESOURCE_MAKE_TYPE ''GENERIC'' 1)),
     (''NVTX_RESOURCE_TYPE_GENERIC_HANDLE'', Some (NVTX_RESOURCE_MAKE_TYPE ''GENERIC'' 2)),
     (''NVTX_RESOURCE_TYPE_GENERIC_THREAD_NATIVE'', Some (NVTX_RESOURCE_MAKE_TYPE ''GENERIC'' 3)),
     (''NVTX_RESOURCE_TYPE_GENERIC_THREAD_POSIX'', Some (NVTX_RESOURCE_MAKE_TYPE ''GENERIC'' 4))]"

definition nvtxResourceCUDAType_t :: enum_decl where
  "nvtxResourceCUDAType_t =
    [(''NVTX_RESOURCE_TYPE_CUDA_DEVICE'', Some (NVTX_RESOURCE_MAKE_TYPE ''CUDA'' 1)),
     (''NVTX_RESOURCE_TYPE_CUDA_CONTEXT'', Some (NVTX_RESOURCE_MAKE_TYPE ''CUDA'' 2)),
     (''NVTX_RESOURCE_TYPE_CUDA_STREAM'', Some (NVTX_RESOURCE_MAKE_TYPE ''CUDA'' 3)),
     (''NVTX_RESOURCE_TYPE_CUDA_EVENT'', Some (NVTX_RESOURCE_MAKE_TYPE ''CUDA'' 4))]"

definition nvtxResourceCUDARTType_t :: enum_decl where
  "nvtxResourceCUDARTType_t =
    [(''NVTX_RESOURCE_TYPE_CUDART_DEVICE'', Some (NVTX_RESOURCE_MAKE_TYPE ''CUDART'' 0)),
     (''NVTX_RESOURCE_TYPE_CUDART_STREAM'', Some (NVTX_RESOURCE_MAKE_TYPE ''CUDART'' 1)),
     (''NVTX_RESOURCE_TYPE_CUDART_EVENT'', Some (NVTX_RESOURCE_MAKE_TYPE ''CUDART'' 2))]"

definition nvtxResourceOpenCLType_t :: enum_decl where
  "nvtxResourceOpenCLType_t =
    [(''NVTX_RESOURCE_TYPE_OPENCL_DEVICE'', Some (NVTX_RESOURCE_MAKE_TYPE ''OPENCL'' 1)),
     (''NVTX_RESOURCE_TYPE_OPENCL_CONTEXT'', Some (NVTX_RESOURCE_MAKE_TYPE ''OPENCL'' 2)),
     (''NVTX_RESOURCE_TYPE_OPENCL_COMMANDQUEUE'', Some (NVTX_RESOURCE_MAKE_TYPE ''OPENCL'' 3)),
     (''NVTX_RESOURCE_TYPE_OPENCL_MEMOBJECT'', Some (NVTX_RESOURCE_MAKE_TYPE ''OPENCL'' 4)),
     (''NVTX_RESOURCE_TYPE_OPENCL_SAMPLER'', Some (NVTX_RESOURCE_MAKE_TYPE ''OPENCL'' 5)),
     (''NVTX_RESOURCE_TYPE_OPENCL_PROGRAM'', Some (NVTX_RESOURCE_MAKE_TYPE ''OPENCL'' 6)),
     (''NVTX_RESOURCE_TYPE_OPENCL_EVENT'', Some (NVTX_RESOURCE_MAKE_TYPE ''OPENCL'' 7))]"

definition nvtxResourceSyncPosixThreadType_t :: enum_decl where
  "nvtxResourceSyncPosixThreadType_t =
    [(''NVTX_RESOURCE_TYPE_SYNC_PTHREAD_MUTEX'', Some (NVTX_RESOURCE_MAKE_TYPE ''SYNC_PTHREAD'' 1)),
     (''NVTX_RESOURCE_TYPE_SYNC_PTHREAD_CONDITION'', Some (NVTX_RESOURCE_MAKE_TYPE ''SYNC_PTHREAD'' 2)),
     (''NVTX_RESOURCE_TYPE_SYNC_PTHREAD_RWLOCK'', Some (NVTX_RESOURCE_MAKE_TYPE ''SYNC_PTHREAD'' 3)),
     (''NVTX_RESOURCE_TYPE_SYNC_PTHREAD_BARRIER'', Some (NVTX_RESOURCE_MAKE_TYPE ''SYNC_PTHREAD'' 4)),
     (''NVTX_RESOURCE_TYPE_SYNC_PTHREAD_SPINLOCK'', Some (NVTX_RESOURCE_MAKE_TYPE ''SYNC_PTHREAD'' 5)),
     (''NVTX_RESOURCE_TYPE_SYNC_PTHREAD_ONCE'', Some (NVTX_RESOURCE_MAKE_TYPE ''SYNC_PTHREAD'' 6))]"

definition nvtxResourceSyncWindowsType_t :: enum_decl where
  "nvtxResourceSyncWindowsType_t =
    [(''NVTX_RESOURCE_TYPE_SYNC_WINDOWS_MUTEX'', Some (NVTX_RESOURCE_MAKE_TYPE ''SYNC_OS'' 1)),
     (''NVTX_RESOURCE_TYPE_SYNC_WINDOWS_SEMAPHORE'', Some (NVTX_RESOURCE_MAKE_TYPE ''SYNC_OS'' 2)),
     (''NVTX_RESOURCE_TYPE_SYNC_WINDOWS_EVENT'', Some (NVTX_RESOURCE_MAKE_TYPE ''SYNC_OS'' 3)),
     (''NVTX_RESOURCE_TYPE_SYNC_WINDOWS_CRITICAL_SECTION'', Some (NVTX_RESOURCE_MAKE_TYPE ''SYNC_OS'' 4)),
     (''NVTX_RESOURCE_TYPE_SYNC_WINDOWS_SRWLOCK'', Some (NVTX_RESOURCE_MAKE_TYPE ''SYNC_OS'' 5))]"

definition nvtxResourceSyncLinuxType_t :: enum_decl where
  "nvtxResourceSyncLinuxType_t =
    [(''NVTX_RESOURCE_TYPE_SYNC_LINUX_MUTEX'', Some (NVTX_RESOURCE_MAKE_TYPE ''SYNC_OS'' 1)),
     (''NVTX_RESOURCE_TYPE_SYNC_LINUX_FUTEX'', Some (NVTX_RESOURCE_MAKE_TYPE ''SYNC_OS'' 2)),
     (''NVTX_RESOURCE_TYPE_SYNC_LINUX_SEMAPHORE'', Some (NVTX_RESOURCE_MAKE_TYPE ''SYNC_OS'' 3)),
     (''NVTX_RESOURCE_TYPE_SYNC_LINUX_COMPLETION'', Some (NVTX_RESOURCE_MAKE_TYPE ''SYNC_OS'' 4)),
     (''NVTX_RESOURCE_TYPE_SYNC_LINUX_SPINLOCK'', Some (NVTX_RESOURCE_MAKE_TYPE ''SYNC_OS'' 5)),
     (''NVTX_RESOURCE_TYPE_SYNC_LINUX_SEQLOCK'', Some (NVTX_RESOURCE_MAKE_TYPE ''SYNC_OS'' 6)),
     (''NVTX_RESOURCE_TYPE_SYNC_LINUX_RCU'', Some (NVTX_RESOURCE_MAKE_TYPE ''SYNC_OS'' 7))]"

section \<open>Values\<close>

definition nvjpeg_enums :: "(enum_env \<times> enum_decl) list" where
  "nvjpeg_enums =
    [([], nvjpegStatus_t),
     ([], nvjpegChromaSubsampling_t),
     ([], nvjpegOutputFormat_t),
     ([], nvjpegInputFormat_t),
     ([], nvjpegBackend_t),
     ([], nvjpegJpegEncoding_t),
     ([], nvjpegScaleFactor_t)]"

lemma nvjpegStatus_t_oversized [abi_oversized]: "oversized [] nvjpegStatus_t = Some []"
  by (rule oversized_simple [THEN trans], simp_all add: fits_int_def nvjpegStatus_t_def)

lemma nvjpegChromaSubsampling_t_oversized [abi_oversized]: "oversized [] nvjpegChromaSubsampling_t = Some []"
  by (rule oversized_simple [THEN trans], simp_all add: fits_int_def nvjpegChromaSubsampling_t_def)

lemma nvjpegOutputFormat_t_oversized [abi_oversized]: "oversized [] nvjpegOutputFormat_t = Some []"
  by (rule oversized_simple [THEN trans], simp_all add: fits_int_def nvjpegOutputFormat_t_def)

lemma nvjpegInputFormat_t_oversized [abi_oversized]: "oversized [] nvjpegInputFormat_t = Some []"
  by (rule oversized_simple [THEN trans], simp_all add: fits_int_def nvjpegInputFormat_t_def)

lemma nvjpegBackend_t_oversized [abi_oversized]: "oversized [] nvjpegBackend_t = Some []"
  by (rule oversized_simple [THEN trans], simp_all add: fits_int_def nvjpegBackend_t_def)

lemma nvjpegJpegEncoding_t_oversized [abi_oversized]: "oversized [] nvjpegJpegEncoding_t = Some []"
  by (rule oversized_simple [THEN trans], simp_all add: fits_int_def nvjpegJpegEncoding_t_def)

lemma nvjpegScaleFactor_t_oversized [abi_oversized]: "oversized [] nvjpegScaleFactor_t = Some []"
  by (rule oversized_simple [THEN trans], simp_all add: fits_int_def nvjpegScaleFactor_t_def)

lemma nvjpeg_oversized:
  "all_oversized nvjpeg_enums = Some []"
  by (simp add: nvjpeg_enums_def all_oversized_def abi_oversized)

definition nvrtc_enums :: "(enum_env \<times> enum_decl) list" where
  "nvrtc_enums =
    [([], nvrtcResult)]"

lemma nvrtcResult_oversized [abi_oversized]: "oversized [] nvrtcResult = Some []"
  by (rule oversized_simple [THEN trans], simp_all add: fits_int_def nvrtcResult_def)

lemma nvrtc_oversized:
  "all_oversized nvrtc_enums = Some []"
  by (simp add: nvrtc_enums_def all_oversized_def abi_oversized)

definition nvtx_enums :: "(enum_env \<times> enum_decl) list" where
  "nvtx_enums =
    [([], nvtxColorType_t),
     ([], nvtxMessageType_t),
     ([], nvtxInitializationMode_t),
     ([], nvtxPayloadType_t),
     (nvtx_defines, nvtxResourceGenericType_t),
     (nvtx_defines, nvtxResourceCUDAType_t),
     (nvtx_defines, nvtxResourceCUDARTType_t),
     (nvtx_defines, nvtxResourceOpenCLType_t),
     (nvtx_defines, nvtxResourceSyncPosixThreadType_t),
     (nvtx_defines, nvtxResourceSyncWindowsType_t),
     (nvtx_defines, nvtxResourceSyncLinuxType_t)]"

lemma nvtxColorType_t_oversized [abi_oversized]: "oversized [] nvtxColorType_t = Some []"
  by (rule oversized_simple [THEN trans], simp_all add: fits_int_def nvtxColorType_t_def)

lemma nvtxMessageType_t_oversized [abi_oversized]: "oversized [] nvtxMessageType_t = Some []"
  by (rule oversized_simple [THEN trans], simp_all add: fits_int_def nvtxMessageType_t_def)

lemma nvtxInitializationMode_t_oversized [abi_oversized]: "oversized [] nvtxInitializationMode_t = Some []"
  by (rule oversized_simple [THEN trans], simp_all add: fits_int_def nvtxInitializationMode_t_def)

lemma nvtxPayloadType_t_oversized [abi_oversized]: "oversized [] nvtxPayloadType_t = Some []"
  by (rule oversized_simple [THEN trans], simp_all add: fits_int_def nvtxPayloadType_t_def)

lemma nvtxResourceGenericType_t_oversized [abi_oversized]: "oversized nvtx_defines nvtxResourceGenericType_t = Some []"
  by (simp add: enum_eval nvtxResourceGenericType_t_def nvtx_defines_def NVTX_RESOURCE_MAKE_TYPE_def)

lemma nvtxResourceCUDAType_t_oversized [abi_oversized]: "oversized nvtx_defines nvtxResourceCUDAType_t = Some []"
  by (simp add: enum_eval nvtxResourceCUDAType_t_def nvtx_defines_def NVTX_RESOURCE_MAKE_TYPE_def)

lemma nvtxResourceCUDARTType_t_oversized [abi_oversized]: "oversized nvtx_defines nvtxResourceCUDARTType_t = Some []"
  by (simp add: enum_eval nvtxResourceCUDARTType_t_def nvtx_defines_def NVTX_RESOURCE_MAKE_TYPE_def)

lemma nvtxResourceOpenCLType_t_oversized [abi_oversized]: "oversized nvtx_defines nvtxResourceOpenCLType_t = Some []"
  by (simp add: enum_eval nvtxResourceOpenCLType_t_def nvtx_defines_def NVTX_RESOURCE_MAKE_TYPE_def)

lemma nvtxResourceSyncPosixThreadType_t_oversized [abi_oversized]: "oversized nvtx_defines nvtxResourceSyncPosixThreadType_t = Some []"
  by (simp add: enum_eval nvtxResourceSyncPosixThreadType_t_def nvtx_defines_def NVTX_RESOURCE_MAKE_TYPE_def)

lemma nvtxResourceSyncWindowsType_t_oversized [abi_oversized]: "oversized nvtx_defines nvtxResourceSyncWindowsType_t = Some []"
  by (simp add: enum_eval nvtxResourceSyncWindowsType_t_def nvtx_defines_def NVTX_RESOURCE_MAKE_TYPE_def)

lemma nvtxResourceSyncLinuxType_t_oversized [abi_oversized]: "oversized nvtx_defines nvtxResourceSyncLinuxType_t = Some []"
  by (simp add: enum_eval nvtxResourceSyncLinuxType_t_def nvtx_defines_def NVTX_RESOURCE_MAKE_TYPE_def)

lemma nvtx_oversized:
  "all_oversized nvtx_enums = Some []"
  by (simp add: nvtx_enums_def all_oversized_def abi_oversized)

end
