(* ===== verification/Abi_Nvml.thy ===== *)
theory Abi_Nvml
  imports C_Enum
begin

text \<open>
  The enumerations of \<open>src/nvml/nvml_subset.h\<close> and, where the vendor's \<open>nvml.h\<close> declares the
  same enumeration, its declaration, with the enumerators on which the two disagree.
\<close>

section \<open>\<open>nvml_subset.h\<close>\<close>

definition nvmlReturn_t :: enum_decl where
  "nvmlReturn_t =
    [(''NVML_SUCCESS'', Some (Lit 0)),
     (''NVML_ERROR_UNINITIALIZED'', Some (Lit 1)),
     (''NVML_ERROR_INVALID_ARGUMENT'', Some (Lit 2)),
     (''NVML_ERROR_NOT_SUPPORTED'', Some (Lit 3)),
     (''NVML_ERROR_NO_PERMISSION'', Some (Lit 4)),
     (''NVML_ERROR_ALREADY_INITIALIZED'', Some (Lit 5)),
     (''NVML_ERROR_NOT_FOUND'', Some (Lit 6)),
     (''NVML_ERROR_INSUFFICIENT_SIZE'', Some (Lit 7)),
     (''NVML_ERROR_INSUFFICIENT_POWER'', Some (Lit 8)),
     (''NVML_ERROR_DRIVER_NOT_LOADED'', Some (Lit 9)),
     (''NVML_ERROR_TIMEOUT'', Some (Lit 10)),
     (''NVML_ERROR_IRQ_ISSUE'', Some (Lit 11)),
     (''NVML_ERROR_LIBRARY_NOT_FOUND'', Some (Lit 12)),
     (''NVML_ERROR_FUNCTION_NOT_FOUND'', Some (Lit 13)),
     (''NVML_ERROR_CORRUPTED_INFOROM'', Some (Lit 14)),
     (''NVML_ERROR_GPU_IS_LOST'', Some (Lit 15)),
     (''NVML_ERROR_RESET_REQUIRED'', Some (Lit 16)),
     (''NVML_ERROR_OPERATING_SYSTEM'', Some (Lit 17)),
     (''NVML_ERROR_LIB_RM_VERSION_MISMATCH'', Some (Lit 18)),
     (''NVML_ERROR_IN_USE'', Some (Lit 19)),
     (''NVML_ERROR_NO_DATA'', Some (Lit 20)),
     (''NVML_ERROR_UNKNOWN'', Some (Lit 999))]"

definition nvmlEccCounterType_t :: enum_decl where
  "nvmlEccCounterType_t =
    [(''NVML_VOLATILE_ECC'', Some (Lit 0)),
     (''NVML_AGGREGATE_ECC'', Some (Lit 1)),
     (''NVML_ECC_COUNTER_TYPE_COUNT'', None)]"

definition nvmlEnableState_t :: enum_decl where
  "nvmlEnableState_t =
    [(''NVML_FEATURE_DISABLED'', Some (Lit 0)),
     (''NVML_FEATURE_ENABLED'', Some (Lit 1))]"

definition nvmlRestrictedAPI_t :: enum_decl where
  "nvmlRestrictedAPI_t =
    [(''NVML_RESTRICTED_API_SET_APPLICATION_CLOCKS'', Some (Lit 0)),
     (''NVML_RESTRICTED_API_SET_AUTO_BOOSTED_CLOCKS'', Some (Lit 1)),
     (''NVML_RESTRICTED_API_COUNT'', None)]"

definition nvmlClockType_t :: enum_decl where
  "nvmlClockType_t =
    [(''NVML_CLOCK_GRAPHICS'', Some (Lit 0)),
     (''NVML_CLOCK_SM'', Some (Lit 1)),
     (''NVML_CLOCK_MEM'', Some (Lit 2)),
     (''NVML_CLOCK_VIDEO'', Some (Lit 3)),
     (''NVML_CLOCK_COUNT'', None)]"

definition nvmlBrandType_t :: enum_decl where
  "nvmlBrandType_t =
    [(''NVML_BRAND_UNKNOWN'', Some (Lit 0)),
     (''NVML_BRAND_QUADRO'', Some (Lit 1)),
     (''NVML_BRAND_TESLA'', Some (Lit 2)),
     (''NVML_BRAND_NVS'', Some (Lit 3)),
     (''NVML_BRAND_GRID'', Some (Lit 4)),
     (''NVML_BRAND_GEFORCE'', Some (Lit 5)),
     (''NVML_BRAND_TITAN'', Some (Lit 6)),
     (''NVML_BRAND_COUNT'', None)]"

definition nvmlBridgeChipType_t :: enum_decl where
  "nvmlBridgeChipType_t =
    [(''NVML_BRIDGE_CHIP_PLX'', Some (Lit 0)),
     (''NVML_BRIDGE_CHIP_BRO4'', Some (Lit 1))]"

definition nvmlClockId_t :: enum_decl where
  "nvmlClockId_t =
    [(''NVML_CLOCK_ID_CURRENT'', Some (Lit 0)),
     (''NVML_CLOCK_ID_APP_CLOCK_TARGET'', Some (Lit 1)),
     (''NVML_CLOCK_ID_APP_CLOCK_DEFAULT'', Some (Lit 2)),
     (''NVML_CLOCK_ID_CUSTOMER_BOOST_MAX'', Some (Lit 3)),
     (''NVML_CLOCK_ID_COUNT'', None)]"

definition nvmlComputeMode_t :: enum_decl where
  "nvmlComputeMode_t =
    [(''NVML_COMPUTEMODE_DEFAULT'', Some (Lit 0)),
     (''NVML_COMPUTEMODE_EXCLUSIVE_THREAD'', Some (Lit 1)),
     (''NVML_COMPUTEMODE_PROHIBITED'', Some (Lit 2)),
     (''NVML_COMPUTEMODE_EXCLUSIVE_PROCESS'', Some (Lit 3)),
     (''NVML_COMPUTEMODE_COUNT'', None)]"

definition nvmlDriverModel_t :: enum_decl where
  "nvmlDriverModel_t =
    [(''NVML_DRIVER_WDDM'', Some (Lit 0)),
     (''NVML_DRIVER_WDM'', Some (Lit 1))]"

definition nvmlEncoderType_t :: enum_decl where
  "nvmlEncoderType_t =
    [(''NVML_ENCODER_QUERY_H264'', Some (Lit 0)),
     (''NVML_ENCODER_QUERY_HEVC'', Some (Lit 1))]"

definition nvmlValueType_t :: enum_decl where
  "nvmlValueType_t =
    [(''NVML_VALUE_TYPE_DOUBLE'', Some (Lit 0)),
     (''NVML_VALUE_TYPE_UNSIGNED_INT'', Some (Lit 1)),
     (''NVML_VALUE_TYPE_UNSIGNED_LONG'', Some (Lit 2)),
     (''NVML_VALUE_TYPE_UNSIGNED_LONG_LONG'', Some (Lit 3)),
     (''NVML_VALUE_TYPE_SIGNED_LONG_LONG'', Some (Lit 4)),
     (''NVML_VALUE_TYPE_COUNT'', None)]"

definition nvmlGpuOperationMode_t :: enum_decl where
  "nvmlGpuOperationMode_t =
    [(''NVML_GOM_ALL_ON'', Some (Lit 0)),
     (''NVML_GOM_COMPUTE'', Some (Lit 1)),
     (''NVML_GOM_LOW_DP'', Some (Lit 2))]"

definition nvmlGridLicenseFeatureCode_t :: enum_decl where
  "nvmlGridLicenseFeatureCode_t =
    [(''NVML_GRID_LICENSE_FEATURE_CODE_VGPU'', Some (Lit 1)),
     (''NVML_GRID_LICENSE_FEATURE_CODE_VWORKSTATION'', Some (Lit 2))]"

definition nvmlInforomObject_t :: enum_decl where
  "nvmlInforomObject_t =
    [(''NVML_INFOROM_OEM'', Some (Lit 0)),
     (''NVML_INFOROM_ECC'', Some (Lit 1)),
     (''NVML_INFOROM_POWER'', Some (Lit 2)),
     (''NVML_INFOROM_COUNT'', None)]"

definition nvmlMemoryErrorType_t :: enum_decl where
  "nvmlMemoryErrorType_t =
    [(''NVML_MEMORY_ERROR_TYPE_CORRECTED'', Some (Lit 0)),
     (''NVML_MEMORY_ERROR_TYPE_UNCORRECTED'', Some (Lit 1)),
     (''NVML_MEMORY_ERROR_TYPE_COUNT'', None)]"

definition nvmlMemoryLocation_t :: enum_decl where
  "nvmlMemoryLocation_t =
    [(''NVML_MEMORY_LOCATION_L1_CACHE'', Some (Lit 0)),
     (''NVML_MEMORY_LOCATION_L2_CACHE'', Some (Lit 1)),
     (''NVML_MEMORY_LOCATION_DEVICE_MEMORY'', Some (Lit 2)),
     (''NVML_MEMORY_LOCATION_REGISTER_FILE'', Some (Lit 3)),
     (''NVML_MEMORY_LOCATION_TEXTURE_MEMORY'', Some (Lit 4)),
     (''NVML_MEMORY_LOCATION_TEXTURE_SHM'', Some (Lit 5)),
     (''NVML_MEMORY_LOCATION_CBU'', Some (Lit 6)),
     (''NVML_MEMORY_LOCATION_COUNT'', None)]"

definition nvmlNvLinkCapability_t :: enum_decl where
  "nvmlNvLinkCapability_t =
    [(''NVML_NVLINK_CAP_P2P_SUPPORTED'', Some (Lit 0)),
     (''NVML_NVLINK_CAP_SYSMEM_ACCESS'', Some (Lit 1)),
     (''NVML_NVLINK_CAP_P2P_ATOMICS'', Some (Lit 2)),
     (''NVML_NVLINK_CAP_SYSMEM_ATOMICS'', Some (Lit 3)),
     (''NVML_NVLINK_CAP_SLI_BRIDGE'', Some (Lit 4)),
     (''NVML_NVLINK_CAP_VALID'', Some (Lit 5)),
     (''NVML_NVLINK_CAP_COUNT'', None)]"

definition nvmlNvLinkErrorCounter_t :: enum_decl where
  "nvmlNvLinkErrorCounter_t =
    [(''NVML_NVLINK_ERROR_DL_REPLAY'', Some (Lit 0)),
     (''NVML_NVLINK_ERROR_DL_RECOVERY'', Some (Lit 1)),
     (''NVML_NVLINK_ERROR_DL_CRC_FLIT'', Some (Lit 2)),
     (''NVML_NVLINK_ERROR_DL_CRC_DATA'', Some (Lit 3)),
     (''NVML_NVLINK_ERROR_COUNT'', None)]"

definition nvmlNvLinkUtilizationCountUnits_t :: enum_decl where
  "nvmlNvLinkUtilizationCountUnits_t =
    [(''NVML_NVLINK_COUNTER_UNIT_CYCLES'', Some (Lit 0)),
     (''NVML_NVLINK_COUNTER_UNIT_PACKETS'', Some (Lit 1)),
     (''NVML_NVLINK_COUNTER_UNIT_BYTES'', Some (Lit 2)),
     (''NVML_NVLINK_COUNTER_UNIT_COUNT'', None)]"

definition nvmlNvLinkUtilizationCountPktTypes_t :: enum_decl where
  "nvmlNvLinkUtilizationCountPktTypes_t =
    [(''NVML_NVLINK_COUNTER_PKTFILTER_NOP'', Some (Lit 0x1)),
     (''NVML_NVLINK_COUNTER_PKTFILTER_READ'', Some (Lit 0x2)),
     (''NVML_NVLINK_COUNTER_PKTFILTER_WRITE'', Some (Lit 0x4)),
     (''NVML_NVLINK_COUNTER_PKTFILTER_RATOM'', Some (Lit 0x8)),
     (''NVML_NVLINK_COUNTER_PKTFILTER_NRATOM'', Some (Lit 0x10)),
     (''NVML_NVLINK_COUNTER_PKTFILTER_FLUSH'', Some (Lit 0x20)),
     (''NVML_NVLINK_COUNTER_PKTFILTER_RESPDATA'', Some (Lit 0x40)),
     (''NVML_NVLINK_COUNTER_PKTFILTER_RESPNODATA'', Some (Lit 0x80)),
     (''NVML_NVLINK_COUNTER_PKTFILTER_ALL'', Some (Lit 0xff))]"

definition nvmlGpuP2PCapsIndex_t :: enum_decl where
  "nvmlGpuP2PCapsIndex_t =
    [(''NVML_P2P_CAPS_INDEX_READ'', Some (Lit 0)),
     (''NVML_P2P_CAPS_INDEX_WRITE'', None),
     (''NVML_P2P_CAPS_INDEX_NVLINK'', None),
     (''NVML_P2P_CAPS_INDEX_ATOMICS'', None),
     (''NVML_P2P_CAPS_INDEX_PROP'', None),
     (''NVML_P2P_CAPS_INDEX_UNKNOWN'', None)]"

definition nvmlGpuP2PStatus_t :: enum_decl where
  "nvmlGpuP2PStatus_t =
    [(''NVML_P2P_STATUS_OK'', Some (Lit 0)),
     (''NVML_P2P_STATUS_CHIPSET_NOT_SUPPORED'', None),
     (''NVML_P2P_STATUS_GPU_NOT_SUPPORTED'', None),
     (''NVML_P2P_STATUS_IOH_TOPOLOGY_NOT_SUPPORTED'', None),
     (''NVML_P2P_STATUS_DISABLED_BY_REGKEY'', None),
     (''NVML_P2P_STATUS_NOT_SUPPORTED'', None),
     (''NVML_P2P_STATUS_UNKNOWN'', None)]"

definition nvmlPcieUtilCounter_t :: enum_decl where
  "nvmlPcieUtilCounter_t =
    [(''NVML_PCIE_UTIL_TX_BYTES'', Some (Lit 0)),
     (''NVML_PCIE_UTIL_RX_BYTES'', Some (Lit 1)),
     (''NVML_PCIE_UTIL_COUNT'', None)]"

definition nvmlPstates_t :: enum_decl where
  "nvmlPstates_t =
    [(''NVML_PSTATE_0'', Some (Lit 0)),
     (''NVML_PSTATE_1'', Some (Lit 1)),
     (''NVML_PSTATE_2'', Some (Lit 2)),
     (''NVML_PSTATE_3'', Some (Lit 3)),
     (''NVML_PSTATE_4'', Some (Lit 4)),
     (''NVML_PSTATE_5'', Some (Lit 5)),
     (''NVML_PSTATE_6'', Some (Lit 6)),
     (''NVML_PSTATE_7'', Some (Lit 7)),
     (''NVML_PSTATE_8'', Some (Lit 8)),
     (''NVML_PSTATE_9'', Some (Lit 9)),
     (''NVML_PSTATE_10'', Some (Lit 10)),
     (''NVML_PSTATE_11'', Some (Lit 11)),
     (''NVML_PSTATE_12'', Some (Lit 12)),
     (''NVML_PSTATE_13'', Some (Lit 13)),
     (''NVML_PSTATE_14'', Some (Lit 14)),
     (''NVML_PSTATE_15'', Some (Lit 15)),
     (''NVML_PSTATE_UNKNOWN'', Some (Lit 32))]"

definition nvmlPageRetirementCause_t :: enum_decl where
  "nvmlPageRetirementCause_t =
    [(''NVML_PAGE_RETIREMENT_CAUSE_MULTIPLE_SINGLE_BIT_ECC_ERRORS'', Some (Lit 0)),
     (''NVML_PAGE_RETIREMENT_CAUSE_DOUBLE_BIT_ECC_ERROR'', Some (Lit 1)),
     (''NVML_PAGE_RETIREMENT_CAUSE_COUNT'', None)]"

definition nvmlSamplingType_t :: enum_decl where
  "nvmlSamplingType_t =
    [(''NVML_TOTAL_POWER_SAMPLES'', Some (Lit 0)),
     (''NVML_GPU_UTILIZATION_SAMPLES'', Some (Lit 1)),
     (''NVML_MEMORY_UTILIZATION_SAMPLES'', Some (Lit 2)),
     (''NVML_ENC_UTILIZATION_SAMPLES'', Some (Lit 3)),
     (''NVML_DEC_UTILIZATION_SAMPLES'', Some (Lit 4)),
     (''NVML_PROCESSOR_CLK_SAMPLES'', Some (Lit 5)),
     (''NVML_MEMORY_CLK_SAMPLES'', Some (Lit 6)),
     (''NVML_SAMPLINGTYPE_COUNT'', None)]"

definition nvmlTemperatureSensors_t :: enum_decl where
  "nvmlTemperatureSensors_t =
    [(''NVML_TEMPERATURE_GPU'', Some (Lit 0)),
     (''NVML_TEMPERATURE_COUNT'', None)]"

definition nvmlTemperatureThresholds_t :: enum_decl where
  "nvmlTemperatureThresholds_t =
    [(''NVML_TEMPERATURE_THRESHOLD_SHUTDOWN'', Some (Lit 0)),
     (''NVML_TEMPERATURE_THRESHOLD_SLOWDOWN'', Some (Lit 1)),
     (''NVML_TEMPERATURE_THRESHOLD_MEM_MAX'', Some (Lit 2)),
     (''NVML_TEMPERATURE_THRESHOLD_GPU_MAX'', Some (Lit 3)),
     (''NVML_TEMPERATURE_THRESHOLD_COUNT'', None)]"

definition nvmlGpuTopologyLevel_t :: enum_decl where
  "nvmlGpuTopologyLevel_t =
    [(''NVML_TOPOLOGY_INTERNAL'', Some (Lit 0)),
     (''NVML_TOPOLOGY_SINGLE'', Some (Lit 10)),
     (''NVML_TOPOLOGY_MULTIPLE'', Some (Lit 20)),
     (''NVML_TOPOLOGY_HOSTBRIDGE'', Some (Lit 30)),
     (''NVML_TOPOLOGY_NODE'', Some (Lit 40)),
     (''NVML_TOPOLOGY_SYSTEM'', Some (Lit 50))]"

definition nvmlPerfPolicyType_t :: enum_decl where
  "nvmlPerfPolicyType_t =
    [(''NVML_PERF_POLICY_POWER'', Some (Lit 0)),
     (''NVML_PERF_POLICY_THERMAL'', Some (Lit 1)),
     (''NVML_PERF_POLICY_SYNC_BOOST'', Some (Lit 2)),
     (''NVML_PERF_POLICY_BOARD_LIMIT'', Some (Lit 3)),
     (''NVML_PERF_POLICY_LOW_UTILIZATION'', Some (Lit 4)),
     (''NVML_PERF_POLICY_RELIABILITY'', Some (Lit 5)),
     (''NVML_PERF_POLICY_TOTAL_APP_CLOCKS'', Some (Lit 10)),
     (''NVML_PERF_POLICY_TOTAL_BASE_CLOCKS'', Some (Lit 11)),
     (''NVML_PERF_POLICY_COUNT'', None)]"

definition nvmlGpuVirtualizationMode_t :: enum_decl where
  "nvmlGpuVirtualizationMode_t =
    [(''NVML_GPU_VIRTUALIZATION_MODE_NONE'', Some (Lit 0)),
     (''NVML_GPU_VIRTUALIZATION_MODE_PASSTHROUGH'', Some (Lit 1)),
     (''NVML_GPU_VIRTUALIZATION_MODE_VGPU'', Some (Lit 2)),
     (''NVML_GPU_VIRTUALIZATION_MODE_HOST_VGPU'', Some (Lit 3)),
     (''NVML_GPU_VIRTUALIZATION_MODE_HOST_VSGA'', Some (Lit 4))]"

definition nvmlDetachGpuState_t :: enum_decl where
  "nvmlDetachGpuState_t =
    [(''NVML_DETACH_GPU_KEEP'', Some (Lit 0)),
     (''NVML_DETACH_GPU_REMOVE'', None)]"

definition nvmlPcieLinkState_t :: enum_decl where
  "nvmlPcieLinkState_t =
    [(''NVML_PCIE_LINK_KEEP'', Some (Lit 0)),
     (''NVML_PCIE_LINK_SHUT_DOWN'', None)]"

definition nvmlVgpuGuestInfoState_t :: enum_decl where
  "nvmlVgpuGuestInfoState_t =
    [(''NVML_VGPU_INSTANCE_GUEST_INFO_STATE_UNINITIALIZED'', Some (Lit 0)),
     (''NVML_VGPU_INSTANCE_GUEST_INFO_STATE_INITIALIZED'', Some (Lit 1))]"

definition nvmlVgpuVmCompatibility_t :: enum_decl where
  "nvmlVgpuVmCompatibility_t =
    [(''NVML_VGPU_VM_COMPATIBILITY_NONE'', Some (Lit 0x0)),
     (''NVML_VGPU_VM_COMPATIBILITY_COLD'', Some (Lit 0x1)),
     (''NVML_VGPU_VM_COMPATIBILITY_HIBERNATE'', Some (Lit 0x2)),
     (''NVML_VGPU_VM_COMPATIBILITY_SLEEP'', Some (Lit 0x4)),
     (''NVML_VGPU_VM_COMPATIBILITY_LIVE'', Some (Lit 0x8))]"

definition nvmlVgpuPgpuCompatibilityLimitCode_t :: enum_decl where
  "nvmlVgpuPgpuCompatibilityLimitCode_t =
    [(''NVML_VGPU_COMPATIBILITY_LIMIT_NONE'', Some (Lit 0x0)),
     (''NVML_VGPU_COMPATIBILITY_LIMIT_HOST_DRIVER'', Some (Lit 0x1)),
     (''NVML_VGPU_COMPATIBILITY_LIMIT_GUEST_DRIVER'', Some (Lit 0x2)),
     (''NVML_VGPU_COMPATIBILITY_LIMIT_GPU'', Some (Lit 0x4)),
     (''NVML_VGPU_COMPATIBILITY_LIMIT_OTHER'', Some (Lit 0x80000000))]"

definition nvmlFanState_t :: enum_decl where
  "nvmlFanState_t =
    [(''NVML_FAN_NORMAL'', Some (Lit 0)),
     (''NVML_FAN_FAILED'', Some (Lit 1))]"

definition nvmlLedColor_t :: enum_decl where
  "nvmlLedColor_t =
    [(''NVML_LED_COLOR_GREEN'', Some (Lit 0)),
     (''NVML_LED_COLOR_AMBER'', Some (Lit 1))]"

definition nvmlVgpuVmIdType_t :: enum_decl where
  "nvmlVgpuVmIdType_t =
    [(''NVML_VGPU_VM_ID_DOMAIN_ID'', Some (Lit 0)),
     (''NVML_VGPU_VM_ID_UUID'', Some (Lit 1))]"

definition nvmlFBCSessionType_t :: enum_decl where
  "nvmlFBCSessionType_t =
    [(''NVML_FBC_SESSION_TYPE_UNKNOWN'', Some (Lit 0)),
     (''NVML_FBC_SESSION_TYPE_TOSYS'', None),
     (''NVML_FBC_SESSION_TYPE_CUDA'', None),
     (''NVML_FBC_SESSION_TYPE_VID'', None),
     (''NVML_FBC_SESSION_TYPE_HWENC'', None)]"

definition nvmlHostVgpuMode_t :: enum_decl where
  "nvmlHostVgpuMode_t =
    [(''NVML_HOST_VGPU_MODE_NON_SRIOV'', Some (Lit 0)),
     (''NVML_HOST_VGPU_MODE_SRIOV'', Some (Lit 1))]"

definition nvmlIntNvLinkDeviceType_t :: enum_decl where
  "nvmlIntNvLinkDeviceType_t =
    [(''NVML_NVLINK_DEVICE_TYPE_GPU'', Some (Lit 0x00)),
     (''NVML_NVLINK_DEVICE_TYPE_IBMNPU'', Some (Lit 0x01)),
     (''NVML_NVLINK_DEVICE_TYPE_SWITCH'', Some (Lit 0x02)),
     (''NVML_NVLINK_DEVICE_TYPE_UNKNOWN'', Some (Lit 0xff))]"

section \<open>The vendor's \<open>nvml.h\<close>\<close>

definition nvmlReturn_t_h :: enum_decl where
  "nvmlReturn_t_h =
    [(''NVML_SUCCESS'', Some (Lit 0)),
     (''NVML_ERROR_UNINITIALIZED'', Some (Lit 1)),
     (''NVML_ERROR_INVALID_ARGUMENT'', Some (Lit 2)),
     (''NVML_ERROR_NOT_SUPPORTED'', Some (Lit 3)),
     (''NVML_ERROR_NO_PERMISSION'', Some (Lit 4)),
     (''NVML_ERROR_ALREADY_INITIALIZED'', Some (Lit 5)),
     (''NVML_ERROR_NOT_FOUND'', Some (Lit 6)),
     (''NVML_ERROR_INSUFFICIENT_SIZE'', Some (Lit 7)),
     (''NVML_ERROR_INSUFFICIENT_POWER'', Some (Lit 8)),
     (''NVML_ERROR_DRIVER_NOT_LOADED'', Some (Lit 9)),
     (''NVML_ERROR_TIMEOUT'', Some (Lit 10)),
     (''NVML_ERROR_IRQ_ISSUE'', Some (Lit 11)),
     (''NVML_ERROR_LIBRARY_NOT_FOUND'', Some (Lit 12)),
     (''NVML_ERROR_FUNCTION_NOT_FOUND'', Some (Lit 13)),
     (''NVML_ERROR_CORRUPTED_INFOROM'', Some (Lit 14)),
     (''NVML_ERROR_GPU_IS_LOST'', Some (Lit 15)),
     (''NVML_ERROR_RESET_REQUIRED'', Some (Lit 16)),
     (''NVML_ERROR_OPERATING_SYSTEM'', Some (Lit 17)),
     (''NVML_ERROR_LIB_RM_VERSION_MISMATCH'', Some (Lit 18)),
     (''NVML_ERROR_IN_USE'', Some (Lit 19)),
     (''NVML_ERROR_MEMORY'', Some (Lit 20)),
     (''NVML_ERROR_NO_DATA'', Some (Lit 21)),
     (''NVML_ERROR_VGPU_ECC_NOT_SUPPORTED'', Some (Lit 22)),
     (''NVML_ERROR_INSUFFICIENT_RESOURCES'', Some (Lit 23)),
     (''NVML_ERROR_FREQ_NOT_SUPPORTED'', Some (Lit 24)),
     (''NVML_ERROR_UNKNOWN'', Some (Lit 999))]"

definition nvmlEccCounterType_t_h :: enum_decl where
  "nvmlEccCounterType_t_h =
    [(''NVML_VOLATILE_ECC'', Some (Lit 0)),
     (''NVML_AGGREGATE_ECC'', Some (Lit 1)),
     (''NVML_ECC_COUNTER_TYPE_COUNT'', None)]"

definition nvmlEnableState_t_h :: enum_decl where
  "nvmlEnableState_t_h =
    [(''NVML_FEATURE_DISABLED'', Some (Lit 0)),
     (''NVML_FEATURE_ENABLED'', Some (Lit 1))]"

definition nvmlRestrictedAPI_t_h :: enum_decl where
  "nvmlRestrictedAPI_t_h =
    [(''NVML_RESTRICTED_API_SET_APPLICATION_CLOCKS'', Some (Lit 0)),
     (''NVML_RESTRICTED_API_SET_AUTO_BOOSTED_CLOCKS'', Some (Lit 1)),
     (''NVML_RESTRICTED_API_COUNT'', None)]"

definition nvmlClockType_t_h :: enum_decl where
  "nvmlClockType_t_h =
    [(''NVML_CLOCK_GRAPHICS'', Some (Lit 0)),
     (''NVML_CLOCK_SM'', Some (Lit 1)),
     (''NVML_CLOCK_MEM'', Some (Lit 2)),
     (''NVML_CLOCK_VIDEO'', Some (Lit 3)),
     (''NVML_CLOCK_COUNT'', None)]"

definition nvmlBrandType_t_h :: enum_decl where
  "nvmlBrandType_t_h =
    [(''NVML_BRAND_UNKNOWN'', Some (Lit 0)),
     (''NVML_BRAND_QUADRO'', Some (Lit 1)),
     (''NVML_BRAND_TESLA'', Some (Lit 2)),
     (''NVML_BRAND_NVS'', Some (Lit 3)),
     (''NVML_BRAND_GRID'', Some (Lit 4)),
     (''NVML_BRAND_GEFORCE'', Some (Lit 5)),
     (''NVML_BRAND_TITAN'', Some (Lit 6)),
     (''NVML_BRAND_NVIDIA_VAPPS'', Some (Lit 7)),
     (''NVML_BRAND_NVIDIA_VPC'', Some (Lit 8)),
     (''NVML_BRAND_NVIDIA_VCS'', Some (Lit 9)),
     (''NVML_BRAND_NVIDIA_VWS'', Some (Lit 10)),
     (''NVML_BRAND_NVIDIA_VGAMING'', Some (Lit 11)),
     (''NVML_BRAND_QUADRO_RTX'', Some (Lit 12)),
     (''NVML_BRAND_NVIDIA_RTX'', Some (Lit 13)),
     (''NVML_BRAND_NVIDIA'', Some (Lit 14)),
     (''NVML_BRAND_GEFORCE_RTX'', Some (Lit 15)),
     (''NVML_BRAND_TITAN_RTX'', Some (Lit 16)),
     (''NVML_BRAND_COUNT'', None)]"

definition nvmlBridgeChipType_t_h :: enum_decl where
  "nvmlBridgeChipType_t_h =
    [(''NVML_BRIDGE_CHIP_PLX'', Some (Lit 0)),
     (''NVML_BRIDGE_CHIP_BRO4'', Some (Lit 1))]"

definition nvmlClockId_t_h :: enum_decl where
  "nvmlClockId_t_h =
    [(''NVML_CLOCK_ID_CURRENT'', Some (Lit 0)),
     (''NVML_CLOCK_ID_APP_CLOCK_TARGET'', Some (Lit 1)),
     (''NVML_CLOCK_ID_APP_CLOCK_DEFAULT'', Some (Lit 2)),
     (''NVML_CLOCK_ID_CUSTOMER_BOOST_MAX'', Some (Lit 3)),
     (''NVML_CLOCK_ID_COUNT'', None)]"

definition nvmlComputeMode_t_h :: enum_decl where
  "nvmlComputeMode_t_h =
    [(''NVML_COMPUTEMODE_DEFAULT'', Some (Lit 0)),
     (''NVML_COMPUTEMODE_EXCLUSIVE_THREAD'', Some (Lit 1)),
     (''NVML_COMPUTEMODE_PROHIBITED'', Some (Lit 2)),
     (''NVML_COMPUTEMODE_EXCLUSIVE_PROCESS'', Some (Lit 3)),
     (''NVML_COMPUTEMODE_COUNT'', None)]"

definition nvmlDriverModel_t_h :: enum_decl where
  "nvmlDriverModel_t_h =
    [(''NVML_DRIVER_WDDM'', Some (Lit 0)),
     (''NVML_DRIVER_WDM'', Some (Lit 1))]"

definition nvmlEncoderType_t_h :: enum_decl where
  "nvmlEncoderType_t_h =
    [(''NVML_ENCODER_QUERY_H264'', Some (Lit 0)),
     (''NVML_ENCODER_QUERY_HEVC'', Some (Lit 1))]"

definition nvmlValueType_t_h :: enum_decl where
  "nvmlValueType_t_h =
    [(''NVML_VALUE_TYPE_DOUBLE'', Some (Lit 0)),
     (''NVML_VALUE_TYPE_UNSIGNED_INT'', Some (Lit 1)),
     (''NVML_VALUE_TYPE_UNSIGNED_LONG'', Some (Lit 2)),
     (''NVML_VALUE_TYPE_UNSIGNED_LONG_LONG'', Some (Lit 3)),
     (''NVML_VALUE_TYPE_SIGNED_LONG_LONG'', Some (Lit 4)),
     (''NVML_VALUE_TYPE_COUNT'', None)]"

definition nvmlGpuOperationMode_t_h :: enum_decl where
  "nvmlGpuOperationMode_t_h =
    [(''NVML_GOM_ALL_ON'', Some (Lit 0)),
     (''NVML_GOM_COMPUTE'', Some (Lit 1)),
     (''NVML_GOM_LOW_DP'', Some (Lit 2))]"

definition nvmlGridLicenseFeatureCode_t_h :: enum_decl where
  "nvmlGridLicenseFeatureCode_t_h =
    [(''NVML_GRID_LICENSE_FEATURE_CODE_UNKNOWN'', Some (Lit 0)),
     (''NVML_GRID_LICENSE_FEATURE_CODE_VGPU'', Some (Lit 1)),
     (''NVML_GRID_LICENSE_FEATURE_CODE_NVIDIA_RTX'', Some (Lit 2)),
     (''NVML_GRID_LICENSE_FEATURE_CODE_VWORKSTATION'', Some (Name ''NVML_GRID_LICENSE_FEATURE_CODE_NVIDIA_RTX'')),
     (''NVML_GRID_LICENSE_FEATURE_CODE_GAMING'', Some (Lit 3)),
     (''NVML_GRID_LICENSE_FEATURE_CODE_COMPUTE'', Some (Lit 4))]"

definition nvmlInforomObject_t_h :: enum_decl where
  "nvmlInforomObject_t_h =
    [(''NVML_INFOROM_OEM'', Some (Lit 0)),
     (''NVML_INFOROM_ECC'', Some (Lit 1)),
     (''NVML_INFOROM_POWER'', Some (Lit 2)),
     (''NVML_INFOROM_COUNT'', None)]"

definition nvmlMemoryErrorType_t_h :: enum_decl where
  "nvmlMemoryErrorType_t_h =
    [(''NVML_MEMORY_ERROR_TYPE_CORRECTED'', Some (Lit 0)),
     (''NVML_MEMORY_ERROR_TYPE_UNCORRECTED'', Some (Lit 1)),
     (''NVML_MEMORY_ERROR_TYPE_COUNT'', None)]"

definition nvmlMemoryLocation_t_h :: enum_decl where
  "nvmlMemoryLocation_t_h =
    [(''NVML_MEMORY_LOCATION_L1_CACHE'', Some (Lit 0)),
     (''NVML_MEMORY_LOCATION_L2_CACHE'', Some (Lit 1)),
     (''NVML_MEMORY_LOCATION_DRAM'', Some (Lit 2)),
     (''NVML_MEMORY_LOCATION_DEVICE_MEMORY'', Some (Lit 2)),
     (''NVML_MEMORY_LOCATION_REGISTER_FILE'', Some (Lit 3)),
     (''NVML_MEMORY_LOCATION_TEXTURE_MEMORY'', Some (Lit 4)),
     (''NVML_MEMORY_LOCATION_TEXTURE_SHM'', Some (Lit 5)),
     (''NVML_MEMORY_LOCATION_CBU'', Some (Lit 6)),
     (''NVML_MEMORY_LOCATION_SRAM'', Some (Lit 7)),
     (''NVML_MEMORY_LOCATION_COUNT'', None)]"

definition nvmlNvLinkCapability_t_h :: enum_decl where
  "nvmlNvLinkCapability_t_h =
    [(''NVML_NVLINK_CAP_P2P_SUPPORTED'', Some (Lit 0)),
     (''NVML_NVLINK_CAP_SYSMEM_ACCESS'', Some (Lit 1)),
     (''NVML_NVLINK_CAP_P2P_ATOMICS'', Some (Lit 2)),
     (''NVML_NVLINK_CAP_SYSMEM_ATOMICS'', Some (Lit 3)),
     (''NVML_NVLINK_CAP_SLI_BRIDGE'', Some (Lit 4)),
     (''NVML_NVLINK_CAP_VALID'', Some (Lit 5)),
     (''NVML_NVLINK_CAP_COUNT'', None)]"

definition nvmlNvLinkErrorCounter_t_h :: enum_decl where
  "nvmlNvLinkErrorCounter_t_h =
    [(''NVML_NVLINK_ERROR_DL_REPLAY'', Some (Lit 0)),
     (''NVML_NVLINK_ERROR_DL_RECOVERY'', Some (Lit 1)),
     (''NVML_NVLINK_ERROR_DL_CRC_FLIT'', Some (Lit 2)),
     (''NVML_NVLINK_ERROR_DL_CRC_DATA'', Some (Lit 3)),
     (''NVML_NVLINK_ERROR_DL_ECC_DATA'', Some (Lit 4)),
     (''NVML_NVLINK_ERROR_COUNT'', None)]"

definition nvmlNvLinkUtilizationCountUnits_t_h :: enum_decl where
  "nvmlNvLinkUtilizationCountUnits_t_h =
    [(''NVML_NVLINK_COUNTER_UNIT_CYCLES'', Some (Lit 0)),
     (''NVML_NVLINK_COUNTER_UNIT_PACKETS'', Some (Lit 1)),
     (''NVML_NVLINK_COUNTER_UNIT_BYTES'', Some (Lit 2)),
     (''NVML_NVLINK_COUNTER_UNIT_RESERVED'', Some (Lit 3)),
     (''NVML_NVLINK_COUNTER_UNIT_COUNT'', None)]"

definition nvmlNvLinkUtilizationCountPktTypes_t_h :: enum_decl where
  "nvmlNvLinkUtilizationCountPktTypes_t_h =
    [(''NVML_NVLINK_COUNTER_PKTFILTER_NOP'', Some (Lit 0x1)),
     (''NVML_NVLINK_COUNTER_PKTFILTER_READ'', Some (Lit 0x2)),
     (''NVML_NVLINK_COUNTER_PKTFILTER_WRITE'', Some (Lit 0x4)),
     (''NVML_NVLINK_COUNTER_PKTFILTER_RATOM'', Some (Lit 0x8)),
     (''NVML_NVLINK_COUNTER_PKTFILTER_NRATOM'', Some (Lit 0x10)),
     (''NVML_NVLINK_COUNTER_PKTFILTER_FLUSH'', Some (Lit 0x20)),
     (''NVML_NVLINK_COUNTER_PKTFILTER_RESPDATA'', Some (Lit 0x40)),
     (''NVML_NVLINK_COUNTER_PKTFILTER_RESPNODATA'', Some (Lit 0x80)),
     (''NVML_NVLINK_COUNTER_PKTFILTER_ALL'', Some (Lit 0xff))]"

definition nvmlGpuP2PCapsIndex_t_h :: enum_decl where
  "nvmlGpuP2PCapsIndex_t_h =
    [(''NVML_P2P_CAPS_INDEX_READ'', Some (Lit 0)),
     (''NVML_P2P_CAPS_INDEX_WRITE'', None),
     (''NVML_P2P_CAPS_INDEX_NVLINK'', None),
     (''NVML_P2P_CAPS_INDEX_ATOMICS'', None),
     (''NVML_P2P_CAPS_INDEX_PROP'', None),
     (''NVML_P2P_CAPS_INDEX_UNKNOWN'', None)]"

definition nvmlGpuP2PStatus_t_h :: enum_decl where
  "nvmlGpuP2PStatus_t_h =
    [(''NVML_P2P_STATUS_OK'', Some (Lit 0)),
     (''NVML_P2P_STATUS_CHIPSET_NOT_SUPPORED'', None),
     (''NVML_P2P_STATUS_GPU_NOT_SUPPORTED'', None),
     (''NVML_P2P_STATUS_IOH_TOPOLOGY_NOT_SUPPORTED'', None),
     (''NVML_P2P_STATUS_DISABLED_BY_REGKEY'', None),
     (''NVML_P2P_STATUS_NOT_SUPPORTED'', None),
     (''NVML_P2P_STATUS_UNKNOWN'', None)]"

definition nvmlPcieUtilCounter_t_h :: enum_decl where
  "nvmlPcieUtilCounter_t_h =
    [(''NVML_PCIE_UTIL_TX_BYTES'', Some (Lit 0)),
     (''NVML_PCIE_UTIL_RX_BYTES'', Some (Lit 1)),
     (''NVML_PCIE_UTIL_COUNT'', None)]"

definition nvmlPstates_t_h :: enum_decl where
  "nvmlPstates_t_h =
    [(''NVML_PSTATE_0'', Some (Lit 0)),
     (''NVML_PSTATE_1'', Some (Lit 1)),
     (''NVML_PSTATE_2'', Some (Lit 2)),
     (''NVML_PSTATE_3'', Some (Lit 3)),
     (''NVML_PSTATE_4'', Some (Lit 4)),
     (''NVML_PSTATE_5'', Some (Lit 5)),
     (''NVML_PSTATE_6'', Some (Lit 6)),
     (''NVML_PSTATE_7'', Some (Lit 7)),
     (''NVML_PSTATE_8'', Some (Lit 8)),
     (''NVML_PSTATE_9'', Some (Lit 9)),
     (''NVML_PSTATE_10'', Some (Lit 10)),
     (''NVML_PSTATE_11'', Some (Lit 11)),
     (''NVML_PSTATE_12'', Some (Lit 12)),
     (''NVML_PSTATE_13'', Some (Lit 13)),
     (''NVML_PSTATE_14'', Some (Lit 14)),
     (''NVML_PSTATE_15'', Some (Lit 15)),
     (''NVML_PSTATE_UNKNOWN'', Some (Lit 32))]"

definition nvmlPageRetirementCause_t_h :: enum_decl where
  "nvmlPageRetirementCause_t_h =
    [(''NVML_PAGE_RETIREMENT_CAUSE_MULTIPLE_SINGLE_BIT_ECC_ERRORS'', Some (Lit 0)),
     (''NVML_PAGE_RETIREMENT_CAUSE_DOUBLE_BIT_ECC_ERROR'', Some (Lit 1)),
     (''NVML_PAGE_RETIREMENT_CAUSE_COUNT'', None)]"

definition nvmlSamplingType_t_h :: enum_decl where
  "nvmlSamplingType_t_h =
    [(''NVML_TOTAL_POWER_SAMPLES'', Some (Lit 0)),
     (''NVML_GPU_UTILIZATION_SAMPLES'', Some (Lit 1)),
     (''NVML_MEMORY_UTILIZATION_SAMPLES'', Some (Lit 2)),
     (''NVML_ENC_UTILIZATION_SAMPLES'', Some (Lit 3)),
     (''NVML_DEC_UTILIZATION_SAMPLES'', Some (Lit 4)),
     (''NVML_PROCESSOR_CLK_SAMPLES'', Some (Lit 5)),
     (''NVML_MEMORY_CLK_SAMPLES'', Some (Lit 6)),
     (''NVML_SAMPLINGTYPE_COUNT'', None)]"

definition nvmlTemperatureSensors_t_h :: enum_decl where
  "nvmlTemperatureSensors_t_h =
    [(''NVML_TEMPERATURE_GPU'', Some (Lit 0)),
     (''NVML_TEMPERATURE_COUNT'', None)]"

definition nvmlTemperatureThresholds_t_h :: enum_decl where
  "nvmlTemperatureThresholds_t_h =
    [(''NVML_TEMPERATURE_THRESHOLD_SHUTDOWN'', Some (Lit 0)),
     (''NVML_TEMPERATURE_THRESHOLD_SLOWDOWN'', Some (Lit 1)),
     (''NVML_TEMPERATURE_THRESHOLD_MEM_MAX'', Some (Lit 2)),
     (''NVML_TEMPERATURE_THRESHOLD_GPU_MAX'', Some (Lit 3)),
     (''NVML_TEMPERATURE_THRESHOLD_ACOUSTIC_MIN'', Some (Lit 4)),
     (''NVML_TEMPERATURE_THRESHOLD_ACOUSTIC_CURR'', Some (Lit 5)),
     (''NVML_TEMPERATURE_THRESHOLD_ACOUSTIC_MAX'', Some (Lit 6)),
     (''NVML_TEMPERATURE_THRESHOLD_COUNT'', None)]"

definition nvmlGpuTopologyLevel_t_h :: enum_decl where
  "nvmlGpuTopologyLevel_t_h =
    [(''NVML_TOPOLOGY_INTERNAL'', Some (Lit 0)),
     (''NVML_TOPOLOGY_SINGLE'', Some (Lit 10)),
     (''NVML_TOPOLOGY_MULTIPLE'', Some (Lit 20)),
     (''NVML_TOPOLOGY_HOSTBRIDGE'', Some (Lit 30)),
     (''NVML_TOPOLOGY_NODE'', Some (Lit 40)),
     (''NVML_TOPOLOGY_SYSTEM'', Some (Lit 50))]"

definition nvmlPerfPolicyType_t_h :: enum_decl where
  "nvmlPerfPolicyType_t_h =
    [(''NVML_PERF_POLICY_POWER'', Some (Lit 0)),
     (''NVML_PERF_POLICY_THERMAL'', Some (Lit 1)),
     (''NVML_PERF_POLICY_SYNC_BOOST'', Some (Lit 2)),
     (''NVML_PERF_POLICY_BOARD_LIMIT'', Some (Lit 3)),
     (''NVML_PERF_POLICY_LOW_UTILIZATION'', Some (Lit 4)),
     (''NVML_PERF_POLICY_RELIABILITY'', Some (Lit 5)),
     (''NVML_PERF_POLICY_TOTAL_APP_CLOCKS'', Some (Lit 10)),
     (''NVML_PERF_POLICY_TOTAL_BASE_CLOCKS'', Some (Lit 11)),
     (''NVML_PERF_POLICY_COUNT'', None)]"

definition nvmlGpuVirtualizationMode_t_h :: enum_decl where
  "nvmlGpuVirtualizationMode_t_h =
    [(''NVML_GPU_VIRTUALIZATION_MODE_NONE'', Some (Lit 0)),
     (''NVML_GPU_VIRTUALIZATION_MODE_PASSTHROUGH'', Some (Lit 1)),
     (''NVML_GPU_VIRTUALIZATION_MODE_VGPU'', Some (Lit 2)),
     (''NVML_GPU_VIRTUALIZATION_MODE_HOST_VGPU'', Some (Lit 3)),
     (''NVML_GPU_VIRTUALIZATION_MODE_HOST_VSGA'', Some (Lit 4))]"

definition nvmlDetachGpuState_t_h :: enum_decl where
  "nvmlDetachGpuState_t_h =
    [(''NVML_DETACH_GPU_KEEP'', Some (Lit 0)),
     (''NVML_DETACH_GPU_REMOVE'', None)]"

definition nvmlPcieLinkState_t_h :: enum_decl where
  "nvmlPcieLinkState_t_h =
    [(''NVML_PCIE_LINK_KEEP'', Some (Lit 0)),
     (''NVML_PCIE_LINK_SHUT_DOWN'', None)]"

definition nvmlVgpuGuestInfoState_t_h :: enum_decl where
  "nvmlVgpuGuestInfoState_t_h =
    [(''NVML_VGPU_INSTANCE_GUEST_INFO_STATE_UNINITIALIZED'', Some (Lit 0)),
     (''NVML_VGPU_INSTANCE_GUEST_INFO_STATE_INITIALIZED'', Some (Lit 1))]"

definition nvmlVgpuVmCompatibility_t_h :: enum_decl where
  "nvmlVgpuVmCompatibility_t_h =
    [(''NVML_VGPU_VM_COMPATIBILITY_NONE'', Some (Lit 0x0)),
     (''NVML_VGPU_VM_COMPATIBILITY_COLD'', Some (Lit 0x1)),
     (''NVML_VGPU_VM_COMPATIBILITY_HIBERNATE'', Some (Lit 0x2)),
     (''NVML_VGPU_VM_COMPATIBILITY_SLEEP'', Some (Lit 0x4)),
     (''NVML_VGPU_VM_COMPATIBILITY_LIVE'', Some (Lit 0x8))]"

definition nvmlVgpuPgpuCompatibilityLimitCode_t_h :: enum_decl where
  "nvmlVgpuPgpuCompatibilityLimitCode_t_h =
    [(''NVML_VGPU_COMPATIBILITY_LIMIT_NONE'', Some (Lit 0x0)),
     (''NVML_VGPU_COMPATIBILITY_LIMIT_HOST_DRIVER'', Some (Lit 0x1)),
     (''NVML_VGPU_COMPATIBILITY_LIMIT_GUEST_DRIVER'', Some (Lit 0x2)),
     (''NVML_VGPU_COMPATIBILITY_LIMIT_GPU'', Some (Lit 0x4)),
     (''NVML_VGPU_COMPATIBILITY_LIMIT_OTHER'', Some (Lit 0x80000000))]"

definition nvmlFanState_t_h :: enum_decl where
  "nvmlFanState_t_h =
    [(''NVML_FAN_NORMAL'', Some (Lit 0)),
     (''NVML_FAN_FAILED'', Some (Lit 1))]"

definition nvmlLedColor_t_h :: enum_decl where
  "nvmlLedColor_t_h =
    [(''NVML_LED_COLOR_GREEN'', Some (Lit 0)),
     (''NVML_LED_COLOR_AMBER'', Some (Lit 1))]"

definition nvmlVgpuVmIdType_t_h :: enum_decl where
  "nvmlVgpuVmIdType_t_h =
    [(''NVML_VGPU_VM_ID_DOMAIN_ID'', Some (Lit 0)),
     (''NVML_VGPU_VM_ID_UUID'', Some (Lit 1))]"

definition nvmlFBCSessionType_t_h :: enum_decl where
  "nvmlFBCSessionType_t_h =
    [(''NVML_FBC_SESSION_TYPE_UNKNOWN'', Some (Lit 0)),
     (''NVML_FBC_SESSION_TYPE_TOSYS'', None),
     (''NVML_FBC_SESSION_TYPE_CUDA'', None),
     (''NVML_FBC_SESSION_TYPE_VID'', None),
     (''NVML_FBC_SESSION_TYPE_HWENC'', None)]"

definition nvmlHostVgpuMode_t_h :: enum_decl where
  "nvmlHostVgpuMode_t_h =
    [(''NVML_HOST_VGPU_MODE_NON_SRIOV'', Some (Lit 0)),
     (''NVML_HOST_VGPU_MODE_SRIOV'', Some (Lit 1))]"

definition nvmlIntNvLinkDeviceType_t_h :: enum_decl where
  "nvmlIntNvLinkDeviceType_t_h =
    [(''NVML_NVLINK_DEVICE_TYPE_GPU'', Some (Lit 0x00)),
     (''NVML_NVLINK_DEVICE_TYPE_IBMNPU'', Some (Lit 0x01)),
     (''NVML_NVLINK_DEVICE_TYPE_SWITCH'', Some (Lit 0x02)),
     (''NVML_NVLINK_DEVICE_TYPE_UNKNOWN'', Some (Lit 0xff))]"

section \<open>Values\<close>

definition nvml_enums :: "(enum_env \<times> enum_decl) list" where
  "nvml_enums =
    [([], nvmlReturn_t),
     ([], nvmlEccCounterType_t),
     ([], nvmlEnableState_t),
     ([], nvmlRestrictedAPI_t),
     ([], nvmlClockType_t),
     ([], nvmlBrandType_t),
     ([], nvmlBridgeChipType_t),
     ([], nvmlClockId_t),
     ([], nvmlComputeMode_t),
     ([], nvmlDriverModel_t),
     ([], nvmlEncoderType_t),
     ([], nvmlValueType_t),
     ([], nvmlGpuOperationMode_t),
     ([], nvmlGridLicenseFeatureCode_t),
     ([], nvmlInforomObject_t),
     ([], nvmlMemoryErrorType_t),
     ([], nvmlMemoryLocation_t),
     ([], nvmlNvLinkCapability_t),
     ([], nvmlNvLinkErrorCounter_t),
     ([], nvmlNvLinkUtilizationCountUnits_t),
     ([], nvmlNvLinkUtilizationCountPktTypes_t),
     ([], nvmlGpuP2PCapsIndex_t),
     ([], nvmlGpuP2PStatus_t),
     ([], nvmlPcieUtilCounter_t),
     ([], nvmlPstates_t),
     ([], nvmlPageRetirementCause_t),
     ([], nvmlSamplingType_t),
     ([], nvmlTemperatureSensors_t),
     ([], nvmlTemperatureThresholds_t),
     ([], nvmlGpuTopologyLevel_t),
     ([], nvmlPerfPolicyType_t),
     ([], nvmlGpuVirtualizationMode_t),
     ([], nvmlDetachGpuState_t),
     ([], nvmlPcieLinkState_t),
     ([], nvmlVgpuGuestInfoState_t),
     ([], nvmlVgpuVmCompatibility_t),
     ([], nvmlVgpuPgpuCompatibilityLimitCode_t),
     ([], nvmlFanState_t),
     ([], nvmlLedColor_t),
     ([], nvmlVgpuVmIdType_t),
     ([], nvmlFBCSessionType_t),
     ([], nvmlHostVgpuMode_t),
     ([], nvmlIntNvLinkDeviceType_t)]"

lemma nvmlReturn_t_oversized [abi_oversized]: "oversized [] nvmlReturn_t = Some []"
  by (rule oversized_simple [THEN trans], simp_all add: fits_int_def nvmlReturn_t_def)

lemma nvmlEccCounterType_t_oversized [abi_oversized]: "oversized [] nvmlEccCounterType_t = Some []"
  by (rule oversized_simple [THEN trans], simp_all add: fits_int_def nvmlEccCounterType_t_def)

lemma nvmlEnableState_t_oversized [abi_oversized]: "oversized [] nvmlEnableState_t = Some []"
  by (rule oversized_simple [THEN trans], simp_all add: fits_int_def nvmlEnableState_t_def)

lemma nvmlRestrictedAPI_t_oversized [abi_oversized]: "oversized [] nvmlRestrictedAPI_t = Some []"
  by (rule oversized_simple [THEN trans], simp_all add: fits_int_def nvmlRestrictedAPI_t_def)

lemma nvmlClockType_t_oversized [abi_oversized]: "oversized [] nvmlClockType_t = Some []"
  by (rule oversized_simple [THEN trans], simp_all add: fits_int_def nvmlClockType_t_def)

lemma nvmlBrandType_t_oversized [abi_oversized]: "oversized [] nvmlBrandType_t = Some []"
  by (rule oversized_simple [THEN trans], simp_all add: fits_int_def nvmlBrandType_t_def)

lemma nvmlBridgeChipType_t_oversized [abi_oversized]: "oversized [] nvmlBridgeChipType_t = Some []"
  by (rule oversized_simple [THEN trans], simp_all add: fits_int_def nvmlBridgeChipType_t_def)

lemma nvmlClockId_t_oversized [abi_oversized]: "oversized [] nvmlClockId_t = Some []"
  by (rule oversized_simple [THEN trans], simp_all add: fits_int_def nvmlClockId_t_def)

lemma nvmlComputeMode_t_oversized [abi_oversized]: "oversized [] nvmlComputeMode_t = Some []"
  by (rule oversized_simple [THEN trans], simp_all add: fits_int_def nvmlComputeMode_t_def)

lemma nvmlDriverModel_t_oversized [abi_oversized]: "oversized [] nvmlDriverModel_t = Some []"
  by (rule oversized_simple [THEN trans], simp_all add: fits_int_def nvmlDriverModel_t_def)

lemma nvmlEncoderType_t_oversized [abi_oversized]: "oversized [] nvmlEncoderType_t = Some []"
  by (rule oversized_simple [THEN trans], simp_all add: fits_int_def nvmlEncoderType_t_def)

lemma nvmlValueType_t_oversized [abi_oversized]: "oversized [] nvmlValueType_t = Some []"
  by (rule oversized_simple [THEN trans], simp_all add: fits_int_def nvmlValueType_t_def)

lemma nvmlGpuOperationMode_t_oversized [abi_oversized]: "oversized [] nvmlGpuOperationMode_t = Some []"
  by (rule oversized_simple [THEN trans], simp_all add: fits_int_def nvmlGpuOperationMode_t_def)

lemma nvmlGridLicenseFeatureCode_t_oversized [abi_oversized]: "oversized [] nvmlGridLicenseFeatureCode_t = Some []"
  by (rule oversized_simple [THEN trans], simp_all add: fits_int_def nvmlGridLicenseFeatureCode_t_def)

lemma nvmlInforomObject_t_oversized [abi_oversized]: "oversized [] nvmlInforomObject_t = Some []"
  by (rule oversized_simple [THEN trans], simp_all add: fits_int_def nvmlInforomObject_t_def)

lemma nvmlMemoryErrorType_t_oversized [abi_oversized]: "oversized [] nvmlMemoryErrorType_t = Some []"
  by (rule oversized_simple [THEN trans], simp_all add: fits_int_def nvmlMemoryErrorType_t_def)

lemma nvmlMemoryLocation_t_oversized [abi_oversized]: "oversized [] nvmlMemoryLocation_t = Some []"
  by (rule oversized_simple [THEN trans], simp_all add: fits_int_def nvmlMemoryLocation_t_def)

lemma nvmlNvLinkCapability_t_oversized [abi_oversized]: "oversized [] nvmlNvLinkCapability_t = Some []"
  by (rule oversized_simple [THEN trans], simp_all add: fits_int_def nvmlNvLinkCapability_t_def)

lemma nvmlNvLinkErrorCounter_t_oversized [abi_oversized]: "oversized [] nvmlNvLinkErrorCounter_t = Some []"
  by (rule oversized_simple [THEN trans], simp_all add: fits_int_def nvmlNvLinkErrorCounter_t_def)

lemma nvmlNvLinkUtilizationCountUnits_t_oversized [abi_oversized]: "oversized [] nvmlNvLinkUtilizationCountUnits_t = Some []"
  by (rule oversized_simple [THEN trans], simp_all add: fits_int_def nvmlNvLinkUtilizationCountUnits_t_def)

lemma nvmlNvLinkUtilizationCountPktTypes_t_oversized [abi_oversized]: "oversized [] nvmlNvLinkUtilizationCountPktTypes_t = Some []"
  by (rule oversized_simple [THEN trans], simp_all add: fits_int_def nvmlNvLinkUtilizationCountPktTypes_t_def)

lemma nvmlGpuP2PCapsIndex_t_oversized [abi_oversized]: "oversized [] nvmlGpuP2PCapsIndex_t = Some []"
  by (rule oversized_simple [THEN trans], simp_all add: fits_int_def nvmlGpuP2PCapsIndex_t_def)

lemma nvmlGpuP2PStatus_t_oversized [abi_oversized]: "oversized [] nvmlGpuP2PStatus_t = Some []"
  by (rule oversized_simple [THEN trans], simp_all add: fits_int_def nvmlGpuP2PStatus_t_def)

lemma nvmlPcieUtilCounter_t_oversized [abi_oversized]: "oversized [] nvmlPcieUtilCounter_t = Some []"
  by (rule oversized_simple [THEN trans], simp_all add: fits_int_def nvmlPcieUtilCounter_t_def)

lemma nvmlPstates_t_oversized [abi_oversized]: "oversized [] nvmlPstates_t = Some []"
  by (rule oversized_simple [THEN trans], simp_all add: fits_int_def nvmlPstates_t_def)

lemma nvmlPageRetirementCause_t_oversized [abi_oversized]: "oversized [] nvmlPageRetirementCause_t = Some []"
  by (rule oversized_simple [THEN trans], simp_all add: fits_int_def nvmlPageRetirementCause_t_def)

lemma nvmlSamplingType_t_oversized [abi_oversized]: "oversized [] nvmlSamplingType_t = Some []"
  by (rule oversized_simple [THEN trans], simp_all add: fits_int_def nvmlSamplingType_t_def)

lemma nvmlTemperatureSensors_t_oversized [abi_oversized]: "oversized [] nvmlTemperatureSensors_t = Some []"
  by (rule oversized_simple [THEN trans], simp_all add: fits_int_def nvmlTemperatureSensors_t_def)

lemma nvmlTemperatureThresholds_t_oversized [abi_oversized]: "oversized [] nvmlTemperatureThresholds_t = Some []"
  by (rule oversized_simple [THEN trans], simp_all add: fits_int_def nvmlTemperatureThresholds_t_def)

lemma nvmlGpuTopologyLevel_t_oversized [abi_oversized]: "oversized [] nvmlGpuTopologyLevel_t = Some []"
  by (rule oversized_simple [THEN trans], simp_all add: fits_int_def nvmlGpuTopologyLevel_t_def)

lemma nvmlPerfPolicyType_t_oversized [abi_oversized]: "oversized [] nvmlPerfPolicyType_t = Some []"
  by (rule oversized_simple [THEN trans], simp_all add: fits_int_def nvmlPerfPolicyType_t_def)

lemma nvmlGpuVirtualizationMode_t_oversized [abi_oversized]: "oversized [] nvmlGpuVirtualizationMode_t = Some []"
  by (rule oversized_simple [THEN trans], simp_all add: fits_int_def nvmlGpuVirtualizationMode_t_def)

lemma nvmlDetachGpuState_t_oversized [abi_oversized]: "oversized [] nvmlDetachGpuState_t = Some []"
  by (rule oversized_simple [THEN trans], simp_all add: fits_int_def nvmlDetachGpuState_t_def)

lemma nvmlPcieLinkState_t_oversized [abi_oversized]: "oversized [] nvmlPcieLinkState_t = Some []"
  by (rule oversized_simple [THEN trans], simp_all add: fits_int_def nvmlPcieLinkState_t_def)

lemma nvmlVgpuGuestInfoState_t_oversized [abi_oversized]: "oversized [] nvmlVgpuGuestInfoState_t = Some []"
  by (rule oversized_simple [THEN trans], simp_all add: fits_int_def nvmlVgpuGuestInfoState_t_def)

lemma nvmlVgpuVmCompatibility_t_oversized [abi_oversized]: "oversized [] nvmlVgpuVmCompatibility_t = Some []"
  by (rule oversized_simple [THEN trans], simp_all add: fits_int_def nvmlVgpuVmCompatibility_t_def)

lemma nvmlVgpuPgpuCompatibilityLimitCode_t_oversized [abi_oversized]: "oversized [] nvmlVgpuPgpuCompatibilityLimitCode_t = Some [''NVML_VGPU_COMPATIBILITY_LIMIT_OTHER'']"
  by (rule oversized_simple [THEN trans], simp_all add: fits_int_def nvmlVgpuPgpuCompatibilityLimitCode_t_def)

lemma nvmlFanState_t_oversized [abi_oversized]: "oversized [] nvmlFanState_t = Some []"
  by (rule oversized_simple [THEN trans], simp_all add: fits_int_def nvmlFanState_t_def)

lemma nvmlLedColor_t_oversized [abi_oversized]: "oversized [] nvmlLedColor_t = Some []"
  by (rule oversized_simple [THEN trans], simp_all add: fits_int_def nvmlLedColor_t_def)

lemma nvmlVgpuVmIdType_t_oversized [abi_oversized]: "oversized [] nvmlVgpuVmIdType_t = Some []"
  by (rule oversized_simple [THEN trans], simp_all add: fits_int_def nvmlVgpuVmIdType_t_def)

lemma nvmlFBCSessionType_t_oversized [abi_oversized]: "oversized [] nvmlFBCSessionType_t = Some []"
  by (rule oversized_simple [THEN trans], simp_all add: fits_int_def nvmlFBCSessionType_t_def)

lemma nvmlHostVgpuMode_t_oversized [abi_oversized]: "oversized [] nvmlHostVgpuMode_t = Some []"
  by (rule oversized_simple [THEN trans], simp_all add: fits_int_def nvmlHostVgpuMode_t_def)

lemma nvmlIntNvLinkDeviceType_t_oversized [abi_oversized]: "oversized [] nvmlIntNvLinkDeviceType_t = Some []"
  by (rule oversized_simple [THEN trans], simp_all add: fits_int_def nvmlIntNvLinkDeviceType_t_def)

lemma nvml_oversized:
  "all_oversized nvml_enums = Some [''NVML_VGPU_COMPATIBILITY_LIMIT_OTHER'']"
  by (simp add: nvml_enums_def all_oversized_def abi_oversized)

section \<open>Agreement with \<open>nvml.h\<close>\<close>

definition nvml_pairs :: "(enum_decl \<times> enum_decl) list" where
  "nvml_pairs =
    [(nvmlReturn_t, nvmlReturn_t_h),
     (nvmlEccCounterType_t, nvmlEccCounterType_t_h),
     (nvmlEnableState_t, nvmlEnableState_t_h),
     (nvmlRestrictedAPI_t, nvmlRestrictedAPI_t_h),
     (nvmlClockType_t, nvmlClockType_t_h),
     (nvmlBrandType_t, nvmlBrandType_t_h),
     (nvmlBridgeChipType_t, nvmlBridgeChipType_t_h),
     (nvmlClockId_t, nvmlClockId_t_h),
     (nvmlComputeMode_t, nvmlComputeMode_t_h),
     (nvmlDriverModel_t, nvmlDriverModel_t_h),
     (nvmlEncoderType_t, nvmlEncoderType_t_h),
     (nvmlValueType_t, nvmlValueType_t_h),
     (nvmlGpuOperationMode_t, nvmlGpuOperationMode_t_h),
     (nvmlGridLicenseFeatureCode_t, nvmlGridLicenseFeatureCode_t_h),
     (nvmlInforomObject_t, nvmlInforomObject_t_h),
     (nvmlMemoryErrorType_t, nvmlMemoryErrorType_t_h),
     (nvmlMemoryLocation_t, nvmlMemoryLocation_t_h),
     (nvmlNvLinkCapability_t, nvmlNvLinkCapability_t_h),
     (nvmlNvLinkErrorCounter_t, nvmlNvLinkErrorCounter_t_h),
     (nvmlNvLinkUtilizationCountUnits_t, nvmlNvLinkUtilizationCountUnits_t_h),
     (nvmlNvLinkUtilizationCountPktTypes_t, nvmlNvLinkUtilizationCountPktTypes_t_h),
     (nvmlGpuP2PCapsIndex_t, nvmlGpuP2PCapsIndex_t_h),
     (nvmlGpuP2PStatus_t, nvmlGpuP2PStatus_t_h),
     (nvmlPcieUtilCounter_t, nvmlPcieUtilCounter_t_h),
     (nvmlPstates_t, nvmlPstates_t_h),
     (nvmlPageRetirementCause_t, nvmlPageRetirementCause_t_h),
     (nvmlSamplingType_t, nvmlSamplingType_t_h),
     (nvmlTemperatureSensors_t, nvmlTemperatureSensors_t_h),
     (nvmlTemperatureThresholds_t, nvmlTemperatureThresholds_t_h),
     (nvmlGpuTopologyLevel_t, nvmlGpuTopologyLevel_t_h),
     (nvmlPerfPolicyType_t, nvmlPerfPolicyType_t_h),
     (nvmlGpuVirtualizationMode_t, nvmlGpuVirtualizationMode_t_h),
     (nvmlDetachGpuState_t, nvmlDetachGpuState_t_h),
     (nvmlPcieLinkState_t, nvmlPcieLinkState_t_h),
     (nvmlVgpuGuestInfoState_t, nvmlVgpuGuestInfoState_t_h),
     (nvmlVgpuVmCompatibility_t, nvmlVgpuVmCompatibility_t_h),
     (nvmlVgpuPgpuCompatibilityLimitCode_t, nvmlVgpuPgpuCompatibilityLimitCode_t_h),
     (nvmlFanState_t, nvmlFanState_t_h),
     (nvmlLedColor_t, nvmlLedColor_t_h),
     (nvmlVgpuVmIdType_t, nvmlVgpuVmIdType_t_h),
     (nvmlFBCSessionType_t, nvmlFBCSessionType_t_h),
     (nvmlHostVgpuMode_t, nvmlHostVgpuMode_t_h),
     (nvmlIntNvLinkDeviceType_t, nvmlIntNvLinkDeviceType_t_h)]"

lemma nvmlReturn_t_values:
  "elaborate [] nvmlReturn_t = Some
    ([(''NVML_SUCCESS'', 0),
     (''NVML_ERROR_UNINITIALIZED'', 1),
     (''NVML_ERROR_INVALID_ARGUMENT'', 2),
     (''NVML_ERROR_NOT_SUPPORTED'', 3),
     (''NVML_ERROR_NO_PERMISSION'', 4),
     (''NVML_ERROR_ALREADY_INITIALIZED'', 5),
     (''NVML_ERROR_NOT_FOUND'', 6),
     (''NVML_ERROR_INSUFFICIENT_SIZE'', 7),
     (''NVML_ERROR_INSUFFICIENT_POWER'', 8),
     (''NVML_ERROR_DRIVER_NOT_LOADED'', 9),
     (''NVML_ERROR_TIMEOUT'', 10),
     (''NVML_ERROR_IRQ_ISSUE'', 11),
     (''NVML_ERROR_LIBRARY_NOT_FOUND'', 12),
     (''NVML_ERROR_FUNCTION_NOT_FOUND'', 13),
     (''NVML_ERROR_CORRUPTED_INFOROM'', 14),
     (''NVML_ERROR_GPU_IS_LOST'', 15),
     (''NVML_ERROR_RESET_REQUIRED'', 16),
     (''NVML_ERROR_OPERATING_SYSTEM'', 17),
     (''NVML_ERROR_LIB_RM_VERSION_MISMATCH'', 18),
     (''NVML_ERROR_IN_USE'', 19)] @ (''NVML_ERROR_NO_DATA'', 20) # [(''NVML_ERROR_UNKNOWN'', 999)])"
  by (rule elaborate_simple [THEN trans], simp_all add: nvmlReturn_t_def)

lemma nvmlReturn_t_h_values:
  "elaborate [] nvmlReturn_t_h = Some
    [(''NVML_SUCCESS'', 0),
     (''NVML_ERROR_UNINITIALIZED'', 1),
     (''NVML_ERROR_INVALID_ARGUMENT'', 2),
     (''NVML_ERROR_NOT_SUPPORTED'', 3),
     (''NVML_ERROR_NO_PERMISSION'', 4),
     (''NVML_ERROR_ALREADY_INITIALIZED'', 5),
     (''NVML_ERROR_NOT_FOUND'', 6),
     (''NVML_ERROR_INSUFFICIENT_SIZE'', 7),
     (''NVML_ERROR_INSUFFICIENT_POWER'', 8),
     (''NVML_ERROR_DRIVER_NOT_LOADED'', 9),
     (''NVML_ERROR_TIMEOUT'', 10),
     (''NVML_ERROR_IRQ_ISSUE'', 11),
     (''NVML_ERROR_LIBRARY_NOT_FOUND'', 12),
     (''NVML_ERROR_FUNCTION_NOT_FOUND'', 13),
     (''NVML_ERROR_CORRUPTED_INFOROM'', 14),
     (''NVML_ERROR_GPU_IS_LOST'', 15),
     (''NVML_ERROR_RESET_REQUIRED'', 16),
     (''NVML_ERROR_OPERATING_SYSTEM'', 17),
     (''NVML_ERROR_LIB_RM_VERSION_MISMATCH'', 18),
     (''NVML_ERROR_IN_USE'', 19),
     (''NVML_ERROR_MEMORY'', 20),
     (''NVML_ERROR_NO_DATA'', 21),
     (''NVML_ERROR_VGPU_ECC_NOT_SUPPORTED'', 22),
     (''NVML_ERROR_INSUFFICIENT_RESOURCES'', 23),
     (''NVML_ERROR_FREQ_NOT_SUPPORTED'', 24),
     (''NVML_ERROR_UNKNOWN'', 999)]"
  by (rule elaborate_simple [THEN trans], simp_all add: nvmlReturn_t_h_def)

lemma nvmlReturn_t_conflicts [abi_conflicts]: "conflicts nvmlReturn_t nvmlReturn_t_h = [(''NVML_ERROR_NO_DATA'', 20)]"
proof (rule conflicts_one [OF nvmlReturn_t_values nvmlReturn_t_h_values])
qed ((rule list_emb_Nil | rule subseq_keep | rule list_emb_Cons)+, simp, (rule list_emb_Nil | rule subseq_keep | rule list_emb_Cons)+)

lemma nvmlEccCounterType_t_conflicts [abi_conflicts]: "conflicts nvmlEccCounterType_t nvmlEccCounterType_t_h = []"
proof -
  have "nvmlEccCounterType_t = nvmlEccCounterType_t_h" unfolding nvmlEccCounterType_t_def nvmlEccCounterType_t_h_def by (rule refl)
  then show ?thesis by simp
qed

lemma nvmlEnableState_t_conflicts [abi_conflicts]: "conflicts nvmlEnableState_t nvmlEnableState_t_h = []"
proof -
  have "nvmlEnableState_t = nvmlEnableState_t_h" unfolding nvmlEnableState_t_def nvmlEnableState_t_h_def by (rule refl)
  then show ?thesis by simp
qed

lemma nvmlRestrictedAPI_t_conflicts [abi_conflicts]: "conflicts nvmlRestrictedAPI_t nvmlRestrictedAPI_t_h = []"
proof -
  have "nvmlRestrictedAPI_t = nvmlRestrictedAPI_t_h" unfolding nvmlRestrictedAPI_t_def nvmlRestrictedAPI_t_h_def by (rule refl)
  then show ?thesis by simp
qed

lemma nvmlClockType_t_conflicts [abi_conflicts]: "conflicts nvmlClockType_t nvmlClockType_t_h = []"
proof -
  have "nvmlClockType_t = nvmlClockType_t_h" unfolding nvmlClockType_t_def nvmlClockType_t_h_def by (rule refl)
  then show ?thesis by simp
qed

lemma nvmlBrandType_t_values:
  "elaborate [] nvmlBrandType_t = Some
    ([(''NVML_BRAND_UNKNOWN'', 0),
     (''NVML_BRAND_QUADRO'', 1),
     (''NVML_BRAND_TESLA'', 2),
     (''NVML_BRAND_NVS'', 3),
     (''NVML_BRAND_GRID'', 4),
     (''NVML_BRAND_GEFORCE'', 5),
     (''NVML_BRAND_TITAN'', 6)] @ (''NVML_BRAND_COUNT'', 7) # [])"
  by (rule elaborate_simple [THEN trans], simp_all add: nvmlBrandType_t_def)

lemma nvmlBrandType_t_h_values:
  "elaborate [] nvmlBrandType_t_h = Some
    [(''NVML_BRAND_UNKNOWN'', 0),
     (''NVML_BRAND_QUADRO'', 1),
     (''NVML_BRAND_TESLA'', 2),
     (''NVML_BRAND_NVS'', 3),
     (''NVML_BRAND_GRID'', 4),
     (''NVML_BRAND_GEFORCE'', 5),
     (''NVML_BRAND_TITAN'', 6),
     (''NVML_BRAND_NVIDIA_VAPPS'', 7),
     (''NVML_BRAND_NVIDIA_VPC'', 8),
     (''NVML_BRAND_NVIDIA_VCS'', 9),
     (''NVML_BRAND_NVIDIA_VWS'', 10),
     (''NVML_BRAND_NVIDIA_VGAMING'', 11),
     (''NVML_BRAND_QUADRO_RTX'', 12),
     (''NVML_BRAND_NVIDIA_RTX'', 13),
     (''NVML_BRAND_NVIDIA'', 14),
     (''NVML_BRAND_GEFORCE_RTX'', 15),
     (''NVML_BRAND_TITAN_RTX'', 16),
     (''NVML_BRAND_COUNT'', 17)]"
  by (rule elaborate_simple [THEN trans], simp_all add: nvmlBrandType_t_h_def)

lemma nvmlBrandType_t_conflicts [abi_conflicts]: "conflicts nvmlBrandType_t nvmlBrandType_t_h = [(''NVML_BRAND_COUNT'', 7)]"
proof (rule conflicts_one [OF nvmlBrandType_t_values nvmlBrandType_t_h_values])
qed ((rule list_emb_Nil | rule subseq_keep | rule list_emb_Cons)+, simp, (rule list_emb_Nil | rule subseq_keep | rule list_emb_Cons)+)

lemma nvmlBridgeChipType_t_conflicts [abi_conflicts]: "conflicts nvmlBridgeChipType_t nvmlBridgeChipType_t_h = []"
proof -
  have "nvmlBridgeChipType_t = nvmlBridgeChipType_t_h" unfolding nvmlBridgeChipType_t_def nvmlBridgeChipType_t_h_def by (rule refl)
  then show ?thesis by simp
qed

lemma nvmlClockId_t_conflicts [abi_conflicts]: "conflicts nvmlClockId_t nvmlClockId_t_h = []"
proof -
  have "nvmlClockId_t = nvmlClockId_t_h" unfolding nvmlClockId_t_def nvmlClockId_t_h_def by (rule refl)
  then show ?thesis by simp
qed

lemma nvmlComputeMode_t_conflicts [abi_conflicts]: "conflicts nvmlComputeMode_t nvmlComputeMode_t_h = []"
proof -
  have "nvmlComputeMode_t = nvmlComputeMode_t_h" unfolding nvmlComputeMode_t_def nvmlComputeMode_t_h_def by (rule refl)
  then show ?thesis by simp
qed

lemma nvmlDriverModel_t_conflicts [abi_conflicts]: "conflicts nvmlDriverModel_t nvmlDriverModel_t_h = []"
proof -
  have "nvmlDriverModel_t = nvmlDriverModel_t_h" unfolding nvmlDriverModel_t_def nvmlDriverModel_t_h_def by (rule refl)
  then show ?thesis by simp
qed

lemma nvmlEncoderType_t_conflicts [abi_conflicts]: "conflicts nvmlEncoderType_t nvmlEncoderType_t_h = []"
proof -
  have "nvmlEncoderType_t = nvmlEncoderType_t_h" unfolding nvmlEncoderType_t_def nvmlEncoderType_t_h_def by (rule refl)
  then show ?thesis by simp
qed

lemma nvmlValueType_t_conflicts [abi_conflicts]: "conflicts nvmlValueType_t nvmlValueType_t_h = []"
proof -
  have "nvmlValueType_t = nvmlValueType_t_h" unfolding nvmlValueType_t_def nvmlValueType_t_h_def by (rule refl)
  then show ?thesis by simp
qed

lemma nvmlGpuOperationMode_t_conflicts [abi_conflicts]: "conflicts nvmlGpuOperationMode_t nvmlGpuOperationMode_t_h = []"
proof -
  have "nvmlGpuOperationMode_t = nvmlGpuOperationMode_t_h" unfolding nvmlGpuOperationMode_t_def nvmlGpuOperationMode_t_h_def by (rule refl)
  then show ?thesis by simp
qed

lemma nvmlGridLicenseFeatureCode_t_conflicts [abi_conflicts]: "conflicts nvmlGridLicenseFeatureCode_t nvmlGridLicenseFeatureCode_t_h = []"
proof (rule conflicts_none)
  show "elaborate [] nvmlGridLicenseFeatureCode_t = Some
    [(''NVML_GRID_LICENSE_FEATURE_CODE_VGPU'', 1),
     (''NVML_GRID_LICENSE_FEATURE_CODE_VWORKSTATION'', 2)]"
    by (rule elaborate_simple [THEN trans], simp_all add: nvmlGridLicenseFeatureCode_t_def)
  show "elaborate [] nvmlGridLicenseFeatureCode_t_h = Some
    [(''NVML_GRID_LICENSE_FEATURE_CODE_UNKNOWN'', 0),
     (''NVML_GRID_LICENSE_FEATURE_CODE_VGPU'', 1),
     (''NVML_GRID_LICENSE_FEATURE_CODE_NVIDIA_RTX'', 2),
     (''NVML_GRID_LICENSE_FEATURE_CODE_VWORKSTATION'', 2),
     (''NVML_GRID_LICENSE_FEATURE_CODE_GAMING'', 3),
     (''NVML_GRID_LICENSE_FEATURE_CODE_COMPUTE'', 4)]"
    by (simp add: elaborate_def nvmlGridLicenseFeatureCode_t_h_def)
qed (rule list_emb_Nil | rule subseq_keep | rule list_emb_Cons)+

lemma nvmlInforomObject_t_conflicts [abi_conflicts]: "conflicts nvmlInforomObject_t nvmlInforomObject_t_h = []"
proof -
  have "nvmlInforomObject_t = nvmlInforomObject_t_h" unfolding nvmlInforomObject_t_def nvmlInforomObject_t_h_def by (rule refl)
  then show ?thesis by simp
qed

lemma nvmlMemoryErrorType_t_conflicts [abi_conflicts]: "conflicts nvmlMemoryErrorType_t nvmlMemoryErrorType_t_h = []"
proof -
  have "nvmlMemoryErrorType_t = nvmlMemoryErrorType_t_h" unfolding nvmlMemoryErrorType_t_def nvmlMemoryErrorType_t_h_def by (rule refl)
  then show ?thesis by simp
qed

lemma nvmlMemoryLocation_t_values:
  "elaborate [] nvmlMemoryLocation_t = Some
    ([(''NVML_MEMORY_LOCATION_L1_CACHE'', 0),
     (''NVML_MEMORY_LOCATION_L2_CACHE'', 1),
     (''NVML_MEMORY_LOCATION_DEVICE_MEMORY'', 2),
     (''NVML_MEMORY_LOCATION_REGISTER_FILE'', 3),
     (''NVML_MEMORY_LOCATION_TEXTURE_MEMORY'', 4),
     (''NVML_MEMORY_LOCATION_TEXTURE_SHM'', 5),
     (''NVML_MEMORY_LOCATION_CBU'', 6)] @ (''NVML_MEMORY_LOCATION_COUNT'', 7) # [])"
  by (rule elaborate_simple [THEN trans], simp_all add: nvmlMemoryLocation_t_def)

lemma nvmlMemoryLocation_t_h_values:
  "elaborate [] nvmlMemoryLocation_t_h = Some
    [(''NVML_MEMORY_LOCATION_L1_CACHE'', 0),
     (''NVML_MEMORY_LOCATION_L2_CACHE'', 1),
     (''NVML_MEMORY_LOCATION_DRAM'', 2),
     (''NVML_MEMORY_LOCATION_DEVICE_MEMORY'', 2),
     (''NVML_MEMORY_LOCATION_REGISTER_FILE'', 3),
     (''NVML_MEMORY_LOCATION_TEXTURE_MEMORY'', 4),
     (''NVML_MEMORY_LOCATION_TEXTURE_SHM'', 5),
     (''NVML_MEMORY_LOCATION_CBU'', 6),
     (''NVML_MEMORY_LOCATION_SRAM'', 7),
     (''NVML_MEMORY_LOCATION_COUNT'', 8)]"
  by (rule elaborate_simple [THEN trans], simp_all add: nvmlMemoryLocation_t_h_def)

lemma nvmlMemoryLocation_t_conflicts [abi_conflicts]: "conflicts nvmlMemoryLocation_t nvmlMemoryLocation_t_h = [(''NVML_MEMORY_LOCATION_COUNT'', 7)]"
proof (rule conflicts_one [OF nvmlMemoryLocation_t_values nvmlMemoryLocation_t_h_values])
qed ((rule list_emb_Nil | rule subseq_keep | rule list_emb_Cons)+, simp, (rule list_emb_Nil | rule subseq_keep | rule list_emb_Cons)+)

lemma nvmlNvLinkCapability_t_conflicts [abi_conflicts]: "conflicts nvmlNvLinkCapability_t nvmlNvLinkCapability_t_h = []"
proof -
  have "nvmlNvLinkCapability_t = nvmlNvLinkCapability_t_h" unfolding nvmlNvLinkCapability_t_def nvmlNvLinkCapability_t_h_def by (rule refl)
  then show ?thesis by simp
qed

lemma nvmlNvLinkErrorCounter_t_values:
  "elaborate [] nvmlNvLinkErrorCounter_t = Some
    ([(''NVML_NVLINK_ERROR_DL_REPLAY'', 0),
     (''NVML_NVLINK_ERROR_DL_RECOVERY'', 1),
     (''NVML_NVLINK_ERROR_DL_CRC_FLIT'', 2),
     (''NVML_NVLINK_ERROR_DL_CRC_DATA'', 3)] @ (''NVML_NVLINK_ERROR_COUNT'', 4) # [])"
  by (rule elaborate_simple [THEN trans], simp_all add: nvmlNvLinkErrorCounter_t_def)

lemma nvmlNvLinkErrorCounter_t_h_values:
  "elaborate [] nvmlNvLinkErrorCounter_t_h = Some
    [(''NVML_NVLINK_ERROR_DL_REPLAY'', 0),
     (''NVML_NVLINK_ERROR_DL_RECOVERY'', 1),
     (''NVML_NVLINK_ERROR_DL_CRC_FLIT'', 2),
     (''NVML_NVLINK_ERROR_DL_CRC_DATA'', 3),
     (''NVML_NVLINK_ERROR_DL_ECC_DATA'', 4),
     (''NVML_NVLINK_ERROR_COUNT'', 5)]"
  by (rule elaborate_simple [THEN trans], simp_all add: nvmlNvLinkErrorCounter_t_h_def)

lemma nvmlNvLinkErrorCounter_t_conflicts [abi_conflicts]: "conflicts nvmlNvLinkErrorCounter_t nvmlNvLinkErrorCounter_t_h = [(''NVML_NVLINK_ERROR_COUNT'', 4)]"
proof (rule conflicts_one [OF nvmlNvLinkErrorCounter_t_values nvmlNvLinkErrorCounter_t_h_values])
qed ((rule list_emb_Nil | rule subseq_keep | rule list_emb_Cons)+, simp, (rule list_emb_Nil | rule subseq_keep | rule list_emb_Cons)+)

lemma nvmlNvLinkUtilizationCountUnits_t_values:
  "elaborate [] nvmlNvLinkUtilizationCountUnits_t = Some
    ([(''NVML_NVLINK_COUNTER_UNIT_CYCLES'', 0),
     (''NVML_NVLINK_COUNTER_UNIT_PACKETS'', 1),
     (''NVML_NVLINK_COUNTER_UNIT_BYTES'', 2)] @ (''NVML_NVLINK_COUNTER_UNIT_COUNT'', 3) # [])"
  by (rule elaborate_simple [THEN trans], simp_all add: nvmlNvLinkUtilizationCountUnits_t_def)

lemma nvmlNvLinkUtilizationCountUnits_t_h_values:
  "elaborate [] nvmlNvLinkUtilizationCountUnits_t_h = Some
    [(''NVML_NVLINK_COUNTER_UNIT_CYCLES'', 0),
     (''NVML_NVLINK_COUNTER_UNIT_PACKETS'', 1),
     (''NVML_NVLINK_COUNTER_UNIT_BYTES'', 2),
     (''NVML_NVLINK_COUNTER_UNIT_RESERVED'', 3),
     (''NVML_NVLINK_COUNTER_UNIT_COUNT'', 4)]"
  by (rule elaborate_simple [THEN trans], simp_all add: nvmlNvLinkUtilizationCountUnits_t_h_def)

lemma nvmlNvLinkUtilizationCountUnits_t_conflicts [abi_conflicts]: "conflicts nvmlNvLinkUtilizationCountUnits_t nvmlNvLinkUtilizationCountUnits_t_h = [(''NVML_NVLINK_COUNTER_UNIT_COUNT'', 3)]"
proof (rule conflicts_one [OF nvmlNvLinkUtilizationCountUnits_t_values nvmlNvLinkUtilizationCountUnits_t_h_values])
qed ((rule list_emb_Nil | rule subseq_keep | rule list_emb_Cons)+, simp, (rule list_emb_Nil | rule subseq_keep | rule list_emb_Cons)+)

lemma nvmlNvLinkUtilizationCountPktTypes_t_conflicts [abi_conflicts]: "conflicts nvmlNvLinkUtilizationCountPktTypes_t nvmlNvLinkUtilizationCountPktTypes_t_h = []"
proof -
  have "nvmlNvLinkUtilizationCountPktTypes_t = nvmlNvLinkUtilizationCountPktTypes_t_h" unfolding nvmlNvLinkUtilizationCountPktTypes_t_def nvmlNvLinkUtilizationCountPktTypes_t_h_def by (rule refl)
  then show ?thesis by simp
qed

lemma nvmlGpuP2PCapsIndex_t_conflicts [abi_conflicts]: "conflicts nvmlGpuP2PCapsIndex_t nvmlGpuP2PCapsIndex_t_h = []"
proof -
  have "nvmlGpuP2PCapsIndex_t = nvmlGpuP2PCapsIndex_t_h" unfolding nvmlGpuP2PCapsIndex_t_def nvmlGpuP2PCapsIndex_t_h_def by (rule refl)
  then show ?thesis by simp
qed

lemma nvmlGpuP2PStatus_t_conflicts [abi_conflicts]: "conflicts nvmlGpuP2PStatus_t nvmlGpuP2PStatus_t_h = []"
proof -
  have "nvmlGpuP2PStatus_t = nvmlGpuP2PStatus_t_h" unfolding nvmlGpuP2PStatus_t_def nvmlGpuP2PStatus_t_h_def by (rule refl)
  then show ?thesis by simp
qed

lemma nvmlPcieUtilCounter_t_conflicts [abi_conflicts]: "conflicts nvmlPcieUtilCounter_t nvmlPcieUtilCounter_t_h = []"
proof -
  have "nvmlPcieUtilCounter_t = nvmlPcieUtilCounter_t_h" unfolding nvmlPcieUtilCounter_t_def nvmlPcieUtilCounter_t_h_def by (rule refl)
  then show ?thesis by simp
qed

lemma nvmlPstates_t_conflicts [abi_conflicts]: "conflicts nvmlPstates_t nvmlPstates_t_h = []"
proof -
  have "nvmlPstates_t = nvmlPstates_t_h" unfolding nvmlPstates_t_def nvmlPstates_t_h_def by (rule refl)
  then show ?thesis by simp
qed

lemma nvmlPageRetirementCause_t_conflicts [abi_conflicts]: "conflicts nvmlPageRetirementCause_t nvmlPageRetirementCause_t_h = []"
proof -
  have "nvmlPageRetirementCause_t = nvmlPageRetirementCause_t_h" unfolding nvmlPageRetirementCause_t_def nvmlPageRetirementCause_t_h_def by (rule refl)
  then show ?thesis by simp
qed

lemma nvmlSamplingType_t_conflicts [abi_conflicts]: "conflicts nvmlSamplingType_t nvmlSamplingType_t_h = []"
proof -
  have "nvmlSamplingType_t = nvmlSamplingType_t_h" unfolding nvmlSamplingType_t_def nvmlSamplingType_t_h_def by (rule refl)
  then show ?thesis by simp
qed

lemma nvmlTemperatureSensors_t_conflicts [abi_conflicts]: "conflicts nvmlTemperatureSensors_t nvmlTemperatureSensors_t_h = []"
proof -
  have "nvmlTemperatureSensors_t = nvmlTemperatureSensors_t_h" unfolding nvmlTemperatureSensors_t_def nvmlTemperatureSensors_t_h_def by (rule refl)
  then show ?thesis by simp
qed

lemma nvmlTemperatureThresholds_t_values:
  "elaborate [] nvmlTemperatureThresholds_t = Some
    ([(''NVML_TEMPERATURE_THRESHOLD_SHUTDOWN'', 0),
     (''NVML_TEMPERATURE_THRESHOLD_SLOWDOWN'', 1),
     (''NVML_TEMPERATURE_THRESHOLD_MEM_MAX'', 2),
     (''NVML_TEMPERATURE_THRESHOLD_GPU_MAX'', 3)] @ (''NVML_TEMPERATURE_THRESHOLD_COUNT'', 4) # [])"
  by (rule elaborate_simple [THEN trans], simp_all add: nvmlTemperatureThresholds_t_def)

lemma nvmlTemperatureThresholds_t_h_values:
  "elaborate [] nvmlTemperatureThresholds_t_h = Some
    [(''NVML_TEMPERATURE_THRESHOLD_SHUTDOWN'', 0),
     (''NVML_TEMPERATURE_THRESHOLD_SLOWDOWN'', 1),
     (''NVML_TEMPERATURE_THRESHOLD_MEM_MAX'', 2),
     (''NVML_TEMPERATURE_THRESHOLD_GPU_MAX'', 3),
     (''NVML_TEMPERATURE_THRESHOLD_ACOUSTIC_MIN'', 4),
     (''NVML_TEMPERATURE_THRESHOLD_ACOUSTIC_CURR'', 5),
     (''NVML_TEMPERATURE_THRESHOLD_ACOUSTIC_MAX'', 6),
     (''NVML_TEMPERATURE_THRESHOLD_COUNT'', 7)]"
  by (rule elaborate_simple [THEN trans], simp_all add: nvmlTemperatureThresholds_t_h_def)

lemma nvmlTemperatureThresholds_t_conflicts [abi_conflicts]: "conflicts nvmlTemperatureThresholds_t nvmlTemperatureThresholds_t_h = [(''NVML_TEMPERATURE_THRESHOLD_COUNT'', 4)]"
proof (rule conflicts_one [OF nvmlTemperatureThresholds_t_values nvmlTemperatureThresholds_t_h_values])
qed ((rule list_emb_Nil | rule subseq_keep | rule list_emb_Cons)+, simp, (rule list_emb_Nil | rule subseq_keep | rule list_emb_Cons)+)

lemma nvmlGpuTopologyLevel_t_conflicts [abi_conflicts]: "conflicts nvmlGpuTopologyLevel_t nvmlGpuTopologyLevel_t_h = []"
proof -
  have "nvmlGpuTopologyLevel_t = nvmlGpuTopologyLevel_t_h" unfolding nvmlGpuTopologyLevel_t_def nvmlGpuTopologyLevel_t_h_def by (rule refl)
  then show ?thesis by simp
qed

lemma nvmlPerfPolicyType_t_conflicts [abi_conflicts]: "conflicts nvmlPerfPolicyType_t nvmlPerfPolicyType_t_h = []"
proof -
  have "nvmlPerfPolicyType_t = nvmlPerfPolicyType_t_h" unfolding nvmlPerfPolicyType_t_def nvmlPerfPolicyType_t_h_def by (rule refl)
  then show ?thesis by simp
qed

lemma nvmlGpuVirtualizationMode_t_conflicts [abi_conflicts]: "conflicts nvmlGpuVirtualizationMode_t nvmlGpuVirtualizationMode_t_h = []"
proof -
  have "nvmlGpuVirtualizationMode_t = nvmlGpuVirtualizationMode_t_h" unfolding nvmlGpuVirtualizationMode_t_def nvmlGpuVirtualizationMode_t_h_def by (rule refl)
  then show ?thesis by simp
qed

lemma nvmlDetachGpuState_t_conflicts [abi_conflicts]: "conflicts nvmlDetachGpuState_t nvmlDetachGpuState_t_h = []"
proof -
  have "nvmlDetachGpuState_t = nvmlDetachGpuState_t_h" unfolding nvmlDetachGpuState_t_def nvmlDetachGpuState_t_h_def by (rule refl)
  then show ?thesis by simp
qed

lemma nvmlPcieLinkState_t_conflicts [abi_conflicts]: "conflicts nvmlPcieLinkState_t nvmlPcieLinkState_t_h = []"
proof -
  have "nvmlPcieLinkState_t = nvmlPcieLinkState_t_h" unfolding nvmlPcieLinkState_t_def nvmlPcieLinkState_t_h_def by (rule refl)
  then show ?thesis by simp
qed

lemma nvmlVgpuGuestInfoState_t_conflicts [abi_conflicts]: "conflicts nvmlVgpuGuestInfoState_t nvmlVgpuGuestInfoState_t_h = []"
proof -
  have "nvmlVgpuGuestInfoState_t = nvmlVgpuGuestInfoState_t_h" unfolding nvmlVgpuGuestInfoState_t_def nvmlVgpuGuestInfoState_t_h_def by (rule refl)
  then show ?thesis by simp
qed

lemma nvmlVgpuVmCompatibility_t_conflicts [abi_conflicts]: "conflicts nvmlVgpuVmCompatibility_t nvmlVgpuVmCompatibility_t_h = []"
proof -
  have "nvmlVgpuVmCompatibility_t = nvmlVgpuVmCompatibility_t_h" unfolding nvmlVgpuVmCompatibility_t_def nvmlVgpuVmCompatibility_t_h_def by (rule refl)
  then show ?thesis by simp
qed

lemma nvmlVgpuPgpuCompatibilityLimitCode_t_conflicts [abi_conflicts]: "conflicts nvmlVgpuPgpuCompatibilityLimitCode_t nvmlVgpuPgpuCompatibilityLimitCode_t_h = []"
proof -
  have "nvmlVgpuPgpuCompatibilityLimitCode_t = nvmlVgpuPgpuCompatibilityLimitCode_t_h" unfolding nvmlVgpuPgpuCompatibilityLimitCode_t_def nvmlVgpuPgpuCompatibilityLimitCode_t_h_def by (rule refl)
  then show ?thesis by simp
qed

lemma nvmlFanState_t_conflicts [abi_conflicts]: "conflicts nvmlFanState_t nvmlFanState_t_h = []"
proof -
  have "nvmlFanState_t = nvmlFanState_t_h" unfolding nvmlFanState_t_def nvmlFanState_t_h_def by (rule refl)
  then show ?thesis by simp
qed

lemma nvmlLedColor_t_conflicts [abi_conflicts]: "conflicts nvmlLedColor_t nvmlLedColor_t_h = []"
proof -
  have "nvmlLedColor_t = nvmlLedColor_t_h" unfolding nvmlLedColor_t_def nvmlLedColor_t_h_def by (rule refl)
  then show ?thesis by simp
qed

lemma nvmlVgpuVmIdType_t_conflicts [abi_conflicts]: "conflicts nvmlVgpuVmIdType_t nvmlVgpuVmIdType_t_h = []"
proof -
  have "nvmlVgpuVmIdType_t = nvmlVgpuVmIdType_t_h" unfolding nvmlVgpuVmIdType_t_def nvmlVgpuVmIdType_t_h_def by (rule refl)
  then show ?thesis by simp
qed

lemma nvmlFBCSessionType_t_conflicts [abi_conflicts]: "conflicts nvmlFBCSessionType_t nvmlFBCSessionType_t_h = []"
proof -
  have "nvmlFBCSessionType_t = nvmlFBCSessionType_t_h" unfolding nvmlFBCSessionType_t_def nvmlFBCSessionType_t_h_def by (rule refl)
  then show ?thesis by simp
qed

lemma nvmlHostVgpuMode_t_conflicts [abi_conflicts]: "conflicts nvmlHostVgpuMode_t nvmlHostVgpuMode_t_h = []"
proof -
  have "nvmlHostVgpuMode_t = nvmlHostVgpuMode_t_h" unfolding nvmlHostVgpuMode_t_def nvmlHostVgpuMode_t_h_def by (rule refl)
  then show ?thesis by simp
qed

lemma nvmlIntNvLinkDeviceType_t_conflicts [abi_conflicts]: "conflicts nvmlIntNvLinkDeviceType_t nvmlIntNvLinkDeviceType_t_h = []"
proof -
  have "nvmlIntNvLinkDeviceType_t = nvmlIntNvLinkDeviceType_t_h" unfolding nvmlIntNvLinkDeviceType_t_def nvmlIntNvLinkDeviceType_t_h_def by (rule refl)
  then show ?thesis by simp
qed

lemma nvml_conflicts:
  "concat (map (\<lambda>(ours, theirs). conflicts ours theirs) nvml_pairs) =
    [(''NVML_ERROR_NO_DATA'', 20),
     (''NVML_BRAND_COUNT'', 7),
     (''NVML_MEMORY_LOCATION_COUNT'', 7),
     (''NVML_NVLINK_ERROR_COUNT'', 4),
     (''NVML_NVLINK_COUNTER_UNIT_COUNT'', 3),
     (''NVML_TEMPERATURE_THRESHOLD_COUNT'', 4)]"
  by (simp add: nvml_pairs_def abi_conflicts)

end
