(* ===== verification/Abi.thy ===== *)
theory Abi
  imports Abi_Cuda Abi_Cudart Abi_Cudnn Abi_Math Abi_Media Abi_Nvml
begin

text \<open>
  The enumerations of all subset headers together: which enumerators the hook libraries
  declare with a value that their type cannot hold in C, and on which enumerators they
  disagree with the headers of the libraries they stand in front of.
\<close>

definition abi_enums :: "(enum_env \<times> enum_decl) list" where
  "abi_enums = cuda_enums @ cudart_enums @ cudnn_enums @ cublas_enums @ cublasLt_enums @ cufft_enums
     @ curand_enums @ cusolver_enums @ cusparse_enums @ nvjpeg_enums @ nvrtc_enums @ nvtx_enums
     @ nvml_enums"

lemma all_oversized_append:
  "all_oversized ds = Some ns \<Longrightarrow> all_oversized es = Some ms \<Longrightarrow> all_oversized (ds @ es) = Some (ns @ ms)"
proof (induction ds arbitrary: ns)
  case Nil
  then show ?case by (simp add: all_oversized_def)
next
  case (Cons d ds)
  obtain env x where d: "d = (env, x)" by fastforce
  obtain ks ls where "oversized env x = Some ks" "all_oversized ds = Some ls" "ns = ks @ ls"
    using Cons.prems(1) d by (auto simp: all_oversized_def split: option.splits)
  then show ?case using Cons d by (auto intro: all_oversized_Cons)
qed

lemmas header_oversized = cuda_oversized cudart_oversized cudnn_oversized cublas_oversized
  cublasLt_oversized cufft_oversized curand_oversized cusolver_oversized cusparse_oversized
  nvjpeg_oversized nvrtc_oversized nvtx_oversized nvml_oversized

text \<open>
  Every enumeration of the thirteen subset headers is well-formed (each initialiser
  evaluates), and its enumerators are values of type \<open>int\<close>, as C requires, except for the
  four \<open>0xFFFFFFFF\<close> limits of the driver's memory-management enumerations, where the
  vendor's header has \<open>0x7FFFFFFF\<close>, and one \<open>0x80000000\<close> flag of the management library.
\<close>

lemma abi_enumerators_fit_int:
  "all_oversized abi_enums =
     Some [''CU_MEM_ALLOCATION_TYPE_MAX'', ''CU_MEM_HANDLE_TYPE_MAX'',
           ''CU_MEM_LOCATION_TYPE_MAX'', ''CU_MEM_ACCESS_FLAGS_PROT_MAX'',
           ''NVML_VGPU_COMPATIBILITY_LIMIT_OTHER'']"
  unfolding abi_enums_def
  using header_oversized by (simp add: all_oversized_append)

text \<open>
  The driver enumerations: of the 42 enumerations that \<open>cuda_subset.h\<close> shares with the
  vendor's \<open>cuda.h\<close>, every enumerator has the vendor's value except for the size and limit
  markers of enumerations that have grown since, and the four oversized limits.
\<close>

lemma cuda_header_agreement:
  "length cuda_pairs = 42
   \<and> concat (map (\<lambda>(ours, theirs). conflicts ours theirs) cuda_pairs) =
    [(''CU_DEVICE_ATTRIBUTE_MAX'', 98), (''CU_LIMIT_MAX'', 5), (''CU_JIT_NUM_OPTIONS'', 17),
     (''CU_JIT_NUM_INPUT_TYPES'', 5), (''CU_FUNC_ATTRIBUTE_MAX'', 8), (''CU_GRAPH_NODE_TYPE_COUNT'', 6),
     (''CU_MEM_ALLOCATION_TYPE_MAX'', 0xFFFFFFFF), (''CU_MEM_HANDLE_TYPE_MAX'', 0xFFFFFFFF),
     (''CU_MEM_LOCATION_TYPE_MAX'', 0xFFFFFFFF), (''CU_MEM_ACCESS_FLAGS_PROT_MAX'', 0xFFFFFFFF)]"
proof
  show "length cuda_pairs = 42" by (simp add: cuda_pairs_def)
qed (rule cuda_conflicts)

text \<open>
  The management library: the only enumerator of \<open>nvml_subset.h\<close> with a meaning of its
  own that disagrees with the vendor's \<open>nvml.h\<close> is the return code \<open>NVML_ERROR_NO_DATA\<close>,
  which the vendor numbers 21; the five others count the enumerators of an enumeration that
  has grown.
\<close>

lemma nvml_header_agreement:
  "length nvml_pairs = 43
   \<and> concat (map (\<lambda>(ours, theirs). conflicts ours theirs) nvml_pairs) =
    [(''NVML_ERROR_NO_DATA'', 20), (''NVML_BRAND_COUNT'', 7), (''NVML_MEMORY_LOCATION_COUNT'', 7),
     (''NVML_NVLINK_ERROR_COUNT'', 4), (''NVML_NVLINK_COUNTER_UNIT_COUNT'', 3),
     (''NVML_TEMPERATURE_THRESHOLD_COUNT'', 4)]
   \<and> (''NVML_ERROR_NO_DATA'', 21) \<in> set (enumerators nvmlReturn_t_h)"
proof (intro conjI)
  show "length nvml_pairs = 43" by (simp add: nvml_pairs_def)
  show "(''NVML_ERROR_NO_DATA'', 21) \<in> set (enumerators nvmlReturn_t_h)"
    by (simp add: enumerators_def nvmlReturn_t_h_values)
qed (rule nvml_conflicts)

end
