(* ===== verification/Nvml_Samples.thy ===== *)
theory Nvml_Samples
  imports Abi_Nvml
begin

text \<open>
  The two C programs under \<open>rperf/libs/vanilla/sample/nvml\<close> that the profiler is tried on:
  \<open>nvml_example.c\<close>, which switches every device to prohibited compute mode and back, and
  \<open>supported_vgpus.c\<close>, which lists vGPU types. The management library and \<open>malloc\<close> are the
  parameter \<open>nvml_api\<close>; \<open>goto Error\<close> is the result \<open>None\<close> of a statement. What the programs
  print is not modelled.
\<close>

section \<open>The library and the state of a program\<close>

definition NVML_SUCCESS :: int where "NVML_SUCCESS = 0"
definition NVML_ERROR_NOT_SUPPORTED :: int where "NVML_ERROR_NOT_SUPPORTED = 3"
definition NVML_ERROR_NO_PERMISSION :: int where "NVML_ERROR_NO_PERMISSION = 4"
definition NVML_ERROR_INSUFFICIENT_SIZE :: int where "NVML_ERROR_INSUFFICIENT_SIZE = 7"
definition NVML_COMPUTEMODE_PROHIBITED :: int where "NVML_COMPUTEMODE_PROHIBITED = 2"

lemmas nvml_codes = NVML_SUCCESS_def NVML_ERROR_NOT_SUPPORTED_def NVML_ERROR_NO_PERMISSION_def
  NVML_ERROR_INSUFFICIENT_SIZE_def NVML_COMPUTEMODE_PROHIBITED_def

text \<open>They are enumerators of \<open>nvml_subset.h\<close>, with the values they have there.\<close>

lemma nvml_codes_declared:
  "{(''NVML_SUCCESS'', NVML_SUCCESS), (''NVML_ERROR_NOT_SUPPORTED'', NVML_ERROR_NOT_SUPPORTED),
    (''NVML_ERROR_NO_PERMISSION'', NVML_ERROR_NO_PERMISSION), (''NVML_ERROR_INSUFFICIENT_SIZE'', NVML_ERROR_INSUFFICIENT_SIZE)}
   \<subseteq> set (enumerators nvmlReturn_t)"
  by (simp add: enumerators_def nvmlReturn_t_values nvml_codes)

text \<open>
  The functions the programs call, as state transformers of the library's world. The result
  code comes first; the other components are what the function stores through its pointers.
\<close>

record ('d, 'w) nvml_api =
  nvmlInit :: "'w \<Rightarrow> int \<times> 'w"
  nvmlShutdown :: "'w \<Rightarrow> int \<times> 'w"
  nvmlDeviceGetCount :: "'w \<Rightarrow> (int \<times> nat) \<times> 'w"
  nvmlDeviceGetHandleByIndex :: "nat \<Rightarrow> 'w \<Rightarrow> (int \<times> 'd) \<times> 'w"
  nvmlDeviceGetName :: "'d \<Rightarrow> 'w \<Rightarrow> (int \<times> string) \<times> 'w"
  nvmlDeviceGetPciInfo :: "'d \<Rightarrow> 'w \<Rightarrow> (int \<times> string) \<times> 'w"
  nvmlDeviceGetComputeMode :: "'d \<Rightarrow> 'w \<Rightarrow> (int \<times> int) \<times> 'w"
  nvmlDeviceSetComputeMode :: "'d \<Rightarrow> int \<Rightarrow> 'w \<Rightarrow> int \<times> 'w"
  nvmlDeviceGetSupportedVgpus :: "'d \<Rightarrow> nat \<Rightarrow> bool \<Rightarrow> 'w \<Rightarrow> (int \<times> nat \<times> int list) \<times> 'w"
  nvmlVgpuTypeGetName :: "int \<Rightarrow> 'w \<Rightarrow> (int \<times> string) \<times> 'w"
  malloc :: "nat \<Rightarrow> 'w \<Rightarrow> bool \<times> 'w"

text \<open>The world of the library and the number of live blocks.\<close>

record 'w nvml_st =
  lib :: 'w
  live :: nat

type_synonym ('a, 'w) stmt = "'w nvml_st \<Rightarrow> 'a option \<times> 'w nvml_st"

definition call :: "('w \<Rightarrow> 'a \<times> 'w) \<Rightarrow> ('a, 'w) stmt" where
  "call f s = (let (r, w) = f (lib s) in (Some r, s\<lparr>lib := w\<rparr>))"

definition andThen :: "('a, 'w) stmt \<Rightarrow> ('a \<Rightarrow> ('b, 'w) stmt) \<Rightarrow> ('b, 'w) stmt" where
  "andThen m f s = (case m s of (None, s1) \<Rightarrow> (None, s1) | (Some x, s1) \<Rightarrow> f x s1)"

definition skip :: "(unit, 'w) stmt" where
  "skip s = (Some (), s)"

definition goto_Error :: "('a, 'w) stmt" where
  "goto_Error s = (None, s)"

text \<open>\<open>for (i = 0; i < n; i++)\<close> over the listed indices.\<close>

fun for_each :: "('i \<Rightarrow> (unit, 'w) stmt) \<Rightarrow> 'i list \<Rightarrow> (unit, 'w) stmt" where
  "for_each body [] = skip"
| "for_each body (i # is) = andThen (body i) (\<lambda>_. for_each body is)"

section \<open>\<open>nvml_example.c\<close>\<close>

definition convertToComputeModeString :: "int \<Rightarrow> string" where
  "convertToComputeModeString mode =
     (if mode = 0 then ''Default'' else if mode = 1 then ''Exclusive_Thread''
      else if mode = 2 then ''Prohibited'' else if mode = 3 then ''Exclusive Process''
      else ''Unknown'')"

definition identify_device :: "('d, 'w) nvml_api \<Rightarrow> nat \<Rightarrow> ('d, 'w) stmt" where
  "identify_device api i =
     andThen (call (nvmlDeviceGetHandleByIndex api i)) (\<lambda>(result, device).
     if result \<noteq> NVML_SUCCESS then goto_Error else
     andThen (call (nvmlDeviceGetName api device)) (\<lambda>(result, name).
     if result \<noteq> NVML_SUCCESS then goto_Error else
     andThen (call (nvmlDeviceGetPciInfo api device)) (\<lambda>(result, pci).
     if result \<noteq> NVML_SUCCESS then goto_Error else (\<lambda>s. (Some device, s)))))"

definition toggle_compute_mode :: "('d, 'w) nvml_api \<Rightarrow> 'd \<Rightarrow> (unit, 'w) stmt" where
  "toggle_compute_mode api device =
     andThen (call (nvmlDeviceGetComputeMode api device)) (\<lambda>(result, compute_mode).
     if result = NVML_ERROR_NOT_SUPPORTED then skip
     else if result \<noteq> NVML_SUCCESS then goto_Error
     else andThen (call (nvmlDeviceSetComputeMode api device NVML_COMPUTEMODE_PROHIBITED)) (\<lambda>result.
       if result = NVML_ERROR_NO_PERMISSION then skip
       else if result = NVML_ERROR_NOT_SUPPORTED then skip
       else if result \<noteq> NVML_SUCCESS then goto_Error
       else andThen (call (nvmlDeviceSetComputeMode api device compute_mode)) (\<lambda>result.
         if result \<noteq> NVML_SUCCESS then goto_Error else skip)))"

definition example_body :: "('d, 'w) nvml_api \<Rightarrow> (unit, 'w) stmt" where
  "example_body api =
     andThen (call (nvmlDeviceGetCount api)) (\<lambda>(result, device_count).
     if result \<noteq> NVML_SUCCESS then goto_Error
     else for_each (\<lambda>i. andThen (identify_device api i) (toggle_compute_mode api)) [0..<device_count])"

text \<open>The library is shut down at the end of the program and again after the label \<open>Error\<close>; its result is only printed.\<close>

definition nvml_example_main :: "('d, 'w) nvml_api \<Rightarrow> 'w nvml_st \<Rightarrow> int \<times> 'w nvml_st" where
  "nvml_example_main api s =
     (let (result, w) = nvmlInit api (lib s); s = s\<lparr>lib := w\<rparr>
      in if result \<noteq> NVML_SUCCESS then (1, s)
         else (case example_body api s of
                 (Some _, s) \<Rightarrow> (let (result, w) = nvmlShutdown api (lib s) in (0, s\<lparr>lib := w\<rparr>))
               | (None, s) \<Rightarrow> (let (result, w) = nvmlShutdown api (lib s) in (1, s\<lparr>lib := w\<rparr>))))"

section \<open>\<open>supported_vgpus.c\<close>\<close>

definition print_vgpu_names :: "('d, 'w) nvml_api \<Rightarrow> int list \<Rightarrow> (unit, 'w) stmt" where
  "print_vgpu_names api = for_each (\<lambda>t. andThen (call (nvmlVgpuTypeGetName api t)) (\<lambda>_. skip))"

text \<open>The array of \<open>vgpuCount\<close> type identifiers is the list the second query returns, cut to the count.\<close>

definition list_vgpus :: "('d, 'w) nvml_api \<Rightarrow> 'd \<Rightarrow> (unit, 'w) stmt" where
  "list_vgpus api device =
     andThen (call (nvmlDeviceGetSupportedVgpus api device 0 True)) (\<lambda>(result, vgpuCount, _).
     if result \<noteq> NVML_ERROR_INSUFFICIENT_SIZE then goto_Error
     else if vgpuCount = 0 then skip
     else andThen (call (malloc api (4 * vgpuCount))) (\<lambda>ok.
       if \<not> ok then goto_Error
       else andThen (\<lambda>s. (Some (), s\<lparr>live := Suc (live s)\<rparr>)) (\<lambda>_.
         andThen (call (nvmlDeviceGetSupportedVgpus api device vgpuCount False)) (\<lambda>(result, vgpuCount, ids).
         if result \<noteq> NVML_SUCCESS then goto_Error
         else andThen (print_vgpu_names api (take vgpuCount ids)) (\<lambda>_.
           (\<lambda>s. (Some (), s\<lparr>live := live s - 1\<rparr>)))))))"

definition vgpus_body :: "('d, 'w) nvml_api \<Rightarrow> (unit, 'w) stmt" where
  "vgpus_body api =
     andThen (call (nvmlDeviceGetCount api)) (\<lambda>(result, device_count).
     if result \<noteq> NVML_SUCCESS then goto_Error
     else for_each (\<lambda>i. andThen (identify_device api i) (list_vgpus api)) [0..<device_count])"

definition supported_vgpus_main :: "('d, 'w) nvml_api \<Rightarrow> 'w nvml_st \<Rightarrow> int \<times> 'w nvml_st" where
  "supported_vgpus_main api s =
     (let (result, w) = nvmlInit api (lib s); s = s\<lparr>lib := w\<rparr>
      in if result \<noteq> NVML_SUCCESS then (1, s)
         else (case vgpus_body api s of
                 (Some _, s) \<Rightarrow> (let (result, w) = nvmlShutdown api (lib s) in (0, s\<lparr>lib := w\<rparr>))
               | (None, s) \<Rightarrow> (let (result, w) = nvmlShutdown api (lib s) in (1, s\<lparr>lib := w\<rparr>))))"

section \<open>Reasoning about statements\<close>

text \<open>
  \<open>triple P m Q E\<close>: from a state with \<open>P\<close>, the statement ends normally with \<open>Q\<close> or jumps to
  the error label with \<open>E\<close>.
\<close>

definition triple ::
  "('w nvml_st \<Rightarrow> bool) \<Rightarrow> ('a, 'w) stmt \<Rightarrow> ('a \<Rightarrow> 'w nvml_st \<Rightarrow> bool) \<Rightarrow> ('w nvml_st \<Rightarrow> bool) \<Rightarrow> bool" where
  "triple P m Q E \<longleftrightarrow> (\<forall>s. P s \<longrightarrow> (case m s of (Some x, s') \<Rightarrow> Q x s' | (None, s') \<Rightarrow> E s'))"

lemma triple_call:
  "(\<And>s r w. P s \<Longrightarrow> f (lib s) = (r, w) \<Longrightarrow> Q r (s\<lparr>lib := w\<rparr>)) \<Longrightarrow> triple P (call f) Q E"
  by (auto simp: triple_def call_def split: prod.splits)

lemma triple_andThen:
  "triple P m Q E \<Longrightarrow> (\<And>x. triple (Q x) (f x) R E) \<Longrightarrow> triple P (andThen m f) R E"
  by (fastforce simp: triple_def andThen_def split: prod.splits option.splits)

lemma triple_skip: "(\<And>s. P s \<Longrightarrow> Q () s) \<Longrightarrow> triple P skip Q E"
  by (simp add: triple_def skip_def)

lemma triple_goto: "(\<And>s. P s \<Longrightarrow> E s) \<Longrightarrow> triple P goto_Error Q E"
  by (simp add: triple_def goto_Error_def)

lemma triple_state: "(\<And>s. P s \<Longrightarrow> Q x (f s)) \<Longrightarrow> triple P (\<lambda>s. (Some x, f s)) Q E"
  by (simp add: triple_def)

lemma triple_if:
  "(b \<Longrightarrow> triple P m Q E) \<Longrightarrow> (\<not> b \<Longrightarrow> triple P n Q E) \<Longrightarrow> triple P (if b then m else n) Q E"
  by simp

lemma triple_for_each:
  "(\<And>i. triple P (body i) (\<lambda>_. P) E) \<Longrightarrow> triple P (for_each body is) (\<lambda>_. P) E"
  by (induction "is") (auto intro: triple_andThen triple_skip)

lemma triple_conseq:
  "triple P m Q E \<Longrightarrow> (\<And>x s. Q x s \<Longrightarrow> Q' x s) \<Longrightarrow> (\<And>s. E s \<Longrightarrow> E' s) \<Longrightarrow> triple P m Q' E'"
  by (fastforce simp: triple_def split: prod.splits option.splits)

lemma tripleD_Some: "triple P m Q E \<Longrightarrow> P s \<Longrightarrow> m s = (Some x, s') \<Longrightarrow> Q x s'"
  by (auto simp: triple_def split: prod.splits option.splits)

lemma tripleD_None: "triple P m Q E \<Longrightarrow> P s \<Longrightarrow> m s = (None, s') \<Longrightarrow> E s'"
  by (auto simp: triple_def split: prod.splits option.splits)

section \<open>The calls of a program\<close>



















section \<open>Properties\<close>


text \<open>
  A library with one device whose world is its compute mode; \<open>denied\<close> says whether changing
  the mode needs a privilege the caller lacks.
\<close>

definition api0 :: "bool \<Rightarrow> (nat, nat \<Rightarrow> int) nvml_api" where
  "api0 denied = \<lparr>nvmlInit = (\<lambda>w. (0, w)), nvmlShutdown = (\<lambda>w. (0, w)),
     nvmlDeviceGetCount = (\<lambda>w. ((0, 1), w)), nvmlDeviceGetHandleByIndex = (\<lambda>i w. ((0, i), w)),
     nvmlDeviceGetName = (\<lambda>_ w. ((0, ''gpu''), w)), nvmlDeviceGetPciInfo = (\<lambda>_ w. ((0, ''0''), w)),
     nvmlDeviceGetComputeMode = (\<lambda>d w. ((0, w d), w)),
     nvmlDeviceSetComputeMode = (\<lambda>d m w. if denied then (4, w) else (0, w(d := m))),
     nvmlDeviceGetSupportedVgpus = (\<lambda>_ n _ w. if n < 2 then ((7, 2, []), w) else ((0, 2, [5, 6]), w)),
     nvmlVgpuTypeGetName = (\<lambda>t w. ((0, ''vgpu''), w)), malloc = (\<lambda>_ w. (True, w))\<rparr>"

definition st0 :: "'w \<Rightarrow> 'w nvml_st" where
  "st0 w = \<lparr>lib = w, live = 0\<rparr>"

lemmas nvml_eval = nvml_example_main_def supported_vgpus_main_def example_body_def
  vgpus_body_def identify_device_def toggle_compute_mode_def list_vgpus_def print_vgpu_names_def
  andThen_def call_def skip_def goto_Error_def api0_def st0_def nvml_codes


text \<open>
  What the documentation says of compute modes: reading a mode returns it, a successful
  change stores it, and neither a failed change nor another call changes a mode.
\<close>

definition mode_api :: "('d, 'w) nvml_api \<Rightarrow> ('w \<Rightarrow> 'd \<Rightarrow> int) \<Rightarrow> bool" where
  "mode_api api mode \<longleftrightarrow>
     (\<forall>w. mode (snd (nvmlInit api w)) = mode w \<and> mode (snd (nvmlShutdown api w)) = mode w
        \<and> mode (snd (nvmlDeviceGetCount api w)) = mode w)
     \<and> (\<forall>i w. mode (snd (nvmlDeviceGetHandleByIndex api i w)) = mode w)
     \<and> (\<forall>d w. mode (snd (nvmlDeviceGetName api d w)) = mode w \<and> mode (snd (nvmlDeviceGetPciInfo api d w)) = mode w
        \<and> mode (snd (nvmlDeviceGetComputeMode api d w)) = mode w
        \<and> (fst (fst (nvmlDeviceGetComputeMode api d w)) = NVML_SUCCESS
             \<longrightarrow> snd (fst (nvmlDeviceGetComputeMode api d w)) = mode w d))
     \<and> (\<forall>d m w. mode (snd (nvmlDeviceSetComputeMode api d m w))
           = (if fst (nvmlDeviceSetComputeMode api d m w) = NVML_SUCCESS then (mode w)(d := m) else mode w))"

lemma mode_apiD:
  assumes "mode_api api mode"
  shows "nvmlInit api w = (r, w') \<Longrightarrow> mode w' = mode w"
    "nvmlShutdown api w = (r, w') \<Longrightarrow> mode w' = mode w"
    "nvmlDeviceGetCount api w = (p, w') \<Longrightarrow> mode w' = mode w"
    "nvmlDeviceGetHandleByIndex api i w = (q, w') \<Longrightarrow> mode w' = mode w"
    "nvmlDeviceGetName api d w = (a, w') \<Longrightarrow> mode w' = mode w"
    "nvmlDeviceGetPciInfo api d w = (a, w') \<Longrightarrow> mode w' = mode w"
    "nvmlDeviceGetComputeMode api d w = ((r, m), w') \<Longrightarrow> mode w' = mode w \<and> (r = NVML_SUCCESS \<longrightarrow> m = mode w d)"
    "nvmlDeviceSetComputeMode api d k w = (r, w') \<Longrightarrow> mode w' = (if r = NVML_SUCCESS then (mode w)(d := k) else mode w)"
  using assms unfolding mode_api_def by (metis fst_conv snd_conv)+

definition one_prohibited :: "('d \<Rightarrow> int) \<Rightarrow> ('d \<Rightarrow> int) \<Rightarrow> bool" where
  "one_prohibited m m' \<longleftrightarrow> m' = m \<or> (\<exists>d. m' = m(d := NVML_COMPUTEMODE_PROHIBITED))"

lemma one_prohibited_refl [simp]: "one_prohibited m m"
  by (simp add: one_prohibited_def)

lemma toggle_modes:
  assumes api: "mode_api api mode"
  shows "triple (\<lambda>s. mode (lib s) = m) (toggle_compute_mode api d) (\<lambda>_ s. mode (lib s) = m)
           (\<lambda>s. one_prohibited m (mode (lib s)))"
proof -
  have "case toggle_compute_mode api d s of (Some x, s') \<Rightarrow> mode (lib s') = mode (lib s)
          | (None, s') \<Rightarrow> one_prohibited (mode (lib s)) (mode (lib s'))" for s
  proof -
    obtain r k w1 where g: "nvmlDeviceGetComputeMode api d (lib s) = ((r, k), w1)" by (metis prod.exhaust)
    obtain r2 w2 where s1: "nvmlDeviceSetComputeMode api d NVML_COMPUTEMODE_PROHIBITED w1 = (r2, w2)" by fastforce
    obtain r3 w3 where s2: "nvmlDeviceSetComputeMode api d (mode (lib s) d) w2 = (r3, w3)" by fastforce
    show ?thesis
      using mode_apiD(7) [OF api g] mode_apiD(8) [OF api s1] mode_apiD(8) [OF api s2]
      by (auto simp: toggle_compute_mode_def andThen_def call_def skip_def goto_Error_def g s1 s2
          one_prohibited_def NVML_SUCCESS_def NVML_ERROR_NOT_SUPPORTED_def NVML_ERROR_NO_PERMISSION_def)
  qed
  then show ?thesis unfolding triple_def by (intro allI impI) (erule subst)
qed

lemma identify_modes:
  assumes api: "mode_api api mode"
  shows "triple (\<lambda>s. mode (lib s) = m) (identify_device api i) (\<lambda>_ s. mode (lib s) = m)
           (\<lambda>s. one_prohibited m (mode (lib s)))"
proof -
  note laws = mode_apiD(4-6) [OF api]
  show ?thesis
    unfolding identify_device_def
    by (auto intro!: triple_andThen [where Q = "\<lambda>_ s. mode (lib s) = m"] triple_call triple_if triple_goto
        triple_state dest: laws split: prod.splits)
qed

text \<open>
  C35. If the management library behaves as documented, a run of \<open>nvml_example\<close> that reports
  success leaves every device in the compute mode it found, and a run that reports failure
  leaves at most one device changed, in prohibited mode.
\<close>

theorem example_restores_compute_modes:
  assumes api: "mode_api api mode" and run: "nvml_example_main api s = (c, s')"
  shows "(c = 0 \<longrightarrow> mode (lib s') = mode (lib s)) \<and> one_prohibited (mode (lib s)) (mode (lib s'))"
proof -
  let ?m = "mode (lib s)"
  have body: "triple (\<lambda>s. mode (lib s) = ?m) (example_body api) (\<lambda>_ s. mode (lib s) = ?m)
      (\<lambda>s. one_prohibited ?m (mode (lib s)))"
    unfolding example_body_def
    using mode_apiD(3) [OF api]
    by (auto intro!: triple_andThen [where Q = "\<lambda>_ s. mode (lib s) = ?m"] triple_call triple_if triple_goto
        triple_for_each identify_modes [OF api] toggle_modes [OF api] split: prod.splits)
  obtain r w where i: "nvmlInit api (lib s) = (r, w)" by fastforce
  let ?s1 = "s\<lparr>lib := w\<rparr>"
  obtain x s2 where b: "example_body api ?s1 = (x, s2)" by fastforce
  have "mode (lib ?s1) = ?m" using mode_apiD(1) [OF api i] by simp
  then have out: "if x = None then one_prohibited ?m (mode (lib s2)) else mode (lib s2) = ?m"
    using tripleD_Some [OF body, of ?s1] tripleD_None [OF body, of ?s1] b by (cases x) auto
  obtain r2 w2 where sh: "nvmlShutdown api (lib s2) = (r2, w2)" by fastforce
  show ?thesis
    using run i b sh out mode_apiD(1) [OF api i] mode_apiD(2) [OF api sh]
    by (auto simp: nvml_example_main_def  one_prohibited_def Let_def split: if_splits)
qed

theorem example_restores_compute_modes_witness:
  "\<exists>s'. nvml_example_main (api0 False) (st0 (\<lambda>_. 3)) = (0, s') \<and> lib s' = (\<lambda>_. 3)"
proof -
  have a: "mode_api (api0 False) (\<lambda>w. w)" by (simp add: mode_api_def api0_def nvml_codes)
  obtain s' where m: "nvml_example_main (api0 False) (st0 (\<lambda>_. 3)) = (0, s')"
    by (simp add: nvml_eval)
  show ?thesis using example_restores_compute_modes [OF a m] m by (simp add: st0_def)
qed

lemma list_vgpus_live:
  "triple (\<lambda>s. live s = n) (list_vgpus api d) (\<lambda>_ s. live s = n) (\<lambda>s. live s = n \<or> live s = Suc n)"
proof -
  have names: "triple (\<lambda>s. live s = Suc n) (print_vgpu_names api ids) (\<lambda>_ s. live s = Suc n) E" for ids E
    unfolding print_vgpu_names_def
    by (intro triple_for_each triple_andThen [where Q = "\<lambda>_ s. live s = Suc n"] triple_call triple_skip) auto
  have query: "triple (\<lambda>s. live s = k) (call f) (\<lambda>_ s. live s = k) E" for k E and f :: "_ \<Rightarrow> 'z \<times> _"
    by (rule triple_call) simp
  show ?thesis
    unfolding list_vgpus_def
    by (auto intro!: triple_andThen [OF query] triple_andThen [OF names] triple_if triple_goto triple_skip
        triple_state triple_andThen [OF triple_state, where Q = "\<lambda>_ s. live s = Suc n"] split: prod.splits)
qed

text \<open>
  Memory of \<open>supported_vgpus\<close>: a run that reports success has freed every array it
  allocated. A run that reports failure may leave one array behind, the one of the device at
  which it stopped.
\<close>

theorem vgpus_memory:
  assumes run: "supported_vgpus_main api s = (c, s')"
  shows "(c = 0 \<longrightarrow> live s' = live s) \<and> (live s' = live s \<or> live s' = Suc (live s))"
proof -
  let ?E = "\<lambda>t. live t = live s \<or> live t = Suc (live s)"
  have query: "triple (\<lambda>t. live t = live s) (call f) (\<lambda>_ t. live t = live s) ?E" for f :: "_ \<Rightarrow> 'z \<times> _"
    by (rule triple_call) simp
  have ident: "triple (\<lambda>t. live t = live s) (identify_device api i) (\<lambda>_ t. live t = live s) ?E" for i
    unfolding identify_device_def
    by (auto intro!: triple_andThen [OF query] triple_if triple_goto triple_state split: prod.splits)
  have body: "triple (\<lambda>t. live t = live s) (vgpus_body api) (\<lambda>_ t. live t = live s) ?E"
    unfolding vgpus_body_def
    by (auto intro!: triple_andThen [OF query] triple_andThen [OF ident] triple_if triple_goto
        triple_for_each list_vgpus_live split: prod.splits)
  obtain r w where i: "nvmlInit api (lib s) = (r, w)" by fastforce
  let ?s1 = "s\<lparr>lib := w\<rparr>"
  obtain x s2 where b: "vgpus_body api ?s1 = (x, s2)" by fastforce
  have "if x = None then ?E s2 else live s2 = live s"
    using tripleD_Some [OF body, of ?s1] tripleD_None [OF body, of ?s1] b by (cases x) auto
  then show ?thesis
    using run i b by (auto simp: supported_vgpus_main_def  Let_def split: if_splits prod.splits)
qed

theorem vgpus_memory_witness:
  "\<exists>s'. supported_vgpus_main (api0 False) (st0 (\<lambda>_. 3)) = (0, s') \<and> live s' = 0"
proof -
  obtain s' where m: "supported_vgpus_main (api0 False) (st0 (\<lambda>_. 3)) = (0, s')"
    by (simp add: nvml_eval)
  show ?thesis using vgpus_memory [OF m] m by (simp add: st0_def)
qed

text \<open>
  A device without vGPU types is taken for an error: the documentation of
  \<open>nvmlDeviceGetSupportedVgpus\<close> says that the size query then returns \<open>NVML_SUCCESS\<close> with the
  count 0, but the program jumps to its error label on every result other than
  \<open>NVML_ERROR_INSUFFICIENT_SIZE\<close> and exits with status 1.
\<close>

theorem no_vgpu_types_reported_as_failure:
  assumes "fst (nvmlInit api (lib s)) = NVML_SUCCESS"
    and "\<And>w. \<exists>n. fst (nvmlDeviceGetCount api w) = (NVML_SUCCESS, Suc n)"
    and "\<And>d w. fst (nvmlDeviceGetSupportedVgpus api d 0 True w) = (NVML_SUCCESS, 0, [])"
  shows "fst (supported_vgpus_main api s) = 1"
proof -
  have fails: "fst (list_vgpus api d t) = None" for d t
    using assms(3) [of d "lib t"]
    by (auto simp: list_vgpus_def andThen_def call_def goto_Error_def nvml_codes split: prod.splits)
  have "fst (andThen (identify_device api i) (list_vgpus api) t) = None" for i t
    using fails by (auto simp: andThen_def split: prod.splits option.splits)
  then have loop: "fst (for_each (\<lambda>i. andThen (identify_device api i) (list_vgpus api)) (i # is) t) = None" for i "is" t
    by (auto simp: andThen_def [of "andThen _ _"] split: prod.splits option.splits) (metis fst_conv option.distinct(1))
  have "fst (vgpus_body api t) = None" for t
  proof -
    obtain n w where c: "nvmlDeviceGetCount api (lib t) = ((NVML_SUCCESS, Suc n), w)"
      using assms(2) [of "lib t"] by (metis prod.exhaust fst_conv)
    have "[0..<Suc n] = 0 # [Suc 0..<Suc n]" by (rule upt_conv_Cons) simp
    then show ?thesis
      using loop by (simp add: vgpus_body_def andThen_def [of "call _"] call_def c del: upt_Suc for_each.simps)
  qed
  moreover obtain w where i: "nvmlInit api (lib s) = (NVML_SUCCESS, w)" using assms(1) by (metis prod.collapse)
  ultimately obtain s2 where b: "vgpus_body api (s\<lparr>lib := w\<rparr>) = (None, s2)" by (metis prod.collapse)
  obtain r2 w2 where "nvmlShutdown api (lib s2) = (r2, w2)" by (rule prod.exhaust)
  then show ?thesis by (simp add: supported_vgpus_main_def i b)
qed

theorem no_vgpu_types_reported_as_failure_witness:
  "fst (supported_vgpus_main ((api0 False)\<lparr>nvmlDeviceGetSupportedVgpus := \<lambda>_ _ _ w. ((0, 0, []), w)\<rparr>)
         (st0 (\<lambda>_. 3))) = 1"
  by (rule no_vgpu_types_reported_as_failure) (simp_all add: api0_def nvml_codes)

end
