(* ===== verification/Ring_Buffer.thy ===== *)
theory Ring_Buffer
  imports Prelude "HOL-Library.Sublist"
begin

text \<open>
  The shared-memory ring buffer of \<open>network/src/ringbufferchannel/mod.rs\<close>: the queue that
  carries every remoted CUDA call and its result between client and server. The region is its
  data area, the head and tail words and the flag word; the two sides run concurrently and
  interleave at every volatile access and at every byte copied.
\<close>

section \<open>The shared region\<close>

record ring =
  data :: "u8 list"
  head :: nat
  tail :: nat
  flag :: u64

definition META_AREA :: nat where
  "META_AREA = 64 * 3"

definition SHM_FLAG_IN_USE :: u64 where
  "SHM_FLAG_IN_USE = 1"

definition SHM_FLAG_WRITE_DISABLED :: u64 where
  "SHM_FLAG_WRITE_DISABLED = 2"

definition get_len :: "ring \<Rightarrow> nat" where
  "get_len r = META_AREA + length (data r)"

definition capacity :: "ring \<Rightarrow> nat" where
  "capacity r = get_len r - META_AREA"

definition num_bytes_stored :: "ring \<Rightarrow> nat" where
  "num_bytes_stored r =
     (if head r \<le> tail r then tail r - head r else capacity r - (head r - tail r))"

definition num_bytes_free :: "ring \<Rightarrow> nat" where
  "num_bytes_free r = capacity r - num_bytes_stored r"

definition is_empty :: "ring \<Rightarrow> bool" where
  "is_empty r \<longleftrightarrow> head r = tail r"

definition is_full :: "ring \<Rightarrow> bool" where
  "is_full r \<longleftrightarrow> capacity r - 1 \<le> num_bytes_stored r"

definition contiguous_read_len :: "ring \<Rightarrow> nat \<Rightarrow> nat \<Rightarrow> nat" where
  "contiguous_read_len r cur_head max_len =
     (let contiguous_len = (if cur_head \<le> tail r then tail r - cur_head else capacity r - cur_head)
      in min contiguous_len max_len)"

definition contiguous_write_len :: "ring \<Rightarrow> nat \<Rightarrow> nat \<Rightarrow> nat" where
  "contiguous_write_len r cur_tail max_len =
     (let cur_head = (if head r = 0 then capacity r else head r);
          contiguous_len = (if cur_head \<le> cur_tail then capacity r - cur_tail else cur_head - cur_tail - 1)
      in min contiguous_len max_len)"

text \<open>\<open>LocalChannel::new\<close>; the bytes of a fresh allocation are arbitrary.\<close>

definition LocalChannel_new :: "nat \<Rightarrow> u8 list \<Rightarrow> u64 \<Rightarrow> ring option" where
  "LocalChannel_new sz fresh fl =
     (if META_AREA < sz
      then Some \<lparr>data = take (sz - META_AREA) (fresh @ replicate sz 0), head = 0, tail = 0, flag = fl\<rparr>
      else None)"

section \<open>Sender and receiver\<close>

text \<open>
  Where \<open>put_bytes\<close> stands: before an iteration, in the fullness check (and the busy-wait of
  \<open>flush_out\<close>) with the tail it read, before it computes the slice, and while it copies \<open>n\<close>
  bytes of which \<open>k\<close> are done.
\<close>

datatype spc = SLoop | SFull nat | SSlice nat | SCopy nat nat nat | SPanic

text \<open>
  Where \<open>get_bytes\<close> stands: not called, at the head of its own loop, at the head of the loop of
  \<open>try_get_bytes\<close>, after the emptiness check, before it computes the slice, while it copies, at
  the return of \<open>try_get_bytes\<close>, and after it returned \<open>ShmChannelLocked\<close>.
\<close>

datatype rpc = RIdle | RWhile | RTry | RHead | RSlice nat | RCopy nat nat "u8 list" | RRet | RLocked | RPanic

text \<open>
  \<open>src\<close> is what the current \<open>put_bytes\<close> still has to commit, \<open>total\<close>, \<open>cur_recv\<close>, \<open>recv\<close> and
  \<open>dst_left\<close> are the counters of the current \<open>get_bytes\<close>. The histories \<open>sent\<close> and \<open>got\<close> record
  all bytes handed to \<open>put_bytes\<close> and all bytes that \<open>get_bytes\<close> has delivered.
\<close>

record sys =
  ring :: ring
  spc :: spc
  src :: "u8 list"
  rpc :: rpc
  total :: nat
  cur_recv :: nat
  recv :: nat
  dst_left :: nat
  sent :: "u8 list"
  got :: "u8 list"

definition put_step :: "sys \<Rightarrow> sys" where
  "put_step s =
     (case spc s of
        SLoop \<Rightarrow>
          (if src s = [] then s
           else if tail (ring s) < capacity (ring s) then s\<lparr>spc := SFull (tail (ring s))\<rparr>
           else s\<lparr>spc := SPanic\<rparr>)
      | SFull read_tail \<Rightarrow> (if is_full (ring s) then s else s\<lparr>spc := SSlice read_tail\<rparr>)
      | SSlice read_tail \<Rightarrow>
          s\<lparr>spc := SCopy read_tail (contiguous_write_len (ring s) read_tail (length (src s))) 0\<rparr>
      | SCopy read_tail n k \<Rightarrow>
          (if k < n
           then s\<lparr>ring := (ring s)\<lparr>data := (data (ring s))[read_tail + k := src s ! k]\<rparr>,
                  spc := SCopy read_tail n (Suc k)\<rparr>
           else s\<lparr>ring := (ring s)\<lparr>tail := (read_tail + n) mod capacity (ring s)\<rparr>,
                  src := drop n (src s), spc := SLoop\<rparr>)
      | SPanic \<Rightarrow> s)"

definition get_step :: "sys \<Rightarrow> sys" where
  "get_step s =
     (case rpc s of
        RIdle \<Rightarrow> s
      | RWhile \<Rightarrow> (if cur_recv s = total s then s\<lparr>rpc := RIdle\<rparr> else s\<lparr>recv := 0, rpc := RTry\<rparr>)
      | RTry \<Rightarrow>
          (if dst_left s = 0 \<or> is_empty (ring s) then s\<lparr>rpc := RRet\<rparr> else s\<lparr>rpc := RHead\<rparr>)
      | RHead \<Rightarrow>
          (if head (ring s) < capacity (ring s) then s\<lparr>rpc := RSlice (head (ring s))\<rparr>
           else s\<lparr>rpc := RPanic\<rparr>)
      | RSlice read_head \<Rightarrow>
          s\<lparr>rpc := RCopy read_head (contiguous_read_len (ring s) read_head (dst_left s)) []\<rparr>
      | RCopy read_head n acc \<Rightarrow>
          (if length acc < n
           then s\<lparr>rpc := RCopy read_head n (acc @ [data (ring s) ! (read_head + length acc)])\<rparr>
           else if read_head + n \<le> capacity (ring s)
           then s\<lparr>ring := (ring s)\<lparr>head := (read_head + n) mod capacity (ring s)\<rparr>,
                  recv := recv s + n, dst_left := dst_left s - n, got := got s @ acc, rpc := RTry\<rparr>
           else s\<lparr>rpc := RPanic\<rparr>)
      | RRet \<Rightarrow>
          (if recv s = 0 \<and> flag (ring s) = SHM_FLAG_WRITE_DISABLED AND NOT SHM_FLAG_IN_USE
           then (if cur_recv s = 0 then s\<lparr>rpc := RLocked\<rparr> else s\<lparr>rpc := RPanic\<rparr>)
           else s\<lparr>cur_recv := cur_recv s + recv s, rpc := RWhile\<rparr>)
      | RLocked \<Rightarrow> s
      | RPanic \<Rightarrow> s)"

text \<open>
  What may happen next: a step of either side, a new call of \<open>put_bytes\<close> or \<open>get_bytes\<close> when
  the previous one has returned, or a write of the flag word by another process.
\<close>

datatype move = Snd | Rcv | Put "u8 list" | Get nat | SetFlag u64

fun do_move :: "move \<Rightarrow> sys \<Rightarrow> sys" where
  "do_move Snd s = put_step s"
| "do_move Rcv s = get_step s"
| "do_move (Put bs) s =
     (if spc s = SLoop \<and> src s = [] then s\<lparr>src := bs, sent := sent s @ bs\<rparr> else s)"
| "do_move (Get n) s =
     (if rpc s = RIdle \<or> rpc s = RLocked
      then s\<lparr>total := n, cur_recv := 0, recv := 0, dst_left := n, rpc := RWhile\<rparr> else s)"
| "do_move (SetFlag v) s = s\<lparr>ring := (ring s)\<lparr>flag := v\<rparr>\<rparr>"

definition run :: "move list \<Rightarrow> sys \<Rightarrow> sys" where
  "run ms s = foldl (\<lambda>s m. do_move m s) s ms"

definition start :: "ring \<Rightarrow> sys" where
  "start r = \<lparr>ring = r, spc = SLoop, src = [], rpc = RIdle, total = 0, cur_recv = 0, recv = 0,
              dst_left = 0, sent = [], got = []\<rparr>"

lemma run_simps [simp]: "run [] s = s" "run (m # ms) s = run ms (do_move m s)"
  by (simp_all add: run_def)

lemma run_append: "run (ms @ ns) s = run ns (run ms s)"
  by (simp add: run_def)

section \<open>The queue in the ring\<close>

definition wf_ring :: "ring \<Rightarrow> bool" where
  "wf_ring r \<longleftrightarrow> head r < capacity r \<and> tail r < capacity r"

definition contents :: "ring \<Rightarrow> u8 list" where
  "contents r = map (\<lambda>i. data r ! ((head r + i) mod capacity r)) [0..<num_bytes_stored r]"

lemma capacity_length: "capacity r = length (data r)"
  by (simp add: capacity_def get_len_def)

lemma capacity_update [simp]:
  "capacity (r\<lparr>head := h\<rparr>) = capacity r" "capacity (r\<lparr>tail := t\<rparr>) = capacity r"
  "capacity (r\<lparr>flag := f\<rparr>) = capacity r" "capacity (r\<lparr>data := (data r)[i := b]\<rparr>) = capacity r"
  by (simp_all add: capacity_length)

lemma length_contents [simp]: "length (contents r) = num_bytes_stored r"
  by (simp add: contents_def)

lemma stored_less: "wf_ring r \<Longrightarrow> num_bytes_stored r < capacity r"
  by (auto simp: wf_ring_def num_bytes_stored_def)

lemma tail_eq:
  assumes "wf_ring r"
  shows "tail r = (head r + num_bytes_stored r) mod capacity r"
proof (cases "head r \<le> tail r")
  case False
  then have "head r + num_bytes_stored r = tail r + capacity r"
    using assms by (auto simp: wf_ring_def num_bytes_stored_def)
  then show ?thesis using assms by (simp add: wf_ring_def)
qed (use assms in \<open>auto simp: wf_ring_def num_bytes_stored_def\<close>)

lemma stored_unique:
  assumes "head r < capacity r" and "n < capacity r" and "tail r = (head r + n) mod capacity r"
  shows "num_bytes_stored r = n"
proof (cases "head r + n < capacity r")
  case False
  then have "(head r + n) mod capacity r = head r + n - capacity r"
    using assms(1,2) by (simp add: mod_if)
  then show ?thesis using False assms by (auto simp: num_bytes_stored_def)
qed (use assms in \<open>auto simp: num_bytes_stored_def\<close>)

lemma is_empty_iff: "wf_ring r \<Longrightarrow> is_empty r \<longleftrightarrow> num_bytes_stored r = 0"
  by (auto simp: is_empty_def num_bytes_stored_def wf_ring_def)

lemma contents_flag [simp]: "contents (r\<lparr>flag := v\<rparr>) = contents r"
  "num_bytes_stored (r\<lparr>flag := v\<rparr>) = num_bytes_stored r" "wf_ring (r\<lparr>flag := v\<rparr>) = wf_ring r"
  by (simp_all add: contents_def num_bytes_stored_def wf_ring_def)

lemma stored_data [simp]:
  "num_bytes_stored (r\<lparr>data := (data r)[i := b]\<rparr>) = num_bytes_stored r"
  "wf_ring (r\<lparr>data := (data r)[i := b]\<rparr>) = wf_ring r"
  by (simp_all add: num_bytes_stored_def wf_ring_def)

text \<open>A byte written into the free part of the ring does not change the queue.\<close>

lemma mod_add_inj:
  fixes i j c :: nat
  assumes "(a + i) mod c = (a + j) mod c" and "i < c" and "j < c"
  shows "i = j"
proof -
  obtain p q where "a + i + c * p = a + j + c * q" using assms(1) by (auto simp: nat_mod_eq_iff)
  then have "i + c * p = j + c * q" by simp
  then have "(i + c * p) mod c = (j + c * q) mod c" by (rule arg_cong)
  then show ?thesis using assms(2,3) by simp
qed

lemma contents_write:
  assumes "wf_ring r" and "tail r + k < capacity r" and "num_bytes_stored r + k < capacity r"
  shows "contents (r\<lparr>data := (data r)[tail r + k := b]\<rparr>) = contents r"
proof -
  have "tail r + k \<noteq> (head r + i) mod capacity r" if "i < num_bytes_stored r" for i
  proof
    assume "tail r + k = (head r + i) mod capacity r"
    then have "(head r + (num_bytes_stored r + k)) mod capacity r = (head r + i) mod capacity r"
      using tail_eq [OF assms(1)] assms(2) by (metis add.assoc mod_add_left_eq mod_less)
    then have "num_bytes_stored r + k = i" using assms(3) that by (auto dest: mod_add_inj)
    then show False using that by simp
  qed
  then show ?thesis by (simp add: contents_def)
qed

lemma commit_tail:
  assumes "wf_ring r" and "num_bytes_stored r + n < capacity r"
  defines "r' \<equiv> r\<lparr>tail := (tail r + n) mod capacity r\<rparr>"
  shows "wf_ring r'" "num_bytes_stored r' = num_bytes_stored r + n"
    "tail r + n \<le> capacity r \<Longrightarrow> contents r' = contents r @ map (\<lambda>j. data r ! (tail r + j)) [0..<n]"
proof -
  have pos: "0 < capacity r" using assms(2) by simp
  then show wf: "wf_ring r'" using assms(1) by (simp add: r'_def wf_ring_def)
  have t: "tail r' = (head r' + (num_bytes_stored r + n)) mod capacity r'"
    using tail_eq [OF assms(1)] by (simp add: r'_def add.assoc [symmetric]) (metis mod_add_left_eq)
  show stored: "num_bytes_stored r' = num_bytes_stored r + n"
    by (rule stored_unique [OF _ _ t]) (use assms in \<open>simp_all add: r'_def wf_ring_def\<close>)
  assume fits: "tail r + n \<le> capacity r"
  have "data r ! ((head r + (num_bytes_stored r + j)) mod capacity r) = data r ! (tail r + j)" if "j < n" for j
    using tail_eq [OF assms(1)] fits that
    by (metis add.assoc mod_add_left_eq mod_less nat_add_left_cancel_less order_less_le_trans)
  then have "map (\<lambda>i. data r ! ((head r + i) mod capacity r)) [num_bytes_stored r..<num_bytes_stored r + n]
      = map (\<lambda>j. data r ! (tail r + j)) [0..<n]"
    by (intro nth_equalityI) auto
  then show "contents r' = contents r @ map (\<lambda>j. data r ! (tail r + j)) [0..<n]"
    unfolding contents_def stored
    by (simp add: r'_def upt_add_eq_append [of 0, simplified])
qed

lemma commit_head:
  assumes "wf_ring r" and "n \<le> num_bytes_stored r"
  defines "r' \<equiv> r\<lparr>head := (head r + n) mod capacity r\<rparr>"
  shows "wf_ring r'" "num_bytes_stored r' = num_bytes_stored r - n" "contents r' = drop n (contents r)"
proof -
  note less = stored_less [OF assms(1)]
  then show wf: "wf_ring r'" using assms(1) by (auto simp: r'_def wf_ring_def)
  have "tail r' = (head r + n + (num_bytes_stored r - n)) mod capacity r"
    using tail_eq [OF assms(1)] assms(2) by (simp add: r'_def)
  then have t: "tail r' = (head r' + (num_bytes_stored r - n)) mod capacity r'"
    by (simp add: r'_def mod_add_left_eq)
  show stored: "num_bytes_stored r' = num_bytes_stored r - n"
    by (rule stored_unique [OF _ _ t]) (use wf less in \<open>auto simp: r'_def wf_ring_def\<close>)
  show "contents r' = drop n (contents r)"
  proof (rule nth_equalityI)
    fix i
    assume i: "i < length (contents r')"
    then have "n + i < num_bytes_stored r" using stored assms(2) by simp
    then show "contents r' ! i = drop n (contents r) ! i"
      using i stored assms(2) by (simp add: contents_def r'_def mod_add_left_eq add.assoc)
  qed (use stored in simp)
qed

lemma write_len:
  assumes "wf_ring r" and "num_bytes_stored r < capacity r - 1" and "0 < m"
  defines "n \<equiv> contiguous_write_len r (tail r) m"
  shows "0 < n" "n \<le> m" "tail r + n \<le> capacity r" "num_bytes_stored r + n < capacity r"
  using assms(1-3) unfolding n_def contiguous_write_len_def Let_def wf_ring_def num_bytes_stored_def
  by (auto split: if_splits)

lemma read_len:
  assumes "wf_ring r" and "0 < num_bytes_stored r" and "0 < m"
  defines "n \<equiv> contiguous_read_len r (head r) m"
  shows "0 < n" "n \<le> m" "head r + n \<le> capacity r" "n \<le> num_bytes_stored r"
  using assms(1-3) unfolding n_def contiguous_read_len_def Let_def wf_ring_def num_bytes_stored_def
  by (auto split: if_splits)

section \<open>The invariant\<close>

fun put_inv :: "spc \<Rightarrow> ring \<Rightarrow> u8 list \<Rightarrow> bool" where
  "put_inv SLoop r bs = True"
| "put_inv (SFull t) r bs = (t = tail r \<and> bs \<noteq> [])"
| "put_inv (SSlice t) r bs = (t = tail r \<and> bs \<noteq> [] \<and> num_bytes_stored r < capacity r - 1)"
| "put_inv (SCopy t n k) r bs =
     (t = tail r \<and> 0 < n \<and> n \<le> length bs \<and> t + n \<le> capacity r \<and> num_bytes_stored r + n < capacity r
      \<and> k \<le> n \<and> (\<forall>j<k. data r ! (t + j) = bs ! j))"
| "put_inv SPanic r bs = False"

fun get_inv :: "rpc \<Rightarrow> ring \<Rightarrow> nat \<Rightarrow> bool" where
  "get_inv RHead r left = (0 < num_bytes_stored r \<and> 0 < left)"
| "get_inv (RSlice h) r left = (h = head r \<and> 0 < num_bytes_stored r \<and> 0 < left)"
| "get_inv (RCopy h n acc) r left =
     (h = head r \<and> 0 < n \<and> n \<le> left \<and> n \<le> num_bytes_stored r \<and> h + n \<le> capacity r
      \<and> length acc \<le> n \<and> acc = take (length acc) (contents r))"
| "get_inv pc r left = True"

definition counters_ok :: "sys \<Rightarrow> bool" where
  "counters_ok s \<longleftrightarrow>
     (case rpc s of RIdle \<Rightarrow> True | RLocked \<Rightarrow> True | RPanic \<Rightarrow> True
      | RWhile \<Rightarrow> total s = cur_recv s + dst_left s
      | _ \<Rightarrow> total s = cur_recv s + recv s + dst_left s)"

definition sys_inv :: "sys \<Rightarrow> bool" where
  "sys_inv s \<longleftrightarrow> wf_ring (ring s) \<and> sent s = got s @ contents (ring s) @ src s
     \<and> put_inv (spc s) (ring s) (src s) \<and> get_inv (rpc s) (ring s) (dst_left s) \<and> counters_ok s"

lemma take_contents_append:
  "n \<le> length xs \<Longrightarrow> ys = take n xs \<longleftrightarrow> ys = take n (xs @ zs)"
  by simp

lemma get_inv_grow:
  assumes "get_inv pc r left" and "head r' = head r" and "capacity r' = capacity r"
    and "num_bytes_stored r \<le> num_bytes_stored r'" and "prefix (contents r) (contents r')"
  shows "get_inv pc r' left"
proof (cases pc)
  case (RCopy h n acc)
  obtain zs where z: "contents r' = contents r @ zs" using assms(5) by (auto simp: prefix_def)
  have "length acc \<le> length (contents r)" using assms(1) RCopy by simp
  then have "take (length acc) (contents r') = take (length acc) (contents r)" by (simp add: z)
  then show ?thesis using assms RCopy by auto
qed (use assms in auto)

lemma put_inv_shrink:
  assumes "put_inv pc r bs" and "tail r' = tail r" and "capacity r' = capacity r" and "data r' = data r"
    and "num_bytes_stored r' \<le> num_bytes_stored r"
  shows "put_inv pc r' bs"
  using assms by (cases pc) auto

lemma put_step_inv:
  assumes inv: "sys_inv s"
  shows "sys_inv (put_step s)"
proof (cases "spc s")
  case (SSlice t)
  have "length (src s) > 0" using inv SSlice by (simp add: sys_inv_def)
  then show ?thesis
    using inv SSlice write_len [of "ring s" "length (src s)"]
    by (simp add: sys_inv_def put_step_def counters_ok_def split: rpc.splits)
next
  case (SCopy t n k)
  let ?r = "ring s"
  have wf: "wf_ring ?r" and se: "sent s = got s @ contents ?r @ src s"
    and pi: "t = tail ?r" "0 < n" "n \<le> length (src s)" "t + n \<le> capacity ?r" "num_bytes_stored ?r + n < capacity ?r"
      "k \<le> n" "\<And>j. j < k \<Longrightarrow> data ?r ! (t + j) = src s ! j"
    and gi: "get_inv (rpc s) ?r (dst_left s)" and co: "counters_ok s"
    using inv SCopy by (auto simp: sys_inv_def)
  show ?thesis
  proof (cases "k < n")
    case True
    let ?r' = "?r\<lparr>data := (data ?r)[t + k := src s ! k]\<rparr>"
    have c: "contents ?r' = contents ?r" using contents_write [OF wf, of k] pi True by simp
    have "get_inv (rpc s) ?r' (dst_left s)" by (rule get_inv_grow [OF gi]) (simp_all add: c)
    moreover have "data ?r' ! (t + j) = src s ! j" if "j < Suc k" for j
      using that pi True by (cases "j = k") (auto simp: capacity_length)
    ultimately show ?thesis
      using SCopy True wf se c pi co
      by (auto simp: sys_inv_def put_step_def counters_ok_def split: rpc.splits)
  next
    case False
    let ?r' = "?r\<lparr>tail := (t + n) mod capacity ?r\<rparr>"
    have k: "k = n" using False pi by simp
    have "map (\<lambda>j. data ?r ! (tail ?r + j)) [0..<n] = take n (src s)"
      using pi k by (intro nth_equalityI) auto
    then have ct: "wf_ring ?r'" "num_bytes_stored ?r' = num_bytes_stored ?r + n"
      "contents ?r' = contents ?r @ take n (src s)"
      using commit_tail [OF wf pi(5)] pi by simp_all
    have "get_inv (rpc s) ?r' (dst_left s)" by (rule get_inv_grow [OF gi]) (simp_all add: ct)
    then show ?thesis
      using SCopy False se ct co
      by (auto simp: sys_inv_def put_step_def counters_ok_def split: rpc.splits)
  qed
qed (use inv in \<open>auto simp: sys_inv_def put_step_def counters_ok_def is_full_def wf_ring_def split: rpc.splits\<close>)

lemma get_step_inv:
  assumes inv: "sys_inv s"
  shows "sys_inv (get_step s)"
proof (cases "rpc s")
  case (RSlice h)
  then show ?thesis
    using inv read_len [of "ring s" "dst_left s"]
    by (simp add: sys_inv_def get_step_def counters_ok_def)
next
  case (RCopy h n acc)
  let ?r = "ring s"
  have wf: "wf_ring ?r" and se: "sent s = got s @ contents ?r @ src s"
    and gi: "h = head ?r" "0 < n" "n \<le> dst_left s" "n \<le> num_bytes_stored ?r" "h + n \<le> capacity ?r"
      "length acc \<le> n" "acc = take (length acc) (contents ?r)"
    and pi: "put_inv (spc s) ?r (src s)" and co: "counters_ok s"
    using inv RCopy by (auto simp: sys_inv_def)
  show ?thesis
  proof (cases "length acc < n")
    case True
    then have "contents ?r ! length acc = data ?r ! (h + length acc)"
      using gi by (simp add: contents_def)
    moreover have "take (Suc (length acc)) (contents ?r) = acc @ [contents ?r ! length acc]"
      using True gi by (simp add: take_Suc_conv_app_nth flip: gi(7))
    ultimately show ?thesis
      using RCopy True wf se gi pi co by (simp add: sys_inv_def get_step_def counters_ok_def)
  next
    case False
    let ?r' = "?r\<lparr>head := (h + n) mod capacity ?r\<rparr>"
    have acc: "acc = take n (contents ?r)" using False gi by (metis le_antisym not_less)
    have ch: "wf_ring ?r'" "num_bytes_stored ?r' = num_bytes_stored ?r - n" "contents ?r' = drop n (contents ?r)"
      using commit_head [OF wf gi(4)] gi(1) by simp_all
    have "put_inv (spc s) ?r' (src s)" by (rule put_inv_shrink [OF pi]) (simp_all add: ch)
    then show ?thesis
      using RCopy False se ch co gi acc
      by (simp add: sys_inv_def get_step_def counters_ok_def)
  qed
qed (use inv in \<open>auto simp: sys_inv_def get_step_def counters_ok_def is_empty_iff wf_ring_def\<close>)

lemma do_move_inv: "sys_inv s \<Longrightarrow> sys_inv (do_move m s)"
proof (cases m)
  case (SetFlag v)
  assume inv: "sys_inv s"
  have "get_inv (rpc s) ((ring s)\<lparr>flag := v\<rparr>) (dst_left s)"
    by (rule get_inv_grow [of _ "ring s"]) (use inv in \<open>auto simp: sys_inv_def\<close>)
  moreover have "put_inv (spc s) ((ring s)\<lparr>flag := v\<rparr>) (src s)"
    by (rule put_inv_shrink [of _ "ring s"]) (use inv in \<open>auto simp: sys_inv_def\<close>)
  ultimately show ?thesis
    using SetFlag inv by (simp add: sys_inv_def counters_ok_def split: rpc.splits)
next
  case (Put bs)
  assume "sys_inv s"
  then show ?thesis using Put by (simp add: sys_inv_def counters_ok_def split: rpc.splits)
next
  case (Get n)
  assume "sys_inv s"
  then show ?thesis using Get by (simp add: sys_inv_def counters_ok_def)
qed (simp_all add: put_step_inv get_step_inv)

lemma run_inv: "sys_inv s \<Longrightarrow> sys_inv (run ms s)"
  by (induction ms arbitrary: s) (simp_all add: do_move_inv)

lemma start_inv: "LocalChannel_new sz fresh fl = Some r \<Longrightarrow> sys_inv (start r)"
  by (auto simp: LocalChannel_new_def start_def sys_inv_def wf_ring_def contents_def num_bytes_stored_def
      counters_ok_def capacity_length split: if_splits)

section \<open>Safety\<close>

text \<open>
  C3. The channel is a reliable FIFO queue: under every interleaving of the two sides, of new
  calls and of writes of the flag, the bytes delivered so far, followed by the bytes in the
  ring and the bytes the sender still holds, are exactly the bytes sent, in order. Nothing is
  lost, duplicated, reordered or torn.
\<close>

theorem ring_fifo:
  assumes "LocalChannel_new sz fresh fl = Some r" and "s = run ms (start r)"
  shows "got s @ contents (ring s) @ src s = sent s \<and> prefix (got s) (sent s)"
  using run_inv [OF start_inv [OF assms(1)], of ms] assms(2) by (auto simp: sys_inv_def prefix_def)

definition ring0 :: ring where
  "ring0 = \<lparr>data = replicate 4 0, head = 0, tail = 0, flag = 0\<rparr>"

lemma ring0_new: "LocalChannel_new 196 [] 0 = Some ring0"
  by (simp add: LocalChannel_new_def META_AREA_def ring0_def numeral_eq_Suc)


definition sched0 :: "move list" where
  "sched0 = [Put [7, 8], Get 1] @ replicate 6 Snd @ replicate 10 Rcv"

theorem ring_fifo_witness:
  "let s = run sched0 (start ring0) in got s = [7] \<and> sent s = [7, 8] \<and> prefix [7 :: u8] (sent s)"
proof -
  have "got (run sched0 (start ring0)) = [7]" "sent (run sched0 (start ring0)) = [7, 8]"
    by code_simp+
  then show ?thesis using ring_fifo [OF ring0_new refl, of sched0] by simp
qed

definition locks :: "move \<Rightarrow> bool" where
  "locks m \<longleftrightarrow> m = SetFlag SHM_FLAG_WRITE_DISABLED"

lemma flag_put_step [simp]: "flag (ring (put_step s)) = flag (ring s)"
  by (simp add: put_step_def split: spc.splits)

lemma flag_get_step [simp]: "flag (ring (get_step s)) = flag (ring s)"
  by (simp add: get_step_def split: rpc.splits)

lemma disabled_mask [simp]: "SHM_FLAG_WRITE_DISABLED AND NOT SHM_FLAG_IN_USE = SHM_FLAG_WRITE_DISABLED"
  by (simp add: SHM_FLAG_WRITE_DISABLED_def SHM_FLAG_IN_USE_def)

lemma rpc_put_step [simp]: "rpc (put_step s) = rpc s"
  by (simp add: put_step_def split: spc.splits)

lemma get_step_no_panic:
  assumes "sys_inv s" and "flag (ring s) \<noteq> SHM_FLAG_WRITE_DISABLED" and "rpc s \<noteq> RPanic" "rpc s \<noteq> RLocked"
  shows "rpc (get_step s) \<noteq> RPanic" "rpc (get_step s) \<noteq> RLocked"
  using assms by (auto simp: get_step_def sys_inv_def wf_ring_def split: rpc.splits)

lemma run_no_panic:
  "sys_inv s \<Longrightarrow> flag (ring s) \<noteq> SHM_FLAG_WRITE_DISABLED \<Longrightarrow> rpc s \<noteq> RPanic \<Longrightarrow> rpc s \<noteq> RLocked
   \<Longrightarrow> list_all (\<lambda>m. \<not> locks m) ms
   \<Longrightarrow> rpc (run ms s) \<noteq> RPanic \<and> rpc (run ms s) \<noteq> RLocked"
proof (induction ms arbitrary: s)
  case (Cons m ms)
  have "sys_inv (do_move m s)" using Cons.prems(1) by (rule do_move_inv)
  moreover have "flag (ring (do_move m s)) \<noteq> SHM_FLAG_WRITE_DISABLED"
    using Cons.prems(2,5) by (cases m) (auto simp: locks_def)
  moreover have "rpc (do_move m s) \<noteq> RPanic" "rpc (do_move m s) \<noteq> RLocked"
    using Cons.prems get_step_no_panic by (cases m; simp)+
  ultimately show ?case using Cons.IH Cons.prems(5) by simp
qed simp

text \<open>
  C22. The assertions of \<open>put_bytes\<close> and \<open>try_get_bytes\<close> never fail: the sender never panics, and
  as long as no process stores \<open>SHM_FLAG_WRITE_DISABLED\<close> in the flag word, the receiver neither
  panics nor reports a locked channel.
\<close>

theorem ring_no_panic:
  assumes "LocalChannel_new sz fresh fl = Some r" and "s = run ms (start r)"
  shows "spc s \<noteq> SPanic
    \<and> (fl \<noteq> SHM_FLAG_WRITE_DISABLED \<and> list_all (\<lambda>m. \<not> locks m) ms \<longrightarrow> rpc s \<noteq> RPanic \<and> rpc s \<noteq> RLocked)"
proof -
  have "sys_inv s" using run_inv [OF start_inv [OF assms(1)]] assms(2) by simp
  then have "spc s \<noteq> SPanic" by (auto simp: sys_inv_def)
  moreover have "flag (ring (start r)) = fl" "rpc (start r) = RIdle"
    using assms(1) by (auto simp: LocalChannel_new_def start_def split: if_splits)
  ultimately show ?thesis
    using run_no_panic [OF start_inv [OF assms(1)], of ms] assms(2) by auto
qed

theorem ring_no_panic_witness:
  "spc (run sched0 (start ring0)) \<noteq> SPanic \<and> rpc (run sched0 (start ring0)) \<noteq> RPanic"
proof -
  have "list_all (\<lambda>m. \<not> locks m) sched0" by (simp add: sched0_def locks_def numeral_eq_Suc)
  moreover have "(0 :: u64) \<noteq> SHM_FLAG_WRITE_DISABLED" by (simp add: SHM_FLAG_WRITE_DISABLED_def)
  ultimately show ?thesis using ring_no_panic [OF ring0_new refl] by blast
qed

text \<open>Between the call and the return of \<open>get_bytes\<close>.\<close>

definition is_Get :: "move \<Rightarrow> bool" where
  "is_Get m = (case m of Get _ \<Rightarrow> True | _ \<Rightarrow> False)"

definition receiving :: "nat \<Rightarrow> u8 list \<Rightarrow> sys \<Rightarrow> bool" where
  "receiving n g s \<longleftrightarrow> prefix g (got s) \<and> total s = n \<and> length (got s) + dst_left s = length g + n
     \<and> (rpc s = RIdle \<longrightarrow> dst_left s = 0)"

lemma receiving_put_step [simp]: "receiving n g (put_step s) = receiving n g s"
  by (simp add: receiving_def put_step_def split: spc.splits)

lemma receiving_get_step:
  assumes "sys_inv s" and "receiving n g s"
  shows "receiving n g (get_step s)"
proof (cases "rpc s")
  case (RCopy h k acc)
  then show ?thesis
    using assms by (auto simp: receiving_def get_step_def sys_inv_def prefix_def)
next
  case RWhile
  then show ?thesis
    using assms by (auto simp: receiving_def get_step_def sys_inv_def counters_ok_def)
qed (use assms in \<open>auto simp: receiving_def get_step_def\<close>)

lemma run_receiving:
  "sys_inv s \<Longrightarrow> receiving n g s \<Longrightarrow> list_all (\<lambda>m. \<not> is_Get m) ms \<Longrightarrow> receiving n g (run ms s)"
proof (induction ms arbitrary: s)
  case (Cons m ms)
  have "receiving n g (do_move m s)"
  proof (cases m)
    case (SetFlag v)
    then show ?thesis using Cons.prems by (simp add: receiving_def)
  next
    case (Put bs)
    then show ?thesis using Cons.prems by (simp add: receiving_def)
  qed (use Cons.prems receiving_get_step in \<open>auto simp: is_Get_def\<close>)
  then show ?case using Cons do_move_inv by simp
qed simp

text \<open>
  C23. A call \<open>get_bytes\<close> for \<open>n\<close> bytes, made in any reachable state and interleaved with
  anything the sender does, delivers exactly \<open>n\<close> bytes when it returns \<open>Ok\<close>, and they are the
  next \<open>n\<close> bytes of the stream.
\<close>

theorem get_bytes_exact:
  assumes "LocalChannel_new sz fresh fl = Some r" and "s = run ms (start r)" and "rpc s = RIdle"
    and "list_all (\<lambda>m. \<not> is_Get m) ns" and "s' = run (Get n # ns) s" and "rpc s' = RIdle"
  shows "\<exists>bs. got s' = got s @ bs \<and> length bs = n \<and> bs = take n (drop (length (got s)) (sent s'))"
proof -
  have inv: "sys_inv s" using run_inv [OF start_inv [OF assms(1)]] assms(2) by simp
  have "receiving n (got s) (do_move (Get n) s)" using assms(3) by (simp add: receiving_def)
  then have rec: "receiving n (got s) s'"
    using run_receiving [OF do_move_inv [OF inv]] assms(4,5) by (simp del: do_move.simps)
  then obtain bs where bs: "got s' = got s @ bs" by (auto simp: receiving_def prefix_def)
  then have len: "length bs = n" using rec assms(6) by (simp add: receiving_def)
  have "sys_inv s'" using run_inv [OF inv] assms(5) by metis
  then have "sent s' = got s' @ contents (ring s') @ src s'" by (simp add: sys_inv_def)
  then show ?thesis using bs len by simp
qed

theorem get_bytes_exact_witness:
  "length (got (run (Get 1 # replicate 10 Rcv) (run (Put [7, 8] # replicate 6 Snd) (start ring0)))) = 1"
proof -
  let ?s = "run (Put [7, 8] # replicate 6 Snd) (start ring0)"
  have "rpc ?s = RIdle" "got ?s = []" "rpc (run (Get 1 # replicate 10 Rcv) ?s) = RIdle"
    by code_simp+
  then show ?thesis
    using get_bytes_exact [OF ring0_new refl _ _ refl, of "Put [7, 8] # replicate 6 Snd" "replicate 10 Rcv" 1]
    by (auto simp add: is_Get_def list_all_iff simp del: run_simps)
qed

section \<open>Liveness\<close>

definition snds :: "sys \<Rightarrow> sys \<Rightarrow> bool" where
  "snds s s' \<longleftrightarrow> (\<exists>k. s' = run (replicate k Snd) s)"

definition rcvs :: "sys \<Rightarrow> sys \<Rightarrow> bool" where
  "rcvs s s' \<longleftrightarrow> (\<exists>k. s' = run (replicate k Rcv) s)"

lemma snds_refl: "snds s s" and rcvs_refl: "rcvs s s"
  unfolding snds_def rcvs_def by (rule exI [of _ 0], simp)+

lemma snds_step: "snds (put_step s) s' \<Longrightarrow> snds s s'"
  unfolding snds_def by (metis do_move.simps(1) replicate_Suc run_simps(2))

lemma rcvs_step: "rcvs (get_step s) s' \<Longrightarrow> rcvs s s'"
  unfolding rcvs_def by (metis do_move.simps(2) replicate_Suc run_simps(2))

lemma snds_ex: "\<exists>s'. snds (put_step s) s' \<and> P s' \<Longrightarrow> \<exists>s'. snds s s' \<and> P s'"
  using snds_step by blast

lemma rcvs_ex: "\<exists>s'. rcvs (get_step s) s' \<and> P s' \<Longrightarrow> \<exists>s'. rcvs s s' \<and> P s'"
  using rcvs_step by blast

text \<open>A sender that finds the ring not full commits at least one byte.\<close>

lemma copy_commits:
  assumes "spc s = SCopy t n k" and "sys_inv s"
  shows "\<exists>s'. snds s s' \<and> length (src s') < length (src s)"
  using assms
proof (induction "n - k" arbitrary: s k)
  case 0
  then have "0 < n" "n \<le> length (src s)" "k = n" by (auto simp: sys_inv_def)
  then have "length (src (put_step s)) < length (src s)" using 0(2) by (simp add: put_step_def)
  then show ?case using snds_step [OF snds_refl] by blast
next
  case (Suc d)
  then have k: "k < n" by simp
  then have st: "spc (put_step s) = SCopy t n (Suc k)" "src (put_step s) = src s"
    using Suc.prems(1) by (simp_all add: put_step_def)
  have "d = n - Suc k" using Suc.hyps(2) by simp
  from Suc.hyps(1) [OF this st(1) put_step_inv [OF Suc.prems(2)]] show ?case
    unfolding st(2) by (rule snds_ex)
qed

lemma put_commits:
  assumes "sys_inv s" and "src s \<noteq> []" and "\<not> is_full (ring s)"
  shows "\<exists>s'. snds s s' \<and> length (src s') < length (src s)"
proof -
  have slice: "\<exists>s'. snds u s' \<and> length (src s') < length (src s)"
    if "sys_inv u" "spc u = SSlice t" "src u = src s" for u t
  proof (rule snds_ex)
    have st: "spc (put_step u) = SCopy t (contiguous_write_len (ring u) t (length (src u))) 0"
      "src (put_step u) = src s"
      using that by (simp_all add: put_step_def)
    show "\<exists>s'. snds (put_step u) s' \<and> length (src s') < length (src s)"
      using copy_commits [OF st(1) put_step_inv [OF that(1)]] unfolding st(2) .
  qed
  have full: "\<exists>s'. snds u s' \<and> length (src s') < length (src s)"
    if "sys_inv u" "spc u = SFull t" "src u = src s" "\<not> is_full (ring u)" for u t
  proof (rule snds_ex)
    have "spc (put_step u) = SSlice t" "src (put_step u) = src s"
      using that by (simp_all add: put_step_def)
    then show "\<exists>s'. snds (put_step u) s' \<and> length (src s') < length (src s)"
      by (rule slice [OF put_step_inv [OF that(1)]])
  qed
  show ?thesis
  proof (cases "spc s")
    case SLoop
    then have "spc (put_step s) = SFull (tail (ring s))" "src (put_step s) = src s"
      "\<not> is_full (ring (put_step s))"
      using assms by (auto simp: put_step_def sys_inv_def wf_ring_def)
    then show ?thesis by (rule snds_ex [OF full [OF put_step_inv [OF assms(1)]]])
  next
    case (SCopy t n k)
    then show ?thesis by (rule copy_commits [OF _ assms(1)])
  next
    case (SFull t)
    then show ?thesis by (rule full [OF assms(1) _ refl assms(3)])
  next
    case (SSlice t)
    then show ?thesis by (rule slice [OF assms(1) _ refl])
  next
    case SPanic
    then show ?thesis using assms(1) by (simp add: sys_inv_def)
  qed
qed

text \<open>A receiver that waits for bytes and finds some delivers at least one.\<close>

definition active :: "sys \<Rightarrow> bool" where
  "active s \<longleftrightarrow> rpc s \<noteq> RIdle \<and> rpc s \<noteq> RLocked \<and> rpc s \<noteq> RPanic \<and> flag (ring s) \<noteq> SHM_FLAG_WRITE_DISABLED"

lemma copy_delivers:
  assumes "rpc s = RCopy h n acc" and "sys_inv s"
  shows "\<exists>s'. rcvs s s' \<and> rpc s' = RTry \<and> length (got s) < length (got s')"
  using assms
proof (induction "n - length acc" arbitrary: s acc)
  case 0
  then have "0 < n" "length acc = n" "h + n \<le> capacity (ring s)" by (auto simp: sys_inv_def)
  then have "rpc (get_step s) = RTry" "length (got s) < length (got (get_step s))"
    using 0(2) by (auto simp: get_step_def)
  then show ?case using rcvs_step [OF rcvs_refl] by blast
next
  case (Suc d)
  let ?acc = "acc @ [data (ring s) ! (h + length acc)]"
  have st: "rpc (get_step s) = RCopy h n ?acc" "got (get_step s) = got s"
    using Suc.prems(1) Suc.hyps(2) by (simp_all add: get_step_def)
  have "d = n - length ?acc" using Suc.hyps(2) by simp
  from Suc.hyps(1) [OF this st(1) get_step_inv [OF Suc.prems(2)]] show ?case
    unfolding st(2) by (rule rcvs_ex)
qed

lemma try_delivers:
  assumes "sys_inv s" and "rpc s = RTry \<or> rpc s = RHead \<or> (\<exists>h. rpc s = RSlice h)"
    and "0 < dst_left s" and "0 < num_bytes_stored (ring s)"
  shows "\<exists>s'. rcvs s s' \<and> rpc s' = RTry \<and> length (got s) < length (got s')"
proof -
  have slice: "\<exists>s'. rcvs u s' \<and> rpc s' = RTry \<and> length (got s) < length (got s')"
    if "sys_inv u" "rpc u = RSlice h" "got u = got s" for u h
  proof -
    have st: "rpc (get_step u) = RCopy h (contiguous_read_len (ring u) h (dst_left u)) []" "got (get_step u) = got s"
      using that by (simp_all add: get_step_def)
    from copy_delivers [OF st(1) get_step_inv [OF that(1)]] show ?thesis
      unfolding st(2) by (rule rcvs_ex)
  qed
  have rhead: "\<exists>s'. rcvs u s' \<and> rpc s' = RTry \<and> length (got s) < length (got s')"
    if "sys_inv u" "rpc u = RHead" "got u = got s" for u
  proof -
    have "rpc (get_step u) = RSlice (head (ring u))" "got (get_step u) = got s"
      using that by (auto simp: get_step_def sys_inv_def wf_ring_def)
    then show ?thesis by (rule rcvs_ex [OF slice [OF get_step_inv [OF that(1)]]])
  qed
  show ?thesis
    using assms(2)
  proof (elim disjE exE)
    assume "rpc s = RTry"
    then have "rpc (get_step s) = RHead" "got (get_step s) = got s"
      using assms by (auto simp: get_step_def is_empty_iff sys_inv_def)
    then show ?thesis by (rule rcvs_ex [OF rhead [OF get_step_inv [OF assms(1)]]])
  next
    assume "rpc s = RHead"
    then show ?thesis by (rule rhead [OF assms(1) _ refl])
  next
    fix h
    assume "rpc s = RSlice h"
    then show ?thesis by (rule slice [OF assms(1) _ refl])
  qed
qed

lemma get_delivers:
  assumes inv: "sys_inv s" and act: "active s" and "0 < dst_left s" and "0 < num_bytes_stored (ring s)"
  shows "\<exists>s'. rcvs s s' \<and> rpc s' = RTry \<and> length (got s) < length (got s')"
proof -
  have while: "\<exists>s'. rcvs u s' \<and> rpc s' = RTry \<and> length (got s) < length (got s')"
    if "sys_inv u" "rpc u = RWhile" "got u = got s" "dst_left u = dst_left s" "ring u = ring s" for u
  proof -
    have "total u \<noteq> cur_recv u" using that assms(3) by (auto simp: sys_inv_def counters_ok_def)
    then have st: "get_step u = u\<lparr>recv := 0, rpc := RTry\<rparr>" using that by (simp add: get_step_def)
    have "\<exists>s'. rcvs (get_step u) s' \<and> rpc s' = RTry \<and> length (got (get_step u)) < length (got s')"
      by (rule try_delivers [OF get_step_inv [OF that(1)]]) (use st that assms(3,4) in simp_all)
    then show ?thesis using st that(3) by (simp add: rcvs_ex)
  qed
  show ?thesis
  proof (cases "rpc s")
    case RRet
    then have "get_step s = s\<lparr>cur_recv := cur_recv s + recv s, rpc := RWhile\<rparr>"
      using act by (auto simp: get_step_def active_def)
    then show ?thesis by (intro rcvs_ex [OF while [OF get_step_inv [OF inv]]]) simp_all
  next
    case RWhile
    then show ?thesis by (rule while [OF inv _ refl refl refl])
  next
    case (RCopy h n acc)
    then show ?thesis by (rule copy_delivers [OF _ inv])
  qed (rule try_delivers [OF inv _ assms(3,4)], use act in \<open>simp_all add: active_def\<close>)+
qed

lemma put_step_keeps:
  "got (put_step s) = got s" "sent (put_step s) = sent s" "dst_left (put_step s) = dst_left s"
  "capacity (ring (put_step s)) = capacity (ring s)"
  by (simp_all add: put_step_def split: spc.splits)

lemma get_step_keeps:
  "src (get_step s) = src s" "sent (get_step s) = sent s"
  "capacity (ring (get_step s)) = capacity (ring s)"
  "sys_inv s \<Longrightarrow> length (got (get_step s)) + dst_left (get_step s) = length (got s) + dst_left s"
  by (auto simp: get_step_def sys_inv_def split: rpc.splits)

lemma snds_keeps:
  assumes "snds s s'" and "sys_inv s"
  shows "sys_inv s' \<and> got s' = got s \<and> sent s' = sent s \<and> dst_left s' = dst_left s \<and> rpc s' = rpc s
     \<and> flag (ring s') = flag (ring s) \<and> capacity (ring s') = capacity (ring s)"
proof -
  obtain k where "s' = run (replicate k Snd) s" using assms(1) by (auto simp: snds_def)
  then show ?thesis
    using assms(2)
    by (induction k arbitrary: s) (simp_all add: put_step_keeps put_step_inv)
qed

lemma rcvs_keeps:
  assumes "rcvs s s'" and "sys_inv s"
  shows "sys_inv s' \<and> src s' = src s \<and> sent s' = sent s
     \<and> length (got s') + dst_left s' = length (got s) + dst_left s
     \<and> flag (ring s') = flag (ring s) \<and> capacity (ring s') = capacity (ring s)"
proof -
  obtain k where "s' = run (replicate k Rcv) s" using assms(1) by (auto simp: rcvs_def)
  then show ?thesis
    using assms(2)
    by (induction k arbitrary: s) (simp_all add: get_step_keeps get_step_inv)
qed

lemma sys_inv_lengths:
  "sys_inv s \<Longrightarrow> length (sent s) = length (got s) + num_bytes_stored (ring s) + length (src s)"
  by (simp add: sys_inv_def)

definition both :: "sys \<Rightarrow> sys \<Rightarrow> bool" where
  "both s s' \<longleftrightarrow> (\<exists>ns. set ns \<subseteq> {Snd, Rcv} \<and> s' = run ns s)"

lemma both_refl: "both s s"
  unfolding both_def by (rule exI [of _ "[]"]) simp

lemma both_step: "snds s t \<or> rcvs s t \<Longrightarrow> both t u \<Longrightarrow> both s u"
proof -
  assume a: "snds s t \<or> rcvs s t" and b: "both t u"
  obtain ms where "set ms \<subseteq> {Snd, Rcv}" "t = run ms s"
    using a unfolding snds_def rcvs_def by (metis insertCI set_replicate_conv_if singletonD subsetI empty_iff)
  moreover obtain ns where "set ns \<subseteq> {Snd, Rcv}" "u = run ns t" using b by (auto simp: both_def)
  ultimately have "set (ms @ ns) \<subseteq> {Snd, Rcv}" "u = run (ms @ ns) s" by (auto simp: run_append)
  then show ?thesis unfolding both_def by blast
qed

text \<open>A receiver that has all the bytes it wants returns.\<close>

lemma get_returns:
  assumes inv: "sys_inv s" and act: "active s" and "dst_left s = 0"
  shows "\<exists>s'. rcvs s s' \<and> rpc s' = RIdle \<and> got s' = got s"
proof -
  have while: "\<exists>s'. rcvs u s' \<and> rpc s' = RIdle \<and> got s' = got s"
    if "rpc u = RWhile" "sys_inv u" "dst_left u = 0" "got u = got s" for u
  proof -
    have "get_step u = u\<lparr>rpc := RIdle\<rparr>" using that by (simp add: get_step_def sys_inv_def counters_ok_def)
    then show ?thesis using rcvs_ex [of u "\<lambda>s'. rpc s' = RIdle \<and> got s' = got s"] rcvs_refl that(4) by fastforce
  qed
  have ret: "\<exists>s'. rcvs u s' \<and> rpc s' = RIdle \<and> got s' = got s"
    if "rpc u = RRet" "sys_inv u" "dst_left u = 0" "got u = got s" "flag (ring u) \<noteq> SHM_FLAG_WRITE_DISABLED" for u
  proof -
    have "get_step u = u\<lparr>cur_recv := cur_recv u + recv u, rpc := RWhile\<rparr>" using that by (simp add: get_step_def)
    then show ?thesis by (intro rcvs_ex [OF while [OF _ get_step_inv [OF that(2)]]]) (use that in simp_all)
  qed
  have flag: "flag (ring s) \<noteq> SHM_FLAG_WRITE_DISABLED" using act by (simp add: active_def)
  show ?thesis
  proof (cases "rpc s")
    case RTry
    then have "get_step s = s\<lparr>rpc := RRet\<rparr>" using assms(3) by (simp add: get_step_def)
    then show ?thesis by (intro rcvs_ex [OF ret [OF _ get_step_inv [OF inv]]]) (use assms(3) flag in simp_all)
  next
    case RWhile
    then show ?thesis by (rule while [OF _ inv assms(3) refl])
  next
    case RRet
    then show ?thesis by (rule ret [OF _ inv assms(3) refl flag])
  qed (use inv act assms(3) in \<open>auto simp: sys_inv_def active_def\<close>)
qed

lemma received_prefix: "sys_inv s \<Longrightarrow> got s = take (length (got s)) (sent s)"
  by (simp add: sys_inv_def)

lemma delivers:
  assumes "sys_inv s" and "2 \<le> capacity (ring s)" and "active s"
  shows "\<exists>s'. both s s' \<and> got s' = take (length (got s) + dst_left s) (sent s) \<and>
    (length (got s) + dst_left s \<le> length (sent s) \<longrightarrow> rpc s' = RIdle)"
  using assms
proof (induction "2 * length (src s) + num_bytes_stored (ring s)" arbitrary: s rule: less_induct)
  case less
  note len = sys_inv_lengths [OF less.prems(1)]
  consider (full) "dst_left s = 0" | (stored) "0 < dst_left s" "0 < num_bytes_stored (ring s)"
    | (empty) "0 < dst_left s" "num_bytes_stored (ring s) = 0" "src s \<noteq> []"
    | (finished) "0 < dst_left s" "num_bytes_stored (ring s) = 0" "src s = []" by blast
  then show ?case
  proof cases
    case full
    from get_returns [OF less.prems(1,3) full] obtain t where t: "rcvs s t" "rpc t = RIdle" "got t = got s" by blast
    then show ?thesis using both_step [OF disjI2 [OF t(1)] both_refl] received_prefix [OF less.prems(1)] full by auto
  next
    case stored
    from get_delivers [OF less.prems(1,3) stored]
    obtain t where t: "rcvs s t" "rpc t = RTry" "length (got s) < length (got t)" by blast
    note k = rcvs_keeps [OF t(1) less.prems(1)]
    have "2 * length (src t) + num_bytes_stored (ring t) < 2 * length (src s) + num_bytes_stored (ring s)"
      using k len sys_inv_lengths [of t] t(3) by simp
    moreover have "active t" using k t(2) less.prems(3) by (simp add: active_def)
    ultimately show ?thesis
      using less.hyps [of t] k less.prems(2) both_step [OF disjI2 [OF t(1)]] by auto
  next
    case empty
    then have "\<not> is_full (ring s)" using less.prems(2) by (simp add: is_full_def)
    from put_commits [OF less.prems(1) empty(3) this]
    obtain t where t: "snds s t" "length (src t) < length (src s)" by blast
    note k = snds_keeps [OF t(1) less.prems(1)]
    have "2 * length (src t) + num_bytes_stored (ring t) < 2 * length (src s) + num_bytes_stored (ring s)"
      using k len sys_inv_lengths [of t] t(2) by simp
    moreover have "active t" using k less.prems(3) by (simp add: active_def)
    ultimately show ?thesis
      using less.hyps [of t] k less.prems(2) both_step [OF disjI1 [OF t(1)]] by auto
  next
    case finished
    then have "contents (ring s) = []" by (metis length_0_conv length_contents)
    then have "got s = sent s" using less.prems(1) finished by (simp add: sys_inv_def)
    then show ?thesis using both_refl finished(1) by auto
  qed
qed

text \<open>
  C24. No deadlock: from every reachable state of a channel of at least two bytes in which a
  \<open>get_bytes\<close> is in progress and the channel is not locked, the two sides by themselves can run
  until that call has delivered all that it was asked for, or all that was sent if that is less; and in
  the first case it has returned.
\<close>

theorem ring_no_deadlock:
  assumes "LocalChannel_new sz fresh fl = Some r" and "2 \<le> capacity r" and "s = run ms (start r)" and "active s"
  shows "\<exists>ns. set ns \<subseteq> {Snd, Rcv} \<and> got (run ns s) = take (length (got s) + dst_left s) (sent s) \<and>
    (length (got s) + dst_left s \<le> length (sent s) \<longrightarrow> rpc (run ns s) = RIdle)"
proof -
  have cap: "capacity (ring (do_move m t)) = capacity (ring t)" for m t
    by (cases m) (simp_all add: put_step_keeps get_step_keeps)
  have "capacity (ring (run ms t)) = capacity (ring t)" for t
    by (induction ms arbitrary: t) (simp_all add: cap)
  then have "capacity (ring s) = capacity r" using assms(3) by (simp add: start_def)
  moreover have "sys_inv s" using run_inv [OF start_inv [OF assms(1)]] assms(3) by simp
  ultimately show ?thesis using delivers [of s] assms(2,4) unfolding both_def by auto
qed

theorem ring_no_deadlock_witness:
  "\<exists>ns. set ns \<subseteq> {Snd, Rcv} \<and> got (run ns (run [Put [1, 2, 3, 4, 5, 6], Get 5] (start ring0))) = [1, 2, 3, 4, 5] \<and>
     rpc (run ns (run [Put [1, 2, 3, 4, 5, 6], Get 5] (start ring0))) = RIdle"
proof -
  let ?s = "run [Put [1, 2, 3, 4, 5, 6], Get 5] (start ring0)"
  have "active ?s" "sent ?s = [1, 2, 3, 4, 5, 6]" "got ?s = []" "dst_left ?s = 5"
    by (simp_all add: active_def start_def ring0_def SHM_FLAG_WRITE_DISABLED_def)
  moreover have "2 \<le> capacity ring0" by (simp add: capacity_length ring0_def)
  ultimately show ?thesis
    using ring_no_deadlock [OF ring0_new _ refl, of "[Put [1, 2, 3, 4, 5, 6], Get 5]"] by simp
qed

lemma one_byte_step:
  assumes "sys_inv s" and "capacity (ring s) = 1" and "got s = []" and "spc s = SLoop \<or> (\<exists>t. spc s = SFull t)"
  shows "got (do_move m s) = []" "spc (do_move m s) = SLoop \<or> (\<exists>t. spc (do_move m s) = SFull t)"
    "capacity (ring (do_move m s)) = 1"
proof -
  have st: "num_bytes_stored (ring s) = 0" using assms(1,2) stored_less [of "ring s"] by (simp add: sys_inv_def)
  have full: "is_full (ring s)" using assms(2) by (simp add: is_full_def)
  have "rpc s \<noteq> RCopy h n acc" for h n acc using assms(1) st by (auto simp: sys_inv_def)
  then have "got (get_step s) = []" using assms(3) by (auto simp: get_step_def split: rpc.splits)
  then show "got (do_move m s) = []" "capacity (ring (do_move m s)) = 1"
    using assms(2,3) by (cases m; simp add: put_step_keeps get_step_keeps)+
  show "spc (do_move m s) = SLoop \<or> (\<exists>t. spc (do_move m s) = SFull t)"
  proof (cases m)
    case Rcv
    have "spc (get_step s) = spc s" by (simp add: get_step_def split: rpc.splits)
    then show ?thesis using assms(4) Rcv by simp
  next
    case Snd
    then show ?thesis
      using assms full by (auto simp: put_step_def sys_inv_def wf_ring_def)
  qed (use assms(4) in auto)
qed

text \<open>
  C40. The smallest channel \<open>LocalChannel::new\<close> accepts, one byte of data area, never carries
  anything: it is full while it is empty, so \<open>put_bytes\<close> waits for ever and no byte is delivered
  under any schedule.
\<close>

theorem one_byte_channel_stuck:
  assumes "LocalChannel_new (META_AREA + 1) fresh fl = Some r" and "s = run ms (start r)"
  shows "got s = [] \<and> src s = sent s"
proof -
  have "sys_inv t \<Longrightarrow> capacity (ring t) = 1 \<Longrightarrow> got t = [] \<Longrightarrow> spc t = SLoop \<or> (\<exists>u. spc t = SFull u)
      \<Longrightarrow> got (run ms t) = [] \<and> capacity (ring (run ms t)) = 1" for t
  proof (induction ms arbitrary: t)
    case (Cons m ms)
    then show ?case using one_byte_step [OF Cons.prems] do_move_inv [OF Cons.prems(1)] by simp
  qed simp
  moreover have inv: "sys_inv (start r)" by (rule start_inv [OF assms(1)])
  moreover have "capacity (ring (start r)) = 1" "got (start r) = []" "spc (start r) = SLoop"
    using assms(1) by (auto simp: LocalChannel_new_def start_def capacity_length split: if_splits)
  ultimately have g: "got s = []" and c: "capacity (ring s) = 1" using assms(2) by auto
  have "sys_inv s" using run_inv [OF inv] assms(2) by simp
  moreover from this have "contents (ring s) = []"
    using c stored_less [of "ring s"] by (simp add: sys_inv_def flip: length_0_conv)
  ultimately show ?thesis using g by (simp add: sys_inv_def)
qed

theorem one_byte_channel_stuck_witness:
  "\<exists>r. LocalChannel_new (META_AREA + 1) [] 0 = Some r
     \<and> got (run (Put [9] # Get 1 # replicate 50 Snd @ replicate 50 Rcv) (start r)) = []"
proof -
  obtain r where r: "LocalChannel_new (META_AREA + 1) [] 0 = Some r"
    by (simp add: LocalChannel_new_def)
  show ?thesis using one_byte_channel_stuck [OF r refl] r by blast
qed

end
