(* ===== verification/Checkpoint_Flag.thy ===== *)
theory Checkpoint_Flag
  imports Ring_Buffer
begin

text \<open>
  How a checkpoint stops a client: the flag word of the request channel. The client takes the
  word before a call and gives it back afterwards (\<open>client/src/phos.rs\<close>,
  \<open>client/src/hijack/client.rs\<close>), the checkpointer sets and clears the write-disabled bit
  (\<open>server/src/phos/mod.rs\<close>), and the server thread recognises the quiescent channel in
  \<open>get_bytes\<close>. The protocol runs on top of the channel of \<open>Ring_Buffer\<close>.
\<close>

section \<open>The protocol\<close>

definition SHM_FLAG_IDLE :: u64 where
  "SHM_FLAG_IDLE = 0"

text \<open>
  The channel, whether a call holds the flag, whether its answer has come, whether it is one of
  the asynchronous functions, up to where its request reaches in the stream of all bytes sent,
  and whether the client thread has been dropped.
\<close>

record proto =
  chan :: sys
  in_call :: bool
  replied :: bool
  async_call :: bool
  request_end :: nat
  exited :: bool

definition flag_of :: "proto \<Rightarrow> u64" where
  "flag_of p = flag (ring (chan p))"

definition store_flag :: "u64 \<Rightarrow> proto \<Rightarrow> proto" where
  "store_flag v p = p\<lparr>chan := do_move (SetFlag v) (chan p)\<rparr>"

text \<open>One attempt of the compare-and-exchange loop of \<open>set_client_flag_blocking\<close>.\<close>

definition set_client_flag :: "proto \<Rightarrow> proto" where
  "set_client_flag p =
     (if flag_of p = SHM_FLAG_IDLE then (store_flag SHM_FLAG_IN_USE p)\<lparr>in_call := True\<rparr> else p)"

definition clear_client_flag :: "proto \<Rightarrow> proto" where
  "clear_client_flag p = (store_flag (flag_of p AND NOT SHM_FLAG_IN_USE) p)\<lparr>in_call := False\<rparr>"

definition disable_writes :: "proto \<Rightarrow> proto" where
  "disable_writes p = store_flag (flag_of p OR SHM_FLAG_WRITE_DISABLED) p"

definition clear_flag :: "proto \<Rightarrow> proto" where
  "clear_flag p = store_flag (flag_of p AND NOT SHM_FLAG_WRITE_DISABLED) p"

text \<open>The bytes of the number -1 that a client thread sends when it is dropped.\<close>

definition exit_message :: "u8 list" where
  "exit_message = [255, 255, 255, 255]"

text \<open>
  The moves of the parties. A client call takes the flag (\<open>before_call\<close>), puts its request, of
  the given length and in any number of pieces, and gives the flag back (\<open>after_call\<close>): at once after the last byte
  is in the channel if the function is one of the asynchronous ones, and after the server has
  answered otherwise. The server answers when it has read the request to its end, which it
  knows from the function. A client that exits waits for the call in progress, since the client thread
  is behind a lock, and then sends its last message without taking the flag.
\<close>

datatype pmove = Sender | Receiver | Before_call bool nat | Call_put "u8 list" | Receive_request nat | Reply
  | After_call | Drop_client | Request_checkpoint | Clear_flag

fun proto_move :: "pmove \<Rightarrow> proto \<Rightarrow> proto" where
  "proto_move Sender p = p\<lparr>chan := put_step (chan p)\<rparr>"
| "proto_move Receiver p = p\<lparr>chan := get_step (chan p)\<rparr>"
| "proto_move (Before_call is_async n) p =
     (if in_call p \<or> exited p then p
      else set_client_flag (p\<lparr>replied := False, async_call := is_async, request_end := length (sent (chan p)) + n\<rparr>))"
| "proto_move (Call_put bs) p =
     (if in_call p \<and> \<not> replied p \<and> length (sent (chan p)) + length bs \<le> request_end p
      then p\<lparr>chan := do_move (Put bs) (chan p)\<rparr> else p)"
| "proto_move (Receive_request n) p = p\<lparr>chan := do_move (Get n) (chan p)\<rparr>"
| "proto_move Reply p =
     (if in_call p \<and> \<not> async_call p \<and> rpc (chan p) = RIdle \<and> length (got (chan p)) = request_end p
      then p\<lparr>replied := True\<rparr> else p)"
| "proto_move After_call p =
     (if in_call p \<and> spc (chan p) = SLoop \<and> src (chan p) = [] \<and> length (sent (chan p)) = request_end p
         \<and> (async_call p \<or> replied p)
      then clear_client_flag p else p)"
| "proto_move Drop_client p =
     (if in_call p \<or> exited p then p else p\<lparr>chan := do_move (Put exit_message) (chan p), exited := True\<rparr>)"
| "proto_move Request_checkpoint p = disable_writes p"
| "proto_move Clear_flag p = clear_flag p"

definition proto_run :: "pmove list \<Rightarrow> proto \<Rightarrow> proto" where
  "proto_run ms p = foldl (\<lambda>p m. proto_move m p) p ms"

definition proto_start :: "ring \<Rightarrow> proto" where
  "proto_start r = \<lparr>chan = start r, in_call = False, replied = False, async_call = False, request_end = 0, exited = False\<rparr>"

text \<open>The runs in which every call waits for its answer.\<close>

fun waits :: "pmove \<Rightarrow> bool" where
  "waits (Before_call is_async n) = (\<not> is_async)"
| "waits m = True"

lemma proto_run_simps [simp]: "proto_run [] p = p" "proto_run (m # ms) p = proto_run ms (proto_move m p)"
  by (simp_all add: proto_run_def)

section \<open>The invariant\<close>

definition fresh_get :: "sys \<Rightarrow> bool" where
  "fresh_get s \<longleftrightarrow> rpc s = RIdle \<or> rpc s = RLocked \<or> cur_recv s = 0 \<and> recv s = 0"

definition quiet_chan :: "proto \<Rightarrow> bool" where
  "quiet_chan p \<longleftrightarrow> got (chan p) = sent (chan p) \<and> fresh_get (chan p)"

text \<open>All that may be on its way after the client has exited is its last message.\<close>

definition only_exit_left :: "sys \<Rightarrow> bool" where
  "only_exit_left s \<longleftrightarrow> (\<exists>calls. sent s = calls @ exit_message \<and> length calls \<le> length (got s))"

definition proto_inv :: "proto \<Rightarrow> bool" where
  "proto_inv p \<longleftrightarrow> sys_inv (chan p) \<and> (in_call p \<longleftrightarrow> bit (flag_of p) 0)
     \<and> (in_call p \<longrightarrow> \<not> exited p \<and> \<not> async_call p \<and> length (sent (chan p)) \<le> request_end p)
     \<and> (if exited p then only_exit_left (chan p)
        else (\<not> in_call p \<or> replied p \<longrightarrow> quiet_chan p) \<and> rpc (chan p) \<noteq> RPanic)"

lemma sys_inv_drained:
  assumes "sys_inv s" and "got s = sent s"
  shows "src s = []" "num_bytes_stored (ring s) = 0" "spc s = SLoop"
proof -
  have "sent s = got s @ (contents (ring s) @ src s)" using assms(1) by (simp add: sys_inv_def)
  then have "length (sent s) = length (got s) + length (contents (ring s) @ src s)" by (metis length_append)
  then have "length (contents (ring s) @ src s) = 0" using assms(2) by simp
  then show e: "src s = []" "num_bytes_stored (ring s) = 0" by simp_all
  have "put_inv (spc s) (ring s) []" using assms(1) e by (simp add: sys_inv_def)
  then show "spc s = SLoop" by (cases "spc s") simp_all
qed

lemma sys_inv_received:
  assumes "sys_inv s"
  shows "\<exists>rest. sent s = got s @ rest" "length (sent s) \<le> length (got s) \<Longrightarrow> got s = sent s"
proof -
  have s: "sent s = got s @ (contents (ring s) @ src s)" using assms by (simp add: sys_inv_def)
  then show "\<exists>rest. sent s = got s @ rest" by blast
  show "got s = sent s" if "length (sent s) \<le> length (got s)" using s that by (metis append_eq_conv_conj take_all)
qed

lemma put_step_drained:
  assumes "sys_inv s" and "got s = sent s"
  shows "put_step s = s"
  using sys_inv_drained [OF assms] by (simp add: put_step_def)

lemma get_step_drained:
  assumes inv: "sys_inv s" and "got s = sent s" and "fresh_get s"
  shows "got (get_step s) = sent (get_step s)" "fresh_get (get_step s)"
proof -
  have e: "num_bytes_stored (ring s) = 0" using sys_inv_drained [OF inv assms(2)] by simp
  have g: "get_inv (rpc s) (ring s) (dst_left s)" and w: "wf_ring (ring s)"
    using inv by (simp_all add: sys_inv_def)
  show "got (get_step s) = sent (get_step s)"
    using assms(2) e g by (cases "rpc s") (simp_all add: get_step_def)
  show "fresh_get (get_step s)"
    using assms(3) e g w by (cases "rpc s") (simp_all add: get_step_def fresh_get_def is_empty_iff)
qed

lemma get_step_panics:
  assumes "sys_inv s" and "rpc s \<noteq> RPanic" and "rpc (get_step s) = RPanic"
  shows "rpc s = RRet" "flag (ring s) = SHM_FLAG_WRITE_DISABLED" "cur_recv s \<noteq> 0"
  using assms by (auto simp: get_step_def sys_inv_def wf_ring_def split: rpc.splits if_splits)

lemma get_step_locks:
  assumes "rpc s \<noteq> RLocked" and "rpc (get_step s) = RLocked"
  shows "flag (ring s) = SHM_FLAG_WRITE_DISABLED"
  using assms by (auto simp: get_step_def split: rpc.splits if_splits)

lemma got_grows: "length (got s) \<le> length (got (get_step s))"
  by (simp add: get_step_def split: rpc.splits)

lemma flag_bits [simp]:
  "bit SHM_FLAG_IN_USE 0" "\<not> bit SHM_FLAG_WRITE_DISABLED 0" "\<not> bit SHM_FLAG_IDLE 0"
  "bit SHM_FLAG_WRITE_DISABLED (Suc 0)" "\<not> bit SHM_FLAG_IN_USE (Suc 0)" "\<not> bit SHM_FLAG_IDLE (Suc 0)"
  by (simp_all add: SHM_FLAG_IN_USE_def SHM_FLAG_WRITE_DISABLED_def SHM_FLAG_IDLE_def bit_0 bit_Suc)

lemma sys_inv_flag [simp]: "sys_inv (s\<lparr>ring := (ring s)\<lparr>flag := v\<rparr>\<rparr>) = sys_inv s"
  using do_move_inv [of s "SetFlag v"] do_move_inv [of "s\<lparr>ring := (ring s)\<lparr>flag := v\<rparr>\<rparr>" "SetFlag (flag (ring s))"]
  by auto

lemma store_flag_inv:
  assumes "proto_inv p" and "bit v 0 = bit (flag_of p) 0"
  shows "proto_inv (store_flag v p)"
  using assms by (auto simp: proto_inv_def store_flag_def flag_of_def quiet_chan_def fresh_get_def only_exit_left_def)

lemma receiver_inv:
  assumes inv: "proto_inv p"
  shows "proto_inv (p\<lparr>chan := get_step (chan p)\<rparr>)"
proof (cases "exited p")
  case True
  then have "\<not> in_call p" "sys_inv (chan p)" "only_exit_left (chan p)" "\<not> bit (flag_of p) 0"
    using inv by (auto simp: proto_inv_def)
  moreover from this have "only_exit_left (get_step (chan p))"
    using got_grows [of "chan p"] by (fastforce simp: only_exit_left_def get_step_keeps intro: order_trans)
  ultimately show ?thesis using True get_step_inv by (simp add: proto_inv_def flag_of_def)
next
  case False
  have s: "sys_inv (chan p)" using inv by (simp add: proto_inv_def)
  have "rpc (get_step (chan p)) \<noteq> RPanic"
  proof
    assume "rpc (get_step (chan p)) = RPanic"
    then have l: "rpc (chan p) = RRet" "flag_of p = SHM_FLAG_WRITE_DISABLED" "cur_recv (chan p) \<noteq> 0"
      using get_step_panics [OF s] inv False by (auto simp: proto_inv_def flag_of_def)
    then show False using inv False by (auto simp: proto_inv_def quiet_chan_def fresh_get_def)
  qed
  then show ?thesis
    using inv False get_step_inv [OF s] get_step_drained [OF s]
    by (auto simp: proto_inv_def flag_of_def quiet_chan_def get_step_keeps)
qed

lemma sender_inv:
  assumes inv: "proto_inv p"
  shows "proto_inv (p\<lparr>chan := put_step (chan p)\<rparr>)"
proof -
  have s: "sys_inv (chan p)" using inv by (simp add: proto_inv_def)
  then show ?thesis
    using inv put_step_inv [OF s] put_step_drained [OF s]
    by (auto simp: proto_inv_def flag_of_def quiet_chan_def only_exit_left_def put_step_keeps)
qed

lemma drop_inv:
  assumes inv: "proto_inv p" and "\<not> in_call p" "\<not> exited p"
  shows "proto_inv (p\<lparr>chan := do_move (Put exit_message) (chan p), exited := True\<rparr>)"
proof -
  have q: "sys_inv (chan p)" "got (chan p) = sent (chan p)" using assms by (simp_all add: proto_inv_def quiet_chan_def)
  have "sys_inv (do_move (Put exit_message) (chan p))" using q(1) by (rule do_move_inv)
  then show ?thesis
    using inv assms(2,3) sys_inv_drained [OF q] q(2)
    by (auto simp: proto_inv_def flag_of_def only_exit_left_def)
qed

lemma reply_inv:
  assumes inv: "proto_inv p" and "in_call p" "rpc (chan p) = RIdle" "length (got (chan p)) = request_end p"
  shows "proto_inv (p\<lparr>replied := True\<rparr>)"
proof -
  have "got (chan p) = sent (chan p)" using assms by (intro sys_inv_received(2)) (simp_all add: proto_inv_def)
  then show ?thesis using assms by (auto simp: proto_inv_def flag_of_def quiet_chan_def fresh_get_def)
qed

lemma proto_move_inv:
  assumes inv: "proto_inv p" and "waits m"
  shows "proto_inv (proto_move m p)"
proof (cases m)
  case (Before_call is_async n)
  then show ?thesis
    using assms by (auto simp: proto_inv_def set_client_flag_def store_flag_def flag_of_def quiet_chan_def)
next
  case (Call_put bs)
  have "sys_inv (do_move (Put bs) (chan p))" using inv by (intro do_move_inv) (simp add: proto_inv_def)
  then show ?thesis using Call_put inv by (auto simp: proto_inv_def flag_of_def)
next
  case (Receive_request n)
  have "sys_inv (do_move (Get n) (chan p))" using inv by (intro do_move_inv) (simp add: proto_inv_def)
  then show ?thesis
    using Receive_request inv by (auto simp: proto_inv_def flag_of_def quiet_chan_def fresh_get_def only_exit_left_def)
next
  case After_call
  then show ?thesis
    using inv
    by (auto simp: proto_inv_def clear_client_flag_def store_flag_def flag_of_def quiet_chan_def
        fresh_get_def bit_and_iff bit_not_iff)
next
  case Request_checkpoint
  then show ?thesis using store_flag_inv [OF inv] by (simp add: disable_writes_def bit_or_iff)
next
  case Clear_flag
  then show ?thesis using store_flag_inv [OF inv] by (simp add: clear_flag_def bit_and_iff bit_not_iff)
next
  case Drop_client
  then show ?thesis using inv drop_inv [OF inv] by (simp del: do_move.simps)
qed (use inv in \<open>simp_all add: sender_inv receiver_inv reply_inv\<close>)

lemma proto_run_inv: "proto_inv p \<Longrightarrow> list_all waits ms \<Longrightarrow> proto_inv (proto_run ms p)"
  by (induction ms arbitrary: p) (simp_all add: proto_move_inv)

lemma proto_start_inv:
  "LocalChannel_new sz fresh 0 = Some r \<Longrightarrow> proto_inv (proto_start r)"
  using start_inv [of sz fresh 0 r]
  by (auto simp: proto_inv_def proto_start_def flag_of_def quiet_chan_def fresh_get_def start_def
      LocalChannel_new_def split: if_splits)

section \<open>A request for a checkpoint\<close>

text \<open>
  What holds in every run, synchronous or not: the words that the flag can hold, and that the client
  has nothing to send between its calls.
\<close>

definition link_inv :: "proto \<Rightarrow> bool" where
  "link_inv p \<longleftrightarrow> sys_inv (chan p) \<and> flag_of p \<in> {0, 1, 2, 3} \<and> (in_call p \<longleftrightarrow> bit (flag_of p) 0) \<and>
     (\<not> in_call p \<and> \<not> exited p \<longrightarrow> spc (chan p) = SLoop \<and> src (chan p) = []) \<and> (exited p \<longrightarrow> \<not> in_call p)"

lemma flag_words:
  "SHM_FLAG_IDLE = 0" "SHM_FLAG_IN_USE = 1" "SHM_FLAG_WRITE_DISABLED = 2"
  by (simp_all add: SHM_FLAG_IDLE_def SHM_FLAG_IN_USE_def SHM_FLAG_WRITE_DISABLED_def)

lemma flag_steps [simp]:
  "flag (ring (put_step s)) = flag (ring s)" "flag (ring (get_step s)) = flag (ring s)"
  by (simp_all add: put_step_def get_step_def split: spc.splits rpc.splits)

lemma spc_get_step [simp]: "spc (get_step s) = spc s"
  by (simp add: get_step_def split: rpc.splits)

lemma put_step_idle: "spc s = SLoop \<Longrightarrow> src s = [] \<Longrightarrow> put_step s = s"
  by (simp add: put_step_def)

lemma flag_small:
  assumes "v \<in> {0, 1, 2, 3 :: u64}"
  shows "v OR 2 \<in> {0, 1, 2, 3}" "bit (v OR 2) 0 = bit v 0" "v AND NOT 2 \<in> {0, 1, 2, 3}" "bit (v AND NOT 2) 0 = bit v 0"
    "v AND NOT 1 \<in> {0, 1, 2, 3}" "\<not> bit (v AND NOT 1) 0" "bit (v AND NOT 1) 1 = bit v 1"
    "bit v 1 \<Longrightarrow> \<not> bit v 0 \<Longrightarrow> v = 2"
  using assms by (auto simp: bit_0 bit_1_iff bit_or_iff bit_and_iff bit_not_iff)

lemma link_store:
  assumes "link_inv p" and "v \<in> {0, 1, 2, 3}" and "bit v 0 = bit (flag_of p) 0"
  shows "link_inv (store_flag v p)"
  using assms unfolding link_inv_def store_flag_def flag_of_def by simp blast

lemma link_cleared:
  assumes "link_inv p" and "spc (chan p) = SLoop" and "src (chan p) = []"
  shows "link_inv (clear_client_flag p)"
proof -
  have f: "flag_of p \<in> {0, 1, 2, 3}" and s: "sys_inv (chan p)" using assms(1) by (simp_all add: link_inv_def)
  have "flag_of (clear_client_flag p) = flag_of p AND NOT 1"
    by (simp add: clear_client_flag_def store_flag_def flag_of_def flag_words)
  moreover have "sys_inv (chan (clear_client_flag p))" "spc (chan (clear_client_flag p)) = SLoop"
    "src (chan (clear_client_flag p)) = []" "\<not> in_call (clear_client_flag p)"
    using assms(2,3) s by (simp_all add: clear_client_flag_def store_flag_def)
  ultimately show ?thesis unfolding link_inv_def using flag_small(5,6) [OF f] by simp
qed

lemma link_taken:
  assumes "link_inv p" and "\<not> exited p"
  shows "link_inv (set_client_flag (p\<lparr>replied := x, async_call := y, request_end := k\<rparr>))"
  using assms by (simp add: link_inv_def set_client_flag_def store_flag_def flag_of_def flag_words) blast

lemma link_chan:
  assumes "link_inv p" and "sys_inv s" and "flag (ring s) = flag_of p"
    and "\<not> in_call p \<Longrightarrow> \<not> exited p \<Longrightarrow> spc s = SLoop \<and> src s = []"
  shows "link_inv (p\<lparr>chan := s\<rparr>)"
  using assms unfolding link_inv_def flag_of_def by simp blast

lemma link_move:
  assumes inv: "link_inv p"
  shows "link_inv (proto_move m p)"
proof -
  have s: "sys_inv (chan p)" and f: "flag_of p \<in> {0, 1, 2, 3}" using inv by (simp_all add: link_inv_def)
  have idle: "spc (chan p) = SLoop \<and> src (chan p) = []" if "\<not> in_call p" "\<not> exited p"
    using inv that by (simp add: link_inv_def)
  note fs = flag_small [OF f]
  have d: "sys_inv (do_move k (chan p))" for k using s by (rule do_move_inv)
  show ?thesis
  proof (cases m)
    case (Before_call is_async n)
    then show ?thesis using inv link_taken by simp
  next
    case (Call_put bs)
    have "link_inv (p\<lparr>chan := do_move (Put bs) (chan p)\<rparr>)" if "in_call p"
      by (rule link_chan [OF inv d]) (use that in \<open>simp_all add: flag_of_def\<close>)
    then show ?thesis using Call_put inv by (simp del: do_move.simps)
  next
    case (Receive_request n)
    have "link_inv (p\<lparr>chan := do_move (Get n) (chan p)\<rparr>)"
      by (rule link_chan [OF inv d]) (use idle in \<open>simp_all add: flag_of_def\<close>)
    then show ?thesis using Receive_request by (simp del: do_move.simps)
  next
    case After_call
    then show ?thesis using inv link_cleared by simp
  next
    case Drop_client
    have "link_inv (p\<lparr>chan := do_move (Put exit_message) (chan p), exited := True\<rparr>)" if "\<not> in_call p"
      using inv that d [of "Put exit_message"] by (simp add: link_inv_def flag_of_def)
    then show ?thesis using Drop_client inv by (simp del: do_move.simps)
  next
    case Request_checkpoint
    then show ?thesis using link_store [OF inv fs(1,2)] by (simp only: proto_move.simps disable_writes_def flag_words)
  next
    case Clear_flag
    then show ?thesis using link_store [OF inv fs(3,4)] by (simp only: proto_move.simps clear_flag_def flag_words)
  next
    case Sender
    have "link_inv (p\<lparr>chan := put_step (chan p)\<rparr>)"
      by (rule link_chan [OF inv put_step_inv [OF s]]) (use idle in \<open>simp_all add: flag_of_def put_step_idle\<close>)
    then show ?thesis using Sender by simp
  next
    case Receiver
    have "link_inv (p\<lparr>chan := get_step (chan p)\<rparr>)"
      by (rule link_chan [OF inv get_step_inv [OF s]]) (use idle in \<open>simp_all add: flag_of_def get_step_keeps\<close>)
    then show ?thesis using Receiver by simp
  next
    case Reply
    have "link_inv (p\<lparr>replied := True\<rparr>)" using inv unfolding link_inv_def flag_of_def by simp blast
    then show ?thesis using Reply inv by simp
  qed
qed

lemma link_run: "link_inv p \<Longrightarrow> link_inv (proto_run ms p)"
  by (induction ms arbitrary: p) (simp_all add: link_move)

lemma link_start: "LocalChannel_new sz fresh 0 = Some r \<Longrightarrow> link_inv (proto_start r)"
  using start_inv [of sz fresh 0 r]
  by (auto simp: link_inv_def proto_start_def flag_of_def start_def LocalChannel_new_def split: if_splits)

text \<open>As long as the request is not withdrawn no call begins, and a call in progress can only end.\<close>

lemma requested_move:
  assumes inv: "link_inv p" and req: "bit (flag_of p) 1" and "m \<noteq> Clear_flag"
  shows "bit (flag_of (proto_move m p)) 1" "in_call (proto_move m p) \<Longrightarrow> in_call p"
    "\<not> in_call p \<Longrightarrow> sent (chan (proto_move m p)) =
       sent (chan p) @ (if exited (proto_move m p) \<and> \<not> exited p then exit_message else [])"
    "exited p \<Longrightarrow> exited (proto_move m p)"
proof -
  have f: "flag_of p \<in> {0, 1, 2, 3}" using inv by (simp add: link_inv_def)
  have busy: "flag_of p \<noteq> SHM_FLAG_IDLE" using req by (auto simp: flag_words)
  show "bit (flag_of (proto_move m p)) 1"
    using assms flag_small(7) [OF f] busy
    by (cases m) (auto simp: set_client_flag_def clear_client_flag_def disable_writes_def store_flag_def flag_of_def flag_words bit_or_iff)
  show "in_call (proto_move m p) \<Longrightarrow> in_call p"
    using assms busy
    by (cases m) (auto simp: set_client_flag_def clear_client_flag_def disable_writes_def store_flag_def flag_of_def flag_words split: if_splits)
  show "sent (chan (proto_move m p)) =
       sent (chan p) @ (if exited (proto_move m p) \<and> \<not> exited p then exit_message else [])" if "\<not> in_call p"
    using that assms busy
    by (cases m) (auto simp: link_inv_def set_client_flag_def disable_writes_def store_flag_def flag_of_def flag_words put_step_keeps get_step_keeps)
  show "exited p \<Longrightarrow> exited (proto_move m p)"
    using assms(3) by (cases m) (auto simp: set_client_flag_def clear_client_flag_def disable_writes_def store_flag_def)
qed

lemma requested_run:
  assumes "link_inv p" and "bit (flag_of p) 1" and "Clear_flag \<notin> set ms"
  shows "bit (flag_of (proto_run ms p)) 1 \<and> (in_call (proto_run ms p) \<longrightarrow> in_call p) \<and> (exited p \<longrightarrow> exited (proto_run ms p)) \<and>
    (\<not> in_call p \<longrightarrow> sent (chan (proto_run ms p)) =
       sent (chan p) @ (if exited (proto_run ms p) \<and> \<not> exited p then exit_message else []))"
  using assms
proof (induction ms arbitrary: p)
  case (Cons m ms)
  note st = requested_move [OF Cons.prems(1,2), of m] and IH = Cons.IH [OF link_move [OF Cons.prems(1)], of m]
  have m: "m \<noteq> Clear_flag" using Cons.prems(3) by auto
  then show ?case using st [OF m] IH Cons.prems(3) by auto
qed simp

text \<open>A server thread that asks for the next request sees the lock in three steps.\<close>

lemma quiet_lock:
  assumes "sys_inv s" and "got s = sent s" and "rpc s = RIdle \<or> rpc s = RLocked" and "flag (ring s) = SHM_FLAG_WRITE_DISABLED" and "0 < n"
  shows "rpc (run [Get n, Rcv, Rcv, Rcv] s) = RLocked"
proof -
  have "is_empty (ring s)" using assms(1) sys_inv_drained(2) [OF assms(1,2)] by (simp add: is_empty_iff sys_inv_def)
  then show ?thesis using assms(3-) by (auto simp: get_step_def flag_words)
qed

section \<open>Properties\<close>

text \<open>
  C8. Checkpoints of a client that waits for every answer are taken at quiescent points: under
  every interleaving of calls, server, checkpointer and the exit of the client, when the server thread
  reports a locked channel, no call is in progress and every byte of every call has been received; the
  only bytes that may not have been are those of the last message of a client that has exited, which is
  sent without the flag. The assertion of \<open>get_bytes\<close> never fails before the client has exited.
\<close>

theorem sync_checkpoint_quiescent:
  assumes "LocalChannel_new sz fresh 0 = Some r" and "list_all waits ms" and "p = proto_run ms (proto_start r)"
  shows "(rpc (chan p) = RPanic \<longrightarrow> exited p)
    \<and> (rpc (chan p) \<noteq> RLocked \<and> rpc (get_step (chan p)) = RLocked
        \<longrightarrow> \<not> in_call p \<and> (\<exists>rest. sent (chan p) = got (chan p) @ rest
              \<and> suffix rest (if exited p then exit_message else [])))"
proof (intro conjI impI)
  have inv: "proto_inv p" using proto_run_inv [OF proto_start_inv [OF assms(1)]] assms(2,3) by simp
  then show "exited p" if "rpc (chan p) = RPanic" using that by (auto simp: proto_inv_def split: if_splits)
  assume "rpc (chan p) \<noteq> RLocked \<and> rpc (get_step (chan p)) = RLocked"
  then show call: "\<not> in_call p" using get_step_locks [of "chan p"] inv by (simp add: proto_inv_def flag_of_def)
  obtain rest where rest: "sent (chan p) = got (chan p) @ rest"
    using sys_inv_received(1) [of "chan p"] inv by (auto simp: proto_inv_def)
  have "suffix rest (if exited p then exit_message else [])"
  proof (cases "exited p")
    case True
    then obtain calls where c: "got (chan p) @ rest = calls @ exit_message" "length calls \<le> length (got (chan p))"
      using inv rest by (auto simp: proto_inv_def only_exit_left_def)
    then have "rest = drop (length (got (chan p)) - length calls) exit_message"
      by (metis append_eq_conv_conj drop_all drop_append self_append_conv2)
    then show ?thesis using True by (simp add: suffix_drop)
  next
    case False
    then show ?thesis using inv rest call by (auto simp: proto_inv_def quiet_chan_def)
  qed
  then show "\<exists>rest. sent (chan p) = got (chan p) @ rest \<and> suffix rest (if exited p then exit_message else [])"
    using rest by blast
qed

definition sync0 :: "pmove list" where
  "sync0 = [Before_call False 1, Call_put [7]] @ replicate 6 Sender @ [Receive_request 1] @ replicate 11 Receiver
     @ [Reply, After_call, Request_checkpoint, Receive_request 1] @ replicate 2 Receiver"

theorem sync_checkpoint_quiescent_witness:
  "let p = proto_run sync0 (proto_start ring0)
   in rpc (get_step (chan p)) = RLocked \<and> \<not> in_call p \<and> got (chan p) = sent (chan p)"
proof -
  have "rpc (get_step (chan (proto_run sync0 (proto_start ring0)))) = RLocked"
    "rpc (chan (proto_run sync0 (proto_start ring0))) \<noteq> RLocked" "\<not> exited (proto_run sync0 (proto_start ring0))"
    "list_all waits sync0" by code_simp+
  then show ?thesis using sync_checkpoint_quiescent [OF ring0_new _ refl, of sync0] by auto
qed

text \<open>
  C9. A request for a checkpoint is kept until it is withdrawn, whatever the parties do and whether their
  calls are synchronous or not: the write-disabled bit stays set; the client finishes the call it is in
  and begins no other; between calls it sends nothing but its last message; and once the server thread
  has read all that was sent and asks for the next request, it reports the locked channel in three steps.
\<close>

theorem checkpoint_request_kept:
  assumes "LocalChannel_new sz fresh 0 = Some r" and "p = proto_run ms (proto_start r)" and "bit (flag_of p) 1"
    and "Clear_flag \<notin> set ns" and "q = proto_run ns p"
  shows "bit (flag_of q) 1 \<and> (in_call q \<longrightarrow> in_call p)
    \<and> (\<not> in_call p \<longrightarrow> sent (chan q) = sent (chan p) @ (if exited q \<and> \<not> exited p then exit_message else []))
    \<and> (\<not> in_call q \<and> got (chan q) = sent (chan q) \<and> (rpc (chan q) = RIdle \<or> rpc (chan q) = RLocked) \<and> 0 < n
        \<longrightarrow> rpc (chan (proto_run [Receive_request n, Receiver, Receiver, Receiver] q)) = RLocked)"
proof -
  have p: "link_inv p" using link_run [OF link_start [OF assms(1)]] assms(2) by simp
  then have q: "link_inv q" using link_run assms(5) by simp
  note keep = requested_run [OF p assms(3,4), folded assms(5)]
  have "flag (ring (chan q)) = SHM_FLAG_WRITE_DISABLED" if "\<not> in_call q"
    using flag_small(8) [of "flag_of q"] q keep that by (auto simp: link_inv_def flag_of_def flag_words)
  then have "rpc (run [Get n, Rcv, Rcv, Rcv] (chan q)) = RLocked"
    if "\<not> in_call q" "got (chan q) = sent (chan q)" "rpc (chan q) = RIdle \<or> rpc (chan q) = RLocked" "0 < n"
    using quiet_lock [of "chan q" n] q that by (simp add: link_inv_def)
  then show ?thesis using keep by simp
qed

theorem checkpoint_request_kept_witness:
  "let p = proto_run [Request_checkpoint] (proto_start ring0); q = proto_run [Before_call False 4, Sender, Before_call True 1] p
   in \<not> in_call q \<and> rpc (chan (proto_run [Receive_request 4, Receiver, Receiver, Receiver] q)) = RLocked"
proof -
  let ?p = "proto_run [Request_checkpoint] (proto_start ring0)"
  let ?q = "proto_run [Before_call False 4, Sender, Before_call True 1] ?p"
  have "bit (flag_of ?p) 1" "\<not> in_call ?p" "got (chan ?q) = sent (chan ?q)" "rpc (chan ?q) = RIdle" by code_simp+
  then show ?thesis
    using checkpoint_request_kept [OF ring0_new refl, of "[Request_checkpoint]" "[Before_call False 4, Sender, Before_call True 1]" ?q 4]
    by (simp add: Let_def del: proto_run_simps)
qed

section \<open>Races\<close>

text \<open>
  Asynchronous calls break quiescence. A schedule in which the server has found the channel empty,
  the client then completes an asynchronous call, and the checkpoint request was made meanwhile,
  ends with the server reporting a locked channel although a complete request is waiting in it
  (the server thread then fails its assertion that there are no \<open>remaining async requests\<close>);
  and a schedule in which this happens in the middle of a long request ends in the panic of
  \<open>get_bytes\<close>.
\<close>

lemma async_checkpoint_race:
  "(\<exists>ms. let p = proto_run ms (proto_start ring0)
         in rpc (chan p) = RLocked \<and> \<not> in_call p \<and> \<not> exited p \<and> contents (ring (chan p)) = [7])
   \<and> (\<exists>ms. let p = proto_run ms (proto_start ring0) in rpc (chan p) = RPanic \<and> \<not> exited p)"
proof
  let ?ms = "[Receive_request 1, Receiver, Receiver, Before_call True 1, Request_checkpoint, Call_put [7]]
    @ replicate 5 Sender @ [After_call, Receiver]"
  have "let p = proto_run ?ms (proto_start ring0)
      in rpc (chan p) = RLocked \<and> \<not> in_call p \<and> \<not> exited p \<and> contents (ring (chan p)) = [7]" by code_simp
  then show "\<exists>ms. let p = proto_run ms (proto_start ring0)
      in rpc (chan p) = RLocked \<and> \<not> in_call p \<and> \<not> exited p \<and> contents (ring (chan p)) = [7]" by blast
next
  let ?ms = "[Before_call True 5, Request_checkpoint, Call_put [1, 2, 3, 4, 5], Receive_request 5]
    @ replicate 7 Sender @ replicate 12 Receiver @ replicate 11 Sender @ [After_call, Receiver]"
  have "let p = proto_run ?ms (proto_start ring0) in rpc (chan p) = RPanic \<and> \<not> exited p" by code_simp
  then show "\<exists>ms. let p = proto_run ms (proto_start ring0) in rpc (chan p) = RPanic \<and> \<not> exited p" by blast
qed

text \<open>
  A client that exits while a checkpoint is requested races in the same way, since it sends its last
  message without taking the flag: the server thread can report a locked channel with that message in
  it, and, when it has read one part of the message only, fails the assertion of \<open>get_bytes\<close>.
\<close>

lemma exit_checkpoint_race:
  "(\<exists>ms. let p = proto_run ms (proto_start ring0)
         in list_all waits ms \<and> rpc (chan p) = RLocked \<and> contents (ring (chan p)) \<noteq> [])
   \<and> (\<exists>ms. list_all waits ms \<and> rpc (chan (proto_run ms (proto_start ring0))) = RPanic)"
proof
  let ?ms = "[Receive_request 4, Receiver, Receiver, Request_checkpoint, Drop_client] @ replicate 8 Sender @ [Receiver]"
  have "let p = proto_run ?ms (proto_start ring0)
      in list_all waits ?ms \<and> rpc (chan p) = RLocked \<and> contents (ring (chan p)) \<noteq> []" by code_simp
  then show "\<exists>ms. let p = proto_run ms (proto_start ring0)
      in list_all waits ms \<and> rpc (chan p) = RLocked \<and> contents (ring (chan p)) \<noteq> []" by blast
next
  let ?ms = "[Receive_request 4, Request_checkpoint, Drop_client] @ replicate 7 Sender @ replicate 16 Receiver"
  have "list_all waits ?ms \<and> rpc (chan (proto_run ?ms (proto_start ring0))) = RPanic" by code_simp
  then show "\<exists>ms. list_all waits ms \<and> rpc (chan (proto_run ms (proto_start ring0))) = RPanic" by blast
qed

end
