(* ===== verification/Framing.thy ===== *)
theory Framing
  imports Ring_Buffer "HOL-Library.While_Combinator"
begin

text \<open>
  How values travel over a byte channel (\<open>network/src/type_impl/mod.rs\<close>): a value of a
  \<open>Copy\<close> type is sent as its bytes, a slice as its length followed by the bytes of its
  elements. The functions are the provided methods of the traits \<open>SendChannel\<close> and
  \<open>RecvChannel\<close>, and take the channel's \<open>put_bytes\<close> and \<open>get_bytes\<close> as arguments. The
  contracts \<open>byte_sink\<close> and \<open>byte_source\<close> say what the channels promise; the channels of the
  repository are the ring buffer, the TCP stream (\<open>tcp.rs\<close>), the saved image
  (\<open>restore.rs\<close>) and the vector that a session saves its arguments to.
\<close>

section \<open>Channels\<close>

datatype CommChannelError =
    InvalidOperation
  | IoError
  | Timeout
  | NoLeftSpace
  | BlockOperation
  | ShmChannelLocked
  | RestoreEof

text \<open>A call on a channel returns, returns an error, panics, or does not return.\<close>

datatype ('a, 'c) io =
    Returns 'a 'c
  | Errs CommChannelError 'c
  | Panics string
  | Blocks

fun io_bind :: "('a, 'c) io \<Rightarrow> ('a \<Rightarrow> 'c \<Rightarrow> ('b, 'c) io) \<Rightarrow> ('b, 'c) io" where
  "io_bind (Returns x c) f = f x c"
| "io_bind (Errs e c) f = Errs e c"
| "io_bind (Panics m) f = Panics m"
| "io_bind Blocks f = Blocks"

lemma io_bind_Returns_iff:
  "io_bind m f = Returns y d \<longleftrightarrow> (\<exists>x c. m = Returns x c \<and> f x c = Returns y d)"
  by (cases m) auto

lemma io_bind_assoc: "io_bind (io_bind m f) g = io_bind m (\<lambda>x c. io_bind (f x c) g)"
  by (cases m) auto

type_synonym 'c get_bytes = "nat \<Rightarrow> 'c \<Rightarrow> (u8 list, 'c) io"
type_synonym 'c put_bytes = "u8 list \<Rightarrow> 'c \<Rightarrow> (unit, 'c) io"

section \<open>The bytes of integers\<close>

text \<open>Integers are sent in the byte order of the machine, least significant byte first.\<close>

fun le_bytes :: "nat \<Rightarrow> u64 \<Rightarrow> u8 list" where
  "le_bytes 0 w = []"
| "le_bytes (Suc k) w = ucast w # le_bytes k (drop_bit 8 w)"

fun of_le_bytes :: "u8 list \<Rightarrow> u64" where
  "of_le_bytes [] = 0"
| "of_le_bytes (b # bs) = ucast b OR push_bit 8 (of_le_bytes bs)"

lemma length_le_bytes [simp]: "length (le_bytes k w) = k"
  by (induction k arbitrary: w) auto

lemma of_le_bytes_le_bytes: "of_le_bytes (le_bytes k w) = take_bit (8 * k) w"
proof (induction k arbitrary: w)
  case (Suc k)
  show ?case by (rule bit_word_eqI) (auto simp: Suc bit_simps)
qed simp

definition usize_bytes :: "u64 \<Rightarrow> u8 list" where
  "usize_bytes w = le_bytes 8 w"

definition usize_of :: "u8 list \<Rightarrow> u64" where
  "usize_of bs = of_le_bytes bs"

definition i32_bytes :: "u32 \<Rightarrow> u8 list" where
  "i32_bytes w = le_bytes 4 (ucast w)"

definition i32_of :: "u8 list \<Rightarrow> u32" where
  "i32_of bs = ucast (of_le_bytes bs)"

lemma length_usize_bytes [simp]: "length (usize_bytes w) = 8"
  by (simp add: usize_bytes_def)

lemma length_i32_bytes [simp]: "length (i32_bytes w) = 4"
  by (simp add: i32_bytes_def)

lemma usize_of_bytes [simp]: "usize_of (usize_bytes w) = w"
  by (simp add: usize_of_def usize_bytes_def of_le_bytes_le_bytes take_bit_word_eq_self)

lemma i32_of_bytes [simp]: "i32_of (i32_bytes w) = w"
  by (rule bit_word_eqI) (simp add: i32_of_def i32_bytes_def of_le_bytes_le_bytes bit_simps)

section \<open>The provided methods\<close>

definition send_slice :: "'c put_bytes \<Rightarrow> nat \<Rightarrow> u8 list \<Rightarrow> 'c \<Rightarrow> (unit, 'c) io" where
  "send_slice put esz bs c =
     io_bind (put (usize_bytes (of_nat (length bs div esz))) c) (\<lambda>_ c. put bs c)"

text \<open>
  \<open>recv_slice\<close> allocates before it reads: \<open>Box::new_uninit_slice\<close> panics when the size does not
  fit into \<open>isize\<close>. \<open>recv_slice_to\<close> fills a buffer of a given number of elements.
\<close>

definition recv_slice :: "'c get_bytes \<Rightarrow> nat \<Rightarrow> 'c \<Rightarrow> (u8 list, 'c) io" where
  "recv_slice get esz c =
     io_bind (get 8 c) (\<lambda>lb c.
       if 2 ^ 63 \<le> unat (usize_of lb) * esz then Panics ''capacity overflow''
       else get (unat (usize_of lb) * esz) c)"

definition recv_slice_to :: "'c get_bytes \<Rightarrow> nat \<Rightarrow> nat \<Rightarrow> 'c \<Rightarrow> (u8 list, 'c) io" where
  "recv_slice_to get esz n c =
     io_bind (get 8 c) (\<lambda>lb c.
       if unat (usize_of lb) \<noteq> n then Panics ''assertion failed: len == dst.len()''
       else get (n * esz) c)"

text \<open>The bytes of a slice on the wire.\<close>

definition slice_bytes :: "nat \<Rightarrow> u8 list \<Rightarrow> u8 list" where
  "slice_bytes esz bs = usize_bytes (of_nat (length bs div esz)) @ bs"

text \<open>A slice whose length is a \<open>usize\<close> and whose size is an \<open>isize\<close>, as every slice has.\<close>

definition slice_ok :: "nat \<Rightarrow> u8 list \<Rightarrow> bool" where
  "slice_ok esz bs \<longleftrightarrow> 0 < esz \<and> esz dvd length bs \<and> length bs < 2 ^ 63"

lemma slice_ok_len:
  assumes "slice_ok esz bs"
  shows "unat (of_nat (length bs div esz) :: u64) * esz = length bs"
    and "unat (of_nat (length bs div esz) :: u64) = length bs div esz"
proof -
  have "length bs div esz < 2 ^ 64"
    by (rule le_less_trans [OF div_le_dividend]) (use assms in \<open>simp add: slice_ok_def\<close>)
  then show "unat (of_nat (length bs div esz) :: u64) = length bs div esz"
    by (simp add: unat_of_nat take_bit_nat_eq_self)
  then show "unat (of_nat (length bs div esz) :: u64) * esz = length bs"
    using assms by (simp add: slice_ok_def)
qed

section \<open>Contracts\<close>

locale byte_source =
  fixes get :: "'c get_bytes"
    and content :: "'c \<Rightarrow> u8 list"
    and good :: "'c \<Rightarrow> bool"
  assumes get_content: "good c \<Longrightarrow> n \<le> length (content c) \<Longrightarrow>
      \<exists>c'. get n c = Returns (take n (content c)) c' \<and> content c' = drop n (content c) \<and> good c'"
begin

text \<open>The channel starts with the given bytes, and then with the rest.\<close>

lemma get_prefix:
  assumes "good c" and "content c = bs @ rest"
  obtains c' where "get (length bs) c = Returns bs c'" and "content c' = rest" and "good c'"
  using get_content [OF assms(1), of "length bs"] assms(2) by auto

lemma recv_slice_prefix:
  assumes "good c" and "content c = slice_bytes esz bs @ rest" and "slice_ok esz bs"
  obtains c' where "recv_slice get esz c = Returns bs c'" and "content c' = rest" and "good c'"
proof -
  let ?n = "of_nat (length bs div esz) :: u64"
  obtain c1 where c1: "get 8 c = Returns (usize_bytes ?n) c1" "content c1 = bs @ rest" "good c1"
    using get_prefix [OF assms(1), of "usize_bytes ?n" "bs @ rest"] assms(2) by (auto simp: slice_bytes_def)
  obtain c2 where "get (length bs) c1 = Returns bs c2" "content c2 = rest" "good c2"
    using get_prefix [OF c1(3,2)] by auto
  moreover have "\<not> 2 ^ 63 \<le> length bs" using assms(3) by (simp add: slice_ok_def)
  ultimately show ?thesis
    using that c1(1) slice_ok_len [OF assms(3)] by (simp add: recv_slice_def)
qed

lemma recv_slice_to_prefix:
  assumes "good c" and "content c = slice_bytes esz bs @ rest" and "slice_ok esz bs"
    and "n * esz = length bs"
  obtains c' where "recv_slice_to get esz n c = Returns bs c'" and "content c' = rest" and "good c'"
proof -
  let ?n = "of_nat (length bs div esz) :: u64"
  have n: "length bs div esz = n" using assms(3,4) by (metis slice_ok_def nonzero_mult_div_cancel_right less_numeral_extra(3))
  obtain c1 where c1: "get 8 c = Returns (usize_bytes ?n) c1" "content c1 = bs @ rest" "good c1"
    using get_prefix [OF assms(1), of "usize_bytes ?n" "bs @ rest"] assms(2) by (auto simp: slice_bytes_def)
  obtain c2 where "get (length bs) c1 = Returns bs c2" "content c2 = rest" "good c2"
    using get_prefix [OF c1(3,2)] by auto
  then show ?thesis
    using that c1(1) slice_ok_len(2) [OF assms(3)] n assms(4) by (simp add: recv_slice_to_def)
qed

end

text \<open>A sink keeps what it was given, in order, as long as it has room.\<close>

locale byte_sink =
  fixes put :: "'c put_bytes"
    and written :: "'c \<Rightarrow> u8 list"
    and room :: "nat \<Rightarrow> 'c \<Rightarrow> bool"
  assumes put_written: "room (length bs) c \<Longrightarrow>
      \<exists>c'. put bs c = Returns () c' \<and> written c' = written c @ bs \<and> (\<forall>n. room (length bs + n) c \<longrightarrow> room n c')"
    and room_less: "room n c \<Longrightarrow> m \<le> n \<Longrightarrow> room m c"
begin

lemma put_then:
  assumes "room (length bs + n) c"
  obtains c' where "put bs c = Returns () c'" and "written c' = written c @ bs" and "room n c'"
  using put_written [of bs c] room_less [OF assms, of "length bs"] assms by auto

lemma send_slice_then:
  assumes "room (length (slice_bytes esz bs) + n) c"
  obtains c' where "send_slice put esz bs c = Returns () c'" and "written c' = written c @ slice_bytes esz bs"
    and "room n c'"
proof -
  let ?l = "usize_bytes (of_nat (length bs div esz))"
  obtain c1 where c1: "put ?l c = Returns () c1" "written c1 = written c @ ?l" "room (length bs + n) c1"
    using put_then [of ?l "length bs + n" c] assms by (auto simp: slice_bytes_def add.assoc)
  obtain c2 where "put bs c1 = Returns () c2" "written c2 = written c1 @ bs" "room n c2"
    using put_then [OF c1(3)] by auto
  then show ?thesis using that c1 by (simp add: send_slice_def slice_bytes_def)
qed

end

text \<open>A sink that has to be flushed, and may need some free space for it.\<close>

locale flushed_sink = byte_sink put written room
  for put :: "'c put_bytes" and written :: "'c \<Rightarrow> u8 list" and room :: "nat \<Rightarrow> 'c \<Rightarrow> bool" +
  fixes flush :: "'c \<Rightarrow> (unit, 'c) io"
    and slack :: nat
  assumes flush_keeps: "room slack c \<Longrightarrow> \<exists>c'. flush c = Returns () c' \<and> written c' = written c \<and> room 0 c'"

section \<open>The saved image and the vector\<close>

record restore_vec =
  vec :: "u8 list"
  pos :: nat

definition RestoreVec_new :: "u8 list \<Rightarrow> restore_vec" where
  "RestoreVec_new bs = \<lparr>vec = bs, pos = 0\<rparr>"

definition RestoreVec_get_bytes :: "restore_vec get_bytes" where
  "RestoreVec_get_bytes n c =
     (if length (vec c) < pos c + n then Errs RestoreEof c
      else Returns (take n (drop (pos c) (vec c))) (c\<lparr>pos := pos c + n\<rparr>))"

interpretation restore: byte_source RestoreVec_get_bytes "\<lambda>c. drop (pos c) (vec c)" "\<lambda>c. pos c \<le> length (vec c)"
  by unfold_locales (auto simp: RestoreVec_get_bytes_def add.commute)

text \<open>\<open>save\<close> and \<open>save_slice\<close> append to a vector.\<close>

definition save :: "u8 list put_bytes" where
  "save bs out = Returns () (out @ bs)"

definition save_slice :: "nat \<Rightarrow> u8 list \<Rightarrow> u8 list \<Rightarrow> (unit, u8 list) io" where
  "save_slice = send_slice save"

interpretation saved: byte_sink save "\<lambda>out. out" "\<lambda>_ _. True"
  by unfold_locales (auto simp: save_def)

definition BlackHole_put_bytes :: "unit put_bytes" where
  "BlackHole_put_bytes bs c = Returns () ()"

section \<open>The TCP stream\<close>

text \<open>
  The receiver's stream: the bytes that have arrived, and whether the peer has closed the
  connection. The sender's \<open>BufWriter\<close>: a buffer of 8 KiB in front of the socket.
\<close>

record tcp_receiver =
  arrived :: "u8 list"
  closed :: bool

definition TcpReceiver_get_bytes :: "tcp_receiver get_bytes" where
  "TcpReceiver_get_bytes n c =
     (if n \<le> length (arrived c) then Returns (take n (arrived c)) (c\<lparr>arrived := drop n (arrived c)\<rparr>)
      else if closed c then Errs IoError (c\<lparr>arrived := []\<rparr>) else Blocks)"

interpretation tcp_in: byte_source TcpReceiver_get_bytes arrived "\<lambda>_. True"
  by unfold_locales (simp add: TcpReceiver_get_bytes_def)

record tcp_sender =
  buffered :: "u8 list"
  on_wire :: "u8 list"
  reset :: bool

definition BUFWRITER_CAPACITY :: nat where
  "BUFWRITER_CAPACITY = 8192"

definition TcpSender_flush :: "tcp_sender \<Rightarrow> (unit, tcp_sender) io" where
  "TcpSender_flush c =
     (if reset c \<and> buffered c \<noteq> [] then Errs IoError c
      else Returns () (c\<lparr>on_wire := on_wire c @ buffered c, buffered := []\<rparr>))"

definition TcpSender_put_bytes :: "tcp_sender put_bytes" where
  "TcpSender_put_bytes bs c =
     (let spare = BUFWRITER_CAPACITY - length (buffered c)
      in if length bs < spare then Returns () (c\<lparr>buffered := buffered c @ bs\<rparr>)
         else io_bind (if spare < length bs then TcpSender_flush c else Returns () c) (\<lambda>_ c.
           if BUFWRITER_CAPACITY \<le> length bs
           then (if reset c then Errs IoError c else Returns () (c\<lparr>on_wire := on_wire c @ bs\<rparr>))
           else Returns () (c\<lparr>buffered := buffered c @ bs\<rparr>)))"

text \<open>
  An unbroken connection takes every byte; a buffer that holds nothing when a large write comes
  is needed for the order of the bytes, and holds because the buffer never exceeds its capacity.
\<close>

interpretation tcp_out: byte_sink TcpSender_put_bytes "\<lambda>c. on_wire c @ buffered c"
    "\<lambda>_ c. \<not> reset c \<and> length (buffered c) \<le> BUFWRITER_CAPACITY"
proof
  fix bs and c :: tcp_sender
  assume r: "\<not> reset c \<and> length (buffered c) \<le> BUFWRITER_CAPACITY"
  have "buffered c = []" if "BUFWRITER_CAPACITY \<le> BUFWRITER_CAPACITY - length (buffered c)"
    using that by (cases "length (buffered c)") (simp_all add: BUFWRITER_CAPACITY_def)
  then show "\<exists>c'. TcpSender_put_bytes bs c = Returns () c' \<and>
      on_wire c' @ buffered c' = (on_wire c @ buffered c) @ bs \<and>
      (\<forall>n. \<not> reset c \<and> length (buffered c) \<le> BUFWRITER_CAPACITY \<longrightarrow>
        \<not> reset c' \<and> length (buffered c') \<le> BUFWRITER_CAPACITY)"
    using r by (auto simp: TcpSender_put_bytes_def TcpSender_flush_def Let_def)
qed auto

interpretation tcp_flush: flushed_sink TcpSender_put_bytes "\<lambda>c. on_wire c @ buffered c"
    "\<lambda>_ c. \<not> reset c \<and> length (buffered c) \<le> BUFWRITER_CAPACITY" TcpSender_flush 0
  by unfold_locales (simp add: TcpSender_flush_def)

section \<open>The ring buffer, used by one side at a time\<close>

definition ring_get_bytes :: "sys get_bytes" where
  "ring_get_bytes n s =
     (case while_option (\<lambda>s. rpc s \<noteq> RIdle \<and> rpc s \<noteq> RLocked \<and> rpc s \<noteq> RPanic) get_step (do_move (Get n) s) of
        None \<Rightarrow> Blocks
      | Some s' \<Rightarrow>
          (if rpc s' = RIdle then Returns (drop (length (got s)) (got s')) s'
           else if rpc s' = RLocked then Errs ShmChannelLocked s'
           else Panics ''get_bytes''))"

definition ring_put_bytes :: "sys put_bytes" where
  "ring_put_bytes bs s =
     (case while_option (\<lambda>s. spc s \<noteq> SPanic \<and> (spc s \<noteq> SLoop \<or> src s \<noteq> [])) put_step (do_move (Put bs) s) of
        None \<Rightarrow> Blocks
      | Some s' \<Rightarrow> (if spc s' = SPanic then Panics ''put_bytes'' else Returns () s'))"

text \<open>A loop whose step does nothing in the states in which it stops ends in the state that iteration reaches.\<close>

lemma while_option_reaches:
  assumes "\<And>s. \<not> b s \<Longrightarrow> c s = s" and "\<not> b ((c ^^ k) s)"
  shows "while_option b c s = Some ((c ^^ k) s)"
  using assms(2)
proof (induction k arbitrary: s)
  case (Suc k)
  have eq: "(c ^^ Suc k) s = (c ^^ k) (c s)" by (simp add: funpow_swap1)
  show ?case
  proof (cases "b s")
    case True
    then show ?thesis using Suc.IH [of "c s"] Suc.prems eq by (simp add: while_option_unfold [of b c s])
  next
    case False
    then have "c s = s" using assms(1) by blast
    then have "(c ^^ j) s = s" for j by (induction j) auto
    then show ?thesis using False by (metis while_option_unfold)
  qed
qed (simp add: while_option_unfold)

lemma rcvs_funpow: "rcvs s s' \<Longrightarrow> \<exists>k. s' = (get_step ^^ k) s"
proof -
  have "run (replicate k Rcv) t = (get_step ^^ k) t" for k t
    by (induction k arbitrary: t) (simp_all add: funpow_swap1)
  then show "rcvs s s' \<Longrightarrow> ?thesis" by (auto simp: rcvs_def)
qed

lemma snds_funpow: "snds s s' \<Longrightarrow> \<exists>k. s' = (put_step ^^ k) s"
proof -
  have "run (replicate k Snd) t = (put_step ^^ k) t" for k t
    by (induction k arbitrary: t) (simp_all add: funpow_swap1)
  then show "snds s s' \<Longrightarrow> ?thesis" by (auto simp: snds_def)
qed

lemma rcvs_trans: "rcvs s t \<Longrightarrow> rcvs t u \<Longrightarrow> rcvs s u"
  unfolding rcvs_def by (metis replicate_add run_append)

lemma snds_trans: "snds s t \<Longrightarrow> snds t u \<Longrightarrow> snds s u"
  unfolding snds_def by (metis replicate_add run_append)

lemma ring_drains:
  assumes "sys_inv s" and "active s" and "0 < dst_left s" and "dst_left s \<le> num_bytes_stored (ring s)"
  shows "\<exists>s'. rcvs s s' \<and> rpc s' = RTry \<and> dst_left s' = 0"
  using assms
proof (induction "dst_left s" arbitrary: s rule: less_induct)
  case less
  have "0 < num_bytes_stored (ring s)" using less.prems by simp
  from get_delivers [OF less.prems(1-3) this] obtain t
    where t: "rcvs s t" "rpc t = RTry" "length (got s) < length (got t)" by blast
  note k = rcvs_keeps [OF t(1) less.prems(1)]
  show ?case
  proof (cases "dst_left t = 0")
    case True
    then show ?thesis using t by blast
  next
    case False
    have "dst_left t < dst_left s" using k t(3) by linarith
    moreover have "active t" using k t(2) less.prems(2) by (simp add: active_def)
    moreover have "dst_left t \<le> num_bytes_stored (ring t)"
      using k sys_inv_lengths [OF less.prems(1)] sys_inv_lengths [of t] less.prems(4) by simp
    ultimately obtain u where "rcvs t u" "rpc u = RTry" "dst_left u = 0"
      using less.hyps [of t] k False by auto
    then show ?thesis using rcvs_trans [OF t(1)] by blast
  qed
qed

lemma ring_get_returns:
  assumes inv: "sys_inv s" and idle: "rpc s = RIdle" and fl: "flag (ring s) \<noteq> SHM_FLAG_WRITE_DISABLED"
    and n: "n \<le> num_bytes_stored (ring s)"
  shows "\<exists>s'. rcvs (do_move (Get n) s) s' \<and> rpc s' = RIdle \<and> length (got s') = length (got s) + n"
proof -
  let ?s = "do_move (Get n) s"
  have s: "?s = s\<lparr>total := n, cur_recv := 0, recv := 0, dst_left := n, rpc := RWhile\<rparr>" using idle by simp
  have inv': "sys_inv ?s" by (rule do_move_inv [OF inv])
  note do_move.simps [simp del]
  show ?thesis
  proof (cases "n = 0")
    case True
    have "get_step ?s = s\<lparr>total := 0, cur_recv := 0, recv := 0, dst_left := 0, rpc := RIdle\<rparr>"
      by (subst s) (simp add: get_step_def True)
    then have "rpc (get_step ?s) = RIdle \<and> length (got (get_step ?s)) = length (got s) + n" using True by simp
    then show ?thesis using rcvs_step [OF rcvs_refl, of ?s] by blast
  next
    case False
    have "active ?s" using fl s by (simp add: active_def)
    then obtain t where t: "rcvs ?s t" "rpc t = RTry" "dst_left t = 0"
      using ring_drains [OF inv'] False n s by auto
    note k = rcvs_keeps [OF t(1) inv']
    have flag: "flag (ring t) \<noteq> SHM_FLAG_WRITE_DISABLED" using k fl s by simp
    have total: "total t = cur_recv t + recv t" using k t(2,3) by (simp add: sys_inv_def counters_ok_def)
    have "get_step t = t\<lparr>rpc := RRet\<rparr>" using t(2,3) by (simp add: get_step_def)
    moreover have "get_step (t\<lparr>rpc := RRet\<rparr>) = t\<lparr>cur_recv := cur_recv t + recv t, rpc := RWhile\<rparr>"
      using flag by (simp add: get_step_def)
    moreover have "get_step (t\<lparr>cur_recv := cur_recv t + recv t, rpc := RWhile\<rparr>) =
        t\<lparr>cur_recv := cur_recv t + recv t, rpc := RIdle\<rparr>"
      using total by (simp add: get_step_def)
    ultimately have "get_step (get_step (get_step t)) = t\<lparr>cur_recv := cur_recv t + recv t, rpc := RIdle\<rparr>" by simp
    moreover have "rcvs t (get_step (get_step (get_step t)))"
      by (rule rcvs_step [OF rcvs_step [OF rcvs_step [OF rcvs_refl]]])
    ultimately have "rcvs ?s (t\<lparr>cur_recv := cur_recv t + recv t, rpc := RIdle\<rparr>)"
      using rcvs_trans [OF t(1)] by simp
    moreover have "length (got t) = length (got s) + n" using k t(3) s by simp
    ultimately show ?thesis by (intro exI [of _ "t\<lparr>cur_recv := cur_recv t + recv t, rpc := RIdle\<rparr>"]) simp
  qed
qed

lemma append_eq_split:
  assumes "a @ b = c @ d" and "length c = length a + n" and "n \<le> length b"
  shows "c = a @ take n b \<and> d = drop n b"
proof -
  have "c = take (length c) (a @ b)" "d = drop (length c) (a @ b)" using assms(1) by simp_all
  then show ?thesis using assms(2) by simp
qed

definition ring_source_ok :: "sys \<Rightarrow> bool" where
  "ring_source_ok s \<longleftrightarrow> sys_inv s \<and> rpc s = RIdle \<and> flag (ring s) \<noteq> SHM_FLAG_WRITE_DISABLED"

interpretation ring_in: byte_source ring_get_bytes "\<lambda>s. contents (ring s)" ring_source_ok
proof
  fix s n assume ok: "ring_source_ok s" and n: "n \<le> length (contents (ring s))"
  let ?s = "do_move (Get n) s"
  have inv: "sys_inv ?s" by (rule do_move_inv) (use ok in \<open>simp add: ring_source_ok_def\<close>)
  have same: "got ?s = got s" "ring ?s = ring s" "src ?s = src s" "sent ?s = sent s"
    using ok by (simp_all add: ring_source_ok_def)
  note do_move.simps [simp del]
  obtain s' where s': "rcvs ?s s'" "rpc s' = RIdle" "length (got s') = length (got s) + n"
    using ring_get_returns [of s n] ok n by (auto simp: ring_source_ok_def)
  note k = rcvs_keeps [OF s'(1) inv]
  obtain j where j: "s' = (get_step ^^ j) ?s" using rcvs_funpow [OF s'(1)] by blast
  have "while_option (\<lambda>s. rpc s \<noteq> RIdle \<and> rpc s \<noteq> RLocked \<and> rpc s \<noteq> RPanic) get_step ?s = Some s'"
    unfolding j by (rule while_option_reaches) (use s'(2) j in \<open>auto simp: get_step_def\<close>)
  moreover have "got s @ contents (ring s) = got s' @ contents (ring s')"
    using k inv same by (auto simp: sys_inv_def)
  then have "got s' = got s @ take n (contents (ring s)) \<and> contents (ring s') = drop n (contents (ring s))"
    by (rule append_eq_split [OF _ s'(3) n])
  moreover have "ring_source_ok s'" using k s'(2) ok same by (simp add: ring_source_ok_def)
  ultimately show "\<exists>s'. ring_get_bytes n s = Returns (take n (contents (ring s))) s' \<and>
      contents (ring s') = drop n (contents (ring s)) \<and> ring_source_ok s'"
    using s'(2) by (auto simp: ring_get_bytes_def)
qed

lemma ring_accepts:
  assumes "sys_inv s" and "num_bytes_stored (ring s) + length (src s) < capacity (ring s)"
  shows "\<exists>s'. snds s s' \<and> src s' = []"
  using assms
proof (induction "length (src s)" arbitrary: s rule: less_induct)
  case less
  show ?case
  proof (cases "src s = []")
    case True
    then show ?thesis using snds_refl by blast
  next
    case False
    then have "0 < length (src s)" by simp
    then have "\<not> is_full (ring s)" using less.prems(2) unfolding is_full_def by linarith
    from put_commits [OF less.prems(1) False this] obtain t
      where t: "snds s t" "length (src t) < length (src s)" by blast
    note k = snds_keeps [OF t(1) less.prems(1)]
    have "num_bytes_stored (ring t) + length (src t) < capacity (ring t)"
      using k sys_inv_lengths [OF less.prems(1)] sys_inv_lengths [of t] less.prems(2) by simp
    then obtain u where "snds t u" "src u = []" using less.hyps [OF t(2)] k by blast
    then show ?thesis using snds_trans [OF t(1)] by blast
  qed
qed

lemma sender_done: "sys_inv s \<Longrightarrow> src s = [] \<Longrightarrow> spc s = SLoop"
  by (cases "spc s") (auto simp: sys_inv_def)

definition ring_room :: "nat \<Rightarrow> sys \<Rightarrow> bool" where
  "ring_room n s \<longleftrightarrow> sys_inv s \<and> src s = [] \<and> num_bytes_stored (ring s) + n < capacity (ring s)"

interpretation ring_out: byte_sink ring_put_bytes sent ring_room
proof
  fix bs :: "u8 list" and s assume room: "ring_room (length bs) s"
  let ?s = "do_move (Put bs) s"
  have inv: "sys_inv ?s" by (rule do_move_inv) (use room in \<open>simp add: ring_room_def\<close>)
  have s: "?s = s\<lparr>src := bs, sent := sent s @ bs\<rparr>" using room by (simp add: ring_room_def sender_done)
  have "num_bytes_stored (ring ?s) + length (src ?s) < capacity (ring ?s)" using room by (simp add: s ring_room_def)
  from ring_accepts [OF inv this] obtain s' where s': "snds ?s s'" "src s' = []" by blast
  note k = snds_keeps [OF s'(1) inv]
  have loop: "spc s' = SLoop" using k s'(2) by (simp add: sender_done)
  obtain j where j: "s' = (put_step ^^ j) ?s" using snds_funpow [OF s'(1)] by blast
  have "while_option (\<lambda>s. spc s \<noteq> SPanic \<and> (spc s \<noteq> SLoop \<or> src s \<noteq> [])) put_step ?s = Some s'"
    unfolding j by (rule while_option_reaches) (use s'(2) loop j in \<open>auto simp: put_step_def\<close>)
  then have "ring_put_bytes bs s = Returns () s'" using loop by (simp add: ring_put_bytes_def)
  moreover have "sent s' = sent s @ bs" using k s by simp
  moreover have "ring_room n s'" if "ring_room (length bs + n) s" for n
    using that k s s'(2) sys_inv_lengths [of s'] sys_inv_lengths [OF inv] by (simp add: ring_room_def)
  ultimately show "\<exists>s'. ring_put_bytes bs s = Returns () s' \<and> sent s' = sent s @ bs \<and>
      (\<forall>n. ring_room (length bs + n) s \<longrightarrow> ring_room n s')" by blast
qed (simp add: ring_room_def)

text \<open>\<open>flush\<close> waits while the buffer is full.\<close>

definition ring_flush :: "sys \<Rightarrow> (unit, sys) io" where
  "ring_flush s = (if is_full (ring s) then Blocks else Returns () s)"

text \<open>Putting bytes leaves the receiver alone.\<close>

lemma ring_put_keeps:
  assumes "ring_put_bytes bs s = Returns () s'"
  shows "got s' = got s \<and> rpc s' = rpc s \<and> flag (ring s') = flag (ring s)"
proof -
  let ?P = "\<lambda>t. got t = got s \<and> rpc t = rpc s \<and> flag (ring t) = flag (ring s)"
  have w: "while_option (\<lambda>s. spc s \<noteq> SPanic \<and> (spc s \<noteq> SLoop \<or> src s \<noteq> [])) put_step (do_move (Put bs) s) = Some s'"
    using assms by (auto simp: ring_put_bytes_def split: option.splits if_splits)
  have "?P (do_move (Put bs) s)" by simp
  then show ?thesis
    using while_option_rule [of ?P, OF _ w] by (simp add: put_step_keeps)
qed

text \<open>
  The ring as a pipe: what was put is what will be got, and a channel that could be read before
  can be read afterwards.
\<close>

definition pipe_room :: "nat \<Rightarrow> sys \<Rightarrow> bool" where
  "pipe_room n s \<longleftrightarrow> ring_room n s \<and> ring_source_ok s"

interpretation ring_pipe: flushed_sink ring_put_bytes "\<lambda>s. contents (ring s)" pipe_room ring_flush 1
proof
  fix bs :: "u8 list" and s
  assume p: "pipe_room (length bs) s"
  then have "ring_room (length bs) s" by (simp add: pipe_room_def)
  from ring_out.put_written [OF this] obtain s' where s': "ring_put_bytes bs s = Returns () s'"
    "sent s' = sent s @ bs" "\<And>n. ring_room (length bs + n) s \<Longrightarrow> ring_room n s'" by blast
  note k = ring_put_keeps [OF s'(1)]
  have r: "ring_room 0 s'" using s'(3) [of 0] p by (simp add: pipe_room_def)
  have "contents (ring s') = contents (ring s) @ bs"
    using k s'(2) r p by (auto simp: pipe_room_def ring_room_def sys_inv_def)
  moreover have "pipe_room n s'" if "pipe_room (length bs + n) s" for n
    using that s'(3) [of n] k by (auto simp: pipe_room_def ring_source_ok_def ring_room_def)
  ultimately show "\<exists>s'. ring_put_bytes bs s = Returns () s' \<and> contents (ring s') = contents (ring s) @ bs \<and>
      (\<forall>n. pipe_room (length bs + n) s \<longrightarrow> pipe_room n s')"
    using s'(1) by blast
next
  show "pipe_room n s \<Longrightarrow> m \<le> n \<Longrightarrow> pipe_room m s" for n m s
    by (simp add: pipe_room_def ring_room_def)
  show "pipe_room 1 s \<Longrightarrow> \<exists>s'. ring_flush s = Returns () s' \<and> contents (ring s') = contents (ring s) \<and> pipe_room 0 s'" for s
    by (auto simp: pipe_room_def ring_flush_def ring_room_def is_full_def)
qed

section \<open>Properties\<close>

text \<open>
  C25. A slice that is sent over the ring and then received arrives as it was: for any contents of
  the channel that leave room for the length and the elements, \<open>send_slice\<close> returns, and once the
  older bytes are read \<open>recv_slice\<close> of the same element size, and \<open>recv_slice_to\<close> into a buffer of
  the same length, return exactly the elements and leave the channel empty.
\<close>

theorem ring_slice_roundtrip:
  assumes room: "pipe_room (8 + length bs) s" and sl: "slice_ok esz bs"
  shows "\<exists>s1 old s2 s3. send_slice ring_put_bytes esz bs s = Returns () s1 \<and>
    ring_get_bytes (num_bytes_stored (ring s)) s1 = Returns (contents (ring s)) old \<and>
    recv_slice ring_get_bytes esz old = Returns bs s2 \<and> contents (ring s2) = [] \<and>
    recv_slice_to ring_get_bytes esz (length bs div esz) old = Returns bs s3 \<and> contents (ring s3) = []"
proof -
  have "length (slice_bytes esz bs) + 0 = 8 + length bs" by (simp add: slice_bytes_def)
  then have "pipe_room (length (slice_bytes esz bs) + 0) s" using room by simp
  then obtain s1 where s1: "send_slice ring_put_bytes esz bs s = Returns () s1"
    "contents (ring s1) = contents (ring s) @ slice_bytes esz bs" "pipe_room 0 s1"
    by (rule ring_pipe.send_slice_then)
  then have "ring_source_ok s1" by (simp add: pipe_room_def)
  from ring_in.get_prefix [OF this s1(2)] obtain old
    where old: "ring_get_bytes (num_bytes_stored (ring s)) s1 = Returns (contents (ring s)) old"
      "contents (ring old) = slice_bytes esz bs @ []" "ring_source_ok old" by auto
  have "length bs div esz * esz = length bs" using sl by (simp add: slice_ok_def)
  then show ?thesis
    using s1(1) old(1) ring_in.recv_slice_prefix [OF old(3,2) sl] ring_in.recv_slice_to_prefix [OF old(3,2) sl] by metis
qed

definition ring50 :: ring where
  "ring50 = \<lparr>data = replicate 50 0, head = 0, tail = 0, flag = 0\<rparr>"

theorem ring_slice_roundtrip_witness:
  "\<exists>s1 old s2. send_slice ring_put_bytes 4 [1, 0, 0, 0, 2, 0, 0, 0] (start ring50) = Returns () s1 \<and>
     ring_get_bytes (num_bytes_stored (ring (start ring50))) s1 = Returns (contents (ring (start ring50))) old \<and>
     recv_slice ring_get_bytes 4 old = Returns [1, 0, 0, 0, 2, 0, 0, 0] s2"
proof -
  have new: "LocalChannel_new 242 [] 0 = Some ring50" by code_simp
  have inv: "sys_inv (start ring50)" by (rule start_inv [OF new])
  have "pipe_room (8 + length [1, 0, 0, 0, 2, 0, 0, 0 :: u8]) (start ring50)"
    using inv by (simp add: pipe_room_def ring_room_def ring_source_ok_def start_def ring50_def num_bytes_stored_def
        capacity_length SHM_FLAG_WRITE_DISABLED_def)
  moreover have l: "length [1, 0, 0, 0, 2, 0, 0, 0 :: u8] = 8" by simp
  have "slice_ok 4 [1, 0, 0, 0, 2, 0, 0, 0]" unfolding slice_ok_def l by simp
  ultimately show ?thesis using ring_slice_roundtrip by blast
qed

end
