(* ===== verification/BTree.thy ===== *)
theory BTree
  imports Main
begin

text \<open>
  The part of Rust's \<open>BTreeMap\<close> that the server uses: a finite map that is iterated in key
  order. The contract is the locale \<open>ordered_map\<close>; the model's maps are lists of key-value
  pairs with strictly increasing keys.
\<close>

section \<open>The contract\<close>

locale ordered_map =
  fixes empty :: 'm
    and get :: "'m \<Rightarrow> 'k :: linorder \<Rightarrow> 'v option"
    and insert :: "'k \<Rightarrow> 'v \<Rightarrow> 'm \<Rightarrow> 'm"
    and remove :: "'k \<Rightarrow> 'm \<Rightarrow> 'm"
    and entries :: "'m \<Rightarrow> ('k \<times> 'v) list"
    and inv :: "'m \<Rightarrow> bool"
  assumes get_empty: "get empty k = None" and inv_empty: "inv empty"
    and get_insert: "inv m \<Longrightarrow> get (insert k v m) j = (if j = k then Some v else get m j)"
    and get_remove: "inv m \<Longrightarrow> get (remove k m) j = (if j = k then None else get m j)"
    and inv_insert: "inv m \<Longrightarrow> inv (insert k v m)" and inv_remove: "inv m \<Longrightarrow> inv (remove k m)"
    and entries_get: "inv m \<Longrightarrow> (k, v) \<in> set (entries m) \<longleftrightarrow> get m k = Some v"
    and entries_sorted: "inv m \<Longrightarrow> sorted_wrt (<) (map fst (entries m))"
begin

lemma entries_distinct:
  assumes "inv m"
  shows "distinct (entries m)"
  using entries_sorted [OF assms] by (metis distinct_map strict_sorted_iff)

text \<open>Maps with the same lookups are iterated in the same way.\<close>

lemma entries_unique:
  assumes "inv m" and "inv n" and same: "\<And>k. get m k = get n k"
  shows "entries m = entries n"
proof -
  have "set (entries m) = set (entries n)"
    using entries_get [OF assms(1)] entries_get [OF assms(2)] same by auto
  moreover from this have "map fst (entries m) = map fst (entries n)"
    using entries_sorted assms(1,2) by (intro strict_sorted_equal) auto
  ultimately show ?thesis
    using entries_sorted [OF assms(1)] entries_sorted [OF assms(2)]
    by (intro map_inj_on [of fst]) (auto simp: strict_sorted_iff distinct_map)
qed

lemma remove_insert:
  assumes "inv m" and "get m k = None"
  shows "get (remove k (insert k v m)) j = get m j"
  using assms by (simp add: get_remove get_insert inv_insert)

lemma entries_insert_set:
  assumes "inv m" and "get m k = None"
  shows "set (entries (insert k v m)) = Set.insert (k, v) (set (entries m))"
proof -
  have "(j, w) \<in> set (entries (insert k v m)) \<longleftrightarrow> (j, w) = (k, v) \<or> (j, w) \<in> set (entries m)" for j w
    using assms entries_get [OF inv_insert [OF assms(1)]] entries_get [OF assms(1)]
    by (auto simp: get_insert)
  then show ?thesis by auto
qed

end

section \<open>The maps of the model\<close>

type_synonym ('k, 'v) btree = "('k \<times> 'v) list"

definition bt_inv :: "('k :: linorder, 'v) btree \<Rightarrow> bool" where
  "bt_inv m \<longleftrightarrow> sorted_wrt (<) (map fst m)"

definition bt_get :: "('k, 'v) btree \<Rightarrow> 'k \<Rightarrow> 'v option" where
  "bt_get m k = map_of m k"

fun bt_insert :: "'k :: linorder \<Rightarrow> 'v \<Rightarrow> ('k, 'v) btree \<Rightarrow> ('k, 'v) btree" where
  "bt_insert k v [] = [(k, v)]"
| "bt_insert k v ((j, w) # m) =
     (if k < j then (k, v) # (j, w) # m else if k = j then (k, v) # m else (j, w) # bt_insert k v m)"

definition bt_remove :: "'k \<Rightarrow> ('k, 'v) btree \<Rightarrow> ('k, 'v) btree" where
  "bt_remove k m = filter (\<lambda>e. fst e \<noteq> k) m"

definition last_key :: "('k, 'v) btree \<Rightarrow> 'k option" where
  "last_key m = (if m = [] then None else Some (fst (last m)))"

lemma bt_get_insert_aux: "map_of (bt_insert k v m) = (map_of m)(k \<mapsto> v)"
  by (induction m) (auto simp: fun_eq_iff)

lemma set_bt_insert: "fst ` set (bt_insert k v m) = Set.insert k (fst ` set m)"
  using arg_cong [OF bt_get_insert_aux [of k v m], of dom] by (simp add: dom_map_of_conv_image_fst)

lemma bt_inv_insert: "bt_inv m \<Longrightarrow> bt_inv (bt_insert k v m)"
proof (induction m)
  case (Cons e m)
  obtain j w where e: "e = (j, w)" by fastforce
  have m: "bt_inv m" and j: "\<forall>x \<in> fst ` set m. j < x" using Cons.prems e by (auto simp: bt_inv_def)
  show ?case
  proof (cases "k \<le> j")
    case True
    then show ?thesis using Cons.prems e j by (auto simp: bt_inv_def)
  next
    case False
    then have "\<forall>x \<in> fst ` set (bt_insert k v m). j < x" using j by (simp only: set_bt_insert) auto
    then show ?thesis using False e Cons.IH [OF m] by (auto simp: bt_inv_def)
  qed
qed (simp add: bt_inv_def)

lemma bt_inv_remove: "bt_inv m \<Longrightarrow> bt_inv (bt_remove k m)"
  by (induction m) (auto simp: bt_inv_def bt_remove_def)

lemma bt_get_remove_aux: "map_of (bt_remove k m) j = (if j = k then None else map_of m j)"
  by (induction m) (auto simp: bt_remove_def)

lemma bt_entries: "bt_inv m \<Longrightarrow> (k, v) \<in> set m \<longleftrightarrow> map_of m k = Some v"
  by (metis bt_inv_def map_of_eq_Some_iff strict_sorted_iff)

interpretation bt: ordered_map "[]" bt_get bt_insert bt_remove "\<lambda>m. m" bt_inv
  by unfold_locales
    (simp_all add: bt_get_def bt_get_insert_aux bt_get_remove_aux bt_inv_insert bt_inv_remove bt_entries,
      simp_all add: bt_inv_def)

lemmas bt_simps = bt.get_empty bt.get_insert bt.get_remove bt.inv_empty bt.inv_insert bt.inv_remove

lemma last_key_max:
  assumes "bt_inv m" and "bt_get m j \<noteq> None"
  shows "\<exists>k. last_key m = Some k \<and> j \<le> k"
proof -
  have j: "j \<in> fst ` set m" using assms(2) by (metis bt_get_def map_of_eq_None_iff)
  then have ne: "m \<noteq> []" by auto
  have s: "sorted (map fst m)" using assms(1) by (simp add: bt_inv_def strict_sorted_iff)
  have m: "map fst m = map fst (butlast m) @ [fst (last m)]"
    using ne by (metis append_butlast_last_id list.simps(8,9) map_append)
  have "j \<le> fst (last m)"
    using s j unfolding m sorted_append by (metis image_set m order_refl rotate1.simps(2) set_ConsD set_rotate1 list.set_intros(1))
  then show ?thesis using ne by (simp add: last_key_def)
qed

lemma last_key_None: "last_key m = None \<longleftrightarrow> m = []"
  by (simp add: last_key_def)

end
