(* ===== verification/Handles.thy ===== *)
theory Handles
  imports Prelude BTree "HOL-Library.Multiset"
begin

text \<open>
  The handle manager of the server (\<open>server/src/phos/handle.rs\<close>): the table from proxy handles
  to library handles, with the recorded calls that have to be replayed to rebuild each handle
  on restore.
\<close>

section \<open>The manager\<close>

record payload =
  timestamp :: nat
  args :: "u8 list"

datatype payloads = Empty | PVec "payload list" | PMap "(u64, payload) btree"

record handle =
  hvalue :: u64
  hpayloads :: payloads

text \<open>\<open>HandleManager\<close> and the static counter \<open>TIMESTAMP\<close>.\<close>

record manager =
  table :: "(u64, handle) btree"
  TIMESTAMP :: nat

definition manager_new :: manager where
  "manager_new = \<lparr>table = [], TIMESTAMP = 1\<rparr>"

definition hm_len :: "manager \<Rightarrow> nat" where
  "hm_len h = length (table h)"

definition hm_insert :: "u64 \<Rightarrow> u64 \<Rightarrow> manager \<Rightarrow> manager" where
  "hm_insert proxy value h =
     h\<lparr>table := bt_insert proxy \<lparr>hvalue = value, hpayloads = Empty\<rparr> (table h)\<rparr>"

fun payloads_insert :: "u64 option \<Rightarrow> payload \<Rightarrow> payloads \<Rightarrow> payloads + string" where
  "payloads_insert None p Empty = Inl (PVec [p])"
| "payloads_insert None p (PVec ps) = Inl (PVec (ps @ [p]))"
| "payloads_insert None p (PMap m) = Inr ''expected unkeyed payload''"
| "payloads_insert (Some k) p Empty = Inl (PMap [(k, p)])"
| "payloads_insert (Some k) p (PVec ps) = Inr ''expected keyed payload''"
| "payloads_insert (Some k) p (PMap m) = Inl (PMap (bt_insert k p m))"

definition insert_args :: "u64 \<Rightarrow> u64 option \<Rightarrow> u8 list \<Rightarrow> manager \<Rightarrow> (unit, manager) exec" where
  "insert_args proxy key bs h =
     (let p = \<lparr>timestamp = TIMESTAMP h, args = bs\<rparr>; h1 = h\<lparr>TIMESTAMP := TIMESTAMP h + 1\<rparr>
      in case bt_get (table h1) proxy of
           None \<Rightarrow> Abort ''called Option::unwrap() on a None value''
         | Some hx \<Rightarrow>
             (case payloads_insert key p (hpayloads hx) of
                Inr m \<Rightarrow> Abort m
              | Inl ps \<Rightarrow> Ok () (h1\<lparr>table := bt_insert proxy (hx\<lparr>hpayloads := ps\<rparr>) (table h1)\<rparr>)))"

definition get_inner :: "u64 \<Rightarrow> bool \<Rightarrow> manager \<Rightarrow> (u64, manager) exec" where
  "get_inner proxy is_destroy h =
     (if proxy = 0 then Ok 0 h
      else (case bt_get (table h) proxy of
              None \<Rightarrow> Abort (if is_destroy then ''called Option::unwrap() on a None value''
                               else ''invalid proxy handle'')
            | Some hx \<Rightarrow>
                Ok (hvalue hx) (if is_destroy then h\<lparr>table := bt_remove proxy (table h)\<rparr> else h)))"

fun extend_refs :: "payloads \<Rightarrow> payload list" where
  "extend_refs Empty = []"
| "extend_refs (PVec ps) = ps"
| "extend_refs (PMap m) = map snd m"

definition serialize :: "manager \<Rightarrow> u8 list" where
  "serialize h =
     concat (map args (sort_key timestamp (concat (map (\<lambda>(proxy, hx). extend_refs (hpayloads hx)) (table h)))))"

section \<open>What has to be replayed\<close>

text \<open>
  The operations the server performs on the manager, and the journal they denote: the recorded
  calls that are still needed, in the order in which they were made. Creating or destroying a
  handle discards its calls, a keyed call replaces the earlier one with its key.
\<close>

datatype hm_op = Create u64 u64 | Record u64 "u64 option" "u8 list" | Use u64 | Destroy u64

fun hm_step :: "hm_op \<Rightarrow> manager \<Rightarrow> (unit, manager) exec" where
  "hm_step (Create p v) h = Ok () (hm_insert p v h)"
| "hm_step (Record p k bs) h = insert_args p k bs h"
| "hm_step (Use p) h = exec_bind (get_inner p False h) (\<lambda>_ h. Ok () h)"
| "hm_step (Destroy p) h = exec_bind (get_inner p True h) (\<lambda>_ h. Ok () h)"

fun hm_run :: "hm_op list \<Rightarrow> manager \<Rightarrow> (unit, manager) exec" where
  "hm_run [] h = Ok () h"
| "hm_run (op # ops) h = exec_bind (hm_step op h) (\<lambda>_ h. hm_run ops h)"

type_synonym call = "u64 \<times> u64 option \<times> u8 list"

fun journal_step :: "call list \<Rightarrow> hm_op \<Rightarrow> call list" where
  "journal_step J (Create p v) = filter (\<lambda>(q, k, a). q \<noteq> p) J"
| "journal_step J (Record p None bs) = J @ [(p, None, bs)]"
| "journal_step J (Record p (Some k) bs) = filter (\<lambda>(q, l, a). \<not> (q = p \<and> l = Some k)) J @ [(p, Some k, bs)]"
| "journal_step J (Use p) = J"
| "journal_step J (Destroy p) = (if p = 0 then J else filter (\<lambda>(q, k, a). q \<noteq> p) J)"

definition journal :: "hm_op list \<Rightarrow> call list" where
  "journal ops = foldl journal_step [] ops"

section \<open>The refinement\<close>

text \<open>The recorded calls of a table, tagged with their handle and key.\<close>

fun tagged :: "payloads \<Rightarrow> (u64 option \<times> payload) list" where
  "tagged Empty = []"
| "tagged (PVec ps) = map (Pair None) ps"
| "tagged (PMap m) = map (\<lambda>(k, p). (Some k, p)) m"

definition calls_of :: "u64 \<times> handle \<Rightarrow> (u64 \<times> u64 option \<times> payload) list" where
  "calls_of e = map (Pair (fst e)) (tagged (hpayloads (snd e)))"

definition flat :: "manager \<Rightarrow> (u64 \<times> u64 option \<times> payload) list" where
  "flat h = concat (map calls_of (table h))"

definition untime :: "u64 \<times> u64 option \<times> payload \<Rightarrow> call" where
  "untime c = (fst c, fst (snd c), args (snd (snd c)))"

definition time_of :: "u64 \<times> u64 option \<times> payload \<Rightarrow> nat" where
  "time_of c = timestamp (snd (snd c))"

lemma mset_bt_insert:
  "bt_inv m \<Longrightarrow> mset (bt_insert k v m) = add_mset (k, v) (mset (bt_remove k m))"
proof (induction m)
  case (Cons e m)
  obtain j w where e: "e = (j, w)" by fastforce
  have m: "bt_inv m" and j: "\<And>x. x \<in> fst ` set m \<Longrightarrow> j < x" using Cons.prems e by (auto simp: bt_inv_def)
  have keep: "k \<le> j \<Longrightarrow> bt_remove k m = m"
    using j by (force simp: bt_remove_def filter_id_conv)
  have "bt_remove k (e # m) = (if j = k then bt_remove k m else (j, w) # bt_remove k m)"
    using e by (simp add: bt_remove_def)
  then show ?case using Cons.IH [OF m] keep e by auto
qed (simp add: bt_remove_def)

lemma bt_split:
  assumes "bt_inv m" and "bt_get m k = Some v"
  shows "mset m = add_mset (k, v) (mset (bt_remove k m))"
proof -
  have "bt_insert k v m = m"
    using bt.entries_unique [of "bt_insert k v m" m] assms by (auto simp: bt_simps)
  then show ?thesis using mset_bt_insert [OF assms(1), of k v] by simp
qed


lemma mset_concat_map: "mset (concat (map f xs)) = (\<Sum>x\<in>#mset xs. mset (f x))"
  by (induction xs) simp_all

lemma flat_remove: "concat (map calls_of (bt_remove p t)) = filter (\<lambda>c. fst c \<noteq> p) (concat (map calls_of t))"
  by (induction t) (auto simp: bt_remove_def calls_of_def filter_empty_conv)

lemma flat_others:
  "filter_mset (\<lambda>c. fst c \<noteq> p) (mset (flat h)) = (\<Sum>e\<in>#mset (bt_remove p (table h)). mset (calls_of e))"
  unfolding flat_def by (simp only: flip: mset_filter flat_remove) (simp add: mset_concat_map)

lemma flat_update:
  assumes "bt_inv (table h)" and "bt_get (table h) p = Some hx"
  shows "mset (flat (h\<lparr>table := bt_insert p hx' (table h)\<rparr>))
      = mset (calls_of (p, hx')) + filter_mset (\<lambda>c. fst c \<noteq> p) (mset (flat h))"
    "mset (flat h) = mset (calls_of (p, hx)) + filter_mset (\<lambda>c. fst c \<noteq> p) (mset (flat h))"
proof -
  show "mset (flat (h\<lparr>table := bt_insert p hx' (table h)\<rparr>))
      = mset (calls_of (p, hx')) + filter_mset (\<lambda>c. fst c \<noteq> p) (mset (flat h))"
    unfolding flat_others by (simp add: flat_def mset_concat_map mset_bt_insert [OF assms(1)])
  show "mset (flat h) = mset (calls_of (p, hx)) + filter_mset (\<lambda>c. fst c \<noteq> p) (mset (flat h))"
    unfolding flat_others by (simp add: flat_def mset_concat_map bt_split [OF assms])
qed

definition inner_ok :: "payloads \<Rightarrow> bool" where
  "inner_ok ps = (case ps of PMap m \<Rightarrow> bt_inv m | _ \<Rightarrow> True)"

definition hm_inv :: "manager \<Rightarrow> bool" where
  "hm_inv h \<longleftrightarrow> bt_inv (table h) \<and> (\<forall>p hx. bt_get (table h) p = Some hx \<longrightarrow> inner_ok (hpayloads hx))"

text \<open>The journal with timestamps that a manager implements.\<close>

definition implements :: "manager \<Rightarrow> (u64 \<times> u64 option \<times> payload) list \<Rightarrow> bool" where
  "implements h T \<longleftrightarrow> hm_inv h \<and> mset (flat h) = mset T \<and> sorted_wrt (<) (map time_of T)
     \<and> (\<forall>c \<in> set T. time_of c < TIMESTAMP h)"

lemma sorted_filter: "sorted_wrt (<) (map time_of T) \<Longrightarrow> sorted_wrt (<) (map time_of (filter P T))"
  by (induction T) auto

lemma implements_drop:
  assumes T: "implements h T" and h': "hm_inv h'" "TIMESTAMP h' = TIMESTAMP h"
    and "mset (flat h') = filter_mset P (mset (flat h))"
  shows "implements h' (filter P T)"
  using assms sorted_filter by (auto simp: implements_def)

lemma implements_add:
  assumes T: "implements h T" and h': "hm_inv h'" "TIMESTAMP h' = Suc (TIMESTAMP h)"
    and "time_of c = TIMESTAMP h"
    and "mset (flat h') = add_mset c (filter_mset P (mset (flat h)))"
  shows "implements h' (filter P T @ [c])"
  using assms sorted_filter [of T P] by (fastforce simp: implements_def sorted_wrt_append)

lemma hm_inv_update:
  assumes "hm_inv h" and "inner_ok (hpayloads hx)"
  shows "hm_inv (h\<lparr>table := bt_insert p hx (table h)\<rparr>)"
  using assms by (auto simp: hm_inv_def bt_simps)

lemma hm_inv_time [simp]: "hm_inv (h\<lparr>TIMESTAMP := n\<rparr>) = hm_inv h" "flat (h\<lparr>TIMESTAMP := n\<rparr>) = flat h"
  by (simp_all add: hm_inv_def flat_def)

lemma hm_inv_remove: "hm_inv h \<Longrightarrow> hm_inv (h\<lparr>table := bt_remove p (table h)\<rparr>)"
  by (auto simp: hm_inv_def bt_simps)

lemma map_untime_filter:
  assumes "\<And>c. P c \<longleftrightarrow> Q (untime c)"
  shows "map untime (filter P T) = filter Q (map untime T)"
  using assms by (induction T) auto

lemma create_refines:
  assumes T: "implements h T"
  shows "implements (hm_insert p v h) (filter (\<lambda>c. fst c \<noteq> p) T)"
proof (rule implements_drop [OF T])
  have inv: "hm_inv h" using T by (simp add: implements_def)
  then show "hm_inv (hm_insert p v h)"
    unfolding hm_insert_def by (intro hm_inv_update) (simp_all add: inner_ok_def)
  have "bt_inv (table h)" using inv by (simp add: hm_inv_def)
  then show "mset (flat (hm_insert p v h)) = filter_mset (\<lambda>c. fst c \<noteq> p) (mset (flat h))"
    unfolding flat_others
    by (simp add: hm_insert_def flat_def mset_concat_map mset_bt_insert) (simp add: calls_of_def)
qed (simp add: hm_insert_def)

lemma destroy_refines:
  assumes T: "implements h T"
  shows "implements (h\<lparr>table := bt_remove p (table h)\<rparr>) (filter (\<lambda>c. fst c \<noteq> p) T)"
proof (rule implements_drop [OF T])
  show "mset (flat (h\<lparr>table := bt_remove p (table h)\<rparr>)) = filter_mset (\<lambda>c. fst c \<noteq> p) (mset (flat h))"
    by (simp add: flat_def flat_remove)
qed (use T hm_inv_remove in \<open>auto simp: implements_def\<close>)

lemma payloads_insert_tagged:
  assumes "payloads_insert key p ps = Inl ps'" and "inner_ok ps"
  shows "inner_ok ps'"
    "mset (tagged ps') = add_mset (key, p) (filter_mset (\<lambda>t. key = None \<or> fst t \<noteq> key) (mset (tagged ps)))"
proof -
  have m: "mset (map (\<lambda>(k, p). (Some k, p)) (bt_insert k p m))
      = add_mset (Some k, p) (filter_mset (\<lambda>t. fst t \<noteq> Some k) (mset (map (\<lambda>(k, p). (Some k, p)) m)))"
    if "bt_inv m" for k m
    using mset_bt_insert [OF that, of k p]
    by (simp add: bt_remove_def image_mset_filter_mset_swap [symmetric] case_prod_unfold)
  have "inner_ok ps' \<and> mset (tagged ps')
      = add_mset (key, p) (filter_mset (\<lambda>t. key = None \<or> fst t \<noteq> key) (mset (tagged ps)))"
  proof (cases key)
    case None
    then show ?thesis using assms by (cases ps) (auto simp: inner_ok_def)
  next
    case (Some k)
    then show ?thesis
      using assms m by (cases ps) (auto simp: inner_ok_def bt.inv_insert, simp add: bt_inv_def)
  qed
  then show "inner_ok ps'"
    "mset (tagged ps') = add_mset (key, p) (filter_mset (\<lambda>t. key = None \<or> fst t \<noteq> key) (mset (tagged ps)))"
    by simp_all
qed

definition superseded :: "u64 \<Rightarrow> u64 option \<Rightarrow> u64 \<Rightarrow> u64 option \<Rightarrow> bool" where
  "superseded p key q k \<longleftrightarrow> q = p \<and> key \<noteq> None \<and> k = key"

lemma record_refines:
  assumes T: "implements h T" and r: "insert_args p key bs h = Ok u h'"
  shows "implements h' (filter (\<lambda>c. \<not> superseded p key (fst c) (fst (snd c))) T
            @ [(p, key, \<lparr>timestamp = TIMESTAMP h, args = bs\<rparr>)])"
proof -
  let ?c = "\<lparr>timestamp = TIMESTAMP h, args = bs\<rparr>"
  let ?P = "\<lambda>c. \<not> superseded p key (fst c) (fst (snd c))"
  obtain hx ps where hx: "bt_get (table h) p = Some hx" and ps: "payloads_insert key ?c (hpayloads hx) = Inl ps"
    and h': "h' = h\<lparr>TIMESTAMP := TIMESTAMP h + 1, table := bt_insert p (hx\<lparr>hpayloads := ps\<rparr>) (table h)\<rparr>"
    using r by (auto simp: insert_args_def Let_def split: option.splits sum.splits)
  have inv: "hm_inv h" using T by (simp add: implements_def)
  then have bt: "bt_inv (table h)" and inner: "inner_ok (hpayloads hx)" using hx by (auto simp: hm_inv_def)
  note new = payloads_insert_tagged [OF ps inner]
  have flat': "flat h' = flat (h\<lparr>table := bt_insert p (hx\<lparr>hpayloads := ps\<rparr>) (table h)\<rparr>)"
    by (simp add: h' flat_def)
  have own: "mset (calls_of (p, hx\<lparr>hpayloads := ps\<rparr>)) = add_mset (p, key, ?c) (filter_mset ?P (mset (calls_of (p, hx))))"
    by (simp add: calls_of_def new(2) filter_mset_image_mset superseded_def cong: filter_mset_cong)
  have "mset (flat h') = add_mset (p, key, ?c) (filter_mset ?P (mset (flat h)))"
  proof -
    have "filter_mset ?P (filter_mset (\<lambda>c. fst c \<noteq> p) (mset (flat h))) = filter_mset (\<lambda>c. fst c \<noteq> p) (mset (flat h))"
      by (auto simp: superseded_def filter_filter_mset intro: filter_mset_cong)
    then have "filter_mset ?P (mset (flat h))
        = filter_mset ?P (mset (calls_of (p, hx))) + filter_mset (\<lambda>c. fst c \<noteq> p) (mset (flat h))"
      using arg_cong [OF flat_update(2) [OF bt hx], of "filter_mset ?P"] by (simp only: filter_union_mset)
    then show ?thesis using flat_update(1) [OF bt hx] flat' own by simp
  qed
  moreover have "hm_inv h'" using hm_inv_update [OF inv, of "hx\<lparr>hpayloads := ps\<rparr>" p] new(1) by (simp add: h' hm_inv_def)
  ultimately show ?thesis by (intro implements_add [OF T]) (simp_all add: h' time_of_def)
qed

lemma hm_step_refines:
  assumes T: "implements h T" and "hm_step op h = Ok u h'"
  shows "\<exists>T'. implements h' T' \<and> map untime T' = journal_step (map untime T) op"
proof (cases op)
  case (Create p v)
  then show ?thesis
    using assms create_refines [OF T]
    by (intro exI [of _ "filter (\<lambda>c. fst c \<noteq> p) T"]) (auto simp: untime_def intro!: map_untime_filter)
next
  case (Record p key bs)
  let ?T = "filter (\<lambda>c. \<not> superseded p key (fst c) (fst (snd c))) T @ [(p, key, \<lparr>timestamp = TIMESTAMP h, args = bs\<rparr>)]"
  have "implements h' ?T" using record_refines [OF T] Record assms(2) by simp
  moreover have "map untime ?T = journal_step (map untime T) op"
    unfolding Record
    by (cases key) (auto simp: superseded_def untime_def intro!: map_untime_filter)
  ultimately show ?thesis by blast
next
  case (Use p)
  then show ?thesis
    using assms by (auto simp: get_inner_def exec_simps split: option.splits if_splits)
next
  case (Destroy p)
  show ?thesis
  proof (cases "p = 0")
    case True
    then show ?thesis using assms Destroy by (auto simp: get_inner_def)
  next
    case False
    then have "h' = h\<lparr>table := bt_remove p (table h)\<rparr>"
      using assms(2) Destroy by (auto simp: get_inner_def split: option.splits)
    then show ?thesis
      using destroy_refines [OF T] Destroy False
      by (intro exI [of _ "filter (\<lambda>c. fst c \<noteq> p) T"]) (auto simp: untime_def intro!: map_untime_filter)
  qed
qed

lemma hm_run_refines:
  "implements h T \<Longrightarrow> hm_run ops h = Ok u h' \<Longrightarrow>
     \<exists>T'. implements h' T' \<and> map untime T' = foldl journal_step (map untime T) ops"
proof (induction ops arbitrary: h T)
  case (Cons op ops)
  then obtain h1 where h1: "hm_step op h = Ok () h1" "hm_run ops h1 = Ok u h'"
    by (auto simp: exec_simps)
  obtain T1 where "implements h1 T1" "map untime T1 = journal_step (map untime T) op"
    using hm_step_refines [OF Cons.prems(1) h1(1)] by blast
  then show ?case using Cons.IH [OF _ h1(2)] by fastforce
qed auto

text \<open>Sorting by timestamp recovers the journal.\<close>

lemma sort_key_unique:
  assumes "mset xs = mset ys" and "sorted_wrt (<) (map f ys)"
  shows "sort_key f xs = ys"
proof -
  have m: "mset (sort_key f xs) = mset ys" using assms(1) by simp
  then have st: "set (sort_key f xs) = set ys" by (metis set_mset_mset)
  have "mset (map f (sort_key f xs)) = mset (map f ys)" using m by (metis mset_map)
  then have "map f (sort_key f xs) = map f ys"
    using assms(2) by (metis properties_for_sort sorted_sort_key strict_sorted_iff)
  moreover have "inj_on f (set ys)" using assms(2) by (simp add: strict_sorted_iff distinct_map)
  ultimately show ?thesis using st by (metis map_inj_on Un_absorb)
qed

lemma serialize_implements:
  assumes "implements h T"
  shows "serialize h = concat (map (\<lambda>(p, k, a). a) (map untime T))"
proof -
  have refs: "extend_refs ps = map snd (tagged ps)" for ps by (cases ps) (auto simp: comp_def)
  have "concat (map (\<lambda>(proxy, hx). extend_refs (hpayloads hx)) t) = map (snd \<circ> snd) (concat (map calls_of t))" for t
    by (induction t) (auto simp: refs calls_of_def)
  then have "concat (map (\<lambda>(proxy, hx). extend_refs (hpayloads hx)) (table h)) = map (snd \<circ> snd) (flat h)"
    by (simp add: flat_def)
  moreover have "sort_key timestamp (map (snd \<circ> snd) (flat h)) = map (snd \<circ> snd) T"
  proof (rule sort_key_unique)
    show "mset (map (snd \<circ> snd) (flat h)) = mset (map (snd \<circ> snd) T)"
      using assms by (simp add: implements_def)
    have "map timestamp (map (snd \<circ> snd) T) = map time_of T" by (simp add: time_of_def)
    then show "sorted_wrt (<) (map timestamp (map (snd \<circ> snd) T))"
      using assms by (simp only: implements_def)
  qed
  ultimately show ?thesis
    by (simp add: serialize_def untime_def case_prod_unfold comp_def)
qed

lemma implements_new: "implements manager_new []"
  by (simp add: implements_def manager_new_def hm_inv_def flat_def bt_simps)

section \<open>Properties\<close>

text \<open>
  C7. The image of the handle manager is the journal: whatever handles were created, used,
  configured and destroyed, what \<open>serialize\<close> writes is the concatenation of the recorded calls
  that are still needed, in the order in which the calls were made, across all handles.
\<close>

theorem serialize_is_journal:
  assumes "hm_run ops manager_new = Ok u h"
  shows "serialize h = concat (map (\<lambda>(p, k, a). a) (journal ops))"
proof -
  obtain T where T: "implements h T" "map untime T = journal ops"
    using hm_run_refines [OF implements_new assms] by (auto simp: journal_def)
  show ?thesis using serialize_implements [OF T(1)] unfolding T(2) .
qed

definition ops0 :: "hm_op list" where
  "ops0 = [Create 9 900, Record 9 None [1], Create 4 400, Record 4 (Some 7) [2], Record 9 None [3],
           Record 4 (Some 7) [4], Create 5 500, Record 5 None [5], Use 4, Destroy 5]"

theorem serialize_is_journal_witness:
  "\<exists>h. hm_run ops0 manager_new = Ok () h \<and> serialize h = [1, 3, 4]"
proof -
  have "case hm_run ops0 manager_new of Ok _ _ \<Rightarrow> True | _ \<Rightarrow> False" by code_simp
  then obtain h where h: "hm_run ops0 manager_new = Ok () h" by (auto split: exec.splits)
  have "concat (map (\<lambda>(p, k, a). a) (journal ops0)) = [1, 3, 4]" by code_simp
  then show ?thesis using serialize_is_journal [OF h] h by simp
qed

lemma hm_step_other:
  assumes "hm_step op h = Ok u h'" and "bt_inv (table h)"
    and "\<And>v. op \<noteq> Create p v" and "op \<noteq> Destroy p"
  shows "bt_inv (table h') \<and> map_option hvalue (bt_get (table h') p) = map_option hvalue (bt_get (table h) p)"
proof (cases op)
  case (Record q k bs)
  then show ?thesis
    using assms by (auto simp: insert_args_def Let_def bt_simps split: option.splits sum.splits)
next
  case (Create q w)
  then have "q \<noteq> p" using assms(3) by blast
  then show ?thesis using Create assms(1,2) by (auto simp: hm_insert_def bt_simps)
qed (use assms in \<open>auto simp: hm_insert_def get_inner_def exec_simps bt_simps split: option.splits if_splits\<close>)

lemma hm_run_other:
  "hm_run ops h = Ok u h' \<Longrightarrow> bt_inv (table h) \<Longrightarrow> (\<And>v. Create p v \<notin> set ops) \<Longrightarrow> Destroy p \<notin> set ops
     \<Longrightarrow> bt_inv (table h') \<and> map_option hvalue (bt_get (table h') p) = map_option hvalue (bt_get (table h) p)"
proof (induction ops arbitrary: h)
  case (Cons op ops)
  obtain h1 where h1: "hm_step op h = Ok () h1" "hm_run ops h1 = Ok u h'"
    using Cons.prems(1) by (auto simp: exec_simps)
  have "bt_inv (table h1) \<and> map_option hvalue (bt_get (table h1) p) = map_option hvalue (bt_get (table h) p)"
    by (rule hm_step_other [OF h1(1) Cons.prems(2)]) (use Cons.prems(3,4) in auto)
  then show ?case using Cons.IH [OF h1(2)] Cons.prems(3,4) by auto
qed auto

text \<open>
  C15. Handles are translated faithfully: the null handle is never looked up, a live proxy gives
  the value it was created with, whatever was recorded for it and for other handles in between,
  and once it is destroyed a lookup of it panics.
\<close>

theorem live_proxy_value:
  assumes "hm_run (ops @ Create p v # ops') manager_new = Ok u h" and "p \<noteq> 0"
    and "\<forall>w. Create p w \<notin> set ops'" and "Destroy p \<notin> set ops'"
  shows "get_inner p False h = Ok v h \<and> get_inner 0 d h = Ok 0 h
    \<and> (\<exists>h'. get_inner p True h = Ok v h' \<and> get_inner p False h' = Abort ''invalid proxy handle'')"
proof -
  have app: "hm_run (xs @ ys) m = exec_bind (hm_run xs m) (\<lambda>_ n. hm_run ys n)" for xs ys m
  proof (induction xs arbitrary: m)
    case (Cons x xs)
    then show ?case by (cases "hm_step x m") simp_all
  qed simp
  obtain h0 where h0: "hm_run ops manager_new = Ok () h0"
    and run: "hm_run ops' (hm_insert p v h0) = Ok u h"
    using assms(1) by (auto simp: app exec_simps)
  obtain T where "implements h0 T" using hm_run_refines [OF implements_new h0] by blast
  then have bt: "bt_inv (table (hm_insert p v h0))"
    by (simp add: implements_def hm_inv_def hm_insert_def bt_simps)
  have "bt_inv (table h0)" using \<open>implements h0 T\<close> by (simp add: implements_def hm_inv_def)
  then have "map_option hvalue (bt_get (table (hm_insert p v h0)) p) = Some v"
    by (simp add: hm_insert_def bt_simps)
  moreover note hm_run_other [OF run bt, of p] assms(3,4)
  ultimately have "bt_inv (table h)" "map_option hvalue (bt_get (table h) p) = Some v" by auto
  then show ?thesis using assms(2) by (auto simp: get_inner_def bt_simps)
qed

theorem live_proxy_value_witness:
  "\<exists>h. hm_run ([Create 3 30] @ Create 9 900 # [Record 3 None [1], Destroy 3]) manager_new = Ok () h
     \<and> get_inner 9 False h = Ok 900 h"
proof -
  have "case hm_run ([Create 3 30] @ Create 9 900 # [Record 3 None [1], Destroy 3]) manager_new
      of Ok _ _ \<Rightarrow> True | _ \<Rightarrow> False" by code_simp
  then obtain h where h: "hm_run ([Create 3 30] @ Create 9 900 # [Record 3 None [1], Destroy 3]) manager_new = Ok () h"
    by (auto split: exec.splits)
  show ?thesis using live_proxy_value [OF h] h by simp
qed

end
