(* ===== verification/Device_Memory.thy ===== *)
theory Device_Memory
  imports Prelude BTree
begin

text \<open>
  The device memory manager of the server (\<open>server/src/phos/memory/manager.rs\<close> and
  \<open>cuda.rs\<close>): it reserves one address range, hands it out from the bottom, backs it with
  physical memory through the driver's virtual memory functions, and describes it for a
  checkpoint so that a new process can map everything at the same addresses. The driver is the
  parameter \<open>driver\<close>, a function per call on a state of its own. Addresses and sizes are 64-bit
  words and wrap, as they do in an optimised build.
\<close>

section \<open>The driver\<close>

definition CUDA_SUCCESS :: int where "CUDA_SUCCESS = 0"
definition CUDA_ERROR_INVALID_VALUE :: int where "CUDA_ERROR_INVALID_VALUE = 1"
definition CUDA_ERROR_OUT_OF_MEMORY :: int where "CUDA_ERROR_OUT_OF_MEMORY = 2"
definition CUDA_ERROR_INVALID_CONTEXT :: int where "CUDA_ERROR_INVALID_CONTEXT = 201"
definition CUDA_ERROR_ALREADY_MAPPED :: int where "CUDA_ERROR_ALREADY_MAPPED = 208"

lemmas cu_codes = CUDA_SUCCESS_def CUDA_ERROR_INVALID_VALUE_def CUDA_ERROR_OUT_OF_MEMORY_def
  CUDA_ERROR_INVALID_CONTEXT_def CUDA_ERROR_ALREADY_MAPPED_def

text \<open>The fields of \<open>CUmemAllocationProp\<close> that the server reads or sets.\<close>

record alloc_prop =
  location_is_device :: bool
  location_id :: int
  requestedHandleTypes :: u32
  compressionType :: u8
  gpuDirectRDMACapable :: u8

text \<open>The fields of \<open>CUmemAccessDesc\<close>; \<open>desc_readwrite\<close> is \<open>flags == PROT_READWRITE\<close>.\<close>

record access_desc =
  desc_is_device :: bool
  desc_id :: int
  desc_readwrite :: bool

text \<open>
  The calls that can fail return their code. The results of \<open>cuCtxPopCurrent\<close>,
  \<open>cuMemRelease\<close> and \<open>cuMemUnmap\<close>, which destructors make, are only looked at by
  \<open>debug_assert_eq!\<close>.
\<close>

record 'w driver =
  cuCtxPushCurrent :: "'w \<Rightarrow> int \<times> 'w"
  cuCtxPopCurrent :: "'w \<Rightarrow> 'w"
  cuMemCreate :: "u64 \<Rightarrow> alloc_prop \<Rightarrow> 'w \<Rightarrow> (int \<times> u64) \<times> 'w"
  cuMemRelease :: "u64 \<Rightarrow> 'w \<Rightarrow> 'w"
  cuMemMap :: "u64 \<Rightarrow> u64 \<Rightarrow> u64 \<Rightarrow> 'w \<Rightarrow> int \<times> 'w"
  cuMemUnmap :: "u64 \<Rightarrow> u64 \<Rightarrow> 'w \<Rightarrow> 'w"
  cuMemSetAccess :: "u64 \<Rightarrow> u64 \<Rightarrow> access_desc \<Rightarrow> 'w \<Rightarrow> int \<times> 'w"
  cuMemGetProp :: "u64 \<Rightarrow> 'w \<Rightarrow> (int \<times> alloc_prop) \<times> 'w"

definition mem_prop_for :: "int \<Rightarrow> alloc_prop" where
  "mem_prop_for dev = \<lparr>location_is_device = True, location_id = dev, requestedHandleTypes = 0,
     compressionType = 0, gpuDirectRDMACapable = 0\<rparr>"

definition map_access :: "int \<Rightarrow> access_desc" where
  "map_access dev = \<lparr>desc_is_device = True, desc_id = dev, desc_readwrite = True\<rparr>"

section \<open>The manager\<close>

datatype alloc_handle = Owned u64 | Borrowed u64

record map_slot =
  map_ptr :: u64
  map_size :: u64
  slot_handle :: alloc_handle

record dmm =
  granularity :: u64
  next_addr :: u64
  allocations :: "(u64, map_slot) btree"
  user_handles :: "(u64, u64 \<times> u64) btree"
  range_ptr :: u64
  range_end :: u64
  device :: int

text \<open>
  An operation returns \<open>None\<close> when an assertion panics, and otherwise \<open>Inl\<close> the value or
  \<open>Inr\<close> the driver's error, with the new states of the manager and of the driver.
\<close>

type_synonym ('a, 'w) op = "dmm \<times> 'w \<Rightarrow> (('a + int) \<times> dmm \<times> 'w) option"

text \<open>\<open>usize::next_multiple_of\<close>, which wraps in an optimised build.\<close>

definition next_multiple_of :: "u64 \<Rightarrow> u64 \<Rightarrow> u64" where
  "next_multiple_of x g = (if x mod g = 0 then x else x + (g - x mod g))"

text \<open>
  \<open>context.push_current()?\<close> at the head of a block: the guard pops the context when the block
  is left.
\<close>

definition with_context :: "'w driver \<Rightarrow> ('a, 'w) op \<Rightarrow> ('a, 'w) op" where
  "with_context drv body = (\<lambda>(m, w).
     let (r, w1) = cuCtxPushCurrent drv w
     in if r \<noteq> CUDA_SUCCESS then Some (Inr r, m, w1)
        else (case body (m, w1) of
                None \<Rightarrow> None
              | Some (x, m2, w2) \<Rightarrow> Some (x, m2, cuCtxPopCurrent drv w2)))"

definition reserve_aligned :: "u64 \<Rightarrow> (u64, 'w) op" where
  "reserve_aligned sz = (\<lambda>(m, w).
     if range_end m < next_addr m + sz then Some (Inr CUDA_ERROR_OUT_OF_MEMORY, m, w)
     else Some (Inl (next_addr m), m\<lparr>next_addr := next_addr m + sz\<rparr>, w))"

definition reserve_address :: "u64 \<Rightarrow> u64 \<Rightarrow> (u64, 'w) op" where
  "reserve_address sz alignment = (\<lambda>(m, w).
     if alignment = 0 \<or> granularity m mod alignment = 0
     then reserve_aligned (next_multiple_of sz (granularity m)) (m, w)
     else None)"

text \<open>
  \<open>MemoryMap::new\<close> and \<open>set_access\<close> on a new handle, with the destructors that run when
  one of them fails.
\<close>

definition map_owned :: "'w driver \<Rightarrow> int \<Rightarrow> u64 \<Rightarrow> u64 \<Rightarrow> 'w \<Rightarrow> (map_slot + int) \<times> 'w" where
  "map_owned drv dev ptr sz w =
     (let ((r, h), w) = cuMemCreate drv sz (mem_prop_for dev) w
      in if r \<noteq> CUDA_SUCCESS then (Inr r, w)
         else (let (r, w) = cuMemMap drv ptr sz h w
               in if r \<noteq> CUDA_SUCCESS then (Inr r, cuMemRelease drv h w)
                  else (let (r, w) = cuMemSetAccess drv ptr sz (map_access dev) w
                        in if r \<noteq> CUDA_SUCCESS
                           then (Inr r, cuMemRelease drv h (cuMemUnmap drv ptr sz w))
                           else (Inl \<lparr>map_ptr = ptr, map_size = sz, slot_handle = Owned h\<rparr>, w))))"

definition allocate :: "'w driver \<Rightarrow> u64 \<Rightarrow> (u64, 'w) op" where
  "allocate drv sz0 = (\<lambda>(m, w).
     let sz = next_multiple_of sz0 (granularity m)
     in case reserve_aligned sz (m, w) of
          None \<Rightarrow> None
        | Some (Inr e, m1, w1) \<Rightarrow> Some (Inr e, m1, w1)
        | Some (Inl ptr, m1, w1) \<Rightarrow>
            with_context drv (\<lambda>(m, w).
              case map_owned drv (device m) ptr sz w of
                (Inr e, w) \<Rightarrow> Some (Inr e, m, w)
              | (Inl sl, w) \<Rightarrow>
                  (if bt_get (allocations m) ptr \<noteq> None then None
                   else Some (Inl ptr, m\<lparr>allocations := bt_insert ptr sl (allocations m)\<rparr>, w))) (m1, w1))"

text \<open>Dropping a slot unmaps it and then releases the handle it owns.\<close>

definition drop_slot :: "'w driver \<Rightarrow> map_slot \<Rightarrow> 'w \<Rightarrow> 'w" where
  "drop_slot drv sl w =
     (let w1 = cuMemUnmap drv (map_ptr sl) (map_size sl) w
      in case slot_handle sl of Owned h \<Rightarrow> cuMemRelease drv h w1 | Borrowed _ \<Rightarrow> w1)"

text \<open>
  The end of \<open>free\<close>, \<open>unmap\<close> and \<open>release_user_handle\<close>: the entry is already out of the
  map, so that it is dropped even if the context cannot be pushed.
\<close>

definition drop_in_context :: "'w driver \<Rightarrow> ('w \<Rightarrow> 'w) \<Rightarrow> (unit, 'w) op" where
  "drop_in_context drv destroy = (\<lambda>(m, w).
     let (r, w1) = cuCtxPushCurrent drv w
     in if r \<noteq> CUDA_SUCCESS then Some (Inr r, m, destroy w1)
        else Some (Inl (), m, cuCtxPopCurrent drv (destroy w1)))"

definition free :: "'w driver \<Rightarrow> u64 \<Rightarrow> (unit, 'w) op" where
  "free drv ptr = (\<lambda>(m, w).
     if ptr = 0 then Some (Inl (), m, w)
     else (case bt_get (allocations m) ptr of
             None \<Rightarrow> Some (Inr CUDA_ERROR_INVALID_VALUE, m, w)
           | Some sl \<Rightarrow>
               drop_in_context drv (drop_slot drv sl)
                 (m\<lparr>allocations := bt_remove ptr (allocations m)\<rparr>, w)))"

definition create_user_handle :: "'w driver \<Rightarrow> u64 \<Rightarrow> alloc_prop \<Rightarrow> (u64, 'w) op" where
  "create_user_handle drv sz prop = (\<lambda>(m, w).
     if \<not> location_is_device prop \<or> location_id prop \<noteq> device m then None
     else (let proxy = (case last_key (user_handles m) of Some k \<Rightarrow> k + 1 | None \<Rightarrow> 1)
           in with_context drv (\<lambda>(m, w).
                let ((r, h), w) = cuMemCreate drv sz prop w
                in if r \<noteq> CUDA_SUCCESS then Some (Inr r, m, w)
                   else if bt_get (user_handles m) proxy \<noteq> None then None
                   else Some (Inl proxy,
                          m\<lparr>user_handles := bt_insert proxy (h, sz) (user_handles m)\<rparr>, w)) (m, w)))"

definition map_user_handle :: "'w driver \<Rightarrow> u64 \<Rightarrow> u64 \<Rightarrow> u64 \<Rightarrow> (unit, 'w) op" where
  "map_user_handle drv ptr sz proxy = (\<lambda>(m, w).
     case bt_get (user_handles m) proxy of
       None \<Rightarrow> Some (Inr CUDA_ERROR_INVALID_VALUE, m, w)
     | Some (h, _) \<Rightarrow>
         (if bt_get (allocations m) ptr \<noteq> None then Some (Inr CUDA_ERROR_ALREADY_MAPPED, m, w)
          else with_context drv (\<lambda>(m, w).
            let (r, w) = cuMemMap drv ptr sz h w
            in if r \<noteq> CUDA_SUCCESS then Some (Inr r, m, w)
               else Some (Inl (), m\<lparr>allocations := bt_insert ptr
                       \<lparr>map_ptr = ptr, map_size = sz, slot_handle = Borrowed proxy\<rparr> (allocations m)\<rparr>, w))
            (m, w)))"

definition set_access :: "'w driver \<Rightarrow> u64 \<Rightarrow> u64 \<Rightarrow> access_desc \<Rightarrow> (unit, 'w) op" where
  "set_access drv ptr sz desc = (\<lambda>(m, w).
     if \<not> desc_is_device desc \<or> desc_id desc \<noteq> device m \<or> \<not> desc_readwrite desc
     then Some (Inr CUDA_ERROR_INVALID_VALUE, m, w)
     else with_context drv (\<lambda>(m, w).
            let (r, w) = cuMemSetAccess drv ptr sz desc w
            in Some (if r = CUDA_SUCCESS then Inl () else Inr r, m, w)) (m, w))"

definition unmap :: "'w driver \<Rightarrow> u64 \<Rightarrow> u64 \<Rightarrow> (unit, 'w) op" where
  "unmap drv ptr sz = (\<lambda>(m, w).
     case bt_get (allocations m) ptr of
       None \<Rightarrow> Some (Inr CUDA_ERROR_INVALID_VALUE, m, w)
     | Some sl \<Rightarrow>
         (if (case slot_handle sl of Owned _ \<Rightarrow> True | Borrowed _ \<Rightarrow> False) \<or> map_size sl \<noteq> sz
          then Some (Inr CUDA_ERROR_INVALID_VALUE, m, w)
          else drop_in_context drv (drop_slot drv sl)
                 (m\<lparr>allocations := bt_remove ptr (allocations m)\<rparr>, w)))"

definition release_user_handle :: "'w driver \<Rightarrow> u64 \<Rightarrow> (unit, 'w) op" where
  "release_user_handle drv proxy = (\<lambda>(m, w).
     case bt_get (user_handles m) proxy of
       None \<Rightarrow> Some (Inr CUDA_ERROR_INVALID_VALUE, m, w)
     | Some (h, _) \<Rightarrow>
         drop_in_context drv (cuMemRelease drv h)
           (m\<lparr>user_handles := bt_remove proxy (user_handles m)\<rparr>, w))"

section \<open>Checkpoint and restore\<close>

record alloc_prop_meta =
  requested_handle_types :: u32
  compression_type :: u8
  gpu_direct_rdma_capable :: u8

record segment_meta =
  seg_ptr :: u64
  seg_size :: u64
  seg_proxy :: u64

record user_handle_meta =
  uh_proxy :: u64
  uh_size :: u64
  uh_prop :: alloc_prop_meta

record checkpoint =
  ck_granularity :: u64
  ck_next :: u64
  ck_segments :: "segment_meta list"
  ck_user_handles :: "user_handle_meta list"

definition from_raw :: "alloc_prop \<Rightarrow> alloc_prop_meta" where
  "from_raw raw = \<lparr>requested_handle_types = requestedHandleTypes raw,
     compression_type = compressionType raw, gpu_direct_rdma_capable = gpuDirectRDMACapable raw\<rparr>"

definition to_raw :: "alloc_prop_meta \<Rightarrow> int \<Rightarrow> alloc_prop" where
  "to_raw p dev = \<lparr>location_is_device = True, location_id = dev,
     requestedHandleTypes = requested_handle_types p, compressionType = compression_type p,
     gpuDirectRDMACapable = gpu_direct_rdma_capable p\<rparr>"

definition segment_of :: "map_slot \<Rightarrow> segment_meta" where
  "segment_of sl = \<lparr>seg_ptr = map_ptr sl, seg_size = map_size sl,
     seg_proxy = (case slot_handle sl of Owned _ \<Rightarrow> 0 | Borrowed proxy \<Rightarrow> proxy)\<rparr>"

fun describe_handles ::
    "'w driver \<Rightarrow> (u64, u64 \<times> u64) btree \<Rightarrow> 'w \<Rightarrow> (user_handle_meta list + int) \<times> 'w" where
  "describe_handles drv [] w = (Inl [], w)"
| "describe_handles drv ((proxy, h, sz) # hs) w =
     (let ((r, prop), w) = cuMemGetProp drv h w
      in if r \<noteq> CUDA_SUCCESS then (Inr r, w)
         else (case describe_handles drv hs w of
                 (Inr e, w) \<Rightarrow> (Inr e, w)
               | (Inl us, w) \<Rightarrow>
                   (Inl (\<lparr>uh_proxy = proxy, uh_size = sz, uh_prop = from_raw prop\<rparr> # us), w)))"

definition checkpoint_meta :: "'w driver \<Rightarrow> (checkpoint, 'w) op" where
  "checkpoint_meta drv = with_context drv (\<lambda>(m, w).
     case describe_handles drv (user_handles m) w of
       (Inr e, w) \<Rightarrow> Some (Inr e, m, w)
     | (Inl us, w) \<Rightarrow>
         Some (Inl \<lparr>ck_granularity = granularity m, ck_next = next_addr m,
           ck_segments = map (segment_of \<circ> snd) (allocations m), ck_user_handles = us\<rparr>, m, w))"

text \<open>
  The two loops of \<open>restore\<close>. On an error they return what was built so far, which is then
  dropped; a duplicate entry fails an assertion.
\<close>

fun restore_handles :: "'w driver \<Rightarrow> int \<Rightarrow> user_handle_meta list \<Rightarrow> (u64, u64 \<times> u64) btree \<Rightarrow> 'w \<Rightarrow>
    (int \<times> (u64, u64 \<times> u64) btree \<times> 'w) option" where
  "restore_handles drv dev [] hs w = Some (CUDA_SUCCESS, hs, w)"
| "restore_handles drv dev (u # us) hs w =
     (let ((r, h), w) = cuMemCreate drv (uh_size u) (to_raw (uh_prop u) dev) w
      in if r \<noteq> CUDA_SUCCESS then Some (r, hs, w)
         else if bt_get hs (uh_proxy u) \<noteq> None then None
         else restore_handles drv dev us (bt_insert (uh_proxy u) (h, uh_size u) hs) w)"

definition restore_segment :: "'w driver \<Rightarrow> int \<Rightarrow> (u64, u64 \<times> u64) btree \<Rightarrow> segment_meta \<Rightarrow> 'w \<Rightarrow>
    (map_slot + int) \<times> 'w" where
  "restore_segment drv dev hs s w =
     (if seg_proxy s = 0 then map_owned drv dev (seg_ptr s) (seg_size s) w
      else (case bt_get hs (seg_proxy s) of
              None \<Rightarrow> (Inr CUDA_ERROR_INVALID_VALUE, w)
            | Some (h, _) \<Rightarrow>
                (let (r, w) = cuMemMap drv (seg_ptr s) (seg_size s) h w
                 in if r \<noteq> CUDA_SUCCESS then (Inr r, w)
                    else (let (r, w) = cuMemSetAccess drv (seg_ptr s) (seg_size s) (map_access dev) w
                          in if r \<noteq> CUDA_SUCCESS then (Inr r, cuMemUnmap drv (seg_ptr s) (seg_size s) w)
                             else (Inl \<lparr>map_ptr = seg_ptr s, map_size = seg_size s,
                                         slot_handle = Borrowed (seg_proxy s)\<rparr>, w)))))"

fun restore_segments :: "'w driver \<Rightarrow> int \<Rightarrow> (u64, u64 \<times> u64) btree \<Rightarrow> segment_meta list \<Rightarrow>
    (u64, map_slot) btree \<Rightarrow> 'w \<Rightarrow> (int \<times> (u64, map_slot) btree \<times> 'w) option" where
  "restore_segments drv dev hs [] al w = Some (CUDA_SUCCESS, al, w)"
| "restore_segments drv dev hs (s # ss) al w =
     (case restore_segment drv dev hs s w of
        (Inr e, w) \<Rightarrow> Some (e, al, w)
      | (Inl sl, w) \<Rightarrow>
          (if bt_get al (seg_ptr s) \<noteq> None then None
           else restore_segments drv dev hs ss (bt_insert (seg_ptr s) sl al) w))"

definition drop_slots :: "'w driver \<Rightarrow> (u64, map_slot) btree \<Rightarrow> 'w \<Rightarrow> 'w" where
  "drop_slots drv al w = fold (\<lambda>(_, sl). drop_slot drv sl) al w"

definition drop_handles :: "'w driver \<Rightarrow> (u64, u64 \<times> u64) btree \<Rightarrow> 'w \<Rightarrow> 'w" where
  "drop_handles drv hs w = fold (\<lambda>(_, h, _). cuMemRelease drv h) hs w"

definition restore :: "'w driver \<Rightarrow> checkpoint \<Rightarrow> (unit, 'w) op" where
  "restore drv meta = (\<lambda>(m, w).
     if allocations m \<noteq> [] \<or> user_handles m \<noteq> [] then Some (Inr CUDA_ERROR_INVALID_CONTEXT, m, w)
     else if ck_granularity meta \<noteq> granularity m then Some (Inr CUDA_ERROR_INVALID_VALUE, m, w)
     else if range_end m < ck_next meta then Some (Inr CUDA_ERROR_INVALID_VALUE, m, w)
     else with_context drv (\<lambda>(m, w).
       case restore_handles drv (device m) (ck_user_handles meta) [] w of
         None \<Rightarrow> None
       | Some (r, hs, w) \<Rightarrow>
           (if r \<noteq> CUDA_SUCCESS then Some (Inr r, m, drop_handles drv hs w)
            else (case restore_segments drv (device m) hs (ck_segments meta) [] w of
                    None \<Rightarrow> None
                  | Some (r, al, w) \<Rightarrow>
                      (if r \<noteq> CUDA_SUCCESS
                       then Some (Inr r, m, drop_handles drv hs (drop_slots drv al w))
                       else Some (Inl (), m\<lparr>user_handles := hs, allocations := al\<rparr>, w)))))
       (m\<lparr>next_addr := ck_next meta\<rparr>, w))"

section \<open>Sequences of requests\<close>

text \<open>
  The requests that reach the manager, with the arguments of the functions of
  \<open>memory.rs\<close>: \<open>cudaMalloc\<close>, \<open>cudaFree\<close> and the \<open>cuMem*\<close> calls.
\<close>

datatype request =
    Allocate u64
  | Free u64
  | Address_Reserve u64 u64 u64 u64
  | Address_Free u64 u64
  | Create u64 alloc_prop u64
  | Map u64 u64 u64 u64 u64
  | Set_Access u64 u64 "access_desc list"
  | Unmap u64 u64
  | Release u64

text \<open>\<open>Address ptr sz\<close>: the client was given the range of \<open>sz\<close> bytes at \<open>ptr\<close>.\<close>

datatype answer = Address u64 u64 | Proxy u64 | Done | Failed int

definition answer_with :: "('a \<Rightarrow> answer) \<Rightarrow> (('a + int) \<times> dmm \<times> 'w) option \<Rightarrow>
    (answer \<times> dmm \<times> 'w) option" where
  "answer_with f r = map_option (\<lambda>(x, m, w). (case x of Inl v \<Rightarrow> f v | Inr e \<Rightarrow> Failed e, m, w)) r"

definition cudaErrorInvalidDevicePointer :: int where "cudaErrorInvalidDevicePointer = 17"

fun serve :: "'w driver \<Rightarrow> request \<Rightarrow> dmm \<times> 'w \<Rightarrow> (answer \<times> dmm \<times> 'w) option" where
  "serve drv (Allocate sz) s =
     answer_with (\<lambda>p. Address p (next_multiple_of sz (granularity (fst s)))) (allocate drv sz s)"
| "serve drv (Free p) s =
     map_option (\<lambda>(a, t). (if a = Failed CUDA_ERROR_INVALID_VALUE then Failed cudaErrorInvalidDevicePointer
                           else a, t))
       (answer_with (\<lambda>_. Done) (free drv p s))"
| "serve drv (Address_Reserve sz a addr flags) s =
     (if flags \<noteq> 0 then None
      else answer_with (\<lambda>p. Address p (next_multiple_of sz (granularity (fst s)))) (reserve_address sz a s))"
| "serve drv (Address_Free p sz) s = Some (Done, s)"
| "serve drv (Create sz prop flags) s =
     (if flags \<noteq> 0 then None else answer_with Proxy (create_user_handle drv sz prop s))"
| "serve drv (Map p sz offset h flags) s =
     (if offset \<noteq> 0 \<or> flags \<noteq> 0 then None else answer_with (\<lambda>_. Done) (map_user_handle drv p sz h s))"
| "serve drv (Set_Access p sz ds) s =
     (case ds of
        [d] \<Rightarrow> answer_with (\<lambda>_. Done) (set_access drv p sz d s)
      | _ \<Rightarrow> Some (Failed CUDA_ERROR_INVALID_VALUE, s))"
| "serve drv (Unmap p sz) s = answer_with (\<lambda>_. Done) (unmap drv p sz s)"
| "serve drv (Release h) s = answer_with (\<lambda>_. Done) (release_user_handle drv h s)"

fun serve_all :: "'w driver \<Rightarrow> request list \<Rightarrow> dmm \<times> 'w \<Rightarrow> (answer list \<times> dmm \<times> 'w) option" where
  "serve_all drv [] s = Some ([], s)"
| "serve_all drv (q # qs) s =
     (case serve drv q s of
        None \<Rightarrow> None
      | Some (a, s1) \<Rightarrow>
          (case serve_all drv qs s1 of None \<Rightarrow> None | Some (as, s2) \<Rightarrow> Some (a # as, s2)))"

text \<open>The ranges that were handed out, in order.\<close>

fun granted :: "answer list \<Rightarrow> (u64 \<times> u64) list" where
  "granted [] = []"
| "granted (Address p sz # as) = (p, sz) # granted as"
| "granted (_ # as) = granted as"

text \<open>
  \<open>DeviceMemoryManagerInner::new\<close> on what the driver answered: the device, the granularity
  \<open>g\<close>, the size \<open>total_mem\<close> of the device's memory and the address \<open>ptr\<close> at which it reserved
  the range, which only a log line compares with the address that was asked for.
\<close>

definition BASE :: u64 where "BASE = 0x10004000000"

definition dmm_new :: "int \<Rightarrow> u64 \<Rightarrow> u64 \<Rightarrow> u64 \<Rightarrow> dmm option" where
  "dmm_new dev g total_mem ptr =
     (if BASE mod g \<noteq> 0 then None
      else Some \<lparr>granularity = g, next_addr = ptr, allocations = [], user_handles = [],
             range_ptr = ptr, range_end = ptr + next_multiple_of (total_mem * 4) g, device = dev\<rparr>)"

section \<open>Addresses\<close>

text \<open>
  No sum of addresses wraps when the request is small against the space above the range.
\<close>

definition small :: "dmm \<Rightarrow> u64 \<Rightarrow> bool" where
  "small m sz \<longleftrightarrow> unat (range_end m) + unat sz + unat (granularity m) < 2 ^ 64"

fun small_request :: "dmm \<Rightarrow> request \<Rightarrow> bool" where
  "small_request m (Allocate sz) = small m sz"
| "small_request m (Address_Reserve sz _ _ _) = small m sz"
| "small_request m _ = True"

lemma next_multiple_of_nat:
  assumes "unat x + unat g < 2 ^ 64" and "0 < g"
  shows "unat (next_multiple_of x g) = unat x + (if unat x mod unat g = 0 then 0 else unat g - unat x mod unat g)"
proof -
  have g: "0 < unat g" using assms(2) by (simp add: word_less_nat_alt)
  have r: "unat (x mod g) = unat x mod unat g" by (simp add: unat_mod_distrib)
  have le: "x mod g \<le> g" using r g by (simp add: word_le_nat_alt order_less_imp_le)
  have s: "unat (g - x mod g) = unat g - unat x mod unat g" using unat_sub [OF le] r by simp
  have "unat (x + (g - x mod g)) = unat x + (unat g - unat x mod unat g)"
    using assms(1) s by (subst unat_add_lem [THEN iffD1]) auto
  moreover have "x mod g = 0 \<longleftrightarrow> unat x mod unat g = 0" using r by (metis unat_eq_zero)
  ultimately show ?thesis by (auto simp: next_multiple_of_def)
qed

lemma next_multiple_of_dvd:
  assumes "unat x + unat g < 2 ^ 64" and "0 < g"
  shows "unat g dvd unat (next_multiple_of x g)" and "unat x \<le> unat (next_multiple_of x g)"
    and "unat (next_multiple_of x g) < unat x + unat g"
proof -
  have g: "0 < unat g" using assms(2) by (simp add: word_less_nat_alt)
  have "unat x + (unat g - unat x mod unat g) = unat g * (unat x div unat g + 1)"
  proof -
    have "unat x = unat g * (unat x div unat g) + unat x mod unat g" by simp
    then show ?thesis using mod_less_divisor [OF g, of "unat x"] unfolding distrib_left mult_1_right by linarith
  qed
  then show "unat g dvd unat (next_multiple_of x g)"
    by (auto simp: next_multiple_of_nat [OF assms] mod_eq_0_iff_dvd)
  show "unat x \<le> unat (next_multiple_of x g)" "unat (next_multiple_of x g) < unat x + unat g"
    using g by (auto simp: next_multiple_of_nat [OF assms])
qed

text \<open>
  How an operation moves the manager: \<open>kept m m'\<close> when only its maps change, and then the next
  free address is where it was.
\<close>

definition same_range :: "dmm \<Rightarrow> dmm \<Rightarrow> bool" where
  "same_range m m' \<longleftrightarrow> granularity m' = granularity m \<and> range_ptr m' = range_ptr m \<and>
     range_end m' = range_end m \<and> device m' = device m"

definition kept :: "dmm \<Rightarrow> dmm \<Rightarrow> bool" where
  "kept m m' \<longleftrightarrow> same_range m m' \<and> next_addr m' = next_addr m"

lemma kept_refl [simp]: "kept m m"
  by (simp add: kept_def same_range_def)

lemma with_context_cases:
  assumes "with_context drv body (m, w) = Some (x, m', w')"
  obtains (fail) r where "x = Inr r" and "m' = m"
  | (run) w1 w2 where "body (m, w1) = Some (x, m', w2)"
  using assms by (auto simp: with_context_def Let_def split: prod.splits if_splits option.splits)

lemma drop_in_context_cases:
  assumes "drop_in_context drv f (m, w) = Some (x, m', w')"
  shows "m' = m"
  using assms by (auto simp: drop_in_context_def Let_def split: prod.splits if_splits)

lemma map_owned_slot:
  "map_owned drv dev ptr sz w = (Inl sl, w') \<Longrightarrow>
    map_ptr sl = ptr \<and> map_size sl = sz \<and> (\<exists>h. slot_handle sl = Owned h)"
  by (auto simp: map_owned_def Let_def split: prod.splits if_splits)

lemma allocate_cases:
  assumes "allocate drv sz0 (m, w) = Some (x, m', w')"
    and "sz = next_multiple_of sz0 (granularity m)"
  obtains (full) e where "x = Inr e" and "m' = m"
  | (failed) e where "x = Inr e" and "m' = m\<lparr>next_addr := next_addr m + sz\<rparr>"
      and "next_addr m + sz \<le> range_end m"
  | (mapped) h where "x = Inl (next_addr m)" and "next_addr m + sz \<le> range_end m"
      and "bt_get (allocations m) (next_addr m) = None"
      and "m' = m\<lparr>next_addr := next_addr m + sz, allocations := bt_insert (next_addr m)
        \<lparr>map_ptr = next_addr m, map_size = sz, slot_handle = Owned h\<rparr> (allocations m)\<rparr>"
proof (cases "range_end m < next_addr m + sz")
  case True
  then show ?thesis using assms full by (auto simp: allocate_def reserve_aligned_def Let_def)
next
  case False
  define body where "body = (\<lambda>(m1 :: dmm, w). case map_owned drv (device m1) (next_addr m) sz w of
      (Inr e, w) \<Rightarrow> Some (Inr e, m1, w)
    | (Inl sl, w) \<Rightarrow> (if bt_get (allocations m1) (next_addr m) \<noteq> None then None
        else Some (Inl (next_addr m), m1\<lparr>allocations := bt_insert (next_addr m) sl (allocations m1)\<rparr>, w)))"
  have le: "next_addr m + sz \<le> range_end m" using False by simp
  have "with_context drv body (m\<lparr>next_addr := next_addr m + sz\<rparr>, w) = Some (x, m', w')"
    using assms False by (simp add: allocate_def reserve_aligned_def Let_def body_def)
  then show ?thesis
  proof (cases rule: with_context_cases)
    case (fail r)
    then show ?thesis using failed le by simp
  next
    case (run w1 w2)
    then show ?thesis
    proof (cases "map_owned drv (device m) (next_addr m) sz w1")
      case (Pair y w3)
      show ?thesis
      proof (cases y)
        case (Inl sl)
        from map_owned_slot [OF Pair [unfolded Inl]] obtain h
          where sl: "sl = \<lparr>map_ptr = next_addr m, map_size = sz, slot_handle = Owned h\<rparr>"
          by (metis map_slot.surjective old.unit.exhaust)
        show ?thesis using run Pair Inl sl le mapped [of h] by (auto simp: body_def split: if_splits)
      next
        case (Inr e)
        then show ?thesis using run Pair le failed by (auto simp: body_def)
      qed
    qed
  qed
qed

fun is_owned :: "map_slot \<Rightarrow> bool" where
  "is_owned sl = (case slot_handle sl of Owned _ \<Rightarrow> True | Borrowed _ \<Rightarrow> False)"

text \<open>
  The maps are ordered, every slot is filed under its address, and every owned slot is aligned
  and lies in the part of the range that was handed out, apart from the other owned slots.
\<close>

definition maps_inv :: "dmm \<Rightarrow> bool" where
  "maps_inv m \<longleftrightarrow> bt_inv (allocations m) \<and> bt_inv (user_handles m) \<and>
     (\<forall>p sl. bt_get (allocations m) p = Some sl \<longrightarrow> map_ptr sl = p)"

definition owned_at :: "dmm \<Rightarrow> u64 \<Rightarrow> u64 \<Rightarrow> bool" where
  "owned_at m p sz \<longleftrightarrow> (\<exists>sl. bt_get (allocations m) p = Some sl \<and> is_owned sl \<and> map_size sl = sz)"

definition range_inv :: "dmm \<Rightarrow> bool" where
  "range_inv m \<longleftrightarrow> 0 < granularity m \<and> range_ptr m \<le> next_addr m \<and> next_addr m \<le> range_end m \<and>
     unat (granularity m) dvd unat (next_addr m) - unat (range_ptr m)"

definition owned_inv :: "dmm \<Rightarrow> bool" where
  "owned_inv m \<longleftrightarrow> (\<forall>p sz. owned_at m p sz \<longrightarrow>
     range_ptr m \<le> p \<and> unat p + unat sz \<le> unat (next_addr m) \<and>
     unat (granularity m) dvd unat p - unat (range_ptr m) \<and>
     (\<forall>q tz. owned_at m q tz \<longrightarrow> p < q \<longrightarrow> unat p + unat sz \<le> unat q))"

text \<open>The answers that hand out no address.\<close>

fun no_address :: "answer \<Rightarrow> bool" where
  "no_address (Address _ _) = False"
| "no_address _ = True"

definition quiet :: "dmm \<Rightarrow> dmm \<Rightarrow> bool" where
  "quiet m m' \<longleftrightarrow> same_range m m' \<and> maps_inv m' \<and> (\<forall>p sz. owned_at m' p sz \<longrightarrow> owned_at m p sz)"

lemma quiet_refl: "maps_inv m \<Longrightarrow> quiet m m"
  by (simp add: quiet_def same_range_def)

lemma quiet_next: "maps_inv m \<Longrightarrow> quiet m (m\<lparr>next_addr := a\<rparr>)"
  by (simp add: quiet_def same_range_def maps_inv_def owned_at_def)

lemma quiet_remove: "maps_inv m \<Longrightarrow> quiet m (m\<lparr>allocations := bt_remove p (allocations m)\<rparr>)"
  by (auto simp: quiet_def same_range_def maps_inv_def owned_at_def bt_simps split: if_splits)

lemma quiet_handles: "maps_inv m \<Longrightarrow> bt_inv hs \<Longrightarrow> quiet m (m\<lparr>user_handles := hs\<rparr>)"
  by (auto simp: quiet_def same_range_def maps_inv_def owned_at_def bt_simps)

lemma quiet_map:
  "maps_inv m \<Longrightarrow> quiet m (m\<lparr>allocations := bt_insert p
     \<lparr>map_ptr = p, map_size = sz, slot_handle = Borrowed h\<rparr> (allocations m)\<rparr>)"
  by (auto simp: quiet_def same_range_def maps_inv_def owned_at_def bt_simps split: if_splits)

lemmas quiet_intros = quiet_refl quiet_next quiet_remove quiet_handles quiet_map

fun asked :: "request \<Rightarrow> u64" where
  "asked (Allocate sz) = sz"
| "asked (Address_Reserve sz _ _ _) = sz"
| "asked _ = 0"

text \<open>What one request does to the manager.\<close>

definition stepped :: "dmm \<Rightarrow> u64 \<Rightarrow> answer \<Rightarrow> dmm \<Rightarrow> bool" where
  "stepped m sz a m' \<longleftrightarrow> same_range m m' \<and> maps_inv m' \<and> next_addr m + sz \<le> range_end m \<and>
     next_addr m' = next_addr m + sz \<and> (no_address a \<or> a = Address (next_addr m) sz) \<and>
     (\<forall>p tz. owned_at m' p tz \<longrightarrow> owned_at m p tz \<or> (p, tz) = (next_addr m, sz))"

lemma map_user_handle_quiet:
  assumes "map_user_handle drv p sz h (m, w) = Some (x, m', w')" and "maps_inv m"
  shows "quiet m m' \<and> next_addr m' = next_addr m"
proof (cases "bt_get (user_handles m) h = None \<or> bt_get (allocations m) p \<noteq> None")
  case True
  then show ?thesis using assms by (auto simp: map_user_handle_def quiet_refl split: if_splits option.splits)
next
  case False
  then obtain hd sz' where "bt_get (user_handles m) h = Some (hd, sz')" by auto
  with assms False show ?thesis
    by (auto simp: map_user_handle_def Let_def quiet_refl quiet_map
        elim!: with_context_cases split: prod.splits if_splits)
qed

lemma create_user_handle_quiet:
  assumes "create_user_handle drv sz prop (m, w) = Some (x, m', w')" and "maps_inv m"
  shows "quiet m m' \<and> next_addr m' = next_addr m"
  using assms assms(2) [unfolded maps_inv_def]
  by (auto simp: create_user_handle_def Let_def quiet_refl quiet_handles bt_simps
      elim!: with_context_cases split: prod.splits if_splits)

lemma set_access_quiet:
  "set_access drv p sz d (m, w) = Some (x, m', w') \<Longrightarrow> m' = m"
  by (auto simp: set_access_def Let_def elim!: with_context_cases split: prod.splits if_splits)

lemma drop_quiet:
  assumes "maps_inv m"
  shows "free drv p (m, w) = Some (x, m', w') \<Longrightarrow> quiet m m' \<and> next_addr m' = next_addr m"
    and "unmap drv p sz (m, w) = Some (x, m', w') \<Longrightarrow> quiet m m' \<and> next_addr m' = next_addr m"
    and "release_user_handle drv h (m, w) = Some (x, m', w') \<Longrightarrow> quiet m m' \<and> next_addr m' = next_addr m"
  using assms assms [unfolded maps_inv_def]
  by (auto simp: free_def unmap_def release_user_handle_def quiet_intros bt_simps
      dest!: drop_in_context_cases split: if_splits option.splits)

lemma answer_with_Some:
  "answer_with f r = Some (a, m, w) \<longleftrightarrow>
    (\<exists>x. r = Some (x, m, w) \<and> a = (case x of Inl v \<Rightarrow> f v | Inr e \<Rightarrow> Failed e))"
  by (auto simp: answer_with_def)

lemma answer_quiet:
  assumes "answer_with f r = Some (a, m', w')" and "\<And>v. no_address (f v)"
  obtains x where "r = Some (x, m', w')" and "no_address a"
proof -
  from assms(1) obtain x where "r = Some (x, m', w')"
    and "a = (case x of Inl v \<Rightarrow> f v | Inr e \<Rightarrow> Failed e)" by (auto simp: answer_with_Some)
  then show ?thesis using that assms(2) by (cases x) auto
qed

lemma allocate_stepped:
  assumes "allocate drv sz0 (m, w) = Some (x, m', w')" and m: "maps_inv m"
    and sz: "sz = next_multiple_of sz0 (granularity m)"
  shows "(\<exists>e. x = Inr e) \<and> m' = m \<or>
    stepped m sz (case x of Inl p \<Rightarrow> Address p sz | Inr e \<Rightarrow> Failed e) m'"
  using assms(1) sz
proof (cases rule: allocate_cases)
  case (full e)
  then show ?thesis by simp
next
  case (failed e)
  then show ?thesis using m by (simp add: stepped_def maps_inv_def same_range_def owned_at_def)
next
  case (mapped h)
  then show ?thesis using m
    by (auto simp: stepped_def maps_inv_def same_range_def owned_at_def bt_simps)
qed

lemma reserve_address_stepped:
  assumes "reserve_address sz0 al (m, w) = Some (x, m', w')" and m: "maps_inv m"
    and sz: "sz = next_multiple_of sz0 (granularity m)"
  shows "(\<exists>e. x = Inr e) \<and> m' = m \<or>
    stepped m sz (case x of Inl p \<Rightarrow> Address p sz | Inr e \<Rightarrow> Failed e) m'"
  using assms by (auto simp: reserve_address_def reserve_aligned_def stepped_def maps_inv_def
      same_range_def owned_at_def split: if_splits)

lemma quiet_stepped: "quiet m m' \<Longrightarrow> next_addr m' = next_addr m \<Longrightarrow> next_addr m \<le> range_end m \<Longrightarrow>
    no_address a \<Longrightarrow> stepped m 0 a m'"
  by (auto simp: quiet_def stepped_def)

lemma next_multiple_of_0 [simp]: "next_multiple_of 0 g = 0"
  by (simp add: next_multiple_of_def)

lemma serve_stepped:
  assumes s: "serve drv q (m, w) = Some (a, m', w')" and m: "maps_inv m" and r: "range_inv m"
  shows "stepped m 0 a m' \<and> no_address a \<or>
    stepped m (next_multiple_of (asked q) (granularity m)) a m'"
proof -
  have le: "next_addr m \<le> range_end m" using r by (simp add: range_inv_def)
  have same: "m' = m \<and> no_address a \<Longrightarrow> ?thesis" using quiet_stepped [OF quiet_refl [OF m] refl le] by simp
  have quiet: "(quiet m m' \<and> next_addr m' = next_addr m) \<and> no_address a \<Longrightarrow> ?thesis"
    using quiet_stepped [OF _ _ le] by simp
  show ?thesis
  proof (cases q)
    case (Allocate sz)
    then obtain x where x: "allocate drv sz (m, w) = Some (x, m', w')"
      and a: "a = (case x of Inl p \<Rightarrow> Address p (next_multiple_of sz (granularity m)) | Inr e \<Rightarrow> Failed e)"
      using s by (auto simp: answer_with_Some)
    from allocate_stepped [OF x m refl] show ?thesis using Allocate a same by auto
  next
    case (Address_Reserve sz al addr flags)
    then obtain x where x: "reserve_address sz al (m, w) = Some (x, m', w')"
      and a: "a = (case x of Inl p \<Rightarrow> Address p (next_multiple_of sz (granularity m)) | Inr e \<Rightarrow> Failed e)"
      using s by (auto simp: answer_with_Some split: if_splits)
    from reserve_address_stepped [OF x m refl] show ?thesis using Address_Reserve a same by auto
  next
    case (Free p)
    then obtain a' where "answer_with (\<lambda>_. Done) (free drv p (m, w)) = Some (a', m', w')"
      and "no_address a' \<longrightarrow> no_address a"
      using s by (auto split: if_splits)
    then show ?thesis by (elim answer_quiet) (simp, rule quiet, blast dest: drop_quiet(1) [OF m])
  next
    case (Create sz pr flags)
    with s have "answer_with Proxy (create_user_handle drv sz pr (m, w)) = Some (a, m', w')"
      by (simp split: if_splits)
    then show ?thesis by (elim answer_quiet) (simp, rule quiet, blast dest: create_user_handle_quiet [OF _ m])
  next
    case (Map p sz off h flags)
    with s have "answer_with (\<lambda>_. Done) (map_user_handle drv p sz h (m, w)) = Some (a, m', w')"
      by (simp split: if_splits)
    then show ?thesis by (elim answer_quiet) (simp, rule quiet, blast dest: map_user_handle_quiet [OF _ m])
  next
    case (Set_Access p sz ds)
    show ?thesis
    proof (cases "\<exists>d. ds = [d]")
      case True
      then obtain d where "ds = [d]" by blast
      with s Set_Access have "answer_with (\<lambda>_. Done) (set_access drv p sz d (m, w)) = Some (a, m', w')"
        by simp
      then show ?thesis by (elim answer_quiet) (simp, rule same, blast dest: set_access_quiet)
    next
      case False
      then have "m' = m \<and> no_address a" using s Set_Access by (auto split: list.splits)
      then show ?thesis by (rule same)
    qed
  next
    case (Unmap p sz)
    with s have "answer_with (\<lambda>_. Done) (unmap drv p sz (m, w)) = Some (a, m', w')" by simp
    then show ?thesis by (elim answer_quiet) (simp, rule quiet, blast dest: drop_quiet(2) [OF m])
  next
    case (Release h)
    with s have "answer_with (\<lambda>_. Done) (release_user_handle drv h (m, w)) = Some (a, m', w')" by simp
    then show ?thesis by (elim answer_quiet) (simp, rule quiet, blast dest: drop_quiet(3) [OF m])
  next
    case (Address_Free p sz)
    then show ?thesis using s by (intro same) simp
  qed
qed

text \<open>A request that does not wrap moves the next free address up, by a multiple of the granularity.\<close>

lemma stepped_range:
  assumes st: "stepped m sz a m'" and r: "range_inv m" and o: "owned_inv m"
    and fits: "unat (range_end m) + unat sz < 2 ^ 64" and g: "unat (granularity m) dvd unat sz"
  shows "unat (next_addr m') = unat (next_addr m) + unat sz" and "range_inv m'" and "owned_inv m'"
proof -
  have le: "unat (next_addr m) \<le> unat (range_end m)" using r by (simp add: range_inv_def word_le_nat_alt)
  show n: "unat (next_addr m') = unat (next_addr m) + unat sz"
    using st fits le by (simp add: stepped_def unat_add_lem [THEN iffD1])
  have p: "unat (range_ptr m) \<le> unat (next_addr m)" using r by (simp add: range_inv_def word_le_nat_alt)
  have "unat (next_addr m) + unat sz - unat (range_ptr m) = unat (next_addr m) - unat (range_ptr m) + unat sz"
    using p by linarith
  then have d: "unat (granularity m) dvd unat (next_addr m) + unat sz - unat (range_ptr m)"
    using r g by (simp add: range_inv_def)
  show "range_inv m'"
    using r st d n p by (auto simp: range_inv_def stepped_def same_range_def word_le_nat_alt)
  show "owned_inv m'"
    unfolding owned_inv_def
  proof (intro allI impI conjI)
    fix q tz assume q: "owned_at m' q tz"
    have c: "owned_at m q tz \<or> q = next_addr m \<and> tz = sz" using q st by (auto simp: stepped_def)
    show "range_ptr m' \<le> q" "unat q + unat tz \<le> unat (next_addr m')"
      "unat (granularity m') dvd unat q - unat (range_ptr m')"
      using c o r st n
      by (auto simp: owned_inv_def range_inv_def stepped_def same_range_def intro: trans_le_add1)
    fix q2 t2 assume q2: "owned_at m' q2 t2" and less: "q < q2"
    have c2: "owned_at m q2 t2 \<or> q2 = next_addr m \<and> t2 = sz" using q2 st by (auto simp: stepped_def)
    show "unat q + unat tz \<le> unat q2"
      using c
    proof
      assume "owned_at m q tz"
      then show ?thesis using c2 o less by (auto simp: owned_inv_def)
    next
      assume n: "q = next_addr m \<and> tz = sz"
      have "\<not> owned_at m q2 t2" using n less o by (force simp: owned_inv_def word_less_nat_alt)
      then show ?thesis using c2 n less by auto
    qed
  qed
qed

text \<open>The same for a request of the client, which is rounded up to the granularity.\<close>

lemma serve_inv:
  assumes s: "serve drv q (m, w) = Some (a, m', w')" and "maps_inv m" and r: "range_inv m" and o: "owned_inv m"
    and small: "small m (asked q)"
  shows "maps_inv m'" and "range_inv m'" and "owned_inv m'" and "same_range m m'"
    and "next_addr m \<le> next_addr m'"
    and "no_address a \<or> (\<exists>sz. a = Address (next_addr m) sz \<and> sz = next_multiple_of (asked q) (granularity m) \<and>
           unat (next_addr m') = unat (next_addr m) + unat sz)"
proof -
  let ?z = "next_multiple_of (asked q) (granularity m)"
  have g: "0 < granularity m" using r by (simp add: range_inv_def)
  have "unat (asked q) + unat (granularity m) < 2 ^ 64" using small by (simp add: small_def)
  note z = next_multiple_of_dvd [OF this g]
  have fits: "unat (range_end m) + unat ?z < 2 ^ 64" using z(3) small by (simp add: small_def)
  from serve_stepped [OF s assms(2) r] obtain sz where st: "stepped m sz a m'"
    and sz: "sz = 0 \<and> no_address a \<or> sz = ?z" by blast
  have f: "unat (range_end m) + unat sz < 2 ^ 64" and d: "unat (granularity m) dvd unat sz"
    using sz fits z(1) by auto
  note sr = stepped_range [OF st r o f d]
  show "maps_inv m'" "same_range m m'" using st by (auto simp: stepped_def)
  show "range_inv m'" "owned_inv m'" by fact+
  show "next_addr m \<le> next_addr m'" using sr(1) by (simp add: word_le_nat_alt)
  show "no_address a \<or> (\<exists>sz. a = Address (next_addr m) sz \<and> sz = ?z \<and>
      unat (next_addr m') = unat (next_addr m) + unat sz)"
    using sz st sr(1) by (auto simp: stepped_def)
qed

text \<open>
  A sequence of requests: everything it hands out lies between the next free address before and
  after it, and each range lies below the next.
\<close>

definition laid_out :: "nat \<Rightarrow> nat \<Rightarrow> nat \<Rightarrow> nat \<Rightarrow> (u64 \<times> u64) list \<Rightarrow> bool" where
  "laid_out g base lo hi rs \<longleftrightarrow>
     (\<forall>(p, sz) \<in> set rs. lo \<le> unat p \<and> unat p + unat sz \<le> hi \<and> g dvd unat p - base \<and> g dvd unat sz) \<and>
     sorted_wrt (\<lambda>(p, sz) (q, _). unat p + unat sz \<le> unat q) rs"

lemma laid_out_Nil [simp]: "laid_out g base lo hi []"
  by (simp add: laid_out_def)

lemma laid_out_Cons:
  assumes "laid_out g base mid hi rs" and "unat p = lo" and "lo + unat sz = mid" and "mid \<le> hi"
    and "g dvd lo - base" and "g dvd unat sz"
  shows "laid_out g base lo hi ((p, sz) # rs)"
  using assms by (fastforce simp: laid_out_def)

lemma laid_out_weaken: "laid_out g base mid hi rs \<Longrightarrow> lo \<le> mid \<Longrightarrow> laid_out g base lo hi rs"
  by (fastforce simp: laid_out_def)

lemma granted_no_address: "no_address a \<Longrightarrow> granted (a # as) = granted as"
  by (cases a) auto

definition dmm_inv :: "dmm \<Rightarrow> bool" where
  "dmm_inv m \<longleftrightarrow> maps_inv m \<and> range_inv m \<and> owned_inv m"

lemma serve_all_inv:
  assumes "serve_all drv qs (m, w) = Some (as, m', w')" and "dmm_inv m"
    and "list_all (small m \<circ> asked) qs"
  shows "dmm_inv m'" and "same_range m m'" and "next_addr m \<le> next_addr m'"
    and "laid_out (unat (granularity m)) (unat (range_ptr m)) (unat (next_addr m)) (unat (next_addr m')) (granted as)"
  using assms
proof (induction qs arbitrary: m w as)
  case Nil
  {
    case 1 then show ?case by simp
  next
    case 2 then show ?case by (simp add: same_range_def)
  next
    case 3 then show ?case by simp
  next
    case 4 then show ?case by auto
  }
next
  case (Cons q qs)
  have step: "dmm_inv m' \<and> same_range m m' \<and> next_addr m \<le> next_addr m' \<and>
      laid_out (unat (granularity m)) (unat (range_ptr m)) (unat (next_addr m)) (unat (next_addr m')) (granted as)"
    if run: "serve_all drv (q # qs) (m, w) = Some (as, m', w')" and inv: "dmm_inv m"
      and sm: "list_all (small m \<circ> asked) (q # qs)" for m w as
  proof -
    from run obtain a m1 w1 as1 where s: "serve drv q (m, w) = Some (a, m1, w1)"
      and rest: "serve_all drv qs (m1, w1) = Some (as1, m', w')" and as: "as = a # as1"
      by (auto split: option.splits)
    have i: "maps_inv m" "range_inv m" "owned_inv m" using inv by (auto simp: dmm_inv_def)
    have "small m (asked q)" using sm by simp
    note si = serve_inv [OF s i this]
    have inv1: "dmm_inv m1" using si by (simp add: dmm_inv_def)
    have sm1: "list_all (small m1 \<circ> asked) qs"
      using sm si(4) by (simp add: list_all_iff small_def same_range_def)
    note ih = Cons.IH [OF rest inv1 sm1]
    have lo: "laid_out (unat (granularity m)) (unat (range_ptr m)) (unat (next_addr m1)) (unat (next_addr m')) (granted as1)"
      using ih(4) si(4) by (simp add: same_range_def)
    have "laid_out (unat (granularity m)) (unat (range_ptr m)) (unat (next_addr m)) (unat (next_addr m')) (granted as)"
      using si(6)
    proof (elim disjE exE conjE)
      assume "no_address a"
      then show ?thesis
        using laid_out_weaken [OF lo] si(5) by (simp add: as granted_no_address word_le_nat_alt)
    next
      fix sz assume a: "a = Address (next_addr m) sz" "sz = next_multiple_of (asked q) (granularity m)"
        and n: "unat (next_addr m1) = unat (next_addr m) + unat sz"
      have "unat (granularity m) dvd unat sz"
        using next_multiple_of_dvd(1) [of "asked q" "granularity m"] sm i(2) a(2)
        by (simp add: small_def range_inv_def)
      then show ?thesis
        using laid_out_Cons [OF lo refl] a(1) n ih(3) i(2)
        by (simp add: as word_le_nat_alt range_inv_def)
    qed
    moreover have "same_range m m'" using ih(2) si(4) by (simp add: same_range_def)
    moreover have "next_addr m \<le> next_addr m'" using ih(3) si(5) by simp
    ultimately show ?thesis using ih(1) by blast
  qed
  {
    case 1 then show ?case using step by blast
  next
    case 2 then show ?case using step by blast
  next
    case 3 then show ?case using step by blast
  next
    case 4 then show ?case using step by blast
  }
qed

section \<open>What restore rebuilds\<close>

text \<open>
  The shape of a manager: what a client can tell of its maps, that is all but the driver's
  handles. A slot is described by its address, its size and the proxy that backs it.
\<close>

definition slot_shape :: "u64 \<times> map_slot \<Rightarrow> u64 \<times> u64 \<times> u64 option" where
  "slot_shape e = (fst e, map_size (snd e), case slot_handle (snd e) of Owned _ \<Rightarrow> None | Borrowed h \<Rightarrow> Some h)"

definition shape :: "dmm \<Rightarrow> (u64 \<times> u64 \<times> u64 option) list \<times> (u64 \<times> u64) list \<times> u64" where
  "shape m = (map slot_shape (allocations m), map (\<lambda>(k, _, sz). (k, sz)) (user_handles m), next_addr m)"

text \<open>Every mapped user handle still exists.\<close>

definition borrowed_live :: "dmm \<Rightarrow> bool" where
  "borrowed_live m \<longleftrightarrow> list_all (\<lambda>(_, sl). case slot_handle sl of Owned _ \<Rightarrow> True
     | Borrowed h \<Rightarrow> h \<noteq> 0 \<and> bt_get (user_handles m) h \<noteq> None) (allocations m)"

text \<open>A driver on which the calls that \<open>restore\<close> makes succeed.\<close>

definition grants :: "'w driver \<Rightarrow> bool" where
  "grants drv \<longleftrightarrow> (\<forall>w. fst (cuCtxPushCurrent drv w) = CUDA_SUCCESS) \<and>
     (\<forall>sz p w. fst (fst (cuMemCreate drv sz p w)) = CUDA_SUCCESS) \<and>
     (\<forall>a sz h w. fst (cuMemMap drv a sz h w) = CUDA_SUCCESS) \<and>
     (\<forall>a sz d w. fst (cuMemSetAccess drv a sz d w) = CUDA_SUCCESS)"

lemma grants_simps:
  assumes "grants drv"
  shows "\<exists>w'. cuCtxPushCurrent drv w = (CUDA_SUCCESS, w')"
    and "\<exists>h w'. cuMemCreate drv sz p w = ((CUDA_SUCCESS, h), w')"
    and "\<exists>w'. cuMemMap drv a sz h w = (CUDA_SUCCESS, w')"
    and "\<exists>w'. cuMemSetAccess drv a sz d w = (CUDA_SUCCESS, w')"
  using assms unfolding grants_def by (metis prod.collapse)+

lemma map_owned_grants:
  assumes "grants drv"
  shows "\<exists>h w'. map_owned drv dev p sz w = (Inl \<lparr>map_ptr = p, map_size = sz, slot_handle = Owned h\<rparr>, w')"
proof -
  obtain h w1 where c: "cuMemCreate drv sz (mem_prop_for dev) w = ((CUDA_SUCCESS, h), w1)"
    using grants_simps(2) [OF assms] by blast
  obtain w2 where m: "cuMemMap drv p sz h w1 = (CUDA_SUCCESS, w2)" using grants_simps(3) [OF assms] by blast
  obtain w3 where "cuMemSetAccess drv p sz (map_access dev) w2 = (CUDA_SUCCESS, w3)"
    using grants_simps(4) [OF assms] by blast
  with c m show ?thesis by (simp add: map_owned_def)
qed

text \<open>Entries that arrive in key order are appended.\<close>

lemma bt_insert_last:
  "list_all (\<lambda>e. fst e < k) m \<Longrightarrow> bt_insert k v m = m @ [(k, v)]"
  by (induction m) auto

lemma bt_get_below: "list_all (\<lambda>e. fst e < k) m \<Longrightarrow> bt_get m (k :: 'k :: linorder) = None"
  by (induction m) (auto simp: bt_get_def)

lemma bt_inv_append:
  "bt_inv (m @ (k, v) # n) \<Longrightarrow> list_all (\<lambda>e. fst e < k) m"
  by (auto simp: bt_inv_def sorted_wrt_append list_all_iff)

lemma bt_inv_keys: "map fst m = map fst n \<Longrightarrow> bt_inv m \<longleftrightarrow> bt_inv n"
  by (simp add: bt_inv_def)

lemma restore_handles_ok:
  assumes "grants drv" and "bt_inv (acc @ map (\<lambda>u. (uh_proxy u, x, uh_size u)) us)"
  shows "\<exists>hs w'. restore_handles drv dev us acc w = Some (CUDA_SUCCESS, acc @ hs, w') \<and>
    map (\<lambda>(k, _, sz). (k, sz)) hs = map (\<lambda>u. (uh_proxy u, uh_size u)) us"
  using assms(2)
proof (induction us arbitrary: acc w)
  case (Cons u us)
  obtain h w1 where c: "cuMemCreate drv (uh_size u) (to_raw (uh_prop u) dev) w = ((CUDA_SUCCESS, h), w1)"
    using grants_simps(2) [OF assms(1)] by blast
  have below: "list_all (\<lambda>e. fst e < uh_proxy u) acc" using Cons.prems by (auto dest: bt_inv_append)
  let ?acc = "acc @ [(uh_proxy u, h, uh_size u)]"
  have "bt_inv (?acc @ map (\<lambda>u. (uh_proxy u, x, uh_size u)) us)"
    using Cons.prems by (subst bt_inv_keys [of _ "acc @ map (\<lambda>u. (uh_proxy u, x, uh_size u)) (u # us)"]) auto
  from Cons.IH [OF this, of w1] c show ?case
    by (auto simp: bt_insert_last [OF below] bt_get_below [OF below])
qed simp

lemma restore_segment_ok:
  assumes "grants drv" and "map_ptr sl = p"
    and "case slot_handle sl of Owned _ \<Rightarrow> True | Borrowed h \<Rightarrow> h \<noteq> 0 \<and> bt_get hs h \<noteq> None"
  shows "\<exists>sl' w'. restore_segment drv dev hs (segment_of sl) w = (Inl sl', w') \<and>
    slot_shape (p, sl') = slot_shape (p, sl)"
proof (cases "slot_handle sl")
  case (Owned h)
  obtain h' w' where "map_owned drv dev (map_ptr sl) (map_size sl) w =
      (Inl \<lparr>map_ptr = map_ptr sl, map_size = map_size sl, slot_handle = Owned h'\<rparr>, w')"
    using map_owned_grants [OF assms(1)] by blast
  with Owned show ?thesis by (simp add: restore_segment_def segment_of_def slot_shape_def)
next
  case (Borrowed proxy)
  with assms(3) obtain h z where h: "bt_get hs proxy = Some (h, z)" and "proxy \<noteq> 0" by auto
  obtain w1 where m: "cuMemMap drv (map_ptr sl) (map_size sl) h w = (CUDA_SUCCESS, w1)"
    using grants_simps(3) [OF assms(1)] by blast
  obtain w2 where "cuMemSetAccess drv (map_ptr sl) (map_size sl) (map_access dev) w1 = (CUDA_SUCCESS, w2)"
    using grants_simps(4) [OF assms(1)] by blast
  with h \<open>proxy \<noteq> 0\<close> m Borrowed show ?thesis by (simp add: restore_segment_def segment_of_def slot_shape_def)
qed

lemma restore_segments_ok:
  assumes "grants drv" and "bt_inv (acc @ al)" and "list_all (\<lambda>(p, sl). map_ptr sl = p) al"
    and "list_all (\<lambda>(_, sl). case slot_handle sl of Owned _ \<Rightarrow> True
           | Borrowed h \<Rightarrow> h \<noteq> 0 \<and> bt_get hs h \<noteq> None) al"
  shows "\<exists>al' w'. restore_segments drv dev hs (map (segment_of \<circ> snd) al) acc w = Some (CUDA_SUCCESS, acc @ al', w') \<and>
    map slot_shape al' = map slot_shape al"
  using assms(2-)
proof (induction al arbitrary: acc w)
  case (Cons e al)
  obtain p sl where e: "e = (p, sl)" by fastforce
  have p: "map_ptr sl = p" and b: "case slot_handle sl of Owned _ \<Rightarrow> True | Borrowed h \<Rightarrow> h \<noteq> 0 \<and> bt_get hs h \<noteq> None"
    using Cons.prems e by (auto split: alloc_handle.splits)
  obtain sl' w1 where s: "restore_segment drv dev hs (segment_of sl) w = (Inl sl', w1)"
    and sh: "slot_shape (p, sl') = slot_shape (p, sl)"
    using restore_segment_ok [OF assms(1) p b] by blast
  have below: "list_all (\<lambda>e. fst e < p) acc" using Cons.prems(1) e by (auto dest: bt_inv_append)
  have sp: "seg_ptr (segment_of sl) = p" using p by (simp add: segment_of_def)
  have "bt_inv ((acc @ [(p, sl')]) @ al)"
    using Cons.prems(1) e by (subst bt_inv_keys [of _ "acc @ e # al"]) auto
  from Cons.IH [OF this, of w1] Cons.prems(2,3) s sh show ?case
    by (auto simp: e sp bt_insert_last [OF below] bt_get_below [OF below])
qed simp

lemma describe_handles_shape:
  "describe_handles drv hs w = (Inl us, w') \<Longrightarrow>
    map (\<lambda>u. (uh_proxy u, uh_size u)) us = map (\<lambda>(k, _, sz). (k, sz)) hs"
  by (induction drv hs w arbitrary: us w' rule: describe_handles.induct)
    (auto simp: Let_def split: prod.splits if_splits sum.splits)

lemma checkpoint_meta_Inl:
  assumes "checkpoint_meta drv (m, w) = Some (Inl meta, m1, w1)"
  shows "m1 = m" and "ck_granularity meta = granularity m" and "ck_next meta = next_addr m"
    and "ck_segments meta = map (segment_of \<circ> snd) (allocations m)"
    and "map (\<lambda>u. (uh_proxy u, uh_size u)) (ck_user_handles meta) = map (\<lambda>(k, _, sz). (k, sz)) (user_handles m)"
proof -
  have "\<exists>v1 v2 us. describe_handles drv (user_handles m) v1 = (Inl us, v2) \<and> m1 = m \<and>
      meta = \<lparr>ck_granularity = granularity m, ck_next = next_addr m,
        ck_segments = map (segment_of \<circ> snd) (allocations m), ck_user_handles = us\<rparr>"
    using assms [unfolded checkpoint_meta_def]
  proof (cases rule: with_context_cases)
    case (run v1 v2)
    then show ?thesis
      by (cases "describe_handles drv (user_handles m) v1"; cases "fst (describe_handles drv (user_handles m) v1)")
        auto
  qed simp
  then obtain v1 v2 us where d: "describe_handles drv (user_handles m) v1 = (Inl us, v2)" and "m1 = m"
    and meta: "meta = \<lparr>ck_granularity = granularity m, ck_next = next_addr m,
      ck_segments = map (segment_of \<circ> snd) (allocations m), ck_user_handles = us\<rparr>" by blast
  show "m1 = m" by fact
  show "ck_granularity meta = granularity m" "ck_next meta = next_addr m"
    "ck_segments meta = map (segment_of \<circ> snd) (allocations m)" by (simp_all add: meta)
  show "map (\<lambda>u. (uh_proxy u, uh_size u)) (ck_user_handles meta) = map (\<lambda>(k, _, sz). (k, sz)) (user_handles m)"
    using describe_handles_shape [OF d] by (simp add: meta)
qed

lemma handle_keys:
  assumes "map (\<lambda>(k, _, sz). (k, sz)) hs = map (\<lambda>(k, _, sz). (k, sz)) (gs :: (u64, u64 \<times> u64) btree)"
  shows "bt_get hs k = None \<longleftrightarrow> bt_get gs k = None" and "bt_inv hs \<longleftrightarrow> bt_inv gs"
proof -
  have "map fst hs = map fst gs"
    using arg_cong [OF assms, of "map fst"] by (simp add: case_prod_beta comp_def)
  then show "bt_get hs k = None \<longleftrightarrow> bt_get gs k = None" "bt_inv hs \<longleftrightarrow> bt_inv gs"
    by (metis bt_get_def list.set_map map_of_eq_None_iff, rule bt_inv_keys)
qed

text \<open>The handles of a checkpoint are all created again.\<close>

lemma restore_handles_of_checkpoint:
  assumes "checkpoint_meta drv (m, w) = Some (Inl meta, m1, w1)" and "grants drv'" and "bt_inv (user_handles m)"
  obtains hs v' where "restore_handles drv' dev (ck_user_handles meta) [] v = Some (CUDA_SUCCESS, hs, v')"
    and "map (\<lambda>(k, _, sz). (k, sz)) hs = map (\<lambda>(k, _, sz). (k, sz)) (user_handles m)"
proof -
  note ck = checkpoint_meta_Inl [OF assms(1)]
  have "map fst (map (\<lambda>u. (uh_proxy u, 0 :: u64, uh_size u)) (ck_user_handles meta)) = map fst (user_handles m)"
    using arg_cong [OF ck(5), of "map fst"] by (simp add: case_prod_beta comp_def)
  then have "bt_inv ([] @ map (\<lambda>u. (uh_proxy u, 0 :: u64, uh_size u)) (ck_user_handles meta))"
    using assms(3) by (simp add: bt_inv_def)
  from restore_handles_ok [OF assms(2) this, of dev v] ck(5) that show ?thesis by auto
qed

lemma restore_segments_missing:
  assumes "grants drv" and "bt_inv (acc @ al)" and "list_all (\<lambda>(p, sl). map_ptr sl = p) al"
    and "\<exists>(p, sl) \<in> set al. \<exists>h. slot_handle sl = Borrowed h \<and> h \<noteq> 0 \<and> bt_get hs h = None"
    and "list_all (\<lambda>(_, sl). slot_handle sl \<noteq> Borrowed 0) al"
  shows "\<exists>al' w'. restore_segments drv dev hs (map (segment_of \<circ> snd) al) acc w =
    Some (CUDA_ERROR_INVALID_VALUE, al', w')"
  using assms(2-)
proof (induction al arbitrary: acc w)
  case (Cons e al)
  obtain p sl where e: "e = (p, sl)" by fastforce
  show ?case
  proof (cases "\<exists>h. slot_handle sl = Borrowed h \<and> bt_get hs h = None")
    case True
    then show ?thesis using Cons.prems(4) e by (auto simp: restore_segment_def segment_of_def)
  next
    case False
    have p: "map_ptr sl = p" using Cons.prems(2) e by simp
    have b: "case slot_handle sl of Owned _ \<Rightarrow> True | Borrowed h \<Rightarrow> h \<noteq> 0 \<and> bt_get hs h \<noteq> None"
      using False Cons.prems(4) e by (auto split: alloc_handle.splits)
    obtain sl' w1 where s: "restore_segment drv dev hs (segment_of sl) w = (Inl sl', w1)"
      using restore_segment_ok [OF assms(1) p b] by blast
    have below: "list_all (\<lambda>e. fst e < p) acc" using Cons.prems(1) e by (auto dest: bt_inv_append)
    have sp: "seg_ptr (segment_of sl) = p" using p by (simp add: segment_of_def)
    have "bt_inv ((acc @ [(p, sl')]) @ al)"
      using Cons.prems(1) e by (subst bt_inv_keys [of _ "acc @ e # al"]) auto
    from Cons.IH [OF this, of w1] Cons.prems(2-4) False s show ?thesis
      by (auto simp: e sp bt_insert_last [OF below] bt_get_below [OF below])
  qed
qed simp

lemma dmm_inv_slots: "dmm_inv m \<Longrightarrow> list_all (\<lambda>(p, sl). map_ptr sl = p) (allocations m)"
  by (auto simp: dmm_inv_def maps_inv_def list_all_iff bt.entries_get)

lemma restore_in_context:
  assumes "grants drv" and "allocations m = []" and "user_handles m = []"
    and "ck_granularity meta = granularity m" and "ck_next meta \<le> range_end m"
  obtains v1 where "restore drv meta (m, v) = (case restore_handles drv (device m) (ck_user_handles meta) [] v1 of
       None \<Rightarrow> None
     | Some (r, hs, w) \<Rightarrow>
         (if r \<noteq> CUDA_SUCCESS then Some (Inr r, m\<lparr>next_addr := ck_next meta\<rparr>,
            cuCtxPopCurrent drv (drop_handles drv hs w))
          else (case restore_segments drv (device m) hs (ck_segments meta) [] w of
                  None \<Rightarrow> None
                | Some (r, al, w) \<Rightarrow>
                    (if r \<noteq> CUDA_SUCCESS
                     then Some (Inr r, m\<lparr>next_addr := ck_next meta\<rparr>,
                       cuCtxPopCurrent drv (drop_handles drv hs (drop_slots drv al w)))
                     else Some (Inl (), m\<lparr>next_addr := ck_next meta, user_handles := hs, allocations := al\<rparr>,
                       cuCtxPopCurrent drv w)))))"
proof -
  obtain v1 where "cuCtxPushCurrent drv v = (CUDA_SUCCESS, v1)" using grants_simps(1) [OF assms(1)] by blast
  then show ?thesis using assms(2-)
    by (intro that [of v1]) (auto simp: restore_def with_context_def split: option.splits)
qed

lemma dmm_new_inv:
  assumes "dmm_new dev g total_mem ptr = Some m"
    and "unat ptr + unat (next_multiple_of (total_mem * 4) g) < 2 ^ 64"
  shows "dmm_inv m"
proof -
  have g: "0 < g" using assms(1) by (auto simp: dmm_new_def BASE_def word_neq_0_conv [symmetric] split: if_splits)
  have "unat (ptr + next_multiple_of (total_mem * 4) g) = unat ptr + unat (next_multiple_of (total_mem * 4) g)"
    using assms(2) by (simp add: unat_add_lem [THEN iffD1])
  then have "ptr \<le> ptr + next_multiple_of (total_mem * 4) g" by (simp add: word_le_nat_alt)
  then show ?thesis using assms(1) g
    by (auto simp: dmm_new_def dmm_inv_def maps_inv_def range_inv_def owned_inv_def owned_at_def bt_simps split: if_splits)
qed

section \<open>Properties\<close>

text \<open>A driver on which every call succeeds and whose state counts the handles it made.\<close>

definition counting_driver :: "u64 driver" where
  "counting_driver = \<lparr>cuCtxPushCurrent = (\<lambda>w. (0, w)), cuCtxPopCurrent = (\<lambda>w. w),
     cuMemCreate = (\<lambda>_ _ w. ((0, w), w + 1)), cuMemRelease = (\<lambda>_ w. w), cuMemMap = (\<lambda>_ _ _ w. (0, w)),
     cuMemUnmap = (\<lambda>_ _ w. w), cuMemSetAccess = (\<lambda>_ _ _ w. (0, w)),
     cuMemGetProp = (\<lambda>_ w. ((0, mem_prop_for 0), w))\<rparr>"

lemma counting_driver_grants: "grants counting_driver"
  by (simp add: grants_def counting_driver_def CUDA_SUCCESS_def)

definition sample_dmm :: dmm where
  "sample_dmm = \<lparr>granularity = 0x200000, next_addr = BASE, allocations = [], user_handles = [],
     range_ptr = BASE, range_end = BASE + 0x40000000, device = 0\<rparr>"

lemma sample_new: "dmm_new 0 0x200000 0x10000000 BASE = Some sample_dmm"
  by (simp add: dmm_new_def BASE_def sample_dmm_def next_multiple_of_def)

lemma sample_range: "unat BASE + unat (next_multiple_of (0x10000000 * 4) 0x200000) < 2 ^ 64"
  by (simp add: BASE_def next_multiple_of_def)

lemma sample_small: "small sample_dmm sz \<longleftrightarrow> unat sz < 2 ^ 64 - 0x10044200000"
  by (simp add: small_def sample_dmm_def BASE_def)

text \<open>
  C6. For any driver and any sequence of requests that the manager serves, the address ranges
  that \<open>cudaMalloc\<close> and \<open>cuMemAddressReserve\<close> hand out over the whole session, including
  those freed in between, are multiples of the granularity, lie in the reserved range, and each
  begins where an earlier one has ended or above: no address is ever handed out twice. The
  condition is that no request is so large that the sum of addresses would wrap.
\<close>

theorem granted_ranges_disjoint:
  assumes new: "dmm_new dev g total_mem ptr = Some m"
    and range: "unat ptr + unat (next_multiple_of (total_mem * 4) g) < 2 ^ 64"
    and run: "serve_all drv qs (m, w) = Some (as, m', w')"
    and small: "list_all (small m \<circ> asked) qs"
  shows "laid_out (unat g) (unat ptr) (unat ptr) (unat (range_end m)) (granted as)"
proof -
  have inv: "dmm_inv m" by (rule dmm_new_inv [OF new range])
  note r = serve_all_inv [OF run inv small]
  have m: "granularity m = g" "range_ptr m = ptr" "next_addr m = ptr"
    using new by (auto simp: dmm_new_def split: if_splits)
  have "unat (next_addr m') \<le> unat (range_end m)"
    using r(1,2) by (simp add: dmm_inv_def range_inv_def same_range_def word_le_nat_alt)
  then show ?thesis using r(4) m by (fastforce simp: laid_out_def)
qed

theorem granted_ranges_disjoint_witness:
  "laid_out 0x200000 (unat BASE) (unat BASE) (unat (BASE + 0x40000000))
     (granted (fst (the (serve_all counting_driver [Allocate 5, Free BASE, Address_Reserve 0x200001 0 0 0, Allocate 7]
       (sample_dmm, 1))))) \<and>
   granted (fst (the (serve_all counting_driver [Allocate 5, Free BASE, Address_Reserve 0x200001 0 0 0, Allocate 7]
       (sample_dmm, 1)))) = [(BASE, 0x200000), (BASE + 0x200000, 0x400000), (BASE + 0x600000, 0x200000)]"
proof -
  let ?qs = "[Allocate 5, Free BASE, Address_Reserve 0x200001 0 0 0, Allocate 7]"
  have small: "list_all (small sample_dmm \<circ> asked) ?qs" by (simp add: sample_small)
  have g: "granted (fst (the (serve_all counting_driver ?qs (sample_dmm, 1)))) =
      [(BASE, 0x200000), (BASE + 0x200000, 0x400000), (BASE + 0x600000, 0x200000)]" by code_simp
  have "serve_all counting_driver ?qs (sample_dmm, 1) \<noteq> None" by code_simp
  then obtain as m' w' where run: "serve_all counting_driver ?qs (sample_dmm, 1) = Some (as, m', w')" by auto
  have "unat (0x200000 :: u64) = 0x200000" "range_end sample_dmm = BASE + 0x40000000"
    by (simp_all add: sample_dmm_def)
  then show ?thesis using granted_ranges_disjoint [OF sample_new sample_range run small] g run by simp
qed



text \<open>
  C12. Checkpoint and restore: if every user handle that backs a mapping still exists, the
  description that \<open>checkpoint_meta\<close> writes, restored into a new manager of the same granularity
  on a driver whose calls succeed, gives a manager with the same mappings at the same addresses,
  the same sizes and backing proxies, the same user handles and the same next free address.
\<close>

theorem checkpoint_restore:
  assumes ck: "checkpoint_meta drv (m, w) = Some (Inl meta, m1, w1)"
    and inv: "dmm_inv m" and live: "borrowed_live m" and drv': "grants drv'"
    and new: "allocations m2 = []" "user_handles m2 = []" "granularity m2 = granularity m"
      "next_addr m \<le> range_end m2"
  shows "\<exists>m3 v'. restore drv' meta (m2, v) = Some (Inl (), m3, v') \<and> shape m3 = shape m \<and> same_range m2 m3"
proof -
  note c = checkpoint_meta_Inl [OF ck]
  have b: "bt_inv (user_handles m)" "bt_inv ([] @ allocations m)" using inv by (simp_all add: dmm_inv_def maps_inv_def)
  obtain v1 where r: "restore drv' meta (m2, v) = (case restore_handles drv' (device m2) (ck_user_handles meta) [] v1 of
       None \<Rightarrow> None
     | Some (r, hs, w) \<Rightarrow>
         (if r \<noteq> CUDA_SUCCESS then Some (Inr r, m2\<lparr>next_addr := ck_next meta\<rparr>, cuCtxPopCurrent drv' (drop_handles drv' hs w))
          else (case restore_segments drv' (device m2) hs (ck_segments meta) [] w of
                  None \<Rightarrow> None
                | Some (r, al, w) \<Rightarrow>
                    (if r \<noteq> CUDA_SUCCESS
                     then Some (Inr r, m2\<lparr>next_addr := ck_next meta\<rparr>, cuCtxPopCurrent drv' (drop_handles drv' hs (drop_slots drv' al w)))
                     else Some (Inl (), m2\<lparr>next_addr := ck_next meta, user_handles := hs, allocations := al\<rparr>,
                       cuCtxPopCurrent drv' w)))))"
    by (rule restore_in_context [OF drv' new(1,2), of meta v]) (use c new in auto)
  obtain hs v2 where hs: "restore_handles drv' (device m2) (ck_user_handles meta) [] v1 = Some (CUDA_SUCCESS, hs, v2)"
    and sh: "map (\<lambda>(k, _, sz). (k, sz)) hs = map (\<lambda>(k, _, sz). (k, sz)) (user_handles m)"
    using restore_handles_of_checkpoint [OF ck drv' b(1)] by blast
  have "list_all (\<lambda>(_, sl). case slot_handle sl of Owned _ \<Rightarrow> True
      | Borrowed h \<Rightarrow> h \<noteq> 0 \<and> bt_get hs h \<noteq> None) (allocations m)"
    using live unfolding borrowed_live_def handle_keys(1) [OF sh] .
  from restore_segments_ok [OF drv' b(2) dmm_inv_slots [OF inv] this, of "device m2" v2] obtain al v3
    where "restore_segments drv' (device m2) hs (ck_segments meta) [] v2 = Some (CUDA_SUCCESS, al, v3)"
      and "map slot_shape al = map slot_shape (allocations m)"
    unfolding c(4) by auto
  then show ?thesis using r hs sh by (simp add: shape_def c(3) same_range_def)
qed

definition sample_mapped :: dmm where
  "sample_mapped = fst (snd (the (serve_all counting_driver
     [Allocate 5, Create 0x200000 (mem_prop_for 0) 0, Address_Reserve 0x200000 0 0 0, Map (BASE + 0x200000) 0x200000 0 1 0]
     (sample_dmm, 1))))"

definition sample_meta :: checkpoint where
  "sample_meta = \<lparr>ck_granularity = 0x200000, ck_next = BASE + 0x400000,
     ck_segments = [\<lparr>seg_ptr = BASE, seg_size = 0x200000, seg_proxy = 0\<rparr>,
       \<lparr>seg_ptr = BASE + 0x200000, seg_size = 0x200000, seg_proxy = 1\<rparr>],
     ck_user_handles = [\<lparr>uh_proxy = 1, uh_size = 0x200000, uh_prop = from_raw (mem_prop_for 0)\<rparr>]\<rparr>"

lemma sample_mapped_inv: "dmm_inv sample_mapped"
proof -
  let ?qs = "[Allocate 5, Create 0x200000 (mem_prop_for 0) 0, Address_Reserve 0x200000 0 0 0, Map (BASE + 0x200000) 0x200000 0 1 0]"
  have small: "list_all (small sample_dmm \<circ> asked) ?qs" by (simp add: sample_small)
  have "serve_all counting_driver ?qs (sample_dmm, 1) \<noteq> None" by code_simp
  then obtain as m' w' where run: "serve_all counting_driver ?qs (sample_dmm, 1) = Some (as, m', w')" by auto
  show ?thesis using serve_all_inv(1) [OF run dmm_new_inv [OF sample_new sample_range] small] run by (simp add: sample_mapped_def)
qed

theorem checkpoint_restore_witness:
  "\<exists>m3 v'. restore counting_driver sample_meta (sample_dmm, 1) = Some (Inl (), m3, v') \<and>
     shape m3 = shape sample_mapped \<and> same_range sample_dmm m3"
proof -
  have ck: "checkpoint_meta counting_driver (sample_mapped, 3) = Some (Inl sample_meta, sample_mapped, 3)" by code_simp
  have live: "borrowed_live sample_mapped" by code_simp
  have n: "next_addr sample_mapped \<le> range_end sample_dmm" "granularity sample_dmm = granularity sample_mapped" by code_simp+
  show ?thesis
    by (rule checkpoint_restore [OF ck sample_mapped_inv live counting_driver_grants])
      (use n in \<open>simp_all add: sample_dmm_def\<close>)
qed

text \<open>
  A user handle may be released while it is mapped (the driver keeps the memory until it is
  unmapped). The manager then forgets the proxy, and a checkpoint taken in that state cannot be
  restored: \<open>restore\<close> returns \<open>CUDA_ERROR_INVALID_VALUE\<close> on a driver whose calls all succeed,
  which its caller asserts not to happen.
\<close>

theorem released_handle_breaks_restore:
  assumes ck: "checkpoint_meta drv (m, w) = Some (Inl meta, m1, w1)" and inv: "dmm_inv m"
    and drv': "grants drv'"
    and released: "bt_get (allocations m) p = Some sl" "slot_handle sl = Borrowed h" "bt_get (user_handles m) h = None"
    and proxies: "list_all (\<lambda>(_, sl). slot_handle sl \<noteq> Borrowed 0) (allocations m)"
    and new: "allocations m2 = []" "user_handles m2 = []" "granularity m2 = granularity m"
      "next_addr m \<le> range_end m2"
  shows "\<exists>v'. restore drv' meta (m2, v) =
    Some (Inr CUDA_ERROR_INVALID_VALUE, m2\<lparr>next_addr := next_addr m\<rparr>, v')"
proof -
  note c = checkpoint_meta_Inl [OF ck]
  have b: "bt_inv (user_handles m)" "bt_inv ([] @ allocations m)" using inv by (simp_all add: dmm_inv_def maps_inv_def)
  have e: "(p, sl) \<in> set (allocations m)" using released(1) b(2) by (simp add: bt.entries_get)
  then have "h \<noteq> 0" using proxies released(2) by (auto simp: list_all_iff)
  then have missing: "\<exists>(p, sl) \<in> set (allocations m). \<exists>h'. slot_handle sl = Borrowed h' \<and> h' \<noteq> 0 \<and> bt_get hs h' = None"
    if "bt_get hs h = None" for hs :: "(u64, u64 \<times> u64) btree"
    using e released(2) that by blast
  show ?thesis
  proof (rule restore_in_context [OF drv' new(1,2), of meta v])
    fix v1
    obtain hs v2 where hs: "restore_handles drv' (device m2) (ck_user_handles meta) [] v1 = Some (CUDA_SUCCESS, hs, v2)"
      and none: "bt_get hs h = None"
      using restore_handles_of_checkpoint [OF ck drv' b(1)] handle_keys(1) released(3) by metis
    obtain al v3 where "restore_segments drv' (device m2) hs (ck_segments meta) [] v2 =
        Some (CUDA_ERROR_INVALID_VALUE, al, v3)"
      using restore_segments_missing [OF drv' b(2) dmm_inv_slots [OF inv] missing [OF none] proxies] unfolding c(4) by blast
    moreover assume "restore drv' meta (m2, v) = (case restore_handles drv' (device m2) (ck_user_handles meta) [] v1 of
       None \<Rightarrow> None
     | Some (r, hs, w) \<Rightarrow>
         (if r \<noteq> CUDA_SUCCESS then Some (Inr r, m2\<lparr>next_addr := ck_next meta\<rparr>, cuCtxPopCurrent drv' (drop_handles drv' hs w))
          else (case restore_segments drv' (device m2) hs (ck_segments meta) [] w of
                  None \<Rightarrow> None
                | Some (r, al, w) \<Rightarrow>
                    (if r \<noteq> CUDA_SUCCESS
                     then Some (Inr r, m2\<lparr>next_addr := ck_next meta\<rparr>, cuCtxPopCurrent drv' (drop_handles drv' hs (drop_slots drv' al w)))
                     else Some (Inl (), m2\<lparr>next_addr := ck_next meta, user_handles := hs, allocations := al\<rparr>,
                       cuCtxPopCurrent drv' w)))))"
    ultimately show ?thesis using hs by (simp add: c(3) cu_codes)
  qed (use c new in auto)
qed

definition sample_released :: dmm where
  "sample_released = fst (snd (the (serve_all counting_driver
     [Create 0x200000 (mem_prop_for 0) 0, Address_Reserve 0x200000 0 0 0, Map BASE 0x200000 0 1 0, Release 1]
     (sample_dmm, 1))))"

lemma sample_released_inv: "dmm_inv sample_released"
proof -
  let ?qs = "[Create 0x200000 (mem_prop_for 0) 0, Address_Reserve 0x200000 0 0 0, Map BASE 0x200000 0 1 0, Release 1]"
  have small: "list_all (small sample_dmm \<circ> asked) ?qs" by (simp add: sample_small)
  have "serve_all counting_driver ?qs (sample_dmm, 1) \<noteq> None" by code_simp
  then obtain as m' w' where run: "serve_all counting_driver ?qs (sample_dmm, 1) = Some (as, m', w')" by auto
  show ?thesis
    using serve_all_inv(1) [OF run dmm_new_inv [OF sample_new sample_range] small] run by (simp add: sample_released_def)
qed

theorem released_handle_breaks_restore_witness:
  "\<exists>v'. restore counting_driver
      \<lparr>ck_granularity = 0x200000, ck_next = BASE + 0x200000,
        ck_segments = [\<lparr>seg_ptr = BASE, seg_size = 0x200000, seg_proxy = 1\<rparr>], ck_user_handles = []\<rparr> (sample_dmm, 1) =
    Some (Inr CUDA_ERROR_INVALID_VALUE, sample_dmm\<lparr>next_addr := next_addr sample_released\<rparr>, v')"
proof -
  have ck: "checkpoint_meta counting_driver (sample_released, 2) = Some (Inl
      \<lparr>ck_granularity = 0x200000, ck_next = BASE + 0x200000,
        ck_segments = [\<lparr>seg_ptr = BASE, seg_size = 0x200000, seg_proxy = 1\<rparr>], ck_user_handles = []\<rparr>, sample_released, 2)"
    by code_simp
  have f: "bt_get (allocations sample_released) BASE = Some \<lparr>map_ptr = BASE, map_size = 0x200000, slot_handle = Borrowed 1\<rparr>"
    "bt_get (user_handles sample_released) 1 = None"
    "list_all (\<lambda>(_, sl). slot_handle sl \<noteq> Borrowed 0) (allocations sample_released)"
    "next_addr sample_released \<le> range_end sample_dmm" "granularity sample_dmm = granularity sample_released"
    by code_simp+
  show ?thesis
    by (rule released_handle_breaks_restore [OF ck sample_released_inv counting_driver_grants f(1) _ f(2,3) _ _ f(5,4)])
      (simp_all add: sample_dmm_def)
qed

text \<open>
  The range check of \<open>reserve_aligned\<close> adds before it compares. A request whose rounded size
  takes the sum past \<open>2 ^ 64\<close> is therefore never refused: it is granted the next free address,
  and the next free address moves down, over addresses that were already handed out.
\<close>

theorem wrapping_request_granted:
  assumes "range_inv m" and z: "z = next_multiple_of sz (granularity m)"
    and wraps: "2 ^ 64 \<le> unat (next_addr m) + unat z"
  shows "reserve_address sz 0 (m, w) = Some (Inl (next_addr m), m\<lparr>next_addr := next_addr m + z\<rparr>, w) \<and>
    next_addr m + z < next_addr m"
proof -
  have w: "(a + b) mod n = a + b - n" if "a < n" "b < n" "n \<le> a + b" for a b n :: nat
    using that by (metis add_less_mono le_mod_geq less_diff_conv2 mod_less)
  have lt: "unat (next_addr m) < 2 ^ 64" "unat z < 2 ^ 64"
    using unsigned_less [of "next_addr m"] unsigned_less [of z] by simp_all
  have "unat (next_addr m + z) = unat (next_addr m) + unat z - 2 ^ 64"
    using w [OF lt wraps] by (simp only: unat_word_ariths(1)) simp
  then have less: "next_addr m + z < next_addr m"
    using wraps lt unfolding word_less_nat_alt by linarith
  moreover have "\<not> range_end m < next_addr m + z" using less assms(1) by (auto simp: range_inv_def)
  ultimately show ?thesis using z by (simp add: reserve_address_def reserve_aligned_def)
qed

theorem wrapping_request_granted_witness:
  "reserve_address (- 0x200000) 0 (sample_dmm\<lparr>next_addr := BASE + 0x200000\<rparr>, ()) =
     Some (Inl (BASE + 0x200000), sample_dmm\<lparr>next_addr := BASE\<rparr>, ())"
proof -
  let ?m = "sample_dmm\<lparr>next_addr := BASE + 0x200000\<rparr>"
  have "range_inv ?m" by (simp add: range_inv_def sample_dmm_def BASE_def)
  moreover have "- 0x200000 = next_multiple_of (- 0x200000) (granularity ?m)"
    by (simp add: next_multiple_of_def sample_dmm_def)
  moreover have "2 ^ 64 \<le> unat (next_addr ?m) + unat (- 0x200000 :: u64)"
    by (simp add: sample_dmm_def BASE_def)
  ultimately show ?thesis using wrapping_request_granted [of ?m "- 0x200000" "- 0x200000" "()"]
    by (simp add: BASE_def)
qed

end
