(* ===== verification/Rpc.thy ===== *)
theory Rpc
  imports Framing Handles
begin

text \<open>
  The remote calls: what the macros \<open>cuda_hook_hijack\<close> and \<open>cuda_hook_exe\<close> generate for a
  hooked function (\<open>codegen/src/hook_fn.rs\<close>, \<open>client_macros.rs\<close>, \<open>server_macros.rs\<close>),
  the sessions they run on (\<open>network/src/session.rs\<close>), and the loop of the server thread that
  dispatches them (\<open>server/src/worker.rs\<close>). The hooked library itself is the parameter
  \<open>dev\<close>. Functions with injected statements are not covered.
\<close>

section \<open>Hook declarations\<close>

type_synonym bytes = "u8 list"

datatype InputHandleOp = Op_Use | Op_Modify | Op_Destroy

text \<open>
  The length of an output array: an expression over the inputs, or a capacity over the inputs
  and a length over the inputs and the outputs before it.
\<close>

datatype array_len = Fixed "bytes list \<Rightarrow> nat" | Capped "bytes list \<Rightarrow> nat" "bytes list \<Rightarrow> bytes list \<Rightarrow> nat"

text \<open>The numbers are the sizes of the value or of the element type.\<close>

datatype ParamKind =
    InputValue nat
  | InputHandle InputHandleOp "(bytes list \<Rightarrow> u64) option"
  | InputSinglePtr nat
  | InputArrayPtr nat
  | InputCStr
  | OutputHandle "(bytes list \<Rightarrow> u64) option"
  | OutputSinglePtr nat
  | OutputArrayPtr nat array_len
  | DeviceInputPtr
  | DeviceOutputPtr
  | Skip
  | Const bytes

record HookFn =
  proc_id :: u32
  async_attr :: "bool option"
  params :: "ParamKind list"
  result_size :: nat
  async_return :: bool

fun is_host_output :: "ParamKind \<Rightarrow> bool" where
  "is_host_output (OutputHandle _) = True"
| "is_host_output (OutputSinglePtr _) = True"
| "is_host_output (OutputArrayPtr _ _) = True"
| "is_host_output _ = False"

fun is_output_handle :: "ParamKind \<Rightarrow> bool" where
  "is_output_handle (OutputHandle _) = True"
| "is_output_handle _ = False"

fun is_modify :: "ParamKind \<Rightarrow> bool" where
  "is_modify (InputHandle Op_Modify _) = True"
| "is_modify _ = False"

fun is_destroy :: "ParamKind \<Rightarrow> bool" where
  "is_destroy (InputHandle Op_Destroy _) = True"
| "is_destroy _ = False"

fun handle_op_key :: "ParamKind \<Rightarrow> (bytes list \<Rightarrow> u64) option" where
  "handle_op_key (InputHandle _ k) = k"
| "handle_op_key (OutputHandle k) = k"
| "handle_op_key _ = None"

definition is_create_handle :: "HookFn \<Rightarrow> bool" where
  "is_create_handle f \<longleftrightarrow> list_ex is_output_handle (params f)"

definition is_modify_handle :: "HookFn \<Rightarrow> bool" where
  "is_modify_handle f \<longleftrightarrow> list_ex is_modify (params f)"

definition is_async_api :: "HookFn \<Rightarrow> bool" where
  "is_async_api f \<longleftrightarrow> async_attr f = Some True"

text \<open>The checks of \<open>HookFn::new\<close>: a declaration that fails one does not compile.\<close>

definition HookFn_accepted :: "HookFn \<Rightarrow> bool" where
  "HookFn_accepted f \<longleftrightarrow>
     (is_async_api f \<longrightarrow> \<not> list_ex is_host_output (params f) \<and> async_return f) \<and>
     length (filter (\<lambda>k. is_modify k \<or> is_destroy k \<or> is_output_handle k) (params f)) \<le> 1 \<and>
     (is_create_handle f \<longrightarrow> length (filter is_host_output (params f)) \<le> 1)"

record config =
  opt_shadow_desc :: bool
  opt_async_api :: bool
  phos :: bool

section \<open>The client\<close>

text \<open>
  An argument of the caller: a value (handles and device pointers are values of eight bytes), a
  pointer to one input, to an array of inputs, or to a C string (without its terminator), or a
  pointer for an output. \<open>None\<close> and \<open>False\<close> are null pointers.
\<close>

datatype arg = Value bytes | Ptr "bytes option" | Slice "bytes option" | CStr bytes | Out bool | Unused

record ('s, 'r) client =
  channel_sender :: 's
  channel_receiver :: 'r
  next_handle :: u64

text \<open>The bytes of an input, which is also what the length expressions see of it.\<close>

fun raw_arg :: "arg \<Rightarrow> bytes" where
  "raw_arg (Value bs) = bs"
| "raw_arg (Ptr p) = (case p of Some bs \<Rightarrow> bs | None \<Rightarrow> [])"
| "raw_arg (Slice p) = (case p of Some bs \<Rightarrow> bs | None \<Rightarrow> [])"
| "raw_arg (CStr bs) = bs @ [0]"
| "raw_arg _ = []"

fun is_null :: "arg \<Rightarrow> bool" where
  "is_null (Ptr None) = True"
| "is_null (Slice None) = True"
| "is_null (Out nonnull) = (\<not> nonnull)"
| "is_null _ = False"

text \<open>A session panics when the channel returns an error.\<close>

definition csend :: "'s put_bytes \<Rightarrow> bytes \<Rightarrow> ('s, 'r) client \<Rightarrow> (unit, ('s, 'r) client) io" where
  "csend put bs cl =
     (case put bs (channel_sender cl) of
        Returns x c \<Rightarrow> Returns x (cl\<lparr>channel_sender := c\<rparr>)
      | Errs e c \<Rightarrow> Panics ''failed to send''
      | Panics m \<Rightarrow> Panics m
      | Blocks \<Rightarrow> Blocks)"

definition crecv :: "(bytes, 'r) io \<Rightarrow> ('s, 'r) client \<Rightarrow> (bytes, ('s, 'r) client) io" where
  "crecv r cl =
     (case r of
        Returns x c \<Rightarrow> Returns x (cl\<lparr>channel_receiver := c\<rparr>)
      | Errs e c \<Rightarrow> Panics ''failed to receive''
      | Panics m \<Rightarrow> Panics m
      | Blocks \<Rightarrow> Blocks)"

text \<open>
  One send statement. It returns the proxies that the client made up and stored in the caller's
  variable.
\<close>

definition send_value :: "'s put_bytes \<Rightarrow> bytes \<Rightarrow> ('s, 'r) client \<Rightarrow> (bytes list, ('s, 'r) client) io" where
  "send_value put bs cl = io_bind (csend put bs cl) (\<lambda>_. Returns [])"

definition session_send_slice :: "'s put_bytes \<Rightarrow> nat \<Rightarrow> bytes \<Rightarrow> ('s, 'r) client \<Rightarrow>
    (bytes list, ('s, 'r) client) io" where
  "session_send_slice put n bs cl = io_bind (csend (send_slice put n) bs cl) (\<lambda>_. Returns [])"

definition send_handle :: "'s put_bytes \<Rightarrow> ('s, 'r) client \<Rightarrow> (bytes list, ('s, 'r) client) io" where
  "send_handle put cl =
     (let proxy = usize_bytes (next_handle cl)
      in io_bind (csend put proxy (cl\<lparr>next_handle := next_handle cl + 1\<rparr>)) (\<lambda>_. Returns [proxy]))"

fun send_param :: "'s put_bytes \<Rightarrow> config \<Rightarrow> ParamKind \<Rightarrow> arg \<Rightarrow> ('s, 'r) client \<Rightarrow>
    (bytes list, ('s, 'r) client) io" where
  "send_param put cfg (InputValue n) a cl = send_value put (raw_arg a) cl"
| "send_param put cfg (InputHandle op k) a cl = send_value put (raw_arg a) cl"
| "send_param put cfg DeviceInputPtr a cl = send_value put (raw_arg a) cl"
| "send_param put cfg DeviceOutputPtr a cl = send_value put (raw_arg a) cl"
| "send_param put cfg (InputSinglePtr n) a cl =
     (if is_null a then Panics ''is null'' else send_value put (raw_arg a) cl)"
| "send_param put cfg (InputArrayPtr n) a cl =
     (if is_null a then Panics ''is null'' else session_send_slice put n (raw_arg a) cl)"
| "send_param put cfg InputCStr a cl = session_send_slice put 1 (raw_arg a) cl"
| "send_param put cfg (OutputHandle k) a cl =
     (if \<not> opt_shadow_desc cfg then Returns [] cl
      else if is_null a then Panics ''write through a null pointer'' else send_handle put cl)"
| "send_param put cfg (Const c) a cl =
     (if raw_arg a = c then Returns [] cl else Panics ''assertion failed'')"
| "send_param put cfg (OutputSinglePtr n) a cl = Returns [] cl"
| "send_param put cfg (OutputArrayPtr n len) a cl = Returns [] cl"
| "send_param put cfg Skip a cl = Returns [] cl"

fun send_params :: "'s put_bytes \<Rightarrow> config \<Rightarrow> (ParamKind \<times> arg) list \<Rightarrow> ('s, 'r) client \<Rightarrow>
    (bytes list, ('s, 'r) client) io" where
  "send_params put cfg [] cl = Returns [] cl"
| "send_params put cfg ((k, a) # ps) cl =
     io_bind (send_param put cfg k a cl) (\<lambda>xs cl.
       io_bind (send_params put cfg ps cl) (\<lambda>ys. Returns (xs @ ys)))"

fun out_len :: "array_len \<Rightarrow> bytes list \<Rightarrow> bytes list \<Rightarrow> nat" where
  "out_len (Fixed len) env outs = len env"
| "out_len (Capped cap len) env outs = len env outs"

fun recv_output :: "'r get_bytes \<Rightarrow> bytes list \<Rightarrow> bytes list \<Rightarrow> ParamKind \<Rightarrow> 'r \<Rightarrow> (bytes, 'r) io" where
  "recv_output get env outs (OutputSinglePtr n) c = get n c"
| "recv_output get env outs (OutputArrayPtr n len) c = recv_slice_to get n (out_len len env outs) c"
| "recv_output get env outs _ c = get 8 c"

text \<open>
  The variables that a length or key expression can name on both sides: the inputs other than
  handles, which the server translates, and the outputs before it other than arrays.
\<close>

fun shared :: "ParamKind \<Rightarrow> bool" where
  "shared (InputValue _) = True"
| "shared (InputSinglePtr _) = True"
| "shared (InputArrayPtr _) = True"
| "shared InputCStr = True"
| "shared DeviceInputPtr = True"
| "shared DeviceOutputPtr = True"
| "shared _ = False"

definition inputs :: "ParamKind list \<Rightarrow> bytes list \<Rightarrow> bytes list" where
  "inputs ks rs = map (\<lambda>(k, r). if shared k then r else []) (zip ks rs)"

fun visible :: "ParamKind \<Rightarrow> bytes \<Rightarrow> bytes" where
  "visible (OutputArrayPtr _ _) x = []"
| "visible _ x = x"

fun recv_outputs :: "'r get_bytes \<Rightarrow> bytes list \<Rightarrow> bytes list \<Rightarrow> (ParamKind \<times> arg) list \<Rightarrow> ('s, 'r) client \<Rightarrow>
    (bytes list, ('s, 'r) client) io" where
  "recv_outputs get env outs [] cl = Returns [] cl"
| "recv_outputs get env outs ((k, a) # ps) cl =
     (if is_host_output k
      then (if is_null a then Panics ''is null''
            else io_bind (crecv (recv_output get env outs k (channel_receiver cl)) cl) (\<lambda>x cl.
                 io_bind (recv_outputs get env (outs @ [visible k x]) ps cl) (\<lambda>xs. Returns (x # xs))))
      else recv_outputs get env outs ps cl)"

text \<open>
  The generated client function in two halves: up to the end of the send session, which returns
  the proxies, and from the early returns on, which returns the result and the outputs.
\<close>

definition hijack_send :: "'s put_bytes \<Rightarrow> ('s \<Rightarrow> (unit, 's) io) \<Rightarrow> config \<Rightarrow> HookFn \<Rightarrow> arg list \<Rightarrow>
    ('s, 'r) client \<Rightarrow> (bytes list, ('s, 'r) client) io" where
  "hijack_send put flush cfg f actuals cl =
     io_bind (csend put (i32_bytes (proc_id f)) cl) (\<lambda>_ cl.
       io_bind (send_params put cfg (zip (params f) actuals) cl) (\<lambda>proxies cl.
         io_bind (csend (\<lambda>_. flush) [] cl) (\<lambda>_. Returns proxies)))"

definition hijack_recv :: "'r get_bytes \<Rightarrow> config \<Rightarrow> HookFn \<Rightarrow> arg list \<Rightarrow> bytes list \<Rightarrow>
    ('s, 'r) client \<Rightarrow> (bytes \<times> bytes list, ('s, 'r) client) io" where
  "hijack_recv get cfg f actuals proxies cl =
     (if is_create_handle f \<and> opt_shadow_desc cfg then Returns (replicate (result_size f) 0, proxies) cl
      else if is_async_api f \<and> opt_async_api cfg then Returns (replicate (result_size f) 0, []) cl
      else io_bind (recv_outputs get (inputs (params f) (map raw_arg actuals)) [] (zip (params f) actuals) cl) (\<lambda>outs cl.
        io_bind (crecv (get (result_size f) (channel_receiver cl)) cl) (\<lambda>r. Returns (r, outs))))"

section \<open>The server\<close>

text \<open>
  The arguments of the library function: bytes of a value or behind a pointer, a translated
  handle, or an uninitialised output of so many bytes.
\<close>

datatype sval = SBytes bytes | SHandle u64 | SOut nat

record ('r, 's, 'w) server =
  receiver :: 'r
  sender :: 's
  resources :: manager
  world :: 'w

definition srecv :: "('r \<Rightarrow> (bytes, 'r) io) \<Rightarrow> ('r, 's, 'w) server \<Rightarrow> (bytes, ('r, 's, 'w) server) io" where
  "srecv g sv =
     (case g (receiver sv) of
        Returns x c \<Rightarrow> Returns x (sv\<lparr>receiver := c\<rparr>)
      | Errs e c \<Rightarrow> Panics ''failed to receive''
      | Panics m \<Rightarrow> Panics m
      | Blocks \<Rightarrow> Blocks)"

definition ssend :: "('s \<Rightarrow> (unit, 's) io) \<Rightarrow> ('r, 's, 'w) server \<Rightarrow> (unit, ('r, 's, 'w) server) io" where
  "ssend p sv =
     (case p (sender sv) of
        Returns x c \<Rightarrow> Returns x (sv\<lparr>sender := c\<rparr>)
      | Errs e c \<Rightarrow> Panics ''failed to send''
      | Panics m \<Rightarrow> Panics m
      | Blocks \<Rightarrow> Blocks)"

text \<open>An operation of the handle manager; its panics are panics of the server thread.\<close>

definition on_resources :: "('a, manager) exec \<Rightarrow> ('r, 's, 'w) server \<Rightarrow> ('a, ('r, 's, 'w) server) io" where
  "on_resources e sv =
     (case e of Ok x h \<Rightarrow> Returns x (sv\<lparr>resources := h\<rparr>) | Abort m \<Rightarrow> Panics m | _ \<Rightarrow> Panics ''unreachable'')"

text \<open>\<open>CString::from_vec_with_nul\<close> wants the only zero byte at the end.\<close>

definition cstr_ok :: "bytes \<Rightarrow> bool" where
  "cstr_ok bs \<longleftrightarrow> bs \<noteq> [] \<and> last bs = 0 \<and> 0 \<notin> set (butlast bs)"

text \<open>
  One receive statement: the variable's bytes, the bytes that a saving session appends to its
  vector, and the argument.
\<close>

record received =
  raw :: bytes
  saved :: bytes
  argument :: "sval option"

definition got :: "bytes \<Rightarrow> ('r, 's, 'w) server \<Rightarrow> (received, ('r, 's, 'w) server) io" where
  "got bs = Returns \<lparr>raw = bs, saved = bs, argument = Some (SBytes bs)\<rparr>"

fun alloc_size :: "bytes list \<Rightarrow> ParamKind \<Rightarrow> nat" where
  "alloc_size env (OutputHandle _) = 8"
| "alloc_size env (OutputSinglePtr n) = n"
| "alloc_size env (OutputArrayPtr n (Fixed len)) = n * len env"
| "alloc_size env (OutputArrayPtr n (Capped cap len)) = n * cap env"
| "alloc_size env _ = 0"

fun recv_param :: "'r get_bytes \<Rightarrow> config \<Rightarrow> ParamKind \<Rightarrow> ('r, 's, 'w) server \<Rightarrow>
    (received, ('r, 's, 'w) server) io" where
  "recv_param get cfg (InputValue n) sv = io_bind (srecv (get n) sv) got"
| "recv_param get cfg (InputHandle op k) sv =
     io_bind (srecv (get 8) sv) (\<lambda>bs sv.
       if opt_shadow_desc cfg
       then io_bind (on_resources (get_inner (usize_of bs) (op = Op_Destroy) (resources sv)) sv) (\<lambda>v.
              Returns \<lparr>raw = bs, saved = bs, argument = Some (SHandle v)\<rparr>)
       else Returns \<lparr>raw = bs, saved = bs, argument = Some (SHandle (usize_of bs))\<rparr> sv)"
| "recv_param get cfg (InputSinglePtr n) sv = io_bind (srecv (get n) sv) got"
| "recv_param get cfg (InputArrayPtr n) sv =
     io_bind (srecv (recv_slice get n) sv) (\<lambda>bs.
       Returns \<lparr>raw = bs, saved = slice_bytes n bs, argument = Some (SBytes bs)\<rparr>)"
| "recv_param get cfg InputCStr sv =
     io_bind (srecv (recv_slice get 1) sv) (\<lambda>bs sv.
       if cstr_ok bs then Returns \<lparr>raw = bs, saved = slice_bytes 1 bs, argument = Some (SBytes bs)\<rparr> sv
       else Panics ''called Result::unwrap() on an Err value'')"
| "recv_param get cfg (OutputHandle k) sv =
     (if opt_shadow_desc cfg
      then io_bind (srecv (get 8) sv) (\<lambda>bs. Returns \<lparr>raw = bs, saved = bs, argument = Some (SOut 8)\<rparr>)
      else Returns \<lparr>raw = [], saved = [], argument = Some (SOut 8)\<rparr> sv)"
| "recv_param get cfg DeviceInputPtr sv = io_bind (srecv (get 8) sv) got"
| "recv_param get cfg DeviceOutputPtr sv = io_bind (srecv (get 8) sv) got"
| "recv_param get cfg (Const c) sv = Returns \<lparr>raw = [], saved = [], argument = Some (SBytes c)\<rparr> sv"
| "recv_param get cfg Skip sv = Returns \<lparr>raw = [], saved = [], argument = None\<rparr> sv"
| "recv_param get cfg _ sv = Returns \<lparr>raw = [], saved = [], argument = Some (SOut 0)\<rparr> sv"

fun recv_params :: "'r get_bytes \<Rightarrow> config \<Rightarrow> ParamKind list \<Rightarrow> ('r, 's, 'w) server \<Rightarrow>
    (received list, ('r, 's, 'w) server) io" where
  "recv_params get cfg [] sv = Returns [] sv"
| "recv_params get cfg (k # ks) sv =
     io_bind (recv_param get cfg k sv) (\<lambda>x sv.
       io_bind (recv_params get cfg ks sv) (\<lambda>xs. Returns (x # xs)))"

text \<open>The outputs are allocated once all inputs are known.\<close>

definition exec_arg :: "bytes list \<Rightarrow> ParamKind \<Rightarrow> received \<Rightarrow> sval option" where
  "exec_arg env k x = (if is_host_output k then Some (SOut (alloc_size env k)) else argument x)"

definition exec_args :: "ParamKind list \<Rightarrow> received list \<Rightarrow> sval list" where
  "exec_args ks xs = List.map_filter (\<lambda>(k, x). exec_arg (inputs ks (map raw xs)) k x) (zip ks xs)"

text \<open>The proxy that the call creates or modifies.\<close>

fun handle_proxy :: "config \<Rightarrow> (ParamKind \<times> received) list \<Rightarrow> u64 option" where
  "handle_proxy cfg [] = None"
| "handle_proxy cfg ((k, x) # ps) =
     (case handle_proxy cfg ps of
        Some p \<Rightarrow> Some p
      | None \<Rightarrow> (if opt_shadow_desc cfg \<and> (is_modify k \<or> is_output_handle k) then Some (usize_of (raw x)) else None))"

fun find_op_key :: "bytes list \<Rightarrow> ParamKind list \<Rightarrow> u64 option" where
  "find_op_key env [] = None"
| "find_op_key env (k # ks) = (case handle_op_key k of Some e \<Rightarrow> Some (e env) | None \<Rightarrow> find_op_key env ks)"

fun send_output :: "'s put_bytes \<Rightarrow> bytes list \<Rightarrow> bytes list \<Rightarrow> ParamKind \<Rightarrow> bytes \<Rightarrow> ('r, 's, 'w) server \<Rightarrow>
    (unit, ('r, 's, 'w) server) io" where
  "send_output put env outs (OutputArrayPtr n (Fixed len)) x sv = ssend (send_slice put n x) sv"
| "send_output put env outs (OutputArrayPtr n (Capped cap len)) x sv =
     (if cap env < len env outs then Panics ''range end index out of range''
      else ssend (send_slice put n (take (n * len env outs) x)) sv)"
| "send_output put env outs k x sv = ssend (put x) sv"

fun send_outputs :: "'s put_bytes \<Rightarrow> bytes list \<Rightarrow> bytes list \<Rightarrow> (ParamKind \<times> bytes) list \<Rightarrow> ('r, 's, 'w) server \<Rightarrow>
    (unit, ('r, 's, 'w) server) io" where
  "send_outputs put env outs [] sv = Returns () sv"
| "send_outputs put env outs ((k, x) # ps) sv =
     io_bind (send_output put env outs k x sv) (\<lambda>_ sv. send_outputs put env (outs @ [visible k x]) ps sv)"

type_synonym 'w device = "u32 \<Rightarrow> sval list \<Rightarrow> 'w \<Rightarrow> (bytes \<times> bytes list) \<times> 'w"

definition register_handle :: "config \<Rightarrow> HookFn \<Rightarrow> received list \<Rightarrow> bytes list \<Rightarrow> manager \<Rightarrow> (unit, manager) exec" where
  "register_handle cfg f xs outs h =
     (let proxy = handle_proxy cfg (zip (params f) xs)
      in if is_create_handle f \<and> opt_shadow_desc cfg
         then (case proxy of
                 None \<Rightarrow> Abort ''called Option::unwrap() on a None value''
               | Some p \<Rightarrow> Ok () (hm_insert p (usize_of (hd outs)) h))
         else Ok () h)"

definition record_call :: "config \<Rightarrow> HookFn \<Rightarrow> received list \<Rightarrow> manager \<Rightarrow> (unit, manager) exec" where
  "record_call cfg f xs h =
     (if phos cfg \<and> opt_shadow_desc cfg \<and> (is_create_handle f \<or> is_modify_handle f)
      then (case handle_proxy cfg (zip (params f) xs) of
              None \<Rightarrow> Abort ''called Option::unwrap() on a None value''
            | Some p \<Rightarrow> insert_args p (find_op_key (inputs (params f) (map raw xs)) (params f))
                         (i32_bytes (proc_id f) @ concat (map saved xs)) h)
      else Ok () h)"

text \<open>
  The generated function of the server. \<open>before_call\<close>, which registers the two buffers of the channel with
  the runtime at the first allocation (\<open>pin_memory\<close>), is left out: it changes none of their bytes. \<open>Attach\<close>
  models \<open>pin_memory\<close>.
\<close>

definition exe :: "'r get_bytes \<Rightarrow> 's put_bytes \<Rightarrow> ('s \<Rightarrow> (unit, 's) io) \<Rightarrow> 'w device \<Rightarrow> config \<Rightarrow> HookFn \<Rightarrow>
    ('r, 's, 'w) server \<Rightarrow> (unit, ('r, 's, 'w) server) io" where
  "exe get put flush dev cfg f sv =
     io_bind (recv_params get cfg (params f) sv) (\<lambda>xs sv.
       let ((res, outs), w) = dev (proc_id f) (exec_args (params f) xs) (world sv)
       in io_bind (on_resources (register_handle cfg f xs outs (resources sv)) (sv\<lparr>world := w\<rparr>)) (\<lambda>_ sv.
          io_bind (on_resources (record_call cfg f xs (resources sv)) sv) (\<lambda>_ sv.
            if is_create_handle f \<and> opt_shadow_desc cfg then Returns () sv
            else if is_async_api f \<and> opt_async_api cfg then Returns () sv
            else io_bind (send_outputs put (inputs (params f) (map raw xs)) [] (zip (filter is_host_output (params f)) outs) sv) (\<lambda>_ sv.
                 io_bind (ssend (put res) sv) (\<lambda>_ sv. ssend flush sv)))))"

text \<open>
  One turn of the loop of \<open>launch_server\<close>: \<open>receive_request\<close> reads the number of the
  function, \<open>-1\<close> ends the loop, \<open>dispatch\<close> runs the generated function or panics. An error of
  the channel between two requests is handed to the loop.
\<close>

datatype turn = Served | Ended

definition receive_request :: "'r get_bytes \<Rightarrow> ('r, 's, 'w) server \<Rightarrow> (u32, ('r, 's, 'w) server) io" where
  "receive_request get sv =
     (case get 4 (receiver sv) of
        Returns bs c \<Rightarrow> Returns (i32_of bs) (sv\<lparr>receiver := c\<rparr>)
      | Errs e c \<Rightarrow> Errs e (sv\<lparr>receiver := c\<rparr>)
      | Panics m \<Rightarrow> Panics m
      | Blocks \<Rightarrow> Blocks)"

definition dispatch :: "'r get_bytes \<Rightarrow> 's put_bytes \<Rightarrow> ('s \<Rightarrow> (unit, 's) io) \<Rightarrow> 'w device \<Rightarrow> config \<Rightarrow>
    (u32 \<Rightarrow> HookFn option) \<Rightarrow> u32 \<Rightarrow> ('r, 's, 'w) server \<Rightarrow> (unit, ('r, 's, 'w) server) io" where
  "dispatch get put flush dev cfg hooks n sv =
     (case hooks n of None \<Rightarrow> Panics ''invalid proc_id'' | Some f \<Rightarrow> exe get put flush dev cfg f sv)"

definition server_turn :: "'r get_bytes \<Rightarrow> 's put_bytes \<Rightarrow> ('s \<Rightarrow> (unit, 's) io) \<Rightarrow> 'w device \<Rightarrow> config \<Rightarrow>
    (u32 \<Rightarrow> HookFn option) \<Rightarrow> ('r, 's, 'w) server \<Rightarrow> (turn, ('r, 's, 'w) server) io" where
  "server_turn get put flush dev cfg hooks sv =
     io_bind (receive_request get sv) (\<lambda>n sv.
       if n = -1 then Returns Ended sv
       else io_bind (dispatch get put flush dev cfg hooks n sv) (\<lambda>_. Returns Served))"

section \<open>A call without channels\<close>

text \<open>
  The bytes of a parameter in the request, and what the server makes of them: the specification
  that the generated code is shown to implement.
\<close>

fun wire :: "ParamKind \<Rightarrow> bytes \<Rightarrow> bytes" where
  "wire (InputArrayPtr n) r = slice_bytes n r"
| "wire InputCStr r = slice_bytes 1 r"
| "wire _ r = r"

fun raw_ok :: "config \<Rightarrow> ParamKind \<Rightarrow> bytes \<Rightarrow> bool" where
  "raw_ok cfg (InputValue n) r = (length r = n)"
| "raw_ok cfg (InputHandle _ _) r = (length r = 8)"
| "raw_ok cfg (InputSinglePtr n) r = (length r = n)"
| "raw_ok cfg (InputArrayPtr n) r = slice_ok n r"
| "raw_ok cfg InputCStr r = (cstr_ok r \<and> slice_ok 1 r)"
| "raw_ok cfg (OutputHandle _) r = (length r = (if opt_shadow_desc cfg then 8 else 0))"
| "raw_ok cfg DeviceInputPtr r = (length r = 8)"
| "raw_ok cfg DeviceOutputPtr r = (length r = 8)"
| "raw_ok cfg _ r = (r = [])"

fun receive :: "config \<Rightarrow> ParamKind \<Rightarrow> bytes \<Rightarrow> manager \<Rightarrow> (received, manager) exec" where
  "receive cfg (InputHandle op k) r h =
     (if opt_shadow_desc cfg
      then exec_bind (get_inner (usize_of r) (op = Op_Destroy) h)
             (\<lambda>v. Ok \<lparr>raw = r, saved = r, argument = Some (SHandle v)\<rparr>)
      else Ok \<lparr>raw = r, saved = r, argument = Some (SHandle (usize_of r))\<rparr> h)"
| "receive cfg (OutputHandle k) r h = Ok \<lparr>raw = r, saved = r, argument = Some (SOut 8)\<rparr> h"
| "receive cfg (OutputSinglePtr n) r h = Ok \<lparr>raw = r, saved = r, argument = Some (SOut 0)\<rparr> h"
| "receive cfg (OutputArrayPtr n l) r h = Ok \<lparr>raw = r, saved = r, argument = Some (SOut 0)\<rparr> h"
| "receive cfg Skip r h = Ok \<lparr>raw = r, saved = r, argument = None\<rparr> h"
| "receive cfg (Const c) r h = Ok \<lparr>raw = r, saved = r, argument = Some (SBytes c)\<rparr> h"
| "receive cfg k r h = Ok \<lparr>raw = r, saved = wire k r, argument = Some (SBytes r)\<rparr> h"

fun receive_all :: "config \<Rightarrow> ParamKind list \<Rightarrow> bytes list \<Rightarrow> manager \<Rightarrow> (received list, manager) exec" where
  "receive_all cfg (k # ks) (r # rs) h =
     exec_bind (receive cfg k r h) (\<lambda>x h. exec_bind (receive_all cfg ks rs h) (\<lambda>xs. Ok (x # xs)))"
| "receive_all cfg _ _ h = Ok [] h"

text \<open>A call: the received parameters, the result and the outputs, and the new states.\<close>

definition call :: "'w device \<Rightarrow> config \<Rightarrow> HookFn \<Rightarrow> bytes list \<Rightarrow> manager \<Rightarrow> 'w \<Rightarrow>
    (received list \<times> bytes \<times> bytes list \<times> 'w, manager) exec" where
  "call dev cfg f rs h w =
     exec_bind (receive_all cfg (params f) rs h) (\<lambda>xs h.
       let ((res, outs), w) = dev (proc_id f) (exec_args (params f) xs) w
       in exec_bind (register_handle cfg f xs outs h) (\<lambda>_ h.
          exec_bind (record_call cfg f xs h) (\<lambda>_. Ok (xs, res, outs, w))))"

definition replies :: "config \<Rightarrow> HookFn \<Rightarrow> bool" where
  "replies cfg f \<longleftrightarrow> \<not> (is_create_handle f \<and> opt_shadow_desc cfg) \<and> \<not> (is_async_api f \<and> opt_async_api cfg)"

text \<open>What the client reads of an output, and the bytes of the outputs in the reply.\<close>

fun trim :: "bytes list \<Rightarrow> bytes list \<Rightarrow> ParamKind \<Rightarrow> bytes \<Rightarrow> bytes" where
  "trim env vis (OutputArrayPtr n (Capped cap len)) x = take (n * len env vis) x"
| "trim env vis _ x = x"

fun out_wire :: "ParamKind \<Rightarrow> bytes \<Rightarrow> bytes" where
  "out_wire (OutputArrayPtr n len) x = slice_bytes n x"
| "out_wire _ x = x"

fun trimmed :: "bytes list \<Rightarrow> bytes list \<Rightarrow> (ParamKind \<times> bytes) list \<Rightarrow> (ParamKind \<times> bytes) list" where
  "trimmed env vis [] = []"
| "trimmed env vis ((k, x) # ps) = (k, trim env vis k x) # trimmed env (vis @ [visible k x]) ps"

definition reply :: "HookFn \<Rightarrow> bytes list \<Rightarrow> bytes \<Rightarrow> bytes list \<Rightarrow> bytes" where
  "reply f env res outs =
     concat (map (\<lambda>(k, x). out_wire k x) (trimmed env [] (zip (filter is_host_output (params f)) outs))) @ res"

text \<open>
  What the library function leaves in the outputs: every output has the size that was allocated
  for it, and a length that it reports fits the capacity.
\<close>

fun out_ok :: "bytes list \<Rightarrow> bytes list \<Rightarrow> ParamKind \<Rightarrow> bytes \<Rightarrow> bool" where
  "out_ok env vis (OutputArrayPtr n (Capped cap len)) x =
     (length x = n * cap env \<and> slice_ok n x \<and> len env vis \<le> cap env)"
| "out_ok env vis (OutputArrayPtr n (Fixed len)) x = (length x = n * len env \<and> slice_ok n x)"
| "out_ok env vis k x = (length x = alloc_size env k)"

fun outs_ok :: "bytes list \<Rightarrow> bytes list \<Rightarrow> (ParamKind \<times> bytes) list \<Rightarrow> bool" where
  "outs_ok env vis [] = True"
| "outs_ok env vis ((k, x) # ps) = (out_ok env vis k x \<and> outs_ok env (vis @ [visible k x]) ps)"

lemma io_lift_simps [simp]:
  "g (receiver sv) = Returns x c \<Longrightarrow> srecv g sv = Returns x (sv\<lparr>receiver := c\<rparr>)"
  "p (sender sv) = Returns y d \<Longrightarrow> ssend p sv = Returns y (sv\<lparr>sender := d\<rparr>)"
  "put bs (channel_sender cl) = Returns u s \<Longrightarrow> csend put bs cl = Returns u (cl\<lparr>channel_sender := s\<rparr>)"
  "crecv (Returns z t) cl = Returns z (cl\<lparr>channel_receiver := t\<rparr>)"
  by (simp_all add: srecv_def ssend_def csend_def crecv_def)

text \<open>The server reads a request as its specification does, and nothing beyond it.\<close>

context byte_source
begin

definition reads :: "('a, ('c, 's, 'w) server) io \<Rightarrow> ('a, manager) exec \<Rightarrow> bytes \<Rightarrow> ('c, 's, 'w) server \<Rightarrow> bool" where
  "reads m e rest sv \<longleftrightarrow>
     (case e of
        Ok x h \<Rightarrow> \<exists>c. m = Returns x (sv\<lparr>receiver := c, resources := h\<rparr>) \<and> content c = rest \<and> good c
      | Abort msg \<Rightarrow> m = Panics msg
      | _ \<Rightarrow> False)"

lemma reads_bind:
  assumes "reads m e rest sv"
    and "\<And>x h c. e = Ok x h \<Longrightarrow> content c = rest \<Longrightarrow> good c \<Longrightarrow>
      reads (f x (sv\<lparr>receiver := c, resources := h\<rparr>)) (g x h) rest' (sv\<lparr>receiver := c, resources := h\<rparr>)"
  shows "reads (io_bind m f) (exec_bind e g) rest' sv"
proof (cases e)
  case (Ok x h)
  then obtain c where m: "m = Returns x (sv\<lparr>receiver := c, resources := h\<rparr>)" and c: "content c = rest" "good c"
    using assms(1) by (auto simp: reads_def)
  have "reads (f x (sv\<lparr>receiver := c, resources := h\<rparr>)) (g x h) rest' (sv\<lparr>receiver := c, resources := h\<rparr>)"
    by (rule assms(2) [OF Ok c])
  then show ?thesis using Ok m by (auto simp: reads_def split: exec.splits)
qed (use assms(1) in \<open>auto simp: reads_def\<close>)

lemma reads_receiver: "reads m e rest (sv\<lparr>receiver := c\<rparr>) = reads m e rest sv"
  by (cases e) (simp_all add: reads_def)

lemma reads_get:
  assumes "good (receiver sv)" and "content (receiver sv) = bs @ rest" and "length bs = n"
  shows "reads (srecv (get n) sv) (Ok bs (resources sv)) rest sv"
proof -
  obtain c where "get n (receiver sv) = Returns bs c" "content c = rest" "good c"
    using get_prefix [OF assms(1,2)] assms(3) by auto
  then show ?thesis by (auto simp: reads_def)
qed

lemma reads_slice:
  assumes "good (receiver sv)" and "content (receiver sv) = slice_bytes n bs @ rest" and "slice_ok n bs"
  shows "reads (srecv (recv_slice get n) sv) (Ok bs (resources sv)) rest sv"
proof -
  obtain c where "recv_slice get n (receiver sv) = Returns bs c" "content c = rest" "good c"
    using recv_slice_prefix [OF assms] by auto
  then show ?thesis by (auto simp: reads_def)
qed

lemma reads_Ok: "good (receiver sv) \<Longrightarrow> content (receiver sv) = rest \<Longrightarrow> h = resources sv \<Longrightarrow>
    reads (Returns x sv) (Ok x h) rest sv"
  by (auto simp: reads_def intro: exI [of _ "receiver sv"])

lemma reads_resources:
  assumes "good (receiver sv)" and "content (receiver sv) = rest"
    and "\<And>c s. e \<noteq> Exit c s" and "\<And>m. e \<noteq> Undef m"
  shows "reads (on_resources e sv) e rest sv"
  using assms by (cases e) (auto simp: reads_def on_resources_def intro: exI [of _ "receiver sv"])

lemma get_inner_outcome: "get_inner p d h \<noteq> Exit c s" "get_inner p d h \<noteq> Undef m"
  by (simp_all add: get_inner_def split: option.splits)

lemma reads_param:
  assumes "good (receiver sv)" and "content (receiver sv) = wire k r @ rest" and "raw_ok cfg k r"
  shows "reads (recv_param get cfg k sv) (receive cfg k r (resources sv)) rest sv"
proof -
  have plain: "reads (io_bind (srecv (get n) sv) f) e rest sv"
    if w: "wire k r = r" "length r = n"
      and f: "\<And>c. content c = rest \<Longrightarrow> good c \<Longrightarrow> reads (f r (sv\<lparr>receiver := c\<rparr>)) e rest (sv\<lparr>receiver := c\<rparr>)"
    for n f and e :: "(received, manager) exec"
  proof -
    obtain c where "get n (receiver sv) = Returns r c" "content c = rest" "good c"
      using get_prefix [OF assms(1), of r rest] assms(2) w by auto
    then show ?thesis using f by (simp add: reads_receiver)
  qed
  have slice: "reads (io_bind (srecv (recv_slice get n) sv) f) e rest sv"
    if w: "wire k r = slice_bytes n r" "slice_ok n r"
      and f: "\<And>c. content c = rest \<Longrightarrow> good c \<Longrightarrow> reads (f r (sv\<lparr>receiver := c\<rparr>)) e rest (sv\<lparr>receiver := c\<rparr>)"
    for n f and e :: "(received, manager) exec"
  proof -
    obtain c where "recv_slice get n (receiver sv) = Returns r c" "content c = rest" "good c"
      using recv_slice_prefix [OF assms(1), of n r rest] assms(2) w by auto
    then show ?thesis using f by (simp add: reads_receiver)
  qed
  show ?thesis
  proof (cases k)
    case (InputHandle op key)
    have "reads (io_bind (on_resources (get_inner (usize_of r) (op = Op_Destroy) (resources sv)) (sv\<lparr>receiver := c\<rparr>))
          (\<lambda>v. Returns \<lparr>raw = r, saved = r, argument = Some (SHandle v)\<rparr>))
        (exec_bind (get_inner (usize_of r) (op = Op_Destroy) (resources sv))
          (\<lambda>v. Ok \<lparr>raw = r, saved = r, argument = Some (SHandle v)\<rparr>)) rest (sv\<lparr>receiver := c\<rparr>)"
      if "content c = rest" "good c" for c
      by (rule reads_bind [OF reads_resources]) (use that in \<open>auto simp: get_inner_outcome intro!: reads_Ok\<close>)
    then show ?thesis
      using InputHandle assms(3) by (auto intro!: plain reads_Ok)
  next
    case (OutputHandle key)
    then show ?thesis using assms by (auto intro!: plain reads_Ok)
  next
    case InputCStr
    then show ?thesis using assms by (auto intro!: slice reads_Ok)
  next
    case (InputArrayPtr n)
    then show ?thesis using assms by (auto intro!: slice reads_Ok)
  qed (use assms in \<open>auto simp: got_def intro!: plain reads_Ok\<close>)
qed

lemma reads_params:
  assumes "good (receiver sv)" and "content (receiver sv) = concat (map2 wire ks rs) @ rest"
    and "list_all2 (raw_ok cfg) ks rs"
  shows "reads (recv_params get cfg ks sv) (receive_all cfg ks rs (resources sv)) rest sv"
  using assms(3,1,2)
proof (induction ks rs arbitrary: sv rule: list_all2_induct)
  case Nil
  then show ?case by (auto intro: reads_Ok)
next
  case (Cons k ks r rs)
  have k: "reads (recv_param get cfg k sv) (receive cfg k r (resources sv)) (concat (map2 wire ks rs) @ rest) sv"
    by (rule reads_param) (use Cons in auto)
  show ?case
    unfolding recv_params.simps receive_all.simps
  proof (rule reads_bind [OF k])
    fix x h c
    let ?sv = "sv\<lparr>receiver := c, resources := h\<rparr>"
    assume "content c = concat (map2 wire ks rs) @ rest" "good c"
    then have "reads (recv_params get cfg ks ?sv) (receive_all cfg ks rs h) rest ?sv"
      using Cons.IH [of ?sv] by simp
    then show "reads (io_bind (recv_params get cfg ks ?sv) (\<lambda>xs. Returns (x # xs)))
        (exec_bind (receive_all cfg ks rs h) (\<lambda>xs. Ok (x # xs))) rest ?sv"
      by (rule reads_bind) (auto intro: reads_Ok)
  qed
qed

end

lemma receive_raw:
  "receive cfg k r h = Ok x h' \<Longrightarrow> raw_ok cfg k r \<Longrightarrow> raw x = r \<and> saved x = wire k r"
  by (cases k) (auto simp: exec_simps split: if_splits)

lemma receive_all_raw:
  assumes "list_all2 (raw_ok cfg) ks rs" and "receive_all cfg ks rs h = Ok xs h'"
  shows "map raw xs = rs \<and> map saved xs = map2 wire ks rs"
  using assms by (induction ks rs arbitrary: h xs rule: list_all2_induct) (auto simp: exec_simps dest: receive_raw)

lemma call_Ok:
  assumes "call dev cfg f rs h w = Ok (xs, res, outs, w') h'"
  shows "\<exists>h1 h2. receive_all cfg (params f) rs h = Ok xs h1 \<and>
    dev (proc_id f) (exec_args (params f) xs) w = ((res, outs), w') \<and>
    register_handle cfg f xs outs h1 = Ok () h2 \<and> record_call cfg f xs h2 = Ok () h'"
proof -
  obtain ys h1 where r: "receive_all cfg (params f) rs h = Ok ys h1"
    using assms by (auto simp: call_def exec_bind_eq_Ok)
  obtain q os v where d: "dev (proc_id f) (exec_args (params f) ys) w = ((q, os), v)" by (metis prod.collapse)
  show ?thesis using assms r d by (auto simp: call_def exec_simps)
qed

text \<open>A reply is written in pieces.\<close>

fun put_all :: "'s put_bytes \<Rightarrow> bytes list \<Rightarrow> 's \<Rightarrow> (unit, 's) io" where
  "put_all put [] c = Returns () c"
| "put_all put (b # bs) c = io_bind (put b c) (\<lambda>_ c. put_all put bs c)"

fun out_pieces :: "ParamKind \<times> bytes \<Rightarrow> bytes list" where
  "out_pieces (OutputArrayPtr n len, x) = [usize_bytes (of_nat (length x div n)), x]"
| "out_pieces (k, x) = [x]"

lemma concat_out_pieces: "concat (out_pieces (k, x)) = out_wire k x"
  by (cases k) (simp_all add: slice_bytes_def)

lemma io_bind_unit [simp]: "io_bind m Returns = m"
  by (cases m) auto

lemma put_all_append: "put_all put (xs @ ys) c = io_bind (put_all put xs c) (\<lambda>_ c. put_all put ys c)"
proof (induction xs arbitrary: c)
  case (Cons x xs)
  then show ?case by (cases "put x c") simp_all
qed simp

lemma ssend_bind: "io_bind (ssend p sv) (\<lambda>_ sv. ssend q sv) = ssend (\<lambda>c. io_bind (p c) (\<lambda>_ c. q c)) sv"
  by (cases "p (sender sv)") (simp_all add: ssend_def split: io.splits)

lemma put_all_simps:
  fixes put :: "'s put_bytes"
  shows "put_all put [a] = put a"
    and "put_all put [a, b] = (\<lambda>c. io_bind (put a c) (\<lambda>_. put b))"
proof -
  have nil: "put_all put [] = Returns ()" by (rule ext) simp
  show one: "put_all put [a] = put a" for a by (rule ext) (simp add: nil)
  show "put_all put [a, b] = (\<lambda>c. io_bind (put a c) (\<lambda>_. put b))"
    by (rule ext) (simp add: one put_all.simps(2) [of put a "[b]"] del: put_all.simps)
qed

lemma send_output_pieces:
  assumes "out_ok env vis k x" and "is_host_output k"
  shows "send_output put env vis k x sv = ssend (put_all put (out_pieces (k, trim env vis k x))) sv"
proof (cases k)
  case (OutputArrayPtr n len)
  then show ?thesis
    using assms by (cases len) (simp_all add: send_slice_def [abs_def] put_all_simps del: put_all.simps)
qed (use assms in \<open>simp_all add: put_all_simps del: put_all.simps\<close>)

lemma send_outputs_pieces:
  assumes "outs_ok env vis ps" and "list_all (is_host_output \<circ> fst) ps"
  shows "send_outputs put env vis ps sv = ssend (put_all put (concat (map out_pieces (trimmed env vis ps)))) sv"
  using assms
proof (induction ps arbitrary: vis sv)
  case Nil
  show ?case by (simp add: ssend_def)
next
  case (Cons p ps)
  obtain k x where p: "p = (k, x)" by fastforce
  have "send_output put env vis k x sv = ssend (put_all put (out_pieces (k, trim env vis k x))) sv"
    by (rule send_output_pieces) (use Cons.prems p in auto)
  moreover have ok: "outs_ok env (vis @ [visible k x]) ps" "list_all (is_host_output \<circ> fst) ps"
    using Cons.prems p by (auto simp: comp_def)
  ultimately show ?case
    using p by (simp add: Cons.IH [OF ok, abs_def] ssend_bind put_all_append [abs_def])
qed

definition reply_pieces :: "HookFn \<Rightarrow> bytes list \<Rightarrow> bytes \<Rightarrow> bytes list \<Rightarrow> bytes list" where
  "reply_pieces f env res outs =
     concat (map out_pieces (trimmed env [] (zip (filter is_host_output (params f)) outs))) @ [res]"

lemma concat_reply_pieces: "concat (reply_pieces f env res outs) = reply f env res outs"
proof -
  have "concat (concat (map out_pieces ps)) = concat (map (\<lambda>(k, x). out_wire k x) ps)" for ps
    by (induction ps) (auto simp: concat_out_pieces)
  then show ?thesis by (simp add: reply_pieces_def reply_def)
qed

lemma list_all_zip_filter: "list_all (P \<circ> fst) (zip (filter P ks) xs)"
  by (auto simp: list_all_iff dest: set_zip_leftD)

text \<open>The rest of the session is a call of the specification and the sending of its reply.\<close>

context byte_source
begin

lemma exe_call:
  assumes "good (receiver sv)" and "content (receiver sv) = concat (map2 wire (params f) rs) @ rest"
    and rs: "list_all2 (raw_ok cfg) (params f) rs"
    and c: "call dev cfg f rs (resources sv) (world sv) = Ok (xs, res, outs, w) h"
    and outs: "replies cfg f \<Longrightarrow> outs_ok (inputs (params f) rs) [] (zip (filter is_host_output (params f)) outs)"
  shows "\<exists>c. content c = rest \<and> good c \<and> exe get put flush dev cfg f sv =
    ssend (if replies cfg f then (\<lambda>s. io_bind (put_all put (reply_pieces f (inputs (params f) rs) res outs) s) (\<lambda>_ s. flush s))
           else Returns ()) (sv\<lparr>receiver := c, resources := h, world := w\<rparr>)"
proof -
  obtain h1 h2 where r: "receive_all cfg (params f) rs (resources sv) = Ok xs h1"
    and d: "dev (proc_id f) (exec_args (params f) xs) (world sv) = ((res, outs), w)"
    and g: "register_handle cfg f xs outs h1 = Ok () h2" and k: "record_call cfg f xs h2 = Ok () h"
    using call_Ok [OF c] by blast
  from reads_params [OF assms(1,2) rs] r obtain c where
    x: "recv_params get cfg (params f) sv = Returns xs (sv\<lparr>receiver := c, resources := h1\<rparr>)"
    and c: "content c = rest" "good c" by (auto simp: reads_def)
  have raw: "map raw xs = rs" using receive_all_raw [OF rs r] by simp
  let ?sv = "sv\<lparr>receiver := c, resources := h, world := w\<rparr>"
  have reg: "on_resources (register_handle cfg f xs outs h1) (sv\<lparr>receiver := c, resources := h1, world := w\<rparr>) =
      Returns () (sv\<lparr>receiver := c, resources := h2, world := w\<rparr>)"
    and rec: "on_resources (record_call cfg f xs h2) (sv\<lparr>receiver := c, resources := h2, world := w\<rparr>) = Returns () ?sv"
    by (simp_all add: on_resources_def g k)
  have "exe get put flush dev cfg f sv =
     (if is_create_handle f \<and> opt_shadow_desc cfg then Returns () ?sv
      else if is_async_api f \<and> opt_async_api cfg then Returns () ?sv
      else io_bind (send_outputs put (inputs (params f) rs) [] (zip (filter is_host_output (params f)) outs) ?sv) (\<lambda>_ sv.
                 io_bind (ssend (put res) sv) (\<lambda>_ sv. ssend flush sv)))"
    unfolding exe_def x by (simp add: d reg rec raw Let_def)
  also have "\<dots> = ssend (if replies cfg f then (\<lambda>s. io_bind (put_all put (reply_pieces f (inputs (params f) rs) res outs) s)
      (\<lambda>_ s. flush s)) else Returns ()) ?sv"
  proof (cases "replies cfg f")
    case True
    then show ?thesis
      using send_outputs_pieces [OF outs [OF True] list_all_zip_filter, of put ?sv]
      by (auto simp: replies_def reply_pieces_def ssend_bind put_all_append [abs_def] io_bind_assoc io_bind_unit)
  next
    case False
    then show ?thesis by (auto simp: replies_def ssend_def)
  qed
  finally show ?thesis using c by blast
qed

lemma exe_abort:
  assumes "good (receiver sv)" and "content (receiver sv) = concat (map2 wire (params f) rs) @ rest"
    and "list_all2 (raw_ok cfg) (params f) rs"
    and "receive_all cfg (params f) rs (resources sv) = Abort m"
  shows "exe get put flush dev cfg f sv = Panics m"
  using reads_params [OF assms(1-3)] assms(4) by (simp add: reads_def exe_def)

end

section \<open>The client's half\<close>

text \<open>The arguments that a caller may pass, and their bytes in the request.\<close>

fun arg_ok :: "ParamKind \<Rightarrow> arg \<Rightarrow> bool" where
  "arg_ok (InputValue n) a = (\<exists>bs. a = Value bs \<and> length bs = n)"
| "arg_ok (InputHandle _ _) a = (\<exists>bs. a = Value bs \<and> length bs = 8)"
| "arg_ok (InputSinglePtr n) a = (\<exists>bs. a = Ptr (Some bs) \<and> length bs = n)"
| "arg_ok (InputArrayPtr n) a = (\<exists>bs. a = Slice (Some bs) \<and> slice_ok n bs)"
| "arg_ok InputCStr a = (\<exists>bs. a = CStr bs \<and> 0 \<notin> set bs \<and> slice_ok 1 (bs @ [0]))"
| "arg_ok (OutputHandle _) a = (a = Out True)"
| "arg_ok (OutputSinglePtr _) a = (a = Out True)"
| "arg_ok (OutputArrayPtr _ _) a = (a = Out True)"
| "arg_ok DeviceInputPtr a = (\<exists>bs. a = Value bs \<and> length bs = 8)"
| "arg_ok DeviceOutputPtr a = (\<exists>bs. a = Value bs \<and> length bs = 8)"
| "arg_ok Skip a = True"
| "arg_ok (Const c) a = (a = Value c)"

fun param_raw :: "config \<Rightarrow> u64 \<Rightarrow> ParamKind \<Rightarrow> arg \<Rightarrow> bytes" where
  "param_raw cfg p (OutputHandle _) a = (if opt_shadow_desc cfg then usize_bytes p else [])"
| "param_raw cfg p k a = (if is_host_output k \<or> k = Skip \<or> (\<exists>c. k = Const c) then [] else raw_arg a)"

definition makes_proxy :: "config \<Rightarrow> ParamKind \<Rightarrow> bool" where
  "makes_proxy cfg k \<longleftrightarrow> is_output_handle k \<and> opt_shadow_desc cfg"

definition after_param :: "config \<Rightarrow> u64 \<Rightarrow> ParamKind \<Rightarrow> u64" where
  "after_param cfg p k = (if makes_proxy cfg k then p + 1 else p)"

fun call_raws :: "config \<Rightarrow> u64 \<Rightarrow> (ParamKind \<times> arg) list \<Rightarrow> bytes list" where
  "call_raws cfg p [] = []"
| "call_raws cfg p ((k, a) # ps) = param_raw cfg p k a # call_raws cfg (after_param cfg p k) ps"

fun call_proxies :: "config \<Rightarrow> u64 \<Rightarrow> ParamKind list \<Rightarrow> bytes list" where
  "call_proxies cfg p [] = []"
| "call_proxies cfg p (k # ks) =
     (if makes_proxy cfg k then [usize_bytes p] else []) @ call_proxies cfg (after_param cfg p k) ks"

lemma call_raws_ok:
  "list_all2 arg_ok ks as \<Longrightarrow> list_all2 (raw_ok cfg) ks (call_raws cfg p (zip ks as))"
proof (induction ks as arbitrary: p rule: list_all2_induct)
  case (Cons k ks a as)
  have "raw_ok cfg k (param_raw cfg p k a)" using Cons(1) by (cases k) (auto simp: cstr_ok_def)
  then show ?case using Cons by simp
qed simp

lemma call_raws_inputs:
  "list_all2 arg_ok ks as \<Longrightarrow> inputs ks (call_raws cfg p (zip ks as)) = inputs ks (map raw_arg as)"
proof (induction ks as arbitrary: p rule: list_all2_induct)
  case (Cons k ks a as)
  have "shared k \<Longrightarrow> param_raw cfg p k a = raw_arg a" by (cases k) auto
  then show ?case using Cons by (auto simp: inputs_def)
qed (simp add: inputs_def)

context byte_sink
begin

lemma csend_then:
  assumes "room (length bs + n) (channel_sender cl)"
  obtains c where "csend put bs cl = Returns () (cl\<lparr>channel_sender := c\<rparr>)"
    and "written c = written (channel_sender cl) @ bs" and "room n c"
proof -
  obtain c where "put bs (channel_sender cl) = Returns () c" "written c = written (channel_sender cl) @ bs" "room n c"
    using put_then [OF assms] by blast
  then show ?thesis using that by simp
qed

lemma session_send_slice_then:
  assumes "room (length (slice_bytes m bs) + n) (channel_sender cl)"
  obtains c where "session_send_slice put m bs cl = Returns [] (cl\<lparr>channel_sender := c\<rparr>)"
    and "written c = written (channel_sender cl) @ slice_bytes m bs" and "room n c"
proof -
  obtain c where "send_slice put m bs (channel_sender cl) = Returns () c"
    "written c = written (channel_sender cl) @ slice_bytes m bs" "room n c"
    using send_slice_then [OF assms] by blast
  then show ?thesis using that by (simp add: session_send_slice_def)
qed

lemma send_param_writes:
  assumes a: "arg_ok k a" and room: "room (length (wire k (param_raw cfg (next_handle cl) k a)) + n) (channel_sender cl)"
  obtains c where "send_param put cfg k a cl = Returns (call_proxies cfg (next_handle cl) [k])
      (cl\<lparr>channel_sender := c, next_handle := after_param cfg (next_handle cl) k\<rparr>)"
    and "written c = written (channel_sender cl) @ wire k (param_raw cfg (next_handle cl) k a)" and "room n c"
proof -
  let ?r = "param_raw cfg (next_handle cl) k a"
  let ?done = "\<lambda>c. send_param put cfg k a cl = Returns (call_proxies cfg (next_handle cl) [k])
      (cl\<lparr>channel_sender := c, next_handle := after_param cfg (next_handle cl) k\<rparr>) \<and>
      written c = written (channel_sender cl) @ wire k ?r \<and> room n c"
  have plain: "\<exists>c. ?done c" if w: "send_param put cfg k a cl = send_value put ?r cl" "wire k ?r = ?r" "\<not> is_output_handle k"
  proof -
    obtain c where "csend put ?r cl = Returns () (cl\<lparr>channel_sender := c\<rparr>)"
      "written c = written (channel_sender cl) @ ?r" "room n c"
      using csend_then [of ?r n cl] room w(2) by auto
    then show ?thesis using w by (auto simp: send_value_def makes_proxy_def after_param_def)
  qed
  have slice: "\<exists>c. ?done c" if w: "send_param put cfg k a cl = session_send_slice put m ?r cl" "wire k ?r = slice_bytes m ?r"
      "\<not> is_output_handle k" for m
  proof -
    obtain c where "session_send_slice put m ?r cl = Returns [] (cl\<lparr>channel_sender := c\<rparr>)"
      "written c = written (channel_sender cl) @ slice_bytes m ?r" "room n c"
      using session_send_slice_then [of m ?r n cl] room w(2) by auto
    then show ?thesis using w by (auto simp: makes_proxy_def after_param_def)
  qed
  have none: "\<exists>c. ?done c" if "send_param put cfg k a cl = Returns [] cl" "wire k ?r = []" "\<not> makes_proxy cfg k"
    using that room by (intro exI [of _ "channel_sender cl"]) (simp add: after_param_def)
  have proxy: "\<exists>c. ?done c" if k: "k = OutputHandle key" for key
  proof (cases "opt_shadow_desc cfg")
    case True
    let ?cl = "cl\<lparr>next_handle := next_handle cl + 1\<rparr>"
    obtain c where "csend put ?r ?cl = Returns () (?cl\<lparr>channel_sender := c\<rparr>)"
      "written c = written (channel_sender cl) @ ?r" "room n c"
      using csend_then [of ?r n ?cl] room k by auto
    moreover have "?cl\<lparr>channel_sender := c\<rparr> = cl\<lparr>channel_sender := c, next_handle := next_handle cl + 1\<rparr>"
      by (cases cl) simp
    ultimately show ?thesis using True k a
      by (intro exI [of _ c]) (simp add: send_handle_def Let_def makes_proxy_def after_param_def)
  next
    case False
    then show ?thesis by (intro none) (simp_all add: k makes_proxy_def)
  qed
  have "send_param put cfg k a cl = send_value put ?r cl \<and> wire k ?r = ?r \<and> \<not> is_output_handle k \<or>
      (\<exists>m. send_param put cfg k a cl = session_send_slice put m ?r cl \<and> wire k ?r = slice_bytes m ?r \<and> \<not> is_output_handle k) \<or>
      send_param put cfg k a cl = Returns [] cl \<and> wire k ?r = [] \<and> \<not> makes_proxy cfg k \<or> (\<exists>key. k = OutputHandle key)"
    using a by (cases k) (auto simp: makes_proxy_def)
  then have "\<exists>c. ?done c" using plain slice none proxy by metis
  then show ?thesis using that by blast
qed

lemma send_params_writes:
  assumes "list_all2 arg_ok ks as"
    and "room (length (concat (map2 wire ks (call_raws cfg (next_handle cl) (zip ks as)))) + n) (channel_sender cl)"
  shows "\<exists>c p. send_params put cfg (zip ks as) cl =
      Returns (call_proxies cfg (next_handle cl) ks) (cl\<lparr>channel_sender := c, next_handle := p\<rparr>) \<and>
    written c = written (channel_sender cl) @ concat (map2 wire ks (call_raws cfg (next_handle cl) (zip ks as))) \<and> room n c"
  using assms
proof (induction ks as arbitrary: cl rule: list_all2_induct)
  case Nil
  then show ?case by (auto intro!: exI [of _ "channel_sender cl"] exI [of _ "next_handle cl"])
next
  case (Cons k ks a as)
  let ?p = "after_param cfg (next_handle cl) k"
  let ?rest = "concat (map2 wire ks (call_raws cfg ?p (zip ks as)))"
  obtain c where c: "send_param put cfg k a cl = Returns (call_proxies cfg (next_handle cl) [k])
      (cl\<lparr>channel_sender := c, next_handle := ?p\<rparr>)"
    "written c = written (channel_sender cl) @ wire k (param_raw cfg (next_handle cl) k a)"
    "room (length ?rest + n) c"
    using send_param_writes [OF Cons(1), of cfg cl "length ?rest + n"] Cons.prems by (auto simp: add.assoc)
  from Cons.IH [of "cl\<lparr>channel_sender := c, next_handle := ?p\<rparr>"] c(3) obtain d p where
    "send_params put cfg (zip ks as) (cl\<lparr>channel_sender := c, next_handle := ?p\<rparr>) =
      Returns (call_proxies cfg ?p ks) (cl\<lparr>channel_sender := d, next_handle := p\<rparr>)"
    "written d = written c @ ?rest" "room n d" by auto
  then show ?case using c(1,2) by (intro exI [of _ d] exI [of _ p]) simp
qed

end

context flushed_sink
begin

lemma put_all_flush:
  assumes "room (length (concat ps) + slack) c"
  obtains c' where "io_bind (put_all put ps c) (\<lambda>_ c. flush c) = Returns () c'"
    and "written c' = written c @ concat ps" and "room 0 c'"
proof -
  have "\<exists>c'. put_all put ps c = Returns () c' \<and> written c' = written c @ concat ps \<and> room slack c'"
    using assms
  proof (induction ps arbitrary: c)
    case (Cons b ps)
    obtain c1 where c1: "put b c = Returns () c1" "written c1 = written c @ b" "room (length (concat ps) + slack) c1"
      using put_then [of b "length (concat ps) + slack" c] Cons.prems by (auto simp: add.assoc)
    then show ?case using Cons.IH [OF c1(3)] by auto
  qed simp
  then show ?thesis using that flush_keeps by fastforce
qed

lemma hijack_send_writes:
  assumes "list_all2 arg_ok (params f) as"
    and "room (length (i32_bytes (proc_id f) @ concat (map2 wire (params f) (call_raws cfg (next_handle cl) (zip (params f) as)))) + slack)
      (channel_sender cl)"
  obtains c p where "hijack_send put flush cfg f as cl =
      Returns (call_proxies cfg (next_handle cl) (params f)) (cl\<lparr>channel_sender := c, next_handle := p\<rparr>)"
    and "written c = written (channel_sender cl) @ i32_bytes (proc_id f) @
      concat (map2 wire (params f) (call_raws cfg (next_handle cl) (zip (params f) as)))" and "room 0 c"
proof -
  let ?ws = "concat (map2 wire (params f) (call_raws cfg (next_handle cl) (zip (params f) as)))"
  obtain c1 where c1: "csend put (i32_bytes (proc_id f)) cl = Returns () (cl\<lparr>channel_sender := c1\<rparr>)"
    "written c1 = written (channel_sender cl) @ i32_bytes (proc_id f)" "room (length ?ws + slack) c1"
    using csend_then [of "i32_bytes (proc_id f)" "length ?ws + slack" cl] assms(2) by (auto simp: add.assoc)
  from send_params_writes [OF assms(1), of cfg "cl\<lparr>channel_sender := c1\<rparr>" slack] c1(3) obtain c2 p
    where c2: "send_params put cfg (zip (params f) as) (cl\<lparr>channel_sender := c1\<rparr>) =
        Returns (call_proxies cfg (next_handle cl) (params f)) (cl\<lparr>channel_sender := c2, next_handle := p\<rparr>)"
      "written c2 = written c1 @ ?ws" "room slack c2" by auto
  obtain c3 where "flush c2 = Returns () c3" "written c3 = written c2" "room 0 c3"
    using flush_keeps [OF c2(3)] by blast
  moreover have "cl\<lparr>channel_sender := c2, next_handle := p, channel_sender := c3\<rparr> =
      cl\<lparr>channel_sender := c3, next_handle := p\<rparr>" by (cases cl) simp
  ultimately show ?thesis using c1 c2 by (intro that [of p c3]) (simp_all add: hijack_send_def)
qed

end

lemma trim_visible: "visible k (trim env vis k x) = visible k x"
  by (cases k) auto

lemma slice_ok_take: "slice_ok n x \<Longrightarrow> n * m \<le> length x \<Longrightarrow> slice_ok n (take (n * m) x)"
  by (auto simp: slice_ok_def)

context byte_source
begin

lemma recv_output_reads:
  assumes "good c" and "content c = out_wire k (trim env vis k x) @ rest"
    and "out_ok env vis k x" and "is_host_output k"
  shows "\<exists>c'. recv_output get env vis k c = Returns (trim env vis k x) c' \<and> content c' = rest \<and> good c'"
proof -
  have plain: "\<exists>c'. get (length x) c = Returns x c' \<and> content c' = rest \<and> good c'" if w: "content c = x @ rest"
    using get_content [OF assms(1), of "length x"] w by simp
  show ?thesis
  proof (cases k)
    case (OutputArrayPtr n len)
    let ?x = "trim env vis k x"
    have "slice_ok n ?x"
      using assms(3) OutputArrayPtr by (cases len) (auto simp: slice_ok_take)
    moreover have "out_len len env vis * n = length ?x"
      using assms(3) OutputArrayPtr by (cases len) (auto simp: min_absorb2 mult.commute)
    moreover have "content c = slice_bytes n ?x @ rest" using assms(2) OutputArrayPtr by simp
    ultimately obtain c' where "recv_slice_to get n (out_len len env vis) c = Returns ?x c'" "content c' = rest" "good c'"
      using recv_slice_to_prefix [OF assms(1)] by blast
    then show ?thesis using OutputArrayPtr by auto
  next
    case (OutputHandle key)
    then show ?thesis using assms(2,3) plain by simp
  next
    case (OutputSinglePtr n)
    then show ?thesis using assms(2,3) plain by simp
  qed (use assms(4) in auto)
qed

lemma recv_outputs_reads:
  assumes "list_all2 arg_ok ks as" and "good (channel_receiver cl)"
    and "length outs = length (filter is_host_output ks)"
    and "outs_ok env vis (zip (filter is_host_output ks) outs)"
    and "content (channel_receiver cl) =
      concat (map (\<lambda>(k, x). out_wire k x) (trimmed env vis (zip (filter is_host_output ks) outs))) @ rest"
  shows "\<exists>c. recv_outputs get env vis (zip ks as) cl =
      Returns (map snd (trimmed env vis (zip (filter is_host_output ks) outs))) (cl\<lparr>channel_receiver := c\<rparr>) \<and>
    content c = rest \<and> good c"
  using assms
proof (induction ks as arbitrary: cl outs vis rule: list_all2_induct)
  case Nil
  then show ?case by (auto intro: exI [of _ "channel_receiver cl"])
next
  case (Cons k ks a as)
  show ?case
  proof (cases "is_host_output k")
    case False
    then show ?thesis using Cons by simp
  next
    case True
    then obtain x xs where outs: "outs = x # xs" using Cons.prems(2) by (cases outs) auto
    have nn: "\<not> is_null a" using Cons(1) True by (cases k) auto
    let ?r = "concat (map (\<lambda>(k, x). out_wire k x)
      (trimmed env (vis @ [visible k x]) (zip (filter is_host_output ks) xs))) @ rest"
    obtain c where c: "recv_output get env vis k (channel_receiver cl) = Returns (trim env vis k x) c"
      "content c = ?r" "good c"
      using recv_output_reads [OF Cons.prems(1), of k env vis x ?r] Cons.prems True outs by auto
    from Cons.IH [of "cl\<lparr>channel_receiver := c\<rparr>" xs "vis @ [visible k x]"] c Cons.prems True outs obtain d where
      "recv_outputs get env (vis @ [visible k x]) (zip ks as) (cl\<lparr>channel_receiver := c\<rparr>) =
        Returns (map snd (trimmed env (vis @ [visible k x]) (zip (filter is_host_output ks) xs)))
          (cl\<lparr>channel_receiver := d\<rparr>)" "content d = rest" "good d" by auto
    then show ?thesis using c True outs nn by (intro exI [of _ d]) (simp add: trim_visible)
  qed
qed

end

definition request_bytes :: "HookFn \<Rightarrow> bytes list \<Rightarrow> bytes" where
  "request_bytes f rs = i32_bytes (proc_id f) @ concat (map2 wire (params f) rs)"

context byte_source
begin

lemma turn_call:
  assumes "good (receiver sv)" and "content (receiver sv) = request_bytes f rs @ rest"
    and f: "hooks (proc_id f) = Some f" "proc_id f \<noteq> -1" and rs: "list_all2 (raw_ok cfg) (params f) rs"
    and c: "call dev cfg f rs (resources sv) (world sv) = Ok (xs, res, outs, w) h"
    and outs: "replies cfg f \<Longrightarrow> outs_ok (inputs (params f) rs) [] (zip (filter is_host_output (params f)) outs)"
  shows "\<exists>c. content c = rest \<and> good c \<and> server_turn get put flush dev cfg hooks sv =
    io_bind (ssend (if replies cfg f
        then (\<lambda>s. io_bind (put_all put (reply_pieces f (inputs (params f) rs) res outs) s) (\<lambda>_ s. flush s))
        else Returns ()) (sv\<lparr>receiver := c, resources := h, world := w\<rparr>)) (\<lambda>_. Returns Served)"
proof -
  obtain c1 where c1: "get 4 (receiver sv) = Returns (i32_bytes (proc_id f)) c1"
    "content c1 = concat (map2 wire (params f) rs) @ rest" "good c1"
    using get_prefix [OF assms(1), of "i32_bytes (proc_id f)"] assms(2) by (auto simp: request_bytes_def)
  let ?sv = "sv\<lparr>receiver := c1\<rparr>"
  have "good (receiver ?sv)" "content (receiver ?sv) = concat (map2 wire (params f) rs) @ rest"
    "call dev cfg f rs (resources ?sv) (world ?sv) = Ok (xs, res, outs, w) h" using c1 c by simp_all
  from exe_call [OF this(1,2) rs this(3) outs, of put flush] obtain d where
    "content d = rest" "good d" "exe get put flush dev cfg f ?sv = ssend (if replies cfg f
        then (\<lambda>s. io_bind (put_all put (reply_pieces f (inputs (params f) rs) res outs) s) (\<lambda>_ s. flush s))
        else Returns ()) (?sv\<lparr>receiver := d, resources := h, world := w\<rparr>)" by blast
  moreover have "server_turn get put flush dev cfg hooks sv =
      io_bind (exe get put flush dev cfg f ?sv) (\<lambda>_. Returns Served)"
    using f c1(1) by (simp add: server_turn_def receive_request_def dispatch_def)
  ultimately show ?thesis by (intro exI [of _ d]) simp
qed

end

lemma length_call_proxies: "length (call_proxies cfg p ks) = length (filter (makes_proxy cfg) ks)"
  by (induction ks arbitrary: p) auto

text \<open>
  When the server does not answer, the outputs of the call are the proxies: a checked declaration
  that creates a handle has no other output, and an asynchronous one has none.
\<close>

lemma proxies_are_outputs:
  assumes "HookFn_accepted f" and "\<not> replies cfg f"
  shows "length (call_proxies cfg p (params f)) = length (filter is_host_output (params f))"
    and "\<not> (is_create_handle f \<and> opt_shadow_desc cfg) \<Longrightarrow> call_proxies cfg p (params f) = []"
proof -
  have sub: "length (filter is_output_handle ks) \<le> length (filter is_host_output ks)" for ks
  proof (induction ks)
    case (Cons k ks)
    then show ?case by (cases k) auto
  qed simp
  have "length (filter (makes_proxy cfg) (params f)) = length (filter is_host_output (params f)) \<and>
      (\<not> (is_create_handle f \<and> opt_shadow_desc cfg) \<longrightarrow> filter (makes_proxy cfg) (params f) = [])"
  proof (cases "is_create_handle f \<and> opt_shadow_desc cfg")
    case True
    then have "0 < length (filter is_output_handle (params f))"
      by (auto simp: is_create_handle_def list_ex_iff filter_empty_conv)
    moreover have "length (filter is_host_output (params f)) \<le> 1"
      using assms(1) True by (simp add: HookFn_accepted_def)
    moreover have "filter (makes_proxy cfg) (params f) = filter is_output_handle (params f)"
      using True by (simp add: makes_proxy_def cong: filter_cong)
    ultimately show ?thesis using True sub [of "params f"] by (simp del: length_greater_0_conv)
  next
    case False
    then have a: "is_async_api f" using assms(2) by (auto simp: replies_def)
    then have "filter is_host_output (params f) = []"
      using assms(1) by (auto simp: HookFn_accepted_def list_ex_iff filter_empty_conv)
    moreover have "is_output_handle k \<Longrightarrow> is_host_output k" for k by (cases k) auto
    ultimately show ?thesis by (auto simp: makes_proxy_def filter_empty_conv)
  qed
  then show "length (call_proxies cfg p (params f)) = length (filter is_host_output (params f))"
    "\<not> (is_create_handle f \<and> opt_shadow_desc cfg) \<Longrightarrow> call_proxies cfg p (params f) = []"
    using length_call_proxies [of cfg p "params f"] by auto
qed

text \<open>The three legs of a call over the ring channels: the request, the turn, and the reply.\<close>

lemma request_sent:
  fixes cl :: "(sys, sys) client"
  assumes as: "list_all2 arg_ok (params f) as" and rs: "rs = call_raws cfg (next_handle cl) (zip (params f) as)"
    and req: "contents (ring (channel_sender cl)) = []" "pipe_room (length (request_bytes f rs) + 1) (channel_sender cl)"
  obtains c p where "hijack_send ring_put_bytes ring_flush cfg f as cl =
      Returns (call_proxies cfg (next_handle cl) (params f)) (cl\<lparr>channel_sender := c, next_handle := p\<rparr>)"
    and "contents (ring c) = request_bytes f rs @ []" and "pipe_room 0 c"
proof -
  have "pipe_room (length (i32_bytes (proc_id f) @ concat (map2 wire (params f)
      (call_raws cfg (next_handle cl) (zip (params f) as)))) + 1) (channel_sender cl)"
    using req(2) by (simp add: rs request_bytes_def)
  then show thesis
    by (rule ring_pipe.hijack_send_writes [OF as]) (rule that, use req(1) in \<open>simp_all add: rs request_bytes_def\<close>)
qed

lemma length_trimmed: "length (trimmed env v ps) = length ps"
  by (induction env v ps rule: trimmed.induct) auto

lemma reply_received:
  fixes cl :: "(sys, sys) client"
  assumes as: "list_all2 arg_ok (params f) as" and env: "inputs (params f) (map raw_arg as) = env"
    and lib: "length res = result_size f" "length outs = length (filter is_host_output (params f))"
      "outs_ok env [] (zip (filter is_host_output (params f)) outs)"
    and b: "contents (ring (channel_receiver cl)) = reply f env res outs" "ring_source_ok (channel_receiver cl)"
    and answers: "replies cfg f"
  obtains u where "hijack_recv ring_get_bytes cfg f as px cl =
      Returns (res, map snd (trimmed env [] (zip (filter is_host_output (params f)) outs))) (cl\<lparr>channel_receiver := u\<rparr>)"
    and "contents (ring u) = []"
proof -
  let ?outs = "trimmed env [] (zip (filter is_host_output (params f)) outs)"
  from ring_in.recv_outputs_reads [OF as, of cl outs env "[]" res] b lib obtain t where
    t: "recv_outputs ring_get_bytes env [] (zip (params f) as) cl = Returns (map snd ?outs) (cl\<lparr>channel_receiver := t\<rparr>)"
      "contents (ring t) = res @ []" "ring_source_ok t"
    by (auto simp: reply_def)
  obtain u where u: "ring_get_bytes (result_size f) t = Returns res u" "contents (ring u) = []"
    using ring_in.get_prefix [OF t(3,2)] lib(1) by auto
  have "hijack_recv ring_get_bytes cfg f as px cl = Returns (res, map snd ?outs) (cl\<lparr>channel_receiver := u\<rparr>)"
    using answers t(1) u(1) env by (auto simp: hijack_recv_def replies_def)
  then show thesis using that u(2) by blast
qed

section \<open>Properties\<close>

text \<open>
  C2. A remote call is a local call. For every hook declaration that passes the generator's
  checks, every setting of the two optimisations and every argument list, over two ring
  channels that are empty and have room: the client's half sends a request, the server's turn
  consumes exactly that request, runs the library function on the arguments with the proxies
  translated, and updates the handle table as the specification \<open>call\<close> says, and the client's
  second half returns the result and all outputs of the function (or, if the server does not
  answer such a call, success and the proxy it made up). Both channels are empty again, so that
  the two sides stay in step.
\<close>

theorem rpc_transparent:
  fixes cl :: "(sys, sys) client" and sv :: "(sys, sys, 'w) server"
  assumes acc: "HookFn_accepted f" and f: "hooks (proc_id f) = Some f" "proc_id f \<noteq> -1"
    and as: "list_all2 arg_ok (params f) as"
    and rs: "rs = call_raws cfg (next_handle cl) (zip (params f) as)" and env: "env = inputs (params f) rs"
    and call: "call dev cfg f rs (resources sv) (world sv) = Ok (xs, res, outs, w) h"
    and lib: "length res = result_size f" "length outs = length (filter is_host_output (params f))"
      "outs_ok env [] (zip (filter is_host_output (params f)) outs)"
    and req: "contents (ring (channel_sender cl)) = []" "pipe_room (length (request_bytes f rs) + 1) (channel_sender cl)"
    and rep: "contents (ring (sender sv)) = []" "pipe_room (length (reply f env res outs) + 1) (sender sv)"
  shows "\<exists>proxies cl1 sv1 res' outs' cl2.
    hijack_send ring_put_bytes ring_flush cfg f as cl = Returns proxies cl1 \<and>
    server_turn ring_get_bytes ring_put_bytes ring_flush dev cfg hooks (sv\<lparr>receiver := channel_sender cl1\<rparr>) =
      Returns Served sv1 \<and>
    resources sv1 = h \<and> world sv1 = w \<and> contents (ring (receiver sv1)) = [] \<and>
    hijack_recv ring_get_bytes cfg f as proxies (cl1\<lparr>channel_receiver := sender sv1\<rparr>) = Returns (res', outs') cl2 \<and>
    contents (ring (channel_receiver cl2)) = [] \<and> length outs' = length (filter is_host_output (params f)) \<and>
    (res', outs') = (if replies cfg f
      then (res, map snd (trimmed env [] (zip (filter is_host_output (params f)) outs)))
      else (replicate (result_size f) 0, proxies))"
proof -
  let ?px = "call_proxies cfg (next_handle cl) (params f)"
  obtain c p where send: "hijack_send ring_put_bytes ring_flush cfg f as cl =
      Returns ?px (cl\<lparr>channel_sender := c, next_handle := p\<rparr>)"
    and c: "contents (ring c) = request_bytes f rs @ []" "pipe_room 0 c"
    by (rule request_sent [OF as rs req])
  let ?cl = "cl\<lparr>channel_sender := c, next_handle := p\<rparr>" and ?sv = "sv\<lparr>receiver := c\<rparr>"
  have good: "ring_source_ok (receiver ?sv)" "contents (ring (receiver ?sv)) = request_bytes f rs @ []"
    using c by (simp_all add: pipe_room_def)
  have raws: "list_all2 (raw_ok cfg) (params f) rs" using call_raws_ok [OF as] rs by simp
  have call': "call dev cfg f rs (resources ?sv) (world ?sv) = Ok (xs, res, outs, w) h" using call by simp
  obtain d where d: "contents (ring d) = []"
    and turn: "server_turn ring_get_bytes ring_put_bytes ring_flush dev cfg hooks ?sv =
      io_bind (ssend (if replies cfg f
        then (\<lambda>s. io_bind (put_all ring_put_bytes (reply_pieces f env res outs) s) (\<lambda>_ s. ring_flush s))
        else Returns ()) (?sv\<lparr>receiver := d, resources := h, world := w\<rparr>)) (\<lambda>_. Returns Served)"
    using ring_in.turn_call [where f = f and hooks = hooks and sv = ?sv, OF good f raws call', of ring_put_bytes ring_flush]
      lib(3) env by auto
  have e: "inputs (params f) (map raw_arg as) = env" using call_raws_inputs [OF as] rs env by simp
  let ?sv1 = "?sv\<lparr>receiver := d, resources := h, world := w\<rparr>"
  show ?thesis
  proof (cases "replies cfg f")
    case True
    obtain b where b: "io_bind (put_all ring_put_bytes (reply_pieces f env res outs) (sender sv)) (\<lambda>_ s. ring_flush s) =
        Returns () b" "contents (ring b) = reply f env res outs" "pipe_room 0 b"
      using ring_pipe.put_all_flush [of "reply_pieces f env res outs" "sender sv"] rep
      by (auto simp: concat_reply_pieces)
    from reply_received [OF as e lib, of "?cl\<lparr>channel_receiver := b\<rparr>" cfg ?px] b(2,3) True obtain u where
      "hijack_recv ring_get_bytes cfg f as ?px (?cl\<lparr>channel_receiver := b\<rparr>) =
        Returns (res, map snd (trimmed env [] (zip (filter is_host_output (params f)) outs))) (?cl\<lparr>channel_receiver := u\<rparr>)"
      "contents (ring u) = []" by (auto simp: pipe_room_def)
    moreover have "server_turn ring_get_bytes ring_put_bytes ring_flush dev cfg hooks ?sv = Returns Served (?sv1\<lparr>sender := b\<rparr>)"
      using turn b(1) True by simp
    ultimately show ?thesis
      using send d True lib(2) by (intro exI [of _ ?px] exI [of _ ?cl] exI [of _ "?sv1\<lparr>sender := b\<rparr>"] exI) (auto simp: length_trimmed)
  next
    case False
    have "hijack_recv ring_get_bytes cfg f as ?px (?cl\<lparr>channel_receiver := sender sv\<rparr>) =
        Returns (replicate (result_size f) 0, ?px) (?cl\<lparr>channel_receiver := sender sv\<rparr>)"
      using False proxies_are_outputs(2) [OF acc False] by (auto simp: hijack_recv_def replies_def)
    moreover have "server_turn ring_get_bytes ring_put_bytes ring_flush dev cfg hooks ?sv = Returns Served ?sv1"
      using turn False by (simp add: ssend_def)
    ultimately show ?thesis using send d rep(1) proxies_are_outputs(1) [OF acc False] False
      by (intro exI [of _ ?px] exI [of _ ?cl] exI [of _ ?sv1] exI) auto
  qed
qed

text \<open>A query with a counted output array, as in cuDNN's algorithm search, on a handle.\<close>

definition query :: HookFn where
  "query = \<lparr>proc_id = 1550, async_attr = None,
     params = [InputHandle Op_Use None, InputValue 1, OutputSinglePtr 1,
       OutputArrayPtr 2 (Capped (\<lambda>env. unat (hd (env ! 1))) (\<lambda>env outs. unat (hd (outs ! 0))))],
     result_size = 4, async_return = False\<rparr>"

definition query_dev :: "nat device" where
  "query_dev n vs w = (([0, 0, 0, 0], [[2], [1, 2, 3, 4, 0, 0]]), w + length vs)"

definition query_manager :: manager where
  "query_manager = \<lparr>table = [(5, \<lparr>hvalue = 9, hpayloads = Empty\<rparr>)], TIMESTAMP = 1\<rparr>"

lemmas query_simps = query_def query_dev_def query_manager_def slice_ok_def inputs_def is_create_handle_def is_async_api_def
  HookFn_accepted_def call_def exec_args_def exec_arg_def register_handle_def record_call_def get_inner_def usize_of_def
  replies_def makes_proxy_def after_param_def
  is_modify_handle_def bt_get_def List.map_filter_simps request_bytes_def reply_def slice_bytes_def usize_bytes_def

theorem rpc_transparent_witness:
  "\<exists>proxies cl1 sv1 res' outs' cl2.
    hijack_send ring_put_bytes ring_flush \<lparr>opt_shadow_desc = True, opt_async_api = True, phos = True\<rparr> query
      [Value [5, 0, 0, 0, 0, 0, 0, 0], Value [3], Out True, Out True]
      \<lparr>channel_sender = start ring50, channel_receiver = start ring50, next_handle = 6\<rparr> = Returns proxies cl1 \<and>
    server_turn ring_get_bytes ring_put_bytes ring_flush query_dev
      \<lparr>opt_shadow_desc = True, opt_async_api = True, phos = True\<rparr> [1550 \<mapsto> query]
      (\<lparr>receiver = start ring50, sender = start ring50, resources = query_manager, world = 0\<rparr>\<lparr>receiver := channel_sender cl1\<rparr>) =
      Returns Served sv1 \<and>
    world sv1 = 4 \<and>
    hijack_recv ring_get_bytes \<lparr>opt_shadow_desc = True, opt_async_api = True, phos = True\<rparr> query
      [Value [5, 0, 0, 0, 0, 0, 0, 0], Value [3], Out True, Out True] proxies (cl1\<lparr>channel_receiver := sender sv1\<rparr>) =
      Returns (res', outs') cl2 \<and>
    res' = [0, 0, 0, 0] \<and> outs' = [[2], [1, 2, 3, 4]]"
proof -
  let ?cfg = "\<lparr>opt_shadow_desc = True, opt_async_api = True, phos = True\<rparr>"
  let ?as = "[Value [5, 0, 0, 0, 0, 0, 0, 0], Value [3], Out True, Out True]"
  let ?cl = "\<lparr>channel_sender = start ring50, channel_receiver = start ring50, next_handle = 6\<rparr>"
  let ?sv = "\<lparr>receiver = start ring50, sender = start ring50, resources = query_manager, world = 0 :: nat\<rparr>"
  let ?rs = "[[5, 0, 0, 0, 0, 0, 0, 0], [3], [], []] :: bytes list"
  have new: "LocalChannel_new 242 [] 0 = Some ring50" by code_simp
  have inv: "sys_inv (start ring50)" by (rule start_inv [OF new])
  have room: "pipe_room n (start ring50)" if "n \<le> 40" for n
    using inv that by (simp add: pipe_room_def ring_room_def ring_source_ok_def start_def ring50_def num_bytes_stored_def
        capacity_length SHM_FLAG_WRITE_DISABLED_def)
  have rs: "?rs = call_raws ?cfg (next_handle ?cl) (zip (params query) ?as)" by (simp add: query_simps)
  have env: "[[], [3], [], []] = inputs (params query) ?rs" by (simp add: query_simps)
  have acc: "HookFn_accepted query" by (simp add: query_simps)
  have hooks: "[1550 \<mapsto> query] (proc_id query) = Some query" "proc_id query \<noteq> -1" by (simp_all add: query_simps)
  have as: "list_all2 arg_ok (params query) ?as" by (simp add: query_simps)
  obtain xs where call: "call query_dev ?cfg query ?rs (resources ?sv) (world ?sv) =
      Ok (xs, [0, 0, 0, 0], [[2], [1, 2, 3, 4, 0, 0]], 4) query_manager" by (simp add: query_simps)
  have lib: "length [0 :: u8, 0, 0, 0] = result_size query"
      "length [[2], [1, 2, 3, 4, 0, 0 :: u8]] = length (filter is_host_output (params query))"
      "outs_ok [[], [3], [], []] [] (zip (filter is_host_output (params query)) [[2], [1, 2, 3, 4, 0, 0]])"
    by (simp_all add: query_simps)
  have empty: "contents (ring (channel_sender ?cl)) = []" "contents (ring (sender ?sv)) = []"
    by (simp_all add: start_def ring50_def contents_def num_bytes_stored_def)
  have "length (request_bytes query ?rs) + 1 \<le> 40" "length (reply query [[], [3], [], []] [0, 0, 0, 0] [[2], [1, 2, 3, 4, 0, 0]]) + 1 \<le> 40"
    by (simp_all add: query_simps)
  then have rooms: "pipe_room (length (request_bytes query ?rs) + 1) (channel_sender ?cl)"
      "pipe_room (length (reply query [[], [3], [], []] [0, 0, 0, 0] [[2], [1, 2, 3, 4, 0, 0]]) + 1) (sender ?sv)"
    by (simp_all add: room)
  have out: "map snd (trimmed [[], [3], [], []] [] (zip (filter is_host_output (params query)) [[2], [1, 2, 3, 4, 0, 0]])) =
      [[2], [1, 2, 3, 4]]" "replies ?cfg query"
    by (simp_all add: query_simps)
  show ?thesis
    using rpc_transparent [where cl = ?cl and sv = ?sv and hooks = "[1550 \<mapsto> query]",
        OF acc hooks as rs env call lib empty(1) rooms(1) empty(2) rooms(2)] out
    by (simp only: out if_True prod.inject) blast
qed

end
