(* ===== verification/Snapshot.thy ===== *)
theory Snapshot
  imports Framing Device_Memory
begin

text \<open>
  The snapshot of a detached client (\<open>server/src/phos/detach.rs\<close> and the slice functions of
  \<open>server/src/phos/memory/ckpt.rs\<close>): the two idle channels of a client serve as the place where
  its server thread leaves the kernel images, the recorded calls and the contents of the device
  memory, and where the next server finds them.
\<close>

section \<open>The header\<close>

definition SNAPSHOT_MAGIC :: u64 where
  "SNAPSHOT_MAGIC = 0x50484f5344455441"

text \<open>
  A \<open>repr(C)\<close> structure of 56 bytes; \<open>padding\<close> are the seven bytes after the flag, whose
  values are not specified.
\<close>

record SnapshotHeader =
  magic :: u64
  client_pid :: u32
  thread_id :: u32
  is_pinned_memory :: bool
  padding :: "u8 list"
  kernel_len :: u64
  handles_len :: u64
  memory_meta_len :: u64
  memory_raw_len :: u64

definition header_size :: nat where
  "header_size = 56"

definition as_bytes :: "SnapshotHeader \<Rightarrow> u8 list" where
  "as_bytes h =
     usize_bytes (magic h) @ i32_bytes (client_pid h) @ i32_bytes (thread_id h) @
     [if is_pinned_memory h then 1 else 0] @ padding h @
     usize_bytes (kernel_len h) @ usize_bytes (handles_len h) @
     usize_bytes (memory_meta_len h) @ usize_bytes (memory_raw_len h)"

text \<open>Reading a \<open>bool\<close> from a byte other than 0 and 1 is undefined.\<close>

definition from_bytes :: "u8 list \<Rightarrow> (SnapshotHeader, unit) exec" where
  "from_bytes bs =
     (if length bs < header_size then Abort ''assertion failed: bytes.len() >= size_of::<Self>()''
      else let field = (\<lambda>off n. take n (drop off bs)); flag_byte = bs ! 16
           in if flag_byte \<noteq> 0 \<and> flag_byte \<noteq> 1 then Undef ''invalid bool''
              else Ok \<lparr>magic = usize_of (field 0 8), client_pid = i32_of (field 8 4), thread_id = i32_of (field 12 4),
                     is_pinned_memory = (flag_byte = 1), padding = field 17 7,
                     kernel_len = usize_of (field 24 8), handles_len = usize_of (field 32 8),
                     memory_meta_len = usize_of (field 40 8), memory_raw_len = usize_of (field 48 8)\<rparr> ())"

lemma from_as_bytes:
  assumes "length (padding h) = 7"
  shows "from_bytes (as_bytes h @ rest) = Ok h ()"
proof -
  obtain p0 p1 p2 p3 p4 p5 p6 where p: "padding h = [p0, p1, p2, p3, p4, p5, p6]"
    using assms by (auto simp: numeral_eq_Suc length_Suc_conv)
  have len: "length (as_bytes h) = 56" by (simp add: as_bytes_def p)
  then show ?thesis
    by (cases h) (simp add: from_bytes_def header_size_def as_bytes_def Let_def p drop_append take_append nth_append)
qed

section \<open>Device memory in a slice\<close>

text \<open>
  The copies between the device and the host, which return the code of the runtime. The copies
  are asynchronous, and the host waits for all of them before it goes on.
\<close>

record 'w copies =
  deviceToHost :: "u64 \<Rightarrow> u64 \<Rightarrow> 'w \<Rightarrow> (int \<times> u8 list) \<times> 'w"
  hostToDevice :: "u64 \<Rightarrow> u8 list \<Rightarrow> 'w \<Rightarrow> int \<times> 'w"
  streamSynchronize :: "'w \<Rightarrow> int \<times> 'w"


definition total_size :: "segment_meta list \<Rightarrow> u64" where
  "total_size gs = sum_list (map seg_size gs)"

text \<open>The sizes are added with wrap-around; the driver writes where it is told to.\<close>

fun dump_segments :: "'w copies \<Rightarrow> segment_meta list \<Rightarrow> u64 \<Rightarrow> u8 list \<Rightarrow> 'w \<Rightarrow> (u8 list, 'w) exec" where
  "dump_segments cp [] off raw w = Ok raw w"
| "dump_segments cp (g # gs) off raw w =
     (if length raw < unat off then Abort ''range start index out of range''
      else let ((r, bs), w) = deviceToHost cp (seg_ptr g) (seg_size g) w
           in if r \<noteq> 0 then Abort ''assertion failed: result == Default::default()''
              else if length raw < unat off + length bs then Undef ''copy beyond the slice''
              else dump_segments cp gs (off + seg_size g) (write_at (unat off) bs raw) w)"

definition synchronize :: "'w copies \<Rightarrow> 'w \<Rightarrow> (unit, 'w) exec" where
  "synchronize cp w =
     (let (r, w) = streamSynchronize cp w
      in if r \<noteq> 0 then Abort ''assertion failed: result == Default::default()'' else Ok () w)"

text \<open>It returns the encoded description of the segments, their total size and the filled buffer.\<close>

definition dump_to_slice :: "'w driver \<Rightarrow> 'w copies \<Rightarrow> (checkpoint \<Rightarrow> u8 list) \<Rightarrow> u8 list \<Rightarrow> dmm \<Rightarrow> 'w \<Rightarrow>
    (u8 list \<times> u64 \<times> u8 list, dmm \<times> 'w) exec" where
  "dump_to_slice drv cp encode raw m w =
     (case checkpoint_meta drv (m, w) of
        None \<Rightarrow> Abort ''panic in the memory manager''
      | Some (Inr e, m, w) \<Rightarrow> Abort ''called Result::unwrap() on an Err value''
      | Some (Inl meta, m, w) \<Rightarrow>
          (let total = total_size (ck_segments meta)
           in if length raw < unat total then Abort ''sender shm too small''
              else (case exec_bind (dump_segments cp (ck_segments meta) 0 raw w)
                           (\<lambda>raw w. exec_bind (synchronize cp w) (\<lambda>_. Ok raw)) of
                      Ok raw w \<Rightarrow> Ok (encode meta, total, raw) (m, w)
                    | Abort msg \<Rightarrow> Abort msg
                    | _ \<Rightarrow> Undef ''copy beyond the slice'')))"

fun restore_copies :: "'w copies \<Rightarrow> segment_meta list \<Rightarrow> u64 \<Rightarrow> u8 list \<Rightarrow> 'w \<Rightarrow> (unit, 'w) exec" where
  "restore_copies cp [] off raw w = Ok () w"
| "restore_copies cp (g # gs) off raw w =
     (if length raw < unat off then Abort ''range start index out of range''
      else if length raw < unat off + unat (seg_size g) then Undef ''copy beyond the slice''
      else let (r, w) = hostToDevice cp (seg_ptr g) (take (unat (seg_size g)) (drop (unat off) raw)) w
           in if r \<noteq> 0 then Abort ''assertion failed: result == Default::default()''
              else restore_copies cp gs (off + seg_size g) raw w)"

definition restore_from_slice :: "'w driver \<Rightarrow> 'w copies \<Rightarrow> (u8 list \<Rightarrow> checkpoint option) \<Rightarrow> u8 list \<Rightarrow> u8 list \<Rightarrow>
    dmm \<Rightarrow> 'w \<Rightarrow> (unit, dmm \<times> 'w) exec" where
  "restore_from_slice drv cp decode meta_bytes raw m w =
     (case decode meta_bytes of
        None \<Rightarrow> Abort ''called Result::unwrap() on an Err value''
      | Some meta \<Rightarrow>
          (if length raw < unat (total_size (ck_segments meta)) then Abort ''sender shm snapshot truncated''
           else (case restore drv meta (m, w) of
                   None \<Rightarrow> Abort ''panic in the memory manager''
                 | Some (Inr e, m, w) \<Rightarrow> Abort ''assertion failed: manager.restore(&meta) == Default::default()''
                 | Some (Inl _, m, w) \<Rightarrow>
                     (case restore_copies cp (ck_segments meta) 0 raw w of
                        Ok _ w \<Rightarrow> Ok () (m, w)
                      | Abort msg \<Rightarrow> Abort msg
                      | _ \<Rightarrow> Undef ''copy beyond the slice''))))"

section \<open>Dumping and reading\<close>

definition as_buffer :: "ring \<Rightarrow> (u8 list, unit) exec" where
  "as_buffer r = (if is_empty r then Ok (data r) () else Abort ''assertion failed: self.is_empty()'')"

text \<open>
  The state of a server thread that goes into a snapshot: its numbers, the encoded kernel images
  and recorded calls.
\<close>

record dumped =
  d_client_pid :: u32
  d_id :: u32
  d_pinned :: bool
  d_kernels :: "u8 list"
  d_handles :: "u8 list"

definition header_of :: "dumped \<Rightarrow> u8 list \<Rightarrow> u8 list \<Rightarrow> u64 \<Rightarrow> SnapshotHeader" where
  "header_of d pad meta_bytes raw_len =
     \<lparr>magic = SNAPSHOT_MAGIC, client_pid = d_client_pid d, thread_id = d_id d, is_pinned_memory = d_pinned d,
      padding = pad, kernel_len = of_nat (length (d_kernels d)), handles_len = of_nat (length (d_handles d)),
      memory_meta_len = of_nat (length meta_bytes), memory_raw_len = raw_len\<rparr>"

text \<open>The four pieces are copied to the front of the request channel, the segments to the reply channel.\<close>

definition place_pieces :: "u8 list list \<Rightarrow> u8 list \<Rightarrow> u8 list" where
  "place_pieces ps buf = snd (fold (\<lambda>p (off, buf). (off + length p, write_at off p buf)) ps (0, buf))"

definition dump_state :: "'w driver \<Rightarrow> 'w copies \<Rightarrow> (checkpoint \<Rightarrow> u8 list) \<Rightarrow> u8 list \<Rightarrow> dumped \<Rightarrow>
    ring \<Rightarrow> ring \<Rightarrow> dmm \<Rightarrow> 'w \<Rightarrow> (ring \<times> ring, dmm \<times> 'w) exec" where
  "dump_state drv cp encode pad d recv_ring send_ring m w =
     (case (as_buffer recv_ring, as_buffer send_ring) of
        (Ok rbuf _, Ok sbuf _) \<Rightarrow>
          exec_bind (dump_to_slice drv cp encode sbuf m w) (\<lambda>(meta_bytes, raw_len, raw) s.
            let header = header_of d pad meta_bytes raw_len;
                total = header_size + length (d_kernels d) + length (d_handles d) + length meta_bytes
            in if length rbuf < total then Abort ''receiver shm too small''
               else Ok (recv_ring\<lparr>data := place_pieces [as_bytes header, d_kernels d, d_handles d, meta_bytes] rbuf\<rparr>,
                        send_ring\<lparr>data := raw\<rparr>) s)
      | _ \<Rightarrow> Abort ''assertion failed: self.is_empty()'')"

record snapshot_view =
  s_client_pid :: u32
  s_id :: u32
  s_pinned :: bool
  s_kernels :: "u8 list"
  s_handles :: "u8 list"
  s_memory_meta :: "u8 list"
  s_memory_raw :: "u8 list"

definition range_of :: "u8 list \<Rightarrow> u64 \<Rightarrow> u64 \<Rightarrow> (u8 list, unit) exec" where
  "range_of bs a b =
     (if a \<le> b \<and> unat b \<le> length bs then Ok (take (unat b - unat a) (drop (unat a) bs)) ()
      else Abort ''range out of bounds'')"

definition read_snapshot_header :: "ring \<Rightarrow> (SnapshotHeader, unit) exec" where
  "read_snapshot_header recv_ring =
     exec_bind (as_buffer recv_ring) (\<lambda>rbuf _.
       exec_bind (from_bytes rbuf) (\<lambda>h _.
         if magic h \<noteq> SNAPSHOT_MAGIC then Abort ''invalid detach snapshot magic'' else Ok h ()))"

definition read_snapshot :: "ring \<Rightarrow> ring \<Rightarrow> (snapshot_view, unit) exec" where
  "read_snapshot recv_ring send_ring =
     exec_bind (read_snapshot_header recv_ring) (\<lambda>h _.
     exec_bind (as_buffer recv_ring) (\<lambda>rbuf _.
     exec_bind (as_buffer send_ring) (\<lambda>sbuf _.
       let total = of_nat header_size + kernel_len h + handles_len h + memory_meta_len h
       in if length rbuf < unat total then Abort ''receiver shm snapshot truncated''
          else if length sbuf < unat (memory_raw_len h) then Abort ''sender shm snapshot truncated''
          else let o1 = of_nat header_size; o2 = o1 + kernel_len h; o3 = o2 + handles_len h
               in exec_bind (range_of rbuf o1 o2) (\<lambda>kernels _.
                  exec_bind (range_of rbuf o2 o3) (\<lambda>handles _.
                  exec_bind (range_of rbuf o3 (o3 + memory_meta_len h)) (\<lambda>meta_bytes _.
                  exec_bind (range_of sbuf 0 (memory_raw_len h)) (\<lambda>raw _.
                    Ok \<lparr>s_client_pid = client_pid h, s_id = thread_id h, s_pinned = is_pinned_memory h,
                        s_kernels = kernels, s_handles = handles, s_memory_meta = meta_bytes,
                        s_memory_raw = raw\<rparr> ())))))))"

section \<open>What was dumped is what is read\<close>

lemma unat_plus: "unat a + unat b < 2 ^ 64 \<Longrightarrow> unat (a + b) = unat a + unat b" for a b :: u64
  by (simp add: unat_word_ariths)


lemma place_pieces_concat:
  assumes "length (concat ps) \<le> length buf"
  shows "place_pieces ps buf = concat ps @ drop (length (concat ps)) buf"
proof -
  have "snd (fold (\<lambda>p (off, buf). (off + length p, write_at off p buf)) ps (off, buf)) =
      take off buf @ concat ps @ drop (off + length (concat ps)) buf"
    if "off + length (concat ps) \<le> length buf" for off
    using that
  proof (induction ps arbitrary: off buf)
    case (Cons p ps)
    then have "off + length p \<le> length buf" by simp
    then show ?case
      using Cons.IH [of "off + length p" "write_at off p buf"] Cons.prems
      by (simp add: write_at_length) (simp add: write_at_def min_absorb2 ac_simps)
  qed simp
  from this [of 0] show ?thesis using assms by (simp add: place_pieces_def)
qed

text \<open>The contents that the copies deliver, and the copies that bring them back.\<close>

fun read_all :: "'w copies \<Rightarrow> segment_meta list \<Rightarrow> 'w \<Rightarrow> u8 list list" where
  "read_all cp [] w = []"
| "read_all cp (g # gs) w =
     (let ((r, bs), w) = deviceToHost cp (seg_ptr g) (seg_size g) w in bs # read_all cp gs w)"

fun write_all :: "'w copies \<Rightarrow> (segment_meta \<times> u8 list) list \<Rightarrow> 'w \<Rightarrow> (unit, 'w) exec" where
  "write_all cp [] w = Ok () w"
| "write_all cp ((g, bs) # ps) w =
     (let (r, w) = hostToDevice cp (seg_ptr g) bs w
      in if r \<noteq> 0 then Abort ''assertion failed: result == Default::default()'' else write_all cp ps w)"

definition full_copies :: "'w copies \<Rightarrow> bool" where
  "full_copies cp \<longleftrightarrow> (\<forall>p n w bs w'. deviceToHost cp p n w = ((0, bs), w') \<longrightarrow> length bs = unat n)"

lemma dump_segments_reads:
  assumes full: "full_copies cp" and "length raw < 2 ^ 63" and "unat off \<le> length raw"
    and "dump_segments cp gs off raw w = Ok raw' w'" and bss: "bss = read_all cp gs w"
  shows "unat off + length (concat bss) \<le> length raw \<and>
    raw' = take (unat off) raw @ concat bss @ drop (unat off + length (concat bss)) raw \<and>
    map length bss = map (unat \<circ> seg_size) gs"
  using assms(2-5)
proof (induction gs arbitrary: off raw w bss)
  case (Cons g gs)
  obtain r bs w1 where d: "deviceToHost cp (seg_ptr g) (seg_size g) w = ((r, bs), w1)" by (metis prod.collapse)
  let ?raw = "write_at (unat off) bs raw"
  have r: "r = 0" "unat off + length bs \<le> length raw"
    and rest: "dump_segments cp gs (off + seg_size g) ?raw w1 = Ok raw' w'"
    using Cons.prems(3) d by (auto split: if_splits)
  have l: "length bs = unat (seg_size g)" using full d r(1) unfolding full_copies_def by blast
  then have off: "unat (off + seg_size g) = unat off + length bs" using r(2) Cons.prems(1) by (simp add: unat_plus)
  have len: "length ?raw = length raw" using r(2) by (rule write_at_length)
  have "unat (off + seg_size g) + length (concat (read_all cp gs w1)) \<le> length ?raw \<and>
      raw' = take (unat (off + seg_size g)) ?raw @ concat (read_all cp gs w1) @
        drop (unat (off + seg_size g) + length (concat (read_all cp gs w1))) ?raw \<and>
      map length (read_all cp gs w1) = map (unat \<circ> seg_size) gs"
    by (rule Cons.IH) (use Cons.prems(1) rest off len r(2) in simp_all)
  then show ?case
    using Cons.prems(4) d l r(2) by (simp add: off len) (simp add: write_at_def min_absorb2 ac_simps)
qed simp

lemma restore_copies_writes:
  assumes "map length bss = map (unat \<circ> seg_size) gs" and "length (pre @ concat bss @ rest) < 2 ^ 63"
    and "unat off = length pre"
  shows "restore_copies cp gs off (pre @ concat bss @ rest) w = write_all cp (zip gs bss) w"
  using assms
proof (induction gs arbitrary: bss pre off w)
  case (Cons g gs)
  then obtain b bs where bss: "bss = b # bs" by (cases bss) auto
  have l: "unat (seg_size g) = length b" "map length bs = map (unat \<circ> seg_size) gs" using Cons.prems(1) bss by simp_all
  obtain r w1 where h: "hostToDevice cp (seg_ptr g) b w = (r, w1)" by fastforce
  have off: "unat (off + seg_size g) = length (pre @ b)" using l(1) Cons.prems(2,3) bss by (simp add: unat_plus)
  have "restore_copies cp gs (off + seg_size g) ((pre @ b) @ concat bs @ rest) w1 = write_all cp (zip gs bs) w1"
    by (rule Cons.IH) (use l off Cons.prems(2) bss in simp_all)
  then show ?case using Cons.prems(3) l(1) h bss by simp
qed simp

lemma total_size_concat:
  "map length bss = map (unat \<circ> seg_size) gs \<Longrightarrow> length (concat bss) < 2 ^ 64 \<Longrightarrow> unat (total_size gs) = length (concat bss)"
proof (induction gs arbitrary: bss)
  case (Cons g gs)
  then obtain b bs where bss: "bss = b # bs" by (cases bss) auto
  have "unat (total_size gs) = length (concat bs)" by (rule Cons.IH) (use Cons.prems bss in simp_all)
  then show ?case using Cons.prems bss by (simp add: total_size_def unat_plus)
qed (simp add: total_size_def)

lemma length_as_bytes: "length (padding h) = 7 \<Longrightarrow> length (as_bytes h) = 56"
  by (simp add: as_bytes_def)

lemma range_of_append:
  "unat a = length pre \<Longrightarrow> unat b = length pre + length bs \<Longrightarrow> range_of (pre @ bs @ rest) a b = Ok bs ()"
  by (simp add: range_of_def word_le_nat_alt)

lemma read_snapshot_dumped:
  assumes "is_empty r" and "is_empty s" and h: "h = header_of d pad mb raw_len" and pad: "length pad = 7"
    and r: "data r = as_bytes h @ d_kernels d @ d_handles d @ mb @ rest" and "length (data r) < 2 ^ 63"
    and s: "data s = raw @ rest'" and "unat raw_len = length raw"
  shows "read_snapshot r s = Ok \<lparr>s_client_pid = d_client_pid d, s_id = d_id d, s_pinned = d_pinned d,
    s_kernels = d_kernels d, s_handles = d_handles d, s_memory_meta = mb, s_memory_raw = raw\<rparr> ()"
proof -
  let ?K = "d_kernels d" and ?H = "d_handles d"
  have len: "length (as_bytes h) = 56" using pad h by (simp add: header_of_def length_as_bytes)
  have lt: "56 + length ?K + length ?H + length mb < 2 ^ 63" using assms(6) r len by simp
  have nat: "unat (of_nat n :: u64) = n" if "n < 2 ^ 63" for n
    using that by (simp add: unat_of_nat take_bit_nat_eq_self)
  have fb: "from_bytes (data r) = Ok h ()" unfolding r by (rule from_as_bytes) (use pad h in \<open>simp add: header_of_def\<close>)
  define o1 o2 o3 o4 :: u64 where o: "o1 = of_nat 56" "o2 = of_nat (56 + length ?K)"
    "o3 = of_nat (56 + length ?K + length ?H)" "o4 = of_nat (56 + length ?K + length ?H + length mb)"
  have off: "of_nat header_size = o1" "o1 + kernel_len h = o2" "o2 + handles_len h = o3" "o3 + memory_meta_len h = o4"
    by (simp_all add: o h header_of_def header_size_def)
  have u: "unat o1 = 56" "unat o2 = 56 + length ?K" "unat o3 = 56 + length ?K + length ?H"
    "unat o4 = 56 + length ?K + length ?H + length mb" unfolding o by (rule nat, use lt in simp)+
  have "range_of (data r) o1 o2 = Ok ?K ()" "range_of (data r) o2 o3 = Ok ?H ()" "range_of (data r) o3 o4 = Ok mb ()"
    unfolding r using range_of_append [of o1 "as_bytes h" o2 ?K] range_of_append [of o2 "as_bytes h @ ?K" o3 ?H]
      range_of_append [of o3 "as_bytes h @ ?K @ ?H" o4 mb] len u by simp_all
  moreover have "range_of (data s) 0 (memory_raw_len h) = Ok raw ()"
    using range_of_append [of 0 "[]" raw_len raw] assms(8) s h by (simp add: header_of_def)
  moreover have "\<not> length (data r) < unat o4" "\<not> length (data s) < unat (memory_raw_len h)"
    using r len u(4) s assms(8) h by (simp_all add: header_of_def)
  moreover have "magic h = SNAPSHOT_MAGIC" "client_pid h = d_client_pid d" "thread_id h = d_id d" "is_pinned_memory h = d_pinned d"
    by (simp_all add: h header_of_def)
  ultimately show ?thesis
    using assms(1,2) by (simp add: read_snapshot_def read_snapshot_header_def as_buffer_def fb off Let_def)
qed

lemma dump_state_reads:
  assumes dump: "dump_state drv cp encode pad d r s m w = Ok (r', s') (m', w')"
    and pad: "length pad = 7" and full: "full_copies cp"
    and small: "length (data r) < 2 ^ 63" "length (data s) < 2 ^ 63"
  shows "\<exists>meta m1 w1 bss. checkpoint_meta drv (m, w) = Some (Inl meta, m1, w1) \<and>
    bss = read_all cp (ck_segments meta) w1 \<and> is_empty r' \<and> is_empty s' \<and>
    read_snapshot r' s' = Ok \<lparr>s_client_pid = d_client_pid d, s_id = d_id d, s_pinned = d_pinned d,
      s_kernels = d_kernels d, s_handles = d_handles d, s_memory_meta = encode meta, s_memory_raw = concat bss\<rparr> () \<and>
    map length bss = map (unat \<circ> seg_size) (ck_segments meta) \<and> length (concat bss) < 2 ^ 63"
proof -
  have idle: "is_empty r" "is_empty s" using dump by (auto simp: dump_state_def as_buffer_def split: if_splits)
  obtain meta m1 w1 raw where ck: "checkpoint_meta drv (m, w) = Some (Inl meta, m1, w1)"
    and total: "unat (total_size (ck_segments meta)) \<le> length (data s)"
    and seg: "\<exists>w2. dump_segments cp (ck_segments meta) 0 (data s) w1 = Ok raw w2"
    and fits: "header_size + length (d_kernels d) + length (d_handles d) + length (encode meta) \<le> length (data r)"
    and r': "r' = r\<lparr>data := place_pieces [as_bytes (header_of d pad (encode meta) (total_size (ck_segments meta))),
      d_kernels d, d_handles d, encode meta] (data r)\<rparr>" and s': "s' = s\<lparr>data := raw\<rparr>"
    using dump idle
    by (auto simp: dump_state_def as_buffer_def dump_to_slice_def exec_simps
        split: option.splits sum.splits if_splits exec.splits prod.splits)
  define bss where bss: "bss = read_all cp (ck_segments meta) w1"
  from seg obtain w2 where "dump_segments cp (ck_segments meta) 0 (data s) w1 = Ok raw w2" by blast
  from dump_segments_reads [OF full small(2) _ this bss]
  have read: "length (concat bss) \<le> length (data s)" "raw = concat bss @ drop (length (concat bss)) (data s)"
    "map length bss = map (unat \<circ> seg_size) (ck_segments meta)" by auto
  have size: "unat (total_size (ck_segments meta)) = length (concat bss)"
    by (rule total_size_concat [OF read(3)]) (use read(1) small(2) in simp)
  let ?h = "header_of d pad (encode meta) (total_size (ck_segments meta))"
  have "length (as_bytes ?h) = 56" using pad by (simp add: header_of_def length_as_bytes)
  then have pieces: "data r' = as_bytes ?h @ d_kernels d @ d_handles d @ encode meta @
      drop (length (concat [as_bytes ?h, d_kernels d, d_handles d, encode meta])) (data r)"
    and len: "length (data r') = length (data r)"
    unfolding r' using fits by (simp_all add: place_pieces_concat header_size_def)
  have "read_snapshot r' s' = Ok \<lparr>s_client_pid = d_client_pid d, s_id = d_id d, s_pinned = d_pinned d,
      s_kernels = d_kernels d, s_handles = d_handles d, s_memory_meta = encode meta, s_memory_raw = concat bss\<rparr> ()"
    by (rule read_snapshot_dumped [OF _ _ refl pad pieces])
      (use idle r' s' small(1) len read(2) size in \<open>simp_all add: is_empty_def\<close>)
  moreover have "is_empty r'" "is_empty s'" "length (concat bss) < 2 ^ 63"
    using idle r' s' read(1) small(2) by (simp_all add: is_empty_def)
  ultimately show ?thesis
    using ck bss read(3) by (intro exI [of _ meta] exI [of _ m1] exI [of _ w1] exI [of _ bss] conjI)
qed

text \<open>Loading the segments directly, without the slice in between.\<close>

definition load_memory :: "'w driver \<Rightarrow> 'w copies \<Rightarrow> checkpoint \<Rightarrow> u8 list list \<Rightarrow> dmm \<Rightarrow> 'w \<Rightarrow> (unit, dmm \<times> 'w) exec" where
  "load_memory drv cp meta bss m w =
     (case restore drv meta (m, w) of
        None \<Rightarrow> Abort ''panic in the memory manager''
      | Some (Inr e, m, w) \<Rightarrow> Abort ''assertion failed: manager.restore(&meta) == Default::default()''
      | Some (Inl _, m, w) \<Rightarrow>
          (case write_all cp (zip (ck_segments meta) bss) w of
             Ok _ w \<Rightarrow> Ok () (m, w)
           | Abort msg \<Rightarrow> Abort msg
           | _ \<Rightarrow> Undef ''copy beyond the slice''))"

lemma restore_from_slice_loads:
  assumes "decode mb = Some meta" and "map length bss = map (unat \<circ> seg_size) (ck_segments meta)"
    and "length (concat bss) < 2 ^ 63"
  shows "restore_from_slice drv cp decode mb (concat bss) m w = load_memory drv cp meta bss m w"
proof -
  have "unat (total_size (ck_segments meta)) = length (concat bss)"
    by (rule total_size_concat [OF assms(2)]) (use assms(3) in simp)
  moreover have "restore_copies cp (ck_segments meta) 0 (concat bss) w = write_all cp (zip (ck_segments meta) bss) w" for w
    using restore_copies_writes [OF assms(2), of "[]" "[]" 0 cp w] assms(3) by simp
  ultimately show ?thesis
    using assms(1) by (simp add: restore_from_slice_def load_memory_def split: option.split sum.split prod.split)
qed

lemma read_snapshot_is_header:
  assumes "read_snapshot r s = Ok v ()"
  shows "\<exists>h. read_snapshot_header r = Ok h () \<and> client_pid h = s_client_pid v \<and> thread_id h = s_id v \<and>
    is_pinned_memory h = s_pinned v"
  using assms by (auto simp: read_snapshot_def exec_simps split: if_splits)

section \<open>Properties\<close>

text \<open>
  C13. A detached client can be attached again: if \<open>dump_state\<close> succeeds on two idle channels,
  the channels stay idle and \<open>read_snapshot\<close> finds in them the numbers of the client, the kernel
  images, the recorded calls and the description of the memory that were put there; and
  restoring from it, on any device on which the manager can map the segments, copies to every
  segment exactly the bytes that were read from it.
\<close>

theorem snapshot_roundtrip:
  assumes dump: "dump_state drv cp encode pad d r s m w = Ok (r', s') (m', w')"
    and pad: "length pad = 7" and full: "full_copies cp"
    and small: "length (data r) < 2 ^ 63" "length (data s) < 2 ^ 63"
  shows "\<exists>meta m1 w1 bss. checkpoint_meta drv (m, w) = Some (Inl meta, m1, w1) \<and>
    bss = read_all cp (ck_segments meta) w1 \<and>
    is_empty r' \<and> is_empty s' \<and>
    read_snapshot r' s' = Ok \<lparr>s_client_pid = d_client_pid d, s_id = d_id d, s_pinned = d_pinned d,
      s_kernels = d_kernels d, s_handles = d_handles d, s_memory_meta = encode meta, s_memory_raw = concat bss\<rparr> () \<and>
    (\<forall>drv' cp' decode m2 w2 m3 w3 w4. decode (encode meta) = Some meta \<longrightarrow>
      restore drv' meta (m2, w2) = Some (Inl (), m3, w3) \<longrightarrow>
      write_all cp' (zip (ck_segments meta) bss) w3 = Ok () w4 \<longrightarrow>
      restore_from_slice drv' cp' decode (encode meta) (concat bss) m2 w2 = Ok () (m3, w4))"
proof -
  from dump_state_reads [OF dump pad full small] obtain meta m1 w1 bss where
    ck: "checkpoint_meta drv (m, w) = Some (Inl meta, m1, w1)" and bss: "bss = read_all cp (ck_segments meta) w1"
    and idle: "is_empty r'" "is_empty s'"
    and read: "read_snapshot r' s' = Ok \<lparr>s_client_pid = d_client_pid d, s_id = d_id d, s_pinned = d_pinned d,
      s_kernels = d_kernels d, s_handles = d_handles d, s_memory_meta = encode meta, s_memory_raw = concat bss\<rparr> ()"
    and len: "map length bss = map (unat \<circ> seg_size) (ck_segments meta)" "length (concat bss) < 2 ^ 63"
    by (elim exE conjE)
  have refill: "restore_from_slice drv' cp' decode (encode meta) (concat bss) m2 w2 = Ok () (m3, w4)"
    if "decode (encode meta) = Some meta" "restore drv' meta (m2, w2) = Some (Inl (), m3, w3)"
      "write_all cp' (zip (ck_segments meta) bss) w3 = Ok () w4" for drv' cp' decode m2 w2 m3 w3 w4
    using that restore_from_slice_loads [where decode = decode and mb = "encode meta" and drv = drv' and cp = cp', OF that(1) len]
    by (simp add: load_memory_def)
  show ?thesis
    using ck bss idle read by (intro exI [of _ meta] exI [of _ m1] exI [of _ w1] exI [of _ bss] conjI allI impI refill)
qed

definition one_segment :: dmm where
  "one_segment = \<lparr>granularity = 2, next_addr = 12,
     allocations = [(8, \<lparr>map_ptr = 8, map_size = 4, slot_handle = Owned 1\<rparr>)], user_handles = [],
     range_ptr = 8, range_end = 64, device = 0\<rparr>"

definition patterned_copies :: "u64 copies" where
  "patterned_copies = \<lparr>deviceToHost = (\<lambda>p n w. ((0, replicate (unat n) (ucast p)), w)),
     hostToDevice = (\<lambda>p bs w. (0, w)), streamSynchronize = (\<lambda>w. (0, w))\<rparr>"

definition idle_ring :: ring where
  "idle_ring = \<lparr>data = replicate 70 0, head = 5, tail = 5, flag = 2\<rparr>"

definition one_client :: dumped where
  "one_client = \<lparr>d_client_pid = 77, d_id = 1, d_pinned = True, d_kernels = [10, 11, 12], d_handles = [20, 21]\<rparr>"

theorem snapshot_roundtrip_witness:
  "\<exists>r' s' m' w'. dump_state counting_driver patterned_copies (\<lambda>c. [of_nat (length (ck_segments c))]) (replicate 7 0)
      one_client idle_ring idle_ring one_segment 2 = Ok (r', s') (m', w') \<and>
    read_snapshot r' s' = Ok \<lparr>s_client_pid = 77, s_id = 1, s_pinned = True, s_kernels = [10, 11, 12],
      s_handles = [20, 21], s_memory_meta = [1], s_memory_raw = [8, 8, 8, 8]\<rparr> ()"
proof -
  have "case dump_state counting_driver patterned_copies (\<lambda>c. [of_nat (length (ck_segments c))]) (replicate 7 0)
      one_client idle_ring idle_ring one_segment 2 of Ok _ _ \<Rightarrow> True | _ \<Rightarrow> False" by code_simp
  then obtain r' s' m' w' where dump: "dump_state counting_driver patterned_copies (\<lambda>c. [of_nat (length (ck_segments c))])
      (replicate 7 0) one_client idle_ring idle_ring one_segment 2 = Ok (r', s') (m', w')"
    by (auto split: exec.splits)
  have ck: "checkpoint_meta counting_driver (one_segment, 2) = Some (Inl \<lparr>ck_granularity = 2, ck_next = 12,
      ck_segments = [\<lparr>seg_ptr = 8, seg_size = 4, seg_proxy = 0\<rparr>], ck_user_handles = []\<rparr>, one_segment, 2)" by code_simp
  have full: "full_copies patterned_copies" by (auto simp: full_copies_def patterned_copies_def)
  have small: "length (data idle_ring) < 2 ^ 63" by (simp add: idle_ring_def)
  have bss: "concat (read_all patterned_copies [\<lparr>seg_ptr = 8, seg_size = 4, seg_proxy = 0\<rparr>] 2) = [8, 8, 8, 8]" by code_simp
  show ?thesis
    using snapshot_roundtrip [OF dump _ full small small] dump unfolding ck by (auto simp: bss one_client_def simp del: read_all.simps)
qed

end
