(* ===== verification/Worker.thy ===== *)
theory Worker
  imports Rpc Snapshot "HOL-Library.Sublist"
begin

text \<open>
  A thread of the server (\<open>server/src/worker.rs\<close>): the loop that serves requests, checkpoints
  when the channel is locked, and rebuilds its handles from an image
  (\<open>server/src/phos/mod.rs\<close>) by serving the recorded requests from the image instead of a
  channel.
\<close>

section \<open>The channels of a thread\<close>

text \<open>
  The variants of the enumerations of \<open>network/src/channel.rs\<close> that a server with checkpoints
  uses: \<open>check_config\<close> admits shared memory only.
\<close>

datatype Receiver = RShm sys | RRestoreVec restore_vec
datatype Sender = SShm sys | SBlackHole

fun Receiver_get :: "Receiver get_bytes" where
  "Receiver_get n (RShm s) = map_io (\<lambda>x. x) RShm (ring_get_bytes n s)"
| "Receiver_get n (RRestoreVec c) = map_io (\<lambda>x. x) RRestoreVec (RestoreVec_get_bytes n c)"

fun Sender_put :: "Sender put_bytes" where
  "Sender_put bs (SShm s) = map_io (\<lambda>x. x) SShm (ring_put_bytes bs s)"
| "Sender_put bs SBlackHole = map_io (\<lambda>x. x) (\<lambda>_. SBlackHole) (BlackHole_put_bytes bs ())"

fun Sender_flush :: "Sender \<Rightarrow> (unit, Sender) io" where
  "Sender_flush (SShm s) = map_io (\<lambda>x. x) SShm (ring_flush s)"
| "Sender_flush SBlackHole = Returns () SBlackHole"

fun receiver_content :: "Receiver \<Rightarrow> bytes" where
  "receiver_content (RShm s) = contents (ring s)"
| "receiver_content (RRestoreVec c) = drop (pos c) (vec c)"

section \<open>The thread\<close>

datatype ThreadExitReason = Exit_Normal | Exit_CheckpointStop | Exit_Detached
datatype CheckpointMode = Kill | LeaveRunning | Detach

record 'w thread =
  server_state :: "(Receiver, Sender, 'w) server"
  is_pinned :: bool
  channels :: "(Sender \<times> Receiver) option"

text \<open>The files of a checkpoint: \<open>handles.bin\<close> and \<open>pin_memory.bin\<close>.\<close>

record files =
  handles_bin :: bytes
  pin_memory_bin :: bytes

definition dump_handles :: "'w thread \<Rightarrow> files" where
  "dump_handles th = \<lparr>handles_bin = serialize (resources (server_state th)),
     pin_memory_bin = [if is_pinned th then 1 else 0]\<rparr>"

text \<open>
  The live channels are put aside and the thread is set to read the image and to send nowhere.
  \<open>pin\<close> are \<open>initialize_context\<close> and the registration of the buffers, which panic when the
  runtime refuses.
\<close>

definition begin_handle_restore :: "('w \<Rightarrow> 'w option) \<Rightarrow> files \<Rightarrow> 'w thread \<Rightarrow> (unit, 'w thread) exec" where
  "begin_handle_restore pin fs th =
     exec_bind
       (if pin_memory_bin fs = [0] then Ok () th
        else if pin_memory_bin fs = [1]
        then (case pin (world (server_state th)) of
                None \<Rightarrow> Abort ''assertion failed''
              | Some w \<Rightarrow> Ok () (th\<lparr>server_state := (server_state th)\<lparr>world := w\<rparr>, is_pinned := True\<rparr>))
        else Abort ''invalid pin_memory.bin content'')
       (\<lambda>_ th. Ok () (th\<lparr>channels := Some (sender (server_state th), receiver (server_state th)),
          server_state := (server_state th)\<lparr>receiver := RRestoreVec (RestoreVec_new (handles_bin fs)), sender := SBlackHole\<rparr>\<rparr>))"

text \<open>\<open>clear_flag\<close> on the request channel.\<close>

fun clear_channel_flag :: "Receiver \<Rightarrow> Receiver option" where
  "clear_channel_flag (RShm s) = Some (RShm (do_move (SetFlag (flag (ring s) AND NOT SHM_FLAG_WRITE_DISABLED)) s))"
| "clear_channel_flag (RRestoreVec c) = None"

text \<open>
  What a thread runs with: the library, the configuration, the table of the dispatcher, the mode
  of the next checkpoint, what detaching does to the thread (the dump of \<open>Snapshot\<close>, and
  parking the thread's channels if there is a standby cache), whether the thread was attached to
  a snapshot, and the wait for the copies that restore the device memory.
\<close>

record 'w worker_env =
  library :: "'w device"
  conf :: config
  hooks_table :: "u32 \<Rightarrow> HookFn option"
  ckpt_mode :: CheckpointMode
  detach_dump :: "'w thread \<Rightarrow> 'w thread option"
  attached :: bool
  finish_restore :: "'w \<Rightarrow> 'w option"

datatype 'w outcome = Continue "'w thread" | Finished ThreadExitReason "'w thread" | Panicked string | Waiting

text \<open>
  \<open>checkpoint_thread\<close> and what the loop does with its result; the other threads and the process
  that dumps the client have met at the barrier.
\<close>

definition checkpoint_thread :: "'w worker_env \<Rightarrow> 'w thread \<Rightarrow> files list \<Rightarrow> 'w outcome \<times> files list" where
  "checkpoint_thread env th fs =
     (if ckpt_mode env = Detach
      then (case detach_dump env th of None \<Rightarrow> Panicked ''detach'' | Some th \<Rightarrow> Finished Exit_Detached th, fs)
      else (case clear_channel_flag (receiver (server_state th)) of
              None \<Rightarrow> Panicked ''SHM channel expected''
            | Some r \<Rightarrow>
                let th' = th\<lparr>server_state := (server_state th)\<lparr>receiver := r\<rparr>\<rparr>
                in if ckpt_mode env = Kill then Finished Exit_CheckpointStop th' else Continue th',
            fs @ [dump_handles th]))"

text \<open>The end of a restore: the live channels are put back, and an attached thread unlocks the client.\<close>

definition end_restore :: "'w worker_env \<Rightarrow> Sender \<Rightarrow> Receiver \<Rightarrow> 'w thread \<Rightarrow> 'w outcome" where
  "end_restore env s r th =
     (let sv = (server_state th)\<lparr>sender := s, receiver := r\<rparr>
      in if \<not> attached env then Continue (th\<lparr>server_state := sv, channels := None\<rparr>)
         else (case r of
                 RRestoreVec _ \<Rightarrow> Panicked ''SHM channel expected''
               | RShm c \<Rightarrow>
                   if flag (ring c) AND SHM_FLAG_WRITE_DISABLED = 0
                   then Continue (th\<lparr>server_state := sv, channels := None\<rparr>)
                   else (case finish_restore env (world sv) of
                           None \<Rightarrow> Panicked ''assertion failed''
                         | Some w \<Rightarrow>
                             Continue (th\<lparr>server_state := sv\<lparr>receiver := the (clear_channel_flag r), world := w\<rparr>,
                               channels := None\<rparr>))))"

definition serve_turn :: "'w worker_env \<Rightarrow> (Receiver, Sender, 'w) server \<Rightarrow> (turn, (Receiver, Sender, 'w) server) io" where
  "serve_turn env = server_turn Receiver_get Sender_put Sender_flush (library env) (conf env) (hooks_table env)"

text \<open>
  One iteration of the loop. The generated functions return nothing, so that an error can only
  come from \<open>receive_request\<close>.
\<close>

definition worker_step :: "'w worker_env \<Rightarrow> 'w thread \<times> files list \<Rightarrow> 'w outcome \<times> files list" where
  "worker_step env = (\<lambda>(th, fs).
     case serve_turn env (server_state th) of
       Returns Ended sv \<Rightarrow> (Finished Exit_Normal (th\<lparr>server_state := sv\<rparr>), fs)
     | Returns Served sv \<Rightarrow> (Continue (th\<lparr>server_state := sv\<rparr>), fs)
     | Panics m \<Rightarrow> (Panicked m, fs)
     | Blocks \<Rightarrow> (Waiting, fs)
     | Errs e sv \<Rightarrow>
         (if e = ShmChannelLocked
          then (case receive_request Receiver_get sv of
                  Errs e' sv' \<Rightarrow>
                    if e' = ShmChannelLocked then checkpoint_thread env (th\<lparr>server_state := sv'\<rparr>) fs
                    else (Panicked ''remaining async requests'', fs)
                | Returns _ _ \<Rightarrow> (Panicked ''remaining async requests'', fs)
                | Panics m \<Rightarrow> (Panicked m, fs)
                | Blocks \<Rightarrow> (Waiting, fs))
          else if e = RestoreEof
          then (case channels th of
                  None \<Rightarrow> (Panicked ''called Option::unwrap() on a None value'', fs)
                | Some (s, r) \<Rightarrow> (end_restore env s r (th\<lparr>server_state := sv\<rparr>), fs))
          else (Finished Exit_Normal (th\<lparr>server_state := sv\<rparr>), fs)))"

fun worker_steps :: "'w worker_env \<Rightarrow> nat \<Rightarrow> 'w thread \<times> files list \<Rightarrow> 'w outcome \<times> files list" where
  "worker_steps env 0 (th, fs) = (Continue th, fs)"
| "worker_steps env (Suc n) (th, fs) =
     (case worker_step env (th, fs) of
        (Continue th', fs') \<Rightarrow> worker_steps env n (th', fs')
      | r \<Rightarrow> r)"

section \<open>The calls that have to be repeated\<close>

text \<open>
  A server's life as a sequence of calls, and the calls of it that a restored server has to
  repeat: destroying or creating a handle makes the earlier calls for it superfluous, a call that
  configures a handle replaces the earlier one with its key.
\<close>

type_synonym served_call = "HookFn \<times> bytes list"
type_synonym entry = "u64 \<times> u64 option \<times> served_call"

fun calls_run :: "'w device \<Rightarrow> config \<Rightarrow> served_call list \<Rightarrow> manager \<Rightarrow> 'w \<Rightarrow> ('w, manager) exec" where
  "calls_run dev cfg [] h w = Ok w h"
| "calls_run dev cfg ((f, rs) # cs) h w =
     exec_bind (call dev cfg f rs h w) (\<lambda>(xs, res, outs, w) h. calls_run dev cfg cs h w)"

lemma calls_run_append:
  "calls_run dev cfg (cs @ ds) h w = exec_bind (calls_run dev cfg cs h w) (\<lambda>w h. calls_run dev cfg ds h w)"
  by (induction cs arbitrary: h w) (auto simp: exec_bind_assoc case_prod_unfold)

fun destroyed :: "(ParamKind \<times> bytes) list \<Rightarrow> u64 list" where
  "destroyed [] = []"
| "destroyed ((k, r) # ps) = (if is_destroy k \<and> usize_of r \<noteq> 0 then [usize_of r] else []) @ destroyed ps"

fun proxy_of :: "(ParamKind \<times> bytes) list \<Rightarrow> u64 option" where
  "proxy_of [] = None"
| "proxy_of ((k, r) # ps) =
     (case proxy_of ps of
        Some p \<Rightarrow> Some p
      | None \<Rightarrow> if is_modify k \<or> is_output_handle k then Some (usize_of r) else None)"

definition key_of :: "served_call \<Rightarrow> u64 option" where
  "key_of c = find_op_key (inputs (params (fst c)) (snd c)) (params (fst c))"

definition drops :: "served_call \<Rightarrow> entry \<Rightarrow> bool" where
  "drops c e \<longleftrightarrow> fst e \<in> set (destroyed (zip (params (fst c)) (snd c))) \<or>
     proxy_of (zip (params (fst c)) (snd c)) = Some (fst e) \<and>
       (is_create_handle (fst c) \<or> key_of c \<noteq> None \<and> fst (snd e) = key_of c)"

definition journal_call :: "entry list \<Rightarrow> served_call \<Rightarrow> entry list" where
  "journal_call J c = filter (\<lambda>e. \<not> drops c e) J @
     (case proxy_of (zip (params (fst c)) (snd c)) of None \<Rightarrow> [] | Some p \<Rightarrow> [(p, key_of c, c)])"

definition call_journal :: "served_call list \<Rightarrow> entry list" where
  "call_journal cs = foldl journal_call [] cs"

definition needed :: "served_call list \<Rightarrow> served_call list" where
  "needed cs = map (snd \<circ> snd) (call_journal cs)"

text \<open>The calls that a client can make.\<close>

definition call_ok :: "config \<Rightarrow> (u32 \<Rightarrow> HookFn option) \<Rightarrow> served_call \<Rightarrow> bool" where
  "call_ok cfg hooks c \<longleftrightarrow> hooks (proc_id (fst c)) = Some (fst c) \<and> proc_id (fst c) \<noteq> -1 \<and>
     HookFn_accepted (fst c) \<and> list_all2 (raw_ok cfg) (params (fst c)) (snd c)"

section \<open>The image holds the needed calls\<close>

definition entry_bytes :: "entry \<Rightarrow> u64 \<times> u64 option \<times> u8 list" where
  "entry_bytes e = (fst e, fst (snd e), request_bytes (fst (snd (snd e))) (snd (snd (snd e))))"

lemma hm_run_append: "hm_run (xs @ ys) h = exec_bind (hm_run xs h) (\<lambda>_ h. hm_run ys h)"
proof (induction xs arbitrary: h)
  case (Cons x xs)
  then show ?case by (cases "hm_step x h") simp_all
qed simp

lemma receive_all_ops:
  assumes "list_all2 (raw_ok cfg) ks rs" and "receive_all cfg ks rs h = Ok xs h'" and "opt_shadow_desc cfg"
  shows "\<exists>ops. hm_run ops h = Ok () h' \<and>
    (\<forall>J. foldl journal_step (map entry_bytes J) ops = map entry_bytes (filter (\<lambda>e. fst e \<notin> set (destroyed (zip ks rs))) J))"
  using assms(1,2)
proof (induction ks rs arbitrary: h xs rule: list_all2_induct)
  case Nil
  then show ?case by (auto intro: exI [of _ "[]"])
next
  case (Cons k ks r rs)
  then obtain x h1 ys where k: "receive cfg k r h = Ok x h1" and rest: "receive_all cfg ks rs h1 = Ok ys h'"
    by (auto simp: exec_simps)
  obtain ops where ops: "hm_run ops h1 = Ok () h'"
    "\<And>J. foldl journal_step (map entry_bytes J) ops = map entry_bytes (filter (\<lambda>e. fst e \<notin> set (destroyed (zip ks rs))) J)"
    using Cons.IH [OF rest] by blast
  show ?case
  proof (cases "\<exists>op key. k = InputHandle op key")
    case True
    then obtain op key where k_is: "k = InputHandle op key" by blast
    let ?op = "if op = Op_Destroy then Destroy (usize_of r) else Use (usize_of r)"
    have "hm_step ?op h = Ok () h1" using k k_is assms(3) by (auto simp: exec_simps)
    moreover have "journal_step (map entry_bytes J) ?op =
        map entry_bytes (filter (\<lambda>e. fst e \<notin> set (destroyed [(k, r)])) J)" for J
    proof -
      have "filter (\<lambda>(q, l, a). q \<noteq> p) (map entry_bytes J) = map entry_bytes (filter (\<lambda>e. fst e \<noteq> p) J)" for p
        by (induction J) (auto simp: entry_bytes_def)
      then show ?thesis using k_is by (cases op) auto
    qed
    ultimately show ?thesis
      using ops by (intro exI [of _ "?op # ops"]) (auto intro!: arg_cong [where f = "map entry_bytes"] filter_cong)
  next
    case False
    then have "h1 = h" using k by (cases k) auto
    moreover have "\<not> is_destroy k" using False by (cases k) auto
    ultimately show ?thesis using ops by auto
  qed
qed

lemma handle_proxy_of:
  "opt_shadow_desc cfg \<Longrightarrow> length xs = length ks \<Longrightarrow> handle_proxy cfg (zip ks xs) = proxy_of (zip ks (map raw xs))"
proof (induction ks arbitrary: xs)
  case (Cons k ks)
  then show ?case by (cases xs) (auto split: option.splits)
qed simp

lemma proxy_of_recorded:
  "length rs = length ks \<Longrightarrow> proxy_of (zip ks rs) = None \<longleftrightarrow> \<not> list_ex is_output_handle ks \<and> \<not> list_ex is_modify ks"
proof (induction ks arbitrary: rs)
  case (Cons k ks)
  then obtain r rs' where rs: "rs = r # rs'" "length rs' = length ks" by (cases rs) auto
  show ?case using Cons.IH [OF rs(2)] rs(1) by (auto split: option.splits)
qed simp

text \<open>A call performs operations of the handle manager whose effect on the journal is that of the call.\<close>

lemma call_ops:
  assumes c: "call dev cfg f rs h w = Ok (xs, res, outs, w') h'" and cfg: "opt_shadow_desc cfg" "phos cfg"
    and rs: "list_all2 (raw_ok cfg) (params f) rs"
  shows "\<exists>ops. hm_run ops h = Ok () h' \<and>
    (\<forall>J. foldl journal_step (map entry_bytes J) ops = map entry_bytes (journal_call J (f, rs)))"
proof -
  obtain h1 h2 where r: "receive_all cfg (params f) rs h = Ok xs h1"
    and reg: "register_handle cfg f xs outs h1 = Ok () h2" and rec: "record_call cfg f xs h2 = Ok () h'"
    using call_Ok [OF c] by blast
  obtain ops where ops: "hm_run ops h = Ok () h1"
    "\<And>J. foldl journal_step (map entry_bytes J) ops =
      map entry_bytes (filter (\<lambda>e. fst e \<notin> set (destroyed (zip (params f) rs))) J)"
    using receive_all_ops [OF rs r cfg(1)] by blast
  have raw: "map raw xs = rs" "map saved xs = map2 wire (params f) rs" using receive_all_raw [OF rs r] by auto
  have len: "length rs = length (params f)" "length xs = length (params f)"
    using rs raw(1) by (auto dest: list_all2_lengthD)
  note px = handle_proxy_of [OF cfg(1) len(2), unfolded raw]
  show ?thesis
  proof (cases "proxy_of (zip (params f) rs)")
    case None
    then have "\<not> is_create_handle f" "\<not> is_modify_handle f"
      using proxy_of_recorded [OF len(1)] by (auto simp: is_create_handle_def is_modify_handle_def)
    then have "h' = h1" using reg rec by (auto simp: register_handle_def record_call_def)
    then show ?thesis using ops None by (auto simp: journal_call_def drops_def)
  next
    case (Some p)
    then have made: "is_create_handle f \<or> is_modify_handle f"
      using proxy_of_recorded [OF len(1)] by (auto simp: is_create_handle_def is_modify_handle_def)
    let ?create_op = "if is_create_handle f then [hm_op.Create p (usize_of (hd outs))] else []"
    let ?rec_op = "Record p (key_of (f, rs)) (request_bytes f rs)"
    have "hm_run ?create_op h1 = Ok () h2"
      using reg px Some cfg by (auto simp: register_handle_def)
    moreover have "hm_step ?rec_op h2 = Ok () h'"
      using rec px Some cfg made raw by (auto simp: record_call_def key_of_def request_bytes_def)
    ultimately have run: "hm_run (ops @ ?create_op @ [?rec_op]) h = Ok () h'" using ops(1) by (simp add: hm_run_append)
    have "foldl journal_step (map entry_bytes J) (?create_op @ [?rec_op]) =
        map entry_bytes (filter (\<lambda>e. \<not> (fst e = p \<and> (is_create_handle f \<or> key_of (f, rs) \<noteq> None \<and> fst (snd e) = key_of (f, rs)))) J
          @ [(p, key_of (f, rs), f, rs)])" for J
    proof -
      have q: "filter (\<lambda>(q, l, a). q \<noteq> p) (map entry_bytes K) = map entry_bytes (filter (\<lambda>e. fst e \<noteq> p) K)" for K
        by (induction K) (auto simp: entry_bytes_def)
      have k: "filter (\<lambda>(q, l, a). q = p \<longrightarrow> l \<noteq> Some k) (map entry_bytes K) =
          map entry_bytes (filter (\<lambda>e. fst e = p \<longrightarrow> fst (snd e) \<noteq> Some k) K)" for K k
        by (induction K) (auto simp: entry_bytes_def)
      show ?thesis
        by (cases "key_of (f, rs)")
          (auto simp: q k entry_bytes_def intro!: arg_cong [where f = "map entry_bytes"] filter_cong)
    qed
    moreover have "foldl journal_step (map entry_bytes J) (ops @ ?create_op @ [?rec_op]) =
        foldl journal_step (map entry_bytes (filter (\<lambda>e. fst e \<notin> set (destroyed (zip (params f) rs))) J)) (?create_op @ [?rec_op])" for J
      by (simp only: foldl_append ops(2))
    ultimately have "foldl journal_step (map entry_bytes J) (ops @ ?create_op @ [?rec_op]) = map entry_bytes (journal_call J (f, rs))" for J
      using Some by (auto simp: journal_call_def drops_def intro!: arg_cong [where f = "map entry_bytes"] filter_cong)
    then show ?thesis using run by blast
  qed
qed

lemma calls_run_ops:
  assumes "calls_run dev cfg cs h w = Ok w' h'" and "opt_shadow_desc cfg" "phos cfg"
    and "list_all (call_ok cfg hooks) cs"
  shows "\<exists>ops. hm_run ops h = Ok () h' \<and>
    (\<forall>J. foldl journal_step (map entry_bytes J) ops = map entry_bytes (foldl journal_call J cs))"
  using assms(1,4)
proof (induction cs arbitrary: h w)
  case Nil
  then show ?case by (auto intro: exI [of _ "[]"])
next
  case (Cons c cs)
  obtain f rs where c: "c = (f, rs)" by fastforce
  obtain xs res outs w1 h1 where one: "call dev cfg f rs h w = Ok (xs, res, outs, w1) h1"
    and rest: "calls_run dev cfg cs h1 w1 = Ok w' h'"
    using Cons.prems(1) c by (auto simp: exec_simps)
  obtain ops where ops: "hm_run ops h = Ok () h1"
    "\<And>J. foldl journal_step (map entry_bytes J) ops = map entry_bytes (journal_call J c)"
    using call_ops [OF one assms(2,3)] Cons.prems(2) c by (auto simp: call_ok_def)
  obtain ops' where ops': "hm_run ops' h1 = Ok () h'"
    "\<And>J. foldl journal_step (map entry_bytes J) ops' = map entry_bytes (foldl journal_call J cs)"
    using Cons.IH [OF rest] Cons.prems(2) by auto
  show ?case using ops ops' by (intro exI [of _ "ops @ ops'"]) (simp add: hm_run_append)
qed

lemma calls_run_manager:
  assumes "calls_run dev cfg cs manager_new w = Ok w' h" and "opt_shadow_desc cfg" "phos cfg"
    and "list_all (call_ok cfg hooks) cs"
  obtains ops T where "hm_run ops manager_new = Ok () h" and "implements h T"
    and "map untime T = map entry_bytes (call_journal cs)"
proof -
  obtain ops where ops: "hm_run ops manager_new = Ok () h" "foldl journal_step [] ops = map entry_bytes (call_journal cs)"
    using calls_run_ops [OF assms] unfolding call_journal_def by (metis list.map(1))
  then show thesis using hm_run_refines [OF implements_new ops(1)] that by auto
qed

lemma serialize_needed:
  assumes "calls_run dev cfg cs manager_new w = Ok w' h" and "opt_shadow_desc cfg" "phos cfg"
    and "list_all (call_ok cfg hooks) cs"
  shows "serialize h = concat (map (\<lambda>(f, rs). request_bytes f rs) (needed cs))"
proof -
  obtain T where T: "implements h T" "map untime T = map entry_bytes (call_journal cs)"
    using calls_run_manager [OF assms] by blast
  have "serialize h = concat (map (\<lambda>(p, k, a). a) (map entry_bytes (call_journal cs)))"
    using serialize_implements [OF T(1)] unfolding T(2) .
  then show ?thesis by (simp add: needed_def entry_bytes_def comp_def case_prod_unfold)
qed

section \<open>Serving an image\<close>

text \<open>A call returns or panics.\<close>

definition plain :: "('a, 's) exec \<Rightarrow> bool" where
  "plain e = (case e of Ok _ _ \<Rightarrow> True | Abort _ \<Rightarrow> True | _ \<Rightarrow> False)"

lemma plain_bind: "plain e \<Longrightarrow> (\<And>x s. plain (f x s)) \<Longrightarrow> plain (exec_bind e f)"
  by (cases e) (simp_all add: plain_def)

lemma plain_simps [simp]: "plain (Ok x s)" "plain (Abort m)"
  by (simp_all add: plain_def)

lemma receive_all_plain: "plain (receive_all cfg ks rs h)"
proof -
  have "plain (get_inner p d h)" for p d h by (simp add: get_inner_def split: option.splits)
  then have "plain (receive cfg k r h)" for k r h
    by (cases k) (auto intro!: plain_bind)
  then show ?thesis
    by (induction cfg ks rs h rule: receive_all.induct) (auto intro!: plain_bind)
qed

lemma call_plain: "plain (call dev cfg f rs h w)"
proof -
  have i: "plain (insert_args p k bs h)" for p k bs h
    by (simp add: insert_args_def Let_def split: option.splits sum.splits)
  have "plain (register_handle cfg f xs outs h)" "plain (record_call cfg f xs h)" for xs outs h
    by (auto simp: register_handle_def record_call_def Let_def i split: option.splits)
  then show ?thesis
    by (auto simp: call_def Let_def intro!: plain_bind receive_all_plain split: prod.splits)
qed

context byte_source
begin

lemma turn_abort:
  assumes "good (receiver sv)" and "content (receiver sv) = request_bytes f rs @ rest"
    and f: "hooks (proc_id f) = Some f" "proc_id f \<noteq> -1" and rs: "list_all2 (raw_ok cfg) (params f) rs"
    and c: "call dev cfg f rs (resources sv) (world sv) = Abort m"
  shows "server_turn get put flush dev cfg hooks sv = Panics m"
proof -
  obtain c1 where c1: "get 4 (receiver sv) = Returns (i32_bytes (proc_id f)) c1"
    "content c1 = concat (map2 wire (params f) rs) @ rest" "good c1"
    using get_prefix [OF assms(1), of "i32_bytes (proc_id f)"] assms(2) by (auto simp: request_bytes_def)
  let ?sv = "sv\<lparr>receiver := c1\<rparr>"
  have rd: "reads (recv_params get cfg (params f) ?sv) (receive_all cfg (params f) rs (resources ?sv)) rest ?sv"
    by (rule reads_params) (use c1 rs in simp_all)
  have "exe get put flush dev cfg f ?sv = Panics m"
  proof (cases "receive_all cfg (params f) rs (resources sv)")
    case (Ok xs h1)
    then obtain c2 where x: "recv_params get cfg (params f) ?sv = Returns xs (sv\<lparr>receiver := c2, resources := h1\<rparr>)"
      using rd by (auto simp: reads_def)
    obtain q os v where d: "dev (proc_id f) (exec_args (params f) xs) (world sv) = ((q, os), v)" by (metis prod.collapse)
    show ?thesis
      using c Ok d by (cases "register_handle cfg f xs os h1"; cases "record_call cfg f xs (final (register_handle cfg f xs os h1))")
        (auto simp: exe_def x call_def on_resources_def)
  qed (use c rd in \<open>auto simp: call_def reads_def exe_def\<close>)
  then show ?thesis using f c1(1) by (simp add: server_turn_def receive_request_def dispatch_def)
qed

end

text \<open>The thread reads an image only.\<close>

fun is_image :: "Receiver \<Rightarrow> bool" where
  "is_image (RRestoreVec c) = (pos c \<le> length (vec c))"
| "is_image (RShm s) = False"

interpretation image: byte_source Receiver_get receiver_content is_image
proof
  fix c n assume "is_image c" "n \<le> length (receiver_content c)"
  then show "\<exists>c'. Receiver_get n c = Returns (take n (receiver_content c)) c' \<and>
      receiver_content c' = drop n (receiver_content c) \<and> is_image c'"
    using restore.get_content by (cases c) fastforce+
qed

definition library_ok :: "'w worker_env \<Rightarrow> bool" where
  "library_ok env \<longleftrightarrow> (\<forall>f rs h w xs res outs w' h'. hooks_table env (proc_id f) = Some f \<longrightarrow>
     call (library env) (conf env) f rs h w = Ok (xs, res, outs, w') h' \<longrightarrow> replies (conf env) f \<longrightarrow>
     outs_ok (inputs (params f) rs) [] (zip (filter is_host_output (params f)) outs))"

lemma put_all_nowhere: "put_all Sender_put ps SBlackHole = Returns () SBlackHole"
  by (induction ps) (simp_all add: BlackHole_put_bytes_def)

definition replaying :: "'w thread \<Rightarrow> bytes \<Rightarrow> bool" where
  "replaying th bs \<longleftrightarrow> is_image (receiver (server_state th)) \<and> sender (server_state th) = SBlackHole \<and>
     receiver_content (receiver (server_state th)) = bs"

definition state_of :: "'w thread \<Rightarrow> manager \<Rightarrow> 'w \<Rightarrow> bool" where
  "state_of th h w \<longleftrightarrow> resources (server_state th) = h \<and> world (server_state th) = w"

definition same_thread :: "'w thread \<Rightarrow> 'w thread \<Rightarrow> bool" where
  "same_thread th th' \<longleftrightarrow> channels th' = channels th \<and> is_pinned th' = is_pinned th"

lemma replay_step:
  assumes th: "replaying th (request_bytes f rs @ rest)" "state_of th h w"
    and c: "call_ok (conf env) (hooks_table env) (f, rs)" and lib: "library_ok env"
  shows "call (library env) (conf env) f rs h w = Ok (xs, res, outs, w') h' \<Longrightarrow>
      \<exists>th'. worker_step env (th, fs) = (Continue th', fs) \<and> replaying th' rest \<and> state_of th' h' w' \<and> same_thread th th'"
    and "call (library env) (conf env) f rs h w = Abort m \<Longrightarrow> worker_step env (th, fs) = (Panicked m, fs)"
proof -
  let ?sv = "server_state th"
  have good: "is_image (receiver ?sv)" "receiver_content (receiver ?sv) = request_bytes f rs @ rest"
    using th(1) by (simp_all add: replaying_def)
  have f: "hooks_table env (proc_id f) = Some f" "proc_id f \<noteq> -1" "list_all2 (raw_ok (conf env)) (params f) rs"
    using c by (simp_all add: call_ok_def)
  show "\<exists>th'. worker_step env (th, fs) = (Continue th', fs) \<and> replaying th' rest \<and> state_of th' h' w' \<and> same_thread th th'"
    if ok: "call (library env) (conf env) f rs h w = Ok (xs, res, outs, w') h'"
  proof -
    have call: "call (library env) (conf env) f rs (resources ?sv) (world ?sv) = Ok (xs, res, outs, w') h'"
      using ok th(2) by (simp add: state_of_def)
    have outs: "replies (conf env) f \<Longrightarrow> outs_ok (inputs (params f) rs) [] (zip (filter is_host_output (params f)) outs)"
      using lib f(1) ok unfolding library_ok_def by blast
    from image.turn_call [where f = f and sv = ?sv and hooks = "hooks_table env", OF good f call outs, of Sender_put Sender_flush]
    obtain c where c: "receiver_content c = rest" "is_image c"
      "serve_turn env ?sv = io_bind (ssend (if replies (conf env) f
        then (\<lambda>s. io_bind (put_all Sender_put (reply_pieces f (inputs (params f) rs) res outs) s) (\<lambda>_ s. Sender_flush s))
        else Returns ()) (?sv\<lparr>receiver := c, resources := h', world := w'\<rparr>)) (\<lambda>_. Returns Served)"
      unfolding serve_turn_def by blast
    have "sender ?sv = SBlackHole" using th(1) by (simp add: replaying_def)
    then have "serve_turn env ?sv = Returns Served (?sv\<lparr>receiver := c, resources := h', world := w', sender := SBlackHole\<rparr>)"
      unfolding c(3) by (simp add: ssend_def put_all_nowhere)
    then show ?thesis using c(1,2)
      by (simp add: worker_step_def replaying_def state_of_def same_thread_def)
  qed
  show "worker_step env (th, fs) = (Panicked m, fs)" if "call (library env) (conf env) f rs h w = Abort m"
  proof -
    have "call (library env) (conf env) f rs (resources ?sv) (world ?sv) = Abort m" using that th(2) by (simp add: state_of_def)
    from image.turn_abort [where f = f and sv = ?sv and hooks = "hooks_table env", OF good f this]
    show ?thesis by (simp add: worker_step_def serve_turn_def)
  qed
qed

lemma worker_steps_add:
  "worker_steps env (n + k) (th, fs) =
     (case worker_steps env n (th, fs) of (Continue th', fs') \<Rightarrow> worker_steps env k (th', fs') | r \<Rightarrow> r)"
proof (induction n arbitrary: th fs)
  case (Suc n)
  obtain o' fs' where "worker_step env (th, fs) = (o', fs')" by fastforce
  then show ?case using Suc.IH by (cases o') simp_all
qed simp

definition images :: "served_call list \<Rightarrow> bytes" where
  "images cs = concat (map (\<lambda>(f, rs). request_bytes f rs) cs)"

lemma replay_calls:
  assumes "replaying th (images cs)" and "state_of th h w"
    and "list_all (call_ok (conf env) (hooks_table env)) cs" and lib: "library_ok env"
  shows "calls_run (library env) (conf env) cs h w = Ok w' h' \<Longrightarrow>
      \<exists>th'. worker_steps env (length cs) (th, fs) = (Continue th', fs) \<and> replaying th' [] \<and> state_of th' h' w' \<and> same_thread th th'"
    and "calls_run (library env) (conf env) cs h w = Abort m \<Longrightarrow> worker_steps env (length cs) (th, fs) = (Panicked m, fs)"
proof -
  have "(calls_run (library env) (conf env) cs h w = Ok w' h' \<longrightarrow>
      (\<exists>th'. worker_steps env (length cs) (th, fs) = (Continue th', fs) \<and> replaying th' [] \<and> state_of th' h' w' \<and> same_thread th th')) \<and>
    (calls_run (library env) (conf env) cs h w = Abort m \<longrightarrow> worker_steps env (length cs) (th, fs) = (Panicked m, fs))"
    using assms(1-3)
  proof (induction cs arbitrary: th h w)
    case Nil
    then show ?case by (auto simp: images_def state_of_def same_thread_def)
  next
    case (Cons c cs)
    obtain f rs where c: "c = (f, rs)" by fastforce
    have r: "replaying th (request_bytes f rs @ images cs)" using Cons.prems(1) c by (simp add: images_def)
    have ok: "call_ok (conf env) (hooks_table env) (f, rs)" using Cons.prems(3) c by simp
    note step = replay_step [OF r Cons.prems(2) ok lib]
    show ?case
    proof (cases "call (library env) (conf env) f rs h w")
      case (Ok y h1)
      obtain xs res outs w1 where y: "y = (xs, res, outs, w1)" by (metis prod.collapse)
      obtain th1 where th1: "worker_step env (th, fs) = (Continue th1, fs)" "replaying th1 (images cs)"
        "state_of th1 h1 w1" "same_thread th th1"
        using step(1) [of xs res outs w1 h1] Ok y by blast
      have "list_all (call_ok (conf env) (hooks_table env)) cs" using Cons.prems(3) by simp
      from Cons.IH [OF th1(2,3) this] show ?thesis
        using c Ok y th1(1,4) by (auto simp: same_thread_def)
    next
      case (Abort msg)
      then show ?thesis using step(2) c by simp
    qed (use call_plain [of "library env" "conf env" f rs h w] in \<open>simp_all add: plain_def\<close>)
  qed
  then show "calls_run (library env) (conf env) cs h w = Ok w' h' \<Longrightarrow>
      \<exists>th'. worker_steps env (length cs) (th, fs) = (Continue th', fs) \<and> replaying th' [] \<and> state_of th' h' w' \<and> same_thread th th'"
    "calls_run (library env) (conf env) cs h w = Abort m \<Longrightarrow> worker_steps env (length cs) (th, fs) = (Panicked m, fs)"
    by blast+
qed

text \<open>At the end of the image the thread returns to its channels.\<close>

lemma replay_end:
  assumes "replaying th []" and "channels th = Some (s, r)"
  shows "worker_step env (th, fs) = (end_restore env s r th, fs)"
proof -
  obtain c where c: "receiver (server_state th) = RRestoreVec c" "pos c = length (vec c)"
    using assms(1) by (cases "receiver (server_state th)") (auto simp: replaying_def)
  have "(server_state th)\<lparr>receiver := RRestoreVec c\<rparr> = server_state th" using c(1) by simp
  then have "serve_turn env (server_state th) = Errs RestoreEof (server_state th)"
    using c by (simp add: serve_turn_def server_turn_def receive_request_def RestoreVec_get_bytes_def)
  then show ?thesis using assms(2) by (simp add: worker_step_def)
qed

section \<open>The needed calls\<close>

lemma call_journal_snoc: "call_journal (cs @ [c]) = journal_call (call_journal cs) c"
  by (simp add: call_journal_def)

lemma needed_subseq: "subseq (needed cs) cs"
proof (induction cs rule: rev_induct)
  case (snoc c cs)
  let ?J = "call_journal cs"
  have "subseq (map (snd \<circ> snd) (filter (\<lambda>e. \<not> drops c e) ?J)) (map (snd \<circ> snd) ?J)"
    by (intro subseq_map subseq_filter_left)
  then have "subseq (map (snd \<circ> snd) (filter (\<lambda>e. \<not> drops c e) ?J)) cs"
    using snoc subseq_order.trans unfolding needed_def by blast
  then show ?case
    by (cases "proxy_of (zip (params (fst c)) (snd c))")
      (auto simp: needed_def call_journal_snoc journal_call_def intro: list_emb_append_mono list_emb_append2)
qed (simp add: needed_def call_journal_def)

text \<open>A journal in which no call makes an earlier one superfluous reproduces itself.\<close>

definition settled :: "entry list \<Rightarrow> bool" where
  "settled J \<longleftrightarrow> sorted_wrt (\<lambda>e c. \<not> drops (snd (snd c)) e) J \<and>
     (\<forall>(p, k, c) \<in> set J. proxy_of (zip (params (fst c)) (snd c)) = Some p \<and> key_of c = k)"

lemma settled_journal: "settled (call_journal cs)"
proof (induction cs rule: rev_induct)
  case (snoc c cs)
  then show ?case
    by (auto simp: call_journal_snoc journal_call_def settled_def sorted_wrt_append intro: sorted_wrt_filter split: option.splits)
qed (simp add: settled_def call_journal_def)

lemma settled_again: "settled J \<Longrightarrow> call_journal (map (snd \<circ> snd) J) = J"
proof (induction J rule: rev_induct)
  case (snoc e J)
  have J: "settled J" and e: "\<And>x. x \<in> set J \<Longrightarrow> \<not> drops (snd (snd e)) x"
    "proxy_of (zip (params (fst (snd (snd e)))) (snd (snd (snd e)))) = Some (fst e)" "key_of (snd (snd e)) = fst (snd e)"
    using snoc.prems by (auto simp: settled_def sorted_wrt_append split: prod.splits)
  have "filter (\<lambda>x. \<not> drops (snd (snd e)) x) J = J" using e(1) by (simp add: filter_id_conv)
  then show ?case using snoc.IH [OF J] e(2,3) by (simp add: call_journal_snoc journal_call_def)
qed (simp add: call_journal_def)

lemma needed_idem: "needed (needed cs) = needed cs"
  unfolding needed_def using settled_again [OF settled_journal] by simp

text \<open>The live proxies are those that the journal creates.\<close>

definition live :: "manager \<Rightarrow> u64 set" where
  "live h = {p. bt_get (table h) p \<noteq> None}"

definition created :: "entry list \<Rightarrow> u64 set" where
  "created J = {p. \<exists>k c. (p, k, c) \<in> set J \<and> is_create_handle (fst c)}"

definition keys_apart :: "served_call list \<Rightarrow> bool" where
  "keys_apart cs \<longleftrightarrow> (\<forall>c \<in> set cs. \<forall>d \<in> set cs. is_create_handle (fst c) \<longrightarrow> \<not> is_create_handle (fst d) \<longrightarrow>
     key_of d \<noteq> None \<longrightarrow> key_of c \<noteq> key_of d)"

lemma is_destroy_op [simp]: "is_destroy (InputHandle op key) = (op = Op_Destroy)"
  by (cases op) simp_all

lemma live_receive_all:
  assumes "list_all2 (raw_ok cfg) ks rs" and "receive_all cfg ks rs h = Ok xs h'" and "opt_shadow_desc cfg"
    and "bt_inv (table h)"
  shows "bt_inv (table h') \<and> live h' = live h - set (destroyed (zip ks rs))"
  using assms(1,2,4)
proof (induction ks rs arbitrary: h xs rule: list_all2_induct)
  case (Cons k ks r rs)
  then obtain x h1 ys where k: "receive cfg k r h = Ok x h1" and rest: "receive_all cfg ks rs h1 = Ok ys h'"
    by (auto simp: exec_simps)
  have "bt_inv (table h1) \<and> live h1 = live h - set (destroyed [(k, r)])"
    using k Cons.prems(2) assms(3)
    by (cases k) (auto simp: get_inner_def exec_simps live_def bt_simps split: option.splits if_splits)
  then show ?case using Cons.IH [OF rest] by auto
qed simp

lemma live_call:
  assumes c: "call dev cfg f rs h w = Ok (xs, res, outs, w') h'" and cfg: "opt_shadow_desc cfg"
    and rs: "list_all2 (raw_ok cfg) (params f) rs" and inv: "bt_inv (table h)"
  shows "bt_inv (table h') \<and> live h' = live h - set (destroyed (zip (params f) rs)) \<union>
    (if is_create_handle f then set_option (proxy_of (zip (params f) rs)) else {})"
proof -
  obtain h1 h2 where r: "receive_all cfg (params f) rs h = Ok xs h1"
    and reg: "register_handle cfg f xs outs h1 = Ok () h2" and rec: "record_call cfg f xs h2 = Ok () h'"
    using call_Ok [OF c] by blast
  have raw: "map raw xs = rs" using receive_all_raw [OF rs r] by simp
  have "length xs = length (params f)" using rs raw by (auto dest: list_all2_lengthD)
  note px = handle_proxy_of [OF cfg this, unfolded raw]
  have h1: "bt_inv (table h1) \<and> live h1 = live h - set (destroyed (zip (params f) rs))"
    by (rule live_receive_all [OF rs r cfg inv])
  have h2: "bt_inv (table h2) \<and> live h2 = live h1 \<union> (if is_create_handle f then set_option (proxy_of (zip (params f) rs)) else {})"
    using conjunct1 [OF h1] reg px cfg
    by (auto simp: register_handle_def Let_def hm_insert_def live_def bt_simps split: option.splits if_splits)
  have "bt_inv (table h') \<and> live h' = live h2"
    using conjunct1 [OF h2] rec by (auto simp: record_call_def insert_args_def Let_def live_def bt_simps split: option.splits sum.splits if_splits)
  then show ?thesis using h1 h2 by auto
qed

lemma created_journal_call:
  assumes "\<And>p k d. (p, k, d) \<in> set J \<Longrightarrow> is_create_handle (fst d) \<Longrightarrow> \<not> is_create_handle (fst c) \<Longrightarrow>
    key_of c \<noteq> None \<Longrightarrow> k \<noteq> key_of c"
  shows "created (journal_call J c) = created J - set (destroyed (zip (params (fst c)) (snd c))) \<union>
    (if is_create_handle (fst c) then set_option (proxy_of (zip (params (fst c)) (snd c))) else {})"
proof -
  have "p \<in> created (filter (\<lambda>e. \<not> drops c e) J) \<longleftrightarrow>
      p \<in> created J \<and> p \<notin> set (destroyed (zip (params (fst c)) (snd c))) \<and>
      \<not> (is_create_handle (fst c) \<and> proxy_of (zip (params (fst c)) (snd c)) = Some p)" for p
    using assms unfolding created_def drops_def by fastforce
  moreover have "created (A @ B) = created A \<union> created B" for A B
    unfolding created_def set_append by blast
  moreover have "created [(p, k, c)] = (if is_create_handle (fst c) then {p} else {})" for p k by (auto simp: created_def)
  moreover have "created [] = {}" by (simp add: created_def)
  ultimately show ?thesis by (auto simp: journal_call_def split: option.splits)
qed

lemma needed_subset: "set (needed cs) \<subseteq> set cs"
  using list_emb_set [OF needed_subseq] by blast

lemma set_journal: "(p, k, c) \<in> set (call_journal cs) \<Longrightarrow> c \<in> set cs \<and> key_of c = k"
proof -
  assume m: "(p, k, c) \<in> set (call_journal cs)"
  then have "c \<in> set (needed cs)" by (force simp: needed_def)
  then show ?thesis using m settled_journal [of cs] needed_subset by (auto simp: settled_def)
qed

lemma live_created:
  assumes "calls_run dev cfg cs manager_new w = Ok w' h" and "opt_shadow_desc cfg" and "list_all (call_ok cfg hooks) cs"
    and "keys_apart cs"
  shows "live h = created (call_journal cs)"
proof -
  have "bt_inv (table h) \<and> live h = created (call_journal cs)"
    using assms(1,3,4)
  proof (induction cs arbitrary: w' h rule: rev_induct)
    case Nil
    then show ?case by (auto simp: manager_new_def live_def created_def call_journal_def bt_simps)
  next
    case (snoc c cs)
    obtain f rs where c: "c = (f, rs)" by fastforce
    obtain w1 h1 xs res outs where run: "calls_run dev cfg cs manager_new w = Ok w1 h1"
      and one: "call dev cfg f rs h1 w1 = Ok (xs, res, outs, w') h"
      using snoc.prems(1) c by (auto simp: calls_run_append exec_simps)
    have IH: "bt_inv (table h1)" "live h1 = created (call_journal cs)"
      using snoc.IH [OF run] snoc.prems(2,3) by (auto simp: keys_apart_def)
    have rs: "list_all2 (raw_ok cfg) (params f) rs" using snoc.prems(2) c by (simp add: call_ok_def)
    have "created (journal_call (call_journal cs) c) = created (call_journal cs) - set (destroyed (zip (params (fst c)) (snd c))) \<union>
        (if is_create_handle (fst c) then set_option (proxy_of (zip (params (fst c)) (snd c))) else {})"
      by (rule created_journal_call) (use snoc.prems(3) set_journal in \<open>fastforce simp: keys_apart_def\<close>)
    then show ?case
      using live_call [OF one assms(2) rs IH(1)] IH(2) c by (simp add: call_journal_snoc)
  qed
  then show ?thesis by simp
qed

section \<open>Repeating the needed calls succeeds\<close>

text \<open>
  What can go wrong in a replay is a handle that a needed call uses but that is not there any
  more; a journal is self-contained if that does not happen.
\<close>

fun uses :: "(ParamKind \<times> bytes) list \<Rightarrow> u64 list" where
  "uses [] = []"
| "uses ((k, r) # ps) = (case k of InputHandle _ _ \<Rightarrow> if usize_of r = 0 then [] else [usize_of r] | _ \<Rightarrow> []) @ uses ps"

fun self_contained :: "u64 list \<Rightarrow> entry list \<Rightarrow> bool" where
  "self_contained A [] = True"
| "self_contained A ((p, k, f, rs) # J) =
     (list_all (\<lambda>q. q \<in> set A) (uses (zip (params f) rs)) \<and> (is_create_handle f \<or> p \<in> set A) \<and>
      self_contained (if is_create_handle f then p # A else A) J)"

lemma self_contained_snoc:
  "self_contained A (J @ [(p, k, f, rs)]) \<Longrightarrow> self_contained A J \<and>
     set (uses (zip (params f) rs)) \<subseteq> set A \<union> created J \<and> (is_create_handle f \<or> p \<in> set A \<union> created J)"
proof (induction A J rule: self_contained.induct)
  case (1 A)
  then show ?case by (auto simp: created_def list_all_iff)
next
  case (2 A p' k' f' rs' J)
  have "created ((p', k', f', rs') # J) = (if is_create_handle f' then {p'} else {}) \<union> created J"
    by (auto simp: created_def)
  then show ?case using 2 by (auto split: if_splits)
qed

lemma receive_all_live:
  assumes "list_all2 (raw_ok cfg) ks rs" and "set (uses (zip ks rs)) \<subseteq> live h" and "\<not> list_ex is_destroy ks"
  shows "\<exists>xs. receive_all cfg ks rs h = Ok xs h"
  using assms
proof (induction ks rs rule: list_all2_induct)
  case (Cons k ks r rs)
  then obtain xs where "receive_all cfg ks rs h = Ok xs h" by auto
  moreover have "\<exists>x. receive cfg k r h = Ok x h"
    using Cons.prems by (cases k) (auto simp: get_inner_def live_def split: if_splits)
  ultimately show ?case by auto
qed simp

text \<open>The payloads of a handle are never empty lists, and all keyed or all unkeyed.\<close>

definition filled :: "manager \<Rightarrow> bool" where
  "filled h \<longleftrightarrow> bt_inv (table h) \<and> (\<forall>p hx. bt_get (table h) p = Some hx \<longrightarrow> hpayloads hx \<noteq> PVec [] \<and> hpayloads hx \<noteq> PMap [])"

lemma filled_run: "hm_run ops h = Ok u h' \<Longrightarrow> filled h \<Longrightarrow> filled h'"
proof (induction ops arbitrary: h)
  case (Cons op ops)
  then obtain h1 where h1: "hm_step op h = Ok () h1" "hm_run ops h1 = Ok u h'" by (auto simp: exec_simps)
  have ins: "bt_insert k v m \<noteq> []" for k v and m :: "(u64, payload) btree"
    by (cases m) (auto split: if_splits)
  have pl: "ps' \<noteq> PVec [] \<and> ps' \<noteq> PMap []" if "payloads_insert key p ps = Inl ps'" for key p ps ps'
    using that ins by (cases "(key, p, ps)" rule: payloads_insert.cases) auto
  have "filled h1"
    using h1(1) Cons.prems(2)
    by (cases op) (auto simp: filled_def hm_insert_def insert_args_def get_inner_def Let_def exec_simps bt_simps
        split: option.splits sum.splits if_splits dest!: pl)
  then show ?case using Cons.IH h1(2) by blast
qed auto

lemma payloads_alike:
  assumes "(p, k, x) \<in> set (flat h)" and "bt_inv (table h)"
  obtains hx where "bt_get (table h) p = Some hx" and "(k, x) \<in> set (tagged (hpayloads hx))"
proof -
  obtain hx where e: "(p, hx) \<in> set (table h)" "(k, x) \<in> set (tagged (hpayloads hx))"
    using assms(1) by (auto simp: flat_def calls_of_def)
  then have "bt_get (table h) p = Some hx" using assms(2) by (simp add: bt.entries_get)
  then show ?thesis using that e(2) by blast
qed

definition homogeneous :: "entry list \<Rightarrow> bool" where
  "homogeneous J \<longleftrightarrow> (\<forall>p k k' c c'. (p, k, c) \<in> set J \<longrightarrow> (p, k', c') \<in> set J \<longrightarrow> (k = None) = (k' = None))"

lemma tagged_alike: "(k, x) \<in> set (tagged ps) \<Longrightarrow> (k', x') \<in> set (tagged ps) \<Longrightarrow> (k = None) = (k' = None)"
  by (cases ps) auto

lemma journal_in_table:
  assumes "implements h T" and "map untime T = map entry_bytes J"
  shows "(p, k, c) \<in> set J \<Longrightarrow> \<exists>x. (p, k, x) \<in> set (flat h)" and "(p, k, x) \<in> set (flat h) \<Longrightarrow> \<exists>c. (p, k, c) \<in> set J"
proof -
  have T: "set (flat h) = set T" using assms(1) by (metis implements_def set_mset_mset)
  have U: "untime ` set T = entry_bytes ` set J" using assms(2) by (metis list.set_map)
  show "\<exists>x. (p, k, x) \<in> set (flat h)" if "(p, k, c) \<in> set J"
  proof -
    have "entry_bytes (p, k, c) \<in> untime ` set T" using that U by blast
    then show ?thesis using T by (auto simp: untime_def entry_bytes_def)
  qed
  show "\<exists>c. (p, k, c) \<in> set J" if "(p, k, x) \<in> set (flat h)"
  proof -
    have "untime (p, k, x) \<in> entry_bytes ` set J" using that U T by blast
    then obtain e where "e \<in> set J" "fst e = p" "fst (snd e) = k" by (auto simp: untime_def entry_bytes_def)
    then show ?thesis by (metis prod.collapse)
  qed
qed

lemma homogeneous_journal:
  assumes "implements h T" and "map untime T = map entry_bytes J"
  shows "homogeneous J"
proof -
  have inv: "bt_inv (table h)" using assms(1) by (simp add: implements_def hm_inv_def)
  show ?thesis
    unfolding homogeneous_def
  proof (intro allI impI)
    fix p k k' c c' assume "(p, k, c) \<in> set J" "(p, k', c') \<in> set J"
    then obtain x x' where "(p, k, x) \<in> set (flat h)" "(p, k', x') \<in> set (flat h)"
      using journal_in_table(1) [OF assms] by blast
    then obtain hx hx' where "bt_get (table h) p = Some hx" "(k, x) \<in> set (tagged (hpayloads hx))"
      "bt_get (table h) p = Some hx'" "(k', x') \<in> set (tagged (hpayloads hx'))"
      by (elim payloads_alike [OF _ inv])
    moreover from this have "hx' = hx" by simp
    ultimately show "(k = None) = (k' = None)" by (blast dest: tagged_alike)
  qed
qed

text \<open>What the manager holds after a sequence of calls.\<close>

lemma calls_run_table:
  assumes "calls_run dev cfg cs manager_new w = Ok w' h" and "opt_shadow_desc cfg" "phos cfg"
    and "list_all (call_ok cfg hooks) cs"
  shows "\<exists>T. implements h T \<and> map untime T = map entry_bytes (call_journal cs)" and "filled h"
proof -
  obtain ops T where ops: "hm_run ops manager_new = Ok () h" and T: "implements h T" "map untime T = map entry_bytes (call_journal cs)"
    using calls_run_manager [OF assms] by blast
  show "\<exists>T. implements h T \<and> map untime T = map entry_bytes (call_journal cs)" using T by blast
  show "filled h" by (rule filled_run [OF ops]) (simp add: filled_def manager_new_def bt_simps)
qed

lemma record_succeeds:
  assumes hx: "bt_get (table h) p = Some hx" and h: "filled h" "implements h T" "map untime T = map entry_bytes J"
    and J: "homogeneous (J @ [(p, key, c)])"
  shows "\<exists>h'. insert_args p key bs h = Ok () h'"
proof -
  have entry: "(k = None) = (key = None)" if "(k, x) \<in> set (tagged (hpayloads hx))" for k x
  proof -
    have "(p, hx) \<in> set (table h)" using hx h(1) by (simp add: filled_def bt.entries_get)
    then have "(p, k, x) \<in> set (flat h)" using that by (force simp: flat_def calls_of_def)
    then obtain d where "(p, k, d) \<in> set J" using journal_in_table(2) [OF h(2,3)] by blast
    then have "(p, k, d) \<in> set (J @ [(p, key, c)])" "(p, key, c) \<in> set (J @ [(p, key, c)])" by simp_all
    then show ?thesis using J unfolding homogeneous_def by blast
  qed
  have "\<exists>ps. payloads_insert key pl (hpayloads hx) = Inl ps" for pl
  proof (cases "hpayloads hx")
    case Empty
    then show ?thesis by (cases key) auto
  next
    case (PVec ps)
    then obtain x xs where "ps = x # xs" using h(1) hx by (cases ps) (auto simp: filled_def)
    then show ?thesis using entry [of None x] PVec by auto
  next
    case (PMap m)
    then obtain k x xs where "m = (k, x) # xs" using h(1) hx by (cases m) (auto simp: filled_def)
    then show ?thesis using entry [of "Some k" x] PMap by (cases key) auto
  qed
  then obtain ps where "payloads_insert key \<lparr>timestamp = TIMESTAMP h, args = bs\<rparr> (hpayloads hx) = Inl ps" by blast
  then show ?thesis using hx by (simp add: insert_args_def Let_def)
qed

lemma recorded_not_destroying:
  assumes "HookFn_accepted f" and "is_create_handle f \<or> is_modify_handle f"
  shows "\<not> list_ex is_destroy (params f)"
proof
  assume "list_ex is_destroy (params f)"
  then obtain A k B where ks: "params f = A @ k # B" and k: "is_destroy k" by (auto simp: list_ex_iff dest: split_list)
  let ?P = "\<lambda>k. is_modify k \<or> is_destroy k \<or> is_output_handle k"
  have "\<not> is_modify k" "\<not> is_output_handle k" using k by (cases k; simp; case_tac x21; simp)+
  then obtain j where "j \<in> set (A @ B)" "?P j"
    using assms(2) ks by (auto simp: is_create_handle_def is_modify_handle_def list_ex_iff)
  then have "0 < length (filter ?P (A @ B))" by (simp only: length_greater_0_conv filter_empty_conv) blast
  then show False using assms(1) ks k by (auto simp: HookFn_accepted_def)
qed

lemma call_succeeds:
  assumes "list_all2 (raw_ok cfg) (params f) rs" and "HookFn_accepted f"
    and px: "proxy_of (zip (params f) rs) = Some p" and u: "set (uses (zip (params f) rs)) \<subseteq> live h"
    and p: "is_create_handle f \<or> p \<in> live h" and cfg: "opt_shadow_desc cfg"
    and h: "filled h" "implements h T" "map untime T = map entry_bytes J" "homogeneous (J @ [(p, key_of (f, rs), c)])"
  shows "\<exists>x h'. call dev cfg f rs h w = Ok x h'"
proof -
  have len: "length rs = length (params f)" using assms(1) by (auto dest: list_all2_lengthD)
  have made: "is_create_handle f \<or> is_modify_handle f"
    using px proxy_of_recorded [OF len] by (auto simp: is_create_handle_def is_modify_handle_def)
  obtain xs where r: "receive_all cfg (params f) rs h = Ok xs h"
    using receive_all_live [OF assms(1) u recorded_not_destroying [OF assms(2) made]] by blast
  have raw: "map raw xs = rs" using receive_all_raw [OF assms(1) r] by simp
  then have "length xs = length (params f)" using len by auto
  note hp = handle_proxy_of [OF cfg this, unfolded raw px]
  obtain q os v where d: "dev (proc_id f) (exec_args (params f) xs) w = ((q, os), v)" by (metis prod.collapse)
  let ?h = "if is_create_handle f then hm_insert p (usize_of (hd os)) h else h"
  have reg: "register_handle cfg f xs os h = Ok () ?h" using hp cfg by (simp add: register_handle_def)
  have "\<exists>h'. insert_args p (key_of (f, rs)) bs ?h = Ok () h'" for bs
  proof (cases "is_create_handle f")
    case True
    have "bt_get (table (hm_insert p v' h)) p = Some \<lparr>hvalue = v', hpayloads = Empty\<rparr>" for v'
      using h(1) by (simp add: hm_insert_def filled_def bt_simps)
    then show ?thesis using True by (cases "key_of (f, rs)") (simp_all add: insert_args_def Let_def)
  next
    case False
    then obtain hx where "bt_get (table h) p = Some hx" using p by (auto simp: live_def)
    then show ?thesis using record_succeeds [OF _ h] False by simp
  qed
  then have "\<exists>h'. record_call cfg f xs ?h = Ok () h'" using hp raw by (auto simp: record_call_def key_of_def)
  then show ?thesis using r d reg by (auto simp: call_def)
qed

lemma needed_succeeds:
  assumes "settled J" and "homogeneous J" and "self_contained [] J"
    and "list_all (call_ok cfg hooks) (map (snd \<circ> snd) J)" and "keys_apart (map (snd \<circ> snd) J)"
    and cfg: "opt_shadow_desc cfg" "phos cfg"
  shows "\<exists>w' h'. calls_run dev cfg (map (snd \<circ> snd) J) manager_new w = Ok w' h'"
  using assms(1-5)
proof (induction J rule: rev_induct)
  case (snoc e J)
  obtain p k f rs where e: "e = (p, k, f, rs)" by (metis prod.collapse)
  have sc: "self_contained [] J" "set (uses (zip (params f) rs)) \<subseteq> created J" "is_create_handle f \<or> p \<in> created J"
    using self_contained_snoc [of "[]" J p k f rs] snoc.prems(3) e by auto
  have settled: "settled J" using snoc.prems(1) by (auto simp: settled_def sorted_wrt_append)
  have hom: "homogeneous J" using snoc.prems(2) unfolding homogeneous_def set_append by blast
  have ok: "list_all (call_ok cfg hooks) (map (snd \<circ> snd) J)" using snoc.prems(4) by (simp add: comp_def)
  have apart: "keys_apart (map (snd \<circ> snd) J)" using snoc.prems(5) by (auto simp: keys_apart_def)
  note J = settled hom sc(1) ok apart
  obtain w1 h1 where run: "calls_run dev cfg (map (snd \<circ> snd) J) manager_new w = Ok w1 h1"
    using snoc.IH [OF J] by blast
  have live: "live h1 = created J" using live_created [OF run cfg(1) J(4,5)] settled_again [OF J(1)] by simp
  obtain T where T: "implements h1 T" "map untime T = map entry_bytes J"
    using calls_run_table(1) [OF run cfg J(4)] settled_again [OF J(1)] by auto
  have last: "list_all2 (raw_ok cfg) (params f) rs" "HookFn_accepted f" "proxy_of (zip (params f) rs) = Some p" "key_of (f, rs) = k"
    using snoc.prems(1,4) unfolding settled_def e by (simp_all add: call_ok_def)
  have hom': "homogeneous (J @ [(p, key_of (f, rs), f, rs)])" using snoc.prems(2) e last(4) by simp
  have "\<exists>x h'. call dev cfg f rs h1 w1 = Ok x h'"
    by (rule call_succeeds [OF last(1-3) sc(2) [folded live] sc(3) [folded live] cfg(1) calls_run_table(2) [OF run cfg J(4)] T hom'])
  then obtain x h' where "call dev cfg f rs h1 w1 = Ok x h'" by (elim exE)
  then show ?case using run e by (cases x) (simp add: calls_run_append comp_def)
qed simp

section \<open>Any image comes to an end\<close>

text \<open>
  Whatever the image holds, a step of the thread that reads it returns or panics, and moves
  forward in the image only.
\<close>

definition forward :: "(Receiver, Sender, 'w) server \<Rightarrow> (Receiver, Sender, 'w) server \<Rightarrow> bool" where
  "forward sv sv' \<longleftrightarrow> sender sv' = SBlackHole \<and> (\<exists>c c'. receiver sv = RRestoreVec c \<and> receiver sv' = RRestoreVec c' \<and>
     vec c' = vec c \<and> pos c \<le> pos c' \<and> pos c' \<le> length (vec c))"

definition tame :: "('a, (Receiver, Sender, 'w) server) io \<Rightarrow> (Receiver, Sender, 'w) server \<Rightarrow> bool" where
  "tame m sv = (case m of Returns x sv' \<Rightarrow> forward sv sv' | Panics _ \<Rightarrow> True | _ \<Rightarrow> False)"

lemma tame_simps [simp]: "tame (Returns x sv') sv = forward sv sv'" "tame (Panics msg) sv"
  by (simp_all add: tame_def)

lemma tame_world: "tame m (sv\<lparr>world := w\<rparr>) = tame m sv"
  by (cases m) (simp_all add: tame_def forward_def)

lemma tame_bind:
  assumes "tame m sv" and "\<And>x sv'. m = Returns x sv' \<Longrightarrow> forward sv sv' \<Longrightarrow> tame (f x sv') sv'"
  shows "tame (io_bind m f) sv"
proof (cases m)
  case (Returns x sv')
  then have fw: "forward sv sv'" and t: "tame (f x sv') sv'" using assms by (auto simp: tame_def)
  have "forward sv s" if "forward sv' s" for s using fw that by (auto simp: forward_def)
  then show ?thesis using Returns t by (auto simp: tame_def split: io.splits)
qed (use assms(1) in \<open>auto simp: tame_def\<close>)

definition at_image :: "(Receiver, Sender, 'w) server \<Rightarrow> bool" where
  "at_image sv \<longleftrightarrow> sender sv = SBlackHole \<and> is_image (receiver sv)"

lemma at_image_forward: "at_image sv \<Longrightarrow> forward sv sv" "forward sv sv' \<Longrightarrow> at_image sv'"
  unfolding at_image_def forward_def by (cases "receiver sv"; auto)+

lemma tame_get: "at_image sv \<Longrightarrow> tame (srecv (Receiver_get n) sv) sv"
  by (cases "receiver sv")
    (auto simp: at_image_def srecv_def RestoreVec_get_bytes_def forward_def split: if_splits)

lemma tame_slice: "at_image sv \<Longrightarrow> tame (srecv (recv_slice Receiver_get n) sv) sv"
  by (cases "receiver sv")
    (auto simp: at_image_def srecv_def recv_slice_def RestoreVec_get_bytes_def forward_def split: if_splits)

lemma tame_resources: "at_image sv \<Longrightarrow> tame (on_resources e sv) sv"
  using at_image_forward(1) by (cases e) (auto simp: on_resources_def forward_def)

lemma tame_param: "at_image sv \<Longrightarrow> tame (recv_param Receiver_get cfg k sv) sv"
  by (cases k)
    (auto simp: got_def intro!: tame_bind tame_get tame_slice tame_resources at_image_forward dest: at_image_forward(2))

lemma tame_params: "at_image sv \<Longrightarrow> tame (recv_params Receiver_get cfg ks sv) sv"
proof (induction ks arbitrary: sv)
  case (Cons k ks)
  show ?case
    unfolding recv_params.simps
    by (intro tame_bind tame_param Cons) (auto intro: at_image_forward dest: at_image_forward(2))
qed (simp add: at_image_forward)

lemma tame_send:
  assumes "at_image sv"
  shows "tame (ssend (Sender_put bs) sv) sv" and "tame (ssend (send_slice Sender_put n bs) sv) sv"
    and "tame (ssend Sender_flush sv) sv"
  using assms at_image_forward(1) [OF assms]
  by (auto simp: at_image_def ssend_def send_slice_def BlackHole_put_bytes_def forward_def)

lemma tame_output: "at_image sv \<Longrightarrow> tame (send_output Sender_put env outs k x sv) sv"
  by (cases "(Sender_put, env, outs, k, x, sv)" rule: send_output.cases) (auto intro: tame_send)

lemma tame_outputs: "at_image sv \<Longrightarrow> tame (send_outputs Sender_put env outs ps sv) sv"
proof (induction ps arbitrary: sv outs)
  case (Cons p ps)
  obtain k x where "p = (k, x)" by fastforce
  then show ?case using Cons by (auto intro!: tame_bind tame_output dest: at_image_forward(2))
qed (simp add: at_image_forward)

lemma tame_exe:
  assumes "at_image sv"
  shows "tame (exe Receiver_get Sender_put Sender_flush dev cfg f sv) sv"
  unfolding exe_def
proof (rule tame_bind [OF tame_params [OF assms]])
  fix xs sv1
  assume "forward sv sv1"
  then have at1: "at_image sv1" by (rule at_image_forward)
  obtain q os v where d: "dev (proc_id f) (exec_args (params f) xs) (world sv1) = ((q, os), v)" by (metis prod.collapse)
  let ?sv = "sv1\<lparr>world := v\<rparr>"
  have at: "at_image ?sv" using at1 by (simp add: at_image_def)

  have "tame (io_bind (on_resources (register_handle cfg f xs os (resources sv1)) ?sv) (\<lambda>_ sv.
      io_bind (on_resources (record_call cfg f xs (resources sv)) sv) (\<lambda>_ sv.
        if is_create_handle f \<and> opt_shadow_desc cfg then Returns () sv
        else if is_async_api f \<and> opt_async_api cfg then Returns () sv
        else io_bind (send_outputs Sender_put (inputs (params f) (map raw xs)) [] (zip (filter is_host_output (params f)) os) sv) (\<lambda>_ sv.
             io_bind (ssend (Sender_put q) sv) (\<lambda>_ sv. ssend Sender_flush sv))))) ?sv"
    using at by (auto intro!: tame_bind tame_resources tame_outputs tame_send at_image_forward dest: at_image_forward(2))
  then show "tame (let ((res, outs), w) = dev (proc_id f) (exec_args (params f) xs) (world sv1)
      in io_bind (on_resources (register_handle cfg f xs outs (resources sv1)) (sv1\<lparr>world := w\<rparr>)) (\<lambda>_ sv.
         io_bind (on_resources (record_call cfg f xs (resources sv)) sv) (\<lambda>_ sv.
           if is_create_handle f \<and> opt_shadow_desc cfg then Returns () sv
           else if is_async_api f \<and> opt_async_api cfg then Returns () sv
           else io_bind (send_outputs Sender_put (inputs (params f) (map raw xs)) [] (zip (filter is_host_output (params f)) outs) sv) (\<lambda>_ sv.
                io_bind (ssend (Sender_put res) sv) (\<lambda>_ sv. ssend Sender_flush sv))))) sv1"
    using d by (simp add: tame_world)
qed

text \<open>A step serves a request of at least four bytes, or it is the last one.\<close>

definition replay_left :: "'w thread \<Rightarrow> nat" where
  "replay_left th = length (receiver_content (receiver (server_state th)))"

lemma replay_progress:
  assumes at: "at_image (server_state th)" and ch: "channels th \<noteq> None"
  obtains (stop) o' fs' where "worker_step env (th, fs) = (o', fs')" and "o' \<noteq> Waiting"
      and "\<And>th'. o' = Continue th' \<Longrightarrow> channels th' = None"
    | (go) th' where "worker_step env (th, fs) = (Continue th', fs)" and "at_image (server_state th')"
      and "channels th' \<noteq> None" and "replay_left th' + 4 \<le> replay_left th"
proof -
  let ?sv = "server_state th"
  obtain c where c: "receiver ?sv = RRestoreVec c" "pos c \<le> length (vec c)" and bh: "sender ?sv = SBlackHole"
    using at by (cases "receiver ?sv") (auto simp: at_image_def)
  obtain s r where sr: "channels th = Some (s, r)" using ch by auto
  have ended: "end_restore env s r th' \<noteq> Waiting \<and> (\<forall>t. end_restore env s r th' = Continue t \<longrightarrow> channels t = None)" for th'
    by (auto simp: end_restore_def Let_def split: Receiver.splits option.splits if_splits)
  show thesis
  proof (cases "length (vec c) < pos c + 4")
    case True
    then have "serve_turn env ?sv = Errs RestoreEof (?sv\<lparr>receiver := RRestoreVec c\<rparr>)"
      using c by (simp add: serve_turn_def server_turn_def receive_request_def RestoreVec_get_bytes_def)
    then show thesis using stop ended sr by (simp add: worker_step_def)
  next
    case False
    let ?c = "c\<lparr>pos := pos c + 4\<rparr>" and ?n = "i32_of (take 4 (drop (pos c) (vec c)))"
    let ?sv1 = "?sv\<lparr>receiver := RRestoreVec ?c\<rparr>"
    have rq: "receive_request Receiver_get ?sv = Returns ?n ?sv1"
      using False c by (simp add: receive_request_def RestoreVec_get_bytes_def)
    have at1: "at_image ?sv1" using bh False by (simp add: at_image_def)
    let ?d = "dispatch Receiver_get Sender_put Sender_flush (library env) (conf env) (hooks_table env) ?n ?sv1"
    have "tame ?d ?sv1" unfolding dispatch_def using tame_exe [OF at1] by (simp split: option.splits)
    then consider (ret) sv2 where "?d = Returns () sv2" "forward ?sv1 sv2" | (pan) m where "?d = Panics m"
      by (cases ?d) (auto simp: tame_def)
    then show thesis
    proof cases
      case ret
      show thesis
      proof (cases "?n = -1")
        case True
        then show thesis using stop rq by (simp add: worker_step_def serve_turn_def server_turn_def)
      next
        case ne: False
        have "replay_left (th\<lparr>server_state := sv2\<rparr>) + 4 \<le> replay_left th"
          using ret(2) c(1) False by (auto simp: replay_left_def forward_def)
        then show thesis
          using go [of "th\<lparr>server_state := sv2\<rparr>"] ret rq ne ch at_image_forward(2) [OF ret(2)]
          by (simp add: worker_step_def serve_turn_def server_turn_def)
      qed
    next
      case pan
      then show thesis using stop rq by (cases "?n = -1") (simp_all add: worker_step_def serve_turn_def server_turn_def)
    qed
  qed
qed

section \<open>Properties\<close>

text \<open>
  C16. Restoring never gets stuck: for every image, well formed or not, every library and every
  table of functions, the thread that replays it leaves the image after at most one iteration
  for every four bytes and one more: it is back on its channels, it has stopped, or it has
  panicked, and it never waits for input.
\<close>

theorem replay_terminates:
  assumes "begin_handle_restore pin fs th0 = Ok () th"
  shows "\<exists>n \<le> length (handles_bin fs) div 4 + 1. \<exists>o' gs'. worker_steps env n (th, gs) = (o', gs') \<and>
    o' \<noteq> Waiting \<and> (\<forall>th'. o' = Continue th' \<longrightarrow> channels th' = None)"
proof -
  have steps: "\<exists>n \<le> replay_left th div 4 + 1. \<exists>o' gs'. worker_steps env n (th, gs) = (o', gs') \<and>
      o' \<noteq> Waiting \<and> (\<forall>th'. o' = Continue th' \<longrightarrow> channels th' = None)"
    if "at_image (server_state th)" "channels th \<noteq> None" for th gs
    using that
  proof (induction "replay_left th" arbitrary: th rule: less_induct)
    case less
    from less.prems show ?case
    proof (cases rule: replay_progress [where env = env and fs = gs])
      case (stop o' fs')
      then have "worker_steps env 1 (th, gs) = (o', fs')" by (cases o') simp_all
      then show ?thesis using stop by (intro exI [of _ "1 :: nat"]) auto
    next
      case (go th')
      then obtain n o' gs' where n: "n \<le> replay_left th' div 4 + 1" "worker_steps env n (th', gs) = (o', gs')"
        "o' \<noteq> Waiting" "\<forall>t. o' = Continue t \<longrightarrow> channels t = None"
        using less.hyps [of th'] by auto
      have "Suc n \<le> replay_left th div 4 + 1" using n(1) go(4) by linarith
      moreover have "worker_steps env (Suc n) (th, gs) = (o', gs')" using go(1) n(2) by simp
      ultimately show ?thesis using n(3,4) by blast
    qed
  qed
  have "at_image (server_state th)" "channels th \<noteq> None" "replay_left th = length (handles_bin fs)"
    using assms by (auto simp: begin_handle_restore_def at_image_def replay_left_def RestoreVec_new_def exec_simps
        split: if_splits option.splits)
  then show ?thesis using steps [of th gs] by simp
qed

text \<open>
  C1. A checkpoint can be restored. Let a server have served any sequence of calls since it
  started, and dump its handles; a new server, whose library may answer differently, is set to
  restore from the files. Then the loop serves exactly the calls that are still needed, a
  subsequence of the original ones in their order, all of them succeed, and the thread is back
  on its channels, with the state that the needed calls lead to: the same proxies are live as
  before the checkpoint, and another checkpoint would write the same image. It is assumed that
  every handle that a needed call uses is created by an earlier needed one, and that the keys of
  creating and of configuring functions differ.
\<close>

theorem checkpoint_replay:
  assumes cfg: "opt_shadow_desc (conf env)" "phos (conf env)" "\<not> attached env" and lib: "library_ok env"
    and run: "calls_run dev (conf env) cs manager_new w0 = Ok w1 (resources (server_state th))"
    and ok: "list_all (call_ok (conf env) (hooks_table env)) cs"
    and apart: "keys_apart cs" and uses: "self_contained [] (call_journal cs)"
    and new: "resources (server_state th0) = manager_new"
    and start: "begin_handle_restore pin (dump_handles th) th0 = Ok () th1"
  shows "subseq (needed cs) cs \<and> (\<exists>th2. worker_steps env (length (needed cs) + 1) (th1, fs) = (Continue th2, fs) \<and>
    calls_run (library env) (conf env) (needed cs) manager_new (world (server_state th1)) =
      Ok (world (server_state th2)) (resources (server_state th2)) \<and>
    receiver (server_state th2) = receiver (server_state th0) \<and> sender (server_state th2) = sender (server_state th0) \<and>
    channels th2 = None \<and> live (resources (server_state th2)) = live (resources (server_state th)) \<and>
    handles_bin (dump_handles th2) = handles_bin (dump_handles th))"
proof -
  let ?J = "call_journal cs" and ?h = "resources (server_state th)" and ?w = "world (server_state th1)"
  have sub: "\<And>c. c \<in> set (needed cs) \<Longrightarrow> c \<in> set cs" using needed_subset by blast
  have ok': "list_all (call_ok (conf env) (hooks_table env)) (needed cs)" using ok sub by (auto simp: list_all_iff)
  have apart': "keys_apart (needed cs)" using apart sub unfolding keys_apart_def by blast
  obtain T where T: "implements ?h T" "map untime T = map entry_bytes ?J" using calls_run_table(1) [OF run cfg(1,2) ok] by blast
  have "\<exists>w2 h2. calls_run (library env) (conf env) (needed cs) manager_new ?w = Ok w2 h2"
    unfolding needed_def
    by (rule needed_succeeds [OF settled_journal homogeneous_journal [OF T] uses
          ok' [unfolded needed_def] apart' [unfolded needed_def] cfg(1,2)])
  then obtain w2 h2 where again: "calls_run (library env) (conf env) (needed cs) manager_new ?w = Ok w2 h2" by (elim exE)
  have dump: "handles_bin (dump_handles th) = images (needed cs)"
    using serialize_needed [OF run cfg(1,2) ok] by (simp add: dump_handles_def images_def)
  have th1: "replaying th1 (images (needed cs))" "state_of th1 manager_new ?w"
    "channels th1 = Some (sender (server_state th0), receiver (server_state th0))"
    using start new dump
    by (auto simp: begin_handle_restore_def replaying_def state_of_def RestoreVec_new_def exec_simps split: if_splits option.splits)
  obtain th' where th': "worker_steps env (length (needed cs)) (th1, fs) = (Continue th', fs)" "replaying th' []"
    "state_of th' h2 w2" "same_thread th1 th'"
    using replay_calls(1) [OF th1(1,2) ok' lib again] by blast
  have ch: "channels th' = Some (sender (server_state th0), receiver (server_state th0))"
    using th'(4) th1(3) by (simp add: same_thread_def)
  define th2 where "th2 = th'\<lparr>server_state := (server_state th')\<lparr>sender := sender (server_state th0),
    receiver := receiver (server_state th0)\<rparr>, channels := None\<rparr>"
  have "worker_steps env (length (needed cs) + 1) (th1, fs) = (Continue th2, fs)"
    unfolding worker_steps_add using th'(1) replay_end [OF th'(2) ch] cfg(3) by (simp add: end_restore_def th2_def)
  moreover have st: "resources (server_state th2) = h2" "world (server_state th2) = w2"
    using th'(3) by (simp_all add: th2_def state_of_def)
  moreover have "live h2 = live ?h"
    using live_created [OF again cfg(1) ok' apart'] live_created [OF run cfg(1) ok apart] settled_again [OF settled_journal, of cs]
    by (simp add: needed_def)
  moreover have "serialize h2 = serialize ?h"
    using serialize_needed [OF again cfg(1,2) ok'] serialize_needed [OF run cfg(1,2) ok] by (simp add: needed_idem)
  ultimately show ?thesis
    using needed_subseq again by (intro conjI exI [of _ th2]) (simp_all add: th2_def dump_handles_def)
qed

text \<open>Streams and events, as \<open>cudasys/src/hooks/cudart.rs\<close> declares them.\<close>

definition stream_create :: HookFn where
  "stream_create = \<lparr>proc_id = 167, async_attr = None, params = [OutputHandle None, InputValue 4, InputValue 4],
     result_size = 4, async_return = False\<rparr>"

definition event_create :: HookFn where
  "event_create = \<lparr>proc_id = 201, async_attr = None, params = [OutputHandle (Some (\<lambda>_. 201)), InputValue 4],
     result_size = 4, async_return = False\<rparr>"

definition event_record :: HookFn where
  "event_record = \<lparr>proc_id = 205, async_attr = None,
     params = [InputHandle Op_Modify (Some (\<lambda>_. 205)), InputHandle Op_Use None], result_size = 4, async_return = False\<rparr>"

definition event_destroy :: HookFn where
  "event_destroy = \<lparr>proc_id = 202, async_attr = None, params = [InputHandle Op_Destroy None], result_size = 4, async_return = False\<rparr>"

definition event_env :: "nat worker_env" where
  "event_env = \<lparr>library = (\<lambda>n vs w. (([0, 0, 0, 0], if n = 167 \<or> n = 201 then [usize_bytes (of_nat w)] else []), w + 1)),
     conf = \<lparr>opt_shadow_desc = True, opt_async_api = True, phos = True\<rparr>,
     hooks_table = [167 \<mapsto> stream_create, 201 \<mapsto> event_create, 205 \<mapsto> event_record, 202 \<mapsto> event_destroy],
     ckpt_mode = Kill, detach_dump = (\<lambda>_. None), attached = False, finish_restore = Some\<rparr>"

definition event_calls :: "served_call list" where
  "event_calls = [(stream_create, [usize_bytes 1, [0, 0, 0, 0], [0, 0, 0, 0]]), (event_create, [usize_bytes 2, [0, 0, 0, 0]]),
     (event_record, [usize_bytes 2, usize_bytes 0]), (event_create, [usize_bytes 3, [0, 0, 0, 0]]),
     (event_record, [usize_bytes 2, usize_bytes 1]), (event_destroy, [usize_bytes 3])]"

definition event_thread :: "manager \<Rightarrow> nat thread" where
  "event_thread h = \<lparr>server_state = \<lparr>receiver = RShm (start ring50), sender = SShm (start ring50), resources = h, world = 0\<rparr>,
     is_pinned = False, channels = None\<rparr>"

lemmas event_fns = stream_create_def event_create_def event_record_def event_destroy_def

lemma event_library: "library_ok event_env"
proof -
  have "outs_ok e [] (zip (filter is_host_output (params f)) outs)"
    if "hooks_table event_env (proc_id f) = Some f" "replies (conf event_env) f" for f e outs
    using that by (auto simp: event_env_def event_fns replies_def is_create_handle_def split: if_splits)
  then show ?thesis by (auto simp: library_ok_def)
qed

lemma event_calls_ok: "list_all (call_ok (conf event_env) (hooks_table event_env)) event_calls"
  by (simp add: event_calls_def event_env_def event_fns call_ok_def HookFn_accepted_def is_async_api_def is_create_handle_def)

theorem checkpoint_replay_witness:
  "\<exists>h th1 th2. calls_run (library event_env) (conf event_env) event_calls manager_new 0 = Ok 6 h \<and>
    begin_handle_restore Some (dump_handles (event_thread h)) (event_thread manager_new) = Ok () th1 \<and>
    worker_steps event_env 4 (th1, []) = (Continue th2, []) \<and> live (resources (server_state th2)) = live h"
proof -
  have "case calls_run (library event_env) (conf event_env) event_calls manager_new 0 of Ok w h \<Rightarrow> w = 6 | _ \<Rightarrow> False"
    by code_simp
  then obtain h where run: "calls_run (library event_env) (conf event_env) event_calls manager_new 0 = Ok 6 h"
    by (auto split: exec.splits)
  then have run': "calls_run (library event_env) (conf event_env) event_calls manager_new 0 =
      Ok 6 (resources (server_state (event_thread h)))" by (simp add: event_thread_def)
  have cfg: "opt_shadow_desc (conf event_env)" "phos (conf event_env)" "\<not> attached event_env" by (simp_all add: event_env_def)
  have apart: "keys_apart event_calls" by code_simp
  have sc: "self_contained [] (call_journal event_calls)" by code_simp
  have n: "length (needed event_calls) = 3" by code_simp
  have new: "resources (server_state (event_thread manager_new)) = manager_new" by (simp add: event_thread_def)
  obtain th1 where start: "begin_handle_restore Some (dump_handles (event_thread h)) (event_thread manager_new) = Ok () th1"
    by (simp add: begin_handle_restore_def dump_handles_def event_thread_def)
  have h: "resources (server_state (event_thread h)) = h" by (simp add: event_thread_def)
  show ?thesis
    using checkpoint_replay [OF cfg event_library run' event_calls_ok apart sc new start, of "[]"] run start
    unfolding n h by auto
qed

theorem replay_terminates_witness:
  "\<exists>th. begin_handle_restore Some \<lparr>handles_bin = [7, 0, 0, 0, 1], pin_memory_bin = [1]\<rparr> (event_thread manager_new) = Ok () th \<and>
    (\<exists>n \<le> 2. \<exists>o' gs'. worker_steps event_env n (th, []) = (o', gs') \<and> o' \<noteq> Waiting)"
proof -
  obtain th where th: "begin_handle_restore Some \<lparr>handles_bin = [7, 0, 0, 0, 1], pin_memory_bin = [1]\<rparr> (event_thread manager_new) = Ok () th"
    by (simp add: begin_handle_restore_def event_thread_def)
  have "length (handles_bin \<lparr>handles_bin = [7, 0, 0, 0, 1], pin_memory_bin = [1]\<rparr>) div 4 + 1 = 2" by simp
  then show ?thesis using replay_terminates [OF th, of event_env "[]"] th by metis
qed

end
