(* ===== verification/Kernels.thy ===== *)
theory Kernels
  imports Prelude BTree "HOL-Library.Product_Lexorder" "HOL-Library.List_Lexorder"
begin

text \<open>
  The kernel manager of the server (\<open>server/src/phos/kernel.rs\<close>). A client never sees a module
  of the driver: it gets the hash of the image it loaded, and the manager of its server process
  keeps the image and the module under that hash. A checkpoint holds the images, so that another
  process can load them again; a standby process loads the images of several clients ahead of
  time. The driver, the hash function and the encoding of a checkpoint are parameters.
\<close>

section \<open>The manager\<close>

text \<open>
  \<open>CUresult\<close> is its number, 0 is success. \<open>initContext\<close> is \<open>initialize_context\<close>, which panics
  when the runtime refuses or takes too long.
\<close>

record 'w module_api =
  hash64 :: "u8 list \<Rightarrow> u64"
  cuModuleLoadData :: "u8 list \<Rightarrow> 'w \<Rightarrow> (int \<times> u64) \<times> 'w"
  cuModuleGetFunction :: "u64 \<Rightarrow> u8 list \<Rightarrow> 'w \<Rightarrow> (int \<times> u64) \<times> 'w"
  initContext :: "'w \<Rightarrow> 'w option"

record Module =
  mod_image :: "u8 list"
  mod_hmod :: u64

type_synonym Function = "u64 \<times> u8 list"

record KernelManager =
  all_modules :: "(u64, Module) btree"
  active_modules :: "u64 list"
  known_functions :: "(Function, unit) btree"

record KernelCheckpoint =
  ck_active :: "u64 list"
  ck_functions :: "Function list"
  ck_modules :: "(u64 \<times> u8 list) list"

definition KernelManager_new :: KernelManager where
  "KernelManager_new = \<lparr>all_modules = [], active_modules = [], known_functions = []\<rparr>"

text \<open>
  A fallible operation returns \<open>Inl\<close> its result or \<open>Inr\<close> the error of the driver; the manager and
  the driver's state are kept in both cases.
\<close>

type_synonym ('a, 'w) kernel_op = "KernelManager \<times> 'w \<Rightarrow> ('a + int, KernelManager \<times> 'w) exec"

definition register_module :: "'w module_api \<Rightarrow> u64 \<Rightarrow> u8 list \<Rightarrow> (unit, 'w) kernel_op" where
  "register_module api h img = (\<lambda>(m, w).
     case bt_get (all_modules m) h of
       Some _ \<Rightarrow> Ok (Inl ()) (m, w)
     | None \<Rightarrow>
         (let ((r, hm), w) = cuModuleLoadData api img w
          in if r \<noteq> 0 then Ok (Inr r) (m, w)
             else Ok (Inl ()) (m\<lparr>all_modules := bt_insert h \<lparr>mod_image = img, mod_hmod = hm\<rparr> (all_modules m)\<rparr>, w)))"

definition load_module :: "'w module_api \<Rightarrow> u8 list \<Rightarrow> (u64, 'w) kernel_op" where
  "load_module api img s =
     exec_bind (register_module api (hash64 api img) img s) (\<lambda>r (m, w).
       case r of
         Inr e \<Rightarrow> Ok (Inr e) (m, w)
       | Inl _ \<Rightarrow> Ok (Inl (hash64 api img)) (m\<lparr>active_modules := active_modules m @ [hash64 api img]\<rparr>, w))"

text \<open>The loop of \<open>register_modules\<close>, and the function itself.\<close>

fun register_each :: "'w module_api \<Rightarrow> (u64 \<times> u8 list) list \<Rightarrow> (unit, 'w) kernel_op" where
  "register_each api [] s = Ok (Inl ()) s"
| "register_each api ((h, img) # ms) s =
     exec_bind (register_module api h img s) (\<lambda>r s.
       case r of Inr e \<Rightarrow> Ok (Inr e) s | Inl _ \<Rightarrow> register_each api ms s)"

definition register_modules :: "'w module_api \<Rightarrow> (u64 \<times> u8 list) list \<Rightarrow> (unit, 'w) kernel_op" where
  "register_modules api ms = (\<lambda>(m, w).
     if ms = [] then Ok (Inl ()) (m, w)
     else if all_modules m = []
     then (case initContext api w of
             None \<Rightarrow> Abort ''initialize_context''
           | Some w \<Rightarrow> register_each api ms (m, w))
     else register_each api ms (m, w))"

text \<open>
  A checkpoint has each active module once, in the order of the hashes: the pairs are collected
  into a map. An active module that is not registered is a panic.
\<close>

fun collect_images :: "(u64, Module) btree \<Rightarrow> u64 list \<Rightarrow> (u64, u8 list) btree \<Rightarrow> (u64, u8 list) btree option" where
  "collect_images al [] acc = Some acc"
| "collect_images al (h # hs) acc =
     (case bt_get al h of None \<Rightarrow> None | Some md \<Rightarrow> collect_images al hs (bt_insert h (mod_image md) acc))"

definition kernel_checkpoint :: "KernelManager \<Rightarrow> KernelCheckpoint option" where
  "kernel_checkpoint m =
     map_option (\<lambda>ms. \<lparr>ck_active = active_modules m, ck_functions = map fst (known_functions m), ck_modules = ms\<rparr>)
       (collect_images (all_modules m) (active_modules m) [])"

definition kernel_manager_restore :: "'w module_api \<Rightarrow> KernelCheckpoint \<Rightarrow> (unit, 'w) kernel_op" where
  "kernel_manager_restore api c = (\<lambda>(m, w).
     if all_modules m \<noteq> [] then Abort ''kernel modules must be restored into an empty manager''
     else exec_bind (register_modules api (ck_modules c) (m\<lparr>active_modules := [], known_functions := []\<rparr>, w)) (\<lambda>r (m, w).
       case r of Inr e \<Rightarrow> Ok (Inr e) (m, w) | Inl _ \<Rightarrow> Ok (Inl ()) (m\<lparr>active_modules := ck_active c\<rparr>, w)))"

text \<open>Looking a function up makes the driver load its module; the result is not looked at.\<close>

fun trigger_module_loads :: "'w module_api \<Rightarrow> Function list \<Rightarrow> KernelManager \<Rightarrow> 'w \<Rightarrow> 'w" where
  "trigger_module_loads api [] m w = w"
| "trigger_module_loads api ((h, name) # fs) m w =
     (case bt_get (all_modules m) h of
        None \<Rightarrow> trigger_module_loads api fs m w
      | Some md \<Rightarrow> trigger_module_loads api fs m (snd (cuModuleGetFunction api (mod_hmod md) name w)))"

section \<open>The entry points\<close>

text \<open>
  The handlers of the two calls of the client. They answer with a code, 0 for success, and what
  they store through their first argument.
\<close>

definition cu_module_load_data :: "'w module_api \<Rightarrow> u8 list \<Rightarrow> KernelManager \<times> 'w \<Rightarrow>
    (int \<times> u64 option, KernelManager \<times> 'w) exec" where
  "cu_module_load_data api img s =
     exec_bind (load_module api img s) (\<lambda>r s.
       case r of Inr e \<Rightarrow> Ok (e, None) s | Inl h \<Rightarrow> Ok (0, Some h) s)"

definition cu_module_get_function :: "'w module_api \<Rightarrow> u64 \<Rightarrow> u8 list \<Rightarrow> KernelManager \<times> 'w \<Rightarrow>
    (int \<times> u64, KernelManager \<times> 'w) exec" where
  "cu_module_get_function api h name = (\<lambda>(m, w).
     case bt_get (all_modules m) h of
       None \<Rightarrow> Abort ''called Option::unwrap() on a None value''
     | Some md \<Rightarrow>
         (let ((r, hfunc), w) = cuModuleGetFunction api (mod_hmod md) name w
          in Ok (r, hfunc) (if r = 0 then m\<lparr>known_functions := bt_insert (h, name) () (known_functions m)\<rparr> else m, w)))"

text \<open>
  The encoding is the one of \<open>bincode\<close>; \<open>decode_header\<close> reads a \<open>KernelCheckpointHeader\<close>, the first
  field only, from the same bytes.
\<close>

record codec =
  encode_checkpoint :: "KernelCheckpoint \<Rightarrow> u8 list"
  decode_checkpoint :: "u8 list \<Rightarrow> KernelCheckpoint option"
  decode_header :: "u8 list \<Rightarrow> u64 list option"

definition kernel_dump :: "codec \<Rightarrow> KernelManager \<Rightarrow> u8 list option" where
  "kernel_dump cd m = map_option (encode_checkpoint cd) (kernel_checkpoint m)"

definition kernel_restore :: "'w module_api \<Rightarrow> codec \<Rightarrow> u8 list \<Rightarrow> KernelManager \<times> 'w \<Rightarrow>
    (unit, KernelManager \<times> 'w) exec" where
  "kernel_restore api cd bs s =
     (case decode_checkpoint cd bs of
        None \<Rightarrow> Abort ''called Result::unwrap() on an Err value''
      | Some c \<Rightarrow>
          exec_bind (kernel_manager_restore api c s) (\<lambda>r s.
            case r of Inr e \<Rightarrow> Abort ''called Result::unwrap() on an Err value'' | Inl _ \<Rightarrow> Ok () s))"

definition kernel_standby :: "'w module_api \<Rightarrow> codec \<Rightarrow> u8 list \<Rightarrow> KernelManager \<times> 'w \<Rightarrow>
    (unit, KernelManager \<times> 'w) exec" where
  "kernel_standby api cd bs s =
     (case decode_checkpoint cd bs of
        None \<Rightarrow> Abort ''called Result::unwrap() on an Err value''
      | Some c \<Rightarrow>
          exec_bind (register_modules api (ck_modules c) s) (\<lambda>r (m, w).
            case r of
              Inr e \<Rightarrow> Abort ''called Result::unwrap() on an Err value''
            | Inl _ \<Rightarrow> Ok () (m, trigger_module_loads api (ck_functions c) m w)))"

definition kernel_attach_warm :: "codec \<Rightarrow> u8 list \<Rightarrow> KernelManager \<times> 'w \<Rightarrow> (unit, KernelManager \<times> 'w) exec" where
  "kernel_attach_warm cd bs = (\<lambda>(m, w).
     case decode_header cd bs of
       None \<Rightarrow> Abort ''called Result::unwrap() on an Err value''
     | Some hs \<Rightarrow> Ok () (m\<lparr>active_modules := hs, known_functions := []\<rparr>, w))"

definition get_all_images_size :: "KernelManager \<Rightarrow> u64" where
  "get_all_images_size m = sum_list (map (\<lambda>(_, md). of_nat (length (mod_image md))) (all_modules m))"

section \<open>The invariant\<close>

text \<open>
  The manager is well formed if its maps are sorted, every module is kept under the hash of its
  image, and the active modules are registered.
\<close>

definition hashed :: "'w module_api \<Rightarrow> (u64 \<times> u8 list) list \<Rightarrow> bool" where
  "hashed api ms \<longleftrightarrow> (\<forall>(h, img) \<in> set ms. h = hash64 api img)"

definition images_of :: "KernelManager \<Rightarrow> (u64 \<times> u8 list) list" where
  "images_of m = map (\<lambda>(h, md). (h, mod_image md)) (all_modules m)"

definition kernel_wf :: "'w module_api \<Rightarrow> KernelManager \<Rightarrow> bool" where
  "kernel_wf api m \<longleftrightarrow> bt_inv (all_modules m) \<and> bt_inv (known_functions m) \<and> hashed api (images_of m)"

definition active_ok :: "KernelManager \<Rightarrow> bool" where
  "active_ok m \<longleftrightarrow> (\<forall>h \<in> set (active_modules m). bt_get (all_modules m) h \<noteq> None)"

text \<open>What a client can reach of a manager: the image behind a hash.\<close>

definition image_at :: "KernelManager \<Rightarrow> u64 \<Rightarrow> u8 list option" where
  "image_at m h = map_option mod_image (bt_get (all_modules m) h)"

lemma image_at_new [simp]: "image_at KernelManager_new h = None"
  by (simp add: image_at_def KernelManager_new_def bt_get_def)

lemma image_at_images: "image_at m h = map_of (images_of m) h"
  by (simp add: image_at_def images_of_def bt_get_def map_of_map)

lemma image_at_None: "image_at m h = None \<longleftrightarrow> bt_get (all_modules m) h = None"
  by (simp add: image_at_def)

lemma active_ok_image: "active_ok m \<longleftrightarrow> (\<forall>h \<in> set (active_modules m). image_at m h \<noteq> None)"
  by (simp add: active_ok_def image_at_None)

lemma kernel_wf_new: "kernel_wf api KernelManager_new" "active_ok KernelManager_new"
  by (simp_all add: kernel_wf_def KernelManager_new_def bt_inv_def hashed_def images_of_def active_ok_def)

lemma image_at_update [simp]:
  "image_at (m\<lparr>active_modules := hs\<rparr>) h = image_at m h" "image_at (m\<lparr>known_functions := fs\<rparr>) h = image_at m h"
  by (simp_all add: image_at_def)

lemma kernel_wf_update [simp]:
  "kernel_wf api (m\<lparr>active_modules := hs\<rparr>) = kernel_wf api m"
  "kernel_wf api (m\<lparr>known_functions := []\<rparr>) \<longleftrightarrow> bt_inv (all_modules m) \<and> hashed api (images_of m)"
  by (auto simp: kernel_wf_def images_of_def bt_inv_def)

lemma hashed_map_of: "hashed api ms \<Longrightarrow> map_of ms h = Some img \<Longrightarrow> h = hash64 api img"
  by (auto simp: hashed_def dest: map_of_SomeD)

lemma wf_image_hash: "kernel_wf api m \<Longrightarrow> image_at m h = Some img \<Longrightarrow> h = hash64 api img"
  unfolding kernel_wf_def image_at_images using hashed_map_of by blast

lemma hashed_append [simp]: "hashed api (xs @ ys) \<longleftrightarrow> hashed api xs \<and> hashed api ys"
  by (auto simp: hashed_def)

section \<open>Registering\<close>

text \<open>A set of images that the driver accepts, whatever its state.\<close>

definition accepts :: "'w module_api \<Rightarrow> u8 list set \<Rightarrow> bool" where
  "accepts api imgs \<longleftrightarrow> (\<forall>w. initContext api w \<noteq> None) \<and>
     (\<forall>img \<in> imgs. \<forall>w. fst (fst (cuModuleLoadData api img w)) = 0)"

text \<open>What registering does to a manager: it adds an image where there was none.\<close>

definition extends :: "KernelManager \<Rightarrow> KernelManager \<Rightarrow> bool" where
  "extends m m' \<longleftrightarrow> active_modules m' = active_modules m \<and> known_functions m' = known_functions m \<and>
     (\<forall>h img. image_at m h = Some img \<longrightarrow> image_at m' h = Some img)"

definition adds :: "(u64 \<times> u8 list) list \<Rightarrow> KernelManager \<Rightarrow> KernelManager \<Rightarrow> bool" where
  "adds ms m m' \<longleftrightarrow> extends m m' \<and>
     (\<forall>h. image_at m' h = (case image_at m h of None \<Rightarrow> map_of ms h | Some img \<Rightarrow> Some img))"

lemma images_of_insert:
  assumes "bt_inv (all_modules m)" and "bt_get (all_modules m) h = None"
  shows "set (images_of (m\<lparr>all_modules := bt_insert h md (all_modules m)\<rparr>)) =
    insert (h, mod_image md) (set (images_of m))"
  using bt.entries_insert_set [OF assms, of md] by (simp add: images_of_def)

lemma register_module_wf:
  assumes "register_module api h img (m, w) = Ok r (m', w')" and "kernel_wf api m" and "h = hash64 api img"
  shows "kernel_wf api m'" and "extends m m'" and "r = Inl () \<Longrightarrow> adds [(h, img)] m m'"
proof -
  have inv: "bt_inv (all_modules m)" using assms(2) by (simp add: kernel_wf_def)
  note get = bt.get_insert [OF inv]
  show "kernel_wf api m'"
    using assms images_of_insert [OF inv, of h]
    by (auto simp: register_module_def kernel_wf_def Let_def hashed_def bt.inv_insert split: option.splits prod.splits if_splits)
  show "extends m m'" "r = Inl () \<Longrightarrow> adds [(h, img)] m m'"
    using assms(1) by (auto simp: register_module_def extends_def adds_def Let_def image_at_def get
        split: option.splits prod.splits if_splits)
qed

lemma extends_refl [simp]: "extends m m"
  by (simp add: extends_def)

lemma extends_trans: "extends m m1 \<Longrightarrow> extends m1 m2 \<Longrightarrow> extends m m2"
  by (simp add: extends_def)

lemma extends_active: "extends m m' \<Longrightarrow> active_ok m \<Longrightarrow> active_ok m'"
  by (fastforce simp: active_ok_image extends_def)

lemma adds_Nil: "adds [] m m"
  by (simp add: adds_def split: option.split)

lemma adds_append: "adds ms m m1 \<Longrightarrow> adds ns m1 m2 \<Longrightarrow> adds (ms @ ns) m m2"
  by (auto simp: adds_def map_add_def intro: extends_trans split: option.splits)

lemma register_module_total: "\<exists>r s'. register_module api h img s = Ok r s'"
  by (auto simp: register_module_def Let_def split: prod.splits option.splits)

lemma register_module_accepted:
  assumes "accepts api imgs" and "img \<in> imgs"
  shows "\<exists>s'. register_module api h img s = Ok (Inl ()) s'"
proof -
  have "fst (fst (cuModuleLoadData api img (snd s))) = 0" using assms by (simp add: accepts_def)
  then show ?thesis
    by (cases "cuModuleLoadData api img (snd s)")
      (auto simp: register_module_def Let_def split: prod.splits option.splits)
qed

lemma register_each_adds:
  assumes "register_each api ms (m, w) = Ok (Inl ()) (m', w')" and "kernel_wf api m" and "hashed api ms"
  shows "kernel_wf api m' \<and> adds ms m m'"
  using assms
proof (induction ms arbitrary: m w)
  case (Cons e ms)
  obtain h img where e: "e = (h, img)" by fastforce
  have h: "h = hash64 api img" and ms: "hashed api ms" using Cons.prems(3) e by (auto simp: hashed_def)
  obtain r m1 w1 where 1: "register_module api h img (m, w) = Ok r (m1, w1)"
    using register_module_total [of api h img "(m, w)"] by auto
  with Cons.prems(1) e have r: "r = Inl ()" and 2: "register_each api ms (m1, w1) = Ok (Inl ()) (m', w')"
    by (auto split: sum.splits)
  note wf = register_module_wf [OF 1 Cons.prems(2) h]
  from Cons.IH [OF 2 wf(1) ms] wf(3) [OF r] show ?case using adds_append [of "[e]"] e by fastforce
qed (simp add: adds_Nil)

lemma register_each_accepted:
  "accepts api imgs \<Longrightarrow> snd ` set ms \<subseteq> imgs \<Longrightarrow> \<exists>s'. register_each api ms s = Ok (Inl ()) s'"
proof (induction ms arbitrary: s)
  case (Cons e ms)
  from Cons.prems register_module_accepted [of api imgs "snd e" "fst e" s]
  obtain s1 where "register_module api (fst e) (snd e) s = Ok (Inl ()) s1" by auto
  with Cons.IH [of s1] Cons.prems show ?case by (cases e) auto
qed simp

lemma register_modules_adds:
  assumes "register_modules api ms (m, w) = Ok (Inl ()) (m', w')" and "kernel_wf api m" and "hashed api ms"
  shows "kernel_wf api m' \<and> adds ms m m'"
  using assms register_each_adds [OF _ assms(2,3)]
  by (auto simp: register_modules_def adds_Nil split: if_splits option.splits)

lemma register_modules_accepted:
  assumes "accepts api imgs" and "snd ` set ms \<subseteq> imgs"
  shows "\<exists>s'. register_modules api ms s = Ok (Inl ()) s'"
proof -
  have "initContext api (snd s) \<noteq> None" using assms(1) by (simp add: accepts_def)
  then show ?thesis
    using register_each_accepted [OF assms] by (cases s) (auto simp: register_modules_def)
qed

section \<open>Checkpoints\<close>

lemma collect_images_spec:
  assumes "bt_inv acc" and "\<forall>h \<in> set hs. bt_get al h \<noteq> None"
  shows "\<exists>ms. collect_images al hs acc = Some ms \<and> bt_inv ms \<and>
    (\<forall>h. map_of ms h = (if h \<in> set hs then map_option mod_image (bt_get al h) else map_of acc h))"
  using assms
proof (induction hs arbitrary: acc)
  case (Cons h hs)
  then obtain md where md: "bt_get al h = Some md" by auto
  have acc: "bt_inv (bt_insert h (mod_image md) acc)" by (rule bt.inv_insert [OF Cons.prems(1)])
  from Cons.IH [OF acc] Cons.prems(2) obtain ms where
    "collect_images al hs (bt_insert h (mod_image md) acc) = Some ms" "bt_inv ms"
    "\<forall>j. map_of ms j = (if j \<in> set hs then map_option mod_image (bt_get al j) else map_of (bt_insert h (mod_image md) acc) j)"
    by auto
  then show ?case using md by (auto simp: bt_get_insert_aux)
qed simp

lemma collect_images_None:
  "h \<in> set hs \<Longrightarrow> bt_get al h = None \<Longrightarrow> collect_images al hs acc = None"
  by (induction hs arbitrary: acc) (auto split: option.splits)

text \<open>The modules of a checkpoint are determined by the images that the active modules have.\<close>

lemma kernel_checkpoint_spec:
  assumes "active_ok m"
  shows "\<exists>ms. kernel_checkpoint m = Some \<lparr>ck_active = active_modules m, ck_functions = map fst (known_functions m), ck_modules = ms\<rparr> \<and>
    bt_inv ms \<and> (\<forall>h. map_of ms h = (if h \<in> set (active_modules m) then image_at m h else None))"
  using collect_images_spec [of "[]" "active_modules m" "all_modules m"] assms
  by (auto simp: kernel_checkpoint_def active_ok_def image_at_def bt.inv_empty)

lemma kernel_checkpoint_None: "\<not> active_ok m \<Longrightarrow> kernel_checkpoint m = None"
  using collect_images_None by (auto simp: kernel_checkpoint_def active_ok_def)

lemma checkpoint_hashed:
  assumes "kernel_wf api m" and "active_ok m" and "kernel_checkpoint m = Some c"
  shows "hashed api (ck_modules c)"
proof -
  obtain ms where "ck_modules c = ms" "bt_inv ms"
    "\<forall>h. map_of ms h = (if h \<in> set (active_modules m) then image_at m h else None)"
    using kernel_checkpoint_spec [OF assms(2)] assms(3) by auto
  then show ?thesis
    using wf_image_hash [OF assms(1)] unfolding hashed_def by (force simp: bt_entries split: if_splits)
qed

lemma same_checkpoint:
  assumes "active_ok m" and "active_ok n" and "active_modules m = active_modules n"
    and "map fst (known_functions m) = map fst (known_functions n)"
    and "\<forall>h \<in> set (active_modules n). image_at m h = image_at n h"
  shows "kernel_checkpoint m = kernel_checkpoint n"
proof -
  from kernel_checkpoint_spec [OF assms(1)] kernel_checkpoint_spec [OF assms(2)]
  obtain ms ns where "kernel_checkpoint m = Some \<lparr>ck_active = active_modules m, ck_functions = map fst (known_functions m), ck_modules = ms\<rparr>"
    "kernel_checkpoint n = Some \<lparr>ck_active = active_modules n, ck_functions = map fst (known_functions n), ck_modules = ns\<rparr>"
    and ms: "bt_inv ms" "bt_inv ns" "\<forall>h. map_of ms h = map_of ns h"
    using assms(3,5) by force
  moreover have "ms = ns" using bt.entries_unique [OF ms(1,2)] ms(3) by (simp add: bt_get_def)
  ultimately show ?thesis using assms(3,4) by simp
qed

section \<open>The calls of a client\<close>

datatype kernel_request = LoadData "u8 list" | GetFunction u64 "u8 list"

fun kernel_call :: "'w module_api \<Rightarrow> kernel_request \<Rightarrow> KernelManager \<times> 'w \<Rightarrow> (int \<times> u64 option, KernelManager \<times> 'w) exec" where
  "kernel_call api (LoadData img) s = cu_module_load_data api img s"
| "kernel_call api (GetFunction h name) s =
     exec_bind (cu_module_get_function api h name s) (\<lambda>(r, f). Ok (r, Some f))"

fun kernel_calls :: "'w module_api \<Rightarrow> kernel_request list \<Rightarrow> KernelManager \<times> 'w \<Rightarrow>
    ((int \<times> u64 option) list, KernelManager \<times> 'w) exec" where
  "kernel_calls api [] s = Ok [] s"
| "kernel_calls api (c # cs) s =
     exec_bind (kernel_call api c s) (\<lambda>a s. exec_bind (kernel_calls api cs s) (\<lambda>as. Ok (a # as)))"

text \<open>The modules that a client was given.\<close>

fun given :: "kernel_request list \<Rightarrow> (int \<times> u64 option) list \<Rightarrow> u64 set" where
  "given (LoadData img # cs) ((r, Some h) # as) = insert h (given cs as)"
| "given (c # cs) (a # as) = given cs as"
| "given _ _ = {}"

text \<open>What a call keeps: nothing that was registered or active is ever lost.\<close>

definition call_keeps :: "'w module_api \<Rightarrow> KernelManager \<Rightarrow> KernelManager \<Rightarrow> bool" where
  "call_keeps api m m' \<longleftrightarrow> kernel_wf api m' \<and> active_ok m' \<and> set (active_modules m) \<subseteq> set (active_modules m') \<and>
     (\<forall>h img. image_at m h = Some img \<longrightarrow> image_at m' h = Some img)"

lemma load_keeps:
  assumes "cu_module_load_data api img (m, w) = Ok (r, a) (m', w')" and "kernel_wf api m" and "active_ok m"
  shows "call_keeps api m m'" and "a = Some h \<Longrightarrow> h \<in> set (active_modules m')"
proof -
  obtain r1 m1 w1 where 1: "register_module api (hash64 api img) img (m, w) = Ok r1 (m1, w1)"
    using register_module_total [of api "hash64 api img" img "(m, w)"] by auto
  note wf = register_module_wf [OF 1 assms(2) refl]
  have m1: "active_ok m1" using extends_active [OF wf(2) assms(3)] .
  have "(\<exists>e. r1 = Inr e \<and> m' = m1 \<and> a = None) \<or>
      (r1 = Inl () \<and> m' = m1\<lparr>active_modules := active_modules m1 @ [hash64 api img]\<rparr> \<and> a = Some (hash64 api img))"
    using assms(1) 1 by (auto simp: cu_module_load_data_def load_module_def split: sum.splits)
  moreover have "image_at m1 (hash64 api img) \<noteq> None" if "r1 = Inl ()"
    using wf(3) [OF that] by (auto simp: adds_def split: option.splits)
  ultimately show "call_keeps api m m'" and "a = Some h \<Longrightarrow> h \<in> set (active_modules m')"
    using wf(1,2) m1
    by (auto simp: call_keeps_def extends_def active_ok_image kernel_wf_def images_of_def image_at_def)
qed

lemma get_function_keeps:
  assumes "cu_module_get_function api h name (m, w) = Ok a (m', w')" and "kernel_wf api m" and "active_ok m"
  shows "call_keeps api m m'"
  using assms
  by (auto simp: cu_module_get_function_def call_keeps_def kernel_wf_def active_ok_def image_at_def images_of_def Let_def
      bt.inv_insert split: option.splits prod.splits if_splits)

lemma kernel_calls_keep:
  assumes "kernel_calls api cs (m, w) = Ok as (m', w')" and "kernel_wf api m" and "active_ok m"
  shows "call_keeps api m m' \<and> given cs as \<subseteq> set (active_modules m')"
  using assms
proof (induction cs arbitrary: m w as)
  case (Cons c cs)
  from Cons.prems(1) obtain a m1 w1 as' where 1: "kernel_call api c (m, w) = Ok a (m1, w1)"
    and 2: "kernel_calls api cs (m1, w1) = Ok as' (m', w')" and as: "as = a # as'"
    by (auto simp: exec_simps)
  have keep: "call_keeps api m m1 \<and> (\<forall>img h. c = LoadData img \<longrightarrow> snd a = Some h \<longrightarrow> h \<in> set (active_modules m1))"
  proof (cases c)
    case (LoadData img)
    then show ?thesis using 1 load_keeps [OF _ Cons.prems(2,3)] by (cases a) auto
  next
    case (GetFunction h name)
    then show ?thesis
      using 1 get_function_keeps [OF _ Cons.prems(2,3)] by (auto simp: exec_simps split: prod.splits)
  qed
  then have "call_keeps api m1 m' \<and> given cs as' \<subseteq> set (active_modules m')"
    by (intro Cons.IH [OF 2]) (simp_all add: call_keeps_def)
  with keep show ?case
    unfolding as by (cases c; cases a; cases "snd a") (auto simp: call_keeps_def)
qed (simp add: call_keeps_def)

text \<open>
  A module that a client was given is never unknown to the server: the lookup of a function in it
  gets to the driver.
\<close>

lemma given_usable:
  assumes "kernel_calls api cs (KernelManager_new, w) = Ok as (m, w')" and "h \<in> given cs as"
  shows "\<exists>a s'. cu_module_get_function api h name (m, w') = Ok a s'" and "kernel_checkpoint m \<noteq> None"
proof -
  have k: "active_ok m" "h \<in> set (active_modules m)"
    using kernel_calls_keep [OF assms(1) kernel_wf_new] assms(2) by (auto simp: call_keeps_def)
  then show "\<exists>a s'. cu_module_get_function api h name (m, w') = Ok a s'"
    by (auto simp: active_ok_def cu_module_get_function_def Let_def split: option.splits prod.splits)
  show "kernel_checkpoint m \<noteq> None" using kernel_checkpoint_spec [OF k(1)] by auto
qed

section \<open>Restoring\<close>

text \<open>
  \<open>b\<close> is a checkpoint of the well-formed manager \<open>m\<close> that the decoder reads back. The last two
  conditions are the behaviour of \<open>bincode\<close>: it reads back what it wrote, and it writes the fields
  of a structure one after the other, so that the first field can be read alone.
\<close>

definition snapshot_of :: "'w module_api \<Rightarrow> codec \<Rightarrow> KernelManager \<Rightarrow> u8 list \<Rightarrow> bool" where
  "snapshot_of api cd m b \<longleftrightarrow> kernel_wf api m \<and> active_ok m \<and> kernel_dump cd m = Some b \<and>
     decode_checkpoint cd b = kernel_checkpoint m \<and> decode_header cd b = Some (active_modules m)"

text \<open>What another manager has of \<open>m\<close>: the same active modules with the same images.\<close>

definition same_kernels :: "KernelManager \<Rightarrow> KernelManager \<Rightarrow> bool" where
  "same_kernels m n \<longleftrightarrow> active_modules n = active_modules m \<and>
     (\<forall>h \<in> set (active_modules m). image_at n h = image_at m h)"

text \<open>The images of a list of checkpoints.\<close>

definition snapshot_images :: "codec \<Rightarrow> u8 list list \<Rightarrow> u8 list set" where
  "snapshot_images cd bs = (\<Union>b \<in> set bs. case decode_checkpoint cd b of None \<Rightarrow> {} | Some c \<Rightarrow> snd ` set (ck_modules c))"

fun standby_all :: "'w module_api \<Rightarrow> codec \<Rightarrow> u8 list list \<Rightarrow> KernelManager \<times> 'w \<Rightarrow> (unit, KernelManager \<times> 'w) exec" where
  "standby_all api cd [] s = Ok () s"
| "standby_all api cd (b # bs) s = exec_bind (kernel_standby api cd b s) (\<lambda>_. standby_all api cd bs)"

lemma snapshot_checkpoint:
  assumes "snapshot_of api cd m b"
  shows "\<exists>ms. decode_checkpoint cd b = Some \<lparr>ck_active = active_modules m, ck_functions = map fst (known_functions m), ck_modules = ms\<rparr> \<and>
    hashed api ms \<and> (\<forall>h. map_of ms h = (if h \<in> set (active_modules m) then image_at m h else None))"
proof -
  have m: "kernel_wf api m" "active_ok m" "decode_checkpoint cd b = kernel_checkpoint m"
    using assms by (simp_all add: snapshot_of_def)
  obtain ms where "kernel_checkpoint m = Some \<lparr>ck_active = active_modules m, ck_functions = map fst (known_functions m), ck_modules = ms\<rparr>"
    "\<forall>h. map_of ms h = (if h \<in> set (active_modules m) then image_at m h else None)"
    using kernel_checkpoint_spec [OF m(2)] by auto
  then show ?thesis using checkpoint_hashed [OF m(1,2)] m(3) by auto
qed

lemma restore_same:
  assumes "snapshot_of api cd m b" and "accepts api imgs" and "snapshot_images cd [b] \<subseteq> imgs" and "all_modules m0 = []"
  shows "\<exists>m' w'. kernel_restore api cd b (m0, w) = Ok () (m', w') \<and> kernel_wf api m' \<and> active_ok m' \<and>
    same_kernels m m' \<and> known_functions m' = []"
proof -
  obtain ms where c: "decode_checkpoint cd b = Some \<lparr>ck_active = active_modules m, ck_functions = map fst (known_functions m), ck_modules = ms\<rparr>"
    and ms: "hashed api ms" "\<forall>h. map_of ms h = (if h \<in> set (active_modules m) then image_at m h else None)"
    using snapshot_checkpoint [OF assms(1)] by blast
  let ?m0 = "m0\<lparr>active_modules := [], known_functions := []\<rparr>"
  have "snd ` set ms \<subseteq> imgs" using assms(3) c by (simp add: snapshot_images_def)
  then obtain m1 w1 where reg: "register_modules api ms (?m0, w) = Ok (Inl ()) (m1, w1)"
    using register_modules_accepted [OF assms(2), of ms "(?m0, w)"] by auto
  have "kernel_wf api ?m0" using assms(4) by (simp add: kernel_wf_def bt_inv_def images_of_def hashed_def)
  from register_modules_adds [OF reg this ms(1)] have m1: "kernel_wf api m1" "adds ms ?m0 m1" by auto
  have "image_at ?m0 h = None" for h using assms(4) by (simp add: image_at_def bt_get_def)
  then have im: "image_at m1 h = map_of ms h" and "known_functions m1 = []" for h
    using m1(2) by (simp_all add: adds_def extends_def)
  moreover have "active_ok m" using assms(1) by (simp add: snapshot_of_def)
  ultimately show ?thesis
    using c reg m1(1) assms(4) ms(2)
    by (simp add: kernel_restore_def kernel_manager_restore_def same_kernels_def active_ok_image)
qed

lemma standby_adds:
  assumes "snapshot_of api cd m b" and "accepts api imgs" and "snapshot_images cd [b] \<subseteq> imgs" and "kernel_wf api s"
  shows "\<exists>s' w' ms. kernel_standby api cd b (s, w) = Ok () (s', w') \<and> kernel_wf api s' \<and> adds ms s s' \<and> hashed api ms \<and>
    (\<forall>h. map_of ms h = (if h \<in> set (active_modules m) then image_at m h else None)) \<and> snd ` set ms = snapshot_images cd [b]"
proof -
  obtain ms where c: "decode_checkpoint cd b = Some \<lparr>ck_active = active_modules m, ck_functions = map fst (known_functions m), ck_modules = ms\<rparr>"
    and ms: "hashed api ms" "\<forall>h. map_of ms h = (if h \<in> set (active_modules m) then image_at m h else None)"
    using snapshot_checkpoint [OF assms(1)] by blast
  have img: "snd ` set ms = snapshot_images cd [b]" using c by (simp add: snapshot_images_def)
  then obtain s1 w1 where reg: "register_modules api ms (s, w) = Ok (Inl ()) (s1, w1)"
    using register_modules_accepted [OF assms(2), of ms "(s, w)"] assms(3) by auto
  then show ?thesis
    using c register_modules_adds [OF reg assms(4) ms(1)] ms img by (auto simp: kernel_standby_def)
qed

text \<open>
  The images that a standby process holds: all come from the checkpoints, and every active module
  of a checkpoint has an image of its hash.
\<close>

definition holds :: "u8 list set \<Rightarrow> KernelManager \<Rightarrow> bool" where
  "holds imgs s \<longleftrightarrow> (\<forall>h img. image_at s h = Some img \<longrightarrow> img \<in> imgs)"

lemma standby_all_adds:
  assumes "\<forall>b \<in> set bs. \<exists>m. snapshot_of api cd m b" and "accepts api imgs" and "snapshot_images cd bs \<subseteq> imgs"
    and "kernel_wf api s" and "holds imgs s"
  shows "\<exists>s' w'. standby_all api cd bs (s, w) = Ok () (s', w') \<and> kernel_wf api s' \<and> holds imgs s' \<and> extends s s' \<and>
    (\<forall>b \<in> set bs. \<forall>m. snapshot_of api cd m b \<longrightarrow> (\<forall>h \<in> set (active_modules m). image_at s' h \<noteq> None))"
  using assms
proof (induction bs arbitrary: s w)
  case (Cons b bs)
  have sub: "snapshot_images cd [b] \<subseteq> imgs" "snapshot_images cd bs \<subseteq> imgs"
    using Cons.prems(3) by (auto simp: snapshot_images_def)
  obtain m where m: "snapshot_of api cd m b" using Cons.prems(1) by auto
  obtain s1 w1 ms where 1: "kernel_standby api cd b (s, w) = Ok () (s1, w1)" "kernel_wf api s1" "adds ms s s1"
    "\<forall>h. map_of ms h = (if h \<in> set (active_modules m) then image_at m h else None)" "snd ` set ms = snapshot_images cd [b]"
    using standby_adds [OF m Cons.prems(2) sub(1) Cons.prems(4)] by blast
  have im1: "image_at s1 h = (case image_at s h of None \<Rightarrow> map_of ms h | Some img \<Rightarrow> Some img)" for h
    using 1(3) by (simp add: adds_def)
  have "holds imgs s1"
    unfolding holds_def
  proof (intro allI impI)
    fix h img
    assume "image_at s1 h = Some img"
    then consider "image_at s h = Some img" | "map_of ms h = Some img"
      using im1 [of h] by (auto split: option.splits)
    then show "img \<in> imgs"
    proof cases
      case 2
      then have "img \<in> snd ` set ms" by (force dest: map_of_SomeD)
      then show ?thesis using 1(5) sub(1) by auto
    qed (use Cons.prems(5) in \<open>auto simp: holds_def\<close>)
  qed
  then obtain s2 w2 where 2: "standby_all api cd bs (s1, w1) = Ok () (s2, w2)" "kernel_wf api s2" "holds imgs s2" "extends s1 s2"
    "\<forall>b \<in> set bs. \<forall>m. snapshot_of api cd m b \<longrightarrow> (\<forall>h \<in> set (active_modules m). image_at s2 h \<noteq> None)"
    using Cons.IH [OF _ Cons.prems(2) sub(2) 1(2), of w1] Cons.prems(1) by auto
  have here: "image_at s2 h \<noteq> None" if "snapshot_of api cd n b" "h \<in> set (active_modules n)" for n h
  proof -
    have "active_modules n = active_modules m" using that(1) m by (simp add: snapshot_of_def)
    moreover have "active_ok m" using m by (simp add: snapshot_of_def)
    ultimately have "map_of ms h \<noteq> None" using that(2) 1(4) by (simp add: active_ok_image)
    then have "image_at s1 h \<noteq> None" using im1 [of h] by (auto split: option.splits)
    then show ?thesis using 2(4) by (auto simp: extends_def)
  qed
  have "extends s s2" using 1(3) 2(4) by (auto simp: adds_def intro: extends_trans)
  then show ?case using 1(1) 2 here by auto
qed (simp add: holds_def)

lemma snapshot_image_in:
  assumes "snapshot_of api cd m b" and "b \<in> set bs" and "h \<in> set (active_modules m)"
  shows "\<exists>img. image_at m h = Some img \<and> img \<in> snapshot_images cd bs \<and> h = hash64 api img"
proof -
  obtain ms where c: "decode_checkpoint cd b = Some \<lparr>ck_active = active_modules m, ck_functions = map fst (known_functions m), ck_modules = ms\<rparr>"
    and ms: "\<forall>h. map_of ms h = (if h \<in> set (active_modules m) then image_at m h else None)"
    using snapshot_checkpoint [OF assms(1)] by blast
  obtain img where img: "image_at m h = Some img" using assms(1,3) by (auto simp: snapshot_of_def active_ok_image)
  then have "(h, img) \<in> set ms" using ms assms(3) by (auto intro: map_of_SomeD)
  then have "img \<in> snapshot_images cd bs" using assms(2) c by (force simp: snapshot_images_def)
  then show ?thesis using img wf_image_hash [of api m h img] assms(1) by (auto simp: snapshot_of_def)
qed

section \<open>Properties\<close>

text \<open>
  C19. Attaching to a standby process is equivalent to restoring into a new process. Let a standby
  process have loaded the checkpoints of several clients, among them \<open>b\<close> of a client whose
  manager was \<open>m\<close>, and let the images of these checkpoints have different hashes. If the driver
  accepts the images, then both ways succeed; the client finds the same active modules, each with the
  image that it had in \<open>m\<close>; both managers are well formed; and both would write the same next
  checkpoint.
\<close>

theorem warm_attach_is_cold:
  assumes snaps: "\<forall>b \<in> set bs. \<exists>m. snapshot_of api cd m b" and b: "b \<in> set bs" and m: "snapshot_of api cd m b"
    and inj: "inj_on (hash64 api) (snapshot_images cd bs)" and acc: "accepts api (snapshot_images cd bs)"
  shows "\<exists>mc wc ms ws mw ww.
    kernel_restore api cd b (KernelManager_new, w0) = Ok () (mc, wc) \<and>
    standby_all api cd bs (KernelManager_new, w1) = Ok () (ms, ws) \<and>
    kernel_attach_warm cd b (ms, ws) = Ok () (mw, ww) \<and>
    same_kernels m mc \<and> same_kernels m mw \<and>
    kernel_wf api mc \<and> active_ok mc \<and> kernel_wf api mw \<and> active_ok mw \<and>
    kernel_checkpoint mw = kernel_checkpoint mc \<and> kernel_checkpoint mc \<noteq> None"
proof -
  have sub: "snapshot_images cd [b] \<subseteq> snapshot_images cd bs" using b by (auto simp: snapshot_images_def)
  obtain mc wc where cold: "kernel_restore api cd b (KernelManager_new, w0) = Ok () (mc, wc)"
    "kernel_wf api mc" "active_ok mc" "same_kernels m mc" "known_functions mc = []"
    using restore_same [OF m acc sub, of KernelManager_new w0] by (auto simp: KernelManager_new_def)
  have "holds (snapshot_images cd bs) KernelManager_new" by (simp add: holds_def)
  then obtain ms ws where warm: "standby_all api cd bs (KernelManager_new, w1) = Ok () (ms, ws)" "kernel_wf api ms"
    "holds (snapshot_images cd bs) ms" "\<forall>h \<in> set (active_modules m). image_at ms h \<noteq> None"
    using standby_all_adds [OF snaps acc subset_refl kernel_wf_new(1), of w1] b m by blast
  define mw where mw: "mw = ms\<lparr>active_modules := active_modules m, known_functions := []\<rparr>"
  have attach: "kernel_attach_warm cd b (ms, ws) = Ok () (mw, ws)"
    using m by (simp add: kernel_attach_warm_def snapshot_of_def mw)
  have "image_at ms h = image_at m h" if h: "h \<in> set (active_modules m)" for h
  proof -
    obtain img where img: "image_at m h = Some img" "img \<in> snapshot_images cd bs" "h = hash64 api img"
      using snapshot_image_in [OF m b h] by blast
    obtain img' where img': "image_at ms h = Some img'" using warm(4) h by blast
    then have "img' \<in> snapshot_images cd bs" "h = hash64 api img'"
      using warm(3) wf_image_hash [OF warm(2)] by (auto simp: holds_def)
    then show ?thesis using inj img img' by (simp add: inj_on_def)
  qed
  then have same: "same_kernels m mw" by (simp add: same_kernels_def mw)
  have wf: "kernel_wf api mw" "active_ok mw" using warm(2,4) bt.inv_empty by (simp_all add: mw active_ok_image kernel_wf_def images_of_def)
  have "kernel_checkpoint mw = kernel_checkpoint mc"
    by (rule same_checkpoint [OF wf(2) cold(3)]) (use same cold(4,5) in \<open>simp_all add: same_kernels_def mw\<close>)
  moreover have "kernel_checkpoint mc \<noteq> None" using kernel_checkpoint_spec [OF cold(3)] by auto
  ultimately show ?thesis using cold(1-4) warm(1) attach same wf by blast
qed

text \<open>
  A driver that numbers its modules, and two clients that share an image. The codec of the example
  knows their two checkpoints.
\<close>

definition numbering_api :: "u64 module_api" where
  "numbering_api = \<lparr>hash64 = (\<lambda>img. sum_list (map ucast img)), cuModuleLoadData = (\<lambda>img w. ((0, w), w + 1)),
     cuModuleGetFunction = (\<lambda>h name w. ((0, 100 + h), w)), initContext = Some\<rparr>"

definition client1 :: "kernel_request list" where
  "client1 = [LoadData [5, 6], LoadData [9], GetFunction 9 [102], LoadData [5, 6]]"

definition client2 :: "kernel_request list" where
  "client2 = [LoadData [5, 6], LoadData [1, 2, 3], GetFunction 11 [102]]"

definition manager_after :: "kernel_request list \<Rightarrow> KernelManager" where
  "manager_after cs = fst (final (kernel_calls numbering_api cs (KernelManager_new, 1)))"

definition example_codec :: codec where
  "example_codec = \<lparr>encode_checkpoint = (\<lambda>c. map ucast (ck_active c)),
     decode_checkpoint = (\<lambda>b. kernel_checkpoint (manager_after (if b = [11, 9, 11] then client1 else client2))),
     decode_header = (\<lambda>b. Some (map ucast b))\<rparr>"

lemma example_snapshots:
  "snapshot_of numbering_api example_codec (manager_after client1) [11, 9, 11]"
  "snapshot_of numbering_api example_codec (manager_after client2) [11, 6]"
  unfolding snapshot_of_def kernel_wf_def active_ok_def by code_simp+

lemma example_images: "snapshot_images example_codec [[11, 6], [11, 9, 11]] = {[5, 6], [9], [1, 2, 3]}"
proof -
  have "map_option (map snd \<circ> ck_modules) (decode_checkpoint example_codec [11, 6]) = Some [[1, 2, 3], [5, 6]]"
    "map_option (map snd \<circ> ck_modules) (decode_checkpoint example_codec [11, 9, 11]) = Some [[9], [5, 6]]" by code_simp+
  then show ?thesis by (auto simp: snapshot_images_def simp flip: set_map)
qed

theorem warm_attach_is_cold_witness:
  "\<exists>mc wc ms ws mw ww.
    kernel_restore numbering_api example_codec [11, 9, 11] (KernelManager_new, 7) = Ok () (mc, wc) \<and>
    standby_all numbering_api example_codec [[11, 6], [11, 9, 11]] (KernelManager_new, 20) = Ok () (ms, ws) \<and>
    kernel_attach_warm example_codec [11, 9, 11] (ms, ws) = Ok () (mw, ww) \<and>
    same_kernels (manager_after client1) mc \<and> same_kernels (manager_after client1) mw"
proof -
  have "inj_on (hash64 numbering_api) {[5, 6], [9], [1, 2, 3]}" by (simp add: numbering_api_def)
  moreover have "accepts numbering_api {[5, 6], [9], [1, 2, 3]}" by (simp add: accepts_def numbering_api_def)
  ultimately show ?thesis
    using warm_attach_is_cold [OF _ _ example_snapshots(1), of "[[11, 6], [11, 9, 11]]" 7 20] example_snapshots
    unfolding example_images by (auto; blast)
qed

end
