(* ===== verification/Standby.thy ===== *)
theory Standby
  imports Prelude BTree "HOL-Library.Product_Lexorder"
begin

text \<open>
  The standby cache of a server process (\<open>server/src/phos/standby.rs\<close>): the connections of
  detached clients that the process holds open, by client process and thread number. A thread
  number is an \<open>i32\<close>; the numbers that the daemon gives out are not negative, so that they are
  ordered like the words they are. The type of a connection is a parameter.
\<close>

type_synonym 'c connections = "(u32 \<times> u32, 'c) btree"

text \<open>The static \<open>STANDBY_CACHE\<close>: \<open>None\<close> in a process that is no standby process.\<close>

type_synonym 'c standby_cache = "'c connections option"

definition has_standby :: "u32 \<Rightarrow> u32 \<Rightarrow> 'c standby_cache \<Rightarrow> bool" where
  "has_standby pid i cache = (case cache of None \<Rightarrow> False | Some cs \<Rightarrow> bt_get cs (pid, i) \<noteq> None)"

definition take_standby :: "u32 \<Rightarrow> u32 \<Rightarrow> 'c standby_cache \<Rightarrow> 'c option \<times> 'c standby_cache" where
  "take_standby pid i cache =
     (case cache of
        None \<Rightarrow> (None, None)
      | Some cs \<Rightarrow> (bt_get cs (pid, i), Some (bt_remove (pid, i) cs)))"

text \<open>
  \<open>try_put_standby\<close> on the connection that it takes out of the thread; \<open>None\<close> is the failed
  assertion.
\<close>

definition try_put_standby :: "u32 \<Rightarrow> u32 \<Rightarrow> 'c \<Rightarrow> 'c standby_cache \<Rightarrow> 'c standby_cache option" where
  "try_put_standby pid i c cache =
     (case cache of
        None \<Rightarrow> Some None
      | Some cs \<Rightarrow> if bt_get cs (pid, i) \<noteq> None then None else Some (Some (bt_insert (pid, i) c cs)))"

definition get_client_pids :: "'c standby_cache \<Rightarrow> u32 list option" where
  "get_client_pids cache = map_option (map (fst \<circ> fst)) cache"

text \<open>
  The loop of \<open>standby\<close>: every client is connected by \<open>connect\<close>, which checks its snapshot and
  loads its kernels, in the process state \<open>'p\<close>.
\<close>

fun connect_all :: "(u32 \<Rightarrow> u32 \<Rightarrow> 'p \<Rightarrow> ('c, 'p) exec) \<Rightarrow> (u32 \<times> u32) list \<Rightarrow> 'c connections \<Rightarrow> 'p \<Rightarrow> ('c connections, 'p) exec" where
  "connect_all connect [] cs p = Ok cs p"
| "connect_all connect ((pid, i) # ks) cs p =
     exec_bind (connect pid i p) (\<lambda>c p.
       if bt_get cs (pid, i) \<noteq> None then Abort ''assertion failed: dupe.is_none()''
       else connect_all connect ks (bt_insert (pid, i) c cs) p)"

definition standby :: "(u32 \<Rightarrow> u32 \<Rightarrow> 'p \<Rightarrow> ('c, 'p) exec) \<Rightarrow> (u32 \<times> u32) list \<Rightarrow> 'c standby_cache \<Rightarrow> 'p \<Rightarrow>
    ('c standby_cache, 'p) exec" where
  "standby connect ks cache p =
     (if cache \<noteq> None then Abort ''standby cache already exists''
      else exec_bind (connect_all connect ks [] p) (\<lambda>cs. Ok (Some cs)))"

section \<open>Laws\<close>

text \<open>
  The cache as the contract that the threads rely on: a connection that is put back can be taken
  once, other connections are not touched, and the clients of the cache are those that can be
  attached without opening their channels again.
\<close>

definition cache_inv :: "'c standby_cache \<Rightarrow> bool" where
  "cache_inv cache \<longleftrightarrow> (case cache of None \<Rightarrow> True | Some cs \<Rightarrow> bt_inv cs)"

locale parking =
  fixes has :: "'k \<Rightarrow> 'm \<Rightarrow> bool"
    and take_out :: "'k \<Rightarrow> 'm \<Rightarrow> 'c option \<times> 'm"
    and put_back :: "'k \<Rightarrow> 'c \<Rightarrow> 'm \<Rightarrow> 'm option"
    and inv :: "'m \<Rightarrow> bool"
  assumes take_has: "inv m \<Longrightarrow> fst (take_out k m) \<noteq> None \<longleftrightarrow> has k m"
    and take_gone: "inv m \<Longrightarrow> has j (snd (take_out k m)) \<longleftrightarrow> has j m \<and> j \<noteq> k"
    and take_inv: "inv m \<Longrightarrow> inv (snd (take_out k m))"
    and put_inv: "inv m \<Longrightarrow> put_back k c m = Some m' \<Longrightarrow> inv m'"
    and put_free: "inv m \<Longrightarrow> \<not> has k m \<Longrightarrow> put_back k c m \<noteq> None"
    and put_full: "inv m \<Longrightarrow> has k m \<Longrightarrow> put_back k c m = None"
    and put_take: "inv m \<Longrightarrow> put_back k c m = Some m' \<Longrightarrow> has k m' \<Longrightarrow> fst (take_out k m') = Some c"
    and put_other: "inv m \<Longrightarrow> put_back k c m = Some m' \<Longrightarrow> j \<noteq> k \<Longrightarrow> has j m' = has j m"
begin

text \<open>A connection that was taken can always be put back, and is then found again.\<close>

lemma take_put:
  assumes "inv m"
  shows "\<exists>m'. put_back k c (snd (take_out k m)) = Some m' \<and> inv m' \<and> (\<forall>j. j \<noteq> k \<longrightarrow> has j m' = has j m)"
proof -
  have free: "\<not> has k (snd (take_out k m))" and inv: "inv (snd (take_out k m))"
    using assms by (simp_all add: take_gone take_inv)
  from put_free [OF inv free] obtain m' where "put_back k c (snd (take_out k m)) = Some m'" by blast
  with put_inv [OF inv this] put_other [OF inv this] take_gone [OF assms] show ?thesis by blast
qed

lemma take_twice:
  assumes "inv m"
  shows "fst (take_out k (snd (take_out k m))) = None"
  using assms take_has [OF take_inv [OF assms]] take_gone [OF assms] by blast

end

interpretation cache: parking "\<lambda>(pid, i). has_standby pid i" "\<lambda>(pid, i). take_standby pid i"
  "\<lambda>(pid, i). try_put_standby pid i" cache_inv
  by unfold_locales
    (auto simp: has_standby_def take_standby_def try_put_standby_def cache_inv_def bt_simps split: option.splits if_splits)

lemma client_pids_has:
  assumes "cache_inv cache" and "get_client_pids cache = Some pids"
  shows "pid \<in> set pids \<longleftrightarrow> (\<exists>i. has_standby pid i cache)"
  using assms
  by (auto simp: get_client_pids_def has_standby_def cache_inv_def bt_get_def image_iff split: option.splits)
    (metis bt_entries not_None_eq, force dest: map_of_SomeD)

lemma connect_all_keys:
  assumes "connect_all connect ks cs p = Ok cs' p'" and "bt_inv cs"
  shows "bt_inv cs' \<and> (\<forall>k. bt_get cs' k \<noteq> None \<longleftrightarrow> bt_get cs k \<noteq> None \<or> k \<in> set ks) \<and>
    distinct ks \<and> (\<forall>k \<in> set ks. bt_get cs k = None)"
  using assms
proof (induction ks arbitrary: cs p)
  case (Cons k ks)
  obtain pid i where k: "k = (pid, i)" by fastforce
  from Cons.prems(1) obtain c p1 where fresh: "bt_get cs k = None"
    and rest: "connect_all connect ks (bt_insert k c cs) p1 = Ok cs' p'"
    unfolding k by (auto simp: exec_simps split: if_splits)
  have "bt_get (bt_insert k c cs) j = (if j = k then Some c else bt_get cs j)" for j
    by (rule bt.get_insert [OF Cons.prems(2)])
  then show ?case
    using Cons.IH [OF rest bt.inv_insert [OF Cons.prems(2)]] fresh by (auto split: if_splits)
qed simp

text \<open>A standby process can attach exactly the clients that it was started for.\<close>

lemma standby_clients:
  assumes "standby connect ks cache p = Ok cache' p'"
  shows "cache_inv cache'" and "has_standby pid i cache' \<longleftrightarrow> (pid, i) \<in> set ks" and "distinct ks"
  using assms connect_all_keys [OF _ bt.inv_empty, of connect ks p]
  by (auto simp: standby_def exec_simps cache_inv_def has_standby_def bt_get_def split: if_splits)

end
