(* ===== verification/Attach.thy ===== *)
theory Attach
  imports Worker Kernels Standby
begin

text \<open>
  Detaching a client from its server process and attaching it to another one
  (\<open>server/src/phos/detach.rs\<close>, \<open>standby.rs\<close>, \<open>phos/mod.rs\<close> and the start of \<open>launch_server\<close> in
  \<open>server/src/worker.rs\<close>). The client stays alive and keeps the two channels in shared memory;
  the snapshot of its device state is stored in the channels themselves while they are idle.
\<close>

section \<open>A server process\<close>

text \<open>
  What a process consists of besides its thread: the device as its CUDA context sees it, the
  memory manager, which is created when it is first used, the kernel manager and the standby
  cache. \<open>Connection\<close> is the structure of \<open>worker.rs\<close>.
\<close>

record Connection =
  c_receiver :: Receiver
  c_sender :: Sender
  c_pinned :: bool
  c_handles :: "manager option"

record 'v process =
  cuda :: 'v
  memory :: "dmm option"
  kernels :: KernelManager
  standby_cache :: "Connection standby_cache"

text \<open>
  What a process calls. \<open>probe\<close> are the calls of \<open>DeviceMemoryManagerInner::new\<close>: the device, the
  granularity, the size of the memory and the address of the reserved range, or the first error;
  \<open>release_range\<close> are the calls that drop the range and the context; \<open>host_register\<close> registers the
  buffers of both channels, \<open>getDeviceCount\<close> is the check at the start of a thread.
\<close>

record 'v runtime =
  drv :: "'v driver"
  cps :: "'v copies"
  mapi :: "'v module_api"
  kcodec :: codec
  encode_meta :: "checkpoint \<Rightarrow> u8 list"
  decode_meta :: "u8 list \<Rightarrow> checkpoint option"
  probe :: "'v \<Rightarrow> ((int \<times> u64 \<times> u64 \<times> u64) + int) \<times> 'v"
  release_range :: "dmm \<Rightarrow> 'v \<Rightarrow> 'v"
  host_register :: "'v \<Rightarrow> 'v option"
  getDeviceCount :: "'v \<Rightarrow> int \<times> 'v"

text \<open>\<open>DeviceMemoryManager::inner\<close> and \<open>reset\<close>.\<close>

definition memory_inner :: "'v runtime \<Rightarrow> 'v process \<Rightarrow> (dmm + int, 'v process) exec" where
  "memory_inner rt p =
     (case memory p of
        Some m \<Rightarrow> Ok (Inl m) p
      | None \<Rightarrow>
          (case probe rt (cuda p) of
             (Inr e, v) \<Rightarrow> Ok (Inr e) (p\<lparr>cuda := v\<rparr>)
           | (Inl (dev, g, total_mem, addr), v) \<Rightarrow>
               (case dmm_new dev g total_mem addr of
                  None \<Rightarrow> Abort ''assertion failed: Self::BASE.is_multiple_of(granularity as u64)''
                | Some m \<Rightarrow> Ok (Inl m) (p\<lparr>cuda := v, memory := Some m\<rparr>))))"

definition memory_reset :: "'v runtime \<Rightarrow> 'v process \<Rightarrow> 'v process" where
  "memory_reset rt p =
     (case memory p of
        None \<Rightarrow> p
      | Some m \<Rightarrow>
          p\<lparr>memory := None,
            cuda := release_range rt m (drop_handles (drv rt) (user_handles m) (drop_slots (drv rt) (allocations m) (cuda p)))\<rparr>)"

text \<open>The operations of the memory manager on the process; an error of \<open>inner\<close> is unwrapped by the callers.\<close>

definition on_memory :: "'v runtime \<Rightarrow> (dmm \<Rightarrow> 'v \<Rightarrow> ('a, dmm \<times> 'v) exec) \<Rightarrow> 'v process \<Rightarrow> ('a, 'v process) exec" where
  "on_memory rt f p =
     exec_bind (memory_inner rt p) (\<lambda>r p.
       case r of
         Inr e \<Rightarrow> Abort ''called Result::unwrap() on an Err value''
       | Inl m \<Rightarrow>
           (case f m (cuda p) of
              Ok x (m, v) \<Rightarrow> Ok x (p\<lparr>memory := Some m, cuda := v\<rparr>)
            | Exit c _ \<Rightarrow> Exit c p
            | Abort msg \<Rightarrow> Abort msg
            | Undef msg \<Rightarrow> Undef msg))"

text \<open>An operation of the kernel manager on the process.\<close>

definition on_kernels :: "(KernelManager \<times> 'v \<Rightarrow> ('a, KernelManager \<times> 'v) exec) \<Rightarrow> 'v process \<Rightarrow> ('a, 'v process) exec" where
  "on_kernels f p =
     (case f (kernels p, cuda p) of
        Ok x (k, v) \<Rightarrow> Ok x (p\<lparr>kernels := k, cuda := v\<rparr>)
      | Exit c (k, v) \<Rightarrow> Exit c (p\<lparr>kernels := k, cuda := v\<rparr>)
      | Abort msg \<Rightarrow> Abort msg
      | Undef msg \<Rightarrow> Undef msg)"

section \<open>Detaching\<close>

text \<open>
  \<open>detach::dump_state\<close> on a thread of client \<open>pid\<close> with number \<open>i\<close>; \<open>pad\<close> are the padding bytes of
  the header. The memory manager is reached through \<open>inner\<close>.
\<close>

definition dump_thread :: "'v runtime \<Rightarrow> u8 list \<Rightarrow> u32 \<Rightarrow> u32 \<Rightarrow> 'v process thread \<Rightarrow> (unit, 'v process thread) exec" where
  "dump_thread rt pad pid i th =
     (let sv = server_state th
      in case (sender sv, receiver sv) of
           (SShm s, RShm r) \<Rightarrow>
             (case kernel_dump (kcodec rt) (kernels (world sv)) of
                None \<Rightarrow> Abort ''called Option::unwrap() on a None value''
              | Some ks \<Rightarrow>
                  (case on_memory rt
                          (dump_state (drv rt) (cps rt) (encode_meta rt) pad
                             \<lparr>d_client_pid = pid, d_id = i, d_pinned = is_pinned th, d_kernels = ks,
                              d_handles = serialize (resources sv)\<rparr> (ring r) (ring s)) (world sv) of
                     Ok (r', s') p \<Rightarrow>
                       Ok () (th\<lparr>server_state := sv\<lparr>receiver := RShm (r\<lparr>ring := r'\<rparr>), sender := SShm (s\<lparr>ring := s'\<rparr>), world := p\<rparr>\<rparr>)
                   | Exit c p \<Rightarrow> Exit c th
                   | Abort msg \<Rightarrow> Abort msg
                   | Undef msg \<Rightarrow> Undef msg))
         | _ \<Rightarrow> Abort ''SHM channel expected'')"

text \<open>
  What \<open>checkpoint_thread\<close> does in mode \<open>Detach\<close>: the dump, and a standby process parks the
  connection with the handles.
\<close>

definition park :: "u32 \<Rightarrow> u32 \<Rightarrow> 'v process thread \<Rightarrow> (unit, 'v process thread) exec" where
  "park pid i th =
     (let sv = server_state th; p = world sv
      in case standby_cache p of
           None \<Rightarrow> Ok () th
         | Some _ \<Rightarrow>
             (case try_put_standby pid i \<lparr>c_receiver = receiver sv, c_sender = sender sv, c_pinned = is_pinned th,
                     c_handles = Some (resources sv)\<rparr> (standby_cache p) of
                None \<Rightarrow> Abort ''standby already exists''
              | Some cache \<Rightarrow>
                  Ok () (th\<lparr>server_state := sv\<lparr>receiver := RRestoreVec (RestoreVec_new []), sender := SBlackHole,
                    resources := manager_new, world := p\<lparr>standby_cache := cache\<rparr>\<rparr>\<rparr>)))"

definition detach_thread :: "'v runtime \<Rightarrow> u8 list \<Rightarrow> u32 \<Rightarrow> u32 \<Rightarrow> 'v process thread \<Rightarrow> (unit, 'v process thread) exec" where
  "detach_thread rt pad pid i th = exec_bind (dump_thread rt pad pid i th) (\<lambda>_. park pid i)"

section \<open>Attaching\<close>

definition pin_memory :: "'v runtime \<Rightarrow> 'v process thread \<Rightarrow> (unit, 'v process thread) exec" where
  "pin_memory rt th =
     (if is_pinned th then Ok () th
      else let sv = server_state th; p = world sv
           in case host_register rt (cuda p) of
                None \<Rightarrow> Abort ''assertion failed: result == cudaError_t::cudaSuccess''
              | Some v \<Rightarrow> Ok () (th\<lparr>server_state := sv\<lparr>world := p\<lparr>cuda := v\<rparr>\<rparr>, is_pinned := True\<rparr>))"

text \<open>A step of \<open>begin_attach\<close> that changes the process.\<close>

definition on_process :: "('v process \<Rightarrow> ('a, 'v process) exec) \<Rightarrow> 'v process thread \<Rightarrow> ('a, 'v process thread) exec" where
  "on_process f th =
     (case f (world (server_state th)) of
        Ok x p \<Rightarrow> Ok x (th\<lparr>server_state := (server_state th)\<lparr>world := p\<rparr>\<rparr>)
      | Exit c p \<Rightarrow> Exit c (th\<lparr>server_state := (server_state th)\<lparr>world := p\<rparr>\<rparr>)
      | Abort msg \<Rightarrow> Abort msg
      | Undef msg \<Rightarrow> Undef msg)"

text \<open>A read of the snapshot, which changes nothing.\<close>

definition reading :: "('a, unit) exec \<Rightarrow> 's \<Rightarrow> ('a, 's) exec" where
  "reading m s =
     (case m of Ok x _ \<Rightarrow> Ok x s | Exit c _ \<Rightarrow> Exit c s | Abort msg \<Rightarrow> Abort msg | Undef msg \<Rightarrow> Undef msg)"

definition initialize_context :: "'v runtime \<Rightarrow> 'v process \<Rightarrow> (unit, 'v process) exec" where
  "initialize_context rt p =
     (case initContext (mapi rt) (cuda p) of None \<Rightarrow> Abort ''initialize_context'' | Some v \<Rightarrow> Ok () (p\<lparr>cuda := v\<rparr>))"

definition finish_restore_from_slice :: "'v runtime \<Rightarrow> 'v process \<Rightarrow> (unit, 'v process) exec" where
  "finish_restore_from_slice rt p =
     (case synchronize (cps rt) (cuda p) of
        Ok _ v \<Rightarrow> Ok () (p\<lparr>cuda := v\<rparr>)
      | Exit c v \<Rightarrow> Exit c p
      | Abort msg \<Rightarrow> Abort msg
      | Undef msg \<Rightarrow> Undef msg)"

text \<open>
  \<open>begin_attach\<close>, with \<open>SYNC_RESTORE_MEM\<close> true as in the source: the registration of the buffers,
  the restoring of kernels and memory, and the whole function.
\<close>

definition pin_attached :: "'v runtime \<Rightarrow> bool \<Rightarrow> 'v process thread \<Rightarrow> (unit, 'v process thread) exec" where
  "pin_attached rt pinned th =
     (if pinned then exec_bind (on_process (initialize_context rt) th) (\<lambda>_. pin_memory rt) else Ok () th)"

definition restore_state :: "'v runtime \<Rightarrow> bool \<Rightarrow> snapshot_view \<Rightarrow> 'v process thread \<Rightarrow> (unit, 'v process thread) exec" where
  "restore_state rt warm v th =
     exec_bind (on_process (on_kernels (if warm then kernel_attach_warm (kcodec rt) (s_kernels v)
                                        else kernel_restore (mapi rt) (kcodec rt) (s_kernels v))) th) (\<lambda>_ th.
     exec_bind (on_process (on_memory rt (restore_from_slice (drv rt) (cps rt) (decode_meta rt)
                                            (s_memory_meta v) (s_memory_raw v))) th) (\<lambda>_ th.
     on_process (finish_restore_from_slice rt) th))"

definition begin_attach :: "'v runtime \<Rightarrow> bool \<Rightarrow> u32 \<Rightarrow> u32 \<Rightarrow> 'v process thread \<Rightarrow> (unit, 'v process thread) exec" where
  "begin_attach rt warm pid i th =
     (case (receiver (server_state th), sender (server_state th)) of
        (RShm r, SShm s) \<Rightarrow>
          exec_bind (reading (read_snapshot_header (ring r)) th) (\<lambda>h th.
          if client_pid h \<noteq> pid then Abort ''detach snapshot pid mismatch''
          else if thread_id h \<noteq> i then Abort ''detach snapshot id mismatch''
          else
          exec_bind (pin_attached rt (is_pinned_memory h) th) (\<lambda>_ th.
          exec_bind (reading (read_snapshot (ring r) (ring s)) th) (\<lambda>v th.
          exec_bind (restore_state rt warm v th) (\<lambda>_ th.
            let sv = server_state th;
                r' = do_move (SetFlag (flag (ring r) AND NOT SHM_FLAG_WRITE_DISABLED)) r;
                image = (if hm_len (resources sv) = 0 then s_handles v else [])
            in Ok () (th\<lparr>channels := Some (SShm s, RShm r'),
                 server_state := sv\<lparr>receiver := RRestoreVec (RestoreVec_new image), sender := SBlackHole\<rparr>\<rparr>)))))
      | _ \<Rightarrow> Abort ''called Option::unwrap() on a None value'')"

text \<open>
  The start of a thread that attaches: the connection is opened on the shared memory of the
  client, whose rings are \<open>r\<close> and \<open>s\<close>, or taken from the cache of the standby process. A cached
  connection is a mapping of the same shared memory: what is read through it are the rings as
  they are now, not as they were when it was put into the cache.
\<close>

definition attach_connection :: "bool \<Rightarrow> u32 \<Rightarrow> u32 \<Rightarrow> ring \<times> ring \<Rightarrow> 'v process \<Rightarrow> (Connection, 'v process) exec" where
  "attach_connection warm pid i = (\<lambda>(r, s) p.
     if warm
     then (case take_standby pid i (standby_cache p) of
             (None, _) \<Rightarrow> Abort ''called Option::unwrap() on a None value''
           | (Some c, cache) \<Rightarrow>
               Ok (c\<lparr>c_receiver := RShm (start r), c_sender := SShm (start s)\<rparr>) (p\<lparr>standby_cache := cache\<rparr>))
     else Ok \<lparr>c_receiver = RShm (start r), c_sender = SShm (start s), c_pinned = False, c_handles = None\<rparr> p)"

definition thread_of :: "Connection \<Rightarrow> 'v process \<Rightarrow> 'v process thread" where
  "thread_of c p =
     \<lparr>server_state = \<lparr>receiver = c_receiver c, sender = c_sender c,
        resources = (case c_handles c of None \<Rightarrow> manager_new | Some h \<Rightarrow> h), world = p\<rparr>,
      is_pinned = c_pinned c, channels = None\<rparr>"

definition launch_attach :: "'v runtime \<Rightarrow> bool \<Rightarrow> u32 \<Rightarrow> u32 \<Rightarrow> ring \<times> ring \<Rightarrow> 'v process \<Rightarrow> (unit, 'v process thread) exec" where
  "launch_attach rt warm pid i rings p =
     (case attach_connection warm pid i rings p of
        Ok c p \<Rightarrow>
          (let (e, v) = getDeviceCount rt (cuda p)
           in if e \<noteq> 0 then Abort ''failed to find cuda devices''
              else begin_attach rt warm pid i (thread_of c (p\<lparr>cuda := v\<rparr>)))
      | Exit c p \<Rightarrow> Abort ''unreachable''
      | Abort msg \<Rightarrow> Abort msg
      | Undef msg \<Rightarrow> Undef msg)"

text \<open>\<open>Control::attach\<close>: the standby cache decides how the thread is started.\<close>

definition control_attach :: "'v runtime \<Rightarrow> u32 \<Rightarrow> u32 \<Rightarrow> ring \<times> ring \<Rightarrow> 'v process \<Rightarrow> (unit, 'v process thread) exec" where
  "control_attach rt pid i rings p = launch_attach rt (has_standby pid i (standby_cache p)) pid i rings p"

text \<open>
  \<open>Control::standby\<close>: the client's channels are opened and its snapshot is checked, its kernels are
  loaded, and the buffers are registered if the client had them registered.
\<close>

definition standby_connect :: "'v runtime \<Rightarrow> (u32 \<Rightarrow> ring \<times> ring) \<Rightarrow> u32 \<Rightarrow> u32 \<Rightarrow> 'v process \<Rightarrow> (Connection, 'v process) exec" where
  "standby_connect rt shm pid i p =
     (let (r, s) = shm i
      in exec_bind (reading (read_snapshot r s) p) (\<lambda>v p.
         if s_client_pid v \<noteq> pid then Abort ''standby snapshot pid mismatch''
         else if s_id v \<noteq> i then Abort ''standby snapshot id mismatch''
         else exec_bind (on_kernels (kernel_standby (mapi rt) (kcodec rt) (s_kernels v)) p) (\<lambda>_ p.
         exec_bind (if s_pinned v
                    then (case host_register rt (cuda p) of
                            None \<Rightarrow> Abort ''assertion failed: result == cudaError_t::cudaSuccess''
                          | Some w \<Rightarrow> Ok () (p\<lparr>cuda := w\<rparr>))
                    else Ok () p) (\<lambda>_.
           Ok \<lparr>c_receiver = RShm (start r), c_sender = SShm (start s), c_pinned = s_pinned v, c_handles = None\<rparr>))))"

definition control_standby :: "'v runtime \<Rightarrow> (u32 \<Rightarrow> ring \<times> ring) \<Rightarrow> (u32 \<times> u32) list \<Rightarrow> 'v process \<Rightarrow> (unit, 'v process) exec" where
  "control_standby rt shm ks p =
     exec_bind (standby (standby_connect rt shm) ks (standby_cache p) p) (\<lambda>cache p. Ok () (p\<lparr>standby_cache := cache\<rparr>))"

text \<open>\<open>Control::detach\<close>, which the daemon calls after the thread has detached.\<close>

definition control_detach :: "'v runtime \<Rightarrow> 'v process \<Rightarrow> u32 list option \<times> 'v process" where
  "control_detach rt p =
     (case get_client_pids (standby_cache p) of None \<Rightarrow> (None, p) | Some pids \<Rightarrow> (Some pids, memory_reset rt p))"

section \<open>Migration\<close>

text \<open>
  What detaching and attaching are meant to be together: the device state of a client is given to
  a new process directly, without a snapshot in between. The state are the registration of the
  buffers, the kernel modules \<open>c\<close>, the description \<open>meta\<close> and contents \<open>bss\<close> of the device memory
  and the handles \<open>h\<close>; the client is unlocked, and the handles remain to be created again.
\<close>

definition migrate :: "'v runtime \<Rightarrow> bool \<Rightarrow> KernelCheckpoint \<Rightarrow> checkpoint \<Rightarrow> u8 list list \<Rightarrow> manager \<Rightarrow>
    ring \<times> ring \<Rightarrow> 'v process \<Rightarrow> (unit, 'v process thread) exec" where
  "migrate rt pinned c meta bss h = (\<lambda>(r, s) p.
     let (e, v) = getDeviceCount rt (cuda p);
         conn = \<lparr>c_receiver = RShm (start r), c_sender = SShm (start s), c_pinned = False, c_handles = None\<rparr>
     in if e \<noteq> 0 then Abort ''failed to find cuda devices''
        else
        exec_bind (pin_attached rt pinned (thread_of conn (p\<lparr>cuda := v\<rparr>))) (\<lambda>_ th.
        exec_bind (on_process (on_kernels (\<lambda>s. exec_bind (kernel_manager_restore (mapi rt) c s) (\<lambda>r s.
                     case r of Inr e \<Rightarrow> Abort ''called Result::unwrap() on an Err value'' | Inl _ \<Rightarrow> Ok () s))) th) (\<lambda>_ th.
        exec_bind (on_process (on_memory rt (load_memory (drv rt) (cps rt) meta bss)) th) (\<lambda>_ th.
        exec_bind (on_process (finish_restore_from_slice rt) th) (\<lambda>_ th.
          Ok () (th\<lparr>channels := Some (SShm (start s), RShm (start (r\<lparr>flag := flag r AND NOT SHM_FLAG_WRITE_DISABLED\<rparr>))),
            server_state := (server_state th)\<lparr>receiver := RRestoreVec (RestoreVec_new (serialize h)), sender := SBlackHole\<rparr>\<rparr>))))))"

lemma bind_cong: "m = m' \<Longrightarrow> (\<And>x s. m' = Ok x s \<Longrightarrow> f x s = g x s) \<Longrightarrow> exec_bind m f = exec_bind m' g"
  by (cases m') auto

text \<open>The handles of the thread are not touched on the way.\<close>

lemma resources_kept:
  "on_process f th = Ok x th' \<Longrightarrow> resources (server_state th') = resources (server_state th)"
  "pin_memory rt th = Ok () th' \<Longrightarrow> resources (server_state th') = resources (server_state th)"
  by (auto simp: on_process_def pin_memory_def Let_def split: exec.splits if_splits option.splits)

lemma resources_kept_pin:
  "pin_attached rt b th = Ok () th' \<Longrightarrow> resources (server_state th') = resources (server_state th)"
  by (auto simp: pin_attached_def exec_bind_eq_Ok dest!: resources_kept split: if_splits)

lemma resources_kept_restore:
  "restore_state rt warm v th = Ok () th' \<Longrightarrow> resources (server_state th') = resources (server_state th)"
  by (auto simp: restore_state_def exec_bind_eq_Ok simp del: exec_bind.simps dest!: resources_kept(1))

lemma memory_inner_keeps:
  "memory_inner rt p = Ok x p' \<Longrightarrow> standby_cache p' = standby_cache p \<and> kernels p' = kernels p"
  by (auto simp: memory_inner_def split: option.splits sum.splits prod.splits)

lemma on_memory_Ok:
  assumes "on_memory rt f p = Ok x p'"
  shows "\<exists>m p1 m' v'. memory_inner rt p = Ok (Inl m) p1 \<and> f m (cuda p1) = Ok x (m', v') \<and>
    p' = p1\<lparr>memory := Some m', cuda := v'\<rparr>"
proof -
  obtain r p1 where r: "memory_inner rt p = Ok r p1" using assms by (auto simp: on_memory_def exec_simps)
  then obtain m where "r = Inl m" using assms by (cases r) (auto simp: on_memory_def)
  then show ?thesis using assms r by (cases "f m (cuda p1)") (auto simp: on_memory_def split: prod.splits)
qed

lemma dump_thread_shm:
  assumes "dump_thread rt pad pid i th = Ok () th1" and "receiver (server_state th) = RShm r" and "sender (server_state th) = SShm s"
  shows "\<exists>c m v r' s' m' v'. kernel_checkpoint (kernels (world (server_state th))) = Some c \<and>
    dump_state (drv rt) (cps rt) (encode_meta rt) pad
      \<lparr>d_client_pid = pid, d_id = i, d_pinned = is_pinned th, d_kernels = encode_checkpoint (kcodec rt) c,
       d_handles = serialize (resources (server_state th))\<rparr> (ring r) (ring s) m v = Ok (r', s') (m', v') \<and>
    receiver (server_state th1) = RShm (r\<lparr>ring := r'\<rparr>) \<and> sender (server_state th1) = SShm (s\<lparr>ring := s'\<rparr>) \<and>
    standby_cache (world (server_state th1)) = standby_cache (world (server_state th)) \<and>
    (\<exists>p. memory_inner rt (world (server_state th)) = Ok (Inl m) p \<and> v = cuda p)"
proof -
  let ?sv = "server_state th"
  obtain c where c: "kernel_checkpoint (kernels (world ?sv)) = Some c"
    using assms by (cases "kernel_checkpoint (kernels (world ?sv))") (auto simp: dump_thread_def kernel_dump_def Let_def)
  let ?d = "\<lparr>d_client_pid = pid, d_id = i, d_pinned = is_pinned th, d_kernels = encode_checkpoint (kcodec rt) c,
    d_handles = serialize (resources ?sv)\<rparr>"
  obtain r' s' p where d: "on_memory rt (dump_state (drv rt) (cps rt) (encode_meta rt) pad ?d (ring r) (ring s)) (world ?sv) = Ok (r', s') p"
    and th1: "th1 = th\<lparr>server_state := ?sv\<lparr>receiver := RShm (r\<lparr>ring := r'\<rparr>), sender := SShm (s\<lparr>ring := s'\<rparr>), world := p\<rparr>\<rparr>"
    using assms c by (auto simp: dump_thread_def kernel_dump_def Let_def split: exec.splits prod.splits)
  from on_memory_Ok [OF d] obtain m p1 m' v' where
    "memory_inner rt (world ?sv) = Ok (Inl m) p1" "p = p1\<lparr>memory := Some m', cuda := v'\<rparr>"
    "dump_state (drv rt) (cps rt) (encode_meta rt) pad ?d (ring r) (ring s) m (cuda p1) = Ok (r', s') (m', v')" by blast
  then show ?thesis using c th1 memory_inner_keeps [of rt "world ?sv" "Inl m" p1]
    by (intro exI [of _ c] exI [of _ m] exI [of _ "cuda p1"] exI [of _ r'] exI [of _ s'] exI [of _ m'] exI [of _ v']) simp
qed

text \<open>\<open>begin_attach\<close> on a snapshot that reads as \<open>v\<close>.\<close>

lemma launch_attach_reads:
  assumes v: "read_snapshot r s = Ok v ()"
  shows "(pid, i) \<noteq> (s_client_pid v, s_id v) \<Longrightarrow> \<exists>msg. launch_attach rt False pid i (r, s) p = Abort msg"
    and "decode_checkpoint (kcodec rt) (s_kernels v) = Some c \<Longrightarrow>
      restore_from_slice (drv rt) (cps rt) (decode_meta rt) (s_memory_meta v) (s_memory_raw v) = load_memory (drv rt) (cps rt) meta bss \<Longrightarrow>
      s_handles v = serialize h \<Longrightarrow>
      launch_attach rt False (s_client_pid v) (s_id v) (r, s) p = migrate rt (s_pinned v) c meta bss h (r, s) p"
proof -
  obtain hd where hd: "read_snapshot_header r = Ok hd ()" "client_pid hd = s_client_pid v" "thread_id hd = s_id v"
    "is_pinned_memory hd = s_pinned v"
    using read_snapshot_is_header [OF v] by blast
  note step = launch_attach_def attach_connection_def begin_attach_def thread_of_def reading_def hd v start_def
  show "\<exists>msg. launch_attach rt False pid i (r, s) p = Abort msg" if "(pid, i) \<noteq> (s_client_pid v, s_id v)"
    using that by (auto simp: step split: prod.splits)
  show "launch_attach rt False (s_client_pid v) (s_id v) (r, s) p = migrate rt (s_pinned v) c meta bss h (r, s) p"
    if c: "decode_checkpoint (kcodec rt) (s_kernels v) = Some c"
      and mem: "restore_from_slice (drv rt) (cps rt) (decode_meta rt) (s_memory_meta v) (s_memory_raw v) = load_memory (drv rt) (cps rt) meta bss"
      and h: "s_handles v = serialize h"
  proof -
    have "kernel_restore (mapi rt) (kcodec rt) (s_kernels v) = (\<lambda>s. exec_bind (kernel_manager_restore (mapi rt) c s) (\<lambda>r s.
        case r of Inr e \<Rightarrow> Abort ''called Result::unwrap() on an Err value'' | Inl _ \<Rightarrow> Ok () s))"
      using c by (simp add: kernel_restore_def fun_eq_iff)
    then show ?thesis
      using h mem
      by (auto simp: migrate_def step restore_state_def exec_bind_assoc hm_len_def manager_new_def Let_def
          dest!: resources_kept resources_kept_pin intro!: bind_cong split: prod.splits)
  qed
qed

lemma detach_without_cache:
  assumes "detach_thread rt pad pid i th = Ok () th1" and "standby_cache (world (server_state th)) = None"
    and "receiver (server_state th) = RShm r" and "sender (server_state th) = SShm s"
  shows "dump_thread rt pad pid i th = Ok () th1"
proof -
  from assms(1) obtain th' where d: "dump_thread rt pad pid i th = Ok () th'" and p: "park pid i th' = Ok () th1"
    by (auto simp: detach_thread_def exec_simps)
  have "standby_cache (world (server_state th')) = None" using dump_thread_shm [OF d assms(3,4)] assms(2) by auto
  then show ?thesis using d p by (simp add: park_def)
qed

text \<open>
  A standby process that holds handles of the client goes on with these handles, whatever the
  snapshot says about them.
\<close>

lemma reading_Ok: "reading m s = Ok x s' \<longleftrightarrow> m = Ok x () \<and> s' = s"
  by (cases m) (auto simp: reading_def)

lemma guard_Ok: "(if b then Abort msg else m) = Ok x s \<longleftrightarrow> \<not> b \<and> m = Ok x s"
  by simp

lemma begin_attach_handles:
  assumes "begin_attach rt warm pid i th = Ok () th'"
  shows "\<exists>r s v. receiver (server_state th) = RShm r \<and> sender (server_state th) = SShm s \<and>
    read_snapshot (ring r) (ring s) = Ok v () \<and> resources (server_state th') = resources (server_state th) \<and>
    receiver (server_state th') =
      RRestoreVec (RestoreVec_new (if hm_len (resources (server_state th)) = 0 then s_handles v else []))"
proof -
  obtain r s where rs: "receiver (server_state th) = RShm r" "sender (server_state th) = SShm s"
    using assms by (auto simp: begin_attach_def split: Receiver.splits Sender.splits)
  from assms rs obtain h :: SnapshotHeader and v th1 th2 where 1: "pin_attached rt (is_pinned_memory h) th = Ok () th1"
    and v: "read_snapshot (ring r) (ring s) = Ok v ()" and 2: "restore_state rt warm v th1 = Ok () th2"
    and "th2\<lparr>channels := Some (SShm s, RShm (do_move (SetFlag (flag (ring r) AND NOT SHM_FLAG_WRITE_DISABLED)) r)),
      server_state := (server_state th2)\<lparr>receiver :=
        RRestoreVec (RestoreVec_new (if hm_len (resources (server_state th2)) = 0 then s_handles v else [])),
        sender := SBlackHole\<rparr>\<rparr> = th'"
    by (auto simp: begin_attach_def exec_bind_eq_Ok reading_Ok Let_def guard_Ok split del: if_split)
  then have th': "resources (server_state th') = resources (server_state th2)" "receiver (server_state th') =
      RRestoreVec (RestoreVec_new (if hm_len (resources (server_state th2)) = 0 then s_handles v else []))"
    by (auto split del: if_split)
  then show ?thesis using rs v th' resources_kept_pin [OF 1] resources_kept_restore [OF 2] by auto
qed

lemma warm_attach_keeps_handles:
  assumes "launch_attach rt True pid i rings p = Ok () th" and "standby_cache p = Some cs"
    and "bt_get cs (pid, i) = Some c" and "c_handles c = Some h" and "hm_len h \<noteq> 0"
  shows "resources (server_state th) = h" and "receiver (server_state th) = RRestoreVec (RestoreVec_new [])"
  using assms
  by (auto simp: launch_attach_def attach_connection_def take_standby_def thread_of_def
      dest!: begin_attach_handles split: prod.splits if_splits)

section \<open>Properties\<close>

text \<open>
  C17. Detaching a client and attaching it to a new process is a migration of its device state. If a
  thread on shared memory detaches, its channels hold a snapshot such that attaching to it, in any
  process and on any device that reads back the two encodings, is \<^emph>\<open>equal\<close> to the migration of
  the registration of the buffers, the kernel modules, the contents of every segment of device
  memory and the handles that the detached thread had, errors and panics included. An attempt to
  attach a client with another process or thread number is refused. The process has no standby cache
  when the client detaches, the attach is a cold one, and a copy of the device copies a whole segment.
\<close>

theorem attach_is_migration:
  assumes detach: "detach_thread rt pad pid i th = Ok () th1" and cache: "standby_cache (world (server_state th)) = None"
    and shm: "receiver (server_state th) = RShm r" "sender (server_state th) = SShm s"
    and pad: "length pad = 7" and full: "full_copies (cps rt)"
    and small: "length (data (ring r)) < 2 ^ 63" "length (data (ring s)) < 2 ^ 63"
  shows "\<exists>r1 s1 c p m1 v1 m meta bss.
    receiver (server_state th1) = RShm r1 \<and> sender (server_state th1) = SShm s1 \<and>
    kernel_checkpoint (kernels (world (server_state th))) = Some c \<and>
    memory_inner rt (world (server_state th)) = Ok (Inl m) p \<and>
    checkpoint_meta (drv rt) (m, cuda p) = Some (Inl meta, m1, v1) \<and> bss = read_all (cps rt) (ck_segments meta) v1 \<and>
    (\<forall>(rt' :: 'n runtime) p'. decode_checkpoint (kcodec rt') (encode_checkpoint (kcodec rt) c) = Some c \<longrightarrow>
       decode_meta rt' (encode_meta rt meta) = Some meta \<longrightarrow>
       launch_attach rt' False pid i (ring r1, ring s1) p' =
         migrate rt' (is_pinned th) c meta bss (resources (server_state th)) (ring r1, ring s1) p') \<and>
    (\<forall>(rt' :: 'n runtime) pid' i' p'. (pid', i') \<noteq> (pid, i) \<longrightarrow> (\<exists>msg. launch_attach rt' False pid' i' (ring r1, ring s1) p' = Abort msg))"
proof -
  from dump_thread_shm [OF detach_without_cache [OF detach cache shm] shm] obtain c m v r' s' m' v' p where
    c: "kernel_checkpoint (kernels (world (server_state th))) = Some c"
    and dump: "dump_state (drv rt) (cps rt) (encode_meta rt) pad
      \<lparr>d_client_pid = pid, d_id = i, d_pinned = is_pinned th, d_kernels = encode_checkpoint (kcodec rt) c,
       d_handles = serialize (resources (server_state th))\<rparr> (ring r) (ring s) m v = Ok (r', s') (m', v')"
    and th1: "receiver (server_state th1) = RShm (r\<lparr>ring := r'\<rparr>)" "sender (server_state th1) = SShm (s\<lparr>ring := s'\<rparr>)"
    and p: "memory_inner rt (world (server_state th)) = Ok (Inl m) p" "v = cuda p" by (elim exE conjE)
  from dump_state_reads [OF dump pad full small] obtain meta m1 v1 bss where
    ck: "checkpoint_meta (drv rt) (m, v) = Some (Inl meta, m1, v1)" and bss: "bss = read_all (cps rt) (ck_segments meta) v1"
    and read: "read_snapshot r' s' = Ok \<lparr>s_client_pid = pid, s_id = i, s_pinned = is_pinned th,
      s_kernels = encode_checkpoint (kcodec rt) c, s_handles = serialize (resources (server_state th)),
      s_memory_meta = encode_meta rt meta, s_memory_raw = concat bss\<rparr> ()"
    and len: "map length bss = map (unat \<circ> seg_size) (ck_segments meta)" "length (concat bss) < 2 ^ 63"
    unfolding dumped.simps by (elim exE conjE)
  have attach: "launch_attach rt' False pid i (r', s') p' =
      migrate rt' (is_pinned th) c meta bss (resources (server_state th)) (r', s') p'"
    if "decode_checkpoint (kcodec rt') (encode_checkpoint (kcodec rt) c) = Some c" "decode_meta rt' (encode_meta rt meta) = Some meta"
    for rt' :: "'n runtime" and p'
  proof -
    have "restore_from_slice (drv rt') (cps rt') (decode_meta rt') (encode_meta rt meta) (concat bss) = load_memory (drv rt') (cps rt') meta bss"
      using restore_from_slice_loads [where decode = "decode_meta rt'" and mb = "encode_meta rt meta" and cp = "cps rt'", OF that(2) len]
      by (simp add: fun_eq_iff)
    with launch_attach_reads(2) [OF read, where rt = rt' and c = c] that(1) show ?thesis by simp
  qed
  have refuse: "\<exists>msg. launch_attach rt' False pid' i' (r', s') p' = Abort msg" if "(pid', i') \<noteq> (pid, i)"
    for rt' :: "'n runtime" and pid' i' p'
    by (rule launch_attach_reads(1) [OF read]) (use that in simp)
  show ?thesis
    using th1 c p ck bss
    by (intro exI [of _ "r\<lparr>ring := r'\<rparr>"] exI [of _ "s\<lparr>ring := s'\<rparr>"] exI [of _ c] exI [of _ p] exI [of _ m1] exI [of _ v1]
        exI [of _ m] exI [of _ meta] exI [of _ bss] conjI allI impI)
      (simp_all add: attach refuse)
qed

text \<open>A client with two modules, one segment of memory, and the streams and events of \<open>Worker\<close>.\<close>

definition sample_meta0 :: checkpoint where
  "sample_meta0 = \<lparr>ck_granularity = 2, ck_next = 12, ck_segments = [\<lparr>seg_ptr = 8, seg_size = 4, seg_proxy = 0\<rparr>], ck_user_handles = []\<rparr>"

definition sample_runtime :: "u64 runtime" where
  "sample_runtime = \<lparr>drv = counting_driver, cps = patterned_copies, mapi = numbering_api, kcodec = example_codec,
     encode_meta = (\<lambda>c. [of_nat (length (ck_segments c))]), decode_meta = (\<lambda>_. Some sample_meta0),
     probe = (\<lambda>v. (Inl (0, 2, 16, 8), v)), release_range = (\<lambda>_ v. v), host_register = Some, getDeviceCount = (\<lambda>v. (0, v))\<rparr>"

definition sample_handles :: manager where
  "sample_handles = final (calls_run (library event_env) (conf event_env) event_calls manager_new 0)"

definition idle120 :: ring where
  "idle120 = \<lparr>data = replicate 120 0, head = 9, tail = 9, flag = 2\<rparr>"

definition sample_thread :: "u64 process thread" where
  "sample_thread = \<lparr>server_state = \<lparr>receiver = RShm (start idle120), sender = SShm (start idle120), resources = sample_handles,
     world = \<lparr>cuda = 2, memory = Some one_segment, kernels = manager_after client1, standby_cache = None\<rparr>\<rparr>,
     is_pinned = True, channels = None\<rparr>"

definition new_process :: "u64 process" where
  "new_process = \<lparr>cuda = 40, memory = None, kernels = KernelManager_new, standby_cache = None\<rparr>"

definition returns_with :: "('a, 's) exec \<Rightarrow> ('s \<Rightarrow> bool) \<Rightarrow> bool" where
  "returns_with m P = (case m of Ok _ s \<Rightarrow> P s | _ \<Rightarrow> False)"

lemma returns_with_iff: "returns_with m P \<longleftrightarrow> (\<exists>x s. m = Ok x s \<and> P s)"
  by (cases m) (simp_all add: returns_with_def)

theorem attach_is_migration_witness:
  "\<exists>th1 r1 s1 th2. detach_thread sample_runtime (replicate 7 0) 77 1 sample_thread = Ok () th1 \<and>
    receiver (server_state th1) = RShm r1 \<and> sender (server_state th1) = SShm s1 \<and>
    launch_attach sample_runtime False 77 1 (ring r1, ring s1) new_process = Ok () th2 \<and>
    receiver_content (receiver (server_state th2)) = serialize sample_handles \<and> is_pinned th2 \<and>
    active_modules (kernels (world (server_state th2))) = [11, 9, 11]"
proof -
  let ?c = "the (kernel_checkpoint (manager_after client1))" and ?bss = "read_all patterned_copies (ck_segments sample_meta0) 2"
  have "returns_with (detach_thread sample_runtime (replicate 7 0) 77 1 sample_thread) (\<lambda>th1.
      case (receiver (server_state th1), sender (server_state th1)) of
        (RShm r1, SShm s1) \<Rightarrow>
          returns_with (migrate sample_runtime True ?c sample_meta0 ?bss sample_handles (ring r1, ring s1) new_process) (\<lambda>th2.
            receiver_content (receiver (server_state th2)) = serialize sample_handles \<and> is_pinned th2 \<and>
            active_modules (kernels (world (server_state th2))) = [11, 9, 11])
      | _ \<Rightarrow> False)" by code_simp
  then obtain th1 where detach: "detach_thread sample_runtime (replicate 7 0) 77 1 sample_thread = Ok () th1"
    and ends: "case (receiver (server_state th1), sender (server_state th1)) of
        (RShm r1, SShm s1) \<Rightarrow>
          returns_with (migrate sample_runtime True ?c sample_meta0 ?bss sample_handles (ring r1, ring s1) new_process) (\<lambda>th2.
            receiver_content (receiver (server_state th2)) = serialize sample_handles \<and> is_pinned th2 \<and>
            active_modules (kernels (world (server_state th2))) = [11, 9, 11])
      | _ \<Rightarrow> False" unfolding returns_with_iff by (elim exE conjE) simp
  from ends obtain r1 s1 where rings: "receiver (server_state th1) = RShm r1" "sender (server_state th1) = SShm s1"
    by (cases "receiver (server_state th1)"; cases "sender (server_state th1)") simp_all
  from ends obtain th2 where mig: "migrate sample_runtime True ?c sample_meta0 ?bss sample_handles (ring r1, ring s1) new_process = Ok () th2"
    and th2: "receiver_content (receiver (server_state th2)) = serialize sample_handles" "is_pinned th2"
      "active_modules (kernels (world (server_state th2))) = [11, 9, 11]"
    unfolding rings by (auto simp: returns_with_iff)
  have ck: "checkpoint_meta counting_driver (one_segment, 2) = Some (Inl sample_meta0, one_segment, 2)" by code_simp
  have k: "kernel_checkpoint (manager_after client1) = Some ?c"
    "decode_checkpoint example_codec (encode_checkpoint example_codec ?c) = Some ?c" by code_simp+
  have full: "full_copies patterned_copies" by (auto simp: full_copies_def patterned_copies_def)
  have th: "receiver (server_state sample_thread) = RShm (start idle120)" "sender (server_state sample_thread) = SShm (start idle120)"
    "standby_cache (world (server_state sample_thread)) = None" "length (data (ring (start idle120))) < 2 ^ 63"
    "memory_inner sample_runtime (world (server_state sample_thread)) = Ok (Inl one_segment) (world (server_state sample_thread))"
    by (simp_all add: sample_thread_def start_def idle120_def memory_inner_def)
  have "launch_attach sample_runtime False 77 1 (ring r1, ring s1) new_process = Ok () th2"
    using attach_is_migration [where 'n = u64, OF detach th(3) th(1,2) _ _ th(4,4)] full k th(5) ck rings mig
    by (auto simp: sample_runtime_def sample_thread_def)
  then show ?thesis using detach rings th2 by blast
qed

end
