(* ===== verification/Daemon.thy ===== *)
theory Daemon
  imports Prelude BTree Standby
begin

text \<open>
  The daemon (\<open>server/src/daemon.rs\<close> and \<open>server/src/phos/daemon.rs\<close>): it starts one server process
  for every client process, numbers the client threads, and carries out the commands of the
  user: checkpoint and restore a job, detach and attach a client, keep a standby process. The
  daemon serves one request at a time: a connection is served to its end before the next one is
  accepted, and a panic in a handler ends the daemon.
\<close>

section \<open>Processes and their control channels\<close>

text \<open>
  The server processes are a parameter. A control channel is a number. \<open>waitpid\<close> are the processes that
  have ended since it was last asked, \<open>spawn\<close> is \<open>spawn_worker\<close>, which returns the process number
  and the channel, \<open>rpc\<close> is a call through a channel, whose failure is unwrapped, and \<open>criu\<close> is the
  restore of the client processes.
\<close>

datatype mode = Kill | LeaveRunning | Detach

datatype ctl_call =
    Create_Thread int u32
  | Checkpoint_Process string string mode
  | Restore_Process string string u32 "int list"
  | Control_Attach int u32
  | Control_Standby "(u32 \<times> int) list" string
  | Control_Detach

record 'p os =
  waitpid :: "'p \<Rightarrow> int list \<times> 'p"
  spawn :: "string \<Rightarrow> 'p \<Rightarrow> ((int \<times> nat) \<times> 'p) option"
  rpc :: "nat \<Rightarrow> ctl_call \<Rightarrow> 'p \<Rightarrow> (u32 list option \<times> 'p) option"
  criu :: "string \<Rightarrow> 'p \<Rightarrow> 'p"

section \<open>The state\<close>

record Child =
  job_name :: string
  cuda_visible_devices :: string
  control :: "(int \<times> nat) option"
  ids :: "int list"

record StandbyWorker =
  sw_pid :: int
  sw_control :: nat
  sw_clients :: "u32 list"

record DaemonInner =
  next_client :: int
  children :: "(u32, Child) btree"
  standby_worker :: "StandbyWorker option"

definition DaemonInner_default :: DaemonInner where
  "DaemonInner_default = \<lparr>next_client = 0, children = [], standby_worker = None\<rparr>"

type_synonym ('a, 'p) daemon_op = "DaemonInner \<times> 'p \<Rightarrow> ('a, DaemonInner \<times> 'p) exec"

text \<open>Thread numbers are \<open>i32\<close> and wrap, as they do in an optimised build.\<close>

definition i32_wrap :: "int \<Rightarrow> int" where
  "i32_wrap n = (n + 2147483648) mod 4294967296 - 2147483648"

definition next_id :: "DaemonInner \<Rightarrow> int \<times> DaemonInner" where
  "next_id d = (next_client d, d\<lparr>next_client := i32_wrap (next_client d + 1)\<rparr>)"

definition reserve_ids :: "int \<Rightarrow> int \<Rightarrow> (unit, 'p) daemon_op" where
  "reserve_ids min_id max_id = (\<lambda>(d, p).
     if next_client d \<le> min_id \<and> min_id \<le> max_id
     then Ok () (d\<lparr>next_client := i32_wrap (max_id + 1)\<rparr>, p)
     else Abort ''assertion failed: self.next_id <= min_id && min_id <= max_id'')"

definition controls_for_job :: "string \<Rightarrow> DaemonInner \<Rightarrow> nat list" where
  "controls_for_job job d =
     map snd (List.map_filter (\<lambda>(_, c). if job_name c = job then control c else None) (children d))"

text \<open>Children that have ended are forgotten; a detached client has no process that could end.\<close>

definition alive :: "int list \<Rightarrow> Child \<Rightarrow> bool" where
  "alive finished c = (case control c of None \<Rightarrow> True | Some (pid, _) \<Rightarrow> pid \<notin> set finished)"

definition reap_children :: "'p os \<Rightarrow> DaemonInner \<times> 'p \<Rightarrow> DaemonInner \<times> 'p" where
  "reap_children os = (\<lambda>(d, p).
     let (finished, p) = waitpid os p
     in if finished = [] then (d, p)
        else (d\<lparr>standby_worker := (case standby_worker d of
                                     None \<Rightarrow> None
                                   | Some s \<Rightarrow> if sw_pid s \<in> set finished then None else Some s),
                children := filter (\<lambda>(_, c). alive finished c) (children d)\<rparr>, p))"

definition spawn_worker :: "'p os \<Rightarrow> string \<Rightarrow> (int \<times> nat, 'p) daemon_op" where
  "spawn_worker os cvd = (\<lambda>(d, p).
     case spawn os cvd p of None \<Rightarrow> Abort ''worker did not start'' | Some (c, p) \<Rightarrow> Ok c (d, p))"

definition control_rpc :: "'p os \<Rightarrow> nat \<Rightarrow> ctl_call \<Rightarrow> (u32 list option, 'p) daemon_op" where
  "control_rpc os c q = (\<lambda>(d, p).
     case rpc os c q p of None \<Rightarrow> Abort ''called Result::unwrap() on an Err value'' | Some (r, p) \<Rightarrow> Ok r (d, p))"

definition put_child :: "u32 \<Rightarrow> Child \<Rightarrow> DaemonInner \<Rightarrow> DaemonInner" where
  "put_child pid c d = d\<lparr>children := bt_insert pid c (children d)\<rparr>"

text \<open>The functions that return a reference to a child return the child; the caller puts it back.\<close>

definition get_or_spawn_child :: "'p os \<Rightarrow> u32 \<Rightarrow> string \<Rightarrow> string \<Rightarrow> (Child, 'p) daemon_op" where
  "get_or_spawn_child os pid job cvd s =
     (let (d, p) = reap_children os s
      in case bt_get (children d) pid of
           Some c \<Rightarrow>
             if job_name c \<noteq> job \<or> cuda_visible_devices c \<noteq> cvd then Abort ''assertion failed: left == right''
             else Ok c (d, p)
         | None \<Rightarrow>
             exec_bind (spawn_worker os cvd (d, p)) (\<lambda>ctl (d, p).
               let c = \<lparr>job_name = job, cuda_visible_devices = cvd, control = Some ctl, ids = []\<rparr>
               in Ok c (put_child pid c d, p)))"

definition get_child_mut :: "u32 \<Rightarrow> (Child, 'p) daemon_op" where
  "get_child_mut pid = (\<lambda>(d, p).
     case bt_get (children d) pid of None \<Rightarrow> Abort ''unknown client_pid'' | Some c \<Rightarrow> Ok c (d, p))"

definition detach :: "'p os \<Rightarrow> u32 \<Rightarrow> (nat, 'p) daemon_op" where
  "detach os pid s =
     exec_bind (get_child_mut pid (reap_children os s)) (\<lambda>c (d, p).
       if length (ids c) \<noteq> 1 then Abort ''must have exactly one client id''
       else case control c of
              None \<Rightarrow> Abort ''already detached''
            | Some (_, ctl) \<Rightarrow> Ok ctl (put_child pid (c\<lparr>control := None\<rparr>) d, p))"

definition get_child_for_attach :: "'p os \<Rightarrow> u32 \<Rightarrow> (Child, 'p) daemon_op" where
  "get_child_for_attach os pid s =
     exec_bind (get_child_mut pid (reap_children os s)) (\<lambda>c s.
       if length (ids c) \<noteq> 1 then Abort ''must have exactly one client id''
       else if control c \<noteq> None then Abort ''is not detached''
       else Ok c s)"

text \<open>
  The loop of \<open>standby_request\<close>, with the set of seen clients and the devices of the first one. The
  thread number is the first of the child, whose absence would be a panic.
\<close>

fun standby_clients :: "DaemonInner \<Rightarrow> u32 list \<Rightarrow> u32 list \<Rightarrow> string option \<Rightarrow> ((u32 \<times> int) list \<times> string option, unit) exec" where
  "standby_clients d seen [] cvd = Ok ([], cvd) ()"
| "standby_clients d seen (pid # pids) cvd =
     (if pid \<in> set seen then Abort ''duplicate client_pid in standby list''
      else case bt_get (children d) pid of
             None \<Rightarrow> Abort ''unknown client_pid''
           | Some c \<Rightarrow>
               if control c \<noteq> None then Abort ''is not detached''
               else if cvd \<noteq> None \<and> cvd \<noteq> Some (cuda_visible_devices c)
               then Abort ''standby target must share CUDA_VISIBLE_DEVICES''
               else if ids c = [] then Abort ''index out of bounds''
               else exec_bind (standby_clients d (pid # seen) pids (Some (cuda_visible_devices c))) (\<lambda>(cs, cvd) _.
                      Ok ((pid, hd (ids c)) # cs, cvd) ()))"

definition standby_request :: "u32 list \<Rightarrow> DaemonInner \<Rightarrow> ((u32 \<times> int) list \<times> string, unit) exec" where
  "standby_request pids d =
     (if pids = [] then Abort ''standby target pids cannot be empty''
      else if standby_worker d \<noteq> None then Abort ''standby worker already exists''
      else exec_bind (standby_clients d [] pids None) (\<lambda>(cs, cvd) _.
             case cvd of None \<Rightarrow> Abort ''called Option::unwrap() on a None value'' | Some v \<Rightarrow> Ok (cs, v) ()))"

definition set_standby_worker :: "StandbyWorker \<Rightarrow> (unit, 'p) daemon_op" where
  "set_standby_worker w = (\<lambda>(d, p).
     if standby_worker d \<noteq> None then Abort ''standby worker already exists''
     else Ok () (d\<lparr>standby_worker := Some w\<rparr>, p))"

definition take_standby_worker :: "u32 \<Rightarrow> DaemonInner \<Rightarrow> StandbyWorker option \<times> DaemonInner" where
  "take_standby_worker pid d =
     (case standby_worker d of
        Some w \<Rightarrow> if pid \<in> set (sw_clients w) then (Some w, d\<lparr>standby_worker := None\<rparr>) else (None, d)
      | None \<Rightarrow> (None, d))"

section \<open>The directory of a checkpoint\<close>

text \<open>
  \<open>RestoreInfo::scan\<close> looks for directories named after a client process and a thread. The
  numbers are parsed like Rust does: an optional sign, a minus only for signed types, then at
  least one decimal digit and nothing else, and no overflow.
\<close>

definition digit :: "char \<Rightarrow> int option" where
  "digit c = (let n = (of_char c :: nat) in if 48 \<le> n \<and> n \<le> 57 then Some (int n - 48) else None)"

fun digits :: "string \<Rightarrow> int \<Rightarrow> int option" where
  "digits [] n = Some n"
| "digits (c # cs) n = (case digit c of None \<Rightarrow> None | Some k \<Rightarrow> digits cs (10 * n + k))"

definition natural :: "string \<Rightarrow> int option" where
  "natural s = (if s = [] then None else digits s 0)"

definition in_range :: "int \<Rightarrow> int \<Rightarrow> int option \<Rightarrow> int option" where
  "in_range lo hi n = (case n of None \<Rightarrow> None | Some k \<Rightarrow> if lo \<le> k \<and> k \<le> hi then Some k else None)"

definition parse_u32 :: "string \<Rightarrow> u32 option" where
  "parse_u32 s =
     map_option of_int (in_range 0 4294967295
       (natural (case s of [] \<Rightarrow> s | c # cs \<Rightarrow> if c = CHR ''+'' then cs else s)))"

definition parse_i32 :: "string \<Rightarrow> int option" where
  "parse_i32 s = in_range (-2147483648) 2147483647
     (case s of
        [] \<Rightarrow> None
      | c # cs \<Rightarrow> if c = CHR ''+'' then natural cs
                  else if c = CHR ''-'' then map_option uminus (natural cs) else natural s)"

definition split_once :: "char \<Rightarrow> string \<Rightarrow> (string \<times> string) option" where
  "split_once sep s =
     (let a = takeWhile (\<lambda>c. c \<noteq> sep) s
      in if length a = length s then None else Some (a, drop (Suc (length a)) s))"

record RestoreInfo =
  pid_to_ids :: "(u32, int list) btree"
  min_id :: int
  max_id :: int

definition scan_entry :: "string \<times> bool \<Rightarrow> RestoreInfo \<Rightarrow> RestoreInfo" where
  "scan_entry = (\<lambda>(name, is_dir) info.
     if \<not> is_dir then info
     else case split_once CHR ''_'' name of
            None \<Rightarrow> info
          | Some (a, b) \<Rightarrow>
              (case (parse_u32 a, parse_i32 b) of
                 (Some pid, Some i) \<Rightarrow>
                   info\<lparr>pid_to_ids := bt_insert pid ((case bt_get (pid_to_ids info) pid of None \<Rightarrow> [] | Some is \<Rightarrow> is) @ [i]) (pid_to_ids info),
                     min_id := min (min_id info) i, max_id := max (max_id info) i\<rparr>
               | _ \<Rightarrow> info))"

definition scan :: "(string \<times> bool) list \<Rightarrow> RestoreInfo" where
  "scan entries = fold scan_entry entries \<lparr>pid_to_ids = [], min_id = 2147483647, max_id = 0\<rparr>"

section \<open>The handlers\<close>

text \<open>
  \<open>compatible\<close> is the assertion that the client was built and configured like the daemon;
  \<open>job\<close> and \<open>entries\<close> are what a checkpoint directory holds, \<open>same_config\<close> is the comparison of its
  configuration with the daemon's.
\<close>

datatype daemon_request =
    New_Client_Thread u32 string string bool
  | Checkpoint_Job string string mode
  | Restore_Job string string "(string \<times> bool) list" bool string
  | Detach_Client u32
  | Attach_Client u32
  | Standby_Clients "u32 list"
  | Child_Signal

definition new_client_thread :: "'p os \<Rightarrow> u32 \<Rightarrow> string \<Rightarrow> string \<Rightarrow> bool \<Rightarrow> (int, 'p) daemon_op" where
  "new_client_thread os pid job cvd compatible = (\<lambda>(d, p).
     if \<not> compatible then Abort ''assertion failed: left == right''
     else let (i, d) = next_id d
          in exec_bind (get_or_spawn_child os pid job cvd (d, p)) (\<lambda>c s.
               case control c of
                 None \<Rightarrow> Abort ''worker is detached''
               | Some (_, ctl) \<Rightarrow>
                   exec_bind (control_rpc os ctl (Create_Thread i pid) s) (\<lambda>_ (d, p).
                     Ok i (put_child pid (c\<lparr>ids := ids c @ [i]\<rparr>) d, p))))"

fun rpc_all :: "'p os \<Rightarrow> (nat \<times> ctl_call) list \<Rightarrow> (unit, 'p) daemon_op" where
  "rpc_all os [] s = Ok () s"
| "rpc_all os ((c, q) # qs) s = exec_bind (control_rpc os c q s) (\<lambda>_. rpc_all os qs)"

definition checkpoint_job :: "'p os \<Rightarrow> string \<Rightarrow> string \<Rightarrow> mode \<Rightarrow> (unit, 'p) daemon_op" where
  "checkpoint_job os job dir md = (\<lambda>(d, p).
     rpc_all os (map (\<lambda>c. (c, Checkpoint_Process job dir md)) (controls_for_job job d)) (d, p))"

fun restore_children :: "'p os \<Rightarrow> string \<Rightarrow> string \<Rightarrow> string \<Rightarrow> (u32 \<times> int list) list \<Rightarrow> ((nat \<times> ctl_call) list, 'p) daemon_op" where
  "restore_children os job dir cvd [] s = Ok [] s"
| "restore_children os job dir cvd ((pid, is) # es) s =
     exec_bind (get_or_spawn_child os pid job cvd s) (\<lambda>c (d, p).
       case control c of
         None \<Rightarrow> Abort ''restore target is detached''
       | Some (_, ctl) \<Rightarrow>
           exec_bind (restore_children os job dir cvd es (put_child pid (c\<lparr>ids := is\<rparr>) d, p)) (\<lambda>qs.
             Ok ((ctl, Restore_Process job dir pid is) # qs)))"

definition restore_job :: "'p os \<Rightarrow> string \<Rightarrow> string \<Rightarrow> (string \<times> bool) list \<Rightarrow> bool \<Rightarrow> string \<Rightarrow> (unit, 'p) daemon_op" where
  "restore_job os dir job entries same_config cvd s =
     (let info = scan entries
      in if \<not> same_config then Abort ''assertion failed: left == right''
         else exec_bind (reserve_ids (min_id info) (max_id info) s) (\<lambda>_ s.
              exec_bind (restore_children os job dir cvd (pid_to_ids info) s) (\<lambda>qs s.
              exec_bind (rpc_all os qs s) (\<lambda>_ (d, p). Ok () (d, criu os dir p)))))"

definition detach_client :: "'p os \<Rightarrow> u32 \<Rightarrow> (unit, 'p) daemon_op" where
  "detach_client os pid s =
     exec_bind (get_child_mut pid s) (\<lambda>c s.
       case control c of
         None \<Rightarrow> Abort ''already detached''
       | Some (worker_pid, _) \<Rightarrow>
           exec_bind (detach os pid s) (\<lambda>ctl s.
           exec_bind (control_rpc os ctl (Checkpoint_Process '''' '''' Detach) s) (\<lambda>_ s.
           exec_bind (control_rpc os ctl Control_Detach s) (\<lambda>r s.
             case r of
               None \<Rightarrow> Ok () s
             | Some pids \<Rightarrow> set_standby_worker \<lparr>sw_pid = worker_pid, sw_control = ctl, sw_clients = pids\<rparr> s))))"

definition attach_client :: "'p os \<Rightarrow> u32 \<Rightarrow> (unit, 'p) daemon_op" where
  "attach_client os pid = (\<lambda>(d, p).
     let (standby, d) = take_standby_worker pid d
     in exec_bind (get_child_for_attach os pid (d, p)) (\<lambda>c s.
        exec_bind (case standby of
                     Some w \<Rightarrow> Ok (sw_pid w, sw_control w) s
                   | None \<Rightarrow> spawn_worker os (cuda_visible_devices c) s) (\<lambda>(worker_pid, ctl) s.
        exec_bind (control_rpc os ctl (Control_Attach (hd (ids c)) pid) s) (\<lambda>_ (d, p).
          Ok () (put_child pid (c\<lparr>control := Some (worker_pid, ctl)\<rparr>) d, p)))))"

definition standby_clients_request :: "'p os \<Rightarrow> u32 list \<Rightarrow> (unit, 'p) daemon_op" where
  "standby_clients_request os pids = (\<lambda>(d, p).
     case standby_request pids d of
       Ok (cs, cvd) _ \<Rightarrow>
         exec_bind (spawn_worker os cvd (d, p)) (\<lambda>(worker_pid, ctl) s.
         exec_bind (control_rpc os ctl (Control_Standby cs cvd) s) (\<lambda>_.
           set_standby_worker \<lparr>sw_pid = worker_pid, sw_control = ctl, sw_clients = pids\<rparr>))
     | Exit c _ \<Rightarrow> Exit c (d, p)
     | Abort msg \<Rightarrow> Abort msg
     | Undef msg \<Rightarrow> Undef msg)"

fun daemon_step :: "'p os \<Rightarrow> daemon_request \<Rightarrow> (int option, 'p) daemon_op" where
  "daemon_step os (New_Client_Thread pid job cvd ok) s = exec_bind (new_client_thread os pid job cvd ok s) (\<lambda>i. Ok (Some i))"
| "daemon_step os (Checkpoint_Job job dir md) s = exec_bind (checkpoint_job os job dir md s) (\<lambda>_. Ok None)"
| "daemon_step os (Restore_Job dir job es same cvd) s = exec_bind (restore_job os dir job es same cvd s) (\<lambda>_. Ok None)"
| "daemon_step os (Detach_Client pid) s = exec_bind (detach_client os pid s) (\<lambda>_. Ok None)"
| "daemon_step os (Attach_Client pid) s = exec_bind (attach_client os pid s) (\<lambda>_. Ok None)"
| "daemon_step os (Standby_Clients pids) s = exec_bind (standby_clients_request os pids s) (\<lambda>_. Ok None)"
| "daemon_step os Child_Signal s = Ok None (reap_children os s)"

fun daemon_run :: "'p os \<Rightarrow> daemon_request list \<Rightarrow> (int option list, 'p) daemon_op" where
  "daemon_run os [] s = Ok [] s"
| "daemon_run os (q # qs) s =
     exec_bind (daemon_step os q s) (\<lambda>a s. exec_bind (daemon_run os qs s) (\<lambda>as. Ok (a # as)))"

section \<open>The invariant\<close>

text \<open>
  The thread numbers of all children lie in \<open>{0..<n}\<close> and, if \<open>u\<close> is set, are different; a detached client
  has exactly one; and every child has one, except those of \<open>X\<close>, whose first thread is being made.
\<close>

definition child_ok :: "bool \<Rightarrow> bool \<Rightarrow> int \<Rightarrow> Child \<Rightarrow> bool" where
  "child_ok u may_be_new n c \<longleftrightarrow> (u \<longrightarrow> distinct (ids c)) \<and> set (ids c) \<subseteq> {0..<n} \<and> (ids c = [] \<longrightarrow> may_be_new) \<and>
     (control c = None \<longrightarrow> length (ids c) = 1)"

definition apart :: "Child \<Rightarrow> Child \<Rightarrow> bool" where
  "apart c c' \<longleftrightarrow> set (ids c) \<inter> set (ids c') = {}"

definition daemon_inv :: "bool \<Rightarrow> u32 set \<Rightarrow> int \<Rightarrow> DaemonInner \<Rightarrow> bool" where
  "daemon_inv u X n d \<longleftrightarrow> bt_inv (children d) \<and>
     (\<forall>pid c. bt_get (children d) pid = Some c \<longrightarrow> child_ok u (pid \<in> X) n c) \<and>
     (u \<longrightarrow> (\<forall>pid pid' c c'. bt_get (children d) pid = Some c \<longrightarrow> bt_get (children d) pid' = Some c' \<longrightarrow> pid \<noteq> pid' \<longrightarrow> apart c c'))"

definition daemon_ok :: "bool \<Rightarrow> DaemonInner \<Rightarrow> bool" where
  "daemon_ok u d \<longleftrightarrow> 0 \<le> next_client d \<and> daemon_inv u {} (next_client d) d"

lemma daemon_inv_next [simp]:
  "daemon_inv u X n (d\<lparr>next_client := k\<rparr>) = daemon_inv u X n d"
  "daemon_inv u X n (d\<lparr>standby_worker := w\<rparr>) = daemon_inv u X n d"
  by (simp_all add: daemon_inv_def)

lemma daemon_inv_mono: "daemon_inv u X n d \<Longrightarrow> n \<le> n' \<Longrightarrow> X \<subseteq> X' \<Longrightarrow> daemon_inv u X' n' d"
  unfolding daemon_inv_def child_ok_def by fastforce

lemma daemon_inv_put:
  assumes "daemon_inv u X n d" and "child_ok u (pid \<in> Y) n c" and "X - {pid} \<subseteq> Y"
    and "\<And>pid' c'. u \<Longrightarrow> pid' \<noteq> pid \<Longrightarrow> bt_get (children d) pid' = Some c' \<Longrightarrow> apart c c'"
  shows "daemon_inv u Y n (put_child pid c d)"
proof -
  have inv: "bt_inv (children d)" using assms(1) by (simp add: daemon_inv_def)
  have get: "bt_get (children (put_child pid c d)) j = (if j = pid then Some c else bt_get (children d) j)" for j
    by (simp add: put_child_def bt.get_insert [OF inv])
  have "child_ok u (j \<in> Y) n c'" if "bt_get (children (put_child pid c d)) j = Some c'" for j c'
  proof (cases "j = pid")
    case False
    then have "child_ok u (j \<in> X) n c'" using that assms(1) by (simp add: get daemon_inv_def)
    moreover have "j \<in> X \<longrightarrow> j \<in> Y" using assms(3) False by auto
    ultimately show ?thesis by (auto simp: child_ok_def)
  qed (use that assms(2) get in simp)
  moreover have "apart c1 c2" if "u" "bt_get (children (put_child pid c d)) j = Some c1"
    "bt_get (children (put_child pid c d)) k = Some c2" "j \<noteq> k" for j k c1 c2
  proof -
    have "apart c1 c2" if "bt_get (children d) j = Some c1" "bt_get (children d) k = Some c2"
      using assms(1) that \<open>u\<close> \<open>j \<noteq> k\<close> unfolding daemon_inv_def by blast
    moreover have "apart c2 c \<longleftrightarrow> apart c c2" "apart c1 c \<longleftrightarrow> apart c c1" by (auto simp: apart_def)
    ultimately show ?thesis
      using that assms(4) [of j c1] assms(4) [of k c2] by (auto simp: get split: if_splits)
  qed
  ultimately show ?thesis using bt.inv_insert [OF inv] by (auto simp: daemon_inv_def put_child_def)
qed

lemma daemon_inv_same_ids:
  assumes "daemon_inv u X n d" and "bt_get (children d) pid = Some c" and "ids c' = ids c" and "control c' = None \<longrightarrow> length (ids c) = 1"
  shows "daemon_inv u X n (put_child pid c' d)"
proof (rule daemon_inv_put [OF assms(1)])
  show "child_ok u (pid \<in> X) n c'" using assms by (auto simp: daemon_inv_def child_ok_def)
  show "apart c' c2" if "u" "pid' \<noteq> pid" "bt_get (children d) pid' = Some c2" for pid' c2
    using assms(1-3) that unfolding daemon_inv_def apart_def by metis
qed simp

section \<open>What the operations keep\<close>

lemma reap_get:
  assumes "reap_children os (d, p) = (d', p')" and "bt_inv (children d)"
  shows "next_client d' = next_client d" and "bt_inv (children d')"
    and "bt_get (children d') pid = Some c \<Longrightarrow> bt_get (children d) pid = Some c"
proof -
  obtain fin q where fin: "waitpid os p = (fin, q)" by fastforce
  have sub: "sorted_wrt (<) (map fst (filter P m))" if "sorted_wrt (<) (map fst m)" for P and m :: "(u32, Child) btree"
    using that by (induction m) auto
  show "next_client d' = next_client d" "bt_inv (children d')"
    using assms sub by (auto simp: reap_children_def fin bt_inv_def split: if_splits)
  then show "bt_get (children d) pid = Some c" if "bt_get (children d') pid = Some c"
    using that assms by (auto simp: reap_children_def fin bt.entries_get [symmetric] bt_get_def bt_entries [symmetric] split: if_splits)
qed

lemma reap_inv:
  assumes "reap_children os (d, p) = (d', p')" and "daemon_inv u X n d"
  shows "daemon_inv u X n d'" and "next_client d' = next_client d"
proof -
  have inv: "bt_inv (children d)" using assms(2) by (simp add: daemon_inv_def)
  show "next_client d' = next_client d" by (rule reap_get(1) [OF assms(1) inv])
  show "daemon_inv u X n d'"
    using assms(2) reap_get(2,3) [OF assms(1) inv] unfolding daemon_inv_def by blast
qed

lemma control_rpc_keeps: "control_rpc os c q (d, p) = Ok r (d', p') \<Longrightarrow> d' = d"
  by (auto simp: control_rpc_def split: option.splits)

lemma spawn_worker_keeps: "spawn_worker os cvd (d, p) = Ok r (d', p') \<Longrightarrow> d' = d"
  by (auto simp: spawn_worker_def split: option.splits)

lemma rpc_all_keeps: "rpc_all os qs (d, p) = Ok r (d', p') \<Longrightarrow> d' = d"
proof (induction qs arbitrary: p)
  case (Cons q qs)
  then show ?case by (cases q) (auto simp: exec_bind_eq_Ok dest!: control_rpc_keeps)
qed simp

lemma get_or_spawn_child_inv:
  assumes "get_or_spawn_child os pid job cvd (d, p) = Ok c (d', p')" and "daemon_inv u {} n d"
  shows "daemon_inv u {pid} n d'" and "bt_get (children d') pid = Some c" and "next_client d' = next_client d"
    and "control c = None \<Longrightarrow> bt_get (children d) pid = Some c"
    and "ids c = [] \<or> bt_get (children d) pid = Some c"
    and "pid' \<noteq> pid \<Longrightarrow> bt_get (children d') pid' = Some c' \<Longrightarrow> bt_get (children d) pid' = Some c'"
proof -
  obtain d1 p1 where reap: "reap_children os (d, p) = (d1, p1)" by fastforce
  have inv: "bt_inv (children d)" using assms(2) by (simp add: daemon_inv_def)
  note r = reap_inv [OF reap assms(2)] and g = reap_get(3) [OF reap inv]
  have inv1: "bt_inv (children d1)" using r(1) by (simp add: daemon_inv_def)
  consider (old) "bt_get (children d1) pid = Some c" "d' = d1"
    | (fresh) "bt_get (children d1) pid = None" "d' = put_child pid c d1" "ids c = []" "control c \<noteq> None"
    using assms(1) reap
    by (auto simp: get_or_spawn_child_def exec_bind_eq_Ok Let_def dest!: spawn_worker_keeps split: option.splits if_splits)
  then have "daemon_inv u {pid} n d' \<and> bt_get (children d') pid = Some c \<and> next_client d' = next_client d \<and>
    (control c = None \<longrightarrow> bt_get (children d) pid = Some c) \<and> (ids c = [] \<or> bt_get (children d) pid = Some c) \<and>
    (\<forall>pid' c'. pid' \<noteq> pid \<longrightarrow> bt_get (children d') pid' = Some c' \<longrightarrow> bt_get (children d) pid' = Some c')"
  proof cases
    case old
    then show ?thesis using r g daemon_inv_mono [OF r(1), of n "{pid}"] by auto
  next
    case fresh
    have "daemon_inv u {pid} n (put_child pid c d1)"
      by (rule daemon_inv_put [OF r(1)]) (use fresh in \<open>auto simp: child_ok_def apart_def\<close>)
    then show ?thesis using fresh r(2) g by (auto simp: put_child_def bt.get_insert [OF inv1] split: if_splits)
  qed
  then show "daemon_inv u {pid} n d'" "bt_get (children d') pid = Some c" "next_client d' = next_client d"
    "control c = None \<Longrightarrow> bt_get (children d) pid = Some c" "ids c = [] \<or> bt_get (children d) pid = Some c"
    "pid' \<noteq> pid \<Longrightarrow> bt_get (children d') pid' = Some c' \<Longrightarrow> bt_get (children d) pid' = Some c'" by auto
qed

lemma new_client_thread_inv:
  assumes run: "new_client_thread os pid job cvd ok (d, p) = Ok i (d', p')" and ok: "daemon_ok u d" and "next_client d < 2147483647"
  shows "daemon_ok u d'" and "i = next_client d" and "next_client d' = next_client d + 1"
proof -
  let ?n = "next_client d"
  have n: "0 \<le> ?n" "daemon_inv u {} ?n d" using ok by (simp_all add: daemon_ok_def)
  have wrap: "i32_wrap (?n + 1) = ?n + 1" using n(1) assms(3) by (simp add: i32_wrap_def)
  let ?d = "d\<lparr>next_client := ?n + 1\<rparr>"
  obtain c d1 p1 ctl where g: "get_or_spawn_child os pid job cvd (?d, p) = Ok c (d1, p1)" and ctl: "control c = Some ctl"
    and d': "d' = put_child pid (c\<lparr>ids := ids c @ [?n]\<rparr>) d1" and i: "i = ?n"
  proof -
    have "ok" using run by (cases ok) (simp_all add: new_client_thread_def)
    then have "exec_bind (get_or_spawn_child os pid job cvd (?d, p)) (\<lambda>c s. case control c of
        None \<Rightarrow> Abort ''worker is detached''
      | Some (_, ctl) \<Rightarrow> exec_bind (control_rpc os ctl (Create_Thread ?n pid) s) (\<lambda>_ (d, p).
          Ok ?n (put_child pid (c\<lparr>ids := ids c @ [?n]\<rparr>) d, p))) = Ok i (d', p')"
      using run by (simp add: new_client_thread_def next_id_def wrap)
    then obtain c d1 p1 where g: "get_or_spawn_child os pid job cvd (?d, p) = Ok c (d1, p1)"
      and rest: "(case control c of None \<Rightarrow> Abort ''worker is detached''
        | Some (_, ctl) \<Rightarrow> exec_bind (control_rpc os ctl (Create_Thread ?n pid) (d1, p1)) (\<lambda>_ (d, p).
            Ok ?n (put_child pid (c\<lparr>ids := ids c @ [?n]\<rparr>) d, p))) = Ok i (d', p')"
      unfolding exec_bind_eq_Ok by auto
    from rest obtain w ctl r d2 p2 where ctl: "control c = Some (w, ctl)"
      and keep: "control_rpc os ctl (Create_Thread ?n pid) (d1, p1) = Ok r (d2, p2)"
      and d': "d' = put_child pid (c\<lparr>ids := ids c @ [?n]\<rparr>) d2" and i: "i = ?n"
      by (cases "control c") (auto simp: exec_bind_eq_Ok)
    from that [OF g ctl d' [unfolded control_rpc_keeps [OF keep]] i] show thesis .
  qed
  have "daemon_inv u {} ?n ?d" using n(2) by simp
  note s = get_or_spawn_child_inv [OF g this]
  have "child_ok u (pid \<in> {pid}) ?n c" using s(1,2) unfolding daemon_inv_def by blast
  then have c: "child_ok u True ?n c" by simp
  have "daemon_inv u {} (?n + 1) d'"
    unfolding d'
  proof (rule daemon_inv_put [OF daemon_inv_mono [OF s(1)]])
    show "child_ok u (pid \<in> {}) (?n + 1) (c\<lparr>ids := ids c @ [?n]\<rparr>)" using c ctl n(1) by (auto simp: child_ok_def)
    fix pid' c'
    assume o: "u" "pid' \<noteq> pid" "bt_get (children d1) pid' = Some c'"
    then have "apart c c'" "child_ok u (pid' \<in> {pid}) ?n c'" using s(1,2) unfolding daemon_inv_def by blast+
    then show "apart (c\<lparr>ids := ids c @ [?n]\<rparr>) c'" by (auto simp: apart_def child_ok_def)
  qed auto
  then show "daemon_ok u d'" "i = ?n" "next_client d' = ?n + 1" using s(3) n(1) i d' by (simp_all add: daemon_ok_def put_child_def)
qed

lemma detach_client_inv:
  assumes "detach_client os pid (d, p) = Ok r (d', p')" and "daemon_inv u {} n d"
  shows "daemon_inv u {} n d'" and "next_client d' = next_client d"
proof -
  obtain d1 p1 where reap: "reap_children os (d, p) = (d1, p1)" by fastforce
  note r = reap_inv [OF reap assms(2)]
  obtain c w where c: "bt_get (children d1) pid = Some c" "length (ids c) = 1"
    and d': "d' = (put_child pid (c\<lparr>control := None\<rparr>) d1)\<lparr>standby_worker := w\<rparr>"
  proof -
    obtain wp ctl d2 p2 d3 p3 d4 p4 r1 r2 where det: "detach os pid (d, p) = Ok ctl (d2, p2)"
      and "control_rpc os ctl (Checkpoint_Process '''' '''' Detach) (d2, p2) = Ok r1 (d3, p3)"
      and "control_rpc os ctl Control_Detach (d3, p3) = Ok r2 (d4, p4)"
      and fin: "(case r2 of None \<Rightarrow> Ok () (d4, p4)
        | Some pids \<Rightarrow> set_standby_worker \<lparr>sw_pid = wp, sw_control = ctl, sw_clients = pids\<rparr> (d4, p4)) = Ok r (d', p')"
      using assms(1) unfolding detach_client_def get_child_mut_def exec_bind_eq_Ok
      by (fastforce simp: exec_bind_eq_Ok split: option.splits)
    then have d4: "d4 = d2" by (auto dest!: control_rpc_keeps)
    obtain c where c: "bt_get (children d1) pid = Some c" "length (ids c) = 1" and d2: "d2 = put_child pid (c\<lparr>control := None\<rparr>) d1"
      using det reap by (auto simp: detach_def get_child_mut_def exec_bind_eq_Ok split: option.splits if_splits)
    have "d' = d2\<lparr>standby_worker := standby_worker d'\<rparr>"
      using fin d4 by (auto simp: set_standby_worker_def split: option.splits if_splits)
    then show thesis using that c d2 by blast
  qed
  have "daemon_inv u {} n (put_child pid (c\<lparr>control := None\<rparr>) d1)"
    by (rule daemon_inv_same_ids [OF r(1) c(1)]) (simp_all add: c(2))
  then show "daemon_inv u {} n d'" "next_client d' = next_client d" using d' r(2) by (simp_all add: put_child_def)
qed

lemma attach_client_inv:
  assumes "attach_client os pid (d, p) = Ok r (d', p')" and "daemon_inv u {} n d"
  shows "daemon_inv u {} n d'" and "next_client d' = next_client d"
proof -
  obtain st d0 where take: "take_standby_worker pid d = (st, d0)" by fastforce
  have d0: "daemon_inv u {} n d0" "next_client d0 = next_client d"
    using take assms(2) by (auto simp: take_standby_worker_def split: option.splits if_splits)
  obtain d1 p1 where reap: "reap_children os (d0, p) = (d1, p1)" by fastforce
  note r = reap_inv [OF reap d0(1)]
  obtain c ctl where c: "bt_get (children d1) pid = Some c" "length (ids c) = 1" and d': "d' = put_child pid (c\<lparr>control := Some ctl\<rparr>) d1"
    using assms(1) reap take
    by (auto simp: attach_client_def get_child_for_attach_def get_child_mut_def exec_bind_eq_Ok
        dest!: control_rpc_keeps spawn_worker_keeps split: option.splits if_splits)
  show "daemon_inv u {} n d'" unfolding d' by (rule daemon_inv_same_ids [OF r(1) c(1)]) simp_all
  show "next_client d' = next_client d" using d' r(2) d0(2) by (simp add: put_child_def)
qed

lemma standby_clients_request_inv:
  assumes "standby_clients_request os pids (d, p) = Ok r (d', p')" and "daemon_inv u {} n d"
  shows "daemon_inv u {} n d'" and "next_client d' = next_client d"
  using assms
  by (auto simp: standby_clients_request_def exec_bind_eq_Ok set_standby_worker_def
      dest!: control_rpc_keeps spawn_worker_keeps split: exec.splits prod.splits if_splits)

text \<open>What a scan finds lies between the two numbers that are reserved.\<close>

definition scan_ok :: "RestoreInfo \<Rightarrow> bool" where
  "scan_ok info \<longleftrightarrow> bt_inv (pid_to_ids info) \<and>
     (\<forall>pid ns. bt_get (pid_to_ids info) pid = Some ns \<longrightarrow> ns \<noteq> [] \<and> set ns \<subseteq> {min_id info..max_id info})"

lemma scan_add_ok:
  assumes "scan_ok info"
  shows "scan_ok (info\<lparr>pid_to_ids := bt_insert pid ((case bt_get (pid_to_ids info) pid of None \<Rightarrow> [] | Some ns \<Rightarrow> ns) @ [i]) (pid_to_ids info),
     min_id := min (min_id info) i, max_id := max (max_id info) i\<rparr>)"
proof -
  have inv: "bt_inv (pid_to_ids info)" using assms by (simp add: scan_ok_def)
  have "set ns \<subseteq> {min (min_id info) i..max (max_id info) i}" if "bt_get (pid_to_ids info) k = Some ns" for k ns
    using assms that by (fastforce simp: scan_ok_def)
  then show ?thesis
    using assms bt.inv_insert [OF inv]
    by (cases "bt_get (pid_to_ids info) pid") (fastforce simp: scan_ok_def bt.get_insert [OF inv] split: if_splits)+
qed

lemma scan_entry_ok: "scan_ok info \<Longrightarrow> scan_ok (scan_entry e info)"
  using scan_add_ok by (auto simp: scan_entry_def split: option.split prod.split)

lemma scan_scan_ok: "scan_ok (scan entries)"
proof -
  have "scan_ok (fold scan_entry es info)" if "scan_ok info" for es info
    using that by (induction es arbitrary: info) (simp_all add: scan_entry_ok)
  moreover have "scan_ok \<lparr>pid_to_ids = [], min_id = 2147483647, max_id = 0\<rparr>"
    by (simp add: scan_ok_def bt_inv_def bt_get_def)
  ultimately show ?thesis unfolding scan_def by blast
qed

definition ids_of :: "DaemonInner \<Rightarrow> int set" where
  "ids_of d = (\<Union>c \<in> ran (bt_get (children d)). set (ids c))"

lemma ids_of_get: "bt_get (children d) pid = Some c \<Longrightarrow> set (ids c) \<subseteq> ids_of d"
  unfolding ids_of_def by (auto intro: ranI)

lemma restore_children_inv:
  assumes "restore_children os job dir cvd es (d, p) = Ok qs (d', p')" and "daemon_inv u {} n d"
    and "u \<Longrightarrow> distinct (concat (map snd es))" and "u \<Longrightarrow> set (concat (map snd es)) \<inter> ids_of d = {}"
    and "set (concat (map snd es)) \<subseteq> {0..<n}" and "\<forall>e \<in> set es. snd e \<noteq> []"
  shows "daemon_inv u {} n d' \<and> next_client d' = next_client d"
  using assms
proof (induction es arbitrary: d p qs)
  case (Cons e es)
  obtain pid ns where e: "e = (pid, ns)" by fastforce
  from Cons.prems(1)[unfolded e restore_children.simps exec_bind_eq_Ok] obtain c d1 p1 where
    g: "get_or_spawn_child os pid job cvd (d, p) = Ok c (d1, p1)"
    and rest: "(case control c of None \<Rightarrow> Abort ''restore target is detached''
      | Some (_, ctl) \<Rightarrow> exec_bind (restore_children os job dir cvd es (put_child pid (c\<lparr>ids := ns\<rparr>) d1, p1)) (\<lambda>qs.
          Ok ((ctl, Restore_Process job dir pid ns) # qs))) = Ok qs (d', p')" by auto
  then obtain w ctl qs' where ctl: "control c = Some (w, ctl)"
    and IH: "restore_children os job dir cvd es (put_child pid (c\<lparr>ids := ns\<rparr>) d1, p1) = Ok qs' (d', p')"
    by (cases "control c") (auto simp: exec_bind_eq_Ok)
  note s = get_or_spawn_child_inv [OF g Cons.prems(2)]
  let ?d2 = "put_child pid (c\<lparr>ids := ns\<rparr>) d1"
  have inv1: "bt_inv (children d1)" using s(1) by (simp add: daemon_inv_def)
  have other: "set (ids c') \<subseteq> ids_of d" if "pid' \<noteq> pid" "bt_get (children d1) pid' = Some c'" for pid' c'
    by (rule ids_of_get [OF s(6) [OF that]])
  have "daemon_inv u {} n ?d2"
  proof (rule daemon_inv_put [OF s(1)])
    show "child_ok u (pid \<in> {}) n (c\<lparr>ids := ns\<rparr>)" using Cons.prems(3,5,6) e ctl by (auto simp: child_ok_def)
    show "apart (c\<lparr>ids := ns\<rparr>) c'" if "u" "pid' \<noteq> pid" "bt_get (children d1) pid' = Some c'" for pid' c'
      using other [OF that(2,3)] Cons.prems(4) [OF that(1)] e by (auto simp: apart_def)
  qed simp
  moreover have "ids_of ?d2 \<subseteq> ids_of d \<union> set ns"
    using other by (auto simp: ids_of_def put_child_def ran_def bt.get_insert [OF inv1] split: if_splits) blast
  then have "set (concat (map snd es)) \<inter> ids_of ?d2 = {}" if "u" using Cons.prems(3,4) [OF that] e by fastforce
  ultimately have "daemon_inv u {} n d' \<and> next_client d' = next_client ?d2"
    by (rule_tac Cons.IH [OF IH]) (use Cons.prems e in auto)
  then show ?case using s(3) by (simp add: put_child_def)
qed simp

text \<open>
  What the numbers of a request come from: the number after the highest one in the directory of a checkpoint, and
  whether the directory has no thread number twice. A daemon that starts at 0 writes one directory for each
  thread, but a directory may hold the remains of an earlier checkpoint.
\<close>

definition top_id :: "daemon_request \<Rightarrow> int" where
  "top_id q = (case q of Restore_Job _ _ es _ _ \<Rightarrow> max_id (scan es) + 1 | _ \<Rightarrow> 0)"

definition distinct_dir :: "daemon_request \<Rightarrow> bool" where
  "distinct_dir q = (case q of Restore_Job _ _ es _ _ \<Rightarrow> distinct (concat (map snd (pid_to_ids (scan es)))) | _ \<Rightarrow> True)"

definition highest_id :: "daemon_request list \<Rightarrow> int" where
  "highest_id qs = foldr (\<lambda>q. max (top_id q)) qs 0"

lemma highest_id_simps [simp]:
  "highest_id [] = 0" "highest_id (q # qs) = max (top_id q) (highest_id qs)"
  by (simp_all add: highest_id_def)

lemma restore_job_inv:
  assumes run: "restore_job os dir job es same cvd (d, p) = Ok r (d', p')" and ok: "daemon_ok u d"
    and fit: "max_id (scan es) < 2147483647" "u \<Longrightarrow> distinct (concat (map snd (pid_to_ids (scan es))))"
  shows "daemon_ok u d'" and "next_client d \<le> next_client d'" and "next_client d' = max_id (scan es) + 1"
proof -
  let ?i = "scan es" and ?n = "max_id (scan es) + 1"
  have sc: "bt_inv (pid_to_ids ?i)" "\<And>pid ns. (pid, ns) \<in> set (pid_to_ids ?i) \<Longrightarrow> ns \<noteq> [] \<and> set ns \<subseteq> {min_id ?i..max_id ?i}"
    using scan_scan_ok [of es] by (auto simp: scan_ok_def bt_get_def bt_entries)
  have same: "same" using run by (cases same) (simp_all add: restore_job_def)
  have le: "next_client d \<le> min_id ?i" "min_id ?i \<le> max_id ?i"
    using run same by (cases "next_client d \<le> min_id ?i \<and> min_id ?i \<le> max_id ?i"; simp add: restore_job_def reserve_ids_def Let_def)+
  then have wrap: "i32_wrap ?n = ?n" using fit(1) ok by (simp add: i32_wrap_def daemon_ok_def)
  let ?d = "d\<lparr>next_client := ?n\<rparr>"
  have "exec_bind (restore_children os job dir cvd (pid_to_ids ?i) (?d, p)) (\<lambda>qs s.
      exec_bind (rpc_all os qs s) (\<lambda>_ (d, p). Ok () (d, criu os dir p))) = Ok r (d', p')"
    using run same le wrap by (simp add: restore_job_def reserve_ids_def Let_def)
  then obtain qs d1 p1 r2 d2 p2 where
    1: "restore_children os job dir cvd (pid_to_ids ?i) (?d, p) = Ok qs (d1, p1)"
    and 2: "rpc_all os qs (d1, p1) = Ok r2 (d2, p2)" and d': "d' = d2"
    unfolding exec_bind_eq_Ok by auto
  have ok': "daemon_inv u {} (next_client d) d" "0 \<le> next_client d" using ok by (simp_all add: daemon_ok_def)
  have old: "ids_of ?d \<subseteq> {0..<next_client d}"
    using ok'(1) by (fastforce simp: ids_of_def ran_def daemon_inv_def child_ok_def)
  have new: "set (concat (map snd (pid_to_ids ?i))) \<subseteq> {min_id ?i..max_id ?i}" using sc(2) by fastforce
  have "daemon_inv u {} ?n d1 \<and> next_client d1 = next_client ?d"
  proof (rule restore_children_inv [OF 1 _ fit(2)])
    show "daemon_inv u {} ?n ?d" using daemon_inv_mono [OF ok'(1), of ?n "{}"] le by simp
    show "set (concat (map snd (pid_to_ids ?i))) \<inter> ids_of ?d = {}" using old new le(1) by fastforce
    show "set (concat (map snd (pid_to_ids ?i))) \<subseteq> {0..<?n}" using new le(1) ok'(2) by fastforce
    show "\<forall>e \<in> set (pid_to_ids ?i). snd e \<noteq> []" using sc(2) by fastforce
  qed
  then show "daemon_ok u d'" "next_client d \<le> next_client d'" "next_client d' = ?n"
    using rpc_all_keeps [OF 2] d' le ok'(2) by (simp_all add: daemon_ok_def)
qed

text \<open>The numbers that the clients were given, in order.\<close>

definition given_ids :: "int option list \<Rightarrow> int list" where
  "given_ids as = List.map_filter (\<lambda>a. a) as"

lemma daemon_step_inv:
  assumes run: "daemon_step os q (d, p) = Ok a (d', p')" and ok: "daemon_ok u d"
    and fit: "next_client d < 2147483647" "top_id q \<le> 2147483647" "u \<Longrightarrow> distinct_dir q"
  shows "daemon_ok u d' \<and> next_client d \<le> next_client d' \<and> next_client d' \<le> max (next_client d + 1) (top_id q) \<and>
    (\<forall>i. a = Some i \<longrightarrow> i = next_client d \<and> next_client d < next_client d')"
proof -
  have inv: "daemon_inv u {} (next_client d) d" "0 \<le> next_client d" using ok by (simp_all add: daemon_ok_def)
  have same: ?thesis if "daemon_inv u {} (next_client d) d'" "next_client d' = next_client d" "a = None"
    using that inv by (simp add: daemon_ok_def)
  show ?thesis
  proof (cases q)
    case (New_Client_Thread pid job cvd compatible)
    then obtain i where i: "new_client_thread os pid job cvd compatible (d, p) = Ok i (d', p')" "a = Some i"
      using run by (auto simp: exec_bind_eq_Ok)
    from new_client_thread_inv [OF i(1) ok fit(1)] show ?thesis by (simp add: i(2))
  next
    case (Checkpoint_Job job dir md)
    then show ?thesis using run same inv by (auto simp: exec_bind_eq_Ok checkpoint_job_def dest!: rpc_all_keeps)
  next
    case (Restore_Job dir job es sm cvd)
    then obtain x where x: "restore_job os dir job es sm cvd (d, p) = Ok x (d', p')" "a = None"
      using run by (auto simp: exec_bind_eq_Ok)
    have "max_id (scan es) < 2147483647" "u \<Longrightarrow> distinct (concat (map snd (pid_to_ids (scan es))))"
      using fit(2,3) Restore_Job by (simp_all add: top_id_def distinct_dir_def)
    from restore_job_inv [OF x(1) ok this] show ?thesis using x(2) Restore_Job by (simp add: top_id_def)
  next
    case (Detach_Client pid)
    then show ?thesis using run same detach_client_inv [of os pid d p _ d' p' u, OF _ inv(1)] by (auto simp: exec_bind_eq_Ok)
  next
    case (Attach_Client pid)
    then show ?thesis using run same attach_client_inv [of os pid d p _ d' p' u, OF _ inv(1)] by (auto simp: exec_bind_eq_Ok)
  next
    case (Standby_Clients pids)
    then show ?thesis using run same standby_clients_request_inv [of os pids d p _ d' p' u, OF _ inv(1)] by (auto simp: exec_bind_eq_Ok)
  next
    case Child_Signal
    then show ?thesis using run same reap_inv [of os d p d' p' u, OF _ inv(1)] by simp
  qed
qed

lemma daemon_run_inv:
  assumes "daemon_run os qs (d, p) = Ok as (d', p')" and "daemon_ok u d"
    and "next_client d \<le> N" and "highest_id qs \<le> N" and "N + int (length qs) \<le> 2147483647"
    and "u \<Longrightarrow> list_all distinct_dir qs"
  shows "daemon_ok u d' \<and> next_client d \<le> next_client d' \<and> sorted_wrt (<) (given_ids as) \<and>
    (\<forall>i \<in> set (given_ids as). next_client d \<le> i \<and> i < next_client d')"
  using assms
proof (induction qs arbitrary: d p as N)
  case (Cons q qs)
  from Cons.prems(1) obtain a d1 p1 as' where 1: "daemon_step os q (d, p) = Ok a (d1, p1)"
    and 2: "daemon_run os qs (d1, p1) = Ok as' (d', p')" and as: "as = a # as'"
    by (auto simp: exec_bind_eq_Ok)
  have st: "daemon_ok u d1" "next_client d \<le> next_client d1" "next_client d1 \<le> max (next_client d + 1) (top_id q)"
    "\<forall>i. a = Some i \<longrightarrow> i = next_client d \<and> next_client d < next_client d1"
    using daemon_step_inv [OF 1 Cons.prems(2)] Cons.prems(3-) by auto
  have "daemon_ok u d' \<and> next_client d1 \<le> next_client d' \<and> sorted_wrt (<) (given_ids as') \<and>
    (\<forall>i \<in> set (given_ids as'). next_client d1 \<le> i \<and> i < next_client d')"
    by (rule Cons.IH [OF 2 st(1), of "N + 1"]) (use st(3) Cons.prems(3-) in auto)
  then show ?case
    using st(2,4) unfolding as by (cases a) (fastforce simp: given_ids_def List.map_filter_simps)+
qed (simp add: given_ids_def List.map_filter_simps)

section \<open>Properties\<close>

text \<open>
  C18. The daemon's table of clients is well typed in every state that it reaches without a panic, whatever the
  requests, whatever processes end in between and however the server processes answer, as long as
  the numbers do not come near the end of \<open>i32\<close>: the highest one in a directory that is restored and one for
  every request stay below it. All thread numbers in the table are below the next one, every client has a thread and every
  detached client has exactly one, so that attaching and standing by always find its number; and the
  numbers that are given to clients are increasing. If moreover no
  restored directory has the same thread number twice, which the daemon does not check, all thread numbers in
  the table are different, so that no two clients share a channel.
\<close>

theorem daemon_well_typed:
  assumes "daemon_run os qs (DaemonInner_default, p) = Ok as (d, p')" and "highest_id qs + int (length qs) \<le> 2147483647"
  shows "daemon_ok False d \<and> sorted_wrt (<) (given_ids as) \<and> (\<forall>i \<in> set (given_ids as). 0 \<le> i \<and> i < next_client d) \<and>
    (list_all distinct_dir qs \<longrightarrow> daemon_ok True d)"
proof -
  have ok: "daemon_ok u DaemonInner_default" for u
    by (simp add: daemon_ok_def daemon_inv_def DaemonInner_default_def bt_inv_def bt_get_def)
  have "0 \<le> highest_id qs" by (induction qs) simp_all
  then have n: "next_client DaemonInner_default \<le> highest_id qs" by (simp add: DaemonInner_default_def)
  have "daemon_ok u d \<and> 0 \<le> next_client d \<and> sorted_wrt (<) (given_ids as) \<and> (\<forall>i \<in> set (given_ids as). 0 \<le> i \<and> i < next_client d)"
    if "u \<Longrightarrow> list_all distinct_dir qs" for u
    using daemon_run_inv [OF assms(1) ok n order_refl assms(2) that] by (simp add: DaemonInner_default_def)
  from this [of False] this [of True] show ?thesis by simp
qed

text \<open>
  Server processes with their standby caches, for the examples. A snapshot of a client has a
  generation, which grows with every detach; a cached connection has the generation of the
  handles that it holds, if any. \<open>attach_log\<close> records for every attach the client, the
  generation of its snapshot and that of the handles that the process goes on with.
\<close>

record fleet =
  procs :: "nat option standby_cache list"
  clients :: "(nat \<times> u32 \<times> u32) list"
  generation :: "u32 \<Rightarrow> nat"
  attach_log :: "(u32 \<times> nat \<times> nat option) list"

definition fleet_start :: fleet where
  "fleet_start = \<lparr>procs = [], clients = [], generation = (\<lambda>_. 0), attach_log = []\<rparr>"

fun fleet_rpc :: "nat \<Rightarrow> ctl_call \<Rightarrow> fleet \<Rightarrow> (u32 list option \<times> fleet) option" where
  "fleet_rpc w (Create_Thread i pid) f = Some (None, f\<lparr>clients := (w, pid, of_int i) # clients f\<rparr>)"
| "fleet_rpc w (Checkpoint_Process job dir md) f =
     (case map_of (clients f) w of
        None \<Rightarrow> None
      | Some (pid, i) \<Rightarrow>
          if md \<noteq> Detach then Some (None, f)
          else let g = Suc (generation f pid)
               in map_option (\<lambda>cache. (None, f\<lparr>generation := (generation f)(pid := g), procs := (procs f)[w := cache]\<rparr>))
                    (try_put_standby pid i (Some g) (procs f ! w)))"
| "fleet_rpc w (Restore_Process job dir pid ns) f = Some (None, f)"
| "fleet_rpc w (Control_Attach i pid) f =
     (let (c, cache) = take_standby pid (of_int i) (procs f ! w)
      in Some (None, f\<lparr>procs := (procs f)[w := cache], clients := (w, pid, of_int i) # clients f,
           attach_log := (pid, generation f pid, Option.bind c (\<lambda>c. c)) # attach_log f\<rparr>))"
| "fleet_rpc w (Control_Standby cs cvd) f =
     (case standby (\<lambda>pid i. Ok None) (map (\<lambda>(pid, i). (pid, of_int i)) cs) (procs f ! w) () of
        Ok cache _ \<Rightarrow> Some (None, f\<lparr>procs := (procs f)[w := cache]\<rparr>)
      | _ \<Rightarrow> None)"
| "fleet_rpc w Control_Detach f = Some (get_client_pids (procs f ! w), f)"

definition fleet_os :: "fleet os" where
  "fleet_os = \<lparr>waitpid = Pair [],
     spawn = (\<lambda>_ f. Some ((100 + int (length (procs f)), length (procs f)), f\<lparr>procs := procs f @ [None]\<rparr>)),
     rpc = fleet_rpc, criu = (\<lambda>_ f. f)\<rparr>"

definition two_detached :: "daemon_request list" where
  "two_detached = [New_Client_Thread 71 ''a'' ''0'' True, New_Client_Thread 72 ''a'' ''0'' True,
     Detach_Client 71, Detach_Client 72, Standby_Clients [71, 72]]"

theorem daemon_well_typed_witness:
  "\<exists>d p. daemon_run fleet_os (two_detached @ [Attach_Client 71, New_Client_Thread 73 ''b'' ''0'' True]) (DaemonInner_default, fleet_start) =
      Ok [Some 0, Some 1, None, None, None, None, Some 2] (d, p) \<and> daemon_ok True d"
proof -
  let ?qs = "two_detached @ [Attach_Client 71, New_Client_Thread 73 ''b'' ''0'' True]"
  have "(case daemon_run fleet_os ?qs (DaemonInner_default, fleet_start) of
      Ok as _ \<Rightarrow> as = [Some 0, Some 1, None, None, None, None, Some 2] | _ \<Rightarrow> False)" by code_simp
  then obtain d p where run: "daemon_run fleet_os ?qs (DaemonInner_default, fleet_start) =
      Ok [Some 0, Some 1, None, None, None, None, Some 2] (d, p)" by (auto split: exec.splits)
  have "highest_id ?qs + int (length ?qs) \<le> 2147483647" "list_all distinct_dir ?qs" by code_simp+
  from daemon_well_typed [OF run this(1)] this(2) run show ?thesis by blast
qed

text \<open>
  A directory that is used for the checkpoints of two jobs in turn, by a daemon that was restarted in between, has
  the same thread number for two clients. The daemon restores both, with the same number and so the
  same channel.
\<close>

lemma reused_directory_shares_channel:
  "\<exists>d p. daemon_run fleet_os [Restore_Job ''dir'' ''job'' [(''100_0'', True), (''200_0'', True)] True ''0'']
      (DaemonInner_default, fleet_start) = Ok [None] (d, p) \<and> map (ids \<circ> snd) (children d) = [[0], [0]]"
proof -
  have "(case daemon_run fleet_os [Restore_Job ''dir'' ''job'' [(''100_0'', True), (''200_0'', True)] True ''0'']
      (DaemonInner_default, fleet_start) of
      Ok as (d, p) \<Rightarrow> as = [None] \<and> map (ids \<circ> snd) (children d) = [[0], [0]] | _ \<Rightarrow> False)" by code_simp
  then show ?thesis by (auto split: exec.splits prod.splits)
qed

text \<open>
  A standby process can go on with outdated handles. Two detached clients 71 and 72 share a
  standby process. Client 71 is attached to it and detached, then 72 is attached to it, so that 71,
  when it is attached again, gets a process of its own, in which it runs and is detached. Once 72
  is detached too, the standby process is offered for both clients, and attaching 71 takes it: the
  snapshot of 71 is its third, but the process goes on with the handles of the second, which it
  has kept in its cache.
\<close>

theorem standby_goes_on_with_old_handles:
  "\<exists>as d p. daemon_run fleet_os
      (two_detached @ [Attach_Client 71, Detach_Client 71, Attach_Client 72, Attach_Client 71, Detach_Client 71,
         Detach_Client 72, Attach_Client 71]) (DaemonInner_default, fleet_start) = Ok as (d, p) \<and>
    attach_log p = [(71, 3, Some 2), (71, 2, None), (72, 1, None), (71, 1, None)]"
proof -
  have "(case daemon_run fleet_os
      (two_detached @ [Attach_Client 71, Detach_Client 71, Attach_Client 72, Attach_Client 71, Detach_Client 71,
         Detach_Client 72, Attach_Client 71]) (DaemonInner_default, fleet_start) of
      Ok as (d, p) \<Rightarrow> attach_log p = [(71, 3, Some 2), (71, 2, None), (72, 1, None), (71, 1, None)] | _ \<Rightarrow> False)" by code_simp
  then show ?thesis by (auto split: exec.splits prod.splits)
qed

end
