(* ===== verification/Fatbin.thy ===== *)
theory Fatbin
  imports Framing "HOL-Library.Multiset"
begin

text \<open>
  The images of kernels as the client reads them (\<open>client/src/elf.rs\<close>): a fat binary is a header
  and a sequence of code entries, some of them compressed; an entry for a device is an ELF file,
  whose section \<open>.nv.info.<kernel>\<close> describes the parameters of a kernel. The client needs the
  offsets and sizes of the parameters to send the arguments of a launch. The crates \<open>elf\<close> and
  \<open>lz4_flex\<close> are parameters. Debug assertions are not part of an optimised build.
\<close>

section \<open>Memory\<close>

text \<open>The memory of the process; an image is known by its address.\<close>

type_synonym u16 = "16 word"
type_synonym memory = "u64 \<Rightarrow> u8"

definition mem_load :: "memory \<Rightarrow> u64 \<Rightarrow> nat \<Rightarrow> u8 list" where
  "mem_load mem a n = map (\<lambda>i. mem (a + of_nat i)) [0..<n]"

lemma length_mem_load [simp]: "length (mem_load mem a n) = n"
  by (simp add: mem_load_def)

lemma mem_load_add: "mem_load mem a (m + n) = mem_load mem a m @ mem_load mem (a + of_nat m) n"
  by (rule nth_equalityI) (auto simp: mem_load_def nth_append add.assoc)

definition mem_store :: "memory \<Rightarrow> u64 \<Rightarrow> u8 list \<Rightarrow> memory" where
  "mem_store mem a bs = (\<lambda>x. if unat (x - a) < length bs then bs ! unat (x - a) else mem x)"

lemma mem_load_store: "length bs \<le> 2 ^ 64 \<Longrightarrow> mem_load (mem_store mem a bs) a (length bs) = bs"
  by (rule nth_equalityI) (auto simp: mem_load_def mem_store_def unat_of_nat take_bit_nat_eq_self)

text \<open>Consecutive integers of the given widths, and how they are written.\<close>

fun ints_of :: "nat list \<Rightarrow> u8 list \<Rightarrow> u64 list" where
  "ints_of [] bs = []"
| "ints_of (n # ns) bs = of_le_bytes (take n bs) # ints_of ns (drop n bs)"

fun int_bytes :: "nat list \<Rightarrow> u64 list \<Rightarrow> u8 list" where
  "int_bytes (n # ns) (v # vs) = le_bytes n v @ int_bytes ns vs"
| "int_bytes _ _ = []"

lemma length_int_bytes [simp]: "length vs = length ns \<Longrightarrow> length (int_bytes ns vs) = sum_list ns"
  by (induction ns vs rule: int_bytes.induct) auto

lemma ints_of_int_bytes:
  "length vs = length ns \<Longrightarrow> ints_of ns (int_bytes ns vs @ rest) = map2 (\<lambda>n v. take_bit (8 * n) v) ns vs"
  by (induction ns vs rule: int_bytes.induct) (auto simp: of_le_bytes_le_bytes)

lemma take_bit_ucast_16 [simp]: "take_bit 16 (ucast w :: u64) = ucast (w :: u16)"
  by (rule bit_word_eqI) (auto simp: bit_simps dest: bit_imp_le_length)

lemma take_bit_ucast_32 [simp]: "take_bit 32 (ucast w :: u64) = ucast (w :: u32)"
  by (rule bit_word_eqI) (auto simp: bit_simps dest: bit_imp_le_length)

lemma ucast_ucast_16 [simp]: "ucast (ucast w :: u64) = (w :: u16)"
  by (rule bit_word_eqI) (auto simp: bit_simps)

lemma ucast_ucast_32 [simp]: "ucast (ucast w :: u64) = (w :: u32)"
  by (rule bit_word_eqI) (auto simp: bit_simps)

lemma take_bit_64 [simp]: "take_bit 64 w = (w :: u64)"
  by (simp add: take_bit_word_eq_self)

section \<open>Kernel parameters\<close>

record KernelParamInfo =
  kp_index :: u32
  kp_ordinal :: u16
  kp_offset :: u16
  kp_rest :: u32

definition KernelParamInfo_of :: "u8 list \<Rightarrow> KernelParamInfo" where
  "KernelParamInfo_of bs =
     (let v = ints_of [4, 2, 2, 4] bs
      in \<lparr>kp_index = ucast (v ! 0), kp_ordinal = ucast (v ! 1), kp_offset = ucast (v ! 2), kp_rest = ucast (v ! 3)\<rparr>)"

definition param_size :: "KernelParamInfo \<Rightarrow> u16" where
  "param_size p = ucast (drop_bit 18 (kp_rest p))"

definition is_cbank :: "KernelParamInfo \<Rightarrow> bool" where
  "is_cbank p \<longleftrightarrow> kp_rest p AND push_bit 17 1 = 0"

definition EIFMT_NVAL :: u8 where "EIFMT_NVAL = 0x01"
definition EIFMT_BVAL :: u8 where "EIFMT_BVAL = 0x02"
definition EIFMT_HVAL :: u8 where "EIFMT_HVAL = 0x03"
definition EIFMT_SVAL :: u8 where "EIFMT_SVAL = 0x04"
definition EIATTR_KPARAM_INFO :: u8 where "EIATTR_KPARAM_INFO = 0x17"
definition EIATTR_SMEM_PARAM_SIZE :: u8 where "EIATTR_SMEM_PARAM_SIZE = 0x18"
definition EIATTR_CBANK_PARAM_SIZE :: u8 where "EIATTR_CBANK_PARAM_SIZE = 0x19"

lemmas nvinfo_consts = EIFMT_NVAL_def EIFMT_BVAL_def EIFMT_HVAL_def EIFMT_SVAL_def
  EIATTR_KPARAM_INFO_def EIATTR_SMEM_PARAM_SIZE_def EIATTR_CBANK_PARAM_SIZE_def

text \<open>
  The loop of \<open>parse_params\<close> with its variables \<open>param_bytes\<close>, \<open>is_cbank\<close> and \<open>params\<close>. The list is
  the part of the section from \<open>i\<close> on. A record other than a parameter may extend beyond the
  section, which ends the loop.
\<close>

type_synonym nvinfo_vars = "u16 \<times> bool \<times> KernelParamInfo list"

function nvinfo_loop :: "u8 list \<Rightarrow> nvinfo_vars \<Rightarrow> (nvinfo_vars, unit) exec" where
  "nvinfo_loop [] vars = Ok vars ()"
| "nvinfo_loop [x] vars = Abort ''range end index out of range''"
| "nvinfo_loop [x, y] vars = Abort ''range end index out of range''"
| "nvinfo_loop [x, y, z] vars = Abort ''range end index out of range''"
| "nvinfo_loop (fmt # attr # b0 # b1 # bs) (param_bytes, cbank, params) =
     (let val = ucast (of_le_bytes [b0, b1]) :: u16
      in if fmt = EIFMT_NVAL
         then (if b0 = 0 \<and> b1 = 0 then nvinfo_loop bs (param_bytes, cbank, params)
               else Abort ''assertion failed: b0 == 0 and b1 == 0'')
         else if fmt = EIFMT_BVAL
         then (if b1 = 0 then nvinfo_loop bs (param_bytes, cbank, params) else Abort ''assertion failed: b1 == 0'')
         else if fmt = EIFMT_HVAL
         then nvinfo_loop bs
                (if attr = EIATTR_SMEM_PARAM_SIZE then (val, False, params)
                 else if attr = EIATTR_CBANK_PARAM_SIZE then (val, True, params)
                 else (param_bytes, cbank, params))
         else if fmt = EIFMT_SVAL
         then (if attr = EIATTR_KPARAM_INFO
               then (if unat val \<noteq> 12 then Abort ''assertion failed: len == size_of::<KernelParamInfo>()''
                     else if length bs < unat val then Abort ''assertion failed: i + len <= nvinfo.len()''
                     else nvinfo_loop (drop (unat val) bs)
                            (param_bytes, cbank, params @ [KernelParamInfo_of (take 12 bs)]))
               else nvinfo_loop (drop (unat val) bs) (param_bytes, cbank, params))
         else Abort ''Unknown format'')"
  by pat_completeness auto
termination by (relation "measure (\<lambda>(bs, _). length bs)") auto

text \<open>
  The checks after sorting, from the parameter at position \<open>i\<close> on; the additions are those of
  \<open>u16\<close>. \<open>validate\<close> only writes to the log.
\<close>

fun params_ok :: "u16 \<Rightarrow> bool \<Rightarrow> nat \<Rightarrow> KernelParamInfo list \<Rightarrow> bool" where
  "params_ok param_bytes cbank i [] = True"
| "params_ok param_bytes cbank i (p # ps) \<longleftrightarrow>
     i = unat (kp_ordinal p) \<and> cbank = is_cbank p \<and>
     (case ps of q # _ \<Rightarrow> kp_offset p + param_size p \<le> kp_offset q | [] \<Rightarrow> kp_offset p + param_size p = param_bytes) \<and>
     params_ok param_bytes cbank (Suc i) ps"

text \<open>
  The sort of the source is not stable, but with two equal ordinals the checks fail in every
  order.
\<close>

definition parse_params :: "u8 list \<Rightarrow> (KernelParamInfo list, unit) exec" where
  "parse_params nvinfo =
     exec_bind (nvinfo_loop nvinfo (0, False, [])) (\<lambda>(param_bytes, cbank, params) _.
       let params = sort_key kp_ordinal params
       in if params_ok param_bytes cbank 0 params then Ok params ()
          else Abort ''assertion failed: parameters of a kernel'')"

section \<open>Cubins\<close>

text \<open>
  What the client uses of the crate \<open>elf\<close>: \<open>None\<close> is an error. A section has its data and
  whether it is compressed.
\<close>

record ('f, 's, 't) elf_api =
  minimal_parse :: "u8 list \<Rightarrow> 'f option"
  section_header_by_name :: "'f \<Rightarrow> string \<Rightarrow> 's option option"
  section_data :: "'f \<Rightarrow> 's \<Rightarrow> (u8 list \<times> bool) option"
  section_headers_with_strtab :: "'f \<Rightarrow> ('s list option \<times> 't option) option"
  sh_name :: "'s \<Rightarrow> u32"
  strtab_get :: "'t \<Rightarrow> nat \<Rightarrow> string option"
  e_phoff :: "'f \<Rightarrow> u64"
  e_shoff :: "'f \<Rightarrow> u64"
  e_phentsize :: "'f \<Rightarrow> u16"
  e_phnum :: "'f \<Rightarrow> u16"
  e_shentsize :: "'f \<Rightarrow> u16"
  e_shnum :: "'f \<Rightarrow> u16"

definition find_kernel_params :: "('f, 's, 't) elf_api \<Rightarrow> u8 list \<Rightarrow> string \<Rightarrow>
    (KernelParamInfo list option, unit) exec" where
  "find_kernel_params elf cubin name =
     (case minimal_parse elf cubin of
        None \<Rightarrow> Abort ''called Result::unwrap() on an Err value''
      | Some file \<Rightarrow>
          (case section_header_by_name elf file (''.nv.info.'' @ name) of
             None \<Rightarrow> Abort ''called Result::unwrap() on an Err value''
           | Some None \<Rightarrow> Ok None ()
           | Some (Some shdr) \<Rightarrow>
               (case section_data elf file shdr of
                  None \<Rightarrow> Abort ''called Result::unwrap() on an Err value''
                | Some (sec, True) \<Rightarrow> Abort ''Section is compressed''
                | Some (sec, False) \<Rightarrow> exec_bind (parse_params sec) (\<lambda>ps. Ok (Some ps)))))"

fun validate_sections :: "('f, 's, 't) elf_api \<Rightarrow> 'f \<Rightarrow> 't \<Rightarrow> 's list \<Rightarrow> (unit, unit) exec" where
  "validate_sections elf file strtab [] = Ok () ()"
| "validate_sections elf file strtab (shdr # shdrs) =
     (case strtab_get elf strtab (unat (sh_name elf shdr)) of
        None \<Rightarrow> Abort ''Failed to get section name''
      | Some name \<Rightarrow>
          if take 9 name \<noteq> ''.nv.info.'' then validate_sections elf file strtab shdrs
          else (case section_data elf file shdr of
                  Some (sec, False) \<Rightarrow> exec_bind (parse_params sec) (\<lambda>_ _. validate_sections elf file strtab shdrs)
                | _ \<Rightarrow> Abort ''Failed to read section or it is compressed''))"

definition validate_cubin :: "('f, 's, 't) elf_api \<Rightarrow> u8 list \<Rightarrow> (unit, unit) exec" where
  "validate_cubin elf cubin =
     (case minimal_parse elf cubin of
        None \<Rightarrow> Abort ''called Result::unwrap() on an Err value''
      | Some file \<Rightarrow>
          (case section_headers_with_strtab elf file of
             Some (Some shdrs, Some strtab) \<Rightarrow> validate_sections elf file strtab shdrs
           | _ \<Rightarrow> Abort ''failed to parse section headers and string table''))"

text \<open>The sizes of the two tables are products of \<open>u16\<close>.\<close>

definition elf_len :: "('f, 's, 't) elf_api \<Rightarrow> memory \<Rightarrow> u64 \<Rightarrow> (u64, unit) exec" where
  "elf_len elf mem cubin =
     (case minimal_parse elf (mem_load mem cubin (2 ^ 32 - 1)) of
        None \<Rightarrow> Abort ''called Result::unwrap() on an Err value''
      | Some file \<Rightarrow>
          (let shend = e_shoff elf file + ucast (e_shentsize elf file * e_shnum elf file);
               phend = e_phoff elf file + ucast (e_phentsize elf file * e_phnum elf file)
           in if shend \<le> phend then Ok phend () else Abort ''assertion failed: shend <= phend''))"

section \<open>Fat binaries\<close>

record FatBinaryWrapper =
  fw_magic :: u32
  fw_version :: u32
  fw_data :: u64
  filename_or_fatbins :: u64

definition FatBinaryWrapper_unwrap :: "FatBinaryWrapper \<Rightarrow> (u64, unit) exec" where
  "FatBinaryWrapper_unwrap fw =
     (if fw_magic fw = 0x466243B1 \<and> fw_version fw = 1 \<and> filename_or_fatbins fw = 0 \<or>
         fw_magic fw = 0x466243B1 \<and> fw_version fw = 2 \<and> 1 \<le> filename_or_fatbins fw
      then Ok (fw_data fw) () else Abort ''invalid fatbin wrapper'')"

record FatBinaryHeader =
  fh_magic :: u32
  fh_version :: u16
  fh_header_size :: u16
  fat_size :: u64

definition FatBinaryHeader_of :: "u8 list \<Rightarrow> FatBinaryHeader" where
  "FatBinaryHeader_of bs =
     (let v = ints_of [4, 2, 2, 8] bs
      in \<lparr>fh_magic = ucast (v ! 0), fh_version = ucast (v ! 1), fh_header_size = ucast (v ! 2), fat_size = v ! 3\<rparr>)"

definition FatBinaryHeader_cast :: "memory \<Rightarrow> u64 \<Rightarrow> FatBinaryHeader option" where
  "FatBinaryHeader_cast mem img =
     (let header = FatBinaryHeader_of (mem_load mem img 16)
      in if fh_magic header = 0xBA55ED50 \<and> fh_version header = 1 \<and> fh_header_size header = 16
         then Some header else None)"

definition entire_len :: "FatBinaryHeader \<Rightarrow> u64" where
  "entire_len h = ucast (fh_header_size h) + fat_size h"

datatype CodeKind = Ptx | Elf

record CodeHeader =
  ch_kind :: u16
  unknown02 :: u16
  ch_header_size :: u32
  code_size :: u32
  unknown0c :: u32
  compressed_size :: u32
  options_offset :: u32
  minor :: u16
  major :: u16
  arch :: u32
  name_offset :: u32
  name_size :: u32
  ch_flags :: u32
  unknown2c :: u32
  unknown30 :: u32
  unknown34 :: u32
  decompressed_size :: u32
  unknown3c :: u32

definition CodeHeader_widths :: "nat list" where
  "CodeHeader_widths = [2, 2, 4, 4, 4, 4, 4, 2, 2, 4, 4, 4, 4, 4, 4, 4, 4, 4]"

definition CodeHeader_of :: "u8 list \<Rightarrow> CodeHeader" where
  "CodeHeader_of bs =
     (let v = ints_of CodeHeader_widths bs
      in \<lparr>ch_kind = ucast (v ! 0), unknown02 = ucast (v ! 1), ch_header_size = ucast (v ! 2), code_size = ucast (v ! 3),
         unknown0c = ucast (v ! 4), compressed_size = ucast (v ! 5), options_offset = ucast (v ! 6),
         minor = ucast (v ! 7), major = ucast (v ! 8), arch = ucast (v ! 9), name_offset = ucast (v ! 10),
         name_size = ucast (v ! 11), ch_flags = ucast (v ! 12), unknown2c = ucast (v ! 13), unknown30 = ucast (v ! 14),
         unknown34 = ucast (v ! 15), decompressed_size = ucast (v ! 16), unknown3c = ucast (v ! 17)\<rparr>)"

definition CodeHeader_validate :: "CodeHeader \<Rightarrow> (CodeKind \<times> bool, unit) exec" where
  "CodeHeader_validate h =
     (if \<not> (unknown02 h = 0x101 \<and> unknown0c h = 0 \<and> name_offset h = 0 \<and> name_size h = 0 \<and>
             unknown2c h = 0 \<and> unknown30 h = 0 \<and> unknown34 h = 0 \<and> unknown3c h = 0)
      then Abort ''invalid fatbin code header at check 1''
      else if ch_kind h \<noteq> 1 \<and> ch_kind h \<noteq> 2 then Abort ''invalid fatbin code header at check 2''
      else if compressed_size h = 0 \<and> decompressed_size h = 0
      then Ok (if ch_kind h = 1 then Ptx else Elf, False) ()
      else if 1 \<le> compressed_size h \<and> 1 \<le> decompressed_size h
      then Ok (if ch_kind h = 1 then Ptx else Elf, True) ()
      else Abort ''invalid fatbin code header at check 3'')"

text \<open>
  One call of \<open>next\<close> up to its end or to the call of itself after an entry of PTX. The rest of
  the iteration is the address \<open>payload\<close>; \<open>fin\<close> is the field \<open>end\<close>.
\<close>

datatype code_item = Finished | Skipped u64 | Code "u8 list" u64

type_synonym decompressor = "u8 list \<Rightarrow> nat \<Rightarrow> u8 list option"

definition code_step :: "decompressor \<Rightarrow> memory \<Rightarrow> u64 \<Rightarrow> u64 \<Rightarrow> (code_item, unit) exec" where
  "code_step decompress mem fin payload =
     (if fin \<le> payload + 64
      then (if payload = fin then Ok Finished () else Abort ''assertion failed: payload == end'')
      else let header = CodeHeader_of (mem_load mem payload 64)
           in exec_bind (CodeHeader_validate header) (\<lambda>(kind, is_compressed) _.
                let code = payload + ucast (ch_header_size header);
                    code_end = code + ucast (code_size header);
                    bs = mem_load mem code (unat (code_size header))
                in if fin < code_end then Abort ''assertion failed: code_end <= end''
                   else if kind = Ptx then Ok (Skipped code_end) ()
                   else if \<not> is_compressed then Ok (Code bs code_end) ()
                   else if code_size header < compressed_size header then Abort ''range end index out of range''
                   else (case decompress (take (unat (compressed_size header)) bs) (unat (decompressed_size header)) of
                           None \<Rightarrow> Abort ''called Result::unwrap() on an Err value''
                         | Some out \<Rightarrow>
                             if length out = unat (decompressed_size header) then Ok (Code out code_end) ()
                             else Abort ''assertion failed: decompressed.len() == size'')))"

text \<open>
  The iteration ends only if the entries do; \<open>None\<close> is an iteration that goes on forever.
  \<open>next\<close> gives the next code and where it ends, or the end of the iteration.
\<close>

partial_function (option) code_next :: "decompressor \<Rightarrow> memory \<Rightarrow> u64 \<Rightarrow> u64 \<Rightarrow>
    ((u8 list \<times> u64) option, unit) exec option" where
  "code_next decompress mem fin payload =
     (case code_step decompress mem fin payload of
        Ok (Skipped p) _ \<Rightarrow> code_next decompress mem fin p
      | Ok (Code c p) _ \<Rightarrow> Some (Ok (Some (c, p)) ())
      | Ok Finished _ \<Rightarrow> Some (Ok None ())
      | Exit n _ \<Rightarrow> Some (Exit n ())
      | Abort m \<Rightarrow> Some (Abort m)
      | Undef m \<Rightarrow> Some (Undef m))"

text \<open>\<open>find_map\<close> over the codes, and the loop over all of them.\<close>

partial_function (option) code_find_map :: "(u8 list \<Rightarrow> ('a option, unit) exec) \<Rightarrow> decompressor \<Rightarrow> memory \<Rightarrow>
    u64 \<Rightarrow> u64 \<Rightarrow> ('a option, unit) exec option" where
  "code_find_map f decompress mem fin payload =
     Option.bind (code_next decompress mem fin payload) (\<lambda>r.
       case r of
         Ok (Some (c, p)) _ \<Rightarrow>
           (case f c of
              Ok None _ \<Rightarrow> code_find_map f decompress mem fin p
            | Ok (Some x) _ \<Rightarrow> Some (Ok (Some x) ())
            | Exit n _ \<Rightarrow> Some (Exit n ())
            | Abort m \<Rightarrow> Some (Abort m)
            | Undef m \<Rightarrow> Some (Undef m))
       | Ok None _ \<Rightarrow> Some (Ok None ())
       | Exit n _ \<Rightarrow> Some (Exit n ())
       | Abort m \<Rightarrow> Some (Abort m)
       | Undef m \<Rightarrow> Some (Undef m))"

text \<open>The header is at \<open>img\<close>; its codes start right after it.\<close>

definition fat_find_kernel_params :: "('f, 's, 't) elf_api \<Rightarrow> decompressor \<Rightarrow> memory \<Rightarrow> u64 \<Rightarrow> FatBinaryHeader \<Rightarrow>
    string \<Rightarrow> (KernelParamInfo list option, unit) exec option" where
  "fat_find_kernel_params elf decompress mem img h name =
     code_find_map (\<lambda>cubin. find_kernel_params elf cubin name) decompress mem (img + 16 + fat_size h) (img + 16)"

definition validate_code :: "('f, 's, 't) elf_api \<Rightarrow> decompressor \<Rightarrow> memory \<Rightarrow> u64 \<Rightarrow> FatBinaryHeader \<Rightarrow>
    (unit option, unit) exec option" where
  "validate_code elf decompress mem img h =
     code_find_map (\<lambda>cubin. exec_bind (validate_cubin elf cubin) (\<lambda>_. Ok None)) decompress mem
       (img + 16 + fat_size h) (img + 16)"

section \<open>What the sections of a kernel mean\<close>

text \<open>
  The records of a section and the bytes that stand for them. A record of a parameter has the
  size of \<open>KernelParamInfo\<close>.
\<close>

datatype nvinfo = NVal u8 | BVal u8 u8 | HVal u8 u16 | SVal u8 "u8 list"

fun nvinfo_bytes :: "nvinfo \<Rightarrow> u8 list" where
  "nvinfo_bytes (NVal a) = [EIFMT_NVAL, a, 0, 0]"
| "nvinfo_bytes (BVal a b) = [EIFMT_BVAL, a, b, 0]"
| "nvinfo_bytes (HVal a v) = [EIFMT_HVAL, a] @ le_bytes 2 (ucast v)"
| "nvinfo_bytes (SVal a bs) = [EIFMT_SVAL, a] @ le_bytes 2 (of_nat (length bs)) @ bs"

fun nvinfo_ok :: "nvinfo \<Rightarrow> bool" where
  "nvinfo_ok (SVal a bs) \<longleftrightarrow> length bs < 2 ^ 16 \<and> (a = EIATTR_KPARAM_INFO \<longrightarrow> length bs = 12)"
| "nvinfo_ok _ \<longleftrightarrow> True"

fun nvinfo_apply :: "nvinfo \<Rightarrow> nvinfo_vars \<Rightarrow> nvinfo_vars" where
  "nvinfo_apply (HVal a v) (n, cbank, ps) =
     (if a = EIATTR_SMEM_PARAM_SIZE then (v, False, ps)
      else if a = EIATTR_CBANK_PARAM_SIZE then (v, True, ps) else (n, cbank, ps))"
| "nvinfo_apply (SVal a bs) (n, cbank, ps) =
     (if a = EIATTR_KPARAM_INFO then (n, cbank, ps @ [KernelParamInfo_of bs]) else (n, cbank, ps))"
| "nvinfo_apply _ vars = vars"

lemma le_bytes_2: "le_bytes 2 w = [ucast w, ucast (drop_bit 8 w)]"
  by (simp add: numeral_2_eq_2)

lemma of_le_bytes_2: "of_le_bytes [ucast w, ucast (drop_bit 8 w)] = take_bit 16 w"
  using of_le_bytes_le_bytes [of 2 w] by (simp add: le_bytes_2)

lemma take_bit_length_16: "n < 2 ^ 16 \<Longrightarrow> unat (ucast (take_bit 16 (of_nat n :: u64)) :: u16) = n"
  by (simp add: unsigned_ucast_eq unsigned_take_bit_eq unsigned_of_nat take_bit_nat_eq_self)

lemma nvinfo_loop_records:
  "list_all nvinfo_ok rs \<Longrightarrow> nvinfo_loop (concat (map nvinfo_bytes rs)) vars = Ok (fold nvinfo_apply rs vars) ()"
proof (induction rs arbitrary: vars)
  case (Cons r rs)
  obtain n cbank ps where vars: "vars = (n, cbank, ps)" by (cases vars) auto
  show ?case
    using Cons vars
    by (cases r) (simp_all add: nvinfo_consts le_bytes_2 of_le_bytes_2 take_bit_length_16 Let_def del: of_le_bytes.simps)
qed simp

lemma params_ok_ordinals: "params_ok n cbank i ps \<Longrightarrow> map (\<lambda>p. unat (kp_ordinal p)) ps = [i..<i + length ps]"
  by (induction n cbank i ps rule: params_ok.induct) (auto simp: upt_rec)

lemma params_ok_sorted:
  assumes "params_ok n cbank i ps"
  shows "sorted (map kp_ordinal ps)" and "distinct (map kp_ordinal ps)"
proof -
  have "map unat (map kp_ordinal ps) = [i..<i + length ps]"
    using params_ok_ordinals [OF assms] by (simp add: comp_def)
  then have "sorted (map unat (map kp_ordinal ps))" "distinct (map unat (map kp_ordinal ps))"
    by (metis sorted_upt, metis distinct_upt)
  then show "sorted (map kp_ordinal ps)" "distinct (map kp_ordinal ps)"
    by (simp_all add: sorted_iff_nth_mono_less word_le_nat_alt distinct_map inj_on_def)
qed

text \<open>
  Parsing accepts a section exactly if its parameters, put in order, are laid out one after the
  other and end where the section says; then it returns them.
\<close>

lemma parse_params_cases:
  assumes "list_all nvinfo_ok rs" "fold nvinfo_apply rs (0, False, []) = (n, cbank, found)"
  shows "parse_params (concat (map nvinfo_bytes rs)) =
    (if params_ok n cbank 0 (sort_key kp_ordinal found) then Ok (sort_key kp_ordinal found) ()
     else Abort ''assertion failed: parameters of a kernel'')"
  by (simp add: parse_params_def nvinfo_loop_records [OF assms(1)] assms(2) Let_def)

lemma parse_params_records:
  assumes "list_all nvinfo_ok rs" "fold nvinfo_apply rs (0, False, []) = (n, cbank, found)"
  shows "parse_params (concat (map nvinfo_bytes rs)) = Ok ps () \<longleftrightarrow>
    mset ps = mset found \<and> params_ok n cbank 0 ps"
proof -
  have "sort_key kp_ordinal found = ps" if "mset ps = mset found" "params_ok n cbank 0 ps"
    using params_ok_sorted [OF that(2)] that(1)
    by (intro sort_key_inj_key_eq) (auto simp: distinct_map dest: mset_eq_setD)
  then show ?thesis by (auto simp: parse_params_cases [OF assms])
qed

section \<open>What a fat binary means\<close>

text \<open>
  An entry: its header, the bytes between the header and the code, and the code. What the sizes
  in the header say is so, and a compressed code can be decompressed.
\<close>

type_synonym fat_entry = "CodeHeader \<times> u8 list \<times> u8 list"

definition CodeHeader_bytes :: "CodeHeader \<Rightarrow> u8 list" where
  "CodeHeader_bytes h =
     int_bytes CodeHeader_widths
       [ucast (ch_kind h), ucast (unknown02 h), ucast (ch_header_size h), ucast (code_size h), ucast (unknown0c h),
        ucast (compressed_size h), ucast (options_offset h), ucast (minor h), ucast (major h), ucast (arch h),
        ucast (name_offset h), ucast (name_size h), ucast (ch_flags h), ucast (unknown2c h), ucast (unknown30 h),
        ucast (unknown34 h), ucast (decompressed_size h), ucast (unknown3c h)]"

fun fat_entry_bytes :: "fat_entry \<Rightarrow> u8 list" where
  "fat_entry_bytes (h, extra, code) = CodeHeader_bytes h @ extra @ code"

fun entry_code :: "decompressor \<Rightarrow> fat_entry \<Rightarrow> u8 list option" where
  "entry_code decompress (h, extra, code) =
     (if ch_kind h = 1 then None
      else if compressed_size h = 0 then Some code
      else decompress (take (unat (compressed_size h)) code) (unat (decompressed_size h)))"

fun entry_ok :: "decompressor \<Rightarrow> fat_entry \<Rightarrow> bool" where
  "entry_ok decompress (h, extra, code) \<longleftrightarrow>
     CodeHeader_validate h = Ok (if ch_kind h = 1 then Ptx else Elf, compressed_size h \<noteq> 0) () \<and>
     unat (ch_header_size h) = 64 + length extra \<and> unat (code_size h) = length code \<and> code \<noteq> [] \<and>
     (ch_kind h \<noteq> 1 \<longrightarrow> compressed_size h \<le> code_size h \<and>
       (compressed_size h = 0 \<or> map_option length (entry_code decompress (h, extra, code)) = Some (unat (decompressed_size h))))"

definition fatbin_bytes :: "fat_entry list \<Rightarrow> u8 list" where
  "fatbin_bytes es =
     int_bytes [4, 2, 2, 8] [0xBA55ED50, 1, 16, of_nat (length (concat (map fat_entry_bytes es)))] @ concat (map fat_entry_bytes es)"

text \<open>
  The bytes are in memory at an address, and do not reach the end of the address space, where the
  iteration compares an address that has wrapped.
\<close>

definition mem_holds :: "memory \<Rightarrow> u64 \<Rightarrow> u8 list \<Rightarrow> bool" where
  "mem_holds mem a bs \<longleftrightarrow> mem_load mem a (length bs) = bs \<and> unat a + length bs + 64 < 2 ^ 64"

lemma unat_of_nat_64: "n < 2 ^ 64 \<Longrightarrow> unat (of_nat n :: u64) = n"
  by (simp add: unat_of_nat take_bit_nat_eq_self)

lemma unat_add_of_nat: "unat a + n < 2 ^ 64 \<Longrightarrow> unat (a + of_nat n :: u64) = unat a + n"
  by (simp add: unat_word_ariths unat_of_nat)

lemma mem_holds_append: "mem_holds mem a (xs @ ys) \<longleftrightarrow> mem_holds mem a xs \<and> mem_holds mem (a + of_nat (length xs)) ys"
proof (cases "unat a + length xs < 2 ^ 64")
  case True
  then show ?thesis by (auto simp: mem_holds_def mem_load_add unat_add_of_nat)
qed (auto simp: mem_holds_def)

lemma length_CodeHeader_bytes [simp]: "length (CodeHeader_bytes h) = 64"
  by (simp add: CodeHeader_bytes_def CodeHeader_widths_def)

lemma CodeHeader_of_bytes: "CodeHeader_of (CodeHeader_bytes h) = h"
  using ints_of_int_bytes [of _ CodeHeader_widths "[]"]
  by (cases h) (simp add: CodeHeader_of_def CodeHeader_bytes_def CodeHeader_widths_def Let_def del: int_bytes.simps ints_of.simps)

lemma length_fat_entry_bytes: "entry_ok decompress e \<Longrightarrow> 64 < length (fat_entry_bytes e)"
  by (cases e) auto

lemma entry_code_None: "entry_ok decompress (h, extra, code) \<Longrightarrow> entry_code decompress (h, extra, code) = None \<longleftrightarrow> ch_kind h = 1"
  by auto

text \<open>One entry is one step of the iteration.\<close>

lemma code_step_entry:
  assumes ok: "entry_ok decompress e" and at: "mem_holds mem p (fat_entry_bytes e)"
    and fin: "unat p + length (fat_entry_bytes e) \<le> unat fin"
  shows "code_step decompress mem fin p =
    Ok (case entry_code decompress e of None \<Rightarrow> Skipped (p + of_nat (length (fat_entry_bytes e)))
        | Some c \<Rightarrow> Code c (p + of_nat (length (fat_entry_bytes e)))) ()"
proof -
  obtain h extra code where e: "e = (h, extra, code)" by (cases e) auto
  have sizes: "(ucast (ch_header_size h) :: u64) = of_nat (64 + length extra)" "(ucast (code_size h) :: u64) = of_nat (length code)"
    using ok of_nat_unat [of "ch_header_size h"] of_nat_unat [of "code_size h"] unfolding e entry_ok.simps by metis+
  have at': "mem_load mem p 64 = CodeHeader_bytes h" "mem_load mem (p + of_nat (64 + length extra)) (length code) = code"
    using at unfolding e fat_entry_bytes.simps mem_holds_append by (auto simp: mem_holds_def add.assoc)
  have lt: "unat p + (64 + length extra + length code) < 2 ^ 64" using at by (simp add: e mem_holds_def)
  have "unat (p + 64) = unat p + 64" using lt unat_add_of_nat [of p 64] by simp
  then have more: "\<not> fin \<le> p + 64"
    using fin length_fat_entry_bytes [OF ok] by (simp add: word_le_nat_alt)
  have adv: "p + of_nat (64 + length extra) + of_nat (length code) = p + of_nat (length (fat_entry_bytes e))"
    by (simp add: e add.assoc)
  have "unat (p + of_nat (length (fat_entry_bytes e))) = unat p + length (fat_entry_bytes e)"
    using lt by (intro unat_add_of_nat) (simp add: e)
  then have "\<not> fin < p + of_nat (length (fat_entry_bytes e))"
    using fin by (simp add: word_less_nat_alt)
  then have step: "code_step decompress mem fin p =
      (if ch_kind h = 1 then Ok (Skipped (p + of_nat (length (fat_entry_bytes e)))) ()
       else if compressed_size h = 0 then Ok (Code code (p + of_nat (length (fat_entry_bytes e)))) ()
       else if code_size h < compressed_size h then Abort ''range end index out of range''
       else (case entry_code decompress e of
               None \<Rightarrow> Abort ''called Result::unwrap() on an Err value''
             | Some out \<Rightarrow>
                 if length out = unat (decompressed_size h) then Ok (Code out (p + of_nat (length (fat_entry_bytes e)))) ()
                 else Abort ''assertion failed: decompressed.len() == size''))"
    unfolding code_step_def Let_def at'(1) CodeHeader_of_bytes sizes adv using more ok at'(2)
    by (simp add: e)
  show ?thesis
  proof (cases "entry_code decompress e")
    case None
    with ok step show ?thesis by (simp add: e split: if_splits)
  next
    case (Some out)
    with ok step show ?thesis by (auto simp add: e not_less split: if_splits)
  qed
qed

text \<open>The first result of a search through the codes.\<close>

fun first_some :: "('c \<Rightarrow> ('a option, unit) exec) \<Rightarrow> 'c list \<Rightarrow> ('a option, unit) exec" where
  "first_some f [] = Ok None ()"
| "first_some f (c # cs) =
     exec_bind (f c) (\<lambda>r _. case r of None \<Rightarrow> first_some f cs | Some x \<Rightarrow> Ok (Some x) ())"

lemma code_find_map_skip:
  "code_step decompress mem fin p = Ok (Skipped q) () \<Longrightarrow>
    code_find_map f decompress mem fin p = code_find_map f decompress mem fin q"
  by (simp add: code_find_map.simps [of _ _ _ _ p] code_next.simps [of _ _ _ p] code_find_map.simps [of _ _ _ _ q])

lemma code_find_map_code:
  "code_step decompress mem fin p = Ok (Code c q) () \<Longrightarrow>
    code_find_map f decompress mem fin p =
      (case f c of Ok None _ \<Rightarrow> code_find_map f decompress mem fin q
       | Ok (Some x) _ \<Rightarrow> Some (Ok (Some x) ()) | Exit n _ \<Rightarrow> Some (Exit n ())
       | Abort m \<Rightarrow> Some (Abort m) | Undef m \<Rightarrow> Some (Undef m))"
  by (simp add: code_find_map.simps [of _ _ _ _ p] code_next.simps [of _ _ _ p])

lemma code_find_map_entries:
  assumes "list_all (entry_ok decompress) es" "mem_holds mem p (concat (map fat_entry_bytes es))"
    "fin = p + of_nat (length (concat (map fat_entry_bytes es)))"
  shows "code_find_map f decompress mem fin p = Some (first_some f (List.map_filter (entry_code decompress) es))"
  using assms
proof (induction es arbitrary: p)
  case Nil
  then have "p \<le> p + 64"
    using unat_add_of_nat [of p 64] by (simp add: mem_holds_def word_le_nat_alt)
  with Nil show ?case
    by (simp add: code_find_map.simps [of _ _ _ _ p] code_next.simps [of _ _ _ p] code_step_def List.map_filter_def)
next
  case (Cons e es)
  let ?q = "p + of_nat (length (fat_entry_bytes e))"
  have at: "mem_holds mem p (fat_entry_bytes e)" "mem_holds mem ?q (concat (map fat_entry_bytes es))"
    using Cons.prems(2) by (simp_all add: mem_holds_append)
  have "unat fin = unat p + length (concat (map fat_entry_bytes (e # es)))"
    unfolding Cons.prems(3) using Cons.prems(2) by (intro unat_add_of_nat) (simp add: mem_holds_def)
  then have step: "code_step decompress mem fin p =
      Ok (case entry_code decompress e of None \<Rightarrow> Skipped ?q | Some c \<Rightarrow> Code c ?q) ()"
    using Cons.prems(1) at(1) by (intro code_step_entry) simp_all
  have IH: "code_find_map f decompress mem fin ?q = Some (first_some f (List.map_filter (entry_code decompress) es))"
    using Cons.prems at(2) by (intro Cons.IH) (simp_all add: add.assoc)
  show ?case
  proof (cases "entry_code decompress e")
    case None
    then show ?thesis using step IH by (simp add: code_find_map_skip List.map_filter_simps)
  next
    case (Some c)
    then show ?thesis using step IH
      by (simp add: code_find_map_code List.map_filter_simps split: exec.split option.split)
  qed
qed

lemma mem_holds_store: "unat a + length bs + 64 < 2 ^ 64 \<Longrightarrow> mem_holds (mem_store mem a bs) a bs"
  by (simp add: mem_holds_def mem_load_store)

lemma fatbin_header:
  assumes "mem_holds mem img (fatbin_bytes es)"
  obtains h where "FatBinaryHeader_cast mem img = Some h" "unat (entire_len h) = length (fatbin_bytes es)"
    "fat_size h = of_nat (length (concat (map fat_entry_bytes es)))" "mem_holds mem (img + 16) (concat (map fat_entry_bytes es))"
proof -
  let ?n = "length (concat (map fat_entry_bytes es))"
  let ?h = "\<lparr>fh_magic = 0xBA55ED50, fh_version = 1, fh_header_size = 16, fat_size = of_nat ?n\<rparr>"
  have at: "mem_holds mem img (int_bytes [4, 2, 2, 8] [0xBA55ED50, 1, 16, of_nat ?n])" "mem_holds mem (img + 16) (concat (map fat_entry_bytes es))"
    using assms by (simp_all only: fatbin_bytes_def mem_holds_append length_int_bytes) simp_all
  then have "mem_load mem img 16 = int_bytes [4, 2, 2, 8] [0xBA55ED50, 1, 16, of_nat ?n]" by (simp add: mem_holds_def)
  then have "FatBinaryHeader_of (mem_load mem img 16) = ?h"
    using ints_of_int_bytes [of "[0xBA55ED50, 1, 16, of_nat ?n]" "[4, 2, 2, 8]" "[]"]
    by (simp add: FatBinaryHeader_of_def Let_def del: int_bytes.simps ints_of.simps)
  then have "FatBinaryHeader_cast mem img = Some ?h" by (simp add: FatBinaryHeader_cast_def)
  moreover have "unat (entire_len ?h) = length (fatbin_bytes es)"
    using assms unat_of_nat_64 [of "16 + ?n"] by (simp add: entire_len_def fatbin_bytes_def mem_holds_def)
  moreover have "fat_size ?h = of_nat ?n" by simp
  ultimately show thesis using at(2) by (rule that)
qed

lemma first_some_skip:
  "\<forall>c\<in>set cs. f c = Ok None () \<Longrightarrow> first_some f (cs @ c # ds) =
     exec_bind (f c) (\<lambda>r _. case r of None \<Rightarrow> first_some f ds | Some x \<Rightarrow> Ok (Some x) ())"
  by (induction cs) auto

text \<open>
  C20. The parameters of a kernel are found in a fat binary: the search ends, it passes over PTX and
  over the codes that do not have the kernel, takes the first code that does, decompressed where
  necessary, and returns the parameters that its section describes, put in order, if and only if they
  are numbered from 0 without gaps, lie one after the other, in the declared bank, and end at the
  declared size; otherwise it panics. The length that the client sends to the server is
  that of the whole image.
\<close>

theorem fatbin_kernel_params:
  assumes "list_all (entry_ok decompress) es" "mem_holds mem img (fatbin_bytes es)"
    and "List.map_filter (entry_code decompress) es = before @ cubin # after"
    and "\<forall>c\<in>set before. \<exists>file. minimal_parse elf c = Some file \<and>
          section_header_by_name elf file (''.nv.info.'' @ name) = Some None"
    and "minimal_parse elf cubin = Some file"
    and "section_header_by_name elf file (''.nv.info.'' @ name) = Some (Some shdr)"
    and "section_data elf file shdr = Some (concat (map nvinfo_bytes rs), False)"
    and "list_all nvinfo_ok rs" "fold nvinfo_apply rs (0, False, []) = (n, cbank, found)"
  shows "\<exists>h r. FatBinaryHeader_cast mem img = Some h \<and> unat (entire_len h) = length (fatbin_bytes es) \<and>
    fat_find_kernel_params elf decompress mem img h name = Some r \<and>
    (\<forall>ps. r = Ok (Some ps) () \<longleftrightarrow> mset ps = mset found \<and> params_ok n cbank 0 ps) \<and>
    ((\<exists>ps. mset ps = mset found \<and> params_ok n cbank 0 ps) \<or> (\<exists>m. r = Abort m))"
proof -
  obtain h where h: "FatBinaryHeader_cast mem img = Some h" "unat (entire_len h) = length (fatbin_bytes es)"
      "fat_size h = of_nat (length (concat (map fat_entry_bytes es)))" "mem_holds mem (img + 16) (concat (map fat_entry_bytes es))"
    using fatbin_header [OF assms(2)] by blast
  let ?r = "exec_bind (parse_params (concat (map nvinfo_bytes rs))) (\<lambda>ps. Ok (Some ps))"
  have "\<forall>c\<in>set before. find_kernel_params elf c name = Ok None ()"
    using assms(4) by (auto simp: find_kernel_params_def)
  then have "first_some (\<lambda>c. find_kernel_params elf c name) (before @ cubin # after) = ?r"
    using assms(5-7) parse_params_records [OF assms(8,9)]
    by (cases "parse_params (concat (map nvinfo_bytes rs))") (simp_all add: first_some_skip find_kernel_params_def)
  then have r: "fat_find_kernel_params elf decompress mem img h name = Some ?r"
    using code_find_map_entries [OF assms(1) h(4) refl, of "\<lambda>c. find_kernel_params elf c name"] h(3) assms(3) by (simp add: fat_find_kernel_params_def)
  have "(\<exists>ps. mset ps = mset found \<and> params_ok n cbank 0 ps) \<or> (\<exists>m. ?r = Abort m)"
    using parse_params_cases [OF assms(8,9)]
    by (cases "params_ok n cbank 0 (sort_key kp_ordinal found)") (auto intro: exI [of _ "sort_key kp_ordinal found"])
  moreover have "?r = Ok (Some ps) () \<longleftrightarrow> mset ps = mset found \<and> params_ok n cbank 0 ps" for ps
    using parse_params_records [OF assms(8,9), of ps] by (auto simp: exec_bind_eq_Ok)
  ultimately show ?thesis using h r by blast
qed

text \<open>
  An image with three entries: PTX, a code without the kernel, and a compressed code with it. Every
  byte of a compressed code stands for three; a code that starts with 9 has the kernel. Its section
  has the second parameter before the first.
\<close>

definition example_header :: "u16 \<Rightarrow> u32 \<Rightarrow> u32 \<Rightarrow> u32 \<Rightarrow> CodeHeader" where
  "example_header kind sz compressed decompressed =
     \<lparr>ch_kind = kind, unknown02 = 0x101, ch_header_size = 64, code_size = sz, unknown0c = 0,
      compressed_size = compressed, options_offset = 0, minor = 8, major = 0, arch = 90, name_offset = 0, name_size = 0,
      ch_flags = 0x11, unknown2c = 0, unknown30 = 0, unknown34 = 0, decompressed_size = decompressed, unknown3c = 0\<rparr>"

definition example_entries :: "fat_entry list" where
  "example_entries =
     [(example_header 1 2 0 0, [], [46, 118]), (example_header 2 1 0 0, [], [7]), (example_header 2 4 2 6, [], [9, 9, 0, 0])]"

definition triple_bytes :: decompressor where
  "triple_bytes bs n = Some (concat (map (replicate 3) bs))"

definition example_param :: "u16 \<Rightarrow> u16 \<Rightarrow> u32 \<Rightarrow> u8 list" where
  "example_param ord off sz = int_bytes [4, 2, 2, 4] [0, ucast ord, ucast off, ucast (push_bit 18 sz OR 0x1f000)]"

definition example_nvinfo :: "nvinfo list" where
  "example_nvinfo =
     [NVal 0x01, SVal EIATTR_KPARAM_INFO (example_param 1 8 4), HVal EIATTR_CBANK_PARAM_SIZE 12,
      SVal 0x0a [0, 0, 0, 0], SVal EIATTR_KPARAM_INFO (example_param 0 0 8)]"

definition example_elf :: "(u8 list, unit, unit) elf_api" where
  "example_elf =
     \<lparr>minimal_parse = Some, section_header_by_name = (\<lambda>file name. Some (if file ! 0 = 9 then Some () else None)),
      section_data = (\<lambda>_ _. Some (concat (map nvinfo_bytes example_nvinfo), False)),
      section_headers_with_strtab = (\<lambda>_. None), sh_name = (\<lambda>_. 0), strtab_get = (\<lambda>_ _. None), e_phoff = (\<lambda>_. 0),
      e_shoff = (\<lambda>_. 0), e_phentsize = (\<lambda>_. 0), e_phnum = (\<lambda>_. 0), e_shentsize = (\<lambda>_. 0), e_shnum = (\<lambda>_. 0)\<rparr>"

lemma example_entries_ok: "list_all (entry_ok triple_bytes) example_entries"
  by code_simp

lemma example_codes: "List.map_filter (entry_code triple_bytes) example_entries = [[7]] @ [9, 9, 9, 9, 9, 9] # []"
  by code_simp

lemma example_nvinfo_ok: "list_all nvinfo_ok example_nvinfo"
  by (simp add: example_nvinfo_def example_param_def EIATTR_KPARAM_INFO_def)

lemma example_found:
  "fold nvinfo_apply example_nvinfo (0, False, []) =
    (12, True, [KernelParamInfo_of (example_param 1 8 4), KernelParamInfo_of (example_param 0 0 8)])"
  by (simp add: example_nvinfo_def EIATTR_KPARAM_INFO_def EIATTR_SMEM_PARAM_SIZE_def EIATTR_CBANK_PARAM_SIZE_def)

lemma example_params_ok:
  "params_ok 12 True 0 [KernelParamInfo_of (example_param 0 0 8), KernelParamInfo_of (example_param 1 8 4)]"
  by code_simp

lemma example_image: "mem_holds (mem_store (\<lambda>_. 0) 4096 (fatbin_bytes example_entries)) 4096 (fatbin_bytes example_entries)"
proof (rule mem_holds_store)
  have "length (fatbin_bytes example_entries) = 215" by code_simp
  then show "unat (4096 :: u64) + length (fatbin_bytes example_entries) + 64 < 2 ^ 64" by simp
qed

theorem fatbin_kernel_params_witness:
  "\<exists>h. fat_find_kernel_params example_elf triple_bytes (mem_store (\<lambda>_. 0) 4096 (fatbin_bytes example_entries)) 4096 h ''k'' =
    Some (Ok (Some [KernelParamInfo_of (example_param 0 0 8), KernelParamInfo_of (example_param 1 8 4)]) ())"
proof -
  have "\<exists>h r. FatBinaryHeader_cast (mem_store (\<lambda>_. 0) 4096 (fatbin_bytes example_entries)) 4096 = Some h \<and>
      unat (entire_len h) = length (fatbin_bytes example_entries) \<and>
      fat_find_kernel_params example_elf triple_bytes (mem_store (\<lambda>_. 0) 4096 (fatbin_bytes example_entries)) 4096 h ''k'' = Some r \<and>
      (\<forall>ps. r = Ok (Some ps) () \<longleftrightarrow>
         mset ps = mset [KernelParamInfo_of (example_param 1 8 4), KernelParamInfo_of (example_param 0 0 8)] \<and>
         params_ok 12 True 0 ps) \<and>
      ((\<exists>ps. mset ps = mset [KernelParamInfo_of (example_param 1 8 4), KernelParamInfo_of (example_param 0 0 8)] \<and>
         params_ok 12 True 0 ps) \<or> (\<exists>m. r = Abort m))"
    by (rule fatbin_kernel_params [OF example_entries_ok example_image example_codes _ _ _ _ example_nvinfo_ok example_found, of _ _ "[9, 9, 9, 9, 9, 9]" "()"])
      (simp_all add: example_elf_def)
  then obtain h r where h: "fat_find_kernel_params example_elf triple_bytes
        (mem_store (\<lambda>_. 0) 4096 (fatbin_bytes example_entries)) 4096 h ''k'' = Some r"
      and r: "\<And>ps. r = Ok (Some ps) () \<longleftrightarrow>
         mset ps = mset [KernelParamInfo_of (example_param 1 8 4), KernelParamInfo_of (example_param 0 0 8)] \<and>
         params_ok 12 True 0 ps"
    by (elim exE conjE) (rule that, assumption, erule spec)
  have "mset [KernelParamInfo_of (example_param 0 0 8), KernelParamInfo_of (example_param 1 8 4)] =
      mset [KernelParamInfo_of (example_param 1 8 4), KernelParamInfo_of (example_param 0 0 8)]"
    by (simp add: add_mset_commute)
  with r example_params_ok
  have "r = Ok (Some [KernelParamInfo_of (example_param 0 0 8), KernelParamInfo_of (example_param 1 8 4)]) ()"
    by (intro iffD2 [OF r] conjI)
  with h show ?thesis by (intro exI) simp
qed

end
