(* ===== verification/Launch.thy ===== *)
theory Launch
  imports Fatbin BTree "HOL-Library.Sublist"
begin

text \<open>
  The hand-written functions of the client (\<open>client/src/hijack\<close>): registration of fat binaries and
  kernels, which only fills tables, and the launch of a kernel, which loads its module and looks
  up its function when they are first needed and sends the arguments in one buffer. A remote call
  is answered by the parameter \<open>remote\<close>, which may depend on all earlier calls; how a call
  travels is the subject of \<open>Rpc\<close>. The functions of one process are executed one after
  the other. Kernel names are ASCII strings.
\<close>

section \<open>The state of a client\<close>

type_synonym dim3 = "u32 \<times> u32 \<times> u32"

text \<open>
  The remoted functions with what is sent; a lookup of a function sends the proxy that the
  client made up when descriptors are shadowed.
\<close>

datatype remote_call =
    R_cudaFree u64
  | R_cudaGetDevice
  | R_cudaSetDevice int
  | R_cudaStreamSynchronize u64
  | R_cudaPointerGetAttributes u64
  | R_cudaMemcpyAsyncHtod u64 "u8 list" u64
  | R_cudaMemcpyAsyncDtoh u64 u64 u64
  | R_cudaMemcpyDtod u64 u64 u64
  | R_cudaMemcpyAsyncDtod u64 u64 u64 u64
  | R_cuModuleLoadDataInternal "u8 list"
  | R_cuModuleGetFunction "u64 option" u64 string
  | R_cuLaunchKernel u64 dim3 dim3 u32 u64 "u8 list"
  | R_cudaFuncGetAttributesInternal u64
  | R_cuOccupancyMaxActiveBlocks u64 int u64 u32
  | R_cuFuncSetAttribute u64 int int
  | R_cuCtxGetCurrentInternal

record remote_reply =
  code :: int
  output_value :: u64
  output_bytes :: "u8 list"

record ClientThread =
  cuda_device :: "int option"
  cuda_device_init :: bool
  cuda_pctx_flags :: "u32 option"

text \<open>A cached image: the program's own, or a copy at an address that the allocator gave.\<close>

datatype cow = Borrowed u64 nat | Owned u64 "u8 list"

record DriverCache =
  images :: "(u64, cow) btree"
  function_params :: "(u64, KernelParamInfo list) btree"

text \<open>\<open>HostPtr\<close> and \<open>FatBinaryHandle\<close> are words; names are read when they are needed.\<close>

record RuntimeCache =
  rt_cuda_device :: "int option"
  lazy_fatbins :: "u64 list"
  lazy_functions :: "(u64, u64 \<times> string) btree"
  lazy_variables :: "(u64, u64 \<times> string) btree"
  loaded_modules :: "(u64, u64) btree"
  loaded_functions :: "(u64, u64) btree"

record CallConfiguration =
  cfg_gridDim :: dim3
  cfg_blockDim :: dim3
  cfg_sharedMem :: u64
  cfg_stream :: u64

record client_process =
  process_memory :: memory
  thread :: ClientThread
  driver_cache :: DriverCache
  runtime_cache :: RuntimeCache
  call_configurations :: "CallConfiguration list"
  next_proxy :: u64
  calls :: "(remote_call \<times> remote_reply) list"

definition DriverCache_new :: DriverCache where
  "DriverCache_new = \<lparr>images = [], function_params = []\<rparr>"

definition RuntimeCache_new :: RuntimeCache where
  "RuntimeCache_new = \<lparr>rt_cuda_device = None, lazy_fatbins = [], lazy_functions = [], lazy_variables = [],
     loaded_modules = [], loaded_functions = []\<rparr>"

definition client_start :: "memory \<Rightarrow> client_process" where
  "client_start mem =
     \<lparr>process_memory = mem, thread = \<lparr>cuda_device = None, cuda_device_init = False, cuda_pctx_flags = None\<rparr>,
      driver_cache = DriverCache_new, runtime_cache = RuntimeCache_new, call_configurations = [], next_proxy = 1, calls = []\<rparr>"

record ('f, 's, 't) client_env =
  elf :: "('f, 's, 't) elf_api"
  decompress :: decompressor
  remote :: "(remote_call \<times> remote_reply) list \<Rightarrow> remote_call \<Rightarrow> remote_reply"
  allocate :: "client_process \<Rightarrow> nat \<Rightarrow> u64"
  opt_local :: bool
  shadow_desc :: bool
  async_api :: bool
  validate_fatbins :: bool

type_synonym 'a client_op = "client_process \<Rightarrow> ('a, client_process) exec"

text \<open>A function without effects; a search that does not end counts as a crash.\<close>

definition pure :: "('a, unit) exec \<Rightarrow> 'a client_op" where
  "pure e s = (case e of Ok x _ \<Rightarrow> Ok x s | Exit n _ \<Rightarrow> Exit n s | Abort m \<Rightarrow> Abort m | Undef m \<Rightarrow> Undef m)"

definition search :: "('a, unit) exec option \<Rightarrow> 'a client_op" where
  "search e s = (case e of None \<Rightarrow> Abort ''endless search'' | Some e \<Rightarrow> pure e s)"

definition perform :: "('f, 's, 't) client_env \<Rightarrow> remote_call \<Rightarrow> remote_reply client_op" where
  "perform env c s = (let r = remote env (calls s) c in Ok r (s\<lparr>calls := calls s @ [(c, r)]\<rparr>))"

text \<open>The result of a function that is declared asynchronous.\<close>

definition async_result :: "('f, 's, 't) client_env \<Rightarrow> remote_reply \<Rightarrow> int" where
  "async_result env r = (if async_api env then 0 else code r)"

section \<open>The driver cache\<close>

definition cow_view :: "memory \<Rightarrow> cow \<Rightarrow> memory \<times> u64 \<times> nat" where
  "cow_view mem img =
     (case img of Borrowed a n \<Rightarrow> (mem, a, n) | Owned a bs \<Rightarrow> (mem_store mem a bs, a, length bs))"

definition insert_image :: "('f, 's, 't) client_env \<Rightarrow> u64 \<Rightarrow> u64 \<Rightarrow> nat \<Rightarrow> bool \<Rightarrow> client_process \<Rightarrow> client_process" where
  "insert_image env hmod addr len is_runtime s =
     (let img = if is_runtime then Borrowed addr len
                else Owned (allocate env s len) (mem_load (process_memory s) addr len)
      in s\<lparr>driver_cache := (driver_cache s)\<lparr>images := bt_insert hmod img (images (driver_cache s))\<rparr>\<rparr>)"

definition image_params :: "('f, 's, 't) client_env \<Rightarrow> memory \<Rightarrow> cow \<Rightarrow> string \<Rightarrow>
    (KernelParamInfo list option, unit) exec option" where
  "image_params env mem img name =
     (let (m, a, n) = cow_view mem img
      in case FatBinaryHeader_cast m a of
           Some fatbin \<Rightarrow> fat_find_kernel_params (elf env) (decompress env) m a fatbin name
         | None \<Rightarrow> Some (find_kernel_params (elf env) (mem_load m a n) name))"

definition insert_function :: "('f, 's, 't) client_env \<Rightarrow> u64 \<Rightarrow> u64 \<Rightarrow> string \<Rightarrow> unit client_op" where
  "insert_function env hfunc hmod name s =
     (case bt_get (images (driver_cache s)) hmod of
        None \<Rightarrow> Abort ''called Option::unwrap() on a None value''
      | Some img \<Rightarrow>
          exec_bind (search (image_params env (process_memory s) img name) s) (\<lambda>params s.
            case params of
              None \<Rightarrow> Abort ''kernel not found''
            | Some ps \<Rightarrow>
                if bt_get (function_params (driver_cache s)) hfunc \<noteq> None
                then Abort ''assertion failed: self.function_params.insert(hfunc, params).is_none()''
                else Ok () (s\<lparr>driver_cache := (driver_cache s)\<lparr>function_params :=
                       bt_insert hfunc ps (function_params (driver_cache s))\<rparr>\<rparr>)))"

definition get_params :: "u64 \<Rightarrow> KernelParamInfo list client_op" where
  "get_params f s =
     (case bt_get (function_params (driver_cache s)) f of
        None \<Rightarrow> Abort ''called Option::unwrap() on a None value'' | Some ps \<Rightarrow> Ok ps s)"

section \<open>Driver functions\<close>

definition image_len :: "('f, 's, 't) client_env \<Rightarrow> memory \<Rightarrow> u64 \<Rightarrow> (u64, unit) exec" where
  "image_len env mem addr =
     (case FatBinaryHeader_cast mem addr of Some header \<Rightarrow> Ok (entire_len header) () | None \<Rightarrow> elf_len (elf env) mem addr)"

text \<open>The image is kept also when the server could not load it.\<close>

definition cuModuleLoadDataInternal :: "('f, 's, 't) client_env \<Rightarrow> u64 \<Rightarrow> bool \<Rightarrow> (int \<times> u64) client_op" where
  "cuModuleLoadDataInternal env addr is_runtime s =
     exec_bind (pure (image_len env (process_memory s) addr) s) (\<lambda>len s.
     exec_bind (perform env (R_cuModuleLoadDataInternal (mem_load (process_memory s) addr (unat len))) s) (\<lambda>r s.
       Ok (code r, output_value r) (insert_image env (output_value r) addr (unat len) is_runtime s)))"

text \<open>
  The guard in the send statements runs at the end of the function, whichever way it ends: the
  function is entered into the cache also when the server reported an error.
\<close>

definition cuModuleGetFunction :: "('f, 's, 't) client_env \<Rightarrow> u64 \<Rightarrow> string \<Rightarrow> (int \<times> u64) client_op" where
  "cuModuleGetFunction env hmod name s =
     (if shadow_desc env
      then let proxy = next_proxy s
           in exec_bind (perform env (R_cuModuleGetFunction (Some proxy) hmod name) (s\<lparr>next_proxy := proxy + 1\<rparr>)) (\<lambda>r s.
              exec_bind (insert_function env proxy hmod name s) (\<lambda>_. Ok (0, proxy)))
      else exec_bind (perform env (R_cuModuleGetFunction None hmod name) s) (\<lambda>r s.
           exec_bind (insert_function env (output_value r) hmod name s) (\<lambda>_. Ok (code r, output_value r))))"

text \<open>The pointers to the arguments are read from memory; a copy beyond the buffer is undefined.\<close>

fun pack_params :: "memory \<Rightarrow> KernelParamInfo list \<Rightarrow> u64 list \<Rightarrow> u8 list \<Rightarrow> (u8 list, unit) exec" where
  "pack_params mem (p # ps) (a # ptrs) buf =
     (if length buf < unat (kp_offset p) + unat (param_size p) then Undef ''copy beyond the buffer''
      else pack_params mem ps ptrs (write_at (unat (kp_offset p)) (mem_load mem a (unat (param_size p))) buf))"
| "pack_params mem ps ptrs buf = Ok buf ()"

definition arg_pointers :: "memory \<Rightarrow> u64 \<Rightarrow> nat \<Rightarrow> u64 list" where
  "arg_pointers mem args n = map (\<lambda>i. usize_of (mem_load mem (args + of_nat (8 * i)) 8)) [0..<n]"

definition pack_kernel_args :: "u64 \<Rightarrow> u64 \<Rightarrow> u8 list client_op" where
  "pack_kernel_args f args s =
     exec_bind (get_params f s) (\<lambda>info s.
       if info = [] then Ok [] s
       else pure (pack_params (process_memory s) info (arg_pointers (process_memory s) args (length info))
              (replicate (unat (kp_offset (last info) + param_size (last info))) 0)) s)"

definition cuLaunchKernel :: "('f, 's, 't) client_env \<Rightarrow> u64 \<Rightarrow> dim3 \<Rightarrow> dim3 \<Rightarrow> u32 \<Rightarrow> u64 \<Rightarrow> u64 \<Rightarrow> int client_op" where
  "cuLaunchKernel env f grid block sharedMemBytes hStream kernelParams s =
     exec_bind (pack_kernel_args f kernelParams s) (\<lambda>args s.
     exec_bind (perform env (R_cuLaunchKernel f grid block sharedMemBytes hStream args) s) (\<lambda>r.
       Ok (async_result env r)))"

definition cuModuleLoadData :: "('f, 's, 't) client_env \<Rightarrow> u64 \<Rightarrow> (int \<times> u64) client_op" where
  "cuModuleLoadData env addr = cuModuleLoadDataInternal env addr False"

text \<open>With shadowed descriptors a context is only there or not.\<close>

definition cuCtxGetCurrent :: "('f, 's, 't) client_env \<Rightarrow> (int \<times> u64) client_op" where
  "cuCtxGetCurrent env s =
     (if shadow_desc env
      then Ok (0, if cuda_device_init (thread s) \<or> cuda_pctx_flags (thread s) \<noteq> None then - 1 else 0) s
      else exec_bind (perform env R_cuCtxGetCurrentInternal s) (\<lambda>r. Ok (code r, output_value r)))"

section \<open>Runtime functions\<close>

definition cudaGetDevice :: "('f, 's, 't) client_env \<Rightarrow> (int \<times> int) client_op" where
  "cudaGetDevice env s =
     (case (opt_local env, cuda_device (thread s)) of
        (True, Some val) \<Rightarrow> Ok (0, val) s
      | _ \<Rightarrow> exec_bind (perform env R_cudaGetDevice s) (\<lambda>r s.
               Ok (code r, sint (ucast (output_value r) :: u32)) (s\<lparr>thread := (thread s)\<lparr>cuda_device := Some (sint (ucast (output_value r) :: u32))\<rparr>\<rparr>)))"

definition cudaSetDevice :: "('f, 's, 't) client_env \<Rightarrow> int \<Rightarrow> int client_op" where
  "cudaSetDevice env device s =
     exec_bind (perform env (R_cudaSetDevice device) s) (\<lambda>r s.
       Ok (code r) (s\<lparr>thread := (thread s)\<lparr>cuda_device := (if code r = 0 then Some device else None)\<rparr>\<rparr>))"

definition FatBinaryHandle_from_index :: "u64 \<Rightarrow> u64" where
  "FatBinaryHandle_from_index i = push_bit 4 (i + 1)"

definition FatBinaryHandle_to_index :: "u64 \<Rightarrow> u64" where
  "FatBinaryHandle_to_index h = drop_bit 4 h - 1"

definition cudaRegisterFatBinary :: "('f, 's, 't) client_env \<Rightarrow> FatBinaryWrapper \<Rightarrow> u64 client_op" where
  "cudaRegisterFatBinary env fatCubin s =
     exec_bind (pure (FatBinaryWrapper_unwrap fatCubin) s) (\<lambda>fatbin s.
     exec_bind
       (if validate_fatbins env
        then exec_bind (search (validate_code (elf env) (decompress env) (process_memory s) fatbin
               (FatBinaryHeader_of (mem_load (process_memory s) fatbin 16))) s) (\<lambda>_. Ok ())
        else Ok () s) (\<lambda>_ s.
       let rt = runtime_cache s; fatbins = lazy_fatbins rt @ [fatbin]
       in Ok (FatBinaryHandle_from_index (of_nat (length fatbins - 1))) (s\<lparr>runtime_cache := rt\<lparr>lazy_fatbins := fatbins\<rparr>\<rparr>)))"

text \<open>\<open>entry(k).or_insert(v)\<close>: the first registration stays.\<close>

definition bt_or_insert :: "'k :: linorder \<Rightarrow> 'v \<Rightarrow> ('k, 'v) btree \<Rightarrow> ('k, 'v) btree" where
  "bt_or_insert k v m = (if bt_get m k = None then bt_insert k v m else m)"

definition cudaRegisterFunction :: "u64 \<Rightarrow> u64 \<Rightarrow> string \<Rightarrow> unit client_op" where
  "cudaRegisterFunction fatCubinHandle hostFun deviceName s =
     (let rt = runtime_cache s
      in Ok () (s\<lparr>runtime_cache := rt\<lparr>lazy_functions :=
           bt_or_insert hostFun (fatCubinHandle, deviceName) (lazy_functions rt)\<rparr>\<rparr>))"

definition cudaRegisterVar :: "u64 \<Rightarrow> u64 \<Rightarrow> string \<Rightarrow> unit client_op" where
  "cudaRegisterVar fatCubinHandle hostVar deviceName s =
     (let rt = runtime_cache s
      in Ok () (s\<lparr>runtime_cache := rt\<lparr>lazy_variables :=
           bt_or_insert hostVar (fatCubinHandle, deviceName) (lazy_variables rt)\<rparr>\<rparr>))"

text \<open>The parts of \<open>get_cufunction\<close>: the first call of a thread, the device, and the module.\<close>

definition init_device :: "('f, 's, 't) client_env \<Rightarrow> unit client_op" where
  "init_device env s =
     (if cuda_device_init (thread s) then Ok () s
      else exec_bind (perform env (R_cudaFree 0) s) (\<lambda>r s.
             if async_result env r = 0 then Ok () (s\<lparr>thread := (thread s)\<lparr>cuda_device_init := True\<rparr>\<rparr>)
             else Abort ''assertion failed: cudaFree(null) == Default::default()''))"

definition pin_device :: "('f, 's, 't) client_env \<Rightarrow> unit client_op" where
  "pin_device env s =
     (case rt_cuda_device (runtime_cache s) of
        Some device \<Rightarrow>
          if cuda_device (thread s) = Some device then Ok () s
          else Abort ''current device (left) and registered device (right) mismatch''
      | None \<Rightarrow>
          exec_bind (cudaGetDevice env s) (\<lambda>(r, device) s.
            if r = 0 then Ok () (s\<lparr>runtime_cache := (runtime_cache s)\<lparr>rt_cuda_device := Some device\<rparr>\<rparr>)
            else Abort ''assertion failed: cudaGetDevice(&mut device) == Default::default()''))"

definition runtime_module :: "('f, 's, 't) client_env \<Rightarrow> u64 \<Rightarrow> u64 client_op" where
  "runtime_module env fatCubinHandle s =
     (case bt_get (loaded_modules (runtime_cache s)) fatCubinHandle of
        Some hmod \<Rightarrow> Ok hmod s
      | None \<Rightarrow>
          let i = unat (FatBinaryHandle_to_index fatCubinHandle)
          in if length (lazy_fatbins (runtime_cache s)) \<le> i then Abort ''index out of bounds''
             else exec_bind (cuModuleLoadDataInternal env (lazy_fatbins (runtime_cache s) ! i) True s) (\<lambda>(r, hmod) s.
                    if r \<noteq> 0 then Abort ''assertion failed: cuModuleLoadDataInternal == Default::default()''
                    else Ok hmod (s\<lparr>runtime_cache := (runtime_cache s)\<lparr>loaded_modules :=
                           bt_insert fatCubinHandle hmod (loaded_modules (runtime_cache s))\<rparr>\<rparr>)))"

definition get_cufunction :: "('f, 's, 't) client_env \<Rightarrow> u64 \<Rightarrow> u64 client_op" where
  "get_cufunction env func s =
     exec_bind (init_device env s) (\<lambda>_ s.
       case bt_get (loaded_functions (runtime_cache s)) func of
         Some cufunc \<Rightarrow> Ok cufunc s
       | None \<Rightarrow>
           exec_bind (pin_device env s) (\<lambda>_ s.
             case bt_get (lazy_functions (runtime_cache s)) func of
               None \<Rightarrow> Abort ''called Option::unwrap() on a None value''
             | Some (fatCubinHandle, deviceName) \<Rightarrow>
                 exec_bind (runtime_module env fatCubinHandle s) (\<lambda>hmod s.
                 exec_bind (cuModuleGetFunction env hmod deviceName s) (\<lambda>(r, cufunc) s.
                   if r \<noteq> 0 then Abort ''assertion failed: cuModuleGetFunction == Default::default()''
                   else Ok cufunc (s\<lparr>runtime_cache := (runtime_cache s)\<lparr>loaded_functions :=
                          bt_insert func cufunc (loaded_functions (runtime_cache s))\<rparr>\<rparr>)))))"

definition hijack_cudaLaunchKernel :: "('f, 's, 't) client_env \<Rightarrow> u64 \<Rightarrow> dim3 \<Rightarrow> dim3 \<Rightarrow> u64 \<Rightarrow> u64 \<Rightarrow> u64 \<Rightarrow> int client_op" where
  "hijack_cudaLaunchKernel env func gridDim blockDim args sharedMem stream s =
     exec_bind (get_cufunction env func s) (\<lambda>cufunc s.
       if 2 ^ 32 \<le> sharedMem then Abort ''called Result::unwrap() on an Err value''
       else cuLaunchKernel env cufunc gridDim blockDim (ucast sharedMem) stream args s)"

text \<open>The stack of launch configurations, for the code that the compiler generates for a launch.\<close>

definition cudaPushCallConfiguration :: "dim3 \<Rightarrow> dim3 \<Rightarrow> u64 \<Rightarrow> u64 \<Rightarrow> int client_op" where
  "cudaPushCallConfiguration gridDim blockDim sharedMem stream s =
     Ok 0 (s\<lparr>call_configurations := call_configurations s @
       [\<lparr>cfg_gridDim = gridDim, cfg_blockDim = blockDim, cfg_sharedMem = sharedMem, cfg_stream = stream\<rparr>]\<rparr>)"

definition cudaErrorMissingConfiguration :: int where
  "cudaErrorMissingConfiguration = 52"

definition cudaPopCallConfiguration :: "(int \<times> CallConfiguration option) client_op" where
  "cudaPopCallConfiguration s =
     (if call_configurations s = [] then Ok (cudaErrorMissingConfiguration, None) s
      else Ok (0, Some (last (call_configurations s))) (s\<lparr>call_configurations := butlast (call_configurations s)\<rparr>))"

text \<open>Functions on a kernel.\<close>

definition cudaFuncGetAttributes :: "('f, 's, 't) client_env \<Rightarrow> u64 \<Rightarrow> remote_reply client_op" where
  "cudaFuncGetAttributes env func s =
     exec_bind (get_cufunction env func s) (\<lambda>f. perform env (R_cudaFuncGetAttributesInternal f))"

definition cudaOccupancyMaxActiveBlocks :: "('f, 's, 't) client_env \<Rightarrow> u64 \<Rightarrow> int \<Rightarrow> u64 \<Rightarrow> u32 \<Rightarrow> remote_reply client_op" where
  "cudaOccupancyMaxActiveBlocks env func blockSize dynamicSMemSize flags s =
     exec_bind (get_cufunction env func s) (\<lambda>f.
       perform env (R_cuOccupancyMaxActiveBlocks f blockSize dynamicSMemSize flags))"

definition cudaFuncSetAttribute :: "('f, 's, 't) client_env \<Rightarrow> u64 \<Rightarrow> int \<Rightarrow> int \<Rightarrow> int client_op" where
  "cudaFuncSetAttribute env func attr val s =
     exec_bind (get_cufunction env func s) (\<lambda>f s.
     exec_bind (perform env (R_cuFuncSetAttribute f attr val) s) (\<lambda>r. Ok (async_result env r)))"

section \<open>Programs\<close>

datatype client_fn =
    F_RegisterFatBinary FatBinaryWrapper
  | F_RegisterFunction u64 u64 string
  | F_RegisterVar u64 u64 string
  | F_SetDevice int
  | F_GetDevice
  | F_ModuleLoadData u64
  | F_ModuleGetFunction u64 string
  | F_cuLaunchKernel u64 dim3 dim3 u32 u64 u64
  | F_cudaLaunchKernel u64 dim3 dim3 u64 u64 u64
  | F_FuncGetAttributes u64
  | F_FuncSetAttribute u64 int int
  | F_Occupancy u64 int u64 u32
  | F_PushConfiguration dim3 dim3 u64 u64
  | F_PopConfiguration
  | F_CtxGetCurrent

definition void :: "'a client_op \<Rightarrow> unit client_op" where
  "void m s = exec_bind (m s) (\<lambda>_. Ok ())"

fun client_call :: "('f, 's, 't) client_env \<Rightarrow> client_fn \<Rightarrow> unit client_op" where
  "client_call env (F_RegisterFatBinary fatbin) = void (cudaRegisterFatBinary env fatbin)"
| "client_call env (F_RegisterFunction h func name) = void (cudaRegisterFunction h func name)"
| "client_call env (F_RegisterVar h v name) = void (cudaRegisterVar h v name)"
| "client_call env (F_SetDevice d) = void (cudaSetDevice env d)"
| "client_call env F_GetDevice = void (cudaGetDevice env)"
| "client_call env (F_ModuleLoadData a) = void (cuModuleLoadData env a)"
| "client_call env (F_ModuleGetFunction m name) = void (cuModuleGetFunction env m name)"
| "client_call env (F_cuLaunchKernel f g b sh st args) = void (cuLaunchKernel env f g b sh st args)"
| "client_call env (F_cudaLaunchKernel func g b args sh st) = void (hijack_cudaLaunchKernel env func g b args sh st)"
| "client_call env (F_FuncGetAttributes func) = void (cudaFuncGetAttributes env func)"
| "client_call env (F_FuncSetAttribute func a v) = void (cudaFuncSetAttribute env func a v)"
| "client_call env (F_Occupancy func n sh fl) = void (cudaOccupancyMaxActiveBlocks env func n sh fl)"
| "client_call env (F_PushConfiguration g b sh st) = void (cudaPushCallConfiguration g b sh st)"
| "client_call env F_PopConfiguration = void cudaPopCallConfiguration"
| "client_call env F_CtxGetCurrent = void (cuCtxGetCurrent env)"

text \<open>
  The states of a program that calls these functions and in between writes to its memory, but not
  to the fat binaries it has registered, which are constants of the program.
\<close>

definition image_bytes :: "('f, 's, 't) client_env \<Rightarrow> memory \<Rightarrow> u64 \<Rightarrow> u8 list" where
  "image_bytes env mem addr = (case image_len env mem addr of Ok n _ \<Rightarrow> mem_load mem addr (unat n) | _ \<Rightarrow> [])"

inductive client_reach :: "('f, 's, 't) client_env \<Rightarrow> client_process \<Rightarrow> bool" for env where
  reach_start: "client_reach env (client_start mem)"
| reach_write: "client_reach env s \<Longrightarrow>
    \<forall>a\<in>set (lazy_fatbins (runtime_cache s)). image_bytes env mem a = image_bytes env (process_memory s) a \<Longrightarrow>
    client_reach env (s\<lparr>process_memory := mem\<rparr>)"
| reach_call: "client_reach env s \<Longrightarrow> client_call env c s = Ok x s' \<Longrightarrow> client_reach env s'"

section \<open>Where the handle of a launch comes from\<close>

lemma bt_get_insert_any [simp]: "bt_get (bt_insert k v m) j = (if j = k then Some v else bt_get m j)"
  by (simp add: bt_get_def bt_get_insert_aux)

lemma bt_or_insert_keeps: "bt_get m j = Some w \<Longrightarrow> bt_get (bt_or_insert k v m) j = Some w"
  by (auto simp: bt_or_insert_def)

text \<open>Registrations are only added, the calls only grow, and the images stay.\<close>

definition grows :: "client_process \<Rightarrow> client_process \<Rightarrow> bool" where
  "grows s t \<longleftrightarrow>
     process_memory t = process_memory s \<and> prefix (calls s) (calls t) \<and>
     prefix (lazy_fatbins (runtime_cache s)) (lazy_fatbins (runtime_cache t)) \<and>
     (\<forall>k v. bt_get (lazy_functions (runtime_cache s)) k = Some v \<longrightarrow> bt_get (lazy_functions (runtime_cache t)) k = Some v)"

definition calm :: "client_process \<Rightarrow> client_process \<Rightarrow> bool" where
  "calm s t \<longleftrightarrow> grows s t \<and> loaded_modules (runtime_cache t) = loaded_modules (runtime_cache s) \<and>
     loaded_functions (runtime_cache t) = loaded_functions (runtime_cache s)"

named_theorems calm_intros \<open>operations that leave the loaded modules and functions alone\<close>

lemma grows_refl [simp]: "grows s s"
  by (simp add: grows_def)

lemma grows_trans: "grows s t \<Longrightarrow> grows t u \<Longrightarrow> grows s u"
  by (auto simp: grows_def intro: prefix_order.trans)

lemma calm_refl [simp]: "calm s s"
  by (simp add: calm_def)

lemma calm_trans: "calm s t \<Longrightarrow> calm t u \<Longrightarrow> calm s u"
  by (auto simp: calm_def intro: grows_trans)

lemma calm_grows: "calm s t \<Longrightarrow> grows s t"
  by (simp add: calm_def)

lemma pure_Ok [exec_simps]: "pure e s = Ok x t \<longleftrightarrow> e = Ok x () \<and> t = s"
  by (cases e) (auto simp: pure_def)

lemma search_Ok [exec_simps]: "search e s = Ok x t \<longleftrightarrow> e = Some (Ok x ()) \<and> t = s"
  by (cases e) (auto simp: search_def pure_Ok)

lemma perform_Ok [exec_simps]:
  "perform env c s = Ok r t \<longleftrightarrow> r = remote env (calls s) c \<and> t = s\<lparr>calls := calls s @ [(c, r)]\<rparr>"
  by (auto simp: perform_def Let_def)

lemma calm_simps [simp]:
  "calm s (s\<lparr>calls := calls s @ cs\<rparr>)" "calm s (t\<lparr>thread := th\<rparr>) = calm s t" "calm s (t\<lparr>next_proxy := p\<rparr>) = calm s t"
  "calm s (t\<lparr>driver_cache := d\<rparr>) = calm s t" "calm s (t\<lparr>call_configurations := cc\<rparr>) = calm s t"
  "calm s (t\<lparr>runtime_cache := (runtime_cache t)\<lparr>rt_cuda_device := dev\<rparr>\<rparr>) = calm s t"
  by (simp_all add: calm_def grows_def)

lemma calm_after:
  "calm (s\<lparr>calls := calls s @ cs\<rparr>) t \<Longrightarrow> calm s t"
  "calm (s\<lparr>next_proxy := p, calls := calls s @ cs\<rparr>) t \<Longrightarrow> calm s t"
  by (auto simp: calm_def grows_def prefix_def)

lemma calm_perform [calm_intros]: "perform env c s = Ok r t \<Longrightarrow> calm s t"
  by (simp add: perform_Ok)

lemma calm_insert_image [calm_intros]: "calm s (insert_image env m a n b s)"
  by (simp add: insert_image_def Let_def)

lemma calm_insert_function [calm_intros]: "insert_function env f m name s = Ok x t \<Longrightarrow> calm s t"
  by (auto simp: insert_function_def exec_simps split: option.splits if_splits)

lemma calm_load [calm_intros]: "cuModuleLoadDataInternal env a b s = Ok x t \<Longrightarrow> calm s t"
  by (auto simp: cuModuleLoadDataInternal_def exec_simps insert_image_def)

lemma calm_get_function [calm_intros]:
  "cuModuleGetFunction env m name s = Ok x t \<Longrightarrow> calm s t"
  by (auto simp: cuModuleGetFunction_def exec_simps dest!: calm_insert_function calm_after split: if_splits)

lemma calm_cuLaunchKernel [calm_intros]: "cuLaunchKernel env f g b sh st args s = Ok x t \<Longrightarrow> calm s t"
  by (auto simp: cuLaunchKernel_def pack_kernel_args_def get_params_def exec_simps split: option.splits if_splits)

lemma calm_init_device [calm_intros]: "init_device env s = Ok x t \<Longrightarrow> calm s t"
  by (auto simp: init_device_def exec_simps split: if_splits)

lemma calm_get_device [calm_intros]: "cudaGetDevice env s = Ok x t \<Longrightarrow> calm s t"
  by (auto simp: cudaGetDevice_def exec_simps split: option.splits bool.splits)

lemma calm_set_device [calm_intros]: "cudaSetDevice env d s = Ok x t \<Longrightarrow> calm s t"
  by (auto simp: cudaSetDevice_def exec_simps)

lemma calm_pin_device [calm_intros]: "pin_device env s = Ok x t \<Longrightarrow> calm s t"
  by (auto simp: pin_device_def exec_simps dest: calm_get_device split: option.splits if_splits)

lemma calm_register_fatbin [calm_intros]: "cudaRegisterFatBinary env w s = Ok x t \<Longrightarrow> calm s t"
  by (auto simp: cudaRegisterFatBinary_def exec_simps calm_def grows_def split: if_splits)

lemma calm_register_function [calm_intros]: "cudaRegisterFunction h f name s = Ok x t \<Longrightarrow> calm s t"
  by (auto simp: cudaRegisterFunction_def calm_def grows_def Let_def bt_or_insert_keeps)

lemma calm_register_var [calm_intros]: "cudaRegisterVar h v name s = Ok x t \<Longrightarrow> calm s t"
  by (auto simp: cudaRegisterVar_def calm_def grows_def Let_def)

text \<open>
  A module comes from a call that loaded the fat binary of its handle, a function from a later call
  that looked its name up in such a module.
\<close>

definition fatbin_of :: "('f, 's, 't) client_env \<Rightarrow> client_process \<Rightarrow> u64 \<Rightarrow> u8 list" where
  "fatbin_of env s h =
     image_bytes env (process_memory s) (lazy_fatbins (runtime_cache s) ! unat (FatBinaryHandle_to_index h))"

definition registered :: "client_process \<Rightarrow> u64 \<Rightarrow> bool" where
  "registered s h \<longleftrightarrow> unat (FatBinaryHandle_to_index h) < length (lazy_fatbins (runtime_cache s))"

definition module_origin :: "('f, 's, 't) client_env \<Rightarrow> client_process \<Rightarrow> u64 \<Rightarrow> u64 \<Rightarrow> bool" where
  "module_origin env s h m \<longleftrightarrow> registered s h \<and>
     (\<exists>r. (R_cuModuleLoadDataInternal (fatbin_of env s h), r) \<in> set (calls s) \<and> code r = 0 \<and> output_value r = m)"

definition function_origin :: "('f, 's, 't) client_env \<Rightarrow> client_process \<Rightarrow> u64 \<Rightarrow> string \<Rightarrow> u64 \<Rightarrow> bool" where
  "function_origin env s h name f \<longleftrightarrow> registered s h \<and>
     (\<exists>r1 p r2. subseq [(R_cuModuleLoadDataInternal (fatbin_of env s h), r1),
        (R_cuModuleGetFunction p (output_value r1) name, r2)] (calls s) \<and> code r1 = 0 \<and>
        (case p of Some q \<Rightarrow> f = q | None \<Rightarrow> code r2 = 0 \<and> f = output_value r2))"

definition launch_inv :: "('f, 's, 't) client_env \<Rightarrow> client_process \<Rightarrow> bool" where
  "launch_inv env s \<longleftrightarrow>
     (\<forall>h m. bt_get (loaded_modules (runtime_cache s)) h = Some m \<longrightarrow> module_origin env s h m) \<and>
     (\<forall>func f. bt_get (loaded_functions (runtime_cache s)) func = Some f \<longrightarrow>
        (\<exists>h name. bt_get (lazy_functions (runtime_cache s)) func = Some (h, name) \<and> function_origin env s h name f))"

lemma registered_grows: "grows s t \<Longrightarrow> registered s h \<Longrightarrow> registered t h \<and> fatbin_of env t h = fatbin_of env s h"
  by (auto simp: grows_def registered_def fatbin_of_def prefix_def nth_append)

lemma module_origin_grows: "grows s t \<Longrightarrow> module_origin env s h m \<Longrightarrow> module_origin env t h m"
  using registered_grows [of s t h env] by (auto simp: module_origin_def grows_def dest: set_mono_prefix)

lemma function_origin_grows: "grows s t \<Longrightarrow> function_origin env s h name f \<Longrightarrow> function_origin env t h name f"
  using registered_grows [of s t h env] unfolding function_origin_def grows_def
  by (metis (no_types, lifting) prefix_imp_subseq subseq_order.trans)

lemma launch_inv_module:
  "launch_inv env s \<Longrightarrow> bt_get (loaded_modules (runtime_cache s)) h = Some m \<Longrightarrow> module_origin env s h m"
  unfolding launch_inv_def by blast

lemma launch_inv_function:
  assumes "launch_inv env s" "bt_get (loaded_functions (runtime_cache s)) func = Some f"
  obtains h name where "bt_get (lazy_functions (runtime_cache s)) func = Some (h, name)" "function_origin env s h name f"
  using assms unfolding launch_inv_def by blast

text \<open>What is new in the tables has to come from calls; the rest stays as it was.\<close>

lemma launch_inv_grows:
  assumes inv: "launch_inv env s" and g: "grows s t"
    and modules: "\<And>h m. bt_get (loaded_modules (runtime_cache t)) h = Some m \<Longrightarrow>
      bt_get (loaded_modules (runtime_cache s)) h = Some m \<or> module_origin env t h m"
    and funs: "\<And>func f. bt_get (loaded_functions (runtime_cache t)) func = Some f \<Longrightarrow>
      bt_get (loaded_functions (runtime_cache s)) func = Some f \<or>
      (\<exists>h name. bt_get (lazy_functions (runtime_cache t)) func = Some (h, name) \<and> function_origin env t h name f)"
  shows "launch_inv env t"
proof -
  have "\<exists>h name. bt_get (lazy_functions (runtime_cache t)) func = Some (h, name) \<and> function_origin env t h name f"
    if old: "bt_get (loaded_functions (runtime_cache s)) func = Some f" for func f
  proof -
    obtain h name where "bt_get (lazy_functions (runtime_cache s)) func = Some (h, name)" "function_origin env s h name f"
      using inv old by (rule launch_inv_function)
    then show ?thesis using g function_origin_grows [OF g] by (auto simp: grows_def)
  qed
  then show ?thesis
    using modules funs module_origin_grows [OF g launch_inv_module [OF inv]] unfolding launch_inv_def by blast
qed

lemma launch_inv_quiet: "launch_inv env s \<Longrightarrow> calm s t \<Longrightarrow> launch_inv env t"
  by (rule launch_inv_grows) (auto simp: calm_def)

lemma load_call:
  "cuModuleLoadDataInternal env a b s = Ok (r, m) t \<Longrightarrow>
    \<exists>rep. calls t = calls s @ [(R_cuModuleLoadDataInternal (image_bytes env (process_memory s) a), rep)] \<and>
      code rep = r \<and> output_value rep = m"
  by (auto simp: cuModuleLoadDataInternal_def exec_simps insert_image_def image_bytes_def)

lemma insert_function_calls: "insert_function env f m name s = Ok x t \<Longrightarrow> calls t = calls s"
  by (auto simp: insert_function_def exec_simps split: option.splits if_splits)

lemma get_function_call:
  "cuModuleGetFunction env m name s = Ok (r, f) t \<Longrightarrow>
    \<exists>p rep. calls t = calls s @ [(R_cuModuleGetFunction p m name, rep)] \<and>
      (case p of Some q \<Rightarrow> f = q \<and> r = 0 | None \<Rightarrow> code rep = r \<and> f = output_value rep)"
  by (auto simp: cuModuleGetFunction_def exec_simps dest!: insert_function_calls split: if_splits)

lemma runtime_module_origin:
  assumes "runtime_module env h s = Ok m t" "launch_inv env s"
  shows "launch_inv env t" "module_origin env t h m" "grows s t"
    "loaded_functions (runtime_cache t) = loaded_functions (runtime_cache s)"
proof -
  have "launch_inv env t \<and> module_origin env t h m \<and> grows s t \<and>
    loaded_functions (runtime_cache t) = loaded_functions (runtime_cache s)"
  proof (cases "bt_get (loaded_modules (runtime_cache s)) h")
    case (Some m')
    then show ?thesis using assms by (auto simp: runtime_module_def launch_inv_def)
  next
    case None
    then obtain u where reg: "registered s h"
        and load: "cuModuleLoadDataInternal env (lazy_fatbins (runtime_cache s) ! unat (FatBinaryHandle_to_index h)) True s = Ok (0, m) u"
        and t: "t = u\<lparr>runtime_cache := (runtime_cache u)\<lparr>loaded_modules := bt_insert h m (loaded_modules (runtime_cache u))\<rparr>\<rparr>"
      using assms(1) by (auto simp: runtime_module_def registered_def exec_simps split: if_splits)
    have u: "calm s u" using load by (rule calm_load)
    have ut: "grows u t" by (simp add: t grows_def)
    have "module_origin env u h m"
      using load_call [OF load] registered_grows [OF calm_grows [OF u] reg, of env]
      by (auto simp: module_origin_def fatbin_of_def)
    then have m: "module_origin env t h m" using ut by (rule module_origin_grows [rotated])
    have "launch_inv env t"
      using launch_inv_quiet [OF assms(2) u] ut by (rule launch_inv_grows) (use m in \<open>auto simp: t split: if_splits\<close>)
    moreover have "grows s t" using calm_grows [OF u] ut by (rule grows_trans)
    moreover have "loaded_functions (runtime_cache t) = loaded_functions (runtime_cache s)"
      using u by (simp add: t calm_def)
    ultimately show ?thesis using m by simp
  qed
  then show "launch_inv env t" "module_origin env t h m" "grows s t"
    "loaded_functions (runtime_cache t) = loaded_functions (runtime_cache s)" by auto
qed

lemma function_origin_call:
  assumes "module_origin env s h m" "cuModuleGetFunction env m name s = Ok (0, f) t"
  shows "function_origin env t h name f"
proof -
  have g: "grows s t" using calm_get_function [OF assms(2)] by (rule calm_grows)
  obtain r1 where r1: "(R_cuModuleLoadDataInternal (fatbin_of env s h), r1) \<in> set (calls s)" "code r1 = 0" "output_value r1 = m"
      and reg: "registered s h"
    using assms(1) by (auto simp: module_origin_def)
  obtain p r2 where r2: "calls t = calls s @ [(R_cuModuleGetFunction p m name, r2)]"
      and p: "case p of Some q \<Rightarrow> f = q | None \<Rightarrow> code r2 = 0 \<and> f = output_value r2"
    using get_function_call [OF assms(2)] by (auto split: option.splits)
  have "subseq ([(R_cuModuleLoadDataInternal (fatbin_of env s h), r1)] @ [(R_cuModuleGetFunction p m name, r2)]) (calls t)"
    unfolding r2 using r1(1) by (intro list_emb_append_mono) (simp_all add: subseq_singleton_left)
  then show ?thesis
    using registered_grows [OF g reg, of env] r1 p unfolding function_origin_def by auto
qed

lemma get_cufunction_origin:
  assumes "get_cufunction env func s = Ok f t" "launch_inv env s"
  shows "launch_inv env t" "grows s t" "bt_get (loaded_functions (runtime_cache t)) func = Some f"
proof -
  obtain u where u: "init_device env s = Ok () u" using assms(1) by (auto simp: get_cufunction_def exec_simps)
  have su: "grows s u" "launch_inv env u"
    using calm_init_device [OF u] launch_inv_quiet [OF assms(2)] by (auto intro: calm_grows)
  have "launch_inv env t \<and> grows u t \<and> bt_get (loaded_functions (runtime_cache t)) func = Some f"
  proof (cases "bt_get (loaded_functions (runtime_cache u)) func")
    case (Some f')
    then show ?thesis using assms(1) u su(2) by (simp add: get_cufunction_def)
  next
    case None
    then obtain v h name m w x where v: "pin_device env u = Ok () v" and
        reg: "bt_get (lazy_functions (runtime_cache v)) func = Some (h, name)" and
        w: "runtime_module env h v = Ok m w" and x: "cuModuleGetFunction env m name w = Ok (0, f) x" and
        t: "t = x\<lparr>runtime_cache := (runtime_cache x)\<lparr>loaded_functions := bt_insert func f (loaded_functions (runtime_cache x))\<rparr>\<rparr>"
      using assms(1) u by (auto simp: get_cufunction_def exec_simps split: option.splits if_splits)
    have v': "launch_inv env v" "grows u v"
      using calm_pin_device [OF v] su(2) by (auto intro: launch_inv_quiet calm_grows)
    note w' = runtime_module_origin [OF w v'(1)]
    have x': "launch_inv env x" "grows w x"
      using calm_get_function [OF x] w'(1) by (auto intro: launch_inv_quiet calm_grows)
    have xt: "grows x t" by (simp add: t grows_def)
    have ut: "grows u t" using v'(2) w'(3) x'(2) xt by (blast intro: grows_trans)
    have "grows v t" using w'(3) x'(2) xt by (blast intro: grows_trans)
    then have "bt_get (lazy_functions (runtime_cache t)) func = Some (h, name)" using reg by (simp add: grows_def)
    moreover have "function_origin env t h name f"
      using function_origin_call [OF w'(2) x] xt by (rule function_origin_grows [rotated])
    ultimately have "launch_inv env t"
      using x'(1) xt by (intro launch_inv_grows [of env x t]) (auto simp: t split: if_splits)
    then show ?thesis using ut by (simp add: t)
  qed
  then show "launch_inv env t" "grows s t" "bt_get (loaded_functions (runtime_cache t)) func = Some f"
    using su(1) by (auto intro: grows_trans)
qed

lemma client_call_inv:
  assumes "client_call env c s = Ok x t" "launch_inv env s"
  shows "launch_inv env t"
proof (cases c)
  case (F_cudaLaunchKernel func g b args sh st)
  then show ?thesis using assms
    by (auto simp: void_def exec_simps hijack_cudaLaunchKernel_def split: if_splits
        dest!: calm_cuLaunchKernel get_cufunction_origin(1) intro: launch_inv_quiet)
next
  case (F_FuncGetAttributes func)
  then show ?thesis using assms
    by (auto simp: void_def exec_simps cudaFuncGetAttributes_def dest: get_cufunction_origin(1) intro: launch_inv_quiet)
next
  case (F_FuncSetAttribute func a v)
  then show ?thesis using assms
    by (auto simp: void_def exec_simps cudaFuncSetAttribute_def dest: get_cufunction_origin(1) intro: launch_inv_quiet)
next
  case (F_Occupancy func n sh fl)
  then show ?thesis using assms
    by (auto simp: void_def exec_simps cudaOccupancyMaxActiveBlocks_def dest: get_cufunction_origin(1) intro: launch_inv_quiet)
next
  case F_CtxGetCurrent
  then show ?thesis using assms
    by (auto simp: void_def exec_simps cuCtxGetCurrent_def intro: launch_inv_quiet split: if_splits)
next
  case F_PopConfiguration
  then show ?thesis using assms
    by (auto simp: void_def exec_simps cudaPopCallConfiguration_def intro: launch_inv_quiet split: if_splits)
qed (use assms in \<open>auto simp: void_def exec_simps cuModuleLoadData_def cudaPushCallConfiguration_def
    intro: launch_inv_quiet calm_intros\<close>)

lemma client_reach_inv: "client_reach env s \<Longrightarrow> launch_inv env s"
proof (induction rule: client_reach.induct)
  case (reach_start mem)
  then show ?case by (simp add: launch_inv_def client_start_def RuntimeCache_new_def bt_get_def)
next
  case (reach_write s mem)
  have same: "registered (s\<lparr>process_memory := mem\<rparr>) h = registered s h"
      "registered s h \<Longrightarrow> fatbin_of env (s\<lparr>process_memory := mem\<rparr>) h = fatbin_of env s h" for h
    using reach_write.hyps(2) by (simp_all add: registered_def fatbin_of_def)
  have "module_origin env (s\<lparr>process_memory := mem\<rparr>) h m = module_origin env s h m"
    "function_origin env (s\<lparr>process_memory := mem\<rparr>) h name f = function_origin env s h name f" for h m name f
    by (simp_all add: module_origin_def function_origin_def same cong: conj_cong)
  then show ?case using reach_write.IH by (simp add: launch_inv_def)
next
  case (reach_call s c x s')
  then show ?case by (blast intro: client_call_inv)
qed

text \<open>Looking a kernel up does not change what is registered.\<close>

definition tables :: "client_process \<Rightarrow> memory \<times> u64 list \<times> (u64, u64 \<times> string) btree" where
  "tables s = (process_memory s, lazy_fatbins (runtime_cache s), lazy_functions (runtime_cache s))"

lemma tables_init_device: "init_device env s = Ok x t \<Longrightarrow> tables t = tables s"
  by (auto simp: init_device_def exec_simps tables_def split: if_splits)

lemma tables_get_device: "cudaGetDevice env s = Ok x t \<Longrightarrow> tables t = tables s"
  by (auto simp: cudaGetDevice_def exec_simps tables_def split: option.splits bool.splits)

lemma tables_pin_device: "pin_device env s = Ok x t \<Longrightarrow> tables t = tables s"
  by (auto simp: pin_device_def exec_simps dest!: tables_get_device split: option.splits if_splits) (simp_all add: tables_def)

lemma tables_runtime_module: "runtime_module env h s = Ok x t \<Longrightarrow> tables t = tables s"
  by (auto simp: runtime_module_def cuModuleLoadDataInternal_def insert_image_def exec_simps tables_def
      split: option.splits if_splits)

lemma tables_insert_function: "insert_function env f m name s = Ok x t \<Longrightarrow> tables t = tables s"
  by (auto simp: insert_function_def exec_simps tables_def split: option.splits if_splits)

lemma tables_get_function: "cuModuleGetFunction env m name s = Ok x t \<Longrightarrow> tables t = tables s"
  by (auto simp: cuModuleGetFunction_def exec_simps dest!: tables_insert_function split: if_splits) (simp_all add: tables_def)

lemma tables_get_cufunction: "get_cufunction env func s = Ok f t \<Longrightarrow> tables t = tables s"
  by (auto simp: get_cufunction_def exec_simps
      dest!: tables_init_device tables_pin_device tables_runtime_module tables_get_function split: option.splits if_splits)
    (simp_all add: tables_def)

lemma pack_kernel_args_state: "pack_kernel_args f args s = Ok buf t \<Longrightarrow> t = s"
  by (auto simp: pack_kernel_args_def get_params_def exec_simps split: option.splits if_splits)

lemma cuLaunchKernel_call:
  assumes "cuLaunchKernel env f g b sh st args s = Ok r t"
  obtains buf rep where "pack_kernel_args f args s = Ok buf s" "r = async_result env rep"
    "t = s\<lparr>calls := calls s @ [(R_cuLaunchKernel f g b sh st buf, rep)]\<rparr>"
  using assms by (auto simp: cuLaunchKernel_def exec_simps dest: pack_kernel_args_state)

lemma pack_kernel_args_calls:
  "pack_kernel_args f args s = Ok buf s \<Longrightarrow> pack_kernel_args f args (s\<lparr>calls := cs\<rparr>) = Ok buf (s\<lparr>calls := cs\<rparr>)"
  by (auto simp: pack_kernel_args_def get_params_def exec_simps split: option.splits if_splits)

lemma get_cufunction_cached:
  "get_cufunction env func s = Ok f t \<Longrightarrow> bt_get (loaded_functions (runtime_cache s)) func \<noteq> None \<Longrightarrow>
    cuda_device_init (thread s) \<Longrightarrow> t = s"
  by (auto simp: get_cufunction_def init_device_def)

text \<open>
  C11. In every state that a program can reach, a launch that returns has sent, as its last message, a
  launch of a function whose handle was obtained by looking up the registered name in a module that
  was loaded from exactly the bytes of the registered fat binary, in this order; grid, block, shared
  memory and stream are those of the caller, and so is the buffer of arguments. A kernel that was
  used before costs one message.
\<close>

theorem launch_runs_registered_kernel:
  assumes "client_reach env s" "hijack_cudaLaunchKernel env func grid block args shared stream s = Ok r t"
  shows "\<exists>h name f buf r1 p r2 r3.
    bt_get (lazy_functions (runtime_cache s)) func = Some (h, name) \<and> registered s h \<and> shared < 2 ^ 32 \<and>
    pack_kernel_args f args t = Ok buf t \<and>
    subseq [(R_cuModuleLoadDataInternal (fatbin_of env s h), r1), (R_cuModuleGetFunction p (output_value r1) name, r2),
      (R_cuLaunchKernel f grid block (ucast shared) stream buf, r3)] (calls t) \<and>
    last (calls t) = (R_cuLaunchKernel f grid block (ucast shared) stream buf, r3) \<and>
    code r1 = 0 \<and> (case p of Some q \<Rightarrow> f = q | None \<Rightarrow> code r2 = 0 \<and> f = output_value r2) \<and>
    r = async_result env r3 \<and>
    (bt_get (loaded_functions (runtime_cache s)) func \<noteq> None \<and> cuda_device_init (thread s) \<longrightarrow>
       length (calls t) = length (calls s) + 1)"
proof -
  obtain f u where u: "get_cufunction env func s = Ok f u" and sh: "shared < 2 ^ 32"
      and launch: "cuLaunchKernel env f grid block (ucast shared) stream args u = Ok r t"
    using assms(2) by (auto simp: hijack_cudaLaunchKernel_def exec_simps not_le split: if_splits)
  note got = get_cufunction_origin [OF u client_reach_inv [OF assms(1)]]
  obtain h name where reg: "bt_get (lazy_functions (runtime_cache u)) func = Some (h, name)" and "function_origin env u h name f"
    using got(1,3) by (rule launch_inv_function)
  then obtain r1 p r2 where origin: "registered u h" "subseq [(R_cuModuleLoadDataInternal (fatbin_of env u h), r1),
        (R_cuModuleGetFunction p (output_value r1) name, r2)] (calls u)" "code r1 = 0"
        "case p of Some q \<Rightarrow> f = q | None \<Rightarrow> code r2 = 0 \<and> f = output_value r2"
    unfolding function_origin_def by (elim conjE exE) (rule that)
  obtain buf r3 where buf: "pack_kernel_args f args u = Ok buf u" "r = async_result env r3"
      and t: "t = u\<lparr>calls := calls u @ [(R_cuLaunchKernel f grid block (ucast shared) stream buf, r3)]\<rparr>"
    using launch by (rule cuLaunchKernel_call)
  have "subseq ([(R_cuModuleLoadDataInternal (fatbin_of env u h), r1), (R_cuModuleGetFunction p (output_value r1) name, r2)] @
      [(R_cuLaunchKernel f grid block (ucast shared) stream buf, r3)]) (calls t)"
    using list_emb_append_mono [OF origin(2), of "[(R_cuLaunchKernel f grid block (ucast shared) stream buf, r3)]"] by (simp add: t)
  moreover have "fatbin_of env u h = fatbin_of env s h" "registered s h" "bt_get (lazy_functions (runtime_cache s)) func = Some (h, name)"
    using tables_get_cufunction [OF u] origin(1) reg by (auto simp: tables_def fatbin_of_def registered_def)
  moreover have "pack_kernel_args f args t = Ok buf t"
    unfolding t using buf(1) by (rule pack_kernel_args_calls)
  moreover have "bt_get (loaded_functions (runtime_cache s)) func \<noteq> None \<and> cuda_device_init (thread s) \<longrightarrow>
      length (calls t) = length (calls s) + 1"
    using get_cufunction_cached [OF u] by (auto simp: t)
  moreover have "last (calls t) = (R_cuLaunchKernel f grid block (ucast shared) stream buf, r3)" by (simp add: t)
  ultimately show ?thesis
    using sh buf(2) origin(3,4) unfolding append.simps by (intro exI conjI) (assumption | simp only:)+
qed

section \<open>The buffer of arguments\<close>

definition param_end :: "KernelParamInfo \<Rightarrow> nat" where
  "param_end p = unat (kp_offset p) + unat (param_size p)"

definition param_apart :: "KernelParamInfo \<Rightarrow> KernelParamInfo \<Rightarrow> bool" where
  "param_apart p q \<longleftrightarrow> param_end p \<le> unat (kp_offset q)"

lemma param_end_word: "param_end p < 2 ^ 16 \<Longrightarrow> unat (kp_offset p + param_size p) = param_end p"
  by (simp add: param_end_def unat_word_ariths)

text \<open>Without overflow the checks of the parser put every parameter behind all earlier ones.\<close>

lemma params_ok_apart:
  assumes "params_ok n cbank i ps" "\<forall>p\<in>set ps. param_end p < 2 ^ 16"
  shows "sorted_wrt param_apart ps"
  using assms
proof (induction n cbank i ps rule: params_ok.induct)
  case (2 n cbank i p ps)
  then have sorted: "sorted_wrt param_apart ps" by auto
  have "param_apart p q" if q: "q \<in> set ps" for q
  proof -
    obtain r rs where ps: "ps = r # rs" using q by (cases ps) auto
    have "param_end p \<le> unat (kp_offset r)"
      using 2(2,3) by (simp add: ps word_le_nat_alt param_end_word)
    moreover have "unat (kp_offset r) \<le> unat (kp_offset q)"
      using sorted q by (auto simp: ps param_apart_def param_end_def)
    ultimately show ?thesis by (simp add: param_apart_def)
  qed
  then show ?case using sorted by simp
qed simp

lemma apart_ends:
  assumes "sorted_wrt param_apart ps" "p \<in> set ps"
  shows "param_end p \<le> param_end (last ps)"
  using assms by (induction ps) (auto simp: param_apart_def param_end_def intro: trans_le_add1)

lemma pack_params_layout:
  assumes "sorted_wrt param_apart ps" "\<forall>p\<in>set ps. param_end p \<le> length buf" "length ptrs = length ps"
  shows "\<exists>out. pack_params mem ps ptrs buf = Ok out () \<and> length out = length buf \<and>
    (\<forall>i<length ps. \<forall>k<unat (param_size (ps ! i)). out ! (unat (kp_offset (ps ! i)) + k) = mem (ptrs ! i + of_nat k)) \<and>
    (\<forall>k<length buf. (\<forall>p\<in>set ps. k < unat (kp_offset p) \<or> param_end p \<le> k) \<longrightarrow> out ! k = buf ! k)"
  using assms
proof (induction ps arbitrary: ptrs buf)
  case (Cons p ps)
  obtain a as where ptrs: "ptrs = a # as" using Cons.prems(3) by (cases ptrs) auto
  let ?buf = "write_at (unat (kp_offset p)) (mem_load mem a (unat (param_size p))) buf"
  have fits: "unat (kp_offset p) + unat (param_size p) \<le> length buf" using Cons.prems(2) by (simp add: param_end_def)
  then have len: "length ?buf = length buf" by (simp add: write_at_length)
  obtain out where out: "pack_params mem ps as ?buf = Ok out ()" "length out = length buf"
      and args: "\<And>i k. i < length ps \<Longrightarrow> k < unat (param_size (ps ! i)) \<Longrightarrow>
        out ! (unat (kp_offset (ps ! i)) + k) = mem (as ! i + of_nat k)"
      and other: "\<And>k. k < length buf \<Longrightarrow> \<forall>q\<in>set ps. k < unat (kp_offset q) \<or> param_end q \<le> k \<Longrightarrow> out ! k = ?buf ! k"
    using Cons.IH [of ?buf as] Cons.prems len by (auto simp: ptrs)
  have first: "out ! (unat (kp_offset p) + k) = mem (a + of_nat k)" if "k < unat (param_size p)" for k
  proof -
    have "\<forall>q\<in>set ps. unat (kp_offset p) + k < unat (kp_offset q) \<or> param_end q \<le> unat (kp_offset p) + k"
      using Cons.prems(1) that by (auto simp: param_apart_def param_end_def)
    then have "out ! (unat (kp_offset p) + k) = ?buf ! (unat (kp_offset p) + k)"
      using fits that by (intro other) simp_all
    then show ?thesis using fits that by (simp add: write_at_nth mem_load_def)
  qed
  have "out ! k = buf ! k" if "k < length buf" "\<forall>q\<in>set (p # ps). k < unat (kp_offset q) \<or> param_end q \<le> k" for k
    using that other [of k] fits by (auto simp: write_at_nth param_end_def)
  then show ?case
    using out fits first args by (auto simp: ptrs nth_Cons' not_less less_Suc_eq_0_disj)
qed simp

text \<open>
  C21. The buffer of arguments of a kernel whose parameters the parser accepted and whose offsets do not
  overflow: no copy leaves the buffer, the buffer ends with the last parameter, at the offset of
  every parameter it has the bytes that the caller's pointer points to, and it is zero elsewhere.
\<close>

theorem kernel_arguments_laid_out:
  assumes "parse_params nvinfo = Ok ps ()" "\<forall>p\<in>set ps. param_end p < 2 ^ 16"
    and "bt_get (function_params (driver_cache s)) f = Some ps"
  shows "\<exists>buf. pack_kernel_args f args s = Ok buf s \<and>
    length buf = (if ps = [] then 0 else param_end (last ps)) \<and>
    (\<forall>i<length ps. \<forall>k<unat (param_size (ps ! i)). buf ! (unat (kp_offset (ps ! i)) + k) =
       process_memory s (arg_pointers (process_memory s) args (length ps) ! i + of_nat k)) \<and>
    (\<forall>k<length buf. (\<forall>p\<in>set ps. k < unat (kp_offset p) \<or> param_end p \<le> k) \<longrightarrow> buf ! k = 0)"
proof (cases "ps = []")
  case True
  then show ?thesis using assms(3) by (simp add: pack_kernel_args_def get_params_def)
next
  case False
  obtain n cbank where "params_ok n cbank 0 ps"
    using assms(1) by (auto simp: parse_params_def exec_simps split: if_splits)
  then have apart: "sorted_wrt param_apart ps" using assms(2) by (rule params_ok_apart)
  let ?n = "unat (kp_offset (last ps) + param_size (last ps))"
  have n: "?n = param_end (last ps)" using assms(2) False by (simp add: param_end_word)
  have "\<forall>p\<in>set ps. param_end p \<le> length (replicate ?n (0 :: u8))"
    using apart_ends [OF apart] by (simp add: n)
  from pack_params_layout [OF apart this, of "arg_pointers (process_memory s) args (length ps)" "process_memory s"]
  obtain buf where buf: "pack_params (process_memory s) ps (arg_pointers (process_memory s) args (length ps)) (replicate ?n 0) = Ok buf ()"
      "length buf = ?n"
      "\<forall>i<length ps. \<forall>k<unat (param_size (ps ! i)). buf ! (unat (kp_offset (ps ! i)) + k) =
         process_memory s (arg_pointers (process_memory s) args (length ps) ! i + of_nat k)"
      "\<forall>k<?n. (\<forall>p\<in>set ps. k < unat (kp_offset p) \<or> param_end p \<le> k) \<longrightarrow> buf ! k = replicate ?n 0 ! k"
    by (auto simp: arg_pointers_def)
  have "pack_kernel_args f args s = Ok buf s"
    using assms(3) False buf(1) by (simp add: pack_kernel_args_def get_params_def pure_def)
  then show ?thesis using False n buf(2-4) by (intro exI [of _ buf]) simp
qed

section \<open>Examples\<close>

text \<open>A program with one fat binary, which has one kernel with the two parameters of \<open>example_nvinfo\<close>.\<close>

definition example_params :: "KernelParamInfo list" where
  "example_params = [KernelParamInfo_of (example_param 0 0 8), KernelParamInfo_of (example_param 1 8 4)]"

definition launch_image :: "fat_entry list" where
  "launch_image = [(example_header 2 1 0 0, [], [9])]"

definition example_memory :: memory where
  "example_memory = mem_store (\<lambda>_. 0) 4096 (fatbin_bytes launch_image)"

definition example_env :: "(u8 list, unit, unit) client_env" where
  "example_env =
     \<lparr>elf = example_elf, decompress = triple_bytes, remote = (\<lambda>_ _. \<lparr>code = 0, output_value = 7, output_bytes = []\<rparr>),
      allocate = (\<lambda>_ _. 0), opt_local = True, shadow_desc = True, async_api = False, validate_fatbins = False\<rparr>"

lemma example_env_simps [simp]:
  "remote example_env = (\<lambda>_ _. \<lparr>code = 0, output_value = 7, output_bytes = []\<rparr>)" "shadow_desc example_env"
  "\<not> async_api example_env" "opt_local example_env"
  by (simp_all add: example_env_def)

lemma example_params_parsed: "parse_params (concat (map nvinfo_bytes example_nvinfo)) = Ok example_params ()"
  using example_params_ok
  by (subst parse_params_records [OF example_nvinfo_ok example_found]) (simp add: example_params_def add_mset_commute)

lemma example_param_ends: "map param_end example_params = [8, 12]"
  by code_simp

theorem kernel_arguments_laid_out_witness:
  "\<exists>buf. pack_kernel_args 5 64 ((client_start (\<lambda>_. 3))\<lparr>driver_cache := \<lparr>images = [], function_params = [(5, example_params)]\<rparr>\<rparr>) =
      Ok buf ((client_start (\<lambda>_. 3))\<lparr>driver_cache := \<lparr>images = [], function_params = [(5, example_params)]\<rparr>\<rparr>) \<and> length buf = 12"
proof -
  have "\<forall>p\<in>set example_params. param_end p < 2 ^ 16"
    using example_param_ends by (auto simp: example_params_def)
  moreover have "bt_get (function_params (driver_cache ((client_start (\<lambda>_. 3))\<lparr>driver_cache :=
      \<lparr>images = [], function_params = [(5, example_params)]\<rparr>\<rparr>))) 5 = Some example_params"
    by (simp add: bt_get_def)
  moreover have "example_params \<noteq> []" "param_end (last example_params) = 12"
    using example_param_ends by (auto simp: example_params_def)
  ultimately show ?thesis
    using kernel_arguments_laid_out [OF example_params_parsed, of _ 5 64] by fastforce
qed

lemma launch_image_at: "mem_holds example_memory 4096 (fatbin_bytes launch_image)"
  unfolding example_memory_def
proof (rule mem_holds_store)
  have "length (fatbin_bytes launch_image) = 81" by code_simp
  then show "unat (4096 :: u64) + length (fatbin_bytes launch_image) + 64 < 2 ^ 64" by simp
qed

lemma example_lookup:
  obtains h where "FatBinaryHeader_cast example_memory 4096 = Some h"
    "image_params example_env example_memory (Borrowed 4096 n) ''k'' = Some (Ok (Some example_params) ())"
proof -
  obtain h where h: "FatBinaryHeader_cast example_memory 4096 = Some h"
      "fat_size h = of_nat (length (concat (map fat_entry_bytes launch_image)))"
      "mem_holds example_memory (4096 + 16) (concat (map fat_entry_bytes launch_image))"
    using fatbin_header [OF launch_image_at] by metis
  have ok: "list_all (entry_ok triple_bytes) launch_image" and codes: "List.map_filter (entry_code triple_bytes) launch_image = [[9]]"
    by code_simp+
  have "find_kernel_params example_elf [9] ''k'' = Ok (Some example_params) ()"
    by (simp add: find_kernel_params_def example_elf_def example_params_parsed)
  then have "image_params example_env example_memory (Borrowed 4096 n) ''k'' = Some (Ok (Some example_params) ())"
    using code_find_map_entries [OF ok h(3) refl, of "\<lambda>c. find_kernel_params example_elf c ''k''"] codes h(1,2)
    by (simp add: image_params_def cow_view_def fat_find_kernel_params_def example_env_def)
  with h(1) show thesis by (rule that)
qed

definition example_wrapper :: FatBinaryWrapper where
  "example_wrapper = \<lparr>fw_magic = 0x466243B1, fw_version = 1, fw_data = 4096, filename_or_fatbins = 0\<rparr>"

text \<open>The state after registering the fat binary, whose handle is 16, and its kernel for the host function 100.\<close>

definition example_registered :: client_process where
  "example_registered =
     (client_start example_memory)\<lparr>runtime_cache :=
        RuntimeCache_new\<lparr>lazy_fatbins := [4096], lazy_functions := [(100, 16, ''k'')]\<rparr>\<rparr>"

lemma example_reached: "client_reach example_env example_registered"
proof -
  let ?s = "(client_start example_memory)\<lparr>runtime_cache := RuntimeCache_new\<lparr>lazy_fatbins := [4096]\<rparr>\<rparr>"
  have "client_call example_env (F_RegisterFatBinary example_wrapper) (client_start example_memory) = Ok () ?s"
    by (simp add: void_def cudaRegisterFatBinary_def FatBinaryWrapper_unwrap_def example_wrapper_def pure_def example_env_def
        client_start_def RuntimeCache_new_def Let_def)
  with reach_start have "client_reach example_env ?s" by (rule reach_call)
  moreover have "client_call example_env (F_RegisterFunction 16 100 ''k'') ?s = Ok () example_registered"
    by (simp add: void_def cudaRegisterFunction_def Let_def bt_or_insert_def bt_get_def client_start_def RuntimeCache_new_def
        example_registered_def)
  ultimately show ?thesis by (rule reach_call)
qed

lemma example_launch:
  "\<exists>r t. hijack_cudaLaunchKernel example_env 100 (1, 1, 1) (32, 1, 1) 64 0 0 example_registered = Ok r t"
proof -
  obtain h where h: "FatBinaryHeader_cast example_memory 4096 = Some h"
      and lookup: "image_params example_env example_memory (Borrowed 4096 (unat (entire_len h))) ''k'' = Some (Ok (Some example_params) ())"
    using example_lookup by metis
  have index: "unat (FatBinaryHandle_to_index 16) = 0" by (simp add: FatBinaryHandle_to_index_def)
  have small: "\<forall>p\<in>set example_params. param_end p < 2 ^ 16" and ne: "example_params \<noteq> []"
    using example_param_ends by (auto simp: example_params_def)
  note defs = hijack_cudaLaunchKernel_def get_cufunction_def init_device_def pin_device_def cudaGetDevice_def runtime_module_def
    cuModuleLoadDataInternal_def image_len_def cuModuleGetFunction_def insert_function_def insert_image_def perform_def
    async_result_def pure_def search_def example_registered_def client_start_def RuntimeCache_new_def DriverCache_new_def
    bt_get_def Let_def
  have "\<exists>f t. get_cufunction example_env 100 example_registered = Ok f t \<and> bt_get (function_params (driver_cache t)) f = Some example_params"
    using lookup h index by (simp add: defs)
  then obtain f t where t: "get_cufunction example_env 100 example_registered = Ok f t"
      and ps: "bt_get (function_params (driver_cache t)) f = Some example_params"
    by blast
  obtain n cbank where "params_ok n cbank 0 example_params" using example_params_ok by (auto simp: example_params_def)
  then have apart: "sorted_wrt param_apart example_params" using small by (rule params_ok_apart)
  have "\<forall>p\<in>set example_params. param_end p \<le> length (replicate (unat (kp_offset (last example_params) + param_size (last example_params))) (0 :: u8))"
    using apart_ends [OF apart] small ne by (simp add: param_end_word)
  from pack_params_layout [OF apart this, of "arg_pointers (process_memory t) 64 (length example_params)" "process_memory t"]
  have "\<exists>buf. pack_kernel_args f 64 t = Ok buf t"
    using ps ne by (auto simp: pack_kernel_args_def get_params_def pure_def arg_pointers_def)
  then show ?thesis using t by (auto simp: hijack_cudaLaunchKernel_def cuLaunchKernel_def perform_def Let_def)
qed

theorem launch_runs_registered_kernel_witness:
  "\<exists>r t h name f buf r1 p r2 r3.
     client_reach example_env example_registered \<and>
     hijack_cudaLaunchKernel example_env 100 (1, 1, 1) (32, 1, 1) 64 0 0 example_registered = Ok r t \<and>
     bt_get (lazy_functions (runtime_cache example_registered)) 100 = Some (h, name) \<and>
     subseq [(R_cuModuleLoadDataInternal (fatbin_of example_env example_registered h), r1),
       (R_cuModuleGetFunction p (output_value r1) name, r2),
       (R_cuLaunchKernel f (1, 1, 1) (32, 1, 1) (ucast (0 :: u64)) 0 buf, r3)] (calls t)"
proof -
  obtain r t where t: "hijack_cudaLaunchKernel example_env 100 (1, 1, 1) (32, 1, 1) 64 0 0 example_registered = Ok r t"
    using example_launch by blast
  from launch_runs_registered_kernel [OF example_reached t] show ?thesis
    using example_reached t by (elim exE conjE) (intro exI conjI, assumption+)
qed

end
