(* ===== verification/Checkpoint_Barrier.thy ===== *)
theory Checkpoint_Barrier
  imports Prelude
begin

text \<open>
  How a server process with several threads takes a checkpoint (\<open>server/src/phos/mod.rs\<close>): the
  thread that serves the control channel counts the worker threads, makes a barrier for them and
  itself, locks the request channels, and meets the workers twice: before and after all of them
  have written their part. The threads interleave at every access to what they share. A worker
  sees that its channel is locked only between two calls of its client, which is what
  \<open>Checkpoint_Flag\<close> shows for synchronous calls.
\<close>

section \<open>The state of a process\<close>

text \<open>\<open>std::sync::Barrier\<close>: its size, how many wait, and how often it has opened.\<close>

record barrier =
  num_threads :: nat
  waiting :: nat
  generation :: nat

definition barrier_new :: "nat \<Rightarrow> barrier" where
  "barrier_new n = \<lparr>num_threads = n, waiting = 0, generation = 0\<rparr>"

text \<open>
  The first half of \<open>wait\<close>: the last one to arrive opens the barrier and goes on (\<open>None\<close>), any other
  one waits until the generation is no longer the one it saw.
\<close>

definition barrier_arrive :: "barrier \<Rightarrow> nat option \<times> barrier" where
  "barrier_arrive b =
     (if waiting b + 1 < num_threads b then (Some (generation b), b\<lparr>waiting := waiting b + 1\<rparr>)
      else (None, b\<lparr>waiting := 0, generation := generation b + 1\<rparr>))"

datatype ckpt_mode = Kill | LeaveRunning | Detach

text \<open>
  A worker before it has registered its flag, in \<open>receive_request\<close>, in a call, and in the parts of
  \<open>checkpoint_thread\<close>: it waits at a barrier with the generation it saw, writes its part, has
  written it, or is about to leave the function. The main thread is \<open>Leaving\<close> while it sleeps before it
  ends the process.
\<close>

datatype worker_pc = Starting | Serving | Executing | First nat | Dumping | Dumped | Second nat | Resuming | Leaving | Finished

text \<open>The client of a worker: between calls, in a call, or gone after its last message.\<close>

datatype client_state = Idle | Calling | Gone

text \<open>\<open>part\<close> is when the worker wrote its part, as the number of calls executed before.\<close>

record worker =
  pc :: worker_pc
  client :: client_state
  write_disabled :: bool
  part :: "nat option"

text \<open>
  The control thread: between requests, in \<open>request_checkpoint\<close> with the threads or flags it has yet to
  look at and the flags it has set, before the check of the number of flags, and in
  \<open>block_and_dump_process_state\<close>.
\<close>

datatype control_pc =
    Ready
  | Counting "nat list"
  | Making
  | Flagging "nat list" nat
  | Asked
  | CtlFirst nat
  | CtlDumping
  | CtlDumped
  | CtlSecond nat
  | Releasing
  | Panicked
  | Terminated

record server_process =
  workers :: "worker list"
  threads :: "nat list"
  flags :: "nat list"
  req :: "ckpt_mode option"
  bar :: "barrier option"
  control :: control_pc
  counted :: "nat list"
  executed :: nat
  process_part :: "nat option"

definition process_start :: server_process where
  "process_start = \<lparr>workers = [], threads = [], flags = [], req = None, bar = None, control = Ready, counted = [],
     executed = 0, process_part = None\<rparr>"

definition upd :: "nat \<Rightarrow> (worker \<Rightarrow> worker) \<Rightarrow> server_process \<Rightarrow> server_process" where
  "upd i f w = w\<lparr>workers := (workers w)[i := f (workers w ! i)]\<rparr>"

abbreviation pc_of :: "server_process \<Rightarrow> nat \<Rightarrow> worker_pc" where
  "pc_of w i \<equiv> pc (workers w ! i)"

text \<open>The lock of \<open>MANAGER\<close> is held while threads are counted and flags are set.\<close>

fun holds_manager :: "control_pc \<Rightarrow> bool" where
  "holds_manager (Counting _) = True"
| "holds_manager Making = True"
| "holds_manager (Flagging _ _) = True"
| "holds_manager _ = False"

text \<open>The read locks of \<open>REQUEST\<close> and \<open>BARRIER\<close> are held during \<open>checkpoint_thread\<close>.\<close>

fun in_checkpoint :: "worker_pc \<Rightarrow> bool" where
  "in_checkpoint (First _) = True"
| "in_checkpoint Dumping = True"
| "in_checkpoint Dumped = True"
| "in_checkpoint (Second _) = True"
| "in_checkpoint Resuming = True"
| "in_checkpoint _ = False"

section \<open>The steps\<close>

text \<open>Where a worker or the control thread is after it has arrived at the barrier.\<close>

definition worker_arrives :: "nat \<Rightarrow> barrier \<Rightarrow> (nat \<Rightarrow> worker_pc) \<Rightarrow> worker_pc \<Rightarrow> server_process \<Rightarrow> server_process" where
  "worker_arrives i b waits passed w =
     (let (g, b') = barrier_arrive b
      in upd i (\<lambda>k. k\<lparr>pc := (case g of Some g \<Rightarrow> waits g | None \<Rightarrow> passed)\<rparr>) (w\<lparr>bar := Some b'\<rparr>))"

definition control_arrives :: "barrier \<Rightarrow> (nat \<Rightarrow> control_pc) \<Rightarrow> control_pc \<Rightarrow> server_process \<Rightarrow> server_process" where
  "control_arrives b waits passed w =
     (let (g, b') = barrier_arrive b
      in w\<lparr>bar := Some b', control := (case g of Some g \<Rightarrow> waits g | None \<Rightarrow> passed)\<rparr>)"

text \<open>
  The worker numbered 0 is the main thread, which after its normal end sleeps for a while and then
  terminates the process; the other threads go on meanwhile. A client that
  exits sends its last message without asking for the flag, so that its worker, when the channel is
  locked, may read the message and end, may find the channel locked before it sees the message and come to
  the checkpoint, or may see the message between its two looks at the channel and fail its assertion, which
  ends the thread. A worker in a process that is terminated makes no further steps.
\<close>

inductive process_step :: "server_process \<Rightarrow> server_process \<Rightarrow> bool" where
  create_thread: "control w = Ready \<Longrightarrow>
    process_step w (w\<lparr>workers := workers w @ [\<lparr>pc = Starting, client = Idle, write_disabled = False, part = None\<rparr>],
      threads := threads w @ [length (workers w)]\<rparr>)"
| register_flag: "i < length (workers w) \<Longrightarrow> control w \<noteq> Terminated \<Longrightarrow> \<not> holds_manager (control w) \<Longrightarrow> pc_of w i = Starting \<Longrightarrow>
    process_step w (upd i (\<lambda>k. k\<lparr>pc := Serving\<rparr>) (w\<lparr>flags := flags w @ [i]\<rparr>))"
| client_call: "i < length (workers w) \<Longrightarrow> client (workers w ! i) = Idle \<Longrightarrow> \<not> write_disabled (workers w ! i) \<Longrightarrow>
    process_step w (upd i (\<lambda>k. k\<lparr>client := Calling\<rparr>) w)"
| client_exit: "i < length (workers w) \<Longrightarrow> client (workers w ! i) = Idle \<Longrightarrow>
    process_step w (upd i (\<lambda>k. k\<lparr>client := Gone\<rparr>) w)"
| receive: "i < length (workers w) \<Longrightarrow> control w \<noteq> Terminated \<Longrightarrow> pc_of w i = Serving \<Longrightarrow> client (workers w ! i) = Calling \<Longrightarrow>
    process_step w (upd i (\<lambda>k. k\<lparr>pc := Executing\<rparr>) w)"
| execute: "i < length (workers w) \<Longrightarrow> control w \<noteq> Terminated \<Longrightarrow> pc_of w i = Executing \<Longrightarrow>
    process_step w (upd i (\<lambda>k. k\<lparr>pc := Serving, client := Idle\<rparr>) (w\<lparr>executed := executed w + 1\<rparr>))"
| worker_exit: "i < length (workers w) \<Longrightarrow> control w \<noteq> Terminated \<Longrightarrow> pc_of w i = Serving \<Longrightarrow> client (workers w ! i) = Gone \<Longrightarrow>
    process_step w (upd i (\<lambda>k. k\<lparr>pc := (if i = 0 then Leaving else Finished)\<rparr>) w)"
| process_exit: "0 < length (workers w) \<Longrightarrow> control w \<noteq> Terminated \<Longrightarrow> pc_of w 0 = Leaving \<Longrightarrow>
    process_step w (upd 0 (\<lambda>k. k\<lparr>pc := Finished\<rparr>) (w\<lparr>control := Terminated\<rparr>))"
| worker_panic: "i < length (workers w) \<Longrightarrow> control w \<noteq> Terminated \<Longrightarrow> pc_of w i = Serving \<Longrightarrow> client (workers w ! i) = Gone \<Longrightarrow>
    write_disabled (workers w ! i) \<Longrightarrow> process_step w (upd i (\<lambda>k. k\<lparr>pc := Finished\<rparr>) w)"
| notice: "i < length (workers w) \<Longrightarrow> control w \<noteq> Terminated \<Longrightarrow> pc_of w i = Serving \<Longrightarrow> client (workers w ! i) \<noteq> Calling \<Longrightarrow>
    write_disabled (workers w ! i) \<Longrightarrow> bar w = Some b \<Longrightarrow> process_step w (worker_arrives i b First Dumping w)"
| pass_first: "i < length (workers w) \<Longrightarrow> control w \<noteq> Terminated \<Longrightarrow> pc_of w i = First g \<Longrightarrow> bar w = Some b \<Longrightarrow> generation b \<noteq> g \<Longrightarrow>
    process_step w (upd i (\<lambda>k. k\<lparr>pc := Dumping\<rparr>) w)"
| dump_part: "i < length (workers w) \<Longrightarrow> control w \<noteq> Terminated \<Longrightarrow> pc_of w i = Dumping \<Longrightarrow>
    process_step w (upd i (\<lambda>k. k\<lparr>pc := Dumped, part := Some (executed w)\<rparr>) w)"
| finish_part: "i < length (workers w) \<Longrightarrow> control w \<noteq> Terminated \<Longrightarrow> pc_of w i = Dumped \<Longrightarrow> bar w = Some b \<Longrightarrow>
    process_step w (worker_arrives i b Second Resuming w)"
| pass_second: "i < length (workers w) \<Longrightarrow> control w \<noteq> Terminated \<Longrightarrow> pc_of w i = Second g \<Longrightarrow> bar w = Some b \<Longrightarrow> generation b \<noteq> g \<Longrightarrow>
    process_step w (upd i (\<lambda>k. k\<lparr>pc := Resuming\<rparr>) w)"
| resume: "i < length (workers w) \<Longrightarrow> control w \<noteq> Terminated \<Longrightarrow> pc_of w i = Resuming \<Longrightarrow> req w = Some m \<Longrightarrow>
    process_step w (upd i (\<lambda>k. case m of
        LeaveRunning \<Rightarrow> k\<lparr>pc := Serving, write_disabled := False\<rparr>
      | Kill \<Rightarrow> k\<lparr>pc := Finished, write_disabled := False\<rparr>
      | Detach \<Rightarrow> k\<lparr>pc := Finished\<rparr>) w)"
| set_request: "control w = Ready \<Longrightarrow>
    process_step w (w\<lparr>req := Some m, control := Counting (threads w), threads := [], counted := [], process_part := None\<rparr>)"
| count_thread: "control w = Counting (i # is) \<Longrightarrow>
    process_step w (if pc_of w i = Finished then w\<lparr>control := Counting is\<rparr>
      else w\<lparr>control := Counting is, threads := threads w @ [i], counted := counted w @ [i]\<rparr>)"
| counted_all: "control w = Counting [] \<Longrightarrow> process_step w (w\<lparr>control := Making\<rparr>)"
| make_barrier: "control w = Making \<Longrightarrow>
    process_step w (w\<lparr>bar := Some (barrier_new (length (counted w) + 1)), control := Flagging (flags w) 0, flags := []\<rparr>)"
| set_flag: "control w = Flagging (i # is) n \<Longrightarrow>
    process_step w (if i \<in> set (counted w)
      then upd i (\<lambda>k. k\<lparr>write_disabled := True\<rparr>) (w\<lparr>control := Flagging is (n + 1), flags := flags w @ [i]\<rparr>)
      else w\<lparr>control := Flagging is n\<rparr>)"
| check_count: "control w = Flagging [] n \<Longrightarrow>
    process_step w (w\<lparr>control := (if n = length (counted w) then Asked else Panicked)\<rparr>)"
| control_waits: "control w = Asked \<Longrightarrow> bar w = Some b \<Longrightarrow> process_step w (control_arrives b CtlFirst CtlDumping w)"
| control_passes: "control w = CtlFirst g \<Longrightarrow> bar w = Some b \<Longrightarrow> generation b \<noteq> g \<Longrightarrow> process_step w (w\<lparr>control := CtlDumping\<rparr>)"
| dump_process: "control w = CtlDumping \<Longrightarrow> process_step w (w\<lparr>control := CtlDumped, process_part := Some (executed w)\<rparr>)"
| control_waits_again: "control w = CtlDumped \<Longrightarrow> bar w = Some b \<Longrightarrow> process_step w (control_arrives b CtlSecond Releasing w)"
| control_passes_again: "control w = CtlSecond g \<Longrightarrow> bar w = Some b \<Longrightarrow> generation b \<noteq> g \<Longrightarrow> process_step w (w\<lparr>control := Releasing\<rparr>)"
| release: "control w = Releasing \<Longrightarrow> \<forall>i<length (workers w). \<not> in_checkpoint (pc_of w i) \<Longrightarrow>
    process_step w (w\<lparr>bar := None, req := None, control := Ready\<rparr>)"

inductive process_reach :: "server_process \<Rightarrow> bool" where
  process_started: "process_reach process_start"
| process_goes_on: "process_reach w \<Longrightarrow> process_step w w' \<Longrightarrow> process_reach w'"

section \<open>The phases of a checkpoint\<close>

lemma upd_simps [simp]:
  "length (workers (upd i f w)) = length (workers w)" "threads (upd i f w) = threads w" "flags (upd i f w) = flags w"
  "req (upd i f w) = req w" "bar (upd i f w) = bar w" "control (upd i f w) = control w" "counted (upd i f w) = counted w"
  "executed (upd i f w) = executed w" "process_part (upd i f w) = process_part w"
  by (simp_all add: upd_def)

lemma upd_worker [simp]:
  "i < length (workers w) \<Longrightarrow> workers (upd i f w) ! j = (if j = i then f (workers w ! i) else workers w ! j)"
  by (simp add: upd_def nth_list_update)

text \<open>No checkpoint, or one whose threads are being counted: nobody is in it, and only finished workers are locked.\<close>

definition before_barrier :: "server_process \<Rightarrow> bool" where
  "before_barrier w \<longleftrightarrow>
     (\<forall>i<length (workers w). \<not> in_checkpoint (pc_of w i) \<and> (write_disabled (workers w ! i) \<longrightarrow> pc_of w i = Finished)) \<and>
     (case control w of
        Ready \<Rightarrow> distinct (threads w) \<and> set (threads w) \<subseteq> {..<length (workers w)} \<and>
          (\<forall>i<length (workers w). pc_of w i = Finished \<or> i \<in> set (threads w))
      | Counting rest \<Rightarrow> threads w = counted w \<and> distinct (counted w @ rest) \<and> set (counted w @ rest) \<subseteq> {..<length (workers w)} \<and>
          (\<forall>i<length (workers w). pc_of w i = Finished \<or> i \<in> set (counted w @ rest))
      | Making \<Rightarrow> threads w = counted w \<and> distinct (counted w) \<and> set (counted w) \<subseteq> {..<length (workers w)} \<and>
          (\<forall>i<length (workers w). pc_of w i = Finished \<or> i \<in> set (counted w))
      | _ \<Rightarrow> False)"

text \<open>With a barrier the workers are those that were counted, or finished.\<close>

definition counted_workers :: "server_process \<Rightarrow> barrier \<Rightarrow> bool" where
  "counted_workers w b \<longleftrightarrow> threads w = counted w \<and> distinct (counted w) \<and> set (counted w) \<subseteq> {..<length (workers w)} \<and>
     num_threads b = card (set (counted w)) + 1 \<and> (\<forall>i<length (workers w). pc_of w i = Finished \<or> i \<in> set (counted w))"

definition parked :: "worker_pc \<Rightarrow> server_process \<Rightarrow> nat set" where
  "parked p w = {i \<in> set (counted w). pc_of w i = p}"

text \<open>What a worker and the control thread can be doing before, between and after the two meetings.\<close>

fun meeting_control :: "control_pc \<Rightarrow> bool" where
  "meeting_control (Flagging _ _) = True"
| "meeting_control Asked = True"
| "meeting_control Panicked = True"
| "meeting_control (CtlFirst g) = (g = 0)"
| "meeting_control _ = False"

fun writing_control :: "nat \<Rightarrow> nat option \<Rightarrow> control_pc \<Rightarrow> bool" where
  "writing_control n p (CtlFirst g) = (g = 0)"
| "writing_control n p CtlDumping = True"
| "writing_control n p CtlDumped = (p = Some n)"
| "writing_control n p (CtlSecond g) = (g = 1 \<and> p = Some n)"
| "writing_control n p _ = False"

fun written_control :: "control_pc \<Rightarrow> bool" where
  "written_control (CtlSecond g) = (g = 1)"
| "written_control Releasing = True"
| "written_control _ = False"

definition writing_worker :: "nat \<Rightarrow> worker \<Rightarrow> bool" where
  "writing_worker n k \<longleftrightarrow>
     pc k = First 0 \<or> pc k = Dumping \<or> (pc k = Dumped \<or> pc k = Second 1) \<and> part k = Some n"

definition written_worker :: "worker \<Rightarrow> bool" where
  "written_worker k \<longleftrightarrow>
     pc k = Second 1 \<or> pc k = Resuming \<or> pc k = Finished \<or> (pc k = Serving \<or> pc k = Executing \<or> pc k = Leaving) \<and> \<not> write_disabled k"

definition meeting :: "server_process \<Rightarrow> barrier \<Rightarrow> bool" where
  "meeting w b \<longleftrightarrow> meeting_control (control w) \<and>
     (\<forall>i\<in>set (counted w). in_checkpoint (pc_of w i) \<longrightarrow> pc_of w i = First 0) \<and>
     waiting b = card (parked (First 0) w) + (if control w = CtlFirst 0 then 1 else 0)"

text \<open>Between the two meetings every worker is in the checkpoint, so that no call is executed.\<close>

definition writing :: "server_process \<Rightarrow> barrier \<Rightarrow> bool" where
  "writing w b \<longleftrightarrow> writing_control (executed w) (process_part w) (control w) \<and>
     (\<forall>i\<in>set (counted w). writing_worker (executed w) (workers w ! i)) \<and>
     waiting b = card (parked (Second 1) w) + (if control w = CtlSecond 1 then 1 else 0)"

definition written :: "server_process \<Rightarrow> bool" where
  "written w \<longleftrightarrow> written_control (control w) \<and> (\<forall>i\<in>set (counted w). written_worker (workers w ! i)) \<and>
     process_part w \<noteq> None \<and> (\<forall>i\<in>set (counted w). part (workers w ! i) = process_part w)"

definition checkpoint_inv :: "server_process \<Rightarrow> bool" where
  "checkpoint_inv w \<longleftrightarrow> control w = Terminated \<or>
     (case bar w of
        None \<Rightarrow> before_barrier w
      | Some b \<Rightarrow> counted_workers w b \<and>
          (if generation b = 0 then meeting w b else if generation b = 1 then writing w b
           else generation b = 2 \<and> written w))"

text \<open>The last one to arrive finds all others waiting.\<close>

lemma all_others_arrived:
  assumes "finite S" "i \<in> S" "A \<subseteq> S - {i}" "card S \<le> card A + c" "c \<le> (1 :: nat)"
  shows "c = 1 \<and> A = S - {i}"
proof -
  have "card A \<le> card (S - {i})" using assms by (intro card_mono) auto
  moreover have "card (S - {i}) = card S - 1" "0 < card S" using assms by (auto simp: card_gt_0_iff)
  ultimately have "c = 1" "card A = card (S - {i})" using assms(4,5) by linarith+
  then show ?thesis using assms(1,3) card_subset_eq [of "S - {i}" A] by auto
qed

lemma all_arrived:
  assumes "finite S" "A \<subseteq> S" "card S \<le> card A"
  shows "A = S"
  using assms by (intro card_subset_eq) (auto intro: antisym card_mono)

lemma parked_arrive:
  assumes "i < length (workers w)" "i \<in> set (counted w)" "pc_of w i \<noteq> p"
  shows "parked p (upd i (\<lambda>k. k\<lparr>pc := p\<rparr>) w) = insert i (parked p w)" "i \<notin> parked p w"
  using assms by (auto simp: parked_def)

lemma parked_same:
  "i < length (workers w) \<Longrightarrow> pc (f (workers w ! i)) = p \<longleftrightarrow> pc_of w i = p \<Longrightarrow> parked p (upd i f w) = parked p w"
  by (auto simp: parked_def)

lemma finite_parked [simp]: "finite (parked p w)"
  by (simp add: parked_def)

lemmas phase_defs = before_barrier_def counted_workers_def meeting_def writing_def written_def

text \<open>Steps of one worker, phase by phase.\<close>

lemma before_barrier_upd:
  assumes "before_barrier w" "i < length (workers w)" "\<not> in_checkpoint (pc (f (workers w ! i)))"
    and "write_disabled (f (workers w ! i)) \<Longrightarrow> pc (f (workers w ! i)) = Finished"
    and "pc_of w i = Finished \<Longrightarrow> pc (f (workers w ! i)) = Finished"
  shows "before_barrier (upd i f w)"
  using assms by (cases "control w") (auto simp: before_barrier_def)

lemma counted_workers_upd:
  assumes "counted_workers w b" "i < length (workers w)" "pc_of w i = Finished \<Longrightarrow> pc (f (workers w ! i)) = Finished"
  shows "counted_workers (upd i f w) b"
  using assms by (auto simp: counted_workers_def)

lemma counted_workers_bar: "counted_workers w b \<Longrightarrow> num_threads b' = num_threads b \<Longrightarrow> counted_workers w b'"
  by (simp add: counted_workers_def)

lemma counted_worker: "counted_workers w b \<Longrightarrow> i < length (workers w) \<Longrightarrow> pc_of w i \<noteq> Finished \<Longrightarrow> i \<in> set (counted w)"
  by (auto simp: counted_workers_def)

lemma meeting_upd:
  assumes "meeting w b" "i < length (workers w)" "\<not> in_checkpoint (pc_of w i)" "\<not> in_checkpoint (pc (f (workers w ! i)))"
  shows "meeting (upd i f w) b"
proof -
  have "parked (First 0) (upd i f w) = parked (First 0) w" using assms by (intro parked_same) auto
  then show ?thesis using assms by (simp add: meeting_def)
qed

lemma writing_upd:
  assumes "writing w b" "i < length (workers w)" "pc (f (workers w ! i)) = Second 1 \<longleftrightarrow> pc_of w i = Second 1"
    and "writing_worker (executed w) (f (workers w ! i))"
  shows "writing (upd i f w) b"
  using assms parked_same [of i w f "Second 1"] by (simp add: writing_def)

lemma written_upd:
  assumes "written w" "i < length (workers w)" "part (f (workers w ! i)) = part (workers w ! i)"
    and "written_worker (f (workers w ! i))"
  shows "written (upd i f w)"
  using assms by (simp add: written_def)

lemma writing_inside: "writing w b \<Longrightarrow> i \<in> set (counted w) \<Longrightarrow> in_checkpoint (pc_of w i)"
  by (auto simp: writing_def writing_worker_def)

lemma parkedD: "j \<in> parked p w \<Longrightarrow> pc_of w j = p"
  by (simp add: parked_def)

lemma meetingD: "meeting w b \<Longrightarrow> i \<in> set (counted w) \<Longrightarrow> in_checkpoint (pc_of w i) \<Longrightarrow> pc_of w i = First 0"
  by (simp add: meeting_def)

lemma writingD: "writing w b \<Longrightarrow> i \<in> set (counted w) \<Longrightarrow> writing_worker (executed w) (workers w ! i)"
  by (simp add: writing_def)

lemma writtenD: "written w \<Longrightarrow> i \<in> set (counted w) \<Longrightarrow> written_worker (workers w ! i)"
  by (simp add: written_def)

text \<open>A worker goes on outside a checkpoint; its flag and its part stay as they are.\<close>

lemma inv_outside:
  assumes inv: "checkpoint_inv w" and i: "i < length (workers w)" and now: "\<not> in_checkpoint (pc_of w i)" "pc_of w i \<noteq> Finished"
    and after: "pc (f (workers w ! i)) \<in> {Serving, Executing, Leaving, Finished}" "part (f (workers w ! i)) = part (workers w ! i)"
      "write_disabled (f (workers w ! i)) = write_disabled (workers w ! i)"
  shows "checkpoint_inv (upd i f w)"
proof (cases "control w = Terminated")
  case False
  show ?thesis
  proof (cases "bar w")
    case None
    then have before: "before_barrier w" using inv False by (simp add: checkpoint_inv_def)
    then have "\<not> write_disabled (workers w ! i)" using i now(2) by (auto simp: before_barrier_def)
    then have "before_barrier (upd i f w)"
      using before i now after by (intro before_barrier_upd) auto
    then show ?thesis using None by (simp add: checkpoint_inv_def)
  next
    case (Some b)
    then have counted: "counted_workers w b"
        and phase: "if generation b = 0 then meeting w b else if generation b = 1 then writing w b else generation b = 2 \<and> written w"
      using inv False by (simp_all add: checkpoint_inv_def)
    have mem: "i \<in> set (counted w)" using counted i now(2) by (rule counted_worker)
    have "\<not> writing w b" using writing_inside mem now(1) by blast
    moreover have "meeting (upd i f w) b" if "meeting w b" using that i now(1) after(1) by (intro meeting_upd) auto
    moreover have "written (upd i f w)" if w: "written w"
    proof (rule written_upd [OF w i, of f])
      have "written_worker (workers w ! i)" using w mem by (simp add: written_def)
      then show "written_worker (f (workers w ! i))" using now after by (auto simp: written_worker_def)
    qed (rule after(2))
    moreover have "counted_workers (upd i f w) b" using counted i now(2) by (intro counted_workers_upd) auto
    ultimately show ?thesis using phase Some by (auto simp: checkpoint_inv_def split: if_splits)
  qed
qed (simp add: checkpoint_inv_def)

lemma inv_phase:
  assumes "checkpoint_inv w" "control w \<noteq> Terminated" "bar w = Some b"
  shows "counted_workers w b"
    and "if generation b = 0 then meeting w b else if generation b = 1 then writing w b else generation b = 2 \<and> written w"
  using assms by (simp_all add: checkpoint_inv_def)

lemma inv_intros:
  "counted_workers w b \<Longrightarrow> bar w = Some b \<Longrightarrow> generation b = 0 \<Longrightarrow> meeting w b \<Longrightarrow> checkpoint_inv w"
  "counted_workers w b \<Longrightarrow> bar w = Some b \<Longrightarrow> generation b = 1 \<Longrightarrow> writing w b \<Longrightarrow> checkpoint_inv w"
  "counted_workers w b \<Longrightarrow> bar w = Some b \<Longrightarrow> generation b = 2 \<Longrightarrow> written w \<Longrightarrow> checkpoint_inv w"
  by (simp_all add: checkpoint_inv_def)

lemma with_bar_simps [simp]:
  "parked p (w\<lparr>bar := x\<rparr>) = parked p w" "counted_workers (w\<lparr>bar := x\<rparr>) b = counted_workers w b"
  "parked p (w\<lparr>control := c\<rparr>) = parked p w" "counted_workers (w\<lparr>control := c\<rparr>) b = counted_workers w b"
  by (simp_all add: parked_def counted_workers_def)

text \<open>A worker arrives at the first meeting.\<close>

lemma inv_notice:
  assumes inv: "checkpoint_inv w" "control w \<noteq> Terminated" "bar w = Some b" and i: "i < length (workers w)"
    and k: "pc_of w i = Serving" "write_disabled (workers w ! i)"
  shows "checkpoint_inv (worker_arrives i b First Dumping w)"
proof -
  note counted = inv_phase(1) [OF inv] and phase = inv_phase(2) [OF inv]
  have mem: "i \<in> set (counted w)" using counted i k(1) by (auto intro: counted_worker)
  have "\<not> writing w b" using writing_inside [of w b i] mem k(1) by auto
  moreover have "\<not> written w" using writtenD [of w i] mem k by (auto simp: written_worker_def)
  ultimately have gen: "generation b = 0" and meet: "meeting w b" using phase by (auto split: if_splits)
  define b' where "b' = snd (barrier_arrive b)"
  have num: "num_threads b' = num_threads b" by (simp add: b'_def barrier_arrive_def)
  have counted': "counted_workers (upd i f (w\<lparr>bar := Some b'\<rparr>)) b'" for f
    using counted_workers_bar [OF counted num] i k(1) by (intro counted_workers_upd) auto
  show ?thesis
  proof (cases "waiting b + 1 < num_threads b")
    case True
    let ?w = "upd i (\<lambda>k. k\<lparr>pc := First 0\<rparr>) (w\<lparr>bar := Some b'\<rparr>)"
    have "parked (First 0) ?w = insert i (parked (First 0) w)" "i \<notin> parked (First 0) w"
      using parked_arrive [of i "w\<lparr>bar := Some b'\<rparr>" "First 0"] i mem k(1) by simp_all
    then have "meeting ?w b'" using meet True i by (auto simp: meeting_def b'_def barrier_arrive_def)
    moreover have "worker_arrives i b First Dumping w = ?w" using True gen by (simp add: worker_arrives_def b'_def barrier_arrive_def)
    ultimately show ?thesis using counted' gen True by (intro inv_intros(1) [of _ b']) (auto simp: b'_def barrier_arrive_def)
  next
    case False
    let ?w = "upd i (\<lambda>k. k\<lparr>pc := Dumping\<rparr>) (w\<lparr>bar := Some b'\<rparr>)"
    have arrived: "(if control w = CtlFirst 0 then 1 else (0::nat)) = 1 \<and> parked (First 0) w = set (counted w) - {i}"
      using False meet counted mem k(1)
      by (intro all_others_arrived) (auto simp: parked_def meeting_def counted_workers_def)
    have all: "control w = CtlFirst 0" "\<And>j. j \<in> set (counted w) \<Longrightarrow> j \<noteq> i \<Longrightarrow> pc_of w j = First 0"
      using arrived by (cases "control w = CtlFirst 0", simp_all) (rule parkedD, simp)
    have "parked (Second 1) ?w = {}" using all(2) i by (auto simp: parked_def)
    then have "writing ?w b'" using all i False by (auto simp: writing_def writing_worker_def b'_def barrier_arrive_def)
    moreover have "worker_arrives i b First Dumping w = ?w" using False by (simp add: worker_arrives_def b'_def barrier_arrive_def)
    ultimately show ?thesis using counted' gen False by (intro inv_intros(2) [of _ b']) (auto simp: b'_def barrier_arrive_def)
  qed
qed

lemma inv_finish_part:
  assumes inv: "checkpoint_inv w" "control w \<noteq> Terminated" "bar w = Some b" and i: "i < length (workers w)"
    and k: "pc_of w i = Dumped"
  shows "checkpoint_inv (worker_arrives i b Second Resuming w)"
proof -
  note counted = inv_phase(1) [OF inv] and phase = inv_phase(2) [OF inv]
  have mem: "i \<in> set (counted w)" using counted i k by (auto intro: counted_worker)
  have "\<not> meeting w b" "\<not> written w" using meetingD [of w b i] writtenD [of w i] mem k by (auto simp: written_worker_def)
  then have gen: "generation b = 1" and writing: "writing w b" using phase by (auto split: if_splits)
  define b' where "b' = snd (barrier_arrive b)"
  have num: "num_threads b' = num_threads b" by (simp add: b'_def barrier_arrive_def)
  have counted': "counted_workers (upd i f (w\<lparr>bar := Some b'\<rparr>)) b'" for f
    using counted_workers_bar [OF counted num] i k by (intro counted_workers_upd) auto
  show ?thesis
  proof (cases "waiting b + 1 < num_threads b")
    case True
    let ?w = "upd i (\<lambda>k. k\<lparr>pc := Second 1\<rparr>) (w\<lparr>bar := Some b'\<rparr>)"
    have "parked (Second 1) ?w = insert i (parked (Second 1) w)" "i \<notin> parked (Second 1) w"
      using parked_arrive [of i "w\<lparr>bar := Some b'\<rparr>" "Second 1"] i mem k by simp_all
    moreover have "writing_worker (executed w) (workers ?w ! j)" if j: "j \<in> set (counted w)" for j
      using writingD [OF writing j] i k by (cases "j = i") (simp_all add: writing_worker_def)
    ultimately have "writing ?w b'" using writing True by (simp add: writing_def b'_def barrier_arrive_def)
    moreover have "worker_arrives i b Second Resuming w = ?w" using True gen by (simp add: worker_arrives_def b'_def barrier_arrive_def)
    ultimately show ?thesis using counted' gen True by (intro inv_intros(2) [of _ b']) (auto simp: b'_def barrier_arrive_def)
  next
    case False
    let ?w = "upd i (\<lambda>k. k\<lparr>pc := Resuming\<rparr>) (w\<lparr>bar := Some b'\<rparr>)"
    have arrived: "(if control w = CtlSecond 1 then 1 else (0::nat)) = 1 \<and> parked (Second 1) w = set (counted w) - {i}"
      using False writing counted mem k
      by (intro all_others_arrived) (auto simp: parked_def writing_def counted_workers_def)
    have all: "control w = CtlSecond 1" "\<And>j. j \<in> set (counted w) \<Longrightarrow> j \<noteq> i \<Longrightarrow> pc_of w j = Second 1"
      using arrived by (cases "control w = CtlSecond 1", simp_all) (rule parkedD, simp)
    have parts: "part (workers w ! j) = Some (executed w)" if j: "j \<in> set (counted w)" for j
      using writingD [OF writing j] all(2) [OF j] k by (cases "j = i") (auto simp: writing_worker_def)
    have "process_part w = Some (executed w)" using writing all(1) by (simp add: writing_def)
    then have "written ?w" using parts all i by (simp add: written_def written_worker_def)
    moreover have "worker_arrives i b Second Resuming w = ?w" using False by (simp add: worker_arrives_def b'_def barrier_arrive_def)
    ultimately show ?thesis using counted' gen False by (intro inv_intros(3) [of _ b']) (auto simp: b'_def barrier_arrive_def)
  qed
qed

text \<open>The control thread arrives.\<close>

lemma inv_control_first:
  assumes inv: "checkpoint_inv w" "bar w = Some b" and c: "control w = Asked"
  shows "checkpoint_inv (control_arrives b CtlFirst CtlDumping w)"
proof -
  have nt: "control w \<noteq> Terminated" using c by simp
  note counted = inv_phase(1) [OF inv(1) nt inv(2)] and phase = inv_phase(2) [OF inv(1) nt inv(2)]
  have gen: "generation b = 0" and meet: "meeting w b" using phase c by (auto simp: writing_def written_def split: if_splits)
  define b' where "b' = snd (barrier_arrive b)"
  have counted': "counted_workers (w\<lparr>bar := Some b', control := x\<rparr>) b'" for x
    using counted_workers_bar [OF counted, of b'] by (simp add: b'_def barrier_arrive_def)
  show ?thesis
  proof (cases "waiting b + 1 < num_threads b")
    case True
    then have "meeting (w\<lparr>bar := Some b', control := CtlFirst 0\<rparr>) b'"
      using meet c by (simp add: meeting_def b'_def barrier_arrive_def)
    moreover have "control_arrives b CtlFirst CtlDumping w = w\<lparr>bar := Some b', control := CtlFirst 0\<rparr>"
      using True gen by (simp add: control_arrives_def b'_def barrier_arrive_def)
    ultimately show ?thesis using counted' gen True by (intro inv_intros(1) [of _ b']) (auto simp: b'_def barrier_arrive_def)
  next
    case False
    have "parked (First 0) w = set (counted w)"
      using False meet counted c by (intro all_arrived) (auto simp: parked_def meeting_def counted_workers_def)
    then have all: "\<And>j. j \<in> set (counted w) \<Longrightarrow> pc_of w j = First 0" by (intro parkedD) simp
    have "parked (Second 1) w = {}" using all by (auto simp: parked_def)
    then have "writing (w\<lparr>bar := Some b', control := CtlDumping\<rparr>) b'"
      using all False by (auto simp: writing_def writing_worker_def b'_def barrier_arrive_def)
    moreover have "control_arrives b CtlFirst CtlDumping w = w\<lparr>bar := Some b', control := CtlDumping\<rparr>"
      using False by (simp add: control_arrives_def b'_def barrier_arrive_def)
    ultimately show ?thesis using counted' gen False by (intro inv_intros(2) [of _ b']) (auto simp: b'_def barrier_arrive_def)
  qed
qed

lemma inv_control_second:
  assumes inv: "checkpoint_inv w" "bar w = Some b" and c: "control w = CtlDumped"
  shows "checkpoint_inv (control_arrives b CtlSecond Releasing w)"
proof -
  have nt: "control w \<noteq> Terminated" using c by simp
  note counted = inv_phase(1) [OF inv(1) nt inv(2)] and phase = inv_phase(2) [OF inv(1) nt inv(2)]
  have gen: "generation b = 1" and writing: "writing w b" using phase c by (auto simp: meeting_def written_def split: if_splits)
  define b' where "b' = snd (barrier_arrive b)"
  have counted': "counted_workers (w\<lparr>bar := Some b', control := x\<rparr>) b'" for x
    using counted_workers_bar [OF counted, of b'] by (simp add: b'_def barrier_arrive_def)
  show ?thesis
  proof (cases "waiting b + 1 < num_threads b")
    case True
    then have "writing (w\<lparr>bar := Some b', control := CtlSecond 1\<rparr>) b'"
      using writing c by (simp add: writing_def b'_def barrier_arrive_def)
    moreover have "control_arrives b CtlSecond Releasing w = w\<lparr>bar := Some b', control := CtlSecond 1\<rparr>"
      using True gen by (simp add: control_arrives_def b'_def barrier_arrive_def)
    ultimately show ?thesis using counted' gen True by (intro inv_intros(2) [of _ b']) (auto simp: b'_def barrier_arrive_def)
  next
    case False
    have "parked (Second 1) w = set (counted w)"
      using False writing counted c by (intro all_arrived) (auto simp: parked_def writing_def counted_workers_def)
    then have all: "\<And>j. j \<in> set (counted w) \<Longrightarrow> pc_of w j = Second 1" by (intro parkedD) simp
    moreover have "\<forall>j\<in>set (counted w). part (workers w ! j) = Some (executed w)"
      using writingD [OF writing] all by (fastforce simp: writing_worker_def)
    moreover have "process_part w = Some (executed w)" using writing c by (simp add: writing_def)
    ultimately have "written (w\<lparr>bar := Some b', control := Releasing\<rparr>)" by (simp add: written_def written_worker_def)
    moreover have "control_arrives b CtlSecond Releasing w = w\<lparr>bar := Some b', control := Releasing\<rparr>"
      using False by (simp add: control_arrives_def b'_def barrier_arrive_def)
    ultimately show ?thesis using counted' gen False by (intro inv_intros(3) [of _ b']) (auto simp: b'_def barrier_arrive_def)
  qed
qed

text \<open>Steps that do not concern the checkpoint.\<close>

lemma inv_client:
  assumes "checkpoint_inv w" "i < length (workers w)" "pc (f (workers w ! i)) = pc_of w i"
    and "part (f (workers w ! i)) = part (workers w ! i)" "write_disabled (f (workers w ! i)) = write_disabled (workers w ! i)"
  shows "checkpoint_inv (upd i f w)"
proof -
  have same: "pc_of (upd i f w) j = pc_of w j" "part (workers (upd i f w) ! j) = part (workers w ! j)"
    "write_disabled (workers (upd i f w) ! j) = write_disabled (workers w ! j)" for j
    using assms(2-) by simp_all
  show ?thesis
    using assms(1) unfolding checkpoint_inv_def phase_defs parked_def writing_worker_def written_worker_def same upd_simps .
qed

lemma before_barrier_other [simp]:
  "before_barrier (w\<lparr>flags := x\<rparr>) = before_barrier w" "before_barrier (w\<lparr>executed := n\<rparr>) = before_barrier w"
  by (cases "control w"; simp add: before_barrier_def)+

lemma phases_other [simp]:
  "parked p (w\<lparr>flags := x\<rparr>) = parked p w" "counted_workers (w\<lparr>flags := x\<rparr>) b = counted_workers w b"
  "meeting (w\<lparr>flags := x\<rparr>) b = meeting w b" "writing (w\<lparr>flags := x\<rparr>) b = writing w b" "written (w\<lparr>flags := x\<rparr>) = written w"
  "parked p (w\<lparr>executed := n\<rparr>) = parked p w" "counted_workers (w\<lparr>executed := n\<rparr>) b = counted_workers w b"
  "meeting (w\<lparr>executed := n\<rparr>) b = meeting w b" "written (w\<lparr>executed := n\<rparr>) = written w"
  by (simp_all add: parked_def counted_workers_def meeting_def writing_def written_def)

lemma inv_flags [simp]: "checkpoint_inv (w\<lparr>flags := x\<rparr>) = checkpoint_inv w"
  by (cases "bar w") (simp_all add: checkpoint_inv_def)

lemma inv_executed:
  assumes inv: "checkpoint_inv w" and i: "i < length (workers w)" and k: "\<not> in_checkpoint (pc_of w i)" "pc_of w i \<noteq> Finished"
  shows "checkpoint_inv (w\<lparr>executed := n\<rparr>)"
proof -
  have "\<not> writing w b" if "counted_workers w b" for b
    using counted_worker [OF that i k(2)] writing_inside [of w b i] k(1) by blast
  then show ?thesis using inv by (cases "bar w") (auto simp: checkpoint_inv_def split: if_splits)
qed

lemma inv_cases:
  assumes "checkpoint_inv w" "control w \<noteq> Terminated"
  obtains (before) "bar w = None" "before_barrier w"
    | (meeting) b where "bar w = Some b" "generation b = 0" "counted_workers w b" "meeting w b"
    | (writing) b where "bar w = Some b" "generation b = 1" "counted_workers w b" "writing w b"
    | (written) b where "bar w = Some b" "generation b = 2" "counted_workers w b" "written w"
proof (cases "bar w")
  case None
  then have "before_barrier w" using assms by (simp add: checkpoint_inv_def)
  with None show thesis by (rule before)
next
  case (Some b)
  note p = inv_phase [OF assms Some]
  show thesis
  proof (cases "generation b = 0")
    case True
    then have "meeting w b" using p(2) by (simp only: if_True simp_thms)
    then show ?thesis using Some True p(1) by (intro meeting)
  next
    case no: False
    show ?thesis
    proof (cases "generation b = 1")
      case True
      then have "writing w b" using p(2) no by (simp only: if_True if_False simp_thms)
      then show ?thesis using Some True p(1) by (intro writing)
    next
      case False
      then have "generation b = 2 \<and> written w" using p(2) no by (simp only: if_False simp_thms)
      then show ?thesis using Some p(1) by (elim conjE) (intro written)
    qed
  qed
qed

lemma inv_pass_first:
  assumes inv: "checkpoint_inv w" "control w \<noteq> Terminated" and i: "i < length (workers w)" "pc_of w i = First g"
    and b: "bar w = Some b" "generation b \<noteq> g"
  shows "checkpoint_inv (upd i (\<lambda>k. k\<lparr>pc := Dumping\<rparr>) w)"
  using inv
proof (cases rule: inv_cases)
  case (meeting b')
  then have "i \<in> set (counted w)" using i by (auto intro: counted_worker)
  then have "pc_of w i = First 0" using meeting(4) i(2) by (intro meetingD) simp_all
  then show ?thesis using b meeting i by simp
next
  case (writing b')
  then have "writing (upd i (\<lambda>k. k\<lparr>pc := Dumping\<rparr>) w) b'" using i by (intro writing_upd) (auto simp: writing_worker_def)
  moreover have "counted_workers (upd i (\<lambda>k. k\<lparr>pc := Dumping\<rparr>) w) b'" using writing i by (intro counted_workers_upd) auto
  ultimately show ?thesis using writing by (intro inv_intros(2)) auto
next
  case (written b')
  then have "i \<in> set (counted w)" using i by (auto intro: counted_worker)
  then show ?thesis using writtenD [OF written(4), of i] i(2) by (simp add: written_worker_def)
qed (use b in simp)

lemma inv_dump_part:
  assumes inv: "checkpoint_inv w" "control w \<noteq> Terminated" and i: "i < length (workers w)" "pc_of w i = Dumping"
  shows "checkpoint_inv (upd i (\<lambda>k. k\<lparr>pc := Dumped, part := Some (executed w)\<rparr>) w)"
  using inv
proof (cases rule: inv_cases)
  case before
  then show ?thesis using i by (auto simp: before_barrier_def)
next
  case (meeting b')
  then have "i \<in> set (counted w)" using i by (auto intro: counted_worker)
  then show ?thesis using meetingD [OF meeting(4), of i] i(2) by simp
next
  case (writing b')
  let ?w = "upd i (\<lambda>k. k\<lparr>pc := Dumped, part := Some (executed w)\<rparr>) w"
  have "writing ?w b'" using i writing by (intro writing_upd) (auto simp: writing_worker_def)
  moreover have "counted_workers ?w b'" using writing i by (intro counted_workers_upd) auto
  ultimately show ?thesis using writing by (intro inv_intros(2)) auto
next
  case (written b')
  then have "i \<in> set (counted w)" using i by (auto intro: counted_worker)
  then show ?thesis using writtenD [OF written(4), of i] i(2) by (simp add: written_worker_def)
qed

text \<open>Leaving the second meeting, and then the checkpoint.\<close>

lemma inv_leave:
  assumes inv: "checkpoint_inv w" "control w \<noteq> Terminated" and i: "i < length (workers w)"
    and now: "pc_of w i = Resuming \<or> pc_of w i = Second g \<and> bar w = Some b \<and> generation b \<noteq> g"
    and after: "written_worker (f (workers w ! i))" "part (f (workers w ! i)) = part (workers w ! i)"
  shows "checkpoint_inv (upd i f w)"
  using inv
proof (cases rule: inv_cases)
  case before
  then show ?thesis using i now by (auto simp: before_barrier_def)
next
  case (meeting b')
  then have "i \<in> set (counted w)" using i now by (intro counted_worker) auto
  then show ?thesis using meetingD [OF meeting(4), of i] now by auto
next
  case (writing b')
  then have "i \<in> set (counted w)" using i now by (intro counted_worker) auto
  then show ?thesis using writingD [OF writing(4), of i] now writing(1,2) by (auto simp: writing_worker_def)
next
  case (written b')
  have "written (upd i f w)" using written(4) i after(2,1) by (rule written_upd)
  moreover have "counted_workers (upd i f w) b'" using written i now by (intro counted_workers_upd) auto
  ultimately show ?thesis using written by (intro inv_intros(3)) auto
qed

text \<open>The steps of the control thread.\<close>

lemma inv_before:
  assumes "checkpoint_inv w" "control w = Ready \<or> control w = Making \<or> (\<exists>is. control w = Counting is)"
  shows "bar w = None" "before_barrier w"
proof -
  have "control w \<noteq> Terminated" using assms(2) by auto
  with assms(1) have "bar w = None \<and> before_barrier w"
  proof (cases rule: inv_cases)
    case before
    then show ?thesis by simp
  qed (use assms(2) in \<open>auto simp: meeting_def writing_def written_def\<close>)
  then show "bar w = None" "before_barrier w" by simp_all
qed

lemma inv_beforeI: "bar w = None \<Longrightarrow> before_barrier w \<Longrightarrow> checkpoint_inv w"
  by (simp add: checkpoint_inv_def)

lemma inv_create_thread:
  assumes "checkpoint_inv w" "control w = Ready" "pc k = Starting" "\<not> write_disabled k"
  shows "checkpoint_inv (w\<lparr>workers := workers w @ [k], threads := threads w @ [length (workers w)]\<rparr>)"
proof (rule inv_beforeI)
  have before: "bar w = None" "before_barrier w" using assms(1,2) by (auto intro: inv_before)
  then show "bar (w\<lparr>workers := workers w @ [k], threads := threads w @ [length (workers w)]\<rparr>) = None" by simp
  show "before_barrier (w\<lparr>workers := workers w @ [k], threads := threads w @ [length (workers w)]\<rparr>)"
    using before(2) assms(2-) by (auto simp: before_barrier_def nth_append less_Suc_eq)
qed

lemma inv_count:
  assumes "checkpoint_inv w" "control w = Ready"
  shows "checkpoint_inv (w\<lparr>req := m, control := Counting (threads w), threads := [], counted := [], process_part := None\<rparr>)"
  using inv_before [OF assms(1)] assms(2) by (auto intro!: inv_beforeI simp: before_barrier_def)

lemma inv_count_thread:
  assumes "checkpoint_inv w" "control w = Counting (i # is)"
  shows "checkpoint_inv (if pc_of w i = Finished then w\<lparr>control := Counting is\<rparr>
      else w\<lparr>control := Counting is, threads := threads w @ [i], counted := counted w @ [i]\<rparr>)"
  using inv_before [OF assms(1)] assms(2) by (auto intro!: inv_beforeI simp: before_barrier_def)

lemma inv_counted_all:
  assumes "checkpoint_inv w" "control w = Counting []"
  shows "checkpoint_inv (w\<lparr>control := Making\<rparr>)"
  using inv_before [OF assms(1)] assms(2) by (auto intro!: inv_beforeI simp: before_barrier_def)

lemma inv_make_barrier:
  assumes "checkpoint_inv w" "control w = Making"
  shows "checkpoint_inv (w\<lparr>bar := Some (barrier_new (length (counted w) + 1)), control := Flagging fs 0, flags := []\<rparr>)"
    (is "checkpoint_inv ?w")
proof -
  have before: "before_barrier w" using assms by (auto intro: inv_before)
  then have "parked (First 0) w = {}" using assms(2) by (auto simp: before_barrier_def parked_def)
  then have "meeting ?w (barrier_new (length (counted w) + 1))"
    using before assms(2) by (auto simp: meeting_def barrier_new_def before_barrier_def)
  moreover have "counted_workers ?w (barrier_new (length (counted w) + 1))"
    using before assms(2) by (auto simp: counted_workers_def barrier_new_def before_barrier_def distinct_card)
  ultimately show ?thesis by (intro inv_intros(1)) (auto simp: barrier_new_def)
qed

lemma inv_meeting:
  assumes "checkpoint_inv w" "control w = Flagging is n"
  obtains b where "bar w = Some b" "generation b = 0" "counted_workers w b" "meeting w b"
proof -
  have "control w \<noteq> Terminated" using assms(2) by simp
  with assms(1) show thesis
  proof (cases rule: inv_cases)
    case (meeting b)
    then show ?thesis by (rule that)
  qed (use assms(2) in \<open>auto simp: before_barrier_def writing_def written_def\<close>)
qed

lemma inv_flagging:
  assumes "checkpoint_inv w" "control w = Flagging is n" "meeting_control c" "c \<noteq> CtlFirst 0"
  shows "checkpoint_inv (w\<lparr>control := c\<rparr>)"
  using assms(1,2)
proof (rule inv_meeting)
  fix b assume b: "bar w = Some b" "generation b = 0" "counted_workers w b" "meeting w b"
  then have "meeting (w\<lparr>control := c\<rparr>) b" using assms(2-4) by (simp add: meeting_def)
  then show ?thesis using b by (intro inv_intros(1)) simp_all
qed

lemma inv_set_flag:
  assumes "checkpoint_inv w" "control w = Flagging is n" "i \<in> set (counted w)"
  shows "checkpoint_inv (upd i (\<lambda>k. k\<lparr>write_disabled := True\<rparr>) w)"
  using assms(1,2)
proof (rule inv_meeting)
  fix b assume b: "bar w = Some b" "generation b = 0" "counted_workers w b" "meeting w b"
  have i: "i < length (workers w)" using b(3) assms(3) by (auto simp: counted_workers_def)
  have "meeting (upd i (\<lambda>k. k\<lparr>write_disabled := True\<rparr>) w) b"
    using b(4) parked_same [OF i, of "\<lambda>k. k\<lparr>write_disabled := True\<rparr>" "First 0"] i by (simp add: meeting_def)
  moreover have "counted_workers (upd i (\<lambda>k. k\<lparr>write_disabled := True\<rparr>) w) b" using b(3) i by (intro counted_workers_upd) auto
  ultimately show ?thesis using b by (intro inv_intros(1)) simp_all
qed

lemma inv_control_passes:
  assumes "checkpoint_inv w" "control w = CtlFirst g" "bar w = Some b" "generation b \<noteq> g"
  shows "checkpoint_inv (w\<lparr>control := CtlDumping\<rparr>)"
proof -
  have "control w \<noteq> Terminated" using assms(2) by simp
  with assms(1) show ?thesis
  proof (cases rule: inv_cases)
    case (writing b')
    then have "writing (w\<lparr>control := CtlDumping\<rparr>) b'" using assms(2) by (simp add: writing_def)
    then show ?thesis using writing by (intro inv_intros(2)) simp_all
  qed (use assms(2-) in \<open>auto simp: meeting_def written_def\<close>)
qed

lemma inv_dump_process:
  assumes "checkpoint_inv w" "control w = CtlDumping"
  shows "checkpoint_inv (w\<lparr>control := CtlDumped, process_part := Some (executed w)\<rparr>)"
proof -
  have "control w \<noteq> Terminated" using assms(2) by simp
  with assms(1) show ?thesis
  proof (cases rule: inv_cases)
    case (writing b')
    let ?w = "w\<lparr>control := CtlDumped, process_part := Some (executed w)\<rparr>"
    have "writing ?w b'" "counted_workers ?w b'"
      using writing assms(2) by (simp_all add: writing_def counted_workers_def parked_def)
    then show ?thesis using writing by (intro inv_intros(2)) simp_all
  qed (use assms(2-) in \<open>auto simp: before_barrier_def meeting_def written_def\<close>)
qed

lemma inv_control_passes_again:
  assumes "checkpoint_inv w" "control w = CtlSecond g" "bar w = Some b" "generation b \<noteq> g"
  shows "checkpoint_inv (w\<lparr>control := Releasing\<rparr>)"
proof -
  have "control w \<noteq> Terminated" using assms(2) by simp
  with assms(1) show ?thesis
  proof (cases rule: inv_cases)
    case (written b')
    then have "written (w\<lparr>control := Releasing\<rparr>)" using assms(2) by (simp add: written_def)
    then show ?thesis using written by (intro inv_intros(3)) simp_all
  qed (use assms(2-) in \<open>auto simp: meeting_def writing_def\<close>)
qed

lemma inv_release:
  assumes "checkpoint_inv w" "control w = Releasing" "\<forall>i<length (workers w). \<not> in_checkpoint (pc_of w i)"
  shows "checkpoint_inv (w\<lparr>bar := None, req := None, control := Ready\<rparr>)"
proof -
  have "control w \<noteq> Terminated" using assms(2) by simp
  with assms(1) show ?thesis
  proof (cases rule: inv_cases)
    case (written b')
    have "write_disabled (workers w ! i) \<longrightarrow> pc_of w i = Finished" if i: "i < length (workers w)" for i
    proof (cases "i \<in> set (counted w)")
      case True
      have "\<not> in_checkpoint (pc_of w i)" using assms(3) i by blast
      then show ?thesis using writtenD [OF written(4) True] by (auto simp: written_worker_def)
    next
      case False
      then show ?thesis using written(3) i by (auto simp: counted_workers_def)
    qed
    then show ?thesis using written(3) assms(3) by (intro inv_beforeI) (auto simp: before_barrier_def counted_workers_def)
  qed (use assms(2-) in \<open>auto simp: before_barrier_def meeting_def writing_def\<close>)
qed

lemma checkpoint_inv_step:
  assumes "process_step w w'" "checkpoint_inv w"
  shows "checkpoint_inv w'"
  using assms
proof (cases rule: process_step.cases)
  case create_thread
  then show ?thesis using assms(2) by (simp add: inv_create_thread)
next
  case (register_flag i)
  then show ?thesis using assms(2) by (auto intro!: inv_outside)
next
  case (client_call i)
  then show ?thesis using assms(2) by (auto intro: inv_client)
next
  case (client_exit i)
  then show ?thesis using assms(2) by (auto intro: inv_client)
next
  case (receive i)
  then show ?thesis using assms(2) by (auto intro!: inv_outside)
next
  case (execute i)
  then show ?thesis using assms(2) inv_executed [of w i "executed w + 1"] by (auto intro!: inv_outside)
next
  case (worker_exit i)
  then show ?thesis using assms(2) by (auto intro!: inv_outside)
next
  case process_exit
  then show ?thesis by (simp add: checkpoint_inv_def)
next
  case (worker_panic i)
  then show ?thesis using assms(2) by (auto intro!: inv_outside)
next
  case (notice i b)
  then show ?thesis using assms(2) by (auto intro: inv_notice)
next
  case (pass_first i g b)
  then show ?thesis using assms(2) by (auto intro: inv_pass_first)
next
  case (dump_part i)
  then show ?thesis using assms(2) by (auto intro: inv_dump_part)
next
  case (finish_part i b)
  then show ?thesis using assms(2) by (auto intro: inv_finish_part)
next
  case (pass_second i g b)
  then show ?thesis using assms(2) by (auto intro!: inv_leave simp: written_worker_def)
next
  case (resume i m)
  then show ?thesis using assms(2) by (cases m) (auto intro!: inv_leave simp: written_worker_def)
next
  case (set_request m)
  then show ?thesis using assms(2) by (simp add: inv_count)
next
  case (count_thread i "is")
  then show ?thesis using inv_count_thread [OF assms(2)] by simp
next
  case counted_all
  then show ?thesis using assms(2) by (simp add: inv_counted_all)
next
  case make_barrier
  then show ?thesis using inv_make_barrier [OF assms(2)] by simp
next
  case (set_flag i "is" n)
  then show ?thesis
    using assms(2) inv_flagging [of w "i # is" n "Flagging is (n + 1)"] inv_flagging [of w "i # is" n "Flagging is n"]
    by (auto intro!: inv_set_flag)
next
  case (check_count n)
  then show ?thesis using assms(2) by (auto intro: inv_flagging)
next
  case (control_waits b)
  then show ?thesis using assms(2) by (auto intro: inv_control_first)
next
  case (control_passes g b)
  then show ?thesis using assms(2) by (auto intro: inv_control_passes)
next
  case dump_process
  then show ?thesis using assms(2) by (simp add: inv_dump_process)
next
  case (control_waits_again b)
  then show ?thesis using assms(2) by (auto intro: inv_control_second)
next
  case (control_passes_again g b)
  then show ?thesis using assms(2) by (auto intro: inv_control_passes_again)
next
  case release
  then show ?thesis using assms(2) by (simp add: inv_release)
qed

lemma checkpoint_inv_reach: "process_reach w \<Longrightarrow> checkpoint_inv w"
proof (induction rule: process_reach.induct)
  case process_started
  show ?case by (simp add: process_start_def checkpoint_inv_def before_barrier_def)
next
  case (process_goes_on w w')
  then show ?case by (blast intro: checkpoint_inv_step)
qed

text \<open>
  C5. A checkpoint of a process is consistent, however its threads interleave and whichever clients
  come, call and exit meanwhile: while any thread writes its part no call is being executed, and
  when the control thread is about to let the process go on, the part of the process and the parts of
  all threads that have not ended were written after the same calls.
\<close>

theorem checkpoint_consistent:
  assumes "process_reach w"
  shows "(control w = CtlDumping \<or> (\<exists>i<length (workers w). control w \<noteq> Terminated \<and> pc_of w i = Dumping) \<longrightarrow>
       (\<forall>j<length (workers w). pc_of w j \<noteq> Executing \<and> pc_of w j \<noteq> Serving)) \<and>
    (control w = Releasing \<longrightarrow> (\<exists>n. process_part w = Some n \<and>
       (\<forall>j<length (workers w). if j \<in> set (counted w) then part (workers w ! j) = Some n else pc_of w j = Finished)))"
proof (intro conjI impI)
  note inv = checkpoint_inv_reach [OF assms]
  { assume at: "control w = CtlDumping \<or> (\<exists>i<length (workers w). control w \<noteq> Terminated \<and> pc_of w i = Dumping)"
    then have "control w \<noteq> Terminated" by auto
    with inv show "\<forall>j<length (workers w). pc_of w j \<noteq> Executing \<and> pc_of w j \<noteq> Serving"
    proof (cases rule: inv_cases)
      case before
      then show ?thesis using at by (auto simp: before_barrier_def)
    next
      case (meeting b)
      have "\<not> (i < length (workers w) \<and> pc_of w i = Dumping)" for i
        using counted_worker [OF meeting(3), of i] meetingD [OF meeting(4), of i] by auto
      then show ?thesis using at meeting(4) by (auto simp: meeting_def)
    next
      case (writing b)
      have "pc_of w j \<noteq> Executing \<and> pc_of w j \<noteq> Serving" if "j < length (workers w)" for j
        using counted_worker [OF writing(3) that] writing_inside [OF writing(4), of j] by (cases "pc_of w j") auto
      then show ?thesis by blast
    next
      case (written b)
      have "\<not> (i < length (workers w) \<and> pc_of w i = Dumping)" for i
        using counted_worker [OF written(3), of i] writtenD [OF written(4), of i] by (auto simp: written_worker_def)
      then show ?thesis using at written(4) by (auto simp: written_def)
    qed }
  { assume at: "control w = Releasing"
    then have "control w \<noteq> Terminated" by auto
    with inv show "\<exists>n. process_part w = Some n \<and>
      (\<forall>j<length (workers w). if j \<in> set (counted w) then part (workers w ! j) = Some n else pc_of w j = Finished)"
    proof (cases rule: inv_cases)
      case (written b)
      then obtain n where "process_part w = Some n" "\<forall>j\<in>set (counted w). part (workers w ! j) = Some n"
        by (auto simp: written_def)
      then show ?thesis using counted_worker [OF written(3)] by auto
    qed (use at in \<open>auto simp: before_barrier_def meeting_def writing_def\<close>) }
qed

section \<open>Runs\<close>

text \<open>States of a process and of a worker, in the order of their fields.\<close>

abbreviation state :: "worker list \<Rightarrow> nat list \<Rightarrow> nat list \<Rightarrow> ckpt_mode option \<Rightarrow> barrier option \<Rightarrow> control_pc \<Rightarrow> nat list \<Rightarrow>
    nat option \<Rightarrow> server_process" where
  "state ws ts fs r b c cs p \<equiv> \<lparr>workers = ws, threads = ts, flags = fs, req = r, bar = b, control = c, counted = cs,
     executed = 0, process_part = p\<rparr>"

abbreviation thr :: "worker_pc \<Rightarrow> bool \<Rightarrow> nat option \<Rightarrow> worker" where
  "thr p d q \<equiv> \<lparr>pc = p, client = Idle, write_disabled = d, part = q\<rparr>"

abbreviation barr :: "nat \<Rightarrow> nat \<Rightarrow> nat \<Rightarrow> barrier" where
  "barr n k g \<equiv> \<lparr>num_threads = n, waiting = k, generation = g\<rparr>"

lemmas process_run_simps = process_start_def upd_def worker_arrives_def control_arrives_def barrier_arrive_def barrier_new_def
  eval_nat_numeral

text \<open>A process with one thread up to the moment when the control thread asks for a meeting.\<close>

lemma one_thread_counted:
  "process_reach (state [thr Starting False None] [0] [] (Some LeaveRunning) None Making [0] None)"
proof -
  have "process_reach (state [thr Starting False None] [0] [] None None Ready [] None)"
    using process_goes_on [OF process_started create_thread] by (simp add: process_run_simps)
  from process_goes_on [OF this set_request [where m = LeaveRunning]]
  have "process_reach (state [thr Starting False None] [] [] (Some LeaveRunning) None (Counting [0]) [] None)" by simp
  from process_goes_on [OF this count_thread]
  have "process_reach (state [thr Starting False None] [0] [] (Some LeaveRunning) None (Counting []) [0] None)" by simp
  from process_goes_on [OF this counted_all] show ?thesis by simp
qed

text \<open>
  A checkpoint that is requested right after a thread was created, before the thread has registered
  the flag of its channel, ends in a failed assertion of the control thread.
\<close>

theorem checkpoint_of_new_thread_panics:
  "\<exists>w. process_reach w \<and> control w = Panicked \<and> pc_of w 0 = Starting"
proof -
  from process_goes_on [OF one_thread_counted make_barrier]
  have "process_reach (state [thr Starting False None] [0] [] (Some LeaveRunning) (Some (barr 2 0 0)) (Flagging [] 0) [0] None)"
    by (simp add: process_run_simps)
  from process_goes_on [OF this check_count]
  have "process_reach (state [thr Starting False None] [0] [] (Some LeaveRunning) (Some (barr 2 0 0)) Panicked [0] None)" by simp
  then show ?thesis by (intro exI conjI) (assumption, simp_all)
qed

lemma one_thread_done:
  "process_reach (state [thr (Second 1) True (Some 0)] [0] [0] (Some LeaveRunning) (Some (barr 2 0 2)) Releasing [0] (Some 0))"
proof -
  let ?s = "\<lambda>k fs b c p. state [k] [0] fs (Some LeaveRunning) b c [0] p"
  have "process_reach (state [thr Starting False None] [0] [] None None Ready [] None)"
    using process_goes_on [OF process_started create_thread] by (simp add: process_run_simps)
  from process_goes_on [OF this register_flag [where i = 0]]
  have "process_reach (state [thr Serving False None] [0] [0] None None Ready [] None)" by (simp add: process_run_simps)
  from process_goes_on [OF this set_request [where m = LeaveRunning]]
  have "process_reach (state [thr Serving False None] [] [0] (Some LeaveRunning) None (Counting [0]) [] None)" by simp
  from process_goes_on [OF this count_thread]
  have "process_reach (?s (thr Serving False None) [0] None (Counting []) None)" by simp
  from process_goes_on [OF this counted_all]
  have "process_reach (?s (thr Serving False None) [0] None Making None)" by simp
  from process_goes_on [OF this make_barrier]
  have "process_reach (?s (thr Serving False None) [] (Some (barr 2 0 0)) (Flagging [0] 0) None)" by (simp add: process_run_simps)
  from process_goes_on [OF this set_flag]
  have "process_reach (?s (thr Serving True None) [0] (Some (barr 2 0 0)) (Flagging [] 1) None)" by (simp add: process_run_simps)
  from process_goes_on [OF this check_count]
  have "process_reach (?s (thr Serving True None) [0] (Some (barr 2 0 0)) Asked None)" by simp
  from process_goes_on [OF this control_waits]
  have "process_reach (?s (thr Serving True None) [0] (Some (barr 2 1 0)) (CtlFirst 0) None)" by (simp add: process_run_simps)
  from process_goes_on [OF this notice [where i = 0]]
  have "process_reach (?s (thr Dumping True None) [0] (Some (barr 2 0 1)) (CtlFirst 0) None)" by (simp add: process_run_simps)
  from process_goes_on [OF this dump_part [where i = 0]]
  have "process_reach (?s (thr Dumped True (Some 0)) [0] (Some (barr 2 0 1)) (CtlFirst 0) None)" by (simp add: process_run_simps)
  from process_goes_on [OF this control_passes]
  have "process_reach (?s (thr Dumped True (Some 0)) [0] (Some (barr 2 0 1)) CtlDumping None)" by simp
  from process_goes_on [OF this finish_part [where i = 0]]
  have "process_reach (?s (thr (Second 1) True (Some 0)) [0] (Some (barr 2 1 1)) CtlDumping None)" by (simp add: process_run_simps)
  from process_goes_on [OF this dump_process]
  have "process_reach (?s (thr (Second 1) True (Some 0)) [0] (Some (barr 2 1 1)) CtlDumped (Some 0))" by simp
  from process_goes_on [OF this control_waits_again] show ?thesis by (simp add: process_run_simps)
qed

theorem checkpoint_consistent_witness:
  "\<exists>w n. process_reach w \<and> control w = Releasing \<and> counted w = [0] \<and> process_part w = Some n \<and> part (workers w ! 0) = Some n"
  using checkpoint_consistent [OF one_thread_done] one_thread_done by (intro exI conjI) (assumption, simp_all)

text \<open>Two threads have been asked.\<close>

lemma two_threads_asked:
  "process_reach (state [thr Serving True None, thr Serving True None] [0, 1] [0, 1] (Some LeaveRunning) (Some (barr 3 0 0)) Asked [0, 1] None)"
proof -
  let ?s = "\<lambda>d e fs b c. state [thr Serving d None, thr Serving e None] [0, 1] fs (Some LeaveRunning) b c [0, 1] None"
  have "process_reach (state [thr Starting False None] [0] [] None None Ready [] None)"
    using process_goes_on [OF process_started create_thread] by (simp add: process_run_simps)
  from process_goes_on [OF this create_thread]
  have "process_reach (state [thr Starting False None, thr Starting False None] [0, 1] [] None None Ready [] None)" by simp
  from process_goes_on [OF this register_flag [where i = 0]]
  have "process_reach (state [thr Serving False None, thr Starting False None] [0, 1] [0] None None Ready [] None)" by (simp add: process_run_simps)
  from process_goes_on [OF this register_flag [where i = 1]]
  have "process_reach (state [thr Serving False None, thr Serving False None] [0, 1] [0, 1] None None Ready [] None)" by (simp add: process_run_simps)
  from process_goes_on [OF this set_request [where m = LeaveRunning]]
  have "process_reach (state [thr Serving False None, thr Serving False None] [] [0, 1] (Some LeaveRunning) None (Counting [0, 1]) [] None)"
    by simp
  from process_goes_on [OF this count_thread]
  have "process_reach (state [thr Serving False None, thr Serving False None] [0] [0, 1] (Some LeaveRunning) None (Counting [1]) [0] None)"
    by simp
  from process_goes_on [OF this count_thread]
  have "process_reach (?s False False [0, 1] None (Counting []))" by simp
  from process_goes_on [OF this counted_all] have "process_reach (?s False False [0, 1] None Making)" by simp
  from process_goes_on [OF this make_barrier]
  have "process_reach (?s False False [] (Some (barr 3 0 0)) (Flagging [0, 1] 0))" by (simp add: process_run_simps)
  from process_goes_on [OF this set_flag]
  have "process_reach (?s True False [0] (Some (barr 3 0 0)) (Flagging [1] 1))" by (simp add: process_run_simps)
  from process_goes_on [OF this set_flag]
  have "process_reach (?s True True [0, 1] (Some (barr 3 0 0)) (Flagging [] 2))" by (simp add: process_run_simps)
  from process_goes_on [OF this check_count] show ?thesis by (simp add: eval_nat_numeral)
qed

section \<open>A thread that does not come to the meeting\<close>

text \<open>Only the exit of the main thread's client ends a process.\<close>

definition exit_inv :: "server_process \<Rightarrow> bool" where
  "exit_inv w \<longleftrightarrow> (\<forall>i<length (workers w). pc_of w i = Executing \<longrightarrow> client (workers w ! i) = Calling) \<and>
     (control w = Terminated \<or> 0 < length (workers w) \<and> pc_of w 0 = Leaving \<longrightarrow>
        0 < length (workers w) \<and> client (workers w ! 0) = Gone)"

lemma exit_inv_step:
  assumes "process_step w w'" "exit_inv w"
  shows "exit_inv w'"
  using assms(1)
proof (cases rule: process_step.cases)
  case create_thread
  then show ?thesis using assms(2) by (cases "length (workers w)") (auto simp: exit_inv_def nth_append)
next
  case (resume i m)
  then show ?thesis using assms(2) by (cases m) (auto simp: exit_inv_def)
next
  case (set_flag i "is" n)
  then show ?thesis using assms(2) by (cases "i < length (workers w)") (auto simp: exit_inv_def upd_def nth_list_update list_update_beyond)
qed (use assms(2) in \<open>auto simp: exit_inv_def worker_arrives_def control_arrives_def Let_def split: prod.splits option.splits if_splits\<close>)

lemma exit_inv_reach: "process_reach w \<Longrightarrow> exit_inv w"
  by (induction rule: process_reach.induct) (simp add: process_start_def exit_inv_def, blast intro: exit_inv_step)

text \<open>A thread that was counted for a meeting that has not been held has ended, or is about to.\<close>

definition absent :: "nat \<Rightarrow> server_process \<Rightarrow> bool" where
  "absent i w \<longleftrightarrow> (\<exists>b. bar w = Some b \<and> generation b = 0) \<and> i \<in> set (counted w) \<and> pc_of w i \<in> {Finished, Leaving}"

text \<open>Nothing is written, who waits at the meeting goes on waiting, and whose channel is locked makes no call.\<close>

definition stands_still :: "server_process \<Rightarrow> server_process \<Rightarrow> bool" where
  "stands_still w w' \<longleftrightarrow> length (workers w') = length (workers w) \<and> counted w' = counted w \<and> process_part w' = process_part w \<and>
     (\<forall>j<length (workers w).
        part (workers w' ! j) = part (workers w ! j) \<and>
        (in_checkpoint (pc_of w j) \<longrightarrow> pc_of w' j = First 0) \<and>
        (write_disabled (workers w ! j) \<longrightarrow> write_disabled (workers w' ! j) \<and>
           (client (workers w ! j) \<noteq> Calling \<longrightarrow> client (workers w' ! j) \<noteq> Calling)))"

lemma stands_still_trans: "stands_still u v \<Longrightarrow> stands_still v w \<Longrightarrow> stands_still u w"
  unfolding stands_still_def by auto

text \<open>The barrier cannot open: one is missing besides the one that arrives.\<close>

lemma barrier_stays_shut:
  assumes m: "meeting w b" and c: "counted_workers w b" and i: "i \<in> set (counted w)" "pc_of w i \<noteq> First 0"
    and o: "control w \<noteq> CtlFirst 0 \<or> j \<in> set (counted w) \<and> j \<noteq> i \<and> pc_of w j \<noteq> First 0"
  shows "barrier_arrive b = (Some (generation b), b\<lparr>waiting := waiting b + 1\<rparr>)"
proof -
  have w: "waiting b = card (parked (First 0) w) + (if control w = CtlFirst 0 then 1 else 0)"
    and n: "num_threads b = card (set (counted w)) + 1" using m c by (simp_all add: meeting_def counted_workers_def)
  have "waiting b < card (set (counted w))"
  proof (cases "control w = CtlFirst 0")
    case True
    have "card (parked (First 0) w) \<le> card (set (counted w) - {i, j})"
      using True i o by (intro card_mono) (auto simp: parked_def)
    also have "\<dots> = card (set (counted w)) - card {i, j}" using True i o by (intro card_Diff_subset) auto
    also have "\<dots> = card (set (counted w)) - 2" using True o by auto
    finally have "card (parked (First 0) w) \<le> card (set (counted w)) - 2" .
    moreover have "card {i, j} \<le> card (set (counted w))" using True i o by (intro card_mono) auto
    ultimately show ?thesis using w True o by auto
  next
    case False
    have "card (parked (First 0) w) < card (set (counted w))"
      using i by (intro psubset_card_mono) (auto simp: parked_def)
    then show ?thesis using w False by simp
  qed
  then show ?thesis using n by (simp add: barrier_arrive_def)
qed

lemma absent_step:
  assumes inv: "checkpoint_inv w" and nt: "control w \<noteq> Terminated" and ab: "absent i w" and st: "process_step w w'"
  shows "control w' = Terminated \<or> absent i w' \<and> stands_still w w'"
proof -
  obtain b where b: "bar w = Some b" "generation b = 0" and i: "i \<in> set (counted w)" "pc_of w i \<in> {Finished, Leaving}"
    using ab by (auto simp: absent_def)
  have c: "counted_workers w b" and m: "meeting w b" using inv_phase [OF inv nt b(1)] b(2) by simp_all
  have il: "i < length (workers w)" using c i(1) by (auto simp: counted_workers_def)
  have mc: "meeting_control (control w)" using m by (simp add: meeting_def)
  have at: "in_checkpoint (pc_of w j) \<Longrightarrow> pc_of w j = First 0" if "j < length (workers w)" for j
    using counted_worker [OF c that] meetingD [OF m, of j] by fastforce
  have in_c: "j \<in> set (counted w)" if "j < length (workers w)" "pc_of w j \<noteq> Finished" for j
    using counted_worker [OF c that] .
  note shut = barrier_stays_shut [OF m c i(1)]
  show ?thesis
    using st
  proof (cases rule: process_step.cases)
    case (notice j b')
    have "worker_arrives j b' First Dumping w = upd j (\<lambda>k. k\<lparr>pc := First 0\<rparr>) (w\<lparr>bar := Some (b\<lparr>waiting := waiting b + 1\<rparr>)\<rparr>)"
      using shut [of j] notice(2-) in_c [of j] i(2) b by (cases "j = i") (auto simp: worker_arrives_def)
    then show ?thesis using notice i b il at by (auto simp: absent_def stands_still_def)
  next
    case (control_waits b')
    have "control_arrives b' CtlFirst CtlDumping w = w\<lparr>bar := Some (b\<lparr>waiting := waiting b + 1\<rparr>), control := CtlFirst 0\<rparr>"
      using shut [of i] control_waits i(2) b by (auto simp: control_arrives_def)
    then show ?thesis using control_waits(1) i b il at by (auto simp: absent_def stands_still_def)
  next
    case (set_flag j "is" n)
    have "j < length (workers w)" if "j \<in> set (counted w)" using c that by (auto simp: counted_workers_def)
    then show ?thesis using set_flag i b il at by (auto simp: absent_def stands_still_def)
  next
    case (pass_first j g b')
    then show ?thesis using at [of j] b by auto
  next
    case (dump_part j)
    then show ?thesis using at [of j] by simp
  next
    case (finish_part j b')
    then show ?thesis using at [of j] by simp
  next
    case (pass_second j g b')
    then show ?thesis using at [of j] by simp
  next
    case (resume j k)
    then show ?thesis using at [of j] by simp
  qed (use mc i b il at in \<open>auto simp: absent_def stands_still_def\<close>)
qed

lemma absent_for_ever:
  assumes "process_step\<^sup>*\<^sup>* w w'" and "process_reach w" and "absent i w"
  shows "process_reach w' \<and> (control w' = Terminated \<or> absent i w' \<and> (control w = Terminated \<or> stands_still w w'))"
  using assms(1)
proof (induction rule: rtranclp_induct)
  case base
  have "stands_still w w" if nt: "control w \<noteq> Terminated"
  proof -
    obtain b where b: "bar w = Some b" "generation b = 0" using assms(3) by (auto simp: absent_def)
    have c: "counted_workers w b" and m: "meeting w b"
      using inv_phase [OF checkpoint_inv_reach [OF assms(2)] nt b(1)] b(2) by simp_all
    have "pc_of w j = First 0" if "j < length (workers w)" "in_checkpoint (pc_of w j)" for j
      using counted_worker [OF c that(1)] meetingD [OF m, of j] that(2) by fastforce
    then show ?thesis by (simp add: stands_still_def)
  qed
  then show ?case using assms(2,3) by blast
next
  case (step v w')
  then have "process_reach w'" by (blast intro: process_goes_on)
  moreover have "control w' = Terminated" if "control v = Terminated"
    using step(2) that by (cases rule: process_step.cases) (auto simp: worker_arrives_def)
  ultimately show ?case
    using step.IH absent_step [OF checkpoint_inv_reach _ _ step(2), of i] stands_still_trans by blast
qed

text \<open>
  C39. A thread that ends after the threads were counted and before they have met leaves the checkpoint
  waiting for ever: whatever happens afterwards, unless the client of the main thread exits and so ends the
  whole process, the meeting is not held, the control thread does not get past it, no part is written,
  the threads that have come stay there, and the clients whose channels are locked make no further call.
\<close>

theorem exit_during_checkpoint_hangs:
  assumes "process_reach w" and "bar w = Some b" and "generation b = 0" and "i \<in> set (counted w)"
    and "pc_of w i = Finished \<or> pc_of w i = Leaving" and "process_step\<^sup>*\<^sup>* w w'"
  shows "control w' = Terminated \<and> client (workers w' ! 0) = Gone \<or>
    meeting_control (control w') \<and> (\<exists>b'. bar w' = Some b' \<and> generation b' = 0) \<and> process_part w' = process_part w \<and>
    (\<forall>j<length (workers w).
       part (workers w' ! j) = part (workers w ! j) \<and> (in_checkpoint (pc_of w j) \<longrightarrow> pc_of w' j = First 0) \<and>
       (write_disabled (workers w ! j) \<and> client (workers w ! j) \<noteq> Calling \<longrightarrow>
          write_disabled (workers w' ! j) \<and> client (workers w' ! j) \<noteq> Calling))"
proof -
  have "absent i w" using assms(2-5) by (auto simp: absent_def)
  from absent_for_ever [OF assms(6,1) this] have reach: "process_reach w'"
    and or: "control w' = Terminated \<or> absent i w' \<and> (control w = Terminated \<or> stands_still w w')" by simp_all
  show ?thesis
  proof (cases "control w' = Terminated")
    case True
    then show ?thesis using exit_inv_reach [OF reach] by (simp add: exit_inv_def)
  next
    case False
    have "control w \<noteq> Terminated"
    proof
      assume t: "control w = Terminated"
      have "control w' = Terminated" using assms(6)
        by (induction rule: rtranclp_induct) (use t in \<open>auto simp: worker_arrives_def elim: process_step.cases\<close>)
      then show False using False by simp
    qed
    then have ab: "absent i w'" and still: "stands_still w w'" using or False by auto
    obtain b' where b': "bar w' = Some b'" "generation b' = 0" using ab by (auto simp: absent_def)
    have "meeting w' b'" using inv_phase(2) [OF checkpoint_inv_reach [OF reach] False b'(1)] b'(2) by simp
    then show ?thesis using b' still by (simp add: meeting_def stands_still_def)
  qed
qed

text \<open>The second of two threads has ended; the first one and the control thread come to the meeting.\<close>

definition gone :: worker where
  "gone = \<lparr>pc = Finished, client = Gone, write_disabled = True, part = None\<rparr>"

abbreviation half_met :: "worker \<Rightarrow> barrier \<Rightarrow> control_pc \<Rightarrow> server_process" where
  "half_met k b c \<equiv> state [k, gone] [0, 1] [0, 1] (Some LeaveRunning) (Some b) c [0, 1] None"

lemma one_thread_missing: "process_reach (half_met (thr Serving True None) (barr 3 0 0) Asked)"
proof -
  let ?s = "\<lambda>l. state [thr Serving True None, l] [0, 1] [0, 1] (Some LeaveRunning) (Some (barr 3 0 0)) Asked [0, 1] None"
  from process_goes_on [OF two_threads_asked client_exit [where i = 1]]
  have "process_reach (?s (gone\<lparr>pc := Serving\<rparr>))" by (simp add: upd_def gone_def)
  from process_goes_on [OF this worker_exit [where i = 1]] show ?thesis by (simp add: upd_def gone_def)
qed

lemma others_meet:
  "process_step\<^sup>*\<^sup>* (half_met (thr Serving True None) (barr 3 0 0) Asked) (half_met (thr (First 0) True None) (barr 3 2 0) (CtlFirst 0))"
proof -
  have "process_step (half_met (thr Serving True None) (barr 3 0 0) Asked) (half_met (thr Serving True None) (barr 3 1 0) (CtlFirst 0))"
    using control_waits [of "half_met (thr Serving True None) (barr 3 0 0) Asked"] by (simp add: process_run_simps)
  moreover have "process_step (half_met (thr Serving True None) (barr 3 1 0) (CtlFirst 0))
      (half_met (thr (First 0) True None) (barr 3 2 0) (CtlFirst 0))"
    using notice [of 0 "half_met (thr Serving True None) (barr 3 1 0) (CtlFirst 0)"] by (simp add: process_run_simps)
  ultimately show ?thesis by (blast intro: converse_rtranclp_into_rtranclp)
qed

theorem exit_during_checkpoint_hangs_witness:
  "\<exists>w w'. process_reach w \<and> pc_of w 1 = Finished \<and> process_step\<^sup>*\<^sup>* w w' \<and> control w' = CtlFirst 0 \<and> pc_of w' 0 = First 0 \<and>
     client (workers w' ! 0) \<noteq> Calling \<and> process_part w' = None"
  using exit_during_checkpoint_hangs [OF one_thread_missing _ _ _ _ others_meet, of "barr 3 0 0" 1] one_thread_missing others_meet
  by (intro exI conjI) (assumption | simp add: gone_def)+

end
