(* ===== verification/Memcpy.thy ===== *)
theory Memcpy
  imports Launch
begin

text \<open>
  Copies between the memory of a program and the memory of the device: the client's functions
  (\<open>client/src/hijack/cudart_hijack_custom.rs\<close>, \<open>cudasys/src/hooks/cudart.rs\<close>), which find out what kind of
  copy is meant and send the bytes with the call, and the server's copies straight between the
  device and the buffer of the channel (\<open>server/src/dispatcher/cudart_exe_utils.rs\<close>), one for each
  contiguous part of the buffer.
\<close>

section \<open>The client\<close>

datatype memcpy_kind = HostToHost | HostToDevice | DeviceToHost | DeviceToDevice | MemcpyDefault

text \<open>The answer has the number of the \<open>cudaMemoryType\<close>: unregistered, host, device, managed.\<close>

definition is_device_ptr :: "('f, 's, 't) client_env \<Rightarrow> u64 \<Rightarrow> bool client_op" where
  "is_device_ptr env ptr s =
     exec_bind (perform env (R_cudaPointerGetAttributes ptr) s) (\<lambda>r s.
       if code r \<noteq> 0 then Abort ''assertion failed: result == cudaError_t::cudaSuccess''
       else if output_value r = 0 \<or> output_value r = 1 then Ok False s
       else if output_value r = 2 then Ok True s
       else if output_value r = 3 then Abort ''not implemented: cudaMemoryTypeManaged''
       else Undef ''invalid cudaMemoryType'')"

definition infer_memcpy_kind :: "('f, 's, 't) client_env \<Rightarrow> u64 \<Rightarrow> u64 \<Rightarrow> memcpy_kind client_op" where
  "infer_memcpy_kind env dst source s =
     exec_bind (is_device_ptr env dst s) (\<lambda>d s.
     exec_bind (is_device_ptr env source s) (\<lambda>c.
       Ok (case (d, c) of
             (False, False) \<Rightarrow> HostToHost | (True, False) \<Rightarrow> HostToDevice
           | (False, True) \<Rightarrow> DeviceToHost | (True, True) \<Rightarrow> DeviceToDevice)))"

text \<open>\<open>copy_nonoverlapping\<close>; ranges that overlap are undefined.\<close>

definition copy_nonoverlapping :: "u64 \<Rightarrow> u64 \<Rightarrow> nat \<Rightarrow> unit client_op" where
  "copy_nonoverlapping source dst n s =
     (if n \<noteq> 0 \<and> (unat (dst - source) < n \<or> unat (source - dst) < n) then Undef ''overlapping copy''
      else Ok () (s\<lparr>process_memory := mem_store (process_memory s) dst (mem_load (process_memory s) source n)\<rparr>))"

text \<open>The remoted functions. A null pointer to the program's memory is refused.\<close>

definition cudaMemcpyAsyncHtod :: "('f, 's, 't) client_env \<Rightarrow> u64 \<Rightarrow> u64 \<Rightarrow> u64 \<Rightarrow> u64 \<Rightarrow> int client_op" where
  "cudaMemcpyAsyncHtod env dst source cnt stream s =
     (if source = 0 then Abort ''src is null''
      else exec_bind (perform env (R_cudaMemcpyAsyncHtod dst (mem_load (process_memory s) source (unat cnt)) stream) s) (\<lambda>r.
             Ok (async_result env r)))"

definition cudaMemcpyAsyncDtoh :: "('f, 's, 't) client_env \<Rightarrow> u64 \<Rightarrow> u64 \<Rightarrow> u64 \<Rightarrow> u64 \<Rightarrow> int client_op" where
  "cudaMemcpyAsyncDtoh env dst source cnt stream s =
     exec_bind (perform env (R_cudaMemcpyAsyncDtoh source cnt stream) s) (\<lambda>r s.
       if dst = 0 then Abort ''dst is null''
       else if length (output_bytes r) \<noteq> unat cnt then Abort ''assertion failed: len == dst.len()''
       else Ok (code r) (s\<lparr>process_memory := mem_store (process_memory s) dst (output_bytes r)\<rparr>))"

definition cudaMemcpyDtod :: "('f, 's, 't) client_env \<Rightarrow> u64 \<Rightarrow> u64 \<Rightarrow> u64 \<Rightarrow> int client_op" where
  "cudaMemcpyDtod env dst source cnt s =
     exec_bind (perform env (R_cudaMemcpyDtod dst source cnt) s) (\<lambda>r. Ok (async_result env r))"

definition cudaMemcpyAsyncDtod :: "('f, 's, 't) client_env \<Rightarrow> u64 \<Rightarrow> u64 \<Rightarrow> u64 \<Rightarrow> u64 \<Rightarrow> int client_op" where
  "cudaMemcpyAsyncDtod env dst source cnt stream s =
     exec_bind (perform env (R_cudaMemcpyAsyncDtod dst source cnt stream) s) (\<lambda>r. Ok (async_result env r))"

definition resolve_kind :: "('f, 's, 't) client_env \<Rightarrow> u64 \<Rightarrow> u64 \<Rightarrow> memcpy_kind \<Rightarrow> memcpy_kind client_op" where
  "resolve_kind env dst source kind s = (if kind = MemcpyDefault then infer_memcpy_kind env dst source s else Ok kind s)"

definition hijack_cudaMemcpy :: "('f, 's, 't) client_env \<Rightarrow> u64 \<Rightarrow> u64 \<Rightarrow> u64 \<Rightarrow> memcpy_kind \<Rightarrow> int client_op" where
  "hijack_cudaMemcpy env dst source cnt kind s =
     exec_bind (resolve_kind env dst source kind s) (\<lambda>kind s.
       case kind of
         HostToHost \<Rightarrow> exec_bind (copy_nonoverlapping source dst (unat cnt) s) (\<lambda>_. Ok 0)
       | HostToDevice \<Rightarrow> cudaMemcpyAsyncHtod env dst source cnt 0 s
       | DeviceToHost \<Rightarrow> cudaMemcpyAsyncDtoh env dst source cnt 0 s
       | DeviceToDevice \<Rightarrow> cudaMemcpyDtod env dst source cnt s
       | MemcpyDefault \<Rightarrow> Abort ''internal error: entered unreachable code'')"

text \<open>The result of the synchronisation is not looked at.\<close>

definition hijack_cudaMemcpyAsync :: "('f, 's, 't) client_env \<Rightarrow> u64 \<Rightarrow> u64 \<Rightarrow> u64 \<Rightarrow> memcpy_kind \<Rightarrow> u64 \<Rightarrow> int client_op" where
  "hijack_cudaMemcpyAsync env dst source cnt kind stream s =
     exec_bind (resolve_kind env dst source kind s) (\<lambda>kind s.
       case kind of
         HostToHost \<Rightarrow>
           exec_bind (perform env (R_cudaStreamSynchronize stream) s) (\<lambda>_ s.
           exec_bind (copy_nonoverlapping source dst (unat cnt) s) (\<lambda>_. Ok 0))
       | HostToDevice \<Rightarrow> cudaMemcpyAsyncHtod env dst source cnt stream s
       | DeviceToHost \<Rightarrow> cudaMemcpyAsyncDtoh env dst source cnt stream s
       | DeviceToDevice \<Rightarrow> cudaMemcpyAsyncDtod env dst source cnt stream s
       | MemcpyDefault \<Rightarrow> Abort ''internal error: entered unreachable code'')"

section \<open>The server\<close>

text \<open>The copies of the CUDA runtime on the server, which return its code.\<close>

record 'g copy_api =
  memcpyHtod :: "u64 \<Rightarrow> u8 list \<Rightarrow> 'g \<Rightarrow> int \<times> 'g"
  memcpyDtoh :: "u64 \<Rightarrow> nat \<Rightarrow> 'g \<Rightarrow> (int \<times> u8 list) \<times> 'g"
  memcpyAsyncHtod :: "u64 \<Rightarrow> u8 list \<Rightarrow> u64 \<Rightarrow> 'g \<Rightarrow> int \<times> 'g"
  memcpyAsyncDtoh :: "u64 \<Rightarrow> nat \<Rightarrow> u64 \<Rightarrow> 'g \<Rightarrow> (int \<times> u8 list) \<times> 'g"
  synchronizeStream :: "u64 \<Rightarrow> 'g \<Rightarrow> int \<times> 'g"

text \<open>An asynchronous copy and the wait for it.\<close>

definition async_htod :: "'g copy_api \<Rightarrow> u64 \<Rightarrow> u8 list \<Rightarrow> u64 \<Rightarrow> 'g \<Rightarrow> int \<times> 'g" where
  "async_htod api dst buf stream g =
     (let (r, g) = memcpyAsyncHtod api dst buf stream g in if r = 0 then synchronizeStream api stream g else (r, g))"

definition async_dtoh :: "'g copy_api \<Rightarrow> u64 \<Rightarrow> nat \<Rightarrow> u64 \<Rightarrow> 'g \<Rightarrow> (int \<times> u8 list) \<times> 'g" where
  "async_dtoh api source n stream g =
     (let ((r, bs), g) = memcpyAsyncDtoh api source n stream g
      in if r = 0 then let (r, g) = synchronizeStream api stream g in ((r, bs), g) else ((r, bs), g))"

record device_range =
  range_at :: u64
  range_len :: u64
  range_stream :: u64

definition advance :: "nat \<Rightarrow> device_range \<Rightarrow> device_range" where
  "advance n h = h\<lparr>range_at := range_at h + of_nat n, range_len := range_len h - of_nat n\<rparr>"

text \<open>
  \<open>Htod::write\<close> and \<open>Dtoh::read\<close>, which assert that the copy of a part succeeds, and their use by a channel
  for the parts of its buffer.
\<close>

definition part_htod :: "'g copy_api \<Rightarrow> u8 list \<Rightarrow> device_range \<Rightarrow> 'g \<Rightarrow> int \<times> 'g" where
  "part_htod api buf h g =
     (if range_stream h = 0 then memcpyHtod api (range_at h) buf g
      else async_htod api (range_at h) buf (range_stream h) g)"

definition part_dtoh :: "'g copy_api \<Rightarrow> nat \<Rightarrow> device_range \<Rightarrow> 'g \<Rightarrow> (int \<times> u8 list) \<times> 'g" where
  "part_dtoh api n h g =
     (if range_stream h = 0 then memcpyDtoh api (range_at h) n g
      else async_dtoh api (range_at h) n (range_stream h) g)"

definition Htod_write :: "'g copy_api \<Rightarrow> u8 list \<Rightarrow> device_range \<Rightarrow> 'g \<Rightarrow> (device_range, 'g) exec" where
  "Htod_write api buf h g =
     (let (status, g) = part_htod api buf h g
      in if status \<noteq> 0 then Abort ''assertion failed: status == cudaError_t::cudaSuccess''
         else Ok (advance (length buf) h) g)"

definition Dtoh_read :: "'g copy_api \<Rightarrow> nat \<Rightarrow> device_range \<Rightarrow> 'g \<Rightarrow> (u8 list \<times> device_range, 'g) exec" where
  "Dtoh_read api n h g =
     (let ((status, bs), g) = part_dtoh api n h g
      in if status \<noteq> 0 then Abort ''assertion failed: status == cudaError_t::cudaSuccess''
         else Ok (bs, advance n h) g)"

fun Htod_writes :: "'g copy_api \<Rightarrow> u8 list list \<Rightarrow> device_range \<Rightarrow> 'g \<Rightarrow> (device_range, 'g) exec" where
  "Htod_writes api [] h g = Ok h g"
| "Htod_writes api (c # cs) h g = exec_bind (Htod_write api c h g) (\<lambda>h. Htod_writes api cs h)"

fun Dtoh_reads :: "'g copy_api \<Rightarrow> nat list \<Rightarrow> device_range \<Rightarrow> 'g \<Rightarrow> (u8 list \<times> device_range, 'g) exec" where
  "Dtoh_reads api [] h g = Ok ([], h) g"
| "Dtoh_reads api (n # ns) h g =
     exec_bind (Dtoh_read api n h g) (\<lambda>(bs, h) g.
     exec_bind (Dtoh_reads api ns h g) (\<lambda>(bs', h). Ok (bs @ bs', h)))"

text \<open>
  The server's part of \<open>cudaMemcpyAsyncHtod\<close> and \<open>cudaMemcpyAsyncDtoh\<close>: directly, for the parts in which the
  bytes lie in the buffer of the channel, or by way of a slice when the channel cannot do that.
\<close>

definition direct_htod :: "'g copy_api \<Rightarrow> u64 \<Rightarrow> u64 \<Rightarrow> u64 \<Rightarrow> u8 list list \<Rightarrow> 'g \<Rightarrow> (int, 'g) exec" where
  "direct_htod api dst cnt stream parts g =
     exec_bind (Htod_writes api parts \<lparr>range_at = dst, range_len = cnt, range_stream = stream\<rparr> g) (\<lambda>_. Ok 0)"

definition staged_htod :: "'g copy_api \<Rightarrow> u64 \<Rightarrow> u64 \<Rightarrow> u8 list \<Rightarrow> 'g \<Rightarrow> (int, 'g) exec" where
  "staged_htod api dst stream source g = (let (r, g) = async_htod api dst source stream g in Ok r g)"

definition direct_dtoh :: "'g copy_api \<Rightarrow> u64 \<Rightarrow> u64 \<Rightarrow> u64 \<Rightarrow> nat list \<Rightarrow> 'g \<Rightarrow> (int \<times> u8 list, 'g) exec" where
  "direct_dtoh api source cnt stream parts g =
     exec_bind (Dtoh_reads api parts \<lparr>range_at = source, range_len = cnt, range_stream = stream\<rparr> g) (\<lambda>(bs, _). Ok (0, bs))"

definition staged_dtoh :: "'g copy_api \<Rightarrow> u64 \<Rightarrow> u64 \<Rightarrow> u64 \<Rightarrow> 'g \<Rightarrow> (int \<times> u8 list, 'g) exec" where
  "staged_dtoh api source cnt stream g = (let (r, g) = async_dtoh api source (unat cnt) stream g in Ok r g)"

section \<open>The server's copies\<close>

text \<open>
  What the documentation of the CUDA runtime promises of a copy that returns success; any copy may also
  return an error, of which nothing is assumed. \<open>dev\<close> is the contents of the device memory as later copies
  see it.
\<close>

definition copies_sound :: "'g copy_api \<Rightarrow> ('g \<Rightarrow> memory) \<Rightarrow> bool" where
  "copies_sound api dev \<longleftrightarrow>
     (\<forall>d bs g g'. memcpyHtod api d bs g = (0, g') \<longrightarrow> dev g' = mem_store (dev g) d bs) \<and>
     (\<forall>d n g bs g'. memcpyDtoh api d n g = ((0, bs), g') \<longrightarrow> bs = mem_load (dev g) d n \<and> dev g' = dev g) \<and>
     (\<forall>d bs st g g'. async_htod api d bs st g = (0, g') \<longrightarrow> dev g' = mem_store (dev g) d bs) \<and>
     (\<forall>d n st g bs g'. async_dtoh api d n st g = ((0, bs), g') \<longrightarrow> bs = mem_load (dev g) d n \<and> dev g' = dev g)"

lemma mem_store_append:
  assumes "length xs + length ys \<le> 2 ^ 64"
  shows "mem_store (mem_store m a xs) (a + of_nat (length xs)) ys = mem_store m a (xs @ ys)"
proof (cases "length xs = 2 ^ 64")
  case False
  then have l: "unat (of_nat (length xs) :: u64) = length xs" using assms by (simp add: unat_of_nat take_bit_nat_eq_self)
  show ?thesis
  proof
    fix x
    have "x - (a + of_nat (length xs)) = (x - a) - of_nat (length xs)" by simp
    then have "unat (x - (a + of_nat (length xs))) =
        (if length xs \<le> unat (x - a) then unat (x - a) - length xs else unat (x - a) + 2 ^ 64 - length xs)"
      by (simp only: unat_sub_if') (simp add: l)
    then show "mem_store (mem_store m a xs) (a + of_nat (length xs)) ys x = mem_store m a (xs @ ys) x"
      using assms by (auto simp: mem_store_def nth_append)
  qed
qed (use assms in \<open>simp add: mem_store_def\<close>)

lemma copies_soundD:
  assumes "copies_sound api dev"
  shows "async_htod api d bs st g = (0, g') \<Longrightarrow> dev g' = mem_store (dev g) d bs"
    and "async_dtoh api d n st g = ((0, bs), g') \<Longrightarrow> bs = mem_load (dev g) d n \<and> dev g' = dev g"
    and "part_htod api bs h g = (0, g') \<Longrightarrow> dev g' = mem_store (dev g) (range_at h) bs"
    and "part_dtoh api n h g = ((0, bs), g') \<Longrightarrow> bs = mem_load (dev g) (range_at h) n \<and> dev g' = dev g"
  using assms unfolding copies_sound_def part_htod_def part_dtoh_def by (auto split: if_splits)

text \<open>
  The parts before the first one that fails are copied, and then the assertion fails; if none fails, all
  are copied.
\<close>

lemma Htod_writes_outcome:
  assumes sound: "copies_sound api dev" and "length (concat cs) \<le> 2 ^ 64"
  shows "case Htod_writes api cs h g of
      Ok h' g' \<Rightarrow> range_at h' = range_at h + of_nat (length (concat cs)) \<and> dev g' = mem_store (dev g) (range_at h) (concat cs)
    | Abort m \<Rightarrow> \<exists>k<length cs. \<exists>h1 g1. Htod_writes api (take k cs) h g = Ok h1 g1 \<and> fst (part_htod api (cs ! k) h1 g1) \<noteq> 0
    | _ \<Rightarrow> False"
  using assms(2)
proof (induction cs arbitrary: h g)
  case (Cons c cs)
  obtain st g1 where p: "part_htod api c h g = (st, g1)" by fastforce
  show ?case
  proof (cases "st = 0")
    case True
    have w: "Htod_write api c h g = Ok (advance (length c) h) g1" using p True by (simp add: Htod_write_def)
    have d: "dev g1 = mem_store (dev g) (range_at h) c" using copies_soundD(3) [OF sound] p True by blast
    have IH: "case Htod_writes api cs (advance (length c) h) g1 of
        Ok h' g' \<Rightarrow> range_at h' = range_at (advance (length c) h) + of_nat (length (concat cs)) \<and>
          dev g' = mem_store (dev g1) (range_at (advance (length c) h)) (concat cs)
      | Abort m \<Rightarrow> \<exists>k<length cs. \<exists>h1 g2. Htod_writes api (take k cs) (advance (length c) h) g1 = Ok h1 g2 \<and>
          fst (part_htod api (cs ! k) h1 g2) \<noteq> 0
      | _ \<Rightarrow> False"
      using Cons by simp
    show ?thesis
    proof (cases "Htod_writes api cs (advance (length c) h) g1")
      case (Ok h' g')
      then show ?thesis using IH w d Cons.prems by (simp add: advance_def mem_store_append algebra_simps)
    next
      case (Abort m)
      then obtain k h1 g2 where "k < length cs" "Htod_writes api (take k cs) (advance (length c) h) g1 = Ok h1 g2"
        "fst (part_htod api (cs ! k) h1 g2) \<noteq> 0" using IH by auto
      then have "\<exists>k<length (c # cs). \<exists>h1 g1. Htod_writes api (take k (c # cs)) h g = Ok h1 g1 \<and>
          fst (part_htod api ((c # cs) ! k) h1 g1) \<noteq> 0"
        using w by (intro exI [of _ "Suc k"]) simp
      then show ?thesis using Abort w by simp
    qed (use IH in auto)
  next
    case False
    then have "\<exists>k<length (c # cs). \<exists>h1 g1. Htod_writes api (take k (c # cs)) h g = Ok h1 g1 \<and>
        fst (part_htod api ((c # cs) ! k) h1 g1) \<noteq> 0"
      using p by (intro exI [of _ 0]) simp
    then show ?thesis using False p by (simp add: Htod_write_def)
  qed
qed (simp add: mem_store_def)

lemma Dtoh_reads_outcome:
  assumes sound: "copies_sound api dev"
  shows "case Dtoh_reads api ns h g of
      Ok (bs, h') g' \<Rightarrow> range_at h' = range_at h + of_nat (sum_list ns) \<and> bs = mem_load (dev g) (range_at h) (sum_list ns) \<and> dev g' = dev g
    | Abort m \<Rightarrow> \<exists>k<length ns. \<exists>bs h1 g1. Dtoh_reads api (take k ns) h g = Ok (bs, h1) g1 \<and> fst (fst (part_dtoh api (ns ! k) h1 g1)) \<noteq> 0
    | _ \<Rightarrow> False"
proof (induction ns arbitrary: h g)
  case (Cons n ns)
  obtain st bs g1 where p: "part_dtoh api n h g = ((st, bs), g1)" by (metis prod.exhaust)
  show ?case
  proof (cases "st = 0")
    case True
    have w: "Dtoh_read api n h g = Ok (bs, advance n h) g1" using p True by (simp add: Dtoh_read_def)
    have d: "bs = mem_load (dev g) (range_at h) n \<and> dev g1 = dev g" using copies_soundD(4) [OF sound] p True by blast
    note IH = Cons.IH [of "advance n h" g1]
    show ?thesis
    proof (cases "Dtoh_reads api ns (advance n h) g1")
      case (Ok x g')
      then show ?thesis using IH w d by (cases x) (simp add: advance_def mem_load_add algebra_simps)
    next
      case (Abort m)
      then obtain k bs' h1 g2 where "k < length ns" "Dtoh_reads api (take k ns) (advance n h) g1 = Ok (bs', h1) g2"
        "fst (fst (part_dtoh api (ns ! k) h1 g2)) \<noteq> 0" using IH by auto
      then have "\<exists>k<length (n # ns). \<exists>bs h1 g1. Dtoh_reads api (take k (n # ns)) h g = Ok (bs, h1) g1 \<and>
          fst (fst (part_dtoh api ((n # ns) ! k) h1 g1)) \<noteq> 0"
        using w by (intro exI [of _ "Suc k"]) simp
      then show ?thesis using Abort w by simp
    qed (use IH in auto)
  next
    case False
    then have "\<exists>k<length (n # ns). \<exists>bs h1 g1. Dtoh_reads api (take k (n # ns)) h g = Ok (bs, h1) g1 \<and>
        fst (fst (part_dtoh api ((n # ns) ! k) h1 g1)) \<noteq> 0"
      using p by (intro exI [of _ 0]) simp
    then show ?thesis using False p by (simp add: Dtoh_read_def)
  qed
qed (simp add: mem_load_def)

section \<open>The client's copies\<close>

fun kind_of :: "bool \<Rightarrow> bool \<Rightarrow> memcpy_kind" where
  "kind_of False False = HostToHost"
| "kind_of True False = HostToDevice"
| "kind_of False True = DeviceToHost"
| "kind_of True True = DeviceToDevice"

text \<open>A copy on the pair of the program's memory and the device memory.\<close>

fun copy_spec :: "memcpy_kind \<Rightarrow> u64 \<Rightarrow> u64 \<Rightarrow> nat \<Rightarrow> memory \<times> memory \<Rightarrow> memory \<times> memory" where
  "copy_spec HostToHost dst a n (h, d) = (mem_store h dst (mem_load h a n), d)"
| "copy_spec HostToDevice dst a n (h, d) = (h, mem_store d dst (mem_load h a n))"
| "copy_spec DeviceToHost dst a n (h, d) = (mem_store h dst (mem_load d a n), d)"
| "copy_spec DeviceToDevice dst a n (h, d) = (h, mem_store d dst (mem_load d a n))"
| "copy_spec MemcpyDefault dst a n m = m"

text \<open>What a copy needs: host pointers are not null, and host ranges do not overlap.\<close>

fun copy_ok :: "memcpy_kind \<Rightarrow> u64 \<Rightarrow> u64 \<Rightarrow> nat \<Rightarrow> bool" where
  "copy_ok HostToHost dst a n \<longleftrightarrow> n = 0 \<or> n \<le> unat (dst - a) \<and> n \<le> unat (a - dst)"
| "copy_ok HostToDevice dst a n \<longleftrightarrow> a \<noteq> 0"
| "copy_ok DeviceToHost dst a n \<longleftrightarrow> dst \<noteq> 0"
| "copy_ok DeviceToDevice dst a n \<longleftrightarrow> True"
| "copy_ok MemcpyDefault dst a n \<longleftrightarrow> False"

text \<open>
  The server answers copies as the runtime does, on a device memory \<open>dev\<close> that the calls so far have led
  to, and tells device pointers from others.
\<close>

fun call_answered :: "(u64 \<Rightarrow> bool) \<Rightarrow> remote_call \<Rightarrow> remote_reply \<Rightarrow> memory \<Rightarrow> memory \<Rightarrow> bool" where
  "call_answered is_dev (R_cudaMemcpyAsyncHtod d bs st) r m m' \<longleftrightarrow> code r = 0 \<and> m' = mem_store m d bs"
| "call_answered is_dev (R_cudaMemcpyAsyncDtoh a n st) r m m' \<longleftrightarrow> code r = 0 \<and> output_bytes r = mem_load m a (unat n) \<and> m' = m"
| "call_answered is_dev (R_cudaMemcpyDtod d a n) r m m' \<longleftrightarrow> code r = 0 \<and> m' = mem_store m d (mem_load m a (unat n))"
| "call_answered is_dev (R_cudaMemcpyAsyncDtod d a n st) r m m' \<longleftrightarrow> code r = 0 \<and> m' = mem_store m d (mem_load m a (unat n))"
| "call_answered is_dev (R_cudaPointerGetAttributes p) r m m' \<longleftrightarrow> code r = 0 \<and> output_value r = (if is_dev p then 2 else 0) \<and> m' = m"
| "call_answered is_dev (R_cudaStreamSynchronize st) r m m' \<longleftrightarrow> m' = m"
| "call_answered is_dev c r m m' \<longleftrightarrow> True"

definition device_memory :: "('f, 's, 't) client_env \<Rightarrow> ((remote_call \<times> remote_reply) list \<Rightarrow> memory) \<Rightarrow> (u64 \<Rightarrow> bool) \<Rightarrow> bool" where
  "device_memory env dev is_dev \<longleftrightarrow>
     (\<forall>h c. call_answered is_dev c (remote env h c) (dev h) (dev (h @ [(c, remote env h c)])))"

definition memories :: "((remote_call \<times> remote_reply) list \<Rightarrow> memory) \<Rightarrow> client_process \<Rightarrow> memory \<times> memory" where
  "memories dev s = (process_memory s, dev (calls s))"

lemma performed:
  assumes "device_memory env dev is_dev"
  shows "\<exists>r. perform env c s = Ok r (s\<lparr>calls := calls s @ [(c, r)]\<rparr>) \<and> call_answered is_dev c r (dev (calls s)) (dev (calls s @ [(c, r)]))"
  using assms by (simp add: device_memory_def perform_def Let_def)

lemma is_device_ptr_ok:
  assumes "device_memory env dev is_dev"
  shows "\<exists>s'. is_device_ptr env p s = Ok (is_dev p) s' \<and> memories dev s' = memories dev s"
  using performed [OF assms, of "R_cudaPointerGetAttributes p" s] by (auto simp: is_device_ptr_def memories_def)

lemma resolve_kind_ok:
  assumes "device_memory env dev is_dev"
  shows "\<exists>s'. resolve_kind env dst a kind s = Ok (if kind = MemcpyDefault then kind_of (is_dev dst) (is_dev a) else kind) s' \<and>
    memories dev s' = memories dev s"
proof -
  obtain s1 where s1: "is_device_ptr env dst s = Ok (is_dev dst) s1" "memories dev s1 = memories dev s"
    using is_device_ptr_ok [OF assms] by blast
  obtain s2 where "is_device_ptr env a s1 = Ok (is_dev a) s2" "memories dev s2 = memories dev s1"
    using is_device_ptr_ok [OF assms] by blast
  then show ?thesis
    using s1 by (cases "is_dev dst"; cases "is_dev a") (auto simp: resolve_kind_def infer_memcpy_kind_def)
qed

lemma htod_ok:
  assumes "device_memory env dev is_dev" "a \<noteq> 0"
  shows "\<exists>s'. cudaMemcpyAsyncHtod env dst a n st s = Ok 0 s' \<and> memories dev s' = copy_spec HostToDevice dst a (unat n) (memories dev s)"
  using performed [OF assms(1), of "R_cudaMemcpyAsyncHtod dst (mem_load (process_memory s) a (unat n)) st" s] assms(2)
  by (auto simp: cudaMemcpyAsyncHtod_def memories_def async_result_def)

lemma dtoh_ok:
  assumes "device_memory env dev is_dev" "dst \<noteq> 0"
  shows "\<exists>s'. cudaMemcpyAsyncDtoh env dst a n st s = Ok 0 s' \<and> memories dev s' = copy_spec DeviceToHost dst a (unat n) (memories dev s)"
  using performed [OF assms(1), of "R_cudaMemcpyAsyncDtoh a n st" s] assms(2)
  by (auto simp: cudaMemcpyAsyncDtoh_def memories_def)

lemma dtod_ok:
  assumes "device_memory env dev is_dev"
  shows "\<exists>s'. cudaMemcpyDtod env dst a n s = Ok 0 s' \<and> memories dev s' = copy_spec DeviceToDevice dst a (unat n) (memories dev s)"
    and "\<exists>s'. cudaMemcpyAsyncDtod env dst a n st s = Ok 0 s' \<and> memories dev s' = copy_spec DeviceToDevice dst a (unat n) (memories dev s)"
  using performed [OF assms, of "R_cudaMemcpyDtod dst a n" s] performed [OF assms, of "R_cudaMemcpyAsyncDtod dst a n st" s]
  by (auto simp: cudaMemcpyDtod_def cudaMemcpyAsyncDtod_def memories_def async_result_def)

lemma host_copy_ok:
  assumes "copy_ok HostToHost dst a n"
  shows "\<exists>s'. copy_nonoverlapping a dst n s = Ok () s' \<and> memories dev s' = copy_spec HostToHost dst a n (memories dev s)"
  using assms by (auto simp: copy_nonoverlapping_def memories_def)

section \<open>Properties\<close>

text \<open>
  C30. The two ways in which the server copies between the channel and the device, directly for the contiguous
  parts of the buffer, however it is divided, or by way of a slice, on a stream or not. If no copy fails both
  store the same bytes at the same place, and both read the same bytes. They differ when a copy fails: the
  slice's copy returns the code of the runtime to the client, while the direct one never returns a code but fails its
  assertion at the first part whose copy fails, when exactly the parts before it have been copied.
\<close>

theorem direct_and_staged_copies:
  assumes sound: "copies_sound api dev" and "length (concat parts) = unat cnt" and "sum_list lens = unat cnt"
    and h: "h = \<lparr>range_at = addr, range_len = cnt, range_stream = stream\<rparr>"
  shows "(case direct_htod api addr cnt stream parts g of
      Ok c g1 \<Rightarrow> c = 0 \<and> dev g1 = mem_store (dev g) addr (concat parts)
    | Abort m \<Rightarrow> \<exists>k<length parts. \<exists>h1 g1. Htod_writes api (take k parts) h g = Ok h1 g1 \<and>
        dev g1 = mem_store (dev g) addr (concat (take k parts)) \<and> fst (part_htod api (parts ! k) h1 g1) \<noteq> 0
    | _ \<Rightarrow> False) \<and>
   (\<exists>c g2. staged_htod api addr stream (concat parts) g = Ok c g2 \<and> (c = 0 \<longrightarrow> dev g2 = mem_store (dev g) addr (concat parts))) \<and>
   (case direct_dtoh api addr cnt stream lens g of
      Ok (c, bs) g3 \<Rightarrow> c = 0 \<and> bs = mem_load (dev g) addr (unat cnt) \<and> dev g3 = dev g
    | Abort m \<Rightarrow> \<exists>k<length lens. \<exists>bs h1 g1. Dtoh_reads api (take k lens) h g = Ok (bs, h1) g1 \<and>
        bs = mem_load (dev g) addr (sum_list (take k lens)) \<and> fst (fst (part_dtoh api (lens ! k) h1 g1)) \<noteq> 0
    | _ \<Rightarrow> False) \<and>
   (\<exists>c bs g4. staged_dtoh api addr cnt stream g = Ok (c, bs) g4 \<and> (c = 0 \<longrightarrow> bs = mem_load (dev g) addr (unat cnt) \<and> dev g4 = dev g))"
proof (intro conjI)
  have len: "length (concat parts) \<le> 2 ^ 64" using assms(2) unsigned_less [of cnt, where 'a = nat] by simp
  have part: "length (concat (take k parts)) \<le> 2 ^ 64" for k
  proof -
    have "concat parts = concat (take k parts) @ concat (drop k parts)" by (simp flip: concat_append)
    then show ?thesis using len by simp
  qed
  show "case direct_htod api addr cnt stream parts g of
      Ok c g1 \<Rightarrow> c = 0 \<and> dev g1 = mem_store (dev g) addr (concat parts)
    | Abort m \<Rightarrow> \<exists>k<length parts. \<exists>h1 g1. Htod_writes api (take k parts) h g = Ok h1 g1 \<and>
        dev g1 = mem_store (dev g) addr (concat (take k parts)) \<and> fst (part_htod api (parts ! k) h1 g1) \<noteq> 0
    | _ \<Rightarrow> False"
  proof (cases "Htod_writes api parts h g")
    case (Abort m)
    then obtain k h1 g1 where k: "k < length parts" "Htod_writes api (take k parts) h g = Ok h1 g1"
      "fst (part_htod api (parts ! k) h1 g1) \<noteq> 0" using Htod_writes_outcome [OF sound len, where h = h and g = g] by auto
    then have "dev g1 = mem_store (dev g) addr (concat (take k parts))"
      using Htod_writes_outcome [OF sound part [of k], where h = h and g = g] h by simp
    then show ?thesis using k Abort by (auto simp: direct_htod_def h)
  qed (use Htod_writes_outcome [OF sound len, where h = h and g = g] in \<open>auto simp: direct_htod_def h\<close>)
  show "case direct_dtoh api addr cnt stream lens g of
      Ok (c, bs) g3 \<Rightarrow> c = 0 \<and> bs = mem_load (dev g) addr (unat cnt) \<and> dev g3 = dev g
    | Abort m \<Rightarrow> \<exists>k<length lens. \<exists>bs h1 g1. Dtoh_reads api (take k lens) h g = Ok (bs, h1) g1 \<and>
        bs = mem_load (dev g) addr (sum_list (take k lens)) \<and> fst (fst (part_dtoh api (lens ! k) h1 g1)) \<noteq> 0
    | _ \<Rightarrow> False"
  proof (cases "Dtoh_reads api lens h g")
    case (Abort m)
    then obtain k bs h1 g1 where k: "k < length lens" "Dtoh_reads api (take k lens) h g = Ok (bs, h1) g1"
      "fst (fst (part_dtoh api (lens ! k) h1 g1)) \<noteq> 0" using Dtoh_reads_outcome [OF sound, where ns = lens and h = h and g = g] by auto
    then have "bs = mem_load (dev g) addr (sum_list (take k lens))"
      using Dtoh_reads_outcome [OF sound, where ns = "take k lens" and h = h and g = g] h by simp
    then show ?thesis using k Abort by (auto simp: direct_dtoh_def h)
  qed (use Dtoh_reads_outcome [OF sound, where ns = lens and h = h and g = g] assms(3) in \<open>auto simp: direct_dtoh_def h\<close>)
  show "\<exists>c g2. staged_htod api addr stream (concat parts) g = Ok c g2 \<and> (c = 0 \<longrightarrow> dev g2 = mem_store (dev g) addr (concat parts))"
    by (cases "async_htod api addr (concat parts) stream g") (use copies_soundD(1) [OF sound] in \<open>auto simp: staged_htod_def\<close>)
  show "\<exists>c bs g4. staged_dtoh api addr cnt stream g = Ok (c, bs) g4 \<and> (c = 0 \<longrightarrow> bs = mem_load (dev g) addr (unat cnt) \<and> dev g4 = dev g)"
    by (cases "async_dtoh api addr (unat cnt) stream g") (use copies_soundD(2) [OF sound] in \<open>auto simp: staged_dtoh_def\<close>)
qed

text \<open>
  C31. A copy moves the bytes between the memories that it names. For each kind, and for the default kind
  with the kind that follows from the two pointers, both functions return success, and the memory of
  the program and the memory of the device are changed as by a copy on the pair of them.
\<close>

theorem memcpy_moves_bytes:
  assumes dev: "device_memory env dev is_dev"
    and kind': "kind' = (if kind = MemcpyDefault then kind_of (is_dev dst) (is_dev a) else kind)"
    and ok: "copy_ok kind' dst a (unat cnt)"
  shows "\<exists>s1 s2. hijack_cudaMemcpy env dst a cnt kind s = Ok 0 s1 \<and> memories dev s1 = copy_spec kind' dst a (unat cnt) (memories dev s) \<and>
    hijack_cudaMemcpyAsync env dst a cnt kind stream s = Ok 0 s2 \<and> memories dev s2 = copy_spec kind' dst a (unat cnt) (memories dev s)"
proof -
  obtain t where t: "resolve_kind env dst a kind s = Ok kind' t" "memories dev t = memories dev s"
    using resolve_kind_ok [OF dev] kind' by blast
  show ?thesis
  proof (cases kind')
    case HostToHost
    obtain r where r: "perform env (R_cudaStreamSynchronize stream) t = Ok r (t\<lparr>calls := calls t @ [(R_cudaStreamSynchronize stream, r)]\<rparr>)"
        "memories dev (t\<lparr>calls := calls t @ [(R_cudaStreamSynchronize stream, r)]\<rparr>) = memories dev t"
      using performed [OF dev, of "R_cudaStreamSynchronize stream" t] by (auto simp: memories_def)
    show ?thesis
      using host_copy_ok [OF ok [unfolded HostToHost], of t dev] r HostToHost t
        host_copy_ok [OF ok [unfolded HostToHost], of "t\<lparr>calls := calls t @ [(R_cudaStreamSynchronize stream, r)]\<rparr>" dev]
      by (fastforce simp: hijack_cudaMemcpy_def hijack_cudaMemcpyAsync_def)
  next
    case HostToDevice
    then show ?thesis using ok t htod_ok [OF dev, of a dst cnt 0 t] htod_ok [OF dev, of a dst cnt stream t]
      by (auto simp: hijack_cudaMemcpy_def hijack_cudaMemcpyAsync_def)
  next
    case DeviceToHost
    then show ?thesis using ok t dtoh_ok [OF dev, of dst a cnt 0 t] dtoh_ok [OF dev, of dst a cnt stream t]
      by (auto simp: hijack_cudaMemcpy_def hijack_cudaMemcpyAsync_def)
  next
    case DeviceToDevice
    then show ?thesis using ok t dtod_ok(1) [OF dev, of dst a cnt t] dtod_ok(2) [OF dev, of dst a cnt stream t] by (auto simp: hijack_cudaMemcpy_def hijack_cudaMemcpyAsync_def)
  qed (use ok in simp)
qed

text \<open>
  A device that is its memory and has an address from which on no copy succeeds, and a server that answers on the
  memory that the calls have led to.
\<close>

definition mapped :: "u64 \<Rightarrow> u64 \<Rightarrow> nat \<Rightarrow> bool" where
  "mapped end_addr a n \<longleftrightarrow> unat a + n \<le> unat end_addr"

definition small_api :: "u64 \<Rightarrow> memory copy_api" where
  "small_api end_addr = \<lparr>
     memcpyHtod = (\<lambda>d bs m. if mapped end_addr d (length bs) then (0, mem_store m d bs) else (1, m)),
     memcpyDtoh = (\<lambda>a n m. if mapped end_addr a n then ((0, mem_load m a n), m) else ((1, []), m)),
     memcpyAsyncHtod = (\<lambda>d bs st m. if mapped end_addr d (length bs) then (0, mem_store m d bs) else (1, m)),
     memcpyAsyncDtoh = (\<lambda>a n st m. if mapped end_addr a n then ((0, mem_load m a n), m) else ((1, []), m)),
     synchronizeStream = (\<lambda>st m. (0, m))\<rparr>"

lemma small_api_sound: "copies_sound (small_api end_addr) (\<lambda>m. m)"
  by (auto simp: copies_sound_def small_api_def async_htod_def async_dtoh_def split: if_splits)

theorem direct_and_staged_copies_witness:
  "(\<exists>m. direct_htod (small_api 8192) 4096 5 7 [[1, 2, 3], [4, 5]] (\<lambda>_. 0) = Ok 0 m \<and> m = mem_store (\<lambda>_. 0) 4096 [1, 2, 3, 4, 5]) \<and>
   direct_htod (small_api 4099) 4096 5 7 [[1, 2, 3], [4, 5]] (\<lambda>_. 0) = Abort ''assertion failed: status == cudaError_t::cudaSuccess'' \<and>
   staged_htod (small_api 4099) 4096 7 [1, 2, 3, 4, 5] (\<lambda>_. 0) = Ok 1 (\<lambda>_. 0)"
proof -
  have len: "length (concat [[1, 2, 3], [4, 5 :: u8]]) = unat (5 :: u64)" "sum_list [5] = unat (5 :: u64)" by simp_all
  have "\<exists>m. direct_htod (small_api 8192) 4096 5 7 [[1, 2, 3], [4, 5]] (\<lambda>_. 0) = Ok 0 m"
    by (simp add: direct_htod_def Htod_write_def part_htod_def async_htod_def small_api_def mapped_def advance_def)
  then show ?thesis
    using direct_and_staged_copies [OF small_api_sound [of 8192] len refl, where addr = 4096 and stream = 7 and g = "\<lambda>_. 0"]
    by (auto simp: direct_htod_def staged_htod_def Htod_write_def part_htod_def async_htod_def small_api_def mapped_def advance_def)
qed

fun call_memory :: "remote_call \<Rightarrow> memory \<Rightarrow> memory" where
  "call_memory (R_cudaMemcpyAsyncHtod d bs st) m = mem_store m d bs"
| "call_memory (R_cudaMemcpyDtod d a n) m = mem_store m d (mem_load m a (unat n))"
| "call_memory (R_cudaMemcpyAsyncDtod d a n st) m = mem_store m d (mem_load m a (unat n))"
| "call_memory _ m = m"

definition history_memory :: "(remote_call \<times> remote_reply) list \<Rightarrow> memory" where
  "history_memory h = fold (call_memory \<circ> fst) h (\<lambda>_. 0)"

definition high_half :: "u64 \<Rightarrow> bool" where
  "high_half p \<longleftrightarrow> 65536 \<le> p"

definition copying_env :: "(u8 list, unit, unit) client_env" where
  "copying_env = example_env\<lparr>remote := (\<lambda>h c.
     \<lparr>code = 0, output_value = (case c of R_cudaPointerGetAttributes p \<Rightarrow> if high_half p then 2 else 0 | _ \<Rightarrow> 0),
      output_bytes = (case c of R_cudaMemcpyAsyncDtoh a n st \<Rightarrow> mem_load (history_memory h) a (unat n) | _ \<Rightarrow> [])\<rparr>)\<rparr>"

lemma copying_env_ok: "device_memory copying_env history_memory high_half"
proof -
  have "call_answered high_half c (remote copying_env h c) (history_memory h) (history_memory (h @ [(c, remote copying_env h c)]))" for h c
    by (cases c) (simp_all add: copying_env_def history_memory_def)
  then show ?thesis by (simp add: device_memory_def)
qed

theorem memcpy_moves_bytes_witness:
  "\<exists>s. hijack_cudaMemcpy copying_env 65536 16 4 MemcpyDefault (client_start (mem_store (\<lambda>_. 0) 16 [1, 2, 3, 4])) = Ok 0 s \<and>
    memories history_memory s =
      (mem_store (\<lambda>_. 0) 16 [1, 2, 3, 4], mem_store (\<lambda>_. 0) 65536 (mem_load (mem_store (\<lambda>_. 0) 16 [1, 2, 3, 4]) 16 4))"
proof -
  have kind: "HostToDevice = (if MemcpyDefault = MemcpyDefault then kind_of (high_half 65536) (high_half 16) else MemcpyDefault)"
    by (simp add: high_half_def)
  have "copy_ok HostToDevice 65536 16 (unat (4 :: u64))" by simp
  from memcpy_moves_bytes [OF copying_env_ok kind this, of "client_start (mem_store (\<lambda>_. 0) 16 [1, 2, 3, 4])"]
  show ?thesis by (auto simp: memories_def client_start_def history_memory_def)
qed

end
