(* ===== verification/Disk_Checkpoint.thy ===== *)
theory Disk_Checkpoint
  imports Attach Daemon
begin

text \<open>
  A checkpoint in files (\<open>server/src/phos/mod.rs\<close>, \<open>server/src/phos/memory/ckpt.rs\<close>): every thread
  writes its handles to a directory of its own, the process writes its kernels to one file, the
  description of its memory to another and every segment of the memory to one more. The names of
  files and directories are made of the number of the client process, the number of the thread and the
  address of the segment; the daemon reads the numbers back from the names. The kernels, the handles
  and the device are those of \<open>Attach\<close>.
\<close>

section \<open>Printed numbers\<close>

text \<open>The formats \<open>{}\<close> of \<open>u32\<close> and \<open>i32\<close> and \<open>{:x}\<close> of \<open>usize\<close>.\<close>

definition digit_char :: "nat \<Rightarrow> char" where
  "digit_char k = char_of (if k < 10 then 48 + k else 87 + k)"

function show_radix :: "nat \<Rightarrow> nat \<Rightarrow> string" where
  "show_radix b n =
     (if b < 2 \<or> n < b then [digit_char n] else show_radix b (n div b) @ [digit_char (n mod b)])"
  by pat_completeness auto
termination by (relation "measure snd") auto

declare show_radix.simps [simp del]

definition show_u32 :: "u32 \<Rightarrow> string" where
  "show_u32 n = show_radix 10 (unat n)"

definition show_i32 :: "int \<Rightarrow> string" where
  "show_i32 i = (if i < 0 then CHR ''-'' # show_radix 10 (nat (- i)) else show_radix 10 (nat i))"

definition show_hex :: "u64 \<Rightarrow> string" where
  "show_hex n = show_radix 16 (unat n)"

section \<open>Paths and files\<close>

definition push :: "string \<Rightarrow> string \<Rightarrow> string" where
  "push path name = path @ CHR ''/'' # name"

definition set_file_name :: "string \<Rightarrow> string \<Rightarrow> string" where
  "set_file_name path name = rev (dropWhile (\<lambda>c. c \<noteq> CHR ''/'') (rev path)) @ name"

definition parent :: "string \<Rightarrow> string" where
  "parent path = rev (drop 1 (dropWhile (\<lambda>c. c \<noteq> CHR ''/'') (rev path)))"

text \<open>The files with their contents, and the directories.\<close>

record disk =
  files_of :: "string \<Rightarrow> u8 list option"
  dirs_of :: "string list"

function ancestors :: "string \<Rightarrow> string list" where
  "ancestors path = path # (if CHR ''/'' \<in> set path then ancestors (parent path) else [])"
  by pat_completeness auto
termination
proof (relation "measure length")
  fix path :: string
  assume "CHR ''/'' \<in> set path"
  then have "dropWhile (\<lambda>c. c \<noteq> CHR ''/'') (rev path) \<noteq> []" by (simp add: dropWhile_eq_Nil_conv)
  moreover have "length (dropWhile (\<lambda>c. c \<noteq> CHR ''/'') (rev path)) \<le> length path"
    using length_dropWhile_le [of _ "rev path"] by simp
  ultimately have "length (dropWhile (\<lambda>c. c \<noteq> CHR ''/'') (rev path)) - 1 < length path"
    by (cases "dropWhile (\<lambda>c. c \<noteq> CHR ''/'') (rev path)") auto
  then show "(parent path, path) \<in> measure length" by (simp add: parent_def)
qed simp

definition create_dir_all :: "string \<Rightarrow> disk \<Rightarrow> disk" where
  "create_dir_all path d = d\<lparr>dirs_of := ancestors path @ dirs_of d\<rparr>"

text \<open>A file is created in a directory that exists; all callers unwrap the results.\<close>

definition disk_write :: "string \<Rightarrow> u8 list \<Rightarrow> disk \<Rightarrow> (disk, unit) exec" where
  "disk_write path bs d =
     (if parent path \<notin> set (dirs_of d) \<or> path \<in> set (dirs_of d) then Abort ''called Result::unwrap() on an Err value''
      else Ok (d\<lparr>files_of := (files_of d)(path := Some bs)\<rparr>) ())"

definition disk_read :: "string \<Rightarrow> disk \<Rightarrow> (u8 list, unit) exec" where
  "disk_read path d =
     (case files_of d path of None \<Rightarrow> Abort ''called Result::unwrap() on an Err value'' | Some bs \<Rightarrow> Ok bs ())"

section \<open>The parts of a checkpoint\<close>

definition get_subdir :: "string \<Rightarrow> u32 \<Rightarrow> u32 \<Rightarrow> string" where
  "get_subdir ckpt_dir pid i = ckpt_dir @ ''/'' @ show_u32 pid @ ''_'' @ show_i32 (sint i)"

definition dump_handles_to :: "string \<Rightarrow> u32 \<Rightarrow> u32 \<Rightarrow> 'w thread \<Rightarrow> disk \<Rightarrow> (disk, unit) exec" where
  "dump_handles_to ckpt_dir pid i th d =
     (let path = get_subdir ckpt_dir pid i; d = create_dir_all path d; path = push path ''handles.bin''
      in exec_bind (disk_write path (serialize (resources (server_state th))) d) (\<lambda>d _.
           let path = set_file_name path ''pin_memory.bin''
           in disk_write path [if is_pinned th then 1 else 0] d))"

text \<open>\<open>pin\<close> are \<open>initialize_context\<close> and \<open>pin_memory\<close>.\<close>

definition begin_handle_restore_from :: "('w \<Rightarrow> 'w option) \<Rightarrow> string \<Rightarrow> u32 \<Rightarrow> u32 \<Rightarrow> disk \<Rightarrow> 'w thread \<Rightarrow> (unit, 'w thread) exec" where
  "begin_handle_restore_from pin ckpt_dir pid i d th =
     (let path = push (get_subdir ckpt_dir pid i) ''pin_memory.bin''
      in exec_bind (reading (disk_read path d) th) (\<lambda>content th.
         exec_bind
           (if content = [0] then Ok () th
            else if content = [1]
            then (case pin (world (server_state th)) of
                    None \<Rightarrow> Abort ''assertion failed''
                  | Some w \<Rightarrow> Ok () (th\<lparr>server_state := (server_state th)\<lparr>world := w\<rparr>, is_pinned := True\<rparr>))
            else Abort ''invalid pin_memory.bin content'')
           (\<lambda>_ th.
              let path = set_file_name path ''handles.bin''
              in exec_bind (reading (disk_read path d) th) (\<lambda>image th.
                   Ok () (th\<lparr>channels := Some (sender (server_state th), receiver (server_state th)),
                     server_state := (server_state th)\<lparr>receiver := RRestoreVec (RestoreVec_new image), sender := SBlackHole\<rparr>\<rparr>)))))"

text \<open>The loop over the segments in \<open>memory::dump\<close>, with a synchronous copy, and the function.\<close>

fun dump_segment_files :: "'w copies \<Rightarrow> string \<Rightarrow> segment_meta list \<Rightarrow> disk \<Rightarrow> 'w \<Rightarrow> (disk, 'w) exec" where
  "dump_segment_files cp path [] d w = Ok d w"
| "dump_segment_files cp path (g # gs) d w =
     (let path = set_file_name path (show_hex (seg_ptr g) @ ''.bin'');
          ((r, bs), w) = deviceToHost cp (seg_ptr g) (seg_size g) w
      in if r \<noteq> 0 then Abort ''assertion failed: result == Default::default()''
         else exec_bind (reading (disk_write path bs d) w) (\<lambda>d. dump_segment_files cp path gs d))"

definition memory_dump :: "'w driver \<Rightarrow> 'w copies \<Rightarrow> (checkpoint \<Rightarrow> u8 list) \<Rightarrow> string \<Rightarrow> disk \<Rightarrow> dmm \<Rightarrow> 'w \<Rightarrow>
    (disk, dmm \<times> 'w) exec" where
  "memory_dump dr cp encode path d m w =
     (let d = create_dir_all path d; path = push path ''_''
      in case checkpoint_meta dr (m, w) of
           None \<Rightarrow> Abort ''panic in the memory manager''
         | Some (Inr e, m, w) \<Rightarrow> Abort ''called Result::unwrap() on an Err value''
         | Some (Inl meta, m, w) \<Rightarrow>
             (let path = set_file_name path ''meta.bin''
              in case exec_bind (reading (disk_write path (encode meta) d) w) (\<lambda>d. dump_segment_files cp path (ck_segments meta) d) of
                   Ok d w \<Rightarrow> Ok d (m, w)
                 | Exit c w \<Rightarrow> Exit c (m, w)
                 | Abort msg \<Rightarrow> Abort msg
                 | Undef msg \<Rightarrow> Undef msg))"

text \<open>\<open>Mmap::new\<close>: the file must have the length of the segment; no bytes cannot be mapped.\<close>

definition Mmap_new :: "string \<Rightarrow> u64 \<Rightarrow> disk \<Rightarrow> (u8 list, unit) exec" where
  "Mmap_new path len d =
     exec_bind (disk_read path d) (\<lambda>bs _.
       if length bs \<noteq> unat len then Abort ''assertion failed: file.metadata()?.len() == len''
       else if len = 0 then Abort ''called Result::unwrap() on an Err value''
       else Ok bs ())"

fun restore_segment_files :: "'w copies \<Rightarrow> string \<Rightarrow> disk \<Rightarrow> segment_meta list \<Rightarrow> 'w \<Rightarrow> (unit, 'w) exec" where
  "restore_segment_files cp path d [] w = Ok () w"
| "restore_segment_files cp path d (g # gs) w =
     (let path = set_file_name path (show_hex (seg_ptr g) @ ''.bin'')
      in exec_bind (reading (Mmap_new path (seg_size g) d) w) (\<lambda>bs w.
           let (r, w) = hostToDevice cp (seg_ptr g) bs w
           in if r \<noteq> 0 then Abort ''assertion failed: result == Default::default()''
              else restore_segment_files cp path d gs w))"

text \<open>
  The copies are asynchronous; \<open>launchHostFunc\<close> enters the call that unmaps the files when all of
  them have been made.
\<close>

definition memory_restore :: "'w driver \<Rightarrow> 'w copies \<Rightarrow> ('w \<Rightarrow> int \<times> 'w) \<Rightarrow> (u8 list \<Rightarrow> checkpoint option) \<Rightarrow> string \<Rightarrow>
    disk \<Rightarrow> dmm \<Rightarrow> 'w \<Rightarrow> (unit, dmm \<times> 'w) exec" where
  "memory_restore dr cp launchHostFunc decode path d m w =
     (let path = set_file_name (push path ''_'') ''meta.bin''
      in exec_bind (reading (disk_read path d) (m, w)) (\<lambda>bs (m, w).
         case decode bs of
           None \<Rightarrow> Abort ''called Result::unwrap() on an Err value''
         | Some meta \<Rightarrow>
             (case restore dr meta (m, w) of
                None \<Rightarrow> Abort ''panic in the memory manager''
              | Some (Inr e, m, w) \<Rightarrow> Abort ''assertion failed: manager.restore(&meta) == Default::default()''
              | Some (Inl _, m, w) \<Rightarrow>
                  (case restore_segment_files cp path d (ck_segments meta) w of
                     Ok _ w \<Rightarrow>
                       (let (r, w) = launchHostFunc w
                        in if r \<noteq> 0 then Abort ''assertion failed: result == Default::default()'' else Ok () (m, w))
                   | Exit c w \<Rightarrow> Exit c (m, w)
                   | Abort msg \<Rightarrow> Abort msg
                   | Undef msg \<Rightarrow> Undef msg))))"

text \<open>The parts of \<open>block_and_dump_process_state\<close> and \<open>restore_process_state\<close> that concern files.\<close>

definition kernel_path :: "string \<Rightarrow> u32 \<Rightarrow> string" where
  "kernel_path ckpt_dir pid = ckpt_dir @ ''/'' @ show_u32 pid @ ''_kernel.bin''"

definition memory_path :: "string \<Rightarrow> u32 \<Rightarrow> string" where
  "memory_path ckpt_dir pid = ckpt_dir @ ''/'' @ show_u32 pid @ ''_mem''"

definition dump_process_state :: "'v runtime \<Rightarrow> string \<Rightarrow> u32 \<Rightarrow> disk \<Rightarrow> 'v process \<Rightarrow> (disk, 'v process) exec" where
  "dump_process_state rt ckpt_dir pid d p =
     (case kernel_dump (kcodec rt) (kernels p) of
        None \<Rightarrow> Abort ''called Option::unwrap() on a None value''
      | Some ks \<Rightarrow>
          exec_bind (reading (disk_write (kernel_path ckpt_dir pid) ks d) p) (\<lambda>d.
            on_memory rt (memory_dump (drv rt) (cps rt) (encode_meta rt) (memory_path ckpt_dir pid) d)))"

definition restore_process_state :: "'v runtime \<Rightarrow> ('v \<Rightarrow> int \<times> 'v) \<Rightarrow> string \<Rightarrow> u32 \<Rightarrow> disk \<Rightarrow> 'v process \<Rightarrow>
    (unit, 'v process) exec" where
  "restore_process_state rt launchHostFunc ckpt_dir pid d p =
     exec_bind (reading (disk_read (kernel_path ckpt_dir pid) d) p) (\<lambda>ks p.
     exec_bind (on_kernels (kernel_restore (mapi rt) (kcodec rt) ks) p) (\<lambda>_.
       on_memory rt (memory_restore (drv rt) (cps rt) launchHostFunc (decode_meta rt) (memory_path ckpt_dir pid) d)))"

text \<open>
  Between the two meetings at the barrier the threads and the control thread write their parts,
  in any order.
\<close>

datatype 'v dump_act = Dump_Handles u32 "'v process thread" | Dump_Process

fun dump_one :: "'v runtime \<Rightarrow> string \<Rightarrow> u32 \<Rightarrow> 'v dump_act \<Rightarrow> disk \<Rightarrow> 'v process \<Rightarrow> (disk, 'v process) exec" where
  "dump_one rt ckpt_dir pid (Dump_Handles i th) d p = reading (dump_handles_to ckpt_dir pid i th d) p"
| "dump_one rt ckpt_dir pid Dump_Process d p = dump_process_state rt ckpt_dir pid d p"

fun dump_all :: "'v runtime \<Rightarrow> string \<Rightarrow> u32 \<Rightarrow> 'v dump_act list \<Rightarrow> disk \<Rightarrow> 'v process \<Rightarrow> (disk, 'v process) exec" where
  "dump_all rt ckpt_dir pid [] d p = Ok d p"
| "dump_all rt ckpt_dir pid (a # acts) d p =
     exec_bind (dump_one rt ckpt_dir pid a d p) (\<lambda>d. dump_all rt ckpt_dir pid acts d)"

section \<open>Names determine numbers\<close>

definition char_digit :: "char \<Rightarrow> nat" where
  "char_digit c = (let n = of_char c in if n < 58 then n - 48 else n - 87)"

definition radix_value :: "nat \<Rightarrow> string \<Rightarrow> nat" where
  "radix_value b s = foldl (\<lambda>n c. n * b + char_digit c) 0 s"

lemma of_digit_char: "k < 36 \<Longrightarrow> (of_char (digit_char k) :: nat) = (if k < 10 then 48 + k else 87 + k)"
  by (simp add: digit_char_def)

lemma digit_digit_char [simp]: "k < 10 \<Longrightarrow> digit (digit_char k) = Some (int k)"
  by (simp add: digit_def of_digit_char)

lemma char_digit_char [simp]: "k < 36 \<Longrightarrow> char_digit (digit_char k) = k"
  by (simp add: char_digit_def of_digit_char)

lemma radix_value_snoc: "radix_value b (s @ [c]) = radix_value b s * b + char_digit c"
  by (simp add: radix_value_def)

lemma radix_value_show: "2 \<le> b \<Longrightarrow> b \<le> 16 \<Longrightarrow> radix_value b (show_radix b n) = n"
proof (induction b n rule: show_radix.induct)
  case (1 b n)
  have small: "n mod b < 36" using 1(2,3) mod_less_divisor [of b n] by linarith
  show ?case
  proof (cases "n < b")
    case True
    then show ?thesis using 1(2,3) by (simp add: show_radix.simps [of b n] radix_value_def)
  next
    case False
    then have "radix_value b (show_radix b (n div b)) = n div b" using 1 by simp
    then show ?thesis
      using False 1(2,3) small by (simp add: show_radix.simps [of b n] radix_value_snoc)
  qed
qed

lemma show_radix_inj: "2 \<le> b \<Longrightarrow> b \<le> 16 \<Longrightarrow> show_radix b m = show_radix b n \<longleftrightarrow> m = n"
  by (metis radix_value_show)

lemma show_radix_chars:
  "2 \<le> b \<Longrightarrow> b \<le> 16 \<Longrightarrow> c \<in> set (show_radix b n) \<Longrightarrow> (of_char c :: nat) \<in> {48..57} \<union> {97..102}"
proof (induction b n rule: show_radix.induct)
  case (1 b n)
  have digit: "(of_char (digit_char k) :: nat) \<in> {48..57} \<union> {97..102}" if "k < 16" for k
    using that by (simp add: of_digit_char)
  have small: "n mod b < 16" using 1(2,3) mod_less_divisor [of b n] by linarith
  show ?case
  proof (cases "n < b")
    case True
    then show ?thesis using 1(2-4) digit [of n] by (simp add: show_radix.simps [of b n])
  next
    case False
    then show ?thesis
      using 1 digit [of "n mod b"] small by (auto simp: show_radix.simps [of b n])
  qed
qed

lemma show_radix_not_Nil [simp]: "show_radix b n \<noteq> []"
  by (subst show_radix.simps) simp

text \<open>Printed numbers have none of the characters that separate the parts of a name.\<close>

lemma show_radix_no:
  assumes "2 \<le> b" "b \<le> 16" "(of_char c :: nat) \<notin> {48..57} \<union> {97..102}"
  shows "c \<notin> set (show_radix b n)"
  using assms show_radix_chars by blast

lemma show_no_separator [simp]:
  "CHR ''_'' \<notin> set (show_u32 pid)" "CHR ''/'' \<notin> set (show_u32 pid)"
  "CHR ''/'' \<notin> set (show_i32 i)" "CHR ''/'' \<notin> set (show_hex a)"
  by (auto simp: show_u32_def show_i32_def show_hex_def show_radix_no)

lemma show_inj [simp]:
  "show_u32 p = show_u32 q \<longleftrightarrow> p = q" "show_i32 i = show_i32 j \<longleftrightarrow> i = j" "show_hex a = show_hex b \<longleftrightarrow> a = b"
proof -
  have no: "show_radix 10 n \<noteq> CHR ''-'' # s" for s n
  proof
    assume "show_radix 10 n = CHR ''-'' # s"
    then have "CHR ''-'' \<in> set (show_radix 10 n)" by simp
    then show False using show_radix_no [of 10 "CHR ''-''" n] by simp
  qed
  show "show_i32 i = show_i32 j \<longleftrightarrow> i = j" using no no [symmetric] by (auto simp: show_i32_def show_radix_inj)
qed (simp_all add: show_u32_def show_hex_def show_radix_inj word_unat_eq_iff)

text \<open>What the daemon parses is what was printed.\<close>

lemma digits_append: "digits (s @ t) n = (case digits s n of None \<Rightarrow> None | Some m \<Rightarrow> digits t m)"
  by (induction s arbitrary: n) (auto split: option.splits)

lemma digits_show: "digits (show_radix 10 n) 0 = Some (int n)"
proof (induction "10 :: nat" n rule: show_radix.induct)
  case (1 n)
  have "10 * int (n div 10) + int (n mod 10) = int n" by (metis of_nat_add of_nat_mult of_nat_numeral mult_div_mod_eq)
  then show ?case using 1 by (subst show_radix.simps) (auto simp: digits_append)
qed

lemma natural_show [simp]: "natural (show_radix 10 n) = Some (int n)"
  by (simp add: natural_def digits_show)

lemma show_radix_first: "\<exists>c cs. show_radix 10 n = c # cs \<and> c \<noteq> CHR ''+'' \<and> c \<noteq> CHR ''-''"
  using show_radix_no [of 10 "CHR ''+''" n] show_radix_no [of 10 "CHR ''-''" n]
  by (cases "show_radix 10 n") auto

lemma parse_u32_show [simp]: "parse_u32 (show_u32 p) = Some p"
proof -
  have le: "int (unat p) \<le> 4294967295" using unsigned_less [of p, where 'a = int] by simp
  obtain c cs where "show_radix 10 (unat p) = c # cs" "c \<noteq> CHR ''+''" using show_radix_first [of "unat p"] by blast
  then have "(case show_radix 10 (unat p) of [] \<Rightarrow> show_radix 10 (unat p)
      | c # cs \<Rightarrow> if c = CHR ''+'' then cs else show_radix 10 (unat p)) = show_radix 10 (unat p)" by simp
  then show ?thesis using le by (simp add: parse_u32_def show_u32_def in_range_def)
qed

lemma parse_i32_show [simp]: "-2147483648 \<le> i \<Longrightarrow> i \<le> 2147483647 \<Longrightarrow> parse_i32 (show_i32 i) = Some i"
proof (cases "i < 0")
  case False
  assume i: "-2147483648 \<le> i" "i \<le> 2147483647"
  obtain c cs where c: "show_radix 10 (nat i) = c # cs" "c \<noteq> CHR ''+''" "c \<noteq> CHR ''-''" using show_radix_first by blast
  then have "natural (c # cs) = Some i" using natural_show [of "nat i"] False by simp
  then show ?thesis using False i c by (simp add: parse_i32_def show_i32_def in_range_def)
qed (simp add: parse_i32_def show_i32_def in_range_def)

text \<open>Paths that are built by pushing and replacing names.\<close>

lemma dropWhile_name: "CHR ''/'' \<notin> set name \<Longrightarrow>
    dropWhile (\<lambda>c. c \<noteq> CHR ''/'') (rev (path @ CHR ''/'' # name)) = CHR ''/'' # rev path"
  using dropWhile_append2 [of "rev name" "\<lambda>c. c \<noteq> CHR ''/''" "CHR ''/'' # rev path"] by fastforce

lemma set_file_name_push [simp]:
  "CHR ''/'' \<notin> set name \<Longrightarrow> set_file_name (push path name) name' = push path name'"
  by (simp add: set_file_name_def push_def dropWhile_name del: rev_append)

lemma parent_push [simp]: "CHR ''/'' \<notin> set name \<Longrightarrow> parent (push path name) = path"
  by (simp add: parent_def push_def dropWhile_name del: rev_append)

lemma push_inj: "CHR ''/'' \<notin> set f \<Longrightarrow> CHR ''/'' \<notin> set g \<Longrightarrow> push p f = push q g \<longleftrightarrow> p = q \<and> f = g"
  by (metis append_same_eq list.inject parent_push push_def same_append_eq)

lemma get_subdir_inj [simp]: "get_subdir dir pid i = get_subdir dir pid j \<longleftrightarrow> i = j"
  by (auto simp: get_subdir_def intro: signed_word_eqI)

lemma show_i32_first: "\<exists>c cs. show_i32 i = c # cs \<and> c \<noteq> CHR ''m''"
proof (cases "i < 0")
  case False
  obtain c cs where c: "show_radix 10 (nat i) = c # cs" using show_radix_first by blast
  then have "c \<noteq> CHR ''m''" using show_radix_no [of 10 "CHR ''m''" "nat i"] by auto
  then show ?thesis using False c by (simp add: show_i32_def)
qed (simp add: show_i32_def)

lemma get_subdir_not_memory [simp]: "get_subdir dir pid i \<noteq> memory_path dir pid"
  using show_i32_first [of "sint i"] by (auto simp: get_subdir_def memory_path_def)

lemma kernel_path_push: "kernel_path dir pid = push dir (show_u32 pid @ ''_kernel.bin'')"
  by (simp add: kernel_path_def push_def)

section \<open>What is on the disk\<close>

text \<open>The files that a part writes.\<close>

definition thread_files :: "string \<Rightarrow> u32 \<Rightarrow> u32 \<Rightarrow> string set" where
  "thread_files dir pid i = push (get_subdir dir pid i) ` {''handles.bin'', ''pin_memory.bin''}"

definition process_files :: "string \<Rightarrow> u32 \<Rightarrow> string set" where
  "process_files dir pid = {kernel_path dir pid} \<union> push (memory_path dir pid) ` {f. CHR ''/'' \<notin> set f}"

fun act_files :: "string \<Rightarrow> u32 \<Rightarrow> 'v dump_act \<Rightarrow> string set" where
  "act_files dir pid (Dump_Handles i th) = thread_files dir pid i"
| "act_files dir pid Dump_Process = process_files dir pid"

fun act_thread :: "'v dump_act \<Rightarrow> u32 option" where
  "act_thread (Dump_Handles i th) = Some i"
| "act_thread Dump_Process = None"

lemma thread_process_apart: "thread_files dir pid i \<inter> process_files dir pid = {}"
proof -
  have "get_subdir dir pid i \<noteq> dir" by (simp add: get_subdir_def)
  then show ?thesis
    by (auto simp: thread_files_def process_files_def push_inj kernel_path_push)
qed

lemma act_files_apart: "act_thread a \<noteq> act_thread b \<Longrightarrow> act_files dir pid a \<inter> act_files dir pid b = {}"
proof -
  have "thread_files dir pid i \<inter> thread_files dir pid j = {}" if "i \<noteq> j" for i j
    using that by (auto simp: thread_files_def push_inj)
  then show "act_thread a \<noteq> act_thread b \<Longrightarrow> ?thesis"
    using thread_process_apart [of dir pid] by (cases a; cases b) auto
qed

lemma disk_write_Ok [exec_simps]:
  "disk_write path bs d = Ok d' u \<longleftrightarrow> parent path \<in> set (dirs_of d) \<and> path \<notin> set (dirs_of d) \<and>
     d' = d\<lparr>files_of := (files_of d)(path := Some bs)\<rparr>"
  by (auto simp: disk_write_def)

lemmas [exec_simps] = reading_Ok

lemma create_dir_all_files [simp]: "files_of (create_dir_all path d) = files_of d"
  by (simp add: create_dir_all_def)

lemma dump_handles_to_files:
  assumes "dump_handles_to dir pid i th d = Ok d' u"
  shows "files_of d' = (files_of d)
    (push (get_subdir dir pid i) ''handles.bin'' := Some (serialize (resources (server_state th))),
     push (get_subdir dir pid i) ''pin_memory.bin'' := Some [if is_pinned th then 1 else 0])"
  using assms by (auto simp: dump_handles_to_def exec_simps)

lemma begin_handle_restore_from_files:
  assumes "files_of d (push (get_subdir dir pid i) ''handles.bin'') = Some (serialize (resources (server_state th)))"
    and "files_of d (push (get_subdir dir pid i) ''pin_memory.bin'') = Some [if is_pinned th then 1 else 0]"
  shows "begin_handle_restore_from pin dir pid i d th0 = begin_handle_restore pin (dump_handles th) th0"
  using assms
  by (simp add: begin_handle_restore_from_def begin_handle_restore_def dump_handles_def disk_read_def reading_def
      split: option.split)

abbreviation segment_file :: "string \<Rightarrow> segment_meta \<Rightarrow> string" where
  "segment_file mp g \<equiv> push mp (show_hex (seg_ptr g) @ ''.bin'')"

lemma dump_segment_files_writes:
  assumes full: "full_copies cp" and "distinct (map seg_ptr gs)" and "CHR ''/'' \<notin> set name"
    and "dump_segment_files cp (push mp name) gs d w = Ok d' w'"
  shows "map length (read_all cp gs w) = map (unat \<circ> seg_size) gs \<and>
    list_all2 (\<lambda>g bs. files_of d' (segment_file mp g) = Some bs) gs (read_all cp gs w) \<and>
    (\<forall>q. q \<notin> segment_file mp ` set gs \<longrightarrow> files_of d' q = files_of d q)"
  using assms(2-4)
proof (induction gs arbitrary: name d w)
  case (Cons g gs)
  obtain r bs w1 where c: "deviceToHost cp (seg_ptr g) (seg_size g) w = ((r, bs), w1)" by (metis prod.collapse)
  define d1 where "d1 = d\<lparr>files_of := (files_of d)(segment_file mp g := Some bs)\<rparr>"
  have r: "r = 0" and rest: "dump_segment_files cp (segment_file mp g) gs d1 w1 = Ok d' w'"
    using Cons.prems(2,3) c by (auto simp: exec_simps d1_def split: if_splits)
  have "length bs = unat (seg_size g)" using full c r unfolding full_copies_def by blast
  moreover have "segment_file mp g \<notin> segment_file mp ` set gs" using Cons.prems(1) by (auto simp: push_inj)
  ultimately show ?case
    using Cons.IH [OF _ _ rest] Cons.prems(1) c by (auto simp: d1_def)
qed simp

lemma write_all_cases: "(\<exists>w'. write_all cp ps w = Ok () w') \<or> (\<exists>msg. write_all cp ps w = Abort msg)"
  by (induction cp ps w rule: write_all.induct) (auto split: prod.splits)

lemma restore_segment_files_reads:
  assumes "list_all2 (\<lambda>g bs. files_of d (segment_file mp g) = Some bs) gs bss"
    and "map length bss = map (unat \<circ> seg_size) gs" and "\<forall>g\<in>set gs. seg_size g \<noteq> 0" and "CHR ''/'' \<notin> set name"
  shows "restore_segment_files cp (push mp name) d gs w = write_all cp (zip gs bss) w"
  using assms
proof (induction gs bss arbitrary: name w rule: list_all2_induct)
  case (Cons g gs bs bss)
  have "Mmap_new (segment_file mp g) (seg_size g) d = Ok bs ()"
    using Cons.hyps(1) Cons.prems by (simp add: Mmap_new_def disk_read_def)
  then show ?case
    using Cons.IH Cons.prems by (simp add: reading_def split: prod.split)
qed simp

lemma segments_distinct:
  assumes "dmm_inv m" and "checkpoint_meta dr (m, w) = Some (Inl meta, m1, w1)"
  shows "distinct (map seg_ptr (ck_segments meta))"
proof -
  have "map seg_ptr (ck_segments meta) = map fst (allocations m)"
    using checkpoint_meta_Inl [OF assms(2)] dmm_inv_slots [OF assms(1)] by (auto simp: segment_of_def list_all_iff)
  moreover have "distinct (map fst (allocations m))" using assms(1) by (simp add: dmm_inv_def maps_inv_def bt_inv_def strict_sorted_iff)
  ultimately show ?thesis by simp
qed

text \<open>What a checkpoint of the memory leaves on the disk.\<close>

definition memory_on_disk :: "(checkpoint \<Rightarrow> u8 list) \<Rightarrow> string \<Rightarrow> checkpoint \<Rightarrow> u8 list list \<Rightarrow> disk \<Rightarrow> bool" where
  "memory_on_disk encode mp meta bss d \<longleftrightarrow>
     files_of d (push mp ''meta.bin'') = Some (encode meta) \<and> map length bss = map (unat \<circ> seg_size) (ck_segments meta) \<and>
     list_all2 (\<lambda>g bs. files_of d (segment_file mp g) = Some bs) (ck_segments meta) bss"

lemma segment_not_meta: "push mp ''meta.bin'' \<notin> segment_file mp ` set gs"
proof
  assume "push mp ''meta.bin'' \<in> segment_file mp ` set gs"
  then obtain g where "push mp ''meta.bin'' = segment_file mp g" by blast
  then have "''meta'' = show_hex (seg_ptr g)" by (simp add: push_inj)
  then have "CHR ''m'' \<in> set (show_hex (seg_ptr g))" by (metis list.set_intros(1))
  then show False using show_radix_no [of 16 "CHR ''m''" "unat (seg_ptr g)"] by (simp add: show_hex_def)
qed

lemma memory_dump_files:
  assumes dump: "memory_dump dr cp encode mp d m w = Ok d' (m', w')" and full: "full_copies cp" and inv: "dmm_inv m"
  shows "\<exists>meta m1 w1 bss. checkpoint_meta dr (m, w) = Some (Inl meta, m1, w1) \<and> bss = read_all cp (ck_segments meta) w1 \<and>
    memory_on_disk encode mp meta bss d' \<and> (\<forall>q. q \<notin> push mp ` {f. CHR ''/'' \<notin> set f} \<longrightarrow> files_of d' q = files_of d q)"
proof -
  let ?d1 = "\<lambda>meta. create_dir_all mp d\<lparr>files_of := (files_of d)(push mp ''meta.bin'' := Some (encode meta))\<rparr>"
  obtain meta m1 w1 w2 where ck: "checkpoint_meta dr (m, w) = Some (Inl meta, m1, w1)"
    and seg: "dump_segment_files cp (push mp ''meta.bin'') (ck_segments meta) (?d1 meta) w1 = Ok d' w2"
    using dump by (auto simp: memory_dump_def exec_simps split: option.splits sum.splits exec.splits)
  define d1 where "d1 = ?d1 meta"
  then have d1: "files_of d1 = (files_of d)(push mp ''meta.bin'' := Some (encode meta))" by simp
  note seg = seg [folded d1_def]
  define bss where bss: "bss = read_all cp (ck_segments meta) w1"
  from dump_segment_files_writes [OF full segments_distinct [OF inv ck] _ seg] bss
  have w: "map length bss = map (unat \<circ> seg_size) (ck_segments meta)"
      "list_all2 (\<lambda>g bs. files_of d' (segment_file mp g) = Some bs) (ck_segments meta) bss"
      "\<And>q. q \<notin> segment_file mp ` set (ck_segments meta) \<Longrightarrow> files_of d' q = files_of d1 q" by auto
  have "memory_on_disk encode mp meta bss d'"
    using w(1,2) w(3) [OF segment_not_meta] d1 by (simp add: memory_on_disk_def)
  moreover have "files_of d' q = files_of d q" if "q \<notin> push mp ` {f. CHR ''/'' \<notin> set f}" for q
  proof -
    have "q \<noteq> push mp ''meta.bin''" "q \<notin> segment_file mp ` set (ck_segments meta)" using that by auto
    then show ?thesis using w(3) d1 by simp
  qed
  ultimately show ?thesis using ck bss by blast
qed

lemma memory_restore_loads:
  assumes "memory_on_disk encode mp meta bss d" and "decode (encode meta) = Some meta" and "\<forall>g\<in>set (ck_segments meta). seg_size g \<noteq> 0"
  shows "memory_restore dr cp launchHostFunc decode mp d m w =
    exec_bind (load_memory dr cp meta bss m w) (\<lambda>_ (m, w).
      let (r, w) = launchHostFunc w
      in if r \<noteq> 0 then Abort ''assertion failed: result == Default::default()'' else Ok () (m, w))"
proof -
  have files: "restore_segment_files cp (push mp ''meta.bin'') d (ck_segments meta) w = write_all cp (zip (ck_segments meta) bss) w" for w
    using assms(1,3) by (intro restore_segment_files_reads) (auto simp: memory_on_disk_def)
  have read: "reading (disk_read (push mp ''meta.bin'') d) (m, w) = Ok (encode meta) (m, w)"
    using assms(1) by (simp add: memory_on_disk_def disk_read_def reading_def)
  show ?thesis
  proof (cases "restore dr meta (m, w)")
    case (Some res)
    obtain r m1 w1 where res: "res = (r, m1, w1)" by (cases res)
    show ?thesis
      using Some res assms(2) read files write_all_cases [of cp "zip (ck_segments meta) bss" w1]
      by (cases r) (auto simp: memory_restore_def load_memory_def)
  qed (use assms(2) read in \<open>simp add: memory_restore_def load_memory_def\<close>)
qed



lemma dump_process_state_files:
  assumes dump: "dump_process_state rt dir pid d p = Ok d' p'" and full: "full_copies (cps rt)"
    and inv: "\<forall>m p1. memory_inner rt p = Ok (Inl m) p1 \<longrightarrow> dmm_inv m"
  shows "\<exists>c m p1 meta m1 v1 bss. kernel_checkpoint (kernels p) = Some c \<and> memory_inner rt p = Ok (Inl m) p1 \<and>
    checkpoint_meta (drv rt) (m, cuda p1) = Some (Inl meta, m1, v1) \<and> bss = read_all (cps rt) (ck_segments meta) v1 \<and>
    files_of d' (kernel_path dir pid) = Some (encode_checkpoint (kcodec rt) c) \<and>
    memory_on_disk (encode_meta rt) (memory_path dir pid) meta bss d' \<and>
    (\<forall>q. q \<notin> process_files dir pid \<longrightarrow> files_of d' q = files_of d q)"
proof -
  let ?d1 = "\<lambda>c. d\<lparr>files_of := (files_of d)(kernel_path dir pid := Some (encode_checkpoint (kcodec rt) c))\<rparr>"
  obtain c where c: "kernel_checkpoint (kernels p) = Some c"
    and mem: "on_memory rt (memory_dump (drv rt) (cps rt) (encode_meta rt) (memory_path dir pid) (?d1 c)) p = Ok d' p'"
    using dump by (auto simp: dump_process_state_def kernel_dump_def exec_simps split: option.splits)
  define d1 where "d1 = ?d1 c"
  then have d1: "files_of d1 = (files_of d)(kernel_path dir pid := Some (encode_checkpoint (kcodec rt) c))" by simp
  from on_memory_Ok [OF mem [folded d1_def]] obtain m p1 m' v' where m: "memory_inner rt p = Ok (Inl m) p1"
    and md: "memory_dump (drv rt) (cps rt) (encode_meta rt) (memory_path dir pid) d1 m (cuda p1) = Ok d' (m', v')" by blast
  from memory_dump_files [OF md full inv [rule_format, OF m]] obtain meta m1 v1 bss where
    ck: "checkpoint_meta (drv rt) (m, cuda p1) = Some (Inl meta, m1, v1)" "bss = read_all (cps rt) (ck_segments meta) v1"
    and on: "memory_on_disk (encode_meta rt) (memory_path dir pid) meta bss d'"
    and other: "\<And>q. q \<notin> push (memory_path dir pid) ` {f. CHR ''/'' \<notin> set f} \<Longrightarrow> files_of d' q = files_of d1 q" by blast
  have "memory_path dir pid \<noteq> dir" by (simp add: memory_path_def)
  then have "kernel_path dir pid \<notin> push (memory_path dir pid) ` {f. CHR ''/'' \<notin> set f}"
    by (auto simp: kernel_path_push push_inj)
  then have "files_of d' (kernel_path dir pid) = Some (encode_checkpoint (kcodec rt) c)" using other d1 by simp
  moreover have "\<forall>q. q \<notin> process_files dir pid \<longrightarrow> files_of d' q = files_of d q"
    using other d1 by (auto simp: process_files_def)
  ultimately show ?thesis using c m ck on by blast
qed

lemma dump_one_other:
  assumes "dump_one rt dir pid a d p = Ok d' p'" and "full_copies (cps rt)"
    and "a = Dump_Process \<Longrightarrow> \<forall>m p1. memory_inner rt p = Ok (Inl m) p1 \<longrightarrow> dmm_inv m" and "q \<notin> act_files dir pid a"
  shows "files_of d' q = files_of d q"
proof (cases a)
  case (Dump_Handles i th)
  then have "dump_handles_to dir pid i th d = Ok d' ()" using assms(1) by (simp add: reading_Ok)
  from dump_handles_to_files [OF this] show ?thesis using assms(4) Dump_Handles by (auto simp: thread_files_def)
next
  case Dump_Process
  then show ?thesis using dump_process_state_files [of rt dir pid d p d' p'] assms by auto
qed


text \<open>What a part of the checkpoint left when it was written.\<close>

fun part_on_disk :: "'v runtime \<Rightarrow> string \<Rightarrow> u32 \<Rightarrow> 'v process \<Rightarrow> 'v dump_act \<Rightarrow> disk \<Rightarrow> bool" where
  "part_on_disk rt dir pid p (Dump_Handles i th) d \<longleftrightarrow>
     files_of d (push (get_subdir dir pid i) ''handles.bin'') = Some (serialize (resources (server_state th))) \<and>
     files_of d (push (get_subdir dir pid i) ''pin_memory.bin'') = Some [if is_pinned th then 1 else 0]"
| "part_on_disk rt dir pid p Dump_Process d \<longleftrightarrow>
     (\<exists>c m p1 meta m1 v1 bss. kernel_checkpoint (kernels p) = Some c \<and> memory_inner rt p = Ok (Inl m) p1 \<and>
        checkpoint_meta (drv rt) (m, cuda p1) = Some (Inl meta, m1, v1) \<and> bss = read_all (cps rt) (ck_segments meta) v1 \<and>
        files_of d (kernel_path dir pid) = Some (encode_checkpoint (kcodec rt) c) \<and>
        memory_on_disk (encode_meta rt) (memory_path dir pid) meta bss d)"

lemma dump_one_part:
  assumes "dump_one rt dir pid a d p = Ok d' p'" and "full_copies (cps rt)"
    and "a = Dump_Process \<Longrightarrow> \<forall>m p1. memory_inner rt p = Ok (Inl m) p1 \<longrightarrow> dmm_inv m"
  shows "part_on_disk rt dir pid p a d'"
proof (cases a)
  case (Dump_Handles i th)
  then have "dump_handles_to dir pid i th d = Ok d' ()" using assms(1) by (simp add: reading_Ok)
  from dump_handles_to_files [OF this] show ?thesis using Dump_Handles by (simp add: push_inj)
next
  case Dump_Process
  then show ?thesis using dump_process_state_files [of rt dir pid d p d' p'] assms by simp blast
qed

lemma part_on_disk_same:
  assumes "part_on_disk rt dir pid p a d" and "\<forall>q\<in>act_files dir pid a. files_of d' q = files_of d q"
  shows "part_on_disk rt dir pid p a d'"
proof (cases a)
  case (Dump_Handles i th)
  then show ?thesis using assms by (simp add: thread_files_def)
next
  case Dump_Process
  have "memory_on_disk (encode_meta rt) (memory_path dir pid) meta bss d'"
    if "memory_on_disk (encode_meta rt) (memory_path dir pid) meta bss d" for meta bss
    using that assms(2) Dump_Process by (auto simp: memory_on_disk_def process_files_def elim!: list_all2_mono)
  then show ?thesis using assms Dump_Process by (simp add: process_files_def) blast
qed

lemma dump_all_parts:
  assumes "dump_all rt dir pid acts d p = Ok d' p'" and "distinct (map act_thread acts)" and "full_copies (cps rt)"
    and "Dump_Process \<in> set acts \<Longrightarrow> \<forall>m p1. memory_inner rt p = Ok (Inl m) p1 \<longrightarrow> dmm_inv m"
  shows "(\<forall>a\<in>set acts. part_on_disk rt dir pid p a d') \<and>
    (\<forall>q. q \<notin> (\<Union>a\<in>set acts. act_files dir pid a) \<longrightarrow> files_of d' q = files_of d q)"
  using assms(1,2,4)
proof (induction acts arbitrary: d p)
  case (Cons a acts)
  obtain d1 p1 where one: "dump_one rt dir pid a d p = Ok d1 p1" and rest: "dump_all rt dir pid acts d1 p1 = Ok d' p'"
    using Cons.prems(1) by (auto simp: exec_simps)
  have apart: "act_files dir pid a \<inter> act_files dir pid b = {}" if "b \<in> set acts" for b
    using that Cons.prems(2) by (intro act_files_apart) auto
  have same: "p1 = p" if "Dump_Process \<in> set acts"
  proof (cases a)
    case (Dump_Handles i th)
    then show ?thesis using one by (simp add: reading_Ok)
  next
    case Dump_Process
    then show ?thesis using that Cons.prems(2) by (metis distinct.simps(2) imageI list.set_map list.simps(9))
  qed
  have IH: "(\<forall>a\<in>set acts. part_on_disk rt dir pid p1 a d') \<and>
      (\<forall>q. q \<notin> (\<Union>a\<in>set acts. act_files dir pid a) \<longrightarrow> files_of d' q = files_of d1 q)"
    by (rule Cons.IH [OF rest]) (use Cons.prems same in auto)
  have kept: "\<forall>q\<in>act_files dir pid a. files_of d' q = files_of d1 q"
  proof
    fix q assume "q \<in> act_files dir pid a"
    then have "q \<notin> (\<Union>a\<in>set acts. act_files dir pid a)" using apart by blast
    then show "files_of d' q = files_of d1 q" using IH by blast
  qed
  have "part_on_disk rt dir pid p b d'" if "b \<in> set acts" for b
    using IH that same by (cases b) auto
  moreover have "part_on_disk rt dir pid p a d'"
    by (rule part_on_disk_same [OF dump_one_part [OF one assms(3)] kept]) (use Cons.prems(3) in auto)
  moreover have "files_of d' q = files_of d q" if "q \<notin> (\<Union>a\<in>set (a # acts). act_files dir pid a)" for q
    using IH that dump_one_other [OF one assms(3), of q] Cons.prems(3) by auto
  ultimately show ?case by auto
qed simp


text \<open>The files of different client processes are different.\<close>

lemma act_files_name:
  assumes "q \<in> act_files dir pid a"
  shows "\<exists>rest. q = dir @ CHR ''/'' # show_u32 pid @ CHR ''_'' # rest"
  using assms
  by (cases a) (auto simp: thread_files_def process_files_def push_def get_subdir_def memory_path_def kernel_path_def)

lemma takeWhile_pid: "takeWhile (\<lambda>c. c \<noteq> CHR ''_'') (show_u32 pid @ CHR ''_'' # rest) = show_u32 pid"
  using takeWhile_append2 [of "show_u32 pid" "\<lambda>c. c \<noteq> CHR ''_''" "CHR ''_'' # rest"] show_no_separator(1) [of pid] by fastforce

lemma act_files_other_pid: "pid \<noteq> pid' \<Longrightarrow> act_files dir pid a \<inter> act_files dir pid' b = {}"
proof (rule ccontr)
  assume ne: "pid \<noteq> pid'" and "act_files dir pid a \<inter> act_files dir pid' b \<noteq> {}"
  then obtain q where "q \<in> act_files dir pid a" "q \<in> act_files dir pid' b" by blast
  then obtain r r' where "show_u32 pid @ CHR ''_'' # r = show_u32 pid' @ CHR ''_'' # r'"
    using act_files_name [of q dir pid a] act_files_name [of q dir pid' b] by auto
  then show False using ne takeWhile_pid [of pid r] takeWhile_pid [of pid' r'] by (metis show_inj(1))
qed

section \<open>Properties\<close>

text \<open>
  Restoring without files: the kernels of the checkpoint are loaded, the segments of the memory
  are mapped again and filled with the given contents.
\<close>

definition load_process :: "'v runtime \<Rightarrow> ('v \<Rightarrow> int \<times> 'v) \<Rightarrow> KernelCheckpoint \<Rightarrow> checkpoint \<Rightarrow> u8 list list \<Rightarrow> 'v process \<Rightarrow>
    (unit, 'v process) exec" where
  "load_process rt launchHostFunc c meta bss p =
     exec_bind (on_kernels (\<lambda>s. exec_bind (kernel_manager_restore (mapi rt) c s) (\<lambda>r s.
       case r of Inr e \<Rightarrow> Abort ''called Result::unwrap() on an Err value'' | Inl _ \<Rightarrow> Ok () s)) p) (\<lambda>_.
     on_memory rt (\<lambda>m w. exec_bind (load_memory (drv rt) (cps rt) meta bss m w) (\<lambda>_ (m, w).
       let (r, w) = launchHostFunc w
       in if r \<noteq> 0 then Abort ''assertion failed: result == Default::default()'' else Ok () (m, w))))"

lemma restore_process_state_loads:
  assumes "files_of d (kernel_path dir pid) = Some ks" and "decode_checkpoint (kcodec rt) ks = Some c"
    and "memory_on_disk encode (memory_path dir pid) meta bss d" and "decode_meta rt (encode meta) = Some meta"
    and "\<forall>g\<in>set (ck_segments meta). seg_size g \<noteq> 0"
  shows "restore_process_state rt launchHostFunc dir pid d p = load_process rt launchHostFunc c meta bss p"
proof -
  have "kernel_restore (mapi rt) (kcodec rt) ks = (\<lambda>s. exec_bind (kernel_manager_restore (mapi rt) c s) (\<lambda>r s.
       case r of Inr e \<Rightarrow> Abort ''called Result::unwrap() on an Err value'' | Inl _ \<Rightarrow> Ok () s))"
    using assms(2) by (simp add: kernel_restore_def fun_eq_iff)
  moreover have "reading (disk_read (kernel_path dir pid) d) p = Ok ks p"
    using assms(1) by (simp add: disk_read_def reading_def)
  moreover have "memory_restore (drv rt) (cps rt) launchHostFunc (decode_meta rt) (memory_path dir pid) d =
      (\<lambda>m w. exec_bind (load_memory (drv rt) (cps rt) meta bss m w) (\<lambda>_ (m, w).
         let (r, w) = launchHostFunc w
         in if r \<noteq> 0 then Abort ''assertion failed: result == Default::default()'' else Ok () (m, w)))"
    using assms(3-5) by (intro ext memory_restore_loads)
  ultimately show ?thesis by (simp add: restore_process_state_def load_process_def)
qed

text \<open>
  C10. A checkpoint in files can be read back. Whatever the order in which the threads of a process and
  its control thread write their parts, if all of them succeed, then every thread that is restored
  from the directory starts from exactly the handles and the registration of the thread that wrote
  them; restoring the process, on any device that decodes the two encodings, is \<^emph>\<open>equal\<close> to loading
  its kernel modules and the contents of each of its segments directly, errors and panics included;
  and the files of other client processes in the same directory are left alone. A copy of the device
  copies a whole segment, and the memory manager is consistent and has no empty segment.
\<close>

theorem disk_checkpoint_roundtrip:
  assumes dump: "dump_all rt dir pid acts d p = Ok d' p'" and once: "distinct (map act_thread acts)"
    and process: "Dump_Process \<in> set acts" and full: "full_copies (cps rt)"
    and inv: "\<forall>m p1. memory_inner rt p = Ok (Inl m) p1 \<longrightarrow> dmm_inv m \<and> (\<forall>(a, sl)\<in>set (allocations m). map_size sl \<noteq> 0)"
  shows "(\<forall>i th pin th0. Dump_Handles i th \<in> set acts \<longrightarrow>
      begin_handle_restore_from pin dir pid i d' th0 = begin_handle_restore pin (dump_handles th) th0) \<and>
    (\<exists>c m p1 meta m1 v1 bss. kernel_checkpoint (kernels p) = Some c \<and> memory_inner rt p = Ok (Inl m) p1 \<and>
      checkpoint_meta (drv rt) (m, cuda p1) = Some (Inl meta, m1, v1) \<and> bss = read_all (cps rt) (ck_segments meta) v1 \<and>
      (\<forall>(rt' :: 'n runtime) launchHostFunc p2. decode_checkpoint (kcodec rt') (encode_checkpoint (kcodec rt) c) = Some c \<longrightarrow>
         decode_meta rt' (encode_meta rt meta) = Some meta \<longrightarrow>
         restore_process_state rt' launchHostFunc dir pid d' p2 = load_process rt' launchHostFunc c meta bss p2)) \<and>
    (\<forall>pid' a. pid' \<noteq> pid \<longrightarrow> (\<forall>q\<in>act_files dir pid' a. files_of d' q = files_of d q))"
proof -
  have "(\<forall>a\<in>set acts. part_on_disk rt dir pid p a d') \<and>
      (\<forall>q. q \<notin> (\<Union>a\<in>set acts. act_files dir pid a) \<longrightarrow> files_of d' q = files_of d q)"
    by (rule dump_all_parts [OF dump once full]) (use inv in auto)
  then have part: "\<And>a. a \<in> set acts \<Longrightarrow> part_on_disk rt dir pid p a d'"
    and other: "\<And>q. q \<notin> (\<Union>a\<in>set acts. act_files dir pid a) \<Longrightarrow> files_of d' q = files_of d q" by blast+
  from part [OF process] obtain c m p1 meta m1 v1 bss where
    k: "kernel_checkpoint (kernels p) = Some c" and m: "memory_inner rt p = Ok (Inl m) p1"
    and ck: "checkpoint_meta (drv rt) (m, cuda p1) = Some (Inl meta, m1, v1)" and bss: "bss = read_all (cps rt) (ck_segments meta) v1"
    and kf: "files_of d' (kernel_path dir pid) = Some (encode_checkpoint (kcodec rt) c)"
    and mf: "memory_on_disk (encode_meta rt) (memory_path dir pid) meta bss d'" by auto
  have sizes: "\<forall>g\<in>set (ck_segments meta). seg_size g \<noteq> 0"
    using inv m checkpoint_meta_Inl(4) [OF ck] by (fastforce simp: segment_of_def)
  have "restore_process_state rt' lhf dir pid d' p2 = load_process rt' lhf c meta bss p2"
    if "decode_checkpoint (kcodec rt') (encode_checkpoint (kcodec rt) c) = Some c" "decode_meta rt' (encode_meta rt meta) = Some meta"
    for rt' :: "'n runtime" and lhf p2
    using kf that(1) mf that(2) sizes by (rule restore_process_state_loads)
  moreover have "files_of d' q = files_of d q" if "pid' \<noteq> pid" "q \<in> act_files dir pid' a" for pid' q and a :: "'e dump_act"
    using that act_files_other_pid [of pid pid' dir] by (intro other) blast
  moreover have "begin_handle_restore_from pin dir pid i d' th0 = begin_handle_restore pin (dump_handles th) th0"
    if "Dump_Handles i th \<in> set acts" for i th pin th0
    using part [OF that] by (intro begin_handle_restore_from_files) simp_all
  ultimately show ?thesis using k m ck bss by blast
qed


text \<open>The entries of the directory of a checkpoint, as they are named and whether they are directories.\<close>

datatype ckpt_entry = Thread_Dir u32 u32 | Memory_Dir u32 | Kernel_File u32 | Criu_Dir | Metadata_File string

fun entry_name :: "ckpt_entry \<Rightarrow> string \<times> bool" where
  "entry_name (Thread_Dir pid i) = (show_u32 pid @ ''_'' @ show_i32 (sint i), True)"
| "entry_name (Memory_Dir pid) = (show_u32 pid @ ''_mem'', True)"
| "entry_name (Kernel_File pid) = (show_u32 pid @ ''_kernel.bin'', False)"
| "entry_name Criu_Dir = (''criu'', True)"
| "entry_name (Metadata_File name) = (name, False)"

fun thread_ids :: "u32 \<Rightarrow> ckpt_entry list \<Rightarrow> int list" where
  "thread_ids pid [] = []"
| "thread_ids pid (Thread_Dir q i # es) = (if q = pid then sint i # thread_ids pid es else thread_ids pid es)"
| "thread_ids pid (_ # es) = thread_ids pid es"

lemma split_once_pid: "split_once CHR ''_'' (show_u32 pid @ CHR ''_'' # rest) = Some (show_u32 pid, rest)"
  by (simp add: split_once_def takeWhile_pid Let_def)

lemma i32_range: "- 2147483648 \<le> sint i \<and> sint i \<le> 2147483647" for i :: u32
  using sint_greater_eq [of i] sint_less [of i] by simp

lemma scan_thread_dir:
  "scan_entry (entry_name (Thread_Dir pid i)) info =
     info\<lparr>pid_to_ids := bt_insert pid ((case bt_get (pid_to_ids info) pid of None \<Rightarrow> [] | Some is \<Rightarrow> is) @ [sint i]) (pid_to_ids info),
       min_id := min (min_id info) (sint i), max_id := max (max_id info) (sint i)\<rparr>"
  using i32_range [of i] by (simp add: scan_entry_def split_once_pid)

lemma scan_other:
  assumes "\<forall>pid i. e \<noteq> Thread_Dir pid i"
  shows "scan_entry (entry_name e) info = info"
proof (cases e)
  case (Memory_Dir pid)
  have "parse_i32 ''mem'' = None" by code_simp
  then show ?thesis using Memory_Dir by (simp add: scan_entry_def split_once_pid)
next
  case Criu_Dir
  have "split_once CHR ''_'' ''criu'' = None" by code_simp
  then show ?thesis using Criu_Dir by (simp add: scan_entry_def)
qed (use assms in \<open>auto simp: scan_entry_def\<close>)

lemma scan_fold_Cons:
  "(\<exists>q i. e = Thread_Dir q i \<and> thread_ids pid (e # es) = (if q = pid then sint i # thread_ids pid es else thread_ids pid es)) \<or>
   scan_entry (entry_name e) info = info \<and> thread_ids pid (e # es) = thread_ids pid es"
  by (cases e) (auto simp: scan_other simp del: entry_name.simps)

lemma scan_fold_ids:
  "bt_get (pid_to_ids (fold scan_entry (map entry_name es) info)) pid =
     (case bt_get (pid_to_ids info) pid of
        None \<Rightarrow> if thread_ids pid es = [] then None else Some (thread_ids pid es)
      | Some is \<Rightarrow> Some (is @ thread_ids pid es))"
proof (induction es arbitrary: info)
  case (Cons e es)
  from scan_fold_Cons [of e pid es info] show ?case
  proof (elim disjE exE conjE)
    fix q i assume e: "e = Thread_Dir q i" and ids: "thread_ids pid (e # es) = (if q = pid then sint i # thread_ids pid es else thread_ids pid es)"
    have "bt_get (bt_insert k v m) pid = (if pid = k then Some v else bt_get m pid)" for k v and m :: "(u32, int list) btree"
      by (simp add: bt_get_def bt_get_insert_aux)
    then show ?thesis unfolding ids
      by (simp add: e Cons.IH scan_thread_dir del: entry_name.simps split: option.split)
  qed (simp add: Cons.IH del: entry_name.simps thread_ids.simps split: option.split)
qed (simp split: option.split)

lemma scan_fold_bounds:
  "min_id (fold scan_entry (map entry_name es) info) \<le> min_id info \<and>
   max_id info \<le> max_id (fold scan_entry (map entry_name es) info) \<and>
   list_all (\<lambda>i. min_id (fold scan_entry (map entry_name es) info) \<le> i \<and>
     i \<le> max_id (fold scan_entry (map entry_name es) info)) (thread_ids pid es)"
proof (induction es arbitrary: info)
  case (Cons e es)
  from scan_fold_Cons [of e pid es info] show ?case
  proof (elim disjE exE conjE)
    fix q i assume e: "e = Thread_Dir q i" and ids: "thread_ids pid (e # es) = (if q = pid then sint i # thread_ids pid es else thread_ids pid es)"
    define info' where "info' = scan_entry (entry_name e) info"
    have "min_id info' \<le> min_id info" "max_id info \<le> max_id info'" "min_id info' \<le> sint i" "sint i \<le> max_id info'"
      unfolding info'_def e scan_thread_dir by simp_all
    then show ?thesis using Cons.IH [of info'] unfolding ids by (simp add: info'_def del: entry_name.simps thread_ids.simps)
  qed (use Cons.IH [of info] in \<open>simp del: entry_name.simps thread_ids.simps\<close>)
qed simp

text \<open>
  C32. The daemon finds the threads of a checkpoint again. The directory of a checkpoint has a directory for
  every thread, a directory and a file for every client process, the directory of the external
  program and the files with the configuration, in any order; scanning their names gives for each
  client process exactly the numbers of its threads, in the order of the entries, and bounds that
  enclose all of them. The names are those under which the parts are written.
\<close>

theorem scan_finds_threads:
  "bt_get (pid_to_ids (scan (map entry_name es))) pid = (if thread_ids pid es = [] then None else Some (thread_ids pid es)) \<and>
   list_all (\<lambda>i. min_id (scan (map entry_name es)) \<le> i \<and> i \<le> max_id (scan (map entry_name es))) (thread_ids pid es) \<and>
   push dir (fst (entry_name (Thread_Dir pid i))) = get_subdir dir pid i \<and>
   push dir (fst (entry_name (Memory_Dir pid))) = memory_path dir pid \<and>
   push dir (fst (entry_name (Kernel_File pid))) = kernel_path dir pid"
  using scan_fold_ids [of es "\<lparr>pid_to_ids = [], min_id = 2147483647, max_id = 0\<rparr>" pid]
    scan_fold_bounds [of es "\<lparr>pid_to_ids = [], min_id = 2147483647, max_id = 0\<rparr>" pid]
  by (simp add: scan_def bt_get_def push_def get_subdir_def memory_path_def kernel_path_def)

definition empty_disk :: disk where
  "empty_disk = \<lparr>files_of = (\<lambda>_. None), dirs_of = [''/ckpt'']\<rparr>"

lemma one_segment_inv: "dmm_inv one_segment"
proof -
  have "bt_get (allocations one_segment) p = Some sl \<longleftrightarrow> p = 8 \<and> sl = \<lparr>map_ptr = 8, map_size = 4, slot_handle = Owned 1\<rparr>" for p sl
    by (auto simp: one_segment_def bt_get_def)
  then show ?thesis
    by (auto simp: dmm_inv_def maps_inv_def range_inv_def owned_inv_def owned_at_def) (auto simp: one_segment_def bt_inv_def)
qed

lemma sample_dump: "case dump_all sample_runtime ''/ckpt'' 77 [Dump_Process, Dump_Handles 1 sample_thread] empty_disk
    (world (server_state sample_thread)) of Ok _ _ \<Rightarrow> True | _ \<Rightarrow> False"
  by code_simp

theorem disk_checkpoint_roundtrip_witness:
  "\<exists>d' p'. dump_all sample_runtime ''/ckpt'' 77 [Dump_Process, Dump_Handles 1 sample_thread] empty_disk
      (world (server_state sample_thread)) = Ok d' p' \<and>
    begin_handle_restore_from Some ''/ckpt'' 77 1 d' sample_thread = begin_handle_restore Some (dump_handles sample_thread) sample_thread \<and>
    restore_process_state sample_runtime (\<lambda>v. (0, v)) ''/ckpt'' 77 d' new_process =
      load_process sample_runtime (\<lambda>v. (0, v)) (the (kernel_checkpoint (manager_after client1))) sample_meta0
        (read_all patterned_copies (ck_segments sample_meta0) 2) new_process"
proof -
  let ?acts = "[Dump_Process, Dump_Handles 1 sample_thread]" and ?p = "world (server_state sample_thread)"
  obtain d' p' where dump: "dump_all sample_runtime ''/ckpt'' 77 ?acts empty_disk ?p = Ok d' p'"
    using sample_dump by (auto split: exec.splits)
  have rt: "drv sample_runtime = counting_driver" "cps sample_runtime = patterned_copies" "kcodec sample_runtime = example_codec"
    "decode_meta sample_runtime bs = Some sample_meta0" "cuda ?p = 2" "kernels ?p = manager_after client1" for bs
    by (simp_all add: sample_runtime_def sample_thread_def)
  have m: "memory_inner sample_runtime ?p = Ok (Inl one_segment) ?p" by (simp add: sample_thread_def memory_inner_def)
  have ck: "checkpoint_meta counting_driver (one_segment, 2) = Some (Inl sample_meta0, one_segment, 2)" by code_simp
  have k: "decode_checkpoint example_codec (encode_checkpoint example_codec (the (kernel_checkpoint (manager_after client1)))) =
      Some (the (kernel_checkpoint (manager_after client1)))" by code_simp
  have full: "full_copies (cps sample_runtime)" by (auto simp: full_copies_def patterned_copies_def rt)
  have inv: "\<forall>m p1. memory_inner sample_runtime ?p = Ok (Inl m) p1 \<longrightarrow> dmm_inv m \<and> (\<forall>(a, sl)\<in>set (allocations m). map_size sl \<noteq> 0)"
    using one_segment_inv by (simp add: m) (simp add: one_segment_def)
  have parts: "distinct (map act_thread ?acts)" "Dump_Process \<in> set ?acts" by simp_all
  note restored = disk_checkpoint_roundtrip [where 'n = u64, OF dump parts full inv]
  from restored [THEN conjunct2, THEN conjunct1] obtain c m1 p1 meta m2 v1 bss where
    c: "kernel_checkpoint (kernels ?p) = Some c" and m1: "memory_inner sample_runtime ?p = Ok (Inl m1) p1"
    and meta: "checkpoint_meta (drv sample_runtime) (m1, cuda p1) = Some (Inl meta, m2, v1)"
    and bss: "bss = read_all (cps sample_runtime) (ck_segments meta) v1"
    and load: "\<forall>(rt' :: u64 runtime) launchHostFunc p2.
      decode_checkpoint (kcodec rt') (encode_checkpoint (kcodec sample_runtime) c) = Some c \<longrightarrow>
      decode_meta rt' (encode_meta sample_runtime meta) = Some meta \<longrightarrow>
      restore_process_state rt' launchHostFunc ''/ckpt'' 77 d' p2 = load_process rt' launchHostFunc c meta bss p2"
    by (elim exE conjE)
  have "m1 = one_segment" "p1 = ?p" using m1 m by simp_all
  then have "meta = sample_meta0" "v1 = 2" "c = the (kernel_checkpoint (manager_after client1))" using meta ck c by (simp_all add: rt)
  moreover have "begin_handle_restore_from Some ''/ckpt'' 77 1 d' sample_thread = begin_handle_restore Some (dump_handles sample_thread) sample_thread"
    using restored [THEN conjunct1, rule_format, of 1 sample_thread Some sample_thread] by simp
  ultimately show ?thesis
    using load [rule_format, of sample_runtime] dump k bss by (simp add: rt del: dump_all.simps)
qed

end
