(* ===== verification/Plain_Handles.thy ===== *)
theory Plain_Handles
  imports Handles
begin

text \<open>
  The handle manager of a server that is built without checkpoints (\<open>server/src/handle.rs\<close>): the same table
  without recorded calls. It is compared with the manager of \<open>Handles\<close>.
\<close>

section \<open>The manager\<close>

type_synonym plain_manager = "(u64, u64) btree"

definition plain_new :: plain_manager where
  "plain_new = []"

definition plain_len :: "plain_manager \<Rightarrow> nat" where
  "plain_len m = length m"

definition plain_insert :: "u64 \<Rightarrow> u64 \<Rightarrow> plain_manager \<Rightarrow> plain_manager" where
  "plain_insert proxy value m = bt_insert proxy value m"

definition plain_get_inner :: "u64 \<Rightarrow> bool \<Rightarrow> plain_manager \<Rightarrow> (u64, plain_manager) exec" where
  "plain_get_inner proxy is_destroy m =
     (if proxy = 0 then Ok 0 m
      else (case bt_get m proxy of
              None \<Rightarrow> Abort ''called Option::unwrap() on a None value''
            | Some v \<Rightarrow> Ok v (if is_destroy then bt_remove proxy m else m)))"

text \<open>Runs of both managers, with the values that lookups give; recording exists in one of them only.\<close>

fun plain_run :: "hm_op list \<Rightarrow> plain_manager \<Rightarrow> (u64 list, plain_manager) exec" where
  "plain_run [] m = Ok [] m"
| "plain_run (Create p v # ops) m = plain_run ops (plain_insert p v m)"
| "plain_run (Record p k bs # ops) m = plain_run ops m"
| "plain_run (Use p # ops) m =
     exec_bind (plain_get_inner p False m) (\<lambda>v m. exec_bind (plain_run ops m) (\<lambda>vs. Ok (v # vs)))"
| "plain_run (Destroy p # ops) m =
     exec_bind (plain_get_inner p True m) (\<lambda>v m. exec_bind (plain_run ops m) (\<lambda>vs. Ok (v # vs)))"

fun recording_run :: "hm_op list \<Rightarrow> manager \<Rightarrow> (u64 list, manager) exec" where
  "recording_run [] h = Ok [] h"
| "recording_run (Create p v # ops) h = recording_run ops (hm_insert p v h)"
| "recording_run (Record p k bs # ops) h = exec_bind (insert_args p k bs h) (\<lambda>_. recording_run ops)"
| "recording_run (Use p # ops) h =
     exec_bind (get_inner p False h) (\<lambda>v h. exec_bind (recording_run ops h) (\<lambda>vs. Ok (v # vs)))"
| "recording_run (Destroy p # ops) h =
     exec_bind (get_inner p True h) (\<lambda>v h. exec_bind (recording_run ops h) (\<lambda>vs. Ok (v # vs)))"

section \<open>The recording manager refines the plain one\<close>

definition plain_of :: "manager \<Rightarrow> plain_manager" where
  "plain_of h = map (\<lambda>(p, hx). (p, hvalue hx)) (table h)"

lemma map_bt_insert: "map (\<lambda>(p, x). (p, f x)) (bt_insert k v m) = bt_insert k (f v) (map (\<lambda>(p, x). (p, f x)) m)"
  by (induction m) auto

lemma map_bt_remove: "map (\<lambda>(p, x). (p, f x)) (bt_remove k m) = bt_remove k (map (\<lambda>(p, x). (p, f x)) m)"
  by (induction m) (auto simp: bt_remove_def)

lemma bt_get_map: "bt_get (map (\<lambda>(p, x). (p, f x)) m) k = map_option f (bt_get m k)"
  by (simp add: bt_get_def map_of_map comp_def)

lemma bt_insert_same: "bt_inv m \<Longrightarrow> bt_get m k = Some v \<Longrightarrow> bt_insert k v m = m"
proof (induction m)
  case (Cons e m)
  obtain j w where e: "e = (j, w)" by (cases e)
  have m: "bt_inv m" using Cons.prems(1) by (auto simp: bt_inv_def)
  have "j < k" if "bt_get m k = Some v"
    using map_of_SomeD [OF that [unfolded bt_get_def]] Cons.prems(1) e by (auto simp: bt_inv_def)
  then show ?case using Cons.IH [OF m] Cons.prems(2) e by (auto simp: bt_get_def split: if_splits)
qed (simp add: bt_get_def)

lemma plain_of_insert: "plain_of (hm_insert p v h) = plain_insert p v (plain_of h)"
  by (simp add: plain_of_def hm_insert_def plain_insert_def map_bt_insert)

lemma plain_of_get: "plain_get_inner p d (plain_of h) =
    (case get_inner p d h of Ok v h \<Rightarrow> Ok v (plain_of h) | _ \<Rightarrow> Abort ''called Option::unwrap() on a None value'')"
  by (auto simp: plain_get_inner_def get_inner_def plain_of_def bt_get_map map_bt_remove split: option.splits)

lemma plain_of_record:
  assumes "insert_args p k bs h = Ok u h'" and "bt_inv (table h)"
  shows "plain_of h' = plain_of h" and "bt_inv (table h')"
proof -
  obtain hx ps where hx: "bt_get (table h) p = Some hx" and h': "table h' = bt_insert p (hx\<lparr>hpayloads := ps\<rparr>) (table h)"
    using assms(1) by (auto simp: insert_args_def Let_def split: option.splits sum.splits)
  have "bt_inv (plain_of h)" using assms(2) by (simp add: plain_of_def bt_inv_def comp_def case_prod_unfold)
  moreover have "bt_get (plain_of h) p = Some (hvalue hx)" using hx by (simp add: plain_of_def bt_get_map)
  ultimately show "plain_of h' = plain_of h"
    using bt_insert_same [of "plain_of h" p "hvalue hx"] by (simp add: plain_of_def h' map_bt_insert)
  show "bt_inv (table h')" using assms(2) by (simp add: h' bt_inv_insert)
qed

lemma bt_inv_steps:
  "bt_inv (table h) \<Longrightarrow> bt_inv (table (hm_insert p v h))"
  "bt_inv (table h) \<Longrightarrow> get_inner p d h = Ok v h' \<Longrightarrow> bt_inv (table h')"
  by (auto simp: hm_insert_def get_inner_def bt_inv_insert bt_inv_remove split: if_splits option.splits)

lemma recording_run_plain:
  assumes "recording_run ops h = Ok vs h'" and "bt_inv (table h)"
  shows "plain_run ops (plain_of h) = Ok vs (plain_of h')"
  using assms
proof (induction ops arbitrary: h vs)
  case (Cons op ops)
  show ?case
  proof (cases op)
    case (Create p v)
    then show ?thesis using Cons.IH [of "hm_insert p v h"] Cons.prems bt_inv_steps(1) by (simp add: plain_of_insert)
  next
    case (Record p k bs)
    then obtain h1 where h1: "insert_args p k bs h = Ok () h1" "recording_run ops h1 = Ok vs h'"
      using Cons.prems(1) by (auto simp: exec_simps)
    then show ?thesis using Cons.IH [OF h1(2)] plain_of_record [OF h1(1) Cons.prems(2)] Record by simp
  next
    case (Use p)
    then show ?thesis
      using Cons.prems Cons.IH bt_inv_steps(2) by (fastforce simp: exec_simps plain_of_get)
  next
    case (Destroy p)
    then show ?thesis
      using Cons.prems Cons.IH bt_inv_steps(2) by (fastforce simp: exec_simps plain_of_get)
  qed
qed simp

section \<open>When recording is possible\<close>

text \<open>
  The recording manager has assertions of its own: a call is recorded only on a live handle, and the
  calls of one handle are all keyed or all unkeyed. \<open>recordable\<close> states this of a sequence of operations alone;
  \<open>f\<close> tells which handles are live and, for those with recorded calls, whether these are keyed.
\<close>

fun recordable :: "hm_op list \<Rightarrow> (u64 \<rightharpoonup> bool option) \<Rightarrow> bool" where
  "recordable [] f = True"
| "recordable (Create p v # ops) f = recordable ops (f(p \<mapsto> None))"
| "recordable (Record p k bs # ops) f =
     (case f p of
        None \<Rightarrow> False
      | Some None \<Rightarrow> recordable ops (f(p \<mapsto> Some (k \<noteq> None)))
      | Some (Some keyed) \<Rightarrow> keyed = (k \<noteq> None) \<and> recordable ops f)"
| "recordable (Use p # ops) f = recordable ops f"
| "recordable (Destroy p # ops) f = recordable ops (if p = 0 then f else f(p := None))"

fun keyed_of :: "payloads \<Rightarrow> bool option" where
  "keyed_of Empty = None"
| "keyed_of (PVec ps) = Some False"
| "keyed_of (PMap m) = Some True"

definition kinds :: "manager \<Rightarrow> u64 \<rightharpoonup> bool option" where
  "kinds h p = map_option (\<lambda>hx. keyed_of (hpayloads hx)) (bt_get (table h) p)"

lemma kinds_insert: "bt_inv (table h) \<Longrightarrow> kinds (hm_insert p v h) = (kinds h)(p \<mapsto> None)"
  by (rule ext) (simp add: kinds_def hm_insert_def bt.get_insert)

lemma kinds_get:
  "bt_inv (table h) \<Longrightarrow> get_inner p d h = Ok v h' \<Longrightarrow> kinds h' = (if d \<and> p \<noteq> 0 then (kinds h)(p := None) else kinds h)"
  by (auto simp: kinds_def get_inner_def bt.get_remove fun_eq_iff split: if_splits option.splits)

text \<open>A call can be recorded if and only if the kinds allow it, and what it leaves.\<close>

lemma record_kinds:
  assumes "bt_inv (table h)"
  shows "(\<exists>h'. insert_args p k bs h = Ok () h') \<longleftrightarrow> kinds h p = Some None \<or> kinds h p = Some (Some (k \<noteq> None))"
    and "insert_args p k bs h = Ok () h' \<Longrightarrow> kinds h' = (kinds h)(p \<mapsto> Some (k \<noteq> None))"
proof -
  show "(\<exists>h'. insert_args p k bs h = Ok () h') \<longleftrightarrow> kinds h p = Some None \<or> kinds h p = Some (Some (k \<noteq> None))"
  proof (cases "bt_get (table h) p")
    case (Some hx)
    then show ?thesis by (cases k; cases "hpayloads hx") (simp_all add: insert_args_def kinds_def)
  qed (simp add: insert_args_def kinds_def)
  assume ok: "insert_args p k bs h = Ok () h'"
  then obtain hx ps where hx: "bt_get (table h) p = Some hx"
      "payloads_insert k \<lparr>timestamp = TIMESTAMP h, args = bs\<rparr> (hpayloads hx) = Inl ps"
      "table h' = bt_insert p (hx\<lparr>hpayloads := ps\<rparr>) (table h)"
    by (auto simp: insert_args_def Let_def split: option.splits sum.splits)
  have "keyed_of ps = Some (k \<noteq> None)" using hx(2) by (cases k; cases "hpayloads hx") auto
  then show "kinds h' = (kinds h)(p \<mapsto> Some (k \<noteq> None))"
    using hx(1,3) assms by (auto simp: kinds_def bt.get_insert fun_eq_iff)
qed

lemma recordable_step:
  "recordable (Record p k bs # ops) f \<longleftrightarrow>
     (f p = Some None \<or> f p = Some (Some (k \<noteq> None))) \<and> recordable ops (f(p \<mapsto> Some (k \<noteq> None)))"
  by (auto split: option.splits simp: fun_upd_idem)

text \<open>Both managers look up a handle with the same outcome.\<close>

lemma get_both:
  "(\<exists>h'. get_inner p d h = Ok v h' \<and> m = plain_of h') \<longleftrightarrow> plain_get_inner p d (plain_of h) = Ok v m"
  by (auto simp: plain_of_get get_inner_def split: option.splits)

lemma recording_run_recordable:
  assumes "recording_run ops h = Ok vs h'" and "bt_inv (table h)"
  shows "recordable ops (kinds h)"
  using assms
proof (induction ops arbitrary: h vs)
  case (Cons op ops)
  show ?case
  proof (cases op)
    case (Create p v)
    then show ?thesis
      using Cons.IH [of "hm_insert p v h" vs] Cons.prems bt_inv_steps(1) [OF Cons.prems(2)] by (simp add: kinds_insert del: fun_upd_apply)
  next
    case (Record p k bs)
    then obtain h1 where h1: "insert_args p k bs h = Ok () h1" "recording_run ops h1 = Ok vs h'"
      using Cons.prems(1) by (auto simp: exec_simps)
    then show ?thesis
      using Cons.IH [OF h1(2)] plain_of_record(2) [OF h1(1) Cons.prems(2)] record_kinds [OF Cons.prems(2)] Record
      by (simp add: recordable_step del: recordable.simps fun_upd_apply) blast
  next
    case (Use p)
    then show ?thesis
      using Cons.prems Cons.IH bt_inv_steps(2) kinds_get [OF Cons.prems(2)] by (fastforce simp: exec_simps)
  next
    case (Destroy p)
    then show ?thesis
      using Cons.prems Cons.IH bt_inv_steps(2) kinds_get [OF Cons.prems(2)] by (fastforce simp: exec_simps)
  qed
qed simp

lemma plain_run_recording:
  assumes "plain_run ops (plain_of h) = Ok vs m" and "recordable ops (kinds h)" and "bt_inv (table h)"
  shows "\<exists>h'. recording_run ops h = Ok vs h' \<and> m = plain_of h'"
  using assms
proof (induction ops arbitrary: h vs)
  case (Cons op ops)
  have lookup: ?case if op: "op = Use p \<and> \<not> d \<or> op = Destroy p \<and> d" for p d
  proof -
    obtain v m1 ws where 1: "plain_get_inner p d (plain_of h) = Ok v m1" "plain_run ops m1 = Ok ws m" "vs = v # ws"
      using Cons.prems(1) op by (auto simp: exec_simps)
    then obtain h1 where h1: "get_inner p d h = Ok v h1" "m1 = plain_of h1" using get_both by blast
    have "recordable ops (kinds h1)"
      using Cons.prems(2) op kinds_get [OF Cons.prems(3) h1(1)] by (auto split: if_splits)
    then have "\<exists>h'. recording_run ops h1 = Ok ws h' \<and> m = plain_of h'"
      using Cons.IH [of h1 ws] 1(2) h1 bt_inv_steps(2) [OF Cons.prems(3) h1(1)] by simp
    then show ?thesis using op h1(1) 1(3) by (auto simp: exec_simps)
  qed
  show ?case
  proof (cases op)
    case (Create p v)
    then show ?thesis
      using Cons.IH [of "hm_insert p v h" vs] Cons.prems bt_inv_steps(1) [OF Cons.prems(3)]
      by (simp add: plain_of_insert kinds_insert del: fun_upd_apply)
  next
    case (Record p k bs)
    then obtain h1 where h1: "insert_args p k bs h = Ok () h1"
      using Cons.prems(2) record_kinds(1) [OF Cons.prems(3)] by (simp add: recordable_step del: recordable.simps fun_upd_apply) blast
    have "\<exists>h'. recording_run ops h1 = Ok vs h' \<and> m = plain_of h'"
      using Cons.IH [of h1 vs] plain_of_record [OF h1 Cons.prems(3)] record_kinds(2) [OF Cons.prems(3) h1] Cons.prems(1,2) Record
      by (simp add: recordable_step del: recordable.simps fun_upd_apply)
    then show ?thesis using Record h1 by (simp add: exec_simps)
  qed (use lookup in auto)
qed simp

section \<open>Property\<close>

text \<open>
  C33. Recording calls does not change what handles mean, and what it adds are its own two assertions: a
  sequence of operations is carried out by the recording manager, with given values and number of handles, if
  and only if the manager of a server without checkpoints carries it out with the same values and number of
  handles and the sequence records calls on live handles only, all keyed or all unkeyed for each of them.
\<close>

theorem recording_is_transparent:
  "(\<exists>h. recording_run ops manager_new = Ok vs h \<and> hm_len h = n) \<longleftrightarrow>
   (\<exists>m. plain_run ops plain_new = Ok vs m \<and> plain_len m = n) \<and> recordable ops (\<lambda>_. None)"
proof -
  have start: "plain_of manager_new = plain_new" "kinds manager_new = (\<lambda>_. None)" "bt_inv (table manager_new)"
    by (auto simp: manager_new_def plain_of_def plain_new_def kinds_def bt_inv_def bt_get_def)
  have len: "plain_len (plain_of h) = hm_len h" for h by (simp add: plain_len_def plain_of_def hm_len_def)
  show ?thesis
    using recording_run_plain [of ops manager_new vs] recording_run_recordable [of ops manager_new vs]
      plain_run_recording [of ops manager_new vs] start len by metis
qed

text \<open>A sequence with both kinds of calls, and one that only the plain manager carries out.\<close>

lemma recording_is_transparent_example:
  "(\<exists>h. recording_run [Create 3 30, Record 3 None [1], Use 3, Create 4 40, Record 4 (Some 1) [2], Destroy 3, Use 4] manager_new = Ok [30, 30, 40] h
     \<and> hm_len h = 1) \<and>
   (\<exists>m. plain_run [Create 3 30, Record 3 None [1], Record 3 (Some 1) [2], Use 3] plain_new = Ok [30] m) \<and>
   \<not> recordable [Create 3 30, Record 3 None [1], Record 3 (Some 1) [2], Use 3] (\<lambda>_. None)"
proof -
  have "case recording_run [Create 3 30, Record 3 None [1], Use 3, Create 4 40, Record 4 (Some 1) [2], Destroy 3, Use 4] manager_new of
      Ok vs h \<Rightarrow> vs = [30, 30, 40] \<and> hm_len h = 1 | _ \<Rightarrow> False" by code_simp
  moreover have "case plain_run [Create 3 30, Record 3 None [1], Record 3 (Some 1) [2], Use 3] plain_new of
      Ok vs m \<Rightarrow> vs = [30] | _ \<Rightarrow> False" by code_simp
  ultimately show ?thesis by (auto split: exec.splits)
qed

end
