(* ===== verification/Spec2Isabelle.thy ===== *)
theory Spec2Isabelle
  imports Prelude Trace Hook Hook_Tables Abi Nvml_Samples Ring_Buffer Checkpoint_Flag Framing Handles Device_Memory Rpc Snapshot Worker Kernels Standby Attach Daemon Fatbin Launch Checkpoint_Barrier Memcpy Disk_Checkpoint Plain_Handles
begin

text \<open>
  A verification development for PhoenixOS v1, a system that runs CUDA programs against a remote
  GPU server and can checkpoint, restore and migrate them, together with its profiler \<open>rperf\<close>.
  This theory imports all others. Paths are relative to the repository; \<open>rperf/...\<close> stands for
  \<open>rperf/libs/vanilla/...\<close>.

  \<^bold>\<open>The program.\<close> A client library stands in for the CUDA libraries (\<open>client/\<close>). A call is encoded
  by code that the macros of \<open>codegen/\<close> generate and travels over a byte channel (\<open>network/\<close>): a
  ring buffer in shared memory or a TCP stream. A server process (\<open>server/\<close>) has one thread for each
  client thread, which decodes the call, executes it and answers. The server translates handles,
  records the calls that created them, and manages device memory and kernels so that all of it can be
  rebuilt elsewhere. A checkpoint locks the request channel through its flag word, waits until it is
  idle, and writes the recorded calls and the device memory; restoring replays the calls from the
  image as if they came from the client. Detaching leaves the same state in the two idle channels of
  a client that stays alive; attaching reads it there. A daemon starts the processes and carries out
  the commands. The profiler is independent: libraries with the names of the CUDA functions that
  forward every call to the real library and record when it started and ended.

  \<^bold>\<open>Conventions.\<close> A \<open>struct\<close> or class is a record, an enumeration a datatype, a \<open>u64\<close> or
  \<open>unsigned\<close> a word, so that arithmetic wraps where it does in an optimised build. Panics, aborts,
  calls of \<open>exit\<close> and undefined behaviour are values (\<open>exec\<close> in \<open>Prelude\<close>, \<open>io\<close> in
  \<open>Framing\<close>). What the program calls and does not define -- NVIDIA's libraries and driver, the dynamic
  loader, clocks, floating point rounding, hash functions, server processes as the daemon sees
  them -- are parameters, and a theorem that relies on their documented behaviour has it as a
  hypothesis, with a witness that instantiates the parameter.

  \<^bold>\<open>Theories and the code they model.\<close>

  \<^item> \<open>Prelude\<close>: machine types, outcomes, shared lemmas on lists and words. \<open>BTree\<close>: Rust's
    \<open>BTreeMap\<close>, as the contract \<open>ordered_map\<close> and its implementation by sorted lists.

  \<^item> \<open>Ring_Buffer\<close>: \<open>network/src/ringbufferchannel/mod.rs\<close>. The two sides of a channel are programs
    of atomic steps, one for each volatile access and each copied byte; \<open>step\<close> interleaves them. The
    theorems hold for every interleaving: the stream is delivered unchanged and in order, no assertion
    fails while the channel is not locked, and while it is not locked a \<open>get_bytes\<close> in progress can always
    be brought to its end, or to all that was sent. A channel of one byte is shown to be stuck. Memory is sequentially consistent.

  \<^item> \<open>Checkpoint_Flag\<close>: the flag word of the request channel (\<open>client/src/phos.rs\<close>,
    \<open>client/src/hijack/client.rs\<close>, \<open>server/src/phos/mod.rs\<close>) on top of the ring, with the message that a client
    sends when it exits. With synchronous calls a checkpoint sees a channel that is idle but for
    that message; a request for a checkpoint stops further calls and is noticed. The bad schedules of asynchronous
    calls and of an exit during a request are lemmas (\<open>async_checkpoint_race\<close>, \<open>exit_checkpoint_race\<close>).

  \<^item> \<open>Framing\<close>: \<open>network/src/type_impl\<close>, \<open>tcp.rs\<close>, \<open>restore.rs\<close>: how values and slices are laid
    out on a channel. Locales \<open>byte_sink\<close>, \<open>flushed_sink\<close> and \<open>byte_source\<close> are the contracts of
    the traits \<open>SendChannel\<close> and \<open>RecvChannel\<close>, interpreted on the ring buffer run by one side
    at a time, the TCP stream, the image of a checkpoint and the vector of saved arguments.

  \<^item> \<open>Handles\<close>: \<open>server/src/phos/handle.rs\<close>. The table is compared with a journal of all recorded
    calls: a checkpoint contains exactly those that live handles need, in the order they were made.

  \<^item> \<open>Rpc\<close>: the code generated by \<open>codegen/src/{hook_fn,client_macros,server_macros}.rs\<close> for any
    declaration, the sessions of \<open>network/src/session.rs\<close> and the dispatcher. A remote call has the
    results, outputs and effect of the local one.

  \<^item> \<open>Device_Memory\<close>: \<open>server/src/phos/memory/{manager,cuda,memory}.rs\<close>: what is handed out never
    overlaps, the table of allocations stays consistent, a restored checkpoint has the same mappings.

  \<^item> \<open>Snapshot\<close>: the layout of a snapshot (\<open>server/src/phos/detach.rs\<close>, \<open>memory/ckpt.rs\<close>) and that
    what is written is what is read.

  \<^item> \<open>Worker\<close>: the loop of a server thread (\<open>server/src/worker.rs\<close>) with its checkpoint and restore.
    Replaying an image ends, and after replaying the image of a server every proxy handle is live that
    was live there. This composes \<open>Ring_Buffer\<close>, \<open>Framing\<close>, \<open>Handles\<close> and \<open>Rpc\<close>.

  \<^item> \<open>Kernels\<close>: \<open>server/src/phos/kernel.rs\<close>; \<open>Standby\<close>: \<open>server/src/phos/standby.rs\<close> with the
    contract \<open>parking\<close>. A process that loaded images of several clients ahead of time serves one of
    them as a fresh process would.

  \<^item> \<open>Attach\<close>: detaching and attaching as a whole (\<open>detach.rs\<close>, \<open>standby.rs\<close>, \<open>phos/mod.rs\<close>,
    \<open>worker.rs\<close>), composed of \<open>Snapshot\<close>, \<open>Worker\<close>, \<open>Kernels\<close> and \<open>Standby\<close>: attaching equals
    handing the state over directly.

  \<^item> \<open>Checkpoint_Barrier\<close>: how the threads of a process meet for a checkpoint
    (\<open>server/src/phos/mod.rs\<close>, \<open>request_checkpoint\<close>, \<open>block_and_dump_process_state\<close>, \<open>checkpoint_thread\<close>), as a step
    relation over all interleavings. All parts of a checkpoint are written after the same calls. If a
    thread ends between the count and the first meeting, no continuation completes the checkpoint, unless the
    main thread ends the process (after its pause of three seconds, the position \<open>Leaving\<close>); a thread that
    begins at the wrong moment makes it panic.

  \<^item> \<open>Disk_Checkpoint\<close>: the files of a checkpoint (\<open>phos/mod.rs\<close>, \<open>memory/ckpt.rs\<close>): names, contents, reading
    back, and the scan of the directory by the daemon. Built on \<open>Attach\<close>, \<open>Snapshot\<close> and \<open>Daemon\<close>.

  \<^item> \<open>Plain_Handles\<close>: \<open>server/src/handle.rs\<close>, the table of a server without checkpoints; the recording
    table gives the same values on exactly the sequences that pass its two assertions on recorded calls.

  \<^item> \<open>Fatbin\<close>: \<open>client/src/elf.rs\<close>: fat binaries, their codes and the parameters of a kernel in a cubin. A
    search through any well-formed image ends and gives the described parameters or panics.

  \<^item> \<open>Launch\<close>: \<open>client/src/hijack\<close> and the hooks of \<open>cudasys/src/hooks\<close> that use its caches: registration,
    loading of modules, launch of kernels. A launch runs the kernel that was registered, with the
    arguments laid out as its parameters say. \<open>Memcpy\<close>: the copies of the client and, for
    \<open>server/src/dispatcher/cudart_exe_utils.rs\<close>, of the server, against a copy on a pair of memories, with what the two
    ways of the server do when the runtime reports an error.

  \<^item> \<open>Daemon\<close>: \<open>server/src/daemon.rs\<close>, \<open>server/src/phos/daemon.rs\<close>: the state of the daemon and
    all its handlers, an invariant of the reachable states, a directory whose restored clients share a
    channel, and a sequence of commands after which a client goes on with outdated handles.

  \<^item> \<open>Trace\<close>, \<open>Hook\<close>: \<open>rperf/src/common\<close>: timers, records, start and end of tracing, exit
    handler; symbol lookup, the body of a hook, the hooks that deviate from it. Hooked programs behave
    as without hooks, and the log has one row per call; the situations in which the exit handler aborts
    are shown.

  \<^item> \<open>Hook_Gen\<close>, \<open>Hooks_*\<close>, \<open>Hook_Tables\<close>: the 3116 generated functions of \<open>rperf/src/*/*_hook.cpp\<close>,
    each with every name, type and argument of its text, and that each is an instance of the hook of
    \<open>Hook\<close> for its own symbol.

  \<^item> \<open>C_Enum\<close>, \<open>Abi_*\<close>, \<open>Abi\<close>: the enumerations of \<open>rperf/src/*/*_subset.h\<close>, with the values
    that C gives them, compared with the vendor headers of the code generator: the differences, which are data and
    not behaviour, are lemmas behind the findings.

  \<^item> \<open>Nvml_Samples\<close>: the two C programs of \<open>rperf/sample/nvml\<close>: the order of their calls to the management library on
    every path, the compute modes that they leave, the arrays that they free.

  \<^bold>\<open>Fuel and bounds.\<close> Loops that wait for another party are not run to their end by a function:
  \<open>Ring_Buffer\<close>, \<open>Checkpoint_Flag\<close> and \<open>Checkpoint_Barrier\<close> are step relations, and a channel read on its own
  returns that it waits. The search through a fat binary (\<open>code_next\<close>, \<open>code_find_map\<close>) may run for ever on a
  malformed image and is a partial function; \<open>Fatbin.fatbin_kernel_params\<close> shows that it returns on
  well-formed ones. The loop of a server thread takes the number of iterations; \<open>Worker.replay_terminates\<close>
  gives the number that is enough for any image, one iteration for every four bytes and one more.
  Timestamps of handles and positions in files are natural numbers; all other integers have the
  width of the source or a proof that they stay in range.

  \<^bold>\<open>Not modelled.\<close> Set-up of shared memory, sockets and files, the command line and logging
  (input/output); RDMA and the network emulator, which checkpoints exclude; the parsing of hook
  declarations, which works on the token streams of third-party crates; the declarations
  themselves and the bindings, which are data for the macros, except those that \<open>Launch\<close> and \<open>Memcpy\<close> need;
  the external program CRIU; allocation of host memory, error strings and the replacement of \<open>dlopen\<close>
  in the client, and \<open>cuda_exe_utils.rs\<close>, which only pass their arguments on; the structures and prototypes of the subset headers, which have no behaviour of
  their own, and the vendor headers, which are third-party; Python scripts; samples in device
  code. A library that calls hooked functions of its own accord, and so
  re-enters the profiler inside a call; the registration of the channel's buffers inside a remote call
  (\<open>before_call\<close> of the server, \<open>pin_memory\<close> is part of \<open>Attach\<close>). Weak memory ordering of the ring is not covered.
\<close>

end
